(* ===== verification/Prelude.thy ===== *)
theory Prelude
  imports Main "HOL-Library.Word"
begin

text \<open>
  Shared vocabulary of the development: the machine types of the 64-bit Windows build of
  \<^verbatim>\<open>builtin/goc\<close>, the \<^verbatim>\<open>HRESULT\<close> convention, interface identifiers, and the log of
  calls that cross the boundary of the modelled code together with the two accounts read off
  it (references held, blocks allocated). Everything here belongs to the platform (the C
  language, \<^verbatim>\<open>winerror.h\<close>, \<^verbatim>\<open>guiddef.h\<close>, the COM reference rules), so no
  definition of this theory stands for a line of the repository.
\<close>

unbundle bit_operations_syntax

named_theorems hr_defs "the HRESULT constants and tests"
named_theorems account_simps "how a log changes the accounts"

section \<open>Machine types\<close>

text \<open>\<^verbatim>\<open>LONG\<close>, \<^verbatim>\<open>ULONG\<close>, \<^verbatim>\<open>DWORD\<close> and \<^verbatim>\<open>int\<close> are 32 bits on Windows; pointers,
  handles and the \<^verbatim>\<open>uintptr\<close> of \<^verbatim>\<open>cside.h\<close> are 64.\<close>

type_synonym uintptr = "64 word"
type_synonym ULONG = "32 word"
type_synonym HRESULT = "32 word"
type_synonym byte = "8 word"
type_synonym wchar = "16 word"

abbreviation nullptr :: uintptr where
  "nullptr \<equiv> 0"

section \<open>HRESULT\<close>

definition S_OK :: HRESULT where [hr_defs]: "S_OK = 0"
definition S_FALSE :: HRESULT where [hr_defs]: "S_FALSE = 1"
definition E_NOTIMPL :: HRESULT where [hr_defs]: "E_NOTIMPL = 0x80004001"
definition E_NOINTERFACE :: HRESULT where [hr_defs]: "E_NOINTERFACE = 0x80004002"
definition E_POINTER :: HRESULT where [hr_defs]: "E_POINTER = 0x80004003"
definition E_OUTOFMEMORY :: HRESULT where [hr_defs]: "E_OUTOFMEMORY = 0x8007000E"
definition CLASS_E_NOAGGREGATION :: HRESULT where [hr_defs]: "CLASS_E_NOAGGREGATION = 0x80040110"

definition SUCCEEDED :: "HRESULT \<Rightarrow> bool" where
  "SUCCEEDED hr \<longleftrightarrow> 0 \<le> sint hr"

definition FAILED :: "HRESULT \<Rightarrow> bool" where
  "FAILED hr \<longleftrightarrow> sint hr < 0"

definition HRESULT_FROM_WIN32 :: "ULONG \<Rightarrow> HRESULT" where
  "HRESULT_FROM_WIN32 x =
     (if sint x \<le> 0 then x else (x AND 0xFFFF) OR 0x00070000 OR 0x80000000)"

text \<open>C reads an expression as a truth value by comparing it with zero, and a comparison or a
  conjunction is the \<^verbatim>\<open>int\<close> 0 or 1.\<close>

definition c_bool :: "bool \<Rightarrow> 32 word" where
  "c_bool b = (if b then 1 else 0)"

lemma FAILED_iff_not_SUCCEEDED: "FAILED hr \<longleftrightarrow> \<not> SUCCEEDED hr"
  by (auto simp: FAILED_def SUCCEEDED_def)

lemma SUCCEEDED_consts [simp]: "SUCCEEDED 0" "SUCCEEDED 1"
  by (simp_all add: SUCCEEDED_def)

lemma SUCCEEDED_c_bool [simp]: "SUCCEEDED (c_bool b)"
  by (simp add: c_bool_def)

lemma FAILED_consts [simp]:
  "FAILED E_NOTIMPL" "FAILED E_NOINTERFACE" "FAILED E_POINTER" "FAILED E_OUTOFMEMORY"
  "\<not> FAILED S_OK" "\<not> FAILED S_FALSE"
  by (simp_all add: FAILED_def hr_defs)

lemma S_OK_distinct [simp]:
  "S_OK \<noteq> E_NOINTERFACE" "S_OK \<noteq> E_POINTER" "S_OK \<noteq> E_NOTIMPL" "S_OK \<noteq> S_FALSE"
  "E_NOINTERFACE \<noteq> S_OK" "E_POINTER \<noteq> S_OK" "E_NOTIMPL \<noteq> S_OK" "S_FALSE \<noteq> S_OK"
  "S_FALSE \<noteq> E_NOTIMPL" "S_FALSE \<noteq> E_NOINTERFACE" "E_NOINTERFACE \<noteq> E_POINTER"
  "E_POINTER \<noteq> E_NOINTERFACE"
  by (simp_all add: hr_defs)

lemma FAILED_iff_bit: "FAILED hr \<longleftrightarrow> bit hr 31"
  using bit_last_iff [of hr] by (simp add: FAILED_def)

lemma HRESULT_FROM_WIN32_FAILED: "0 < sint x \<Longrightarrow> FAILED (HRESULT_FROM_WIN32 x)"
  by (simp add: FAILED_iff_bit HRESULT_FROM_WIN32_def bit_or_iff)

lemma positive_code_SUCCEEDED: "0 < sint x \<Longrightarrow> SUCCEEDED x"
  by (simp add: SUCCEEDED_def)

section \<open>Interface identifiers\<close>

text \<open>A \<^verbatim>\<open>GUID\<close> in the order of its C initialiser: \<^verbatim>\<open>Data1\<close>, \<^verbatim>\<open>Data2\<close>,
  \<^verbatim>\<open>Data3\<close> and the eight bytes of \<^verbatim>\<open>Data4\<close>. \<^verbatim>\<open>memcmp\<close> over
  \<^verbatim>\<open>sizeof(GUID)\<close> compares the sixteen bytes the structure occupies.\<close>

datatype guid = GUID "32 word" "16 word" "16 word"
  byte byte byte byte byte byte byte byte

definition bytes16 :: "16 word \<Rightarrow> byte list" where
  "bytes16 w = [ucast w, ucast (drop_bit 8 w)]"

definition bytes32 :: "32 word \<Rightarrow> byte list" where
  "bytes32 w = [ucast w, ucast (drop_bit 8 w), ucast (drop_bit 16 w), ucast (drop_bit 24 w)]"

fun guid_bytes :: "guid \<Rightarrow> byte list" where
  "guid_bytes (GUID d1 d2 d3 a b c d e f g h) =
     bytes32 d1 @ bytes16 d2 @ bytes16 d3 @ [a, b, c, d, e, f, g, h]"

definition memcmp_guid :: "guid \<Rightarrow> guid \<Rightarrow> bool" where
  \<comment> \<open>the value of \<^verbatim>\<open>!memcmp(a, b, sizeof(GUID))\<close>\<close>
  "memcmp_guid x y \<longleftrightarrow> guid_bytes x = guid_bytes y"

lemma byte_eq_bits:
  fixes x y :: "'a::len word"
  assumes eq: "(ucast (drop_bit k x) :: byte) = ucast (drop_bit k y)"
    and n: "k \<le> n" "n < k + 8"
  shows "bit x n \<longleftrightarrow> bit y n"
proof -
  have "bit (ucast (drop_bit k x) :: byte) (n - k) \<longleftrightarrow> bit (ucast (drop_bit k y) :: byte) (n - k)"
    using eq by simp
  with n show ?thesis by (auto simp: bit_simps)
qed

lemma bytes16_inject [simp]: "bytes16 x = bytes16 y \<longleftrightarrow> x = y"
proof
  assume eq: "bytes16 x = bytes16 y"
  show "x = y"
  proof (rule bit_word_eqI)
    fix n assume "n < LENGTH(16)"
    then consider "0 \<le> n \<and> n < 0 + 8" | "8 \<le> n \<and> n < 8 + 8" by fastforce
    then show "bit x n \<longleftrightarrow> bit y n"
      using eq byte_eq_bits [of 0 x y n] byte_eq_bits [of 8 x y n]
      by cases (simp_all add: bytes16_def)
  qed
qed simp

lemma bytes32_inject [simp]: "bytes32 x = bytes32 y \<longleftrightarrow> x = y"
proof
  assume eq: "bytes32 x = bytes32 y"
  show "x = y"
  proof (rule bit_word_eqI)
    fix n assume "n < LENGTH(32)"
    then consider "0 \<le> n \<and> n < 0 + 8" | "8 \<le> n \<and> n < 8 + 8" | "16 \<le> n \<and> n < 16 + 8"
      | "24 \<le> n \<and> n < 24 + 8" by fastforce
    then show "bit x n \<longleftrightarrow> bit y n"
      using eq byte_eq_bits [of 0 x y n] byte_eq_bits [of 8 x y n]
        byte_eq_bits [of 16 x y n] byte_eq_bits [of 24 x y n]
      by cases (simp_all add: bytes32_def)
  qed
qed simp

lemma length_bytes [simp]: "length (bytes16 w) = 2" "length (bytes32 v) = 4"
  by (simp_all add: bytes16_def bytes32_def)

text \<open>Comparing the sixteen bytes is comparing the identifiers.\<close>

lemma memcmp_guid_iff [simp]: "memcmp_guid x y \<longleftrightarrow> x = y"
  by (cases x; cases y) (auto simp: memcmp_guid_def)

text \<open>The identifiers of the Windows SDK headers that the code names.\<close>

definition IID_IUnknown :: guid where
  "IID_IUnknown = GUID 0 0 0 0xC0 0 0 0 0 0 0 0x46"
definition IID_IClassFactory :: guid where
  "IID_IClassFactory = GUID 1 0 0 0xC0 0 0 0 0 0 0 0x46"
definition IID_IDispatch :: guid where
  "IID_IDispatch = GUID 0x00020400 0 0 0xC0 0 0 0 0 0 0 0x46"
definition IID_IOleClientSite :: guid where
  "IID_IOleClientSite = GUID 0x118 0 0 0xC0 0 0 0 0 0 0 0x46"
definition IID_IOleInPlaceSite :: guid where
  "IID_IOleInPlaceSite = GUID 0x119 0 0 0xC0 0 0 0 0 0 0 0x46"
definition IID_IDocHostUIHandler :: guid where
  "IID_IDocHostUIHandler = GUID 0xBD3F23C0 0xD43E 0x11CF 0x89 0x3B 0x00 0xAA 0x00 0xBD 0xCE 0x1A"
definition IID_IInternetProtocol :: guid where
  "IID_IInternetProtocol = GUID 0x79EAC9E4 0xBAF9 0x11CE 0x8C 0x82 0x00 0xAA 0x00 0x4B 0xA9 0x0B"

lemmas sdk_iid_defs = IID_IUnknown_def IID_IClassFactory_def IID_IDispatch_def
  IID_IOleClientSite_def IID_IOleInPlaceSite_def IID_IDocHostUIHandler_def
  IID_IInternetProtocol_def

section \<open>The log of boundary crossings\<close>

text \<open>
  The modelled code owns references to objects it did not write and memory it got from an
  allocator. Each call it makes across that boundary is one event of a log, oldest first:
  \<^item> \<open>Acquire p\<close>: a callee stored an owned reference in an out-parameter, or \<^verbatim>\<open>new\<close>
    returned an object whose count starts at one;
  \<^item> \<open>AddRef p\<close> and \<open>Release p\<close>: the \<^verbatim>\<open>IUnknown\<close> calls;
  \<^item> \<open>Alloc p n\<close> and \<open>Free p\<close>: a block of \<open>n\<close> bytes from an allocator and its return;
  \<^item> \<open>Call f xs\<close>: any other external call with its arguments.
\<close>

datatype event =
    Acquire uintptr
  | AddRef uintptr
  | Release uintptr
  | Alloc uintptr nat
  | Free uintptr
  | Call string "uintptr list"

fun held1 :: "event \<Rightarrow> uintptr \<Rightarrow> int" where
  "held1 (Acquire p) q = (if p = q then 1 else 0)"
| "held1 (AddRef p) q = (if p = q then 1 else 0)"
| "held1 (Release p) q = (if p = q then - 1 else 0)"
| "held1 _ q = 0"

text \<open>The references the code still owns on each object after a log.\<close>

definition held :: "event list \<Rightarrow> uintptr \<Rightarrow> int" where
  "held es p = (\<Sum>e\<leftarrow>es. held1 e p)"

fun allocated1 :: "event \<Rightarrow> uintptr \<Rightarrow> int" where
  "allocated1 (Alloc p n) q = (if p = q then 1 else 0)"
| "allocated1 (Free p) q = (if p = q then - 1 else 0)"
| "allocated1 _ q = 0"

definition allocated :: "event list \<Rightarrow> uintptr \<Rightarrow> int" where
  "allocated es p = (\<Sum>e\<leftarrow>es. allocated1 e p)"

lemma held_simps [simp, account_simps]:
  "held [] p = 0"
  "held (e # es) p = held1 e p + held es p"
  "held (es @ fs) p = held es p + held fs p"
  by (simp_all add: held_def)

lemma allocated_simps [simp, account_simps]:
  "allocated [] p = 0"
  "allocated (e # es) p = allocated1 e p + allocated es p"
  "allocated (es @ fs) p = allocated es p + allocated fs p"
  by (simp_all add: allocated_def)

text \<open>One reference to \<open>p\<close> and none to anything else.\<close>

definition one_on :: "uintptr \<Rightarrow> uintptr \<Rightarrow> int" where
  "one_on p q = (if p = q then 1 else 0)"

text \<open>A log never gives back what the code does not own: before every \<open>Release\<close> the account
  of that object is positive, and before every \<open>Free\<close> the block is allocated.\<close>

fun no_over_release :: "(uintptr \<Rightarrow> int) \<Rightarrow> event list \<Rightarrow> bool" where
  "no_over_release own [] = True"
| "no_over_release own (e # es) =
     ((case e of Release p \<Rightarrow> 0 < own p | _ \<Rightarrow> True)
      \<and> no_over_release (\<lambda>q. own q + held1 e q) es)"

lemma no_over_release_append [simp]:
  "no_over_release own (es @ fs) \<longleftrightarrow>
     no_over_release own es \<and> no_over_release (\<lambda>q. own q + held es q) fs"
  by (induction es arbitrary: own) (simp_all add: add.assoc)

end
