(* ===== verification/WebBrowser.thy ===== *)
theory WebBrowser
  imports Prelude
begin

text \<open>
  \<^verbatim>\<open>builtin/goc/webbrowser.c\<close>: hosting the Internet Explorer control. One allocated block
  per window holds the browser object pointer followed by three host objects (client site,
  in-place site with its frame, UI handler) laid out next to each other; every host function
  finds the rest of the block from its own \<^verbatim>\<open>This\<close> by pointer arithmetic. The theory has
  the structure layouts, a cell heap, the 57 host functions with their four tables, and
  \<^verbatim>\<open>EmbedBrowserObject\<close> and \<^verbatim>\<open>UnEmbedBrowserObject\<close> over an explicit OLE world.
\<close>

section \<open>Structure layout and memory\<close>

text \<open>Every member of these structures is a pointer or a structure of pointers, so a
  structure has no padding and is the concatenation of its members.\<close>

datatype ctype = Ptr | Struct "(string \<times> ctype) list"

fun sizeof :: "ctype \<Rightarrow> nat" where
  "sizeof Ptr = 8"
| "sizeof (Struct fs) = sum_list (map (\<lambda>f. sizeof (snd f)) fs)"

text \<open>The offset and type of a member.\<close>

fun field_in :: "(string \<times> ctype) list \<Rightarrow> string \<Rightarrow> nat \<Rightarrow> (nat \<times> ctype) option" where
  "field_in [] f off = None"
| "field_in ((g, t) # fs) f off = (if f = g then Some (off, t) else field_in fs f (off + sizeof t))"

fun offsetof :: "ctype \<Rightarrow> string list \<Rightarrow> nat" where
  "offsetof t [] = 0"
| "offsetof Ptr (f # fs) = 0"
| "offsetof (Struct ms) (f # fs) =
     (case field_in ms f 0 of None \<Rightarrow> 0 | Some (off, t) \<Rightarrow> off + offsetof t fs)"

text \<open>In C an interface is a structure whose only member is the pointer to its table.\<close>

definition IOleClientSite :: ctype where "IOleClientSite = Struct [(''lpVtbl'', Ptr)]"
definition IOleInPlaceSite :: ctype where "IOleInPlaceSite = Struct [(''lpVtbl'', Ptr)]"
definition IOleInPlaceFrame :: ctype where "IOleInPlaceFrame = Struct [(''lpVtbl'', Ptr)]"
definition IDocHostUIHandler :: ctype where "IDocHostUIHandler = Struct [(''lpVtbl'', Ptr)]"

definition IOleInPlaceFrameEx :: ctype where
  "IOleInPlaceFrameEx = Struct [(''frame'', IOleInPlaceFrame), (''window'', Ptr)]"

definition IOleInPlaceSiteEx :: ctype where
  "IOleInPlaceSiteEx = Struct [(''inplace'', IOleInPlaceSite), (''frame'', IOleInPlaceFrameEx)]"

definition IDocHostUIHandlerEx :: ctype where
  "IDocHostUIHandlerEx = Struct [(''ui'', IDocHostUIHandler)]"

definition IOleClientSiteEx :: ctype where
  "IOleClientSiteEx = Struct
     [(''client'', IOleClientSite), (''inplace'', IOleInPlaceSiteEx), (''ui'', IDocHostUIHandlerEx)]"

lemmas layout_defs = IOleClientSite_def IOleInPlaceSite_def IOleInPlaceFrame_def
  IDocHostUIHandler_def IOleInPlaceFrameEx_def IOleInPlaceSiteEx_def IDocHostUIHandlerEx_def
  IOleClientSiteEx_def

definition member :: "uintptr \<Rightarrow> ctype \<Rightarrow> string list \<Rightarrow> uintptr" where
  "member p t path = p + of_nat (offsetof t path)"

text \<open>A cell is eight bytes, tagged with what was last stored there: reading a cell as
  something else, or where there is none, is a fault.\<close>

datatype vtbl = ClientSiteVtbl | InPlaceSiteVtbl | InPlaceFrameVtbl | DocHostUIVtbl

datatype cell = Uninit | ObjPtr uintptr | VtblPtr vtbl | Hwnd uintptr

type_synonym heap = "uintptr \<Rightarrow> cell option"

definition read_hwnd :: "heap \<Rightarrow> uintptr \<Rightarrow> uintptr option" where
  "read_hwnd h p = (case h p of Some (Hwnd w) \<Rightarrow> Some w | _ \<Rightarrow> None)"

definition read_obj :: "heap \<Rightarrow> uintptr \<Rightarrow> uintptr option" where
  "read_obj h p = (case h p of Some (ObjPtr w) \<Rightarrow> Some w | _ \<Rightarrow> None)"

section \<open>The host functions\<close>

text \<open>What a host function is given besides \<^verbatim>\<open>This\<close>, of which it looks at the requested
  identifier, the rectangle, and the answer of the browser when it is asked for its in-place
  object; and what it does: its result, its writes through out-parameters in order, and the
  calls it makes. \<open>None\<close> is a fault.\<close>

record call_args =
  riid :: guid
  lprcPosRect :: uintptr
  query_inplace :: "uintptr \<Rightarrow> HRESULT \<times> uintptr"

record host_reply =
  ret :: "32 word"
  outs :: "(string \<times> uintptr) list"
  evs :: "event list"

definition reply :: "32 word \<Rightarrow> (string \<times> uintptr) list \<Rightarrow> event list \<Rightarrow> host_reply" where
  "reply r os es = \<lparr>ret = r, outs = os, evs = es\<rparr>"

lemma reply_simps [simp]:
  "ret (reply r os es) = r" "outs (reply r os es) = os" "evs (reply r os es) = es"
  by (simp_all add: reply_def)

lemma reply_inject [simp]:
  "reply r os es = reply r' os' es' \<longleftrightarrow> r = r' \<and> os = os' \<and> es = es'"
  by (simp add: reply_def)

type_synonym host_fn = "heap \<Rightarrow> uintptr \<Rightarrow> call_args \<Rightarrow> host_reply option"

text \<open>\<^verbatim>\<open>_ASSERT(0)\<close> is empty in a build without \<^verbatim>\<open>_DEBUG\<close>.\<close>

definition NOTIMPLEMENTED :: "host_reply option" where
  "NOTIMPLEMENTED = Some (reply E_NOTIMPL [] [])"

definition DOCHOSTUIFLAG_NO3DBORDER :: uintptr where "DOCHOSTUIFLAG_NO3DBORDER = 0x4"
definition DOCHOSTUIFLAG_DPI_AWARE :: uintptr where "DOCHOSTUIFLAG_DPI_AWARE = 0x40000000"
definition DOCHOSTUIDBLCLK_DEFAULT :: uintptr where "DOCHOSTUIDBLCLK_DEFAULT = 0"

subsection \<open>The client site: \<^verbatim>\<open>Site_*\<close>\<close>

definition Site_QueryInterface :: host_fn where
  "Site_QueryInterface h This a =
     (if memcmp_guid (riid a) IID_IUnknown \<or> memcmp_guid (riid a) IID_IOleClientSite
      then Some (reply S_OK [(''*ppvObject'', member This IOleClientSiteEx [''client''])] [])
      else if memcmp_guid (riid a) IID_IOleInPlaceSite
      then Some (reply S_OK [(''*ppvObject'', member This IOleClientSiteEx [''inplace''])] [])
      else if memcmp_guid (riid a) IID_IDocHostUIHandler
      then Some (reply S_OK [(''*ppvObject'', member This IOleClientSiteEx [''ui''])] [])
      else Some (reply E_NOINTERFACE [(''*ppvObject'', 0)] []))"

definition Site_AddRef :: host_fn where
  "Site_AddRef h This a = Some (reply 1 [] [])"

definition Site_Release :: host_fn where
  "Site_Release h This a = Some (reply 1 [] [])"

definition Site_SaveObject :: host_fn where
  "Site_SaveObject h This a = NOTIMPLEMENTED"

definition Site_GetMoniker :: host_fn where
  "Site_GetMoniker h This a = NOTIMPLEMENTED"

definition Site_GetContainer :: host_fn where
  "Site_GetContainer h This a = Some (reply E_NOINTERFACE [(''*ppContainer'', 0)] [])"

definition Site_ShowObject :: host_fn where
  "Site_ShowObject h This a = Some (reply S_OK [] [])"

definition Site_OnShowWindow :: host_fn where
  "Site_OnShowWindow h This a = NOTIMPLEMENTED"

definition Site_RequestNewObjectLayout :: host_fn where
  "Site_RequestNewObjectLayout h This a = NOTIMPLEMENTED"

subsection \<open>The UI handler: \<^verbatim>\<open>UI_*\<close>\<close>

definition UI_QueryInterface :: host_fn where
  "UI_QueryInterface h This a =
     Site_QueryInterface h (This - of_nat (sizeof IOleClientSite) - of_nat (sizeof IOleInPlaceSiteEx)) a"

definition UI_AddRef :: host_fn where
  "UI_AddRef h This a = Some (reply 1 [] [])"

definition UI_Release :: host_fn where
  "UI_Release h This a = Some (reply 1 [] [])"

definition UI_ShowContextMenu :: host_fn where
  "UI_ShowContextMenu h This a = Some (reply S_FALSE [] [])"

definition UI_GetHostInfo :: host_fn where
  "UI_GetHostInfo h This a = Some (reply S_OK
     [(''pInfo->cbSize'', 32),
      (''pInfo->dwFlags'', DOCHOSTUIFLAG_NO3DBORDER OR DOCHOSTUIFLAG_DPI_AWARE),
      (''pInfo->dwDoubleClick'', DOCHOSTUIDBLCLK_DEFAULT)] [])"

definition UI_ShowUI :: host_fn where
  "UI_ShowUI h This a = Some (reply S_OK [] [])"

definition UI_HideUI :: host_fn where
  "UI_HideUI h This a = Some (reply S_OK [] [])"

definition UI_UpdateUI :: host_fn where
  "UI_UpdateUI h This a = Some (reply S_OK [] [])"

definition UI_EnableModeless :: host_fn where
  "UI_EnableModeless h This a = Some (reply S_OK [] [])"

definition UI_OnDocWindowActivate :: host_fn where
  "UI_OnDocWindowActivate h This a = Some (reply S_OK [] [])"

definition UI_OnFrameWindowActivate :: host_fn where
  "UI_OnFrameWindowActivate h This a = Some (reply S_OK [] [])"

definition UI_ResizeBorder :: host_fn where
  "UI_ResizeBorder h This a = Some (reply S_OK [] [])"

definition UI_TranslateAccelerator :: host_fn where
  "UI_TranslateAccelerator h This a = Some (reply S_FALSE [] [])"

definition UI_GetOptionKeyPath :: host_fn where
  "UI_GetOptionKeyPath h This a = Some (reply S_FALSE [] [])"

definition UI_GetDropTarget :: host_fn where
  "UI_GetDropTarget h This a = Some (reply S_FALSE [] [])"

definition UI_GetExternal :: host_fn where
  "UI_GetExternal h This a = Some (reply S_FALSE [(''*ppDispatch'', 0)] [])"

definition UI_TranslateUrl :: host_fn where
  "UI_TranslateUrl h This a = Some (reply S_FALSE [(''*ppchURLOut'', 0)] [])"

definition UI_FilterDataObject :: host_fn where
  "UI_FilterDataObject h This a = Some (reply S_FALSE [(''*ppDORet'', 0)] [])"

subsection \<open>The in-place site: \<^verbatim>\<open>InPlace_*\<close>\<close>

definition InPlace_QueryInterface :: host_fn where
  "InPlace_QueryInterface h This a = Site_QueryInterface h (This - of_nat (sizeof IOleClientSite)) a"

definition InPlace_AddRef :: host_fn where
  "InPlace_AddRef h This a = Some (reply 1 [] [])"

definition InPlace_Release :: host_fn where
  "InPlace_Release h This a = Some (reply 1 [] [])"

definition InPlace_GetWindow :: host_fn where
  "InPlace_GetWindow h This a =
     (case read_hwnd h (member This IOleInPlaceSiteEx [''frame'', ''window'']) of
        None \<Rightarrow> None
      | Some w \<Rightarrow> Some (reply S_OK [(''*lphwnd'', w)] []))"

definition InPlace_ContextSensitiveHelp :: host_fn where
  "InPlace_ContextSensitiveHelp h This a = NOTIMPLEMENTED"

definition InPlace_CanInPlaceActivate :: host_fn where
  "InPlace_CanInPlaceActivate h This a = Some (reply S_OK [] [])"

definition InPlace_OnInPlaceActivate :: host_fn where
  "InPlace_OnInPlaceActivate h This a = Some (reply S_OK [] [])"

definition InPlace_OnUIActivate :: host_fn where
  "InPlace_OnUIActivate h This a = Some (reply S_OK [] [])"

definition InPlace_GetWindowContext :: host_fn where
  "InPlace_GetWindowContext h This a =
     (let frame = member This IOleInPlaceSiteEx [''frame''] in
      case read_hwnd h (member frame IOleInPlaceFrameEx [''window'']) of
        None \<Rightarrow> None
      | Some w \<Rightarrow> Some (reply S_OK
          [(''*lplpFrame'', frame), (''*lplpDoc'', 0), (''lpFrameInfo->fMDIApp'', 0),
           (''lpFrameInfo->hwndFrame'', w), (''lpFrameInfo->haccel'', 0),
           (''lpFrameInfo->cAccelEntries'', 0)] []))"

definition InPlace_Scroll :: host_fn where
  "InPlace_Scroll h This a = NOTIMPLEMENTED"

definition InPlace_OnUIDeactivate :: host_fn where
  "InPlace_OnUIDeactivate h This a = Some (reply S_OK [] [])"

definition InPlace_OnInPlaceDeactivate :: host_fn where
  "InPlace_OnInPlaceDeactivate h This a = Some (reply S_OK [] [])"

definition InPlace_DiscardUndoState :: host_fn where
  "InPlace_DiscardUndoState h This a = NOTIMPLEMENTED"

definition InPlace_DeactivateAndUndo :: host_fn where
  "InPlace_DeactivateAndUndo h This a = NOTIMPLEMENTED"

definition InPlace_OnPosRectChange :: host_fn where
  "InPlace_OnPosRectChange h This a =
     (case read_obj h (This - of_nat (sizeof Ptr) - of_nat (sizeof IOleClientSite)) of
        None \<Rightarrow> None
      | Some browserObject \<Rightarrow>
          (case query_inplace a browserObject of (hr, inplace) \<Rightarrow>
             Some (reply S_OK []
               (Call ''QueryInterface(IID_IOleInPlaceObject)'' [browserObject] #
                (if hr = 0
                 then [Acquire inplace,
                       Call ''SetObjectRects'' [inplace, lprcPosRect a, lprcPosRect a],
                       Release inplace]
                 else [])))))"

subsection \<open>The in-place frame: \<^verbatim>\<open>Frame_*\<close>\<close>

definition Frame_QueryInterface :: host_fn where
  "Frame_QueryInterface h This a = NOTIMPLEMENTED"

definition Frame_AddRef :: host_fn where
  "Frame_AddRef h This a = Some (reply 1 [] [])"

definition Frame_Release :: host_fn where
  "Frame_Release h This a = Some (reply 1 [] [])"

definition Frame_GetWindow :: host_fn where
  "Frame_GetWindow h This a =
     (case read_hwnd h (member This IOleInPlaceFrameEx [''window'']) of
        None \<Rightarrow> None
      | Some w \<Rightarrow> Some (reply S_OK [(''*lphwnd'', w)] []))"

definition Frame_ContextSensitiveHelp :: host_fn where
  "Frame_ContextSensitiveHelp h This a = NOTIMPLEMENTED"

definition Frame_GetBorder :: host_fn where
  "Frame_GetBorder h This a = NOTIMPLEMENTED"

definition Frame_RequestBorderSpace :: host_fn where
  "Frame_RequestBorderSpace h This a = NOTIMPLEMENTED"

definition Frame_SetBorderSpace :: host_fn where
  "Frame_SetBorderSpace h This a = NOTIMPLEMENTED"

definition Frame_SetActiveObject :: host_fn where
  "Frame_SetActiveObject h This a = Some (reply S_OK [] [])"

definition Frame_InsertMenus :: host_fn where
  "Frame_InsertMenus h This a = NOTIMPLEMENTED"

definition Frame_SetMenu :: host_fn where
  "Frame_SetMenu h This a = Some (reply S_OK [] [])"

definition Frame_RemoveMenus :: host_fn where
  "Frame_RemoveMenus h This a = NOTIMPLEMENTED"

definition Frame_SetStatusText :: host_fn where
  "Frame_SetStatusText h This a = Some (reply S_OK [] [])"

definition Frame_EnableModeless :: host_fn where
  "Frame_EnableModeless h This a = Some (reply S_OK [] [])"

definition Frame_TranslateAccelerator :: host_fn where
  "Frame_TranslateAccelerator h This a = NOTIMPLEMENTED"

subsection \<open>The four tables of function pointers\<close>

definition MyIOleInPlaceFrameTable :: "host_fn list" where
  "MyIOleInPlaceFrameTable =
     [Frame_QueryInterface,
      Frame_AddRef,
      Frame_Release,
      Frame_GetWindow,
      Frame_ContextSensitiveHelp,
      Frame_GetBorder,
      Frame_RequestBorderSpace,
      Frame_SetBorderSpace,
      Frame_SetActiveObject,
      Frame_InsertMenus,
      Frame_SetMenu,
      Frame_RemoveMenus,
      Frame_SetStatusText,
      Frame_EnableModeless,
      Frame_TranslateAccelerator]"

definition MyIOleClientSiteTable :: "host_fn list" where
  "MyIOleClientSiteTable =
     [Site_QueryInterface,
      Site_AddRef,
      Site_Release,
      Site_SaveObject,
      Site_GetMoniker,
      Site_GetContainer,
      Site_ShowObject,
      Site_OnShowWindow,
      Site_RequestNewObjectLayout]"

definition MyIDocHostUIHandlerTable :: "host_fn list" where
  "MyIDocHostUIHandlerTable =
     [UI_QueryInterface,
      UI_AddRef,
      UI_Release,
      UI_ShowContextMenu,
      UI_GetHostInfo,
      UI_ShowUI,
      UI_HideUI,
      UI_UpdateUI,
      UI_EnableModeless,
      UI_OnDocWindowActivate,
      UI_OnFrameWindowActivate,
      UI_ResizeBorder,
      UI_TranslateAccelerator,
      UI_GetOptionKeyPath,
      UI_GetDropTarget,
      UI_GetExternal,
      UI_TranslateUrl,
      UI_FilterDataObject]"

definition MyIOleInPlaceSiteTable :: "host_fn list" where
  "MyIOleInPlaceSiteTable =
     [InPlace_QueryInterface,
      InPlace_AddRef,
      InPlace_Release,
      InPlace_GetWindow,
      InPlace_ContextSensitiveHelp,
      InPlace_CanInPlaceActivate,
      InPlace_OnInPlaceActivate,
      InPlace_OnUIActivate,
      InPlace_GetWindowContext,
      InPlace_Scroll,
      InPlace_OnUIDeactivate,
      InPlace_OnInPlaceDeactivate,
      InPlace_DiscardUndoState,
      InPlace_DeactivateAndUndo,
      InPlace_OnPosRectChange]"

fun vtbl_of :: "vtbl \<Rightarrow> host_fn list" where
  "vtbl_of ClientSiteVtbl = MyIOleClientSiteTable"
| "vtbl_of InPlaceSiteVtbl = MyIOleInPlaceSiteTable"
| "vtbl_of InPlaceFrameVtbl = MyIOleInPlaceFrameTable"
| "vtbl_of DocHostUIVtbl = MyIDocHostUIHandlerTable"

text \<open>How the browser calls a host object: it reads the table pointer in the first cell of the
  object and calls through a slot, passing the object as \<^verbatim>\<open>This\<close>.\<close>

definition vcall :: "heap \<Rightarrow> uintptr \<Rightarrow> nat \<Rightarrow> call_args \<Rightarrow> host_reply option" where
  "vcall h obj slot a =
     (case h obj of
        Some (VtblPtr v) \<Rightarrow>
          (if slot < length (vtbl_of v) then (vtbl_of v ! slot) h obj a else None)
      | _ \<Rightarrow> None)"

section \<open>Embedding and detaching\<close>

record RECT =
  left :: "32 word"
  top :: "32 word"
  right :: "32 word"
  bottom :: "32 word"

text \<open>The answers of the operating system and of the browser control.\<close>

record ole_world =
  GlobalAlloc :: "nat \<Rightarrow> uintptr"
  CoGetClassObject :: "HRESULT \<times> uintptr"
  CreateInstance :: "uintptr \<Rightarrow> HRESULT \<times> uintptr"
  SetClientSite :: "uintptr \<Rightarrow> uintptr \<Rightarrow> HRESULT"
  GetClientRect :: "uintptr \<Rightarrow> RECT"
  OleSetContainedObject :: "uintptr \<Rightarrow> HRESULT"
  DoVerb :: "uintptr \<Rightarrow> uintptr \<Rightarrow> uintptr \<Rightarrow> RECT \<Rightarrow> HRESULT"
  QueryWebBrowser2 :: "uintptr \<Rightarrow> HRESULT \<times> uintptr"

record host_state =
  heap :: heap
  log :: "event list"
  pBrowserObject :: uintptr
  pPtr :: uintptr

definition call_out :: "event list \<Rightarrow> host_state \<Rightarrow> host_state" where
  "call_out es s = s\<lparr>log := log s @ es\<rparr>"

definition block_size :: nat where
  "block_size = sizeof IOleClientSiteEx + sizeof Ptr"

definition block_cells :: "uintptr \<Rightarrow> uintptr list" where
  "block_cells p = map (\<lambda>i. p + of_nat (8 * i)) [0..<block_size div 8]"

definition GlobalFree :: "uintptr \<Rightarrow> host_state \<Rightarrow> host_state" where
  "GlobalFree p s =
     call_out [Free p] (s\<lparr>heap := fold (\<lambda>q h. h(q := None)) (block_cells p) (heap s)\<rparr>)"

text \<open>\<^verbatim>\<open>GMEM_FIXED\<close> memory is not cleared.\<close>

definition alloc_block :: "uintptr \<Rightarrow> host_state \<Rightarrow> host_state" where
  "alloc_block p s =
     call_out [Alloc p block_size] (s\<lparr>heap := fold (\<lambda>q h. h(q \<mapsto> Uninit)) (block_cells p) (heap s)\<rparr>)"

definition init_site :: "uintptr \<Rightarrow> uintptr \<Rightarrow> heap \<Rightarrow> heap" where
  "init_site ex hwnd h =
     h(member ex IOleClientSiteEx [''client'', ''lpVtbl''] \<mapsto> VtblPtr ClientSiteVtbl,
       member ex IOleClientSiteEx [''inplace'', ''inplace'', ''lpVtbl''] \<mapsto> VtblPtr InPlaceSiteVtbl,
       member ex IOleClientSiteEx [''inplace'', ''frame'', ''frame'', ''lpVtbl''] \<mapsto> VtblPtr InPlaceFrameVtbl,
       member ex IOleClientSiteEx [''inplace'', ''frame'', ''window''] \<mapsto> Hwnd hwnd,
       member ex IOleClientSiteEx [''ui'', ''ui'', ''lpVtbl''] \<mapsto> VtblPtr DocHostUIVtbl)"

definition OLECLOSE_NOSAVE :: uintptr where "OLECLOSE_NOSAVE = 1"

definition UnEmbedBrowserObject :: "uintptr \<Rightarrow> uintptr \<Rightarrow> host_state \<Rightarrow> host_state" where
  "UnEmbedBrowserObject browserObject ptr s =
     GlobalFree ptr (call_out [Call ''Close'' [browserObject, OLECLOSE_NOSAVE], Release browserObject] s)"

definition EmbedBrowserObject :: "ole_world \<Rightarrow> uintptr \<Rightarrow> host_state \<Rightarrow> int \<times> host_state" where
  "EmbedBrowserObject w hwnd s0 =
    (let s = s0\<lparr>pBrowserObject := 0\<rparr>;
         ptr = GlobalAlloc w block_size
     in if ptr = 0 then (- 1, s)
     else
       let ex = ptr + of_nat (sizeof Ptr);
           s = alloc_block ptr s;
           s = s\<lparr>heap := init_site ex hwnd (heap s)\<rparr>;
           (hr, pClassFactory) = CoGetClassObject w
       in if hr = 0 \<and> pClassFactory \<noteq> 0 then
         let s = call_out [Acquire pClassFactory] s;
             (hr, browserObject) = CreateInstance w pClassFactory
         in if hr = 0 then
           let s = call_out [Acquire browserObject, Release pClassFactory] s;
               s = s\<lparr>heap := (heap s)(ptr \<mapsto> ObjPtr browserObject)\<rparr>;
               s = call_out [Call ''SetClientSite'' [browserObject, ex]] s
           in if SetClientSite w browserObject ex = 0 then
             let s = call_out [Call ''SetHostNames'' [browserObject], Call ''GetClientRect'' [hwnd]] s;
                 rect = GetClientRect w hwnd;
                 (hrq, webBrowser2) = QueryWebBrowser2 w browserObject
             in if OleSetContainedObject w browserObject = 0
                   \<and> DoVerb w browserObject ex hwnd rect = 0 \<and> hrq = 0 then
               let s = call_out [Call ''OleSetContainedObject'' [browserObject, 1],
                             Call ''DoVerb'' [browserObject, ex, hwnd],
                             Acquire webBrowser2,
                             Call ''put_Left'' [webBrowser2, 0],
                             Call ''put_Top'' [webBrowser2, 0],
                             Call ''put_Width'' [webBrowser2, scast (right rect)],
                             Call ''put_Height'' [webBrowser2, scast (bottom rect)],
                             Release webBrowser2] s
               in (0, s\<lparr>pBrowserObject := browserObject, pPtr := ptr\<rparr>)
             else
               let s = call_out (Call ''OleSetContainedObject'' [browserObject, 1] #
                             (if OleSetContainedObject w browserObject = 0
                              then [Call ''DoVerb'' [browserObject, ex, hwnd]] else [])) s
               in (- 4, UnEmbedBrowserObject browserObject ptr s)
           else (- 4, UnEmbedBrowserObject browserObject ptr s)
         else (- 3, GlobalFree ptr (call_out [Release pClassFactory] s))
       else (- 2, GlobalFree ptr s))"


section \<open>Layout facts\<close>

lemma sizeof_simps [simp]:
  "sizeof IOleClientSite = 8" "sizeof IOleInPlaceSiteEx = 24" "sizeof IOleClientSiteEx = 40"
  "block_size = 48"
  by (simp_all add: layout_defs block_size_def)

lemma member_simps [simp]:
  "member p IOleClientSiteEx [''client''] = p"
  "member p IOleClientSiteEx [''client'', ''lpVtbl''] = p"
  "member p IOleClientSiteEx [''inplace''] = p + 8"
  "member p IOleClientSiteEx [''inplace'', ''inplace'', ''lpVtbl''] = p + 8"
  "member p IOleClientSiteEx [''inplace'', ''frame'', ''frame'', ''lpVtbl''] = p + 16"
  "member p IOleClientSiteEx [''inplace'', ''frame'', ''window''] = p + 24"
  "member p IOleClientSiteEx [''ui''] = p + 32"
  "member p IOleClientSiteEx [''ui'', ''ui'', ''lpVtbl''] = p + 32"
  "member p IOleInPlaceSiteEx [''frame''] = p + 8"
  "member p IOleInPlaceSiteEx [''frame'', ''window''] = p + 16"
  "member p IOleInPlaceFrameEx [''window''] = p + 8"
  by (simp_all add: member_def layout_defs)

lemma block_cells_eq: "block_cells p = [p, p + 8, p + 16, p + 24, p + 32, p + 40]"
  by (simp add: block_cells_def upt_rec)

text \<open>The invariant of a block in use: the browser object, then the three host objects with
  their tables and the window, each in its place.\<close>

definition host_block :: "heap \<Rightarrow> uintptr \<Rightarrow> uintptr \<Rightarrow> uintptr \<Rightarrow> bool" where
  "host_block h ptr hwnd bo \<longleftrightarrow>
     h ptr = Some (ObjPtr bo) \<and>
     h (ptr + 8) = Some (VtblPtr ClientSiteVtbl) \<and>
     h (ptr + 16) = Some (VtblPtr InPlaceSiteVtbl) \<and>
     h (ptr + 24) = Some (VtblPtr InPlaceFrameVtbl) \<and>
     h (ptr + 32) = Some (Hwnd hwnd) \<and>
     h (ptr + 40) = Some (VtblPtr DocHostUIVtbl)"

lemma host_blockD:
  assumes "host_block h ptr hwnd bo"
  shows "h ptr = Some (ObjPtr bo)" "h (ptr + 8) = Some (VtblPtr ClientSiteVtbl)"
    "h (ptr + 16) = Some (VtblPtr InPlaceSiteVtbl)" "h (ptr + 24) = Some (VtblPtr InPlaceFrameVtbl)"
    "h (ptr + 32) = Some (Hwnd hwnd)" "h (ptr + 40) = Some (VtblPtr DocHostUIVtbl)"
  using assms by (simp_all add: host_block_def)

lemma table_lengths [simp]:
  "length MyIOleClientSiteTable = 9" "length MyIOleInPlaceSiteTable = 15"
  "length MyIOleInPlaceFrameTable = 15" "length MyIDocHostUIHandlerTable = 18"
  by (simp_all add: MyIOleClientSiteTable_def MyIOleInPlaceSiteTable_def
      MyIOleInPlaceFrameTable_def MyIDocHostUIHandlerTable_def)

lemma heap_of_GlobalFree:
  "heap (GlobalFree p s) q = (if q \<in> set (block_cells p) then None else heap s q)"
  by (auto simp: GlobalFree_def call_out_def block_cells_eq)

lemma heap_emit [simp]: "heap (call_out es s) = heap s"
  and log_emit [simp]: "log (call_out es s) = log s @ es"
  and outs_emit [simp]: "pBrowserObject (call_out es s) = pBrowserObject s" "pPtr (call_out es s) = pPtr s"
  by (simp_all add: call_out_def)

lemma log_GlobalFree [simp]: "log (GlobalFree p s) = log s @ [Free p]"
  and log_alloc_block [simp]: "log (alloc_block p s) = log s @ [Alloc p 48]"
  and log_UnEmbed [simp]: "log (UnEmbedBrowserObject bo p s) =
    log s @ [Call ''Close'' [bo, OLECLOSE_NOSAVE], Release bo, Free p]"
  by (simp_all add: GlobalFree_def alloc_block_def UnEmbedBrowserObject_def)

lemma outs_frame [simp]:
  "pBrowserObject (GlobalFree p s) = pBrowserObject s" "pPtr (GlobalFree p s) = pPtr s"
  "pBrowserObject (alloc_block p s) = pBrowserObject s" "pPtr (alloc_block p s) = pPtr s"
  "pBrowserObject (UnEmbedBrowserObject bo p s) = pBrowserObject s"
  "pPtr (UnEmbedBrowserObject bo p s) = pPtr s"
  by (simp_all add: GlobalFree_def alloc_block_def UnEmbedBrowserObject_def)

lemma heap_of_UnEmbed:
  "heap (UnEmbedBrowserObject bo p s) q = (if q \<in> set (block_cells p) then None else heap s q)"
  by (simp add: UnEmbedBrowserObject_def heap_of_GlobalFree)

lemma heap_of_init:
  "(init_site (ptr + 8) hwnd (heap (alloc_block ptr s)))(ptr \<mapsto> ObjPtr bo) = h \<Longrightarrow>
     host_block h ptr hwnd bo \<and> (\<forall>q. q \<notin> set (block_cells ptr) \<longrightarrow> h q = heap s q)"
  by (auto simp: host_block_def init_site_def alloc_block_def call_out_def block_cells_eq)

lemma heap_init_outside:
  "q \<notin> set (block_cells ptr) \<Longrightarrow> init_site (ptr + 8) hwnd (heap (alloc_block ptr s)) q = heap s q"
  by (auto simp: init_site_def alloc_block_def call_out_def block_cells_eq)

text \<open>What a call appended to the log.\<close>

definition new_events :: "host_state \<Rightarrow> host_state \<Rightarrow> event list" where
  "new_events s s' = drop (length (log s)) (log s')"

lemmas qi_defs = Site_QueryInterface_def InPlace_QueryInterface_def UI_QueryInterface_def

lemma vcall_query_interface:
  assumes "host_block h ptr hwnd bo"
  shows "vcall h (ptr + 8) 0 a = Site_QueryInterface h (ptr + 8) a"
    "vcall h (ptr + 16) 0 a = InPlace_QueryInterface h (ptr + 16) a"
    "vcall h (ptr + 40) 0 a = UI_QueryInterface h (ptr + 40) a"
  using host_blockD [OF assms]
  by (simp_all add: vcall_def MyIOleClientSiteTable_def MyIOleInPlaceSiteTable_def
      MyIDocHostUIHandlerTable_def)

lemma sdk_iids_distinct [simp]:
  "IID_IOleInPlaceSite \<noteq> IID_IUnknown" "IID_IOleInPlaceSite \<noteq> IID_IOleClientSite"
  "IID_IDocHostUIHandler \<noteq> IID_IUnknown" "IID_IDocHostUIHandler \<noteq> IID_IOleClientSite"
  "IID_IDocHostUIHandler \<noteq> IID_IOleInPlaceSite"
  by (simp_all add: sdk_iid_defs)

text \<open>Granting an interface is a function of the identifier alone.\<close>

definition granted :: "guid \<Rightarrow> vtbl option" where
  "granted i =
     (if i = IID_IUnknown \<or> i = IID_IOleClientSite then Some ClientSiteVtbl
      else if i = IID_IOleInPlaceSite then Some InPlaceSiteVtbl
      else if i = IID_IDocHostUIHandler then Some DocHostUIVtbl
      else None)"

lemma site_query_granted:
  assumes "host_block h ptr hwnd bo"
  shows "case granted (riid a) of
      None \<Rightarrow> Site_QueryInterface h (ptr + 8) a = Some (reply E_NOINTERFACE [(''*ppvObject'', 0)] [])
    | Some v \<Rightarrow> \<exists>p. Site_QueryInterface h (ptr + 8) a = Some (reply S_OK [(''*ppvObject'', p)] [])
        \<and> h p = Some (VtblPtr v)"
  using host_blockD [OF assms] by (simp add: granted_def Site_QueryInterface_def add.assoc)

lemmas embed_defs = EmbedBrowserObject_def Let_def

text \<open>No outcome of an embedding changes memory outside the block it allocates.\<close>

lemma embed_frame:
  assumes "EmbedBrowserObject w hwnd s = (r, s')" and "q \<notin> set (block_cells (GlobalAlloc w 48))"
  shows "heap s' q = heap s q"
  using assms heap_init_outside [OF assms(2)]
  by (auto simp: embed_defs heap_of_UnEmbed heap_of_GlobalFree alloc_block_def block_cells_eq
      split: prod.splits if_splits)

text \<open>A block at \<open>0x1000\<close> for window 5 and browser object 7, and a world in which every call
  succeeds, for the witnesses.\<close>

definition sample_heap :: heap where
  "sample_heap = (init_site 0x1008 5 Map.empty)(0x1000 \<mapsto> ObjPtr 7)"

definition sample_args :: "guid \<Rightarrow> call_args" where
  "sample_args i = \<lparr>riid = i, lprcPosRect = 0x2000, query_inplace = (\<lambda>_. (0, 9))\<rparr>"

definition sample_ole :: ole_world where
  "sample_ole = \<lparr>GlobalAlloc = (\<lambda>_. 0x1000), CoGetClassObject = (0, 3),
     CreateInstance = (\<lambda>_. (0, 7)), SetClientSite = (\<lambda>_ _. 0),
     GetClientRect = (\<lambda>_. \<lparr>left = 0, top = 0, right = 640, bottom = 480\<rparr>),
     OleSetContainedObject = (\<lambda>_. 0), DoVerb = (\<lambda>_ _ _ _. 0), QueryWebBrowser2 = (\<lambda>_. (0, 8))\<rparr>"

definition sample_state :: host_state where
  "sample_state = \<lparr>heap = Map.empty, log = [], pBrowserObject = 0, pPtr = 0\<rparr>"

lemmas sample_defs = sample_args_def sample_ole_def sample_state_def

lemma sample_block: "host_block sample_heap 0x1000 5 7"
  by (simp add: host_block_def sample_heap_def init_site_def)

section \<open>Properties\<close>

text \<open>C27: whichever host object of a block the browser asks, and for every identifier,
  \<^verbatim>\<open>QueryInterface\<close> gives the same answer (COM identity): the client site, the in-place site
  and the UI handler recover the same \<^verbatim>\<open>_IOleClientSiteEx\<close> by their pointer arithmetic, and a
  granted pointer leads to a cell with the table of exactly the interface asked for, so the next
  call through it reaches the right functions.\<close>

theorem host_query_interface:
  assumes "host_block h ptr hwnd bo"
  shows "vcall h (ptr + 16) 0 a = vcall h (ptr + 8) 0 a \<and>
    vcall h (ptr + 40) 0 a = vcall h (ptr + 8) 0 a \<and>
    (case granted (riid a) of
       None \<Rightarrow> vcall h (ptr + 8) 0 a = Some (reply E_NOINTERFACE [(''*ppvObject'', nullptr)] [])
     | Some v \<Rightarrow> \<exists>p. vcall h (ptr + 8) 0 a = Some (reply S_OK [(''*ppvObject'', p)] [])
         \<and> h p = Some (VtblPtr v))"
proof -
  have "InPlace_QueryInterface h (ptr + 16) a = Site_QueryInterface h (ptr + 8) a"
    "UI_QueryInterface h (ptr + 40) a = Site_QueryInterface h (ptr + 8) a"
    by (simp_all add: InPlace_QueryInterface_def UI_QueryInterface_def add.commute)
  with site_query_granted [OF assms, of a] show ?thesis
    unfolding vcall_query_interface [OF assms] by simp
qed

theorem host_query_interface_witness:
  "host_block sample_heap 0x1000 5 7 \<and>
   vcall sample_heap 0x1028 0 (sample_args IID_IDocHostUIHandler) =
     vcall sample_heap 0x1008 0 (sample_args IID_IDocHostUIHandler)"
  using sample_block host_query_interface [OF sample_block, of "sample_args IID_IDocHostUIHandler"]
  by simp

text \<open>The window handle stored when the browser was embedded is the one the browser gets,
  from the in-place site (slot 3), in the frame information of \<^verbatim>\<open>GetWindowContext\<close> (slot 8)
  and from the frame object that call hands out (its slot 3).\<close>

theorem host_window:
  assumes "host_block h ptr hwnd bo"
  shows "vcall h (ptr + 16) 3 a = Some (reply S_OK [(''*lphwnd'', hwnd)] []) \<and>
    (\<exists>frame r. vcall h (ptr + 16) 8 a = Some r \<and> map_of (outs r) ''*lplpFrame'' = Some frame \<and>
       map_of (outs r) ''lpFrameInfo->hwndFrame'' = Some hwnd \<and>
       vcall h frame 3 b = Some (reply S_OK [(''*lphwnd'', hwnd)] []))"
  using host_blockD [OF assms]
  by (simp add: vcall_def MyIOleInPlaceSiteTable_def MyIOleInPlaceFrameTable_def
      InPlace_GetWindow_def InPlace_GetWindowContext_def Frame_GetWindow_def read_hwnd_def add.assoc)

theorem host_window_witness:
  "host_block sample_heap 0x1000 5 7 \<and>
   vcall sample_heap 0x1010 3 (sample_args IID_IUnknown) = Some (reply S_OK [(''*lphwnd'', 5)] [])"
  using sample_block host_window [OF sample_block, of "sample_args IID_IUnknown" "sample_args IID_IUnknown"]
  by simp

text \<open>A position change of the browser is forwarded to the in-place object of the browser
  of the same window, whose pointer is found in front of the client site, and the reference the
  query gave is returned on every path.\<close>

theorem on_pos_rect_change:
  assumes "host_block h ptr hwnd bo"
  shows "\<exists>es. vcall h (ptr + 16) 14 a = Some (reply S_OK [] es) \<and>
    (\<forall>p. held es p = 0) \<and>
    (fst (query_inplace a bo) = 0 \<longrightarrow>
       Call ''SetObjectRects'' [snd (query_inplace a bo), lprcPosRect a, lprcPosRect a] \<in> set es)"
  using host_blockD [OF assms]
  by (simp add: vcall_def MyIOleInPlaceSiteTable_def InPlace_OnPosRectChange_def read_obj_def
      split: prod.splits)

theorem on_pos_rect_change_witness:
  "fst (query_inplace (sample_args IID_IUnknown) 7) = 0 \<and>
   (\<exists>es. vcall sample_heap 0x1010 14 (sample_args IID_IUnknown) = Some (reply S_OK [] es)
      \<and> Call ''SetObjectRects'' [9, 0x2000, 0x2000] \<in> set es)"
  using on_pos_rect_change [OF sample_block, of "sample_args IID_IUnknown"]
  by (auto simp: sample_args_def)

text \<open>C25: embedding never leaks and never returns what it does not own, whatever the operating
  system and the control answer: on success the caller is left with one reference to the browser
  object and one block, both reported through the out-parameters; on every failure all
  references and the block are given back and no browser object is reported.\<close>

theorem embed_accounts:
  assumes "EmbedBrowserObject w hwnd s = (r, s')"
  shows "no_over_release (\<lambda>_. 0) (new_events s s') \<and>
    (if r = 0
     then held (new_events s s') = one_on (pBrowserObject s')
        \<and> allocated (new_events s s') = one_on (pPtr s')
     else held (new_events s s') = (\<lambda>_. 0) \<and> allocated (new_events s s') = (\<lambda>_. 0)
        \<and> pBrowserObject s' = nullptr \<and> pPtr s' = pPtr s)"
  using assms
  by (auto simp: embed_defs new_events_def one_on_def fun_eq_iff split: prod.splits if_splits)

theorem embed_accounts_witness:
  "fst (EmbedBrowserObject sample_ole 5 sample_state) = 0 \<and>
   held (new_events sample_state (snd (EmbedBrowserObject sample_ole 5 sample_state))) = one_on 7"
proof -
  obtain r s' where e: "EmbedBrowserObject sample_ole 5 sample_state = (r, s')" by fastforce
  then have "r = 0 \<and> pBrowserObject s' = 7"
    by (auto simp: embed_defs sample_defs)
  with embed_accounts [OF e] e show ?thesis by simp
qed

text \<open>A successful embedding leaves a well-formed block for its window and its browser
  object, and no outcome of an embedding touches the block of another window.\<close>

theorem embed_blocks:
  assumes "EmbedBrowserObject w hwnd s = (r, s')"
  shows "(r = 0 \<longrightarrow> host_block (heap s') (pPtr s') hwnd (pBrowserObject s')) \<and>
    (host_block (heap s) p hwnd1 bo1 \<and> set (block_cells p) \<inter> set (block_cells (GlobalAlloc w 48)) = {}
       \<longrightarrow> host_block (heap s') p hwnd1 bo1)"
proof -
  have "host_block (heap s') (pPtr s') hwnd (pBrowserObject s')" if "r = 0"
    using assms that
    by (auto simp: embed_defs host_block_def init_site_def alloc_block_def call_out_def
        split: prod.splits if_splits)
  moreover have "host_block (heap s') p hwnd1 bo1"
    if "host_block (heap s) p hwnd1 bo1"
      and "set (block_cells p) \<inter> set (block_cells (GlobalAlloc w 48)) = {}"
    using that embed_frame [OF assms] unfolding host_block_def by (auto simp: block_cells_eq [of p])
  ultimately show ?thesis by blast
qed

theorem embed_blocks_witness:
  "host_block (heap (snd (EmbedBrowserObject sample_ole 5 sample_state))) 0x1000 5 7"
proof -
  obtain r s' where e: "EmbedBrowserObject sample_ole 5 sample_state = (r, s')" by fastforce
  then have "r = 0 \<and> pBrowserObject s' = 7 \<and> pPtr s' = 0x1000"
    by (auto simp: embed_defs sample_defs)
  with embed_blocks [OF e] e show ?thesis by simp
qed

text \<open>C26: detaching undoes embedding: after a success, \<^verbatim>\<open>UnEmbedBrowserObject\<close> on the two
  reported pointers closes the browser without saving, then returns the last reference and then the
  block, and nothing else; over both calls every reference and every block is returned, none before it
  was obtained, and the memory is what it was before, given that the block came from free memory.\<close>

theorem embed_unembed:
  assumes "EmbedBrowserObject w hwnd s = (0, s')"
    and "\<forall>q \<in> set (block_cells (GlobalAlloc w 48)). heap s q = None"
    and "s'' = UnEmbedBrowserObject (pBrowserObject s') (pPtr s') s'"
  shows "new_events s' s'' = [Call ''Close'' [pBrowserObject s', OLECLOSE_NOSAVE],
        Release (pBrowserObject s'), Free (pPtr s')] \<and>
    heap s'' = heap s \<and> held (new_events s s'') = (\<lambda>_. 0) \<and>
    allocated (new_events s s'') = (\<lambda>_. 0) \<and> no_over_release (\<lambda>_. 0) (new_events s s'')"
proof -
  from assms(1) have ptr: "pPtr s' = GlobalAlloc w 48"
    by (auto simp: embed_defs split: prod.splits if_splits)
  have "heap s'' q = heap s q" for q
    using assms(2,3) ptr embed_frame [OF assms(1), of q] by (simp add: heap_of_UnEmbed)
  moreover have "held (new_events s s'') = (\<lambda>_. 0) \<and> allocated (new_events s s'') = (\<lambda>_. 0)
      \<and> no_over_release (\<lambda>_. 0) (new_events s s'')"
    using assms(1,3)
    by (auto simp: embed_defs new_events_def fun_eq_iff split: prod.splits if_splits)
  moreover have "new_events s' s'' = [Call ''Close'' [pBrowserObject s', OLECLOSE_NOSAVE],
      Release (pBrowserObject s'), Free (pPtr s')]"
    using assms(3) by (simp add: new_events_def)
  ultimately show ?thesis by (auto simp: fun_eq_iff)
qed

theorem embed_unembed_witness:
  "\<exists>s'. EmbedBrowserObject sample_ole 5 sample_state = (0, s') \<and>
     heap (UnEmbedBrowserObject (pBrowserObject s') (pPtr s') s') = Map.empty \<and>
     Call ''Close'' [7, 1] \<in> set (log (UnEmbedBrowserObject (pBrowserObject s') (pPtr s') s'))"
proof -
  obtain r s' where e: "EmbedBrowserObject sample_ole 5 sample_state = (r, s')" by fastforce
  then have r: "r = 0" "pBrowserObject s' = 7" by (auto simp: embed_defs sample_defs)
  with e have e0: "EmbedBrowserObject sample_ole 5 sample_state = (0, s')" by simp
  have "\<forall>q \<in> set (block_cells (GlobalAlloc sample_ole 48)). heap sample_state q = None"
    by (simp add: sample_state_def)
  from embed_unembed [OF e0 this refl] e0 r(2) show ?thesis
    by (simp add: sample_state_def OLECLOSE_NOSAVE_def)
qed

end
