(* ===== verification/HostTypes.thy ===== *)
theory HostTypes
  imports WebBrowser
begin

text \<open>
  Type safety of the host objects of \<^verbatim>\<open>webbrowser.c\<close>. The browser control only holds pointers that
  the host handed out, first the client site and then what the host functions store in their
  out-parameters. Whatever it calls through them, in any order, finds the right table, stays inside the
  block and reads each cell as what was stored there.
\<close>

section \<open>The objects of a block\<close>

fun object_at :: "uintptr \<Rightarrow> vtbl \<Rightarrow> uintptr" where
  "object_at ptr ClientSiteVtbl = ptr + 8"
| "object_at ptr InPlaceSiteVtbl = ptr + 16"
| "object_at ptr InPlaceFrameVtbl = ptr + 24"
| "object_at ptr DocHostUIVtbl = ptr + 40"

text \<open>The out-parameters through which a host function hands out an interface.\<close>

definition interface_outs :: "string list" where
  "interface_outs = [''*ppvObject'', ''*lplpFrame'', ''*lplpDoc'', ''*ppContainer'', ''*ppDispatch'', ''*ppDORet'']"

text \<open>The pointers the browser may hold.\<close>

inductive host_known :: "heap \<Rightarrow> uintptr \<Rightarrow> uintptr \<Rightarrow> bool" for h ptr where
  site: "host_known h ptr (ptr + of_nat (sizeof Ptr))"
| handed_out: "host_known h ptr obj \<Longrightarrow> vcall h obj slot a = Some r \<Longrightarrow> (k, p) \<in> set (outs r) \<Longrightarrow>
     k \<in> set interface_outs \<Longrightarrow> p \<noteq> nullptr \<Longrightarrow> host_known h ptr p"

inductive_cases host_knownE: "host_known h ptr p"

lemma UNIV_vtbl: "(UNIV :: vtbl set) = {ClientSiteVtbl, InPlaceSiteVtbl, InPlaceFrameVtbl, DocHostUIVtbl}"
  by (auto intro: vtbl.exhaust)

lemma range_object_at: "range (object_at ptr) = {ptr + 8, ptr + 16, ptr + 24, ptr + 40}"
  by (simp add: UNIV_vtbl)

text \<open>What a reply must satisfy: interface pointers are null or objects of the block, and the references taken
  during the call are given back.\<close>

definition typed_reply :: "uintptr \<Rightarrow> host_reply \<Rightarrow> bool" where
  "typed_reply ptr r \<longleftrightarrow>
     list_all (\<lambda>(k, p). k \<in> set interface_outs \<longrightarrow> p = nullptr \<or> p \<in> range (object_at ptr)) (outs r) \<and>
     (\<forall>q. held (evs r) q = 0)"

lemma typed_reply_Nil [simp]: "typed_reply ptr (reply c [] [])"
  by (simp add: typed_reply_def)

lemma typed_reply_one:
  "typed_reply ptr (reply c [(k, p)] []) \<longleftrightarrow>
     (k \<in> set interface_outs \<longrightarrow> p = nullptr \<or> p \<in> range (object_at ptr))"
  by (simp add: typed_reply_def)

lemma object_table: "host_block h ptr hwnd bo \<Longrightarrow> h (object_at ptr v) = Some (VtblPtr v)"
  by (cases v) (simp_all add: host_block_def)

lemmas host_fn_defs =
  Site_QueryInterface_def Site_AddRef_def Site_Release_def Site_SaveObject_def Site_GetMoniker_def
  Site_GetContainer_def Site_ShowObject_def Site_OnShowWindow_def Site_RequestNewObjectLayout_def
  UI_QueryInterface_def UI_AddRef_def UI_Release_def UI_ShowContextMenu_def UI_GetHostInfo_def
  UI_ShowUI_def UI_HideUI_def UI_UpdateUI_def UI_EnableModeless_def UI_OnDocWindowActivate_def
  UI_OnFrameWindowActivate_def UI_ResizeBorder_def UI_TranslateAccelerator_def UI_GetOptionKeyPath_def
  UI_GetDropTarget_def UI_GetExternal_def UI_TranslateUrl_def UI_FilterDataObject_def
  InPlace_QueryInterface_def InPlace_AddRef_def InPlace_Release_def InPlace_GetWindow_def
  InPlace_ContextSensitiveHelp_def InPlace_CanInPlaceActivate_def InPlace_OnInPlaceActivate_def
  InPlace_OnUIActivate_def InPlace_GetWindowContext_def InPlace_Scroll_def InPlace_OnUIDeactivate_def
  InPlace_OnInPlaceDeactivate_def InPlace_DiscardUndoState_def InPlace_DeactivateAndUndo_def
  InPlace_OnPosRectChange_def Frame_QueryInterface_def Frame_AddRef_def Frame_Release_def
  Frame_GetWindow_def Frame_ContextSensitiveHelp_def Frame_GetBorder_def Frame_RequestBorderSpace_def
  Frame_SetBorderSpace_def Frame_SetActiveObject_def Frame_InsertMenus_def Frame_SetMenu_def
  Frame_RemoveMenus_def Frame_SetStatusText_def Frame_EnableModeless_def
  Frame_TranslateAccelerator_def
  NOTIMPLEMENTED_def

section \<open>Every slot of every table\<close>

text \<open>A host function called on its own object has a result of the right type.\<close>

definition slot_typed :: "heap \<Rightarrow> uintptr \<Rightarrow> vtbl \<Rightarrow> host_fn \<Rightarrow> bool" where
  "slot_typed h ptr v f \<longleftrightarrow> (\<forall>a. \<exists>r. f h (object_at ptr v) a = Some r \<and> typed_reply ptr r)"

lemma site_query_typed: "\<exists>r. Site_QueryInterface h (ptr + 8) a = Some r \<and> typed_reply ptr r"
  by (simp add: Site_QueryInterface_def typed_reply_one range_object_at add.assoc)

lemma query_typed:
  "slot_typed h ptr ClientSiteVtbl Site_QueryInterface"
  "slot_typed h ptr InPlaceSiteVtbl InPlace_QueryInterface"
  "slot_typed h ptr DocHostUIVtbl UI_QueryInterface"
  using site_query_typed [of h ptr]
  by (simp_all add: slot_typed_def InPlace_QueryInterface_def UI_QueryInterface_def add.commute)

lemma window_typed:
  assumes "host_block h ptr hwnd bo"
  shows "slot_typed h ptr InPlaceSiteVtbl InPlace_GetWindow"
    "slot_typed h ptr InPlaceSiteVtbl InPlace_GetWindowContext"
    "slot_typed h ptr InPlaceSiteVtbl InPlace_OnPosRectChange"
    "slot_typed h ptr InPlaceFrameVtbl Frame_GetWindow"
  using host_blockD [OF assms]
  by (auto simp: slot_typed_def typed_reply_def range_object_at interface_outs_def InPlace_GetWindow_def
      InPlace_GetWindowContext_def InPlace_OnPosRectChange_def Frame_GetWindow_def read_hwnd_def read_obj_def
      add.assoc add.commute split: prod.splits)

text \<open>The functions that answer with a constant.\<close>

lemma constant_typed:
  assumes "\<And>a. f h (object_at ptr v) a = Some (reply c [] [])"
  shows "slot_typed h ptr v f"
  using assms by (simp add: slot_typed_def)

lemma null_out_typed:
  assumes "\<And>a. f h (object_at ptr v) a = Some (reply c [(k, nullptr)] [])"
  shows "slot_typed h ptr v f"
  using assms by (simp add: slot_typed_def typed_reply_one)

lemma host_info_typed: "slot_typed h ptr v UI_GetHostInfo"
  by (simp add: slot_typed_def UI_GetHostInfo_def typed_reply_def interface_outs_def)

lemmas table_defs = MyIOleClientSiteTable_def MyIOleInPlaceSiteTable_def MyIOleInPlaceFrameTable_def
  MyIDocHostUIHandlerTable_def

lemma tables_typed:
  assumes "host_block h ptr hwnd bo"
  shows "list_all (slot_typed h ptr v) (vtbl_of v)"
proof -
  note solved = query_typed window_typed [OF assms] host_info_typed
  show ?thesis
    by (cases v; hypsubst; simp only: vtbl_of.simps table_defs list.pred_inject simp_thms solved; intro conjI;
        ((rule constant_typed, unfold host_fn_defs, rule refl) | (rule null_out_typed, unfold host_fn_defs, rule refl)))
qed

section \<open>Properties\<close>

text \<open>C14: the browser control can never go wrong with what the host gave it. In a well-formed block every pointer
  the control can get hold of, starting from the client site and taking what the host functions hand out, is the
  address of one of the four host objects, and every function of that object's table, called through it with any
  arguments, has a result: no read outside the block or of a cell as something it is not. It hands out
  only null or host objects again, and gives back the references it takes.\<close>

theorem host_objects_typed:
  assumes "host_block h ptr hwnd bo" and "host_known h ptr obj"
  shows "\<exists>v. obj = object_at ptr v \<and> h obj = Some (VtblPtr v) \<and>
    (\<forall>slot < length (vtbl_of v). \<exists>r. vcall h obj slot a = Some r \<and> typed_reply ptr r)"
proof -
  have slots: "\<exists>r. vcall h (object_at ptr v) slot a = Some r \<and> typed_reply ptr r"
    if "slot < length (vtbl_of v)" for v slot a
    using tables_typed [OF assms(1), of v] that
    by (simp add: list_all_length slot_typed_def vcall_def object_table [OF assms(1)])
  have "\<exists>v. obj = object_at ptr v" using assms(2)
  proof induction
    case site
    show ?case by (rule exI [of _ ClientSiteVtbl]) simp
  next
    case (handed_out obj slot a r k p)
    then obtain v where v: "obj = object_at ptr v" by blast
    then have "slot < length (vtbl_of v)"
      using handed_out.hyps(2) by (auto simp: vcall_def object_table [OF assms(1)] split: if_splits)
    from slots [OF this, of a] v handed_out.hyps(2) have "typed_reply ptr r" by auto
    with handed_out.hyps(3-5) show ?case by (auto simp: typed_reply_def list_all_iff)
  qed
  then obtain v where "obj = object_at ptr v" by blast
  with slots [of _ v a] object_table [OF assms(1), of v] show ?thesis by auto
qed

theorem host_objects_typed_witness:
  "host_known sample_heap 0x1000 0x1018 \<and>
   (\<exists>r. vcall sample_heap 0x1018 3 (sample_args IID_IUnknown) = Some r \<and> typed_reply 0x1000 r)"
proof -
  have site: "host_known sample_heap 0x1000 0x1008" using host_known.site [of sample_heap "0x1000"] by simp
  have q: "vcall sample_heap 0x1008 0 (sample_args IID_IOleInPlaceSite) =
      Some (reply S_OK [(''*ppvObject'', 0x1010)] [])"
    using vcall_query_interface(1) [OF sample_block, of "sample_args IID_IOleInPlaceSite"]
    by (simp add: Site_QueryInterface_def sample_args_def)
  have "host_known sample_heap 0x1000 0x1010"
    by (rule host_known.handed_out [OF site q, of "''*ppvObject''"]) (simp_all add: interface_outs_def)
  moreover obtain r where "vcall sample_heap 0x1010 8 (sample_args IID_IUnknown) = Some r" "map_of (outs r) ''*lplpFrame'' = Some 0x1018"
    using host_window [OF sample_block, of "sample_args IID_IUnknown" "sample_args IID_IUnknown"] host_blockD [OF sample_block]
    by (auto simp: vcall_def MyIOleInPlaceSiteTable_def InPlace_GetWindowContext_def read_hwnd_def)
  ultimately have k: "host_known sample_heap 0x1000 0x1018"
    using host_known.handed_out [of sample_heap "0x1000" "0x1010" 8 _ r "''*lplpFrame''" "0x1018"] map_of_SomeD
    by (fastforce simp: interface_outs_def)
  from host_objects_typed [OF sample_block k, of "sample_args IID_IUnknown"] obtain v
    where v: "0x1018 = object_at 0x1000 v" "\<forall>slot < length (vtbl_of v). \<exists>r. vcall sample_heap 0x1018 slot
      (sample_args IID_IUnknown) = Some r \<and> typed_reply 0x1000 r" by auto
  have "3 < length (vtbl_of v)" by (cases v) (simp_all add: table_defs)
  with k v(2) show ?thesis by blast
qed

end
