(* ===== verification/ComGlue.thy ===== *)
theory ComGlue
  imports Prelude
begin

text \<open>
  \<^verbatim>\<open>builtin/goc/com.cpp\<close> and \<^verbatim>\<open>builtin/goc/traccel.cpp\<close>: the C++ half of the COM object
  built-in (\<^verbatim>\<open>builtin/comobject_wingui.go\<close>) and the forwarding of key strokes to an
  embedded browser. Each function takes the answers of the objects and of the operating system
  as arguments and returns its result together with the calls it made.
\<close>

section \<open>Releasing, querying, creating\<close>

definition release :: "(uintptr \<Rightarrow> ULONG) \<Rightarrow> uintptr \<Rightarrow> ULONG \<times> event list" where
  "release rel iunk = (if iunk \<noteq> 0 then (rel iunk, [Release iunk]) else (0, []))"

text \<open>\<open>query p i\<close> is what \<^verbatim>\<open>p->QueryInterface(i, &out)\<close> returns and stores. An owned reference
  comes with every success that stores a pointer.\<close>

definition acquired :: "HRESULT \<Rightarrow> uintptr \<Rightarrow> event list" where
  "acquired hr p = (if SUCCEEDED hr \<and> p \<noteq> 0 then [Acquire p] else [])"

definition queryIDispatch ::
  "(uintptr \<Rightarrow> guid \<Rightarrow> HRESULT \<times> uintptr) \<Rightarrow> uintptr \<Rightarrow> uintptr \<times> event list" where
  "queryIDispatch query iunk =
     (if iunk = 0 then (0, [])
      else case query iunk IID_IDispatch of (hr, idisp) \<Rightarrow>
        if FAILED hr then (0, []) else (idisp, acquired hr idisp))"

definition createInstance ::
  "(string \<Rightarrow> HRESULT \<times> guid) \<Rightarrow> (guid \<Rightarrow> guid \<Rightarrow> HRESULT \<times> uintptr) \<Rightarrow> string
     \<Rightarrow> uintptr \<times> event list" where
  "createInstance CLSIDFromProgID CoCreateInstance progid =
     (case CLSIDFromProgID progid of (hr, clsid) \<Rightarrow>
        if FAILED hr then (0, [])
        else case CoCreateInstance clsid IID_IDispatch of (hr, idisp) \<Rightarrow>
          (if SUCCEEDED hr \<and> idisp \<noteq> 0 then idisp else 0, acquired hr idisp))"

section \<open>Invoking a method\<close>

text \<open>An argument is its type tag and its value; for \<^verbatim>\<open>VT_BSTR\<close> the value is a pointer, on
  entry to a C string and, once converted, to a \<^verbatim>\<open>BSTR\<close>.\<close>

record VARIANT =
  vt :: "16 word"
  val :: uintptr

definition VT_BSTR :: "16 word" where
  "VT_BSTR = 8"

text \<open>\<open>mbwc s\<close> is what \<^verbatim>\<open>MultiByteToWideChar\<close> needs for the C string at \<open>s\<close>, its
  terminator included, and \<open>alloc i n\<close> the string \<^verbatim>\<open>SysAllocStringLen(NULL, n)\<close> gives for
  argument \<open>i\<close>, null when there is none.\<close>

definition convert_arg ::
  "(uintptr \<Rightarrow> int) \<Rightarrow> (nat \<Rightarrow> int \<Rightarrow> uintptr) \<Rightarrow> nat \<Rightarrow> VARIANT \<Rightarrow> VARIANT" where
  "convert_arg mbwc alloc i v =
     (if vt v = VT_BSTR then v\<lparr>val := alloc i (mbwc (val v) - 1)\<rparr> else v)"

text \<open>The conversion loop and the freeing loop.\<close>

fun convert_args ::
  "(uintptr \<Rightarrow> int) \<Rightarrow> (nat \<Rightarrow> int \<Rightarrow> uintptr) \<Rightarrow> nat \<Rightarrow> VARIANT list \<Rightarrow> VARIANT list \<times> event list" where
  "convert_args mbwc alloc i [] = ([], [])"
| "convert_args mbwc alloc i (v # vs) =
     (case convert_args mbwc alloc (Suc i) vs of (vs', es) \<Rightarrow>
        let n = mbwc (val v) - 1; bs = alloc i n in
        (convert_arg mbwc alloc i v # vs',
         (if vt v = VT_BSTR \<and> bs \<noteq> 0 then [Alloc bs (nat (2 * n + 2))] else []) @ es))"

fun free_args :: "VARIANT list \<Rightarrow> event list" where
  "free_args [] = []"
| "free_args (v # vs) =
     (if vt v = VT_BSTR \<and> val v \<noteq> 0 then [Free (val v)] else []) @ free_args vs"

record disp_world =
  GetIDsOfNames :: "uintptr \<Rightarrow> string \<Rightarrow> HRESULT \<times> 32 word"
  MultiByteToWideChar :: "uintptr \<Rightarrow> int"
  SysAllocStringLen :: "nat \<Rightarrow> int \<Rightarrow> uintptr"
  Invoke :: "uintptr \<Rightarrow> 32 word \<Rightarrow> 16 word \<Rightarrow> VARIANT list \<Rightarrow> HRESULT"

definition invoke2 ::
  "disp_world \<Rightarrow> uintptr \<Rightarrow> string \<Rightarrow> 16 word \<Rightarrow> VARIANT list
     \<Rightarrow> HRESULT \<times> VARIANT list \<times> event list" where
  "invoke2 w idisp name flags args =
     (if idisp = 0 then (- 1, args, [])
      else case GetIDsOfNames w idisp name of (hr, dispid) \<Rightarrow>
        if FAILED hr then (hr, args, [])
        else case convert_args (MultiByteToWideChar w) (SysAllocStringLen w) 0 args of (args', es) \<Rightarrow>
          (Invoke w idisp dispid flags args', args',
           es @ [Call ''Invoke'' [idisp, ucast dispid]] @ free_args args'))"

definition invoke ::
  "disp_world \<Rightarrow> uintptr \<Rightarrow> string \<Rightarrow> uintptr \<Rightarrow> VARIANT list
     \<Rightarrow> HRESULT \<times> VARIANT list \<times> event list" where
  "invoke w idisp name flags params = invoke2 w idisp name (ucast flags) params"

section \<open>Forwarding key strokes: traccel\<close>

definition traccel ::
  "(uintptr \<Rightarrow> HRESULT \<times> uintptr) \<Rightarrow> (uintptr \<Rightarrow> uintptr \<Rightarrow> HRESULT) \<Rightarrow> uintptr \<Rightarrow> uintptr
     \<Rightarrow> HRESULT \<times> event list" where
  "traccel QueryActiveObject TranslateAcceleratorA ob msg =
     (if ob = 0 then (S_FALSE, [])
      else case QueryActiveObject ob of (hr, p) \<Rightarrow>
        if \<not> SUCCEEDED hr \<or> p = 0 then (S_FALSE, [])
        else (TranslateAcceleratorA p msg,
              [Acquire p, Call ''TranslateAcceleratorA'' [p, msg], Release p]))"

section \<open>Lemmas\<close>

lemma convert_args_length [simp]: "length (fst (convert_args m alloc i vs)) = length vs"
  by (induction m alloc i vs rule: convert_args.induct) (auto simp: Let_def split: prod.splits)

lemma convert_args_nth:
  "j < length vs \<Longrightarrow> fst (convert_args m alloc i vs) ! j = convert_arg m alloc (i + j) (vs ! j)"
proof (induction m alloc i vs arbitrary: j rule: convert_args.induct)
  case (2 m alloc i v vs)
  then show ?case by (cases j) (simp_all add: Let_def case_prod_beta)
qed simp

lemma convert_args_frees:
  "allocated (snd (convert_args m alloc i vs)) p
     + allocated (free_args (fst (convert_args m alloc i vs))) p = 0"
  by (induction m alloc i vs rule: convert_args.induct)
    (auto simp: convert_arg_def Let_def split: prod.splits)

lemma convert_args_held [simp]: "held (snd (convert_args m alloc i vs)) p = 0"
  by (induction m alloc i vs rule: convert_args.induct) (auto simp: Let_def split: prod.splits)

lemma free_args_held [simp]: "held (free_args vs) p = 0"
  by (induction vs) auto

section \<open>Properties\<close>

text \<open>Whatever the object and the allocator answer, \<^verbatim>\<open>invoke\<close> frees exactly the strings it
  allocated, keeps no reference, and when it calls the method it passes one argument per caller
  argument, in order, with the non-string ones unchanged; a null object or an unknown name leaves the
  arguments alone.\<close>

theorem invoke_strings_freed:
  assumes "invoke w idisp name flags args = (hr, args', es)"
  shows "(\<forall>p. allocated es p = 0 \<and> held es p = 0) \<and> length args' = length args \<and>
    (\<forall>i < length args. vt (args' ! i) = vt (args ! i) \<and>
       (vt (args ! i) \<noteq> VT_BSTR \<longrightarrow> args' ! i = args ! i)) \<and>
    (idisp = 0 \<or> FAILED (fst (GetIDsOfNames w idisp name)) \<longrightarrow> args' = args \<and> es = [])"
proof -
  let ?c = "convert_args (MultiByteToWideChar w) (SysAllocStringLen w) 0 args"
  have "allocated (snd ?c) p + allocated (free_args (fst ?c)) p = 0" for p
    by (rule convert_args_frees)
  moreover have "\<forall>i < length args.
      fst ?c ! i = convert_arg (MultiByteToWideChar w) (SysAllocStringLen w) i (args ! i)"
    by (simp add: convert_args_nth)
  ultimately show ?thesis
    using assms
    by (auto simp: invoke_def invoke2_def convert_arg_def case_prod_beta split: if_splits)
qed

theorem invoke_strings_freed_witness:
  "\<exists>w es. invoke w 1 ''Show'' 1 [\<lparr>vt = VT_BSTR, val = 2\<rparr>, \<lparr>vt = 3, val = 7\<rparr>]
       = (0, [\<lparr>vt = VT_BSTR, val = 64\<rparr>, \<lparr>vt = 3, val = 7\<rparr>], es)
     \<and> Free 64 \<in> set es \<and> allocated es 64 = 0"
proof -
  let ?w = "\<lparr>GetIDsOfNames = (\<lambda>_ _. (0, 5)), MultiByteToWideChar = (\<lambda>_. 4),
    SysAllocStringLen = (\<lambda>_ _. 64), Invoke = (\<lambda>_ _ _ _. 0)\<rparr>"
  let ?args = "[\<lparr>vt = VT_BSTR, val = 2\<rparr>, \<lparr>vt = 3, val = 7\<rparr>]"
  let ?es = "[Alloc 64 8, Call ''Invoke'' [1, 5], Free 64]"
  have e: "invoke ?w 1 ''Show'' 1 ?args = (0, [\<lparr>vt = VT_BSTR, val = 64\<rparr>, \<lparr>vt = 3, val = 7\<rparr>], ?es)"
    by (simp add: invoke_def invoke2_def convert_arg_def VT_BSTR_def FAILED_def)
  with invoke_strings_freed [OF e] show ?thesis by (intro exI [of _ ?w] exI [of _ ?es]) simp
qed

text \<open>Forwarding a message to an embedded object gives its reference back on every path, and
  reports that the message was taken (\<^verbatim>\<open>S_OK\<close>) only when the object exists, implements
  \<^verbatim>\<open>IOleInPlaceActiveObject\<close> and its own translation said so.\<close>

theorem traccel_balanced:
  assumes "traccel q t ob msg = (hr, es)"
  shows "(\<forall>p. held es p = 0) \<and> no_over_release (\<lambda>_. 0) es \<and>
    (hr = S_OK \<longrightarrow> ob \<noteq> 0 \<and> SUCCEEDED (fst (q ob)) \<and> snd (q ob) \<noteq> 0 \<and> t (snd (q ob)) msg = S_OK)"
  using assms by (auto simp: traccel_def split: if_splits prod.splits)

theorem traccel_balanced_witness:
  "traccel (\<lambda>_. (0, 9)) (\<lambda>_ _. 0) 4 100
     = (S_OK, [Acquire 9, Call ''TranslateAcceleratorA'' [9, 100], Release 9]) \<and>
   (\<forall>p. held [Acquire 9, Call ''TranslateAcceleratorA'' [9, 100], Release 9] p = 0)"
proof -
  have e: "traccel (\<lambda>_. (0, 9)) (\<lambda>_ _. 0) 4 100
     = (S_OK, [Acquire 9, Call ''TranslateAcceleratorA'' [9, 100], Release 9])"
    by (simp add: traccel_def S_OK_def)
  from e traccel_balanced [OF e] show ?thesis by blast
qed

end
