(* ===== verification/Cside.thy ===== *)
theory Cside
  imports ComGlue
begin

text \<open>
  \<^verbatim>\<open>builtin/goc/cside.c\<close>: message boxes, the control-break check, the message loop of the
  main thread and of modal dialogs, the thread that shows the wait cursor, and the hand-over of
  \<^verbatim>\<open>suneido:\<close> requests to the main thread. Messages come from a list, one entry per
  \<^verbatim>\<open>GetMessage\<close>, each with the answers the window manager gives while it is processed.
\<close>

section \<open>Message boxes and fatal exits\<close>

text \<open>\<^verbatim>\<open>result\<close> is not initialised by \<^verbatim>\<open>msgbox\<close>: \<open>None\<close> stands for an indeterminate value.\<close>

record Mbargs =
  mb_text :: uintptr
  caption :: string
  mb_type :: "32 word"
  result :: "32 word option"

definition MB_TASKMODAL :: "32 word" where "MB_TASKMODAL = 0x2000"
definition MB_TOPMOST :: "32 word" where "MB_TOPMOST = 0x40000"
definition MB_SETFOREGROUND :: "32 word" where "MB_SETFOREGROUND = 0x10000"

definition message_thread :: "(uintptr \<Rightarrow> string \<Rightarrow> 32 word \<Rightarrow> 32 word) \<Rightarrow> Mbargs \<Rightarrow> Mbargs" where
  "message_thread MessageBox mb =
     mb\<lparr>result := Some (MessageBox (mb_text mb) (caption mb)
          (mb_type mb OR MB_TASKMODAL OR MB_TOPMOST OR MB_SETFOREGROUND))\<rparr>"

definition msgbox ::
  "(uintptr \<Rightarrow> string \<Rightarrow> 32 word \<Rightarrow> 32 word) \<Rightarrow> uintptr \<Rightarrow> uintptr \<Rightarrow> string \<Rightarrow> 32 word
     \<Rightarrow> 32 word option \<times> event list" where
  \<comment> \<open>\<open>thread\<close> is the handle \<^verbatim>\<open>CreateThread\<close> returned\<close>
  "msgbox MessageBox thread txt cap typ =
     (let mb = \<lparr>mb_text = txt, caption = cap, mb_type = typ, result = None\<rparr>;
          mb = (if thread \<noteq> 0 then message_thread MessageBox mb else mb)
      in (result mb, [Free txt]))"

definition alert ::
  "(uintptr \<Rightarrow> string \<Rightarrow> 32 word \<Rightarrow> 32 word) \<Rightarrow> uintptr \<Rightarrow> uintptr \<Rightarrow> 32 word
     \<Rightarrow> 32 word option \<times> event list" where
  "alert MessageBox thread msg typ = msgbox MessageBox thread msg ''Alert'' typ"

definition fatal ::
  "(uintptr \<Rightarrow> string \<Rightarrow> 32 word \<Rightarrow> 32 word) \<Rightarrow> uintptr \<Rightarrow> uintptr \<Rightarrow> event list" where
  "fatal MessageBox thread msg = snd (msgbox MessageBox thread msg ''FATAL'' 0)"

text \<open>A C function returns or ends the process with the exit code and what it wrote to the
  error stream.\<close>

datatype 'a ending = Returns 'a | Exits "32 word" string

definition errmsg :: "string \<Rightarrow> string" where
  "errmsg msg = msg"

definition msgexit :: "string \<Rightarrow> 'a ending" where
  "msgexit msg = Exits 1 (errmsg msg)"

section \<open>Control-break\<close>

definition CTRL_BREAK_ID :: uintptr where
  "CTRL_BREAK_ID = 1"

definition too_many_loops :: string where
  "too_many_loops = ''FATAL: interrupt too many loops'' @ [CHR 0x0D, CHR 0x0A]"

text \<open>The loop over the hot-key messages in the queue, given by their \<^verbatim>\<open>wParam\<close>; the last
  component is what is left in the queue.\<close>

fun interrupt_loop :: "nat \<Rightarrow> bool \<Rightarrow> uintptr list \<Rightarrow> bool ending \<times> uintptr list" where
  "interrupt_loop n hotkey [] = (Returns hotkey, [])"
| "interrupt_loop n hotkey (m # ms) =
     (let hotkey = (if m = CTRL_BREAK_ID then True else hotkey) in
      if n + 1 > 100 then (msgexit too_many_loops, ms)
      else interrupt_loop (n + 1) hotkey ms)"

definition interrupt :: "bool \<Rightarrow> uintptr list \<Rightarrow> bool ending \<times> uintptr list" where
  \<comment> \<open>\<open>pending\<close>: \<^verbatim>\<open>HIWORD(GetQueueStatus(QS_HOTKEY))\<close> is not zero\<close>
  "interrupt pending queue = (if pending then interrupt_loop 0 False queue else (Returns False, queue))"

section \<open>The message loop\<close>

record MSG =
  hwnd :: uintptr
  message :: "32 word"
  wParam :: uintptr
  lParam :: uintptr

definition WM_NULL :: "32 word" where "WM_NULL = 0"
definition WM_QUIT :: "32 word" where "WM_QUIT = 0x12"
definition WM_KEYDOWN :: "32 word" where "WM_KEYDOWN = 0x100"
definition END_MSG_LOOP :: uintptr where "END_MSG_LOOP = 0xebb"

record win_env =
  cursor_pos :: "uintptr \<times> uintptr"
  GetAncestor :: "uintptr \<Rightarrow> uintptr"
  GetWindowLongPtr :: "uintptr \<Rightarrow> uintptr"
  QueryActiveObject :: "uintptr \<Rightarrow> HRESULT \<times> uintptr"
  TranslateActive :: "uintptr \<Rightarrow> uintptr \<Rightarrow> HRESULT"
  TranslateAccelerator :: "uintptr \<Rightarrow> uintptr \<Rightarrow> MSG \<Rightarrow> bool"
  IsDialogMessage :: "uintptr \<Rightarrow> MSG \<Rightarrow> bool"
  msg_addr :: uintptr

record ui =
  ticks :: int
  prev_cursor :: uintptr
  calls :: "event list"

definition ui_emit :: "event list \<Rightarrow> ui \<Rightarrow> ui" where
  "ui_emit es s = s\<lparr>calls := calls s @ es\<rparr>"

text \<open>The head of an iteration: stop the timer and put the cursor back.\<close>

definition loop_top :: "win_env \<Rightarrow> ui \<Rightarrow> ui" where
  "loop_top w s =
     (let s = s\<lparr>ticks := 0\<rparr> in
      if prev_cursor s \<noteq> 0
      then ui_emit [Call ''SetCursor'' [prev_cursor s],
                    Call ''SetCursorPos'' [fst (cursor_pos w), snd (cursor_pos w)]] s
      else s)"

text \<open>The rest of an iteration, for a message that does not end the loop: it is offered to the
  embedded object of its window, to the accelerator table and to the dialog handling of its
  top-level window, and dispatched when none takes it.\<close>

definition offer_active :: "win_env \<Rightarrow> MSG \<Rightarrow> HRESULT \<times> event list" where
  "offer_active w msg =
     (if hwnd msg \<noteq> GetAncestor w (hwnd msg) \<and> message msg = WM_KEYDOWN
      then (let ptr = GetWindowLongPtr w (hwnd msg) in
            if ptr \<noteq> 0 then traccel (QueryActiveObject w) (TranslateActive w) ptr (msg_addr w)
            else (S_FALSE, []))
      else (S_FALSE, []))"

definition offer_window :: "win_env \<Rightarrow> MSG \<Rightarrow> event list" where
  "offer_window w msg =
     (let window = GetAncestor w (hwnd msg); haccel = GetWindowLongPtr w window in
      if window \<noteq> 0 \<and> haccel \<noteq> 0 \<and> TranslateAccelerator w window haccel msg
      then [Call ''TranslateAccelerator'' [window, haccel]]
      else if window \<noteq> 0 \<and> IsDialogMessage w window msg
      then [Call ''IsDialogMessage'' [window]]
      else [Call ''TranslateMessage'' [hwnd msg], Call ''DispatchMessage'' [hwnd msg]])"

definition deliver :: "win_env \<Rightarrow> MSG \<Rightarrow> ui \<Rightarrow> ui" where
  "deliver w msg s =
     (case offer_active w msg of (hr, es) \<Rightarrow>
        if hr = S_OK then ui_emit es s else ui_emit (es @ offer_window w msg) s)"

text \<open>One iteration. \<open>None\<close> for the message is the error return of \<^verbatim>\<open>GetMessage\<close>; the result is
  the return value when the loop ends.\<close>

definition loop_step :: "uintptr \<Rightarrow> MSG option \<times> win_env \<Rightarrow> ui \<Rightarrow> 32 word option \<times> ui" where
  "loop_step hdlg i s =
    (case i of (mo, w) \<Rightarrow>
     let s = loop_top w s in
     case mo of
       None \<Rightarrow> (None, s)
     | Some msg \<Rightarrow>
        (let s = s\<lparr>ticks := 5, prev_cursor := 0\<rparr> in
         if message msg = WM_QUIT then
           (Some (ucast (wParam msg)),
            if hdlg \<noteq> 0 then ui_emit [Call ''PostQuitMessage'' [scast (ucast (wParam msg) :: 32 word)]] s else s)
         else if hdlg \<noteq> 0 \<and> hwnd msg = hdlg \<and> message msg = WM_NULL
                 \<and> wParam msg = END_MSG_LOOP \<and> lParam msg = END_MSG_LOOP then (Some 0, s)
         else (None, deliver w msg s)))"

text \<open>The loop: \<open>None\<close> while it waits for more messages, otherwise its value and the messages
  it left in the queue.\<close>

fun message_loop ::
  "uintptr \<Rightarrow> (MSG option \<times> win_env) list \<Rightarrow> ui
     \<Rightarrow> (32 word \<times> (MSG option \<times> win_env) list) option \<times> ui" where
  "message_loop hdlg [] s = (None, s)"
| "message_loop hdlg (i # is) s =
     (case loop_step hdlg i s of
        (Some r, s') \<Rightarrow> (Some (r, is), s')
      | (None, s') \<Rightarrow> message_loop hdlg is s')"

definition destroy_func :: "uintptr \<Rightarrow> event" where
  "destroy_func w = Call ''DestroyWindow'' [w]"

definition destroy_windows :: "uintptr list \<Rightarrow> ui \<Rightarrow> ui" where
  \<comment> \<open>\<open>ws\<close>: the windows of the main thread, in enumeration order; the callback never stops it\<close>
  "destroy_windows ws s = ui_emit (map destroy_func ws) s"

definition run :: "uintptr list \<Rightarrow> (MSG option \<times> win_env) list \<Rightarrow> ui \<Rightarrow> 32 word option \<times> ui" where
  "run ws is s =
     (case message_loop 0 is s of
        (None, s') \<Rightarrow> (None, s')
      | (Some (exitcode, _), s') \<Rightarrow> (Some exitcode, destroy_windows ws s'))"

section \<open>The wait cursor\<close>

text \<open>
  \<^verbatim>\<open>cursor_thread\<close> runs beside the main thread and shares the atomic variables
  \<^verbatim>\<open>ticks\<close> and \<^verbatim>\<open>prev_cursor\<close> with it. Each atomic access is one step. The program counter
  of the cursor thread follows \<^verbatim>\<open>Sleep(25); if (ticks > 0 && --ticks == 0) prev_cursor =
  SetCursor(wait_cursor)\<close>; that of the main thread follows the head of \<^verbatim>\<open>message_loop\<close>.
  \<open>shown\<close> is the cursor on the screen and \<open>since\<close> counts the decrements after the main thread
  last started the timer.
\<close>

datatype cursor_pc = Sleep | Test | Decr | Show | Store uintptr

datatype main_pc = Top | RestoreTest | RestoreSet | GetMessage | Started | Working

record cursors =
  cticks :: int
  cprev :: uintptr
  shown :: uintptr
  cpc :: cursor_pc
  mpc :: main_pc
  since :: nat

definition cursors_init :: "uintptr \<Rightarrow> cursors" where
  "cursors_init arrow = \<lparr>cticks = 0, cprev = 0, shown = arrow, cpc = Sleep, mpc = Top, since = 0\<rparr>"

text \<open>One step of \<^verbatim>\<open>cursor_thread\<close> for the wait cursor \<open>wait\<close>.\<close>

inductive cursor_thread :: "uintptr \<Rightarrow> cursors \<Rightarrow> cursors \<Rightarrow> bool" for wait where
  wake: "cpc s = Sleep \<Longrightarrow> cursor_thread wait s (s\<lparr>cpc := Test\<rparr>)"
| test: "cpc s = Test \<Longrightarrow> cursor_thread wait s (s\<lparr>cpc := (if cticks s > 0 then Decr else Sleep)\<rparr>)"
| decr: "cpc s = Decr \<Longrightarrow>
    cursor_thread wait s (s\<lparr>cticks := cticks s - 1, since := Suc (since s),
      cpc := (if cticks s - 1 = 0 then Show else Sleep)\<rparr>)"
| display: "cpc s = Show \<Longrightarrow> cursor_thread wait s (s\<lparr>cpc := Store (shown s), shown := wait\<rparr>)"
| store: "cpc s = Store c \<Longrightarrow> cursor_thread wait s (s\<lparr>cprev := c, cpc := Sleep\<rparr>)"

text \<open>\<^verbatim>\<open>message_hook\<close> runs inside \<^verbatim>\<open>GetMessage\<close> and the like, in the main thread.\<close>

definition message_hook :: "cursors \<Rightarrow> cursors" where
  "message_hook s = s\<lparr>cticks := 0\<rparr>"

text \<open>One step of the main thread. While it handles a message it may set a cursor of its own, which is
  neither no cursor nor the wait cursor.\<close>

inductive main_thread :: "uintptr \<Rightarrow> cursors \<Rightarrow> cursors \<Rightarrow> bool" for wait where
  stop: "mpc s = Top \<Longrightarrow> main_thread wait s (s\<lparr>cticks := 0, mpc := RestoreTest\<rparr>)"
| restore_test: "mpc s = RestoreTest \<Longrightarrow>
    main_thread wait s (s\<lparr>mpc := (if cprev s \<noteq> 0 then RestoreSet else GetMessage)\<rparr>)"
| restore_set: "mpc s = RestoreSet \<Longrightarrow> main_thread wait s (s\<lparr>shown := cprev s, mpc := GetMessage\<rparr>)"
| hook: "mpc s = GetMessage \<or> mpc s = Working \<Longrightarrow> main_thread wait s (message_hook s)"
| get_error: "mpc s = GetMessage \<Longrightarrow> main_thread wait s (s\<lparr>mpc := Top\<rparr>)"
| got: "mpc s = GetMessage \<Longrightarrow> main_thread wait s (s\<lparr>cticks := 5, since := 0, mpc := Started\<rparr>)"
| clear_prev: "mpc s = Started \<Longrightarrow> main_thread wait s (s\<lparr>cprev := 0, mpc := Working\<rparr>)"
| handler: "mpc s = Working \<Longrightarrow> c \<noteq> 0 \<Longrightarrow> c \<noteq> wait \<Longrightarrow> main_thread wait s (s\<lparr>shown := c\<rparr>)"
| again: "mpc s = Working \<Longrightarrow> main_thread wait s (s\<lparr>mpc := Top\<rparr>)"

inductive cursors_reachable :: "uintptr \<Rightarrow> uintptr \<Rightarrow> cursors \<Rightarrow> bool" for wait arrow where
  start: "cursors_reachable wait arrow (cursors_init arrow)"
| cursor_moves: "cursors_reachable wait arrow s \<Longrightarrow> cursor_thread wait s t \<Longrightarrow>
    cursors_reachable wait arrow t"
| main_moves: "cursors_reachable wait arrow s \<Longrightarrow> main_thread wait s t \<Longrightarrow>
    cursors_reachable wait arrow t"

inductive_cases cursor_threadE: "cursor_thread wait s t"

section \<open>Requests from other threads\<close>

text \<open>\<^verbatim>\<open>buf_t\<close> of \<^verbatim>\<open>cside.h\<close>; \<open>buf_size\<close> is \<open>None\<close> while it has not been stored.\<close>

record buf_t =
  buf_data :: uintptr
  buf_size :: "32 word option"

definition sunappMsg :: "32 word" where
  "sunappMsg = 0x400 + 1"

text \<open>The window procedure of the helper window runs in the thread that created it. \<open>SuneidoAPP\<close> is the
  function exported by the Go side: it fills in the buffer and changes the memory it allocates from.
  The list has the threads in which it ran.\<close>

type_synonym 'w app_fn = "buf_t \<Rightarrow> 'w \<Rightarrow> (buf_t \<times> 'w) option"

definition helperWndProc ::
  "'w app_fn \<Rightarrow> 32 word \<Rightarrow> 32 word \<Rightarrow> buf_t \<Rightarrow> 'w \<Rightarrow> (buf_t \<times> 32 word list \<times> 'w) option" where
  "helperWndProc SuneidoAPP thread uMsg buf w =
     (if uMsg = sunappMsg then map_option (\<lambda>(buf, w). (buf, [thread], w)) (SuneidoAPP buf w)
      else Some (buf, [], w))"

record setup_world =
  RegisterClass :: bool
  CreateHelper :: uintptr
  CurrentThreadId :: "32 word"
  SetHook :: uintptr

record cside_state =
  main_threadid :: "32 word"
  helperHwnd :: uintptr
  hook_ptr :: uintptr
  setup_calls :: "event list"

definition setupHelper :: "setup_world \<Rightarrow> cside_state \<Rightarrow> bool \<times> cside_state" where
  "setupHelper w s =
     (if \<not> RegisterClass w then (False, s)
      else if CreateHelper w = 0 then (False, s)
      else (True, s\<lparr>helperHwnd := CreateHelper w\<rparr>))"

definition c_setup :: "setup_world \<Rightarrow> cside_state \<Rightarrow> cside_state" where
  "c_setup w s =
     (let s = s\<lparr>setup_calls := setup_calls s @
            [Call ''Scintilla_RegisterClasses'' [], Call ''OleInitialize'' [0],
             Call ''sunapp_register_classes'' [], Call ''RegisterHotKey'' [0, CTRL_BREAK_ID],
             Call ''SetWindowsHookExA'' [ucast (CurrentThreadId w)],
             Call ''CreateThread(cursor_thread)'' [8192],
             Call ''setupHelper'' [],
             Call ''SetUnhandledExceptionFilter'' []]\<rparr>;
          s = s\<lparr>main_threadid := CurrentThreadId w, hook_ptr := SetHook w\<rparr>
      in snd (setupHelper w s))"

text \<open>\<open>delivers h\<close>: \<^verbatim>\<open>h\<close> is a window, so \<^verbatim>\<open>SendMessage\<close> runs its procedure, here in the main
  thread, which created it.\<close>

definition suneidoAPP ::
  "'w app_fn \<Rightarrow> (uintptr \<Rightarrow> bool) \<Rightarrow> cside_state \<Rightarrow> 32 word \<Rightarrow> uintptr \<Rightarrow> 'w
     \<Rightarrow> (buf_t \<times> 32 word list \<times> 'w) option" where
  "suneidoAPP SuneidoAPP delivers s thread url w =
     (let buf = \<lparr>buf_data = url, buf_size = None\<rparr> in
      if thread \<noteq> main_threadid s
      then (if delivers (helperHwnd s)
            then helperWndProc SuneidoAPP (main_threadid s) sunappMsg buf w
            else Some (buf, [], w))
      else map_option (\<lambda>(buf, w). (buf, [thread], w)) (SuneidoAPP buf w))"

section \<open>Unhandled exceptions\<close>

fun hex_digits :: "nat \<Rightarrow> string" where
  "hex_digits n = (if n < 16 then [''0123456789abcdef'' ! n]
                   else hex_digits (n div 16) @ [''0123456789abcdef'' ! (n mod 16)])"

declare hex_digits.simps [simp del]

definition snprintf :: "nat \<Rightarrow> string \<Rightarrow> string" where
  \<comment> \<open>what fits in a buffer of \<open>n\<close> bytes with its terminator\<close>
  "snprintf n txt = take (n - 1) txt"

definition filter_exception :: "32 word \<Rightarrow> 'a ending" where
  "filter_exception e =
     msgexit (snprintf 64 (''FATAL: unhandled C exception '' @ hex_digits (unat e) @ [CHR 0x0D, CHR 0x0A]))"

definition createLexer :: "(string \<Rightarrow> uintptr) \<Rightarrow> string \<Rightarrow> uintptr" where
  "createLexer CreateLexer name = CreateLexer name"

section \<open>Lemmas on the control-break check and the message loop\<close>

lemma interrupt_loop_eq:
  "n \<le> 100 \<Longrightarrow> interrupt_loop n hotkey q =
     (if n + length q \<le> 100 then (Returns (hotkey \<or> CTRL_BREAK_ID \<in> set q), [])
      else (msgexit too_many_loops, drop (101 - n) q))"
proof (induction n hotkey q rule: interrupt_loop.induct)
  case (2 n hotkey m ms)
  show ?case
  proof (cases "n = 100")
    case False
    with 2 have "interrupt_loop (n + 1) (if m = CTRL_BREAK_ID then True else hotkey) ms =
      (if n + 1 + length ms \<le> 100
       then (Returns ((if m = CTRL_BREAK_ID then True else hotkey) \<or> CTRL_BREAK_ID \<in> set ms), [])
       else (msgexit too_many_loops, drop (101 - (n + 1)) ms))"
      by (simp add: Let_def)
    moreover have "101 - n = Suc (101 - (n + 1))" using False "2.prems" by simp
    ultimately show ?thesis using False "2.prems" by (auto simp: Let_def)
  qed (simp add: Let_def)
qed simp

text \<open>When a message ends the loop, and with which value.\<close>

definition ends :: "uintptr \<Rightarrow> MSG \<Rightarrow> bool" where
  "ends hdlg m \<longleftrightarrow> message m = WM_QUIT \<or>
     (hdlg \<noteq> 0 \<and> hwnd m = hdlg \<and> message m = WM_NULL \<and> wParam m = END_MSG_LOOP \<and> lParam m = END_MSG_LOOP)"

definition exit_value :: "MSG \<Rightarrow> 32 word" where
  "exit_value m = (if message m = WM_QUIT then ucast (wParam m) else 0)"

definition ends_input :: "uintptr \<Rightarrow> MSG option \<times> win_env \<Rightarrow> bool" where
  "ends_input hdlg i = (case fst i of None \<Rightarrow> False | Some m \<Rightarrow> ends hdlg m)"

lemma loop_step_result:
  "fst (loop_step hdlg (mo, w) s) =
     (case mo of None \<Rightarrow> None | Some m \<Rightarrow> if ends hdlg m then Some (exit_value m) else None)"
  by (auto simp: loop_step_def Let_def ends_def exit_value_def split: option.splits prod.splits)

lemma loop_step_continues: "\<not> ends_input hdlg i \<Longrightarrow> fst (loop_step hdlg i s) = None"
  by (cases i) (auto simp: loop_step_result ends_input_def split: option.splits)

lemma message_loop_skip:
  "\<forall>i \<in> set pre. \<not> ends_input hdlg i \<Longrightarrow>
     \<exists>s1. message_loop hdlg (pre @ is) s = message_loop hdlg is s1"
proof (induction pre arbitrary: s)
  case (Cons i pre)
  then have "fst (loop_step hdlg i s) = None" by (simp add: loop_step_continues)
  then obtain s1 where "loop_step hdlg i s = (None, s1)" by (cases "loop_step hdlg i s") auto
  with Cons show ?case by simp
qed auto

text \<open>Who takes a message that does not end the loop, in terms of what Windows answers: the active
  object, for a key press in a child window whose user data names an object that has one and
  translates the key; the accelerator table or the dialog handling of its top-level window.\<close>

definition active_takes :: "win_env \<Rightarrow> MSG \<Rightarrow> bool" where
  "active_takes w m \<longleftrightarrow>
     hwnd m \<noteq> GetAncestor w (hwnd m) \<and> message m = WM_KEYDOWN \<and> GetWindowLongPtr w (hwnd m) \<noteq> 0 \<and>
     (case QueryActiveObject w (GetWindowLongPtr w (hwnd m)) of (hr, p) \<Rightarrow>
        SUCCEEDED hr \<and> p \<noteq> 0 \<and> TranslateActive w p (msg_addr w) = S_OK)"

definition accel_takes :: "win_env \<Rightarrow> MSG \<Rightarrow> bool" where
  "accel_takes w m \<longleftrightarrow>
     (let window = GetAncestor w (hwnd m) in
      window \<noteq> 0 \<and> GetWindowLongPtr w window \<noteq> 0 \<and>
      TranslateAccelerator w window (GetWindowLongPtr w window) m)"

definition dialog_takes :: "win_env \<Rightarrow> MSG \<Rightarrow> bool" where
  "dialog_takes w m \<longleftrightarrow>
     (let window = GetAncestor w (hwnd m) in window \<noteq> 0 \<and> IsDialogMessage w window m)"

definition step_events :: "uintptr \<Rightarrow> MSG option \<times> win_env \<Rightarrow> ui \<Rightarrow> event list" where
  "step_events hdlg i s =
     drop (length (calls (loop_top (snd i) s))) (calls (snd (loop_step hdlg i s)))"

lemma offer_active_events:
  "\<exists>p a. snd (offer_active w m) \<in> {[], [Acquire p, Call ''TranslateAcceleratorA'' [p, a], Release p]}"
  by (auto simp: offer_active_def traccel_def Let_def split: prod.splits)

lemma offer_active_held [simp]: "held (snd (offer_active w m)) p = 0"
  using offer_active_events [of w m] by auto

lemma offer_active_no_dispatch [simp]: "Call ''DispatchMessage'' [h] \<notin> set (snd (offer_active w m))"
  using offer_active_events [of w m] by auto

lemma offer_window_held [simp]: "held (offer_window w m) p = 0"
  by (simp add: offer_window_def Let_def)

lemma offer_window_dispatch:
  "Call ''DispatchMessage'' [hwnd m] \<in> set (offer_window w m) \<longleftrightarrow> \<not> accel_takes w m \<and> \<not> dialog_takes w m"
  by (simp add: offer_window_def accel_takes_def dialog_takes_def Let_def)

lemma active_takes_iff: "fst (offer_active w m) = S_OK \<longleftrightarrow> active_takes w m"
  by (auto simp: offer_active_def active_takes_def traccel_def S_OK_def S_FALSE_def Let_def split: prod.splits)

lemma step_events_deliver:
  "\<not> ends hdlg m \<Longrightarrow> step_events hdlg (Some m, w) s =
     snd (offer_active w m) @ (if active_takes w m then [] else offer_window w m)"
  by (auto simp: step_events_def loop_step_def deliver_def active_takes_iff [symmetric] ends_def
      ui_emit_def Let_def split: prod.splits)

text \<open>Messages and a window manager that takes nothing, for the witnesses.\<close>

definition quit_msg :: "uintptr \<Rightarrow> MSG" where
  "quit_msg w = \<lparr>hwnd = 0, message = WM_QUIT, wParam = w, lParam = 0\<rparr>"

definition sample_msg :: "uintptr \<Rightarrow> 32 word \<Rightarrow> MSG" where
  "sample_msg h m = \<lparr>hwnd = h, message = m, wParam = 0, lParam = 0\<rparr>"

definition sample_env :: win_env where
  "sample_env = \<lparr>cursor_pos = (0, 0), GetAncestor = (\<lambda>_. 1), GetWindowLongPtr = (\<lambda>_. 0),
     QueryActiveObject = (\<lambda>_. (0, 0)), TranslateActive = (\<lambda>_ _. 0),
     TranslateAccelerator = (\<lambda>_ _ _. False), IsDialogMessage = (\<lambda>_ _. False), msg_addr = 16\<rparr>"

section \<open>Properties\<close>

text \<open>The control-break check reports the hot key exactly when it is among the pending hot-key
  messages, and empties the queue; the guard against endless queues fires exactly when more than
  a hundred are pending, after removing a hundred and one of them.\<close>

theorem interrupt_spec:
  "interrupt True q =
     (if length q \<le> 100 then (Returns (CTRL_BREAK_ID \<in> set q), [])
      else (Exits 1 too_many_loops, drop 101 q))"
  by (simp add: interrupt_def interrupt_loop_eq msgexit_def errmsg_def)

text \<open>C28: a message loop returns at the first message that ends it and leaves the later ones in the
  queue. A quit message ends every loop with its parameter as the value; the main loop
  (\<^verbatim>\<open>hdlg\<close> is 0) ends in no other way, and a modal loop otherwise only on the
  \<^verbatim>\<open>END_MSG_LOOP\<close> message posted to its own dialog, with value 0. Errors of
  \<^verbatim>\<open>GetMessage\<close> never end it.\<close>

theorem message_loop_returns:
  "(\<exists>s'. message_loop hdlg is s = (Some (r, rest), s')) \<longleftrightarrow>
   (\<exists>pre m w. is = pre @ (Some m, w) # rest \<and> ends hdlg m \<and> r = exit_value m
      \<and> (\<forall>i \<in> set pre. \<not> ends_input hdlg i))"
  (is "?L \<longleftrightarrow> ?R")
proof
  show "?L \<Longrightarrow> ?R"
  proof (induction hdlg "is" s rule: message_loop.induct)
    case (2 hdlg i "is" s)
    obtain mo w where i: "i = (mo, w)" by fastforce
    show ?case
    proof (cases "loop_step hdlg i s")
      case (Pair ro s1)
      show ?thesis
      proof (cases ro)
        case None
        with 2 Pair obtain pre m v where *: "is = pre @ (Some m, v) # rest" "ends hdlg m"
          "r = exit_value m" "\<forall>i \<in> set pre. \<not> ends_input hdlg i" by auto
        from None Pair have "\<not> ends_input hdlg i"
          using loop_step_result [of hdlg mo w s]
          by (auto simp: i ends_input_def split: option.splits if_splits)
        with * show ?thesis by (intro exI [of _ "i # pre"]) auto
      next
        case (Some x)
        with 2 Pair i loop_step_result [of hdlg mo w s] show ?thesis
          by (intro exI [of _ "[]"]) (auto split: option.splits if_splits)
      qed
    qed
  qed simp
  assume ?R
  then obtain pre m w where R: "is = pre @ (Some m, w) # rest" "ends hdlg m" "r = exit_value m"
    "\<forall>i \<in> set pre. \<not> ends_input hdlg i" by blast
  obtain s1 where "message_loop hdlg is s = message_loop hdlg ((Some m, w) # rest) s1"
    using message_loop_skip [OF R(4)] R(1) by blast
  moreover have "fst (loop_step hdlg (Some m, w) s1) = Some (exit_value m)"
    using R(2) by (simp add: loop_step_result)
  ultimately show ?L
    using R(3) by (cases "loop_step hdlg (Some m, w) s1") auto
qed

theorem message_loop_returns_witness:
  "\<exists>s'. message_loop 7 [(None, sample_env), (Some (sample_msg 3 0), sample_env),
      (Some (quit_msg 9), sample_env), (Some (sample_msg 3 0), sample_env)] (\<lparr>ticks = 0, prev_cursor = 0, calls = []\<rparr>)
     = (Some (9, [(Some (sample_msg 3 0), sample_env)]), s')"
  unfolding message_loop_returns
  by (rule exI [of _ "[(None, sample_env), (Some (sample_msg 3 0), sample_env)]"], rule exI [of _ "quit_msg 9"])
    (simp add: ends_def ends_input_def exit_value_def sample_msg_def quit_msg_def WM_QUIT_def WM_NULL_def
      END_MSG_LOOP_def)

text \<open>C29: a message that does not end the loop is dispatched to its window exactly when neither an
  embedded active object nor the accelerator table nor the dialog handling takes it. The active object
  takes only key presses in a child window whose user data is not 0, and only when the query for it
  succeeds and it translates the key. The reference obtained to ask it is returned either way.
  The windows that take messages are described by what Windows answers, not by the code.\<close>

theorem loop_step_dispatch:
  assumes "\<not> ends hdlg m"
  shows "(Call ''DispatchMessage'' [hwnd m] \<in> set (step_events hdlg (Some m, w) s) \<longleftrightarrow>
      \<not> active_takes w m \<and> \<not> accel_takes w m \<and> \<not> dialog_takes w m) \<and>
    (\<forall>p. held (step_events hdlg (Some m, w) s) p = 0)"
  using assms by (auto simp: step_events_deliver offer_window_dispatch)

theorem loop_step_dispatch_witness:
  "\<not> ends 7 (sample_msg 3 0x201) \<and>
   Call ''DispatchMessage'' [3] \<in> set (step_events 7 (Some (sample_msg 3 0x201), sample_env)
     \<lparr>ticks = 0, prev_cursor = 0, calls = []\<rparr>)"
proof -
  have e: "\<not> ends 7 (sample_msg 3 0x201)"
    by (simp add: ends_def sample_msg_def WM_QUIT_def WM_NULL_def)
  have "\<not> active_takes sample_env (sample_msg 3 0x201)" "\<not> accel_takes sample_env (sample_msg 3 0x201)"
    "\<not> dialog_takes sample_env (sample_msg 3 0x201)"
    by (simp_all add: active_takes_def accel_takes_def dialog_takes_def
        sample_msg_def sample_env_def WM_KEYDOWN_def)
  with loop_step_dispatch [OF e, of sample_env "\<lparr>ticks = 0, prev_cursor = 0, calls = []\<rparr>"] e show ?thesis by (simp add: sample_msg_def)
qed

text \<open>A quit request read by a modal loop ends it and is posted again, and the message posted
  ends the next outer loop, modal or main, with the same value: so the process exits with the code
  of the request however many dialogs are open, and \<^verbatim>\<open>run\<close> returns that code.\<close>

theorem modal_quit:
  assumes "h \<noteq> 0" and "\<forall>i \<in> set pre. \<not> ends_input h i" and "\<forall>i \<in> set pre'. \<not> ends_input k i"
  shows "\<exists>s1 es q. message_loop h (pre @ (Some (quit_msg c), e) # rest) s = (Some (ucast c, rest), s1) \<and>
      calls s1 = es @ [Call ''PostQuitMessage'' [q]] \<and>
      (\<exists>s2. message_loop k (pre' @ (Some (quit_msg q), e') # rest') s' = (Some (ucast c, rest'), s2)) \<and>
      (k = 0 \<longrightarrow> fst (run ws (pre' @ (Some (quit_msg q), e') # rest') s') = Some (ucast c))"
proof -
  let ?q = "scast (ucast c :: 32 word) :: uintptr"
  obtain s0 where "message_loop h (pre @ (Some (quit_msg c), e) # rest) s =
      message_loop h ((Some (quit_msg c), e) # rest) s0"
    using message_loop_skip [OF assms(2)] by blast
  then obtain s1 es where 1: "message_loop h (pre @ (Some (quit_msg c), e) # rest) s = (Some (ucast c, rest), s1)"
      "calls s1 = es @ [Call ''PostQuitMessage'' [?q]]"
    using assms(1) by (auto simp: loop_step_def quit_msg_def ui_emit_def Let_def)
  obtain s0' where 2: "message_loop k (pre' @ (Some (quit_msg ?q), e') # rest') s' =
      message_loop k ((Some (quit_msg ?q), e') # rest') s0'"
    using message_loop_skip [OF assms(3)] by blast
  have "(ucast ?q :: 32 word) = ucast c"
    by (rule bit_word_eqI) (auto simp: bit_simps)
  with 2 have 3: "\<exists>s2. message_loop k (pre' @ (Some (quit_msg ?q), e') # rest') s' = (Some (ucast c, rest'), s2)"
    by (auto simp: loop_step_def quit_msg_def Let_def)
  then have "fst (run ws (pre' @ (Some (quit_msg ?q), e') # rest') s') = Some (ucast c)" if "k = 0"
    using that by (auto simp: run_def)
  with 1 3 show ?thesis by blast
qed

theorem modal_quit_witness:
  "\<exists>s1 es q. message_loop 7 [(Some (quit_msg 3), sample_env)] \<lparr>ticks = 0, prev_cursor = 0, calls = []\<rparr>
      = (Some (3, []), s1) \<and> calls s1 = es @ [Call ''PostQuitMessage'' [q]] \<and>
      fst (run [] [(Some (quit_msg q), sample_env)] \<lparr>ticks = 0, prev_cursor = 0, calls = []\<rparr>) = Some 3"
  using modal_quit [of 7 "[]" "[]" 0 3 sample_env "[]" "\<lparr>ticks = 0, prev_cursor = 0, calls = []\<rparr>" sample_env
      "[]" "\<lparr>ticks = 0, prev_cursor = 0, calls = []\<rparr>" "[]"]
  by auto

section \<open>The wait cursor: invariant and race\<close>

text \<open>A running timer and the decrements since it was started add up to five.\<close>

definition timer_inv :: "cursors \<Rightarrow> bool" where
  "timer_inv s \<longleftrightarrow> - 1 \<le> cticks s \<and> cticks s \<le> 5 \<and> (cpc s = Decr \<longrightarrow> 0 \<le> cticks s)
     \<and> (0 < cticks s \<longrightarrow> cticks s + int (since s) = 5)"

lemma timer_inv_cursor: "cursor_thread wait s t \<Longrightarrow> timer_inv s \<Longrightarrow> timer_inv t"
  by (induction rule: cursor_thread.induct) (auto simp: timer_inv_def)

lemma timer_inv_main: "main_thread wait s t \<Longrightarrow> timer_inv s \<Longrightarrow> timer_inv t"
  by (induction rule: main_thread.induct) (auto simp: timer_inv_def message_hook_def)

lemma timer_inv_reachable: "cursors_reachable wait arrow s \<Longrightarrow> timer_inv s"
proof (induction rule: cursors_reachable.induct)
  case start
  show ?case by (simp add: timer_inv_def cursors_init_def)
qed (blast intro: timer_inv_cursor timer_inv_main)+

text \<open>However the two threads interleave, \<^verbatim>\<open>ticks\<close> stays between -1 and 5, and the cursor thread
  goes on to show the wait cursor only after five of its 25 millisecond periods have counted down a
  timer that the main thread neither stopped nor restarted in between.\<close>

theorem wait_cursor_needs_five_periods:
  assumes "cursors_reachable wait arrow s" and "cursor_thread wait s t"
  shows "- 1 \<le> cticks t \<and> cticks t \<le> 5 \<and> (cpc s = Decr \<and> cpc t = Show \<longrightarrow> since t = 5)"
proof -
  have "timer_inv s" using assms(1) by (rule timer_inv_reachable)
  moreover from assms(2) this have "timer_inv t" by (rule timer_inv_cursor)
  ultimately show ?thesis
    using assms(2) by (auto elim!: cursor_threadE simp: timer_inv_def split: if_splits)
qed

text \<open>A run as a list of scheduler choices, to build reachable states: the cursor thread, or one of
  the steps of the main thread.\<close>

definition cursor_next :: "uintptr \<Rightarrow> cursors \<Rightarrow> cursors" where
  "cursor_next wait s =
     (case cpc s of
        Sleep \<Rightarrow> s\<lparr>cpc := Test\<rparr>
      | Test \<Rightarrow> s\<lparr>cpc := (if cticks s > 0 then Decr else Sleep)\<rparr>
      | Decr \<Rightarrow> s\<lparr>cticks := cticks s - 1, since := Suc (since s),
                 cpc := (if cticks s - 1 = 0 then Show else Sleep)\<rparr>
      | Show \<Rightarrow> s\<lparr>cpc := Store (shown s), shown := wait\<rparr>
      | Store c \<Rightarrow> s\<lparr>cprev := c, cpc := Sleep\<rparr>)"

definition main_next :: "cursors \<Rightarrow> cursors" where
  "main_next s =
     (case mpc s of
        Top \<Rightarrow> s\<lparr>cticks := 0, mpc := RestoreTest\<rparr>
      | RestoreTest \<Rightarrow> s\<lparr>mpc := (if cprev s \<noteq> 0 then RestoreSet else GetMessage)\<rparr>
      | RestoreSet \<Rightarrow> s\<lparr>shown := cprev s, mpc := GetMessage\<rparr>
      | GetMessage \<Rightarrow> s\<lparr>cticks := 5, since := 0, mpc := Started\<rparr>
      | Started \<Rightarrow> s\<lparr>cprev := 0, mpc := Working\<rparr>
      | Working \<Rightarrow> s\<lparr>mpc := Top\<rparr>)"

fun cursors_run :: "uintptr \<Rightarrow> bool list \<Rightarrow> cursors \<Rightarrow> cursors" where
  "cursors_run wait [] s = s"
| "cursors_run wait (b # bs) s = cursors_run wait bs (if b then main_next s else cursor_next wait s)"

lemma cursor_next_step: "cursor_thread wait s (cursor_next wait s)"
  unfolding cursor_next_def
  by (cases "cpc s") (simp_all only: cursor_pc.case cursor_thread.intros)

lemma main_next_step: "main_thread wait s (main_next s)"
  unfolding main_next_def
  by (cases "mpc s") (simp_all only: main_pc.case main_thread.intros)

lemma cursors_run_reachable:
  "cursors_reachable wait arrow s \<Longrightarrow> cursors_reachable wait arrow (cursors_run wait bs s)"
proof (induction wait bs s rule: cursors_run.induct)
  case (2 wait b bs s)
  then show ?case
    using cursors_reachable.cursor_moves [OF _ cursor_next_step]
      cursors_reachable.main_moves [OF _ main_next_step] by simp
qed simp

lemmas run_defs = cursors_init_def cursor_next_def main_next_def

theorem wait_cursor_needs_five_periods_witness:
  "\<exists>s t. cursors_reachable 2 1 s \<and> cursor_thread 2 s t \<and> cpc s = Decr \<and> cpc t = Show \<and> since t = 5"
proof -
  let ?bs = "[True, True, True, True] @ concat (replicate 4 [False, False, False]) @ [False, False]"
  let ?s = "cursors_run 2 ?bs (cursors_init 1)"
  have r: "cursors_reachable 2 1 ?s"
    by (intro cursors_run_reachable cursors_reachable.start)
  have pc: "cpc ?s = Decr" "cpc (cursor_next 2 ?s) = Show"
    by (simp_all add: run_defs numeral_eq_Suc)
  with wait_cursor_needs_five_periods [OF r cursor_next_step] r show ?thesis
    by (intro exI [of _ ?s] exI [of _ "cursor_next 2 ?s"]) (simp add: cursor_next_step)
qed









section \<open>Requests, message boxes, exceptions\<close>

text \<open>A request for a \<^verbatim>\<open>suneido:\<close> page runs the Go function exactly once, in the main thread,
  whichever thread asks, and the buffer that comes back is the one the Go function filled in.\<close>

theorem suneidoAPP_on_main_thread:
  assumes "delivers (helperHwnd s)" and "App \<lparr>buf_data = url, buf_size = None\<rparr> w = Some (buf, w')"
  shows "suneidoAPP App delivers s thread url w = Some (buf, [main_threadid s], w')"
  using assms by (simp add: suneidoAPP_def helperWndProc_def Let_def)

text \<open>After a failed \<^verbatim>\<open>setupHelper\<close> there is no window, and a request from another thread comes back
  unanswered: the data is still the address and the size was never stored.\<close>

lemma suneidoAPP_unanswered:
  assumes "\<not> delivers (helperHwnd s)" and "thread \<noteq> main_threadid s"
  shows "suneidoAPP App delivers s thread url w = Some (\<lparr>buf_data = url, buf_size = None\<rparr>, [], w)"
  using assms by (simp add: suneidoAPP_def Let_def)

text \<open>A message box frees its text exactly once and answers what the user chose, but only if its
  thread could be created: otherwise the value returned was never set.\<close>

theorem msgbox_result:
  "\<exists>r. msgbox MessageBox thread txt cap typ = (r, [Free txt]) \<and>
     (r = None \<longleftrightarrow> thread = nullptr) \<and>
     (thread \<noteq> nullptr \<longrightarrow> r = Some (MessageBox txt cap (typ OR 0x52000)))"
  by (auto simp: msgbox_def message_thread_def Let_def MB_TASKMODAL_def MB_TOPMOST_def
      MB_SETFOREGROUND_def or.assoc)

theorem msgbox_result_witness:
  "\<exists>r. msgbox (\<lambda>_ _ _. 2) 5 0x40 ''Alert'' 1 = (r, [Free 0x40]) \<and> r = Some 2"
  using msgbox_result [of "\<lambda>_ _ _. 2" 5 "0x40" "''Alert''" 1] by auto

lemma hex_digits_length: "n < 16 ^ Suc k \<Longrightarrow> length (hex_digits n) \<le> Suc k"
proof (induction k arbitrary: n)
  case (Suc k)
  then have "n div 16 < 16 ^ Suc k" by (simp add: div_less_iff_less_mult mult.commute)
  with Suc.IH [of "n div 16"] show ?case by (subst hex_digits.simps) simp
qed (subst hex_digits.simps, simp)

text \<open>The report of an unhandled exception always fits its 64-byte buffer: it is never cut, so it
  ends with the line break, and the process exits with code 1.\<close>

theorem filter_report_fits:
  "filter_exception e =
     Exits 1 (''FATAL: unhandled C exception '' @ hex_digits (unat e) @ [CHR 0x0D, CHR 0x0A])"
proof -
  have "unat e < 16 ^ Suc 7" using unsigned_less [of e] by simp
  then have "length (hex_digits (unat e)) \<le> 8" using hex_digits_length [of "unat e" 7] by simp
  then show ?thesis by (simp add: filter_exception_def msgexit_def errmsg_def snprintf_def)
qed

end
