(* ===== verification/Helpers.thy ===== *)
theory Helpers
  imports Prelude
begin

text \<open>
  \<^verbatim>\<open>builtin/goc/webview2/helpers.h\<close>: string conversion, the owned wide string
  \<^verbatim>\<open>MyString\<close>, and the content type of a \<^verbatim>\<open>suneido:\<close> resource. Memory from the COM task
  allocator is a map from addresses to the terminated wide strings stored there (without their
  terminator); the allocator itself is an argument, and \<open>None\<close> as a result is a read through a
  pointer that is not valid.
\<close>

section \<open>Conversions\<close>

text \<open>\<open>mbstowcs\<close> is the conversion of the C locale; the buffer has room for as many characters as
  the source has bytes and the terminator, and the conversion is cut there.\<close>

definition ConvertCharToWChar :: "(byte list \<Rightarrow> wchar list) \<Rightarrow> byte list \<Rightarrow> wchar list" where
  "ConvertCharToWChar mbstowcs s =
     (let newSize = length s + 1 in take (newSize - 1) (mbstowcs s))"

text \<open>\<open>wctomb s\<close> is the converted string with its terminator, empty when the conversion fails.\<close>

definition ConvertWcharToChar :: "(wchar list \<Rightarrow> byte list) \<Rightarrow> wchar list option \<Rightarrow> byte list option" where
  "ConvertWcharToChar wctomb s =
     (case s of
        None \<Rightarrow> None
      | Some ws \<Rightarrow> (let len = length (wctomb ws) in
                    if len = 0 then None else Some (take len (wctomb ws))))"

section \<open>MyString\<close>

type_synonym wmem = "uintptr \<Rightarrow> wchar list option"

text \<open>The object is its one pointer. Allocating \<open>n\<close> bytes in memory \<open>m\<close> gives \<open>alloc m n\<close>,
  null when memory is short.\<close>

record MyString =
  s_ptr :: uintptr

definition CoTaskMemFree :: "uintptr \<Rightarrow> wmem \<Rightarrow> wmem" where
  "CoTaskMemFree p m = m(p := None)"

definition string_bytes :: "64 word \<Rightarrow> 64 word" where
  "string_bytes len = (len + 1) * 2"

definition MakeString :: "(wmem \<Rightarrow> 64 word \<Rightarrow> uintptr) \<Rightarrow> wchar list \<Rightarrow> wmem \<Rightarrow> uintptr \<times> wmem" where
  "MakeString alloc source m =
     (let len = of_nat (length source); bytes = string_bytes len in
      if bytes \<le> len then (0, m)
      else let p = alloc m bytes in if p \<noteq> 0 then (p, m(p \<mapsto> source)) else (p, m))"

definition MyString_Release :: "MyString \<Rightarrow> wmem \<Rightarrow> MyString \<times> wmem" where
  "MyString_Release x m =
     (if s_ptr x \<noteq> 0 then (x\<lparr>s_ptr := 0\<rparr>, CoTaskMemFree (s_ptr x) m) else (x, m))"

text \<open>\<^verbatim>\<open>Set\<close> releases the old string before it reads the new one.\<close>

definition MyString_Set ::
  "(wmem \<Rightarrow> 64 word \<Rightarrow> uintptr) \<Rightarrow> uintptr \<Rightarrow> MyString \<Rightarrow> wmem \<Rightarrow> (uintptr \<times> MyString \<times> wmem) option" where
  "MyString_Set alloc str x m =
     (case MyString_Release x m of (x, m) \<Rightarrow>
        if str \<noteq> 0
        then (case m str of
                None \<Rightarrow> None
              | Some source \<Rightarrow>
                  (case MakeString alloc source m of (p, m') \<Rightarrow> Some (p, x\<lparr>s_ptr := p\<rparr>, m')))
        else Some (s_ptr x, x, m))"

definition MyString_Get :: "MyString \<Rightarrow> uintptr" where
  "MyString_Get x = s_ptr x"

definition MyString_Copy ::
  "(wmem \<Rightarrow> 64 word \<Rightarrow> uintptr) \<Rightarrow> MyString \<Rightarrow> wmem \<Rightarrow> (uintptr \<times> wmem) option" where
  "MyString_Copy alloc x m =
     (if s_ptr x \<noteq> 0
      then (case m (s_ptr x) of None \<Rightarrow> None | Some source \<Rightarrow> Some (MakeString alloc source m))
      else Some (0, m))"

definition MyString_new :: MyString where
  "MyString_new = \<lparr>s_ptr = 0\<rparr>"

section \<open>Content types\<close>

text \<open>Extensions and types are ASCII, so both the narrow and the wide strings are \<open>string\<close>s here.\<close>

definition mimeMap :: "(string \<times> string) list" where
  "mimeMap =
    [(''.html'', ''text/html''),
     (''.htm'',  ''text/html''),
     (''.css'',  ''text/css''),
     (''.js'',   ''application/javascript''),
     (''.json'', ''application/json''),
     (''.png'',  ''image/png''),
     (''.jpg'',  ''image/jpeg''),
     (''.jpeg'', ''image/jpeg''),
     (''.gif'',  ''image/gif''),
     (''.svg'',  ''image/svg+xml''),
     (''.pdf'',  ''application/pdf''),
     (''.txt'',  ''text/plain'')]"

text \<open>\<^verbatim>\<open>strrchr\<close>: the suffix that starts at the last occurrence.\<close>

fun strrchr :: "string \<Rightarrow> char \<Rightarrow> string option" where
  "strrchr [] c = None"
| "strrchr (x # xs) c =
     (case strrchr xs c of Some t \<Rightarrow> Some t | None \<Rightarrow> if x = c then Some (x # xs) else None)"

definition c_tolower :: "char \<Rightarrow> char" where
  "c_tolower c =
     (let n = of_char c :: nat in if 65 \<le> n \<and> n \<le> 90 then char_of (n + 32) else c)"

definition getContentTypeFromUri :: "string \<Rightarrow> string" where
  "getContentTypeFromUri uri =
     (case strrchr uri (CHR ''.'') of
        None \<Rightarrow> ''text/html''
      | Some dot \<Rightarrow>
          if dot = uri then ''text/html''
          else (case map_of mimeMap (map c_tolower dot) of
                  Some t \<Rightarrow> t
                | None \<Rightarrow> ''text/html''))"

definition buildContentTypeHeader :: "string \<Rightarrow> string" where
  "buildContentTypeHeader uri =
     ''Content-Type: '' @ getContentTypeFromUri uri @ [CHR 0x0D, CHR 0x0A]"

section \<open>Lemmas\<close>

text \<open>The law of an allocator that the string class relies on: what it returns is not in use.\<close>

definition fresh_alloc :: "(wmem \<Rightarrow> 64 word \<Rightarrow> uintptr) \<Rightarrow> bool" where
  "fresh_alloc alloc \<longleftrightarrow> (\<forall>m n. alloc m n \<noteq> 0 \<longrightarrow> m (alloc m n) = None)"

text \<open>The owner of a string holds null or a live block.\<close>

definition MyString_ok :: "MyString \<Rightarrow> wmem \<Rightarrow> bool" where
  "MyString_ok x m \<longleftrightarrow> s_ptr x = 0 \<or> m (s_ptr x) \<noteq> None"

lemma strrchr_dot_suffix: "strrchr u c = Some d \<Longrightarrow> \<exists>b. u = b @ d \<and> hd d = c \<and> c \<notin> set (tl d)"
proof (induction u)
  case (Cons x u)
  show ?case
  proof (cases "strrchr u c")
    case None
    have "c \<notin> set u" using None by (induction u) (auto split: option.splits if_splits)
    with None Cons.prems show ?thesis by (auto split: if_splits)
  next
    case (Some t)
    with Cons obtain b where "u = b @ d" "hd d = c" "c \<notin> set (tl d)" by auto
    then show ?thesis by (intro exI [of _ "x # b"]) simp
  qed
qed simp

lemma c_tolower_dot [simp]: "c_tolower c = CHR ''.'' \<longleftrightarrow> c = CHR ''.''"
proof
  assume h: "c_tolower c = CHR ''.''"
  show "c = CHR ''.''"
  proof (cases "65 \<le> (of_char c :: nat) \<and> (of_char c :: nat) \<le> 90")
    case True
    then have "of_char (c_tolower c) = (of_char c :: nat) + 32"
      by (simp add: c_tolower_def Let_def)
    with h True show ?thesis by simp
  qed (use h in \<open>auto simp: c_tolower_def Let_def\<close>)
qed (simp add: c_tolower_def)

lemma c_tolower_idem [simp]: "c_tolower (c_tolower c) = c_tolower c"
  by (auto simp: c_tolower_def Let_def)

lemma strrchr_tolower:
  "strrchr (map c_tolower u) (CHR ''.'') = map_option (map c_tolower) (strrchr u (CHR ''.''))"
  by (induction u) (auto split: option.splits)

lemma length_dot_eq: "strrchr u c = Some d \<Longrightarrow> d = u \<longleftrightarrow> length d = length u"
  using strrchr_dot_suffix [of u c d] by auto

lemma content_type_tolower: "getContentTypeFromUri (map c_tolower u) = getContentTypeFromUri u"
proof (cases "strrchr u (CHR ''.'')")
  case None
  then show ?thesis by (simp add: getContentTypeFromUri_def strrchr_tolower)
next
  case (Some d)
  then have "strrchr (map c_tolower u) (CHR ''.'') = Some (map c_tolower d)"
    by (simp add: strrchr_tolower)
  then have "map c_tolower d = map c_tolower u \<longleftrightarrow> d = u"
    using length_dot_eq [of "map c_tolower u" _ "map c_tolower d"] length_dot_eq [OF Some] by simp
  with Some show ?thesis by (simp add: getContentTypeFromUri_def strrchr_tolower comp_def)
qed

lemma content_type_in_table:
  "getContentTypeFromUri u \<in> set (map snd mimeMap) \<union> {''text/html''}"
  by (auto simp: getContentTypeFromUri_def dest!: map_of_SomeD split: option.splits intro: rev_image_eqI)

lemma table_printable: "t \<in> set (map snd mimeMap) \<union> {''text/html''} \<Longrightarrow> \<forall>c \<in> set t. 32 \<le> (of_char c :: nat)"
  unfolding mimeMap_def by (elim UnE) (simp_all, auto)

lemma MakeString_null: "MakeString alloc src m = (0, m') \<Longrightarrow> m' = m"
  by (simp add: MakeString_def Let_def split: if_splits)

lemma MakeString_block:
  "MakeString alloc src m = (p, m') \<Longrightarrow> p \<noteq> 0 \<Longrightarrow>
     alloc m (string_bytes (of_nat (length src))) = p \<and> m' = m(p \<mapsto> src)"
  by (auto simp: MakeString_def Let_def split: if_splits)

lemma MakeString_cases:
  assumes "MakeString alloc src m = (p, m')"
  obtains "p = 0" "m' = m" | "p \<noteq> 0" "m' = m(p \<mapsto> src)" "alloc m (string_bytes (of_nat (length src))) = p"
  using assms MakeString_null MakeString_block by (cases "p = 0") blast+

lemma string_roundtrip:
  assumes alloc: "fresh_alloc alloc"
    and src: "m str = Some w" "str \<noteq> 0" "str \<noteq> s_ptr x"
    and set: "MyString_Set alloc str x m = Some (p, x', m')" "p \<noteq> 0"
    and copy: "MyString_Copy alloc x' m' = Some (q, m'')" "q \<noteq> 0"
  shows "MyString_Get x' = p \<and> m' p = Some w \<and> m'' q = Some w \<and> q \<noteq> p
    \<and> CoTaskMemFree q m'' p = Some w \<and> CoTaskMemFree q m'' = m'"
proof -
  obtain x1 m1 where rel: "MyString_Release x m = (x1, m1)" by fastforce
  with src have "m1 str = Some w"
    by (auto simp: MyString_Release_def CoTaskMemFree_def split: if_splits)
  with rel src(2) set have p: "m' = m1(p \<mapsto> w)" "s_ptr x' = p"
    by (auto simp: MyString_Set_def split: prod.splits elim: MakeString_cases)
  with set(2) copy have q: "m'' = m'(q \<mapsto> w)" "alloc m' (string_bytes (of_nat (length w))) = q"
    by (auto simp: MyString_Copy_def elim!: MakeString_cases)
  with alloc copy(2) have "m' q = None" by (auto simp: fresh_alloc_def)
  with p q show ?thesis
    by (auto simp: MyString_Get_def CoTaskMemFree_def fun_eq_iff)
qed

text \<open>An allocator with two blocks, for the witnesses.\<close>

definition two_blocks :: "wmem \<Rightarrow> 64 word \<Rightarrow> uintptr" where
  "two_blocks m n = (if m 0x100 = None then 0x100 else if m 0x200 = None then 0x200 else 0)"

lemma two_blocks_fresh: "fresh_alloc two_blocks"
  by (simp add: fresh_alloc_def two_blocks_def)

section \<open>Properties\<close>

text \<open>The overflow test of \<^verbatim>\<open>MakeString\<close> is exact: the 64-bit byte count is not greater than the
  length precisely when the true count, twice the length plus the terminator, does not fit in 64 bits;
  otherwise the count passed to the allocator is the true one.\<close>

theorem string_bytes_overflow:
  "(string_bytes len \<le> len \<longleftrightarrow> 2 ^ 64 \<le> 2 * (unat len + 1)) \<and>
   (\<not> string_bytes len \<le> len \<longrightarrow> unat (string_bytes len) = 2 * (unat len + 1))"
proof -
  let ?n = "unat len"
  have n: "?n < 2 ^ 64" using unsigned_less [of len] by simp
  have "string_bytes len = of_nat (2 * (?n + 1))" by (simp add: string_bytes_def algebra_simps)
  then have b: "unat (string_bytes len) = (2 * (?n + 1)) mod 2 ^ 64"
    by (simp only: unat_of_nat) simp
  show ?thesis
  proof (cases "2 * (?n + 1) < 2 ^ 64")
    case True
    with b show ?thesis by (simp add: word_le_nat_alt)
  next
    case False
    with n have "(2 * (?n + 1)) mod 2 ^ 64 \<le> ?n"
      by (cases "?n = 2 ^ 64 - 1") (auto simp: mod_if)
    with False b show ?thesis by (simp add: word_le_nat_alt)
  qed
qed

theorem string_bytes_overflow_witness:
  "\<not> string_bytes 7 \<le> 7 \<and> unat (string_bytes 7) = 16"
  using string_bytes_overflow [of 7] by simp

text \<open>Setting a string and copying it out again gives an equal string in a block of its own, whose
  release leaves the object's string alone, provided both allocations succeed and the source is not
  the object's own string.\<close>

theorem MyString_roundtrip:
  assumes "fresh_alloc alloc"
    and "m str = Some w" "str \<noteq> 0" "str \<noteq> s_ptr x"
    and "MyString_Set alloc str x m = Some (p, x', m')" "p \<noteq> 0"
    and "MyString_Copy alloc x' m' = Some (q, m'')" "q \<noteq> 0"
  shows "MyString_Get x' = p \<and> m' p = Some w \<and> m'' q = Some w \<and> q \<noteq> p
    \<and> CoTaskMemFree q m'' p = Some w \<and> CoTaskMemFree q m'' = m'"
  using string_roundtrip [OF assms] .

theorem MyString_roundtrip_witness:
  "\<exists>x' m' m''. MyString_Set two_blocks 0x50 MyString_new [0x50 \<mapsto> [104, 105]] = Some (0x100, x', m') \<and>
     MyString_Copy two_blocks x' m' = Some (0x200, m'') \<and> m'' 0x200 = Some [104, 105]"
proof -
  let ?m = "[0x50 \<mapsto> [104, 105]] :: wmem"
  let ?x = "\<lparr>s_ptr = 0x100\<rparr>" and ?m1 = "?m(0x100 \<mapsto> [104, 105])"
  have s: "MyString_Set two_blocks 0x50 MyString_new ?m = Some (0x100, ?x, ?m1)"
    by (simp add: MyString_Set_def MyString_Release_def MyString_new_def MakeString_def string_bytes_def
        two_blocks_def)
  have c: "MyString_Copy two_blocks ?x ?m1 = Some (0x200, ?m1(0x200 \<mapsto> [104, 105]))"
    by (simp add: MyString_Copy_def MakeString_def string_bytes_def two_blocks_def)
  have "?m 0x50 = Some [104, 105]" "(0x50 :: uintptr) \<noteq> 0" "0x50 \<noteq> s_ptr MyString_new"
    by (simp_all add: MyString_new_def)
  from MyString_roundtrip [OF two_blocks_fresh this s _ c] s c show ?thesis by auto
qed

text \<open>\<^verbatim>\<open>Set\<close> keeps the owner's invariant and never leaks: the old block is gone, the only block that can
  be new is the one now owned, and all other memory is as before.\<close>

theorem MyString_Set_owns:
  assumes "MyString_ok x m" and "fresh_alloc alloc"
    and "MyString_Set alloc str x m = Some (p, x', m')"
  shows "MyString_ok x' m' \<and> s_ptr x' = p \<and>
    (\<forall>q. q \<noteq> p \<longrightarrow> m' q = (if s_ptr x \<noteq> 0 \<and> q = s_ptr x then None else m q))"
proof -
  obtain x1 m1 where rel: "MyString_Release x m = (x1, m1)" by fastforce
  then have m1: "m1 = (if s_ptr x \<noteq> 0 then m(s_ptr x := None) else m)" "s_ptr x1 = 0"
    by (auto simp: MyString_Release_def CoTaskMemFree_def split: if_splits)
  show ?thesis
  proof (cases "str = 0")
    case True
    with assms(3) rel m1 show ?thesis by (auto simp: MyString_Set_def MyString_ok_def)
  next
    case False
    with assms(3) rel obtain src where mk: "MakeString alloc src m1 = (p, m')" "s_ptr x' = p"
      by (auto simp: MyString_Set_def split: option.splits prod.splits)
    then show ?thesis
      using m1 by (auto simp: MyString_ok_def elim!: MakeString_cases)
  qed
qed

theorem MyString_Set_owns_witness:
  "\<exists>x' m'. MyString_Set two_blocks 0x50 \<lparr>s_ptr = 0x70\<rparr> [0x50 \<mapsto> [104, 105], 0x70 \<mapsto> [111]] = Some (0x100, x', m')
     \<and> MyString_ok x' m' \<and> m' 0x70 = None \<and> m' 0x50 = Some [104, 105]"
proof -
  let ?m = "[0x50 \<mapsto> [104, 105], 0x70 \<mapsto> [111]] :: wmem"
  let ?x = "\<lparr>s_ptr = 0x100\<rparr>" and ?m1 = "?m(0x70 := None, 0x100 \<mapsto> [104, 105])"
  have s: "MyString_Set two_blocks 0x50 \<lparr>s_ptr = 0x70\<rparr> ?m = Some (0x100, ?x, ?m1)"
    by (simp add: MyString_Set_def MyString_Release_def CoTaskMemFree_def MakeString_def string_bytes_def
        two_blocks_def)
  have ok: "MyString_ok \<lparr>s_ptr = 0x70\<rparr> ?m" by (simp add: MyString_ok_def)
  from MyString_Set_owns [OF ok two_blocks_fresh s] s show ?thesis by auto
qed

text \<open>Assigning a string to itself is not safe: when the argument is the pointer the object
  already owns, \<^verbatim>\<open>Set\<close> frees it before it reads it.\<close>

theorem MyString_Set_self_faults:
  "s_ptr x \<noteq> 0 \<Longrightarrow> MyString_Set alloc (MyString_Get x) x m = None"
  by (simp add: MyString_Set_def MyString_Release_def MyString_Get_def CoTaskMemFree_def)

theorem MyString_Set_self_faults_witness:
  "MyString_Set two_blocks (MyString_Get \<lparr>s_ptr = 0x70\<rparr>) \<lparr>s_ptr = 0x70\<rparr> [0x70 \<mapsto> [111]] = None"
  using MyString_Set_self_faults [of "\<lparr>s_ptr = 0x70\<rparr>" two_blocks] by simp

text \<open>The content type does not depend on the case of the resource's name.\<close>

theorem content_type_case_insensitive:
  "map c_tolower u = map c_tolower v \<Longrightarrow> getContentTypeFromUri u = getContentTypeFromUri v"
  by (metis content_type_tolower)

theorem content_type_case_insensitive_witness:
  "map c_tolower ''a.PNG'' = map c_tolower ''a.png'' \<and>
   getContentTypeFromUri ''a.PNG'' = getContentTypeFromUri ''a.png''"
proof -
  have e: "map c_tolower ''a.PNG'' = map c_tolower ''a.png''" by code_simp
  from e content_type_case_insensitive [OF e] show ?thesis by blast
qed

text \<open>Whatever bytes a page puts in a resource name, the header line built from it has no control
  character before its final line break, so a name cannot add header lines.\<close>

theorem content_header_one_line:
  "\<exists>l. buildContentTypeHeader u = l @ [CHR 0x0D, CHR 0x0A] \<and> (\<forall>c \<in> set l. 32 \<le> (of_char c :: nat))"
proof -
  have "\<forall>c \<in> set (getContentTypeFromUri u). 32 \<le> (of_char c :: nat)"
    using table_printable [OF content_type_in_table] .
  then show ?thesis
    by (intro exI [of _ "''Content-Type: '' @ getContentTypeFromUri u"]) (auto simp: buildContentTypeHeader_def)
qed

theorem content_header_one_line_witness:
  "\<exists>l. buildContentTypeHeader ''x.js'' = l @ [CHR 0x0D, CHR 0x0A] \<and> (\<forall>c \<in> set l. 32 \<le> (of_char c :: nat))"
  by (rule content_header_one_line)

end
