(* ===== verification/WebView2Abi.thy ===== *)
theory WebView2Abi
  imports Helpers
begin

text \<open>
  \<^verbatim>\<open>builtin/goc/webview2/WebView2.h\<close>: the binary interface between the repository and the
  browser engine. The header declares each interface twice, as an abstract C++ class and as a C structure of
  function pointers, and gives each an identifier twice, as a constant and as a \<^verbatim>\<open>uuid\<close> string. This theory
  has the form in which both views are translated, each from its own lines, where a method is its return type, its name
  and its parameter declarations (attribute comments and SAL annotations are dropped), and the identifiers and
  enumerations the repository uses. The declarations of all interfaces are in \<open>AbiBrowser\<close>, \<open>AbiServices\<close>, \<open>AbiObjects\<close> and
  \<open>AbiHandlers\<close>.
\<close>

datatype cmethod = Method string string "string list"

text \<open>A C++ interface: its own methods after those of its base.\<close>

datatype iface = Root string "cmethod list" | Derived string iface "cmethod list"

fun iface_name :: "iface \<Rightarrow> string" where
  "iface_name (Root n ms) = n"
| "iface_name (Derived n b ms) = n"

text \<open>The order in which a C++ compiler lays out the virtual methods of single inheritance. A slot is a method and the
  interface that declares it.\<close>

datatype slot = Slot iface cmethod

fun slot_method :: "slot \<Rightarrow> cmethod" where
  "slot_method (Slot d m) = m"

fun cpp_layout :: "iface \<Rightarrow> slot list" where
  "cpp_layout (Root n ms) = map (Slot (Root n ms)) ms"
| "cpp_layout (Derived n b ms) = cpp_layout b @ map (Slot (Derived n b ms)) ms"

text \<open>A member of a C table, \<^verbatim>\<open>DECLSPEC_XFGVIRT(I, m) T ( STDMETHODCALLTYPE *m )( J * This, p1, ...)\<close>: the interface
  \<^verbatim>\<open>I\<close> that declares the method, the return type, the name of the member and its parameters after \<^verbatim>\<open>This\<close>. A table
  has the interface \<^verbatim>\<open>J\<close> that \<^verbatim>\<open>This\<close> points to in each of its members, and the members.\<close>

datatype cdecl = CDecl string string string "string list"

datatype vtable = Vtable string "cdecl list"

fun slots_of :: "vtable \<Rightarrow> cdecl list" where
  "slots_of (Vtable i ss) = ss"

text \<open>The C table that an interface should have.\<close>

fun c_method :: "string \<Rightarrow> cmethod \<Rightarrow> cdecl" where
  "c_method n (Method r m ps) = CDecl n r m ps"

fun c_decl :: "slot \<Rightarrow> cdecl" where
  "c_decl (Slot d m) = c_method (iface_name d) m"

definition c_view :: "iface \<Rightarrow> vtable" where
  "c_view i = Vtable (iface_name i) (map c_decl (cpp_layout i))"

text \<open>\<^verbatim>\<open>IUnknown\<close> of the Windows SDK.\<close>

definition IUnknown_QueryInterface :: cmethod where
  "IUnknown_QueryInterface = Method ''HRESULT'' ''QueryInterface'' [''REFIID riid'', ''void **ppvObject'']"

definition IUnknown_AddRef :: cmethod where
  "IUnknown_AddRef = Method ''ULONG'' ''AddRef'' []"

definition IUnknown_Release :: cmethod where
  "IUnknown_Release = Method ''ULONG'' ''Release'' []"

definition IUnknown :: iface where
  "IUnknown = Root ''IUnknown'' [IUnknown_QueryInterface, IUnknown_AddRef, IUnknown_Release]"

text \<open>Its methods as members of the C tables, which all repeat them.\<close>

definition IUnknown_QueryInterface_C :: cdecl where
  "IUnknown_QueryInterface_C = CDecl ''IUnknown'' ''HRESULT'' ''QueryInterface'' [''REFIID riid'', ''void **ppvObject'']"

definition IUnknown_AddRef_C :: cdecl where
  "IUnknown_AddRef_C = CDecl ''IUnknown'' ''ULONG'' ''AddRef'' []"

definition IUnknown_Release_C :: cdecl where
  "IUnknown_Release_C = CDecl ''IUnknown'' ''ULONG'' ''Release'' []"

text \<open>The layout of a declared interface in terms of its name, which keeps the declarations folded.\<close>

lemma layout_Root: "i = Root n ms \<Longrightarrow> cpp_layout i = map (Slot i) ms"
  by simp

lemma layout_Derived: "i = Derived n b ms \<Longrightarrow> cpp_layout i = cpp_layout b @ map (Slot i) ms"
  by simp

lemma c_view_Derived: "i = Derived n b ms \<Longrightarrow> c_view i = Vtable n (slots_of (c_view b) @ map (c_method n) ms)"
  by (simp add: c_view_def)

text \<open>A table is right when it has the members of the table of the base, and then those that the class declares.\<close>

lemma views_Derived:
  assumes "i = Derived n b ms" "map (c_method n) ms = ds" "bv = c_view b" "v = Vtable n (slots_of bv @ ds)"
  shows "v = c_view i"
  using assms(2-4) c_view_Derived [OF assms(1)] by simp

lemma views_IUnknown:
  assumes "i = Derived n IUnknown ms" "map (c_method n) ms = ds"
    "v = Vtable n (IUnknown_QueryInterface_C # IUnknown_AddRef_C # IUnknown_Release_C # ds)"
  shows "v = c_view i"
  using assms(2,3) c_view_Derived [OF assms(1)]
  by (simp add: c_view_def IUnknown_def IUnknown_QueryInterface_def IUnknown_AddRef_def IUnknown_Release_def
      IUnknown_QueryInterface_C_def IUnknown_AddRef_C_def IUnknown_Release_C_def)

lemmas table_simps = slots_of.simps append.simps

lemmas layout_simps = layout_Root [OF IUnknown_def] list.map append.simps

text \<open>The text form of an identifier.\<close>

definition hex_digit :: "nat \<Rightarrow> char" where
  "hex_digit n = ''0123456789abcdef'' ! n"

fun hex_pad :: "nat \<Rightarrow> nat \<Rightarrow> string" where
  "hex_pad 0 n = []"
| "hex_pad (Suc k) n = hex_pad k (n div 16) @ [hex_digit (n mod 16)]"

fun guid_string :: "guid \<Rightarrow> string" where
  "guid_string (GUID d1 d2 d3 a b c d e f g h) =
     hex_pad 8 (unat d1) @ ''-'' @ hex_pad 4 (unat d2) @ ''-'' @ hex_pad 4 (unat d3) @ ''-'' @
     hex_pad 2 (unat a) @ hex_pad 2 (unat b) @ ''-'' @
     hex_pad 2 (unat c) @ hex_pad 2 (unat d) @ hex_pad 2 (unat e) @ hex_pad 2 (unat f) @
     hex_pad 2 (unat g) @ hex_pad 2 (unat h)"

section \<open>Enumerations\<close>

datatype COREWEBVIEW2_PREFERRED_COLOR_SCHEME =
    COREWEBVIEW2_PREFERRED_COLOR_SCHEME_AUTO
  | COREWEBVIEW2_PREFERRED_COLOR_SCHEME_LIGHT
  | COREWEBVIEW2_PREFERRED_COLOR_SCHEME_DARK

fun COREWEBVIEW2_PREFERRED_COLOR_SCHEME_value :: "COREWEBVIEW2_PREFERRED_COLOR_SCHEME \<Rightarrow> 32 word" where
  "COREWEBVIEW2_PREFERRED_COLOR_SCHEME_value COREWEBVIEW2_PREFERRED_COLOR_SCHEME_AUTO = 0"
| "COREWEBVIEW2_PREFERRED_COLOR_SCHEME_value COREWEBVIEW2_PREFERRED_COLOR_SCHEME_LIGHT = 1"
| "COREWEBVIEW2_PREFERRED_COLOR_SCHEME_value COREWEBVIEW2_PREFERRED_COLOR_SCHEME_DARK = 2"

datatype COREWEBVIEW2_KEY_EVENT_KIND =
    COREWEBVIEW2_KEY_EVENT_KIND_KEY_DOWN
  | COREWEBVIEW2_KEY_EVENT_KIND_KEY_UP
  | COREWEBVIEW2_KEY_EVENT_KIND_SYSTEM_KEY_DOWN
  | COREWEBVIEW2_KEY_EVENT_KIND_SYSTEM_KEY_UP

fun COREWEBVIEW2_KEY_EVENT_KIND_value :: "COREWEBVIEW2_KEY_EVENT_KIND \<Rightarrow> 32 word" where
  "COREWEBVIEW2_KEY_EVENT_KIND_value COREWEBVIEW2_KEY_EVENT_KIND_KEY_DOWN = 0"
| "COREWEBVIEW2_KEY_EVENT_KIND_value COREWEBVIEW2_KEY_EVENT_KIND_KEY_UP = 1"
| "COREWEBVIEW2_KEY_EVENT_KIND_value COREWEBVIEW2_KEY_EVENT_KIND_SYSTEM_KEY_DOWN = 2"
| "COREWEBVIEW2_KEY_EVENT_KIND_value COREWEBVIEW2_KEY_EVENT_KIND_SYSTEM_KEY_UP = 3"

datatype COREWEBVIEW2_MOVE_FOCUS_REASON =
    COREWEBVIEW2_MOVE_FOCUS_REASON_PROGRAMMATIC
  | COREWEBVIEW2_MOVE_FOCUS_REASON_NEXT
  | COREWEBVIEW2_MOVE_FOCUS_REASON_PREVIOUS

fun COREWEBVIEW2_MOVE_FOCUS_REASON_value :: "COREWEBVIEW2_MOVE_FOCUS_REASON \<Rightarrow> 32 word" where
  "COREWEBVIEW2_MOVE_FOCUS_REASON_value COREWEBVIEW2_MOVE_FOCUS_REASON_PROGRAMMATIC = 0"
| "COREWEBVIEW2_MOVE_FOCUS_REASON_value COREWEBVIEW2_MOVE_FOCUS_REASON_NEXT = 1"
| "COREWEBVIEW2_MOVE_FOCUS_REASON_value COREWEBVIEW2_MOVE_FOCUS_REASON_PREVIOUS = 2"

datatype COREWEBVIEW2_WEB_RESOURCE_CONTEXT =
    COREWEBVIEW2_WEB_RESOURCE_CONTEXT_ALL
  | COREWEBVIEW2_WEB_RESOURCE_CONTEXT_DOCUMENT
  | COREWEBVIEW2_WEB_RESOURCE_CONTEXT_STYLESHEET
  | COREWEBVIEW2_WEB_RESOURCE_CONTEXT_IMAGE
  | COREWEBVIEW2_WEB_RESOURCE_CONTEXT_MEDIA
  | COREWEBVIEW2_WEB_RESOURCE_CONTEXT_FONT
  | COREWEBVIEW2_WEB_RESOURCE_CONTEXT_SCRIPT
  | COREWEBVIEW2_WEB_RESOURCE_CONTEXT_XML_HTTP_REQUEST
  | COREWEBVIEW2_WEB_RESOURCE_CONTEXT_FETCH
  | COREWEBVIEW2_WEB_RESOURCE_CONTEXT_TEXT_TRACK
  | COREWEBVIEW2_WEB_RESOURCE_CONTEXT_EVENT_SOURCE
  | COREWEBVIEW2_WEB_RESOURCE_CONTEXT_WEBSOCKET
  | COREWEBVIEW2_WEB_RESOURCE_CONTEXT_MANIFEST
  | COREWEBVIEW2_WEB_RESOURCE_CONTEXT_SIGNED_EXCHANGE
  | COREWEBVIEW2_WEB_RESOURCE_CONTEXT_PING
  | COREWEBVIEW2_WEB_RESOURCE_CONTEXT_CSP_VIOLATION_REPORT
  | COREWEBVIEW2_WEB_RESOURCE_CONTEXT_OTHER

fun COREWEBVIEW2_WEB_RESOURCE_CONTEXT_value :: "COREWEBVIEW2_WEB_RESOURCE_CONTEXT \<Rightarrow> 32 word" where
  "COREWEBVIEW2_WEB_RESOURCE_CONTEXT_value COREWEBVIEW2_WEB_RESOURCE_CONTEXT_ALL = 0"
| "COREWEBVIEW2_WEB_RESOURCE_CONTEXT_value COREWEBVIEW2_WEB_RESOURCE_CONTEXT_DOCUMENT = 1"
| "COREWEBVIEW2_WEB_RESOURCE_CONTEXT_value COREWEBVIEW2_WEB_RESOURCE_CONTEXT_STYLESHEET = 2"
| "COREWEBVIEW2_WEB_RESOURCE_CONTEXT_value COREWEBVIEW2_WEB_RESOURCE_CONTEXT_IMAGE = 3"
| "COREWEBVIEW2_WEB_RESOURCE_CONTEXT_value COREWEBVIEW2_WEB_RESOURCE_CONTEXT_MEDIA = 4"
| "COREWEBVIEW2_WEB_RESOURCE_CONTEXT_value COREWEBVIEW2_WEB_RESOURCE_CONTEXT_FONT = 5"
| "COREWEBVIEW2_WEB_RESOURCE_CONTEXT_value COREWEBVIEW2_WEB_RESOURCE_CONTEXT_SCRIPT = 6"
| "COREWEBVIEW2_WEB_RESOURCE_CONTEXT_value COREWEBVIEW2_WEB_RESOURCE_CONTEXT_XML_HTTP_REQUEST = 7"
| "COREWEBVIEW2_WEB_RESOURCE_CONTEXT_value COREWEBVIEW2_WEB_RESOURCE_CONTEXT_FETCH = 8"
| "COREWEBVIEW2_WEB_RESOURCE_CONTEXT_value COREWEBVIEW2_WEB_RESOURCE_CONTEXT_TEXT_TRACK = 9"
| "COREWEBVIEW2_WEB_RESOURCE_CONTEXT_value COREWEBVIEW2_WEB_RESOURCE_CONTEXT_EVENT_SOURCE = 10"
| "COREWEBVIEW2_WEB_RESOURCE_CONTEXT_value COREWEBVIEW2_WEB_RESOURCE_CONTEXT_WEBSOCKET = 11"
| "COREWEBVIEW2_WEB_RESOURCE_CONTEXT_value COREWEBVIEW2_WEB_RESOURCE_CONTEXT_MANIFEST = 12"
| "COREWEBVIEW2_WEB_RESOURCE_CONTEXT_value COREWEBVIEW2_WEB_RESOURCE_CONTEXT_SIGNED_EXCHANGE = 13"
| "COREWEBVIEW2_WEB_RESOURCE_CONTEXT_value COREWEBVIEW2_WEB_RESOURCE_CONTEXT_PING = 14"
| "COREWEBVIEW2_WEB_RESOURCE_CONTEXT_value COREWEBVIEW2_WEB_RESOURCE_CONTEXT_CSP_VIOLATION_REPORT = 15"
| "COREWEBVIEW2_WEB_RESOURCE_CONTEXT_value COREWEBVIEW2_WEB_RESOURCE_CONTEXT_OTHER = 16"

datatype COREWEBVIEW2_PRINT_DIALOG_KIND =
    COREWEBVIEW2_PRINT_DIALOG_KIND_BROWSER
  | COREWEBVIEW2_PRINT_DIALOG_KIND_SYSTEM

fun COREWEBVIEW2_PRINT_DIALOG_KIND_value :: "COREWEBVIEW2_PRINT_DIALOG_KIND \<Rightarrow> 32 word" where
  "COREWEBVIEW2_PRINT_DIALOG_KIND_value COREWEBVIEW2_PRINT_DIALOG_KIND_BROWSER = 0"
| "COREWEBVIEW2_PRINT_DIALOG_KIND_value COREWEBVIEW2_PRINT_DIALOG_KIND_SYSTEM = 1"

section \<open>Identifiers\<close>

definition IID_ICoreWebView2 :: guid where
  "IID_ICoreWebView2 =
     GUID 0x76eceacb 0x0462 0x4d94 0xac 0x83 0x42 0x3a 0x67 0x93 0x77 0x5e"

definition IID_ICoreWebView2_2 :: guid where
  "IID_ICoreWebView2_2 =
     GUID 0x9E8F0CF8 0xE670 0x4B5E 0xB2 0xBC 0x73 0xE0 0x61 0xE3 0x18 0x4C"

definition IID_ICoreWebView2_11 :: guid where
  "IID_ICoreWebView2_11 =
     GUID 0x0be78e56 0xc193 0x4051 0xb9 0x43 0x23 0xb4 0x60 0xc0 0x8b 0xdb"

definition IID_ICoreWebView2_13 :: guid where
  "IID_ICoreWebView2_13 =
     GUID 0xF75F09A8 0x667E 0x4983 0x88 0xD6 0xC8 0x77 0x3F 0x31 0x5E 0x84"

definition IID_ICoreWebView2_16 :: guid where
  "IID_ICoreWebView2_16 =
     GUID 0x0EB34DC9 0x9F91 0x41E1 0x86 0x39 0x95 0xCD 0x59 0x43 0x90 0x6B"

definition IID_ICoreWebView2Controller :: guid where
  "IID_ICoreWebView2Controller =
     GUID 0x4d00c0d1 0x9434 0x4eb6 0x80 0x78 0x86 0x97 0xa5 0x60 0x33 0x4f"

definition IID_ICoreWebView2Environment :: guid where
  "IID_ICoreWebView2Environment =
     GUID 0xb96d755e 0x0319 0x4e92 0xa2 0x96 0x23 0x43 0x6f 0x46 0xa1 0xfc"

definition IID_ICoreWebView2EnvironmentOptions :: guid where
  "IID_ICoreWebView2EnvironmentOptions =
     GUID 0x2fde08a8 0x1e9a 0x4766 0x8c 0x05 0x95 0xa9 0xce 0xb9 0xd1 0xc5"

definition IID_ICoreWebView2EnvironmentOptions2 :: guid where
  "IID_ICoreWebView2EnvironmentOptions2 =
     GUID 0xFF85C98A 0x1BA7 0x4A6B 0x90 0xC8 0x2B 0x75 0x2C 0x89 0xE9 0xE2"

definition IID_ICoreWebView2EnvironmentOptions3 :: guid where
  "IID_ICoreWebView2EnvironmentOptions3 =
     GUID 0x4A5C436E 0xA9E3 0x4A2E 0x89 0xC3 0x91 0x0D 0x35 0x13 0xF5 0xCC"

definition IID_ICoreWebView2EnvironmentOptions4 :: guid where
  "IID_ICoreWebView2EnvironmentOptions4 =
     GUID 0xac52d13f 0x0d38 0x475a 0x9d 0xca 0x87 0x65 0x80 0xd6 0x79 0x3e"

definition IID_ICoreWebView2EnvironmentOptions5 :: guid where
  "IID_ICoreWebView2EnvironmentOptions5 =
     GUID 0x0AE35D64 0xC47F 0x4464 0x81 0x4E 0x25 0x9C 0x34 0x5D 0x15 0x01"

definition IID_ICoreWebView2EnvironmentOptions6 :: guid where
  "IID_ICoreWebView2EnvironmentOptions6 =
     GUID 0x57D29CC3 0xC84F 0x42A0 0xB0 0xE2 0xEF 0xFB 0xD5 0xE1 0x79 0xDE"

definition IID_ICoreWebView2CustomSchemeRegistration :: guid where
  "IID_ICoreWebView2CustomSchemeRegistration =
     GUID 0xd60ac92c 0x37a6 0x4b26 0xa3 0x9e 0x95 0xcf 0xe5 0x90 0x47 0xbb"

definition IID_ICoreWebView2WebResourceRequest :: guid where
  "IID_ICoreWebView2WebResourceRequest =
     GUID 0x97055cd4 0x512c 0x4264 0x8b 0x5f 0xe3 0xf4 0x46 0xce 0xa6 0xa5"

definition IID_ICoreWebView2WebResourceRequestedEventArgs :: guid where
  "IID_ICoreWebView2WebResourceRequestedEventArgs =
     GUID 0x453e667f 0x12c7 0x49d4 0xbe 0x6d 0xdd 0xbe 0x79 0x56 0xf5 0x7a"

definition IID_ICoreWebView2NewWindowRequestedEventArgs :: guid where
  "IID_ICoreWebView2NewWindowRequestedEventArgs =
     GUID 0x34acb11c 0xfc37 0x4418 0x91 0x32 0xf9 0xc2 0x1d 0x1e 0xaf 0xb9"

definition IID_ICoreWebView2Settings :: guid where
  "IID_ICoreWebView2Settings =
     GUID 0xe562e4f0 0xd7fa 0x43ac 0x8d 0x71 0xc0 0x51 0x50 0x49 0x9f 0x00"

definition IID_ICoreWebView2Profile :: guid where
  "IID_ICoreWebView2Profile =
     GUID 0x79110ad3 0xcd5d 0x4373 0x8b 0xc3 0xc6 0x06 0x58 0xf1 0x7a 0x5f"

definition IID_ICoreWebView2AcceleratorKeyPressedEventArgs :: guid where
  "IID_ICoreWebView2AcceleratorKeyPressedEventArgs =
     GUID 0x9f760f8a 0xfb79 0x42be 0x99 0x90 0x7b 0x56 0x90 0x0f 0xa9 0xc7"

definition IID_ICoreWebView2AcceleratorKeyPressedEventHandler :: guid where
  "IID_ICoreWebView2AcceleratorKeyPressedEventHandler =
     GUID 0xb29c7e28 0xfa79 0x41a8 0x8e 0x44 0x65 0x81 0x1c 0x76 0xdc 0xb2"

definition IID_ICoreWebView2ContextMenuRequestedEventHandler :: guid where
  "IID_ICoreWebView2ContextMenuRequestedEventHandler =
     GUID 0x04d3fe1d 0xab87 0x42fb 0xa8 0x98 0xda 0x24 0x1d 0x35 0xb6 0x3c"

definition IID_ICoreWebView2CreateCoreWebView2ControllerCompletedHandler :: guid where
  "IID_ICoreWebView2CreateCoreWebView2ControllerCompletedHandler =
     GUID 0x6c4819f3 0xc9b7 0x4260 0x81 0x27 0xc9 0xf5 0xbd 0xe7 0xf6 0x8c"

definition IID_ICoreWebView2CreateCoreWebView2EnvironmentCompletedHandler :: guid where
  "IID_ICoreWebView2CreateCoreWebView2EnvironmentCompletedHandler =
     GUID 0x4e8a3389 0xc9d8 0x4bd2 0xb6 0xb5 0x12 0x4f 0xee 0x6c 0xc1 0x4d"

definition IID_ICoreWebView2DOMContentLoadedEventHandler :: guid where
  "IID_ICoreWebView2DOMContentLoadedEventHandler =
     GUID 0x4BAC7E9C 0x199E 0x49ED 0x87 0xED 0x24 0x93 0x03 0xAC 0xF0 0x19"

definition IID_ICoreWebView2NavigationCompletedEventHandler :: guid where
  "IID_ICoreWebView2NavigationCompletedEventHandler =
     GUID 0xd33a35bf 0x1c49 0x4f98 0x93 0xab 0x00 0x6e 0x05 0x33 0xfe 0x1c"

definition IID_ICoreWebView2NewWindowRequestedEventHandler :: guid where
  "IID_ICoreWebView2NewWindowRequestedEventHandler =
     GUID 0xd4c185fe 0xc81c 0x4989 0x97 0xaf 0x2d 0x3f 0xa7 0xab 0x56 0x51"

definition IID_ICoreWebView2WebResourceRequestedEventHandler :: guid where
  "IID_ICoreWebView2WebResourceRequestedEventHandler =
     GUID 0xab00b74c 0x15f1 0x4646 0x80 0xe8 0xe7 0x63 0x41 0xd2 0x5d 0x71"

definition IID_ICoreWebView2WebResourceResponse :: guid where
  "IID_ICoreWebView2WebResourceResponse =
     GUID 0xaafcc94f 0xfa27 0x48fd 0x97 0xdf 0x83 0x0e 0xf7 0x5a 0xae 0xc9"

definition IID_ICoreWebView2ContextMenuRequestedEventArgs :: guid where
  "IID_ICoreWebView2ContextMenuRequestedEventArgs =
     GUID 0xa1d309ee 0xc03f 0x11eb 0x85 0x29 0x02 0x42 0xac 0x13 0x00 0x03"
section \<open>All identifiers together\<close>

text \<open>Each identifier with its \<^verbatim>\<open>uuid\<close> string.\<close>

definition uuid_table :: "(guid \<times> string) list" where
  "uuid_table =
    [(IID_ICoreWebView2, ''76eceacb-0462-4d94-ac83-423a6793775e''),
     (IID_ICoreWebView2_2, ''9E8F0CF8-E670-4B5E-B2BC-73E061E3184C''),
     (IID_ICoreWebView2_11, ''0be78e56-c193-4051-b943-23b460c08bdb''),
     (IID_ICoreWebView2_13, ''F75F09A8-667E-4983-88D6-C8773F315E84''),
     (IID_ICoreWebView2_16, ''0EB34DC9-9F91-41E1-8639-95CD5943906B''),
     (IID_ICoreWebView2Controller, ''4d00c0d1-9434-4eb6-8078-8697a560334f''),
     (IID_ICoreWebView2Environment, ''b96d755e-0319-4e92-a296-23436f46a1fc''),
     (IID_ICoreWebView2EnvironmentOptions, ''2fde08a8-1e9a-4766-8c05-95a9ceb9d1c5''),
     (IID_ICoreWebView2EnvironmentOptions2, ''FF85C98A-1BA7-4A6B-90C8-2B752C89E9E2''),
     (IID_ICoreWebView2EnvironmentOptions3, ''4A5C436E-A9E3-4A2E-89C3-910D3513F5CC''),
     (IID_ICoreWebView2EnvironmentOptions4, ''ac52d13f-0d38-475a-9dca-876580d6793e''),
     (IID_ICoreWebView2EnvironmentOptions5, ''0AE35D64-C47F-4464-814E-259C345D1501''),
     (IID_ICoreWebView2EnvironmentOptions6, ''57D29CC3-C84F-42A0-B0E2-EFFBD5E179DE''),
     (IID_ICoreWebView2CustomSchemeRegistration, ''d60ac92c-37a6-4b26-a39e-95cfe59047bb''),
     (IID_ICoreWebView2WebResourceRequest, ''97055cd4-512c-4264-8b5f-e3f446cea6a5''),
     (IID_ICoreWebView2WebResourceRequestedEventArgs, ''453e667f-12c7-49d4-be6d-ddbe7956f57a''),
     (IID_ICoreWebView2NewWindowRequestedEventArgs, ''34acb11c-fc37-4418-9132-f9c21d1eafb9''),
     (IID_ICoreWebView2Settings, ''e562e4f0-d7fa-43ac-8d71-c05150499f00''),
     (IID_ICoreWebView2Profile, ''79110ad3-cd5d-4373-8bc3-c60658f17a5f''),
     (IID_ICoreWebView2AcceleratorKeyPressedEventArgs, ''9f760f8a-fb79-42be-9990-7b56900fa9c7''),
     (IID_ICoreWebView2AcceleratorKeyPressedEventHandler, ''b29c7e28-fa79-41a8-8e44-65811c76dcb2''),
     (IID_ICoreWebView2ContextMenuRequestedEventHandler, ''04d3fe1d-ab87-42fb-a898-da241d35b63c''),
     (IID_ICoreWebView2CreateCoreWebView2ControllerCompletedHandler, ''6c4819f3-c9b7-4260-8127-c9f5bde7f68c''),
     (IID_ICoreWebView2CreateCoreWebView2EnvironmentCompletedHandler, ''4e8a3389-c9d8-4bd2-b6b5-124fee6cc14d''),
     (IID_ICoreWebView2DOMContentLoadedEventHandler, ''4BAC7E9C-199E-49ED-87ED-249303ACF019''),
     (IID_ICoreWebView2NavigationCompletedEventHandler, ''d33a35bf-1c49-4f98-93ab-006e0533fe1c''),
     (IID_ICoreWebView2NewWindowRequestedEventHandler, ''d4c185fe-c81c-4989-97af-2d3fa7ab5651''),
     (IID_ICoreWebView2WebResourceRequestedEventHandler, ''ab00b74c-15f1-4646-80e8-e76341d25d71''),
     (IID_ICoreWebView2WebResourceResponse, ''aafcc94f-fa27-48fd-97df-830ef75aaec9''),
     (IID_ICoreWebView2ContextMenuRequestedEventArgs, ''a1d309ee-c03f-11eb-8529-0242ac130003'')]"

lemmas iid_defs = IID_ICoreWebView2_def
  IID_ICoreWebView2_2_def
  IID_ICoreWebView2_11_def
  IID_ICoreWebView2_13_def
  IID_ICoreWebView2_16_def
  IID_ICoreWebView2Controller_def
  IID_ICoreWebView2Environment_def
  IID_ICoreWebView2EnvironmentOptions_def
  IID_ICoreWebView2EnvironmentOptions2_def
  IID_ICoreWebView2EnvironmentOptions3_def
  IID_ICoreWebView2EnvironmentOptions4_def
  IID_ICoreWebView2EnvironmentOptions5_def
  IID_ICoreWebView2EnvironmentOptions6_def
  IID_ICoreWebView2CustomSchemeRegistration_def
  IID_ICoreWebView2WebResourceRequest_def
  IID_ICoreWebView2WebResourceRequestedEventArgs_def
  IID_ICoreWebView2NewWindowRequestedEventArgs_def
  IID_ICoreWebView2Settings_def
  IID_ICoreWebView2Profile_def
  IID_ICoreWebView2AcceleratorKeyPressedEventArgs_def
  IID_ICoreWebView2AcceleratorKeyPressedEventHandler_def
  IID_ICoreWebView2ContextMenuRequestedEventHandler_def
  IID_ICoreWebView2CreateCoreWebView2ControllerCompletedHandler_def
  IID_ICoreWebView2CreateCoreWebView2EnvironmentCompletedHandler_def
  IID_ICoreWebView2DOMContentLoadedEventHandler_def
  IID_ICoreWebView2NavigationCompletedEventHandler_def
  IID_ICoreWebView2NewWindowRequestedEventHandler_def
  IID_ICoreWebView2WebResourceRequestedEventHandler_def
  IID_ICoreWebView2WebResourceResponse_def
  IID_ICoreWebView2ContextMenuRequestedEventArgs_def

lemma hex_digits_eq:
  "hex_digit 0 = CHR ''0''" "hex_digit (Suc 0) = CHR ''1''"
  "hex_digit 2 = CHR ''2''" "hex_digit 3 = CHR ''3''" "hex_digit 4 = CHR ''4''"
  "hex_digit 5 = CHR ''5''" "hex_digit 6 = CHR ''6''" "hex_digit 7 = CHR ''7''"
  "hex_digit 8 = CHR ''8''" "hex_digit 9 = CHR ''9''" "hex_digit 10 = CHR ''a''"
  "hex_digit 11 = CHR ''b''" "hex_digit 12 = CHR ''c''" "hex_digit 13 = CHR ''d''"
  "hex_digit 14 = CHR ''e''" "hex_digit 15 = CHR ''f''"
  by (simp_all add: hex_digit_def)

lemma tolower_hex:
  "c_tolower (CHR ''0'') = CHR ''0''" "c_tolower (CHR ''1'') = CHR ''1''" "c_tolower (CHR ''2'') = CHR ''2''"
  "c_tolower (CHR ''3'') = CHR ''3''" "c_tolower (CHR ''4'') = CHR ''4''" "c_tolower (CHR ''5'') = CHR ''5''"
  "c_tolower (CHR ''6'') = CHR ''6''" "c_tolower (CHR ''7'') = CHR ''7''" "c_tolower (CHR ''8'') = CHR ''8''"
  "c_tolower (CHR ''9'') = CHR ''9''" "c_tolower (CHR ''a'') = CHR ''a''" "c_tolower (CHR ''b'') = CHR ''b''"
  "c_tolower (CHR ''c'') = CHR ''c''" "c_tolower (CHR ''d'') = CHR ''d''" "c_tolower (CHR ''e'') = CHR ''e''"
  "c_tolower (CHR ''f'') = CHR ''f''" "c_tolower (CHR ''A'') = CHR ''a''" "c_tolower (CHR ''B'') = CHR ''b''"
  "c_tolower (CHR ''C'') = CHR ''c''" "c_tolower (CHR ''D'') = CHR ''d''" "c_tolower (CHR ''E'') = CHR ''e''"
  "c_tolower (CHR ''F'') = CHR ''f''" "c_tolower (CHR ''-'') = CHR ''-''"
  by code_simp+

lemma hex_pad_add: "hex_pad (a + b) n = hex_pad a (n div 16 ^ b) @ hex_pad b n"
  by (induction b arbitrary: n) (simp_all add: div_mult2_eq)

lemma hex_pad_2: "hex_pad 2 n = [hex_digit (n div 16 mod 16), hex_digit (n mod 16)]"
  by (simp add: numeral_2_eq_2)

lemmas hex_pad_eqs = hex_pad_2 hex_pad_add [of 2 2, simplified] hex_pad_add [of 4 4, simplified]

lemma uuid_ICoreWebView2: "guid_string IID_ICoreWebView2 = map c_tolower ''76eceacb-0462-4d94-ac83-423a6793775e''"
  by (simp add: IID_ICoreWebView2_def hex_pad_eqs hex_digits_eq tolower_hex)

lemma uuid_ICoreWebView2_2: "guid_string IID_ICoreWebView2_2 = map c_tolower ''9E8F0CF8-E670-4B5E-B2BC-73E061E3184C''"
  by (simp add: IID_ICoreWebView2_2_def hex_pad_eqs hex_digits_eq tolower_hex)

lemma uuid_ICoreWebView2_11: "guid_string IID_ICoreWebView2_11 = map c_tolower ''0be78e56-c193-4051-b943-23b460c08bdb''"
  by (simp add: IID_ICoreWebView2_11_def hex_pad_eqs hex_digits_eq tolower_hex)

lemma uuid_ICoreWebView2_13: "guid_string IID_ICoreWebView2_13 = map c_tolower ''F75F09A8-667E-4983-88D6-C8773F315E84''"
  by (simp add: IID_ICoreWebView2_13_def hex_pad_eqs hex_digits_eq tolower_hex)

lemma uuid_ICoreWebView2_16: "guid_string IID_ICoreWebView2_16 = map c_tolower ''0EB34DC9-9F91-41E1-8639-95CD5943906B''"
  by (simp add: IID_ICoreWebView2_16_def hex_pad_eqs hex_digits_eq tolower_hex)

lemma uuid_ICoreWebView2Controller: "guid_string IID_ICoreWebView2Controller = map c_tolower ''4d00c0d1-9434-4eb6-8078-8697a560334f''"
  by (simp add: IID_ICoreWebView2Controller_def hex_pad_eqs hex_digits_eq tolower_hex)

lemma uuid_ICoreWebView2Environment: "guid_string IID_ICoreWebView2Environment = map c_tolower ''b96d755e-0319-4e92-a296-23436f46a1fc''"
  by (simp add: IID_ICoreWebView2Environment_def hex_pad_eqs hex_digits_eq tolower_hex)

lemma uuid_ICoreWebView2EnvironmentOptions: "guid_string IID_ICoreWebView2EnvironmentOptions = map c_tolower ''2fde08a8-1e9a-4766-8c05-95a9ceb9d1c5''"
  by (simp add: IID_ICoreWebView2EnvironmentOptions_def hex_pad_eqs hex_digits_eq tolower_hex)

lemma uuid_ICoreWebView2EnvironmentOptions2: "guid_string IID_ICoreWebView2EnvironmentOptions2 = map c_tolower ''FF85C98A-1BA7-4A6B-90C8-2B752C89E9E2''"
  by (simp add: IID_ICoreWebView2EnvironmentOptions2_def hex_pad_eqs hex_digits_eq tolower_hex)

lemma uuid_ICoreWebView2EnvironmentOptions3: "guid_string IID_ICoreWebView2EnvironmentOptions3 = map c_tolower ''4A5C436E-A9E3-4A2E-89C3-910D3513F5CC''"
  by (simp add: IID_ICoreWebView2EnvironmentOptions3_def hex_pad_eqs hex_digits_eq tolower_hex)

lemma uuid_ICoreWebView2EnvironmentOptions4: "guid_string IID_ICoreWebView2EnvironmentOptions4 = map c_tolower ''ac52d13f-0d38-475a-9dca-876580d6793e''"
  by (simp add: IID_ICoreWebView2EnvironmentOptions4_def hex_pad_eqs hex_digits_eq tolower_hex)

lemma uuid_ICoreWebView2EnvironmentOptions5: "guid_string IID_ICoreWebView2EnvironmentOptions5 = map c_tolower ''0AE35D64-C47F-4464-814E-259C345D1501''"
  by (simp add: IID_ICoreWebView2EnvironmentOptions5_def hex_pad_eqs hex_digits_eq tolower_hex)

lemma uuid_ICoreWebView2EnvironmentOptions6: "guid_string IID_ICoreWebView2EnvironmentOptions6 = map c_tolower ''57D29CC3-C84F-42A0-B0E2-EFFBD5E179DE''"
  by (simp add: IID_ICoreWebView2EnvironmentOptions6_def hex_pad_eqs hex_digits_eq tolower_hex)

lemma uuid_ICoreWebView2CustomSchemeRegistration: "guid_string IID_ICoreWebView2CustomSchemeRegistration = map c_tolower ''d60ac92c-37a6-4b26-a39e-95cfe59047bb''"
  by (simp add: IID_ICoreWebView2CustomSchemeRegistration_def hex_pad_eqs hex_digits_eq tolower_hex)

lemma uuid_ICoreWebView2WebResourceRequest: "guid_string IID_ICoreWebView2WebResourceRequest = map c_tolower ''97055cd4-512c-4264-8b5f-e3f446cea6a5''"
  by (simp add: IID_ICoreWebView2WebResourceRequest_def hex_pad_eqs hex_digits_eq tolower_hex)

lemma uuid_ICoreWebView2WebResourceRequestedEventArgs: "guid_string IID_ICoreWebView2WebResourceRequestedEventArgs = map c_tolower ''453e667f-12c7-49d4-be6d-ddbe7956f57a''"
  by (simp add: IID_ICoreWebView2WebResourceRequestedEventArgs_def hex_pad_eqs hex_digits_eq tolower_hex)

lemma uuid_ICoreWebView2NewWindowRequestedEventArgs: "guid_string IID_ICoreWebView2NewWindowRequestedEventArgs = map c_tolower ''34acb11c-fc37-4418-9132-f9c21d1eafb9''"
  by (simp add: IID_ICoreWebView2NewWindowRequestedEventArgs_def hex_pad_eqs hex_digits_eq tolower_hex)

lemma uuid_ICoreWebView2Settings: "guid_string IID_ICoreWebView2Settings = map c_tolower ''e562e4f0-d7fa-43ac-8d71-c05150499f00''"
  by (simp add: IID_ICoreWebView2Settings_def hex_pad_eqs hex_digits_eq tolower_hex)

lemma uuid_ICoreWebView2Profile: "guid_string IID_ICoreWebView2Profile = map c_tolower ''79110ad3-cd5d-4373-8bc3-c60658f17a5f''"
  by (simp add: IID_ICoreWebView2Profile_def hex_pad_eqs hex_digits_eq tolower_hex)

lemma uuid_ICoreWebView2AcceleratorKeyPressedEventArgs: "guid_string IID_ICoreWebView2AcceleratorKeyPressedEventArgs = map c_tolower ''9f760f8a-fb79-42be-9990-7b56900fa9c7''"
  by (simp add: IID_ICoreWebView2AcceleratorKeyPressedEventArgs_def hex_pad_eqs hex_digits_eq tolower_hex)

lemma uuid_ICoreWebView2AcceleratorKeyPressedEventHandler: "guid_string IID_ICoreWebView2AcceleratorKeyPressedEventHandler = map c_tolower ''b29c7e28-fa79-41a8-8e44-65811c76dcb2''"
  by (simp add: IID_ICoreWebView2AcceleratorKeyPressedEventHandler_def hex_pad_eqs hex_digits_eq tolower_hex)

lemma uuid_ICoreWebView2ContextMenuRequestedEventHandler: "guid_string IID_ICoreWebView2ContextMenuRequestedEventHandler = map c_tolower ''04d3fe1d-ab87-42fb-a898-da241d35b63c''"
  by (simp add: IID_ICoreWebView2ContextMenuRequestedEventHandler_def hex_pad_eqs hex_digits_eq tolower_hex)

lemma uuid_ICoreWebView2CreateCoreWebView2ControllerCompletedHandler: "guid_string IID_ICoreWebView2CreateCoreWebView2ControllerCompletedHandler = map c_tolower ''6c4819f3-c9b7-4260-8127-c9f5bde7f68c''"
  by (simp add: IID_ICoreWebView2CreateCoreWebView2ControllerCompletedHandler_def hex_pad_eqs hex_digits_eq tolower_hex)

lemma uuid_ICoreWebView2CreateCoreWebView2EnvironmentCompletedHandler: "guid_string IID_ICoreWebView2CreateCoreWebView2EnvironmentCompletedHandler = map c_tolower ''4e8a3389-c9d8-4bd2-b6b5-124fee6cc14d''"
  by (simp add: IID_ICoreWebView2CreateCoreWebView2EnvironmentCompletedHandler_def hex_pad_eqs hex_digits_eq tolower_hex)

lemma uuid_ICoreWebView2DOMContentLoadedEventHandler: "guid_string IID_ICoreWebView2DOMContentLoadedEventHandler = map c_tolower ''4BAC7E9C-199E-49ED-87ED-249303ACF019''"
  by (simp add: IID_ICoreWebView2DOMContentLoadedEventHandler_def hex_pad_eqs hex_digits_eq tolower_hex)

lemma uuid_ICoreWebView2NavigationCompletedEventHandler: "guid_string IID_ICoreWebView2NavigationCompletedEventHandler = map c_tolower ''d33a35bf-1c49-4f98-93ab-006e0533fe1c''"
  by (simp add: IID_ICoreWebView2NavigationCompletedEventHandler_def hex_pad_eqs hex_digits_eq tolower_hex)

lemma uuid_ICoreWebView2NewWindowRequestedEventHandler: "guid_string IID_ICoreWebView2NewWindowRequestedEventHandler = map c_tolower ''d4c185fe-c81c-4989-97af-2d3fa7ab5651''"
  by (simp add: IID_ICoreWebView2NewWindowRequestedEventHandler_def hex_pad_eqs hex_digits_eq tolower_hex)

lemma uuid_ICoreWebView2WebResourceRequestedEventHandler: "guid_string IID_ICoreWebView2WebResourceRequestedEventHandler = map c_tolower ''ab00b74c-15f1-4646-80e8-e76341d25d71''"
  by (simp add: IID_ICoreWebView2WebResourceRequestedEventHandler_def hex_pad_eqs hex_digits_eq tolower_hex)

lemma uuid_ICoreWebView2WebResourceResponse: "guid_string IID_ICoreWebView2WebResourceResponse = map c_tolower ''aafcc94f-fa27-48fd-97df-830ef75aaec9''"
  by (simp add: IID_ICoreWebView2WebResourceResponse_def hex_pad_eqs hex_digits_eq tolower_hex)

lemma uuid_ICoreWebView2ContextMenuRequestedEventArgs: "guid_string IID_ICoreWebView2ContextMenuRequestedEventArgs = map c_tolower ''a1d309ee-c03f-11eb-8529-0242ac130003''"
  by (simp add: IID_ICoreWebView2ContextMenuRequestedEventArgs_def hex_pad_eqs hex_digits_eq tolower_hex)

lemmas uuid_facts =
  uuid_ICoreWebView2
  uuid_ICoreWebView2_2
  uuid_ICoreWebView2_11
  uuid_ICoreWebView2_13
  uuid_ICoreWebView2_16
  uuid_ICoreWebView2Controller
  uuid_ICoreWebView2Environment
  uuid_ICoreWebView2EnvironmentOptions
  uuid_ICoreWebView2EnvironmentOptions2
  uuid_ICoreWebView2EnvironmentOptions3
  uuid_ICoreWebView2EnvironmentOptions4
  uuid_ICoreWebView2EnvironmentOptions5
  uuid_ICoreWebView2EnvironmentOptions6
  uuid_ICoreWebView2CustomSchemeRegistration
  uuid_ICoreWebView2WebResourceRequest
  uuid_ICoreWebView2WebResourceRequestedEventArgs
  uuid_ICoreWebView2NewWindowRequestedEventArgs
  uuid_ICoreWebView2Settings
  uuid_ICoreWebView2Profile
  uuid_ICoreWebView2AcceleratorKeyPressedEventArgs
  uuid_ICoreWebView2AcceleratorKeyPressedEventHandler
  uuid_ICoreWebView2ContextMenuRequestedEventHandler
  uuid_ICoreWebView2CreateCoreWebView2ControllerCompletedHandler
  uuid_ICoreWebView2CreateCoreWebView2EnvironmentCompletedHandler
  uuid_ICoreWebView2DOMContentLoadedEventHandler
  uuid_ICoreWebView2NavigationCompletedEventHandler
  uuid_ICoreWebView2NewWindowRequestedEventHandler
  uuid_ICoreWebView2WebResourceRequestedEventHandler
  uuid_ICoreWebView2WebResourceResponse
  uuid_ICoreWebView2ContextMenuRequestedEventArgs

section \<open>Properties\<close>

text \<open>The two spellings of every identifier agree, and no two interfaces share one, so a
  \<^verbatim>\<open>QueryInterface\<close> comparison cannot mistake one interface for another.\<close>

theorem abi_iids_agree:
  "list_all (\<lambda>(g, u). guid_string g = map c_tolower u) uuid_table \<and> distinct (map fst uuid_table)"
proof
  show "list_all (\<lambda>(g, u). guid_string g = map c_tolower u) uuid_table"
    unfolding uuid_table_def by (simp only: list.pred_inject prod.case uuid_facts simp_thms)
  show "distinct (map fst uuid_table)"
    unfolding uuid_table_def by (simp add: iid_defs)
qed

end
