(* ===== verification/RefCount.thy ===== *)
theory RefCount
  imports Prelude
begin

text \<open>
  The contracts every COM class of the repository has to meet, as locales. \<open>refcounted\<close> is the
  life of an object under \<^verbatim>\<open>AddRef\<close> and \<^verbatim>\<open>Release\<close>; \<open>com_object\<close> adds the rules of
  \<^verbatim>\<open>QueryInterface\<close>. An operation takes the object's address and the state of the world and
  returns \<open>None\<close> when it touches an object that no longer exists. Each class interprets the
  locales in its own theory.
\<close>

section \<open>Sequences of reference operations\<close>

datatype refop = Add | Rel

fun refop_value :: "refop \<Rightarrow> int" where
  "refop_value Add = 1"
| "refop_value Rel = - 1"

definition balance :: "refop list \<Rightarrow> int" where
  "balance rs = (\<Sum>r\<leftarrow>rs. refop_value r)"

lemma balance_simps [simp]:
  "balance [] = 0"
  "balance (r # rs) = refop_value r + balance rs"
  "balance (rs @ ss) = balance rs + balance ss"
  by (simp_all add: balance_def)

text \<open>Starting from \<open>n\<close> references, the number stays positive and within the range of the counter
  throughout.\<close>

fun stays_alive :: "int \<Rightarrow> refop list \<Rightarrow> bool" where
  "stays_alive n [] \<longleftrightarrow> 0 < n"
| "stays_alive n (r # rs) \<longleftrightarrow> 0 < n \<and> n + refop_value r < 2 ^ 32 \<and> stays_alive (n + refop_value r) rs"

lemma stays_alive_pos: "stays_alive n rs \<Longrightarrow> 0 < n"
  by (cases rs) simp_all

lemma uint_plus_one: "uint (c :: ULONG) + 1 < 2 ^ 32 \<Longrightarrow> uint (c + 1) = uint c + 1"
  by (simp add: uint_word_ariths mod_pos_pos_trivial)

lemma uint_minus_one: "0 < uint (c :: ULONG) \<Longrightarrow> uint (c - 1) = uint c - 1"
  using uint_bounded [of c] by (simp add: uint_word_ariths mod_pos_pos_trivial)

lemma uint_is_one: "uint (c :: ULONG) = 1 \<longleftrightarrow> c = 1"
  by (metis uint_1 word_uint_eq_iff)

text \<open>One operation, and a sequence of them, on the object at \<open>p\<close>; \<open>add\<close> and \<open>rel\<close> are the two methods
  of its class.\<close>

type_synonym 'w ref_method = "uintptr \<Rightarrow> 'w \<Rightarrow> (ULONG \<times> 'w) option"

primrec do_ref :: "'w ref_method \<Rightarrow> 'w ref_method \<Rightarrow> refop \<Rightarrow> 'w ref_method" where
  "do_ref add rel Add = add"
| "do_ref add rel Rel = rel"

primrec run_refs :: "'w ref_method \<Rightarrow> 'w ref_method \<Rightarrow> refop list \<Rightarrow> uintptr \<Rightarrow> 'w \<Rightarrow> 'w option" where
  "run_refs add rel [] p w = Some w"
| "run_refs add rel (r # rs) p w =
    (case do_ref add rel r p w of None \<Rightarrow> None | Some (n, w') \<Rightarrow> run_refs add rel rs p w')"

section \<open>The life of an object\<close>

text \<open>\<open>cnt w p\<close> is the counter of the object at \<open>p\<close>, \<open>None\<close> when there is none. \<open>sound w p\<close> is what
  the class needs of the rest of the world to be destroyed safely.\<close>

locale refcounted =
  fixes cnt :: "'w \<Rightarrow> uintptr \<Rightarrow> ULONG option"
    and sound :: "'w \<Rightarrow> uintptr \<Rightarrow> bool"
    and add :: "uintptr \<Rightarrow> 'w \<Rightarrow> (ULONG \<times> 'w) option"
    and rel :: "uintptr \<Rightarrow> 'w \<Rightarrow> (ULONG \<times> 'w) option"
  assumes add_live: "cnt w p = Some c \<Longrightarrow> sound w p \<Longrightarrow>
      \<exists>w'. add p w = Some (c + 1, w') \<and> cnt w' p = Some (c + 1) \<and> sound w' p"
    and add_dead: "cnt w p = None \<Longrightarrow> add p w = None"
    and rel_live: "cnt w p = Some c \<Longrightarrow> sound w p \<Longrightarrow> c \<noteq> 1 \<Longrightarrow>
      \<exists>w'. rel p w = Some (c - 1, w') \<and> cnt w' p = Some (c - 1) \<and> sound w' p"
    and rel_last: "cnt w p = Some 1 \<Longrightarrow> sound w p \<Longrightarrow>
      \<exists>w'. rel p w = Some (0, w') \<and> cnt w' p = None"
    and rel_dead: "cnt w p = None \<Longrightarrow> rel p w = None"
begin

lemma refop_keeps:
  assumes "cnt w p = Some c" "sound w p" "0 < uint c"
    and "0 < uint c + refop_value r" "uint c + refop_value r < 2 ^ 32"
  obtains w' c' where "do_ref add rel r p w = Some (c', w')" "cnt w' p = Some c'" "sound w' p"
    "uint c' = uint c + refop_value r"
proof (cases r)
  case Add
  with assms add_live [of w p c] that [of "c + 1"] show thesis
    by (auto simp: uint_plus_one)
next
  case Rel
  with assms have "c \<noteq> 1" by (auto simp: uint_is_one [symmetric])
  with Rel assms rel_live [of w p c] that [of "c - 1"] show thesis
    by (auto simp: uint_minus_one)
qed

text \<open>While references remain the object stays, with a counter that equals their number.\<close>

lemma run_alive:
  assumes "cnt w p = Some c" "sound w p" "stays_alive (uint c) rs"
  shows "\<exists>w' c'. run_refs add rel rs p w = Some w' \<and> cnt w' p = Some c' \<and> sound w' p \<and> uint c' = uint c + balance rs"
  using assms
proof (induction rs arbitrary: w c)
  case (Cons r rs)
  then have rng: "0 < uint c" "uint c + refop_value r < 2 ^ 32"
    and rest: "stays_alive (uint c + refop_value r) rs" by simp_all
  from refop_keeps [OF Cons.prems(1,2) rng(1) stays_alive_pos [OF rest] rng(2)]
  obtain w' c' where s: "do_ref add rel r p w = Some (c', w')" "cnt w' p = Some c'" "sound w' p"
      and c': "uint c' = uint c + refop_value r" by blast
  from Cons.IH [OF s(2,3)] rest c' s(1) show ?case by auto
qed auto

text \<open>The operation that gives back the last reference destroys the object, and none before it does.\<close>

lemma run_destroys:
  assumes "cnt w p = Some c" "sound w p" "stays_alive (uint c) rs" "uint c + balance rs = 1"
  shows "\<exists>w'. run_refs add rel (rs @ [Rel]) p w = Some w' \<and> cnt w' p = None"
proof -
  have split: "run_refs add rel (xs @ ys) p v = (case run_refs add rel xs p v of None \<Rightarrow> None | Some v' \<Rightarrow> run_refs add rel ys p v')" for xs ys v
    by (induction xs arbitrary: v) (auto split: option.splits)
  from run_alive [OF assms(1-3)] assms(4) obtain w' c'
    where w': "run_refs add rel rs p w = Some w'" "cnt w' p = Some c'" "sound w' p" "uint c' = 1" by auto
  then have "c' = 1" by (simp add: uint_is_one)
  with rel_last [of w' p] w' show ?thesis by (auto simp: split)
qed

end

section \<open>QueryInterface\<close>

locale com_object = refcounted +
  fixes iids :: "guid set"
    and qi :: "guid \<Rightarrow> uintptr \<Rightarrow> 'a \<Rightarrow> (HRESULT \<times> uintptr \<times> 'a) option"
  assumes unknown: "IID_IUnknown \<in> iids"
    and qi_known: "i \<in> iids \<Longrightarrow> cnt w p = Some c \<Longrightarrow>
      qi i p w = (case add p w of None \<Rightarrow> None | Some (n, w') \<Rightarrow> Some (S_OK, p, w'))"
    and qi_unknown: "i \<notin> iids \<Longrightarrow> cnt w p = Some c \<Longrightarrow> qi i p w = Some (E_NOINTERFACE, 0, w)"
begin

text \<open>A successful query hands out a counted reference; a failing one changes nothing and stores
  null.\<close>

lemma qi_counts:
  assumes "cnt w p = Some c" "sound w p"
  shows "\<exists>hr q w'. qi i p w = Some (hr, q, w') \<and> (SUCCEEDED hr \<longleftrightarrow> i \<in> iids) \<and>
    (if i \<in> iids then q = p \<and> cnt w' p = Some (c + 1) else q = 0 \<and> w' = w)"
proof (cases "i \<in> iids")
  case True
  with assms add_live [of w p c] show ?thesis
    by (auto simp: qi_known S_OK_def)
next
  case False
  then show ?thesis
    using assms FAILED_consts(2) by (auto simp: qi_unknown FAILED_iff_not_SUCCEEDED)
qed

text \<open>Identity: the answer to any query can be asked for every interface again.\<close>

lemma qi_symmetric:
  assumes "cnt w p = Some c" "sound w p" "qi i p w = Some (S_OK, q, w')" "j \<in> iids"
  shows "\<exists>w''. qi j q w' = Some (S_OK, p, w'')"
proof -
  have "i \<in> iids" using assms qi_unknown [of i w p c] by auto
  with assms add_live [of w p c] obtain c' where "q = p" "cnt w' p = Some c'" "sound w' p"
    by (auto simp: qi_known)
  with assms(4) add_live [of w' p c'] show ?thesis by (auto simp: qi_known)
qed

end

end
