(* ===== verification/SunApp.thy ===== *)
theory SunApp
  imports WebView2Abi RefCount "HOL-Library.Monad_Syntax"
begin

text \<open>
  \<^verbatim>\<open>builtin/goc/sunapp.cpp\<close>: the asynchronous pluggable protocol that serves \<^verbatim>\<open>suneido:\<close>
  addresses to the old browser control. A protocol object fetches the page from the program in
  \<^verbatim>\<open>Start\<close> and hands it out piece by piece in \<^verbatim>\<open>Read\<close>; a class factory makes the objects.
\<close>

section \<open>Data\<close>

record CSuneidoAPP =
  len :: ULONG
  pos :: ULONG
  str :: uintptr
  m_cRef :: "32 word"

record CFactory =
  f_cRef :: "32 word"

record aworld =
  apps :: "uintptr \<Rightarrow> CSuneidoAPP option"
  factories :: "uintptr \<Rightarrow> CFactory option"
  buffers :: "uintptr \<Rightarrow> byte list option"
  calls :: "event list"

definition put_app :: "uintptr \<Rightarrow> CSuneidoAPP option \<Rightarrow> aworld \<Rightarrow> aworld" where
  "put_app p x w = w\<lparr>apps := (apps w)(p := x)\<rparr>"

definition put_factory :: "uintptr \<Rightarrow> CFactory option \<Rightarrow> aworld \<Rightarrow> aworld" where
  "put_factory p x w = w\<lparr>factories := (factories w)(p := x)\<rparr>"

section \<open>The protocol object\<close>

definition CSuneidoAPP_new :: "uintptr \<Rightarrow> aworld \<Rightarrow> aworld" where
  "CSuneidoAPP_new p w = put_app p (Some \<lparr>len = 0, pos = 0, str = nullptr, m_cRef = 1\<rparr>) w"

text \<open>\<^verbatim>\<open>delete str\<close> gives back the page buffer; deleting null does nothing.\<close>

definition CSuneidoAPP_delete :: "uintptr \<Rightarrow> aworld \<Rightarrow> aworld option" where
  "CSuneidoAPP_delete p w =
     do { x \<leftarrow> apps w p;
          w \<leftarrow> (if str x = nullptr then Some w
                else do { b \<leftarrow> buffers w (str x); Some (w\<lparr>buffers := (buffers w)(str x := None)\<rparr>) });
          Some (put_app p None w) }"

definition CSuneidoAPP_AddRef :: "uintptr \<Rightarrow> aworld \<Rightarrow> (ULONG \<times> aworld) option" where
  "CSuneidoAPP_AddRef p w =
     do { x \<leftarrow> apps w p;
          let n = m_cRef x + 1;
          Some (n, put_app p (Some (x\<lparr>m_cRef := n\<rparr>)) w) }"

definition CSuneidoAPP_Release :: "uintptr \<Rightarrow> aworld \<Rightarrow> (ULONG \<times> aworld) option" where
  "CSuneidoAPP_Release p w =
     do { x \<leftarrow> apps w p;
          let n = m_cRef x - 1;
          let w = put_app p (Some (x\<lparr>m_cRef := n\<rparr>)) w;
          if n = 0 then do { w \<leftarrow> CSuneidoAPP_delete p w; Some (0, w) } else Some (n, w) }"

definition CSuneidoAPP_QueryInterface :: "guid \<Rightarrow> uintptr \<Rightarrow> aworld \<Rightarrow> (HRESULT \<times> uintptr \<times> aworld) option" where
  "CSuneidoAPP_QueryInterface iid p w =
     (if iid = IID_IUnknown \<or> iid = IID_IInternetProtocol
      then do { (_, w) \<leftarrow> CSuneidoAPP_AddRef p w; Some (S_OK, p, w) }
      else Some (E_NOINTERFACE, nullptr, w))"

definition app_Continue :: HRESULT where "app_Continue = S_OK"
definition app_Abort :: HRESULT where "app_Abort = S_OK"
definition app_Terminate :: HRESULT where "app_Terminate = S_OK"
definition app_Suspend :: HRESULT where "app_Suspend = E_NOTIMPL"
definition app_Resume :: HRESULT where "app_Resume = E_NOTIMPL"
definition app_Seek :: HRESULT where "app_Seek = E_NOTIMPL"
definition app_LockRequest :: HRESULT where "app_LockRequest = S_OK"
definition app_UnlockRequest :: HRESULT where "app_UnlockRequest = S_OK"

text \<open>\<^verbatim>\<open>W2CA\<close>: the bytes that the conversion leaves in a buffer of twice the length with its terminator;
  \<open>w2a\<close> is the platform's conversion for a buffer size.\<close>

definition W2CA :: "(wchar list \<Rightarrow> nat \<Rightarrow> byte list) \<Rightarrow> wchar list option \<Rightarrow> byte list option" where
  "W2CA w2a u = (case u of None \<Rightarrow> None | Some s \<Rightarrow> Some (w2a s ((length s + 1) * 2)))"

text \<open>\<open>fetch url w\<close> is \<^verbatim>\<open>suneidoAPP(url)\<close> of \<^verbatim>\<open>cside.c\<close>: the buffer's address and size, and the
  world in which it has been allocated; theory \<open>GoSide\<close> has it. \<^verbatim>\<open>BSCF_DATAFULLYAVAILABLE | BSCF_LASTDATANOTIFICATION\<close> is 6.\<close>

definition app_Start ::
  "(wchar list \<Rightarrow> nat \<Rightarrow> byte list) \<Rightarrow> (byte list option \<Rightarrow> aworld \<Rightarrow> (uintptr \<times> 32 word \<times> aworld) option) \<Rightarrow> wchar list option
     \<Rightarrow> uintptr \<Rightarrow> uintptr \<Rightarrow> aworld \<Rightarrow> (HRESULT \<times> aworld) option" where
  "app_Start w2a fetch szUrl sink p w =
     do { (data, sz, w) \<leftarrow> fetch (W2CA w2a szUrl) w;
          x \<leftarrow> apps w p;
          let w = put_app p (Some (x\<lparr>str := data, len := sz, pos := 0\<rparr>)) w;
          Some (S_OK, w\<lparr>calls := calls w @ [Call ''ReportData'' [sink, 6, ucast sz, ucast sz]]\<rparr>) }"

text \<open>The bytes copied to the caller's buffer and the count stored; reading past the buffer has no
  result.\<close>

definition app_Read :: "ULONG \<Rightarrow> uintptr \<Rightarrow> aworld \<Rightarrow> (HRESULT \<times> byte list \<times> aworld) option" where
  "app_Read cb p w =
     do { x \<leftarrow> apps w p;
          let n = min cb (len x - pos x);
          chunk \<leftarrow> (if n = 0 then Some []
                    else do { b \<leftarrow> buffers w (str x);
                              if unat (pos x) + unat n \<le> length b then Some (take (unat n) (drop (unat (pos x)) b)) else None });
          let x = x\<lparr>pos := pos x + n\<rparr>;
          Some (if len x \<le> pos x then S_FALSE else S_OK, chunk, put_app p (Some x) w) }"

text \<open>How the control reads a page: in pieces of \<open>cb\<close> bytes until \<^verbatim>\<open>Read\<close> does not return
  \<^verbatim>\<open>S_OK\<close>. The fuel bounds the number of calls.\<close>

fun read_loop :: "nat \<Rightarrow> ULONG \<Rightarrow> uintptr \<Rightarrow> aworld \<Rightarrow> (byte list \<times> aworld) option" where
  "read_loop 0 cb p w = None"
| "read_loop (Suc k) cb p w =
     do { (hr, chunk, w) \<leftarrow> app_Read cb p w;
          if hr = S_OK then do { (rest, w) \<leftarrow> read_loop k cb p w; Some (chunk @ rest, w) } else Some (chunk, w) }"

section \<open>The class factory\<close>

definition CFactory_AddRef :: "uintptr \<Rightarrow> aworld \<Rightarrow> (ULONG \<times> aworld) option" where
  "CFactory_AddRef p w =
     do { x \<leftarrow> factories w p;
          let n = f_cRef x + 1;
          Some (n, put_factory p (Some (x\<lparr>f_cRef := n\<rparr>)) w) }"

definition CFactory_Release :: "uintptr \<Rightarrow> aworld \<Rightarrow> (ULONG \<times> aworld) option" where
  "CFactory_Release p w =
     do { x \<leftarrow> factories w p;
          let n = f_cRef x - 1;
          if n = 0 then Some (0, put_factory p None w)
          else Some (n, put_factory p (Some (x\<lparr>f_cRef := n\<rparr>)) w) }"

definition CFactory_QueryInterface :: "guid \<Rightarrow> uintptr \<Rightarrow> aworld \<Rightarrow> (HRESULT \<times> uintptr \<times> aworld) option" where
  "CFactory_QueryInterface iid p w =
     (if iid = IID_IUnknown \<or> iid = IID_IClassFactory
      then do { (_, w) \<leftarrow> CFactory_AddRef p w; Some (S_OK, p, w) }
      else Some (E_NOINTERFACE, nullptr, w))"

text \<open>\<open>pA\<close> is what \<^verbatim>\<open>new\<close> returns. The pointer stored for the caller is absent when the code stores
  none.\<close>

definition CFactory_CreateInstance ::
  "uintptr \<Rightarrow> uintptr \<Rightarrow> guid \<Rightarrow> aworld \<Rightarrow> (HRESULT \<times> uintptr option \<times> aworld) option" where
  "CFactory_CreateInstance pA pUnknownOuter iid w =
     (if pUnknownOuter \<noteq> nullptr then Some (CLASS_E_NOAGGREGATION, None, w)
      else if pA = nullptr then Some (E_OUTOFMEMORY, None, w)
      else do {
        let w = CSuneidoAPP_new pA w;
        (hr, ppv, w) \<leftarrow> CSuneidoAPP_QueryInterface iid pA w;
        (_, w) \<leftarrow> CSuneidoAPP_Release pA w;
        Some (hr, Some ppv, w) })"

definition CFactory_LockServer :: HRESULT where
  "CFactory_LockServer = S_OK"

section \<open>Registration\<close>

definition CLSID_SuneidoAPP :: guid where
  "CLSID_SuneidoAPP = GUID 0xBFBE2090 0x6BBA 0x11D4 0xBC 0x13 0x00 0x60 0x6E 0x30 0xB2 0x58"

definition clsid :: string where
  "clsid = ''{BFBE2090-6BBA-11D4-BC13-00606E30B258}''"

definition sunapp_register_classes ::
  "(unit \<Rightarrow> HRESULT \<times> uintptr) \<Rightarrow> uintptr \<Rightarrow> aworld \<Rightarrow> 32 word \<times> aworld" where
  "sunapp_register_classes CoInternetGetSession factory w =
     (let (hr, iis) = CoInternetGetSession () in
      if FAILED hr then (0, w)
      else (1, w\<lparr>calls := calls w @ [Acquire iis, Call ''RegisterNameSpace'' [iis, factory], Release iis]\<rparr>))"

definition sunapp_revoke_classes :: "aworld \<Rightarrow> aworld" where
  "sunapp_revoke_classes w = w\<lparr>calls := calls w @ [Call ''CoUninitialize'' []]\<rparr>"

section \<open>Lemmas\<close>

lemma put_app_sels [simp]:
  "apps (put_app p x w) = (apps w)(p := x)" "factories (put_app p x w) = factories w"
  "buffers (put_app p x w) = buffers w" "calls (put_app p x w) = calls w"
  by (simp_all add: put_app_def)

lemma put_factory_sels [simp]:
  "factories (put_factory p x w) = (factories w)(p := x)" "apps (put_factory p x w) = apps w"
  "buffers (put_factory p x w) = buffers w"
  by (simp_all add: put_factory_def)

text \<open>A protocol object owns its buffer.\<close>

definition app_ok :: "aworld \<Rightarrow> uintptr \<Rightarrow> bool" where
  "app_ok w p \<longleftrightarrow> (\<forall>x. apps w p = Some x \<longrightarrow> str x \<noteq> nullptr \<longrightarrow> buffers w (str x) \<noteq> None)"

interpretation app: com_object "\<lambda>w p. map_option m_cRef (apps w p)" app_ok CSuneidoAPP_AddRef CSuneidoAPP_Release
  "{IID_IUnknown, IID_IInternetProtocol}" CSuneidoAPP_QueryInterface
proof
  fix w :: aworld and p c
  assume "map_option m_cRef (apps w p) = Some c"
  then obtain x where x: "apps w p = Some x" "m_cRef x = c" by auto
  show "\<exists>w'. CSuneidoAPP_AddRef p w = Some (c + 1, w') \<and> map_option m_cRef (apps w' p) = Some (c + 1) \<and> app_ok w' p"
    if "app_ok w p" using x that by (simp add: CSuneidoAPP_AddRef_def app_ok_def Let_def)
  show "\<exists>w'. CSuneidoAPP_Release p w = Some (c - 1, w') \<and> map_option m_cRef (apps w' p) = Some (c - 1) \<and> app_ok w' p"
    if "app_ok w p" "c \<noteq> 1" using x that by (simp add: CSuneidoAPP_Release_def app_ok_def Let_def)
next
  fix w :: aworld and p
  assume "map_option m_cRef (apps w p) = Some 1" "app_ok w p"
  then show "\<exists>w'. CSuneidoAPP_Release p w = Some (0, w') \<and> map_option m_cRef (apps w' p) = None"
    by (auto simp: CSuneidoAPP_Release_def CSuneidoAPP_delete_def app_ok_def Let_def)
next
  fix i and w :: aworld and p c
  assume "map_option m_cRef (apps w p) = Some c"
  then obtain n w' where a: "CSuneidoAPP_AddRef p w = Some (n, w')" by (auto simp: CSuneidoAPP_AddRef_def Let_def)
  show "CSuneidoAPP_QueryInterface i p w = (case CSuneidoAPP_AddRef p w of None \<Rightarrow> None | Some (n, w') \<Rightarrow> Some (S_OK, p, w'))"
    if "i \<in> {IID_IUnknown, IID_IInternetProtocol}" using that a by (auto simp: CSuneidoAPP_QueryInterface_def)
  show "CSuneidoAPP_QueryInterface i p w = Some (E_NOINTERFACE, 0, w)" if "i \<notin> {IID_IUnknown, IID_IInternetProtocol}"
    using that by (simp add: CSuneidoAPP_QueryInterface_def)
qed (auto simp: CSuneidoAPP_AddRef_def CSuneidoAPP_Release_def)

interpretation factory: com_object "\<lambda>w p. map_option f_cRef (factories w p)" "\<lambda>w p. True" CFactory_AddRef CFactory_Release
  "{IID_IUnknown, IID_IClassFactory}" CFactory_QueryInterface
  by unfold_locales (auto simp: CFactory_AddRef_def CFactory_Release_def CFactory_QueryInterface_def Let_def)

text \<open>A protocol object in the middle of handing out the bytes \<open>b\<close>.\<close>

definition streaming :: "byte list \<Rightarrow> nat \<Rightarrow> uintptr \<Rightarrow> aworld \<Rightarrow> bool" where
  "streaming b k p w \<longleftrightarrow> (\<exists>x. apps w p = Some x \<and> (\<exists>e. buffers w (str x) = Some (b @ e)) \<and>
     unat (len x) = length b \<and> unat (pos x) = k \<and> k \<le> length b)"

lemma Read_streaming:
  assumes "streaming b k p w"
  shows "\<exists>w'. app_Read cb p w = Some (if k + min (unat cb) (length b - k) = length b then S_FALSE else S_OK,
      take (unat cb) (drop k b), w') \<and> streaming b (k + min (unat cb) (length b - k)) p w'"
proof -
  obtain x e where x: "apps w p = Some x" "buffers w (str x) = Some (b @ e)" "unat (len x) = length b" "unat (pos x) = k" "k \<le> length b"
    using assms by (auto simp: streaming_def)
  let ?n = "min cb (len x - pos x)"
  have "pos x \<le> len x" using x by (simp add: word_le_nat_alt)
  then have d: "unat (len x - pos x) = length b - k" using x by (simp add: unat_sub)
  then have n: "unat ?n = min (unat cb) (length b - k)" by (simp add: min_def word_le_nat_alt)
  have in_range: "k + unat ?n \<le> length b" using n x by simp
  moreover have "unat (len x) < 2 ^ LENGTH(32)" by (rule unsigned_less)
  ultimately have "k + unat ?n < 2 ^ LENGTH(32)" using x(3) by simp
  then have "unat (pos x + ?n) = k + unat ?n" using x(4) by (simp add: unat_add_lem [THEN iffD1])
  then have q: "unat (pos x + ?n) = k + min (unat cb) (length b - k)" using n by simp
  have le: "len x \<le> pos x + ?n \<longleftrightarrow> k + min (unat cb) (length b - k) = length b"
    using q x(3,5) by (auto simp: word_le_nat_alt)
  have "take (unat ?n) (drop k b) = take (unat cb) (drop k b)" using n by (simp add: min_def)
  then have chunk: "(if ?n = 0 then Some [] else do { b \<leftarrow> buffers w (str x);
        if unat (pos x) + unat ?n \<le> length b then Some (take (unat ?n) (drop (unat (pos x)) b)) else None })
      = Some (take (unat cb) (drop k b))"
    using x in_range by (cases "?n = 0") auto
  let ?w = "put_app p (Some (x\<lparr>pos := pos x + ?n\<rparr>)) w"
  have st: "streaming b (k + min (unat cb) (length b - k)) p ?w"
    using x q by (auto simp: streaming_def)
  have "app_Read cb p w = Some (if len x \<le> pos x + ?n then S_FALSE else S_OK, take (unat cb) (drop k b), ?w)"
    using x(1) chunk by (simp add: app_Read_def Let_def)
  with st show ?thesis unfolding le by blast
qed

lemma read_loop_streaming:
  assumes "streaming b k p w" "0 < unat cb" "length b - k < fuel"
  shows "\<exists>w'. read_loop fuel cb p w = Some (drop k b, w') \<and> streaming b (length b) p w'"
  using assms
proof (induction fuel arbitrary: k w)
  case (Suc fuel)
  have k: "k \<le> length b" using Suc.prems(1) by (auto simp: streaming_def)
  let ?k = "k + min (unat cb) (length b - k)"
  obtain w' where w': "app_Read cb p w = Some (if ?k = length b then S_FALSE else S_OK, take (unat cb) (drop k b), w')"
    "streaming b ?k p w'" using Read_streaming [OF Suc.prems(1)] by blast
  show ?case
  proof (cases "?k = length b")
    case True
    then have "take (unat cb) (drop k b) = drop k b" using k by (simp add: min_def split: if_splits)
    with w' True show ?thesis by auto
  next
    case False
    then have m: "min (unat cb) (length b - k) = unat cb" using k by (simp add: min_def split: if_splits)
    then have "length b - ?k < fuel" using Suc.prems(2,3) False k by auto
    from Suc.IH [OF w'(2) Suc.prems(2) this] obtain w'' where
      "read_loop fuel cb p w' = Some (drop ?k b, w'')" "streaming b (length b) p w''" by blast
    moreover have "take (unat cb) (drop k b) @ drop ?k b = drop k b"
      unfolding m by (metis add.commute append_take_drop_id drop_drop)
    ultimately show ?thesis using w' False by auto
  qed
qed simp

section \<open>Properties\<close>

text \<open>The page arrives complete. Once \<^verbatim>\<open>Start\<close> has fetched a page, reading it in pieces of any
  positive size until \<^verbatim>\<open>Read\<close> says there is no more ends, within as many calls as the page has bytes
  and one more, and the pieces put together are the page.\<close>

theorem page_delivered:
  assumes "app_Start w2a fetch url sink p w = Some (hr, w1)"
    and "fetch (W2CA w2a url) w = Some (data, sz, w0)" and "buffers w0 data = Some (b @ e)" and "unat sz = length b"
    and "0 < unat cb" and "length b < fuel"
  shows "hr = S_OK \<and> (\<exists>w2. read_loop fuel cb p w1 = Some (b, w2))"
proof -
  have "hr = S_OK" "streaming b 0 p w1"
    using assms(1-4) by (auto simp: app_Start_def Let_def streaming_def split: bind_splits)
  with read_loop_streaming [of b 0 p w1 cb fuel] assms(5,6) show ?thesis by auto
qed

theorem page_delivered_witness:
  "\<exists>w1 w2. app_Start (\<lambda>u n. map ucast u) (\<lambda>u w. Some (0x40, 3, w\<lparr>buffers := [0x40 \<mapsto> [7, 8, 9, 0]]\<rparr>)) (Some [97]) 5 0x10
       (CSuneidoAPP_new 0x10 \<lparr>apps = Map.empty, factories = Map.empty, buffers = Map.empty, calls = []\<rparr>) = Some (S_OK, w1) \<and>
     read_loop 4 2 0x10 w1 = Some ([7, 8, 9], w2)"
proof -
  let ?w = "CSuneidoAPP_new 0x10 \<lparr>apps = Map.empty, factories = Map.empty, buffers = Map.empty, calls = []\<rparr>"
  let ?fetch = "\<lambda>u w. Some (0x40, 3, w\<lparr>buffers := [0x40 \<mapsto> [7, 8, 9, 0]]\<rparr>)"
  obtain hr w1 where s: "app_Start (\<lambda>u n. map ucast u) ?fetch (Some [97]) 5 0x10 ?w = Some (hr, w1)"
    by (simp add: app_Start_def CSuneidoAPP_new_def Let_def)
  from page_delivered [OF s, of "0x40" 3 "?w\<lparr>buffers := [0x40 \<mapsto> [7, 8, 9, 0]]\<rparr>" "[7, 8, 9]" "[0]" 2 4] s
  show ?thesis by auto
qed

text \<open>The factory makes objects with one owner. An aggregating caller is refused; a caller that asks for
  a known interface gets an object with exactly one reference, its own; for an unknown interface the object
  is destroyed again and the caller gets null.\<close>

theorem create_instance:
  "(outer \<noteq> nullptr \<longrightarrow> CFactory_CreateInstance pA outer iid w = Some (CLASS_E_NOAGGREGATION, None, w)) \<and>
   (pA \<noteq> nullptr \<and> iid \<in> {IID_IUnknown, IID_IInternetProtocol} \<longrightarrow>
     CFactory_CreateInstance pA nullptr iid w = Some (S_OK, Some pA, CSuneidoAPP_new pA w)) \<and>
   (pA \<noteq> nullptr \<and> iid \<notin> {IID_IUnknown, IID_IInternetProtocol} \<longrightarrow>
     CFactory_CreateInstance pA nullptr iid w = Some (E_NOINTERFACE, Some nullptr, put_app pA None w))"
  by (auto simp: CFactory_CreateInstance_def CSuneidoAPP_QueryInterface_def CSuneidoAPP_AddRef_def CSuneidoAPP_Release_def
      CSuneidoAPP_delete_def CSuneidoAPP_new_def put_app_def Let_def)

theorem create_instance_witness:
  "CFactory_CreateInstance 0x10 nullptr IID_IInternetProtocol \<lparr>apps = Map.empty, factories = Map.empty, buffers = Map.empty, calls = []\<rparr>
     = Some (S_OK, Some 0x10, CSuneidoAPP_new 0x10 \<lparr>apps = Map.empty, factories = Map.empty, buffers = Map.empty, calls = []\<rparr>)"
  using create_instance [of 0 "0x10" IID_IInternetProtocol
      "\<lparr>apps = Map.empty, factories = Map.empty, buffers = Map.empty, calls = []\<rparr>"] by simp

text \<open>The class identifier and its text form are the same identifier.\<close>

theorem clsid_agrees: "map c_tolower clsid = ''{'' @ guid_string CLSID_SuneidoAPP @ ''}''"
proof -
  have "c_tolower (CHR ''{'') = CHR ''{''" "c_tolower (CHR ''}'') = CHR ''}''" by code_simp+
  then show ?thesis by (simp add: clsid_def CLSID_SuneidoAPP_def hex_pad_eqs hex_digits_eq tolower_hex)
qed

end
