(* ===== verification/GoSide.thy ===== *)
theory GoSide
  imports Cside SunApp
begin

text \<open>
  \<^verbatim>\<open>builtin/goc/goc.go\<close>: the Go side of the boundary. Strings cross it in both directions: a C
  string is read up to its terminator, a Go string is copied with one. The theory has the functions
  that do more than convert their arguments (the page request exported to C, message boxes, the
  fatal message, the control-break check) and composes the page request with \<^verbatim>\<open>cside.c\<close> and
  \<^verbatim>\<open>sunapp.cpp\<close>.
\<close>

section \<open>Strings\<close>

text \<open>The memory of the C side: the blocks by their address. \<^verbatim>\<open>C.GoString\<close> of a null pointer is empty; of
  an address that is no block, or of a block without a terminator, it has no result.\<close>

type_synonym cmem = "uintptr \<Rightarrow> byte list option"

definition c_str :: "byte list \<Rightarrow> byte list option" where
  "c_str b = (if 0 \<in> set b then Some (takeWhile (\<lambda>x. x \<noteq> 0) b) else None)"

definition GoString :: "uintptr \<Rightarrow> cmem \<Rightarrow> byte list option" where
  "GoString p m = (if p = nullptr then Some [] else Option.bind (m p) c_str)"

definition zstr :: "byte list \<Rightarrow> byte list" where
  "zstr s = (let buf = replicate (length s + 1) 0 in s @ drop (length s) buf)"

text \<open>\<open>malloc m n\<close> is the address of a new block of \<open>n\<close> bytes.\<close>

type_synonym allocator = "cmem \<Rightarrow> nat \<Rightarrow> uintptr"

definition CString :: "allocator \<Rightarrow> byte list \<Rightarrow> cmem \<Rightarrow> uintptr \<times> cmem" where
  "CString malloc s m = (let p = malloc m (length s + 1) in (p, m(p \<mapsto> s @ [0])))"

section \<open>Requests for pages\<close>

text \<open>\<open>SunAPP\<close> is the function the program installs to make the page for an address.\<close>

definition SuneidoAPP :: "(byte list \<Rightarrow> byte list) \<Rightarrow> allocator \<Rightarrow> cmem app_fn" where
  "SuneidoAPP SunAPP malloc buf m =
     do { url \<leftarrow> GoString (buf_data buf) m;
          let res = SunAPP url;
          let (p, m) = CString malloc res m;
          Some (buf\<lparr>buf_data := p, buf_size := Some (of_nat (length res))\<rparr>, m) }"

text \<open>A request from C: the converted address is at \<open>a\<close> while \<^verbatim>\<open>suneidoAPP\<close> runs in \<open>thread\<close>. A size that was never
  stored has no value. The list has the threads in which the page function ran.\<close>

definition page_request ::
  "(byte list \<Rightarrow> byte list) \<Rightarrow> allocator \<Rightarrow> (uintptr \<Rightarrow> bool) \<Rightarrow> cside_state \<Rightarrow> 32 word \<Rightarrow> uintptr
     \<Rightarrow> byte list option \<Rightarrow> cmem \<Rightarrow> (uintptr \<times> 32 word \<times> 32 word list \<times> cmem) option" where
  "page_request SunAPP malloc delivers s thread a url m0 =
     do { let (u, m) = (case url of None \<Rightarrow> (nullptr, m0) | Some z \<Rightarrow> (a, m0(a \<mapsto> z)));
          (buf, threads, m) \<leftarrow> suneidoAPP (SuneidoAPP SunAPP malloc) delivers s thread u m;
          size \<leftarrow> buf_size buf;
          Some (buf_data buf, size, threads, if url = None then m else m(a := m0 a)) }"

text \<open>The call \<^verbatim>\<open>suneidoAPP(url)\<close> in \<^verbatim>\<open>CSuneidoAPP::Start\<close>; the converted address is on the stack.\<close>

definition fetch_page ::
  "(byte list \<Rightarrow> byte list) \<Rightarrow> allocator \<Rightarrow> (uintptr \<Rightarrow> bool) \<Rightarrow> cside_state \<Rightarrow> 32 word \<Rightarrow> uintptr
     \<Rightarrow> byte list option \<Rightarrow> aworld \<Rightarrow> (uintptr \<times> 32 word \<times> aworld) option" where
  "fetch_page SunAPP malloc delivers s thread a url w =
     do { (data, size, _, m) \<leftarrow> page_request SunAPP malloc delivers s thread a url (buffers w);
          Some (data, size, w\<lparr>buffers := m\<rparr>) }"

section \<open>Message boxes\<close>

text \<open>\<open>display\<close> is what the user answers to a text, a caption and a style. The events of \<^verbatim>\<open>cside.c\<close> are
  applied to the memory.\<close>

fun apply_free :: "event \<Rightarrow> cmem \<Rightarrow> cmem" where
  "apply_free (Free p) m = m(p := None)"
| "apply_free _ m = m"

definition show_text ::
  "(byte list option \<Rightarrow> string \<Rightarrow> 32 word \<Rightarrow> 32 word) \<Rightarrow> cmem \<Rightarrow> uintptr \<Rightarrow> string \<Rightarrow> 32 word \<Rightarrow> 32 word" where
  "show_text display m p = display (GoString p m)"

definition go_Alert ::
  "string \<Rightarrow> (byte list option \<Rightarrow> string \<Rightarrow> 32 word \<Rightarrow> 32 word) \<Rightarrow> uintptr \<Rightarrow> allocator \<Rightarrow> byte list \<Rightarrow> cmem \<Rightarrow> cmem" where
  "go_Alert mode display thread malloc s m =
     (if mode = ''gui''
      then let (p, m) = CString malloc s m; (r, es) = alert (show_text display m) thread p 0 in fold apply_free es m
      else m)"

text \<open>The outer option is absent when the answer depends on a value that was never stored.\<close>

definition go_AlertCancel ::
  "string \<Rightarrow> (byte list option \<Rightarrow> string \<Rightarrow> 32 word \<Rightarrow> 32 word) \<Rightarrow> uintptr \<Rightarrow> allocator \<Rightarrow> byte list \<Rightarrow> cmem
     \<Rightarrow> (bool \<times> cmem) option" where
  "go_AlertCancel mode display thread malloc s m =
     (if mode = ''gui''
      then let (p, m) = CString malloc s m; (r, es) = alert (show_text display m) thread p 1 in
           do { r \<leftarrow> r; Some (r \<noteq> 2, fold apply_free es m) }
      else Some (True, m))"

text \<open>\<open>fatalOnce\<close> has been used or not; slicing the empty string panics.\<close>

definition go_Fatal ::
  "string \<Rightarrow> (byte list option \<Rightarrow> string \<Rightarrow> 32 word \<Rightarrow> 32 word) \<Rightarrow> uintptr \<Rightarrow> allocator \<Rightarrow> byte list
     \<Rightarrow> bool \<times> cmem \<Rightarrow> (bool \<times> cmem) option" where
  "go_Fatal mode display thread malloc s = (\<lambda>(fatalOnce, m).
     (if mode = ''gui'' \<and> \<not> fatalOnce
      then if s = [] then None
           else let (p, m) = CString malloc (butlast s) m in
                Some (True, fold apply_free (fatal (show_text display m) thread p) m)
      else Some (fatalOnce, m)))"

definition go_Interrupt :: "bool \<Rightarrow> uintptr list \<Rightarrow> bool ending \<times> uintptr list" where
  "go_Interrupt = interrupt"

section \<open>Lemmas\<close>

lemma c_str_terminated [simp]: "0 \<notin> set s \<Longrightarrow> c_str (s @ 0 # r) = Some s"
  by (simp add: c_str_def takeWhile_append)

lemma zstr_eq: "zstr s = s @ [0]"
  by (simp add: zstr_def flip: replicate_append_same)

text \<open>A Go string without a null byte survives the way to the C side and back, on both routes.\<close>

lemma CString_roundtrip:
  assumes "0 \<notin> set s" and "malloc m (length s + 1) \<noteq> nullptr" and "CString malloc s m = (p, m')"
  shows "GoString p m' = Some s \<and> c_str (zstr s) = Some s"
  using assms by (auto simp: CString_def GoString_def zstr_eq Let_def)

lemma SuneidoAPP_page:
  assumes "GoString (buf_data buf) m = Some url"
  shows "SuneidoAPP SunAPP malloc buf m =
    Some (buf\<lparr>buf_data := malloc m (length (SunAPP url) + 1), buf_size := Some (of_nat (length (SunAPP url)))\<rparr>,
      m(malloc m (length (SunAPP url) + 1) \<mapsto> SunAPP url @ [0]))"
  using assms by (simp add: SuneidoAPP_def CString_def Let_def)

text \<open>A request for a terminated address, whichever thread makes it: the page function is asked for the address in the
  main thread, and the bytes it returns are in a new block.\<close>

lemma request_served:
  fixes addr rest SunAPP malloc m
  assumes "delivers (helperHwnd s)" and "a \<noteq> nullptr" and "0 \<notin> set addr"
  defines "m1 \<equiv> m(a \<mapsto> addr @ 0 # rest)"
  defines "q \<equiv> malloc m1 (length (SunAPP addr) + 1)" and "n \<equiv> of_nat (length (SunAPP addr)) :: 32 word"
  shows "suneidoAPP (SuneidoAPP SunAPP malloc) delivers s thread a m1 =
      Some (\<lparr>buf_data = q, buf_size = Some n\<rparr>, [main_threadid s], m1(q \<mapsto> SunAPP addr @ [0]))"
    and "page_request SunAPP malloc delivers s thread a (Some (addr @ 0 # rest)) m =
      Some (q, n, [main_threadid s], m1(q \<mapsto> SunAPP addr @ [0], a := m a))"
proof -
  have "GoString a m1 = Some addr" using assms(2,3) by (simp add: GoString_def m1_def)
  then have "SuneidoAPP SunAPP malloc \<lparr>buf_data = a, buf_size = None\<rparr> m1 =
      Some (\<lparr>buf_data = q, buf_size = Some n\<rparr>, m1(q \<mapsto> SunAPP addr @ [0]))"
    by (simp add: SuneidoAPP_page q_def n_def)
  with suneidoAPP_on_main_thread [of delivers s "SuneidoAPP SunAPP malloc" a m1 _ _ thread] assms(1)
  show r: "suneidoAPP (SuneidoAPP SunAPP malloc) delivers s thread a m1 =
      Some (\<lparr>buf_data = q, buf_size = Some n\<rparr>, [main_threadid s], m1(q \<mapsto> SunAPP addr @ [0]))" by simp
  then show "page_request SunAPP malloc delivers s thread a (Some (addr @ 0 # rest)) m =
      Some (q, n, [main_threadid s], m1(q \<mapsto> SunAPP addr @ [0], a := m a))"
    by (simp add: page_request_def m1_def)
qed

text \<open>A message box leaves the memory as it was: the copy of the text is freed by the C side.\<close>

lemma alert_memory:
  assumes "malloc m (length s + 1) \<notin> dom m" and "CString malloc s m = (p, m')"
  shows "fold apply_free (snd (alert MB thread p typ)) m' = m" "snd (alert MB thread p typ) = fatal MB thread p"
  using assms by (auto simp: CString_def alert_def fatal_def msgbox_def Let_def fun_upd_idem_iff domIff)

text \<open>What the user is shown and what is returned: the text up to its first null byte, and false only when
  the user chose to cancel.\<close>

theorem alert_cancel:
  assumes "thread \<noteq> nullptr" and "malloc m (length s + 1) \<noteq> nullptr" and "malloc m (length s + 1) \<notin> dom m"
  shows "go_AlertCancel mode display thread malloc s m =
    Some (mode = ''gui'' \<longrightarrow> display (Some (takeWhile (\<lambda>x. x \<noteq> 0) s)) ''Alert'' 0x52001 \<noteq> 2, m)"
proof -
  obtain p m' where c: "CString malloc s m = (p, m')" by fastforce
  then have p: "GoString p m' = Some (takeWhile (\<lambda>x. x \<noteq> 0) (s @ [0]))"
    using assms(2) by (auto simp: CString_def GoString_def c_str_def Let_def)
  have "takeWhile (\<lambda>x. x \<noteq> 0) (s @ [0]) = takeWhile (\<lambda>x. x \<noteq> 0) s" by (induction s) auto
  with p have g: "GoString p m' = Some (takeWhile (\<lambda>x. x \<noteq> 0) s)" by simp
  have "fst (alert (show_text display m') thread p 1) = Some (display (Some (takeWhile (\<lambda>x. x \<noteq> 0) s)) ''Alert'' 0x52001)"
    using assms(1) g by (simp add: alert_def msgbox_def message_thread_def show_text_def Let_def MB_TASKMODAL_def
        MB_TOPMOST_def MB_SETFOREGROUND_def)
  with c alert_memory(1) [OF assms(3) c, of "show_text display m'" thread 1] show ?thesis
    by (auto simp: go_AlertCancel_def split: prod.splits)
qed

text \<open>The fatal message is shown once however often the function is called, without its last byte.\<close>

theorem fatal_once:
  assumes "malloc m (length s) \<notin> dom m" and "s \<noteq> []"
  shows "go_Fatal ''gui'' display thread malloc s (False, m) = Some (True, m)"
    and "go_Fatal mode display thread malloc s' (True, m) = Some (True, m)"
    and "go_Fatal ''gui'' display thread malloc [] (False, m) = None"
proof -
  obtain p m' where c: "CString malloc (butlast s) m = (p, m')" by fastforce
  have "malloc m (length (butlast s) + 1) \<notin> dom m" using assms by (simp add: Suc_pred')
  from alert_memory [OF this c, of "show_text display m'" thread 0] c assms(2)
  show "go_Fatal ''gui'' display thread malloc s (False, m) = Some (True, m)" by (simp add: go_Fatal_def)
qed (simp_all add: go_Fatal_def)

section \<open>A page from the program to the browser\<close>

text \<open>C6: a page travels from the program to the browser unchanged. Whichever thread the control calls in,
  once the helper window exists, \<^verbatim>\<open>Start\<close> succeeds for a terminated address, the program's page function
  is asked for exactly that address in the main thread, and reading in pieces of any positive size ends with the
  bytes the function returned, provided their number fits the 32-bit size.\<close>

theorem page_end_to_end:
  assumes "apps w p = Some x" and "delivers (helperHwnd s)" and "a \<noteq> nullptr"
    and "w2a url ((length url + 1) * 2) = addr @ 0 # rest" and "0 \<notin> set addr"
    and "malloc ((buffers w)(a \<mapsto> addr @ 0 # rest)) (length (SunAPP addr) + 1) \<notin> insert a (dom (buffers w))"
    and "length (SunAPP addr) < 2 ^ 32" and "0 < unat cb" and "length (SunAPP addr) < fuel"
  shows "\<exists>buf m w1 w2. suneidoAPP (SuneidoAPP SunAPP malloc) delivers s thread a ((buffers w)(a \<mapsto> addr @ 0 # rest))
        = Some (buf, [main_threadid s], m)
    \<and> app_Start w2a (fetch_page SunAPP malloc delivers s thread a) (Some url) sink p w = Some (S_OK, w1)
    \<and> read_loop fuel cb p w1 = Some (SunAPP addr, w2)"
proof -
  let ?m = "(buffers w)(a \<mapsto> addr @ 0 # rest)"
  let ?q = "malloc ?m (length (SunAPP addr) + 1)"
  let ?n = "of_nat (length (SunAPP addr)) :: 32 word"
  let ?buf = "\<lparr>buf_data = ?q, buf_size = Some ?n\<rparr>"
  let ?m2 = "?m(?q \<mapsto> SunAPP addr @ [0])"
  let ?w0 = "w\<lparr>buffers := ?m2(a := buffers w a)\<rparr>"
  note r = request_served [where delivers = delivers and s = s and SunAPP = SunAPP and malloc = malloc and thread = thread
      and m = "buffers w" and rest = rest, OF assms(2,3,5)]
  then have f: "fetch_page SunAPP malloc delivers s thread a (W2CA w2a (Some url)) w = Some (?q, ?n, ?w0)"
    using assms(4) by (simp add: fetch_page_def W2CA_def)
  have n: "unat ?n = length (SunAPP addr)" using assms(7) by (simp add: unat_of_nat take_bit_nat_eq_self)
  let ?w1 = "put_app p (Some (x\<lparr>str := ?q, len := ?n, pos := 0\<rparr>)) ?w0"
  let ?w2 = "?w1\<lparr>SunApp.calls := SunApp.calls ?w1 @ [Call ''ReportData'' [sink, 6, ucast ?n, ucast ?n]]\<rparr>"
  have st: "app_Start w2a (fetch_page SunAPP malloc delivers s thread a) (Some url) sink p w = Some (S_OK, ?w2)"
    using f assms(1) by (simp add: app_Start_def Let_def)
  have "streaming (SunAPP addr) 0 p ?w2" using n assms(6) by (auto simp: streaming_def)
  from read_loop_streaming [OF this assms(8), of fuel] assms(9)
  obtain w3 where "read_loop fuel cb p ?w2 = Some (SunAPP addr, w3)" by auto
  with r(1) st show ?thesis by blast
qed

theorem page_end_to_end_witness:
  "\<exists>w1 w2. app_Start (\<lambda>u n. map ucast u @ [0])
      (fetch_page (\<lambda>u. u @ u) (\<lambda>m n. 0x80) (\<lambda>h. h = 8)
         \<lparr>main_threadid = 1, helperHwnd = 8, hook_ptr = 3, setup_calls = []\<rparr> 4 0x50) (Some [97, 98]) 5 0x10
      (CSuneidoAPP_new 0x10 \<lparr>apps = Map.empty, factories = Map.empty, buffers = Map.empty, calls = []\<rparr>) = Some (S_OK, w1)
    \<and> read_loop 5 3 0x10 w1 = Some ([97, 98, 97, 98], w2)"
  using page_end_to_end [of "CSuneidoAPP_new 0x10 \<lparr>apps = Map.empty, factories = Map.empty, buffers = Map.empty, calls = []\<rparr>"
      "0x10" "\<lparr>len = 0, pos = 0, str = nullptr, m_cRef = 1\<rparr>" "\<lambda>h. h = 8"
      "\<lparr>main_threadid = 1, helperHwnd = 8, hook_ptr = 3, setup_calls = []\<rparr>" "0x50"
      "\<lambda>u n. map ucast u @ [0]" "[97, 98]" "[97, 98]" "[]" "\<lambda>m n. 0x80" "\<lambda>u. u @ u" 3 5 4 5]
  by (auto simp: CSuneidoAPP_new_def simp del: read_loop.simps)

end
