(* ===== verification/Requests.thy ===== *)
theory Requests
  imports GoSide
begin

text \<open>
  Page requests from several threads. \<^verbatim>\<open>suneidoAPP\<close> sends a message to the helper window when it is not
  called in the main thread, and waits; the main thread runs the window procedure when it next
  retrieves a message. The page function may itself run a dialog with a message loop of its own, in
  which further requests are served before it returns. The steps of all threads are interleaved here: where the page
  function runs, who gets which answer, and that the waiting ends.
\<close>

section \<open>Threads and their stacks\<close>

text \<open>A thread is in a message loop or in the page function for a request, nested to any depth,
  innermost first; a thread that does neither has an empty stack. \<open>sent\<close> has the messages sent to the helper window and
  not yet taken. An answer keeps who asked, for what, and what came back; \<open>ran_in\<close> has the thread of every
  completed call of the page function.\<close>

datatype frame = Loop | Serve "32 word" uintptr

record answer =
  asker :: "32 word"
  page_url :: uintptr
  page_buf :: buf_t

record 'w rstate =
  stacks :: "32 word \<Rightarrow> frame list"
  sent :: "(32 word \<times> uintptr) list"
  waiting :: "32 word set"
  asked :: "32 word \<Rightarrow> nat"
  ran_in :: "32 word list"
  answers :: "answer list"
  mem :: 'w

text \<open>The buffer of \<^verbatim>\<open>suneidoAPP\<close> before it is answered: the address, and a size with no value.\<close>

definition request_buf :: "uintptr \<Rightarrow> buf_t" where
  "request_buf url = \<lparr>buf_data = url, buf_size = None\<rparr>"

definition requests_start :: "cside_state \<Rightarrow> 'w \<Rightarrow> 'w rstate" where
  "requests_start c w = \<lparr>stacks = (\<lambda>t. [])(main_threadid c := [Loop]), sent = [], waiting = {}, asked = (\<lambda>t. 0),
     ran_in = [], answers = [], mem = w\<rparr>"

text \<open>\<^verbatim>\<open>suneidoAPP\<close> up to the point where it waits or calls the page function, in any thread: \<open>delivers\<close> tells whether
  there is a window to send to; without one \<^verbatim>\<open>SendMessage\<close> fails, which the code does not notice, and the buffer goes back
  as it is.\<close>

definition ask :: "(uintptr \<Rightarrow> bool) \<Rightarrow> cside_state \<Rightarrow> 32 word \<Rightarrow> uintptr \<Rightarrow> 'w rstate \<Rightarrow> 'w rstate" where
  "ask delivers c thread url s =
     (let s = s\<lparr>asked := (asked s)(thread := asked s thread + 1)\<rparr> in
      if thread \<noteq> main_threadid c
      then (if delivers (helperHwnd c)
            then s\<lparr>sent := sent s @ [(thread, url)], waiting := insert thread (waiting s)\<rparr>
            else s\<lparr>answers := answers s @ [\<lparr>asker = thread, page_url = url, page_buf = request_buf url\<rparr>]\<rparr>)
      else s\<lparr>stacks := (stacks s)(thread := Serve thread url # stacks s thread)\<rparr>)"

text \<open>The page function returns in thread \<open>t\<close>: its buffer is the answer, and the asker goes on.\<close>

definition reply_to :: "32 word \<Rightarrow> frame list \<Rightarrow> 32 word \<Rightarrow> uintptr \<Rightarrow> buf_t \<Rightarrow> 'w \<Rightarrow> 'w rstate \<Rightarrow> 'w rstate" where
  "reply_to t fs thread url buf w s =
     s\<lparr>stacks := (stacks s)(t := fs), waiting := waiting s - {thread}, ran_in := ran_in s @ [t],
       answers := answers s @ [\<lparr>asker = thread, page_url = url, page_buf = buf\<rparr>], mem := w\<rparr>"

text \<open>The steps that serve what has been asked. A message loop that retrieves messages takes those sent to the windows of
  its thread first; the helper window belongs to the thread that ran \<^verbatim>\<open>setup\<close>, which is the one whose number
  \<^verbatim>\<open>setup\<close> has stored. The page function returns in the thread it was called in.\<close>

inductive serve_step :: "'w app_fn \<Rightarrow> cside_state \<Rightarrow> 'w rstate \<Rightarrow> 'w rstate \<Rightarrow> bool" for App c where
  dispatch: "stacks s (main_threadid c) = Loop # fs \<Longrightarrow> sent s = (thread, url) # q \<Longrightarrow>
     serve_step App c s (s\<lparr>stacks := (stacks s)(main_threadid c := Serve thread url # Loop # fs), sent := q\<rparr>)"
| return: "stacks s t = Serve thread url # fs \<Longrightarrow> App (request_buf url) (mem s) = Some (buf, w) \<Longrightarrow>
     serve_step App c s (reply_to t fs thread url buf w s)"

text \<open>A dialog that the page function runs: it is opened, and when the user ends it, its loop returns to the page function.\<close>

inductive open_dialog :: "'w rstate \<Rightarrow> 'w rstate \<Rightarrow> bool" where
  "stacks s t = Serve thread url # fs \<Longrightarrow> open_dialog s (s\<lparr>stacks := (stacks s)(t := Loop # Serve thread url # fs)\<rparr>)"

inductive close_dialog :: "'w rstate \<Rightarrow> 'w rstate \<Rightarrow> bool" where
  "stacks s t = Loop # f # fs \<Longrightarrow> close_dialog s (s\<lparr>stacks := (stacks s)(t := f # fs)\<rparr>)"

text \<open>All steps: a thread that waits makes no second request.\<close>

inductive request_step :: "'w app_fn \<Rightarrow> (uintptr \<Rightarrow> bool) \<Rightarrow> cside_state \<Rightarrow> 'w rstate \<Rightarrow> 'w rstate \<Rightarrow> bool" for App delivers c where
  new: "thread \<notin> waiting s \<Longrightarrow> request_step App delivers c s (ask delivers c thread url s)"
| answer: "serve_step App c s s' \<Longrightarrow> request_step App delivers c s s'"
| nest: "open_dialog s s' \<Longrightarrow> request_step App delivers c s s'"
| unnest: "close_dialog s s' \<Longrightarrow> request_step App delivers c s s'"

inductive requests_reachable :: "'w app_fn \<Rightarrow> (uintptr \<Rightarrow> bool) \<Rightarrow> cside_state \<Rightarrow> 'w \<Rightarrow> 'w rstate \<Rightarrow> bool" for App delivers c w0 where
  start: "requests_reachable App delivers c w0 (requests_start c w0)"
| step: "requests_reachable App delivers c w0 s \<Longrightarrow> request_step App delivers c s s' \<Longrightarrow> requests_reachable App delivers c w0 s'"

text \<open>The steps that finish what has been started: no new request, no new dialog.\<close>

definition finish :: "'w app_fn \<Rightarrow> cside_state \<Rightarrow> 'w rstate \<Rightarrow> 'w rstate \<Rightarrow> bool" where
  "finish App c s s' \<longleftrightarrow> serve_step App c s s' \<or> close_dialog s s'"

section \<open>Invariants\<close>

fun requester :: "frame \<Rightarrow> 32 word list" where
  "requester Loop = []"
| "requester (Serve t u) = [t]"

text \<open>The requests that are under way: sent, or being served in the main thread.\<close>

definition pending :: "cside_state \<Rightarrow> 'w rstate \<Rightarrow> 32 word list" where
  "pending c s = map fst (sent s) @ concat (map requester (stacks s (main_threadid c)))"

text \<open>What an answer can be: a result of the page function for the address, or the unchanged buffer when there was no
  window to ask.\<close>

definition answer_ok :: "'w app_fn \<Rightarrow> (uintptr \<Rightarrow> bool) \<Rightarrow> cside_state \<Rightarrow> answer \<Rightarrow> bool" where
  "answer_ok App delivers c a \<longleftrightarrow>
     (if asker a \<noteq> main_threadid c \<and> \<not> delivers (helperHwnd c) then page_buf a = request_buf (page_url a)
      else \<exists>w w'. App (request_buf (page_url a)) w = Some (page_buf a, w'))"

definition requests_ok :: "'w app_fn \<Rightarrow> (uintptr \<Rightarrow> bool) \<Rightarrow> cside_state \<Rightarrow> 'w rstate \<Rightarrow> bool" where
  "requests_ok App delivers c s \<longleftrightarrow>
     waiting s = set (pending c s) - {main_threadid c} \<and>
     (\<forall>t. t \<noteq> main_threadid c \<longrightarrow> count_list (pending c s) t \<le> 1) \<and>
     (\<forall>t. asked s t = count_list (map asker (answers s)) t + count_list (pending c s) t) \<and>
     main_threadid c \<notin> set (map fst (sent s)) \<and>
     (\<exists>fs. stacks s (main_threadid c) = fs @ [Loop]) \<and>
     (\<forall>t. t \<noteq> main_threadid c \<longrightarrow> stacks s t = []) \<and>
     set (ran_in s) \<subseteq> {main_threadid c} \<and>
     (\<not> delivers (helperHwnd c) \<longrightarrow> set (pending c s) \<subseteq> {main_threadid c}) \<and>
     (\<forall>a\<in>set (answers s). answer_ok App delivers c a)"

lemma requests_okD:
  assumes "requests_ok App delivers c s"
  shows "waiting s = set (pending c s) - {main_threadid c}" "\<And>t. t \<noteq> main_threadid c \<Longrightarrow> count_list (pending c s) t \<le> 1"
    "\<And>t. asked s t = count_list (map asker (answers s)) t + count_list (pending c s) t"
    "main_threadid c \<notin> set (map fst (sent s))" "\<exists>fs. stacks s (main_threadid c) = fs @ [Loop]"
    "\<And>t. t \<noteq> main_threadid c \<Longrightarrow> stacks s t = []" "set (ran_in s) \<subseteq> {main_threadid c}"
    "\<not> delivers (helperHwnd c) \<Longrightarrow> set (pending c s) \<subseteq> {main_threadid c}"
    "\<And>a. a \<in> set (answers s) \<Longrightarrow> answer_ok App delivers c a"
  using assms unfolding requests_ok_def by blast+

lemma count_list_pos: "x \<in> set xs \<longleftrightarrow> 0 < count_list xs x"
  by (induction xs) auto

lemma requests_ok_start: "requests_ok App delivers c (requests_start c w)"
  by (simp add: requests_ok_def requests_start_def pending_def)

lemma requests_ok_ask:
  assumes "requests_ok App delivers c s" "thread \<notin> waiting s"
  shows "requests_ok App delivers c (ask delivers c thread url s)"
proof -
  have "thread \<noteq> main_threadid c \<Longrightarrow> count_list (pending c s) thread = 0"
    using assms count_list_pos [of thread "pending c s"] by (auto simp: requests_ok_def)
  then show ?thesis
    using assms by (auto simp: requests_ok_def ask_def pending_def answer_ok_def Let_def)
qed

text \<open>Only the main thread has a page function to return from.\<close>

lemma serving_main:
  "requests_ok App delivers c s \<Longrightarrow> stacks s t = f # fs \<Longrightarrow> t = main_threadid c"
  using requests_okD(6) [of App delivers c s t] by (cases "t = main_threadid c") auto

lemma requests_ok_serve:
  assumes ok: "requests_ok App delivers c s" and "serve_step App c s s'"
  shows "requests_ok App delivers c s'"
  using assms(2)
proof cases
  case (dispatch fs thread url q)
  then show ?thesis using ok by (auto simp: requests_ok_def pending_def)
next
  case (return t thread url fs buf w)
  note t = serving_main [OF ok return(2)]
  let ?rest = "map fst (sent s) @ concat (map requester fs)"
  have p: "pending c s' = ?rest" "\<And>u. count_list (pending c s) u = count_list ?rest u + (if u = thread then 1 else 0)"
    "set (pending c s) = insert thread (set ?rest)"
    using return t by (auto simp: pending_def reply_to_def)
  have n: "thread \<noteq> main_threadid c \<Longrightarrow> thread \<notin> set ?rest"
    using requests_okD(2) [OF ok, of thread] p(2) [of thread] count_list_pos [of thread ?rest] by auto
  obtain fs' where fs: "fs = fs' @ [Loop]"
    using requests_okD(5) [OF ok] return(2) t by (auto simp: Cons_eq_append_conv)
  have a: "answer_ok App delivers c \<lparr>asker = thread, page_url = url, page_buf = buf\<rparr>"
    using return(3) requests_okD(8) [OF ok] p(3) by (auto simp: answer_ok_def)
  have s': "stacks s' = (stacks s)(main_threadid c := fs)" "sent s' = sent s" "waiting s' = waiting s - {thread}" "asked s' = asked s"
    "ran_in s' = ran_in s @ [main_threadid c]" "answers s' = answers s @ [\<lparr>asker = thread, page_url = url, page_buf = buf\<rparr>]"
    using return(1) t by (simp_all add: reply_to_def)
  show ?thesis
    unfolding requests_ok_def s' p(1)
  proof (intro conjI allI impI)
    show "waiting s - {thread} = set ?rest - {main_threadid c}" using requests_okD(1) [OF ok] p(3) n by auto
    show "count_list ?rest u \<le> 1" if "u \<noteq> main_threadid c" for u using requests_okD(2) [OF ok that] p(2) [of u] by simp
    show "asked s u = count_list (map asker (answers s @ [\<lparr>asker = thread, page_url = url, page_buf = buf\<rparr>])) u + count_list ?rest u" for u
      using requests_okD(3) [OF ok, of u] p(2) [of u] by auto
    show "((stacks s)(main_threadid c := fs)) u = []" if "u \<noteq> main_threadid c" for u using requests_okD(6) [OF ok that] that by simp
  qed (use requests_okD(4,7,8,9) [OF ok] p(3) fs a in auto)
qed

lemma requests_ok_dialog:
  assumes ok: "requests_ok App delivers c s" and "open_dialog s s' \<or> close_dialog s s'"
  shows "requests_ok App delivers c s'"
  using assms(2)
proof
  assume "open_dialog s s'"
  then show ?thesis
  proof cases
    case (1 t thread url fs)
    then show ?thesis
      using ok serving_main [OF ok 1(2)] by (auto simp: requests_ok_def pending_def Cons_eq_append_conv)
  qed
next
  assume "close_dialog s s'"
  then show ?thesis
  proof cases
    case (1 t f fs)
    then show ?thesis
      using ok serving_main [OF ok 1(2)] by (auto simp: requests_ok_def pending_def Cons_eq_append_conv)
  qed
qed

lemma requests_ok_step:
  assumes "requests_ok App delivers c s" "request_step App delivers c s s'"
  shows "requests_ok App delivers c s'"
  using assms(2)
  by cases (use assms(1) requests_ok_ask requests_ok_serve requests_ok_dialog in blast)+

lemma reachable_requests_ok: "requests_reachable App delivers c w0 s \<Longrightarrow> requests_ok App delivers c s"
  by (induction rule: requests_reachable.induct) (auto intro: requests_ok_start requests_ok_step)

section \<open>Finishing\<close>

fun frame_weight :: "frame \<Rightarrow> nat" where
  "frame_weight Loop = 1"
| "frame_weight (Serve t u) = 2"

definition work :: "cside_state \<Rightarrow> 'w rstate \<Rightarrow> nat" where
  "work c s = 3 * length (sent s) + sum_list (map frame_weight (stacks s (main_threadid c)))"

lemma finish_less:
  assumes ok: "requests_ok App delivers c s" and "finish App c s s'"
  shows "work c s' < work c s"
  using assms(2) unfolding finish_def
proof
  assume "serve_step App c s s'"
  then show ?thesis
  proof cases
    case (return t thread url fs buf w)
    then show ?thesis using serving_main [OF ok return(2)] by (simp add: work_def reply_to_def)
  qed (simp add: work_def)
next
  assume "close_dialog s s'"
  then show ?thesis
  proof cases
    case (1 t f fs)
    then show ?thesis using serving_main [OF ok 1(2)] by (simp add: work_def)
  qed
qed

lemma finish_ok: "requests_ok App delivers c s \<Longrightarrow> finish App c s s' \<Longrightarrow> requests_ok App delivers c s'"
  using requests_ok_serve requests_ok_dialog unfolding finish_def by blast

lemma finishes_ok: "(finish App c)\<^sup>*\<^sup>* s s' \<Longrightarrow> requests_ok App delivers c s \<Longrightarrow> requests_ok App delivers c s'"
  by (induction rule: rtranclp_induct) (auto intro: finish_ok)

lemma serve_finish: "(serve_step App c)\<^sup>*\<^sup>* s s' \<Longrightarrow> (finish App c)\<^sup>*\<^sup>* s s'"
  by (induction rule: rtranclp_induct) (auto simp: finish_def intro: rtranclp.rtrancl_into_rtrancl)

text \<open>Serving goes on until the main thread is in a loop and no message is left.\<close>

lemma serve_progress:
  assumes ok: "requests_ok App delivers c s" and app: "\<And>b w. App b w \<noteq> None" and stuck: "\<nexists>s'. serve_step App c s s'"
  shows "sent s = [] \<and> (\<exists>fs. stacks s (main_threadid c) = Loop # fs)"
proof -
  obtain f fs where f: "stacks s (main_threadid c) = f # fs" using requests_okD(5) [OF ok] by (metis append_is_Nil_conv list.exhaust not_Cons_self2)
  have "f = Loop"
  proof (rule ccontr)
    assume "f \<noteq> Loop"
    then obtain u url where u: "f = Serve u url" by (cases f) auto
    obtain buf w where "App (request_buf url) (mem s) = Some (buf, w)" using app [of "request_buf url" "mem s"] by force
    then show False using stuck serve_step.return [of s "main_threadid c" u url fs App buf w c] f u by blast
  qed
  moreover have "sent s = []"
  proof (rule ccontr)
    assume "sent s \<noteq> []"
    then obtain u url q where "sent s = (u, url) # q" by (metis list.exhaust surj_pair)
    then show False using stuck serve_step.dispatch [of s c fs u url q App] f \<open>f = Loop\<close> by blast
  qed
  ultimately show ?thesis using f by blast
qed

lemma finish_progress:
  assumes ok: "requests_ok App delivers c s" and app: "\<And>b w. App b w \<noteq> None" and stuck: "\<nexists>s'. finish App c s s'"
  shows "waiting s = {}"
proof -
  have "sent s = []" "\<exists>fs. stacks s (main_threadid c) = Loop # fs"
    using serve_progress [OF ok app] stuck unfolding finish_def by blast+
  moreover have "fs = []" if "stacks s (main_threadid c) = Loop # fs" for fs
    using stuck close_dialog.intros [of s "main_threadid c"] that unfolding finish_def by (cases fs) blast+
  ultimately show ?thesis using requests_okD(1) [OF ok] by (auto simp: pending_def)
qed

lemma finish_ends:
  assumes "requests_ok App delivers c s" and app: "\<And>b w. App b w \<noteq> None"
  shows "\<exists>n s'. n \<le> work c s \<and> (finish App c ^^ n) s s' \<and> waiting s' = {}"
  using assms(1)
proof (induction "work c s" arbitrary: s rule: less_induct)
  case less
  show ?case
  proof (cases "\<exists>s1. finish App c s s1")
    case False
    then have "waiting s = {}" by (intro finish_progress [OF less.prems app])
    then show ?thesis by (intro exI [of _ 0] exI [of _ s]) simp
  next
    case True
    then obtain s1 where s1: "finish App c s s1" by blast
    from less.hyps [OF finish_less [OF less.prems s1] finish_ok [OF less.prems s1]] obtain n s'
      where "n \<le> work c s1" "(finish App c ^^ n) s1 s'" "waiting s' = {}" by blast
    with s1 finish_less [OF less.prems s1] show ?thesis
      by (intro exI [of _ "Suc n"] exI [of _ s']) (auto simp del: relpowp.simps intro: relpowp_Suc_I2)
  qed
qed

section \<open>Sample runs\<close>

definition sample_cside :: cside_state where
  "sample_cside = \<lparr>main_threadid = 1, helperHwnd = 8, hook_ptr = 3, setup_calls = []\<rparr>"

text \<open>Two threads ask; the first request's page function runs a dialog in which the second is
  served.\<close>

definition two_asking :: "frame list \<Rightarrow> (32 word \<times> uintptr) list \<Rightarrow> nat rstate" where
  "two_asking fs q = \<lparr>stacks = (\<lambda>t. [])(1 := fs), sent = q, waiting = {5, 4}, asked = (\<lambda>t. 0)(4 := 1, 5 := 1), ran_in = [],
     answers = [], mem = 0\<rparr>"

definition two_asked :: "nat rstate" where
  "two_asked = two_asking [Loop] [(4, 0x50), (5, 0x60)]"

definition count_app :: "nat app_fn" where
  "count_app buf n = Some (buf\<lparr>buf_size := Some (of_nat n)\<rparr>, n + 1)"

abbreviation sample_reachable :: "nat rstate \<Rightarrow> bool" where
  "sample_reachable \<equiv> requests_reachable count_app (\<lambda>h. h = 8) sample_cside 0"

lemma two_asked_reachable: "sample_reachable two_asked"
proof -
  have "sample_reachable (ask (\<lambda>h. h = 8) sample_cside 4 0x50 (requests_start sample_cside 0))"
    by (rule requests_reachable.step [OF requests_reachable.start request_step.new]) (simp add: requests_start_def)
  then have "sample_reachable (ask (\<lambda>h. h = 8) sample_cside 5 0x60 (ask (\<lambda>h. h = 8) sample_cside 4 0x50 (requests_start sample_cside 0)))"
    by (rule requests_reachable.step [OF _ request_step.new]) (simp add: requests_start_def ask_def sample_cside_def)
  then show ?thesis by (simp add: two_asked_def two_asking_def requests_start_def ask_def sample_cside_def)
qed



section \<open>Properties\<close>



text \<open>C15: no request waits for ever, when the page function returns. From every reachable state: (1) the steps left to
  serve what was asked, with no new request and no new dialog, come to an end. (2) While the main thread serves, nothing is left
  in the queue, however deeply dialogs are nested: where it cannot go on, no message is waiting to be taken and it is in a
  message loop, so the only requests without an answer are those whose page function has a dialog open. (3) When also the
  dialogs are ended, every run that cannot go on has no thread waiting, and there is such a run within a bound given by the
  state.\<close>

theorem requests_answered:
  assumes "requests_reachable App delivers c w0 s" and "\<And>b w. App b w \<noteq> None"
  shows "wfP (\<lambda>s2 s1. requests_reachable App delivers c w0 s1 \<and> finish App c s1 s2)
    \<and> (\<forall>s'. (serve_step App c)\<^sup>*\<^sup>* s s' \<and> (\<nexists>s''. serve_step App c s' s'') \<longrightarrow>
         sent s' = [] \<and> (\<exists>fs. stacks s' (main_threadid c) = Loop # fs))
    \<and> (\<forall>s'. (finish App c)\<^sup>*\<^sup>* s s' \<and> (\<nexists>s''. finish App c s' s'') \<longrightarrow> waiting s' = {})
    \<and> (\<exists>n s'. n \<le> work c s \<and> (finish App c ^^ n) s s' \<and> waiting s' = {})"
proof (intro conjI allI impI)
  have ok: "requests_ok App delivers c s" by (rule reachable_requests_ok [OF assms(1)])
  show "wfP (\<lambda>s2 s1. requests_reachable App delivers c w0 s1 \<and> finish App c s1 s2)"
    by (rule wfp_if_convertible_to_nat [of _ "work c"]) (auto intro: finish_less reachable_requests_ok)
  show "\<exists>n s'. n \<le> work c s \<and> (finish App c ^^ n) s s' \<and> waiting s' = {}" by (rule finish_ends [OF ok assms(2)])
  fix s'
  show "sent s' = []" "\<exists>fs. stacks s' (main_threadid c) = Loop # fs"
    if "(serve_step App c)\<^sup>*\<^sup>* s s' \<and> (\<nexists>s''. serve_step App c s' s'')"
    using serve_progress [OF finishes_ok [OF serve_finish ok] assms(2)] that by blast+
  show "waiting s' = {}" if "(finish App c)\<^sup>*\<^sup>* s s' \<and> (\<nexists>s''. finish App c s' s'')"
    using finish_progress [OF finishes_ok [OF _ ok] assms(2)] that by blast
qed

theorem requests_answered_witness:
  "\<exists>n s'. n \<le> work sample_cside two_asked \<and> (finish count_app sample_cside ^^ n) two_asked s' \<and> waiting s' = {}"
  using requests_answered [OF two_asked_reachable] by (simp add: count_app_def)

end
