(* ===== verification/Browser.thy ===== *)
theory Browser
  imports RefCount "HOL-Library.Monad_Syntax"
begin

text \<open>
  \<^verbatim>\<open>builtin/goc/webview2/MyWebView2Base.h\<close>: the object that stands for one embedded browser.
  It is shared by the program, which owns one reference until it closes the browser, and by the
  event handlers registered with the engine, which own one each. Objects live in a store; an
  operation on an address where no object is stored has no result (\<open>None\<close>), which is the use of a
  destroyed object.
\<close>

section \<open>Constants\<close>

definition suneidoPrefix :: "wchar list" where
  "suneidoPrefix = map (of_nat \<circ> of_char) ''suneido:''"

definition suneidoPrefixSize :: nat where
  "suneidoPrefixSize = 8"

text \<open>The test \<^verbatim>\<open>wcslen(uri) >= suneidoPrefixSize && wcsncmp(uri, suneidoPrefix, suneidoPrefixSize) == 0\<close>.\<close>

definition has_suneidoPrefix :: "wchar list \<Rightarrow> bool" where
  "has_suneidoPrefix uri \<longleftrightarrow>
     suneidoPrefixSize \<le> length uri \<and> take suneidoPrefixSize uri = take suneidoPrefixSize suneidoPrefix"

datatype CALLBACK_TYPE =
    ON_READY | ON_LOADED | ON_ACCEL_KEY_PRESSED | ON_CONTEXT_MENU_REQUESTED | ON_NAVCOMPLETED

datatype webview2_ops =
    webview2_create | webview2_close | webview2_resize | webview2_navigate
  | webview2_navigate_to_string | webview2_execute_script | webview2_get_source
  | webview2_print | webview2_set_focus

datatype WEBVIEW_RESULT = OK | NOT_READY | INVALID_OP | DLL_NOT_FOUND | PROC_NOT_FOUND

datatype CREATE_WEBVIEW_STAGE =
    FINISH | CREATING_ENVIRONMENT | CREATING_CONTROLLER | CREATING_WEBVIEW
  | REGISTER_CUSTOM_SCHEME | ADD_LOAD_EVENT_LISTENER | ADD_ACCELERATOR_HANDLER
  | ADD_CONTEXTMENU_HANDLER

text \<open>An enumerator's value is its position.\<close>

primrec CALLBACK_TYPE_value :: "CALLBACK_TYPE \<Rightarrow> nat" where
  "CALLBACK_TYPE_value ON_READY = 0"
| "CALLBACK_TYPE_value ON_LOADED = 1"
| "CALLBACK_TYPE_value ON_ACCEL_KEY_PRESSED = 2"
| "CALLBACK_TYPE_value ON_CONTEXT_MENU_REQUESTED = 3"
| "CALLBACK_TYPE_value ON_NAVCOMPLETED = 4"

primrec webview2_ops_value :: "webview2_ops \<Rightarrow> nat" where
  "webview2_ops_value webview2_create = 0"
| "webview2_ops_value webview2_close = 1"
| "webview2_ops_value webview2_resize = 2"
| "webview2_ops_value webview2_navigate = 3"
| "webview2_ops_value webview2_navigate_to_string = 4"
| "webview2_ops_value webview2_execute_script = 5"
| "webview2_ops_value webview2_get_source = 6"
| "webview2_ops_value webview2_print = 7"
| "webview2_ops_value webview2_set_focus = 8"

primrec WEBVIEW_RESULT_value :: "WEBVIEW_RESULT \<Rightarrow> nat" where
  "WEBVIEW_RESULT_value OK = 0"
| "WEBVIEW_RESULT_value NOT_READY = 1"
| "WEBVIEW_RESULT_value INVALID_OP = 2"
| "WEBVIEW_RESULT_value DLL_NOT_FOUND = 3"
| "WEBVIEW_RESULT_value PROC_NOT_FOUND = 4"

primrec STAGE_value :: "CREATE_WEBVIEW_STAGE \<Rightarrow> nat" where
  "STAGE_value FINISH = 0"
| "STAGE_value CREATING_ENVIRONMENT = 1"
| "STAGE_value CREATING_CONTROLLER = 2"
| "STAGE_value CREATING_WEBVIEW = 3"
| "STAGE_value REGISTER_CUSTOM_SCHEME = 4"
| "STAGE_value ADD_LOAD_EVENT_LISTENER = 5"
| "STAGE_value ADD_ACCELERATOR_HANDLER = 6"
| "STAGE_value ADD_CONTEXTMENU_HANDLER = 7"

definition result_code :: "WEBVIEW_RESULT \<Rightarrow> HRESULT" where
  "result_code r = of_nat (WEBVIEW_RESULT_value r)"

text \<open>The stages in the order of the enumeration.\<close>

instantiation CREATE_WEBVIEW_STAGE :: linorder
begin

definition less_eq_CREATE_WEBVIEW_STAGE :: "CREATE_WEBVIEW_STAGE \<Rightarrow> CREATE_WEBVIEW_STAGE \<Rightarrow> bool" where
  "less_eq_CREATE_WEBVIEW_STAGE a b \<longleftrightarrow> STAGE_value a \<le> STAGE_value b"

definition less_CREATE_WEBVIEW_STAGE :: "CREATE_WEBVIEW_STAGE \<Rightarrow> CREATE_WEBVIEW_STAGE \<Rightarrow> bool" where
  "less_CREATE_WEBVIEW_STAGE a b \<longleftrightarrow> STAGE_value a < STAGE_value b"

instance
proof
  fix a b :: CREATE_WEBVIEW_STAGE
  assume "a \<le> b" "b \<le> a"
  then have "STAGE_value a = STAGE_value b" by (simp add: less_eq_CREATE_WEBVIEW_STAGE_def)
  then show "a = b" by (cases a; cases b) simp_all
qed (auto simp: less_eq_CREATE_WEBVIEW_STAGE_def less_CREATE_WEBVIEW_STAGE_def)

end

section \<open>The object and the world it lives in\<close>

record MyBrowserObject =
  controller :: uintptr
  webview2 :: uintptr
  hwnd :: uintptr
  onCallBackFn :: uintptr
  refCount :: ULONG

text \<open>The store of browser objects, the calls made to the outside, and which browsers the program
  still owns. What happens inside the program's callback is an argument: the value it returns and
  whether it closes the browser it is told about, which it can do while it owns it.\<close>

record bworld =
  browsers :: "uintptr \<Rightarrow> MyBrowserObject option"
  trace :: "event list"
  owners :: "uintptr set"

record runtime =
  callback_result :: "event list \<Rightarrow> uintptr"
  callback_closes :: "event list \<Rightarrow> bool"

definition emit :: "event \<Rightarrow> 'a bworld_scheme \<Rightarrow> 'a bworld_scheme" where
  "emit e w = w\<lparr>trace := trace w @ [e]\<rparr>"

definition put_browser :: "uintptr \<Rightarrow> MyBrowserObject option \<Rightarrow> 'a bworld_scheme \<Rightarrow> 'a bworld_scheme" where
  "put_browser p b w = w\<lparr>browsers := (browsers w)(p := b)\<rparr>"

section \<open>Construction, destruction and counting\<close>

definition MyBrowserObject_new :: "uintptr \<Rightarrow> uintptr \<Rightarrow> uintptr \<Rightarrow> 'a bworld_scheme \<Rightarrow> 'a bworld_scheme" where
  "MyBrowserObject_new p h cb w =
     put_browser p (Some \<lparr>controller = nullptr, webview2 = nullptr, hwnd = h, onCallBackFn = cb,
                          refCount = 1\<rparr>) w"

text \<open>The destructor's calls, then the storage is gone.\<close>

definition MyBrowserObject_delete :: "uintptr \<Rightarrow> 'a bworld_scheme \<Rightarrow> 'a bworld_scheme option" where
  "MyBrowserObject_delete p w =
     do { b \<leftarrow> browsers w p;
          let w = (if webview2 b \<noteq> nullptr then emit (Release (webview2 b)) w else w);
          let w = (if controller b \<noteq> nullptr
                   then emit (Release (controller b)) (emit (Call ''Close'' [controller b]) w) else w);
          Some (put_browser p None w) }"

definition MyBrowserObject_AddRef :: "uintptr \<Rightarrow> 'a bworld_scheme \<Rightarrow> (ULONG \<times> 'a bworld_scheme) option" where
  "MyBrowserObject_AddRef p w =
     do { b \<leftarrow> browsers w p;
          let n = refCount b + 1;
          Some (n, put_browser p (Some (b\<lparr>refCount := n\<rparr>)) w) }"

definition MyBrowserObject_Release :: "uintptr \<Rightarrow> 'a bworld_scheme \<Rightarrow> (ULONG \<times> 'a bworld_scheme) option" where
  "MyBrowserObject_Release p w =
     do { b \<leftarrow> browsers w p;
          let result = refCount b - 1;
          let w = put_browser p (Some (b\<lparr>refCount := result\<rparr>)) w;
          if result = 0 then do { w \<leftarrow> MyBrowserObject_delete p w; Some (result, w) }
          else Some (result, w) }"

definition MyBrowserObject_Close :: "uintptr \<Rightarrow> 'a bworld_scheme \<Rightarrow> (ULONG \<times> 'a bworld_scheme) option" where
  "MyBrowserObject_Close p w =
     do { b \<leftarrow> browsers w p;
          MyBrowserObject_Release p (put_browser p (Some (b\<lparr>onCallBackFn := nullptr\<rparr>)) w) }"

definition SetController :: "uintptr \<Rightarrow> uintptr \<Rightarrow> 'a bworld_scheme \<Rightarrow> 'a bworld_scheme option" where
  "SetController p v w =
     do { b \<leftarrow> browsers w p;
          if v = nullptr then None
          else Some (emit (AddRef v) (put_browser p (Some (b\<lparr>controller := v\<rparr>)) w)) }"

definition SetWebView2 :: "uintptr \<Rightarrow> uintptr \<Rightarrow> 'a bworld_scheme \<Rightarrow> 'a bworld_scheme option" where
  "SetWebView2 p v w =
     do { b \<leftarrow> browsers w p;
          if v = nullptr then None
          else Some (emit (AddRef v) (put_browser p (Some (b\<lparr>webview2 := v\<rparr>)) w)) }"

section \<open>Callbacks into the program\<close>

text \<open>The program gives up its reference when it closes a browser.\<close>

definition owner_close :: "uintptr \<Rightarrow> 'a bworld_scheme \<Rightarrow> (ULONG \<times> 'a bworld_scheme) option" where
  "owner_close p w = MyBrowserObject_Close p (w\<lparr>owners := owners w - {p}\<rparr>)"

text \<open>A call of \<^verbatim>\<open>onCallBackFn\<close> with its four arguments.\<close>

definition call_back ::
  "'r runtime_scheme \<Rightarrow> uintptr \<Rightarrow> CALLBACK_TYPE \<Rightarrow> uintptr \<Rightarrow> uintptr \<Rightarrow> uintptr \<Rightarrow> 'a bworld_scheme
     \<Rightarrow> (uintptr \<times> 'a bworld_scheme) option" where
  "call_back rt p type x y z w =
     (let w = emit (Call ''onCallBackFn'' [of_nat (CALLBACK_TYPE_value type), x, y, z]) w;
          r = callback_result rt (trace w) in
      if callback_closes rt (trace w) \<and> p \<in> owners w
      then do { (_, w) \<leftarrow> owner_close p w; Some (r, w) }
      else Some (r, w))"

definition onReady ::
  "'r runtime_scheme \<Rightarrow> uintptr \<Rightarrow> CREATE_WEBVIEW_STAGE \<Rightarrow> HRESULT \<Rightarrow> 'a bworld_scheme \<Rightarrow> 'a bworld_scheme option" where
  "onReady rt p stage result w =
     do { b \<leftarrow> browsers w p;
          if onCallBackFn b \<noteq> nullptr
          then do { (_, w) \<leftarrow> call_back rt p ON_READY (of_nat (STAGE_value stage)) (scast result) 0 w; Some w }
          else Some w }"

definition onLoaded :: "'r runtime_scheme \<Rightarrow> uintptr \<Rightarrow> 'a bworld_scheme \<Rightarrow> 'a bworld_scheme option" where
  "onLoaded rt p w =
     do { b \<leftarrow> browsers w p;
          if onCallBackFn b \<noteq> nullptr
          then do { (_, w) \<leftarrow> call_back rt p ON_LOADED 0 0 0 w; Some w }
          else Some w }"

definition onNavCompleted :: "'r runtime_scheme \<Rightarrow> uintptr \<Rightarrow> 'a bworld_scheme \<Rightarrow> 'a bworld_scheme option" where
  "onNavCompleted rt p w =
     do { b \<leftarrow> browsers w p;
          if onCallBackFn b \<noteq> nullptr
          then do { (_, w) \<leftarrow> call_back rt p ON_NAVCOMPLETED 0 0 0 w; Some w }
          else Some w }"

definition onAccelPressed ::
  "'r runtime_scheme \<Rightarrow> uintptr \<Rightarrow> 32 word \<Rightarrow> 'a bworld_scheme \<Rightarrow> (bool \<times> 'a bworld_scheme) option" where
  "onAccelPressed rt p key w =
     do { b \<leftarrow> browsers w p;
          if onCallBackFn b \<noteq> nullptr
          then do { (r, w) \<leftarrow> call_back rt p ON_ACCEL_KEY_PRESSED (ucast key) 0 0 w; Some (r \<noteq> 0, w) }
          else Some (False, w) }"

definition onContextMenuRequested ::
  "'r runtime_scheme \<Rightarrow> uintptr \<Rightarrow> 'a bworld_scheme \<Rightarrow> (bool \<times> 'a bworld_scheme) option" where
  "onContextMenuRequested rt p w =
     do { b \<leftarrow> browsers w p;
          if onCallBackFn b \<noteq> nullptr
          then do { (r, w) \<leftarrow> call_back rt p ON_CONTEXT_MENU_REQUESTED 0 0 0 w; Some (r \<noteq> 0, w) }
          else Some (False, w) }"

section \<open>Lemmas\<close>

lemmas browser_defs = MyBrowserObject_new_def MyBrowserObject_delete_def MyBrowserObject_AddRef_def
  MyBrowserObject_Release_def MyBrowserObject_Close_def SetController_def SetWebView2_def
  put_browser_def emit_def

lemma emit_sels [simp]:
  "browsers (emit e w) = browsers w" "owners (emit e w) = owners w"
  "trace (emit e w) = trace w @ [e]"
  by (simp_all add: emit_def)

lemma put_browser_sels [simp]:
  "browsers (put_browser p b w) = (browsers w)(p := b)" "owners (put_browser p b w) = owners w"
  "trace (put_browser p b w) = trace w"
  by (simp_all add: put_browser_def)

lemma delete_live: "browsers w p = Some b \<Longrightarrow> \<exists>w'. MyBrowserObject_delete p w = Some w' \<and>
    browsers w' = (browsers w)(p := None) \<and> owners w' = owners w"
  by (auto simp: MyBrowserObject_delete_def Let_def)

text \<open>The browser object obeys the reference rules.\<close>

interpretation browser: refcounted "\<lambda>w p. map_option refCount (browsers w p)" "\<lambda>w p. True"
  MyBrowserObject_AddRef MyBrowserObject_Release
proof
  fix w :: "'a bworld_scheme" and p c
  assume "map_option refCount (browsers w p) = Some c"
  then obtain b where b: "browsers w p = Some b" "refCount b = c" by auto
  show "\<exists>w'. MyBrowserObject_AddRef p w = Some (c + 1, w') \<and>
      map_option refCount (browsers w' p) = Some (c + 1) \<and> True"
    using b by (simp add: MyBrowserObject_AddRef_def Let_def)
  show "\<exists>w'. MyBrowserObject_Release p w = Some (c - 1, w') \<and>
      map_option refCount (browsers w' p) = Some (c - 1) \<and> True" if "c \<noteq> 1"
    using b that by (simp add: MyBrowserObject_Release_def Let_def)
next
  fix w :: "'a bworld_scheme" and p
  assume "map_option refCount (browsers w p) = Some 1"
  then obtain b where b: "browsers w p = Some b" "refCount b = 1" by auto
  let ?w = "put_browser p (Some (b\<lparr>refCount := 0\<rparr>)) w"
  have "browsers ?w p = Some (b\<lparr>refCount := 0\<rparr>)" by simp
  from delete_live [OF this] b
  show "\<exists>w'. MyBrowserObject_Release p w = Some (0, w') \<and> map_option refCount (browsers w' p) = None"
    by (auto simp: MyBrowserObject_Release_def Let_def)
qed (auto simp: MyBrowserObject_AddRef_def MyBrowserObject_Release_def)

text \<open>Any order of counted operations by owner and handlers.\<close>

lemmas browser_life = browser.run_alive browser.run_destroys

text \<open>What the browser object owns of the engine's objects.\<close>

definition owned_refs :: "MyBrowserObject \<Rightarrow> uintptr \<Rightarrow> int" where
  "owned_refs b q = (if webview2 b \<noteq> nullptr then one_on (webview2 b) q else 0)
     + (if controller b \<noteq> nullptr then one_on (controller b) q else 0)"

lemma delete_returns:
  "browsers w p = Some b \<Longrightarrow> MyBrowserObject_delete p w = Some w' \<Longrightarrow>
     held (trace w') q = held (trace w) q - owned_refs b q"
  by (auto simp: MyBrowserObject_delete_def owned_refs_def one_on_def Let_def)

section \<open>Properties\<close>

text \<open>The browser object lives exactly as long as someone holds a reference: in any sequence of
  \<^verbatim>\<open>AddRef\<close> and \<^verbatim>\<open>Release\<close> calls in which the number of references stays positive and fits
  the counter, no call touches a destroyed object and the object is there afterwards; one more
  \<^verbatim>\<open>Release\<close> when a single reference is left destroys it.\<close>

theorem browser_lifetime:
  assumes "browsers w p = Some b" and "stays_alive (uint (refCount b)) rs"
  shows "\<exists>w' b'. run_refs MyBrowserObject_AddRef MyBrowserObject_Release rs p w = Some w'
      \<and> browsers w' p = Some b' \<and> uint (refCount b') = uint (refCount b) + balance rs
      \<and> (uint (refCount b) + balance rs = 1 \<longrightarrow>
         (\<exists>w''. run_refs MyBrowserObject_AddRef MyBrowserObject_Release (rs @ [Rel]) p w = Some w''
            \<and> browsers w'' p = None))"
  using browser.run_alive [of w p "refCount b" rs] browser.run_destroys [of w p "refCount b" rs] assms
  by auto

theorem browser_lifetime_witness:
  "\<exists>w'. run_refs MyBrowserObject_AddRef MyBrowserObject_Release [Add, Add, Rel, Rel, Rel] 0x10
      (MyBrowserObject_new 0x10 7 9 \<lparr>browsers = Map.empty, trace = [], owners = {0x10}\<rparr>) = Some w'
      \<and> browsers w' 0x10 = None"
  using browser_lifetime [of "MyBrowserObject_new 0x10 7 9 \<lparr>browsers = Map.empty, trace = [], owners = {0x10}\<rparr>"
      "0x10" "\<lparr>controller = 0, webview2 = 0, hwnd = 7, onCallBackFn = 9, refCount = 1\<rparr>" "[Add, Add, Rel, Rel]"]
  by (auto simp: MyBrowserObject_new_def)

text \<open>Once the program has closed the browser it is never called back: if handlers keep the
  object alive, none of the five notifications makes a call, whatever they report, and the two that
  answer a question answer no.\<close>

theorem closed_browser_silent:
  assumes "MyBrowserObject_Close p w = Some (n, w')" and "n \<noteq> 0"
  shows "onReady rt p stage hr w' = Some w' \<and> onLoaded rt p w' = Some w' \<and> onNavCompleted rt p w' = Some w'
    \<and> onAccelPressed rt p key w' = Some (False, w') \<and> onContextMenuRequested rt p w' = Some (False, w')"
  using assms
  by (auto simp: MyBrowserObject_Close_def MyBrowserObject_Release_def Let_def onReady_def onLoaded_def
      onNavCompleted_def onAccelPressed_def onContextMenuRequested_def split: bind_splits if_splits)

theorem closed_browser_silent_witness:
  "\<exists>n w'. MyBrowserObject_Close 0x10 \<lparr>browsers = [0x10 \<mapsto> \<lparr>controller = 0, webview2 = 0, hwnd = 7,
       onCallBackFn = 9, refCount = 2\<rparr>], trace = [], owners = {}\<rparr> = Some (n, w') \<and> n \<noteq> 0
     \<and> onLoaded \<lparr>callback_result = \<lambda>t. 0, callback_closes = \<lambda>t. False\<rparr> 0x10 w' = Some w'"
proof -
  let ?w = "\<lparr>browsers = [0x10 \<mapsto> \<lparr>controller = 0, webview2 = 0, hwnd = 7, onCallBackFn = 9, refCount = 2\<rparr>],
    trace = [], owners = {}\<rparr>"
  let ?w' = "\<lparr>browsers = [0x10 \<mapsto> \<lparr>controller = 0, webview2 = 0, hwnd = 7, onCallBackFn = 0, refCount = 1\<rparr>],
    trace = [], owners = {}\<rparr>"
  have c: "MyBrowserObject_Close 0x10 ?w = Some (1, ?w')"
    by (simp add: browser_defs Let_def)
  from closed_browser_silent [OF c] c show ?thesis by auto
qed

text \<open>The browser object gives back exactly the engine references it took: with a view and a
  controller stored in a fresh object, whose counts were raised once each, its destruction closes the
  controller and lowers each once, so the account of every object is what it was before.\<close>

theorem browser_returns_references:
  assumes "browsers w p = Some b" and "webview2 b = nullptr" and "controller b = nullptr"
    and "SetController p c w = Some w1" and "SetWebView2 p v w1 = Some w2"
    and "MyBrowserObject_delete p w2 = Some w3"
  shows "held (trace w3) q = held (trace w) q \<and> Call ''Close'' [c] \<in> set (trace w3) \<and> browsers w3 p = None"
proof -
  obtain b2 where b2: "browsers w2 p = Some b2" "webview2 b2 = v" "controller b2 = c" "v \<noteq> 0" "c \<noteq> 0"
    and t: "trace w2 = trace w @ [AddRef c, AddRef v]"
    using assms(1,4,5) by (auto simp: SetController_def SetWebView2_def split: if_splits)
  have "held (trace w3) q = held (trace w) q"
    using delete_returns [OF b2(1) assms(6), of q] b2 t by (auto simp: owned_refs_def one_on_def)
  moreover have "Call ''Close'' [c] \<in> set (trace w3)" "browsers w3 p = None"
    using assms(6) b2 by (auto simp: MyBrowserObject_delete_def Let_def)
  ultimately show ?thesis by simp
qed

theorem browser_returns_references_witness:
  "\<exists>w1 w2 w3. SetController 0x10 0x20 (MyBrowserObject_new 0x10 7 9 \<lparr>browsers = Map.empty, trace = [], owners = {}\<rparr>)
       = Some w1 \<and> SetWebView2 0x10 0x30 w1 = Some w2 \<and> MyBrowserObject_delete 0x10 w2 = Some w3
     \<and> held (trace w3) 0x30 = held [] 0x30"
proof -
  let ?b = "\<lparr>controller = 0, webview2 = 0, hwnd = 7, onCallBackFn = 9, refCount = 1\<rparr>"
  let ?w = "MyBrowserObject_new 0x10 7 9 \<lparr>browsers = Map.empty, trace = [], owners = {}\<rparr> :: bworld"
  have b: "browsers ?w 0x10 = Some ?b" by (simp add: MyBrowserObject_new_def)
  obtain w1 where w1: "SetController 0x10 0x20 ?w = Some w1" using b by (simp add: SetController_def)
  with b obtain b1 where b1: "browsers w1 0x10 = Some b1" by (auto simp: SetController_def)
  then obtain w2 where w2: "SetWebView2 0x10 0x30 w1 = Some w2" by (simp add: SetWebView2_def)
  with b1 obtain b2 where "browsers w2 0x10 = Some b2" by (auto simp: SetWebView2_def)
  then obtain w3 where w3: "MyBrowserObject_delete 0x10 w2 = Some w3" using delete_live by blast
  from browser_returns_references [OF b _ _ w1 w2 w3, of "0x30"] w1 w2 w3 show ?thesis
    by (auto simp: MyBrowserObject_new_def put_browser_def)
qed

end
