(* ===== verification/Handlers.thy ===== *)
theory Handlers
  imports Browser WebView2Abi
begin

text \<open>
  The event handler classes under \<^verbatim>\<open>builtin/goc/webview2\<close>: eight implementations of engine
  interfaces, six of which hold a reference to the browser object they report to. The handlers are a
  second store beside the browsers; an object is its virtual table pointer, which says of which class
  it is, its counter and its fields. The engine (\<^verbatim>\<open>EmbeddedBrowserWebView.dll\<close>) is an
  argument: its answers to every call, and whether a call that takes a handler keeps a reference to
  it.
\<close>

section \<open>Objects and the world\<close>

datatype handler_class =
    MyAcceleratorKeyPressedHandler
  | MyContextMenuRequestedEventHandler
  | MyDOMContentLoadedEventHandler
  | MyNavigationCompletedEventHandler
  | MyCustomSchemeHandler
  | MyNewWindowRequestedHandler
  | MyCreateControllerCompletedHandler
  | MyCreateEnvironmentCompletedHandler

record handler =
  vptr :: handler_class
  h_refCount :: ULONG
  h_hwnd :: uintptr
  pBrowserObject :: uintptr

text \<open>A response handed to the engine: for which request, with which status, reason and headers, and
  from which stream.\<close>

record response =
  r_args :: uintptr
  r_status :: nat
  r_reason :: string
  r_headers :: string
  r_stream :: uintptr

record hworld = bworld +
  handlers :: "uintptr \<Rightarrow> handler option"
  responses :: "response list"

definition put_handler :: "uintptr \<Rightarrow> handler option \<Rightarrow> hworld \<Rightarrow> hworld" where
  "put_handler p h w = w\<lparr>handlers := (handlers w)(p := h)\<rparr>"

definition the_handler :: "handler_class \<Rightarrow> uintptr \<Rightarrow> hworld \<Rightarrow> handler option" where
  "the_handler k p w = do { h \<leftarrow> handlers w p; if vptr h = k then Some h else None }"

text \<open>The engine's side. The functions that store an object pointer return it with the result; where
  the caller's variable has no initial value, \<open>None\<close> is a call that stores nothing. The flag beside the
  result of a call that takes a handler says whether the engine keeps a reference.\<close>

record engine = runtime +
  new_address :: "hworld \<Rightarrow> uintptr"
  get_CoreWebView2 :: "uintptr \<Rightarrow> HRESULT \<times> uintptr"
  wv_QueryInterface :: "uintptr \<Rightarrow> guid \<Rightarrow> HRESULT \<times> uintptr"
  AddWebResourceRequestedFilter :: "uintptr \<Rightarrow> HRESULT"
  add_WebResourceRequested :: "uintptr \<Rightarrow> uintptr \<Rightarrow> HRESULT \<times> bool"
  add_DOMContentLoaded :: "uintptr \<Rightarrow> uintptr \<Rightarrow> HRESULT \<times> bool"
  add_NavigationCompleted :: "uintptr \<Rightarrow> uintptr \<Rightarrow> HRESULT \<times> bool"
  add_AcceleratorKeyPressed :: "uintptr \<Rightarrow> uintptr \<Rightarrow> HRESULT \<times> bool"
  add_ContextMenuRequested :: "uintptr \<Rightarrow> uintptr \<Rightarrow> HRESULT \<times> bool"
  add_NewWindowRequested :: "uintptr \<Rightarrow> uintptr \<Rightarrow> HRESULT \<times> bool"
  CreateCoreWebView2Controller :: "uintptr \<Rightarrow> uintptr \<Rightarrow> uintptr \<Rightarrow> HRESULT \<times> bool"
  get_Profile :: "uintptr \<Rightarrow> HRESULT \<times> uintptr option"
  get_Settings :: "uintptr \<Rightarrow> HRESULT \<times> uintptr option"
  get_KeyEventKind :: "uintptr \<Rightarrow> HRESULT \<times> 32 word"
  get_VirtualKey :: "uintptr \<Rightarrow> HRESULT \<times> 32 word"
  get_Request :: "uintptr \<Rightarrow> HRESULT \<times> uintptr"
  get_Uri :: "uintptr \<Rightarrow> HRESULT \<times> uintptr"
  get_Environment :: "uintptr \<Rightarrow> HRESULT \<times> uintptr"
  CreateWebResourceResponse :: "uintptr \<Rightarrow> uintptr \<Rightarrow> nat \<Rightarrow> string \<Rightarrow> HRESULT \<times> uintptr"
  SHCreateMemStream :: "uintptr \<Rightarrow> ULONG \<Rightarrow> uintptr"
  wide_string :: "uintptr \<Rightarrow> wchar list"
  WideCharToMultiByte :: "wchar list \<Rightarrow> byte list"
  suneidoAPP_result :: "byte list option \<Rightarrow> uintptr \<times> 32 word"

text \<open>A call through an interface pointer needs one.\<close>

definition deref :: "uintptr \<Rightarrow> unit option" where
  "deref p = (if p = nullptr then None else Some ())"

text \<open>What the engine does with a handler it was given.\<close>

definition engine_keeps ::
  "(uintptr \<Rightarrow> hworld \<Rightarrow> (ULONG \<times> hworld) option) \<Rightarrow> bool \<Rightarrow> uintptr \<Rightarrow> hworld \<Rightarrow> hworld option" where
  "engine_keeps add keeps p w = (if keeps then do { (_, w) \<leftarrow> add p w; Some w } else Some w)"

text \<open>An owned object pointer or string stored by a successful call.\<close>

definition got_object :: "HRESULT \<Rightarrow> uintptr \<Rightarrow> hworld \<Rightarrow> hworld" where
  "got_object hr p w = (if SUCCEEDED hr \<and> p \<noteq> nullptr then emit (Acquire p) w else w)"

definition got_string :: "HRESULT \<Rightarrow> uintptr \<Rightarrow> hworld \<Rightarrow> hworld" where
  "got_string hr uri w = (if SUCCEEDED hr \<and> uri \<noteq> nullptr then emit (Alloc uri 0) w else w)"

section \<open>MyAcceleratorKeyPressedHandler\<close>

definition MyAcceleratorKeyPressedHandler_new :: "uintptr \<Rightarrow> uintptr \<Rightarrow> hworld \<Rightarrow> hworld option" where
  "MyAcceleratorKeyPressedHandler_new p b w =
     (let w = put_handler p (Some \<lparr>vptr = MyAcceleratorKeyPressedHandler, h_refCount = 1, h_hwnd = 0, pBrowserObject = b\<rparr>) w in
      do { (_, w) \<leftarrow> MyBrowserObject_AddRef b w; Some w })"

definition MyAcceleratorKeyPressedHandler_delete :: "uintptr \<Rightarrow> hworld \<Rightarrow> hworld option" where
  "MyAcceleratorKeyPressedHandler_delete p w =
     do { h \<leftarrow> the_handler MyAcceleratorKeyPressedHandler p w;
          (_, w) \<leftarrow> MyBrowserObject_Release (pBrowserObject h) w;
          Some (put_handler p None w) }"

definition MyAcceleratorKeyPressedHandler_AddRef :: "uintptr \<Rightarrow> hworld \<Rightarrow> (ULONG \<times> hworld) option" where
  "MyAcceleratorKeyPressedHandler_AddRef p w =
     do { h \<leftarrow> the_handler MyAcceleratorKeyPressedHandler p w;
          let n = h_refCount h + 1;
          Some (n, put_handler p (Some (h\<lparr>h_refCount := n\<rparr>)) w) }"

definition MyAcceleratorKeyPressedHandler_Release :: "uintptr \<Rightarrow> hworld \<Rightarrow> (ULONG \<times> hworld) option" where
  "MyAcceleratorKeyPressedHandler_Release p w =
     do { h \<leftarrow> the_handler MyAcceleratorKeyPressedHandler p w;
          let n = h_refCount h - 1;
          let w = put_handler p (Some (h\<lparr>h_refCount := n\<rparr>)) w;
          if n = 0 then do { w \<leftarrow> MyAcceleratorKeyPressedHandler_delete p w; Some (n, w) } else Some (n, w) }"

definition MyAcceleratorKeyPressedHandler_QueryInterface ::
  "guid \<Rightarrow> uintptr \<Rightarrow> hworld \<Rightarrow> (HRESULT \<times> uintptr \<times> hworld) option" where
  "MyAcceleratorKeyPressedHandler_QueryInterface riid p w =
     (if riid = IID_IUnknown \<or> riid = IID_ICoreWebView2AcceleratorKeyPressedEventHandler
      then do { (_, w) \<leftarrow> MyAcceleratorKeyPressedHandler_AddRef p w; Some (S_OK, p, w) }
      else Some (E_NOINTERFACE, nullptr, w))"

definition MyAcceleratorKeyPressedHandler_Invoke ::
  "engine \<Rightarrow> uintptr \<Rightarrow> uintptr \<Rightarrow> hworld \<Rightarrow> (HRESULT \<times> hworld) option" where
  "MyAcceleratorKeyPressedHandler_Invoke en p args w =
     do { h \<leftarrow> the_handler MyAcceleratorKeyPressedHandler p w;
          let (hr, keyEventKind) = get_KeyEventKind en args;
          if FAILED hr then Some (hr, w)
          else if keyEventKind = COREWEBVIEW2_KEY_EVENT_KIND_value COREWEBVIEW2_KEY_EVENT_KIND_KEY_DOWN
                \<or> keyEventKind = COREWEBVIEW2_KEY_EVENT_KIND_value COREWEBVIEW2_KEY_EVENT_KIND_SYSTEM_KEY_DOWN
          then (let (hr, key) = get_VirtualKey en args in
                if FAILED hr then Some (hr, w)
                else do { (handled, w) \<leftarrow> onAccelPressed en (pBrowserObject h) key w;
                          Some (S_OK, if handled then emit (Call ''put_Handled'' [args, 1]) w else w) })
          else Some (S_OK, w) }"
section \<open>MyContextMenuRequestedEventHandler\<close>

definition MyContextMenuRequestedEventHandler_new :: "uintptr \<Rightarrow> uintptr \<Rightarrow> hworld \<Rightarrow> hworld option" where
  "MyContextMenuRequestedEventHandler_new p b w =
     (let w = put_handler p (Some \<lparr>vptr = MyContextMenuRequestedEventHandler, h_refCount = 1, h_hwnd = 0, pBrowserObject = b\<rparr>) w in
      do { (_, w) \<leftarrow> MyBrowserObject_AddRef b w; Some w })"

definition MyContextMenuRequestedEventHandler_delete :: "uintptr \<Rightarrow> hworld \<Rightarrow> hworld option" where
  "MyContextMenuRequestedEventHandler_delete p w =
     do { h \<leftarrow> the_handler MyContextMenuRequestedEventHandler p w;
          (_, w) \<leftarrow> MyBrowserObject_Release (pBrowserObject h) w;
          Some (put_handler p None w) }"

definition MyContextMenuRequestedEventHandler_AddRef :: "uintptr \<Rightarrow> hworld \<Rightarrow> (ULONG \<times> hworld) option" where
  "MyContextMenuRequestedEventHandler_AddRef p w =
     do { h \<leftarrow> the_handler MyContextMenuRequestedEventHandler p w;
          let n = h_refCount h + 1;
          Some (n, put_handler p (Some (h\<lparr>h_refCount := n\<rparr>)) w) }"

definition MyContextMenuRequestedEventHandler_Release :: "uintptr \<Rightarrow> hworld \<Rightarrow> (ULONG \<times> hworld) option" where
  "MyContextMenuRequestedEventHandler_Release p w =
     do { h \<leftarrow> the_handler MyContextMenuRequestedEventHandler p w;
          let n = h_refCount h - 1;
          let w = put_handler p (Some (h\<lparr>h_refCount := n\<rparr>)) w;
          if n = 0 then do { w \<leftarrow> MyContextMenuRequestedEventHandler_delete p w; Some (n, w) } else Some (n, w) }"

definition MyContextMenuRequestedEventHandler_QueryInterface ::
  "guid \<Rightarrow> uintptr \<Rightarrow> hworld \<Rightarrow> (HRESULT \<times> uintptr \<times> hworld) option" where
  "MyContextMenuRequestedEventHandler_QueryInterface riid p w =
     (if riid = IID_IUnknown \<or> riid = IID_ICoreWebView2ContextMenuRequestedEventHandler
      then do { (_, w) \<leftarrow> MyContextMenuRequestedEventHandler_AddRef p w; Some (S_OK, p, w) }
      else Some (E_NOINTERFACE, nullptr, w))"

definition MyContextMenuRequestedEventHandler_Invoke ::
  "engine \<Rightarrow> uintptr \<Rightarrow> uintptr \<Rightarrow> hworld \<Rightarrow> (HRESULT \<times> hworld) option" where
  "MyContextMenuRequestedEventHandler_Invoke en p args w =
     do { h \<leftarrow> the_handler MyContextMenuRequestedEventHandler p w;
          (r, w) \<leftarrow> onContextMenuRequested en (pBrowserObject h) w;
          Some (S_OK, if r = False then emit (Call ''put_Handled'' [args, 1]) w else w) }"
section \<open>MyDOMContentLoadedEventHandler\<close>

definition MyDOMContentLoadedEventHandler_new :: "uintptr \<Rightarrow> uintptr \<Rightarrow> hworld \<Rightarrow> hworld option" where
  "MyDOMContentLoadedEventHandler_new p b w =
     (let w = put_handler p (Some \<lparr>vptr = MyDOMContentLoadedEventHandler, h_refCount = 1, h_hwnd = 0, pBrowserObject = b\<rparr>) w in
      do { (_, w) \<leftarrow> MyBrowserObject_AddRef b w; Some w })"

definition MyDOMContentLoadedEventHandler_delete :: "uintptr \<Rightarrow> hworld \<Rightarrow> hworld option" where
  "MyDOMContentLoadedEventHandler_delete p w =
     do { h \<leftarrow> the_handler MyDOMContentLoadedEventHandler p w;
          (_, w) \<leftarrow> MyBrowserObject_Release (pBrowserObject h) w;
          Some (put_handler p None w) }"

definition MyDOMContentLoadedEventHandler_AddRef :: "uintptr \<Rightarrow> hworld \<Rightarrow> (ULONG \<times> hworld) option" where
  "MyDOMContentLoadedEventHandler_AddRef p w =
     do { h \<leftarrow> the_handler MyDOMContentLoadedEventHandler p w;
          let n = h_refCount h + 1;
          Some (n, put_handler p (Some (h\<lparr>h_refCount := n\<rparr>)) w) }"

definition MyDOMContentLoadedEventHandler_Release :: "uintptr \<Rightarrow> hworld \<Rightarrow> (ULONG \<times> hworld) option" where
  "MyDOMContentLoadedEventHandler_Release p w =
     do { h \<leftarrow> the_handler MyDOMContentLoadedEventHandler p w;
          let n = h_refCount h - 1;
          let w = put_handler p (Some (h\<lparr>h_refCount := n\<rparr>)) w;
          if n = 0 then do { w \<leftarrow> MyDOMContentLoadedEventHandler_delete p w; Some (n, w) } else Some (n, w) }"

definition MyDOMContentLoadedEventHandler_QueryInterface ::
  "guid \<Rightarrow> uintptr \<Rightarrow> hworld \<Rightarrow> (HRESULT \<times> uintptr \<times> hworld) option" where
  "MyDOMContentLoadedEventHandler_QueryInterface riid p w =
     (if riid = IID_IUnknown \<or> riid = IID_ICoreWebView2DOMContentLoadedEventHandler
      then do { (_, w) \<leftarrow> MyDOMContentLoadedEventHandler_AddRef p w; Some (S_OK, p, w) }
      else Some (E_NOINTERFACE, nullptr, w))"

definition MyDOMContentLoadedEventHandler_Invoke ::
  "engine \<Rightarrow> uintptr \<Rightarrow> hworld \<Rightarrow> (HRESULT \<times> hworld) option" where
  "MyDOMContentLoadedEventHandler_Invoke en p w =
     do { h \<leftarrow> the_handler MyDOMContentLoadedEventHandler p w;
          w \<leftarrow> onLoaded en (pBrowserObject h) w;
          Some (S_OK, w) }"
section \<open>MyNavigationCompletedEventHandler\<close>

definition MyNavigationCompletedEventHandler_new :: "uintptr \<Rightarrow> uintptr \<Rightarrow> hworld \<Rightarrow> hworld option" where
  "MyNavigationCompletedEventHandler_new p b w =
     (let w = put_handler p (Some \<lparr>vptr = MyNavigationCompletedEventHandler, h_refCount = 1, h_hwnd = 0, pBrowserObject = b\<rparr>) w in
      do { (_, w) \<leftarrow> MyBrowserObject_AddRef b w; Some w })"

definition MyNavigationCompletedEventHandler_delete :: "uintptr \<Rightarrow> hworld \<Rightarrow> hworld option" where
  "MyNavigationCompletedEventHandler_delete p w =
     do { h \<leftarrow> the_handler MyNavigationCompletedEventHandler p w;
          (_, w) \<leftarrow> MyBrowserObject_Release (pBrowserObject h) w;
          Some (put_handler p None w) }"

definition MyNavigationCompletedEventHandler_AddRef :: "uintptr \<Rightarrow> hworld \<Rightarrow> (ULONG \<times> hworld) option" where
  "MyNavigationCompletedEventHandler_AddRef p w =
     do { h \<leftarrow> the_handler MyNavigationCompletedEventHandler p w;
          let n = h_refCount h + 1;
          Some (n, put_handler p (Some (h\<lparr>h_refCount := n\<rparr>)) w) }"

definition MyNavigationCompletedEventHandler_Release :: "uintptr \<Rightarrow> hworld \<Rightarrow> (ULONG \<times> hworld) option" where
  "MyNavigationCompletedEventHandler_Release p w =
     do { h \<leftarrow> the_handler MyNavigationCompletedEventHandler p w;
          let n = h_refCount h - 1;
          let w = put_handler p (Some (h\<lparr>h_refCount := n\<rparr>)) w;
          if n = 0 then do { w \<leftarrow> MyNavigationCompletedEventHandler_delete p w; Some (n, w) } else Some (n, w) }"

definition MyNavigationCompletedEventHandler_QueryInterface ::
  "guid \<Rightarrow> uintptr \<Rightarrow> hworld \<Rightarrow> (HRESULT \<times> uintptr \<times> hworld) option" where
  "MyNavigationCompletedEventHandler_QueryInterface riid p w =
     (if riid = IID_IUnknown \<or> riid = IID_ICoreWebView2DOMContentLoadedEventHandler
      then do { (_, w) \<leftarrow> MyNavigationCompletedEventHandler_AddRef p w; Some (S_OK, p, w) }
      else Some (E_NOINTERFACE, nullptr, w))"

definition MyNavigationCompletedEventHandler_Invoke ::
  "engine \<Rightarrow> uintptr \<Rightarrow> hworld \<Rightarrow> (HRESULT \<times> hworld) option" where
  "MyNavigationCompletedEventHandler_Invoke en p w =
     do { h \<leftarrow> the_handler MyNavigationCompletedEventHandler p w;
          w \<leftarrow> onNavCompleted en (pBrowserObject h) w;
          Some (S_OK, w) }"
section \<open>MyCustomSchemeHandler\<close>

definition MyCustomSchemeHandler_new :: "uintptr \<Rightarrow> hworld \<Rightarrow> hworld option" where
  "MyCustomSchemeHandler_new p w =
     Some (put_handler p (Some \<lparr>vptr = MyCustomSchemeHandler, h_refCount = 1, h_hwnd = 0, pBrowserObject = 0\<rparr>) w)"

definition MyCustomSchemeHandler_delete :: "uintptr \<Rightarrow> hworld \<Rightarrow> hworld option" where
  "MyCustomSchemeHandler_delete p w =
     do { h \<leftarrow> the_handler MyCustomSchemeHandler p w; Some (put_handler p None w) }"

definition MyCustomSchemeHandler_AddRef :: "uintptr \<Rightarrow> hworld \<Rightarrow> (ULONG \<times> hworld) option" where
  "MyCustomSchemeHandler_AddRef p w =
     do { h \<leftarrow> the_handler MyCustomSchemeHandler p w;
          let n = h_refCount h + 1;
          Some (n, put_handler p (Some (h\<lparr>h_refCount := n\<rparr>)) w) }"

definition MyCustomSchemeHandler_Release :: "uintptr \<Rightarrow> hworld \<Rightarrow> (ULONG \<times> hworld) option" where
  "MyCustomSchemeHandler_Release p w =
     do { h \<leftarrow> the_handler MyCustomSchemeHandler p w;
          let n = h_refCount h - 1;
          let w = put_handler p (Some (h\<lparr>h_refCount := n\<rparr>)) w;
          if n = 0 then do { w \<leftarrow> MyCustomSchemeHandler_delete p w; Some (n, w) } else Some (n, w) }"

definition MyCustomSchemeHandler_QueryInterface ::
  "guid \<Rightarrow> uintptr \<Rightarrow> hworld \<Rightarrow> (HRESULT \<times> uintptr \<times> hworld) option" where
  "MyCustomSchemeHandler_QueryInterface riid p w =
     (if riid = IID_IUnknown \<or> riid = IID_ICoreWebView2WebResourceRequestedEventHandler
      then do { (_, w) \<leftarrow> MyCustomSchemeHandler_AddRef p w; Some (S_OK, p, w) }
      else Some (E_NOINTERFACE, nullptr, w))"

text \<open>\<^verbatim>\<open>std::to_wstring\<close> of an \<^verbatim>\<open>int\<close>.\<close>

fun decimal :: "nat \<Rightarrow> string" where
  "decimal n = (if n < 10 then [char_of (48 + n)] else decimal (n div 10) @ [char_of (48 + n mod 10)])"

declare decimal.simps [simp del]

definition to_wstring :: "32 word \<Rightarrow> string" where
  "to_wstring n = (if sint n < 0 then ''-'' @ decimal (nat (- sint n)) else decimal (nat (sint n)))"

text \<open>A C string as the characters before its terminator.\<close>

definition c_string :: "byte list \<Rightarrow> string" where
  "c_string bs = map (\<lambda>x. char_of (unat x)) (takeWhile (\<lambda>x. x \<noteq> 0) bs)"

text \<open>\<^verbatim>\<open>CreateWebResourceResponse\<close>, \<^verbatim>\<open>put_Response\<close> and \<^verbatim>\<open>response->Release()\<close>.\<close>

definition respond ::
  "engine \<Rightarrow> uintptr \<Rightarrow> uintptr \<Rightarrow> uintptr \<Rightarrow> nat \<Rightarrow> string \<Rightarrow> string \<Rightarrow> hworld \<Rightarrow> hworld option" where
  "respond en environment args stream status reason headers w =
     (let (hr, response) = CreateWebResourceResponse en environment stream status headers;
          w = got_object hr response w;
          w = emit (Call ''put_Response'' [args, response])
                (w\<lparr>responses := responses w @ [\<lparr>r_args = args, r_status = status, r_reason = reason,
                                               r_headers = headers, r_stream = stream\<rparr>]\<rparr>) in
      do { deref response; Some (emit (Release response) w) })"

text \<open>The answer to a \<^verbatim>\<open>suneido:\<close> request, from the converted address to the release of the
  buffer. The converted string is created and deleted here and has no address in the model.\<close>

definition serve :: "engine \<Rightarrow> uintptr \<Rightarrow> uintptr \<Rightarrow> uintptr \<Rightarrow> hworld \<Rightarrow> hworld option" where
  "serve en environment args uri w =
     (let converted = ConvertWcharToChar (WideCharToMultiByte en) (Some (wide_string en uri));
          (data, size) = suneidoAPP_result en converted;
          w = (if data \<noteq> nullptr then emit (Alloc data (unat size)) w else w) in
      do { w \<leftarrow>
             (if size = 0
              then respond en environment args nullptr 204 ''No Content''
                     (''Content-Disposition: inline'' @ [CHR 0x0D, CHR 0x0A] @ ''Content-Length: 0'' @
                      [CHR 0x0D, CHR 0x0A] @ ''Content-Type: text/plain'') w
              else (let stream = SHCreateMemStream en data size in
                    if stream \<noteq> nullptr
                    then do { c \<leftarrow> converted;
                              w \<leftarrow> respond en environment args stream 200 ''OK''
                                    (buildContentTypeHeader (c_string c) @ ''Content-Length: '' @ to_wstring size)
                                    (emit (Acquire stream) w);
                              Some (emit (Release stream) w) }
                    else Some w));
           Some (if data \<noteq> nullptr then emit (Free data) w else w) })"

definition MyCustomSchemeHandler_Invoke ::
  "engine \<Rightarrow> uintptr \<Rightarrow> uintptr \<Rightarrow> uintptr \<Rightarrow> hworld \<Rightarrow> (HRESULT \<times> hworld) option" where
  "MyCustomSchemeHandler_Invoke en p sender args w =
     do { h \<leftarrow> the_handler MyCustomSchemeHandler p w;
          let (hr, request) = get_Request en args;
          let w = got_object hr request w;
          if FAILED hr \<or> request = nullptr then Some (hr, w)
          else do {
            let (hr, uri) = get_Uri en request;
            let w = got_string hr uri w;
            if FAILED hr \<or> uri = nullptr then Some (hr, emit (Release request) w)
            else if has_suneidoPrefix (wide_string en uri) then do {
              let (hr, webview2_2) = wv_QueryInterface en sender IID_ICoreWebView2_2;
              let w = got_object hr webview2_2 w;
              if FAILED hr \<or> webview2_2 = nullptr
              then Some (hr, emit (Release request) (emit (Free uri) w))
              else do {
                let (hr, environment) = get_Environment en webview2_2;
                let w = got_object hr environment w;
                if FAILED hr \<or> environment = nullptr
                then Some (hr, emit (Release webview2_2) (emit (Release request) (emit (Free uri) w)))
                else do {
                  w \<leftarrow> serve en environment args uri w;
                  let w = emit (Release webview2_2) (emit (Release environment) w);
                  Some (S_OK, emit (Release request) (emit (Free uri) w)) } } }
            else Some (S_OK, emit (Release request) (emit (Free uri) w)) } }"

definition RegisterCustomScheme :: "engine \<Rightarrow> uintptr \<Rightarrow> hworld \<Rightarrow> (HRESULT \<times> hworld) option" where
  "RegisterCustomScheme en webView w =
     do { let handler = new_address en w;
          w \<leftarrow> MyCustomSchemeHandler_new handler w;
          deref webView;
          let hr = AddWebResourceRequestedFilter en webView;
          if FAILED hr
          then do { (_, w) \<leftarrow> MyCustomSchemeHandler_Release handler w; Some (hr, w) }
          else do {
            let (hr, keeps) = add_WebResourceRequested en webView handler;
            w \<leftarrow> engine_keeps MyCustomSchemeHandler_AddRef keeps handler w;
            (_, w) \<leftarrow> MyCustomSchemeHandler_Release handler w;
            Some (hr, w) } }"
section \<open>MyNewWindowRequestedHandler\<close>

definition MyNewWindowRequestedHandler_new :: "uintptr \<Rightarrow> hworld \<Rightarrow> hworld option" where
  "MyNewWindowRequestedHandler_new p w =
     Some (put_handler p (Some \<lparr>vptr = MyNewWindowRequestedHandler, h_refCount = 1, h_hwnd = 0, pBrowserObject = 0\<rparr>) w)"

definition MyNewWindowRequestedHandler_delete :: "uintptr \<Rightarrow> hworld \<Rightarrow> hworld option" where
  "MyNewWindowRequestedHandler_delete p w =
     do { h \<leftarrow> the_handler MyNewWindowRequestedHandler p w; Some (put_handler p None w) }"

definition MyNewWindowRequestedHandler_AddRef :: "uintptr \<Rightarrow> hworld \<Rightarrow> (ULONG \<times> hworld) option" where
  "MyNewWindowRequestedHandler_AddRef p w =
     do { h \<leftarrow> the_handler MyNewWindowRequestedHandler p w;
          let n = h_refCount h + 1;
          Some (n, put_handler p (Some (h\<lparr>h_refCount := n\<rparr>)) w) }"

definition MyNewWindowRequestedHandler_Release :: "uintptr \<Rightarrow> hworld \<Rightarrow> (ULONG \<times> hworld) option" where
  "MyNewWindowRequestedHandler_Release p w =
     do { h \<leftarrow> the_handler MyNewWindowRequestedHandler p w;
          let n = h_refCount h - 1;
          let w = put_handler p (Some (h\<lparr>h_refCount := n\<rparr>)) w;
          if n = 0 then do { w \<leftarrow> MyNewWindowRequestedHandler_delete p w; Some (n, w) } else Some (n, w) }"

definition MyNewWindowRequestedHandler_QueryInterface ::
  "guid \<Rightarrow> uintptr \<Rightarrow> hworld \<Rightarrow> (HRESULT \<times> uintptr \<times> hworld) option" where
  "MyNewWindowRequestedHandler_QueryInterface riid p w =
     (if riid = IID_ICoreWebView2NewWindowRequestedEventHandler \<or> riid = IID_IUnknown
      then do { (_, w) \<leftarrow> MyNewWindowRequestedHandler_AddRef p w; Some (S_OK, p, w) }
      else Some (E_NOINTERFACE, nullptr, w))"

definition MyNewWindowRequestedHandler_Invoke ::
  "engine \<Rightarrow> uintptr \<Rightarrow> uintptr \<Rightarrow> hworld \<Rightarrow> (HRESULT \<times> hworld) option" where
  "MyNewWindowRequestedHandler_Invoke en p args w =
     do { h \<leftarrow> the_handler MyNewWindowRequestedHandler p w;
          let (hr, uri) = get_Uri en args;
          let w = got_string hr uri w;
          if SUCCEEDED hr \<and> uri \<noteq> nullptr
          then (let w = (if has_suneidoPrefix (wide_string en uri)
                         then emit (Call ''put_Handled'' [args, 1]) w else w) in
                Some (S_OK, emit (Free uri) w))
          else Some (S_OK, w) }"
section \<open>MyCreateControllerCompletedHandler\<close>

definition MyCreateControllerCompletedHandler_new :: "uintptr \<Rightarrow> uintptr \<Rightarrow> uintptr \<Rightarrow> hworld \<Rightarrow> hworld option" where
  "MyCreateControllerCompletedHandler_new p hw b w =
     (let w = put_handler p (Some \<lparr>vptr = MyCreateControllerCompletedHandler, h_refCount = 1, h_hwnd = hw, pBrowserObject = b\<rparr>) w in
      do { (_, w) \<leftarrow> MyBrowserObject_AddRef b w; Some w })"

definition MyCreateControllerCompletedHandler_delete :: "uintptr \<Rightarrow> hworld \<Rightarrow> hworld option" where
  "MyCreateControllerCompletedHandler_delete p w =
     do { h \<leftarrow> the_handler MyCreateControllerCompletedHandler p w;
          (_, w) \<leftarrow> MyBrowserObject_Release (pBrowserObject h) w;
          Some (put_handler p None w) }"

definition MyCreateControllerCompletedHandler_AddRef :: "uintptr \<Rightarrow> hworld \<Rightarrow> (ULONG \<times> hworld) option" where
  "MyCreateControllerCompletedHandler_AddRef p w =
     do { h \<leftarrow> the_handler MyCreateControllerCompletedHandler p w;
          let n = h_refCount h + 1;
          Some (n, put_handler p (Some (h\<lparr>h_refCount := n\<rparr>)) w) }"

definition MyCreateControllerCompletedHandler_Release :: "uintptr \<Rightarrow> hworld \<Rightarrow> (ULONG \<times> hworld) option" where
  "MyCreateControllerCompletedHandler_Release p w =
     do { h \<leftarrow> the_handler MyCreateControllerCompletedHandler p w;
          let n = h_refCount h - 1;
          let w = put_handler p (Some (h\<lparr>h_refCount := n\<rparr>)) w;
          if n = 0 then do { w \<leftarrow> MyCreateControllerCompletedHandler_delete p w; Some (n, w) } else Some (n, w) }"

definition MyCreateControllerCompletedHandler_QueryInterface ::
  "guid \<Rightarrow> uintptr \<Rightarrow> hworld \<Rightarrow> (HRESULT \<times> uintptr \<times> hworld) option" where
  "MyCreateControllerCompletedHandler_QueryInterface riid p w =
     (if riid = IID_IUnknown \<or> riid = IID_ICoreWebView2CreateCoreWebView2ControllerCompletedHandler
      then do { (_, w) \<leftarrow> MyCreateControllerCompletedHandler_AddRef p w; Some (S_OK, p, w) }
      else Some (E_NOINTERFACE, nullptr, w))"

text \<open>The failure exits of \<^verbatim>\<open>Invoke\<close>: report the stage and return.\<close>

definition report :: "engine \<Rightarrow> uintptr \<Rightarrow> CREATE_WEBVIEW_STAGE \<Rightarrow> HRESULT \<Rightarrow> hworld \<Rightarrow> (HRESULT \<times> hworld) option" where
  "report en b stage rtn w = do { w \<leftarrow> onReady en b stage rtn w; Some (S_OK, w) }"

text \<open>\<^verbatim>\<open>Invoke\<close> is translated from its end to its beginning, each part continuing with the next
  one in the code. The two preferences come first. The condition of each is
  \<^verbatim>\<open>SUCCEEDED(hr && pointer != nullptr)\<close>: the pointer is read only when \<^verbatim>\<open>hr\<close> is not zero,
  and the argument of \<^verbatim>\<open>SUCCEEDED\<close> is 0 or 1.\<close>

definition succeeded_and :: "HRESULT \<Rightarrow> uintptr option \<Rightarrow> bool option" where
  "succeeded_and hr ptr =
     (if hr = 0 then Some (SUCCEEDED (c_bool False))
      else do { q \<leftarrow> ptr; Some (SUCCEEDED (c_bool (q \<noteq> nullptr))) })"

definition prefer_light :: "engine \<Rightarrow> uintptr \<Rightarrow> hworld \<Rightarrow> hworld option" where
  "prefer_light en wv w =
     do { let (rtn, webview2_13) = wv_QueryInterface en wv IID_ICoreWebView2_13;
          let w = got_object rtn webview2_13 w;
          if SUCCEEDED rtn \<and> webview2_13 \<noteq> nullptr
          then do {
            let (hr, profile) = get_Profile en webview2_13;
            let w = (case profile of None \<Rightarrow> w | Some q \<Rightarrow> got_object hr q w);
            ok \<leftarrow> succeeded_and hr profile;
            w \<leftarrow> (if ok
                  then do { q \<leftarrow> profile;
                            deref q;
                            Some (emit (Release q) (emit (Call ''put_PreferredColorScheme''
                              [q, ucast (COREWEBVIEW2_PREFERRED_COLOR_SCHEME_value
                                COREWEBVIEW2_PREFERRED_COLOR_SCHEME_LIGHT)]) w)) }
                  else Some w);
            Some (emit (Release webview2_13) w) }
          else Some w }"

definition hide_status_bar :: "engine \<Rightarrow> uintptr \<Rightarrow> hworld \<Rightarrow> hworld option" where
  "hide_status_bar en wv w =
     do { let (hr, settings) = get_Settings en wv;
          let w = (case settings of None \<Rightarrow> w | Some q \<Rightarrow> got_object hr q w);
          ok \<leftarrow> succeeded_and hr settings;
          if ok
          then do { q \<leftarrow> settings;
                    deref q;
                    Some (emit (Release q) (emit (Call ''put_IsStatusBarEnabled'' [q, 0]) w)) }
          else Some w }"

definition finish_controller :: "engine \<Rightarrow> uintptr \<Rightarrow> uintptr \<Rightarrow> uintptr \<Rightarrow> hworld \<Rightarrow> (HRESULT \<times> hworld) option" where
  "finish_controller en b ctl wv w =
     do { w \<leftarrow> prefer_light en wv w;
          w \<leftarrow> hide_status_bar en wv w;
          let handler = new_address en w;
          w \<leftarrow> MyNewWindowRequestedHandler_new handler w;
          let (_, keeps) = add_NewWindowRequested en wv handler;
          w \<leftarrow> engine_keeps MyNewWindowRequestedHandler_AddRef keeps handler w;
          w \<leftarrow> SetController b ctl w;
          w \<leftarrow> SetWebView2 b wv w;
          w \<leftarrow> onReady en b FINISH (result_code OK) w;
          Some (S_OK, emit (Release wv) w) }"

definition add_context_menu ::
  "engine \<Rightarrow> uintptr \<Rightarrow> uintptr \<Rightarrow> uintptr \<Rightarrow> uintptr \<Rightarrow> hworld \<Rightarrow> (HRESULT \<times> hworld) option" where
  "add_context_menu en b ctl wv webview2_2 w =
     do { let (rtn, webview2_11) = wv_QueryInterface en wv IID_ICoreWebView2_11;
          let w = got_object rtn webview2_11 w;
          if FAILED rtn \<or> webview2_11 = nullptr
          then report en b ADD_CONTEXTMENU_HANDLER rtn (emit (Release webview2_2) (emit (Release wv) w))
          else do {
            let handler = new_address en w;
            w \<leftarrow> MyContextMenuRequestedEventHandler_new handler b w;
            let (rtn, keeps) = add_ContextMenuRequested en webview2_11 handler;
            w \<leftarrow> engine_keeps MyContextMenuRequestedEventHandler_AddRef keeps handler w;
            if FAILED rtn
            then do { (_, w) \<leftarrow> MyContextMenuRequestedEventHandler_Release handler
                                (emit (Release webview2_11) (emit (Release wv) w));
                      report en b ADD_CONTEXTMENU_HANDLER rtn w }
            else do { (_, w) \<leftarrow> MyContextMenuRequestedEventHandler_Release handler
                                (emit (Release webview2_11) w);
                      finish_controller en b ctl wv w } } }"

definition add_accelerator ::
  "engine \<Rightarrow> uintptr \<Rightarrow> uintptr \<Rightarrow> uintptr \<Rightarrow> uintptr \<Rightarrow> hworld \<Rightarrow> (HRESULT \<times> hworld) option" where
  "add_accelerator en b ctl wv webview2_2 w =
     do { let handler = new_address en w;
          w \<leftarrow> MyAcceleratorKeyPressedHandler_new handler b w;
          let (rtn, keeps) = add_AcceleratorKeyPressed en ctl handler;
          w \<leftarrow> engine_keeps MyAcceleratorKeyPressedHandler_AddRef keeps handler w;
          if FAILED rtn
          then do { (_, w) \<leftarrow> MyAcceleratorKeyPressedHandler_Release handler
                              (emit (Release webview2_2) (emit (Release wv) w));
                    report en b ADD_ACCELERATOR_HANDLER rtn w }
          else do { (_, w) \<leftarrow> MyAcceleratorKeyPressedHandler_Release handler (emit (Release webview2_2) w);
                    add_context_menu en b ctl wv webview2_2 w } }"

definition add_navigation_listener ::
  "engine \<Rightarrow> uintptr \<Rightarrow> uintptr \<Rightarrow> uintptr \<Rightarrow> uintptr \<Rightarrow> hworld \<Rightarrow> (HRESULT \<times> hworld) option" where
  "add_navigation_listener en b ctl wv webview2_2 w =
     do { let handler = new_address en w;
          w \<leftarrow> MyNavigationCompletedEventHandler_new handler b w;
          let (rtn, keeps) = add_NavigationCompleted en webview2_2 handler;
          w \<leftarrow> engine_keeps MyNavigationCompletedEventHandler_AddRef keeps handler w;
          if FAILED rtn
          then do { (_, w) \<leftarrow> MyNavigationCompletedEventHandler_Release handler
                              (emit (Release webview2_2) (emit (Release wv) w));
                    report en b ADD_LOAD_EVENT_LISTENER rtn w }
          else do { (_, w) \<leftarrow> MyNavigationCompletedEventHandler_Release handler w;
                    add_accelerator en b ctl wv webview2_2 w } }"

definition add_load_listener ::
  "engine \<Rightarrow> uintptr \<Rightarrow> uintptr \<Rightarrow> uintptr \<Rightarrow> hworld \<Rightarrow> (HRESULT \<times> hworld) option" where
  "add_load_listener en b ctl wv w =
     do { let (rtn, webview2_2) = wv_QueryInterface en wv IID_ICoreWebView2_2;
          let w = got_object rtn webview2_2 w;
          if FAILED rtn \<or> webview2_2 = nullptr
          then report en b ADD_LOAD_EVENT_LISTENER rtn (emit (Release wv) w)
          else do {
            let handler = new_address en w;
            w \<leftarrow> MyDOMContentLoadedEventHandler_new handler b w;
            let (rtn, keeps) = add_DOMContentLoaded en webview2_2 handler;
            w \<leftarrow> engine_keeps MyDOMContentLoadedEventHandler_AddRef keeps handler w;
            if FAILED rtn
            then do { (_, w) \<leftarrow> MyDOMContentLoadedEventHandler_Release handler
                                (emit (Release webview2_2) (emit (Release wv) w));
                      report en b ADD_LOAD_EVENT_LISTENER rtn w }
            else do { (_, w) \<leftarrow> MyDOMContentLoadedEventHandler_Release handler w;
                      add_navigation_listener en b ctl wv webview2_2 w } } }"

definition MyCreateControllerCompletedHandler_Invoke ::
  "engine \<Rightarrow> uintptr \<Rightarrow> HRESULT \<Rightarrow> uintptr \<Rightarrow> hworld \<Rightarrow> (HRESULT \<times> hworld) option" where
  "MyCreateControllerCompletedHandler_Invoke en p result ctl w =
     do { h \<leftarrow> the_handler MyCreateControllerCompletedHandler p w;
          let b = pBrowserObject h;
          if FAILED result then report en b CREATING_CONTROLLER result w
          else do {
            deref ctl;
            let (rtn, wv) = get_CoreWebView2 en ctl;
            let w = got_object rtn wv w;
            if FAILED rtn then report en b CREATING_WEBVIEW rtn w
            else do {
              (rtn, w) \<leftarrow> RegisterCustomScheme en wv w;
              if FAILED rtn then report en b REGISTER_CUSTOM_SCHEME rtn (emit (Release wv) w)
              else add_load_listener en b ctl wv w } } }"
section \<open>MyCreateEnvironmentCompletedHandler\<close>

definition MyCreateEnvironmentCompletedHandler_new :: "uintptr \<Rightarrow> uintptr \<Rightarrow> uintptr \<Rightarrow> hworld \<Rightarrow> hworld option" where
  "MyCreateEnvironmentCompletedHandler_new p hw b w =
     (let w = put_handler p (Some \<lparr>vptr = MyCreateEnvironmentCompletedHandler, h_refCount = 1, h_hwnd = hw, pBrowserObject = b\<rparr>) w in
      do { (_, w) \<leftarrow> MyBrowserObject_AddRef b w; Some w })"

definition MyCreateEnvironmentCompletedHandler_delete :: "uintptr \<Rightarrow> hworld \<Rightarrow> hworld option" where
  "MyCreateEnvironmentCompletedHandler_delete p w =
     do { h \<leftarrow> the_handler MyCreateEnvironmentCompletedHandler p w;
          (_, w) \<leftarrow> MyBrowserObject_Release (pBrowserObject h) w;
          Some (put_handler p None w) }"

definition MyCreateEnvironmentCompletedHandler_AddRef :: "uintptr \<Rightarrow> hworld \<Rightarrow> (ULONG \<times> hworld) option" where
  "MyCreateEnvironmentCompletedHandler_AddRef p w =
     do { h \<leftarrow> the_handler MyCreateEnvironmentCompletedHandler p w;
          let n = h_refCount h + 1;
          Some (n, put_handler p (Some (h\<lparr>h_refCount := n\<rparr>)) w) }"

definition MyCreateEnvironmentCompletedHandler_Release :: "uintptr \<Rightarrow> hworld \<Rightarrow> (ULONG \<times> hworld) option" where
  "MyCreateEnvironmentCompletedHandler_Release p w =
     do { h \<leftarrow> the_handler MyCreateEnvironmentCompletedHandler p w;
          let n = h_refCount h - 1;
          let w = put_handler p (Some (h\<lparr>h_refCount := n\<rparr>)) w;
          if n = 0 then do { w \<leftarrow> MyCreateEnvironmentCompletedHandler_delete p w; Some (n, w) } else Some (n, w) }"

definition MyCreateEnvironmentCompletedHandler_QueryInterface ::
  "guid \<Rightarrow> uintptr \<Rightarrow> hworld \<Rightarrow> (HRESULT \<times> uintptr \<times> hworld) option" where
  "MyCreateEnvironmentCompletedHandler_QueryInterface riid p w =
     (if riid = IID_IUnknown \<or> riid = IID_ICoreWebView2CreateCoreWebView2EnvironmentCompletedHandler
      then do { (_, w) \<leftarrow> MyCreateEnvironmentCompletedHandler_AddRef p w; Some (S_OK, p, w) }
      else Some (E_NOINTERFACE, nullptr, w))"

definition MyCreateEnvironmentCompletedHandler_Invoke ::
  "engine \<Rightarrow> uintptr \<Rightarrow> HRESULT \<Rightarrow> uintptr \<Rightarrow> hworld \<Rightarrow> (HRESULT \<times> hworld) option" where
  "MyCreateEnvironmentCompletedHandler_Invoke en p result created_environment w =
     do { h \<leftarrow> the_handler MyCreateEnvironmentCompletedHandler p w;
          if SUCCEEDED result
          then do {
            let handler = new_address en w;
            w \<leftarrow> MyCreateControllerCompletedHandler_new handler (h_hwnd h) (pBrowserObject h) w;
            deref created_environment;
            let (rtn, keeps) = CreateCoreWebView2Controller en created_environment (h_hwnd h) handler;
            w \<leftarrow> engine_keeps MyCreateControllerCompletedHandler_AddRef keeps handler w;
            w \<leftarrow> (if FAILED rtn then onReady en (pBrowserObject h) CREATING_CONTROLLER rtn w else Some w);
            (_, w) \<leftarrow> MyCreateControllerCompletedHandler_Release handler w;
            Some (S_OK, w) }
          else do { w \<leftarrow> onReady en (pBrowserObject h) CREATING_ENVIRONMENT result w; Some (S_OK, w) } }"

section \<open>What the classes have in common\<close>

text \<open>Every class counts its references the same way and answers \<^verbatim>\<open>QueryInterface\<close> for two
  identifiers; six of the eight hold a reference to a browser.\<close>

definition reports :: "handler_class \<Rightarrow> bool" where
  "reports k \<longleftrightarrow> k \<noteq> MyCustomSchemeHandler \<and> k \<noteq> MyNewWindowRequestedHandler"

lemma put_handler_sels [simp]:
  "handlers (put_handler p h w) = (handlers w)(p := h)" "browsers (put_handler p h w) = browsers w"
  "owners (put_handler p h w) = owners w" "trace (put_handler p h w) = trace w"
  "responses (put_handler p h w) = responses w"
  by (simp_all add: put_handler_def)

lemma emit_handlers [simp]: "handlers (emit e w) = handlers w" "responses (emit e w) = responses w"
  by (simp_all add: emit_def)

lemma put_browser_handlers [simp]:
  "handlers (put_browser p b w) = handlers w" "responses (put_browser p b w) = responses w"
  by (simp_all add: put_browser_def)

lemma the_handler_Some [simp]: "the_handler k p w = Some h \<longleftrightarrow> handlers w p = Some h \<and> vptr h = k"
  by (cases "handlers w p") (auto simp: the_handler_def)

lemma the_handler_None [simp]: "handlers w p = None \<Longrightarrow> the_handler k p w = None"
  by (simp add: the_handler_def)

lemma browser_ops_handlers:
  "MyBrowserObject_AddRef b w = Some (n, w') \<Longrightarrow> handlers w' = handlers w \<and> responses w' = responses w"
  "MyBrowserObject_Release b w = Some (n, w') \<Longrightarrow> handlers w' = handlers w \<and> responses w' = responses w"
  by (auto simp: MyBrowserObject_AddRef_def MyBrowserObject_Release_def MyBrowserObject_delete_def Let_def
      split: bind_splits if_splits)

lemma Release_live: "browsers w b \<noteq> None \<Longrightarrow> \<exists>n w'. MyBrowserObject_Release b w = Some (n, w')"
  by (auto simp: MyBrowserObject_Release_def MyBrowserObject_delete_def Let_def)

lemma the_handler_NoneD: "the_handler k p w = None \<Longrightarrow> handlers w p = Some h \<Longrightarrow> vptr h \<noteq> k"
  by (auto simp: the_handler_def)

locale handler_ops =
  fixes k :: handler_class
    and mk :: "uintptr \<Rightarrow> uintptr \<Rightarrow> handler"
    and new :: "uintptr \<Rightarrow> uintptr \<Rightarrow> uintptr \<Rightarrow> hworld \<Rightarrow> hworld option"
    and del :: "uintptr \<Rightarrow> hworld \<Rightarrow> hworld option"
    and add :: "uintptr \<Rightarrow> hworld \<Rightarrow> (ULONG \<times> hworld) option"
    and rel :: "uintptr \<Rightarrow> hworld \<Rightarrow> (ULONG \<times> hworld) option"
    and qi :: "guid \<Rightarrow> uintptr \<Rightarrow> hworld \<Rightarrow> (HRESULT \<times> uintptr \<times> hworld) option"
    and iid :: guid
  assumes mk: "vptr (mk hw b) = k" "h_refCount (mk hw b) = 1" "reports k \<Longrightarrow> pBrowserObject (mk hw b) = b"
    and new_eq: "new p hw b w =
      (let w = put_handler p (Some (mk hw b)) w in
       if reports k then do { (_, w) \<leftarrow> MyBrowserObject_AddRef b w; Some w } else Some w)"
    and del_eq: "del p w =
      do { h \<leftarrow> the_handler k p w;
           w \<leftarrow> (if reports k then do { (_, w) \<leftarrow> MyBrowserObject_Release (pBrowserObject h) w; Some w } else Some w);
           Some (put_handler p None w) }"
    and add_eq: "add p w =
      do { h \<leftarrow> the_handler k p w;
           let n = h_refCount h + 1;
           Some (n, put_handler p (Some (h\<lparr>h_refCount := n\<rparr>)) w) }"
    and rel_eq: "rel p w =
      do { h \<leftarrow> the_handler k p w;
           let n = h_refCount h - 1;
           let w = put_handler p (Some (h\<lparr>h_refCount := n\<rparr>)) w;
           if n = 0 then do { w \<leftarrow> del p w; Some (n, w) } else Some (n, w) }"
    and qi_eq: "qi riid p w =
      (if riid \<in> {IID_IUnknown, iid} then do { (_, w) \<leftarrow> add p w; Some (S_OK, p, w) }
       else Some (E_NOINTERFACE, nullptr, w))"
begin

text \<open>A handler can be destroyed safely while the browser it reports to exists.\<close>

definition reports_to_live :: "hworld \<Rightarrow> uintptr \<Rightarrow> bool" where
  "reports_to_live w p \<longleftrightarrow>
     (\<forall>h. handlers w p = Some h \<longrightarrow> reports k \<longrightarrow> browsers w (pBrowserObject h) \<noteq> None)"

lemma rel_deletes:
  assumes "handlers w p = Some h" "vptr h = k" "h_refCount h = 1" "reports_to_live w p"
  shows "\<exists>w'. rel p w = Some (0, w') \<and> handlers w' p = None"
proof (cases "reports k")
  case True
  let ?w = "put_handler p (Some (h\<lparr>h_refCount := 0\<rparr>)) w"
  have "browsers ?w (pBrowserObject h) \<noteq> None" using assms True by (simp add: reports_to_live_def)
  then obtain n w' where "MyBrowserObject_Release (pBrowserObject h) ?w = Some (n, w')"
    using Release_live by blast
  with assms True show ?thesis by (simp add: rel_eq del_eq the_handler_def)
next
  case False
  with assms show ?thesis by (simp add: rel_eq del_eq the_handler_def)
qed

end

sublocale handler_ops \<subseteq> com_object "\<lambda>w p. map_option h_refCount (the_handler k p w)"
  reports_to_live add rel "{IID_IUnknown, iid}" qi
proof
  fix w p c
  assume "map_option h_refCount (the_handler k p w) = Some c"
  then obtain h where h: "handlers w p = Some h" "vptr h = k" "h_refCount h = c" by auto
  show "\<exists>w'. add p w = Some (c + 1, w') \<and> map_option h_refCount (the_handler k p w') = Some (c + 1) \<and>
      reports_to_live w' p" if "reports_to_live w p"
    using h that by (simp add: add_eq the_handler_def reports_to_live_def Let_def)
  show "\<exists>w'. rel p w = Some (c - 1, w') \<and> map_option h_refCount (the_handler k p w') = Some (c - 1) \<and>
      reports_to_live w' p" if "reports_to_live w p" "c \<noteq> 1"
    using h that by (simp add: rel_eq the_handler_def reports_to_live_def Let_def)
next
  fix w p
  assume "map_option h_refCount (the_handler k p w) = Some 1" "reports_to_live w p"
  then obtain h where h: "handlers w p = Some h" "vptr h = k" "h_refCount h = 1" by auto
  from rel_deletes [OF this \<open>reports_to_live w p\<close>]
  show "\<exists>w'. rel p w = Some (0, w') \<and> map_option h_refCount (the_handler k p w') = None" by auto
next
  fix i w p c
  assume "map_option h_refCount (the_handler k p w) = Some c"
  then obtain h where h: "handlers w p = Some h" "vptr h = k" by auto
  then obtain n w' where a: "add p w = Some (n, w')" by (simp add: add_eq the_handler_def Let_def)
  show "qi i p w = (case add p w of None \<Rightarrow> None | Some (n, w') \<Rightarrow> Some (S_OK, p, w'))"
    if "i \<in> {IID_IUnknown, iid}" using that a by (auto simp: qi_eq)
  show "qi i p w = Some (E_NOINTERFACE, 0, w)" if "i \<notin> {IID_IUnknown, iid}"
    using that by (simp add: qi_eq)
qed (simp_all add: add_eq rel_eq)

interpretation accel: handler_ops MyAcceleratorKeyPressedHandler
  "\<lambda>hw b. \<lparr>vptr = MyAcceleratorKeyPressedHandler, h_refCount = 1, h_hwnd = 0, pBrowserObject = b\<rparr>"
  "\<lambda>p hw. MyAcceleratorKeyPressedHandler_new p" MyAcceleratorKeyPressedHandler_delete MyAcceleratorKeyPressedHandler_AddRef
  MyAcceleratorKeyPressedHandler_Release MyAcceleratorKeyPressedHandler_QueryInterface
  IID_ICoreWebView2AcceleratorKeyPressedEventHandler
  by unfold_locales
    (auto simp: MyAcceleratorKeyPressedHandler_new_def MyAcceleratorKeyPressedHandler_delete_def MyAcceleratorKeyPressedHandler_AddRef_def
      MyAcceleratorKeyPressedHandler_Release_def MyAcceleratorKeyPressedHandler_QueryInterface_def reports_def Let_def
      dest: the_handler_NoneD split: bind_splits)

interpretation menu: handler_ops MyContextMenuRequestedEventHandler
  "\<lambda>hw b. \<lparr>vptr = MyContextMenuRequestedEventHandler, h_refCount = 1, h_hwnd = 0, pBrowserObject = b\<rparr>"
  "\<lambda>p hw. MyContextMenuRequestedEventHandler_new p" MyContextMenuRequestedEventHandler_delete MyContextMenuRequestedEventHandler_AddRef
  MyContextMenuRequestedEventHandler_Release MyContextMenuRequestedEventHandler_QueryInterface
  IID_ICoreWebView2ContextMenuRequestedEventHandler
  by unfold_locales
    (auto simp: MyContextMenuRequestedEventHandler_new_def MyContextMenuRequestedEventHandler_delete_def MyContextMenuRequestedEventHandler_AddRef_def
      MyContextMenuRequestedEventHandler_Release_def MyContextMenuRequestedEventHandler_QueryInterface_def reports_def Let_def
      dest: the_handler_NoneD split: bind_splits)

interpretation dom: handler_ops MyDOMContentLoadedEventHandler
  "\<lambda>hw b. \<lparr>vptr = MyDOMContentLoadedEventHandler, h_refCount = 1, h_hwnd = 0, pBrowserObject = b\<rparr>"
  "\<lambda>p hw. MyDOMContentLoadedEventHandler_new p" MyDOMContentLoadedEventHandler_delete MyDOMContentLoadedEventHandler_AddRef
  MyDOMContentLoadedEventHandler_Release MyDOMContentLoadedEventHandler_QueryInterface
  IID_ICoreWebView2DOMContentLoadedEventHandler
  by unfold_locales
    (auto simp: MyDOMContentLoadedEventHandler_new_def MyDOMContentLoadedEventHandler_delete_def MyDOMContentLoadedEventHandler_AddRef_def
      MyDOMContentLoadedEventHandler_Release_def MyDOMContentLoadedEventHandler_QueryInterface_def reports_def Let_def
      dest: the_handler_NoneD split: bind_splits)

interpretation nav: handler_ops MyNavigationCompletedEventHandler
  "\<lambda>hw b. \<lparr>vptr = MyNavigationCompletedEventHandler, h_refCount = 1, h_hwnd = 0, pBrowserObject = b\<rparr>"
  "\<lambda>p hw. MyNavigationCompletedEventHandler_new p" MyNavigationCompletedEventHandler_delete MyNavigationCompletedEventHandler_AddRef
  MyNavigationCompletedEventHandler_Release MyNavigationCompletedEventHandler_QueryInterface
  IID_ICoreWebView2DOMContentLoadedEventHandler
  by unfold_locales
    (auto simp: MyNavigationCompletedEventHandler_new_def MyNavigationCompletedEventHandler_delete_def MyNavigationCompletedEventHandler_AddRef_def
      MyNavigationCompletedEventHandler_Release_def MyNavigationCompletedEventHandler_QueryInterface_def reports_def Let_def
      dest: the_handler_NoneD split: bind_splits)

interpretation scheme: handler_ops MyCustomSchemeHandler
  "\<lambda>hw b. \<lparr>vptr = MyCustomSchemeHandler, h_refCount = 1, h_hwnd = 0, pBrowserObject = 0\<rparr>"
  "\<lambda>p hw b. MyCustomSchemeHandler_new p" MyCustomSchemeHandler_delete MyCustomSchemeHandler_AddRef
  MyCustomSchemeHandler_Release MyCustomSchemeHandler_QueryInterface
  IID_ICoreWebView2WebResourceRequestedEventHandler
  by unfold_locales
    (auto simp: MyCustomSchemeHandler_new_def MyCustomSchemeHandler_delete_def MyCustomSchemeHandler_AddRef_def
      MyCustomSchemeHandler_Release_def MyCustomSchemeHandler_QueryInterface_def reports_def Let_def
      dest: the_handler_NoneD split: bind_splits)

interpretation window: handler_ops MyNewWindowRequestedHandler
  "\<lambda>hw b. \<lparr>vptr = MyNewWindowRequestedHandler, h_refCount = 1, h_hwnd = 0, pBrowserObject = 0\<rparr>"
  "\<lambda>p hw b. MyNewWindowRequestedHandler_new p" MyNewWindowRequestedHandler_delete MyNewWindowRequestedHandler_AddRef
  MyNewWindowRequestedHandler_Release MyNewWindowRequestedHandler_QueryInterface
  IID_ICoreWebView2NewWindowRequestedEventHandler
  by unfold_locales
    (auto simp: MyNewWindowRequestedHandler_new_def MyNewWindowRequestedHandler_delete_def MyNewWindowRequestedHandler_AddRef_def
      MyNewWindowRequestedHandler_Release_def MyNewWindowRequestedHandler_QueryInterface_def reports_def Let_def
      dest: the_handler_NoneD split: bind_splits)

interpretation ctl: handler_ops MyCreateControllerCompletedHandler
  "\<lambda>hw b. \<lparr>vptr = MyCreateControllerCompletedHandler, h_refCount = 1, h_hwnd = hw, pBrowserObject = b\<rparr>"
  "MyCreateControllerCompletedHandler_new" MyCreateControllerCompletedHandler_delete MyCreateControllerCompletedHandler_AddRef
  MyCreateControllerCompletedHandler_Release MyCreateControllerCompletedHandler_QueryInterface
  IID_ICoreWebView2CreateCoreWebView2ControllerCompletedHandler
  by unfold_locales
    (auto simp: MyCreateControllerCompletedHandler_new_def MyCreateControllerCompletedHandler_delete_def MyCreateControllerCompletedHandler_AddRef_def
      MyCreateControllerCompletedHandler_Release_def MyCreateControllerCompletedHandler_QueryInterface_def reports_def Let_def
      dest: the_handler_NoneD split: bind_splits)

interpretation env: handler_ops MyCreateEnvironmentCompletedHandler
  "\<lambda>hw b. \<lparr>vptr = MyCreateEnvironmentCompletedHandler, h_refCount = 1, h_hwnd = hw, pBrowserObject = b\<rparr>"
  "MyCreateEnvironmentCompletedHandler_new" MyCreateEnvironmentCompletedHandler_delete MyCreateEnvironmentCompletedHandler_AddRef
  MyCreateEnvironmentCompletedHandler_Release MyCreateEnvironmentCompletedHandler_QueryInterface
  IID_ICoreWebView2CreateCoreWebView2EnvironmentCompletedHandler
  by unfold_locales
    (auto simp: MyCreateEnvironmentCompletedHandler_new_def MyCreateEnvironmentCompletedHandler_delete_def MyCreateEnvironmentCompletedHandler_AddRef_def
      MyCreateEnvironmentCompletedHandler_Release_def MyCreateEnvironmentCompletedHandler_QueryInterface_def reports_def Let_def
      dest: the_handler_NoneD split: bind_splits)

end
