(* ===== verification/Lifetimes.thy ===== *)
theory Lifetimes
  imports Handlers
begin

text \<open>
  Reference counting across objects. An invariant ties each browser's counter to the program's
  reference and to the handlers that report to it; creating, counting and releasing handlers, closing
  the browser and calling back into the program all preserve it and never touch a destroyed object.
\<close>

section \<open>Calls through the virtual table\<close>

primrec interface_of :: "handler_class \<Rightarrow> guid" where
  "interface_of MyAcceleratorKeyPressedHandler = IID_ICoreWebView2AcceleratorKeyPressedEventHandler"
| "interface_of MyContextMenuRequestedEventHandler = IID_ICoreWebView2ContextMenuRequestedEventHandler"
| "interface_of MyDOMContentLoadedEventHandler = IID_ICoreWebView2DOMContentLoadedEventHandler"
| "interface_of MyNavigationCompletedEventHandler = IID_ICoreWebView2NavigationCompletedEventHandler"
| "interface_of MyCustomSchemeHandler = IID_ICoreWebView2WebResourceRequestedEventHandler"
| "interface_of MyNewWindowRequestedHandler = IID_ICoreWebView2NewWindowRequestedEventHandler"
| "interface_of MyCreateControllerCompletedHandler = IID_ICoreWebView2CreateCoreWebView2ControllerCompletedHandler"
| "interface_of MyCreateEnvironmentCompletedHandler = IID_ICoreWebView2CreateCoreWebView2EnvironmentCompletedHandler"

primrec class_AddRef :: "handler_class \<Rightarrow> uintptr \<Rightarrow> hworld \<Rightarrow> (ULONG \<times> hworld) option" where
  "class_AddRef MyAcceleratorKeyPressedHandler = MyAcceleratorKeyPressedHandler_AddRef"
| "class_AddRef MyContextMenuRequestedEventHandler = MyContextMenuRequestedEventHandler_AddRef"
| "class_AddRef MyDOMContentLoadedEventHandler = MyDOMContentLoadedEventHandler_AddRef"
| "class_AddRef MyNavigationCompletedEventHandler = MyNavigationCompletedEventHandler_AddRef"
| "class_AddRef MyCustomSchemeHandler = MyCustomSchemeHandler_AddRef"
| "class_AddRef MyNewWindowRequestedHandler = MyNewWindowRequestedHandler_AddRef"
| "class_AddRef MyCreateControllerCompletedHandler = MyCreateControllerCompletedHandler_AddRef"
| "class_AddRef MyCreateEnvironmentCompletedHandler = MyCreateEnvironmentCompletedHandler_AddRef"

primrec class_Release :: "handler_class \<Rightarrow> uintptr \<Rightarrow> hworld \<Rightarrow> (ULONG \<times> hworld) option" where
  "class_Release MyAcceleratorKeyPressedHandler = MyAcceleratorKeyPressedHandler_Release"
| "class_Release MyContextMenuRequestedEventHandler = MyContextMenuRequestedEventHandler_Release"
| "class_Release MyDOMContentLoadedEventHandler = MyDOMContentLoadedEventHandler_Release"
| "class_Release MyNavigationCompletedEventHandler = MyNavigationCompletedEventHandler_Release"
| "class_Release MyCustomSchemeHandler = MyCustomSchemeHandler_Release"
| "class_Release MyNewWindowRequestedHandler = MyNewWindowRequestedHandler_Release"
| "class_Release MyCreateControllerCompletedHandler = MyCreateControllerCompletedHandler_Release"
| "class_Release MyCreateEnvironmentCompletedHandler = MyCreateEnvironmentCompletedHandler_Release"

primrec class_QueryInterface ::
  "handler_class \<Rightarrow> guid \<Rightarrow> uintptr \<Rightarrow> hworld \<Rightarrow> (HRESULT \<times> uintptr \<times> hworld) option" where
  "class_QueryInterface MyAcceleratorKeyPressedHandler = MyAcceleratorKeyPressedHandler_QueryInterface"
| "class_QueryInterface MyContextMenuRequestedEventHandler = MyContextMenuRequestedEventHandler_QueryInterface"
| "class_QueryInterface MyDOMContentLoadedEventHandler = MyDOMContentLoadedEventHandler_QueryInterface"
| "class_QueryInterface MyNavigationCompletedEventHandler = MyNavigationCompletedEventHandler_QueryInterface"
| "class_QueryInterface MyCustomSchemeHandler = MyCustomSchemeHandler_QueryInterface"
| "class_QueryInterface MyNewWindowRequestedHandler = MyNewWindowRequestedHandler_QueryInterface"
| "class_QueryInterface MyCreateControllerCompletedHandler = MyCreateControllerCompletedHandler_QueryInterface"
| "class_QueryInterface MyCreateEnvironmentCompletedHandler = MyCreateEnvironmentCompletedHandler_QueryInterface"

section \<open>The invariant\<close>

text \<open>The handlers that hold a reference to a browser.\<close>

definition users :: "hworld \<Rightarrow> uintptr \<Rightarrow> uintptr set" where
  "users w b = {q. \<exists>h. handlers w q = Some h \<and> reports (vptr h) \<and> pBrowserObject h = b}"

text \<open>The references that exist to a browser, and what its counter says (0 for a browser that is
  gone).\<close>

definition refs :: "hworld \<Rightarrow> uintptr \<Rightarrow> nat" where
  "refs w b = of_bool (b \<in> owners w) + card (users w b)"

definition count :: "hworld \<Rightarrow> uintptr \<Rightarrow> nat" where
  "count w b = (case browsers w b of None \<Rightarrow> 0 | Some x \<Rightarrow> unat (refCount x))"

definition no_zombie :: "hworld \<Rightarrow> bool" where
  "no_zombie w \<longleftrightarrow> (\<forall>b. browsers w b \<noteq> None \<longrightarrow> 0 < count w b)"

definition consistent :: "hworld \<Rightarrow> bool" where
  "consistent w \<longleftrightarrow> finite (dom (handlers w)) \<and> finite (dom (browsers w)) \<and>
     (\<forall>p h. handlers w p = Some h \<longrightarrow> h_refCount h \<noteq> 0) \<and> no_zombie w \<and> (\<forall>b. count w b = refs w b)"

text \<open>Room for \<open>n\<close> more objects before a counter could overflow.\<close>

definition room :: "nat \<Rightarrow> hworld \<Rightarrow> bool" where
  "room n w \<longleftrightarrow> card (dom (handlers w)) + card (dom (browsers w)) + n + 2 < 2 ^ 32"

definition fresh_new :: "engine \<Rightarrow> bool" where
  "fresh_new en \<longleftrightarrow> (\<forall>w. consistent w \<and> room 0 w \<longrightarrow>
     new_address en w \<noteq> nullptr \<and> handlers w (new_address en w) = None \<and> browsers w (new_address en w) = None)"

text \<open>A handler \<open>h\<close> at \<open>p\<close> that is being run, with room for \<open>n\<close> new objects.\<close>

definition running :: "nat \<Rightarrow> uintptr \<Rightarrow> handler \<Rightarrow> hworld \<Rightarrow> bool" where
  "running n p h w \<longleftrightarrow> consistent w \<and> handlers w p = Some h \<and> room n w"

text \<open>What the calls of a handler are observed by: the references held on every object, the callbacks
  made so far, and the fields of browser \<open>b\<close> other than its counter.\<close>

definition is_callback :: "event \<Rightarrow> bool" where
  "is_callback e \<longleftrightarrow> (case e of Call f xs \<Rightarrow> f = ''onCallBackFn'' | _ \<Rightarrow> False)"

definition snapshot :: "uintptr \<Rightarrow> hworld \<Rightarrow> (uintptr \<Rightarrow> int) \<times> event list \<times> (uintptr \<times> uintptr \<times> uintptr) option" where
  "snapshot b w = (held (trace w), filter is_callback (trace w),
     map_option (\<lambda>x. (onCallBackFn x, controller x, webview2 x)) (browsers w b))"

section \<open>Preservation\<close>

lemma snapshot_put_handler [simp]: "snapshot b (put_handler q h w) = snapshot b w"
  by (simp add: snapshot_def)

lemma snapshot_put_browser:
  "browsers w c = Some x \<Longrightarrow> onCallBackFn y = onCallBackFn x \<Longrightarrow> controller y = controller x \<Longrightarrow>
     webview2 y = webview2 x \<Longrightarrow> snapshot b (put_browser c (Some y) w) = snapshot b w"
  by (simp add: snapshot_def)

lemma users_finite: "finite (dom (handlers w)) \<Longrightarrow> finite (users w b)"
  by (rule finite_subset [of _ "dom (handlers w)"]) (auto simp: users_def)

lemma users_card_le: "finite (dom (handlers w)) \<Longrightarrow> card (users w b) \<le> card (dom (handlers w))"
  by (rule card_mono) (auto simp: users_def)

lemma users_cong: "handlers w' = handlers w \<Longrightarrow> users w' b = users w b"
  by (simp add: users_def)

lemma users_put:
  "users (put_handler q (Some h) w) b =
     (if reports (vptr h) \<and> pBrowserObject h = b then insert q (users w b) else users w b - {q})"
  by (auto simp: users_def)

lemma users_remove: "users (put_handler q None w) b = users w b - {q}"
  by (auto simp: users_def)

lemma users_mem: "handlers w q = Some h \<Longrightarrow> q \<in> users w b \<longleftrightarrow> reports (vptr h) \<and> pBrowserObject h = b"
  by (auto simp: users_def)

lemma users_absent: "handlers w q = None \<Longrightarrow> q \<notin> users w b"
  by (auto simp: users_def)

lemma consistent_same:
  assumes "consistent w" "handlers w' = handlers w" "browsers w' = browsers w" "owners w' = owners w"
  shows "consistent w'"
proof -
  have "count w' = count w" "refs w' = refs w"
    using assms by (auto simp: fun_eq_iff count_def refs_def users_def)
  with assms show ?thesis by (auto simp: consistent_def no_zombie_def)
qed

lemma running_same:
  assumes "running n p h w" "handlers w' = handlers w" "browsers w' = browsers w" "owners w' = owners w"
  shows "running n p h w'"
  using assms consistent_same [of w w'] by (auto simp: running_def room_def)

lemma running_emit [simp]: "running n p h (emit e w) \<longleftrightarrow> running n p h w"
  using running_same [of n p h w "emit e w"] running_same [of n p h "emit e w" w] by auto

lemma running_got [simp]:
  "running n p h (got_object hr q w) \<longleftrightarrow> running n p h w"
  "running n p h (got_string hr q w) \<longleftrightarrow> running n p h w"
  by (simp_all add: got_object_def got_string_def)

subsection \<open>The browser's counter\<close>

lemma count_AddRef:
  assumes "0 < count w b" "count w b + 1 < 2 ^ 32" "no_zombie w"
  obtains n w' where "MyBrowserObject_AddRef b w = Some (n, w')" "count w' = (count w)(b := count w b + 1)"
    "no_zombie w'" "dom (browsers w') = dom (browsers w)" "handlers w' = handlers w" "owners w' = owners w"
    "\<And>c. snapshot c w' = snapshot c w"
proof -
  obtain x where x: "browsers w b = Some x" "unat (refCount x) = count w b"
    using assms(1) by (auto simp: count_def split: option.splits)
  let ?w = "put_browser b (Some (x\<lparr>refCount := refCount x + 1\<rparr>)) w"
  have u: "unat (refCount x + 1) = count w b + 1"
    using x assms(2) by (simp add: unat_add_lem [THEN iffD1])
  then have c: "count ?w = (count w)(b := count w b + 1)"
    by (auto simp: fun_eq_iff count_def)
  moreover have "no_zombie ?w" using assms(3) c by (auto simp: no_zombie_def)
  ultimately show thesis
    using that [of "refCount x + 1" ?w] x by (auto simp: MyBrowserObject_AddRef_def Let_def snapshot_put_browser)
qed

lemma count_Release:
  assumes "0 < count w b" "no_zombie w"
  obtains n w' where "MyBrowserObject_Release b w = Some (n, w')" "count w' = (count w)(b := count w b - 1)"
    "no_zombie w'" "dom (browsers w') \<subseteq> dom (browsers w)" "handlers w' = handlers w" "owners w' = owners w"
    "\<And>c. 1 < count w b \<Longrightarrow> snapshot c w' = snapshot c w"
proof -
  obtain x where x: "browsers w b = Some x" "unat (refCount x) = count w b"
    using assms(1) by (auto simp: count_def split: option.splits)
  then have "refCount x \<noteq> 0" using assms(1) by auto
  then have u: "unat (refCount x - 1) = count w b - 1"
    using x by (simp add: unat_minus_one)
  let ?w = "put_browser b (Some (x\<lparr>refCount := refCount x - 1\<rparr>)) w"
  show thesis
  proof (cases "refCount x - 1 = 0")
    case True
    have "browsers ?w b = Some (x\<lparr>refCount := refCount x - 1\<rparr>)" by simp
    from delete_live [OF this] obtain w' where w': "MyBrowserObject_delete b ?w = Some w'"
        "browsers w' = (browsers w)(b := None)" "owners w' = owners w" by auto
    have rel: "MyBrowserObject_Release b w = Some (0, w')"
      using x w' True by (simp add: MyBrowserObject_Release_def Let_def)
    have c: "count w' = (count w)(b := count w b - 1)"
      using w' True u by (auto simp: fun_eq_iff count_def)
    moreover have "no_zombie w'" using assms(2) c w'(2) by (auto simp: no_zombie_def)
    moreover have "handlers w' = handlers w" using browser_ops_handlers(2) [OF rel] by simp
    moreover have "\<not> 1 < count w b" using u True by simp
    ultimately show thesis using that [OF rel] w' by auto
  next
    case False
    have c: "count ?w = (count w)(b := count w b - 1)"
      using u by (auto simp: fun_eq_iff count_def)
    moreover have "unat (refCount x - 1) \<noteq> 0" using False by (simp only: unat_eq_zero not_False_eq_True)
    then have "no_zombie ?w" using assms(2) c u by (auto simp: no_zombie_def)
    ultimately show thesis
      using that [of "refCount x - 1" ?w] False x
      by (auto simp: MyBrowserObject_Release_def Let_def snapshot_put_browser)
  qed
qed

lemma running_live:
  assumes "running n p h w" "reports (vptr h)"
  obtains x where "browsers w (pBrowserObject h) = Some x" "0 < card (users w (pBrowserObject h))"
    "0 < count w (pBrowserObject h)" "no_zombie w" "p \<in> users w (pBrowserObject h)"
proof -
  have p: "p \<in> users w (pBrowserObject h)" using assms by (auto simp: users_def running_def)
  moreover have c: "0 < card (users w (pBrowserObject h))"
    using p users_finite assms by (auto simp: running_def consistent_def card_gt_0_iff)
  moreover have "0 < count w (pBrowserObject h)"
    using c assms by (simp add: running_def consistent_def refs_def)
  moreover from this obtain x where "browsers w (pBrowserObject h) = Some x"
    by (auto simp: count_def split: option.splits)
  ultimately show thesis using that assms by (auto simp: running_def consistent_def)
qed

text \<open>No counter is near its limit while there is room.\<close>

lemma room_count: "consistent w \<Longrightarrow> room n w \<Longrightarrow> count w b + 1 < 2 ^ 32"
  using users_card_le [of w b] by (auto simp: consistent_def refs_def room_def)

subsection \<open>Creating, counting and destroying handlers\<close>

lemma count_put_handler [simp]: "count (put_handler q h w) = count w"
  by (simp add: fun_eq_iff count_def)

lemma no_zombie_put_handler [simp]: "no_zombie (put_handler q h w) \<longleftrightarrow> no_zombie w"
  by (simp add: no_zombie_def)

lemma refs_put_new:
  assumes "handlers w q = None" "finite (dom (handlers w))"
  shows "refs (put_handler q (Some h) w) =
    (if reports (vptr h) then (refs w)(pBrowserObject h := refs w (pBrowserObject h) + 1) else refs w)"
  using assms users_finite [OF assms(2)]
  by (auto simp: fun_eq_iff refs_def users_put users_absent)

lemma refs_put_same:
  assumes "handlers w q = Some h" "vptr h' = vptr h" "pBrowserObject h' = pBrowserObject h"
  shows "refs (put_handler q (Some h') w) = refs w"
proof -
  have "users (put_handler q (Some h') w) = users w"
    using assms users_mem [OF assms(1)] by (auto simp: fun_eq_iff users_put)
  then show ?thesis by (simp add: fun_eq_iff refs_def)
qed

lemma refs_remove:
  assumes "handlers w q = Some h" "finite (dom (handlers w))"
  shows "refs (put_handler q None w) =
    (if reports (vptr h) then (refs w)(pBrowserObject h := refs w (pBrowserObject h) - 1) else refs w)"
proof
  fix b
  have "card (users w b - {q}) = card (users w b) - of_bool (q \<in> users w b)"
    using users_finite [OF assms(2), of b] by (simp add: card_Diff_singleton_if)
  moreover have "0 < card (users w b)" if "q \<in> users w b"
    using that users_finite [OF assms(2), of b] by (auto simp: card_gt_0_iff)
  ultimately show "refs (put_handler q None w) b =
    (if reports (vptr h) then (refs w)(pBrowserObject h := refs w (pBrowserObject h) - 1) else refs w) b"
    using users_mem [OF assms(1), of b] by (auto simp: refs_def users_remove)
qed

lemma refs_cong: "handlers w' = handlers w \<Longrightarrow> owners w' = owners w \<Longrightarrow> refs w' = refs w"
  by (simp add: fun_eq_iff refs_def users_def)

context handler_ops
begin

lemma new_consistent:
  assumes w: "consistent w" "room (Suc n) w" and q: "handlers w q = None" and b: "reports k \<Longrightarrow> 0 < count w b"
  obtains w' where "new q hw b w = Some w'" "consistent w'" "room n w'" "handlers w' = (handlers w)(q \<mapsto> mk hw b)"
    "\<And>c. snapshot c w' = snapshot c w"
proof -
  let ?w1 = "put_handler q (Some (mk hw b)) w"
  have fin: "finite (dom (handlers w))" using w by (simp add: consistent_def)
  have rm: "card (dom (handlers ?w1)) = card (dom (handlers w)) + 1"
    using q fin by (simp add: domIff)
  show thesis
  proof (cases "reports k")
    case True
    have c: "0 < count ?w1 b" "count ?w1 b + 1 < 2 ^ 32" "no_zombie ?w1"
      using b True room_count [OF w] w by (auto simp: consistent_def)
    from count_AddRef [OF this] obtain m w' where w': "MyBrowserObject_AddRef b ?w1 = Some (m, w')"
      "count w' = (count w)(b := count w b + 1)" "no_zombie w'" "dom (browsers w') = dom (browsers w)"
      "handlers w' = handlers ?w1" "owners w' = owners w" "\<And>c. snapshot c w' = snapshot c w"
      by (auto simp del: snapshot_put_handler) (metis snapshot_put_handler)
    have "refs w' = (refs w)(b := refs w b + 1)"
      using refs_cong [OF w'(5)] w' refs_put_new [OF q fin, of "mk hw b"] mk True by simp
    then have "consistent w'" using w w' mk by (auto simp: consistent_def)
    moreover have "room n w'" using w w' rm by (simp add: room_def)
    ultimately show thesis using that w' True by (simp add: new_eq Let_def)
  next
    case False
    then have "refs ?w1 = refs w" using refs_put_new [OF q fin, of "mk hw b"] mk by simp
    then have "consistent ?w1" using w mk by (auto simp: consistent_def)
    moreover have "room n ?w1" using w rm by (simp add: room_def)
    ultimately show thesis using that False by (simp add: new_eq Let_def)
  qed
qed

lemma add_consistent:
  assumes w: "consistent w" and g: "handlers w q = Some g" "vptr g = k" "h_refCount g \<noteq> - 1"
  shows "add q w = Some (h_refCount g + 1, put_handler q (Some (g\<lparr>h_refCount := h_refCount g + 1\<rparr>)) w)"
    and "consistent (put_handler q (Some (g\<lparr>h_refCount := h_refCount g + 1\<rparr>)) w)"
    and "dom (handlers (put_handler q (Some (g\<lparr>h_refCount := h_refCount g + 1\<rparr>)) w)) = dom (handlers w)"
proof -
  let ?g = "g\<lparr>h_refCount := h_refCount g + 1\<rparr>"
  have "h_refCount g + 1 \<noteq> 0" using g(3) by (metis add.inverse_unique add.commute)
  moreover have "refs (put_handler q (Some ?g) w) = refs w" using refs_put_same [OF g(1), of ?g] by simp
  ultimately show "consistent (put_handler q (Some ?g) w)" using w by (auto simp: consistent_def)
  show "add q w = Some (h_refCount g + 1, put_handler q (Some ?g) w)"
    using g by (simp add: add_eq the_handler_def Let_def)
  show "dom (handlers (put_handler q (Some ?g) w)) = dom (handlers w)" using g(1) by auto
qed

lemma new_running:
  assumes "running (Suc n) p h w" and "handlers w q = None" and "reports k \<Longrightarrow> 0 < count w b"
  obtains w' where "new q hw b w = Some w'" "running n p h w'" "handlers w' = (handlers w)(q \<mapsto> mk hw b)"
    "\<And>c. snapshot c w' = snapshot c w"
proof -
  have w: "consistent w" "room (Suc n) w" using assms(1) by (simp_all add: running_def)
  obtain w' where "new q hw b w = Some w'" "consistent w'" "room n w'" "handlers w' = (handlers w)(q \<mapsto> mk hw b)"
      "\<And>c. snapshot c w' = snapshot c w"
    using new_consistent [OF w assms(2,3), where hw = hw] by blast
  moreover have "p \<noteq> q" using assms by (auto simp: running_def)
  ultimately show thesis using that assms by (simp add: running_def)
qed

lemma add_running:
  assumes "running n p h w" and "handlers w q = Some g" "vptr g = k" "q \<noteq> p" "h_refCount g \<noteq> - 1"
  obtains m w' where "add q w = Some (m, w')" "running n p h w'"
    "handlers w' = (handlers w)(q \<mapsto> g\<lparr>h_refCount := h_refCount g + 1\<rparr>)" "\<And>c. snapshot c w' = snapshot c w"
proof -
  have w: "consistent w" using assms(1) by (simp add: running_def)
  note a = add_consistent [OF w assms(2,3,5)]
  show thesis
    by (rule that [OF a(1)]) (use a assms in \<open>auto simp: running_def room_def\<close>)
qed

lemma rel_consistent:
  assumes w: "consistent w" "handlers w q = Some g" "vptr g = k"
  obtains m w' where "rel q w = Some (m, w')" "consistent w'" "dom (browsers w') \<subseteq> dom (browsers w)"
    "\<forall>r. r \<noteq> q \<longrightarrow> handlers w' r = handlers w r" "owners w' = owners w"
    "\<And>c. (reports k \<Longrightarrow> 1 < count w (pBrowserObject g)) \<Longrightarrow> snapshot c w' = snapshot c w"
    "handlers w' q = (if h_refCount g = 1 then None else Some (g\<lparr>h_refCount := h_refCount g - 1\<rparr>))"
proof -
  let ?g = "g\<lparr>h_refCount := h_refCount g - 1\<rparr>"
  let ?w = "put_handler q (Some ?g) w"
  have fin: "finite (dom (handlers w))" "finite (dom (browsers w))" using w by (auto simp: consistent_def)
  have same: "refs ?w = refs w" using refs_put_same [OF w(2), of ?g] by simp
  show thesis
  proof (cases "h_refCount g = 1")
    case False
    then have "consistent ?w" using w same fin by (auto simp: consistent_def)
    with that False w show thesis by (simp add: rel_eq the_handler_def Let_def)
  next
    case True
    let ?b = "pBrowserObject g"
    have g: "handlers ?w q = Some ?g" "finite (dom (handlers ?w))" using fin by auto
    obtain w' where w': "(if reports k then do { (_, w) \<leftarrow> MyBrowserObject_Release ?b ?w; Some w } else Some ?w) = Some w'"
        "count w' = (if reports k then (count w)(?b := count w ?b - 1) else count w)"
        "no_zombie w'" "dom (browsers w') \<subseteq> dom (browsers w)" "handlers w' = handlers ?w" "owners w' = owners w"
        "\<And>c. (reports k \<Longrightarrow> 1 < count w ?b) \<Longrightarrow> snapshot c w' = snapshot c w"
    proof (cases "reports k")
      case r: True
      have "0 < card (users w ?b)"
        using users_mem [OF w(2), of ?b] users_finite [OF fin(1)] r w(3) by (auto simp: card_gt_0_iff)
      then have "0 < count ?w ?b" "no_zombie ?w" using w(1) by (auto simp: consistent_def refs_def)
      from count_Release [OF this] obtain m v where "MyBrowserObject_Release ?b ?w = Some (m, v)"
        "count v = (count ?w)(?b := count ?w ?b - 1)" "no_zombie v" "dom (browsers v) \<subseteq> dom (browsers ?w)"
        "handlers v = handlers ?w" "owners v = owners ?w"
        "\<And>c. 1 < count ?w ?b \<Longrightarrow> snapshot c v = snapshot c ?w" by blast
      with that [of v] r show thesis by simp
    next
      case False
      with that [of ?w] w(1) show thesis by (simp add: consistent_def)
    qed
    let ?v = "put_handler q None w'"
    have rel: "rel q w = Some (0, ?v)"
      using w True w'(1) by (auto simp: rel_eq del_eq the_handler_def Let_def split: bind_splits if_splits)
    have "refs w' = refs w" using refs_cong [OF w'(5)] w'(6) same by simp
    then have "refs ?v = (if reports k then (refs w)(?b := refs w ?b - 1) else refs w)"
      using refs_remove [of w' q ?g] w' w(3) g fin by simp
    then have "consistent ?v"
      using w(1) w' fin finite_subset [OF w'(4)] by (auto simp: consistent_def split: if_splits)
    with that [OF rel] w' True show thesis by simp
  qed
qed

lemma rel_safe:
  assumes "consistent w" "handlers w q = Some g" "vptr g = k"
  shows "\<exists>m w'. rel q w = Some (m, w') \<and> consistent w'"
  using rel_consistent [OF assms] by metis

lemma add_safe:
  assumes "consistent w" "handlers w q = Some g" "vptr g = k" "h_refCount g \<noteq> - 1"
  shows "\<exists>m w'. add q w = Some (m, w') \<and> consistent w'"
  using add_consistent [OF assms] by blast

lemma rel_running:
  assumes "running n p h w" and "handlers w q = Some g" "vptr g = k" "q \<noteq> p"
  obtains m w' where "rel q w = Some (m, w')" "running n p h w'"
    "\<And>c. (reports k \<Longrightarrow> 1 < count w (pBrowserObject g)) \<Longrightarrow> snapshot c w' = snapshot c w"
proof -
  have w: "consistent w" using assms by (simp add: running_def)
  from rel_consistent [OF w assms(2,3)] obtain m w' where w': "rel q w = Some (m, w')" "consistent w'"
    "dom (browsers w') \<subseteq> dom (browsers w)" "\<forall>r. r \<noteq> q \<longrightarrow> handlers w' r = handlers w r"
    "\<And>c. (reports k \<Longrightarrow> 1 < count w (pBrowserObject g)) \<Longrightarrow> snapshot c w' = snapshot c w" by (metis (no_types))
  have "dom (handlers w') \<subseteq> dom (handlers w)"
  proof
    fix r assume "r \<in> dom (handlers w')"
    then show "r \<in> dom (handlers w)" using w'(4) assms(2) by (cases "r = q") auto
  qed
  then have "card (dom (handlers w')) \<le> card (dom (handlers w))"
    "card (dom (browsers w')) \<le> card (dom (browsers w))"
    using w w'(3) by (auto intro!: card_mono simp: consistent_def)
  then have "room n w'" using assms(1) by (simp add: running_def room_def)
  with w' assms that show thesis by (simp add: running_def)
qed

end


subsection \<open>The program's reference\<close>

text \<open>A close that leaves the browser to its handlers takes away its callback and nothing else.\<close>

definition silent_close :: "uintptr \<Rightarrow> hworld \<Rightarrow> hworld \<Rightarrow> bool" where
  "silent_close b w w' \<longleftrightarrow> (\<exists>H C f c v. snapshot b w = (H, C, Some (f, c, v)) \<and> snapshot b w' = (H, C, Some (nullptr, c, v)))"

lemma close_consistent:
  assumes w: "consistent w" "b \<in> owners w"
  obtains n w' where "owner_close b w = Some (n, w')" "consistent w'" "handlers w' = handlers w"
    "dom (browsers w') \<subseteq> dom (browsers w)" "owners w' = owners w - {b}"
    "1 < count w b \<Longrightarrow> silent_close b w w'"
proof -
  let ?w = "w\<lparr>owners := owners w - {b}\<rparr>"
  have r: "refs ?w = (refs w)(b := refs w b - 1)" "0 < refs w b"
    using w(2) by (auto simp: fun_eq_iff refs_def users_def)
  then have pos: "0 < count w b" using w(1) by (simp add: consistent_def)
  then obtain x where x: "browsers w b = Some x" by (auto simp: count_def split: option.splits)
  let ?v = "put_browser b (Some (x\<lparr>onCallBackFn := nullptr\<rparr>)) ?w"
  have c: "count ?v = count w" using x by (auto simp: fun_eq_iff count_def)
  have z: "no_zombie ?v" using w(1) c x by (auto simp: consistent_def no_zombie_def)
  obtain n w' where w': "MyBrowserObject_Release b ?v = Some (n, w')"
      "count w' = (count ?v)(b := count ?v b - 1)" "no_zombie w'" "dom (browsers w') \<subseteq> dom (browsers ?v)"
      "handlers w' = handlers ?v" "owners w' = owners ?v" "1 < count ?v b \<Longrightarrow> snapshot b w' = snapshot b ?v"
    using count_Release [of ?v b] pos c z by (metis (full_types))
  have "snapshot b ?v = (held (trace w), filter is_callback (trace w), Some (nullptr, controller x, webview2 x))"
    by (simp add: snapshot_def)
  then have silent: "1 < count w b \<Longrightarrow> silent_close b w w'"
    using w'(7) c x by (simp add: silent_close_def snapshot_def)
  have "refs w' = refs ?w" using refs_cong [of w' ?w] w' by simp
  moreover have "finite (dom (browsers w'))" "dom (browsers w') \<subseteq> dom (browsers w)"
    using finite_subset [OF w'(4)] w'(4) w(1) x by (auto simp: consistent_def)
  ultimately have "consistent w'" using w w' r c by (auto simp: consistent_def)
  with that silent w' x \<open>dom (browsers w') \<subseteq> dom (browsers w)\<close> show thesis
    by (simp add: owner_close_def MyBrowserObject_Close_def)
qed

lemma running_mono:
  assumes "running n p h w" "consistent w'" "handlers w' = handlers w" "dom (browsers w') \<subseteq> dom (browsers w)"
  shows "running n p h w'"
proof -
  have "card (dom (browsers w')) \<le> card (dom (browsers w))"
    using assms by (intro card_mono) (auto simp: running_def consistent_def)
  with assms show ?thesis by (simp add: running_def room_def)
qed

definition callback_event :: "CALLBACK_TYPE \<Rightarrow> uintptr \<Rightarrow> uintptr \<Rightarrow> uintptr \<Rightarrow> event" where
  "callback_event t x y z = Call ''onCallBackFn'' [of_nat (CALLBACK_TYPE_value t), x, y, z]"

lemma is_callback_event [simp]: "is_callback (callback_event t x y z)"
  by (simp add: callback_event_def is_callback_def)

text \<open>The program may close the browser inside the callback: the handler that is running keeps it. The
  call leaves one event and, at most, takes the callback away.\<close>

lemma call_back_running:
  assumes r: "running n p h w" "reports (vptr h)" and s: "snapshot (pBrowserObject h) w = (H, C, Some (f, c, v))"
  obtains r' w' f' where "call_back en (pBrowserObject h) t x y z w = Some (r', w')" "running n p h w'"
    "handlers w' = handlers w" "snapshot (pBrowserObject h) w' = (H, C @ [callback_event t x y z], Some (f', c, v))"
proof -
  let ?b = "pBrowserObject h" and ?w = "emit (callback_event t x y z) w"
  have s1: "snapshot ?b ?w = (H, C @ [callback_event t x y z], Some (f, c, v))"
    using s by (auto simp: snapshot_def callback_event_def is_callback_def fun_eq_iff)
  have r1: "running n p h ?w" using r(1) by simp
  show thesis
  proof (cases "callback_closes en (trace ?w) \<and> ?b \<in> owners w")
    case True
    have w: "consistent ?w" using r1 by (simp only: running_def)
    have o: "?b \<in> owners ?w" using True by simp
    have "0 < card (users ?w ?b)" using running_live [OF r1 r(2)] by blast
    then have "1 < count ?w ?b" using w o by (simp add: consistent_def refs_def)
    with close_consistent [OF w o] obtain m w' where w': "owner_close ?b ?w = Some (m, w')" "consistent w'"
      "handlers w' = handlers ?w" "dom (browsers w') \<subseteq> dom (browsers ?w)" "silent_close ?b ?w w'" by metis
    from that [OF _ running_mono [OF r1 w'(2-4)]] w' s1 True show thesis
      by (auto simp: call_back_def callback_event_def Let_def silent_close_def)
  next
    case False
    from that [OF _ r1 _ s1] False show thesis by (auto simp: call_back_def callback_event_def Let_def)
  qed
qed

text \<open>The ready notification: one event if there is still a callback.\<close>

definition ready :: "uintptr \<Rightarrow> CREATE_WEBVIEW_STAGE \<Rightarrow> HRESULT \<Rightarrow> event list" where
  "ready f s r = (if f = nullptr then [] else [callback_event ON_READY (of_nat (STAGE_value s)) (scast r) 0])"

lemma onReady_running:
  assumes r: "running n p h w" "reports (vptr h)" and s: "snapshot (pBrowserObject h) w = (H, C, Some (f, c, v))"
  obtains w' f' where "onReady en (pBrowserObject h) st hr w = Some w'" "running n p h w'" "handlers w' = handlers w"
    "snapshot (pBrowserObject h) w' = (H, C @ ready f st hr, Some (f', c, v))"
proof -
  obtain x where x: "browsers w (pBrowserObject h) = Some x" using running_live [OF r] by blast
  then have f: "onCallBackFn x = f" using s by (simp add: snapshot_def)
  show thesis
  proof (cases "f = nullptr")
    case True
    with that [OF _ r(1)] x f s show thesis by (simp add: onReady_def ready_def)
  next
    case False
    obtain r' w' f' where "call_back en (pBrowserObject h) ON_READY (of_nat (STAGE_value st)) (scast hr) 0 w
        = Some (r', w')" "running n p h w'" "handlers w' = handlers w"
      "snapshot (pBrowserObject h) w' = (H, C @ [callback_event ON_READY (of_nat (STAGE_value st)) (scast hr) 0],
         Some (f', c, v))"
      by (rule call_back_running [OF r s])
    with that False x f show thesis by (simp add: onReady_def ready_def)
  qed
qed

lemma snapshot_live:
  assumes "running n p h w" "reports (vptr h)"
  obtains H C f c v where "snapshot (pBrowserObject h) w = (H, C, Some (f, c, v))"
proof -
  obtain x where "browsers w (pBrowserObject h) = Some x" using running_live [OF assms] by blast
  with that show thesis by (simp add: snapshot_def)
qed

lemma notify_running:
  assumes "running n p h w" "reports (vptr h)"
  shows "\<exists>w'. onLoaded en (pBrowserObject h) w = Some w' \<and> running n p h w'"
    and "\<exists>w'. onNavCompleted en (pBrowserObject h) w = Some w' \<and> running n p h w'"
    and "\<exists>r w'. onAccelPressed en (pBrowserObject h) key w = Some (r, w') \<and> running n p h w'"
    and "\<exists>r w'. onContextMenuRequested en (pBrowserObject h) w = Some (r, w') \<and> running n p h w'"
proof -
  obtain x where x: "browsers w (pBrowserObject h) = Some x" using running_live [OF assms] by blast
  have cb: "\<exists>v w'. call_back en (pBrowserObject h) t a b c w = Some (v, w') \<and> running n p h w'" for t a b c
    using snapshot_live [OF assms] call_back_running [OF assms] by metis
  show "\<exists>w'. onLoaded en (pBrowserObject h) w = Some w' \<and> running n p h w'"
    using x cb [of ON_LOADED 0 0 0] assms(1) by (auto simp: onLoaded_def)
  show "\<exists>w'. onNavCompleted en (pBrowserObject h) w = Some w' \<and> running n p h w'"
    using x cb [of ON_NAVCOMPLETED 0 0 0] assms(1) by (auto simp: onNavCompleted_def)
  show "\<exists>r w'. onAccelPressed en (pBrowserObject h) key w = Some (r, w') \<and> running n p h w'"
    using x cb [of ON_ACCEL_KEY_PRESSED "ucast key" 0 0] assms(1) by (auto simp: onAccelPressed_def)
  show "\<exists>r w'. onContextMenuRequested en (pBrowserObject h) w = Some (r, w') \<and> running n p h w'"
    using x cb [of ON_CONTEXT_MENU_REQUESTED 0 0 0] assms(1) by (auto simp: onContextMenuRequested_def)
qed

lemma set_running:
  assumes "running n p h w" "reports (vptr h)" "u \<noteq> nullptr"
    and s: "snapshot (pBrowserObject h) w = (H, C, Some (f, c, v))"
  shows "\<exists>w'. SetController (pBrowserObject h) u w = Some w' \<and> running n p h w' \<and>
      snapshot (pBrowserObject h) w' = ((\<lambda>q. H q + one_on u q), C, Some (f, u, v))"
    and "\<exists>w'. SetWebView2 (pBrowserObject h) u w = Some w' \<and> running n p h w' \<and>
      snapshot (pBrowserObject h) w' = ((\<lambda>q. H q + one_on u q), C, Some (f, c, u))"
proof -
  obtain x where x: "browsers w (pBrowserObject h) = Some x" using running_live [OF assms(1,2)] by blast
  have same: "running n p h (put_browser (pBrowserObject h) (Some y) w)" if "refCount y = refCount x" for y
  proof -
    let ?w = "put_browser (pBrowserObject h) (Some y) w"
    have "count ?w = count w" "refs ?w = refs w"
      using x that by (auto simp: fun_eq_iff count_def refs_def users_def)
    moreover have "dom (browsers ?w) = dom (browsers w)" using x by auto
    ultimately show ?thesis
      using assms(1) x by (auto simp: running_def room_def consistent_def no_zombie_def)
  qed
  have [simp]: "held [AddRef u] = one_on u" by (auto simp: fun_eq_iff one_on_def)
  show "\<exists>w'. SetController (pBrowserObject h) u w = Some w' \<and> running n p h w' \<and>
      snapshot (pBrowserObject h) w' = ((\<lambda>q. H q + one_on u q), C, Some (f, u, v))"
    using x assms(3) s same [of "x\<lparr>controller := u\<rparr>"]
    by (auto simp: SetController_def snapshot_def is_callback_def fun_eq_iff one_on_def)
  show "\<exists>w'. SetWebView2 (pBrowserObject h) u w = Some w' \<and> running n p h w' \<and>
      snapshot (pBrowserObject h) w' = ((\<lambda>q. H q + one_on u q), C, Some (f, c, u))"
    using x assms(3) s same [of "x\<lparr>webview2 := u\<rparr>"]
    by (auto simp: SetWebView2_def snapshot_def is_callback_def fun_eq_iff one_on_def)
qed

end
