(* ===== verification/ControllerCompleted.thy ===== *)
theory ControllerCompleted
  imports Lifetimes
begin

text \<open>
  \<^verbatim>\<open>MyCreateControllerCompletedHandler::Invoke\<close>, which sets up a new browser in seven steps, each of
  which can fail: what it relies on of the engine, and how every path through it ends.
\<close>

section \<open>Running the handlers\<close>

text \<open>What the handlers rely on of the engine and the platform: \<^verbatim>\<open>new\<close> gives an address not in use,
  and a successful \<^verbatim>\<open>get_CoreWebView2\<close> stores a view. Every other call may fail in any way.\<close>

definition good_engine :: "engine \<Rightarrow> bool" where
  "good_engine en \<longleftrightarrow> fresh_new en \<and>
     (\<forall>c. SUCCEEDED (fst (get_CoreWebView2 en c)) \<longrightarrow> snd (get_CoreWebView2 en c) \<noteq> nullptr)"

lemma good_engineD:
  assumes "good_engine en"
  shows "fresh_new en"
    and "SUCCEEDED hr \<Longrightarrow> get_CoreWebView2 en c = (hr, v) \<Longrightarrow> v \<noteq> nullptr"
proof -
  show "fresh_new en" using assms by (simp add: good_engine_def)
  show "v \<noteq> nullptr" if "SUCCEEDED hr" "get_CoreWebView2 en c = (hr, v)"
    using assms that unfolding good_engine_def by (metis fst_conv snd_conv)
qed

text \<open>The two calls whose failure \<^verbatim>\<open>MyCreateControllerCompletedHandler::Invoke\<close> does not notice, because its tests have
  the comparison with null inside \<^verbatim>\<open>SUCCEEDED\<close>: \<^verbatim>\<open>get_Profile\<close>, on a view with the interface for it, and
  \<^verbatim>\<open>get_Settings\<close>.\<close>

definition stores :: "HRESULT \<times> uintptr option \<Rightarrow> bool" where
  "stores r \<longleftrightarrow> SUCCEEDED (fst r) \<and> (case snd r of None \<Rightarrow> False | Some q \<Rightarrow> q \<noteq> nullptr)"

definition has_settings :: "engine \<Rightarrow> uintptr \<Rightarrow> bool" where
  "has_settings en wv \<longleftrightarrow> stores (get_Settings en wv) \<and>
     (case wv_QueryInterface en wv IID_ICoreWebView2_13 of
        (hr, v) \<Rightarrow> SUCCEEDED hr \<and> v \<noteq> nullptr \<longrightarrow> stores (get_Profile en v))"

lemma storesD: "stores (hr, q) \<Longrightarrow> SUCCEEDED hr \<and> (\<exists>x. q = Some x \<and> x \<noteq> nullptr)"
  by (auto simp: stores_def split: option.splits)

text \<open>A handler of class \<open>k\<close> at \<open>q\<close> that has been offered to the engine.\<close>

definition offered :: "handler_class \<Rightarrow> uintptr \<Rightarrow> nat \<Rightarrow> uintptr \<Rightarrow> handler \<Rightarrow> hworld \<Rightarrow> bool" where
  "offered k q n p h w \<longleftrightarrow> running n p h w \<and> q \<noteq> p \<and>
     (\<exists>g. handlers w q = Some g \<and> vptr g = k \<and> (reports k \<longrightarrow> reports (vptr h) \<and> pBrowserObject g = pBrowserObject h))"

lemma offered_emit [simp]: "offered k q n p h (emit e w) \<longleftrightarrow> offered k q n p h w"
  by (simp add: offered_def)

lemma offered_onReady:
  assumes "offered k q n p h w" "reports (vptr h)"
  shows "\<exists>w'. onReady en (pBrowserObject h) s r w = Some w' \<and> offered k q n p h w'"
proof -
  have r: "running n p h w" using assms by (simp add: offered_def)
  obtain H C f c v where s: "snapshot (pBrowserObject h) w = (H, C, Some (f, c, v))"
    by (rule snapshot_live [OF r assms(2)])
  obtain w' where "onReady en (pBrowserObject h) s r w = Some w'" "running n p h w'" "handlers w' = handlers w"
    using onReady_running [OF r assms(2) s] by metis
  with assms show ?thesis by (auto simp: offered_def)
qed

lemma running_fresh:
  assumes "running (Suc n) p h w" "fresh_new en"
  shows "new_address en w \<noteq> p" "handlers w (new_address en w) = None"
  using assms by (auto simp: running_def fresh_new_def room_def)

text \<open>A browser with two handlers has a counter above one.\<close>

lemma offered_count:
  assumes "offered k q n p h w" "reports k"
  shows "1 < count w (pBrowserObject h)"
proof -
  let ?b = "pBrowserObject h"
  have "{p, q} \<subseteq> users w ?b" "p \<noteq> q" and w: "consistent w"
    using assms by (auto simp: offered_def running_def users_def)
  then have "card {p, q} \<le> card (users w ?b)"
    using users_finite [of w ?b] by (intro card_mono) (auto simp: consistent_def)
  with \<open>p \<noteq> q\<close> have "1 < refs w ?b" by (simp add: refs_def)
  then show ?thesis using w by (simp add: consistent_def)
qed

context handler_ops
begin

lemma offer:
  assumes r: "running (Suc n) p h w" "fresh_new en" and b: "reports k \<Longrightarrow> reports (vptr h) \<and> b = pBrowserObject h"
  shows "\<exists>w1. new (new_address en w) hw b w = Some w1 \<and> running n p h w1 \<and>
    (\<forall>keeps. \<exists>w2. engine_keeps add keeps (new_address en w) w1 = Some w2 \<and>
       offered k (new_address en w) n p h w2 \<and> (\<forall>c. snapshot c w2 = snapshot c w))"
proof -
  let ?q = "new_address en w"
  note q = running_fresh [OF r]
  have "0 < count w b" if "reports k" using running_live [OF r(1)] b [OF that] by blast
  with new_running [OF r(1) q(2)] obtain w1 where w1: "new ?q hw b w = Some w1" "running n p h w1"
    "handlers w1 = (handlers w)(?q \<mapsto> mk hw b)" "\<And>c. snapshot c w1 = snapshot c w" by metis
  have g: "handlers w1 ?q = Some (mk hw b)" using w1 by simp
  have "\<exists>w2. engine_keeps add keeps ?q w1 = Some w2 \<and> offered k ?q n p h w2 \<and> (\<forall>c. snapshot c w2 = snapshot c w)"
    for keeps
  proof (cases keeps)
    case True
    have "h_refCount (mk hw b) \<noteq> - 1" by (simp add: mk)
    with add_running [OF w1(2) g mk(1) q(1)] obtain m w2 where "add ?q w1 = Some (m, w2)"
      "running n p h w2" "\<And>c. snapshot c w2 = snapshot c w1"
      "handlers w2 = (handlers w1)(?q \<mapsto> (mk hw b)\<lparr>h_refCount := h_refCount (mk hw b) + 1\<rparr>)" by metis
    with True q mk b w1(4) show ?thesis by (auto simp: engine_keeps_def offered_def)
  next
    case False
    with w1 g q mk b show ?thesis by (auto simp: engine_keeps_def offered_def)
  qed
  with w1 show ?thesis by blast
qed

lemma offered_rel:
  assumes "offered k q n p h w"
  shows "\<exists>m w'. rel q w = Some (m, w') \<and> running n p h w' \<and> (\<forall>c. snapshot c w' = snapshot c w)"
proof -
  obtain g where g: "running n p h w" "handlers w q = Some g" "vptr g = k" "q \<noteq> p"
      "reports k \<Longrightarrow> pBrowserObject g = pBrowserObject h"
    using assms by (auto simp: offered_def)
  from rel_running [OF g(1-4)] offered_count [OF assms] g(5) show ?thesis by metis
qed

end

section \<open>The controller-completed handler\<close>

text \<open>How one run of \<^verbatim>\<open>MyCreateControllerCompletedHandler::Invoke\<close> ends: with one ready
  notification. Stage \<^verbatim>\<open>FINISH\<close> leaves the browser with the controller and the view and a
  reference to each; any other stage leaves every account as it was, except that one exit releases
  the second view interface once too often. When \<open>has_settings\<close> fails, the accounts of a finished run are left open, and the run
  may have no end.\<close>

definition no_menu_interface :: "engine \<Rightarrow> uintptr \<Rightarrow> bool" where
  "no_menu_interface en wv \<longleftrightarrow>
     (case wv_QueryInterface en wv IID_ICoreWebView2_11 of (hr, v) \<Rightarrow> FAILED hr \<or> v = nullptr)"

definition outcome ::
  "engine \<Rightarrow> uintptr \<Rightarrow> uintptr \<Rightarrow> uintptr \<Rightarrow> (uintptr \<Rightarrow> int) \<Rightarrow> event list \<Rightarrow> uintptr \<Rightarrow> hworld \<Rightarrow> bool" where
  "outcome en b ctl wv H C f w' \<longleftrightarrow>
     (\<exists>s r f' c v K. snapshot b w' = (K, C @ ready f s r, Some (f', c, v)) \<and>
        (if s = FINISH
         then r = result_code OK \<and> c = ctl \<and> v = wv \<and> (has_settings en wv \<longrightarrow> K = (\<lambda>q. H q + one_on ctl q + one_on wv q))
         else K = (\<lambda>q. H q - (if s = ADD_CONTEXTMENU_HANDLER \<and> no_menu_interface en wv
                              then one_on (snd (wv_QueryInterface en wv IID_ICoreWebView2_2)) q else 0))))"

definition runs :: "bool \<Rightarrow> uintptr \<Rightarrow> handler \<Rightarrow> (hworld \<Rightarrow> bool) \<Rightarrow> (HRESULT \<times> hworld) option \<Rightarrow> bool" where
  "runs ok p h Q x \<longleftrightarrow> (case x of None \<Rightarrow> \<not> ok | Some (r, w') \<Rightarrow> r = S_OK \<and> running 0 p h w' \<and> Q w')"

lemma running_less: "running n p h w \<Longrightarrow> m \<le> n \<Longrightarrow> running m p h w"
  by (simp add: running_def room_def)

lemma snapshot_events:
  assumes "snapshot b w = (K, C, F)"
  shows "snapshot b (emit (Release x) w) = ((\<lambda>q. K q - one_on x q), C, F)"
    and "snapshot b (got_object hr x w) = (if SUCCEEDED hr \<and> x \<noteq> nullptr then (\<lambda>q. K q + one_on x q, C, F) else (K, C, F))"
    and "g \<noteq> ''onCallBackFn'' \<Longrightarrow> snapshot b (emit (Call g xs) w) = (K, C, F)"
  using assms by (auto simp: snapshot_def fun_eq_iff one_on_def is_callback_def got_object_def)

lemma report_outcome:
  assumes r: "running n p h w" "reports (vptr h)" and s: "snapshot (pBrowserObject h) w = (K, C, Some (f, c, v))"
    and K: "st \<noteq> FINISH" "K = (\<lambda>q. H q - (if st = ADD_CONTEXTMENU_HANDLER \<and> no_menu_interface en wv
                              then one_on (snd (wv_QueryInterface en wv IID_ICoreWebView2_2)) q else 0))"
  shows "runs ok p h (outcome en (pBrowserObject h) ctl wv H C f) (report en (pBrowserObject h) st hr w)"
proof -
  obtain w' f' where w': "onReady en (pBrowserObject h) st hr w = Some w'" "running n p h w'"
      "snapshot (pBrowserObject h) w' = (K, C @ ready f st hr, Some (f', c, v))"
    using onReady_running [OF r s] by metis
  then have "outcome en (pBrowserObject h) ctl wv H C f w'" unfolding outcome_def
    by (intro exI [of _ st] exI [of _ hr] exI [of _ f'] exI [of _ c] exI [of _ v] exI [of _ K]) (simp add: K)
  with w' running_less [OF w'(2), of 0] show ?thesis by (simp add: report_def runs_def)
qed

text \<open>The pattern of every registration: create a handler, offer it, and give up the creator's
  reference on both outcomes.\<close>

context handler_ops
begin

lemma registration_runs:
  assumes r: "running (Suc n) p h w" "reports (vptr h)" "fresh_new en"
    and fail: "\<And>v. running n p h v \<Longrightarrow> snapshot (pBrowserObject h) v = S1 \<Longrightarrow> runs ok p h Q (F v)"
    and cont: "\<And>v. running n p h v \<Longrightarrow> snapshot (pBrowserObject h) v = S2 \<Longrightarrow> runs ok p h Q (G v)"
    and pre: "\<And>q v. offered k q n p h v \<Longrightarrow> snapshot (pBrowserObject h) v = snapshot (pBrowserObject h) w \<Longrightarrow>
      offered k q n p h (pre1 v) \<and> snapshot (pBrowserObject h) (pre1 v) = S1 \<and>
      offered k q n p h (pre2 v) \<and> snapshot (pBrowserObject h) (pre2 v) = S2"
  shows "runs ok p h Q
    (do { w1 \<leftarrow> new (new_address en w) hw (pBrowserObject h) w;
          w2 \<leftarrow> engine_keeps add keeps (new_address en w) w1;
          if failed then do { (_, w3) \<leftarrow> rel (new_address en w) (pre1 w2); F w3 }
          else do { (_, w3) \<leftarrow> rel (new_address en w) (pre2 w2); G w3 } })"
proof -
  let ?q = "new_address en w" and ?b = "pBrowserObject h"
  from offer [OF r(1,3), of ?b hw] r(2) obtain w1 w2
    where w: "new ?q hw ?b w = Some w1" "engine_keeps add keeps ?q w1 = Some w2"
      "offered k ?q n p h w2" "snapshot ?b w2 = snapshot ?b w" by metis
  note o = pre [OF w(3,4)]
  obtain m1 v1 where "rel ?q (pre1 w2) = Some (m1, v1)" "running n p h v1" "snapshot ?b v1 = S1"
    using offered_rel [of ?q n p h "pre1 w2"] o by auto
  moreover obtain m2 v2 where "rel ?q (pre2 w2) = Some (m2, v2)" "running n p h v2" "snapshot ?b v2 = S2"
    using offered_rel [of ?q n p h "pre2 w2"] o by auto
  ultimately show ?thesis using w fail cont by simp
qed

end

lemma snapshot_got_option:
  assumes "snapshot b w = (K, C, F)"
  shows "\<exists>K'. snapshot b (case q of None \<Rightarrow> w | Some x \<Rightarrow> got_object hr x w) = (K', C, F)"
  using snapshot_events(2) [OF assms] assms by (cases q) auto

lemma running_got_option [simp]:
  "running n p h (case q of None \<Rightarrow> w | Some x \<Rightarrow> got_object hr x w) \<longleftrightarrow> running n p h w"
  by (cases q) simp_all

text \<open>A pointer that is tested as \<^verbatim>\<open>SUCCEEDED(hr && p != nullptr)\<close>, used and released.\<close>

lemma used_and_released:
  assumes s: "snapshot b w = (K, C, F)" and r: "running n p h w" and g: "g \<noteq> ''onCallBackFn''"
    and x: "x = do { ok \<leftarrow> succeeded_and hr q;
        if ok then do { p \<leftarrow> q; deref p; Some (emit (Release p) (emit (Call g (args p))
          (case q of None \<Rightarrow> w | Some y \<Rightarrow> got_object hr y w))) }
        else Some (case q of None \<Rightarrow> w | Some y \<Rightarrow> got_object hr y w) }"
  shows "case x of None \<Rightarrow> \<not> stores (hr, q)
    | Some w' \<Rightarrow> running n p h w' \<and> (\<exists>K'. snapshot b w' = (K', C, F) \<and> (stores (hr, q) \<longrightarrow> K' = K))"
proof (cases q)
  case None
  then show ?thesis unfolding x by (auto simp: succeeded_and_def stores_def r split: option.splits)
next
  case (Some y)
  obtain K1 where K1: "snapshot b (got_object hr y w) = (K1, C, F)"
      "SUCCEEDED hr \<and> y \<noteq> nullptr \<Longrightarrow> K1 = (\<lambda>q. K q + one_on y q)"
    using snapshot_events(2) [OF s, of hr y] by (cases "SUCCEEDED hr \<and> y \<noteq> nullptr") auto
  have e: "snapshot b (emit (Release y) (emit (Call g (args y)) (got_object hr y w))) = ((\<lambda>q. K1 q - one_on y q), C, F)"
    by (rule snapshot_events(1)) (rule snapshot_events(3) [OF K1(1) g])
  show ?thesis unfolding x Some
    using e K1 r by (auto simp: succeeded_and_def stores_def deref_def)
qed

lemma prefer_light_running:
  assumes r: "running n p h w" and s: "snapshot b w = (K, C, F)"
  shows "case prefer_light en wv w of None \<Rightarrow> \<not> has_settings en wv
    | Some w' \<Rightarrow> running n p h w' \<and> (\<exists>K'. snapshot b w' = (K', C, F) \<and> (has_settings en wv \<longrightarrow> K' = K))"
proof -
  obtain rtn v where v: "wv_QueryInterface en wv IID_ICoreWebView2_13 = (rtn, v)" by fastforce
  obtain hr q where q: "get_Profile en v = (hr, q)" by fastforce
  let ?w = "got_object rtn v w"
  show ?thesis
  proof (cases "SUCCEEDED rtn \<and> v \<noteq> nullptr")
    case False
    then show ?thesis using r s v by (auto simp: prefer_light_def got_object_def)
  next
    case True
    have sw: "snapshot b ?w = ((\<lambda>q. K q + one_on v q), C, F)" using snapshot_events(2) [OF s] True by simp
    let ?x = "do { ok \<leftarrow> succeeded_and hr q;
        if ok then do { p \<leftarrow> q; deref p; Some (emit (Release p) (emit (Call ''put_PreferredColorScheme'' [p, ucast
            (COREWEBVIEW2_PREFERRED_COLOR_SCHEME_value COREWEBVIEW2_PREFERRED_COLOR_SCHEME_LIGHT)])
          (case q of None \<Rightarrow> ?w | Some y \<Rightarrow> got_object hr y ?w))) }
        else Some (case q of None \<Rightarrow> ?w | Some y \<Rightarrow> got_object hr y ?w) }"
    have u: "case ?x of None \<Rightarrow> \<not> stores (hr, q)
      | Some w' \<Rightarrow> running n p h w' \<and> (\<exists>K'. snapshot b w' = (K', C, F) \<and> (stores (hr, q) \<longrightarrow> K' = (\<lambda>q. K q + one_on v q)))"
      by (rule used_and_released [OF sw _ _ refl]) (simp_all add: r)
    have p: "prefer_light en wv w = map_option (emit (Release v)) ?x"
      using True v q by (auto simp: prefer_light_def map_conv_bind_option comp_def split: Option.bind_splits)
    have hs: "has_settings en wv \<Longrightarrow> stores (hr, q)" using True v q by (simp add: has_settings_def)
    show ?thesis
    proof (cases ?x)
      case None
      then show ?thesis using u hs unfolding p by auto
    next
      case (Some w')
      then obtain K' where "running n p h w'" "snapshot b w' = (K', C, F)" "stores (hr, q) \<longrightarrow> K' = (\<lambda>q. K q + one_on v q)"
        using u by auto
      then show ?thesis using Some hs snapshot_events(1) [of b w' K' C F v] unfolding p by auto
    qed
  qed
qed

lemma hide_status_bar_running:
  assumes r: "running n p h w" and s: "snapshot b w = (K, C, F)"
  shows "case hide_status_bar en wv w of None \<Rightarrow> \<not> has_settings en wv
    | Some w' \<Rightarrow> running n p h w' \<and> (\<exists>K'. snapshot b w' = (K', C, F) \<and> (has_settings en wv \<longrightarrow> K' = K))"
proof -
  obtain hr q where q: "get_Settings en wv = (hr, q)" by fastforce
  have "case hide_status_bar en wv w of None \<Rightarrow> \<not> stores (hr, q)
    | Some w' \<Rightarrow> running n p h w' \<and> (\<exists>K'. snapshot b w' = (K', C, F) \<and> (stores (hr, q) \<longrightarrow> K' = K))"
    by (rule used_and_released [OF s r, where g = "''put_IsStatusBarEnabled''" and args = "\<lambda>q. [q, 0]"])
      (simp_all add: hide_status_bar_def q Let_def)
  moreover have "has_settings en wv \<Longrightarrow> stores (hr, q)" by (simp add: has_settings_def q)
  ultimately show ?thesis by (auto split: option.splits)
qed

text \<open>The rest of a run, from the settings to the notification.\<close>

lemma finish_rest:
  assumes r: "running 1 p h w" "reports (vptr h)" and en: "good_engine en" and ptr: "ctl \<noteq> nullptr" "wv \<noteq> nullptr"
    and s: "snapshot (pBrowserObject h) w = (K, C, Some (f, c, v))"
    and K: "has_settings en wv \<Longrightarrow> K = (\<lambda>q. H q + one_on wv q)"
  shows "runs (has_settings en wv) p h (outcome en (pBrowserObject h) ctl wv H C f)
    (do { let handler = new_address en w;
          w \<leftarrow> MyNewWindowRequestedHandler_new handler w;
          let (_, keeps) = add_NewWindowRequested en wv handler;
          w \<leftarrow> engine_keeps MyNewWindowRequestedHandler_AddRef keeps handler w;
          w \<leftarrow> SetController (pBrowserObject h) ctl w;
          w \<leftarrow> SetWebView2 (pBrowserObject h) wv w;
          w \<leftarrow> onReady en (pBrowserObject h) FINISH (result_code OK) w;
          Some (S_OK, emit (Release wv) w) })"
proof -
  let ?b = "pBrowserObject h"
  let ?q = "new_address en w"
  obtain hr keeps where a: "add_NewWindowRequested en wv ?q = (hr, keeps)" by fastforce
  have r1: "running (Suc 0) p h w" using r(1) by simp
  obtain w3 w4 where w3: "MyNewWindowRequestedHandler_new ?q w = Some w3"
    and w4: "engine_keeps MyNewWindowRequestedHandler_AddRef keeps ?q w3 = Some w4" "running 0 p h w4"
      "snapshot ?b w4 = (K, C, Some (f, c, v))"
    using window.offer [OF r1 good_engineD(1) [OF en]] s unfolding offered_def by (metis reports_def)
  obtain w5 where w5: "SetController ?b ctl w4 = Some w5" "running 0 p h w5"
      "snapshot ?b w5 = ((\<lambda>q. K q + one_on ctl q), C, Some (f, ctl, v))"
    using set_running(1) [OF w4(2) r(2) ptr(1) w4(3)] by blast
  obtain w6 where w6: "SetWebView2 ?b wv w5 = Some w6" "running 0 p h w6"
      "snapshot ?b w6 = ((\<lambda>q. K q + one_on ctl q + one_on wv q), C, Some (f, ctl, wv))"
    using set_running(2) [OF w5(2) r(2) ptr(2) w5(3)] by blast
  obtain w7 f' where w7: "onReady en ?b FINISH (result_code OK) w6 = Some w7" "running 0 p h w7"
      "handlers w7 = handlers w6" "snapshot ?b w7 = ((\<lambda>q. K q + one_on ctl q + one_on wv q), C @ ready f FINISH (result_code OK),
         Some (f', ctl, wv))"
    by (rule onReady_running [OF w6(2) r(2) w6(3)])
  let ?K = "\<lambda>q. K q + one_on ctl q"
  have "snapshot ?b (emit (Release wv) w7) = (?K, C @ ready f FINISH (result_code OK), Some (f', ctl, wv))"
    by (simp add: snapshot_events(1) [OF w7(4)] fun_eq_iff)
  then have "outcome en ?b ctl wv H C f (emit (Release wv) w7)"
    unfolding outcome_def using K
    by (intro exI [of _ FINISH] exI [of _ "result_code OK"] exI [of _ f'] exI [of _ ctl] exI [of _ wv] exI [of _ ?K])
      (auto simp: fun_eq_iff)
  with w3 w4 w5 w6 w7 a show ?thesis by (simp add: runs_def)
qed

lemma finish_runs:
  assumes r: "running 1 p h w" "reports (vptr h)" and en: "good_engine en" and ptr: "ctl \<noteq> nullptr" "wv \<noteq> nullptr"
    and s: "snapshot (pBrowserObject h) w = ((\<lambda>q. H q + one_on wv q), C, Some (f, c, v))"
  shows "runs (has_settings en wv) p h (outcome en (pBrowserObject h) ctl wv H C f)
    (finish_controller en (pBrowserObject h) ctl wv w)"
proof (cases "prefer_light en wv w")
  case None
  then show ?thesis using prefer_light_running [OF r(1) s, of en wv] by (simp add: finish_controller_def runs_def)
next
  case (Some w1)
  then obtain K1 where w1: "running 1 p h w1" "snapshot (pBrowserObject h) w1 = (K1, C, Some (f, c, v))"
      "has_settings en wv \<longrightarrow> K1 = (\<lambda>q. H q + one_on wv q)"
    using prefer_light_running [OF r(1) s, of en wv] by auto
  show ?thesis
  proof (cases "hide_status_bar en wv w1")
    case None
    then show ?thesis
      using hide_status_bar_running [OF w1(1,2), of en wv] Some by (simp add: finish_controller_def runs_def)
  next
    case (Some w2)
    then obtain K2 where w2: "running 1 p h w2" "snapshot (pBrowserObject h) w2 = (K2, C, Some (f, c, v))"
        "has_settings en wv \<Longrightarrow> K2 = (\<lambda>q. H q + one_on wv q)"
      using hide_status_bar_running [OF w1(1,2), of en wv] w1(3) by auto
    have "finish_controller en (pBrowserObject h) ctl wv w =
      do { let handler = new_address en w2;
          w \<leftarrow> MyNewWindowRequestedHandler_new handler w2;
          let (_, keeps) = add_NewWindowRequested en wv handler;
          w \<leftarrow> engine_keeps MyNewWindowRequestedHandler_AddRef keeps handler w;
          w \<leftarrow> SetController (pBrowserObject h) ctl w;
          w \<leftarrow> SetWebView2 (pBrowserObject h) wv w;
          w \<leftarrow> onReady en (pBrowserObject h) FINISH (result_code OK) w;
          Some (S_OK, emit (Release wv) w) }"
      using Some \<open>prefer_light en wv w = Some w1\<close> by (simp add: finish_controller_def)
    then show ?thesis using finish_rest [OF w2(1) r(2) en ptr w2(2,3)] by simp
  qed
qed

lemma context_menu_runs:
  assumes r: "running 2 p h w" "reports (vptr h)" and en: "good_engine en" and ptr: "ctl \<noteq> nullptr" "wv \<noteq> nullptr"
    and s: "snapshot (pBrowserObject h) w = ((\<lambda>q. H q + one_on wv q), C, Some (f, c, v))"
    and v2: "webview2_2 = snd (wv_QueryInterface en wv IID_ICoreWebView2_2)"
  shows "runs (has_settings en wv) p h (outcome en (pBrowserObject h) ctl wv H C f)
    (add_context_menu en (pBrowserObject h) ctl wv webview2_2 w)"
proof -
  obtain rtn u where u: "wv_QueryInterface en wv IID_ICoreWebView2_11 = (rtn, u)" by fastforce
  let ?w = "got_object rtn u w"
  obtain hr keeps where a: "add_ContextMenuRequested en u (new_address en ?w) = (hr, keeps)" by fastforce
  note ev = snapshot_events [OF s]
  show ?thesis
  proof (cases "FAILED rtn \<or> u = nullptr")
    case True
    then have m: "no_menu_interface en wv" using u by (simp add: no_menu_interface_def)
    have "\<not> (SUCCEEDED rtn \<and> u \<noteq> nullptr)" using True by (auto simp: FAILED_iff_not_SUCCEEDED)
    then have sw: "snapshot (pBrowserObject h) ?w = ((\<lambda>q. H q + one_on wv q), C, Some (f, c, v))"
      using ev(2) by auto
    have "snapshot (pBrowserObject h) (emit (Release webview2_2) (emit (Release wv) ?w)) =
        ((\<lambda>q. H q - one_on webview2_2 q), C, Some (f, c, v))"
      using snapshot_events(1) [OF snapshot_events(1) [OF sw]] by simp
    from report_outcome [OF _ r(2) this, where st = ADD_CONTEXTMENU_HANDLER and H = H and en = en and wv = wv
        and ctl = ctl and hr = rtn and n = 0 and p = p] running_less [OF r(1), of 0] m v2 True u
    show ?thesis by (simp add: add_context_menu_def)
  next
    case False
    then have m: "\<not> no_menu_interface en wv" using u by (simp add: no_menu_interface_def)
    have sw: "snapshot (pBrowserObject h) ?w = ((\<lambda>q. H q + one_on wv q + one_on u q), C, Some (f, c, v))"
      using ev(2) False by (auto simp: FAILED_iff_not_SUCCEEDED)
    show ?thesis
      unfolding add_context_menu_def u Let_def prod.case a if_not_P [OF False]
    proof (rule menu.registration_runs [where n = 1 and ?S1.0 = "(H, C, Some (f, c, v))"
        and ?S2.0 = "((\<lambda>q. H q + one_on wv q), C, Some (f, c, v))"])
      show "runs (has_settings en wv) p h (outcome en (pBrowserObject h) ctl wv H C f)
          (report en (pBrowserObject h) ADD_CONTEXTMENU_HANDLER hr x)"
        if "running 1 p h x" "snapshot (pBrowserObject h) x = (H, C, Some (f, c, v))" for x
        using report_outcome [OF that(1) r(2) that(2)] m by simp
    qed (use r en ptr good_engineD(1) [OF en] finish_runs sw in \<open>auto simp: numeral_2_eq_2 snapshot_events\<close>)
  qed
qed

lemma accelerator_runs:
  assumes r: "running 3 p h w" "reports (vptr h)" and en: "good_engine en" and ptr: "ctl \<noteq> nullptr" "wv \<noteq> nullptr"
    and s: "snapshot (pBrowserObject h) w = ((\<lambda>q. H q + one_on wv q + one_on webview2_2 q), C, Some (f, c, v))"
    and v2: "webview2_2 = snd (wv_QueryInterface en wv IID_ICoreWebView2_2)"
  shows "runs (has_settings en wv) p h (outcome en (pBrowserObject h) ctl wv H C f)
    (add_accelerator en (pBrowserObject h) ctl wv webview2_2 w)"
proof -
  obtain hr keeps where a: "add_AcceleratorKeyPressed en ctl (new_address en w) = (hr, keeps)" by fastforce
  show ?thesis
    unfolding add_accelerator_def Let_def prod.case a
  proof (rule accel.registration_runs [where n = 2 and ?S1.0 = "(H, C, Some (f, c, v))"
        and ?S2.0 = "((\<lambda>q. H q + one_on wv q), C, Some (f, c, v))"])
    show "runs (has_settings en wv) p h (outcome en (pBrowserObject h) ctl wv H C f)
        (report en (pBrowserObject h) ADD_ACCELERATOR_HANDLER hr x)"
      if "running 2 p h x" "snapshot (pBrowserObject h) x = (H, C, Some (f, c, v))" for x
      using report_outcome [OF that(1) r(2) that(2)] by simp
  qed (use r en ptr v2 good_engineD(1) [OF en] context_menu_runs s in \<open>auto simp: eval_nat_numeral snapshot_events\<close>)
qed

lemma navigation_listener_runs:
  assumes r: "running 4 p h w" "reports (vptr h)" and en: "good_engine en" and ptr: "ctl \<noteq> nullptr" "wv \<noteq> nullptr"
    and s: "snapshot (pBrowserObject h) w = ((\<lambda>q. H q + one_on wv q + one_on webview2_2 q), C, Some (f, c, v))"
    and v2: "webview2_2 = snd (wv_QueryInterface en wv IID_ICoreWebView2_2)"
  shows "runs (has_settings en wv) p h (outcome en (pBrowserObject h) ctl wv H C f)
    (add_navigation_listener en (pBrowserObject h) ctl wv webview2_2 w)"
proof -
  obtain hr keeps where a: "add_NavigationCompleted en webview2_2 (new_address en w) = (hr, keeps)" by fastforce
  show ?thesis
    unfolding add_navigation_listener_def Let_def prod.case a
  proof (rule nav.registration_runs [where n = 3 and ?S1.0 = "(H, C, Some (f, c, v))"
        and ?S2.0 = "((\<lambda>q. H q + one_on wv q + one_on webview2_2 q), C, Some (f, c, v))"])
    show "runs (has_settings en wv) p h (outcome en (pBrowserObject h) ctl wv H C f)
        (report en (pBrowserObject h) ADD_LOAD_EVENT_LISTENER hr x)"
      if "running 3 p h x" "snapshot (pBrowserObject h) x = (H, C, Some (f, c, v))" for x
      using report_outcome [OF that(1) r(2) that(2)] by simp
  qed (use r en ptr v2 good_engineD(1) [OF en] accelerator_runs s in \<open>auto simp: eval_nat_numeral snapshot_events\<close>)
qed

lemma load_listener_runs:
  assumes r: "running 5 p h w" "reports (vptr h)" and en: "good_engine en" and ptr: "ctl \<noteq> nullptr" "wv \<noteq> nullptr"
    and s: "snapshot (pBrowserObject h) w = ((\<lambda>q. H q + one_on wv q), C, Some (f, c, v))"
  shows "runs (has_settings en wv) p h (outcome en (pBrowserObject h) ctl wv H C f) (add_load_listener en (pBrowserObject h) ctl wv w)"
proof -
  obtain rtn u where u: "wv_QueryInterface en wv IID_ICoreWebView2_2 = (rtn, u)" by fastforce
  let ?w = "got_object rtn u w"
  obtain hr keeps where a: "add_DOMContentLoaded en u (new_address en ?w) = (hr, keeps)" by fastforce
  note ev = snapshot_events [OF s]
  show ?thesis
  proof (cases "FAILED rtn \<or> u = nullptr")
    case True
    then have "?w = w" by (auto simp: got_object_def FAILED_iff_not_SUCCEEDED)
    then have "snapshot (pBrowserObject h) (emit (Release wv) ?w) = (H, C, Some (f, c, v))"
      using snapshot_events(1) [OF s, of wv] by simp
    from report_outcome [OF _ r(2) this, where st = ADD_LOAD_EVENT_LISTENER and H = H and en = en and wv = wv
        and ctl = ctl and hr = rtn and n = 0 and p = p] running_less [OF r(1), of 0] True u
    show ?thesis by (simp add: add_load_listener_def)
  next
    case False
    have sw: "snapshot (pBrowserObject h) ?w = ((\<lambda>q. H q + one_on wv q + one_on u q), C, Some (f, c, v))"
      using ev(2) False by (auto simp: FAILED_iff_not_SUCCEEDED)
    show ?thesis
      unfolding add_load_listener_def u Let_def prod.case a if_not_P [OF False]
    proof (rule dom.registration_runs [where n = 4 and ?S1.0 = "(H, C, Some (f, c, v))"
        and ?S2.0 = "((\<lambda>q. H q + one_on wv q + one_on u q), C, Some (f, c, v))"])
      show "runs (has_settings en wv) p h (outcome en (pBrowserObject h) ctl wv H C f)
          (report en (pBrowserObject h) ADD_LOAD_EVENT_LISTENER hr x)"
        if "running 4 p h x" "snapshot (pBrowserObject h) x = (H, C, Some (f, c, v))" for x
        using report_outcome [OF that(1) r(2) that(2)] by simp
      show "runs (has_settings en wv) p h (outcome en (pBrowserObject h) ctl wv H C f)
          (add_navigation_listener en (pBrowserObject h) ctl wv u x)"
        if "running 4 p h x"
          "snapshot (pBrowserObject h) x = ((\<lambda>q. H q + one_on wv q + one_on u q), C, Some (f, c, v))" for x
        using navigation_listener_runs [OF that(1) r(2) en ptr that(2)] u by simp
    qed (use r en good_engineD(1) [OF en] sw in \<open>auto simp: eval_nat_numeral snapshot_events\<close>)
  qed
qed

lemma register_scheme_runs:
  assumes r: "running (Suc n) p h w" and en: "good_engine en" and ptr: "wv \<noteq> nullptr"
  shows "\<exists>hr w'. RegisterCustomScheme en wv w = Some (hr, w') \<and> running n p h w' \<and> (\<forall>c. snapshot c w' = snapshot c w)"
proof -
  let ?q = "new_address en w"
  obtain hr keeps where a: "add_WebResourceRequested en wv ?q = (hr, keeps)" by fastforce
  from scheme.offer [OF r good_engineD(1) [OF en]] obtain w1 where w1: "MyCustomSchemeHandler_new ?q w = Some w1"
      and keep: "\<And>kp. \<exists>w2. engine_keeps MyCustomSchemeHandler_AddRef kp ?q w1 = Some w2 \<and>
          offered MyCustomSchemeHandler ?q n p h w2 \<and> (\<forall>c. snapshot c w2 = snapshot c w)" by (metis reports_def)
  obtain w2 where w2: "engine_keeps MyCustomSchemeHandler_AddRef keeps ?q w1 = Some w2"
    "offered MyCustomSchemeHandler ?q n p h w2" "\<forall>c. snapshot c w2 = snapshot c w" using keep by blast
  have o1: "offered MyCustomSchemeHandler ?q n p h w1" "\<forall>c. snapshot c w1 = snapshot c w"
    using keep [of False] by (simp_all add: engine_keeps_def)
  obtain m1 v1 where "MyCustomSchemeHandler_Release ?q w1 = Some (m1, v1)" "running n p h v1" "\<forall>c. snapshot c v1 = snapshot c w1"
    using scheme.offered_rel [OF o1(1)] by blast
  moreover obtain m2 v2 where "MyCustomSchemeHandler_Release ?q w2 = Some (m2, v2)" "running n p h v2" "\<forall>c. snapshot c v2 = snapshot c w2"
    using scheme.offered_rel [OF w2(2)] by blast
  ultimately show ?thesis using w1 w2 o1 a ptr by (simp add: RegisterCustomScheme_def deref_def Let_def)
qed

lemma controller_completed_runs:
  assumes r: "running 6 p h w" "vptr h = MyCreateControllerCompletedHandler" and en: "good_engine en"
    and ptr: "SUCCEEDED result \<Longrightarrow> ctl \<noteq> nullptr"
    and s: "snapshot (pBrowserObject h) w = (H, C, Some (f, c, v))"
  shows "runs (has_settings en (snd (get_CoreWebView2 en ctl))) p h
    (outcome en (pBrowserObject h) ctl (snd (get_CoreWebView2 en ctl)) H C f)
    (MyCreateControllerCompletedHandler_Invoke en p result ctl w)"
proof -
  have h: "the_handler MyCreateControllerCompletedHandler p w = Some h" and rep: "reports (vptr h)"
    using r by (simp_all add: running_def reports_def)
  obtain rtn u where u: "get_CoreWebView2 en ctl = (rtn, u)" by fastforce
  let ?w = "got_object rtn u w" and ?Q = "outcome en (pBrowserObject h) ctl u H C f"
  have report: "runs (has_settings en u) p h ?Q (report en (pBrowserObject h) st hr x)"
    if "running 0 p h x" "snapshot (pBrowserObject h) x = (H, C, Some (f, c, v))" "st \<noteq> FINISH" "st \<noteq> ADD_CONTEXTMENU_HANDLER"
    for st hr x using report_outcome [OF that(1) rep that(2,3)] that(4) by simp
  have r0: "running 0 p h w" using running_less [OF r(1)] by simp
  show ?thesis
  proof (cases "FAILED result \<or> FAILED rtn")
    case True
    then have "?w = w \<or> FAILED result" by (auto simp: got_object_def FAILED_iff_not_SUCCEEDED)
    with True u ptr report [OF r0 s] show ?thesis
      unfolding MyCreateControllerCompletedHandler_Invoke_def h
      by (auto simp: deref_def Let_def FAILED_iff_not_SUCCEEDED)
  next
    case False
    then have ok: "ctl \<noteq> nullptr" "u \<noteq> nullptr"
      using ptr good_engineD(2) [OF en _ u] by (auto simp: FAILED_iff_not_SUCCEEDED)
    have sw: "snapshot (pBrowserObject h) ?w = ((\<lambda>q. H q + one_on u q), C, Some (f, c, v))"
      using snapshot_events(2) [OF s, of rtn u] False ok by (simp add: FAILED_iff_not_SUCCEEDED)
    have "running (Suc 5) p h ?w" using r(1) by simp
    from register_scheme_runs [OF this en ok(2)] obtain hr w1
      where w1: "RegisterCustomScheme en u ?w = Some (hr, w1)" "running 5 p h w1"
        "snapshot (pBrowserObject h) w1 = ((\<lambda>q. H q + one_on u q), C, Some (f, c, v))" using sw by auto
    have "snapshot (pBrowserObject h) (emit (Release u) w1) = (H, C, Some (f, c, v))"
      using snapshot_events(1) [OF w1(3), of u] by simp
    with report [of "emit (Release u) w1" REGISTER_CUSTOM_SCHEME hr] running_less [OF w1(2), of 0]
      load_listener_runs [OF w1(2) rep en ok w1(3)] False u ok w1(1) show ?thesis
      unfolding MyCreateControllerCompletedHandler_Invoke_def h by (simp add: deref_def Let_def)
  qed
qed

end
