(* ===== verification/Session.thy ===== *)
theory Session
  imports ControllerCompleted
begin

text \<open>
  The life of a browser between the program, its handlers and the engine. The state is the store of
  browsers and handlers; the actions are what the engine and the program can do with the references
  they hold. Every action preserves the invariant, and under it no action touches a destroyed object.
\<close>

section \<open>The other handlers\<close>

text \<open>The handler is still running after its code, which has a result except when \<open>ok\<close> fails.\<close>

definition does_run :: "bool \<Rightarrow> nat \<Rightarrow> uintptr \<Rightarrow> handler \<Rightarrow> (HRESULT \<times> hworld) option \<Rightarrow> bool" where
  "does_run ok n p h x \<longleftrightarrow> (case x of None \<Rightarrow> \<not> ok | Some (r, w') \<Rightarrow> running n p h w')"

lemma onReady_safe:
  assumes "running n p h w" "reports (vptr h)"
  shows "\<exists>w'. onReady en (pBrowserObject h) s r w = Some w' \<and> running n p h w'"
  using onReady_running [OF assms] snapshot_live [OF assms] by metis

lemma runs_does_run: "runs ok p h Q x \<Longrightarrow> does_run ok 0 p h x"
  by (auto simp: runs_def does_run_def split: option.splits)

lemma controller_completed_safe:
  assumes "running 6 p h w" "vptr h = MyCreateControllerCompletedHandler" "good_engine en"
    and "SUCCEEDED result \<Longrightarrow> ctl \<noteq> nullptr"
  shows "does_run (has_settings en (snd (get_CoreWebView2 en ctl))) 0 p h
    (MyCreateControllerCompletedHandler_Invoke en p result ctl w)"
proof -
  have "reports (vptr h)" using assms(2) by (simp add: reports_def)
  then obtain H C f c v where "snapshot (pBrowserObject h) w = (H, C, Some (f, c, v))"
    using snapshot_live [OF assms(1)] by blast
  from controller_completed_runs [OF assms this] show ?thesis by (rule runs_does_run)
qed

lemma environment_completed_runs:
  assumes r: "running 1 p h w" "vptr h = MyCreateEnvironmentCompletedHandler" and en: "good_engine en"
    and ptr: "SUCCEEDED result \<Longrightarrow> e \<noteq> nullptr"
  shows "does_run ok 0 p h (MyCreateEnvironmentCompletedHandler_Invoke en p result e w)"
proof (cases "SUCCEEDED result")
  case False
  have "running 0 p h w" "reports (vptr h)" using running_less [OF r(1)] r(2) by (simp_all add: reports_def)
  then obtain w' where
    "onReady en (pBrowserObject h) CREATING_ENVIRONMENT result w = Some w'" "running 0 p h w'"
    using onReady_safe by blast
  with False r show ?thesis
    by (simp add: MyCreateEnvironmentCompletedHandler_Invoke_def does_run_def running_def the_handler_def)
next
  case True
  let ?q = "new_address en w" and ?b = "pBrowserObject h"
  obtain rtn keeps where c: "CreateCoreWebView2Controller en e (h_hwnd h) ?q = (rtn, keeps)" by fastforce
  have r1: "running (Suc 0) p h w" and rep: "reports (vptr h)" using r by (simp_all add: reports_def)
  from ctl.offer [OF r1 good_engineD(1) [OF en], of ?b "h_hwnd h"] rep obtain w1 w2
    where w: "MyCreateControllerCompletedHandler_new ?q (h_hwnd h) ?b w = Some w1"
      "engine_keeps MyCreateControllerCompletedHandler_AddRef keeps ?q w1 = Some w2"
      "offered MyCreateControllerCompletedHandler ?q 0 p h w2" by blast
  from offered_onReady [OF w(3) rep] obtain w3 where
    "onReady en ?b CREATING_CONTROLLER rtn w2 = Some w3" "offered MyCreateControllerCompletedHandler ?q 0 p h w3" by blast
  then obtain w4 where w4: "(if FAILED rtn then onReady en ?b CREATING_CONTROLLER rtn w2 else Some w2) = Some w4"
    "offered MyCreateControllerCompletedHandler ?q 0 p h w4" using w(3) by (cases "FAILED rtn") auto
  obtain m w5 where w5: "MyCreateControllerCompletedHandler_Release ?q w4 = Some (m, w5)" "running 0 p h w5"
    using ctl.offered_rel [OF w4(2)] by blast
  have h: "the_handler MyCreateEnvironmentCompletedHandler p w = Some h" using r by (simp add: running_def)
  from True ptr c w w4 w5 show ?thesis
    unfolding MyCreateEnvironmentCompletedHandler_Invoke_def h by (simp add: does_run_def deref_def Let_def)
qed

lemma notification_runs:
  assumes r: "running n p h w"
  shows "vptr h = MyDOMContentLoadedEventHandler \<Longrightarrow> does_run ok n p h (MyDOMContentLoadedEventHandler_Invoke en p w)"
    and "vptr h = MyNavigationCompletedEventHandler \<Longrightarrow> does_run ok n p h (MyNavigationCompletedEventHandler_Invoke en p w)"
    and "vptr h = MyContextMenuRequestedEventHandler \<Longrightarrow>
      does_run ok n p h (MyContextMenuRequestedEventHandler_Invoke en p args w)"
    and "vptr h = MyAcceleratorKeyPressedHandler \<Longrightarrow> does_run ok n p h (MyAcceleratorKeyPressedHandler_Invoke en p args w)"
proof -
  have h: "handlers w p = Some h" using r by (simp add: running_def)
  show "does_run ok n p h (MyDOMContentLoadedEventHandler_Invoke en p w)" if "vptr h = MyDOMContentLoadedEventHandler"
    using notify_running(1) [OF r, of en] h that
    by (auto simp: MyDOMContentLoadedEventHandler_Invoke_def does_run_def the_handler_def reports_def)
  show "does_run ok n p h (MyNavigationCompletedEventHandler_Invoke en p w)" if "vptr h = MyNavigationCompletedEventHandler"
    using notify_running(2) [OF r, of en] h that
    by (auto simp: MyNavigationCompletedEventHandler_Invoke_def does_run_def the_handler_def reports_def)
  show "does_run ok n p h (MyContextMenuRequestedEventHandler_Invoke en p args w)"
    if "vptr h = MyContextMenuRequestedEventHandler"
  proof -
    have "reports (vptr h)" using that by (simp add: reports_def)
    from notify_running(4) [OF r this] obtain a w' where
      "onContextMenuRequested en (pBrowserObject h) w = Some (a, w')" "running n p h w'" by blast
    with h that show ?thesis
      by (simp add: MyContextMenuRequestedEventHandler_Invoke_def does_run_def the_handler_def)
  qed
  show "does_run ok n p h (MyAcceleratorKeyPressedHandler_Invoke en p args w)" if "vptr h = MyAcceleratorKeyPressedHandler"
  proof -
    obtain hr1 kind where k: "get_KeyEventKind en args = (hr1, kind)" by fastforce
    obtain hr2 key where v: "get_VirtualKey en args = (hr2, key)" by fastforce
    have "reports (vptr h)" using that by (simp add: reports_def)
    from notify_running(3) [OF r this] obtain a w' where
      "onAccelPressed en (pBrowserObject h) key w = Some (a, w')" "running n p h w'" by blast
    with h that k v r show ?thesis
      by (simp add: MyAcceleratorKeyPressedHandler_Invoke_def does_run_def the_handler_def)
  qed
qed

lemma running_response [simp]: "running n p h (w\<lparr>responses := rs\<rparr>) \<longleftrightarrow> running n p h w"
  using running_same [of n p h w "w\<lparr>responses := rs\<rparr>"] running_same [of n p h "w\<lparr>responses := rs\<rparr>" w] by auto

text \<open>What the answer to a request depends on without a test: the conversion of the address, and the response object.\<close>

definition has_response :: "engine \<Rightarrow> uintptr \<Rightarrow> uintptr \<Rightarrow> bool" where
  "has_response en e uri \<longleftrightarrow>
     ConvertWcharToChar (WideCharToMultiByte en) (Some (wide_string en uri)) \<noteq> None \<and>
     (\<forall>stream status headers. snd (CreateWebResourceResponse en e stream status headers) \<noteq> nullptr)"

definition survives :: "bool \<Rightarrow> (hworld \<Rightarrow> bool) \<Rightarrow> hworld option \<Rightarrow> bool" where
  "survives ok P x \<longleftrightarrow> (case x of None \<Rightarrow> \<not> ok | Some w \<Rightarrow> P w)"

lemma survives_bind: "survives ok P x \<Longrightarrow> (\<And>w. P w \<Longrightarrow> survives ok Q (f w)) \<Longrightarrow> survives ok Q (Option.bind x f)"
  by (cases x) (simp_all add: survives_def)

lemma survives_Some [simp]: "survives ok P (Some w) \<longleftrightarrow> P w"
  by (simp add: survives_def)

lemma survives_value: "(c = None \<Longrightarrow> \<not> ok) \<Longrightarrow> (\<And>x. survives ok P (f x)) \<Longrightarrow> survives ok P (Option.bind c f)"
  by (cases c) (simp_all add: survives_def)

lemma survivesI: "\<exists>w. x = Some w \<and> P w \<Longrightarrow> survives ok P x"
  by (auto simp: survives_def)

lemma respond_running:
  assumes "running n p h w"
  shows "survives (has_response en e uri) (running n p h) (respond en e args s st re hs w)"
  using assms by (auto simp: survives_def respond_def has_response_def deref_def Let_def split: prod.splits option.splits)
    (metis snd_conv)+

lemma serve_running:
  assumes r: "running n p h w"
  shows "survives (has_response en e uri) (running n p h) (serve en e args uri w)"
proof -
  obtain c where c: "c = ConvertWcharToChar (WideCharToMultiByte en) (Some (wide_string en uri))" by simp
  obtain data sz where d: "suneidoAPP_result en c = (data, sz)" by fastforce
  let ?w = "if data \<noteq> nullptr then emit (Alloc data (unat sz)) w else w"
  have rw: "running n p h ?w" using r by simp
  have n: "c = None \<Longrightarrow> \<not> has_response en e uri" by (simp add: has_response_def c)
  note respond = respond_running [of n p h _ en e uri]
  show ?thesis
    unfolding serve_def c [symmetric] Let_def d prod.case
    by (rule survives_bind [where P = "running n p h"])
      (use r rw n in \<open>auto intro!: respond survives_value [where c = c] survives_bind [where P = "running n p h"]\<close>)
qed

lemma window_requested_runs:
  assumes "running n p h w" "vptr h = MyNewWindowRequestedHandler"
  shows "does_run ok n p h (MyNewWindowRequestedHandler_Invoke en p args w)"
proof -
  have h: "the_handler MyNewWindowRequestedHandler p w = Some h" using assms by (simp add: running_def)
  show ?thesis
    unfolding MyNewWindowRequestedHandler_Invoke_def h using assms(1)
    by (cases "get_Uri en args") (simp add: does_run_def Let_def)
qed

definition answers_request :: "engine \<Rightarrow> uintptr \<Rightarrow> uintptr \<Rightarrow> bool" where
  "answers_request en sender args \<longleftrightarrow>
     has_response en (snd (get_Environment en (snd (wv_QueryInterface en sender IID_ICoreWebView2_2))))
       (snd (get_Uri en (snd (get_Request en args))))"

lemma custom_scheme_runs:
  assumes r: "running n p h w" "vptr h = MyCustomSchemeHandler"
  shows "does_run (answers_request en sender args) n p h (MyCustomSchemeHandler_Invoke en p sender args w)"
proof -
  have h: "the_handler MyCustomSchemeHandler p w = Some h" using r by (simp add: running_def)
  obtain hr1 rq where a: "get_Request en args = (hr1, rq)" by fastforce
  obtain hr2 uri where b: "get_Uri en rq = (hr2, uri)" by fastforce
  obtain hr3 v where c: "wv_QueryInterface en sender IID_ICoreWebView2_2 = (hr3, v)" by fastforce
  obtain hr4 e where d: "get_Environment en v = (hr4, e)" by fastforce
  let ?w = "got_object hr4 e (got_object hr3 v (got_string hr2 uri (got_object hr1 rq w)))"
  have "survives (answers_request en sender args) (running n p h) (serve en e args uri ?w)"
    using serve_running [of n p h ?w en e uri args] r(1) by (simp add: answers_request_def a b c d)
  with a b c d r(1) show ?thesis
    unfolding MyCustomSchemeHandler_Invoke_def h
    by (auto simp: does_run_def survives_def Let_def split: option.splits)
qed

section \<open>Starting a browser\<close>

text \<open>The part of \<^verbatim>\<open>CreateWebView2\<close> that creates the browser object and the first handler and hands
  the handler to the engine. \<open>create\<close> is the engine's entry point: its result for the handler, and
  whether it keeps the handler.\<close>

definition start_environment ::
  "engine \<Rightarrow> (uintptr \<Rightarrow> HRESULT \<times> bool) \<Rightarrow> uintptr \<Rightarrow> uintptr \<Rightarrow> hworld \<Rightarrow> (HRESULT \<times> uintptr \<times> hworld) option" where
  "start_environment en create hw cb w =
     do { let b = new_address en w;
          let w = MyBrowserObject_new b hw cb (w\<lparr>owners := insert b (owners w)\<rparr>);
          let handler = new_address en w;
          w \<leftarrow> MyCreateEnvironmentCompletedHandler_new handler hw b w;
          let (result, keeps) = create handler;
          w \<leftarrow> engine_keeps MyCreateEnvironmentCompletedHandler_AddRef keeps handler w;
          (_, w) \<leftarrow> MyCreateEnvironmentCompletedHandler_Release handler w;
          Some (result, b, w) }"

lemma owner_alive:
  assumes "consistent w" "b \<in> owners w"
  shows "browsers w b \<noteq> None"
proof -
  have "0 < refs w b" using assms(2) by (simp add: refs_def)
  then have "0 < count w b" using assms(1) by (simp add: consistent_def)
  then show ?thesis by (auto simp: count_def split: option.splits)
qed

lemma new_browser_consistent:
  fixes hw cb
  assumes w: "consistent w" "room (Suc n) w" and b: "browsers w b = None"
  defines "w' \<equiv> MyBrowserObject_new b hw cb (w\<lparr>owners := insert b (owners w)\<rparr>)"
  shows "consistent w'" "room n w'" "count w' b = 1" "handlers w' = handlers w"
proof -
  have no: "b \<notin> owners w" "users w b = {}"
  proof -
    show "b \<notin> owners w" using owner_alive [OF w(1), of b] b by blast
    have "count w b = 0" by (simp add: count_def b)
    then have "refs w b = 0" using w(1) by (simp add: consistent_def)
    then show "users w b = {}" using users_finite [of w b] w(1) by (auto simp: refs_def consistent_def)
  qed
  have c: "count w' = (count w)(b := 1)" and r: "refs w' = (refs w)(b := 1)"
    using no by (auto simp: fun_eq_iff w'_def MyBrowserObject_new_def count_def refs_def users_def put_browser_def)
  show "handlers w' = handlers w" "count w' b = 1" using c by (simp_all add: w'_def MyBrowserObject_new_def)
  have z: "no_zombie w'"
    using w c by (auto simp: no_zombie_def consistent_def w'_def MyBrowserObject_new_def)
  have d: "dom (browsers w') = insert b (dom (browsers w))" by (auto simp: w'_def MyBrowserObject_new_def)
  show "consistent w'"
    using w c r z d \<open>handlers w' = handlers w\<close> by (auto simp: consistent_def)
  have "card (dom (browsers w')) = Suc (card (dom (browsers w)))"
    using d b w by (auto simp: consistent_def card_insert_if domIff)
  then show "room n w'" using w \<open>handlers w' = handlers w\<close> by (simp add: room_def)
qed

lemma start_consistent:
  assumes w: "consistent w" "room 2 w" and en: "fresh_new en"
  shows "\<exists>r b w'. start_environment en create hw cb w = Some (r, b, w') \<and> consistent w' \<and>
    owners w' = insert b (owners w) \<and> b \<notin> owners w"
proof -
  let ?b = "new_address en w"
  have b: "browsers w ?b = None" using w en by (simp add: fresh_new_def room_def)
  have o: "?b \<notin> owners w"
    using b owner_alive [OF w(1), of ?b] by blast
  let ?w = "MyBrowserObject_new ?b hw cb (w\<lparr>owners := insert ?b (owners w)\<rparr>)"
  have w1: "consistent ?w" "room (Suc 0) ?w" "count ?w ?b = 1" "handlers ?w = handlers w"
    using new_browser_consistent [OF w(1) _ b, of 1 hw cb] w(2) by (simp_all add: numeral_2_eq_2)
  let ?q = "new_address en ?w"
  have q: "handlers ?w ?q = None" using w1(1,2) en by (simp add: fresh_new_def room_def)
  obtain r keeps where c: "create ?q = (r, keeps)" by fastforce
  have pos: "0 < count ?w ?b" using w1(3) by simp
  obtain w2 where w2: "MyCreateEnvironmentCompletedHandler_new ?q hw ?b ?w = Some w2" "consistent w2" "room 0 w2"
      and h2: "handlers w2 = (handlers ?w)(?q \<mapsto> \<lparr>vptr = MyCreateEnvironmentCompletedHandler, h_refCount = 1,
        h_hwnd = hw, pBrowserObject = ?b\<rparr>)"
    by (rule env.new_consistent [OF w1(1,2) q pos])
  have o2: "owners w2 = owners ?w"
    using w2(1) by (auto simp: MyCreateEnvironmentCompletedHandler_new_def MyBrowserObject_AddRef_def Let_def
        split: bind_splits)
  let ?g = "\<lparr>vptr = MyCreateEnvironmentCompletedHandler, h_refCount = 1, h_hwnd = hw, pBrowserObject = ?b\<rparr>"
  have g: "handlers w2 ?q = Some ?g" using h2 by simp
  obtain w3 g' where w3: "engine_keeps MyCreateEnvironmentCompletedHandler_AddRef keeps ?q w2 = Some w3"
      "consistent w3" "handlers w3 ?q = Some g'" "vptr g' = MyCreateEnvironmentCompletedHandler" "owners w3 = owners w2"
    using env.add_consistent [OF w2(2) g] w2(2) g by (cases keeps) (auto simp: engine_keeps_def)
  obtain m w4 where "MyCreateEnvironmentCompletedHandler_Release ?q w3 = Some (m, w4)" "consistent w4"
      "owners w4 = owners w3"
    by (rule env.rel_consistent [OF w3(2-4)])
  with c w2(1) w3 o2 o show ?thesis
    by (simp add: start_environment_def Let_def MyBrowserObject_new_def)
qed

section \<open>The system\<close>

text \<open>What can happen: the program starts and closes browsers; the engine counts, queries and runs the
  handlers it has.\<close>

datatype action =
    Start "uintptr \<Rightarrow> HRESULT \<times> bool" uintptr uintptr
  | CloseBrowser uintptr
  | HandlerAddRef uintptr
  | HandlerRelease uintptr
  | HandlerQuery guid uintptr
  | EnvironmentCompleted uintptr HRESULT uintptr
  | ControllerCompleted uintptr HRESULT uintptr
  | KeyPressed uintptr uintptr
  | MenuRequested uintptr uintptr
  | ContentLoaded uintptr
  | NavigationCompleted uintptr
  | ResourceRequested uintptr uintptr uintptr
  | WindowRequested uintptr uintptr

definition has_class :: "hworld \<Rightarrow> uintptr \<Rightarrow> handler_class \<Rightarrow> bool" where
  "has_class w p k \<longleftrightarrow> (case handlers w p of None \<Rightarrow> False | Some h \<Rightarrow> vptr h = k)"

text \<open>An action needs its references: the program closes a browser it owns, the engine uses handlers
  that exist, and passes objects with success. Counters have room.\<close>

fun enabled :: "hworld \<Rightarrow> action \<Rightarrow> bool" where
  "enabled w (Start c hw cb) \<longleftrightarrow> room 2 w"
| "enabled w (CloseBrowser b) \<longleftrightarrow> b \<in> owners w"
| "enabled w (HandlerAddRef p) \<longleftrightarrow> (case handlers w p of None \<Rightarrow> False | Some h \<Rightarrow> h_refCount h \<noteq> - 1)"
| "enabled w (HandlerRelease p) \<longleftrightarrow> handlers w p \<noteq> None"
| "enabled w (HandlerQuery i p) \<longleftrightarrow> (case handlers w p of None \<Rightarrow> False | Some h \<Rightarrow> h_refCount h \<noteq> - 1)"
| "enabled w (EnvironmentCompleted p hr e) \<longleftrightarrow>
     has_class w p MyCreateEnvironmentCompletedHandler \<and> (SUCCEEDED hr \<longrightarrow> e \<noteq> nullptr) \<and> room 1 w"
| "enabled w (ControllerCompleted p hr c) \<longleftrightarrow>
     has_class w p MyCreateControllerCompletedHandler \<and> (SUCCEEDED hr \<longrightarrow> c \<noteq> nullptr) \<and> room 6 w"
| "enabled w (KeyPressed p args) \<longleftrightarrow> has_class w p MyAcceleratorKeyPressedHandler \<and> room 0 w"
| "enabled w (MenuRequested p args) \<longleftrightarrow> has_class w p MyContextMenuRequestedEventHandler \<and> room 0 w"
| "enabled w (ContentLoaded p) \<longleftrightarrow> has_class w p MyDOMContentLoadedEventHandler \<and> room 0 w"
| "enabled w (NavigationCompleted p) \<longleftrightarrow> has_class w p MyNavigationCompletedEventHandler \<and> room 0 w"
| "enabled w (ResourceRequested p s args) \<longleftrightarrow> has_class w p MyCustomSchemeHandler \<and> room 0 w"
| "enabled w (WindowRequested p args) \<longleftrightarrow> has_class w p MyNewWindowRequestedHandler \<and> room 0 w"

fun perform :: "engine \<Rightarrow> action \<Rightarrow> hworld \<Rightarrow> hworld option" where
  "perform en (Start c hw cb) w = map_option (snd \<circ> snd) (start_environment en c hw cb w)"
| "perform en (CloseBrowser b) w = map_option snd (owner_close b w)"
| "perform en (HandlerAddRef p) w = do { h \<leftarrow> handlers w p; map_option snd (class_AddRef (vptr h) p w) }"
| "perform en (HandlerRelease p) w = do { h \<leftarrow> handlers w p; map_option snd (class_Release (vptr h) p w) }"
| "perform en (HandlerQuery i p) w =
     do { h \<leftarrow> handlers w p; map_option (snd \<circ> snd) (class_QueryInterface (vptr h) i p w) }"
| "perform en (EnvironmentCompleted p hr e) w = map_option snd (MyCreateEnvironmentCompletedHandler_Invoke en p hr e w)"
| "perform en (ControllerCompleted p hr c) w = map_option snd (MyCreateControllerCompletedHandler_Invoke en p hr c w)"
| "perform en (KeyPressed p args) w = map_option snd (MyAcceleratorKeyPressedHandler_Invoke en p args w)"
| "perform en (MenuRequested p args) w = map_option snd (MyContextMenuRequestedEventHandler_Invoke en p args w)"
| "perform en (ContentLoaded p) w = map_option snd (MyDOMContentLoadedEventHandler_Invoke en p w)"
| "perform en (NavigationCompleted p) w = map_option snd (MyNavigationCompletedEventHandler_Invoke en p w)"
| "perform en (ResourceRequested p s args) w = map_option snd (MyCustomSchemeHandler_Invoke en p s args w)"
| "perform en (WindowRequested p args) w = map_option snd (MyNewWindowRequestedHandler_Invoke en p args w)"

text \<open>The calls whose failure the code does not test: what an action needs of the engine to have a result.\<close>

fun provided :: "engine \<Rightarrow> action \<Rightarrow> bool" where
  "provided en (ControllerCompleted p hr c) \<longleftrightarrow> has_settings en (snd (get_CoreWebView2 en c))"
| "provided en (ResourceRequested p s args) \<longleftrightarrow> answers_request en s args"
| "provided en a \<longleftrightarrow> True"

text \<open>The engine may answer differently at each step. A run without a result has no next state.\<close>

inductive reachable :: "hworld \<Rightarrow> bool" where
  initial: "reachable \<lparr>browsers = Map.empty, trace = [], owners = {}, handlers = Map.empty, responses = []\<rparr>"
| step: "reachable w \<Longrightarrow> good_engine en \<Longrightarrow> enabled w a \<Longrightarrow> perform en a w = Some w' \<Longrightarrow> reachable w'"

inductive_cases reachableE: "reachable w"

lemma class_ops_safe:
  assumes w: "consistent w" "handlers w p = Some h"
  shows "\<exists>n w'. class_Release (vptr h) p w = Some (n, w') \<and> consistent w'"
    and "h_refCount h \<noteq> - 1 \<Longrightarrow> \<exists>n w'. class_AddRef (vptr h) p w = Some (n, w') \<and> consistent w'"
    and "h_refCount h \<noteq> - 1 \<Longrightarrow> \<exists>r q w'. class_QueryInterface (vptr h) i p w = Some (r, q, w') \<and> consistent w'"
proof -
  show "\<exists>n w'. class_Release (vptr h) p w = Some (n, w') \<and> consistent w'"
    using accel.rel_safe [OF w] menu.rel_safe [OF w] dom.rel_safe [OF w] nav.rel_safe [OF w]
      scheme.rel_safe [OF w] window.rel_safe [OF w] ctl.rel_safe [OF w] env.rel_safe [OF w]
    by (cases "vptr h") simp_all
  show add: "\<exists>n w'. class_AddRef (vptr h) p w = Some (n, w') \<and> consistent w'" if "h_refCount h \<noteq> - 1"
    using that accel.add_safe [OF w] menu.add_safe [OF w] dom.add_safe [OF w] nav.add_safe [OF w]
      scheme.add_safe [OF w] window.add_safe [OF w] ctl.add_safe [OF w] env.add_safe [OF w]
    by (cases "vptr h") simp_all
  show "\<exists>r q w'. class_QueryInterface (vptr h) i p w = Some (r, q, w') \<and> consistent w'" if "h_refCount h \<noteq> - 1"
    using add [OF that] w(1) by (cases "vptr h")
      (auto simp: accel.qi_eq menu.qi_eq dom.qi_eq nav.qi_eq scheme.qi_eq window.qi_eq ctl.qi_eq env.qi_eq)
qed

lemma runs_perform:
  "does_run ok n p h x \<Longrightarrow> survives ok consistent (map_option snd x)"
  by (auto simp: does_run_def survives_def running_def split: option.splits)

lemma has_classE:
  assumes "has_class w p k" "consistent w" "room n w"
  obtains h where "running n p h w" "vptr h = k"
  using assms by (auto simp: has_class_def running_def split: option.splits)

text \<open>One action, from any consistent state.\<close>

lemma perform_EnvironmentCompleted:
  assumes w: "consistent w" and en: "good_engine en" and a: "enabled w (EnvironmentCompleted p hr e)"
  shows "survives (provided en (EnvironmentCompleted p hr e)) consistent (perform en (EnvironmentCompleted p hr e) w)"
proof -
  from a have "has_class w p MyCreateEnvironmentCompletedHandler" "room 1 w" by simp_all
  then obtain h where h: "running 1 p h w" "vptr h = MyCreateEnvironmentCompletedHandler"
    using w by (auto elim: has_classE)
  show ?thesis
    unfolding perform.simps provided.simps by (rule runs_perform, rule environment_completed_runs) (use h en a in auto)
qed

lemma perform_ControllerCompleted:
  assumes w: "consistent w" and en: "good_engine en" and a: "enabled w (ControllerCompleted p hr c)"
  shows "survives (provided en (ControllerCompleted p hr c)) consistent (perform en (ControllerCompleted p hr c) w)"
proof -
  from a have "has_class w p MyCreateControllerCompletedHandler" "room 6 w" by simp_all
  then obtain h where h: "running 6 p h w" "vptr h = MyCreateControllerCompletedHandler"
    using w by (auto elim: has_classE)
  show ?thesis
    unfolding perform.simps provided.simps by (rule runs_perform, rule controller_completed_safe) (use h en a in auto)
qed

lemma perform_KeyPressed:
  assumes w: "consistent w" and en: "good_engine en" and a: "enabled w (KeyPressed p args)"
  shows "survives (provided en (KeyPressed p args)) consistent (perform en (KeyPressed p args) w)"
proof -
  from a have "has_class w p MyAcceleratorKeyPressedHandler" "room 0 w" by simp_all
  then obtain h where h: "running 0 p h w" "vptr h = MyAcceleratorKeyPressedHandler"
    using w by (auto elim: has_classE)
  show ?thesis
    unfolding perform.simps provided.simps by (rule runs_perform, rule notification_runs(4)) (use h en a in auto)
qed

lemma perform_MenuRequested:
  assumes w: "consistent w" and en: "good_engine en" and a: "enabled w (MenuRequested p args)"
  shows "survives (provided en (MenuRequested p args)) consistent (perform en (MenuRequested p args) w)"
proof -
  from a have "has_class w p MyContextMenuRequestedEventHandler" "room 0 w" by simp_all
  then obtain h where h: "running 0 p h w" "vptr h = MyContextMenuRequestedEventHandler"
    using w by (auto elim: has_classE)
  show ?thesis
    unfolding perform.simps provided.simps by (rule runs_perform, rule notification_runs(3)) (use h en a in auto)
qed

lemma perform_ContentLoaded:
  assumes w: "consistent w" and en: "good_engine en" and a: "enabled w (ContentLoaded p)"
  shows "survives (provided en (ContentLoaded p)) consistent (perform en (ContentLoaded p) w)"
proof -
  from a have "has_class w p MyDOMContentLoadedEventHandler" "room 0 w" by simp_all
  then obtain h where h: "running 0 p h w" "vptr h = MyDOMContentLoadedEventHandler"
    using w by (auto elim: has_classE)
  show ?thesis
    unfolding perform.simps provided.simps by (rule runs_perform, rule notification_runs(1)) (use h en a in auto)
qed

lemma perform_NavigationCompleted:
  assumes w: "consistent w" and en: "good_engine en" and a: "enabled w (NavigationCompleted p)"
  shows "survives (provided en (NavigationCompleted p)) consistent (perform en (NavigationCompleted p) w)"
proof -
  from a have "has_class w p MyNavigationCompletedEventHandler" "room 0 w" by simp_all
  then obtain h where h: "running 0 p h w" "vptr h = MyNavigationCompletedEventHandler"
    using w by (auto elim: has_classE)
  show ?thesis
    unfolding perform.simps provided.simps by (rule runs_perform, rule notification_runs(2)) (use h en a in auto)
qed

lemma perform_ResourceRequested:
  assumes w: "consistent w" and en: "good_engine en" and a: "enabled w (ResourceRequested p s args)"
  shows "survives (provided en (ResourceRequested p s args)) consistent (perform en (ResourceRequested p s args) w)"
proof -
  from a have "has_class w p MyCustomSchemeHandler" "room 0 w" by simp_all
  then obtain h where h: "running 0 p h w" "vptr h = MyCustomSchemeHandler"
    using w by (auto elim: has_classE)
  show ?thesis
    unfolding perform.simps provided.simps by (rule runs_perform, rule custom_scheme_runs) (use h en a in auto)
qed

lemma perform_WindowRequested:
  assumes w: "consistent w" and en: "good_engine en" and a: "enabled w (WindowRequested p args)"
  shows "survives (provided en (WindowRequested p args)) consistent (perform en (WindowRequested p args) w)"
proof -
  from a have "has_class w p MyNewWindowRequestedHandler" "room 0 w" by simp_all
  then obtain h where h: "running 0 p h w" "vptr h = MyNewWindowRequestedHandler"
    using w by (auto elim: has_classE)
  show ?thesis
    unfolding perform.simps provided.simps by (rule runs_perform, rule window_requested_runs) (use h en a in auto)
qed

lemmas perform_invoke = perform_EnvironmentCompleted perform_ControllerCompleted perform_KeyPressed perform_MenuRequested
  perform_ContentLoaded perform_NavigationCompleted perform_ResourceRequested perform_WindowRequested

lemma perform_safe:
  assumes w: "consistent w" and en: "good_engine en" and a: "enabled w a"
  shows "survives (provided en a) consistent (perform en a w)"
proof (cases a)
  case (Start c hw cb)
  with start_consistent [OF w _ good_engineD(1) [OF en]] a show ?thesis by (intro survivesI) (fastforce simp: comp_def)
next
  case (CloseBrowser b)
  with close_consistent [OF w, of b] a show ?thesis by (intro survivesI) (auto simp: comp_def, metis)
next
  case (HandlerAddRef p)
  with class_ops_safe(2) [OF w] a show ?thesis by (intro survivesI) (fastforce split: option.splits)
next
  case (HandlerRelease p)
  with class_ops_safe(1) [OF w] a show ?thesis by (intro survivesI) fastforce
next
  case (HandlerQuery i p)
  with class_ops_safe(3) [OF w] a show ?thesis by (intro survivesI) (fastforce split: option.splits)
qed (use perform_invoke [OF w en] a in blast)+

lemma initial_consistent:
  "consistent \<lparr>browsers = Map.empty, trace = [], owners = {}, handlers = Map.empty, responses = []\<rparr>"
  by (simp add: consistent_def no_zombie_def count_def refs_def users_def)

lemma reachable_consistent: "reachable w \<Longrightarrow> consistent w"
proof (induction rule: reachable.induct)
  case initial
  show ?case by (rule initial_consistent)
next
  case (step w en a w')
  with perform_safe [of w en a] show ?case by (simp add: survives_def)
qed

section \<open>A concrete engine\<close>

text \<open>An engine that satisfies the hypotheses: every call succeeds, every handler is kept, and
  \<^verbatim>\<open>new\<close> returns one of three addresses while they are free and then the least one not in
  use.\<close>

definition free_address :: "hworld \<Rightarrow> uintptr \<Rightarrow> bool" where
  "free_address w a \<longleftrightarrow> a \<noteq> nullptr \<and> handlers w a = None \<and> browsers w a = None"

definition sample_new :: "hworld \<Rightarrow> uintptr" where
  "sample_new w = (if free_address w 0x100 then 0x100 else if free_address w 0x200 then 0x200
     else if free_address w 0x300 then 0x300 else (LEAST a. free_address w a))"

definition sample_engine :: engine where
  "sample_engine = \<lparr>callback_result = \<lambda>t. 0, callback_closes = \<lambda>t. True,
     new_address = sample_new,
     get_CoreWebView2 = \<lambda>c. (S_OK, 0x30),
     wv_QueryInterface = \<lambda>v i. (S_OK, 0x40),
     AddWebResourceRequestedFilter = \<lambda>v. S_OK,
     add_WebResourceRequested = \<lambda>v h. (S_OK, True),
     add_DOMContentLoaded = \<lambda>v h. (S_OK, True),
     add_NavigationCompleted = \<lambda>v h. (S_OK, True),
     add_AcceleratorKeyPressed = \<lambda>v h. (S_OK, True),
     add_ContextMenuRequested = \<lambda>v h. (S_OK, True),
     add_NewWindowRequested = \<lambda>v h. (S_OK, True),
     CreateCoreWebView2Controller = \<lambda>e w h. (S_OK, True),
     get_Profile = \<lambda>v. (S_OK, Some 0x50),
     get_Settings = \<lambda>v. (S_OK, Some 0x60),
     get_KeyEventKind = \<lambda>a. (S_OK, 0),
     get_VirtualKey = \<lambda>a. (S_OK, 65),
     get_Request = \<lambda>a. (S_OK, 0x70),
     get_Uri = \<lambda>r. (S_OK, 0x80),
     get_Environment = \<lambda>v. (S_OK, 0x90),
     CreateWebResourceResponse = \<lambda>e s n h. (S_OK, 0xA0),
     SHCreateMemStream = \<lambda>d n. 0xB0,
     wide_string = \<lambda>p. suneidoPrefix @ [97],
     WideCharToMultiByte = \<lambda>u. map ucast u @ [0],
     suneidoAPP_result = \<lambda>s. (0xC0, 5)\<rparr>"

lemma free_address_exists:
  assumes "consistent w" "room 0 w"
  shows "\<exists>a. free_address w a"
proof -
  let ?A = "insert nullptr (dom (handlers w) \<union> dom (browsers w))"
  have fin: "finite (dom (handlers w))" "finite (dom (browsers w))" using assms(1) by (auto simp: consistent_def)
  have "card ?A \<le> Suc (card (dom (handlers w) \<union> dom (browsers w)))" by (rule card_insert_le_m1) auto
  also have "\<dots> \<le> Suc (card (dom (handlers w)) + card (dom (browsers w)))" using card_Un_le by (simp add: card_Un_le)
  also have "\<dots> < 2 ^ 64" using assms(2) by (simp add: room_def)
  also have "\<dots> = card (UNIV :: uintptr set)" by (simp add: card_word)
  finally have "?A \<noteq> UNIV" by auto
  then show ?thesis by (auto simp: free_address_def)
qed

lemma sample_engine_good: "good_engine sample_engine"
proof -
  have "free_address w (sample_new w)" if "consistent w" "room 0 w" for w
    using LeastI_ex [OF free_address_exists [OF that]] by (simp add: sample_new_def)
  then have "fresh_new sample_engine"
    by (auto simp: fresh_new_def sample_engine_def free_address_def)
  then show ?thesis
    by (simp add: good_engine_def sample_engine_def)
qed

abbreviation initial_world :: hworld where
  "initial_world \<equiv> \<lparr>browsers = Map.empty, trace = [], owners = {}, handlers = Map.empty, responses = []\<rparr>"

text \<open>The sample engine after a browser has been started and its environment created.\<close>

definition sample_world :: hworld where
  "sample_world = \<lparr>browsers = [0x100 \<mapsto> \<lparr>controller = 0, webview2 = 0, hwnd = 7, onCallBackFn = 9, refCount = 3\<rparr>],
     trace = [], owners = {0x100},
     handlers = [0x200 \<mapsto> \<lparr>vptr = MyCreateEnvironmentCompletedHandler, h_refCount = 1, h_hwnd = 7, pBrowserObject = 0x100\<rparr>,
                 0x300 \<mapsto> \<lparr>vptr = MyCreateControllerCompletedHandler, h_refCount = 1, h_hwnd = 7, pBrowserObject = 0x100\<rparr>],
     responses = []\<rparr>"

lemma sample_steps:
  "perform sample_engine (Start (\<lambda>q. (S_OK, True)) 7 9) initial_world = Some
    \<lparr>browsers = [0x100 \<mapsto> \<lparr>controller = 0, webview2 = 0, hwnd = 7, onCallBackFn = 9, refCount = 2\<rparr>],
     trace = [], owners = {0x100},
     handlers = [0x200 \<mapsto> \<lparr>vptr = MyCreateEnvironmentCompletedHandler, h_refCount = 1, h_hwnd = 7, pBrowserObject = 0x100\<rparr>],
     responses = []\<rparr>"
  "perform sample_engine (EnvironmentCompleted 0x200 S_OK 0x20)
    \<lparr>browsers = [0x100 \<mapsto> \<lparr>controller = 0, webview2 = 0, hwnd = 7, onCallBackFn = 9, refCount = 2\<rparr>],
     trace = [], owners = {0x100},
     handlers = [0x200 \<mapsto> \<lparr>vptr = MyCreateEnvironmentCompletedHandler, h_refCount = 1, h_hwnd = 7, pBrowserObject = 0x100\<rparr>],
     responses = []\<rparr> = Some sample_world"
  by (simp_all add: start_environment_def sample_engine_def sample_new_def free_address_def Let_def
      MyBrowserObject_new_def put_browser_def put_handler_def engine_keeps_def sample_world_def deref_def
      MyCreateEnvironmentCompletedHandler_new_def MyCreateEnvironmentCompletedHandler_AddRef_def
      MyCreateEnvironmentCompletedHandler_Release_def MyBrowserObject_AddRef_def the_handler_def
      MyCreateEnvironmentCompletedHandler_Invoke_def MyCreateControllerCompletedHandler_new_def
      MyCreateControllerCompletedHandler_AddRef_def MyCreateControllerCompletedHandler_Release_def
      S_OK_def FAILED_def)

lemma sample_world_reachable: "reachable sample_world"
proof -
  have e1: "enabled initial_world (Start (\<lambda>q. (S_OK, True)) 7 9)" by (simp add: room_def)
  note w1 = reachable.step [OF reachable.initial sample_engine_good e1 sample_steps(1)]
  show ?thesis
    by (rule reachable.step [OF w1 sample_engine_good _ sample_steps(2)]) (simp add: has_class_def room_def)
qed

section \<open>Properties\<close>

text \<open>C1: no use of a destroyed object. From every state that the program and the engine can reach, every action
  whose caller holds the reference it uses has a result, the handlers' code included: no call in it goes to a
  browser or handler that no longer exists, even when the program closes the browser inside a callback, and none
  goes through a null or unset pointer, whichever calls the engine lets fail, with two exceptions. A run of the
  controller-completed handler can go wrong only when \<^verbatim>\<open>get_Profile\<close> or \<^verbatim>\<open>get_Settings\<close> gives no object, and a resource
  request only when the address cannot be converted or \<^verbatim>\<open>CreateWebResourceResponse\<close> gives no object: these results the
  code does not test.\<close>

theorem session_safe:
  assumes "good_engine en" and "reachable w" and "enabled w a"
  shows "case perform en a w of
      Some w' \<Rightarrow> reachable w'
    | None \<Rightarrow> (case a of
          ControllerCompleted p hr c \<Rightarrow> \<not> has_settings en (snd (get_CoreWebView2 en c))
        | ResourceRequested p s args \<Rightarrow> \<not> answers_request en s args
        | _ \<Rightarrow> False)"
proof (cases "perform en a w")
  case None
  then have "\<not> provided en a"
    using perform_safe [OF reachable_consistent [OF assms(2)] assms(1,3)] by (simp add: survives_def)
  with None show ?thesis by (cases a) simp_all
qed (simp add: reachable.step [OF assms(2,1,3)])

theorem session_safe_witness:
  "\<exists>w'. perform sample_engine (ControllerCompleted 0x300 S_OK 0x20) sample_world = Some w' \<and> reachable w'"
proof -
  have "has_settings sample_engine v" for v by (simp add: has_settings_def stores_def sample_engine_def S_OK_def)
  moreover have "enabled sample_world (ControllerCompleted 0x300 S_OK 0x20)"
    by (simp add: has_class_def room_def sample_world_def)
  ultimately show ?thesis
    using session_safe [OF sample_engine_good sample_world_reachable, of "ControllerCompleted 0x300 S_OK 0x20"]
    by (cases "perform sample_engine (ControllerCompleted 0x300 S_OK 0x20) sample_world")
      (simp_all del: perform.simps enabled.simps)
qed

text \<open>C2: a browser object exists exactly as long as it is used: in every reachable state there is an
  object at \<open>b\<close> if and only if the program has not closed it or some handler reports to it, and its
  counter is the number of these references. So it is neither destroyed early nor leaked.\<close>

theorem browser_alive_iff_used:
  assumes "reachable w"
  shows "(browsers w b \<noteq> None \<longleftrightarrow>
      b \<in> owners w \<or> (\<exists>p h. handlers w p = Some h \<and> reports (vptr h) \<and> pBrowserObject h = b))
    \<and> (\<forall>x. browsers w b = Some x \<longrightarrow> unat (refCount x) = of_bool (b \<in> owners w) +
        card {p. \<exists>h. handlers w p = Some h \<and> reports (vptr h) \<and> pBrowserObject h = b})"
proof -
  have w: "consistent w" by (rule reachable_consistent [OF assms])
  have fin: "finite (users w b)" using users_finite w by (simp add: consistent_def)
  have c: "count w b = refs w b" and z: "browsers w b \<noteq> None \<Longrightarrow> 0 < count w b"
    using w by (auto simp: consistent_def no_zombie_def)
  have "browsers w b \<noteq> None \<longleftrightarrow> 0 < refs w b"
    using c z by (auto simp: count_def split: option.splits)
  also have "\<dots> \<longleftrightarrow> b \<in> owners w \<or> users w b \<noteq> {}" using fin by (auto simp: refs_def card_gt_0_iff)
  finally show ?thesis using c by (auto simp: users_def refs_def count_def)
qed

theorem browser_alive_iff_used_witness:
  "0x100 \<in> owners sample_world \<and>
   card {p. \<exists>h. handlers sample_world p = Some h \<and> reports (vptr h) \<and> pBrowserObject h = 0x100} = 2"
  using browser_alive_iff_used [OF sample_world_reachable, of "0x100"] by (simp add: sample_world_def)

text \<open>C3: how the creation of a browser ends. One run of the controller-completed handler, whichever of the engine's calls
  fail, returns \<^verbatim>\<open>S_OK\<close> and makes exactly one ready notification (none if the program has closed the browser). Stage
  \<^verbatim>\<open>FINISH\<close> means that the browser now has the controller and the view, with one new reference to each and no other
  change of any account; every other stage leaves all accounts as they were, unless it is
  \<^verbatim>\<open>ADD_CONTEXTMENU_HANDLER\<close> for want of the interface. The one exception is the defect of the tests around
  \<^verbatim>\<open>get_Profile\<close> and \<^verbatim>\<open>get_Settings\<close>: only if one of them gives no object can the run go through a null or unset pointer and
  not return, or finish with other accounts.\<close>

theorem controller_completed_ends:
  fixes en ctl
  defines "view \<equiv> snd (get_CoreWebView2 en ctl)"
  assumes "good_engine en" and "reachable w" and "enabled w (ControllerCompleted p result ctl)"
    and "handlers w p = Some h" and "browsers w (pBrowserObject h) = Some x"
  shows "case MyCreateControllerCompletedHandler_Invoke en p result ctl w of
      None \<Rightarrow> \<not> has_settings en view
    | Some (rtn, w') \<Rightarrow> rtn = S_OK \<and> (\<exists>s r x'.
        filter is_callback (trace w') = filter is_callback (trace w) @ ready (onCallBackFn x) s r \<and>
        browsers w' (pBrowserObject h) = Some x' \<and>
        (s = FINISH \<longrightarrow> controller x' = ctl \<and> webview2 x' = view \<and>
           (has_settings en view \<longrightarrow> (\<forall>q. held (trace w') q = held (trace w) q + one_on ctl q + one_on view q))) \<and>
        (s \<noteq> FINISH \<and> \<not> (s = ADD_CONTEXTMENU_HANDLER \<and> no_menu_interface en view) \<longrightarrow>
           (\<forall>q. held (trace w') q = held (trace w) q)))"
proof -
  have w: "consistent w" by (rule reachable_consistent [OF assms(3)])
  have r: "running 6 p h w" "vptr h = MyCreateControllerCompletedHandler" and ptr: "SUCCEEDED result \<Longrightarrow> ctl \<noteq> nullptr"
    using assms(4,5) w by (auto simp: running_def has_class_def)
  have s: "snapshot (pBrowserObject h) w =
      (held (trace w), filter is_callback (trace w), Some (onCallBackFn x, controller x, webview2 x))"
    using assms(6) by (simp add: snapshot_def)
  have run: "runs (has_settings en view) p h
      (outcome en (pBrowserObject h) ctl view (held (trace w)) (filter is_callback (trace w)) (onCallBackFn x))
      (MyCreateControllerCompletedHandler_Invoke en p result ctl w)"
    unfolding view_def by (rule controller_completed_runs [OF r assms(2) _ s]) (rule ptr)
  show ?thesis
  proof (cases "MyCreateControllerCompletedHandler_Invoke en p result ctl w")
    case None
    then show ?thesis using run by (simp add: runs_def)
  next
    case (Some res)
    then obtain w' where w': "res = (S_OK, w')"
        "outcome en (pBrowserObject h) ctl view (held (trace w)) (filter is_callback (trace w)) (onCallBackFn x) w'"
      using run by (cases res) (simp add: runs_def)
    from w'(2) obtain st hr f' c v K where
      sn: "snapshot (pBrowserObject h) w' =
        (K, filter is_callback (trace w) @ ready (onCallBackFn x) st hr, Some (f', c, v))"
      and K: "if st = FINISH
        then hr = result_code OK \<and> c = ctl \<and> v = view \<and>
          (has_settings en view \<longrightarrow> K = (\<lambda>q. held (trace w) q + one_on ctl q + one_on view q))
        else K = (\<lambda>q. held (trace w) q - (if st = ADD_CONTEXTMENU_HANDLER \<and> no_menu_interface en view
                    then one_on (snd (wv_QueryInterface en view IID_ICoreWebView2_2)) q else 0))"
      unfolding outcome_def by blast
    from sn obtain x' where x': "browsers w' (pBrowserObject h) = Some x'" "controller x' = c" "webview2 x' = v"
        "held (trace w') = K"
        "filter is_callback (trace w') = filter is_callback (trace w) @ ready (onCallBackFn x) st hr"
      by (auto simp: snapshot_def)
    show ?thesis
      unfolding Some w'(1) option.case prod.case
      by (intro conjI refl exI [of _ st] exI [of _ hr] exI [of _ x'])
        (use K x' in \<open>auto split: if_splits\<close>)
  qed
qed

theorem controller_completed_ends_witness:
  "\<exists>w' s r. MyCreateControllerCompletedHandler_Invoke sample_engine 0x300 S_OK 0x20 sample_world = Some (S_OK, w') \<and>
     filter is_callback (trace w') = ready 9 s r"
proof -
  have e: "enabled sample_world (ControllerCompleted 0x300 S_OK 0x20)"
    by (simp add: has_class_def room_def sample_world_def)
  have h: "handlers sample_world 0x300 =
      Some \<lparr>vptr = MyCreateControllerCompletedHandler, h_refCount = 1, h_hwnd = 7, pBrowserObject = 0x100\<rparr>"
    by (simp add: sample_world_def)
  have "has_settings sample_engine v" for v by (simp add: has_settings_def stores_def sample_engine_def S_OK_def)
  moreover have "browsers sample_world 0x100 = Some \<lparr>controller = 0, webview2 = 0, hwnd = 7, onCallBackFn = 9, refCount = 3\<rparr>"
    "trace sample_world = []" by (simp_all add: sample_world_def)
  ultimately show ?thesis
    using controller_completed_ends [OF sample_engine_good sample_world_reachable e h]
    by (fastforce split: option.splits)
qed

end
