(* ===== verification/HandlerProps.thy ===== *)
theory HandlerProps
  imports Session
begin

text \<open>
  What single handlers do: the answers to \<^verbatim>\<open>QueryInterface\<close>, the custom scheme handler's
  accounts and responses, the key and new-window handlers, and the exits of the controller-completed
  handler that do not keep the reference rules.
\<close>

section \<open>Lemmas\<close>

lemma trace_got [simp]:
  "trace (got_object hr x w) = trace w @ (if SUCCEEDED hr \<and> x \<noteq> nullptr then [Acquire x] else [])"
  "trace (got_string hr x w) = trace w @ (if SUCCEEDED hr \<and> x \<noteq> nullptr then [Alloc x 0] else [])"
  "responses (got_object hr x w) = responses w" "responses (got_string hr x w) = responses w"
  by (simp_all add: got_object_def got_string_def)

text \<open>The balance of a log on every object and block.\<close>

definition balanced :: "hworld \<Rightarrow> hworld \<Rightarrow> bool" where
  "balanced w w' \<longleftrightarrow> (\<forall>q. held (trace w') q = held (trace w) q \<and> allocated (trace w') q = allocated (trace w) q)"

text \<open>What an engine promises of \<^verbatim>\<open>CreateWebResourceResponse\<close>: an object comes with success only.\<close>

definition honest_responses :: "engine \<Rightarrow> bool" where
  "honest_responses en \<longleftrightarrow> (\<forall>e s n hs. FAILED (fst (CreateWebResourceResponse en e s n hs)) \<longrightarrow>
     snd (CreateWebResourceResponse en e s n hs) = nullptr)"

lemma respond_spec:
  assumes "respond en e args s st re hs w = Some w'" "honest_responses en"
  shows "balanced w w' \<and> responses w' = responses w @
    [\<lparr>r_args = args, r_status = st, r_reason = re, r_headers = hs, r_stream = s\<rparr>]"
proof -
  obtain hr x where x: "CreateWebResourceResponse en e s st hs = (hr, x)" by fastforce
  then have "SUCCEEDED hr" if "x \<noteq> nullptr"
    using assms(2) that unfolding honest_responses_def FAILED_iff_not_SUCCEEDED by (metis fst_conv snd_conv)
  with assms(1) x show ?thesis
    by (auto simp: respond_def deref_def Let_def balanced_def got_object_def split: if_splits)
qed

text \<open>A call that succeeds and stores an object.\<close>

definition gives :: "HRESULT \<times> uintptr \<Rightarrow> bool" where
  "gives r \<longleftrightarrow> SUCCEEDED (fst r) \<and> snd r \<noteq> nullptr"

text \<open>The response to a \<^verbatim>\<open>suneido:\<close> address, as a list.\<close>

definition served :: "engine \<Rightarrow> uintptr \<Rightarrow> uintptr \<Rightarrow> response list" where
  "served en args uri =
     (let c = ConvertWcharToChar (WideCharToMultiByte en) (Some (wide_string en uri));
          (data, sz) = suneidoAPP_result en c; stream = SHCreateMemStream en data sz in
      if sz = 0
      then [\<lparr>r_args = args, r_status = 204, r_reason = ''No Content'',
             r_headers = ''Content-Disposition: inline'' @ [CHR 0x0D, CHR 0x0A] @ ''Content-Length: 0'' @
                      [CHR 0x0D, CHR 0x0A] @ ''Content-Type: text/plain'', r_stream = nullptr\<rparr>]
      else if stream = nullptr then []
      else [\<lparr>r_args = args, r_status = 200, r_reason = ''OK'',
             r_headers = ''Content-Type: '' @ getContentTypeFromUri (c_string (the c)) @ [CHR 0x0D, CHR 0x0A] @
               ''Content-Length: '' @ to_wstring sz, r_stream = stream\<rparr>])"

lemma serve_spec:
  assumes s: "serve en e args uri w = Some w'" and en: "honest_responses en"
  shows "balanced w w'" and "responses w' = responses w @ served en args uri"
proof -
  let ?c = "ConvertWcharToChar (WideCharToMultiByte en) (Some (wide_string en uri))"
  obtain data sz where d: "suneidoAPP_result en ?c = (data, sz)" by fastforce
  note spec = respond_spec [OF _ en]
  show "balanced w w'" "responses w' = responses w @ served en args uri"
    using s d by (auto simp: serve_def served_def buildContentTypeHeader_def Let_def balanced_def
        dest!: spec split: bind_splits if_splits)
qed

section \<open>Concrete worlds\<close>

text \<open>A world with a custom scheme handler and a new-window handler.\<close>

definition scheme_world :: hworld where
  "scheme_world = \<lparr>browsers = Map.empty, trace = [], owners = {},
     handlers = [0x10 \<mapsto> \<lparr>vptr = MyCustomSchemeHandler, h_refCount = 1, h_hwnd = 0, pBrowserObject = 0\<rparr>,
                 0x11 \<mapsto> \<lparr>vptr = MyNewWindowRequestedHandler, h_refCount = 1, h_hwnd = 0, pBrowserObject = 0\<rparr>],
     responses = []\<rparr>"

text \<open>A world with a browser that has a callback and a handler of each kind that reports an event.\<close>

definition event_world :: hworld where
  "event_world = \<lparr>browsers = [0x100 \<mapsto> \<lparr>controller = 0, webview2 = 0, hwnd = 7, onCallBackFn = 9, refCount = 3\<rparr>],
     trace = [], owners = {},
     handlers = [0x10 \<mapsto> \<lparr>vptr = MyAcceleratorKeyPressedHandler, h_refCount = 1, h_hwnd = 0, pBrowserObject = 0x100\<rparr>,
                 0x11 \<mapsto> \<lparr>vptr = MyContextMenuRequestedEventHandler, h_refCount = 1, h_hwnd = 0, pBrowserObject = 0x100\<rparr>,
                 0x12 \<mapsto> \<lparr>vptr = MyNavigationCompletedEventHandler, h_refCount = 1, h_hwnd = 0, pBrowserObject = 0x100\<rparr>],
     responses = []\<rparr>"

text \<open>Two engines that keep no handler, so that \<^verbatim>\<open>new\<close> can use one address again and again: one is
  too old to have the context menu interface, the other declines the new-window handler.\<close>

definition old_engine :: engine where
  "old_engine = sample_engine\<lparr>callback_closes := \<lambda>t. False, new_address := \<lambda>w. 0x500,
     wv_QueryInterface := \<lambda>v i. if i = IID_ICoreWebView2_11 then (E_NOINTERFACE, 0) else (S_OK, 0x40),
     add_WebResourceRequested := \<lambda>v h. (S_OK, False), add_DOMContentLoaded := \<lambda>v h. (S_OK, False),
     add_NavigationCompleted := \<lambda>v h. (S_OK, False), add_AcceleratorKeyPressed := \<lambda>v h. (S_OK, False)\<rparr>"

definition declining_engine :: engine where
  "declining_engine = old_engine\<lparr>wv_QueryInterface := \<lambda>v i. (S_OK, 0x40),
     add_ContextMenuRequested := \<lambda>v h. (S_OK, False), add_NewWindowRequested := \<lambda>v h. (E_NOTIMPL, False)\<rparr>"

lemmas invoke_simps = MyCreateControllerCompletedHandler_Invoke_def RegisterCustomScheme_def add_load_listener_def
  add_navigation_listener_def add_accelerator_def add_context_menu_def finish_controller_def report_def
  prefer_light_def hide_status_bar_def succeeded_and_def onReady_def call_back_def SetController_def SetWebView2_def
  engine_keeps_def deref_def the_handler_def put_handler_def put_browser_def emit_def got_object_def Let_def
  MyCustomSchemeHandler_new_def MyCustomSchemeHandler_Release_def MyCustomSchemeHandler_delete_def
  MyDOMContentLoadedEventHandler_new_def MyDOMContentLoadedEventHandler_Release_def MyDOMContentLoadedEventHandler_delete_def
  MyNavigationCompletedEventHandler_new_def MyNavigationCompletedEventHandler_Release_def MyNavigationCompletedEventHandler_delete_def
  MyAcceleratorKeyPressedHandler_new_def MyAcceleratorKeyPressedHandler_Release_def MyAcceleratorKeyPressedHandler_delete_def
  MyContextMenuRequestedEventHandler_new_def MyContextMenuRequestedEventHandler_Release_def MyContextMenuRequestedEventHandler_delete_def
  MyNewWindowRequestedHandler_new_def
  MyBrowserObject_AddRef_def MyBrowserObject_Release_def reports_def

lemma sample_honest: "honest_responses sample_engine"
  by (simp add: honest_responses_def sample_engine_def)

lemma sample_sels:
  "get_Request sample_engine = (\<lambda>a. (S_OK, 0x70))" "get_Uri sample_engine = (\<lambda>a. (S_OK, 0x80))"
  "wv_QueryInterface sample_engine = (\<lambda>v i. (S_OK, 0x40))" "get_Environment sample_engine = (\<lambda>v. (S_OK, 0x90))"
  "wide_string sample_engine = (\<lambda>p. suneidoPrefix @ [97])" "SHCreateMemStream sample_engine = (\<lambda>d n. 0xB0)"
  "WideCharToMultiByte sample_engine = (\<lambda>u. map ucast u @ [0])" "suneidoAPP_result sample_engine = (\<lambda>s. (0xC0, 5))"
  "CreateWebResourceResponse sample_engine = (\<lambda>e s n h. (S_OK, 0xA0))"
  "get_KeyEventKind sample_engine = (\<lambda>a. (S_OK, 0))" "get_VirtualKey sample_engine = (\<lambda>a. (S_OK, 65))"
  "callback_result sample_engine = (\<lambda>t. 0)" "callback_closes sample_engine = (\<lambda>t. True)"
  by (simp_all add: sample_engine_def)

lemma SUCCEEDED_S_OK [simp]: "SUCCEEDED S_OK"
  by (simp add: S_OK_def)

lemma prefix_self: "has_suneidoPrefix (suneidoPrefix @ xs)"
  by (simp add: has_suneidoPrefix_def suneidoPrefix_def suneidoPrefixSize_def)

lemma sample_scheme_runs:
  "\<exists>w'. MyCustomSchemeHandler_Invoke sample_engine 0x10 0x30 0x20 scheme_world = Some (S_OK, w')"
  by (simp add: MyCustomSchemeHandler_Invoke_def scheme_world_def the_handler_def sample_sels Let_def prefix_self
      serve_def respond_def deref_def ConvertWcharToChar_def suneidoPrefix_def)

section \<open>Properties\<close>

text \<open>C16: the custom scheme handler gives back everything it obtains. On every path, the early
  returns included, each request, view, environment, stream and response reference, the URI string and
  the page buffer is returned exactly once.\<close>

theorem custom_scheme_balanced:
  assumes "MyCustomSchemeHandler_Invoke en p sender args w = Some (hr, w')" and "honest_responses en"
  shows "held (trace w') q = held (trace w) q \<and> allocated (trace w') q = allocated (trace w) q"
proof -
  note serve = serve_spec(1) [OF _ assms(2)]
  show ?thesis
    using assms(1) by (auto simp: MyCustomSchemeHandler_Invoke_def Let_def balanced_def FAILED_iff_not_SUCCEEDED
        dest!: serve split: bind_splits if_splits prod.splits)
qed


theorem custom_scheme_balanced_witness:
  "\<exists>w'. MyCustomSchemeHandler_Invoke sample_engine 0x10 0x30 0x20 scheme_world = Some (S_OK, w') \<and>
     held (trace w') 0x70 = 0 \<and> allocated (trace w') 0x80 = 0"
proof -
  obtain w' where w': "MyCustomSchemeHandler_Invoke sample_engine 0x10 0x30 0x20 scheme_world = Some (S_OK, w')"
    using sample_scheme_runs by blast
  from w' custom_scheme_balanced [OF w' sample_honest, of "0x70"] custom_scheme_balanced [OF w' sample_honest, of "0x80"]
  show ?thesis by (simp add: scheme_world_def)
qed

text \<open>C17: what a page gets. A run of the handler that returns has added to the responses, when the request's address
  starts with \<^verbatim>\<open>suneido:\<close>, one response: the program's bytes with their length and the content type of the address, or
  an empty 204 when the program has nothing, and none when the stream cannot be made. It has added nothing, and the request
  is left to the engine, when the address starts otherwise or when one of \<^verbatim>\<open>get_Request\<close>, \<^verbatim>\<open>get_Uri\<close>,
  \<^verbatim>\<open>QueryInterface\<close> and \<^verbatim>\<open>get_Environment\<close> gives no object; if none of those it needs fails, the result is
  \<^verbatim>\<open>S_OK\<close>. (An engine gives an object with \<^verbatim>\<open>CreateWebResourceResponse\<close> only on success.)\<close>

theorem custom_scheme_responds:
  assumes "MyCustomSchemeHandler_Invoke en p sender args w = Some (hr, w')" and "honest_responses en"
  shows "let request = get_Request en args; uri = get_Uri en (snd request);
             view = wv_QueryInterface en sender IID_ICoreWebView2_2; env = get_Environment en (snd view);
             ours = has_suneidoPrefix (wide_string en (snd uri))
         in responses w' = responses w @
              (if gives request \<and> gives uri \<and> ours \<and> gives view \<and> gives env then served en args (snd uri) else [])
            \<and> (gives request \<and> gives uri \<and> (ours \<longrightarrow> gives view \<and> gives env) \<longrightarrow> hr = S_OK)
            \<and> length (served en args (snd uri)) \<le> 1"
proof -
  note serve = serve_spec(2) [OF _ assms(2)]
  have "length (served en args uri) \<le> 1" for uri by (simp add: served_def Let_def split: prod.splits)
  then show ?thesis
    using assms(1)
    by (auto simp: MyCustomSchemeHandler_Invoke_def gives_def FAILED_iff_not_SUCCEEDED Let_def dest!: serve
        split: bind_splits if_splits prod.splits)
qed

theorem custom_scheme_responds_witness:
  "\<exists>w'. MyCustomSchemeHandler_Invoke sample_engine 0x10 0x30 0x20 scheme_world = Some (S_OK, w') \<and>
     responses w' = served sample_engine 0x20 0x80"
proof -
  obtain w' where w': "MyCustomSchemeHandler_Invoke sample_engine 0x10 0x30 0x20 scheme_world = Some (S_OK, w')"
    using sample_scheme_runs by blast
  from w' custom_scheme_responds [OF w' sample_honest]
  show ?thesis by (simp add: sample_sels prefix_self scheme_world_def gives_def S_OK_def)
qed

text \<open>Which windows may open. The handler marks the request handled exactly when the address starts
  with \<^verbatim>\<open>suneido:\<close>, and frees the address either way.\<close>

theorem new_window_blocked:
  assumes "MyNewWindowRequestedHandler_Invoke en p args w = Some (hr, w')" and "get_Uri en args = (S_OK, uri)"
    and "uri \<noteq> nullptr"
  shows "hr = S_OK \<and> trace w' = trace w @ [Alloc uri 0] @
    (if has_suneidoPrefix (wide_string en uri) then [Call ''put_Handled'' [args, 1]] else []) @ [Free uri]"
  using assms by (auto simp: MyNewWindowRequestedHandler_Invoke_def Let_def split: bind_splits if_splits)

theorem new_window_blocked_witness:
  "\<exists>w'. MyNewWindowRequestedHandler_Invoke sample_engine 0x11 0x20 scheme_world = Some (S_OK, w') \<and>
     trace w' = [Alloc 0x80 0, Call ''put_Handled'' [0x20, 1], Free 0x80]"
proof -
  obtain hr w' where w': "MyNewWindowRequestedHandler_Invoke sample_engine 0x11 0x20 scheme_world = Some (hr, w')"
    by (simp add: MyNewWindowRequestedHandler_Invoke_def scheme_world_def the_handler_def sample_sels Let_def)
  from w' new_window_blocked [OF w', of "0x80"] show ?thesis by (simp add: sample_sels prefix_self scheme_world_def)
qed

text \<open>Keys. Only key-down events are offered to the program, with the virtual key, and the engine
  is told that a key was handled exactly when the program said so; a failing argument call is passed on
  and nothing happens.\<close>

theorem key_offered:
  assumes "MyAcceleratorKeyPressedHandler_Invoke en p args w = Some (hr, w')" and "handlers w p = Some h"
    and "browsers w (pBrowserObject h) = Some x" and "onCallBackFn x \<noteq> nullptr" and "pBrowserObject h \<notin> owners w"
    and "get_KeyEventKind en args = (hr1, kind)" and "get_VirtualKey en args = (hr2, key)"
  shows "(FAILED hr1 \<longrightarrow> hr = hr1 \<and> w' = w) \<and>
    (SUCCEEDED hr1 \<and> kind \<noteq> 0 \<and> kind \<noteq> 2 \<longrightarrow> hr = S_OK \<and> w' = w) \<and>
    (SUCCEEDED hr1 \<and> (kind = 0 \<or> kind = 2) \<and> FAILED hr2 \<longrightarrow> hr = hr2 \<and> w' = w) \<and>
    (SUCCEEDED hr1 \<and> (kind = 0 \<or> kind = 2) \<and> SUCCEEDED hr2 \<longrightarrow> hr = S_OK \<and>
       trace w' = trace w @ callback_event ON_ACCEL_KEY_PRESSED (ucast key) 0 0 #
         (if callback_result en (trace w @ [callback_event ON_ACCEL_KEY_PRESSED (ucast key) 0 0]) \<noteq> 0
          then [Call ''put_Handled'' [args, 1]] else []))"
  using assms
  by (auto simp: MyAcceleratorKeyPressedHandler_Invoke_def onAccelPressed_def call_back_def callback_event_def
      Let_def FAILED_iff_not_SUCCEEDED split: bind_splits if_splits)

theorem key_offered_witness:
  "\<exists>w'. MyAcceleratorKeyPressedHandler_Invoke sample_engine 0x10 0x20 event_world = Some (S_OK, w') \<and>
     trace w' = [callback_event ON_ACCEL_KEY_PRESSED 65 0 0]"
proof -
  obtain hr w' where w': "MyAcceleratorKeyPressedHandler_Invoke sample_engine 0x10 0x20 event_world = Some (hr, w')"
    by (simp add: MyAcceleratorKeyPressedHandler_Invoke_def event_world_def the_handler_def sample_sels
        onAccelPressed_def call_back_def Let_def FAILED_iff_not_SUCCEEDED)
  from w' key_offered [OF w', of
      "\<lparr>vptr = MyAcceleratorKeyPressedHandler, h_refCount = 1, h_hwnd = 0, pBrowserObject = 0x100\<rparr>"]
  show ?thesis by (simp add: sample_sels event_world_def)
qed


text \<open>The answers to \<^verbatim>\<open>QueryInterface\<close>. For a live handler of any class but
  \<^verbatim>\<open>MyNavigationCompletedEventHandler\<close>, a query for \<^verbatim>\<open>IUnknown\<close> or for the interface the
  class implements returns the handler with one more reference, and any other query returns
  \<^verbatim>\<open>E_NOINTERFACE\<close> and null and changes nothing.\<close>

theorem handler_query:
  assumes "handlers w p = Some h" and "vptr h \<noteq> MyNavigationCompletedEventHandler"
  shows "class_QueryInterface (vptr h) i p w =
    (if i = IID_IUnknown \<or> i = interface_of (vptr h)
     then Some (S_OK, p, put_handler p (Some (h\<lparr>h_refCount := h_refCount h + 1\<rparr>)) w)
     else Some (E_NOINTERFACE, nullptr, w))"
  using assms by (cases "vptr h") (auto simp: accel.qi_eq menu.qi_eq dom.qi_eq scheme.qi_eq window.qi_eq ctl.qi_eq
      env.qi_eq accel.add_eq menu.add_eq dom.add_eq scheme.add_eq window.add_eq ctl.add_eq env.add_eq
      the_handler_def Let_def)

theorem handler_query_witness:
  "class_QueryInterface MyCustomSchemeHandler IID_ICoreWebView2 0x10 scheme_world = Some (E_NOINTERFACE, nullptr, scheme_world)"
  using handler_query [of scheme_world "0x10" "\<lparr>vptr = MyCustomSchemeHandler, h_refCount = 1, h_hwnd = 0, pBrowserObject = 0\<rparr>"
      IID_ICoreWebView2]
  by (simp add: scheme_world_def iid_defs sdk_iid_defs)

text \<open>The navigation-completed handler compares with the identifier of another interface: a query
  for the interface it implements fails, while a query for the DOM-content-loaded handler interface, which
  it does not implement, succeeds.\<close>

theorem navigation_query_mixed_up:
  assumes "handlers w p = Some h" and "vptr h = MyNavigationCompletedEventHandler"
  shows "MyNavigationCompletedEventHandler_QueryInterface IID_ICoreWebView2NavigationCompletedEventHandler p w =
      Some (E_NOINTERFACE, nullptr, w) \<and>
    (\<exists>w'. MyNavigationCompletedEventHandler_QueryInterface IID_ICoreWebView2DOMContentLoadedEventHandler p w =
      Some (S_OK, p, w'))"
proof -
  have "IID_ICoreWebView2NavigationCompletedEventHandler \<noteq> IID_ICoreWebView2DOMContentLoadedEventHandler"
    "IID_ICoreWebView2NavigationCompletedEventHandler \<noteq> IID_IUnknown" by (simp_all add: iid_defs sdk_iid_defs)
  with assms show ?thesis by (simp add: nav.qi_eq nav.add_eq the_handler_def Let_def)
qed

theorem navigation_query_mixed_up_witness:
  "MyNavigationCompletedEventHandler_QueryInterface IID_ICoreWebView2NavigationCompletedEventHandler 0x12 event_world =
     Some (E_NOINTERFACE, nullptr, event_world)"
  using navigation_query_mixed_up [of event_world "0x12"] by (simp add: event_world_def)

text \<open>The test around the profile cannot fail. Because the comparison with null is inside
  \<^verbatim>\<open>SUCCEEDED\<close>, the branch is taken whatever \<^verbatim>\<open>get_Profile\<close> returns; if the call fails and
  stores nothing, the code goes on through an indeterminate pointer, and through null if it stores null.\<close>

theorem profile_guard_void:
  assumes "wv_QueryInterface en wv IID_ICoreWebView2_13 = (S_OK, v)" and "v \<noteq> nullptr"
    and "get_Profile en v = (hr, q)" and "q = None \<or> q = Some nullptr"
  shows "prefer_light en wv w = None \<and> succeeded_and hr (Some z) = Some True"
  using assms by (auto simp: prefer_light_def succeeded_and_def deref_def Let_def)

theorem profile_guard_void_witness:
  "prefer_light (sample_engine\<lparr>get_Profile := \<lambda>v. (E_NOTIMPL, None)\<rparr>) 0x30 scheme_world = None"
  using profile_guard_void [of "sample_engine\<lparr>get_Profile := \<lambda>v. (E_NOTIMPL, None)\<rparr>" "0x30" "0x40" E_NOTIMPL None scheme_world 1]
  by (simp add: sample_sels)

text \<open>One exit gives back a reference it does not own. With a runtime that lacks the context menu
  interface, the second view interface, obtained once, is released twice.\<close>

theorem menu_exit_over_releases:
  "\<exists>w'. MyCreateControllerCompletedHandler_Invoke old_engine 0x300 S_OK 0x20 sample_world = Some (S_OK, w') \<and>
     held (trace w') 0x40 = - 1"
  by (simp add: old_engine_def sample_engine_def sample_world_def invoke_simps iid_defs)


text \<open>The new-window handler is never destroyed. Its creator's reference is not given back, so even
  when the engine declines the handler and keeps no reference, it stays behind with a count of one.\<close>

theorem new_window_handler_leaks:
  "\<exists>w'. MyCreateControllerCompletedHandler_Invoke declining_engine 0x300 S_OK 0x20 sample_world = Some (S_OK, w') \<and>
     handlers w' 0x500 = Some \<lparr>vptr = MyNewWindowRequestedHandler, h_refCount = 1, h_hwnd = 0, pBrowserObject = 0\<rparr>"
  by (simp add: declining_engine_def old_engine_def sample_engine_def sample_world_def invoke_simps iid_defs)

end
