(* ===== verification/PageRoutes.thy ===== *)
theory PageRoutes
  imports GoSide HandlerProps
begin

text \<open>
  The second route of a page, from the program to the WebView2 control: the custom scheme handler with the request to
  the program in place of its parameter. The first route, to the Internet Explorer control, ends in \<open>GoSide\<close>; both
  meet in \<^verbatim>\<open>suneidoAPP\<close>.
\<close>

text \<open>An engine whose page requests are those of \<open>GoSide\<close>, made in \<open>thread\<close> with the converted address at \<open>a\<close>.\<close>

definition with_pages ::
  "(byte list \<Rightarrow> byte list) \<Rightarrow> allocator \<Rightarrow> (uintptr \<Rightarrow> bool) \<Rightarrow> cside_state \<Rightarrow> 32 word \<Rightarrow> uintptr \<Rightarrow> cmem \<Rightarrow> engine \<Rightarrow> engine" where
  "with_pages SunAPP malloc delivers s thread a m en = en\<lparr>suneidoAPP_result :=
     (\<lambda>c. case page_request SunAPP malloc delivers s thread a c m of Some (d, n, _, _) \<Rightarrow> (d, n) | None \<Rightarrow> (nullptr, 0))\<rparr>"

lemma with_pages_sels [simp]:
  "get_Request (with_pages f mal d s t a m en) = get_Request en" "get_Uri (with_pages f mal d s t a m en) = get_Uri en"
  "wv_QueryInterface (with_pages f mal d s t a m en) = wv_QueryInterface en"
  "get_Environment (with_pages f mal d s t a m en) = get_Environment en"
  "wide_string (with_pages f mal d s t a m en) = wide_string en"
  "SHCreateMemStream (with_pages f mal d s t a m en) = SHCreateMemStream en"
  "WideCharToMultiByte (with_pages f mal d s t a m en) = WideCharToMultiByte en"
  "CreateWebResourceResponse (with_pages f mal d s t a m en) = CreateWebResourceResponse en"
  by (simp_all add: with_pages_def)

text \<open>What the converted address becomes when the page function answers.\<close>

lemma with_pages_result:
  assumes "page_request f mal d s t a c m = Some (data, n, threads, m')"
  shows "suneidoAPP_result (with_pages f mal d s t a m en) c = (data, n)"
  using assms by (simp add: with_pages_def)

section \<open>Properties\<close>

text \<open>C7: a page travels from the program to the WebView2 control unchanged. Whichever thread the engine calls the handler
  in, once the helper window exists and the engine answers, a request for a \<^verbatim>\<open>suneido:\<close> address is
  answered once with status 200: the program's page function is asked for exactly that address, once and in the
  main thread, the stream is made from a block that begins with the bytes it returned, and the headers carry their number
  and the content type of the address. The block is not the handler's copy of the address.\<close>

theorem page_to_view:
  fixes en :: engine and addr rest :: "byte list" and m :: cmem and SunAPP and malloc
  assumes "handlers w p = Some h" and "vptr h = MyCustomSchemeHandler"
    and "get_Request en args = (S_OK, rq)" and "rq \<noteq> nullptr" and "get_Uri en rq = (S_OK, uri)" and "uri \<noteq> nullptr"
    and "has_suneidoPrefix (wide_string en uri)"
    and "wv_QueryInterface en sender IID_ICoreWebView2_2 = (S_OK, v)" and "v \<noteq> nullptr"
    and "get_Environment en v = (S_OK, e)" and "e \<noteq> nullptr"
    and "WideCharToMultiByte en (wide_string en uri) = addr @ 0 # rest" and "0 \<notin> set addr"
    and "delivers (helperHwnd s)" and "a \<noteq> nullptr"
    and "malloc (m(a \<mapsto> addr @ 0 # rest)) (length (SunAPP addr) + 1) = data" and "data \<notin> insert a (dom m)"
    and "SunAPP addr \<noteq> []" and "length (SunAPP addr) < 2 ^ 32"
    and "SHCreateMemStream en data (of_nat (length (SunAPP addr))) = stream" and "stream \<noteq> nullptr"
    and "\<And>hs. CreateWebResourceResponse en e stream 200 hs = (S_OK, r)" and "r \<noteq> nullptr"
  shows "\<exists>w' m'. MyCustomSchemeHandler_Invoke (with_pages SunAPP malloc delivers s thread a m en) p sender args w = Some (S_OK, w') \<and>
    page_request SunAPP malloc delivers s thread a (Some (addr @ 0 # rest)) m =
      Some (data, of_nat (length (SunAPP addr)), [main_threadid s], m') \<and>
    (\<exists>block. m' data = Some block \<and> take (length (SunAPP addr)) block = SunAPP addr) \<and> m' a = m a \<and>
    responses w' = responses w @ [\<lparr>r_args = args, r_status = 200, r_reason = ''OK'',
      r_headers = ''Content-Type: '' @ getContentTypeFromUri (c_string (addr @ 0 # rest)) @ [CHR 0x0D, CHR 0x0A] @
        ''Content-Length: '' @ to_wstring (of_nat (length (SunAPP addr))), r_stream = stream\<rparr>]"
proof -
  let ?n = "of_nat (length (SunAPP addr)) :: 32 word"
  let ?m = "m(a \<mapsto> addr @ 0 # rest, data \<mapsto> SunAPP addr @ [0], a := m a)"
  have q: "page_request SunAPP malloc delivers s thread a (Some (addr @ 0 # rest)) m = Some (data, ?n, [main_threadid s], ?m)"
    using request_served(2) [where delivers = delivers and s = s and SunAPP = SunAPP and malloc = malloc and thread = thread
        and m = m and rest = rest, OF assms(14,15,13)] assms(16) by simp
  have "unat ?n = length (SunAPP addr)" using assms(19) by (simp add: unat_of_nat take_bit_nat_eq_self)
  with assms(18) have n: "?n \<noteq> 0" by (metis length_0_conv unat_0)
  have c: "ConvertWcharToChar (WideCharToMultiByte en) (Some (wide_string en uri)) = Some (addr @ 0 # rest)"
    using assms(12) by (simp add: ConvertWcharToChar_def)
  have "\<exists>w'. MyCustomSchemeHandler_Invoke (with_pages SunAPP malloc delivers s thread a m en) p sender args w = Some (S_OK, w') \<and>
    responses w' = responses w @ [\<lparr>r_args = args, r_status = 200, r_reason = ''OK'',
      r_headers = ''Content-Type: '' @ getContentTypeFromUri (c_string (addr @ 0 # rest)) @ [CHR 0x0D, CHR 0x0A] @
        ''Content-Length: '' @ to_wstring ?n, r_stream = stream\<rparr>]"
    using assms(1-11,20-23) n c
    by (simp add: MyCustomSchemeHandler_Invoke_def the_handler_def serve_def respond_def deref_def with_pages_result [OF q] buildContentTypeHeader_def Let_def)
  moreover have "?m data = Some (SunAPP addr @ [0])" "?m a = m a" using assms(17) by auto
  ultimately show ?thesis using q by (metis append_eq_conv_conj)
qed

theorem page_to_view_witness:
  "\<exists>w'. MyCustomSchemeHandler_Invoke (with_pages (\<lambda>u. u @ u) (\<lambda>m n. 0xC0) (\<lambda>h. h = 8)
       \<lparr>main_threadid = 1, helperHwnd = 8, hook_ptr = 3, setup_calls = []\<rparr> 4 0x50 Map.empty sample_engine) 0x10 0x30 0x20 scheme_world
     = Some (S_OK, w') \<and> length (responses w') = 1"
proof -
  let ?u = "map ucast (suneidoPrefix @ [97]) :: byte list"
  have z: "0 \<notin> set ?u" by (simp add: suneidoPrefix_def)
  have l: "length (?u @ ?u) < 2 ^ 32" "?u @ ?u \<noteq> []" by (simp_all add: suneidoPrefix_def)
  from page_to_view [of scheme_world "0x10" "\<lparr>vptr = MyCustomSchemeHandler, h_refCount = 1, h_hwnd = 0, pBrowserObject = 0\<rparr>"
      sample_engine "0x20" "0x70" "0x80" "0x30" "0x40" "0x90" ?u "[]" "\<lambda>h. h = 8"
      "\<lparr>main_threadid = 1, helperHwnd = 8, hook_ptr = 3, setup_calls = []\<rparr>" "0x50" "\<lambda>m n. 0xC0" Map.empty "\<lambda>u. u @ u" "0xC0"
      "0xB0" "0xA0" 4] z l
  show ?thesis by (auto simp: sample_sels scheme_world_def prefix_self)
qed

end
