(* ===== verification/SchemeReg.thy ===== *)
theory SchemeReg
  imports Helpers RefCount WebView2Abi "HOL-Library.Monad_Syntax"
begin

text \<open>
  \<^verbatim>\<open>builtin/goc/webview2/MyCoreWebView2CustomSchemeRegistration.h\<close>: the description of the
  \<^verbatim>\<open>suneido\<close> scheme that is handed to the engine. Registration objects, arrays of
  \<^verbatim>\<open>MyString\<close> from \<^verbatim>\<open>new[]\<close> and the strings of the task allocator are three stores; an operation
  on something that is not there has no result (\<open>None\<close>).
\<close>

section \<open>Data\<close>

record MyCoreWebView2CustomSchemeRegistration =
  r_refCount :: ULONG
  m_schemeName :: MyString
  m_TreatAsSecure :: "32 word"
  m_HasAuthorityComponent :: "32 word"
  m_allowedOrigins :: uintptr
  m_allowedOriginsCount :: "32 word"

record sworld =
  registrations :: "uintptr \<Rightarrow> MyCoreWebView2CustomSchemeRegistration option"
  arrays :: "uintptr \<Rightarrow> MyString list option"
  pointers :: "uintptr \<Rightarrow> uintptr list option"
  mem :: wmem

text \<open>The platform: the task allocator for strings and for arrays of pointers, \<^verbatim>\<open>new[]\<close> and
  \<^verbatim>\<open>GetLastError\<close>.\<close>

record platform =
  string_alloc :: "wmem \<Rightarrow> 64 word \<Rightarrow> uintptr"
  pointer_alloc :: "(uintptr \<Rightarrow> uintptr list option) \<Rightarrow> 64 word \<Rightarrow> uintptr"
  array_new :: "(uintptr \<Rightarrow> MyString list option) \<Rightarrow> uintptr"
  GetLastError :: "32 word"

definition put_registration ::
  "uintptr \<Rightarrow> MyCoreWebView2CustomSchemeRegistration option \<Rightarrow> 'a sworld_scheme \<Rightarrow> 'a sworld_scheme" where
  "put_registration p r w = w\<lparr>registrations := (registrations w)(p := r)\<rparr>"

section \<open>The array of allowed origins\<close>

text \<open>\<^verbatim>\<open>~MyString\<close> for each element.\<close>

primrec destroy_strings :: "MyString list \<Rightarrow> wmem \<Rightarrow> wmem" where
  "destroy_strings [] m = m"
| "destroy_strings (x # xs) m = destroy_strings xs (snd (MyString_Release x m))"

text \<open>\<^verbatim>\<open>delete[]\<close>: an array can be deleted once.\<close>

definition delete_array :: "uintptr \<Rightarrow> 'a sworld_scheme \<Rightarrow> 'a sworld_scheme option" where
  "delete_array a w =
     do { xs \<leftarrow> arrays w a;
          Some (w\<lparr>arrays := (arrays w)(a := None), mem := destroy_strings xs (mem w)\<rparr>) }"

definition ReleaseAllowedOrigins :: "uintptr \<Rightarrow> 'a sworld_scheme \<Rightarrow> 'a sworld_scheme option" where
  "ReleaseAllowedOrigins p w =
     do { r \<leftarrow> registrations w p;
          w \<leftarrow> (if m_allowedOrigins r \<noteq> nullptr
                then do { w \<leftarrow> delete_array (m_allowedOrigins r) w;
                          Some (put_registration p (Some (r\<lparr>m_allowedOrigins := nullptr\<rparr>)) w) }
                else Some w);
          r \<leftarrow> registrations w p;
          Some (put_registration p (Some (r\<lparr>m_allowedOriginsCount := 0\<rparr>)) w) }"

text \<open>The loop of \<^verbatim>\<open>SetAllowedOrigins\<close> over the strings not yet set: \<open>done\<close> are the elements already
  set. On failure the elements are the ones left by the clean-up.\<close>

fun set_origins ::
  "platform \<Rightarrow> MyString list \<Rightarrow> uintptr list \<Rightarrow> wmem \<Rightarrow> (bool \<times> MyString list \<times> wmem) option" where
  "set_origins pf done [] m = Some (True, done, m)"
| "set_origins pf done (s # ss) m =
     do { (p, x, m) \<leftarrow> MyString_Set (string_alloc pf) s MyString_new m;
          if MyString_Get x = nullptr
          then Some (False, map (\<lambda>y. y\<lparr>s_ptr := 0\<rparr>) done @ x # map (\<lambda>_. MyString_new) ss, destroy_strings done m)
          else set_origins pf (done @ [x]) ss m }"

text \<open>\<^verbatim>\<open>new[]\<close> does not return a null pointer (it throws), so the test for one after it never holds and has
  no branch here.\<close>

definition SetAllowedOrigins ::
  "platform \<Rightarrow> uintptr list \<Rightarrow> uintptr \<Rightarrow> 'a sworld_scheme \<Rightarrow> (HRESULT \<times> 'a sworld_scheme) option" where
  "SetAllowedOrigins pf origins p w =
     do { w \<leftarrow> ReleaseAllowedOrigins p w;
          if origins = [] then Some (S_OK, w)
          else do {
            r \<leftarrow> registrations w p;
            let a = array_new pf (arrays w);
            (ok, xs, m) \<leftarrow> set_origins pf [] origins (mem w);
            let w = put_registration p (Some (r\<lparr>m_allowedOrigins := a\<rparr>))
                      (w\<lparr>arrays := (arrays w)(a \<mapsto> xs), mem := m\<rparr>);
            if \<not> ok
            then do {
              r \<leftarrow> registrations w p;
              w \<leftarrow> delete_array a (put_registration p (Some (r\<lparr>m_allowedOriginsCount := 0\<rparr>)) w);
              Some (HRESULT_FROM_WIN32 (GetLastError pf), w) }
            else do {
              r \<leftarrow> registrations w p;
              Some (S_OK, put_registration p
                 (Some (r\<lparr>m_allowedOriginsCount := of_nat (length origins)\<rparr>)) w) } } }"

text \<open>The loop of \<^verbatim>\<open>GetAllowedOrigins\<close>: copies made so far, elements not yet copied.\<close>

fun copy_origins ::
  "platform \<Rightarrow> uintptr list \<Rightarrow> MyString list \<Rightarrow> wmem \<Rightarrow> (bool \<times> uintptr list \<times> wmem) option" where
  "copy_origins pf copies [] m = Some (True, copies, m)"
| "copy_origins pf copies (x # xs) m =
     do { (p, m) \<leftarrow> MyString_Copy (string_alloc pf) x m;
          if p = nullptr then Some (False, [], fold CoTaskMemFree copies m)
          else copy_origins pf (copies @ [p]) xs m }"

text \<open>\<open>out\<close> says whether both out-parameters are given. The result is the status, the count and the
  array pointer stored there.\<close>

definition GetAllowedOrigins ::
  "platform \<Rightarrow> bool \<Rightarrow> uintptr \<Rightarrow> 'a sworld_scheme
     \<Rightarrow> (HRESULT \<times> (32 word \<times> uintptr) option \<times> 'a sworld_scheme) option" where
  "GetAllowedOrigins pf out p w =
     (if \<not> out then Some (E_POINTER, None, w)
      else do {
        r \<leftarrow> registrations w p;
        if m_allowedOriginsCount r = 0 then Some (S_OK, Some (0, nullptr), w)
        else do {
          let a = pointer_alloc pf (pointers w) (ucast (m_allowedOriginsCount r) * 8);
          if a = nullptr then Some (HRESULT_FROM_WIN32 (GetLastError pf), Some (0, nullptr), w)
          else do {
            xs \<leftarrow> arrays w (m_allowedOrigins r);
            (ok, copies, m) \<leftarrow> copy_origins pf [] (take (unat (m_allowedOriginsCount r)) xs) (mem w);
            if \<not> ok then Some (HRESULT_FROM_WIN32 (GetLastError pf), Some (0, a), w\<lparr>mem := m\<rparr>)
            else Some (S_OK, Some (m_allowedOriginsCount r, a),
                       w\<lparr>pointers := (pointers w)(a \<mapsto> copies), mem := m\<rparr>) } } })"

section \<open>Life\<close>

definition Registration_new ::
  "platform \<Rightarrow> uintptr \<Rightarrow> wchar list \<Rightarrow> 'a sworld_scheme \<Rightarrow> 'a sworld_scheme" where
  "Registration_new pf p schemeName w =
     (let (s, m) = MakeString (string_alloc pf) schemeName (mem w) in
      put_registration p (Some \<lparr>r_refCount = 1, m_schemeName = \<lparr>s_ptr = s\<rparr>, m_TreatAsSecure = 0,
        m_HasAuthorityComponent = 0, m_allowedOrigins = nullptr, m_allowedOriginsCount = 0\<rparr>) (w\<lparr>mem := m\<rparr>))"

definition Registration_delete :: "uintptr \<Rightarrow> 'a sworld_scheme \<Rightarrow> 'a sworld_scheme option" where
  "Registration_delete p w =
     do { w \<leftarrow> ReleaseAllowedOrigins p w;
          r \<leftarrow> registrations w p;
          Some (put_registration p None (w\<lparr>mem := snd (MyString_Release (m_schemeName r) (mem w))\<rparr>)) }"

definition Registration_AddRef :: "uintptr \<Rightarrow> 'a sworld_scheme \<Rightarrow> (ULONG \<times> 'a sworld_scheme) option" where
  "Registration_AddRef p w =
     do { r \<leftarrow> registrations w p;
          let n = r_refCount r + 1;
          Some (n, put_registration p (Some (r\<lparr>r_refCount := n\<rparr>)) w) }"

definition Registration_Release :: "uintptr \<Rightarrow> 'a sworld_scheme \<Rightarrow> (ULONG \<times> 'a sworld_scheme) option" where
  "Registration_Release p w =
     do { r \<leftarrow> registrations w p;
          let n = r_refCount r - 1;
          let w = put_registration p (Some (r\<lparr>r_refCount := n\<rparr>)) w;
          if n = 0 then do { w \<leftarrow> Registration_delete p w; Some (n, w) } else Some (n, w) }"

definition Registration_QueryInterface ::
  "guid \<Rightarrow> bool \<Rightarrow> uintptr \<Rightarrow> 'a sworld_scheme \<Rightarrow> (HRESULT \<times> uintptr option \<times> 'a sworld_scheme) option" where
  "Registration_QueryInterface riid out p w =
     (if \<not> out then Some (E_POINTER, None, w)
      else if riid = IID_IUnknown then do { (_, w) \<leftarrow> Registration_AddRef p w; Some (S_OK, Some p, w) }
      else if riid = IID_ICoreWebView2CustomSchemeRegistration
        then do { (_, w) \<leftarrow> Registration_AddRef p w; Some (S_OK, Some p, w) }
      else Some (E_NOINTERFACE, Some nullptr, w))"

section \<open>Scalar properties\<close>

definition get_SchemeName ::
  "platform \<Rightarrow> bool \<Rightarrow> uintptr \<Rightarrow> 'a sworld_scheme \<Rightarrow> (HRESULT \<times> uintptr option \<times> 'a sworld_scheme) option" where
  "get_SchemeName pf out p w =
     (if \<not> out then Some (E_POINTER, None, w)
      else do {
        r \<leftarrow> registrations w p;
        (s, m) \<leftarrow> MyString_Copy (string_alloc pf) (m_schemeName r) (mem w);
        let w = w\<lparr>mem := m\<rparr>;
        if s = nullptr \<and> MyString_Get (m_schemeName r) \<noteq> nullptr
        then Some (HRESULT_FROM_WIN32 (GetLastError pf), Some s, w)
        else Some (S_OK, Some s, w) })"

definition get_TreatAsSecure :: "bool \<Rightarrow> MyCoreWebView2CustomSchemeRegistration \<Rightarrow> HRESULT \<times> 32 word option" where
  "get_TreatAsSecure out r = (if \<not> out then (E_POINTER, None) else (S_OK, Some (m_TreatAsSecure r)))"

definition put_TreatAsSecure ::
  "32 word \<Rightarrow> MyCoreWebView2CustomSchemeRegistration \<Rightarrow> HRESULT \<times> MyCoreWebView2CustomSchemeRegistration" where
  "put_TreatAsSecure v r = (S_OK, r\<lparr>m_TreatAsSecure := v\<rparr>)"

definition get_HasAuthorityComponent :: "bool \<Rightarrow> MyCoreWebView2CustomSchemeRegistration \<Rightarrow> HRESULT \<times> 32 word option" where
  "get_HasAuthorityComponent out r =
     (if \<not> out then (E_POINTER, None) else (S_OK, Some (m_HasAuthorityComponent r)))"

definition put_HasAuthorityComponent ::
  "32 word \<Rightarrow> MyCoreWebView2CustomSchemeRegistration \<Rightarrow> HRESULT \<times> MyCoreWebView2CustomSchemeRegistration" where
  "put_HasAuthorityComponent v r = (S_OK, r\<lparr>m_HasAuthorityComponent := v\<rparr>)"

text \<open>The contract of a \<^verbatim>\<open>BOOL\<close> property, shared by this class and the environment options.\<close>

locale bool_property =
  fixes get :: "bool \<Rightarrow> 'o \<Rightarrow> HRESULT \<times> 32 word option"
    and put :: "32 word \<Rightarrow> 'o \<Rightarrow> HRESULT \<times> 'o"
    and fld :: "'o \<Rightarrow> 32 word"
  assumes get_eq: "get out x = (if \<not> out then (E_POINTER, None) else (S_OK, Some (fld x)))"
    and put_fld: "fld (snd (put v x)) = v"
    and put_ok: "fst (put v x) = S_OK"
begin

lemma get_put: "get True (snd (put v x)) = (S_OK, Some v)"
  by (simp add: get_eq put_fld)

lemma get_null: "get False x = (E_POINTER, None)"
  by (simp add: get_eq)

end

interpretation TreatAsSecure: bool_property get_TreatAsSecure put_TreatAsSecure m_TreatAsSecure
  by unfold_locales (simp_all add: get_TreatAsSecure_def put_TreatAsSecure_def)

interpretation HasAuthorityComponent: bool_property get_HasAuthorityComponent put_HasAuthorityComponent
  m_HasAuthorityComponent
  by unfold_locales (simp_all add: get_HasAuthorityComponent_def put_HasAuthorityComponent_def)

section \<open>Lemmas\<close>

lemma put_registration_sels [simp]:
  "registrations (put_registration p r w) = (registrations w)(p := r)"
  "arrays (put_registration p r w) = arrays w" "pointers (put_registration p r w) = pointers w"
  "mem (put_registration p r w) = mem w"
  by (simp_all add: put_registration_def)

text \<open>What a registration needs to be destroyed: its array, if it has one, exists.\<close>

definition origins_ok :: "'a sworld_scheme \<Rightarrow> uintptr \<Rightarrow> bool" where
  "origins_ok w p \<longleftrightarrow> (\<forall>r. registrations w p = Some r \<longrightarrow> m_allowedOrigins r \<noteq> nullptr \<longrightarrow>
     arrays w (m_allowedOrigins r) \<noteq> None)"

lemma ReleaseAllowedOrigins_live:
  assumes "registrations w p = Some r" "origins_ok w p"
  shows "\<exists>w'. ReleaseAllowedOrigins p w = Some w' \<and>
    registrations w' = (registrations w)(p \<mapsto> r\<lparr>m_allowedOrigins := nullptr, m_allowedOriginsCount := 0\<rparr>)"
  using assms by (cases "m_allowedOrigins r = nullptr")
    (auto simp: ReleaseAllowedOrigins_def delete_array_def origins_ok_def fun_eq_iff)

lemma ReleaseAllowedOrigins_dangling:
  assumes "registrations w p = Some r" "m_allowedOrigins r \<noteq> nullptr" "arrays w (m_allowedOrigins r) = None"
  shows "ReleaseAllowedOrigins p w = None"
  using assms by (simp add: ReleaseAllowedOrigins_def delete_array_def)

lemma Registration_delete_live:
  assumes "registrations w p = Some r" "origins_ok w p"
  shows "\<exists>w'. Registration_delete p w = Some w' \<and> registrations w' = (registrations w)(p := None)"
  using ReleaseAllowedOrigins_live [OF assms] by (auto simp: Registration_delete_def)

interpretation registration: com_object "\<lambda>w p. map_option r_refCount (registrations w p)" origins_ok
  Registration_AddRef Registration_Release "{IID_IUnknown, IID_ICoreWebView2CustomSchemeRegistration}"
  "\<lambda>i p w. map_option (\<lambda>(hr, q, w). (hr, the q, w)) (Registration_QueryInterface i True p w)"
proof
  fix w :: "'a sworld_scheme" and p c
  assume "map_option r_refCount (registrations w p) = Some c"
  then obtain r where r: "registrations w p = Some r" "r_refCount r = c" by auto
  show "\<exists>w'. Registration_AddRef p w = Some (c + 1, w') \<and>
      map_option r_refCount (registrations w' p) = Some (c + 1) \<and> origins_ok w' p" if "origins_ok w p"
    using r that by (simp add: Registration_AddRef_def origins_ok_def Let_def)
  show "\<exists>w'. Registration_Release p w = Some (c - 1, w') \<and>
      map_option r_refCount (registrations w' p) = Some (c - 1) \<and> origins_ok w' p" if "origins_ok w p" "c \<noteq> 1"
    using r that by (simp add: Registration_Release_def origins_ok_def Let_def)
next
  fix w :: "'a sworld_scheme" and p
  assume "map_option r_refCount (registrations w p) = Some 1" and ok: "origins_ok w p"
  then obtain r where r: "registrations w p = Some r" "r_refCount r = 1" by auto
  let ?w = "put_registration p (Some (r\<lparr>r_refCount := 0\<rparr>)) w"
  have "registrations ?w p = Some (r\<lparr>r_refCount := 0\<rparr>)" "origins_ok ?w p" using r ok by (simp_all add: origins_ok_def)
  from Registration_delete_live [OF this] r
  show "\<exists>w'. Registration_Release p w = Some (0, w') \<and> map_option r_refCount (registrations w' p) = None"
    by (auto simp: Registration_Release_def Let_def)
next
  fix i and w :: "'a sworld_scheme" and p c
  assume "map_option r_refCount (registrations w p) = Some c"
  then obtain n w' where a: "Registration_AddRef p w = Some (n, w')" by (auto simp: Registration_AddRef_def Let_def)
  show "map_option (\<lambda>(hr, q, w). (hr, the q, w)) (Registration_QueryInterface i True p w) =
      (case Registration_AddRef p w of None \<Rightarrow> None | Some (n, w') \<Rightarrow> Some (S_OK, p, w'))"
    if "i \<in> {IID_IUnknown, IID_ICoreWebView2CustomSchemeRegistration}"
    using that a by (auto simp: Registration_QueryInterface_def)
  show "map_option (\<lambda>(hr, q, w). (hr, the q, w)) (Registration_QueryInterface i True p w) = Some (E_NOINTERFACE, 0, w)"
    if "i \<notin> {IID_IUnknown, IID_ICoreWebView2CustomSchemeRegistration}"
    using that by (simp add: Registration_QueryInterface_def)
qed (auto simp: Registration_AddRef_def Registration_Release_def)

subsection \<open>The two loops\<close>

lemma destroy_strings_upd:
  "destroy_strings xs (m(p := None)) = (destroy_strings xs m)(p := None)"
proof (induction xs arbitrary: m)
  case (Cons x xs)
  have "snd (MyString_Release x (m(p := None))) = (snd (MyString_Release x m))(p := None)"
    by (auto simp: MyString_Release_def CoTaskMemFree_def fun_upd_twist)
  with Cons.IH [of "snd (MyString_Release x m)"] show ?case by (simp del: fun_upd_apply)
qed simp

lemma set_fresh:
  assumes "MyString_Set alloc s MyString_new m = Some (p, x, m')" "s_ptr x \<noteq> 0" "fresh_alloc alloc"
  obtains src where "m s = Some src" "m (s_ptr x) = None" "m' = m(s_ptr x \<mapsto> src)" "s \<noteq> nullptr"
proof -
  have s: "s \<noteq> nullptr" using assms by (auto simp: MyString_Set_def MyString_Release_def MyString_new_def)
  then obtain src where src: "m s = Some src" "MakeString alloc src m = (p, m')" "s_ptr x = p"
    using assms(1) by (auto simp: MyString_Set_def MyString_Release_def MyString_new_def split: option.splits prod.splits)
  with MakeString_block [OF src(2)] assms(2) have b: "m' = m(p \<mapsto> src)"
    "alloc m (string_bytes (of_nat (length src))) = p" by auto
  with assms(2,3) src have "m p = None" unfolding fresh_alloc_def by metis
  with that [of src] src b s show thesis by simp
qed

text \<open>A successful loop adds one block per source and nothing else, and destroying the elements undoes
  it.\<close>

lemma set_origins_ok:
  assumes "set_origins pf xs0 ss m = Some (True, xs, m')" "fresh_alloc (string_alloc pf)" "\<forall>t \<in> set ss. m t \<noteq> None"
  shows "\<exists>ys. xs = xs0 @ ys \<and> map (\<lambda>y. m' (s_ptr y)) ys = map m ss \<and> (\<forall>y \<in> set ys. s_ptr y \<noteq> 0) \<and>
    (\<forall>q. m q \<noteq> None \<longrightarrow> m' q = m q) \<and> destroy_strings ys m' = m"
  using assms
proof (induction ss arbitrary: xs0 m)
  case (Cons s ss)
  then obtain p x m1 where set: "MyString_Set (string_alloc pf) s MyString_new m = Some (p, x, m1)" "s_ptr x \<noteq> 0"
    and rest: "set_origins pf (xs0 @ [x]) ss m1 = Some (True, xs, m')"
    by (auto simp: MyString_Get_def split: bind_splits if_splits)
  obtain src where src: "m s = Some src" "m (s_ptr x) = None" "m1 = m(s_ptr x \<mapsto> src)"
    by (rule set_fresh [OF set Cons.prems(2)])
  then have keep: "m q \<noteq> None \<Longrightarrow> m1 q = m q" for q by auto
  have live: "\<forall>t \<in> set ss. m1 t \<noteq> None" and same: "map m1 ss = map m ss" using Cons.prems(3) keep by auto
  from Cons.IH [OF rest Cons.prems(2) live] obtain ys where ys: "xs = (xs0 @ [x]) @ ys"
    "map (\<lambda>y. m' (s_ptr y)) ys = map m1 ss" "\<forall>y \<in> set ys. s_ptr y \<noteq> 0" "\<forall>q. m1 q \<noteq> None \<longrightarrow> m' q = m1 q"
    "destroy_strings ys m' = m1" by blast
  have "destroy_strings (x # ys) m' = m"
    using set(2) ys(5) src
    by (simp add: MyString_Release_def CoTaskMemFree_def destroy_strings_upd fun_upd_idem del: fun_upd_apply)
  moreover have "m' (s_ptr x) = m s" using ys(4) src by simp
  moreover have "\<forall>q. m q \<noteq> None \<longrightarrow> m' q = m q" using ys(4) keep by metis
  ultimately show ?case
    using ys same set(2) by (intro exI [of _ "x # ys"]) simp
qed simp

lemma copy_origins_ok:
  assumes "copy_origins pf ps0 xs m = Some (True, ps, m')" "fresh_alloc (string_alloc pf)"
    and "\<forall>x \<in> set xs. s_ptr x \<noteq> 0 \<and> m (s_ptr x) \<noteq> None"
  shows "\<exists>qs. ps = ps0 @ qs \<and> map m' qs = map (\<lambda>x. m (s_ptr x)) xs \<and> (\<forall>q. m q \<noteq> None \<longrightarrow> m' q = m q)
    \<and> distinct qs \<and> (\<forall>q \<in> set qs. q \<noteq> nullptr \<and> m q = None)"
  using assms
proof (induction xs arbitrary: ps0 m)
  case (Cons x xs)
  then obtain p m1 where copy: "MyString_Copy (string_alloc pf) x m = Some (p, m1)" "p \<noteq> nullptr"
    and rest: "copy_origins pf (ps0 @ [p]) xs m1 = Some (True, ps, m')"
    by (auto split: bind_splits if_splits)
  then obtain src where src: "m (s_ptr x) = Some src" "MakeString (string_alloc pf) src m = (p, m1)"
    using Cons.prems(3) by (auto simp: MyString_Copy_def split: option.splits)
  have b: "m1 = m(p \<mapsto> src)" "m p = None"
    using MakeString_block [OF src(2) copy(2)] Cons.prems(2) copy(2) by (auto simp: fresh_alloc_def)
  then have keep: "m q \<noteq> None \<Longrightarrow> m1 q = m q" for q by auto
  have live: "\<forall>y \<in> set xs. s_ptr y \<noteq> 0 \<and> m1 (s_ptr y) \<noteq> None"
    and same: "map (\<lambda>y. m1 (s_ptr y)) xs = map (\<lambda>y. m (s_ptr y)) xs"
    using Cons.prems(3) keep by auto
  from Cons.IH [OF rest Cons.prems(2) live] obtain qs where qs: "ps = (ps0 @ [p]) @ qs"
    "map m' qs = map (\<lambda>y. m1 (s_ptr y)) xs" "\<forall>q. m1 q \<noteq> None \<longrightarrow> m' q = m1 q"
    "distinct qs" "\<forall>q \<in> set qs. q \<noteq> nullptr \<and> m1 q = None" by blast
  have "m' p = m (s_ptr x)" using qs(3) b src by simp
  moreover have "\<forall>q. m q \<noteq> None \<longrightarrow> m' q = m q" using qs(3) keep by metis
  moreover have "p \<notin> set qs" "\<forall>q \<in> set qs. m q = None" using qs(5) b keep by (auto split: if_splits)
  ultimately show ?case using qs same b(2) copy(2) by (intro exI [of _ "p # qs"]) simp
qed simp

text \<open>Where a successful \<^verbatim>\<open>SetAllowedOrigins\<close> leaves the object and the memory.\<close>

lemma SetAllowedOrigins_ok:
  assumes set: "SetAllowedOrigins pf origins p w = Some (S_OK, w')" and err: "HRESULT_FROM_WIN32 (GetLastError pf) \<noteq> S_OK"
    and w0: "ReleaseAllowedOrigins p w = Some w0" and ne: "origins \<noteq> []"
  obtains r xs m where "set_origins pf [] origins (mem w0) = Some (True, xs, m)" "mem w' = m"
    "arrays w' = (arrays w0)(array_new pf (arrays w0) \<mapsto> xs)" "pointers w' = pointers w0"
    "registrations w' p = Some (r\<lparr>m_allowedOrigins := array_new pf (arrays w0),
       m_allowedOriginsCount := of_nat (length origins)\<rparr>)"
  using assms by (auto simp: SetAllowedOrigins_def Let_def delete_array_def split: bind_splits if_splits)

lemma destroy_strings_le: "destroy_strings xs m t \<noteq> None \<Longrightarrow> destroy_strings xs m t = m t"
proof (induction xs arbitrary: m)
  case (Cons x xs)
  then show ?case
    by (fastforce simp: MyString_Release_def CoTaskMemFree_def split: if_splits)
qed simp

text \<open>Giving the old origins back leaves the strings that are not among them, and no origin.\<close>

lemma ReleaseAllowedOrigins_mem:
  assumes "ReleaseAllowedOrigins p w = Some w0"
  shows "mem w0 t \<noteq> None \<Longrightarrow> mem w0 t = mem w t"
    and "\<exists>r. registrations w0 p = Some r \<and> m_allowedOriginsCount r = 0"
proof -
  consider (none) "mem w0 = mem w" | (array) xs where "mem w0 = destroy_strings xs (mem w)"
    using assms by (auto simp: ReleaseAllowedOrigins_def delete_array_def split: bind_splits if_splits)
  then show "mem w0 t = mem w t" if "mem w0 t \<noteq> None"
  proof cases
    case none
    then show ?thesis by simp
  next
    case (array xs)
    with that have "destroy_strings xs (mem w) t \<noteq> None" by (simp only: not_False_eq_True)
    from destroy_strings_le [OF this] array show ?thesis by simp
  qed
  show "\<exists>r. registrations w0 p = Some r \<and> m_allowedOriginsCount r = 0"
    using assms by (auto simp: ReleaseAllowedOrigins_def delete_array_def split: bind_splits if_splits)
qed

lemma ReleaseAllowedOrigins_none:
  assumes "registrations w p = Some r" "m_allowedOrigins r = nullptr"
  obtains w0 where "ReleaseAllowedOrigins p w = Some w0" "arrays w0 = arrays w" "mem w0 = mem w"
  using assms that by (auto simp: ReleaseAllowedOrigins_def)

section \<open>Concrete memory\<close>

definition sample_platform :: platform where
  "sample_platform = \<lparr>string_alloc = two_blocks, pointer_alloc = \<lambda>ps n. 0x900, array_new = \<lambda>as. 0x800,
     GetLastError = 14\<rparr>"

definition sample_registration :: MyCoreWebView2CustomSchemeRegistration where
  "sample_registration = \<lparr>r_refCount = 1, m_schemeName = \<lparr>s_ptr = 0\<rparr>, m_TreatAsSecure = 0,
     m_HasAuthorityComponent = 0, m_allowedOrigins = 0, m_allowedOriginsCount = 0\<rparr>"

definition sample_sworld :: sworld where
  "sample_sworld = \<lparr>registrations = [0x10 \<mapsto> sample_registration], arrays = Map.empty, pointers = Map.empty,
     mem = [0x50 \<mapsto> [42, 46]]\<rparr>"

lemmas sample_defs = sample_platform_def sample_sworld_def sample_registration_def

lemma sample_error: "HRESULT_FROM_WIN32 (GetLastError sample_platform) \<noteq> S_OK"
  using HRESULT_FROM_WIN32_FAILED [of 14] by (auto simp: sample_platform_def)

lemma sample_fresh: "fresh_alloc (string_alloc sample_platform)"
  by (simp add: sample_platform_def two_blocks_fresh)

lemma sample_set:
  "SetAllowedOrigins sample_platform [0x50] 0x10 sample_sworld = Some (S_OK,
     \<lparr>registrations = [0x10 \<mapsto> sample_registration\<lparr>m_allowedOrigins := 0x800, m_allowedOriginsCount := 1\<rparr>],
      arrays = [0x800 \<mapsto> [\<lparr>s_ptr = 0x100\<rparr>]], pointers = Map.empty, mem = [0x50 \<mapsto> [42, 46], 0x100 \<mapsto> [42, 46]]\<rparr>)"
  by (simp add: sample_defs SetAllowedOrigins_def ReleaseAllowedOrigins_def MyString_Set_def MyString_Release_def
      MyString_new_def MakeString_def string_bytes_def two_blocks_def MyString_Get_def put_registration_def Let_def)

section \<open>Properties\<close>

text \<open>C33: the allowed origins survive the round trip. For any object, and strings that are not among
  the old origins (which \<^verbatim>\<open>SetAllowedOrigins\<close> frees first), what \<^verbatim>\<open>GetAllowedOrigins\<close> hands out
  after a successful \<^verbatim>\<open>SetAllowedOrigins\<close> is as many strings as were set, equal to them in order,
  each in a block of its own that did not exist before, so that it is none of the object's strings,
  which stay as they are. No origins give the count 0, a null array and no change. The allocator is
  assumed to return fresh blocks and an error code not to be success.\<close>

theorem allowed_origins_roundtrip:
  assumes "fresh_alloc (string_alloc pf)" and "HRESULT_FROM_WIN32 (GetLastError pf) \<noteq> S_OK"
    and "ReleaseAllowedOrigins p w = Some w0" and "\<forall>t \<in> set origins. mem w0 t \<noteq> None"
    and "length origins < 2 ^ 32"
    and "SetAllowedOrigins pf origins p w = Some (S_OK, w1)"
    and "GetAllowedOrigins pf True p w1 = Some (S_OK, Some (n, a), w2)"
  shows "unat n = length origins \<and>
    (if origins = [] then a = nullptr \<and> w2 = w1
     else \<exists>ps. pointers w2 a = Some ps \<and> map (mem w2) ps = map (mem w) origins \<and>
       distinct ps \<and> (\<forall>q \<in> set ps. q \<noteq> nullptr \<and> mem w1 q = None) \<and>
       (\<forall>q. mem w1 q \<noteq> None \<longrightarrow> mem w2 q = mem w1 q))"
proof (cases "origins = []")
  case True
  then show ?thesis using assms(3,6,7) ReleaseAllowedOrigins_mem(2) [OF assms(3)]
    by (auto simp: SetAllowedOrigins_def GetAllowedOrigins_def)
next
  case False
  obtain r xs m where set: "set_origins pf [] origins (mem w0) = Some (True, xs, m)" and m: "mem w1 = m"
      "arrays w1 = (arrays w0)(array_new pf (arrays w0) \<mapsto> xs)" "pointers w1 = pointers w0"
      "registrations w1 p = Some (r\<lparr>m_allowedOrigins := array_new pf (arrays w0),
         m_allowedOriginsCount := of_nat (length origins)\<rparr>)"
    by (rule SetAllowedOrigins_ok [OF assms(6,2,3) False])
  from set_origins_ok [OF set assms(1,4)] have xs: "map (\<lambda>y. m (s_ptr y)) xs = map (mem w0) origins"
    "\<forall>y \<in> set xs. s_ptr y \<noteq> 0" by auto
  have len: "length xs = length origins" using arg_cong [OF xs(1), of length] by simp
  have un: "unat (of_nat (length origins) :: 32 word) = length origins"
    using assms(5) by (simp add: unat_of_nat)
  have "(of_nat (length origins) :: 32 word) \<noteq> 0"
    using un False by (metis length_0_conv unat_0)
  with assms(7) m un len assms(2) obtain ps where n: "n = of_nat (length origins)" "pointers w2 a = Some ps"
      and copy: "copy_origins pf [] xs m = Some (True, ps, mem w2)"
    by (auto simp: GetAllowedOrigins_def Let_def split: bind_splits if_splits)
  have live: "mem w0 t \<noteq> None" if "t \<in> set origins" for t using assms(4) that by auto
  then have "\<forall>x \<in> set xs. s_ptr x \<noteq> 0 \<and> m (s_ptr x) \<noteq> None"
    using xs by (metis (no_types, lifting) image_eqI list.set_map imageE)
  from copy_origins_ok [OF copy assms(1) this]
  have ps: "map (mem w2) ps = map (\<lambda>x. m (s_ptr x)) xs" "distinct ps" "\<forall>q. m q \<noteq> None \<longrightarrow> mem w2 q = m q"
    "\<forall>q \<in> set ps. q \<noteq> nullptr \<and> m q = None" by auto
  have "map (mem w0) origins = map (mem w) origins"
    using live ReleaseAllowedOrigins_mem(1) [OF assms(3)] by (simp add: list_all_iff)
  with ps n un xs(1) m(1) False show ?thesis by auto
qed

theorem allowed_origins_roundtrip_witness:
  "\<exists>w1 w2. SetAllowedOrigins sample_platform [0x50] 0x10 sample_sworld = Some (S_OK, w1) \<and>
     GetAllowedOrigins sample_platform True 0x10 w1 = Some (S_OK, Some (1, 0x900), w2) \<and>
     (\<exists>ps. pointers w2 0x900 = Some ps \<and> map (mem w2) ps = [Some [42, 46]])"
proof -
  let ?w = "\<lparr>registrations = [0x10 \<mapsto> sample_registration\<lparr>m_allowedOrigins := 0x800, m_allowedOriginsCount := 1\<rparr>],
      arrays = [0x800 \<mapsto> [\<lparr>s_ptr = 0x100\<rparr>]], pointers = Map.empty, mem = [0x50 \<mapsto> [42, 46], 0x100 \<mapsto> [42, 46]]\<rparr>"
  have g: "\<exists>w2. GetAllowedOrigins sample_platform True 0x10 ?w = Some (S_OK, Some (1, 0x900), w2)"
    by (simp add: sample_defs GetAllowedOrigins_def MyString_Copy_def MakeString_def string_bytes_def two_blocks_def Let_def)
  then obtain w2 where w2: "GetAllowedOrigins sample_platform True 0x10 ?w = Some (S_OK, Some (1, 0x900), w2)" ..
  have "registrations sample_sworld 0x10 = Some sample_registration" "m_allowedOrigins sample_registration = nullptr"
    by (simp_all add: sample_defs)
  then obtain w0 where w0: "ReleaseAllowedOrigins 0x10 sample_sworld = Some w0" "mem w0 = mem sample_sworld"
    by (rule ReleaseAllowedOrigins_none)
  from allowed_origins_roundtrip [OF sample_fresh sample_error w0(1) _ _ sample_set w2] sample_set w2 w0(2)
  show ?thesis by (auto simp: sample_defs)
qed

text \<open>No string is lost: after a successful \<^verbatim>\<open>SetAllowedOrigins\<close> on an object without
  origins, releasing the origins gives back exactly the memory and the array that were taken.\<close>

theorem allowed_origins_no_leak:
  assumes "fresh_alloc (string_alloc pf)" and "HRESULT_FROM_WIN32 (GetLastError pf) \<noteq> S_OK"
    and "registrations w p = Some r" and "m_allowedOrigins r = nullptr"
    and "origins \<noteq> []" and "\<forall>t \<in> set origins. mem w t \<noteq> None"
    and "array_new pf (arrays w) \<noteq> nullptr" and "arrays w (array_new pf (arrays w)) = None"
    and "SetAllowedOrigins pf origins p w = Some (S_OK, w1)"
  shows "\<exists>w2. ReleaseAllowedOrigins p w1 = Some w2 \<and> mem w2 = mem w \<and> arrays w2 = arrays w"
proof -
  obtain w0 where w0: "ReleaseAllowedOrigins p w = Some w0" "arrays w0 = arrays w" "mem w0 = mem w"
    by (rule ReleaseAllowedOrigins_none [OF assms(3,4)])
  obtain r' xs m where set: "set_origins pf [] origins (mem w) = Some (True, xs, m)" and m: "mem w1 = m"
      "arrays w1 = (arrays w)(array_new pf (arrays w) \<mapsto> xs)"
      "registrations w1 p = Some (r'\<lparr>m_allowedOrigins := array_new pf (arrays w),
         m_allowedOriginsCount := of_nat (length origins)\<rparr>)"
    by (rule SetAllowedOrigins_ok [OF assms(9,2) w0(1) assms(5), unfolded w0(2,3)])
  from set_origins_ok [OF set assms(1,6)] have "destroy_strings xs m = mem w" by auto
  with m assms(7,8) show ?thesis by (auto simp: ReleaseAllowedOrigins_def delete_array_def fun_upd_idem)
qed

theorem allowed_origins_no_leak_witness:
  "\<exists>w1 w2. SetAllowedOrigins sample_platform [0x50] 0x10 sample_sworld = Some (S_OK, w1) \<and>
     ReleaseAllowedOrigins 0x10 w1 = Some w2 \<and> mem w2 = [0x50 \<mapsto> [42, 46]]"
proof -
  have "registrations sample_sworld 0x10 = Some sample_registration" by (simp add: sample_defs)
  from allowed_origins_no_leak [OF sample_fresh sample_error this _ _ _ _ _ sample_set] sample_set
  show ?thesis by (auto simp: sample_defs)
qed

text \<open>C40: a failing \<^verbatim>\<open>SetAllowedOrigins\<close> leaves the deleted array in the object: the next call, and
  the destructor, delete it a second time.\<close>

theorem failed_set_double_delete:
  assumes "SetAllowedOrigins pf origins p w = Some (hr, w')" and "hr \<noteq> S_OK" and "\<And>as. array_new pf as \<noteq> nullptr"
  shows "ReleaseAllowedOrigins p w' = None \<and> SetAllowedOrigins pf origins' p w' = None \<and> Registration_delete p w' = None"
proof -
  have "ReleaseAllowedOrigins p w' = None"
    using assms by (auto simp: SetAllowedOrigins_def Let_def delete_array_def ReleaseAllowedOrigins_def
        split: bind_splits if_splits)
  then show ?thesis by (simp add: SetAllowedOrigins_def Registration_delete_def)
qed

theorem failed_set_double_delete_witness:
  "\<exists>w'. SetAllowedOrigins sample_platform [0] 0x10 sample_sworld = Some (HRESULT_FROM_WIN32 14, w') \<and>
     Registration_delete 0x10 w' = None"
proof -
  have "\<exists>w'. SetAllowedOrigins sample_platform [0] 0x10 sample_sworld = Some (HRESULT_FROM_WIN32 14, w')"
    by (simp add: sample_defs SetAllowedOrigins_def ReleaseAllowedOrigins_def delete_array_def MyString_Set_def MyString_Release_def
        MyString_new_def MyString_Get_def Let_def)
  then obtain w' where w': "SetAllowedOrigins sample_platform [0] 0x10 sample_sworld = Some (HRESULT_FROM_WIN32 14, w')" ..
  with failed_set_double_delete [OF w'] sample_error show ?thesis by (simp add: sample_platform_def)
qed

end
