(* ===== verification/EnvOptions.thy ===== *)
theory EnvOptions
  imports SchemeReg
begin

text \<open>
  \<^verbatim>\<open>builtin/goc/webview2/MyCoreWebView2EnvironmentOptions.h\<close>: the options object passed to the engine.
  Three string properties, five \<^verbatim>\<open>BOOL\<close> properties and the array of scheme registrations, each
  of which it holds a reference to. The objects join the stores of the registrations.
\<close>

section \<open>Data\<close>

definition CORE_WEBVIEW_TARGET_PRODUCT_VERSION :: "wchar list" where
  "CORE_WEBVIEW_TARGET_PRODUCT_VERSION = map (of_nat \<circ> of_char) ''122.0.2357.0''"

record MyCoreWebView2EnvironmentOptions =
  o_refCount :: ULONG
  m_AdditionalBrowserArguments :: MyString
  m_Language :: MyString
  m_TargetCompatibleBrowserVersion :: MyString
  m_AllowSingleSignOnUsingOSPrimaryAccount :: "32 word"
  m_ExclusiveUserDataFolderAccess :: "32 word"
  m_IsCustomCrashReportingEnabled :: "32 word"
  m_EnableTrackingPrevention :: "32 word"
  m_AreBrowserExtensionsEnabled :: "32 word"
  m_customSchemeRegistrations :: uintptr
  m_customSchemeRegistrationsCount :: "32 word"

record oworld = sworld +
  options :: "uintptr \<Rightarrow> MyCoreWebView2EnvironmentOptions option"

definition put_options :: "uintptr \<Rightarrow> MyCoreWebView2EnvironmentOptions option \<Rightarrow> oworld \<Rightarrow> oworld" where
  "put_options p x w = w\<lparr>options := (options w)(p := x)\<rparr>"

section \<open>String properties\<close>

definition get_AdditionalBrowserArguments ::
  "platform \<Rightarrow> bool \<Rightarrow> MyCoreWebView2EnvironmentOptions \<Rightarrow> wmem \<Rightarrow> (HRESULT \<times> uintptr option \<times> wmem) option" where
  "get_AdditionalBrowserArguments pf out x m =
     (if \<not> out then Some (E_POINTER, None, m)
      else do {
        (v, m) \<leftarrow> MyString_Copy (string_alloc pf) (m_AdditionalBrowserArguments x) m;
        if v = nullptr \<and> MyString_Get (m_AdditionalBrowserArguments x) \<noteq> nullptr
        then Some (HRESULT_FROM_WIN32 (GetLastError pf), Some v, m)
        else Some (S_OK, Some v, m) })"

definition put_AdditionalBrowserArguments ::
  "platform \<Rightarrow> uintptr \<Rightarrow> MyCoreWebView2EnvironmentOptions \<Rightarrow> wmem \<Rightarrow> (HRESULT \<times> MyCoreWebView2EnvironmentOptions \<times> wmem) option" where
  "put_AdditionalBrowserArguments pf value x m =
     do { (result, s, m) \<leftarrow> MyString_Set (string_alloc pf) value (m_AdditionalBrowserArguments x) m;
          let x = x\<lparr>m_AdditionalBrowserArguments := s\<rparr>;
          if result = nullptr \<and> value \<noteq> nullptr then Some (HRESULT_FROM_WIN32 (GetLastError pf), x, m)
          else Some (S_OK, x, m) }"

definition get_Language ::
  "platform \<Rightarrow> bool \<Rightarrow> MyCoreWebView2EnvironmentOptions \<Rightarrow> wmem \<Rightarrow> (HRESULT \<times> uintptr option \<times> wmem) option" where
  "get_Language pf out x m =
     (if \<not> out then Some (E_POINTER, None, m)
      else do {
        (v, m) \<leftarrow> MyString_Copy (string_alloc pf) (m_Language x) m;
        if v = nullptr \<and> MyString_Get (m_Language x) \<noteq> nullptr
        then Some (HRESULT_FROM_WIN32 (GetLastError pf), Some v, m)
        else Some (S_OK, Some v, m) })"

definition put_Language ::
  "platform \<Rightarrow> uintptr \<Rightarrow> MyCoreWebView2EnvironmentOptions \<Rightarrow> wmem \<Rightarrow> (HRESULT \<times> MyCoreWebView2EnvironmentOptions \<times> wmem) option" where
  "put_Language pf value x m =
     do { (result, s, m) \<leftarrow> MyString_Set (string_alloc pf) value (m_Language x) m;
          let x = x\<lparr>m_Language := s\<rparr>;
          if result = nullptr \<and> value \<noteq> nullptr then Some (HRESULT_FROM_WIN32 (GetLastError pf), x, m)
          else Some (S_OK, x, m) }"

definition get_TargetCompatibleBrowserVersion ::
  "platform \<Rightarrow> bool \<Rightarrow> MyCoreWebView2EnvironmentOptions \<Rightarrow> wmem \<Rightarrow> (HRESULT \<times> uintptr option \<times> wmem) option" where
  "get_TargetCompatibleBrowserVersion pf out x m =
     (if \<not> out then Some (E_POINTER, None, m)
      else do {
        (v, m) \<leftarrow> MyString_Copy (string_alloc pf) (m_TargetCompatibleBrowserVersion x) m;
        if v = nullptr \<and> MyString_Get (m_TargetCompatibleBrowserVersion x) \<noteq> nullptr
        then Some (HRESULT_FROM_WIN32 (GetLastError pf), Some v, m)
        else Some (S_OK, Some v, m) })"

definition put_TargetCompatibleBrowserVersion ::
  "platform \<Rightarrow> uintptr \<Rightarrow> MyCoreWebView2EnvironmentOptions \<Rightarrow> wmem \<Rightarrow> (HRESULT \<times> MyCoreWebView2EnvironmentOptions \<times> wmem) option" where
  "put_TargetCompatibleBrowserVersion pf value x m =
     do { (result, s, m) \<leftarrow> MyString_Set (string_alloc pf) value (m_TargetCompatibleBrowserVersion x) m;
          let x = x\<lparr>m_TargetCompatibleBrowserVersion := s\<rparr>;
          if result = nullptr \<and> value \<noteq> nullptr then Some (HRESULT_FROM_WIN32 (GetLastError pf), x, m)
          else Some (S_OK, x, m) }"

section \<open>BOOL properties\<close>

definition get_AllowSingleSignOnUsingOSPrimaryAccount :: "bool \<Rightarrow> MyCoreWebView2EnvironmentOptions \<Rightarrow> HRESULT \<times> 32 word option" where
  "get_AllowSingleSignOnUsingOSPrimaryAccount out x =
     (if \<not> out then (E_POINTER, None) else (S_OK, Some (m_AllowSingleSignOnUsingOSPrimaryAccount x)))"

definition put_AllowSingleSignOnUsingOSPrimaryAccount ::
  "32 word \<Rightarrow> MyCoreWebView2EnvironmentOptions \<Rightarrow> HRESULT \<times> MyCoreWebView2EnvironmentOptions" where
  "put_AllowSingleSignOnUsingOSPrimaryAccount v x = (S_OK, x\<lparr>m_AllowSingleSignOnUsingOSPrimaryAccount := v\<rparr>)"

definition get_ExclusiveUserDataFolderAccess :: "bool \<Rightarrow> MyCoreWebView2EnvironmentOptions \<Rightarrow> HRESULT \<times> 32 word option" where
  "get_ExclusiveUserDataFolderAccess out x =
     (if \<not> out then (E_POINTER, None) else (S_OK, Some (m_ExclusiveUserDataFolderAccess x)))"

definition put_ExclusiveUserDataFolderAccess ::
  "32 word \<Rightarrow> MyCoreWebView2EnvironmentOptions \<Rightarrow> HRESULT \<times> MyCoreWebView2EnvironmentOptions" where
  "put_ExclusiveUserDataFolderAccess v x = (S_OK, x\<lparr>m_ExclusiveUserDataFolderAccess := v\<rparr>)"

definition get_IsCustomCrashReportingEnabled :: "bool \<Rightarrow> MyCoreWebView2EnvironmentOptions \<Rightarrow> HRESULT \<times> 32 word option" where
  "get_IsCustomCrashReportingEnabled out x =
     (if \<not> out then (E_POINTER, None) else (S_OK, Some (m_IsCustomCrashReportingEnabled x)))"

definition put_IsCustomCrashReportingEnabled ::
  "32 word \<Rightarrow> MyCoreWebView2EnvironmentOptions \<Rightarrow> HRESULT \<times> MyCoreWebView2EnvironmentOptions" where
  "put_IsCustomCrashReportingEnabled v x = (S_OK, x\<lparr>m_IsCustomCrashReportingEnabled := v\<rparr>)"

definition get_EnableTrackingPrevention :: "bool \<Rightarrow> MyCoreWebView2EnvironmentOptions \<Rightarrow> HRESULT \<times> 32 word option" where
  "get_EnableTrackingPrevention out x =
     (if \<not> out then (E_POINTER, None) else (S_OK, Some (m_EnableTrackingPrevention x)))"

definition put_EnableTrackingPrevention ::
  "32 word \<Rightarrow> MyCoreWebView2EnvironmentOptions \<Rightarrow> HRESULT \<times> MyCoreWebView2EnvironmentOptions" where
  "put_EnableTrackingPrevention v x = (S_OK, x\<lparr>m_EnableTrackingPrevention := v\<rparr>)"

definition get_AreBrowserExtensionsEnabled :: "bool \<Rightarrow> MyCoreWebView2EnvironmentOptions \<Rightarrow> HRESULT \<times> 32 word option" where
  "get_AreBrowserExtensionsEnabled out x =
     (if \<not> out then (E_POINTER, None) else (S_OK, Some (m_AreBrowserExtensionsEnabled x)))"

definition put_AreBrowserExtensionsEnabled ::
  "32 word \<Rightarrow> MyCoreWebView2EnvironmentOptions \<Rightarrow> HRESULT \<times> MyCoreWebView2EnvironmentOptions" where
  "put_AreBrowserExtensionsEnabled v x = (S_OK, x\<lparr>m_AreBrowserExtensionsEnabled := v\<rparr>)"

section \<open>Scheme registrations\<close>

primrec addref_all :: "uintptr list \<Rightarrow> oworld \<Rightarrow> oworld option" where
  "addref_all [] w = Some w"
| "addref_all (r # rs) w = do { (_, w) \<leftarrow> Registration_AddRef r w; addref_all rs w }"

primrec release_all :: "uintptr list \<Rightarrow> oworld \<Rightarrow> oworld option" where
  "release_all [] w = Some w"
| "release_all (r # rs) w = do { (_, w) \<leftarrow> Registration_Release r w; release_all rs w }"

definition ReleaseCustomSchemeRegistrations :: "uintptr \<Rightarrow> oworld \<Rightarrow> oworld option" where
  "ReleaseCustomSchemeRegistrations p w =
     do { x \<leftarrow> options w p;
          if m_customSchemeRegistrations x \<noteq> nullptr
          then do {
            rs \<leftarrow> pointers w (m_customSchemeRegistrations x);
            w \<leftarrow> release_all (take (unat (m_customSchemeRegistrationsCount x)) rs) w;
            let w = w\<lparr>pointers := (pointers w)(m_customSchemeRegistrations x := None)\<rparr>;
            Some (put_options p (Some (x\<lparr>m_customSchemeRegistrations := nullptr,
                                         m_customSchemeRegistrationsCount := 0\<rparr>)) w) }
          else Some w }"

definition GetCustomSchemeRegistrations ::
  "platform \<Rightarrow> bool \<Rightarrow> uintptr \<Rightarrow> oworld \<Rightarrow> (HRESULT \<times> (32 word \<times> uintptr) option \<times> oworld) option" where
  "GetCustomSchemeRegistrations pf out p w =
     (if \<not> out then Some (E_POINTER, None, w)
      else do {
        x \<leftarrow> options w p;
        if m_customSchemeRegistrationsCount x = 0 then Some (S_OK, Some (0, nullptr), w)
        else do {
          let a = pointer_alloc pf (pointers w) (8 * ucast (m_customSchemeRegistrationsCount x));
          if a = nullptr then Some (HRESULT_FROM_WIN32 (GetLastError pf), Some (0, nullptr), w)
          else do {
            all \<leftarrow> pointers w (m_customSchemeRegistrations x);
            let rs = take (unat (m_customSchemeRegistrationsCount x)) all;
            w \<leftarrow> addref_all rs (w\<lparr>pointers := (pointers w)(a \<mapsto> rs)\<rparr>);
            Some (S_OK, Some (m_customSchemeRegistrationsCount x, a), w) } } })"

definition SetCustomSchemeRegistrations ::
  "platform \<Rightarrow> uintptr list \<Rightarrow> uintptr \<Rightarrow> oworld \<Rightarrow> (HRESULT \<times> oworld) option" where
  "SetCustomSchemeRegistrations pf rs p w =
     do { w \<leftarrow> ReleaseCustomSchemeRegistrations p w;
          x \<leftarrow> options w p;
          let a = pointer_alloc pf (pointers w) (8 * of_nat (length rs));
          let w = put_options p (Some (x\<lparr>m_customSchemeRegistrations := a\<rparr>)) w;
          if a = nullptr then Some (GetLastError pf, w)
          else do {
            w \<leftarrow> addref_all rs (w\<lparr>pointers := (pointers w)(a \<mapsto> rs)\<rparr>);
            x \<leftarrow> options w p;
            Some (S_OK, put_options p (Some (x\<lparr>m_customSchemeRegistrationsCount := of_nat (length rs)\<rparr>)) w) } }"

section \<open>Life\<close>

definition Options_new :: "platform \<Rightarrow> uintptr \<Rightarrow> oworld \<Rightarrow> oworld" where
  "Options_new pf p w =
     (let (s, m) = MakeString (string_alloc pf) CORE_WEBVIEW_TARGET_PRODUCT_VERSION (mem w) in
      put_options p (Some \<lparr>o_refCount = 1, m_AdditionalBrowserArguments = MyString_new, m_Language = MyString_new,
        m_TargetCompatibleBrowserVersion = \<lparr>s_ptr = s\<rparr>, m_AllowSingleSignOnUsingOSPrimaryAccount = 0,
        m_ExclusiveUserDataFolderAccess = 0, m_IsCustomCrashReportingEnabled = 0, m_EnableTrackingPrevention = 1,
        m_AreBrowserExtensionsEnabled = 0, m_customSchemeRegistrations = nullptr,
        m_customSchemeRegistrationsCount = 0\<rparr>) (w\<lparr>mem := m\<rparr>))"

text \<open>The destructor's body and the destructors of the string members.\<close>

definition Options_delete :: "uintptr \<Rightarrow> oworld \<Rightarrow> oworld option" where
  "Options_delete p w =
     do { w \<leftarrow> ReleaseCustomSchemeRegistrations p w;
          x \<leftarrow> options w p;
          Some (put_options p None (w\<lparr>mem := destroy_strings
             [m_TargetCompatibleBrowserVersion x, m_Language x, m_AdditionalBrowserArguments x] (mem w)\<rparr>)) }"

definition Options_AddRef :: "uintptr \<Rightarrow> oworld \<Rightarrow> (ULONG \<times> oworld) option" where
  "Options_AddRef p w =
     do { x \<leftarrow> options w p;
          let n = o_refCount x + 1;
          Some (n, put_options p (Some (x\<lparr>o_refCount := n\<rparr>)) w) }"

definition Options_Release :: "uintptr \<Rightarrow> oworld \<Rightarrow> (ULONG \<times> oworld) option" where
  "Options_Release p w =
     do { x \<leftarrow> options w p;
          let n = o_refCount x - 1;
          let w = put_options p (Some (x\<lparr>o_refCount := n\<rparr>)) w;
          if n = 0 then do { w \<leftarrow> Options_delete p w; Some (n, w) } else Some (n, w) }"

text \<open>The class has six interface subobjects. The pointer a query returns is the object's address with
  the number of the subobject, whose offset is the compiler's.\<close>

definition subobject :: "guid \<Rightarrow> nat option" where
  "subobject riid =
     (if riid = IID_IUnknown then Some 1
      else if riid = IID_ICoreWebView2EnvironmentOptions then Some 1
      else if riid = IID_ICoreWebView2EnvironmentOptions2 then Some 2
      else if riid = IID_ICoreWebView2EnvironmentOptions3 then Some 3
      else if riid = IID_ICoreWebView2EnvironmentOptions4 then Some 4
      else if riid = IID_ICoreWebView2EnvironmentOptions5 then Some 5
      else if riid = IID_ICoreWebView2EnvironmentOptions6 then Some 6
      else None)"

definition Options_QueryInterface ::
  "guid \<Rightarrow> bool \<Rightarrow> uintptr \<Rightarrow> oworld \<Rightarrow> (HRESULT \<times> (uintptr \<times> nat) option \<times> oworld) option" where
  "Options_QueryInterface riid out p w =
     (if \<not> out then Some (E_POINTER, None, w)
      else case subobject riid of
             None \<Rightarrow> Some (E_NOINTERFACE, None, w)
           | Some k \<Rightarrow> do { (_, w) \<leftarrow> Options_AddRef p w; Some (S_OK, Some (p, k), w) })"

section \<open>Contracts\<close>

lemma MyString_Set_ptr: "MyString_Set alloc v x m = Some (p, x', m') \<Longrightarrow> s_ptr x' = p"
  by (auto simp: MyString_Set_def split: prod.splits if_splits option.splits)

text \<open>A string property: \<^verbatim>\<open>put\<close> sets one \<^verbatim>\<open>MyString\<close>, \<^verbatim>\<open>get\<close> copies it.\<close>

locale string_property =
  fixes fld :: "'o \<Rightarrow> MyString"
    and get :: "platform \<Rightarrow> bool \<Rightarrow> 'o \<Rightarrow> wmem \<Rightarrow> (HRESULT \<times> uintptr option \<times> wmem) option"
    and put :: "platform \<Rightarrow> uintptr \<Rightarrow> 'o \<Rightarrow> wmem \<Rightarrow> (HRESULT \<times> 'o \<times> wmem) option"
  assumes get_copy: "get pf True x m = Some (S_OK, Some q, m') \<Longrightarrow> MyString_Copy (string_alloc pf) (fld x) m = Some (q, m') \<and>
      (q = nullptr \<longrightarrow> MyString_Get (fld x) = nullptr \<or> HRESULT_FROM_WIN32 (GetLastError pf) = S_OK)"
    and put_set: "put pf v x m = Some (S_OK, x', m') \<Longrightarrow> \<exists>q. MyString_Set (string_alloc pf) v (fld x) m = Some (q, fld x', m') \<and>
      (q = nullptr \<longrightarrow> v = nullptr \<or> HRESULT_FROM_WIN32 (GetLastError pf) = S_OK)"
    and get_null: "get pf False x m = Some (E_POINTER, None, m)"
begin

lemma put_get:
  assumes "fresh_alloc (string_alloc pf)" "HRESULT_FROM_WIN32 (GetLastError pf) \<noteq> S_OK"
    and "m v = Some str" "v \<noteq> nullptr" "v \<noteq> s_ptr (fld x)"
    and put: "put pf v x m = Some (S_OK, x', m')" and get: "get pf True x' m' = Some (S_OK, Some q, m'')"
  shows "m'' q = Some str \<and> q \<noteq> s_ptr (fld x') \<and> CoTaskMemFree q m'' = m'"
proof -
  obtain p where p: "MyString_Set (string_alloc pf) v (fld x) m = Some (p, fld x', m')" "p \<noteq> nullptr"
    using put_set [OF put] assms(2,4) by auto
  have "s_ptr (fld x') = p" by (rule MyString_Set_ptr [OF p(1)])
  with get_copy [OF get] assms(2) p(2) have q: "MyString_Copy (string_alloc pf) (fld x') m' = Some (q, m'')" "q \<noteq> nullptr"
    by (auto simp: MyString_Get_def)
  from string_roundtrip [OF assms(1,3,4,5) p q] \<open>s_ptr (fld x') = p\<close> show ?thesis by (auto simp: MyString_Get_def)
qed

end

interpretation AdditionalBrowserArguments: string_property m_AdditionalBrowserArguments get_AdditionalBrowserArguments
  put_AdditionalBrowserArguments
  by unfold_locales
    (auto simp: get_AdditionalBrowserArguments_def put_AdditionalBrowserArguments_def Let_def
      split: bind_splits if_splits)

interpretation Language: string_property m_Language get_Language
  put_Language
  by unfold_locales
    (auto simp: get_Language_def put_Language_def Let_def
      split: bind_splits if_splits)

interpretation TargetCompatibleBrowserVersion: string_property m_TargetCompatibleBrowserVersion get_TargetCompatibleBrowserVersion
  put_TargetCompatibleBrowserVersion
  by unfold_locales
    (auto simp: get_TargetCompatibleBrowserVersion_def put_TargetCompatibleBrowserVersion_def Let_def
      split: bind_splits if_splits)

interpretation AllowSingleSignOnUsingOSPrimaryAccount: bool_property get_AllowSingleSignOnUsingOSPrimaryAccount
  put_AllowSingleSignOnUsingOSPrimaryAccount m_AllowSingleSignOnUsingOSPrimaryAccount
  by unfold_locales (simp_all add: get_AllowSingleSignOnUsingOSPrimaryAccount_def put_AllowSingleSignOnUsingOSPrimaryAccount_def)

interpretation ExclusiveUserDataFolderAccess: bool_property get_ExclusiveUserDataFolderAccess
  put_ExclusiveUserDataFolderAccess m_ExclusiveUserDataFolderAccess
  by unfold_locales (simp_all add: get_ExclusiveUserDataFolderAccess_def put_ExclusiveUserDataFolderAccess_def)

interpretation IsCustomCrashReportingEnabled: bool_property get_IsCustomCrashReportingEnabled
  put_IsCustomCrashReportingEnabled m_IsCustomCrashReportingEnabled
  by unfold_locales (simp_all add: get_IsCustomCrashReportingEnabled_def put_IsCustomCrashReportingEnabled_def)

interpretation EnableTrackingPrevention: bool_property get_EnableTrackingPrevention
  put_EnableTrackingPrevention m_EnableTrackingPrevention
  by unfold_locales (simp_all add: get_EnableTrackingPrevention_def put_EnableTrackingPrevention_def)

interpretation AreBrowserExtensionsEnabled: bool_property get_AreBrowserExtensionsEnabled
  put_AreBrowserExtensionsEnabled m_AreBrowserExtensionsEnabled
  by unfold_locales (simp_all add: get_AreBrowserExtensionsEnabled_def put_AreBrowserExtensionsEnabled_def)

text \<open>The properties, by name.\<close>

definition string_properties :: "((platform \<Rightarrow> bool \<Rightarrow> MyCoreWebView2EnvironmentOptions \<Rightarrow> wmem \<Rightarrow> (HRESULT \<times> uintptr option \<times> wmem) option)
    \<times> (platform \<Rightarrow> uintptr \<Rightarrow> MyCoreWebView2EnvironmentOptions \<Rightarrow> wmem \<Rightarrow> (HRESULT \<times> MyCoreWebView2EnvironmentOptions \<times> wmem) option)
    \<times> (MyCoreWebView2EnvironmentOptions \<Rightarrow> MyString)) list" where
  "string_properties =
    [(get_AdditionalBrowserArguments, put_AdditionalBrowserArguments, m_AdditionalBrowserArguments),
     (get_Language, put_Language, m_Language),
     (get_TargetCompatibleBrowserVersion, put_TargetCompatibleBrowserVersion, m_TargetCompatibleBrowserVersion)]"

definition bool_properties :: "((bool \<Rightarrow> MyCoreWebView2EnvironmentOptions \<Rightarrow> HRESULT \<times> 32 word option)
    \<times> (32 word \<Rightarrow> MyCoreWebView2EnvironmentOptions \<Rightarrow> HRESULT \<times> MyCoreWebView2EnvironmentOptions)) list" where
  "bool_properties =
    [(get_AllowSingleSignOnUsingOSPrimaryAccount, put_AllowSingleSignOnUsingOSPrimaryAccount),
     (get_ExclusiveUserDataFolderAccess, put_ExclusiveUserDataFolderAccess),
     (get_IsCustomCrashReportingEnabled, put_IsCustomCrashReportingEnabled),
     (get_EnableTrackingPrevention, put_EnableTrackingPrevention),
     (get_AreBrowserExtensionsEnabled, put_AreBrowserExtensionsEnabled)]"

section \<open>Lemmas\<close>

lemma put_options_sels [simp]:
  "options (put_options p x w) = (options w)(p := x)" "registrations (put_options p x w) = registrations w"
  "arrays (put_options p x w) = arrays w" "pointers (put_options p x w) = pointers w" "mem (put_options p x w) = mem w"
  by (simp_all add: put_options_def)

lemma put_registration_options [simp]: "options (put_registration p r w) = options w"
  by (simp add: put_registration_def)

text \<open>A world in which \<open>n q\<close> references have been added to each registration \<open>q\<close>.\<close>

definition bump :: "(uintptr \<Rightarrow> nat) \<Rightarrow> oworld \<Rightarrow> oworld" where
  "bump n w = w\<lparr>registrations := \<lambda>q. map_option (\<lambda>r. r\<lparr>r_refCount := r_refCount r + of_nat (n q)\<rparr>) (registrations w q)\<rparr>"

lemma bump_zero [simp]: "bump (\<lambda>q. 0) w = w"
proof -
  have "(\<lambda>q. map_option (\<lambda>r. r) (registrations w q)) = registrations w" by (simp add: map_option.id [unfolded id_def])
  then show ?thesis by (simp add: bump_def)
qed

lemma bump_sels [simp]:
  "options (bump n w) = options w" "pointers (bump n w) = pointers w" "mem (bump n w) = mem w" "arrays (bump n w) = arrays w"
  by (simp_all add: bump_def)

lemma bump_upd:
  assumes "registrations w q = Some r"
  shows "put_registration q (Some (r\<lparr>r_refCount := r_refCount r + of_nat k\<rparr>)) (bump n w) = bump (n(q := k)) w"
  using assms by (auto simp: bump_def put_registration_def fun_eq_iff)

lemma addref_all_bump:
  assumes "\<forall>r \<in> set rs. registrations w r \<noteq> None"
  shows "addref_all rs (bump n w) = Some (bump (\<lambda>q. n q + count_list rs q) w)"
  using assms
proof (induction rs arbitrary: n)
  case (Cons r rs)
  then obtain x where x: "registrations w r = Some x" by auto
  then have "Registration_AddRef r (bump n w) = Some (r_refCount x + of_nat (Suc (n r)), bump (n(r := Suc (n r))) w)"
    using bump_upd [OF x, of "Suc (n r)" n] by (simp add: Registration_AddRef_def bump_def Let_def add_ac)
  moreover have "(\<lambda>q. (n(r := Suc (n r))) q + count_list rs q) = (\<lambda>q. n q + count_list (r # rs) q)"
    by (auto simp: fun_eq_iff)
  ultimately show ?case using Cons by simp
qed simp

text \<open>The references fit their counters.\<close>

definition fits :: "uintptr list \<Rightarrow> oworld \<Rightarrow> bool" where
  "fits rs w \<longleftrightarrow> (\<forall>q \<in> set rs. \<exists>r. registrations w q = Some r \<and> r_refCount r \<noteq> 0 \<and>
     unat (r_refCount r) + length rs < 2 ^ 32)"

lemma release_all_bump:
  assumes "fits rs w"
  shows "release_all rs (bump (count_list rs) w) = Some w"
proof -
  have "length ss \<le> length rs \<Longrightarrow> set ss \<subseteq> set rs \<Longrightarrow> release_all ss (bump (count_list ss) w) = Some w" for ss
  proof (induction ss)
    case Nil
    have "count_list ([] :: uintptr list) = (\<lambda>q. 0)" by (simp add: fun_eq_iff)
    then show ?case by simp
  next
    case (Cons r ss)
    then obtain x where x: "registrations w r = Some x" "r_refCount x \<noteq> 0" "unat (r_refCount x) + length rs < 2 ^ 32"
      using assms by (auto simp: fits_def)
    let ?k = "count_list ss r"
    have "?k \<le> length ss" by (rule count_le_length)
    then have lt: "unat (r_refCount x) + ?k < 2 ^ 32" using x Cons.prems by simp
    have u: "unat (r_refCount x + of_nat ?k) = unat (r_refCount x) + ?k"
      using lt by (simp add: unat_word_ariths unat_of_nat)
    then have "r_refCount x + of_nat ?k \<noteq> 0" using x(2) by (metis add_is_0 unat_0 unat_eq_zero)
    then have "Registration_Release r (bump (count_list (r # ss)) w) =
        Some (r_refCount x + of_nat ?k, bump ((count_list (r # ss))(r := ?k)) w)"
      using x bump_upd [OF x(1), of ?k "count_list (r # ss)"]
      by (simp add: Registration_Release_def bump_def Let_def add_ac)
    moreover have "(count_list (r # ss))(r := ?k) = count_list ss" by (auto simp: fun_eq_iff)
    ultimately show ?case using Cons by (simp del: count_list.simps)
  qed
  then show ?thesis by blast
qed

text \<open>Releasing registrations does not touch the options objects.\<close>

lemma delete_array_options: "delete_array a (put_options p x w) = map_option (put_options p x) (delete_array a w)"
  by (cases "arrays w a") (simp_all add: delete_array_def put_options_def)

lemma put_commute: "put_registration r y (put_options p x w) = put_options p x (put_registration r y w)"
  by (simp add: put_registration_def put_options_def)

lemma ReleaseAllowedOrigins_options:
  "ReleaseAllowedOrigins r (put_options p x w) = map_option (put_options p x) (ReleaseAllowedOrigins r w)"
  by (auto simp: ReleaseAllowedOrigins_def delete_array_options put_commute map_option_case split: bind_splits option.splits)

lemma mem_commute: "put_options p x w\<lparr>mem := m\<rparr> = put_options p x (w\<lparr>mem := m\<rparr>)"
  by (simp add: put_options_def)

lemma Registration_delete_options:
  "Registration_delete r (put_options p x w) = map_option (put_options p x) (Registration_delete r w)"
  by (auto simp: Registration_delete_def ReleaseAllowedOrigins_options put_commute mem_commute map_option_case
      split: bind_splits option.splits)

lemma Registration_Release_options:
  "Registration_Release r (put_options p x w) = map_option (map_prod id (put_options p x)) (Registration_Release r w)"
  by (cases "registrations w r")
    (auto simp: Registration_Release_def Registration_delete_options put_commute Let_def map_option_case
      split: bind_splits option.splits)

lemma release_all_options:
  "release_all rs (put_options p x w) = map_option (put_options p x) (release_all rs w)"
proof (induction rs arbitrary: w)
  case (Cons r rs)
  then show ?case
    by (cases "Registration_Release r w") (auto simp: Registration_Release_options split: prod.splits)
qed simp

text \<open>What the options object needs to be destroyed.\<close>

definition options_ok :: "oworld \<Rightarrow> uintptr \<Rightarrow> bool" where
  "options_ok w p \<longleftrightarrow> (\<forall>x. options w p = Some x \<longrightarrow> m_customSchemeRegistrations x \<noteq> nullptr \<longrightarrow>
     (\<exists>rs. pointers w (m_customSchemeRegistrations x) = Some rs \<and>
        release_all (take (unat (m_customSchemeRegistrationsCount x)) rs) w \<noteq> None))"

lemma options_ok_count:
  "options w p = Some x \<Longrightarrow> options_ok w p \<Longrightarrow> options_ok (put_options p (Some (x\<lparr>o_refCount := n\<rparr>)) w) p"
  by (auto simp: options_ok_def release_all_options)

lemma Options_delete_live:
  assumes "options w p = Some x" "options_ok w p"
  shows "\<exists>w'. Options_delete p w = Some w' \<and> options w' p = None"
  using assms by (auto simp: Options_delete_def ReleaseCustomSchemeRegistrations_def options_ok_def Let_def)

definition options_iids :: "guid set" where
  "options_iids = {i. subobject i \<noteq> None}"

interpretation options: com_object "\<lambda>w p. map_option o_refCount (options w p)" options_ok
  Options_AddRef Options_Release options_iids
  "\<lambda>i p w. map_option (\<lambda>(hr, q, w). (hr, case q of None \<Rightarrow> 0 | Some (q, k) \<Rightarrow> q, w)) (Options_QueryInterface i True p w)"
proof
  fix w :: oworld and p c
  assume "map_option o_refCount (options w p) = Some c"
  then obtain x where x: "options w p = Some x" "o_refCount x = c" by auto
  show "\<exists>w'. Options_AddRef p w = Some (c + 1, w') \<and>
      map_option o_refCount (options w' p) = Some (c + 1) \<and> options_ok w' p" if "options_ok w p"
    using x options_ok_count [OF x(1) that] by (simp add: Options_AddRef_def Let_def)
  show "\<exists>w'. Options_Release p w = Some (c - 1, w') \<and>
      map_option o_refCount (options w' p) = Some (c - 1) \<and> options_ok w' p" if "options_ok w p" "c \<noteq> 1"
    using x that(2) options_ok_count [OF x(1) that(1)] by (simp add: Options_Release_def Let_def)
next
  fix w :: oworld and p
  assume "map_option o_refCount (options w p) = Some 1" and ok: "options_ok w p"
  then obtain x where x: "options w p = Some x" "o_refCount x = 1" by auto
  from Options_delete_live [OF _ options_ok_count [OF x(1) ok, of 0]] x
  show "\<exists>w'. Options_Release p w = Some (0, w') \<and> map_option o_refCount (options w' p) = None"
    by (auto simp: Options_Release_def Let_def)
next
  show "IID_IUnknown \<in> options_iids" by (simp add: options_iids_def subobject_def)
next
  fix i and w :: oworld and p c
  assume "map_option o_refCount (options w p) = Some c"
  then obtain n w' where a: "Options_AddRef p w = Some (n, w')" by (auto simp: Options_AddRef_def Let_def)
  show "map_option (\<lambda>(hr, q, w). (hr, case q of None \<Rightarrow> 0 | Some (q, k) \<Rightarrow> q, w)) (Options_QueryInterface i True p w) =
      (case Options_AddRef p w of None \<Rightarrow> None | Some (n, w') \<Rightarrow> Some (S_OK, p, w'))" if "i \<in> options_iids"
    using that a by (auto simp: Options_QueryInterface_def options_iids_def)
  show "map_option (\<lambda>(hr, q, w). (hr, case q of None \<Rightarrow> 0 | Some (q, k) \<Rightarrow> q, w)) (Options_QueryInterface i True p w) =
      Some (E_NOINTERFACE, 0, w)" if "i \<notin> options_iids"
    using that by (simp add: Options_QueryInterface_def options_iids_def)
qed (auto simp: Options_AddRef_def Options_Release_def)

section \<open>Concrete objects\<close>

definition sample_options :: MyCoreWebView2EnvironmentOptions where
  "sample_options = \<lparr>o_refCount = 1, m_AdditionalBrowserArguments = MyString_new, m_Language = MyString_new,
     m_TargetCompatibleBrowserVersion = MyString_new, m_AllowSingleSignOnUsingOSPrimaryAccount = 0,
     m_ExclusiveUserDataFolderAccess = 0, m_IsCustomCrashReportingEnabled = 0, m_EnableTrackingPrevention = 1,
     m_AreBrowserExtensionsEnabled = 0, m_customSchemeRegistrations = 0, m_customSchemeRegistrationsCount = 0\<rparr>"

definition sample_oworld :: oworld where
  "sample_oworld = \<lparr>registrations = [0x10 \<mapsto> sample_registration], arrays = Map.empty, pointers = Map.empty,
     mem = [0x50 \<mapsto> [42, 46]], options = [0x20 \<mapsto> sample_options]\<rparr>"

section \<open>Properties\<close>

text \<open>The five \<^verbatim>\<open>BOOL\<close> properties are independent variables: each returns what was put last, a
  null out-parameter is refused, and putting one leaves every other as it was.\<close>

theorem options_bool_properties:
  assumes "i < length bool_properties" and "j < length bool_properties"
  shows "fst (bool_properties ! i) True (snd (snd (bool_properties ! j) v x)) =
      (if i = j then (S_OK, Some v) else fst (bool_properties ! i) True x)
    \<and> fst (bool_properties ! i) False x = (E_POINTER, None) \<and> fst (snd (bool_properties ! j) v x) = S_OK"
proof -
  note defs = get_AllowSingleSignOnUsingOSPrimaryAccount_def put_AllowSingleSignOnUsingOSPrimaryAccount_def
    get_ExclusiveUserDataFolderAccess_def put_ExclusiveUserDataFolderAccess_def get_IsCustomCrashReportingEnabled_def
    put_IsCustomCrashReportingEnabled_def get_EnableTrackingPrevention_def put_EnableTrackingPrevention_def
    get_AreBrowserExtensionsEnabled_def put_AreBrowserExtensionsEnabled_def
  have "i \<in> {0, 1, 2, 3, 4}" "j \<in> {0, 1, 2, 3, 4}" using assms by (auto simp: bool_properties_def)
  then show ?thesis by (auto simp: bool_properties_def defs)
qed

theorem options_bool_properties_witness:
  "fst (bool_properties ! 3) True (snd (snd (bool_properties ! 3) 0 sample_options)) = (S_OK, Some 0) \<and>
   fst (bool_properties ! 0) True (snd (snd (bool_properties ! 3) 1 sample_options)) = fst (bool_properties ! 0) True sample_options"
proof -
  have l: "length bool_properties = 5" by (simp add: bool_properties_def)
  from options_bool_properties [of 3 3 0 sample_options] options_bool_properties [of 0 3 1 sample_options] show ?thesis
    by (simp add: l)
qed

text \<open>The three string properties survive the round trip: after a successful put of a string that is not
  the object's own, a successful get hands out an equal string in a block of its own, whose release leaves
  the object's memory as it was.\<close>

theorem options_string_properties:
  assumes "(get, put, fld) \<in> set string_properties" and "fresh_alloc (string_alloc pf)"
    and "HRESULT_FROM_WIN32 (GetLastError pf) \<noteq> S_OK"
    and "m v = Some str" and "v \<noteq> nullptr" and "v \<noteq> s_ptr (fld x)"
    and "put pf v x m = Some (S_OK, x', m')" and "get pf True x' m' = Some (S_OK, Some q, m'')"
  shows "m'' q = Some str \<and> q \<noteq> s_ptr (fld x') \<and> CoTaskMemFree q m'' = m'"
proof -
  from assms(1) consider "get = get_AdditionalBrowserArguments" "put = put_AdditionalBrowserArguments" "fld = m_AdditionalBrowserArguments"
    | "get = get_Language" "put = put_Language" "fld = m_Language"
    | "get = get_TargetCompatibleBrowserVersion" "put = put_TargetCompatibleBrowserVersion" "fld = m_TargetCompatibleBrowserVersion"
    by (auto simp: string_properties_def)
  then show ?thesis
  proof cases
    case 1
    from AdditionalBrowserArguments.put_get [OF assms(2-6,7,8) [unfolded 1]] show ?thesis unfolding 1 .
  next
    case 2
    from Language.put_get [OF assms(2-6,7,8) [unfolded 2]] show ?thesis unfolding 2 .
  next
    case 3
    from TargetCompatibleBrowserVersion.put_get [OF assms(2-6,7,8) [unfolded 3]] show ?thesis unfolding 3 .
  qed
qed

theorem options_string_properties_witness:
  "\<exists>x' m' m''. put_Language sample_platform 0x50 sample_options [0x50 \<mapsto> [42, 46]] = Some (S_OK, x', m') \<and>
     get_Language sample_platform True x' m' = Some (S_OK, Some 0x200, m'') \<and> m'' 0x200 = Some [42, 46]"
proof -
  let ?m = "[0x50 \<mapsto> [42, 46]] :: wmem" and ?x = "sample_options\<lparr>m_Language := \<lparr>s_ptr = 0x100\<rparr>\<rparr>"
  have p: "put_Language sample_platform 0x50 sample_options ?m = Some (S_OK, ?x, ?m(0x100 \<mapsto> [42, 46]))"
    by (simp add: put_Language_def sample_options_def sample_platform_def MyString_Set_def MyString_Release_def MyString_new_def
        MakeString_def string_bytes_def two_blocks_def Let_def)
  have g: "get_Language sample_platform True ?x (?m(0x100 \<mapsto> [42, 46])) =
      Some (S_OK, Some 0x200, ?m(0x100 \<mapsto> [42, 46], 0x200 \<mapsto> [42, 46]))"
    by (simp add: get_Language_def sample_options_def sample_platform_def MyString_Copy_def MakeString_def string_bytes_def
        two_blocks_def MyString_Get_def)
  have i: "(get_Language, put_Language, m_Language) \<in> set string_properties" by (simp add: string_properties_def)
  from options_string_properties [OF i sample_fresh sample_error _ _ _ p g] p g show ?thesis
    by (simp add: sample_options_def MyString_new_def)
qed

text \<open>The options object counts its registrations: a successful \<^verbatim>\<open>SetCustomSchemeRegistrations\<close>
  raises the counter of each registration by the number of times it is in the array and nothing else;
  releasing them brings every registration back to where it was.\<close>

theorem registrations_counted:
  assumes "options w p = Some x" and "m_customSchemeRegistrations x = nullptr" and "fits rs w" and "length rs < 2 ^ 32"
    and "pointer_alloc pf (pointers w) (8 * of_nat (length rs)) = a" and "a \<noteq> nullptr"
  shows "\<exists>w' w''. SetCustomSchemeRegistrations pf rs p w = Some (S_OK, w') \<and>
    registrations w' = (\<lambda>q. map_option (\<lambda>r. r\<lparr>r_refCount := r_refCount r + of_nat (count_list rs q)\<rparr>) (registrations w q)) \<and>
    ReleaseCustomSchemeRegistrations p w' = Some w'' \<and> registrations w'' = registrations w"
proof -
  let ?x = "x\<lparr>m_customSchemeRegistrations := a\<rparr>"
  let ?y = "x\<lparr>m_customSchemeRegistrations := a, m_customSchemeRegistrationsCount := of_nat (length rs)\<rparr>"
  let ?v = "put_options p (Some ?x) w\<lparr>pointers := (pointers w)(a \<mapsto> rs)\<rparr>"
  have live: "\<forall>r \<in> set rs. registrations ?v r \<noteq> None" using assms(3) by (auto simp: fits_def)
  have ad: "addref_all rs ?v = Some (bump (count_list rs) ?v)"
    using addref_all_bump [OF live, of "\<lambda>q. 0"] by simp
  have set: "SetCustomSchemeRegistrations pf rs p w = Some (S_OK, put_options p (Some ?y) (bump (count_list rs) ?v))"
    using assms ad by (simp add: SetCustomSchemeRegistrations_def ReleaseCustomSchemeRegistrations_def Let_def)
  have "fits rs ?v" using assms(3) by (simp add: fits_def)
  from release_all_bump [OF this]
  have rel: "release_all rs (put_options p (Some ?y) (bump (count_list rs) ?v)) = Some (put_options p (Some ?y) ?v)"
    by (simp add: release_all_options)
  have "unat (of_nat (length rs) :: 32 word) = length rs" using assms(4) by (simp add: unat_of_nat)
  then have "\<exists>w''. ReleaseCustomSchemeRegistrations p (put_options p (Some ?y) (bump (count_list rs) ?v)) = Some w'' \<and>
      registrations w'' = registrations w"
    using rel assms(6) by (simp add: ReleaseCustomSchemeRegistrations_def Let_def)
  with set show ?thesis by (auto simp: bump_def)
qed

theorem registrations_counted_witness:
  "\<exists>w' w''. SetCustomSchemeRegistrations sample_platform [0x10] 0x20 sample_oworld = Some (S_OK, w') \<and>
     registrations w' 0x10 = Some (sample_registration\<lparr>r_refCount := 2\<rparr>) \<and>
     ReleaseCustomSchemeRegistrations 0x20 w' = Some w'' \<and> registrations w'' = registrations sample_oworld"
proof -
  have f: "fits [0x10] sample_oworld" by (simp add: fits_def sample_oworld_def sample_registration_def)
  have x: "options sample_oworld 0x20 = Some sample_options" by (simp add: sample_oworld_def)
  from registrations_counted [OF x _ f, of sample_platform "0x900"] show ?thesis
    by (auto simp: sample_options_def sample_platform_def sample_oworld_def sample_registration_def)
qed

text \<open>An allocation failure in \<^verbatim>\<open>SetCustomSchemeRegistrations\<close> can look like success: it returns
  the error code itself and not an \<^verbatim>\<open>HRESULT\<close> made from it, and every positive code passes
  \<^verbatim>\<open>SUCCEEDED\<close>, unlike the conversion the other operations use.\<close>

theorem registrations_failure_unseen:
  assumes "options w p = Some x" and "m_customSchemeRegistrations x = nullptr"
    and "pointer_alloc pf (pointers w) (8 * of_nat (length rs)) = nullptr" and "0 < sint (GetLastError pf)"
  shows "\<exists>hr w'. SetCustomSchemeRegistrations pf rs p w = Some (hr, w') \<and> SUCCEEDED hr \<and> \<not> FAILED hr \<and>
    registrations w' = registrations w \<and> FAILED (HRESULT_FROM_WIN32 (GetLastError pf))"
  using assms positive_code_SUCCEEDED [OF assms(4)] HRESULT_FROM_WIN32_FAILED [OF assms(4)]
  by (auto simp: SetCustomSchemeRegistrations_def ReleaseCustomSchemeRegistrations_def Let_def FAILED_iff_not_SUCCEEDED)

theorem registrations_failure_unseen_witness:
  "\<exists>hr w'. SetCustomSchemeRegistrations (sample_platform\<lparr>pointer_alloc := \<lambda>ps n. 0\<rparr>) [0x10] 0x20 sample_oworld = Some (hr, w') \<and>
     SUCCEEDED hr"
  using registrations_failure_unseen [of sample_oworld "0x20" sample_options "sample_platform\<lparr>pointer_alloc := \<lambda>ps n. 0\<rparr>" "[0x10]"]
  by (auto simp: sample_oworld_def sample_options_def sample_platform_def)

end
