(* ===== verification/WebView.thy ===== *)
theory WebView
  imports EnvOptions HandlerProps
begin

text \<open>
  \<^verbatim>\<open>builtin/goc/webview2.cpp\<close>: the operations the program calls on a browser, their dispatcher and
  the wrappers declared in \<^verbatim>\<open>cside.h\<close>. The state joins the option and registration objects, the
  browsers and handlers, and the caller's memory: byte strings, and the variables that receive a browser
  pointer. \<open>None\<close> is a call through a null pointer, to a destroyed object or past a buffer.
\<close>

section \<open>State\<close>

record vworld =
  ow :: oworld
  hw :: hworld
  bytes :: "uintptr \<Rightarrow> byte list"
  slots :: "uintptr \<Rightarrow> uintptr"
  libraries :: "event list"

text \<open>The engine's library and views. \<open>create_environment\<close> answers the entry point for the data folder, the
  options and the handler with its result and whether it keeps the handler; \<open>keeps_options\<close> says whether it
  keeps the options.\<close>

record host =
  LoadLibrary :: "byte list \<Rightarrow> uintptr"
  GetProcAddress :: "uintptr \<Rightarrow> uintptr"
  create_environment :: "wchar list \<Rightarrow> uintptr \<Rightarrow> uintptr \<Rightarrow> HRESULT \<times> bool"
  keeps_options :: bool
  options_address :: uintptr
  registration_address :: uintptr
  plat :: platform
  eng :: engine
  mbstowcs :: "byte list \<Rightarrow> wchar list"
  put_Bounds :: "uintptr \<Rightarrow> 32 word \<Rightarrow> 32 word \<Rightarrow> HRESULT"
  view_Navigate :: "uintptr \<Rightarrow> wchar list \<Rightarrow> HRESULT"
  view_NavigateToString :: "uintptr \<Rightarrow> wchar list \<Rightarrow> HRESULT"
  view_ExecuteScript :: "uintptr \<Rightarrow> wchar list \<Rightarrow> HRESULT"
  get_Source :: "uintptr \<Rightarrow> HRESULT \<times> uintptr"
  ShowPrintUI :: "uintptr \<Rightarrow> 32 word \<Rightarrow> HRESULT"
  MoveFocus :: "uintptr \<Rightarrow> 32 word \<Rightarrow> HRESULT"

definition log_call :: "event \<Rightarrow> vworld \<Rightarrow> vworld" where
  "log_call e w = w\<lparr>hw := emit e (hw w)\<rparr>"

definition FreeLibrary :: "uintptr \<Rightarrow> vworld \<Rightarrow> vworld" where
  "FreeLibrary h w = w\<lparr>libraries := libraries w @ [Free h]\<rparr>"

section \<open>Creating a browser\<close>

definition suneido_scheme :: "wchar list" where
  "suneido_scheme = map (of_nat \<circ> of_char) ''suneido''"

definition CreateWebView2 ::
  "host \<Rightarrow> uintptr \<Rightarrow> uintptr \<Rightarrow> byte list \<Rightarrow> byte list \<Rightarrow> uintptr \<Rightarrow> vworld \<Rightarrow> (HRESULT \<times> vworld) option" where
  "CreateWebView2 ho window ppBrowserObject dllPath userDataFolder cb w =
     (let hWebView2Loader = LoadLibrary ho dllPath in
      if hWebView2Loader = nullptr then Some (result_code DLL_NOT_FOUND, w)
      else let w = w\<lparr>libraries := libraries w @ [Alloc hWebView2Loader 0]\<rparr> in
      if GetProcAddress ho hWebView2Loader = nullptr
      then Some (result_code PROC_NOT_FOUND, FreeLibrary hWebView2Loader w)
      else do {
        let opt = options_address ho;
        let reg = registration_address ho;
        let x = Registration_new (plat ho) reg suneido_scheme (Options_new (plat ho) opt (ow w));
        (result, x) \<leftarrow> SetCustomSchemeRegistrations (plat ho) [reg] opt x;
        if FAILED result
        then do {
          (_, x) \<leftarrow> Options_Release opt x;
          (_, x) \<leftarrow> Registration_Release reg x;
          Some (result, FreeLibrary hWebView2Loader (w\<lparr>ow := x\<rparr>)) }
        else do {
          (_, x) \<leftarrow> Registration_Release reg x;
          let userDataFolder_w = ConvertCharToWChar (mbstowcs ho) userDataFolder;
          (result, b, y) \<leftarrow> start_environment (eng ho)
             (create_environment ho userDataFolder_w opt) window cb (hw w);
          x \<leftarrow> (if keeps_options ho then do { (_, x) \<leftarrow> Options_AddRef opt x; Some x } else Some x);
          (_, x) \<leftarrow> Options_Release opt x;
          Some (result, FreeLibrary hWebView2Loader
             (w\<lparr>ow := x, hw := y, slots := (slots w)(ppBrowserObject := b)\<rparr>)) } })"

section \<open>Operations on a browser\<close>

definition Close :: "uintptr \<Rightarrow> vworld \<Rightarrow> (HRESULT \<times> vworld) option" where
  "Close p w = do { (n, y) \<leftarrow> owner_close p (hw w); Some (n, w\<lparr>hw := y\<rparr>) }"

definition Resize :: "host \<Rightarrow> uintptr \<Rightarrow> 32 word \<Rightarrow> 32 word \<Rightarrow> vworld \<Rightarrow> (HRESULT \<times> vworld) option" where
  "Resize ho p width height w =
     do { b \<leftarrow> browsers (hw w) p;
          if controller b = nullptr then Some (result_code NOT_READY, w)
          else Some (put_Bounds ho (controller b) width height,
                     log_call (Call ''put_Bounds'' [controller b, 0, 0, ucast width, ucast height]) w) }"

definition Navigate :: "host \<Rightarrow> uintptr \<Rightarrow> byte list \<Rightarrow> vworld \<Rightarrow> (HRESULT \<times> vworld) option" where
  "Navigate ho p s w =
     do { b \<leftarrow> browsers (hw w) p;
          if controller b = nullptr then Some (result_code NOT_READY, w)
          else do {
            let convertedChars = ConvertCharToWChar (mbstowcs ho) s;
            deref (webview2 b);
            Some (view_Navigate ho (webview2 b) convertedChars,
                  log_call (Call ''Navigate'' (webview2 b # map ucast convertedChars)) w) } }"

definition NavigateToString :: "host \<Rightarrow> uintptr \<Rightarrow> byte list \<Rightarrow> vworld \<Rightarrow> (HRESULT \<times> vworld) option" where
  "NavigateToString ho p s w =
     do { b \<leftarrow> browsers (hw w) p;
          if controller b = nullptr then Some (result_code NOT_READY, w)
          else do {
            let convertedChars = ConvertCharToWChar (mbstowcs ho) s;
            deref (webview2 b);
            Some (view_NavigateToString ho (webview2 b) convertedChars,
                  log_call (Call ''NavigateToString'' (webview2 b # map ucast convertedChars)) w) } }"

definition ExecuteScript :: "host \<Rightarrow> uintptr \<Rightarrow> byte list \<Rightarrow> vworld \<Rightarrow> (HRESULT \<times> vworld) option" where
  "ExecuteScript ho p script w =
     do { b \<leftarrow> browsers (hw w) p;
          if controller b = nullptr then Some (result_code NOT_READY, w)
          else do {
            let convertedChars = ConvertCharToWChar (mbstowcs ho) script;
            deref (webview2 b);
            Some (view_ExecuteScript ho (webview2 b) convertedChars,
                  log_call (Call ''ExecuteScript'' (webview2 b # map ucast convertedChars)) w) } }"

definition MAX_PATH :: nat where
  "MAX_PATH = 260"

text \<open>\<^verbatim>\<open>strncpy\<close> into a buffer: the characters of the source up to its terminator, then zeros, \<open>n\<close>
  bytes in all.\<close>

definition strncpy :: "byte list \<Rightarrow> byte list \<Rightarrow> nat \<Rightarrow> byte list option" where
  "strncpy dst src n =
     (if length dst < n then None
      else Some (take n (takeWhile (\<lambda>c. c \<noteq> 0) src @ replicate n 0) @ drop n dst))"

definition GetSource :: "host \<Rightarrow> uintptr \<Rightarrow> uintptr \<Rightarrow> vworld \<Rightarrow> (HRESULT \<times> vworld) option" where
  "GetSource ho p dst w =
     do { b \<leftarrow> browsers (hw w) p;
          if controller b = nullptr then Some (result_code NOT_READY, w)
          else do {
            deref (webview2 b);
            let (result, uri) = get_Source ho (webview2 b);
            let w = (if SUCCEEDED result \<and> uri \<noteq> nullptr then log_call (Alloc uri 0) w else w);
            if SUCCEEDED result
            then do {
              let converted = ConvertWcharToChar (WideCharToMultiByte (eng ho))
                                (if uri = nullptr then None else Some (wide_string (eng ho) uri));
              let w = (if uri \<noteq> nullptr then log_call (Free uri) w else w);
              src \<leftarrow> converted;
              d \<leftarrow> strncpy (bytes w dst) src MAX_PATH;
              Some (result, w\<lparr>bytes := (bytes w)(dst := d)\<rparr>) }
            else Some (result, w) } }"

definition DoPrint :: "host \<Rightarrow> uintptr \<Rightarrow> vworld \<Rightarrow> (HRESULT \<times> vworld) option" where
  "DoPrint ho p w =
     do { b \<leftarrow> browsers (hw w) p;
          if controller b = nullptr then Some (result_code NOT_READY, w)
          else do {
            deref (webview2 b);
            let (result, webview2_16) = wv_QueryInterface (eng ho) (webview2 b) IID_ICoreWebView2_16;
            let w = w\<lparr>hw := got_object result webview2_16 (hw w)\<rparr>;
            if FAILED result \<or> webview2_16 = nullptr then Some (result, w)
            else (let kind = COREWEBVIEW2_PRINT_DIALOG_KIND_value COREWEBVIEW2_PRINT_DIALOG_KIND_BROWSER in
                  Some (ShowPrintUI ho webview2_16 kind,
                        log_call (Release webview2_16) (log_call (Call ''ShowPrintUI'' [webview2_16, ucast kind]) w))) } }"

definition SetFocus :: "host \<Rightarrow> uintptr \<Rightarrow> vworld \<Rightarrow> (HRESULT \<times> vworld) option" where
  "SetFocus ho p w =
     do { b \<leftarrow> browsers (hw w) p;
          if controller b = nullptr then Some (result_code NOT_READY, w)
          else (let reason = COREWEBVIEW2_MOVE_FOCUS_REASON_value COREWEBVIEW2_MOVE_FOCUS_REASON_PROGRAMMATIC in
                Some (MoveFocus ho (controller b) reason,
                      log_call (Call ''MoveFocus'' [controller b, ucast reason]) w)) }"

section \<open>The dispatcher and the wrappers\<close>

definition op_code :: "webview2_ops \<Rightarrow> uintptr" where
  "op_code o1 = of_nat (webview2_ops_value o1)"

definition WebView2 ::
  "host \<Rightarrow> uintptr \<Rightarrow> uintptr \<Rightarrow> uintptr \<Rightarrow> uintptr \<Rightarrow> uintptr \<Rightarrow> uintptr \<Rightarrow> vworld \<Rightarrow> (HRESULT \<times> vworld) option" where
  "WebView2 ho op arg1 arg2 arg3 arg4 arg5 w =
     (if op = op_code webview2_create then CreateWebView2 ho arg1 arg2 (bytes w arg3) (bytes w arg4) arg5 w
      else if op = op_code webview2_close then Close arg1 w
      else if op = op_code webview2_resize then Resize ho arg1 (ucast arg2) (ucast arg3) w
      else if op = op_code webview2_navigate then Navigate ho arg1 (bytes w arg2) w
      else if op = op_code webview2_navigate_to_string then NavigateToString ho arg1 (bytes w arg2) w
      else if op = op_code webview2_execute_script then ExecuteScript ho arg1 (bytes w arg2) w
      else if op = op_code webview2_get_source then GetSource ho arg1 arg2 w
      else if op = op_code webview2_print then DoPrint ho arg1 w
      else if op = op_code webview2_set_focus then SetFocus ho arg1 w
      else Some (result_code INVALID_OP, w))"

definition WebView2_Create ::
  "host \<Rightarrow> uintptr \<Rightarrow> uintptr \<Rightarrow> uintptr \<Rightarrow> uintptr \<Rightarrow> uintptr \<Rightarrow> vworld \<Rightarrow> (HRESULT \<times> vworld) option" where
  "WebView2_Create ho window ppBrowserObject dllPath userDataFolder cb w =
     CreateWebView2 ho window ppBrowserObject (bytes w dllPath) (bytes w userDataFolder) cb w"

definition WebView2_Resize :: "host \<Rightarrow> uintptr \<Rightarrow> 32 word \<Rightarrow> 32 word \<Rightarrow> vworld \<Rightarrow> (HRESULT \<times> vworld) option" where
  "WebView2_Resize ho p width height w = Resize ho p width height w"

definition WebView2_Navigate :: "host \<Rightarrow> uintptr \<Rightarrow> uintptr \<Rightarrow> vworld \<Rightarrow> (HRESULT \<times> vworld) option" where
  "WebView2_Navigate ho p s w = Navigate ho p (bytes w s) w"

definition WebView2_NavigateToString :: "host \<Rightarrow> uintptr \<Rightarrow> uintptr \<Rightarrow> vworld \<Rightarrow> (HRESULT \<times> vworld) option" where
  "WebView2_NavigateToString ho p s w = NavigateToString ho p (bytes w s) w"

definition WebView2_ExecuteScript :: "host \<Rightarrow> uintptr \<Rightarrow> uintptr \<Rightarrow> vworld \<Rightarrow> (HRESULT \<times> vworld) option" where
  "WebView2_ExecuteScript ho p script w = ExecuteScript ho p (bytes w script) w"

definition WebView2_GetSource :: "host \<Rightarrow> uintptr \<Rightarrow> uintptr \<Rightarrow> vworld \<Rightarrow> (HRESULT \<times> vworld) option" where
  "WebView2_GetSource ho p dst w = GetSource ho p dst w"

definition WebView2_Print :: "host \<Rightarrow> uintptr \<Rightarrow> vworld \<Rightarrow> (HRESULT \<times> vworld) option" where
  "WebView2_Print ho p w = DoPrint ho p w"

definition WebView2_SetFocus :: "host \<Rightarrow> uintptr \<Rightarrow> vworld \<Rightarrow> (HRESULT \<times> vworld) option" where
  "WebView2_SetFocus ho p w = SetFocus ho p w"

definition WebView2_Close :: "uintptr \<Rightarrow> vworld \<Rightarrow> (HRESULT \<times> vworld) option" where
  "WebView2_Close p w = Close p w"

section \<open>Lemmas\<close>

lemma op_codes:
  "op_code webview2_create = 0" "op_code webview2_close = 1" "op_code webview2_resize = 2" "op_code webview2_navigate = 3"
  "op_code webview2_navigate_to_string = 4" "op_code webview2_execute_script = 5" "op_code webview2_get_source = 6"
  "op_code webview2_print = 7" "op_code webview2_set_focus = 8"
  by (simp_all add: op_code_def)

lemma log_call_sels [simp]:
  "hw (log_call e w) = emit e (hw w)" "ow (log_call e w) = ow w" "bytes (log_call e w) = bytes w"
  "slots (log_call e w) = slots w" "libraries (log_call e w) = libraries w"
  by (simp_all add: log_call_def)

lemma FreeLibrary_sels [simp]:
  "hw (FreeLibrary h w) = hw w" "ow (FreeLibrary h w) = ow w" "slots (FreeLibrary h w) = slots w"
  "libraries (FreeLibrary h w) = libraries w @ [Free h]"
  by (simp_all add: FreeLibrary_def)

lemma strncpy_short:
  assumes "length (takeWhile (\<lambda>c. c \<noteq> 0) src) < n" "n \<le> length dst"
  obtains d where "strncpy dst src n = Some d" "takeWhile (\<lambda>c. c \<noteq> 0) d = takeWhile (\<lambda>c. c \<noteq> 0) src" "0 \<in> set (take n d)"
proof -
  let ?s = "takeWhile (\<lambda>c. c \<noteq> 0) src"
  obtain k where k: "n = length ?s + Suc k" using assms(1) less_iff_Suc_add by auto
  have t: "take n (?s @ replicate n 0) = ?s @ 0 # replicate k 0"
    using k by (simp add: min_def)
  let ?d = "take n (?s @ replicate n 0) @ drop n dst"
  have all: "\<forall>c \<in> set ?s. c \<noteq> 0" by (auto dest: set_takeWhileD)
  have "takeWhile (\<lambda>c. c \<noteq> 0) (?s @ 0 # ys) = ?s" for ys
    using takeWhile_append2 [of ?s "\<lambda>c. c \<noteq> 0" "0 # ys"] all by simp
  then have "takeWhile (\<lambda>c. c \<noteq> 0) ?d = ?s" unfolding t by simp
  moreover have "0 \<in> set (take n ?d)" using k t by simp
  ultimately show thesis using that [of ?d] assms(2) by (simp add: strncpy_def)
qed

lemma strncpy_long:
  assumes "n \<le> length (takeWhile (\<lambda>c. c \<noteq> 0) src)" "strncpy dst src n = Some d"
  shows "0 \<notin> set (take n d)"
proof -
  have "take n d = take n (takeWhile (\<lambda>c. c \<noteq> 0) src)" using assms by (auto simp: strncpy_def split: if_splits)
  then show ?thesis by (auto dest!: in_set_takeD set_takeWhileD)
qed

text \<open>The option objects of \<^verbatim>\<open>CreateWebView2\<close>: once created, handed over and given up, they live on only
  with the engine's reference.\<close>

lemma options_handed_over:
  fixes opt reg
  assumes a: "pointer_alloc pf (pointers x) 8 = a" "a \<noteq> nullptr"
  defines "x0 \<equiv> Registration_new pf reg suneido_scheme (Options_new pf opt x)"
  shows "\<exists>x1 x2 n. SetCustomSchemeRegistrations pf [reg] opt x0 = Some (S_OK, x1) \<and>
    Registration_Release reg x1 = Some (n, x2) \<and>
    (\<exists>x3 m. Options_Release opt x2 = Some (m, x3) \<and> options x3 opt = None \<and> registrations x3 reg = None) \<and>
    (\<exists>x3 x4 m k o' r'. Options_AddRef opt x2 = Some (m, x3) \<and> Options_Release opt x3 = Some (k, x4) \<and>
       options x4 opt = Some o' \<and> o_refCount o' = 1 \<and> registrations x4 reg = Some r' \<and> r_refCount r' = 1)"
proof -
  obtain s1 m1 where m1: "MakeString (string_alloc pf) CORE_WEBVIEW_TARGET_PRODUCT_VERSION (mem x) = (s1, m1)" by fastforce
  obtain s2 m2 where m2: "MakeString (string_alloc pf) suneido_scheme m1 = (s2, m2)" by fastforce
  show ?thesis
    by (simp add: x0_def Registration_new_def Options_new_def SetCustomSchemeRegistrations_def
        ReleaseCustomSchemeRegistrations_def Registration_AddRef_def Registration_Release_def Options_Release_def
        Options_AddRef_def Options_delete_def Registration_delete_def ReleaseAllowedOrigins_def Let_def
        put_options_def put_registration_def m1 m2 a)
qed

text \<open>What starting an environment returns: the new browser, and the engine's answer for the new handler.\<close>

definition first_handler :: "engine \<Rightarrow> uintptr \<Rightarrow> uintptr \<Rightarrow> hworld \<Rightarrow> uintptr" where
  "first_handler en wnd cb w =
     (let b = new_address en w in new_address en (MyBrowserObject_new b wnd cb (w\<lparr>owners := insert b (owners w)\<rparr>)))"

lemma start_result:
  "start_environment en create wnd cb w = Some (r, b, w') \<Longrightarrow>
     b = new_address en w \<and> r = fst (create (first_handler en wnd cb w))"
  by (auto simp: start_environment_def first_handler_def Let_def split: bind_splits prod.splits)

lemma create_run:
  assumes "LoadLibrary ho dll \<noteq> nullptr" and "GetProcAddress ho (LoadLibrary ho dll) \<noteq> nullptr"
    and "pointer_alloc (plat ho) (pointers (ow w)) 8 \<noteq> nullptr"
    and "consistent (hw w)" and "room 2 (hw w)" and "fresh_new (eng ho)"
  shows "\<exists>r w' b. CreateWebView2 ho window pp dll folder cb w = Some (r, w') \<and> consistent (hw w') \<and>
    slots w' pp = b \<and> owners (hw w') = insert b (owners (hw w)) \<and> b \<notin> owners (hw w) \<and>
    r = fst (create_environment ho (ConvertCharToWChar (mbstowcs ho) folder) (options_address ho)
          (first_handler (eng ho) window cb (hw w))) \<and>
    libraries w' = libraries w @ [Alloc (LoadLibrary ho dll) 0, Free (LoadLibrary ho dll)] \<and>
    (if keeps_options ho
     then (\<exists>o' r'. options (ow w') (options_address ho) = Some o' \<and> o_refCount o' = 1 \<and>
             registrations (ow w') (registration_address ho) = Some r' \<and> r_refCount r' = 1)
     else options (ow w') (options_address ho) = None \<and> registrations (ow w') (registration_address ho) = None)"
proof -
  let ?f = "ConvertCharToWChar (mbstowcs ho) folder"
  obtain r b y where y: "start_environment (eng ho) (create_environment ho ?f (options_address ho)) window cb (hw w) = Some (r, b, y)"
      "consistent y" "owners y = insert b (owners (hw w))" "b \<notin> owners (hw w)"
    using start_consistent [OF assms(4,5,6)] by blast
  note r = start_result [OF y(1), THEN conjunct2]
  obtain x1 x2 n where x: "SetCustomSchemeRegistrations (plat ho) [registration_address ho] (options_address ho)
        (Registration_new (plat ho) (registration_address ho) suneido_scheme (Options_new (plat ho) (options_address ho) (ow w)))
        = Some (S_OK, x1)" "Registration_Release (registration_address ho) x1 = Some (n, x2)"
      and dies: "\<exists>x3 m. Options_Release (options_address ho) x2 = Some (m, x3) \<and> options x3 (options_address ho) = None \<and>
        registrations x3 (registration_address ho) = None"
      and lives: "\<exists>x3 x4 m k o' r'. Options_AddRef (options_address ho) x2 = Some (m, x3) \<and>
        Options_Release (options_address ho) x3 = Some (k, x4) \<and> options x4 (options_address ho) = Some o' \<and>
        o_refCount o' = 1 \<and> registrations x4 (registration_address ho) = Some r' \<and> r_refCount r' = 1"
    using options_handed_over [OF refl assms(3), of "registration_address ho" "options_address ho"] by blast
  show ?thesis
  proof (cases "keeps_options ho")
    case True
    with lives assms(1,2) x y r show ?thesis by (auto simp: CreateWebView2_def Let_def)
  next
    case False
    with dies assms(1,2) x y r show ?thesis by (auto simp: CreateWebView2_def Let_def)
  qed
qed

section \<open>A concrete host\<close>

definition sample_host :: host where
  "sample_host = \<lparr>LoadLibrary = \<lambda>s. 0x1000, GetProcAddress = \<lambda>h. 0x2000,
     create_environment = \<lambda>f x h. (S_OK, True), keeps_options = False,
     options_address = 0x20, registration_address = 0x10,
     plat = sample_platform, eng = sample_engine, mbstowcs = map ucast,
     put_Bounds = \<lambda>c x y. S_OK, view_Navigate = \<lambda>v s. S_OK, view_NavigateToString = \<lambda>v s. S_OK,
     view_ExecuteScript = \<lambda>v s. S_OK, get_Source = \<lambda>v. (S_OK, 0x80), ShowPrintUI = \<lambda>v k. S_OK, MoveFocus = \<lambda>c r. S_OK\<rparr>"

text \<open>A browser that is ready and a buffer of \<^verbatim>\<open>MAX_PATH\<close> bytes.\<close>

definition ready_world :: vworld where
  "ready_world = \<lparr>ow = \<lparr>registrations = Map.empty, arrays = Map.empty, pointers = Map.empty, mem = Map.empty,
       options = Map.empty\<rparr>,
     hw = initial_world\<lparr>browsers := [0x100 \<mapsto> \<lparr>controller = 0x20, webview2 = 0x30, hwnd = 7, onCallBackFn = 9, refCount = 1\<rparr>],
       owners := {0x100}\<rparr>,
     bytes = \<lambda>a. if a = 0x900 then replicate MAX_PATH 1 else [], slots = \<lambda>a. 0, libraries = []\<rparr>"

definition empty_world :: vworld where
  "empty_world = ready_world\<lparr>hw := initial_world\<rparr>"

section \<open>Properties\<close>

text \<open>The dispatcher and the wrappers are the same interface: for each operation code the dispatcher does
  what the wrapper of that name does with the arguments in order, sizes cut to 32 bits, and any other code
  changes nothing and returns \<^verbatim>\<open>INVALID_OP\<close>.\<close>

theorem dispatch_agrees:
  "WebView2 ho 0 a b c d e w = WebView2_Create ho a b c d e w \<and>
   WebView2 ho 1 a b c d e w = WebView2_Close a w \<and>
   WebView2 ho 2 a b c d e w = WebView2_Resize ho a (ucast b) (ucast c) w \<and>
   WebView2 ho 3 a b c d e w = WebView2_Navigate ho a b w \<and>
   WebView2 ho 4 a b c d e w = WebView2_NavigateToString ho a b w \<and>
   WebView2 ho 5 a b c d e w = WebView2_ExecuteScript ho a b w \<and>
   WebView2 ho 6 a b c d e w = WebView2_GetSource ho a b w \<and>
   WebView2 ho 7 a b c d e w = WebView2_Print ho a w \<and>
   WebView2 ho 8 a b c d e w = WebView2_SetFocus ho a w \<and>
   (8 < op \<longrightarrow> WebView2 ho op a b c d e w = Some (result_code INVALID_OP, w))"
proof -
  have "op \<notin> {0, 1, 2, 3, 4, 5, 6, 7, 8}" if "8 < op" using that by (auto simp: word_less_nat_alt)
  then show ?thesis
    by (simp add: WebView2_def op_codes WebView2_Create_def WebView2_Close_def WebView2_Resize_def WebView2_Navigate_def
        WebView2_NavigateToString_def WebView2_ExecuteScript_def WebView2_GetSource_def WebView2_Print_def WebView2_SetFocus_def)
qed


text \<open>Before the browser is ready nothing happens: on a browser without a controller each of the seven
  operations returns \<^verbatim>\<open>NOT_READY\<close> and changes nothing.\<close>

theorem not_ready:
  assumes "browsers (hw w) p = Some b" and "controller b = nullptr"
  shows "list_all (\<lambda>f. f w = Some (result_code NOT_READY, w))
    [Resize ho p x y, Navigate ho p s, NavigateToString ho p s, ExecuteScript ho p s, GetSource ho p d, DoPrint ho p,
     SetFocus ho p]"
  using assms by (simp add: Resize_def Navigate_def NavigateToString_def ExecuteScript_def GetSource_def DoPrint_def SetFocus_def)


theorem not_ready_witness:
  "list_all (\<lambda>f. f (ready_world\<lparr>hw := event_world\<rparr>) = Some (result_code NOT_READY, ready_world\<lparr>hw := event_world\<rparr>))
    [Resize sample_host 0x100 5 6, Navigate sample_host 0x100 [65], NavigateToString sample_host 0x100 [65],
     ExecuteScript sample_host 0x100 [65], GetSource sample_host 0x100 0x900, DoPrint sample_host 0x100, SetFocus sample_host 0x100]"
  by (rule not_ready [of _ _ "\<lparr>controller = 0, webview2 = 0, hwnd = 7, onCallBackFn = 9, refCount = 3\<rparr>"])
    (simp_all add: event_world_def)

theorem dispatch_agrees_witness:
  "WebView2 sample_host 9 1 2 3 4 5 ready_world = Some (result_code INVALID_OP, ready_world)"
  using dispatch_agrees [of sample_host 1 2 3 4 5 ready_world 9] by (simp add: word_less_nat_alt)

text \<open>Creating a browser. With the library, the entry point and memory at hand, the call has a result and
  leaves a browser that the program owns, with every browser and handler still correctly counted; the library
  is freed, and the options and the registration are destroyed unless the engine keeps the options, in which
  case each has exactly the one reference that keeps it.\<close>

theorem create_browser:
  assumes "LoadLibrary ho dll \<noteq> nullptr" and "GetProcAddress ho (LoadLibrary ho dll) \<noteq> nullptr"
    and "pointer_alloc (plat ho) (pointers (ow w)) 8 \<noteq> nullptr"
    and "consistent (hw w)" and "room 2 (hw w)" and "fresh_new (eng ho)"
  shows "\<exists>r w'. CreateWebView2 ho window pp dll folder cb w = Some (r, w') \<and> consistent (hw w') \<and>
    slots w' pp \<in> owners (hw w') \<and>
    libraries w' = libraries w @ [Alloc (LoadLibrary ho dll) 0, Free (LoadLibrary ho dll)] \<and>
    (if keeps_options ho
     then (\<exists>o' r'. options (ow w') (options_address ho) = Some o' \<and> o_refCount o' = 1 \<and>
             registrations (ow w') (registration_address ho) = Some r' \<and> r_refCount r' = 1)
     else options (ow w') (options_address ho) = None \<and> registrations (ow w') (registration_address ho) = None)"
  using create_run [OF assms, of window pp folder cb] by (elim exE conjE) (intro exI conjI; (assumption | simp))

theorem create_browser_witness:
  "\<exists>r w'. CreateWebView2 sample_host 7 0x700 [65] [66] 9 empty_world = Some (r, w') \<and> slots w' 0x700 \<in> owners (hw w') \<and>
     options (ow w') 0x20 = None \<and> registrations (ow w') 0x10 = None"
proof -
  have f: "fresh_new (eng sample_host)" using good_engineD(1) [OF sample_engine_good] by (simp add: sample_host_def)
  have c: "consistent (hw empty_world)" "room 2 (hw empty_world)"
    using initial_consistent by (simp_all add: empty_world_def room_def)
  from create_browser [OF _ _ _ c f, of "[65]" 7 "0x700" "[66]" 9] show ?thesis
    by (auto simp: sample_host_def sample_platform_def)
qed

text \<open>When the engine cannot be loaded nothing is left behind: a missing library is
  \<^verbatim>\<open>DLL_NOT_FOUND\<close> and changes nothing; a missing entry point is \<^verbatim>\<open>PROC_NOT_FOUND\<close>, with the
  library freed and no object created.\<close>

theorem create_failures:
  "(LoadLibrary ho dll = nullptr \<longrightarrow>
     CreateWebView2 ho window pp dll folder cb w = Some (result_code DLL_NOT_FOUND, w)) \<and>
   (LoadLibrary ho dll = h \<and> h \<noteq> nullptr \<and> GetProcAddress ho h = nullptr \<longrightarrow>
     CreateWebView2 ho window pp dll folder cb w =
       Some (result_code PROC_NOT_FOUND, w\<lparr>libraries := libraries w @ [Alloc h 0, Free h]\<rparr>))"
  by (auto simp: CreateWebView2_def FreeLibrary_def Let_def)

theorem create_failures_witness:
  "CreateWebView2 (sample_host\<lparr>GetProcAddress := \<lambda>h. 0\<rparr>) 7 0x700 [65] [66] 9 empty_world =
     Some (result_code PROC_NOT_FOUND, empty_world\<lparr>libraries := libraries empty_world @ [Alloc 0x1000 0, Free 0x1000]\<rparr>)"
  using create_failures [of "sample_host\<lparr>GetProcAddress := \<lambda>h. 0\<rparr>" "[65]" 7 "0x700" "[66]" 9 empty_world "0x1000"]
  by (simp add: sample_host_def)

text \<open>The address of the page. When the engine gives it and the buffer has \<^verbatim>\<open>MAX_PATH\<close> bytes, an
  address whose text is shorter than that arrives complete and terminated; a longer one leaves the buffer
  without a terminator. The engine's string is freed in both cases.\<close>

theorem source_copied:
  assumes "browsers (hw w) p = Some b" and "controller b \<noteq> nullptr" and "webview2 b \<noteq> nullptr"
    and "get_Source ho (webview2 b) = (S_OK, uri)" and "uri \<noteq> nullptr"
    and "WideCharToMultiByte (eng ho) (wide_string (eng ho) uri) = str" and "str \<noteq> []"
    and "MAX_PATH \<le> length (bytes w dst)"
  shows "\<exists>w'. GetSource ho p dst w = Some (S_OK, w') \<and> allocated (trace (hw w')) uri = allocated (trace (hw w)) uri \<and>
    (if length (takeWhile (\<lambda>c. c \<noteq> 0) str) < MAX_PATH
     then takeWhile (\<lambda>c. c \<noteq> 0) (bytes w' dst) = takeWhile (\<lambda>c. c \<noteq> 0) str \<and> 0 \<in> set (take MAX_PATH (bytes w' dst))
     else 0 \<notin> set (take MAX_PATH (bytes w' dst)))"
proof -
  obtain d where d: "strncpy (bytes w dst) str MAX_PATH = Some d" using assms(8) by (simp add: strncpy_def)
  have c: "ConvertWcharToChar (WideCharToMultiByte (eng ho)) (Some (wide_string (eng ho) uri)) = Some str"
    using assms(6,7) by (simp add: ConvertWcharToChar_def)
  have "\<exists>w'. GetSource ho p dst w = Some (S_OK, w') \<and> bytes w' dst = d \<and>
      allocated (trace (hw w')) uri = allocated (trace (hw w)) uri"
    using assms(1-5) d c by (auto simp: GetSource_def deref_def Let_def)
  moreover have "if length (takeWhile (\<lambda>c. c \<noteq> 0) str) < MAX_PATH
     then takeWhile (\<lambda>c. c \<noteq> 0) d = takeWhile (\<lambda>c. c \<noteq> 0) str \<and> 0 \<in> set (take MAX_PATH d)
     else 0 \<notin> set (take MAX_PATH d)"
    using strncpy_short [OF _ assms(8), of str] strncpy_long [OF _ d] d by auto
  ultimately show ?thesis by auto
qed

theorem source_copied_witness:
  "\<exists>w'. GetSource sample_host 0x100 0x900 ready_world = Some (S_OK, w') \<and>
     takeWhile (\<lambda>c. c \<noteq> 0) (bytes w' 0x900) = map ucast suneidoPrefix @ [97]"
proof -
  have t: "takeWhile (\<lambda>c. c \<noteq> 0) (map ucast (suneidoPrefix @ [97]) @ [0 :: byte]) = map ucast suneidoPrefix @ [97]"
    by (simp add: suneidoPrefix_def)
  have l: "length (map ucast suneidoPrefix @ [97] :: byte list) < MAX_PATH" by (simp add: suneidoPrefix_def MAX_PATH_def)
  show ?thesis
    using source_copied [of ready_world "0x100" "\<lparr>controller = 0x20, webview2 = 0x30, hwnd = 7, onCallBackFn = 9, refCount = 1\<rparr>"
        sample_host "0x80" "map ucast (suneidoPrefix @ [97]) @ [0]" "0x900"] t l
    by (auto simp: ready_world_def sample_host_def sample_sels)
qed

end
