(* ===== verification/ComObject.thy ===== *)
theory ComObject
  imports GoSide
begin

text \<open>
  \<^verbatim>\<open>builtin/comobject_wingui.go\<close>: COM objects as values of the language, the caller of \<open>ComGlue\<close>.
  Values are converted to variants and back, a call passes its arguments in reverse, and each object
  value stands for one counted reference. A panic of the interpreter is a result of
  its own, with the constant part of its message.
\<close>

section \<open>Values and variants\<close>

text \<open>The values the conversion distinguishes; \<open>SuInt\<close> is any number with an integer value of the machine.\<close>

datatype su_value = SuBool bool | SuInt int | SuStr "byte list" | SuCOMObject uintptr bool | SuOther

fun ToInt :: "su_value \<Rightarrow> int option" where
  "ToInt (SuBool b) = (if b then None else Some 0)"
| "ToInt (SuInt n) = Some n"
| "ToInt (SuStr s) = (if s = [] then Some 0 else None)"
| "ToInt _ = None"

fun ToStr :: "su_value \<Rightarrow> byte list option" where
  "ToStr (SuStr s) = Some s"
| "ToStr _ = None"

definition VT_EMPTY :: "16 word" where "VT_EMPTY = 0"
definition VT_NULL :: "16 word" where "VT_NULL = 1"
definition VT_I2 :: "16 word" where "VT_I2 = 2"
definition VT_I4 :: "16 word" where "VT_I4 = 3"
definition VT_DISPATCH :: "16 word" where "VT_DISPATCH = 9"
definition VT_BOOL :: "16 word" where "VT_BOOL = 11"
definition VT_UNKNOWN :: "16 word" where "VT_UNKNOWN = 13"
definition VT_UI2 :: "16 word" where "VT_UI2 = 18"
definition VT_UI4 :: "16 word" where "VT_UI4 = 19"
definition VT_I8 :: "16 word" where "VT_I8 = 20"
definition VT_UI8 :: "16 word" where "VT_UI8 = 21"

lemmas VT_defs = VT_EMPTY_def VT_NULL_def VT_I2_def VT_I4_def VT_BSTR_def VT_DISPATCH_def VT_BOOL_def VT_UNKNOWN_def
  VT_UI2_def VT_UI4_def VT_I8_def VT_UI8_def

text \<open>\<^verbatim>\<open>runtime.Pinner.Pin\<close> takes a value of any type and panics unless its type is a pointer type.\<close>

datatype go_any = GoPointer uintptr | GoUintptr uintptr

fun Pin :: "go_any \<Rightarrow> string + unit" where
  "Pin (GoPointer _) = Inr ()"
| "Pin (GoUintptr _) = Inl ''runtime.Pinner: argument is not a pointer: uintptr''"

text \<open>\<open>pin s\<close> is the address of the copy of a string with its terminator.\<close>

definition suToVariant :: "(byte list \<Rightarrow> uintptr) \<Rightarrow> su_value \<Rightarrow> string + VARIANT" where
  "suToVariant pin x =
     (if x = SuBool True then Inr \<lparr>vt = VT_BOOL, val = - 1\<rparr>
      else if x = SuBool False then Inr \<lparr>vt = VT_BOOL, val = 0\<rparr>
      else case ToInt x of
        Some n \<Rightarrow> Inr \<lparr>vt = (if - (2 ^ 31) \<le> n \<and> n \<le> 2 ^ 31 - 1 then VT_I4 else VT_I8), val = word_of_int n\<rparr>
      | None \<Rightarrow> (case ToStr x of
          Some s \<Rightarrow> map_sum id (\<lambda>_. \<lparr>vt = VT_BSTR, val = pin (zstr s)\<rparr>) (Pin (GoPointer (pin (zstr s))))
        | None \<Rightarrow> (case x of
            SuCOMObject p idisp \<Rightarrow>
              map_sum id (\<lambda>_. \<lparr>vt = (if idisp then VT_DISPATCH else VT_UNKNOWN), val = p\<rparr>) (Pin (GoUintptr p))
          | _ \<Rightarrow> Inl ''COMobject can't convert'')))"

text \<open>The arguments of a call, last one first; element \<open>i\<close> of the result has its own copy. The first panic
  ends the loop.\<close>

fun all_ok :: "('e + 'a) list \<Rightarrow> 'e + 'a list" where
  "all_ok [] = Inr []"
| "all_ok (Inl e # xs) = Inl e"
| "all_ok (Inr x # xs) = map_sum id ((#) x) (all_ok xs)"

definition convertArgs :: "(nat \<Rightarrow> byte list \<Rightarrow> uintptr) \<Rightarrow> su_value list \<Rightarrow> string + VARIANT list" where
  "convertArgs pin args =
     all_ok (map (\<lambda>i. suToVariant (pin i) (args ! (length args - i - 1))) [0..<length args])"

text \<open>A reference to an \<^verbatim>\<open>IUnknown\<close> is exchanged for one to its \<^verbatim>\<open>IDispatch\<close>, if there is one.\<close>

definition to_dispatch :: "(uintptr \<Rightarrow> guid \<Rightarrow> HRESULT \<times> uintptr) \<Rightarrow> (uintptr \<Rightarrow> ULONG) \<Rightarrow> uintptr \<Rightarrow> su_value \<times> event list" where
  "to_dispatch query rel iunk =
     (case queryIDispatch query iunk of (idisp, es) \<Rightarrow>
        if idisp \<noteq> 0 then (SuCOMObject idisp True, es @ snd (release rel iunk))
        else (SuCOMObject iunk False, es))"

text \<open>\<open>bstr p\<close> is the string at \<open>p\<close> decoded from UTF-16. \<^verbatim>\<open>VariantClear\<close> frees it.\<close>

definition variantToSu ::
  "(uintptr \<Rightarrow> guid \<Rightarrow> HRESULT \<times> uintptr) \<Rightarrow> (uintptr \<Rightarrow> ULONG) \<Rightarrow> (uintptr \<Rightarrow> byte list) \<Rightarrow> VARIANT
     \<Rightarrow> (string + su_value) \<times> event list" where
  "variantToSu query rel bstr v =
     (if vt v = VT_NULL \<or> vt v = VT_EMPTY then (Inr (SuInt 0), [])
      else if vt v = VT_BOOL then (Inr (SuBool (val v \<noteq> 0)), [])
      else if vt v = VT_I2 then (Inr (SuInt (sint (ucast (val v) :: 16 word))), [])
      else if vt v = VT_I4 then (Inr (SuInt (sint (ucast (val v) :: 32 word))), [])
      else if vt v = VT_I8 then (Inr (SuInt (sint (val v))), [])
      else if vt v = VT_UI2 then (Inr (SuInt (uint (ucast (val v) :: 16 word))), [])
      else if vt v = VT_UI4 then (Inr (SuInt (uint (ucast (val v) :: 32 word))), [])
      else if vt v = VT_UI8 then (Inr (SuInt (sint (val v))), [])
      else if vt v = VT_BSTR
      then (if val v = 0 then (Inr (SuStr []), []) else (Inr (SuStr (bstr (val v))), [Free (val v)]))
      else if vt v = VT_DISPATCH then (Inr (SuCOMObject (val v) True), [])
      else if vt v = VT_UNKNOWN then (case to_dispatch query rel (val v) of (x, es) \<Rightarrow> (Inr x, es))
      else (Inl ''COMobject: can't convert to Suneido value'', []))"

section \<open>Objects and calls\<close>

text \<open>The C string at the start of a buffer, as \<open>ComGlue\<close> takes it.\<close>

definition c_string :: "byte list \<Rightarrow> string" where
  "c_string b = map (char_of \<circ> unat) (takeWhile (\<lambda>x. x \<noteq> 0) b)"

text \<open>The copy of the program identifier ends in two null bytes.\<close>

definition go_CreateInstance ::
  "(string \<Rightarrow> HRESULT \<times> guid) \<Rightarrow> (guid \<Rightarrow> guid \<Rightarrow> HRESULT \<times> uintptr) \<Rightarrow> byte list \<Rightarrow> uintptr \<times> event list" where
  "go_CreateInstance CLSIDFromProgID CoCreateInstance progid =
     (let buf = progid @ drop (length progid) (replicate (length progid + 2) 0) in
      createInstance CLSIDFromProgID CoCreateInstance (c_string buf))"

definition COMobject ::
  "(uintptr \<Rightarrow> guid \<Rightarrow> HRESULT \<times> uintptr) \<Rightarrow> (uintptr \<Rightarrow> ULONG) \<Rightarrow> (string \<Rightarrow> HRESULT \<times> guid)
     \<Rightarrow> (guid \<Rightarrow> guid \<Rightarrow> HRESULT \<times> uintptr) \<Rightarrow> su_value \<Rightarrow> (string + su_value) \<times> event list" where
  "COMobject query rel CLSIDFromProgID CoCreateInstance arg =
     (case ToInt arg of
        Some n \<Rightarrow> (case to_dispatch query rel (word_of_int n) of (x, es) \<Rightarrow> (Inr x, es))
      | None \<Rightarrow> (case ToStr arg of
          Some s \<Rightarrow> (case go_CreateInstance CLSIDFromProgID CoCreateInstance s of (idisp, es) \<Rightarrow>
             (Inr (if idisp = 0 then SuBool False else SuCOMObject idisp True), es))
        | None \<Rightarrow> (Inl ''COMobject requires integer or string'', [])))"

definition DISPATCH_METHOD :: uintptr where "DISPATCH_METHOD = 1"
definition DISPATCH_PROPERTYGET :: uintptr where "DISPATCH_PROPERTYGET = 2"
definition DISPATCH_PROPERTYPUT :: uintptr where "DISPATCH_PROPERTYPUT = 4"

text \<open>\<open>stored\<close> is what the object leaves in the result variant for the arguments it is given; the Go side sees the C
  \<^verbatim>\<open>long\<close> as a signed number.\<close>

definition go_invoke ::
  "disp_world \<Rightarrow> (uintptr \<Rightarrow> guid \<Rightarrow> HRESULT \<times> uintptr) \<Rightarrow> (uintptr \<Rightarrow> ULONG) \<Rightarrow> (uintptr \<Rightarrow> byte list)
     \<Rightarrow> (nat \<Rightarrow> byte list \<Rightarrow> uintptr) \<Rightarrow> (VARIANT list \<Rightarrow> VARIANT) \<Rightarrow> uintptr \<Rightarrow> byte list \<Rightarrow> uintptr \<Rightarrow> su_value list
     \<Rightarrow> (string + su_value option) \<times> event list" where
  "go_invoke w query rel bstr pin stored idisp name flags args =
     (case convertArgs pin args of
        Inl e \<Rightarrow> (Inl e, [])
      | Inr vs \<Rightarrow>
          (case invoke w idisp (c_string (zstr name)) flags vs of (hr, vs', es) \<Rightarrow>
             if sint hr < 0 then (Inl ''COMobject failed'', es)
             else if flags = DISPATCH_PROPERTYPUT then (Inr None, es)
             else case variantToSu query rel bstr (stored vs') of (r, es') \<Rightarrow>
               (map_sum id Some r, es @ es')))"

text \<open>The operations of an object value; only \<^verbatim>\<open>IDispatch\<close> objects have properties and methods.\<close>

definition com_Release :: "(uintptr \<Rightarrow> ULONG) \<Rightarrow> uintptr \<Rightarrow> su_value \<times> event list" where
  "com_Release rel p = (case release rel p of (n, es) \<Rightarrow> (SuInt (sint n), es))"

definition com_DispatchQ :: "bool \<Rightarrow> su_value" where
  "com_DispatchQ idisp = SuBool idisp"

definition com_Get where
  "com_Get w query rel bstr pin stored p idisp mem =
     (if \<not> idisp then (Inl ''COMobject can't get property of IUnknown'', [])
      else go_invoke w query rel bstr pin stored p mem DISPATCH_PROPERTYGET [])"

definition com_Put where
  "com_Put w query rel bstr pin stored p idisp mem value =
     (if \<not> idisp then (Inl ''COMobject can't put property of IUnknown'', [])
      else go_invoke w query rel bstr pin stored p mem DISPATCH_PROPERTYPUT [value])"

text \<open>An updating assignment: the old value, the operation, the new value stored; a panic of either half ends it.\<close>

definition com_GetPut where
  "com_GetPut w query rel bstr pin stored p idisp mem value op retOrig =
     (case com_Get w query rel bstr pin stored p idisp mem of
        (Inl e, es) \<Rightarrow> (Inl e, es)
      | (Inr orig, es) \<Rightarrow>
          (let v = op orig value in
           case com_Put w query rel bstr pin stored p idisp mem v of
             (Inl e, es') \<Rightarrow> (Inl e, es @ es')
           | (Inr _, es') \<Rightarrow> (Inr (if retOrig then orig else Some v), es @ es')))"

definition com_call where
  "com_call w query rel bstr pin stored p idisp method plain args =
     (if \<not> idisp then (Inl ''COMobject can't call method of IUnknown'', [])
      else if \<not> plain then (Inl ''COMobject invalid call arguments'', [])
      else go_invoke w query rel bstr pin stored p method DISPATCH_METHOD args)"

section \<open>Lemmas\<close>

lemma all_ok_Inr: "all_ok xs = Inr ys \<longleftrightarrow> xs = map Inr ys"
proof (induction xs arbitrary: ys rule: all_ok.induct)
  case (3 x xs)
  then show ?case by (cases ys; cases "all_ok xs") auto
qed auto

lemma all_ok_Inl: "(\<exists>e. all_ok xs = Inl e) \<longleftrightarrow> (\<exists>e. Inl e \<in> set xs)"
proof (induction xs rule: all_ok.induct)
  case (3 x xs)
  then show ?case by (cases "all_ok xs") auto
qed auto

lemma convertArgs_nth:
  assumes "convertArgs pin args = Inr vs"
  shows "length vs = length args" "i < length args \<Longrightarrow> suToVariant (pin i) (args ! (length args - i - 1)) = Inr (vs ! i)"
proof -
  from assms have e: "map (\<lambda>i. suToVariant (pin i) (args ! (length args - i - 1))) [0..<length args] = map Inr vs"
    by (simp add: convertArgs_def all_ok_Inr)
  from arg_cong [OF e, of length] show l: "length vs = length args" by simp
  from arg_cong [OF e, of "\<lambda>xs. xs ! i"] l
  show "i < length args \<Longrightarrow> suToVariant (pin i) (args ! (length args - i - 1)) = Inr (vs ! i)" by simp
qed

lemma sint_small:
  assumes "- (2 ^ 31) \<le> n" "n < 2 ^ 31"
  shows "sint (ucast (word_of_int n :: 64 word) :: 32 word) = n"
proof -
  have "(ucast (word_of_int n :: 64 word) :: 32 word) = word_of_int n"
    by (simp add: ucast_eq uint_word_of_int word_of_int_eq_iff take_bit_eq_mod mod_mod_cancel)
  then show ?thesis using assms by (simp add: sint_word_ariths sint_sbintrunc' signed_take_bit_int_eq_self)
qed

lemma word_of_int_range:
  assumes "- (2 ^ 63) \<le> n" "n < 2 ^ 63"
  shows "sint (word_of_int n :: 64 word) = n"
  using assms by (simp add: sint_sbintrunc' signed_take_bit_int_eq_self)

lemma suToVariant_object: "\<exists>e. suToVariant pin (SuCOMObject p d) = Inl e"
  by (simp add: suToVariant_def)

text \<open>The reference behind an \<^verbatim>\<open>IUnknown\<close> moves to the value that stands for it.\<close>

lemma to_dispatch_owns:
  assumes "to_dispatch query rel iunk = (x, es)" and "q \<noteq> 0"
  shows "\<exists>p d. x = SuCOMObject p d \<and> held es q + one_on iunk q = one_on p q"
    and "no_over_release (one_on iunk) es"
  using assms
  by (auto simp: to_dispatch_def queryIDispatch_def release_def acquired_def one_on_def FAILED_iff_not_SUCCEEDED split: prod.splits if_splits)

lemma createInstance_owns:
  assumes "createInstance f g s = (p, es)" and "q \<noteq> 0"
  shows "held es q = one_on p q"
  using assms by (auto simp: createInstance_def acquired_def one_on_def split: prod.splits if_splits)

lemma no_strings:
  assumes "\<forall>v \<in> set vs. vt v \<noteq> VT_BSTR"
  shows "convert_args m al i vs = (vs, [])" "free_args vs = []"
  using assms by (induction vs arbitrary: i) (simp_all add: convert_arg_def Let_def)

text \<open>Values that are neither strings nor objects: truth values and the numbers of the machine.\<close>

fun plain :: "su_value \<Rightarrow> bool" where
  "plain (SuBool b) = True"
| "plain (SuInt n) = (- (2 ^ 63) \<le> n \<and> n < 2 ^ 63)"
| "plain _ = False"

lemma plain_variant:
  assumes "plain x"
  obtains v where "\<And>pin. suToVariant pin x = Inr v" "vt v \<noteq> VT_BSTR" "\<And>q r b. variantToSu q r b v = (Inr x, [])"
proof (cases x)
  case (SuBool b)
  show thesis
    by (rule that [of "\<lparr>vt = VT_BOOL, val = if b then - 1 else 0\<rparr>"])
      (auto simp: SuBool suToVariant_def variantToSu_def VT_defs)
next
  case (SuInt n)
  with assms have "- (2 ^ 63) \<le> n" "n < 2 ^ 63" by auto
  then show thesis
    using word_of_int_range [of n] sint_small [of n]
    by (intro that [of "\<lparr>vt = (if - (2 ^ 31) \<le> n \<and> n < 2 ^ 31 then VT_I4 else VT_I8), val = word_of_int n\<rparr>"])
      (auto simp: SuInt suToVariant_def variantToSu_def VT_defs)
qed (use assms in auto)

lemma plain_args:
  assumes "list_all plain args"
  obtains vs where "convertArgs pin args = Inr vs" "\<forall>v \<in> set vs. vt v \<noteq> VT_BSTR"
    "\<And>q r b. map (variantToSu q r b) vs = map (\<lambda>x. (Inr x, [])) (rev args)"
proof -
  let ?P = "\<lambda>x v. (\<forall>pin. suToVariant pin x = Inr v) \<and> vt v \<noteq> VT_BSTR \<and> (\<forall>q r b. variantToSu q r b v = (Inr x, []))"
  have "\<exists>v. ?P x v" if "x \<in> set args" for x
    using plain_variant [of x] assms that by (metis list_all_iff)
  then obtain f where f: "\<And>x. x \<in> set args \<Longrightarrow> ?P x (f x)" by metis
  have "map (\<lambda>i. suToVariant (pin i) (args ! (length args - i - 1))) [0..<length args] = map Inr (map f (rev args))"
    by (rule nth_equalityI) (auto simp: rev_nth f)
  then show thesis
    using f by (intro that [of "map f (rev args)"]) (auto simp: convertArgs_def all_ok_Inr)
qed

section \<open>Properties\<close>

text \<open>C31: a value survives the way into a variant and back: truth values and every number of the machine's
  64-bit range come back unchanged, small numbers in a 32-bit variant and the others in a 64-bit one, and
  nothing is called.\<close>

theorem variant_roundtrip:
  assumes "- (2 ^ 63) \<le> n" and "n < 2 ^ 63"
  shows "\<exists>v. suToVariant pin (SuInt n) = Inr v \<and> vt v = (if - (2 ^ 31) \<le> n \<and> n < 2 ^ 31 then VT_I4 else VT_I8) \<and>
    variantToSu query rel bstr v = (Inr (SuInt n), []) \<and>
    (\<exists>v. suToVariant pin (SuBool b) = Inr v \<and> variantToSu query rel bstr v = (Inr (SuBool b), []))"
  using sint_small [of n] word_of_int_range [OF assms]
  by (cases b) (auto simp: suToVariant_def variantToSu_def VT_defs)

theorem variant_roundtrip_witness:
  "\<exists>v. suToVariant (\<lambda>s. 0) (SuInt (- 3000000000)) = Inr v \<and> vt v = VT_I8 \<and>
    variantToSu (\<lambda>p i. (0, 0)) (\<lambda>p. 0) (\<lambda>p. []) v = (Inr (SuInt (- 3000000000)), [])"
  using variant_roundtrip [of "- 3000000000" "\<lambda>s. 0" "\<lambda>p i. (0, 0)" "\<lambda>p. 0" "\<lambda>p. []" True] by auto

text \<open>C30: a call reaches the object with its arguments in reverse order and unchanged. For any number of truth
  values and numbers and a name the object knows, the object is called exactly once, with one variant per
  argument that reads back as that argument; a failure code becomes a panic and otherwise the caller gets the
  object's answer.\<close>

theorem call_arguments:
  assumes "list_all plain args" and "p \<noteq> 0"
    and "GetIDsOfNames w p (c_string (zstr method)) = (hr, dispid)" and "SUCCEEDED hr"
  shows "\<exists>vs. map (variantToSu query rel bstr) vs = map (\<lambda>x. (Inr x, [])) (rev args) \<and>
    com_call w query rel bstr pin stored p True method True args =
      (if sint (Invoke w p dispid 1 vs) < 0 then (Inl ''COMobject failed'', [Call ''Invoke'' [p, ucast dispid]])
       else (map_sum id Some (fst (variantToSu query rel bstr (stored vs))),
             Call ''Invoke'' [p, ucast dispid] # snd (variantToSu query rel bstr (stored vs))))"
proof -
  obtain vs where vs: "convertArgs pin args = Inr vs" "\<forall>v \<in> set vs. vt v \<noteq> VT_BSTR"
    "map (variantToSu query rel bstr) vs = map (\<lambda>x. (Inr x, [])) (rev args)"
    using plain_args [OF assms(1), of pin] by metis
  then show ?thesis
    using assms(2-4) no_strings [OF vs(2)]
    by (intro exI [of _ vs])
      (simp add: com_call_def go_invoke_def invoke_def invoke2_def DISPATCH_METHOD_def DISPATCH_PROPERTYPUT_def
        FAILED_iff_not_SUCCEEDED case_prod_beta)
qed

theorem call_arguments_witness:
  "com_call \<lparr>GetIDsOfNames = (\<lambda>_ _. (0, 5)), MultiByteToWideChar = (\<lambda>_. 4), SysAllocStringLen = (\<lambda>_ _. 64), Invoke = (\<lambda>_ _ _ _. 0)\<rparr>
      (\<lambda>p i. (0, 0)) (\<lambda>p. 0) (\<lambda>p. []) (\<lambda>i s. 0) hd 9 True [65] True [SuInt 7, SuBool True]
    = (Inr (Some (SuBool True)), [Call ''Invoke'' [9, 5]])"
proof -
  have "\<exists>vs. map (variantToSu (\<lambda>p i. (0, 0)) (\<lambda>p. 0) (\<lambda>p. [])) vs = map (\<lambda>x. (Inr x, [])) (rev [SuInt 7, SuBool True]) \<and>
    com_call \<lparr>GetIDsOfNames = (\<lambda>_ _. (0, 5)), MultiByteToWideChar = (\<lambda>_. 4), SysAllocStringLen = (\<lambda>_ _. 64), Invoke = (\<lambda>_ _ _ _. 0)\<rparr>
      (\<lambda>p i. (0, 0)) (\<lambda>p. 0) (\<lambda>p. []) (\<lambda>i s. 0) hd 9 True [65] True [SuInt 7, SuBool True]
    = (map_sum id Some (fst (variantToSu (\<lambda>p i. (0, 0)) (\<lambda>p. 0) (\<lambda>p. []) (hd vs))),
       Call ''Invoke'' [9, ucast (5 :: 32 word)] # snd (variantToSu (\<lambda>p i. (0, 0)) (\<lambda>p. 0) (\<lambda>p. []) (hd vs)))"
    using call_arguments [of "[SuInt 7, SuBool True]" 9
      "\<lparr>GetIDsOfNames = (\<lambda>_ _. (0, 5)), MultiByteToWideChar = (\<lambda>_. 4), SysAllocStringLen = (\<lambda>_ _. 64), Invoke = (\<lambda>_ _ _ _. 0)\<rparr>"
      "[65]" 0 5 "\<lambda>p i. (0, 0)" "\<lambda>p. 0" "\<lambda>p. []" "\<lambda>i s. 0" hd]
    by simp
  then show ?thesis by auto
qed

text \<open>C39: a COM object cannot be passed to another: with an object among the arguments the call, a property
  assignment included, panics before anything is called, because what is pinned is the address as a number.\<close>

theorem object_argument_refused:
  assumes "SuCOMObject q d \<in> set args"
  shows "\<exists>e. go_invoke w query rel bstr pin stored p name flags args = (Inl e, [])"
proof -
  obtain i where i: "i < length args" "args ! i = SuCOMObject q d" using assms by (auto simp: in_set_conv_nth)
  let ?j = "length args - i - 1"
  have j: "?j < length args" "args ! (length args - ?j - 1) = SuCOMObject q d" using i by auto
  obtain e where "suToVariant (pin ?j) (args ! (length args - ?j - 1)) = Inl e"
    using suToVariant_object [of "pin ?j" q d] j(2) by auto
  with j(1) have "\<exists>e. convertArgs pin args = Inl e"
    unfolding convertArgs_def all_ok_Inl by (force simp: image_iff)
  then show ?thesis by (auto simp: go_invoke_def)
qed

theorem object_argument_refused_witness:
  "\<exists>e. go_invoke \<lparr>GetIDsOfNames = (\<lambda>_ _. (0, 5)), MultiByteToWideChar = (\<lambda>_. 4), SysAllocStringLen = (\<lambda>_ _. 64), Invoke = (\<lambda>_ _ _ _. 0)\<rparr>
     (\<lambda>p i. (0, 0)) (\<lambda>p. 0) (\<lambda>p. []) (\<lambda>i s. 0) hd 9 [65] 1 [SuInt 1, SuCOMObject 8 True] = (Inl e, [])"
  by (rule object_argument_refused [of 8 True]) simp

text \<open>C32: an object value stands for exactly one reference. Made from a reference the caller owns or from a
  program identifier, it holds one reference to its own pointer and the caller's is gone; releasing it leaves
  none, and no reference is given back that was not owned.\<close>

theorem com_object_owns:
  fixes arg
  assumes "COMobject query rel f g arg = (Inr (SuCOMObject p d), es)" and "q \<noteq> 0"
  defines "own \<equiv> (case ToInt arg of Some n \<Rightarrow> one_on (word_of_int n) | None \<Rightarrow> (\<lambda>_. 0))"
  shows "own q + held es q = one_on p q \<and> own q + held (es @ snd (com_Release rel p)) q = 0 \<and>
    no_over_release own (es @ snd (com_Release rel p))"
proof -
  have o: "own q + held es q = one_on p q \<and> no_over_release own es" if "q \<noteq> 0" for q
  proof (cases "ToInt arg")
    case (Some n)
    then have t: "to_dispatch query rel (word_of_int n) = (SuCOMObject p d, es)"
      using assms(1) by (auto simp: COMobject_def split: prod.splits)
    from to_dispatch_owns [OF t that] Some show ?thesis by (auto simp: own_def)
  next
    case None
    then obtain s where "go_CreateInstance f g s = (p, es)"
      using assms(1) by (auto simp: COMobject_def split: option.splits prod.splits if_splits)
    then have c: "createInstance f g (c_string (s @ drop (length s) (replicate (length s + 2) 0))) = (p, es)"
      by (simp add: go_CreateInstance_def Let_def)
    from createInstance_owns [OF c that] None c show ?thesis
      by (auto simp: own_def createInstance_def acquired_def split: prod.splits if_splits)
  qed
  from o [OF assms(2)] o [of p] show ?thesis
    using assms(2) by (auto simp: com_Release_def release_def one_on_def split: prod.splits if_splits)
qed

theorem com_object_owns_witness:
  "COMobject (\<lambda>p i. (0, p + 8)) (\<lambda>p. 0) (\<lambda>s. (0, IID_IUnknown)) (\<lambda>c i. (0, 0)) (SuInt 16)
     = (Inr (SuCOMObject 24 True), [Acquire 24, Release 16]) \<and>
   no_over_release (one_on 16) [Acquire 24, Release 16, Release 24]"
proof -
  have e: "COMobject (\<lambda>p i. (0, p + 8)) (\<lambda>p. 0) (\<lambda>s. (0, IID_IUnknown)) (\<lambda>c i. (0, 0)) (SuInt 16)
     = (Inr (SuCOMObject 24 True), [Acquire 24, Release 16])"
    by (simp add: COMobject_def to_dispatch_def queryIDispatch_def release_def acquired_def FAILED_def)
  from com_object_owns [OF e, of 16] e show ?thesis by (simp add: com_Release_def release_def)
qed

end
