(* ===== verification/GoBrowser.thy ===== *)
theory GoBrowser
  imports WebBrowser ComObject
begin

text \<open>
  \<^verbatim>\<open>builtin/webbrowser_wingui.go\<close>: the Internet Explorer control as a value of the language, over
  \<open>WebBrowser\<close> and \<open>ComGlue\<close>. The value is an object value for the control's \<^verbatim>\<open>IDispatch\<close> together
  with the two pointers that detaching needs.
\<close>

section \<open>The value and its operations\<close>

record suWebBrowser =
  com_ptr :: uintptr
  com_idisp :: bool
  iOleObject :: uintptr
  wb_ptr :: uintptr

definition intRet :: "uintptr \<Rightarrow> su_value" where
  "intRet rtn = SuInt (sint rtn)"

text \<open>A C \<^verbatim>\<open>long\<close> becomes a Go \<^verbatim>\<open>uintptr\<close> by sign extension. The variables for the two results start as zero.\<close>

definition go_EmbedBrowserObject :: "ole_world \<Rightarrow> uintptr \<Rightarrow> host_state \<Rightarrow> (uintptr \<times> uintptr \<times> uintptr) \<times> host_state" where
  "go_EmbedBrowserObject w wnd s =
     (let s = s\<lparr>pBrowserObject := 0, pPtr := 0\<rparr>;
          (r, s) = EmbedBrowserObject w wnd s;
          ret = scast (word_of_int r :: 32 word) :: uintptr
      in ((ret, pBrowserObject s, pPtr s), s))"

definition go_UnEmbedBrowserObject :: "uintptr \<Rightarrow> uintptr \<Rightarrow> host_state \<Rightarrow> host_state" where
  "go_UnEmbedBrowserObject iunk ptr = UnEmbedBrowserObject iunk ptr"

definition WebBrowser_builtin ::
  "ole_world \<Rightarrow> (uintptr \<Rightarrow> guid \<Rightarrow> HRESULT \<times> uintptr) \<Rightarrow> uintptr \<Rightarrow> host_state
     \<Rightarrow> (su_value + suWebBrowser) \<times> host_state" where
  "WebBrowser_builtin w query wnd s =
     (case go_EmbedBrowserObject w wnd s of ((rtn, iunk, ptr), s) \<Rightarrow>
        if rtn \<noteq> 0 then (Inl (intRet rtn), s)
        else case queryIDispatch query iunk of (idisp, es) \<Rightarrow>
          (Inr \<lparr>com_ptr = idisp, com_idisp = True, iOleObject = iunk, wb_ptr = ptr\<rparr>, call_out es s))"

definition web_Release :: "(uintptr \<Rightarrow> ULONG) \<Rightarrow> suWebBrowser \<Rightarrow> host_state \<Rightarrow> host_state" where
  "web_Release rel wb s =
     go_UnEmbedBrowserObject (iOleObject wb) (wb_ptr wb) (call_out (snd (release rel (com_ptr wb))) s)"

definition web_GetIOleObject :: "suWebBrowser \<Rightarrow> su_value" where
  "web_GetIOleObject wb = SuInt (sint (iOleObject wb))"

section \<open>Lemmas\<close>

lemma embed_codes:
  assumes "EmbedBrowserObject w wnd s = (r, s')"
  shows "r \<in> {0, - 1, - 2, - 3, - 4}"
  using assms by (auto simp: embed_defs split: prod.splits if_splits)

lemma go_embed_codes:
  assumes "go_EmbedBrowserObject w wnd s = ((rtn, iunk, ptr), s')"
  obtains r where "EmbedBrowserObject w wnd (s\<lparr>pBrowserObject := 0, pPtr := 0\<rparr>) = (r, s')" "sint rtn = r" "rtn = 0 \<longleftrightarrow> r = 0"
    "iunk = pBrowserObject s'" "ptr = pPtr s'"
proof -
  obtain r s1 where e: "EmbedBrowserObject w wnd (s\<lparr>pBrowserObject := 0, pPtr := 0\<rparr>) = (r, s1)" by fastforce
  then have r: "rtn = scast (word_of_int r :: 32 word)" "s1 = s'" "iunk = pBrowserObject s'" "ptr = pPtr s'"
    using assms by (auto simp: go_EmbedBrowserObject_def Let_def)
  moreover have "sint rtn = r" "rtn = 0 \<longleftrightarrow> r = 0"
    using embed_codes [OF e] r(1) by auto
  ultimately show thesis using that e by simp
qed

lemma heap_release:
  "heap (web_Release rel wb s) q = (if q \<in> set (block_cells (wb_ptr wb)) then None else heap s q)"
  by (simp add: web_Release_def go_UnEmbedBrowserObject_def heap_of_UnEmbed)

lemma embed_failed_heap:
  assumes "EmbedBrowserObject w wnd s = (r, s')" and "r \<noteq> 0" and "\<forall>q \<in> set (block_cells (GlobalAlloc w 48)). heap s q = None"
  shows "heap s' = heap s"
proof
  fix q
  show "heap s' q = heap s q"
  proof (cases "q \<in> set (block_cells (GlobalAlloc w 48))")
    case True
    then have "heap s' q = None \<or> heap s' q = heap s q"
      using assms(1,2)
      by (auto simp: embed_defs heap_of_UnEmbed heap_of_GlobalFree simp del: outs_frame split: prod.splits if_splits)
    with True assms(3) show ?thesis by auto
  qed (use embed_frame [OF assms(1)] in simp)
qed

lemma embed_log:
  assumes "EmbedBrowserObject w wnd s = (0, s')"
  shows "\<exists>fs. log s' = log s @ fs \<and> held fs = one_on (pBrowserObject s') \<and> allocated fs = one_on (pPtr s') \<and>
    no_over_release (\<lambda>_. 0) fs"
  using assms by (auto simp: embed_defs alloc_block_def call_out_def one_on_def fun_eq_iff split: prod.splits if_splits)

text \<open>The dispatch reference, taken and given back.\<close>

lemma query_release:
  assumes "queryIDispatch query iunk = (idisp, es)"
  shows "held (es @ snd (release rel idisp)) p = 0" "allocated (es @ snd (release rel idisp)) p = 0"
    "(\<forall>p. 0 \<le> own p) \<Longrightarrow> no_over_release own (es @ snd (release rel idisp))"
  using assms
  by (auto simp: queryIDispatch_def acquired_def release_def FAILED_iff_not_SUCCEEDED split: prod.splits if_splits)

section \<open>Properties\<close>

text \<open>C10: the browser value of the language owns exactly what it was given and gives all of it back. A failed
  creation returns one of the four codes and leaves neither a reference nor a block nor a trace in
  memory; after a successful one, \<^verbatim>\<open>Release\<close> gives back the dispatch reference, the control and the
  block, and nothing is ever given back that is not owned.\<close>

theorem browser_value_lifecycle:
  assumes "WebBrowser_builtin w query wnd s = (x, s')"
    and "\<forall>q \<in> set (block_cells (GlobalAlloc w 48)). heap s q = None"
    and "s'' = (case x of Inl _ \<Rightarrow> s' | Inr wb \<Rightarrow> web_Release rel wb s')"
  shows "heap s'' = heap s \<and> held (new_events s s'') = (\<lambda>_. 0) \<and> allocated (new_events s s'') = (\<lambda>_. 0) \<and>
    no_over_release (\<lambda>_. 0) (new_events s s'') \<and> (\<forall>v. x = Inl v \<longrightarrow> v \<in> SuInt ` {- 4 .. - 1})"
proof -
  let ?s = "s\<lparr>pBrowserObject := 0, pPtr := 0\<rparr>"
  obtain rtn iunk ptr s1 where g: "go_EmbedBrowserObject w wnd s = ((rtn, iunk, ptr), s1)"
    by (metis surj_pair)
  obtain r where e: "EmbedBrowserObject w wnd ?s = (r, s1)" "sint rtn = r" "rtn = 0 \<longleftrightarrow> r = 0"
    "iunk = pBrowserObject s1" "ptr = pPtr s1"
    by (rule go_embed_codes [OF g])
  show ?thesis
  proof (cases "r = 0")
    case False
    with assms(1,3) g e have x: "x = Inl (SuInt r)" "s'' = s1" by (auto simp: WebBrowser_builtin_def intRet_def)
    have "heap s1 = heap s" using embed_failed_heap [OF e(1) False] assms(2) by simp
    moreover have "held (new_events s s1) = (\<lambda>_. 0) \<and> allocated (new_events s s1) = (\<lambda>_. 0) \<and> no_over_release (\<lambda>_. 0) (new_events s s1)"
      using e(1) False by (auto simp: embed_defs new_events_def fun_eq_iff split: prod.splits if_splits)
    moreover have "r \<in> {- 4 .. - 1}" using embed_codes [OF e(1)] False by auto
    ultimately show ?thesis using x by (auto simp: fun_eq_iff)
  next
    case True
    obtain idisp es where q: "queryIDispatch query iunk = (idisp, es)" by fastforce
    let ?wb = "\<lparr>com_ptr = idisp, com_idisp = True, iOleObject = iunk, wb_ptr = ptr\<rparr>"
    have x: "x = Inr ?wb" "s'' = web_Release rel ?wb (call_out es s1)"
      using assms(1,3) g e q True by (auto simp: WebBrowser_builtin_def)
    have "ptr = GlobalAlloc w 48" using e True by (auto simp: embed_defs split: prod.splits if_splits)
    then have "heap s'' q = heap s q" for q
      using assms(2) x embed_frame [OF e(1), of q] by (simp add: heap_release)
    moreover have "held (new_events s s'') = (\<lambda>_. 0) \<and> allocated (new_events s s'') = (\<lambda>_. 0) \<and> no_over_release (\<lambda>_. 0) (new_events s s'')"
    proof -
      obtain fs where fs: "log s1 = log ?s @ fs" "held fs = one_on iunk" "allocated fs = one_on ptr" "no_over_release (\<lambda>_. 0) fs"
        using embed_log [of w wnd ?s s1] e True by auto
      have "new_events s s'' = fs @ es @ snd (release rel idisp) @ [Call ''Close'' [iunk, OLECLOSE_NOSAVE], Release iunk, Free ptr]"
        using fs(1) x by (simp add: new_events_def web_Release_def go_UnEmbedBrowserObject_def UnEmbedBrowserObject_def call_out_def)
      with fs(2-4) query_release [OF q, where rel = rel] show ?thesis by (auto simp: fun_eq_iff one_on_def add.assoc)
    qed
    ultimately show ?thesis using x by (auto simp: fun_eq_iff)
  qed
qed

theorem browser_value_lifecycle_witness:
  "\<exists>wb s'. WebBrowser_builtin sample_ole (\<lambda>p i. (0, p + 64)) 5 sample_state = (Inr wb, s') \<and>
     com_ptr wb = 71 \<and> iOleObject wb = 7 \<and> wb_ptr wb = 0x1000 \<and>
     heap (web_Release (\<lambda>p. 0) wb s') = Map.empty \<and>
     (\<forall>q. held (new_events sample_state (web_Release (\<lambda>p. 0) wb s')) q = 0)"
proof -
  obtain x s' where e: "WebBrowser_builtin sample_ole (\<lambda>p i. (0, p + 64)) 5 sample_state = (x, s')" by fastforce
  then obtain wb where x: "x = Inr wb" "com_ptr wb = 71" "iOleObject wb = 7" "wb_ptr wb = 0x1000"
    by (auto simp: WebBrowser_builtin_def go_EmbedBrowserObject_def embed_defs sample_defs queryIDispatch_def FAILED_def)
  have "\<forall>q \<in> set (block_cells (GlobalAlloc sample_ole 48)). heap sample_state q = None"
    by (simp add: sample_state_def)
  from browser_value_lifecycle [OF e this refl] x e show ?thesis by (auto simp: sample_state_def fun_eq_iff)
qed

end
