(* ===== verification/GoBrowser2.thy ===== *)
theory GoBrowser2
  imports WebView GoBrowser
begin

text \<open>
  \<^verbatim>\<open>builtin/webbrowser2_wingui.go\<close>: the WebView2 browser as a value of the language, over the wrappers of
  \<open>WebView\<close>. The value is the browser pointer. Each operation copies its strings into Go memory with a
  terminator, calls the wrapper through \<^verbatim>\<open>goc.go\<close> and returns the result code as a number.
\<close>

section \<open>Constants\<close>

text \<open>The operation codes, numbered in the order of their declaration.\<close>

definition go_webview2_ops :: "webview2_ops list" where
  "go_webview2_ops = [webview2_create, webview2_close, webview2_resize, webview2_navigate,
     webview2_navigate_to_string, webview2_execute_script, webview2_get_source, webview2_print,
     webview2_set_focus]"

section \<open>Crossing the boundary\<close>

text \<open>The addresses at which Go keeps the copies of the first and second string, the buffer for a result and the
  variable that receives the browser pointer.\<close>

record go_memory =
  first_z :: uintptr
  second_z :: uintptr
  result_buf :: uintptr
  iunk_var :: uintptr

definition put_bytes :: "uintptr \<Rightarrow> byte list \<Rightarrow> vworld \<Rightarrow> vworld" where
  "put_bytes a b w = w\<lparr>bytes := (bytes w)(a := b)\<rparr>"

text \<open>A result code becomes a Go \<^verbatim>\<open>uintptr\<close> by sign extension.\<close>

definition go_ret :: "(HRESULT \<times> vworld) option \<Rightarrow> (uintptr \<times> vworld) option" where
  "go_ret = map_option (map_prod scast id)"


definition go_WebView2_Resize :: "host \<Rightarrow> uintptr \<Rightarrow> uintptr \<Rightarrow> uintptr \<Rightarrow> vworld \<Rightarrow> (uintptr \<times> vworld) option" where
  "go_WebView2_Resize ho p width height w = go_ret (WebView2_Resize ho p (ucast width) (ucast height) w)"

definition go_WebView2_Navigate :: "host \<Rightarrow> go_memory \<Rightarrow> uintptr \<Rightarrow> byte list \<Rightarrow> vworld \<Rightarrow> (uintptr \<times> vworld) option" where
  "go_WebView2_Navigate ho g p s w =
     go_ret (WebView2_Navigate ho p (first_z g) (put_bytes (first_z g) (zstr s) w))"

definition go_WebView2_NavigateToString ::
  "host \<Rightarrow> go_memory \<Rightarrow> uintptr \<Rightarrow> byte list \<Rightarrow> vworld \<Rightarrow> (uintptr \<times> vworld) option" where
  "go_WebView2_NavigateToString ho g p s w =
     go_ret (WebView2_NavigateToString ho p (first_z g) (put_bytes (first_z g) (zstr s) w))"

definition go_WebView2_ExecuteScript ::
  "host \<Rightarrow> go_memory \<Rightarrow> uintptr \<Rightarrow> byte list \<Rightarrow> vworld \<Rightarrow> (uintptr \<times> vworld) option" where
  "go_WebView2_ExecuteScript ho g p script w =
     go_ret (WebView2_ExecuteScript ho p (first_z g) (put_bytes (first_z g) (zstr script) w))"

definition go_WebView2_GetSource :: "host \<Rightarrow> uintptr \<Rightarrow> uintptr \<Rightarrow> vworld \<Rightarrow> (uintptr \<times> vworld) option" where
  "go_WebView2_GetSource ho p dst w = go_ret (WebView2_GetSource ho p dst w)"

definition go_WebView2_Print :: "host \<Rightarrow> uintptr \<Rightarrow> vworld \<Rightarrow> (uintptr \<times> vworld) option" where
  "go_WebView2_Print ho p w = go_ret (WebView2_Print ho p w)"

definition go_WebView2_SetFocus :: "host \<Rightarrow> uintptr \<Rightarrow> vworld \<Rightarrow> (uintptr \<times> vworld) option" where
  "go_WebView2_SetFocus ho p w = go_ret (WebView2_SetFocus ho p w)"


section \<open>The value and its operations\<close>


definition code :: "(uintptr \<times> vworld) option \<Rightarrow> (su_value \<times> vworld) option" where
  "code = map_option (map_prod intRet id)"


definition web2_Resize :: "host \<Rightarrow> uintptr \<Rightarrow> int \<Rightarrow> int \<Rightarrow> vworld \<Rightarrow> (su_value \<times> vworld) option" where
  "web2_Resize ho p width height w = code (go_WebView2_Resize ho p (word_of_int width) (word_of_int height) w)"

definition web2_Navigate :: "host \<Rightarrow> go_memory \<Rightarrow> uintptr \<Rightarrow> byte list \<Rightarrow> vworld \<Rightarrow> (su_value \<times> vworld) option" where
  "web2_Navigate ho g p s w = code (go_WebView2_Navigate ho g p s w)"

definition web2_NavigateToString :: "host \<Rightarrow> go_memory \<Rightarrow> uintptr \<Rightarrow> byte list \<Rightarrow> vworld \<Rightarrow> (su_value \<times> vworld) option" where
  "web2_NavigateToString ho g p s w = code (go_WebView2_NavigateToString ho g p s w)"

definition web2_ExecuteScript :: "host \<Rightarrow> go_memory \<Rightarrow> uintptr \<Rightarrow> byte list \<Rightarrow> vworld \<Rightarrow> (su_value \<times> vworld) option" where
  "web2_ExecuteScript ho g p script w = code (go_WebView2_ExecuteScript ho g p script w)"

text \<open>The part of a buffer before its first null byte, all of it when there is none.\<close>

definition bufZstr :: "byte list \<Rightarrow> su_value" where
  "bufZstr buf = SuStr (if 0 \<in> set buf then takeWhile (\<lambda>b. b \<noteq> 0) buf else buf)"

definition web2_GetSource :: "host \<Rightarrow> go_memory \<Rightarrow> uintptr \<Rightarrow> vworld \<Rightarrow> (su_value \<times> vworld) option" where
  "web2_GetSource ho g p w =
     do { let w = put_bytes (result_buf g) (replicate MAX_PATH 0) w;
          (rtn, w) \<leftarrow> go_WebView2_GetSource ho p (result_buf g) w;
          if rtn \<noteq> 0 then Some (SuStr [], w)
          else Some (bufZstr (bytes w (result_buf g)), w) }"

definition web2_Print :: "host \<Rightarrow> uintptr \<Rightarrow> vworld \<Rightarrow> (su_value \<times> vworld) option" where
  "web2_Print ho p w = code (go_WebView2_Print ho p w)"

definition web2_SetFocus :: "host \<Rightarrow> uintptr \<Rightarrow> vworld \<Rightarrow> (su_value \<times> vworld) option" where
  "web2_SetFocus ho p w = code (go_WebView2_SetFocus ho p w)"

section \<open>Lemmas\<close>

text \<open>Constants with the same name have the same value on both sides.\<close>

lemma ops_match: "webview2_ops_value op < length go_webview2_ops \<and> go_webview2_ops ! webview2_ops_value op = op"
  by (cases op) (simp_all add: go_webview2_ops_def)

lemma put_bytes_sels [simp]:
  "hw (put_bytes a b w) = hw w" "ow (put_bytes a b w) = ow w" "slots (put_bytes a b w) = slots w"
  "libraries (put_bytes a b w) = libraries w" "bytes (put_bytes a b w) = (bytes w)(a := b)"
  by (simp_all add: put_bytes_def)

text \<open>The caller sees the result code as the signed number it is.\<close>

lemma scast_code [simp]: "intRet (scast (hr :: HRESULT)) = SuInt (sint hr)" "(scast (hr :: HRESULT) = (0 :: uintptr)) \<longleftrightarrow> hr = 0"
proof -
  have s: "sint (scast hr :: uintptr) = sint hr" by (simp add: sint_up_scast is_up_def source_size_def target_size_def word_size)
  then show "intRet (scast (hr :: HRESULT)) = SuInt (sint hr)" by (simp add: intRet_def)
  show "(scast hr = (0 :: uintptr)) \<longleftrightarrow> hr = 0"
    using s by (metis scast_0 sint_0 signed_word_eqI)
qed

text \<open>What a buffer of exactly \<open>n\<close> bytes filled by \<^verbatim>\<open>strncpy\<close> is read as: the first \<open>n\<close> bytes of the text.\<close>

lemma strncpy_bufZstr:
  assumes "length dst = n" and "strncpy dst src n = Some d"
  shows "bufZstr d = SuStr (take n (takeWhile (\<lambda>c. c \<noteq> 0) src))"
proof -
  let ?s = "takeWhile (\<lambda>c. c \<noteq> 0) src"
  let ?t = "take n ?s" and ?k = "n - length ?s"
  have d: "d = ?t @ replicate ?k 0"
    using assms by (simp add: strncpy_def min_def)
  have s: "c \<noteq> 0" if "c \<in> set ?t" for c using that by (auto dest!: in_set_takeD set_takeWhileD)
  have "takeWhile (\<lambda>c. c \<noteq> 0) (?t @ replicate ?k 0) = ?t @ takeWhile (\<lambda>c. c \<noteq> 0) (replicate ?k 0)"
    using s by (rule takeWhile_append2)
  also have "takeWhile (\<lambda>c. c \<noteq> (0 :: byte)) (replicate ?k 0) = []" by (cases ?k) simp_all
  finally have "takeWhile (\<lambda>c. c \<noteq> 0) d = ?t" using d by simp
  moreover have "d = ?t" if "0 \<notin> set d" using that d by (cases "?k = 0") simp_all
  ultimately show ?thesis by (auto simp: bufZstr_def)
qed

section \<open>Properties\<close>

text \<open>C37: the address of the page as the program gets it. When the engine gives an address, \<^verbatim>\<open>GetSource\<close> of the
  browser value returns its text cut to \<^verbatim>\<open>MAX_PATH\<close> bytes, whether or not the copy in the buffer is
  terminated, and the engine's string is freed; an engine that refuses gives the empty string.\<close>

theorem source_text:
  assumes "browsers (hw w) p = Some b" and "controller b \<noteq> nullptr" and "webview2 b \<noteq> nullptr"
    and "get_Source ho (webview2 b) = (hr, uri)"
    and "hr = S_OK \<Longrightarrow> uri \<noteq> nullptr \<and> WideCharToMultiByte (eng ho) (wide_string (eng ho) uri) = addr \<and> addr \<noteq> []"
    and "hr = S_OK \<or> FAILED hr"
  shows "\<exists>w'. web2_GetSource ho g p w =
      Some (SuStr (if hr = S_OK then take MAX_PATH (takeWhile (\<lambda>c. c \<noteq> 0) addr) else []), w') \<and>
    allocated (trace (hw w')) uri = allocated (trace (hw w)) uri"
proof -
  let ?z = "replicate MAX_PATH 0 :: byte list"
  let ?w = "put_bytes (result_buf g) ?z w"
  show ?thesis
  proof (cases "hr = S_OK")
    case True
    obtain d where d: "strncpy ?z addr MAX_PATH = Some d" by (simp add: strncpy_def)
    have c: "ConvertWcharToChar (WideCharToMultiByte (eng ho)) (Some (wide_string (eng ho) uri)) = Some addr"
      using assms(5) True by (simp add: ConvertWcharToChar_def)
    have "\<exists>w'. GetSource ho p (result_buf g) ?w = Some (S_OK, w') \<and> bytes w' (result_buf g) = d \<and>
        allocated (trace (hw w')) uri = allocated (trace (hw w)) uri"
      using assms(1-5) True d c by (auto simp: GetSource_def deref_def Let_def)
    with strncpy_bufZstr [OF _ d] True show ?thesis
      by (auto simp: web2_GetSource_def go_WebView2_GetSource_def WebView2_GetSource_def go_ret_def S_OK_def)
  next
    case False
    then have "FAILED hr" "hr \<noteq> 0" using assms(6) by (auto simp: S_OK_def)
    with assms(1-4) show ?thesis
      by (auto simp: web2_GetSource_def go_WebView2_GetSource_def WebView2_GetSource_def GetSource_def go_ret_def deref_def
          FAILED_iff_not_SUCCEEDED False Let_def)
  qed
qed


theorem source_text_witness:
  "\<exists>w'. web2_GetSource sample_host \<lparr>first_z = 0x800, second_z = 0x840, result_buf = 0x900, iunk_var = 0x700\<rparr> 0x100 ready_world
     = Some (SuStr (map ucast suneidoPrefix @ [97]), w')"
proof -
  have t: "take MAX_PATH (takeWhile (\<lambda>c. c \<noteq> 0) (map ucast (suneidoPrefix @ [97]) @ [0 :: byte])) = map ucast suneidoPrefix @ [97]"
    by (simp add: suneidoPrefix_def MAX_PATH_def)
  show ?thesis
    using source_text [of ready_world "0x100" "\<lparr>controller = 0x20, webview2 = 0x30, hwnd = 7, onCallBackFn = 9, refCount = 1\<rparr>"
        sample_host S_OK "0x80" "map ucast (suneidoPrefix @ [97]) @ [0]"
        "\<lparr>first_z = 0x800, second_z = 0x840, result_buf = 0x900, iunk_var = 0x700\<rparr>"] t
    by (auto simp: ready_world_def sample_host_def sample_sels)
qed


end
