(* ===== verification/Structs.thy ===== *)
theory Structs
  imports Prelude
begin

text \<open>
  The structures that Go passes to Windows. \<^verbatim>\<open>cmd/structs/structs.cpp\<close> prints the size of each C structure
  in the form of a Go expression that only compiles when the Go structure has that size, and
  \<^verbatim>\<open>builtin/struct_wingui.go\<close> holds the expressions. The theory has Go's rules for the layout of a structure, the
  structures, the expressions, and the program that prints them.
\<close>

section \<open>Layout\<close>

text \<open>A basic type has the alignment of its size. The fields of a structure follow each other, each at the next
  multiple of its alignment, and the structure ends at a multiple of the largest one.\<close>

datatype gotype = GoBasic nat | GoArray nat gotype | GoStruct "(string \<times> gotype) list"

definition round_up :: "nat \<Rightarrow> nat \<Rightarrow> nat" where
  "round_up n a = (if n mod a = 0 then n else n + (a - n mod a))"

fun starts :: "nat \<Rightarrow> (nat \<times> nat) list \<Rightarrow> nat list" where
  "starts off [] = []"
| "starts off ((s, a) # fs) = round_up off a # starts (round_up off a + s) fs"

fun finish :: "nat \<Rightarrow> (nat \<times> nat) list \<Rightarrow> nat" where
  "finish off [] = off"
| "finish off ((s, a) # fs) = finish (round_up off a + s) fs"

fun align_of :: "gotype \<Rightarrow> nat" where
  "align_of (GoBasic n) = n"
| "align_of (GoArray k t) = align_of t"
| "align_of (GoStruct fs) = fold max (map (\<lambda>f. align_of (snd f)) fs) 1"

fun size_of :: "gotype \<Rightarrow> nat" where
  "size_of (GoBasic n) = n"
| "size_of (GoArray k t) = k * size_of t"
| "size_of (GoStruct fs) =
     round_up (finish 0 (map (\<lambda>f. (size_of (snd f), align_of (snd f))) fs))
       (fold max (map (\<lambda>f. align_of (snd f)) fs) 1)"

definition offsets :: "(string \<times> gotype) list \<Rightarrow> nat list" where
  "offsets fs = starts 0 (map (\<lambda>f. (size_of (snd f), align_of (snd f))) fs)"

fun wf_type :: "gotype \<Rightarrow> bool" where
  "wf_type (GoBasic n) = (n \<in> {1, 2, 4, 8})"
| "wf_type (GoArray k t) = wf_type t"
| "wf_type (GoStruct fs) = list_all (\<lambda>f. wf_type (snd f)) fs"

section \<open>The structures\<close>

definition stAccel :: gotype where
  "stAccel = GoStruct
     [(''fVirt'', GoBasic 1), (''_'', GoBasic 1), (''key'', GoBasic 2), (''cmd'', GoBasic 2)]"

definition stBitMap :: gotype where
  "stBitMap = GoStruct
     [(''bmType'', GoBasic 4), (''bmWidth'', GoBasic 4), (''bmHeight'', GoBasic 4), (''bmWidthBytes'', GoBasic 4),
      (''bmPlanes'', GoBasic 2), (''bmBitsPixel'', GoBasic 2), (''bmBits'', GoBasic 8)]"

definition stBitMapInfoHeader :: gotype where
  "stBitMapInfoHeader = GoStruct
     [(''biSize'', GoBasic 4), (''biWidth'', GoBasic 4), (''biHeight'', GoBasic 4), (''biPlanes'', GoBasic 2),
      (''biBitCount'', GoBasic 2), (''biCompression'', GoBasic 4), (''biSizeImage'', GoBasic 4),
      (''biXPelsPerMeter'', GoBasic 4), (''biYPelsPerMeter'', GoBasic 4), (''biClrUsed'', GoBasic 4),
      (''biClrImportant'', GoBasic 4)]"

definition stBrowseInfo :: gotype where
  "stBrowseInfo = GoStruct
     [(''hwndOwner'', GoBasic 8), (''pidlRoot'', GoBasic 8), (''pszDisplayName'', GoBasic 8),
      (''lpszTitle'', GoBasic 8), (''ulFlags'', GoBasic 4), (''lpfn'', GoBasic 8), (''lParam'', GoBasic 8),
      (''iImage'', GoBasic 4), (''_'', GoArray 4 (GoBasic 1))]"

definition stCharRange :: gotype where
  "stCharRange = GoStruct
     [(''cpMin'', GoBasic 4), (''cpMax'', GoBasic 4)]"

definition stChooseColor :: gotype where
  "stChooseColor = GoStruct
     [(''size'', GoBasic 4), (''owner'', GoBasic 8), (''instance'', GoBasic 8), (''rgbResult'', GoBasic 4),
      (''custColors'', GoBasic 8), (''flags'', GoBasic 4), (''custData'', GoBasic 8), (''hook'', GoBasic 8),
      (''templateName'', GoBasic 8)]"

definition stChooseFont :: gotype where
  "stChooseFont = GoStruct
     [(''lStructSize'', GoBasic 4), (''hwndOwner'', GoBasic 8), (''hDC'', GoBasic 8), (''lpLogFont'', GoBasic 8),
      (''iPointSize'', GoBasic 4), (''Flags'', GoBasic 4), (''rgbColors'', GoBasic 4), (''lCustData'', GoBasic 8),
      (''lpfnHook'', GoBasic 8), (''lpTemplateName'', GoBasic 8), (''hInstance'', GoBasic 8),
      (''lpszStyle'', GoBasic 8), (''nFontType'', GoBasic 2), (''_'', GoBasic 2), (''nSizeMin'', GoBasic 4),
      (''nSizeMax'', GoBasic 4), (''_'', GoBasic 4)]"

definition stCWPRetStruct :: gotype where
  "stCWPRetStruct = GoStruct
     [(''lResult'', GoBasic 8), (''lParam'', GoBasic 8), (''wParam'', GoBasic 8), (''message'', GoBasic 4),
      (''hwnd'', GoBasic 8)]"

definition stDocInfo :: gotype where
  "stDocInfo = GoStruct
     [(''cbSize'', GoBasic 4), (''lpszDocName'', GoBasic 8), (''lpszOutput'', GoBasic 8),
      (''lpszDatatype'', GoBasic 8), (''fwType'', GoBasic 4), (''_'', GoArray 4 (GoBasic 1))]"

definition stRect :: gotype where
  "stRect = GoStruct
     [(''left'', GoBasic 4), (''top'', GoBasic 4), (''right'', GoBasic 4), (''bottom'', GoBasic 4)]"

definition stDrawItemStruct :: gotype where
  "stDrawItemStruct = GoStruct
     [(''CtlType'', GoBasic 4), (''CtlID'', GoBasic 4), (''itemID'', GoBasic 4), (''itemAction'', GoBasic 4),
      (''itemState'', GoBasic 4), (''hwndItem'', GoBasic 8), (''hDC'', GoBasic 8), (''rcItem'', stRect),
      (''itemData'', GoBasic 8)]"

definition stDrawTextParams :: gotype where
  "stDrawTextParams = GoStruct
     [(''cbSize'', GoBasic 4), (''iTabLength'', GoBasic 4), (''iLeftMargin'', GoBasic 4),
      (''iRightMargin'', GoBasic 4), (''uiLengthDrawn'', GoBasic 4)]"

definition stEditBalloonTip :: gotype where
  "stEditBalloonTip = GoStruct
     [(''cbStruct'', GoBasic 4), (''pszTitle'', GoBasic 8), (''pszText'', GoBasic 8), (''ttiIcon'', GoBasic 4),
      (''_'', GoArray 4 (GoBasic 1))]"

definition stFixed :: gotype where
  "stFixed = GoStruct
     [(''fract'', GoBasic 2), (''value'', GoBasic 2)]"

definition stFlashWInfo :: gotype where
  "stFlashWInfo = GoStruct
     [(''cbSize'', GoBasic 4), (''hwnd'', GoBasic 8), (''dwFlags'', GoBasic 4), (''uCount'', GoBasic 4),
      (''dwTimeout'', GoBasic 4), (''_'', GoArray 4 (GoBasic 1))]"

definition stPoint :: gotype where
  "stPoint = GoStruct
     [(''x'', GoBasic 4), (''y'', GoBasic 4)]"

definition stGlyphMetrics :: gotype where
  "stGlyphMetrics = GoStruct
     [(''gmBlackBoxX'', GoBasic 4), (''gmBlackBoxY'', GoBasic 4), (''gmptGlyphOrigin'', stPoint),
      (''gmCellIncX'', GoBasic 2), (''gmCellIncY'', GoBasic 2)]"

definition go_GUID :: gotype where
  "go_GUID = GoStruct
     [(''Data1'', GoBasic 4), (''Data2'', GoBasic 2), (''Data3'', GoBasic 2), (''Data4'', GoArray 8 (GoBasic 1))]"

definition stHdHitTestInfo :: gotype where
  "stHdHitTestInfo = GoStruct
     [(''pt'', stPoint), (''flags'', GoBasic 4), (''iItem'', GoBasic 4)]"

definition stHdItem :: gotype where
  "stHdItem = GoStruct
     [(''mask'', GoBasic 4), (''cxy'', GoBasic 4), (''pszText'', GoBasic 8), (''hbm'', GoBasic 8),
      (''cchTextMax'', GoBasic 4), (''fmt'', GoBasic 4), (''lParam'', GoBasic 8), (''iImage'', GoBasic 4),
      (''iOrder'', GoBasic 4), (''typ'', GoBasic 4), (''pvFilter'', GoBasic 8), (''state'', GoBasic 4),
      (''_'', GoArray 4 (GoBasic 1))]"

definition stImageInfo :: gotype where
  "stImageInfo = GoStruct
     [(''hbmImage'', GoBasic 8), (''hbmMask'', GoBasic 8), (''Unused1'', GoBasic 4), (''Unused2'', GoBasic 4),
      (''rcImage'', stRect)]"

definition stInitCommonControlsEx :: gotype where
  "stInitCommonControlsEx = GoStruct
     [(''dwSize'', GoBasic 4), (''dwICC'', GoBasic 4)]"

definition stLogBrush :: gotype where
  "stLogBrush = GoStruct
     [(''lbStyle'', GoBasic 4), (''lbColor'', GoBasic 4), (''lbHatch'', GoBasic 8)]"

definition stLogFont :: gotype where
  "stLogFont = GoStruct
     [(''lfHeight'', GoBasic 4), (''lfWidth'', GoBasic 4), (''lfEscapement'', GoBasic 4),
      (''lfOrientation'', GoBasic 4), (''lfWeight'', GoBasic 4), (''lfItalic'', GoBasic 1),
      (''lfUnderline'', GoBasic 1), (''lfStrikeOut'', GoBasic 1), (''lfCharSet'', GoBasic 1),
      (''lfOutPrecision'', GoBasic 1), (''lfClipPrecision'', GoBasic 1), (''lfQuality'', GoBasic 1),
      (''lfPitchAndFamily'', GoBasic 1), (''lfFaceName'', GoArray 32 (GoBasic 1))]"

definition stLVColumn :: gotype where
  "stLVColumn = GoStruct
     [(''mask'', GoBasic 4), (''fmt'', GoBasic 4), (''cx'', GoBasic 4), (''pszText'', GoBasic 8),
      (''cchTextMax'', GoBasic 4), (''iSubItem'', GoBasic 4), (''iImage'', GoBasic 4), (''iOrder'', GoBasic 4),
      (''cxMin'', GoBasic 4), (''cxDefault'', GoBasic 4), (''cxIdeal'', GoBasic 4), (''_'', GoArray 4 (GoBasic 1))]"

definition stLVHitTestInfo :: gotype where
  "stLVHitTestInfo = GoStruct
     [(''pt'', stPoint), (''flags'', GoBasic 4), (''iItem'', GoBasic 4), (''iSubItem'', GoBasic 4),
      (''iGroup'', GoBasic 4)]"

definition stLVItem :: gotype where
  "stLVItem = GoStruct
     [(''mask'', GoBasic 4), (''iItem'', GoBasic 4), (''iSubItem'', GoBasic 4), (''state'', GoBasic 4),
      (''stateMask'', GoBasic 4), (''pszText'', GoBasic 8), (''cchTextMax'', GoBasic 4), (''iImage'', GoBasic 4),
      (''lParam'', GoBasic 8), (''iIndent'', GoBasic 4), (''iGroupId'', GoBasic 4), (''cColumns'', GoBasic 4),
      (''puColumns'', GoBasic 8), (''piColFmt'', GoBasic 8), (''iGroup'', GoBasic 4), (''_'', GoArray 4 (GoBasic 1))]"

definition stMenuItemInfo :: gotype where
  "stMenuItemInfo = GoStruct
     [(''cbSize'', GoBasic 4), (''fMask'', GoBasic 4), (''fType'', GoBasic 4), (''fState'', GoBasic 4),
      (''wID'', GoBasic 4), (''hSubMenu'', GoBasic 8), (''hbmpChecked'', GoBasic 8), (''hbmpUnchecked'', GoBasic 8),
      (''dwItemData'', GoBasic 8), (''dwTypeData'', GoBasic 8), (''cch'', GoBasic 4), (''hbmpItem'', GoBasic 8)]"

definition stMinMaxInfo :: gotype where
  "stMinMaxInfo = GoStruct
     [(''ptReserved'', stPoint), (''maxSize'', stPoint), (''maxPosition'', stPoint), (''minTrackSize'', stPoint),
      (''maxTrackSize'', stPoint)]"

definition stMsg :: gotype where
  "stMsg = GoStruct
     [(''hwnd'', GoBasic 8), (''message'', GoBasic 4), (''wParam'', GoBasic 8), (''lParam'', GoBasic 8),
      (''time'', GoBasic 4), (''pt'', stPoint), (''_'', GoArray 4 (GoBasic 1))]"

definition stNMHdr :: gotype where
  "stNMHdr = GoStruct
     [(''hwndFrom'', GoBasic 8), (''idFrom'', GoBasic 8), (''code'', GoBasic 4), (''_'', GoArray 4 (GoBasic 1))]"

definition stSystemTime :: gotype where
  "stSystemTime = GoStruct
     [(''wYear'', GoBasic 2), (''wMonth'', GoBasic 2), (''wDayOfWeek'', GoBasic 2), (''wDay'', GoBasic 2),
      (''wHour'', GoBasic 2), (''wMinute'', GoBasic 2), (''wSecond'', GoBasic 2), (''wMilliseconds'', GoBasic 2)]"

definition stNMDayState :: gotype where
  "stNMDayState = GoStruct
     [(''nmhdr'', stNMHdr), (''stStart'', stSystemTime), (''cDayState'', GoBasic 4), (''prgDayState'', GoBasic 8)]"

definition stNMListView :: gotype where
  "stNMListView = GoStruct
     [(''hdr'', stNMHdr), (''iItem'', GoBasic 4), (''iSubItem'', GoBasic 4), (''uNewState'', GoBasic 4),
      (''uOldState'', GoBasic 4), (''uChanged'', GoBasic 4), (''ptAction'', stPoint), (''lParam'', GoBasic 8)]"

definition stNMLVDispInfo :: gotype where
  "stNMLVDispInfo = GoStruct
     [(''hdr'', stNMHdr), (''item'', stLVItem)]"

definition stNMTTDispInfo :: gotype where
  "stNMTTDispInfo = GoStruct
     [(''hdr'', stNMHdr), (''lpszText'', GoBasic 8), (''szText'', GoArray 80 (GoBasic 1)), (''hinst'', GoBasic 8),
      (''uFlags'', GoBasic 4), (''lParam'', GoBasic 8)]"

definition stTVItem :: gotype where
  "stTVItem = GoStruct
     [(''mask'', GoBasic 4), (''hItem'', GoBasic 8), (''state'', GoBasic 4), (''stateMask'', GoBasic 4),
      (''pszText'', GoBasic 8), (''cchTextMax'', GoBasic 4), (''iImage'', GoBasic 4),
      (''iSelectedImage'', GoBasic 4), (''cChildren'', GoBasic 4), (''lParam'', GoBasic 8)]"

definition stNMTVDispInfo :: gotype where
  "stNMTVDispInfo = GoStruct
     [(''nmhdr'', stNMHdr), (''item'', stTVItem)]"

definition stNotifyIconData :: gotype where
  "stNotifyIconData = GoStruct
     [(''cbSize'', GoBasic 4), (''hWnd'', GoBasic 8), (''uID'', GoBasic 4), (''uFlags'', GoBasic 4),
      (''uCallbackMessage'', GoBasic 4), (''hIcon'', GoBasic 8), (''szTip'', GoArray 128 (GoBasic 1)),
      (''dwState'', GoBasic 4), (''dwStateMask'', GoBasic 4), (''szInfo'', GoArray 256 (GoBasic 1)),
      (''uTimeoutVersionUnion'', GoBasic 4), (''szInfoTitle'', GoArray 64 (GoBasic 1)), (''dwInfoFlags'', GoBasic 4),
      (''guidItem'', go_GUID), (''hBalloonIcon'', GoBasic 8)]"

definition stOpenFileName :: gotype where
  "stOpenFileName = GoStruct
     [(''structSize'', GoBasic 4), (''hwndOwner'', GoBasic 8), (''instance'', GoBasic 8), (''filter'', GoBasic 8),
      (''customFilter'', GoBasic 8), (''nMaxCustFilter'', GoBasic 4), (''nFilterIndex'', GoBasic 4),
      (''file'', GoBasic 8), (''maxFile'', GoBasic 4), (''fileTitle'', GoBasic 8), (''maxFileTitle'', GoBasic 4),
      (''initialDir'', GoBasic 8), (''title'', GoBasic 8), (''flags'', GoBasic 4), (''fileOffset'', GoBasic 2),
      (''fileExtension'', GoBasic 2), (''defExt'', GoBasic 8), (''custData'', GoBasic 8), (''hook'', GoBasic 8),
      (''templateName'', GoBasic 8), (''pvReserved'', GoBasic 8), (''dwReserved'', GoBasic 4),
      (''FlagsEx'', GoBasic 4)]"

definition stPageSetupDlg :: gotype where
  "stPageSetupDlg = GoStruct
     [(''lStructSize'', GoBasic 4), (''hwndOwner'', GoBasic 8), (''hDevMode'', GoBasic 8),
      (''hDevNames'', GoBasic 8), (''Flags'', GoBasic 4), (''ptPaperSize'', stPoint), (''rtMinMargin'', stRect),
      (''rtMargin'', stRect), (''hInstance'', GoBasic 8), (''lCustData'', GoBasic 8),
      (''lpfnPageSetupHook'', GoBasic 8), (''lpfnPagePaintHook'', GoBasic 8),
      (''lpPageSetupTemplateName'', GoBasic 8), (''hPageSetupTemplate'', GoBasic 8)]"

definition stPaintStruct :: gotype where
  "stPaintStruct = GoStruct
     [(''hdc'', GoBasic 8), (''fErase'', GoBasic 4), (''rcPaint'', stRect), (''fRestore'', GoBasic 4),
      (''fIncUpdate'', GoBasic 4), (''rgbReserved'', GoArray 32 (GoBasic 1)), (''_'', GoArray 4 (GoBasic 1))]"

definition stPrintDlg :: gotype where
  "stPrintDlg = GoStruct
     [(''lStructSize'', GoBasic 4), (''hwndOwner'', GoBasic 8), (''hDevMode'', GoBasic 8),
      (''hDevNames'', GoBasic 8), (''hDC'', GoBasic 8), (''Flags'', GoBasic 4), (''nFromPage'', GoBasic 2),
      (''nToPage'', GoBasic 2), (''nMinPage'', GoBasic 2), (''nMaxPage'', GoBasic 2), (''nCopies'', GoBasic 2),
      (''hInstance'', GoBasic 8), (''lCustData'', GoBasic 8), (''lpfnPrintHook'', GoBasic 8),
      (''lpfnSetupHook'', GoBasic 8), (''lpPrintTemplateName'', GoBasic 8), (''lpSetupTemplateName'', GoBasic 8),
      (''hPrintTemplate'', GoBasic 8), (''hSetupTemplate'', GoBasic 8)]"

definition stSCNotification :: gotype where
  "stSCNotification = GoStruct
     [(''nmhdr'', stNMHdr), (''position'', GoBasic 8), (''ch'', GoBasic 4), (''modifiers'', GoBasic 4),
      (''modificationType'', GoBasic 4), (''text'', GoBasic 8), (''length'', GoBasic 8), (''linesAdded'', GoBasic 8),
      (''message'', GoBasic 4), (''wParam'', GoBasic 8), (''lParam'', GoBasic 8), (''line'', GoBasic 8),
      (''foldLevelNow'', GoBasic 4), (''foldLevelPrev'', GoBasic 4), (''margin'', GoBasic 4),
      (''listType'', GoBasic 4), (''x'', GoBasic 4), (''y'', GoBasic 4), (''token'', GoBasic 4),
      (''annotationLinesAdded'', GoBasic 8), (''updated'', GoBasic 4), (''listCompletionMethod'', GoBasic 4)]"

definition stScrollInfo :: gotype where
  "stScrollInfo = GoStruct
     [(''cbSize'', GoBasic 4), (''fMask'', GoBasic 4), (''nMin'', GoBasic 4), (''nMax'', GoBasic 4),
      (''nPage'', GoBasic 4), (''nPos'', GoBasic 4), (''nTrackPos'', GoBasic 4)]"

definition stShellExecuteInfo :: gotype where
  "stShellExecuteInfo = GoStruct
     [(''cbSize'', GoBasic 4), (''fMask'', GoBasic 4), (''hwnd'', GoBasic 8), (''lpVerb'', GoBasic 8),
      (''lpFile'', GoBasic 8), (''lpParameters'', GoBasic 8), (''lpDirectory'', GoBasic 8), (''nShow'', GoBasic 4),
      (''hInstApp'', GoBasic 8), (''lpIDList'', GoBasic 8), (''lpClass'', GoBasic 8), (''hkeyClass'', GoBasic 8),
      (''dwHotKey'', GoBasic 4), (''hIcon'', GoBasic 8), (''hProcess'', GoBasic 8)]"

definition stTCItem :: gotype where
  "stTCItem = GoStruct
     [(''mask'', GoBasic 4), (''dwState'', GoBasic 4), (''dwStateMask'', GoBasic 4), (''pszText'', GoBasic 8),
      (''cchTextMax'', GoBasic 4), (''iImage'', GoBasic 4), (''lParam'', GoBasic 4), (''_'', GoArray 4 (GoBasic 1))]"

definition stTextMetric :: gotype where
  "stTextMetric = GoStruct
     [(''Height'', GoBasic 4), (''Ascent'', GoBasic 4), (''Descent'', GoBasic 4), (''InternalLeading'', GoBasic 4),
      (''ExternalLeading'', GoBasic 4), (''AveCharWidth'', GoBasic 4), (''MaxCharWidth'', GoBasic 4),
      (''Weight'', GoBasic 4), (''Overhang'', GoBasic 4), (''DigitizedAspectX'', GoBasic 4),
      (''DigitizedAspectY'', GoBasic 4), (''FirstChar'', GoBasic 1), (''LastChar'', GoBasic 1),
      (''DefaultChar'', GoBasic 1), (''BreakChar'', GoBasic 1), (''Italic'', GoBasic 1), (''Underlined'', GoBasic 1),
      (''StruckOut'', GoBasic 1), (''PitchAndFamily'', GoBasic 1), (''CharSet'', GoBasic 1),
      (''_'', GoArray 3 (GoBasic 1))]"

definition stTextRange :: gotype where
  "stTextRange = GoStruct
     [(''chrg'', stCharRange), (''lpstrText'', GoBasic 8)]"

definition stToolInfo :: gotype where
  "stToolInfo = GoStruct
     [(''cbSize'', GoBasic 4), (''uFlags'', GoBasic 4), (''hwnd'', GoBasic 8), (''uId'', GoBasic 8),
      (''rect'', stRect), (''hinst'', GoBasic 8), (''lpszText'', GoBasic 8), (''lParam'', GoBasic 8),
      (''lpReserved'', GoBasic 8)]"

definition stTPMParams :: gotype where
  "stTPMParams = GoStruct
     [(''cbSize'', GoBasic 4), (''rcExclude'', stRect)]"

definition stTrackMouseEvent :: gotype where
  "stTrackMouseEvent = GoStruct
     [(''cbSize'', GoBasic 4), (''dwFlags'', GoBasic 4), (''hwndTrack'', GoBasic 8), (''dwHoverTime'', GoBasic 4),
      (''_'', GoArray 4 (GoBasic 1))]"

definition stTVItemEx :: gotype where
  "stTVItemEx = GoStruct
     [(''stTVItem'', stTVItem), (''iIntegral'', GoBasic 4), (''uStateEx'', GoBasic 4), (''hwnd'', GoBasic 8),
      (''iExpandedImage'', GoBasic 4), (''iReserved'', GoBasic 4)]"

definition stTVInsertStruct :: gotype where
  "stTVInsertStruct = GoStruct
     [(''hParent'', GoBasic 8), (''hInsertAfter'', GoBasic 8), (''item'', stTVItemEx)]"

definition stWindowPlacement :: gotype where
  "stWindowPlacement = GoStruct
     [(''length'', GoBasic 4), (''flags'', GoBasic 4), (''showCmd'', GoBasic 4), (''ptMinPosition'', stPoint),
      (''ptMaxPosition'', stPoint), (''rcNormalPosition'', stRect)]"

definition stWndClass :: gotype where
  "stWndClass = GoStruct
     [(''style'', GoBasic 4), (''wndProc'', GoBasic 8), (''clsExtra'', GoBasic 4), (''wndExtra'', GoBasic 4),
      (''instance'', GoBasic 8), (''icon'', GoBasic 8), (''cursor'', GoBasic 8), (''background'', GoBasic 8),
      (''menuName'', GoBasic 8), (''className'', GoBasic 8)]"

lemmas struct_defs = stAccel_def stBitMap_def stBitMapInfoHeader_def stBrowseInfo_def stCharRange_def stChooseColor_def stChooseFont_def stCWPRetStruct_def stDocInfo_def stRect_def stDrawItemStruct_def stDrawTextParams_def stEditBalloonTip_def stFixed_def stFlashWInfo_def stPoint_def stGlyphMetrics_def go_GUID_def stHdHitTestInfo_def stHdItem_def stImageInfo_def stInitCommonControlsEx_def stLogBrush_def stLogFont_def stLVColumn_def stLVHitTestInfo_def stLVItem_def stMenuItemInfo_def stMinMaxInfo_def stMsg_def stNMHdr_def stSystemTime_def stNMDayState_def stNMListView_def stNMLVDispInfo_def stNMTTDispInfo_def stTVItem_def stNMTVDispInfo_def stNotifyIconData_def stOpenFileName_def stPageSetupDlg_def stPaintStruct_def stPrintDlg_def stSCNotification_def stScrollInfo_def stShellExecuteInfo_def stTCItem_def stTextMetric_def stTextRange_def stToolInfo_def stTPMParams_def stTrackMouseEvent_def stTVItemEx_def stTVInsertStruct_def stWindowPlacement_def stWndClass_def

section \<open>The size checks\<close>

text \<open>A check indexes an array of one element with the difference of the two sizes.\<close>

definition check_compiles :: "gotype \<times> nat \<Rightarrow> bool" where
  "check_compiles = (\<lambda>(t, n). n \<le> size_of t \<and> size_of t - n < 1)"

definition size_checks :: "(gotype \<times> nat) list" where
  "size_checks =
     [(stAccel, 6), (stBitMap, 32), (stBitMapInfoHeader, 40), (stBrowseInfo, 64), (stCharRange, 8),
      (stChooseColor, 72), (stChooseFont, 104), (stCWPRetStruct, 40), (stDocInfo, 40), (stDrawItemStruct, 64),
      (stDrawTextParams, 20), (stEditBalloonTip, 32), (stFixed, 4), (stFlashWInfo, 32), (stGlyphMetrics, 20),
      (go_GUID, 16), (stHdHitTestInfo, 16), (stHdItem, 72), (stImageInfo, 40), (stInitCommonControlsEx, 8),
      (stLogBrush, 16), (stLogFont, 60), (stLVColumn, 56), (stLVHitTestInfo, 24), (stLVItem, 88),
      (stMenuItemInfo, 80), (stMinMaxInfo, 40), (stMsg, 48), (stNMDayState, 56), (stNMHdr, 24), (stNMListView, 64),
      (stNMLVDispInfo, 112), (stNMTTDispInfo, 136), (stNMTVDispInfo, 80), (stNotifyIconData, 528),
      (stOpenFileName, 152), (stPageSetupDlg, 128), (stPaintStruct, 72), (stPoint, 8), (stPrintDlg, 120),
      (stRect, 16), (stSCNotification, 152), (stScrollInfo, 28), (stShellExecuteInfo, 112), (stSystemTime, 16),
      (stTCItem, 40), (stTextMetric, 56), (stTextRange, 16), (stToolInfo, 72), (stTPMParams, 20),
      (stTrackMouseEvent, 24), (stTVInsertStruct, 96), (stTVItem, 56), (stWindowPlacement, 44), (stWndClass, 72)]"

section \<open>The program that prints them\<close>

fun show_nat :: "nat \<Rightarrow> string" where
  "show_nat n = (if n < 10 then [char_of (48 + n)] else show_nat (n div 10) @ [char_of (48 + n mod 10)])"

declare show_nat.simps [simp del]

definition newline :: string where
  "newline = [char_of (10 :: nat)]"

text \<open>The two forms of the macro; the name is the text of its argument.\<close>

definition printSize :: "bool \<Rightarrow> string \<Rightarrow> nat \<Rightarrow> string" where
  "printSize win64 t n =
     (if win64 then ''_ = x[unsafe.Sizeof('' @ t @ ''{}) - '' @ show_nat n @ '']'' @ newline
      else ''Assert('' @ t @ ''.Size() is: '' @ show_nat n @ '', msg: '' @ [char_of (39 :: nat)] @ t @ [char_of (39 :: nat)] @ '')'' @ newline)"

definition printed_types :: "string list" where
  "printed_types =
     [''ACCEL'', ''BITMAP'', ''BITMAPINFOHEADER'', ''BROWSEINFO'', ''CHARRANGE'', ''CHOOSECOLOR'', ''CHOOSEFONTA'',
      ''CWPRETSTRUCT'', ''DEVMODE'', ''DEVNAMES'', ''DOCINFO'', ''DRAWITEMSTRUCT'', ''DRAWTEXTPARAMS'',
      ''EDITBALLOONTIP'', ''FIXED'', ''FLASHWINFO'', ''GLYPHMETRICS'', ''GUID'', ''HDHITTESTINFO'', ''HDITEM'',
      ''IMAGEINFO'', ''INITCOMMONCONTROLSEX'', ''LOGBRUSH'', ''LOGFONT'', ''LVCOLUMN'', ''LVHITTESTINFO'',
      ''LVITEM'', ''MENUITEMINFO'', ''MINMAXINFO'', ''MSG'', ''NMDAYSTATE'', ''NMHDR'', ''NMLISTVIEW'',
      ''NMLVDISPINFO'', ''NMTTDISPINFO'', ''NMTVDISPINFO'', ''NOTIFYICONDATA'', ''OPENFILENAME'',
      ''OSVERSIONINFOEX'', ''PAGESETUPDLG'', ''PAINTSTRUCT'', ''POINT'', ''PRINTDLG'', ''RECT'', ''SCNotification'',
      ''SCROLLINFO'', ''SHELLEXECUTEINFO'', ''SYSTEMTIME'', ''TCITEM'', ''TEXTMETRIC'', ''TEXTRANGE'', ''TOOLINFO'',
      ''TPMPARAMS'', ''TRACKMOUSEEVENT'', ''TVINSERTSTRUCT'', ''TVITEM'', ''WINDOWPLACEMENT'', ''WNDCLASS'',
      ''VARIANT'']"

text \<open>The members of \<^verbatim>\<open>ti\<close> in the order of its layout, with the values they are given; the rectangle is four.\<close>

definition toolinfo_values :: "(nat \<times> nat) list" where
  "toolinfo_values = [(4, 0x11111111), (4, 0x22222222), (8, 0x3333333333333333), (8, 0x4444444444444444),
     (4, 0x11111111), (4, 0x22222222), (4, 0x33333333), (4, 0x44444444), (8, 0x5555555555555555),
     (8, 0x6666666666666666), (8, 0x7777777777777777), (8, 0x8888888888888888)]"

text \<open>The bytes of a number, least significant first.\<close>

fun le_bytes :: "nat \<Rightarrow> nat \<Rightarrow> byte list" where
  "le_bytes 0 v = []"
| "le_bytes (Suc k) v = of_nat (v mod 256) # le_bytes k (v div 256)"

text \<open>The offsets of the basic members of a type.\<close>

fun leaves :: "gotype \<Rightarrow> nat list" where
  "leaves (GoBasic n) = [0]"
| "leaves (GoArray k t) = concat (map (\<lambda>i. map ((+) (i * size_of t)) (leaves t)) [0..<k])"
| "leaves (GoStruct fs) =
     concat (map (\<lambda>(off, os). map ((+) off) os) (zip (offsets fs) (map (\<lambda>f. leaves (snd f)) fs)))"

definition toolinfo_bytes :: "gotype \<Rightarrow> byte list" where
  "toolinfo_bytes ti =
     fold (\<lambda>(off, k, v) m. take off m @ le_bytes k v @ drop (off + k) m) (zip (leaves ti) toolinfo_values)
       (replicate (size_of ti) 0)"

fun hex_digits :: "nat \<Rightarrow> string" where
  "hex_digits n =
     (if n < 16 then [''0123456789abcdef'' ! n] else hex_digits (n div 16) @ [''0123456789abcdef'' ! (n mod 16)])"

declare hex_digits.simps [simp del]

text \<open>\<^verbatim>\<open>%02x\<close> of a \<^verbatim>\<open>char\<close>: the argument is promoted to \<^verbatim>\<open>int\<close>, and \<^verbatim>\<open>char\<close> is signed.\<close>

definition print_char :: "byte \<Rightarrow> string" where
  "print_char b =
     (let n = unat (scast b :: 32 word); s = hex_digits n in replicate (2 - length s) CHR ''0'' @ s)"

definition dump :: "byte list \<Rightarrow> string" where
  "dump bs = concat (map (\<lambda>(i, b). print_char b @ newline @ (if i mod 4 = 3 then newline else []))
     (zip [0..<length bs] bs))"

text \<open>\<open>sz\<close> are the sizes and \<open>ti\<close> the layout of \<^verbatim>\<open>TOOLINFOA\<close> in the Windows headers.\<close>

definition structs_main :: "bool \<Rightarrow> (string \<Rightarrow> nat) \<Rightarrow> gotype \<Rightarrow> string" where
  "structs_main win64 sz ti = concat (map (\<lambda>t. printSize win64 t (sz t)) printed_types) @ dump (toolinfo_bytes ti)"

section \<open>Lemmas\<close>

lemma round_up_ge: "n \<le> round_up n a"
  by (simp add: round_up_def)

lemma round_up_dvd: "0 < a \<Longrightarrow> a dvd round_up n a"
proof -
  assume a: "0 < a"
  then have "n + (a - n mod a) = a * (n div a) + a"
    using mult_div_mod_eq [of a n] mod_less_divisor [of a n] by linarith
  then show ?thesis by (simp add: round_up_def dvd_eq_mod_eq_0 [symmetric])
qed

text \<open>Placing fields: each starts at a multiple of its alignment, at or after the end of the one before, and ends
  at or before the end of all.\<close>

lemma starts_length [simp]: "length (starts off fs) = length fs"
  by (induction off fs rule: starts.induct) simp_all

lemma finish_ge: "\<forall>f \<in> set fs. 0 < snd f \<Longrightarrow> off \<le> finish off fs"
proof (induction off fs rule: finish.induct)
  case (2 off s a fs)
  then have "round_up off a + s \<le> finish (round_up off a + s) fs" by simp
  with round_up_ge [of off a] show ?case by simp
qed simp

lemma starts_bounds:
  assumes "\<forall>f \<in> set fs. 0 < snd f" "i < length fs"
  shows "off \<le> starts off fs ! i \<and> snd (fs ! i) dvd starts off fs ! i \<and> starts off fs ! i + fst (fs ! i) \<le> finish off fs"
  using assms
proof (induction off fs arbitrary: i rule: starts.induct)
  case (2 off s a fs)
  let ?o = "round_up off a"
  have o: "off \<le> ?o" "a dvd ?o" using 2(2) by (simp_all add: round_up_ge round_up_dvd)
  have e: "?o + s \<le> finish (?o + s) fs" using 2(2) by (intro finish_ge) simp
  show ?case
  proof (cases i)
    case (Suc k)
    with 2(1) [of k] 2(2,3) o show ?thesis by simp
  qed (use o e in simp)
qed simp

lemma starts_ordered:
  assumes "\<forall>f \<in> set fs. 0 < snd f" "i < j" "j < length fs"
  shows "starts off fs ! i + fst (fs ! i) \<le> starts off fs ! j"
  using assms
proof (induction off fs arbitrary: i j rule: starts.induct)
  case (2 off s a fs)
  obtain k where k: "j = Suc k" "k < length fs" using 2(3,4) by (cases j) auto
  show ?case
  proof (cases i)
    case 0
    with starts_bounds [of fs k "round_up off a + s"] 2(2) k show ?thesis by simp
  next
    case (Suc l)
    with 2(1) [of l k] 2(2,3) k show ?thesis by simp
  qed
qed simp

lemma fold_max: "n \<le> fold max xs (n :: nat)" "x \<in> set xs \<Longrightarrow> x \<le> fold max xs n" "fold max xs n \<in> insert n (set xs)"
proof -
  have "n \<le> fold max xs n \<and> (x \<in> set xs \<longrightarrow> x \<le> fold max xs n) \<and> fold max xs n \<in> insert n (set xs)" for x
  proof (induction xs arbitrary: n)
    case (Cons y ys)
    from Cons.IH [of "max y n"] show ?case by (auto simp: max_def split: if_splits)
  qed simp
  then show "n \<le> fold max xs n" "x \<in> set xs \<Longrightarrow> x \<le> fold max xs n" "fold max xs n \<in> insert n (set xs)" by auto
qed

lemma align_cases: "wf_type t \<Longrightarrow> align_of t \<in> {1, 2, 4, 8}"
proof (induction t rule: align_of.induct)
  case (3 fs)
  have "\<forall>f \<in> set fs. align_of (snd f) \<in> {1, 2, 4, 8}" using 3 by (simp add: list_all_iff)
  then show ?case using fold_max(3) [of "map (\<lambda>f. align_of (snd f)) fs" 1] by auto
qed auto

lemma align_dvd: "a \<in> {1, 2, 4, 8} \<Longrightarrow> b \<in> {1, 2, 4, 8} \<Longrightarrow> a \<le> b \<Longrightarrow> a dvd (b :: nat)"
  by auto

lemma align_of_field:
  assumes "wf_type (GoStruct fs)" "f \<in> set fs"
  shows "0 < align_of (snd f)" "align_of (snd f) dvd align_of (GoStruct fs)"
proof -
  have f: "align_of (snd f) \<in> {1, 2, 4, 8}" using assms by (intro align_cases) (auto simp: list_all_iff)
  then show "0 < align_of (snd f)" by auto
  have "align_of (snd f) \<le> align_of (GoStruct fs)"
    using fold_max(2) [of "align_of (snd f)" "map (\<lambda>f. align_of (snd f)) fs" 1] assms(2) by simp
  with align_dvd [OF f align_cases [OF assms(1)]] show "align_of (snd f) dvd align_of (GoStruct fs)" .
qed

lemma struct_layout:
  assumes "wf_type (GoStruct fs)" "i < length fs"
  shows "align_of (snd (fs ! i)) dvd offsets fs ! i"
    "offsets fs ! i + size_of (snd (fs ! i)) \<le> size_of (GoStruct fs)"
    "i < j \<Longrightarrow> j < length fs \<Longrightarrow> offsets fs ! i + size_of (snd (fs ! i)) \<le> offsets fs ! j"
proof -
  let ?l = "map (\<lambda>f. (size_of (snd f), align_of (snd f))) fs"
  have pos: "\<forall>f \<in> set ?l. 0 < snd f" using align_of_field(1) [OF assms(1)] by auto
  show "align_of (snd (fs ! i)) dvd offsets fs ! i"
    using starts_bounds [OF pos, of i 0] assms(2) by (simp add: offsets_def)
  have "offsets fs ! i + size_of (snd (fs ! i)) \<le> finish 0 ?l"
    using starts_bounds [OF pos, of i 0] assms(2) by (simp add: offsets_def)
  also have "\<dots> \<le> size_of (GoStruct fs)" by (simp add: round_up_ge)
  finally show "offsets fs ! i + size_of (snd (fs ! i)) \<le> size_of (GoStruct fs)" .
  show "i < j \<Longrightarrow> j < length fs \<Longrightarrow> offsets fs ! i + size_of (snd (fs ! i)) \<le> offsets fs ! j"
    using starts_ordered [OF pos, of i j 0] by (simp add: offsets_def)
qed

lemma check_compiles_iff: "check_compiles (t, n) \<longleftrightarrow> size_of t = n"
  by (auto simp: check_compiles_def)

text \<open>The structures that occur inside others.\<close>

lemma nested_layouts [simp]:
  "size_of stPoint = 8" "align_of stPoint = 4" "wf_type stPoint"
  "size_of stRect = 16" "align_of stRect = 4" "wf_type stRect"
  "size_of stNMHdr = 24" "align_of stNMHdr = 8" "wf_type stNMHdr"
  "size_of stSystemTime = 16" "align_of stSystemTime = 2" "wf_type stSystemTime"
  "size_of stTVItem = 56" "align_of stTVItem = 8" "wf_type stTVItem"
  "size_of stTVItemEx = 80" "align_of stTVItemEx = 8" "wf_type stTVItemEx"
  "size_of stLVItem = 88" "align_of stLVItem = 8" "wf_type stLVItem"
  "size_of go_GUID = 16" "align_of go_GUID = 4" "wf_type go_GUID"
  "size_of stCharRange = 8" "align_of stCharRange = 4" "wf_type stCharRange"
  by (simp_all add: stPoint_def stRect_def stNMHdr_def stSystemTime_def stTVItem_def stTVItemEx_def stLVItem_def
      go_GUID_def stCharRange_def round_up_def max_def del: One_nat_def)

lemma align_dvd_size: "wf_type (GoStruct fs) \<Longrightarrow> align_of (GoStruct fs) dvd size_of (GoStruct fs)"
  using align_cases [of "GoStruct fs"] by (auto intro!: round_up_dvd)

text \<open>Every size check compiles.\<close>

lemma size_checks_pass: "list_all (\<lambda>c. check_compiles c \<and> wf_type (fst c)) size_checks"
  unfolding size_checks_def list.pred_inject check_compiles_iff fst_conv simp_thms
  by (intro conjI; simp add: struct_defs round_up_def max_def del: One_nat_def)

section \<open>Properties\<close>

text \<open>Each structure of the checks has exactly the size that the C compiler reported, a multiple of its alignment, and its
  fields lie inside it, one after the other, each at a multiple of its own alignment. Where a field of the C structure lies,
  and how wide it is, the checks do not say.\<close>

theorem size_checks_layout:
  assumes "(GoStruct fs, n) \<in> set size_checks" and "i < j" and "j < length fs"
  shows "size_of (GoStruct fs) = n \<and> align_of (GoStruct fs) dvd n \<and> align_of (snd (fs ! j)) dvd offsets fs ! j \<and>
    offsets fs ! i + size_of (snd (fs ! i)) \<le> offsets fs ! j \<and> offsets fs ! j + size_of (snd (fs ! j)) \<le> n"
proof -
  have t: "size_of (GoStruct fs) = n" "wf_type (GoStruct fs)"
    using bspec [OF size_checks_pass [unfolded list_all_iff] assms(1)] by (simp_all only: check_compiles_iff fst_conv)
  with struct_layout(1,2) [OF t(2) assms(3)] struct_layout(3) [OF t(2) _ assms(2,3)] assms(2,3) align_dvd_size [OF t(2)]
  show ?thesis by simp
qed

text \<open>An example of what the checks cannot see: \<^verbatim>\<open>lParam\<close> of \<^verbatim>\<open>stTCItem\<close> has four bytes and four bytes of
  padding after it, which together have the size of the eight bytes of an \<^verbatim>\<open>LPARAM\<close>.\<close>

lemma tcitem_lParam: "size_of stTCItem = 40 \<and> leaves stTCItem ! 6 = 32 \<and> leaves stTCItem ! 7 = 36"
  by (simp add: stTCItem_def offsets_def round_up_def)

text \<open>The dump of \<^verbatim>\<open>ti\<close> is meant to show the offsets of the members, and they are these; but bytes of \<^verbatim>\<open>0x80\<close> and
  above, those of the last member, are printed with eight digits.\<close>

theorem toolinfo_dump:
  "leaves stToolInfo = [0, 4, 8, 16, 24, 28, 32, 36, 40, 48, 56, 64]"
  "print_char 0x77 = ''77''" "print_char 0x88 = ''ffffff88''"
  by (simp_all add: stToolInfo_def stRect_def offsets_def round_up_def print_char_def hex_digits.simps)

end
