(* ===== verification/AbiBrowser.thy ===== *)
theory AbiBrowser
  imports WebView2Abi
begin

text \<open>
  \<^verbatim>\<open>builtin/goc/webview2/WebView2.h\<close>, the browser interface \<^verbatim>\<open>ICoreWebView2\<close> in its versions: each interface as its C++ class (its own methods after its base) and as its C table
  (every member), transcribed separately, and that the table is the layout of the class. The methods and members of an
  interface that others extend are named, since the tables of those repeat them; the others stand where they are declared.
\<close>

section \<open>Methods and classes\<close>

definition ICoreWebView2_get_Settings :: cmethod where
  "ICoreWebView2_get_Settings =
     Method ''HRESULT'' ''get_Settings'' [''ICoreWebView2Settings **settings'']"

definition ICoreWebView2_get_Source :: cmethod where
  "ICoreWebView2_get_Source =
     Method ''HRESULT'' ''get_Source'' [''LPWSTR *uri'']"

definition ICoreWebView2_Navigate :: cmethod where
  "ICoreWebView2_Navigate =
     Method ''HRESULT'' ''Navigate'' [''LPCWSTR uri'']"

definition ICoreWebView2_NavigateToString :: cmethod where
  "ICoreWebView2_NavigateToString =
     Method ''HRESULT'' ''NavigateToString'' [''LPCWSTR htmlContent'']"

definition ICoreWebView2_add_NavigationStarting :: cmethod where
  "ICoreWebView2_add_NavigationStarting =
     Method ''HRESULT'' ''add_NavigationStarting'' [''ICoreWebView2NavigationStartingEventHandler *eventHandler'', ''EventRegistrationToken *token'']"

definition ICoreWebView2_remove_NavigationStarting :: cmethod where
  "ICoreWebView2_remove_NavigationStarting =
     Method ''HRESULT'' ''remove_NavigationStarting'' [''EventRegistrationToken token'']"

definition ICoreWebView2_add_ContentLoading :: cmethod where
  "ICoreWebView2_add_ContentLoading =
     Method ''HRESULT'' ''add_ContentLoading'' [''ICoreWebView2ContentLoadingEventHandler *eventHandler'', ''EventRegistrationToken *token'']"

definition ICoreWebView2_remove_ContentLoading :: cmethod where
  "ICoreWebView2_remove_ContentLoading =
     Method ''HRESULT'' ''remove_ContentLoading'' [''EventRegistrationToken token'']"

definition ICoreWebView2_add_SourceChanged :: cmethod where
  "ICoreWebView2_add_SourceChanged =
     Method ''HRESULT'' ''add_SourceChanged'' [''ICoreWebView2SourceChangedEventHandler *eventHandler'', ''EventRegistrationToken *token'']"

definition ICoreWebView2_remove_SourceChanged :: cmethod where
  "ICoreWebView2_remove_SourceChanged =
     Method ''HRESULT'' ''remove_SourceChanged'' [''EventRegistrationToken token'']"

definition ICoreWebView2_add_HistoryChanged :: cmethod where
  "ICoreWebView2_add_HistoryChanged =
     Method ''HRESULT'' ''add_HistoryChanged'' [''ICoreWebView2HistoryChangedEventHandler *eventHandler'', ''EventRegistrationToken *token'']"

definition ICoreWebView2_remove_HistoryChanged :: cmethod where
  "ICoreWebView2_remove_HistoryChanged =
     Method ''HRESULT'' ''remove_HistoryChanged'' [''EventRegistrationToken token'']"

definition ICoreWebView2_add_NavigationCompleted :: cmethod where
  "ICoreWebView2_add_NavigationCompleted =
     Method ''HRESULT'' ''add_NavigationCompleted'' [''ICoreWebView2NavigationCompletedEventHandler *eventHandler'', ''EventRegistrationToken *token'']"

definition ICoreWebView2_remove_NavigationCompleted :: cmethod where
  "ICoreWebView2_remove_NavigationCompleted =
     Method ''HRESULT'' ''remove_NavigationCompleted'' [''EventRegistrationToken token'']"

definition ICoreWebView2_add_FrameNavigationStarting :: cmethod where
  "ICoreWebView2_add_FrameNavigationStarting =
     Method ''HRESULT'' ''add_FrameNavigationStarting'' [''ICoreWebView2NavigationStartingEventHandler *eventHandler'', ''EventRegistrationToken *token'']"

definition ICoreWebView2_remove_FrameNavigationStarting :: cmethod where
  "ICoreWebView2_remove_FrameNavigationStarting =
     Method ''HRESULT'' ''remove_FrameNavigationStarting'' [''EventRegistrationToken token'']"

definition ICoreWebView2_add_FrameNavigationCompleted :: cmethod where
  "ICoreWebView2_add_FrameNavigationCompleted =
     Method ''HRESULT'' ''add_FrameNavigationCompleted'' [''ICoreWebView2NavigationCompletedEventHandler *eventHandler'', ''EventRegistrationToken *token'']"

definition ICoreWebView2_remove_FrameNavigationCompleted :: cmethod where
  "ICoreWebView2_remove_FrameNavigationCompleted =
     Method ''HRESULT'' ''remove_FrameNavigationCompleted'' [''EventRegistrationToken token'']"

definition ICoreWebView2_add_ScriptDialogOpening :: cmethod where
  "ICoreWebView2_add_ScriptDialogOpening =
     Method ''HRESULT'' ''add_ScriptDialogOpening'' [''ICoreWebView2ScriptDialogOpeningEventHandler *eventHandler'', ''EventRegistrationToken *token'']"

definition ICoreWebView2_remove_ScriptDialogOpening :: cmethod where
  "ICoreWebView2_remove_ScriptDialogOpening =
     Method ''HRESULT'' ''remove_ScriptDialogOpening'' [''EventRegistrationToken token'']"

definition ICoreWebView2_add_PermissionRequested :: cmethod where
  "ICoreWebView2_add_PermissionRequested =
     Method ''HRESULT'' ''add_PermissionRequested'' [''ICoreWebView2PermissionRequestedEventHandler *eventHandler'', ''EventRegistrationToken *token'']"

definition ICoreWebView2_remove_PermissionRequested :: cmethod where
  "ICoreWebView2_remove_PermissionRequested =
     Method ''HRESULT'' ''remove_PermissionRequested'' [''EventRegistrationToken token'']"

definition ICoreWebView2_add_ProcessFailed :: cmethod where
  "ICoreWebView2_add_ProcessFailed =
     Method ''HRESULT'' ''add_ProcessFailed'' [''ICoreWebView2ProcessFailedEventHandler *eventHandler'', ''EventRegistrationToken *token'']"

definition ICoreWebView2_remove_ProcessFailed :: cmethod where
  "ICoreWebView2_remove_ProcessFailed =
     Method ''HRESULT'' ''remove_ProcessFailed'' [''EventRegistrationToken token'']"

definition ICoreWebView2_AddScriptToExecuteOnDocumentCreated :: cmethod where
  "ICoreWebView2_AddScriptToExecuteOnDocumentCreated =
     Method ''HRESULT'' ''AddScriptToExecuteOnDocumentCreated'' [''LPCWSTR javaScript'', ''ICoreWebView2AddScriptToExecuteOnDocumentCreatedCompletedHandler *handler'']"

definition ICoreWebView2_RemoveScriptToExecuteOnDocumentCreated :: cmethod where
  "ICoreWebView2_RemoveScriptToExecuteOnDocumentCreated =
     Method ''HRESULT'' ''RemoveScriptToExecuteOnDocumentCreated'' [''LPCWSTR id'']"

definition ICoreWebView2_ExecuteScript :: cmethod where
  "ICoreWebView2_ExecuteScript =
     Method ''HRESULT'' ''ExecuteScript'' [''LPCWSTR javaScript'', ''ICoreWebView2ExecuteScriptCompletedHandler *handler'']"

definition ICoreWebView2_CapturePreview :: cmethod where
  "ICoreWebView2_CapturePreview =
     Method ''HRESULT'' ''CapturePreview'' [''COREWEBVIEW2_CAPTURE_PREVIEW_IMAGE_FORMAT imageFormat'', ''IStream *imageStream'', ''ICoreWebView2CapturePreviewCompletedHandler *handler'']"

definition ICoreWebView2_Reload :: cmethod where
  "ICoreWebView2_Reload =
     Method ''HRESULT'' ''Reload'' []"

definition ICoreWebView2_PostWebMessageAsJson :: cmethod where
  "ICoreWebView2_PostWebMessageAsJson =
     Method ''HRESULT'' ''PostWebMessageAsJson'' [''LPCWSTR webMessageAsJson'']"

definition ICoreWebView2_PostWebMessageAsString :: cmethod where
  "ICoreWebView2_PostWebMessageAsString =
     Method ''HRESULT'' ''PostWebMessageAsString'' [''LPCWSTR webMessageAsString'']"

definition ICoreWebView2_add_WebMessageReceived :: cmethod where
  "ICoreWebView2_add_WebMessageReceived =
     Method ''HRESULT'' ''add_WebMessageReceived'' [''ICoreWebView2WebMessageReceivedEventHandler *handler'', ''EventRegistrationToken *token'']"

definition ICoreWebView2_remove_WebMessageReceived :: cmethod where
  "ICoreWebView2_remove_WebMessageReceived =
     Method ''HRESULT'' ''remove_WebMessageReceived'' [''EventRegistrationToken token'']"

definition ICoreWebView2_CallDevToolsProtocolMethod :: cmethod where
  "ICoreWebView2_CallDevToolsProtocolMethod =
     Method ''HRESULT'' ''CallDevToolsProtocolMethod'' [''LPCWSTR methodName'', ''LPCWSTR parametersAsJson'', ''ICoreWebView2CallDevToolsProtocolMethodCompletedHandler *handler'']"

definition ICoreWebView2_get_BrowserProcessId :: cmethod where
  "ICoreWebView2_get_BrowserProcessId =
     Method ''HRESULT'' ''get_BrowserProcessId'' [''UINT32 *value'']"

definition ICoreWebView2_get_CanGoBack :: cmethod where
  "ICoreWebView2_get_CanGoBack =
     Method ''HRESULT'' ''get_CanGoBack'' [''BOOL *canGoBack'']"

definition ICoreWebView2_get_CanGoForward :: cmethod where
  "ICoreWebView2_get_CanGoForward =
     Method ''HRESULT'' ''get_CanGoForward'' [''BOOL *canGoForward'']"

definition ICoreWebView2_GoBack :: cmethod where
  "ICoreWebView2_GoBack =
     Method ''HRESULT'' ''GoBack'' []"

definition ICoreWebView2_GoForward :: cmethod where
  "ICoreWebView2_GoForward =
     Method ''HRESULT'' ''GoForward'' []"

definition ICoreWebView2_GetDevToolsProtocolEventReceiver :: cmethod where
  "ICoreWebView2_GetDevToolsProtocolEventReceiver =
     Method ''HRESULT'' ''GetDevToolsProtocolEventReceiver'' [''LPCWSTR eventName'', ''ICoreWebView2DevToolsProtocolEventReceiver **receiver'']"

definition ICoreWebView2_Stop :: cmethod where
  "ICoreWebView2_Stop =
     Method ''HRESULT'' ''Stop'' []"

definition ICoreWebView2_add_NewWindowRequested :: cmethod where
  "ICoreWebView2_add_NewWindowRequested =
     Method ''HRESULT'' ''add_NewWindowRequested'' [''ICoreWebView2NewWindowRequestedEventHandler *eventHandler'', ''EventRegistrationToken *token'']"

definition ICoreWebView2_remove_NewWindowRequested :: cmethod where
  "ICoreWebView2_remove_NewWindowRequested =
     Method ''HRESULT'' ''remove_NewWindowRequested'' [''EventRegistrationToken token'']"

definition ICoreWebView2_add_DocumentTitleChanged :: cmethod where
  "ICoreWebView2_add_DocumentTitleChanged =
     Method ''HRESULT'' ''add_DocumentTitleChanged'' [''ICoreWebView2DocumentTitleChangedEventHandler *eventHandler'', ''EventRegistrationToken *token'']"

definition ICoreWebView2_remove_DocumentTitleChanged :: cmethod where
  "ICoreWebView2_remove_DocumentTitleChanged =
     Method ''HRESULT'' ''remove_DocumentTitleChanged'' [''EventRegistrationToken token'']"

definition ICoreWebView2_get_DocumentTitle :: cmethod where
  "ICoreWebView2_get_DocumentTitle =
     Method ''HRESULT'' ''get_DocumentTitle'' [''LPWSTR *title'']"

definition ICoreWebView2_AddHostObjectToScript :: cmethod where
  "ICoreWebView2_AddHostObjectToScript =
     Method ''HRESULT'' ''AddHostObjectToScript'' [''LPCWSTR name'', ''VARIANT *object'']"

definition ICoreWebView2_RemoveHostObjectFromScript :: cmethod where
  "ICoreWebView2_RemoveHostObjectFromScript =
     Method ''HRESULT'' ''RemoveHostObjectFromScript'' [''LPCWSTR name'']"

definition ICoreWebView2_OpenDevToolsWindow :: cmethod where
  "ICoreWebView2_OpenDevToolsWindow =
     Method ''HRESULT'' ''OpenDevToolsWindow'' []"

definition ICoreWebView2_add_ContainsFullScreenElementChanged :: cmethod where
  "ICoreWebView2_add_ContainsFullScreenElementChanged =
     Method ''HRESULT'' ''add_ContainsFullScreenElementChanged'' [''ICoreWebView2ContainsFullScreenElementChangedEventHandler *eventHandler'', ''EventRegistrationToken *token'']"

definition ICoreWebView2_remove_ContainsFullScreenElementChanged :: cmethod where
  "ICoreWebView2_remove_ContainsFullScreenElementChanged =
     Method ''HRESULT'' ''remove_ContainsFullScreenElementChanged'' [''EventRegistrationToken token'']"

definition ICoreWebView2_get_ContainsFullScreenElement :: cmethod where
  "ICoreWebView2_get_ContainsFullScreenElement =
     Method ''HRESULT'' ''get_ContainsFullScreenElement'' [''BOOL *containsFullScreenElement'']"

definition ICoreWebView2_add_WebResourceRequested :: cmethod where
  "ICoreWebView2_add_WebResourceRequested =
     Method ''HRESULT'' ''add_WebResourceRequested'' [''ICoreWebView2WebResourceRequestedEventHandler *eventHandler'', ''EventRegistrationToken *token'']"

definition ICoreWebView2_remove_WebResourceRequested :: cmethod where
  "ICoreWebView2_remove_WebResourceRequested =
     Method ''HRESULT'' ''remove_WebResourceRequested'' [''EventRegistrationToken token'']"

definition ICoreWebView2_AddWebResourceRequestedFilter :: cmethod where
  "ICoreWebView2_AddWebResourceRequestedFilter =
     Method ''HRESULT'' ''AddWebResourceRequestedFilter'' [''const LPCWSTR uri'', ''const COREWEBVIEW2_WEB_RESOURCE_CONTEXT resourceContext'']"

definition ICoreWebView2_RemoveWebResourceRequestedFilter :: cmethod where
  "ICoreWebView2_RemoveWebResourceRequestedFilter =
     Method ''HRESULT'' ''RemoveWebResourceRequestedFilter'' [''const LPCWSTR uri'', ''const COREWEBVIEW2_WEB_RESOURCE_CONTEXT resourceContext'']"

definition ICoreWebView2_add_WindowCloseRequested :: cmethod where
  "ICoreWebView2_add_WindowCloseRequested =
     Method ''HRESULT'' ''add_WindowCloseRequested'' [''ICoreWebView2WindowCloseRequestedEventHandler *eventHandler'', ''EventRegistrationToken *token'']"

definition ICoreWebView2_remove_WindowCloseRequested :: cmethod where
  "ICoreWebView2_remove_WindowCloseRequested =
     Method ''HRESULT'' ''remove_WindowCloseRequested'' [''EventRegistrationToken token'']"

definition ICoreWebView2 :: iface where
  "ICoreWebView2 = Derived ''ICoreWebView2'' IUnknown
     [ICoreWebView2_get_Settings, ICoreWebView2_get_Source, ICoreWebView2_Navigate, ICoreWebView2_NavigateToString,
      ICoreWebView2_add_NavigationStarting, ICoreWebView2_remove_NavigationStarting,
      ICoreWebView2_add_ContentLoading, ICoreWebView2_remove_ContentLoading, ICoreWebView2_add_SourceChanged,
      ICoreWebView2_remove_SourceChanged, ICoreWebView2_add_HistoryChanged, ICoreWebView2_remove_HistoryChanged,
      ICoreWebView2_add_NavigationCompleted, ICoreWebView2_remove_NavigationCompleted,
      ICoreWebView2_add_FrameNavigationStarting, ICoreWebView2_remove_FrameNavigationStarting,
      ICoreWebView2_add_FrameNavigationCompleted, ICoreWebView2_remove_FrameNavigationCompleted,
      ICoreWebView2_add_ScriptDialogOpening, ICoreWebView2_remove_ScriptDialogOpening,
      ICoreWebView2_add_PermissionRequested, ICoreWebView2_remove_PermissionRequested,
      ICoreWebView2_add_ProcessFailed, ICoreWebView2_remove_ProcessFailed,
      ICoreWebView2_AddScriptToExecuteOnDocumentCreated, ICoreWebView2_RemoveScriptToExecuteOnDocumentCreated,
      ICoreWebView2_ExecuteScript, ICoreWebView2_CapturePreview, ICoreWebView2_Reload,
      ICoreWebView2_PostWebMessageAsJson, ICoreWebView2_PostWebMessageAsString, ICoreWebView2_add_WebMessageReceived,
      ICoreWebView2_remove_WebMessageReceived, ICoreWebView2_CallDevToolsProtocolMethod,
      ICoreWebView2_get_BrowserProcessId, ICoreWebView2_get_CanGoBack, ICoreWebView2_get_CanGoForward,
      ICoreWebView2_GoBack, ICoreWebView2_GoForward, ICoreWebView2_GetDevToolsProtocolEventReceiver,
      ICoreWebView2_Stop, ICoreWebView2_add_NewWindowRequested, ICoreWebView2_remove_NewWindowRequested,
      ICoreWebView2_add_DocumentTitleChanged, ICoreWebView2_remove_DocumentTitleChanged,
      ICoreWebView2_get_DocumentTitle, ICoreWebView2_AddHostObjectToScript, ICoreWebView2_RemoveHostObjectFromScript,
      ICoreWebView2_OpenDevToolsWindow, ICoreWebView2_add_ContainsFullScreenElementChanged,
      ICoreWebView2_remove_ContainsFullScreenElementChanged, ICoreWebView2_get_ContainsFullScreenElement,
      ICoreWebView2_add_WebResourceRequested, ICoreWebView2_remove_WebResourceRequested,
      ICoreWebView2_AddWebResourceRequestedFilter, ICoreWebView2_RemoveWebResourceRequestedFilter,
      ICoreWebView2_add_WindowCloseRequested, ICoreWebView2_remove_WindowCloseRequested]"

definition ICoreWebView2_2_add_WebResourceResponseReceived :: cmethod where
  "ICoreWebView2_2_add_WebResourceResponseReceived =
     Method ''HRESULT'' ''add_WebResourceResponseReceived'' [''ICoreWebView2WebResourceResponseReceivedEventHandler *eventHandler'', ''EventRegistrationToken *token'']"

definition ICoreWebView2_2_remove_WebResourceResponseReceived :: cmethod where
  "ICoreWebView2_2_remove_WebResourceResponseReceived =
     Method ''HRESULT'' ''remove_WebResourceResponseReceived'' [''EventRegistrationToken token'']"

definition ICoreWebView2_2_NavigateWithWebResourceRequest :: cmethod where
  "ICoreWebView2_2_NavigateWithWebResourceRequest =
     Method ''HRESULT'' ''NavigateWithWebResourceRequest'' [''ICoreWebView2WebResourceRequest *request'']"

definition ICoreWebView2_2_add_DOMContentLoaded :: cmethod where
  "ICoreWebView2_2_add_DOMContentLoaded =
     Method ''HRESULT'' ''add_DOMContentLoaded'' [''ICoreWebView2DOMContentLoadedEventHandler *eventHandler'', ''EventRegistrationToken *token'']"

definition ICoreWebView2_2_remove_DOMContentLoaded :: cmethod where
  "ICoreWebView2_2_remove_DOMContentLoaded =
     Method ''HRESULT'' ''remove_DOMContentLoaded'' [''EventRegistrationToken token'']"

definition ICoreWebView2_2_get_CookieManager :: cmethod where
  "ICoreWebView2_2_get_CookieManager =
     Method ''HRESULT'' ''get_CookieManager'' [''ICoreWebView2CookieManager **cookieManager'']"

definition ICoreWebView2_2_get_Environment :: cmethod where
  "ICoreWebView2_2_get_Environment =
     Method ''HRESULT'' ''get_Environment'' [''ICoreWebView2Environment **environment'']"

definition ICoreWebView2_2 :: iface where
  "ICoreWebView2_2 = Derived ''ICoreWebView2_2'' ICoreWebView2
     [ICoreWebView2_2_add_WebResourceResponseReceived, ICoreWebView2_2_remove_WebResourceResponseReceived,
      ICoreWebView2_2_NavigateWithWebResourceRequest, ICoreWebView2_2_add_DOMContentLoaded,
      ICoreWebView2_2_remove_DOMContentLoaded, ICoreWebView2_2_get_CookieManager, ICoreWebView2_2_get_Environment]"

definition ICoreWebView2_3_TrySuspend :: cmethod where
  "ICoreWebView2_3_TrySuspend =
     Method ''HRESULT'' ''TrySuspend'' [''ICoreWebView2TrySuspendCompletedHandler *handler'']"

definition ICoreWebView2_3_Resume :: cmethod where
  "ICoreWebView2_3_Resume =
     Method ''HRESULT'' ''Resume'' []"

definition ICoreWebView2_3_get_IsSuspended :: cmethod where
  "ICoreWebView2_3_get_IsSuspended =
     Method ''HRESULT'' ''get_IsSuspended'' [''BOOL *isSuspended'']"

definition ICoreWebView2_3_SetVirtualHostNameToFolderMapping :: cmethod where
  "ICoreWebView2_3_SetVirtualHostNameToFolderMapping =
     Method ''HRESULT'' ''SetVirtualHostNameToFolderMapping'' [''LPCWSTR hostName'', ''LPCWSTR folderPath'', ''COREWEBVIEW2_HOST_RESOURCE_ACCESS_KIND accessKind'']"

definition ICoreWebView2_3_ClearVirtualHostNameToFolderMapping :: cmethod where
  "ICoreWebView2_3_ClearVirtualHostNameToFolderMapping =
     Method ''HRESULT'' ''ClearVirtualHostNameToFolderMapping'' [''LPCWSTR hostName'']"

definition ICoreWebView2_3 :: iface where
  "ICoreWebView2_3 = Derived ''ICoreWebView2_3'' ICoreWebView2_2
     [ICoreWebView2_3_TrySuspend, ICoreWebView2_3_Resume, ICoreWebView2_3_get_IsSuspended,
      ICoreWebView2_3_SetVirtualHostNameToFolderMapping, ICoreWebView2_3_ClearVirtualHostNameToFolderMapping]"

definition ICoreWebView2_4_add_FrameCreated :: cmethod where
  "ICoreWebView2_4_add_FrameCreated =
     Method ''HRESULT'' ''add_FrameCreated'' [''ICoreWebView2FrameCreatedEventHandler *eventHandler'', ''EventRegistrationToken *token'']"

definition ICoreWebView2_4_remove_FrameCreated :: cmethod where
  "ICoreWebView2_4_remove_FrameCreated =
     Method ''HRESULT'' ''remove_FrameCreated'' [''EventRegistrationToken token'']"

definition ICoreWebView2_4_add_DownloadStarting :: cmethod where
  "ICoreWebView2_4_add_DownloadStarting =
     Method ''HRESULT'' ''add_DownloadStarting'' [''ICoreWebView2DownloadStartingEventHandler *eventHandler'', ''EventRegistrationToken *token'']"

definition ICoreWebView2_4_remove_DownloadStarting :: cmethod where
  "ICoreWebView2_4_remove_DownloadStarting =
     Method ''HRESULT'' ''remove_DownloadStarting'' [''EventRegistrationToken token'']"

definition ICoreWebView2_4 :: iface where
  "ICoreWebView2_4 = Derived ''ICoreWebView2_4'' ICoreWebView2_3
     [ICoreWebView2_4_add_FrameCreated, ICoreWebView2_4_remove_FrameCreated, ICoreWebView2_4_add_DownloadStarting,
      ICoreWebView2_4_remove_DownloadStarting]"

definition ICoreWebView2_5_add_ClientCertificateRequested :: cmethod where
  "ICoreWebView2_5_add_ClientCertificateRequested =
     Method ''HRESULT'' ''add_ClientCertificateRequested'' [''ICoreWebView2ClientCertificateRequestedEventHandler *eventHandler'', ''EventRegistrationToken *token'']"

definition ICoreWebView2_5_remove_ClientCertificateRequested :: cmethod where
  "ICoreWebView2_5_remove_ClientCertificateRequested =
     Method ''HRESULT'' ''remove_ClientCertificateRequested'' [''EventRegistrationToken token'']"

definition ICoreWebView2_5 :: iface where
  "ICoreWebView2_5 = Derived ''ICoreWebView2_5'' ICoreWebView2_4
     [ICoreWebView2_5_add_ClientCertificateRequested, ICoreWebView2_5_remove_ClientCertificateRequested]"

definition ICoreWebView2_6_OpenTaskManagerWindow :: cmethod where
  "ICoreWebView2_6_OpenTaskManagerWindow =
     Method ''HRESULT'' ''OpenTaskManagerWindow'' []"

definition ICoreWebView2_6 :: iface where
  "ICoreWebView2_6 = Derived ''ICoreWebView2_6'' ICoreWebView2_5
     [ICoreWebView2_6_OpenTaskManagerWindow]"

definition ICoreWebView2_7_PrintToPdf :: cmethod where
  "ICoreWebView2_7_PrintToPdf =
     Method ''HRESULT'' ''PrintToPdf'' [''LPCWSTR resultFilePath'', ''ICoreWebView2PrintSettings *printSettings'', ''ICoreWebView2PrintToPdfCompletedHandler *handler'']"

definition ICoreWebView2_7 :: iface where
  "ICoreWebView2_7 = Derived ''ICoreWebView2_7'' ICoreWebView2_6
     [ICoreWebView2_7_PrintToPdf]"

definition ICoreWebView2_8_add_IsMutedChanged :: cmethod where
  "ICoreWebView2_8_add_IsMutedChanged =
     Method ''HRESULT'' ''add_IsMutedChanged'' [''ICoreWebView2IsMutedChangedEventHandler *eventHandler'', ''EventRegistrationToken *token'']"

definition ICoreWebView2_8_remove_IsMutedChanged :: cmethod where
  "ICoreWebView2_8_remove_IsMutedChanged =
     Method ''HRESULT'' ''remove_IsMutedChanged'' [''EventRegistrationToken token'']"

definition ICoreWebView2_8_get_IsMuted :: cmethod where
  "ICoreWebView2_8_get_IsMuted =
     Method ''HRESULT'' ''get_IsMuted'' [''BOOL *value'']"

definition ICoreWebView2_8_put_IsMuted :: cmethod where
  "ICoreWebView2_8_put_IsMuted =
     Method ''HRESULT'' ''put_IsMuted'' [''BOOL value'']"

definition ICoreWebView2_8_add_IsDocumentPlayingAudioChanged :: cmethod where
  "ICoreWebView2_8_add_IsDocumentPlayingAudioChanged =
     Method ''HRESULT'' ''add_IsDocumentPlayingAudioChanged'' [''ICoreWebView2IsDocumentPlayingAudioChangedEventHandler *eventHandler'', ''EventRegistrationToken *token'']"

definition ICoreWebView2_8_remove_IsDocumentPlayingAudioChanged :: cmethod where
  "ICoreWebView2_8_remove_IsDocumentPlayingAudioChanged =
     Method ''HRESULT'' ''remove_IsDocumentPlayingAudioChanged'' [''EventRegistrationToken token'']"

definition ICoreWebView2_8_get_IsDocumentPlayingAudio :: cmethod where
  "ICoreWebView2_8_get_IsDocumentPlayingAudio =
     Method ''HRESULT'' ''get_IsDocumentPlayingAudio'' [''BOOL *value'']"

definition ICoreWebView2_8 :: iface where
  "ICoreWebView2_8 = Derived ''ICoreWebView2_8'' ICoreWebView2_7
     [ICoreWebView2_8_add_IsMutedChanged, ICoreWebView2_8_remove_IsMutedChanged, ICoreWebView2_8_get_IsMuted,
      ICoreWebView2_8_put_IsMuted, ICoreWebView2_8_add_IsDocumentPlayingAudioChanged,
      ICoreWebView2_8_remove_IsDocumentPlayingAudioChanged, ICoreWebView2_8_get_IsDocumentPlayingAudio]"

definition ICoreWebView2_9_add_IsDefaultDownloadDialogOpenChanged :: cmethod where
  "ICoreWebView2_9_add_IsDefaultDownloadDialogOpenChanged =
     Method ''HRESULT'' ''add_IsDefaultDownloadDialogOpenChanged'' [''ICoreWebView2IsDefaultDownloadDialogOpenChangedEventHandler *handler'', ''EventRegistrationToken *token'']"

definition ICoreWebView2_9_remove_IsDefaultDownloadDialogOpenChanged :: cmethod where
  "ICoreWebView2_9_remove_IsDefaultDownloadDialogOpenChanged =
     Method ''HRESULT'' ''remove_IsDefaultDownloadDialogOpenChanged'' [''EventRegistrationToken token'']"

definition ICoreWebView2_9_get_IsDefaultDownloadDialogOpen :: cmethod where
  "ICoreWebView2_9_get_IsDefaultDownloadDialogOpen =
     Method ''HRESULT'' ''get_IsDefaultDownloadDialogOpen'' [''BOOL *value'']"

definition ICoreWebView2_9_OpenDefaultDownloadDialog :: cmethod where
  "ICoreWebView2_9_OpenDefaultDownloadDialog =
     Method ''HRESULT'' ''OpenDefaultDownloadDialog'' []"

definition ICoreWebView2_9_CloseDefaultDownloadDialog :: cmethod where
  "ICoreWebView2_9_CloseDefaultDownloadDialog =
     Method ''HRESULT'' ''CloseDefaultDownloadDialog'' []"

definition ICoreWebView2_9_get_DefaultDownloadDialogCornerAlignment :: cmethod where
  "ICoreWebView2_9_get_DefaultDownloadDialogCornerAlignment =
     Method ''HRESULT'' ''get_DefaultDownloadDialogCornerAlignment'' [''COREWEBVIEW2_DEFAULT_DOWNLOAD_DIALOG_CORNER_ALIGNMENT *value'']"

definition ICoreWebView2_9_put_DefaultDownloadDialogCornerAlignment :: cmethod where
  "ICoreWebView2_9_put_DefaultDownloadDialogCornerAlignment =
     Method ''HRESULT'' ''put_DefaultDownloadDialogCornerAlignment'' [''COREWEBVIEW2_DEFAULT_DOWNLOAD_DIALOG_CORNER_ALIGNMENT value'']"

definition ICoreWebView2_9_get_DefaultDownloadDialogMargin :: cmethod where
  "ICoreWebView2_9_get_DefaultDownloadDialogMargin =
     Method ''HRESULT'' ''get_DefaultDownloadDialogMargin'' [''POINT *value'']"

definition ICoreWebView2_9_put_DefaultDownloadDialogMargin :: cmethod where
  "ICoreWebView2_9_put_DefaultDownloadDialogMargin =
     Method ''HRESULT'' ''put_DefaultDownloadDialogMargin'' [''POINT value'']"

definition ICoreWebView2_9 :: iface where
  "ICoreWebView2_9 = Derived ''ICoreWebView2_9'' ICoreWebView2_8
     [ICoreWebView2_9_add_IsDefaultDownloadDialogOpenChanged,
      ICoreWebView2_9_remove_IsDefaultDownloadDialogOpenChanged, ICoreWebView2_9_get_IsDefaultDownloadDialogOpen,
      ICoreWebView2_9_OpenDefaultDownloadDialog, ICoreWebView2_9_CloseDefaultDownloadDialog,
      ICoreWebView2_9_get_DefaultDownloadDialogCornerAlignment,
      ICoreWebView2_9_put_DefaultDownloadDialogCornerAlignment, ICoreWebView2_9_get_DefaultDownloadDialogMargin,
      ICoreWebView2_9_put_DefaultDownloadDialogMargin]"

definition ICoreWebView2_10_add_BasicAuthenticationRequested :: cmethod where
  "ICoreWebView2_10_add_BasicAuthenticationRequested =
     Method ''HRESULT'' ''add_BasicAuthenticationRequested'' [''ICoreWebView2BasicAuthenticationRequestedEventHandler *eventHandler'', ''EventRegistrationToken *token'']"

definition ICoreWebView2_10_remove_BasicAuthenticationRequested :: cmethod where
  "ICoreWebView2_10_remove_BasicAuthenticationRequested =
     Method ''HRESULT'' ''remove_BasicAuthenticationRequested'' [''EventRegistrationToken token'']"

definition ICoreWebView2_10 :: iface where
  "ICoreWebView2_10 = Derived ''ICoreWebView2_10'' ICoreWebView2_9
     [ICoreWebView2_10_add_BasicAuthenticationRequested, ICoreWebView2_10_remove_BasicAuthenticationRequested]"

definition ICoreWebView2_11_CallDevToolsProtocolMethodForSession :: cmethod where
  "ICoreWebView2_11_CallDevToolsProtocolMethodForSession =
     Method ''HRESULT'' ''CallDevToolsProtocolMethodForSession'' [''LPCWSTR sessionId'', ''LPCWSTR methodName'', ''LPCWSTR parametersAsJson'', ''ICoreWebView2CallDevToolsProtocolMethodCompletedHandler *handler'']"

definition ICoreWebView2_11_add_ContextMenuRequested :: cmethod where
  "ICoreWebView2_11_add_ContextMenuRequested =
     Method ''HRESULT'' ''add_ContextMenuRequested'' [''ICoreWebView2ContextMenuRequestedEventHandler *eventHandler'', ''EventRegistrationToken *token'']"

definition ICoreWebView2_11_remove_ContextMenuRequested :: cmethod where
  "ICoreWebView2_11_remove_ContextMenuRequested =
     Method ''HRESULT'' ''remove_ContextMenuRequested'' [''EventRegistrationToken token'']"

definition ICoreWebView2_11 :: iface where
  "ICoreWebView2_11 = Derived ''ICoreWebView2_11'' ICoreWebView2_10
     [ICoreWebView2_11_CallDevToolsProtocolMethodForSession, ICoreWebView2_11_add_ContextMenuRequested,
      ICoreWebView2_11_remove_ContextMenuRequested]"

definition ICoreWebView2_12_add_StatusBarTextChanged :: cmethod where
  "ICoreWebView2_12_add_StatusBarTextChanged =
     Method ''HRESULT'' ''add_StatusBarTextChanged'' [''ICoreWebView2StatusBarTextChangedEventHandler *eventHandler'', ''EventRegistrationToken *token'']"

definition ICoreWebView2_12_remove_StatusBarTextChanged :: cmethod where
  "ICoreWebView2_12_remove_StatusBarTextChanged =
     Method ''HRESULT'' ''remove_StatusBarTextChanged'' [''EventRegistrationToken token'']"

definition ICoreWebView2_12_get_StatusBarText :: cmethod where
  "ICoreWebView2_12_get_StatusBarText =
     Method ''HRESULT'' ''get_StatusBarText'' [''LPWSTR *value'']"

definition ICoreWebView2_12 :: iface where
  "ICoreWebView2_12 = Derived ''ICoreWebView2_12'' ICoreWebView2_11
     [ICoreWebView2_12_add_StatusBarTextChanged, ICoreWebView2_12_remove_StatusBarTextChanged,
      ICoreWebView2_12_get_StatusBarText]"

definition ICoreWebView2_13_get_Profile :: cmethod where
  "ICoreWebView2_13_get_Profile =
     Method ''HRESULT'' ''get_Profile'' [''ICoreWebView2Profile **value'']"

definition ICoreWebView2_13 :: iface where
  "ICoreWebView2_13 = Derived ''ICoreWebView2_13'' ICoreWebView2_12
     [ICoreWebView2_13_get_Profile]"

definition ICoreWebView2_14_add_ServerCertificateErrorDetected :: cmethod where
  "ICoreWebView2_14_add_ServerCertificateErrorDetected =
     Method ''HRESULT'' ''add_ServerCertificateErrorDetected'' [''ICoreWebView2ServerCertificateErrorDetectedEventHandler *eventHandler'', ''EventRegistrationToken *token'']"

definition ICoreWebView2_14_remove_ServerCertificateErrorDetected :: cmethod where
  "ICoreWebView2_14_remove_ServerCertificateErrorDetected =
     Method ''HRESULT'' ''remove_ServerCertificateErrorDetected'' [''EventRegistrationToken token'']"

definition ICoreWebView2_14_ClearServerCertificateErrorActions :: cmethod where
  "ICoreWebView2_14_ClearServerCertificateErrorActions =
     Method ''HRESULT'' ''ClearServerCertificateErrorActions'' [''ICoreWebView2ClearServerCertificateErrorActionsCompletedHandler *handler'']"

definition ICoreWebView2_14 :: iface where
  "ICoreWebView2_14 = Derived ''ICoreWebView2_14'' ICoreWebView2_13
     [ICoreWebView2_14_add_ServerCertificateErrorDetected, ICoreWebView2_14_remove_ServerCertificateErrorDetected,
      ICoreWebView2_14_ClearServerCertificateErrorActions]"

definition ICoreWebView2_15_add_FaviconChanged :: cmethod where
  "ICoreWebView2_15_add_FaviconChanged =
     Method ''HRESULT'' ''add_FaviconChanged'' [''ICoreWebView2FaviconChangedEventHandler *eventHandler'', ''EventRegistrationToken *token'']"

definition ICoreWebView2_15_remove_FaviconChanged :: cmethod where
  "ICoreWebView2_15_remove_FaviconChanged =
     Method ''HRESULT'' ''remove_FaviconChanged'' [''EventRegistrationToken token'']"

definition ICoreWebView2_15_get_FaviconUri :: cmethod where
  "ICoreWebView2_15_get_FaviconUri =
     Method ''HRESULT'' ''get_FaviconUri'' [''LPWSTR *value'']"

definition ICoreWebView2_15_GetFavicon :: cmethod where
  "ICoreWebView2_15_GetFavicon =
     Method ''HRESULT'' ''GetFavicon'' [''COREWEBVIEW2_FAVICON_IMAGE_FORMAT format'', ''ICoreWebView2GetFaviconCompletedHandler *completedHandler'']"

definition ICoreWebView2_15 :: iface where
  "ICoreWebView2_15 = Derived ''ICoreWebView2_15'' ICoreWebView2_14
     [ICoreWebView2_15_add_FaviconChanged, ICoreWebView2_15_remove_FaviconChanged, ICoreWebView2_15_get_FaviconUri,
      ICoreWebView2_15_GetFavicon]"

definition ICoreWebView2_16_Print :: cmethod where
  "ICoreWebView2_16_Print =
     Method ''HRESULT'' ''Print'' [''ICoreWebView2PrintSettings *printSettings'', ''ICoreWebView2PrintCompletedHandler *handler'']"

definition ICoreWebView2_16_ShowPrintUI :: cmethod where
  "ICoreWebView2_16_ShowPrintUI =
     Method ''HRESULT'' ''ShowPrintUI'' [''COREWEBVIEW2_PRINT_DIALOG_KIND printDialogKind'']"

definition ICoreWebView2_16_PrintToPdfStream :: cmethod where
  "ICoreWebView2_16_PrintToPdfStream =
     Method ''HRESULT'' ''PrintToPdfStream'' [''ICoreWebView2PrintSettings *printSettings'', ''ICoreWebView2PrintToPdfStreamCompletedHandler *handler'']"

definition ICoreWebView2_16 :: iface where
  "ICoreWebView2_16 = Derived ''ICoreWebView2_16'' ICoreWebView2_15
     [ICoreWebView2_16_Print, ICoreWebView2_16_ShowPrintUI, ICoreWebView2_16_PrintToPdfStream]"

definition ICoreWebView2_17_PostSharedBufferToScript :: cmethod where
  "ICoreWebView2_17_PostSharedBufferToScript =
     Method ''HRESULT'' ''PostSharedBufferToScript'' [''ICoreWebView2SharedBuffer *sharedBuffer'', ''COREWEBVIEW2_SHARED_BUFFER_ACCESS access'', ''LPCWSTR additionalDataAsJson'']"

definition ICoreWebView2_17 :: iface where
  "ICoreWebView2_17 = Derived ''ICoreWebView2_17'' ICoreWebView2_16
     [ICoreWebView2_17_PostSharedBufferToScript]"

definition ICoreWebView2_18_add_LaunchingExternalUriScheme :: cmethod where
  "ICoreWebView2_18_add_LaunchingExternalUriScheme =
     Method ''HRESULT'' ''add_LaunchingExternalUriScheme'' [''ICoreWebView2LaunchingExternalUriSchemeEventHandler *eventHandler'', ''EventRegistrationToken *token'']"

definition ICoreWebView2_18_remove_LaunchingExternalUriScheme :: cmethod where
  "ICoreWebView2_18_remove_LaunchingExternalUriScheme =
     Method ''HRESULT'' ''remove_LaunchingExternalUriScheme'' [''EventRegistrationToken token'']"

definition ICoreWebView2_18 :: iface where
  "ICoreWebView2_18 = Derived ''ICoreWebView2_18'' ICoreWebView2_17
     [ICoreWebView2_18_add_LaunchingExternalUriScheme, ICoreWebView2_18_remove_LaunchingExternalUriScheme]"

definition ICoreWebView2_19_get_MemoryUsageTargetLevel :: cmethod where
  "ICoreWebView2_19_get_MemoryUsageTargetLevel =
     Method ''HRESULT'' ''get_MemoryUsageTargetLevel'' [''COREWEBVIEW2_MEMORY_USAGE_TARGET_LEVEL *level'']"

definition ICoreWebView2_19_put_MemoryUsageTargetLevel :: cmethod where
  "ICoreWebView2_19_put_MemoryUsageTargetLevel =
     Method ''HRESULT'' ''put_MemoryUsageTargetLevel'' [''COREWEBVIEW2_MEMORY_USAGE_TARGET_LEVEL level'']"

definition ICoreWebView2_19 :: iface where
  "ICoreWebView2_19 = Derived ''ICoreWebView2_19'' ICoreWebView2_18
     [ICoreWebView2_19_get_MemoryUsageTargetLevel, ICoreWebView2_19_put_MemoryUsageTargetLevel]"

definition ICoreWebView2_20_get_FrameId :: cmethod where
  "ICoreWebView2_20_get_FrameId =
     Method ''HRESULT'' ''get_FrameId'' [''UINT32 *id'']"

definition ICoreWebView2_20 :: iface where
  "ICoreWebView2_20 = Derived ''ICoreWebView2_20'' ICoreWebView2_19
     [ICoreWebView2_20_get_FrameId]"

definition ICoreWebView2_21_ExecuteScriptWithResult :: cmethod where
  "ICoreWebView2_21_ExecuteScriptWithResult =
     Method ''HRESULT'' ''ExecuteScriptWithResult'' [''LPCWSTR javaScript'', ''ICoreWebView2ExecuteScriptWithResultCompletedHandler *handler'']"

definition ICoreWebView2_21 :: iface where
  "ICoreWebView2_21 = Derived ''ICoreWebView2_21'' ICoreWebView2_20
     [ICoreWebView2_21_ExecuteScriptWithResult]"

definition ICoreWebView2_22 :: iface where
  "ICoreWebView2_22 = Derived ''ICoreWebView2_22'' ICoreWebView2_21
     [Method ''HRESULT'' ''AddWebResourceRequestedFilterWithRequestSourceKinds'' [''const LPCWSTR uri'', ''const COREWEBVIEW2_WEB_RESOURCE_CONTEXT resourceContext'', ''const COREWEBVIEW2_WEB_RESOURCE_REQUEST_SOURCE_KINDS requestSourceKinds''],
      Method ''HRESULT'' ''RemoveWebResourceRequestedFilterWithRequestSourceKinds'' [''const LPCWSTR uri'', ''const COREWEBVIEW2_WEB_RESOURCE_CONTEXT resourceContext'', ''const COREWEBVIEW2_WEB_RESOURCE_REQUEST_SOURCE_KINDS requestSourceKinds'']]"

section \<open>Members of the tables that later ones repeat\<close>

definition ICoreWebView2_get_Settings_C :: cdecl where
  "ICoreWebView2_get_Settings_C =
     CDecl ''ICoreWebView2'' ''HRESULT'' ''get_Settings'' [''ICoreWebView2Settings **settings'']"

definition ICoreWebView2_get_Source_C :: cdecl where
  "ICoreWebView2_get_Source_C =
     CDecl ''ICoreWebView2'' ''HRESULT'' ''get_Source'' [''LPWSTR *uri'']"

definition ICoreWebView2_Navigate_C :: cdecl where
  "ICoreWebView2_Navigate_C =
     CDecl ''ICoreWebView2'' ''HRESULT'' ''Navigate'' [''LPCWSTR uri'']"

definition ICoreWebView2_NavigateToString_C :: cdecl where
  "ICoreWebView2_NavigateToString_C =
     CDecl ''ICoreWebView2'' ''HRESULT'' ''NavigateToString'' [''LPCWSTR htmlContent'']"

definition ICoreWebView2_add_NavigationStarting_C :: cdecl where
  "ICoreWebView2_add_NavigationStarting_C =
     CDecl ''ICoreWebView2'' ''HRESULT'' ''add_NavigationStarting'' [''ICoreWebView2NavigationStartingEventHandler *eventHandler'', ''EventRegistrationToken *token'']"

definition ICoreWebView2_remove_NavigationStarting_C :: cdecl where
  "ICoreWebView2_remove_NavigationStarting_C =
     CDecl ''ICoreWebView2'' ''HRESULT'' ''remove_NavigationStarting'' [''EventRegistrationToken token'']"

definition ICoreWebView2_add_ContentLoading_C :: cdecl where
  "ICoreWebView2_add_ContentLoading_C =
     CDecl ''ICoreWebView2'' ''HRESULT'' ''add_ContentLoading'' [''ICoreWebView2ContentLoadingEventHandler *eventHandler'', ''EventRegistrationToken *token'']"

definition ICoreWebView2_remove_ContentLoading_C :: cdecl where
  "ICoreWebView2_remove_ContentLoading_C =
     CDecl ''ICoreWebView2'' ''HRESULT'' ''remove_ContentLoading'' [''EventRegistrationToken token'']"

definition ICoreWebView2_add_SourceChanged_C :: cdecl where
  "ICoreWebView2_add_SourceChanged_C =
     CDecl ''ICoreWebView2'' ''HRESULT'' ''add_SourceChanged'' [''ICoreWebView2SourceChangedEventHandler *eventHandler'', ''EventRegistrationToken *token'']"

definition ICoreWebView2_remove_SourceChanged_C :: cdecl where
  "ICoreWebView2_remove_SourceChanged_C =
     CDecl ''ICoreWebView2'' ''HRESULT'' ''remove_SourceChanged'' [''EventRegistrationToken token'']"

definition ICoreWebView2_add_HistoryChanged_C :: cdecl where
  "ICoreWebView2_add_HistoryChanged_C =
     CDecl ''ICoreWebView2'' ''HRESULT'' ''add_HistoryChanged'' [''ICoreWebView2HistoryChangedEventHandler *eventHandler'', ''EventRegistrationToken *token'']"

definition ICoreWebView2_remove_HistoryChanged_C :: cdecl where
  "ICoreWebView2_remove_HistoryChanged_C =
     CDecl ''ICoreWebView2'' ''HRESULT'' ''remove_HistoryChanged'' [''EventRegistrationToken token'']"

definition ICoreWebView2_add_NavigationCompleted_C :: cdecl where
  "ICoreWebView2_add_NavigationCompleted_C =
     CDecl ''ICoreWebView2'' ''HRESULT'' ''add_NavigationCompleted'' [''ICoreWebView2NavigationCompletedEventHandler *eventHandler'', ''EventRegistrationToken *token'']"

definition ICoreWebView2_remove_NavigationCompleted_C :: cdecl where
  "ICoreWebView2_remove_NavigationCompleted_C =
     CDecl ''ICoreWebView2'' ''HRESULT'' ''remove_NavigationCompleted'' [''EventRegistrationToken token'']"

definition ICoreWebView2_add_FrameNavigationStarting_C :: cdecl where
  "ICoreWebView2_add_FrameNavigationStarting_C =
     CDecl ''ICoreWebView2'' ''HRESULT'' ''add_FrameNavigationStarting'' [''ICoreWebView2NavigationStartingEventHandler *eventHandler'', ''EventRegistrationToken *token'']"

definition ICoreWebView2_remove_FrameNavigationStarting_C :: cdecl where
  "ICoreWebView2_remove_FrameNavigationStarting_C =
     CDecl ''ICoreWebView2'' ''HRESULT'' ''remove_FrameNavigationStarting'' [''EventRegistrationToken token'']"

definition ICoreWebView2_add_FrameNavigationCompleted_C :: cdecl where
  "ICoreWebView2_add_FrameNavigationCompleted_C =
     CDecl ''ICoreWebView2'' ''HRESULT'' ''add_FrameNavigationCompleted'' [''ICoreWebView2NavigationCompletedEventHandler *eventHandler'', ''EventRegistrationToken *token'']"

definition ICoreWebView2_remove_FrameNavigationCompleted_C :: cdecl where
  "ICoreWebView2_remove_FrameNavigationCompleted_C =
     CDecl ''ICoreWebView2'' ''HRESULT'' ''remove_FrameNavigationCompleted'' [''EventRegistrationToken token'']"

definition ICoreWebView2_add_ScriptDialogOpening_C :: cdecl where
  "ICoreWebView2_add_ScriptDialogOpening_C =
     CDecl ''ICoreWebView2'' ''HRESULT'' ''add_ScriptDialogOpening'' [''ICoreWebView2ScriptDialogOpeningEventHandler *eventHandler'', ''EventRegistrationToken *token'']"

definition ICoreWebView2_remove_ScriptDialogOpening_C :: cdecl where
  "ICoreWebView2_remove_ScriptDialogOpening_C =
     CDecl ''ICoreWebView2'' ''HRESULT'' ''remove_ScriptDialogOpening'' [''EventRegistrationToken token'']"

definition ICoreWebView2_add_PermissionRequested_C :: cdecl where
  "ICoreWebView2_add_PermissionRequested_C =
     CDecl ''ICoreWebView2'' ''HRESULT'' ''add_PermissionRequested'' [''ICoreWebView2PermissionRequestedEventHandler *eventHandler'', ''EventRegistrationToken *token'']"

definition ICoreWebView2_remove_PermissionRequested_C :: cdecl where
  "ICoreWebView2_remove_PermissionRequested_C =
     CDecl ''ICoreWebView2'' ''HRESULT'' ''remove_PermissionRequested'' [''EventRegistrationToken token'']"

definition ICoreWebView2_add_ProcessFailed_C :: cdecl where
  "ICoreWebView2_add_ProcessFailed_C =
     CDecl ''ICoreWebView2'' ''HRESULT'' ''add_ProcessFailed'' [''ICoreWebView2ProcessFailedEventHandler *eventHandler'', ''EventRegistrationToken *token'']"

definition ICoreWebView2_remove_ProcessFailed_C :: cdecl where
  "ICoreWebView2_remove_ProcessFailed_C =
     CDecl ''ICoreWebView2'' ''HRESULT'' ''remove_ProcessFailed'' [''EventRegistrationToken token'']"

definition ICoreWebView2_AddScriptToExecuteOnDocumentCreated_C :: cdecl where
  "ICoreWebView2_AddScriptToExecuteOnDocumentCreated_C =
     CDecl ''ICoreWebView2'' ''HRESULT'' ''AddScriptToExecuteOnDocumentCreated'' [''LPCWSTR javaScript'', ''ICoreWebView2AddScriptToExecuteOnDocumentCreatedCompletedHandler *handler'']"

definition ICoreWebView2_RemoveScriptToExecuteOnDocumentCreated_C :: cdecl where
  "ICoreWebView2_RemoveScriptToExecuteOnDocumentCreated_C =
     CDecl ''ICoreWebView2'' ''HRESULT'' ''RemoveScriptToExecuteOnDocumentCreated'' [''LPCWSTR id'']"

definition ICoreWebView2_ExecuteScript_C :: cdecl where
  "ICoreWebView2_ExecuteScript_C =
     CDecl ''ICoreWebView2'' ''HRESULT'' ''ExecuteScript'' [''LPCWSTR javaScript'', ''ICoreWebView2ExecuteScriptCompletedHandler *handler'']"

definition ICoreWebView2_CapturePreview_C :: cdecl where
  "ICoreWebView2_CapturePreview_C =
     CDecl ''ICoreWebView2'' ''HRESULT'' ''CapturePreview'' [''COREWEBVIEW2_CAPTURE_PREVIEW_IMAGE_FORMAT imageFormat'', ''IStream *imageStream'', ''ICoreWebView2CapturePreviewCompletedHandler *handler'']"

definition ICoreWebView2_Reload_C :: cdecl where
  "ICoreWebView2_Reload_C =
     CDecl ''ICoreWebView2'' ''HRESULT'' ''Reload'' []"

definition ICoreWebView2_PostWebMessageAsJson_C :: cdecl where
  "ICoreWebView2_PostWebMessageAsJson_C =
     CDecl ''ICoreWebView2'' ''HRESULT'' ''PostWebMessageAsJson'' [''LPCWSTR webMessageAsJson'']"

definition ICoreWebView2_PostWebMessageAsString_C :: cdecl where
  "ICoreWebView2_PostWebMessageAsString_C =
     CDecl ''ICoreWebView2'' ''HRESULT'' ''PostWebMessageAsString'' [''LPCWSTR webMessageAsString'']"

definition ICoreWebView2_add_WebMessageReceived_C :: cdecl where
  "ICoreWebView2_add_WebMessageReceived_C =
     CDecl ''ICoreWebView2'' ''HRESULT'' ''add_WebMessageReceived'' [''ICoreWebView2WebMessageReceivedEventHandler *handler'', ''EventRegistrationToken *token'']"

definition ICoreWebView2_remove_WebMessageReceived_C :: cdecl where
  "ICoreWebView2_remove_WebMessageReceived_C =
     CDecl ''ICoreWebView2'' ''HRESULT'' ''remove_WebMessageReceived'' [''EventRegistrationToken token'']"

definition ICoreWebView2_CallDevToolsProtocolMethod_C :: cdecl where
  "ICoreWebView2_CallDevToolsProtocolMethod_C =
     CDecl ''ICoreWebView2'' ''HRESULT'' ''CallDevToolsProtocolMethod'' [''LPCWSTR methodName'', ''LPCWSTR parametersAsJson'', ''ICoreWebView2CallDevToolsProtocolMethodCompletedHandler *handler'']"

definition ICoreWebView2_get_BrowserProcessId_C :: cdecl where
  "ICoreWebView2_get_BrowserProcessId_C =
     CDecl ''ICoreWebView2'' ''HRESULT'' ''get_BrowserProcessId'' [''UINT32 *value'']"

definition ICoreWebView2_get_CanGoBack_C :: cdecl where
  "ICoreWebView2_get_CanGoBack_C =
     CDecl ''ICoreWebView2'' ''HRESULT'' ''get_CanGoBack'' [''BOOL *canGoBack'']"

definition ICoreWebView2_get_CanGoForward_C :: cdecl where
  "ICoreWebView2_get_CanGoForward_C =
     CDecl ''ICoreWebView2'' ''HRESULT'' ''get_CanGoForward'' [''BOOL *canGoForward'']"

definition ICoreWebView2_GoBack_C :: cdecl where
  "ICoreWebView2_GoBack_C =
     CDecl ''ICoreWebView2'' ''HRESULT'' ''GoBack'' []"

definition ICoreWebView2_GoForward_C :: cdecl where
  "ICoreWebView2_GoForward_C =
     CDecl ''ICoreWebView2'' ''HRESULT'' ''GoForward'' []"

definition ICoreWebView2_GetDevToolsProtocolEventReceiver_C :: cdecl where
  "ICoreWebView2_GetDevToolsProtocolEventReceiver_C =
     CDecl ''ICoreWebView2'' ''HRESULT'' ''GetDevToolsProtocolEventReceiver'' [''LPCWSTR eventName'', ''ICoreWebView2DevToolsProtocolEventReceiver **receiver'']"

definition ICoreWebView2_Stop_C :: cdecl where
  "ICoreWebView2_Stop_C =
     CDecl ''ICoreWebView2'' ''HRESULT'' ''Stop'' []"

definition ICoreWebView2_add_NewWindowRequested_C :: cdecl where
  "ICoreWebView2_add_NewWindowRequested_C =
     CDecl ''ICoreWebView2'' ''HRESULT'' ''add_NewWindowRequested'' [''ICoreWebView2NewWindowRequestedEventHandler *eventHandler'', ''EventRegistrationToken *token'']"

definition ICoreWebView2_remove_NewWindowRequested_C :: cdecl where
  "ICoreWebView2_remove_NewWindowRequested_C =
     CDecl ''ICoreWebView2'' ''HRESULT'' ''remove_NewWindowRequested'' [''EventRegistrationToken token'']"

definition ICoreWebView2_add_DocumentTitleChanged_C :: cdecl where
  "ICoreWebView2_add_DocumentTitleChanged_C =
     CDecl ''ICoreWebView2'' ''HRESULT'' ''add_DocumentTitleChanged'' [''ICoreWebView2DocumentTitleChangedEventHandler *eventHandler'', ''EventRegistrationToken *token'']"

definition ICoreWebView2_remove_DocumentTitleChanged_C :: cdecl where
  "ICoreWebView2_remove_DocumentTitleChanged_C =
     CDecl ''ICoreWebView2'' ''HRESULT'' ''remove_DocumentTitleChanged'' [''EventRegistrationToken token'']"

definition ICoreWebView2_get_DocumentTitle_C :: cdecl where
  "ICoreWebView2_get_DocumentTitle_C =
     CDecl ''ICoreWebView2'' ''HRESULT'' ''get_DocumentTitle'' [''LPWSTR *title'']"

definition ICoreWebView2_AddHostObjectToScript_C :: cdecl where
  "ICoreWebView2_AddHostObjectToScript_C =
     CDecl ''ICoreWebView2'' ''HRESULT'' ''AddHostObjectToScript'' [''LPCWSTR name'', ''VARIANT *object'']"

definition ICoreWebView2_RemoveHostObjectFromScript_C :: cdecl where
  "ICoreWebView2_RemoveHostObjectFromScript_C =
     CDecl ''ICoreWebView2'' ''HRESULT'' ''RemoveHostObjectFromScript'' [''LPCWSTR name'']"

definition ICoreWebView2_OpenDevToolsWindow_C :: cdecl where
  "ICoreWebView2_OpenDevToolsWindow_C =
     CDecl ''ICoreWebView2'' ''HRESULT'' ''OpenDevToolsWindow'' []"

definition ICoreWebView2_add_ContainsFullScreenElementChanged_C :: cdecl where
  "ICoreWebView2_add_ContainsFullScreenElementChanged_C =
     CDecl ''ICoreWebView2'' ''HRESULT'' ''add_ContainsFullScreenElementChanged'' [''ICoreWebView2ContainsFullScreenElementChangedEventHandler *eventHandler'', ''EventRegistrationToken *token'']"

definition ICoreWebView2_remove_ContainsFullScreenElementChanged_C :: cdecl where
  "ICoreWebView2_remove_ContainsFullScreenElementChanged_C =
     CDecl ''ICoreWebView2'' ''HRESULT'' ''remove_ContainsFullScreenElementChanged'' [''EventRegistrationToken token'']"

definition ICoreWebView2_get_ContainsFullScreenElement_C :: cdecl where
  "ICoreWebView2_get_ContainsFullScreenElement_C =
     CDecl ''ICoreWebView2'' ''HRESULT'' ''get_ContainsFullScreenElement'' [''BOOL *containsFullScreenElement'']"

definition ICoreWebView2_add_WebResourceRequested_C :: cdecl where
  "ICoreWebView2_add_WebResourceRequested_C =
     CDecl ''ICoreWebView2'' ''HRESULT'' ''add_WebResourceRequested'' [''ICoreWebView2WebResourceRequestedEventHandler *eventHandler'', ''EventRegistrationToken *token'']"

definition ICoreWebView2_remove_WebResourceRequested_C :: cdecl where
  "ICoreWebView2_remove_WebResourceRequested_C =
     CDecl ''ICoreWebView2'' ''HRESULT'' ''remove_WebResourceRequested'' [''EventRegistrationToken token'']"

definition ICoreWebView2_AddWebResourceRequestedFilter_C :: cdecl where
  "ICoreWebView2_AddWebResourceRequestedFilter_C =
     CDecl ''ICoreWebView2'' ''HRESULT'' ''AddWebResourceRequestedFilter'' [''const LPCWSTR uri'', ''const COREWEBVIEW2_WEB_RESOURCE_CONTEXT resourceContext'']"

definition ICoreWebView2_RemoveWebResourceRequestedFilter_C :: cdecl where
  "ICoreWebView2_RemoveWebResourceRequestedFilter_C =
     CDecl ''ICoreWebView2'' ''HRESULT'' ''RemoveWebResourceRequestedFilter'' [''const LPCWSTR uri'', ''const COREWEBVIEW2_WEB_RESOURCE_CONTEXT resourceContext'']"

definition ICoreWebView2_add_WindowCloseRequested_C :: cdecl where
  "ICoreWebView2_add_WindowCloseRequested_C =
     CDecl ''ICoreWebView2'' ''HRESULT'' ''add_WindowCloseRequested'' [''ICoreWebView2WindowCloseRequestedEventHandler *eventHandler'', ''EventRegistrationToken *token'']"

definition ICoreWebView2_remove_WindowCloseRequested_C :: cdecl where
  "ICoreWebView2_remove_WindowCloseRequested_C =
     CDecl ''ICoreWebView2'' ''HRESULT'' ''remove_WindowCloseRequested'' [''EventRegistrationToken token'']"

definition ICoreWebView2_2_add_WebResourceResponseReceived_C :: cdecl where
  "ICoreWebView2_2_add_WebResourceResponseReceived_C =
     CDecl ''ICoreWebView2_2'' ''HRESULT'' ''add_WebResourceResponseReceived'' [''ICoreWebView2WebResourceResponseReceivedEventHandler *eventHandler'', ''EventRegistrationToken *token'']"

definition ICoreWebView2_2_remove_WebResourceResponseReceived_C :: cdecl where
  "ICoreWebView2_2_remove_WebResourceResponseReceived_C =
     CDecl ''ICoreWebView2_2'' ''HRESULT'' ''remove_WebResourceResponseReceived'' [''EventRegistrationToken token'']"

definition ICoreWebView2_2_NavigateWithWebResourceRequest_C :: cdecl where
  "ICoreWebView2_2_NavigateWithWebResourceRequest_C =
     CDecl ''ICoreWebView2_2'' ''HRESULT'' ''NavigateWithWebResourceRequest'' [''ICoreWebView2WebResourceRequest *request'']"

definition ICoreWebView2_2_add_DOMContentLoaded_C :: cdecl where
  "ICoreWebView2_2_add_DOMContentLoaded_C =
     CDecl ''ICoreWebView2_2'' ''HRESULT'' ''add_DOMContentLoaded'' [''ICoreWebView2DOMContentLoadedEventHandler *eventHandler'', ''EventRegistrationToken *token'']"

definition ICoreWebView2_2_remove_DOMContentLoaded_C :: cdecl where
  "ICoreWebView2_2_remove_DOMContentLoaded_C =
     CDecl ''ICoreWebView2_2'' ''HRESULT'' ''remove_DOMContentLoaded'' [''EventRegistrationToken token'']"

definition ICoreWebView2_2_get_CookieManager_C :: cdecl where
  "ICoreWebView2_2_get_CookieManager_C =
     CDecl ''ICoreWebView2_2'' ''HRESULT'' ''get_CookieManager'' [''ICoreWebView2CookieManager **cookieManager'']"

definition ICoreWebView2_2_get_Environment_C :: cdecl where
  "ICoreWebView2_2_get_Environment_C =
     CDecl ''ICoreWebView2_2'' ''HRESULT'' ''get_Environment'' [''ICoreWebView2Environment **environment'']"

definition ICoreWebView2_3_TrySuspend_C :: cdecl where
  "ICoreWebView2_3_TrySuspend_C =
     CDecl ''ICoreWebView2_3'' ''HRESULT'' ''TrySuspend'' [''ICoreWebView2TrySuspendCompletedHandler *handler'']"

definition ICoreWebView2_3_Resume_C :: cdecl where
  "ICoreWebView2_3_Resume_C =
     CDecl ''ICoreWebView2_3'' ''HRESULT'' ''Resume'' []"

definition ICoreWebView2_3_get_IsSuspended_C :: cdecl where
  "ICoreWebView2_3_get_IsSuspended_C =
     CDecl ''ICoreWebView2_3'' ''HRESULT'' ''get_IsSuspended'' [''BOOL *isSuspended'']"

definition ICoreWebView2_3_SetVirtualHostNameToFolderMapping_C :: cdecl where
  "ICoreWebView2_3_SetVirtualHostNameToFolderMapping_C =
     CDecl ''ICoreWebView2_3'' ''HRESULT'' ''SetVirtualHostNameToFolderMapping'' [''LPCWSTR hostName'', ''LPCWSTR folderPath'', ''COREWEBVIEW2_HOST_RESOURCE_ACCESS_KIND accessKind'']"

definition ICoreWebView2_3_ClearVirtualHostNameToFolderMapping_C :: cdecl where
  "ICoreWebView2_3_ClearVirtualHostNameToFolderMapping_C =
     CDecl ''ICoreWebView2_3'' ''HRESULT'' ''ClearVirtualHostNameToFolderMapping'' [''LPCWSTR hostName'']"

definition ICoreWebView2_4_add_FrameCreated_C :: cdecl where
  "ICoreWebView2_4_add_FrameCreated_C =
     CDecl ''ICoreWebView2_4'' ''HRESULT'' ''add_FrameCreated'' [''ICoreWebView2FrameCreatedEventHandler *eventHandler'', ''EventRegistrationToken *token'']"

definition ICoreWebView2_4_remove_FrameCreated_C :: cdecl where
  "ICoreWebView2_4_remove_FrameCreated_C =
     CDecl ''ICoreWebView2_4'' ''HRESULT'' ''remove_FrameCreated'' [''EventRegistrationToken token'']"

definition ICoreWebView2_4_add_DownloadStarting_C :: cdecl where
  "ICoreWebView2_4_add_DownloadStarting_C =
     CDecl ''ICoreWebView2_4'' ''HRESULT'' ''add_DownloadStarting'' [''ICoreWebView2DownloadStartingEventHandler *eventHandler'', ''EventRegistrationToken *token'']"

definition ICoreWebView2_4_remove_DownloadStarting_C :: cdecl where
  "ICoreWebView2_4_remove_DownloadStarting_C =
     CDecl ''ICoreWebView2_4'' ''HRESULT'' ''remove_DownloadStarting'' [''EventRegistrationToken token'']"

definition ICoreWebView2_5_add_ClientCertificateRequested_C :: cdecl where
  "ICoreWebView2_5_add_ClientCertificateRequested_C =
     CDecl ''ICoreWebView2_5'' ''HRESULT'' ''add_ClientCertificateRequested'' [''ICoreWebView2ClientCertificateRequestedEventHandler *eventHandler'', ''EventRegistrationToken *token'']"

definition ICoreWebView2_5_remove_ClientCertificateRequested_C :: cdecl where
  "ICoreWebView2_5_remove_ClientCertificateRequested_C =
     CDecl ''ICoreWebView2_5'' ''HRESULT'' ''remove_ClientCertificateRequested'' [''EventRegistrationToken token'']"

definition ICoreWebView2_6_OpenTaskManagerWindow_C :: cdecl where
  "ICoreWebView2_6_OpenTaskManagerWindow_C =
     CDecl ''ICoreWebView2_6'' ''HRESULT'' ''OpenTaskManagerWindow'' []"

definition ICoreWebView2_7_PrintToPdf_C :: cdecl where
  "ICoreWebView2_7_PrintToPdf_C =
     CDecl ''ICoreWebView2_7'' ''HRESULT'' ''PrintToPdf'' [''LPCWSTR resultFilePath'', ''ICoreWebView2PrintSettings *printSettings'', ''ICoreWebView2PrintToPdfCompletedHandler *handler'']"

definition ICoreWebView2_8_add_IsMutedChanged_C :: cdecl where
  "ICoreWebView2_8_add_IsMutedChanged_C =
     CDecl ''ICoreWebView2_8'' ''HRESULT'' ''add_IsMutedChanged'' [''ICoreWebView2IsMutedChangedEventHandler *eventHandler'', ''EventRegistrationToken *token'']"

definition ICoreWebView2_8_remove_IsMutedChanged_C :: cdecl where
  "ICoreWebView2_8_remove_IsMutedChanged_C =
     CDecl ''ICoreWebView2_8'' ''HRESULT'' ''remove_IsMutedChanged'' [''EventRegistrationToken token'']"

definition ICoreWebView2_8_get_IsMuted_C :: cdecl where
  "ICoreWebView2_8_get_IsMuted_C =
     CDecl ''ICoreWebView2_8'' ''HRESULT'' ''get_IsMuted'' [''BOOL *value'']"

definition ICoreWebView2_8_put_IsMuted_C :: cdecl where
  "ICoreWebView2_8_put_IsMuted_C =
     CDecl ''ICoreWebView2_8'' ''HRESULT'' ''put_IsMuted'' [''BOOL value'']"

definition ICoreWebView2_8_add_IsDocumentPlayingAudioChanged_C :: cdecl where
  "ICoreWebView2_8_add_IsDocumentPlayingAudioChanged_C =
     CDecl ''ICoreWebView2_8'' ''HRESULT'' ''add_IsDocumentPlayingAudioChanged'' [''ICoreWebView2IsDocumentPlayingAudioChangedEventHandler *eventHandler'', ''EventRegistrationToken *token'']"

definition ICoreWebView2_8_remove_IsDocumentPlayingAudioChanged_C :: cdecl where
  "ICoreWebView2_8_remove_IsDocumentPlayingAudioChanged_C =
     CDecl ''ICoreWebView2_8'' ''HRESULT'' ''remove_IsDocumentPlayingAudioChanged'' [''EventRegistrationToken token'']"

definition ICoreWebView2_8_get_IsDocumentPlayingAudio_C :: cdecl where
  "ICoreWebView2_8_get_IsDocumentPlayingAudio_C =
     CDecl ''ICoreWebView2_8'' ''HRESULT'' ''get_IsDocumentPlayingAudio'' [''BOOL *value'']"

definition ICoreWebView2_9_add_IsDefaultDownloadDialogOpenChanged_C :: cdecl where
  "ICoreWebView2_9_add_IsDefaultDownloadDialogOpenChanged_C =
     CDecl ''ICoreWebView2_9'' ''HRESULT'' ''add_IsDefaultDownloadDialogOpenChanged'' [''ICoreWebView2IsDefaultDownloadDialogOpenChangedEventHandler *handler'', ''EventRegistrationToken *token'']"

definition ICoreWebView2_9_remove_IsDefaultDownloadDialogOpenChanged_C :: cdecl where
  "ICoreWebView2_9_remove_IsDefaultDownloadDialogOpenChanged_C =
     CDecl ''ICoreWebView2_9'' ''HRESULT'' ''remove_IsDefaultDownloadDialogOpenChanged'' [''EventRegistrationToken token'']"

definition ICoreWebView2_9_get_IsDefaultDownloadDialogOpen_C :: cdecl where
  "ICoreWebView2_9_get_IsDefaultDownloadDialogOpen_C =
     CDecl ''ICoreWebView2_9'' ''HRESULT'' ''get_IsDefaultDownloadDialogOpen'' [''BOOL *value'']"

definition ICoreWebView2_9_OpenDefaultDownloadDialog_C :: cdecl where
  "ICoreWebView2_9_OpenDefaultDownloadDialog_C =
     CDecl ''ICoreWebView2_9'' ''HRESULT'' ''OpenDefaultDownloadDialog'' []"

definition ICoreWebView2_9_CloseDefaultDownloadDialog_C :: cdecl where
  "ICoreWebView2_9_CloseDefaultDownloadDialog_C =
     CDecl ''ICoreWebView2_9'' ''HRESULT'' ''CloseDefaultDownloadDialog'' []"

definition ICoreWebView2_9_get_DefaultDownloadDialogCornerAlignment_C :: cdecl where
  "ICoreWebView2_9_get_DefaultDownloadDialogCornerAlignment_C =
     CDecl ''ICoreWebView2_9'' ''HRESULT'' ''get_DefaultDownloadDialogCornerAlignment'' [''COREWEBVIEW2_DEFAULT_DOWNLOAD_DIALOG_CORNER_ALIGNMENT *value'']"

definition ICoreWebView2_9_put_DefaultDownloadDialogCornerAlignment_C :: cdecl where
  "ICoreWebView2_9_put_DefaultDownloadDialogCornerAlignment_C =
     CDecl ''ICoreWebView2_9'' ''HRESULT'' ''put_DefaultDownloadDialogCornerAlignment'' [''COREWEBVIEW2_DEFAULT_DOWNLOAD_DIALOG_CORNER_ALIGNMENT value'']"

definition ICoreWebView2_9_get_DefaultDownloadDialogMargin_C :: cdecl where
  "ICoreWebView2_9_get_DefaultDownloadDialogMargin_C =
     CDecl ''ICoreWebView2_9'' ''HRESULT'' ''get_DefaultDownloadDialogMargin'' [''POINT *value'']"

definition ICoreWebView2_9_put_DefaultDownloadDialogMargin_C :: cdecl where
  "ICoreWebView2_9_put_DefaultDownloadDialogMargin_C =
     CDecl ''ICoreWebView2_9'' ''HRESULT'' ''put_DefaultDownloadDialogMargin'' [''POINT value'']"

definition ICoreWebView2_10_add_BasicAuthenticationRequested_C :: cdecl where
  "ICoreWebView2_10_add_BasicAuthenticationRequested_C =
     CDecl ''ICoreWebView2_10'' ''HRESULT'' ''add_BasicAuthenticationRequested'' [''ICoreWebView2BasicAuthenticationRequestedEventHandler *eventHandler'', ''EventRegistrationToken *token'']"

definition ICoreWebView2_10_remove_BasicAuthenticationRequested_C :: cdecl where
  "ICoreWebView2_10_remove_BasicAuthenticationRequested_C =
     CDecl ''ICoreWebView2_10'' ''HRESULT'' ''remove_BasicAuthenticationRequested'' [''EventRegistrationToken token'']"

definition ICoreWebView2_11_CallDevToolsProtocolMethodForSession_C :: cdecl where
  "ICoreWebView2_11_CallDevToolsProtocolMethodForSession_C =
     CDecl ''ICoreWebView2_11'' ''HRESULT'' ''CallDevToolsProtocolMethodForSession'' [''LPCWSTR sessionId'', ''LPCWSTR methodName'', ''LPCWSTR parametersAsJson'', ''ICoreWebView2CallDevToolsProtocolMethodCompletedHandler *handler'']"

definition ICoreWebView2_11_add_ContextMenuRequested_C :: cdecl where
  "ICoreWebView2_11_add_ContextMenuRequested_C =
     CDecl ''ICoreWebView2_11'' ''HRESULT'' ''add_ContextMenuRequested'' [''ICoreWebView2ContextMenuRequestedEventHandler *eventHandler'', ''EventRegistrationToken *token'']"

definition ICoreWebView2_11_remove_ContextMenuRequested_C :: cdecl where
  "ICoreWebView2_11_remove_ContextMenuRequested_C =
     CDecl ''ICoreWebView2_11'' ''HRESULT'' ''remove_ContextMenuRequested'' [''EventRegistrationToken token'']"

definition ICoreWebView2_12_add_StatusBarTextChanged_C :: cdecl where
  "ICoreWebView2_12_add_StatusBarTextChanged_C =
     CDecl ''ICoreWebView2_12'' ''HRESULT'' ''add_StatusBarTextChanged'' [''ICoreWebView2StatusBarTextChangedEventHandler *eventHandler'', ''EventRegistrationToken *token'']"

definition ICoreWebView2_12_remove_StatusBarTextChanged_C :: cdecl where
  "ICoreWebView2_12_remove_StatusBarTextChanged_C =
     CDecl ''ICoreWebView2_12'' ''HRESULT'' ''remove_StatusBarTextChanged'' [''EventRegistrationToken token'']"

definition ICoreWebView2_12_get_StatusBarText_C :: cdecl where
  "ICoreWebView2_12_get_StatusBarText_C =
     CDecl ''ICoreWebView2_12'' ''HRESULT'' ''get_StatusBarText'' [''LPWSTR *value'']"

definition ICoreWebView2_13_get_Profile_C :: cdecl where
  "ICoreWebView2_13_get_Profile_C =
     CDecl ''ICoreWebView2_13'' ''HRESULT'' ''get_Profile'' [''ICoreWebView2Profile **value'']"

definition ICoreWebView2_14_add_ServerCertificateErrorDetected_C :: cdecl where
  "ICoreWebView2_14_add_ServerCertificateErrorDetected_C =
     CDecl ''ICoreWebView2_14'' ''HRESULT'' ''add_ServerCertificateErrorDetected'' [''ICoreWebView2ServerCertificateErrorDetectedEventHandler *eventHandler'', ''EventRegistrationToken *token'']"

definition ICoreWebView2_14_remove_ServerCertificateErrorDetected_C :: cdecl where
  "ICoreWebView2_14_remove_ServerCertificateErrorDetected_C =
     CDecl ''ICoreWebView2_14'' ''HRESULT'' ''remove_ServerCertificateErrorDetected'' [''EventRegistrationToken token'']"

definition ICoreWebView2_14_ClearServerCertificateErrorActions_C :: cdecl where
  "ICoreWebView2_14_ClearServerCertificateErrorActions_C =
     CDecl ''ICoreWebView2_14'' ''HRESULT'' ''ClearServerCertificateErrorActions'' [''ICoreWebView2ClearServerCertificateErrorActionsCompletedHandler *handler'']"

definition ICoreWebView2_15_add_FaviconChanged_C :: cdecl where
  "ICoreWebView2_15_add_FaviconChanged_C =
     CDecl ''ICoreWebView2_15'' ''HRESULT'' ''add_FaviconChanged'' [''ICoreWebView2FaviconChangedEventHandler *eventHandler'', ''EventRegistrationToken *token'']"

definition ICoreWebView2_15_remove_FaviconChanged_C :: cdecl where
  "ICoreWebView2_15_remove_FaviconChanged_C =
     CDecl ''ICoreWebView2_15'' ''HRESULT'' ''remove_FaviconChanged'' [''EventRegistrationToken token'']"

definition ICoreWebView2_15_get_FaviconUri_C :: cdecl where
  "ICoreWebView2_15_get_FaviconUri_C =
     CDecl ''ICoreWebView2_15'' ''HRESULT'' ''get_FaviconUri'' [''LPWSTR *value'']"

definition ICoreWebView2_15_GetFavicon_C :: cdecl where
  "ICoreWebView2_15_GetFavicon_C =
     CDecl ''ICoreWebView2_15'' ''HRESULT'' ''GetFavicon'' [''COREWEBVIEW2_FAVICON_IMAGE_FORMAT format'', ''ICoreWebView2GetFaviconCompletedHandler *completedHandler'']"

definition ICoreWebView2_16_Print_C :: cdecl where
  "ICoreWebView2_16_Print_C =
     CDecl ''ICoreWebView2_16'' ''HRESULT'' ''Print'' [''ICoreWebView2PrintSettings *printSettings'', ''ICoreWebView2PrintCompletedHandler *handler'']"

definition ICoreWebView2_16_ShowPrintUI_C :: cdecl where
  "ICoreWebView2_16_ShowPrintUI_C =
     CDecl ''ICoreWebView2_16'' ''HRESULT'' ''ShowPrintUI'' [''COREWEBVIEW2_PRINT_DIALOG_KIND printDialogKind'']"

definition ICoreWebView2_16_PrintToPdfStream_C :: cdecl where
  "ICoreWebView2_16_PrintToPdfStream_C =
     CDecl ''ICoreWebView2_16'' ''HRESULT'' ''PrintToPdfStream'' [''ICoreWebView2PrintSettings *printSettings'', ''ICoreWebView2PrintToPdfStreamCompletedHandler *handler'']"

definition ICoreWebView2_17_PostSharedBufferToScript_C :: cdecl where
  "ICoreWebView2_17_PostSharedBufferToScript_C =
     CDecl ''ICoreWebView2_17'' ''HRESULT'' ''PostSharedBufferToScript'' [''ICoreWebView2SharedBuffer *sharedBuffer'', ''COREWEBVIEW2_SHARED_BUFFER_ACCESS access'', ''LPCWSTR additionalDataAsJson'']"

definition ICoreWebView2_18_add_LaunchingExternalUriScheme_C :: cdecl where
  "ICoreWebView2_18_add_LaunchingExternalUriScheme_C =
     CDecl ''ICoreWebView2_18'' ''HRESULT'' ''add_LaunchingExternalUriScheme'' [''ICoreWebView2LaunchingExternalUriSchemeEventHandler *eventHandler'', ''EventRegistrationToken *token'']"

definition ICoreWebView2_18_remove_LaunchingExternalUriScheme_C :: cdecl where
  "ICoreWebView2_18_remove_LaunchingExternalUriScheme_C =
     CDecl ''ICoreWebView2_18'' ''HRESULT'' ''remove_LaunchingExternalUriScheme'' [''EventRegistrationToken token'']"

definition ICoreWebView2_19_get_MemoryUsageTargetLevel_C :: cdecl where
  "ICoreWebView2_19_get_MemoryUsageTargetLevel_C =
     CDecl ''ICoreWebView2_19'' ''HRESULT'' ''get_MemoryUsageTargetLevel'' [''COREWEBVIEW2_MEMORY_USAGE_TARGET_LEVEL *level'']"

definition ICoreWebView2_19_put_MemoryUsageTargetLevel_C :: cdecl where
  "ICoreWebView2_19_put_MemoryUsageTargetLevel_C =
     CDecl ''ICoreWebView2_19'' ''HRESULT'' ''put_MemoryUsageTargetLevel'' [''COREWEBVIEW2_MEMORY_USAGE_TARGET_LEVEL level'']"

definition ICoreWebView2_20_get_FrameId_C :: cdecl where
  "ICoreWebView2_20_get_FrameId_C =
     CDecl ''ICoreWebView2_20'' ''HRESULT'' ''get_FrameId'' [''UINT32 *id'']"

definition ICoreWebView2_21_ExecuteScriptWithResult_C :: cdecl where
  "ICoreWebView2_21_ExecuteScriptWithResult_C =
     CDecl ''ICoreWebView2_21'' ''HRESULT'' ''ExecuteScriptWithResult'' [''LPCWSTR javaScript'', ''ICoreWebView2ExecuteScriptWithResultCompletedHandler *handler'']"

section \<open>Tables\<close>

definition ICoreWebView2Vtbl_1 :: "cdecl list" where
  "ICoreWebView2Vtbl_1 =
     [IUnknown_QueryInterface_C, IUnknown_AddRef_C, IUnknown_Release_C, ICoreWebView2_get_Settings_C,
      ICoreWebView2_get_Source_C, ICoreWebView2_Navigate_C, ICoreWebView2_NavigateToString_C,
      ICoreWebView2_add_NavigationStarting_C, ICoreWebView2_remove_NavigationStarting_C,
      ICoreWebView2_add_ContentLoading_C, ICoreWebView2_remove_ContentLoading_C, ICoreWebView2_add_SourceChanged_C,
      ICoreWebView2_remove_SourceChanged_C, ICoreWebView2_add_HistoryChanged_C,
      ICoreWebView2_remove_HistoryChanged_C, ICoreWebView2_add_NavigationCompleted_C,
      ICoreWebView2_remove_NavigationCompleted_C, ICoreWebView2_add_FrameNavigationStarting_C,
      ICoreWebView2_remove_FrameNavigationStarting_C, ICoreWebView2_add_FrameNavigationCompleted_C,
      ICoreWebView2_remove_FrameNavigationCompleted_C, ICoreWebView2_add_ScriptDialogOpening_C,
      ICoreWebView2_remove_ScriptDialogOpening_C, ICoreWebView2_add_PermissionRequested_C,
      ICoreWebView2_remove_PermissionRequested_C, ICoreWebView2_add_ProcessFailed_C]"

definition ICoreWebView2Vtbl_2 :: "cdecl list" where
  "ICoreWebView2Vtbl_2 =
     [ICoreWebView2_remove_ProcessFailed_C, ICoreWebView2_AddScriptToExecuteOnDocumentCreated_C,
      ICoreWebView2_RemoveScriptToExecuteOnDocumentCreated_C, ICoreWebView2_ExecuteScript_C,
      ICoreWebView2_CapturePreview_C, ICoreWebView2_Reload_C, ICoreWebView2_PostWebMessageAsJson_C,
      ICoreWebView2_PostWebMessageAsString_C, ICoreWebView2_add_WebMessageReceived_C,
      ICoreWebView2_remove_WebMessageReceived_C, ICoreWebView2_CallDevToolsProtocolMethod_C,
      ICoreWebView2_get_BrowserProcessId_C, ICoreWebView2_get_CanGoBack_C, ICoreWebView2_get_CanGoForward_C,
      ICoreWebView2_GoBack_C, ICoreWebView2_GoForward_C, ICoreWebView2_GetDevToolsProtocolEventReceiver_C,
      ICoreWebView2_Stop_C, ICoreWebView2_add_NewWindowRequested_C, ICoreWebView2_remove_NewWindowRequested_C,
      ICoreWebView2_add_DocumentTitleChanged_C, ICoreWebView2_remove_DocumentTitleChanged_C,
      ICoreWebView2_get_DocumentTitle_C, ICoreWebView2_AddHostObjectToScript_C,
      ICoreWebView2_RemoveHostObjectFromScript_C, ICoreWebView2_OpenDevToolsWindow_C,
      ICoreWebView2_add_ContainsFullScreenElementChanged_C]"

definition ICoreWebView2Vtbl_3 :: "cdecl list" where
  "ICoreWebView2Vtbl_3 =
     [ICoreWebView2_remove_ContainsFullScreenElementChanged_C, ICoreWebView2_get_ContainsFullScreenElement_C,
      ICoreWebView2_add_WebResourceRequested_C, ICoreWebView2_remove_WebResourceRequested_C,
      ICoreWebView2_AddWebResourceRequestedFilter_C, ICoreWebView2_RemoveWebResourceRequestedFilter_C,
      ICoreWebView2_add_WindowCloseRequested_C, ICoreWebView2_remove_WindowCloseRequested_C]"

definition ICoreWebView2Vtbl :: vtable where
  "ICoreWebView2Vtbl = Vtable ''ICoreWebView2''
     (ICoreWebView2Vtbl_1 @ ICoreWebView2Vtbl_2 @ ICoreWebView2Vtbl_3)"

definition ICoreWebView2_2Vtbl_1 :: "cdecl list" where
  "ICoreWebView2_2Vtbl_1 =
     [IUnknown_QueryInterface_C, IUnknown_AddRef_C, IUnknown_Release_C, ICoreWebView2_get_Settings_C,
      ICoreWebView2_get_Source_C, ICoreWebView2_Navigate_C, ICoreWebView2_NavigateToString_C,
      ICoreWebView2_add_NavigationStarting_C, ICoreWebView2_remove_NavigationStarting_C,
      ICoreWebView2_add_ContentLoading_C, ICoreWebView2_remove_ContentLoading_C, ICoreWebView2_add_SourceChanged_C,
      ICoreWebView2_remove_SourceChanged_C, ICoreWebView2_add_HistoryChanged_C,
      ICoreWebView2_remove_HistoryChanged_C, ICoreWebView2_add_NavigationCompleted_C,
      ICoreWebView2_remove_NavigationCompleted_C, ICoreWebView2_add_FrameNavigationStarting_C,
      ICoreWebView2_remove_FrameNavigationStarting_C, ICoreWebView2_add_FrameNavigationCompleted_C,
      ICoreWebView2_remove_FrameNavigationCompleted_C, ICoreWebView2_add_ScriptDialogOpening_C,
      ICoreWebView2_remove_ScriptDialogOpening_C, ICoreWebView2_add_PermissionRequested_C,
      ICoreWebView2_remove_PermissionRequested_C, ICoreWebView2_add_ProcessFailed_C]"

definition ICoreWebView2_2Vtbl_2 :: "cdecl list" where
  "ICoreWebView2_2Vtbl_2 =
     [ICoreWebView2_remove_ProcessFailed_C, ICoreWebView2_AddScriptToExecuteOnDocumentCreated_C,
      ICoreWebView2_RemoveScriptToExecuteOnDocumentCreated_C, ICoreWebView2_ExecuteScript_C,
      ICoreWebView2_CapturePreview_C, ICoreWebView2_Reload_C, ICoreWebView2_PostWebMessageAsJson_C,
      ICoreWebView2_PostWebMessageAsString_C, ICoreWebView2_add_WebMessageReceived_C,
      ICoreWebView2_remove_WebMessageReceived_C, ICoreWebView2_CallDevToolsProtocolMethod_C,
      ICoreWebView2_get_BrowserProcessId_C, ICoreWebView2_get_CanGoBack_C, ICoreWebView2_get_CanGoForward_C,
      ICoreWebView2_GoBack_C, ICoreWebView2_GoForward_C, ICoreWebView2_GetDevToolsProtocolEventReceiver_C,
      ICoreWebView2_Stop_C, ICoreWebView2_add_NewWindowRequested_C, ICoreWebView2_remove_NewWindowRequested_C,
      ICoreWebView2_add_DocumentTitleChanged_C, ICoreWebView2_remove_DocumentTitleChanged_C,
      ICoreWebView2_get_DocumentTitle_C, ICoreWebView2_AddHostObjectToScript_C,
      ICoreWebView2_RemoveHostObjectFromScript_C, ICoreWebView2_OpenDevToolsWindow_C,
      ICoreWebView2_add_ContainsFullScreenElementChanged_C]"

definition ICoreWebView2_2Vtbl_3 :: "cdecl list" where
  "ICoreWebView2_2Vtbl_3 =
     [ICoreWebView2_remove_ContainsFullScreenElementChanged_C, ICoreWebView2_get_ContainsFullScreenElement_C,
      ICoreWebView2_add_WebResourceRequested_C, ICoreWebView2_remove_WebResourceRequested_C,
      ICoreWebView2_AddWebResourceRequestedFilter_C, ICoreWebView2_RemoveWebResourceRequestedFilter_C,
      ICoreWebView2_add_WindowCloseRequested_C, ICoreWebView2_remove_WindowCloseRequested_C,
      ICoreWebView2_2_add_WebResourceResponseReceived_C, ICoreWebView2_2_remove_WebResourceResponseReceived_C,
      ICoreWebView2_2_NavigateWithWebResourceRequest_C, ICoreWebView2_2_add_DOMContentLoaded_C,
      ICoreWebView2_2_remove_DOMContentLoaded_C, ICoreWebView2_2_get_CookieManager_C,
      ICoreWebView2_2_get_Environment_C]"

definition ICoreWebView2_2Vtbl :: vtable where
  "ICoreWebView2_2Vtbl = Vtable ''ICoreWebView2_2''
     (ICoreWebView2_2Vtbl_1 @ ICoreWebView2_2Vtbl_2 @ ICoreWebView2_2Vtbl_3)"

definition ICoreWebView2_3Vtbl_1 :: "cdecl list" where
  "ICoreWebView2_3Vtbl_1 =
     [IUnknown_QueryInterface_C, IUnknown_AddRef_C, IUnknown_Release_C, ICoreWebView2_get_Settings_C,
      ICoreWebView2_get_Source_C, ICoreWebView2_Navigate_C, ICoreWebView2_NavigateToString_C,
      ICoreWebView2_add_NavigationStarting_C, ICoreWebView2_remove_NavigationStarting_C,
      ICoreWebView2_add_ContentLoading_C, ICoreWebView2_remove_ContentLoading_C, ICoreWebView2_add_SourceChanged_C,
      ICoreWebView2_remove_SourceChanged_C, ICoreWebView2_add_HistoryChanged_C,
      ICoreWebView2_remove_HistoryChanged_C, ICoreWebView2_add_NavigationCompleted_C,
      ICoreWebView2_remove_NavigationCompleted_C, ICoreWebView2_add_FrameNavigationStarting_C,
      ICoreWebView2_remove_FrameNavigationStarting_C, ICoreWebView2_add_FrameNavigationCompleted_C,
      ICoreWebView2_remove_FrameNavigationCompleted_C, ICoreWebView2_add_ScriptDialogOpening_C,
      ICoreWebView2_remove_ScriptDialogOpening_C, ICoreWebView2_add_PermissionRequested_C,
      ICoreWebView2_remove_PermissionRequested_C, ICoreWebView2_add_ProcessFailed_C]"

definition ICoreWebView2_3Vtbl_2 :: "cdecl list" where
  "ICoreWebView2_3Vtbl_2 =
     [ICoreWebView2_remove_ProcessFailed_C, ICoreWebView2_AddScriptToExecuteOnDocumentCreated_C,
      ICoreWebView2_RemoveScriptToExecuteOnDocumentCreated_C, ICoreWebView2_ExecuteScript_C,
      ICoreWebView2_CapturePreview_C, ICoreWebView2_Reload_C, ICoreWebView2_PostWebMessageAsJson_C,
      ICoreWebView2_PostWebMessageAsString_C, ICoreWebView2_add_WebMessageReceived_C,
      ICoreWebView2_remove_WebMessageReceived_C, ICoreWebView2_CallDevToolsProtocolMethod_C,
      ICoreWebView2_get_BrowserProcessId_C, ICoreWebView2_get_CanGoBack_C, ICoreWebView2_get_CanGoForward_C,
      ICoreWebView2_GoBack_C, ICoreWebView2_GoForward_C, ICoreWebView2_GetDevToolsProtocolEventReceiver_C,
      ICoreWebView2_Stop_C, ICoreWebView2_add_NewWindowRequested_C, ICoreWebView2_remove_NewWindowRequested_C,
      ICoreWebView2_add_DocumentTitleChanged_C, ICoreWebView2_remove_DocumentTitleChanged_C,
      ICoreWebView2_get_DocumentTitle_C, ICoreWebView2_AddHostObjectToScript_C,
      ICoreWebView2_RemoveHostObjectFromScript_C, ICoreWebView2_OpenDevToolsWindow_C,
      ICoreWebView2_add_ContainsFullScreenElementChanged_C]"

definition ICoreWebView2_3Vtbl_3 :: "cdecl list" where
  "ICoreWebView2_3Vtbl_3 =
     [ICoreWebView2_remove_ContainsFullScreenElementChanged_C, ICoreWebView2_get_ContainsFullScreenElement_C,
      ICoreWebView2_add_WebResourceRequested_C, ICoreWebView2_remove_WebResourceRequested_C,
      ICoreWebView2_AddWebResourceRequestedFilter_C, ICoreWebView2_RemoveWebResourceRequestedFilter_C,
      ICoreWebView2_add_WindowCloseRequested_C, ICoreWebView2_remove_WindowCloseRequested_C,
      ICoreWebView2_2_add_WebResourceResponseReceived_C, ICoreWebView2_2_remove_WebResourceResponseReceived_C,
      ICoreWebView2_2_NavigateWithWebResourceRequest_C, ICoreWebView2_2_add_DOMContentLoaded_C,
      ICoreWebView2_2_remove_DOMContentLoaded_C, ICoreWebView2_2_get_CookieManager_C,
      ICoreWebView2_2_get_Environment_C, ICoreWebView2_3_TrySuspend_C, ICoreWebView2_3_Resume_C,
      ICoreWebView2_3_get_IsSuspended_C, ICoreWebView2_3_SetVirtualHostNameToFolderMapping_C,
      ICoreWebView2_3_ClearVirtualHostNameToFolderMapping_C]"

definition ICoreWebView2_3Vtbl :: vtable where
  "ICoreWebView2_3Vtbl = Vtable ''ICoreWebView2_3''
     (ICoreWebView2_3Vtbl_1 @ ICoreWebView2_3Vtbl_2 @ ICoreWebView2_3Vtbl_3)"

definition ICoreWebView2_4Vtbl_1 :: "cdecl list" where
  "ICoreWebView2_4Vtbl_1 =
     [IUnknown_QueryInterface_C, IUnknown_AddRef_C, IUnknown_Release_C, ICoreWebView2_get_Settings_C,
      ICoreWebView2_get_Source_C, ICoreWebView2_Navigate_C, ICoreWebView2_NavigateToString_C,
      ICoreWebView2_add_NavigationStarting_C, ICoreWebView2_remove_NavigationStarting_C,
      ICoreWebView2_add_ContentLoading_C, ICoreWebView2_remove_ContentLoading_C, ICoreWebView2_add_SourceChanged_C,
      ICoreWebView2_remove_SourceChanged_C, ICoreWebView2_add_HistoryChanged_C,
      ICoreWebView2_remove_HistoryChanged_C, ICoreWebView2_add_NavigationCompleted_C,
      ICoreWebView2_remove_NavigationCompleted_C, ICoreWebView2_add_FrameNavigationStarting_C,
      ICoreWebView2_remove_FrameNavigationStarting_C, ICoreWebView2_add_FrameNavigationCompleted_C,
      ICoreWebView2_remove_FrameNavigationCompleted_C, ICoreWebView2_add_ScriptDialogOpening_C,
      ICoreWebView2_remove_ScriptDialogOpening_C, ICoreWebView2_add_PermissionRequested_C,
      ICoreWebView2_remove_PermissionRequested_C, ICoreWebView2_add_ProcessFailed_C]"

definition ICoreWebView2_4Vtbl_2 :: "cdecl list" where
  "ICoreWebView2_4Vtbl_2 =
     [ICoreWebView2_remove_ProcessFailed_C, ICoreWebView2_AddScriptToExecuteOnDocumentCreated_C,
      ICoreWebView2_RemoveScriptToExecuteOnDocumentCreated_C, ICoreWebView2_ExecuteScript_C,
      ICoreWebView2_CapturePreview_C, ICoreWebView2_Reload_C, ICoreWebView2_PostWebMessageAsJson_C,
      ICoreWebView2_PostWebMessageAsString_C, ICoreWebView2_add_WebMessageReceived_C,
      ICoreWebView2_remove_WebMessageReceived_C, ICoreWebView2_CallDevToolsProtocolMethod_C,
      ICoreWebView2_get_BrowserProcessId_C, ICoreWebView2_get_CanGoBack_C, ICoreWebView2_get_CanGoForward_C,
      ICoreWebView2_GoBack_C, ICoreWebView2_GoForward_C, ICoreWebView2_GetDevToolsProtocolEventReceiver_C,
      ICoreWebView2_Stop_C, ICoreWebView2_add_NewWindowRequested_C, ICoreWebView2_remove_NewWindowRequested_C,
      ICoreWebView2_add_DocumentTitleChanged_C, ICoreWebView2_remove_DocumentTitleChanged_C,
      ICoreWebView2_get_DocumentTitle_C, ICoreWebView2_AddHostObjectToScript_C,
      ICoreWebView2_RemoveHostObjectFromScript_C, ICoreWebView2_OpenDevToolsWindow_C,
      ICoreWebView2_add_ContainsFullScreenElementChanged_C]"

definition ICoreWebView2_4Vtbl_3 :: "cdecl list" where
  "ICoreWebView2_4Vtbl_3 =
     [ICoreWebView2_remove_ContainsFullScreenElementChanged_C, ICoreWebView2_get_ContainsFullScreenElement_C,
      ICoreWebView2_add_WebResourceRequested_C, ICoreWebView2_remove_WebResourceRequested_C,
      ICoreWebView2_AddWebResourceRequestedFilter_C, ICoreWebView2_RemoveWebResourceRequestedFilter_C,
      ICoreWebView2_add_WindowCloseRequested_C, ICoreWebView2_remove_WindowCloseRequested_C,
      ICoreWebView2_2_add_WebResourceResponseReceived_C, ICoreWebView2_2_remove_WebResourceResponseReceived_C,
      ICoreWebView2_2_NavigateWithWebResourceRequest_C, ICoreWebView2_2_add_DOMContentLoaded_C,
      ICoreWebView2_2_remove_DOMContentLoaded_C, ICoreWebView2_2_get_CookieManager_C,
      ICoreWebView2_2_get_Environment_C, ICoreWebView2_3_TrySuspend_C, ICoreWebView2_3_Resume_C,
      ICoreWebView2_3_get_IsSuspended_C, ICoreWebView2_3_SetVirtualHostNameToFolderMapping_C,
      ICoreWebView2_3_ClearVirtualHostNameToFolderMapping_C, ICoreWebView2_4_add_FrameCreated_C,
      ICoreWebView2_4_remove_FrameCreated_C, ICoreWebView2_4_add_DownloadStarting_C,
      ICoreWebView2_4_remove_DownloadStarting_C]"

definition ICoreWebView2_4Vtbl :: vtable where
  "ICoreWebView2_4Vtbl = Vtable ''ICoreWebView2_4''
     (ICoreWebView2_4Vtbl_1 @ ICoreWebView2_4Vtbl_2 @ ICoreWebView2_4Vtbl_3)"

definition ICoreWebView2_5Vtbl_1 :: "cdecl list" where
  "ICoreWebView2_5Vtbl_1 =
     [IUnknown_QueryInterface_C, IUnknown_AddRef_C, IUnknown_Release_C, ICoreWebView2_get_Settings_C,
      ICoreWebView2_get_Source_C, ICoreWebView2_Navigate_C, ICoreWebView2_NavigateToString_C,
      ICoreWebView2_add_NavigationStarting_C, ICoreWebView2_remove_NavigationStarting_C,
      ICoreWebView2_add_ContentLoading_C, ICoreWebView2_remove_ContentLoading_C, ICoreWebView2_add_SourceChanged_C,
      ICoreWebView2_remove_SourceChanged_C, ICoreWebView2_add_HistoryChanged_C,
      ICoreWebView2_remove_HistoryChanged_C, ICoreWebView2_add_NavigationCompleted_C,
      ICoreWebView2_remove_NavigationCompleted_C, ICoreWebView2_add_FrameNavigationStarting_C,
      ICoreWebView2_remove_FrameNavigationStarting_C, ICoreWebView2_add_FrameNavigationCompleted_C,
      ICoreWebView2_remove_FrameNavigationCompleted_C, ICoreWebView2_add_ScriptDialogOpening_C,
      ICoreWebView2_remove_ScriptDialogOpening_C, ICoreWebView2_add_PermissionRequested_C,
      ICoreWebView2_remove_PermissionRequested_C, ICoreWebView2_add_ProcessFailed_C]"

definition ICoreWebView2_5Vtbl_2 :: "cdecl list" where
  "ICoreWebView2_5Vtbl_2 =
     [ICoreWebView2_remove_ProcessFailed_C, ICoreWebView2_AddScriptToExecuteOnDocumentCreated_C,
      ICoreWebView2_RemoveScriptToExecuteOnDocumentCreated_C, ICoreWebView2_ExecuteScript_C,
      ICoreWebView2_CapturePreview_C, ICoreWebView2_Reload_C, ICoreWebView2_PostWebMessageAsJson_C,
      ICoreWebView2_PostWebMessageAsString_C, ICoreWebView2_add_WebMessageReceived_C,
      ICoreWebView2_remove_WebMessageReceived_C, ICoreWebView2_CallDevToolsProtocolMethod_C,
      ICoreWebView2_get_BrowserProcessId_C, ICoreWebView2_get_CanGoBack_C, ICoreWebView2_get_CanGoForward_C,
      ICoreWebView2_GoBack_C, ICoreWebView2_GoForward_C, ICoreWebView2_GetDevToolsProtocolEventReceiver_C,
      ICoreWebView2_Stop_C, ICoreWebView2_add_NewWindowRequested_C, ICoreWebView2_remove_NewWindowRequested_C,
      ICoreWebView2_add_DocumentTitleChanged_C, ICoreWebView2_remove_DocumentTitleChanged_C,
      ICoreWebView2_get_DocumentTitle_C, ICoreWebView2_AddHostObjectToScript_C,
      ICoreWebView2_RemoveHostObjectFromScript_C, ICoreWebView2_OpenDevToolsWindow_C,
      ICoreWebView2_add_ContainsFullScreenElementChanged_C]"

definition ICoreWebView2_5Vtbl_3 :: "cdecl list" where
  "ICoreWebView2_5Vtbl_3 =
     [ICoreWebView2_remove_ContainsFullScreenElementChanged_C, ICoreWebView2_get_ContainsFullScreenElement_C,
      ICoreWebView2_add_WebResourceRequested_C, ICoreWebView2_remove_WebResourceRequested_C,
      ICoreWebView2_AddWebResourceRequestedFilter_C, ICoreWebView2_RemoveWebResourceRequestedFilter_C,
      ICoreWebView2_add_WindowCloseRequested_C, ICoreWebView2_remove_WindowCloseRequested_C,
      ICoreWebView2_2_add_WebResourceResponseReceived_C, ICoreWebView2_2_remove_WebResourceResponseReceived_C,
      ICoreWebView2_2_NavigateWithWebResourceRequest_C, ICoreWebView2_2_add_DOMContentLoaded_C,
      ICoreWebView2_2_remove_DOMContentLoaded_C, ICoreWebView2_2_get_CookieManager_C,
      ICoreWebView2_2_get_Environment_C, ICoreWebView2_3_TrySuspend_C, ICoreWebView2_3_Resume_C,
      ICoreWebView2_3_get_IsSuspended_C, ICoreWebView2_3_SetVirtualHostNameToFolderMapping_C,
      ICoreWebView2_3_ClearVirtualHostNameToFolderMapping_C, ICoreWebView2_4_add_FrameCreated_C,
      ICoreWebView2_4_remove_FrameCreated_C, ICoreWebView2_4_add_DownloadStarting_C,
      ICoreWebView2_4_remove_DownloadStarting_C, ICoreWebView2_5_add_ClientCertificateRequested_C,
      ICoreWebView2_5_remove_ClientCertificateRequested_C]"

definition ICoreWebView2_5Vtbl :: vtable where
  "ICoreWebView2_5Vtbl = Vtable ''ICoreWebView2_5''
     (ICoreWebView2_5Vtbl_1 @ ICoreWebView2_5Vtbl_2 @ ICoreWebView2_5Vtbl_3)"

definition ICoreWebView2_6Vtbl_1 :: "cdecl list" where
  "ICoreWebView2_6Vtbl_1 =
     [IUnknown_QueryInterface_C, IUnknown_AddRef_C, IUnknown_Release_C, ICoreWebView2_get_Settings_C,
      ICoreWebView2_get_Source_C, ICoreWebView2_Navigate_C, ICoreWebView2_NavigateToString_C,
      ICoreWebView2_add_NavigationStarting_C, ICoreWebView2_remove_NavigationStarting_C,
      ICoreWebView2_add_ContentLoading_C, ICoreWebView2_remove_ContentLoading_C, ICoreWebView2_add_SourceChanged_C,
      ICoreWebView2_remove_SourceChanged_C, ICoreWebView2_add_HistoryChanged_C,
      ICoreWebView2_remove_HistoryChanged_C, ICoreWebView2_add_NavigationCompleted_C,
      ICoreWebView2_remove_NavigationCompleted_C, ICoreWebView2_add_FrameNavigationStarting_C,
      ICoreWebView2_remove_FrameNavigationStarting_C, ICoreWebView2_add_FrameNavigationCompleted_C,
      ICoreWebView2_remove_FrameNavigationCompleted_C, ICoreWebView2_add_ScriptDialogOpening_C,
      ICoreWebView2_remove_ScriptDialogOpening_C, ICoreWebView2_add_PermissionRequested_C,
      ICoreWebView2_remove_PermissionRequested_C, ICoreWebView2_add_ProcessFailed_C]"

definition ICoreWebView2_6Vtbl_2 :: "cdecl list" where
  "ICoreWebView2_6Vtbl_2 =
     [ICoreWebView2_remove_ProcessFailed_C, ICoreWebView2_AddScriptToExecuteOnDocumentCreated_C,
      ICoreWebView2_RemoveScriptToExecuteOnDocumentCreated_C, ICoreWebView2_ExecuteScript_C,
      ICoreWebView2_CapturePreview_C, ICoreWebView2_Reload_C, ICoreWebView2_PostWebMessageAsJson_C,
      ICoreWebView2_PostWebMessageAsString_C, ICoreWebView2_add_WebMessageReceived_C,
      ICoreWebView2_remove_WebMessageReceived_C, ICoreWebView2_CallDevToolsProtocolMethod_C,
      ICoreWebView2_get_BrowserProcessId_C, ICoreWebView2_get_CanGoBack_C, ICoreWebView2_get_CanGoForward_C,
      ICoreWebView2_GoBack_C, ICoreWebView2_GoForward_C, ICoreWebView2_GetDevToolsProtocolEventReceiver_C,
      ICoreWebView2_Stop_C, ICoreWebView2_add_NewWindowRequested_C, ICoreWebView2_remove_NewWindowRequested_C,
      ICoreWebView2_add_DocumentTitleChanged_C, ICoreWebView2_remove_DocumentTitleChanged_C,
      ICoreWebView2_get_DocumentTitle_C, ICoreWebView2_AddHostObjectToScript_C,
      ICoreWebView2_RemoveHostObjectFromScript_C, ICoreWebView2_OpenDevToolsWindow_C,
      ICoreWebView2_add_ContainsFullScreenElementChanged_C]"

definition ICoreWebView2_6Vtbl_3 :: "cdecl list" where
  "ICoreWebView2_6Vtbl_3 =
     [ICoreWebView2_remove_ContainsFullScreenElementChanged_C, ICoreWebView2_get_ContainsFullScreenElement_C,
      ICoreWebView2_add_WebResourceRequested_C, ICoreWebView2_remove_WebResourceRequested_C,
      ICoreWebView2_AddWebResourceRequestedFilter_C, ICoreWebView2_RemoveWebResourceRequestedFilter_C,
      ICoreWebView2_add_WindowCloseRequested_C, ICoreWebView2_remove_WindowCloseRequested_C,
      ICoreWebView2_2_add_WebResourceResponseReceived_C, ICoreWebView2_2_remove_WebResourceResponseReceived_C,
      ICoreWebView2_2_NavigateWithWebResourceRequest_C, ICoreWebView2_2_add_DOMContentLoaded_C,
      ICoreWebView2_2_remove_DOMContentLoaded_C, ICoreWebView2_2_get_CookieManager_C,
      ICoreWebView2_2_get_Environment_C, ICoreWebView2_3_TrySuspend_C, ICoreWebView2_3_Resume_C,
      ICoreWebView2_3_get_IsSuspended_C, ICoreWebView2_3_SetVirtualHostNameToFolderMapping_C,
      ICoreWebView2_3_ClearVirtualHostNameToFolderMapping_C, ICoreWebView2_4_add_FrameCreated_C,
      ICoreWebView2_4_remove_FrameCreated_C, ICoreWebView2_4_add_DownloadStarting_C,
      ICoreWebView2_4_remove_DownloadStarting_C, ICoreWebView2_5_add_ClientCertificateRequested_C,
      ICoreWebView2_5_remove_ClientCertificateRequested_C, ICoreWebView2_6_OpenTaskManagerWindow_C]"

definition ICoreWebView2_6Vtbl :: vtable where
  "ICoreWebView2_6Vtbl = Vtable ''ICoreWebView2_6''
     (ICoreWebView2_6Vtbl_1 @ ICoreWebView2_6Vtbl_2 @ ICoreWebView2_6Vtbl_3)"

definition ICoreWebView2_7Vtbl_1 :: "cdecl list" where
  "ICoreWebView2_7Vtbl_1 =
     [IUnknown_QueryInterface_C, IUnknown_AddRef_C, IUnknown_Release_C, ICoreWebView2_get_Settings_C,
      ICoreWebView2_get_Source_C, ICoreWebView2_Navigate_C, ICoreWebView2_NavigateToString_C,
      ICoreWebView2_add_NavigationStarting_C, ICoreWebView2_remove_NavigationStarting_C,
      ICoreWebView2_add_ContentLoading_C, ICoreWebView2_remove_ContentLoading_C, ICoreWebView2_add_SourceChanged_C,
      ICoreWebView2_remove_SourceChanged_C, ICoreWebView2_add_HistoryChanged_C,
      ICoreWebView2_remove_HistoryChanged_C, ICoreWebView2_add_NavigationCompleted_C,
      ICoreWebView2_remove_NavigationCompleted_C, ICoreWebView2_add_FrameNavigationStarting_C,
      ICoreWebView2_remove_FrameNavigationStarting_C, ICoreWebView2_add_FrameNavigationCompleted_C,
      ICoreWebView2_remove_FrameNavigationCompleted_C, ICoreWebView2_add_ScriptDialogOpening_C,
      ICoreWebView2_remove_ScriptDialogOpening_C, ICoreWebView2_add_PermissionRequested_C,
      ICoreWebView2_remove_PermissionRequested_C, ICoreWebView2_add_ProcessFailed_C]"

definition ICoreWebView2_7Vtbl_2 :: "cdecl list" where
  "ICoreWebView2_7Vtbl_2 =
     [ICoreWebView2_remove_ProcessFailed_C, ICoreWebView2_AddScriptToExecuteOnDocumentCreated_C,
      ICoreWebView2_RemoveScriptToExecuteOnDocumentCreated_C, ICoreWebView2_ExecuteScript_C,
      ICoreWebView2_CapturePreview_C, ICoreWebView2_Reload_C, ICoreWebView2_PostWebMessageAsJson_C,
      ICoreWebView2_PostWebMessageAsString_C, ICoreWebView2_add_WebMessageReceived_C,
      ICoreWebView2_remove_WebMessageReceived_C, ICoreWebView2_CallDevToolsProtocolMethod_C,
      ICoreWebView2_get_BrowserProcessId_C, ICoreWebView2_get_CanGoBack_C, ICoreWebView2_get_CanGoForward_C,
      ICoreWebView2_GoBack_C, ICoreWebView2_GoForward_C, ICoreWebView2_GetDevToolsProtocolEventReceiver_C,
      ICoreWebView2_Stop_C, ICoreWebView2_add_NewWindowRequested_C, ICoreWebView2_remove_NewWindowRequested_C,
      ICoreWebView2_add_DocumentTitleChanged_C, ICoreWebView2_remove_DocumentTitleChanged_C,
      ICoreWebView2_get_DocumentTitle_C, ICoreWebView2_AddHostObjectToScript_C,
      ICoreWebView2_RemoveHostObjectFromScript_C, ICoreWebView2_OpenDevToolsWindow_C,
      ICoreWebView2_add_ContainsFullScreenElementChanged_C]"

definition ICoreWebView2_7Vtbl_3 :: "cdecl list" where
  "ICoreWebView2_7Vtbl_3 =
     [ICoreWebView2_remove_ContainsFullScreenElementChanged_C, ICoreWebView2_get_ContainsFullScreenElement_C,
      ICoreWebView2_add_WebResourceRequested_C, ICoreWebView2_remove_WebResourceRequested_C,
      ICoreWebView2_AddWebResourceRequestedFilter_C, ICoreWebView2_RemoveWebResourceRequestedFilter_C,
      ICoreWebView2_add_WindowCloseRequested_C, ICoreWebView2_remove_WindowCloseRequested_C,
      ICoreWebView2_2_add_WebResourceResponseReceived_C, ICoreWebView2_2_remove_WebResourceResponseReceived_C,
      ICoreWebView2_2_NavigateWithWebResourceRequest_C, ICoreWebView2_2_add_DOMContentLoaded_C,
      ICoreWebView2_2_remove_DOMContentLoaded_C, ICoreWebView2_2_get_CookieManager_C,
      ICoreWebView2_2_get_Environment_C, ICoreWebView2_3_TrySuspend_C, ICoreWebView2_3_Resume_C,
      ICoreWebView2_3_get_IsSuspended_C, ICoreWebView2_3_SetVirtualHostNameToFolderMapping_C,
      ICoreWebView2_3_ClearVirtualHostNameToFolderMapping_C, ICoreWebView2_4_add_FrameCreated_C,
      ICoreWebView2_4_remove_FrameCreated_C, ICoreWebView2_4_add_DownloadStarting_C,
      ICoreWebView2_4_remove_DownloadStarting_C, ICoreWebView2_5_add_ClientCertificateRequested_C,
      ICoreWebView2_5_remove_ClientCertificateRequested_C, ICoreWebView2_6_OpenTaskManagerWindow_C]"

definition ICoreWebView2_7Vtbl_4 :: "cdecl list" where
  "ICoreWebView2_7Vtbl_4 =
     [ICoreWebView2_7_PrintToPdf_C]"

definition ICoreWebView2_7Vtbl :: vtable where
  "ICoreWebView2_7Vtbl = Vtable ''ICoreWebView2_7''
     (ICoreWebView2_7Vtbl_1 @ ICoreWebView2_7Vtbl_2 @ ICoreWebView2_7Vtbl_3 @ ICoreWebView2_7Vtbl_4)"

definition ICoreWebView2_8Vtbl_1 :: "cdecl list" where
  "ICoreWebView2_8Vtbl_1 =
     [IUnknown_QueryInterface_C, IUnknown_AddRef_C, IUnknown_Release_C, ICoreWebView2_get_Settings_C,
      ICoreWebView2_get_Source_C, ICoreWebView2_Navigate_C, ICoreWebView2_NavigateToString_C,
      ICoreWebView2_add_NavigationStarting_C, ICoreWebView2_remove_NavigationStarting_C,
      ICoreWebView2_add_ContentLoading_C, ICoreWebView2_remove_ContentLoading_C, ICoreWebView2_add_SourceChanged_C,
      ICoreWebView2_remove_SourceChanged_C, ICoreWebView2_add_HistoryChanged_C,
      ICoreWebView2_remove_HistoryChanged_C, ICoreWebView2_add_NavigationCompleted_C,
      ICoreWebView2_remove_NavigationCompleted_C, ICoreWebView2_add_FrameNavigationStarting_C,
      ICoreWebView2_remove_FrameNavigationStarting_C, ICoreWebView2_add_FrameNavigationCompleted_C,
      ICoreWebView2_remove_FrameNavigationCompleted_C, ICoreWebView2_add_ScriptDialogOpening_C,
      ICoreWebView2_remove_ScriptDialogOpening_C, ICoreWebView2_add_PermissionRequested_C,
      ICoreWebView2_remove_PermissionRequested_C, ICoreWebView2_add_ProcessFailed_C]"

definition ICoreWebView2_8Vtbl_2 :: "cdecl list" where
  "ICoreWebView2_8Vtbl_2 =
     [ICoreWebView2_remove_ProcessFailed_C, ICoreWebView2_AddScriptToExecuteOnDocumentCreated_C,
      ICoreWebView2_RemoveScriptToExecuteOnDocumentCreated_C, ICoreWebView2_ExecuteScript_C,
      ICoreWebView2_CapturePreview_C, ICoreWebView2_Reload_C, ICoreWebView2_PostWebMessageAsJson_C,
      ICoreWebView2_PostWebMessageAsString_C, ICoreWebView2_add_WebMessageReceived_C,
      ICoreWebView2_remove_WebMessageReceived_C, ICoreWebView2_CallDevToolsProtocolMethod_C,
      ICoreWebView2_get_BrowserProcessId_C, ICoreWebView2_get_CanGoBack_C, ICoreWebView2_get_CanGoForward_C,
      ICoreWebView2_GoBack_C, ICoreWebView2_GoForward_C, ICoreWebView2_GetDevToolsProtocolEventReceiver_C,
      ICoreWebView2_Stop_C, ICoreWebView2_add_NewWindowRequested_C, ICoreWebView2_remove_NewWindowRequested_C,
      ICoreWebView2_add_DocumentTitleChanged_C, ICoreWebView2_remove_DocumentTitleChanged_C,
      ICoreWebView2_get_DocumentTitle_C, ICoreWebView2_AddHostObjectToScript_C,
      ICoreWebView2_RemoveHostObjectFromScript_C, ICoreWebView2_OpenDevToolsWindow_C,
      ICoreWebView2_add_ContainsFullScreenElementChanged_C]"

definition ICoreWebView2_8Vtbl_3 :: "cdecl list" where
  "ICoreWebView2_8Vtbl_3 =
     [ICoreWebView2_remove_ContainsFullScreenElementChanged_C, ICoreWebView2_get_ContainsFullScreenElement_C,
      ICoreWebView2_add_WebResourceRequested_C, ICoreWebView2_remove_WebResourceRequested_C,
      ICoreWebView2_AddWebResourceRequestedFilter_C, ICoreWebView2_RemoveWebResourceRequestedFilter_C,
      ICoreWebView2_add_WindowCloseRequested_C, ICoreWebView2_remove_WindowCloseRequested_C,
      ICoreWebView2_2_add_WebResourceResponseReceived_C, ICoreWebView2_2_remove_WebResourceResponseReceived_C,
      ICoreWebView2_2_NavigateWithWebResourceRequest_C, ICoreWebView2_2_add_DOMContentLoaded_C,
      ICoreWebView2_2_remove_DOMContentLoaded_C, ICoreWebView2_2_get_CookieManager_C,
      ICoreWebView2_2_get_Environment_C, ICoreWebView2_3_TrySuspend_C, ICoreWebView2_3_Resume_C,
      ICoreWebView2_3_get_IsSuspended_C, ICoreWebView2_3_SetVirtualHostNameToFolderMapping_C,
      ICoreWebView2_3_ClearVirtualHostNameToFolderMapping_C, ICoreWebView2_4_add_FrameCreated_C,
      ICoreWebView2_4_remove_FrameCreated_C, ICoreWebView2_4_add_DownloadStarting_C,
      ICoreWebView2_4_remove_DownloadStarting_C, ICoreWebView2_5_add_ClientCertificateRequested_C,
      ICoreWebView2_5_remove_ClientCertificateRequested_C, ICoreWebView2_6_OpenTaskManagerWindow_C]"

definition ICoreWebView2_8Vtbl_4 :: "cdecl list" where
  "ICoreWebView2_8Vtbl_4 =
     [ICoreWebView2_7_PrintToPdf_C, ICoreWebView2_8_add_IsMutedChanged_C, ICoreWebView2_8_remove_IsMutedChanged_C,
      ICoreWebView2_8_get_IsMuted_C, ICoreWebView2_8_put_IsMuted_C,
      ICoreWebView2_8_add_IsDocumentPlayingAudioChanged_C, ICoreWebView2_8_remove_IsDocumentPlayingAudioChanged_C,
      ICoreWebView2_8_get_IsDocumentPlayingAudio_C]"

definition ICoreWebView2_8Vtbl :: vtable where
  "ICoreWebView2_8Vtbl = Vtable ''ICoreWebView2_8''
     (ICoreWebView2_8Vtbl_1 @ ICoreWebView2_8Vtbl_2 @ ICoreWebView2_8Vtbl_3 @ ICoreWebView2_8Vtbl_4)"

definition ICoreWebView2_9Vtbl_1 :: "cdecl list" where
  "ICoreWebView2_9Vtbl_1 =
     [IUnknown_QueryInterface_C, IUnknown_AddRef_C, IUnknown_Release_C, ICoreWebView2_get_Settings_C,
      ICoreWebView2_get_Source_C, ICoreWebView2_Navigate_C, ICoreWebView2_NavigateToString_C,
      ICoreWebView2_add_NavigationStarting_C, ICoreWebView2_remove_NavigationStarting_C,
      ICoreWebView2_add_ContentLoading_C, ICoreWebView2_remove_ContentLoading_C, ICoreWebView2_add_SourceChanged_C,
      ICoreWebView2_remove_SourceChanged_C, ICoreWebView2_add_HistoryChanged_C,
      ICoreWebView2_remove_HistoryChanged_C, ICoreWebView2_add_NavigationCompleted_C,
      ICoreWebView2_remove_NavigationCompleted_C, ICoreWebView2_add_FrameNavigationStarting_C,
      ICoreWebView2_remove_FrameNavigationStarting_C, ICoreWebView2_add_FrameNavigationCompleted_C,
      ICoreWebView2_remove_FrameNavigationCompleted_C, ICoreWebView2_add_ScriptDialogOpening_C,
      ICoreWebView2_remove_ScriptDialogOpening_C, ICoreWebView2_add_PermissionRequested_C,
      ICoreWebView2_remove_PermissionRequested_C, ICoreWebView2_add_ProcessFailed_C]"

definition ICoreWebView2_9Vtbl_2 :: "cdecl list" where
  "ICoreWebView2_9Vtbl_2 =
     [ICoreWebView2_remove_ProcessFailed_C, ICoreWebView2_AddScriptToExecuteOnDocumentCreated_C,
      ICoreWebView2_RemoveScriptToExecuteOnDocumentCreated_C, ICoreWebView2_ExecuteScript_C,
      ICoreWebView2_CapturePreview_C, ICoreWebView2_Reload_C, ICoreWebView2_PostWebMessageAsJson_C,
      ICoreWebView2_PostWebMessageAsString_C, ICoreWebView2_add_WebMessageReceived_C,
      ICoreWebView2_remove_WebMessageReceived_C, ICoreWebView2_CallDevToolsProtocolMethod_C,
      ICoreWebView2_get_BrowserProcessId_C, ICoreWebView2_get_CanGoBack_C, ICoreWebView2_get_CanGoForward_C,
      ICoreWebView2_GoBack_C, ICoreWebView2_GoForward_C, ICoreWebView2_GetDevToolsProtocolEventReceiver_C,
      ICoreWebView2_Stop_C, ICoreWebView2_add_NewWindowRequested_C, ICoreWebView2_remove_NewWindowRequested_C,
      ICoreWebView2_add_DocumentTitleChanged_C, ICoreWebView2_remove_DocumentTitleChanged_C,
      ICoreWebView2_get_DocumentTitle_C, ICoreWebView2_AddHostObjectToScript_C,
      ICoreWebView2_RemoveHostObjectFromScript_C, ICoreWebView2_OpenDevToolsWindow_C,
      ICoreWebView2_add_ContainsFullScreenElementChanged_C]"

definition ICoreWebView2_9Vtbl_3 :: "cdecl list" where
  "ICoreWebView2_9Vtbl_3 =
     [ICoreWebView2_remove_ContainsFullScreenElementChanged_C, ICoreWebView2_get_ContainsFullScreenElement_C,
      ICoreWebView2_add_WebResourceRequested_C, ICoreWebView2_remove_WebResourceRequested_C,
      ICoreWebView2_AddWebResourceRequestedFilter_C, ICoreWebView2_RemoveWebResourceRequestedFilter_C,
      ICoreWebView2_add_WindowCloseRequested_C, ICoreWebView2_remove_WindowCloseRequested_C,
      ICoreWebView2_2_add_WebResourceResponseReceived_C, ICoreWebView2_2_remove_WebResourceResponseReceived_C,
      ICoreWebView2_2_NavigateWithWebResourceRequest_C, ICoreWebView2_2_add_DOMContentLoaded_C,
      ICoreWebView2_2_remove_DOMContentLoaded_C, ICoreWebView2_2_get_CookieManager_C,
      ICoreWebView2_2_get_Environment_C, ICoreWebView2_3_TrySuspend_C, ICoreWebView2_3_Resume_C,
      ICoreWebView2_3_get_IsSuspended_C, ICoreWebView2_3_SetVirtualHostNameToFolderMapping_C,
      ICoreWebView2_3_ClearVirtualHostNameToFolderMapping_C, ICoreWebView2_4_add_FrameCreated_C,
      ICoreWebView2_4_remove_FrameCreated_C, ICoreWebView2_4_add_DownloadStarting_C,
      ICoreWebView2_4_remove_DownloadStarting_C, ICoreWebView2_5_add_ClientCertificateRequested_C,
      ICoreWebView2_5_remove_ClientCertificateRequested_C, ICoreWebView2_6_OpenTaskManagerWindow_C]"

definition ICoreWebView2_9Vtbl_4 :: "cdecl list" where
  "ICoreWebView2_9Vtbl_4 =
     [ICoreWebView2_7_PrintToPdf_C, ICoreWebView2_8_add_IsMutedChanged_C, ICoreWebView2_8_remove_IsMutedChanged_C,
      ICoreWebView2_8_get_IsMuted_C, ICoreWebView2_8_put_IsMuted_C,
      ICoreWebView2_8_add_IsDocumentPlayingAudioChanged_C, ICoreWebView2_8_remove_IsDocumentPlayingAudioChanged_C,
      ICoreWebView2_8_get_IsDocumentPlayingAudio_C, ICoreWebView2_9_add_IsDefaultDownloadDialogOpenChanged_C,
      ICoreWebView2_9_remove_IsDefaultDownloadDialogOpenChanged_C, ICoreWebView2_9_get_IsDefaultDownloadDialogOpen_C,
      ICoreWebView2_9_OpenDefaultDownloadDialog_C, ICoreWebView2_9_CloseDefaultDownloadDialog_C,
      ICoreWebView2_9_get_DefaultDownloadDialogCornerAlignment_C,
      ICoreWebView2_9_put_DefaultDownloadDialogCornerAlignment_C, ICoreWebView2_9_get_DefaultDownloadDialogMargin_C,
      ICoreWebView2_9_put_DefaultDownloadDialogMargin_C]"

definition ICoreWebView2_9Vtbl :: vtable where
  "ICoreWebView2_9Vtbl = Vtable ''ICoreWebView2_9''
     (ICoreWebView2_9Vtbl_1 @ ICoreWebView2_9Vtbl_2 @ ICoreWebView2_9Vtbl_3 @ ICoreWebView2_9Vtbl_4)"

definition ICoreWebView2_10Vtbl_1 :: "cdecl list" where
  "ICoreWebView2_10Vtbl_1 =
     [IUnknown_QueryInterface_C, IUnknown_AddRef_C, IUnknown_Release_C, ICoreWebView2_get_Settings_C,
      ICoreWebView2_get_Source_C, ICoreWebView2_Navigate_C, ICoreWebView2_NavigateToString_C,
      ICoreWebView2_add_NavigationStarting_C, ICoreWebView2_remove_NavigationStarting_C,
      ICoreWebView2_add_ContentLoading_C, ICoreWebView2_remove_ContentLoading_C, ICoreWebView2_add_SourceChanged_C,
      ICoreWebView2_remove_SourceChanged_C, ICoreWebView2_add_HistoryChanged_C,
      ICoreWebView2_remove_HistoryChanged_C, ICoreWebView2_add_NavigationCompleted_C,
      ICoreWebView2_remove_NavigationCompleted_C, ICoreWebView2_add_FrameNavigationStarting_C,
      ICoreWebView2_remove_FrameNavigationStarting_C, ICoreWebView2_add_FrameNavigationCompleted_C,
      ICoreWebView2_remove_FrameNavigationCompleted_C, ICoreWebView2_add_ScriptDialogOpening_C,
      ICoreWebView2_remove_ScriptDialogOpening_C, ICoreWebView2_add_PermissionRequested_C,
      ICoreWebView2_remove_PermissionRequested_C, ICoreWebView2_add_ProcessFailed_C]"

definition ICoreWebView2_10Vtbl_2 :: "cdecl list" where
  "ICoreWebView2_10Vtbl_2 =
     [ICoreWebView2_remove_ProcessFailed_C, ICoreWebView2_AddScriptToExecuteOnDocumentCreated_C,
      ICoreWebView2_RemoveScriptToExecuteOnDocumentCreated_C, ICoreWebView2_ExecuteScript_C,
      ICoreWebView2_CapturePreview_C, ICoreWebView2_Reload_C, ICoreWebView2_PostWebMessageAsJson_C,
      ICoreWebView2_PostWebMessageAsString_C, ICoreWebView2_add_WebMessageReceived_C,
      ICoreWebView2_remove_WebMessageReceived_C, ICoreWebView2_CallDevToolsProtocolMethod_C,
      ICoreWebView2_get_BrowserProcessId_C, ICoreWebView2_get_CanGoBack_C, ICoreWebView2_get_CanGoForward_C,
      ICoreWebView2_GoBack_C, ICoreWebView2_GoForward_C, ICoreWebView2_GetDevToolsProtocolEventReceiver_C,
      ICoreWebView2_Stop_C, ICoreWebView2_add_NewWindowRequested_C, ICoreWebView2_remove_NewWindowRequested_C,
      ICoreWebView2_add_DocumentTitleChanged_C, ICoreWebView2_remove_DocumentTitleChanged_C,
      ICoreWebView2_get_DocumentTitle_C, ICoreWebView2_AddHostObjectToScript_C,
      ICoreWebView2_RemoveHostObjectFromScript_C, ICoreWebView2_OpenDevToolsWindow_C,
      ICoreWebView2_add_ContainsFullScreenElementChanged_C]"

definition ICoreWebView2_10Vtbl_3 :: "cdecl list" where
  "ICoreWebView2_10Vtbl_3 =
     [ICoreWebView2_remove_ContainsFullScreenElementChanged_C, ICoreWebView2_get_ContainsFullScreenElement_C,
      ICoreWebView2_add_WebResourceRequested_C, ICoreWebView2_remove_WebResourceRequested_C,
      ICoreWebView2_AddWebResourceRequestedFilter_C, ICoreWebView2_RemoveWebResourceRequestedFilter_C,
      ICoreWebView2_add_WindowCloseRequested_C, ICoreWebView2_remove_WindowCloseRequested_C,
      ICoreWebView2_2_add_WebResourceResponseReceived_C, ICoreWebView2_2_remove_WebResourceResponseReceived_C,
      ICoreWebView2_2_NavigateWithWebResourceRequest_C, ICoreWebView2_2_add_DOMContentLoaded_C,
      ICoreWebView2_2_remove_DOMContentLoaded_C, ICoreWebView2_2_get_CookieManager_C,
      ICoreWebView2_2_get_Environment_C, ICoreWebView2_3_TrySuspend_C, ICoreWebView2_3_Resume_C,
      ICoreWebView2_3_get_IsSuspended_C, ICoreWebView2_3_SetVirtualHostNameToFolderMapping_C,
      ICoreWebView2_3_ClearVirtualHostNameToFolderMapping_C, ICoreWebView2_4_add_FrameCreated_C,
      ICoreWebView2_4_remove_FrameCreated_C, ICoreWebView2_4_add_DownloadStarting_C,
      ICoreWebView2_4_remove_DownloadStarting_C, ICoreWebView2_5_add_ClientCertificateRequested_C,
      ICoreWebView2_5_remove_ClientCertificateRequested_C, ICoreWebView2_6_OpenTaskManagerWindow_C]"

definition ICoreWebView2_10Vtbl_4 :: "cdecl list" where
  "ICoreWebView2_10Vtbl_4 =
     [ICoreWebView2_7_PrintToPdf_C, ICoreWebView2_8_add_IsMutedChanged_C, ICoreWebView2_8_remove_IsMutedChanged_C,
      ICoreWebView2_8_get_IsMuted_C, ICoreWebView2_8_put_IsMuted_C,
      ICoreWebView2_8_add_IsDocumentPlayingAudioChanged_C, ICoreWebView2_8_remove_IsDocumentPlayingAudioChanged_C,
      ICoreWebView2_8_get_IsDocumentPlayingAudio_C, ICoreWebView2_9_add_IsDefaultDownloadDialogOpenChanged_C,
      ICoreWebView2_9_remove_IsDefaultDownloadDialogOpenChanged_C, ICoreWebView2_9_get_IsDefaultDownloadDialogOpen_C,
      ICoreWebView2_9_OpenDefaultDownloadDialog_C, ICoreWebView2_9_CloseDefaultDownloadDialog_C,
      ICoreWebView2_9_get_DefaultDownloadDialogCornerAlignment_C,
      ICoreWebView2_9_put_DefaultDownloadDialogCornerAlignment_C, ICoreWebView2_9_get_DefaultDownloadDialogMargin_C,
      ICoreWebView2_9_put_DefaultDownloadDialogMargin_C, ICoreWebView2_10_add_BasicAuthenticationRequested_C,
      ICoreWebView2_10_remove_BasicAuthenticationRequested_C]"

definition ICoreWebView2_10Vtbl :: vtable where
  "ICoreWebView2_10Vtbl = Vtable ''ICoreWebView2_10''
     (ICoreWebView2_10Vtbl_1 @ ICoreWebView2_10Vtbl_2 @ ICoreWebView2_10Vtbl_3 @ ICoreWebView2_10Vtbl_4)"

definition ICoreWebView2_11Vtbl_1 :: "cdecl list" where
  "ICoreWebView2_11Vtbl_1 =
     [IUnknown_QueryInterface_C, IUnknown_AddRef_C, IUnknown_Release_C, ICoreWebView2_get_Settings_C,
      ICoreWebView2_get_Source_C, ICoreWebView2_Navigate_C, ICoreWebView2_NavigateToString_C,
      ICoreWebView2_add_NavigationStarting_C, ICoreWebView2_remove_NavigationStarting_C,
      ICoreWebView2_add_ContentLoading_C, ICoreWebView2_remove_ContentLoading_C, ICoreWebView2_add_SourceChanged_C,
      ICoreWebView2_remove_SourceChanged_C, ICoreWebView2_add_HistoryChanged_C,
      ICoreWebView2_remove_HistoryChanged_C, ICoreWebView2_add_NavigationCompleted_C,
      ICoreWebView2_remove_NavigationCompleted_C, ICoreWebView2_add_FrameNavigationStarting_C,
      ICoreWebView2_remove_FrameNavigationStarting_C, ICoreWebView2_add_FrameNavigationCompleted_C,
      ICoreWebView2_remove_FrameNavigationCompleted_C, ICoreWebView2_add_ScriptDialogOpening_C,
      ICoreWebView2_remove_ScriptDialogOpening_C, ICoreWebView2_add_PermissionRequested_C,
      ICoreWebView2_remove_PermissionRequested_C, ICoreWebView2_add_ProcessFailed_C]"

definition ICoreWebView2_11Vtbl_2 :: "cdecl list" where
  "ICoreWebView2_11Vtbl_2 =
     [ICoreWebView2_remove_ProcessFailed_C, ICoreWebView2_AddScriptToExecuteOnDocumentCreated_C,
      ICoreWebView2_RemoveScriptToExecuteOnDocumentCreated_C, ICoreWebView2_ExecuteScript_C,
      ICoreWebView2_CapturePreview_C, ICoreWebView2_Reload_C, ICoreWebView2_PostWebMessageAsJson_C,
      ICoreWebView2_PostWebMessageAsString_C, ICoreWebView2_add_WebMessageReceived_C,
      ICoreWebView2_remove_WebMessageReceived_C, ICoreWebView2_CallDevToolsProtocolMethod_C,
      ICoreWebView2_get_BrowserProcessId_C, ICoreWebView2_get_CanGoBack_C, ICoreWebView2_get_CanGoForward_C,
      ICoreWebView2_GoBack_C, ICoreWebView2_GoForward_C, ICoreWebView2_GetDevToolsProtocolEventReceiver_C,
      ICoreWebView2_Stop_C, ICoreWebView2_add_NewWindowRequested_C, ICoreWebView2_remove_NewWindowRequested_C,
      ICoreWebView2_add_DocumentTitleChanged_C, ICoreWebView2_remove_DocumentTitleChanged_C,
      ICoreWebView2_get_DocumentTitle_C, ICoreWebView2_AddHostObjectToScript_C,
      ICoreWebView2_RemoveHostObjectFromScript_C, ICoreWebView2_OpenDevToolsWindow_C,
      ICoreWebView2_add_ContainsFullScreenElementChanged_C]"

definition ICoreWebView2_11Vtbl_3 :: "cdecl list" where
  "ICoreWebView2_11Vtbl_3 =
     [ICoreWebView2_remove_ContainsFullScreenElementChanged_C, ICoreWebView2_get_ContainsFullScreenElement_C,
      ICoreWebView2_add_WebResourceRequested_C, ICoreWebView2_remove_WebResourceRequested_C,
      ICoreWebView2_AddWebResourceRequestedFilter_C, ICoreWebView2_RemoveWebResourceRequestedFilter_C,
      ICoreWebView2_add_WindowCloseRequested_C, ICoreWebView2_remove_WindowCloseRequested_C,
      ICoreWebView2_2_add_WebResourceResponseReceived_C, ICoreWebView2_2_remove_WebResourceResponseReceived_C,
      ICoreWebView2_2_NavigateWithWebResourceRequest_C, ICoreWebView2_2_add_DOMContentLoaded_C,
      ICoreWebView2_2_remove_DOMContentLoaded_C, ICoreWebView2_2_get_CookieManager_C,
      ICoreWebView2_2_get_Environment_C, ICoreWebView2_3_TrySuspend_C, ICoreWebView2_3_Resume_C,
      ICoreWebView2_3_get_IsSuspended_C, ICoreWebView2_3_SetVirtualHostNameToFolderMapping_C,
      ICoreWebView2_3_ClearVirtualHostNameToFolderMapping_C, ICoreWebView2_4_add_FrameCreated_C,
      ICoreWebView2_4_remove_FrameCreated_C, ICoreWebView2_4_add_DownloadStarting_C,
      ICoreWebView2_4_remove_DownloadStarting_C, ICoreWebView2_5_add_ClientCertificateRequested_C,
      ICoreWebView2_5_remove_ClientCertificateRequested_C, ICoreWebView2_6_OpenTaskManagerWindow_C]"

definition ICoreWebView2_11Vtbl_4 :: "cdecl list" where
  "ICoreWebView2_11Vtbl_4 =
     [ICoreWebView2_7_PrintToPdf_C, ICoreWebView2_8_add_IsMutedChanged_C, ICoreWebView2_8_remove_IsMutedChanged_C,
      ICoreWebView2_8_get_IsMuted_C, ICoreWebView2_8_put_IsMuted_C,
      ICoreWebView2_8_add_IsDocumentPlayingAudioChanged_C, ICoreWebView2_8_remove_IsDocumentPlayingAudioChanged_C,
      ICoreWebView2_8_get_IsDocumentPlayingAudio_C, ICoreWebView2_9_add_IsDefaultDownloadDialogOpenChanged_C,
      ICoreWebView2_9_remove_IsDefaultDownloadDialogOpenChanged_C, ICoreWebView2_9_get_IsDefaultDownloadDialogOpen_C,
      ICoreWebView2_9_OpenDefaultDownloadDialog_C, ICoreWebView2_9_CloseDefaultDownloadDialog_C,
      ICoreWebView2_9_get_DefaultDownloadDialogCornerAlignment_C,
      ICoreWebView2_9_put_DefaultDownloadDialogCornerAlignment_C, ICoreWebView2_9_get_DefaultDownloadDialogMargin_C,
      ICoreWebView2_9_put_DefaultDownloadDialogMargin_C, ICoreWebView2_10_add_BasicAuthenticationRequested_C,
      ICoreWebView2_10_remove_BasicAuthenticationRequested_C,
      ICoreWebView2_11_CallDevToolsProtocolMethodForSession_C, ICoreWebView2_11_add_ContextMenuRequested_C,
      ICoreWebView2_11_remove_ContextMenuRequested_C]"

definition ICoreWebView2_11Vtbl :: vtable where
  "ICoreWebView2_11Vtbl = Vtable ''ICoreWebView2_11''
     (ICoreWebView2_11Vtbl_1 @ ICoreWebView2_11Vtbl_2 @ ICoreWebView2_11Vtbl_3 @ ICoreWebView2_11Vtbl_4)"

definition ICoreWebView2_12Vtbl_1 :: "cdecl list" where
  "ICoreWebView2_12Vtbl_1 =
     [IUnknown_QueryInterface_C, IUnknown_AddRef_C, IUnknown_Release_C, ICoreWebView2_get_Settings_C,
      ICoreWebView2_get_Source_C, ICoreWebView2_Navigate_C, ICoreWebView2_NavigateToString_C,
      ICoreWebView2_add_NavigationStarting_C, ICoreWebView2_remove_NavigationStarting_C,
      ICoreWebView2_add_ContentLoading_C, ICoreWebView2_remove_ContentLoading_C, ICoreWebView2_add_SourceChanged_C,
      ICoreWebView2_remove_SourceChanged_C, ICoreWebView2_add_HistoryChanged_C,
      ICoreWebView2_remove_HistoryChanged_C, ICoreWebView2_add_NavigationCompleted_C,
      ICoreWebView2_remove_NavigationCompleted_C, ICoreWebView2_add_FrameNavigationStarting_C,
      ICoreWebView2_remove_FrameNavigationStarting_C, ICoreWebView2_add_FrameNavigationCompleted_C,
      ICoreWebView2_remove_FrameNavigationCompleted_C, ICoreWebView2_add_ScriptDialogOpening_C,
      ICoreWebView2_remove_ScriptDialogOpening_C, ICoreWebView2_add_PermissionRequested_C,
      ICoreWebView2_remove_PermissionRequested_C, ICoreWebView2_add_ProcessFailed_C]"

definition ICoreWebView2_12Vtbl_2 :: "cdecl list" where
  "ICoreWebView2_12Vtbl_2 =
     [ICoreWebView2_remove_ProcessFailed_C, ICoreWebView2_AddScriptToExecuteOnDocumentCreated_C,
      ICoreWebView2_RemoveScriptToExecuteOnDocumentCreated_C, ICoreWebView2_ExecuteScript_C,
      ICoreWebView2_CapturePreview_C, ICoreWebView2_Reload_C, ICoreWebView2_PostWebMessageAsJson_C,
      ICoreWebView2_PostWebMessageAsString_C, ICoreWebView2_add_WebMessageReceived_C,
      ICoreWebView2_remove_WebMessageReceived_C, ICoreWebView2_CallDevToolsProtocolMethod_C,
      ICoreWebView2_get_BrowserProcessId_C, ICoreWebView2_get_CanGoBack_C, ICoreWebView2_get_CanGoForward_C,
      ICoreWebView2_GoBack_C, ICoreWebView2_GoForward_C, ICoreWebView2_GetDevToolsProtocolEventReceiver_C,
      ICoreWebView2_Stop_C, ICoreWebView2_add_NewWindowRequested_C, ICoreWebView2_remove_NewWindowRequested_C,
      ICoreWebView2_add_DocumentTitleChanged_C, ICoreWebView2_remove_DocumentTitleChanged_C,
      ICoreWebView2_get_DocumentTitle_C, ICoreWebView2_AddHostObjectToScript_C,
      ICoreWebView2_RemoveHostObjectFromScript_C, ICoreWebView2_OpenDevToolsWindow_C,
      ICoreWebView2_add_ContainsFullScreenElementChanged_C]"

definition ICoreWebView2_12Vtbl_3 :: "cdecl list" where
  "ICoreWebView2_12Vtbl_3 =
     [ICoreWebView2_remove_ContainsFullScreenElementChanged_C, ICoreWebView2_get_ContainsFullScreenElement_C,
      ICoreWebView2_add_WebResourceRequested_C, ICoreWebView2_remove_WebResourceRequested_C,
      ICoreWebView2_AddWebResourceRequestedFilter_C, ICoreWebView2_RemoveWebResourceRequestedFilter_C,
      ICoreWebView2_add_WindowCloseRequested_C, ICoreWebView2_remove_WindowCloseRequested_C,
      ICoreWebView2_2_add_WebResourceResponseReceived_C, ICoreWebView2_2_remove_WebResourceResponseReceived_C,
      ICoreWebView2_2_NavigateWithWebResourceRequest_C, ICoreWebView2_2_add_DOMContentLoaded_C,
      ICoreWebView2_2_remove_DOMContentLoaded_C, ICoreWebView2_2_get_CookieManager_C,
      ICoreWebView2_2_get_Environment_C, ICoreWebView2_3_TrySuspend_C, ICoreWebView2_3_Resume_C,
      ICoreWebView2_3_get_IsSuspended_C, ICoreWebView2_3_SetVirtualHostNameToFolderMapping_C,
      ICoreWebView2_3_ClearVirtualHostNameToFolderMapping_C, ICoreWebView2_4_add_FrameCreated_C,
      ICoreWebView2_4_remove_FrameCreated_C, ICoreWebView2_4_add_DownloadStarting_C,
      ICoreWebView2_4_remove_DownloadStarting_C, ICoreWebView2_5_add_ClientCertificateRequested_C,
      ICoreWebView2_5_remove_ClientCertificateRequested_C, ICoreWebView2_6_OpenTaskManagerWindow_C]"

definition ICoreWebView2_12Vtbl_4 :: "cdecl list" where
  "ICoreWebView2_12Vtbl_4 =
     [ICoreWebView2_7_PrintToPdf_C, ICoreWebView2_8_add_IsMutedChanged_C, ICoreWebView2_8_remove_IsMutedChanged_C,
      ICoreWebView2_8_get_IsMuted_C, ICoreWebView2_8_put_IsMuted_C,
      ICoreWebView2_8_add_IsDocumentPlayingAudioChanged_C, ICoreWebView2_8_remove_IsDocumentPlayingAudioChanged_C,
      ICoreWebView2_8_get_IsDocumentPlayingAudio_C, ICoreWebView2_9_add_IsDefaultDownloadDialogOpenChanged_C,
      ICoreWebView2_9_remove_IsDefaultDownloadDialogOpenChanged_C, ICoreWebView2_9_get_IsDefaultDownloadDialogOpen_C,
      ICoreWebView2_9_OpenDefaultDownloadDialog_C, ICoreWebView2_9_CloseDefaultDownloadDialog_C,
      ICoreWebView2_9_get_DefaultDownloadDialogCornerAlignment_C,
      ICoreWebView2_9_put_DefaultDownloadDialogCornerAlignment_C, ICoreWebView2_9_get_DefaultDownloadDialogMargin_C,
      ICoreWebView2_9_put_DefaultDownloadDialogMargin_C, ICoreWebView2_10_add_BasicAuthenticationRequested_C,
      ICoreWebView2_10_remove_BasicAuthenticationRequested_C,
      ICoreWebView2_11_CallDevToolsProtocolMethodForSession_C, ICoreWebView2_11_add_ContextMenuRequested_C,
      ICoreWebView2_11_remove_ContextMenuRequested_C, ICoreWebView2_12_add_StatusBarTextChanged_C,
      ICoreWebView2_12_remove_StatusBarTextChanged_C, ICoreWebView2_12_get_StatusBarText_C]"

definition ICoreWebView2_12Vtbl :: vtable where
  "ICoreWebView2_12Vtbl = Vtable ''ICoreWebView2_12''
     (ICoreWebView2_12Vtbl_1 @ ICoreWebView2_12Vtbl_2 @ ICoreWebView2_12Vtbl_3 @ ICoreWebView2_12Vtbl_4)"

definition ICoreWebView2_13Vtbl_1 :: "cdecl list" where
  "ICoreWebView2_13Vtbl_1 =
     [IUnknown_QueryInterface_C, IUnknown_AddRef_C, IUnknown_Release_C, ICoreWebView2_get_Settings_C,
      ICoreWebView2_get_Source_C, ICoreWebView2_Navigate_C, ICoreWebView2_NavigateToString_C,
      ICoreWebView2_add_NavigationStarting_C, ICoreWebView2_remove_NavigationStarting_C,
      ICoreWebView2_add_ContentLoading_C, ICoreWebView2_remove_ContentLoading_C, ICoreWebView2_add_SourceChanged_C,
      ICoreWebView2_remove_SourceChanged_C, ICoreWebView2_add_HistoryChanged_C,
      ICoreWebView2_remove_HistoryChanged_C, ICoreWebView2_add_NavigationCompleted_C,
      ICoreWebView2_remove_NavigationCompleted_C, ICoreWebView2_add_FrameNavigationStarting_C,
      ICoreWebView2_remove_FrameNavigationStarting_C, ICoreWebView2_add_FrameNavigationCompleted_C,
      ICoreWebView2_remove_FrameNavigationCompleted_C, ICoreWebView2_add_ScriptDialogOpening_C,
      ICoreWebView2_remove_ScriptDialogOpening_C, ICoreWebView2_add_PermissionRequested_C,
      ICoreWebView2_remove_PermissionRequested_C, ICoreWebView2_add_ProcessFailed_C]"

definition ICoreWebView2_13Vtbl_2 :: "cdecl list" where
  "ICoreWebView2_13Vtbl_2 =
     [ICoreWebView2_remove_ProcessFailed_C, ICoreWebView2_AddScriptToExecuteOnDocumentCreated_C,
      ICoreWebView2_RemoveScriptToExecuteOnDocumentCreated_C, ICoreWebView2_ExecuteScript_C,
      ICoreWebView2_CapturePreview_C, ICoreWebView2_Reload_C, ICoreWebView2_PostWebMessageAsJson_C,
      ICoreWebView2_PostWebMessageAsString_C, ICoreWebView2_add_WebMessageReceived_C,
      ICoreWebView2_remove_WebMessageReceived_C, ICoreWebView2_CallDevToolsProtocolMethod_C,
      ICoreWebView2_get_BrowserProcessId_C, ICoreWebView2_get_CanGoBack_C, ICoreWebView2_get_CanGoForward_C,
      ICoreWebView2_GoBack_C, ICoreWebView2_GoForward_C, ICoreWebView2_GetDevToolsProtocolEventReceiver_C,
      ICoreWebView2_Stop_C, ICoreWebView2_add_NewWindowRequested_C, ICoreWebView2_remove_NewWindowRequested_C,
      ICoreWebView2_add_DocumentTitleChanged_C, ICoreWebView2_remove_DocumentTitleChanged_C,
      ICoreWebView2_get_DocumentTitle_C, ICoreWebView2_AddHostObjectToScript_C,
      ICoreWebView2_RemoveHostObjectFromScript_C, ICoreWebView2_OpenDevToolsWindow_C,
      ICoreWebView2_add_ContainsFullScreenElementChanged_C]"

definition ICoreWebView2_13Vtbl_3 :: "cdecl list" where
  "ICoreWebView2_13Vtbl_3 =
     [ICoreWebView2_remove_ContainsFullScreenElementChanged_C, ICoreWebView2_get_ContainsFullScreenElement_C,
      ICoreWebView2_add_WebResourceRequested_C, ICoreWebView2_remove_WebResourceRequested_C,
      ICoreWebView2_AddWebResourceRequestedFilter_C, ICoreWebView2_RemoveWebResourceRequestedFilter_C,
      ICoreWebView2_add_WindowCloseRequested_C, ICoreWebView2_remove_WindowCloseRequested_C,
      ICoreWebView2_2_add_WebResourceResponseReceived_C, ICoreWebView2_2_remove_WebResourceResponseReceived_C,
      ICoreWebView2_2_NavigateWithWebResourceRequest_C, ICoreWebView2_2_add_DOMContentLoaded_C,
      ICoreWebView2_2_remove_DOMContentLoaded_C, ICoreWebView2_2_get_CookieManager_C,
      ICoreWebView2_2_get_Environment_C, ICoreWebView2_3_TrySuspend_C, ICoreWebView2_3_Resume_C,
      ICoreWebView2_3_get_IsSuspended_C, ICoreWebView2_3_SetVirtualHostNameToFolderMapping_C,
      ICoreWebView2_3_ClearVirtualHostNameToFolderMapping_C, ICoreWebView2_4_add_FrameCreated_C,
      ICoreWebView2_4_remove_FrameCreated_C, ICoreWebView2_4_add_DownloadStarting_C,
      ICoreWebView2_4_remove_DownloadStarting_C, ICoreWebView2_5_add_ClientCertificateRequested_C,
      ICoreWebView2_5_remove_ClientCertificateRequested_C, ICoreWebView2_6_OpenTaskManagerWindow_C]"

definition ICoreWebView2_13Vtbl_4 :: "cdecl list" where
  "ICoreWebView2_13Vtbl_4 =
     [ICoreWebView2_7_PrintToPdf_C, ICoreWebView2_8_add_IsMutedChanged_C, ICoreWebView2_8_remove_IsMutedChanged_C,
      ICoreWebView2_8_get_IsMuted_C, ICoreWebView2_8_put_IsMuted_C,
      ICoreWebView2_8_add_IsDocumentPlayingAudioChanged_C, ICoreWebView2_8_remove_IsDocumentPlayingAudioChanged_C,
      ICoreWebView2_8_get_IsDocumentPlayingAudio_C, ICoreWebView2_9_add_IsDefaultDownloadDialogOpenChanged_C,
      ICoreWebView2_9_remove_IsDefaultDownloadDialogOpenChanged_C, ICoreWebView2_9_get_IsDefaultDownloadDialogOpen_C,
      ICoreWebView2_9_OpenDefaultDownloadDialog_C, ICoreWebView2_9_CloseDefaultDownloadDialog_C,
      ICoreWebView2_9_get_DefaultDownloadDialogCornerAlignment_C,
      ICoreWebView2_9_put_DefaultDownloadDialogCornerAlignment_C, ICoreWebView2_9_get_DefaultDownloadDialogMargin_C,
      ICoreWebView2_9_put_DefaultDownloadDialogMargin_C, ICoreWebView2_10_add_BasicAuthenticationRequested_C,
      ICoreWebView2_10_remove_BasicAuthenticationRequested_C,
      ICoreWebView2_11_CallDevToolsProtocolMethodForSession_C, ICoreWebView2_11_add_ContextMenuRequested_C,
      ICoreWebView2_11_remove_ContextMenuRequested_C, ICoreWebView2_12_add_StatusBarTextChanged_C,
      ICoreWebView2_12_remove_StatusBarTextChanged_C, ICoreWebView2_12_get_StatusBarText_C,
      ICoreWebView2_13_get_Profile_C]"

definition ICoreWebView2_13Vtbl :: vtable where
  "ICoreWebView2_13Vtbl = Vtable ''ICoreWebView2_13''
     (ICoreWebView2_13Vtbl_1 @ ICoreWebView2_13Vtbl_2 @ ICoreWebView2_13Vtbl_3 @ ICoreWebView2_13Vtbl_4)"

definition ICoreWebView2_14Vtbl_1 :: "cdecl list" where
  "ICoreWebView2_14Vtbl_1 =
     [IUnknown_QueryInterface_C, IUnknown_AddRef_C, IUnknown_Release_C, ICoreWebView2_get_Settings_C,
      ICoreWebView2_get_Source_C, ICoreWebView2_Navigate_C, ICoreWebView2_NavigateToString_C,
      ICoreWebView2_add_NavigationStarting_C, ICoreWebView2_remove_NavigationStarting_C,
      ICoreWebView2_add_ContentLoading_C, ICoreWebView2_remove_ContentLoading_C, ICoreWebView2_add_SourceChanged_C,
      ICoreWebView2_remove_SourceChanged_C, ICoreWebView2_add_HistoryChanged_C,
      ICoreWebView2_remove_HistoryChanged_C, ICoreWebView2_add_NavigationCompleted_C,
      ICoreWebView2_remove_NavigationCompleted_C, ICoreWebView2_add_FrameNavigationStarting_C,
      ICoreWebView2_remove_FrameNavigationStarting_C, ICoreWebView2_add_FrameNavigationCompleted_C,
      ICoreWebView2_remove_FrameNavigationCompleted_C, ICoreWebView2_add_ScriptDialogOpening_C,
      ICoreWebView2_remove_ScriptDialogOpening_C, ICoreWebView2_add_PermissionRequested_C,
      ICoreWebView2_remove_PermissionRequested_C, ICoreWebView2_add_ProcessFailed_C]"

definition ICoreWebView2_14Vtbl_2 :: "cdecl list" where
  "ICoreWebView2_14Vtbl_2 =
     [ICoreWebView2_remove_ProcessFailed_C, ICoreWebView2_AddScriptToExecuteOnDocumentCreated_C,
      ICoreWebView2_RemoveScriptToExecuteOnDocumentCreated_C, ICoreWebView2_ExecuteScript_C,
      ICoreWebView2_CapturePreview_C, ICoreWebView2_Reload_C, ICoreWebView2_PostWebMessageAsJson_C,
      ICoreWebView2_PostWebMessageAsString_C, ICoreWebView2_add_WebMessageReceived_C,
      ICoreWebView2_remove_WebMessageReceived_C, ICoreWebView2_CallDevToolsProtocolMethod_C,
      ICoreWebView2_get_BrowserProcessId_C, ICoreWebView2_get_CanGoBack_C, ICoreWebView2_get_CanGoForward_C,
      ICoreWebView2_GoBack_C, ICoreWebView2_GoForward_C, ICoreWebView2_GetDevToolsProtocolEventReceiver_C,
      ICoreWebView2_Stop_C, ICoreWebView2_add_NewWindowRequested_C, ICoreWebView2_remove_NewWindowRequested_C,
      ICoreWebView2_add_DocumentTitleChanged_C, ICoreWebView2_remove_DocumentTitleChanged_C,
      ICoreWebView2_get_DocumentTitle_C, ICoreWebView2_AddHostObjectToScript_C,
      ICoreWebView2_RemoveHostObjectFromScript_C, ICoreWebView2_OpenDevToolsWindow_C,
      ICoreWebView2_add_ContainsFullScreenElementChanged_C]"

definition ICoreWebView2_14Vtbl_3 :: "cdecl list" where
  "ICoreWebView2_14Vtbl_3 =
     [ICoreWebView2_remove_ContainsFullScreenElementChanged_C, ICoreWebView2_get_ContainsFullScreenElement_C,
      ICoreWebView2_add_WebResourceRequested_C, ICoreWebView2_remove_WebResourceRequested_C,
      ICoreWebView2_AddWebResourceRequestedFilter_C, ICoreWebView2_RemoveWebResourceRequestedFilter_C,
      ICoreWebView2_add_WindowCloseRequested_C, ICoreWebView2_remove_WindowCloseRequested_C,
      ICoreWebView2_2_add_WebResourceResponseReceived_C, ICoreWebView2_2_remove_WebResourceResponseReceived_C,
      ICoreWebView2_2_NavigateWithWebResourceRequest_C, ICoreWebView2_2_add_DOMContentLoaded_C,
      ICoreWebView2_2_remove_DOMContentLoaded_C, ICoreWebView2_2_get_CookieManager_C,
      ICoreWebView2_2_get_Environment_C, ICoreWebView2_3_TrySuspend_C, ICoreWebView2_3_Resume_C,
      ICoreWebView2_3_get_IsSuspended_C, ICoreWebView2_3_SetVirtualHostNameToFolderMapping_C,
      ICoreWebView2_3_ClearVirtualHostNameToFolderMapping_C, ICoreWebView2_4_add_FrameCreated_C,
      ICoreWebView2_4_remove_FrameCreated_C, ICoreWebView2_4_add_DownloadStarting_C,
      ICoreWebView2_4_remove_DownloadStarting_C, ICoreWebView2_5_add_ClientCertificateRequested_C,
      ICoreWebView2_5_remove_ClientCertificateRequested_C, ICoreWebView2_6_OpenTaskManagerWindow_C]"

definition ICoreWebView2_14Vtbl_4 :: "cdecl list" where
  "ICoreWebView2_14Vtbl_4 =
     [ICoreWebView2_7_PrintToPdf_C, ICoreWebView2_8_add_IsMutedChanged_C, ICoreWebView2_8_remove_IsMutedChanged_C,
      ICoreWebView2_8_get_IsMuted_C, ICoreWebView2_8_put_IsMuted_C,
      ICoreWebView2_8_add_IsDocumentPlayingAudioChanged_C, ICoreWebView2_8_remove_IsDocumentPlayingAudioChanged_C,
      ICoreWebView2_8_get_IsDocumentPlayingAudio_C, ICoreWebView2_9_add_IsDefaultDownloadDialogOpenChanged_C,
      ICoreWebView2_9_remove_IsDefaultDownloadDialogOpenChanged_C, ICoreWebView2_9_get_IsDefaultDownloadDialogOpen_C,
      ICoreWebView2_9_OpenDefaultDownloadDialog_C, ICoreWebView2_9_CloseDefaultDownloadDialog_C,
      ICoreWebView2_9_get_DefaultDownloadDialogCornerAlignment_C,
      ICoreWebView2_9_put_DefaultDownloadDialogCornerAlignment_C, ICoreWebView2_9_get_DefaultDownloadDialogMargin_C,
      ICoreWebView2_9_put_DefaultDownloadDialogMargin_C, ICoreWebView2_10_add_BasicAuthenticationRequested_C,
      ICoreWebView2_10_remove_BasicAuthenticationRequested_C,
      ICoreWebView2_11_CallDevToolsProtocolMethodForSession_C, ICoreWebView2_11_add_ContextMenuRequested_C,
      ICoreWebView2_11_remove_ContextMenuRequested_C, ICoreWebView2_12_add_StatusBarTextChanged_C,
      ICoreWebView2_12_remove_StatusBarTextChanged_C, ICoreWebView2_12_get_StatusBarText_C,
      ICoreWebView2_13_get_Profile_C]"

definition ICoreWebView2_14Vtbl_5 :: "cdecl list" where
  "ICoreWebView2_14Vtbl_5 =
     [ICoreWebView2_14_add_ServerCertificateErrorDetected_C,
      ICoreWebView2_14_remove_ServerCertificateErrorDetected_C, ICoreWebView2_14_ClearServerCertificateErrorActions_C]"

definition ICoreWebView2_14Vtbl :: vtable where
  "ICoreWebView2_14Vtbl = Vtable ''ICoreWebView2_14''
     (ICoreWebView2_14Vtbl_1 @ ICoreWebView2_14Vtbl_2 @ ICoreWebView2_14Vtbl_3 @ ICoreWebView2_14Vtbl_4 @ ICoreWebView2_14Vtbl_5)"

definition ICoreWebView2_15Vtbl_1 :: "cdecl list" where
  "ICoreWebView2_15Vtbl_1 =
     [IUnknown_QueryInterface_C, IUnknown_AddRef_C, IUnknown_Release_C, ICoreWebView2_get_Settings_C,
      ICoreWebView2_get_Source_C, ICoreWebView2_Navigate_C, ICoreWebView2_NavigateToString_C,
      ICoreWebView2_add_NavigationStarting_C, ICoreWebView2_remove_NavigationStarting_C,
      ICoreWebView2_add_ContentLoading_C, ICoreWebView2_remove_ContentLoading_C, ICoreWebView2_add_SourceChanged_C,
      ICoreWebView2_remove_SourceChanged_C, ICoreWebView2_add_HistoryChanged_C,
      ICoreWebView2_remove_HistoryChanged_C, ICoreWebView2_add_NavigationCompleted_C,
      ICoreWebView2_remove_NavigationCompleted_C, ICoreWebView2_add_FrameNavigationStarting_C,
      ICoreWebView2_remove_FrameNavigationStarting_C, ICoreWebView2_add_FrameNavigationCompleted_C,
      ICoreWebView2_remove_FrameNavigationCompleted_C, ICoreWebView2_add_ScriptDialogOpening_C,
      ICoreWebView2_remove_ScriptDialogOpening_C, ICoreWebView2_add_PermissionRequested_C,
      ICoreWebView2_remove_PermissionRequested_C, ICoreWebView2_add_ProcessFailed_C]"

definition ICoreWebView2_15Vtbl_2 :: "cdecl list" where
  "ICoreWebView2_15Vtbl_2 =
     [ICoreWebView2_remove_ProcessFailed_C, ICoreWebView2_AddScriptToExecuteOnDocumentCreated_C,
      ICoreWebView2_RemoveScriptToExecuteOnDocumentCreated_C, ICoreWebView2_ExecuteScript_C,
      ICoreWebView2_CapturePreview_C, ICoreWebView2_Reload_C, ICoreWebView2_PostWebMessageAsJson_C,
      ICoreWebView2_PostWebMessageAsString_C, ICoreWebView2_add_WebMessageReceived_C,
      ICoreWebView2_remove_WebMessageReceived_C, ICoreWebView2_CallDevToolsProtocolMethod_C,
      ICoreWebView2_get_BrowserProcessId_C, ICoreWebView2_get_CanGoBack_C, ICoreWebView2_get_CanGoForward_C,
      ICoreWebView2_GoBack_C, ICoreWebView2_GoForward_C, ICoreWebView2_GetDevToolsProtocolEventReceiver_C,
      ICoreWebView2_Stop_C, ICoreWebView2_add_NewWindowRequested_C, ICoreWebView2_remove_NewWindowRequested_C,
      ICoreWebView2_add_DocumentTitleChanged_C, ICoreWebView2_remove_DocumentTitleChanged_C,
      ICoreWebView2_get_DocumentTitle_C, ICoreWebView2_AddHostObjectToScript_C,
      ICoreWebView2_RemoveHostObjectFromScript_C, ICoreWebView2_OpenDevToolsWindow_C,
      ICoreWebView2_add_ContainsFullScreenElementChanged_C]"

definition ICoreWebView2_15Vtbl_3 :: "cdecl list" where
  "ICoreWebView2_15Vtbl_3 =
     [ICoreWebView2_remove_ContainsFullScreenElementChanged_C, ICoreWebView2_get_ContainsFullScreenElement_C,
      ICoreWebView2_add_WebResourceRequested_C, ICoreWebView2_remove_WebResourceRequested_C,
      ICoreWebView2_AddWebResourceRequestedFilter_C, ICoreWebView2_RemoveWebResourceRequestedFilter_C,
      ICoreWebView2_add_WindowCloseRequested_C, ICoreWebView2_remove_WindowCloseRequested_C,
      ICoreWebView2_2_add_WebResourceResponseReceived_C, ICoreWebView2_2_remove_WebResourceResponseReceived_C,
      ICoreWebView2_2_NavigateWithWebResourceRequest_C, ICoreWebView2_2_add_DOMContentLoaded_C,
      ICoreWebView2_2_remove_DOMContentLoaded_C, ICoreWebView2_2_get_CookieManager_C,
      ICoreWebView2_2_get_Environment_C, ICoreWebView2_3_TrySuspend_C, ICoreWebView2_3_Resume_C,
      ICoreWebView2_3_get_IsSuspended_C, ICoreWebView2_3_SetVirtualHostNameToFolderMapping_C,
      ICoreWebView2_3_ClearVirtualHostNameToFolderMapping_C, ICoreWebView2_4_add_FrameCreated_C,
      ICoreWebView2_4_remove_FrameCreated_C, ICoreWebView2_4_add_DownloadStarting_C,
      ICoreWebView2_4_remove_DownloadStarting_C, ICoreWebView2_5_add_ClientCertificateRequested_C,
      ICoreWebView2_5_remove_ClientCertificateRequested_C, ICoreWebView2_6_OpenTaskManagerWindow_C]"

definition ICoreWebView2_15Vtbl_4 :: "cdecl list" where
  "ICoreWebView2_15Vtbl_4 =
     [ICoreWebView2_7_PrintToPdf_C, ICoreWebView2_8_add_IsMutedChanged_C, ICoreWebView2_8_remove_IsMutedChanged_C,
      ICoreWebView2_8_get_IsMuted_C, ICoreWebView2_8_put_IsMuted_C,
      ICoreWebView2_8_add_IsDocumentPlayingAudioChanged_C, ICoreWebView2_8_remove_IsDocumentPlayingAudioChanged_C,
      ICoreWebView2_8_get_IsDocumentPlayingAudio_C, ICoreWebView2_9_add_IsDefaultDownloadDialogOpenChanged_C,
      ICoreWebView2_9_remove_IsDefaultDownloadDialogOpenChanged_C, ICoreWebView2_9_get_IsDefaultDownloadDialogOpen_C,
      ICoreWebView2_9_OpenDefaultDownloadDialog_C, ICoreWebView2_9_CloseDefaultDownloadDialog_C,
      ICoreWebView2_9_get_DefaultDownloadDialogCornerAlignment_C,
      ICoreWebView2_9_put_DefaultDownloadDialogCornerAlignment_C, ICoreWebView2_9_get_DefaultDownloadDialogMargin_C,
      ICoreWebView2_9_put_DefaultDownloadDialogMargin_C, ICoreWebView2_10_add_BasicAuthenticationRequested_C,
      ICoreWebView2_10_remove_BasicAuthenticationRequested_C,
      ICoreWebView2_11_CallDevToolsProtocolMethodForSession_C, ICoreWebView2_11_add_ContextMenuRequested_C,
      ICoreWebView2_11_remove_ContextMenuRequested_C, ICoreWebView2_12_add_StatusBarTextChanged_C,
      ICoreWebView2_12_remove_StatusBarTextChanged_C, ICoreWebView2_12_get_StatusBarText_C,
      ICoreWebView2_13_get_Profile_C]"

definition ICoreWebView2_15Vtbl_5 :: "cdecl list" where
  "ICoreWebView2_15Vtbl_5 =
     [ICoreWebView2_14_add_ServerCertificateErrorDetected_C,
      ICoreWebView2_14_remove_ServerCertificateErrorDetected_C,
      ICoreWebView2_14_ClearServerCertificateErrorActions_C, ICoreWebView2_15_add_FaviconChanged_C,
      ICoreWebView2_15_remove_FaviconChanged_C, ICoreWebView2_15_get_FaviconUri_C, ICoreWebView2_15_GetFavicon_C]"

definition ICoreWebView2_15Vtbl :: vtable where
  "ICoreWebView2_15Vtbl = Vtable ''ICoreWebView2_15''
     (ICoreWebView2_15Vtbl_1 @ ICoreWebView2_15Vtbl_2 @ ICoreWebView2_15Vtbl_3 @ ICoreWebView2_15Vtbl_4 @ ICoreWebView2_15Vtbl_5)"

definition ICoreWebView2_16Vtbl_1 :: "cdecl list" where
  "ICoreWebView2_16Vtbl_1 =
     [IUnknown_QueryInterface_C, IUnknown_AddRef_C, IUnknown_Release_C, ICoreWebView2_get_Settings_C,
      ICoreWebView2_get_Source_C, ICoreWebView2_Navigate_C, ICoreWebView2_NavigateToString_C,
      ICoreWebView2_add_NavigationStarting_C, ICoreWebView2_remove_NavigationStarting_C,
      ICoreWebView2_add_ContentLoading_C, ICoreWebView2_remove_ContentLoading_C, ICoreWebView2_add_SourceChanged_C,
      ICoreWebView2_remove_SourceChanged_C, ICoreWebView2_add_HistoryChanged_C,
      ICoreWebView2_remove_HistoryChanged_C, ICoreWebView2_add_NavigationCompleted_C,
      ICoreWebView2_remove_NavigationCompleted_C, ICoreWebView2_add_FrameNavigationStarting_C,
      ICoreWebView2_remove_FrameNavigationStarting_C, ICoreWebView2_add_FrameNavigationCompleted_C,
      ICoreWebView2_remove_FrameNavigationCompleted_C, ICoreWebView2_add_ScriptDialogOpening_C,
      ICoreWebView2_remove_ScriptDialogOpening_C, ICoreWebView2_add_PermissionRequested_C,
      ICoreWebView2_remove_PermissionRequested_C, ICoreWebView2_add_ProcessFailed_C]"

definition ICoreWebView2_16Vtbl_2 :: "cdecl list" where
  "ICoreWebView2_16Vtbl_2 =
     [ICoreWebView2_remove_ProcessFailed_C, ICoreWebView2_AddScriptToExecuteOnDocumentCreated_C,
      ICoreWebView2_RemoveScriptToExecuteOnDocumentCreated_C, ICoreWebView2_ExecuteScript_C,
      ICoreWebView2_CapturePreview_C, ICoreWebView2_Reload_C, ICoreWebView2_PostWebMessageAsJson_C,
      ICoreWebView2_PostWebMessageAsString_C, ICoreWebView2_add_WebMessageReceived_C,
      ICoreWebView2_remove_WebMessageReceived_C, ICoreWebView2_CallDevToolsProtocolMethod_C,
      ICoreWebView2_get_BrowserProcessId_C, ICoreWebView2_get_CanGoBack_C, ICoreWebView2_get_CanGoForward_C,
      ICoreWebView2_GoBack_C, ICoreWebView2_GoForward_C, ICoreWebView2_GetDevToolsProtocolEventReceiver_C,
      ICoreWebView2_Stop_C, ICoreWebView2_add_NewWindowRequested_C, ICoreWebView2_remove_NewWindowRequested_C,
      ICoreWebView2_add_DocumentTitleChanged_C, ICoreWebView2_remove_DocumentTitleChanged_C,
      ICoreWebView2_get_DocumentTitle_C, ICoreWebView2_AddHostObjectToScript_C,
      ICoreWebView2_RemoveHostObjectFromScript_C, ICoreWebView2_OpenDevToolsWindow_C,
      ICoreWebView2_add_ContainsFullScreenElementChanged_C]"

definition ICoreWebView2_16Vtbl_3 :: "cdecl list" where
  "ICoreWebView2_16Vtbl_3 =
     [ICoreWebView2_remove_ContainsFullScreenElementChanged_C, ICoreWebView2_get_ContainsFullScreenElement_C,
      ICoreWebView2_add_WebResourceRequested_C, ICoreWebView2_remove_WebResourceRequested_C,
      ICoreWebView2_AddWebResourceRequestedFilter_C, ICoreWebView2_RemoveWebResourceRequestedFilter_C,
      ICoreWebView2_add_WindowCloseRequested_C, ICoreWebView2_remove_WindowCloseRequested_C,
      ICoreWebView2_2_add_WebResourceResponseReceived_C, ICoreWebView2_2_remove_WebResourceResponseReceived_C,
      ICoreWebView2_2_NavigateWithWebResourceRequest_C, ICoreWebView2_2_add_DOMContentLoaded_C,
      ICoreWebView2_2_remove_DOMContentLoaded_C, ICoreWebView2_2_get_CookieManager_C,
      ICoreWebView2_2_get_Environment_C, ICoreWebView2_3_TrySuspend_C, ICoreWebView2_3_Resume_C,
      ICoreWebView2_3_get_IsSuspended_C, ICoreWebView2_3_SetVirtualHostNameToFolderMapping_C,
      ICoreWebView2_3_ClearVirtualHostNameToFolderMapping_C, ICoreWebView2_4_add_FrameCreated_C,
      ICoreWebView2_4_remove_FrameCreated_C, ICoreWebView2_4_add_DownloadStarting_C,
      ICoreWebView2_4_remove_DownloadStarting_C, ICoreWebView2_5_add_ClientCertificateRequested_C,
      ICoreWebView2_5_remove_ClientCertificateRequested_C, ICoreWebView2_6_OpenTaskManagerWindow_C]"

definition ICoreWebView2_16Vtbl_4 :: "cdecl list" where
  "ICoreWebView2_16Vtbl_4 =
     [ICoreWebView2_7_PrintToPdf_C, ICoreWebView2_8_add_IsMutedChanged_C, ICoreWebView2_8_remove_IsMutedChanged_C,
      ICoreWebView2_8_get_IsMuted_C, ICoreWebView2_8_put_IsMuted_C,
      ICoreWebView2_8_add_IsDocumentPlayingAudioChanged_C, ICoreWebView2_8_remove_IsDocumentPlayingAudioChanged_C,
      ICoreWebView2_8_get_IsDocumentPlayingAudio_C, ICoreWebView2_9_add_IsDefaultDownloadDialogOpenChanged_C,
      ICoreWebView2_9_remove_IsDefaultDownloadDialogOpenChanged_C, ICoreWebView2_9_get_IsDefaultDownloadDialogOpen_C,
      ICoreWebView2_9_OpenDefaultDownloadDialog_C, ICoreWebView2_9_CloseDefaultDownloadDialog_C,
      ICoreWebView2_9_get_DefaultDownloadDialogCornerAlignment_C,
      ICoreWebView2_9_put_DefaultDownloadDialogCornerAlignment_C, ICoreWebView2_9_get_DefaultDownloadDialogMargin_C,
      ICoreWebView2_9_put_DefaultDownloadDialogMargin_C, ICoreWebView2_10_add_BasicAuthenticationRequested_C,
      ICoreWebView2_10_remove_BasicAuthenticationRequested_C,
      ICoreWebView2_11_CallDevToolsProtocolMethodForSession_C, ICoreWebView2_11_add_ContextMenuRequested_C,
      ICoreWebView2_11_remove_ContextMenuRequested_C, ICoreWebView2_12_add_StatusBarTextChanged_C,
      ICoreWebView2_12_remove_StatusBarTextChanged_C, ICoreWebView2_12_get_StatusBarText_C,
      ICoreWebView2_13_get_Profile_C]"

definition ICoreWebView2_16Vtbl_5 :: "cdecl list" where
  "ICoreWebView2_16Vtbl_5 =
     [ICoreWebView2_14_add_ServerCertificateErrorDetected_C,
      ICoreWebView2_14_remove_ServerCertificateErrorDetected_C,
      ICoreWebView2_14_ClearServerCertificateErrorActions_C, ICoreWebView2_15_add_FaviconChanged_C,
      ICoreWebView2_15_remove_FaviconChanged_C, ICoreWebView2_15_get_FaviconUri_C, ICoreWebView2_15_GetFavicon_C,
      ICoreWebView2_16_Print_C, ICoreWebView2_16_ShowPrintUI_C, ICoreWebView2_16_PrintToPdfStream_C]"

definition ICoreWebView2_16Vtbl :: vtable where
  "ICoreWebView2_16Vtbl = Vtable ''ICoreWebView2_16''
     (ICoreWebView2_16Vtbl_1 @ ICoreWebView2_16Vtbl_2 @ ICoreWebView2_16Vtbl_3 @ ICoreWebView2_16Vtbl_4 @ ICoreWebView2_16Vtbl_5)"

definition ICoreWebView2_17Vtbl_1 :: "cdecl list" where
  "ICoreWebView2_17Vtbl_1 =
     [IUnknown_QueryInterface_C, IUnknown_AddRef_C, IUnknown_Release_C, ICoreWebView2_get_Settings_C,
      ICoreWebView2_get_Source_C, ICoreWebView2_Navigate_C, ICoreWebView2_NavigateToString_C,
      ICoreWebView2_add_NavigationStarting_C, ICoreWebView2_remove_NavigationStarting_C,
      ICoreWebView2_add_ContentLoading_C, ICoreWebView2_remove_ContentLoading_C, ICoreWebView2_add_SourceChanged_C,
      ICoreWebView2_remove_SourceChanged_C, ICoreWebView2_add_HistoryChanged_C,
      ICoreWebView2_remove_HistoryChanged_C, ICoreWebView2_add_NavigationCompleted_C,
      ICoreWebView2_remove_NavigationCompleted_C, ICoreWebView2_add_FrameNavigationStarting_C,
      ICoreWebView2_remove_FrameNavigationStarting_C, ICoreWebView2_add_FrameNavigationCompleted_C,
      ICoreWebView2_remove_FrameNavigationCompleted_C, ICoreWebView2_add_ScriptDialogOpening_C,
      ICoreWebView2_remove_ScriptDialogOpening_C, ICoreWebView2_add_PermissionRequested_C,
      ICoreWebView2_remove_PermissionRequested_C, ICoreWebView2_add_ProcessFailed_C]"

definition ICoreWebView2_17Vtbl_2 :: "cdecl list" where
  "ICoreWebView2_17Vtbl_2 =
     [ICoreWebView2_remove_ProcessFailed_C, ICoreWebView2_AddScriptToExecuteOnDocumentCreated_C,
      ICoreWebView2_RemoveScriptToExecuteOnDocumentCreated_C, ICoreWebView2_ExecuteScript_C,
      ICoreWebView2_CapturePreview_C, ICoreWebView2_Reload_C, ICoreWebView2_PostWebMessageAsJson_C,
      ICoreWebView2_PostWebMessageAsString_C, ICoreWebView2_add_WebMessageReceived_C,
      ICoreWebView2_remove_WebMessageReceived_C, ICoreWebView2_CallDevToolsProtocolMethod_C,
      ICoreWebView2_get_BrowserProcessId_C, ICoreWebView2_get_CanGoBack_C, ICoreWebView2_get_CanGoForward_C,
      ICoreWebView2_GoBack_C, ICoreWebView2_GoForward_C, ICoreWebView2_GetDevToolsProtocolEventReceiver_C,
      ICoreWebView2_Stop_C, ICoreWebView2_add_NewWindowRequested_C, ICoreWebView2_remove_NewWindowRequested_C,
      ICoreWebView2_add_DocumentTitleChanged_C, ICoreWebView2_remove_DocumentTitleChanged_C,
      ICoreWebView2_get_DocumentTitle_C, ICoreWebView2_AddHostObjectToScript_C,
      ICoreWebView2_RemoveHostObjectFromScript_C, ICoreWebView2_OpenDevToolsWindow_C,
      ICoreWebView2_add_ContainsFullScreenElementChanged_C]"

definition ICoreWebView2_17Vtbl_3 :: "cdecl list" where
  "ICoreWebView2_17Vtbl_3 =
     [ICoreWebView2_remove_ContainsFullScreenElementChanged_C, ICoreWebView2_get_ContainsFullScreenElement_C,
      ICoreWebView2_add_WebResourceRequested_C, ICoreWebView2_remove_WebResourceRequested_C,
      ICoreWebView2_AddWebResourceRequestedFilter_C, ICoreWebView2_RemoveWebResourceRequestedFilter_C,
      ICoreWebView2_add_WindowCloseRequested_C, ICoreWebView2_remove_WindowCloseRequested_C,
      ICoreWebView2_2_add_WebResourceResponseReceived_C, ICoreWebView2_2_remove_WebResourceResponseReceived_C,
      ICoreWebView2_2_NavigateWithWebResourceRequest_C, ICoreWebView2_2_add_DOMContentLoaded_C,
      ICoreWebView2_2_remove_DOMContentLoaded_C, ICoreWebView2_2_get_CookieManager_C,
      ICoreWebView2_2_get_Environment_C, ICoreWebView2_3_TrySuspend_C, ICoreWebView2_3_Resume_C,
      ICoreWebView2_3_get_IsSuspended_C, ICoreWebView2_3_SetVirtualHostNameToFolderMapping_C,
      ICoreWebView2_3_ClearVirtualHostNameToFolderMapping_C, ICoreWebView2_4_add_FrameCreated_C,
      ICoreWebView2_4_remove_FrameCreated_C, ICoreWebView2_4_add_DownloadStarting_C,
      ICoreWebView2_4_remove_DownloadStarting_C, ICoreWebView2_5_add_ClientCertificateRequested_C,
      ICoreWebView2_5_remove_ClientCertificateRequested_C, ICoreWebView2_6_OpenTaskManagerWindow_C]"

definition ICoreWebView2_17Vtbl_4 :: "cdecl list" where
  "ICoreWebView2_17Vtbl_4 =
     [ICoreWebView2_7_PrintToPdf_C, ICoreWebView2_8_add_IsMutedChanged_C, ICoreWebView2_8_remove_IsMutedChanged_C,
      ICoreWebView2_8_get_IsMuted_C, ICoreWebView2_8_put_IsMuted_C,
      ICoreWebView2_8_add_IsDocumentPlayingAudioChanged_C, ICoreWebView2_8_remove_IsDocumentPlayingAudioChanged_C,
      ICoreWebView2_8_get_IsDocumentPlayingAudio_C, ICoreWebView2_9_add_IsDefaultDownloadDialogOpenChanged_C,
      ICoreWebView2_9_remove_IsDefaultDownloadDialogOpenChanged_C, ICoreWebView2_9_get_IsDefaultDownloadDialogOpen_C,
      ICoreWebView2_9_OpenDefaultDownloadDialog_C, ICoreWebView2_9_CloseDefaultDownloadDialog_C,
      ICoreWebView2_9_get_DefaultDownloadDialogCornerAlignment_C,
      ICoreWebView2_9_put_DefaultDownloadDialogCornerAlignment_C, ICoreWebView2_9_get_DefaultDownloadDialogMargin_C,
      ICoreWebView2_9_put_DefaultDownloadDialogMargin_C, ICoreWebView2_10_add_BasicAuthenticationRequested_C,
      ICoreWebView2_10_remove_BasicAuthenticationRequested_C,
      ICoreWebView2_11_CallDevToolsProtocolMethodForSession_C, ICoreWebView2_11_add_ContextMenuRequested_C,
      ICoreWebView2_11_remove_ContextMenuRequested_C, ICoreWebView2_12_add_StatusBarTextChanged_C,
      ICoreWebView2_12_remove_StatusBarTextChanged_C, ICoreWebView2_12_get_StatusBarText_C,
      ICoreWebView2_13_get_Profile_C]"

definition ICoreWebView2_17Vtbl_5 :: "cdecl list" where
  "ICoreWebView2_17Vtbl_5 =
     [ICoreWebView2_14_add_ServerCertificateErrorDetected_C,
      ICoreWebView2_14_remove_ServerCertificateErrorDetected_C,
      ICoreWebView2_14_ClearServerCertificateErrorActions_C, ICoreWebView2_15_add_FaviconChanged_C,
      ICoreWebView2_15_remove_FaviconChanged_C, ICoreWebView2_15_get_FaviconUri_C, ICoreWebView2_15_GetFavicon_C,
      ICoreWebView2_16_Print_C, ICoreWebView2_16_ShowPrintUI_C, ICoreWebView2_16_PrintToPdfStream_C,
      ICoreWebView2_17_PostSharedBufferToScript_C]"

definition ICoreWebView2_17Vtbl :: vtable where
  "ICoreWebView2_17Vtbl = Vtable ''ICoreWebView2_17''
     (ICoreWebView2_17Vtbl_1 @ ICoreWebView2_17Vtbl_2 @ ICoreWebView2_17Vtbl_3 @ ICoreWebView2_17Vtbl_4 @ ICoreWebView2_17Vtbl_5)"

definition ICoreWebView2_18Vtbl_1 :: "cdecl list" where
  "ICoreWebView2_18Vtbl_1 =
     [IUnknown_QueryInterface_C, IUnknown_AddRef_C, IUnknown_Release_C, ICoreWebView2_get_Settings_C,
      ICoreWebView2_get_Source_C, ICoreWebView2_Navigate_C, ICoreWebView2_NavigateToString_C,
      ICoreWebView2_add_NavigationStarting_C, ICoreWebView2_remove_NavigationStarting_C,
      ICoreWebView2_add_ContentLoading_C, ICoreWebView2_remove_ContentLoading_C, ICoreWebView2_add_SourceChanged_C,
      ICoreWebView2_remove_SourceChanged_C, ICoreWebView2_add_HistoryChanged_C,
      ICoreWebView2_remove_HistoryChanged_C, ICoreWebView2_add_NavigationCompleted_C,
      ICoreWebView2_remove_NavigationCompleted_C, ICoreWebView2_add_FrameNavigationStarting_C,
      ICoreWebView2_remove_FrameNavigationStarting_C, ICoreWebView2_add_FrameNavigationCompleted_C,
      ICoreWebView2_remove_FrameNavigationCompleted_C, ICoreWebView2_add_ScriptDialogOpening_C,
      ICoreWebView2_remove_ScriptDialogOpening_C, ICoreWebView2_add_PermissionRequested_C,
      ICoreWebView2_remove_PermissionRequested_C, ICoreWebView2_add_ProcessFailed_C]"

definition ICoreWebView2_18Vtbl_2 :: "cdecl list" where
  "ICoreWebView2_18Vtbl_2 =
     [ICoreWebView2_remove_ProcessFailed_C, ICoreWebView2_AddScriptToExecuteOnDocumentCreated_C,
      ICoreWebView2_RemoveScriptToExecuteOnDocumentCreated_C, ICoreWebView2_ExecuteScript_C,
      ICoreWebView2_CapturePreview_C, ICoreWebView2_Reload_C, ICoreWebView2_PostWebMessageAsJson_C,
      ICoreWebView2_PostWebMessageAsString_C, ICoreWebView2_add_WebMessageReceived_C,
      ICoreWebView2_remove_WebMessageReceived_C, ICoreWebView2_CallDevToolsProtocolMethod_C,
      ICoreWebView2_get_BrowserProcessId_C, ICoreWebView2_get_CanGoBack_C, ICoreWebView2_get_CanGoForward_C,
      ICoreWebView2_GoBack_C, ICoreWebView2_GoForward_C, ICoreWebView2_GetDevToolsProtocolEventReceiver_C,
      ICoreWebView2_Stop_C, ICoreWebView2_add_NewWindowRequested_C, ICoreWebView2_remove_NewWindowRequested_C,
      ICoreWebView2_add_DocumentTitleChanged_C, ICoreWebView2_remove_DocumentTitleChanged_C,
      ICoreWebView2_get_DocumentTitle_C, ICoreWebView2_AddHostObjectToScript_C,
      ICoreWebView2_RemoveHostObjectFromScript_C, ICoreWebView2_OpenDevToolsWindow_C,
      ICoreWebView2_add_ContainsFullScreenElementChanged_C]"

definition ICoreWebView2_18Vtbl_3 :: "cdecl list" where
  "ICoreWebView2_18Vtbl_3 =
     [ICoreWebView2_remove_ContainsFullScreenElementChanged_C, ICoreWebView2_get_ContainsFullScreenElement_C,
      ICoreWebView2_add_WebResourceRequested_C, ICoreWebView2_remove_WebResourceRequested_C,
      ICoreWebView2_AddWebResourceRequestedFilter_C, ICoreWebView2_RemoveWebResourceRequestedFilter_C,
      ICoreWebView2_add_WindowCloseRequested_C, ICoreWebView2_remove_WindowCloseRequested_C,
      ICoreWebView2_2_add_WebResourceResponseReceived_C, ICoreWebView2_2_remove_WebResourceResponseReceived_C,
      ICoreWebView2_2_NavigateWithWebResourceRequest_C, ICoreWebView2_2_add_DOMContentLoaded_C,
      ICoreWebView2_2_remove_DOMContentLoaded_C, ICoreWebView2_2_get_CookieManager_C,
      ICoreWebView2_2_get_Environment_C, ICoreWebView2_3_TrySuspend_C, ICoreWebView2_3_Resume_C,
      ICoreWebView2_3_get_IsSuspended_C, ICoreWebView2_3_SetVirtualHostNameToFolderMapping_C,
      ICoreWebView2_3_ClearVirtualHostNameToFolderMapping_C, ICoreWebView2_4_add_FrameCreated_C,
      ICoreWebView2_4_remove_FrameCreated_C, ICoreWebView2_4_add_DownloadStarting_C,
      ICoreWebView2_4_remove_DownloadStarting_C, ICoreWebView2_5_add_ClientCertificateRequested_C,
      ICoreWebView2_5_remove_ClientCertificateRequested_C, ICoreWebView2_6_OpenTaskManagerWindow_C]"

definition ICoreWebView2_18Vtbl_4 :: "cdecl list" where
  "ICoreWebView2_18Vtbl_4 =
     [ICoreWebView2_7_PrintToPdf_C, ICoreWebView2_8_add_IsMutedChanged_C, ICoreWebView2_8_remove_IsMutedChanged_C,
      ICoreWebView2_8_get_IsMuted_C, ICoreWebView2_8_put_IsMuted_C,
      ICoreWebView2_8_add_IsDocumentPlayingAudioChanged_C, ICoreWebView2_8_remove_IsDocumentPlayingAudioChanged_C,
      ICoreWebView2_8_get_IsDocumentPlayingAudio_C, ICoreWebView2_9_add_IsDefaultDownloadDialogOpenChanged_C,
      ICoreWebView2_9_remove_IsDefaultDownloadDialogOpenChanged_C, ICoreWebView2_9_get_IsDefaultDownloadDialogOpen_C,
      ICoreWebView2_9_OpenDefaultDownloadDialog_C, ICoreWebView2_9_CloseDefaultDownloadDialog_C,
      ICoreWebView2_9_get_DefaultDownloadDialogCornerAlignment_C,
      ICoreWebView2_9_put_DefaultDownloadDialogCornerAlignment_C, ICoreWebView2_9_get_DefaultDownloadDialogMargin_C,
      ICoreWebView2_9_put_DefaultDownloadDialogMargin_C, ICoreWebView2_10_add_BasicAuthenticationRequested_C,
      ICoreWebView2_10_remove_BasicAuthenticationRequested_C,
      ICoreWebView2_11_CallDevToolsProtocolMethodForSession_C, ICoreWebView2_11_add_ContextMenuRequested_C,
      ICoreWebView2_11_remove_ContextMenuRequested_C, ICoreWebView2_12_add_StatusBarTextChanged_C,
      ICoreWebView2_12_remove_StatusBarTextChanged_C, ICoreWebView2_12_get_StatusBarText_C,
      ICoreWebView2_13_get_Profile_C]"

definition ICoreWebView2_18Vtbl_5 :: "cdecl list" where
  "ICoreWebView2_18Vtbl_5 =
     [ICoreWebView2_14_add_ServerCertificateErrorDetected_C,
      ICoreWebView2_14_remove_ServerCertificateErrorDetected_C,
      ICoreWebView2_14_ClearServerCertificateErrorActions_C, ICoreWebView2_15_add_FaviconChanged_C,
      ICoreWebView2_15_remove_FaviconChanged_C, ICoreWebView2_15_get_FaviconUri_C, ICoreWebView2_15_GetFavicon_C,
      ICoreWebView2_16_Print_C, ICoreWebView2_16_ShowPrintUI_C, ICoreWebView2_16_PrintToPdfStream_C,
      ICoreWebView2_17_PostSharedBufferToScript_C, ICoreWebView2_18_add_LaunchingExternalUriScheme_C,
      ICoreWebView2_18_remove_LaunchingExternalUriScheme_C]"

definition ICoreWebView2_18Vtbl :: vtable where
  "ICoreWebView2_18Vtbl = Vtable ''ICoreWebView2_18''
     (ICoreWebView2_18Vtbl_1 @ ICoreWebView2_18Vtbl_2 @ ICoreWebView2_18Vtbl_3 @ ICoreWebView2_18Vtbl_4 @ ICoreWebView2_18Vtbl_5)"

definition ICoreWebView2_19Vtbl_1 :: "cdecl list" where
  "ICoreWebView2_19Vtbl_1 =
     [IUnknown_QueryInterface_C, IUnknown_AddRef_C, IUnknown_Release_C, ICoreWebView2_get_Settings_C,
      ICoreWebView2_get_Source_C, ICoreWebView2_Navigate_C, ICoreWebView2_NavigateToString_C,
      ICoreWebView2_add_NavigationStarting_C, ICoreWebView2_remove_NavigationStarting_C,
      ICoreWebView2_add_ContentLoading_C, ICoreWebView2_remove_ContentLoading_C, ICoreWebView2_add_SourceChanged_C,
      ICoreWebView2_remove_SourceChanged_C, ICoreWebView2_add_HistoryChanged_C,
      ICoreWebView2_remove_HistoryChanged_C, ICoreWebView2_add_NavigationCompleted_C,
      ICoreWebView2_remove_NavigationCompleted_C, ICoreWebView2_add_FrameNavigationStarting_C,
      ICoreWebView2_remove_FrameNavigationStarting_C, ICoreWebView2_add_FrameNavigationCompleted_C,
      ICoreWebView2_remove_FrameNavigationCompleted_C, ICoreWebView2_add_ScriptDialogOpening_C,
      ICoreWebView2_remove_ScriptDialogOpening_C, ICoreWebView2_add_PermissionRequested_C,
      ICoreWebView2_remove_PermissionRequested_C, ICoreWebView2_add_ProcessFailed_C]"

definition ICoreWebView2_19Vtbl_2 :: "cdecl list" where
  "ICoreWebView2_19Vtbl_2 =
     [ICoreWebView2_remove_ProcessFailed_C, ICoreWebView2_AddScriptToExecuteOnDocumentCreated_C,
      ICoreWebView2_RemoveScriptToExecuteOnDocumentCreated_C, ICoreWebView2_ExecuteScript_C,
      ICoreWebView2_CapturePreview_C, ICoreWebView2_Reload_C, ICoreWebView2_PostWebMessageAsJson_C,
      ICoreWebView2_PostWebMessageAsString_C, ICoreWebView2_add_WebMessageReceived_C,
      ICoreWebView2_remove_WebMessageReceived_C, ICoreWebView2_CallDevToolsProtocolMethod_C,
      ICoreWebView2_get_BrowserProcessId_C, ICoreWebView2_get_CanGoBack_C, ICoreWebView2_get_CanGoForward_C,
      ICoreWebView2_GoBack_C, ICoreWebView2_GoForward_C, ICoreWebView2_GetDevToolsProtocolEventReceiver_C,
      ICoreWebView2_Stop_C, ICoreWebView2_add_NewWindowRequested_C, ICoreWebView2_remove_NewWindowRequested_C,
      ICoreWebView2_add_DocumentTitleChanged_C, ICoreWebView2_remove_DocumentTitleChanged_C,
      ICoreWebView2_get_DocumentTitle_C, ICoreWebView2_AddHostObjectToScript_C,
      ICoreWebView2_RemoveHostObjectFromScript_C, ICoreWebView2_OpenDevToolsWindow_C,
      ICoreWebView2_add_ContainsFullScreenElementChanged_C]"

definition ICoreWebView2_19Vtbl_3 :: "cdecl list" where
  "ICoreWebView2_19Vtbl_3 =
     [ICoreWebView2_remove_ContainsFullScreenElementChanged_C, ICoreWebView2_get_ContainsFullScreenElement_C,
      ICoreWebView2_add_WebResourceRequested_C, ICoreWebView2_remove_WebResourceRequested_C,
      ICoreWebView2_AddWebResourceRequestedFilter_C, ICoreWebView2_RemoveWebResourceRequestedFilter_C,
      ICoreWebView2_add_WindowCloseRequested_C, ICoreWebView2_remove_WindowCloseRequested_C,
      ICoreWebView2_2_add_WebResourceResponseReceived_C, ICoreWebView2_2_remove_WebResourceResponseReceived_C,
      ICoreWebView2_2_NavigateWithWebResourceRequest_C, ICoreWebView2_2_add_DOMContentLoaded_C,
      ICoreWebView2_2_remove_DOMContentLoaded_C, ICoreWebView2_2_get_CookieManager_C,
      ICoreWebView2_2_get_Environment_C, ICoreWebView2_3_TrySuspend_C, ICoreWebView2_3_Resume_C,
      ICoreWebView2_3_get_IsSuspended_C, ICoreWebView2_3_SetVirtualHostNameToFolderMapping_C,
      ICoreWebView2_3_ClearVirtualHostNameToFolderMapping_C, ICoreWebView2_4_add_FrameCreated_C,
      ICoreWebView2_4_remove_FrameCreated_C, ICoreWebView2_4_add_DownloadStarting_C,
      ICoreWebView2_4_remove_DownloadStarting_C, ICoreWebView2_5_add_ClientCertificateRequested_C,
      ICoreWebView2_5_remove_ClientCertificateRequested_C, ICoreWebView2_6_OpenTaskManagerWindow_C]"

definition ICoreWebView2_19Vtbl_4 :: "cdecl list" where
  "ICoreWebView2_19Vtbl_4 =
     [ICoreWebView2_7_PrintToPdf_C, ICoreWebView2_8_add_IsMutedChanged_C, ICoreWebView2_8_remove_IsMutedChanged_C,
      ICoreWebView2_8_get_IsMuted_C, ICoreWebView2_8_put_IsMuted_C,
      ICoreWebView2_8_add_IsDocumentPlayingAudioChanged_C, ICoreWebView2_8_remove_IsDocumentPlayingAudioChanged_C,
      ICoreWebView2_8_get_IsDocumentPlayingAudio_C, ICoreWebView2_9_add_IsDefaultDownloadDialogOpenChanged_C,
      ICoreWebView2_9_remove_IsDefaultDownloadDialogOpenChanged_C, ICoreWebView2_9_get_IsDefaultDownloadDialogOpen_C,
      ICoreWebView2_9_OpenDefaultDownloadDialog_C, ICoreWebView2_9_CloseDefaultDownloadDialog_C,
      ICoreWebView2_9_get_DefaultDownloadDialogCornerAlignment_C,
      ICoreWebView2_9_put_DefaultDownloadDialogCornerAlignment_C, ICoreWebView2_9_get_DefaultDownloadDialogMargin_C,
      ICoreWebView2_9_put_DefaultDownloadDialogMargin_C, ICoreWebView2_10_add_BasicAuthenticationRequested_C,
      ICoreWebView2_10_remove_BasicAuthenticationRequested_C,
      ICoreWebView2_11_CallDevToolsProtocolMethodForSession_C, ICoreWebView2_11_add_ContextMenuRequested_C,
      ICoreWebView2_11_remove_ContextMenuRequested_C, ICoreWebView2_12_add_StatusBarTextChanged_C,
      ICoreWebView2_12_remove_StatusBarTextChanged_C, ICoreWebView2_12_get_StatusBarText_C,
      ICoreWebView2_13_get_Profile_C]"

definition ICoreWebView2_19Vtbl_5 :: "cdecl list" where
  "ICoreWebView2_19Vtbl_5 =
     [ICoreWebView2_14_add_ServerCertificateErrorDetected_C,
      ICoreWebView2_14_remove_ServerCertificateErrorDetected_C,
      ICoreWebView2_14_ClearServerCertificateErrorActions_C, ICoreWebView2_15_add_FaviconChanged_C,
      ICoreWebView2_15_remove_FaviconChanged_C, ICoreWebView2_15_get_FaviconUri_C, ICoreWebView2_15_GetFavicon_C,
      ICoreWebView2_16_Print_C, ICoreWebView2_16_ShowPrintUI_C, ICoreWebView2_16_PrintToPdfStream_C,
      ICoreWebView2_17_PostSharedBufferToScript_C, ICoreWebView2_18_add_LaunchingExternalUriScheme_C,
      ICoreWebView2_18_remove_LaunchingExternalUriScheme_C, ICoreWebView2_19_get_MemoryUsageTargetLevel_C,
      ICoreWebView2_19_put_MemoryUsageTargetLevel_C]"

definition ICoreWebView2_19Vtbl :: vtable where
  "ICoreWebView2_19Vtbl = Vtable ''ICoreWebView2_19''
     (ICoreWebView2_19Vtbl_1 @ ICoreWebView2_19Vtbl_2 @ ICoreWebView2_19Vtbl_3 @ ICoreWebView2_19Vtbl_4 @ ICoreWebView2_19Vtbl_5)"

definition ICoreWebView2_20Vtbl_1 :: "cdecl list" where
  "ICoreWebView2_20Vtbl_1 =
     [IUnknown_QueryInterface_C, IUnknown_AddRef_C, IUnknown_Release_C, ICoreWebView2_get_Settings_C,
      ICoreWebView2_get_Source_C, ICoreWebView2_Navigate_C, ICoreWebView2_NavigateToString_C,
      ICoreWebView2_add_NavigationStarting_C, ICoreWebView2_remove_NavigationStarting_C,
      ICoreWebView2_add_ContentLoading_C, ICoreWebView2_remove_ContentLoading_C, ICoreWebView2_add_SourceChanged_C,
      ICoreWebView2_remove_SourceChanged_C, ICoreWebView2_add_HistoryChanged_C,
      ICoreWebView2_remove_HistoryChanged_C, ICoreWebView2_add_NavigationCompleted_C,
      ICoreWebView2_remove_NavigationCompleted_C, ICoreWebView2_add_FrameNavigationStarting_C,
      ICoreWebView2_remove_FrameNavigationStarting_C, ICoreWebView2_add_FrameNavigationCompleted_C,
      ICoreWebView2_remove_FrameNavigationCompleted_C, ICoreWebView2_add_ScriptDialogOpening_C,
      ICoreWebView2_remove_ScriptDialogOpening_C, ICoreWebView2_add_PermissionRequested_C,
      ICoreWebView2_remove_PermissionRequested_C, ICoreWebView2_add_ProcessFailed_C]"

definition ICoreWebView2_20Vtbl_2 :: "cdecl list" where
  "ICoreWebView2_20Vtbl_2 =
     [ICoreWebView2_remove_ProcessFailed_C, ICoreWebView2_AddScriptToExecuteOnDocumentCreated_C,
      ICoreWebView2_RemoveScriptToExecuteOnDocumentCreated_C, ICoreWebView2_ExecuteScript_C,
      ICoreWebView2_CapturePreview_C, ICoreWebView2_Reload_C, ICoreWebView2_PostWebMessageAsJson_C,
      ICoreWebView2_PostWebMessageAsString_C, ICoreWebView2_add_WebMessageReceived_C,
      ICoreWebView2_remove_WebMessageReceived_C, ICoreWebView2_CallDevToolsProtocolMethod_C,
      ICoreWebView2_get_BrowserProcessId_C, ICoreWebView2_get_CanGoBack_C, ICoreWebView2_get_CanGoForward_C,
      ICoreWebView2_GoBack_C, ICoreWebView2_GoForward_C, ICoreWebView2_GetDevToolsProtocolEventReceiver_C,
      ICoreWebView2_Stop_C, ICoreWebView2_add_NewWindowRequested_C, ICoreWebView2_remove_NewWindowRequested_C,
      ICoreWebView2_add_DocumentTitleChanged_C, ICoreWebView2_remove_DocumentTitleChanged_C,
      ICoreWebView2_get_DocumentTitle_C, ICoreWebView2_AddHostObjectToScript_C,
      ICoreWebView2_RemoveHostObjectFromScript_C, ICoreWebView2_OpenDevToolsWindow_C,
      ICoreWebView2_add_ContainsFullScreenElementChanged_C]"

definition ICoreWebView2_20Vtbl_3 :: "cdecl list" where
  "ICoreWebView2_20Vtbl_3 =
     [ICoreWebView2_remove_ContainsFullScreenElementChanged_C, ICoreWebView2_get_ContainsFullScreenElement_C,
      ICoreWebView2_add_WebResourceRequested_C, ICoreWebView2_remove_WebResourceRequested_C,
      ICoreWebView2_AddWebResourceRequestedFilter_C, ICoreWebView2_RemoveWebResourceRequestedFilter_C,
      ICoreWebView2_add_WindowCloseRequested_C, ICoreWebView2_remove_WindowCloseRequested_C,
      ICoreWebView2_2_add_WebResourceResponseReceived_C, ICoreWebView2_2_remove_WebResourceResponseReceived_C,
      ICoreWebView2_2_NavigateWithWebResourceRequest_C, ICoreWebView2_2_add_DOMContentLoaded_C,
      ICoreWebView2_2_remove_DOMContentLoaded_C, ICoreWebView2_2_get_CookieManager_C,
      ICoreWebView2_2_get_Environment_C, ICoreWebView2_3_TrySuspend_C, ICoreWebView2_3_Resume_C,
      ICoreWebView2_3_get_IsSuspended_C, ICoreWebView2_3_SetVirtualHostNameToFolderMapping_C,
      ICoreWebView2_3_ClearVirtualHostNameToFolderMapping_C, ICoreWebView2_4_add_FrameCreated_C,
      ICoreWebView2_4_remove_FrameCreated_C, ICoreWebView2_4_add_DownloadStarting_C,
      ICoreWebView2_4_remove_DownloadStarting_C, ICoreWebView2_5_add_ClientCertificateRequested_C,
      ICoreWebView2_5_remove_ClientCertificateRequested_C, ICoreWebView2_6_OpenTaskManagerWindow_C]"

definition ICoreWebView2_20Vtbl_4 :: "cdecl list" where
  "ICoreWebView2_20Vtbl_4 =
     [ICoreWebView2_7_PrintToPdf_C, ICoreWebView2_8_add_IsMutedChanged_C, ICoreWebView2_8_remove_IsMutedChanged_C,
      ICoreWebView2_8_get_IsMuted_C, ICoreWebView2_8_put_IsMuted_C,
      ICoreWebView2_8_add_IsDocumentPlayingAudioChanged_C, ICoreWebView2_8_remove_IsDocumentPlayingAudioChanged_C,
      ICoreWebView2_8_get_IsDocumentPlayingAudio_C, ICoreWebView2_9_add_IsDefaultDownloadDialogOpenChanged_C,
      ICoreWebView2_9_remove_IsDefaultDownloadDialogOpenChanged_C, ICoreWebView2_9_get_IsDefaultDownloadDialogOpen_C,
      ICoreWebView2_9_OpenDefaultDownloadDialog_C, ICoreWebView2_9_CloseDefaultDownloadDialog_C,
      ICoreWebView2_9_get_DefaultDownloadDialogCornerAlignment_C,
      ICoreWebView2_9_put_DefaultDownloadDialogCornerAlignment_C, ICoreWebView2_9_get_DefaultDownloadDialogMargin_C,
      ICoreWebView2_9_put_DefaultDownloadDialogMargin_C, ICoreWebView2_10_add_BasicAuthenticationRequested_C,
      ICoreWebView2_10_remove_BasicAuthenticationRequested_C,
      ICoreWebView2_11_CallDevToolsProtocolMethodForSession_C, ICoreWebView2_11_add_ContextMenuRequested_C,
      ICoreWebView2_11_remove_ContextMenuRequested_C, ICoreWebView2_12_add_StatusBarTextChanged_C,
      ICoreWebView2_12_remove_StatusBarTextChanged_C, ICoreWebView2_12_get_StatusBarText_C,
      ICoreWebView2_13_get_Profile_C]"

definition ICoreWebView2_20Vtbl_5 :: "cdecl list" where
  "ICoreWebView2_20Vtbl_5 =
     [ICoreWebView2_14_add_ServerCertificateErrorDetected_C,
      ICoreWebView2_14_remove_ServerCertificateErrorDetected_C,
      ICoreWebView2_14_ClearServerCertificateErrorActions_C, ICoreWebView2_15_add_FaviconChanged_C,
      ICoreWebView2_15_remove_FaviconChanged_C, ICoreWebView2_15_get_FaviconUri_C, ICoreWebView2_15_GetFavicon_C,
      ICoreWebView2_16_Print_C, ICoreWebView2_16_ShowPrintUI_C, ICoreWebView2_16_PrintToPdfStream_C,
      ICoreWebView2_17_PostSharedBufferToScript_C, ICoreWebView2_18_add_LaunchingExternalUriScheme_C,
      ICoreWebView2_18_remove_LaunchingExternalUriScheme_C, ICoreWebView2_19_get_MemoryUsageTargetLevel_C,
      ICoreWebView2_19_put_MemoryUsageTargetLevel_C, ICoreWebView2_20_get_FrameId_C]"

definition ICoreWebView2_20Vtbl :: vtable where
  "ICoreWebView2_20Vtbl = Vtable ''ICoreWebView2_20''
     (ICoreWebView2_20Vtbl_1 @ ICoreWebView2_20Vtbl_2 @ ICoreWebView2_20Vtbl_3 @ ICoreWebView2_20Vtbl_4 @ ICoreWebView2_20Vtbl_5)"

definition ICoreWebView2_21Vtbl_1 :: "cdecl list" where
  "ICoreWebView2_21Vtbl_1 =
     [IUnknown_QueryInterface_C, IUnknown_AddRef_C, IUnknown_Release_C, ICoreWebView2_get_Settings_C,
      ICoreWebView2_get_Source_C, ICoreWebView2_Navigate_C, ICoreWebView2_NavigateToString_C,
      ICoreWebView2_add_NavigationStarting_C, ICoreWebView2_remove_NavigationStarting_C,
      ICoreWebView2_add_ContentLoading_C, ICoreWebView2_remove_ContentLoading_C, ICoreWebView2_add_SourceChanged_C,
      ICoreWebView2_remove_SourceChanged_C, ICoreWebView2_add_HistoryChanged_C,
      ICoreWebView2_remove_HistoryChanged_C, ICoreWebView2_add_NavigationCompleted_C,
      ICoreWebView2_remove_NavigationCompleted_C, ICoreWebView2_add_FrameNavigationStarting_C,
      ICoreWebView2_remove_FrameNavigationStarting_C, ICoreWebView2_add_FrameNavigationCompleted_C,
      ICoreWebView2_remove_FrameNavigationCompleted_C, ICoreWebView2_add_ScriptDialogOpening_C,
      ICoreWebView2_remove_ScriptDialogOpening_C, ICoreWebView2_add_PermissionRequested_C,
      ICoreWebView2_remove_PermissionRequested_C, ICoreWebView2_add_ProcessFailed_C]"

definition ICoreWebView2_21Vtbl_2 :: "cdecl list" where
  "ICoreWebView2_21Vtbl_2 =
     [ICoreWebView2_remove_ProcessFailed_C, ICoreWebView2_AddScriptToExecuteOnDocumentCreated_C,
      ICoreWebView2_RemoveScriptToExecuteOnDocumentCreated_C, ICoreWebView2_ExecuteScript_C,
      ICoreWebView2_CapturePreview_C, ICoreWebView2_Reload_C, ICoreWebView2_PostWebMessageAsJson_C,
      ICoreWebView2_PostWebMessageAsString_C, ICoreWebView2_add_WebMessageReceived_C,
      ICoreWebView2_remove_WebMessageReceived_C, ICoreWebView2_CallDevToolsProtocolMethod_C,
      ICoreWebView2_get_BrowserProcessId_C, ICoreWebView2_get_CanGoBack_C, ICoreWebView2_get_CanGoForward_C,
      ICoreWebView2_GoBack_C, ICoreWebView2_GoForward_C, ICoreWebView2_GetDevToolsProtocolEventReceiver_C,
      ICoreWebView2_Stop_C, ICoreWebView2_add_NewWindowRequested_C, ICoreWebView2_remove_NewWindowRequested_C,
      ICoreWebView2_add_DocumentTitleChanged_C, ICoreWebView2_remove_DocumentTitleChanged_C,
      ICoreWebView2_get_DocumentTitle_C, ICoreWebView2_AddHostObjectToScript_C,
      ICoreWebView2_RemoveHostObjectFromScript_C, ICoreWebView2_OpenDevToolsWindow_C,
      ICoreWebView2_add_ContainsFullScreenElementChanged_C]"

definition ICoreWebView2_21Vtbl_3 :: "cdecl list" where
  "ICoreWebView2_21Vtbl_3 =
     [ICoreWebView2_remove_ContainsFullScreenElementChanged_C, ICoreWebView2_get_ContainsFullScreenElement_C,
      ICoreWebView2_add_WebResourceRequested_C, ICoreWebView2_remove_WebResourceRequested_C,
      ICoreWebView2_AddWebResourceRequestedFilter_C, ICoreWebView2_RemoveWebResourceRequestedFilter_C,
      ICoreWebView2_add_WindowCloseRequested_C, ICoreWebView2_remove_WindowCloseRequested_C,
      ICoreWebView2_2_add_WebResourceResponseReceived_C, ICoreWebView2_2_remove_WebResourceResponseReceived_C,
      ICoreWebView2_2_NavigateWithWebResourceRequest_C, ICoreWebView2_2_add_DOMContentLoaded_C,
      ICoreWebView2_2_remove_DOMContentLoaded_C, ICoreWebView2_2_get_CookieManager_C,
      ICoreWebView2_2_get_Environment_C, ICoreWebView2_3_TrySuspend_C, ICoreWebView2_3_Resume_C,
      ICoreWebView2_3_get_IsSuspended_C, ICoreWebView2_3_SetVirtualHostNameToFolderMapping_C,
      ICoreWebView2_3_ClearVirtualHostNameToFolderMapping_C, ICoreWebView2_4_add_FrameCreated_C,
      ICoreWebView2_4_remove_FrameCreated_C, ICoreWebView2_4_add_DownloadStarting_C,
      ICoreWebView2_4_remove_DownloadStarting_C, ICoreWebView2_5_add_ClientCertificateRequested_C,
      ICoreWebView2_5_remove_ClientCertificateRequested_C, ICoreWebView2_6_OpenTaskManagerWindow_C]"

definition ICoreWebView2_21Vtbl_4 :: "cdecl list" where
  "ICoreWebView2_21Vtbl_4 =
     [ICoreWebView2_7_PrintToPdf_C, ICoreWebView2_8_add_IsMutedChanged_C, ICoreWebView2_8_remove_IsMutedChanged_C,
      ICoreWebView2_8_get_IsMuted_C, ICoreWebView2_8_put_IsMuted_C,
      ICoreWebView2_8_add_IsDocumentPlayingAudioChanged_C, ICoreWebView2_8_remove_IsDocumentPlayingAudioChanged_C,
      ICoreWebView2_8_get_IsDocumentPlayingAudio_C, ICoreWebView2_9_add_IsDefaultDownloadDialogOpenChanged_C,
      ICoreWebView2_9_remove_IsDefaultDownloadDialogOpenChanged_C, ICoreWebView2_9_get_IsDefaultDownloadDialogOpen_C,
      ICoreWebView2_9_OpenDefaultDownloadDialog_C, ICoreWebView2_9_CloseDefaultDownloadDialog_C,
      ICoreWebView2_9_get_DefaultDownloadDialogCornerAlignment_C,
      ICoreWebView2_9_put_DefaultDownloadDialogCornerAlignment_C, ICoreWebView2_9_get_DefaultDownloadDialogMargin_C,
      ICoreWebView2_9_put_DefaultDownloadDialogMargin_C, ICoreWebView2_10_add_BasicAuthenticationRequested_C,
      ICoreWebView2_10_remove_BasicAuthenticationRequested_C,
      ICoreWebView2_11_CallDevToolsProtocolMethodForSession_C, ICoreWebView2_11_add_ContextMenuRequested_C,
      ICoreWebView2_11_remove_ContextMenuRequested_C, ICoreWebView2_12_add_StatusBarTextChanged_C,
      ICoreWebView2_12_remove_StatusBarTextChanged_C, ICoreWebView2_12_get_StatusBarText_C,
      ICoreWebView2_13_get_Profile_C]"

definition ICoreWebView2_21Vtbl_5 :: "cdecl list" where
  "ICoreWebView2_21Vtbl_5 =
     [ICoreWebView2_14_add_ServerCertificateErrorDetected_C,
      ICoreWebView2_14_remove_ServerCertificateErrorDetected_C,
      ICoreWebView2_14_ClearServerCertificateErrorActions_C, ICoreWebView2_15_add_FaviconChanged_C,
      ICoreWebView2_15_remove_FaviconChanged_C, ICoreWebView2_15_get_FaviconUri_C, ICoreWebView2_15_GetFavicon_C,
      ICoreWebView2_16_Print_C, ICoreWebView2_16_ShowPrintUI_C, ICoreWebView2_16_PrintToPdfStream_C,
      ICoreWebView2_17_PostSharedBufferToScript_C, ICoreWebView2_18_add_LaunchingExternalUriScheme_C,
      ICoreWebView2_18_remove_LaunchingExternalUriScheme_C, ICoreWebView2_19_get_MemoryUsageTargetLevel_C,
      ICoreWebView2_19_put_MemoryUsageTargetLevel_C, ICoreWebView2_20_get_FrameId_C,
      ICoreWebView2_21_ExecuteScriptWithResult_C]"

definition ICoreWebView2_21Vtbl :: vtable where
  "ICoreWebView2_21Vtbl = Vtable ''ICoreWebView2_21''
     (ICoreWebView2_21Vtbl_1 @ ICoreWebView2_21Vtbl_2 @ ICoreWebView2_21Vtbl_3 @ ICoreWebView2_21Vtbl_4 @ ICoreWebView2_21Vtbl_5)"

definition ICoreWebView2_22Vtbl_1 :: "cdecl list" where
  "ICoreWebView2_22Vtbl_1 =
     [IUnknown_QueryInterface_C, IUnknown_AddRef_C, IUnknown_Release_C, ICoreWebView2_get_Settings_C,
      ICoreWebView2_get_Source_C, ICoreWebView2_Navigate_C, ICoreWebView2_NavigateToString_C,
      ICoreWebView2_add_NavigationStarting_C, ICoreWebView2_remove_NavigationStarting_C,
      ICoreWebView2_add_ContentLoading_C, ICoreWebView2_remove_ContentLoading_C, ICoreWebView2_add_SourceChanged_C,
      ICoreWebView2_remove_SourceChanged_C, ICoreWebView2_add_HistoryChanged_C,
      ICoreWebView2_remove_HistoryChanged_C, ICoreWebView2_add_NavigationCompleted_C,
      ICoreWebView2_remove_NavigationCompleted_C, ICoreWebView2_add_FrameNavigationStarting_C,
      ICoreWebView2_remove_FrameNavigationStarting_C, ICoreWebView2_add_FrameNavigationCompleted_C,
      ICoreWebView2_remove_FrameNavigationCompleted_C, ICoreWebView2_add_ScriptDialogOpening_C,
      ICoreWebView2_remove_ScriptDialogOpening_C, ICoreWebView2_add_PermissionRequested_C,
      ICoreWebView2_remove_PermissionRequested_C, ICoreWebView2_add_ProcessFailed_C]"

definition ICoreWebView2_22Vtbl_2 :: "cdecl list" where
  "ICoreWebView2_22Vtbl_2 =
     [ICoreWebView2_remove_ProcessFailed_C, ICoreWebView2_AddScriptToExecuteOnDocumentCreated_C,
      ICoreWebView2_RemoveScriptToExecuteOnDocumentCreated_C, ICoreWebView2_ExecuteScript_C,
      ICoreWebView2_CapturePreview_C, ICoreWebView2_Reload_C, ICoreWebView2_PostWebMessageAsJson_C,
      ICoreWebView2_PostWebMessageAsString_C, ICoreWebView2_add_WebMessageReceived_C,
      ICoreWebView2_remove_WebMessageReceived_C, ICoreWebView2_CallDevToolsProtocolMethod_C,
      ICoreWebView2_get_BrowserProcessId_C, ICoreWebView2_get_CanGoBack_C, ICoreWebView2_get_CanGoForward_C,
      ICoreWebView2_GoBack_C, ICoreWebView2_GoForward_C, ICoreWebView2_GetDevToolsProtocolEventReceiver_C,
      ICoreWebView2_Stop_C, ICoreWebView2_add_NewWindowRequested_C, ICoreWebView2_remove_NewWindowRequested_C,
      ICoreWebView2_add_DocumentTitleChanged_C, ICoreWebView2_remove_DocumentTitleChanged_C,
      ICoreWebView2_get_DocumentTitle_C, ICoreWebView2_AddHostObjectToScript_C,
      ICoreWebView2_RemoveHostObjectFromScript_C, ICoreWebView2_OpenDevToolsWindow_C,
      ICoreWebView2_add_ContainsFullScreenElementChanged_C]"

definition ICoreWebView2_22Vtbl_3 :: "cdecl list" where
  "ICoreWebView2_22Vtbl_3 =
     [ICoreWebView2_remove_ContainsFullScreenElementChanged_C, ICoreWebView2_get_ContainsFullScreenElement_C,
      ICoreWebView2_add_WebResourceRequested_C, ICoreWebView2_remove_WebResourceRequested_C,
      ICoreWebView2_AddWebResourceRequestedFilter_C, ICoreWebView2_RemoveWebResourceRequestedFilter_C,
      ICoreWebView2_add_WindowCloseRequested_C, ICoreWebView2_remove_WindowCloseRequested_C,
      ICoreWebView2_2_add_WebResourceResponseReceived_C, ICoreWebView2_2_remove_WebResourceResponseReceived_C,
      ICoreWebView2_2_NavigateWithWebResourceRequest_C, ICoreWebView2_2_add_DOMContentLoaded_C,
      ICoreWebView2_2_remove_DOMContentLoaded_C, ICoreWebView2_2_get_CookieManager_C,
      ICoreWebView2_2_get_Environment_C, ICoreWebView2_3_TrySuspend_C, ICoreWebView2_3_Resume_C,
      ICoreWebView2_3_get_IsSuspended_C, ICoreWebView2_3_SetVirtualHostNameToFolderMapping_C,
      ICoreWebView2_3_ClearVirtualHostNameToFolderMapping_C, ICoreWebView2_4_add_FrameCreated_C,
      ICoreWebView2_4_remove_FrameCreated_C, ICoreWebView2_4_add_DownloadStarting_C,
      ICoreWebView2_4_remove_DownloadStarting_C, ICoreWebView2_5_add_ClientCertificateRequested_C,
      ICoreWebView2_5_remove_ClientCertificateRequested_C, ICoreWebView2_6_OpenTaskManagerWindow_C]"

definition ICoreWebView2_22Vtbl_4 :: "cdecl list" where
  "ICoreWebView2_22Vtbl_4 =
     [ICoreWebView2_7_PrintToPdf_C, ICoreWebView2_8_add_IsMutedChanged_C, ICoreWebView2_8_remove_IsMutedChanged_C,
      ICoreWebView2_8_get_IsMuted_C, ICoreWebView2_8_put_IsMuted_C,
      ICoreWebView2_8_add_IsDocumentPlayingAudioChanged_C, ICoreWebView2_8_remove_IsDocumentPlayingAudioChanged_C,
      ICoreWebView2_8_get_IsDocumentPlayingAudio_C, ICoreWebView2_9_add_IsDefaultDownloadDialogOpenChanged_C,
      ICoreWebView2_9_remove_IsDefaultDownloadDialogOpenChanged_C, ICoreWebView2_9_get_IsDefaultDownloadDialogOpen_C,
      ICoreWebView2_9_OpenDefaultDownloadDialog_C, ICoreWebView2_9_CloseDefaultDownloadDialog_C,
      ICoreWebView2_9_get_DefaultDownloadDialogCornerAlignment_C,
      ICoreWebView2_9_put_DefaultDownloadDialogCornerAlignment_C, ICoreWebView2_9_get_DefaultDownloadDialogMargin_C,
      ICoreWebView2_9_put_DefaultDownloadDialogMargin_C, ICoreWebView2_10_add_BasicAuthenticationRequested_C,
      ICoreWebView2_10_remove_BasicAuthenticationRequested_C,
      ICoreWebView2_11_CallDevToolsProtocolMethodForSession_C, ICoreWebView2_11_add_ContextMenuRequested_C,
      ICoreWebView2_11_remove_ContextMenuRequested_C, ICoreWebView2_12_add_StatusBarTextChanged_C,
      ICoreWebView2_12_remove_StatusBarTextChanged_C, ICoreWebView2_12_get_StatusBarText_C,
      ICoreWebView2_13_get_Profile_C]"

definition ICoreWebView2_22Vtbl_5 :: "cdecl list" where
  "ICoreWebView2_22Vtbl_5 =
     [ICoreWebView2_14_add_ServerCertificateErrorDetected_C,
      ICoreWebView2_14_remove_ServerCertificateErrorDetected_C,
      ICoreWebView2_14_ClearServerCertificateErrorActions_C,
      ICoreWebView2_15_add_FaviconChanged_C,
      ICoreWebView2_15_remove_FaviconChanged_C,
      ICoreWebView2_15_get_FaviconUri_C,
      ICoreWebView2_15_GetFavicon_C,
      ICoreWebView2_16_Print_C,
      ICoreWebView2_16_ShowPrintUI_C,
      ICoreWebView2_16_PrintToPdfStream_C,
      ICoreWebView2_17_PostSharedBufferToScript_C,
      ICoreWebView2_18_add_LaunchingExternalUriScheme_C,
      ICoreWebView2_18_remove_LaunchingExternalUriScheme_C,
      ICoreWebView2_19_get_MemoryUsageTargetLevel_C,
      ICoreWebView2_19_put_MemoryUsageTargetLevel_C,
      ICoreWebView2_20_get_FrameId_C,
      ICoreWebView2_21_ExecuteScriptWithResult_C,
      CDecl ''ICoreWebView2_22'' ''HRESULT'' ''AddWebResourceRequestedFilterWithRequestSourceKinds'' [''const LPCWSTR uri'', ''const COREWEBVIEW2_WEB_RESOURCE_CONTEXT resourceContext'', ''const COREWEBVIEW2_WEB_RESOURCE_REQUEST_SOURCE_KINDS requestSourceKinds''],
      CDecl ''ICoreWebView2_22'' ''HRESULT'' ''RemoveWebResourceRequestedFilterWithRequestSourceKinds'' [''const LPCWSTR uri'', ''const COREWEBVIEW2_WEB_RESOURCE_CONTEXT resourceContext'', ''const COREWEBVIEW2_WEB_RESOURCE_REQUEST_SOURCE_KINDS requestSourceKinds'']]"

definition ICoreWebView2_22Vtbl :: vtable where
  "ICoreWebView2_22Vtbl = Vtable ''ICoreWebView2_22''
     (ICoreWebView2_22Vtbl_1 @ ICoreWebView2_22Vtbl_2 @ ICoreWebView2_22Vtbl_3 @ ICoreWebView2_22Vtbl_4 @ ICoreWebView2_22Vtbl_5)"

section \<open>The tables are the layouts\<close>

lemmas layouts =
  layout_Derived [OF ICoreWebView2_def]
  layout_Derived [OF ICoreWebView2_2_def]
  layout_Derived [OF ICoreWebView2_3_def]
  layout_Derived [OF ICoreWebView2_4_def]
  layout_Derived [OF ICoreWebView2_5_def]
  layout_Derived [OF ICoreWebView2_6_def]
  layout_Derived [OF ICoreWebView2_7_def]
  layout_Derived [OF ICoreWebView2_8_def]
  layout_Derived [OF ICoreWebView2_9_def]
  layout_Derived [OF ICoreWebView2_10_def]
  layout_Derived [OF ICoreWebView2_11_def]
  layout_Derived [OF ICoreWebView2_12_def]
  layout_Derived [OF ICoreWebView2_13_def]
  layout_Derived [OF ICoreWebView2_14_def]
  layout_Derived [OF ICoreWebView2_15_def]
  layout_Derived [OF ICoreWebView2_16_def]
  layout_Derived [OF ICoreWebView2_17_def]
  layout_Derived [OF ICoreWebView2_18_def]
  layout_Derived [OF ICoreWebView2_19_def]
  layout_Derived [OF ICoreWebView2_20_def]
  layout_Derived [OF ICoreWebView2_21_def]
  layout_Derived [OF ICoreWebView2_22_def]

lemma ICoreWebView2_decls:
  "map (c_method ''ICoreWebView2'')
     [ICoreWebView2_get_Settings, ICoreWebView2_get_Source, ICoreWebView2_Navigate, ICoreWebView2_NavigateToString,
      ICoreWebView2_add_NavigationStarting, ICoreWebView2_remove_NavigationStarting,
      ICoreWebView2_add_ContentLoading, ICoreWebView2_remove_ContentLoading, ICoreWebView2_add_SourceChanged,
      ICoreWebView2_remove_SourceChanged, ICoreWebView2_add_HistoryChanged, ICoreWebView2_remove_HistoryChanged,
      ICoreWebView2_add_NavigationCompleted, ICoreWebView2_remove_NavigationCompleted,
      ICoreWebView2_add_FrameNavigationStarting, ICoreWebView2_remove_FrameNavigationStarting,
      ICoreWebView2_add_FrameNavigationCompleted, ICoreWebView2_remove_FrameNavigationCompleted,
      ICoreWebView2_add_ScriptDialogOpening, ICoreWebView2_remove_ScriptDialogOpening,
      ICoreWebView2_add_PermissionRequested, ICoreWebView2_remove_PermissionRequested,
      ICoreWebView2_add_ProcessFailed, ICoreWebView2_remove_ProcessFailed,
      ICoreWebView2_AddScriptToExecuteOnDocumentCreated, ICoreWebView2_RemoveScriptToExecuteOnDocumentCreated,
      ICoreWebView2_ExecuteScript, ICoreWebView2_CapturePreview, ICoreWebView2_Reload,
      ICoreWebView2_PostWebMessageAsJson, ICoreWebView2_PostWebMessageAsString, ICoreWebView2_add_WebMessageReceived,
      ICoreWebView2_remove_WebMessageReceived, ICoreWebView2_CallDevToolsProtocolMethod,
      ICoreWebView2_get_BrowserProcessId, ICoreWebView2_get_CanGoBack, ICoreWebView2_get_CanGoForward,
      ICoreWebView2_GoBack, ICoreWebView2_GoForward, ICoreWebView2_GetDevToolsProtocolEventReceiver,
      ICoreWebView2_Stop, ICoreWebView2_add_NewWindowRequested, ICoreWebView2_remove_NewWindowRequested,
      ICoreWebView2_add_DocumentTitleChanged, ICoreWebView2_remove_DocumentTitleChanged,
      ICoreWebView2_get_DocumentTitle, ICoreWebView2_AddHostObjectToScript, ICoreWebView2_RemoveHostObjectFromScript,
      ICoreWebView2_OpenDevToolsWindow, ICoreWebView2_add_ContainsFullScreenElementChanged,
      ICoreWebView2_remove_ContainsFullScreenElementChanged, ICoreWebView2_get_ContainsFullScreenElement,
      ICoreWebView2_add_WebResourceRequested, ICoreWebView2_remove_WebResourceRequested,
      ICoreWebView2_AddWebResourceRequestedFilter, ICoreWebView2_RemoveWebResourceRequestedFilter,
      ICoreWebView2_add_WindowCloseRequested, ICoreWebView2_remove_WindowCloseRequested]
   =
     [ICoreWebView2_get_Settings_C, ICoreWebView2_get_Source_C, ICoreWebView2_Navigate_C,
      ICoreWebView2_NavigateToString_C, ICoreWebView2_add_NavigationStarting_C,
      ICoreWebView2_remove_NavigationStarting_C, ICoreWebView2_add_ContentLoading_C,
      ICoreWebView2_remove_ContentLoading_C, ICoreWebView2_add_SourceChanged_C, ICoreWebView2_remove_SourceChanged_C,
      ICoreWebView2_add_HistoryChanged_C, ICoreWebView2_remove_HistoryChanged_C,
      ICoreWebView2_add_NavigationCompleted_C, ICoreWebView2_remove_NavigationCompleted_C,
      ICoreWebView2_add_FrameNavigationStarting_C, ICoreWebView2_remove_FrameNavigationStarting_C,
      ICoreWebView2_add_FrameNavigationCompleted_C, ICoreWebView2_remove_FrameNavigationCompleted_C,
      ICoreWebView2_add_ScriptDialogOpening_C, ICoreWebView2_remove_ScriptDialogOpening_C,
      ICoreWebView2_add_PermissionRequested_C, ICoreWebView2_remove_PermissionRequested_C,
      ICoreWebView2_add_ProcessFailed_C, ICoreWebView2_remove_ProcessFailed_C,
      ICoreWebView2_AddScriptToExecuteOnDocumentCreated_C, ICoreWebView2_RemoveScriptToExecuteOnDocumentCreated_C,
      ICoreWebView2_ExecuteScript_C, ICoreWebView2_CapturePreview_C, ICoreWebView2_Reload_C,
      ICoreWebView2_PostWebMessageAsJson_C, ICoreWebView2_PostWebMessageAsString_C,
      ICoreWebView2_add_WebMessageReceived_C, ICoreWebView2_remove_WebMessageReceived_C,
      ICoreWebView2_CallDevToolsProtocolMethod_C, ICoreWebView2_get_BrowserProcessId_C,
      ICoreWebView2_get_CanGoBack_C, ICoreWebView2_get_CanGoForward_C, ICoreWebView2_GoBack_C,
      ICoreWebView2_GoForward_C, ICoreWebView2_GetDevToolsProtocolEventReceiver_C, ICoreWebView2_Stop_C,
      ICoreWebView2_add_NewWindowRequested_C, ICoreWebView2_remove_NewWindowRequested_C,
      ICoreWebView2_add_DocumentTitleChanged_C, ICoreWebView2_remove_DocumentTitleChanged_C,
      ICoreWebView2_get_DocumentTitle_C, ICoreWebView2_AddHostObjectToScript_C,
      ICoreWebView2_RemoveHostObjectFromScript_C, ICoreWebView2_OpenDevToolsWindow_C,
      ICoreWebView2_add_ContainsFullScreenElementChanged_C, ICoreWebView2_remove_ContainsFullScreenElementChanged_C,
      ICoreWebView2_get_ContainsFullScreenElement_C, ICoreWebView2_add_WebResourceRequested_C,
      ICoreWebView2_remove_WebResourceRequested_C, ICoreWebView2_AddWebResourceRequestedFilter_C,
      ICoreWebView2_RemoveWebResourceRequestedFilter_C, ICoreWebView2_add_WindowCloseRequested_C,
      ICoreWebView2_remove_WindowCloseRequested_C]"
  by (simp only: list.map c_method.simps ICoreWebView2_get_Settings_def ICoreWebView2_get_Source_def
      ICoreWebView2_Navigate_def ICoreWebView2_NavigateToString_def ICoreWebView2_add_NavigationStarting_def
      ICoreWebView2_remove_NavigationStarting_def ICoreWebView2_add_ContentLoading_def
      ICoreWebView2_remove_ContentLoading_def ICoreWebView2_add_SourceChanged_def
      ICoreWebView2_remove_SourceChanged_def ICoreWebView2_add_HistoryChanged_def
      ICoreWebView2_remove_HistoryChanged_def ICoreWebView2_add_NavigationCompleted_def
      ICoreWebView2_remove_NavigationCompleted_def ICoreWebView2_add_FrameNavigationStarting_def
      ICoreWebView2_remove_FrameNavigationStarting_def ICoreWebView2_add_FrameNavigationCompleted_def
      ICoreWebView2_remove_FrameNavigationCompleted_def ICoreWebView2_add_ScriptDialogOpening_def
      ICoreWebView2_remove_ScriptDialogOpening_def ICoreWebView2_add_PermissionRequested_def
      ICoreWebView2_remove_PermissionRequested_def ICoreWebView2_add_ProcessFailed_def
      ICoreWebView2_remove_ProcessFailed_def ICoreWebView2_AddScriptToExecuteOnDocumentCreated_def
      ICoreWebView2_RemoveScriptToExecuteOnDocumentCreated_def ICoreWebView2_ExecuteScript_def
      ICoreWebView2_CapturePreview_def ICoreWebView2_Reload_def ICoreWebView2_PostWebMessageAsJson_def
      ICoreWebView2_PostWebMessageAsString_def ICoreWebView2_add_WebMessageReceived_def
      ICoreWebView2_remove_WebMessageReceived_def ICoreWebView2_CallDevToolsProtocolMethod_def
      ICoreWebView2_get_BrowserProcessId_def ICoreWebView2_get_CanGoBack_def ICoreWebView2_get_CanGoForward_def
      ICoreWebView2_GoBack_def ICoreWebView2_GoForward_def ICoreWebView2_GetDevToolsProtocolEventReceiver_def
      ICoreWebView2_Stop_def ICoreWebView2_add_NewWindowRequested_def ICoreWebView2_remove_NewWindowRequested_def
      ICoreWebView2_add_DocumentTitleChanged_def ICoreWebView2_remove_DocumentTitleChanged_def
      ICoreWebView2_get_DocumentTitle_def ICoreWebView2_AddHostObjectToScript_def
      ICoreWebView2_RemoveHostObjectFromScript_def ICoreWebView2_OpenDevToolsWindow_def
      ICoreWebView2_add_ContainsFullScreenElementChanged_def
      ICoreWebView2_remove_ContainsFullScreenElementChanged_def ICoreWebView2_get_ContainsFullScreenElement_def
      ICoreWebView2_add_WebResourceRequested_def ICoreWebView2_remove_WebResourceRequested_def
      ICoreWebView2_AddWebResourceRequestedFilter_def ICoreWebView2_RemoveWebResourceRequestedFilter_def
      ICoreWebView2_add_WindowCloseRequested_def ICoreWebView2_remove_WindowCloseRequested_def
      ICoreWebView2_get_Settings_C_def ICoreWebView2_get_Source_C_def ICoreWebView2_Navigate_C_def
      ICoreWebView2_NavigateToString_C_def ICoreWebView2_add_NavigationStarting_C_def
      ICoreWebView2_remove_NavigationStarting_C_def ICoreWebView2_add_ContentLoading_C_def
      ICoreWebView2_remove_ContentLoading_C_def ICoreWebView2_add_SourceChanged_C_def
      ICoreWebView2_remove_SourceChanged_C_def ICoreWebView2_add_HistoryChanged_C_def
      ICoreWebView2_remove_HistoryChanged_C_def ICoreWebView2_add_NavigationCompleted_C_def
      ICoreWebView2_remove_NavigationCompleted_C_def ICoreWebView2_add_FrameNavigationStarting_C_def
      ICoreWebView2_remove_FrameNavigationStarting_C_def ICoreWebView2_add_FrameNavigationCompleted_C_def
      ICoreWebView2_remove_FrameNavigationCompleted_C_def ICoreWebView2_add_ScriptDialogOpening_C_def
      ICoreWebView2_remove_ScriptDialogOpening_C_def ICoreWebView2_add_PermissionRequested_C_def
      ICoreWebView2_remove_PermissionRequested_C_def ICoreWebView2_add_ProcessFailed_C_def
      ICoreWebView2_remove_ProcessFailed_C_def ICoreWebView2_AddScriptToExecuteOnDocumentCreated_C_def
      ICoreWebView2_RemoveScriptToExecuteOnDocumentCreated_C_def ICoreWebView2_ExecuteScript_C_def
      ICoreWebView2_CapturePreview_C_def ICoreWebView2_Reload_C_def ICoreWebView2_PostWebMessageAsJson_C_def
      ICoreWebView2_PostWebMessageAsString_C_def ICoreWebView2_add_WebMessageReceived_C_def
      ICoreWebView2_remove_WebMessageReceived_C_def ICoreWebView2_CallDevToolsProtocolMethod_C_def
      ICoreWebView2_get_BrowserProcessId_C_def ICoreWebView2_get_CanGoBack_C_def
      ICoreWebView2_get_CanGoForward_C_def ICoreWebView2_GoBack_C_def ICoreWebView2_GoForward_C_def
      ICoreWebView2_GetDevToolsProtocolEventReceiver_C_def ICoreWebView2_Stop_C_def
      ICoreWebView2_add_NewWindowRequested_C_def ICoreWebView2_remove_NewWindowRequested_C_def
      ICoreWebView2_add_DocumentTitleChanged_C_def ICoreWebView2_remove_DocumentTitleChanged_C_def
      ICoreWebView2_get_DocumentTitle_C_def ICoreWebView2_AddHostObjectToScript_C_def
      ICoreWebView2_RemoveHostObjectFromScript_C_def ICoreWebView2_OpenDevToolsWindow_C_def
      ICoreWebView2_add_ContainsFullScreenElementChanged_C_def
      ICoreWebView2_remove_ContainsFullScreenElementChanged_C_def
      ICoreWebView2_get_ContainsFullScreenElement_C_def ICoreWebView2_add_WebResourceRequested_C_def
      ICoreWebView2_remove_WebResourceRequested_C_def ICoreWebView2_AddWebResourceRequestedFilter_C_def
      ICoreWebView2_RemoveWebResourceRequestedFilter_C_def ICoreWebView2_add_WindowCloseRequested_C_def
      ICoreWebView2_remove_WindowCloseRequested_C_def)

lemma ICoreWebView2_views: "ICoreWebView2Vtbl = c_view ICoreWebView2"
  by (rule views_IUnknown [OF ICoreWebView2_def ICoreWebView2_decls])
    (simp only: table_simps ICoreWebView2Vtbl_1_def ICoreWebView2Vtbl_2_def ICoreWebView2Vtbl_3_def ICoreWebView2Vtbl_def)

lemma ICoreWebView2_2_decls:
  "map (c_method ''ICoreWebView2_2'')
     [ICoreWebView2_2_add_WebResourceResponseReceived, ICoreWebView2_2_remove_WebResourceResponseReceived,
      ICoreWebView2_2_NavigateWithWebResourceRequest, ICoreWebView2_2_add_DOMContentLoaded,
      ICoreWebView2_2_remove_DOMContentLoaded, ICoreWebView2_2_get_CookieManager, ICoreWebView2_2_get_Environment]
   =
     [ICoreWebView2_2_add_WebResourceResponseReceived_C, ICoreWebView2_2_remove_WebResourceResponseReceived_C,
      ICoreWebView2_2_NavigateWithWebResourceRequest_C, ICoreWebView2_2_add_DOMContentLoaded_C,
      ICoreWebView2_2_remove_DOMContentLoaded_C, ICoreWebView2_2_get_CookieManager_C,
      ICoreWebView2_2_get_Environment_C]"
  by (simp only: list.map c_method.simps ICoreWebView2_2_add_WebResourceResponseReceived_def
      ICoreWebView2_2_remove_WebResourceResponseReceived_def ICoreWebView2_2_NavigateWithWebResourceRequest_def
      ICoreWebView2_2_add_DOMContentLoaded_def ICoreWebView2_2_remove_DOMContentLoaded_def
      ICoreWebView2_2_get_CookieManager_def ICoreWebView2_2_get_Environment_def
      ICoreWebView2_2_add_WebResourceResponseReceived_C_def
      ICoreWebView2_2_remove_WebResourceResponseReceived_C_def
      ICoreWebView2_2_NavigateWithWebResourceRequest_C_def ICoreWebView2_2_add_DOMContentLoaded_C_def
      ICoreWebView2_2_remove_DOMContentLoaded_C_def ICoreWebView2_2_get_CookieManager_C_def
      ICoreWebView2_2_get_Environment_C_def)

lemma ICoreWebView2_2_views: "ICoreWebView2_2Vtbl = c_view ICoreWebView2_2"
  by (rule views_Derived [OF ICoreWebView2_2_def ICoreWebView2_2_decls ICoreWebView2_views])
    (simp only: table_simps ICoreWebView2_2Vtbl_1_def ICoreWebView2_2Vtbl_2_def ICoreWebView2_2Vtbl_3_def
      ICoreWebView2_2Vtbl_def ICoreWebView2Vtbl_1_def ICoreWebView2Vtbl_2_def ICoreWebView2Vtbl_3_def
      ICoreWebView2Vtbl_def)

lemma ICoreWebView2_3_decls:
  "map (c_method ''ICoreWebView2_3'')
     [ICoreWebView2_3_TrySuspend, ICoreWebView2_3_Resume, ICoreWebView2_3_get_IsSuspended,
      ICoreWebView2_3_SetVirtualHostNameToFolderMapping, ICoreWebView2_3_ClearVirtualHostNameToFolderMapping]
   =
     [ICoreWebView2_3_TrySuspend_C, ICoreWebView2_3_Resume_C, ICoreWebView2_3_get_IsSuspended_C,
      ICoreWebView2_3_SetVirtualHostNameToFolderMapping_C, ICoreWebView2_3_ClearVirtualHostNameToFolderMapping_C]"
  by (simp only: list.map c_method.simps ICoreWebView2_3_TrySuspend_def ICoreWebView2_3_Resume_def
      ICoreWebView2_3_get_IsSuspended_def ICoreWebView2_3_SetVirtualHostNameToFolderMapping_def
      ICoreWebView2_3_ClearVirtualHostNameToFolderMapping_def ICoreWebView2_3_TrySuspend_C_def
      ICoreWebView2_3_Resume_C_def ICoreWebView2_3_get_IsSuspended_C_def
      ICoreWebView2_3_SetVirtualHostNameToFolderMapping_C_def
      ICoreWebView2_3_ClearVirtualHostNameToFolderMapping_C_def)

lemma ICoreWebView2_3_views: "ICoreWebView2_3Vtbl = c_view ICoreWebView2_3"
  by (rule views_Derived [OF ICoreWebView2_3_def ICoreWebView2_3_decls ICoreWebView2_2_views])
    (simp only: table_simps ICoreWebView2_3Vtbl_1_def ICoreWebView2_3Vtbl_2_def ICoreWebView2_3Vtbl_3_def
      ICoreWebView2_3Vtbl_def ICoreWebView2_2Vtbl_1_def ICoreWebView2_2Vtbl_2_def ICoreWebView2_2Vtbl_3_def
      ICoreWebView2_2Vtbl_def)

lemma ICoreWebView2_4_decls:
  "map (c_method ''ICoreWebView2_4'')
     [ICoreWebView2_4_add_FrameCreated, ICoreWebView2_4_remove_FrameCreated, ICoreWebView2_4_add_DownloadStarting,
      ICoreWebView2_4_remove_DownloadStarting]
   =
     [ICoreWebView2_4_add_FrameCreated_C, ICoreWebView2_4_remove_FrameCreated_C,
      ICoreWebView2_4_add_DownloadStarting_C, ICoreWebView2_4_remove_DownloadStarting_C]"
  by (simp only: list.map c_method.simps ICoreWebView2_4_add_FrameCreated_def ICoreWebView2_4_remove_FrameCreated_def
      ICoreWebView2_4_add_DownloadStarting_def ICoreWebView2_4_remove_DownloadStarting_def
      ICoreWebView2_4_add_FrameCreated_C_def ICoreWebView2_4_remove_FrameCreated_C_def
      ICoreWebView2_4_add_DownloadStarting_C_def ICoreWebView2_4_remove_DownloadStarting_C_def)

lemma ICoreWebView2_4_views: "ICoreWebView2_4Vtbl = c_view ICoreWebView2_4"
  by (rule views_Derived [OF ICoreWebView2_4_def ICoreWebView2_4_decls ICoreWebView2_3_views])
    (simp only: table_simps ICoreWebView2_4Vtbl_1_def ICoreWebView2_4Vtbl_2_def ICoreWebView2_4Vtbl_3_def
      ICoreWebView2_4Vtbl_def ICoreWebView2_3Vtbl_1_def ICoreWebView2_3Vtbl_2_def ICoreWebView2_3Vtbl_3_def
      ICoreWebView2_3Vtbl_def)

lemma ICoreWebView2_5_decls:
  "map (c_method ''ICoreWebView2_5'')
     [ICoreWebView2_5_add_ClientCertificateRequested, ICoreWebView2_5_remove_ClientCertificateRequested]
   =
     [ICoreWebView2_5_add_ClientCertificateRequested_C, ICoreWebView2_5_remove_ClientCertificateRequested_C]"
  by (simp only: list.map c_method.simps ICoreWebView2_5_add_ClientCertificateRequested_def
      ICoreWebView2_5_remove_ClientCertificateRequested_def ICoreWebView2_5_add_ClientCertificateRequested_C_def
      ICoreWebView2_5_remove_ClientCertificateRequested_C_def)

lemma ICoreWebView2_5_views: "ICoreWebView2_5Vtbl = c_view ICoreWebView2_5"
  by (rule views_Derived [OF ICoreWebView2_5_def ICoreWebView2_5_decls ICoreWebView2_4_views])
    (simp only: table_simps ICoreWebView2_5Vtbl_1_def ICoreWebView2_5Vtbl_2_def ICoreWebView2_5Vtbl_3_def
      ICoreWebView2_5Vtbl_def ICoreWebView2_4Vtbl_1_def ICoreWebView2_4Vtbl_2_def ICoreWebView2_4Vtbl_3_def
      ICoreWebView2_4Vtbl_def)

lemma ICoreWebView2_6_decls:
  "map (c_method ''ICoreWebView2_6'')
     [ICoreWebView2_6_OpenTaskManagerWindow]
   =
     [ICoreWebView2_6_OpenTaskManagerWindow_C]"
  by (simp only: list.map c_method.simps ICoreWebView2_6_OpenTaskManagerWindow_def
      ICoreWebView2_6_OpenTaskManagerWindow_C_def)

lemma ICoreWebView2_6_views: "ICoreWebView2_6Vtbl = c_view ICoreWebView2_6"
  by (rule views_Derived [OF ICoreWebView2_6_def ICoreWebView2_6_decls ICoreWebView2_5_views])
    (simp only: table_simps ICoreWebView2_6Vtbl_1_def ICoreWebView2_6Vtbl_2_def ICoreWebView2_6Vtbl_3_def
      ICoreWebView2_6Vtbl_def ICoreWebView2_5Vtbl_1_def ICoreWebView2_5Vtbl_2_def ICoreWebView2_5Vtbl_3_def
      ICoreWebView2_5Vtbl_def)

lemma ICoreWebView2_7_decls:
  "map (c_method ''ICoreWebView2_7'')
     [ICoreWebView2_7_PrintToPdf]
   =
     [ICoreWebView2_7_PrintToPdf_C]"
  by (simp only: list.map c_method.simps ICoreWebView2_7_PrintToPdf_def ICoreWebView2_7_PrintToPdf_C_def)

lemma ICoreWebView2_7_views: "ICoreWebView2_7Vtbl = c_view ICoreWebView2_7"
  by (rule views_Derived [OF ICoreWebView2_7_def ICoreWebView2_7_decls ICoreWebView2_6_views])
    (simp only: table_simps ICoreWebView2_7Vtbl_1_def ICoreWebView2_7Vtbl_2_def ICoreWebView2_7Vtbl_3_def
      ICoreWebView2_7Vtbl_4_def ICoreWebView2_7Vtbl_def ICoreWebView2_6Vtbl_1_def ICoreWebView2_6Vtbl_2_def
      ICoreWebView2_6Vtbl_3_def ICoreWebView2_6Vtbl_def)

lemma ICoreWebView2_8_decls:
  "map (c_method ''ICoreWebView2_8'')
     [ICoreWebView2_8_add_IsMutedChanged, ICoreWebView2_8_remove_IsMutedChanged, ICoreWebView2_8_get_IsMuted,
      ICoreWebView2_8_put_IsMuted, ICoreWebView2_8_add_IsDocumentPlayingAudioChanged,
      ICoreWebView2_8_remove_IsDocumentPlayingAudioChanged, ICoreWebView2_8_get_IsDocumentPlayingAudio]
   =
     [ICoreWebView2_8_add_IsMutedChanged_C, ICoreWebView2_8_remove_IsMutedChanged_C, ICoreWebView2_8_get_IsMuted_C,
      ICoreWebView2_8_put_IsMuted_C, ICoreWebView2_8_add_IsDocumentPlayingAudioChanged_C,
      ICoreWebView2_8_remove_IsDocumentPlayingAudioChanged_C, ICoreWebView2_8_get_IsDocumentPlayingAudio_C]"
  by (simp only: list.map c_method.simps ICoreWebView2_8_add_IsMutedChanged_def ICoreWebView2_8_remove_IsMutedChanged_def
      ICoreWebView2_8_get_IsMuted_def ICoreWebView2_8_put_IsMuted_def
      ICoreWebView2_8_add_IsDocumentPlayingAudioChanged_def
      ICoreWebView2_8_remove_IsDocumentPlayingAudioChanged_def ICoreWebView2_8_get_IsDocumentPlayingAudio_def
      ICoreWebView2_8_add_IsMutedChanged_C_def ICoreWebView2_8_remove_IsMutedChanged_C_def
      ICoreWebView2_8_get_IsMuted_C_def ICoreWebView2_8_put_IsMuted_C_def
      ICoreWebView2_8_add_IsDocumentPlayingAudioChanged_C_def
      ICoreWebView2_8_remove_IsDocumentPlayingAudioChanged_C_def ICoreWebView2_8_get_IsDocumentPlayingAudio_C_def)

lemma ICoreWebView2_8_views: "ICoreWebView2_8Vtbl = c_view ICoreWebView2_8"
  by (rule views_Derived [OF ICoreWebView2_8_def ICoreWebView2_8_decls ICoreWebView2_7_views])
    (simp only: table_simps ICoreWebView2_8Vtbl_1_def ICoreWebView2_8Vtbl_2_def ICoreWebView2_8Vtbl_3_def
      ICoreWebView2_8Vtbl_4_def ICoreWebView2_8Vtbl_def ICoreWebView2_7Vtbl_1_def ICoreWebView2_7Vtbl_2_def
      ICoreWebView2_7Vtbl_3_def ICoreWebView2_7Vtbl_4_def ICoreWebView2_7Vtbl_def)

lemma ICoreWebView2_9_decls:
  "map (c_method ''ICoreWebView2_9'')
     [ICoreWebView2_9_add_IsDefaultDownloadDialogOpenChanged,
      ICoreWebView2_9_remove_IsDefaultDownloadDialogOpenChanged, ICoreWebView2_9_get_IsDefaultDownloadDialogOpen,
      ICoreWebView2_9_OpenDefaultDownloadDialog, ICoreWebView2_9_CloseDefaultDownloadDialog,
      ICoreWebView2_9_get_DefaultDownloadDialogCornerAlignment,
      ICoreWebView2_9_put_DefaultDownloadDialogCornerAlignment, ICoreWebView2_9_get_DefaultDownloadDialogMargin,
      ICoreWebView2_9_put_DefaultDownloadDialogMargin]
   =
     [ICoreWebView2_9_add_IsDefaultDownloadDialogOpenChanged_C,
      ICoreWebView2_9_remove_IsDefaultDownloadDialogOpenChanged_C, ICoreWebView2_9_get_IsDefaultDownloadDialogOpen_C,
      ICoreWebView2_9_OpenDefaultDownloadDialog_C, ICoreWebView2_9_CloseDefaultDownloadDialog_C,
      ICoreWebView2_9_get_DefaultDownloadDialogCornerAlignment_C,
      ICoreWebView2_9_put_DefaultDownloadDialogCornerAlignment_C, ICoreWebView2_9_get_DefaultDownloadDialogMargin_C,
      ICoreWebView2_9_put_DefaultDownloadDialogMargin_C]"
  by (simp only: list.map c_method.simps ICoreWebView2_9_add_IsDefaultDownloadDialogOpenChanged_def
      ICoreWebView2_9_remove_IsDefaultDownloadDialogOpenChanged_def
      ICoreWebView2_9_get_IsDefaultDownloadDialogOpen_def ICoreWebView2_9_OpenDefaultDownloadDialog_def
      ICoreWebView2_9_CloseDefaultDownloadDialog_def ICoreWebView2_9_get_DefaultDownloadDialogCornerAlignment_def
      ICoreWebView2_9_put_DefaultDownloadDialogCornerAlignment_def
      ICoreWebView2_9_get_DefaultDownloadDialogMargin_def ICoreWebView2_9_put_DefaultDownloadDialogMargin_def
      ICoreWebView2_9_add_IsDefaultDownloadDialogOpenChanged_C_def
      ICoreWebView2_9_remove_IsDefaultDownloadDialogOpenChanged_C_def
      ICoreWebView2_9_get_IsDefaultDownloadDialogOpen_C_def ICoreWebView2_9_OpenDefaultDownloadDialog_C_def
      ICoreWebView2_9_CloseDefaultDownloadDialog_C_def
      ICoreWebView2_9_get_DefaultDownloadDialogCornerAlignment_C_def
      ICoreWebView2_9_put_DefaultDownloadDialogCornerAlignment_C_def
      ICoreWebView2_9_get_DefaultDownloadDialogMargin_C_def ICoreWebView2_9_put_DefaultDownloadDialogMargin_C_def)

lemma ICoreWebView2_9_views: "ICoreWebView2_9Vtbl = c_view ICoreWebView2_9"
  by (rule views_Derived [OF ICoreWebView2_9_def ICoreWebView2_9_decls ICoreWebView2_8_views])
    (simp only: table_simps ICoreWebView2_9Vtbl_1_def ICoreWebView2_9Vtbl_2_def ICoreWebView2_9Vtbl_3_def
      ICoreWebView2_9Vtbl_4_def ICoreWebView2_9Vtbl_def ICoreWebView2_8Vtbl_1_def ICoreWebView2_8Vtbl_2_def
      ICoreWebView2_8Vtbl_3_def ICoreWebView2_8Vtbl_4_def ICoreWebView2_8Vtbl_def)

lemma ICoreWebView2_10_decls:
  "map (c_method ''ICoreWebView2_10'')
     [ICoreWebView2_10_add_BasicAuthenticationRequested, ICoreWebView2_10_remove_BasicAuthenticationRequested]
   =
     [ICoreWebView2_10_add_BasicAuthenticationRequested_C, ICoreWebView2_10_remove_BasicAuthenticationRequested_C]"
  by (simp only: list.map c_method.simps ICoreWebView2_10_add_BasicAuthenticationRequested_def
      ICoreWebView2_10_remove_BasicAuthenticationRequested_def
      ICoreWebView2_10_add_BasicAuthenticationRequested_C_def
      ICoreWebView2_10_remove_BasicAuthenticationRequested_C_def)

lemma ICoreWebView2_10_views: "ICoreWebView2_10Vtbl = c_view ICoreWebView2_10"
  by (rule views_Derived [OF ICoreWebView2_10_def ICoreWebView2_10_decls ICoreWebView2_9_views])
    (simp only: table_simps ICoreWebView2_10Vtbl_1_def ICoreWebView2_10Vtbl_2_def ICoreWebView2_10Vtbl_3_def
      ICoreWebView2_10Vtbl_4_def ICoreWebView2_10Vtbl_def ICoreWebView2_9Vtbl_1_def ICoreWebView2_9Vtbl_2_def
      ICoreWebView2_9Vtbl_3_def ICoreWebView2_9Vtbl_4_def ICoreWebView2_9Vtbl_def)

lemma ICoreWebView2_11_decls:
  "map (c_method ''ICoreWebView2_11'')
     [ICoreWebView2_11_CallDevToolsProtocolMethodForSession, ICoreWebView2_11_add_ContextMenuRequested,
      ICoreWebView2_11_remove_ContextMenuRequested]
   =
     [ICoreWebView2_11_CallDevToolsProtocolMethodForSession_C, ICoreWebView2_11_add_ContextMenuRequested_C,
      ICoreWebView2_11_remove_ContextMenuRequested_C]"
  by (simp only: list.map c_method.simps ICoreWebView2_11_CallDevToolsProtocolMethodForSession_def
      ICoreWebView2_11_add_ContextMenuRequested_def ICoreWebView2_11_remove_ContextMenuRequested_def
      ICoreWebView2_11_CallDevToolsProtocolMethodForSession_C_def ICoreWebView2_11_add_ContextMenuRequested_C_def
      ICoreWebView2_11_remove_ContextMenuRequested_C_def)

lemma ICoreWebView2_11_views: "ICoreWebView2_11Vtbl = c_view ICoreWebView2_11"
  by (rule views_Derived [OF ICoreWebView2_11_def ICoreWebView2_11_decls ICoreWebView2_10_views])
    (simp only: table_simps ICoreWebView2_11Vtbl_1_def ICoreWebView2_11Vtbl_2_def ICoreWebView2_11Vtbl_3_def
      ICoreWebView2_11Vtbl_4_def ICoreWebView2_11Vtbl_def ICoreWebView2_10Vtbl_1_def ICoreWebView2_10Vtbl_2_def
      ICoreWebView2_10Vtbl_3_def ICoreWebView2_10Vtbl_4_def ICoreWebView2_10Vtbl_def)

lemma ICoreWebView2_12_decls:
  "map (c_method ''ICoreWebView2_12'')
     [ICoreWebView2_12_add_StatusBarTextChanged, ICoreWebView2_12_remove_StatusBarTextChanged,
      ICoreWebView2_12_get_StatusBarText]
   =
     [ICoreWebView2_12_add_StatusBarTextChanged_C, ICoreWebView2_12_remove_StatusBarTextChanged_C,
      ICoreWebView2_12_get_StatusBarText_C]"
  by (simp only: list.map c_method.simps ICoreWebView2_12_add_StatusBarTextChanged_def
      ICoreWebView2_12_remove_StatusBarTextChanged_def ICoreWebView2_12_get_StatusBarText_def
      ICoreWebView2_12_add_StatusBarTextChanged_C_def ICoreWebView2_12_remove_StatusBarTextChanged_C_def
      ICoreWebView2_12_get_StatusBarText_C_def)

lemma ICoreWebView2_12_views: "ICoreWebView2_12Vtbl = c_view ICoreWebView2_12"
  by (rule views_Derived [OF ICoreWebView2_12_def ICoreWebView2_12_decls ICoreWebView2_11_views])
    (simp only: table_simps ICoreWebView2_12Vtbl_1_def ICoreWebView2_12Vtbl_2_def ICoreWebView2_12Vtbl_3_def
      ICoreWebView2_12Vtbl_4_def ICoreWebView2_12Vtbl_def ICoreWebView2_11Vtbl_1_def ICoreWebView2_11Vtbl_2_def
      ICoreWebView2_11Vtbl_3_def ICoreWebView2_11Vtbl_4_def ICoreWebView2_11Vtbl_def)

lemma ICoreWebView2_13_decls:
  "map (c_method ''ICoreWebView2_13'')
     [ICoreWebView2_13_get_Profile]
   =
     [ICoreWebView2_13_get_Profile_C]"
  by (simp only: list.map c_method.simps ICoreWebView2_13_get_Profile_def ICoreWebView2_13_get_Profile_C_def)

lemma ICoreWebView2_13_views: "ICoreWebView2_13Vtbl = c_view ICoreWebView2_13"
  by (rule views_Derived [OF ICoreWebView2_13_def ICoreWebView2_13_decls ICoreWebView2_12_views])
    (simp only: table_simps ICoreWebView2_13Vtbl_1_def ICoreWebView2_13Vtbl_2_def ICoreWebView2_13Vtbl_3_def
      ICoreWebView2_13Vtbl_4_def ICoreWebView2_13Vtbl_def ICoreWebView2_12Vtbl_1_def ICoreWebView2_12Vtbl_2_def
      ICoreWebView2_12Vtbl_3_def ICoreWebView2_12Vtbl_4_def ICoreWebView2_12Vtbl_def)

lemma ICoreWebView2_14_decls:
  "map (c_method ''ICoreWebView2_14'')
     [ICoreWebView2_14_add_ServerCertificateErrorDetected, ICoreWebView2_14_remove_ServerCertificateErrorDetected,
      ICoreWebView2_14_ClearServerCertificateErrorActions]
   =
     [ICoreWebView2_14_add_ServerCertificateErrorDetected_C,
      ICoreWebView2_14_remove_ServerCertificateErrorDetected_C, ICoreWebView2_14_ClearServerCertificateErrorActions_C]"
  by (simp only: list.map c_method.simps ICoreWebView2_14_add_ServerCertificateErrorDetected_def
      ICoreWebView2_14_remove_ServerCertificateErrorDetected_def
      ICoreWebView2_14_ClearServerCertificateErrorActions_def
      ICoreWebView2_14_add_ServerCertificateErrorDetected_C_def
      ICoreWebView2_14_remove_ServerCertificateErrorDetected_C_def
      ICoreWebView2_14_ClearServerCertificateErrorActions_C_def)

lemma ICoreWebView2_14_views: "ICoreWebView2_14Vtbl = c_view ICoreWebView2_14"
  by (rule views_Derived [OF ICoreWebView2_14_def ICoreWebView2_14_decls ICoreWebView2_13_views])
    (simp only: table_simps ICoreWebView2_14Vtbl_1_def ICoreWebView2_14Vtbl_2_def ICoreWebView2_14Vtbl_3_def
      ICoreWebView2_14Vtbl_4_def ICoreWebView2_14Vtbl_5_def ICoreWebView2_14Vtbl_def ICoreWebView2_13Vtbl_1_def
      ICoreWebView2_13Vtbl_2_def ICoreWebView2_13Vtbl_3_def ICoreWebView2_13Vtbl_4_def ICoreWebView2_13Vtbl_def)

lemma ICoreWebView2_15_decls:
  "map (c_method ''ICoreWebView2_15'')
     [ICoreWebView2_15_add_FaviconChanged, ICoreWebView2_15_remove_FaviconChanged, ICoreWebView2_15_get_FaviconUri,
      ICoreWebView2_15_GetFavicon]
   =
     [ICoreWebView2_15_add_FaviconChanged_C, ICoreWebView2_15_remove_FaviconChanged_C,
      ICoreWebView2_15_get_FaviconUri_C, ICoreWebView2_15_GetFavicon_C]"
  by (simp only: list.map c_method.simps ICoreWebView2_15_add_FaviconChanged_def ICoreWebView2_15_remove_FaviconChanged_def
      ICoreWebView2_15_get_FaviconUri_def ICoreWebView2_15_GetFavicon_def
      ICoreWebView2_15_add_FaviconChanged_C_def ICoreWebView2_15_remove_FaviconChanged_C_def
      ICoreWebView2_15_get_FaviconUri_C_def ICoreWebView2_15_GetFavicon_C_def)

lemma ICoreWebView2_15_views: "ICoreWebView2_15Vtbl = c_view ICoreWebView2_15"
  by (rule views_Derived [OF ICoreWebView2_15_def ICoreWebView2_15_decls ICoreWebView2_14_views])
    (simp only: table_simps ICoreWebView2_15Vtbl_1_def ICoreWebView2_15Vtbl_2_def ICoreWebView2_15Vtbl_3_def
      ICoreWebView2_15Vtbl_4_def ICoreWebView2_15Vtbl_5_def ICoreWebView2_15Vtbl_def ICoreWebView2_14Vtbl_1_def
      ICoreWebView2_14Vtbl_2_def ICoreWebView2_14Vtbl_3_def ICoreWebView2_14Vtbl_4_def ICoreWebView2_14Vtbl_5_def
      ICoreWebView2_14Vtbl_def)

lemma ICoreWebView2_16_decls:
  "map (c_method ''ICoreWebView2_16'')
     [ICoreWebView2_16_Print, ICoreWebView2_16_ShowPrintUI, ICoreWebView2_16_PrintToPdfStream]
   =
     [ICoreWebView2_16_Print_C, ICoreWebView2_16_ShowPrintUI_C, ICoreWebView2_16_PrintToPdfStream_C]"
  by (simp only: list.map c_method.simps ICoreWebView2_16_Print_def ICoreWebView2_16_ShowPrintUI_def
      ICoreWebView2_16_PrintToPdfStream_def ICoreWebView2_16_Print_C_def ICoreWebView2_16_ShowPrintUI_C_def
      ICoreWebView2_16_PrintToPdfStream_C_def)

lemma ICoreWebView2_16_views: "ICoreWebView2_16Vtbl = c_view ICoreWebView2_16"
  by (rule views_Derived [OF ICoreWebView2_16_def ICoreWebView2_16_decls ICoreWebView2_15_views])
    (simp only: table_simps ICoreWebView2_16Vtbl_1_def ICoreWebView2_16Vtbl_2_def ICoreWebView2_16Vtbl_3_def
      ICoreWebView2_16Vtbl_4_def ICoreWebView2_16Vtbl_5_def ICoreWebView2_16Vtbl_def ICoreWebView2_15Vtbl_1_def
      ICoreWebView2_15Vtbl_2_def ICoreWebView2_15Vtbl_3_def ICoreWebView2_15Vtbl_4_def ICoreWebView2_15Vtbl_5_def
      ICoreWebView2_15Vtbl_def)

lemma ICoreWebView2_17_decls:
  "map (c_method ''ICoreWebView2_17'')
     [ICoreWebView2_17_PostSharedBufferToScript]
   =
     [ICoreWebView2_17_PostSharedBufferToScript_C]"
  by (simp only: list.map c_method.simps ICoreWebView2_17_PostSharedBufferToScript_def
      ICoreWebView2_17_PostSharedBufferToScript_C_def)

lemma ICoreWebView2_17_views: "ICoreWebView2_17Vtbl = c_view ICoreWebView2_17"
  by (rule views_Derived [OF ICoreWebView2_17_def ICoreWebView2_17_decls ICoreWebView2_16_views])
    (simp only: table_simps ICoreWebView2_17Vtbl_1_def ICoreWebView2_17Vtbl_2_def ICoreWebView2_17Vtbl_3_def
      ICoreWebView2_17Vtbl_4_def ICoreWebView2_17Vtbl_5_def ICoreWebView2_17Vtbl_def ICoreWebView2_16Vtbl_1_def
      ICoreWebView2_16Vtbl_2_def ICoreWebView2_16Vtbl_3_def ICoreWebView2_16Vtbl_4_def ICoreWebView2_16Vtbl_5_def
      ICoreWebView2_16Vtbl_def)

lemma ICoreWebView2_18_decls:
  "map (c_method ''ICoreWebView2_18'')
     [ICoreWebView2_18_add_LaunchingExternalUriScheme, ICoreWebView2_18_remove_LaunchingExternalUriScheme]
   =
     [ICoreWebView2_18_add_LaunchingExternalUriScheme_C, ICoreWebView2_18_remove_LaunchingExternalUriScheme_C]"
  by (simp only: list.map c_method.simps ICoreWebView2_18_add_LaunchingExternalUriScheme_def
      ICoreWebView2_18_remove_LaunchingExternalUriScheme_def ICoreWebView2_18_add_LaunchingExternalUriScheme_C_def
      ICoreWebView2_18_remove_LaunchingExternalUriScheme_C_def)

lemma ICoreWebView2_18_views: "ICoreWebView2_18Vtbl = c_view ICoreWebView2_18"
  by (rule views_Derived [OF ICoreWebView2_18_def ICoreWebView2_18_decls ICoreWebView2_17_views])
    (simp only: table_simps ICoreWebView2_18Vtbl_1_def ICoreWebView2_18Vtbl_2_def ICoreWebView2_18Vtbl_3_def
      ICoreWebView2_18Vtbl_4_def ICoreWebView2_18Vtbl_5_def ICoreWebView2_18Vtbl_def ICoreWebView2_17Vtbl_1_def
      ICoreWebView2_17Vtbl_2_def ICoreWebView2_17Vtbl_3_def ICoreWebView2_17Vtbl_4_def ICoreWebView2_17Vtbl_5_def
      ICoreWebView2_17Vtbl_def)

lemma ICoreWebView2_19_decls:
  "map (c_method ''ICoreWebView2_19'')
     [ICoreWebView2_19_get_MemoryUsageTargetLevel, ICoreWebView2_19_put_MemoryUsageTargetLevel]
   =
     [ICoreWebView2_19_get_MemoryUsageTargetLevel_C, ICoreWebView2_19_put_MemoryUsageTargetLevel_C]"
  by (simp only: list.map c_method.simps ICoreWebView2_19_get_MemoryUsageTargetLevel_def
      ICoreWebView2_19_put_MemoryUsageTargetLevel_def ICoreWebView2_19_get_MemoryUsageTargetLevel_C_def
      ICoreWebView2_19_put_MemoryUsageTargetLevel_C_def)

lemma ICoreWebView2_19_views: "ICoreWebView2_19Vtbl = c_view ICoreWebView2_19"
  by (rule views_Derived [OF ICoreWebView2_19_def ICoreWebView2_19_decls ICoreWebView2_18_views])
    (simp only: table_simps ICoreWebView2_19Vtbl_1_def ICoreWebView2_19Vtbl_2_def ICoreWebView2_19Vtbl_3_def
      ICoreWebView2_19Vtbl_4_def ICoreWebView2_19Vtbl_5_def ICoreWebView2_19Vtbl_def ICoreWebView2_18Vtbl_1_def
      ICoreWebView2_18Vtbl_2_def ICoreWebView2_18Vtbl_3_def ICoreWebView2_18Vtbl_4_def ICoreWebView2_18Vtbl_5_def
      ICoreWebView2_18Vtbl_def)

lemma ICoreWebView2_20_decls:
  "map (c_method ''ICoreWebView2_20'')
     [ICoreWebView2_20_get_FrameId]
   =
     [ICoreWebView2_20_get_FrameId_C]"
  by (simp only: list.map c_method.simps ICoreWebView2_20_get_FrameId_def ICoreWebView2_20_get_FrameId_C_def)

lemma ICoreWebView2_20_views: "ICoreWebView2_20Vtbl = c_view ICoreWebView2_20"
  by (rule views_Derived [OF ICoreWebView2_20_def ICoreWebView2_20_decls ICoreWebView2_19_views])
    (simp only: table_simps ICoreWebView2_20Vtbl_1_def ICoreWebView2_20Vtbl_2_def ICoreWebView2_20Vtbl_3_def
      ICoreWebView2_20Vtbl_4_def ICoreWebView2_20Vtbl_5_def ICoreWebView2_20Vtbl_def ICoreWebView2_19Vtbl_1_def
      ICoreWebView2_19Vtbl_2_def ICoreWebView2_19Vtbl_3_def ICoreWebView2_19Vtbl_4_def ICoreWebView2_19Vtbl_5_def
      ICoreWebView2_19Vtbl_def)

lemma ICoreWebView2_21_decls:
  "map (c_method ''ICoreWebView2_21'')
     [ICoreWebView2_21_ExecuteScriptWithResult]
   =
     [ICoreWebView2_21_ExecuteScriptWithResult_C]"
  by (simp only: list.map c_method.simps ICoreWebView2_21_ExecuteScriptWithResult_def
      ICoreWebView2_21_ExecuteScriptWithResult_C_def)

lemma ICoreWebView2_21_views: "ICoreWebView2_21Vtbl = c_view ICoreWebView2_21"
  by (rule views_Derived [OF ICoreWebView2_21_def ICoreWebView2_21_decls ICoreWebView2_20_views])
    (simp only: table_simps ICoreWebView2_21Vtbl_1_def ICoreWebView2_21Vtbl_2_def ICoreWebView2_21Vtbl_3_def
      ICoreWebView2_21Vtbl_4_def ICoreWebView2_21Vtbl_5_def ICoreWebView2_21Vtbl_def ICoreWebView2_20Vtbl_1_def
      ICoreWebView2_20Vtbl_2_def ICoreWebView2_20Vtbl_3_def ICoreWebView2_20Vtbl_4_def ICoreWebView2_20Vtbl_5_def
      ICoreWebView2_20Vtbl_def)

lemma ICoreWebView2_22_decls:
  "map (c_method ''ICoreWebView2_22'')
     [Method ''HRESULT'' ''AddWebResourceRequestedFilterWithRequestSourceKinds'' [''const LPCWSTR uri'', ''const COREWEBVIEW2_WEB_RESOURCE_CONTEXT resourceContext'', ''const COREWEBVIEW2_WEB_RESOURCE_REQUEST_SOURCE_KINDS requestSourceKinds''],
      Method ''HRESULT'' ''RemoveWebResourceRequestedFilterWithRequestSourceKinds'' [''const LPCWSTR uri'', ''const COREWEBVIEW2_WEB_RESOURCE_CONTEXT resourceContext'', ''const COREWEBVIEW2_WEB_RESOURCE_REQUEST_SOURCE_KINDS requestSourceKinds'']]
   =
     [CDecl ''ICoreWebView2_22'' ''HRESULT'' ''AddWebResourceRequestedFilterWithRequestSourceKinds'' [''const LPCWSTR uri'', ''const COREWEBVIEW2_WEB_RESOURCE_CONTEXT resourceContext'', ''const COREWEBVIEW2_WEB_RESOURCE_REQUEST_SOURCE_KINDS requestSourceKinds''],
      CDecl ''ICoreWebView2_22'' ''HRESULT'' ''RemoveWebResourceRequestedFilterWithRequestSourceKinds'' [''const LPCWSTR uri'', ''const COREWEBVIEW2_WEB_RESOURCE_CONTEXT resourceContext'', ''const COREWEBVIEW2_WEB_RESOURCE_REQUEST_SOURCE_KINDS requestSourceKinds'']]"
  by (simp only: list.map c_method.simps)

lemma ICoreWebView2_22_views: "ICoreWebView2_22Vtbl = c_view ICoreWebView2_22"
  by (rule views_Derived [OF ICoreWebView2_22_def ICoreWebView2_22_decls ICoreWebView2_21_views])
    (simp only: table_simps ICoreWebView2_22Vtbl_1_def ICoreWebView2_22Vtbl_2_def ICoreWebView2_22Vtbl_3_def
      ICoreWebView2_22Vtbl_4_def ICoreWebView2_22Vtbl_5_def ICoreWebView2_22Vtbl_def ICoreWebView2_21Vtbl_1_def
      ICoreWebView2_21Vtbl_2_def ICoreWebView2_21Vtbl_3_def ICoreWebView2_21Vtbl_4_def ICoreWebView2_21Vtbl_5_def
      ICoreWebView2_21Vtbl_def)

definition browser_tables :: "(iface \<times> vtable) list" where
  "browser_tables =
     [(ICoreWebView2, ICoreWebView2Vtbl), (ICoreWebView2_2, ICoreWebView2_2Vtbl),
      (ICoreWebView2_3, ICoreWebView2_3Vtbl), (ICoreWebView2_4, ICoreWebView2_4Vtbl),
      (ICoreWebView2_5, ICoreWebView2_5Vtbl), (ICoreWebView2_6, ICoreWebView2_6Vtbl),
      (ICoreWebView2_7, ICoreWebView2_7Vtbl), (ICoreWebView2_8, ICoreWebView2_8Vtbl),
      (ICoreWebView2_9, ICoreWebView2_9Vtbl), (ICoreWebView2_10, ICoreWebView2_10Vtbl),
      (ICoreWebView2_11, ICoreWebView2_11Vtbl), (ICoreWebView2_12, ICoreWebView2_12Vtbl),
      (ICoreWebView2_13, ICoreWebView2_13Vtbl), (ICoreWebView2_14, ICoreWebView2_14Vtbl),
      (ICoreWebView2_15, ICoreWebView2_15Vtbl), (ICoreWebView2_16, ICoreWebView2_16Vtbl),
      (ICoreWebView2_17, ICoreWebView2_17Vtbl), (ICoreWebView2_18, ICoreWebView2_18Vtbl),
      (ICoreWebView2_19, ICoreWebView2_19Vtbl), (ICoreWebView2_20, ICoreWebView2_20Vtbl),
      (ICoreWebView2_21, ICoreWebView2_21Vtbl), (ICoreWebView2_22, ICoreWebView2_22Vtbl)]"

lemma browser_tables_agree: "list_all (\<lambda>(i, v). v = c_view i) browser_tables"
  by (simp only: browser_tables_def list.pred_inject prod.case simp_thms
    ICoreWebView2_views
    ICoreWebView2_2_views
    ICoreWebView2_3_views
    ICoreWebView2_4_views
    ICoreWebView2_5_views
    ICoreWebView2_6_views
    ICoreWebView2_7_views
    ICoreWebView2_8_views
    ICoreWebView2_9_views
    ICoreWebView2_10_views
    ICoreWebView2_11_views
    ICoreWebView2_12_views
    ICoreWebView2_13_views
    ICoreWebView2_14_views
    ICoreWebView2_15_views
    ICoreWebView2_16_views
    ICoreWebView2_17_views
    ICoreWebView2_18_views
    ICoreWebView2_19_views
    ICoreWebView2_20_views
    ICoreWebView2_21_views
    ICoreWebView2_22_views)

end
