(* ===== verification/AbiServices.thy ===== *)
theory AbiServices
  imports WebView2Abi
begin

text \<open>
  \<^verbatim>\<open>builtin/goc/webview2/WebView2.h\<close>, controllers, environments, frames, profiles, settings and the objects they manage: each interface as its C++ class (its own methods after its base) and as its C table
  (every member), transcribed separately, and that the table is the layout of the class. The methods and members of an
  interface that others extend are named, since the tables of those repeat them; the others stand where they are declared.
\<close>

section \<open>Methods and classes\<close>

definition ICoreWebView2CompositionController_get_RootVisualTarget :: cmethod where
  "ICoreWebView2CompositionController_get_RootVisualTarget =
     Method ''HRESULT'' ''get_RootVisualTarget'' [''IUnknown **target'']"

definition ICoreWebView2CompositionController_put_RootVisualTarget :: cmethod where
  "ICoreWebView2CompositionController_put_RootVisualTarget =
     Method ''HRESULT'' ''put_RootVisualTarget'' [''IUnknown *target'']"

definition ICoreWebView2CompositionController_SendMouseInput :: cmethod where
  "ICoreWebView2CompositionController_SendMouseInput =
     Method ''HRESULT'' ''SendMouseInput'' [''COREWEBVIEW2_MOUSE_EVENT_KIND eventKind'', ''COREWEBVIEW2_MOUSE_EVENT_VIRTUAL_KEYS virtualKeys'', ''UINT32 mouseData'', ''POINT point'']"

definition ICoreWebView2CompositionController_SendPointerInput :: cmethod where
  "ICoreWebView2CompositionController_SendPointerInput =
     Method ''HRESULT'' ''SendPointerInput'' [''COREWEBVIEW2_POINTER_EVENT_KIND eventKind'', ''ICoreWebView2PointerInfo *pointerInfo'']"

definition ICoreWebView2CompositionController_get_Cursor :: cmethod where
  "ICoreWebView2CompositionController_get_Cursor =
     Method ''HRESULT'' ''get_Cursor'' [''HCURSOR *cursor'']"

definition ICoreWebView2CompositionController_get_SystemCursorId :: cmethod where
  "ICoreWebView2CompositionController_get_SystemCursorId =
     Method ''HRESULT'' ''get_SystemCursorId'' [''UINT32 *systemCursorId'']"

definition ICoreWebView2CompositionController_add_CursorChanged :: cmethod where
  "ICoreWebView2CompositionController_add_CursorChanged =
     Method ''HRESULT'' ''add_CursorChanged'' [''ICoreWebView2CursorChangedEventHandler *eventHandler'', ''EventRegistrationToken *token'']"

definition ICoreWebView2CompositionController_remove_CursorChanged :: cmethod where
  "ICoreWebView2CompositionController_remove_CursorChanged =
     Method ''HRESULT'' ''remove_CursorChanged'' [''EventRegistrationToken token'']"

definition ICoreWebView2CompositionController :: iface where
  "ICoreWebView2CompositionController = Derived ''ICoreWebView2CompositionController'' IUnknown
     [ICoreWebView2CompositionController_get_RootVisualTarget,
      ICoreWebView2CompositionController_put_RootVisualTarget, ICoreWebView2CompositionController_SendMouseInput,
      ICoreWebView2CompositionController_SendPointerInput, ICoreWebView2CompositionController_get_Cursor,
      ICoreWebView2CompositionController_get_SystemCursorId, ICoreWebView2CompositionController_add_CursorChanged,
      ICoreWebView2CompositionController_remove_CursorChanged]"

definition ICoreWebView2CompositionController2_get_AutomationProvider :: cmethod where
  "ICoreWebView2CompositionController2_get_AutomationProvider =
     Method ''HRESULT'' ''get_AutomationProvider'' [''IUnknown **provider'']"

definition ICoreWebView2CompositionController2 :: iface where
  "ICoreWebView2CompositionController2 = Derived ''ICoreWebView2CompositionController2'' ICoreWebView2CompositionController
     [ICoreWebView2CompositionController2_get_AutomationProvider]"

definition ICoreWebView2CompositionController3 :: iface where
  "ICoreWebView2CompositionController3 = Derived ''ICoreWebView2CompositionController3'' ICoreWebView2CompositionController2
     [Method ''HRESULT'' ''DragEnter'' [''IDataObject *dataObject'', ''DWORD keyState'', ''POINT point'', ''DWORD *effect''],
      Method ''HRESULT'' ''DragLeave'' [],
      Method ''HRESULT'' ''DragOver'' [''DWORD keyState'', ''POINT point'', ''DWORD *effect''],
      Method ''HRESULT'' ''Drop'' [''IDataObject *dataObject'', ''DWORD keyState'', ''POINT point'', ''DWORD *effect'']]"

definition ICoreWebView2Controller_get_IsVisible :: cmethod where
  "ICoreWebView2Controller_get_IsVisible =
     Method ''HRESULT'' ''get_IsVisible'' [''BOOL *isVisible'']"

definition ICoreWebView2Controller_put_IsVisible :: cmethod where
  "ICoreWebView2Controller_put_IsVisible =
     Method ''HRESULT'' ''put_IsVisible'' [''BOOL isVisible'']"

definition ICoreWebView2Controller_get_Bounds :: cmethod where
  "ICoreWebView2Controller_get_Bounds =
     Method ''HRESULT'' ''get_Bounds'' [''RECT *bounds'']"

definition ICoreWebView2Controller_put_Bounds :: cmethod where
  "ICoreWebView2Controller_put_Bounds =
     Method ''HRESULT'' ''put_Bounds'' [''RECT bounds'']"

definition ICoreWebView2Controller_get_ZoomFactor :: cmethod where
  "ICoreWebView2Controller_get_ZoomFactor =
     Method ''HRESULT'' ''get_ZoomFactor'' [''double *zoomFactor'']"

definition ICoreWebView2Controller_put_ZoomFactor :: cmethod where
  "ICoreWebView2Controller_put_ZoomFactor =
     Method ''HRESULT'' ''put_ZoomFactor'' [''double zoomFactor'']"

definition ICoreWebView2Controller_add_ZoomFactorChanged :: cmethod where
  "ICoreWebView2Controller_add_ZoomFactorChanged =
     Method ''HRESULT'' ''add_ZoomFactorChanged'' [''ICoreWebView2ZoomFactorChangedEventHandler *eventHandler'', ''EventRegistrationToken *token'']"

definition ICoreWebView2Controller_remove_ZoomFactorChanged :: cmethod where
  "ICoreWebView2Controller_remove_ZoomFactorChanged =
     Method ''HRESULT'' ''remove_ZoomFactorChanged'' [''EventRegistrationToken token'']"

definition ICoreWebView2Controller_SetBoundsAndZoomFactor :: cmethod where
  "ICoreWebView2Controller_SetBoundsAndZoomFactor =
     Method ''HRESULT'' ''SetBoundsAndZoomFactor'' [''RECT bounds'', ''double zoomFactor'']"

definition ICoreWebView2Controller_MoveFocus :: cmethod where
  "ICoreWebView2Controller_MoveFocus =
     Method ''HRESULT'' ''MoveFocus'' [''COREWEBVIEW2_MOVE_FOCUS_REASON reason'']"

definition ICoreWebView2Controller_add_MoveFocusRequested :: cmethod where
  "ICoreWebView2Controller_add_MoveFocusRequested =
     Method ''HRESULT'' ''add_MoveFocusRequested'' [''ICoreWebView2MoveFocusRequestedEventHandler *eventHandler'', ''EventRegistrationToken *token'']"

definition ICoreWebView2Controller_remove_MoveFocusRequested :: cmethod where
  "ICoreWebView2Controller_remove_MoveFocusRequested =
     Method ''HRESULT'' ''remove_MoveFocusRequested'' [''EventRegistrationToken token'']"

definition ICoreWebView2Controller_add_GotFocus :: cmethod where
  "ICoreWebView2Controller_add_GotFocus =
     Method ''HRESULT'' ''add_GotFocus'' [''ICoreWebView2FocusChangedEventHandler *eventHandler'', ''EventRegistrationToken *token'']"

definition ICoreWebView2Controller_remove_GotFocus :: cmethod where
  "ICoreWebView2Controller_remove_GotFocus =
     Method ''HRESULT'' ''remove_GotFocus'' [''EventRegistrationToken token'']"

definition ICoreWebView2Controller_add_LostFocus :: cmethod where
  "ICoreWebView2Controller_add_LostFocus =
     Method ''HRESULT'' ''add_LostFocus'' [''ICoreWebView2FocusChangedEventHandler *eventHandler'', ''EventRegistrationToken *token'']"

definition ICoreWebView2Controller_remove_LostFocus :: cmethod where
  "ICoreWebView2Controller_remove_LostFocus =
     Method ''HRESULT'' ''remove_LostFocus'' [''EventRegistrationToken token'']"

definition ICoreWebView2Controller_add_AcceleratorKeyPressed :: cmethod where
  "ICoreWebView2Controller_add_AcceleratorKeyPressed =
     Method ''HRESULT'' ''add_AcceleratorKeyPressed'' [''ICoreWebView2AcceleratorKeyPressedEventHandler *eventHandler'', ''EventRegistrationToken *token'']"

definition ICoreWebView2Controller_remove_AcceleratorKeyPressed :: cmethod where
  "ICoreWebView2Controller_remove_AcceleratorKeyPressed =
     Method ''HRESULT'' ''remove_AcceleratorKeyPressed'' [''EventRegistrationToken token'']"

definition ICoreWebView2Controller_get_ParentWindow :: cmethod where
  "ICoreWebView2Controller_get_ParentWindow =
     Method ''HRESULT'' ''get_ParentWindow'' [''HWND *parentWindow'']"

definition ICoreWebView2Controller_put_ParentWindow :: cmethod where
  "ICoreWebView2Controller_put_ParentWindow =
     Method ''HRESULT'' ''put_ParentWindow'' [''HWND parentWindow'']"

definition ICoreWebView2Controller_NotifyParentWindowPositionChanged :: cmethod where
  "ICoreWebView2Controller_NotifyParentWindowPositionChanged =
     Method ''HRESULT'' ''NotifyParentWindowPositionChanged'' []"

definition ICoreWebView2Controller_Close :: cmethod where
  "ICoreWebView2Controller_Close =
     Method ''HRESULT'' ''Close'' []"

definition ICoreWebView2Controller_get_CoreWebView2 :: cmethod where
  "ICoreWebView2Controller_get_CoreWebView2 =
     Method ''HRESULT'' ''get_CoreWebView2'' [''ICoreWebView2 **coreWebView2'']"

definition ICoreWebView2Controller :: iface where
  "ICoreWebView2Controller = Derived ''ICoreWebView2Controller'' IUnknown
     [ICoreWebView2Controller_get_IsVisible, ICoreWebView2Controller_put_IsVisible,
      ICoreWebView2Controller_get_Bounds, ICoreWebView2Controller_put_Bounds, ICoreWebView2Controller_get_ZoomFactor,
      ICoreWebView2Controller_put_ZoomFactor, ICoreWebView2Controller_add_ZoomFactorChanged,
      ICoreWebView2Controller_remove_ZoomFactorChanged, ICoreWebView2Controller_SetBoundsAndZoomFactor,
      ICoreWebView2Controller_MoveFocus, ICoreWebView2Controller_add_MoveFocusRequested,
      ICoreWebView2Controller_remove_MoveFocusRequested, ICoreWebView2Controller_add_GotFocus,
      ICoreWebView2Controller_remove_GotFocus, ICoreWebView2Controller_add_LostFocus,
      ICoreWebView2Controller_remove_LostFocus, ICoreWebView2Controller_add_AcceleratorKeyPressed,
      ICoreWebView2Controller_remove_AcceleratorKeyPressed, ICoreWebView2Controller_get_ParentWindow,
      ICoreWebView2Controller_put_ParentWindow, ICoreWebView2Controller_NotifyParentWindowPositionChanged,
      ICoreWebView2Controller_Close, ICoreWebView2Controller_get_CoreWebView2]"

definition ICoreWebView2Controller2_get_DefaultBackgroundColor :: cmethod where
  "ICoreWebView2Controller2_get_DefaultBackgroundColor =
     Method ''HRESULT'' ''get_DefaultBackgroundColor'' [''COREWEBVIEW2_COLOR *backgroundColor'']"

definition ICoreWebView2Controller2_put_DefaultBackgroundColor :: cmethod where
  "ICoreWebView2Controller2_put_DefaultBackgroundColor =
     Method ''HRESULT'' ''put_DefaultBackgroundColor'' [''COREWEBVIEW2_COLOR backgroundColor'']"

definition ICoreWebView2Controller2 :: iface where
  "ICoreWebView2Controller2 = Derived ''ICoreWebView2Controller2'' ICoreWebView2Controller
     [ICoreWebView2Controller2_get_DefaultBackgroundColor, ICoreWebView2Controller2_put_DefaultBackgroundColor]"

definition ICoreWebView2Controller3_get_RasterizationScale :: cmethod where
  "ICoreWebView2Controller3_get_RasterizationScale =
     Method ''HRESULT'' ''get_RasterizationScale'' [''double *scale'']"

definition ICoreWebView2Controller3_put_RasterizationScale :: cmethod where
  "ICoreWebView2Controller3_put_RasterizationScale =
     Method ''HRESULT'' ''put_RasterizationScale'' [''double scale'']"

definition ICoreWebView2Controller3_get_ShouldDetectMonitorScaleChanges :: cmethod where
  "ICoreWebView2Controller3_get_ShouldDetectMonitorScaleChanges =
     Method ''HRESULT'' ''get_ShouldDetectMonitorScaleChanges'' [''BOOL *value'']"

definition ICoreWebView2Controller3_put_ShouldDetectMonitorScaleChanges :: cmethod where
  "ICoreWebView2Controller3_put_ShouldDetectMonitorScaleChanges =
     Method ''HRESULT'' ''put_ShouldDetectMonitorScaleChanges'' [''BOOL value'']"

definition ICoreWebView2Controller3_add_RasterizationScaleChanged :: cmethod where
  "ICoreWebView2Controller3_add_RasterizationScaleChanged =
     Method ''HRESULT'' ''add_RasterizationScaleChanged'' [''ICoreWebView2RasterizationScaleChangedEventHandler *eventHandler'', ''EventRegistrationToken *token'']"

definition ICoreWebView2Controller3_remove_RasterizationScaleChanged :: cmethod where
  "ICoreWebView2Controller3_remove_RasterizationScaleChanged =
     Method ''HRESULT'' ''remove_RasterizationScaleChanged'' [''EventRegistrationToken token'']"

definition ICoreWebView2Controller3_get_BoundsMode :: cmethod where
  "ICoreWebView2Controller3_get_BoundsMode =
     Method ''HRESULT'' ''get_BoundsMode'' [''COREWEBVIEW2_BOUNDS_MODE *boundsMode'']"

definition ICoreWebView2Controller3_put_BoundsMode :: cmethod where
  "ICoreWebView2Controller3_put_BoundsMode =
     Method ''HRESULT'' ''put_BoundsMode'' [''COREWEBVIEW2_BOUNDS_MODE boundsMode'']"

definition ICoreWebView2Controller3 :: iface where
  "ICoreWebView2Controller3 = Derived ''ICoreWebView2Controller3'' ICoreWebView2Controller2
     [ICoreWebView2Controller3_get_RasterizationScale, ICoreWebView2Controller3_put_RasterizationScale,
      ICoreWebView2Controller3_get_ShouldDetectMonitorScaleChanges,
      ICoreWebView2Controller3_put_ShouldDetectMonitorScaleChanges,
      ICoreWebView2Controller3_add_RasterizationScaleChanged,
      ICoreWebView2Controller3_remove_RasterizationScaleChanged, ICoreWebView2Controller3_get_BoundsMode,
      ICoreWebView2Controller3_put_BoundsMode]"

definition ICoreWebView2Controller4 :: iface where
  "ICoreWebView2Controller4 = Derived ''ICoreWebView2Controller4'' ICoreWebView2Controller3
     [Method ''HRESULT'' ''get_AllowExternalDrop'' [''BOOL *value''],
      Method ''HRESULT'' ''put_AllowExternalDrop'' [''BOOL value'']]"

definition ICoreWebView2ControllerOptions_get_ProfileName :: cmethod where
  "ICoreWebView2ControllerOptions_get_ProfileName =
     Method ''HRESULT'' ''get_ProfileName'' [''LPWSTR *value'']"

definition ICoreWebView2ControllerOptions_put_ProfileName :: cmethod where
  "ICoreWebView2ControllerOptions_put_ProfileName =
     Method ''HRESULT'' ''put_ProfileName'' [''LPCWSTR value'']"

definition ICoreWebView2ControllerOptions_get_IsInPrivateModeEnabled :: cmethod where
  "ICoreWebView2ControllerOptions_get_IsInPrivateModeEnabled =
     Method ''HRESULT'' ''get_IsInPrivateModeEnabled'' [''BOOL *value'']"

definition ICoreWebView2ControllerOptions_put_IsInPrivateModeEnabled :: cmethod where
  "ICoreWebView2ControllerOptions_put_IsInPrivateModeEnabled =
     Method ''HRESULT'' ''put_IsInPrivateModeEnabled'' [''BOOL value'']"

definition ICoreWebView2ControllerOptions :: iface where
  "ICoreWebView2ControllerOptions = Derived ''ICoreWebView2ControllerOptions'' IUnknown
     [ICoreWebView2ControllerOptions_get_ProfileName, ICoreWebView2ControllerOptions_put_ProfileName,
      ICoreWebView2ControllerOptions_get_IsInPrivateModeEnabled,
      ICoreWebView2ControllerOptions_put_IsInPrivateModeEnabled]"

definition ICoreWebView2ControllerOptions2 :: iface where
  "ICoreWebView2ControllerOptions2 = Derived ''ICoreWebView2ControllerOptions2'' ICoreWebView2ControllerOptions
     [Method ''HRESULT'' ''get_ScriptLocale'' [''LPWSTR *locale''],
      Method ''HRESULT'' ''put_ScriptLocale'' [''LPCWSTR locale'']]"

definition ICoreWebView2CookieManager :: iface where
  "ICoreWebView2CookieManager = Derived ''ICoreWebView2CookieManager'' IUnknown
     [Method ''HRESULT'' ''CreateCookie'' [''LPCWSTR name'', ''LPCWSTR value'', ''LPCWSTR domain'', ''LPCWSTR path'', ''ICoreWebView2Cookie **cookie''],
      Method ''HRESULT'' ''CopyCookie'' [''ICoreWebView2Cookie *cookieParam'', ''ICoreWebView2Cookie **cookie''],
      Method ''HRESULT'' ''GetCookies'' [''LPCWSTR uri'', ''ICoreWebView2GetCookiesCompletedHandler *handler''],
      Method ''HRESULT'' ''AddOrUpdateCookie'' [''ICoreWebView2Cookie *cookie''],
      Method ''HRESULT'' ''DeleteCookie'' [''ICoreWebView2Cookie *cookie''],
      Method ''HRESULT'' ''DeleteCookies'' [''LPCWSTR name'', ''LPCWSTR uri''],
      Method ''HRESULT'' ''DeleteCookiesWithDomainAndPath'' [''LPCWSTR name'', ''LPCWSTR domain'', ''LPCWSTR path''],
      Method ''HRESULT'' ''DeleteAllCookies'' []]"

definition ICoreWebView2DownloadOperation :: iface where
  "ICoreWebView2DownloadOperation = Derived ''ICoreWebView2DownloadOperation'' IUnknown
     [Method ''HRESULT'' ''add_BytesReceivedChanged'' [''ICoreWebView2BytesReceivedChangedEventHandler *eventHandler'', ''EventRegistrationToken *token''],
      Method ''HRESULT'' ''remove_BytesReceivedChanged'' [''EventRegistrationToken token''],
      Method ''HRESULT'' ''add_EstimatedEndTimeChanged'' [''ICoreWebView2EstimatedEndTimeChangedEventHandler *eventHandler'', ''EventRegistrationToken *token''],
      Method ''HRESULT'' ''remove_EstimatedEndTimeChanged'' [''EventRegistrationToken token''],
      Method ''HRESULT'' ''add_StateChanged'' [''ICoreWebView2StateChangedEventHandler *eventHandler'', ''EventRegistrationToken *token''],
      Method ''HRESULT'' ''remove_StateChanged'' [''EventRegistrationToken token''],
      Method ''HRESULT'' ''get_Uri'' [''LPWSTR *uri''],
      Method ''HRESULT'' ''get_ContentDisposition'' [''LPWSTR *contentDisposition''],
      Method ''HRESULT'' ''get_MimeType'' [''LPWSTR *mimeType''],
      Method ''HRESULT'' ''get_TotalBytesToReceive'' [''INT64 *totalBytesToReceive''],
      Method ''HRESULT'' ''get_BytesReceived'' [''INT64 *bytesReceived''],
      Method ''HRESULT'' ''get_EstimatedEndTime'' [''LPWSTR *estimatedEndTime''],
      Method ''HRESULT'' ''get_ResultFilePath'' [''LPWSTR *resultFilePath''],
      Method ''HRESULT'' ''get_State'' [''COREWEBVIEW2_DOWNLOAD_STATE *downloadState''],
      Method ''HRESULT'' ''get_InterruptReason'' [''COREWEBVIEW2_DOWNLOAD_INTERRUPT_REASON *interruptReason''],
      Method ''HRESULT'' ''Cancel'' [],
      Method ''HRESULT'' ''Pause'' [],
      Method ''HRESULT'' ''Resume'' [],
      Method ''HRESULT'' ''get_CanResume'' [''BOOL *canResume'']]"

definition ICoreWebView2Environment_CreateCoreWebView2Controller :: cmethod where
  "ICoreWebView2Environment_CreateCoreWebView2Controller =
     Method ''HRESULT'' ''CreateCoreWebView2Controller'' [''HWND parentWindow'', ''ICoreWebView2CreateCoreWebView2ControllerCompletedHandler *handler'']"

definition ICoreWebView2Environment_CreateWebResourceResponse :: cmethod where
  "ICoreWebView2Environment_CreateWebResourceResponse =
     Method ''HRESULT'' ''CreateWebResourceResponse'' [''IStream *content'', ''int statusCode'', ''LPCWSTR reasonPhrase'', ''LPCWSTR headers'', ''ICoreWebView2WebResourceResponse **response'']"

definition ICoreWebView2Environment_get_BrowserVersionString :: cmethod where
  "ICoreWebView2Environment_get_BrowserVersionString =
     Method ''HRESULT'' ''get_BrowserVersionString'' [''LPWSTR *versionInfo'']"

definition ICoreWebView2Environment_add_NewBrowserVersionAvailable :: cmethod where
  "ICoreWebView2Environment_add_NewBrowserVersionAvailable =
     Method ''HRESULT'' ''add_NewBrowserVersionAvailable'' [''ICoreWebView2NewBrowserVersionAvailableEventHandler *eventHandler'', ''EventRegistrationToken *token'']"

definition ICoreWebView2Environment_remove_NewBrowserVersionAvailable :: cmethod where
  "ICoreWebView2Environment_remove_NewBrowserVersionAvailable =
     Method ''HRESULT'' ''remove_NewBrowserVersionAvailable'' [''EventRegistrationToken token'']"

definition ICoreWebView2Environment :: iface where
  "ICoreWebView2Environment = Derived ''ICoreWebView2Environment'' IUnknown
     [ICoreWebView2Environment_CreateCoreWebView2Controller, ICoreWebView2Environment_CreateWebResourceResponse,
      ICoreWebView2Environment_get_BrowserVersionString, ICoreWebView2Environment_add_NewBrowserVersionAvailable,
      ICoreWebView2Environment_remove_NewBrowserVersionAvailable]"

definition ICoreWebView2Environment2_CreateWebResourceRequest :: cmethod where
  "ICoreWebView2Environment2_CreateWebResourceRequest =
     Method ''HRESULT'' ''CreateWebResourceRequest'' [''LPCWSTR uri'', ''LPCWSTR method'', ''IStream *postData'', ''LPCWSTR headers'', ''ICoreWebView2WebResourceRequest **request'']"

definition ICoreWebView2Environment2 :: iface where
  "ICoreWebView2Environment2 = Derived ''ICoreWebView2Environment2'' ICoreWebView2Environment
     [ICoreWebView2Environment2_CreateWebResourceRequest]"

definition ICoreWebView2Environment3_CreateCoreWebView2CompositionController :: cmethod where
  "ICoreWebView2Environment3_CreateCoreWebView2CompositionController =
     Method ''HRESULT'' ''CreateCoreWebView2CompositionController'' [''HWND parentWindow'', ''ICoreWebView2CreateCoreWebView2CompositionControllerCompletedHandler *handler'']"

definition ICoreWebView2Environment3_CreateCoreWebView2PointerInfo :: cmethod where
  "ICoreWebView2Environment3_CreateCoreWebView2PointerInfo =
     Method ''HRESULT'' ''CreateCoreWebView2PointerInfo'' [''ICoreWebView2PointerInfo **pointerInfo'']"

definition ICoreWebView2Environment3 :: iface where
  "ICoreWebView2Environment3 = Derived ''ICoreWebView2Environment3'' ICoreWebView2Environment2
     [ICoreWebView2Environment3_CreateCoreWebView2CompositionController,
      ICoreWebView2Environment3_CreateCoreWebView2PointerInfo]"

definition ICoreWebView2Environment4_GetAutomationProviderForWindow :: cmethod where
  "ICoreWebView2Environment4_GetAutomationProviderForWindow =
     Method ''HRESULT'' ''GetAutomationProviderForWindow'' [''HWND hwnd'', ''IUnknown **provider'']"

definition ICoreWebView2Environment4 :: iface where
  "ICoreWebView2Environment4 = Derived ''ICoreWebView2Environment4'' ICoreWebView2Environment3
     [ICoreWebView2Environment4_GetAutomationProviderForWindow]"

definition ICoreWebView2Environment5_add_BrowserProcessExited :: cmethod where
  "ICoreWebView2Environment5_add_BrowserProcessExited =
     Method ''HRESULT'' ''add_BrowserProcessExited'' [''ICoreWebView2BrowserProcessExitedEventHandler *eventHandler'', ''EventRegistrationToken *token'']"

definition ICoreWebView2Environment5_remove_BrowserProcessExited :: cmethod where
  "ICoreWebView2Environment5_remove_BrowserProcessExited =
     Method ''HRESULT'' ''remove_BrowserProcessExited'' [''EventRegistrationToken token'']"

definition ICoreWebView2Environment5 :: iface where
  "ICoreWebView2Environment5 = Derived ''ICoreWebView2Environment5'' ICoreWebView2Environment4
     [ICoreWebView2Environment5_add_BrowserProcessExited, ICoreWebView2Environment5_remove_BrowserProcessExited]"

definition ICoreWebView2Environment6_CreatePrintSettings :: cmethod where
  "ICoreWebView2Environment6_CreatePrintSettings =
     Method ''HRESULT'' ''CreatePrintSettings'' [''ICoreWebView2PrintSettings **printSettings'']"

definition ICoreWebView2Environment6 :: iface where
  "ICoreWebView2Environment6 = Derived ''ICoreWebView2Environment6'' ICoreWebView2Environment5
     [ICoreWebView2Environment6_CreatePrintSettings]"

definition ICoreWebView2Environment7_get_UserDataFolder :: cmethod where
  "ICoreWebView2Environment7_get_UserDataFolder =
     Method ''HRESULT'' ''get_UserDataFolder'' [''LPWSTR *value'']"

definition ICoreWebView2Environment7 :: iface where
  "ICoreWebView2Environment7 = Derived ''ICoreWebView2Environment7'' ICoreWebView2Environment6
     [ICoreWebView2Environment7_get_UserDataFolder]"

definition ICoreWebView2Environment8_add_ProcessInfosChanged :: cmethod where
  "ICoreWebView2Environment8_add_ProcessInfosChanged =
     Method ''HRESULT'' ''add_ProcessInfosChanged'' [''ICoreWebView2ProcessInfosChangedEventHandler *eventHandler'', ''EventRegistrationToken *token'']"

definition ICoreWebView2Environment8_remove_ProcessInfosChanged :: cmethod where
  "ICoreWebView2Environment8_remove_ProcessInfosChanged =
     Method ''HRESULT'' ''remove_ProcessInfosChanged'' [''EventRegistrationToken token'']"

definition ICoreWebView2Environment8_GetProcessInfos :: cmethod where
  "ICoreWebView2Environment8_GetProcessInfos =
     Method ''HRESULT'' ''GetProcessInfos'' [''ICoreWebView2ProcessInfoCollection **value'']"

definition ICoreWebView2Environment8 :: iface where
  "ICoreWebView2Environment8 = Derived ''ICoreWebView2Environment8'' ICoreWebView2Environment7
     [ICoreWebView2Environment8_add_ProcessInfosChanged, ICoreWebView2Environment8_remove_ProcessInfosChanged,
      ICoreWebView2Environment8_GetProcessInfos]"

definition ICoreWebView2Environment9_CreateContextMenuItem :: cmethod where
  "ICoreWebView2Environment9_CreateContextMenuItem =
     Method ''HRESULT'' ''CreateContextMenuItem'' [''LPCWSTR label'', ''IStream *iconStream'', ''COREWEBVIEW2_CONTEXT_MENU_ITEM_KIND kind'', ''ICoreWebView2ContextMenuItem **item'']"

definition ICoreWebView2Environment9 :: iface where
  "ICoreWebView2Environment9 = Derived ''ICoreWebView2Environment9'' ICoreWebView2Environment8
     [ICoreWebView2Environment9_CreateContextMenuItem]"

definition ICoreWebView2Environment10_CreateCoreWebView2ControllerOptions :: cmethod where
  "ICoreWebView2Environment10_CreateCoreWebView2ControllerOptions =
     Method ''HRESULT'' ''CreateCoreWebView2ControllerOptions'' [''ICoreWebView2ControllerOptions **options'']"

definition ICoreWebView2Environment10_CreateCoreWebView2ControllerWithOptions :: cmethod where
  "ICoreWebView2Environment10_CreateCoreWebView2ControllerWithOptions =
     Method ''HRESULT'' ''CreateCoreWebView2ControllerWithOptions'' [''HWND parentWindow'', ''ICoreWebView2ControllerOptions *options'', ''ICoreWebView2CreateCoreWebView2ControllerCompletedHandler *handler'']"

definition ICoreWebView2Environment10_CreateCoreWebView2CompositionControllerWithOptions :: cmethod where
  "ICoreWebView2Environment10_CreateCoreWebView2CompositionControllerWithOptions =
     Method ''HRESULT'' ''CreateCoreWebView2CompositionControllerWithOptions'' [''HWND parentWindow'', ''ICoreWebView2ControllerOptions *options'', ''ICoreWebView2CreateCoreWebView2CompositionControllerCompletedHandler *handler'']"

definition ICoreWebView2Environment10 :: iface where
  "ICoreWebView2Environment10 = Derived ''ICoreWebView2Environment10'' ICoreWebView2Environment9
     [ICoreWebView2Environment10_CreateCoreWebView2ControllerOptions,
      ICoreWebView2Environment10_CreateCoreWebView2ControllerWithOptions,
      ICoreWebView2Environment10_CreateCoreWebView2CompositionControllerWithOptions]"

definition ICoreWebView2Environment11_get_FailureReportFolderPath :: cmethod where
  "ICoreWebView2Environment11_get_FailureReportFolderPath =
     Method ''HRESULT'' ''get_FailureReportFolderPath'' [''LPWSTR *value'']"

definition ICoreWebView2Environment11 :: iface where
  "ICoreWebView2Environment11 = Derived ''ICoreWebView2Environment11'' ICoreWebView2Environment10
     [ICoreWebView2Environment11_get_FailureReportFolderPath]"

definition ICoreWebView2Environment12_CreateSharedBuffer :: cmethod where
  "ICoreWebView2Environment12_CreateSharedBuffer =
     Method ''HRESULT'' ''CreateSharedBuffer'' [''UINT64 size'', ''ICoreWebView2SharedBuffer **shared_buffer'']"

definition ICoreWebView2Environment12 :: iface where
  "ICoreWebView2Environment12 = Derived ''ICoreWebView2Environment12'' ICoreWebView2Environment11
     [ICoreWebView2Environment12_CreateSharedBuffer]"

definition ICoreWebView2Environment13 :: iface where
  "ICoreWebView2Environment13 = Derived ''ICoreWebView2Environment13'' ICoreWebView2Environment12
     [Method ''HRESULT'' ''GetProcessExtendedInfos'' [''ICoreWebView2GetProcessExtendedInfosCompletedHandler *handler'']]"

definition ICoreWebView2EnvironmentOptions :: iface where
  "ICoreWebView2EnvironmentOptions = Derived ''ICoreWebView2EnvironmentOptions'' IUnknown
     [Method ''HRESULT'' ''get_AdditionalBrowserArguments'' [''LPWSTR *value''],
      Method ''HRESULT'' ''put_AdditionalBrowserArguments'' [''LPCWSTR value''],
      Method ''HRESULT'' ''get_Language'' [''LPWSTR *value''],
      Method ''HRESULT'' ''put_Language'' [''LPCWSTR value''],
      Method ''HRESULT'' ''get_TargetCompatibleBrowserVersion'' [''LPWSTR *value''],
      Method ''HRESULT'' ''put_TargetCompatibleBrowserVersion'' [''LPCWSTR value''],
      Method ''HRESULT'' ''get_AllowSingleSignOnUsingOSPrimaryAccount'' [''BOOL *allow''],
      Method ''HRESULT'' ''put_AllowSingleSignOnUsingOSPrimaryAccount'' [''BOOL allow'']]"

definition ICoreWebView2EnvironmentOptions2 :: iface where
  "ICoreWebView2EnvironmentOptions2 = Derived ''ICoreWebView2EnvironmentOptions2'' IUnknown
     [Method ''HRESULT'' ''get_ExclusiveUserDataFolderAccess'' [''BOOL *value''],
      Method ''HRESULT'' ''put_ExclusiveUserDataFolderAccess'' [''BOOL value'']]"

definition ICoreWebView2EnvironmentOptions3 :: iface where
  "ICoreWebView2EnvironmentOptions3 = Derived ''ICoreWebView2EnvironmentOptions3'' IUnknown
     [Method ''HRESULT'' ''get_IsCustomCrashReportingEnabled'' [''BOOL *value''],
      Method ''HRESULT'' ''put_IsCustomCrashReportingEnabled'' [''BOOL value'']]"

definition ICoreWebView2EnvironmentOptions4 :: iface where
  "ICoreWebView2EnvironmentOptions4 = Derived ''ICoreWebView2EnvironmentOptions4'' IUnknown
     [Method ''HRESULT'' ''GetCustomSchemeRegistrations'' [''UINT32 *count'', ''ICoreWebView2CustomSchemeRegistration ***schemeRegistrations''],
      Method ''HRESULT'' ''SetCustomSchemeRegistrations'' [''UINT32 count'', ''ICoreWebView2CustomSchemeRegistration **schemeRegistrations'']]"

definition ICoreWebView2EnvironmentOptions5 :: iface where
  "ICoreWebView2EnvironmentOptions5 = Derived ''ICoreWebView2EnvironmentOptions5'' IUnknown
     [Method ''HRESULT'' ''get_EnableTrackingPrevention'' [''BOOL *value''],
      Method ''HRESULT'' ''put_EnableTrackingPrevention'' [''BOOL value'']]"

definition ICoreWebView2EnvironmentOptions6 :: iface where
  "ICoreWebView2EnvironmentOptions6 = Derived ''ICoreWebView2EnvironmentOptions6'' IUnknown
     [Method ''HRESULT'' ''get_AreBrowserExtensionsEnabled'' [''BOOL *value''],
      Method ''HRESULT'' ''put_AreBrowserExtensionsEnabled'' [''BOOL value'']]"

definition ICoreWebView2ProcessExtendedInfo :: iface where
  "ICoreWebView2ProcessExtendedInfo = Derived ''ICoreWebView2ProcessExtendedInfo'' IUnknown
     [Method ''HRESULT'' ''get_ProcessInfo'' [''ICoreWebView2ProcessInfo **processInfo''],
      Method ''HRESULT'' ''get_AssociatedFrameInfos'' [''ICoreWebView2FrameInfoCollection **frames'']]"

definition ICoreWebView2ProcessExtendedInfoCollection :: iface where
  "ICoreWebView2ProcessExtendedInfoCollection = Derived ''ICoreWebView2ProcessExtendedInfoCollection'' IUnknown
     [Method ''HRESULT'' ''get_Count'' [''UINT *count''],
      Method ''HRESULT'' ''GetValueAtIndex'' [''UINT32 index'', ''ICoreWebView2ProcessExtendedInfo **processInfo'']]"

definition ICoreWebView2Frame_get_Name :: cmethod where
  "ICoreWebView2Frame_get_Name =
     Method ''HRESULT'' ''get_Name'' [''LPWSTR *name'']"

definition ICoreWebView2Frame_add_NameChanged :: cmethod where
  "ICoreWebView2Frame_add_NameChanged =
     Method ''HRESULT'' ''add_NameChanged'' [''ICoreWebView2FrameNameChangedEventHandler *eventHandler'', ''EventRegistrationToken *token'']"

definition ICoreWebView2Frame_remove_NameChanged :: cmethod where
  "ICoreWebView2Frame_remove_NameChanged =
     Method ''HRESULT'' ''remove_NameChanged'' [''EventRegistrationToken token'']"

definition ICoreWebView2Frame_AddHostObjectToScriptWithOrigins :: cmethod where
  "ICoreWebView2Frame_AddHostObjectToScriptWithOrigins =
     Method ''HRESULT'' ''AddHostObjectToScriptWithOrigins'' [''LPCWSTR name'', ''VARIANT *object'', ''UINT32 originsCount'', ''LPCWSTR *origins'']"

definition ICoreWebView2Frame_RemoveHostObjectFromScript :: cmethod where
  "ICoreWebView2Frame_RemoveHostObjectFromScript =
     Method ''HRESULT'' ''RemoveHostObjectFromScript'' [''LPCWSTR name'']"

definition ICoreWebView2Frame_add_Destroyed :: cmethod where
  "ICoreWebView2Frame_add_Destroyed =
     Method ''HRESULT'' ''add_Destroyed'' [''ICoreWebView2FrameDestroyedEventHandler *eventHandler'', ''EventRegistrationToken *token'']"

definition ICoreWebView2Frame_remove_Destroyed :: cmethod where
  "ICoreWebView2Frame_remove_Destroyed =
     Method ''HRESULT'' ''remove_Destroyed'' [''EventRegistrationToken token'']"

definition ICoreWebView2Frame_IsDestroyed :: cmethod where
  "ICoreWebView2Frame_IsDestroyed =
     Method ''HRESULT'' ''IsDestroyed'' [''BOOL *destroyed'']"

definition ICoreWebView2Frame :: iface where
  "ICoreWebView2Frame = Derived ''ICoreWebView2Frame'' IUnknown
     [ICoreWebView2Frame_get_Name, ICoreWebView2Frame_add_NameChanged, ICoreWebView2Frame_remove_NameChanged,
      ICoreWebView2Frame_AddHostObjectToScriptWithOrigins, ICoreWebView2Frame_RemoveHostObjectFromScript,
      ICoreWebView2Frame_add_Destroyed, ICoreWebView2Frame_remove_Destroyed, ICoreWebView2Frame_IsDestroyed]"

definition ICoreWebView2Frame2_add_NavigationStarting :: cmethod where
  "ICoreWebView2Frame2_add_NavigationStarting =
     Method ''HRESULT'' ''add_NavigationStarting'' [''ICoreWebView2FrameNavigationStartingEventHandler *eventHandler'', ''EventRegistrationToken *token'']"

definition ICoreWebView2Frame2_remove_NavigationStarting :: cmethod where
  "ICoreWebView2Frame2_remove_NavigationStarting =
     Method ''HRESULT'' ''remove_NavigationStarting'' [''EventRegistrationToken token'']"

definition ICoreWebView2Frame2_add_ContentLoading :: cmethod where
  "ICoreWebView2Frame2_add_ContentLoading =
     Method ''HRESULT'' ''add_ContentLoading'' [''ICoreWebView2FrameContentLoadingEventHandler *eventHandler'', ''EventRegistrationToken *token'']"

definition ICoreWebView2Frame2_remove_ContentLoading :: cmethod where
  "ICoreWebView2Frame2_remove_ContentLoading =
     Method ''HRESULT'' ''remove_ContentLoading'' [''EventRegistrationToken token'']"

definition ICoreWebView2Frame2_add_NavigationCompleted :: cmethod where
  "ICoreWebView2Frame2_add_NavigationCompleted =
     Method ''HRESULT'' ''add_NavigationCompleted'' [''ICoreWebView2FrameNavigationCompletedEventHandler *eventHandler'', ''EventRegistrationToken *token'']"

definition ICoreWebView2Frame2_remove_NavigationCompleted :: cmethod where
  "ICoreWebView2Frame2_remove_NavigationCompleted =
     Method ''HRESULT'' ''remove_NavigationCompleted'' [''EventRegistrationToken token'']"

definition ICoreWebView2Frame2_add_DOMContentLoaded :: cmethod where
  "ICoreWebView2Frame2_add_DOMContentLoaded =
     Method ''HRESULT'' ''add_DOMContentLoaded'' [''ICoreWebView2FrameDOMContentLoadedEventHandler *eventHandler'', ''EventRegistrationToken *token'']"

definition ICoreWebView2Frame2_remove_DOMContentLoaded :: cmethod where
  "ICoreWebView2Frame2_remove_DOMContentLoaded =
     Method ''HRESULT'' ''remove_DOMContentLoaded'' [''EventRegistrationToken token'']"

definition ICoreWebView2Frame2_ExecuteScript :: cmethod where
  "ICoreWebView2Frame2_ExecuteScript =
     Method ''HRESULT'' ''ExecuteScript'' [''LPCWSTR javaScript'', ''ICoreWebView2ExecuteScriptCompletedHandler *handler'']"

definition ICoreWebView2Frame2_PostWebMessageAsJson :: cmethod where
  "ICoreWebView2Frame2_PostWebMessageAsJson =
     Method ''HRESULT'' ''PostWebMessageAsJson'' [''LPCWSTR webMessageAsJson'']"

definition ICoreWebView2Frame2_PostWebMessageAsString :: cmethod where
  "ICoreWebView2Frame2_PostWebMessageAsString =
     Method ''HRESULT'' ''PostWebMessageAsString'' [''LPCWSTR webMessageAsString'']"

definition ICoreWebView2Frame2_add_WebMessageReceived :: cmethod where
  "ICoreWebView2Frame2_add_WebMessageReceived =
     Method ''HRESULT'' ''add_WebMessageReceived'' [''ICoreWebView2FrameWebMessageReceivedEventHandler *handler'', ''EventRegistrationToken *token'']"

definition ICoreWebView2Frame2_remove_WebMessageReceived :: cmethod where
  "ICoreWebView2Frame2_remove_WebMessageReceived =
     Method ''HRESULT'' ''remove_WebMessageReceived'' [''EventRegistrationToken token'']"

definition ICoreWebView2Frame2 :: iface where
  "ICoreWebView2Frame2 = Derived ''ICoreWebView2Frame2'' ICoreWebView2Frame
     [ICoreWebView2Frame2_add_NavigationStarting, ICoreWebView2Frame2_remove_NavigationStarting,
      ICoreWebView2Frame2_add_ContentLoading, ICoreWebView2Frame2_remove_ContentLoading,
      ICoreWebView2Frame2_add_NavigationCompleted, ICoreWebView2Frame2_remove_NavigationCompleted,
      ICoreWebView2Frame2_add_DOMContentLoaded, ICoreWebView2Frame2_remove_DOMContentLoaded,
      ICoreWebView2Frame2_ExecuteScript, ICoreWebView2Frame2_PostWebMessageAsJson,
      ICoreWebView2Frame2_PostWebMessageAsString, ICoreWebView2Frame2_add_WebMessageReceived,
      ICoreWebView2Frame2_remove_WebMessageReceived]"

definition ICoreWebView2Frame3_add_PermissionRequested :: cmethod where
  "ICoreWebView2Frame3_add_PermissionRequested =
     Method ''HRESULT'' ''add_PermissionRequested'' [''ICoreWebView2FramePermissionRequestedEventHandler *handler'', ''EventRegistrationToken *token'']"

definition ICoreWebView2Frame3_remove_PermissionRequested :: cmethod where
  "ICoreWebView2Frame3_remove_PermissionRequested =
     Method ''HRESULT'' ''remove_PermissionRequested'' [''EventRegistrationToken token'']"

definition ICoreWebView2Frame3 :: iface where
  "ICoreWebView2Frame3 = Derived ''ICoreWebView2Frame3'' ICoreWebView2Frame2
     [ICoreWebView2Frame3_add_PermissionRequested, ICoreWebView2Frame3_remove_PermissionRequested]"

definition ICoreWebView2Frame4_PostSharedBufferToScript :: cmethod where
  "ICoreWebView2Frame4_PostSharedBufferToScript =
     Method ''HRESULT'' ''PostSharedBufferToScript'' [''ICoreWebView2SharedBuffer *sharedBuffer'', ''COREWEBVIEW2_SHARED_BUFFER_ACCESS access'', ''LPCWSTR additionalDataAsJson'']"

definition ICoreWebView2Frame4 :: iface where
  "ICoreWebView2Frame4 = Derived ''ICoreWebView2Frame4'' ICoreWebView2Frame3
     [ICoreWebView2Frame4_PostSharedBufferToScript]"

definition ICoreWebView2Frame5 :: iface where
  "ICoreWebView2Frame5 = Derived ''ICoreWebView2Frame5'' ICoreWebView2Frame4
     [Method ''HRESULT'' ''get_FrameId'' [''UINT32 *id'']]"

definition ICoreWebView2FrameInfo_get_Name :: cmethod where
  "ICoreWebView2FrameInfo_get_Name =
     Method ''HRESULT'' ''get_Name'' [''LPWSTR *name'']"

definition ICoreWebView2FrameInfo_get_Source :: cmethod where
  "ICoreWebView2FrameInfo_get_Source =
     Method ''HRESULT'' ''get_Source'' [''LPWSTR *source'']"

definition ICoreWebView2FrameInfo :: iface where
  "ICoreWebView2FrameInfo = Derived ''ICoreWebView2FrameInfo'' IUnknown
     [ICoreWebView2FrameInfo_get_Name, ICoreWebView2FrameInfo_get_Source]"

definition ICoreWebView2FrameInfo2 :: iface where
  "ICoreWebView2FrameInfo2 = Derived ''ICoreWebView2FrameInfo2'' ICoreWebView2FrameInfo
     [Method ''HRESULT'' ''get_ParentFrameInfo'' [''ICoreWebView2FrameInfo **frameInfo''],
      Method ''HRESULT'' ''get_FrameId'' [''UINT32 *id''],
      Method ''HRESULT'' ''get_FrameKind'' [''COREWEBVIEW2_FRAME_KIND *kind'']]"

definition ICoreWebView2FrameInfoCollection :: iface where
  "ICoreWebView2FrameInfoCollection = Derived ''ICoreWebView2FrameInfoCollection'' IUnknown
     [Method ''HRESULT'' ''GetIterator'' [''ICoreWebView2FrameInfoCollectionIterator **iterator'']]"

definition ICoreWebView2FrameInfoCollectionIterator :: iface where
  "ICoreWebView2FrameInfoCollectionIterator = Derived ''ICoreWebView2FrameInfoCollectionIterator'' IUnknown
     [Method ''HRESULT'' ''get_HasCurrent'' [''BOOL *hasCurrent''],
      Method ''HRESULT'' ''GetCurrent'' [''ICoreWebView2FrameInfo **frameInfo''],
      Method ''HRESULT'' ''MoveNext'' [''BOOL *hasNext'']]"

definition ICoreWebView2Profile_get_ProfileName :: cmethod where
  "ICoreWebView2Profile_get_ProfileName =
     Method ''HRESULT'' ''get_ProfileName'' [''LPWSTR *value'']"

definition ICoreWebView2Profile_get_IsInPrivateModeEnabled :: cmethod where
  "ICoreWebView2Profile_get_IsInPrivateModeEnabled =
     Method ''HRESULT'' ''get_IsInPrivateModeEnabled'' [''BOOL *value'']"

definition ICoreWebView2Profile_get_ProfilePath :: cmethod where
  "ICoreWebView2Profile_get_ProfilePath =
     Method ''HRESULT'' ''get_ProfilePath'' [''LPWSTR *value'']"

definition ICoreWebView2Profile_get_DefaultDownloadFolderPath :: cmethod where
  "ICoreWebView2Profile_get_DefaultDownloadFolderPath =
     Method ''HRESULT'' ''get_DefaultDownloadFolderPath'' [''LPWSTR *value'']"

definition ICoreWebView2Profile_put_DefaultDownloadFolderPath :: cmethod where
  "ICoreWebView2Profile_put_DefaultDownloadFolderPath =
     Method ''HRESULT'' ''put_DefaultDownloadFolderPath'' [''LPCWSTR value'']"

definition ICoreWebView2Profile_get_PreferredColorScheme :: cmethod where
  "ICoreWebView2Profile_get_PreferredColorScheme =
     Method ''HRESULT'' ''get_PreferredColorScheme'' [''COREWEBVIEW2_PREFERRED_COLOR_SCHEME *value'']"

definition ICoreWebView2Profile_put_PreferredColorScheme :: cmethod where
  "ICoreWebView2Profile_put_PreferredColorScheme =
     Method ''HRESULT'' ''put_PreferredColorScheme'' [''COREWEBVIEW2_PREFERRED_COLOR_SCHEME value'']"

definition ICoreWebView2Profile :: iface where
  "ICoreWebView2Profile = Derived ''ICoreWebView2Profile'' IUnknown
     [ICoreWebView2Profile_get_ProfileName, ICoreWebView2Profile_get_IsInPrivateModeEnabled,
      ICoreWebView2Profile_get_ProfilePath, ICoreWebView2Profile_get_DefaultDownloadFolderPath,
      ICoreWebView2Profile_put_DefaultDownloadFolderPath, ICoreWebView2Profile_get_PreferredColorScheme,
      ICoreWebView2Profile_put_PreferredColorScheme]"

definition ICoreWebView2Profile2_ClearBrowsingData :: cmethod where
  "ICoreWebView2Profile2_ClearBrowsingData =
     Method ''HRESULT'' ''ClearBrowsingData'' [''COREWEBVIEW2_BROWSING_DATA_KINDS dataKinds'', ''ICoreWebView2ClearBrowsingDataCompletedHandler *handler'']"

definition ICoreWebView2Profile2_ClearBrowsingDataInTimeRange :: cmethod where
  "ICoreWebView2Profile2_ClearBrowsingDataInTimeRange =
     Method ''HRESULT'' ''ClearBrowsingDataInTimeRange'' [''COREWEBVIEW2_BROWSING_DATA_KINDS dataKinds'', ''double startTime'', ''double endTime'', ''ICoreWebView2ClearBrowsingDataCompletedHandler *handler'']"

definition ICoreWebView2Profile2_ClearBrowsingDataAll :: cmethod where
  "ICoreWebView2Profile2_ClearBrowsingDataAll =
     Method ''HRESULT'' ''ClearBrowsingDataAll'' [''ICoreWebView2ClearBrowsingDataCompletedHandler *handler'']"

definition ICoreWebView2Profile2 :: iface where
  "ICoreWebView2Profile2 = Derived ''ICoreWebView2Profile2'' ICoreWebView2Profile
     [ICoreWebView2Profile2_ClearBrowsingData, ICoreWebView2Profile2_ClearBrowsingDataInTimeRange,
      ICoreWebView2Profile2_ClearBrowsingDataAll]"

definition ICoreWebView2Profile3_get_PreferredTrackingPreventionLevel :: cmethod where
  "ICoreWebView2Profile3_get_PreferredTrackingPreventionLevel =
     Method ''HRESULT'' ''get_PreferredTrackingPreventionLevel'' [''COREWEBVIEW2_TRACKING_PREVENTION_LEVEL *value'']"

definition ICoreWebView2Profile3_put_PreferredTrackingPreventionLevel :: cmethod where
  "ICoreWebView2Profile3_put_PreferredTrackingPreventionLevel =
     Method ''HRESULT'' ''put_PreferredTrackingPreventionLevel'' [''COREWEBVIEW2_TRACKING_PREVENTION_LEVEL value'']"

definition ICoreWebView2Profile3 :: iface where
  "ICoreWebView2Profile3 = Derived ''ICoreWebView2Profile3'' ICoreWebView2Profile2
     [ICoreWebView2Profile3_get_PreferredTrackingPreventionLevel,
      ICoreWebView2Profile3_put_PreferredTrackingPreventionLevel]"

definition ICoreWebView2Profile4_SetPermissionState :: cmethod where
  "ICoreWebView2Profile4_SetPermissionState =
     Method ''HRESULT'' ''SetPermissionState'' [''COREWEBVIEW2_PERMISSION_KIND permissionKind'', ''LPCWSTR origin'', ''COREWEBVIEW2_PERMISSION_STATE state'', ''ICoreWebView2SetPermissionStateCompletedHandler *completedHandler'']"

definition ICoreWebView2Profile4_GetNonDefaultPermissionSettings :: cmethod where
  "ICoreWebView2Profile4_GetNonDefaultPermissionSettings =
     Method ''HRESULT'' ''GetNonDefaultPermissionSettings'' [''ICoreWebView2GetNonDefaultPermissionSettingsCompletedHandler *completedHandler'']"

definition ICoreWebView2Profile4 :: iface where
  "ICoreWebView2Profile4 = Derived ''ICoreWebView2Profile4'' ICoreWebView2Profile3
     [ICoreWebView2Profile4_SetPermissionState, ICoreWebView2Profile4_GetNonDefaultPermissionSettings]"

definition ICoreWebView2Profile5_get_CookieManager :: cmethod where
  "ICoreWebView2Profile5_get_CookieManager =
     Method ''HRESULT'' ''get_CookieManager'' [''ICoreWebView2CookieManager **cookieManager'']"

definition ICoreWebView2Profile5 :: iface where
  "ICoreWebView2Profile5 = Derived ''ICoreWebView2Profile5'' ICoreWebView2Profile4
     [ICoreWebView2Profile5_get_CookieManager]"

definition ICoreWebView2Profile6_get_IsPasswordAutosaveEnabled :: cmethod where
  "ICoreWebView2Profile6_get_IsPasswordAutosaveEnabled =
     Method ''HRESULT'' ''get_IsPasswordAutosaveEnabled'' [''BOOL *value'']"

definition ICoreWebView2Profile6_put_IsPasswordAutosaveEnabled :: cmethod where
  "ICoreWebView2Profile6_put_IsPasswordAutosaveEnabled =
     Method ''HRESULT'' ''put_IsPasswordAutosaveEnabled'' [''BOOL value'']"

definition ICoreWebView2Profile6_get_IsGeneralAutofillEnabled :: cmethod where
  "ICoreWebView2Profile6_get_IsGeneralAutofillEnabled =
     Method ''HRESULT'' ''get_IsGeneralAutofillEnabled'' [''BOOL *value'']"

definition ICoreWebView2Profile6_put_IsGeneralAutofillEnabled :: cmethod where
  "ICoreWebView2Profile6_put_IsGeneralAutofillEnabled =
     Method ''HRESULT'' ''put_IsGeneralAutofillEnabled'' [''BOOL value'']"

definition ICoreWebView2Profile6 :: iface where
  "ICoreWebView2Profile6 = Derived ''ICoreWebView2Profile6'' ICoreWebView2Profile5
     [ICoreWebView2Profile6_get_IsPasswordAutosaveEnabled, ICoreWebView2Profile6_put_IsPasswordAutosaveEnabled,
      ICoreWebView2Profile6_get_IsGeneralAutofillEnabled, ICoreWebView2Profile6_put_IsGeneralAutofillEnabled]"

definition ICoreWebView2Profile7_AddBrowserExtension :: cmethod where
  "ICoreWebView2Profile7_AddBrowserExtension =
     Method ''HRESULT'' ''AddBrowserExtension'' [''LPCWSTR extensionFolderPath'', ''ICoreWebView2ProfileAddBrowserExtensionCompletedHandler *handler'']"

definition ICoreWebView2Profile7_GetBrowserExtensions :: cmethod where
  "ICoreWebView2Profile7_GetBrowserExtensions =
     Method ''HRESULT'' ''GetBrowserExtensions'' [''ICoreWebView2ProfileGetBrowserExtensionsCompletedHandler *handler'']"

definition ICoreWebView2Profile7 :: iface where
  "ICoreWebView2Profile7 = Derived ''ICoreWebView2Profile7'' ICoreWebView2Profile6
     [ICoreWebView2Profile7_AddBrowserExtension, ICoreWebView2Profile7_GetBrowserExtensions]"

definition ICoreWebView2Profile8 :: iface where
  "ICoreWebView2Profile8 = Derived ''ICoreWebView2Profile8'' ICoreWebView2Profile7
     [Method ''HRESULT'' ''Delete'' [],
      Method ''HRESULT'' ''add_Deleted'' [''ICoreWebView2ProfileDeletedEventHandler *eventHandler'', ''EventRegistrationToken *token''],
      Method ''HRESULT'' ''remove_Deleted'' [''EventRegistrationToken token'']]"

definition ICoreWebView2Settings_get_IsScriptEnabled :: cmethod where
  "ICoreWebView2Settings_get_IsScriptEnabled =
     Method ''HRESULT'' ''get_IsScriptEnabled'' [''BOOL *isScriptEnabled'']"

definition ICoreWebView2Settings_put_IsScriptEnabled :: cmethod where
  "ICoreWebView2Settings_put_IsScriptEnabled =
     Method ''HRESULT'' ''put_IsScriptEnabled'' [''BOOL isScriptEnabled'']"

definition ICoreWebView2Settings_get_IsWebMessageEnabled :: cmethod where
  "ICoreWebView2Settings_get_IsWebMessageEnabled =
     Method ''HRESULT'' ''get_IsWebMessageEnabled'' [''BOOL *isWebMessageEnabled'']"

definition ICoreWebView2Settings_put_IsWebMessageEnabled :: cmethod where
  "ICoreWebView2Settings_put_IsWebMessageEnabled =
     Method ''HRESULT'' ''put_IsWebMessageEnabled'' [''BOOL isWebMessageEnabled'']"

definition ICoreWebView2Settings_get_AreDefaultScriptDialogsEnabled :: cmethod where
  "ICoreWebView2Settings_get_AreDefaultScriptDialogsEnabled =
     Method ''HRESULT'' ''get_AreDefaultScriptDialogsEnabled'' [''BOOL *areDefaultScriptDialogsEnabled'']"

definition ICoreWebView2Settings_put_AreDefaultScriptDialogsEnabled :: cmethod where
  "ICoreWebView2Settings_put_AreDefaultScriptDialogsEnabled =
     Method ''HRESULT'' ''put_AreDefaultScriptDialogsEnabled'' [''BOOL areDefaultScriptDialogsEnabled'']"

definition ICoreWebView2Settings_get_IsStatusBarEnabled :: cmethod where
  "ICoreWebView2Settings_get_IsStatusBarEnabled =
     Method ''HRESULT'' ''get_IsStatusBarEnabled'' [''BOOL *isStatusBarEnabled'']"

definition ICoreWebView2Settings_put_IsStatusBarEnabled :: cmethod where
  "ICoreWebView2Settings_put_IsStatusBarEnabled =
     Method ''HRESULT'' ''put_IsStatusBarEnabled'' [''BOOL isStatusBarEnabled'']"

definition ICoreWebView2Settings_get_AreDevToolsEnabled :: cmethod where
  "ICoreWebView2Settings_get_AreDevToolsEnabled =
     Method ''HRESULT'' ''get_AreDevToolsEnabled'' [''BOOL *areDevToolsEnabled'']"

definition ICoreWebView2Settings_put_AreDevToolsEnabled :: cmethod where
  "ICoreWebView2Settings_put_AreDevToolsEnabled =
     Method ''HRESULT'' ''put_AreDevToolsEnabled'' [''BOOL areDevToolsEnabled'']"

definition ICoreWebView2Settings_get_AreDefaultContextMenusEnabled :: cmethod where
  "ICoreWebView2Settings_get_AreDefaultContextMenusEnabled =
     Method ''HRESULT'' ''get_AreDefaultContextMenusEnabled'' [''BOOL *enabled'']"

definition ICoreWebView2Settings_put_AreDefaultContextMenusEnabled :: cmethod where
  "ICoreWebView2Settings_put_AreDefaultContextMenusEnabled =
     Method ''HRESULT'' ''put_AreDefaultContextMenusEnabled'' [''BOOL enabled'']"

definition ICoreWebView2Settings_get_AreHostObjectsAllowed :: cmethod where
  "ICoreWebView2Settings_get_AreHostObjectsAllowed =
     Method ''HRESULT'' ''get_AreHostObjectsAllowed'' [''BOOL *allowed'']"

definition ICoreWebView2Settings_put_AreHostObjectsAllowed :: cmethod where
  "ICoreWebView2Settings_put_AreHostObjectsAllowed =
     Method ''HRESULT'' ''put_AreHostObjectsAllowed'' [''BOOL allowed'']"

definition ICoreWebView2Settings_get_IsZoomControlEnabled :: cmethod where
  "ICoreWebView2Settings_get_IsZoomControlEnabled =
     Method ''HRESULT'' ''get_IsZoomControlEnabled'' [''BOOL *enabled'']"

definition ICoreWebView2Settings_put_IsZoomControlEnabled :: cmethod where
  "ICoreWebView2Settings_put_IsZoomControlEnabled =
     Method ''HRESULT'' ''put_IsZoomControlEnabled'' [''BOOL enabled'']"

definition ICoreWebView2Settings_get_IsBuiltInErrorPageEnabled :: cmethod where
  "ICoreWebView2Settings_get_IsBuiltInErrorPageEnabled =
     Method ''HRESULT'' ''get_IsBuiltInErrorPageEnabled'' [''BOOL *enabled'']"

definition ICoreWebView2Settings_put_IsBuiltInErrorPageEnabled :: cmethod where
  "ICoreWebView2Settings_put_IsBuiltInErrorPageEnabled =
     Method ''HRESULT'' ''put_IsBuiltInErrorPageEnabled'' [''BOOL enabled'']"

definition ICoreWebView2Settings :: iface where
  "ICoreWebView2Settings = Derived ''ICoreWebView2Settings'' IUnknown
     [ICoreWebView2Settings_get_IsScriptEnabled, ICoreWebView2Settings_put_IsScriptEnabled,
      ICoreWebView2Settings_get_IsWebMessageEnabled, ICoreWebView2Settings_put_IsWebMessageEnabled,
      ICoreWebView2Settings_get_AreDefaultScriptDialogsEnabled,
      ICoreWebView2Settings_put_AreDefaultScriptDialogsEnabled, ICoreWebView2Settings_get_IsStatusBarEnabled,
      ICoreWebView2Settings_put_IsStatusBarEnabled, ICoreWebView2Settings_get_AreDevToolsEnabled,
      ICoreWebView2Settings_put_AreDevToolsEnabled, ICoreWebView2Settings_get_AreDefaultContextMenusEnabled,
      ICoreWebView2Settings_put_AreDefaultContextMenusEnabled, ICoreWebView2Settings_get_AreHostObjectsAllowed,
      ICoreWebView2Settings_put_AreHostObjectsAllowed, ICoreWebView2Settings_get_IsZoomControlEnabled,
      ICoreWebView2Settings_put_IsZoomControlEnabled, ICoreWebView2Settings_get_IsBuiltInErrorPageEnabled,
      ICoreWebView2Settings_put_IsBuiltInErrorPageEnabled]"

definition ICoreWebView2Settings2_get_UserAgent :: cmethod where
  "ICoreWebView2Settings2_get_UserAgent =
     Method ''HRESULT'' ''get_UserAgent'' [''LPWSTR *userAgent'']"

definition ICoreWebView2Settings2_put_UserAgent :: cmethod where
  "ICoreWebView2Settings2_put_UserAgent =
     Method ''HRESULT'' ''put_UserAgent'' [''LPCWSTR userAgent'']"

definition ICoreWebView2Settings2 :: iface where
  "ICoreWebView2Settings2 = Derived ''ICoreWebView2Settings2'' ICoreWebView2Settings
     [ICoreWebView2Settings2_get_UserAgent, ICoreWebView2Settings2_put_UserAgent]"

definition ICoreWebView2Settings3_get_AreBrowserAcceleratorKeysEnabled :: cmethod where
  "ICoreWebView2Settings3_get_AreBrowserAcceleratorKeysEnabled =
     Method ''HRESULT'' ''get_AreBrowserAcceleratorKeysEnabled'' [''BOOL *areBrowserAcceleratorKeysEnabled'']"

definition ICoreWebView2Settings3_put_AreBrowserAcceleratorKeysEnabled :: cmethod where
  "ICoreWebView2Settings3_put_AreBrowserAcceleratorKeysEnabled =
     Method ''HRESULT'' ''put_AreBrowserAcceleratorKeysEnabled'' [''BOOL areBrowserAcceleratorKeysEnabled'']"

definition ICoreWebView2Settings3 :: iface where
  "ICoreWebView2Settings3 = Derived ''ICoreWebView2Settings3'' ICoreWebView2Settings2
     [ICoreWebView2Settings3_get_AreBrowserAcceleratorKeysEnabled,
      ICoreWebView2Settings3_put_AreBrowserAcceleratorKeysEnabled]"

definition ICoreWebView2Settings4_get_IsPasswordAutosaveEnabled :: cmethod where
  "ICoreWebView2Settings4_get_IsPasswordAutosaveEnabled =
     Method ''HRESULT'' ''get_IsPasswordAutosaveEnabled'' [''BOOL *value'']"

definition ICoreWebView2Settings4_put_IsPasswordAutosaveEnabled :: cmethod where
  "ICoreWebView2Settings4_put_IsPasswordAutosaveEnabled =
     Method ''HRESULT'' ''put_IsPasswordAutosaveEnabled'' [''BOOL value'']"

definition ICoreWebView2Settings4_get_IsGeneralAutofillEnabled :: cmethod where
  "ICoreWebView2Settings4_get_IsGeneralAutofillEnabled =
     Method ''HRESULT'' ''get_IsGeneralAutofillEnabled'' [''BOOL *value'']"

definition ICoreWebView2Settings4_put_IsGeneralAutofillEnabled :: cmethod where
  "ICoreWebView2Settings4_put_IsGeneralAutofillEnabled =
     Method ''HRESULT'' ''put_IsGeneralAutofillEnabled'' [''BOOL value'']"

definition ICoreWebView2Settings4 :: iface where
  "ICoreWebView2Settings4 = Derived ''ICoreWebView2Settings4'' ICoreWebView2Settings3
     [ICoreWebView2Settings4_get_IsPasswordAutosaveEnabled, ICoreWebView2Settings4_put_IsPasswordAutosaveEnabled,
      ICoreWebView2Settings4_get_IsGeneralAutofillEnabled, ICoreWebView2Settings4_put_IsGeneralAutofillEnabled]"

definition ICoreWebView2Settings5_get_IsPinchZoomEnabled :: cmethod where
  "ICoreWebView2Settings5_get_IsPinchZoomEnabled =
     Method ''HRESULT'' ''get_IsPinchZoomEnabled'' [''BOOL *enabled'']"

definition ICoreWebView2Settings5_put_IsPinchZoomEnabled :: cmethod where
  "ICoreWebView2Settings5_put_IsPinchZoomEnabled =
     Method ''HRESULT'' ''put_IsPinchZoomEnabled'' [''BOOL enabled'']"

definition ICoreWebView2Settings5 :: iface where
  "ICoreWebView2Settings5 = Derived ''ICoreWebView2Settings5'' ICoreWebView2Settings4
     [ICoreWebView2Settings5_get_IsPinchZoomEnabled, ICoreWebView2Settings5_put_IsPinchZoomEnabled]"

definition ICoreWebView2Settings6_get_IsSwipeNavigationEnabled :: cmethod where
  "ICoreWebView2Settings6_get_IsSwipeNavigationEnabled =
     Method ''HRESULT'' ''get_IsSwipeNavigationEnabled'' [''BOOL *enabled'']"

definition ICoreWebView2Settings6_put_IsSwipeNavigationEnabled :: cmethod where
  "ICoreWebView2Settings6_put_IsSwipeNavigationEnabled =
     Method ''HRESULT'' ''put_IsSwipeNavigationEnabled'' [''BOOL enabled'']"

definition ICoreWebView2Settings6 :: iface where
  "ICoreWebView2Settings6 = Derived ''ICoreWebView2Settings6'' ICoreWebView2Settings5
     [ICoreWebView2Settings6_get_IsSwipeNavigationEnabled, ICoreWebView2Settings6_put_IsSwipeNavigationEnabled]"

definition ICoreWebView2Settings7_get_HiddenPdfToolbarItems :: cmethod where
  "ICoreWebView2Settings7_get_HiddenPdfToolbarItems =
     Method ''HRESULT'' ''get_HiddenPdfToolbarItems'' [''COREWEBVIEW2_PDF_TOOLBAR_ITEMS *hidden_pdf_toolbar_items'']"

definition ICoreWebView2Settings7_put_HiddenPdfToolbarItems :: cmethod where
  "ICoreWebView2Settings7_put_HiddenPdfToolbarItems =
     Method ''HRESULT'' ''put_HiddenPdfToolbarItems'' [''COREWEBVIEW2_PDF_TOOLBAR_ITEMS hidden_pdf_toolbar_items'']"

definition ICoreWebView2Settings7 :: iface where
  "ICoreWebView2Settings7 = Derived ''ICoreWebView2Settings7'' ICoreWebView2Settings6
     [ICoreWebView2Settings7_get_HiddenPdfToolbarItems, ICoreWebView2Settings7_put_HiddenPdfToolbarItems]"

definition ICoreWebView2Settings8 :: iface where
  "ICoreWebView2Settings8 = Derived ''ICoreWebView2Settings8'' ICoreWebView2Settings7
     [Method ''HRESULT'' ''get_IsReputationCheckingRequired'' [''BOOL *value''],
      Method ''HRESULT'' ''put_IsReputationCheckingRequired'' [''BOOL value'']]"

definition ICoreWebView2SharedBuffer :: iface where
  "ICoreWebView2SharedBuffer = Derived ''ICoreWebView2SharedBuffer'' IUnknown
     [Method ''HRESULT'' ''get_Size'' [''UINT64 *value''],
      Method ''HRESULT'' ''get_Buffer'' [''BYTE **value''],
      Method ''HRESULT'' ''OpenStream'' [''IStream **value''],
      Method ''HRESULT'' ''get_FileMappingHandle'' [''HANDLE *value''],
      Method ''HRESULT'' ''Close'' []]"

definition ICoreWebView2ProcessInfo :: iface where
  "ICoreWebView2ProcessInfo = Derived ''ICoreWebView2ProcessInfo'' IUnknown
     [Method ''HRESULT'' ''get_ProcessId'' [''INT32 *value''],
      Method ''HRESULT'' ''get_Kind'' [''COREWEBVIEW2_PROCESS_KIND *kind'']]"

definition ICoreWebView2ProcessInfoCollection :: iface where
  "ICoreWebView2ProcessInfoCollection = Derived ''ICoreWebView2ProcessInfoCollection'' IUnknown
     [Method ''HRESULT'' ''get_Count'' [''UINT *count''],
      Method ''HRESULT'' ''GetValueAtIndex'' [''UINT32 index'', ''ICoreWebView2ProcessInfo **processInfo'']]"

section \<open>Members of the tables that later ones repeat\<close>

definition ICoreWebView2CompositionController_get_RootVisualTarget_C :: cdecl where
  "ICoreWebView2CompositionController_get_RootVisualTarget_C =
     CDecl ''ICoreWebView2CompositionController'' ''HRESULT'' ''get_RootVisualTarget'' [''IUnknown **target'']"

definition ICoreWebView2CompositionController_put_RootVisualTarget_C :: cdecl where
  "ICoreWebView2CompositionController_put_RootVisualTarget_C =
     CDecl ''ICoreWebView2CompositionController'' ''HRESULT'' ''put_RootVisualTarget'' [''IUnknown *target'']"

definition ICoreWebView2CompositionController_SendMouseInput_C :: cdecl where
  "ICoreWebView2CompositionController_SendMouseInput_C =
     CDecl ''ICoreWebView2CompositionController'' ''HRESULT'' ''SendMouseInput'' [''COREWEBVIEW2_MOUSE_EVENT_KIND eventKind'', ''COREWEBVIEW2_MOUSE_EVENT_VIRTUAL_KEYS virtualKeys'', ''UINT32 mouseData'', ''POINT point'']"

definition ICoreWebView2CompositionController_SendPointerInput_C :: cdecl where
  "ICoreWebView2CompositionController_SendPointerInput_C =
     CDecl ''ICoreWebView2CompositionController'' ''HRESULT'' ''SendPointerInput'' [''COREWEBVIEW2_POINTER_EVENT_KIND eventKind'', ''ICoreWebView2PointerInfo *pointerInfo'']"

definition ICoreWebView2CompositionController_get_Cursor_C :: cdecl where
  "ICoreWebView2CompositionController_get_Cursor_C =
     CDecl ''ICoreWebView2CompositionController'' ''HRESULT'' ''get_Cursor'' [''HCURSOR *cursor'']"

definition ICoreWebView2CompositionController_get_SystemCursorId_C :: cdecl where
  "ICoreWebView2CompositionController_get_SystemCursorId_C =
     CDecl ''ICoreWebView2CompositionController'' ''HRESULT'' ''get_SystemCursorId'' [''UINT32 *systemCursorId'']"

definition ICoreWebView2CompositionController_add_CursorChanged_C :: cdecl where
  "ICoreWebView2CompositionController_add_CursorChanged_C =
     CDecl ''ICoreWebView2CompositionController'' ''HRESULT'' ''add_CursorChanged'' [''ICoreWebView2CursorChangedEventHandler *eventHandler'', ''EventRegistrationToken *token'']"

definition ICoreWebView2CompositionController_remove_CursorChanged_C :: cdecl where
  "ICoreWebView2CompositionController_remove_CursorChanged_C =
     CDecl ''ICoreWebView2CompositionController'' ''HRESULT'' ''remove_CursorChanged'' [''EventRegistrationToken token'']"

definition ICoreWebView2CompositionController2_get_AutomationProvider_C :: cdecl where
  "ICoreWebView2CompositionController2_get_AutomationProvider_C =
     CDecl ''ICoreWebView2CompositionController2'' ''HRESULT'' ''get_AutomationProvider'' [''IUnknown **provider'']"

definition ICoreWebView2Controller_get_IsVisible_C :: cdecl where
  "ICoreWebView2Controller_get_IsVisible_C =
     CDecl ''ICoreWebView2Controller'' ''HRESULT'' ''get_IsVisible'' [''BOOL *isVisible'']"

definition ICoreWebView2Controller_put_IsVisible_C :: cdecl where
  "ICoreWebView2Controller_put_IsVisible_C =
     CDecl ''ICoreWebView2Controller'' ''HRESULT'' ''put_IsVisible'' [''BOOL isVisible'']"

definition ICoreWebView2Controller_get_Bounds_C :: cdecl where
  "ICoreWebView2Controller_get_Bounds_C =
     CDecl ''ICoreWebView2Controller'' ''HRESULT'' ''get_Bounds'' [''RECT *bounds'']"

definition ICoreWebView2Controller_put_Bounds_C :: cdecl where
  "ICoreWebView2Controller_put_Bounds_C =
     CDecl ''ICoreWebView2Controller'' ''HRESULT'' ''put_Bounds'' [''RECT bounds'']"

definition ICoreWebView2Controller_get_ZoomFactor_C :: cdecl where
  "ICoreWebView2Controller_get_ZoomFactor_C =
     CDecl ''ICoreWebView2Controller'' ''HRESULT'' ''get_ZoomFactor'' [''double *zoomFactor'']"

definition ICoreWebView2Controller_put_ZoomFactor_C :: cdecl where
  "ICoreWebView2Controller_put_ZoomFactor_C =
     CDecl ''ICoreWebView2Controller'' ''HRESULT'' ''put_ZoomFactor'' [''double zoomFactor'']"

definition ICoreWebView2Controller_add_ZoomFactorChanged_C :: cdecl where
  "ICoreWebView2Controller_add_ZoomFactorChanged_C =
     CDecl ''ICoreWebView2Controller'' ''HRESULT'' ''add_ZoomFactorChanged'' [''ICoreWebView2ZoomFactorChangedEventHandler *eventHandler'', ''EventRegistrationToken *token'']"

definition ICoreWebView2Controller_remove_ZoomFactorChanged_C :: cdecl where
  "ICoreWebView2Controller_remove_ZoomFactorChanged_C =
     CDecl ''ICoreWebView2Controller'' ''HRESULT'' ''remove_ZoomFactorChanged'' [''EventRegistrationToken token'']"

definition ICoreWebView2Controller_SetBoundsAndZoomFactor_C :: cdecl where
  "ICoreWebView2Controller_SetBoundsAndZoomFactor_C =
     CDecl ''ICoreWebView2Controller'' ''HRESULT'' ''SetBoundsAndZoomFactor'' [''RECT bounds'', ''double zoomFactor'']"

definition ICoreWebView2Controller_MoveFocus_C :: cdecl where
  "ICoreWebView2Controller_MoveFocus_C =
     CDecl ''ICoreWebView2Controller'' ''HRESULT'' ''MoveFocus'' [''COREWEBVIEW2_MOVE_FOCUS_REASON reason'']"

definition ICoreWebView2Controller_add_MoveFocusRequested_C :: cdecl where
  "ICoreWebView2Controller_add_MoveFocusRequested_C =
     CDecl ''ICoreWebView2Controller'' ''HRESULT'' ''add_MoveFocusRequested'' [''ICoreWebView2MoveFocusRequestedEventHandler *eventHandler'', ''EventRegistrationToken *token'']"

definition ICoreWebView2Controller_remove_MoveFocusRequested_C :: cdecl where
  "ICoreWebView2Controller_remove_MoveFocusRequested_C =
     CDecl ''ICoreWebView2Controller'' ''HRESULT'' ''remove_MoveFocusRequested'' [''EventRegistrationToken token'']"

definition ICoreWebView2Controller_add_GotFocus_C :: cdecl where
  "ICoreWebView2Controller_add_GotFocus_C =
     CDecl ''ICoreWebView2Controller'' ''HRESULT'' ''add_GotFocus'' [''ICoreWebView2FocusChangedEventHandler *eventHandler'', ''EventRegistrationToken *token'']"

definition ICoreWebView2Controller_remove_GotFocus_C :: cdecl where
  "ICoreWebView2Controller_remove_GotFocus_C =
     CDecl ''ICoreWebView2Controller'' ''HRESULT'' ''remove_GotFocus'' [''EventRegistrationToken token'']"

definition ICoreWebView2Controller_add_LostFocus_C :: cdecl where
  "ICoreWebView2Controller_add_LostFocus_C =
     CDecl ''ICoreWebView2Controller'' ''HRESULT'' ''add_LostFocus'' [''ICoreWebView2FocusChangedEventHandler *eventHandler'', ''EventRegistrationToken *token'']"

definition ICoreWebView2Controller_remove_LostFocus_C :: cdecl where
  "ICoreWebView2Controller_remove_LostFocus_C =
     CDecl ''ICoreWebView2Controller'' ''HRESULT'' ''remove_LostFocus'' [''EventRegistrationToken token'']"

definition ICoreWebView2Controller_add_AcceleratorKeyPressed_C :: cdecl where
  "ICoreWebView2Controller_add_AcceleratorKeyPressed_C =
     CDecl ''ICoreWebView2Controller'' ''HRESULT'' ''add_AcceleratorKeyPressed'' [''ICoreWebView2AcceleratorKeyPressedEventHandler *eventHandler'', ''EventRegistrationToken *token'']"

definition ICoreWebView2Controller_remove_AcceleratorKeyPressed_C :: cdecl where
  "ICoreWebView2Controller_remove_AcceleratorKeyPressed_C =
     CDecl ''ICoreWebView2Controller'' ''HRESULT'' ''remove_AcceleratorKeyPressed'' [''EventRegistrationToken token'']"

definition ICoreWebView2Controller_get_ParentWindow_C :: cdecl where
  "ICoreWebView2Controller_get_ParentWindow_C =
     CDecl ''ICoreWebView2Controller'' ''HRESULT'' ''get_ParentWindow'' [''HWND *parentWindow'']"

definition ICoreWebView2Controller_put_ParentWindow_C :: cdecl where
  "ICoreWebView2Controller_put_ParentWindow_C =
     CDecl ''ICoreWebView2Controller'' ''HRESULT'' ''put_ParentWindow'' [''HWND parentWindow'']"

definition ICoreWebView2Controller_NotifyParentWindowPositionChanged_C :: cdecl where
  "ICoreWebView2Controller_NotifyParentWindowPositionChanged_C =
     CDecl ''ICoreWebView2Controller'' ''HRESULT'' ''NotifyParentWindowPositionChanged'' []"

definition ICoreWebView2Controller_Close_C :: cdecl where
  "ICoreWebView2Controller_Close_C =
     CDecl ''ICoreWebView2Controller'' ''HRESULT'' ''Close'' []"

definition ICoreWebView2Controller_get_CoreWebView2_C :: cdecl where
  "ICoreWebView2Controller_get_CoreWebView2_C =
     CDecl ''ICoreWebView2Controller'' ''HRESULT'' ''get_CoreWebView2'' [''ICoreWebView2 **coreWebView2'']"

definition ICoreWebView2Controller2_get_DefaultBackgroundColor_C :: cdecl where
  "ICoreWebView2Controller2_get_DefaultBackgroundColor_C =
     CDecl ''ICoreWebView2Controller2'' ''HRESULT'' ''get_DefaultBackgroundColor'' [''COREWEBVIEW2_COLOR *backgroundColor'']"

definition ICoreWebView2Controller2_put_DefaultBackgroundColor_C :: cdecl where
  "ICoreWebView2Controller2_put_DefaultBackgroundColor_C =
     CDecl ''ICoreWebView2Controller2'' ''HRESULT'' ''put_DefaultBackgroundColor'' [''COREWEBVIEW2_COLOR backgroundColor'']"

definition ICoreWebView2Controller3_get_RasterizationScale_C :: cdecl where
  "ICoreWebView2Controller3_get_RasterizationScale_C =
     CDecl ''ICoreWebView2Controller3'' ''HRESULT'' ''get_RasterizationScale'' [''double *scale'']"

definition ICoreWebView2Controller3_put_RasterizationScale_C :: cdecl where
  "ICoreWebView2Controller3_put_RasterizationScale_C =
     CDecl ''ICoreWebView2Controller3'' ''HRESULT'' ''put_RasterizationScale'' [''double scale'']"

definition ICoreWebView2Controller3_get_ShouldDetectMonitorScaleChanges_C :: cdecl where
  "ICoreWebView2Controller3_get_ShouldDetectMonitorScaleChanges_C =
     CDecl ''ICoreWebView2Controller3'' ''HRESULT'' ''get_ShouldDetectMonitorScaleChanges'' [''BOOL *value'']"

definition ICoreWebView2Controller3_put_ShouldDetectMonitorScaleChanges_C :: cdecl where
  "ICoreWebView2Controller3_put_ShouldDetectMonitorScaleChanges_C =
     CDecl ''ICoreWebView2Controller3'' ''HRESULT'' ''put_ShouldDetectMonitorScaleChanges'' [''BOOL value'']"

definition ICoreWebView2Controller3_add_RasterizationScaleChanged_C :: cdecl where
  "ICoreWebView2Controller3_add_RasterizationScaleChanged_C =
     CDecl ''ICoreWebView2Controller3'' ''HRESULT'' ''add_RasterizationScaleChanged'' [''ICoreWebView2RasterizationScaleChangedEventHandler *eventHandler'', ''EventRegistrationToken *token'']"

definition ICoreWebView2Controller3_remove_RasterizationScaleChanged_C :: cdecl where
  "ICoreWebView2Controller3_remove_RasterizationScaleChanged_C =
     CDecl ''ICoreWebView2Controller3'' ''HRESULT'' ''remove_RasterizationScaleChanged'' [''EventRegistrationToken token'']"

definition ICoreWebView2Controller3_get_BoundsMode_C :: cdecl where
  "ICoreWebView2Controller3_get_BoundsMode_C =
     CDecl ''ICoreWebView2Controller3'' ''HRESULT'' ''get_BoundsMode'' [''COREWEBVIEW2_BOUNDS_MODE *boundsMode'']"

definition ICoreWebView2Controller3_put_BoundsMode_C :: cdecl where
  "ICoreWebView2Controller3_put_BoundsMode_C =
     CDecl ''ICoreWebView2Controller3'' ''HRESULT'' ''put_BoundsMode'' [''COREWEBVIEW2_BOUNDS_MODE boundsMode'']"

definition ICoreWebView2ControllerOptions_get_ProfileName_C :: cdecl where
  "ICoreWebView2ControllerOptions_get_ProfileName_C =
     CDecl ''ICoreWebView2ControllerOptions'' ''HRESULT'' ''get_ProfileName'' [''LPWSTR *value'']"

definition ICoreWebView2ControllerOptions_put_ProfileName_C :: cdecl where
  "ICoreWebView2ControllerOptions_put_ProfileName_C =
     CDecl ''ICoreWebView2ControllerOptions'' ''HRESULT'' ''put_ProfileName'' [''LPCWSTR value'']"

definition ICoreWebView2ControllerOptions_get_IsInPrivateModeEnabled_C :: cdecl where
  "ICoreWebView2ControllerOptions_get_IsInPrivateModeEnabled_C =
     CDecl ''ICoreWebView2ControllerOptions'' ''HRESULT'' ''get_IsInPrivateModeEnabled'' [''BOOL *value'']"

definition ICoreWebView2ControllerOptions_put_IsInPrivateModeEnabled_C :: cdecl where
  "ICoreWebView2ControllerOptions_put_IsInPrivateModeEnabled_C =
     CDecl ''ICoreWebView2ControllerOptions'' ''HRESULT'' ''put_IsInPrivateModeEnabled'' [''BOOL value'']"

definition ICoreWebView2Environment_CreateCoreWebView2Controller_C :: cdecl where
  "ICoreWebView2Environment_CreateCoreWebView2Controller_C =
     CDecl ''ICoreWebView2Environment'' ''HRESULT'' ''CreateCoreWebView2Controller'' [''HWND parentWindow'', ''ICoreWebView2CreateCoreWebView2ControllerCompletedHandler *handler'']"

definition ICoreWebView2Environment_CreateWebResourceResponse_C :: cdecl where
  "ICoreWebView2Environment_CreateWebResourceResponse_C =
     CDecl ''ICoreWebView2Environment'' ''HRESULT'' ''CreateWebResourceResponse'' [''IStream *content'', ''int statusCode'', ''LPCWSTR reasonPhrase'', ''LPCWSTR headers'', ''ICoreWebView2WebResourceResponse **response'']"

definition ICoreWebView2Environment_get_BrowserVersionString_C :: cdecl where
  "ICoreWebView2Environment_get_BrowserVersionString_C =
     CDecl ''ICoreWebView2Environment'' ''HRESULT'' ''get_BrowserVersionString'' [''LPWSTR *versionInfo'']"

definition ICoreWebView2Environment_add_NewBrowserVersionAvailable_C :: cdecl where
  "ICoreWebView2Environment_add_NewBrowserVersionAvailable_C =
     CDecl ''ICoreWebView2Environment'' ''HRESULT'' ''add_NewBrowserVersionAvailable'' [''ICoreWebView2NewBrowserVersionAvailableEventHandler *eventHandler'', ''EventRegistrationToken *token'']"

definition ICoreWebView2Environment_remove_NewBrowserVersionAvailable_C :: cdecl where
  "ICoreWebView2Environment_remove_NewBrowserVersionAvailable_C =
     CDecl ''ICoreWebView2Environment'' ''HRESULT'' ''remove_NewBrowserVersionAvailable'' [''EventRegistrationToken token'']"

definition ICoreWebView2Environment2_CreateWebResourceRequest_C :: cdecl where
  "ICoreWebView2Environment2_CreateWebResourceRequest_C =
     CDecl ''ICoreWebView2Environment2'' ''HRESULT'' ''CreateWebResourceRequest'' [''LPCWSTR uri'', ''LPCWSTR method'', ''IStream *postData'', ''LPCWSTR headers'', ''ICoreWebView2WebResourceRequest **request'']"

definition ICoreWebView2Environment3_CreateCoreWebView2CompositionController_C :: cdecl where
  "ICoreWebView2Environment3_CreateCoreWebView2CompositionController_C =
     CDecl ''ICoreWebView2Environment3'' ''HRESULT'' ''CreateCoreWebView2CompositionController'' [''HWND parentWindow'', ''ICoreWebView2CreateCoreWebView2CompositionControllerCompletedHandler *handler'']"

definition ICoreWebView2Environment3_CreateCoreWebView2PointerInfo_C :: cdecl where
  "ICoreWebView2Environment3_CreateCoreWebView2PointerInfo_C =
     CDecl ''ICoreWebView2Environment3'' ''HRESULT'' ''CreateCoreWebView2PointerInfo'' [''ICoreWebView2PointerInfo **pointerInfo'']"

definition ICoreWebView2Environment4_GetAutomationProviderForWindow_C :: cdecl where
  "ICoreWebView2Environment4_GetAutomationProviderForWindow_C =
     CDecl ''ICoreWebView2Environment4'' ''HRESULT'' ''GetAutomationProviderForWindow'' [''HWND hwnd'', ''IUnknown **provider'']"

definition ICoreWebView2Environment5_add_BrowserProcessExited_C :: cdecl where
  "ICoreWebView2Environment5_add_BrowserProcessExited_C =
     CDecl ''ICoreWebView2Environment5'' ''HRESULT'' ''add_BrowserProcessExited'' [''ICoreWebView2BrowserProcessExitedEventHandler *eventHandler'', ''EventRegistrationToken *token'']"

definition ICoreWebView2Environment5_remove_BrowserProcessExited_C :: cdecl where
  "ICoreWebView2Environment5_remove_BrowserProcessExited_C =
     CDecl ''ICoreWebView2Environment5'' ''HRESULT'' ''remove_BrowserProcessExited'' [''EventRegistrationToken token'']"

definition ICoreWebView2Environment6_CreatePrintSettings_C :: cdecl where
  "ICoreWebView2Environment6_CreatePrintSettings_C =
     CDecl ''ICoreWebView2Environment6'' ''HRESULT'' ''CreatePrintSettings'' [''ICoreWebView2PrintSettings **printSettings'']"

definition ICoreWebView2Environment7_get_UserDataFolder_C :: cdecl where
  "ICoreWebView2Environment7_get_UserDataFolder_C =
     CDecl ''ICoreWebView2Environment7'' ''HRESULT'' ''get_UserDataFolder'' [''LPWSTR *value'']"

definition ICoreWebView2Environment8_add_ProcessInfosChanged_C :: cdecl where
  "ICoreWebView2Environment8_add_ProcessInfosChanged_C =
     CDecl ''ICoreWebView2Environment8'' ''HRESULT'' ''add_ProcessInfosChanged'' [''ICoreWebView2ProcessInfosChangedEventHandler *eventHandler'', ''EventRegistrationToken *token'']"

definition ICoreWebView2Environment8_remove_ProcessInfosChanged_C :: cdecl where
  "ICoreWebView2Environment8_remove_ProcessInfosChanged_C =
     CDecl ''ICoreWebView2Environment8'' ''HRESULT'' ''remove_ProcessInfosChanged'' [''EventRegistrationToken token'']"

definition ICoreWebView2Environment8_GetProcessInfos_C :: cdecl where
  "ICoreWebView2Environment8_GetProcessInfos_C =
     CDecl ''ICoreWebView2Environment8'' ''HRESULT'' ''GetProcessInfos'' [''ICoreWebView2ProcessInfoCollection **value'']"

definition ICoreWebView2Environment9_CreateContextMenuItem_C :: cdecl where
  "ICoreWebView2Environment9_CreateContextMenuItem_C =
     CDecl ''ICoreWebView2Environment9'' ''HRESULT'' ''CreateContextMenuItem'' [''LPCWSTR label'', ''IStream *iconStream'', ''COREWEBVIEW2_CONTEXT_MENU_ITEM_KIND kind'', ''ICoreWebView2ContextMenuItem **item'']"

definition ICoreWebView2Environment10_CreateCoreWebView2ControllerOptions_C :: cdecl where
  "ICoreWebView2Environment10_CreateCoreWebView2ControllerOptions_C =
     CDecl ''ICoreWebView2Environment10'' ''HRESULT'' ''CreateCoreWebView2ControllerOptions'' [''ICoreWebView2ControllerOptions **options'']"

definition ICoreWebView2Environment10_CreateCoreWebView2ControllerWithOptions_C :: cdecl where
  "ICoreWebView2Environment10_CreateCoreWebView2ControllerWithOptions_C =
     CDecl ''ICoreWebView2Environment10'' ''HRESULT'' ''CreateCoreWebView2ControllerWithOptions'' [''HWND parentWindow'', ''ICoreWebView2ControllerOptions *options'', ''ICoreWebView2CreateCoreWebView2ControllerCompletedHandler *handler'']"

definition ICoreWebView2Environment10_CreateCoreWebView2CompositionControllerWithOptions_C :: cdecl where
  "ICoreWebView2Environment10_CreateCoreWebView2CompositionControllerWithOptions_C =
     CDecl ''ICoreWebView2Environment10'' ''HRESULT'' ''CreateCoreWebView2CompositionControllerWithOptions'' [''HWND parentWindow'', ''ICoreWebView2ControllerOptions *options'', ''ICoreWebView2CreateCoreWebView2CompositionControllerCompletedHandler *handler'']"

definition ICoreWebView2Environment11_get_FailureReportFolderPath_C :: cdecl where
  "ICoreWebView2Environment11_get_FailureReportFolderPath_C =
     CDecl ''ICoreWebView2Environment11'' ''HRESULT'' ''get_FailureReportFolderPath'' [''LPWSTR *value'']"

definition ICoreWebView2Environment12_CreateSharedBuffer_C :: cdecl where
  "ICoreWebView2Environment12_CreateSharedBuffer_C =
     CDecl ''ICoreWebView2Environment12'' ''HRESULT'' ''CreateSharedBuffer'' [''UINT64 size'', ''ICoreWebView2SharedBuffer **shared_buffer'']"

definition ICoreWebView2Frame_get_Name_C :: cdecl where
  "ICoreWebView2Frame_get_Name_C =
     CDecl ''ICoreWebView2Frame'' ''HRESULT'' ''get_Name'' [''LPWSTR *name'']"

definition ICoreWebView2Frame_add_NameChanged_C :: cdecl where
  "ICoreWebView2Frame_add_NameChanged_C =
     CDecl ''ICoreWebView2Frame'' ''HRESULT'' ''add_NameChanged'' [''ICoreWebView2FrameNameChangedEventHandler *eventHandler'', ''EventRegistrationToken *token'']"

definition ICoreWebView2Frame_remove_NameChanged_C :: cdecl where
  "ICoreWebView2Frame_remove_NameChanged_C =
     CDecl ''ICoreWebView2Frame'' ''HRESULT'' ''remove_NameChanged'' [''EventRegistrationToken token'']"

definition ICoreWebView2Frame_AddHostObjectToScriptWithOrigins_C :: cdecl where
  "ICoreWebView2Frame_AddHostObjectToScriptWithOrigins_C =
     CDecl ''ICoreWebView2Frame'' ''HRESULT'' ''AddHostObjectToScriptWithOrigins'' [''LPCWSTR name'', ''VARIANT *object'', ''UINT32 originsCount'', ''LPCWSTR *origins'']"

definition ICoreWebView2Frame_RemoveHostObjectFromScript_C :: cdecl where
  "ICoreWebView2Frame_RemoveHostObjectFromScript_C =
     CDecl ''ICoreWebView2Frame'' ''HRESULT'' ''RemoveHostObjectFromScript'' [''LPCWSTR name'']"

definition ICoreWebView2Frame_add_Destroyed_C :: cdecl where
  "ICoreWebView2Frame_add_Destroyed_C =
     CDecl ''ICoreWebView2Frame'' ''HRESULT'' ''add_Destroyed'' [''ICoreWebView2FrameDestroyedEventHandler *eventHandler'', ''EventRegistrationToken *token'']"

definition ICoreWebView2Frame_remove_Destroyed_C :: cdecl where
  "ICoreWebView2Frame_remove_Destroyed_C =
     CDecl ''ICoreWebView2Frame'' ''HRESULT'' ''remove_Destroyed'' [''EventRegistrationToken token'']"

definition ICoreWebView2Frame_IsDestroyed_C :: cdecl where
  "ICoreWebView2Frame_IsDestroyed_C =
     CDecl ''ICoreWebView2Frame'' ''HRESULT'' ''IsDestroyed'' [''BOOL *destroyed'']"

definition ICoreWebView2Frame2_add_NavigationStarting_C :: cdecl where
  "ICoreWebView2Frame2_add_NavigationStarting_C =
     CDecl ''ICoreWebView2Frame2'' ''HRESULT'' ''add_NavigationStarting'' [''ICoreWebView2FrameNavigationStartingEventHandler *eventHandler'', ''EventRegistrationToken *token'']"

definition ICoreWebView2Frame2_remove_NavigationStarting_C :: cdecl where
  "ICoreWebView2Frame2_remove_NavigationStarting_C =
     CDecl ''ICoreWebView2Frame2'' ''HRESULT'' ''remove_NavigationStarting'' [''EventRegistrationToken token'']"

definition ICoreWebView2Frame2_add_ContentLoading_C :: cdecl where
  "ICoreWebView2Frame2_add_ContentLoading_C =
     CDecl ''ICoreWebView2Frame2'' ''HRESULT'' ''add_ContentLoading'' [''ICoreWebView2FrameContentLoadingEventHandler *eventHandler'', ''EventRegistrationToken *token'']"

definition ICoreWebView2Frame2_remove_ContentLoading_C :: cdecl where
  "ICoreWebView2Frame2_remove_ContentLoading_C =
     CDecl ''ICoreWebView2Frame2'' ''HRESULT'' ''remove_ContentLoading'' [''EventRegistrationToken token'']"

definition ICoreWebView2Frame2_add_NavigationCompleted_C :: cdecl where
  "ICoreWebView2Frame2_add_NavigationCompleted_C =
     CDecl ''ICoreWebView2Frame2'' ''HRESULT'' ''add_NavigationCompleted'' [''ICoreWebView2FrameNavigationCompletedEventHandler *eventHandler'', ''EventRegistrationToken *token'']"

definition ICoreWebView2Frame2_remove_NavigationCompleted_C :: cdecl where
  "ICoreWebView2Frame2_remove_NavigationCompleted_C =
     CDecl ''ICoreWebView2Frame2'' ''HRESULT'' ''remove_NavigationCompleted'' [''EventRegistrationToken token'']"

definition ICoreWebView2Frame2_add_DOMContentLoaded_C :: cdecl where
  "ICoreWebView2Frame2_add_DOMContentLoaded_C =
     CDecl ''ICoreWebView2Frame2'' ''HRESULT'' ''add_DOMContentLoaded'' [''ICoreWebView2FrameDOMContentLoadedEventHandler *eventHandler'', ''EventRegistrationToken *token'']"

definition ICoreWebView2Frame2_remove_DOMContentLoaded_C :: cdecl where
  "ICoreWebView2Frame2_remove_DOMContentLoaded_C =
     CDecl ''ICoreWebView2Frame2'' ''HRESULT'' ''remove_DOMContentLoaded'' [''EventRegistrationToken token'']"

definition ICoreWebView2Frame2_ExecuteScript_C :: cdecl where
  "ICoreWebView2Frame2_ExecuteScript_C =
     CDecl ''ICoreWebView2Frame2'' ''HRESULT'' ''ExecuteScript'' [''LPCWSTR javaScript'', ''ICoreWebView2ExecuteScriptCompletedHandler *handler'']"

definition ICoreWebView2Frame2_PostWebMessageAsJson_C :: cdecl where
  "ICoreWebView2Frame2_PostWebMessageAsJson_C =
     CDecl ''ICoreWebView2Frame2'' ''HRESULT'' ''PostWebMessageAsJson'' [''LPCWSTR webMessageAsJson'']"

definition ICoreWebView2Frame2_PostWebMessageAsString_C :: cdecl where
  "ICoreWebView2Frame2_PostWebMessageAsString_C =
     CDecl ''ICoreWebView2Frame2'' ''HRESULT'' ''PostWebMessageAsString'' [''LPCWSTR webMessageAsString'']"

definition ICoreWebView2Frame2_add_WebMessageReceived_C :: cdecl where
  "ICoreWebView2Frame2_add_WebMessageReceived_C =
     CDecl ''ICoreWebView2Frame2'' ''HRESULT'' ''add_WebMessageReceived'' [''ICoreWebView2FrameWebMessageReceivedEventHandler *handler'', ''EventRegistrationToken *token'']"

definition ICoreWebView2Frame2_remove_WebMessageReceived_C :: cdecl where
  "ICoreWebView2Frame2_remove_WebMessageReceived_C =
     CDecl ''ICoreWebView2Frame2'' ''HRESULT'' ''remove_WebMessageReceived'' [''EventRegistrationToken token'']"

definition ICoreWebView2Frame3_add_PermissionRequested_C :: cdecl where
  "ICoreWebView2Frame3_add_PermissionRequested_C =
     CDecl ''ICoreWebView2Frame3'' ''HRESULT'' ''add_PermissionRequested'' [''ICoreWebView2FramePermissionRequestedEventHandler *handler'', ''EventRegistrationToken *token'']"

definition ICoreWebView2Frame3_remove_PermissionRequested_C :: cdecl where
  "ICoreWebView2Frame3_remove_PermissionRequested_C =
     CDecl ''ICoreWebView2Frame3'' ''HRESULT'' ''remove_PermissionRequested'' [''EventRegistrationToken token'']"

definition ICoreWebView2Frame4_PostSharedBufferToScript_C :: cdecl where
  "ICoreWebView2Frame4_PostSharedBufferToScript_C =
     CDecl ''ICoreWebView2Frame4'' ''HRESULT'' ''PostSharedBufferToScript'' [''ICoreWebView2SharedBuffer *sharedBuffer'', ''COREWEBVIEW2_SHARED_BUFFER_ACCESS access'', ''LPCWSTR additionalDataAsJson'']"

definition ICoreWebView2FrameInfo_get_Name_C :: cdecl where
  "ICoreWebView2FrameInfo_get_Name_C =
     CDecl ''ICoreWebView2FrameInfo'' ''HRESULT'' ''get_Name'' [''LPWSTR *name'']"

definition ICoreWebView2FrameInfo_get_Source_C :: cdecl where
  "ICoreWebView2FrameInfo_get_Source_C =
     CDecl ''ICoreWebView2FrameInfo'' ''HRESULT'' ''get_Source'' [''LPWSTR *source'']"

definition ICoreWebView2Profile_get_ProfileName_C :: cdecl where
  "ICoreWebView2Profile_get_ProfileName_C =
     CDecl ''ICoreWebView2Profile'' ''HRESULT'' ''get_ProfileName'' [''LPWSTR *value'']"

definition ICoreWebView2Profile_get_IsInPrivateModeEnabled_C :: cdecl where
  "ICoreWebView2Profile_get_IsInPrivateModeEnabled_C =
     CDecl ''ICoreWebView2Profile'' ''HRESULT'' ''get_IsInPrivateModeEnabled'' [''BOOL *value'']"

definition ICoreWebView2Profile_get_ProfilePath_C :: cdecl where
  "ICoreWebView2Profile_get_ProfilePath_C =
     CDecl ''ICoreWebView2Profile'' ''HRESULT'' ''get_ProfilePath'' [''LPWSTR *value'']"

definition ICoreWebView2Profile_get_DefaultDownloadFolderPath_C :: cdecl where
  "ICoreWebView2Profile_get_DefaultDownloadFolderPath_C =
     CDecl ''ICoreWebView2Profile'' ''HRESULT'' ''get_DefaultDownloadFolderPath'' [''LPWSTR *value'']"

definition ICoreWebView2Profile_put_DefaultDownloadFolderPath_C :: cdecl where
  "ICoreWebView2Profile_put_DefaultDownloadFolderPath_C =
     CDecl ''ICoreWebView2Profile'' ''HRESULT'' ''put_DefaultDownloadFolderPath'' [''LPCWSTR value'']"

definition ICoreWebView2Profile_get_PreferredColorScheme_C :: cdecl where
  "ICoreWebView2Profile_get_PreferredColorScheme_C =
     CDecl ''ICoreWebView2Profile'' ''HRESULT'' ''get_PreferredColorScheme'' [''COREWEBVIEW2_PREFERRED_COLOR_SCHEME *value'']"

definition ICoreWebView2Profile_put_PreferredColorScheme_C :: cdecl where
  "ICoreWebView2Profile_put_PreferredColorScheme_C =
     CDecl ''ICoreWebView2Profile'' ''HRESULT'' ''put_PreferredColorScheme'' [''COREWEBVIEW2_PREFERRED_COLOR_SCHEME value'']"

definition ICoreWebView2Profile2_ClearBrowsingData_C :: cdecl where
  "ICoreWebView2Profile2_ClearBrowsingData_C =
     CDecl ''ICoreWebView2Profile2'' ''HRESULT'' ''ClearBrowsingData'' [''COREWEBVIEW2_BROWSING_DATA_KINDS dataKinds'', ''ICoreWebView2ClearBrowsingDataCompletedHandler *handler'']"

definition ICoreWebView2Profile2_ClearBrowsingDataInTimeRange_C :: cdecl where
  "ICoreWebView2Profile2_ClearBrowsingDataInTimeRange_C =
     CDecl ''ICoreWebView2Profile2'' ''HRESULT'' ''ClearBrowsingDataInTimeRange'' [''COREWEBVIEW2_BROWSING_DATA_KINDS dataKinds'', ''double startTime'', ''double endTime'', ''ICoreWebView2ClearBrowsingDataCompletedHandler *handler'']"

definition ICoreWebView2Profile2_ClearBrowsingDataAll_C :: cdecl where
  "ICoreWebView2Profile2_ClearBrowsingDataAll_C =
     CDecl ''ICoreWebView2Profile2'' ''HRESULT'' ''ClearBrowsingDataAll'' [''ICoreWebView2ClearBrowsingDataCompletedHandler *handler'']"

definition ICoreWebView2Profile3_get_PreferredTrackingPreventionLevel_C :: cdecl where
  "ICoreWebView2Profile3_get_PreferredTrackingPreventionLevel_C =
     CDecl ''ICoreWebView2Profile3'' ''HRESULT'' ''get_PreferredTrackingPreventionLevel'' [''COREWEBVIEW2_TRACKING_PREVENTION_LEVEL *value'']"

definition ICoreWebView2Profile3_put_PreferredTrackingPreventionLevel_C :: cdecl where
  "ICoreWebView2Profile3_put_PreferredTrackingPreventionLevel_C =
     CDecl ''ICoreWebView2Profile3'' ''HRESULT'' ''put_PreferredTrackingPreventionLevel'' [''COREWEBVIEW2_TRACKING_PREVENTION_LEVEL value'']"

definition ICoreWebView2Profile4_SetPermissionState_C :: cdecl where
  "ICoreWebView2Profile4_SetPermissionState_C =
     CDecl ''ICoreWebView2Profile4'' ''HRESULT'' ''SetPermissionState'' [''COREWEBVIEW2_PERMISSION_KIND permissionKind'', ''LPCWSTR origin'', ''COREWEBVIEW2_PERMISSION_STATE state'', ''ICoreWebView2SetPermissionStateCompletedHandler *completedHandler'']"

definition ICoreWebView2Profile4_GetNonDefaultPermissionSettings_C :: cdecl where
  "ICoreWebView2Profile4_GetNonDefaultPermissionSettings_C =
     CDecl ''ICoreWebView2Profile4'' ''HRESULT'' ''GetNonDefaultPermissionSettings'' [''ICoreWebView2GetNonDefaultPermissionSettingsCompletedHandler *completedHandler'']"

definition ICoreWebView2Profile5_get_CookieManager_C :: cdecl where
  "ICoreWebView2Profile5_get_CookieManager_C =
     CDecl ''ICoreWebView2Profile5'' ''HRESULT'' ''get_CookieManager'' [''ICoreWebView2CookieManager **cookieManager'']"

definition ICoreWebView2Profile6_get_IsPasswordAutosaveEnabled_C :: cdecl where
  "ICoreWebView2Profile6_get_IsPasswordAutosaveEnabled_C =
     CDecl ''ICoreWebView2Profile6'' ''HRESULT'' ''get_IsPasswordAutosaveEnabled'' [''BOOL *value'']"

definition ICoreWebView2Profile6_put_IsPasswordAutosaveEnabled_C :: cdecl where
  "ICoreWebView2Profile6_put_IsPasswordAutosaveEnabled_C =
     CDecl ''ICoreWebView2Profile6'' ''HRESULT'' ''put_IsPasswordAutosaveEnabled'' [''BOOL value'']"

definition ICoreWebView2Profile6_get_IsGeneralAutofillEnabled_C :: cdecl where
  "ICoreWebView2Profile6_get_IsGeneralAutofillEnabled_C =
     CDecl ''ICoreWebView2Profile6'' ''HRESULT'' ''get_IsGeneralAutofillEnabled'' [''BOOL *value'']"

definition ICoreWebView2Profile6_put_IsGeneralAutofillEnabled_C :: cdecl where
  "ICoreWebView2Profile6_put_IsGeneralAutofillEnabled_C =
     CDecl ''ICoreWebView2Profile6'' ''HRESULT'' ''put_IsGeneralAutofillEnabled'' [''BOOL value'']"

definition ICoreWebView2Profile7_AddBrowserExtension_C :: cdecl where
  "ICoreWebView2Profile7_AddBrowserExtension_C =
     CDecl ''ICoreWebView2Profile7'' ''HRESULT'' ''AddBrowserExtension'' [''LPCWSTR extensionFolderPath'', ''ICoreWebView2ProfileAddBrowserExtensionCompletedHandler *handler'']"

definition ICoreWebView2Profile7_GetBrowserExtensions_C :: cdecl where
  "ICoreWebView2Profile7_GetBrowserExtensions_C =
     CDecl ''ICoreWebView2Profile7'' ''HRESULT'' ''GetBrowserExtensions'' [''ICoreWebView2ProfileGetBrowserExtensionsCompletedHandler *handler'']"

definition ICoreWebView2Settings_get_IsScriptEnabled_C :: cdecl where
  "ICoreWebView2Settings_get_IsScriptEnabled_C =
     CDecl ''ICoreWebView2Settings'' ''HRESULT'' ''get_IsScriptEnabled'' [''BOOL *isScriptEnabled'']"

definition ICoreWebView2Settings_put_IsScriptEnabled_C :: cdecl where
  "ICoreWebView2Settings_put_IsScriptEnabled_C =
     CDecl ''ICoreWebView2Settings'' ''HRESULT'' ''put_IsScriptEnabled'' [''BOOL isScriptEnabled'']"

definition ICoreWebView2Settings_get_IsWebMessageEnabled_C :: cdecl where
  "ICoreWebView2Settings_get_IsWebMessageEnabled_C =
     CDecl ''ICoreWebView2Settings'' ''HRESULT'' ''get_IsWebMessageEnabled'' [''BOOL *isWebMessageEnabled'']"

definition ICoreWebView2Settings_put_IsWebMessageEnabled_C :: cdecl where
  "ICoreWebView2Settings_put_IsWebMessageEnabled_C =
     CDecl ''ICoreWebView2Settings'' ''HRESULT'' ''put_IsWebMessageEnabled'' [''BOOL isWebMessageEnabled'']"

definition ICoreWebView2Settings_get_AreDefaultScriptDialogsEnabled_C :: cdecl where
  "ICoreWebView2Settings_get_AreDefaultScriptDialogsEnabled_C =
     CDecl ''ICoreWebView2Settings'' ''HRESULT'' ''get_AreDefaultScriptDialogsEnabled'' [''BOOL *areDefaultScriptDialogsEnabled'']"

definition ICoreWebView2Settings_put_AreDefaultScriptDialogsEnabled_C :: cdecl where
  "ICoreWebView2Settings_put_AreDefaultScriptDialogsEnabled_C =
     CDecl ''ICoreWebView2Settings'' ''HRESULT'' ''put_AreDefaultScriptDialogsEnabled'' [''BOOL areDefaultScriptDialogsEnabled'']"

definition ICoreWebView2Settings_get_IsStatusBarEnabled_C :: cdecl where
  "ICoreWebView2Settings_get_IsStatusBarEnabled_C =
     CDecl ''ICoreWebView2Settings'' ''HRESULT'' ''get_IsStatusBarEnabled'' [''BOOL *isStatusBarEnabled'']"

definition ICoreWebView2Settings_put_IsStatusBarEnabled_C :: cdecl where
  "ICoreWebView2Settings_put_IsStatusBarEnabled_C =
     CDecl ''ICoreWebView2Settings'' ''HRESULT'' ''put_IsStatusBarEnabled'' [''BOOL isStatusBarEnabled'']"

definition ICoreWebView2Settings_get_AreDevToolsEnabled_C :: cdecl where
  "ICoreWebView2Settings_get_AreDevToolsEnabled_C =
     CDecl ''ICoreWebView2Settings'' ''HRESULT'' ''get_AreDevToolsEnabled'' [''BOOL *areDevToolsEnabled'']"

definition ICoreWebView2Settings_put_AreDevToolsEnabled_C :: cdecl where
  "ICoreWebView2Settings_put_AreDevToolsEnabled_C =
     CDecl ''ICoreWebView2Settings'' ''HRESULT'' ''put_AreDevToolsEnabled'' [''BOOL areDevToolsEnabled'']"

definition ICoreWebView2Settings_get_AreDefaultContextMenusEnabled_C :: cdecl where
  "ICoreWebView2Settings_get_AreDefaultContextMenusEnabled_C =
     CDecl ''ICoreWebView2Settings'' ''HRESULT'' ''get_AreDefaultContextMenusEnabled'' [''BOOL *enabled'']"

definition ICoreWebView2Settings_put_AreDefaultContextMenusEnabled_C :: cdecl where
  "ICoreWebView2Settings_put_AreDefaultContextMenusEnabled_C =
     CDecl ''ICoreWebView2Settings'' ''HRESULT'' ''put_AreDefaultContextMenusEnabled'' [''BOOL enabled'']"

definition ICoreWebView2Settings_get_AreHostObjectsAllowed_C :: cdecl where
  "ICoreWebView2Settings_get_AreHostObjectsAllowed_C =
     CDecl ''ICoreWebView2Settings'' ''HRESULT'' ''get_AreHostObjectsAllowed'' [''BOOL *allowed'']"

definition ICoreWebView2Settings_put_AreHostObjectsAllowed_C :: cdecl where
  "ICoreWebView2Settings_put_AreHostObjectsAllowed_C =
     CDecl ''ICoreWebView2Settings'' ''HRESULT'' ''put_AreHostObjectsAllowed'' [''BOOL allowed'']"

definition ICoreWebView2Settings_get_IsZoomControlEnabled_C :: cdecl where
  "ICoreWebView2Settings_get_IsZoomControlEnabled_C =
     CDecl ''ICoreWebView2Settings'' ''HRESULT'' ''get_IsZoomControlEnabled'' [''BOOL *enabled'']"

definition ICoreWebView2Settings_put_IsZoomControlEnabled_C :: cdecl where
  "ICoreWebView2Settings_put_IsZoomControlEnabled_C =
     CDecl ''ICoreWebView2Settings'' ''HRESULT'' ''put_IsZoomControlEnabled'' [''BOOL enabled'']"

definition ICoreWebView2Settings_get_IsBuiltInErrorPageEnabled_C :: cdecl where
  "ICoreWebView2Settings_get_IsBuiltInErrorPageEnabled_C =
     CDecl ''ICoreWebView2Settings'' ''HRESULT'' ''get_IsBuiltInErrorPageEnabled'' [''BOOL *enabled'']"

definition ICoreWebView2Settings_put_IsBuiltInErrorPageEnabled_C :: cdecl where
  "ICoreWebView2Settings_put_IsBuiltInErrorPageEnabled_C =
     CDecl ''ICoreWebView2Settings'' ''HRESULT'' ''put_IsBuiltInErrorPageEnabled'' [''BOOL enabled'']"

definition ICoreWebView2Settings2_get_UserAgent_C :: cdecl where
  "ICoreWebView2Settings2_get_UserAgent_C =
     CDecl ''ICoreWebView2Settings2'' ''HRESULT'' ''get_UserAgent'' [''LPWSTR *userAgent'']"

definition ICoreWebView2Settings2_put_UserAgent_C :: cdecl where
  "ICoreWebView2Settings2_put_UserAgent_C =
     CDecl ''ICoreWebView2Settings2'' ''HRESULT'' ''put_UserAgent'' [''LPCWSTR userAgent'']"

definition ICoreWebView2Settings3_get_AreBrowserAcceleratorKeysEnabled_C :: cdecl where
  "ICoreWebView2Settings3_get_AreBrowserAcceleratorKeysEnabled_C =
     CDecl ''ICoreWebView2Settings3'' ''HRESULT'' ''get_AreBrowserAcceleratorKeysEnabled'' [''BOOL *areBrowserAcceleratorKeysEnabled'']"

definition ICoreWebView2Settings3_put_AreBrowserAcceleratorKeysEnabled_C :: cdecl where
  "ICoreWebView2Settings3_put_AreBrowserAcceleratorKeysEnabled_C =
     CDecl ''ICoreWebView2Settings3'' ''HRESULT'' ''put_AreBrowserAcceleratorKeysEnabled'' [''BOOL areBrowserAcceleratorKeysEnabled'']"

definition ICoreWebView2Settings4_get_IsPasswordAutosaveEnabled_C :: cdecl where
  "ICoreWebView2Settings4_get_IsPasswordAutosaveEnabled_C =
     CDecl ''ICoreWebView2Settings4'' ''HRESULT'' ''get_IsPasswordAutosaveEnabled'' [''BOOL *value'']"

definition ICoreWebView2Settings4_put_IsPasswordAutosaveEnabled_C :: cdecl where
  "ICoreWebView2Settings4_put_IsPasswordAutosaveEnabled_C =
     CDecl ''ICoreWebView2Settings4'' ''HRESULT'' ''put_IsPasswordAutosaveEnabled'' [''BOOL value'']"

definition ICoreWebView2Settings4_get_IsGeneralAutofillEnabled_C :: cdecl where
  "ICoreWebView2Settings4_get_IsGeneralAutofillEnabled_C =
     CDecl ''ICoreWebView2Settings4'' ''HRESULT'' ''get_IsGeneralAutofillEnabled'' [''BOOL *value'']"

definition ICoreWebView2Settings4_put_IsGeneralAutofillEnabled_C :: cdecl where
  "ICoreWebView2Settings4_put_IsGeneralAutofillEnabled_C =
     CDecl ''ICoreWebView2Settings4'' ''HRESULT'' ''put_IsGeneralAutofillEnabled'' [''BOOL value'']"

definition ICoreWebView2Settings5_get_IsPinchZoomEnabled_C :: cdecl where
  "ICoreWebView2Settings5_get_IsPinchZoomEnabled_C =
     CDecl ''ICoreWebView2Settings5'' ''HRESULT'' ''get_IsPinchZoomEnabled'' [''BOOL *enabled'']"

definition ICoreWebView2Settings5_put_IsPinchZoomEnabled_C :: cdecl where
  "ICoreWebView2Settings5_put_IsPinchZoomEnabled_C =
     CDecl ''ICoreWebView2Settings5'' ''HRESULT'' ''put_IsPinchZoomEnabled'' [''BOOL enabled'']"

definition ICoreWebView2Settings6_get_IsSwipeNavigationEnabled_C :: cdecl where
  "ICoreWebView2Settings6_get_IsSwipeNavigationEnabled_C =
     CDecl ''ICoreWebView2Settings6'' ''HRESULT'' ''get_IsSwipeNavigationEnabled'' [''BOOL *enabled'']"

definition ICoreWebView2Settings6_put_IsSwipeNavigationEnabled_C :: cdecl where
  "ICoreWebView2Settings6_put_IsSwipeNavigationEnabled_C =
     CDecl ''ICoreWebView2Settings6'' ''HRESULT'' ''put_IsSwipeNavigationEnabled'' [''BOOL enabled'']"

definition ICoreWebView2Settings7_get_HiddenPdfToolbarItems_C :: cdecl where
  "ICoreWebView2Settings7_get_HiddenPdfToolbarItems_C =
     CDecl ''ICoreWebView2Settings7'' ''HRESULT'' ''get_HiddenPdfToolbarItems'' [''COREWEBVIEW2_PDF_TOOLBAR_ITEMS *hidden_pdf_toolbar_items'']"

definition ICoreWebView2Settings7_put_HiddenPdfToolbarItems_C :: cdecl where
  "ICoreWebView2Settings7_put_HiddenPdfToolbarItems_C =
     CDecl ''ICoreWebView2Settings7'' ''HRESULT'' ''put_HiddenPdfToolbarItems'' [''COREWEBVIEW2_PDF_TOOLBAR_ITEMS hidden_pdf_toolbar_items'']"

section \<open>Tables\<close>

definition ICoreWebView2CompositionControllerVtbl :: vtable where
  "ICoreWebView2CompositionControllerVtbl = Vtable ''ICoreWebView2CompositionController''
     [IUnknown_QueryInterface_C, IUnknown_AddRef_C, IUnknown_Release_C,
      ICoreWebView2CompositionController_get_RootVisualTarget_C,
      ICoreWebView2CompositionController_put_RootVisualTarget_C, ICoreWebView2CompositionController_SendMouseInput_C,
      ICoreWebView2CompositionController_SendPointerInput_C, ICoreWebView2CompositionController_get_Cursor_C,
      ICoreWebView2CompositionController_get_SystemCursorId_C,
      ICoreWebView2CompositionController_add_CursorChanged_C,
      ICoreWebView2CompositionController_remove_CursorChanged_C]"

definition ICoreWebView2CompositionController2Vtbl :: vtable where
  "ICoreWebView2CompositionController2Vtbl = Vtable ''ICoreWebView2CompositionController2''
     [IUnknown_QueryInterface_C, IUnknown_AddRef_C, IUnknown_Release_C,
      ICoreWebView2CompositionController_get_RootVisualTarget_C,
      ICoreWebView2CompositionController_put_RootVisualTarget_C, ICoreWebView2CompositionController_SendMouseInput_C,
      ICoreWebView2CompositionController_SendPointerInput_C, ICoreWebView2CompositionController_get_Cursor_C,
      ICoreWebView2CompositionController_get_SystemCursorId_C,
      ICoreWebView2CompositionController_add_CursorChanged_C,
      ICoreWebView2CompositionController_remove_CursorChanged_C,
      ICoreWebView2CompositionController2_get_AutomationProvider_C]"

definition ICoreWebView2CompositionController3Vtbl :: vtable where
  "ICoreWebView2CompositionController3Vtbl = Vtable ''ICoreWebView2CompositionController3''
     [IUnknown_QueryInterface_C,
      IUnknown_AddRef_C,
      IUnknown_Release_C,
      ICoreWebView2CompositionController_get_RootVisualTarget_C,
      ICoreWebView2CompositionController_put_RootVisualTarget_C,
      ICoreWebView2CompositionController_SendMouseInput_C,
      ICoreWebView2CompositionController_SendPointerInput_C,
      ICoreWebView2CompositionController_get_Cursor_C,
      ICoreWebView2CompositionController_get_SystemCursorId_C,
      ICoreWebView2CompositionController_add_CursorChanged_C,
      ICoreWebView2CompositionController_remove_CursorChanged_C,
      ICoreWebView2CompositionController2_get_AutomationProvider_C,
      CDecl ''ICoreWebView2CompositionController3'' ''HRESULT'' ''DragEnter'' [''IDataObject *dataObject'', ''DWORD keyState'', ''POINT point'', ''DWORD *effect''],
      CDecl ''ICoreWebView2CompositionController3'' ''HRESULT'' ''DragLeave'' [],
      CDecl ''ICoreWebView2CompositionController3'' ''HRESULT'' ''DragOver'' [''DWORD keyState'', ''POINT point'', ''DWORD *effect''],
      CDecl ''ICoreWebView2CompositionController3'' ''HRESULT'' ''Drop'' [''IDataObject *dataObject'', ''DWORD keyState'', ''POINT point'', ''DWORD *effect'']]"

definition ICoreWebView2ControllerVtbl :: vtable where
  "ICoreWebView2ControllerVtbl = Vtable ''ICoreWebView2Controller''
     [IUnknown_QueryInterface_C, IUnknown_AddRef_C, IUnknown_Release_C, ICoreWebView2Controller_get_IsVisible_C,
      ICoreWebView2Controller_put_IsVisible_C, ICoreWebView2Controller_get_Bounds_C,
      ICoreWebView2Controller_put_Bounds_C, ICoreWebView2Controller_get_ZoomFactor_C,
      ICoreWebView2Controller_put_ZoomFactor_C, ICoreWebView2Controller_add_ZoomFactorChanged_C,
      ICoreWebView2Controller_remove_ZoomFactorChanged_C, ICoreWebView2Controller_SetBoundsAndZoomFactor_C,
      ICoreWebView2Controller_MoveFocus_C, ICoreWebView2Controller_add_MoveFocusRequested_C,
      ICoreWebView2Controller_remove_MoveFocusRequested_C, ICoreWebView2Controller_add_GotFocus_C,
      ICoreWebView2Controller_remove_GotFocus_C, ICoreWebView2Controller_add_LostFocus_C,
      ICoreWebView2Controller_remove_LostFocus_C, ICoreWebView2Controller_add_AcceleratorKeyPressed_C,
      ICoreWebView2Controller_remove_AcceleratorKeyPressed_C, ICoreWebView2Controller_get_ParentWindow_C,
      ICoreWebView2Controller_put_ParentWindow_C, ICoreWebView2Controller_NotifyParentWindowPositionChanged_C,
      ICoreWebView2Controller_Close_C, ICoreWebView2Controller_get_CoreWebView2_C]"

definition ICoreWebView2Controller2Vtbl_1 :: "cdecl list" where
  "ICoreWebView2Controller2Vtbl_1 =
     [IUnknown_QueryInterface_C, IUnknown_AddRef_C, IUnknown_Release_C, ICoreWebView2Controller_get_IsVisible_C,
      ICoreWebView2Controller_put_IsVisible_C, ICoreWebView2Controller_get_Bounds_C,
      ICoreWebView2Controller_put_Bounds_C, ICoreWebView2Controller_get_ZoomFactor_C,
      ICoreWebView2Controller_put_ZoomFactor_C, ICoreWebView2Controller_add_ZoomFactorChanged_C,
      ICoreWebView2Controller_remove_ZoomFactorChanged_C, ICoreWebView2Controller_SetBoundsAndZoomFactor_C,
      ICoreWebView2Controller_MoveFocus_C, ICoreWebView2Controller_add_MoveFocusRequested_C,
      ICoreWebView2Controller_remove_MoveFocusRequested_C, ICoreWebView2Controller_add_GotFocus_C,
      ICoreWebView2Controller_remove_GotFocus_C, ICoreWebView2Controller_add_LostFocus_C,
      ICoreWebView2Controller_remove_LostFocus_C, ICoreWebView2Controller_add_AcceleratorKeyPressed_C,
      ICoreWebView2Controller_remove_AcceleratorKeyPressed_C, ICoreWebView2Controller_get_ParentWindow_C,
      ICoreWebView2Controller_put_ParentWindow_C, ICoreWebView2Controller_NotifyParentWindowPositionChanged_C,
      ICoreWebView2Controller_Close_C, ICoreWebView2Controller_get_CoreWebView2_C,
      ICoreWebView2Controller2_get_DefaultBackgroundColor_C]"

definition ICoreWebView2Controller2Vtbl_2 :: "cdecl list" where
  "ICoreWebView2Controller2Vtbl_2 =
     [ICoreWebView2Controller2_put_DefaultBackgroundColor_C]"

definition ICoreWebView2Controller2Vtbl :: vtable where
  "ICoreWebView2Controller2Vtbl = Vtable ''ICoreWebView2Controller2''
     (ICoreWebView2Controller2Vtbl_1 @ ICoreWebView2Controller2Vtbl_2)"

definition ICoreWebView2Controller3Vtbl_1 :: "cdecl list" where
  "ICoreWebView2Controller3Vtbl_1 =
     [IUnknown_QueryInterface_C, IUnknown_AddRef_C, IUnknown_Release_C, ICoreWebView2Controller_get_IsVisible_C,
      ICoreWebView2Controller_put_IsVisible_C, ICoreWebView2Controller_get_Bounds_C,
      ICoreWebView2Controller_put_Bounds_C, ICoreWebView2Controller_get_ZoomFactor_C,
      ICoreWebView2Controller_put_ZoomFactor_C, ICoreWebView2Controller_add_ZoomFactorChanged_C,
      ICoreWebView2Controller_remove_ZoomFactorChanged_C, ICoreWebView2Controller_SetBoundsAndZoomFactor_C,
      ICoreWebView2Controller_MoveFocus_C, ICoreWebView2Controller_add_MoveFocusRequested_C,
      ICoreWebView2Controller_remove_MoveFocusRequested_C, ICoreWebView2Controller_add_GotFocus_C,
      ICoreWebView2Controller_remove_GotFocus_C, ICoreWebView2Controller_add_LostFocus_C,
      ICoreWebView2Controller_remove_LostFocus_C, ICoreWebView2Controller_add_AcceleratorKeyPressed_C,
      ICoreWebView2Controller_remove_AcceleratorKeyPressed_C, ICoreWebView2Controller_get_ParentWindow_C,
      ICoreWebView2Controller_put_ParentWindow_C, ICoreWebView2Controller_NotifyParentWindowPositionChanged_C,
      ICoreWebView2Controller_Close_C, ICoreWebView2Controller_get_CoreWebView2_C,
      ICoreWebView2Controller2_get_DefaultBackgroundColor_C]"

definition ICoreWebView2Controller3Vtbl_2 :: "cdecl list" where
  "ICoreWebView2Controller3Vtbl_2 =
     [ICoreWebView2Controller2_put_DefaultBackgroundColor_C, ICoreWebView2Controller3_get_RasterizationScale_C,
      ICoreWebView2Controller3_put_RasterizationScale_C,
      ICoreWebView2Controller3_get_ShouldDetectMonitorScaleChanges_C,
      ICoreWebView2Controller3_put_ShouldDetectMonitorScaleChanges_C,
      ICoreWebView2Controller3_add_RasterizationScaleChanged_C,
      ICoreWebView2Controller3_remove_RasterizationScaleChanged_C, ICoreWebView2Controller3_get_BoundsMode_C,
      ICoreWebView2Controller3_put_BoundsMode_C]"

definition ICoreWebView2Controller3Vtbl :: vtable where
  "ICoreWebView2Controller3Vtbl = Vtable ''ICoreWebView2Controller3''
     (ICoreWebView2Controller3Vtbl_1 @ ICoreWebView2Controller3Vtbl_2)"

definition ICoreWebView2Controller4Vtbl_1 :: "cdecl list" where
  "ICoreWebView2Controller4Vtbl_1 =
     [IUnknown_QueryInterface_C, IUnknown_AddRef_C, IUnknown_Release_C, ICoreWebView2Controller_get_IsVisible_C,
      ICoreWebView2Controller_put_IsVisible_C, ICoreWebView2Controller_get_Bounds_C,
      ICoreWebView2Controller_put_Bounds_C, ICoreWebView2Controller_get_ZoomFactor_C,
      ICoreWebView2Controller_put_ZoomFactor_C, ICoreWebView2Controller_add_ZoomFactorChanged_C,
      ICoreWebView2Controller_remove_ZoomFactorChanged_C, ICoreWebView2Controller_SetBoundsAndZoomFactor_C,
      ICoreWebView2Controller_MoveFocus_C, ICoreWebView2Controller_add_MoveFocusRequested_C,
      ICoreWebView2Controller_remove_MoveFocusRequested_C, ICoreWebView2Controller_add_GotFocus_C,
      ICoreWebView2Controller_remove_GotFocus_C, ICoreWebView2Controller_add_LostFocus_C,
      ICoreWebView2Controller_remove_LostFocus_C, ICoreWebView2Controller_add_AcceleratorKeyPressed_C,
      ICoreWebView2Controller_remove_AcceleratorKeyPressed_C, ICoreWebView2Controller_get_ParentWindow_C,
      ICoreWebView2Controller_put_ParentWindow_C, ICoreWebView2Controller_NotifyParentWindowPositionChanged_C,
      ICoreWebView2Controller_Close_C, ICoreWebView2Controller_get_CoreWebView2_C,
      ICoreWebView2Controller2_get_DefaultBackgroundColor_C]"

definition ICoreWebView2Controller4Vtbl_2 :: "cdecl list" where
  "ICoreWebView2Controller4Vtbl_2 =
     [ICoreWebView2Controller2_put_DefaultBackgroundColor_C,
      ICoreWebView2Controller3_get_RasterizationScale_C,
      ICoreWebView2Controller3_put_RasterizationScale_C,
      ICoreWebView2Controller3_get_ShouldDetectMonitorScaleChanges_C,
      ICoreWebView2Controller3_put_ShouldDetectMonitorScaleChanges_C,
      ICoreWebView2Controller3_add_RasterizationScaleChanged_C,
      ICoreWebView2Controller3_remove_RasterizationScaleChanged_C,
      ICoreWebView2Controller3_get_BoundsMode_C,
      ICoreWebView2Controller3_put_BoundsMode_C,
      CDecl ''ICoreWebView2Controller4'' ''HRESULT'' ''get_AllowExternalDrop'' [''BOOL *value''],
      CDecl ''ICoreWebView2Controller4'' ''HRESULT'' ''put_AllowExternalDrop'' [''BOOL value'']]"

definition ICoreWebView2Controller4Vtbl :: vtable where
  "ICoreWebView2Controller4Vtbl = Vtable ''ICoreWebView2Controller4''
     (ICoreWebView2Controller4Vtbl_1 @ ICoreWebView2Controller4Vtbl_2)"

definition ICoreWebView2ControllerOptionsVtbl :: vtable where
  "ICoreWebView2ControllerOptionsVtbl = Vtable ''ICoreWebView2ControllerOptions''
     [IUnknown_QueryInterface_C, IUnknown_AddRef_C, IUnknown_Release_C,
      ICoreWebView2ControllerOptions_get_ProfileName_C, ICoreWebView2ControllerOptions_put_ProfileName_C,
      ICoreWebView2ControllerOptions_get_IsInPrivateModeEnabled_C,
      ICoreWebView2ControllerOptions_put_IsInPrivateModeEnabled_C]"

definition ICoreWebView2ControllerOptions2Vtbl :: vtable where
  "ICoreWebView2ControllerOptions2Vtbl = Vtable ''ICoreWebView2ControllerOptions2''
     [IUnknown_QueryInterface_C,
      IUnknown_AddRef_C,
      IUnknown_Release_C,
      ICoreWebView2ControllerOptions_get_ProfileName_C,
      ICoreWebView2ControllerOptions_put_ProfileName_C,
      ICoreWebView2ControllerOptions_get_IsInPrivateModeEnabled_C,
      ICoreWebView2ControllerOptions_put_IsInPrivateModeEnabled_C,
      CDecl ''ICoreWebView2ControllerOptions2'' ''HRESULT'' ''get_ScriptLocale'' [''LPWSTR *locale''],
      CDecl ''ICoreWebView2ControllerOptions2'' ''HRESULT'' ''put_ScriptLocale'' [''LPCWSTR locale'']]"

definition ICoreWebView2CookieManagerVtbl :: vtable where
  "ICoreWebView2CookieManagerVtbl = Vtable ''ICoreWebView2CookieManager''
     [IUnknown_QueryInterface_C,
      IUnknown_AddRef_C,
      IUnknown_Release_C,
      CDecl ''ICoreWebView2CookieManager'' ''HRESULT'' ''CreateCookie'' [''LPCWSTR name'', ''LPCWSTR value'', ''LPCWSTR domain'', ''LPCWSTR path'', ''ICoreWebView2Cookie **cookie''],
      CDecl ''ICoreWebView2CookieManager'' ''HRESULT'' ''CopyCookie'' [''ICoreWebView2Cookie *cookieParam'', ''ICoreWebView2Cookie **cookie''],
      CDecl ''ICoreWebView2CookieManager'' ''HRESULT'' ''GetCookies'' [''LPCWSTR uri'', ''ICoreWebView2GetCookiesCompletedHandler *handler''],
      CDecl ''ICoreWebView2CookieManager'' ''HRESULT'' ''AddOrUpdateCookie'' [''ICoreWebView2Cookie *cookie''],
      CDecl ''ICoreWebView2CookieManager'' ''HRESULT'' ''DeleteCookie'' [''ICoreWebView2Cookie *cookie''],
      CDecl ''ICoreWebView2CookieManager'' ''HRESULT'' ''DeleteCookies'' [''LPCWSTR name'', ''LPCWSTR uri''],
      CDecl ''ICoreWebView2CookieManager'' ''HRESULT'' ''DeleteCookiesWithDomainAndPath'' [''LPCWSTR name'', ''LPCWSTR domain'', ''LPCWSTR path''],
      CDecl ''ICoreWebView2CookieManager'' ''HRESULT'' ''DeleteAllCookies'' []]"

definition ICoreWebView2DownloadOperationVtbl :: vtable where
  "ICoreWebView2DownloadOperationVtbl = Vtable ''ICoreWebView2DownloadOperation''
     [IUnknown_QueryInterface_C,
      IUnknown_AddRef_C,
      IUnknown_Release_C,
      CDecl ''ICoreWebView2DownloadOperation'' ''HRESULT'' ''add_BytesReceivedChanged'' [''ICoreWebView2BytesReceivedChangedEventHandler *eventHandler'', ''EventRegistrationToken *token''],
      CDecl ''ICoreWebView2DownloadOperation'' ''HRESULT'' ''remove_BytesReceivedChanged'' [''EventRegistrationToken token''],
      CDecl ''ICoreWebView2DownloadOperation'' ''HRESULT'' ''add_EstimatedEndTimeChanged'' [''ICoreWebView2EstimatedEndTimeChangedEventHandler *eventHandler'', ''EventRegistrationToken *token''],
      CDecl ''ICoreWebView2DownloadOperation'' ''HRESULT'' ''remove_EstimatedEndTimeChanged'' [''EventRegistrationToken token''],
      CDecl ''ICoreWebView2DownloadOperation'' ''HRESULT'' ''add_StateChanged'' [''ICoreWebView2StateChangedEventHandler *eventHandler'', ''EventRegistrationToken *token''],
      CDecl ''ICoreWebView2DownloadOperation'' ''HRESULT'' ''remove_StateChanged'' [''EventRegistrationToken token''],
      CDecl ''ICoreWebView2DownloadOperation'' ''HRESULT'' ''get_Uri'' [''LPWSTR *uri''],
      CDecl ''ICoreWebView2DownloadOperation'' ''HRESULT'' ''get_ContentDisposition'' [''LPWSTR *contentDisposition''],
      CDecl ''ICoreWebView2DownloadOperation'' ''HRESULT'' ''get_MimeType'' [''LPWSTR *mimeType''],
      CDecl ''ICoreWebView2DownloadOperation'' ''HRESULT'' ''get_TotalBytesToReceive'' [''INT64 *totalBytesToReceive''],
      CDecl ''ICoreWebView2DownloadOperation'' ''HRESULT'' ''get_BytesReceived'' [''INT64 *bytesReceived''],
      CDecl ''ICoreWebView2DownloadOperation'' ''HRESULT'' ''get_EstimatedEndTime'' [''LPWSTR *estimatedEndTime''],
      CDecl ''ICoreWebView2DownloadOperation'' ''HRESULT'' ''get_ResultFilePath'' [''LPWSTR *resultFilePath''],
      CDecl ''ICoreWebView2DownloadOperation'' ''HRESULT'' ''get_State'' [''COREWEBVIEW2_DOWNLOAD_STATE *downloadState''],
      CDecl ''ICoreWebView2DownloadOperation'' ''HRESULT'' ''get_InterruptReason'' [''COREWEBVIEW2_DOWNLOAD_INTERRUPT_REASON *interruptReason''],
      CDecl ''ICoreWebView2DownloadOperation'' ''HRESULT'' ''Cancel'' [],
      CDecl ''ICoreWebView2DownloadOperation'' ''HRESULT'' ''Pause'' [],
      CDecl ''ICoreWebView2DownloadOperation'' ''HRESULT'' ''Resume'' [],
      CDecl ''ICoreWebView2DownloadOperation'' ''HRESULT'' ''get_CanResume'' [''BOOL *canResume'']]"

definition ICoreWebView2EnvironmentVtbl :: vtable where
  "ICoreWebView2EnvironmentVtbl = Vtable ''ICoreWebView2Environment''
     [IUnknown_QueryInterface_C, IUnknown_AddRef_C, IUnknown_Release_C,
      ICoreWebView2Environment_CreateCoreWebView2Controller_C, ICoreWebView2Environment_CreateWebResourceResponse_C,
      ICoreWebView2Environment_get_BrowserVersionString_C, ICoreWebView2Environment_add_NewBrowserVersionAvailable_C,
      ICoreWebView2Environment_remove_NewBrowserVersionAvailable_C]"

definition ICoreWebView2Environment2Vtbl :: vtable where
  "ICoreWebView2Environment2Vtbl = Vtable ''ICoreWebView2Environment2''
     [IUnknown_QueryInterface_C, IUnknown_AddRef_C, IUnknown_Release_C,
      ICoreWebView2Environment_CreateCoreWebView2Controller_C, ICoreWebView2Environment_CreateWebResourceResponse_C,
      ICoreWebView2Environment_get_BrowserVersionString_C, ICoreWebView2Environment_add_NewBrowserVersionAvailable_C,
      ICoreWebView2Environment_remove_NewBrowserVersionAvailable_C,
      ICoreWebView2Environment2_CreateWebResourceRequest_C]"

definition ICoreWebView2Environment3Vtbl :: vtable where
  "ICoreWebView2Environment3Vtbl = Vtable ''ICoreWebView2Environment3''
     [IUnknown_QueryInterface_C, IUnknown_AddRef_C, IUnknown_Release_C,
      ICoreWebView2Environment_CreateCoreWebView2Controller_C, ICoreWebView2Environment_CreateWebResourceResponse_C,
      ICoreWebView2Environment_get_BrowserVersionString_C, ICoreWebView2Environment_add_NewBrowserVersionAvailable_C,
      ICoreWebView2Environment_remove_NewBrowserVersionAvailable_C,
      ICoreWebView2Environment2_CreateWebResourceRequest_C,
      ICoreWebView2Environment3_CreateCoreWebView2CompositionController_C,
      ICoreWebView2Environment3_CreateCoreWebView2PointerInfo_C]"

definition ICoreWebView2Environment4Vtbl :: vtable where
  "ICoreWebView2Environment4Vtbl = Vtable ''ICoreWebView2Environment4''
     [IUnknown_QueryInterface_C, IUnknown_AddRef_C, IUnknown_Release_C,
      ICoreWebView2Environment_CreateCoreWebView2Controller_C, ICoreWebView2Environment_CreateWebResourceResponse_C,
      ICoreWebView2Environment_get_BrowserVersionString_C, ICoreWebView2Environment_add_NewBrowserVersionAvailable_C,
      ICoreWebView2Environment_remove_NewBrowserVersionAvailable_C,
      ICoreWebView2Environment2_CreateWebResourceRequest_C,
      ICoreWebView2Environment3_CreateCoreWebView2CompositionController_C,
      ICoreWebView2Environment3_CreateCoreWebView2PointerInfo_C,
      ICoreWebView2Environment4_GetAutomationProviderForWindow_C]"

definition ICoreWebView2Environment5Vtbl :: vtable where
  "ICoreWebView2Environment5Vtbl = Vtable ''ICoreWebView2Environment5''
     [IUnknown_QueryInterface_C, IUnknown_AddRef_C, IUnknown_Release_C,
      ICoreWebView2Environment_CreateCoreWebView2Controller_C, ICoreWebView2Environment_CreateWebResourceResponse_C,
      ICoreWebView2Environment_get_BrowserVersionString_C, ICoreWebView2Environment_add_NewBrowserVersionAvailable_C,
      ICoreWebView2Environment_remove_NewBrowserVersionAvailable_C,
      ICoreWebView2Environment2_CreateWebResourceRequest_C,
      ICoreWebView2Environment3_CreateCoreWebView2CompositionController_C,
      ICoreWebView2Environment3_CreateCoreWebView2PointerInfo_C,
      ICoreWebView2Environment4_GetAutomationProviderForWindow_C,
      ICoreWebView2Environment5_add_BrowserProcessExited_C, ICoreWebView2Environment5_remove_BrowserProcessExited_C]"

definition ICoreWebView2Environment6Vtbl :: vtable where
  "ICoreWebView2Environment6Vtbl = Vtable ''ICoreWebView2Environment6''
     [IUnknown_QueryInterface_C, IUnknown_AddRef_C, IUnknown_Release_C,
      ICoreWebView2Environment_CreateCoreWebView2Controller_C, ICoreWebView2Environment_CreateWebResourceResponse_C,
      ICoreWebView2Environment_get_BrowserVersionString_C, ICoreWebView2Environment_add_NewBrowserVersionAvailable_C,
      ICoreWebView2Environment_remove_NewBrowserVersionAvailable_C,
      ICoreWebView2Environment2_CreateWebResourceRequest_C,
      ICoreWebView2Environment3_CreateCoreWebView2CompositionController_C,
      ICoreWebView2Environment3_CreateCoreWebView2PointerInfo_C,
      ICoreWebView2Environment4_GetAutomationProviderForWindow_C,
      ICoreWebView2Environment5_add_BrowserProcessExited_C, ICoreWebView2Environment5_remove_BrowserProcessExited_C,
      ICoreWebView2Environment6_CreatePrintSettings_C]"

definition ICoreWebView2Environment7Vtbl :: vtable where
  "ICoreWebView2Environment7Vtbl = Vtable ''ICoreWebView2Environment7''
     [IUnknown_QueryInterface_C, IUnknown_AddRef_C, IUnknown_Release_C,
      ICoreWebView2Environment_CreateCoreWebView2Controller_C, ICoreWebView2Environment_CreateWebResourceResponse_C,
      ICoreWebView2Environment_get_BrowserVersionString_C, ICoreWebView2Environment_add_NewBrowserVersionAvailable_C,
      ICoreWebView2Environment_remove_NewBrowserVersionAvailable_C,
      ICoreWebView2Environment2_CreateWebResourceRequest_C,
      ICoreWebView2Environment3_CreateCoreWebView2CompositionController_C,
      ICoreWebView2Environment3_CreateCoreWebView2PointerInfo_C,
      ICoreWebView2Environment4_GetAutomationProviderForWindow_C,
      ICoreWebView2Environment5_add_BrowserProcessExited_C, ICoreWebView2Environment5_remove_BrowserProcessExited_C,
      ICoreWebView2Environment6_CreatePrintSettings_C, ICoreWebView2Environment7_get_UserDataFolder_C]"

definition ICoreWebView2Environment8Vtbl :: vtable where
  "ICoreWebView2Environment8Vtbl = Vtable ''ICoreWebView2Environment8''
     [IUnknown_QueryInterface_C, IUnknown_AddRef_C, IUnknown_Release_C,
      ICoreWebView2Environment_CreateCoreWebView2Controller_C, ICoreWebView2Environment_CreateWebResourceResponse_C,
      ICoreWebView2Environment_get_BrowserVersionString_C, ICoreWebView2Environment_add_NewBrowserVersionAvailable_C,
      ICoreWebView2Environment_remove_NewBrowserVersionAvailable_C,
      ICoreWebView2Environment2_CreateWebResourceRequest_C,
      ICoreWebView2Environment3_CreateCoreWebView2CompositionController_C,
      ICoreWebView2Environment3_CreateCoreWebView2PointerInfo_C,
      ICoreWebView2Environment4_GetAutomationProviderForWindow_C,
      ICoreWebView2Environment5_add_BrowserProcessExited_C, ICoreWebView2Environment5_remove_BrowserProcessExited_C,
      ICoreWebView2Environment6_CreatePrintSettings_C, ICoreWebView2Environment7_get_UserDataFolder_C,
      ICoreWebView2Environment8_add_ProcessInfosChanged_C, ICoreWebView2Environment8_remove_ProcessInfosChanged_C,
      ICoreWebView2Environment8_GetProcessInfos_C]"

definition ICoreWebView2Environment9Vtbl :: vtable where
  "ICoreWebView2Environment9Vtbl = Vtable ''ICoreWebView2Environment9''
     [IUnknown_QueryInterface_C, IUnknown_AddRef_C, IUnknown_Release_C,
      ICoreWebView2Environment_CreateCoreWebView2Controller_C, ICoreWebView2Environment_CreateWebResourceResponse_C,
      ICoreWebView2Environment_get_BrowserVersionString_C, ICoreWebView2Environment_add_NewBrowserVersionAvailable_C,
      ICoreWebView2Environment_remove_NewBrowserVersionAvailable_C,
      ICoreWebView2Environment2_CreateWebResourceRequest_C,
      ICoreWebView2Environment3_CreateCoreWebView2CompositionController_C,
      ICoreWebView2Environment3_CreateCoreWebView2PointerInfo_C,
      ICoreWebView2Environment4_GetAutomationProviderForWindow_C,
      ICoreWebView2Environment5_add_BrowserProcessExited_C, ICoreWebView2Environment5_remove_BrowserProcessExited_C,
      ICoreWebView2Environment6_CreatePrintSettings_C, ICoreWebView2Environment7_get_UserDataFolder_C,
      ICoreWebView2Environment8_add_ProcessInfosChanged_C, ICoreWebView2Environment8_remove_ProcessInfosChanged_C,
      ICoreWebView2Environment8_GetProcessInfos_C, ICoreWebView2Environment9_CreateContextMenuItem_C]"

definition ICoreWebView2Environment10Vtbl :: vtable where
  "ICoreWebView2Environment10Vtbl = Vtable ''ICoreWebView2Environment10''
     [IUnknown_QueryInterface_C, IUnknown_AddRef_C, IUnknown_Release_C,
      ICoreWebView2Environment_CreateCoreWebView2Controller_C, ICoreWebView2Environment_CreateWebResourceResponse_C,
      ICoreWebView2Environment_get_BrowserVersionString_C, ICoreWebView2Environment_add_NewBrowserVersionAvailable_C,
      ICoreWebView2Environment_remove_NewBrowserVersionAvailable_C,
      ICoreWebView2Environment2_CreateWebResourceRequest_C,
      ICoreWebView2Environment3_CreateCoreWebView2CompositionController_C,
      ICoreWebView2Environment3_CreateCoreWebView2PointerInfo_C,
      ICoreWebView2Environment4_GetAutomationProviderForWindow_C,
      ICoreWebView2Environment5_add_BrowserProcessExited_C, ICoreWebView2Environment5_remove_BrowserProcessExited_C,
      ICoreWebView2Environment6_CreatePrintSettings_C, ICoreWebView2Environment7_get_UserDataFolder_C,
      ICoreWebView2Environment8_add_ProcessInfosChanged_C, ICoreWebView2Environment8_remove_ProcessInfosChanged_C,
      ICoreWebView2Environment8_GetProcessInfos_C, ICoreWebView2Environment9_CreateContextMenuItem_C,
      ICoreWebView2Environment10_CreateCoreWebView2ControllerOptions_C,
      ICoreWebView2Environment10_CreateCoreWebView2ControllerWithOptions_C,
      ICoreWebView2Environment10_CreateCoreWebView2CompositionControllerWithOptions_C]"

definition ICoreWebView2Environment11Vtbl_1 :: "cdecl list" where
  "ICoreWebView2Environment11Vtbl_1 =
     [IUnknown_QueryInterface_C, IUnknown_AddRef_C, IUnknown_Release_C,
      ICoreWebView2Environment_CreateCoreWebView2Controller_C, ICoreWebView2Environment_CreateWebResourceResponse_C,
      ICoreWebView2Environment_get_BrowserVersionString_C, ICoreWebView2Environment_add_NewBrowserVersionAvailable_C,
      ICoreWebView2Environment_remove_NewBrowserVersionAvailable_C,
      ICoreWebView2Environment2_CreateWebResourceRequest_C,
      ICoreWebView2Environment3_CreateCoreWebView2CompositionController_C,
      ICoreWebView2Environment3_CreateCoreWebView2PointerInfo_C,
      ICoreWebView2Environment4_GetAutomationProviderForWindow_C,
      ICoreWebView2Environment5_add_BrowserProcessExited_C, ICoreWebView2Environment5_remove_BrowserProcessExited_C,
      ICoreWebView2Environment6_CreatePrintSettings_C, ICoreWebView2Environment7_get_UserDataFolder_C,
      ICoreWebView2Environment8_add_ProcessInfosChanged_C, ICoreWebView2Environment8_remove_ProcessInfosChanged_C,
      ICoreWebView2Environment8_GetProcessInfos_C, ICoreWebView2Environment9_CreateContextMenuItem_C,
      ICoreWebView2Environment10_CreateCoreWebView2ControllerOptions_C,
      ICoreWebView2Environment10_CreateCoreWebView2ControllerWithOptions_C,
      ICoreWebView2Environment10_CreateCoreWebView2CompositionControllerWithOptions_C]"

definition ICoreWebView2Environment11Vtbl_2 :: "cdecl list" where
  "ICoreWebView2Environment11Vtbl_2 =
     [ICoreWebView2Environment11_get_FailureReportFolderPath_C]"

definition ICoreWebView2Environment11Vtbl :: vtable where
  "ICoreWebView2Environment11Vtbl = Vtable ''ICoreWebView2Environment11''
     (ICoreWebView2Environment11Vtbl_1 @ ICoreWebView2Environment11Vtbl_2)"

definition ICoreWebView2Environment12Vtbl_1 :: "cdecl list" where
  "ICoreWebView2Environment12Vtbl_1 =
     [IUnknown_QueryInterface_C, IUnknown_AddRef_C, IUnknown_Release_C,
      ICoreWebView2Environment_CreateCoreWebView2Controller_C, ICoreWebView2Environment_CreateWebResourceResponse_C,
      ICoreWebView2Environment_get_BrowserVersionString_C, ICoreWebView2Environment_add_NewBrowserVersionAvailable_C,
      ICoreWebView2Environment_remove_NewBrowserVersionAvailable_C,
      ICoreWebView2Environment2_CreateWebResourceRequest_C,
      ICoreWebView2Environment3_CreateCoreWebView2CompositionController_C,
      ICoreWebView2Environment3_CreateCoreWebView2PointerInfo_C,
      ICoreWebView2Environment4_GetAutomationProviderForWindow_C,
      ICoreWebView2Environment5_add_BrowserProcessExited_C, ICoreWebView2Environment5_remove_BrowserProcessExited_C,
      ICoreWebView2Environment6_CreatePrintSettings_C, ICoreWebView2Environment7_get_UserDataFolder_C,
      ICoreWebView2Environment8_add_ProcessInfosChanged_C, ICoreWebView2Environment8_remove_ProcessInfosChanged_C,
      ICoreWebView2Environment8_GetProcessInfos_C, ICoreWebView2Environment9_CreateContextMenuItem_C,
      ICoreWebView2Environment10_CreateCoreWebView2ControllerOptions_C,
      ICoreWebView2Environment10_CreateCoreWebView2ControllerWithOptions_C,
      ICoreWebView2Environment10_CreateCoreWebView2CompositionControllerWithOptions_C]"

definition ICoreWebView2Environment12Vtbl_2 :: "cdecl list" where
  "ICoreWebView2Environment12Vtbl_2 =
     [ICoreWebView2Environment11_get_FailureReportFolderPath_C, ICoreWebView2Environment12_CreateSharedBuffer_C]"

definition ICoreWebView2Environment12Vtbl :: vtable where
  "ICoreWebView2Environment12Vtbl = Vtable ''ICoreWebView2Environment12''
     (ICoreWebView2Environment12Vtbl_1 @ ICoreWebView2Environment12Vtbl_2)"

definition ICoreWebView2Environment13Vtbl_1 :: "cdecl list" where
  "ICoreWebView2Environment13Vtbl_1 =
     [IUnknown_QueryInterface_C, IUnknown_AddRef_C, IUnknown_Release_C,
      ICoreWebView2Environment_CreateCoreWebView2Controller_C, ICoreWebView2Environment_CreateWebResourceResponse_C,
      ICoreWebView2Environment_get_BrowserVersionString_C, ICoreWebView2Environment_add_NewBrowserVersionAvailable_C,
      ICoreWebView2Environment_remove_NewBrowserVersionAvailable_C,
      ICoreWebView2Environment2_CreateWebResourceRequest_C,
      ICoreWebView2Environment3_CreateCoreWebView2CompositionController_C,
      ICoreWebView2Environment3_CreateCoreWebView2PointerInfo_C,
      ICoreWebView2Environment4_GetAutomationProviderForWindow_C,
      ICoreWebView2Environment5_add_BrowserProcessExited_C, ICoreWebView2Environment5_remove_BrowserProcessExited_C,
      ICoreWebView2Environment6_CreatePrintSettings_C, ICoreWebView2Environment7_get_UserDataFolder_C,
      ICoreWebView2Environment8_add_ProcessInfosChanged_C, ICoreWebView2Environment8_remove_ProcessInfosChanged_C,
      ICoreWebView2Environment8_GetProcessInfos_C, ICoreWebView2Environment9_CreateContextMenuItem_C,
      ICoreWebView2Environment10_CreateCoreWebView2ControllerOptions_C,
      ICoreWebView2Environment10_CreateCoreWebView2ControllerWithOptions_C,
      ICoreWebView2Environment10_CreateCoreWebView2CompositionControllerWithOptions_C]"

definition ICoreWebView2Environment13Vtbl_2 :: "cdecl list" where
  "ICoreWebView2Environment13Vtbl_2 =
     [ICoreWebView2Environment11_get_FailureReportFolderPath_C,
      ICoreWebView2Environment12_CreateSharedBuffer_C,
      CDecl ''ICoreWebView2Environment13'' ''HRESULT'' ''GetProcessExtendedInfos'' [''ICoreWebView2GetProcessExtendedInfosCompletedHandler *handler'']]"

definition ICoreWebView2Environment13Vtbl :: vtable where
  "ICoreWebView2Environment13Vtbl = Vtable ''ICoreWebView2Environment13''
     (ICoreWebView2Environment13Vtbl_1 @ ICoreWebView2Environment13Vtbl_2)"

definition ICoreWebView2EnvironmentOptionsVtbl :: vtable where
  "ICoreWebView2EnvironmentOptionsVtbl = Vtable ''ICoreWebView2EnvironmentOptions''
     [IUnknown_QueryInterface_C,
      IUnknown_AddRef_C,
      IUnknown_Release_C,
      CDecl ''ICoreWebView2EnvironmentOptions'' ''HRESULT'' ''get_AdditionalBrowserArguments'' [''LPWSTR *value''],
      CDecl ''ICoreWebView2EnvironmentOptions'' ''HRESULT'' ''put_AdditionalBrowserArguments'' [''LPCWSTR value''],
      CDecl ''ICoreWebView2EnvironmentOptions'' ''HRESULT'' ''get_Language'' [''LPWSTR *value''],
      CDecl ''ICoreWebView2EnvironmentOptions'' ''HRESULT'' ''put_Language'' [''LPCWSTR value''],
      CDecl ''ICoreWebView2EnvironmentOptions'' ''HRESULT'' ''get_TargetCompatibleBrowserVersion'' [''LPWSTR *value''],
      CDecl ''ICoreWebView2EnvironmentOptions'' ''HRESULT'' ''put_TargetCompatibleBrowserVersion'' [''LPCWSTR value''],
      CDecl ''ICoreWebView2EnvironmentOptions'' ''HRESULT'' ''get_AllowSingleSignOnUsingOSPrimaryAccount'' [''BOOL *allow''],
      CDecl ''ICoreWebView2EnvironmentOptions'' ''HRESULT'' ''put_AllowSingleSignOnUsingOSPrimaryAccount'' [''BOOL allow'']]"

definition ICoreWebView2EnvironmentOptions2Vtbl :: vtable where
  "ICoreWebView2EnvironmentOptions2Vtbl = Vtable ''ICoreWebView2EnvironmentOptions2''
     [IUnknown_QueryInterface_C,
      IUnknown_AddRef_C,
      IUnknown_Release_C,
      CDecl ''ICoreWebView2EnvironmentOptions2'' ''HRESULT'' ''get_ExclusiveUserDataFolderAccess'' [''BOOL *value''],
      CDecl ''ICoreWebView2EnvironmentOptions2'' ''HRESULT'' ''put_ExclusiveUserDataFolderAccess'' [''BOOL value'']]"

definition ICoreWebView2EnvironmentOptions3Vtbl :: vtable where
  "ICoreWebView2EnvironmentOptions3Vtbl = Vtable ''ICoreWebView2EnvironmentOptions3''
     [IUnknown_QueryInterface_C,
      IUnknown_AddRef_C,
      IUnknown_Release_C,
      CDecl ''ICoreWebView2EnvironmentOptions3'' ''HRESULT'' ''get_IsCustomCrashReportingEnabled'' [''BOOL *value''],
      CDecl ''ICoreWebView2EnvironmentOptions3'' ''HRESULT'' ''put_IsCustomCrashReportingEnabled'' [''BOOL value'']]"

definition ICoreWebView2EnvironmentOptions4Vtbl :: vtable where
  "ICoreWebView2EnvironmentOptions4Vtbl = Vtable ''ICoreWebView2EnvironmentOptions4''
     [IUnknown_QueryInterface_C,
      IUnknown_AddRef_C,
      IUnknown_Release_C,
      CDecl ''ICoreWebView2EnvironmentOptions4'' ''HRESULT'' ''GetCustomSchemeRegistrations'' [''UINT32 *count'', ''ICoreWebView2CustomSchemeRegistration ***schemeRegistrations''],
      CDecl ''ICoreWebView2EnvironmentOptions4'' ''HRESULT'' ''SetCustomSchemeRegistrations'' [''UINT32 count'', ''ICoreWebView2CustomSchemeRegistration **schemeRegistrations'']]"

definition ICoreWebView2EnvironmentOptions5Vtbl :: vtable where
  "ICoreWebView2EnvironmentOptions5Vtbl = Vtable ''ICoreWebView2EnvironmentOptions5''
     [IUnknown_QueryInterface_C,
      IUnknown_AddRef_C,
      IUnknown_Release_C,
      CDecl ''ICoreWebView2EnvironmentOptions5'' ''HRESULT'' ''get_EnableTrackingPrevention'' [''BOOL *value''],
      CDecl ''ICoreWebView2EnvironmentOptions5'' ''HRESULT'' ''put_EnableTrackingPrevention'' [''BOOL value'']]"

definition ICoreWebView2EnvironmentOptions6Vtbl :: vtable where
  "ICoreWebView2EnvironmentOptions6Vtbl = Vtable ''ICoreWebView2EnvironmentOptions6''
     [IUnknown_QueryInterface_C,
      IUnknown_AddRef_C,
      IUnknown_Release_C,
      CDecl ''ICoreWebView2EnvironmentOptions6'' ''HRESULT'' ''get_AreBrowserExtensionsEnabled'' [''BOOL *value''],
      CDecl ''ICoreWebView2EnvironmentOptions6'' ''HRESULT'' ''put_AreBrowserExtensionsEnabled'' [''BOOL value'']]"

definition ICoreWebView2ProcessExtendedInfoVtbl :: vtable where
  "ICoreWebView2ProcessExtendedInfoVtbl = Vtable ''ICoreWebView2ProcessExtendedInfo''
     [IUnknown_QueryInterface_C,
      IUnknown_AddRef_C,
      IUnknown_Release_C,
      CDecl ''ICoreWebView2ProcessExtendedInfo'' ''HRESULT'' ''get_ProcessInfo'' [''ICoreWebView2ProcessInfo **processInfo''],
      CDecl ''ICoreWebView2ProcessExtendedInfo'' ''HRESULT'' ''get_AssociatedFrameInfos'' [''ICoreWebView2FrameInfoCollection **frames'']]"

definition ICoreWebView2ProcessExtendedInfoCollectionVtbl :: vtable where
  "ICoreWebView2ProcessExtendedInfoCollectionVtbl = Vtable ''ICoreWebView2ProcessExtendedInfoCollection''
     [IUnknown_QueryInterface_C,
      IUnknown_AddRef_C,
      IUnknown_Release_C,
      CDecl ''ICoreWebView2ProcessExtendedInfoCollection'' ''HRESULT'' ''get_Count'' [''UINT *count''],
      CDecl ''ICoreWebView2ProcessExtendedInfoCollection'' ''HRESULT'' ''GetValueAtIndex'' [''UINT32 index'', ''ICoreWebView2ProcessExtendedInfo **processInfo'']]"

definition ICoreWebView2FrameVtbl :: vtable where
  "ICoreWebView2FrameVtbl = Vtable ''ICoreWebView2Frame''
     [IUnknown_QueryInterface_C, IUnknown_AddRef_C, IUnknown_Release_C, ICoreWebView2Frame_get_Name_C,
      ICoreWebView2Frame_add_NameChanged_C, ICoreWebView2Frame_remove_NameChanged_C,
      ICoreWebView2Frame_AddHostObjectToScriptWithOrigins_C, ICoreWebView2Frame_RemoveHostObjectFromScript_C,
      ICoreWebView2Frame_add_Destroyed_C, ICoreWebView2Frame_remove_Destroyed_C, ICoreWebView2Frame_IsDestroyed_C]"

definition ICoreWebView2Frame2Vtbl :: vtable where
  "ICoreWebView2Frame2Vtbl = Vtable ''ICoreWebView2Frame2''
     [IUnknown_QueryInterface_C, IUnknown_AddRef_C, IUnknown_Release_C, ICoreWebView2Frame_get_Name_C,
      ICoreWebView2Frame_add_NameChanged_C, ICoreWebView2Frame_remove_NameChanged_C,
      ICoreWebView2Frame_AddHostObjectToScriptWithOrigins_C, ICoreWebView2Frame_RemoveHostObjectFromScript_C,
      ICoreWebView2Frame_add_Destroyed_C, ICoreWebView2Frame_remove_Destroyed_C, ICoreWebView2Frame_IsDestroyed_C,
      ICoreWebView2Frame2_add_NavigationStarting_C, ICoreWebView2Frame2_remove_NavigationStarting_C,
      ICoreWebView2Frame2_add_ContentLoading_C, ICoreWebView2Frame2_remove_ContentLoading_C,
      ICoreWebView2Frame2_add_NavigationCompleted_C, ICoreWebView2Frame2_remove_NavigationCompleted_C,
      ICoreWebView2Frame2_add_DOMContentLoaded_C, ICoreWebView2Frame2_remove_DOMContentLoaded_C,
      ICoreWebView2Frame2_ExecuteScript_C, ICoreWebView2Frame2_PostWebMessageAsJson_C,
      ICoreWebView2Frame2_PostWebMessageAsString_C, ICoreWebView2Frame2_add_WebMessageReceived_C,
      ICoreWebView2Frame2_remove_WebMessageReceived_C]"

definition ICoreWebView2Frame3Vtbl_1 :: "cdecl list" where
  "ICoreWebView2Frame3Vtbl_1 =
     [IUnknown_QueryInterface_C, IUnknown_AddRef_C, IUnknown_Release_C, ICoreWebView2Frame_get_Name_C,
      ICoreWebView2Frame_add_NameChanged_C, ICoreWebView2Frame_remove_NameChanged_C,
      ICoreWebView2Frame_AddHostObjectToScriptWithOrigins_C, ICoreWebView2Frame_RemoveHostObjectFromScript_C,
      ICoreWebView2Frame_add_Destroyed_C, ICoreWebView2Frame_remove_Destroyed_C, ICoreWebView2Frame_IsDestroyed_C,
      ICoreWebView2Frame2_add_NavigationStarting_C, ICoreWebView2Frame2_remove_NavigationStarting_C,
      ICoreWebView2Frame2_add_ContentLoading_C, ICoreWebView2Frame2_remove_ContentLoading_C,
      ICoreWebView2Frame2_add_NavigationCompleted_C, ICoreWebView2Frame2_remove_NavigationCompleted_C,
      ICoreWebView2Frame2_add_DOMContentLoaded_C, ICoreWebView2Frame2_remove_DOMContentLoaded_C,
      ICoreWebView2Frame2_ExecuteScript_C, ICoreWebView2Frame2_PostWebMessageAsJson_C,
      ICoreWebView2Frame2_PostWebMessageAsString_C, ICoreWebView2Frame2_add_WebMessageReceived_C,
      ICoreWebView2Frame2_remove_WebMessageReceived_C, ICoreWebView2Frame3_add_PermissionRequested_C]"

definition ICoreWebView2Frame3Vtbl_2 :: "cdecl list" where
  "ICoreWebView2Frame3Vtbl_2 =
     [ICoreWebView2Frame3_remove_PermissionRequested_C]"

definition ICoreWebView2Frame3Vtbl :: vtable where
  "ICoreWebView2Frame3Vtbl = Vtable ''ICoreWebView2Frame3''
     (ICoreWebView2Frame3Vtbl_1 @ ICoreWebView2Frame3Vtbl_2)"

definition ICoreWebView2Frame4Vtbl_1 :: "cdecl list" where
  "ICoreWebView2Frame4Vtbl_1 =
     [IUnknown_QueryInterface_C, IUnknown_AddRef_C, IUnknown_Release_C, ICoreWebView2Frame_get_Name_C,
      ICoreWebView2Frame_add_NameChanged_C, ICoreWebView2Frame_remove_NameChanged_C,
      ICoreWebView2Frame_AddHostObjectToScriptWithOrigins_C, ICoreWebView2Frame_RemoveHostObjectFromScript_C,
      ICoreWebView2Frame_add_Destroyed_C, ICoreWebView2Frame_remove_Destroyed_C, ICoreWebView2Frame_IsDestroyed_C,
      ICoreWebView2Frame2_add_NavigationStarting_C, ICoreWebView2Frame2_remove_NavigationStarting_C,
      ICoreWebView2Frame2_add_ContentLoading_C, ICoreWebView2Frame2_remove_ContentLoading_C,
      ICoreWebView2Frame2_add_NavigationCompleted_C, ICoreWebView2Frame2_remove_NavigationCompleted_C,
      ICoreWebView2Frame2_add_DOMContentLoaded_C, ICoreWebView2Frame2_remove_DOMContentLoaded_C,
      ICoreWebView2Frame2_ExecuteScript_C, ICoreWebView2Frame2_PostWebMessageAsJson_C,
      ICoreWebView2Frame2_PostWebMessageAsString_C, ICoreWebView2Frame2_add_WebMessageReceived_C,
      ICoreWebView2Frame2_remove_WebMessageReceived_C, ICoreWebView2Frame3_add_PermissionRequested_C]"

definition ICoreWebView2Frame4Vtbl_2 :: "cdecl list" where
  "ICoreWebView2Frame4Vtbl_2 =
     [ICoreWebView2Frame3_remove_PermissionRequested_C, ICoreWebView2Frame4_PostSharedBufferToScript_C]"

definition ICoreWebView2Frame4Vtbl :: vtable where
  "ICoreWebView2Frame4Vtbl = Vtable ''ICoreWebView2Frame4''
     (ICoreWebView2Frame4Vtbl_1 @ ICoreWebView2Frame4Vtbl_2)"

definition ICoreWebView2Frame5Vtbl_1 :: "cdecl list" where
  "ICoreWebView2Frame5Vtbl_1 =
     [IUnknown_QueryInterface_C, IUnknown_AddRef_C, IUnknown_Release_C, ICoreWebView2Frame_get_Name_C,
      ICoreWebView2Frame_add_NameChanged_C, ICoreWebView2Frame_remove_NameChanged_C,
      ICoreWebView2Frame_AddHostObjectToScriptWithOrigins_C, ICoreWebView2Frame_RemoveHostObjectFromScript_C,
      ICoreWebView2Frame_add_Destroyed_C, ICoreWebView2Frame_remove_Destroyed_C, ICoreWebView2Frame_IsDestroyed_C,
      ICoreWebView2Frame2_add_NavigationStarting_C, ICoreWebView2Frame2_remove_NavigationStarting_C,
      ICoreWebView2Frame2_add_ContentLoading_C, ICoreWebView2Frame2_remove_ContentLoading_C,
      ICoreWebView2Frame2_add_NavigationCompleted_C, ICoreWebView2Frame2_remove_NavigationCompleted_C,
      ICoreWebView2Frame2_add_DOMContentLoaded_C, ICoreWebView2Frame2_remove_DOMContentLoaded_C,
      ICoreWebView2Frame2_ExecuteScript_C, ICoreWebView2Frame2_PostWebMessageAsJson_C,
      ICoreWebView2Frame2_PostWebMessageAsString_C, ICoreWebView2Frame2_add_WebMessageReceived_C,
      ICoreWebView2Frame2_remove_WebMessageReceived_C, ICoreWebView2Frame3_add_PermissionRequested_C]"

definition ICoreWebView2Frame5Vtbl_2 :: "cdecl list" where
  "ICoreWebView2Frame5Vtbl_2 =
     [ICoreWebView2Frame3_remove_PermissionRequested_C,
      ICoreWebView2Frame4_PostSharedBufferToScript_C,
      CDecl ''ICoreWebView2Frame5'' ''HRESULT'' ''get_FrameId'' [''UINT32 *id'']]"

definition ICoreWebView2Frame5Vtbl :: vtable where
  "ICoreWebView2Frame5Vtbl = Vtable ''ICoreWebView2Frame5''
     (ICoreWebView2Frame5Vtbl_1 @ ICoreWebView2Frame5Vtbl_2)"

definition ICoreWebView2FrameInfoVtbl :: vtable where
  "ICoreWebView2FrameInfoVtbl = Vtable ''ICoreWebView2FrameInfo''
     [IUnknown_QueryInterface_C, IUnknown_AddRef_C, IUnknown_Release_C, ICoreWebView2FrameInfo_get_Name_C,
      ICoreWebView2FrameInfo_get_Source_C]"

definition ICoreWebView2FrameInfo2Vtbl :: vtable where
  "ICoreWebView2FrameInfo2Vtbl = Vtable ''ICoreWebView2FrameInfo2''
     [IUnknown_QueryInterface_C,
      IUnknown_AddRef_C,
      IUnknown_Release_C,
      ICoreWebView2FrameInfo_get_Name_C,
      ICoreWebView2FrameInfo_get_Source_C,
      CDecl ''ICoreWebView2FrameInfo2'' ''HRESULT'' ''get_ParentFrameInfo'' [''ICoreWebView2FrameInfo **frameInfo''],
      CDecl ''ICoreWebView2FrameInfo2'' ''HRESULT'' ''get_FrameId'' [''UINT32 *id''],
      CDecl ''ICoreWebView2FrameInfo2'' ''HRESULT'' ''get_FrameKind'' [''COREWEBVIEW2_FRAME_KIND *kind'']]"

definition ICoreWebView2FrameInfoCollectionVtbl :: vtable where
  "ICoreWebView2FrameInfoCollectionVtbl = Vtable ''ICoreWebView2FrameInfoCollection''
     [IUnknown_QueryInterface_C,
      IUnknown_AddRef_C,
      IUnknown_Release_C,
      CDecl ''ICoreWebView2FrameInfoCollection'' ''HRESULT'' ''GetIterator'' [''ICoreWebView2FrameInfoCollectionIterator **iterator'']]"

definition ICoreWebView2FrameInfoCollectionIteratorVtbl :: vtable where
  "ICoreWebView2FrameInfoCollectionIteratorVtbl = Vtable ''ICoreWebView2FrameInfoCollectionIterator''
     [IUnknown_QueryInterface_C,
      IUnknown_AddRef_C,
      IUnknown_Release_C,
      CDecl ''ICoreWebView2FrameInfoCollectionIterator'' ''HRESULT'' ''get_HasCurrent'' [''BOOL *hasCurrent''],
      CDecl ''ICoreWebView2FrameInfoCollectionIterator'' ''HRESULT'' ''GetCurrent'' [''ICoreWebView2FrameInfo **frameInfo''],
      CDecl ''ICoreWebView2FrameInfoCollectionIterator'' ''HRESULT'' ''MoveNext'' [''BOOL *hasNext'']]"

definition ICoreWebView2ProfileVtbl :: vtable where
  "ICoreWebView2ProfileVtbl = Vtable ''ICoreWebView2Profile''
     [IUnknown_QueryInterface_C, IUnknown_AddRef_C, IUnknown_Release_C, ICoreWebView2Profile_get_ProfileName_C,
      ICoreWebView2Profile_get_IsInPrivateModeEnabled_C, ICoreWebView2Profile_get_ProfilePath_C,
      ICoreWebView2Profile_get_DefaultDownloadFolderPath_C, ICoreWebView2Profile_put_DefaultDownloadFolderPath_C,
      ICoreWebView2Profile_get_PreferredColorScheme_C, ICoreWebView2Profile_put_PreferredColorScheme_C]"

definition ICoreWebView2Profile2Vtbl :: vtable where
  "ICoreWebView2Profile2Vtbl = Vtable ''ICoreWebView2Profile2''
     [IUnknown_QueryInterface_C, IUnknown_AddRef_C, IUnknown_Release_C, ICoreWebView2Profile_get_ProfileName_C,
      ICoreWebView2Profile_get_IsInPrivateModeEnabled_C, ICoreWebView2Profile_get_ProfilePath_C,
      ICoreWebView2Profile_get_DefaultDownloadFolderPath_C, ICoreWebView2Profile_put_DefaultDownloadFolderPath_C,
      ICoreWebView2Profile_get_PreferredColorScheme_C, ICoreWebView2Profile_put_PreferredColorScheme_C,
      ICoreWebView2Profile2_ClearBrowsingData_C, ICoreWebView2Profile2_ClearBrowsingDataInTimeRange_C,
      ICoreWebView2Profile2_ClearBrowsingDataAll_C]"

definition ICoreWebView2Profile3Vtbl :: vtable where
  "ICoreWebView2Profile3Vtbl = Vtable ''ICoreWebView2Profile3''
     [IUnknown_QueryInterface_C, IUnknown_AddRef_C, IUnknown_Release_C, ICoreWebView2Profile_get_ProfileName_C,
      ICoreWebView2Profile_get_IsInPrivateModeEnabled_C, ICoreWebView2Profile_get_ProfilePath_C,
      ICoreWebView2Profile_get_DefaultDownloadFolderPath_C, ICoreWebView2Profile_put_DefaultDownloadFolderPath_C,
      ICoreWebView2Profile_get_PreferredColorScheme_C, ICoreWebView2Profile_put_PreferredColorScheme_C,
      ICoreWebView2Profile2_ClearBrowsingData_C, ICoreWebView2Profile2_ClearBrowsingDataInTimeRange_C,
      ICoreWebView2Profile2_ClearBrowsingDataAll_C, ICoreWebView2Profile3_get_PreferredTrackingPreventionLevel_C,
      ICoreWebView2Profile3_put_PreferredTrackingPreventionLevel_C]"

definition ICoreWebView2Profile4Vtbl :: vtable where
  "ICoreWebView2Profile4Vtbl = Vtable ''ICoreWebView2Profile4''
     [IUnknown_QueryInterface_C, IUnknown_AddRef_C, IUnknown_Release_C, ICoreWebView2Profile_get_ProfileName_C,
      ICoreWebView2Profile_get_IsInPrivateModeEnabled_C, ICoreWebView2Profile_get_ProfilePath_C,
      ICoreWebView2Profile_get_DefaultDownloadFolderPath_C, ICoreWebView2Profile_put_DefaultDownloadFolderPath_C,
      ICoreWebView2Profile_get_PreferredColorScheme_C, ICoreWebView2Profile_put_PreferredColorScheme_C,
      ICoreWebView2Profile2_ClearBrowsingData_C, ICoreWebView2Profile2_ClearBrowsingDataInTimeRange_C,
      ICoreWebView2Profile2_ClearBrowsingDataAll_C, ICoreWebView2Profile3_get_PreferredTrackingPreventionLevel_C,
      ICoreWebView2Profile3_put_PreferredTrackingPreventionLevel_C, ICoreWebView2Profile4_SetPermissionState_C,
      ICoreWebView2Profile4_GetNonDefaultPermissionSettings_C]"

definition ICoreWebView2Profile5Vtbl :: vtable where
  "ICoreWebView2Profile5Vtbl = Vtable ''ICoreWebView2Profile5''
     [IUnknown_QueryInterface_C, IUnknown_AddRef_C, IUnknown_Release_C, ICoreWebView2Profile_get_ProfileName_C,
      ICoreWebView2Profile_get_IsInPrivateModeEnabled_C, ICoreWebView2Profile_get_ProfilePath_C,
      ICoreWebView2Profile_get_DefaultDownloadFolderPath_C, ICoreWebView2Profile_put_DefaultDownloadFolderPath_C,
      ICoreWebView2Profile_get_PreferredColorScheme_C, ICoreWebView2Profile_put_PreferredColorScheme_C,
      ICoreWebView2Profile2_ClearBrowsingData_C, ICoreWebView2Profile2_ClearBrowsingDataInTimeRange_C,
      ICoreWebView2Profile2_ClearBrowsingDataAll_C, ICoreWebView2Profile3_get_PreferredTrackingPreventionLevel_C,
      ICoreWebView2Profile3_put_PreferredTrackingPreventionLevel_C, ICoreWebView2Profile4_SetPermissionState_C,
      ICoreWebView2Profile4_GetNonDefaultPermissionSettings_C, ICoreWebView2Profile5_get_CookieManager_C]"

definition ICoreWebView2Profile6Vtbl :: vtable where
  "ICoreWebView2Profile6Vtbl = Vtable ''ICoreWebView2Profile6''
     [IUnknown_QueryInterface_C, IUnknown_AddRef_C, IUnknown_Release_C, ICoreWebView2Profile_get_ProfileName_C,
      ICoreWebView2Profile_get_IsInPrivateModeEnabled_C, ICoreWebView2Profile_get_ProfilePath_C,
      ICoreWebView2Profile_get_DefaultDownloadFolderPath_C, ICoreWebView2Profile_put_DefaultDownloadFolderPath_C,
      ICoreWebView2Profile_get_PreferredColorScheme_C, ICoreWebView2Profile_put_PreferredColorScheme_C,
      ICoreWebView2Profile2_ClearBrowsingData_C, ICoreWebView2Profile2_ClearBrowsingDataInTimeRange_C,
      ICoreWebView2Profile2_ClearBrowsingDataAll_C, ICoreWebView2Profile3_get_PreferredTrackingPreventionLevel_C,
      ICoreWebView2Profile3_put_PreferredTrackingPreventionLevel_C, ICoreWebView2Profile4_SetPermissionState_C,
      ICoreWebView2Profile4_GetNonDefaultPermissionSettings_C, ICoreWebView2Profile5_get_CookieManager_C,
      ICoreWebView2Profile6_get_IsPasswordAutosaveEnabled_C, ICoreWebView2Profile6_put_IsPasswordAutosaveEnabled_C,
      ICoreWebView2Profile6_get_IsGeneralAutofillEnabled_C, ICoreWebView2Profile6_put_IsGeneralAutofillEnabled_C]"

definition ICoreWebView2Profile7Vtbl :: vtable where
  "ICoreWebView2Profile7Vtbl = Vtable ''ICoreWebView2Profile7''
     [IUnknown_QueryInterface_C, IUnknown_AddRef_C, IUnknown_Release_C, ICoreWebView2Profile_get_ProfileName_C,
      ICoreWebView2Profile_get_IsInPrivateModeEnabled_C, ICoreWebView2Profile_get_ProfilePath_C,
      ICoreWebView2Profile_get_DefaultDownloadFolderPath_C, ICoreWebView2Profile_put_DefaultDownloadFolderPath_C,
      ICoreWebView2Profile_get_PreferredColorScheme_C, ICoreWebView2Profile_put_PreferredColorScheme_C,
      ICoreWebView2Profile2_ClearBrowsingData_C, ICoreWebView2Profile2_ClearBrowsingDataInTimeRange_C,
      ICoreWebView2Profile2_ClearBrowsingDataAll_C, ICoreWebView2Profile3_get_PreferredTrackingPreventionLevel_C,
      ICoreWebView2Profile3_put_PreferredTrackingPreventionLevel_C, ICoreWebView2Profile4_SetPermissionState_C,
      ICoreWebView2Profile4_GetNonDefaultPermissionSettings_C, ICoreWebView2Profile5_get_CookieManager_C,
      ICoreWebView2Profile6_get_IsPasswordAutosaveEnabled_C, ICoreWebView2Profile6_put_IsPasswordAutosaveEnabled_C,
      ICoreWebView2Profile6_get_IsGeneralAutofillEnabled_C, ICoreWebView2Profile6_put_IsGeneralAutofillEnabled_C,
      ICoreWebView2Profile7_AddBrowserExtension_C, ICoreWebView2Profile7_GetBrowserExtensions_C]"

definition ICoreWebView2Profile8Vtbl_1 :: "cdecl list" where
  "ICoreWebView2Profile8Vtbl_1 =
     [IUnknown_QueryInterface_C,
      IUnknown_AddRef_C,
      IUnknown_Release_C,
      ICoreWebView2Profile_get_ProfileName_C,
      ICoreWebView2Profile_get_IsInPrivateModeEnabled_C,
      ICoreWebView2Profile_get_ProfilePath_C,
      ICoreWebView2Profile_get_DefaultDownloadFolderPath_C,
      ICoreWebView2Profile_put_DefaultDownloadFolderPath_C,
      ICoreWebView2Profile_get_PreferredColorScheme_C,
      ICoreWebView2Profile_put_PreferredColorScheme_C,
      ICoreWebView2Profile2_ClearBrowsingData_C,
      ICoreWebView2Profile2_ClearBrowsingDataInTimeRange_C,
      ICoreWebView2Profile2_ClearBrowsingDataAll_C,
      ICoreWebView2Profile3_get_PreferredTrackingPreventionLevel_C,
      ICoreWebView2Profile3_put_PreferredTrackingPreventionLevel_C,
      ICoreWebView2Profile4_SetPermissionState_C,
      ICoreWebView2Profile4_GetNonDefaultPermissionSettings_C,
      ICoreWebView2Profile5_get_CookieManager_C,
      ICoreWebView2Profile6_get_IsPasswordAutosaveEnabled_C,
      ICoreWebView2Profile6_put_IsPasswordAutosaveEnabled_C,
      ICoreWebView2Profile6_get_IsGeneralAutofillEnabled_C,
      ICoreWebView2Profile6_put_IsGeneralAutofillEnabled_C,
      ICoreWebView2Profile7_AddBrowserExtension_C,
      ICoreWebView2Profile7_GetBrowserExtensions_C,
      CDecl ''ICoreWebView2Profile8'' ''HRESULT'' ''Delete'' [],
      CDecl ''ICoreWebView2Profile8'' ''HRESULT'' ''add_Deleted'' [''ICoreWebView2ProfileDeletedEventHandler *eventHandler'', ''EventRegistrationToken *token'']]"

definition ICoreWebView2Profile8Vtbl_2 :: "cdecl list" where
  "ICoreWebView2Profile8Vtbl_2 =
     [CDecl ''ICoreWebView2Profile8'' ''HRESULT'' ''remove_Deleted'' [''EventRegistrationToken token'']]"

definition ICoreWebView2Profile8Vtbl :: vtable where
  "ICoreWebView2Profile8Vtbl = Vtable ''ICoreWebView2Profile8''
     (ICoreWebView2Profile8Vtbl_1 @ ICoreWebView2Profile8Vtbl_2)"

definition ICoreWebView2SettingsVtbl :: vtable where
  "ICoreWebView2SettingsVtbl = Vtable ''ICoreWebView2Settings''
     [IUnknown_QueryInterface_C, IUnknown_AddRef_C, IUnknown_Release_C, ICoreWebView2Settings_get_IsScriptEnabled_C,
      ICoreWebView2Settings_put_IsScriptEnabled_C, ICoreWebView2Settings_get_IsWebMessageEnabled_C,
      ICoreWebView2Settings_put_IsWebMessageEnabled_C, ICoreWebView2Settings_get_AreDefaultScriptDialogsEnabled_C,
      ICoreWebView2Settings_put_AreDefaultScriptDialogsEnabled_C, ICoreWebView2Settings_get_IsStatusBarEnabled_C,
      ICoreWebView2Settings_put_IsStatusBarEnabled_C, ICoreWebView2Settings_get_AreDevToolsEnabled_C,
      ICoreWebView2Settings_put_AreDevToolsEnabled_C, ICoreWebView2Settings_get_AreDefaultContextMenusEnabled_C,
      ICoreWebView2Settings_put_AreDefaultContextMenusEnabled_C, ICoreWebView2Settings_get_AreHostObjectsAllowed_C,
      ICoreWebView2Settings_put_AreHostObjectsAllowed_C, ICoreWebView2Settings_get_IsZoomControlEnabled_C,
      ICoreWebView2Settings_put_IsZoomControlEnabled_C, ICoreWebView2Settings_get_IsBuiltInErrorPageEnabled_C,
      ICoreWebView2Settings_put_IsBuiltInErrorPageEnabled_C]"

definition ICoreWebView2Settings2Vtbl :: vtable where
  "ICoreWebView2Settings2Vtbl = Vtable ''ICoreWebView2Settings2''
     [IUnknown_QueryInterface_C, IUnknown_AddRef_C, IUnknown_Release_C, ICoreWebView2Settings_get_IsScriptEnabled_C,
      ICoreWebView2Settings_put_IsScriptEnabled_C, ICoreWebView2Settings_get_IsWebMessageEnabled_C,
      ICoreWebView2Settings_put_IsWebMessageEnabled_C, ICoreWebView2Settings_get_AreDefaultScriptDialogsEnabled_C,
      ICoreWebView2Settings_put_AreDefaultScriptDialogsEnabled_C, ICoreWebView2Settings_get_IsStatusBarEnabled_C,
      ICoreWebView2Settings_put_IsStatusBarEnabled_C, ICoreWebView2Settings_get_AreDevToolsEnabled_C,
      ICoreWebView2Settings_put_AreDevToolsEnabled_C, ICoreWebView2Settings_get_AreDefaultContextMenusEnabled_C,
      ICoreWebView2Settings_put_AreDefaultContextMenusEnabled_C, ICoreWebView2Settings_get_AreHostObjectsAllowed_C,
      ICoreWebView2Settings_put_AreHostObjectsAllowed_C, ICoreWebView2Settings_get_IsZoomControlEnabled_C,
      ICoreWebView2Settings_put_IsZoomControlEnabled_C, ICoreWebView2Settings_get_IsBuiltInErrorPageEnabled_C,
      ICoreWebView2Settings_put_IsBuiltInErrorPageEnabled_C, ICoreWebView2Settings2_get_UserAgent_C,
      ICoreWebView2Settings2_put_UserAgent_C]"

definition ICoreWebView2Settings3Vtbl :: vtable where
  "ICoreWebView2Settings3Vtbl = Vtable ''ICoreWebView2Settings3''
     [IUnknown_QueryInterface_C, IUnknown_AddRef_C, IUnknown_Release_C, ICoreWebView2Settings_get_IsScriptEnabled_C,
      ICoreWebView2Settings_put_IsScriptEnabled_C, ICoreWebView2Settings_get_IsWebMessageEnabled_C,
      ICoreWebView2Settings_put_IsWebMessageEnabled_C, ICoreWebView2Settings_get_AreDefaultScriptDialogsEnabled_C,
      ICoreWebView2Settings_put_AreDefaultScriptDialogsEnabled_C, ICoreWebView2Settings_get_IsStatusBarEnabled_C,
      ICoreWebView2Settings_put_IsStatusBarEnabled_C, ICoreWebView2Settings_get_AreDevToolsEnabled_C,
      ICoreWebView2Settings_put_AreDevToolsEnabled_C, ICoreWebView2Settings_get_AreDefaultContextMenusEnabled_C,
      ICoreWebView2Settings_put_AreDefaultContextMenusEnabled_C, ICoreWebView2Settings_get_AreHostObjectsAllowed_C,
      ICoreWebView2Settings_put_AreHostObjectsAllowed_C, ICoreWebView2Settings_get_IsZoomControlEnabled_C,
      ICoreWebView2Settings_put_IsZoomControlEnabled_C, ICoreWebView2Settings_get_IsBuiltInErrorPageEnabled_C,
      ICoreWebView2Settings_put_IsBuiltInErrorPageEnabled_C, ICoreWebView2Settings2_get_UserAgent_C,
      ICoreWebView2Settings2_put_UserAgent_C, ICoreWebView2Settings3_get_AreBrowserAcceleratorKeysEnabled_C,
      ICoreWebView2Settings3_put_AreBrowserAcceleratorKeysEnabled_C]"

definition ICoreWebView2Settings4Vtbl_1 :: "cdecl list" where
  "ICoreWebView2Settings4Vtbl_1 =
     [IUnknown_QueryInterface_C, IUnknown_AddRef_C, IUnknown_Release_C, ICoreWebView2Settings_get_IsScriptEnabled_C,
      ICoreWebView2Settings_put_IsScriptEnabled_C, ICoreWebView2Settings_get_IsWebMessageEnabled_C,
      ICoreWebView2Settings_put_IsWebMessageEnabled_C, ICoreWebView2Settings_get_AreDefaultScriptDialogsEnabled_C,
      ICoreWebView2Settings_put_AreDefaultScriptDialogsEnabled_C, ICoreWebView2Settings_get_IsStatusBarEnabled_C,
      ICoreWebView2Settings_put_IsStatusBarEnabled_C, ICoreWebView2Settings_get_AreDevToolsEnabled_C,
      ICoreWebView2Settings_put_AreDevToolsEnabled_C, ICoreWebView2Settings_get_AreDefaultContextMenusEnabled_C,
      ICoreWebView2Settings_put_AreDefaultContextMenusEnabled_C, ICoreWebView2Settings_get_AreHostObjectsAllowed_C,
      ICoreWebView2Settings_put_AreHostObjectsAllowed_C, ICoreWebView2Settings_get_IsZoomControlEnabled_C,
      ICoreWebView2Settings_put_IsZoomControlEnabled_C, ICoreWebView2Settings_get_IsBuiltInErrorPageEnabled_C,
      ICoreWebView2Settings_put_IsBuiltInErrorPageEnabled_C, ICoreWebView2Settings2_get_UserAgent_C,
      ICoreWebView2Settings2_put_UserAgent_C, ICoreWebView2Settings3_get_AreBrowserAcceleratorKeysEnabled_C,
      ICoreWebView2Settings3_put_AreBrowserAcceleratorKeysEnabled_C,
      ICoreWebView2Settings4_get_IsPasswordAutosaveEnabled_C, ICoreWebView2Settings4_put_IsPasswordAutosaveEnabled_C,
      ICoreWebView2Settings4_get_IsGeneralAutofillEnabled_C]"

definition ICoreWebView2Settings4Vtbl_2 :: "cdecl list" where
  "ICoreWebView2Settings4Vtbl_2 =
     [ICoreWebView2Settings4_put_IsGeneralAutofillEnabled_C]"

definition ICoreWebView2Settings4Vtbl :: vtable where
  "ICoreWebView2Settings4Vtbl = Vtable ''ICoreWebView2Settings4''
     (ICoreWebView2Settings4Vtbl_1 @ ICoreWebView2Settings4Vtbl_2)"

definition ICoreWebView2Settings5Vtbl_1 :: "cdecl list" where
  "ICoreWebView2Settings5Vtbl_1 =
     [IUnknown_QueryInterface_C, IUnknown_AddRef_C, IUnknown_Release_C, ICoreWebView2Settings_get_IsScriptEnabled_C,
      ICoreWebView2Settings_put_IsScriptEnabled_C, ICoreWebView2Settings_get_IsWebMessageEnabled_C,
      ICoreWebView2Settings_put_IsWebMessageEnabled_C, ICoreWebView2Settings_get_AreDefaultScriptDialogsEnabled_C,
      ICoreWebView2Settings_put_AreDefaultScriptDialogsEnabled_C, ICoreWebView2Settings_get_IsStatusBarEnabled_C,
      ICoreWebView2Settings_put_IsStatusBarEnabled_C, ICoreWebView2Settings_get_AreDevToolsEnabled_C,
      ICoreWebView2Settings_put_AreDevToolsEnabled_C, ICoreWebView2Settings_get_AreDefaultContextMenusEnabled_C,
      ICoreWebView2Settings_put_AreDefaultContextMenusEnabled_C, ICoreWebView2Settings_get_AreHostObjectsAllowed_C,
      ICoreWebView2Settings_put_AreHostObjectsAllowed_C, ICoreWebView2Settings_get_IsZoomControlEnabled_C,
      ICoreWebView2Settings_put_IsZoomControlEnabled_C, ICoreWebView2Settings_get_IsBuiltInErrorPageEnabled_C,
      ICoreWebView2Settings_put_IsBuiltInErrorPageEnabled_C, ICoreWebView2Settings2_get_UserAgent_C,
      ICoreWebView2Settings2_put_UserAgent_C, ICoreWebView2Settings3_get_AreBrowserAcceleratorKeysEnabled_C,
      ICoreWebView2Settings3_put_AreBrowserAcceleratorKeysEnabled_C,
      ICoreWebView2Settings4_get_IsPasswordAutosaveEnabled_C, ICoreWebView2Settings4_put_IsPasswordAutosaveEnabled_C,
      ICoreWebView2Settings4_get_IsGeneralAutofillEnabled_C]"

definition ICoreWebView2Settings5Vtbl_2 :: "cdecl list" where
  "ICoreWebView2Settings5Vtbl_2 =
     [ICoreWebView2Settings4_put_IsGeneralAutofillEnabled_C, ICoreWebView2Settings5_get_IsPinchZoomEnabled_C,
      ICoreWebView2Settings5_put_IsPinchZoomEnabled_C]"

definition ICoreWebView2Settings5Vtbl :: vtable where
  "ICoreWebView2Settings5Vtbl = Vtable ''ICoreWebView2Settings5''
     (ICoreWebView2Settings5Vtbl_1 @ ICoreWebView2Settings5Vtbl_2)"

definition ICoreWebView2Settings6Vtbl_1 :: "cdecl list" where
  "ICoreWebView2Settings6Vtbl_1 =
     [IUnknown_QueryInterface_C, IUnknown_AddRef_C, IUnknown_Release_C, ICoreWebView2Settings_get_IsScriptEnabled_C,
      ICoreWebView2Settings_put_IsScriptEnabled_C, ICoreWebView2Settings_get_IsWebMessageEnabled_C,
      ICoreWebView2Settings_put_IsWebMessageEnabled_C, ICoreWebView2Settings_get_AreDefaultScriptDialogsEnabled_C,
      ICoreWebView2Settings_put_AreDefaultScriptDialogsEnabled_C, ICoreWebView2Settings_get_IsStatusBarEnabled_C,
      ICoreWebView2Settings_put_IsStatusBarEnabled_C, ICoreWebView2Settings_get_AreDevToolsEnabled_C,
      ICoreWebView2Settings_put_AreDevToolsEnabled_C, ICoreWebView2Settings_get_AreDefaultContextMenusEnabled_C,
      ICoreWebView2Settings_put_AreDefaultContextMenusEnabled_C, ICoreWebView2Settings_get_AreHostObjectsAllowed_C,
      ICoreWebView2Settings_put_AreHostObjectsAllowed_C, ICoreWebView2Settings_get_IsZoomControlEnabled_C,
      ICoreWebView2Settings_put_IsZoomControlEnabled_C, ICoreWebView2Settings_get_IsBuiltInErrorPageEnabled_C,
      ICoreWebView2Settings_put_IsBuiltInErrorPageEnabled_C, ICoreWebView2Settings2_get_UserAgent_C,
      ICoreWebView2Settings2_put_UserAgent_C, ICoreWebView2Settings3_get_AreBrowserAcceleratorKeysEnabled_C,
      ICoreWebView2Settings3_put_AreBrowserAcceleratorKeysEnabled_C,
      ICoreWebView2Settings4_get_IsPasswordAutosaveEnabled_C, ICoreWebView2Settings4_put_IsPasswordAutosaveEnabled_C,
      ICoreWebView2Settings4_get_IsGeneralAutofillEnabled_C]"

definition ICoreWebView2Settings6Vtbl_2 :: "cdecl list" where
  "ICoreWebView2Settings6Vtbl_2 =
     [ICoreWebView2Settings4_put_IsGeneralAutofillEnabled_C, ICoreWebView2Settings5_get_IsPinchZoomEnabled_C,
      ICoreWebView2Settings5_put_IsPinchZoomEnabled_C, ICoreWebView2Settings6_get_IsSwipeNavigationEnabled_C,
      ICoreWebView2Settings6_put_IsSwipeNavigationEnabled_C]"

definition ICoreWebView2Settings6Vtbl :: vtable where
  "ICoreWebView2Settings6Vtbl = Vtable ''ICoreWebView2Settings6''
     (ICoreWebView2Settings6Vtbl_1 @ ICoreWebView2Settings6Vtbl_2)"

definition ICoreWebView2Settings7Vtbl_1 :: "cdecl list" where
  "ICoreWebView2Settings7Vtbl_1 =
     [IUnknown_QueryInterface_C, IUnknown_AddRef_C, IUnknown_Release_C, ICoreWebView2Settings_get_IsScriptEnabled_C,
      ICoreWebView2Settings_put_IsScriptEnabled_C, ICoreWebView2Settings_get_IsWebMessageEnabled_C,
      ICoreWebView2Settings_put_IsWebMessageEnabled_C, ICoreWebView2Settings_get_AreDefaultScriptDialogsEnabled_C,
      ICoreWebView2Settings_put_AreDefaultScriptDialogsEnabled_C, ICoreWebView2Settings_get_IsStatusBarEnabled_C,
      ICoreWebView2Settings_put_IsStatusBarEnabled_C, ICoreWebView2Settings_get_AreDevToolsEnabled_C,
      ICoreWebView2Settings_put_AreDevToolsEnabled_C, ICoreWebView2Settings_get_AreDefaultContextMenusEnabled_C,
      ICoreWebView2Settings_put_AreDefaultContextMenusEnabled_C, ICoreWebView2Settings_get_AreHostObjectsAllowed_C,
      ICoreWebView2Settings_put_AreHostObjectsAllowed_C, ICoreWebView2Settings_get_IsZoomControlEnabled_C,
      ICoreWebView2Settings_put_IsZoomControlEnabled_C, ICoreWebView2Settings_get_IsBuiltInErrorPageEnabled_C,
      ICoreWebView2Settings_put_IsBuiltInErrorPageEnabled_C, ICoreWebView2Settings2_get_UserAgent_C,
      ICoreWebView2Settings2_put_UserAgent_C, ICoreWebView2Settings3_get_AreBrowserAcceleratorKeysEnabled_C,
      ICoreWebView2Settings3_put_AreBrowserAcceleratorKeysEnabled_C,
      ICoreWebView2Settings4_get_IsPasswordAutosaveEnabled_C, ICoreWebView2Settings4_put_IsPasswordAutosaveEnabled_C,
      ICoreWebView2Settings4_get_IsGeneralAutofillEnabled_C]"

definition ICoreWebView2Settings7Vtbl_2 :: "cdecl list" where
  "ICoreWebView2Settings7Vtbl_2 =
     [ICoreWebView2Settings4_put_IsGeneralAutofillEnabled_C, ICoreWebView2Settings5_get_IsPinchZoomEnabled_C,
      ICoreWebView2Settings5_put_IsPinchZoomEnabled_C, ICoreWebView2Settings6_get_IsSwipeNavigationEnabled_C,
      ICoreWebView2Settings6_put_IsSwipeNavigationEnabled_C, ICoreWebView2Settings7_get_HiddenPdfToolbarItems_C,
      ICoreWebView2Settings7_put_HiddenPdfToolbarItems_C]"

definition ICoreWebView2Settings7Vtbl :: vtable where
  "ICoreWebView2Settings7Vtbl = Vtable ''ICoreWebView2Settings7''
     (ICoreWebView2Settings7Vtbl_1 @ ICoreWebView2Settings7Vtbl_2)"

definition ICoreWebView2Settings8Vtbl_1 :: "cdecl list" where
  "ICoreWebView2Settings8Vtbl_1 =
     [IUnknown_QueryInterface_C, IUnknown_AddRef_C, IUnknown_Release_C, ICoreWebView2Settings_get_IsScriptEnabled_C,
      ICoreWebView2Settings_put_IsScriptEnabled_C, ICoreWebView2Settings_get_IsWebMessageEnabled_C,
      ICoreWebView2Settings_put_IsWebMessageEnabled_C, ICoreWebView2Settings_get_AreDefaultScriptDialogsEnabled_C,
      ICoreWebView2Settings_put_AreDefaultScriptDialogsEnabled_C, ICoreWebView2Settings_get_IsStatusBarEnabled_C,
      ICoreWebView2Settings_put_IsStatusBarEnabled_C, ICoreWebView2Settings_get_AreDevToolsEnabled_C,
      ICoreWebView2Settings_put_AreDevToolsEnabled_C, ICoreWebView2Settings_get_AreDefaultContextMenusEnabled_C,
      ICoreWebView2Settings_put_AreDefaultContextMenusEnabled_C, ICoreWebView2Settings_get_AreHostObjectsAllowed_C,
      ICoreWebView2Settings_put_AreHostObjectsAllowed_C, ICoreWebView2Settings_get_IsZoomControlEnabled_C,
      ICoreWebView2Settings_put_IsZoomControlEnabled_C, ICoreWebView2Settings_get_IsBuiltInErrorPageEnabled_C,
      ICoreWebView2Settings_put_IsBuiltInErrorPageEnabled_C, ICoreWebView2Settings2_get_UserAgent_C,
      ICoreWebView2Settings2_put_UserAgent_C, ICoreWebView2Settings3_get_AreBrowserAcceleratorKeysEnabled_C,
      ICoreWebView2Settings3_put_AreBrowserAcceleratorKeysEnabled_C,
      ICoreWebView2Settings4_get_IsPasswordAutosaveEnabled_C, ICoreWebView2Settings4_put_IsPasswordAutosaveEnabled_C,
      ICoreWebView2Settings4_get_IsGeneralAutofillEnabled_C]"

definition ICoreWebView2Settings8Vtbl_2 :: "cdecl list" where
  "ICoreWebView2Settings8Vtbl_2 =
     [ICoreWebView2Settings4_put_IsGeneralAutofillEnabled_C,
      ICoreWebView2Settings5_get_IsPinchZoomEnabled_C,
      ICoreWebView2Settings5_put_IsPinchZoomEnabled_C,
      ICoreWebView2Settings6_get_IsSwipeNavigationEnabled_C,
      ICoreWebView2Settings6_put_IsSwipeNavigationEnabled_C,
      ICoreWebView2Settings7_get_HiddenPdfToolbarItems_C,
      ICoreWebView2Settings7_put_HiddenPdfToolbarItems_C,
      CDecl ''ICoreWebView2Settings8'' ''HRESULT'' ''get_IsReputationCheckingRequired'' [''BOOL *value''],
      CDecl ''ICoreWebView2Settings8'' ''HRESULT'' ''put_IsReputationCheckingRequired'' [''BOOL value'']]"

definition ICoreWebView2Settings8Vtbl :: vtable where
  "ICoreWebView2Settings8Vtbl = Vtable ''ICoreWebView2Settings8''
     (ICoreWebView2Settings8Vtbl_1 @ ICoreWebView2Settings8Vtbl_2)"

definition ICoreWebView2SharedBufferVtbl :: vtable where
  "ICoreWebView2SharedBufferVtbl = Vtable ''ICoreWebView2SharedBuffer''
     [IUnknown_QueryInterface_C,
      IUnknown_AddRef_C,
      IUnknown_Release_C,
      CDecl ''ICoreWebView2SharedBuffer'' ''HRESULT'' ''get_Size'' [''UINT64 *value''],
      CDecl ''ICoreWebView2SharedBuffer'' ''HRESULT'' ''get_Buffer'' [''BYTE **value''],
      CDecl ''ICoreWebView2SharedBuffer'' ''HRESULT'' ''OpenStream'' [''IStream **value''],
      CDecl ''ICoreWebView2SharedBuffer'' ''HRESULT'' ''get_FileMappingHandle'' [''HANDLE *value''],
      CDecl ''ICoreWebView2SharedBuffer'' ''HRESULT'' ''Close'' []]"

definition ICoreWebView2ProcessInfoVtbl :: vtable where
  "ICoreWebView2ProcessInfoVtbl = Vtable ''ICoreWebView2ProcessInfo''
     [IUnknown_QueryInterface_C,
      IUnknown_AddRef_C,
      IUnknown_Release_C,
      CDecl ''ICoreWebView2ProcessInfo'' ''HRESULT'' ''get_ProcessId'' [''INT32 *value''],
      CDecl ''ICoreWebView2ProcessInfo'' ''HRESULT'' ''get_Kind'' [''COREWEBVIEW2_PROCESS_KIND *kind'']]"

definition ICoreWebView2ProcessInfoCollectionVtbl :: vtable where
  "ICoreWebView2ProcessInfoCollectionVtbl = Vtable ''ICoreWebView2ProcessInfoCollection''
     [IUnknown_QueryInterface_C,
      IUnknown_AddRef_C,
      IUnknown_Release_C,
      CDecl ''ICoreWebView2ProcessInfoCollection'' ''HRESULT'' ''get_Count'' [''UINT *count''],
      CDecl ''ICoreWebView2ProcessInfoCollection'' ''HRESULT'' ''GetValueAtIndex'' [''UINT32 index'', ''ICoreWebView2ProcessInfo **processInfo'']]"

section \<open>The tables are the layouts\<close>

lemmas layouts =
  layout_Derived [OF ICoreWebView2CompositionController_def]
  layout_Derived [OF ICoreWebView2CompositionController2_def]
  layout_Derived [OF ICoreWebView2CompositionController3_def]
  layout_Derived [OF ICoreWebView2Controller_def]
  layout_Derived [OF ICoreWebView2Controller2_def]
  layout_Derived [OF ICoreWebView2Controller3_def]
  layout_Derived [OF ICoreWebView2Controller4_def]
  layout_Derived [OF ICoreWebView2ControllerOptions_def]
  layout_Derived [OF ICoreWebView2ControllerOptions2_def]
  layout_Derived [OF ICoreWebView2CookieManager_def]
  layout_Derived [OF ICoreWebView2DownloadOperation_def]
  layout_Derived [OF ICoreWebView2Environment_def]
  layout_Derived [OF ICoreWebView2Environment2_def]
  layout_Derived [OF ICoreWebView2Environment3_def]
  layout_Derived [OF ICoreWebView2Environment4_def]
  layout_Derived [OF ICoreWebView2Environment5_def]
  layout_Derived [OF ICoreWebView2Environment6_def]
  layout_Derived [OF ICoreWebView2Environment7_def]
  layout_Derived [OF ICoreWebView2Environment8_def]
  layout_Derived [OF ICoreWebView2Environment9_def]
  layout_Derived [OF ICoreWebView2Environment10_def]
  layout_Derived [OF ICoreWebView2Environment11_def]
  layout_Derived [OF ICoreWebView2Environment12_def]
  layout_Derived [OF ICoreWebView2Environment13_def]
  layout_Derived [OF ICoreWebView2EnvironmentOptions_def]
  layout_Derived [OF ICoreWebView2EnvironmentOptions2_def]
  layout_Derived [OF ICoreWebView2EnvironmentOptions3_def]
  layout_Derived [OF ICoreWebView2EnvironmentOptions4_def]
  layout_Derived [OF ICoreWebView2EnvironmentOptions5_def]
  layout_Derived [OF ICoreWebView2EnvironmentOptions6_def]
  layout_Derived [OF ICoreWebView2ProcessExtendedInfo_def]
  layout_Derived [OF ICoreWebView2ProcessExtendedInfoCollection_def]
  layout_Derived [OF ICoreWebView2Frame_def]
  layout_Derived [OF ICoreWebView2Frame2_def]
  layout_Derived [OF ICoreWebView2Frame3_def]
  layout_Derived [OF ICoreWebView2Frame4_def]
  layout_Derived [OF ICoreWebView2Frame5_def]
  layout_Derived [OF ICoreWebView2FrameInfo_def]
  layout_Derived [OF ICoreWebView2FrameInfo2_def]
  layout_Derived [OF ICoreWebView2FrameInfoCollection_def]
  layout_Derived [OF ICoreWebView2FrameInfoCollectionIterator_def]
  layout_Derived [OF ICoreWebView2Profile_def]
  layout_Derived [OF ICoreWebView2Profile2_def]
  layout_Derived [OF ICoreWebView2Profile3_def]
  layout_Derived [OF ICoreWebView2Profile4_def]
  layout_Derived [OF ICoreWebView2Profile5_def]
  layout_Derived [OF ICoreWebView2Profile6_def]
  layout_Derived [OF ICoreWebView2Profile7_def]
  layout_Derived [OF ICoreWebView2Profile8_def]
  layout_Derived [OF ICoreWebView2Settings_def]
  layout_Derived [OF ICoreWebView2Settings2_def]
  layout_Derived [OF ICoreWebView2Settings3_def]
  layout_Derived [OF ICoreWebView2Settings4_def]
  layout_Derived [OF ICoreWebView2Settings5_def]
  layout_Derived [OF ICoreWebView2Settings6_def]
  layout_Derived [OF ICoreWebView2Settings7_def]
  layout_Derived [OF ICoreWebView2Settings8_def]
  layout_Derived [OF ICoreWebView2SharedBuffer_def]
  layout_Derived [OF ICoreWebView2ProcessInfo_def]
  layout_Derived [OF ICoreWebView2ProcessInfoCollection_def]

lemma ICoreWebView2CompositionController_decls:
  "map (c_method ''ICoreWebView2CompositionController'')
     [ICoreWebView2CompositionController_get_RootVisualTarget,
      ICoreWebView2CompositionController_put_RootVisualTarget, ICoreWebView2CompositionController_SendMouseInput,
      ICoreWebView2CompositionController_SendPointerInput, ICoreWebView2CompositionController_get_Cursor,
      ICoreWebView2CompositionController_get_SystemCursorId, ICoreWebView2CompositionController_add_CursorChanged,
      ICoreWebView2CompositionController_remove_CursorChanged]
   =
     [ICoreWebView2CompositionController_get_RootVisualTarget_C,
      ICoreWebView2CompositionController_put_RootVisualTarget_C, ICoreWebView2CompositionController_SendMouseInput_C,
      ICoreWebView2CompositionController_SendPointerInput_C, ICoreWebView2CompositionController_get_Cursor_C,
      ICoreWebView2CompositionController_get_SystemCursorId_C,
      ICoreWebView2CompositionController_add_CursorChanged_C,
      ICoreWebView2CompositionController_remove_CursorChanged_C]"
  by (simp only: list.map c_method.simps ICoreWebView2CompositionController_get_RootVisualTarget_def
      ICoreWebView2CompositionController_put_RootVisualTarget_def
      ICoreWebView2CompositionController_SendMouseInput_def
      ICoreWebView2CompositionController_SendPointerInput_def ICoreWebView2CompositionController_get_Cursor_def
      ICoreWebView2CompositionController_get_SystemCursorId_def
      ICoreWebView2CompositionController_add_CursorChanged_def
      ICoreWebView2CompositionController_remove_CursorChanged_def
      ICoreWebView2CompositionController_get_RootVisualTarget_C_def
      ICoreWebView2CompositionController_put_RootVisualTarget_C_def
      ICoreWebView2CompositionController_SendMouseInput_C_def
      ICoreWebView2CompositionController_SendPointerInput_C_def
      ICoreWebView2CompositionController_get_Cursor_C_def
      ICoreWebView2CompositionController_get_SystemCursorId_C_def
      ICoreWebView2CompositionController_add_CursorChanged_C_def
      ICoreWebView2CompositionController_remove_CursorChanged_C_def)

lemma ICoreWebView2CompositionController_views: "ICoreWebView2CompositionControllerVtbl = c_view ICoreWebView2CompositionController"
  by (rule views_IUnknown [OF ICoreWebView2CompositionController_def ICoreWebView2CompositionController_decls])
    (simp only: table_simps ICoreWebView2CompositionControllerVtbl_def)

lemma ICoreWebView2CompositionController2_decls:
  "map (c_method ''ICoreWebView2CompositionController2'')
     [ICoreWebView2CompositionController2_get_AutomationProvider]
   =
     [ICoreWebView2CompositionController2_get_AutomationProvider_C]"
  by (simp only: list.map c_method.simps ICoreWebView2CompositionController2_get_AutomationProvider_def
      ICoreWebView2CompositionController2_get_AutomationProvider_C_def)

lemma ICoreWebView2CompositionController2_views: "ICoreWebView2CompositionController2Vtbl = c_view ICoreWebView2CompositionController2"
  by (rule views_Derived [OF ICoreWebView2CompositionController2_def ICoreWebView2CompositionController2_decls ICoreWebView2CompositionController_views])
    (simp only: table_simps ICoreWebView2CompositionController2Vtbl_def ICoreWebView2CompositionControllerVtbl_def)

lemma ICoreWebView2CompositionController3_decls:
  "map (c_method ''ICoreWebView2CompositionController3'')
     [Method ''HRESULT'' ''DragEnter'' [''IDataObject *dataObject'', ''DWORD keyState'', ''POINT point'', ''DWORD *effect''],
      Method ''HRESULT'' ''DragLeave'' [],
      Method ''HRESULT'' ''DragOver'' [''DWORD keyState'', ''POINT point'', ''DWORD *effect''],
      Method ''HRESULT'' ''Drop'' [''IDataObject *dataObject'', ''DWORD keyState'', ''POINT point'', ''DWORD *effect'']]
   =
     [CDecl ''ICoreWebView2CompositionController3'' ''HRESULT'' ''DragEnter'' [''IDataObject *dataObject'', ''DWORD keyState'', ''POINT point'', ''DWORD *effect''],
      CDecl ''ICoreWebView2CompositionController3'' ''HRESULT'' ''DragLeave'' [],
      CDecl ''ICoreWebView2CompositionController3'' ''HRESULT'' ''DragOver'' [''DWORD keyState'', ''POINT point'', ''DWORD *effect''],
      CDecl ''ICoreWebView2CompositionController3'' ''HRESULT'' ''Drop'' [''IDataObject *dataObject'', ''DWORD keyState'', ''POINT point'', ''DWORD *effect'']]"
  by (simp only: list.map c_method.simps)

lemma ICoreWebView2CompositionController3_views: "ICoreWebView2CompositionController3Vtbl = c_view ICoreWebView2CompositionController3"
  by (rule views_Derived [OF ICoreWebView2CompositionController3_def ICoreWebView2CompositionController3_decls ICoreWebView2CompositionController2_views])
    (simp only: table_simps ICoreWebView2CompositionController3Vtbl_def ICoreWebView2CompositionController2Vtbl_def)

lemma ICoreWebView2Controller_decls:
  "map (c_method ''ICoreWebView2Controller'')
     [ICoreWebView2Controller_get_IsVisible, ICoreWebView2Controller_put_IsVisible,
      ICoreWebView2Controller_get_Bounds, ICoreWebView2Controller_put_Bounds, ICoreWebView2Controller_get_ZoomFactor,
      ICoreWebView2Controller_put_ZoomFactor, ICoreWebView2Controller_add_ZoomFactorChanged,
      ICoreWebView2Controller_remove_ZoomFactorChanged, ICoreWebView2Controller_SetBoundsAndZoomFactor,
      ICoreWebView2Controller_MoveFocus, ICoreWebView2Controller_add_MoveFocusRequested,
      ICoreWebView2Controller_remove_MoveFocusRequested, ICoreWebView2Controller_add_GotFocus,
      ICoreWebView2Controller_remove_GotFocus, ICoreWebView2Controller_add_LostFocus,
      ICoreWebView2Controller_remove_LostFocus, ICoreWebView2Controller_add_AcceleratorKeyPressed,
      ICoreWebView2Controller_remove_AcceleratorKeyPressed, ICoreWebView2Controller_get_ParentWindow,
      ICoreWebView2Controller_put_ParentWindow, ICoreWebView2Controller_NotifyParentWindowPositionChanged,
      ICoreWebView2Controller_Close, ICoreWebView2Controller_get_CoreWebView2]
   =
     [ICoreWebView2Controller_get_IsVisible_C, ICoreWebView2Controller_put_IsVisible_C,
      ICoreWebView2Controller_get_Bounds_C, ICoreWebView2Controller_put_Bounds_C,
      ICoreWebView2Controller_get_ZoomFactor_C, ICoreWebView2Controller_put_ZoomFactor_C,
      ICoreWebView2Controller_add_ZoomFactorChanged_C, ICoreWebView2Controller_remove_ZoomFactorChanged_C,
      ICoreWebView2Controller_SetBoundsAndZoomFactor_C, ICoreWebView2Controller_MoveFocus_C,
      ICoreWebView2Controller_add_MoveFocusRequested_C, ICoreWebView2Controller_remove_MoveFocusRequested_C,
      ICoreWebView2Controller_add_GotFocus_C, ICoreWebView2Controller_remove_GotFocus_C,
      ICoreWebView2Controller_add_LostFocus_C, ICoreWebView2Controller_remove_LostFocus_C,
      ICoreWebView2Controller_add_AcceleratorKeyPressed_C, ICoreWebView2Controller_remove_AcceleratorKeyPressed_C,
      ICoreWebView2Controller_get_ParentWindow_C, ICoreWebView2Controller_put_ParentWindow_C,
      ICoreWebView2Controller_NotifyParentWindowPositionChanged_C, ICoreWebView2Controller_Close_C,
      ICoreWebView2Controller_get_CoreWebView2_C]"
  by (simp only: list.map c_method.simps ICoreWebView2Controller_get_IsVisible_def ICoreWebView2Controller_put_IsVisible_def
      ICoreWebView2Controller_get_Bounds_def ICoreWebView2Controller_put_Bounds_def
      ICoreWebView2Controller_get_ZoomFactor_def ICoreWebView2Controller_put_ZoomFactor_def
      ICoreWebView2Controller_add_ZoomFactorChanged_def ICoreWebView2Controller_remove_ZoomFactorChanged_def
      ICoreWebView2Controller_SetBoundsAndZoomFactor_def ICoreWebView2Controller_MoveFocus_def
      ICoreWebView2Controller_add_MoveFocusRequested_def ICoreWebView2Controller_remove_MoveFocusRequested_def
      ICoreWebView2Controller_add_GotFocus_def ICoreWebView2Controller_remove_GotFocus_def
      ICoreWebView2Controller_add_LostFocus_def ICoreWebView2Controller_remove_LostFocus_def
      ICoreWebView2Controller_add_AcceleratorKeyPressed_def
      ICoreWebView2Controller_remove_AcceleratorKeyPressed_def ICoreWebView2Controller_get_ParentWindow_def
      ICoreWebView2Controller_put_ParentWindow_def ICoreWebView2Controller_NotifyParentWindowPositionChanged_def
      ICoreWebView2Controller_Close_def ICoreWebView2Controller_get_CoreWebView2_def
      ICoreWebView2Controller_get_IsVisible_C_def ICoreWebView2Controller_put_IsVisible_C_def
      ICoreWebView2Controller_get_Bounds_C_def ICoreWebView2Controller_put_Bounds_C_def
      ICoreWebView2Controller_get_ZoomFactor_C_def ICoreWebView2Controller_put_ZoomFactor_C_def
      ICoreWebView2Controller_add_ZoomFactorChanged_C_def ICoreWebView2Controller_remove_ZoomFactorChanged_C_def
      ICoreWebView2Controller_SetBoundsAndZoomFactor_C_def ICoreWebView2Controller_MoveFocus_C_def
      ICoreWebView2Controller_add_MoveFocusRequested_C_def ICoreWebView2Controller_remove_MoveFocusRequested_C_def
      ICoreWebView2Controller_add_GotFocus_C_def ICoreWebView2Controller_remove_GotFocus_C_def
      ICoreWebView2Controller_add_LostFocus_C_def ICoreWebView2Controller_remove_LostFocus_C_def
      ICoreWebView2Controller_add_AcceleratorKeyPressed_C_def
      ICoreWebView2Controller_remove_AcceleratorKeyPressed_C_def ICoreWebView2Controller_get_ParentWindow_C_def
      ICoreWebView2Controller_put_ParentWindow_C_def
      ICoreWebView2Controller_NotifyParentWindowPositionChanged_C_def ICoreWebView2Controller_Close_C_def
      ICoreWebView2Controller_get_CoreWebView2_C_def)

lemma ICoreWebView2Controller_views: "ICoreWebView2ControllerVtbl = c_view ICoreWebView2Controller"
  by (rule views_IUnknown [OF ICoreWebView2Controller_def ICoreWebView2Controller_decls])
    (simp only: table_simps ICoreWebView2ControllerVtbl_def)

lemma ICoreWebView2Controller2_decls:
  "map (c_method ''ICoreWebView2Controller2'')
     [ICoreWebView2Controller2_get_DefaultBackgroundColor, ICoreWebView2Controller2_put_DefaultBackgroundColor]
   =
     [ICoreWebView2Controller2_get_DefaultBackgroundColor_C, ICoreWebView2Controller2_put_DefaultBackgroundColor_C]"
  by (simp only: list.map c_method.simps ICoreWebView2Controller2_get_DefaultBackgroundColor_def
      ICoreWebView2Controller2_put_DefaultBackgroundColor_def
      ICoreWebView2Controller2_get_DefaultBackgroundColor_C_def
      ICoreWebView2Controller2_put_DefaultBackgroundColor_C_def)

lemma ICoreWebView2Controller2_views: "ICoreWebView2Controller2Vtbl = c_view ICoreWebView2Controller2"
  by (rule views_Derived [OF ICoreWebView2Controller2_def ICoreWebView2Controller2_decls ICoreWebView2Controller_views])
    (simp only: table_simps ICoreWebView2Controller2Vtbl_1_def ICoreWebView2Controller2Vtbl_2_def
      ICoreWebView2Controller2Vtbl_def ICoreWebView2ControllerVtbl_def)

lemma ICoreWebView2Controller3_decls:
  "map (c_method ''ICoreWebView2Controller3'')
     [ICoreWebView2Controller3_get_RasterizationScale, ICoreWebView2Controller3_put_RasterizationScale,
      ICoreWebView2Controller3_get_ShouldDetectMonitorScaleChanges,
      ICoreWebView2Controller3_put_ShouldDetectMonitorScaleChanges,
      ICoreWebView2Controller3_add_RasterizationScaleChanged,
      ICoreWebView2Controller3_remove_RasterizationScaleChanged, ICoreWebView2Controller3_get_BoundsMode,
      ICoreWebView2Controller3_put_BoundsMode]
   =
     [ICoreWebView2Controller3_get_RasterizationScale_C, ICoreWebView2Controller3_put_RasterizationScale_C,
      ICoreWebView2Controller3_get_ShouldDetectMonitorScaleChanges_C,
      ICoreWebView2Controller3_put_ShouldDetectMonitorScaleChanges_C,
      ICoreWebView2Controller3_add_RasterizationScaleChanged_C,
      ICoreWebView2Controller3_remove_RasterizationScaleChanged_C, ICoreWebView2Controller3_get_BoundsMode_C,
      ICoreWebView2Controller3_put_BoundsMode_C]"
  by (simp only: list.map c_method.simps ICoreWebView2Controller3_get_RasterizationScale_def
      ICoreWebView2Controller3_put_RasterizationScale_def
      ICoreWebView2Controller3_get_ShouldDetectMonitorScaleChanges_def
      ICoreWebView2Controller3_put_ShouldDetectMonitorScaleChanges_def
      ICoreWebView2Controller3_add_RasterizationScaleChanged_def
      ICoreWebView2Controller3_remove_RasterizationScaleChanged_def ICoreWebView2Controller3_get_BoundsMode_def
      ICoreWebView2Controller3_put_BoundsMode_def ICoreWebView2Controller3_get_RasterizationScale_C_def
      ICoreWebView2Controller3_put_RasterizationScale_C_def
      ICoreWebView2Controller3_get_ShouldDetectMonitorScaleChanges_C_def
      ICoreWebView2Controller3_put_ShouldDetectMonitorScaleChanges_C_def
      ICoreWebView2Controller3_add_RasterizationScaleChanged_C_def
      ICoreWebView2Controller3_remove_RasterizationScaleChanged_C_def
      ICoreWebView2Controller3_get_BoundsMode_C_def ICoreWebView2Controller3_put_BoundsMode_C_def)

lemma ICoreWebView2Controller3_views: "ICoreWebView2Controller3Vtbl = c_view ICoreWebView2Controller3"
  by (rule views_Derived [OF ICoreWebView2Controller3_def ICoreWebView2Controller3_decls ICoreWebView2Controller2_views])
    (simp only: table_simps ICoreWebView2Controller3Vtbl_1_def ICoreWebView2Controller3Vtbl_2_def
      ICoreWebView2Controller3Vtbl_def ICoreWebView2Controller2Vtbl_1_def ICoreWebView2Controller2Vtbl_2_def
      ICoreWebView2Controller2Vtbl_def)

lemma ICoreWebView2Controller4_decls:
  "map (c_method ''ICoreWebView2Controller4'')
     [Method ''HRESULT'' ''get_AllowExternalDrop'' [''BOOL *value''],
      Method ''HRESULT'' ''put_AllowExternalDrop'' [''BOOL value'']]
   =
     [CDecl ''ICoreWebView2Controller4'' ''HRESULT'' ''get_AllowExternalDrop'' [''BOOL *value''],
      CDecl ''ICoreWebView2Controller4'' ''HRESULT'' ''put_AllowExternalDrop'' [''BOOL value'']]"
  by (simp only: list.map c_method.simps)

lemma ICoreWebView2Controller4_views: "ICoreWebView2Controller4Vtbl = c_view ICoreWebView2Controller4"
  by (rule views_Derived [OF ICoreWebView2Controller4_def ICoreWebView2Controller4_decls ICoreWebView2Controller3_views])
    (simp only: table_simps ICoreWebView2Controller4Vtbl_1_def ICoreWebView2Controller4Vtbl_2_def
      ICoreWebView2Controller4Vtbl_def ICoreWebView2Controller3Vtbl_1_def ICoreWebView2Controller3Vtbl_2_def
      ICoreWebView2Controller3Vtbl_def)

lemma ICoreWebView2ControllerOptions_decls:
  "map (c_method ''ICoreWebView2ControllerOptions'')
     [ICoreWebView2ControllerOptions_get_ProfileName, ICoreWebView2ControllerOptions_put_ProfileName,
      ICoreWebView2ControllerOptions_get_IsInPrivateModeEnabled,
      ICoreWebView2ControllerOptions_put_IsInPrivateModeEnabled]
   =
     [ICoreWebView2ControllerOptions_get_ProfileName_C, ICoreWebView2ControllerOptions_put_ProfileName_C,
      ICoreWebView2ControllerOptions_get_IsInPrivateModeEnabled_C,
      ICoreWebView2ControllerOptions_put_IsInPrivateModeEnabled_C]"
  by (simp only: list.map c_method.simps ICoreWebView2ControllerOptions_get_ProfileName_def
      ICoreWebView2ControllerOptions_put_ProfileName_def
      ICoreWebView2ControllerOptions_get_IsInPrivateModeEnabled_def
      ICoreWebView2ControllerOptions_put_IsInPrivateModeEnabled_def
      ICoreWebView2ControllerOptions_get_ProfileName_C_def ICoreWebView2ControllerOptions_put_ProfileName_C_def
      ICoreWebView2ControllerOptions_get_IsInPrivateModeEnabled_C_def
      ICoreWebView2ControllerOptions_put_IsInPrivateModeEnabled_C_def)

lemma ICoreWebView2ControllerOptions_views: "ICoreWebView2ControllerOptionsVtbl = c_view ICoreWebView2ControllerOptions"
  by (rule views_IUnknown [OF ICoreWebView2ControllerOptions_def ICoreWebView2ControllerOptions_decls])
    (simp only: table_simps ICoreWebView2ControllerOptionsVtbl_def)

lemma ICoreWebView2ControllerOptions2_decls:
  "map (c_method ''ICoreWebView2ControllerOptions2'')
     [Method ''HRESULT'' ''get_ScriptLocale'' [''LPWSTR *locale''],
      Method ''HRESULT'' ''put_ScriptLocale'' [''LPCWSTR locale'']]
   =
     [CDecl ''ICoreWebView2ControllerOptions2'' ''HRESULT'' ''get_ScriptLocale'' [''LPWSTR *locale''],
      CDecl ''ICoreWebView2ControllerOptions2'' ''HRESULT'' ''put_ScriptLocale'' [''LPCWSTR locale'']]"
  by (simp only: list.map c_method.simps)

lemma ICoreWebView2ControllerOptions2_views: "ICoreWebView2ControllerOptions2Vtbl = c_view ICoreWebView2ControllerOptions2"
  by (rule views_Derived [OF ICoreWebView2ControllerOptions2_def ICoreWebView2ControllerOptions2_decls ICoreWebView2ControllerOptions_views])
    (simp only: table_simps ICoreWebView2ControllerOptions2Vtbl_def ICoreWebView2ControllerOptionsVtbl_def)

lemma ICoreWebView2CookieManager_decls:
  "map (c_method ''ICoreWebView2CookieManager'')
     [Method ''HRESULT'' ''CreateCookie'' [''LPCWSTR name'', ''LPCWSTR value'', ''LPCWSTR domain'', ''LPCWSTR path'', ''ICoreWebView2Cookie **cookie''],
      Method ''HRESULT'' ''CopyCookie'' [''ICoreWebView2Cookie *cookieParam'', ''ICoreWebView2Cookie **cookie''],
      Method ''HRESULT'' ''GetCookies'' [''LPCWSTR uri'', ''ICoreWebView2GetCookiesCompletedHandler *handler''],
      Method ''HRESULT'' ''AddOrUpdateCookie'' [''ICoreWebView2Cookie *cookie''],
      Method ''HRESULT'' ''DeleteCookie'' [''ICoreWebView2Cookie *cookie''],
      Method ''HRESULT'' ''DeleteCookies'' [''LPCWSTR name'', ''LPCWSTR uri''],
      Method ''HRESULT'' ''DeleteCookiesWithDomainAndPath'' [''LPCWSTR name'', ''LPCWSTR domain'', ''LPCWSTR path''],
      Method ''HRESULT'' ''DeleteAllCookies'' []]
   =
     [CDecl ''ICoreWebView2CookieManager'' ''HRESULT'' ''CreateCookie'' [''LPCWSTR name'', ''LPCWSTR value'', ''LPCWSTR domain'', ''LPCWSTR path'', ''ICoreWebView2Cookie **cookie''],
      CDecl ''ICoreWebView2CookieManager'' ''HRESULT'' ''CopyCookie'' [''ICoreWebView2Cookie *cookieParam'', ''ICoreWebView2Cookie **cookie''],
      CDecl ''ICoreWebView2CookieManager'' ''HRESULT'' ''GetCookies'' [''LPCWSTR uri'', ''ICoreWebView2GetCookiesCompletedHandler *handler''],
      CDecl ''ICoreWebView2CookieManager'' ''HRESULT'' ''AddOrUpdateCookie'' [''ICoreWebView2Cookie *cookie''],
      CDecl ''ICoreWebView2CookieManager'' ''HRESULT'' ''DeleteCookie'' [''ICoreWebView2Cookie *cookie''],
      CDecl ''ICoreWebView2CookieManager'' ''HRESULT'' ''DeleteCookies'' [''LPCWSTR name'', ''LPCWSTR uri''],
      CDecl ''ICoreWebView2CookieManager'' ''HRESULT'' ''DeleteCookiesWithDomainAndPath'' [''LPCWSTR name'', ''LPCWSTR domain'', ''LPCWSTR path''],
      CDecl ''ICoreWebView2CookieManager'' ''HRESULT'' ''DeleteAllCookies'' []]"
  by (simp only: list.map c_method.simps)

lemma ICoreWebView2CookieManager_views: "ICoreWebView2CookieManagerVtbl = c_view ICoreWebView2CookieManager"
  by (rule views_IUnknown [OF ICoreWebView2CookieManager_def ICoreWebView2CookieManager_decls])
    (simp only: table_simps ICoreWebView2CookieManagerVtbl_def)

lemma ICoreWebView2DownloadOperation_decls:
  "map (c_method ''ICoreWebView2DownloadOperation'')
     [Method ''HRESULT'' ''add_BytesReceivedChanged'' [''ICoreWebView2BytesReceivedChangedEventHandler *eventHandler'', ''EventRegistrationToken *token''],
      Method ''HRESULT'' ''remove_BytesReceivedChanged'' [''EventRegistrationToken token''],
      Method ''HRESULT'' ''add_EstimatedEndTimeChanged'' [''ICoreWebView2EstimatedEndTimeChangedEventHandler *eventHandler'', ''EventRegistrationToken *token''],
      Method ''HRESULT'' ''remove_EstimatedEndTimeChanged'' [''EventRegistrationToken token''],
      Method ''HRESULT'' ''add_StateChanged'' [''ICoreWebView2StateChangedEventHandler *eventHandler'', ''EventRegistrationToken *token''],
      Method ''HRESULT'' ''remove_StateChanged'' [''EventRegistrationToken token''],
      Method ''HRESULT'' ''get_Uri'' [''LPWSTR *uri''],
      Method ''HRESULT'' ''get_ContentDisposition'' [''LPWSTR *contentDisposition''],
      Method ''HRESULT'' ''get_MimeType'' [''LPWSTR *mimeType''],
      Method ''HRESULT'' ''get_TotalBytesToReceive'' [''INT64 *totalBytesToReceive''],
      Method ''HRESULT'' ''get_BytesReceived'' [''INT64 *bytesReceived''],
      Method ''HRESULT'' ''get_EstimatedEndTime'' [''LPWSTR *estimatedEndTime''],
      Method ''HRESULT'' ''get_ResultFilePath'' [''LPWSTR *resultFilePath''],
      Method ''HRESULT'' ''get_State'' [''COREWEBVIEW2_DOWNLOAD_STATE *downloadState''],
      Method ''HRESULT'' ''get_InterruptReason'' [''COREWEBVIEW2_DOWNLOAD_INTERRUPT_REASON *interruptReason''],
      Method ''HRESULT'' ''Cancel'' [],
      Method ''HRESULT'' ''Pause'' [],
      Method ''HRESULT'' ''Resume'' [],
      Method ''HRESULT'' ''get_CanResume'' [''BOOL *canResume'']]
   =
     [CDecl ''ICoreWebView2DownloadOperation'' ''HRESULT'' ''add_BytesReceivedChanged'' [''ICoreWebView2BytesReceivedChangedEventHandler *eventHandler'', ''EventRegistrationToken *token''],
      CDecl ''ICoreWebView2DownloadOperation'' ''HRESULT'' ''remove_BytesReceivedChanged'' [''EventRegistrationToken token''],
      CDecl ''ICoreWebView2DownloadOperation'' ''HRESULT'' ''add_EstimatedEndTimeChanged'' [''ICoreWebView2EstimatedEndTimeChangedEventHandler *eventHandler'', ''EventRegistrationToken *token''],
      CDecl ''ICoreWebView2DownloadOperation'' ''HRESULT'' ''remove_EstimatedEndTimeChanged'' [''EventRegistrationToken token''],
      CDecl ''ICoreWebView2DownloadOperation'' ''HRESULT'' ''add_StateChanged'' [''ICoreWebView2StateChangedEventHandler *eventHandler'', ''EventRegistrationToken *token''],
      CDecl ''ICoreWebView2DownloadOperation'' ''HRESULT'' ''remove_StateChanged'' [''EventRegistrationToken token''],
      CDecl ''ICoreWebView2DownloadOperation'' ''HRESULT'' ''get_Uri'' [''LPWSTR *uri''],
      CDecl ''ICoreWebView2DownloadOperation'' ''HRESULT'' ''get_ContentDisposition'' [''LPWSTR *contentDisposition''],
      CDecl ''ICoreWebView2DownloadOperation'' ''HRESULT'' ''get_MimeType'' [''LPWSTR *mimeType''],
      CDecl ''ICoreWebView2DownloadOperation'' ''HRESULT'' ''get_TotalBytesToReceive'' [''INT64 *totalBytesToReceive''],
      CDecl ''ICoreWebView2DownloadOperation'' ''HRESULT'' ''get_BytesReceived'' [''INT64 *bytesReceived''],
      CDecl ''ICoreWebView2DownloadOperation'' ''HRESULT'' ''get_EstimatedEndTime'' [''LPWSTR *estimatedEndTime''],
      CDecl ''ICoreWebView2DownloadOperation'' ''HRESULT'' ''get_ResultFilePath'' [''LPWSTR *resultFilePath''],
      CDecl ''ICoreWebView2DownloadOperation'' ''HRESULT'' ''get_State'' [''COREWEBVIEW2_DOWNLOAD_STATE *downloadState''],
      CDecl ''ICoreWebView2DownloadOperation'' ''HRESULT'' ''get_InterruptReason'' [''COREWEBVIEW2_DOWNLOAD_INTERRUPT_REASON *interruptReason''],
      CDecl ''ICoreWebView2DownloadOperation'' ''HRESULT'' ''Cancel'' [],
      CDecl ''ICoreWebView2DownloadOperation'' ''HRESULT'' ''Pause'' [],
      CDecl ''ICoreWebView2DownloadOperation'' ''HRESULT'' ''Resume'' [],
      CDecl ''ICoreWebView2DownloadOperation'' ''HRESULT'' ''get_CanResume'' [''BOOL *canResume'']]"
  by (simp only: list.map c_method.simps)

lemma ICoreWebView2DownloadOperation_views: "ICoreWebView2DownloadOperationVtbl = c_view ICoreWebView2DownloadOperation"
  by (rule views_IUnknown [OF ICoreWebView2DownloadOperation_def ICoreWebView2DownloadOperation_decls])
    (simp only: table_simps ICoreWebView2DownloadOperationVtbl_def)

lemma ICoreWebView2Environment_decls:
  "map (c_method ''ICoreWebView2Environment'')
     [ICoreWebView2Environment_CreateCoreWebView2Controller, ICoreWebView2Environment_CreateWebResourceResponse,
      ICoreWebView2Environment_get_BrowserVersionString, ICoreWebView2Environment_add_NewBrowserVersionAvailable,
      ICoreWebView2Environment_remove_NewBrowserVersionAvailable]
   =
     [ICoreWebView2Environment_CreateCoreWebView2Controller_C, ICoreWebView2Environment_CreateWebResourceResponse_C,
      ICoreWebView2Environment_get_BrowserVersionString_C, ICoreWebView2Environment_add_NewBrowserVersionAvailable_C,
      ICoreWebView2Environment_remove_NewBrowserVersionAvailable_C]"
  by (simp only: list.map c_method.simps ICoreWebView2Environment_CreateCoreWebView2Controller_def
      ICoreWebView2Environment_CreateWebResourceResponse_def ICoreWebView2Environment_get_BrowserVersionString_def
      ICoreWebView2Environment_add_NewBrowserVersionAvailable_def
      ICoreWebView2Environment_remove_NewBrowserVersionAvailable_def
      ICoreWebView2Environment_CreateCoreWebView2Controller_C_def
      ICoreWebView2Environment_CreateWebResourceResponse_C_def
      ICoreWebView2Environment_get_BrowserVersionString_C_def
      ICoreWebView2Environment_add_NewBrowserVersionAvailable_C_def
      ICoreWebView2Environment_remove_NewBrowserVersionAvailable_C_def)

lemma ICoreWebView2Environment_views: "ICoreWebView2EnvironmentVtbl = c_view ICoreWebView2Environment"
  by (rule views_IUnknown [OF ICoreWebView2Environment_def ICoreWebView2Environment_decls])
    (simp only: table_simps ICoreWebView2EnvironmentVtbl_def)

lemma ICoreWebView2Environment2_decls:
  "map (c_method ''ICoreWebView2Environment2'')
     [ICoreWebView2Environment2_CreateWebResourceRequest]
   =
     [ICoreWebView2Environment2_CreateWebResourceRequest_C]"
  by (simp only: list.map c_method.simps ICoreWebView2Environment2_CreateWebResourceRequest_def
      ICoreWebView2Environment2_CreateWebResourceRequest_C_def)

lemma ICoreWebView2Environment2_views: "ICoreWebView2Environment2Vtbl = c_view ICoreWebView2Environment2"
  by (rule views_Derived [OF ICoreWebView2Environment2_def ICoreWebView2Environment2_decls ICoreWebView2Environment_views])
    (simp only: table_simps ICoreWebView2Environment2Vtbl_def ICoreWebView2EnvironmentVtbl_def)

lemma ICoreWebView2Environment3_decls:
  "map (c_method ''ICoreWebView2Environment3'')
     [ICoreWebView2Environment3_CreateCoreWebView2CompositionController,
      ICoreWebView2Environment3_CreateCoreWebView2PointerInfo]
   =
     [ICoreWebView2Environment3_CreateCoreWebView2CompositionController_C,
      ICoreWebView2Environment3_CreateCoreWebView2PointerInfo_C]"
  by (simp only: list.map c_method.simps ICoreWebView2Environment3_CreateCoreWebView2CompositionController_def
      ICoreWebView2Environment3_CreateCoreWebView2PointerInfo_def
      ICoreWebView2Environment3_CreateCoreWebView2CompositionController_C_def
      ICoreWebView2Environment3_CreateCoreWebView2PointerInfo_C_def)

lemma ICoreWebView2Environment3_views: "ICoreWebView2Environment3Vtbl = c_view ICoreWebView2Environment3"
  by (rule views_Derived [OF ICoreWebView2Environment3_def ICoreWebView2Environment3_decls ICoreWebView2Environment2_views])
    (simp only: table_simps ICoreWebView2Environment3Vtbl_def ICoreWebView2Environment2Vtbl_def)

lemma ICoreWebView2Environment4_decls:
  "map (c_method ''ICoreWebView2Environment4'')
     [ICoreWebView2Environment4_GetAutomationProviderForWindow]
   =
     [ICoreWebView2Environment4_GetAutomationProviderForWindow_C]"
  by (simp only: list.map c_method.simps ICoreWebView2Environment4_GetAutomationProviderForWindow_def
      ICoreWebView2Environment4_GetAutomationProviderForWindow_C_def)

lemma ICoreWebView2Environment4_views: "ICoreWebView2Environment4Vtbl = c_view ICoreWebView2Environment4"
  by (rule views_Derived [OF ICoreWebView2Environment4_def ICoreWebView2Environment4_decls ICoreWebView2Environment3_views])
    (simp only: table_simps ICoreWebView2Environment4Vtbl_def ICoreWebView2Environment3Vtbl_def)

lemma ICoreWebView2Environment5_decls:
  "map (c_method ''ICoreWebView2Environment5'')
     [ICoreWebView2Environment5_add_BrowserProcessExited, ICoreWebView2Environment5_remove_BrowserProcessExited]
   =
     [ICoreWebView2Environment5_add_BrowserProcessExited_C, ICoreWebView2Environment5_remove_BrowserProcessExited_C]"
  by (simp only: list.map c_method.simps ICoreWebView2Environment5_add_BrowserProcessExited_def
      ICoreWebView2Environment5_remove_BrowserProcessExited_def
      ICoreWebView2Environment5_add_BrowserProcessExited_C_def
      ICoreWebView2Environment5_remove_BrowserProcessExited_C_def)

lemma ICoreWebView2Environment5_views: "ICoreWebView2Environment5Vtbl = c_view ICoreWebView2Environment5"
  by (rule views_Derived [OF ICoreWebView2Environment5_def ICoreWebView2Environment5_decls ICoreWebView2Environment4_views])
    (simp only: table_simps ICoreWebView2Environment5Vtbl_def ICoreWebView2Environment4Vtbl_def)

lemma ICoreWebView2Environment6_decls:
  "map (c_method ''ICoreWebView2Environment6'')
     [ICoreWebView2Environment6_CreatePrintSettings]
   =
     [ICoreWebView2Environment6_CreatePrintSettings_C]"
  by (simp only: list.map c_method.simps ICoreWebView2Environment6_CreatePrintSettings_def
      ICoreWebView2Environment6_CreatePrintSettings_C_def)

lemma ICoreWebView2Environment6_views: "ICoreWebView2Environment6Vtbl = c_view ICoreWebView2Environment6"
  by (rule views_Derived [OF ICoreWebView2Environment6_def ICoreWebView2Environment6_decls ICoreWebView2Environment5_views])
    (simp only: table_simps ICoreWebView2Environment6Vtbl_def ICoreWebView2Environment5Vtbl_def)

lemma ICoreWebView2Environment7_decls:
  "map (c_method ''ICoreWebView2Environment7'')
     [ICoreWebView2Environment7_get_UserDataFolder]
   =
     [ICoreWebView2Environment7_get_UserDataFolder_C]"
  by (simp only: list.map c_method.simps ICoreWebView2Environment7_get_UserDataFolder_def
      ICoreWebView2Environment7_get_UserDataFolder_C_def)

lemma ICoreWebView2Environment7_views: "ICoreWebView2Environment7Vtbl = c_view ICoreWebView2Environment7"
  by (rule views_Derived [OF ICoreWebView2Environment7_def ICoreWebView2Environment7_decls ICoreWebView2Environment6_views])
    (simp only: table_simps ICoreWebView2Environment7Vtbl_def ICoreWebView2Environment6Vtbl_def)

lemma ICoreWebView2Environment8_decls:
  "map (c_method ''ICoreWebView2Environment8'')
     [ICoreWebView2Environment8_add_ProcessInfosChanged, ICoreWebView2Environment8_remove_ProcessInfosChanged,
      ICoreWebView2Environment8_GetProcessInfos]
   =
     [ICoreWebView2Environment8_add_ProcessInfosChanged_C, ICoreWebView2Environment8_remove_ProcessInfosChanged_C,
      ICoreWebView2Environment8_GetProcessInfos_C]"
  by (simp only: list.map c_method.simps ICoreWebView2Environment8_add_ProcessInfosChanged_def
      ICoreWebView2Environment8_remove_ProcessInfosChanged_def ICoreWebView2Environment8_GetProcessInfos_def
      ICoreWebView2Environment8_add_ProcessInfosChanged_C_def
      ICoreWebView2Environment8_remove_ProcessInfosChanged_C_def ICoreWebView2Environment8_GetProcessInfos_C_def)

lemma ICoreWebView2Environment8_views: "ICoreWebView2Environment8Vtbl = c_view ICoreWebView2Environment8"
  by (rule views_Derived [OF ICoreWebView2Environment8_def ICoreWebView2Environment8_decls ICoreWebView2Environment7_views])
    (simp only: table_simps ICoreWebView2Environment8Vtbl_def ICoreWebView2Environment7Vtbl_def)

lemma ICoreWebView2Environment9_decls:
  "map (c_method ''ICoreWebView2Environment9'')
     [ICoreWebView2Environment9_CreateContextMenuItem]
   =
     [ICoreWebView2Environment9_CreateContextMenuItem_C]"
  by (simp only: list.map c_method.simps ICoreWebView2Environment9_CreateContextMenuItem_def
      ICoreWebView2Environment9_CreateContextMenuItem_C_def)

lemma ICoreWebView2Environment9_views: "ICoreWebView2Environment9Vtbl = c_view ICoreWebView2Environment9"
  by (rule views_Derived [OF ICoreWebView2Environment9_def ICoreWebView2Environment9_decls ICoreWebView2Environment8_views])
    (simp only: table_simps ICoreWebView2Environment9Vtbl_def ICoreWebView2Environment8Vtbl_def)

lemma ICoreWebView2Environment10_decls:
  "map (c_method ''ICoreWebView2Environment10'')
     [ICoreWebView2Environment10_CreateCoreWebView2ControllerOptions,
      ICoreWebView2Environment10_CreateCoreWebView2ControllerWithOptions,
      ICoreWebView2Environment10_CreateCoreWebView2CompositionControllerWithOptions]
   =
     [ICoreWebView2Environment10_CreateCoreWebView2ControllerOptions_C,
      ICoreWebView2Environment10_CreateCoreWebView2ControllerWithOptions_C,
      ICoreWebView2Environment10_CreateCoreWebView2CompositionControllerWithOptions_C]"
  by (simp only: list.map c_method.simps ICoreWebView2Environment10_CreateCoreWebView2ControllerOptions_def
      ICoreWebView2Environment10_CreateCoreWebView2ControllerWithOptions_def
      ICoreWebView2Environment10_CreateCoreWebView2CompositionControllerWithOptions_def
      ICoreWebView2Environment10_CreateCoreWebView2ControllerOptions_C_def
      ICoreWebView2Environment10_CreateCoreWebView2ControllerWithOptions_C_def
      ICoreWebView2Environment10_CreateCoreWebView2CompositionControllerWithOptions_C_def)

lemma ICoreWebView2Environment10_views: "ICoreWebView2Environment10Vtbl = c_view ICoreWebView2Environment10"
  by (rule views_Derived [OF ICoreWebView2Environment10_def ICoreWebView2Environment10_decls ICoreWebView2Environment9_views])
    (simp only: table_simps ICoreWebView2Environment10Vtbl_def ICoreWebView2Environment9Vtbl_def)

lemma ICoreWebView2Environment11_decls:
  "map (c_method ''ICoreWebView2Environment11'')
     [ICoreWebView2Environment11_get_FailureReportFolderPath]
   =
     [ICoreWebView2Environment11_get_FailureReportFolderPath_C]"
  by (simp only: list.map c_method.simps ICoreWebView2Environment11_get_FailureReportFolderPath_def
      ICoreWebView2Environment11_get_FailureReportFolderPath_C_def)

lemma ICoreWebView2Environment11_views: "ICoreWebView2Environment11Vtbl = c_view ICoreWebView2Environment11"
  by (rule views_Derived [OF ICoreWebView2Environment11_def ICoreWebView2Environment11_decls ICoreWebView2Environment10_views])
    (simp only: table_simps ICoreWebView2Environment11Vtbl_1_def ICoreWebView2Environment11Vtbl_2_def
      ICoreWebView2Environment11Vtbl_def ICoreWebView2Environment10Vtbl_def)

lemma ICoreWebView2Environment12_decls:
  "map (c_method ''ICoreWebView2Environment12'')
     [ICoreWebView2Environment12_CreateSharedBuffer]
   =
     [ICoreWebView2Environment12_CreateSharedBuffer_C]"
  by (simp only: list.map c_method.simps ICoreWebView2Environment12_CreateSharedBuffer_def
      ICoreWebView2Environment12_CreateSharedBuffer_C_def)

lemma ICoreWebView2Environment12_views: "ICoreWebView2Environment12Vtbl = c_view ICoreWebView2Environment12"
  by (rule views_Derived [OF ICoreWebView2Environment12_def ICoreWebView2Environment12_decls ICoreWebView2Environment11_views])
    (simp only: table_simps ICoreWebView2Environment12Vtbl_1_def ICoreWebView2Environment12Vtbl_2_def
      ICoreWebView2Environment12Vtbl_def ICoreWebView2Environment11Vtbl_1_def ICoreWebView2Environment11Vtbl_2_def
      ICoreWebView2Environment11Vtbl_def)

lemma ICoreWebView2Environment13_decls:
  "map (c_method ''ICoreWebView2Environment13'')
     [Method ''HRESULT'' ''GetProcessExtendedInfos'' [''ICoreWebView2GetProcessExtendedInfosCompletedHandler *handler'']]
   =
     [CDecl ''ICoreWebView2Environment13'' ''HRESULT'' ''GetProcessExtendedInfos'' [''ICoreWebView2GetProcessExtendedInfosCompletedHandler *handler'']]"
  by (simp only: list.map c_method.simps)

lemma ICoreWebView2Environment13_views: "ICoreWebView2Environment13Vtbl = c_view ICoreWebView2Environment13"
  by (rule views_Derived [OF ICoreWebView2Environment13_def ICoreWebView2Environment13_decls ICoreWebView2Environment12_views])
    (simp only: table_simps ICoreWebView2Environment13Vtbl_1_def ICoreWebView2Environment13Vtbl_2_def
      ICoreWebView2Environment13Vtbl_def ICoreWebView2Environment12Vtbl_1_def ICoreWebView2Environment12Vtbl_2_def
      ICoreWebView2Environment12Vtbl_def)

lemma ICoreWebView2EnvironmentOptions_decls:
  "map (c_method ''ICoreWebView2EnvironmentOptions'')
     [Method ''HRESULT'' ''get_AdditionalBrowserArguments'' [''LPWSTR *value''],
      Method ''HRESULT'' ''put_AdditionalBrowserArguments'' [''LPCWSTR value''],
      Method ''HRESULT'' ''get_Language'' [''LPWSTR *value''],
      Method ''HRESULT'' ''put_Language'' [''LPCWSTR value''],
      Method ''HRESULT'' ''get_TargetCompatibleBrowserVersion'' [''LPWSTR *value''],
      Method ''HRESULT'' ''put_TargetCompatibleBrowserVersion'' [''LPCWSTR value''],
      Method ''HRESULT'' ''get_AllowSingleSignOnUsingOSPrimaryAccount'' [''BOOL *allow''],
      Method ''HRESULT'' ''put_AllowSingleSignOnUsingOSPrimaryAccount'' [''BOOL allow'']]
   =
     [CDecl ''ICoreWebView2EnvironmentOptions'' ''HRESULT'' ''get_AdditionalBrowserArguments'' [''LPWSTR *value''],
      CDecl ''ICoreWebView2EnvironmentOptions'' ''HRESULT'' ''put_AdditionalBrowserArguments'' [''LPCWSTR value''],
      CDecl ''ICoreWebView2EnvironmentOptions'' ''HRESULT'' ''get_Language'' [''LPWSTR *value''],
      CDecl ''ICoreWebView2EnvironmentOptions'' ''HRESULT'' ''put_Language'' [''LPCWSTR value''],
      CDecl ''ICoreWebView2EnvironmentOptions'' ''HRESULT'' ''get_TargetCompatibleBrowserVersion'' [''LPWSTR *value''],
      CDecl ''ICoreWebView2EnvironmentOptions'' ''HRESULT'' ''put_TargetCompatibleBrowserVersion'' [''LPCWSTR value''],
      CDecl ''ICoreWebView2EnvironmentOptions'' ''HRESULT'' ''get_AllowSingleSignOnUsingOSPrimaryAccount'' [''BOOL *allow''],
      CDecl ''ICoreWebView2EnvironmentOptions'' ''HRESULT'' ''put_AllowSingleSignOnUsingOSPrimaryAccount'' [''BOOL allow'']]"
  by (simp only: list.map c_method.simps)

lemma ICoreWebView2EnvironmentOptions_views: "ICoreWebView2EnvironmentOptionsVtbl = c_view ICoreWebView2EnvironmentOptions"
  by (rule views_IUnknown [OF ICoreWebView2EnvironmentOptions_def ICoreWebView2EnvironmentOptions_decls])
    (simp only: table_simps ICoreWebView2EnvironmentOptionsVtbl_def)

lemma ICoreWebView2EnvironmentOptions2_decls:
  "map (c_method ''ICoreWebView2EnvironmentOptions2'')
     [Method ''HRESULT'' ''get_ExclusiveUserDataFolderAccess'' [''BOOL *value''],
      Method ''HRESULT'' ''put_ExclusiveUserDataFolderAccess'' [''BOOL value'']]
   =
     [CDecl ''ICoreWebView2EnvironmentOptions2'' ''HRESULT'' ''get_ExclusiveUserDataFolderAccess'' [''BOOL *value''],
      CDecl ''ICoreWebView2EnvironmentOptions2'' ''HRESULT'' ''put_ExclusiveUserDataFolderAccess'' [''BOOL value'']]"
  by (simp only: list.map c_method.simps)

lemma ICoreWebView2EnvironmentOptions2_views: "ICoreWebView2EnvironmentOptions2Vtbl = c_view ICoreWebView2EnvironmentOptions2"
  by (rule views_IUnknown [OF ICoreWebView2EnvironmentOptions2_def ICoreWebView2EnvironmentOptions2_decls])
    (simp only: table_simps ICoreWebView2EnvironmentOptions2Vtbl_def)

lemma ICoreWebView2EnvironmentOptions3_decls:
  "map (c_method ''ICoreWebView2EnvironmentOptions3'')
     [Method ''HRESULT'' ''get_IsCustomCrashReportingEnabled'' [''BOOL *value''],
      Method ''HRESULT'' ''put_IsCustomCrashReportingEnabled'' [''BOOL value'']]
   =
     [CDecl ''ICoreWebView2EnvironmentOptions3'' ''HRESULT'' ''get_IsCustomCrashReportingEnabled'' [''BOOL *value''],
      CDecl ''ICoreWebView2EnvironmentOptions3'' ''HRESULT'' ''put_IsCustomCrashReportingEnabled'' [''BOOL value'']]"
  by (simp only: list.map c_method.simps)

lemma ICoreWebView2EnvironmentOptions3_views: "ICoreWebView2EnvironmentOptions3Vtbl = c_view ICoreWebView2EnvironmentOptions3"
  by (rule views_IUnknown [OF ICoreWebView2EnvironmentOptions3_def ICoreWebView2EnvironmentOptions3_decls])
    (simp only: table_simps ICoreWebView2EnvironmentOptions3Vtbl_def)

lemma ICoreWebView2EnvironmentOptions4_decls:
  "map (c_method ''ICoreWebView2EnvironmentOptions4'')
     [Method ''HRESULT'' ''GetCustomSchemeRegistrations'' [''UINT32 *count'', ''ICoreWebView2CustomSchemeRegistration ***schemeRegistrations''],
      Method ''HRESULT'' ''SetCustomSchemeRegistrations'' [''UINT32 count'', ''ICoreWebView2CustomSchemeRegistration **schemeRegistrations'']]
   =
     [CDecl ''ICoreWebView2EnvironmentOptions4'' ''HRESULT'' ''GetCustomSchemeRegistrations'' [''UINT32 *count'', ''ICoreWebView2CustomSchemeRegistration ***schemeRegistrations''],
      CDecl ''ICoreWebView2EnvironmentOptions4'' ''HRESULT'' ''SetCustomSchemeRegistrations'' [''UINT32 count'', ''ICoreWebView2CustomSchemeRegistration **schemeRegistrations'']]"
  by (simp only: list.map c_method.simps)

lemma ICoreWebView2EnvironmentOptions4_views: "ICoreWebView2EnvironmentOptions4Vtbl = c_view ICoreWebView2EnvironmentOptions4"
  by (rule views_IUnknown [OF ICoreWebView2EnvironmentOptions4_def ICoreWebView2EnvironmentOptions4_decls])
    (simp only: table_simps ICoreWebView2EnvironmentOptions4Vtbl_def)

lemma ICoreWebView2EnvironmentOptions5_decls:
  "map (c_method ''ICoreWebView2EnvironmentOptions5'')
     [Method ''HRESULT'' ''get_EnableTrackingPrevention'' [''BOOL *value''],
      Method ''HRESULT'' ''put_EnableTrackingPrevention'' [''BOOL value'']]
   =
     [CDecl ''ICoreWebView2EnvironmentOptions5'' ''HRESULT'' ''get_EnableTrackingPrevention'' [''BOOL *value''],
      CDecl ''ICoreWebView2EnvironmentOptions5'' ''HRESULT'' ''put_EnableTrackingPrevention'' [''BOOL value'']]"
  by (simp only: list.map c_method.simps)

lemma ICoreWebView2EnvironmentOptions5_views: "ICoreWebView2EnvironmentOptions5Vtbl = c_view ICoreWebView2EnvironmentOptions5"
  by (rule views_IUnknown [OF ICoreWebView2EnvironmentOptions5_def ICoreWebView2EnvironmentOptions5_decls])
    (simp only: table_simps ICoreWebView2EnvironmentOptions5Vtbl_def)

lemma ICoreWebView2EnvironmentOptions6_decls:
  "map (c_method ''ICoreWebView2EnvironmentOptions6'')
     [Method ''HRESULT'' ''get_AreBrowserExtensionsEnabled'' [''BOOL *value''],
      Method ''HRESULT'' ''put_AreBrowserExtensionsEnabled'' [''BOOL value'']]
   =
     [CDecl ''ICoreWebView2EnvironmentOptions6'' ''HRESULT'' ''get_AreBrowserExtensionsEnabled'' [''BOOL *value''],
      CDecl ''ICoreWebView2EnvironmentOptions6'' ''HRESULT'' ''put_AreBrowserExtensionsEnabled'' [''BOOL value'']]"
  by (simp only: list.map c_method.simps)

lemma ICoreWebView2EnvironmentOptions6_views: "ICoreWebView2EnvironmentOptions6Vtbl = c_view ICoreWebView2EnvironmentOptions6"
  by (rule views_IUnknown [OF ICoreWebView2EnvironmentOptions6_def ICoreWebView2EnvironmentOptions6_decls])
    (simp only: table_simps ICoreWebView2EnvironmentOptions6Vtbl_def)

lemma ICoreWebView2ProcessExtendedInfo_decls:
  "map (c_method ''ICoreWebView2ProcessExtendedInfo'')
     [Method ''HRESULT'' ''get_ProcessInfo'' [''ICoreWebView2ProcessInfo **processInfo''],
      Method ''HRESULT'' ''get_AssociatedFrameInfos'' [''ICoreWebView2FrameInfoCollection **frames'']]
   =
     [CDecl ''ICoreWebView2ProcessExtendedInfo'' ''HRESULT'' ''get_ProcessInfo'' [''ICoreWebView2ProcessInfo **processInfo''],
      CDecl ''ICoreWebView2ProcessExtendedInfo'' ''HRESULT'' ''get_AssociatedFrameInfos'' [''ICoreWebView2FrameInfoCollection **frames'']]"
  by (simp only: list.map c_method.simps)

lemma ICoreWebView2ProcessExtendedInfo_views: "ICoreWebView2ProcessExtendedInfoVtbl = c_view ICoreWebView2ProcessExtendedInfo"
  by (rule views_IUnknown [OF ICoreWebView2ProcessExtendedInfo_def ICoreWebView2ProcessExtendedInfo_decls])
    (simp only: table_simps ICoreWebView2ProcessExtendedInfoVtbl_def)

lemma ICoreWebView2ProcessExtendedInfoCollection_decls:
  "map (c_method ''ICoreWebView2ProcessExtendedInfoCollection'')
     [Method ''HRESULT'' ''get_Count'' [''UINT *count''],
      Method ''HRESULT'' ''GetValueAtIndex'' [''UINT32 index'', ''ICoreWebView2ProcessExtendedInfo **processInfo'']]
   =
     [CDecl ''ICoreWebView2ProcessExtendedInfoCollection'' ''HRESULT'' ''get_Count'' [''UINT *count''],
      CDecl ''ICoreWebView2ProcessExtendedInfoCollection'' ''HRESULT'' ''GetValueAtIndex'' [''UINT32 index'', ''ICoreWebView2ProcessExtendedInfo **processInfo'']]"
  by (simp only: list.map c_method.simps)

lemma ICoreWebView2ProcessExtendedInfoCollection_views: "ICoreWebView2ProcessExtendedInfoCollectionVtbl = c_view ICoreWebView2ProcessExtendedInfoCollection"
  by (rule views_IUnknown [OF ICoreWebView2ProcessExtendedInfoCollection_def ICoreWebView2ProcessExtendedInfoCollection_decls])
    (simp only: table_simps ICoreWebView2ProcessExtendedInfoCollectionVtbl_def)

lemma ICoreWebView2Frame_decls:
  "map (c_method ''ICoreWebView2Frame'')
     [ICoreWebView2Frame_get_Name, ICoreWebView2Frame_add_NameChanged, ICoreWebView2Frame_remove_NameChanged,
      ICoreWebView2Frame_AddHostObjectToScriptWithOrigins, ICoreWebView2Frame_RemoveHostObjectFromScript,
      ICoreWebView2Frame_add_Destroyed, ICoreWebView2Frame_remove_Destroyed, ICoreWebView2Frame_IsDestroyed]
   =
     [ICoreWebView2Frame_get_Name_C, ICoreWebView2Frame_add_NameChanged_C, ICoreWebView2Frame_remove_NameChanged_C,
      ICoreWebView2Frame_AddHostObjectToScriptWithOrigins_C, ICoreWebView2Frame_RemoveHostObjectFromScript_C,
      ICoreWebView2Frame_add_Destroyed_C, ICoreWebView2Frame_remove_Destroyed_C, ICoreWebView2Frame_IsDestroyed_C]"
  by (simp only: list.map c_method.simps ICoreWebView2Frame_get_Name_def ICoreWebView2Frame_add_NameChanged_def
      ICoreWebView2Frame_remove_NameChanged_def ICoreWebView2Frame_AddHostObjectToScriptWithOrigins_def
      ICoreWebView2Frame_RemoveHostObjectFromScript_def ICoreWebView2Frame_add_Destroyed_def
      ICoreWebView2Frame_remove_Destroyed_def ICoreWebView2Frame_IsDestroyed_def ICoreWebView2Frame_get_Name_C_def
      ICoreWebView2Frame_add_NameChanged_C_def ICoreWebView2Frame_remove_NameChanged_C_def
      ICoreWebView2Frame_AddHostObjectToScriptWithOrigins_C_def
      ICoreWebView2Frame_RemoveHostObjectFromScript_C_def ICoreWebView2Frame_add_Destroyed_C_def
      ICoreWebView2Frame_remove_Destroyed_C_def ICoreWebView2Frame_IsDestroyed_C_def)

lemma ICoreWebView2Frame_views: "ICoreWebView2FrameVtbl = c_view ICoreWebView2Frame"
  by (rule views_IUnknown [OF ICoreWebView2Frame_def ICoreWebView2Frame_decls])
    (simp only: table_simps ICoreWebView2FrameVtbl_def)

lemma ICoreWebView2Frame2_decls:
  "map (c_method ''ICoreWebView2Frame2'')
     [ICoreWebView2Frame2_add_NavigationStarting, ICoreWebView2Frame2_remove_NavigationStarting,
      ICoreWebView2Frame2_add_ContentLoading, ICoreWebView2Frame2_remove_ContentLoading,
      ICoreWebView2Frame2_add_NavigationCompleted, ICoreWebView2Frame2_remove_NavigationCompleted,
      ICoreWebView2Frame2_add_DOMContentLoaded, ICoreWebView2Frame2_remove_DOMContentLoaded,
      ICoreWebView2Frame2_ExecuteScript, ICoreWebView2Frame2_PostWebMessageAsJson,
      ICoreWebView2Frame2_PostWebMessageAsString, ICoreWebView2Frame2_add_WebMessageReceived,
      ICoreWebView2Frame2_remove_WebMessageReceived]
   =
     [ICoreWebView2Frame2_add_NavigationStarting_C, ICoreWebView2Frame2_remove_NavigationStarting_C,
      ICoreWebView2Frame2_add_ContentLoading_C, ICoreWebView2Frame2_remove_ContentLoading_C,
      ICoreWebView2Frame2_add_NavigationCompleted_C, ICoreWebView2Frame2_remove_NavigationCompleted_C,
      ICoreWebView2Frame2_add_DOMContentLoaded_C, ICoreWebView2Frame2_remove_DOMContentLoaded_C,
      ICoreWebView2Frame2_ExecuteScript_C, ICoreWebView2Frame2_PostWebMessageAsJson_C,
      ICoreWebView2Frame2_PostWebMessageAsString_C, ICoreWebView2Frame2_add_WebMessageReceived_C,
      ICoreWebView2Frame2_remove_WebMessageReceived_C]"
  by (simp only: list.map c_method.simps ICoreWebView2Frame2_add_NavigationStarting_def
      ICoreWebView2Frame2_remove_NavigationStarting_def ICoreWebView2Frame2_add_ContentLoading_def
      ICoreWebView2Frame2_remove_ContentLoading_def ICoreWebView2Frame2_add_NavigationCompleted_def
      ICoreWebView2Frame2_remove_NavigationCompleted_def ICoreWebView2Frame2_add_DOMContentLoaded_def
      ICoreWebView2Frame2_remove_DOMContentLoaded_def ICoreWebView2Frame2_ExecuteScript_def
      ICoreWebView2Frame2_PostWebMessageAsJson_def ICoreWebView2Frame2_PostWebMessageAsString_def
      ICoreWebView2Frame2_add_WebMessageReceived_def ICoreWebView2Frame2_remove_WebMessageReceived_def
      ICoreWebView2Frame2_add_NavigationStarting_C_def ICoreWebView2Frame2_remove_NavigationStarting_C_def
      ICoreWebView2Frame2_add_ContentLoading_C_def ICoreWebView2Frame2_remove_ContentLoading_C_def
      ICoreWebView2Frame2_add_NavigationCompleted_C_def ICoreWebView2Frame2_remove_NavigationCompleted_C_def
      ICoreWebView2Frame2_add_DOMContentLoaded_C_def ICoreWebView2Frame2_remove_DOMContentLoaded_C_def
      ICoreWebView2Frame2_ExecuteScript_C_def ICoreWebView2Frame2_PostWebMessageAsJson_C_def
      ICoreWebView2Frame2_PostWebMessageAsString_C_def ICoreWebView2Frame2_add_WebMessageReceived_C_def
      ICoreWebView2Frame2_remove_WebMessageReceived_C_def)

lemma ICoreWebView2Frame2_views: "ICoreWebView2Frame2Vtbl = c_view ICoreWebView2Frame2"
  by (rule views_Derived [OF ICoreWebView2Frame2_def ICoreWebView2Frame2_decls ICoreWebView2Frame_views])
    (simp only: table_simps ICoreWebView2Frame2Vtbl_def ICoreWebView2FrameVtbl_def)

lemma ICoreWebView2Frame3_decls:
  "map (c_method ''ICoreWebView2Frame3'')
     [ICoreWebView2Frame3_add_PermissionRequested, ICoreWebView2Frame3_remove_PermissionRequested]
   =
     [ICoreWebView2Frame3_add_PermissionRequested_C, ICoreWebView2Frame3_remove_PermissionRequested_C]"
  by (simp only: list.map c_method.simps ICoreWebView2Frame3_add_PermissionRequested_def
      ICoreWebView2Frame3_remove_PermissionRequested_def ICoreWebView2Frame3_add_PermissionRequested_C_def
      ICoreWebView2Frame3_remove_PermissionRequested_C_def)

lemma ICoreWebView2Frame3_views: "ICoreWebView2Frame3Vtbl = c_view ICoreWebView2Frame3"
  by (rule views_Derived [OF ICoreWebView2Frame3_def ICoreWebView2Frame3_decls ICoreWebView2Frame2_views])
    (simp only: table_simps ICoreWebView2Frame3Vtbl_1_def ICoreWebView2Frame3Vtbl_2_def ICoreWebView2Frame3Vtbl_def
      ICoreWebView2Frame2Vtbl_def)

lemma ICoreWebView2Frame4_decls:
  "map (c_method ''ICoreWebView2Frame4'')
     [ICoreWebView2Frame4_PostSharedBufferToScript]
   =
     [ICoreWebView2Frame4_PostSharedBufferToScript_C]"
  by (simp only: list.map c_method.simps ICoreWebView2Frame4_PostSharedBufferToScript_def
      ICoreWebView2Frame4_PostSharedBufferToScript_C_def)

lemma ICoreWebView2Frame4_views: "ICoreWebView2Frame4Vtbl = c_view ICoreWebView2Frame4"
  by (rule views_Derived [OF ICoreWebView2Frame4_def ICoreWebView2Frame4_decls ICoreWebView2Frame3_views])
    (simp only: table_simps ICoreWebView2Frame4Vtbl_1_def ICoreWebView2Frame4Vtbl_2_def ICoreWebView2Frame4Vtbl_def
      ICoreWebView2Frame3Vtbl_1_def ICoreWebView2Frame3Vtbl_2_def ICoreWebView2Frame3Vtbl_def)

lemma ICoreWebView2Frame5_decls:
  "map (c_method ''ICoreWebView2Frame5'')
     [Method ''HRESULT'' ''get_FrameId'' [''UINT32 *id'']]
   =
     [CDecl ''ICoreWebView2Frame5'' ''HRESULT'' ''get_FrameId'' [''UINT32 *id'']]"
  by (simp only: list.map c_method.simps)

lemma ICoreWebView2Frame5_views: "ICoreWebView2Frame5Vtbl = c_view ICoreWebView2Frame5"
  by (rule views_Derived [OF ICoreWebView2Frame5_def ICoreWebView2Frame5_decls ICoreWebView2Frame4_views])
    (simp only: table_simps ICoreWebView2Frame5Vtbl_1_def ICoreWebView2Frame5Vtbl_2_def ICoreWebView2Frame5Vtbl_def
      ICoreWebView2Frame4Vtbl_1_def ICoreWebView2Frame4Vtbl_2_def ICoreWebView2Frame4Vtbl_def)

lemma ICoreWebView2FrameInfo_decls:
  "map (c_method ''ICoreWebView2FrameInfo'')
     [ICoreWebView2FrameInfo_get_Name, ICoreWebView2FrameInfo_get_Source]
   =
     [ICoreWebView2FrameInfo_get_Name_C, ICoreWebView2FrameInfo_get_Source_C]"
  by (simp only: list.map c_method.simps ICoreWebView2FrameInfo_get_Name_def ICoreWebView2FrameInfo_get_Source_def
      ICoreWebView2FrameInfo_get_Name_C_def ICoreWebView2FrameInfo_get_Source_C_def)

lemma ICoreWebView2FrameInfo_views: "ICoreWebView2FrameInfoVtbl = c_view ICoreWebView2FrameInfo"
  by (rule views_IUnknown [OF ICoreWebView2FrameInfo_def ICoreWebView2FrameInfo_decls])
    (simp only: table_simps ICoreWebView2FrameInfoVtbl_def)

lemma ICoreWebView2FrameInfo2_decls:
  "map (c_method ''ICoreWebView2FrameInfo2'')
     [Method ''HRESULT'' ''get_ParentFrameInfo'' [''ICoreWebView2FrameInfo **frameInfo''],
      Method ''HRESULT'' ''get_FrameId'' [''UINT32 *id''],
      Method ''HRESULT'' ''get_FrameKind'' [''COREWEBVIEW2_FRAME_KIND *kind'']]
   =
     [CDecl ''ICoreWebView2FrameInfo2'' ''HRESULT'' ''get_ParentFrameInfo'' [''ICoreWebView2FrameInfo **frameInfo''],
      CDecl ''ICoreWebView2FrameInfo2'' ''HRESULT'' ''get_FrameId'' [''UINT32 *id''],
      CDecl ''ICoreWebView2FrameInfo2'' ''HRESULT'' ''get_FrameKind'' [''COREWEBVIEW2_FRAME_KIND *kind'']]"
  by (simp only: list.map c_method.simps)

lemma ICoreWebView2FrameInfo2_views: "ICoreWebView2FrameInfo2Vtbl = c_view ICoreWebView2FrameInfo2"
  by (rule views_Derived [OF ICoreWebView2FrameInfo2_def ICoreWebView2FrameInfo2_decls ICoreWebView2FrameInfo_views])
    (simp only: table_simps ICoreWebView2FrameInfo2Vtbl_def ICoreWebView2FrameInfoVtbl_def)

lemma ICoreWebView2FrameInfoCollection_decls:
  "map (c_method ''ICoreWebView2FrameInfoCollection'')
     [Method ''HRESULT'' ''GetIterator'' [''ICoreWebView2FrameInfoCollectionIterator **iterator'']]
   =
     [CDecl ''ICoreWebView2FrameInfoCollection'' ''HRESULT'' ''GetIterator'' [''ICoreWebView2FrameInfoCollectionIterator **iterator'']]"
  by (simp only: list.map c_method.simps)

lemma ICoreWebView2FrameInfoCollection_views: "ICoreWebView2FrameInfoCollectionVtbl = c_view ICoreWebView2FrameInfoCollection"
  by (rule views_IUnknown [OF ICoreWebView2FrameInfoCollection_def ICoreWebView2FrameInfoCollection_decls])
    (simp only: table_simps ICoreWebView2FrameInfoCollectionVtbl_def)

lemma ICoreWebView2FrameInfoCollectionIterator_decls:
  "map (c_method ''ICoreWebView2FrameInfoCollectionIterator'')
     [Method ''HRESULT'' ''get_HasCurrent'' [''BOOL *hasCurrent''],
      Method ''HRESULT'' ''GetCurrent'' [''ICoreWebView2FrameInfo **frameInfo''],
      Method ''HRESULT'' ''MoveNext'' [''BOOL *hasNext'']]
   =
     [CDecl ''ICoreWebView2FrameInfoCollectionIterator'' ''HRESULT'' ''get_HasCurrent'' [''BOOL *hasCurrent''],
      CDecl ''ICoreWebView2FrameInfoCollectionIterator'' ''HRESULT'' ''GetCurrent'' [''ICoreWebView2FrameInfo **frameInfo''],
      CDecl ''ICoreWebView2FrameInfoCollectionIterator'' ''HRESULT'' ''MoveNext'' [''BOOL *hasNext'']]"
  by (simp only: list.map c_method.simps)

lemma ICoreWebView2FrameInfoCollectionIterator_views: "ICoreWebView2FrameInfoCollectionIteratorVtbl = c_view ICoreWebView2FrameInfoCollectionIterator"
  by (rule views_IUnknown [OF ICoreWebView2FrameInfoCollectionIterator_def ICoreWebView2FrameInfoCollectionIterator_decls])
    (simp only: table_simps ICoreWebView2FrameInfoCollectionIteratorVtbl_def)

lemma ICoreWebView2Profile_decls:
  "map (c_method ''ICoreWebView2Profile'')
     [ICoreWebView2Profile_get_ProfileName, ICoreWebView2Profile_get_IsInPrivateModeEnabled,
      ICoreWebView2Profile_get_ProfilePath, ICoreWebView2Profile_get_DefaultDownloadFolderPath,
      ICoreWebView2Profile_put_DefaultDownloadFolderPath, ICoreWebView2Profile_get_PreferredColorScheme,
      ICoreWebView2Profile_put_PreferredColorScheme]
   =
     [ICoreWebView2Profile_get_ProfileName_C, ICoreWebView2Profile_get_IsInPrivateModeEnabled_C,
      ICoreWebView2Profile_get_ProfilePath_C, ICoreWebView2Profile_get_DefaultDownloadFolderPath_C,
      ICoreWebView2Profile_put_DefaultDownloadFolderPath_C, ICoreWebView2Profile_get_PreferredColorScheme_C,
      ICoreWebView2Profile_put_PreferredColorScheme_C]"
  by (simp only: list.map c_method.simps ICoreWebView2Profile_get_ProfileName_def
      ICoreWebView2Profile_get_IsInPrivateModeEnabled_def ICoreWebView2Profile_get_ProfilePath_def
      ICoreWebView2Profile_get_DefaultDownloadFolderPath_def
      ICoreWebView2Profile_put_DefaultDownloadFolderPath_def ICoreWebView2Profile_get_PreferredColorScheme_def
      ICoreWebView2Profile_put_PreferredColorScheme_def ICoreWebView2Profile_get_ProfileName_C_def
      ICoreWebView2Profile_get_IsInPrivateModeEnabled_C_def ICoreWebView2Profile_get_ProfilePath_C_def
      ICoreWebView2Profile_get_DefaultDownloadFolderPath_C_def
      ICoreWebView2Profile_put_DefaultDownloadFolderPath_C_def ICoreWebView2Profile_get_PreferredColorScheme_C_def
      ICoreWebView2Profile_put_PreferredColorScheme_C_def)

lemma ICoreWebView2Profile_views: "ICoreWebView2ProfileVtbl = c_view ICoreWebView2Profile"
  by (rule views_IUnknown [OF ICoreWebView2Profile_def ICoreWebView2Profile_decls])
    (simp only: table_simps ICoreWebView2ProfileVtbl_def)

lemma ICoreWebView2Profile2_decls:
  "map (c_method ''ICoreWebView2Profile2'')
     [ICoreWebView2Profile2_ClearBrowsingData, ICoreWebView2Profile2_ClearBrowsingDataInTimeRange,
      ICoreWebView2Profile2_ClearBrowsingDataAll]
   =
     [ICoreWebView2Profile2_ClearBrowsingData_C, ICoreWebView2Profile2_ClearBrowsingDataInTimeRange_C,
      ICoreWebView2Profile2_ClearBrowsingDataAll_C]"
  by (simp only: list.map c_method.simps ICoreWebView2Profile2_ClearBrowsingData_def
      ICoreWebView2Profile2_ClearBrowsingDataInTimeRange_def ICoreWebView2Profile2_ClearBrowsingDataAll_def
      ICoreWebView2Profile2_ClearBrowsingData_C_def ICoreWebView2Profile2_ClearBrowsingDataInTimeRange_C_def
      ICoreWebView2Profile2_ClearBrowsingDataAll_C_def)

lemma ICoreWebView2Profile2_views: "ICoreWebView2Profile2Vtbl = c_view ICoreWebView2Profile2"
  by (rule views_Derived [OF ICoreWebView2Profile2_def ICoreWebView2Profile2_decls ICoreWebView2Profile_views])
    (simp only: table_simps ICoreWebView2Profile2Vtbl_def ICoreWebView2ProfileVtbl_def)

lemma ICoreWebView2Profile3_decls:
  "map (c_method ''ICoreWebView2Profile3'')
     [ICoreWebView2Profile3_get_PreferredTrackingPreventionLevel,
      ICoreWebView2Profile3_put_PreferredTrackingPreventionLevel]
   =
     [ICoreWebView2Profile3_get_PreferredTrackingPreventionLevel_C,
      ICoreWebView2Profile3_put_PreferredTrackingPreventionLevel_C]"
  by (simp only: list.map c_method.simps ICoreWebView2Profile3_get_PreferredTrackingPreventionLevel_def
      ICoreWebView2Profile3_put_PreferredTrackingPreventionLevel_def
      ICoreWebView2Profile3_get_PreferredTrackingPreventionLevel_C_def
      ICoreWebView2Profile3_put_PreferredTrackingPreventionLevel_C_def)

lemma ICoreWebView2Profile3_views: "ICoreWebView2Profile3Vtbl = c_view ICoreWebView2Profile3"
  by (rule views_Derived [OF ICoreWebView2Profile3_def ICoreWebView2Profile3_decls ICoreWebView2Profile2_views])
    (simp only: table_simps ICoreWebView2Profile3Vtbl_def ICoreWebView2Profile2Vtbl_def)

lemma ICoreWebView2Profile4_decls:
  "map (c_method ''ICoreWebView2Profile4'')
     [ICoreWebView2Profile4_SetPermissionState, ICoreWebView2Profile4_GetNonDefaultPermissionSettings]
   =
     [ICoreWebView2Profile4_SetPermissionState_C, ICoreWebView2Profile4_GetNonDefaultPermissionSettings_C]"
  by (simp only: list.map c_method.simps ICoreWebView2Profile4_SetPermissionState_def
      ICoreWebView2Profile4_GetNonDefaultPermissionSettings_def ICoreWebView2Profile4_SetPermissionState_C_def
      ICoreWebView2Profile4_GetNonDefaultPermissionSettings_C_def)

lemma ICoreWebView2Profile4_views: "ICoreWebView2Profile4Vtbl = c_view ICoreWebView2Profile4"
  by (rule views_Derived [OF ICoreWebView2Profile4_def ICoreWebView2Profile4_decls ICoreWebView2Profile3_views])
    (simp only: table_simps ICoreWebView2Profile4Vtbl_def ICoreWebView2Profile3Vtbl_def)

lemma ICoreWebView2Profile5_decls:
  "map (c_method ''ICoreWebView2Profile5'')
     [ICoreWebView2Profile5_get_CookieManager]
   =
     [ICoreWebView2Profile5_get_CookieManager_C]"
  by (simp only: list.map c_method.simps ICoreWebView2Profile5_get_CookieManager_def
      ICoreWebView2Profile5_get_CookieManager_C_def)

lemma ICoreWebView2Profile5_views: "ICoreWebView2Profile5Vtbl = c_view ICoreWebView2Profile5"
  by (rule views_Derived [OF ICoreWebView2Profile5_def ICoreWebView2Profile5_decls ICoreWebView2Profile4_views])
    (simp only: table_simps ICoreWebView2Profile5Vtbl_def ICoreWebView2Profile4Vtbl_def)

lemma ICoreWebView2Profile6_decls:
  "map (c_method ''ICoreWebView2Profile6'')
     [ICoreWebView2Profile6_get_IsPasswordAutosaveEnabled, ICoreWebView2Profile6_put_IsPasswordAutosaveEnabled,
      ICoreWebView2Profile6_get_IsGeneralAutofillEnabled, ICoreWebView2Profile6_put_IsGeneralAutofillEnabled]
   =
     [ICoreWebView2Profile6_get_IsPasswordAutosaveEnabled_C, ICoreWebView2Profile6_put_IsPasswordAutosaveEnabled_C,
      ICoreWebView2Profile6_get_IsGeneralAutofillEnabled_C, ICoreWebView2Profile6_put_IsGeneralAutofillEnabled_C]"
  by (simp only: list.map c_method.simps ICoreWebView2Profile6_get_IsPasswordAutosaveEnabled_def
      ICoreWebView2Profile6_put_IsPasswordAutosaveEnabled_def
      ICoreWebView2Profile6_get_IsGeneralAutofillEnabled_def
      ICoreWebView2Profile6_put_IsGeneralAutofillEnabled_def
      ICoreWebView2Profile6_get_IsPasswordAutosaveEnabled_C_def
      ICoreWebView2Profile6_put_IsPasswordAutosaveEnabled_C_def
      ICoreWebView2Profile6_get_IsGeneralAutofillEnabled_C_def
      ICoreWebView2Profile6_put_IsGeneralAutofillEnabled_C_def)

lemma ICoreWebView2Profile6_views: "ICoreWebView2Profile6Vtbl = c_view ICoreWebView2Profile6"
  by (rule views_Derived [OF ICoreWebView2Profile6_def ICoreWebView2Profile6_decls ICoreWebView2Profile5_views])
    (simp only: table_simps ICoreWebView2Profile6Vtbl_def ICoreWebView2Profile5Vtbl_def)

lemma ICoreWebView2Profile7_decls:
  "map (c_method ''ICoreWebView2Profile7'')
     [ICoreWebView2Profile7_AddBrowserExtension, ICoreWebView2Profile7_GetBrowserExtensions]
   =
     [ICoreWebView2Profile7_AddBrowserExtension_C, ICoreWebView2Profile7_GetBrowserExtensions_C]"
  by (simp only: list.map c_method.simps ICoreWebView2Profile7_AddBrowserExtension_def
      ICoreWebView2Profile7_GetBrowserExtensions_def ICoreWebView2Profile7_AddBrowserExtension_C_def
      ICoreWebView2Profile7_GetBrowserExtensions_C_def)

lemma ICoreWebView2Profile7_views: "ICoreWebView2Profile7Vtbl = c_view ICoreWebView2Profile7"
  by (rule views_Derived [OF ICoreWebView2Profile7_def ICoreWebView2Profile7_decls ICoreWebView2Profile6_views])
    (simp only: table_simps ICoreWebView2Profile7Vtbl_def ICoreWebView2Profile6Vtbl_def)

lemma ICoreWebView2Profile8_decls:
  "map (c_method ''ICoreWebView2Profile8'')
     [Method ''HRESULT'' ''Delete'' [],
      Method ''HRESULT'' ''add_Deleted'' [''ICoreWebView2ProfileDeletedEventHandler *eventHandler'', ''EventRegistrationToken *token''],
      Method ''HRESULT'' ''remove_Deleted'' [''EventRegistrationToken token'']]
   =
     [CDecl ''ICoreWebView2Profile8'' ''HRESULT'' ''Delete'' [],
      CDecl ''ICoreWebView2Profile8'' ''HRESULT'' ''add_Deleted'' [''ICoreWebView2ProfileDeletedEventHandler *eventHandler'', ''EventRegistrationToken *token''],
      CDecl ''ICoreWebView2Profile8'' ''HRESULT'' ''remove_Deleted'' [''EventRegistrationToken token'']]"
  by (simp only: list.map c_method.simps)

lemma ICoreWebView2Profile8_views: "ICoreWebView2Profile8Vtbl = c_view ICoreWebView2Profile8"
  by (rule views_Derived [OF ICoreWebView2Profile8_def ICoreWebView2Profile8_decls ICoreWebView2Profile7_views])
    (simp only: table_simps ICoreWebView2Profile8Vtbl_1_def ICoreWebView2Profile8Vtbl_2_def ICoreWebView2Profile8Vtbl_def
      ICoreWebView2Profile7Vtbl_def)

lemma ICoreWebView2Settings_decls:
  "map (c_method ''ICoreWebView2Settings'')
     [ICoreWebView2Settings_get_IsScriptEnabled, ICoreWebView2Settings_put_IsScriptEnabled,
      ICoreWebView2Settings_get_IsWebMessageEnabled, ICoreWebView2Settings_put_IsWebMessageEnabled,
      ICoreWebView2Settings_get_AreDefaultScriptDialogsEnabled,
      ICoreWebView2Settings_put_AreDefaultScriptDialogsEnabled, ICoreWebView2Settings_get_IsStatusBarEnabled,
      ICoreWebView2Settings_put_IsStatusBarEnabled, ICoreWebView2Settings_get_AreDevToolsEnabled,
      ICoreWebView2Settings_put_AreDevToolsEnabled, ICoreWebView2Settings_get_AreDefaultContextMenusEnabled,
      ICoreWebView2Settings_put_AreDefaultContextMenusEnabled, ICoreWebView2Settings_get_AreHostObjectsAllowed,
      ICoreWebView2Settings_put_AreHostObjectsAllowed, ICoreWebView2Settings_get_IsZoomControlEnabled,
      ICoreWebView2Settings_put_IsZoomControlEnabled, ICoreWebView2Settings_get_IsBuiltInErrorPageEnabled,
      ICoreWebView2Settings_put_IsBuiltInErrorPageEnabled]
   =
     [ICoreWebView2Settings_get_IsScriptEnabled_C, ICoreWebView2Settings_put_IsScriptEnabled_C,
      ICoreWebView2Settings_get_IsWebMessageEnabled_C, ICoreWebView2Settings_put_IsWebMessageEnabled_C,
      ICoreWebView2Settings_get_AreDefaultScriptDialogsEnabled_C,
      ICoreWebView2Settings_put_AreDefaultScriptDialogsEnabled_C, ICoreWebView2Settings_get_IsStatusBarEnabled_C,
      ICoreWebView2Settings_put_IsStatusBarEnabled_C, ICoreWebView2Settings_get_AreDevToolsEnabled_C,
      ICoreWebView2Settings_put_AreDevToolsEnabled_C, ICoreWebView2Settings_get_AreDefaultContextMenusEnabled_C,
      ICoreWebView2Settings_put_AreDefaultContextMenusEnabled_C, ICoreWebView2Settings_get_AreHostObjectsAllowed_C,
      ICoreWebView2Settings_put_AreHostObjectsAllowed_C, ICoreWebView2Settings_get_IsZoomControlEnabled_C,
      ICoreWebView2Settings_put_IsZoomControlEnabled_C, ICoreWebView2Settings_get_IsBuiltInErrorPageEnabled_C,
      ICoreWebView2Settings_put_IsBuiltInErrorPageEnabled_C]"
  by (simp only: list.map c_method.simps ICoreWebView2Settings_get_IsScriptEnabled_def
      ICoreWebView2Settings_put_IsScriptEnabled_def ICoreWebView2Settings_get_IsWebMessageEnabled_def
      ICoreWebView2Settings_put_IsWebMessageEnabled_def
      ICoreWebView2Settings_get_AreDefaultScriptDialogsEnabled_def
      ICoreWebView2Settings_put_AreDefaultScriptDialogsEnabled_def
      ICoreWebView2Settings_get_IsStatusBarEnabled_def ICoreWebView2Settings_put_IsStatusBarEnabled_def
      ICoreWebView2Settings_get_AreDevToolsEnabled_def ICoreWebView2Settings_put_AreDevToolsEnabled_def
      ICoreWebView2Settings_get_AreDefaultContextMenusEnabled_def
      ICoreWebView2Settings_put_AreDefaultContextMenusEnabled_def
      ICoreWebView2Settings_get_AreHostObjectsAllowed_def ICoreWebView2Settings_put_AreHostObjectsAllowed_def
      ICoreWebView2Settings_get_IsZoomControlEnabled_def ICoreWebView2Settings_put_IsZoomControlEnabled_def
      ICoreWebView2Settings_get_IsBuiltInErrorPageEnabled_def
      ICoreWebView2Settings_put_IsBuiltInErrorPageEnabled_def ICoreWebView2Settings_get_IsScriptEnabled_C_def
      ICoreWebView2Settings_put_IsScriptEnabled_C_def ICoreWebView2Settings_get_IsWebMessageEnabled_C_def
      ICoreWebView2Settings_put_IsWebMessageEnabled_C_def
      ICoreWebView2Settings_get_AreDefaultScriptDialogsEnabled_C_def
      ICoreWebView2Settings_put_AreDefaultScriptDialogsEnabled_C_def
      ICoreWebView2Settings_get_IsStatusBarEnabled_C_def ICoreWebView2Settings_put_IsStatusBarEnabled_C_def
      ICoreWebView2Settings_get_AreDevToolsEnabled_C_def ICoreWebView2Settings_put_AreDevToolsEnabled_C_def
      ICoreWebView2Settings_get_AreDefaultContextMenusEnabled_C_def
      ICoreWebView2Settings_put_AreDefaultContextMenusEnabled_C_def
      ICoreWebView2Settings_get_AreHostObjectsAllowed_C_def ICoreWebView2Settings_put_AreHostObjectsAllowed_C_def
      ICoreWebView2Settings_get_IsZoomControlEnabled_C_def ICoreWebView2Settings_put_IsZoomControlEnabled_C_def
      ICoreWebView2Settings_get_IsBuiltInErrorPageEnabled_C_def
      ICoreWebView2Settings_put_IsBuiltInErrorPageEnabled_C_def)

lemma ICoreWebView2Settings_views: "ICoreWebView2SettingsVtbl = c_view ICoreWebView2Settings"
  by (rule views_IUnknown [OF ICoreWebView2Settings_def ICoreWebView2Settings_decls])
    (simp only: table_simps ICoreWebView2SettingsVtbl_def)

lemma ICoreWebView2Settings2_decls:
  "map (c_method ''ICoreWebView2Settings2'')
     [ICoreWebView2Settings2_get_UserAgent, ICoreWebView2Settings2_put_UserAgent]
   =
     [ICoreWebView2Settings2_get_UserAgent_C, ICoreWebView2Settings2_put_UserAgent_C]"
  by (simp only: list.map c_method.simps ICoreWebView2Settings2_get_UserAgent_def ICoreWebView2Settings2_put_UserAgent_def
      ICoreWebView2Settings2_get_UserAgent_C_def ICoreWebView2Settings2_put_UserAgent_C_def)

lemma ICoreWebView2Settings2_views: "ICoreWebView2Settings2Vtbl = c_view ICoreWebView2Settings2"
  by (rule views_Derived [OF ICoreWebView2Settings2_def ICoreWebView2Settings2_decls ICoreWebView2Settings_views])
    (simp only: table_simps ICoreWebView2Settings2Vtbl_def ICoreWebView2SettingsVtbl_def)

lemma ICoreWebView2Settings3_decls:
  "map (c_method ''ICoreWebView2Settings3'')
     [ICoreWebView2Settings3_get_AreBrowserAcceleratorKeysEnabled,
      ICoreWebView2Settings3_put_AreBrowserAcceleratorKeysEnabled]
   =
     [ICoreWebView2Settings3_get_AreBrowserAcceleratorKeysEnabled_C,
      ICoreWebView2Settings3_put_AreBrowserAcceleratorKeysEnabled_C]"
  by (simp only: list.map c_method.simps ICoreWebView2Settings3_get_AreBrowserAcceleratorKeysEnabled_def
      ICoreWebView2Settings3_put_AreBrowserAcceleratorKeysEnabled_def
      ICoreWebView2Settings3_get_AreBrowserAcceleratorKeysEnabled_C_def
      ICoreWebView2Settings3_put_AreBrowserAcceleratorKeysEnabled_C_def)

lemma ICoreWebView2Settings3_views: "ICoreWebView2Settings3Vtbl = c_view ICoreWebView2Settings3"
  by (rule views_Derived [OF ICoreWebView2Settings3_def ICoreWebView2Settings3_decls ICoreWebView2Settings2_views])
    (simp only: table_simps ICoreWebView2Settings3Vtbl_def ICoreWebView2Settings2Vtbl_def)

lemma ICoreWebView2Settings4_decls:
  "map (c_method ''ICoreWebView2Settings4'')
     [ICoreWebView2Settings4_get_IsPasswordAutosaveEnabled, ICoreWebView2Settings4_put_IsPasswordAutosaveEnabled,
      ICoreWebView2Settings4_get_IsGeneralAutofillEnabled, ICoreWebView2Settings4_put_IsGeneralAutofillEnabled]
   =
     [ICoreWebView2Settings4_get_IsPasswordAutosaveEnabled_C, ICoreWebView2Settings4_put_IsPasswordAutosaveEnabled_C,
      ICoreWebView2Settings4_get_IsGeneralAutofillEnabled_C, ICoreWebView2Settings4_put_IsGeneralAutofillEnabled_C]"
  by (simp only: list.map c_method.simps ICoreWebView2Settings4_get_IsPasswordAutosaveEnabled_def
      ICoreWebView2Settings4_put_IsPasswordAutosaveEnabled_def
      ICoreWebView2Settings4_get_IsGeneralAutofillEnabled_def
      ICoreWebView2Settings4_put_IsGeneralAutofillEnabled_def
      ICoreWebView2Settings4_get_IsPasswordAutosaveEnabled_C_def
      ICoreWebView2Settings4_put_IsPasswordAutosaveEnabled_C_def
      ICoreWebView2Settings4_get_IsGeneralAutofillEnabled_C_def
      ICoreWebView2Settings4_put_IsGeneralAutofillEnabled_C_def)

lemma ICoreWebView2Settings4_views: "ICoreWebView2Settings4Vtbl = c_view ICoreWebView2Settings4"
  by (rule views_Derived [OF ICoreWebView2Settings4_def ICoreWebView2Settings4_decls ICoreWebView2Settings3_views])
    (simp only: table_simps ICoreWebView2Settings4Vtbl_1_def ICoreWebView2Settings4Vtbl_2_def ICoreWebView2Settings4Vtbl_def
      ICoreWebView2Settings3Vtbl_def)

lemma ICoreWebView2Settings5_decls:
  "map (c_method ''ICoreWebView2Settings5'')
     [ICoreWebView2Settings5_get_IsPinchZoomEnabled, ICoreWebView2Settings5_put_IsPinchZoomEnabled]
   =
     [ICoreWebView2Settings5_get_IsPinchZoomEnabled_C, ICoreWebView2Settings5_put_IsPinchZoomEnabled_C]"
  by (simp only: list.map c_method.simps ICoreWebView2Settings5_get_IsPinchZoomEnabled_def
      ICoreWebView2Settings5_put_IsPinchZoomEnabled_def ICoreWebView2Settings5_get_IsPinchZoomEnabled_C_def
      ICoreWebView2Settings5_put_IsPinchZoomEnabled_C_def)

lemma ICoreWebView2Settings5_views: "ICoreWebView2Settings5Vtbl = c_view ICoreWebView2Settings5"
  by (rule views_Derived [OF ICoreWebView2Settings5_def ICoreWebView2Settings5_decls ICoreWebView2Settings4_views])
    (simp only: table_simps ICoreWebView2Settings5Vtbl_1_def ICoreWebView2Settings5Vtbl_2_def ICoreWebView2Settings5Vtbl_def
      ICoreWebView2Settings4Vtbl_1_def ICoreWebView2Settings4Vtbl_2_def ICoreWebView2Settings4Vtbl_def)

lemma ICoreWebView2Settings6_decls:
  "map (c_method ''ICoreWebView2Settings6'')
     [ICoreWebView2Settings6_get_IsSwipeNavigationEnabled, ICoreWebView2Settings6_put_IsSwipeNavigationEnabled]
   =
     [ICoreWebView2Settings6_get_IsSwipeNavigationEnabled_C, ICoreWebView2Settings6_put_IsSwipeNavigationEnabled_C]"
  by (simp only: list.map c_method.simps ICoreWebView2Settings6_get_IsSwipeNavigationEnabled_def
      ICoreWebView2Settings6_put_IsSwipeNavigationEnabled_def
      ICoreWebView2Settings6_get_IsSwipeNavigationEnabled_C_def
      ICoreWebView2Settings6_put_IsSwipeNavigationEnabled_C_def)

lemma ICoreWebView2Settings6_views: "ICoreWebView2Settings6Vtbl = c_view ICoreWebView2Settings6"
  by (rule views_Derived [OF ICoreWebView2Settings6_def ICoreWebView2Settings6_decls ICoreWebView2Settings5_views])
    (simp only: table_simps ICoreWebView2Settings6Vtbl_1_def ICoreWebView2Settings6Vtbl_2_def ICoreWebView2Settings6Vtbl_def
      ICoreWebView2Settings5Vtbl_1_def ICoreWebView2Settings5Vtbl_2_def ICoreWebView2Settings5Vtbl_def)

lemma ICoreWebView2Settings7_decls:
  "map (c_method ''ICoreWebView2Settings7'')
     [ICoreWebView2Settings7_get_HiddenPdfToolbarItems, ICoreWebView2Settings7_put_HiddenPdfToolbarItems]
   =
     [ICoreWebView2Settings7_get_HiddenPdfToolbarItems_C, ICoreWebView2Settings7_put_HiddenPdfToolbarItems_C]"
  by (simp only: list.map c_method.simps ICoreWebView2Settings7_get_HiddenPdfToolbarItems_def
      ICoreWebView2Settings7_put_HiddenPdfToolbarItems_def ICoreWebView2Settings7_get_HiddenPdfToolbarItems_C_def
      ICoreWebView2Settings7_put_HiddenPdfToolbarItems_C_def)

lemma ICoreWebView2Settings7_views: "ICoreWebView2Settings7Vtbl = c_view ICoreWebView2Settings7"
  by (rule views_Derived [OF ICoreWebView2Settings7_def ICoreWebView2Settings7_decls ICoreWebView2Settings6_views])
    (simp only: table_simps ICoreWebView2Settings7Vtbl_1_def ICoreWebView2Settings7Vtbl_2_def ICoreWebView2Settings7Vtbl_def
      ICoreWebView2Settings6Vtbl_1_def ICoreWebView2Settings6Vtbl_2_def ICoreWebView2Settings6Vtbl_def)

lemma ICoreWebView2Settings8_decls:
  "map (c_method ''ICoreWebView2Settings8'')
     [Method ''HRESULT'' ''get_IsReputationCheckingRequired'' [''BOOL *value''],
      Method ''HRESULT'' ''put_IsReputationCheckingRequired'' [''BOOL value'']]
   =
     [CDecl ''ICoreWebView2Settings8'' ''HRESULT'' ''get_IsReputationCheckingRequired'' [''BOOL *value''],
      CDecl ''ICoreWebView2Settings8'' ''HRESULT'' ''put_IsReputationCheckingRequired'' [''BOOL value'']]"
  by (simp only: list.map c_method.simps)

lemma ICoreWebView2Settings8_views: "ICoreWebView2Settings8Vtbl = c_view ICoreWebView2Settings8"
  by (rule views_Derived [OF ICoreWebView2Settings8_def ICoreWebView2Settings8_decls ICoreWebView2Settings7_views])
    (simp only: table_simps ICoreWebView2Settings8Vtbl_1_def ICoreWebView2Settings8Vtbl_2_def ICoreWebView2Settings8Vtbl_def
      ICoreWebView2Settings7Vtbl_1_def ICoreWebView2Settings7Vtbl_2_def ICoreWebView2Settings7Vtbl_def)

lemma ICoreWebView2SharedBuffer_decls:
  "map (c_method ''ICoreWebView2SharedBuffer'')
     [Method ''HRESULT'' ''get_Size'' [''UINT64 *value''],
      Method ''HRESULT'' ''get_Buffer'' [''BYTE **value''],
      Method ''HRESULT'' ''OpenStream'' [''IStream **value''],
      Method ''HRESULT'' ''get_FileMappingHandle'' [''HANDLE *value''],
      Method ''HRESULT'' ''Close'' []]
   =
     [CDecl ''ICoreWebView2SharedBuffer'' ''HRESULT'' ''get_Size'' [''UINT64 *value''],
      CDecl ''ICoreWebView2SharedBuffer'' ''HRESULT'' ''get_Buffer'' [''BYTE **value''],
      CDecl ''ICoreWebView2SharedBuffer'' ''HRESULT'' ''OpenStream'' [''IStream **value''],
      CDecl ''ICoreWebView2SharedBuffer'' ''HRESULT'' ''get_FileMappingHandle'' [''HANDLE *value''],
      CDecl ''ICoreWebView2SharedBuffer'' ''HRESULT'' ''Close'' []]"
  by (simp only: list.map c_method.simps)

lemma ICoreWebView2SharedBuffer_views: "ICoreWebView2SharedBufferVtbl = c_view ICoreWebView2SharedBuffer"
  by (rule views_IUnknown [OF ICoreWebView2SharedBuffer_def ICoreWebView2SharedBuffer_decls])
    (simp only: table_simps ICoreWebView2SharedBufferVtbl_def)

lemma ICoreWebView2ProcessInfo_decls:
  "map (c_method ''ICoreWebView2ProcessInfo'')
     [Method ''HRESULT'' ''get_ProcessId'' [''INT32 *value''],
      Method ''HRESULT'' ''get_Kind'' [''COREWEBVIEW2_PROCESS_KIND *kind'']]
   =
     [CDecl ''ICoreWebView2ProcessInfo'' ''HRESULT'' ''get_ProcessId'' [''INT32 *value''],
      CDecl ''ICoreWebView2ProcessInfo'' ''HRESULT'' ''get_Kind'' [''COREWEBVIEW2_PROCESS_KIND *kind'']]"
  by (simp only: list.map c_method.simps)

lemma ICoreWebView2ProcessInfo_views: "ICoreWebView2ProcessInfoVtbl = c_view ICoreWebView2ProcessInfo"
  by (rule views_IUnknown [OF ICoreWebView2ProcessInfo_def ICoreWebView2ProcessInfo_decls])
    (simp only: table_simps ICoreWebView2ProcessInfoVtbl_def)

lemma ICoreWebView2ProcessInfoCollection_decls:
  "map (c_method ''ICoreWebView2ProcessInfoCollection'')
     [Method ''HRESULT'' ''get_Count'' [''UINT *count''],
      Method ''HRESULT'' ''GetValueAtIndex'' [''UINT32 index'', ''ICoreWebView2ProcessInfo **processInfo'']]
   =
     [CDecl ''ICoreWebView2ProcessInfoCollection'' ''HRESULT'' ''get_Count'' [''UINT *count''],
      CDecl ''ICoreWebView2ProcessInfoCollection'' ''HRESULT'' ''GetValueAtIndex'' [''UINT32 index'', ''ICoreWebView2ProcessInfo **processInfo'']]"
  by (simp only: list.map c_method.simps)

lemma ICoreWebView2ProcessInfoCollection_views: "ICoreWebView2ProcessInfoCollectionVtbl = c_view ICoreWebView2ProcessInfoCollection"
  by (rule views_IUnknown [OF ICoreWebView2ProcessInfoCollection_def ICoreWebView2ProcessInfoCollection_decls])
    (simp only: table_simps ICoreWebView2ProcessInfoCollectionVtbl_def)

definition services_tables :: "(iface \<times> vtable) list" where
  "services_tables =
     [(ICoreWebView2CompositionController, ICoreWebView2CompositionControllerVtbl),
      (ICoreWebView2CompositionController2, ICoreWebView2CompositionController2Vtbl),
      (ICoreWebView2CompositionController3, ICoreWebView2CompositionController3Vtbl),
      (ICoreWebView2Controller, ICoreWebView2ControllerVtbl),
      (ICoreWebView2Controller2, ICoreWebView2Controller2Vtbl),
      (ICoreWebView2Controller3, ICoreWebView2Controller3Vtbl),
      (ICoreWebView2Controller4, ICoreWebView2Controller4Vtbl),
      (ICoreWebView2ControllerOptions, ICoreWebView2ControllerOptionsVtbl),
      (ICoreWebView2ControllerOptions2, ICoreWebView2ControllerOptions2Vtbl),
      (ICoreWebView2CookieManager, ICoreWebView2CookieManagerVtbl),
      (ICoreWebView2DownloadOperation, ICoreWebView2DownloadOperationVtbl),
      (ICoreWebView2Environment, ICoreWebView2EnvironmentVtbl),
      (ICoreWebView2Environment2, ICoreWebView2Environment2Vtbl),
      (ICoreWebView2Environment3, ICoreWebView2Environment3Vtbl),
      (ICoreWebView2Environment4, ICoreWebView2Environment4Vtbl),
      (ICoreWebView2Environment5, ICoreWebView2Environment5Vtbl),
      (ICoreWebView2Environment6, ICoreWebView2Environment6Vtbl),
      (ICoreWebView2Environment7, ICoreWebView2Environment7Vtbl),
      (ICoreWebView2Environment8, ICoreWebView2Environment8Vtbl),
      (ICoreWebView2Environment9, ICoreWebView2Environment9Vtbl),
      (ICoreWebView2Environment10, ICoreWebView2Environment10Vtbl),
      (ICoreWebView2Environment11, ICoreWebView2Environment11Vtbl),
      (ICoreWebView2Environment12, ICoreWebView2Environment12Vtbl),
      (ICoreWebView2Environment13, ICoreWebView2Environment13Vtbl),
      (ICoreWebView2EnvironmentOptions, ICoreWebView2EnvironmentOptionsVtbl),
      (ICoreWebView2EnvironmentOptions2, ICoreWebView2EnvironmentOptions2Vtbl),
      (ICoreWebView2EnvironmentOptions3, ICoreWebView2EnvironmentOptions3Vtbl),
      (ICoreWebView2EnvironmentOptions4, ICoreWebView2EnvironmentOptions4Vtbl),
      (ICoreWebView2EnvironmentOptions5, ICoreWebView2EnvironmentOptions5Vtbl),
      (ICoreWebView2EnvironmentOptions6, ICoreWebView2EnvironmentOptions6Vtbl),
      (ICoreWebView2ProcessExtendedInfo, ICoreWebView2ProcessExtendedInfoVtbl),
      (ICoreWebView2ProcessExtendedInfoCollection, ICoreWebView2ProcessExtendedInfoCollectionVtbl),
      (ICoreWebView2Frame, ICoreWebView2FrameVtbl), (ICoreWebView2Frame2, ICoreWebView2Frame2Vtbl),
      (ICoreWebView2Frame3, ICoreWebView2Frame3Vtbl), (ICoreWebView2Frame4, ICoreWebView2Frame4Vtbl),
      (ICoreWebView2Frame5, ICoreWebView2Frame5Vtbl), (ICoreWebView2FrameInfo, ICoreWebView2FrameInfoVtbl),
      (ICoreWebView2FrameInfo2, ICoreWebView2FrameInfo2Vtbl),
      (ICoreWebView2FrameInfoCollection, ICoreWebView2FrameInfoCollectionVtbl),
      (ICoreWebView2FrameInfoCollectionIterator, ICoreWebView2FrameInfoCollectionIteratorVtbl),
      (ICoreWebView2Profile, ICoreWebView2ProfileVtbl), (ICoreWebView2Profile2, ICoreWebView2Profile2Vtbl),
      (ICoreWebView2Profile3, ICoreWebView2Profile3Vtbl), (ICoreWebView2Profile4, ICoreWebView2Profile4Vtbl),
      (ICoreWebView2Profile5, ICoreWebView2Profile5Vtbl), (ICoreWebView2Profile6, ICoreWebView2Profile6Vtbl),
      (ICoreWebView2Profile7, ICoreWebView2Profile7Vtbl), (ICoreWebView2Profile8, ICoreWebView2Profile8Vtbl),
      (ICoreWebView2Settings, ICoreWebView2SettingsVtbl), (ICoreWebView2Settings2, ICoreWebView2Settings2Vtbl),
      (ICoreWebView2Settings3, ICoreWebView2Settings3Vtbl), (ICoreWebView2Settings4, ICoreWebView2Settings4Vtbl),
      (ICoreWebView2Settings5, ICoreWebView2Settings5Vtbl), (ICoreWebView2Settings6, ICoreWebView2Settings6Vtbl),
      (ICoreWebView2Settings7, ICoreWebView2Settings7Vtbl), (ICoreWebView2Settings8, ICoreWebView2Settings8Vtbl),
      (ICoreWebView2SharedBuffer, ICoreWebView2SharedBufferVtbl),
      (ICoreWebView2ProcessInfo, ICoreWebView2ProcessInfoVtbl),
      (ICoreWebView2ProcessInfoCollection, ICoreWebView2ProcessInfoCollectionVtbl)]"

lemma services_tables_agree: "list_all (\<lambda>(i, v). v = c_view i) services_tables"
  by (simp only: services_tables_def list.pred_inject prod.case simp_thms
    ICoreWebView2CompositionController_views
    ICoreWebView2CompositionController2_views
    ICoreWebView2CompositionController3_views
    ICoreWebView2Controller_views
    ICoreWebView2Controller2_views
    ICoreWebView2Controller3_views
    ICoreWebView2Controller4_views
    ICoreWebView2ControllerOptions_views
    ICoreWebView2ControllerOptions2_views
    ICoreWebView2CookieManager_views
    ICoreWebView2DownloadOperation_views
    ICoreWebView2Environment_views
    ICoreWebView2Environment2_views
    ICoreWebView2Environment3_views
    ICoreWebView2Environment4_views
    ICoreWebView2Environment5_views
    ICoreWebView2Environment6_views
    ICoreWebView2Environment7_views
    ICoreWebView2Environment8_views
    ICoreWebView2Environment9_views
    ICoreWebView2Environment10_views
    ICoreWebView2Environment11_views
    ICoreWebView2Environment12_views
    ICoreWebView2Environment13_views
    ICoreWebView2EnvironmentOptions_views
    ICoreWebView2EnvironmentOptions2_views
    ICoreWebView2EnvironmentOptions3_views
    ICoreWebView2EnvironmentOptions4_views
    ICoreWebView2EnvironmentOptions5_views
    ICoreWebView2EnvironmentOptions6_views
    ICoreWebView2ProcessExtendedInfo_views
    ICoreWebView2ProcessExtendedInfoCollection_views
    ICoreWebView2Frame_views
    ICoreWebView2Frame2_views
    ICoreWebView2Frame3_views
    ICoreWebView2Frame4_views
    ICoreWebView2Frame5_views
    ICoreWebView2FrameInfo_views
    ICoreWebView2FrameInfo2_views
    ICoreWebView2FrameInfoCollection_views
    ICoreWebView2FrameInfoCollectionIterator_views
    ICoreWebView2Profile_views
    ICoreWebView2Profile2_views
    ICoreWebView2Profile3_views
    ICoreWebView2Profile4_views
    ICoreWebView2Profile5_views
    ICoreWebView2Profile6_views
    ICoreWebView2Profile7_views
    ICoreWebView2Profile8_views
    ICoreWebView2Settings_views
    ICoreWebView2Settings2_views
    ICoreWebView2Settings3_views
    ICoreWebView2Settings4_views
    ICoreWebView2Settings5_views
    ICoreWebView2Settings6_views
    ICoreWebView2Settings7_views
    ICoreWebView2Settings8_views
    ICoreWebView2SharedBuffer_views
    ICoreWebView2ProcessInfo_views
    ICoreWebView2ProcessInfoCollection_views)

end
