(* ===== verification/AbiObjects.thy ===== *)
theory AbiObjects
  imports WebView2Abi
begin

text \<open>
  \<^verbatim>\<open>builtin/goc/webview2/WebView2.h\<close>, event arguments and the objects passed with them: each interface as its C++ class (its own methods after its base) and as its C table
  (every member), transcribed separately, and that the table is the layout of the class. The methods and members of an
  interface that others extend are named, since the tables of those repeat them; the others stand where they are declared.
\<close>

section \<open>Methods and classes\<close>

definition ICoreWebView2AcceleratorKeyPressedEventArgs_get_KeyEventKind :: cmethod where
  "ICoreWebView2AcceleratorKeyPressedEventArgs_get_KeyEventKind =
     Method ''HRESULT'' ''get_KeyEventKind'' [''COREWEBVIEW2_KEY_EVENT_KIND *keyEventKind'']"

definition ICoreWebView2AcceleratorKeyPressedEventArgs_get_VirtualKey :: cmethod where
  "ICoreWebView2AcceleratorKeyPressedEventArgs_get_VirtualKey =
     Method ''HRESULT'' ''get_VirtualKey'' [''UINT *virtualKey'']"

definition ICoreWebView2AcceleratorKeyPressedEventArgs_get_KeyEventLParam :: cmethod where
  "ICoreWebView2AcceleratorKeyPressedEventArgs_get_KeyEventLParam =
     Method ''HRESULT'' ''get_KeyEventLParam'' [''INT *lParam'']"

definition ICoreWebView2AcceleratorKeyPressedEventArgs_get_PhysicalKeyStatus :: cmethod where
  "ICoreWebView2AcceleratorKeyPressedEventArgs_get_PhysicalKeyStatus =
     Method ''HRESULT'' ''get_PhysicalKeyStatus'' [''COREWEBVIEW2_PHYSICAL_KEY_STATUS *physicalKeyStatus'']"

definition ICoreWebView2AcceleratorKeyPressedEventArgs_get_Handled :: cmethod where
  "ICoreWebView2AcceleratorKeyPressedEventArgs_get_Handled =
     Method ''HRESULT'' ''get_Handled'' [''BOOL *handled'']"

definition ICoreWebView2AcceleratorKeyPressedEventArgs_put_Handled :: cmethod where
  "ICoreWebView2AcceleratorKeyPressedEventArgs_put_Handled =
     Method ''HRESULT'' ''put_Handled'' [''BOOL handled'']"

definition ICoreWebView2AcceleratorKeyPressedEventArgs :: iface where
  "ICoreWebView2AcceleratorKeyPressedEventArgs = Derived ''ICoreWebView2AcceleratorKeyPressedEventArgs'' IUnknown
     [ICoreWebView2AcceleratorKeyPressedEventArgs_get_KeyEventKind,
      ICoreWebView2AcceleratorKeyPressedEventArgs_get_VirtualKey,
      ICoreWebView2AcceleratorKeyPressedEventArgs_get_KeyEventLParam,
      ICoreWebView2AcceleratorKeyPressedEventArgs_get_PhysicalKeyStatus,
      ICoreWebView2AcceleratorKeyPressedEventArgs_get_Handled,
      ICoreWebView2AcceleratorKeyPressedEventArgs_put_Handled]"

definition ICoreWebView2AcceleratorKeyPressedEventArgs2 :: iface where
  "ICoreWebView2AcceleratorKeyPressedEventArgs2 = Derived ''ICoreWebView2AcceleratorKeyPressedEventArgs2'' ICoreWebView2AcceleratorKeyPressedEventArgs
     [Method ''HRESULT'' ''get_IsBrowserAcceleratorKeyEnabled'' [''BOOL *value''],
      Method ''HRESULT'' ''put_IsBrowserAcceleratorKeyEnabled'' [''BOOL value'']]"

definition ICoreWebView2BasicAuthenticationRequestedEventArgs :: iface where
  "ICoreWebView2BasicAuthenticationRequestedEventArgs = Derived ''ICoreWebView2BasicAuthenticationRequestedEventArgs'' IUnknown
     [Method ''HRESULT'' ''get_Uri'' [''LPWSTR *value''],
      Method ''HRESULT'' ''get_Challenge'' [''LPWSTR *challenge''],
      Method ''HRESULT'' ''get_Response'' [''ICoreWebView2BasicAuthenticationResponse **response''],
      Method ''HRESULT'' ''get_Cancel'' [''BOOL *cancel''],
      Method ''HRESULT'' ''put_Cancel'' [''BOOL cancel''],
      Method ''HRESULT'' ''GetDeferral'' [''ICoreWebView2Deferral **deferral'']]"

definition ICoreWebView2BasicAuthenticationResponse :: iface where
  "ICoreWebView2BasicAuthenticationResponse = Derived ''ICoreWebView2BasicAuthenticationResponse'' IUnknown
     [Method ''HRESULT'' ''get_UserName'' [''LPWSTR *userName''],
      Method ''HRESULT'' ''put_UserName'' [''LPCWSTR userName''],
      Method ''HRESULT'' ''get_Password'' [''LPWSTR *password''],
      Method ''HRESULT'' ''put_Password'' [''LPCWSTR password'']]"

definition ICoreWebView2BrowserProcessExitedEventArgs :: iface where
  "ICoreWebView2BrowserProcessExitedEventArgs = Derived ''ICoreWebView2BrowserProcessExitedEventArgs'' IUnknown
     [Method ''HRESULT'' ''get_BrowserProcessExitKind'' [''COREWEBVIEW2_BROWSER_PROCESS_EXIT_KIND *browserProcessExitKind''],
      Method ''HRESULT'' ''get_BrowserProcessId'' [''UINT32 *value'']]"

definition ICoreWebView2ContentLoadingEventArgs :: iface where
  "ICoreWebView2ContentLoadingEventArgs = Derived ''ICoreWebView2ContentLoadingEventArgs'' IUnknown
     [Method ''HRESULT'' ''get_IsErrorPage'' [''BOOL *isErrorPage''],
      Method ''HRESULT'' ''get_NavigationId'' [''UINT64 *navigationId'']]"

definition ICoreWebView2ContextMenuRequestedEventArgs :: iface where
  "ICoreWebView2ContextMenuRequestedEventArgs = Derived ''ICoreWebView2ContextMenuRequestedEventArgs'' IUnknown
     [Method ''HRESULT'' ''get_MenuItems'' [''ICoreWebView2ContextMenuItemCollection **value''],
      Method ''HRESULT'' ''get_ContextMenuTarget'' [''ICoreWebView2ContextMenuTarget **value''],
      Method ''HRESULT'' ''get_Location'' [''POINT *value''],
      Method ''HRESULT'' ''put_SelectedCommandId'' [''INT32 value''],
      Method ''HRESULT'' ''get_SelectedCommandId'' [''INT32 *value''],
      Method ''HRESULT'' ''put_Handled'' [''BOOL value''],
      Method ''HRESULT'' ''get_Handled'' [''BOOL *value''],
      Method ''HRESULT'' ''GetDeferral'' [''ICoreWebView2Deferral **deferral'']]"

definition ICoreWebView2Cookie :: iface where
  "ICoreWebView2Cookie = Derived ''ICoreWebView2Cookie'' IUnknown
     [Method ''HRESULT'' ''get_Name'' [''LPWSTR *name''],
      Method ''HRESULT'' ''get_Value'' [''LPWSTR *value''],
      Method ''HRESULT'' ''put_Value'' [''LPCWSTR value''],
      Method ''HRESULT'' ''get_Domain'' [''LPWSTR *domain''],
      Method ''HRESULT'' ''get_Path'' [''LPWSTR *path''],
      Method ''HRESULT'' ''get_Expires'' [''double *expires''],
      Method ''HRESULT'' ''put_Expires'' [''double expires''],
      Method ''HRESULT'' ''get_IsHttpOnly'' [''BOOL *isHttpOnly''],
      Method ''HRESULT'' ''put_IsHttpOnly'' [''BOOL isHttpOnly''],
      Method ''HRESULT'' ''get_SameSite'' [''COREWEBVIEW2_COOKIE_SAME_SITE_KIND *sameSite''],
      Method ''HRESULT'' ''put_SameSite'' [''COREWEBVIEW2_COOKIE_SAME_SITE_KIND sameSite''],
      Method ''HRESULT'' ''get_IsSecure'' [''BOOL *isSecure''],
      Method ''HRESULT'' ''put_IsSecure'' [''BOOL isSecure''],
      Method ''HRESULT'' ''get_IsSession'' [''BOOL *isSession'']]"

definition ICoreWebView2CookieList :: iface where
  "ICoreWebView2CookieList = Derived ''ICoreWebView2CookieList'' IUnknown
     [Method ''HRESULT'' ''get_Count'' [''UINT *count''],
      Method ''HRESULT'' ''GetValueAtIndex'' [''UINT index'', ''ICoreWebView2Cookie **cookie'']]"

definition ICoreWebView2Certificate :: iface where
  "ICoreWebView2Certificate = Derived ''ICoreWebView2Certificate'' IUnknown
     [Method ''HRESULT'' ''get_Subject'' [''LPWSTR *value''],
      Method ''HRESULT'' ''get_Issuer'' [''LPWSTR *value''],
      Method ''HRESULT'' ''get_ValidFrom'' [''double *value''],
      Method ''HRESULT'' ''get_ValidTo'' [''double *value''],
      Method ''HRESULT'' ''get_DerEncodedSerialNumber'' [''LPWSTR *value''],
      Method ''HRESULT'' ''get_DisplayName'' [''LPWSTR *value''],
      Method ''HRESULT'' ''ToPemEncoding'' [''LPWSTR *pemEncodedData''],
      Method ''HRESULT'' ''get_PemEncodedIssuerCertificateChain'' [''ICoreWebView2StringCollection **value'']]"

definition ICoreWebView2ClientCertificate :: iface where
  "ICoreWebView2ClientCertificate = Derived ''ICoreWebView2ClientCertificate'' IUnknown
     [Method ''HRESULT'' ''get_Subject'' [''LPWSTR *value''],
      Method ''HRESULT'' ''get_Issuer'' [''LPWSTR *value''],
      Method ''HRESULT'' ''get_ValidFrom'' [''double *value''],
      Method ''HRESULT'' ''get_ValidTo'' [''double *value''],
      Method ''HRESULT'' ''get_DerEncodedSerialNumber'' [''LPWSTR *value''],
      Method ''HRESULT'' ''get_DisplayName'' [''LPWSTR *value''],
      Method ''HRESULT'' ''ToPemEncoding'' [''LPWSTR *pemEncodedData''],
      Method ''HRESULT'' ''get_PemEncodedIssuerCertificateChain'' [''ICoreWebView2StringCollection **value''],
      Method ''HRESULT'' ''get_Kind'' [''COREWEBVIEW2_CLIENT_CERTIFICATE_KIND *value'']]"

definition ICoreWebView2StringCollection :: iface where
  "ICoreWebView2StringCollection = Derived ''ICoreWebView2StringCollection'' IUnknown
     [Method ''HRESULT'' ''get_Count'' [''UINT *value''],
      Method ''HRESULT'' ''GetValueAtIndex'' [''UINT index'', ''LPWSTR *value'']]"

definition ICoreWebView2ClientCertificateCollection :: iface where
  "ICoreWebView2ClientCertificateCollection = Derived ''ICoreWebView2ClientCertificateCollection'' IUnknown
     [Method ''HRESULT'' ''get_Count'' [''UINT *value''],
      Method ''HRESULT'' ''GetValueAtIndex'' [''UINT index'', ''ICoreWebView2ClientCertificate **certificate'']]"

definition ICoreWebView2ClientCertificateRequestedEventArgs :: iface where
  "ICoreWebView2ClientCertificateRequestedEventArgs = Derived ''ICoreWebView2ClientCertificateRequestedEventArgs'' IUnknown
     [Method ''HRESULT'' ''get_Host'' [''LPWSTR *value''],
      Method ''HRESULT'' ''get_Port'' [''int *value''],
      Method ''HRESULT'' ''get_IsProxy'' [''BOOL *value''],
      Method ''HRESULT'' ''get_AllowedCertificateAuthorities'' [''ICoreWebView2StringCollection **value''],
      Method ''HRESULT'' ''get_MutuallyTrustedCertificates'' [''ICoreWebView2ClientCertificateCollection **value''],
      Method ''HRESULT'' ''get_SelectedCertificate'' [''ICoreWebView2ClientCertificate **value''],
      Method ''HRESULT'' ''put_SelectedCertificate'' [''ICoreWebView2ClientCertificate *value''],
      Method ''HRESULT'' ''get_Cancel'' [''BOOL *value''],
      Method ''HRESULT'' ''put_Cancel'' [''BOOL value''],
      Method ''HRESULT'' ''get_Handled'' [''BOOL *value''],
      Method ''HRESULT'' ''put_Handled'' [''BOOL value''],
      Method ''HRESULT'' ''GetDeferral'' [''ICoreWebView2Deferral **deferral'']]"

definition ICoreWebView2ContextMenuItem :: iface where
  "ICoreWebView2ContextMenuItem = Derived ''ICoreWebView2ContextMenuItem'' IUnknown
     [Method ''HRESULT'' ''get_Name'' [''LPWSTR *value''],
      Method ''HRESULT'' ''get_Label'' [''LPWSTR *value''],
      Method ''HRESULT'' ''get_CommandId'' [''INT32 *value''],
      Method ''HRESULT'' ''get_ShortcutKeyDescription'' [''LPWSTR *value''],
      Method ''HRESULT'' ''get_Icon'' [''IStream **value''],
      Method ''HRESULT'' ''get_Kind'' [''COREWEBVIEW2_CONTEXT_MENU_ITEM_KIND *value''],
      Method ''HRESULT'' ''put_IsEnabled'' [''BOOL value''],
      Method ''HRESULT'' ''get_IsEnabled'' [''BOOL *value''],
      Method ''HRESULT'' ''put_IsChecked'' [''BOOL value''],
      Method ''HRESULT'' ''get_IsChecked'' [''BOOL *value''],
      Method ''HRESULT'' ''get_Children'' [''ICoreWebView2ContextMenuItemCollection **value''],
      Method ''HRESULT'' ''add_CustomItemSelected'' [''ICoreWebView2CustomItemSelectedEventHandler *eventHandler'', ''EventRegistrationToken *token''],
      Method ''HRESULT'' ''remove_CustomItemSelected'' [''EventRegistrationToken token'']]"

definition ICoreWebView2ContextMenuItemCollection :: iface where
  "ICoreWebView2ContextMenuItemCollection = Derived ''ICoreWebView2ContextMenuItemCollection'' IUnknown
     [Method ''HRESULT'' ''get_Count'' [''UINT32 *value''],
      Method ''HRESULT'' ''GetValueAtIndex'' [''UINT32 index'', ''ICoreWebView2ContextMenuItem **value''],
      Method ''HRESULT'' ''RemoveValueAtIndex'' [''UINT32 index''],
      Method ''HRESULT'' ''InsertValueAtIndex'' [''UINT32 index'', ''ICoreWebView2ContextMenuItem *value'']]"

definition ICoreWebView2ContextMenuTarget :: iface where
  "ICoreWebView2ContextMenuTarget = Derived ''ICoreWebView2ContextMenuTarget'' IUnknown
     [Method ''HRESULT'' ''get_Kind'' [''COREWEBVIEW2_CONTEXT_MENU_TARGET_KIND *value''],
      Method ''HRESULT'' ''get_IsEditable'' [''BOOL *value''],
      Method ''HRESULT'' ''get_IsRequestedForMainFrame'' [''BOOL *value''],
      Method ''HRESULT'' ''get_PageUri'' [''LPWSTR *value''],
      Method ''HRESULT'' ''get_FrameUri'' [''LPWSTR *value''],
      Method ''HRESULT'' ''get_HasLinkUri'' [''BOOL *value''],
      Method ''HRESULT'' ''get_LinkUri'' [''LPWSTR *value''],
      Method ''HRESULT'' ''get_HasLinkText'' [''BOOL *value''],
      Method ''HRESULT'' ''get_LinkText'' [''LPWSTR *value''],
      Method ''HRESULT'' ''get_HasSourceUri'' [''BOOL *value''],
      Method ''HRESULT'' ''get_SourceUri'' [''LPWSTR *value''],
      Method ''HRESULT'' ''get_HasSelection'' [''BOOL *value''],
      Method ''HRESULT'' ''get_SelectionText'' [''LPWSTR *value'']]"

definition ICoreWebView2CustomSchemeRegistration :: iface where
  "ICoreWebView2CustomSchemeRegistration = Derived ''ICoreWebView2CustomSchemeRegistration'' IUnknown
     [Method ''HRESULT'' ''get_SchemeName'' [''LPWSTR *schemeName''],
      Method ''HRESULT'' ''get_TreatAsSecure'' [''BOOL *treatAsSecure''],
      Method ''HRESULT'' ''put_TreatAsSecure'' [''BOOL value''],
      Method ''HRESULT'' ''GetAllowedOrigins'' [''UINT32 *allowedOriginsCount'', ''LPWSTR **allowedOrigins''],
      Method ''HRESULT'' ''SetAllowedOrigins'' [''UINT32 allowedOriginsCount'', ''LPCWSTR *allowedOrigins''],
      Method ''HRESULT'' ''get_HasAuthorityComponent'' [''BOOL *hasAuthorityComponent''],
      Method ''HRESULT'' ''put_HasAuthorityComponent'' [''BOOL hasAuthorityComponent'']]"

definition ICoreWebView2DOMContentLoadedEventArgs :: iface where
  "ICoreWebView2DOMContentLoadedEventArgs = Derived ''ICoreWebView2DOMContentLoadedEventArgs'' IUnknown
     [Method ''HRESULT'' ''get_NavigationId'' [''UINT64 *navigationId'']]"

definition ICoreWebView2Deferral :: iface where
  "ICoreWebView2Deferral = Derived ''ICoreWebView2Deferral'' IUnknown
     [Method ''HRESULT'' ''Complete'' []]"

definition ICoreWebView2DevToolsProtocolEventReceivedEventArgs_get_ParameterObjectAsJson :: cmethod where
  "ICoreWebView2DevToolsProtocolEventReceivedEventArgs_get_ParameterObjectAsJson =
     Method ''HRESULT'' ''get_ParameterObjectAsJson'' [''LPWSTR *parameterObjectAsJson'']"

definition ICoreWebView2DevToolsProtocolEventReceivedEventArgs :: iface where
  "ICoreWebView2DevToolsProtocolEventReceivedEventArgs = Derived ''ICoreWebView2DevToolsProtocolEventReceivedEventArgs'' IUnknown
     [ICoreWebView2DevToolsProtocolEventReceivedEventArgs_get_ParameterObjectAsJson]"

definition ICoreWebView2DevToolsProtocolEventReceivedEventArgs2 :: iface where
  "ICoreWebView2DevToolsProtocolEventReceivedEventArgs2 = Derived ''ICoreWebView2DevToolsProtocolEventReceivedEventArgs2'' ICoreWebView2DevToolsProtocolEventReceivedEventArgs
     [Method ''HRESULT'' ''get_SessionId'' [''LPWSTR *sessionId'']]"

definition ICoreWebView2DevToolsProtocolEventReceiver :: iface where
  "ICoreWebView2DevToolsProtocolEventReceiver = Derived ''ICoreWebView2DevToolsProtocolEventReceiver'' IUnknown
     [Method ''HRESULT'' ''add_DevToolsProtocolEventReceived'' [''ICoreWebView2DevToolsProtocolEventReceivedEventHandler *handler'', ''EventRegistrationToken *token''],
      Method ''HRESULT'' ''remove_DevToolsProtocolEventReceived'' [''EventRegistrationToken token'']]"

definition ICoreWebView2DownloadStartingEventArgs :: iface where
  "ICoreWebView2DownloadStartingEventArgs = Derived ''ICoreWebView2DownloadStartingEventArgs'' IUnknown
     [Method ''HRESULT'' ''get_DownloadOperation'' [''ICoreWebView2DownloadOperation **downloadOperation''],
      Method ''HRESULT'' ''get_Cancel'' [''BOOL *cancel''],
      Method ''HRESULT'' ''put_Cancel'' [''BOOL cancel''],
      Method ''HRESULT'' ''get_ResultFilePath'' [''LPWSTR *resultFilePath''],
      Method ''HRESULT'' ''put_ResultFilePath'' [''LPCWSTR resultFilePath''],
      Method ''HRESULT'' ''get_Handled'' [''BOOL *handled''],
      Method ''HRESULT'' ''put_Handled'' [''BOOL handled''],
      Method ''HRESULT'' ''GetDeferral'' [''ICoreWebView2Deferral **deferral'']]"

definition ICoreWebView2FrameCreatedEventArgs :: iface where
  "ICoreWebView2FrameCreatedEventArgs = Derived ''ICoreWebView2FrameCreatedEventArgs'' IUnknown
     [Method ''HRESULT'' ''get_Frame'' [''ICoreWebView2Frame **frame'']]"

definition ICoreWebView2HttpHeadersCollectionIterator :: iface where
  "ICoreWebView2HttpHeadersCollectionIterator = Derived ''ICoreWebView2HttpHeadersCollectionIterator'' IUnknown
     [Method ''HRESULT'' ''GetCurrentHeader'' [''LPWSTR *name'', ''LPWSTR *value''],
      Method ''HRESULT'' ''get_HasCurrentHeader'' [''BOOL *hasCurrent''],
      Method ''HRESULT'' ''MoveNext'' [''BOOL *hasNext'']]"

definition ICoreWebView2HttpRequestHeaders :: iface where
  "ICoreWebView2HttpRequestHeaders = Derived ''ICoreWebView2HttpRequestHeaders'' IUnknown
     [Method ''HRESULT'' ''GetHeader'' [''LPCWSTR name'', ''LPWSTR *value''],
      Method ''HRESULT'' ''GetHeaders'' [''LPCWSTR name'', ''ICoreWebView2HttpHeadersCollectionIterator **iterator''],
      Method ''HRESULT'' ''Contains'' [''LPCWSTR name'', ''BOOL *contains''],
      Method ''HRESULT'' ''SetHeader'' [''LPCWSTR name'', ''LPCWSTR value''],
      Method ''HRESULT'' ''RemoveHeader'' [''LPCWSTR name''],
      Method ''HRESULT'' ''GetIterator'' [''ICoreWebView2HttpHeadersCollectionIterator **iterator'']]"

definition ICoreWebView2HttpResponseHeaders :: iface where
  "ICoreWebView2HttpResponseHeaders = Derived ''ICoreWebView2HttpResponseHeaders'' IUnknown
     [Method ''HRESULT'' ''AppendHeader'' [''LPCWSTR name'', ''LPCWSTR value''],
      Method ''HRESULT'' ''Contains'' [''LPCWSTR name'', ''BOOL *contains''],
      Method ''HRESULT'' ''GetHeader'' [''LPCWSTR name'', ''LPWSTR *value''],
      Method ''HRESULT'' ''GetHeaders'' [''LPCWSTR name'', ''ICoreWebView2HttpHeadersCollectionIterator **iterator''],
      Method ''HRESULT'' ''GetIterator'' [''ICoreWebView2HttpHeadersCollectionIterator **iterator'']]"

definition ICoreWebView2LaunchingExternalUriSchemeEventArgs :: iface where
  "ICoreWebView2LaunchingExternalUriSchemeEventArgs = Derived ''ICoreWebView2LaunchingExternalUriSchemeEventArgs'' IUnknown
     [Method ''HRESULT'' ''get_Uri'' [''LPWSTR *value''],
      Method ''HRESULT'' ''get_InitiatingOrigin'' [''LPWSTR *value''],
      Method ''HRESULT'' ''get_IsUserInitiated'' [''BOOL *value''],
      Method ''HRESULT'' ''get_Cancel'' [''BOOL *value''],
      Method ''HRESULT'' ''put_Cancel'' [''BOOL value''],
      Method ''HRESULT'' ''GetDeferral'' [''ICoreWebView2Deferral **value'']]"

definition ICoreWebView2MoveFocusRequestedEventArgs :: iface where
  "ICoreWebView2MoveFocusRequestedEventArgs = Derived ''ICoreWebView2MoveFocusRequestedEventArgs'' IUnknown
     [Method ''HRESULT'' ''get_Reason'' [''COREWEBVIEW2_MOVE_FOCUS_REASON *reason''],
      Method ''HRESULT'' ''get_Handled'' [''BOOL *value''],
      Method ''HRESULT'' ''put_Handled'' [''BOOL value'']]"

definition ICoreWebView2NavigationCompletedEventArgs_get_IsSuccess :: cmethod where
  "ICoreWebView2NavigationCompletedEventArgs_get_IsSuccess =
     Method ''HRESULT'' ''get_IsSuccess'' [''BOOL *isSuccess'']"

definition ICoreWebView2NavigationCompletedEventArgs_get_WebErrorStatus :: cmethod where
  "ICoreWebView2NavigationCompletedEventArgs_get_WebErrorStatus =
     Method ''HRESULT'' ''get_WebErrorStatus'' [''COREWEBVIEW2_WEB_ERROR_STATUS *webErrorStatus'']"

definition ICoreWebView2NavigationCompletedEventArgs_get_NavigationId :: cmethod where
  "ICoreWebView2NavigationCompletedEventArgs_get_NavigationId =
     Method ''HRESULT'' ''get_NavigationId'' [''UINT64 *navigationId'']"

definition ICoreWebView2NavigationCompletedEventArgs :: iface where
  "ICoreWebView2NavigationCompletedEventArgs = Derived ''ICoreWebView2NavigationCompletedEventArgs'' IUnknown
     [ICoreWebView2NavigationCompletedEventArgs_get_IsSuccess,
      ICoreWebView2NavigationCompletedEventArgs_get_WebErrorStatus,
      ICoreWebView2NavigationCompletedEventArgs_get_NavigationId]"

definition ICoreWebView2NavigationCompletedEventArgs2 :: iface where
  "ICoreWebView2NavigationCompletedEventArgs2 = Derived ''ICoreWebView2NavigationCompletedEventArgs2'' ICoreWebView2NavigationCompletedEventArgs
     [Method ''HRESULT'' ''get_HttpStatusCode'' [''int *http_status_code'']]"

definition ICoreWebView2NavigationStartingEventArgs_get_Uri :: cmethod where
  "ICoreWebView2NavigationStartingEventArgs_get_Uri =
     Method ''HRESULT'' ''get_Uri'' [''LPWSTR *uri'']"

definition ICoreWebView2NavigationStartingEventArgs_get_IsUserInitiated :: cmethod where
  "ICoreWebView2NavigationStartingEventArgs_get_IsUserInitiated =
     Method ''HRESULT'' ''get_IsUserInitiated'' [''BOOL *isUserInitiated'']"

definition ICoreWebView2NavigationStartingEventArgs_get_IsRedirected :: cmethod where
  "ICoreWebView2NavigationStartingEventArgs_get_IsRedirected =
     Method ''HRESULT'' ''get_IsRedirected'' [''BOOL *isRedirected'']"

definition ICoreWebView2NavigationStartingEventArgs_get_RequestHeaders :: cmethod where
  "ICoreWebView2NavigationStartingEventArgs_get_RequestHeaders =
     Method ''HRESULT'' ''get_RequestHeaders'' [''ICoreWebView2HttpRequestHeaders **requestHeaders'']"

definition ICoreWebView2NavigationStartingEventArgs_get_Cancel :: cmethod where
  "ICoreWebView2NavigationStartingEventArgs_get_Cancel =
     Method ''HRESULT'' ''get_Cancel'' [''BOOL *cancel'']"

definition ICoreWebView2NavigationStartingEventArgs_put_Cancel :: cmethod where
  "ICoreWebView2NavigationStartingEventArgs_put_Cancel =
     Method ''HRESULT'' ''put_Cancel'' [''BOOL cancel'']"

definition ICoreWebView2NavigationStartingEventArgs_get_NavigationId :: cmethod where
  "ICoreWebView2NavigationStartingEventArgs_get_NavigationId =
     Method ''HRESULT'' ''get_NavigationId'' [''UINT64 *navigationId'']"

definition ICoreWebView2NavigationStartingEventArgs :: iface where
  "ICoreWebView2NavigationStartingEventArgs = Derived ''ICoreWebView2NavigationStartingEventArgs'' IUnknown
     [ICoreWebView2NavigationStartingEventArgs_get_Uri, ICoreWebView2NavigationStartingEventArgs_get_IsUserInitiated,
      ICoreWebView2NavigationStartingEventArgs_get_IsRedirected,
      ICoreWebView2NavigationStartingEventArgs_get_RequestHeaders,
      ICoreWebView2NavigationStartingEventArgs_get_Cancel, ICoreWebView2NavigationStartingEventArgs_put_Cancel,
      ICoreWebView2NavigationStartingEventArgs_get_NavigationId]"

definition ICoreWebView2NavigationStartingEventArgs2_get_AdditionalAllowedFrameAncestors :: cmethod where
  "ICoreWebView2NavigationStartingEventArgs2_get_AdditionalAllowedFrameAncestors =
     Method ''HRESULT'' ''get_AdditionalAllowedFrameAncestors'' [''LPWSTR *value'']"

definition ICoreWebView2NavigationStartingEventArgs2_put_AdditionalAllowedFrameAncestors :: cmethod where
  "ICoreWebView2NavigationStartingEventArgs2_put_AdditionalAllowedFrameAncestors =
     Method ''HRESULT'' ''put_AdditionalAllowedFrameAncestors'' [''LPCWSTR value'']"

definition ICoreWebView2NavigationStartingEventArgs2 :: iface where
  "ICoreWebView2NavigationStartingEventArgs2 = Derived ''ICoreWebView2NavigationStartingEventArgs2'' ICoreWebView2NavigationStartingEventArgs
     [ICoreWebView2NavigationStartingEventArgs2_get_AdditionalAllowedFrameAncestors,
      ICoreWebView2NavigationStartingEventArgs2_put_AdditionalAllowedFrameAncestors]"

definition ICoreWebView2NavigationStartingEventArgs3 :: iface where
  "ICoreWebView2NavigationStartingEventArgs3 = Derived ''ICoreWebView2NavigationStartingEventArgs3'' ICoreWebView2NavigationStartingEventArgs2
     [Method ''HRESULT'' ''get_NavigationKind'' [''COREWEBVIEW2_NAVIGATION_KIND *navigation_kind'']]"

definition ICoreWebView2NewWindowRequestedEventArgs_get_Uri :: cmethod where
  "ICoreWebView2NewWindowRequestedEventArgs_get_Uri =
     Method ''HRESULT'' ''get_Uri'' [''LPWSTR *uri'']"

definition ICoreWebView2NewWindowRequestedEventArgs_put_NewWindow :: cmethod where
  "ICoreWebView2NewWindowRequestedEventArgs_put_NewWindow =
     Method ''HRESULT'' ''put_NewWindow'' [''ICoreWebView2 *newWindow'']"

definition ICoreWebView2NewWindowRequestedEventArgs_get_NewWindow :: cmethod where
  "ICoreWebView2NewWindowRequestedEventArgs_get_NewWindow =
     Method ''HRESULT'' ''get_NewWindow'' [''ICoreWebView2 **newWindow'']"

definition ICoreWebView2NewWindowRequestedEventArgs_put_Handled :: cmethod where
  "ICoreWebView2NewWindowRequestedEventArgs_put_Handled =
     Method ''HRESULT'' ''put_Handled'' [''BOOL handled'']"

definition ICoreWebView2NewWindowRequestedEventArgs_get_Handled :: cmethod where
  "ICoreWebView2NewWindowRequestedEventArgs_get_Handled =
     Method ''HRESULT'' ''get_Handled'' [''BOOL *handled'']"

definition ICoreWebView2NewWindowRequestedEventArgs_get_IsUserInitiated :: cmethod where
  "ICoreWebView2NewWindowRequestedEventArgs_get_IsUserInitiated =
     Method ''HRESULT'' ''get_IsUserInitiated'' [''BOOL *isUserInitiated'']"

definition ICoreWebView2NewWindowRequestedEventArgs_GetDeferral :: cmethod where
  "ICoreWebView2NewWindowRequestedEventArgs_GetDeferral =
     Method ''HRESULT'' ''GetDeferral'' [''ICoreWebView2Deferral **deferral'']"

definition ICoreWebView2NewWindowRequestedEventArgs_get_WindowFeatures :: cmethod where
  "ICoreWebView2NewWindowRequestedEventArgs_get_WindowFeatures =
     Method ''HRESULT'' ''get_WindowFeatures'' [''ICoreWebView2WindowFeatures **value'']"

definition ICoreWebView2NewWindowRequestedEventArgs :: iface where
  "ICoreWebView2NewWindowRequestedEventArgs = Derived ''ICoreWebView2NewWindowRequestedEventArgs'' IUnknown
     [ICoreWebView2NewWindowRequestedEventArgs_get_Uri, ICoreWebView2NewWindowRequestedEventArgs_put_NewWindow,
      ICoreWebView2NewWindowRequestedEventArgs_get_NewWindow, ICoreWebView2NewWindowRequestedEventArgs_put_Handled,
      ICoreWebView2NewWindowRequestedEventArgs_get_Handled,
      ICoreWebView2NewWindowRequestedEventArgs_get_IsUserInitiated,
      ICoreWebView2NewWindowRequestedEventArgs_GetDeferral,
      ICoreWebView2NewWindowRequestedEventArgs_get_WindowFeatures]"

definition ICoreWebView2NewWindowRequestedEventArgs2_get_Name :: cmethod where
  "ICoreWebView2NewWindowRequestedEventArgs2_get_Name =
     Method ''HRESULT'' ''get_Name'' [''LPWSTR *value'']"

definition ICoreWebView2NewWindowRequestedEventArgs2 :: iface where
  "ICoreWebView2NewWindowRequestedEventArgs2 = Derived ''ICoreWebView2NewWindowRequestedEventArgs2'' ICoreWebView2NewWindowRequestedEventArgs
     [ICoreWebView2NewWindowRequestedEventArgs2_get_Name]"

definition ICoreWebView2NewWindowRequestedEventArgs3 :: iface where
  "ICoreWebView2NewWindowRequestedEventArgs3 = Derived ''ICoreWebView2NewWindowRequestedEventArgs3'' ICoreWebView2NewWindowRequestedEventArgs2
     [Method ''HRESULT'' ''get_OriginalSourceFrameInfo'' [''ICoreWebView2FrameInfo **frameInfo'']]"

definition ICoreWebView2PermissionRequestedEventArgs_get_Uri :: cmethod where
  "ICoreWebView2PermissionRequestedEventArgs_get_Uri =
     Method ''HRESULT'' ''get_Uri'' [''LPWSTR *uri'']"

definition ICoreWebView2PermissionRequestedEventArgs_get_PermissionKind :: cmethod where
  "ICoreWebView2PermissionRequestedEventArgs_get_PermissionKind =
     Method ''HRESULT'' ''get_PermissionKind'' [''COREWEBVIEW2_PERMISSION_KIND *permissionKind'']"

definition ICoreWebView2PermissionRequestedEventArgs_get_IsUserInitiated :: cmethod where
  "ICoreWebView2PermissionRequestedEventArgs_get_IsUserInitiated =
     Method ''HRESULT'' ''get_IsUserInitiated'' [''BOOL *isUserInitiated'']"

definition ICoreWebView2PermissionRequestedEventArgs_get_State :: cmethod where
  "ICoreWebView2PermissionRequestedEventArgs_get_State =
     Method ''HRESULT'' ''get_State'' [''COREWEBVIEW2_PERMISSION_STATE *state'']"

definition ICoreWebView2PermissionRequestedEventArgs_put_State :: cmethod where
  "ICoreWebView2PermissionRequestedEventArgs_put_State =
     Method ''HRESULT'' ''put_State'' [''COREWEBVIEW2_PERMISSION_STATE state'']"

definition ICoreWebView2PermissionRequestedEventArgs_GetDeferral :: cmethod where
  "ICoreWebView2PermissionRequestedEventArgs_GetDeferral =
     Method ''HRESULT'' ''GetDeferral'' [''ICoreWebView2Deferral **deferral'']"

definition ICoreWebView2PermissionRequestedEventArgs :: iface where
  "ICoreWebView2PermissionRequestedEventArgs = Derived ''ICoreWebView2PermissionRequestedEventArgs'' IUnknown
     [ICoreWebView2PermissionRequestedEventArgs_get_Uri,
      ICoreWebView2PermissionRequestedEventArgs_get_PermissionKind,
      ICoreWebView2PermissionRequestedEventArgs_get_IsUserInitiated,
      ICoreWebView2PermissionRequestedEventArgs_get_State, ICoreWebView2PermissionRequestedEventArgs_put_State,
      ICoreWebView2PermissionRequestedEventArgs_GetDeferral]"

definition ICoreWebView2PermissionRequestedEventArgs2_get_Handled :: cmethod where
  "ICoreWebView2PermissionRequestedEventArgs2_get_Handled =
     Method ''HRESULT'' ''get_Handled'' [''BOOL *handled'']"

definition ICoreWebView2PermissionRequestedEventArgs2_put_Handled :: cmethod where
  "ICoreWebView2PermissionRequestedEventArgs2_put_Handled =
     Method ''HRESULT'' ''put_Handled'' [''BOOL handled'']"

definition ICoreWebView2PermissionRequestedEventArgs2 :: iface where
  "ICoreWebView2PermissionRequestedEventArgs2 = Derived ''ICoreWebView2PermissionRequestedEventArgs2'' ICoreWebView2PermissionRequestedEventArgs
     [ICoreWebView2PermissionRequestedEventArgs2_get_Handled, ICoreWebView2PermissionRequestedEventArgs2_put_Handled]"

definition ICoreWebView2PermissionRequestedEventArgs3 :: iface where
  "ICoreWebView2PermissionRequestedEventArgs3 = Derived ''ICoreWebView2PermissionRequestedEventArgs3'' ICoreWebView2PermissionRequestedEventArgs2
     [Method ''HRESULT'' ''get_SavesInProfile'' [''BOOL *value''],
      Method ''HRESULT'' ''put_SavesInProfile'' [''BOOL value'']]"

definition ICoreWebView2PermissionSettingCollectionView :: iface where
  "ICoreWebView2PermissionSettingCollectionView = Derived ''ICoreWebView2PermissionSettingCollectionView'' IUnknown
     [Method ''HRESULT'' ''GetValueAtIndex'' [''UINT32 index'', ''ICoreWebView2PermissionSetting **permissionSetting''],
      Method ''HRESULT'' ''get_Count'' [''UINT32 *value'']]"

definition ICoreWebView2PermissionSetting :: iface where
  "ICoreWebView2PermissionSetting = Derived ''ICoreWebView2PermissionSetting'' IUnknown
     [Method ''HRESULT'' ''get_PermissionKind'' [''COREWEBVIEW2_PERMISSION_KIND *value''],
      Method ''HRESULT'' ''get_PermissionOrigin'' [''LPWSTR *value''],
      Method ''HRESULT'' ''get_PermissionState'' [''COREWEBVIEW2_PERMISSION_STATE *value'']]"

definition ICoreWebView2PointerInfo_get_PointerKind :: cmethod where
  "ICoreWebView2PointerInfo_get_PointerKind =
     Method ''HRESULT'' ''get_PointerKind'' [''DWORD *pointerKind'']"

definition ICoreWebView2PointerInfo_put_PointerKind :: cmethod where
  "ICoreWebView2PointerInfo_put_PointerKind =
     Method ''HRESULT'' ''put_PointerKind'' [''DWORD pointerKind'']"

definition ICoreWebView2PointerInfo_get_PointerId :: cmethod where
  "ICoreWebView2PointerInfo_get_PointerId =
     Method ''HRESULT'' ''get_PointerId'' [''UINT32 *pointerId'']"

definition ICoreWebView2PointerInfo_put_PointerId :: cmethod where
  "ICoreWebView2PointerInfo_put_PointerId =
     Method ''HRESULT'' ''put_PointerId'' [''UINT32 pointerId'']"

definition ICoreWebView2PointerInfo_get_FrameId :: cmethod where
  "ICoreWebView2PointerInfo_get_FrameId =
     Method ''HRESULT'' ''get_FrameId'' [''UINT32 *frameId'']"

definition ICoreWebView2PointerInfo_put_FrameId :: cmethod where
  "ICoreWebView2PointerInfo_put_FrameId =
     Method ''HRESULT'' ''put_FrameId'' [''UINT32 frameId'']"

definition ICoreWebView2PointerInfo_get_PointerFlags :: cmethod where
  "ICoreWebView2PointerInfo_get_PointerFlags =
     Method ''HRESULT'' ''get_PointerFlags'' [''UINT32 *pointerFlags'']"

definition ICoreWebView2PointerInfo_put_PointerFlags :: cmethod where
  "ICoreWebView2PointerInfo_put_PointerFlags =
     Method ''HRESULT'' ''put_PointerFlags'' [''UINT32 pointerFlags'']"

definition ICoreWebView2PointerInfo_get_PointerDeviceRect :: cmethod where
  "ICoreWebView2PointerInfo_get_PointerDeviceRect =
     Method ''HRESULT'' ''get_PointerDeviceRect'' [''RECT *pointerDeviceRect'']"

definition ICoreWebView2PointerInfo_put_PointerDeviceRect :: cmethod where
  "ICoreWebView2PointerInfo_put_PointerDeviceRect =
     Method ''HRESULT'' ''put_PointerDeviceRect'' [''RECT pointerDeviceRect'']"

definition ICoreWebView2PointerInfo_get_DisplayRect :: cmethod where
  "ICoreWebView2PointerInfo_get_DisplayRect =
     Method ''HRESULT'' ''get_DisplayRect'' [''RECT *displayRect'']"

definition ICoreWebView2PointerInfo_put_DisplayRect :: cmethod where
  "ICoreWebView2PointerInfo_put_DisplayRect =
     Method ''HRESULT'' ''put_DisplayRect'' [''RECT displayRect'']"

definition ICoreWebView2PointerInfo_get_PixelLocation :: cmethod where
  "ICoreWebView2PointerInfo_get_PixelLocation =
     Method ''HRESULT'' ''get_PixelLocation'' [''POINT *pixelLocation'']"

definition ICoreWebView2PointerInfo_put_PixelLocation :: cmethod where
  "ICoreWebView2PointerInfo_put_PixelLocation =
     Method ''HRESULT'' ''put_PixelLocation'' [''POINT pixelLocation'']"

definition ICoreWebView2PointerInfo_get_HimetricLocation :: cmethod where
  "ICoreWebView2PointerInfo_get_HimetricLocation =
     Method ''HRESULT'' ''get_HimetricLocation'' [''POINT *himetricLocation'']"

definition ICoreWebView2PointerInfo_put_HimetricLocation :: cmethod where
  "ICoreWebView2PointerInfo_put_HimetricLocation =
     Method ''HRESULT'' ''put_HimetricLocation'' [''POINT himetricLocation'']"

definition ICoreWebView2PointerInfo_get_PixelLocationRaw :: cmethod where
  "ICoreWebView2PointerInfo_get_PixelLocationRaw =
     Method ''HRESULT'' ''get_PixelLocationRaw'' [''POINT *pixelLocationRaw'']"

definition ICoreWebView2PointerInfo_put_PixelLocationRaw :: cmethod where
  "ICoreWebView2PointerInfo_put_PixelLocationRaw =
     Method ''HRESULT'' ''put_PixelLocationRaw'' [''POINT pixelLocationRaw'']"

definition ICoreWebView2PointerInfo_get_HimetricLocationRaw :: cmethod where
  "ICoreWebView2PointerInfo_get_HimetricLocationRaw =
     Method ''HRESULT'' ''get_HimetricLocationRaw'' [''POINT *himetricLocationRaw'']"

definition ICoreWebView2PointerInfo_put_HimetricLocationRaw :: cmethod where
  "ICoreWebView2PointerInfo_put_HimetricLocationRaw =
     Method ''HRESULT'' ''put_HimetricLocationRaw'' [''POINT himetricLocationRaw'']"

definition ICoreWebView2PointerInfo_get_Time :: cmethod where
  "ICoreWebView2PointerInfo_get_Time =
     Method ''HRESULT'' ''get_Time'' [''DWORD *time'']"

definition ICoreWebView2PointerInfo_put_Time :: cmethod where
  "ICoreWebView2PointerInfo_put_Time =
     Method ''HRESULT'' ''put_Time'' [''DWORD time'']"

definition ICoreWebView2PointerInfo_get_HistoryCount :: cmethod where
  "ICoreWebView2PointerInfo_get_HistoryCount =
     Method ''HRESULT'' ''get_HistoryCount'' [''UINT32 *historyCount'']"

definition ICoreWebView2PointerInfo_put_HistoryCount :: cmethod where
  "ICoreWebView2PointerInfo_put_HistoryCount =
     Method ''HRESULT'' ''put_HistoryCount'' [''UINT32 historyCount'']"

definition ICoreWebView2PointerInfo_get_InputData :: cmethod where
  "ICoreWebView2PointerInfo_get_InputData =
     Method ''HRESULT'' ''get_InputData'' [''INT32 *inputData'']"

definition ICoreWebView2PointerInfo_put_InputData :: cmethod where
  "ICoreWebView2PointerInfo_put_InputData =
     Method ''HRESULT'' ''put_InputData'' [''INT32 inputData'']"

definition ICoreWebView2PointerInfo_get_KeyStates :: cmethod where
  "ICoreWebView2PointerInfo_get_KeyStates =
     Method ''HRESULT'' ''get_KeyStates'' [''DWORD *keyStates'']"

definition ICoreWebView2PointerInfo_put_KeyStates :: cmethod where
  "ICoreWebView2PointerInfo_put_KeyStates =
     Method ''HRESULT'' ''put_KeyStates'' [''DWORD keyStates'']"

definition ICoreWebView2PointerInfo_get_PerformanceCount :: cmethod where
  "ICoreWebView2PointerInfo_get_PerformanceCount =
     Method ''HRESULT'' ''get_PerformanceCount'' [''UINT64 *performanceCount'']"

definition ICoreWebView2PointerInfo_put_PerformanceCount :: cmethod where
  "ICoreWebView2PointerInfo_put_PerformanceCount =
     Method ''HRESULT'' ''put_PerformanceCount'' [''UINT64 performanceCount'']"

definition ICoreWebView2PointerInfo_get_ButtonChangeKind :: cmethod where
  "ICoreWebView2PointerInfo_get_ButtonChangeKind =
     Method ''HRESULT'' ''get_ButtonChangeKind'' [''INT32 *buttonChangeKind'']"

definition ICoreWebView2PointerInfo_put_ButtonChangeKind :: cmethod where
  "ICoreWebView2PointerInfo_put_ButtonChangeKind =
     Method ''HRESULT'' ''put_ButtonChangeKind'' [''INT32 buttonChangeKind'']"

definition ICoreWebView2PointerInfo_get_PenFlags :: cmethod where
  "ICoreWebView2PointerInfo_get_PenFlags =
     Method ''HRESULT'' ''get_PenFlags'' [''UINT32 *penFLags'']"

definition ICoreWebView2PointerInfo_put_PenFlags :: cmethod where
  "ICoreWebView2PointerInfo_put_PenFlags =
     Method ''HRESULT'' ''put_PenFlags'' [''UINT32 penFLags'']"

definition ICoreWebView2PointerInfo_get_PenMask :: cmethod where
  "ICoreWebView2PointerInfo_get_PenMask =
     Method ''HRESULT'' ''get_PenMask'' [''UINT32 *penMask'']"

definition ICoreWebView2PointerInfo_put_PenMask :: cmethod where
  "ICoreWebView2PointerInfo_put_PenMask =
     Method ''HRESULT'' ''put_PenMask'' [''UINT32 penMask'']"

definition ICoreWebView2PointerInfo_get_PenPressure :: cmethod where
  "ICoreWebView2PointerInfo_get_PenPressure =
     Method ''HRESULT'' ''get_PenPressure'' [''UINT32 *penPressure'']"

definition ICoreWebView2PointerInfo_put_PenPressure :: cmethod where
  "ICoreWebView2PointerInfo_put_PenPressure =
     Method ''HRESULT'' ''put_PenPressure'' [''UINT32 penPressure'']"

definition ICoreWebView2PointerInfo_get_PenRotation :: cmethod where
  "ICoreWebView2PointerInfo_get_PenRotation =
     Method ''HRESULT'' ''get_PenRotation'' [''UINT32 *penRotation'']"

definition ICoreWebView2PointerInfo_put_PenRotation :: cmethod where
  "ICoreWebView2PointerInfo_put_PenRotation =
     Method ''HRESULT'' ''put_PenRotation'' [''UINT32 penRotation'']"

definition ICoreWebView2PointerInfo_get_PenTiltX :: cmethod where
  "ICoreWebView2PointerInfo_get_PenTiltX =
     Method ''HRESULT'' ''get_PenTiltX'' [''INT32 *penTiltX'']"

definition ICoreWebView2PointerInfo_put_PenTiltX :: cmethod where
  "ICoreWebView2PointerInfo_put_PenTiltX =
     Method ''HRESULT'' ''put_PenTiltX'' [''INT32 penTiltX'']"

definition ICoreWebView2PointerInfo_get_PenTiltY :: cmethod where
  "ICoreWebView2PointerInfo_get_PenTiltY =
     Method ''HRESULT'' ''get_PenTiltY'' [''INT32 *penTiltY'']"

definition ICoreWebView2PointerInfo_put_PenTiltY :: cmethod where
  "ICoreWebView2PointerInfo_put_PenTiltY =
     Method ''HRESULT'' ''put_PenTiltY'' [''INT32 penTiltY'']"

definition ICoreWebView2PointerInfo_get_TouchFlags :: cmethod where
  "ICoreWebView2PointerInfo_get_TouchFlags =
     Method ''HRESULT'' ''get_TouchFlags'' [''UINT32 *touchFlags'']"

definition ICoreWebView2PointerInfo_put_TouchFlags :: cmethod where
  "ICoreWebView2PointerInfo_put_TouchFlags =
     Method ''HRESULT'' ''put_TouchFlags'' [''UINT32 touchFlags'']"

definition ICoreWebView2PointerInfo_get_TouchMask :: cmethod where
  "ICoreWebView2PointerInfo_get_TouchMask =
     Method ''HRESULT'' ''get_TouchMask'' [''UINT32 *touchMask'']"

definition ICoreWebView2PointerInfo_put_TouchMask :: cmethod where
  "ICoreWebView2PointerInfo_put_TouchMask =
     Method ''HRESULT'' ''put_TouchMask'' [''UINT32 touchMask'']"

definition ICoreWebView2PointerInfo_get_TouchContact :: cmethod where
  "ICoreWebView2PointerInfo_get_TouchContact =
     Method ''HRESULT'' ''get_TouchContact'' [''RECT *touchContact'']"

definition ICoreWebView2PointerInfo_put_TouchContact :: cmethod where
  "ICoreWebView2PointerInfo_put_TouchContact =
     Method ''HRESULT'' ''put_TouchContact'' [''RECT touchContact'']"

definition ICoreWebView2PointerInfo_get_TouchContactRaw :: cmethod where
  "ICoreWebView2PointerInfo_get_TouchContactRaw =
     Method ''HRESULT'' ''get_TouchContactRaw'' [''RECT *touchContactRaw'']"

definition ICoreWebView2PointerInfo_put_TouchContactRaw :: cmethod where
  "ICoreWebView2PointerInfo_put_TouchContactRaw =
     Method ''HRESULT'' ''put_TouchContactRaw'' [''RECT touchContactRaw'']"

definition ICoreWebView2PointerInfo_get_TouchOrientation :: cmethod where
  "ICoreWebView2PointerInfo_get_TouchOrientation =
     Method ''HRESULT'' ''get_TouchOrientation'' [''UINT32 *touchOrientation'']"

definition ICoreWebView2PointerInfo_put_TouchOrientation :: cmethod where
  "ICoreWebView2PointerInfo_put_TouchOrientation =
     Method ''HRESULT'' ''put_TouchOrientation'' [''UINT32 touchOrientation'']"

definition ICoreWebView2PointerInfo_get_TouchPressure :: cmethod where
  "ICoreWebView2PointerInfo_get_TouchPressure =
     Method ''HRESULT'' ''get_TouchPressure'' [''UINT32 *touchPressure'']"

definition ICoreWebView2PointerInfo_put_TouchPressure :: cmethod where
  "ICoreWebView2PointerInfo_put_TouchPressure =
     Method ''HRESULT'' ''put_TouchPressure'' [''UINT32 touchPressure'']"

definition ICoreWebView2PointerInfo :: iface where
  "ICoreWebView2PointerInfo = Derived ''ICoreWebView2PointerInfo'' IUnknown
     [ICoreWebView2PointerInfo_get_PointerKind, ICoreWebView2PointerInfo_put_PointerKind,
      ICoreWebView2PointerInfo_get_PointerId, ICoreWebView2PointerInfo_put_PointerId,
      ICoreWebView2PointerInfo_get_FrameId, ICoreWebView2PointerInfo_put_FrameId,
      ICoreWebView2PointerInfo_get_PointerFlags, ICoreWebView2PointerInfo_put_PointerFlags,
      ICoreWebView2PointerInfo_get_PointerDeviceRect, ICoreWebView2PointerInfo_put_PointerDeviceRect,
      ICoreWebView2PointerInfo_get_DisplayRect, ICoreWebView2PointerInfo_put_DisplayRect,
      ICoreWebView2PointerInfo_get_PixelLocation, ICoreWebView2PointerInfo_put_PixelLocation,
      ICoreWebView2PointerInfo_get_HimetricLocation, ICoreWebView2PointerInfo_put_HimetricLocation,
      ICoreWebView2PointerInfo_get_PixelLocationRaw, ICoreWebView2PointerInfo_put_PixelLocationRaw,
      ICoreWebView2PointerInfo_get_HimetricLocationRaw, ICoreWebView2PointerInfo_put_HimetricLocationRaw,
      ICoreWebView2PointerInfo_get_Time, ICoreWebView2PointerInfo_put_Time,
      ICoreWebView2PointerInfo_get_HistoryCount, ICoreWebView2PointerInfo_put_HistoryCount,
      ICoreWebView2PointerInfo_get_InputData, ICoreWebView2PointerInfo_put_InputData,
      ICoreWebView2PointerInfo_get_KeyStates, ICoreWebView2PointerInfo_put_KeyStates,
      ICoreWebView2PointerInfo_get_PerformanceCount, ICoreWebView2PointerInfo_put_PerformanceCount,
      ICoreWebView2PointerInfo_get_ButtonChangeKind, ICoreWebView2PointerInfo_put_ButtonChangeKind,
      ICoreWebView2PointerInfo_get_PenFlags, ICoreWebView2PointerInfo_put_PenFlags,
      ICoreWebView2PointerInfo_get_PenMask, ICoreWebView2PointerInfo_put_PenMask,
      ICoreWebView2PointerInfo_get_PenPressure, ICoreWebView2PointerInfo_put_PenPressure,
      ICoreWebView2PointerInfo_get_PenRotation, ICoreWebView2PointerInfo_put_PenRotation,
      ICoreWebView2PointerInfo_get_PenTiltX, ICoreWebView2PointerInfo_put_PenTiltX,
      ICoreWebView2PointerInfo_get_PenTiltY, ICoreWebView2PointerInfo_put_PenTiltY,
      ICoreWebView2PointerInfo_get_TouchFlags, ICoreWebView2PointerInfo_put_TouchFlags,
      ICoreWebView2PointerInfo_get_TouchMask, ICoreWebView2PointerInfo_put_TouchMask,
      ICoreWebView2PointerInfo_get_TouchContact, ICoreWebView2PointerInfo_put_TouchContact,
      ICoreWebView2PointerInfo_get_TouchContactRaw, ICoreWebView2PointerInfo_put_TouchContactRaw,
      ICoreWebView2PointerInfo_get_TouchOrientation, ICoreWebView2PointerInfo_put_TouchOrientation,
      ICoreWebView2PointerInfo_get_TouchPressure, ICoreWebView2PointerInfo_put_TouchPressure]"

definition ICoreWebView2PrintSettings_get_Orientation :: cmethod where
  "ICoreWebView2PrintSettings_get_Orientation =
     Method ''HRESULT'' ''get_Orientation'' [''COREWEBVIEW2_PRINT_ORIENTATION *orientation'']"

definition ICoreWebView2PrintSettings_put_Orientation :: cmethod where
  "ICoreWebView2PrintSettings_put_Orientation =
     Method ''HRESULT'' ''put_Orientation'' [''COREWEBVIEW2_PRINT_ORIENTATION orientation'']"

definition ICoreWebView2PrintSettings_get_ScaleFactor :: cmethod where
  "ICoreWebView2PrintSettings_get_ScaleFactor =
     Method ''HRESULT'' ''get_ScaleFactor'' [''double *scaleFactor'']"

definition ICoreWebView2PrintSettings_put_ScaleFactor :: cmethod where
  "ICoreWebView2PrintSettings_put_ScaleFactor =
     Method ''HRESULT'' ''put_ScaleFactor'' [''double scaleFactor'']"

definition ICoreWebView2PrintSettings_get_PageWidth :: cmethod where
  "ICoreWebView2PrintSettings_get_PageWidth =
     Method ''HRESULT'' ''get_PageWidth'' [''double *pageWidth'']"

definition ICoreWebView2PrintSettings_put_PageWidth :: cmethod where
  "ICoreWebView2PrintSettings_put_PageWidth =
     Method ''HRESULT'' ''put_PageWidth'' [''double pageWidth'']"

definition ICoreWebView2PrintSettings_get_PageHeight :: cmethod where
  "ICoreWebView2PrintSettings_get_PageHeight =
     Method ''HRESULT'' ''get_PageHeight'' [''double *pageHeight'']"

definition ICoreWebView2PrintSettings_put_PageHeight :: cmethod where
  "ICoreWebView2PrintSettings_put_PageHeight =
     Method ''HRESULT'' ''put_PageHeight'' [''double pageHeight'']"

definition ICoreWebView2PrintSettings_get_MarginTop :: cmethod where
  "ICoreWebView2PrintSettings_get_MarginTop =
     Method ''HRESULT'' ''get_MarginTop'' [''double *marginTop'']"

definition ICoreWebView2PrintSettings_put_MarginTop :: cmethod where
  "ICoreWebView2PrintSettings_put_MarginTop =
     Method ''HRESULT'' ''put_MarginTop'' [''double marginTop'']"

definition ICoreWebView2PrintSettings_get_MarginBottom :: cmethod where
  "ICoreWebView2PrintSettings_get_MarginBottom =
     Method ''HRESULT'' ''get_MarginBottom'' [''double *marginBottom'']"

definition ICoreWebView2PrintSettings_put_MarginBottom :: cmethod where
  "ICoreWebView2PrintSettings_put_MarginBottom =
     Method ''HRESULT'' ''put_MarginBottom'' [''double marginBottom'']"

definition ICoreWebView2PrintSettings_get_MarginLeft :: cmethod where
  "ICoreWebView2PrintSettings_get_MarginLeft =
     Method ''HRESULT'' ''get_MarginLeft'' [''double *marginLeft'']"

definition ICoreWebView2PrintSettings_put_MarginLeft :: cmethod where
  "ICoreWebView2PrintSettings_put_MarginLeft =
     Method ''HRESULT'' ''put_MarginLeft'' [''double marginLeft'']"

definition ICoreWebView2PrintSettings_get_MarginRight :: cmethod where
  "ICoreWebView2PrintSettings_get_MarginRight =
     Method ''HRESULT'' ''get_MarginRight'' [''double *marginRight'']"

definition ICoreWebView2PrintSettings_put_MarginRight :: cmethod where
  "ICoreWebView2PrintSettings_put_MarginRight =
     Method ''HRESULT'' ''put_MarginRight'' [''double marginRight'']"

definition ICoreWebView2PrintSettings_get_ShouldPrintBackgrounds :: cmethod where
  "ICoreWebView2PrintSettings_get_ShouldPrintBackgrounds =
     Method ''HRESULT'' ''get_ShouldPrintBackgrounds'' [''BOOL *shouldPrintBackgrounds'']"

definition ICoreWebView2PrintSettings_put_ShouldPrintBackgrounds :: cmethod where
  "ICoreWebView2PrintSettings_put_ShouldPrintBackgrounds =
     Method ''HRESULT'' ''put_ShouldPrintBackgrounds'' [''BOOL shouldPrintBackgrounds'']"

definition ICoreWebView2PrintSettings_get_ShouldPrintSelectionOnly :: cmethod where
  "ICoreWebView2PrintSettings_get_ShouldPrintSelectionOnly =
     Method ''HRESULT'' ''get_ShouldPrintSelectionOnly'' [''BOOL *shouldPrintSelectionOnly'']"

definition ICoreWebView2PrintSettings_put_ShouldPrintSelectionOnly :: cmethod where
  "ICoreWebView2PrintSettings_put_ShouldPrintSelectionOnly =
     Method ''HRESULT'' ''put_ShouldPrintSelectionOnly'' [''BOOL shouldPrintSelectionOnly'']"

definition ICoreWebView2PrintSettings_get_ShouldPrintHeaderAndFooter :: cmethod where
  "ICoreWebView2PrintSettings_get_ShouldPrintHeaderAndFooter =
     Method ''HRESULT'' ''get_ShouldPrintHeaderAndFooter'' [''BOOL *shouldPrintHeaderAndFooter'']"

definition ICoreWebView2PrintSettings_put_ShouldPrintHeaderAndFooter :: cmethod where
  "ICoreWebView2PrintSettings_put_ShouldPrintHeaderAndFooter =
     Method ''HRESULT'' ''put_ShouldPrintHeaderAndFooter'' [''BOOL shouldPrintHeaderAndFooter'']"

definition ICoreWebView2PrintSettings_get_HeaderTitle :: cmethod where
  "ICoreWebView2PrintSettings_get_HeaderTitle =
     Method ''HRESULT'' ''get_HeaderTitle'' [''LPWSTR *headerTitle'']"

definition ICoreWebView2PrintSettings_put_HeaderTitle :: cmethod where
  "ICoreWebView2PrintSettings_put_HeaderTitle =
     Method ''HRESULT'' ''put_HeaderTitle'' [''LPCWSTR headerTitle'']"

definition ICoreWebView2PrintSettings_get_FooterUri :: cmethod where
  "ICoreWebView2PrintSettings_get_FooterUri =
     Method ''HRESULT'' ''get_FooterUri'' [''LPWSTR *footerUri'']"

definition ICoreWebView2PrintSettings_put_FooterUri :: cmethod where
  "ICoreWebView2PrintSettings_put_FooterUri =
     Method ''HRESULT'' ''put_FooterUri'' [''LPCWSTR footerUri'']"

definition ICoreWebView2PrintSettings :: iface where
  "ICoreWebView2PrintSettings = Derived ''ICoreWebView2PrintSettings'' IUnknown
     [ICoreWebView2PrintSettings_get_Orientation, ICoreWebView2PrintSettings_put_Orientation,
      ICoreWebView2PrintSettings_get_ScaleFactor, ICoreWebView2PrintSettings_put_ScaleFactor,
      ICoreWebView2PrintSettings_get_PageWidth, ICoreWebView2PrintSettings_put_PageWidth,
      ICoreWebView2PrintSettings_get_PageHeight, ICoreWebView2PrintSettings_put_PageHeight,
      ICoreWebView2PrintSettings_get_MarginTop, ICoreWebView2PrintSettings_put_MarginTop,
      ICoreWebView2PrintSettings_get_MarginBottom, ICoreWebView2PrintSettings_put_MarginBottom,
      ICoreWebView2PrintSettings_get_MarginLeft, ICoreWebView2PrintSettings_put_MarginLeft,
      ICoreWebView2PrintSettings_get_MarginRight, ICoreWebView2PrintSettings_put_MarginRight,
      ICoreWebView2PrintSettings_get_ShouldPrintBackgrounds, ICoreWebView2PrintSettings_put_ShouldPrintBackgrounds,
      ICoreWebView2PrintSettings_get_ShouldPrintSelectionOnly,
      ICoreWebView2PrintSettings_put_ShouldPrintSelectionOnly,
      ICoreWebView2PrintSettings_get_ShouldPrintHeaderAndFooter,
      ICoreWebView2PrintSettings_put_ShouldPrintHeaderAndFooter, ICoreWebView2PrintSettings_get_HeaderTitle,
      ICoreWebView2PrintSettings_put_HeaderTitle, ICoreWebView2PrintSettings_get_FooterUri,
      ICoreWebView2PrintSettings_put_FooterUri]"

definition ICoreWebView2PrintSettings2 :: iface where
  "ICoreWebView2PrintSettings2 = Derived ''ICoreWebView2PrintSettings2'' ICoreWebView2PrintSettings
     [Method ''HRESULT'' ''get_PageRanges'' [''LPWSTR *value''],
      Method ''HRESULT'' ''put_PageRanges'' [''LPCWSTR value''],
      Method ''HRESULT'' ''get_PagesPerSide'' [''INT32 *value''],
      Method ''HRESULT'' ''put_PagesPerSide'' [''INT32 value''],
      Method ''HRESULT'' ''get_Copies'' [''INT32 *value''],
      Method ''HRESULT'' ''put_Copies'' [''INT32 value''],
      Method ''HRESULT'' ''get_Collation'' [''COREWEBVIEW2_PRINT_COLLATION *value''],
      Method ''HRESULT'' ''put_Collation'' [''COREWEBVIEW2_PRINT_COLLATION value''],
      Method ''HRESULT'' ''get_ColorMode'' [''COREWEBVIEW2_PRINT_COLOR_MODE *value''],
      Method ''HRESULT'' ''put_ColorMode'' [''COREWEBVIEW2_PRINT_COLOR_MODE value''],
      Method ''HRESULT'' ''get_Duplex'' [''COREWEBVIEW2_PRINT_DUPLEX *value''],
      Method ''HRESULT'' ''put_Duplex'' [''COREWEBVIEW2_PRINT_DUPLEX value''],
      Method ''HRESULT'' ''get_MediaSize'' [''COREWEBVIEW2_PRINT_MEDIA_SIZE *value''],
      Method ''HRESULT'' ''put_MediaSize'' [''COREWEBVIEW2_PRINT_MEDIA_SIZE value''],
      Method ''HRESULT'' ''get_PrinterName'' [''LPWSTR *value''],
      Method ''HRESULT'' ''put_PrinterName'' [''LPCWSTR value'']]"

definition ICoreWebView2ProcessFailedEventArgs_get_ProcessFailedKind :: cmethod where
  "ICoreWebView2ProcessFailedEventArgs_get_ProcessFailedKind =
     Method ''HRESULT'' ''get_ProcessFailedKind'' [''COREWEBVIEW2_PROCESS_FAILED_KIND *processFailedKind'']"

definition ICoreWebView2ProcessFailedEventArgs :: iface where
  "ICoreWebView2ProcessFailedEventArgs = Derived ''ICoreWebView2ProcessFailedEventArgs'' IUnknown
     [ICoreWebView2ProcessFailedEventArgs_get_ProcessFailedKind]"

definition ICoreWebView2ProcessFailedEventArgs2 :: iface where
  "ICoreWebView2ProcessFailedEventArgs2 = Derived ''ICoreWebView2ProcessFailedEventArgs2'' ICoreWebView2ProcessFailedEventArgs
     [Method ''HRESULT'' ''get_Reason'' [''COREWEBVIEW2_PROCESS_FAILED_REASON *reason''],
      Method ''HRESULT'' ''get_ExitCode'' [''int *exitCode''],
      Method ''HRESULT'' ''get_ProcessDescription'' [''LPWSTR *processDescription''],
      Method ''HRESULT'' ''get_FrameInfosForFailedProcess'' [''ICoreWebView2FrameInfoCollection **frames'']]"

definition ICoreWebView2ServerCertificateErrorDetectedEventArgs :: iface where
  "ICoreWebView2ServerCertificateErrorDetectedEventArgs = Derived ''ICoreWebView2ServerCertificateErrorDetectedEventArgs'' IUnknown
     [Method ''HRESULT'' ''get_ErrorStatus'' [''COREWEBVIEW2_WEB_ERROR_STATUS *value''],
      Method ''HRESULT'' ''get_RequestUri'' [''LPWSTR *value''],
      Method ''HRESULT'' ''get_ServerCertificate'' [''ICoreWebView2Certificate **value''],
      Method ''HRESULT'' ''get_Action'' [''COREWEBVIEW2_SERVER_CERTIFICATE_ERROR_ACTION *value''],
      Method ''HRESULT'' ''put_Action'' [''COREWEBVIEW2_SERVER_CERTIFICATE_ERROR_ACTION value''],
      Method ''HRESULT'' ''GetDeferral'' [''ICoreWebView2Deferral **deferral'']]"

definition ICoreWebView2ScriptDialogOpeningEventArgs :: iface where
  "ICoreWebView2ScriptDialogOpeningEventArgs = Derived ''ICoreWebView2ScriptDialogOpeningEventArgs'' IUnknown
     [Method ''HRESULT'' ''get_Uri'' [''LPWSTR *uri''],
      Method ''HRESULT'' ''get_Kind'' [''COREWEBVIEW2_SCRIPT_DIALOG_KIND *kind''],
      Method ''HRESULT'' ''get_Message'' [''LPWSTR *message''],
      Method ''HRESULT'' ''Accept'' [],
      Method ''HRESULT'' ''get_DefaultText'' [''LPWSTR *defaultText''],
      Method ''HRESULT'' ''get_ResultText'' [''LPWSTR *resultText''],
      Method ''HRESULT'' ''put_ResultText'' [''LPCWSTR resultText''],
      Method ''HRESULT'' ''GetDeferral'' [''ICoreWebView2Deferral **deferral'']]"

definition ICoreWebView2SourceChangedEventArgs :: iface where
  "ICoreWebView2SourceChangedEventArgs = Derived ''ICoreWebView2SourceChangedEventArgs'' IUnknown
     [Method ''HRESULT'' ''get_IsNewDocument'' [''BOOL *isNewDocument'']]"

definition ICoreWebView2WebMessageReceivedEventArgs_get_Source :: cmethod where
  "ICoreWebView2WebMessageReceivedEventArgs_get_Source =
     Method ''HRESULT'' ''get_Source'' [''LPWSTR *source'']"

definition ICoreWebView2WebMessageReceivedEventArgs_get_WebMessageAsJson :: cmethod where
  "ICoreWebView2WebMessageReceivedEventArgs_get_WebMessageAsJson =
     Method ''HRESULT'' ''get_WebMessageAsJson'' [''LPWSTR *webMessageAsJson'']"

definition ICoreWebView2WebMessageReceivedEventArgs_TryGetWebMessageAsString :: cmethod where
  "ICoreWebView2WebMessageReceivedEventArgs_TryGetWebMessageAsString =
     Method ''HRESULT'' ''TryGetWebMessageAsString'' [''LPWSTR *webMessageAsString'']"

definition ICoreWebView2WebMessageReceivedEventArgs :: iface where
  "ICoreWebView2WebMessageReceivedEventArgs = Derived ''ICoreWebView2WebMessageReceivedEventArgs'' IUnknown
     [ICoreWebView2WebMessageReceivedEventArgs_get_Source,
      ICoreWebView2WebMessageReceivedEventArgs_get_WebMessageAsJson,
      ICoreWebView2WebMessageReceivedEventArgs_TryGetWebMessageAsString]"

definition ICoreWebView2WebResourceRequest :: iface where
  "ICoreWebView2WebResourceRequest = Derived ''ICoreWebView2WebResourceRequest'' IUnknown
     [Method ''HRESULT'' ''get_Uri'' [''LPWSTR *uri''],
      Method ''HRESULT'' ''put_Uri'' [''LPCWSTR uri''],
      Method ''HRESULT'' ''get_Method'' [''LPWSTR *method''],
      Method ''HRESULT'' ''put_Method'' [''LPCWSTR method''],
      Method ''HRESULT'' ''get_Content'' [''IStream **content''],
      Method ''HRESULT'' ''put_Content'' [''IStream *content''],
      Method ''HRESULT'' ''get_Headers'' [''ICoreWebView2HttpRequestHeaders **headers'']]"

definition ICoreWebView2WebResourceRequestedEventArgs_get_Request :: cmethod where
  "ICoreWebView2WebResourceRequestedEventArgs_get_Request =
     Method ''HRESULT'' ''get_Request'' [''ICoreWebView2WebResourceRequest **request'']"

definition ICoreWebView2WebResourceRequestedEventArgs_get_Response :: cmethod where
  "ICoreWebView2WebResourceRequestedEventArgs_get_Response =
     Method ''HRESULT'' ''get_Response'' [''ICoreWebView2WebResourceResponse **response'']"

definition ICoreWebView2WebResourceRequestedEventArgs_put_Response :: cmethod where
  "ICoreWebView2WebResourceRequestedEventArgs_put_Response =
     Method ''HRESULT'' ''put_Response'' [''ICoreWebView2WebResourceResponse *response'']"

definition ICoreWebView2WebResourceRequestedEventArgs_GetDeferral :: cmethod where
  "ICoreWebView2WebResourceRequestedEventArgs_GetDeferral =
     Method ''HRESULT'' ''GetDeferral'' [''ICoreWebView2Deferral **deferral'']"

definition ICoreWebView2WebResourceRequestedEventArgs_get_ResourceContext :: cmethod where
  "ICoreWebView2WebResourceRequestedEventArgs_get_ResourceContext =
     Method ''HRESULT'' ''get_ResourceContext'' [''COREWEBVIEW2_WEB_RESOURCE_CONTEXT *context'']"

definition ICoreWebView2WebResourceRequestedEventArgs :: iface where
  "ICoreWebView2WebResourceRequestedEventArgs = Derived ''ICoreWebView2WebResourceRequestedEventArgs'' IUnknown
     [ICoreWebView2WebResourceRequestedEventArgs_get_Request,
      ICoreWebView2WebResourceRequestedEventArgs_get_Response,
      ICoreWebView2WebResourceRequestedEventArgs_put_Response,
      ICoreWebView2WebResourceRequestedEventArgs_GetDeferral,
      ICoreWebView2WebResourceRequestedEventArgs_get_ResourceContext]"

definition ICoreWebView2WebResourceRequestedEventArgs2 :: iface where
  "ICoreWebView2WebResourceRequestedEventArgs2 = Derived ''ICoreWebView2WebResourceRequestedEventArgs2'' ICoreWebView2WebResourceRequestedEventArgs
     [Method ''HRESULT'' ''get_RequestedSourceKind'' [''COREWEBVIEW2_WEB_RESOURCE_REQUEST_SOURCE_KINDS *requestedSourceKind'']]"

definition ICoreWebView2WebResourceResponse :: iface where
  "ICoreWebView2WebResourceResponse = Derived ''ICoreWebView2WebResourceResponse'' IUnknown
     [Method ''HRESULT'' ''get_Content'' [''IStream **content''],
      Method ''HRESULT'' ''put_Content'' [''IStream *content''],
      Method ''HRESULT'' ''get_Headers'' [''ICoreWebView2HttpResponseHeaders **headers''],
      Method ''HRESULT'' ''get_StatusCode'' [''int *statusCode''],
      Method ''HRESULT'' ''put_StatusCode'' [''int statusCode''],
      Method ''HRESULT'' ''get_ReasonPhrase'' [''LPWSTR *reasonPhrase''],
      Method ''HRESULT'' ''put_ReasonPhrase'' [''LPCWSTR reasonPhrase'']]"

definition ICoreWebView2WebResourceResponseReceivedEventArgs :: iface where
  "ICoreWebView2WebResourceResponseReceivedEventArgs = Derived ''ICoreWebView2WebResourceResponseReceivedEventArgs'' IUnknown
     [Method ''HRESULT'' ''get_Request'' [''ICoreWebView2WebResourceRequest **request''],
      Method ''HRESULT'' ''get_Response'' [''ICoreWebView2WebResourceResponseView **response'']]"

definition ICoreWebView2WebResourceResponseView :: iface where
  "ICoreWebView2WebResourceResponseView = Derived ''ICoreWebView2WebResourceResponseView'' IUnknown
     [Method ''HRESULT'' ''get_Headers'' [''ICoreWebView2HttpResponseHeaders **headers''],
      Method ''HRESULT'' ''get_StatusCode'' [''int *statusCode''],
      Method ''HRESULT'' ''get_ReasonPhrase'' [''LPWSTR *reasonPhrase''],
      Method ''HRESULT'' ''GetContent'' [''ICoreWebView2WebResourceResponseViewGetContentCompletedHandler *handler'']]"

definition ICoreWebView2WindowFeatures :: iface where
  "ICoreWebView2WindowFeatures = Derived ''ICoreWebView2WindowFeatures'' IUnknown
     [Method ''HRESULT'' ''get_HasPosition'' [''BOOL *value''],
      Method ''HRESULT'' ''get_HasSize'' [''BOOL *value''],
      Method ''HRESULT'' ''get_Left'' [''UINT32 *value''],
      Method ''HRESULT'' ''get_Top'' [''UINT32 *value''],
      Method ''HRESULT'' ''get_Height'' [''UINT32 *value''],
      Method ''HRESULT'' ''get_Width'' [''UINT32 *value''],
      Method ''HRESULT'' ''get_ShouldDisplayMenuBar'' [''BOOL *value''],
      Method ''HRESULT'' ''get_ShouldDisplayStatus'' [''BOOL *value''],
      Method ''HRESULT'' ''get_ShouldDisplayToolbar'' [''BOOL *value''],
      Method ''HRESULT'' ''get_ShouldDisplayScrollBars'' [''BOOL *value'']]"

definition ICoreWebView2BrowserExtensionList :: iface where
  "ICoreWebView2BrowserExtensionList = Derived ''ICoreWebView2BrowserExtensionList'' IUnknown
     [Method ''HRESULT'' ''get_Count'' [''UINT *count''],
      Method ''HRESULT'' ''GetValueAtIndex'' [''UINT index'', ''ICoreWebView2BrowserExtension **extension'']]"

definition ICoreWebView2BrowserExtension :: iface where
  "ICoreWebView2BrowserExtension = Derived ''ICoreWebView2BrowserExtension'' IUnknown
     [Method ''HRESULT'' ''get_Id'' [''LPWSTR *value''],
      Method ''HRESULT'' ''get_Name'' [''LPWSTR *value''],
      Method ''HRESULT'' ''Remove'' [''ICoreWebView2BrowserExtensionRemoveCompletedHandler *handler''],
      Method ''HRESULT'' ''get_IsEnabled'' [''BOOL *value''],
      Method ''HRESULT'' ''Enable'' [''BOOL isEnabled'', ''ICoreWebView2BrowserExtensionEnableCompletedHandler *handler'']]"

definition ICoreWebView2ExecuteScriptResult :: iface where
  "ICoreWebView2ExecuteScriptResult = Derived ''ICoreWebView2ExecuteScriptResult'' IUnknown
     [Method ''HRESULT'' ''get_Succeeded'' [''BOOL *value''],
      Method ''HRESULT'' ''get_ResultAsJson'' [''LPWSTR *jsonResult''],
      Method ''HRESULT'' ''TryGetResultAsString'' [''LPWSTR *stringResult'', ''BOOL *value''],
      Method ''HRESULT'' ''get_Exception'' [''ICoreWebView2ScriptException **exception'']]"

definition ICoreWebView2ScriptException :: iface where
  "ICoreWebView2ScriptException = Derived ''ICoreWebView2ScriptException'' IUnknown
     [Method ''HRESULT'' ''get_LineNumber'' [''UINT32 *value''],
      Method ''HRESULT'' ''get_ColumnNumber'' [''UINT32 *value''],
      Method ''HRESULT'' ''get_Name'' [''LPWSTR *value''],
      Method ''HRESULT'' ''get_Message'' [''LPWSTR *value''],
      Method ''HRESULT'' ''get_ToJson'' [''LPWSTR *value'']]"

definition ICoreWebView2File :: iface where
  "ICoreWebView2File = Derived ''ICoreWebView2File'' IUnknown
     [Method ''HRESULT'' ''get_Path'' [''LPWSTR *path'']]"

definition ICoreWebView2ObjectCollectionView :: iface where
  "ICoreWebView2ObjectCollectionView = Derived ''ICoreWebView2ObjectCollectionView'' IUnknown
     [Method ''HRESULT'' ''get_Count'' [''UINT32 *value''],
      Method ''HRESULT'' ''GetValueAtIndex'' [''UINT32 index'', ''IUnknown **value'']]"

definition ICoreWebView2WebMessageReceivedEventArgs2 :: iface where
  "ICoreWebView2WebMessageReceivedEventArgs2 = Derived ''ICoreWebView2WebMessageReceivedEventArgs2'' ICoreWebView2WebMessageReceivedEventArgs
     [Method ''HRESULT'' ''get_AdditionalObjects'' [''ICoreWebView2ObjectCollectionView **value'']]"

section \<open>Members of the tables that later ones repeat\<close>

definition ICoreWebView2AcceleratorKeyPressedEventArgs_get_KeyEventKind_C :: cdecl where
  "ICoreWebView2AcceleratorKeyPressedEventArgs_get_KeyEventKind_C =
     CDecl ''ICoreWebView2AcceleratorKeyPressedEventArgs'' ''HRESULT'' ''get_KeyEventKind'' [''COREWEBVIEW2_KEY_EVENT_KIND *keyEventKind'']"

definition ICoreWebView2AcceleratorKeyPressedEventArgs_get_VirtualKey_C :: cdecl where
  "ICoreWebView2AcceleratorKeyPressedEventArgs_get_VirtualKey_C =
     CDecl ''ICoreWebView2AcceleratorKeyPressedEventArgs'' ''HRESULT'' ''get_VirtualKey'' [''UINT *virtualKey'']"

definition ICoreWebView2AcceleratorKeyPressedEventArgs_get_KeyEventLParam_C :: cdecl where
  "ICoreWebView2AcceleratorKeyPressedEventArgs_get_KeyEventLParam_C =
     CDecl ''ICoreWebView2AcceleratorKeyPressedEventArgs'' ''HRESULT'' ''get_KeyEventLParam'' [''INT *lParam'']"

definition ICoreWebView2AcceleratorKeyPressedEventArgs_get_PhysicalKeyStatus_C :: cdecl where
  "ICoreWebView2AcceleratorKeyPressedEventArgs_get_PhysicalKeyStatus_C =
     CDecl ''ICoreWebView2AcceleratorKeyPressedEventArgs'' ''HRESULT'' ''get_PhysicalKeyStatus'' [''COREWEBVIEW2_PHYSICAL_KEY_STATUS *physicalKeyStatus'']"

definition ICoreWebView2AcceleratorKeyPressedEventArgs_get_Handled_C :: cdecl where
  "ICoreWebView2AcceleratorKeyPressedEventArgs_get_Handled_C =
     CDecl ''ICoreWebView2AcceleratorKeyPressedEventArgs'' ''HRESULT'' ''get_Handled'' [''BOOL *handled'']"

definition ICoreWebView2AcceleratorKeyPressedEventArgs_put_Handled_C :: cdecl where
  "ICoreWebView2AcceleratorKeyPressedEventArgs_put_Handled_C =
     CDecl ''ICoreWebView2AcceleratorKeyPressedEventArgs'' ''HRESULT'' ''put_Handled'' [''BOOL handled'']"

definition ICoreWebView2DevToolsProtocolEventReceivedEventArgs_get_ParameterObjectAsJson_C :: cdecl where
  "ICoreWebView2DevToolsProtocolEventReceivedEventArgs_get_ParameterObjectAsJson_C =
     CDecl ''ICoreWebView2DevToolsProtocolEventReceivedEventArgs'' ''HRESULT'' ''get_ParameterObjectAsJson'' [''LPWSTR *parameterObjectAsJson'']"

definition ICoreWebView2NavigationCompletedEventArgs_get_IsSuccess_C :: cdecl where
  "ICoreWebView2NavigationCompletedEventArgs_get_IsSuccess_C =
     CDecl ''ICoreWebView2NavigationCompletedEventArgs'' ''HRESULT'' ''get_IsSuccess'' [''BOOL *isSuccess'']"

definition ICoreWebView2NavigationCompletedEventArgs_get_WebErrorStatus_C :: cdecl where
  "ICoreWebView2NavigationCompletedEventArgs_get_WebErrorStatus_C =
     CDecl ''ICoreWebView2NavigationCompletedEventArgs'' ''HRESULT'' ''get_WebErrorStatus'' [''COREWEBVIEW2_WEB_ERROR_STATUS *webErrorStatus'']"

definition ICoreWebView2NavigationCompletedEventArgs_get_NavigationId_C :: cdecl where
  "ICoreWebView2NavigationCompletedEventArgs_get_NavigationId_C =
     CDecl ''ICoreWebView2NavigationCompletedEventArgs'' ''HRESULT'' ''get_NavigationId'' [''UINT64 *navigationId'']"

definition ICoreWebView2NavigationStartingEventArgs_get_Uri_C :: cdecl where
  "ICoreWebView2NavigationStartingEventArgs_get_Uri_C =
     CDecl ''ICoreWebView2NavigationStartingEventArgs'' ''HRESULT'' ''get_Uri'' [''LPWSTR *uri'']"

definition ICoreWebView2NavigationStartingEventArgs_get_IsUserInitiated_C :: cdecl where
  "ICoreWebView2NavigationStartingEventArgs_get_IsUserInitiated_C =
     CDecl ''ICoreWebView2NavigationStartingEventArgs'' ''HRESULT'' ''get_IsUserInitiated'' [''BOOL *isUserInitiated'']"

definition ICoreWebView2NavigationStartingEventArgs_get_IsRedirected_C :: cdecl where
  "ICoreWebView2NavigationStartingEventArgs_get_IsRedirected_C =
     CDecl ''ICoreWebView2NavigationStartingEventArgs'' ''HRESULT'' ''get_IsRedirected'' [''BOOL *isRedirected'']"

definition ICoreWebView2NavigationStartingEventArgs_get_RequestHeaders_C :: cdecl where
  "ICoreWebView2NavigationStartingEventArgs_get_RequestHeaders_C =
     CDecl ''ICoreWebView2NavigationStartingEventArgs'' ''HRESULT'' ''get_RequestHeaders'' [''ICoreWebView2HttpRequestHeaders **requestHeaders'']"

definition ICoreWebView2NavigationStartingEventArgs_get_Cancel_C :: cdecl where
  "ICoreWebView2NavigationStartingEventArgs_get_Cancel_C =
     CDecl ''ICoreWebView2NavigationStartingEventArgs'' ''HRESULT'' ''get_Cancel'' [''BOOL *cancel'']"

definition ICoreWebView2NavigationStartingEventArgs_put_Cancel_C :: cdecl where
  "ICoreWebView2NavigationStartingEventArgs_put_Cancel_C =
     CDecl ''ICoreWebView2NavigationStartingEventArgs'' ''HRESULT'' ''put_Cancel'' [''BOOL cancel'']"

definition ICoreWebView2NavigationStartingEventArgs_get_NavigationId_C :: cdecl where
  "ICoreWebView2NavigationStartingEventArgs_get_NavigationId_C =
     CDecl ''ICoreWebView2NavigationStartingEventArgs'' ''HRESULT'' ''get_NavigationId'' [''UINT64 *navigationId'']"

definition ICoreWebView2NavigationStartingEventArgs2_get_AdditionalAllowedFrameAncestors_C :: cdecl where
  "ICoreWebView2NavigationStartingEventArgs2_get_AdditionalAllowedFrameAncestors_C =
     CDecl ''ICoreWebView2NavigationStartingEventArgs2'' ''HRESULT'' ''get_AdditionalAllowedFrameAncestors'' [''LPWSTR *value'']"

definition ICoreWebView2NavigationStartingEventArgs2_put_AdditionalAllowedFrameAncestors_C :: cdecl where
  "ICoreWebView2NavigationStartingEventArgs2_put_AdditionalAllowedFrameAncestors_C =
     CDecl ''ICoreWebView2NavigationStartingEventArgs2'' ''HRESULT'' ''put_AdditionalAllowedFrameAncestors'' [''LPCWSTR value'']"

definition ICoreWebView2NewWindowRequestedEventArgs_get_Uri_C :: cdecl where
  "ICoreWebView2NewWindowRequestedEventArgs_get_Uri_C =
     CDecl ''ICoreWebView2NewWindowRequestedEventArgs'' ''HRESULT'' ''get_Uri'' [''LPWSTR *uri'']"

definition ICoreWebView2NewWindowRequestedEventArgs_put_NewWindow_C :: cdecl where
  "ICoreWebView2NewWindowRequestedEventArgs_put_NewWindow_C =
     CDecl ''ICoreWebView2NewWindowRequestedEventArgs'' ''HRESULT'' ''put_NewWindow'' [''ICoreWebView2 *newWindow'']"

definition ICoreWebView2NewWindowRequestedEventArgs_get_NewWindow_C :: cdecl where
  "ICoreWebView2NewWindowRequestedEventArgs_get_NewWindow_C =
     CDecl ''ICoreWebView2NewWindowRequestedEventArgs'' ''HRESULT'' ''get_NewWindow'' [''ICoreWebView2 **newWindow'']"

definition ICoreWebView2NewWindowRequestedEventArgs_put_Handled_C :: cdecl where
  "ICoreWebView2NewWindowRequestedEventArgs_put_Handled_C =
     CDecl ''ICoreWebView2NewWindowRequestedEventArgs'' ''HRESULT'' ''put_Handled'' [''BOOL handled'']"

definition ICoreWebView2NewWindowRequestedEventArgs_get_Handled_C :: cdecl where
  "ICoreWebView2NewWindowRequestedEventArgs_get_Handled_C =
     CDecl ''ICoreWebView2NewWindowRequestedEventArgs'' ''HRESULT'' ''get_Handled'' [''BOOL *handled'']"

definition ICoreWebView2NewWindowRequestedEventArgs_get_IsUserInitiated_C :: cdecl where
  "ICoreWebView2NewWindowRequestedEventArgs_get_IsUserInitiated_C =
     CDecl ''ICoreWebView2NewWindowRequestedEventArgs'' ''HRESULT'' ''get_IsUserInitiated'' [''BOOL *isUserInitiated'']"

definition ICoreWebView2NewWindowRequestedEventArgs_GetDeferral_C :: cdecl where
  "ICoreWebView2NewWindowRequestedEventArgs_GetDeferral_C =
     CDecl ''ICoreWebView2NewWindowRequestedEventArgs'' ''HRESULT'' ''GetDeferral'' [''ICoreWebView2Deferral **deferral'']"

definition ICoreWebView2NewWindowRequestedEventArgs_get_WindowFeatures_C :: cdecl where
  "ICoreWebView2NewWindowRequestedEventArgs_get_WindowFeatures_C =
     CDecl ''ICoreWebView2NewWindowRequestedEventArgs'' ''HRESULT'' ''get_WindowFeatures'' [''ICoreWebView2WindowFeatures **value'']"

definition ICoreWebView2NewWindowRequestedEventArgs2_get_Name_C :: cdecl where
  "ICoreWebView2NewWindowRequestedEventArgs2_get_Name_C =
     CDecl ''ICoreWebView2NewWindowRequestedEventArgs2'' ''HRESULT'' ''get_Name'' [''LPWSTR *value'']"

definition ICoreWebView2PermissionRequestedEventArgs_get_Uri_C :: cdecl where
  "ICoreWebView2PermissionRequestedEventArgs_get_Uri_C =
     CDecl ''ICoreWebView2PermissionRequestedEventArgs'' ''HRESULT'' ''get_Uri'' [''LPWSTR *uri'']"

definition ICoreWebView2PermissionRequestedEventArgs_get_PermissionKind_C :: cdecl where
  "ICoreWebView2PermissionRequestedEventArgs_get_PermissionKind_C =
     CDecl ''ICoreWebView2PermissionRequestedEventArgs'' ''HRESULT'' ''get_PermissionKind'' [''COREWEBVIEW2_PERMISSION_KIND *permissionKind'']"

definition ICoreWebView2PermissionRequestedEventArgs_get_IsUserInitiated_C :: cdecl where
  "ICoreWebView2PermissionRequestedEventArgs_get_IsUserInitiated_C =
     CDecl ''ICoreWebView2PermissionRequestedEventArgs'' ''HRESULT'' ''get_IsUserInitiated'' [''BOOL *isUserInitiated'']"

definition ICoreWebView2PermissionRequestedEventArgs_get_State_C :: cdecl where
  "ICoreWebView2PermissionRequestedEventArgs_get_State_C =
     CDecl ''ICoreWebView2PermissionRequestedEventArgs'' ''HRESULT'' ''get_State'' [''COREWEBVIEW2_PERMISSION_STATE *state'']"

definition ICoreWebView2PermissionRequestedEventArgs_put_State_C :: cdecl where
  "ICoreWebView2PermissionRequestedEventArgs_put_State_C =
     CDecl ''ICoreWebView2PermissionRequestedEventArgs'' ''HRESULT'' ''put_State'' [''COREWEBVIEW2_PERMISSION_STATE state'']"

definition ICoreWebView2PermissionRequestedEventArgs_GetDeferral_C :: cdecl where
  "ICoreWebView2PermissionRequestedEventArgs_GetDeferral_C =
     CDecl ''ICoreWebView2PermissionRequestedEventArgs'' ''HRESULT'' ''GetDeferral'' [''ICoreWebView2Deferral **deferral'']"

definition ICoreWebView2PermissionRequestedEventArgs2_get_Handled_C :: cdecl where
  "ICoreWebView2PermissionRequestedEventArgs2_get_Handled_C =
     CDecl ''ICoreWebView2PermissionRequestedEventArgs2'' ''HRESULT'' ''get_Handled'' [''BOOL *handled'']"

definition ICoreWebView2PermissionRequestedEventArgs2_put_Handled_C :: cdecl where
  "ICoreWebView2PermissionRequestedEventArgs2_put_Handled_C =
     CDecl ''ICoreWebView2PermissionRequestedEventArgs2'' ''HRESULT'' ''put_Handled'' [''BOOL handled'']"

definition ICoreWebView2PrintSettings_get_Orientation_C :: cdecl where
  "ICoreWebView2PrintSettings_get_Orientation_C =
     CDecl ''ICoreWebView2PrintSettings'' ''HRESULT'' ''get_Orientation'' [''COREWEBVIEW2_PRINT_ORIENTATION *orientation'']"

definition ICoreWebView2PrintSettings_put_Orientation_C :: cdecl where
  "ICoreWebView2PrintSettings_put_Orientation_C =
     CDecl ''ICoreWebView2PrintSettings'' ''HRESULT'' ''put_Orientation'' [''COREWEBVIEW2_PRINT_ORIENTATION orientation'']"

definition ICoreWebView2PrintSettings_get_ScaleFactor_C :: cdecl where
  "ICoreWebView2PrintSettings_get_ScaleFactor_C =
     CDecl ''ICoreWebView2PrintSettings'' ''HRESULT'' ''get_ScaleFactor'' [''double *scaleFactor'']"

definition ICoreWebView2PrintSettings_put_ScaleFactor_C :: cdecl where
  "ICoreWebView2PrintSettings_put_ScaleFactor_C =
     CDecl ''ICoreWebView2PrintSettings'' ''HRESULT'' ''put_ScaleFactor'' [''double scaleFactor'']"

definition ICoreWebView2PrintSettings_get_PageWidth_C :: cdecl where
  "ICoreWebView2PrintSettings_get_PageWidth_C =
     CDecl ''ICoreWebView2PrintSettings'' ''HRESULT'' ''get_PageWidth'' [''double *pageWidth'']"

definition ICoreWebView2PrintSettings_put_PageWidth_C :: cdecl where
  "ICoreWebView2PrintSettings_put_PageWidth_C =
     CDecl ''ICoreWebView2PrintSettings'' ''HRESULT'' ''put_PageWidth'' [''double pageWidth'']"

definition ICoreWebView2PrintSettings_get_PageHeight_C :: cdecl where
  "ICoreWebView2PrintSettings_get_PageHeight_C =
     CDecl ''ICoreWebView2PrintSettings'' ''HRESULT'' ''get_PageHeight'' [''double *pageHeight'']"

definition ICoreWebView2PrintSettings_put_PageHeight_C :: cdecl where
  "ICoreWebView2PrintSettings_put_PageHeight_C =
     CDecl ''ICoreWebView2PrintSettings'' ''HRESULT'' ''put_PageHeight'' [''double pageHeight'']"

definition ICoreWebView2PrintSettings_get_MarginTop_C :: cdecl where
  "ICoreWebView2PrintSettings_get_MarginTop_C =
     CDecl ''ICoreWebView2PrintSettings'' ''HRESULT'' ''get_MarginTop'' [''double *marginTop'']"

definition ICoreWebView2PrintSettings_put_MarginTop_C :: cdecl where
  "ICoreWebView2PrintSettings_put_MarginTop_C =
     CDecl ''ICoreWebView2PrintSettings'' ''HRESULT'' ''put_MarginTop'' [''double marginTop'']"

definition ICoreWebView2PrintSettings_get_MarginBottom_C :: cdecl where
  "ICoreWebView2PrintSettings_get_MarginBottom_C =
     CDecl ''ICoreWebView2PrintSettings'' ''HRESULT'' ''get_MarginBottom'' [''double *marginBottom'']"

definition ICoreWebView2PrintSettings_put_MarginBottom_C :: cdecl where
  "ICoreWebView2PrintSettings_put_MarginBottom_C =
     CDecl ''ICoreWebView2PrintSettings'' ''HRESULT'' ''put_MarginBottom'' [''double marginBottom'']"

definition ICoreWebView2PrintSettings_get_MarginLeft_C :: cdecl where
  "ICoreWebView2PrintSettings_get_MarginLeft_C =
     CDecl ''ICoreWebView2PrintSettings'' ''HRESULT'' ''get_MarginLeft'' [''double *marginLeft'']"

definition ICoreWebView2PrintSettings_put_MarginLeft_C :: cdecl where
  "ICoreWebView2PrintSettings_put_MarginLeft_C =
     CDecl ''ICoreWebView2PrintSettings'' ''HRESULT'' ''put_MarginLeft'' [''double marginLeft'']"

definition ICoreWebView2PrintSettings_get_MarginRight_C :: cdecl where
  "ICoreWebView2PrintSettings_get_MarginRight_C =
     CDecl ''ICoreWebView2PrintSettings'' ''HRESULT'' ''get_MarginRight'' [''double *marginRight'']"

definition ICoreWebView2PrintSettings_put_MarginRight_C :: cdecl where
  "ICoreWebView2PrintSettings_put_MarginRight_C =
     CDecl ''ICoreWebView2PrintSettings'' ''HRESULT'' ''put_MarginRight'' [''double marginRight'']"

definition ICoreWebView2PrintSettings_get_ShouldPrintBackgrounds_C :: cdecl where
  "ICoreWebView2PrintSettings_get_ShouldPrintBackgrounds_C =
     CDecl ''ICoreWebView2PrintSettings'' ''HRESULT'' ''get_ShouldPrintBackgrounds'' [''BOOL *shouldPrintBackgrounds'']"

definition ICoreWebView2PrintSettings_put_ShouldPrintBackgrounds_C :: cdecl where
  "ICoreWebView2PrintSettings_put_ShouldPrintBackgrounds_C =
     CDecl ''ICoreWebView2PrintSettings'' ''HRESULT'' ''put_ShouldPrintBackgrounds'' [''BOOL shouldPrintBackgrounds'']"

definition ICoreWebView2PrintSettings_get_ShouldPrintSelectionOnly_C :: cdecl where
  "ICoreWebView2PrintSettings_get_ShouldPrintSelectionOnly_C =
     CDecl ''ICoreWebView2PrintSettings'' ''HRESULT'' ''get_ShouldPrintSelectionOnly'' [''BOOL *shouldPrintSelectionOnly'']"

definition ICoreWebView2PrintSettings_put_ShouldPrintSelectionOnly_C :: cdecl where
  "ICoreWebView2PrintSettings_put_ShouldPrintSelectionOnly_C =
     CDecl ''ICoreWebView2PrintSettings'' ''HRESULT'' ''put_ShouldPrintSelectionOnly'' [''BOOL shouldPrintSelectionOnly'']"

definition ICoreWebView2PrintSettings_get_ShouldPrintHeaderAndFooter_C :: cdecl where
  "ICoreWebView2PrintSettings_get_ShouldPrintHeaderAndFooter_C =
     CDecl ''ICoreWebView2PrintSettings'' ''HRESULT'' ''get_ShouldPrintHeaderAndFooter'' [''BOOL *shouldPrintHeaderAndFooter'']"

definition ICoreWebView2PrintSettings_put_ShouldPrintHeaderAndFooter_C :: cdecl where
  "ICoreWebView2PrintSettings_put_ShouldPrintHeaderAndFooter_C =
     CDecl ''ICoreWebView2PrintSettings'' ''HRESULT'' ''put_ShouldPrintHeaderAndFooter'' [''BOOL shouldPrintHeaderAndFooter'']"

definition ICoreWebView2PrintSettings_get_HeaderTitle_C :: cdecl where
  "ICoreWebView2PrintSettings_get_HeaderTitle_C =
     CDecl ''ICoreWebView2PrintSettings'' ''HRESULT'' ''get_HeaderTitle'' [''LPWSTR *headerTitle'']"

definition ICoreWebView2PrintSettings_put_HeaderTitle_C :: cdecl where
  "ICoreWebView2PrintSettings_put_HeaderTitle_C =
     CDecl ''ICoreWebView2PrintSettings'' ''HRESULT'' ''put_HeaderTitle'' [''LPCWSTR headerTitle'']"

definition ICoreWebView2PrintSettings_get_FooterUri_C :: cdecl where
  "ICoreWebView2PrintSettings_get_FooterUri_C =
     CDecl ''ICoreWebView2PrintSettings'' ''HRESULT'' ''get_FooterUri'' [''LPWSTR *footerUri'']"

definition ICoreWebView2PrintSettings_put_FooterUri_C :: cdecl where
  "ICoreWebView2PrintSettings_put_FooterUri_C =
     CDecl ''ICoreWebView2PrintSettings'' ''HRESULT'' ''put_FooterUri'' [''LPCWSTR footerUri'']"

definition ICoreWebView2ProcessFailedEventArgs_get_ProcessFailedKind_C :: cdecl where
  "ICoreWebView2ProcessFailedEventArgs_get_ProcessFailedKind_C =
     CDecl ''ICoreWebView2ProcessFailedEventArgs'' ''HRESULT'' ''get_ProcessFailedKind'' [''COREWEBVIEW2_PROCESS_FAILED_KIND *processFailedKind'']"

definition ICoreWebView2WebMessageReceivedEventArgs_get_Source_C :: cdecl where
  "ICoreWebView2WebMessageReceivedEventArgs_get_Source_C =
     CDecl ''ICoreWebView2WebMessageReceivedEventArgs'' ''HRESULT'' ''get_Source'' [''LPWSTR *source'']"

definition ICoreWebView2WebMessageReceivedEventArgs_get_WebMessageAsJson_C :: cdecl where
  "ICoreWebView2WebMessageReceivedEventArgs_get_WebMessageAsJson_C =
     CDecl ''ICoreWebView2WebMessageReceivedEventArgs'' ''HRESULT'' ''get_WebMessageAsJson'' [''LPWSTR *webMessageAsJson'']"

definition ICoreWebView2WebMessageReceivedEventArgs_TryGetWebMessageAsString_C :: cdecl where
  "ICoreWebView2WebMessageReceivedEventArgs_TryGetWebMessageAsString_C =
     CDecl ''ICoreWebView2WebMessageReceivedEventArgs'' ''HRESULT'' ''TryGetWebMessageAsString'' [''LPWSTR *webMessageAsString'']"

definition ICoreWebView2WebResourceRequestedEventArgs_get_Request_C :: cdecl where
  "ICoreWebView2WebResourceRequestedEventArgs_get_Request_C =
     CDecl ''ICoreWebView2WebResourceRequestedEventArgs'' ''HRESULT'' ''get_Request'' [''ICoreWebView2WebResourceRequest **request'']"

definition ICoreWebView2WebResourceRequestedEventArgs_get_Response_C :: cdecl where
  "ICoreWebView2WebResourceRequestedEventArgs_get_Response_C =
     CDecl ''ICoreWebView2WebResourceRequestedEventArgs'' ''HRESULT'' ''get_Response'' [''ICoreWebView2WebResourceResponse **response'']"

definition ICoreWebView2WebResourceRequestedEventArgs_put_Response_C :: cdecl where
  "ICoreWebView2WebResourceRequestedEventArgs_put_Response_C =
     CDecl ''ICoreWebView2WebResourceRequestedEventArgs'' ''HRESULT'' ''put_Response'' [''ICoreWebView2WebResourceResponse *response'']"

definition ICoreWebView2WebResourceRequestedEventArgs_GetDeferral_C :: cdecl where
  "ICoreWebView2WebResourceRequestedEventArgs_GetDeferral_C =
     CDecl ''ICoreWebView2WebResourceRequestedEventArgs'' ''HRESULT'' ''GetDeferral'' [''ICoreWebView2Deferral **deferral'']"

definition ICoreWebView2WebResourceRequestedEventArgs_get_ResourceContext_C :: cdecl where
  "ICoreWebView2WebResourceRequestedEventArgs_get_ResourceContext_C =
     CDecl ''ICoreWebView2WebResourceRequestedEventArgs'' ''HRESULT'' ''get_ResourceContext'' [''COREWEBVIEW2_WEB_RESOURCE_CONTEXT *context'']"

section \<open>Tables\<close>

definition ICoreWebView2AcceleratorKeyPressedEventArgsVtbl :: vtable where
  "ICoreWebView2AcceleratorKeyPressedEventArgsVtbl = Vtable ''ICoreWebView2AcceleratorKeyPressedEventArgs''
     [IUnknown_QueryInterface_C, IUnknown_AddRef_C, IUnknown_Release_C,
      ICoreWebView2AcceleratorKeyPressedEventArgs_get_KeyEventKind_C,
      ICoreWebView2AcceleratorKeyPressedEventArgs_get_VirtualKey_C,
      ICoreWebView2AcceleratorKeyPressedEventArgs_get_KeyEventLParam_C,
      ICoreWebView2AcceleratorKeyPressedEventArgs_get_PhysicalKeyStatus_C,
      ICoreWebView2AcceleratorKeyPressedEventArgs_get_Handled_C,
      ICoreWebView2AcceleratorKeyPressedEventArgs_put_Handled_C]"

definition ICoreWebView2AcceleratorKeyPressedEventArgs2Vtbl :: vtable where
  "ICoreWebView2AcceleratorKeyPressedEventArgs2Vtbl = Vtable ''ICoreWebView2AcceleratorKeyPressedEventArgs2''
     [IUnknown_QueryInterface_C,
      IUnknown_AddRef_C,
      IUnknown_Release_C,
      ICoreWebView2AcceleratorKeyPressedEventArgs_get_KeyEventKind_C,
      ICoreWebView2AcceleratorKeyPressedEventArgs_get_VirtualKey_C,
      ICoreWebView2AcceleratorKeyPressedEventArgs_get_KeyEventLParam_C,
      ICoreWebView2AcceleratorKeyPressedEventArgs_get_PhysicalKeyStatus_C,
      ICoreWebView2AcceleratorKeyPressedEventArgs_get_Handled_C,
      ICoreWebView2AcceleratorKeyPressedEventArgs_put_Handled_C,
      CDecl ''ICoreWebView2AcceleratorKeyPressedEventArgs2'' ''HRESULT'' ''get_IsBrowserAcceleratorKeyEnabled'' [''BOOL *value''],
      CDecl ''ICoreWebView2AcceleratorKeyPressedEventArgs2'' ''HRESULT'' ''put_IsBrowserAcceleratorKeyEnabled'' [''BOOL value'']]"

definition ICoreWebView2BasicAuthenticationRequestedEventArgsVtbl :: vtable where
  "ICoreWebView2BasicAuthenticationRequestedEventArgsVtbl = Vtable ''ICoreWebView2BasicAuthenticationRequestedEventArgs''
     [IUnknown_QueryInterface_C,
      IUnknown_AddRef_C,
      IUnknown_Release_C,
      CDecl ''ICoreWebView2BasicAuthenticationRequestedEventArgs'' ''HRESULT'' ''get_Uri'' [''LPWSTR *value''],
      CDecl ''ICoreWebView2BasicAuthenticationRequestedEventArgs'' ''HRESULT'' ''get_Challenge'' [''LPWSTR *challenge''],
      CDecl ''ICoreWebView2BasicAuthenticationRequestedEventArgs'' ''HRESULT'' ''get_Response'' [''ICoreWebView2BasicAuthenticationResponse **response''],
      CDecl ''ICoreWebView2BasicAuthenticationRequestedEventArgs'' ''HRESULT'' ''get_Cancel'' [''BOOL *cancel''],
      CDecl ''ICoreWebView2BasicAuthenticationRequestedEventArgs'' ''HRESULT'' ''put_Cancel'' [''BOOL cancel''],
      CDecl ''ICoreWebView2BasicAuthenticationRequestedEventArgs'' ''HRESULT'' ''GetDeferral'' [''ICoreWebView2Deferral **deferral'']]"

definition ICoreWebView2BasicAuthenticationResponseVtbl :: vtable where
  "ICoreWebView2BasicAuthenticationResponseVtbl = Vtable ''ICoreWebView2BasicAuthenticationResponse''
     [IUnknown_QueryInterface_C,
      IUnknown_AddRef_C,
      IUnknown_Release_C,
      CDecl ''ICoreWebView2BasicAuthenticationResponse'' ''HRESULT'' ''get_UserName'' [''LPWSTR *userName''],
      CDecl ''ICoreWebView2BasicAuthenticationResponse'' ''HRESULT'' ''put_UserName'' [''LPCWSTR userName''],
      CDecl ''ICoreWebView2BasicAuthenticationResponse'' ''HRESULT'' ''get_Password'' [''LPWSTR *password''],
      CDecl ''ICoreWebView2BasicAuthenticationResponse'' ''HRESULT'' ''put_Password'' [''LPCWSTR password'']]"

definition ICoreWebView2BrowserProcessExitedEventArgsVtbl :: vtable where
  "ICoreWebView2BrowserProcessExitedEventArgsVtbl = Vtable ''ICoreWebView2BrowserProcessExitedEventArgs''
     [IUnknown_QueryInterface_C,
      IUnknown_AddRef_C,
      IUnknown_Release_C,
      CDecl ''ICoreWebView2BrowserProcessExitedEventArgs'' ''HRESULT'' ''get_BrowserProcessExitKind'' [''COREWEBVIEW2_BROWSER_PROCESS_EXIT_KIND *browserProcessExitKind''],
      CDecl ''ICoreWebView2BrowserProcessExitedEventArgs'' ''HRESULT'' ''get_BrowserProcessId'' [''UINT32 *value'']]"

definition ICoreWebView2ContentLoadingEventArgsVtbl :: vtable where
  "ICoreWebView2ContentLoadingEventArgsVtbl = Vtable ''ICoreWebView2ContentLoadingEventArgs''
     [IUnknown_QueryInterface_C,
      IUnknown_AddRef_C,
      IUnknown_Release_C,
      CDecl ''ICoreWebView2ContentLoadingEventArgs'' ''HRESULT'' ''get_IsErrorPage'' [''BOOL *isErrorPage''],
      CDecl ''ICoreWebView2ContentLoadingEventArgs'' ''HRESULT'' ''get_NavigationId'' [''UINT64 *navigationId'']]"

definition ICoreWebView2ContextMenuRequestedEventArgsVtbl :: vtable where
  "ICoreWebView2ContextMenuRequestedEventArgsVtbl = Vtable ''ICoreWebView2ContextMenuRequestedEventArgs''
     [IUnknown_QueryInterface_C,
      IUnknown_AddRef_C,
      IUnknown_Release_C,
      CDecl ''ICoreWebView2ContextMenuRequestedEventArgs'' ''HRESULT'' ''get_MenuItems'' [''ICoreWebView2ContextMenuItemCollection **value''],
      CDecl ''ICoreWebView2ContextMenuRequestedEventArgs'' ''HRESULT'' ''get_ContextMenuTarget'' [''ICoreWebView2ContextMenuTarget **value''],
      CDecl ''ICoreWebView2ContextMenuRequestedEventArgs'' ''HRESULT'' ''get_Location'' [''POINT *value''],
      CDecl ''ICoreWebView2ContextMenuRequestedEventArgs'' ''HRESULT'' ''put_SelectedCommandId'' [''INT32 value''],
      CDecl ''ICoreWebView2ContextMenuRequestedEventArgs'' ''HRESULT'' ''get_SelectedCommandId'' [''INT32 *value''],
      CDecl ''ICoreWebView2ContextMenuRequestedEventArgs'' ''HRESULT'' ''put_Handled'' [''BOOL value''],
      CDecl ''ICoreWebView2ContextMenuRequestedEventArgs'' ''HRESULT'' ''get_Handled'' [''BOOL *value''],
      CDecl ''ICoreWebView2ContextMenuRequestedEventArgs'' ''HRESULT'' ''GetDeferral'' [''ICoreWebView2Deferral **deferral'']]"

definition ICoreWebView2CookieVtbl :: vtable where
  "ICoreWebView2CookieVtbl = Vtable ''ICoreWebView2Cookie''
     [IUnknown_QueryInterface_C,
      IUnknown_AddRef_C,
      IUnknown_Release_C,
      CDecl ''ICoreWebView2Cookie'' ''HRESULT'' ''get_Name'' [''LPWSTR *name''],
      CDecl ''ICoreWebView2Cookie'' ''HRESULT'' ''get_Value'' [''LPWSTR *value''],
      CDecl ''ICoreWebView2Cookie'' ''HRESULT'' ''put_Value'' [''LPCWSTR value''],
      CDecl ''ICoreWebView2Cookie'' ''HRESULT'' ''get_Domain'' [''LPWSTR *domain''],
      CDecl ''ICoreWebView2Cookie'' ''HRESULT'' ''get_Path'' [''LPWSTR *path''],
      CDecl ''ICoreWebView2Cookie'' ''HRESULT'' ''get_Expires'' [''double *expires''],
      CDecl ''ICoreWebView2Cookie'' ''HRESULT'' ''put_Expires'' [''double expires''],
      CDecl ''ICoreWebView2Cookie'' ''HRESULT'' ''get_IsHttpOnly'' [''BOOL *isHttpOnly''],
      CDecl ''ICoreWebView2Cookie'' ''HRESULT'' ''put_IsHttpOnly'' [''BOOL isHttpOnly''],
      CDecl ''ICoreWebView2Cookie'' ''HRESULT'' ''get_SameSite'' [''COREWEBVIEW2_COOKIE_SAME_SITE_KIND *sameSite''],
      CDecl ''ICoreWebView2Cookie'' ''HRESULT'' ''put_SameSite'' [''COREWEBVIEW2_COOKIE_SAME_SITE_KIND sameSite''],
      CDecl ''ICoreWebView2Cookie'' ''HRESULT'' ''get_IsSecure'' [''BOOL *isSecure''],
      CDecl ''ICoreWebView2Cookie'' ''HRESULT'' ''put_IsSecure'' [''BOOL isSecure''],
      CDecl ''ICoreWebView2Cookie'' ''HRESULT'' ''get_IsSession'' [''BOOL *isSession'']]"

definition ICoreWebView2CookieListVtbl :: vtable where
  "ICoreWebView2CookieListVtbl = Vtable ''ICoreWebView2CookieList''
     [IUnknown_QueryInterface_C,
      IUnknown_AddRef_C,
      IUnknown_Release_C,
      CDecl ''ICoreWebView2CookieList'' ''HRESULT'' ''get_Count'' [''UINT *count''],
      CDecl ''ICoreWebView2CookieList'' ''HRESULT'' ''GetValueAtIndex'' [''UINT index'', ''ICoreWebView2Cookie **cookie'']]"

definition ICoreWebView2CertificateVtbl :: vtable where
  "ICoreWebView2CertificateVtbl = Vtable ''ICoreWebView2Certificate''
     [IUnknown_QueryInterface_C,
      IUnknown_AddRef_C,
      IUnknown_Release_C,
      CDecl ''ICoreWebView2Certificate'' ''HRESULT'' ''get_Subject'' [''LPWSTR *value''],
      CDecl ''ICoreWebView2Certificate'' ''HRESULT'' ''get_Issuer'' [''LPWSTR *value''],
      CDecl ''ICoreWebView2Certificate'' ''HRESULT'' ''get_ValidFrom'' [''double *value''],
      CDecl ''ICoreWebView2Certificate'' ''HRESULT'' ''get_ValidTo'' [''double *value''],
      CDecl ''ICoreWebView2Certificate'' ''HRESULT'' ''get_DerEncodedSerialNumber'' [''LPWSTR *value''],
      CDecl ''ICoreWebView2Certificate'' ''HRESULT'' ''get_DisplayName'' [''LPWSTR *value''],
      CDecl ''ICoreWebView2Certificate'' ''HRESULT'' ''ToPemEncoding'' [''LPWSTR *pemEncodedData''],
      CDecl ''ICoreWebView2Certificate'' ''HRESULT'' ''get_PemEncodedIssuerCertificateChain'' [''ICoreWebView2StringCollection **value'']]"

definition ICoreWebView2ClientCertificateVtbl :: vtable where
  "ICoreWebView2ClientCertificateVtbl = Vtable ''ICoreWebView2ClientCertificate''
     [IUnknown_QueryInterface_C,
      IUnknown_AddRef_C,
      IUnknown_Release_C,
      CDecl ''ICoreWebView2ClientCertificate'' ''HRESULT'' ''get_Subject'' [''LPWSTR *value''],
      CDecl ''ICoreWebView2ClientCertificate'' ''HRESULT'' ''get_Issuer'' [''LPWSTR *value''],
      CDecl ''ICoreWebView2ClientCertificate'' ''HRESULT'' ''get_ValidFrom'' [''double *value''],
      CDecl ''ICoreWebView2ClientCertificate'' ''HRESULT'' ''get_ValidTo'' [''double *value''],
      CDecl ''ICoreWebView2ClientCertificate'' ''HRESULT'' ''get_DerEncodedSerialNumber'' [''LPWSTR *value''],
      CDecl ''ICoreWebView2ClientCertificate'' ''HRESULT'' ''get_DisplayName'' [''LPWSTR *value''],
      CDecl ''ICoreWebView2ClientCertificate'' ''HRESULT'' ''ToPemEncoding'' [''LPWSTR *pemEncodedData''],
      CDecl ''ICoreWebView2ClientCertificate'' ''HRESULT'' ''get_PemEncodedIssuerCertificateChain'' [''ICoreWebView2StringCollection **value''],
      CDecl ''ICoreWebView2ClientCertificate'' ''HRESULT'' ''get_Kind'' [''COREWEBVIEW2_CLIENT_CERTIFICATE_KIND *value'']]"

definition ICoreWebView2StringCollectionVtbl :: vtable where
  "ICoreWebView2StringCollectionVtbl = Vtable ''ICoreWebView2StringCollection''
     [IUnknown_QueryInterface_C,
      IUnknown_AddRef_C,
      IUnknown_Release_C,
      CDecl ''ICoreWebView2StringCollection'' ''HRESULT'' ''get_Count'' [''UINT *value''],
      CDecl ''ICoreWebView2StringCollection'' ''HRESULT'' ''GetValueAtIndex'' [''UINT index'', ''LPWSTR *value'']]"

definition ICoreWebView2ClientCertificateCollectionVtbl :: vtable where
  "ICoreWebView2ClientCertificateCollectionVtbl = Vtable ''ICoreWebView2ClientCertificateCollection''
     [IUnknown_QueryInterface_C,
      IUnknown_AddRef_C,
      IUnknown_Release_C,
      CDecl ''ICoreWebView2ClientCertificateCollection'' ''HRESULT'' ''get_Count'' [''UINT *value''],
      CDecl ''ICoreWebView2ClientCertificateCollection'' ''HRESULT'' ''GetValueAtIndex'' [''UINT index'', ''ICoreWebView2ClientCertificate **certificate'']]"

definition ICoreWebView2ClientCertificateRequestedEventArgsVtbl :: vtable where
  "ICoreWebView2ClientCertificateRequestedEventArgsVtbl = Vtable ''ICoreWebView2ClientCertificateRequestedEventArgs''
     [IUnknown_QueryInterface_C,
      IUnknown_AddRef_C,
      IUnknown_Release_C,
      CDecl ''ICoreWebView2ClientCertificateRequestedEventArgs'' ''HRESULT'' ''get_Host'' [''LPWSTR *value''],
      CDecl ''ICoreWebView2ClientCertificateRequestedEventArgs'' ''HRESULT'' ''get_Port'' [''int *value''],
      CDecl ''ICoreWebView2ClientCertificateRequestedEventArgs'' ''HRESULT'' ''get_IsProxy'' [''BOOL *value''],
      CDecl ''ICoreWebView2ClientCertificateRequestedEventArgs'' ''HRESULT'' ''get_AllowedCertificateAuthorities'' [''ICoreWebView2StringCollection **value''],
      CDecl ''ICoreWebView2ClientCertificateRequestedEventArgs'' ''HRESULT'' ''get_MutuallyTrustedCertificates'' [''ICoreWebView2ClientCertificateCollection **value''],
      CDecl ''ICoreWebView2ClientCertificateRequestedEventArgs'' ''HRESULT'' ''get_SelectedCertificate'' [''ICoreWebView2ClientCertificate **value''],
      CDecl ''ICoreWebView2ClientCertificateRequestedEventArgs'' ''HRESULT'' ''put_SelectedCertificate'' [''ICoreWebView2ClientCertificate *value''],
      CDecl ''ICoreWebView2ClientCertificateRequestedEventArgs'' ''HRESULT'' ''get_Cancel'' [''BOOL *value''],
      CDecl ''ICoreWebView2ClientCertificateRequestedEventArgs'' ''HRESULT'' ''put_Cancel'' [''BOOL value''],
      CDecl ''ICoreWebView2ClientCertificateRequestedEventArgs'' ''HRESULT'' ''get_Handled'' [''BOOL *value''],
      CDecl ''ICoreWebView2ClientCertificateRequestedEventArgs'' ''HRESULT'' ''put_Handled'' [''BOOL value''],
      CDecl ''ICoreWebView2ClientCertificateRequestedEventArgs'' ''HRESULT'' ''GetDeferral'' [''ICoreWebView2Deferral **deferral'']]"

definition ICoreWebView2ContextMenuItemVtbl :: vtable where
  "ICoreWebView2ContextMenuItemVtbl = Vtable ''ICoreWebView2ContextMenuItem''
     [IUnknown_QueryInterface_C,
      IUnknown_AddRef_C,
      IUnknown_Release_C,
      CDecl ''ICoreWebView2ContextMenuItem'' ''HRESULT'' ''get_Name'' [''LPWSTR *value''],
      CDecl ''ICoreWebView2ContextMenuItem'' ''HRESULT'' ''get_Label'' [''LPWSTR *value''],
      CDecl ''ICoreWebView2ContextMenuItem'' ''HRESULT'' ''get_CommandId'' [''INT32 *value''],
      CDecl ''ICoreWebView2ContextMenuItem'' ''HRESULT'' ''get_ShortcutKeyDescription'' [''LPWSTR *value''],
      CDecl ''ICoreWebView2ContextMenuItem'' ''HRESULT'' ''get_Icon'' [''IStream **value''],
      CDecl ''ICoreWebView2ContextMenuItem'' ''HRESULT'' ''get_Kind'' [''COREWEBVIEW2_CONTEXT_MENU_ITEM_KIND *value''],
      CDecl ''ICoreWebView2ContextMenuItem'' ''HRESULT'' ''put_IsEnabled'' [''BOOL value''],
      CDecl ''ICoreWebView2ContextMenuItem'' ''HRESULT'' ''get_IsEnabled'' [''BOOL *value''],
      CDecl ''ICoreWebView2ContextMenuItem'' ''HRESULT'' ''put_IsChecked'' [''BOOL value''],
      CDecl ''ICoreWebView2ContextMenuItem'' ''HRESULT'' ''get_IsChecked'' [''BOOL *value''],
      CDecl ''ICoreWebView2ContextMenuItem'' ''HRESULT'' ''get_Children'' [''ICoreWebView2ContextMenuItemCollection **value''],
      CDecl ''ICoreWebView2ContextMenuItem'' ''HRESULT'' ''add_CustomItemSelected'' [''ICoreWebView2CustomItemSelectedEventHandler *eventHandler'', ''EventRegistrationToken *token''],
      CDecl ''ICoreWebView2ContextMenuItem'' ''HRESULT'' ''remove_CustomItemSelected'' [''EventRegistrationToken token'']]"

definition ICoreWebView2ContextMenuItemCollectionVtbl :: vtable where
  "ICoreWebView2ContextMenuItemCollectionVtbl = Vtable ''ICoreWebView2ContextMenuItemCollection''
     [IUnknown_QueryInterface_C,
      IUnknown_AddRef_C,
      IUnknown_Release_C,
      CDecl ''ICoreWebView2ContextMenuItemCollection'' ''HRESULT'' ''get_Count'' [''UINT32 *value''],
      CDecl ''ICoreWebView2ContextMenuItemCollection'' ''HRESULT'' ''GetValueAtIndex'' [''UINT32 index'', ''ICoreWebView2ContextMenuItem **value''],
      CDecl ''ICoreWebView2ContextMenuItemCollection'' ''HRESULT'' ''RemoveValueAtIndex'' [''UINT32 index''],
      CDecl ''ICoreWebView2ContextMenuItemCollection'' ''HRESULT'' ''InsertValueAtIndex'' [''UINT32 index'', ''ICoreWebView2ContextMenuItem *value'']]"

definition ICoreWebView2ContextMenuTargetVtbl :: vtable where
  "ICoreWebView2ContextMenuTargetVtbl = Vtable ''ICoreWebView2ContextMenuTarget''
     [IUnknown_QueryInterface_C,
      IUnknown_AddRef_C,
      IUnknown_Release_C,
      CDecl ''ICoreWebView2ContextMenuTarget'' ''HRESULT'' ''get_Kind'' [''COREWEBVIEW2_CONTEXT_MENU_TARGET_KIND *value''],
      CDecl ''ICoreWebView2ContextMenuTarget'' ''HRESULT'' ''get_IsEditable'' [''BOOL *value''],
      CDecl ''ICoreWebView2ContextMenuTarget'' ''HRESULT'' ''get_IsRequestedForMainFrame'' [''BOOL *value''],
      CDecl ''ICoreWebView2ContextMenuTarget'' ''HRESULT'' ''get_PageUri'' [''LPWSTR *value''],
      CDecl ''ICoreWebView2ContextMenuTarget'' ''HRESULT'' ''get_FrameUri'' [''LPWSTR *value''],
      CDecl ''ICoreWebView2ContextMenuTarget'' ''HRESULT'' ''get_HasLinkUri'' [''BOOL *value''],
      CDecl ''ICoreWebView2ContextMenuTarget'' ''HRESULT'' ''get_LinkUri'' [''LPWSTR *value''],
      CDecl ''ICoreWebView2ContextMenuTarget'' ''HRESULT'' ''get_HasLinkText'' [''BOOL *value''],
      CDecl ''ICoreWebView2ContextMenuTarget'' ''HRESULT'' ''get_LinkText'' [''LPWSTR *value''],
      CDecl ''ICoreWebView2ContextMenuTarget'' ''HRESULT'' ''get_HasSourceUri'' [''BOOL *value''],
      CDecl ''ICoreWebView2ContextMenuTarget'' ''HRESULT'' ''get_SourceUri'' [''LPWSTR *value''],
      CDecl ''ICoreWebView2ContextMenuTarget'' ''HRESULT'' ''get_HasSelection'' [''BOOL *value''],
      CDecl ''ICoreWebView2ContextMenuTarget'' ''HRESULT'' ''get_SelectionText'' [''LPWSTR *value'']]"

definition ICoreWebView2CustomSchemeRegistrationVtbl :: vtable where
  "ICoreWebView2CustomSchemeRegistrationVtbl = Vtable ''ICoreWebView2CustomSchemeRegistration''
     [IUnknown_QueryInterface_C,
      IUnknown_AddRef_C,
      IUnknown_Release_C,
      CDecl ''ICoreWebView2CustomSchemeRegistration'' ''HRESULT'' ''get_SchemeName'' [''LPWSTR *schemeName''],
      CDecl ''ICoreWebView2CustomSchemeRegistration'' ''HRESULT'' ''get_TreatAsSecure'' [''BOOL *treatAsSecure''],
      CDecl ''ICoreWebView2CustomSchemeRegistration'' ''HRESULT'' ''put_TreatAsSecure'' [''BOOL value''],
      CDecl ''ICoreWebView2CustomSchemeRegistration'' ''HRESULT'' ''GetAllowedOrigins'' [''UINT32 *allowedOriginsCount'', ''LPWSTR **allowedOrigins''],
      CDecl ''ICoreWebView2CustomSchemeRegistration'' ''HRESULT'' ''SetAllowedOrigins'' [''UINT32 allowedOriginsCount'', ''LPCWSTR *allowedOrigins''],
      CDecl ''ICoreWebView2CustomSchemeRegistration'' ''HRESULT'' ''get_HasAuthorityComponent'' [''BOOL *hasAuthorityComponent''],
      CDecl ''ICoreWebView2CustomSchemeRegistration'' ''HRESULT'' ''put_HasAuthorityComponent'' [''BOOL hasAuthorityComponent'']]"

definition ICoreWebView2DOMContentLoadedEventArgsVtbl :: vtable where
  "ICoreWebView2DOMContentLoadedEventArgsVtbl = Vtable ''ICoreWebView2DOMContentLoadedEventArgs''
     [IUnknown_QueryInterface_C,
      IUnknown_AddRef_C,
      IUnknown_Release_C,
      CDecl ''ICoreWebView2DOMContentLoadedEventArgs'' ''HRESULT'' ''get_NavigationId'' [''UINT64 *navigationId'']]"

definition ICoreWebView2DeferralVtbl :: vtable where
  "ICoreWebView2DeferralVtbl = Vtable ''ICoreWebView2Deferral''
     [IUnknown_QueryInterface_C,
      IUnknown_AddRef_C,
      IUnknown_Release_C,
      CDecl ''ICoreWebView2Deferral'' ''HRESULT'' ''Complete'' []]"

definition ICoreWebView2DevToolsProtocolEventReceivedEventArgsVtbl :: vtable where
  "ICoreWebView2DevToolsProtocolEventReceivedEventArgsVtbl = Vtable ''ICoreWebView2DevToolsProtocolEventReceivedEventArgs''
     [IUnknown_QueryInterface_C, IUnknown_AddRef_C, IUnknown_Release_C,
      ICoreWebView2DevToolsProtocolEventReceivedEventArgs_get_ParameterObjectAsJson_C]"

definition ICoreWebView2DevToolsProtocolEventReceivedEventArgs2Vtbl :: vtable where
  "ICoreWebView2DevToolsProtocolEventReceivedEventArgs2Vtbl = Vtable ''ICoreWebView2DevToolsProtocolEventReceivedEventArgs2''
     [IUnknown_QueryInterface_C,
      IUnknown_AddRef_C,
      IUnknown_Release_C,
      ICoreWebView2DevToolsProtocolEventReceivedEventArgs_get_ParameterObjectAsJson_C,
      CDecl ''ICoreWebView2DevToolsProtocolEventReceivedEventArgs2'' ''HRESULT'' ''get_SessionId'' [''LPWSTR *sessionId'']]"

definition ICoreWebView2DevToolsProtocolEventReceiverVtbl :: vtable where
  "ICoreWebView2DevToolsProtocolEventReceiverVtbl = Vtable ''ICoreWebView2DevToolsProtocolEventReceiver''
     [IUnknown_QueryInterface_C,
      IUnknown_AddRef_C,
      IUnknown_Release_C,
      CDecl ''ICoreWebView2DevToolsProtocolEventReceiver'' ''HRESULT'' ''add_DevToolsProtocolEventReceived'' [''ICoreWebView2DevToolsProtocolEventReceivedEventHandler *handler'', ''EventRegistrationToken *token''],
      CDecl ''ICoreWebView2DevToolsProtocolEventReceiver'' ''HRESULT'' ''remove_DevToolsProtocolEventReceived'' [''EventRegistrationToken token'']]"

definition ICoreWebView2DownloadStartingEventArgsVtbl :: vtable where
  "ICoreWebView2DownloadStartingEventArgsVtbl = Vtable ''ICoreWebView2DownloadStartingEventArgs''
     [IUnknown_QueryInterface_C,
      IUnknown_AddRef_C,
      IUnknown_Release_C,
      CDecl ''ICoreWebView2DownloadStartingEventArgs'' ''HRESULT'' ''get_DownloadOperation'' [''ICoreWebView2DownloadOperation **downloadOperation''],
      CDecl ''ICoreWebView2DownloadStartingEventArgs'' ''HRESULT'' ''get_Cancel'' [''BOOL *cancel''],
      CDecl ''ICoreWebView2DownloadStartingEventArgs'' ''HRESULT'' ''put_Cancel'' [''BOOL cancel''],
      CDecl ''ICoreWebView2DownloadStartingEventArgs'' ''HRESULT'' ''get_ResultFilePath'' [''LPWSTR *resultFilePath''],
      CDecl ''ICoreWebView2DownloadStartingEventArgs'' ''HRESULT'' ''put_ResultFilePath'' [''LPCWSTR resultFilePath''],
      CDecl ''ICoreWebView2DownloadStartingEventArgs'' ''HRESULT'' ''get_Handled'' [''BOOL *handled''],
      CDecl ''ICoreWebView2DownloadStartingEventArgs'' ''HRESULT'' ''put_Handled'' [''BOOL handled''],
      CDecl ''ICoreWebView2DownloadStartingEventArgs'' ''HRESULT'' ''GetDeferral'' [''ICoreWebView2Deferral **deferral'']]"

definition ICoreWebView2FrameCreatedEventArgsVtbl :: vtable where
  "ICoreWebView2FrameCreatedEventArgsVtbl = Vtable ''ICoreWebView2FrameCreatedEventArgs''
     [IUnknown_QueryInterface_C,
      IUnknown_AddRef_C,
      IUnknown_Release_C,
      CDecl ''ICoreWebView2FrameCreatedEventArgs'' ''HRESULT'' ''get_Frame'' [''ICoreWebView2Frame **frame'']]"

definition ICoreWebView2HttpHeadersCollectionIteratorVtbl :: vtable where
  "ICoreWebView2HttpHeadersCollectionIteratorVtbl = Vtable ''ICoreWebView2HttpHeadersCollectionIterator''
     [IUnknown_QueryInterface_C,
      IUnknown_AddRef_C,
      IUnknown_Release_C,
      CDecl ''ICoreWebView2HttpHeadersCollectionIterator'' ''HRESULT'' ''GetCurrentHeader'' [''LPWSTR *name'', ''LPWSTR *value''],
      CDecl ''ICoreWebView2HttpHeadersCollectionIterator'' ''HRESULT'' ''get_HasCurrentHeader'' [''BOOL *hasCurrent''],
      CDecl ''ICoreWebView2HttpHeadersCollectionIterator'' ''HRESULT'' ''MoveNext'' [''BOOL *hasNext'']]"

definition ICoreWebView2HttpRequestHeadersVtbl :: vtable where
  "ICoreWebView2HttpRequestHeadersVtbl = Vtable ''ICoreWebView2HttpRequestHeaders''
     [IUnknown_QueryInterface_C,
      IUnknown_AddRef_C,
      IUnknown_Release_C,
      CDecl ''ICoreWebView2HttpRequestHeaders'' ''HRESULT'' ''GetHeader'' [''LPCWSTR name'', ''LPWSTR *value''],
      CDecl ''ICoreWebView2HttpRequestHeaders'' ''HRESULT'' ''GetHeaders'' [''LPCWSTR name'', ''ICoreWebView2HttpHeadersCollectionIterator **iterator''],
      CDecl ''ICoreWebView2HttpRequestHeaders'' ''HRESULT'' ''Contains'' [''LPCWSTR name'', ''BOOL *contains''],
      CDecl ''ICoreWebView2HttpRequestHeaders'' ''HRESULT'' ''SetHeader'' [''LPCWSTR name'', ''LPCWSTR value''],
      CDecl ''ICoreWebView2HttpRequestHeaders'' ''HRESULT'' ''RemoveHeader'' [''LPCWSTR name''],
      CDecl ''ICoreWebView2HttpRequestHeaders'' ''HRESULT'' ''GetIterator'' [''ICoreWebView2HttpHeadersCollectionIterator **iterator'']]"

definition ICoreWebView2HttpResponseHeadersVtbl :: vtable where
  "ICoreWebView2HttpResponseHeadersVtbl = Vtable ''ICoreWebView2HttpResponseHeaders''
     [IUnknown_QueryInterface_C,
      IUnknown_AddRef_C,
      IUnknown_Release_C,
      CDecl ''ICoreWebView2HttpResponseHeaders'' ''HRESULT'' ''AppendHeader'' [''LPCWSTR name'', ''LPCWSTR value''],
      CDecl ''ICoreWebView2HttpResponseHeaders'' ''HRESULT'' ''Contains'' [''LPCWSTR name'', ''BOOL *contains''],
      CDecl ''ICoreWebView2HttpResponseHeaders'' ''HRESULT'' ''GetHeader'' [''LPCWSTR name'', ''LPWSTR *value''],
      CDecl ''ICoreWebView2HttpResponseHeaders'' ''HRESULT'' ''GetHeaders'' [''LPCWSTR name'', ''ICoreWebView2HttpHeadersCollectionIterator **iterator''],
      CDecl ''ICoreWebView2HttpResponseHeaders'' ''HRESULT'' ''GetIterator'' [''ICoreWebView2HttpHeadersCollectionIterator **iterator'']]"

definition ICoreWebView2LaunchingExternalUriSchemeEventArgsVtbl :: vtable where
  "ICoreWebView2LaunchingExternalUriSchemeEventArgsVtbl = Vtable ''ICoreWebView2LaunchingExternalUriSchemeEventArgs''
     [IUnknown_QueryInterface_C,
      IUnknown_AddRef_C,
      IUnknown_Release_C,
      CDecl ''ICoreWebView2LaunchingExternalUriSchemeEventArgs'' ''HRESULT'' ''get_Uri'' [''LPWSTR *value''],
      CDecl ''ICoreWebView2LaunchingExternalUriSchemeEventArgs'' ''HRESULT'' ''get_InitiatingOrigin'' [''LPWSTR *value''],
      CDecl ''ICoreWebView2LaunchingExternalUriSchemeEventArgs'' ''HRESULT'' ''get_IsUserInitiated'' [''BOOL *value''],
      CDecl ''ICoreWebView2LaunchingExternalUriSchemeEventArgs'' ''HRESULT'' ''get_Cancel'' [''BOOL *value''],
      CDecl ''ICoreWebView2LaunchingExternalUriSchemeEventArgs'' ''HRESULT'' ''put_Cancel'' [''BOOL value''],
      CDecl ''ICoreWebView2LaunchingExternalUriSchemeEventArgs'' ''HRESULT'' ''GetDeferral'' [''ICoreWebView2Deferral **value'']]"

definition ICoreWebView2MoveFocusRequestedEventArgsVtbl :: vtable where
  "ICoreWebView2MoveFocusRequestedEventArgsVtbl = Vtable ''ICoreWebView2MoveFocusRequestedEventArgs''
     [IUnknown_QueryInterface_C,
      IUnknown_AddRef_C,
      IUnknown_Release_C,
      CDecl ''ICoreWebView2MoveFocusRequestedEventArgs'' ''HRESULT'' ''get_Reason'' [''COREWEBVIEW2_MOVE_FOCUS_REASON *reason''],
      CDecl ''ICoreWebView2MoveFocusRequestedEventArgs'' ''HRESULT'' ''get_Handled'' [''BOOL *value''],
      CDecl ''ICoreWebView2MoveFocusRequestedEventArgs'' ''HRESULT'' ''put_Handled'' [''BOOL value'']]"

definition ICoreWebView2NavigationCompletedEventArgsVtbl :: vtable where
  "ICoreWebView2NavigationCompletedEventArgsVtbl = Vtable ''ICoreWebView2NavigationCompletedEventArgs''
     [IUnknown_QueryInterface_C, IUnknown_AddRef_C, IUnknown_Release_C,
      ICoreWebView2NavigationCompletedEventArgs_get_IsSuccess_C,
      ICoreWebView2NavigationCompletedEventArgs_get_WebErrorStatus_C,
      ICoreWebView2NavigationCompletedEventArgs_get_NavigationId_C]"

definition ICoreWebView2NavigationCompletedEventArgs2Vtbl :: vtable where
  "ICoreWebView2NavigationCompletedEventArgs2Vtbl = Vtable ''ICoreWebView2NavigationCompletedEventArgs2''
     [IUnknown_QueryInterface_C,
      IUnknown_AddRef_C,
      IUnknown_Release_C,
      ICoreWebView2NavigationCompletedEventArgs_get_IsSuccess_C,
      ICoreWebView2NavigationCompletedEventArgs_get_WebErrorStatus_C,
      ICoreWebView2NavigationCompletedEventArgs_get_NavigationId_C,
      CDecl ''ICoreWebView2NavigationCompletedEventArgs2'' ''HRESULT'' ''get_HttpStatusCode'' [''int *http_status_code'']]"

definition ICoreWebView2NavigationStartingEventArgsVtbl :: vtable where
  "ICoreWebView2NavigationStartingEventArgsVtbl = Vtable ''ICoreWebView2NavigationStartingEventArgs''
     [IUnknown_QueryInterface_C, IUnknown_AddRef_C, IUnknown_Release_C,
      ICoreWebView2NavigationStartingEventArgs_get_Uri_C,
      ICoreWebView2NavigationStartingEventArgs_get_IsUserInitiated_C,
      ICoreWebView2NavigationStartingEventArgs_get_IsRedirected_C,
      ICoreWebView2NavigationStartingEventArgs_get_RequestHeaders_C,
      ICoreWebView2NavigationStartingEventArgs_get_Cancel_C, ICoreWebView2NavigationStartingEventArgs_put_Cancel_C,
      ICoreWebView2NavigationStartingEventArgs_get_NavigationId_C]"

definition ICoreWebView2NavigationStartingEventArgs2Vtbl :: vtable where
  "ICoreWebView2NavigationStartingEventArgs2Vtbl = Vtable ''ICoreWebView2NavigationStartingEventArgs2''
     [IUnknown_QueryInterface_C, IUnknown_AddRef_C, IUnknown_Release_C,
      ICoreWebView2NavigationStartingEventArgs_get_Uri_C,
      ICoreWebView2NavigationStartingEventArgs_get_IsUserInitiated_C,
      ICoreWebView2NavigationStartingEventArgs_get_IsRedirected_C,
      ICoreWebView2NavigationStartingEventArgs_get_RequestHeaders_C,
      ICoreWebView2NavigationStartingEventArgs_get_Cancel_C, ICoreWebView2NavigationStartingEventArgs_put_Cancel_C,
      ICoreWebView2NavigationStartingEventArgs_get_NavigationId_C,
      ICoreWebView2NavigationStartingEventArgs2_get_AdditionalAllowedFrameAncestors_C,
      ICoreWebView2NavigationStartingEventArgs2_put_AdditionalAllowedFrameAncestors_C]"

definition ICoreWebView2NavigationStartingEventArgs3Vtbl :: vtable where
  "ICoreWebView2NavigationStartingEventArgs3Vtbl = Vtable ''ICoreWebView2NavigationStartingEventArgs3''
     [IUnknown_QueryInterface_C,
      IUnknown_AddRef_C,
      IUnknown_Release_C,
      ICoreWebView2NavigationStartingEventArgs_get_Uri_C,
      ICoreWebView2NavigationStartingEventArgs_get_IsUserInitiated_C,
      ICoreWebView2NavigationStartingEventArgs_get_IsRedirected_C,
      ICoreWebView2NavigationStartingEventArgs_get_RequestHeaders_C,
      ICoreWebView2NavigationStartingEventArgs_get_Cancel_C,
      ICoreWebView2NavigationStartingEventArgs_put_Cancel_C,
      ICoreWebView2NavigationStartingEventArgs_get_NavigationId_C,
      ICoreWebView2NavigationStartingEventArgs2_get_AdditionalAllowedFrameAncestors_C,
      ICoreWebView2NavigationStartingEventArgs2_put_AdditionalAllowedFrameAncestors_C,
      CDecl ''ICoreWebView2NavigationStartingEventArgs3'' ''HRESULT'' ''get_NavigationKind'' [''COREWEBVIEW2_NAVIGATION_KIND *navigation_kind'']]"

definition ICoreWebView2NewWindowRequestedEventArgsVtbl :: vtable where
  "ICoreWebView2NewWindowRequestedEventArgsVtbl = Vtable ''ICoreWebView2NewWindowRequestedEventArgs''
     [IUnknown_QueryInterface_C, IUnknown_AddRef_C, IUnknown_Release_C,
      ICoreWebView2NewWindowRequestedEventArgs_get_Uri_C, ICoreWebView2NewWindowRequestedEventArgs_put_NewWindow_C,
      ICoreWebView2NewWindowRequestedEventArgs_get_NewWindow_C,
      ICoreWebView2NewWindowRequestedEventArgs_put_Handled_C, ICoreWebView2NewWindowRequestedEventArgs_get_Handled_C,
      ICoreWebView2NewWindowRequestedEventArgs_get_IsUserInitiated_C,
      ICoreWebView2NewWindowRequestedEventArgs_GetDeferral_C,
      ICoreWebView2NewWindowRequestedEventArgs_get_WindowFeatures_C]"

definition ICoreWebView2NewWindowRequestedEventArgs2Vtbl :: vtable where
  "ICoreWebView2NewWindowRequestedEventArgs2Vtbl = Vtable ''ICoreWebView2NewWindowRequestedEventArgs2''
     [IUnknown_QueryInterface_C, IUnknown_AddRef_C, IUnknown_Release_C,
      ICoreWebView2NewWindowRequestedEventArgs_get_Uri_C, ICoreWebView2NewWindowRequestedEventArgs_put_NewWindow_C,
      ICoreWebView2NewWindowRequestedEventArgs_get_NewWindow_C,
      ICoreWebView2NewWindowRequestedEventArgs_put_Handled_C, ICoreWebView2NewWindowRequestedEventArgs_get_Handled_C,
      ICoreWebView2NewWindowRequestedEventArgs_get_IsUserInitiated_C,
      ICoreWebView2NewWindowRequestedEventArgs_GetDeferral_C,
      ICoreWebView2NewWindowRequestedEventArgs_get_WindowFeatures_C,
      ICoreWebView2NewWindowRequestedEventArgs2_get_Name_C]"

definition ICoreWebView2NewWindowRequestedEventArgs3Vtbl :: vtable where
  "ICoreWebView2NewWindowRequestedEventArgs3Vtbl = Vtable ''ICoreWebView2NewWindowRequestedEventArgs3''
     [IUnknown_QueryInterface_C,
      IUnknown_AddRef_C,
      IUnknown_Release_C,
      ICoreWebView2NewWindowRequestedEventArgs_get_Uri_C,
      ICoreWebView2NewWindowRequestedEventArgs_put_NewWindow_C,
      ICoreWebView2NewWindowRequestedEventArgs_get_NewWindow_C,
      ICoreWebView2NewWindowRequestedEventArgs_put_Handled_C,
      ICoreWebView2NewWindowRequestedEventArgs_get_Handled_C,
      ICoreWebView2NewWindowRequestedEventArgs_get_IsUserInitiated_C,
      ICoreWebView2NewWindowRequestedEventArgs_GetDeferral_C,
      ICoreWebView2NewWindowRequestedEventArgs_get_WindowFeatures_C,
      ICoreWebView2NewWindowRequestedEventArgs2_get_Name_C,
      CDecl ''ICoreWebView2NewWindowRequestedEventArgs3'' ''HRESULT'' ''get_OriginalSourceFrameInfo'' [''ICoreWebView2FrameInfo **frameInfo'']]"

definition ICoreWebView2PermissionRequestedEventArgsVtbl :: vtable where
  "ICoreWebView2PermissionRequestedEventArgsVtbl = Vtable ''ICoreWebView2PermissionRequestedEventArgs''
     [IUnknown_QueryInterface_C, IUnknown_AddRef_C, IUnknown_Release_C,
      ICoreWebView2PermissionRequestedEventArgs_get_Uri_C,
      ICoreWebView2PermissionRequestedEventArgs_get_PermissionKind_C,
      ICoreWebView2PermissionRequestedEventArgs_get_IsUserInitiated_C,
      ICoreWebView2PermissionRequestedEventArgs_get_State_C, ICoreWebView2PermissionRequestedEventArgs_put_State_C,
      ICoreWebView2PermissionRequestedEventArgs_GetDeferral_C]"

definition ICoreWebView2PermissionRequestedEventArgs2Vtbl :: vtable where
  "ICoreWebView2PermissionRequestedEventArgs2Vtbl = Vtable ''ICoreWebView2PermissionRequestedEventArgs2''
     [IUnknown_QueryInterface_C, IUnknown_AddRef_C, IUnknown_Release_C,
      ICoreWebView2PermissionRequestedEventArgs_get_Uri_C,
      ICoreWebView2PermissionRequestedEventArgs_get_PermissionKind_C,
      ICoreWebView2PermissionRequestedEventArgs_get_IsUserInitiated_C,
      ICoreWebView2PermissionRequestedEventArgs_get_State_C, ICoreWebView2PermissionRequestedEventArgs_put_State_C,
      ICoreWebView2PermissionRequestedEventArgs_GetDeferral_C,
      ICoreWebView2PermissionRequestedEventArgs2_get_Handled_C,
      ICoreWebView2PermissionRequestedEventArgs2_put_Handled_C]"

definition ICoreWebView2PermissionRequestedEventArgs3Vtbl :: vtable where
  "ICoreWebView2PermissionRequestedEventArgs3Vtbl = Vtable ''ICoreWebView2PermissionRequestedEventArgs3''
     [IUnknown_QueryInterface_C,
      IUnknown_AddRef_C,
      IUnknown_Release_C,
      ICoreWebView2PermissionRequestedEventArgs_get_Uri_C,
      ICoreWebView2PermissionRequestedEventArgs_get_PermissionKind_C,
      ICoreWebView2PermissionRequestedEventArgs_get_IsUserInitiated_C,
      ICoreWebView2PermissionRequestedEventArgs_get_State_C,
      ICoreWebView2PermissionRequestedEventArgs_put_State_C,
      ICoreWebView2PermissionRequestedEventArgs_GetDeferral_C,
      ICoreWebView2PermissionRequestedEventArgs2_get_Handled_C,
      ICoreWebView2PermissionRequestedEventArgs2_put_Handled_C,
      CDecl ''ICoreWebView2PermissionRequestedEventArgs3'' ''HRESULT'' ''get_SavesInProfile'' [''BOOL *value''],
      CDecl ''ICoreWebView2PermissionRequestedEventArgs3'' ''HRESULT'' ''put_SavesInProfile'' [''BOOL value'']]"

definition ICoreWebView2PermissionSettingCollectionViewVtbl :: vtable where
  "ICoreWebView2PermissionSettingCollectionViewVtbl = Vtable ''ICoreWebView2PermissionSettingCollectionView''
     [IUnknown_QueryInterface_C,
      IUnknown_AddRef_C,
      IUnknown_Release_C,
      CDecl ''ICoreWebView2PermissionSettingCollectionView'' ''HRESULT'' ''GetValueAtIndex'' [''UINT32 index'', ''ICoreWebView2PermissionSetting **permissionSetting''],
      CDecl ''ICoreWebView2PermissionSettingCollectionView'' ''HRESULT'' ''get_Count'' [''UINT32 *value'']]"

definition ICoreWebView2PermissionSettingVtbl :: vtable where
  "ICoreWebView2PermissionSettingVtbl = Vtable ''ICoreWebView2PermissionSetting''
     [IUnknown_QueryInterface_C,
      IUnknown_AddRef_C,
      IUnknown_Release_C,
      CDecl ''ICoreWebView2PermissionSetting'' ''HRESULT'' ''get_PermissionKind'' [''COREWEBVIEW2_PERMISSION_KIND *value''],
      CDecl ''ICoreWebView2PermissionSetting'' ''HRESULT'' ''get_PermissionOrigin'' [''LPWSTR *value''],
      CDecl ''ICoreWebView2PermissionSetting'' ''HRESULT'' ''get_PermissionState'' [''COREWEBVIEW2_PERMISSION_STATE *value'']]"

definition ICoreWebView2PointerInfoVtbl_1 :: "cdecl list" where
  "ICoreWebView2PointerInfoVtbl_1 =
     [IUnknown_QueryInterface_C,
      IUnknown_AddRef_C,
      IUnknown_Release_C,
      CDecl ''ICoreWebView2PointerInfo'' ''HRESULT'' ''get_PointerKind'' [''DWORD *pointerKind''],
      CDecl ''ICoreWebView2PointerInfo'' ''HRESULT'' ''put_PointerKind'' [''DWORD pointerKind''],
      CDecl ''ICoreWebView2PointerInfo'' ''HRESULT'' ''get_PointerId'' [''UINT32 *pointerId''],
      CDecl ''ICoreWebView2PointerInfo'' ''HRESULT'' ''put_PointerId'' [''UINT32 pointerId''],
      CDecl ''ICoreWebView2PointerInfo'' ''HRESULT'' ''get_FrameId'' [''UINT32 *frameId''],
      CDecl ''ICoreWebView2PointerInfo'' ''HRESULT'' ''put_FrameId'' [''UINT32 frameId''],
      CDecl ''ICoreWebView2PointerInfo'' ''HRESULT'' ''get_PointerFlags'' [''UINT32 *pointerFlags''],
      CDecl ''ICoreWebView2PointerInfo'' ''HRESULT'' ''put_PointerFlags'' [''UINT32 pointerFlags''],
      CDecl ''ICoreWebView2PointerInfo'' ''HRESULT'' ''get_PointerDeviceRect'' [''RECT *pointerDeviceRect''],
      CDecl ''ICoreWebView2PointerInfo'' ''HRESULT'' ''put_PointerDeviceRect'' [''RECT pointerDeviceRect''],
      CDecl ''ICoreWebView2PointerInfo'' ''HRESULT'' ''get_DisplayRect'' [''RECT *displayRect''],
      CDecl ''ICoreWebView2PointerInfo'' ''HRESULT'' ''put_DisplayRect'' [''RECT displayRect''],
      CDecl ''ICoreWebView2PointerInfo'' ''HRESULT'' ''get_PixelLocation'' [''POINT *pixelLocation''],
      CDecl ''ICoreWebView2PointerInfo'' ''HRESULT'' ''put_PixelLocation'' [''POINT pixelLocation''],
      CDecl ''ICoreWebView2PointerInfo'' ''HRESULT'' ''get_HimetricLocation'' [''POINT *himetricLocation''],
      CDecl ''ICoreWebView2PointerInfo'' ''HRESULT'' ''put_HimetricLocation'' [''POINT himetricLocation''],
      CDecl ''ICoreWebView2PointerInfo'' ''HRESULT'' ''get_PixelLocationRaw'' [''POINT *pixelLocationRaw''],
      CDecl ''ICoreWebView2PointerInfo'' ''HRESULT'' ''put_PixelLocationRaw'' [''POINT pixelLocationRaw''],
      CDecl ''ICoreWebView2PointerInfo'' ''HRESULT'' ''get_HimetricLocationRaw'' [''POINT *himetricLocationRaw''],
      CDecl ''ICoreWebView2PointerInfo'' ''HRESULT'' ''put_HimetricLocationRaw'' [''POINT himetricLocationRaw''],
      CDecl ''ICoreWebView2PointerInfo'' ''HRESULT'' ''get_Time'' [''DWORD *time''],
      CDecl ''ICoreWebView2PointerInfo'' ''HRESULT'' ''put_Time'' [''DWORD time''],
      CDecl ''ICoreWebView2PointerInfo'' ''HRESULT'' ''get_HistoryCount'' [''UINT32 *historyCount''],
      CDecl ''ICoreWebView2PointerInfo'' ''HRESULT'' ''put_HistoryCount'' [''UINT32 historyCount''],
      CDecl ''ICoreWebView2PointerInfo'' ''HRESULT'' ''get_InputData'' [''INT32 *inputData'']]"

definition ICoreWebView2PointerInfoVtbl_2 :: "cdecl list" where
  "ICoreWebView2PointerInfoVtbl_2 =
     [CDecl ''ICoreWebView2PointerInfo'' ''HRESULT'' ''put_InputData'' [''INT32 inputData''],
      CDecl ''ICoreWebView2PointerInfo'' ''HRESULT'' ''get_KeyStates'' [''DWORD *keyStates''],
      CDecl ''ICoreWebView2PointerInfo'' ''HRESULT'' ''put_KeyStates'' [''DWORD keyStates''],
      CDecl ''ICoreWebView2PointerInfo'' ''HRESULT'' ''get_PerformanceCount'' [''UINT64 *performanceCount''],
      CDecl ''ICoreWebView2PointerInfo'' ''HRESULT'' ''put_PerformanceCount'' [''UINT64 performanceCount''],
      CDecl ''ICoreWebView2PointerInfo'' ''HRESULT'' ''get_ButtonChangeKind'' [''INT32 *buttonChangeKind''],
      CDecl ''ICoreWebView2PointerInfo'' ''HRESULT'' ''put_ButtonChangeKind'' [''INT32 buttonChangeKind''],
      CDecl ''ICoreWebView2PointerInfo'' ''HRESULT'' ''get_PenFlags'' [''UINT32 *penFLags''],
      CDecl ''ICoreWebView2PointerInfo'' ''HRESULT'' ''put_PenFlags'' [''UINT32 penFLags''],
      CDecl ''ICoreWebView2PointerInfo'' ''HRESULT'' ''get_PenMask'' [''UINT32 *penMask''],
      CDecl ''ICoreWebView2PointerInfo'' ''HRESULT'' ''put_PenMask'' [''UINT32 penMask''],
      CDecl ''ICoreWebView2PointerInfo'' ''HRESULT'' ''get_PenPressure'' [''UINT32 *penPressure''],
      CDecl ''ICoreWebView2PointerInfo'' ''HRESULT'' ''put_PenPressure'' [''UINT32 penPressure''],
      CDecl ''ICoreWebView2PointerInfo'' ''HRESULT'' ''get_PenRotation'' [''UINT32 *penRotation''],
      CDecl ''ICoreWebView2PointerInfo'' ''HRESULT'' ''put_PenRotation'' [''UINT32 penRotation''],
      CDecl ''ICoreWebView2PointerInfo'' ''HRESULT'' ''get_PenTiltX'' [''INT32 *penTiltX''],
      CDecl ''ICoreWebView2PointerInfo'' ''HRESULT'' ''put_PenTiltX'' [''INT32 penTiltX''],
      CDecl ''ICoreWebView2PointerInfo'' ''HRESULT'' ''get_PenTiltY'' [''INT32 *penTiltY''],
      CDecl ''ICoreWebView2PointerInfo'' ''HRESULT'' ''put_PenTiltY'' [''INT32 penTiltY''],
      CDecl ''ICoreWebView2PointerInfo'' ''HRESULT'' ''get_TouchFlags'' [''UINT32 *touchFlags''],
      CDecl ''ICoreWebView2PointerInfo'' ''HRESULT'' ''put_TouchFlags'' [''UINT32 touchFlags''],
      CDecl ''ICoreWebView2PointerInfo'' ''HRESULT'' ''get_TouchMask'' [''UINT32 *touchMask''],
      CDecl ''ICoreWebView2PointerInfo'' ''HRESULT'' ''put_TouchMask'' [''UINT32 touchMask''],
      CDecl ''ICoreWebView2PointerInfo'' ''HRESULT'' ''get_TouchContact'' [''RECT *touchContact''],
      CDecl ''ICoreWebView2PointerInfo'' ''HRESULT'' ''put_TouchContact'' [''RECT touchContact''],
      CDecl ''ICoreWebView2PointerInfo'' ''HRESULT'' ''get_TouchContactRaw'' [''RECT *touchContactRaw''],
      CDecl ''ICoreWebView2PointerInfo'' ''HRESULT'' ''put_TouchContactRaw'' [''RECT touchContactRaw''],
      CDecl ''ICoreWebView2PointerInfo'' ''HRESULT'' ''get_TouchOrientation'' [''UINT32 *touchOrientation'']]"

definition ICoreWebView2PointerInfoVtbl_3 :: "cdecl list" where
  "ICoreWebView2PointerInfoVtbl_3 =
     [CDecl ''ICoreWebView2PointerInfo'' ''HRESULT'' ''put_TouchOrientation'' [''UINT32 touchOrientation''],
      CDecl ''ICoreWebView2PointerInfo'' ''HRESULT'' ''get_TouchPressure'' [''UINT32 *touchPressure''],
      CDecl ''ICoreWebView2PointerInfo'' ''HRESULT'' ''put_TouchPressure'' [''UINT32 touchPressure'']]"

definition ICoreWebView2PointerInfoVtbl :: vtable where
  "ICoreWebView2PointerInfoVtbl = Vtable ''ICoreWebView2PointerInfo''
     (ICoreWebView2PointerInfoVtbl_1 @ ICoreWebView2PointerInfoVtbl_2 @ ICoreWebView2PointerInfoVtbl_3)"

definition ICoreWebView2PrintSettingsVtbl_1 :: "cdecl list" where
  "ICoreWebView2PrintSettingsVtbl_1 =
     [IUnknown_QueryInterface_C, IUnknown_AddRef_C, IUnknown_Release_C, ICoreWebView2PrintSettings_get_Orientation_C,
      ICoreWebView2PrintSettings_put_Orientation_C, ICoreWebView2PrintSettings_get_ScaleFactor_C,
      ICoreWebView2PrintSettings_put_ScaleFactor_C, ICoreWebView2PrintSettings_get_PageWidth_C,
      ICoreWebView2PrintSettings_put_PageWidth_C, ICoreWebView2PrintSettings_get_PageHeight_C,
      ICoreWebView2PrintSettings_put_PageHeight_C, ICoreWebView2PrintSettings_get_MarginTop_C,
      ICoreWebView2PrintSettings_put_MarginTop_C, ICoreWebView2PrintSettings_get_MarginBottom_C,
      ICoreWebView2PrintSettings_put_MarginBottom_C, ICoreWebView2PrintSettings_get_MarginLeft_C,
      ICoreWebView2PrintSettings_put_MarginLeft_C, ICoreWebView2PrintSettings_get_MarginRight_C,
      ICoreWebView2PrintSettings_put_MarginRight_C, ICoreWebView2PrintSettings_get_ShouldPrintBackgrounds_C,
      ICoreWebView2PrintSettings_put_ShouldPrintBackgrounds_C,
      ICoreWebView2PrintSettings_get_ShouldPrintSelectionOnly_C,
      ICoreWebView2PrintSettings_put_ShouldPrintSelectionOnly_C,
      ICoreWebView2PrintSettings_get_ShouldPrintHeaderAndFooter_C,
      ICoreWebView2PrintSettings_put_ShouldPrintHeaderAndFooter_C, ICoreWebView2PrintSettings_get_HeaderTitle_C,
      ICoreWebView2PrintSettings_put_HeaderTitle_C, ICoreWebView2PrintSettings_get_FooterUri_C]"

definition ICoreWebView2PrintSettingsVtbl_2 :: "cdecl list" where
  "ICoreWebView2PrintSettingsVtbl_2 =
     [ICoreWebView2PrintSettings_put_FooterUri_C]"

definition ICoreWebView2PrintSettingsVtbl :: vtable where
  "ICoreWebView2PrintSettingsVtbl = Vtable ''ICoreWebView2PrintSettings''
     (ICoreWebView2PrintSettingsVtbl_1 @ ICoreWebView2PrintSettingsVtbl_2)"

definition ICoreWebView2PrintSettings2Vtbl_1 :: "cdecl list" where
  "ICoreWebView2PrintSettings2Vtbl_1 =
     [IUnknown_QueryInterface_C, IUnknown_AddRef_C, IUnknown_Release_C, ICoreWebView2PrintSettings_get_Orientation_C,
      ICoreWebView2PrintSettings_put_Orientation_C, ICoreWebView2PrintSettings_get_ScaleFactor_C,
      ICoreWebView2PrintSettings_put_ScaleFactor_C, ICoreWebView2PrintSettings_get_PageWidth_C,
      ICoreWebView2PrintSettings_put_PageWidth_C, ICoreWebView2PrintSettings_get_PageHeight_C,
      ICoreWebView2PrintSettings_put_PageHeight_C, ICoreWebView2PrintSettings_get_MarginTop_C,
      ICoreWebView2PrintSettings_put_MarginTop_C, ICoreWebView2PrintSettings_get_MarginBottom_C,
      ICoreWebView2PrintSettings_put_MarginBottom_C, ICoreWebView2PrintSettings_get_MarginLeft_C,
      ICoreWebView2PrintSettings_put_MarginLeft_C, ICoreWebView2PrintSettings_get_MarginRight_C,
      ICoreWebView2PrintSettings_put_MarginRight_C, ICoreWebView2PrintSettings_get_ShouldPrintBackgrounds_C,
      ICoreWebView2PrintSettings_put_ShouldPrintBackgrounds_C,
      ICoreWebView2PrintSettings_get_ShouldPrintSelectionOnly_C,
      ICoreWebView2PrintSettings_put_ShouldPrintSelectionOnly_C,
      ICoreWebView2PrintSettings_get_ShouldPrintHeaderAndFooter_C,
      ICoreWebView2PrintSettings_put_ShouldPrintHeaderAndFooter_C, ICoreWebView2PrintSettings_get_HeaderTitle_C,
      ICoreWebView2PrintSettings_put_HeaderTitle_C, ICoreWebView2PrintSettings_get_FooterUri_C]"

definition ICoreWebView2PrintSettings2Vtbl_2 :: "cdecl list" where
  "ICoreWebView2PrintSettings2Vtbl_2 =
     [ICoreWebView2PrintSettings_put_FooterUri_C,
      CDecl ''ICoreWebView2PrintSettings2'' ''HRESULT'' ''get_PageRanges'' [''LPWSTR *value''],
      CDecl ''ICoreWebView2PrintSettings2'' ''HRESULT'' ''put_PageRanges'' [''LPCWSTR value''],
      CDecl ''ICoreWebView2PrintSettings2'' ''HRESULT'' ''get_PagesPerSide'' [''INT32 *value''],
      CDecl ''ICoreWebView2PrintSettings2'' ''HRESULT'' ''put_PagesPerSide'' [''INT32 value''],
      CDecl ''ICoreWebView2PrintSettings2'' ''HRESULT'' ''get_Copies'' [''INT32 *value''],
      CDecl ''ICoreWebView2PrintSettings2'' ''HRESULT'' ''put_Copies'' [''INT32 value''],
      CDecl ''ICoreWebView2PrintSettings2'' ''HRESULT'' ''get_Collation'' [''COREWEBVIEW2_PRINT_COLLATION *value''],
      CDecl ''ICoreWebView2PrintSettings2'' ''HRESULT'' ''put_Collation'' [''COREWEBVIEW2_PRINT_COLLATION value''],
      CDecl ''ICoreWebView2PrintSettings2'' ''HRESULT'' ''get_ColorMode'' [''COREWEBVIEW2_PRINT_COLOR_MODE *value''],
      CDecl ''ICoreWebView2PrintSettings2'' ''HRESULT'' ''put_ColorMode'' [''COREWEBVIEW2_PRINT_COLOR_MODE value''],
      CDecl ''ICoreWebView2PrintSettings2'' ''HRESULT'' ''get_Duplex'' [''COREWEBVIEW2_PRINT_DUPLEX *value''],
      CDecl ''ICoreWebView2PrintSettings2'' ''HRESULT'' ''put_Duplex'' [''COREWEBVIEW2_PRINT_DUPLEX value''],
      CDecl ''ICoreWebView2PrintSettings2'' ''HRESULT'' ''get_MediaSize'' [''COREWEBVIEW2_PRINT_MEDIA_SIZE *value''],
      CDecl ''ICoreWebView2PrintSettings2'' ''HRESULT'' ''put_MediaSize'' [''COREWEBVIEW2_PRINT_MEDIA_SIZE value''],
      CDecl ''ICoreWebView2PrintSettings2'' ''HRESULT'' ''get_PrinterName'' [''LPWSTR *value''],
      CDecl ''ICoreWebView2PrintSettings2'' ''HRESULT'' ''put_PrinterName'' [''LPCWSTR value'']]"

definition ICoreWebView2PrintSettings2Vtbl :: vtable where
  "ICoreWebView2PrintSettings2Vtbl = Vtable ''ICoreWebView2PrintSettings2''
     (ICoreWebView2PrintSettings2Vtbl_1 @ ICoreWebView2PrintSettings2Vtbl_2)"

definition ICoreWebView2ProcessFailedEventArgsVtbl :: vtable where
  "ICoreWebView2ProcessFailedEventArgsVtbl = Vtable ''ICoreWebView2ProcessFailedEventArgs''
     [IUnknown_QueryInterface_C, IUnknown_AddRef_C, IUnknown_Release_C,
      ICoreWebView2ProcessFailedEventArgs_get_ProcessFailedKind_C]"

definition ICoreWebView2ProcessFailedEventArgs2Vtbl :: vtable where
  "ICoreWebView2ProcessFailedEventArgs2Vtbl = Vtable ''ICoreWebView2ProcessFailedEventArgs2''
     [IUnknown_QueryInterface_C,
      IUnknown_AddRef_C,
      IUnknown_Release_C,
      ICoreWebView2ProcessFailedEventArgs_get_ProcessFailedKind_C,
      CDecl ''ICoreWebView2ProcessFailedEventArgs2'' ''HRESULT'' ''get_Reason'' [''COREWEBVIEW2_PROCESS_FAILED_REASON *reason''],
      CDecl ''ICoreWebView2ProcessFailedEventArgs2'' ''HRESULT'' ''get_ExitCode'' [''int *exitCode''],
      CDecl ''ICoreWebView2ProcessFailedEventArgs2'' ''HRESULT'' ''get_ProcessDescription'' [''LPWSTR *processDescription''],
      CDecl ''ICoreWebView2ProcessFailedEventArgs2'' ''HRESULT'' ''get_FrameInfosForFailedProcess'' [''ICoreWebView2FrameInfoCollection **frames'']]"

definition ICoreWebView2ServerCertificateErrorDetectedEventArgsVtbl :: vtable where
  "ICoreWebView2ServerCertificateErrorDetectedEventArgsVtbl = Vtable ''ICoreWebView2ServerCertificateErrorDetectedEventArgs''
     [IUnknown_QueryInterface_C,
      IUnknown_AddRef_C,
      IUnknown_Release_C,
      CDecl ''ICoreWebView2ServerCertificateErrorDetectedEventArgs'' ''HRESULT'' ''get_ErrorStatus'' [''COREWEBVIEW2_WEB_ERROR_STATUS *value''],
      CDecl ''ICoreWebView2ServerCertificateErrorDetectedEventArgs'' ''HRESULT'' ''get_RequestUri'' [''LPWSTR *value''],
      CDecl ''ICoreWebView2ServerCertificateErrorDetectedEventArgs'' ''HRESULT'' ''get_ServerCertificate'' [''ICoreWebView2Certificate **value''],
      CDecl ''ICoreWebView2ServerCertificateErrorDetectedEventArgs'' ''HRESULT'' ''get_Action'' [''COREWEBVIEW2_SERVER_CERTIFICATE_ERROR_ACTION *value''],
      CDecl ''ICoreWebView2ServerCertificateErrorDetectedEventArgs'' ''HRESULT'' ''put_Action'' [''COREWEBVIEW2_SERVER_CERTIFICATE_ERROR_ACTION value''],
      CDecl ''ICoreWebView2ServerCertificateErrorDetectedEventArgs'' ''HRESULT'' ''GetDeferral'' [''ICoreWebView2Deferral **deferral'']]"

definition ICoreWebView2ScriptDialogOpeningEventArgsVtbl :: vtable where
  "ICoreWebView2ScriptDialogOpeningEventArgsVtbl = Vtable ''ICoreWebView2ScriptDialogOpeningEventArgs''
     [IUnknown_QueryInterface_C,
      IUnknown_AddRef_C,
      IUnknown_Release_C,
      CDecl ''ICoreWebView2ScriptDialogOpeningEventArgs'' ''HRESULT'' ''get_Uri'' [''LPWSTR *uri''],
      CDecl ''ICoreWebView2ScriptDialogOpeningEventArgs'' ''HRESULT'' ''get_Kind'' [''COREWEBVIEW2_SCRIPT_DIALOG_KIND *kind''],
      CDecl ''ICoreWebView2ScriptDialogOpeningEventArgs'' ''HRESULT'' ''get_Message'' [''LPWSTR *message''],
      CDecl ''ICoreWebView2ScriptDialogOpeningEventArgs'' ''HRESULT'' ''Accept'' [],
      CDecl ''ICoreWebView2ScriptDialogOpeningEventArgs'' ''HRESULT'' ''get_DefaultText'' [''LPWSTR *defaultText''],
      CDecl ''ICoreWebView2ScriptDialogOpeningEventArgs'' ''HRESULT'' ''get_ResultText'' [''LPWSTR *resultText''],
      CDecl ''ICoreWebView2ScriptDialogOpeningEventArgs'' ''HRESULT'' ''put_ResultText'' [''LPCWSTR resultText''],
      CDecl ''ICoreWebView2ScriptDialogOpeningEventArgs'' ''HRESULT'' ''GetDeferral'' [''ICoreWebView2Deferral **deferral'']]"

definition ICoreWebView2SourceChangedEventArgsVtbl :: vtable where
  "ICoreWebView2SourceChangedEventArgsVtbl = Vtable ''ICoreWebView2SourceChangedEventArgs''
     [IUnknown_QueryInterface_C,
      IUnknown_AddRef_C,
      IUnknown_Release_C,
      CDecl ''ICoreWebView2SourceChangedEventArgs'' ''HRESULT'' ''get_IsNewDocument'' [''BOOL *isNewDocument'']]"

definition ICoreWebView2WebMessageReceivedEventArgsVtbl :: vtable where
  "ICoreWebView2WebMessageReceivedEventArgsVtbl = Vtable ''ICoreWebView2WebMessageReceivedEventArgs''
     [IUnknown_QueryInterface_C, IUnknown_AddRef_C, IUnknown_Release_C,
      ICoreWebView2WebMessageReceivedEventArgs_get_Source_C,
      ICoreWebView2WebMessageReceivedEventArgs_get_WebMessageAsJson_C,
      ICoreWebView2WebMessageReceivedEventArgs_TryGetWebMessageAsString_C]"

definition ICoreWebView2WebResourceRequestVtbl :: vtable where
  "ICoreWebView2WebResourceRequestVtbl = Vtable ''ICoreWebView2WebResourceRequest''
     [IUnknown_QueryInterface_C,
      IUnknown_AddRef_C,
      IUnknown_Release_C,
      CDecl ''ICoreWebView2WebResourceRequest'' ''HRESULT'' ''get_Uri'' [''LPWSTR *uri''],
      CDecl ''ICoreWebView2WebResourceRequest'' ''HRESULT'' ''put_Uri'' [''LPCWSTR uri''],
      CDecl ''ICoreWebView2WebResourceRequest'' ''HRESULT'' ''get_Method'' [''LPWSTR *method''],
      CDecl ''ICoreWebView2WebResourceRequest'' ''HRESULT'' ''put_Method'' [''LPCWSTR method''],
      CDecl ''ICoreWebView2WebResourceRequest'' ''HRESULT'' ''get_Content'' [''IStream **content''],
      CDecl ''ICoreWebView2WebResourceRequest'' ''HRESULT'' ''put_Content'' [''IStream *content''],
      CDecl ''ICoreWebView2WebResourceRequest'' ''HRESULT'' ''get_Headers'' [''ICoreWebView2HttpRequestHeaders **headers'']]"

definition ICoreWebView2WebResourceRequestedEventArgsVtbl :: vtable where
  "ICoreWebView2WebResourceRequestedEventArgsVtbl = Vtable ''ICoreWebView2WebResourceRequestedEventArgs''
     [IUnknown_QueryInterface_C, IUnknown_AddRef_C, IUnknown_Release_C,
      ICoreWebView2WebResourceRequestedEventArgs_get_Request_C,
      ICoreWebView2WebResourceRequestedEventArgs_get_Response_C,
      ICoreWebView2WebResourceRequestedEventArgs_put_Response_C,
      ICoreWebView2WebResourceRequestedEventArgs_GetDeferral_C,
      ICoreWebView2WebResourceRequestedEventArgs_get_ResourceContext_C]"

definition ICoreWebView2WebResourceRequestedEventArgs2Vtbl :: vtable where
  "ICoreWebView2WebResourceRequestedEventArgs2Vtbl = Vtable ''ICoreWebView2WebResourceRequestedEventArgs2''
     [IUnknown_QueryInterface_C,
      IUnknown_AddRef_C,
      IUnknown_Release_C,
      ICoreWebView2WebResourceRequestedEventArgs_get_Request_C,
      ICoreWebView2WebResourceRequestedEventArgs_get_Response_C,
      ICoreWebView2WebResourceRequestedEventArgs_put_Response_C,
      ICoreWebView2WebResourceRequestedEventArgs_GetDeferral_C,
      ICoreWebView2WebResourceRequestedEventArgs_get_ResourceContext_C,
      CDecl ''ICoreWebView2WebResourceRequestedEventArgs2'' ''HRESULT'' ''get_RequestedSourceKind'' [''COREWEBVIEW2_WEB_RESOURCE_REQUEST_SOURCE_KINDS *requestedSourceKind'']]"

definition ICoreWebView2WebResourceResponseVtbl :: vtable where
  "ICoreWebView2WebResourceResponseVtbl = Vtable ''ICoreWebView2WebResourceResponse''
     [IUnknown_QueryInterface_C,
      IUnknown_AddRef_C,
      IUnknown_Release_C,
      CDecl ''ICoreWebView2WebResourceResponse'' ''HRESULT'' ''get_Content'' [''IStream **content''],
      CDecl ''ICoreWebView2WebResourceResponse'' ''HRESULT'' ''put_Content'' [''IStream *content''],
      CDecl ''ICoreWebView2WebResourceResponse'' ''HRESULT'' ''get_Headers'' [''ICoreWebView2HttpResponseHeaders **headers''],
      CDecl ''ICoreWebView2WebResourceResponse'' ''HRESULT'' ''get_StatusCode'' [''int *statusCode''],
      CDecl ''ICoreWebView2WebResourceResponse'' ''HRESULT'' ''put_StatusCode'' [''int statusCode''],
      CDecl ''ICoreWebView2WebResourceResponse'' ''HRESULT'' ''get_ReasonPhrase'' [''LPWSTR *reasonPhrase''],
      CDecl ''ICoreWebView2WebResourceResponse'' ''HRESULT'' ''put_ReasonPhrase'' [''LPCWSTR reasonPhrase'']]"

definition ICoreWebView2WebResourceResponseReceivedEventArgsVtbl :: vtable where
  "ICoreWebView2WebResourceResponseReceivedEventArgsVtbl = Vtable ''ICoreWebView2WebResourceResponseReceivedEventArgs''
     [IUnknown_QueryInterface_C,
      IUnknown_AddRef_C,
      IUnknown_Release_C,
      CDecl ''ICoreWebView2WebResourceResponseReceivedEventArgs'' ''HRESULT'' ''get_Request'' [''ICoreWebView2WebResourceRequest **request''],
      CDecl ''ICoreWebView2WebResourceResponseReceivedEventArgs'' ''HRESULT'' ''get_Response'' [''ICoreWebView2WebResourceResponseView **response'']]"

definition ICoreWebView2WebResourceResponseViewVtbl :: vtable where
  "ICoreWebView2WebResourceResponseViewVtbl = Vtable ''ICoreWebView2WebResourceResponseView''
     [IUnknown_QueryInterface_C,
      IUnknown_AddRef_C,
      IUnknown_Release_C,
      CDecl ''ICoreWebView2WebResourceResponseView'' ''HRESULT'' ''get_Headers'' [''ICoreWebView2HttpResponseHeaders **headers''],
      CDecl ''ICoreWebView2WebResourceResponseView'' ''HRESULT'' ''get_StatusCode'' [''int *statusCode''],
      CDecl ''ICoreWebView2WebResourceResponseView'' ''HRESULT'' ''get_ReasonPhrase'' [''LPWSTR *reasonPhrase''],
      CDecl ''ICoreWebView2WebResourceResponseView'' ''HRESULT'' ''GetContent'' [''ICoreWebView2WebResourceResponseViewGetContentCompletedHandler *handler'']]"

definition ICoreWebView2WindowFeaturesVtbl :: vtable where
  "ICoreWebView2WindowFeaturesVtbl = Vtable ''ICoreWebView2WindowFeatures''
     [IUnknown_QueryInterface_C,
      IUnknown_AddRef_C,
      IUnknown_Release_C,
      CDecl ''ICoreWebView2WindowFeatures'' ''HRESULT'' ''get_HasPosition'' [''BOOL *value''],
      CDecl ''ICoreWebView2WindowFeatures'' ''HRESULT'' ''get_HasSize'' [''BOOL *value''],
      CDecl ''ICoreWebView2WindowFeatures'' ''HRESULT'' ''get_Left'' [''UINT32 *value''],
      CDecl ''ICoreWebView2WindowFeatures'' ''HRESULT'' ''get_Top'' [''UINT32 *value''],
      CDecl ''ICoreWebView2WindowFeatures'' ''HRESULT'' ''get_Height'' [''UINT32 *value''],
      CDecl ''ICoreWebView2WindowFeatures'' ''HRESULT'' ''get_Width'' [''UINT32 *value''],
      CDecl ''ICoreWebView2WindowFeatures'' ''HRESULT'' ''get_ShouldDisplayMenuBar'' [''BOOL *value''],
      CDecl ''ICoreWebView2WindowFeatures'' ''HRESULT'' ''get_ShouldDisplayStatus'' [''BOOL *value''],
      CDecl ''ICoreWebView2WindowFeatures'' ''HRESULT'' ''get_ShouldDisplayToolbar'' [''BOOL *value''],
      CDecl ''ICoreWebView2WindowFeatures'' ''HRESULT'' ''get_ShouldDisplayScrollBars'' [''BOOL *value'']]"

definition ICoreWebView2BrowserExtensionListVtbl :: vtable where
  "ICoreWebView2BrowserExtensionListVtbl = Vtable ''ICoreWebView2BrowserExtensionList''
     [IUnknown_QueryInterface_C,
      IUnknown_AddRef_C,
      IUnknown_Release_C,
      CDecl ''ICoreWebView2BrowserExtensionList'' ''HRESULT'' ''get_Count'' [''UINT *count''],
      CDecl ''ICoreWebView2BrowserExtensionList'' ''HRESULT'' ''GetValueAtIndex'' [''UINT index'', ''ICoreWebView2BrowserExtension **extension'']]"

definition ICoreWebView2BrowserExtensionVtbl :: vtable where
  "ICoreWebView2BrowserExtensionVtbl = Vtable ''ICoreWebView2BrowserExtension''
     [IUnknown_QueryInterface_C,
      IUnknown_AddRef_C,
      IUnknown_Release_C,
      CDecl ''ICoreWebView2BrowserExtension'' ''HRESULT'' ''get_Id'' [''LPWSTR *value''],
      CDecl ''ICoreWebView2BrowserExtension'' ''HRESULT'' ''get_Name'' [''LPWSTR *value''],
      CDecl ''ICoreWebView2BrowserExtension'' ''HRESULT'' ''Remove'' [''ICoreWebView2BrowserExtensionRemoveCompletedHandler *handler''],
      CDecl ''ICoreWebView2BrowserExtension'' ''HRESULT'' ''get_IsEnabled'' [''BOOL *value''],
      CDecl ''ICoreWebView2BrowserExtension'' ''HRESULT'' ''Enable'' [''BOOL isEnabled'', ''ICoreWebView2BrowserExtensionEnableCompletedHandler *handler'']]"

definition ICoreWebView2ExecuteScriptResultVtbl :: vtable where
  "ICoreWebView2ExecuteScriptResultVtbl = Vtable ''ICoreWebView2ExecuteScriptResult''
     [IUnknown_QueryInterface_C,
      IUnknown_AddRef_C,
      IUnknown_Release_C,
      CDecl ''ICoreWebView2ExecuteScriptResult'' ''HRESULT'' ''get_Succeeded'' [''BOOL *value''],
      CDecl ''ICoreWebView2ExecuteScriptResult'' ''HRESULT'' ''get_ResultAsJson'' [''LPWSTR *jsonResult''],
      CDecl ''ICoreWebView2ExecuteScriptResult'' ''HRESULT'' ''TryGetResultAsString'' [''LPWSTR *stringResult'', ''BOOL *value''],
      CDecl ''ICoreWebView2ExecuteScriptResult'' ''HRESULT'' ''get_Exception'' [''ICoreWebView2ScriptException **exception'']]"

definition ICoreWebView2ScriptExceptionVtbl :: vtable where
  "ICoreWebView2ScriptExceptionVtbl = Vtable ''ICoreWebView2ScriptException''
     [IUnknown_QueryInterface_C,
      IUnknown_AddRef_C,
      IUnknown_Release_C,
      CDecl ''ICoreWebView2ScriptException'' ''HRESULT'' ''get_LineNumber'' [''UINT32 *value''],
      CDecl ''ICoreWebView2ScriptException'' ''HRESULT'' ''get_ColumnNumber'' [''UINT32 *value''],
      CDecl ''ICoreWebView2ScriptException'' ''HRESULT'' ''get_Name'' [''LPWSTR *value''],
      CDecl ''ICoreWebView2ScriptException'' ''HRESULT'' ''get_Message'' [''LPWSTR *value''],
      CDecl ''ICoreWebView2ScriptException'' ''HRESULT'' ''get_ToJson'' [''LPWSTR *value'']]"

definition ICoreWebView2FileVtbl :: vtable where
  "ICoreWebView2FileVtbl = Vtable ''ICoreWebView2File''
     [IUnknown_QueryInterface_C,
      IUnknown_AddRef_C,
      IUnknown_Release_C,
      CDecl ''ICoreWebView2File'' ''HRESULT'' ''get_Path'' [''LPWSTR *path'']]"

definition ICoreWebView2ObjectCollectionViewVtbl :: vtable where
  "ICoreWebView2ObjectCollectionViewVtbl = Vtable ''ICoreWebView2ObjectCollectionView''
     [IUnknown_QueryInterface_C,
      IUnknown_AddRef_C,
      IUnknown_Release_C,
      CDecl ''ICoreWebView2ObjectCollectionView'' ''HRESULT'' ''get_Count'' [''UINT32 *value''],
      CDecl ''ICoreWebView2ObjectCollectionView'' ''HRESULT'' ''GetValueAtIndex'' [''UINT32 index'', ''IUnknown **value'']]"

definition ICoreWebView2WebMessageReceivedEventArgs2Vtbl :: vtable where
  "ICoreWebView2WebMessageReceivedEventArgs2Vtbl = Vtable ''ICoreWebView2WebMessageReceivedEventArgs2''
     [IUnknown_QueryInterface_C,
      IUnknown_AddRef_C,
      IUnknown_Release_C,
      ICoreWebView2WebMessageReceivedEventArgs_get_Source_C,
      ICoreWebView2WebMessageReceivedEventArgs_get_WebMessageAsJson_C,
      ICoreWebView2WebMessageReceivedEventArgs_TryGetWebMessageAsString_C,
      CDecl ''ICoreWebView2WebMessageReceivedEventArgs2'' ''HRESULT'' ''get_AdditionalObjects'' [''ICoreWebView2ObjectCollectionView **value'']]"

section \<open>The tables are the layouts\<close>

lemmas layouts =
  layout_Derived [OF ICoreWebView2AcceleratorKeyPressedEventArgs_def]
  layout_Derived [OF ICoreWebView2AcceleratorKeyPressedEventArgs2_def]
  layout_Derived [OF ICoreWebView2BasicAuthenticationRequestedEventArgs_def]
  layout_Derived [OF ICoreWebView2BasicAuthenticationResponse_def]
  layout_Derived [OF ICoreWebView2BrowserProcessExitedEventArgs_def]
  layout_Derived [OF ICoreWebView2ContentLoadingEventArgs_def]
  layout_Derived [OF ICoreWebView2ContextMenuRequestedEventArgs_def]
  layout_Derived [OF ICoreWebView2Cookie_def]
  layout_Derived [OF ICoreWebView2CookieList_def]
  layout_Derived [OF ICoreWebView2Certificate_def]
  layout_Derived [OF ICoreWebView2ClientCertificate_def]
  layout_Derived [OF ICoreWebView2StringCollection_def]
  layout_Derived [OF ICoreWebView2ClientCertificateCollection_def]
  layout_Derived [OF ICoreWebView2ClientCertificateRequestedEventArgs_def]
  layout_Derived [OF ICoreWebView2ContextMenuItem_def]
  layout_Derived [OF ICoreWebView2ContextMenuItemCollection_def]
  layout_Derived [OF ICoreWebView2ContextMenuTarget_def]
  layout_Derived [OF ICoreWebView2CustomSchemeRegistration_def]
  layout_Derived [OF ICoreWebView2DOMContentLoadedEventArgs_def]
  layout_Derived [OF ICoreWebView2Deferral_def]
  layout_Derived [OF ICoreWebView2DevToolsProtocolEventReceivedEventArgs_def]
  layout_Derived [OF ICoreWebView2DevToolsProtocolEventReceivedEventArgs2_def]
  layout_Derived [OF ICoreWebView2DevToolsProtocolEventReceiver_def]
  layout_Derived [OF ICoreWebView2DownloadStartingEventArgs_def]
  layout_Derived [OF ICoreWebView2FrameCreatedEventArgs_def]
  layout_Derived [OF ICoreWebView2HttpHeadersCollectionIterator_def]
  layout_Derived [OF ICoreWebView2HttpRequestHeaders_def]
  layout_Derived [OF ICoreWebView2HttpResponseHeaders_def]
  layout_Derived [OF ICoreWebView2LaunchingExternalUriSchemeEventArgs_def]
  layout_Derived [OF ICoreWebView2MoveFocusRequestedEventArgs_def]
  layout_Derived [OF ICoreWebView2NavigationCompletedEventArgs_def]
  layout_Derived [OF ICoreWebView2NavigationCompletedEventArgs2_def]
  layout_Derived [OF ICoreWebView2NavigationStartingEventArgs_def]
  layout_Derived [OF ICoreWebView2NavigationStartingEventArgs2_def]
  layout_Derived [OF ICoreWebView2NavigationStartingEventArgs3_def]
  layout_Derived [OF ICoreWebView2NewWindowRequestedEventArgs_def]
  layout_Derived [OF ICoreWebView2NewWindowRequestedEventArgs2_def]
  layout_Derived [OF ICoreWebView2NewWindowRequestedEventArgs3_def]
  layout_Derived [OF ICoreWebView2PermissionRequestedEventArgs_def]
  layout_Derived [OF ICoreWebView2PermissionRequestedEventArgs2_def]
  layout_Derived [OF ICoreWebView2PermissionRequestedEventArgs3_def]
  layout_Derived [OF ICoreWebView2PermissionSettingCollectionView_def]
  layout_Derived [OF ICoreWebView2PermissionSetting_def]
  layout_Derived [OF ICoreWebView2PointerInfo_def]
  layout_Derived [OF ICoreWebView2PrintSettings_def]
  layout_Derived [OF ICoreWebView2PrintSettings2_def]
  layout_Derived [OF ICoreWebView2ProcessFailedEventArgs_def]
  layout_Derived [OF ICoreWebView2ProcessFailedEventArgs2_def]
  layout_Derived [OF ICoreWebView2ServerCertificateErrorDetectedEventArgs_def]
  layout_Derived [OF ICoreWebView2ScriptDialogOpeningEventArgs_def]
  layout_Derived [OF ICoreWebView2SourceChangedEventArgs_def]
  layout_Derived [OF ICoreWebView2WebMessageReceivedEventArgs_def]
  layout_Derived [OF ICoreWebView2WebResourceRequest_def]
  layout_Derived [OF ICoreWebView2WebResourceRequestedEventArgs_def]
  layout_Derived [OF ICoreWebView2WebResourceRequestedEventArgs2_def]
  layout_Derived [OF ICoreWebView2WebResourceResponse_def]
  layout_Derived [OF ICoreWebView2WebResourceResponseReceivedEventArgs_def]
  layout_Derived [OF ICoreWebView2WebResourceResponseView_def]
  layout_Derived [OF ICoreWebView2WindowFeatures_def]
  layout_Derived [OF ICoreWebView2BrowserExtensionList_def]
  layout_Derived [OF ICoreWebView2BrowserExtension_def]
  layout_Derived [OF ICoreWebView2ExecuteScriptResult_def]
  layout_Derived [OF ICoreWebView2ScriptException_def]
  layout_Derived [OF ICoreWebView2File_def]
  layout_Derived [OF ICoreWebView2ObjectCollectionView_def]
  layout_Derived [OF ICoreWebView2WebMessageReceivedEventArgs2_def]

lemma ICoreWebView2AcceleratorKeyPressedEventArgs_decls:
  "map (c_method ''ICoreWebView2AcceleratorKeyPressedEventArgs'')
     [ICoreWebView2AcceleratorKeyPressedEventArgs_get_KeyEventKind,
      ICoreWebView2AcceleratorKeyPressedEventArgs_get_VirtualKey,
      ICoreWebView2AcceleratorKeyPressedEventArgs_get_KeyEventLParam,
      ICoreWebView2AcceleratorKeyPressedEventArgs_get_PhysicalKeyStatus,
      ICoreWebView2AcceleratorKeyPressedEventArgs_get_Handled,
      ICoreWebView2AcceleratorKeyPressedEventArgs_put_Handled]
   =
     [ICoreWebView2AcceleratorKeyPressedEventArgs_get_KeyEventKind_C,
      ICoreWebView2AcceleratorKeyPressedEventArgs_get_VirtualKey_C,
      ICoreWebView2AcceleratorKeyPressedEventArgs_get_KeyEventLParam_C,
      ICoreWebView2AcceleratorKeyPressedEventArgs_get_PhysicalKeyStatus_C,
      ICoreWebView2AcceleratorKeyPressedEventArgs_get_Handled_C,
      ICoreWebView2AcceleratorKeyPressedEventArgs_put_Handled_C]"
  by (simp only: list.map c_method.simps ICoreWebView2AcceleratorKeyPressedEventArgs_get_KeyEventKind_def
      ICoreWebView2AcceleratorKeyPressedEventArgs_get_VirtualKey_def
      ICoreWebView2AcceleratorKeyPressedEventArgs_get_KeyEventLParam_def
      ICoreWebView2AcceleratorKeyPressedEventArgs_get_PhysicalKeyStatus_def
      ICoreWebView2AcceleratorKeyPressedEventArgs_get_Handled_def
      ICoreWebView2AcceleratorKeyPressedEventArgs_put_Handled_def
      ICoreWebView2AcceleratorKeyPressedEventArgs_get_KeyEventKind_C_def
      ICoreWebView2AcceleratorKeyPressedEventArgs_get_VirtualKey_C_def
      ICoreWebView2AcceleratorKeyPressedEventArgs_get_KeyEventLParam_C_def
      ICoreWebView2AcceleratorKeyPressedEventArgs_get_PhysicalKeyStatus_C_def
      ICoreWebView2AcceleratorKeyPressedEventArgs_get_Handled_C_def
      ICoreWebView2AcceleratorKeyPressedEventArgs_put_Handled_C_def)

lemma ICoreWebView2AcceleratorKeyPressedEventArgs_views: "ICoreWebView2AcceleratorKeyPressedEventArgsVtbl = c_view ICoreWebView2AcceleratorKeyPressedEventArgs"
  by (rule views_IUnknown [OF ICoreWebView2AcceleratorKeyPressedEventArgs_def ICoreWebView2AcceleratorKeyPressedEventArgs_decls])
    (simp only: table_simps ICoreWebView2AcceleratorKeyPressedEventArgsVtbl_def)

lemma ICoreWebView2AcceleratorKeyPressedEventArgs2_decls:
  "map (c_method ''ICoreWebView2AcceleratorKeyPressedEventArgs2'')
     [Method ''HRESULT'' ''get_IsBrowserAcceleratorKeyEnabled'' [''BOOL *value''],
      Method ''HRESULT'' ''put_IsBrowserAcceleratorKeyEnabled'' [''BOOL value'']]
   =
     [CDecl ''ICoreWebView2AcceleratorKeyPressedEventArgs2'' ''HRESULT'' ''get_IsBrowserAcceleratorKeyEnabled'' [''BOOL *value''],
      CDecl ''ICoreWebView2AcceleratorKeyPressedEventArgs2'' ''HRESULT'' ''put_IsBrowserAcceleratorKeyEnabled'' [''BOOL value'']]"
  by (simp only: list.map c_method.simps)

lemma ICoreWebView2AcceleratorKeyPressedEventArgs2_views: "ICoreWebView2AcceleratorKeyPressedEventArgs2Vtbl = c_view ICoreWebView2AcceleratorKeyPressedEventArgs2"
  by (rule views_Derived [OF ICoreWebView2AcceleratorKeyPressedEventArgs2_def ICoreWebView2AcceleratorKeyPressedEventArgs2_decls ICoreWebView2AcceleratorKeyPressedEventArgs_views])
    (simp only: table_simps ICoreWebView2AcceleratorKeyPressedEventArgs2Vtbl_def
      ICoreWebView2AcceleratorKeyPressedEventArgsVtbl_def)

lemma ICoreWebView2BasicAuthenticationRequestedEventArgs_decls:
  "map (c_method ''ICoreWebView2BasicAuthenticationRequestedEventArgs'')
     [Method ''HRESULT'' ''get_Uri'' [''LPWSTR *value''],
      Method ''HRESULT'' ''get_Challenge'' [''LPWSTR *challenge''],
      Method ''HRESULT'' ''get_Response'' [''ICoreWebView2BasicAuthenticationResponse **response''],
      Method ''HRESULT'' ''get_Cancel'' [''BOOL *cancel''],
      Method ''HRESULT'' ''put_Cancel'' [''BOOL cancel''],
      Method ''HRESULT'' ''GetDeferral'' [''ICoreWebView2Deferral **deferral'']]
   =
     [CDecl ''ICoreWebView2BasicAuthenticationRequestedEventArgs'' ''HRESULT'' ''get_Uri'' [''LPWSTR *value''],
      CDecl ''ICoreWebView2BasicAuthenticationRequestedEventArgs'' ''HRESULT'' ''get_Challenge'' [''LPWSTR *challenge''],
      CDecl ''ICoreWebView2BasicAuthenticationRequestedEventArgs'' ''HRESULT'' ''get_Response'' [''ICoreWebView2BasicAuthenticationResponse **response''],
      CDecl ''ICoreWebView2BasicAuthenticationRequestedEventArgs'' ''HRESULT'' ''get_Cancel'' [''BOOL *cancel''],
      CDecl ''ICoreWebView2BasicAuthenticationRequestedEventArgs'' ''HRESULT'' ''put_Cancel'' [''BOOL cancel''],
      CDecl ''ICoreWebView2BasicAuthenticationRequestedEventArgs'' ''HRESULT'' ''GetDeferral'' [''ICoreWebView2Deferral **deferral'']]"
  by (simp only: list.map c_method.simps)

lemma ICoreWebView2BasicAuthenticationRequestedEventArgs_views: "ICoreWebView2BasicAuthenticationRequestedEventArgsVtbl = c_view ICoreWebView2BasicAuthenticationRequestedEventArgs"
  by (rule views_IUnknown [OF ICoreWebView2BasicAuthenticationRequestedEventArgs_def ICoreWebView2BasicAuthenticationRequestedEventArgs_decls])
    (simp only: table_simps ICoreWebView2BasicAuthenticationRequestedEventArgsVtbl_def)

lemma ICoreWebView2BasicAuthenticationResponse_decls:
  "map (c_method ''ICoreWebView2BasicAuthenticationResponse'')
     [Method ''HRESULT'' ''get_UserName'' [''LPWSTR *userName''],
      Method ''HRESULT'' ''put_UserName'' [''LPCWSTR userName''],
      Method ''HRESULT'' ''get_Password'' [''LPWSTR *password''],
      Method ''HRESULT'' ''put_Password'' [''LPCWSTR password'']]
   =
     [CDecl ''ICoreWebView2BasicAuthenticationResponse'' ''HRESULT'' ''get_UserName'' [''LPWSTR *userName''],
      CDecl ''ICoreWebView2BasicAuthenticationResponse'' ''HRESULT'' ''put_UserName'' [''LPCWSTR userName''],
      CDecl ''ICoreWebView2BasicAuthenticationResponse'' ''HRESULT'' ''get_Password'' [''LPWSTR *password''],
      CDecl ''ICoreWebView2BasicAuthenticationResponse'' ''HRESULT'' ''put_Password'' [''LPCWSTR password'']]"
  by (simp only: list.map c_method.simps)

lemma ICoreWebView2BasicAuthenticationResponse_views: "ICoreWebView2BasicAuthenticationResponseVtbl = c_view ICoreWebView2BasicAuthenticationResponse"
  by (rule views_IUnknown [OF ICoreWebView2BasicAuthenticationResponse_def ICoreWebView2BasicAuthenticationResponse_decls])
    (simp only: table_simps ICoreWebView2BasicAuthenticationResponseVtbl_def)

lemma ICoreWebView2BrowserProcessExitedEventArgs_decls:
  "map (c_method ''ICoreWebView2BrowserProcessExitedEventArgs'')
     [Method ''HRESULT'' ''get_BrowserProcessExitKind'' [''COREWEBVIEW2_BROWSER_PROCESS_EXIT_KIND *browserProcessExitKind''],
      Method ''HRESULT'' ''get_BrowserProcessId'' [''UINT32 *value'']]
   =
     [CDecl ''ICoreWebView2BrowserProcessExitedEventArgs'' ''HRESULT'' ''get_BrowserProcessExitKind'' [''COREWEBVIEW2_BROWSER_PROCESS_EXIT_KIND *browserProcessExitKind''],
      CDecl ''ICoreWebView2BrowserProcessExitedEventArgs'' ''HRESULT'' ''get_BrowserProcessId'' [''UINT32 *value'']]"
  by (simp only: list.map c_method.simps)

lemma ICoreWebView2BrowserProcessExitedEventArgs_views: "ICoreWebView2BrowserProcessExitedEventArgsVtbl = c_view ICoreWebView2BrowserProcessExitedEventArgs"
  by (rule views_IUnknown [OF ICoreWebView2BrowserProcessExitedEventArgs_def ICoreWebView2BrowserProcessExitedEventArgs_decls])
    (simp only: table_simps ICoreWebView2BrowserProcessExitedEventArgsVtbl_def)

lemma ICoreWebView2ContentLoadingEventArgs_decls:
  "map (c_method ''ICoreWebView2ContentLoadingEventArgs'')
     [Method ''HRESULT'' ''get_IsErrorPage'' [''BOOL *isErrorPage''],
      Method ''HRESULT'' ''get_NavigationId'' [''UINT64 *navigationId'']]
   =
     [CDecl ''ICoreWebView2ContentLoadingEventArgs'' ''HRESULT'' ''get_IsErrorPage'' [''BOOL *isErrorPage''],
      CDecl ''ICoreWebView2ContentLoadingEventArgs'' ''HRESULT'' ''get_NavigationId'' [''UINT64 *navigationId'']]"
  by (simp only: list.map c_method.simps)

lemma ICoreWebView2ContentLoadingEventArgs_views: "ICoreWebView2ContentLoadingEventArgsVtbl = c_view ICoreWebView2ContentLoadingEventArgs"
  by (rule views_IUnknown [OF ICoreWebView2ContentLoadingEventArgs_def ICoreWebView2ContentLoadingEventArgs_decls])
    (simp only: table_simps ICoreWebView2ContentLoadingEventArgsVtbl_def)

lemma ICoreWebView2ContextMenuRequestedEventArgs_decls:
  "map (c_method ''ICoreWebView2ContextMenuRequestedEventArgs'')
     [Method ''HRESULT'' ''get_MenuItems'' [''ICoreWebView2ContextMenuItemCollection **value''],
      Method ''HRESULT'' ''get_ContextMenuTarget'' [''ICoreWebView2ContextMenuTarget **value''],
      Method ''HRESULT'' ''get_Location'' [''POINT *value''],
      Method ''HRESULT'' ''put_SelectedCommandId'' [''INT32 value''],
      Method ''HRESULT'' ''get_SelectedCommandId'' [''INT32 *value''],
      Method ''HRESULT'' ''put_Handled'' [''BOOL value''],
      Method ''HRESULT'' ''get_Handled'' [''BOOL *value''],
      Method ''HRESULT'' ''GetDeferral'' [''ICoreWebView2Deferral **deferral'']]
   =
     [CDecl ''ICoreWebView2ContextMenuRequestedEventArgs'' ''HRESULT'' ''get_MenuItems'' [''ICoreWebView2ContextMenuItemCollection **value''],
      CDecl ''ICoreWebView2ContextMenuRequestedEventArgs'' ''HRESULT'' ''get_ContextMenuTarget'' [''ICoreWebView2ContextMenuTarget **value''],
      CDecl ''ICoreWebView2ContextMenuRequestedEventArgs'' ''HRESULT'' ''get_Location'' [''POINT *value''],
      CDecl ''ICoreWebView2ContextMenuRequestedEventArgs'' ''HRESULT'' ''put_SelectedCommandId'' [''INT32 value''],
      CDecl ''ICoreWebView2ContextMenuRequestedEventArgs'' ''HRESULT'' ''get_SelectedCommandId'' [''INT32 *value''],
      CDecl ''ICoreWebView2ContextMenuRequestedEventArgs'' ''HRESULT'' ''put_Handled'' [''BOOL value''],
      CDecl ''ICoreWebView2ContextMenuRequestedEventArgs'' ''HRESULT'' ''get_Handled'' [''BOOL *value''],
      CDecl ''ICoreWebView2ContextMenuRequestedEventArgs'' ''HRESULT'' ''GetDeferral'' [''ICoreWebView2Deferral **deferral'']]"
  by (simp only: list.map c_method.simps)

lemma ICoreWebView2ContextMenuRequestedEventArgs_views: "ICoreWebView2ContextMenuRequestedEventArgsVtbl = c_view ICoreWebView2ContextMenuRequestedEventArgs"
  by (rule views_IUnknown [OF ICoreWebView2ContextMenuRequestedEventArgs_def ICoreWebView2ContextMenuRequestedEventArgs_decls])
    (simp only: table_simps ICoreWebView2ContextMenuRequestedEventArgsVtbl_def)

lemma ICoreWebView2Cookie_decls:
  "map (c_method ''ICoreWebView2Cookie'')
     [Method ''HRESULT'' ''get_Name'' [''LPWSTR *name''],
      Method ''HRESULT'' ''get_Value'' [''LPWSTR *value''],
      Method ''HRESULT'' ''put_Value'' [''LPCWSTR value''],
      Method ''HRESULT'' ''get_Domain'' [''LPWSTR *domain''],
      Method ''HRESULT'' ''get_Path'' [''LPWSTR *path''],
      Method ''HRESULT'' ''get_Expires'' [''double *expires''],
      Method ''HRESULT'' ''put_Expires'' [''double expires''],
      Method ''HRESULT'' ''get_IsHttpOnly'' [''BOOL *isHttpOnly''],
      Method ''HRESULT'' ''put_IsHttpOnly'' [''BOOL isHttpOnly''],
      Method ''HRESULT'' ''get_SameSite'' [''COREWEBVIEW2_COOKIE_SAME_SITE_KIND *sameSite''],
      Method ''HRESULT'' ''put_SameSite'' [''COREWEBVIEW2_COOKIE_SAME_SITE_KIND sameSite''],
      Method ''HRESULT'' ''get_IsSecure'' [''BOOL *isSecure''],
      Method ''HRESULT'' ''put_IsSecure'' [''BOOL isSecure''],
      Method ''HRESULT'' ''get_IsSession'' [''BOOL *isSession'']]
   =
     [CDecl ''ICoreWebView2Cookie'' ''HRESULT'' ''get_Name'' [''LPWSTR *name''],
      CDecl ''ICoreWebView2Cookie'' ''HRESULT'' ''get_Value'' [''LPWSTR *value''],
      CDecl ''ICoreWebView2Cookie'' ''HRESULT'' ''put_Value'' [''LPCWSTR value''],
      CDecl ''ICoreWebView2Cookie'' ''HRESULT'' ''get_Domain'' [''LPWSTR *domain''],
      CDecl ''ICoreWebView2Cookie'' ''HRESULT'' ''get_Path'' [''LPWSTR *path''],
      CDecl ''ICoreWebView2Cookie'' ''HRESULT'' ''get_Expires'' [''double *expires''],
      CDecl ''ICoreWebView2Cookie'' ''HRESULT'' ''put_Expires'' [''double expires''],
      CDecl ''ICoreWebView2Cookie'' ''HRESULT'' ''get_IsHttpOnly'' [''BOOL *isHttpOnly''],
      CDecl ''ICoreWebView2Cookie'' ''HRESULT'' ''put_IsHttpOnly'' [''BOOL isHttpOnly''],
      CDecl ''ICoreWebView2Cookie'' ''HRESULT'' ''get_SameSite'' [''COREWEBVIEW2_COOKIE_SAME_SITE_KIND *sameSite''],
      CDecl ''ICoreWebView2Cookie'' ''HRESULT'' ''put_SameSite'' [''COREWEBVIEW2_COOKIE_SAME_SITE_KIND sameSite''],
      CDecl ''ICoreWebView2Cookie'' ''HRESULT'' ''get_IsSecure'' [''BOOL *isSecure''],
      CDecl ''ICoreWebView2Cookie'' ''HRESULT'' ''put_IsSecure'' [''BOOL isSecure''],
      CDecl ''ICoreWebView2Cookie'' ''HRESULT'' ''get_IsSession'' [''BOOL *isSession'']]"
  by (simp only: list.map c_method.simps)

lemma ICoreWebView2Cookie_views: "ICoreWebView2CookieVtbl = c_view ICoreWebView2Cookie"
  by (rule views_IUnknown [OF ICoreWebView2Cookie_def ICoreWebView2Cookie_decls])
    (simp only: table_simps ICoreWebView2CookieVtbl_def)

lemma ICoreWebView2CookieList_decls:
  "map (c_method ''ICoreWebView2CookieList'')
     [Method ''HRESULT'' ''get_Count'' [''UINT *count''],
      Method ''HRESULT'' ''GetValueAtIndex'' [''UINT index'', ''ICoreWebView2Cookie **cookie'']]
   =
     [CDecl ''ICoreWebView2CookieList'' ''HRESULT'' ''get_Count'' [''UINT *count''],
      CDecl ''ICoreWebView2CookieList'' ''HRESULT'' ''GetValueAtIndex'' [''UINT index'', ''ICoreWebView2Cookie **cookie'']]"
  by (simp only: list.map c_method.simps)

lemma ICoreWebView2CookieList_views: "ICoreWebView2CookieListVtbl = c_view ICoreWebView2CookieList"
  by (rule views_IUnknown [OF ICoreWebView2CookieList_def ICoreWebView2CookieList_decls])
    (simp only: table_simps ICoreWebView2CookieListVtbl_def)

lemma ICoreWebView2Certificate_decls:
  "map (c_method ''ICoreWebView2Certificate'')
     [Method ''HRESULT'' ''get_Subject'' [''LPWSTR *value''],
      Method ''HRESULT'' ''get_Issuer'' [''LPWSTR *value''],
      Method ''HRESULT'' ''get_ValidFrom'' [''double *value''],
      Method ''HRESULT'' ''get_ValidTo'' [''double *value''],
      Method ''HRESULT'' ''get_DerEncodedSerialNumber'' [''LPWSTR *value''],
      Method ''HRESULT'' ''get_DisplayName'' [''LPWSTR *value''],
      Method ''HRESULT'' ''ToPemEncoding'' [''LPWSTR *pemEncodedData''],
      Method ''HRESULT'' ''get_PemEncodedIssuerCertificateChain'' [''ICoreWebView2StringCollection **value'']]
   =
     [CDecl ''ICoreWebView2Certificate'' ''HRESULT'' ''get_Subject'' [''LPWSTR *value''],
      CDecl ''ICoreWebView2Certificate'' ''HRESULT'' ''get_Issuer'' [''LPWSTR *value''],
      CDecl ''ICoreWebView2Certificate'' ''HRESULT'' ''get_ValidFrom'' [''double *value''],
      CDecl ''ICoreWebView2Certificate'' ''HRESULT'' ''get_ValidTo'' [''double *value''],
      CDecl ''ICoreWebView2Certificate'' ''HRESULT'' ''get_DerEncodedSerialNumber'' [''LPWSTR *value''],
      CDecl ''ICoreWebView2Certificate'' ''HRESULT'' ''get_DisplayName'' [''LPWSTR *value''],
      CDecl ''ICoreWebView2Certificate'' ''HRESULT'' ''ToPemEncoding'' [''LPWSTR *pemEncodedData''],
      CDecl ''ICoreWebView2Certificate'' ''HRESULT'' ''get_PemEncodedIssuerCertificateChain'' [''ICoreWebView2StringCollection **value'']]"
  by (simp only: list.map c_method.simps)

lemma ICoreWebView2Certificate_views: "ICoreWebView2CertificateVtbl = c_view ICoreWebView2Certificate"
  by (rule views_IUnknown [OF ICoreWebView2Certificate_def ICoreWebView2Certificate_decls])
    (simp only: table_simps ICoreWebView2CertificateVtbl_def)

lemma ICoreWebView2ClientCertificate_decls:
  "map (c_method ''ICoreWebView2ClientCertificate'')
     [Method ''HRESULT'' ''get_Subject'' [''LPWSTR *value''],
      Method ''HRESULT'' ''get_Issuer'' [''LPWSTR *value''],
      Method ''HRESULT'' ''get_ValidFrom'' [''double *value''],
      Method ''HRESULT'' ''get_ValidTo'' [''double *value''],
      Method ''HRESULT'' ''get_DerEncodedSerialNumber'' [''LPWSTR *value''],
      Method ''HRESULT'' ''get_DisplayName'' [''LPWSTR *value''],
      Method ''HRESULT'' ''ToPemEncoding'' [''LPWSTR *pemEncodedData''],
      Method ''HRESULT'' ''get_PemEncodedIssuerCertificateChain'' [''ICoreWebView2StringCollection **value''],
      Method ''HRESULT'' ''get_Kind'' [''COREWEBVIEW2_CLIENT_CERTIFICATE_KIND *value'']]
   =
     [CDecl ''ICoreWebView2ClientCertificate'' ''HRESULT'' ''get_Subject'' [''LPWSTR *value''],
      CDecl ''ICoreWebView2ClientCertificate'' ''HRESULT'' ''get_Issuer'' [''LPWSTR *value''],
      CDecl ''ICoreWebView2ClientCertificate'' ''HRESULT'' ''get_ValidFrom'' [''double *value''],
      CDecl ''ICoreWebView2ClientCertificate'' ''HRESULT'' ''get_ValidTo'' [''double *value''],
      CDecl ''ICoreWebView2ClientCertificate'' ''HRESULT'' ''get_DerEncodedSerialNumber'' [''LPWSTR *value''],
      CDecl ''ICoreWebView2ClientCertificate'' ''HRESULT'' ''get_DisplayName'' [''LPWSTR *value''],
      CDecl ''ICoreWebView2ClientCertificate'' ''HRESULT'' ''ToPemEncoding'' [''LPWSTR *pemEncodedData''],
      CDecl ''ICoreWebView2ClientCertificate'' ''HRESULT'' ''get_PemEncodedIssuerCertificateChain'' [''ICoreWebView2StringCollection **value''],
      CDecl ''ICoreWebView2ClientCertificate'' ''HRESULT'' ''get_Kind'' [''COREWEBVIEW2_CLIENT_CERTIFICATE_KIND *value'']]"
  by (simp only: list.map c_method.simps)

lemma ICoreWebView2ClientCertificate_views: "ICoreWebView2ClientCertificateVtbl = c_view ICoreWebView2ClientCertificate"
  by (rule views_IUnknown [OF ICoreWebView2ClientCertificate_def ICoreWebView2ClientCertificate_decls])
    (simp only: table_simps ICoreWebView2ClientCertificateVtbl_def)

lemma ICoreWebView2StringCollection_decls:
  "map (c_method ''ICoreWebView2StringCollection'')
     [Method ''HRESULT'' ''get_Count'' [''UINT *value''],
      Method ''HRESULT'' ''GetValueAtIndex'' [''UINT index'', ''LPWSTR *value'']]
   =
     [CDecl ''ICoreWebView2StringCollection'' ''HRESULT'' ''get_Count'' [''UINT *value''],
      CDecl ''ICoreWebView2StringCollection'' ''HRESULT'' ''GetValueAtIndex'' [''UINT index'', ''LPWSTR *value'']]"
  by (simp only: list.map c_method.simps)

lemma ICoreWebView2StringCollection_views: "ICoreWebView2StringCollectionVtbl = c_view ICoreWebView2StringCollection"
  by (rule views_IUnknown [OF ICoreWebView2StringCollection_def ICoreWebView2StringCollection_decls])
    (simp only: table_simps ICoreWebView2StringCollectionVtbl_def)

lemma ICoreWebView2ClientCertificateCollection_decls:
  "map (c_method ''ICoreWebView2ClientCertificateCollection'')
     [Method ''HRESULT'' ''get_Count'' [''UINT *value''],
      Method ''HRESULT'' ''GetValueAtIndex'' [''UINT index'', ''ICoreWebView2ClientCertificate **certificate'']]
   =
     [CDecl ''ICoreWebView2ClientCertificateCollection'' ''HRESULT'' ''get_Count'' [''UINT *value''],
      CDecl ''ICoreWebView2ClientCertificateCollection'' ''HRESULT'' ''GetValueAtIndex'' [''UINT index'', ''ICoreWebView2ClientCertificate **certificate'']]"
  by (simp only: list.map c_method.simps)

lemma ICoreWebView2ClientCertificateCollection_views: "ICoreWebView2ClientCertificateCollectionVtbl = c_view ICoreWebView2ClientCertificateCollection"
  by (rule views_IUnknown [OF ICoreWebView2ClientCertificateCollection_def ICoreWebView2ClientCertificateCollection_decls])
    (simp only: table_simps ICoreWebView2ClientCertificateCollectionVtbl_def)

lemma ICoreWebView2ClientCertificateRequestedEventArgs_decls:
  "map (c_method ''ICoreWebView2ClientCertificateRequestedEventArgs'')
     [Method ''HRESULT'' ''get_Host'' [''LPWSTR *value''],
      Method ''HRESULT'' ''get_Port'' [''int *value''],
      Method ''HRESULT'' ''get_IsProxy'' [''BOOL *value''],
      Method ''HRESULT'' ''get_AllowedCertificateAuthorities'' [''ICoreWebView2StringCollection **value''],
      Method ''HRESULT'' ''get_MutuallyTrustedCertificates'' [''ICoreWebView2ClientCertificateCollection **value''],
      Method ''HRESULT'' ''get_SelectedCertificate'' [''ICoreWebView2ClientCertificate **value''],
      Method ''HRESULT'' ''put_SelectedCertificate'' [''ICoreWebView2ClientCertificate *value''],
      Method ''HRESULT'' ''get_Cancel'' [''BOOL *value''],
      Method ''HRESULT'' ''put_Cancel'' [''BOOL value''],
      Method ''HRESULT'' ''get_Handled'' [''BOOL *value''],
      Method ''HRESULT'' ''put_Handled'' [''BOOL value''],
      Method ''HRESULT'' ''GetDeferral'' [''ICoreWebView2Deferral **deferral'']]
   =
     [CDecl ''ICoreWebView2ClientCertificateRequestedEventArgs'' ''HRESULT'' ''get_Host'' [''LPWSTR *value''],
      CDecl ''ICoreWebView2ClientCertificateRequestedEventArgs'' ''HRESULT'' ''get_Port'' [''int *value''],
      CDecl ''ICoreWebView2ClientCertificateRequestedEventArgs'' ''HRESULT'' ''get_IsProxy'' [''BOOL *value''],
      CDecl ''ICoreWebView2ClientCertificateRequestedEventArgs'' ''HRESULT'' ''get_AllowedCertificateAuthorities'' [''ICoreWebView2StringCollection **value''],
      CDecl ''ICoreWebView2ClientCertificateRequestedEventArgs'' ''HRESULT'' ''get_MutuallyTrustedCertificates'' [''ICoreWebView2ClientCertificateCollection **value''],
      CDecl ''ICoreWebView2ClientCertificateRequestedEventArgs'' ''HRESULT'' ''get_SelectedCertificate'' [''ICoreWebView2ClientCertificate **value''],
      CDecl ''ICoreWebView2ClientCertificateRequestedEventArgs'' ''HRESULT'' ''put_SelectedCertificate'' [''ICoreWebView2ClientCertificate *value''],
      CDecl ''ICoreWebView2ClientCertificateRequestedEventArgs'' ''HRESULT'' ''get_Cancel'' [''BOOL *value''],
      CDecl ''ICoreWebView2ClientCertificateRequestedEventArgs'' ''HRESULT'' ''put_Cancel'' [''BOOL value''],
      CDecl ''ICoreWebView2ClientCertificateRequestedEventArgs'' ''HRESULT'' ''get_Handled'' [''BOOL *value''],
      CDecl ''ICoreWebView2ClientCertificateRequestedEventArgs'' ''HRESULT'' ''put_Handled'' [''BOOL value''],
      CDecl ''ICoreWebView2ClientCertificateRequestedEventArgs'' ''HRESULT'' ''GetDeferral'' [''ICoreWebView2Deferral **deferral'']]"
  by (simp only: list.map c_method.simps)

lemma ICoreWebView2ClientCertificateRequestedEventArgs_views: "ICoreWebView2ClientCertificateRequestedEventArgsVtbl = c_view ICoreWebView2ClientCertificateRequestedEventArgs"
  by (rule views_IUnknown [OF ICoreWebView2ClientCertificateRequestedEventArgs_def ICoreWebView2ClientCertificateRequestedEventArgs_decls])
    (simp only: table_simps ICoreWebView2ClientCertificateRequestedEventArgsVtbl_def)

lemma ICoreWebView2ContextMenuItem_decls:
  "map (c_method ''ICoreWebView2ContextMenuItem'')
     [Method ''HRESULT'' ''get_Name'' [''LPWSTR *value''],
      Method ''HRESULT'' ''get_Label'' [''LPWSTR *value''],
      Method ''HRESULT'' ''get_CommandId'' [''INT32 *value''],
      Method ''HRESULT'' ''get_ShortcutKeyDescription'' [''LPWSTR *value''],
      Method ''HRESULT'' ''get_Icon'' [''IStream **value''],
      Method ''HRESULT'' ''get_Kind'' [''COREWEBVIEW2_CONTEXT_MENU_ITEM_KIND *value''],
      Method ''HRESULT'' ''put_IsEnabled'' [''BOOL value''],
      Method ''HRESULT'' ''get_IsEnabled'' [''BOOL *value''],
      Method ''HRESULT'' ''put_IsChecked'' [''BOOL value''],
      Method ''HRESULT'' ''get_IsChecked'' [''BOOL *value''],
      Method ''HRESULT'' ''get_Children'' [''ICoreWebView2ContextMenuItemCollection **value''],
      Method ''HRESULT'' ''add_CustomItemSelected'' [''ICoreWebView2CustomItemSelectedEventHandler *eventHandler'', ''EventRegistrationToken *token''],
      Method ''HRESULT'' ''remove_CustomItemSelected'' [''EventRegistrationToken token'']]
   =
     [CDecl ''ICoreWebView2ContextMenuItem'' ''HRESULT'' ''get_Name'' [''LPWSTR *value''],
      CDecl ''ICoreWebView2ContextMenuItem'' ''HRESULT'' ''get_Label'' [''LPWSTR *value''],
      CDecl ''ICoreWebView2ContextMenuItem'' ''HRESULT'' ''get_CommandId'' [''INT32 *value''],
      CDecl ''ICoreWebView2ContextMenuItem'' ''HRESULT'' ''get_ShortcutKeyDescription'' [''LPWSTR *value''],
      CDecl ''ICoreWebView2ContextMenuItem'' ''HRESULT'' ''get_Icon'' [''IStream **value''],
      CDecl ''ICoreWebView2ContextMenuItem'' ''HRESULT'' ''get_Kind'' [''COREWEBVIEW2_CONTEXT_MENU_ITEM_KIND *value''],
      CDecl ''ICoreWebView2ContextMenuItem'' ''HRESULT'' ''put_IsEnabled'' [''BOOL value''],
      CDecl ''ICoreWebView2ContextMenuItem'' ''HRESULT'' ''get_IsEnabled'' [''BOOL *value''],
      CDecl ''ICoreWebView2ContextMenuItem'' ''HRESULT'' ''put_IsChecked'' [''BOOL value''],
      CDecl ''ICoreWebView2ContextMenuItem'' ''HRESULT'' ''get_IsChecked'' [''BOOL *value''],
      CDecl ''ICoreWebView2ContextMenuItem'' ''HRESULT'' ''get_Children'' [''ICoreWebView2ContextMenuItemCollection **value''],
      CDecl ''ICoreWebView2ContextMenuItem'' ''HRESULT'' ''add_CustomItemSelected'' [''ICoreWebView2CustomItemSelectedEventHandler *eventHandler'', ''EventRegistrationToken *token''],
      CDecl ''ICoreWebView2ContextMenuItem'' ''HRESULT'' ''remove_CustomItemSelected'' [''EventRegistrationToken token'']]"
  by (simp only: list.map c_method.simps)

lemma ICoreWebView2ContextMenuItem_views: "ICoreWebView2ContextMenuItemVtbl = c_view ICoreWebView2ContextMenuItem"
  by (rule views_IUnknown [OF ICoreWebView2ContextMenuItem_def ICoreWebView2ContextMenuItem_decls])
    (simp only: table_simps ICoreWebView2ContextMenuItemVtbl_def)

lemma ICoreWebView2ContextMenuItemCollection_decls:
  "map (c_method ''ICoreWebView2ContextMenuItemCollection'')
     [Method ''HRESULT'' ''get_Count'' [''UINT32 *value''],
      Method ''HRESULT'' ''GetValueAtIndex'' [''UINT32 index'', ''ICoreWebView2ContextMenuItem **value''],
      Method ''HRESULT'' ''RemoveValueAtIndex'' [''UINT32 index''],
      Method ''HRESULT'' ''InsertValueAtIndex'' [''UINT32 index'', ''ICoreWebView2ContextMenuItem *value'']]
   =
     [CDecl ''ICoreWebView2ContextMenuItemCollection'' ''HRESULT'' ''get_Count'' [''UINT32 *value''],
      CDecl ''ICoreWebView2ContextMenuItemCollection'' ''HRESULT'' ''GetValueAtIndex'' [''UINT32 index'', ''ICoreWebView2ContextMenuItem **value''],
      CDecl ''ICoreWebView2ContextMenuItemCollection'' ''HRESULT'' ''RemoveValueAtIndex'' [''UINT32 index''],
      CDecl ''ICoreWebView2ContextMenuItemCollection'' ''HRESULT'' ''InsertValueAtIndex'' [''UINT32 index'', ''ICoreWebView2ContextMenuItem *value'']]"
  by (simp only: list.map c_method.simps)

lemma ICoreWebView2ContextMenuItemCollection_views: "ICoreWebView2ContextMenuItemCollectionVtbl = c_view ICoreWebView2ContextMenuItemCollection"
  by (rule views_IUnknown [OF ICoreWebView2ContextMenuItemCollection_def ICoreWebView2ContextMenuItemCollection_decls])
    (simp only: table_simps ICoreWebView2ContextMenuItemCollectionVtbl_def)

lemma ICoreWebView2ContextMenuTarget_decls:
  "map (c_method ''ICoreWebView2ContextMenuTarget'')
     [Method ''HRESULT'' ''get_Kind'' [''COREWEBVIEW2_CONTEXT_MENU_TARGET_KIND *value''],
      Method ''HRESULT'' ''get_IsEditable'' [''BOOL *value''],
      Method ''HRESULT'' ''get_IsRequestedForMainFrame'' [''BOOL *value''],
      Method ''HRESULT'' ''get_PageUri'' [''LPWSTR *value''],
      Method ''HRESULT'' ''get_FrameUri'' [''LPWSTR *value''],
      Method ''HRESULT'' ''get_HasLinkUri'' [''BOOL *value''],
      Method ''HRESULT'' ''get_LinkUri'' [''LPWSTR *value''],
      Method ''HRESULT'' ''get_HasLinkText'' [''BOOL *value''],
      Method ''HRESULT'' ''get_LinkText'' [''LPWSTR *value''],
      Method ''HRESULT'' ''get_HasSourceUri'' [''BOOL *value''],
      Method ''HRESULT'' ''get_SourceUri'' [''LPWSTR *value''],
      Method ''HRESULT'' ''get_HasSelection'' [''BOOL *value''],
      Method ''HRESULT'' ''get_SelectionText'' [''LPWSTR *value'']]
   =
     [CDecl ''ICoreWebView2ContextMenuTarget'' ''HRESULT'' ''get_Kind'' [''COREWEBVIEW2_CONTEXT_MENU_TARGET_KIND *value''],
      CDecl ''ICoreWebView2ContextMenuTarget'' ''HRESULT'' ''get_IsEditable'' [''BOOL *value''],
      CDecl ''ICoreWebView2ContextMenuTarget'' ''HRESULT'' ''get_IsRequestedForMainFrame'' [''BOOL *value''],
      CDecl ''ICoreWebView2ContextMenuTarget'' ''HRESULT'' ''get_PageUri'' [''LPWSTR *value''],
      CDecl ''ICoreWebView2ContextMenuTarget'' ''HRESULT'' ''get_FrameUri'' [''LPWSTR *value''],
      CDecl ''ICoreWebView2ContextMenuTarget'' ''HRESULT'' ''get_HasLinkUri'' [''BOOL *value''],
      CDecl ''ICoreWebView2ContextMenuTarget'' ''HRESULT'' ''get_LinkUri'' [''LPWSTR *value''],
      CDecl ''ICoreWebView2ContextMenuTarget'' ''HRESULT'' ''get_HasLinkText'' [''BOOL *value''],
      CDecl ''ICoreWebView2ContextMenuTarget'' ''HRESULT'' ''get_LinkText'' [''LPWSTR *value''],
      CDecl ''ICoreWebView2ContextMenuTarget'' ''HRESULT'' ''get_HasSourceUri'' [''BOOL *value''],
      CDecl ''ICoreWebView2ContextMenuTarget'' ''HRESULT'' ''get_SourceUri'' [''LPWSTR *value''],
      CDecl ''ICoreWebView2ContextMenuTarget'' ''HRESULT'' ''get_HasSelection'' [''BOOL *value''],
      CDecl ''ICoreWebView2ContextMenuTarget'' ''HRESULT'' ''get_SelectionText'' [''LPWSTR *value'']]"
  by (simp only: list.map c_method.simps)

lemma ICoreWebView2ContextMenuTarget_views: "ICoreWebView2ContextMenuTargetVtbl = c_view ICoreWebView2ContextMenuTarget"
  by (rule views_IUnknown [OF ICoreWebView2ContextMenuTarget_def ICoreWebView2ContextMenuTarget_decls])
    (simp only: table_simps ICoreWebView2ContextMenuTargetVtbl_def)

lemma ICoreWebView2CustomSchemeRegistration_decls:
  "map (c_method ''ICoreWebView2CustomSchemeRegistration'')
     [Method ''HRESULT'' ''get_SchemeName'' [''LPWSTR *schemeName''],
      Method ''HRESULT'' ''get_TreatAsSecure'' [''BOOL *treatAsSecure''],
      Method ''HRESULT'' ''put_TreatAsSecure'' [''BOOL value''],
      Method ''HRESULT'' ''GetAllowedOrigins'' [''UINT32 *allowedOriginsCount'', ''LPWSTR **allowedOrigins''],
      Method ''HRESULT'' ''SetAllowedOrigins'' [''UINT32 allowedOriginsCount'', ''LPCWSTR *allowedOrigins''],
      Method ''HRESULT'' ''get_HasAuthorityComponent'' [''BOOL *hasAuthorityComponent''],
      Method ''HRESULT'' ''put_HasAuthorityComponent'' [''BOOL hasAuthorityComponent'']]
   =
     [CDecl ''ICoreWebView2CustomSchemeRegistration'' ''HRESULT'' ''get_SchemeName'' [''LPWSTR *schemeName''],
      CDecl ''ICoreWebView2CustomSchemeRegistration'' ''HRESULT'' ''get_TreatAsSecure'' [''BOOL *treatAsSecure''],
      CDecl ''ICoreWebView2CustomSchemeRegistration'' ''HRESULT'' ''put_TreatAsSecure'' [''BOOL value''],
      CDecl ''ICoreWebView2CustomSchemeRegistration'' ''HRESULT'' ''GetAllowedOrigins'' [''UINT32 *allowedOriginsCount'', ''LPWSTR **allowedOrigins''],
      CDecl ''ICoreWebView2CustomSchemeRegistration'' ''HRESULT'' ''SetAllowedOrigins'' [''UINT32 allowedOriginsCount'', ''LPCWSTR *allowedOrigins''],
      CDecl ''ICoreWebView2CustomSchemeRegistration'' ''HRESULT'' ''get_HasAuthorityComponent'' [''BOOL *hasAuthorityComponent''],
      CDecl ''ICoreWebView2CustomSchemeRegistration'' ''HRESULT'' ''put_HasAuthorityComponent'' [''BOOL hasAuthorityComponent'']]"
  by (simp only: list.map c_method.simps)

lemma ICoreWebView2CustomSchemeRegistration_views: "ICoreWebView2CustomSchemeRegistrationVtbl = c_view ICoreWebView2CustomSchemeRegistration"
  by (rule views_IUnknown [OF ICoreWebView2CustomSchemeRegistration_def ICoreWebView2CustomSchemeRegistration_decls])
    (simp only: table_simps ICoreWebView2CustomSchemeRegistrationVtbl_def)

lemma ICoreWebView2DOMContentLoadedEventArgs_decls:
  "map (c_method ''ICoreWebView2DOMContentLoadedEventArgs'')
     [Method ''HRESULT'' ''get_NavigationId'' [''UINT64 *navigationId'']]
   =
     [CDecl ''ICoreWebView2DOMContentLoadedEventArgs'' ''HRESULT'' ''get_NavigationId'' [''UINT64 *navigationId'']]"
  by (simp only: list.map c_method.simps)

lemma ICoreWebView2DOMContentLoadedEventArgs_views: "ICoreWebView2DOMContentLoadedEventArgsVtbl = c_view ICoreWebView2DOMContentLoadedEventArgs"
  by (rule views_IUnknown [OF ICoreWebView2DOMContentLoadedEventArgs_def ICoreWebView2DOMContentLoadedEventArgs_decls])
    (simp only: table_simps ICoreWebView2DOMContentLoadedEventArgsVtbl_def)

lemma ICoreWebView2Deferral_decls:
  "map (c_method ''ICoreWebView2Deferral'')
     [Method ''HRESULT'' ''Complete'' []]
   =
     [CDecl ''ICoreWebView2Deferral'' ''HRESULT'' ''Complete'' []]"
  by (simp only: list.map c_method.simps)

lemma ICoreWebView2Deferral_views: "ICoreWebView2DeferralVtbl = c_view ICoreWebView2Deferral"
  by (rule views_IUnknown [OF ICoreWebView2Deferral_def ICoreWebView2Deferral_decls])
    (simp only: table_simps ICoreWebView2DeferralVtbl_def)

lemma ICoreWebView2DevToolsProtocolEventReceivedEventArgs_decls:
  "map (c_method ''ICoreWebView2DevToolsProtocolEventReceivedEventArgs'')
     [ICoreWebView2DevToolsProtocolEventReceivedEventArgs_get_ParameterObjectAsJson]
   =
     [ICoreWebView2DevToolsProtocolEventReceivedEventArgs_get_ParameterObjectAsJson_C]"
  by (simp only: list.map c_method.simps ICoreWebView2DevToolsProtocolEventReceivedEventArgs_get_ParameterObjectAsJson_def
      ICoreWebView2DevToolsProtocolEventReceivedEventArgs_get_ParameterObjectAsJson_C_def)

lemma ICoreWebView2DevToolsProtocolEventReceivedEventArgs_views: "ICoreWebView2DevToolsProtocolEventReceivedEventArgsVtbl = c_view ICoreWebView2DevToolsProtocolEventReceivedEventArgs"
  by (rule views_IUnknown [OF ICoreWebView2DevToolsProtocolEventReceivedEventArgs_def ICoreWebView2DevToolsProtocolEventReceivedEventArgs_decls])
    (simp only: table_simps ICoreWebView2DevToolsProtocolEventReceivedEventArgsVtbl_def)

lemma ICoreWebView2DevToolsProtocolEventReceivedEventArgs2_decls:
  "map (c_method ''ICoreWebView2DevToolsProtocolEventReceivedEventArgs2'')
     [Method ''HRESULT'' ''get_SessionId'' [''LPWSTR *sessionId'']]
   =
     [CDecl ''ICoreWebView2DevToolsProtocolEventReceivedEventArgs2'' ''HRESULT'' ''get_SessionId'' [''LPWSTR *sessionId'']]"
  by (simp only: list.map c_method.simps)

lemma ICoreWebView2DevToolsProtocolEventReceivedEventArgs2_views: "ICoreWebView2DevToolsProtocolEventReceivedEventArgs2Vtbl = c_view ICoreWebView2DevToolsProtocolEventReceivedEventArgs2"
  by (rule views_Derived [OF ICoreWebView2DevToolsProtocolEventReceivedEventArgs2_def ICoreWebView2DevToolsProtocolEventReceivedEventArgs2_decls ICoreWebView2DevToolsProtocolEventReceivedEventArgs_views])
    (simp only: table_simps ICoreWebView2DevToolsProtocolEventReceivedEventArgs2Vtbl_def
      ICoreWebView2DevToolsProtocolEventReceivedEventArgsVtbl_def)

lemma ICoreWebView2DevToolsProtocolEventReceiver_decls:
  "map (c_method ''ICoreWebView2DevToolsProtocolEventReceiver'')
     [Method ''HRESULT'' ''add_DevToolsProtocolEventReceived'' [''ICoreWebView2DevToolsProtocolEventReceivedEventHandler *handler'', ''EventRegistrationToken *token''],
      Method ''HRESULT'' ''remove_DevToolsProtocolEventReceived'' [''EventRegistrationToken token'']]
   =
     [CDecl ''ICoreWebView2DevToolsProtocolEventReceiver'' ''HRESULT'' ''add_DevToolsProtocolEventReceived'' [''ICoreWebView2DevToolsProtocolEventReceivedEventHandler *handler'', ''EventRegistrationToken *token''],
      CDecl ''ICoreWebView2DevToolsProtocolEventReceiver'' ''HRESULT'' ''remove_DevToolsProtocolEventReceived'' [''EventRegistrationToken token'']]"
  by (simp only: list.map c_method.simps)

lemma ICoreWebView2DevToolsProtocolEventReceiver_views: "ICoreWebView2DevToolsProtocolEventReceiverVtbl = c_view ICoreWebView2DevToolsProtocolEventReceiver"
  by (rule views_IUnknown [OF ICoreWebView2DevToolsProtocolEventReceiver_def ICoreWebView2DevToolsProtocolEventReceiver_decls])
    (simp only: table_simps ICoreWebView2DevToolsProtocolEventReceiverVtbl_def)

lemma ICoreWebView2DownloadStartingEventArgs_decls:
  "map (c_method ''ICoreWebView2DownloadStartingEventArgs'')
     [Method ''HRESULT'' ''get_DownloadOperation'' [''ICoreWebView2DownloadOperation **downloadOperation''],
      Method ''HRESULT'' ''get_Cancel'' [''BOOL *cancel''],
      Method ''HRESULT'' ''put_Cancel'' [''BOOL cancel''],
      Method ''HRESULT'' ''get_ResultFilePath'' [''LPWSTR *resultFilePath''],
      Method ''HRESULT'' ''put_ResultFilePath'' [''LPCWSTR resultFilePath''],
      Method ''HRESULT'' ''get_Handled'' [''BOOL *handled''],
      Method ''HRESULT'' ''put_Handled'' [''BOOL handled''],
      Method ''HRESULT'' ''GetDeferral'' [''ICoreWebView2Deferral **deferral'']]
   =
     [CDecl ''ICoreWebView2DownloadStartingEventArgs'' ''HRESULT'' ''get_DownloadOperation'' [''ICoreWebView2DownloadOperation **downloadOperation''],
      CDecl ''ICoreWebView2DownloadStartingEventArgs'' ''HRESULT'' ''get_Cancel'' [''BOOL *cancel''],
      CDecl ''ICoreWebView2DownloadStartingEventArgs'' ''HRESULT'' ''put_Cancel'' [''BOOL cancel''],
      CDecl ''ICoreWebView2DownloadStartingEventArgs'' ''HRESULT'' ''get_ResultFilePath'' [''LPWSTR *resultFilePath''],
      CDecl ''ICoreWebView2DownloadStartingEventArgs'' ''HRESULT'' ''put_ResultFilePath'' [''LPCWSTR resultFilePath''],
      CDecl ''ICoreWebView2DownloadStartingEventArgs'' ''HRESULT'' ''get_Handled'' [''BOOL *handled''],
      CDecl ''ICoreWebView2DownloadStartingEventArgs'' ''HRESULT'' ''put_Handled'' [''BOOL handled''],
      CDecl ''ICoreWebView2DownloadStartingEventArgs'' ''HRESULT'' ''GetDeferral'' [''ICoreWebView2Deferral **deferral'']]"
  by (simp only: list.map c_method.simps)

lemma ICoreWebView2DownloadStartingEventArgs_views: "ICoreWebView2DownloadStartingEventArgsVtbl = c_view ICoreWebView2DownloadStartingEventArgs"
  by (rule views_IUnknown [OF ICoreWebView2DownloadStartingEventArgs_def ICoreWebView2DownloadStartingEventArgs_decls])
    (simp only: table_simps ICoreWebView2DownloadStartingEventArgsVtbl_def)

lemma ICoreWebView2FrameCreatedEventArgs_decls:
  "map (c_method ''ICoreWebView2FrameCreatedEventArgs'')
     [Method ''HRESULT'' ''get_Frame'' [''ICoreWebView2Frame **frame'']]
   =
     [CDecl ''ICoreWebView2FrameCreatedEventArgs'' ''HRESULT'' ''get_Frame'' [''ICoreWebView2Frame **frame'']]"
  by (simp only: list.map c_method.simps)

lemma ICoreWebView2FrameCreatedEventArgs_views: "ICoreWebView2FrameCreatedEventArgsVtbl = c_view ICoreWebView2FrameCreatedEventArgs"
  by (rule views_IUnknown [OF ICoreWebView2FrameCreatedEventArgs_def ICoreWebView2FrameCreatedEventArgs_decls])
    (simp only: table_simps ICoreWebView2FrameCreatedEventArgsVtbl_def)

lemma ICoreWebView2HttpHeadersCollectionIterator_decls:
  "map (c_method ''ICoreWebView2HttpHeadersCollectionIterator'')
     [Method ''HRESULT'' ''GetCurrentHeader'' [''LPWSTR *name'', ''LPWSTR *value''],
      Method ''HRESULT'' ''get_HasCurrentHeader'' [''BOOL *hasCurrent''],
      Method ''HRESULT'' ''MoveNext'' [''BOOL *hasNext'']]
   =
     [CDecl ''ICoreWebView2HttpHeadersCollectionIterator'' ''HRESULT'' ''GetCurrentHeader'' [''LPWSTR *name'', ''LPWSTR *value''],
      CDecl ''ICoreWebView2HttpHeadersCollectionIterator'' ''HRESULT'' ''get_HasCurrentHeader'' [''BOOL *hasCurrent''],
      CDecl ''ICoreWebView2HttpHeadersCollectionIterator'' ''HRESULT'' ''MoveNext'' [''BOOL *hasNext'']]"
  by (simp only: list.map c_method.simps)

lemma ICoreWebView2HttpHeadersCollectionIterator_views: "ICoreWebView2HttpHeadersCollectionIteratorVtbl = c_view ICoreWebView2HttpHeadersCollectionIterator"
  by (rule views_IUnknown [OF ICoreWebView2HttpHeadersCollectionIterator_def ICoreWebView2HttpHeadersCollectionIterator_decls])
    (simp only: table_simps ICoreWebView2HttpHeadersCollectionIteratorVtbl_def)

lemma ICoreWebView2HttpRequestHeaders_decls:
  "map (c_method ''ICoreWebView2HttpRequestHeaders'')
     [Method ''HRESULT'' ''GetHeader'' [''LPCWSTR name'', ''LPWSTR *value''],
      Method ''HRESULT'' ''GetHeaders'' [''LPCWSTR name'', ''ICoreWebView2HttpHeadersCollectionIterator **iterator''],
      Method ''HRESULT'' ''Contains'' [''LPCWSTR name'', ''BOOL *contains''],
      Method ''HRESULT'' ''SetHeader'' [''LPCWSTR name'', ''LPCWSTR value''],
      Method ''HRESULT'' ''RemoveHeader'' [''LPCWSTR name''],
      Method ''HRESULT'' ''GetIterator'' [''ICoreWebView2HttpHeadersCollectionIterator **iterator'']]
   =
     [CDecl ''ICoreWebView2HttpRequestHeaders'' ''HRESULT'' ''GetHeader'' [''LPCWSTR name'', ''LPWSTR *value''],
      CDecl ''ICoreWebView2HttpRequestHeaders'' ''HRESULT'' ''GetHeaders'' [''LPCWSTR name'', ''ICoreWebView2HttpHeadersCollectionIterator **iterator''],
      CDecl ''ICoreWebView2HttpRequestHeaders'' ''HRESULT'' ''Contains'' [''LPCWSTR name'', ''BOOL *contains''],
      CDecl ''ICoreWebView2HttpRequestHeaders'' ''HRESULT'' ''SetHeader'' [''LPCWSTR name'', ''LPCWSTR value''],
      CDecl ''ICoreWebView2HttpRequestHeaders'' ''HRESULT'' ''RemoveHeader'' [''LPCWSTR name''],
      CDecl ''ICoreWebView2HttpRequestHeaders'' ''HRESULT'' ''GetIterator'' [''ICoreWebView2HttpHeadersCollectionIterator **iterator'']]"
  by (simp only: list.map c_method.simps)

lemma ICoreWebView2HttpRequestHeaders_views: "ICoreWebView2HttpRequestHeadersVtbl = c_view ICoreWebView2HttpRequestHeaders"
  by (rule views_IUnknown [OF ICoreWebView2HttpRequestHeaders_def ICoreWebView2HttpRequestHeaders_decls])
    (simp only: table_simps ICoreWebView2HttpRequestHeadersVtbl_def)

lemma ICoreWebView2HttpResponseHeaders_decls:
  "map (c_method ''ICoreWebView2HttpResponseHeaders'')
     [Method ''HRESULT'' ''AppendHeader'' [''LPCWSTR name'', ''LPCWSTR value''],
      Method ''HRESULT'' ''Contains'' [''LPCWSTR name'', ''BOOL *contains''],
      Method ''HRESULT'' ''GetHeader'' [''LPCWSTR name'', ''LPWSTR *value''],
      Method ''HRESULT'' ''GetHeaders'' [''LPCWSTR name'', ''ICoreWebView2HttpHeadersCollectionIterator **iterator''],
      Method ''HRESULT'' ''GetIterator'' [''ICoreWebView2HttpHeadersCollectionIterator **iterator'']]
   =
     [CDecl ''ICoreWebView2HttpResponseHeaders'' ''HRESULT'' ''AppendHeader'' [''LPCWSTR name'', ''LPCWSTR value''],
      CDecl ''ICoreWebView2HttpResponseHeaders'' ''HRESULT'' ''Contains'' [''LPCWSTR name'', ''BOOL *contains''],
      CDecl ''ICoreWebView2HttpResponseHeaders'' ''HRESULT'' ''GetHeader'' [''LPCWSTR name'', ''LPWSTR *value''],
      CDecl ''ICoreWebView2HttpResponseHeaders'' ''HRESULT'' ''GetHeaders'' [''LPCWSTR name'', ''ICoreWebView2HttpHeadersCollectionIterator **iterator''],
      CDecl ''ICoreWebView2HttpResponseHeaders'' ''HRESULT'' ''GetIterator'' [''ICoreWebView2HttpHeadersCollectionIterator **iterator'']]"
  by (simp only: list.map c_method.simps)

lemma ICoreWebView2HttpResponseHeaders_views: "ICoreWebView2HttpResponseHeadersVtbl = c_view ICoreWebView2HttpResponseHeaders"
  by (rule views_IUnknown [OF ICoreWebView2HttpResponseHeaders_def ICoreWebView2HttpResponseHeaders_decls])
    (simp only: table_simps ICoreWebView2HttpResponseHeadersVtbl_def)

lemma ICoreWebView2LaunchingExternalUriSchemeEventArgs_decls:
  "map (c_method ''ICoreWebView2LaunchingExternalUriSchemeEventArgs'')
     [Method ''HRESULT'' ''get_Uri'' [''LPWSTR *value''],
      Method ''HRESULT'' ''get_InitiatingOrigin'' [''LPWSTR *value''],
      Method ''HRESULT'' ''get_IsUserInitiated'' [''BOOL *value''],
      Method ''HRESULT'' ''get_Cancel'' [''BOOL *value''],
      Method ''HRESULT'' ''put_Cancel'' [''BOOL value''],
      Method ''HRESULT'' ''GetDeferral'' [''ICoreWebView2Deferral **value'']]
   =
     [CDecl ''ICoreWebView2LaunchingExternalUriSchemeEventArgs'' ''HRESULT'' ''get_Uri'' [''LPWSTR *value''],
      CDecl ''ICoreWebView2LaunchingExternalUriSchemeEventArgs'' ''HRESULT'' ''get_InitiatingOrigin'' [''LPWSTR *value''],
      CDecl ''ICoreWebView2LaunchingExternalUriSchemeEventArgs'' ''HRESULT'' ''get_IsUserInitiated'' [''BOOL *value''],
      CDecl ''ICoreWebView2LaunchingExternalUriSchemeEventArgs'' ''HRESULT'' ''get_Cancel'' [''BOOL *value''],
      CDecl ''ICoreWebView2LaunchingExternalUriSchemeEventArgs'' ''HRESULT'' ''put_Cancel'' [''BOOL value''],
      CDecl ''ICoreWebView2LaunchingExternalUriSchemeEventArgs'' ''HRESULT'' ''GetDeferral'' [''ICoreWebView2Deferral **value'']]"
  by (simp only: list.map c_method.simps)

lemma ICoreWebView2LaunchingExternalUriSchemeEventArgs_views: "ICoreWebView2LaunchingExternalUriSchemeEventArgsVtbl = c_view ICoreWebView2LaunchingExternalUriSchemeEventArgs"
  by (rule views_IUnknown [OF ICoreWebView2LaunchingExternalUriSchemeEventArgs_def ICoreWebView2LaunchingExternalUriSchemeEventArgs_decls])
    (simp only: table_simps ICoreWebView2LaunchingExternalUriSchemeEventArgsVtbl_def)

lemma ICoreWebView2MoveFocusRequestedEventArgs_decls:
  "map (c_method ''ICoreWebView2MoveFocusRequestedEventArgs'')
     [Method ''HRESULT'' ''get_Reason'' [''COREWEBVIEW2_MOVE_FOCUS_REASON *reason''],
      Method ''HRESULT'' ''get_Handled'' [''BOOL *value''],
      Method ''HRESULT'' ''put_Handled'' [''BOOL value'']]
   =
     [CDecl ''ICoreWebView2MoveFocusRequestedEventArgs'' ''HRESULT'' ''get_Reason'' [''COREWEBVIEW2_MOVE_FOCUS_REASON *reason''],
      CDecl ''ICoreWebView2MoveFocusRequestedEventArgs'' ''HRESULT'' ''get_Handled'' [''BOOL *value''],
      CDecl ''ICoreWebView2MoveFocusRequestedEventArgs'' ''HRESULT'' ''put_Handled'' [''BOOL value'']]"
  by (simp only: list.map c_method.simps)

lemma ICoreWebView2MoveFocusRequestedEventArgs_views: "ICoreWebView2MoveFocusRequestedEventArgsVtbl = c_view ICoreWebView2MoveFocusRequestedEventArgs"
  by (rule views_IUnknown [OF ICoreWebView2MoveFocusRequestedEventArgs_def ICoreWebView2MoveFocusRequestedEventArgs_decls])
    (simp only: table_simps ICoreWebView2MoveFocusRequestedEventArgsVtbl_def)

lemma ICoreWebView2NavigationCompletedEventArgs_decls:
  "map (c_method ''ICoreWebView2NavigationCompletedEventArgs'')
     [ICoreWebView2NavigationCompletedEventArgs_get_IsSuccess,
      ICoreWebView2NavigationCompletedEventArgs_get_WebErrorStatus,
      ICoreWebView2NavigationCompletedEventArgs_get_NavigationId]
   =
     [ICoreWebView2NavigationCompletedEventArgs_get_IsSuccess_C,
      ICoreWebView2NavigationCompletedEventArgs_get_WebErrorStatus_C,
      ICoreWebView2NavigationCompletedEventArgs_get_NavigationId_C]"
  by (simp only: list.map c_method.simps ICoreWebView2NavigationCompletedEventArgs_get_IsSuccess_def
      ICoreWebView2NavigationCompletedEventArgs_get_WebErrorStatus_def
      ICoreWebView2NavigationCompletedEventArgs_get_NavigationId_def
      ICoreWebView2NavigationCompletedEventArgs_get_IsSuccess_C_def
      ICoreWebView2NavigationCompletedEventArgs_get_WebErrorStatus_C_def
      ICoreWebView2NavigationCompletedEventArgs_get_NavigationId_C_def)

lemma ICoreWebView2NavigationCompletedEventArgs_views: "ICoreWebView2NavigationCompletedEventArgsVtbl = c_view ICoreWebView2NavigationCompletedEventArgs"
  by (rule views_IUnknown [OF ICoreWebView2NavigationCompletedEventArgs_def ICoreWebView2NavigationCompletedEventArgs_decls])
    (simp only: table_simps ICoreWebView2NavigationCompletedEventArgsVtbl_def)

lemma ICoreWebView2NavigationCompletedEventArgs2_decls:
  "map (c_method ''ICoreWebView2NavigationCompletedEventArgs2'')
     [Method ''HRESULT'' ''get_HttpStatusCode'' [''int *http_status_code'']]
   =
     [CDecl ''ICoreWebView2NavigationCompletedEventArgs2'' ''HRESULT'' ''get_HttpStatusCode'' [''int *http_status_code'']]"
  by (simp only: list.map c_method.simps)

lemma ICoreWebView2NavigationCompletedEventArgs2_views: "ICoreWebView2NavigationCompletedEventArgs2Vtbl = c_view ICoreWebView2NavigationCompletedEventArgs2"
  by (rule views_Derived [OF ICoreWebView2NavigationCompletedEventArgs2_def ICoreWebView2NavigationCompletedEventArgs2_decls ICoreWebView2NavigationCompletedEventArgs_views])
    (simp only: table_simps ICoreWebView2NavigationCompletedEventArgs2Vtbl_def
      ICoreWebView2NavigationCompletedEventArgsVtbl_def)

lemma ICoreWebView2NavigationStartingEventArgs_decls:
  "map (c_method ''ICoreWebView2NavigationStartingEventArgs'')
     [ICoreWebView2NavigationStartingEventArgs_get_Uri, ICoreWebView2NavigationStartingEventArgs_get_IsUserInitiated,
      ICoreWebView2NavigationStartingEventArgs_get_IsRedirected,
      ICoreWebView2NavigationStartingEventArgs_get_RequestHeaders,
      ICoreWebView2NavigationStartingEventArgs_get_Cancel, ICoreWebView2NavigationStartingEventArgs_put_Cancel,
      ICoreWebView2NavigationStartingEventArgs_get_NavigationId]
   =
     [ICoreWebView2NavigationStartingEventArgs_get_Uri_C,
      ICoreWebView2NavigationStartingEventArgs_get_IsUserInitiated_C,
      ICoreWebView2NavigationStartingEventArgs_get_IsRedirected_C,
      ICoreWebView2NavigationStartingEventArgs_get_RequestHeaders_C,
      ICoreWebView2NavigationStartingEventArgs_get_Cancel_C, ICoreWebView2NavigationStartingEventArgs_put_Cancel_C,
      ICoreWebView2NavigationStartingEventArgs_get_NavigationId_C]"
  by (simp only: list.map c_method.simps ICoreWebView2NavigationStartingEventArgs_get_Uri_def
      ICoreWebView2NavigationStartingEventArgs_get_IsUserInitiated_def
      ICoreWebView2NavigationStartingEventArgs_get_IsRedirected_def
      ICoreWebView2NavigationStartingEventArgs_get_RequestHeaders_def
      ICoreWebView2NavigationStartingEventArgs_get_Cancel_def
      ICoreWebView2NavigationStartingEventArgs_put_Cancel_def
      ICoreWebView2NavigationStartingEventArgs_get_NavigationId_def
      ICoreWebView2NavigationStartingEventArgs_get_Uri_C_def
      ICoreWebView2NavigationStartingEventArgs_get_IsUserInitiated_C_def
      ICoreWebView2NavigationStartingEventArgs_get_IsRedirected_C_def
      ICoreWebView2NavigationStartingEventArgs_get_RequestHeaders_C_def
      ICoreWebView2NavigationStartingEventArgs_get_Cancel_C_def
      ICoreWebView2NavigationStartingEventArgs_put_Cancel_C_def
      ICoreWebView2NavigationStartingEventArgs_get_NavigationId_C_def)

lemma ICoreWebView2NavigationStartingEventArgs_views: "ICoreWebView2NavigationStartingEventArgsVtbl = c_view ICoreWebView2NavigationStartingEventArgs"
  by (rule views_IUnknown [OF ICoreWebView2NavigationStartingEventArgs_def ICoreWebView2NavigationStartingEventArgs_decls])
    (simp only: table_simps ICoreWebView2NavigationStartingEventArgsVtbl_def)

lemma ICoreWebView2NavigationStartingEventArgs2_decls:
  "map (c_method ''ICoreWebView2NavigationStartingEventArgs2'')
     [ICoreWebView2NavigationStartingEventArgs2_get_AdditionalAllowedFrameAncestors,
      ICoreWebView2NavigationStartingEventArgs2_put_AdditionalAllowedFrameAncestors]
   =
     [ICoreWebView2NavigationStartingEventArgs2_get_AdditionalAllowedFrameAncestors_C,
      ICoreWebView2NavigationStartingEventArgs2_put_AdditionalAllowedFrameAncestors_C]"
  by (simp only: list.map c_method.simps ICoreWebView2NavigationStartingEventArgs2_get_AdditionalAllowedFrameAncestors_def
      ICoreWebView2NavigationStartingEventArgs2_put_AdditionalAllowedFrameAncestors_def
      ICoreWebView2NavigationStartingEventArgs2_get_AdditionalAllowedFrameAncestors_C_def
      ICoreWebView2NavigationStartingEventArgs2_put_AdditionalAllowedFrameAncestors_C_def)

lemma ICoreWebView2NavigationStartingEventArgs2_views: "ICoreWebView2NavigationStartingEventArgs2Vtbl = c_view ICoreWebView2NavigationStartingEventArgs2"
  by (rule views_Derived [OF ICoreWebView2NavigationStartingEventArgs2_def ICoreWebView2NavigationStartingEventArgs2_decls ICoreWebView2NavigationStartingEventArgs_views])
    (simp only: table_simps ICoreWebView2NavigationStartingEventArgs2Vtbl_def
      ICoreWebView2NavigationStartingEventArgsVtbl_def)

lemma ICoreWebView2NavigationStartingEventArgs3_decls:
  "map (c_method ''ICoreWebView2NavigationStartingEventArgs3'')
     [Method ''HRESULT'' ''get_NavigationKind'' [''COREWEBVIEW2_NAVIGATION_KIND *navigation_kind'']]
   =
     [CDecl ''ICoreWebView2NavigationStartingEventArgs3'' ''HRESULT'' ''get_NavigationKind'' [''COREWEBVIEW2_NAVIGATION_KIND *navigation_kind'']]"
  by (simp only: list.map c_method.simps)

lemma ICoreWebView2NavigationStartingEventArgs3_views: "ICoreWebView2NavigationStartingEventArgs3Vtbl = c_view ICoreWebView2NavigationStartingEventArgs3"
  by (rule views_Derived [OF ICoreWebView2NavigationStartingEventArgs3_def ICoreWebView2NavigationStartingEventArgs3_decls ICoreWebView2NavigationStartingEventArgs2_views])
    (simp only: table_simps ICoreWebView2NavigationStartingEventArgs3Vtbl_def
      ICoreWebView2NavigationStartingEventArgs2Vtbl_def)

lemma ICoreWebView2NewWindowRequestedEventArgs_decls:
  "map (c_method ''ICoreWebView2NewWindowRequestedEventArgs'')
     [ICoreWebView2NewWindowRequestedEventArgs_get_Uri, ICoreWebView2NewWindowRequestedEventArgs_put_NewWindow,
      ICoreWebView2NewWindowRequestedEventArgs_get_NewWindow, ICoreWebView2NewWindowRequestedEventArgs_put_Handled,
      ICoreWebView2NewWindowRequestedEventArgs_get_Handled,
      ICoreWebView2NewWindowRequestedEventArgs_get_IsUserInitiated,
      ICoreWebView2NewWindowRequestedEventArgs_GetDeferral,
      ICoreWebView2NewWindowRequestedEventArgs_get_WindowFeatures]
   =
     [ICoreWebView2NewWindowRequestedEventArgs_get_Uri_C, ICoreWebView2NewWindowRequestedEventArgs_put_NewWindow_C,
      ICoreWebView2NewWindowRequestedEventArgs_get_NewWindow_C,
      ICoreWebView2NewWindowRequestedEventArgs_put_Handled_C, ICoreWebView2NewWindowRequestedEventArgs_get_Handled_C,
      ICoreWebView2NewWindowRequestedEventArgs_get_IsUserInitiated_C,
      ICoreWebView2NewWindowRequestedEventArgs_GetDeferral_C,
      ICoreWebView2NewWindowRequestedEventArgs_get_WindowFeatures_C]"
  by (simp only: list.map c_method.simps ICoreWebView2NewWindowRequestedEventArgs_get_Uri_def
      ICoreWebView2NewWindowRequestedEventArgs_put_NewWindow_def
      ICoreWebView2NewWindowRequestedEventArgs_get_NewWindow_def
      ICoreWebView2NewWindowRequestedEventArgs_put_Handled_def
      ICoreWebView2NewWindowRequestedEventArgs_get_Handled_def
      ICoreWebView2NewWindowRequestedEventArgs_get_IsUserInitiated_def
      ICoreWebView2NewWindowRequestedEventArgs_GetDeferral_def
      ICoreWebView2NewWindowRequestedEventArgs_get_WindowFeatures_def
      ICoreWebView2NewWindowRequestedEventArgs_get_Uri_C_def
      ICoreWebView2NewWindowRequestedEventArgs_put_NewWindow_C_def
      ICoreWebView2NewWindowRequestedEventArgs_get_NewWindow_C_def
      ICoreWebView2NewWindowRequestedEventArgs_put_Handled_C_def
      ICoreWebView2NewWindowRequestedEventArgs_get_Handled_C_def
      ICoreWebView2NewWindowRequestedEventArgs_get_IsUserInitiated_C_def
      ICoreWebView2NewWindowRequestedEventArgs_GetDeferral_C_def
      ICoreWebView2NewWindowRequestedEventArgs_get_WindowFeatures_C_def)

lemma ICoreWebView2NewWindowRequestedEventArgs_views: "ICoreWebView2NewWindowRequestedEventArgsVtbl = c_view ICoreWebView2NewWindowRequestedEventArgs"
  by (rule views_IUnknown [OF ICoreWebView2NewWindowRequestedEventArgs_def ICoreWebView2NewWindowRequestedEventArgs_decls])
    (simp only: table_simps ICoreWebView2NewWindowRequestedEventArgsVtbl_def)

lemma ICoreWebView2NewWindowRequestedEventArgs2_decls:
  "map (c_method ''ICoreWebView2NewWindowRequestedEventArgs2'')
     [ICoreWebView2NewWindowRequestedEventArgs2_get_Name]
   =
     [ICoreWebView2NewWindowRequestedEventArgs2_get_Name_C]"
  by (simp only: list.map c_method.simps ICoreWebView2NewWindowRequestedEventArgs2_get_Name_def
      ICoreWebView2NewWindowRequestedEventArgs2_get_Name_C_def)

lemma ICoreWebView2NewWindowRequestedEventArgs2_views: "ICoreWebView2NewWindowRequestedEventArgs2Vtbl = c_view ICoreWebView2NewWindowRequestedEventArgs2"
  by (rule views_Derived [OF ICoreWebView2NewWindowRequestedEventArgs2_def ICoreWebView2NewWindowRequestedEventArgs2_decls ICoreWebView2NewWindowRequestedEventArgs_views])
    (simp only: table_simps ICoreWebView2NewWindowRequestedEventArgs2Vtbl_def
      ICoreWebView2NewWindowRequestedEventArgsVtbl_def)

lemma ICoreWebView2NewWindowRequestedEventArgs3_decls:
  "map (c_method ''ICoreWebView2NewWindowRequestedEventArgs3'')
     [Method ''HRESULT'' ''get_OriginalSourceFrameInfo'' [''ICoreWebView2FrameInfo **frameInfo'']]
   =
     [CDecl ''ICoreWebView2NewWindowRequestedEventArgs3'' ''HRESULT'' ''get_OriginalSourceFrameInfo'' [''ICoreWebView2FrameInfo **frameInfo'']]"
  by (simp only: list.map c_method.simps)

lemma ICoreWebView2NewWindowRequestedEventArgs3_views: "ICoreWebView2NewWindowRequestedEventArgs3Vtbl = c_view ICoreWebView2NewWindowRequestedEventArgs3"
  by (rule views_Derived [OF ICoreWebView2NewWindowRequestedEventArgs3_def ICoreWebView2NewWindowRequestedEventArgs3_decls ICoreWebView2NewWindowRequestedEventArgs2_views])
    (simp only: table_simps ICoreWebView2NewWindowRequestedEventArgs3Vtbl_def
      ICoreWebView2NewWindowRequestedEventArgs2Vtbl_def)

lemma ICoreWebView2PermissionRequestedEventArgs_decls:
  "map (c_method ''ICoreWebView2PermissionRequestedEventArgs'')
     [ICoreWebView2PermissionRequestedEventArgs_get_Uri,
      ICoreWebView2PermissionRequestedEventArgs_get_PermissionKind,
      ICoreWebView2PermissionRequestedEventArgs_get_IsUserInitiated,
      ICoreWebView2PermissionRequestedEventArgs_get_State, ICoreWebView2PermissionRequestedEventArgs_put_State,
      ICoreWebView2PermissionRequestedEventArgs_GetDeferral]
   =
     [ICoreWebView2PermissionRequestedEventArgs_get_Uri_C,
      ICoreWebView2PermissionRequestedEventArgs_get_PermissionKind_C,
      ICoreWebView2PermissionRequestedEventArgs_get_IsUserInitiated_C,
      ICoreWebView2PermissionRequestedEventArgs_get_State_C, ICoreWebView2PermissionRequestedEventArgs_put_State_C,
      ICoreWebView2PermissionRequestedEventArgs_GetDeferral_C]"
  by (simp only: list.map c_method.simps ICoreWebView2PermissionRequestedEventArgs_get_Uri_def
      ICoreWebView2PermissionRequestedEventArgs_get_PermissionKind_def
      ICoreWebView2PermissionRequestedEventArgs_get_IsUserInitiated_def
      ICoreWebView2PermissionRequestedEventArgs_get_State_def
      ICoreWebView2PermissionRequestedEventArgs_put_State_def
      ICoreWebView2PermissionRequestedEventArgs_GetDeferral_def
      ICoreWebView2PermissionRequestedEventArgs_get_Uri_C_def
      ICoreWebView2PermissionRequestedEventArgs_get_PermissionKind_C_def
      ICoreWebView2PermissionRequestedEventArgs_get_IsUserInitiated_C_def
      ICoreWebView2PermissionRequestedEventArgs_get_State_C_def
      ICoreWebView2PermissionRequestedEventArgs_put_State_C_def
      ICoreWebView2PermissionRequestedEventArgs_GetDeferral_C_def)

lemma ICoreWebView2PermissionRequestedEventArgs_views: "ICoreWebView2PermissionRequestedEventArgsVtbl = c_view ICoreWebView2PermissionRequestedEventArgs"
  by (rule views_IUnknown [OF ICoreWebView2PermissionRequestedEventArgs_def ICoreWebView2PermissionRequestedEventArgs_decls])
    (simp only: table_simps ICoreWebView2PermissionRequestedEventArgsVtbl_def)

lemma ICoreWebView2PermissionRequestedEventArgs2_decls:
  "map (c_method ''ICoreWebView2PermissionRequestedEventArgs2'')
     [ICoreWebView2PermissionRequestedEventArgs2_get_Handled, ICoreWebView2PermissionRequestedEventArgs2_put_Handled]
   =
     [ICoreWebView2PermissionRequestedEventArgs2_get_Handled_C,
      ICoreWebView2PermissionRequestedEventArgs2_put_Handled_C]"
  by (simp only: list.map c_method.simps ICoreWebView2PermissionRequestedEventArgs2_get_Handled_def
      ICoreWebView2PermissionRequestedEventArgs2_put_Handled_def
      ICoreWebView2PermissionRequestedEventArgs2_get_Handled_C_def
      ICoreWebView2PermissionRequestedEventArgs2_put_Handled_C_def)

lemma ICoreWebView2PermissionRequestedEventArgs2_views: "ICoreWebView2PermissionRequestedEventArgs2Vtbl = c_view ICoreWebView2PermissionRequestedEventArgs2"
  by (rule views_Derived [OF ICoreWebView2PermissionRequestedEventArgs2_def ICoreWebView2PermissionRequestedEventArgs2_decls ICoreWebView2PermissionRequestedEventArgs_views])
    (simp only: table_simps ICoreWebView2PermissionRequestedEventArgs2Vtbl_def
      ICoreWebView2PermissionRequestedEventArgsVtbl_def)

lemma ICoreWebView2PermissionRequestedEventArgs3_decls:
  "map (c_method ''ICoreWebView2PermissionRequestedEventArgs3'')
     [Method ''HRESULT'' ''get_SavesInProfile'' [''BOOL *value''],
      Method ''HRESULT'' ''put_SavesInProfile'' [''BOOL value'']]
   =
     [CDecl ''ICoreWebView2PermissionRequestedEventArgs3'' ''HRESULT'' ''get_SavesInProfile'' [''BOOL *value''],
      CDecl ''ICoreWebView2PermissionRequestedEventArgs3'' ''HRESULT'' ''put_SavesInProfile'' [''BOOL value'']]"
  by (simp only: list.map c_method.simps)

lemma ICoreWebView2PermissionRequestedEventArgs3_views: "ICoreWebView2PermissionRequestedEventArgs3Vtbl = c_view ICoreWebView2PermissionRequestedEventArgs3"
  by (rule views_Derived [OF ICoreWebView2PermissionRequestedEventArgs3_def ICoreWebView2PermissionRequestedEventArgs3_decls ICoreWebView2PermissionRequestedEventArgs2_views])
    (simp only: table_simps ICoreWebView2PermissionRequestedEventArgs3Vtbl_def
      ICoreWebView2PermissionRequestedEventArgs2Vtbl_def)

lemma ICoreWebView2PermissionSettingCollectionView_decls:
  "map (c_method ''ICoreWebView2PermissionSettingCollectionView'')
     [Method ''HRESULT'' ''GetValueAtIndex'' [''UINT32 index'', ''ICoreWebView2PermissionSetting **permissionSetting''],
      Method ''HRESULT'' ''get_Count'' [''UINT32 *value'']]
   =
     [CDecl ''ICoreWebView2PermissionSettingCollectionView'' ''HRESULT'' ''GetValueAtIndex'' [''UINT32 index'', ''ICoreWebView2PermissionSetting **permissionSetting''],
      CDecl ''ICoreWebView2PermissionSettingCollectionView'' ''HRESULT'' ''get_Count'' [''UINT32 *value'']]"
  by (simp only: list.map c_method.simps)

lemma ICoreWebView2PermissionSettingCollectionView_views: "ICoreWebView2PermissionSettingCollectionViewVtbl = c_view ICoreWebView2PermissionSettingCollectionView"
  by (rule views_IUnknown [OF ICoreWebView2PermissionSettingCollectionView_def ICoreWebView2PermissionSettingCollectionView_decls])
    (simp only: table_simps ICoreWebView2PermissionSettingCollectionViewVtbl_def)

lemma ICoreWebView2PermissionSetting_decls:
  "map (c_method ''ICoreWebView2PermissionSetting'')
     [Method ''HRESULT'' ''get_PermissionKind'' [''COREWEBVIEW2_PERMISSION_KIND *value''],
      Method ''HRESULT'' ''get_PermissionOrigin'' [''LPWSTR *value''],
      Method ''HRESULT'' ''get_PermissionState'' [''COREWEBVIEW2_PERMISSION_STATE *value'']]
   =
     [CDecl ''ICoreWebView2PermissionSetting'' ''HRESULT'' ''get_PermissionKind'' [''COREWEBVIEW2_PERMISSION_KIND *value''],
      CDecl ''ICoreWebView2PermissionSetting'' ''HRESULT'' ''get_PermissionOrigin'' [''LPWSTR *value''],
      CDecl ''ICoreWebView2PermissionSetting'' ''HRESULT'' ''get_PermissionState'' [''COREWEBVIEW2_PERMISSION_STATE *value'']]"
  by (simp only: list.map c_method.simps)

lemma ICoreWebView2PermissionSetting_views: "ICoreWebView2PermissionSettingVtbl = c_view ICoreWebView2PermissionSetting"
  by (rule views_IUnknown [OF ICoreWebView2PermissionSetting_def ICoreWebView2PermissionSetting_decls])
    (simp only: table_simps ICoreWebView2PermissionSettingVtbl_def)

lemma ICoreWebView2PointerInfo_decls:
  "map (c_method ''ICoreWebView2PointerInfo'')
     [ICoreWebView2PointerInfo_get_PointerKind, ICoreWebView2PointerInfo_put_PointerKind,
      ICoreWebView2PointerInfo_get_PointerId, ICoreWebView2PointerInfo_put_PointerId,
      ICoreWebView2PointerInfo_get_FrameId, ICoreWebView2PointerInfo_put_FrameId,
      ICoreWebView2PointerInfo_get_PointerFlags, ICoreWebView2PointerInfo_put_PointerFlags,
      ICoreWebView2PointerInfo_get_PointerDeviceRect, ICoreWebView2PointerInfo_put_PointerDeviceRect,
      ICoreWebView2PointerInfo_get_DisplayRect, ICoreWebView2PointerInfo_put_DisplayRect,
      ICoreWebView2PointerInfo_get_PixelLocation, ICoreWebView2PointerInfo_put_PixelLocation,
      ICoreWebView2PointerInfo_get_HimetricLocation, ICoreWebView2PointerInfo_put_HimetricLocation,
      ICoreWebView2PointerInfo_get_PixelLocationRaw, ICoreWebView2PointerInfo_put_PixelLocationRaw,
      ICoreWebView2PointerInfo_get_HimetricLocationRaw, ICoreWebView2PointerInfo_put_HimetricLocationRaw,
      ICoreWebView2PointerInfo_get_Time, ICoreWebView2PointerInfo_put_Time,
      ICoreWebView2PointerInfo_get_HistoryCount, ICoreWebView2PointerInfo_put_HistoryCount,
      ICoreWebView2PointerInfo_get_InputData, ICoreWebView2PointerInfo_put_InputData,
      ICoreWebView2PointerInfo_get_KeyStates, ICoreWebView2PointerInfo_put_KeyStates,
      ICoreWebView2PointerInfo_get_PerformanceCount, ICoreWebView2PointerInfo_put_PerformanceCount,
      ICoreWebView2PointerInfo_get_ButtonChangeKind, ICoreWebView2PointerInfo_put_ButtonChangeKind,
      ICoreWebView2PointerInfo_get_PenFlags, ICoreWebView2PointerInfo_put_PenFlags,
      ICoreWebView2PointerInfo_get_PenMask, ICoreWebView2PointerInfo_put_PenMask,
      ICoreWebView2PointerInfo_get_PenPressure, ICoreWebView2PointerInfo_put_PenPressure,
      ICoreWebView2PointerInfo_get_PenRotation, ICoreWebView2PointerInfo_put_PenRotation,
      ICoreWebView2PointerInfo_get_PenTiltX, ICoreWebView2PointerInfo_put_PenTiltX,
      ICoreWebView2PointerInfo_get_PenTiltY, ICoreWebView2PointerInfo_put_PenTiltY,
      ICoreWebView2PointerInfo_get_TouchFlags, ICoreWebView2PointerInfo_put_TouchFlags,
      ICoreWebView2PointerInfo_get_TouchMask, ICoreWebView2PointerInfo_put_TouchMask,
      ICoreWebView2PointerInfo_get_TouchContact, ICoreWebView2PointerInfo_put_TouchContact,
      ICoreWebView2PointerInfo_get_TouchContactRaw, ICoreWebView2PointerInfo_put_TouchContactRaw,
      ICoreWebView2PointerInfo_get_TouchOrientation, ICoreWebView2PointerInfo_put_TouchOrientation,
      ICoreWebView2PointerInfo_get_TouchPressure, ICoreWebView2PointerInfo_put_TouchPressure]
   =
     [CDecl ''ICoreWebView2PointerInfo'' ''HRESULT'' ''get_PointerKind'' [''DWORD *pointerKind''],
      CDecl ''ICoreWebView2PointerInfo'' ''HRESULT'' ''put_PointerKind'' [''DWORD pointerKind''],
      CDecl ''ICoreWebView2PointerInfo'' ''HRESULT'' ''get_PointerId'' [''UINT32 *pointerId''],
      CDecl ''ICoreWebView2PointerInfo'' ''HRESULT'' ''put_PointerId'' [''UINT32 pointerId''],
      CDecl ''ICoreWebView2PointerInfo'' ''HRESULT'' ''get_FrameId'' [''UINT32 *frameId''],
      CDecl ''ICoreWebView2PointerInfo'' ''HRESULT'' ''put_FrameId'' [''UINT32 frameId''],
      CDecl ''ICoreWebView2PointerInfo'' ''HRESULT'' ''get_PointerFlags'' [''UINT32 *pointerFlags''],
      CDecl ''ICoreWebView2PointerInfo'' ''HRESULT'' ''put_PointerFlags'' [''UINT32 pointerFlags''],
      CDecl ''ICoreWebView2PointerInfo'' ''HRESULT'' ''get_PointerDeviceRect'' [''RECT *pointerDeviceRect''],
      CDecl ''ICoreWebView2PointerInfo'' ''HRESULT'' ''put_PointerDeviceRect'' [''RECT pointerDeviceRect''],
      CDecl ''ICoreWebView2PointerInfo'' ''HRESULT'' ''get_DisplayRect'' [''RECT *displayRect''],
      CDecl ''ICoreWebView2PointerInfo'' ''HRESULT'' ''put_DisplayRect'' [''RECT displayRect''],
      CDecl ''ICoreWebView2PointerInfo'' ''HRESULT'' ''get_PixelLocation'' [''POINT *pixelLocation''],
      CDecl ''ICoreWebView2PointerInfo'' ''HRESULT'' ''put_PixelLocation'' [''POINT pixelLocation''],
      CDecl ''ICoreWebView2PointerInfo'' ''HRESULT'' ''get_HimetricLocation'' [''POINT *himetricLocation''],
      CDecl ''ICoreWebView2PointerInfo'' ''HRESULT'' ''put_HimetricLocation'' [''POINT himetricLocation''],
      CDecl ''ICoreWebView2PointerInfo'' ''HRESULT'' ''get_PixelLocationRaw'' [''POINT *pixelLocationRaw''],
      CDecl ''ICoreWebView2PointerInfo'' ''HRESULT'' ''put_PixelLocationRaw'' [''POINT pixelLocationRaw''],
      CDecl ''ICoreWebView2PointerInfo'' ''HRESULT'' ''get_HimetricLocationRaw'' [''POINT *himetricLocationRaw''],
      CDecl ''ICoreWebView2PointerInfo'' ''HRESULT'' ''put_HimetricLocationRaw'' [''POINT himetricLocationRaw''],
      CDecl ''ICoreWebView2PointerInfo'' ''HRESULT'' ''get_Time'' [''DWORD *time''],
      CDecl ''ICoreWebView2PointerInfo'' ''HRESULT'' ''put_Time'' [''DWORD time''],
      CDecl ''ICoreWebView2PointerInfo'' ''HRESULT'' ''get_HistoryCount'' [''UINT32 *historyCount''],
      CDecl ''ICoreWebView2PointerInfo'' ''HRESULT'' ''put_HistoryCount'' [''UINT32 historyCount''],
      CDecl ''ICoreWebView2PointerInfo'' ''HRESULT'' ''get_InputData'' [''INT32 *inputData''],
      CDecl ''ICoreWebView2PointerInfo'' ''HRESULT'' ''put_InputData'' [''INT32 inputData''],
      CDecl ''ICoreWebView2PointerInfo'' ''HRESULT'' ''get_KeyStates'' [''DWORD *keyStates''],
      CDecl ''ICoreWebView2PointerInfo'' ''HRESULT'' ''put_KeyStates'' [''DWORD keyStates''],
      CDecl ''ICoreWebView2PointerInfo'' ''HRESULT'' ''get_PerformanceCount'' [''UINT64 *performanceCount''],
      CDecl ''ICoreWebView2PointerInfo'' ''HRESULT'' ''put_PerformanceCount'' [''UINT64 performanceCount''],
      CDecl ''ICoreWebView2PointerInfo'' ''HRESULT'' ''get_ButtonChangeKind'' [''INT32 *buttonChangeKind''],
      CDecl ''ICoreWebView2PointerInfo'' ''HRESULT'' ''put_ButtonChangeKind'' [''INT32 buttonChangeKind''],
      CDecl ''ICoreWebView2PointerInfo'' ''HRESULT'' ''get_PenFlags'' [''UINT32 *penFLags''],
      CDecl ''ICoreWebView2PointerInfo'' ''HRESULT'' ''put_PenFlags'' [''UINT32 penFLags''],
      CDecl ''ICoreWebView2PointerInfo'' ''HRESULT'' ''get_PenMask'' [''UINT32 *penMask''],
      CDecl ''ICoreWebView2PointerInfo'' ''HRESULT'' ''put_PenMask'' [''UINT32 penMask''],
      CDecl ''ICoreWebView2PointerInfo'' ''HRESULT'' ''get_PenPressure'' [''UINT32 *penPressure''],
      CDecl ''ICoreWebView2PointerInfo'' ''HRESULT'' ''put_PenPressure'' [''UINT32 penPressure''],
      CDecl ''ICoreWebView2PointerInfo'' ''HRESULT'' ''get_PenRotation'' [''UINT32 *penRotation''],
      CDecl ''ICoreWebView2PointerInfo'' ''HRESULT'' ''put_PenRotation'' [''UINT32 penRotation''],
      CDecl ''ICoreWebView2PointerInfo'' ''HRESULT'' ''get_PenTiltX'' [''INT32 *penTiltX''],
      CDecl ''ICoreWebView2PointerInfo'' ''HRESULT'' ''put_PenTiltX'' [''INT32 penTiltX''],
      CDecl ''ICoreWebView2PointerInfo'' ''HRESULT'' ''get_PenTiltY'' [''INT32 *penTiltY''],
      CDecl ''ICoreWebView2PointerInfo'' ''HRESULT'' ''put_PenTiltY'' [''INT32 penTiltY''],
      CDecl ''ICoreWebView2PointerInfo'' ''HRESULT'' ''get_TouchFlags'' [''UINT32 *touchFlags''],
      CDecl ''ICoreWebView2PointerInfo'' ''HRESULT'' ''put_TouchFlags'' [''UINT32 touchFlags''],
      CDecl ''ICoreWebView2PointerInfo'' ''HRESULT'' ''get_TouchMask'' [''UINT32 *touchMask''],
      CDecl ''ICoreWebView2PointerInfo'' ''HRESULT'' ''put_TouchMask'' [''UINT32 touchMask''],
      CDecl ''ICoreWebView2PointerInfo'' ''HRESULT'' ''get_TouchContact'' [''RECT *touchContact''],
      CDecl ''ICoreWebView2PointerInfo'' ''HRESULT'' ''put_TouchContact'' [''RECT touchContact''],
      CDecl ''ICoreWebView2PointerInfo'' ''HRESULT'' ''get_TouchContactRaw'' [''RECT *touchContactRaw''],
      CDecl ''ICoreWebView2PointerInfo'' ''HRESULT'' ''put_TouchContactRaw'' [''RECT touchContactRaw''],
      CDecl ''ICoreWebView2PointerInfo'' ''HRESULT'' ''get_TouchOrientation'' [''UINT32 *touchOrientation''],
      CDecl ''ICoreWebView2PointerInfo'' ''HRESULT'' ''put_TouchOrientation'' [''UINT32 touchOrientation''],
      CDecl ''ICoreWebView2PointerInfo'' ''HRESULT'' ''get_TouchPressure'' [''UINT32 *touchPressure''],
      CDecl ''ICoreWebView2PointerInfo'' ''HRESULT'' ''put_TouchPressure'' [''UINT32 touchPressure'']]"
  by (simp only: list.map c_method.simps ICoreWebView2PointerInfo_get_PointerKind_def
      ICoreWebView2PointerInfo_put_PointerKind_def ICoreWebView2PointerInfo_get_PointerId_def
      ICoreWebView2PointerInfo_put_PointerId_def ICoreWebView2PointerInfo_get_FrameId_def
      ICoreWebView2PointerInfo_put_FrameId_def ICoreWebView2PointerInfo_get_PointerFlags_def
      ICoreWebView2PointerInfo_put_PointerFlags_def ICoreWebView2PointerInfo_get_PointerDeviceRect_def
      ICoreWebView2PointerInfo_put_PointerDeviceRect_def ICoreWebView2PointerInfo_get_DisplayRect_def
      ICoreWebView2PointerInfo_put_DisplayRect_def ICoreWebView2PointerInfo_get_PixelLocation_def
      ICoreWebView2PointerInfo_put_PixelLocation_def ICoreWebView2PointerInfo_get_HimetricLocation_def
      ICoreWebView2PointerInfo_put_HimetricLocation_def ICoreWebView2PointerInfo_get_PixelLocationRaw_def
      ICoreWebView2PointerInfo_put_PixelLocationRaw_def ICoreWebView2PointerInfo_get_HimetricLocationRaw_def
      ICoreWebView2PointerInfo_put_HimetricLocationRaw_def ICoreWebView2PointerInfo_get_Time_def
      ICoreWebView2PointerInfo_put_Time_def ICoreWebView2PointerInfo_get_HistoryCount_def
      ICoreWebView2PointerInfo_put_HistoryCount_def ICoreWebView2PointerInfo_get_InputData_def
      ICoreWebView2PointerInfo_put_InputData_def ICoreWebView2PointerInfo_get_KeyStates_def
      ICoreWebView2PointerInfo_put_KeyStates_def ICoreWebView2PointerInfo_get_PerformanceCount_def
      ICoreWebView2PointerInfo_put_PerformanceCount_def ICoreWebView2PointerInfo_get_ButtonChangeKind_def
      ICoreWebView2PointerInfo_put_ButtonChangeKind_def ICoreWebView2PointerInfo_get_PenFlags_def
      ICoreWebView2PointerInfo_put_PenFlags_def ICoreWebView2PointerInfo_get_PenMask_def
      ICoreWebView2PointerInfo_put_PenMask_def ICoreWebView2PointerInfo_get_PenPressure_def
      ICoreWebView2PointerInfo_put_PenPressure_def ICoreWebView2PointerInfo_get_PenRotation_def
      ICoreWebView2PointerInfo_put_PenRotation_def ICoreWebView2PointerInfo_get_PenTiltX_def
      ICoreWebView2PointerInfo_put_PenTiltX_def ICoreWebView2PointerInfo_get_PenTiltY_def
      ICoreWebView2PointerInfo_put_PenTiltY_def ICoreWebView2PointerInfo_get_TouchFlags_def
      ICoreWebView2PointerInfo_put_TouchFlags_def ICoreWebView2PointerInfo_get_TouchMask_def
      ICoreWebView2PointerInfo_put_TouchMask_def ICoreWebView2PointerInfo_get_TouchContact_def
      ICoreWebView2PointerInfo_put_TouchContact_def ICoreWebView2PointerInfo_get_TouchContactRaw_def
      ICoreWebView2PointerInfo_put_TouchContactRaw_def ICoreWebView2PointerInfo_get_TouchOrientation_def
      ICoreWebView2PointerInfo_put_TouchOrientation_def ICoreWebView2PointerInfo_get_TouchPressure_def
      ICoreWebView2PointerInfo_put_TouchPressure_def)

lemma ICoreWebView2PointerInfo_views: "ICoreWebView2PointerInfoVtbl = c_view ICoreWebView2PointerInfo"
  by (rule views_IUnknown [OF ICoreWebView2PointerInfo_def ICoreWebView2PointerInfo_decls])
    (simp only: table_simps ICoreWebView2PointerInfoVtbl_1_def ICoreWebView2PointerInfoVtbl_2_def
      ICoreWebView2PointerInfoVtbl_3_def ICoreWebView2PointerInfoVtbl_def)

lemma ICoreWebView2PrintSettings_decls:
  "map (c_method ''ICoreWebView2PrintSettings'')
     [ICoreWebView2PrintSettings_get_Orientation, ICoreWebView2PrintSettings_put_Orientation,
      ICoreWebView2PrintSettings_get_ScaleFactor, ICoreWebView2PrintSettings_put_ScaleFactor,
      ICoreWebView2PrintSettings_get_PageWidth, ICoreWebView2PrintSettings_put_PageWidth,
      ICoreWebView2PrintSettings_get_PageHeight, ICoreWebView2PrintSettings_put_PageHeight,
      ICoreWebView2PrintSettings_get_MarginTop, ICoreWebView2PrintSettings_put_MarginTop,
      ICoreWebView2PrintSettings_get_MarginBottom, ICoreWebView2PrintSettings_put_MarginBottom,
      ICoreWebView2PrintSettings_get_MarginLeft, ICoreWebView2PrintSettings_put_MarginLeft,
      ICoreWebView2PrintSettings_get_MarginRight, ICoreWebView2PrintSettings_put_MarginRight,
      ICoreWebView2PrintSettings_get_ShouldPrintBackgrounds, ICoreWebView2PrintSettings_put_ShouldPrintBackgrounds,
      ICoreWebView2PrintSettings_get_ShouldPrintSelectionOnly,
      ICoreWebView2PrintSettings_put_ShouldPrintSelectionOnly,
      ICoreWebView2PrintSettings_get_ShouldPrintHeaderAndFooter,
      ICoreWebView2PrintSettings_put_ShouldPrintHeaderAndFooter, ICoreWebView2PrintSettings_get_HeaderTitle,
      ICoreWebView2PrintSettings_put_HeaderTitle, ICoreWebView2PrintSettings_get_FooterUri,
      ICoreWebView2PrintSettings_put_FooterUri]
   =
     [ICoreWebView2PrintSettings_get_Orientation_C, ICoreWebView2PrintSettings_put_Orientation_C,
      ICoreWebView2PrintSettings_get_ScaleFactor_C, ICoreWebView2PrintSettings_put_ScaleFactor_C,
      ICoreWebView2PrintSettings_get_PageWidth_C, ICoreWebView2PrintSettings_put_PageWidth_C,
      ICoreWebView2PrintSettings_get_PageHeight_C, ICoreWebView2PrintSettings_put_PageHeight_C,
      ICoreWebView2PrintSettings_get_MarginTop_C, ICoreWebView2PrintSettings_put_MarginTop_C,
      ICoreWebView2PrintSettings_get_MarginBottom_C, ICoreWebView2PrintSettings_put_MarginBottom_C,
      ICoreWebView2PrintSettings_get_MarginLeft_C, ICoreWebView2PrintSettings_put_MarginLeft_C,
      ICoreWebView2PrintSettings_get_MarginRight_C, ICoreWebView2PrintSettings_put_MarginRight_C,
      ICoreWebView2PrintSettings_get_ShouldPrintBackgrounds_C,
      ICoreWebView2PrintSettings_put_ShouldPrintBackgrounds_C,
      ICoreWebView2PrintSettings_get_ShouldPrintSelectionOnly_C,
      ICoreWebView2PrintSettings_put_ShouldPrintSelectionOnly_C,
      ICoreWebView2PrintSettings_get_ShouldPrintHeaderAndFooter_C,
      ICoreWebView2PrintSettings_put_ShouldPrintHeaderAndFooter_C, ICoreWebView2PrintSettings_get_HeaderTitle_C,
      ICoreWebView2PrintSettings_put_HeaderTitle_C, ICoreWebView2PrintSettings_get_FooterUri_C,
      ICoreWebView2PrintSettings_put_FooterUri_C]"
  by (simp only: list.map c_method.simps ICoreWebView2PrintSettings_get_Orientation_def
      ICoreWebView2PrintSettings_put_Orientation_def ICoreWebView2PrintSettings_get_ScaleFactor_def
      ICoreWebView2PrintSettings_put_ScaleFactor_def ICoreWebView2PrintSettings_get_PageWidth_def
      ICoreWebView2PrintSettings_put_PageWidth_def ICoreWebView2PrintSettings_get_PageHeight_def
      ICoreWebView2PrintSettings_put_PageHeight_def ICoreWebView2PrintSettings_get_MarginTop_def
      ICoreWebView2PrintSettings_put_MarginTop_def ICoreWebView2PrintSettings_get_MarginBottom_def
      ICoreWebView2PrintSettings_put_MarginBottom_def ICoreWebView2PrintSettings_get_MarginLeft_def
      ICoreWebView2PrintSettings_put_MarginLeft_def ICoreWebView2PrintSettings_get_MarginRight_def
      ICoreWebView2PrintSettings_put_MarginRight_def ICoreWebView2PrintSettings_get_ShouldPrintBackgrounds_def
      ICoreWebView2PrintSettings_put_ShouldPrintBackgrounds_def
      ICoreWebView2PrintSettings_get_ShouldPrintSelectionOnly_def
      ICoreWebView2PrintSettings_put_ShouldPrintSelectionOnly_def
      ICoreWebView2PrintSettings_get_ShouldPrintHeaderAndFooter_def
      ICoreWebView2PrintSettings_put_ShouldPrintHeaderAndFooter_def ICoreWebView2PrintSettings_get_HeaderTitle_def
      ICoreWebView2PrintSettings_put_HeaderTitle_def ICoreWebView2PrintSettings_get_FooterUri_def
      ICoreWebView2PrintSettings_put_FooterUri_def ICoreWebView2PrintSettings_get_Orientation_C_def
      ICoreWebView2PrintSettings_put_Orientation_C_def ICoreWebView2PrintSettings_get_ScaleFactor_C_def
      ICoreWebView2PrintSettings_put_ScaleFactor_C_def ICoreWebView2PrintSettings_get_PageWidth_C_def
      ICoreWebView2PrintSettings_put_PageWidth_C_def ICoreWebView2PrintSettings_get_PageHeight_C_def
      ICoreWebView2PrintSettings_put_PageHeight_C_def ICoreWebView2PrintSettings_get_MarginTop_C_def
      ICoreWebView2PrintSettings_put_MarginTop_C_def ICoreWebView2PrintSettings_get_MarginBottom_C_def
      ICoreWebView2PrintSettings_put_MarginBottom_C_def ICoreWebView2PrintSettings_get_MarginLeft_C_def
      ICoreWebView2PrintSettings_put_MarginLeft_C_def ICoreWebView2PrintSettings_get_MarginRight_C_def
      ICoreWebView2PrintSettings_put_MarginRight_C_def ICoreWebView2PrintSettings_get_ShouldPrintBackgrounds_C_def
      ICoreWebView2PrintSettings_put_ShouldPrintBackgrounds_C_def
      ICoreWebView2PrintSettings_get_ShouldPrintSelectionOnly_C_def
      ICoreWebView2PrintSettings_put_ShouldPrintSelectionOnly_C_def
      ICoreWebView2PrintSettings_get_ShouldPrintHeaderAndFooter_C_def
      ICoreWebView2PrintSettings_put_ShouldPrintHeaderAndFooter_C_def
      ICoreWebView2PrintSettings_get_HeaderTitle_C_def ICoreWebView2PrintSettings_put_HeaderTitle_C_def
      ICoreWebView2PrintSettings_get_FooterUri_C_def ICoreWebView2PrintSettings_put_FooterUri_C_def)

lemma ICoreWebView2PrintSettings_views: "ICoreWebView2PrintSettingsVtbl = c_view ICoreWebView2PrintSettings"
  by (rule views_IUnknown [OF ICoreWebView2PrintSettings_def ICoreWebView2PrintSettings_decls])
    (simp only: table_simps ICoreWebView2PrintSettingsVtbl_1_def ICoreWebView2PrintSettingsVtbl_2_def
      ICoreWebView2PrintSettingsVtbl_def)

lemma ICoreWebView2PrintSettings2_decls:
  "map (c_method ''ICoreWebView2PrintSettings2'')
     [Method ''HRESULT'' ''get_PageRanges'' [''LPWSTR *value''],
      Method ''HRESULT'' ''put_PageRanges'' [''LPCWSTR value''],
      Method ''HRESULT'' ''get_PagesPerSide'' [''INT32 *value''],
      Method ''HRESULT'' ''put_PagesPerSide'' [''INT32 value''],
      Method ''HRESULT'' ''get_Copies'' [''INT32 *value''],
      Method ''HRESULT'' ''put_Copies'' [''INT32 value''],
      Method ''HRESULT'' ''get_Collation'' [''COREWEBVIEW2_PRINT_COLLATION *value''],
      Method ''HRESULT'' ''put_Collation'' [''COREWEBVIEW2_PRINT_COLLATION value''],
      Method ''HRESULT'' ''get_ColorMode'' [''COREWEBVIEW2_PRINT_COLOR_MODE *value''],
      Method ''HRESULT'' ''put_ColorMode'' [''COREWEBVIEW2_PRINT_COLOR_MODE value''],
      Method ''HRESULT'' ''get_Duplex'' [''COREWEBVIEW2_PRINT_DUPLEX *value''],
      Method ''HRESULT'' ''put_Duplex'' [''COREWEBVIEW2_PRINT_DUPLEX value''],
      Method ''HRESULT'' ''get_MediaSize'' [''COREWEBVIEW2_PRINT_MEDIA_SIZE *value''],
      Method ''HRESULT'' ''put_MediaSize'' [''COREWEBVIEW2_PRINT_MEDIA_SIZE value''],
      Method ''HRESULT'' ''get_PrinterName'' [''LPWSTR *value''],
      Method ''HRESULT'' ''put_PrinterName'' [''LPCWSTR value'']]
   =
     [CDecl ''ICoreWebView2PrintSettings2'' ''HRESULT'' ''get_PageRanges'' [''LPWSTR *value''],
      CDecl ''ICoreWebView2PrintSettings2'' ''HRESULT'' ''put_PageRanges'' [''LPCWSTR value''],
      CDecl ''ICoreWebView2PrintSettings2'' ''HRESULT'' ''get_PagesPerSide'' [''INT32 *value''],
      CDecl ''ICoreWebView2PrintSettings2'' ''HRESULT'' ''put_PagesPerSide'' [''INT32 value''],
      CDecl ''ICoreWebView2PrintSettings2'' ''HRESULT'' ''get_Copies'' [''INT32 *value''],
      CDecl ''ICoreWebView2PrintSettings2'' ''HRESULT'' ''put_Copies'' [''INT32 value''],
      CDecl ''ICoreWebView2PrintSettings2'' ''HRESULT'' ''get_Collation'' [''COREWEBVIEW2_PRINT_COLLATION *value''],
      CDecl ''ICoreWebView2PrintSettings2'' ''HRESULT'' ''put_Collation'' [''COREWEBVIEW2_PRINT_COLLATION value''],
      CDecl ''ICoreWebView2PrintSettings2'' ''HRESULT'' ''get_ColorMode'' [''COREWEBVIEW2_PRINT_COLOR_MODE *value''],
      CDecl ''ICoreWebView2PrintSettings2'' ''HRESULT'' ''put_ColorMode'' [''COREWEBVIEW2_PRINT_COLOR_MODE value''],
      CDecl ''ICoreWebView2PrintSettings2'' ''HRESULT'' ''get_Duplex'' [''COREWEBVIEW2_PRINT_DUPLEX *value''],
      CDecl ''ICoreWebView2PrintSettings2'' ''HRESULT'' ''put_Duplex'' [''COREWEBVIEW2_PRINT_DUPLEX value''],
      CDecl ''ICoreWebView2PrintSettings2'' ''HRESULT'' ''get_MediaSize'' [''COREWEBVIEW2_PRINT_MEDIA_SIZE *value''],
      CDecl ''ICoreWebView2PrintSettings2'' ''HRESULT'' ''put_MediaSize'' [''COREWEBVIEW2_PRINT_MEDIA_SIZE value''],
      CDecl ''ICoreWebView2PrintSettings2'' ''HRESULT'' ''get_PrinterName'' [''LPWSTR *value''],
      CDecl ''ICoreWebView2PrintSettings2'' ''HRESULT'' ''put_PrinterName'' [''LPCWSTR value'']]"
  by (simp only: list.map c_method.simps)

lemma ICoreWebView2PrintSettings2_views: "ICoreWebView2PrintSettings2Vtbl = c_view ICoreWebView2PrintSettings2"
  by (rule views_Derived [OF ICoreWebView2PrintSettings2_def ICoreWebView2PrintSettings2_decls ICoreWebView2PrintSettings_views])
    (simp only: table_simps ICoreWebView2PrintSettings2Vtbl_1_def ICoreWebView2PrintSettings2Vtbl_2_def
      ICoreWebView2PrintSettings2Vtbl_def ICoreWebView2PrintSettingsVtbl_1_def
      ICoreWebView2PrintSettingsVtbl_2_def ICoreWebView2PrintSettingsVtbl_def)

lemma ICoreWebView2ProcessFailedEventArgs_decls:
  "map (c_method ''ICoreWebView2ProcessFailedEventArgs'')
     [ICoreWebView2ProcessFailedEventArgs_get_ProcessFailedKind]
   =
     [ICoreWebView2ProcessFailedEventArgs_get_ProcessFailedKind_C]"
  by (simp only: list.map c_method.simps ICoreWebView2ProcessFailedEventArgs_get_ProcessFailedKind_def
      ICoreWebView2ProcessFailedEventArgs_get_ProcessFailedKind_C_def)

lemma ICoreWebView2ProcessFailedEventArgs_views: "ICoreWebView2ProcessFailedEventArgsVtbl = c_view ICoreWebView2ProcessFailedEventArgs"
  by (rule views_IUnknown [OF ICoreWebView2ProcessFailedEventArgs_def ICoreWebView2ProcessFailedEventArgs_decls])
    (simp only: table_simps ICoreWebView2ProcessFailedEventArgsVtbl_def)

lemma ICoreWebView2ProcessFailedEventArgs2_decls:
  "map (c_method ''ICoreWebView2ProcessFailedEventArgs2'')
     [Method ''HRESULT'' ''get_Reason'' [''COREWEBVIEW2_PROCESS_FAILED_REASON *reason''],
      Method ''HRESULT'' ''get_ExitCode'' [''int *exitCode''],
      Method ''HRESULT'' ''get_ProcessDescription'' [''LPWSTR *processDescription''],
      Method ''HRESULT'' ''get_FrameInfosForFailedProcess'' [''ICoreWebView2FrameInfoCollection **frames'']]
   =
     [CDecl ''ICoreWebView2ProcessFailedEventArgs2'' ''HRESULT'' ''get_Reason'' [''COREWEBVIEW2_PROCESS_FAILED_REASON *reason''],
      CDecl ''ICoreWebView2ProcessFailedEventArgs2'' ''HRESULT'' ''get_ExitCode'' [''int *exitCode''],
      CDecl ''ICoreWebView2ProcessFailedEventArgs2'' ''HRESULT'' ''get_ProcessDescription'' [''LPWSTR *processDescription''],
      CDecl ''ICoreWebView2ProcessFailedEventArgs2'' ''HRESULT'' ''get_FrameInfosForFailedProcess'' [''ICoreWebView2FrameInfoCollection **frames'']]"
  by (simp only: list.map c_method.simps)

lemma ICoreWebView2ProcessFailedEventArgs2_views: "ICoreWebView2ProcessFailedEventArgs2Vtbl = c_view ICoreWebView2ProcessFailedEventArgs2"
  by (rule views_Derived [OF ICoreWebView2ProcessFailedEventArgs2_def ICoreWebView2ProcessFailedEventArgs2_decls ICoreWebView2ProcessFailedEventArgs_views])
    (simp only: table_simps ICoreWebView2ProcessFailedEventArgs2Vtbl_def ICoreWebView2ProcessFailedEventArgsVtbl_def)

lemma ICoreWebView2ServerCertificateErrorDetectedEventArgs_decls:
  "map (c_method ''ICoreWebView2ServerCertificateErrorDetectedEventArgs'')
     [Method ''HRESULT'' ''get_ErrorStatus'' [''COREWEBVIEW2_WEB_ERROR_STATUS *value''],
      Method ''HRESULT'' ''get_RequestUri'' [''LPWSTR *value''],
      Method ''HRESULT'' ''get_ServerCertificate'' [''ICoreWebView2Certificate **value''],
      Method ''HRESULT'' ''get_Action'' [''COREWEBVIEW2_SERVER_CERTIFICATE_ERROR_ACTION *value''],
      Method ''HRESULT'' ''put_Action'' [''COREWEBVIEW2_SERVER_CERTIFICATE_ERROR_ACTION value''],
      Method ''HRESULT'' ''GetDeferral'' [''ICoreWebView2Deferral **deferral'']]
   =
     [CDecl ''ICoreWebView2ServerCertificateErrorDetectedEventArgs'' ''HRESULT'' ''get_ErrorStatus'' [''COREWEBVIEW2_WEB_ERROR_STATUS *value''],
      CDecl ''ICoreWebView2ServerCertificateErrorDetectedEventArgs'' ''HRESULT'' ''get_RequestUri'' [''LPWSTR *value''],
      CDecl ''ICoreWebView2ServerCertificateErrorDetectedEventArgs'' ''HRESULT'' ''get_ServerCertificate'' [''ICoreWebView2Certificate **value''],
      CDecl ''ICoreWebView2ServerCertificateErrorDetectedEventArgs'' ''HRESULT'' ''get_Action'' [''COREWEBVIEW2_SERVER_CERTIFICATE_ERROR_ACTION *value''],
      CDecl ''ICoreWebView2ServerCertificateErrorDetectedEventArgs'' ''HRESULT'' ''put_Action'' [''COREWEBVIEW2_SERVER_CERTIFICATE_ERROR_ACTION value''],
      CDecl ''ICoreWebView2ServerCertificateErrorDetectedEventArgs'' ''HRESULT'' ''GetDeferral'' [''ICoreWebView2Deferral **deferral'']]"
  by (simp only: list.map c_method.simps)

lemma ICoreWebView2ServerCertificateErrorDetectedEventArgs_views: "ICoreWebView2ServerCertificateErrorDetectedEventArgsVtbl = c_view ICoreWebView2ServerCertificateErrorDetectedEventArgs"
  by (rule views_IUnknown [OF ICoreWebView2ServerCertificateErrorDetectedEventArgs_def ICoreWebView2ServerCertificateErrorDetectedEventArgs_decls])
    (simp only: table_simps ICoreWebView2ServerCertificateErrorDetectedEventArgsVtbl_def)

lemma ICoreWebView2ScriptDialogOpeningEventArgs_decls:
  "map (c_method ''ICoreWebView2ScriptDialogOpeningEventArgs'')
     [Method ''HRESULT'' ''get_Uri'' [''LPWSTR *uri''],
      Method ''HRESULT'' ''get_Kind'' [''COREWEBVIEW2_SCRIPT_DIALOG_KIND *kind''],
      Method ''HRESULT'' ''get_Message'' [''LPWSTR *message''],
      Method ''HRESULT'' ''Accept'' [],
      Method ''HRESULT'' ''get_DefaultText'' [''LPWSTR *defaultText''],
      Method ''HRESULT'' ''get_ResultText'' [''LPWSTR *resultText''],
      Method ''HRESULT'' ''put_ResultText'' [''LPCWSTR resultText''],
      Method ''HRESULT'' ''GetDeferral'' [''ICoreWebView2Deferral **deferral'']]
   =
     [CDecl ''ICoreWebView2ScriptDialogOpeningEventArgs'' ''HRESULT'' ''get_Uri'' [''LPWSTR *uri''],
      CDecl ''ICoreWebView2ScriptDialogOpeningEventArgs'' ''HRESULT'' ''get_Kind'' [''COREWEBVIEW2_SCRIPT_DIALOG_KIND *kind''],
      CDecl ''ICoreWebView2ScriptDialogOpeningEventArgs'' ''HRESULT'' ''get_Message'' [''LPWSTR *message''],
      CDecl ''ICoreWebView2ScriptDialogOpeningEventArgs'' ''HRESULT'' ''Accept'' [],
      CDecl ''ICoreWebView2ScriptDialogOpeningEventArgs'' ''HRESULT'' ''get_DefaultText'' [''LPWSTR *defaultText''],
      CDecl ''ICoreWebView2ScriptDialogOpeningEventArgs'' ''HRESULT'' ''get_ResultText'' [''LPWSTR *resultText''],
      CDecl ''ICoreWebView2ScriptDialogOpeningEventArgs'' ''HRESULT'' ''put_ResultText'' [''LPCWSTR resultText''],
      CDecl ''ICoreWebView2ScriptDialogOpeningEventArgs'' ''HRESULT'' ''GetDeferral'' [''ICoreWebView2Deferral **deferral'']]"
  by (simp only: list.map c_method.simps)

lemma ICoreWebView2ScriptDialogOpeningEventArgs_views: "ICoreWebView2ScriptDialogOpeningEventArgsVtbl = c_view ICoreWebView2ScriptDialogOpeningEventArgs"
  by (rule views_IUnknown [OF ICoreWebView2ScriptDialogOpeningEventArgs_def ICoreWebView2ScriptDialogOpeningEventArgs_decls])
    (simp only: table_simps ICoreWebView2ScriptDialogOpeningEventArgsVtbl_def)

lemma ICoreWebView2SourceChangedEventArgs_decls:
  "map (c_method ''ICoreWebView2SourceChangedEventArgs'')
     [Method ''HRESULT'' ''get_IsNewDocument'' [''BOOL *isNewDocument'']]
   =
     [CDecl ''ICoreWebView2SourceChangedEventArgs'' ''HRESULT'' ''get_IsNewDocument'' [''BOOL *isNewDocument'']]"
  by (simp only: list.map c_method.simps)

lemma ICoreWebView2SourceChangedEventArgs_views: "ICoreWebView2SourceChangedEventArgsVtbl = c_view ICoreWebView2SourceChangedEventArgs"
  by (rule views_IUnknown [OF ICoreWebView2SourceChangedEventArgs_def ICoreWebView2SourceChangedEventArgs_decls])
    (simp only: table_simps ICoreWebView2SourceChangedEventArgsVtbl_def)

lemma ICoreWebView2WebMessageReceivedEventArgs_decls:
  "map (c_method ''ICoreWebView2WebMessageReceivedEventArgs'')
     [ICoreWebView2WebMessageReceivedEventArgs_get_Source,
      ICoreWebView2WebMessageReceivedEventArgs_get_WebMessageAsJson,
      ICoreWebView2WebMessageReceivedEventArgs_TryGetWebMessageAsString]
   =
     [ICoreWebView2WebMessageReceivedEventArgs_get_Source_C,
      ICoreWebView2WebMessageReceivedEventArgs_get_WebMessageAsJson_C,
      ICoreWebView2WebMessageReceivedEventArgs_TryGetWebMessageAsString_C]"
  by (simp only: list.map c_method.simps ICoreWebView2WebMessageReceivedEventArgs_get_Source_def
      ICoreWebView2WebMessageReceivedEventArgs_get_WebMessageAsJson_def
      ICoreWebView2WebMessageReceivedEventArgs_TryGetWebMessageAsString_def
      ICoreWebView2WebMessageReceivedEventArgs_get_Source_C_def
      ICoreWebView2WebMessageReceivedEventArgs_get_WebMessageAsJson_C_def
      ICoreWebView2WebMessageReceivedEventArgs_TryGetWebMessageAsString_C_def)

lemma ICoreWebView2WebMessageReceivedEventArgs_views: "ICoreWebView2WebMessageReceivedEventArgsVtbl = c_view ICoreWebView2WebMessageReceivedEventArgs"
  by (rule views_IUnknown [OF ICoreWebView2WebMessageReceivedEventArgs_def ICoreWebView2WebMessageReceivedEventArgs_decls])
    (simp only: table_simps ICoreWebView2WebMessageReceivedEventArgsVtbl_def)

lemma ICoreWebView2WebResourceRequest_decls:
  "map (c_method ''ICoreWebView2WebResourceRequest'')
     [Method ''HRESULT'' ''get_Uri'' [''LPWSTR *uri''],
      Method ''HRESULT'' ''put_Uri'' [''LPCWSTR uri''],
      Method ''HRESULT'' ''get_Method'' [''LPWSTR *method''],
      Method ''HRESULT'' ''put_Method'' [''LPCWSTR method''],
      Method ''HRESULT'' ''get_Content'' [''IStream **content''],
      Method ''HRESULT'' ''put_Content'' [''IStream *content''],
      Method ''HRESULT'' ''get_Headers'' [''ICoreWebView2HttpRequestHeaders **headers'']]
   =
     [CDecl ''ICoreWebView2WebResourceRequest'' ''HRESULT'' ''get_Uri'' [''LPWSTR *uri''],
      CDecl ''ICoreWebView2WebResourceRequest'' ''HRESULT'' ''put_Uri'' [''LPCWSTR uri''],
      CDecl ''ICoreWebView2WebResourceRequest'' ''HRESULT'' ''get_Method'' [''LPWSTR *method''],
      CDecl ''ICoreWebView2WebResourceRequest'' ''HRESULT'' ''put_Method'' [''LPCWSTR method''],
      CDecl ''ICoreWebView2WebResourceRequest'' ''HRESULT'' ''get_Content'' [''IStream **content''],
      CDecl ''ICoreWebView2WebResourceRequest'' ''HRESULT'' ''put_Content'' [''IStream *content''],
      CDecl ''ICoreWebView2WebResourceRequest'' ''HRESULT'' ''get_Headers'' [''ICoreWebView2HttpRequestHeaders **headers'']]"
  by (simp only: list.map c_method.simps)

lemma ICoreWebView2WebResourceRequest_views: "ICoreWebView2WebResourceRequestVtbl = c_view ICoreWebView2WebResourceRequest"
  by (rule views_IUnknown [OF ICoreWebView2WebResourceRequest_def ICoreWebView2WebResourceRequest_decls])
    (simp only: table_simps ICoreWebView2WebResourceRequestVtbl_def)

lemma ICoreWebView2WebResourceRequestedEventArgs_decls:
  "map (c_method ''ICoreWebView2WebResourceRequestedEventArgs'')
     [ICoreWebView2WebResourceRequestedEventArgs_get_Request,
      ICoreWebView2WebResourceRequestedEventArgs_get_Response,
      ICoreWebView2WebResourceRequestedEventArgs_put_Response,
      ICoreWebView2WebResourceRequestedEventArgs_GetDeferral,
      ICoreWebView2WebResourceRequestedEventArgs_get_ResourceContext]
   =
     [ICoreWebView2WebResourceRequestedEventArgs_get_Request_C,
      ICoreWebView2WebResourceRequestedEventArgs_get_Response_C,
      ICoreWebView2WebResourceRequestedEventArgs_put_Response_C,
      ICoreWebView2WebResourceRequestedEventArgs_GetDeferral_C,
      ICoreWebView2WebResourceRequestedEventArgs_get_ResourceContext_C]"
  by (simp only: list.map c_method.simps ICoreWebView2WebResourceRequestedEventArgs_get_Request_def
      ICoreWebView2WebResourceRequestedEventArgs_get_Response_def
      ICoreWebView2WebResourceRequestedEventArgs_put_Response_def
      ICoreWebView2WebResourceRequestedEventArgs_GetDeferral_def
      ICoreWebView2WebResourceRequestedEventArgs_get_ResourceContext_def
      ICoreWebView2WebResourceRequestedEventArgs_get_Request_C_def
      ICoreWebView2WebResourceRequestedEventArgs_get_Response_C_def
      ICoreWebView2WebResourceRequestedEventArgs_put_Response_C_def
      ICoreWebView2WebResourceRequestedEventArgs_GetDeferral_C_def
      ICoreWebView2WebResourceRequestedEventArgs_get_ResourceContext_C_def)

lemma ICoreWebView2WebResourceRequestedEventArgs_views: "ICoreWebView2WebResourceRequestedEventArgsVtbl = c_view ICoreWebView2WebResourceRequestedEventArgs"
  by (rule views_IUnknown [OF ICoreWebView2WebResourceRequestedEventArgs_def ICoreWebView2WebResourceRequestedEventArgs_decls])
    (simp only: table_simps ICoreWebView2WebResourceRequestedEventArgsVtbl_def)

lemma ICoreWebView2WebResourceRequestedEventArgs2_decls:
  "map (c_method ''ICoreWebView2WebResourceRequestedEventArgs2'')
     [Method ''HRESULT'' ''get_RequestedSourceKind'' [''COREWEBVIEW2_WEB_RESOURCE_REQUEST_SOURCE_KINDS *requestedSourceKind'']]
   =
     [CDecl ''ICoreWebView2WebResourceRequestedEventArgs2'' ''HRESULT'' ''get_RequestedSourceKind'' [''COREWEBVIEW2_WEB_RESOURCE_REQUEST_SOURCE_KINDS *requestedSourceKind'']]"
  by (simp only: list.map c_method.simps)

lemma ICoreWebView2WebResourceRequestedEventArgs2_views: "ICoreWebView2WebResourceRequestedEventArgs2Vtbl = c_view ICoreWebView2WebResourceRequestedEventArgs2"
  by (rule views_Derived [OF ICoreWebView2WebResourceRequestedEventArgs2_def ICoreWebView2WebResourceRequestedEventArgs2_decls ICoreWebView2WebResourceRequestedEventArgs_views])
    (simp only: table_simps ICoreWebView2WebResourceRequestedEventArgs2Vtbl_def
      ICoreWebView2WebResourceRequestedEventArgsVtbl_def)

lemma ICoreWebView2WebResourceResponse_decls:
  "map (c_method ''ICoreWebView2WebResourceResponse'')
     [Method ''HRESULT'' ''get_Content'' [''IStream **content''],
      Method ''HRESULT'' ''put_Content'' [''IStream *content''],
      Method ''HRESULT'' ''get_Headers'' [''ICoreWebView2HttpResponseHeaders **headers''],
      Method ''HRESULT'' ''get_StatusCode'' [''int *statusCode''],
      Method ''HRESULT'' ''put_StatusCode'' [''int statusCode''],
      Method ''HRESULT'' ''get_ReasonPhrase'' [''LPWSTR *reasonPhrase''],
      Method ''HRESULT'' ''put_ReasonPhrase'' [''LPCWSTR reasonPhrase'']]
   =
     [CDecl ''ICoreWebView2WebResourceResponse'' ''HRESULT'' ''get_Content'' [''IStream **content''],
      CDecl ''ICoreWebView2WebResourceResponse'' ''HRESULT'' ''put_Content'' [''IStream *content''],
      CDecl ''ICoreWebView2WebResourceResponse'' ''HRESULT'' ''get_Headers'' [''ICoreWebView2HttpResponseHeaders **headers''],
      CDecl ''ICoreWebView2WebResourceResponse'' ''HRESULT'' ''get_StatusCode'' [''int *statusCode''],
      CDecl ''ICoreWebView2WebResourceResponse'' ''HRESULT'' ''put_StatusCode'' [''int statusCode''],
      CDecl ''ICoreWebView2WebResourceResponse'' ''HRESULT'' ''get_ReasonPhrase'' [''LPWSTR *reasonPhrase''],
      CDecl ''ICoreWebView2WebResourceResponse'' ''HRESULT'' ''put_ReasonPhrase'' [''LPCWSTR reasonPhrase'']]"
  by (simp only: list.map c_method.simps)

lemma ICoreWebView2WebResourceResponse_views: "ICoreWebView2WebResourceResponseVtbl = c_view ICoreWebView2WebResourceResponse"
  by (rule views_IUnknown [OF ICoreWebView2WebResourceResponse_def ICoreWebView2WebResourceResponse_decls])
    (simp only: table_simps ICoreWebView2WebResourceResponseVtbl_def)

lemma ICoreWebView2WebResourceResponseReceivedEventArgs_decls:
  "map (c_method ''ICoreWebView2WebResourceResponseReceivedEventArgs'')
     [Method ''HRESULT'' ''get_Request'' [''ICoreWebView2WebResourceRequest **request''],
      Method ''HRESULT'' ''get_Response'' [''ICoreWebView2WebResourceResponseView **response'']]
   =
     [CDecl ''ICoreWebView2WebResourceResponseReceivedEventArgs'' ''HRESULT'' ''get_Request'' [''ICoreWebView2WebResourceRequest **request''],
      CDecl ''ICoreWebView2WebResourceResponseReceivedEventArgs'' ''HRESULT'' ''get_Response'' [''ICoreWebView2WebResourceResponseView **response'']]"
  by (simp only: list.map c_method.simps)

lemma ICoreWebView2WebResourceResponseReceivedEventArgs_views: "ICoreWebView2WebResourceResponseReceivedEventArgsVtbl = c_view ICoreWebView2WebResourceResponseReceivedEventArgs"
  by (rule views_IUnknown [OF ICoreWebView2WebResourceResponseReceivedEventArgs_def ICoreWebView2WebResourceResponseReceivedEventArgs_decls])
    (simp only: table_simps ICoreWebView2WebResourceResponseReceivedEventArgsVtbl_def)

lemma ICoreWebView2WebResourceResponseView_decls:
  "map (c_method ''ICoreWebView2WebResourceResponseView'')
     [Method ''HRESULT'' ''get_Headers'' [''ICoreWebView2HttpResponseHeaders **headers''],
      Method ''HRESULT'' ''get_StatusCode'' [''int *statusCode''],
      Method ''HRESULT'' ''get_ReasonPhrase'' [''LPWSTR *reasonPhrase''],
      Method ''HRESULT'' ''GetContent'' [''ICoreWebView2WebResourceResponseViewGetContentCompletedHandler *handler'']]
   =
     [CDecl ''ICoreWebView2WebResourceResponseView'' ''HRESULT'' ''get_Headers'' [''ICoreWebView2HttpResponseHeaders **headers''],
      CDecl ''ICoreWebView2WebResourceResponseView'' ''HRESULT'' ''get_StatusCode'' [''int *statusCode''],
      CDecl ''ICoreWebView2WebResourceResponseView'' ''HRESULT'' ''get_ReasonPhrase'' [''LPWSTR *reasonPhrase''],
      CDecl ''ICoreWebView2WebResourceResponseView'' ''HRESULT'' ''GetContent'' [''ICoreWebView2WebResourceResponseViewGetContentCompletedHandler *handler'']]"
  by (simp only: list.map c_method.simps)

lemma ICoreWebView2WebResourceResponseView_views: "ICoreWebView2WebResourceResponseViewVtbl = c_view ICoreWebView2WebResourceResponseView"
  by (rule views_IUnknown [OF ICoreWebView2WebResourceResponseView_def ICoreWebView2WebResourceResponseView_decls])
    (simp only: table_simps ICoreWebView2WebResourceResponseViewVtbl_def)

lemma ICoreWebView2WindowFeatures_decls:
  "map (c_method ''ICoreWebView2WindowFeatures'')
     [Method ''HRESULT'' ''get_HasPosition'' [''BOOL *value''],
      Method ''HRESULT'' ''get_HasSize'' [''BOOL *value''],
      Method ''HRESULT'' ''get_Left'' [''UINT32 *value''],
      Method ''HRESULT'' ''get_Top'' [''UINT32 *value''],
      Method ''HRESULT'' ''get_Height'' [''UINT32 *value''],
      Method ''HRESULT'' ''get_Width'' [''UINT32 *value''],
      Method ''HRESULT'' ''get_ShouldDisplayMenuBar'' [''BOOL *value''],
      Method ''HRESULT'' ''get_ShouldDisplayStatus'' [''BOOL *value''],
      Method ''HRESULT'' ''get_ShouldDisplayToolbar'' [''BOOL *value''],
      Method ''HRESULT'' ''get_ShouldDisplayScrollBars'' [''BOOL *value'']]
   =
     [CDecl ''ICoreWebView2WindowFeatures'' ''HRESULT'' ''get_HasPosition'' [''BOOL *value''],
      CDecl ''ICoreWebView2WindowFeatures'' ''HRESULT'' ''get_HasSize'' [''BOOL *value''],
      CDecl ''ICoreWebView2WindowFeatures'' ''HRESULT'' ''get_Left'' [''UINT32 *value''],
      CDecl ''ICoreWebView2WindowFeatures'' ''HRESULT'' ''get_Top'' [''UINT32 *value''],
      CDecl ''ICoreWebView2WindowFeatures'' ''HRESULT'' ''get_Height'' [''UINT32 *value''],
      CDecl ''ICoreWebView2WindowFeatures'' ''HRESULT'' ''get_Width'' [''UINT32 *value''],
      CDecl ''ICoreWebView2WindowFeatures'' ''HRESULT'' ''get_ShouldDisplayMenuBar'' [''BOOL *value''],
      CDecl ''ICoreWebView2WindowFeatures'' ''HRESULT'' ''get_ShouldDisplayStatus'' [''BOOL *value''],
      CDecl ''ICoreWebView2WindowFeatures'' ''HRESULT'' ''get_ShouldDisplayToolbar'' [''BOOL *value''],
      CDecl ''ICoreWebView2WindowFeatures'' ''HRESULT'' ''get_ShouldDisplayScrollBars'' [''BOOL *value'']]"
  by (simp only: list.map c_method.simps)

lemma ICoreWebView2WindowFeatures_views: "ICoreWebView2WindowFeaturesVtbl = c_view ICoreWebView2WindowFeatures"
  by (rule views_IUnknown [OF ICoreWebView2WindowFeatures_def ICoreWebView2WindowFeatures_decls])
    (simp only: table_simps ICoreWebView2WindowFeaturesVtbl_def)

lemma ICoreWebView2BrowserExtensionList_decls:
  "map (c_method ''ICoreWebView2BrowserExtensionList'')
     [Method ''HRESULT'' ''get_Count'' [''UINT *count''],
      Method ''HRESULT'' ''GetValueAtIndex'' [''UINT index'', ''ICoreWebView2BrowserExtension **extension'']]
   =
     [CDecl ''ICoreWebView2BrowserExtensionList'' ''HRESULT'' ''get_Count'' [''UINT *count''],
      CDecl ''ICoreWebView2BrowserExtensionList'' ''HRESULT'' ''GetValueAtIndex'' [''UINT index'', ''ICoreWebView2BrowserExtension **extension'']]"
  by (simp only: list.map c_method.simps)

lemma ICoreWebView2BrowserExtensionList_views: "ICoreWebView2BrowserExtensionListVtbl = c_view ICoreWebView2BrowserExtensionList"
  by (rule views_IUnknown [OF ICoreWebView2BrowserExtensionList_def ICoreWebView2BrowserExtensionList_decls])
    (simp only: table_simps ICoreWebView2BrowserExtensionListVtbl_def)

lemma ICoreWebView2BrowserExtension_decls:
  "map (c_method ''ICoreWebView2BrowserExtension'')
     [Method ''HRESULT'' ''get_Id'' [''LPWSTR *value''],
      Method ''HRESULT'' ''get_Name'' [''LPWSTR *value''],
      Method ''HRESULT'' ''Remove'' [''ICoreWebView2BrowserExtensionRemoveCompletedHandler *handler''],
      Method ''HRESULT'' ''get_IsEnabled'' [''BOOL *value''],
      Method ''HRESULT'' ''Enable'' [''BOOL isEnabled'', ''ICoreWebView2BrowserExtensionEnableCompletedHandler *handler'']]
   =
     [CDecl ''ICoreWebView2BrowserExtension'' ''HRESULT'' ''get_Id'' [''LPWSTR *value''],
      CDecl ''ICoreWebView2BrowserExtension'' ''HRESULT'' ''get_Name'' [''LPWSTR *value''],
      CDecl ''ICoreWebView2BrowserExtension'' ''HRESULT'' ''Remove'' [''ICoreWebView2BrowserExtensionRemoveCompletedHandler *handler''],
      CDecl ''ICoreWebView2BrowserExtension'' ''HRESULT'' ''get_IsEnabled'' [''BOOL *value''],
      CDecl ''ICoreWebView2BrowserExtension'' ''HRESULT'' ''Enable'' [''BOOL isEnabled'', ''ICoreWebView2BrowserExtensionEnableCompletedHandler *handler'']]"
  by (simp only: list.map c_method.simps)

lemma ICoreWebView2BrowserExtension_views: "ICoreWebView2BrowserExtensionVtbl = c_view ICoreWebView2BrowserExtension"
  by (rule views_IUnknown [OF ICoreWebView2BrowserExtension_def ICoreWebView2BrowserExtension_decls])
    (simp only: table_simps ICoreWebView2BrowserExtensionVtbl_def)

lemma ICoreWebView2ExecuteScriptResult_decls:
  "map (c_method ''ICoreWebView2ExecuteScriptResult'')
     [Method ''HRESULT'' ''get_Succeeded'' [''BOOL *value''],
      Method ''HRESULT'' ''get_ResultAsJson'' [''LPWSTR *jsonResult''],
      Method ''HRESULT'' ''TryGetResultAsString'' [''LPWSTR *stringResult'', ''BOOL *value''],
      Method ''HRESULT'' ''get_Exception'' [''ICoreWebView2ScriptException **exception'']]
   =
     [CDecl ''ICoreWebView2ExecuteScriptResult'' ''HRESULT'' ''get_Succeeded'' [''BOOL *value''],
      CDecl ''ICoreWebView2ExecuteScriptResult'' ''HRESULT'' ''get_ResultAsJson'' [''LPWSTR *jsonResult''],
      CDecl ''ICoreWebView2ExecuteScriptResult'' ''HRESULT'' ''TryGetResultAsString'' [''LPWSTR *stringResult'', ''BOOL *value''],
      CDecl ''ICoreWebView2ExecuteScriptResult'' ''HRESULT'' ''get_Exception'' [''ICoreWebView2ScriptException **exception'']]"
  by (simp only: list.map c_method.simps)

lemma ICoreWebView2ExecuteScriptResult_views: "ICoreWebView2ExecuteScriptResultVtbl = c_view ICoreWebView2ExecuteScriptResult"
  by (rule views_IUnknown [OF ICoreWebView2ExecuteScriptResult_def ICoreWebView2ExecuteScriptResult_decls])
    (simp only: table_simps ICoreWebView2ExecuteScriptResultVtbl_def)

lemma ICoreWebView2ScriptException_decls:
  "map (c_method ''ICoreWebView2ScriptException'')
     [Method ''HRESULT'' ''get_LineNumber'' [''UINT32 *value''],
      Method ''HRESULT'' ''get_ColumnNumber'' [''UINT32 *value''],
      Method ''HRESULT'' ''get_Name'' [''LPWSTR *value''],
      Method ''HRESULT'' ''get_Message'' [''LPWSTR *value''],
      Method ''HRESULT'' ''get_ToJson'' [''LPWSTR *value'']]
   =
     [CDecl ''ICoreWebView2ScriptException'' ''HRESULT'' ''get_LineNumber'' [''UINT32 *value''],
      CDecl ''ICoreWebView2ScriptException'' ''HRESULT'' ''get_ColumnNumber'' [''UINT32 *value''],
      CDecl ''ICoreWebView2ScriptException'' ''HRESULT'' ''get_Name'' [''LPWSTR *value''],
      CDecl ''ICoreWebView2ScriptException'' ''HRESULT'' ''get_Message'' [''LPWSTR *value''],
      CDecl ''ICoreWebView2ScriptException'' ''HRESULT'' ''get_ToJson'' [''LPWSTR *value'']]"
  by (simp only: list.map c_method.simps)

lemma ICoreWebView2ScriptException_views: "ICoreWebView2ScriptExceptionVtbl = c_view ICoreWebView2ScriptException"
  by (rule views_IUnknown [OF ICoreWebView2ScriptException_def ICoreWebView2ScriptException_decls])
    (simp only: table_simps ICoreWebView2ScriptExceptionVtbl_def)

lemma ICoreWebView2File_decls:
  "map (c_method ''ICoreWebView2File'')
     [Method ''HRESULT'' ''get_Path'' [''LPWSTR *path'']]
   =
     [CDecl ''ICoreWebView2File'' ''HRESULT'' ''get_Path'' [''LPWSTR *path'']]"
  by (simp only: list.map c_method.simps)

lemma ICoreWebView2File_views: "ICoreWebView2FileVtbl = c_view ICoreWebView2File"
  by (rule views_IUnknown [OF ICoreWebView2File_def ICoreWebView2File_decls])
    (simp only: table_simps ICoreWebView2FileVtbl_def)

lemma ICoreWebView2ObjectCollectionView_decls:
  "map (c_method ''ICoreWebView2ObjectCollectionView'')
     [Method ''HRESULT'' ''get_Count'' [''UINT32 *value''],
      Method ''HRESULT'' ''GetValueAtIndex'' [''UINT32 index'', ''IUnknown **value'']]
   =
     [CDecl ''ICoreWebView2ObjectCollectionView'' ''HRESULT'' ''get_Count'' [''UINT32 *value''],
      CDecl ''ICoreWebView2ObjectCollectionView'' ''HRESULT'' ''GetValueAtIndex'' [''UINT32 index'', ''IUnknown **value'']]"
  by (simp only: list.map c_method.simps)

lemma ICoreWebView2ObjectCollectionView_views: "ICoreWebView2ObjectCollectionViewVtbl = c_view ICoreWebView2ObjectCollectionView"
  by (rule views_IUnknown [OF ICoreWebView2ObjectCollectionView_def ICoreWebView2ObjectCollectionView_decls])
    (simp only: table_simps ICoreWebView2ObjectCollectionViewVtbl_def)

lemma ICoreWebView2WebMessageReceivedEventArgs2_decls:
  "map (c_method ''ICoreWebView2WebMessageReceivedEventArgs2'')
     [Method ''HRESULT'' ''get_AdditionalObjects'' [''ICoreWebView2ObjectCollectionView **value'']]
   =
     [CDecl ''ICoreWebView2WebMessageReceivedEventArgs2'' ''HRESULT'' ''get_AdditionalObjects'' [''ICoreWebView2ObjectCollectionView **value'']]"
  by (simp only: list.map c_method.simps)

lemma ICoreWebView2WebMessageReceivedEventArgs2_views: "ICoreWebView2WebMessageReceivedEventArgs2Vtbl = c_view ICoreWebView2WebMessageReceivedEventArgs2"
  by (rule views_Derived [OF ICoreWebView2WebMessageReceivedEventArgs2_def ICoreWebView2WebMessageReceivedEventArgs2_decls ICoreWebView2WebMessageReceivedEventArgs_views])
    (simp only: table_simps ICoreWebView2WebMessageReceivedEventArgs2Vtbl_def
      ICoreWebView2WebMessageReceivedEventArgsVtbl_def)

definition objects_tables :: "(iface \<times> vtable) list" where
  "objects_tables =
     [(ICoreWebView2AcceleratorKeyPressedEventArgs, ICoreWebView2AcceleratorKeyPressedEventArgsVtbl),
      (ICoreWebView2AcceleratorKeyPressedEventArgs2, ICoreWebView2AcceleratorKeyPressedEventArgs2Vtbl),
      (ICoreWebView2BasicAuthenticationRequestedEventArgs, ICoreWebView2BasicAuthenticationRequestedEventArgsVtbl),
      (ICoreWebView2BasicAuthenticationResponse, ICoreWebView2BasicAuthenticationResponseVtbl),
      (ICoreWebView2BrowserProcessExitedEventArgs, ICoreWebView2BrowserProcessExitedEventArgsVtbl),
      (ICoreWebView2ContentLoadingEventArgs, ICoreWebView2ContentLoadingEventArgsVtbl),
      (ICoreWebView2ContextMenuRequestedEventArgs, ICoreWebView2ContextMenuRequestedEventArgsVtbl),
      (ICoreWebView2Cookie, ICoreWebView2CookieVtbl), (ICoreWebView2CookieList, ICoreWebView2CookieListVtbl),
      (ICoreWebView2Certificate, ICoreWebView2CertificateVtbl),
      (ICoreWebView2ClientCertificate, ICoreWebView2ClientCertificateVtbl),
      (ICoreWebView2StringCollection, ICoreWebView2StringCollectionVtbl),
      (ICoreWebView2ClientCertificateCollection, ICoreWebView2ClientCertificateCollectionVtbl),
      (ICoreWebView2ClientCertificateRequestedEventArgs, ICoreWebView2ClientCertificateRequestedEventArgsVtbl),
      (ICoreWebView2ContextMenuItem, ICoreWebView2ContextMenuItemVtbl),
      (ICoreWebView2ContextMenuItemCollection, ICoreWebView2ContextMenuItemCollectionVtbl),
      (ICoreWebView2ContextMenuTarget, ICoreWebView2ContextMenuTargetVtbl),
      (ICoreWebView2CustomSchemeRegistration, ICoreWebView2CustomSchemeRegistrationVtbl),
      (ICoreWebView2DOMContentLoadedEventArgs, ICoreWebView2DOMContentLoadedEventArgsVtbl),
      (ICoreWebView2Deferral, ICoreWebView2DeferralVtbl),
      (ICoreWebView2DevToolsProtocolEventReceivedEventArgs, ICoreWebView2DevToolsProtocolEventReceivedEventArgsVtbl),
      (ICoreWebView2DevToolsProtocolEventReceivedEventArgs2, ICoreWebView2DevToolsProtocolEventReceivedEventArgs2Vtbl),
      (ICoreWebView2DevToolsProtocolEventReceiver, ICoreWebView2DevToolsProtocolEventReceiverVtbl),
      (ICoreWebView2DownloadStartingEventArgs, ICoreWebView2DownloadStartingEventArgsVtbl),
      (ICoreWebView2FrameCreatedEventArgs, ICoreWebView2FrameCreatedEventArgsVtbl),
      (ICoreWebView2HttpHeadersCollectionIterator, ICoreWebView2HttpHeadersCollectionIteratorVtbl),
      (ICoreWebView2HttpRequestHeaders, ICoreWebView2HttpRequestHeadersVtbl),
      (ICoreWebView2HttpResponseHeaders, ICoreWebView2HttpResponseHeadersVtbl),
      (ICoreWebView2LaunchingExternalUriSchemeEventArgs, ICoreWebView2LaunchingExternalUriSchemeEventArgsVtbl),
      (ICoreWebView2MoveFocusRequestedEventArgs, ICoreWebView2MoveFocusRequestedEventArgsVtbl),
      (ICoreWebView2NavigationCompletedEventArgs, ICoreWebView2NavigationCompletedEventArgsVtbl),
      (ICoreWebView2NavigationCompletedEventArgs2, ICoreWebView2NavigationCompletedEventArgs2Vtbl),
      (ICoreWebView2NavigationStartingEventArgs, ICoreWebView2NavigationStartingEventArgsVtbl),
      (ICoreWebView2NavigationStartingEventArgs2, ICoreWebView2NavigationStartingEventArgs2Vtbl),
      (ICoreWebView2NavigationStartingEventArgs3, ICoreWebView2NavigationStartingEventArgs3Vtbl),
      (ICoreWebView2NewWindowRequestedEventArgs, ICoreWebView2NewWindowRequestedEventArgsVtbl),
      (ICoreWebView2NewWindowRequestedEventArgs2, ICoreWebView2NewWindowRequestedEventArgs2Vtbl),
      (ICoreWebView2NewWindowRequestedEventArgs3, ICoreWebView2NewWindowRequestedEventArgs3Vtbl),
      (ICoreWebView2PermissionRequestedEventArgs, ICoreWebView2PermissionRequestedEventArgsVtbl),
      (ICoreWebView2PermissionRequestedEventArgs2, ICoreWebView2PermissionRequestedEventArgs2Vtbl),
      (ICoreWebView2PermissionRequestedEventArgs3, ICoreWebView2PermissionRequestedEventArgs3Vtbl),
      (ICoreWebView2PermissionSettingCollectionView, ICoreWebView2PermissionSettingCollectionViewVtbl),
      (ICoreWebView2PermissionSetting, ICoreWebView2PermissionSettingVtbl),
      (ICoreWebView2PointerInfo, ICoreWebView2PointerInfoVtbl),
      (ICoreWebView2PrintSettings, ICoreWebView2PrintSettingsVtbl),
      (ICoreWebView2PrintSettings2, ICoreWebView2PrintSettings2Vtbl),
      (ICoreWebView2ProcessFailedEventArgs, ICoreWebView2ProcessFailedEventArgsVtbl),
      (ICoreWebView2ProcessFailedEventArgs2, ICoreWebView2ProcessFailedEventArgs2Vtbl),
      (ICoreWebView2ServerCertificateErrorDetectedEventArgs, ICoreWebView2ServerCertificateErrorDetectedEventArgsVtbl),
      (ICoreWebView2ScriptDialogOpeningEventArgs, ICoreWebView2ScriptDialogOpeningEventArgsVtbl),
      (ICoreWebView2SourceChangedEventArgs, ICoreWebView2SourceChangedEventArgsVtbl),
      (ICoreWebView2WebMessageReceivedEventArgs, ICoreWebView2WebMessageReceivedEventArgsVtbl),
      (ICoreWebView2WebResourceRequest, ICoreWebView2WebResourceRequestVtbl),
      (ICoreWebView2WebResourceRequestedEventArgs, ICoreWebView2WebResourceRequestedEventArgsVtbl),
      (ICoreWebView2WebResourceRequestedEventArgs2, ICoreWebView2WebResourceRequestedEventArgs2Vtbl),
      (ICoreWebView2WebResourceResponse, ICoreWebView2WebResourceResponseVtbl),
      (ICoreWebView2WebResourceResponseReceivedEventArgs, ICoreWebView2WebResourceResponseReceivedEventArgsVtbl),
      (ICoreWebView2WebResourceResponseView, ICoreWebView2WebResourceResponseViewVtbl),
      (ICoreWebView2WindowFeatures, ICoreWebView2WindowFeaturesVtbl),
      (ICoreWebView2BrowserExtensionList, ICoreWebView2BrowserExtensionListVtbl),
      (ICoreWebView2BrowserExtension, ICoreWebView2BrowserExtensionVtbl),
      (ICoreWebView2ExecuteScriptResult, ICoreWebView2ExecuteScriptResultVtbl),
      (ICoreWebView2ScriptException, ICoreWebView2ScriptExceptionVtbl), (ICoreWebView2File, ICoreWebView2FileVtbl),
      (ICoreWebView2ObjectCollectionView, ICoreWebView2ObjectCollectionViewVtbl),
      (ICoreWebView2WebMessageReceivedEventArgs2, ICoreWebView2WebMessageReceivedEventArgs2Vtbl)]"

lemma objects_tables_agree: "list_all (\<lambda>(i, v). v = c_view i) objects_tables"
  by (simp only: objects_tables_def list.pred_inject prod.case simp_thms
    ICoreWebView2AcceleratorKeyPressedEventArgs_views
    ICoreWebView2AcceleratorKeyPressedEventArgs2_views
    ICoreWebView2BasicAuthenticationRequestedEventArgs_views
    ICoreWebView2BasicAuthenticationResponse_views
    ICoreWebView2BrowserProcessExitedEventArgs_views
    ICoreWebView2ContentLoadingEventArgs_views
    ICoreWebView2ContextMenuRequestedEventArgs_views
    ICoreWebView2Cookie_views
    ICoreWebView2CookieList_views
    ICoreWebView2Certificate_views
    ICoreWebView2ClientCertificate_views
    ICoreWebView2StringCollection_views
    ICoreWebView2ClientCertificateCollection_views
    ICoreWebView2ClientCertificateRequestedEventArgs_views
    ICoreWebView2ContextMenuItem_views
    ICoreWebView2ContextMenuItemCollection_views
    ICoreWebView2ContextMenuTarget_views
    ICoreWebView2CustomSchemeRegistration_views
    ICoreWebView2DOMContentLoadedEventArgs_views
    ICoreWebView2Deferral_views
    ICoreWebView2DevToolsProtocolEventReceivedEventArgs_views
    ICoreWebView2DevToolsProtocolEventReceivedEventArgs2_views
    ICoreWebView2DevToolsProtocolEventReceiver_views
    ICoreWebView2DownloadStartingEventArgs_views
    ICoreWebView2FrameCreatedEventArgs_views
    ICoreWebView2HttpHeadersCollectionIterator_views
    ICoreWebView2HttpRequestHeaders_views
    ICoreWebView2HttpResponseHeaders_views
    ICoreWebView2LaunchingExternalUriSchemeEventArgs_views
    ICoreWebView2MoveFocusRequestedEventArgs_views
    ICoreWebView2NavigationCompletedEventArgs_views
    ICoreWebView2NavigationCompletedEventArgs2_views
    ICoreWebView2NavigationStartingEventArgs_views
    ICoreWebView2NavigationStartingEventArgs2_views
    ICoreWebView2NavigationStartingEventArgs3_views
    ICoreWebView2NewWindowRequestedEventArgs_views
    ICoreWebView2NewWindowRequestedEventArgs2_views
    ICoreWebView2NewWindowRequestedEventArgs3_views
    ICoreWebView2PermissionRequestedEventArgs_views
    ICoreWebView2PermissionRequestedEventArgs2_views
    ICoreWebView2PermissionRequestedEventArgs3_views
    ICoreWebView2PermissionSettingCollectionView_views
    ICoreWebView2PermissionSetting_views
    ICoreWebView2PointerInfo_views
    ICoreWebView2PrintSettings_views
    ICoreWebView2PrintSettings2_views
    ICoreWebView2ProcessFailedEventArgs_views
    ICoreWebView2ProcessFailedEventArgs2_views
    ICoreWebView2ServerCertificateErrorDetectedEventArgs_views
    ICoreWebView2ScriptDialogOpeningEventArgs_views
    ICoreWebView2SourceChangedEventArgs_views
    ICoreWebView2WebMessageReceivedEventArgs_views
    ICoreWebView2WebResourceRequest_views
    ICoreWebView2WebResourceRequestedEventArgs_views
    ICoreWebView2WebResourceRequestedEventArgs2_views
    ICoreWebView2WebResourceResponse_views
    ICoreWebView2WebResourceResponseReceivedEventArgs_views
    ICoreWebView2WebResourceResponseView_views
    ICoreWebView2WindowFeatures_views
    ICoreWebView2BrowserExtensionList_views
    ICoreWebView2BrowserExtension_views
    ICoreWebView2ExecuteScriptResult_views
    ICoreWebView2ScriptException_views
    ICoreWebView2File_views
    ICoreWebView2ObjectCollectionView_views
    ICoreWebView2WebMessageReceivedEventArgs2_views)

end
