(* ===== verification/AbiHandlers.thy ===== *)
theory AbiHandlers
  imports WebView2Abi
begin

text \<open>
  \<^verbatim>\<open>builtin/goc/webview2/WebView2.h\<close>, the handlers a program implements: each interface as its C++ class (its own methods after its base) and as its C table
  (every member), transcribed separately, and that the table is the layout of the class. The methods and members of an
  interface that others extend are named, since the tables of those repeat them; the others stand where they are declared.
\<close>

section \<open>Methods and classes\<close>

definition ICoreWebView2AcceleratorKeyPressedEventHandler :: iface where
  "ICoreWebView2AcceleratorKeyPressedEventHandler = Derived ''ICoreWebView2AcceleratorKeyPressedEventHandler'' IUnknown
     [Method ''HRESULT'' ''Invoke'' [''ICoreWebView2Controller *sender'', ''ICoreWebView2AcceleratorKeyPressedEventArgs *args'']]"

definition ICoreWebView2AddScriptToExecuteOnDocumentCreatedCompletedHandler :: iface where
  "ICoreWebView2AddScriptToExecuteOnDocumentCreatedCompletedHandler = Derived ''ICoreWebView2AddScriptToExecuteOnDocumentCreatedCompletedHandler'' IUnknown
     [Method ''HRESULT'' ''Invoke'' [''HRESULT errorCode'', ''LPCWSTR id'']]"

definition ICoreWebView2CallDevToolsProtocolMethodCompletedHandler :: iface where
  "ICoreWebView2CallDevToolsProtocolMethodCompletedHandler = Derived ''ICoreWebView2CallDevToolsProtocolMethodCompletedHandler'' IUnknown
     [Method ''HRESULT'' ''Invoke'' [''HRESULT errorCode'', ''LPCWSTR returnObjectAsJson'']]"

definition ICoreWebView2CapturePreviewCompletedHandler :: iface where
  "ICoreWebView2CapturePreviewCompletedHandler = Derived ''ICoreWebView2CapturePreviewCompletedHandler'' IUnknown
     [Method ''HRESULT'' ''Invoke'' [''HRESULT errorCode'']]"

definition ICoreWebView2BasicAuthenticationRequestedEventHandler :: iface where
  "ICoreWebView2BasicAuthenticationRequestedEventHandler = Derived ''ICoreWebView2BasicAuthenticationRequestedEventHandler'' IUnknown
     [Method ''HRESULT'' ''Invoke'' [''ICoreWebView2 *sender'', ''ICoreWebView2BasicAuthenticationRequestedEventArgs *args'']]"

definition ICoreWebView2BrowserProcessExitedEventHandler :: iface where
  "ICoreWebView2BrowserProcessExitedEventHandler = Derived ''ICoreWebView2BrowserProcessExitedEventHandler'' IUnknown
     [Method ''HRESULT'' ''Invoke'' [''ICoreWebView2Environment *sender'', ''ICoreWebView2BrowserProcessExitedEventArgs *args'']]"

definition ICoreWebView2BytesReceivedChangedEventHandler :: iface where
  "ICoreWebView2BytesReceivedChangedEventHandler = Derived ''ICoreWebView2BytesReceivedChangedEventHandler'' IUnknown
     [Method ''HRESULT'' ''Invoke'' [''ICoreWebView2DownloadOperation *sender'', ''IUnknown *args'']]"

definition ICoreWebView2ContentLoadingEventHandler :: iface where
  "ICoreWebView2ContentLoadingEventHandler = Derived ''ICoreWebView2ContentLoadingEventHandler'' IUnknown
     [Method ''HRESULT'' ''Invoke'' [''ICoreWebView2 *sender'', ''ICoreWebView2ContentLoadingEventArgs *args'']]"

definition ICoreWebView2ContextMenuRequestedEventHandler :: iface where
  "ICoreWebView2ContextMenuRequestedEventHandler = Derived ''ICoreWebView2ContextMenuRequestedEventHandler'' IUnknown
     [Method ''HRESULT'' ''Invoke'' [''ICoreWebView2 *sender'', ''ICoreWebView2ContextMenuRequestedEventArgs *args'']]"

definition ICoreWebView2ClearBrowsingDataCompletedHandler :: iface where
  "ICoreWebView2ClearBrowsingDataCompletedHandler = Derived ''ICoreWebView2ClearBrowsingDataCompletedHandler'' IUnknown
     [Method ''HRESULT'' ''Invoke'' [''HRESULT errorCode'']]"

definition ICoreWebView2ClientCertificateRequestedEventHandler :: iface where
  "ICoreWebView2ClientCertificateRequestedEventHandler = Derived ''ICoreWebView2ClientCertificateRequestedEventHandler'' IUnknown
     [Method ''HRESULT'' ''Invoke'' [''ICoreWebView2 *sender'', ''ICoreWebView2ClientCertificateRequestedEventArgs *args'']]"

definition ICoreWebView2ClearServerCertificateErrorActionsCompletedHandler :: iface where
  "ICoreWebView2ClearServerCertificateErrorActionsCompletedHandler = Derived ''ICoreWebView2ClearServerCertificateErrorActionsCompletedHandler'' IUnknown
     [Method ''HRESULT'' ''Invoke'' [''HRESULT errorCode'']]"

definition ICoreWebView2CreateCoreWebView2CompositionControllerCompletedHandler :: iface where
  "ICoreWebView2CreateCoreWebView2CompositionControllerCompletedHandler = Derived ''ICoreWebView2CreateCoreWebView2CompositionControllerCompletedHandler'' IUnknown
     [Method ''HRESULT'' ''Invoke'' [''HRESULT errorCode'', ''ICoreWebView2CompositionController *webView'']]"

definition ICoreWebView2CreateCoreWebView2ControllerCompletedHandler :: iface where
  "ICoreWebView2CreateCoreWebView2ControllerCompletedHandler = Derived ''ICoreWebView2CreateCoreWebView2ControllerCompletedHandler'' IUnknown
     [Method ''HRESULT'' ''Invoke'' [''HRESULT errorCode'', ''ICoreWebView2Controller *createdController'']]"

definition ICoreWebView2CreateCoreWebView2EnvironmentCompletedHandler :: iface where
  "ICoreWebView2CreateCoreWebView2EnvironmentCompletedHandler = Derived ''ICoreWebView2CreateCoreWebView2EnvironmentCompletedHandler'' IUnknown
     [Method ''HRESULT'' ''Invoke'' [''HRESULT errorCode'', ''ICoreWebView2Environment *createdEnvironment'']]"

definition ICoreWebView2ContainsFullScreenElementChangedEventHandler :: iface where
  "ICoreWebView2ContainsFullScreenElementChangedEventHandler = Derived ''ICoreWebView2ContainsFullScreenElementChangedEventHandler'' IUnknown
     [Method ''HRESULT'' ''Invoke'' [''ICoreWebView2 *sender'', ''IUnknown *args'']]"

definition ICoreWebView2CursorChangedEventHandler :: iface where
  "ICoreWebView2CursorChangedEventHandler = Derived ''ICoreWebView2CursorChangedEventHandler'' IUnknown
     [Method ''HRESULT'' ''Invoke'' [''ICoreWebView2CompositionController *sender'', ''IUnknown *args'']]"

definition ICoreWebView2CustomItemSelectedEventHandler :: iface where
  "ICoreWebView2CustomItemSelectedEventHandler = Derived ''ICoreWebView2CustomItemSelectedEventHandler'' IUnknown
     [Method ''HRESULT'' ''Invoke'' [''ICoreWebView2ContextMenuItem *sender'', ''IUnknown *args'']]"

definition ICoreWebView2DocumentTitleChangedEventHandler :: iface where
  "ICoreWebView2DocumentTitleChangedEventHandler = Derived ''ICoreWebView2DocumentTitleChangedEventHandler'' IUnknown
     [Method ''HRESULT'' ''Invoke'' [''ICoreWebView2 *sender'', ''IUnknown *args'']]"

definition ICoreWebView2DOMContentLoadedEventHandler :: iface where
  "ICoreWebView2DOMContentLoadedEventHandler = Derived ''ICoreWebView2DOMContentLoadedEventHandler'' IUnknown
     [Method ''HRESULT'' ''Invoke'' [''ICoreWebView2 *sender'', ''ICoreWebView2DOMContentLoadedEventArgs *args'']]"

definition ICoreWebView2DevToolsProtocolEventReceivedEventHandler :: iface where
  "ICoreWebView2DevToolsProtocolEventReceivedEventHandler = Derived ''ICoreWebView2DevToolsProtocolEventReceivedEventHandler'' IUnknown
     [Method ''HRESULT'' ''Invoke'' [''ICoreWebView2 *sender'', ''ICoreWebView2DevToolsProtocolEventReceivedEventArgs *args'']]"

definition ICoreWebView2DownloadStartingEventHandler :: iface where
  "ICoreWebView2DownloadStartingEventHandler = Derived ''ICoreWebView2DownloadStartingEventHandler'' IUnknown
     [Method ''HRESULT'' ''Invoke'' [''ICoreWebView2 *sender'', ''ICoreWebView2DownloadStartingEventArgs *args'']]"

definition ICoreWebView2EstimatedEndTimeChangedEventHandler :: iface where
  "ICoreWebView2EstimatedEndTimeChangedEventHandler = Derived ''ICoreWebView2EstimatedEndTimeChangedEventHandler'' IUnknown
     [Method ''HRESULT'' ''Invoke'' [''ICoreWebView2DownloadOperation *sender'', ''IUnknown *args'']]"

definition ICoreWebView2ExecuteScriptCompletedHandler :: iface where
  "ICoreWebView2ExecuteScriptCompletedHandler = Derived ''ICoreWebView2ExecuteScriptCompletedHandler'' IUnknown
     [Method ''HRESULT'' ''Invoke'' [''HRESULT errorCode'', ''LPCWSTR resultObjectAsJson'']]"

definition ICoreWebView2GetProcessExtendedInfosCompletedHandler :: iface where
  "ICoreWebView2GetProcessExtendedInfosCompletedHandler = Derived ''ICoreWebView2GetProcessExtendedInfosCompletedHandler'' IUnknown
     [Method ''HRESULT'' ''Invoke'' [''HRESULT errorCode'', ''ICoreWebView2ProcessExtendedInfoCollection *value'']]"

definition ICoreWebView2FrameContentLoadingEventHandler :: iface where
  "ICoreWebView2FrameContentLoadingEventHandler = Derived ''ICoreWebView2FrameContentLoadingEventHandler'' IUnknown
     [Method ''HRESULT'' ''Invoke'' [''ICoreWebView2Frame *sender'', ''ICoreWebView2ContentLoadingEventArgs *args'']]"

definition ICoreWebView2FrameCreatedEventHandler :: iface where
  "ICoreWebView2FrameCreatedEventHandler = Derived ''ICoreWebView2FrameCreatedEventHandler'' IUnknown
     [Method ''HRESULT'' ''Invoke'' [''ICoreWebView2 *sender'', ''ICoreWebView2FrameCreatedEventArgs *args'']]"

definition ICoreWebView2FrameDestroyedEventHandler :: iface where
  "ICoreWebView2FrameDestroyedEventHandler = Derived ''ICoreWebView2FrameDestroyedEventHandler'' IUnknown
     [Method ''HRESULT'' ''Invoke'' [''ICoreWebView2Frame *sender'', ''IUnknown *args'']]"

definition ICoreWebView2FrameDOMContentLoadedEventHandler :: iface where
  "ICoreWebView2FrameDOMContentLoadedEventHandler = Derived ''ICoreWebView2FrameDOMContentLoadedEventHandler'' IUnknown
     [Method ''HRESULT'' ''Invoke'' [''ICoreWebView2Frame *sender'', ''ICoreWebView2DOMContentLoadedEventArgs *args'']]"

definition ICoreWebView2FrameNameChangedEventHandler :: iface where
  "ICoreWebView2FrameNameChangedEventHandler = Derived ''ICoreWebView2FrameNameChangedEventHandler'' IUnknown
     [Method ''HRESULT'' ''Invoke'' [''ICoreWebView2Frame *sender'', ''IUnknown *args'']]"

definition ICoreWebView2FrameNavigationCompletedEventHandler :: iface where
  "ICoreWebView2FrameNavigationCompletedEventHandler = Derived ''ICoreWebView2FrameNavigationCompletedEventHandler'' IUnknown
     [Method ''HRESULT'' ''Invoke'' [''ICoreWebView2Frame *sender'', ''ICoreWebView2NavigationCompletedEventArgs *args'']]"

definition ICoreWebView2FrameNavigationStartingEventHandler :: iface where
  "ICoreWebView2FrameNavigationStartingEventHandler = Derived ''ICoreWebView2FrameNavigationStartingEventHandler'' IUnknown
     [Method ''HRESULT'' ''Invoke'' [''ICoreWebView2Frame *sender'', ''ICoreWebView2NavigationStartingEventArgs *args'']]"

definition ICoreWebView2FramePermissionRequestedEventHandler :: iface where
  "ICoreWebView2FramePermissionRequestedEventHandler = Derived ''ICoreWebView2FramePermissionRequestedEventHandler'' IUnknown
     [Method ''HRESULT'' ''Invoke'' [''ICoreWebView2Frame *sender'', ''ICoreWebView2PermissionRequestedEventArgs2 *args'']]"

definition ICoreWebView2FrameWebMessageReceivedEventHandler :: iface where
  "ICoreWebView2FrameWebMessageReceivedEventHandler = Derived ''ICoreWebView2FrameWebMessageReceivedEventHandler'' IUnknown
     [Method ''HRESULT'' ''Invoke'' [''ICoreWebView2Frame *sender'', ''ICoreWebView2WebMessageReceivedEventArgs *args'']]"

definition ICoreWebView2FocusChangedEventHandler :: iface where
  "ICoreWebView2FocusChangedEventHandler = Derived ''ICoreWebView2FocusChangedEventHandler'' IUnknown
     [Method ''HRESULT'' ''Invoke'' [''ICoreWebView2Controller *sender'', ''IUnknown *args'']]"

definition ICoreWebView2GetCookiesCompletedHandler :: iface where
  "ICoreWebView2GetCookiesCompletedHandler = Derived ''ICoreWebView2GetCookiesCompletedHandler'' IUnknown
     [Method ''HRESULT'' ''Invoke'' [''HRESULT result'', ''ICoreWebView2CookieList *cookieList'']]"

definition ICoreWebView2GetNonDefaultPermissionSettingsCompletedHandler :: iface where
  "ICoreWebView2GetNonDefaultPermissionSettingsCompletedHandler = Derived ''ICoreWebView2GetNonDefaultPermissionSettingsCompletedHandler'' IUnknown
     [Method ''HRESULT'' ''Invoke'' [''HRESULT errorCode'', ''ICoreWebView2PermissionSettingCollectionView *collectionView'']]"

definition ICoreWebView2HistoryChangedEventHandler :: iface where
  "ICoreWebView2HistoryChangedEventHandler = Derived ''ICoreWebView2HistoryChangedEventHandler'' IUnknown
     [Method ''HRESULT'' ''Invoke'' [''ICoreWebView2 *sender'', ''IUnknown *args'']]"

definition ICoreWebView2IsDefaultDownloadDialogOpenChangedEventHandler :: iface where
  "ICoreWebView2IsDefaultDownloadDialogOpenChangedEventHandler = Derived ''ICoreWebView2IsDefaultDownloadDialogOpenChangedEventHandler'' IUnknown
     [Method ''HRESULT'' ''Invoke'' [''ICoreWebView2 *sender'', ''IUnknown *args'']]"

definition ICoreWebView2LaunchingExternalUriSchemeEventHandler :: iface where
  "ICoreWebView2LaunchingExternalUriSchemeEventHandler = Derived ''ICoreWebView2LaunchingExternalUriSchemeEventHandler'' IUnknown
     [Method ''HRESULT'' ''Invoke'' [''ICoreWebView2 *sender'', ''ICoreWebView2LaunchingExternalUriSchemeEventArgs *args'']]"

definition ICoreWebView2MoveFocusRequestedEventHandler :: iface where
  "ICoreWebView2MoveFocusRequestedEventHandler = Derived ''ICoreWebView2MoveFocusRequestedEventHandler'' IUnknown
     [Method ''HRESULT'' ''Invoke'' [''ICoreWebView2Controller *sender'', ''ICoreWebView2MoveFocusRequestedEventArgs *args'']]"

definition ICoreWebView2NavigationCompletedEventHandler :: iface where
  "ICoreWebView2NavigationCompletedEventHandler = Derived ''ICoreWebView2NavigationCompletedEventHandler'' IUnknown
     [Method ''HRESULT'' ''Invoke'' [''ICoreWebView2 *sender'', ''ICoreWebView2NavigationCompletedEventArgs *args'']]"

definition ICoreWebView2NavigationStartingEventHandler :: iface where
  "ICoreWebView2NavigationStartingEventHandler = Derived ''ICoreWebView2NavigationStartingEventHandler'' IUnknown
     [Method ''HRESULT'' ''Invoke'' [''ICoreWebView2 *sender'', ''ICoreWebView2NavigationStartingEventArgs *args'']]"

definition ICoreWebView2NewBrowserVersionAvailableEventHandler :: iface where
  "ICoreWebView2NewBrowserVersionAvailableEventHandler = Derived ''ICoreWebView2NewBrowserVersionAvailableEventHandler'' IUnknown
     [Method ''HRESULT'' ''Invoke'' [''ICoreWebView2Environment *sender'', ''IUnknown *args'']]"

definition ICoreWebView2NewWindowRequestedEventHandler :: iface where
  "ICoreWebView2NewWindowRequestedEventHandler = Derived ''ICoreWebView2NewWindowRequestedEventHandler'' IUnknown
     [Method ''HRESULT'' ''Invoke'' [''ICoreWebView2 *sender'', ''ICoreWebView2NewWindowRequestedEventArgs *args'']]"

definition ICoreWebView2PermissionRequestedEventHandler :: iface where
  "ICoreWebView2PermissionRequestedEventHandler = Derived ''ICoreWebView2PermissionRequestedEventHandler'' IUnknown
     [Method ''HRESULT'' ''Invoke'' [''ICoreWebView2 *sender'', ''ICoreWebView2PermissionRequestedEventArgs *args'']]"

definition ICoreWebView2PrintToPdfCompletedHandler :: iface where
  "ICoreWebView2PrintToPdfCompletedHandler = Derived ''ICoreWebView2PrintToPdfCompletedHandler'' IUnknown
     [Method ''HRESULT'' ''Invoke'' [''HRESULT errorCode'', ''BOOL isSuccessful'']]"

definition ICoreWebView2PrintCompletedHandler :: iface where
  "ICoreWebView2PrintCompletedHandler = Derived ''ICoreWebView2PrintCompletedHandler'' IUnknown
     [Method ''HRESULT'' ''Invoke'' [''HRESULT errorCode'', ''COREWEBVIEW2_PRINT_STATUS printStatus'']]"

definition ICoreWebView2PrintToPdfStreamCompletedHandler :: iface where
  "ICoreWebView2PrintToPdfStreamCompletedHandler = Derived ''ICoreWebView2PrintToPdfStreamCompletedHandler'' IUnknown
     [Method ''HRESULT'' ''Invoke'' [''HRESULT errorCode'', ''IStream *pdfStream'']]"

definition ICoreWebView2ProcessFailedEventHandler :: iface where
  "ICoreWebView2ProcessFailedEventHandler = Derived ''ICoreWebView2ProcessFailedEventHandler'' IUnknown
     [Method ''HRESULT'' ''Invoke'' [''ICoreWebView2 *sender'', ''ICoreWebView2ProcessFailedEventArgs *args'']]"

definition ICoreWebView2ProfileDeletedEventHandler :: iface where
  "ICoreWebView2ProfileDeletedEventHandler = Derived ''ICoreWebView2ProfileDeletedEventHandler'' IUnknown
     [Method ''HRESULT'' ''Invoke'' [''ICoreWebView2Profile *sender'', ''IUnknown *args'']]"

definition ICoreWebView2RasterizationScaleChangedEventHandler :: iface where
  "ICoreWebView2RasterizationScaleChangedEventHandler = Derived ''ICoreWebView2RasterizationScaleChangedEventHandler'' IUnknown
     [Method ''HRESULT'' ''Invoke'' [''ICoreWebView2Controller *sender'', ''IUnknown *args'']]"

definition ICoreWebView2ServerCertificateErrorDetectedEventHandler :: iface where
  "ICoreWebView2ServerCertificateErrorDetectedEventHandler = Derived ''ICoreWebView2ServerCertificateErrorDetectedEventHandler'' IUnknown
     [Method ''HRESULT'' ''Invoke'' [''ICoreWebView2 *sender'', ''ICoreWebView2ServerCertificateErrorDetectedEventArgs *args'']]"

definition ICoreWebView2SetPermissionStateCompletedHandler :: iface where
  "ICoreWebView2SetPermissionStateCompletedHandler = Derived ''ICoreWebView2SetPermissionStateCompletedHandler'' IUnknown
     [Method ''HRESULT'' ''Invoke'' [''HRESULT errorCode'']]"

definition ICoreWebView2ScriptDialogOpeningEventHandler :: iface where
  "ICoreWebView2ScriptDialogOpeningEventHandler = Derived ''ICoreWebView2ScriptDialogOpeningEventHandler'' IUnknown
     [Method ''HRESULT'' ''Invoke'' [''ICoreWebView2 *sender'', ''ICoreWebView2ScriptDialogOpeningEventArgs *args'']]"

definition ICoreWebView2SourceChangedEventHandler :: iface where
  "ICoreWebView2SourceChangedEventHandler = Derived ''ICoreWebView2SourceChangedEventHandler'' IUnknown
     [Method ''HRESULT'' ''Invoke'' [''ICoreWebView2 *sender'', ''ICoreWebView2SourceChangedEventArgs *args'']]"

definition ICoreWebView2StateChangedEventHandler :: iface where
  "ICoreWebView2StateChangedEventHandler = Derived ''ICoreWebView2StateChangedEventHandler'' IUnknown
     [Method ''HRESULT'' ''Invoke'' [''ICoreWebView2DownloadOperation *sender'', ''IUnknown *args'']]"

definition ICoreWebView2StatusBarTextChangedEventHandler :: iface where
  "ICoreWebView2StatusBarTextChangedEventHandler = Derived ''ICoreWebView2StatusBarTextChangedEventHandler'' IUnknown
     [Method ''HRESULT'' ''Invoke'' [''ICoreWebView2 *sender'', ''IUnknown *args'']]"

definition ICoreWebView2TrySuspendCompletedHandler :: iface where
  "ICoreWebView2TrySuspendCompletedHandler = Derived ''ICoreWebView2TrySuspendCompletedHandler'' IUnknown
     [Method ''HRESULT'' ''Invoke'' [''HRESULT errorCode'', ''BOOL isSuccessful'']]"

definition ICoreWebView2WebMessageReceivedEventHandler :: iface where
  "ICoreWebView2WebMessageReceivedEventHandler = Derived ''ICoreWebView2WebMessageReceivedEventHandler'' IUnknown
     [Method ''HRESULT'' ''Invoke'' [''ICoreWebView2 *sender'', ''ICoreWebView2WebMessageReceivedEventArgs *args'']]"

definition ICoreWebView2WebResourceRequestedEventHandler :: iface where
  "ICoreWebView2WebResourceRequestedEventHandler = Derived ''ICoreWebView2WebResourceRequestedEventHandler'' IUnknown
     [Method ''HRESULT'' ''Invoke'' [''ICoreWebView2 *sender'', ''ICoreWebView2WebResourceRequestedEventArgs *args'']]"

definition ICoreWebView2WebResourceResponseReceivedEventHandler :: iface where
  "ICoreWebView2WebResourceResponseReceivedEventHandler = Derived ''ICoreWebView2WebResourceResponseReceivedEventHandler'' IUnknown
     [Method ''HRESULT'' ''Invoke'' [''ICoreWebView2 *sender'', ''ICoreWebView2WebResourceResponseReceivedEventArgs *args'']]"

definition ICoreWebView2WebResourceResponseViewGetContentCompletedHandler :: iface where
  "ICoreWebView2WebResourceResponseViewGetContentCompletedHandler = Derived ''ICoreWebView2WebResourceResponseViewGetContentCompletedHandler'' IUnknown
     [Method ''HRESULT'' ''Invoke'' [''HRESULT errorCode'', ''IStream *content'']]"

definition ICoreWebView2WindowCloseRequestedEventHandler :: iface where
  "ICoreWebView2WindowCloseRequestedEventHandler = Derived ''ICoreWebView2WindowCloseRequestedEventHandler'' IUnknown
     [Method ''HRESULT'' ''Invoke'' [''ICoreWebView2 *sender'', ''IUnknown *args'']]"

definition ICoreWebView2ZoomFactorChangedEventHandler :: iface where
  "ICoreWebView2ZoomFactorChangedEventHandler = Derived ''ICoreWebView2ZoomFactorChangedEventHandler'' IUnknown
     [Method ''HRESULT'' ''Invoke'' [''ICoreWebView2Controller *sender'', ''IUnknown *args'']]"

definition ICoreWebView2IsMutedChangedEventHandler :: iface where
  "ICoreWebView2IsMutedChangedEventHandler = Derived ''ICoreWebView2IsMutedChangedEventHandler'' IUnknown
     [Method ''HRESULT'' ''Invoke'' [''ICoreWebView2 *sender'', ''IUnknown *args'']]"

definition ICoreWebView2IsDocumentPlayingAudioChangedEventHandler :: iface where
  "ICoreWebView2IsDocumentPlayingAudioChangedEventHandler = Derived ''ICoreWebView2IsDocumentPlayingAudioChangedEventHandler'' IUnknown
     [Method ''HRESULT'' ''Invoke'' [''ICoreWebView2 *sender'', ''IUnknown *args'']]"

definition ICoreWebView2ProcessInfosChangedEventHandler :: iface where
  "ICoreWebView2ProcessInfosChangedEventHandler = Derived ''ICoreWebView2ProcessInfosChangedEventHandler'' IUnknown
     [Method ''HRESULT'' ''Invoke'' [''ICoreWebView2Environment *sender'', ''IUnknown *args'']]"

definition ICoreWebView2FaviconChangedEventHandler :: iface where
  "ICoreWebView2FaviconChangedEventHandler = Derived ''ICoreWebView2FaviconChangedEventHandler'' IUnknown
     [Method ''HRESULT'' ''Invoke'' [''ICoreWebView2 *sender'', ''IUnknown *args'']]"

definition ICoreWebView2GetFaviconCompletedHandler :: iface where
  "ICoreWebView2GetFaviconCompletedHandler = Derived ''ICoreWebView2GetFaviconCompletedHandler'' IUnknown
     [Method ''HRESULT'' ''Invoke'' [''HRESULT errorCode'', ''IStream *faviconStream'']]"

definition ICoreWebView2ProfileAddBrowserExtensionCompletedHandler :: iface where
  "ICoreWebView2ProfileAddBrowserExtensionCompletedHandler = Derived ''ICoreWebView2ProfileAddBrowserExtensionCompletedHandler'' IUnknown
     [Method ''HRESULT'' ''Invoke'' [''HRESULT errorCode'', ''ICoreWebView2BrowserExtension *extension'']]"

definition ICoreWebView2ProfileGetBrowserExtensionsCompletedHandler :: iface where
  "ICoreWebView2ProfileGetBrowserExtensionsCompletedHandler = Derived ''ICoreWebView2ProfileGetBrowserExtensionsCompletedHandler'' IUnknown
     [Method ''HRESULT'' ''Invoke'' [''HRESULT errorCode'', ''ICoreWebView2BrowserExtensionList *extensionList'']]"

definition ICoreWebView2BrowserExtensionEnableCompletedHandler :: iface where
  "ICoreWebView2BrowserExtensionEnableCompletedHandler = Derived ''ICoreWebView2BrowserExtensionEnableCompletedHandler'' IUnknown
     [Method ''HRESULT'' ''Invoke'' [''HRESULT errorCode'']]"

definition ICoreWebView2BrowserExtensionRemoveCompletedHandler :: iface where
  "ICoreWebView2BrowserExtensionRemoveCompletedHandler = Derived ''ICoreWebView2BrowserExtensionRemoveCompletedHandler'' IUnknown
     [Method ''HRESULT'' ''Invoke'' [''HRESULT errorCode'']]"

definition ICoreWebView2ExecuteScriptWithResultCompletedHandler :: iface where
  "ICoreWebView2ExecuteScriptWithResultCompletedHandler = Derived ''ICoreWebView2ExecuteScriptWithResultCompletedHandler'' IUnknown
     [Method ''HRESULT'' ''Invoke'' [''HRESULT errorCode'', ''ICoreWebView2ExecuteScriptResult *result'']]"

section \<open>Tables\<close>

definition ICoreWebView2AcceleratorKeyPressedEventHandlerVtbl :: vtable where
  "ICoreWebView2AcceleratorKeyPressedEventHandlerVtbl = Vtable ''ICoreWebView2AcceleratorKeyPressedEventHandler''
     [IUnknown_QueryInterface_C,
      IUnknown_AddRef_C,
      IUnknown_Release_C,
      CDecl ''ICoreWebView2AcceleratorKeyPressedEventHandler'' ''HRESULT'' ''Invoke'' [''ICoreWebView2Controller *sender'', ''ICoreWebView2AcceleratorKeyPressedEventArgs *args'']]"

definition ICoreWebView2AddScriptToExecuteOnDocumentCreatedCompletedHandlerVtbl :: vtable where
  "ICoreWebView2AddScriptToExecuteOnDocumentCreatedCompletedHandlerVtbl = Vtable ''ICoreWebView2AddScriptToExecuteOnDocumentCreatedCompletedHandler''
     [IUnknown_QueryInterface_C,
      IUnknown_AddRef_C,
      IUnknown_Release_C,
      CDecl ''ICoreWebView2AddScriptToExecuteOnDocumentCreatedCompletedHandler'' ''HRESULT'' ''Invoke'' [''HRESULT errorCode'', ''LPCWSTR id'']]"

definition ICoreWebView2CallDevToolsProtocolMethodCompletedHandlerVtbl :: vtable where
  "ICoreWebView2CallDevToolsProtocolMethodCompletedHandlerVtbl = Vtable ''ICoreWebView2CallDevToolsProtocolMethodCompletedHandler''
     [IUnknown_QueryInterface_C,
      IUnknown_AddRef_C,
      IUnknown_Release_C,
      CDecl ''ICoreWebView2CallDevToolsProtocolMethodCompletedHandler'' ''HRESULT'' ''Invoke'' [''HRESULT errorCode'', ''LPCWSTR returnObjectAsJson'']]"

definition ICoreWebView2CapturePreviewCompletedHandlerVtbl :: vtable where
  "ICoreWebView2CapturePreviewCompletedHandlerVtbl = Vtable ''ICoreWebView2CapturePreviewCompletedHandler''
     [IUnknown_QueryInterface_C,
      IUnknown_AddRef_C,
      IUnknown_Release_C,
      CDecl ''ICoreWebView2CapturePreviewCompletedHandler'' ''HRESULT'' ''Invoke'' [''HRESULT errorCode'']]"

definition ICoreWebView2BasicAuthenticationRequestedEventHandlerVtbl :: vtable where
  "ICoreWebView2BasicAuthenticationRequestedEventHandlerVtbl = Vtable ''ICoreWebView2BasicAuthenticationRequestedEventHandler''
     [IUnknown_QueryInterface_C,
      IUnknown_AddRef_C,
      IUnknown_Release_C,
      CDecl ''ICoreWebView2BasicAuthenticationRequestedEventHandler'' ''HRESULT'' ''Invoke'' [''ICoreWebView2 *sender'', ''ICoreWebView2BasicAuthenticationRequestedEventArgs *args'']]"

definition ICoreWebView2BrowserProcessExitedEventHandlerVtbl :: vtable where
  "ICoreWebView2BrowserProcessExitedEventHandlerVtbl = Vtable ''ICoreWebView2BrowserProcessExitedEventHandler''
     [IUnknown_QueryInterface_C,
      IUnknown_AddRef_C,
      IUnknown_Release_C,
      CDecl ''ICoreWebView2BrowserProcessExitedEventHandler'' ''HRESULT'' ''Invoke'' [''ICoreWebView2Environment *sender'', ''ICoreWebView2BrowserProcessExitedEventArgs *args'']]"

definition ICoreWebView2BytesReceivedChangedEventHandlerVtbl :: vtable where
  "ICoreWebView2BytesReceivedChangedEventHandlerVtbl = Vtable ''ICoreWebView2BytesReceivedChangedEventHandler''
     [IUnknown_QueryInterface_C,
      IUnknown_AddRef_C,
      IUnknown_Release_C,
      CDecl ''ICoreWebView2BytesReceivedChangedEventHandler'' ''HRESULT'' ''Invoke'' [''ICoreWebView2DownloadOperation *sender'', ''IUnknown *args'']]"

definition ICoreWebView2ContentLoadingEventHandlerVtbl :: vtable where
  "ICoreWebView2ContentLoadingEventHandlerVtbl = Vtable ''ICoreWebView2ContentLoadingEventHandler''
     [IUnknown_QueryInterface_C,
      IUnknown_AddRef_C,
      IUnknown_Release_C,
      CDecl ''ICoreWebView2ContentLoadingEventHandler'' ''HRESULT'' ''Invoke'' [''ICoreWebView2 *sender'', ''ICoreWebView2ContentLoadingEventArgs *args'']]"

definition ICoreWebView2ContextMenuRequestedEventHandlerVtbl :: vtable where
  "ICoreWebView2ContextMenuRequestedEventHandlerVtbl = Vtable ''ICoreWebView2ContextMenuRequestedEventHandler''
     [IUnknown_QueryInterface_C,
      IUnknown_AddRef_C,
      IUnknown_Release_C,
      CDecl ''ICoreWebView2ContextMenuRequestedEventHandler'' ''HRESULT'' ''Invoke'' [''ICoreWebView2 *sender'', ''ICoreWebView2ContextMenuRequestedEventArgs *args'']]"

definition ICoreWebView2ClearBrowsingDataCompletedHandlerVtbl :: vtable where
  "ICoreWebView2ClearBrowsingDataCompletedHandlerVtbl = Vtable ''ICoreWebView2ClearBrowsingDataCompletedHandler''
     [IUnknown_QueryInterface_C,
      IUnknown_AddRef_C,
      IUnknown_Release_C,
      CDecl ''ICoreWebView2ClearBrowsingDataCompletedHandler'' ''HRESULT'' ''Invoke'' [''HRESULT errorCode'']]"

definition ICoreWebView2ClientCertificateRequestedEventHandlerVtbl :: vtable where
  "ICoreWebView2ClientCertificateRequestedEventHandlerVtbl = Vtable ''ICoreWebView2ClientCertificateRequestedEventHandler''
     [IUnknown_QueryInterface_C,
      IUnknown_AddRef_C,
      IUnknown_Release_C,
      CDecl ''ICoreWebView2ClientCertificateRequestedEventHandler'' ''HRESULT'' ''Invoke'' [''ICoreWebView2 *sender'', ''ICoreWebView2ClientCertificateRequestedEventArgs *args'']]"

definition ICoreWebView2ClearServerCertificateErrorActionsCompletedHandlerVtbl :: vtable where
  "ICoreWebView2ClearServerCertificateErrorActionsCompletedHandlerVtbl = Vtable ''ICoreWebView2ClearServerCertificateErrorActionsCompletedHandler''
     [IUnknown_QueryInterface_C,
      IUnknown_AddRef_C,
      IUnknown_Release_C,
      CDecl ''ICoreWebView2ClearServerCertificateErrorActionsCompletedHandler'' ''HRESULT'' ''Invoke'' [''HRESULT errorCode'']]"

definition ICoreWebView2CreateCoreWebView2CompositionControllerCompletedHandlerVtbl :: vtable where
  "ICoreWebView2CreateCoreWebView2CompositionControllerCompletedHandlerVtbl = Vtable ''ICoreWebView2CreateCoreWebView2CompositionControllerCompletedHandler''
     [IUnknown_QueryInterface_C,
      IUnknown_AddRef_C,
      IUnknown_Release_C,
      CDecl ''ICoreWebView2CreateCoreWebView2CompositionControllerCompletedHandler'' ''HRESULT'' ''Invoke'' [''HRESULT errorCode'', ''ICoreWebView2CompositionController *webView'']]"

definition ICoreWebView2CreateCoreWebView2ControllerCompletedHandlerVtbl :: vtable where
  "ICoreWebView2CreateCoreWebView2ControllerCompletedHandlerVtbl = Vtable ''ICoreWebView2CreateCoreWebView2ControllerCompletedHandler''
     [IUnknown_QueryInterface_C,
      IUnknown_AddRef_C,
      IUnknown_Release_C,
      CDecl ''ICoreWebView2CreateCoreWebView2ControllerCompletedHandler'' ''HRESULT'' ''Invoke'' [''HRESULT errorCode'', ''ICoreWebView2Controller *createdController'']]"

definition ICoreWebView2CreateCoreWebView2EnvironmentCompletedHandlerVtbl :: vtable where
  "ICoreWebView2CreateCoreWebView2EnvironmentCompletedHandlerVtbl = Vtable ''ICoreWebView2CreateCoreWebView2EnvironmentCompletedHandler''
     [IUnknown_QueryInterface_C,
      IUnknown_AddRef_C,
      IUnknown_Release_C,
      CDecl ''ICoreWebView2CreateCoreWebView2EnvironmentCompletedHandler'' ''HRESULT'' ''Invoke'' [''HRESULT errorCode'', ''ICoreWebView2Environment *createdEnvironment'']]"

definition ICoreWebView2ContainsFullScreenElementChangedEventHandlerVtbl :: vtable where
  "ICoreWebView2ContainsFullScreenElementChangedEventHandlerVtbl = Vtable ''ICoreWebView2ContainsFullScreenElementChangedEventHandler''
     [IUnknown_QueryInterface_C,
      IUnknown_AddRef_C,
      IUnknown_Release_C,
      CDecl ''ICoreWebView2ContainsFullScreenElementChangedEventHandler'' ''HRESULT'' ''Invoke'' [''ICoreWebView2 *sender'', ''IUnknown *args'']]"

definition ICoreWebView2CursorChangedEventHandlerVtbl :: vtable where
  "ICoreWebView2CursorChangedEventHandlerVtbl = Vtable ''ICoreWebView2CursorChangedEventHandler''
     [IUnknown_QueryInterface_C,
      IUnknown_AddRef_C,
      IUnknown_Release_C,
      CDecl ''ICoreWebView2CursorChangedEventHandler'' ''HRESULT'' ''Invoke'' [''ICoreWebView2CompositionController *sender'', ''IUnknown *args'']]"

definition ICoreWebView2CustomItemSelectedEventHandlerVtbl :: vtable where
  "ICoreWebView2CustomItemSelectedEventHandlerVtbl = Vtable ''ICoreWebView2CustomItemSelectedEventHandler''
     [IUnknown_QueryInterface_C,
      IUnknown_AddRef_C,
      IUnknown_Release_C,
      CDecl ''ICoreWebView2CustomItemSelectedEventHandler'' ''HRESULT'' ''Invoke'' [''ICoreWebView2ContextMenuItem *sender'', ''IUnknown *args'']]"

definition ICoreWebView2DocumentTitleChangedEventHandlerVtbl :: vtable where
  "ICoreWebView2DocumentTitleChangedEventHandlerVtbl = Vtable ''ICoreWebView2DocumentTitleChangedEventHandler''
     [IUnknown_QueryInterface_C,
      IUnknown_AddRef_C,
      IUnknown_Release_C,
      CDecl ''ICoreWebView2DocumentTitleChangedEventHandler'' ''HRESULT'' ''Invoke'' [''ICoreWebView2 *sender'', ''IUnknown *args'']]"

definition ICoreWebView2DOMContentLoadedEventHandlerVtbl :: vtable where
  "ICoreWebView2DOMContentLoadedEventHandlerVtbl = Vtable ''ICoreWebView2DOMContentLoadedEventHandler''
     [IUnknown_QueryInterface_C,
      IUnknown_AddRef_C,
      IUnknown_Release_C,
      CDecl ''ICoreWebView2DOMContentLoadedEventHandler'' ''HRESULT'' ''Invoke'' [''ICoreWebView2 *sender'', ''ICoreWebView2DOMContentLoadedEventArgs *args'']]"

definition ICoreWebView2DevToolsProtocolEventReceivedEventHandlerVtbl :: vtable where
  "ICoreWebView2DevToolsProtocolEventReceivedEventHandlerVtbl = Vtable ''ICoreWebView2DevToolsProtocolEventReceivedEventHandler''
     [IUnknown_QueryInterface_C,
      IUnknown_AddRef_C,
      IUnknown_Release_C,
      CDecl ''ICoreWebView2DevToolsProtocolEventReceivedEventHandler'' ''HRESULT'' ''Invoke'' [''ICoreWebView2 *sender'', ''ICoreWebView2DevToolsProtocolEventReceivedEventArgs *args'']]"

definition ICoreWebView2DownloadStartingEventHandlerVtbl :: vtable where
  "ICoreWebView2DownloadStartingEventHandlerVtbl = Vtable ''ICoreWebView2DownloadStartingEventHandler''
     [IUnknown_QueryInterface_C,
      IUnknown_AddRef_C,
      IUnknown_Release_C,
      CDecl ''ICoreWebView2DownloadStartingEventHandler'' ''HRESULT'' ''Invoke'' [''ICoreWebView2 *sender'', ''ICoreWebView2DownloadStartingEventArgs *args'']]"

definition ICoreWebView2EstimatedEndTimeChangedEventHandlerVtbl :: vtable where
  "ICoreWebView2EstimatedEndTimeChangedEventHandlerVtbl = Vtable ''ICoreWebView2EstimatedEndTimeChangedEventHandler''
     [IUnknown_QueryInterface_C,
      IUnknown_AddRef_C,
      IUnknown_Release_C,
      CDecl ''ICoreWebView2EstimatedEndTimeChangedEventHandler'' ''HRESULT'' ''Invoke'' [''ICoreWebView2DownloadOperation *sender'', ''IUnknown *args'']]"

definition ICoreWebView2ExecuteScriptCompletedHandlerVtbl :: vtable where
  "ICoreWebView2ExecuteScriptCompletedHandlerVtbl = Vtable ''ICoreWebView2ExecuteScriptCompletedHandler''
     [IUnknown_QueryInterface_C,
      IUnknown_AddRef_C,
      IUnknown_Release_C,
      CDecl ''ICoreWebView2ExecuteScriptCompletedHandler'' ''HRESULT'' ''Invoke'' [''HRESULT errorCode'', ''LPCWSTR resultObjectAsJson'']]"

definition ICoreWebView2GetProcessExtendedInfosCompletedHandlerVtbl :: vtable where
  "ICoreWebView2GetProcessExtendedInfosCompletedHandlerVtbl = Vtable ''ICoreWebView2GetProcessExtendedInfosCompletedHandler''
     [IUnknown_QueryInterface_C,
      IUnknown_AddRef_C,
      IUnknown_Release_C,
      CDecl ''ICoreWebView2GetProcessExtendedInfosCompletedHandler'' ''HRESULT'' ''Invoke'' [''HRESULT errorCode'', ''ICoreWebView2ProcessExtendedInfoCollection *value'']]"

definition ICoreWebView2FrameContentLoadingEventHandlerVtbl :: vtable where
  "ICoreWebView2FrameContentLoadingEventHandlerVtbl = Vtable ''ICoreWebView2FrameContentLoadingEventHandler''
     [IUnknown_QueryInterface_C,
      IUnknown_AddRef_C,
      IUnknown_Release_C,
      CDecl ''ICoreWebView2FrameContentLoadingEventHandler'' ''HRESULT'' ''Invoke'' [''ICoreWebView2Frame *sender'', ''ICoreWebView2ContentLoadingEventArgs *args'']]"

definition ICoreWebView2FrameCreatedEventHandlerVtbl :: vtable where
  "ICoreWebView2FrameCreatedEventHandlerVtbl = Vtable ''ICoreWebView2FrameCreatedEventHandler''
     [IUnknown_QueryInterface_C,
      IUnknown_AddRef_C,
      IUnknown_Release_C,
      CDecl ''ICoreWebView2FrameCreatedEventHandler'' ''HRESULT'' ''Invoke'' [''ICoreWebView2 *sender'', ''ICoreWebView2FrameCreatedEventArgs *args'']]"

definition ICoreWebView2FrameDestroyedEventHandlerVtbl :: vtable where
  "ICoreWebView2FrameDestroyedEventHandlerVtbl = Vtable ''ICoreWebView2FrameDestroyedEventHandler''
     [IUnknown_QueryInterface_C,
      IUnknown_AddRef_C,
      IUnknown_Release_C,
      CDecl ''ICoreWebView2FrameDestroyedEventHandler'' ''HRESULT'' ''Invoke'' [''ICoreWebView2Frame *sender'', ''IUnknown *args'']]"

definition ICoreWebView2FrameDOMContentLoadedEventHandlerVtbl :: vtable where
  "ICoreWebView2FrameDOMContentLoadedEventHandlerVtbl = Vtable ''ICoreWebView2FrameDOMContentLoadedEventHandler''
     [IUnknown_QueryInterface_C,
      IUnknown_AddRef_C,
      IUnknown_Release_C,
      CDecl ''ICoreWebView2FrameDOMContentLoadedEventHandler'' ''HRESULT'' ''Invoke'' [''ICoreWebView2Frame *sender'', ''ICoreWebView2DOMContentLoadedEventArgs *args'']]"

definition ICoreWebView2FrameNameChangedEventHandlerVtbl :: vtable where
  "ICoreWebView2FrameNameChangedEventHandlerVtbl = Vtable ''ICoreWebView2FrameNameChangedEventHandler''
     [IUnknown_QueryInterface_C,
      IUnknown_AddRef_C,
      IUnknown_Release_C,
      CDecl ''ICoreWebView2FrameNameChangedEventHandler'' ''HRESULT'' ''Invoke'' [''ICoreWebView2Frame *sender'', ''IUnknown *args'']]"

definition ICoreWebView2FrameNavigationCompletedEventHandlerVtbl :: vtable where
  "ICoreWebView2FrameNavigationCompletedEventHandlerVtbl = Vtable ''ICoreWebView2FrameNavigationCompletedEventHandler''
     [IUnknown_QueryInterface_C,
      IUnknown_AddRef_C,
      IUnknown_Release_C,
      CDecl ''ICoreWebView2FrameNavigationCompletedEventHandler'' ''HRESULT'' ''Invoke'' [''ICoreWebView2Frame *sender'', ''ICoreWebView2NavigationCompletedEventArgs *args'']]"

definition ICoreWebView2FrameNavigationStartingEventHandlerVtbl :: vtable where
  "ICoreWebView2FrameNavigationStartingEventHandlerVtbl = Vtable ''ICoreWebView2FrameNavigationStartingEventHandler''
     [IUnknown_QueryInterface_C,
      IUnknown_AddRef_C,
      IUnknown_Release_C,
      CDecl ''ICoreWebView2FrameNavigationStartingEventHandler'' ''HRESULT'' ''Invoke'' [''ICoreWebView2Frame *sender'', ''ICoreWebView2NavigationStartingEventArgs *args'']]"

definition ICoreWebView2FramePermissionRequestedEventHandlerVtbl :: vtable where
  "ICoreWebView2FramePermissionRequestedEventHandlerVtbl = Vtable ''ICoreWebView2FramePermissionRequestedEventHandler''
     [IUnknown_QueryInterface_C,
      IUnknown_AddRef_C,
      IUnknown_Release_C,
      CDecl ''ICoreWebView2FramePermissionRequestedEventHandler'' ''HRESULT'' ''Invoke'' [''ICoreWebView2Frame *sender'', ''ICoreWebView2PermissionRequestedEventArgs2 *args'']]"

definition ICoreWebView2FrameWebMessageReceivedEventHandlerVtbl :: vtable where
  "ICoreWebView2FrameWebMessageReceivedEventHandlerVtbl = Vtable ''ICoreWebView2FrameWebMessageReceivedEventHandler''
     [IUnknown_QueryInterface_C,
      IUnknown_AddRef_C,
      IUnknown_Release_C,
      CDecl ''ICoreWebView2FrameWebMessageReceivedEventHandler'' ''HRESULT'' ''Invoke'' [''ICoreWebView2Frame *sender'', ''ICoreWebView2WebMessageReceivedEventArgs *args'']]"

definition ICoreWebView2FocusChangedEventHandlerVtbl :: vtable where
  "ICoreWebView2FocusChangedEventHandlerVtbl = Vtable ''ICoreWebView2FocusChangedEventHandler''
     [IUnknown_QueryInterface_C,
      IUnknown_AddRef_C,
      IUnknown_Release_C,
      CDecl ''ICoreWebView2FocusChangedEventHandler'' ''HRESULT'' ''Invoke'' [''ICoreWebView2Controller *sender'', ''IUnknown *args'']]"

definition ICoreWebView2GetCookiesCompletedHandlerVtbl :: vtable where
  "ICoreWebView2GetCookiesCompletedHandlerVtbl = Vtable ''ICoreWebView2GetCookiesCompletedHandler''
     [IUnknown_QueryInterface_C,
      IUnknown_AddRef_C,
      IUnknown_Release_C,
      CDecl ''ICoreWebView2GetCookiesCompletedHandler'' ''HRESULT'' ''Invoke'' [''HRESULT result'', ''ICoreWebView2CookieList *cookieList'']]"

definition ICoreWebView2GetNonDefaultPermissionSettingsCompletedHandlerVtbl :: vtable where
  "ICoreWebView2GetNonDefaultPermissionSettingsCompletedHandlerVtbl = Vtable ''ICoreWebView2GetNonDefaultPermissionSettingsCompletedHandler''
     [IUnknown_QueryInterface_C,
      IUnknown_AddRef_C,
      IUnknown_Release_C,
      CDecl ''ICoreWebView2GetNonDefaultPermissionSettingsCompletedHandler'' ''HRESULT'' ''Invoke'' [''HRESULT errorCode'', ''ICoreWebView2PermissionSettingCollectionView *collectionView'']]"

definition ICoreWebView2HistoryChangedEventHandlerVtbl :: vtable where
  "ICoreWebView2HistoryChangedEventHandlerVtbl = Vtable ''ICoreWebView2HistoryChangedEventHandler''
     [IUnknown_QueryInterface_C,
      IUnknown_AddRef_C,
      IUnknown_Release_C,
      CDecl ''ICoreWebView2HistoryChangedEventHandler'' ''HRESULT'' ''Invoke'' [''ICoreWebView2 *sender'', ''IUnknown *args'']]"

definition ICoreWebView2IsDefaultDownloadDialogOpenChangedEventHandlerVtbl :: vtable where
  "ICoreWebView2IsDefaultDownloadDialogOpenChangedEventHandlerVtbl = Vtable ''ICoreWebView2IsDefaultDownloadDialogOpenChangedEventHandler''
     [IUnknown_QueryInterface_C,
      IUnknown_AddRef_C,
      IUnknown_Release_C,
      CDecl ''ICoreWebView2IsDefaultDownloadDialogOpenChangedEventHandler'' ''HRESULT'' ''Invoke'' [''ICoreWebView2 *sender'', ''IUnknown *args'']]"

definition ICoreWebView2LaunchingExternalUriSchemeEventHandlerVtbl :: vtable where
  "ICoreWebView2LaunchingExternalUriSchemeEventHandlerVtbl = Vtable ''ICoreWebView2LaunchingExternalUriSchemeEventHandler''
     [IUnknown_QueryInterface_C,
      IUnknown_AddRef_C,
      IUnknown_Release_C,
      CDecl ''ICoreWebView2LaunchingExternalUriSchemeEventHandler'' ''HRESULT'' ''Invoke'' [''ICoreWebView2 *sender'', ''ICoreWebView2LaunchingExternalUriSchemeEventArgs *args'']]"

definition ICoreWebView2MoveFocusRequestedEventHandlerVtbl :: vtable where
  "ICoreWebView2MoveFocusRequestedEventHandlerVtbl = Vtable ''ICoreWebView2MoveFocusRequestedEventHandler''
     [IUnknown_QueryInterface_C,
      IUnknown_AddRef_C,
      IUnknown_Release_C,
      CDecl ''ICoreWebView2MoveFocusRequestedEventHandler'' ''HRESULT'' ''Invoke'' [''ICoreWebView2Controller *sender'', ''ICoreWebView2MoveFocusRequestedEventArgs *args'']]"

definition ICoreWebView2NavigationCompletedEventHandlerVtbl :: vtable where
  "ICoreWebView2NavigationCompletedEventHandlerVtbl = Vtable ''ICoreWebView2NavigationCompletedEventHandler''
     [IUnknown_QueryInterface_C,
      IUnknown_AddRef_C,
      IUnknown_Release_C,
      CDecl ''ICoreWebView2NavigationCompletedEventHandler'' ''HRESULT'' ''Invoke'' [''ICoreWebView2 *sender'', ''ICoreWebView2NavigationCompletedEventArgs *args'']]"

definition ICoreWebView2NavigationStartingEventHandlerVtbl :: vtable where
  "ICoreWebView2NavigationStartingEventHandlerVtbl = Vtable ''ICoreWebView2NavigationStartingEventHandler''
     [IUnknown_QueryInterface_C,
      IUnknown_AddRef_C,
      IUnknown_Release_C,
      CDecl ''ICoreWebView2NavigationStartingEventHandler'' ''HRESULT'' ''Invoke'' [''ICoreWebView2 *sender'', ''ICoreWebView2NavigationStartingEventArgs *args'']]"

definition ICoreWebView2NewBrowserVersionAvailableEventHandlerVtbl :: vtable where
  "ICoreWebView2NewBrowserVersionAvailableEventHandlerVtbl = Vtable ''ICoreWebView2NewBrowserVersionAvailableEventHandler''
     [IUnknown_QueryInterface_C,
      IUnknown_AddRef_C,
      IUnknown_Release_C,
      CDecl ''ICoreWebView2NewBrowserVersionAvailableEventHandler'' ''HRESULT'' ''Invoke'' [''ICoreWebView2Environment *sender'', ''IUnknown *args'']]"

definition ICoreWebView2NewWindowRequestedEventHandlerVtbl :: vtable where
  "ICoreWebView2NewWindowRequestedEventHandlerVtbl = Vtable ''ICoreWebView2NewWindowRequestedEventHandler''
     [IUnknown_QueryInterface_C,
      IUnknown_AddRef_C,
      IUnknown_Release_C,
      CDecl ''ICoreWebView2NewWindowRequestedEventHandler'' ''HRESULT'' ''Invoke'' [''ICoreWebView2 *sender'', ''ICoreWebView2NewWindowRequestedEventArgs *args'']]"

definition ICoreWebView2PermissionRequestedEventHandlerVtbl :: vtable where
  "ICoreWebView2PermissionRequestedEventHandlerVtbl = Vtable ''ICoreWebView2PermissionRequestedEventHandler''
     [IUnknown_QueryInterface_C,
      IUnknown_AddRef_C,
      IUnknown_Release_C,
      CDecl ''ICoreWebView2PermissionRequestedEventHandler'' ''HRESULT'' ''Invoke'' [''ICoreWebView2 *sender'', ''ICoreWebView2PermissionRequestedEventArgs *args'']]"

definition ICoreWebView2PrintToPdfCompletedHandlerVtbl :: vtable where
  "ICoreWebView2PrintToPdfCompletedHandlerVtbl = Vtable ''ICoreWebView2PrintToPdfCompletedHandler''
     [IUnknown_QueryInterface_C,
      IUnknown_AddRef_C,
      IUnknown_Release_C,
      CDecl ''ICoreWebView2PrintToPdfCompletedHandler'' ''HRESULT'' ''Invoke'' [''HRESULT errorCode'', ''BOOL isSuccessful'']]"

definition ICoreWebView2PrintCompletedHandlerVtbl :: vtable where
  "ICoreWebView2PrintCompletedHandlerVtbl = Vtable ''ICoreWebView2PrintCompletedHandler''
     [IUnknown_QueryInterface_C,
      IUnknown_AddRef_C,
      IUnknown_Release_C,
      CDecl ''ICoreWebView2PrintCompletedHandler'' ''HRESULT'' ''Invoke'' [''HRESULT errorCode'', ''COREWEBVIEW2_PRINT_STATUS printStatus'']]"

definition ICoreWebView2PrintToPdfStreamCompletedHandlerVtbl :: vtable where
  "ICoreWebView2PrintToPdfStreamCompletedHandlerVtbl = Vtable ''ICoreWebView2PrintToPdfStreamCompletedHandler''
     [IUnknown_QueryInterface_C,
      IUnknown_AddRef_C,
      IUnknown_Release_C,
      CDecl ''ICoreWebView2PrintToPdfStreamCompletedHandler'' ''HRESULT'' ''Invoke'' [''HRESULT errorCode'', ''IStream *pdfStream'']]"

definition ICoreWebView2ProcessFailedEventHandlerVtbl :: vtable where
  "ICoreWebView2ProcessFailedEventHandlerVtbl = Vtable ''ICoreWebView2ProcessFailedEventHandler''
     [IUnknown_QueryInterface_C,
      IUnknown_AddRef_C,
      IUnknown_Release_C,
      CDecl ''ICoreWebView2ProcessFailedEventHandler'' ''HRESULT'' ''Invoke'' [''ICoreWebView2 *sender'', ''ICoreWebView2ProcessFailedEventArgs *args'']]"

definition ICoreWebView2ProfileDeletedEventHandlerVtbl :: vtable where
  "ICoreWebView2ProfileDeletedEventHandlerVtbl = Vtable ''ICoreWebView2ProfileDeletedEventHandler''
     [IUnknown_QueryInterface_C,
      IUnknown_AddRef_C,
      IUnknown_Release_C,
      CDecl ''ICoreWebView2ProfileDeletedEventHandler'' ''HRESULT'' ''Invoke'' [''ICoreWebView2Profile *sender'', ''IUnknown *args'']]"

definition ICoreWebView2RasterizationScaleChangedEventHandlerVtbl :: vtable where
  "ICoreWebView2RasterizationScaleChangedEventHandlerVtbl = Vtable ''ICoreWebView2RasterizationScaleChangedEventHandler''
     [IUnknown_QueryInterface_C,
      IUnknown_AddRef_C,
      IUnknown_Release_C,
      CDecl ''ICoreWebView2RasterizationScaleChangedEventHandler'' ''HRESULT'' ''Invoke'' [''ICoreWebView2Controller *sender'', ''IUnknown *args'']]"

definition ICoreWebView2ServerCertificateErrorDetectedEventHandlerVtbl :: vtable where
  "ICoreWebView2ServerCertificateErrorDetectedEventHandlerVtbl = Vtable ''ICoreWebView2ServerCertificateErrorDetectedEventHandler''
     [IUnknown_QueryInterface_C,
      IUnknown_AddRef_C,
      IUnknown_Release_C,
      CDecl ''ICoreWebView2ServerCertificateErrorDetectedEventHandler'' ''HRESULT'' ''Invoke'' [''ICoreWebView2 *sender'', ''ICoreWebView2ServerCertificateErrorDetectedEventArgs *args'']]"

definition ICoreWebView2SetPermissionStateCompletedHandlerVtbl :: vtable where
  "ICoreWebView2SetPermissionStateCompletedHandlerVtbl = Vtable ''ICoreWebView2SetPermissionStateCompletedHandler''
     [IUnknown_QueryInterface_C,
      IUnknown_AddRef_C,
      IUnknown_Release_C,
      CDecl ''ICoreWebView2SetPermissionStateCompletedHandler'' ''HRESULT'' ''Invoke'' [''HRESULT errorCode'']]"

definition ICoreWebView2ScriptDialogOpeningEventHandlerVtbl :: vtable where
  "ICoreWebView2ScriptDialogOpeningEventHandlerVtbl = Vtable ''ICoreWebView2ScriptDialogOpeningEventHandler''
     [IUnknown_QueryInterface_C,
      IUnknown_AddRef_C,
      IUnknown_Release_C,
      CDecl ''ICoreWebView2ScriptDialogOpeningEventHandler'' ''HRESULT'' ''Invoke'' [''ICoreWebView2 *sender'', ''ICoreWebView2ScriptDialogOpeningEventArgs *args'']]"

definition ICoreWebView2SourceChangedEventHandlerVtbl :: vtable where
  "ICoreWebView2SourceChangedEventHandlerVtbl = Vtable ''ICoreWebView2SourceChangedEventHandler''
     [IUnknown_QueryInterface_C,
      IUnknown_AddRef_C,
      IUnknown_Release_C,
      CDecl ''ICoreWebView2SourceChangedEventHandler'' ''HRESULT'' ''Invoke'' [''ICoreWebView2 *sender'', ''ICoreWebView2SourceChangedEventArgs *args'']]"

definition ICoreWebView2StateChangedEventHandlerVtbl :: vtable where
  "ICoreWebView2StateChangedEventHandlerVtbl = Vtable ''ICoreWebView2StateChangedEventHandler''
     [IUnknown_QueryInterface_C,
      IUnknown_AddRef_C,
      IUnknown_Release_C,
      CDecl ''ICoreWebView2StateChangedEventHandler'' ''HRESULT'' ''Invoke'' [''ICoreWebView2DownloadOperation *sender'', ''IUnknown *args'']]"

definition ICoreWebView2StatusBarTextChangedEventHandlerVtbl :: vtable where
  "ICoreWebView2StatusBarTextChangedEventHandlerVtbl = Vtable ''ICoreWebView2StatusBarTextChangedEventHandler''
     [IUnknown_QueryInterface_C,
      IUnknown_AddRef_C,
      IUnknown_Release_C,
      CDecl ''ICoreWebView2StatusBarTextChangedEventHandler'' ''HRESULT'' ''Invoke'' [''ICoreWebView2 *sender'', ''IUnknown *args'']]"

definition ICoreWebView2TrySuspendCompletedHandlerVtbl :: vtable where
  "ICoreWebView2TrySuspendCompletedHandlerVtbl = Vtable ''ICoreWebView2TrySuspendCompletedHandler''
     [IUnknown_QueryInterface_C,
      IUnknown_AddRef_C,
      IUnknown_Release_C,
      CDecl ''ICoreWebView2TrySuspendCompletedHandler'' ''HRESULT'' ''Invoke'' [''HRESULT errorCode'', ''BOOL isSuccessful'']]"

definition ICoreWebView2WebMessageReceivedEventHandlerVtbl :: vtable where
  "ICoreWebView2WebMessageReceivedEventHandlerVtbl = Vtable ''ICoreWebView2WebMessageReceivedEventHandler''
     [IUnknown_QueryInterface_C,
      IUnknown_AddRef_C,
      IUnknown_Release_C,
      CDecl ''ICoreWebView2WebMessageReceivedEventHandler'' ''HRESULT'' ''Invoke'' [''ICoreWebView2 *sender'', ''ICoreWebView2WebMessageReceivedEventArgs *args'']]"

definition ICoreWebView2WebResourceRequestedEventHandlerVtbl :: vtable where
  "ICoreWebView2WebResourceRequestedEventHandlerVtbl = Vtable ''ICoreWebView2WebResourceRequestedEventHandler''
     [IUnknown_QueryInterface_C,
      IUnknown_AddRef_C,
      IUnknown_Release_C,
      CDecl ''ICoreWebView2WebResourceRequestedEventHandler'' ''HRESULT'' ''Invoke'' [''ICoreWebView2 *sender'', ''ICoreWebView2WebResourceRequestedEventArgs *args'']]"

definition ICoreWebView2WebResourceResponseReceivedEventHandlerVtbl :: vtable where
  "ICoreWebView2WebResourceResponseReceivedEventHandlerVtbl = Vtable ''ICoreWebView2WebResourceResponseReceivedEventHandler''
     [IUnknown_QueryInterface_C,
      IUnknown_AddRef_C,
      IUnknown_Release_C,
      CDecl ''ICoreWebView2WebResourceResponseReceivedEventHandler'' ''HRESULT'' ''Invoke'' [''ICoreWebView2 *sender'', ''ICoreWebView2WebResourceResponseReceivedEventArgs *args'']]"

definition ICoreWebView2WebResourceResponseViewGetContentCompletedHandlerVtbl :: vtable where
  "ICoreWebView2WebResourceResponseViewGetContentCompletedHandlerVtbl = Vtable ''ICoreWebView2WebResourceResponseViewGetContentCompletedHandler''
     [IUnknown_QueryInterface_C,
      IUnknown_AddRef_C,
      IUnknown_Release_C,
      CDecl ''ICoreWebView2WebResourceResponseViewGetContentCompletedHandler'' ''HRESULT'' ''Invoke'' [''HRESULT errorCode'', ''IStream *content'']]"

definition ICoreWebView2WindowCloseRequestedEventHandlerVtbl :: vtable where
  "ICoreWebView2WindowCloseRequestedEventHandlerVtbl = Vtable ''ICoreWebView2WindowCloseRequestedEventHandler''
     [IUnknown_QueryInterface_C,
      IUnknown_AddRef_C,
      IUnknown_Release_C,
      CDecl ''ICoreWebView2WindowCloseRequestedEventHandler'' ''HRESULT'' ''Invoke'' [''ICoreWebView2 *sender'', ''IUnknown *args'']]"

definition ICoreWebView2ZoomFactorChangedEventHandlerVtbl :: vtable where
  "ICoreWebView2ZoomFactorChangedEventHandlerVtbl = Vtable ''ICoreWebView2ZoomFactorChangedEventHandler''
     [IUnknown_QueryInterface_C,
      IUnknown_AddRef_C,
      IUnknown_Release_C,
      CDecl ''ICoreWebView2ZoomFactorChangedEventHandler'' ''HRESULT'' ''Invoke'' [''ICoreWebView2Controller *sender'', ''IUnknown *args'']]"

definition ICoreWebView2IsMutedChangedEventHandlerVtbl :: vtable where
  "ICoreWebView2IsMutedChangedEventHandlerVtbl = Vtable ''ICoreWebView2IsMutedChangedEventHandler''
     [IUnknown_QueryInterface_C,
      IUnknown_AddRef_C,
      IUnknown_Release_C,
      CDecl ''ICoreWebView2IsMutedChangedEventHandler'' ''HRESULT'' ''Invoke'' [''ICoreWebView2 *sender'', ''IUnknown *args'']]"

definition ICoreWebView2IsDocumentPlayingAudioChangedEventHandlerVtbl :: vtable where
  "ICoreWebView2IsDocumentPlayingAudioChangedEventHandlerVtbl = Vtable ''ICoreWebView2IsDocumentPlayingAudioChangedEventHandler''
     [IUnknown_QueryInterface_C,
      IUnknown_AddRef_C,
      IUnknown_Release_C,
      CDecl ''ICoreWebView2IsDocumentPlayingAudioChangedEventHandler'' ''HRESULT'' ''Invoke'' [''ICoreWebView2 *sender'', ''IUnknown *args'']]"

definition ICoreWebView2ProcessInfosChangedEventHandlerVtbl :: vtable where
  "ICoreWebView2ProcessInfosChangedEventHandlerVtbl = Vtable ''ICoreWebView2ProcessInfosChangedEventHandler''
     [IUnknown_QueryInterface_C,
      IUnknown_AddRef_C,
      IUnknown_Release_C,
      CDecl ''ICoreWebView2ProcessInfosChangedEventHandler'' ''HRESULT'' ''Invoke'' [''ICoreWebView2Environment *sender'', ''IUnknown *args'']]"

definition ICoreWebView2FaviconChangedEventHandlerVtbl :: vtable where
  "ICoreWebView2FaviconChangedEventHandlerVtbl = Vtable ''ICoreWebView2FaviconChangedEventHandler''
     [IUnknown_QueryInterface_C,
      IUnknown_AddRef_C,
      IUnknown_Release_C,
      CDecl ''ICoreWebView2FaviconChangedEventHandler'' ''HRESULT'' ''Invoke'' [''ICoreWebView2 *sender'', ''IUnknown *args'']]"

definition ICoreWebView2GetFaviconCompletedHandlerVtbl :: vtable where
  "ICoreWebView2GetFaviconCompletedHandlerVtbl = Vtable ''ICoreWebView2GetFaviconCompletedHandler''
     [IUnknown_QueryInterface_C,
      IUnknown_AddRef_C,
      IUnknown_Release_C,
      CDecl ''ICoreWebView2GetFaviconCompletedHandler'' ''HRESULT'' ''Invoke'' [''HRESULT errorCode'', ''IStream *faviconStream'']]"

definition ICoreWebView2ProfileAddBrowserExtensionCompletedHandlerVtbl :: vtable where
  "ICoreWebView2ProfileAddBrowserExtensionCompletedHandlerVtbl = Vtable ''ICoreWebView2ProfileAddBrowserExtensionCompletedHandler''
     [IUnknown_QueryInterface_C,
      IUnknown_AddRef_C,
      IUnknown_Release_C,
      CDecl ''ICoreWebView2ProfileAddBrowserExtensionCompletedHandler'' ''HRESULT'' ''Invoke'' [''HRESULT errorCode'', ''ICoreWebView2BrowserExtension *extension'']]"

definition ICoreWebView2ProfileGetBrowserExtensionsCompletedHandlerVtbl :: vtable where
  "ICoreWebView2ProfileGetBrowserExtensionsCompletedHandlerVtbl = Vtable ''ICoreWebView2ProfileGetBrowserExtensionsCompletedHandler''
     [IUnknown_QueryInterface_C,
      IUnknown_AddRef_C,
      IUnknown_Release_C,
      CDecl ''ICoreWebView2ProfileGetBrowserExtensionsCompletedHandler'' ''HRESULT'' ''Invoke'' [''HRESULT errorCode'', ''ICoreWebView2BrowserExtensionList *extensionList'']]"

definition ICoreWebView2BrowserExtensionEnableCompletedHandlerVtbl :: vtable where
  "ICoreWebView2BrowserExtensionEnableCompletedHandlerVtbl = Vtable ''ICoreWebView2BrowserExtensionEnableCompletedHandler''
     [IUnknown_QueryInterface_C,
      IUnknown_AddRef_C,
      IUnknown_Release_C,
      CDecl ''ICoreWebView2BrowserExtensionEnableCompletedHandler'' ''HRESULT'' ''Invoke'' [''HRESULT errorCode'']]"

definition ICoreWebView2BrowserExtensionRemoveCompletedHandlerVtbl :: vtable where
  "ICoreWebView2BrowserExtensionRemoveCompletedHandlerVtbl = Vtable ''ICoreWebView2BrowserExtensionRemoveCompletedHandler''
     [IUnknown_QueryInterface_C,
      IUnknown_AddRef_C,
      IUnknown_Release_C,
      CDecl ''ICoreWebView2BrowserExtensionRemoveCompletedHandler'' ''HRESULT'' ''Invoke'' [''HRESULT errorCode'']]"

definition ICoreWebView2ExecuteScriptWithResultCompletedHandlerVtbl :: vtable where
  "ICoreWebView2ExecuteScriptWithResultCompletedHandlerVtbl = Vtable ''ICoreWebView2ExecuteScriptWithResultCompletedHandler''
     [IUnknown_QueryInterface_C,
      IUnknown_AddRef_C,
      IUnknown_Release_C,
      CDecl ''ICoreWebView2ExecuteScriptWithResultCompletedHandler'' ''HRESULT'' ''Invoke'' [''HRESULT errorCode'', ''ICoreWebView2ExecuteScriptResult *result'']]"

section \<open>The tables are the layouts\<close>

lemmas layouts =
  layout_Derived [OF ICoreWebView2AcceleratorKeyPressedEventHandler_def]
  layout_Derived [OF ICoreWebView2AddScriptToExecuteOnDocumentCreatedCompletedHandler_def]
  layout_Derived [OF ICoreWebView2CallDevToolsProtocolMethodCompletedHandler_def]
  layout_Derived [OF ICoreWebView2CapturePreviewCompletedHandler_def]
  layout_Derived [OF ICoreWebView2BasicAuthenticationRequestedEventHandler_def]
  layout_Derived [OF ICoreWebView2BrowserProcessExitedEventHandler_def]
  layout_Derived [OF ICoreWebView2BytesReceivedChangedEventHandler_def]
  layout_Derived [OF ICoreWebView2ContentLoadingEventHandler_def]
  layout_Derived [OF ICoreWebView2ContextMenuRequestedEventHandler_def]
  layout_Derived [OF ICoreWebView2ClearBrowsingDataCompletedHandler_def]
  layout_Derived [OF ICoreWebView2ClientCertificateRequestedEventHandler_def]
  layout_Derived [OF ICoreWebView2ClearServerCertificateErrorActionsCompletedHandler_def]
  layout_Derived [OF ICoreWebView2CreateCoreWebView2CompositionControllerCompletedHandler_def]
  layout_Derived [OF ICoreWebView2CreateCoreWebView2ControllerCompletedHandler_def]
  layout_Derived [OF ICoreWebView2CreateCoreWebView2EnvironmentCompletedHandler_def]
  layout_Derived [OF ICoreWebView2ContainsFullScreenElementChangedEventHandler_def]
  layout_Derived [OF ICoreWebView2CursorChangedEventHandler_def]
  layout_Derived [OF ICoreWebView2CustomItemSelectedEventHandler_def]
  layout_Derived [OF ICoreWebView2DocumentTitleChangedEventHandler_def]
  layout_Derived [OF ICoreWebView2DOMContentLoadedEventHandler_def]
  layout_Derived [OF ICoreWebView2DevToolsProtocolEventReceivedEventHandler_def]
  layout_Derived [OF ICoreWebView2DownloadStartingEventHandler_def]
  layout_Derived [OF ICoreWebView2EstimatedEndTimeChangedEventHandler_def]
  layout_Derived [OF ICoreWebView2ExecuteScriptCompletedHandler_def]
  layout_Derived [OF ICoreWebView2GetProcessExtendedInfosCompletedHandler_def]
  layout_Derived [OF ICoreWebView2FrameContentLoadingEventHandler_def]
  layout_Derived [OF ICoreWebView2FrameCreatedEventHandler_def]
  layout_Derived [OF ICoreWebView2FrameDestroyedEventHandler_def]
  layout_Derived [OF ICoreWebView2FrameDOMContentLoadedEventHandler_def]
  layout_Derived [OF ICoreWebView2FrameNameChangedEventHandler_def]
  layout_Derived [OF ICoreWebView2FrameNavigationCompletedEventHandler_def]
  layout_Derived [OF ICoreWebView2FrameNavigationStartingEventHandler_def]
  layout_Derived [OF ICoreWebView2FramePermissionRequestedEventHandler_def]
  layout_Derived [OF ICoreWebView2FrameWebMessageReceivedEventHandler_def]
  layout_Derived [OF ICoreWebView2FocusChangedEventHandler_def]
  layout_Derived [OF ICoreWebView2GetCookiesCompletedHandler_def]
  layout_Derived [OF ICoreWebView2GetNonDefaultPermissionSettingsCompletedHandler_def]
  layout_Derived [OF ICoreWebView2HistoryChangedEventHandler_def]
  layout_Derived [OF ICoreWebView2IsDefaultDownloadDialogOpenChangedEventHandler_def]
  layout_Derived [OF ICoreWebView2LaunchingExternalUriSchemeEventHandler_def]
  layout_Derived [OF ICoreWebView2MoveFocusRequestedEventHandler_def]
  layout_Derived [OF ICoreWebView2NavigationCompletedEventHandler_def]
  layout_Derived [OF ICoreWebView2NavigationStartingEventHandler_def]
  layout_Derived [OF ICoreWebView2NewBrowserVersionAvailableEventHandler_def]
  layout_Derived [OF ICoreWebView2NewWindowRequestedEventHandler_def]
  layout_Derived [OF ICoreWebView2PermissionRequestedEventHandler_def]
  layout_Derived [OF ICoreWebView2PrintToPdfCompletedHandler_def]
  layout_Derived [OF ICoreWebView2PrintCompletedHandler_def]
  layout_Derived [OF ICoreWebView2PrintToPdfStreamCompletedHandler_def]
  layout_Derived [OF ICoreWebView2ProcessFailedEventHandler_def]
  layout_Derived [OF ICoreWebView2ProfileDeletedEventHandler_def]
  layout_Derived [OF ICoreWebView2RasterizationScaleChangedEventHandler_def]
  layout_Derived [OF ICoreWebView2ServerCertificateErrorDetectedEventHandler_def]
  layout_Derived [OF ICoreWebView2SetPermissionStateCompletedHandler_def]
  layout_Derived [OF ICoreWebView2ScriptDialogOpeningEventHandler_def]
  layout_Derived [OF ICoreWebView2SourceChangedEventHandler_def]
  layout_Derived [OF ICoreWebView2StateChangedEventHandler_def]
  layout_Derived [OF ICoreWebView2StatusBarTextChangedEventHandler_def]
  layout_Derived [OF ICoreWebView2TrySuspendCompletedHandler_def]
  layout_Derived [OF ICoreWebView2WebMessageReceivedEventHandler_def]
  layout_Derived [OF ICoreWebView2WebResourceRequestedEventHandler_def]
  layout_Derived [OF ICoreWebView2WebResourceResponseReceivedEventHandler_def]
  layout_Derived [OF ICoreWebView2WebResourceResponseViewGetContentCompletedHandler_def]
  layout_Derived [OF ICoreWebView2WindowCloseRequestedEventHandler_def]
  layout_Derived [OF ICoreWebView2ZoomFactorChangedEventHandler_def]
  layout_Derived [OF ICoreWebView2IsMutedChangedEventHandler_def]
  layout_Derived [OF ICoreWebView2IsDocumentPlayingAudioChangedEventHandler_def]
  layout_Derived [OF ICoreWebView2ProcessInfosChangedEventHandler_def]
  layout_Derived [OF ICoreWebView2FaviconChangedEventHandler_def]
  layout_Derived [OF ICoreWebView2GetFaviconCompletedHandler_def]
  layout_Derived [OF ICoreWebView2ProfileAddBrowserExtensionCompletedHandler_def]
  layout_Derived [OF ICoreWebView2ProfileGetBrowserExtensionsCompletedHandler_def]
  layout_Derived [OF ICoreWebView2BrowserExtensionEnableCompletedHandler_def]
  layout_Derived [OF ICoreWebView2BrowserExtensionRemoveCompletedHandler_def]
  layout_Derived [OF ICoreWebView2ExecuteScriptWithResultCompletedHandler_def]

lemma ICoreWebView2AcceleratorKeyPressedEventHandler_decls:
  "map (c_method ''ICoreWebView2AcceleratorKeyPressedEventHandler'')
     [Method ''HRESULT'' ''Invoke'' [''ICoreWebView2Controller *sender'', ''ICoreWebView2AcceleratorKeyPressedEventArgs *args'']]
   =
     [CDecl ''ICoreWebView2AcceleratorKeyPressedEventHandler'' ''HRESULT'' ''Invoke'' [''ICoreWebView2Controller *sender'', ''ICoreWebView2AcceleratorKeyPressedEventArgs *args'']]"
  by (simp only: list.map c_method.simps)

lemma ICoreWebView2AcceleratorKeyPressedEventHandler_views: "ICoreWebView2AcceleratorKeyPressedEventHandlerVtbl = c_view ICoreWebView2AcceleratorKeyPressedEventHandler"
  by (rule views_IUnknown [OF ICoreWebView2AcceleratorKeyPressedEventHandler_def ICoreWebView2AcceleratorKeyPressedEventHandler_decls])
    (simp only: table_simps ICoreWebView2AcceleratorKeyPressedEventHandlerVtbl_def)

lemma ICoreWebView2AddScriptToExecuteOnDocumentCreatedCompletedHandler_decls:
  "map (c_method ''ICoreWebView2AddScriptToExecuteOnDocumentCreatedCompletedHandler'')
     [Method ''HRESULT'' ''Invoke'' [''HRESULT errorCode'', ''LPCWSTR id'']]
   =
     [CDecl ''ICoreWebView2AddScriptToExecuteOnDocumentCreatedCompletedHandler'' ''HRESULT'' ''Invoke'' [''HRESULT errorCode'', ''LPCWSTR id'']]"
  by (simp only: list.map c_method.simps)

lemma ICoreWebView2AddScriptToExecuteOnDocumentCreatedCompletedHandler_views: "ICoreWebView2AddScriptToExecuteOnDocumentCreatedCompletedHandlerVtbl = c_view ICoreWebView2AddScriptToExecuteOnDocumentCreatedCompletedHandler"
  by (rule views_IUnknown [OF ICoreWebView2AddScriptToExecuteOnDocumentCreatedCompletedHandler_def ICoreWebView2AddScriptToExecuteOnDocumentCreatedCompletedHandler_decls])
    (simp only: table_simps ICoreWebView2AddScriptToExecuteOnDocumentCreatedCompletedHandlerVtbl_def)

lemma ICoreWebView2CallDevToolsProtocolMethodCompletedHandler_decls:
  "map (c_method ''ICoreWebView2CallDevToolsProtocolMethodCompletedHandler'')
     [Method ''HRESULT'' ''Invoke'' [''HRESULT errorCode'', ''LPCWSTR returnObjectAsJson'']]
   =
     [CDecl ''ICoreWebView2CallDevToolsProtocolMethodCompletedHandler'' ''HRESULT'' ''Invoke'' [''HRESULT errorCode'', ''LPCWSTR returnObjectAsJson'']]"
  by (simp only: list.map c_method.simps)

lemma ICoreWebView2CallDevToolsProtocolMethodCompletedHandler_views: "ICoreWebView2CallDevToolsProtocolMethodCompletedHandlerVtbl = c_view ICoreWebView2CallDevToolsProtocolMethodCompletedHandler"
  by (rule views_IUnknown [OF ICoreWebView2CallDevToolsProtocolMethodCompletedHandler_def ICoreWebView2CallDevToolsProtocolMethodCompletedHandler_decls])
    (simp only: table_simps ICoreWebView2CallDevToolsProtocolMethodCompletedHandlerVtbl_def)

lemma ICoreWebView2CapturePreviewCompletedHandler_decls:
  "map (c_method ''ICoreWebView2CapturePreviewCompletedHandler'')
     [Method ''HRESULT'' ''Invoke'' [''HRESULT errorCode'']]
   =
     [CDecl ''ICoreWebView2CapturePreviewCompletedHandler'' ''HRESULT'' ''Invoke'' [''HRESULT errorCode'']]"
  by (simp only: list.map c_method.simps)

lemma ICoreWebView2CapturePreviewCompletedHandler_views: "ICoreWebView2CapturePreviewCompletedHandlerVtbl = c_view ICoreWebView2CapturePreviewCompletedHandler"
  by (rule views_IUnknown [OF ICoreWebView2CapturePreviewCompletedHandler_def ICoreWebView2CapturePreviewCompletedHandler_decls])
    (simp only: table_simps ICoreWebView2CapturePreviewCompletedHandlerVtbl_def)

lemma ICoreWebView2BasicAuthenticationRequestedEventHandler_decls:
  "map (c_method ''ICoreWebView2BasicAuthenticationRequestedEventHandler'')
     [Method ''HRESULT'' ''Invoke'' [''ICoreWebView2 *sender'', ''ICoreWebView2BasicAuthenticationRequestedEventArgs *args'']]
   =
     [CDecl ''ICoreWebView2BasicAuthenticationRequestedEventHandler'' ''HRESULT'' ''Invoke'' [''ICoreWebView2 *sender'', ''ICoreWebView2BasicAuthenticationRequestedEventArgs *args'']]"
  by (simp only: list.map c_method.simps)

lemma ICoreWebView2BasicAuthenticationRequestedEventHandler_views: "ICoreWebView2BasicAuthenticationRequestedEventHandlerVtbl = c_view ICoreWebView2BasicAuthenticationRequestedEventHandler"
  by (rule views_IUnknown [OF ICoreWebView2BasicAuthenticationRequestedEventHandler_def ICoreWebView2BasicAuthenticationRequestedEventHandler_decls])
    (simp only: table_simps ICoreWebView2BasicAuthenticationRequestedEventHandlerVtbl_def)

lemma ICoreWebView2BrowserProcessExitedEventHandler_decls:
  "map (c_method ''ICoreWebView2BrowserProcessExitedEventHandler'')
     [Method ''HRESULT'' ''Invoke'' [''ICoreWebView2Environment *sender'', ''ICoreWebView2BrowserProcessExitedEventArgs *args'']]
   =
     [CDecl ''ICoreWebView2BrowserProcessExitedEventHandler'' ''HRESULT'' ''Invoke'' [''ICoreWebView2Environment *sender'', ''ICoreWebView2BrowserProcessExitedEventArgs *args'']]"
  by (simp only: list.map c_method.simps)

lemma ICoreWebView2BrowserProcessExitedEventHandler_views: "ICoreWebView2BrowserProcessExitedEventHandlerVtbl = c_view ICoreWebView2BrowserProcessExitedEventHandler"
  by (rule views_IUnknown [OF ICoreWebView2BrowserProcessExitedEventHandler_def ICoreWebView2BrowserProcessExitedEventHandler_decls])
    (simp only: table_simps ICoreWebView2BrowserProcessExitedEventHandlerVtbl_def)

lemma ICoreWebView2BytesReceivedChangedEventHandler_decls:
  "map (c_method ''ICoreWebView2BytesReceivedChangedEventHandler'')
     [Method ''HRESULT'' ''Invoke'' [''ICoreWebView2DownloadOperation *sender'', ''IUnknown *args'']]
   =
     [CDecl ''ICoreWebView2BytesReceivedChangedEventHandler'' ''HRESULT'' ''Invoke'' [''ICoreWebView2DownloadOperation *sender'', ''IUnknown *args'']]"
  by (simp only: list.map c_method.simps)

lemma ICoreWebView2BytesReceivedChangedEventHandler_views: "ICoreWebView2BytesReceivedChangedEventHandlerVtbl = c_view ICoreWebView2BytesReceivedChangedEventHandler"
  by (rule views_IUnknown [OF ICoreWebView2BytesReceivedChangedEventHandler_def ICoreWebView2BytesReceivedChangedEventHandler_decls])
    (simp only: table_simps ICoreWebView2BytesReceivedChangedEventHandlerVtbl_def)

lemma ICoreWebView2ContentLoadingEventHandler_decls:
  "map (c_method ''ICoreWebView2ContentLoadingEventHandler'')
     [Method ''HRESULT'' ''Invoke'' [''ICoreWebView2 *sender'', ''ICoreWebView2ContentLoadingEventArgs *args'']]
   =
     [CDecl ''ICoreWebView2ContentLoadingEventHandler'' ''HRESULT'' ''Invoke'' [''ICoreWebView2 *sender'', ''ICoreWebView2ContentLoadingEventArgs *args'']]"
  by (simp only: list.map c_method.simps)

lemma ICoreWebView2ContentLoadingEventHandler_views: "ICoreWebView2ContentLoadingEventHandlerVtbl = c_view ICoreWebView2ContentLoadingEventHandler"
  by (rule views_IUnknown [OF ICoreWebView2ContentLoadingEventHandler_def ICoreWebView2ContentLoadingEventHandler_decls])
    (simp only: table_simps ICoreWebView2ContentLoadingEventHandlerVtbl_def)

lemma ICoreWebView2ContextMenuRequestedEventHandler_decls:
  "map (c_method ''ICoreWebView2ContextMenuRequestedEventHandler'')
     [Method ''HRESULT'' ''Invoke'' [''ICoreWebView2 *sender'', ''ICoreWebView2ContextMenuRequestedEventArgs *args'']]
   =
     [CDecl ''ICoreWebView2ContextMenuRequestedEventHandler'' ''HRESULT'' ''Invoke'' [''ICoreWebView2 *sender'', ''ICoreWebView2ContextMenuRequestedEventArgs *args'']]"
  by (simp only: list.map c_method.simps)

lemma ICoreWebView2ContextMenuRequestedEventHandler_views: "ICoreWebView2ContextMenuRequestedEventHandlerVtbl = c_view ICoreWebView2ContextMenuRequestedEventHandler"
  by (rule views_IUnknown [OF ICoreWebView2ContextMenuRequestedEventHandler_def ICoreWebView2ContextMenuRequestedEventHandler_decls])
    (simp only: table_simps ICoreWebView2ContextMenuRequestedEventHandlerVtbl_def)

lemma ICoreWebView2ClearBrowsingDataCompletedHandler_decls:
  "map (c_method ''ICoreWebView2ClearBrowsingDataCompletedHandler'')
     [Method ''HRESULT'' ''Invoke'' [''HRESULT errorCode'']]
   =
     [CDecl ''ICoreWebView2ClearBrowsingDataCompletedHandler'' ''HRESULT'' ''Invoke'' [''HRESULT errorCode'']]"
  by (simp only: list.map c_method.simps)

lemma ICoreWebView2ClearBrowsingDataCompletedHandler_views: "ICoreWebView2ClearBrowsingDataCompletedHandlerVtbl = c_view ICoreWebView2ClearBrowsingDataCompletedHandler"
  by (rule views_IUnknown [OF ICoreWebView2ClearBrowsingDataCompletedHandler_def ICoreWebView2ClearBrowsingDataCompletedHandler_decls])
    (simp only: table_simps ICoreWebView2ClearBrowsingDataCompletedHandlerVtbl_def)

lemma ICoreWebView2ClientCertificateRequestedEventHandler_decls:
  "map (c_method ''ICoreWebView2ClientCertificateRequestedEventHandler'')
     [Method ''HRESULT'' ''Invoke'' [''ICoreWebView2 *sender'', ''ICoreWebView2ClientCertificateRequestedEventArgs *args'']]
   =
     [CDecl ''ICoreWebView2ClientCertificateRequestedEventHandler'' ''HRESULT'' ''Invoke'' [''ICoreWebView2 *sender'', ''ICoreWebView2ClientCertificateRequestedEventArgs *args'']]"
  by (simp only: list.map c_method.simps)

lemma ICoreWebView2ClientCertificateRequestedEventHandler_views: "ICoreWebView2ClientCertificateRequestedEventHandlerVtbl = c_view ICoreWebView2ClientCertificateRequestedEventHandler"
  by (rule views_IUnknown [OF ICoreWebView2ClientCertificateRequestedEventHandler_def ICoreWebView2ClientCertificateRequestedEventHandler_decls])
    (simp only: table_simps ICoreWebView2ClientCertificateRequestedEventHandlerVtbl_def)

lemma ICoreWebView2ClearServerCertificateErrorActionsCompletedHandler_decls:
  "map (c_method ''ICoreWebView2ClearServerCertificateErrorActionsCompletedHandler'')
     [Method ''HRESULT'' ''Invoke'' [''HRESULT errorCode'']]
   =
     [CDecl ''ICoreWebView2ClearServerCertificateErrorActionsCompletedHandler'' ''HRESULT'' ''Invoke'' [''HRESULT errorCode'']]"
  by (simp only: list.map c_method.simps)

lemma ICoreWebView2ClearServerCertificateErrorActionsCompletedHandler_views: "ICoreWebView2ClearServerCertificateErrorActionsCompletedHandlerVtbl = c_view ICoreWebView2ClearServerCertificateErrorActionsCompletedHandler"
  by (rule views_IUnknown [OF ICoreWebView2ClearServerCertificateErrorActionsCompletedHandler_def ICoreWebView2ClearServerCertificateErrorActionsCompletedHandler_decls])
    (simp only: table_simps ICoreWebView2ClearServerCertificateErrorActionsCompletedHandlerVtbl_def)

lemma ICoreWebView2CreateCoreWebView2CompositionControllerCompletedHandler_decls:
  "map (c_method ''ICoreWebView2CreateCoreWebView2CompositionControllerCompletedHandler'')
     [Method ''HRESULT'' ''Invoke'' [''HRESULT errorCode'', ''ICoreWebView2CompositionController *webView'']]
   =
     [CDecl ''ICoreWebView2CreateCoreWebView2CompositionControllerCompletedHandler'' ''HRESULT'' ''Invoke'' [''HRESULT errorCode'', ''ICoreWebView2CompositionController *webView'']]"
  by (simp only: list.map c_method.simps)

lemma ICoreWebView2CreateCoreWebView2CompositionControllerCompletedHandler_views: "ICoreWebView2CreateCoreWebView2CompositionControllerCompletedHandlerVtbl = c_view ICoreWebView2CreateCoreWebView2CompositionControllerCompletedHandler"
  by (rule views_IUnknown [OF ICoreWebView2CreateCoreWebView2CompositionControllerCompletedHandler_def ICoreWebView2CreateCoreWebView2CompositionControllerCompletedHandler_decls])
    (simp only: table_simps ICoreWebView2CreateCoreWebView2CompositionControllerCompletedHandlerVtbl_def)

lemma ICoreWebView2CreateCoreWebView2ControllerCompletedHandler_decls:
  "map (c_method ''ICoreWebView2CreateCoreWebView2ControllerCompletedHandler'')
     [Method ''HRESULT'' ''Invoke'' [''HRESULT errorCode'', ''ICoreWebView2Controller *createdController'']]
   =
     [CDecl ''ICoreWebView2CreateCoreWebView2ControllerCompletedHandler'' ''HRESULT'' ''Invoke'' [''HRESULT errorCode'', ''ICoreWebView2Controller *createdController'']]"
  by (simp only: list.map c_method.simps)

lemma ICoreWebView2CreateCoreWebView2ControllerCompletedHandler_views: "ICoreWebView2CreateCoreWebView2ControllerCompletedHandlerVtbl = c_view ICoreWebView2CreateCoreWebView2ControllerCompletedHandler"
  by (rule views_IUnknown [OF ICoreWebView2CreateCoreWebView2ControllerCompletedHandler_def ICoreWebView2CreateCoreWebView2ControllerCompletedHandler_decls])
    (simp only: table_simps ICoreWebView2CreateCoreWebView2ControllerCompletedHandlerVtbl_def)

lemma ICoreWebView2CreateCoreWebView2EnvironmentCompletedHandler_decls:
  "map (c_method ''ICoreWebView2CreateCoreWebView2EnvironmentCompletedHandler'')
     [Method ''HRESULT'' ''Invoke'' [''HRESULT errorCode'', ''ICoreWebView2Environment *createdEnvironment'']]
   =
     [CDecl ''ICoreWebView2CreateCoreWebView2EnvironmentCompletedHandler'' ''HRESULT'' ''Invoke'' [''HRESULT errorCode'', ''ICoreWebView2Environment *createdEnvironment'']]"
  by (simp only: list.map c_method.simps)

lemma ICoreWebView2CreateCoreWebView2EnvironmentCompletedHandler_views: "ICoreWebView2CreateCoreWebView2EnvironmentCompletedHandlerVtbl = c_view ICoreWebView2CreateCoreWebView2EnvironmentCompletedHandler"
  by (rule views_IUnknown [OF ICoreWebView2CreateCoreWebView2EnvironmentCompletedHandler_def ICoreWebView2CreateCoreWebView2EnvironmentCompletedHandler_decls])
    (simp only: table_simps ICoreWebView2CreateCoreWebView2EnvironmentCompletedHandlerVtbl_def)

lemma ICoreWebView2ContainsFullScreenElementChangedEventHandler_decls:
  "map (c_method ''ICoreWebView2ContainsFullScreenElementChangedEventHandler'')
     [Method ''HRESULT'' ''Invoke'' [''ICoreWebView2 *sender'', ''IUnknown *args'']]
   =
     [CDecl ''ICoreWebView2ContainsFullScreenElementChangedEventHandler'' ''HRESULT'' ''Invoke'' [''ICoreWebView2 *sender'', ''IUnknown *args'']]"
  by (simp only: list.map c_method.simps)

lemma ICoreWebView2ContainsFullScreenElementChangedEventHandler_views: "ICoreWebView2ContainsFullScreenElementChangedEventHandlerVtbl = c_view ICoreWebView2ContainsFullScreenElementChangedEventHandler"
  by (rule views_IUnknown [OF ICoreWebView2ContainsFullScreenElementChangedEventHandler_def ICoreWebView2ContainsFullScreenElementChangedEventHandler_decls])
    (simp only: table_simps ICoreWebView2ContainsFullScreenElementChangedEventHandlerVtbl_def)

lemma ICoreWebView2CursorChangedEventHandler_decls:
  "map (c_method ''ICoreWebView2CursorChangedEventHandler'')
     [Method ''HRESULT'' ''Invoke'' [''ICoreWebView2CompositionController *sender'', ''IUnknown *args'']]
   =
     [CDecl ''ICoreWebView2CursorChangedEventHandler'' ''HRESULT'' ''Invoke'' [''ICoreWebView2CompositionController *sender'', ''IUnknown *args'']]"
  by (simp only: list.map c_method.simps)

lemma ICoreWebView2CursorChangedEventHandler_views: "ICoreWebView2CursorChangedEventHandlerVtbl = c_view ICoreWebView2CursorChangedEventHandler"
  by (rule views_IUnknown [OF ICoreWebView2CursorChangedEventHandler_def ICoreWebView2CursorChangedEventHandler_decls])
    (simp only: table_simps ICoreWebView2CursorChangedEventHandlerVtbl_def)

lemma ICoreWebView2CustomItemSelectedEventHandler_decls:
  "map (c_method ''ICoreWebView2CustomItemSelectedEventHandler'')
     [Method ''HRESULT'' ''Invoke'' [''ICoreWebView2ContextMenuItem *sender'', ''IUnknown *args'']]
   =
     [CDecl ''ICoreWebView2CustomItemSelectedEventHandler'' ''HRESULT'' ''Invoke'' [''ICoreWebView2ContextMenuItem *sender'', ''IUnknown *args'']]"
  by (simp only: list.map c_method.simps)

lemma ICoreWebView2CustomItemSelectedEventHandler_views: "ICoreWebView2CustomItemSelectedEventHandlerVtbl = c_view ICoreWebView2CustomItemSelectedEventHandler"
  by (rule views_IUnknown [OF ICoreWebView2CustomItemSelectedEventHandler_def ICoreWebView2CustomItemSelectedEventHandler_decls])
    (simp only: table_simps ICoreWebView2CustomItemSelectedEventHandlerVtbl_def)

lemma ICoreWebView2DocumentTitleChangedEventHandler_decls:
  "map (c_method ''ICoreWebView2DocumentTitleChangedEventHandler'')
     [Method ''HRESULT'' ''Invoke'' [''ICoreWebView2 *sender'', ''IUnknown *args'']]
   =
     [CDecl ''ICoreWebView2DocumentTitleChangedEventHandler'' ''HRESULT'' ''Invoke'' [''ICoreWebView2 *sender'', ''IUnknown *args'']]"
  by (simp only: list.map c_method.simps)

lemma ICoreWebView2DocumentTitleChangedEventHandler_views: "ICoreWebView2DocumentTitleChangedEventHandlerVtbl = c_view ICoreWebView2DocumentTitleChangedEventHandler"
  by (rule views_IUnknown [OF ICoreWebView2DocumentTitleChangedEventHandler_def ICoreWebView2DocumentTitleChangedEventHandler_decls])
    (simp only: table_simps ICoreWebView2DocumentTitleChangedEventHandlerVtbl_def)

lemma ICoreWebView2DOMContentLoadedEventHandler_decls:
  "map (c_method ''ICoreWebView2DOMContentLoadedEventHandler'')
     [Method ''HRESULT'' ''Invoke'' [''ICoreWebView2 *sender'', ''ICoreWebView2DOMContentLoadedEventArgs *args'']]
   =
     [CDecl ''ICoreWebView2DOMContentLoadedEventHandler'' ''HRESULT'' ''Invoke'' [''ICoreWebView2 *sender'', ''ICoreWebView2DOMContentLoadedEventArgs *args'']]"
  by (simp only: list.map c_method.simps)

lemma ICoreWebView2DOMContentLoadedEventHandler_views: "ICoreWebView2DOMContentLoadedEventHandlerVtbl = c_view ICoreWebView2DOMContentLoadedEventHandler"
  by (rule views_IUnknown [OF ICoreWebView2DOMContentLoadedEventHandler_def ICoreWebView2DOMContentLoadedEventHandler_decls])
    (simp only: table_simps ICoreWebView2DOMContentLoadedEventHandlerVtbl_def)

lemma ICoreWebView2DevToolsProtocolEventReceivedEventHandler_decls:
  "map (c_method ''ICoreWebView2DevToolsProtocolEventReceivedEventHandler'')
     [Method ''HRESULT'' ''Invoke'' [''ICoreWebView2 *sender'', ''ICoreWebView2DevToolsProtocolEventReceivedEventArgs *args'']]
   =
     [CDecl ''ICoreWebView2DevToolsProtocolEventReceivedEventHandler'' ''HRESULT'' ''Invoke'' [''ICoreWebView2 *sender'', ''ICoreWebView2DevToolsProtocolEventReceivedEventArgs *args'']]"
  by (simp only: list.map c_method.simps)

lemma ICoreWebView2DevToolsProtocolEventReceivedEventHandler_views: "ICoreWebView2DevToolsProtocolEventReceivedEventHandlerVtbl = c_view ICoreWebView2DevToolsProtocolEventReceivedEventHandler"
  by (rule views_IUnknown [OF ICoreWebView2DevToolsProtocolEventReceivedEventHandler_def ICoreWebView2DevToolsProtocolEventReceivedEventHandler_decls])
    (simp only: table_simps ICoreWebView2DevToolsProtocolEventReceivedEventHandlerVtbl_def)

lemma ICoreWebView2DownloadStartingEventHandler_decls:
  "map (c_method ''ICoreWebView2DownloadStartingEventHandler'')
     [Method ''HRESULT'' ''Invoke'' [''ICoreWebView2 *sender'', ''ICoreWebView2DownloadStartingEventArgs *args'']]
   =
     [CDecl ''ICoreWebView2DownloadStartingEventHandler'' ''HRESULT'' ''Invoke'' [''ICoreWebView2 *sender'', ''ICoreWebView2DownloadStartingEventArgs *args'']]"
  by (simp only: list.map c_method.simps)

lemma ICoreWebView2DownloadStartingEventHandler_views: "ICoreWebView2DownloadStartingEventHandlerVtbl = c_view ICoreWebView2DownloadStartingEventHandler"
  by (rule views_IUnknown [OF ICoreWebView2DownloadStartingEventHandler_def ICoreWebView2DownloadStartingEventHandler_decls])
    (simp only: table_simps ICoreWebView2DownloadStartingEventHandlerVtbl_def)

lemma ICoreWebView2EstimatedEndTimeChangedEventHandler_decls:
  "map (c_method ''ICoreWebView2EstimatedEndTimeChangedEventHandler'')
     [Method ''HRESULT'' ''Invoke'' [''ICoreWebView2DownloadOperation *sender'', ''IUnknown *args'']]
   =
     [CDecl ''ICoreWebView2EstimatedEndTimeChangedEventHandler'' ''HRESULT'' ''Invoke'' [''ICoreWebView2DownloadOperation *sender'', ''IUnknown *args'']]"
  by (simp only: list.map c_method.simps)

lemma ICoreWebView2EstimatedEndTimeChangedEventHandler_views: "ICoreWebView2EstimatedEndTimeChangedEventHandlerVtbl = c_view ICoreWebView2EstimatedEndTimeChangedEventHandler"
  by (rule views_IUnknown [OF ICoreWebView2EstimatedEndTimeChangedEventHandler_def ICoreWebView2EstimatedEndTimeChangedEventHandler_decls])
    (simp only: table_simps ICoreWebView2EstimatedEndTimeChangedEventHandlerVtbl_def)

lemma ICoreWebView2ExecuteScriptCompletedHandler_decls:
  "map (c_method ''ICoreWebView2ExecuteScriptCompletedHandler'')
     [Method ''HRESULT'' ''Invoke'' [''HRESULT errorCode'', ''LPCWSTR resultObjectAsJson'']]
   =
     [CDecl ''ICoreWebView2ExecuteScriptCompletedHandler'' ''HRESULT'' ''Invoke'' [''HRESULT errorCode'', ''LPCWSTR resultObjectAsJson'']]"
  by (simp only: list.map c_method.simps)

lemma ICoreWebView2ExecuteScriptCompletedHandler_views: "ICoreWebView2ExecuteScriptCompletedHandlerVtbl = c_view ICoreWebView2ExecuteScriptCompletedHandler"
  by (rule views_IUnknown [OF ICoreWebView2ExecuteScriptCompletedHandler_def ICoreWebView2ExecuteScriptCompletedHandler_decls])
    (simp only: table_simps ICoreWebView2ExecuteScriptCompletedHandlerVtbl_def)

lemma ICoreWebView2GetProcessExtendedInfosCompletedHandler_decls:
  "map (c_method ''ICoreWebView2GetProcessExtendedInfosCompletedHandler'')
     [Method ''HRESULT'' ''Invoke'' [''HRESULT errorCode'', ''ICoreWebView2ProcessExtendedInfoCollection *value'']]
   =
     [CDecl ''ICoreWebView2GetProcessExtendedInfosCompletedHandler'' ''HRESULT'' ''Invoke'' [''HRESULT errorCode'', ''ICoreWebView2ProcessExtendedInfoCollection *value'']]"
  by (simp only: list.map c_method.simps)

lemma ICoreWebView2GetProcessExtendedInfosCompletedHandler_views: "ICoreWebView2GetProcessExtendedInfosCompletedHandlerVtbl = c_view ICoreWebView2GetProcessExtendedInfosCompletedHandler"
  by (rule views_IUnknown [OF ICoreWebView2GetProcessExtendedInfosCompletedHandler_def ICoreWebView2GetProcessExtendedInfosCompletedHandler_decls])
    (simp only: table_simps ICoreWebView2GetProcessExtendedInfosCompletedHandlerVtbl_def)

lemma ICoreWebView2FrameContentLoadingEventHandler_decls:
  "map (c_method ''ICoreWebView2FrameContentLoadingEventHandler'')
     [Method ''HRESULT'' ''Invoke'' [''ICoreWebView2Frame *sender'', ''ICoreWebView2ContentLoadingEventArgs *args'']]
   =
     [CDecl ''ICoreWebView2FrameContentLoadingEventHandler'' ''HRESULT'' ''Invoke'' [''ICoreWebView2Frame *sender'', ''ICoreWebView2ContentLoadingEventArgs *args'']]"
  by (simp only: list.map c_method.simps)

lemma ICoreWebView2FrameContentLoadingEventHandler_views: "ICoreWebView2FrameContentLoadingEventHandlerVtbl = c_view ICoreWebView2FrameContentLoadingEventHandler"
  by (rule views_IUnknown [OF ICoreWebView2FrameContentLoadingEventHandler_def ICoreWebView2FrameContentLoadingEventHandler_decls])
    (simp only: table_simps ICoreWebView2FrameContentLoadingEventHandlerVtbl_def)

lemma ICoreWebView2FrameCreatedEventHandler_decls:
  "map (c_method ''ICoreWebView2FrameCreatedEventHandler'')
     [Method ''HRESULT'' ''Invoke'' [''ICoreWebView2 *sender'', ''ICoreWebView2FrameCreatedEventArgs *args'']]
   =
     [CDecl ''ICoreWebView2FrameCreatedEventHandler'' ''HRESULT'' ''Invoke'' [''ICoreWebView2 *sender'', ''ICoreWebView2FrameCreatedEventArgs *args'']]"
  by (simp only: list.map c_method.simps)

lemma ICoreWebView2FrameCreatedEventHandler_views: "ICoreWebView2FrameCreatedEventHandlerVtbl = c_view ICoreWebView2FrameCreatedEventHandler"
  by (rule views_IUnknown [OF ICoreWebView2FrameCreatedEventHandler_def ICoreWebView2FrameCreatedEventHandler_decls])
    (simp only: table_simps ICoreWebView2FrameCreatedEventHandlerVtbl_def)

lemma ICoreWebView2FrameDestroyedEventHandler_decls:
  "map (c_method ''ICoreWebView2FrameDestroyedEventHandler'')
     [Method ''HRESULT'' ''Invoke'' [''ICoreWebView2Frame *sender'', ''IUnknown *args'']]
   =
     [CDecl ''ICoreWebView2FrameDestroyedEventHandler'' ''HRESULT'' ''Invoke'' [''ICoreWebView2Frame *sender'', ''IUnknown *args'']]"
  by (simp only: list.map c_method.simps)

lemma ICoreWebView2FrameDestroyedEventHandler_views: "ICoreWebView2FrameDestroyedEventHandlerVtbl = c_view ICoreWebView2FrameDestroyedEventHandler"
  by (rule views_IUnknown [OF ICoreWebView2FrameDestroyedEventHandler_def ICoreWebView2FrameDestroyedEventHandler_decls])
    (simp only: table_simps ICoreWebView2FrameDestroyedEventHandlerVtbl_def)

lemma ICoreWebView2FrameDOMContentLoadedEventHandler_decls:
  "map (c_method ''ICoreWebView2FrameDOMContentLoadedEventHandler'')
     [Method ''HRESULT'' ''Invoke'' [''ICoreWebView2Frame *sender'', ''ICoreWebView2DOMContentLoadedEventArgs *args'']]
   =
     [CDecl ''ICoreWebView2FrameDOMContentLoadedEventHandler'' ''HRESULT'' ''Invoke'' [''ICoreWebView2Frame *sender'', ''ICoreWebView2DOMContentLoadedEventArgs *args'']]"
  by (simp only: list.map c_method.simps)

lemma ICoreWebView2FrameDOMContentLoadedEventHandler_views: "ICoreWebView2FrameDOMContentLoadedEventHandlerVtbl = c_view ICoreWebView2FrameDOMContentLoadedEventHandler"
  by (rule views_IUnknown [OF ICoreWebView2FrameDOMContentLoadedEventHandler_def ICoreWebView2FrameDOMContentLoadedEventHandler_decls])
    (simp only: table_simps ICoreWebView2FrameDOMContentLoadedEventHandlerVtbl_def)

lemma ICoreWebView2FrameNameChangedEventHandler_decls:
  "map (c_method ''ICoreWebView2FrameNameChangedEventHandler'')
     [Method ''HRESULT'' ''Invoke'' [''ICoreWebView2Frame *sender'', ''IUnknown *args'']]
   =
     [CDecl ''ICoreWebView2FrameNameChangedEventHandler'' ''HRESULT'' ''Invoke'' [''ICoreWebView2Frame *sender'', ''IUnknown *args'']]"
  by (simp only: list.map c_method.simps)

lemma ICoreWebView2FrameNameChangedEventHandler_views: "ICoreWebView2FrameNameChangedEventHandlerVtbl = c_view ICoreWebView2FrameNameChangedEventHandler"
  by (rule views_IUnknown [OF ICoreWebView2FrameNameChangedEventHandler_def ICoreWebView2FrameNameChangedEventHandler_decls])
    (simp only: table_simps ICoreWebView2FrameNameChangedEventHandlerVtbl_def)

lemma ICoreWebView2FrameNavigationCompletedEventHandler_decls:
  "map (c_method ''ICoreWebView2FrameNavigationCompletedEventHandler'')
     [Method ''HRESULT'' ''Invoke'' [''ICoreWebView2Frame *sender'', ''ICoreWebView2NavigationCompletedEventArgs *args'']]
   =
     [CDecl ''ICoreWebView2FrameNavigationCompletedEventHandler'' ''HRESULT'' ''Invoke'' [''ICoreWebView2Frame *sender'', ''ICoreWebView2NavigationCompletedEventArgs *args'']]"
  by (simp only: list.map c_method.simps)

lemma ICoreWebView2FrameNavigationCompletedEventHandler_views: "ICoreWebView2FrameNavigationCompletedEventHandlerVtbl = c_view ICoreWebView2FrameNavigationCompletedEventHandler"
  by (rule views_IUnknown [OF ICoreWebView2FrameNavigationCompletedEventHandler_def ICoreWebView2FrameNavigationCompletedEventHandler_decls])
    (simp only: table_simps ICoreWebView2FrameNavigationCompletedEventHandlerVtbl_def)

lemma ICoreWebView2FrameNavigationStartingEventHandler_decls:
  "map (c_method ''ICoreWebView2FrameNavigationStartingEventHandler'')
     [Method ''HRESULT'' ''Invoke'' [''ICoreWebView2Frame *sender'', ''ICoreWebView2NavigationStartingEventArgs *args'']]
   =
     [CDecl ''ICoreWebView2FrameNavigationStartingEventHandler'' ''HRESULT'' ''Invoke'' [''ICoreWebView2Frame *sender'', ''ICoreWebView2NavigationStartingEventArgs *args'']]"
  by (simp only: list.map c_method.simps)

lemma ICoreWebView2FrameNavigationStartingEventHandler_views: "ICoreWebView2FrameNavigationStartingEventHandlerVtbl = c_view ICoreWebView2FrameNavigationStartingEventHandler"
  by (rule views_IUnknown [OF ICoreWebView2FrameNavigationStartingEventHandler_def ICoreWebView2FrameNavigationStartingEventHandler_decls])
    (simp only: table_simps ICoreWebView2FrameNavigationStartingEventHandlerVtbl_def)

lemma ICoreWebView2FramePermissionRequestedEventHandler_decls:
  "map (c_method ''ICoreWebView2FramePermissionRequestedEventHandler'')
     [Method ''HRESULT'' ''Invoke'' [''ICoreWebView2Frame *sender'', ''ICoreWebView2PermissionRequestedEventArgs2 *args'']]
   =
     [CDecl ''ICoreWebView2FramePermissionRequestedEventHandler'' ''HRESULT'' ''Invoke'' [''ICoreWebView2Frame *sender'', ''ICoreWebView2PermissionRequestedEventArgs2 *args'']]"
  by (simp only: list.map c_method.simps)

lemma ICoreWebView2FramePermissionRequestedEventHandler_views: "ICoreWebView2FramePermissionRequestedEventHandlerVtbl = c_view ICoreWebView2FramePermissionRequestedEventHandler"
  by (rule views_IUnknown [OF ICoreWebView2FramePermissionRequestedEventHandler_def ICoreWebView2FramePermissionRequestedEventHandler_decls])
    (simp only: table_simps ICoreWebView2FramePermissionRequestedEventHandlerVtbl_def)

lemma ICoreWebView2FrameWebMessageReceivedEventHandler_decls:
  "map (c_method ''ICoreWebView2FrameWebMessageReceivedEventHandler'')
     [Method ''HRESULT'' ''Invoke'' [''ICoreWebView2Frame *sender'', ''ICoreWebView2WebMessageReceivedEventArgs *args'']]
   =
     [CDecl ''ICoreWebView2FrameWebMessageReceivedEventHandler'' ''HRESULT'' ''Invoke'' [''ICoreWebView2Frame *sender'', ''ICoreWebView2WebMessageReceivedEventArgs *args'']]"
  by (simp only: list.map c_method.simps)

lemma ICoreWebView2FrameWebMessageReceivedEventHandler_views: "ICoreWebView2FrameWebMessageReceivedEventHandlerVtbl = c_view ICoreWebView2FrameWebMessageReceivedEventHandler"
  by (rule views_IUnknown [OF ICoreWebView2FrameWebMessageReceivedEventHandler_def ICoreWebView2FrameWebMessageReceivedEventHandler_decls])
    (simp only: table_simps ICoreWebView2FrameWebMessageReceivedEventHandlerVtbl_def)

lemma ICoreWebView2FocusChangedEventHandler_decls:
  "map (c_method ''ICoreWebView2FocusChangedEventHandler'')
     [Method ''HRESULT'' ''Invoke'' [''ICoreWebView2Controller *sender'', ''IUnknown *args'']]
   =
     [CDecl ''ICoreWebView2FocusChangedEventHandler'' ''HRESULT'' ''Invoke'' [''ICoreWebView2Controller *sender'', ''IUnknown *args'']]"
  by (simp only: list.map c_method.simps)

lemma ICoreWebView2FocusChangedEventHandler_views: "ICoreWebView2FocusChangedEventHandlerVtbl = c_view ICoreWebView2FocusChangedEventHandler"
  by (rule views_IUnknown [OF ICoreWebView2FocusChangedEventHandler_def ICoreWebView2FocusChangedEventHandler_decls])
    (simp only: table_simps ICoreWebView2FocusChangedEventHandlerVtbl_def)

lemma ICoreWebView2GetCookiesCompletedHandler_decls:
  "map (c_method ''ICoreWebView2GetCookiesCompletedHandler'')
     [Method ''HRESULT'' ''Invoke'' [''HRESULT result'', ''ICoreWebView2CookieList *cookieList'']]
   =
     [CDecl ''ICoreWebView2GetCookiesCompletedHandler'' ''HRESULT'' ''Invoke'' [''HRESULT result'', ''ICoreWebView2CookieList *cookieList'']]"
  by (simp only: list.map c_method.simps)

lemma ICoreWebView2GetCookiesCompletedHandler_views: "ICoreWebView2GetCookiesCompletedHandlerVtbl = c_view ICoreWebView2GetCookiesCompletedHandler"
  by (rule views_IUnknown [OF ICoreWebView2GetCookiesCompletedHandler_def ICoreWebView2GetCookiesCompletedHandler_decls])
    (simp only: table_simps ICoreWebView2GetCookiesCompletedHandlerVtbl_def)

lemma ICoreWebView2GetNonDefaultPermissionSettingsCompletedHandler_decls:
  "map (c_method ''ICoreWebView2GetNonDefaultPermissionSettingsCompletedHandler'')
     [Method ''HRESULT'' ''Invoke'' [''HRESULT errorCode'', ''ICoreWebView2PermissionSettingCollectionView *collectionView'']]
   =
     [CDecl ''ICoreWebView2GetNonDefaultPermissionSettingsCompletedHandler'' ''HRESULT'' ''Invoke'' [''HRESULT errorCode'', ''ICoreWebView2PermissionSettingCollectionView *collectionView'']]"
  by (simp only: list.map c_method.simps)

lemma ICoreWebView2GetNonDefaultPermissionSettingsCompletedHandler_views: "ICoreWebView2GetNonDefaultPermissionSettingsCompletedHandlerVtbl = c_view ICoreWebView2GetNonDefaultPermissionSettingsCompletedHandler"
  by (rule views_IUnknown [OF ICoreWebView2GetNonDefaultPermissionSettingsCompletedHandler_def ICoreWebView2GetNonDefaultPermissionSettingsCompletedHandler_decls])
    (simp only: table_simps ICoreWebView2GetNonDefaultPermissionSettingsCompletedHandlerVtbl_def)

lemma ICoreWebView2HistoryChangedEventHandler_decls:
  "map (c_method ''ICoreWebView2HistoryChangedEventHandler'')
     [Method ''HRESULT'' ''Invoke'' [''ICoreWebView2 *sender'', ''IUnknown *args'']]
   =
     [CDecl ''ICoreWebView2HistoryChangedEventHandler'' ''HRESULT'' ''Invoke'' [''ICoreWebView2 *sender'', ''IUnknown *args'']]"
  by (simp only: list.map c_method.simps)

lemma ICoreWebView2HistoryChangedEventHandler_views: "ICoreWebView2HistoryChangedEventHandlerVtbl = c_view ICoreWebView2HistoryChangedEventHandler"
  by (rule views_IUnknown [OF ICoreWebView2HistoryChangedEventHandler_def ICoreWebView2HistoryChangedEventHandler_decls])
    (simp only: table_simps ICoreWebView2HistoryChangedEventHandlerVtbl_def)

lemma ICoreWebView2IsDefaultDownloadDialogOpenChangedEventHandler_decls:
  "map (c_method ''ICoreWebView2IsDefaultDownloadDialogOpenChangedEventHandler'')
     [Method ''HRESULT'' ''Invoke'' [''ICoreWebView2 *sender'', ''IUnknown *args'']]
   =
     [CDecl ''ICoreWebView2IsDefaultDownloadDialogOpenChangedEventHandler'' ''HRESULT'' ''Invoke'' [''ICoreWebView2 *sender'', ''IUnknown *args'']]"
  by (simp only: list.map c_method.simps)

lemma ICoreWebView2IsDefaultDownloadDialogOpenChangedEventHandler_views: "ICoreWebView2IsDefaultDownloadDialogOpenChangedEventHandlerVtbl = c_view ICoreWebView2IsDefaultDownloadDialogOpenChangedEventHandler"
  by (rule views_IUnknown [OF ICoreWebView2IsDefaultDownloadDialogOpenChangedEventHandler_def ICoreWebView2IsDefaultDownloadDialogOpenChangedEventHandler_decls])
    (simp only: table_simps ICoreWebView2IsDefaultDownloadDialogOpenChangedEventHandlerVtbl_def)

lemma ICoreWebView2LaunchingExternalUriSchemeEventHandler_decls:
  "map (c_method ''ICoreWebView2LaunchingExternalUriSchemeEventHandler'')
     [Method ''HRESULT'' ''Invoke'' [''ICoreWebView2 *sender'', ''ICoreWebView2LaunchingExternalUriSchemeEventArgs *args'']]
   =
     [CDecl ''ICoreWebView2LaunchingExternalUriSchemeEventHandler'' ''HRESULT'' ''Invoke'' [''ICoreWebView2 *sender'', ''ICoreWebView2LaunchingExternalUriSchemeEventArgs *args'']]"
  by (simp only: list.map c_method.simps)

lemma ICoreWebView2LaunchingExternalUriSchemeEventHandler_views: "ICoreWebView2LaunchingExternalUriSchemeEventHandlerVtbl = c_view ICoreWebView2LaunchingExternalUriSchemeEventHandler"
  by (rule views_IUnknown [OF ICoreWebView2LaunchingExternalUriSchemeEventHandler_def ICoreWebView2LaunchingExternalUriSchemeEventHandler_decls])
    (simp only: table_simps ICoreWebView2LaunchingExternalUriSchemeEventHandlerVtbl_def)

lemma ICoreWebView2MoveFocusRequestedEventHandler_decls:
  "map (c_method ''ICoreWebView2MoveFocusRequestedEventHandler'')
     [Method ''HRESULT'' ''Invoke'' [''ICoreWebView2Controller *sender'', ''ICoreWebView2MoveFocusRequestedEventArgs *args'']]
   =
     [CDecl ''ICoreWebView2MoveFocusRequestedEventHandler'' ''HRESULT'' ''Invoke'' [''ICoreWebView2Controller *sender'', ''ICoreWebView2MoveFocusRequestedEventArgs *args'']]"
  by (simp only: list.map c_method.simps)

lemma ICoreWebView2MoveFocusRequestedEventHandler_views: "ICoreWebView2MoveFocusRequestedEventHandlerVtbl = c_view ICoreWebView2MoveFocusRequestedEventHandler"
  by (rule views_IUnknown [OF ICoreWebView2MoveFocusRequestedEventHandler_def ICoreWebView2MoveFocusRequestedEventHandler_decls])
    (simp only: table_simps ICoreWebView2MoveFocusRequestedEventHandlerVtbl_def)

lemma ICoreWebView2NavigationCompletedEventHandler_decls:
  "map (c_method ''ICoreWebView2NavigationCompletedEventHandler'')
     [Method ''HRESULT'' ''Invoke'' [''ICoreWebView2 *sender'', ''ICoreWebView2NavigationCompletedEventArgs *args'']]
   =
     [CDecl ''ICoreWebView2NavigationCompletedEventHandler'' ''HRESULT'' ''Invoke'' [''ICoreWebView2 *sender'', ''ICoreWebView2NavigationCompletedEventArgs *args'']]"
  by (simp only: list.map c_method.simps)

lemma ICoreWebView2NavigationCompletedEventHandler_views: "ICoreWebView2NavigationCompletedEventHandlerVtbl = c_view ICoreWebView2NavigationCompletedEventHandler"
  by (rule views_IUnknown [OF ICoreWebView2NavigationCompletedEventHandler_def ICoreWebView2NavigationCompletedEventHandler_decls])
    (simp only: table_simps ICoreWebView2NavigationCompletedEventHandlerVtbl_def)

lemma ICoreWebView2NavigationStartingEventHandler_decls:
  "map (c_method ''ICoreWebView2NavigationStartingEventHandler'')
     [Method ''HRESULT'' ''Invoke'' [''ICoreWebView2 *sender'', ''ICoreWebView2NavigationStartingEventArgs *args'']]
   =
     [CDecl ''ICoreWebView2NavigationStartingEventHandler'' ''HRESULT'' ''Invoke'' [''ICoreWebView2 *sender'', ''ICoreWebView2NavigationStartingEventArgs *args'']]"
  by (simp only: list.map c_method.simps)

lemma ICoreWebView2NavigationStartingEventHandler_views: "ICoreWebView2NavigationStartingEventHandlerVtbl = c_view ICoreWebView2NavigationStartingEventHandler"
  by (rule views_IUnknown [OF ICoreWebView2NavigationStartingEventHandler_def ICoreWebView2NavigationStartingEventHandler_decls])
    (simp only: table_simps ICoreWebView2NavigationStartingEventHandlerVtbl_def)

lemma ICoreWebView2NewBrowserVersionAvailableEventHandler_decls:
  "map (c_method ''ICoreWebView2NewBrowserVersionAvailableEventHandler'')
     [Method ''HRESULT'' ''Invoke'' [''ICoreWebView2Environment *sender'', ''IUnknown *args'']]
   =
     [CDecl ''ICoreWebView2NewBrowserVersionAvailableEventHandler'' ''HRESULT'' ''Invoke'' [''ICoreWebView2Environment *sender'', ''IUnknown *args'']]"
  by (simp only: list.map c_method.simps)

lemma ICoreWebView2NewBrowserVersionAvailableEventHandler_views: "ICoreWebView2NewBrowserVersionAvailableEventHandlerVtbl = c_view ICoreWebView2NewBrowserVersionAvailableEventHandler"
  by (rule views_IUnknown [OF ICoreWebView2NewBrowserVersionAvailableEventHandler_def ICoreWebView2NewBrowserVersionAvailableEventHandler_decls])
    (simp only: table_simps ICoreWebView2NewBrowserVersionAvailableEventHandlerVtbl_def)

lemma ICoreWebView2NewWindowRequestedEventHandler_decls:
  "map (c_method ''ICoreWebView2NewWindowRequestedEventHandler'')
     [Method ''HRESULT'' ''Invoke'' [''ICoreWebView2 *sender'', ''ICoreWebView2NewWindowRequestedEventArgs *args'']]
   =
     [CDecl ''ICoreWebView2NewWindowRequestedEventHandler'' ''HRESULT'' ''Invoke'' [''ICoreWebView2 *sender'', ''ICoreWebView2NewWindowRequestedEventArgs *args'']]"
  by (simp only: list.map c_method.simps)

lemma ICoreWebView2NewWindowRequestedEventHandler_views: "ICoreWebView2NewWindowRequestedEventHandlerVtbl = c_view ICoreWebView2NewWindowRequestedEventHandler"
  by (rule views_IUnknown [OF ICoreWebView2NewWindowRequestedEventHandler_def ICoreWebView2NewWindowRequestedEventHandler_decls])
    (simp only: table_simps ICoreWebView2NewWindowRequestedEventHandlerVtbl_def)

lemma ICoreWebView2PermissionRequestedEventHandler_decls:
  "map (c_method ''ICoreWebView2PermissionRequestedEventHandler'')
     [Method ''HRESULT'' ''Invoke'' [''ICoreWebView2 *sender'', ''ICoreWebView2PermissionRequestedEventArgs *args'']]
   =
     [CDecl ''ICoreWebView2PermissionRequestedEventHandler'' ''HRESULT'' ''Invoke'' [''ICoreWebView2 *sender'', ''ICoreWebView2PermissionRequestedEventArgs *args'']]"
  by (simp only: list.map c_method.simps)

lemma ICoreWebView2PermissionRequestedEventHandler_views: "ICoreWebView2PermissionRequestedEventHandlerVtbl = c_view ICoreWebView2PermissionRequestedEventHandler"
  by (rule views_IUnknown [OF ICoreWebView2PermissionRequestedEventHandler_def ICoreWebView2PermissionRequestedEventHandler_decls])
    (simp only: table_simps ICoreWebView2PermissionRequestedEventHandlerVtbl_def)

lemma ICoreWebView2PrintToPdfCompletedHandler_decls:
  "map (c_method ''ICoreWebView2PrintToPdfCompletedHandler'')
     [Method ''HRESULT'' ''Invoke'' [''HRESULT errorCode'', ''BOOL isSuccessful'']]
   =
     [CDecl ''ICoreWebView2PrintToPdfCompletedHandler'' ''HRESULT'' ''Invoke'' [''HRESULT errorCode'', ''BOOL isSuccessful'']]"
  by (simp only: list.map c_method.simps)

lemma ICoreWebView2PrintToPdfCompletedHandler_views: "ICoreWebView2PrintToPdfCompletedHandlerVtbl = c_view ICoreWebView2PrintToPdfCompletedHandler"
  by (rule views_IUnknown [OF ICoreWebView2PrintToPdfCompletedHandler_def ICoreWebView2PrintToPdfCompletedHandler_decls])
    (simp only: table_simps ICoreWebView2PrintToPdfCompletedHandlerVtbl_def)

lemma ICoreWebView2PrintCompletedHandler_decls:
  "map (c_method ''ICoreWebView2PrintCompletedHandler'')
     [Method ''HRESULT'' ''Invoke'' [''HRESULT errorCode'', ''COREWEBVIEW2_PRINT_STATUS printStatus'']]
   =
     [CDecl ''ICoreWebView2PrintCompletedHandler'' ''HRESULT'' ''Invoke'' [''HRESULT errorCode'', ''COREWEBVIEW2_PRINT_STATUS printStatus'']]"
  by (simp only: list.map c_method.simps)

lemma ICoreWebView2PrintCompletedHandler_views: "ICoreWebView2PrintCompletedHandlerVtbl = c_view ICoreWebView2PrintCompletedHandler"
  by (rule views_IUnknown [OF ICoreWebView2PrintCompletedHandler_def ICoreWebView2PrintCompletedHandler_decls])
    (simp only: table_simps ICoreWebView2PrintCompletedHandlerVtbl_def)

lemma ICoreWebView2PrintToPdfStreamCompletedHandler_decls:
  "map (c_method ''ICoreWebView2PrintToPdfStreamCompletedHandler'')
     [Method ''HRESULT'' ''Invoke'' [''HRESULT errorCode'', ''IStream *pdfStream'']]
   =
     [CDecl ''ICoreWebView2PrintToPdfStreamCompletedHandler'' ''HRESULT'' ''Invoke'' [''HRESULT errorCode'', ''IStream *pdfStream'']]"
  by (simp only: list.map c_method.simps)

lemma ICoreWebView2PrintToPdfStreamCompletedHandler_views: "ICoreWebView2PrintToPdfStreamCompletedHandlerVtbl = c_view ICoreWebView2PrintToPdfStreamCompletedHandler"
  by (rule views_IUnknown [OF ICoreWebView2PrintToPdfStreamCompletedHandler_def ICoreWebView2PrintToPdfStreamCompletedHandler_decls])
    (simp only: table_simps ICoreWebView2PrintToPdfStreamCompletedHandlerVtbl_def)

lemma ICoreWebView2ProcessFailedEventHandler_decls:
  "map (c_method ''ICoreWebView2ProcessFailedEventHandler'')
     [Method ''HRESULT'' ''Invoke'' [''ICoreWebView2 *sender'', ''ICoreWebView2ProcessFailedEventArgs *args'']]
   =
     [CDecl ''ICoreWebView2ProcessFailedEventHandler'' ''HRESULT'' ''Invoke'' [''ICoreWebView2 *sender'', ''ICoreWebView2ProcessFailedEventArgs *args'']]"
  by (simp only: list.map c_method.simps)

lemma ICoreWebView2ProcessFailedEventHandler_views: "ICoreWebView2ProcessFailedEventHandlerVtbl = c_view ICoreWebView2ProcessFailedEventHandler"
  by (rule views_IUnknown [OF ICoreWebView2ProcessFailedEventHandler_def ICoreWebView2ProcessFailedEventHandler_decls])
    (simp only: table_simps ICoreWebView2ProcessFailedEventHandlerVtbl_def)

lemma ICoreWebView2ProfileDeletedEventHandler_decls:
  "map (c_method ''ICoreWebView2ProfileDeletedEventHandler'')
     [Method ''HRESULT'' ''Invoke'' [''ICoreWebView2Profile *sender'', ''IUnknown *args'']]
   =
     [CDecl ''ICoreWebView2ProfileDeletedEventHandler'' ''HRESULT'' ''Invoke'' [''ICoreWebView2Profile *sender'', ''IUnknown *args'']]"
  by (simp only: list.map c_method.simps)

lemma ICoreWebView2ProfileDeletedEventHandler_views: "ICoreWebView2ProfileDeletedEventHandlerVtbl = c_view ICoreWebView2ProfileDeletedEventHandler"
  by (rule views_IUnknown [OF ICoreWebView2ProfileDeletedEventHandler_def ICoreWebView2ProfileDeletedEventHandler_decls])
    (simp only: table_simps ICoreWebView2ProfileDeletedEventHandlerVtbl_def)

lemma ICoreWebView2RasterizationScaleChangedEventHandler_decls:
  "map (c_method ''ICoreWebView2RasterizationScaleChangedEventHandler'')
     [Method ''HRESULT'' ''Invoke'' [''ICoreWebView2Controller *sender'', ''IUnknown *args'']]
   =
     [CDecl ''ICoreWebView2RasterizationScaleChangedEventHandler'' ''HRESULT'' ''Invoke'' [''ICoreWebView2Controller *sender'', ''IUnknown *args'']]"
  by (simp only: list.map c_method.simps)

lemma ICoreWebView2RasterizationScaleChangedEventHandler_views: "ICoreWebView2RasterizationScaleChangedEventHandlerVtbl = c_view ICoreWebView2RasterizationScaleChangedEventHandler"
  by (rule views_IUnknown [OF ICoreWebView2RasterizationScaleChangedEventHandler_def ICoreWebView2RasterizationScaleChangedEventHandler_decls])
    (simp only: table_simps ICoreWebView2RasterizationScaleChangedEventHandlerVtbl_def)

lemma ICoreWebView2ServerCertificateErrorDetectedEventHandler_decls:
  "map (c_method ''ICoreWebView2ServerCertificateErrorDetectedEventHandler'')
     [Method ''HRESULT'' ''Invoke'' [''ICoreWebView2 *sender'', ''ICoreWebView2ServerCertificateErrorDetectedEventArgs *args'']]
   =
     [CDecl ''ICoreWebView2ServerCertificateErrorDetectedEventHandler'' ''HRESULT'' ''Invoke'' [''ICoreWebView2 *sender'', ''ICoreWebView2ServerCertificateErrorDetectedEventArgs *args'']]"
  by (simp only: list.map c_method.simps)

lemma ICoreWebView2ServerCertificateErrorDetectedEventHandler_views: "ICoreWebView2ServerCertificateErrorDetectedEventHandlerVtbl = c_view ICoreWebView2ServerCertificateErrorDetectedEventHandler"
  by (rule views_IUnknown [OF ICoreWebView2ServerCertificateErrorDetectedEventHandler_def ICoreWebView2ServerCertificateErrorDetectedEventHandler_decls])
    (simp only: table_simps ICoreWebView2ServerCertificateErrorDetectedEventHandlerVtbl_def)

lemma ICoreWebView2SetPermissionStateCompletedHandler_decls:
  "map (c_method ''ICoreWebView2SetPermissionStateCompletedHandler'')
     [Method ''HRESULT'' ''Invoke'' [''HRESULT errorCode'']]
   =
     [CDecl ''ICoreWebView2SetPermissionStateCompletedHandler'' ''HRESULT'' ''Invoke'' [''HRESULT errorCode'']]"
  by (simp only: list.map c_method.simps)

lemma ICoreWebView2SetPermissionStateCompletedHandler_views: "ICoreWebView2SetPermissionStateCompletedHandlerVtbl = c_view ICoreWebView2SetPermissionStateCompletedHandler"
  by (rule views_IUnknown [OF ICoreWebView2SetPermissionStateCompletedHandler_def ICoreWebView2SetPermissionStateCompletedHandler_decls])
    (simp only: table_simps ICoreWebView2SetPermissionStateCompletedHandlerVtbl_def)

lemma ICoreWebView2ScriptDialogOpeningEventHandler_decls:
  "map (c_method ''ICoreWebView2ScriptDialogOpeningEventHandler'')
     [Method ''HRESULT'' ''Invoke'' [''ICoreWebView2 *sender'', ''ICoreWebView2ScriptDialogOpeningEventArgs *args'']]
   =
     [CDecl ''ICoreWebView2ScriptDialogOpeningEventHandler'' ''HRESULT'' ''Invoke'' [''ICoreWebView2 *sender'', ''ICoreWebView2ScriptDialogOpeningEventArgs *args'']]"
  by (simp only: list.map c_method.simps)

lemma ICoreWebView2ScriptDialogOpeningEventHandler_views: "ICoreWebView2ScriptDialogOpeningEventHandlerVtbl = c_view ICoreWebView2ScriptDialogOpeningEventHandler"
  by (rule views_IUnknown [OF ICoreWebView2ScriptDialogOpeningEventHandler_def ICoreWebView2ScriptDialogOpeningEventHandler_decls])
    (simp only: table_simps ICoreWebView2ScriptDialogOpeningEventHandlerVtbl_def)

lemma ICoreWebView2SourceChangedEventHandler_decls:
  "map (c_method ''ICoreWebView2SourceChangedEventHandler'')
     [Method ''HRESULT'' ''Invoke'' [''ICoreWebView2 *sender'', ''ICoreWebView2SourceChangedEventArgs *args'']]
   =
     [CDecl ''ICoreWebView2SourceChangedEventHandler'' ''HRESULT'' ''Invoke'' [''ICoreWebView2 *sender'', ''ICoreWebView2SourceChangedEventArgs *args'']]"
  by (simp only: list.map c_method.simps)

lemma ICoreWebView2SourceChangedEventHandler_views: "ICoreWebView2SourceChangedEventHandlerVtbl = c_view ICoreWebView2SourceChangedEventHandler"
  by (rule views_IUnknown [OF ICoreWebView2SourceChangedEventHandler_def ICoreWebView2SourceChangedEventHandler_decls])
    (simp only: table_simps ICoreWebView2SourceChangedEventHandlerVtbl_def)

lemma ICoreWebView2StateChangedEventHandler_decls:
  "map (c_method ''ICoreWebView2StateChangedEventHandler'')
     [Method ''HRESULT'' ''Invoke'' [''ICoreWebView2DownloadOperation *sender'', ''IUnknown *args'']]
   =
     [CDecl ''ICoreWebView2StateChangedEventHandler'' ''HRESULT'' ''Invoke'' [''ICoreWebView2DownloadOperation *sender'', ''IUnknown *args'']]"
  by (simp only: list.map c_method.simps)

lemma ICoreWebView2StateChangedEventHandler_views: "ICoreWebView2StateChangedEventHandlerVtbl = c_view ICoreWebView2StateChangedEventHandler"
  by (rule views_IUnknown [OF ICoreWebView2StateChangedEventHandler_def ICoreWebView2StateChangedEventHandler_decls])
    (simp only: table_simps ICoreWebView2StateChangedEventHandlerVtbl_def)

lemma ICoreWebView2StatusBarTextChangedEventHandler_decls:
  "map (c_method ''ICoreWebView2StatusBarTextChangedEventHandler'')
     [Method ''HRESULT'' ''Invoke'' [''ICoreWebView2 *sender'', ''IUnknown *args'']]
   =
     [CDecl ''ICoreWebView2StatusBarTextChangedEventHandler'' ''HRESULT'' ''Invoke'' [''ICoreWebView2 *sender'', ''IUnknown *args'']]"
  by (simp only: list.map c_method.simps)

lemma ICoreWebView2StatusBarTextChangedEventHandler_views: "ICoreWebView2StatusBarTextChangedEventHandlerVtbl = c_view ICoreWebView2StatusBarTextChangedEventHandler"
  by (rule views_IUnknown [OF ICoreWebView2StatusBarTextChangedEventHandler_def ICoreWebView2StatusBarTextChangedEventHandler_decls])
    (simp only: table_simps ICoreWebView2StatusBarTextChangedEventHandlerVtbl_def)

lemma ICoreWebView2TrySuspendCompletedHandler_decls:
  "map (c_method ''ICoreWebView2TrySuspendCompletedHandler'')
     [Method ''HRESULT'' ''Invoke'' [''HRESULT errorCode'', ''BOOL isSuccessful'']]
   =
     [CDecl ''ICoreWebView2TrySuspendCompletedHandler'' ''HRESULT'' ''Invoke'' [''HRESULT errorCode'', ''BOOL isSuccessful'']]"
  by (simp only: list.map c_method.simps)

lemma ICoreWebView2TrySuspendCompletedHandler_views: "ICoreWebView2TrySuspendCompletedHandlerVtbl = c_view ICoreWebView2TrySuspendCompletedHandler"
  by (rule views_IUnknown [OF ICoreWebView2TrySuspendCompletedHandler_def ICoreWebView2TrySuspendCompletedHandler_decls])
    (simp only: table_simps ICoreWebView2TrySuspendCompletedHandlerVtbl_def)

lemma ICoreWebView2WebMessageReceivedEventHandler_decls:
  "map (c_method ''ICoreWebView2WebMessageReceivedEventHandler'')
     [Method ''HRESULT'' ''Invoke'' [''ICoreWebView2 *sender'', ''ICoreWebView2WebMessageReceivedEventArgs *args'']]
   =
     [CDecl ''ICoreWebView2WebMessageReceivedEventHandler'' ''HRESULT'' ''Invoke'' [''ICoreWebView2 *sender'', ''ICoreWebView2WebMessageReceivedEventArgs *args'']]"
  by (simp only: list.map c_method.simps)

lemma ICoreWebView2WebMessageReceivedEventHandler_views: "ICoreWebView2WebMessageReceivedEventHandlerVtbl = c_view ICoreWebView2WebMessageReceivedEventHandler"
  by (rule views_IUnknown [OF ICoreWebView2WebMessageReceivedEventHandler_def ICoreWebView2WebMessageReceivedEventHandler_decls])
    (simp only: table_simps ICoreWebView2WebMessageReceivedEventHandlerVtbl_def)

lemma ICoreWebView2WebResourceRequestedEventHandler_decls:
  "map (c_method ''ICoreWebView2WebResourceRequestedEventHandler'')
     [Method ''HRESULT'' ''Invoke'' [''ICoreWebView2 *sender'', ''ICoreWebView2WebResourceRequestedEventArgs *args'']]
   =
     [CDecl ''ICoreWebView2WebResourceRequestedEventHandler'' ''HRESULT'' ''Invoke'' [''ICoreWebView2 *sender'', ''ICoreWebView2WebResourceRequestedEventArgs *args'']]"
  by (simp only: list.map c_method.simps)

lemma ICoreWebView2WebResourceRequestedEventHandler_views: "ICoreWebView2WebResourceRequestedEventHandlerVtbl = c_view ICoreWebView2WebResourceRequestedEventHandler"
  by (rule views_IUnknown [OF ICoreWebView2WebResourceRequestedEventHandler_def ICoreWebView2WebResourceRequestedEventHandler_decls])
    (simp only: table_simps ICoreWebView2WebResourceRequestedEventHandlerVtbl_def)

lemma ICoreWebView2WebResourceResponseReceivedEventHandler_decls:
  "map (c_method ''ICoreWebView2WebResourceResponseReceivedEventHandler'')
     [Method ''HRESULT'' ''Invoke'' [''ICoreWebView2 *sender'', ''ICoreWebView2WebResourceResponseReceivedEventArgs *args'']]
   =
     [CDecl ''ICoreWebView2WebResourceResponseReceivedEventHandler'' ''HRESULT'' ''Invoke'' [''ICoreWebView2 *sender'', ''ICoreWebView2WebResourceResponseReceivedEventArgs *args'']]"
  by (simp only: list.map c_method.simps)

lemma ICoreWebView2WebResourceResponseReceivedEventHandler_views: "ICoreWebView2WebResourceResponseReceivedEventHandlerVtbl = c_view ICoreWebView2WebResourceResponseReceivedEventHandler"
  by (rule views_IUnknown [OF ICoreWebView2WebResourceResponseReceivedEventHandler_def ICoreWebView2WebResourceResponseReceivedEventHandler_decls])
    (simp only: table_simps ICoreWebView2WebResourceResponseReceivedEventHandlerVtbl_def)

lemma ICoreWebView2WebResourceResponseViewGetContentCompletedHandler_decls:
  "map (c_method ''ICoreWebView2WebResourceResponseViewGetContentCompletedHandler'')
     [Method ''HRESULT'' ''Invoke'' [''HRESULT errorCode'', ''IStream *content'']]
   =
     [CDecl ''ICoreWebView2WebResourceResponseViewGetContentCompletedHandler'' ''HRESULT'' ''Invoke'' [''HRESULT errorCode'', ''IStream *content'']]"
  by (simp only: list.map c_method.simps)

lemma ICoreWebView2WebResourceResponseViewGetContentCompletedHandler_views: "ICoreWebView2WebResourceResponseViewGetContentCompletedHandlerVtbl = c_view ICoreWebView2WebResourceResponseViewGetContentCompletedHandler"
  by (rule views_IUnknown [OF ICoreWebView2WebResourceResponseViewGetContentCompletedHandler_def ICoreWebView2WebResourceResponseViewGetContentCompletedHandler_decls])
    (simp only: table_simps ICoreWebView2WebResourceResponseViewGetContentCompletedHandlerVtbl_def)

lemma ICoreWebView2WindowCloseRequestedEventHandler_decls:
  "map (c_method ''ICoreWebView2WindowCloseRequestedEventHandler'')
     [Method ''HRESULT'' ''Invoke'' [''ICoreWebView2 *sender'', ''IUnknown *args'']]
   =
     [CDecl ''ICoreWebView2WindowCloseRequestedEventHandler'' ''HRESULT'' ''Invoke'' [''ICoreWebView2 *sender'', ''IUnknown *args'']]"
  by (simp only: list.map c_method.simps)

lemma ICoreWebView2WindowCloseRequestedEventHandler_views: "ICoreWebView2WindowCloseRequestedEventHandlerVtbl = c_view ICoreWebView2WindowCloseRequestedEventHandler"
  by (rule views_IUnknown [OF ICoreWebView2WindowCloseRequestedEventHandler_def ICoreWebView2WindowCloseRequestedEventHandler_decls])
    (simp only: table_simps ICoreWebView2WindowCloseRequestedEventHandlerVtbl_def)

lemma ICoreWebView2ZoomFactorChangedEventHandler_decls:
  "map (c_method ''ICoreWebView2ZoomFactorChangedEventHandler'')
     [Method ''HRESULT'' ''Invoke'' [''ICoreWebView2Controller *sender'', ''IUnknown *args'']]
   =
     [CDecl ''ICoreWebView2ZoomFactorChangedEventHandler'' ''HRESULT'' ''Invoke'' [''ICoreWebView2Controller *sender'', ''IUnknown *args'']]"
  by (simp only: list.map c_method.simps)

lemma ICoreWebView2ZoomFactorChangedEventHandler_views: "ICoreWebView2ZoomFactorChangedEventHandlerVtbl = c_view ICoreWebView2ZoomFactorChangedEventHandler"
  by (rule views_IUnknown [OF ICoreWebView2ZoomFactorChangedEventHandler_def ICoreWebView2ZoomFactorChangedEventHandler_decls])
    (simp only: table_simps ICoreWebView2ZoomFactorChangedEventHandlerVtbl_def)

lemma ICoreWebView2IsMutedChangedEventHandler_decls:
  "map (c_method ''ICoreWebView2IsMutedChangedEventHandler'')
     [Method ''HRESULT'' ''Invoke'' [''ICoreWebView2 *sender'', ''IUnknown *args'']]
   =
     [CDecl ''ICoreWebView2IsMutedChangedEventHandler'' ''HRESULT'' ''Invoke'' [''ICoreWebView2 *sender'', ''IUnknown *args'']]"
  by (simp only: list.map c_method.simps)

lemma ICoreWebView2IsMutedChangedEventHandler_views: "ICoreWebView2IsMutedChangedEventHandlerVtbl = c_view ICoreWebView2IsMutedChangedEventHandler"
  by (rule views_IUnknown [OF ICoreWebView2IsMutedChangedEventHandler_def ICoreWebView2IsMutedChangedEventHandler_decls])
    (simp only: table_simps ICoreWebView2IsMutedChangedEventHandlerVtbl_def)

lemma ICoreWebView2IsDocumentPlayingAudioChangedEventHandler_decls:
  "map (c_method ''ICoreWebView2IsDocumentPlayingAudioChangedEventHandler'')
     [Method ''HRESULT'' ''Invoke'' [''ICoreWebView2 *sender'', ''IUnknown *args'']]
   =
     [CDecl ''ICoreWebView2IsDocumentPlayingAudioChangedEventHandler'' ''HRESULT'' ''Invoke'' [''ICoreWebView2 *sender'', ''IUnknown *args'']]"
  by (simp only: list.map c_method.simps)

lemma ICoreWebView2IsDocumentPlayingAudioChangedEventHandler_views: "ICoreWebView2IsDocumentPlayingAudioChangedEventHandlerVtbl = c_view ICoreWebView2IsDocumentPlayingAudioChangedEventHandler"
  by (rule views_IUnknown [OF ICoreWebView2IsDocumentPlayingAudioChangedEventHandler_def ICoreWebView2IsDocumentPlayingAudioChangedEventHandler_decls])
    (simp only: table_simps ICoreWebView2IsDocumentPlayingAudioChangedEventHandlerVtbl_def)

lemma ICoreWebView2ProcessInfosChangedEventHandler_decls:
  "map (c_method ''ICoreWebView2ProcessInfosChangedEventHandler'')
     [Method ''HRESULT'' ''Invoke'' [''ICoreWebView2Environment *sender'', ''IUnknown *args'']]
   =
     [CDecl ''ICoreWebView2ProcessInfosChangedEventHandler'' ''HRESULT'' ''Invoke'' [''ICoreWebView2Environment *sender'', ''IUnknown *args'']]"
  by (simp only: list.map c_method.simps)

lemma ICoreWebView2ProcessInfosChangedEventHandler_views: "ICoreWebView2ProcessInfosChangedEventHandlerVtbl = c_view ICoreWebView2ProcessInfosChangedEventHandler"
  by (rule views_IUnknown [OF ICoreWebView2ProcessInfosChangedEventHandler_def ICoreWebView2ProcessInfosChangedEventHandler_decls])
    (simp only: table_simps ICoreWebView2ProcessInfosChangedEventHandlerVtbl_def)

lemma ICoreWebView2FaviconChangedEventHandler_decls:
  "map (c_method ''ICoreWebView2FaviconChangedEventHandler'')
     [Method ''HRESULT'' ''Invoke'' [''ICoreWebView2 *sender'', ''IUnknown *args'']]
   =
     [CDecl ''ICoreWebView2FaviconChangedEventHandler'' ''HRESULT'' ''Invoke'' [''ICoreWebView2 *sender'', ''IUnknown *args'']]"
  by (simp only: list.map c_method.simps)

lemma ICoreWebView2FaviconChangedEventHandler_views: "ICoreWebView2FaviconChangedEventHandlerVtbl = c_view ICoreWebView2FaviconChangedEventHandler"
  by (rule views_IUnknown [OF ICoreWebView2FaviconChangedEventHandler_def ICoreWebView2FaviconChangedEventHandler_decls])
    (simp only: table_simps ICoreWebView2FaviconChangedEventHandlerVtbl_def)

lemma ICoreWebView2GetFaviconCompletedHandler_decls:
  "map (c_method ''ICoreWebView2GetFaviconCompletedHandler'')
     [Method ''HRESULT'' ''Invoke'' [''HRESULT errorCode'', ''IStream *faviconStream'']]
   =
     [CDecl ''ICoreWebView2GetFaviconCompletedHandler'' ''HRESULT'' ''Invoke'' [''HRESULT errorCode'', ''IStream *faviconStream'']]"
  by (simp only: list.map c_method.simps)

lemma ICoreWebView2GetFaviconCompletedHandler_views: "ICoreWebView2GetFaviconCompletedHandlerVtbl = c_view ICoreWebView2GetFaviconCompletedHandler"
  by (rule views_IUnknown [OF ICoreWebView2GetFaviconCompletedHandler_def ICoreWebView2GetFaviconCompletedHandler_decls])
    (simp only: table_simps ICoreWebView2GetFaviconCompletedHandlerVtbl_def)

lemma ICoreWebView2ProfileAddBrowserExtensionCompletedHandler_decls:
  "map (c_method ''ICoreWebView2ProfileAddBrowserExtensionCompletedHandler'')
     [Method ''HRESULT'' ''Invoke'' [''HRESULT errorCode'', ''ICoreWebView2BrowserExtension *extension'']]
   =
     [CDecl ''ICoreWebView2ProfileAddBrowserExtensionCompletedHandler'' ''HRESULT'' ''Invoke'' [''HRESULT errorCode'', ''ICoreWebView2BrowserExtension *extension'']]"
  by (simp only: list.map c_method.simps)

lemma ICoreWebView2ProfileAddBrowserExtensionCompletedHandler_views: "ICoreWebView2ProfileAddBrowserExtensionCompletedHandlerVtbl = c_view ICoreWebView2ProfileAddBrowserExtensionCompletedHandler"
  by (rule views_IUnknown [OF ICoreWebView2ProfileAddBrowserExtensionCompletedHandler_def ICoreWebView2ProfileAddBrowserExtensionCompletedHandler_decls])
    (simp only: table_simps ICoreWebView2ProfileAddBrowserExtensionCompletedHandlerVtbl_def)

lemma ICoreWebView2ProfileGetBrowserExtensionsCompletedHandler_decls:
  "map (c_method ''ICoreWebView2ProfileGetBrowserExtensionsCompletedHandler'')
     [Method ''HRESULT'' ''Invoke'' [''HRESULT errorCode'', ''ICoreWebView2BrowserExtensionList *extensionList'']]
   =
     [CDecl ''ICoreWebView2ProfileGetBrowserExtensionsCompletedHandler'' ''HRESULT'' ''Invoke'' [''HRESULT errorCode'', ''ICoreWebView2BrowserExtensionList *extensionList'']]"
  by (simp only: list.map c_method.simps)

lemma ICoreWebView2ProfileGetBrowserExtensionsCompletedHandler_views: "ICoreWebView2ProfileGetBrowserExtensionsCompletedHandlerVtbl = c_view ICoreWebView2ProfileGetBrowserExtensionsCompletedHandler"
  by (rule views_IUnknown [OF ICoreWebView2ProfileGetBrowserExtensionsCompletedHandler_def ICoreWebView2ProfileGetBrowserExtensionsCompletedHandler_decls])
    (simp only: table_simps ICoreWebView2ProfileGetBrowserExtensionsCompletedHandlerVtbl_def)

lemma ICoreWebView2BrowserExtensionEnableCompletedHandler_decls:
  "map (c_method ''ICoreWebView2BrowserExtensionEnableCompletedHandler'')
     [Method ''HRESULT'' ''Invoke'' [''HRESULT errorCode'']]
   =
     [CDecl ''ICoreWebView2BrowserExtensionEnableCompletedHandler'' ''HRESULT'' ''Invoke'' [''HRESULT errorCode'']]"
  by (simp only: list.map c_method.simps)

lemma ICoreWebView2BrowserExtensionEnableCompletedHandler_views: "ICoreWebView2BrowserExtensionEnableCompletedHandlerVtbl = c_view ICoreWebView2BrowserExtensionEnableCompletedHandler"
  by (rule views_IUnknown [OF ICoreWebView2BrowserExtensionEnableCompletedHandler_def ICoreWebView2BrowserExtensionEnableCompletedHandler_decls])
    (simp only: table_simps ICoreWebView2BrowserExtensionEnableCompletedHandlerVtbl_def)

lemma ICoreWebView2BrowserExtensionRemoveCompletedHandler_decls:
  "map (c_method ''ICoreWebView2BrowserExtensionRemoveCompletedHandler'')
     [Method ''HRESULT'' ''Invoke'' [''HRESULT errorCode'']]
   =
     [CDecl ''ICoreWebView2BrowserExtensionRemoveCompletedHandler'' ''HRESULT'' ''Invoke'' [''HRESULT errorCode'']]"
  by (simp only: list.map c_method.simps)

lemma ICoreWebView2BrowserExtensionRemoveCompletedHandler_views: "ICoreWebView2BrowserExtensionRemoveCompletedHandlerVtbl = c_view ICoreWebView2BrowserExtensionRemoveCompletedHandler"
  by (rule views_IUnknown [OF ICoreWebView2BrowserExtensionRemoveCompletedHandler_def ICoreWebView2BrowserExtensionRemoveCompletedHandler_decls])
    (simp only: table_simps ICoreWebView2BrowserExtensionRemoveCompletedHandlerVtbl_def)

lemma ICoreWebView2ExecuteScriptWithResultCompletedHandler_decls:
  "map (c_method ''ICoreWebView2ExecuteScriptWithResultCompletedHandler'')
     [Method ''HRESULT'' ''Invoke'' [''HRESULT errorCode'', ''ICoreWebView2ExecuteScriptResult *result'']]
   =
     [CDecl ''ICoreWebView2ExecuteScriptWithResultCompletedHandler'' ''HRESULT'' ''Invoke'' [''HRESULT errorCode'', ''ICoreWebView2ExecuteScriptResult *result'']]"
  by (simp only: list.map c_method.simps)

lemma ICoreWebView2ExecuteScriptWithResultCompletedHandler_views: "ICoreWebView2ExecuteScriptWithResultCompletedHandlerVtbl = c_view ICoreWebView2ExecuteScriptWithResultCompletedHandler"
  by (rule views_IUnknown [OF ICoreWebView2ExecuteScriptWithResultCompletedHandler_def ICoreWebView2ExecuteScriptWithResultCompletedHandler_decls])
    (simp only: table_simps ICoreWebView2ExecuteScriptWithResultCompletedHandlerVtbl_def)

definition handlers_tables :: "(iface \<times> vtable) list" where
  "handlers_tables =
     [(ICoreWebView2AcceleratorKeyPressedEventHandler, ICoreWebView2AcceleratorKeyPressedEventHandlerVtbl),
      (ICoreWebView2AddScriptToExecuteOnDocumentCreatedCompletedHandler, ICoreWebView2AddScriptToExecuteOnDocumentCreatedCompletedHandlerVtbl),
      (ICoreWebView2CallDevToolsProtocolMethodCompletedHandler, ICoreWebView2CallDevToolsProtocolMethodCompletedHandlerVtbl),
      (ICoreWebView2CapturePreviewCompletedHandler, ICoreWebView2CapturePreviewCompletedHandlerVtbl),
      (ICoreWebView2BasicAuthenticationRequestedEventHandler, ICoreWebView2BasicAuthenticationRequestedEventHandlerVtbl),
      (ICoreWebView2BrowserProcessExitedEventHandler, ICoreWebView2BrowserProcessExitedEventHandlerVtbl),
      (ICoreWebView2BytesReceivedChangedEventHandler, ICoreWebView2BytesReceivedChangedEventHandlerVtbl),
      (ICoreWebView2ContentLoadingEventHandler, ICoreWebView2ContentLoadingEventHandlerVtbl),
      (ICoreWebView2ContextMenuRequestedEventHandler, ICoreWebView2ContextMenuRequestedEventHandlerVtbl),
      (ICoreWebView2ClearBrowsingDataCompletedHandler, ICoreWebView2ClearBrowsingDataCompletedHandlerVtbl),
      (ICoreWebView2ClientCertificateRequestedEventHandler, ICoreWebView2ClientCertificateRequestedEventHandlerVtbl),
      (ICoreWebView2ClearServerCertificateErrorActionsCompletedHandler, ICoreWebView2ClearServerCertificateErrorActionsCompletedHandlerVtbl),
      (ICoreWebView2CreateCoreWebView2CompositionControllerCompletedHandler, ICoreWebView2CreateCoreWebView2CompositionControllerCompletedHandlerVtbl),
      (ICoreWebView2CreateCoreWebView2ControllerCompletedHandler, ICoreWebView2CreateCoreWebView2ControllerCompletedHandlerVtbl),
      (ICoreWebView2CreateCoreWebView2EnvironmentCompletedHandler, ICoreWebView2CreateCoreWebView2EnvironmentCompletedHandlerVtbl),
      (ICoreWebView2ContainsFullScreenElementChangedEventHandler, ICoreWebView2ContainsFullScreenElementChangedEventHandlerVtbl),
      (ICoreWebView2CursorChangedEventHandler, ICoreWebView2CursorChangedEventHandlerVtbl),
      (ICoreWebView2CustomItemSelectedEventHandler, ICoreWebView2CustomItemSelectedEventHandlerVtbl),
      (ICoreWebView2DocumentTitleChangedEventHandler, ICoreWebView2DocumentTitleChangedEventHandlerVtbl),
      (ICoreWebView2DOMContentLoadedEventHandler, ICoreWebView2DOMContentLoadedEventHandlerVtbl),
      (ICoreWebView2DevToolsProtocolEventReceivedEventHandler, ICoreWebView2DevToolsProtocolEventReceivedEventHandlerVtbl),
      (ICoreWebView2DownloadStartingEventHandler, ICoreWebView2DownloadStartingEventHandlerVtbl),
      (ICoreWebView2EstimatedEndTimeChangedEventHandler, ICoreWebView2EstimatedEndTimeChangedEventHandlerVtbl),
      (ICoreWebView2ExecuteScriptCompletedHandler, ICoreWebView2ExecuteScriptCompletedHandlerVtbl),
      (ICoreWebView2GetProcessExtendedInfosCompletedHandler, ICoreWebView2GetProcessExtendedInfosCompletedHandlerVtbl),
      (ICoreWebView2FrameContentLoadingEventHandler, ICoreWebView2FrameContentLoadingEventHandlerVtbl),
      (ICoreWebView2FrameCreatedEventHandler, ICoreWebView2FrameCreatedEventHandlerVtbl),
      (ICoreWebView2FrameDestroyedEventHandler, ICoreWebView2FrameDestroyedEventHandlerVtbl),
      (ICoreWebView2FrameDOMContentLoadedEventHandler, ICoreWebView2FrameDOMContentLoadedEventHandlerVtbl),
      (ICoreWebView2FrameNameChangedEventHandler, ICoreWebView2FrameNameChangedEventHandlerVtbl),
      (ICoreWebView2FrameNavigationCompletedEventHandler, ICoreWebView2FrameNavigationCompletedEventHandlerVtbl),
      (ICoreWebView2FrameNavigationStartingEventHandler, ICoreWebView2FrameNavigationStartingEventHandlerVtbl),
      (ICoreWebView2FramePermissionRequestedEventHandler, ICoreWebView2FramePermissionRequestedEventHandlerVtbl),
      (ICoreWebView2FrameWebMessageReceivedEventHandler, ICoreWebView2FrameWebMessageReceivedEventHandlerVtbl),
      (ICoreWebView2FocusChangedEventHandler, ICoreWebView2FocusChangedEventHandlerVtbl),
      (ICoreWebView2GetCookiesCompletedHandler, ICoreWebView2GetCookiesCompletedHandlerVtbl),
      (ICoreWebView2GetNonDefaultPermissionSettingsCompletedHandler, ICoreWebView2GetNonDefaultPermissionSettingsCompletedHandlerVtbl),
      (ICoreWebView2HistoryChangedEventHandler, ICoreWebView2HistoryChangedEventHandlerVtbl),
      (ICoreWebView2IsDefaultDownloadDialogOpenChangedEventHandler, ICoreWebView2IsDefaultDownloadDialogOpenChangedEventHandlerVtbl),
      (ICoreWebView2LaunchingExternalUriSchemeEventHandler, ICoreWebView2LaunchingExternalUriSchemeEventHandlerVtbl),
      (ICoreWebView2MoveFocusRequestedEventHandler, ICoreWebView2MoveFocusRequestedEventHandlerVtbl),
      (ICoreWebView2NavigationCompletedEventHandler, ICoreWebView2NavigationCompletedEventHandlerVtbl),
      (ICoreWebView2NavigationStartingEventHandler, ICoreWebView2NavigationStartingEventHandlerVtbl),
      (ICoreWebView2NewBrowserVersionAvailableEventHandler, ICoreWebView2NewBrowserVersionAvailableEventHandlerVtbl),
      (ICoreWebView2NewWindowRequestedEventHandler, ICoreWebView2NewWindowRequestedEventHandlerVtbl),
      (ICoreWebView2PermissionRequestedEventHandler, ICoreWebView2PermissionRequestedEventHandlerVtbl),
      (ICoreWebView2PrintToPdfCompletedHandler, ICoreWebView2PrintToPdfCompletedHandlerVtbl),
      (ICoreWebView2PrintCompletedHandler, ICoreWebView2PrintCompletedHandlerVtbl),
      (ICoreWebView2PrintToPdfStreamCompletedHandler, ICoreWebView2PrintToPdfStreamCompletedHandlerVtbl),
      (ICoreWebView2ProcessFailedEventHandler, ICoreWebView2ProcessFailedEventHandlerVtbl),
      (ICoreWebView2ProfileDeletedEventHandler, ICoreWebView2ProfileDeletedEventHandlerVtbl),
      (ICoreWebView2RasterizationScaleChangedEventHandler, ICoreWebView2RasterizationScaleChangedEventHandlerVtbl),
      (ICoreWebView2ServerCertificateErrorDetectedEventHandler, ICoreWebView2ServerCertificateErrorDetectedEventHandlerVtbl),
      (ICoreWebView2SetPermissionStateCompletedHandler, ICoreWebView2SetPermissionStateCompletedHandlerVtbl),
      (ICoreWebView2ScriptDialogOpeningEventHandler, ICoreWebView2ScriptDialogOpeningEventHandlerVtbl),
      (ICoreWebView2SourceChangedEventHandler, ICoreWebView2SourceChangedEventHandlerVtbl),
      (ICoreWebView2StateChangedEventHandler, ICoreWebView2StateChangedEventHandlerVtbl),
      (ICoreWebView2StatusBarTextChangedEventHandler, ICoreWebView2StatusBarTextChangedEventHandlerVtbl),
      (ICoreWebView2TrySuspendCompletedHandler, ICoreWebView2TrySuspendCompletedHandlerVtbl),
      (ICoreWebView2WebMessageReceivedEventHandler, ICoreWebView2WebMessageReceivedEventHandlerVtbl),
      (ICoreWebView2WebResourceRequestedEventHandler, ICoreWebView2WebResourceRequestedEventHandlerVtbl),
      (ICoreWebView2WebResourceResponseReceivedEventHandler, ICoreWebView2WebResourceResponseReceivedEventHandlerVtbl),
      (ICoreWebView2WebResourceResponseViewGetContentCompletedHandler, ICoreWebView2WebResourceResponseViewGetContentCompletedHandlerVtbl),
      (ICoreWebView2WindowCloseRequestedEventHandler, ICoreWebView2WindowCloseRequestedEventHandlerVtbl),
      (ICoreWebView2ZoomFactorChangedEventHandler, ICoreWebView2ZoomFactorChangedEventHandlerVtbl),
      (ICoreWebView2IsMutedChangedEventHandler, ICoreWebView2IsMutedChangedEventHandlerVtbl),
      (ICoreWebView2IsDocumentPlayingAudioChangedEventHandler, ICoreWebView2IsDocumentPlayingAudioChangedEventHandlerVtbl),
      (ICoreWebView2ProcessInfosChangedEventHandler, ICoreWebView2ProcessInfosChangedEventHandlerVtbl),
      (ICoreWebView2FaviconChangedEventHandler, ICoreWebView2FaviconChangedEventHandlerVtbl),
      (ICoreWebView2GetFaviconCompletedHandler, ICoreWebView2GetFaviconCompletedHandlerVtbl),
      (ICoreWebView2ProfileAddBrowserExtensionCompletedHandler, ICoreWebView2ProfileAddBrowserExtensionCompletedHandlerVtbl),
      (ICoreWebView2ProfileGetBrowserExtensionsCompletedHandler, ICoreWebView2ProfileGetBrowserExtensionsCompletedHandlerVtbl),
      (ICoreWebView2BrowserExtensionEnableCompletedHandler, ICoreWebView2BrowserExtensionEnableCompletedHandlerVtbl),
      (ICoreWebView2BrowserExtensionRemoveCompletedHandler, ICoreWebView2BrowserExtensionRemoveCompletedHandlerVtbl),
      (ICoreWebView2ExecuteScriptWithResultCompletedHandler, ICoreWebView2ExecuteScriptWithResultCompletedHandlerVtbl)]"

lemma handlers_tables_agree: "list_all (\<lambda>(i, v). v = c_view i) handlers_tables"
  by (simp only: handlers_tables_def list.pred_inject prod.case simp_thms
    ICoreWebView2AcceleratorKeyPressedEventHandler_views
    ICoreWebView2AddScriptToExecuteOnDocumentCreatedCompletedHandler_views
    ICoreWebView2CallDevToolsProtocolMethodCompletedHandler_views
    ICoreWebView2CapturePreviewCompletedHandler_views
    ICoreWebView2BasicAuthenticationRequestedEventHandler_views
    ICoreWebView2BrowserProcessExitedEventHandler_views
    ICoreWebView2BytesReceivedChangedEventHandler_views
    ICoreWebView2ContentLoadingEventHandler_views
    ICoreWebView2ContextMenuRequestedEventHandler_views
    ICoreWebView2ClearBrowsingDataCompletedHandler_views
    ICoreWebView2ClientCertificateRequestedEventHandler_views
    ICoreWebView2ClearServerCertificateErrorActionsCompletedHandler_views
    ICoreWebView2CreateCoreWebView2CompositionControllerCompletedHandler_views
    ICoreWebView2CreateCoreWebView2ControllerCompletedHandler_views
    ICoreWebView2CreateCoreWebView2EnvironmentCompletedHandler_views
    ICoreWebView2ContainsFullScreenElementChangedEventHandler_views
    ICoreWebView2CursorChangedEventHandler_views
    ICoreWebView2CustomItemSelectedEventHandler_views
    ICoreWebView2DocumentTitleChangedEventHandler_views
    ICoreWebView2DOMContentLoadedEventHandler_views
    ICoreWebView2DevToolsProtocolEventReceivedEventHandler_views
    ICoreWebView2DownloadStartingEventHandler_views
    ICoreWebView2EstimatedEndTimeChangedEventHandler_views
    ICoreWebView2ExecuteScriptCompletedHandler_views
    ICoreWebView2GetProcessExtendedInfosCompletedHandler_views
    ICoreWebView2FrameContentLoadingEventHandler_views
    ICoreWebView2FrameCreatedEventHandler_views
    ICoreWebView2FrameDestroyedEventHandler_views
    ICoreWebView2FrameDOMContentLoadedEventHandler_views
    ICoreWebView2FrameNameChangedEventHandler_views
    ICoreWebView2FrameNavigationCompletedEventHandler_views
    ICoreWebView2FrameNavigationStartingEventHandler_views
    ICoreWebView2FramePermissionRequestedEventHandler_views
    ICoreWebView2FrameWebMessageReceivedEventHandler_views
    ICoreWebView2FocusChangedEventHandler_views
    ICoreWebView2GetCookiesCompletedHandler_views
    ICoreWebView2GetNonDefaultPermissionSettingsCompletedHandler_views
    ICoreWebView2HistoryChangedEventHandler_views
    ICoreWebView2IsDefaultDownloadDialogOpenChangedEventHandler_views
    ICoreWebView2LaunchingExternalUriSchemeEventHandler_views
    ICoreWebView2MoveFocusRequestedEventHandler_views
    ICoreWebView2NavigationCompletedEventHandler_views
    ICoreWebView2NavigationStartingEventHandler_views
    ICoreWebView2NewBrowserVersionAvailableEventHandler_views
    ICoreWebView2NewWindowRequestedEventHandler_views
    ICoreWebView2PermissionRequestedEventHandler_views
    ICoreWebView2PrintToPdfCompletedHandler_views
    ICoreWebView2PrintCompletedHandler_views
    ICoreWebView2PrintToPdfStreamCompletedHandler_views
    ICoreWebView2ProcessFailedEventHandler_views
    ICoreWebView2ProfileDeletedEventHandler_views
    ICoreWebView2RasterizationScaleChangedEventHandler_views
    ICoreWebView2ServerCertificateErrorDetectedEventHandler_views
    ICoreWebView2SetPermissionStateCompletedHandler_views
    ICoreWebView2ScriptDialogOpeningEventHandler_views
    ICoreWebView2SourceChangedEventHandler_views
    ICoreWebView2StateChangedEventHandler_views
    ICoreWebView2StatusBarTextChangedEventHandler_views
    ICoreWebView2TrySuspendCompletedHandler_views
    ICoreWebView2WebMessageReceivedEventHandler_views
    ICoreWebView2WebResourceRequestedEventHandler_views
    ICoreWebView2WebResourceResponseReceivedEventHandler_views
    ICoreWebView2WebResourceResponseViewGetContentCompletedHandler_views
    ICoreWebView2WindowCloseRequestedEventHandler_views
    ICoreWebView2ZoomFactorChangedEventHandler_views
    ICoreWebView2IsMutedChangedEventHandler_views
    ICoreWebView2IsDocumentPlayingAudioChangedEventHandler_views
    ICoreWebView2ProcessInfosChangedEventHandler_views
    ICoreWebView2FaviconChangedEventHandler_views
    ICoreWebView2GetFaviconCompletedHandler_views
    ICoreWebView2ProfileAddBrowserExtensionCompletedHandler_views
    ICoreWebView2ProfileGetBrowserExtensionsCompletedHandler_views
    ICoreWebView2BrowserExtensionEnableCompletedHandler_views
    ICoreWebView2BrowserExtensionRemoveCompletedHandler_views
    ICoreWebView2ExecuteScriptWithResultCompletedHandler_views)

end
