(* ===== verification/Abi.thy ===== *)
theory Abi
  imports AbiBrowser AbiServices AbiObjects AbiHandlers "HOL-Library.Sublist"
begin

text \<open>
  The two views of \<^verbatim>\<open>WebView2.h\<close> for all interfaces together, and what a caller can rely on because they agree:
  a method has the same slot in either view, and a pointer to an interface can be used as one to its base.
\<close>

definition abi_table :: "(iface \<times> vtable) list" where
  "abi_table = browser_tables @ services_tables @ objects_tables @ handlers_tables"

section \<open>The contract between the two views\<close>

locale com_interface =
  fixes i :: iface and vtbl :: vtable
  assumes views_agree: "vtbl = c_view i"
begin

lemma slots: "slots_of vtbl = map c_decl (cpp_layout i)"
  by (simp add: views_agree c_view_def)

text \<open>The slot of a method that the interface itself declares.\<close>

lemma own_slot:
  assumes "i = Derived n b ms" and "k < length ms"
  shows "slots_of vtbl ! (length (cpp_layout b) + k) = c_method n (ms ! k)"
  using assms by (simp add: slots nth_append)

end

text \<open>Where an interface extends another, the table of the base is the beginning of its own.\<close>

locale com_derived = com_interface i vtbl + base: com_interface b bvtbl
  for i :: iface and vtbl :: vtable and b :: iface and bvtbl :: vtable +
  fixes n :: string and ms :: "cmethod list"
  assumes extends: "i = Derived n b ms"
begin

lemma base_slots: "prefix (slots_of bvtbl) (slots_of vtbl)"
  by (simp add: slots base.slots layout_Derived [OF extends])

end

text \<open>The interfaces that the repository calls or implements.\<close>

interpretation abi_ICoreWebView2: com_interface ICoreWebView2 ICoreWebView2Vtbl
  by unfold_locales (rule ICoreWebView2_views)

interpretation abi_ICoreWebView2_2: com_interface ICoreWebView2_2 ICoreWebView2_2Vtbl
  by unfold_locales (rule ICoreWebView2_2_views)

interpretation abi_ICoreWebView2Controller: com_interface ICoreWebView2Controller ICoreWebView2ControllerVtbl
  by unfold_locales (rule ICoreWebView2Controller_views)

interpretation abi_ICoreWebView2Environment: com_interface ICoreWebView2Environment ICoreWebView2EnvironmentVtbl
  by unfold_locales (rule ICoreWebView2Environment_views)

interpretation abi_ICoreWebView2EnvironmentOptions: com_interface ICoreWebView2EnvironmentOptions ICoreWebView2EnvironmentOptionsVtbl
  by unfold_locales (rule ICoreWebView2EnvironmentOptions_views)

interpretation abi_ICoreWebView2EnvironmentOptions2: com_interface ICoreWebView2EnvironmentOptions2 ICoreWebView2EnvironmentOptions2Vtbl
  by unfold_locales (rule ICoreWebView2EnvironmentOptions2_views)

interpretation abi_ICoreWebView2EnvironmentOptions3: com_interface ICoreWebView2EnvironmentOptions3 ICoreWebView2EnvironmentOptions3Vtbl
  by unfold_locales (rule ICoreWebView2EnvironmentOptions3_views)

interpretation abi_ICoreWebView2EnvironmentOptions4: com_interface ICoreWebView2EnvironmentOptions4 ICoreWebView2EnvironmentOptions4Vtbl
  by unfold_locales (rule ICoreWebView2EnvironmentOptions4_views)

interpretation abi_ICoreWebView2EnvironmentOptions5: com_interface ICoreWebView2EnvironmentOptions5 ICoreWebView2EnvironmentOptions5Vtbl
  by unfold_locales (rule ICoreWebView2EnvironmentOptions5_views)

interpretation abi_ICoreWebView2EnvironmentOptions6: com_interface ICoreWebView2EnvironmentOptions6 ICoreWebView2EnvironmentOptions6Vtbl
  by unfold_locales (rule ICoreWebView2EnvironmentOptions6_views)

interpretation abi_ICoreWebView2CustomSchemeRegistration: com_interface ICoreWebView2CustomSchemeRegistration ICoreWebView2CustomSchemeRegistrationVtbl
  by unfold_locales (rule ICoreWebView2CustomSchemeRegistration_views)

interpretation abi_ICoreWebView2WebResourceRequest: com_interface ICoreWebView2WebResourceRequest ICoreWebView2WebResourceRequestVtbl
  by unfold_locales (rule ICoreWebView2WebResourceRequest_views)

interpretation abi_ICoreWebView2WebResourceRequestedEventArgs: com_interface ICoreWebView2WebResourceRequestedEventArgs ICoreWebView2WebResourceRequestedEventArgsVtbl
  by unfold_locales (rule ICoreWebView2WebResourceRequestedEventArgs_views)

interpretation abi_ICoreWebView2NewWindowRequestedEventArgs: com_interface ICoreWebView2NewWindowRequestedEventArgs ICoreWebView2NewWindowRequestedEventArgsVtbl
  by unfold_locales (rule ICoreWebView2NewWindowRequestedEventArgs_views)

interpretation abi_ICoreWebView2Settings: com_interface ICoreWebView2Settings ICoreWebView2SettingsVtbl
  by unfold_locales (rule ICoreWebView2Settings_views)

interpretation abi_ICoreWebView2Profile: com_interface ICoreWebView2Profile ICoreWebView2ProfileVtbl
  by unfold_locales (rule ICoreWebView2Profile_views)

interpretation abi_ICoreWebView2AcceleratorKeyPressedEventArgs: com_interface ICoreWebView2AcceleratorKeyPressedEventArgs ICoreWebView2AcceleratorKeyPressedEventArgsVtbl
  by unfold_locales (rule ICoreWebView2AcceleratorKeyPressedEventArgs_views)

interpretation abi_ICoreWebView2AcceleratorKeyPressedEventHandler: com_interface ICoreWebView2AcceleratorKeyPressedEventHandler ICoreWebView2AcceleratorKeyPressedEventHandlerVtbl
  by unfold_locales (rule ICoreWebView2AcceleratorKeyPressedEventHandler_views)

interpretation abi_ICoreWebView2ContextMenuRequestedEventHandler: com_interface ICoreWebView2ContextMenuRequestedEventHandler ICoreWebView2ContextMenuRequestedEventHandlerVtbl
  by unfold_locales (rule ICoreWebView2ContextMenuRequestedEventHandler_views)

interpretation abi_ICoreWebView2CreateCoreWebView2ControllerCompletedHandler: com_interface ICoreWebView2CreateCoreWebView2ControllerCompletedHandler ICoreWebView2CreateCoreWebView2ControllerCompletedHandlerVtbl
  by unfold_locales (rule ICoreWebView2CreateCoreWebView2ControllerCompletedHandler_views)

interpretation abi_ICoreWebView2CreateCoreWebView2EnvironmentCompletedHandler: com_interface ICoreWebView2CreateCoreWebView2EnvironmentCompletedHandler ICoreWebView2CreateCoreWebView2EnvironmentCompletedHandlerVtbl
  by unfold_locales (rule ICoreWebView2CreateCoreWebView2EnvironmentCompletedHandler_views)

interpretation abi_ICoreWebView2DOMContentLoadedEventHandler: com_interface ICoreWebView2DOMContentLoadedEventHandler ICoreWebView2DOMContentLoadedEventHandlerVtbl
  by unfold_locales (rule ICoreWebView2DOMContentLoadedEventHandler_views)

interpretation abi_ICoreWebView2NavigationCompletedEventHandler: com_interface ICoreWebView2NavigationCompletedEventHandler ICoreWebView2NavigationCompletedEventHandlerVtbl
  by unfold_locales (rule ICoreWebView2NavigationCompletedEventHandler_views)

interpretation abi_ICoreWebView2NewWindowRequestedEventHandler: com_interface ICoreWebView2NewWindowRequestedEventHandler ICoreWebView2NewWindowRequestedEventHandlerVtbl
  by unfold_locales (rule ICoreWebView2NewWindowRequestedEventHandler_views)

interpretation abi_ICoreWebView2WebResourceRequestedEventHandler: com_interface ICoreWebView2WebResourceRequestedEventHandler ICoreWebView2WebResourceRequestedEventHandlerVtbl
  by unfold_locales (rule ICoreWebView2WebResourceRequestedEventHandler_views)

interpretation abi_ICoreWebView2WebResourceResponse: com_interface ICoreWebView2WebResourceResponse ICoreWebView2WebResourceResponseVtbl
  by unfold_locales (rule ICoreWebView2WebResourceResponse_views)

interpretation abi_ICoreWebView2ContextMenuRequestedEventArgs: com_interface ICoreWebView2ContextMenuRequestedEventArgs ICoreWebView2ContextMenuRequestedEventArgsVtbl
  by unfold_locales (rule ICoreWebView2ContextMenuRequestedEventArgs_views)

interpretation abi_upcast: com_derived ICoreWebView2_2 ICoreWebView2_2Vtbl ICoreWebView2 ICoreWebView2Vtbl
  "''ICoreWebView2_2''" "case ICoreWebView2_2 of Derived n b ms \<Rightarrow> ms | Root n ms \<Rightarrow> ms"
  by unfold_locales (simp add: ICoreWebView2_2_def)

section \<open>Lemmas\<close>

lemma abi_table_views: "(i, v) \<in> set abi_table \<Longrightarrow> com_interface i v"
  using browser_tables_agree services_tables_agree objects_tables_agree handlers_tables_agree
  by unfold_locales (auto simp: abi_table_def list_all_iff)

section \<open>Properties\<close>

text \<open>C34: the two declarations of every interface of the header, the abstract C++ class and the C table, transcribed
  separately, agree. The members of the C table are the methods of the class, inherited ones first, in the same order, each
  declared for the same interface with the same return type, name and parameters, and \<^verbatim>\<open>This\<close> points to the interface
  itself; so code compiled from either view calls the same slot with the same arguments. The table of an interface begins
  with the table of its base, so a pointer to a later version can be used as one to an earlier version.\<close>

theorem abi_views_agree:
  assumes "(i, v) \<in> set abi_table"
  shows "v = Vtable (iface_name i) (map c_decl (cpp_layout i)) \<and>
    (\<forall>n b ms w. i = Derived n b ms \<and> (b, w) \<in> set abi_table \<longrightarrow> prefix (slots_of w) (slots_of v)) \<and>
    (\<forall>n b ms k. i = Derived n b ms \<and> k < length ms \<longrightarrow>
       slots_of v ! (length (cpp_layout b) + k) = c_method n (ms ! k))"
proof (intro conjI allI impI; (elim conjE)?)
  show "v = Vtable (iface_name i) (map c_decl (cpp_layout i))"
    by (rule com_interface.views_agree [OF abi_table_views [OF assms], unfolded c_view_def])
next
  fix n b ms w
  assume e: "i = Derived n b ms" and b: "(b, w) \<in> set abi_table"
  have "com_derived i v b w n ms"
    using abi_table_views [OF assms] abi_table_views [OF b] e by (intro com_derived.intro com_derived_axioms.intro)
  then show "prefix (slots_of w) (slots_of v)" by (rule com_derived.base_slots)
next
  fix n b ms k
  assume "i = Derived n b ms" "k < length ms"
  then show "slots_of v ! (length (cpp_layout b) + k) = c_method n (ms ! k)"
    by (rule com_interface.own_slot [OF abi_table_views [OF assms]])
qed

theorem abi_views_agree_witness:
  "slots_of ICoreWebView2_2Vtbl ! (length (cpp_layout ICoreWebView2) + 2)
     = CDecl ''ICoreWebView2_2'' ''HRESULT'' ''NavigateWithWebResourceRequest'' [''ICoreWebView2WebResourceRequest *request'']
   \<and> prefix (slots_of ICoreWebView2Vtbl) (slots_of ICoreWebView2_2Vtbl)"
proof -
  have m: "(ICoreWebView2_2, ICoreWebView2_2Vtbl) \<in> set abi_table" "(ICoreWebView2, ICoreWebView2Vtbl) \<in> set abi_table"
    by (simp_all add: abi_table_def browser_tables_def)
  let ?ms = "case ICoreWebView2_2 of Derived n b ms \<Rightarrow> ms | Root n ms \<Rightarrow> ms"
  have d: "ICoreWebView2_2 = Derived ''ICoreWebView2_2'' ICoreWebView2 ?ms"
    by (simp add: ICoreWebView2_2_def)
  have k: "2 < length ?ms" "?ms ! 2 = ICoreWebView2_2_NavigateWithWebResourceRequest"
    by (simp_all add: ICoreWebView2_2_def)
  have "slots_of ICoreWebView2_2Vtbl ! (length (cpp_layout ICoreWebView2) + 2) = c_method ''ICoreWebView2_2'' (?ms ! 2)"
    "prefix (slots_of ICoreWebView2Vtbl) (slots_of ICoreWebView2_2Vtbl)"
    using abi_views_agree [OF m(1)] d m(2) k(1) by blast+
  with k(2) show ?thesis by (simp add: ICoreWebView2_2_NavigateWithWebResourceRequest_def)
qed

text \<open>Every handler interface is \<^verbatim>\<open>IUnknown\<close> followed by one method, the form the handler classes of the repository implement.\<close>

theorem handler_tables: "list_all (\<lambda>(i, v). \<exists>n m. i = Derived n IUnknown [m]) handlers_tables"
  by (simp add: handlers_tables_def
    ICoreWebView2AcceleratorKeyPressedEventHandler_def
    ICoreWebView2AddScriptToExecuteOnDocumentCreatedCompletedHandler_def
    ICoreWebView2CallDevToolsProtocolMethodCompletedHandler_def
    ICoreWebView2CapturePreviewCompletedHandler_def
    ICoreWebView2BasicAuthenticationRequestedEventHandler_def
    ICoreWebView2BrowserProcessExitedEventHandler_def
    ICoreWebView2BytesReceivedChangedEventHandler_def
    ICoreWebView2ContentLoadingEventHandler_def
    ICoreWebView2ContextMenuRequestedEventHandler_def
    ICoreWebView2ClearBrowsingDataCompletedHandler_def
    ICoreWebView2ClientCertificateRequestedEventHandler_def
    ICoreWebView2ClearServerCertificateErrorActionsCompletedHandler_def
    ICoreWebView2CreateCoreWebView2CompositionControllerCompletedHandler_def
    ICoreWebView2CreateCoreWebView2ControllerCompletedHandler_def
    ICoreWebView2CreateCoreWebView2EnvironmentCompletedHandler_def
    ICoreWebView2ContainsFullScreenElementChangedEventHandler_def
    ICoreWebView2CursorChangedEventHandler_def
    ICoreWebView2CustomItemSelectedEventHandler_def
    ICoreWebView2DocumentTitleChangedEventHandler_def
    ICoreWebView2DOMContentLoadedEventHandler_def
    ICoreWebView2DevToolsProtocolEventReceivedEventHandler_def
    ICoreWebView2DownloadStartingEventHandler_def
    ICoreWebView2EstimatedEndTimeChangedEventHandler_def
    ICoreWebView2ExecuteScriptCompletedHandler_def
    ICoreWebView2GetProcessExtendedInfosCompletedHandler_def
    ICoreWebView2FrameContentLoadingEventHandler_def
    ICoreWebView2FrameCreatedEventHandler_def
    ICoreWebView2FrameDestroyedEventHandler_def
    ICoreWebView2FrameDOMContentLoadedEventHandler_def
    ICoreWebView2FrameNameChangedEventHandler_def
    ICoreWebView2FrameNavigationCompletedEventHandler_def
    ICoreWebView2FrameNavigationStartingEventHandler_def
    ICoreWebView2FramePermissionRequestedEventHandler_def
    ICoreWebView2FrameWebMessageReceivedEventHandler_def
    ICoreWebView2FocusChangedEventHandler_def
    ICoreWebView2GetCookiesCompletedHandler_def
    ICoreWebView2GetNonDefaultPermissionSettingsCompletedHandler_def
    ICoreWebView2HistoryChangedEventHandler_def
    ICoreWebView2IsDefaultDownloadDialogOpenChangedEventHandler_def
    ICoreWebView2LaunchingExternalUriSchemeEventHandler_def
    ICoreWebView2MoveFocusRequestedEventHandler_def
    ICoreWebView2NavigationCompletedEventHandler_def
    ICoreWebView2NavigationStartingEventHandler_def
    ICoreWebView2NewBrowserVersionAvailableEventHandler_def
    ICoreWebView2NewWindowRequestedEventHandler_def
    ICoreWebView2PermissionRequestedEventHandler_def
    ICoreWebView2PrintToPdfCompletedHandler_def
    ICoreWebView2PrintCompletedHandler_def
    ICoreWebView2PrintToPdfStreamCompletedHandler_def
    ICoreWebView2ProcessFailedEventHandler_def
    ICoreWebView2ProfileDeletedEventHandler_def
    ICoreWebView2RasterizationScaleChangedEventHandler_def
    ICoreWebView2ServerCertificateErrorDetectedEventHandler_def
    ICoreWebView2SetPermissionStateCompletedHandler_def
    ICoreWebView2ScriptDialogOpeningEventHandler_def
    ICoreWebView2SourceChangedEventHandler_def
    ICoreWebView2StateChangedEventHandler_def
    ICoreWebView2StatusBarTextChangedEventHandler_def
    ICoreWebView2TrySuspendCompletedHandler_def
    ICoreWebView2WebMessageReceivedEventHandler_def
    ICoreWebView2WebResourceRequestedEventHandler_def
    ICoreWebView2WebResourceResponseReceivedEventHandler_def
    ICoreWebView2WebResourceResponseViewGetContentCompletedHandler_def
    ICoreWebView2WindowCloseRequestedEventHandler_def
    ICoreWebView2ZoomFactorChangedEventHandler_def
    ICoreWebView2IsMutedChangedEventHandler_def
    ICoreWebView2IsDocumentPlayingAudioChangedEventHandler_def
    ICoreWebView2ProcessInfosChangedEventHandler_def
    ICoreWebView2FaviconChangedEventHandler_def
    ICoreWebView2GetFaviconCompletedHandler_def
    ICoreWebView2ProfileAddBrowserExtensionCompletedHandler_def
    ICoreWebView2ProfileGetBrowserExtensionsCompletedHandler_def
    ICoreWebView2BrowserExtensionEnableCompletedHandler_def
    ICoreWebView2BrowserExtensionRemoveCompletedHandler_def
    ICoreWebView2ExecuteScriptWithResultCompletedHandler_def)

end
