(* ===== verification/CallMacros.thy ===== *)
theory CallMacros
  imports WebView2Abi
begin

text \<open>
  The call macros of the C view in \<^verbatim>\<open>builtin/goc/webview2/WebView2.h\<close> (\<^verbatim>\<open>COBJMACROS\<close>):
  \<^verbatim>\<open>#define I_m(This,p1,...) ( (This)->lpVtbl -> m(This,p1,...) )\<close>. A macro is the method in its name, its parameters
  after \<^verbatim>\<open>This\<close>, the member of the table it calls and the arguments it passes after \<^verbatim>\<open>This\<close>. \<open>macro_of\<close> is the macro
  that a method should have.
\<close>

datatype cmacro = Macro string "string list" string "string list"

text \<open>The name of a declared parameter is what follows its type.\<close>

definition param_name :: "string \<Rightarrow> string" where
  "param_name p = rev (takeWhile (\<lambda>c. c \<noteq> CHR '' '' \<and> c \<noteq> CHR ''*'') (rev p))"

fun macro_of :: "cmethod \<Rightarrow> cmacro" where
  "macro_of (Method r m ps) = Macro m (map param_name ps) m (map param_name ps)"

definition macros_of :: "iface \<Rightarrow> cmacro list" where
  "macros_of i = map (\<lambda>s. macro_of (slot_method s)) (cpp_layout i)"

text \<open>The macros of \<^verbatim>\<open>IUnknown\<close>, which every interface repeats.\<close>

definition IUnknown_QueryInterface_macro :: cmacro where
  "IUnknown_QueryInterface_macro = Macro ''QueryInterface'' [''riid'', ''ppvObject''] ''QueryInterface'' [''riid'', ''ppvObject'']"

definition IUnknown_AddRef_macro :: cmacro where
  "IUnknown_AddRef_macro = Macro ''AddRef'' [] ''AddRef'' []"

definition IUnknown_Release_macro :: cmacro where
  "IUnknown_Release_macro = Macro ''Release'' [] ''Release'' []"

lemma IUnknown_calls:
  "macro_of IUnknown_QueryInterface = IUnknown_QueryInterface_macro"
  "macro_of IUnknown_AddRef = IUnknown_AddRef_macro" "macro_of IUnknown_Release = IUnknown_Release_macro"
  by code_simp+

lemmas calls_simps = list.map list.inject simp_thms

lemmas macro_simps = layout_simps slot_method.simps IUnknown_calls

text \<open>A macro calls the member of its name and passes its parameters on in their order.\<close>

lemma macros_of_nth:
  assumes "k < length (cpp_layout i)" "slot_method (cpp_layout i ! k) = Method r m ps"
  shows "macros_of i ! k = Macro m (map param_name ps) m (map param_name ps)"
  using assms by (simp add: macros_of_def)

end
