(* ===== verification/AbiBrowserCalls.thy ===== *)
theory AbiBrowserCalls
  imports CallMacros AbiBrowser
begin

text \<open>
  \<^verbatim>\<open>builtin/goc/webview2/WebView2.h\<close>: the call macros of
  the versions of \<^verbatim>\<open>ICoreWebView2\<close>. Each interface repeats the macros of its base, as its table repeats the slots: the macros of an interface
  that others extend are named, the others stand in the list of their interface.
\<close>

section \<open>Macros of the methods\<close>

definition ICoreWebView2_get_Settings_macro :: cmacro where
  "ICoreWebView2_get_Settings_macro =
     Macro ''get_Settings'' [''settings''] ''get_Settings'' [''settings'']"

definition ICoreWebView2_get_Source_macro :: cmacro where
  "ICoreWebView2_get_Source_macro =
     Macro ''get_Source'' [''uri''] ''get_Source'' [''uri'']"

definition ICoreWebView2_Navigate_macro :: cmacro where
  "ICoreWebView2_Navigate_macro =
     Macro ''Navigate'' [''uri''] ''Navigate'' [''uri'']"

definition ICoreWebView2_NavigateToString_macro :: cmacro where
  "ICoreWebView2_NavigateToString_macro =
     Macro ''NavigateToString'' [''htmlContent''] ''NavigateToString'' [''htmlContent'']"

definition ICoreWebView2_add_NavigationStarting_macro :: cmacro where
  "ICoreWebView2_add_NavigationStarting_macro =
     Macro ''add_NavigationStarting'' [''eventHandler'', ''token''] ''add_NavigationStarting'' [''eventHandler'', ''token'']"

definition ICoreWebView2_remove_NavigationStarting_macro :: cmacro where
  "ICoreWebView2_remove_NavigationStarting_macro =
     Macro ''remove_NavigationStarting'' [''token''] ''remove_NavigationStarting'' [''token'']"

definition ICoreWebView2_add_ContentLoading_macro :: cmacro where
  "ICoreWebView2_add_ContentLoading_macro =
     Macro ''add_ContentLoading'' [''eventHandler'', ''token''] ''add_ContentLoading'' [''eventHandler'', ''token'']"

definition ICoreWebView2_remove_ContentLoading_macro :: cmacro where
  "ICoreWebView2_remove_ContentLoading_macro =
     Macro ''remove_ContentLoading'' [''token''] ''remove_ContentLoading'' [''token'']"

definition ICoreWebView2_add_SourceChanged_macro :: cmacro where
  "ICoreWebView2_add_SourceChanged_macro =
     Macro ''add_SourceChanged'' [''eventHandler'', ''token''] ''add_SourceChanged'' [''eventHandler'', ''token'']"

definition ICoreWebView2_remove_SourceChanged_macro :: cmacro where
  "ICoreWebView2_remove_SourceChanged_macro =
     Macro ''remove_SourceChanged'' [''token''] ''remove_SourceChanged'' [''token'']"

definition ICoreWebView2_add_HistoryChanged_macro :: cmacro where
  "ICoreWebView2_add_HistoryChanged_macro =
     Macro ''add_HistoryChanged'' [''eventHandler'', ''token''] ''add_HistoryChanged'' [''eventHandler'', ''token'']"

definition ICoreWebView2_remove_HistoryChanged_macro :: cmacro where
  "ICoreWebView2_remove_HistoryChanged_macro =
     Macro ''remove_HistoryChanged'' [''token''] ''remove_HistoryChanged'' [''token'']"

definition ICoreWebView2_add_NavigationCompleted_macro :: cmacro where
  "ICoreWebView2_add_NavigationCompleted_macro =
     Macro ''add_NavigationCompleted'' [''eventHandler'', ''token''] ''add_NavigationCompleted'' [''eventHandler'', ''token'']"

definition ICoreWebView2_remove_NavigationCompleted_macro :: cmacro where
  "ICoreWebView2_remove_NavigationCompleted_macro =
     Macro ''remove_NavigationCompleted'' [''token''] ''remove_NavigationCompleted'' [''token'']"

definition ICoreWebView2_add_FrameNavigationStarting_macro :: cmacro where
  "ICoreWebView2_add_FrameNavigationStarting_macro =
     Macro ''add_FrameNavigationStarting'' [''eventHandler'', ''token''] ''add_FrameNavigationStarting'' [''eventHandler'', ''token'']"

definition ICoreWebView2_remove_FrameNavigationStarting_macro :: cmacro where
  "ICoreWebView2_remove_FrameNavigationStarting_macro =
     Macro ''remove_FrameNavigationStarting'' [''token''] ''remove_FrameNavigationStarting'' [''token'']"

definition ICoreWebView2_add_FrameNavigationCompleted_macro :: cmacro where
  "ICoreWebView2_add_FrameNavigationCompleted_macro =
     Macro ''add_FrameNavigationCompleted'' [''eventHandler'', ''token''] ''add_FrameNavigationCompleted'' [''eventHandler'', ''token'']"

definition ICoreWebView2_remove_FrameNavigationCompleted_macro :: cmacro where
  "ICoreWebView2_remove_FrameNavigationCompleted_macro =
     Macro ''remove_FrameNavigationCompleted'' [''token''] ''remove_FrameNavigationCompleted'' [''token'']"

definition ICoreWebView2_add_ScriptDialogOpening_macro :: cmacro where
  "ICoreWebView2_add_ScriptDialogOpening_macro =
     Macro ''add_ScriptDialogOpening'' [''eventHandler'', ''token''] ''add_ScriptDialogOpening'' [''eventHandler'', ''token'']"

definition ICoreWebView2_remove_ScriptDialogOpening_macro :: cmacro where
  "ICoreWebView2_remove_ScriptDialogOpening_macro =
     Macro ''remove_ScriptDialogOpening'' [''token''] ''remove_ScriptDialogOpening'' [''token'']"

definition ICoreWebView2_add_PermissionRequested_macro :: cmacro where
  "ICoreWebView2_add_PermissionRequested_macro =
     Macro ''add_PermissionRequested'' [''eventHandler'', ''token''] ''add_PermissionRequested'' [''eventHandler'', ''token'']"

definition ICoreWebView2_remove_PermissionRequested_macro :: cmacro where
  "ICoreWebView2_remove_PermissionRequested_macro =
     Macro ''remove_PermissionRequested'' [''token''] ''remove_PermissionRequested'' [''token'']"

definition ICoreWebView2_add_ProcessFailed_macro :: cmacro where
  "ICoreWebView2_add_ProcessFailed_macro =
     Macro ''add_ProcessFailed'' [''eventHandler'', ''token''] ''add_ProcessFailed'' [''eventHandler'', ''token'']"

definition ICoreWebView2_remove_ProcessFailed_macro :: cmacro where
  "ICoreWebView2_remove_ProcessFailed_macro =
     Macro ''remove_ProcessFailed'' [''token''] ''remove_ProcessFailed'' [''token'']"

definition ICoreWebView2_AddScriptToExecuteOnDocumentCreated_macro :: cmacro where
  "ICoreWebView2_AddScriptToExecuteOnDocumentCreated_macro =
     Macro ''AddScriptToExecuteOnDocumentCreated'' [''javaScript'', ''handler''] ''AddScriptToExecuteOnDocumentCreated'' [''javaScript'', ''handler'']"

definition ICoreWebView2_RemoveScriptToExecuteOnDocumentCreated_macro :: cmacro where
  "ICoreWebView2_RemoveScriptToExecuteOnDocumentCreated_macro =
     Macro ''RemoveScriptToExecuteOnDocumentCreated'' [''id''] ''RemoveScriptToExecuteOnDocumentCreated'' [''id'']"

definition ICoreWebView2_ExecuteScript_macro :: cmacro where
  "ICoreWebView2_ExecuteScript_macro =
     Macro ''ExecuteScript'' [''javaScript'', ''handler''] ''ExecuteScript'' [''javaScript'', ''handler'']"

definition ICoreWebView2_CapturePreview_macro :: cmacro where
  "ICoreWebView2_CapturePreview_macro =
     Macro ''CapturePreview'' [''imageFormat'', ''imageStream'', ''handler''] ''CapturePreview'' [''imageFormat'', ''imageStream'', ''handler'']"

definition ICoreWebView2_Reload_macro :: cmacro where
  "ICoreWebView2_Reload_macro =
     Macro ''Reload'' [] ''Reload'' []"

definition ICoreWebView2_PostWebMessageAsJson_macro :: cmacro where
  "ICoreWebView2_PostWebMessageAsJson_macro =
     Macro ''PostWebMessageAsJson'' [''webMessageAsJson''] ''PostWebMessageAsJson'' [''webMessageAsJson'']"

definition ICoreWebView2_PostWebMessageAsString_macro :: cmacro where
  "ICoreWebView2_PostWebMessageAsString_macro =
     Macro ''PostWebMessageAsString'' [''webMessageAsString''] ''PostWebMessageAsString'' [''webMessageAsString'']"

definition ICoreWebView2_add_WebMessageReceived_macro :: cmacro where
  "ICoreWebView2_add_WebMessageReceived_macro =
     Macro ''add_WebMessageReceived'' [''handler'', ''token''] ''add_WebMessageReceived'' [''handler'', ''token'']"

definition ICoreWebView2_remove_WebMessageReceived_macro :: cmacro where
  "ICoreWebView2_remove_WebMessageReceived_macro =
     Macro ''remove_WebMessageReceived'' [''token''] ''remove_WebMessageReceived'' [''token'']"

definition ICoreWebView2_CallDevToolsProtocolMethod_macro :: cmacro where
  "ICoreWebView2_CallDevToolsProtocolMethod_macro =
     Macro ''CallDevToolsProtocolMethod'' [''methodName'', ''parametersAsJson'', ''handler''] ''CallDevToolsProtocolMethod'' [''methodName'', ''parametersAsJson'', ''handler'']"

definition ICoreWebView2_get_BrowserProcessId_macro :: cmacro where
  "ICoreWebView2_get_BrowserProcessId_macro =
     Macro ''get_BrowserProcessId'' [''value''] ''get_BrowserProcessId'' [''value'']"

definition ICoreWebView2_get_CanGoBack_macro :: cmacro where
  "ICoreWebView2_get_CanGoBack_macro =
     Macro ''get_CanGoBack'' [''canGoBack''] ''get_CanGoBack'' [''canGoBack'']"

definition ICoreWebView2_get_CanGoForward_macro :: cmacro where
  "ICoreWebView2_get_CanGoForward_macro =
     Macro ''get_CanGoForward'' [''canGoForward''] ''get_CanGoForward'' [''canGoForward'']"

definition ICoreWebView2_GoBack_macro :: cmacro where
  "ICoreWebView2_GoBack_macro =
     Macro ''GoBack'' [] ''GoBack'' []"

definition ICoreWebView2_GoForward_macro :: cmacro where
  "ICoreWebView2_GoForward_macro =
     Macro ''GoForward'' [] ''GoForward'' []"

definition ICoreWebView2_GetDevToolsProtocolEventReceiver_macro :: cmacro where
  "ICoreWebView2_GetDevToolsProtocolEventReceiver_macro =
     Macro ''GetDevToolsProtocolEventReceiver'' [''eventName'', ''receiver''] ''GetDevToolsProtocolEventReceiver'' [''eventName'', ''receiver'']"

definition ICoreWebView2_Stop_macro :: cmacro where
  "ICoreWebView2_Stop_macro =
     Macro ''Stop'' [] ''Stop'' []"

definition ICoreWebView2_add_NewWindowRequested_macro :: cmacro where
  "ICoreWebView2_add_NewWindowRequested_macro =
     Macro ''add_NewWindowRequested'' [''eventHandler'', ''token''] ''add_NewWindowRequested'' [''eventHandler'', ''token'']"

definition ICoreWebView2_remove_NewWindowRequested_macro :: cmacro where
  "ICoreWebView2_remove_NewWindowRequested_macro =
     Macro ''remove_NewWindowRequested'' [''token''] ''remove_NewWindowRequested'' [''token'']"

definition ICoreWebView2_add_DocumentTitleChanged_macro :: cmacro where
  "ICoreWebView2_add_DocumentTitleChanged_macro =
     Macro ''add_DocumentTitleChanged'' [''eventHandler'', ''token''] ''add_DocumentTitleChanged'' [''eventHandler'', ''token'']"

definition ICoreWebView2_remove_DocumentTitleChanged_macro :: cmacro where
  "ICoreWebView2_remove_DocumentTitleChanged_macro =
     Macro ''remove_DocumentTitleChanged'' [''token''] ''remove_DocumentTitleChanged'' [''token'']"

definition ICoreWebView2_get_DocumentTitle_macro :: cmacro where
  "ICoreWebView2_get_DocumentTitle_macro =
     Macro ''get_DocumentTitle'' [''title''] ''get_DocumentTitle'' [''title'']"

definition ICoreWebView2_AddHostObjectToScript_macro :: cmacro where
  "ICoreWebView2_AddHostObjectToScript_macro =
     Macro ''AddHostObjectToScript'' [''name'', ''object''] ''AddHostObjectToScript'' [''name'', ''object'']"

definition ICoreWebView2_RemoveHostObjectFromScript_macro :: cmacro where
  "ICoreWebView2_RemoveHostObjectFromScript_macro =
     Macro ''RemoveHostObjectFromScript'' [''name''] ''RemoveHostObjectFromScript'' [''name'']"

definition ICoreWebView2_OpenDevToolsWindow_macro :: cmacro where
  "ICoreWebView2_OpenDevToolsWindow_macro =
     Macro ''OpenDevToolsWindow'' [] ''OpenDevToolsWindow'' []"

definition ICoreWebView2_add_ContainsFullScreenElementChanged_macro :: cmacro where
  "ICoreWebView2_add_ContainsFullScreenElementChanged_macro =
     Macro ''add_ContainsFullScreenElementChanged'' [''eventHandler'', ''token''] ''add_ContainsFullScreenElementChanged'' [''eventHandler'', ''token'']"

definition ICoreWebView2_remove_ContainsFullScreenElementChanged_macro :: cmacro where
  "ICoreWebView2_remove_ContainsFullScreenElementChanged_macro =
     Macro ''remove_ContainsFullScreenElementChanged'' [''token''] ''remove_ContainsFullScreenElementChanged'' [''token'']"

definition ICoreWebView2_get_ContainsFullScreenElement_macro :: cmacro where
  "ICoreWebView2_get_ContainsFullScreenElement_macro =
     Macro ''get_ContainsFullScreenElement'' [''containsFullScreenElement''] ''get_ContainsFullScreenElement'' [''containsFullScreenElement'']"

definition ICoreWebView2_add_WebResourceRequested_macro :: cmacro where
  "ICoreWebView2_add_WebResourceRequested_macro =
     Macro ''add_WebResourceRequested'' [''eventHandler'', ''token''] ''add_WebResourceRequested'' [''eventHandler'', ''token'']"

definition ICoreWebView2_remove_WebResourceRequested_macro :: cmacro where
  "ICoreWebView2_remove_WebResourceRequested_macro =
     Macro ''remove_WebResourceRequested'' [''token''] ''remove_WebResourceRequested'' [''token'']"

definition ICoreWebView2_AddWebResourceRequestedFilter_macro :: cmacro where
  "ICoreWebView2_AddWebResourceRequestedFilter_macro =
     Macro ''AddWebResourceRequestedFilter'' [''uri'', ''resourceContext''] ''AddWebResourceRequestedFilter'' [''uri'', ''resourceContext'']"

definition ICoreWebView2_RemoveWebResourceRequestedFilter_macro :: cmacro where
  "ICoreWebView2_RemoveWebResourceRequestedFilter_macro =
     Macro ''RemoveWebResourceRequestedFilter'' [''uri'', ''resourceContext''] ''RemoveWebResourceRequestedFilter'' [''uri'', ''resourceContext'']"

definition ICoreWebView2_add_WindowCloseRequested_macro :: cmacro where
  "ICoreWebView2_add_WindowCloseRequested_macro =
     Macro ''add_WindowCloseRequested'' [''eventHandler'', ''token''] ''add_WindowCloseRequested'' [''eventHandler'', ''token'']"

definition ICoreWebView2_remove_WindowCloseRequested_macro :: cmacro where
  "ICoreWebView2_remove_WindowCloseRequested_macro =
     Macro ''remove_WindowCloseRequested'' [''token''] ''remove_WindowCloseRequested'' [''token'']"

definition ICoreWebView2_2_add_WebResourceResponseReceived_macro :: cmacro where
  "ICoreWebView2_2_add_WebResourceResponseReceived_macro =
     Macro ''add_WebResourceResponseReceived'' [''eventHandler'', ''token''] ''add_WebResourceResponseReceived'' [''eventHandler'', ''token'']"

definition ICoreWebView2_2_remove_WebResourceResponseReceived_macro :: cmacro where
  "ICoreWebView2_2_remove_WebResourceResponseReceived_macro =
     Macro ''remove_WebResourceResponseReceived'' [''token''] ''remove_WebResourceResponseReceived'' [''token'']"

definition ICoreWebView2_2_NavigateWithWebResourceRequest_macro :: cmacro where
  "ICoreWebView2_2_NavigateWithWebResourceRequest_macro =
     Macro ''NavigateWithWebResourceRequest'' [''request''] ''NavigateWithWebResourceRequest'' [''request'']"

definition ICoreWebView2_2_add_DOMContentLoaded_macro :: cmacro where
  "ICoreWebView2_2_add_DOMContentLoaded_macro =
     Macro ''add_DOMContentLoaded'' [''eventHandler'', ''token''] ''add_DOMContentLoaded'' [''eventHandler'', ''token'']"

definition ICoreWebView2_2_remove_DOMContentLoaded_macro :: cmacro where
  "ICoreWebView2_2_remove_DOMContentLoaded_macro =
     Macro ''remove_DOMContentLoaded'' [''token''] ''remove_DOMContentLoaded'' [''token'']"

definition ICoreWebView2_2_get_CookieManager_macro :: cmacro where
  "ICoreWebView2_2_get_CookieManager_macro =
     Macro ''get_CookieManager'' [''cookieManager''] ''get_CookieManager'' [''cookieManager'']"

definition ICoreWebView2_2_get_Environment_macro :: cmacro where
  "ICoreWebView2_2_get_Environment_macro =
     Macro ''get_Environment'' [''environment''] ''get_Environment'' [''environment'']"

definition ICoreWebView2_3_TrySuspend_macro :: cmacro where
  "ICoreWebView2_3_TrySuspend_macro =
     Macro ''TrySuspend'' [''handler''] ''TrySuspend'' [''handler'']"

definition ICoreWebView2_3_Resume_macro :: cmacro where
  "ICoreWebView2_3_Resume_macro =
     Macro ''Resume'' [] ''Resume'' []"

definition ICoreWebView2_3_get_IsSuspended_macro :: cmacro where
  "ICoreWebView2_3_get_IsSuspended_macro =
     Macro ''get_IsSuspended'' [''isSuspended''] ''get_IsSuspended'' [''isSuspended'']"

definition ICoreWebView2_3_SetVirtualHostNameToFolderMapping_macro :: cmacro where
  "ICoreWebView2_3_SetVirtualHostNameToFolderMapping_macro =
     Macro ''SetVirtualHostNameToFolderMapping'' [''hostName'', ''folderPath'', ''accessKind''] ''SetVirtualHostNameToFolderMapping'' [''hostName'', ''folderPath'', ''accessKind'']"

definition ICoreWebView2_3_ClearVirtualHostNameToFolderMapping_macro :: cmacro where
  "ICoreWebView2_3_ClearVirtualHostNameToFolderMapping_macro =
     Macro ''ClearVirtualHostNameToFolderMapping'' [''hostName''] ''ClearVirtualHostNameToFolderMapping'' [''hostName'']"

definition ICoreWebView2_4_add_FrameCreated_macro :: cmacro where
  "ICoreWebView2_4_add_FrameCreated_macro =
     Macro ''add_FrameCreated'' [''eventHandler'', ''token''] ''add_FrameCreated'' [''eventHandler'', ''token'']"

definition ICoreWebView2_4_remove_FrameCreated_macro :: cmacro where
  "ICoreWebView2_4_remove_FrameCreated_macro =
     Macro ''remove_FrameCreated'' [''token''] ''remove_FrameCreated'' [''token'']"

definition ICoreWebView2_4_add_DownloadStarting_macro :: cmacro where
  "ICoreWebView2_4_add_DownloadStarting_macro =
     Macro ''add_DownloadStarting'' [''eventHandler'', ''token''] ''add_DownloadStarting'' [''eventHandler'', ''token'']"

definition ICoreWebView2_4_remove_DownloadStarting_macro :: cmacro where
  "ICoreWebView2_4_remove_DownloadStarting_macro =
     Macro ''remove_DownloadStarting'' [''token''] ''remove_DownloadStarting'' [''token'']"

definition ICoreWebView2_5_add_ClientCertificateRequested_macro :: cmacro where
  "ICoreWebView2_5_add_ClientCertificateRequested_macro =
     Macro ''add_ClientCertificateRequested'' [''eventHandler'', ''token''] ''add_ClientCertificateRequested'' [''eventHandler'', ''token'']"

definition ICoreWebView2_5_remove_ClientCertificateRequested_macro :: cmacro where
  "ICoreWebView2_5_remove_ClientCertificateRequested_macro =
     Macro ''remove_ClientCertificateRequested'' [''token''] ''remove_ClientCertificateRequested'' [''token'']"

definition ICoreWebView2_6_OpenTaskManagerWindow_macro :: cmacro where
  "ICoreWebView2_6_OpenTaskManagerWindow_macro =
     Macro ''OpenTaskManagerWindow'' [] ''OpenTaskManagerWindow'' []"

definition ICoreWebView2_7_PrintToPdf_macro :: cmacro where
  "ICoreWebView2_7_PrintToPdf_macro =
     Macro ''PrintToPdf'' [''resultFilePath'', ''printSettings'', ''handler''] ''PrintToPdf'' [''resultFilePath'', ''printSettings'', ''handler'']"

definition ICoreWebView2_8_add_IsMutedChanged_macro :: cmacro where
  "ICoreWebView2_8_add_IsMutedChanged_macro =
     Macro ''add_IsMutedChanged'' [''eventHandler'', ''token''] ''add_IsMutedChanged'' [''eventHandler'', ''token'']"

definition ICoreWebView2_8_remove_IsMutedChanged_macro :: cmacro where
  "ICoreWebView2_8_remove_IsMutedChanged_macro =
     Macro ''remove_IsMutedChanged'' [''token''] ''remove_IsMutedChanged'' [''token'']"

definition ICoreWebView2_8_get_IsMuted_macro :: cmacro where
  "ICoreWebView2_8_get_IsMuted_macro =
     Macro ''get_IsMuted'' [''value''] ''get_IsMuted'' [''value'']"

definition ICoreWebView2_8_put_IsMuted_macro :: cmacro where
  "ICoreWebView2_8_put_IsMuted_macro =
     Macro ''put_IsMuted'' [''value''] ''put_IsMuted'' [''value'']"

definition ICoreWebView2_8_add_IsDocumentPlayingAudioChanged_macro :: cmacro where
  "ICoreWebView2_8_add_IsDocumentPlayingAudioChanged_macro =
     Macro ''add_IsDocumentPlayingAudioChanged'' [''eventHandler'', ''token''] ''add_IsDocumentPlayingAudioChanged'' [''eventHandler'', ''token'']"

definition ICoreWebView2_8_remove_IsDocumentPlayingAudioChanged_macro :: cmacro where
  "ICoreWebView2_8_remove_IsDocumentPlayingAudioChanged_macro =
     Macro ''remove_IsDocumentPlayingAudioChanged'' [''token''] ''remove_IsDocumentPlayingAudioChanged'' [''token'']"

definition ICoreWebView2_8_get_IsDocumentPlayingAudio_macro :: cmacro where
  "ICoreWebView2_8_get_IsDocumentPlayingAudio_macro =
     Macro ''get_IsDocumentPlayingAudio'' [''value''] ''get_IsDocumentPlayingAudio'' [''value'']"

definition ICoreWebView2_9_add_IsDefaultDownloadDialogOpenChanged_macro :: cmacro where
  "ICoreWebView2_9_add_IsDefaultDownloadDialogOpenChanged_macro =
     Macro ''add_IsDefaultDownloadDialogOpenChanged'' [''handler'', ''token''] ''add_IsDefaultDownloadDialogOpenChanged'' [''handler'', ''token'']"

definition ICoreWebView2_9_remove_IsDefaultDownloadDialogOpenChanged_macro :: cmacro where
  "ICoreWebView2_9_remove_IsDefaultDownloadDialogOpenChanged_macro =
     Macro ''remove_IsDefaultDownloadDialogOpenChanged'' [''token''] ''remove_IsDefaultDownloadDialogOpenChanged'' [''token'']"

definition ICoreWebView2_9_get_IsDefaultDownloadDialogOpen_macro :: cmacro where
  "ICoreWebView2_9_get_IsDefaultDownloadDialogOpen_macro =
     Macro ''get_IsDefaultDownloadDialogOpen'' [''value''] ''get_IsDefaultDownloadDialogOpen'' [''value'']"

definition ICoreWebView2_9_OpenDefaultDownloadDialog_macro :: cmacro where
  "ICoreWebView2_9_OpenDefaultDownloadDialog_macro =
     Macro ''OpenDefaultDownloadDialog'' [] ''OpenDefaultDownloadDialog'' []"

definition ICoreWebView2_9_CloseDefaultDownloadDialog_macro :: cmacro where
  "ICoreWebView2_9_CloseDefaultDownloadDialog_macro =
     Macro ''CloseDefaultDownloadDialog'' [] ''CloseDefaultDownloadDialog'' []"

definition ICoreWebView2_9_get_DefaultDownloadDialogCornerAlignment_macro :: cmacro where
  "ICoreWebView2_9_get_DefaultDownloadDialogCornerAlignment_macro =
     Macro ''get_DefaultDownloadDialogCornerAlignment'' [''value''] ''get_DefaultDownloadDialogCornerAlignment'' [''value'']"

definition ICoreWebView2_9_put_DefaultDownloadDialogCornerAlignment_macro :: cmacro where
  "ICoreWebView2_9_put_DefaultDownloadDialogCornerAlignment_macro =
     Macro ''put_DefaultDownloadDialogCornerAlignment'' [''value''] ''put_DefaultDownloadDialogCornerAlignment'' [''value'']"

definition ICoreWebView2_9_get_DefaultDownloadDialogMargin_macro :: cmacro where
  "ICoreWebView2_9_get_DefaultDownloadDialogMargin_macro =
     Macro ''get_DefaultDownloadDialogMargin'' [''value''] ''get_DefaultDownloadDialogMargin'' [''value'']"

definition ICoreWebView2_9_put_DefaultDownloadDialogMargin_macro :: cmacro where
  "ICoreWebView2_9_put_DefaultDownloadDialogMargin_macro =
     Macro ''put_DefaultDownloadDialogMargin'' [''value''] ''put_DefaultDownloadDialogMargin'' [''value'']"

definition ICoreWebView2_10_add_BasicAuthenticationRequested_macro :: cmacro where
  "ICoreWebView2_10_add_BasicAuthenticationRequested_macro =
     Macro ''add_BasicAuthenticationRequested'' [''eventHandler'', ''token''] ''add_BasicAuthenticationRequested'' [''eventHandler'', ''token'']"

definition ICoreWebView2_10_remove_BasicAuthenticationRequested_macro :: cmacro where
  "ICoreWebView2_10_remove_BasicAuthenticationRequested_macro =
     Macro ''remove_BasicAuthenticationRequested'' [''token''] ''remove_BasicAuthenticationRequested'' [''token'']"

definition ICoreWebView2_11_CallDevToolsProtocolMethodForSession_macro :: cmacro where
  "ICoreWebView2_11_CallDevToolsProtocolMethodForSession_macro =
     Macro ''CallDevToolsProtocolMethodForSession'' [''sessionId'', ''methodName'', ''parametersAsJson'', ''handler''] ''CallDevToolsProtocolMethodForSession'' [''sessionId'', ''methodName'', ''parametersAsJson'', ''handler'']"

definition ICoreWebView2_11_add_ContextMenuRequested_macro :: cmacro where
  "ICoreWebView2_11_add_ContextMenuRequested_macro =
     Macro ''add_ContextMenuRequested'' [''eventHandler'', ''token''] ''add_ContextMenuRequested'' [''eventHandler'', ''token'']"

definition ICoreWebView2_11_remove_ContextMenuRequested_macro :: cmacro where
  "ICoreWebView2_11_remove_ContextMenuRequested_macro =
     Macro ''remove_ContextMenuRequested'' [''token''] ''remove_ContextMenuRequested'' [''token'']"

definition ICoreWebView2_12_add_StatusBarTextChanged_macro :: cmacro where
  "ICoreWebView2_12_add_StatusBarTextChanged_macro =
     Macro ''add_StatusBarTextChanged'' [''eventHandler'', ''token''] ''add_StatusBarTextChanged'' [''eventHandler'', ''token'']"

definition ICoreWebView2_12_remove_StatusBarTextChanged_macro :: cmacro where
  "ICoreWebView2_12_remove_StatusBarTextChanged_macro =
     Macro ''remove_StatusBarTextChanged'' [''token''] ''remove_StatusBarTextChanged'' [''token'']"

definition ICoreWebView2_12_get_StatusBarText_macro :: cmacro where
  "ICoreWebView2_12_get_StatusBarText_macro =
     Macro ''get_StatusBarText'' [''value''] ''get_StatusBarText'' [''value'']"

definition ICoreWebView2_13_get_Profile_macro :: cmacro where
  "ICoreWebView2_13_get_Profile_macro =
     Macro ''get_Profile'' [''value''] ''get_Profile'' [''value'']"

definition ICoreWebView2_14_add_ServerCertificateErrorDetected_macro :: cmacro where
  "ICoreWebView2_14_add_ServerCertificateErrorDetected_macro =
     Macro ''add_ServerCertificateErrorDetected'' [''eventHandler'', ''token''] ''add_ServerCertificateErrorDetected'' [''eventHandler'', ''token'']"

definition ICoreWebView2_14_remove_ServerCertificateErrorDetected_macro :: cmacro where
  "ICoreWebView2_14_remove_ServerCertificateErrorDetected_macro =
     Macro ''remove_ServerCertificateErrorDetected'' [''token''] ''remove_ServerCertificateErrorDetected'' [''token'']"

definition ICoreWebView2_14_ClearServerCertificateErrorActions_macro :: cmacro where
  "ICoreWebView2_14_ClearServerCertificateErrorActions_macro =
     Macro ''ClearServerCertificateErrorActions'' [''handler''] ''ClearServerCertificateErrorActions'' [''handler'']"

definition ICoreWebView2_15_add_FaviconChanged_macro :: cmacro where
  "ICoreWebView2_15_add_FaviconChanged_macro =
     Macro ''add_FaviconChanged'' [''eventHandler'', ''token''] ''add_FaviconChanged'' [''eventHandler'', ''token'']"

definition ICoreWebView2_15_remove_FaviconChanged_macro :: cmacro where
  "ICoreWebView2_15_remove_FaviconChanged_macro =
     Macro ''remove_FaviconChanged'' [''token''] ''remove_FaviconChanged'' [''token'']"

definition ICoreWebView2_15_get_FaviconUri_macro :: cmacro where
  "ICoreWebView2_15_get_FaviconUri_macro =
     Macro ''get_FaviconUri'' [''value''] ''get_FaviconUri'' [''value'']"

definition ICoreWebView2_15_GetFavicon_macro :: cmacro where
  "ICoreWebView2_15_GetFavicon_macro =
     Macro ''GetFavicon'' [''format'', ''completedHandler''] ''GetFavicon'' [''format'', ''completedHandler'']"

definition ICoreWebView2_16_Print_macro :: cmacro where
  "ICoreWebView2_16_Print_macro =
     Macro ''Print'' [''printSettings'', ''handler''] ''Print'' [''printSettings'', ''handler'']"

definition ICoreWebView2_16_ShowPrintUI_macro :: cmacro where
  "ICoreWebView2_16_ShowPrintUI_macro =
     Macro ''ShowPrintUI'' [''printDialogKind''] ''ShowPrintUI'' [''printDialogKind'']"

definition ICoreWebView2_16_PrintToPdfStream_macro :: cmacro where
  "ICoreWebView2_16_PrintToPdfStream_macro =
     Macro ''PrintToPdfStream'' [''printSettings'', ''handler''] ''PrintToPdfStream'' [''printSettings'', ''handler'']"

definition ICoreWebView2_17_PostSharedBufferToScript_macro :: cmacro where
  "ICoreWebView2_17_PostSharedBufferToScript_macro =
     Macro ''PostSharedBufferToScript'' [''sharedBuffer'', ''access'', ''additionalDataAsJson''] ''PostSharedBufferToScript'' [''sharedBuffer'', ''access'', ''additionalDataAsJson'']"

definition ICoreWebView2_18_add_LaunchingExternalUriScheme_macro :: cmacro where
  "ICoreWebView2_18_add_LaunchingExternalUriScheme_macro =
     Macro ''add_LaunchingExternalUriScheme'' [''eventHandler'', ''token''] ''add_LaunchingExternalUriScheme'' [''eventHandler'', ''token'']"

definition ICoreWebView2_18_remove_LaunchingExternalUriScheme_macro :: cmacro where
  "ICoreWebView2_18_remove_LaunchingExternalUriScheme_macro =
     Macro ''remove_LaunchingExternalUriScheme'' [''token''] ''remove_LaunchingExternalUriScheme'' [''token'']"

definition ICoreWebView2_19_get_MemoryUsageTargetLevel_macro :: cmacro where
  "ICoreWebView2_19_get_MemoryUsageTargetLevel_macro =
     Macro ''get_MemoryUsageTargetLevel'' [''level''] ''get_MemoryUsageTargetLevel'' [''level'']"

definition ICoreWebView2_19_put_MemoryUsageTargetLevel_macro :: cmacro where
  "ICoreWebView2_19_put_MemoryUsageTargetLevel_macro =
     Macro ''put_MemoryUsageTargetLevel'' [''level''] ''put_MemoryUsageTargetLevel'' [''level'']"

definition ICoreWebView2_20_get_FrameId_macro :: cmacro where
  "ICoreWebView2_20_get_FrameId_macro =
     Macro ''get_FrameId'' [''id''] ''get_FrameId'' [''id'']"

definition ICoreWebView2_21_ExecuteScriptWithResult_macro :: cmacro where
  "ICoreWebView2_21_ExecuteScriptWithResult_macro =
     Macro ''ExecuteScriptWithResult'' [''javaScript'', ''handler''] ''ExecuteScriptWithResult'' [''javaScript'', ''handler'']"

section \<open>Macros of the interfaces\<close>

definition ICoreWebView2_macros_1 :: "cmacro list" where
  "ICoreWebView2_macros_1 =
     [IUnknown_QueryInterface_macro, IUnknown_AddRef_macro, IUnknown_Release_macro, ICoreWebView2_get_Settings_macro,
      ICoreWebView2_get_Source_macro, ICoreWebView2_Navigate_macro, ICoreWebView2_NavigateToString_macro,
      ICoreWebView2_add_NavigationStarting_macro, ICoreWebView2_remove_NavigationStarting_macro,
      ICoreWebView2_add_ContentLoading_macro, ICoreWebView2_remove_ContentLoading_macro,
      ICoreWebView2_add_SourceChanged_macro, ICoreWebView2_remove_SourceChanged_macro,
      ICoreWebView2_add_HistoryChanged_macro, ICoreWebView2_remove_HistoryChanged_macro,
      ICoreWebView2_add_NavigationCompleted_macro, ICoreWebView2_remove_NavigationCompleted_macro,
      ICoreWebView2_add_FrameNavigationStarting_macro, ICoreWebView2_remove_FrameNavigationStarting_macro,
      ICoreWebView2_add_FrameNavigationCompleted_macro, ICoreWebView2_remove_FrameNavigationCompleted_macro,
      ICoreWebView2_add_ScriptDialogOpening_macro, ICoreWebView2_remove_ScriptDialogOpening_macro,
      ICoreWebView2_add_PermissionRequested_macro, ICoreWebView2_remove_PermissionRequested_macro,
      ICoreWebView2_add_ProcessFailed_macro, ICoreWebView2_remove_ProcessFailed_macro,
      ICoreWebView2_AddScriptToExecuteOnDocumentCreated_macro,
      ICoreWebView2_RemoveScriptToExecuteOnDocumentCreated_macro, ICoreWebView2_ExecuteScript_macro,
      ICoreWebView2_CapturePreview_macro, ICoreWebView2_Reload_macro, ICoreWebView2_PostWebMessageAsJson_macro,
      ICoreWebView2_PostWebMessageAsString_macro, ICoreWebView2_add_WebMessageReceived_macro,
      ICoreWebView2_remove_WebMessageReceived_macro, ICoreWebView2_CallDevToolsProtocolMethod_macro,
      ICoreWebView2_get_BrowserProcessId_macro, ICoreWebView2_get_CanGoBack_macro,
      ICoreWebView2_get_CanGoForward_macro, ICoreWebView2_GoBack_macro, ICoreWebView2_GoForward_macro,
      ICoreWebView2_GetDevToolsProtocolEventReceiver_macro, ICoreWebView2_Stop_macro,
      ICoreWebView2_add_NewWindowRequested_macro, ICoreWebView2_remove_NewWindowRequested_macro,
      ICoreWebView2_add_DocumentTitleChanged_macro, ICoreWebView2_remove_DocumentTitleChanged_macro,
      ICoreWebView2_get_DocumentTitle_macro]"

definition ICoreWebView2_macros_2 :: "cmacro list" where
  "ICoreWebView2_macros_2 =
     [ICoreWebView2_AddHostObjectToScript_macro, ICoreWebView2_RemoveHostObjectFromScript_macro,
      ICoreWebView2_OpenDevToolsWindow_macro, ICoreWebView2_add_ContainsFullScreenElementChanged_macro,
      ICoreWebView2_remove_ContainsFullScreenElementChanged_macro, ICoreWebView2_get_ContainsFullScreenElement_macro,
      ICoreWebView2_add_WebResourceRequested_macro, ICoreWebView2_remove_WebResourceRequested_macro,
      ICoreWebView2_AddWebResourceRequestedFilter_macro, ICoreWebView2_RemoveWebResourceRequestedFilter_macro,
      ICoreWebView2_add_WindowCloseRequested_macro, ICoreWebView2_remove_WindowCloseRequested_macro]"

definition ICoreWebView2_macros :: "cmacro list" where
  "ICoreWebView2_macros = ICoreWebView2_macros_1 @ ICoreWebView2_macros_2"

definition ICoreWebView2_2_macros_1 :: "cmacro list" where
  "ICoreWebView2_2_macros_1 =
     [IUnknown_QueryInterface_macro, IUnknown_AddRef_macro, IUnknown_Release_macro, ICoreWebView2_get_Settings_macro,
      ICoreWebView2_get_Source_macro, ICoreWebView2_Navigate_macro, ICoreWebView2_NavigateToString_macro,
      ICoreWebView2_add_NavigationStarting_macro, ICoreWebView2_remove_NavigationStarting_macro,
      ICoreWebView2_add_ContentLoading_macro, ICoreWebView2_remove_ContentLoading_macro,
      ICoreWebView2_add_SourceChanged_macro, ICoreWebView2_remove_SourceChanged_macro,
      ICoreWebView2_add_HistoryChanged_macro, ICoreWebView2_remove_HistoryChanged_macro,
      ICoreWebView2_add_NavigationCompleted_macro, ICoreWebView2_remove_NavigationCompleted_macro,
      ICoreWebView2_add_FrameNavigationStarting_macro, ICoreWebView2_remove_FrameNavigationStarting_macro,
      ICoreWebView2_add_FrameNavigationCompleted_macro, ICoreWebView2_remove_FrameNavigationCompleted_macro,
      ICoreWebView2_add_ScriptDialogOpening_macro, ICoreWebView2_remove_ScriptDialogOpening_macro,
      ICoreWebView2_add_PermissionRequested_macro, ICoreWebView2_remove_PermissionRequested_macro,
      ICoreWebView2_add_ProcessFailed_macro, ICoreWebView2_remove_ProcessFailed_macro,
      ICoreWebView2_AddScriptToExecuteOnDocumentCreated_macro,
      ICoreWebView2_RemoveScriptToExecuteOnDocumentCreated_macro, ICoreWebView2_ExecuteScript_macro,
      ICoreWebView2_CapturePreview_macro, ICoreWebView2_Reload_macro, ICoreWebView2_PostWebMessageAsJson_macro,
      ICoreWebView2_PostWebMessageAsString_macro, ICoreWebView2_add_WebMessageReceived_macro,
      ICoreWebView2_remove_WebMessageReceived_macro, ICoreWebView2_CallDevToolsProtocolMethod_macro,
      ICoreWebView2_get_BrowserProcessId_macro, ICoreWebView2_get_CanGoBack_macro,
      ICoreWebView2_get_CanGoForward_macro, ICoreWebView2_GoBack_macro, ICoreWebView2_GoForward_macro,
      ICoreWebView2_GetDevToolsProtocolEventReceiver_macro, ICoreWebView2_Stop_macro,
      ICoreWebView2_add_NewWindowRequested_macro, ICoreWebView2_remove_NewWindowRequested_macro,
      ICoreWebView2_add_DocumentTitleChanged_macro, ICoreWebView2_remove_DocumentTitleChanged_macro,
      ICoreWebView2_get_DocumentTitle_macro]"

definition ICoreWebView2_2_macros_2 :: "cmacro list" where
  "ICoreWebView2_2_macros_2 =
     [ICoreWebView2_AddHostObjectToScript_macro, ICoreWebView2_RemoveHostObjectFromScript_macro,
      ICoreWebView2_OpenDevToolsWindow_macro, ICoreWebView2_add_ContainsFullScreenElementChanged_macro,
      ICoreWebView2_remove_ContainsFullScreenElementChanged_macro, ICoreWebView2_get_ContainsFullScreenElement_macro,
      ICoreWebView2_add_WebResourceRequested_macro, ICoreWebView2_remove_WebResourceRequested_macro,
      ICoreWebView2_AddWebResourceRequestedFilter_macro, ICoreWebView2_RemoveWebResourceRequestedFilter_macro,
      ICoreWebView2_add_WindowCloseRequested_macro, ICoreWebView2_remove_WindowCloseRequested_macro,
      ICoreWebView2_2_add_WebResourceResponseReceived_macro,
      ICoreWebView2_2_remove_WebResourceResponseReceived_macro, ICoreWebView2_2_NavigateWithWebResourceRequest_macro,
      ICoreWebView2_2_add_DOMContentLoaded_macro, ICoreWebView2_2_remove_DOMContentLoaded_macro,
      ICoreWebView2_2_get_CookieManager_macro, ICoreWebView2_2_get_Environment_macro]"

definition ICoreWebView2_2_macros :: "cmacro list" where
  "ICoreWebView2_2_macros = ICoreWebView2_2_macros_1 @ ICoreWebView2_2_macros_2"

definition ICoreWebView2_3_macros_1 :: "cmacro list" where
  "ICoreWebView2_3_macros_1 =
     [IUnknown_QueryInterface_macro, IUnknown_AddRef_macro, IUnknown_Release_macro, ICoreWebView2_get_Settings_macro,
      ICoreWebView2_get_Source_macro, ICoreWebView2_Navigate_macro, ICoreWebView2_NavigateToString_macro,
      ICoreWebView2_add_NavigationStarting_macro, ICoreWebView2_remove_NavigationStarting_macro,
      ICoreWebView2_add_ContentLoading_macro, ICoreWebView2_remove_ContentLoading_macro,
      ICoreWebView2_add_SourceChanged_macro, ICoreWebView2_remove_SourceChanged_macro,
      ICoreWebView2_add_HistoryChanged_macro, ICoreWebView2_remove_HistoryChanged_macro,
      ICoreWebView2_add_NavigationCompleted_macro, ICoreWebView2_remove_NavigationCompleted_macro,
      ICoreWebView2_add_FrameNavigationStarting_macro, ICoreWebView2_remove_FrameNavigationStarting_macro,
      ICoreWebView2_add_FrameNavigationCompleted_macro, ICoreWebView2_remove_FrameNavigationCompleted_macro,
      ICoreWebView2_add_ScriptDialogOpening_macro, ICoreWebView2_remove_ScriptDialogOpening_macro,
      ICoreWebView2_add_PermissionRequested_macro, ICoreWebView2_remove_PermissionRequested_macro,
      ICoreWebView2_add_ProcessFailed_macro, ICoreWebView2_remove_ProcessFailed_macro,
      ICoreWebView2_AddScriptToExecuteOnDocumentCreated_macro,
      ICoreWebView2_RemoveScriptToExecuteOnDocumentCreated_macro, ICoreWebView2_ExecuteScript_macro,
      ICoreWebView2_CapturePreview_macro, ICoreWebView2_Reload_macro, ICoreWebView2_PostWebMessageAsJson_macro,
      ICoreWebView2_PostWebMessageAsString_macro, ICoreWebView2_add_WebMessageReceived_macro,
      ICoreWebView2_remove_WebMessageReceived_macro, ICoreWebView2_CallDevToolsProtocolMethod_macro,
      ICoreWebView2_get_BrowserProcessId_macro, ICoreWebView2_get_CanGoBack_macro,
      ICoreWebView2_get_CanGoForward_macro, ICoreWebView2_GoBack_macro, ICoreWebView2_GoForward_macro,
      ICoreWebView2_GetDevToolsProtocolEventReceiver_macro, ICoreWebView2_Stop_macro,
      ICoreWebView2_add_NewWindowRequested_macro, ICoreWebView2_remove_NewWindowRequested_macro,
      ICoreWebView2_add_DocumentTitleChanged_macro, ICoreWebView2_remove_DocumentTitleChanged_macro,
      ICoreWebView2_get_DocumentTitle_macro]"

definition ICoreWebView2_3_macros_2 :: "cmacro list" where
  "ICoreWebView2_3_macros_2 =
     [ICoreWebView2_AddHostObjectToScript_macro, ICoreWebView2_RemoveHostObjectFromScript_macro,
      ICoreWebView2_OpenDevToolsWindow_macro, ICoreWebView2_add_ContainsFullScreenElementChanged_macro,
      ICoreWebView2_remove_ContainsFullScreenElementChanged_macro, ICoreWebView2_get_ContainsFullScreenElement_macro,
      ICoreWebView2_add_WebResourceRequested_macro, ICoreWebView2_remove_WebResourceRequested_macro,
      ICoreWebView2_AddWebResourceRequestedFilter_macro, ICoreWebView2_RemoveWebResourceRequestedFilter_macro,
      ICoreWebView2_add_WindowCloseRequested_macro, ICoreWebView2_remove_WindowCloseRequested_macro,
      ICoreWebView2_2_add_WebResourceResponseReceived_macro,
      ICoreWebView2_2_remove_WebResourceResponseReceived_macro, ICoreWebView2_2_NavigateWithWebResourceRequest_macro,
      ICoreWebView2_2_add_DOMContentLoaded_macro, ICoreWebView2_2_remove_DOMContentLoaded_macro,
      ICoreWebView2_2_get_CookieManager_macro, ICoreWebView2_2_get_Environment_macro,
      ICoreWebView2_3_TrySuspend_macro, ICoreWebView2_3_Resume_macro, ICoreWebView2_3_get_IsSuspended_macro,
      ICoreWebView2_3_SetVirtualHostNameToFolderMapping_macro,
      ICoreWebView2_3_ClearVirtualHostNameToFolderMapping_macro]"

definition ICoreWebView2_3_macros :: "cmacro list" where
  "ICoreWebView2_3_macros = ICoreWebView2_3_macros_1 @ ICoreWebView2_3_macros_2"

definition ICoreWebView2_4_macros_1 :: "cmacro list" where
  "ICoreWebView2_4_macros_1 =
     [IUnknown_QueryInterface_macro, IUnknown_AddRef_macro, IUnknown_Release_macro, ICoreWebView2_get_Settings_macro,
      ICoreWebView2_get_Source_macro, ICoreWebView2_Navigate_macro, ICoreWebView2_NavigateToString_macro,
      ICoreWebView2_add_NavigationStarting_macro, ICoreWebView2_remove_NavigationStarting_macro,
      ICoreWebView2_add_ContentLoading_macro, ICoreWebView2_remove_ContentLoading_macro,
      ICoreWebView2_add_SourceChanged_macro, ICoreWebView2_remove_SourceChanged_macro,
      ICoreWebView2_add_HistoryChanged_macro, ICoreWebView2_remove_HistoryChanged_macro,
      ICoreWebView2_add_NavigationCompleted_macro, ICoreWebView2_remove_NavigationCompleted_macro,
      ICoreWebView2_add_FrameNavigationStarting_macro, ICoreWebView2_remove_FrameNavigationStarting_macro,
      ICoreWebView2_add_FrameNavigationCompleted_macro, ICoreWebView2_remove_FrameNavigationCompleted_macro,
      ICoreWebView2_add_ScriptDialogOpening_macro, ICoreWebView2_remove_ScriptDialogOpening_macro,
      ICoreWebView2_add_PermissionRequested_macro, ICoreWebView2_remove_PermissionRequested_macro,
      ICoreWebView2_add_ProcessFailed_macro, ICoreWebView2_remove_ProcessFailed_macro,
      ICoreWebView2_AddScriptToExecuteOnDocumentCreated_macro,
      ICoreWebView2_RemoveScriptToExecuteOnDocumentCreated_macro, ICoreWebView2_ExecuteScript_macro,
      ICoreWebView2_CapturePreview_macro, ICoreWebView2_Reload_macro, ICoreWebView2_PostWebMessageAsJson_macro,
      ICoreWebView2_PostWebMessageAsString_macro, ICoreWebView2_add_WebMessageReceived_macro,
      ICoreWebView2_remove_WebMessageReceived_macro, ICoreWebView2_CallDevToolsProtocolMethod_macro,
      ICoreWebView2_get_BrowserProcessId_macro, ICoreWebView2_get_CanGoBack_macro,
      ICoreWebView2_get_CanGoForward_macro, ICoreWebView2_GoBack_macro, ICoreWebView2_GoForward_macro,
      ICoreWebView2_GetDevToolsProtocolEventReceiver_macro, ICoreWebView2_Stop_macro,
      ICoreWebView2_add_NewWindowRequested_macro, ICoreWebView2_remove_NewWindowRequested_macro,
      ICoreWebView2_add_DocumentTitleChanged_macro, ICoreWebView2_remove_DocumentTitleChanged_macro,
      ICoreWebView2_get_DocumentTitle_macro]"

definition ICoreWebView2_4_macros_2 :: "cmacro list" where
  "ICoreWebView2_4_macros_2 =
     [ICoreWebView2_AddHostObjectToScript_macro, ICoreWebView2_RemoveHostObjectFromScript_macro,
      ICoreWebView2_OpenDevToolsWindow_macro, ICoreWebView2_add_ContainsFullScreenElementChanged_macro,
      ICoreWebView2_remove_ContainsFullScreenElementChanged_macro, ICoreWebView2_get_ContainsFullScreenElement_macro,
      ICoreWebView2_add_WebResourceRequested_macro, ICoreWebView2_remove_WebResourceRequested_macro,
      ICoreWebView2_AddWebResourceRequestedFilter_macro, ICoreWebView2_RemoveWebResourceRequestedFilter_macro,
      ICoreWebView2_add_WindowCloseRequested_macro, ICoreWebView2_remove_WindowCloseRequested_macro,
      ICoreWebView2_2_add_WebResourceResponseReceived_macro,
      ICoreWebView2_2_remove_WebResourceResponseReceived_macro, ICoreWebView2_2_NavigateWithWebResourceRequest_macro,
      ICoreWebView2_2_add_DOMContentLoaded_macro, ICoreWebView2_2_remove_DOMContentLoaded_macro,
      ICoreWebView2_2_get_CookieManager_macro, ICoreWebView2_2_get_Environment_macro,
      ICoreWebView2_3_TrySuspend_macro, ICoreWebView2_3_Resume_macro, ICoreWebView2_3_get_IsSuspended_macro,
      ICoreWebView2_3_SetVirtualHostNameToFolderMapping_macro,
      ICoreWebView2_3_ClearVirtualHostNameToFolderMapping_macro, ICoreWebView2_4_add_FrameCreated_macro,
      ICoreWebView2_4_remove_FrameCreated_macro, ICoreWebView2_4_add_DownloadStarting_macro,
      ICoreWebView2_4_remove_DownloadStarting_macro]"

definition ICoreWebView2_4_macros :: "cmacro list" where
  "ICoreWebView2_4_macros = ICoreWebView2_4_macros_1 @ ICoreWebView2_4_macros_2"

definition ICoreWebView2_5_macros_1 :: "cmacro list" where
  "ICoreWebView2_5_macros_1 =
     [IUnknown_QueryInterface_macro, IUnknown_AddRef_macro, IUnknown_Release_macro, ICoreWebView2_get_Settings_macro,
      ICoreWebView2_get_Source_macro, ICoreWebView2_Navigate_macro, ICoreWebView2_NavigateToString_macro,
      ICoreWebView2_add_NavigationStarting_macro, ICoreWebView2_remove_NavigationStarting_macro,
      ICoreWebView2_add_ContentLoading_macro, ICoreWebView2_remove_ContentLoading_macro,
      ICoreWebView2_add_SourceChanged_macro, ICoreWebView2_remove_SourceChanged_macro,
      ICoreWebView2_add_HistoryChanged_macro, ICoreWebView2_remove_HistoryChanged_macro,
      ICoreWebView2_add_NavigationCompleted_macro, ICoreWebView2_remove_NavigationCompleted_macro,
      ICoreWebView2_add_FrameNavigationStarting_macro, ICoreWebView2_remove_FrameNavigationStarting_macro,
      ICoreWebView2_add_FrameNavigationCompleted_macro, ICoreWebView2_remove_FrameNavigationCompleted_macro,
      ICoreWebView2_add_ScriptDialogOpening_macro, ICoreWebView2_remove_ScriptDialogOpening_macro,
      ICoreWebView2_add_PermissionRequested_macro, ICoreWebView2_remove_PermissionRequested_macro,
      ICoreWebView2_add_ProcessFailed_macro, ICoreWebView2_remove_ProcessFailed_macro,
      ICoreWebView2_AddScriptToExecuteOnDocumentCreated_macro,
      ICoreWebView2_RemoveScriptToExecuteOnDocumentCreated_macro, ICoreWebView2_ExecuteScript_macro,
      ICoreWebView2_CapturePreview_macro, ICoreWebView2_Reload_macro, ICoreWebView2_PostWebMessageAsJson_macro,
      ICoreWebView2_PostWebMessageAsString_macro, ICoreWebView2_add_WebMessageReceived_macro,
      ICoreWebView2_remove_WebMessageReceived_macro, ICoreWebView2_CallDevToolsProtocolMethod_macro,
      ICoreWebView2_get_BrowserProcessId_macro, ICoreWebView2_get_CanGoBack_macro,
      ICoreWebView2_get_CanGoForward_macro, ICoreWebView2_GoBack_macro, ICoreWebView2_GoForward_macro,
      ICoreWebView2_GetDevToolsProtocolEventReceiver_macro, ICoreWebView2_Stop_macro,
      ICoreWebView2_add_NewWindowRequested_macro, ICoreWebView2_remove_NewWindowRequested_macro,
      ICoreWebView2_add_DocumentTitleChanged_macro, ICoreWebView2_remove_DocumentTitleChanged_macro,
      ICoreWebView2_get_DocumentTitle_macro]"

definition ICoreWebView2_5_macros_2 :: "cmacro list" where
  "ICoreWebView2_5_macros_2 =
     [ICoreWebView2_AddHostObjectToScript_macro, ICoreWebView2_RemoveHostObjectFromScript_macro,
      ICoreWebView2_OpenDevToolsWindow_macro, ICoreWebView2_add_ContainsFullScreenElementChanged_macro,
      ICoreWebView2_remove_ContainsFullScreenElementChanged_macro, ICoreWebView2_get_ContainsFullScreenElement_macro,
      ICoreWebView2_add_WebResourceRequested_macro, ICoreWebView2_remove_WebResourceRequested_macro,
      ICoreWebView2_AddWebResourceRequestedFilter_macro, ICoreWebView2_RemoveWebResourceRequestedFilter_macro,
      ICoreWebView2_add_WindowCloseRequested_macro, ICoreWebView2_remove_WindowCloseRequested_macro,
      ICoreWebView2_2_add_WebResourceResponseReceived_macro,
      ICoreWebView2_2_remove_WebResourceResponseReceived_macro, ICoreWebView2_2_NavigateWithWebResourceRequest_macro,
      ICoreWebView2_2_add_DOMContentLoaded_macro, ICoreWebView2_2_remove_DOMContentLoaded_macro,
      ICoreWebView2_2_get_CookieManager_macro, ICoreWebView2_2_get_Environment_macro,
      ICoreWebView2_3_TrySuspend_macro, ICoreWebView2_3_Resume_macro, ICoreWebView2_3_get_IsSuspended_macro,
      ICoreWebView2_3_SetVirtualHostNameToFolderMapping_macro,
      ICoreWebView2_3_ClearVirtualHostNameToFolderMapping_macro, ICoreWebView2_4_add_FrameCreated_macro,
      ICoreWebView2_4_remove_FrameCreated_macro, ICoreWebView2_4_add_DownloadStarting_macro,
      ICoreWebView2_4_remove_DownloadStarting_macro, ICoreWebView2_5_add_ClientCertificateRequested_macro,
      ICoreWebView2_5_remove_ClientCertificateRequested_macro]"

definition ICoreWebView2_5_macros :: "cmacro list" where
  "ICoreWebView2_5_macros = ICoreWebView2_5_macros_1 @ ICoreWebView2_5_macros_2"

definition ICoreWebView2_6_macros_1 :: "cmacro list" where
  "ICoreWebView2_6_macros_1 =
     [IUnknown_QueryInterface_macro, IUnknown_AddRef_macro, IUnknown_Release_macro, ICoreWebView2_get_Settings_macro,
      ICoreWebView2_get_Source_macro, ICoreWebView2_Navigate_macro, ICoreWebView2_NavigateToString_macro,
      ICoreWebView2_add_NavigationStarting_macro, ICoreWebView2_remove_NavigationStarting_macro,
      ICoreWebView2_add_ContentLoading_macro, ICoreWebView2_remove_ContentLoading_macro,
      ICoreWebView2_add_SourceChanged_macro, ICoreWebView2_remove_SourceChanged_macro,
      ICoreWebView2_add_HistoryChanged_macro, ICoreWebView2_remove_HistoryChanged_macro,
      ICoreWebView2_add_NavigationCompleted_macro, ICoreWebView2_remove_NavigationCompleted_macro,
      ICoreWebView2_add_FrameNavigationStarting_macro, ICoreWebView2_remove_FrameNavigationStarting_macro,
      ICoreWebView2_add_FrameNavigationCompleted_macro, ICoreWebView2_remove_FrameNavigationCompleted_macro,
      ICoreWebView2_add_ScriptDialogOpening_macro, ICoreWebView2_remove_ScriptDialogOpening_macro,
      ICoreWebView2_add_PermissionRequested_macro, ICoreWebView2_remove_PermissionRequested_macro,
      ICoreWebView2_add_ProcessFailed_macro, ICoreWebView2_remove_ProcessFailed_macro,
      ICoreWebView2_AddScriptToExecuteOnDocumentCreated_macro,
      ICoreWebView2_RemoveScriptToExecuteOnDocumentCreated_macro, ICoreWebView2_ExecuteScript_macro,
      ICoreWebView2_CapturePreview_macro, ICoreWebView2_Reload_macro, ICoreWebView2_PostWebMessageAsJson_macro,
      ICoreWebView2_PostWebMessageAsString_macro, ICoreWebView2_add_WebMessageReceived_macro,
      ICoreWebView2_remove_WebMessageReceived_macro, ICoreWebView2_CallDevToolsProtocolMethod_macro,
      ICoreWebView2_get_BrowserProcessId_macro, ICoreWebView2_get_CanGoBack_macro,
      ICoreWebView2_get_CanGoForward_macro, ICoreWebView2_GoBack_macro, ICoreWebView2_GoForward_macro,
      ICoreWebView2_GetDevToolsProtocolEventReceiver_macro, ICoreWebView2_Stop_macro,
      ICoreWebView2_add_NewWindowRequested_macro, ICoreWebView2_remove_NewWindowRequested_macro,
      ICoreWebView2_add_DocumentTitleChanged_macro, ICoreWebView2_remove_DocumentTitleChanged_macro,
      ICoreWebView2_get_DocumentTitle_macro]"

definition ICoreWebView2_6_macros_2 :: "cmacro list" where
  "ICoreWebView2_6_macros_2 =
     [ICoreWebView2_AddHostObjectToScript_macro, ICoreWebView2_RemoveHostObjectFromScript_macro,
      ICoreWebView2_OpenDevToolsWindow_macro, ICoreWebView2_add_ContainsFullScreenElementChanged_macro,
      ICoreWebView2_remove_ContainsFullScreenElementChanged_macro, ICoreWebView2_get_ContainsFullScreenElement_macro,
      ICoreWebView2_add_WebResourceRequested_macro, ICoreWebView2_remove_WebResourceRequested_macro,
      ICoreWebView2_AddWebResourceRequestedFilter_macro, ICoreWebView2_RemoveWebResourceRequestedFilter_macro,
      ICoreWebView2_add_WindowCloseRequested_macro, ICoreWebView2_remove_WindowCloseRequested_macro,
      ICoreWebView2_2_add_WebResourceResponseReceived_macro,
      ICoreWebView2_2_remove_WebResourceResponseReceived_macro, ICoreWebView2_2_NavigateWithWebResourceRequest_macro,
      ICoreWebView2_2_add_DOMContentLoaded_macro, ICoreWebView2_2_remove_DOMContentLoaded_macro,
      ICoreWebView2_2_get_CookieManager_macro, ICoreWebView2_2_get_Environment_macro,
      ICoreWebView2_3_TrySuspend_macro, ICoreWebView2_3_Resume_macro, ICoreWebView2_3_get_IsSuspended_macro,
      ICoreWebView2_3_SetVirtualHostNameToFolderMapping_macro,
      ICoreWebView2_3_ClearVirtualHostNameToFolderMapping_macro, ICoreWebView2_4_add_FrameCreated_macro,
      ICoreWebView2_4_remove_FrameCreated_macro, ICoreWebView2_4_add_DownloadStarting_macro,
      ICoreWebView2_4_remove_DownloadStarting_macro, ICoreWebView2_5_add_ClientCertificateRequested_macro,
      ICoreWebView2_5_remove_ClientCertificateRequested_macro, ICoreWebView2_6_OpenTaskManagerWindow_macro]"

definition ICoreWebView2_6_macros :: "cmacro list" where
  "ICoreWebView2_6_macros = ICoreWebView2_6_macros_1 @ ICoreWebView2_6_macros_2"

definition ICoreWebView2_7_macros_1 :: "cmacro list" where
  "ICoreWebView2_7_macros_1 =
     [IUnknown_QueryInterface_macro, IUnknown_AddRef_macro, IUnknown_Release_macro, ICoreWebView2_get_Settings_macro,
      ICoreWebView2_get_Source_macro, ICoreWebView2_Navigate_macro, ICoreWebView2_NavigateToString_macro,
      ICoreWebView2_add_NavigationStarting_macro, ICoreWebView2_remove_NavigationStarting_macro,
      ICoreWebView2_add_ContentLoading_macro, ICoreWebView2_remove_ContentLoading_macro,
      ICoreWebView2_add_SourceChanged_macro, ICoreWebView2_remove_SourceChanged_macro,
      ICoreWebView2_add_HistoryChanged_macro, ICoreWebView2_remove_HistoryChanged_macro,
      ICoreWebView2_add_NavigationCompleted_macro, ICoreWebView2_remove_NavigationCompleted_macro,
      ICoreWebView2_add_FrameNavigationStarting_macro, ICoreWebView2_remove_FrameNavigationStarting_macro,
      ICoreWebView2_add_FrameNavigationCompleted_macro, ICoreWebView2_remove_FrameNavigationCompleted_macro,
      ICoreWebView2_add_ScriptDialogOpening_macro, ICoreWebView2_remove_ScriptDialogOpening_macro,
      ICoreWebView2_add_PermissionRequested_macro, ICoreWebView2_remove_PermissionRequested_macro,
      ICoreWebView2_add_ProcessFailed_macro, ICoreWebView2_remove_ProcessFailed_macro,
      ICoreWebView2_AddScriptToExecuteOnDocumentCreated_macro,
      ICoreWebView2_RemoveScriptToExecuteOnDocumentCreated_macro, ICoreWebView2_ExecuteScript_macro,
      ICoreWebView2_CapturePreview_macro, ICoreWebView2_Reload_macro, ICoreWebView2_PostWebMessageAsJson_macro,
      ICoreWebView2_PostWebMessageAsString_macro, ICoreWebView2_add_WebMessageReceived_macro,
      ICoreWebView2_remove_WebMessageReceived_macro, ICoreWebView2_CallDevToolsProtocolMethod_macro,
      ICoreWebView2_get_BrowserProcessId_macro, ICoreWebView2_get_CanGoBack_macro,
      ICoreWebView2_get_CanGoForward_macro, ICoreWebView2_GoBack_macro, ICoreWebView2_GoForward_macro,
      ICoreWebView2_GetDevToolsProtocolEventReceiver_macro, ICoreWebView2_Stop_macro,
      ICoreWebView2_add_NewWindowRequested_macro, ICoreWebView2_remove_NewWindowRequested_macro,
      ICoreWebView2_add_DocumentTitleChanged_macro, ICoreWebView2_remove_DocumentTitleChanged_macro,
      ICoreWebView2_get_DocumentTitle_macro]"

definition ICoreWebView2_7_macros_2 :: "cmacro list" where
  "ICoreWebView2_7_macros_2 =
     [ICoreWebView2_AddHostObjectToScript_macro, ICoreWebView2_RemoveHostObjectFromScript_macro,
      ICoreWebView2_OpenDevToolsWindow_macro, ICoreWebView2_add_ContainsFullScreenElementChanged_macro,
      ICoreWebView2_remove_ContainsFullScreenElementChanged_macro, ICoreWebView2_get_ContainsFullScreenElement_macro,
      ICoreWebView2_add_WebResourceRequested_macro, ICoreWebView2_remove_WebResourceRequested_macro,
      ICoreWebView2_AddWebResourceRequestedFilter_macro, ICoreWebView2_RemoveWebResourceRequestedFilter_macro,
      ICoreWebView2_add_WindowCloseRequested_macro, ICoreWebView2_remove_WindowCloseRequested_macro,
      ICoreWebView2_2_add_WebResourceResponseReceived_macro,
      ICoreWebView2_2_remove_WebResourceResponseReceived_macro, ICoreWebView2_2_NavigateWithWebResourceRequest_macro,
      ICoreWebView2_2_add_DOMContentLoaded_macro, ICoreWebView2_2_remove_DOMContentLoaded_macro,
      ICoreWebView2_2_get_CookieManager_macro, ICoreWebView2_2_get_Environment_macro,
      ICoreWebView2_3_TrySuspend_macro, ICoreWebView2_3_Resume_macro, ICoreWebView2_3_get_IsSuspended_macro,
      ICoreWebView2_3_SetVirtualHostNameToFolderMapping_macro,
      ICoreWebView2_3_ClearVirtualHostNameToFolderMapping_macro, ICoreWebView2_4_add_FrameCreated_macro,
      ICoreWebView2_4_remove_FrameCreated_macro, ICoreWebView2_4_add_DownloadStarting_macro,
      ICoreWebView2_4_remove_DownloadStarting_macro, ICoreWebView2_5_add_ClientCertificateRequested_macro,
      ICoreWebView2_5_remove_ClientCertificateRequested_macro, ICoreWebView2_6_OpenTaskManagerWindow_macro,
      ICoreWebView2_7_PrintToPdf_macro]"

definition ICoreWebView2_7_macros :: "cmacro list" where
  "ICoreWebView2_7_macros = ICoreWebView2_7_macros_1 @ ICoreWebView2_7_macros_2"

definition ICoreWebView2_8_macros_1 :: "cmacro list" where
  "ICoreWebView2_8_macros_1 =
     [IUnknown_QueryInterface_macro, IUnknown_AddRef_macro, IUnknown_Release_macro, ICoreWebView2_get_Settings_macro,
      ICoreWebView2_get_Source_macro, ICoreWebView2_Navigate_macro, ICoreWebView2_NavigateToString_macro,
      ICoreWebView2_add_NavigationStarting_macro, ICoreWebView2_remove_NavigationStarting_macro,
      ICoreWebView2_add_ContentLoading_macro, ICoreWebView2_remove_ContentLoading_macro,
      ICoreWebView2_add_SourceChanged_macro, ICoreWebView2_remove_SourceChanged_macro,
      ICoreWebView2_add_HistoryChanged_macro, ICoreWebView2_remove_HistoryChanged_macro,
      ICoreWebView2_add_NavigationCompleted_macro, ICoreWebView2_remove_NavigationCompleted_macro,
      ICoreWebView2_add_FrameNavigationStarting_macro, ICoreWebView2_remove_FrameNavigationStarting_macro,
      ICoreWebView2_add_FrameNavigationCompleted_macro, ICoreWebView2_remove_FrameNavigationCompleted_macro,
      ICoreWebView2_add_ScriptDialogOpening_macro, ICoreWebView2_remove_ScriptDialogOpening_macro,
      ICoreWebView2_add_PermissionRequested_macro, ICoreWebView2_remove_PermissionRequested_macro,
      ICoreWebView2_add_ProcessFailed_macro, ICoreWebView2_remove_ProcessFailed_macro,
      ICoreWebView2_AddScriptToExecuteOnDocumentCreated_macro,
      ICoreWebView2_RemoveScriptToExecuteOnDocumentCreated_macro, ICoreWebView2_ExecuteScript_macro,
      ICoreWebView2_CapturePreview_macro, ICoreWebView2_Reload_macro, ICoreWebView2_PostWebMessageAsJson_macro,
      ICoreWebView2_PostWebMessageAsString_macro, ICoreWebView2_add_WebMessageReceived_macro,
      ICoreWebView2_remove_WebMessageReceived_macro, ICoreWebView2_CallDevToolsProtocolMethod_macro,
      ICoreWebView2_get_BrowserProcessId_macro, ICoreWebView2_get_CanGoBack_macro,
      ICoreWebView2_get_CanGoForward_macro, ICoreWebView2_GoBack_macro, ICoreWebView2_GoForward_macro,
      ICoreWebView2_GetDevToolsProtocolEventReceiver_macro, ICoreWebView2_Stop_macro,
      ICoreWebView2_add_NewWindowRequested_macro, ICoreWebView2_remove_NewWindowRequested_macro,
      ICoreWebView2_add_DocumentTitleChanged_macro, ICoreWebView2_remove_DocumentTitleChanged_macro,
      ICoreWebView2_get_DocumentTitle_macro]"

definition ICoreWebView2_8_macros_2 :: "cmacro list" where
  "ICoreWebView2_8_macros_2 =
     [ICoreWebView2_AddHostObjectToScript_macro, ICoreWebView2_RemoveHostObjectFromScript_macro,
      ICoreWebView2_OpenDevToolsWindow_macro, ICoreWebView2_add_ContainsFullScreenElementChanged_macro,
      ICoreWebView2_remove_ContainsFullScreenElementChanged_macro, ICoreWebView2_get_ContainsFullScreenElement_macro,
      ICoreWebView2_add_WebResourceRequested_macro, ICoreWebView2_remove_WebResourceRequested_macro,
      ICoreWebView2_AddWebResourceRequestedFilter_macro, ICoreWebView2_RemoveWebResourceRequestedFilter_macro,
      ICoreWebView2_add_WindowCloseRequested_macro, ICoreWebView2_remove_WindowCloseRequested_macro,
      ICoreWebView2_2_add_WebResourceResponseReceived_macro,
      ICoreWebView2_2_remove_WebResourceResponseReceived_macro, ICoreWebView2_2_NavigateWithWebResourceRequest_macro,
      ICoreWebView2_2_add_DOMContentLoaded_macro, ICoreWebView2_2_remove_DOMContentLoaded_macro,
      ICoreWebView2_2_get_CookieManager_macro, ICoreWebView2_2_get_Environment_macro,
      ICoreWebView2_3_TrySuspend_macro, ICoreWebView2_3_Resume_macro, ICoreWebView2_3_get_IsSuspended_macro,
      ICoreWebView2_3_SetVirtualHostNameToFolderMapping_macro,
      ICoreWebView2_3_ClearVirtualHostNameToFolderMapping_macro, ICoreWebView2_4_add_FrameCreated_macro,
      ICoreWebView2_4_remove_FrameCreated_macro, ICoreWebView2_4_add_DownloadStarting_macro,
      ICoreWebView2_4_remove_DownloadStarting_macro, ICoreWebView2_5_add_ClientCertificateRequested_macro,
      ICoreWebView2_5_remove_ClientCertificateRequested_macro, ICoreWebView2_6_OpenTaskManagerWindow_macro,
      ICoreWebView2_7_PrintToPdf_macro, ICoreWebView2_8_add_IsMutedChanged_macro,
      ICoreWebView2_8_remove_IsMutedChanged_macro, ICoreWebView2_8_get_IsMuted_macro,
      ICoreWebView2_8_put_IsMuted_macro, ICoreWebView2_8_add_IsDocumentPlayingAudioChanged_macro,
      ICoreWebView2_8_remove_IsDocumentPlayingAudioChanged_macro, ICoreWebView2_8_get_IsDocumentPlayingAudio_macro]"

definition ICoreWebView2_8_macros :: "cmacro list" where
  "ICoreWebView2_8_macros = ICoreWebView2_8_macros_1 @ ICoreWebView2_8_macros_2"

definition ICoreWebView2_9_macros_1 :: "cmacro list" where
  "ICoreWebView2_9_macros_1 =
     [IUnknown_QueryInterface_macro, IUnknown_AddRef_macro, IUnknown_Release_macro, ICoreWebView2_get_Settings_macro,
      ICoreWebView2_get_Source_macro, ICoreWebView2_Navigate_macro, ICoreWebView2_NavigateToString_macro,
      ICoreWebView2_add_NavigationStarting_macro, ICoreWebView2_remove_NavigationStarting_macro,
      ICoreWebView2_add_ContentLoading_macro, ICoreWebView2_remove_ContentLoading_macro,
      ICoreWebView2_add_SourceChanged_macro, ICoreWebView2_remove_SourceChanged_macro,
      ICoreWebView2_add_HistoryChanged_macro, ICoreWebView2_remove_HistoryChanged_macro,
      ICoreWebView2_add_NavigationCompleted_macro, ICoreWebView2_remove_NavigationCompleted_macro,
      ICoreWebView2_add_FrameNavigationStarting_macro, ICoreWebView2_remove_FrameNavigationStarting_macro,
      ICoreWebView2_add_FrameNavigationCompleted_macro, ICoreWebView2_remove_FrameNavigationCompleted_macro,
      ICoreWebView2_add_ScriptDialogOpening_macro, ICoreWebView2_remove_ScriptDialogOpening_macro,
      ICoreWebView2_add_PermissionRequested_macro, ICoreWebView2_remove_PermissionRequested_macro,
      ICoreWebView2_add_ProcessFailed_macro, ICoreWebView2_remove_ProcessFailed_macro,
      ICoreWebView2_AddScriptToExecuteOnDocumentCreated_macro,
      ICoreWebView2_RemoveScriptToExecuteOnDocumentCreated_macro, ICoreWebView2_ExecuteScript_macro,
      ICoreWebView2_CapturePreview_macro, ICoreWebView2_Reload_macro, ICoreWebView2_PostWebMessageAsJson_macro,
      ICoreWebView2_PostWebMessageAsString_macro, ICoreWebView2_add_WebMessageReceived_macro,
      ICoreWebView2_remove_WebMessageReceived_macro, ICoreWebView2_CallDevToolsProtocolMethod_macro,
      ICoreWebView2_get_BrowserProcessId_macro, ICoreWebView2_get_CanGoBack_macro,
      ICoreWebView2_get_CanGoForward_macro, ICoreWebView2_GoBack_macro, ICoreWebView2_GoForward_macro,
      ICoreWebView2_GetDevToolsProtocolEventReceiver_macro, ICoreWebView2_Stop_macro,
      ICoreWebView2_add_NewWindowRequested_macro, ICoreWebView2_remove_NewWindowRequested_macro,
      ICoreWebView2_add_DocumentTitleChanged_macro, ICoreWebView2_remove_DocumentTitleChanged_macro,
      ICoreWebView2_get_DocumentTitle_macro]"

definition ICoreWebView2_9_macros_2 :: "cmacro list" where
  "ICoreWebView2_9_macros_2 =
     [ICoreWebView2_AddHostObjectToScript_macro, ICoreWebView2_RemoveHostObjectFromScript_macro,
      ICoreWebView2_OpenDevToolsWindow_macro, ICoreWebView2_add_ContainsFullScreenElementChanged_macro,
      ICoreWebView2_remove_ContainsFullScreenElementChanged_macro, ICoreWebView2_get_ContainsFullScreenElement_macro,
      ICoreWebView2_add_WebResourceRequested_macro, ICoreWebView2_remove_WebResourceRequested_macro,
      ICoreWebView2_AddWebResourceRequestedFilter_macro, ICoreWebView2_RemoveWebResourceRequestedFilter_macro,
      ICoreWebView2_add_WindowCloseRequested_macro, ICoreWebView2_remove_WindowCloseRequested_macro,
      ICoreWebView2_2_add_WebResourceResponseReceived_macro,
      ICoreWebView2_2_remove_WebResourceResponseReceived_macro, ICoreWebView2_2_NavigateWithWebResourceRequest_macro,
      ICoreWebView2_2_add_DOMContentLoaded_macro, ICoreWebView2_2_remove_DOMContentLoaded_macro,
      ICoreWebView2_2_get_CookieManager_macro, ICoreWebView2_2_get_Environment_macro,
      ICoreWebView2_3_TrySuspend_macro, ICoreWebView2_3_Resume_macro, ICoreWebView2_3_get_IsSuspended_macro,
      ICoreWebView2_3_SetVirtualHostNameToFolderMapping_macro,
      ICoreWebView2_3_ClearVirtualHostNameToFolderMapping_macro, ICoreWebView2_4_add_FrameCreated_macro,
      ICoreWebView2_4_remove_FrameCreated_macro, ICoreWebView2_4_add_DownloadStarting_macro,
      ICoreWebView2_4_remove_DownloadStarting_macro, ICoreWebView2_5_add_ClientCertificateRequested_macro,
      ICoreWebView2_5_remove_ClientCertificateRequested_macro, ICoreWebView2_6_OpenTaskManagerWindow_macro,
      ICoreWebView2_7_PrintToPdf_macro, ICoreWebView2_8_add_IsMutedChanged_macro,
      ICoreWebView2_8_remove_IsMutedChanged_macro, ICoreWebView2_8_get_IsMuted_macro,
      ICoreWebView2_8_put_IsMuted_macro, ICoreWebView2_8_add_IsDocumentPlayingAudioChanged_macro,
      ICoreWebView2_8_remove_IsDocumentPlayingAudioChanged_macro, ICoreWebView2_8_get_IsDocumentPlayingAudio_macro,
      ICoreWebView2_9_add_IsDefaultDownloadDialogOpenChanged_macro,
      ICoreWebView2_9_remove_IsDefaultDownloadDialogOpenChanged_macro,
      ICoreWebView2_9_get_IsDefaultDownloadDialogOpen_macro, ICoreWebView2_9_OpenDefaultDownloadDialog_macro,
      ICoreWebView2_9_CloseDefaultDownloadDialog_macro,
      ICoreWebView2_9_get_DefaultDownloadDialogCornerAlignment_macro,
      ICoreWebView2_9_put_DefaultDownloadDialogCornerAlignment_macro]"

definition ICoreWebView2_9_macros_3 :: "cmacro list" where
  "ICoreWebView2_9_macros_3 =
     [ICoreWebView2_9_get_DefaultDownloadDialogMargin_macro, ICoreWebView2_9_put_DefaultDownloadDialogMargin_macro]"

definition ICoreWebView2_9_macros :: "cmacro list" where
  "ICoreWebView2_9_macros = ICoreWebView2_9_macros_1 @ ICoreWebView2_9_macros_2 @ ICoreWebView2_9_macros_3"

definition ICoreWebView2_10_macros_1 :: "cmacro list" where
  "ICoreWebView2_10_macros_1 =
     [IUnknown_QueryInterface_macro, IUnknown_AddRef_macro, IUnknown_Release_macro, ICoreWebView2_get_Settings_macro,
      ICoreWebView2_get_Source_macro, ICoreWebView2_Navigate_macro, ICoreWebView2_NavigateToString_macro,
      ICoreWebView2_add_NavigationStarting_macro, ICoreWebView2_remove_NavigationStarting_macro,
      ICoreWebView2_add_ContentLoading_macro, ICoreWebView2_remove_ContentLoading_macro,
      ICoreWebView2_add_SourceChanged_macro, ICoreWebView2_remove_SourceChanged_macro,
      ICoreWebView2_add_HistoryChanged_macro, ICoreWebView2_remove_HistoryChanged_macro,
      ICoreWebView2_add_NavigationCompleted_macro, ICoreWebView2_remove_NavigationCompleted_macro,
      ICoreWebView2_add_FrameNavigationStarting_macro, ICoreWebView2_remove_FrameNavigationStarting_macro,
      ICoreWebView2_add_FrameNavigationCompleted_macro, ICoreWebView2_remove_FrameNavigationCompleted_macro,
      ICoreWebView2_add_ScriptDialogOpening_macro, ICoreWebView2_remove_ScriptDialogOpening_macro,
      ICoreWebView2_add_PermissionRequested_macro, ICoreWebView2_remove_PermissionRequested_macro,
      ICoreWebView2_add_ProcessFailed_macro, ICoreWebView2_remove_ProcessFailed_macro,
      ICoreWebView2_AddScriptToExecuteOnDocumentCreated_macro,
      ICoreWebView2_RemoveScriptToExecuteOnDocumentCreated_macro, ICoreWebView2_ExecuteScript_macro,
      ICoreWebView2_CapturePreview_macro, ICoreWebView2_Reload_macro, ICoreWebView2_PostWebMessageAsJson_macro,
      ICoreWebView2_PostWebMessageAsString_macro, ICoreWebView2_add_WebMessageReceived_macro,
      ICoreWebView2_remove_WebMessageReceived_macro, ICoreWebView2_CallDevToolsProtocolMethod_macro,
      ICoreWebView2_get_BrowserProcessId_macro, ICoreWebView2_get_CanGoBack_macro,
      ICoreWebView2_get_CanGoForward_macro, ICoreWebView2_GoBack_macro, ICoreWebView2_GoForward_macro,
      ICoreWebView2_GetDevToolsProtocolEventReceiver_macro, ICoreWebView2_Stop_macro,
      ICoreWebView2_add_NewWindowRequested_macro, ICoreWebView2_remove_NewWindowRequested_macro,
      ICoreWebView2_add_DocumentTitleChanged_macro, ICoreWebView2_remove_DocumentTitleChanged_macro,
      ICoreWebView2_get_DocumentTitle_macro]"

definition ICoreWebView2_10_macros_2 :: "cmacro list" where
  "ICoreWebView2_10_macros_2 =
     [ICoreWebView2_AddHostObjectToScript_macro, ICoreWebView2_RemoveHostObjectFromScript_macro,
      ICoreWebView2_OpenDevToolsWindow_macro, ICoreWebView2_add_ContainsFullScreenElementChanged_macro,
      ICoreWebView2_remove_ContainsFullScreenElementChanged_macro, ICoreWebView2_get_ContainsFullScreenElement_macro,
      ICoreWebView2_add_WebResourceRequested_macro, ICoreWebView2_remove_WebResourceRequested_macro,
      ICoreWebView2_AddWebResourceRequestedFilter_macro, ICoreWebView2_RemoveWebResourceRequestedFilter_macro,
      ICoreWebView2_add_WindowCloseRequested_macro, ICoreWebView2_remove_WindowCloseRequested_macro,
      ICoreWebView2_2_add_WebResourceResponseReceived_macro,
      ICoreWebView2_2_remove_WebResourceResponseReceived_macro, ICoreWebView2_2_NavigateWithWebResourceRequest_macro,
      ICoreWebView2_2_add_DOMContentLoaded_macro, ICoreWebView2_2_remove_DOMContentLoaded_macro,
      ICoreWebView2_2_get_CookieManager_macro, ICoreWebView2_2_get_Environment_macro,
      ICoreWebView2_3_TrySuspend_macro, ICoreWebView2_3_Resume_macro, ICoreWebView2_3_get_IsSuspended_macro,
      ICoreWebView2_3_SetVirtualHostNameToFolderMapping_macro,
      ICoreWebView2_3_ClearVirtualHostNameToFolderMapping_macro, ICoreWebView2_4_add_FrameCreated_macro,
      ICoreWebView2_4_remove_FrameCreated_macro, ICoreWebView2_4_add_DownloadStarting_macro,
      ICoreWebView2_4_remove_DownloadStarting_macro, ICoreWebView2_5_add_ClientCertificateRequested_macro,
      ICoreWebView2_5_remove_ClientCertificateRequested_macro, ICoreWebView2_6_OpenTaskManagerWindow_macro,
      ICoreWebView2_7_PrintToPdf_macro, ICoreWebView2_8_add_IsMutedChanged_macro,
      ICoreWebView2_8_remove_IsMutedChanged_macro, ICoreWebView2_8_get_IsMuted_macro,
      ICoreWebView2_8_put_IsMuted_macro, ICoreWebView2_8_add_IsDocumentPlayingAudioChanged_macro,
      ICoreWebView2_8_remove_IsDocumentPlayingAudioChanged_macro, ICoreWebView2_8_get_IsDocumentPlayingAudio_macro,
      ICoreWebView2_9_add_IsDefaultDownloadDialogOpenChanged_macro,
      ICoreWebView2_9_remove_IsDefaultDownloadDialogOpenChanged_macro,
      ICoreWebView2_9_get_IsDefaultDownloadDialogOpen_macro, ICoreWebView2_9_OpenDefaultDownloadDialog_macro,
      ICoreWebView2_9_CloseDefaultDownloadDialog_macro,
      ICoreWebView2_9_get_DefaultDownloadDialogCornerAlignment_macro,
      ICoreWebView2_9_put_DefaultDownloadDialogCornerAlignment_macro]"

definition ICoreWebView2_10_macros_3 :: "cmacro list" where
  "ICoreWebView2_10_macros_3 =
     [ICoreWebView2_9_get_DefaultDownloadDialogMargin_macro, ICoreWebView2_9_put_DefaultDownloadDialogMargin_macro,
      ICoreWebView2_10_add_BasicAuthenticationRequested_macro,
      ICoreWebView2_10_remove_BasicAuthenticationRequested_macro]"

definition ICoreWebView2_10_macros :: "cmacro list" where
  "ICoreWebView2_10_macros = ICoreWebView2_10_macros_1 @ ICoreWebView2_10_macros_2 @ ICoreWebView2_10_macros_3"

definition ICoreWebView2_11_macros_1 :: "cmacro list" where
  "ICoreWebView2_11_macros_1 =
     [IUnknown_QueryInterface_macro, IUnknown_AddRef_macro, IUnknown_Release_macro, ICoreWebView2_get_Settings_macro,
      ICoreWebView2_get_Source_macro, ICoreWebView2_Navigate_macro, ICoreWebView2_NavigateToString_macro,
      ICoreWebView2_add_NavigationStarting_macro, ICoreWebView2_remove_NavigationStarting_macro,
      ICoreWebView2_add_ContentLoading_macro, ICoreWebView2_remove_ContentLoading_macro,
      ICoreWebView2_add_SourceChanged_macro, ICoreWebView2_remove_SourceChanged_macro,
      ICoreWebView2_add_HistoryChanged_macro, ICoreWebView2_remove_HistoryChanged_macro,
      ICoreWebView2_add_NavigationCompleted_macro, ICoreWebView2_remove_NavigationCompleted_macro,
      ICoreWebView2_add_FrameNavigationStarting_macro, ICoreWebView2_remove_FrameNavigationStarting_macro,
      ICoreWebView2_add_FrameNavigationCompleted_macro, ICoreWebView2_remove_FrameNavigationCompleted_macro,
      ICoreWebView2_add_ScriptDialogOpening_macro, ICoreWebView2_remove_ScriptDialogOpening_macro,
      ICoreWebView2_add_PermissionRequested_macro, ICoreWebView2_remove_PermissionRequested_macro,
      ICoreWebView2_add_ProcessFailed_macro, ICoreWebView2_remove_ProcessFailed_macro,
      ICoreWebView2_AddScriptToExecuteOnDocumentCreated_macro,
      ICoreWebView2_RemoveScriptToExecuteOnDocumentCreated_macro, ICoreWebView2_ExecuteScript_macro,
      ICoreWebView2_CapturePreview_macro, ICoreWebView2_Reload_macro, ICoreWebView2_PostWebMessageAsJson_macro,
      ICoreWebView2_PostWebMessageAsString_macro, ICoreWebView2_add_WebMessageReceived_macro,
      ICoreWebView2_remove_WebMessageReceived_macro, ICoreWebView2_CallDevToolsProtocolMethod_macro,
      ICoreWebView2_get_BrowserProcessId_macro, ICoreWebView2_get_CanGoBack_macro,
      ICoreWebView2_get_CanGoForward_macro, ICoreWebView2_GoBack_macro, ICoreWebView2_GoForward_macro,
      ICoreWebView2_GetDevToolsProtocolEventReceiver_macro, ICoreWebView2_Stop_macro,
      ICoreWebView2_add_NewWindowRequested_macro, ICoreWebView2_remove_NewWindowRequested_macro,
      ICoreWebView2_add_DocumentTitleChanged_macro, ICoreWebView2_remove_DocumentTitleChanged_macro,
      ICoreWebView2_get_DocumentTitle_macro]"

definition ICoreWebView2_11_macros_2 :: "cmacro list" where
  "ICoreWebView2_11_macros_2 =
     [ICoreWebView2_AddHostObjectToScript_macro, ICoreWebView2_RemoveHostObjectFromScript_macro,
      ICoreWebView2_OpenDevToolsWindow_macro, ICoreWebView2_add_ContainsFullScreenElementChanged_macro,
      ICoreWebView2_remove_ContainsFullScreenElementChanged_macro, ICoreWebView2_get_ContainsFullScreenElement_macro,
      ICoreWebView2_add_WebResourceRequested_macro, ICoreWebView2_remove_WebResourceRequested_macro,
      ICoreWebView2_AddWebResourceRequestedFilter_macro, ICoreWebView2_RemoveWebResourceRequestedFilter_macro,
      ICoreWebView2_add_WindowCloseRequested_macro, ICoreWebView2_remove_WindowCloseRequested_macro,
      ICoreWebView2_2_add_WebResourceResponseReceived_macro,
      ICoreWebView2_2_remove_WebResourceResponseReceived_macro, ICoreWebView2_2_NavigateWithWebResourceRequest_macro,
      ICoreWebView2_2_add_DOMContentLoaded_macro, ICoreWebView2_2_remove_DOMContentLoaded_macro,
      ICoreWebView2_2_get_CookieManager_macro, ICoreWebView2_2_get_Environment_macro,
      ICoreWebView2_3_TrySuspend_macro, ICoreWebView2_3_Resume_macro, ICoreWebView2_3_get_IsSuspended_macro,
      ICoreWebView2_3_SetVirtualHostNameToFolderMapping_macro,
      ICoreWebView2_3_ClearVirtualHostNameToFolderMapping_macro, ICoreWebView2_4_add_FrameCreated_macro,
      ICoreWebView2_4_remove_FrameCreated_macro, ICoreWebView2_4_add_DownloadStarting_macro,
      ICoreWebView2_4_remove_DownloadStarting_macro, ICoreWebView2_5_add_ClientCertificateRequested_macro,
      ICoreWebView2_5_remove_ClientCertificateRequested_macro, ICoreWebView2_6_OpenTaskManagerWindow_macro,
      ICoreWebView2_7_PrintToPdf_macro, ICoreWebView2_8_add_IsMutedChanged_macro,
      ICoreWebView2_8_remove_IsMutedChanged_macro, ICoreWebView2_8_get_IsMuted_macro,
      ICoreWebView2_8_put_IsMuted_macro, ICoreWebView2_8_add_IsDocumentPlayingAudioChanged_macro,
      ICoreWebView2_8_remove_IsDocumentPlayingAudioChanged_macro, ICoreWebView2_8_get_IsDocumentPlayingAudio_macro,
      ICoreWebView2_9_add_IsDefaultDownloadDialogOpenChanged_macro,
      ICoreWebView2_9_remove_IsDefaultDownloadDialogOpenChanged_macro,
      ICoreWebView2_9_get_IsDefaultDownloadDialogOpen_macro, ICoreWebView2_9_OpenDefaultDownloadDialog_macro,
      ICoreWebView2_9_CloseDefaultDownloadDialog_macro,
      ICoreWebView2_9_get_DefaultDownloadDialogCornerAlignment_macro,
      ICoreWebView2_9_put_DefaultDownloadDialogCornerAlignment_macro]"

definition ICoreWebView2_11_macros_3 :: "cmacro list" where
  "ICoreWebView2_11_macros_3 =
     [ICoreWebView2_9_get_DefaultDownloadDialogMargin_macro, ICoreWebView2_9_put_DefaultDownloadDialogMargin_macro,
      ICoreWebView2_10_add_BasicAuthenticationRequested_macro,
      ICoreWebView2_10_remove_BasicAuthenticationRequested_macro,
      ICoreWebView2_11_CallDevToolsProtocolMethodForSession_macro, ICoreWebView2_11_add_ContextMenuRequested_macro,
      ICoreWebView2_11_remove_ContextMenuRequested_macro]"

definition ICoreWebView2_11_macros :: "cmacro list" where
  "ICoreWebView2_11_macros = ICoreWebView2_11_macros_1 @ ICoreWebView2_11_macros_2 @ ICoreWebView2_11_macros_3"

definition ICoreWebView2_12_macros_1 :: "cmacro list" where
  "ICoreWebView2_12_macros_1 =
     [IUnknown_QueryInterface_macro, IUnknown_AddRef_macro, IUnknown_Release_macro, ICoreWebView2_get_Settings_macro,
      ICoreWebView2_get_Source_macro, ICoreWebView2_Navigate_macro, ICoreWebView2_NavigateToString_macro,
      ICoreWebView2_add_NavigationStarting_macro, ICoreWebView2_remove_NavigationStarting_macro,
      ICoreWebView2_add_ContentLoading_macro, ICoreWebView2_remove_ContentLoading_macro,
      ICoreWebView2_add_SourceChanged_macro, ICoreWebView2_remove_SourceChanged_macro,
      ICoreWebView2_add_HistoryChanged_macro, ICoreWebView2_remove_HistoryChanged_macro,
      ICoreWebView2_add_NavigationCompleted_macro, ICoreWebView2_remove_NavigationCompleted_macro,
      ICoreWebView2_add_FrameNavigationStarting_macro, ICoreWebView2_remove_FrameNavigationStarting_macro,
      ICoreWebView2_add_FrameNavigationCompleted_macro, ICoreWebView2_remove_FrameNavigationCompleted_macro,
      ICoreWebView2_add_ScriptDialogOpening_macro, ICoreWebView2_remove_ScriptDialogOpening_macro,
      ICoreWebView2_add_PermissionRequested_macro, ICoreWebView2_remove_PermissionRequested_macro,
      ICoreWebView2_add_ProcessFailed_macro, ICoreWebView2_remove_ProcessFailed_macro,
      ICoreWebView2_AddScriptToExecuteOnDocumentCreated_macro,
      ICoreWebView2_RemoveScriptToExecuteOnDocumentCreated_macro, ICoreWebView2_ExecuteScript_macro,
      ICoreWebView2_CapturePreview_macro, ICoreWebView2_Reload_macro, ICoreWebView2_PostWebMessageAsJson_macro,
      ICoreWebView2_PostWebMessageAsString_macro, ICoreWebView2_add_WebMessageReceived_macro,
      ICoreWebView2_remove_WebMessageReceived_macro, ICoreWebView2_CallDevToolsProtocolMethod_macro,
      ICoreWebView2_get_BrowserProcessId_macro, ICoreWebView2_get_CanGoBack_macro,
      ICoreWebView2_get_CanGoForward_macro, ICoreWebView2_GoBack_macro, ICoreWebView2_GoForward_macro,
      ICoreWebView2_GetDevToolsProtocolEventReceiver_macro, ICoreWebView2_Stop_macro,
      ICoreWebView2_add_NewWindowRequested_macro, ICoreWebView2_remove_NewWindowRequested_macro,
      ICoreWebView2_add_DocumentTitleChanged_macro, ICoreWebView2_remove_DocumentTitleChanged_macro,
      ICoreWebView2_get_DocumentTitle_macro]"

definition ICoreWebView2_12_macros_2 :: "cmacro list" where
  "ICoreWebView2_12_macros_2 =
     [ICoreWebView2_AddHostObjectToScript_macro, ICoreWebView2_RemoveHostObjectFromScript_macro,
      ICoreWebView2_OpenDevToolsWindow_macro, ICoreWebView2_add_ContainsFullScreenElementChanged_macro,
      ICoreWebView2_remove_ContainsFullScreenElementChanged_macro, ICoreWebView2_get_ContainsFullScreenElement_macro,
      ICoreWebView2_add_WebResourceRequested_macro, ICoreWebView2_remove_WebResourceRequested_macro,
      ICoreWebView2_AddWebResourceRequestedFilter_macro, ICoreWebView2_RemoveWebResourceRequestedFilter_macro,
      ICoreWebView2_add_WindowCloseRequested_macro, ICoreWebView2_remove_WindowCloseRequested_macro,
      ICoreWebView2_2_add_WebResourceResponseReceived_macro,
      ICoreWebView2_2_remove_WebResourceResponseReceived_macro, ICoreWebView2_2_NavigateWithWebResourceRequest_macro,
      ICoreWebView2_2_add_DOMContentLoaded_macro, ICoreWebView2_2_remove_DOMContentLoaded_macro,
      ICoreWebView2_2_get_CookieManager_macro, ICoreWebView2_2_get_Environment_macro,
      ICoreWebView2_3_TrySuspend_macro, ICoreWebView2_3_Resume_macro, ICoreWebView2_3_get_IsSuspended_macro,
      ICoreWebView2_3_SetVirtualHostNameToFolderMapping_macro,
      ICoreWebView2_3_ClearVirtualHostNameToFolderMapping_macro, ICoreWebView2_4_add_FrameCreated_macro,
      ICoreWebView2_4_remove_FrameCreated_macro, ICoreWebView2_4_add_DownloadStarting_macro,
      ICoreWebView2_4_remove_DownloadStarting_macro, ICoreWebView2_5_add_ClientCertificateRequested_macro,
      ICoreWebView2_5_remove_ClientCertificateRequested_macro, ICoreWebView2_6_OpenTaskManagerWindow_macro,
      ICoreWebView2_7_PrintToPdf_macro, ICoreWebView2_8_add_IsMutedChanged_macro,
      ICoreWebView2_8_remove_IsMutedChanged_macro, ICoreWebView2_8_get_IsMuted_macro,
      ICoreWebView2_8_put_IsMuted_macro, ICoreWebView2_8_add_IsDocumentPlayingAudioChanged_macro,
      ICoreWebView2_8_remove_IsDocumentPlayingAudioChanged_macro, ICoreWebView2_8_get_IsDocumentPlayingAudio_macro,
      ICoreWebView2_9_add_IsDefaultDownloadDialogOpenChanged_macro,
      ICoreWebView2_9_remove_IsDefaultDownloadDialogOpenChanged_macro,
      ICoreWebView2_9_get_IsDefaultDownloadDialogOpen_macro, ICoreWebView2_9_OpenDefaultDownloadDialog_macro,
      ICoreWebView2_9_CloseDefaultDownloadDialog_macro,
      ICoreWebView2_9_get_DefaultDownloadDialogCornerAlignment_macro,
      ICoreWebView2_9_put_DefaultDownloadDialogCornerAlignment_macro]"

definition ICoreWebView2_12_macros_3 :: "cmacro list" where
  "ICoreWebView2_12_macros_3 =
     [ICoreWebView2_9_get_DefaultDownloadDialogMargin_macro, ICoreWebView2_9_put_DefaultDownloadDialogMargin_macro,
      ICoreWebView2_10_add_BasicAuthenticationRequested_macro,
      ICoreWebView2_10_remove_BasicAuthenticationRequested_macro,
      ICoreWebView2_11_CallDevToolsProtocolMethodForSession_macro, ICoreWebView2_11_add_ContextMenuRequested_macro,
      ICoreWebView2_11_remove_ContextMenuRequested_macro, ICoreWebView2_12_add_StatusBarTextChanged_macro,
      ICoreWebView2_12_remove_StatusBarTextChanged_macro, ICoreWebView2_12_get_StatusBarText_macro]"

definition ICoreWebView2_12_macros :: "cmacro list" where
  "ICoreWebView2_12_macros = ICoreWebView2_12_macros_1 @ ICoreWebView2_12_macros_2 @ ICoreWebView2_12_macros_3"

definition ICoreWebView2_13_macros_1 :: "cmacro list" where
  "ICoreWebView2_13_macros_1 =
     [IUnknown_QueryInterface_macro, IUnknown_AddRef_macro, IUnknown_Release_macro, ICoreWebView2_get_Settings_macro,
      ICoreWebView2_get_Source_macro, ICoreWebView2_Navigate_macro, ICoreWebView2_NavigateToString_macro,
      ICoreWebView2_add_NavigationStarting_macro, ICoreWebView2_remove_NavigationStarting_macro,
      ICoreWebView2_add_ContentLoading_macro, ICoreWebView2_remove_ContentLoading_macro,
      ICoreWebView2_add_SourceChanged_macro, ICoreWebView2_remove_SourceChanged_macro,
      ICoreWebView2_add_HistoryChanged_macro, ICoreWebView2_remove_HistoryChanged_macro,
      ICoreWebView2_add_NavigationCompleted_macro, ICoreWebView2_remove_NavigationCompleted_macro,
      ICoreWebView2_add_FrameNavigationStarting_macro, ICoreWebView2_remove_FrameNavigationStarting_macro,
      ICoreWebView2_add_FrameNavigationCompleted_macro, ICoreWebView2_remove_FrameNavigationCompleted_macro,
      ICoreWebView2_add_ScriptDialogOpening_macro, ICoreWebView2_remove_ScriptDialogOpening_macro,
      ICoreWebView2_add_PermissionRequested_macro, ICoreWebView2_remove_PermissionRequested_macro,
      ICoreWebView2_add_ProcessFailed_macro, ICoreWebView2_remove_ProcessFailed_macro,
      ICoreWebView2_AddScriptToExecuteOnDocumentCreated_macro,
      ICoreWebView2_RemoveScriptToExecuteOnDocumentCreated_macro, ICoreWebView2_ExecuteScript_macro,
      ICoreWebView2_CapturePreview_macro, ICoreWebView2_Reload_macro, ICoreWebView2_PostWebMessageAsJson_macro,
      ICoreWebView2_PostWebMessageAsString_macro, ICoreWebView2_add_WebMessageReceived_macro,
      ICoreWebView2_remove_WebMessageReceived_macro, ICoreWebView2_CallDevToolsProtocolMethod_macro,
      ICoreWebView2_get_BrowserProcessId_macro, ICoreWebView2_get_CanGoBack_macro,
      ICoreWebView2_get_CanGoForward_macro, ICoreWebView2_GoBack_macro, ICoreWebView2_GoForward_macro,
      ICoreWebView2_GetDevToolsProtocolEventReceiver_macro, ICoreWebView2_Stop_macro,
      ICoreWebView2_add_NewWindowRequested_macro, ICoreWebView2_remove_NewWindowRequested_macro,
      ICoreWebView2_add_DocumentTitleChanged_macro, ICoreWebView2_remove_DocumentTitleChanged_macro,
      ICoreWebView2_get_DocumentTitle_macro]"

definition ICoreWebView2_13_macros_2 :: "cmacro list" where
  "ICoreWebView2_13_macros_2 =
     [ICoreWebView2_AddHostObjectToScript_macro, ICoreWebView2_RemoveHostObjectFromScript_macro,
      ICoreWebView2_OpenDevToolsWindow_macro, ICoreWebView2_add_ContainsFullScreenElementChanged_macro,
      ICoreWebView2_remove_ContainsFullScreenElementChanged_macro, ICoreWebView2_get_ContainsFullScreenElement_macro,
      ICoreWebView2_add_WebResourceRequested_macro, ICoreWebView2_remove_WebResourceRequested_macro,
      ICoreWebView2_AddWebResourceRequestedFilter_macro, ICoreWebView2_RemoveWebResourceRequestedFilter_macro,
      ICoreWebView2_add_WindowCloseRequested_macro, ICoreWebView2_remove_WindowCloseRequested_macro,
      ICoreWebView2_2_add_WebResourceResponseReceived_macro,
      ICoreWebView2_2_remove_WebResourceResponseReceived_macro, ICoreWebView2_2_NavigateWithWebResourceRequest_macro,
      ICoreWebView2_2_add_DOMContentLoaded_macro, ICoreWebView2_2_remove_DOMContentLoaded_macro,
      ICoreWebView2_2_get_CookieManager_macro, ICoreWebView2_2_get_Environment_macro,
      ICoreWebView2_3_TrySuspend_macro, ICoreWebView2_3_Resume_macro, ICoreWebView2_3_get_IsSuspended_macro,
      ICoreWebView2_3_SetVirtualHostNameToFolderMapping_macro,
      ICoreWebView2_3_ClearVirtualHostNameToFolderMapping_macro, ICoreWebView2_4_add_FrameCreated_macro,
      ICoreWebView2_4_remove_FrameCreated_macro, ICoreWebView2_4_add_DownloadStarting_macro,
      ICoreWebView2_4_remove_DownloadStarting_macro, ICoreWebView2_5_add_ClientCertificateRequested_macro,
      ICoreWebView2_5_remove_ClientCertificateRequested_macro, ICoreWebView2_6_OpenTaskManagerWindow_macro,
      ICoreWebView2_7_PrintToPdf_macro, ICoreWebView2_8_add_IsMutedChanged_macro,
      ICoreWebView2_8_remove_IsMutedChanged_macro, ICoreWebView2_8_get_IsMuted_macro,
      ICoreWebView2_8_put_IsMuted_macro, ICoreWebView2_8_add_IsDocumentPlayingAudioChanged_macro,
      ICoreWebView2_8_remove_IsDocumentPlayingAudioChanged_macro, ICoreWebView2_8_get_IsDocumentPlayingAudio_macro,
      ICoreWebView2_9_add_IsDefaultDownloadDialogOpenChanged_macro,
      ICoreWebView2_9_remove_IsDefaultDownloadDialogOpenChanged_macro,
      ICoreWebView2_9_get_IsDefaultDownloadDialogOpen_macro, ICoreWebView2_9_OpenDefaultDownloadDialog_macro,
      ICoreWebView2_9_CloseDefaultDownloadDialog_macro,
      ICoreWebView2_9_get_DefaultDownloadDialogCornerAlignment_macro,
      ICoreWebView2_9_put_DefaultDownloadDialogCornerAlignment_macro]"

definition ICoreWebView2_13_macros_3 :: "cmacro list" where
  "ICoreWebView2_13_macros_3 =
     [ICoreWebView2_9_get_DefaultDownloadDialogMargin_macro, ICoreWebView2_9_put_DefaultDownloadDialogMargin_macro,
      ICoreWebView2_10_add_BasicAuthenticationRequested_macro,
      ICoreWebView2_10_remove_BasicAuthenticationRequested_macro,
      ICoreWebView2_11_CallDevToolsProtocolMethodForSession_macro, ICoreWebView2_11_add_ContextMenuRequested_macro,
      ICoreWebView2_11_remove_ContextMenuRequested_macro, ICoreWebView2_12_add_StatusBarTextChanged_macro,
      ICoreWebView2_12_remove_StatusBarTextChanged_macro, ICoreWebView2_12_get_StatusBarText_macro,
      ICoreWebView2_13_get_Profile_macro]"

definition ICoreWebView2_13_macros :: "cmacro list" where
  "ICoreWebView2_13_macros = ICoreWebView2_13_macros_1 @ ICoreWebView2_13_macros_2 @ ICoreWebView2_13_macros_3"

definition ICoreWebView2_14_macros_1 :: "cmacro list" where
  "ICoreWebView2_14_macros_1 =
     [IUnknown_QueryInterface_macro, IUnknown_AddRef_macro, IUnknown_Release_macro, ICoreWebView2_get_Settings_macro,
      ICoreWebView2_get_Source_macro, ICoreWebView2_Navigate_macro, ICoreWebView2_NavigateToString_macro,
      ICoreWebView2_add_NavigationStarting_macro, ICoreWebView2_remove_NavigationStarting_macro,
      ICoreWebView2_add_ContentLoading_macro, ICoreWebView2_remove_ContentLoading_macro,
      ICoreWebView2_add_SourceChanged_macro, ICoreWebView2_remove_SourceChanged_macro,
      ICoreWebView2_add_HistoryChanged_macro, ICoreWebView2_remove_HistoryChanged_macro,
      ICoreWebView2_add_NavigationCompleted_macro, ICoreWebView2_remove_NavigationCompleted_macro,
      ICoreWebView2_add_FrameNavigationStarting_macro, ICoreWebView2_remove_FrameNavigationStarting_macro,
      ICoreWebView2_add_FrameNavigationCompleted_macro, ICoreWebView2_remove_FrameNavigationCompleted_macro,
      ICoreWebView2_add_ScriptDialogOpening_macro, ICoreWebView2_remove_ScriptDialogOpening_macro,
      ICoreWebView2_add_PermissionRequested_macro, ICoreWebView2_remove_PermissionRequested_macro,
      ICoreWebView2_add_ProcessFailed_macro, ICoreWebView2_remove_ProcessFailed_macro,
      ICoreWebView2_AddScriptToExecuteOnDocumentCreated_macro,
      ICoreWebView2_RemoveScriptToExecuteOnDocumentCreated_macro, ICoreWebView2_ExecuteScript_macro,
      ICoreWebView2_CapturePreview_macro, ICoreWebView2_Reload_macro, ICoreWebView2_PostWebMessageAsJson_macro,
      ICoreWebView2_PostWebMessageAsString_macro, ICoreWebView2_add_WebMessageReceived_macro,
      ICoreWebView2_remove_WebMessageReceived_macro, ICoreWebView2_CallDevToolsProtocolMethod_macro,
      ICoreWebView2_get_BrowserProcessId_macro, ICoreWebView2_get_CanGoBack_macro,
      ICoreWebView2_get_CanGoForward_macro, ICoreWebView2_GoBack_macro, ICoreWebView2_GoForward_macro,
      ICoreWebView2_GetDevToolsProtocolEventReceiver_macro, ICoreWebView2_Stop_macro,
      ICoreWebView2_add_NewWindowRequested_macro, ICoreWebView2_remove_NewWindowRequested_macro,
      ICoreWebView2_add_DocumentTitleChanged_macro, ICoreWebView2_remove_DocumentTitleChanged_macro,
      ICoreWebView2_get_DocumentTitle_macro]"

definition ICoreWebView2_14_macros_2 :: "cmacro list" where
  "ICoreWebView2_14_macros_2 =
     [ICoreWebView2_AddHostObjectToScript_macro, ICoreWebView2_RemoveHostObjectFromScript_macro,
      ICoreWebView2_OpenDevToolsWindow_macro, ICoreWebView2_add_ContainsFullScreenElementChanged_macro,
      ICoreWebView2_remove_ContainsFullScreenElementChanged_macro, ICoreWebView2_get_ContainsFullScreenElement_macro,
      ICoreWebView2_add_WebResourceRequested_macro, ICoreWebView2_remove_WebResourceRequested_macro,
      ICoreWebView2_AddWebResourceRequestedFilter_macro, ICoreWebView2_RemoveWebResourceRequestedFilter_macro,
      ICoreWebView2_add_WindowCloseRequested_macro, ICoreWebView2_remove_WindowCloseRequested_macro,
      ICoreWebView2_2_add_WebResourceResponseReceived_macro,
      ICoreWebView2_2_remove_WebResourceResponseReceived_macro, ICoreWebView2_2_NavigateWithWebResourceRequest_macro,
      ICoreWebView2_2_add_DOMContentLoaded_macro, ICoreWebView2_2_remove_DOMContentLoaded_macro,
      ICoreWebView2_2_get_CookieManager_macro, ICoreWebView2_2_get_Environment_macro,
      ICoreWebView2_3_TrySuspend_macro, ICoreWebView2_3_Resume_macro, ICoreWebView2_3_get_IsSuspended_macro,
      ICoreWebView2_3_SetVirtualHostNameToFolderMapping_macro,
      ICoreWebView2_3_ClearVirtualHostNameToFolderMapping_macro, ICoreWebView2_4_add_FrameCreated_macro,
      ICoreWebView2_4_remove_FrameCreated_macro, ICoreWebView2_4_add_DownloadStarting_macro,
      ICoreWebView2_4_remove_DownloadStarting_macro, ICoreWebView2_5_add_ClientCertificateRequested_macro,
      ICoreWebView2_5_remove_ClientCertificateRequested_macro, ICoreWebView2_6_OpenTaskManagerWindow_macro,
      ICoreWebView2_7_PrintToPdf_macro, ICoreWebView2_8_add_IsMutedChanged_macro,
      ICoreWebView2_8_remove_IsMutedChanged_macro, ICoreWebView2_8_get_IsMuted_macro,
      ICoreWebView2_8_put_IsMuted_macro, ICoreWebView2_8_add_IsDocumentPlayingAudioChanged_macro,
      ICoreWebView2_8_remove_IsDocumentPlayingAudioChanged_macro, ICoreWebView2_8_get_IsDocumentPlayingAudio_macro,
      ICoreWebView2_9_add_IsDefaultDownloadDialogOpenChanged_macro,
      ICoreWebView2_9_remove_IsDefaultDownloadDialogOpenChanged_macro,
      ICoreWebView2_9_get_IsDefaultDownloadDialogOpen_macro, ICoreWebView2_9_OpenDefaultDownloadDialog_macro,
      ICoreWebView2_9_CloseDefaultDownloadDialog_macro,
      ICoreWebView2_9_get_DefaultDownloadDialogCornerAlignment_macro,
      ICoreWebView2_9_put_DefaultDownloadDialogCornerAlignment_macro]"

definition ICoreWebView2_14_macros_3 :: "cmacro list" where
  "ICoreWebView2_14_macros_3 =
     [ICoreWebView2_9_get_DefaultDownloadDialogMargin_macro, ICoreWebView2_9_put_DefaultDownloadDialogMargin_macro,
      ICoreWebView2_10_add_BasicAuthenticationRequested_macro,
      ICoreWebView2_10_remove_BasicAuthenticationRequested_macro,
      ICoreWebView2_11_CallDevToolsProtocolMethodForSession_macro, ICoreWebView2_11_add_ContextMenuRequested_macro,
      ICoreWebView2_11_remove_ContextMenuRequested_macro, ICoreWebView2_12_add_StatusBarTextChanged_macro,
      ICoreWebView2_12_remove_StatusBarTextChanged_macro, ICoreWebView2_12_get_StatusBarText_macro,
      ICoreWebView2_13_get_Profile_macro, ICoreWebView2_14_add_ServerCertificateErrorDetected_macro,
      ICoreWebView2_14_remove_ServerCertificateErrorDetected_macro,
      ICoreWebView2_14_ClearServerCertificateErrorActions_macro]"

definition ICoreWebView2_14_macros :: "cmacro list" where
  "ICoreWebView2_14_macros = ICoreWebView2_14_macros_1 @ ICoreWebView2_14_macros_2 @ ICoreWebView2_14_macros_3"

definition ICoreWebView2_15_macros_1 :: "cmacro list" where
  "ICoreWebView2_15_macros_1 =
     [IUnknown_QueryInterface_macro, IUnknown_AddRef_macro, IUnknown_Release_macro, ICoreWebView2_get_Settings_macro,
      ICoreWebView2_get_Source_macro, ICoreWebView2_Navigate_macro, ICoreWebView2_NavigateToString_macro,
      ICoreWebView2_add_NavigationStarting_macro, ICoreWebView2_remove_NavigationStarting_macro,
      ICoreWebView2_add_ContentLoading_macro, ICoreWebView2_remove_ContentLoading_macro,
      ICoreWebView2_add_SourceChanged_macro, ICoreWebView2_remove_SourceChanged_macro,
      ICoreWebView2_add_HistoryChanged_macro, ICoreWebView2_remove_HistoryChanged_macro,
      ICoreWebView2_add_NavigationCompleted_macro, ICoreWebView2_remove_NavigationCompleted_macro,
      ICoreWebView2_add_FrameNavigationStarting_macro, ICoreWebView2_remove_FrameNavigationStarting_macro,
      ICoreWebView2_add_FrameNavigationCompleted_macro, ICoreWebView2_remove_FrameNavigationCompleted_macro,
      ICoreWebView2_add_ScriptDialogOpening_macro, ICoreWebView2_remove_ScriptDialogOpening_macro,
      ICoreWebView2_add_PermissionRequested_macro, ICoreWebView2_remove_PermissionRequested_macro,
      ICoreWebView2_add_ProcessFailed_macro, ICoreWebView2_remove_ProcessFailed_macro,
      ICoreWebView2_AddScriptToExecuteOnDocumentCreated_macro,
      ICoreWebView2_RemoveScriptToExecuteOnDocumentCreated_macro, ICoreWebView2_ExecuteScript_macro,
      ICoreWebView2_CapturePreview_macro, ICoreWebView2_Reload_macro, ICoreWebView2_PostWebMessageAsJson_macro,
      ICoreWebView2_PostWebMessageAsString_macro, ICoreWebView2_add_WebMessageReceived_macro,
      ICoreWebView2_remove_WebMessageReceived_macro, ICoreWebView2_CallDevToolsProtocolMethod_macro,
      ICoreWebView2_get_BrowserProcessId_macro, ICoreWebView2_get_CanGoBack_macro,
      ICoreWebView2_get_CanGoForward_macro, ICoreWebView2_GoBack_macro, ICoreWebView2_GoForward_macro,
      ICoreWebView2_GetDevToolsProtocolEventReceiver_macro, ICoreWebView2_Stop_macro,
      ICoreWebView2_add_NewWindowRequested_macro, ICoreWebView2_remove_NewWindowRequested_macro,
      ICoreWebView2_add_DocumentTitleChanged_macro, ICoreWebView2_remove_DocumentTitleChanged_macro,
      ICoreWebView2_get_DocumentTitle_macro]"

definition ICoreWebView2_15_macros_2 :: "cmacro list" where
  "ICoreWebView2_15_macros_2 =
     [ICoreWebView2_AddHostObjectToScript_macro, ICoreWebView2_RemoveHostObjectFromScript_macro,
      ICoreWebView2_OpenDevToolsWindow_macro, ICoreWebView2_add_ContainsFullScreenElementChanged_macro,
      ICoreWebView2_remove_ContainsFullScreenElementChanged_macro, ICoreWebView2_get_ContainsFullScreenElement_macro,
      ICoreWebView2_add_WebResourceRequested_macro, ICoreWebView2_remove_WebResourceRequested_macro,
      ICoreWebView2_AddWebResourceRequestedFilter_macro, ICoreWebView2_RemoveWebResourceRequestedFilter_macro,
      ICoreWebView2_add_WindowCloseRequested_macro, ICoreWebView2_remove_WindowCloseRequested_macro,
      ICoreWebView2_2_add_WebResourceResponseReceived_macro,
      ICoreWebView2_2_remove_WebResourceResponseReceived_macro, ICoreWebView2_2_NavigateWithWebResourceRequest_macro,
      ICoreWebView2_2_add_DOMContentLoaded_macro, ICoreWebView2_2_remove_DOMContentLoaded_macro,
      ICoreWebView2_2_get_CookieManager_macro, ICoreWebView2_2_get_Environment_macro,
      ICoreWebView2_3_TrySuspend_macro, ICoreWebView2_3_Resume_macro, ICoreWebView2_3_get_IsSuspended_macro,
      ICoreWebView2_3_SetVirtualHostNameToFolderMapping_macro,
      ICoreWebView2_3_ClearVirtualHostNameToFolderMapping_macro, ICoreWebView2_4_add_FrameCreated_macro,
      ICoreWebView2_4_remove_FrameCreated_macro, ICoreWebView2_4_add_DownloadStarting_macro,
      ICoreWebView2_4_remove_DownloadStarting_macro, ICoreWebView2_5_add_ClientCertificateRequested_macro,
      ICoreWebView2_5_remove_ClientCertificateRequested_macro, ICoreWebView2_6_OpenTaskManagerWindow_macro,
      ICoreWebView2_7_PrintToPdf_macro, ICoreWebView2_8_add_IsMutedChanged_macro,
      ICoreWebView2_8_remove_IsMutedChanged_macro, ICoreWebView2_8_get_IsMuted_macro,
      ICoreWebView2_8_put_IsMuted_macro, ICoreWebView2_8_add_IsDocumentPlayingAudioChanged_macro,
      ICoreWebView2_8_remove_IsDocumentPlayingAudioChanged_macro, ICoreWebView2_8_get_IsDocumentPlayingAudio_macro,
      ICoreWebView2_9_add_IsDefaultDownloadDialogOpenChanged_macro,
      ICoreWebView2_9_remove_IsDefaultDownloadDialogOpenChanged_macro,
      ICoreWebView2_9_get_IsDefaultDownloadDialogOpen_macro, ICoreWebView2_9_OpenDefaultDownloadDialog_macro,
      ICoreWebView2_9_CloseDefaultDownloadDialog_macro,
      ICoreWebView2_9_get_DefaultDownloadDialogCornerAlignment_macro,
      ICoreWebView2_9_put_DefaultDownloadDialogCornerAlignment_macro]"

definition ICoreWebView2_15_macros_3 :: "cmacro list" where
  "ICoreWebView2_15_macros_3 =
     [ICoreWebView2_9_get_DefaultDownloadDialogMargin_macro, ICoreWebView2_9_put_DefaultDownloadDialogMargin_macro,
      ICoreWebView2_10_add_BasicAuthenticationRequested_macro,
      ICoreWebView2_10_remove_BasicAuthenticationRequested_macro,
      ICoreWebView2_11_CallDevToolsProtocolMethodForSession_macro, ICoreWebView2_11_add_ContextMenuRequested_macro,
      ICoreWebView2_11_remove_ContextMenuRequested_macro, ICoreWebView2_12_add_StatusBarTextChanged_macro,
      ICoreWebView2_12_remove_StatusBarTextChanged_macro, ICoreWebView2_12_get_StatusBarText_macro,
      ICoreWebView2_13_get_Profile_macro, ICoreWebView2_14_add_ServerCertificateErrorDetected_macro,
      ICoreWebView2_14_remove_ServerCertificateErrorDetected_macro,
      ICoreWebView2_14_ClearServerCertificateErrorActions_macro, ICoreWebView2_15_add_FaviconChanged_macro,
      ICoreWebView2_15_remove_FaviconChanged_macro, ICoreWebView2_15_get_FaviconUri_macro,
      ICoreWebView2_15_GetFavicon_macro]"

definition ICoreWebView2_15_macros :: "cmacro list" where
  "ICoreWebView2_15_macros = ICoreWebView2_15_macros_1 @ ICoreWebView2_15_macros_2 @ ICoreWebView2_15_macros_3"

definition ICoreWebView2_16_macros_1 :: "cmacro list" where
  "ICoreWebView2_16_macros_1 =
     [IUnknown_QueryInterface_macro, IUnknown_AddRef_macro, IUnknown_Release_macro, ICoreWebView2_get_Settings_macro,
      ICoreWebView2_get_Source_macro, ICoreWebView2_Navigate_macro, ICoreWebView2_NavigateToString_macro,
      ICoreWebView2_add_NavigationStarting_macro, ICoreWebView2_remove_NavigationStarting_macro,
      ICoreWebView2_add_ContentLoading_macro, ICoreWebView2_remove_ContentLoading_macro,
      ICoreWebView2_add_SourceChanged_macro, ICoreWebView2_remove_SourceChanged_macro,
      ICoreWebView2_add_HistoryChanged_macro, ICoreWebView2_remove_HistoryChanged_macro,
      ICoreWebView2_add_NavigationCompleted_macro, ICoreWebView2_remove_NavigationCompleted_macro,
      ICoreWebView2_add_FrameNavigationStarting_macro, ICoreWebView2_remove_FrameNavigationStarting_macro,
      ICoreWebView2_add_FrameNavigationCompleted_macro, ICoreWebView2_remove_FrameNavigationCompleted_macro,
      ICoreWebView2_add_ScriptDialogOpening_macro, ICoreWebView2_remove_ScriptDialogOpening_macro,
      ICoreWebView2_add_PermissionRequested_macro, ICoreWebView2_remove_PermissionRequested_macro,
      ICoreWebView2_add_ProcessFailed_macro, ICoreWebView2_remove_ProcessFailed_macro,
      ICoreWebView2_AddScriptToExecuteOnDocumentCreated_macro,
      ICoreWebView2_RemoveScriptToExecuteOnDocumentCreated_macro, ICoreWebView2_ExecuteScript_macro,
      ICoreWebView2_CapturePreview_macro, ICoreWebView2_Reload_macro, ICoreWebView2_PostWebMessageAsJson_macro,
      ICoreWebView2_PostWebMessageAsString_macro, ICoreWebView2_add_WebMessageReceived_macro,
      ICoreWebView2_remove_WebMessageReceived_macro, ICoreWebView2_CallDevToolsProtocolMethod_macro,
      ICoreWebView2_get_BrowserProcessId_macro, ICoreWebView2_get_CanGoBack_macro,
      ICoreWebView2_get_CanGoForward_macro, ICoreWebView2_GoBack_macro, ICoreWebView2_GoForward_macro,
      ICoreWebView2_GetDevToolsProtocolEventReceiver_macro, ICoreWebView2_Stop_macro,
      ICoreWebView2_add_NewWindowRequested_macro, ICoreWebView2_remove_NewWindowRequested_macro,
      ICoreWebView2_add_DocumentTitleChanged_macro, ICoreWebView2_remove_DocumentTitleChanged_macro,
      ICoreWebView2_get_DocumentTitle_macro]"

definition ICoreWebView2_16_macros_2 :: "cmacro list" where
  "ICoreWebView2_16_macros_2 =
     [ICoreWebView2_AddHostObjectToScript_macro, ICoreWebView2_RemoveHostObjectFromScript_macro,
      ICoreWebView2_OpenDevToolsWindow_macro, ICoreWebView2_add_ContainsFullScreenElementChanged_macro,
      ICoreWebView2_remove_ContainsFullScreenElementChanged_macro, ICoreWebView2_get_ContainsFullScreenElement_macro,
      ICoreWebView2_add_WebResourceRequested_macro, ICoreWebView2_remove_WebResourceRequested_macro,
      ICoreWebView2_AddWebResourceRequestedFilter_macro, ICoreWebView2_RemoveWebResourceRequestedFilter_macro,
      ICoreWebView2_add_WindowCloseRequested_macro, ICoreWebView2_remove_WindowCloseRequested_macro,
      ICoreWebView2_2_add_WebResourceResponseReceived_macro,
      ICoreWebView2_2_remove_WebResourceResponseReceived_macro, ICoreWebView2_2_NavigateWithWebResourceRequest_macro,
      ICoreWebView2_2_add_DOMContentLoaded_macro, ICoreWebView2_2_remove_DOMContentLoaded_macro,
      ICoreWebView2_2_get_CookieManager_macro, ICoreWebView2_2_get_Environment_macro,
      ICoreWebView2_3_TrySuspend_macro, ICoreWebView2_3_Resume_macro, ICoreWebView2_3_get_IsSuspended_macro,
      ICoreWebView2_3_SetVirtualHostNameToFolderMapping_macro,
      ICoreWebView2_3_ClearVirtualHostNameToFolderMapping_macro, ICoreWebView2_4_add_FrameCreated_macro,
      ICoreWebView2_4_remove_FrameCreated_macro, ICoreWebView2_4_add_DownloadStarting_macro,
      ICoreWebView2_4_remove_DownloadStarting_macro, ICoreWebView2_5_add_ClientCertificateRequested_macro,
      ICoreWebView2_5_remove_ClientCertificateRequested_macro, ICoreWebView2_6_OpenTaskManagerWindow_macro,
      ICoreWebView2_7_PrintToPdf_macro, ICoreWebView2_8_add_IsMutedChanged_macro,
      ICoreWebView2_8_remove_IsMutedChanged_macro, ICoreWebView2_8_get_IsMuted_macro,
      ICoreWebView2_8_put_IsMuted_macro, ICoreWebView2_8_add_IsDocumentPlayingAudioChanged_macro,
      ICoreWebView2_8_remove_IsDocumentPlayingAudioChanged_macro, ICoreWebView2_8_get_IsDocumentPlayingAudio_macro,
      ICoreWebView2_9_add_IsDefaultDownloadDialogOpenChanged_macro,
      ICoreWebView2_9_remove_IsDefaultDownloadDialogOpenChanged_macro,
      ICoreWebView2_9_get_IsDefaultDownloadDialogOpen_macro, ICoreWebView2_9_OpenDefaultDownloadDialog_macro,
      ICoreWebView2_9_CloseDefaultDownloadDialog_macro,
      ICoreWebView2_9_get_DefaultDownloadDialogCornerAlignment_macro,
      ICoreWebView2_9_put_DefaultDownloadDialogCornerAlignment_macro]"

definition ICoreWebView2_16_macros_3 :: "cmacro list" where
  "ICoreWebView2_16_macros_3 =
     [ICoreWebView2_9_get_DefaultDownloadDialogMargin_macro, ICoreWebView2_9_put_DefaultDownloadDialogMargin_macro,
      ICoreWebView2_10_add_BasicAuthenticationRequested_macro,
      ICoreWebView2_10_remove_BasicAuthenticationRequested_macro,
      ICoreWebView2_11_CallDevToolsProtocolMethodForSession_macro, ICoreWebView2_11_add_ContextMenuRequested_macro,
      ICoreWebView2_11_remove_ContextMenuRequested_macro, ICoreWebView2_12_add_StatusBarTextChanged_macro,
      ICoreWebView2_12_remove_StatusBarTextChanged_macro, ICoreWebView2_12_get_StatusBarText_macro,
      ICoreWebView2_13_get_Profile_macro, ICoreWebView2_14_add_ServerCertificateErrorDetected_macro,
      ICoreWebView2_14_remove_ServerCertificateErrorDetected_macro,
      ICoreWebView2_14_ClearServerCertificateErrorActions_macro, ICoreWebView2_15_add_FaviconChanged_macro,
      ICoreWebView2_15_remove_FaviconChanged_macro, ICoreWebView2_15_get_FaviconUri_macro,
      ICoreWebView2_15_GetFavicon_macro, ICoreWebView2_16_Print_macro, ICoreWebView2_16_ShowPrintUI_macro,
      ICoreWebView2_16_PrintToPdfStream_macro]"

definition ICoreWebView2_16_macros :: "cmacro list" where
  "ICoreWebView2_16_macros = ICoreWebView2_16_macros_1 @ ICoreWebView2_16_macros_2 @ ICoreWebView2_16_macros_3"

definition ICoreWebView2_17_macros_1 :: "cmacro list" where
  "ICoreWebView2_17_macros_1 =
     [IUnknown_QueryInterface_macro, IUnknown_AddRef_macro, IUnknown_Release_macro, ICoreWebView2_get_Settings_macro,
      ICoreWebView2_get_Source_macro, ICoreWebView2_Navigate_macro, ICoreWebView2_NavigateToString_macro,
      ICoreWebView2_add_NavigationStarting_macro, ICoreWebView2_remove_NavigationStarting_macro,
      ICoreWebView2_add_ContentLoading_macro, ICoreWebView2_remove_ContentLoading_macro,
      ICoreWebView2_add_SourceChanged_macro, ICoreWebView2_remove_SourceChanged_macro,
      ICoreWebView2_add_HistoryChanged_macro, ICoreWebView2_remove_HistoryChanged_macro,
      ICoreWebView2_add_NavigationCompleted_macro, ICoreWebView2_remove_NavigationCompleted_macro,
      ICoreWebView2_add_FrameNavigationStarting_macro, ICoreWebView2_remove_FrameNavigationStarting_macro,
      ICoreWebView2_add_FrameNavigationCompleted_macro, ICoreWebView2_remove_FrameNavigationCompleted_macro,
      ICoreWebView2_add_ScriptDialogOpening_macro, ICoreWebView2_remove_ScriptDialogOpening_macro,
      ICoreWebView2_add_PermissionRequested_macro, ICoreWebView2_remove_PermissionRequested_macro,
      ICoreWebView2_add_ProcessFailed_macro, ICoreWebView2_remove_ProcessFailed_macro,
      ICoreWebView2_AddScriptToExecuteOnDocumentCreated_macro,
      ICoreWebView2_RemoveScriptToExecuteOnDocumentCreated_macro, ICoreWebView2_ExecuteScript_macro,
      ICoreWebView2_CapturePreview_macro, ICoreWebView2_Reload_macro, ICoreWebView2_PostWebMessageAsJson_macro,
      ICoreWebView2_PostWebMessageAsString_macro, ICoreWebView2_add_WebMessageReceived_macro,
      ICoreWebView2_remove_WebMessageReceived_macro, ICoreWebView2_CallDevToolsProtocolMethod_macro,
      ICoreWebView2_get_BrowserProcessId_macro, ICoreWebView2_get_CanGoBack_macro,
      ICoreWebView2_get_CanGoForward_macro, ICoreWebView2_GoBack_macro, ICoreWebView2_GoForward_macro,
      ICoreWebView2_GetDevToolsProtocolEventReceiver_macro, ICoreWebView2_Stop_macro,
      ICoreWebView2_add_NewWindowRequested_macro, ICoreWebView2_remove_NewWindowRequested_macro,
      ICoreWebView2_add_DocumentTitleChanged_macro, ICoreWebView2_remove_DocumentTitleChanged_macro,
      ICoreWebView2_get_DocumentTitle_macro]"

definition ICoreWebView2_17_macros_2 :: "cmacro list" where
  "ICoreWebView2_17_macros_2 =
     [ICoreWebView2_AddHostObjectToScript_macro, ICoreWebView2_RemoveHostObjectFromScript_macro,
      ICoreWebView2_OpenDevToolsWindow_macro, ICoreWebView2_add_ContainsFullScreenElementChanged_macro,
      ICoreWebView2_remove_ContainsFullScreenElementChanged_macro, ICoreWebView2_get_ContainsFullScreenElement_macro,
      ICoreWebView2_add_WebResourceRequested_macro, ICoreWebView2_remove_WebResourceRequested_macro,
      ICoreWebView2_AddWebResourceRequestedFilter_macro, ICoreWebView2_RemoveWebResourceRequestedFilter_macro,
      ICoreWebView2_add_WindowCloseRequested_macro, ICoreWebView2_remove_WindowCloseRequested_macro,
      ICoreWebView2_2_add_WebResourceResponseReceived_macro,
      ICoreWebView2_2_remove_WebResourceResponseReceived_macro, ICoreWebView2_2_NavigateWithWebResourceRequest_macro,
      ICoreWebView2_2_add_DOMContentLoaded_macro, ICoreWebView2_2_remove_DOMContentLoaded_macro,
      ICoreWebView2_2_get_CookieManager_macro, ICoreWebView2_2_get_Environment_macro,
      ICoreWebView2_3_TrySuspend_macro, ICoreWebView2_3_Resume_macro, ICoreWebView2_3_get_IsSuspended_macro,
      ICoreWebView2_3_SetVirtualHostNameToFolderMapping_macro,
      ICoreWebView2_3_ClearVirtualHostNameToFolderMapping_macro, ICoreWebView2_4_add_FrameCreated_macro,
      ICoreWebView2_4_remove_FrameCreated_macro, ICoreWebView2_4_add_DownloadStarting_macro,
      ICoreWebView2_4_remove_DownloadStarting_macro, ICoreWebView2_5_add_ClientCertificateRequested_macro,
      ICoreWebView2_5_remove_ClientCertificateRequested_macro, ICoreWebView2_6_OpenTaskManagerWindow_macro,
      ICoreWebView2_7_PrintToPdf_macro, ICoreWebView2_8_add_IsMutedChanged_macro,
      ICoreWebView2_8_remove_IsMutedChanged_macro, ICoreWebView2_8_get_IsMuted_macro,
      ICoreWebView2_8_put_IsMuted_macro, ICoreWebView2_8_add_IsDocumentPlayingAudioChanged_macro,
      ICoreWebView2_8_remove_IsDocumentPlayingAudioChanged_macro, ICoreWebView2_8_get_IsDocumentPlayingAudio_macro,
      ICoreWebView2_9_add_IsDefaultDownloadDialogOpenChanged_macro,
      ICoreWebView2_9_remove_IsDefaultDownloadDialogOpenChanged_macro,
      ICoreWebView2_9_get_IsDefaultDownloadDialogOpen_macro, ICoreWebView2_9_OpenDefaultDownloadDialog_macro,
      ICoreWebView2_9_CloseDefaultDownloadDialog_macro,
      ICoreWebView2_9_get_DefaultDownloadDialogCornerAlignment_macro,
      ICoreWebView2_9_put_DefaultDownloadDialogCornerAlignment_macro]"

definition ICoreWebView2_17_macros_3 :: "cmacro list" where
  "ICoreWebView2_17_macros_3 =
     [ICoreWebView2_9_get_DefaultDownloadDialogMargin_macro, ICoreWebView2_9_put_DefaultDownloadDialogMargin_macro,
      ICoreWebView2_10_add_BasicAuthenticationRequested_macro,
      ICoreWebView2_10_remove_BasicAuthenticationRequested_macro,
      ICoreWebView2_11_CallDevToolsProtocolMethodForSession_macro, ICoreWebView2_11_add_ContextMenuRequested_macro,
      ICoreWebView2_11_remove_ContextMenuRequested_macro, ICoreWebView2_12_add_StatusBarTextChanged_macro,
      ICoreWebView2_12_remove_StatusBarTextChanged_macro, ICoreWebView2_12_get_StatusBarText_macro,
      ICoreWebView2_13_get_Profile_macro, ICoreWebView2_14_add_ServerCertificateErrorDetected_macro,
      ICoreWebView2_14_remove_ServerCertificateErrorDetected_macro,
      ICoreWebView2_14_ClearServerCertificateErrorActions_macro, ICoreWebView2_15_add_FaviconChanged_macro,
      ICoreWebView2_15_remove_FaviconChanged_macro, ICoreWebView2_15_get_FaviconUri_macro,
      ICoreWebView2_15_GetFavicon_macro, ICoreWebView2_16_Print_macro, ICoreWebView2_16_ShowPrintUI_macro,
      ICoreWebView2_16_PrintToPdfStream_macro, ICoreWebView2_17_PostSharedBufferToScript_macro]"

definition ICoreWebView2_17_macros :: "cmacro list" where
  "ICoreWebView2_17_macros = ICoreWebView2_17_macros_1 @ ICoreWebView2_17_macros_2 @ ICoreWebView2_17_macros_3"

definition ICoreWebView2_18_macros_1 :: "cmacro list" where
  "ICoreWebView2_18_macros_1 =
     [IUnknown_QueryInterface_macro, IUnknown_AddRef_macro, IUnknown_Release_macro, ICoreWebView2_get_Settings_macro,
      ICoreWebView2_get_Source_macro, ICoreWebView2_Navigate_macro, ICoreWebView2_NavigateToString_macro,
      ICoreWebView2_add_NavigationStarting_macro, ICoreWebView2_remove_NavigationStarting_macro,
      ICoreWebView2_add_ContentLoading_macro, ICoreWebView2_remove_ContentLoading_macro,
      ICoreWebView2_add_SourceChanged_macro, ICoreWebView2_remove_SourceChanged_macro,
      ICoreWebView2_add_HistoryChanged_macro, ICoreWebView2_remove_HistoryChanged_macro,
      ICoreWebView2_add_NavigationCompleted_macro, ICoreWebView2_remove_NavigationCompleted_macro,
      ICoreWebView2_add_FrameNavigationStarting_macro, ICoreWebView2_remove_FrameNavigationStarting_macro,
      ICoreWebView2_add_FrameNavigationCompleted_macro, ICoreWebView2_remove_FrameNavigationCompleted_macro,
      ICoreWebView2_add_ScriptDialogOpening_macro, ICoreWebView2_remove_ScriptDialogOpening_macro,
      ICoreWebView2_add_PermissionRequested_macro, ICoreWebView2_remove_PermissionRequested_macro,
      ICoreWebView2_add_ProcessFailed_macro, ICoreWebView2_remove_ProcessFailed_macro,
      ICoreWebView2_AddScriptToExecuteOnDocumentCreated_macro,
      ICoreWebView2_RemoveScriptToExecuteOnDocumentCreated_macro, ICoreWebView2_ExecuteScript_macro,
      ICoreWebView2_CapturePreview_macro, ICoreWebView2_Reload_macro, ICoreWebView2_PostWebMessageAsJson_macro,
      ICoreWebView2_PostWebMessageAsString_macro, ICoreWebView2_add_WebMessageReceived_macro,
      ICoreWebView2_remove_WebMessageReceived_macro, ICoreWebView2_CallDevToolsProtocolMethod_macro,
      ICoreWebView2_get_BrowserProcessId_macro, ICoreWebView2_get_CanGoBack_macro,
      ICoreWebView2_get_CanGoForward_macro, ICoreWebView2_GoBack_macro, ICoreWebView2_GoForward_macro,
      ICoreWebView2_GetDevToolsProtocolEventReceiver_macro, ICoreWebView2_Stop_macro,
      ICoreWebView2_add_NewWindowRequested_macro, ICoreWebView2_remove_NewWindowRequested_macro,
      ICoreWebView2_add_DocumentTitleChanged_macro, ICoreWebView2_remove_DocumentTitleChanged_macro,
      ICoreWebView2_get_DocumentTitle_macro]"

definition ICoreWebView2_18_macros_2 :: "cmacro list" where
  "ICoreWebView2_18_macros_2 =
     [ICoreWebView2_AddHostObjectToScript_macro, ICoreWebView2_RemoveHostObjectFromScript_macro,
      ICoreWebView2_OpenDevToolsWindow_macro, ICoreWebView2_add_ContainsFullScreenElementChanged_macro,
      ICoreWebView2_remove_ContainsFullScreenElementChanged_macro, ICoreWebView2_get_ContainsFullScreenElement_macro,
      ICoreWebView2_add_WebResourceRequested_macro, ICoreWebView2_remove_WebResourceRequested_macro,
      ICoreWebView2_AddWebResourceRequestedFilter_macro, ICoreWebView2_RemoveWebResourceRequestedFilter_macro,
      ICoreWebView2_add_WindowCloseRequested_macro, ICoreWebView2_remove_WindowCloseRequested_macro,
      ICoreWebView2_2_add_WebResourceResponseReceived_macro,
      ICoreWebView2_2_remove_WebResourceResponseReceived_macro, ICoreWebView2_2_NavigateWithWebResourceRequest_macro,
      ICoreWebView2_2_add_DOMContentLoaded_macro, ICoreWebView2_2_remove_DOMContentLoaded_macro,
      ICoreWebView2_2_get_CookieManager_macro, ICoreWebView2_2_get_Environment_macro,
      ICoreWebView2_3_TrySuspend_macro, ICoreWebView2_3_Resume_macro, ICoreWebView2_3_get_IsSuspended_macro,
      ICoreWebView2_3_SetVirtualHostNameToFolderMapping_macro,
      ICoreWebView2_3_ClearVirtualHostNameToFolderMapping_macro, ICoreWebView2_4_add_FrameCreated_macro,
      ICoreWebView2_4_remove_FrameCreated_macro, ICoreWebView2_4_add_DownloadStarting_macro,
      ICoreWebView2_4_remove_DownloadStarting_macro, ICoreWebView2_5_add_ClientCertificateRequested_macro,
      ICoreWebView2_5_remove_ClientCertificateRequested_macro, ICoreWebView2_6_OpenTaskManagerWindow_macro,
      ICoreWebView2_7_PrintToPdf_macro, ICoreWebView2_8_add_IsMutedChanged_macro,
      ICoreWebView2_8_remove_IsMutedChanged_macro, ICoreWebView2_8_get_IsMuted_macro,
      ICoreWebView2_8_put_IsMuted_macro, ICoreWebView2_8_add_IsDocumentPlayingAudioChanged_macro,
      ICoreWebView2_8_remove_IsDocumentPlayingAudioChanged_macro, ICoreWebView2_8_get_IsDocumentPlayingAudio_macro,
      ICoreWebView2_9_add_IsDefaultDownloadDialogOpenChanged_macro,
      ICoreWebView2_9_remove_IsDefaultDownloadDialogOpenChanged_macro,
      ICoreWebView2_9_get_IsDefaultDownloadDialogOpen_macro, ICoreWebView2_9_OpenDefaultDownloadDialog_macro,
      ICoreWebView2_9_CloseDefaultDownloadDialog_macro,
      ICoreWebView2_9_get_DefaultDownloadDialogCornerAlignment_macro,
      ICoreWebView2_9_put_DefaultDownloadDialogCornerAlignment_macro]"

definition ICoreWebView2_18_macros_3 :: "cmacro list" where
  "ICoreWebView2_18_macros_3 =
     [ICoreWebView2_9_get_DefaultDownloadDialogMargin_macro, ICoreWebView2_9_put_DefaultDownloadDialogMargin_macro,
      ICoreWebView2_10_add_BasicAuthenticationRequested_macro,
      ICoreWebView2_10_remove_BasicAuthenticationRequested_macro,
      ICoreWebView2_11_CallDevToolsProtocolMethodForSession_macro, ICoreWebView2_11_add_ContextMenuRequested_macro,
      ICoreWebView2_11_remove_ContextMenuRequested_macro, ICoreWebView2_12_add_StatusBarTextChanged_macro,
      ICoreWebView2_12_remove_StatusBarTextChanged_macro, ICoreWebView2_12_get_StatusBarText_macro,
      ICoreWebView2_13_get_Profile_macro, ICoreWebView2_14_add_ServerCertificateErrorDetected_macro,
      ICoreWebView2_14_remove_ServerCertificateErrorDetected_macro,
      ICoreWebView2_14_ClearServerCertificateErrorActions_macro, ICoreWebView2_15_add_FaviconChanged_macro,
      ICoreWebView2_15_remove_FaviconChanged_macro, ICoreWebView2_15_get_FaviconUri_macro,
      ICoreWebView2_15_GetFavicon_macro, ICoreWebView2_16_Print_macro, ICoreWebView2_16_ShowPrintUI_macro,
      ICoreWebView2_16_PrintToPdfStream_macro, ICoreWebView2_17_PostSharedBufferToScript_macro,
      ICoreWebView2_18_add_LaunchingExternalUriScheme_macro, ICoreWebView2_18_remove_LaunchingExternalUriScheme_macro]"

definition ICoreWebView2_18_macros :: "cmacro list" where
  "ICoreWebView2_18_macros = ICoreWebView2_18_macros_1 @ ICoreWebView2_18_macros_2 @ ICoreWebView2_18_macros_3"

definition ICoreWebView2_19_macros_1 :: "cmacro list" where
  "ICoreWebView2_19_macros_1 =
     [IUnknown_QueryInterface_macro, IUnknown_AddRef_macro, IUnknown_Release_macro, ICoreWebView2_get_Settings_macro,
      ICoreWebView2_get_Source_macro, ICoreWebView2_Navigate_macro, ICoreWebView2_NavigateToString_macro,
      ICoreWebView2_add_NavigationStarting_macro, ICoreWebView2_remove_NavigationStarting_macro,
      ICoreWebView2_add_ContentLoading_macro, ICoreWebView2_remove_ContentLoading_macro,
      ICoreWebView2_add_SourceChanged_macro, ICoreWebView2_remove_SourceChanged_macro,
      ICoreWebView2_add_HistoryChanged_macro, ICoreWebView2_remove_HistoryChanged_macro,
      ICoreWebView2_add_NavigationCompleted_macro, ICoreWebView2_remove_NavigationCompleted_macro,
      ICoreWebView2_add_FrameNavigationStarting_macro, ICoreWebView2_remove_FrameNavigationStarting_macro,
      ICoreWebView2_add_FrameNavigationCompleted_macro, ICoreWebView2_remove_FrameNavigationCompleted_macro,
      ICoreWebView2_add_ScriptDialogOpening_macro, ICoreWebView2_remove_ScriptDialogOpening_macro,
      ICoreWebView2_add_PermissionRequested_macro, ICoreWebView2_remove_PermissionRequested_macro,
      ICoreWebView2_add_ProcessFailed_macro, ICoreWebView2_remove_ProcessFailed_macro,
      ICoreWebView2_AddScriptToExecuteOnDocumentCreated_macro,
      ICoreWebView2_RemoveScriptToExecuteOnDocumentCreated_macro, ICoreWebView2_ExecuteScript_macro,
      ICoreWebView2_CapturePreview_macro, ICoreWebView2_Reload_macro, ICoreWebView2_PostWebMessageAsJson_macro,
      ICoreWebView2_PostWebMessageAsString_macro, ICoreWebView2_add_WebMessageReceived_macro,
      ICoreWebView2_remove_WebMessageReceived_macro, ICoreWebView2_CallDevToolsProtocolMethod_macro,
      ICoreWebView2_get_BrowserProcessId_macro, ICoreWebView2_get_CanGoBack_macro,
      ICoreWebView2_get_CanGoForward_macro, ICoreWebView2_GoBack_macro, ICoreWebView2_GoForward_macro,
      ICoreWebView2_GetDevToolsProtocolEventReceiver_macro, ICoreWebView2_Stop_macro,
      ICoreWebView2_add_NewWindowRequested_macro, ICoreWebView2_remove_NewWindowRequested_macro,
      ICoreWebView2_add_DocumentTitleChanged_macro, ICoreWebView2_remove_DocumentTitleChanged_macro,
      ICoreWebView2_get_DocumentTitle_macro]"

definition ICoreWebView2_19_macros_2 :: "cmacro list" where
  "ICoreWebView2_19_macros_2 =
     [ICoreWebView2_AddHostObjectToScript_macro, ICoreWebView2_RemoveHostObjectFromScript_macro,
      ICoreWebView2_OpenDevToolsWindow_macro, ICoreWebView2_add_ContainsFullScreenElementChanged_macro,
      ICoreWebView2_remove_ContainsFullScreenElementChanged_macro, ICoreWebView2_get_ContainsFullScreenElement_macro,
      ICoreWebView2_add_WebResourceRequested_macro, ICoreWebView2_remove_WebResourceRequested_macro,
      ICoreWebView2_AddWebResourceRequestedFilter_macro, ICoreWebView2_RemoveWebResourceRequestedFilter_macro,
      ICoreWebView2_add_WindowCloseRequested_macro, ICoreWebView2_remove_WindowCloseRequested_macro,
      ICoreWebView2_2_add_WebResourceResponseReceived_macro,
      ICoreWebView2_2_remove_WebResourceResponseReceived_macro, ICoreWebView2_2_NavigateWithWebResourceRequest_macro,
      ICoreWebView2_2_add_DOMContentLoaded_macro, ICoreWebView2_2_remove_DOMContentLoaded_macro,
      ICoreWebView2_2_get_CookieManager_macro, ICoreWebView2_2_get_Environment_macro,
      ICoreWebView2_3_TrySuspend_macro, ICoreWebView2_3_Resume_macro, ICoreWebView2_3_get_IsSuspended_macro,
      ICoreWebView2_3_SetVirtualHostNameToFolderMapping_macro,
      ICoreWebView2_3_ClearVirtualHostNameToFolderMapping_macro, ICoreWebView2_4_add_FrameCreated_macro,
      ICoreWebView2_4_remove_FrameCreated_macro, ICoreWebView2_4_add_DownloadStarting_macro,
      ICoreWebView2_4_remove_DownloadStarting_macro, ICoreWebView2_5_add_ClientCertificateRequested_macro,
      ICoreWebView2_5_remove_ClientCertificateRequested_macro, ICoreWebView2_6_OpenTaskManagerWindow_macro,
      ICoreWebView2_7_PrintToPdf_macro, ICoreWebView2_8_add_IsMutedChanged_macro,
      ICoreWebView2_8_remove_IsMutedChanged_macro, ICoreWebView2_8_get_IsMuted_macro,
      ICoreWebView2_8_put_IsMuted_macro, ICoreWebView2_8_add_IsDocumentPlayingAudioChanged_macro,
      ICoreWebView2_8_remove_IsDocumentPlayingAudioChanged_macro, ICoreWebView2_8_get_IsDocumentPlayingAudio_macro,
      ICoreWebView2_9_add_IsDefaultDownloadDialogOpenChanged_macro,
      ICoreWebView2_9_remove_IsDefaultDownloadDialogOpenChanged_macro,
      ICoreWebView2_9_get_IsDefaultDownloadDialogOpen_macro, ICoreWebView2_9_OpenDefaultDownloadDialog_macro,
      ICoreWebView2_9_CloseDefaultDownloadDialog_macro,
      ICoreWebView2_9_get_DefaultDownloadDialogCornerAlignment_macro,
      ICoreWebView2_9_put_DefaultDownloadDialogCornerAlignment_macro]"

definition ICoreWebView2_19_macros_3 :: "cmacro list" where
  "ICoreWebView2_19_macros_3 =
     [ICoreWebView2_9_get_DefaultDownloadDialogMargin_macro, ICoreWebView2_9_put_DefaultDownloadDialogMargin_macro,
      ICoreWebView2_10_add_BasicAuthenticationRequested_macro,
      ICoreWebView2_10_remove_BasicAuthenticationRequested_macro,
      ICoreWebView2_11_CallDevToolsProtocolMethodForSession_macro, ICoreWebView2_11_add_ContextMenuRequested_macro,
      ICoreWebView2_11_remove_ContextMenuRequested_macro, ICoreWebView2_12_add_StatusBarTextChanged_macro,
      ICoreWebView2_12_remove_StatusBarTextChanged_macro, ICoreWebView2_12_get_StatusBarText_macro,
      ICoreWebView2_13_get_Profile_macro, ICoreWebView2_14_add_ServerCertificateErrorDetected_macro,
      ICoreWebView2_14_remove_ServerCertificateErrorDetected_macro,
      ICoreWebView2_14_ClearServerCertificateErrorActions_macro, ICoreWebView2_15_add_FaviconChanged_macro,
      ICoreWebView2_15_remove_FaviconChanged_macro, ICoreWebView2_15_get_FaviconUri_macro,
      ICoreWebView2_15_GetFavicon_macro, ICoreWebView2_16_Print_macro, ICoreWebView2_16_ShowPrintUI_macro,
      ICoreWebView2_16_PrintToPdfStream_macro, ICoreWebView2_17_PostSharedBufferToScript_macro,
      ICoreWebView2_18_add_LaunchingExternalUriScheme_macro,
      ICoreWebView2_18_remove_LaunchingExternalUriScheme_macro, ICoreWebView2_19_get_MemoryUsageTargetLevel_macro,
      ICoreWebView2_19_put_MemoryUsageTargetLevel_macro]"

definition ICoreWebView2_19_macros :: "cmacro list" where
  "ICoreWebView2_19_macros = ICoreWebView2_19_macros_1 @ ICoreWebView2_19_macros_2 @ ICoreWebView2_19_macros_3"

definition ICoreWebView2_20_macros_1 :: "cmacro list" where
  "ICoreWebView2_20_macros_1 =
     [IUnknown_QueryInterface_macro, IUnknown_AddRef_macro, IUnknown_Release_macro, ICoreWebView2_get_Settings_macro,
      ICoreWebView2_get_Source_macro, ICoreWebView2_Navigate_macro, ICoreWebView2_NavigateToString_macro,
      ICoreWebView2_add_NavigationStarting_macro, ICoreWebView2_remove_NavigationStarting_macro,
      ICoreWebView2_add_ContentLoading_macro, ICoreWebView2_remove_ContentLoading_macro,
      ICoreWebView2_add_SourceChanged_macro, ICoreWebView2_remove_SourceChanged_macro,
      ICoreWebView2_add_HistoryChanged_macro, ICoreWebView2_remove_HistoryChanged_macro,
      ICoreWebView2_add_NavigationCompleted_macro, ICoreWebView2_remove_NavigationCompleted_macro,
      ICoreWebView2_add_FrameNavigationStarting_macro, ICoreWebView2_remove_FrameNavigationStarting_macro,
      ICoreWebView2_add_FrameNavigationCompleted_macro, ICoreWebView2_remove_FrameNavigationCompleted_macro,
      ICoreWebView2_add_ScriptDialogOpening_macro, ICoreWebView2_remove_ScriptDialogOpening_macro,
      ICoreWebView2_add_PermissionRequested_macro, ICoreWebView2_remove_PermissionRequested_macro,
      ICoreWebView2_add_ProcessFailed_macro, ICoreWebView2_remove_ProcessFailed_macro,
      ICoreWebView2_AddScriptToExecuteOnDocumentCreated_macro,
      ICoreWebView2_RemoveScriptToExecuteOnDocumentCreated_macro, ICoreWebView2_ExecuteScript_macro,
      ICoreWebView2_CapturePreview_macro, ICoreWebView2_Reload_macro, ICoreWebView2_PostWebMessageAsJson_macro,
      ICoreWebView2_PostWebMessageAsString_macro, ICoreWebView2_add_WebMessageReceived_macro,
      ICoreWebView2_remove_WebMessageReceived_macro, ICoreWebView2_CallDevToolsProtocolMethod_macro,
      ICoreWebView2_get_BrowserProcessId_macro, ICoreWebView2_get_CanGoBack_macro,
      ICoreWebView2_get_CanGoForward_macro, ICoreWebView2_GoBack_macro, ICoreWebView2_GoForward_macro,
      ICoreWebView2_GetDevToolsProtocolEventReceiver_macro, ICoreWebView2_Stop_macro,
      ICoreWebView2_add_NewWindowRequested_macro, ICoreWebView2_remove_NewWindowRequested_macro,
      ICoreWebView2_add_DocumentTitleChanged_macro, ICoreWebView2_remove_DocumentTitleChanged_macro,
      ICoreWebView2_get_DocumentTitle_macro]"

definition ICoreWebView2_20_macros_2 :: "cmacro list" where
  "ICoreWebView2_20_macros_2 =
     [ICoreWebView2_AddHostObjectToScript_macro, ICoreWebView2_RemoveHostObjectFromScript_macro,
      ICoreWebView2_OpenDevToolsWindow_macro, ICoreWebView2_add_ContainsFullScreenElementChanged_macro,
      ICoreWebView2_remove_ContainsFullScreenElementChanged_macro, ICoreWebView2_get_ContainsFullScreenElement_macro,
      ICoreWebView2_add_WebResourceRequested_macro, ICoreWebView2_remove_WebResourceRequested_macro,
      ICoreWebView2_AddWebResourceRequestedFilter_macro, ICoreWebView2_RemoveWebResourceRequestedFilter_macro,
      ICoreWebView2_add_WindowCloseRequested_macro, ICoreWebView2_remove_WindowCloseRequested_macro,
      ICoreWebView2_2_add_WebResourceResponseReceived_macro,
      ICoreWebView2_2_remove_WebResourceResponseReceived_macro, ICoreWebView2_2_NavigateWithWebResourceRequest_macro,
      ICoreWebView2_2_add_DOMContentLoaded_macro, ICoreWebView2_2_remove_DOMContentLoaded_macro,
      ICoreWebView2_2_get_CookieManager_macro, ICoreWebView2_2_get_Environment_macro,
      ICoreWebView2_3_TrySuspend_macro, ICoreWebView2_3_Resume_macro, ICoreWebView2_3_get_IsSuspended_macro,
      ICoreWebView2_3_SetVirtualHostNameToFolderMapping_macro,
      ICoreWebView2_3_ClearVirtualHostNameToFolderMapping_macro, ICoreWebView2_4_add_FrameCreated_macro,
      ICoreWebView2_4_remove_FrameCreated_macro, ICoreWebView2_4_add_DownloadStarting_macro,
      ICoreWebView2_4_remove_DownloadStarting_macro, ICoreWebView2_5_add_ClientCertificateRequested_macro,
      ICoreWebView2_5_remove_ClientCertificateRequested_macro, ICoreWebView2_6_OpenTaskManagerWindow_macro,
      ICoreWebView2_7_PrintToPdf_macro, ICoreWebView2_8_add_IsMutedChanged_macro,
      ICoreWebView2_8_remove_IsMutedChanged_macro, ICoreWebView2_8_get_IsMuted_macro,
      ICoreWebView2_8_put_IsMuted_macro, ICoreWebView2_8_add_IsDocumentPlayingAudioChanged_macro,
      ICoreWebView2_8_remove_IsDocumentPlayingAudioChanged_macro, ICoreWebView2_8_get_IsDocumentPlayingAudio_macro,
      ICoreWebView2_9_add_IsDefaultDownloadDialogOpenChanged_macro,
      ICoreWebView2_9_remove_IsDefaultDownloadDialogOpenChanged_macro,
      ICoreWebView2_9_get_IsDefaultDownloadDialogOpen_macro, ICoreWebView2_9_OpenDefaultDownloadDialog_macro,
      ICoreWebView2_9_CloseDefaultDownloadDialog_macro,
      ICoreWebView2_9_get_DefaultDownloadDialogCornerAlignment_macro,
      ICoreWebView2_9_put_DefaultDownloadDialogCornerAlignment_macro]"

definition ICoreWebView2_20_macros_3 :: "cmacro list" where
  "ICoreWebView2_20_macros_3 =
     [ICoreWebView2_9_get_DefaultDownloadDialogMargin_macro, ICoreWebView2_9_put_DefaultDownloadDialogMargin_macro,
      ICoreWebView2_10_add_BasicAuthenticationRequested_macro,
      ICoreWebView2_10_remove_BasicAuthenticationRequested_macro,
      ICoreWebView2_11_CallDevToolsProtocolMethodForSession_macro, ICoreWebView2_11_add_ContextMenuRequested_macro,
      ICoreWebView2_11_remove_ContextMenuRequested_macro, ICoreWebView2_12_add_StatusBarTextChanged_macro,
      ICoreWebView2_12_remove_StatusBarTextChanged_macro, ICoreWebView2_12_get_StatusBarText_macro,
      ICoreWebView2_13_get_Profile_macro, ICoreWebView2_14_add_ServerCertificateErrorDetected_macro,
      ICoreWebView2_14_remove_ServerCertificateErrorDetected_macro,
      ICoreWebView2_14_ClearServerCertificateErrorActions_macro, ICoreWebView2_15_add_FaviconChanged_macro,
      ICoreWebView2_15_remove_FaviconChanged_macro, ICoreWebView2_15_get_FaviconUri_macro,
      ICoreWebView2_15_GetFavicon_macro, ICoreWebView2_16_Print_macro, ICoreWebView2_16_ShowPrintUI_macro,
      ICoreWebView2_16_PrintToPdfStream_macro, ICoreWebView2_17_PostSharedBufferToScript_macro,
      ICoreWebView2_18_add_LaunchingExternalUriScheme_macro,
      ICoreWebView2_18_remove_LaunchingExternalUriScheme_macro, ICoreWebView2_19_get_MemoryUsageTargetLevel_macro,
      ICoreWebView2_19_put_MemoryUsageTargetLevel_macro, ICoreWebView2_20_get_FrameId_macro]"

definition ICoreWebView2_20_macros :: "cmacro list" where
  "ICoreWebView2_20_macros = ICoreWebView2_20_macros_1 @ ICoreWebView2_20_macros_2 @ ICoreWebView2_20_macros_3"

definition ICoreWebView2_21_macros_1 :: "cmacro list" where
  "ICoreWebView2_21_macros_1 =
     [IUnknown_QueryInterface_macro, IUnknown_AddRef_macro, IUnknown_Release_macro, ICoreWebView2_get_Settings_macro,
      ICoreWebView2_get_Source_macro, ICoreWebView2_Navigate_macro, ICoreWebView2_NavigateToString_macro,
      ICoreWebView2_add_NavigationStarting_macro, ICoreWebView2_remove_NavigationStarting_macro,
      ICoreWebView2_add_ContentLoading_macro, ICoreWebView2_remove_ContentLoading_macro,
      ICoreWebView2_add_SourceChanged_macro, ICoreWebView2_remove_SourceChanged_macro,
      ICoreWebView2_add_HistoryChanged_macro, ICoreWebView2_remove_HistoryChanged_macro,
      ICoreWebView2_add_NavigationCompleted_macro, ICoreWebView2_remove_NavigationCompleted_macro,
      ICoreWebView2_add_FrameNavigationStarting_macro, ICoreWebView2_remove_FrameNavigationStarting_macro,
      ICoreWebView2_add_FrameNavigationCompleted_macro, ICoreWebView2_remove_FrameNavigationCompleted_macro,
      ICoreWebView2_add_ScriptDialogOpening_macro, ICoreWebView2_remove_ScriptDialogOpening_macro,
      ICoreWebView2_add_PermissionRequested_macro, ICoreWebView2_remove_PermissionRequested_macro,
      ICoreWebView2_add_ProcessFailed_macro, ICoreWebView2_remove_ProcessFailed_macro,
      ICoreWebView2_AddScriptToExecuteOnDocumentCreated_macro,
      ICoreWebView2_RemoveScriptToExecuteOnDocumentCreated_macro, ICoreWebView2_ExecuteScript_macro,
      ICoreWebView2_CapturePreview_macro, ICoreWebView2_Reload_macro, ICoreWebView2_PostWebMessageAsJson_macro,
      ICoreWebView2_PostWebMessageAsString_macro, ICoreWebView2_add_WebMessageReceived_macro,
      ICoreWebView2_remove_WebMessageReceived_macro, ICoreWebView2_CallDevToolsProtocolMethod_macro,
      ICoreWebView2_get_BrowserProcessId_macro, ICoreWebView2_get_CanGoBack_macro,
      ICoreWebView2_get_CanGoForward_macro, ICoreWebView2_GoBack_macro, ICoreWebView2_GoForward_macro,
      ICoreWebView2_GetDevToolsProtocolEventReceiver_macro, ICoreWebView2_Stop_macro,
      ICoreWebView2_add_NewWindowRequested_macro, ICoreWebView2_remove_NewWindowRequested_macro,
      ICoreWebView2_add_DocumentTitleChanged_macro, ICoreWebView2_remove_DocumentTitleChanged_macro,
      ICoreWebView2_get_DocumentTitle_macro]"

definition ICoreWebView2_21_macros_2 :: "cmacro list" where
  "ICoreWebView2_21_macros_2 =
     [ICoreWebView2_AddHostObjectToScript_macro, ICoreWebView2_RemoveHostObjectFromScript_macro,
      ICoreWebView2_OpenDevToolsWindow_macro, ICoreWebView2_add_ContainsFullScreenElementChanged_macro,
      ICoreWebView2_remove_ContainsFullScreenElementChanged_macro, ICoreWebView2_get_ContainsFullScreenElement_macro,
      ICoreWebView2_add_WebResourceRequested_macro, ICoreWebView2_remove_WebResourceRequested_macro,
      ICoreWebView2_AddWebResourceRequestedFilter_macro, ICoreWebView2_RemoveWebResourceRequestedFilter_macro,
      ICoreWebView2_add_WindowCloseRequested_macro, ICoreWebView2_remove_WindowCloseRequested_macro,
      ICoreWebView2_2_add_WebResourceResponseReceived_macro,
      ICoreWebView2_2_remove_WebResourceResponseReceived_macro, ICoreWebView2_2_NavigateWithWebResourceRequest_macro,
      ICoreWebView2_2_add_DOMContentLoaded_macro, ICoreWebView2_2_remove_DOMContentLoaded_macro,
      ICoreWebView2_2_get_CookieManager_macro, ICoreWebView2_2_get_Environment_macro,
      ICoreWebView2_3_TrySuspend_macro, ICoreWebView2_3_Resume_macro, ICoreWebView2_3_get_IsSuspended_macro,
      ICoreWebView2_3_SetVirtualHostNameToFolderMapping_macro,
      ICoreWebView2_3_ClearVirtualHostNameToFolderMapping_macro, ICoreWebView2_4_add_FrameCreated_macro,
      ICoreWebView2_4_remove_FrameCreated_macro, ICoreWebView2_4_add_DownloadStarting_macro,
      ICoreWebView2_4_remove_DownloadStarting_macro, ICoreWebView2_5_add_ClientCertificateRequested_macro,
      ICoreWebView2_5_remove_ClientCertificateRequested_macro, ICoreWebView2_6_OpenTaskManagerWindow_macro,
      ICoreWebView2_7_PrintToPdf_macro, ICoreWebView2_8_add_IsMutedChanged_macro,
      ICoreWebView2_8_remove_IsMutedChanged_macro, ICoreWebView2_8_get_IsMuted_macro,
      ICoreWebView2_8_put_IsMuted_macro, ICoreWebView2_8_add_IsDocumentPlayingAudioChanged_macro,
      ICoreWebView2_8_remove_IsDocumentPlayingAudioChanged_macro, ICoreWebView2_8_get_IsDocumentPlayingAudio_macro,
      ICoreWebView2_9_add_IsDefaultDownloadDialogOpenChanged_macro,
      ICoreWebView2_9_remove_IsDefaultDownloadDialogOpenChanged_macro,
      ICoreWebView2_9_get_IsDefaultDownloadDialogOpen_macro, ICoreWebView2_9_OpenDefaultDownloadDialog_macro,
      ICoreWebView2_9_CloseDefaultDownloadDialog_macro,
      ICoreWebView2_9_get_DefaultDownloadDialogCornerAlignment_macro,
      ICoreWebView2_9_put_DefaultDownloadDialogCornerAlignment_macro]"

definition ICoreWebView2_21_macros_3 :: "cmacro list" where
  "ICoreWebView2_21_macros_3 =
     [ICoreWebView2_9_get_DefaultDownloadDialogMargin_macro, ICoreWebView2_9_put_DefaultDownloadDialogMargin_macro,
      ICoreWebView2_10_add_BasicAuthenticationRequested_macro,
      ICoreWebView2_10_remove_BasicAuthenticationRequested_macro,
      ICoreWebView2_11_CallDevToolsProtocolMethodForSession_macro, ICoreWebView2_11_add_ContextMenuRequested_macro,
      ICoreWebView2_11_remove_ContextMenuRequested_macro, ICoreWebView2_12_add_StatusBarTextChanged_macro,
      ICoreWebView2_12_remove_StatusBarTextChanged_macro, ICoreWebView2_12_get_StatusBarText_macro,
      ICoreWebView2_13_get_Profile_macro, ICoreWebView2_14_add_ServerCertificateErrorDetected_macro,
      ICoreWebView2_14_remove_ServerCertificateErrorDetected_macro,
      ICoreWebView2_14_ClearServerCertificateErrorActions_macro, ICoreWebView2_15_add_FaviconChanged_macro,
      ICoreWebView2_15_remove_FaviconChanged_macro, ICoreWebView2_15_get_FaviconUri_macro,
      ICoreWebView2_15_GetFavicon_macro, ICoreWebView2_16_Print_macro, ICoreWebView2_16_ShowPrintUI_macro,
      ICoreWebView2_16_PrintToPdfStream_macro, ICoreWebView2_17_PostSharedBufferToScript_macro,
      ICoreWebView2_18_add_LaunchingExternalUriScheme_macro,
      ICoreWebView2_18_remove_LaunchingExternalUriScheme_macro, ICoreWebView2_19_get_MemoryUsageTargetLevel_macro,
      ICoreWebView2_19_put_MemoryUsageTargetLevel_macro, ICoreWebView2_20_get_FrameId_macro,
      ICoreWebView2_21_ExecuteScriptWithResult_macro]"

definition ICoreWebView2_21_macros :: "cmacro list" where
  "ICoreWebView2_21_macros = ICoreWebView2_21_macros_1 @ ICoreWebView2_21_macros_2 @ ICoreWebView2_21_macros_3"

definition ICoreWebView2_22_macros_1 :: "cmacro list" where
  "ICoreWebView2_22_macros_1 =
     [IUnknown_QueryInterface_macro, IUnknown_AddRef_macro, IUnknown_Release_macro, ICoreWebView2_get_Settings_macro,
      ICoreWebView2_get_Source_macro, ICoreWebView2_Navigate_macro, ICoreWebView2_NavigateToString_macro,
      ICoreWebView2_add_NavigationStarting_macro, ICoreWebView2_remove_NavigationStarting_macro,
      ICoreWebView2_add_ContentLoading_macro, ICoreWebView2_remove_ContentLoading_macro,
      ICoreWebView2_add_SourceChanged_macro, ICoreWebView2_remove_SourceChanged_macro,
      ICoreWebView2_add_HistoryChanged_macro, ICoreWebView2_remove_HistoryChanged_macro,
      ICoreWebView2_add_NavigationCompleted_macro, ICoreWebView2_remove_NavigationCompleted_macro,
      ICoreWebView2_add_FrameNavigationStarting_macro, ICoreWebView2_remove_FrameNavigationStarting_macro,
      ICoreWebView2_add_FrameNavigationCompleted_macro, ICoreWebView2_remove_FrameNavigationCompleted_macro,
      ICoreWebView2_add_ScriptDialogOpening_macro, ICoreWebView2_remove_ScriptDialogOpening_macro,
      ICoreWebView2_add_PermissionRequested_macro, ICoreWebView2_remove_PermissionRequested_macro,
      ICoreWebView2_add_ProcessFailed_macro, ICoreWebView2_remove_ProcessFailed_macro,
      ICoreWebView2_AddScriptToExecuteOnDocumentCreated_macro,
      ICoreWebView2_RemoveScriptToExecuteOnDocumentCreated_macro, ICoreWebView2_ExecuteScript_macro,
      ICoreWebView2_CapturePreview_macro, ICoreWebView2_Reload_macro, ICoreWebView2_PostWebMessageAsJson_macro,
      ICoreWebView2_PostWebMessageAsString_macro, ICoreWebView2_add_WebMessageReceived_macro,
      ICoreWebView2_remove_WebMessageReceived_macro, ICoreWebView2_CallDevToolsProtocolMethod_macro,
      ICoreWebView2_get_BrowserProcessId_macro, ICoreWebView2_get_CanGoBack_macro,
      ICoreWebView2_get_CanGoForward_macro, ICoreWebView2_GoBack_macro, ICoreWebView2_GoForward_macro,
      ICoreWebView2_GetDevToolsProtocolEventReceiver_macro, ICoreWebView2_Stop_macro,
      ICoreWebView2_add_NewWindowRequested_macro, ICoreWebView2_remove_NewWindowRequested_macro,
      ICoreWebView2_add_DocumentTitleChanged_macro, ICoreWebView2_remove_DocumentTitleChanged_macro,
      ICoreWebView2_get_DocumentTitle_macro]"

definition ICoreWebView2_22_macros_2 :: "cmacro list" where
  "ICoreWebView2_22_macros_2 =
     [ICoreWebView2_AddHostObjectToScript_macro, ICoreWebView2_RemoveHostObjectFromScript_macro,
      ICoreWebView2_OpenDevToolsWindow_macro, ICoreWebView2_add_ContainsFullScreenElementChanged_macro,
      ICoreWebView2_remove_ContainsFullScreenElementChanged_macro, ICoreWebView2_get_ContainsFullScreenElement_macro,
      ICoreWebView2_add_WebResourceRequested_macro, ICoreWebView2_remove_WebResourceRequested_macro,
      ICoreWebView2_AddWebResourceRequestedFilter_macro, ICoreWebView2_RemoveWebResourceRequestedFilter_macro,
      ICoreWebView2_add_WindowCloseRequested_macro, ICoreWebView2_remove_WindowCloseRequested_macro,
      ICoreWebView2_2_add_WebResourceResponseReceived_macro,
      ICoreWebView2_2_remove_WebResourceResponseReceived_macro, ICoreWebView2_2_NavigateWithWebResourceRequest_macro,
      ICoreWebView2_2_add_DOMContentLoaded_macro, ICoreWebView2_2_remove_DOMContentLoaded_macro,
      ICoreWebView2_2_get_CookieManager_macro, ICoreWebView2_2_get_Environment_macro,
      ICoreWebView2_3_TrySuspend_macro, ICoreWebView2_3_Resume_macro, ICoreWebView2_3_get_IsSuspended_macro,
      ICoreWebView2_3_SetVirtualHostNameToFolderMapping_macro,
      ICoreWebView2_3_ClearVirtualHostNameToFolderMapping_macro, ICoreWebView2_4_add_FrameCreated_macro,
      ICoreWebView2_4_remove_FrameCreated_macro, ICoreWebView2_4_add_DownloadStarting_macro,
      ICoreWebView2_4_remove_DownloadStarting_macro, ICoreWebView2_5_add_ClientCertificateRequested_macro,
      ICoreWebView2_5_remove_ClientCertificateRequested_macro, ICoreWebView2_6_OpenTaskManagerWindow_macro,
      ICoreWebView2_7_PrintToPdf_macro, ICoreWebView2_8_add_IsMutedChanged_macro,
      ICoreWebView2_8_remove_IsMutedChanged_macro, ICoreWebView2_8_get_IsMuted_macro,
      ICoreWebView2_8_put_IsMuted_macro, ICoreWebView2_8_add_IsDocumentPlayingAudioChanged_macro,
      ICoreWebView2_8_remove_IsDocumentPlayingAudioChanged_macro, ICoreWebView2_8_get_IsDocumentPlayingAudio_macro,
      ICoreWebView2_9_add_IsDefaultDownloadDialogOpenChanged_macro,
      ICoreWebView2_9_remove_IsDefaultDownloadDialogOpenChanged_macro,
      ICoreWebView2_9_get_IsDefaultDownloadDialogOpen_macro, ICoreWebView2_9_OpenDefaultDownloadDialog_macro,
      ICoreWebView2_9_CloseDefaultDownloadDialog_macro,
      ICoreWebView2_9_get_DefaultDownloadDialogCornerAlignment_macro,
      ICoreWebView2_9_put_DefaultDownloadDialogCornerAlignment_macro]"

definition ICoreWebView2_22_macros_3 :: "cmacro list" where
  "ICoreWebView2_22_macros_3 =
     [ICoreWebView2_9_get_DefaultDownloadDialogMargin_macro,
      ICoreWebView2_9_put_DefaultDownloadDialogMargin_macro,
      ICoreWebView2_10_add_BasicAuthenticationRequested_macro,
      ICoreWebView2_10_remove_BasicAuthenticationRequested_macro,
      ICoreWebView2_11_CallDevToolsProtocolMethodForSession_macro,
      ICoreWebView2_11_add_ContextMenuRequested_macro,
      ICoreWebView2_11_remove_ContextMenuRequested_macro,
      ICoreWebView2_12_add_StatusBarTextChanged_macro,
      ICoreWebView2_12_remove_StatusBarTextChanged_macro,
      ICoreWebView2_12_get_StatusBarText_macro,
      ICoreWebView2_13_get_Profile_macro,
      ICoreWebView2_14_add_ServerCertificateErrorDetected_macro,
      ICoreWebView2_14_remove_ServerCertificateErrorDetected_macro,
      ICoreWebView2_14_ClearServerCertificateErrorActions_macro,
      ICoreWebView2_15_add_FaviconChanged_macro,
      ICoreWebView2_15_remove_FaviconChanged_macro,
      ICoreWebView2_15_get_FaviconUri_macro,
      ICoreWebView2_15_GetFavicon_macro,
      ICoreWebView2_16_Print_macro,
      ICoreWebView2_16_ShowPrintUI_macro,
      ICoreWebView2_16_PrintToPdfStream_macro,
      ICoreWebView2_17_PostSharedBufferToScript_macro,
      ICoreWebView2_18_add_LaunchingExternalUriScheme_macro,
      ICoreWebView2_18_remove_LaunchingExternalUriScheme_macro,
      ICoreWebView2_19_get_MemoryUsageTargetLevel_macro,
      ICoreWebView2_19_put_MemoryUsageTargetLevel_macro,
      ICoreWebView2_20_get_FrameId_macro,
      ICoreWebView2_21_ExecuteScriptWithResult_macro,
      Macro ''AddWebResourceRequestedFilterWithRequestSourceKinds'' [''uri'', ''resourceContext'', ''requestSourceKinds''] ''AddWebResourceRequestedFilterWithRequestSourceKinds'' [''uri'', ''resourceContext'', ''requestSourceKinds''],
      Macro ''RemoveWebResourceRequestedFilterWithRequestSourceKinds'' [''uri'', ''resourceContext'', ''requestSourceKinds''] ''RemoveWebResourceRequestedFilterWithRequestSourceKinds'' [''uri'', ''resourceContext'', ''requestSourceKinds'']]"

definition ICoreWebView2_22_macros :: "cmacro list" where
  "ICoreWebView2_22_macros = ICoreWebView2_22_macros_1 @ ICoreWebView2_22_macros_2 @ ICoreWebView2_22_macros_3"

section \<open>The macros follow the tables\<close>

lemma ICoreWebView2_calls:
  "map macro_of
     [ICoreWebView2_get_Settings, ICoreWebView2_get_Source, ICoreWebView2_Navigate, ICoreWebView2_NavigateToString,
      ICoreWebView2_add_NavigationStarting, ICoreWebView2_remove_NavigationStarting,
      ICoreWebView2_add_ContentLoading, ICoreWebView2_remove_ContentLoading, ICoreWebView2_add_SourceChanged,
      ICoreWebView2_remove_SourceChanged, ICoreWebView2_add_HistoryChanged, ICoreWebView2_remove_HistoryChanged,
      ICoreWebView2_add_NavigationCompleted, ICoreWebView2_remove_NavigationCompleted,
      ICoreWebView2_add_FrameNavigationStarting, ICoreWebView2_remove_FrameNavigationStarting,
      ICoreWebView2_add_FrameNavigationCompleted, ICoreWebView2_remove_FrameNavigationCompleted,
      ICoreWebView2_add_ScriptDialogOpening, ICoreWebView2_remove_ScriptDialogOpening,
      ICoreWebView2_add_PermissionRequested, ICoreWebView2_remove_PermissionRequested,
      ICoreWebView2_add_ProcessFailed, ICoreWebView2_remove_ProcessFailed,
      ICoreWebView2_AddScriptToExecuteOnDocumentCreated, ICoreWebView2_RemoveScriptToExecuteOnDocumentCreated,
      ICoreWebView2_ExecuteScript, ICoreWebView2_CapturePreview, ICoreWebView2_Reload,
      ICoreWebView2_PostWebMessageAsJson, ICoreWebView2_PostWebMessageAsString, ICoreWebView2_add_WebMessageReceived,
      ICoreWebView2_remove_WebMessageReceived, ICoreWebView2_CallDevToolsProtocolMethod,
      ICoreWebView2_get_BrowserProcessId, ICoreWebView2_get_CanGoBack, ICoreWebView2_get_CanGoForward,
      ICoreWebView2_GoBack, ICoreWebView2_GoForward, ICoreWebView2_GetDevToolsProtocolEventReceiver,
      ICoreWebView2_Stop, ICoreWebView2_add_NewWindowRequested, ICoreWebView2_remove_NewWindowRequested,
      ICoreWebView2_add_DocumentTitleChanged, ICoreWebView2_remove_DocumentTitleChanged,
      ICoreWebView2_get_DocumentTitle, ICoreWebView2_AddHostObjectToScript, ICoreWebView2_RemoveHostObjectFromScript,
      ICoreWebView2_OpenDevToolsWindow, ICoreWebView2_add_ContainsFullScreenElementChanged,
      ICoreWebView2_remove_ContainsFullScreenElementChanged, ICoreWebView2_get_ContainsFullScreenElement,
      ICoreWebView2_add_WebResourceRequested, ICoreWebView2_remove_WebResourceRequested,
      ICoreWebView2_AddWebResourceRequestedFilter, ICoreWebView2_RemoveWebResourceRequestedFilter,
      ICoreWebView2_add_WindowCloseRequested, ICoreWebView2_remove_WindowCloseRequested]
   =
     [ICoreWebView2_get_Settings_macro, ICoreWebView2_get_Source_macro, ICoreWebView2_Navigate_macro,
      ICoreWebView2_NavigateToString_macro, ICoreWebView2_add_NavigationStarting_macro,
      ICoreWebView2_remove_NavigationStarting_macro, ICoreWebView2_add_ContentLoading_macro,
      ICoreWebView2_remove_ContentLoading_macro, ICoreWebView2_add_SourceChanged_macro,
      ICoreWebView2_remove_SourceChanged_macro, ICoreWebView2_add_HistoryChanged_macro,
      ICoreWebView2_remove_HistoryChanged_macro, ICoreWebView2_add_NavigationCompleted_macro,
      ICoreWebView2_remove_NavigationCompleted_macro, ICoreWebView2_add_FrameNavigationStarting_macro,
      ICoreWebView2_remove_FrameNavigationStarting_macro, ICoreWebView2_add_FrameNavigationCompleted_macro,
      ICoreWebView2_remove_FrameNavigationCompleted_macro, ICoreWebView2_add_ScriptDialogOpening_macro,
      ICoreWebView2_remove_ScriptDialogOpening_macro, ICoreWebView2_add_PermissionRequested_macro,
      ICoreWebView2_remove_PermissionRequested_macro, ICoreWebView2_add_ProcessFailed_macro,
      ICoreWebView2_remove_ProcessFailed_macro, ICoreWebView2_AddScriptToExecuteOnDocumentCreated_macro,
      ICoreWebView2_RemoveScriptToExecuteOnDocumentCreated_macro, ICoreWebView2_ExecuteScript_macro,
      ICoreWebView2_CapturePreview_macro, ICoreWebView2_Reload_macro, ICoreWebView2_PostWebMessageAsJson_macro,
      ICoreWebView2_PostWebMessageAsString_macro, ICoreWebView2_add_WebMessageReceived_macro,
      ICoreWebView2_remove_WebMessageReceived_macro, ICoreWebView2_CallDevToolsProtocolMethod_macro,
      ICoreWebView2_get_BrowserProcessId_macro, ICoreWebView2_get_CanGoBack_macro,
      ICoreWebView2_get_CanGoForward_macro, ICoreWebView2_GoBack_macro, ICoreWebView2_GoForward_macro,
      ICoreWebView2_GetDevToolsProtocolEventReceiver_macro, ICoreWebView2_Stop_macro,
      ICoreWebView2_add_NewWindowRequested_macro, ICoreWebView2_remove_NewWindowRequested_macro,
      ICoreWebView2_add_DocumentTitleChanged_macro, ICoreWebView2_remove_DocumentTitleChanged_macro,
      ICoreWebView2_get_DocumentTitle_macro, ICoreWebView2_AddHostObjectToScript_macro,
      ICoreWebView2_RemoveHostObjectFromScript_macro, ICoreWebView2_OpenDevToolsWindow_macro,
      ICoreWebView2_add_ContainsFullScreenElementChanged_macro,
      ICoreWebView2_remove_ContainsFullScreenElementChanged_macro, ICoreWebView2_get_ContainsFullScreenElement_macro,
      ICoreWebView2_add_WebResourceRequested_macro, ICoreWebView2_remove_WebResourceRequested_macro,
      ICoreWebView2_AddWebResourceRequestedFilter_macro, ICoreWebView2_RemoveWebResourceRequestedFilter_macro,
      ICoreWebView2_add_WindowCloseRequested_macro, ICoreWebView2_remove_WindowCloseRequested_macro]"
  by code_simp

lemma ICoreWebView2_2_calls:
  "map macro_of
     [ICoreWebView2_2_add_WebResourceResponseReceived, ICoreWebView2_2_remove_WebResourceResponseReceived,
      ICoreWebView2_2_NavigateWithWebResourceRequest, ICoreWebView2_2_add_DOMContentLoaded,
      ICoreWebView2_2_remove_DOMContentLoaded, ICoreWebView2_2_get_CookieManager, ICoreWebView2_2_get_Environment]
   =
     [ICoreWebView2_2_add_WebResourceResponseReceived_macro,
      ICoreWebView2_2_remove_WebResourceResponseReceived_macro, ICoreWebView2_2_NavigateWithWebResourceRequest_macro,
      ICoreWebView2_2_add_DOMContentLoaded_macro, ICoreWebView2_2_remove_DOMContentLoaded_macro,
      ICoreWebView2_2_get_CookieManager_macro, ICoreWebView2_2_get_Environment_macro]"
  by code_simp

lemma ICoreWebView2_3_calls:
  "map macro_of
     [ICoreWebView2_3_TrySuspend, ICoreWebView2_3_Resume, ICoreWebView2_3_get_IsSuspended,
      ICoreWebView2_3_SetVirtualHostNameToFolderMapping, ICoreWebView2_3_ClearVirtualHostNameToFolderMapping]
   =
     [ICoreWebView2_3_TrySuspend_macro, ICoreWebView2_3_Resume_macro, ICoreWebView2_3_get_IsSuspended_macro,
      ICoreWebView2_3_SetVirtualHostNameToFolderMapping_macro,
      ICoreWebView2_3_ClearVirtualHostNameToFolderMapping_macro]"
  by code_simp

lemma ICoreWebView2_4_calls:
  "map macro_of
     [ICoreWebView2_4_add_FrameCreated, ICoreWebView2_4_remove_FrameCreated, ICoreWebView2_4_add_DownloadStarting,
      ICoreWebView2_4_remove_DownloadStarting]
   =
     [ICoreWebView2_4_add_FrameCreated_macro, ICoreWebView2_4_remove_FrameCreated_macro,
      ICoreWebView2_4_add_DownloadStarting_macro, ICoreWebView2_4_remove_DownloadStarting_macro]"
  by code_simp

lemma ICoreWebView2_5_calls:
  "map macro_of
     [ICoreWebView2_5_add_ClientCertificateRequested, ICoreWebView2_5_remove_ClientCertificateRequested]
   =
     [ICoreWebView2_5_add_ClientCertificateRequested_macro, ICoreWebView2_5_remove_ClientCertificateRequested_macro]"
  by code_simp

lemma ICoreWebView2_6_calls:
  "map macro_of
     [ICoreWebView2_6_OpenTaskManagerWindow]
   =
     [ICoreWebView2_6_OpenTaskManagerWindow_macro]"
  by code_simp

lemma ICoreWebView2_7_calls:
  "map macro_of
     [ICoreWebView2_7_PrintToPdf]
   =
     [ICoreWebView2_7_PrintToPdf_macro]"
  by code_simp

lemma ICoreWebView2_8_calls:
  "map macro_of
     [ICoreWebView2_8_add_IsMutedChanged, ICoreWebView2_8_remove_IsMutedChanged, ICoreWebView2_8_get_IsMuted,
      ICoreWebView2_8_put_IsMuted, ICoreWebView2_8_add_IsDocumentPlayingAudioChanged,
      ICoreWebView2_8_remove_IsDocumentPlayingAudioChanged, ICoreWebView2_8_get_IsDocumentPlayingAudio]
   =
     [ICoreWebView2_8_add_IsMutedChanged_macro, ICoreWebView2_8_remove_IsMutedChanged_macro,
      ICoreWebView2_8_get_IsMuted_macro, ICoreWebView2_8_put_IsMuted_macro,
      ICoreWebView2_8_add_IsDocumentPlayingAudioChanged_macro,
      ICoreWebView2_8_remove_IsDocumentPlayingAudioChanged_macro, ICoreWebView2_8_get_IsDocumentPlayingAudio_macro]"
  by code_simp

lemma ICoreWebView2_9_calls:
  "map macro_of
     [ICoreWebView2_9_add_IsDefaultDownloadDialogOpenChanged,
      ICoreWebView2_9_remove_IsDefaultDownloadDialogOpenChanged, ICoreWebView2_9_get_IsDefaultDownloadDialogOpen,
      ICoreWebView2_9_OpenDefaultDownloadDialog, ICoreWebView2_9_CloseDefaultDownloadDialog,
      ICoreWebView2_9_get_DefaultDownloadDialogCornerAlignment,
      ICoreWebView2_9_put_DefaultDownloadDialogCornerAlignment, ICoreWebView2_9_get_DefaultDownloadDialogMargin,
      ICoreWebView2_9_put_DefaultDownloadDialogMargin]
   =
     [ICoreWebView2_9_add_IsDefaultDownloadDialogOpenChanged_macro,
      ICoreWebView2_9_remove_IsDefaultDownloadDialogOpenChanged_macro,
      ICoreWebView2_9_get_IsDefaultDownloadDialogOpen_macro, ICoreWebView2_9_OpenDefaultDownloadDialog_macro,
      ICoreWebView2_9_CloseDefaultDownloadDialog_macro,
      ICoreWebView2_9_get_DefaultDownloadDialogCornerAlignment_macro,
      ICoreWebView2_9_put_DefaultDownloadDialogCornerAlignment_macro,
      ICoreWebView2_9_get_DefaultDownloadDialogMargin_macro, ICoreWebView2_9_put_DefaultDownloadDialogMargin_macro]"
  by code_simp

lemma ICoreWebView2_10_calls:
  "map macro_of
     [ICoreWebView2_10_add_BasicAuthenticationRequested, ICoreWebView2_10_remove_BasicAuthenticationRequested]
   =
     [ICoreWebView2_10_add_BasicAuthenticationRequested_macro,
      ICoreWebView2_10_remove_BasicAuthenticationRequested_macro]"
  by code_simp

lemma ICoreWebView2_11_calls:
  "map macro_of
     [ICoreWebView2_11_CallDevToolsProtocolMethodForSession, ICoreWebView2_11_add_ContextMenuRequested,
      ICoreWebView2_11_remove_ContextMenuRequested]
   =
     [ICoreWebView2_11_CallDevToolsProtocolMethodForSession_macro, ICoreWebView2_11_add_ContextMenuRequested_macro,
      ICoreWebView2_11_remove_ContextMenuRequested_macro]"
  by code_simp

lemma ICoreWebView2_12_calls:
  "map macro_of
     [ICoreWebView2_12_add_StatusBarTextChanged, ICoreWebView2_12_remove_StatusBarTextChanged,
      ICoreWebView2_12_get_StatusBarText]
   =
     [ICoreWebView2_12_add_StatusBarTextChanged_macro, ICoreWebView2_12_remove_StatusBarTextChanged_macro,
      ICoreWebView2_12_get_StatusBarText_macro]"
  by code_simp

lemma ICoreWebView2_13_calls:
  "map macro_of
     [ICoreWebView2_13_get_Profile]
   =
     [ICoreWebView2_13_get_Profile_macro]"
  by code_simp

lemma ICoreWebView2_14_calls:
  "map macro_of
     [ICoreWebView2_14_add_ServerCertificateErrorDetected, ICoreWebView2_14_remove_ServerCertificateErrorDetected,
      ICoreWebView2_14_ClearServerCertificateErrorActions]
   =
     [ICoreWebView2_14_add_ServerCertificateErrorDetected_macro,
      ICoreWebView2_14_remove_ServerCertificateErrorDetected_macro,
      ICoreWebView2_14_ClearServerCertificateErrorActions_macro]"
  by code_simp

lemma ICoreWebView2_15_calls:
  "map macro_of
     [ICoreWebView2_15_add_FaviconChanged, ICoreWebView2_15_remove_FaviconChanged, ICoreWebView2_15_get_FaviconUri,
      ICoreWebView2_15_GetFavicon]
   =
     [ICoreWebView2_15_add_FaviconChanged_macro, ICoreWebView2_15_remove_FaviconChanged_macro,
      ICoreWebView2_15_get_FaviconUri_macro, ICoreWebView2_15_GetFavicon_macro]"
  by code_simp

lemma ICoreWebView2_16_calls:
  "map macro_of
     [ICoreWebView2_16_Print, ICoreWebView2_16_ShowPrintUI, ICoreWebView2_16_PrintToPdfStream]
   =
     [ICoreWebView2_16_Print_macro, ICoreWebView2_16_ShowPrintUI_macro, ICoreWebView2_16_PrintToPdfStream_macro]"
  by code_simp

lemma ICoreWebView2_17_calls:
  "map macro_of
     [ICoreWebView2_17_PostSharedBufferToScript]
   =
     [ICoreWebView2_17_PostSharedBufferToScript_macro]"
  by code_simp

lemma ICoreWebView2_18_calls:
  "map macro_of
     [ICoreWebView2_18_add_LaunchingExternalUriScheme, ICoreWebView2_18_remove_LaunchingExternalUriScheme]
   =
     [ICoreWebView2_18_add_LaunchingExternalUriScheme_macro, ICoreWebView2_18_remove_LaunchingExternalUriScheme_macro]"
  by code_simp

lemma ICoreWebView2_19_calls:
  "map macro_of
     [ICoreWebView2_19_get_MemoryUsageTargetLevel, ICoreWebView2_19_put_MemoryUsageTargetLevel]
   =
     [ICoreWebView2_19_get_MemoryUsageTargetLevel_macro, ICoreWebView2_19_put_MemoryUsageTargetLevel_macro]"
  by code_simp

lemma ICoreWebView2_20_calls:
  "map macro_of
     [ICoreWebView2_20_get_FrameId]
   =
     [ICoreWebView2_20_get_FrameId_macro]"
  by code_simp

lemma ICoreWebView2_21_calls:
  "map macro_of
     [ICoreWebView2_21_ExecuteScriptWithResult]
   =
     [ICoreWebView2_21_ExecuteScriptWithResult_macro]"
  by code_simp

lemma ICoreWebView2_22_calls:
  "map macro_of
     [Method ''HRESULT'' ''AddWebResourceRequestedFilterWithRequestSourceKinds'' [''const LPCWSTR uri'', ''const COREWEBVIEW2_WEB_RESOURCE_CONTEXT resourceContext'', ''const COREWEBVIEW2_WEB_RESOURCE_REQUEST_SOURCE_KINDS requestSourceKinds''],
      Method ''HRESULT'' ''RemoveWebResourceRequestedFilterWithRequestSourceKinds'' [''const LPCWSTR uri'', ''const COREWEBVIEW2_WEB_RESOURCE_CONTEXT resourceContext'', ''const COREWEBVIEW2_WEB_RESOURCE_REQUEST_SOURCE_KINDS requestSourceKinds'']]
   =
     [Macro ''AddWebResourceRequestedFilterWithRequestSourceKinds'' [''uri'', ''resourceContext'', ''requestSourceKinds''] ''AddWebResourceRequestedFilterWithRequestSourceKinds'' [''uri'', ''resourceContext'', ''requestSourceKinds''],
      Macro ''RemoveWebResourceRequestedFilterWithRequestSourceKinds'' [''uri'', ''resourceContext'', ''requestSourceKinds''] ''RemoveWebResourceRequestedFilterWithRequestSourceKinds'' [''uri'', ''resourceContext'', ''requestSourceKinds'']]"
  by code_simp

lemma ICoreWebView2_follow: "ICoreWebView2_macros = macros_of ICoreWebView2"
  by (simp only: macros_of_def layouts macro_simps
      ICoreWebView2_macros_1_def ICoreWebView2_macros_2_def ICoreWebView2_macros_def
      ICoreWebView2_calls [simplified calls_simps])

lemma ICoreWebView2_2_follow: "ICoreWebView2_2_macros = macros_of ICoreWebView2_2"
  by (simp only: macros_of_def layouts macro_simps
      ICoreWebView2_2_macros_1_def ICoreWebView2_2_macros_2_def ICoreWebView2_2_macros_def
      ICoreWebView2_calls [simplified calls_simps] ICoreWebView2_2_calls [simplified calls_simps])

lemma ICoreWebView2_3_follow: "ICoreWebView2_3_macros = macros_of ICoreWebView2_3"
  by (simp only: macros_of_def layouts macro_simps
      ICoreWebView2_3_macros_1_def ICoreWebView2_3_macros_2_def ICoreWebView2_3_macros_def
      ICoreWebView2_calls [simplified calls_simps] ICoreWebView2_2_calls [simplified calls_simps]
      ICoreWebView2_3_calls [simplified calls_simps])

lemma ICoreWebView2_4_follow: "ICoreWebView2_4_macros = macros_of ICoreWebView2_4"
  by (simp only: macros_of_def layouts macro_simps
      ICoreWebView2_4_macros_1_def ICoreWebView2_4_macros_2_def ICoreWebView2_4_macros_def
      ICoreWebView2_calls [simplified calls_simps] ICoreWebView2_2_calls [simplified calls_simps]
      ICoreWebView2_3_calls [simplified calls_simps] ICoreWebView2_4_calls [simplified calls_simps])

lemma ICoreWebView2_5_follow: "ICoreWebView2_5_macros = macros_of ICoreWebView2_5"
  by (simp only: macros_of_def layouts macro_simps
      ICoreWebView2_5_macros_1_def ICoreWebView2_5_macros_2_def ICoreWebView2_5_macros_def
      ICoreWebView2_calls [simplified calls_simps] ICoreWebView2_2_calls [simplified calls_simps]
      ICoreWebView2_3_calls [simplified calls_simps] ICoreWebView2_4_calls [simplified calls_simps]
      ICoreWebView2_5_calls [simplified calls_simps])

lemma ICoreWebView2_6_follow: "ICoreWebView2_6_macros = macros_of ICoreWebView2_6"
  by (simp only: macros_of_def layouts macro_simps
      ICoreWebView2_6_macros_1_def ICoreWebView2_6_macros_2_def ICoreWebView2_6_macros_def
      ICoreWebView2_calls [simplified calls_simps] ICoreWebView2_2_calls [simplified calls_simps]
      ICoreWebView2_3_calls [simplified calls_simps] ICoreWebView2_4_calls [simplified calls_simps]
      ICoreWebView2_5_calls [simplified calls_simps] ICoreWebView2_6_calls [simplified calls_simps])

lemma ICoreWebView2_7_follow: "ICoreWebView2_7_macros = macros_of ICoreWebView2_7"
  by (simp only: macros_of_def layouts macro_simps
      ICoreWebView2_7_macros_1_def ICoreWebView2_7_macros_2_def ICoreWebView2_7_macros_def
      ICoreWebView2_calls [simplified calls_simps] ICoreWebView2_2_calls [simplified calls_simps]
      ICoreWebView2_3_calls [simplified calls_simps] ICoreWebView2_4_calls [simplified calls_simps]
      ICoreWebView2_5_calls [simplified calls_simps] ICoreWebView2_6_calls [simplified calls_simps]
      ICoreWebView2_7_calls [simplified calls_simps])

lemma ICoreWebView2_8_follow: "ICoreWebView2_8_macros = macros_of ICoreWebView2_8"
  by (simp only: macros_of_def layouts macro_simps
      ICoreWebView2_8_macros_1_def ICoreWebView2_8_macros_2_def ICoreWebView2_8_macros_def
      ICoreWebView2_calls [simplified calls_simps] ICoreWebView2_2_calls [simplified calls_simps]
      ICoreWebView2_3_calls [simplified calls_simps] ICoreWebView2_4_calls [simplified calls_simps]
      ICoreWebView2_5_calls [simplified calls_simps] ICoreWebView2_6_calls [simplified calls_simps]
      ICoreWebView2_7_calls [simplified calls_simps] ICoreWebView2_8_calls [simplified calls_simps])

lemma ICoreWebView2_9_follow: "ICoreWebView2_9_macros = macros_of ICoreWebView2_9"
  by (simp only: macros_of_def layouts macro_simps
      ICoreWebView2_9_macros_1_def ICoreWebView2_9_macros_2_def ICoreWebView2_9_macros_3_def
      ICoreWebView2_9_macros_def
      ICoreWebView2_calls [simplified calls_simps] ICoreWebView2_2_calls [simplified calls_simps]
      ICoreWebView2_3_calls [simplified calls_simps] ICoreWebView2_4_calls [simplified calls_simps]
      ICoreWebView2_5_calls [simplified calls_simps] ICoreWebView2_6_calls [simplified calls_simps]
      ICoreWebView2_7_calls [simplified calls_simps] ICoreWebView2_8_calls [simplified calls_simps]
      ICoreWebView2_9_calls [simplified calls_simps])

lemma ICoreWebView2_10_follow: "ICoreWebView2_10_macros = macros_of ICoreWebView2_10"
  by (simp only: macros_of_def layouts macro_simps
      ICoreWebView2_10_macros_1_def ICoreWebView2_10_macros_2_def ICoreWebView2_10_macros_3_def
      ICoreWebView2_10_macros_def
      ICoreWebView2_calls [simplified calls_simps] ICoreWebView2_2_calls [simplified calls_simps]
      ICoreWebView2_3_calls [simplified calls_simps] ICoreWebView2_4_calls [simplified calls_simps]
      ICoreWebView2_5_calls [simplified calls_simps] ICoreWebView2_6_calls [simplified calls_simps]
      ICoreWebView2_7_calls [simplified calls_simps] ICoreWebView2_8_calls [simplified calls_simps]
      ICoreWebView2_9_calls [simplified calls_simps] ICoreWebView2_10_calls [simplified calls_simps])

lemma ICoreWebView2_11_follow: "ICoreWebView2_11_macros = macros_of ICoreWebView2_11"
  by (simp only: macros_of_def layouts macro_simps
      ICoreWebView2_11_macros_1_def ICoreWebView2_11_macros_2_def ICoreWebView2_11_macros_3_def
      ICoreWebView2_11_macros_def
      ICoreWebView2_calls [simplified calls_simps] ICoreWebView2_2_calls [simplified calls_simps]
      ICoreWebView2_3_calls [simplified calls_simps] ICoreWebView2_4_calls [simplified calls_simps]
      ICoreWebView2_5_calls [simplified calls_simps] ICoreWebView2_6_calls [simplified calls_simps]
      ICoreWebView2_7_calls [simplified calls_simps] ICoreWebView2_8_calls [simplified calls_simps]
      ICoreWebView2_9_calls [simplified calls_simps] ICoreWebView2_10_calls [simplified calls_simps]
      ICoreWebView2_11_calls [simplified calls_simps])

lemma ICoreWebView2_12_follow: "ICoreWebView2_12_macros = macros_of ICoreWebView2_12"
  by (simp only: macros_of_def layouts macro_simps
      ICoreWebView2_12_macros_1_def ICoreWebView2_12_macros_2_def ICoreWebView2_12_macros_3_def
      ICoreWebView2_12_macros_def
      ICoreWebView2_calls [simplified calls_simps] ICoreWebView2_2_calls [simplified calls_simps]
      ICoreWebView2_3_calls [simplified calls_simps] ICoreWebView2_4_calls [simplified calls_simps]
      ICoreWebView2_5_calls [simplified calls_simps] ICoreWebView2_6_calls [simplified calls_simps]
      ICoreWebView2_7_calls [simplified calls_simps] ICoreWebView2_8_calls [simplified calls_simps]
      ICoreWebView2_9_calls [simplified calls_simps] ICoreWebView2_10_calls [simplified calls_simps]
      ICoreWebView2_11_calls [simplified calls_simps] ICoreWebView2_12_calls [simplified calls_simps])

lemma ICoreWebView2_13_follow: "ICoreWebView2_13_macros = macros_of ICoreWebView2_13"
  by (simp only: macros_of_def layouts macro_simps
      ICoreWebView2_13_macros_1_def ICoreWebView2_13_macros_2_def ICoreWebView2_13_macros_3_def
      ICoreWebView2_13_macros_def
      ICoreWebView2_calls [simplified calls_simps] ICoreWebView2_2_calls [simplified calls_simps]
      ICoreWebView2_3_calls [simplified calls_simps] ICoreWebView2_4_calls [simplified calls_simps]
      ICoreWebView2_5_calls [simplified calls_simps] ICoreWebView2_6_calls [simplified calls_simps]
      ICoreWebView2_7_calls [simplified calls_simps] ICoreWebView2_8_calls [simplified calls_simps]
      ICoreWebView2_9_calls [simplified calls_simps] ICoreWebView2_10_calls [simplified calls_simps]
      ICoreWebView2_11_calls [simplified calls_simps] ICoreWebView2_12_calls [simplified calls_simps]
      ICoreWebView2_13_calls [simplified calls_simps])

lemma ICoreWebView2_14_follow: "ICoreWebView2_14_macros = macros_of ICoreWebView2_14"
  by (simp only: macros_of_def layouts macro_simps
      ICoreWebView2_14_macros_1_def ICoreWebView2_14_macros_2_def ICoreWebView2_14_macros_3_def
      ICoreWebView2_14_macros_def
      ICoreWebView2_calls [simplified calls_simps] ICoreWebView2_2_calls [simplified calls_simps]
      ICoreWebView2_3_calls [simplified calls_simps] ICoreWebView2_4_calls [simplified calls_simps]
      ICoreWebView2_5_calls [simplified calls_simps] ICoreWebView2_6_calls [simplified calls_simps]
      ICoreWebView2_7_calls [simplified calls_simps] ICoreWebView2_8_calls [simplified calls_simps]
      ICoreWebView2_9_calls [simplified calls_simps] ICoreWebView2_10_calls [simplified calls_simps]
      ICoreWebView2_11_calls [simplified calls_simps] ICoreWebView2_12_calls [simplified calls_simps]
      ICoreWebView2_13_calls [simplified calls_simps] ICoreWebView2_14_calls [simplified calls_simps])

lemma ICoreWebView2_15_follow: "ICoreWebView2_15_macros = macros_of ICoreWebView2_15"
  by (simp only: macros_of_def layouts macro_simps
      ICoreWebView2_15_macros_1_def ICoreWebView2_15_macros_2_def ICoreWebView2_15_macros_3_def
      ICoreWebView2_15_macros_def
      ICoreWebView2_calls [simplified calls_simps] ICoreWebView2_2_calls [simplified calls_simps]
      ICoreWebView2_3_calls [simplified calls_simps] ICoreWebView2_4_calls [simplified calls_simps]
      ICoreWebView2_5_calls [simplified calls_simps] ICoreWebView2_6_calls [simplified calls_simps]
      ICoreWebView2_7_calls [simplified calls_simps] ICoreWebView2_8_calls [simplified calls_simps]
      ICoreWebView2_9_calls [simplified calls_simps] ICoreWebView2_10_calls [simplified calls_simps]
      ICoreWebView2_11_calls [simplified calls_simps] ICoreWebView2_12_calls [simplified calls_simps]
      ICoreWebView2_13_calls [simplified calls_simps] ICoreWebView2_14_calls [simplified calls_simps]
      ICoreWebView2_15_calls [simplified calls_simps])

lemma ICoreWebView2_16_follow: "ICoreWebView2_16_macros = macros_of ICoreWebView2_16"
  by (simp only: macros_of_def layouts macro_simps
      ICoreWebView2_16_macros_1_def ICoreWebView2_16_macros_2_def ICoreWebView2_16_macros_3_def
      ICoreWebView2_16_macros_def
      ICoreWebView2_calls [simplified calls_simps] ICoreWebView2_2_calls [simplified calls_simps]
      ICoreWebView2_3_calls [simplified calls_simps] ICoreWebView2_4_calls [simplified calls_simps]
      ICoreWebView2_5_calls [simplified calls_simps] ICoreWebView2_6_calls [simplified calls_simps]
      ICoreWebView2_7_calls [simplified calls_simps] ICoreWebView2_8_calls [simplified calls_simps]
      ICoreWebView2_9_calls [simplified calls_simps] ICoreWebView2_10_calls [simplified calls_simps]
      ICoreWebView2_11_calls [simplified calls_simps] ICoreWebView2_12_calls [simplified calls_simps]
      ICoreWebView2_13_calls [simplified calls_simps] ICoreWebView2_14_calls [simplified calls_simps]
      ICoreWebView2_15_calls [simplified calls_simps] ICoreWebView2_16_calls [simplified calls_simps])

lemma ICoreWebView2_17_follow: "ICoreWebView2_17_macros = macros_of ICoreWebView2_17"
  by (simp only: macros_of_def layouts macro_simps
      ICoreWebView2_17_macros_1_def ICoreWebView2_17_macros_2_def ICoreWebView2_17_macros_3_def
      ICoreWebView2_17_macros_def
      ICoreWebView2_calls [simplified calls_simps] ICoreWebView2_2_calls [simplified calls_simps]
      ICoreWebView2_3_calls [simplified calls_simps] ICoreWebView2_4_calls [simplified calls_simps]
      ICoreWebView2_5_calls [simplified calls_simps] ICoreWebView2_6_calls [simplified calls_simps]
      ICoreWebView2_7_calls [simplified calls_simps] ICoreWebView2_8_calls [simplified calls_simps]
      ICoreWebView2_9_calls [simplified calls_simps] ICoreWebView2_10_calls [simplified calls_simps]
      ICoreWebView2_11_calls [simplified calls_simps] ICoreWebView2_12_calls [simplified calls_simps]
      ICoreWebView2_13_calls [simplified calls_simps] ICoreWebView2_14_calls [simplified calls_simps]
      ICoreWebView2_15_calls [simplified calls_simps] ICoreWebView2_16_calls [simplified calls_simps]
      ICoreWebView2_17_calls [simplified calls_simps])

lemma ICoreWebView2_18_follow: "ICoreWebView2_18_macros = macros_of ICoreWebView2_18"
  by (simp only: macros_of_def layouts macro_simps
      ICoreWebView2_18_macros_1_def ICoreWebView2_18_macros_2_def ICoreWebView2_18_macros_3_def
      ICoreWebView2_18_macros_def
      ICoreWebView2_calls [simplified calls_simps] ICoreWebView2_2_calls [simplified calls_simps]
      ICoreWebView2_3_calls [simplified calls_simps] ICoreWebView2_4_calls [simplified calls_simps]
      ICoreWebView2_5_calls [simplified calls_simps] ICoreWebView2_6_calls [simplified calls_simps]
      ICoreWebView2_7_calls [simplified calls_simps] ICoreWebView2_8_calls [simplified calls_simps]
      ICoreWebView2_9_calls [simplified calls_simps] ICoreWebView2_10_calls [simplified calls_simps]
      ICoreWebView2_11_calls [simplified calls_simps] ICoreWebView2_12_calls [simplified calls_simps]
      ICoreWebView2_13_calls [simplified calls_simps] ICoreWebView2_14_calls [simplified calls_simps]
      ICoreWebView2_15_calls [simplified calls_simps] ICoreWebView2_16_calls [simplified calls_simps]
      ICoreWebView2_17_calls [simplified calls_simps] ICoreWebView2_18_calls [simplified calls_simps])

lemma ICoreWebView2_19_follow: "ICoreWebView2_19_macros = macros_of ICoreWebView2_19"
  by (simp only: macros_of_def layouts macro_simps
      ICoreWebView2_19_macros_1_def ICoreWebView2_19_macros_2_def ICoreWebView2_19_macros_3_def
      ICoreWebView2_19_macros_def
      ICoreWebView2_calls [simplified calls_simps] ICoreWebView2_2_calls [simplified calls_simps]
      ICoreWebView2_3_calls [simplified calls_simps] ICoreWebView2_4_calls [simplified calls_simps]
      ICoreWebView2_5_calls [simplified calls_simps] ICoreWebView2_6_calls [simplified calls_simps]
      ICoreWebView2_7_calls [simplified calls_simps] ICoreWebView2_8_calls [simplified calls_simps]
      ICoreWebView2_9_calls [simplified calls_simps] ICoreWebView2_10_calls [simplified calls_simps]
      ICoreWebView2_11_calls [simplified calls_simps] ICoreWebView2_12_calls [simplified calls_simps]
      ICoreWebView2_13_calls [simplified calls_simps] ICoreWebView2_14_calls [simplified calls_simps]
      ICoreWebView2_15_calls [simplified calls_simps] ICoreWebView2_16_calls [simplified calls_simps]
      ICoreWebView2_17_calls [simplified calls_simps] ICoreWebView2_18_calls [simplified calls_simps]
      ICoreWebView2_19_calls [simplified calls_simps])

lemma ICoreWebView2_20_follow: "ICoreWebView2_20_macros = macros_of ICoreWebView2_20"
  by (simp only: macros_of_def layouts macro_simps
      ICoreWebView2_20_macros_1_def ICoreWebView2_20_macros_2_def ICoreWebView2_20_macros_3_def
      ICoreWebView2_20_macros_def
      ICoreWebView2_calls [simplified calls_simps] ICoreWebView2_2_calls [simplified calls_simps]
      ICoreWebView2_3_calls [simplified calls_simps] ICoreWebView2_4_calls [simplified calls_simps]
      ICoreWebView2_5_calls [simplified calls_simps] ICoreWebView2_6_calls [simplified calls_simps]
      ICoreWebView2_7_calls [simplified calls_simps] ICoreWebView2_8_calls [simplified calls_simps]
      ICoreWebView2_9_calls [simplified calls_simps] ICoreWebView2_10_calls [simplified calls_simps]
      ICoreWebView2_11_calls [simplified calls_simps] ICoreWebView2_12_calls [simplified calls_simps]
      ICoreWebView2_13_calls [simplified calls_simps] ICoreWebView2_14_calls [simplified calls_simps]
      ICoreWebView2_15_calls [simplified calls_simps] ICoreWebView2_16_calls [simplified calls_simps]
      ICoreWebView2_17_calls [simplified calls_simps] ICoreWebView2_18_calls [simplified calls_simps]
      ICoreWebView2_19_calls [simplified calls_simps] ICoreWebView2_20_calls [simplified calls_simps])

lemma ICoreWebView2_21_follow: "ICoreWebView2_21_macros = macros_of ICoreWebView2_21"
  by (simp only: macros_of_def layouts macro_simps
      ICoreWebView2_21_macros_1_def ICoreWebView2_21_macros_2_def ICoreWebView2_21_macros_3_def
      ICoreWebView2_21_macros_def
      ICoreWebView2_calls [simplified calls_simps] ICoreWebView2_2_calls [simplified calls_simps]
      ICoreWebView2_3_calls [simplified calls_simps] ICoreWebView2_4_calls [simplified calls_simps]
      ICoreWebView2_5_calls [simplified calls_simps] ICoreWebView2_6_calls [simplified calls_simps]
      ICoreWebView2_7_calls [simplified calls_simps] ICoreWebView2_8_calls [simplified calls_simps]
      ICoreWebView2_9_calls [simplified calls_simps] ICoreWebView2_10_calls [simplified calls_simps]
      ICoreWebView2_11_calls [simplified calls_simps] ICoreWebView2_12_calls [simplified calls_simps]
      ICoreWebView2_13_calls [simplified calls_simps] ICoreWebView2_14_calls [simplified calls_simps]
      ICoreWebView2_15_calls [simplified calls_simps] ICoreWebView2_16_calls [simplified calls_simps]
      ICoreWebView2_17_calls [simplified calls_simps] ICoreWebView2_18_calls [simplified calls_simps]
      ICoreWebView2_19_calls [simplified calls_simps] ICoreWebView2_20_calls [simplified calls_simps]
      ICoreWebView2_21_calls [simplified calls_simps])

lemma ICoreWebView2_22_follow: "ICoreWebView2_22_macros = macros_of ICoreWebView2_22"
  by (simp only: macros_of_def layouts macro_simps
      ICoreWebView2_22_macros_1_def ICoreWebView2_22_macros_2_def ICoreWebView2_22_macros_3_def
      ICoreWebView2_22_macros_def
      ICoreWebView2_calls [simplified calls_simps] ICoreWebView2_2_calls [simplified calls_simps]
      ICoreWebView2_3_calls [simplified calls_simps] ICoreWebView2_4_calls [simplified calls_simps]
      ICoreWebView2_5_calls [simplified calls_simps] ICoreWebView2_6_calls [simplified calls_simps]
      ICoreWebView2_7_calls [simplified calls_simps] ICoreWebView2_8_calls [simplified calls_simps]
      ICoreWebView2_9_calls [simplified calls_simps] ICoreWebView2_10_calls [simplified calls_simps]
      ICoreWebView2_11_calls [simplified calls_simps] ICoreWebView2_12_calls [simplified calls_simps]
      ICoreWebView2_13_calls [simplified calls_simps] ICoreWebView2_14_calls [simplified calls_simps]
      ICoreWebView2_15_calls [simplified calls_simps] ICoreWebView2_16_calls [simplified calls_simps]
      ICoreWebView2_17_calls [simplified calls_simps] ICoreWebView2_18_calls [simplified calls_simps]
      ICoreWebView2_19_calls [simplified calls_simps] ICoreWebView2_20_calls [simplified calls_simps]
      ICoreWebView2_21_calls [simplified calls_simps] ICoreWebView2_22_calls [simplified calls_simps])

definition browser_macros :: "(iface \<times> cmacro list) list" where
  "browser_macros =
     [(ICoreWebView2, ICoreWebView2_macros), (ICoreWebView2_2, ICoreWebView2_2_macros),
      (ICoreWebView2_3, ICoreWebView2_3_macros), (ICoreWebView2_4, ICoreWebView2_4_macros),
      (ICoreWebView2_5, ICoreWebView2_5_macros), (ICoreWebView2_6, ICoreWebView2_6_macros),
      (ICoreWebView2_7, ICoreWebView2_7_macros), (ICoreWebView2_8, ICoreWebView2_8_macros),
      (ICoreWebView2_9, ICoreWebView2_9_macros), (ICoreWebView2_10, ICoreWebView2_10_macros),
      (ICoreWebView2_11, ICoreWebView2_11_macros), (ICoreWebView2_12, ICoreWebView2_12_macros),
      (ICoreWebView2_13, ICoreWebView2_13_macros), (ICoreWebView2_14, ICoreWebView2_14_macros),
      (ICoreWebView2_15, ICoreWebView2_15_macros), (ICoreWebView2_16, ICoreWebView2_16_macros),
      (ICoreWebView2_17, ICoreWebView2_17_macros), (ICoreWebView2_18, ICoreWebView2_18_macros),
      (ICoreWebView2_19, ICoreWebView2_19_macros), (ICoreWebView2_20, ICoreWebView2_20_macros),
      (ICoreWebView2_21, ICoreWebView2_21_macros), (ICoreWebView2_22, ICoreWebView2_22_macros)]"

lemma browser_macros_follow: "list_all (\<lambda>(i, ms). ms = macros_of i) browser_macros"
  by (simp only: browser_macros_def list.pred_inject prod.case simp_thms
    ICoreWebView2_follow ICoreWebView2_2_follow ICoreWebView2_3_follow ICoreWebView2_4_follow
    ICoreWebView2_5_follow ICoreWebView2_6_follow ICoreWebView2_7_follow ICoreWebView2_8_follow
    ICoreWebView2_9_follow ICoreWebView2_10_follow ICoreWebView2_11_follow ICoreWebView2_12_follow
    ICoreWebView2_13_follow ICoreWebView2_14_follow ICoreWebView2_15_follow ICoreWebView2_16_follow
    ICoreWebView2_17_follow ICoreWebView2_18_follow ICoreWebView2_19_follow ICoreWebView2_20_follow
    ICoreWebView2_21_follow ICoreWebView2_22_follow)

end
