(* ===== verification/AbiServicesCalls.thy ===== *)
theory AbiServicesCalls
  imports CallMacros AbiServices
begin

text \<open>
  \<^verbatim>\<open>builtin/goc/webview2/WebView2.h\<close>: the call macros of
  the interfaces of \<open>AbiServices\<close>. Each interface repeats the macros of its base, as its table repeats the slots: the macros of an interface
  that others extend are named, the others stand in the list of their interface.
\<close>

section \<open>Macros of the methods\<close>

definition ICoreWebView2CompositionController_get_RootVisualTarget_macro :: cmacro where
  "ICoreWebView2CompositionController_get_RootVisualTarget_macro =
     Macro ''get_RootVisualTarget'' [''target''] ''get_RootVisualTarget'' [''target'']"

definition ICoreWebView2CompositionController_put_RootVisualTarget_macro :: cmacro where
  "ICoreWebView2CompositionController_put_RootVisualTarget_macro =
     Macro ''put_RootVisualTarget'' [''target''] ''put_RootVisualTarget'' [''target'']"

definition ICoreWebView2CompositionController_SendMouseInput_macro :: cmacro where
  "ICoreWebView2CompositionController_SendMouseInput_macro =
     Macro ''SendMouseInput'' [''eventKind'', ''virtualKeys'', ''mouseData'', ''point''] ''SendMouseInput'' [''eventKind'', ''virtualKeys'', ''mouseData'', ''point'']"

definition ICoreWebView2CompositionController_SendPointerInput_macro :: cmacro where
  "ICoreWebView2CompositionController_SendPointerInput_macro =
     Macro ''SendPointerInput'' [''eventKind'', ''pointerInfo''] ''SendPointerInput'' [''eventKind'', ''pointerInfo'']"

definition ICoreWebView2CompositionController_get_Cursor_macro :: cmacro where
  "ICoreWebView2CompositionController_get_Cursor_macro =
     Macro ''get_Cursor'' [''cursor''] ''get_Cursor'' [''cursor'']"

definition ICoreWebView2CompositionController_get_SystemCursorId_macro :: cmacro where
  "ICoreWebView2CompositionController_get_SystemCursorId_macro =
     Macro ''get_SystemCursorId'' [''systemCursorId''] ''get_SystemCursorId'' [''systemCursorId'']"

definition ICoreWebView2CompositionController_add_CursorChanged_macro :: cmacro where
  "ICoreWebView2CompositionController_add_CursorChanged_macro =
     Macro ''add_CursorChanged'' [''eventHandler'', ''token''] ''add_CursorChanged'' [''eventHandler'', ''token'']"

definition ICoreWebView2CompositionController_remove_CursorChanged_macro :: cmacro where
  "ICoreWebView2CompositionController_remove_CursorChanged_macro =
     Macro ''remove_CursorChanged'' [''token''] ''remove_CursorChanged'' [''token'']"

definition ICoreWebView2CompositionController2_get_AutomationProvider_macro :: cmacro where
  "ICoreWebView2CompositionController2_get_AutomationProvider_macro =
     Macro ''get_AutomationProvider'' [''provider''] ''get_AutomationProvider'' [''provider'']"

definition ICoreWebView2Controller_get_IsVisible_macro :: cmacro where
  "ICoreWebView2Controller_get_IsVisible_macro =
     Macro ''get_IsVisible'' [''isVisible''] ''get_IsVisible'' [''isVisible'']"

definition ICoreWebView2Controller_put_IsVisible_macro :: cmacro where
  "ICoreWebView2Controller_put_IsVisible_macro =
     Macro ''put_IsVisible'' [''isVisible''] ''put_IsVisible'' [''isVisible'']"

definition ICoreWebView2Controller_get_Bounds_macro :: cmacro where
  "ICoreWebView2Controller_get_Bounds_macro =
     Macro ''get_Bounds'' [''bounds''] ''get_Bounds'' [''bounds'']"

definition ICoreWebView2Controller_put_Bounds_macro :: cmacro where
  "ICoreWebView2Controller_put_Bounds_macro =
     Macro ''put_Bounds'' [''bounds''] ''put_Bounds'' [''bounds'']"

definition ICoreWebView2Controller_get_ZoomFactor_macro :: cmacro where
  "ICoreWebView2Controller_get_ZoomFactor_macro =
     Macro ''get_ZoomFactor'' [''zoomFactor''] ''get_ZoomFactor'' [''zoomFactor'']"

definition ICoreWebView2Controller_put_ZoomFactor_macro :: cmacro where
  "ICoreWebView2Controller_put_ZoomFactor_macro =
     Macro ''put_ZoomFactor'' [''zoomFactor''] ''put_ZoomFactor'' [''zoomFactor'']"

definition ICoreWebView2Controller_add_ZoomFactorChanged_macro :: cmacro where
  "ICoreWebView2Controller_add_ZoomFactorChanged_macro =
     Macro ''add_ZoomFactorChanged'' [''eventHandler'', ''token''] ''add_ZoomFactorChanged'' [''eventHandler'', ''token'']"

definition ICoreWebView2Controller_remove_ZoomFactorChanged_macro :: cmacro where
  "ICoreWebView2Controller_remove_ZoomFactorChanged_macro =
     Macro ''remove_ZoomFactorChanged'' [''token''] ''remove_ZoomFactorChanged'' [''token'']"

definition ICoreWebView2Controller_SetBoundsAndZoomFactor_macro :: cmacro where
  "ICoreWebView2Controller_SetBoundsAndZoomFactor_macro =
     Macro ''SetBoundsAndZoomFactor'' [''bounds'', ''zoomFactor''] ''SetBoundsAndZoomFactor'' [''bounds'', ''zoomFactor'']"

definition ICoreWebView2Controller_MoveFocus_macro :: cmacro where
  "ICoreWebView2Controller_MoveFocus_macro =
     Macro ''MoveFocus'' [''reason''] ''MoveFocus'' [''reason'']"

definition ICoreWebView2Controller_add_MoveFocusRequested_macro :: cmacro where
  "ICoreWebView2Controller_add_MoveFocusRequested_macro =
     Macro ''add_MoveFocusRequested'' [''eventHandler'', ''token''] ''add_MoveFocusRequested'' [''eventHandler'', ''token'']"

definition ICoreWebView2Controller_remove_MoveFocusRequested_macro :: cmacro where
  "ICoreWebView2Controller_remove_MoveFocusRequested_macro =
     Macro ''remove_MoveFocusRequested'' [''token''] ''remove_MoveFocusRequested'' [''token'']"

definition ICoreWebView2Controller_add_GotFocus_macro :: cmacro where
  "ICoreWebView2Controller_add_GotFocus_macro =
     Macro ''add_GotFocus'' [''eventHandler'', ''token''] ''add_GotFocus'' [''eventHandler'', ''token'']"

definition ICoreWebView2Controller_remove_GotFocus_macro :: cmacro where
  "ICoreWebView2Controller_remove_GotFocus_macro =
     Macro ''remove_GotFocus'' [''token''] ''remove_GotFocus'' [''token'']"

definition ICoreWebView2Controller_add_LostFocus_macro :: cmacro where
  "ICoreWebView2Controller_add_LostFocus_macro =
     Macro ''add_LostFocus'' [''eventHandler'', ''token''] ''add_LostFocus'' [''eventHandler'', ''token'']"

definition ICoreWebView2Controller_remove_LostFocus_macro :: cmacro where
  "ICoreWebView2Controller_remove_LostFocus_macro =
     Macro ''remove_LostFocus'' [''token''] ''remove_LostFocus'' [''token'']"

definition ICoreWebView2Controller_add_AcceleratorKeyPressed_macro :: cmacro where
  "ICoreWebView2Controller_add_AcceleratorKeyPressed_macro =
     Macro ''add_AcceleratorKeyPressed'' [''eventHandler'', ''token''] ''add_AcceleratorKeyPressed'' [''eventHandler'', ''token'']"

definition ICoreWebView2Controller_remove_AcceleratorKeyPressed_macro :: cmacro where
  "ICoreWebView2Controller_remove_AcceleratorKeyPressed_macro =
     Macro ''remove_AcceleratorKeyPressed'' [''token''] ''remove_AcceleratorKeyPressed'' [''token'']"

definition ICoreWebView2Controller_get_ParentWindow_macro :: cmacro where
  "ICoreWebView2Controller_get_ParentWindow_macro =
     Macro ''get_ParentWindow'' [''parentWindow''] ''get_ParentWindow'' [''parentWindow'']"

definition ICoreWebView2Controller_put_ParentWindow_macro :: cmacro where
  "ICoreWebView2Controller_put_ParentWindow_macro =
     Macro ''put_ParentWindow'' [''parentWindow''] ''put_ParentWindow'' [''parentWindow'']"

definition ICoreWebView2Controller_NotifyParentWindowPositionChanged_macro :: cmacro where
  "ICoreWebView2Controller_NotifyParentWindowPositionChanged_macro =
     Macro ''NotifyParentWindowPositionChanged'' [] ''NotifyParentWindowPositionChanged'' []"

definition ICoreWebView2Controller_Close_macro :: cmacro where
  "ICoreWebView2Controller_Close_macro =
     Macro ''Close'' [] ''Close'' []"

definition ICoreWebView2Controller_get_CoreWebView2_macro :: cmacro where
  "ICoreWebView2Controller_get_CoreWebView2_macro =
     Macro ''get_CoreWebView2'' [''coreWebView2''] ''get_CoreWebView2'' [''coreWebView2'']"

definition ICoreWebView2Controller2_get_DefaultBackgroundColor_macro :: cmacro where
  "ICoreWebView2Controller2_get_DefaultBackgroundColor_macro =
     Macro ''get_DefaultBackgroundColor'' [''backgroundColor''] ''get_DefaultBackgroundColor'' [''backgroundColor'']"

definition ICoreWebView2Controller2_put_DefaultBackgroundColor_macro :: cmacro where
  "ICoreWebView2Controller2_put_DefaultBackgroundColor_macro =
     Macro ''put_DefaultBackgroundColor'' [''backgroundColor''] ''put_DefaultBackgroundColor'' [''backgroundColor'']"

definition ICoreWebView2Controller3_get_RasterizationScale_macro :: cmacro where
  "ICoreWebView2Controller3_get_RasterizationScale_macro =
     Macro ''get_RasterizationScale'' [''scale''] ''get_RasterizationScale'' [''scale'']"

definition ICoreWebView2Controller3_put_RasterizationScale_macro :: cmacro where
  "ICoreWebView2Controller3_put_RasterizationScale_macro =
     Macro ''put_RasterizationScale'' [''scale''] ''put_RasterizationScale'' [''scale'']"

definition ICoreWebView2Controller3_get_ShouldDetectMonitorScaleChanges_macro :: cmacro where
  "ICoreWebView2Controller3_get_ShouldDetectMonitorScaleChanges_macro =
     Macro ''get_ShouldDetectMonitorScaleChanges'' [''value''] ''get_ShouldDetectMonitorScaleChanges'' [''value'']"

definition ICoreWebView2Controller3_put_ShouldDetectMonitorScaleChanges_macro :: cmacro where
  "ICoreWebView2Controller3_put_ShouldDetectMonitorScaleChanges_macro =
     Macro ''put_ShouldDetectMonitorScaleChanges'' [''value''] ''put_ShouldDetectMonitorScaleChanges'' [''value'']"

definition ICoreWebView2Controller3_add_RasterizationScaleChanged_macro :: cmacro where
  "ICoreWebView2Controller3_add_RasterizationScaleChanged_macro =
     Macro ''add_RasterizationScaleChanged'' [''eventHandler'', ''token''] ''add_RasterizationScaleChanged'' [''eventHandler'', ''token'']"

definition ICoreWebView2Controller3_remove_RasterizationScaleChanged_macro :: cmacro where
  "ICoreWebView2Controller3_remove_RasterizationScaleChanged_macro =
     Macro ''remove_RasterizationScaleChanged'' [''token''] ''remove_RasterizationScaleChanged'' [''token'']"

definition ICoreWebView2Controller3_get_BoundsMode_macro :: cmacro where
  "ICoreWebView2Controller3_get_BoundsMode_macro =
     Macro ''get_BoundsMode'' [''boundsMode''] ''get_BoundsMode'' [''boundsMode'']"

definition ICoreWebView2Controller3_put_BoundsMode_macro :: cmacro where
  "ICoreWebView2Controller3_put_BoundsMode_macro =
     Macro ''put_BoundsMode'' [''boundsMode''] ''put_BoundsMode'' [''boundsMode'']"

definition ICoreWebView2ControllerOptions_get_ProfileName_macro :: cmacro where
  "ICoreWebView2ControllerOptions_get_ProfileName_macro =
     Macro ''get_ProfileName'' [''value''] ''get_ProfileName'' [''value'']"

definition ICoreWebView2ControllerOptions_put_ProfileName_macro :: cmacro where
  "ICoreWebView2ControllerOptions_put_ProfileName_macro =
     Macro ''put_ProfileName'' [''value''] ''put_ProfileName'' [''value'']"

definition ICoreWebView2ControllerOptions_get_IsInPrivateModeEnabled_macro :: cmacro where
  "ICoreWebView2ControllerOptions_get_IsInPrivateModeEnabled_macro =
     Macro ''get_IsInPrivateModeEnabled'' [''value''] ''get_IsInPrivateModeEnabled'' [''value'']"

definition ICoreWebView2ControllerOptions_put_IsInPrivateModeEnabled_macro :: cmacro where
  "ICoreWebView2ControllerOptions_put_IsInPrivateModeEnabled_macro =
     Macro ''put_IsInPrivateModeEnabled'' [''value''] ''put_IsInPrivateModeEnabled'' [''value'']"

definition ICoreWebView2Environment_CreateCoreWebView2Controller_macro :: cmacro where
  "ICoreWebView2Environment_CreateCoreWebView2Controller_macro =
     Macro ''CreateCoreWebView2Controller'' [''parentWindow'', ''handler''] ''CreateCoreWebView2Controller'' [''parentWindow'', ''handler'']"

definition ICoreWebView2Environment_CreateWebResourceResponse_macro :: cmacro where
  "ICoreWebView2Environment_CreateWebResourceResponse_macro =
     Macro ''CreateWebResourceResponse'' [''content'', ''statusCode'', ''reasonPhrase'', ''headers'', ''response''] ''CreateWebResourceResponse'' [''content'', ''statusCode'', ''reasonPhrase'', ''headers'', ''response'']"

definition ICoreWebView2Environment_get_BrowserVersionString_macro :: cmacro where
  "ICoreWebView2Environment_get_BrowserVersionString_macro =
     Macro ''get_BrowserVersionString'' [''versionInfo''] ''get_BrowserVersionString'' [''versionInfo'']"

definition ICoreWebView2Environment_add_NewBrowserVersionAvailable_macro :: cmacro where
  "ICoreWebView2Environment_add_NewBrowserVersionAvailable_macro =
     Macro ''add_NewBrowserVersionAvailable'' [''eventHandler'', ''token''] ''add_NewBrowserVersionAvailable'' [''eventHandler'', ''token'']"

definition ICoreWebView2Environment_remove_NewBrowserVersionAvailable_macro :: cmacro where
  "ICoreWebView2Environment_remove_NewBrowserVersionAvailable_macro =
     Macro ''remove_NewBrowserVersionAvailable'' [''token''] ''remove_NewBrowserVersionAvailable'' [''token'']"

definition ICoreWebView2Environment2_CreateWebResourceRequest_macro :: cmacro where
  "ICoreWebView2Environment2_CreateWebResourceRequest_macro =
     Macro ''CreateWebResourceRequest'' [''uri'', ''method'', ''postData'', ''headers'', ''request''] ''CreateWebResourceRequest'' [''uri'', ''method'', ''postData'', ''headers'', ''request'']"

definition ICoreWebView2Environment3_CreateCoreWebView2CompositionController_macro :: cmacro where
  "ICoreWebView2Environment3_CreateCoreWebView2CompositionController_macro =
     Macro ''CreateCoreWebView2CompositionController'' [''parentWindow'', ''handler''] ''CreateCoreWebView2CompositionController'' [''parentWindow'', ''handler'']"

definition ICoreWebView2Environment3_CreateCoreWebView2PointerInfo_macro :: cmacro where
  "ICoreWebView2Environment3_CreateCoreWebView2PointerInfo_macro =
     Macro ''CreateCoreWebView2PointerInfo'' [''pointerInfo''] ''CreateCoreWebView2PointerInfo'' [''pointerInfo'']"

definition ICoreWebView2Environment4_GetAutomationProviderForWindow_macro :: cmacro where
  "ICoreWebView2Environment4_GetAutomationProviderForWindow_macro =
     Macro ''GetAutomationProviderForWindow'' [''hwnd'', ''provider''] ''GetAutomationProviderForWindow'' [''hwnd'', ''provider'']"

definition ICoreWebView2Environment5_add_BrowserProcessExited_macro :: cmacro where
  "ICoreWebView2Environment5_add_BrowserProcessExited_macro =
     Macro ''add_BrowserProcessExited'' [''eventHandler'', ''token''] ''add_BrowserProcessExited'' [''eventHandler'', ''token'']"

definition ICoreWebView2Environment5_remove_BrowserProcessExited_macro :: cmacro where
  "ICoreWebView2Environment5_remove_BrowserProcessExited_macro =
     Macro ''remove_BrowserProcessExited'' [''token''] ''remove_BrowserProcessExited'' [''token'']"

definition ICoreWebView2Environment6_CreatePrintSettings_macro :: cmacro where
  "ICoreWebView2Environment6_CreatePrintSettings_macro =
     Macro ''CreatePrintSettings'' [''printSettings''] ''CreatePrintSettings'' [''printSettings'']"

definition ICoreWebView2Environment7_get_UserDataFolder_macro :: cmacro where
  "ICoreWebView2Environment7_get_UserDataFolder_macro =
     Macro ''get_UserDataFolder'' [''value''] ''get_UserDataFolder'' [''value'']"

definition ICoreWebView2Environment8_add_ProcessInfosChanged_macro :: cmacro where
  "ICoreWebView2Environment8_add_ProcessInfosChanged_macro =
     Macro ''add_ProcessInfosChanged'' [''eventHandler'', ''token''] ''add_ProcessInfosChanged'' [''eventHandler'', ''token'']"

definition ICoreWebView2Environment8_remove_ProcessInfosChanged_macro :: cmacro where
  "ICoreWebView2Environment8_remove_ProcessInfosChanged_macro =
     Macro ''remove_ProcessInfosChanged'' [''token''] ''remove_ProcessInfosChanged'' [''token'']"

definition ICoreWebView2Environment8_GetProcessInfos_macro :: cmacro where
  "ICoreWebView2Environment8_GetProcessInfos_macro =
     Macro ''GetProcessInfos'' [''value''] ''GetProcessInfos'' [''value'']"

definition ICoreWebView2Environment9_CreateContextMenuItem_macro :: cmacro where
  "ICoreWebView2Environment9_CreateContextMenuItem_macro =
     Macro ''CreateContextMenuItem'' [''label'', ''iconStream'', ''kind'', ''item''] ''CreateContextMenuItem'' [''label'', ''iconStream'', ''kind'', ''item'']"

definition ICoreWebView2Environment10_CreateCoreWebView2ControllerOptions_macro :: cmacro where
  "ICoreWebView2Environment10_CreateCoreWebView2ControllerOptions_macro =
     Macro ''CreateCoreWebView2ControllerOptions'' [''options''] ''CreateCoreWebView2ControllerOptions'' [''options'']"

definition ICoreWebView2Environment10_CreateCoreWebView2ControllerWithOptions_macro :: cmacro where
  "ICoreWebView2Environment10_CreateCoreWebView2ControllerWithOptions_macro =
     Macro ''CreateCoreWebView2ControllerWithOptions'' [''parentWindow'', ''options'', ''handler''] ''CreateCoreWebView2ControllerWithOptions'' [''parentWindow'', ''options'', ''handler'']"

definition ICoreWebView2Environment10_CreateCoreWebView2CompositionControllerWithOptions_macro :: cmacro where
  "ICoreWebView2Environment10_CreateCoreWebView2CompositionControllerWithOptions_macro =
     Macro ''CreateCoreWebView2CompositionControllerWithOptions'' [''parentWindow'', ''options'', ''handler''] ''CreateCoreWebView2CompositionControllerWithOptions'' [''parentWindow'', ''options'', ''handler'']"

definition ICoreWebView2Environment11_get_FailureReportFolderPath_macro :: cmacro where
  "ICoreWebView2Environment11_get_FailureReportFolderPath_macro =
     Macro ''get_FailureReportFolderPath'' [''value''] ''get_FailureReportFolderPath'' [''value'']"

definition ICoreWebView2Environment12_CreateSharedBuffer_macro :: cmacro where
  "ICoreWebView2Environment12_CreateSharedBuffer_macro =
     Macro ''CreateSharedBuffer'' [''size'', ''shared_buffer''] ''CreateSharedBuffer'' [''size'', ''shared_buffer'']"

definition ICoreWebView2Frame_get_Name_macro :: cmacro where
  "ICoreWebView2Frame_get_Name_macro =
     Macro ''get_Name'' [''name''] ''get_Name'' [''name'']"

definition ICoreWebView2Frame_add_NameChanged_macro :: cmacro where
  "ICoreWebView2Frame_add_NameChanged_macro =
     Macro ''add_NameChanged'' [''eventHandler'', ''token''] ''add_NameChanged'' [''eventHandler'', ''token'']"

definition ICoreWebView2Frame_remove_NameChanged_macro :: cmacro where
  "ICoreWebView2Frame_remove_NameChanged_macro =
     Macro ''remove_NameChanged'' [''token''] ''remove_NameChanged'' [''token'']"

definition ICoreWebView2Frame_AddHostObjectToScriptWithOrigins_macro :: cmacro where
  "ICoreWebView2Frame_AddHostObjectToScriptWithOrigins_macro =
     Macro ''AddHostObjectToScriptWithOrigins'' [''name'', ''object'', ''originsCount'', ''origins''] ''AddHostObjectToScriptWithOrigins'' [''name'', ''object'', ''originsCount'', ''origins'']"

definition ICoreWebView2Frame_RemoveHostObjectFromScript_macro :: cmacro where
  "ICoreWebView2Frame_RemoveHostObjectFromScript_macro =
     Macro ''RemoveHostObjectFromScript'' [''name''] ''RemoveHostObjectFromScript'' [''name'']"

definition ICoreWebView2Frame_add_Destroyed_macro :: cmacro where
  "ICoreWebView2Frame_add_Destroyed_macro =
     Macro ''add_Destroyed'' [''eventHandler'', ''token''] ''add_Destroyed'' [''eventHandler'', ''token'']"

definition ICoreWebView2Frame_remove_Destroyed_macro :: cmacro where
  "ICoreWebView2Frame_remove_Destroyed_macro =
     Macro ''remove_Destroyed'' [''token''] ''remove_Destroyed'' [''token'']"

definition ICoreWebView2Frame_IsDestroyed_macro :: cmacro where
  "ICoreWebView2Frame_IsDestroyed_macro =
     Macro ''IsDestroyed'' [''destroyed''] ''IsDestroyed'' [''destroyed'']"

definition ICoreWebView2Frame2_add_NavigationStarting_macro :: cmacro where
  "ICoreWebView2Frame2_add_NavigationStarting_macro =
     Macro ''add_NavigationStarting'' [''eventHandler'', ''token''] ''add_NavigationStarting'' [''eventHandler'', ''token'']"

definition ICoreWebView2Frame2_remove_NavigationStarting_macro :: cmacro where
  "ICoreWebView2Frame2_remove_NavigationStarting_macro =
     Macro ''remove_NavigationStarting'' [''token''] ''remove_NavigationStarting'' [''token'']"

definition ICoreWebView2Frame2_add_ContentLoading_macro :: cmacro where
  "ICoreWebView2Frame2_add_ContentLoading_macro =
     Macro ''add_ContentLoading'' [''eventHandler'', ''token''] ''add_ContentLoading'' [''eventHandler'', ''token'']"

definition ICoreWebView2Frame2_remove_ContentLoading_macro :: cmacro where
  "ICoreWebView2Frame2_remove_ContentLoading_macro =
     Macro ''remove_ContentLoading'' [''token''] ''remove_ContentLoading'' [''token'']"

definition ICoreWebView2Frame2_add_NavigationCompleted_macro :: cmacro where
  "ICoreWebView2Frame2_add_NavigationCompleted_macro =
     Macro ''add_NavigationCompleted'' [''eventHandler'', ''token''] ''add_NavigationCompleted'' [''eventHandler'', ''token'']"

definition ICoreWebView2Frame2_remove_NavigationCompleted_macro :: cmacro where
  "ICoreWebView2Frame2_remove_NavigationCompleted_macro =
     Macro ''remove_NavigationCompleted'' [''token''] ''remove_NavigationCompleted'' [''token'']"

definition ICoreWebView2Frame2_add_DOMContentLoaded_macro :: cmacro where
  "ICoreWebView2Frame2_add_DOMContentLoaded_macro =
     Macro ''add_DOMContentLoaded'' [''eventHandler'', ''token''] ''add_DOMContentLoaded'' [''eventHandler'', ''token'']"

definition ICoreWebView2Frame2_remove_DOMContentLoaded_macro :: cmacro where
  "ICoreWebView2Frame2_remove_DOMContentLoaded_macro =
     Macro ''remove_DOMContentLoaded'' [''token''] ''remove_DOMContentLoaded'' [''token'']"

definition ICoreWebView2Frame2_ExecuteScript_macro :: cmacro where
  "ICoreWebView2Frame2_ExecuteScript_macro =
     Macro ''ExecuteScript'' [''javaScript'', ''handler''] ''ExecuteScript'' [''javaScript'', ''handler'']"

definition ICoreWebView2Frame2_PostWebMessageAsJson_macro :: cmacro where
  "ICoreWebView2Frame2_PostWebMessageAsJson_macro =
     Macro ''PostWebMessageAsJson'' [''webMessageAsJson''] ''PostWebMessageAsJson'' [''webMessageAsJson'']"

definition ICoreWebView2Frame2_PostWebMessageAsString_macro :: cmacro where
  "ICoreWebView2Frame2_PostWebMessageAsString_macro =
     Macro ''PostWebMessageAsString'' [''webMessageAsString''] ''PostWebMessageAsString'' [''webMessageAsString'']"

definition ICoreWebView2Frame2_add_WebMessageReceived_macro :: cmacro where
  "ICoreWebView2Frame2_add_WebMessageReceived_macro =
     Macro ''add_WebMessageReceived'' [''handler'', ''token''] ''add_WebMessageReceived'' [''handler'', ''token'']"

definition ICoreWebView2Frame2_remove_WebMessageReceived_macro :: cmacro where
  "ICoreWebView2Frame2_remove_WebMessageReceived_macro =
     Macro ''remove_WebMessageReceived'' [''token''] ''remove_WebMessageReceived'' [''token'']"

definition ICoreWebView2Frame3_add_PermissionRequested_macro :: cmacro where
  "ICoreWebView2Frame3_add_PermissionRequested_macro =
     Macro ''add_PermissionRequested'' [''handler'', ''token''] ''add_PermissionRequested'' [''handler'', ''token'']"

definition ICoreWebView2Frame3_remove_PermissionRequested_macro :: cmacro where
  "ICoreWebView2Frame3_remove_PermissionRequested_macro =
     Macro ''remove_PermissionRequested'' [''token''] ''remove_PermissionRequested'' [''token'']"

definition ICoreWebView2Frame4_PostSharedBufferToScript_macro :: cmacro where
  "ICoreWebView2Frame4_PostSharedBufferToScript_macro =
     Macro ''PostSharedBufferToScript'' [''sharedBuffer'', ''access'', ''additionalDataAsJson''] ''PostSharedBufferToScript'' [''sharedBuffer'', ''access'', ''additionalDataAsJson'']"

definition ICoreWebView2FrameInfo_get_Name_macro :: cmacro where
  "ICoreWebView2FrameInfo_get_Name_macro =
     Macro ''get_Name'' [''name''] ''get_Name'' [''name'']"

definition ICoreWebView2FrameInfo_get_Source_macro :: cmacro where
  "ICoreWebView2FrameInfo_get_Source_macro =
     Macro ''get_Source'' [''source''] ''get_Source'' [''source'']"

definition ICoreWebView2Profile_get_ProfileName_macro :: cmacro where
  "ICoreWebView2Profile_get_ProfileName_macro =
     Macro ''get_ProfileName'' [''value''] ''get_ProfileName'' [''value'']"

definition ICoreWebView2Profile_get_IsInPrivateModeEnabled_macro :: cmacro where
  "ICoreWebView2Profile_get_IsInPrivateModeEnabled_macro =
     Macro ''get_IsInPrivateModeEnabled'' [''value''] ''get_IsInPrivateModeEnabled'' [''value'']"

definition ICoreWebView2Profile_get_ProfilePath_macro :: cmacro where
  "ICoreWebView2Profile_get_ProfilePath_macro =
     Macro ''get_ProfilePath'' [''value''] ''get_ProfilePath'' [''value'']"

definition ICoreWebView2Profile_get_DefaultDownloadFolderPath_macro :: cmacro where
  "ICoreWebView2Profile_get_DefaultDownloadFolderPath_macro =
     Macro ''get_DefaultDownloadFolderPath'' [''value''] ''get_DefaultDownloadFolderPath'' [''value'']"

definition ICoreWebView2Profile_put_DefaultDownloadFolderPath_macro :: cmacro where
  "ICoreWebView2Profile_put_DefaultDownloadFolderPath_macro =
     Macro ''put_DefaultDownloadFolderPath'' [''value''] ''put_DefaultDownloadFolderPath'' [''value'']"

definition ICoreWebView2Profile_get_PreferredColorScheme_macro :: cmacro where
  "ICoreWebView2Profile_get_PreferredColorScheme_macro =
     Macro ''get_PreferredColorScheme'' [''value''] ''get_PreferredColorScheme'' [''value'']"

definition ICoreWebView2Profile_put_PreferredColorScheme_macro :: cmacro where
  "ICoreWebView2Profile_put_PreferredColorScheme_macro =
     Macro ''put_PreferredColorScheme'' [''value''] ''put_PreferredColorScheme'' [''value'']"

definition ICoreWebView2Profile2_ClearBrowsingData_macro :: cmacro where
  "ICoreWebView2Profile2_ClearBrowsingData_macro =
     Macro ''ClearBrowsingData'' [''dataKinds'', ''handler''] ''ClearBrowsingData'' [''dataKinds'', ''handler'']"

definition ICoreWebView2Profile2_ClearBrowsingDataInTimeRange_macro :: cmacro where
  "ICoreWebView2Profile2_ClearBrowsingDataInTimeRange_macro =
     Macro ''ClearBrowsingDataInTimeRange'' [''dataKinds'', ''startTime'', ''endTime'', ''handler''] ''ClearBrowsingDataInTimeRange'' [''dataKinds'', ''startTime'', ''endTime'', ''handler'']"

definition ICoreWebView2Profile2_ClearBrowsingDataAll_macro :: cmacro where
  "ICoreWebView2Profile2_ClearBrowsingDataAll_macro =
     Macro ''ClearBrowsingDataAll'' [''handler''] ''ClearBrowsingDataAll'' [''handler'']"

definition ICoreWebView2Profile3_get_PreferredTrackingPreventionLevel_macro :: cmacro where
  "ICoreWebView2Profile3_get_PreferredTrackingPreventionLevel_macro =
     Macro ''get_PreferredTrackingPreventionLevel'' [''value''] ''get_PreferredTrackingPreventionLevel'' [''value'']"

definition ICoreWebView2Profile3_put_PreferredTrackingPreventionLevel_macro :: cmacro where
  "ICoreWebView2Profile3_put_PreferredTrackingPreventionLevel_macro =
     Macro ''put_PreferredTrackingPreventionLevel'' [''value''] ''put_PreferredTrackingPreventionLevel'' [''value'']"

definition ICoreWebView2Profile4_SetPermissionState_macro :: cmacro where
  "ICoreWebView2Profile4_SetPermissionState_macro =
     Macro ''SetPermissionState'' [''permissionKind'', ''origin'', ''state'', ''completedHandler''] ''SetPermissionState'' [''permissionKind'', ''origin'', ''state'', ''completedHandler'']"

definition ICoreWebView2Profile4_GetNonDefaultPermissionSettings_macro :: cmacro where
  "ICoreWebView2Profile4_GetNonDefaultPermissionSettings_macro =
     Macro ''GetNonDefaultPermissionSettings'' [''completedHandler''] ''GetNonDefaultPermissionSettings'' [''completedHandler'']"

definition ICoreWebView2Profile5_get_CookieManager_macro :: cmacro where
  "ICoreWebView2Profile5_get_CookieManager_macro =
     Macro ''get_CookieManager'' [''cookieManager''] ''get_CookieManager'' [''cookieManager'']"

definition ICoreWebView2Profile6_get_IsPasswordAutosaveEnabled_macro :: cmacro where
  "ICoreWebView2Profile6_get_IsPasswordAutosaveEnabled_macro =
     Macro ''get_IsPasswordAutosaveEnabled'' [''value''] ''get_IsPasswordAutosaveEnabled'' [''value'']"

definition ICoreWebView2Profile6_put_IsPasswordAutosaveEnabled_macro :: cmacro where
  "ICoreWebView2Profile6_put_IsPasswordAutosaveEnabled_macro =
     Macro ''put_IsPasswordAutosaveEnabled'' [''value''] ''put_IsPasswordAutosaveEnabled'' [''value'']"

definition ICoreWebView2Profile6_get_IsGeneralAutofillEnabled_macro :: cmacro where
  "ICoreWebView2Profile6_get_IsGeneralAutofillEnabled_macro =
     Macro ''get_IsGeneralAutofillEnabled'' [''value''] ''get_IsGeneralAutofillEnabled'' [''value'']"

definition ICoreWebView2Profile6_put_IsGeneralAutofillEnabled_macro :: cmacro where
  "ICoreWebView2Profile6_put_IsGeneralAutofillEnabled_macro =
     Macro ''put_IsGeneralAutofillEnabled'' [''value''] ''put_IsGeneralAutofillEnabled'' [''value'']"

definition ICoreWebView2Profile7_AddBrowserExtension_macro :: cmacro where
  "ICoreWebView2Profile7_AddBrowserExtension_macro =
     Macro ''AddBrowserExtension'' [''extensionFolderPath'', ''handler''] ''AddBrowserExtension'' [''extensionFolderPath'', ''handler'']"

definition ICoreWebView2Profile7_GetBrowserExtensions_macro :: cmacro where
  "ICoreWebView2Profile7_GetBrowserExtensions_macro =
     Macro ''GetBrowserExtensions'' [''handler''] ''GetBrowserExtensions'' [''handler'']"

definition ICoreWebView2Settings_get_IsScriptEnabled_macro :: cmacro where
  "ICoreWebView2Settings_get_IsScriptEnabled_macro =
     Macro ''get_IsScriptEnabled'' [''isScriptEnabled''] ''get_IsScriptEnabled'' [''isScriptEnabled'']"

definition ICoreWebView2Settings_put_IsScriptEnabled_macro :: cmacro where
  "ICoreWebView2Settings_put_IsScriptEnabled_macro =
     Macro ''put_IsScriptEnabled'' [''isScriptEnabled''] ''put_IsScriptEnabled'' [''isScriptEnabled'']"

definition ICoreWebView2Settings_get_IsWebMessageEnabled_macro :: cmacro where
  "ICoreWebView2Settings_get_IsWebMessageEnabled_macro =
     Macro ''get_IsWebMessageEnabled'' [''isWebMessageEnabled''] ''get_IsWebMessageEnabled'' [''isWebMessageEnabled'']"

definition ICoreWebView2Settings_put_IsWebMessageEnabled_macro :: cmacro where
  "ICoreWebView2Settings_put_IsWebMessageEnabled_macro =
     Macro ''put_IsWebMessageEnabled'' [''isWebMessageEnabled''] ''put_IsWebMessageEnabled'' [''isWebMessageEnabled'']"

definition ICoreWebView2Settings_get_AreDefaultScriptDialogsEnabled_macro :: cmacro where
  "ICoreWebView2Settings_get_AreDefaultScriptDialogsEnabled_macro =
     Macro ''get_AreDefaultScriptDialogsEnabled'' [''areDefaultScriptDialogsEnabled''] ''get_AreDefaultScriptDialogsEnabled'' [''areDefaultScriptDialogsEnabled'']"

definition ICoreWebView2Settings_put_AreDefaultScriptDialogsEnabled_macro :: cmacro where
  "ICoreWebView2Settings_put_AreDefaultScriptDialogsEnabled_macro =
     Macro ''put_AreDefaultScriptDialogsEnabled'' [''areDefaultScriptDialogsEnabled''] ''put_AreDefaultScriptDialogsEnabled'' [''areDefaultScriptDialogsEnabled'']"

definition ICoreWebView2Settings_get_IsStatusBarEnabled_macro :: cmacro where
  "ICoreWebView2Settings_get_IsStatusBarEnabled_macro =
     Macro ''get_IsStatusBarEnabled'' [''isStatusBarEnabled''] ''get_IsStatusBarEnabled'' [''isStatusBarEnabled'']"

definition ICoreWebView2Settings_put_IsStatusBarEnabled_macro :: cmacro where
  "ICoreWebView2Settings_put_IsStatusBarEnabled_macro =
     Macro ''put_IsStatusBarEnabled'' [''isStatusBarEnabled''] ''put_IsStatusBarEnabled'' [''isStatusBarEnabled'']"

definition ICoreWebView2Settings_get_AreDevToolsEnabled_macro :: cmacro where
  "ICoreWebView2Settings_get_AreDevToolsEnabled_macro =
     Macro ''get_AreDevToolsEnabled'' [''areDevToolsEnabled''] ''get_AreDevToolsEnabled'' [''areDevToolsEnabled'']"

definition ICoreWebView2Settings_put_AreDevToolsEnabled_macro :: cmacro where
  "ICoreWebView2Settings_put_AreDevToolsEnabled_macro =
     Macro ''put_AreDevToolsEnabled'' [''areDevToolsEnabled''] ''put_AreDevToolsEnabled'' [''areDevToolsEnabled'']"

definition ICoreWebView2Settings_get_AreDefaultContextMenusEnabled_macro :: cmacro where
  "ICoreWebView2Settings_get_AreDefaultContextMenusEnabled_macro =
     Macro ''get_AreDefaultContextMenusEnabled'' [''enabled''] ''get_AreDefaultContextMenusEnabled'' [''enabled'']"

definition ICoreWebView2Settings_put_AreDefaultContextMenusEnabled_macro :: cmacro where
  "ICoreWebView2Settings_put_AreDefaultContextMenusEnabled_macro =
     Macro ''put_AreDefaultContextMenusEnabled'' [''enabled''] ''put_AreDefaultContextMenusEnabled'' [''enabled'']"

definition ICoreWebView2Settings_get_AreHostObjectsAllowed_macro :: cmacro where
  "ICoreWebView2Settings_get_AreHostObjectsAllowed_macro =
     Macro ''get_AreHostObjectsAllowed'' [''allowed''] ''get_AreHostObjectsAllowed'' [''allowed'']"

definition ICoreWebView2Settings_put_AreHostObjectsAllowed_macro :: cmacro where
  "ICoreWebView2Settings_put_AreHostObjectsAllowed_macro =
     Macro ''put_AreHostObjectsAllowed'' [''allowed''] ''put_AreHostObjectsAllowed'' [''allowed'']"

definition ICoreWebView2Settings_get_IsZoomControlEnabled_macro :: cmacro where
  "ICoreWebView2Settings_get_IsZoomControlEnabled_macro =
     Macro ''get_IsZoomControlEnabled'' [''enabled''] ''get_IsZoomControlEnabled'' [''enabled'']"

definition ICoreWebView2Settings_put_IsZoomControlEnabled_macro :: cmacro where
  "ICoreWebView2Settings_put_IsZoomControlEnabled_macro =
     Macro ''put_IsZoomControlEnabled'' [''enabled''] ''put_IsZoomControlEnabled'' [''enabled'']"

definition ICoreWebView2Settings_get_IsBuiltInErrorPageEnabled_macro :: cmacro where
  "ICoreWebView2Settings_get_IsBuiltInErrorPageEnabled_macro =
     Macro ''get_IsBuiltInErrorPageEnabled'' [''enabled''] ''get_IsBuiltInErrorPageEnabled'' [''enabled'']"

definition ICoreWebView2Settings_put_IsBuiltInErrorPageEnabled_macro :: cmacro where
  "ICoreWebView2Settings_put_IsBuiltInErrorPageEnabled_macro =
     Macro ''put_IsBuiltInErrorPageEnabled'' [''enabled''] ''put_IsBuiltInErrorPageEnabled'' [''enabled'']"

definition ICoreWebView2Settings2_get_UserAgent_macro :: cmacro where
  "ICoreWebView2Settings2_get_UserAgent_macro =
     Macro ''get_UserAgent'' [''userAgent''] ''get_UserAgent'' [''userAgent'']"

definition ICoreWebView2Settings2_put_UserAgent_macro :: cmacro where
  "ICoreWebView2Settings2_put_UserAgent_macro =
     Macro ''put_UserAgent'' [''userAgent''] ''put_UserAgent'' [''userAgent'']"

definition ICoreWebView2Settings3_get_AreBrowserAcceleratorKeysEnabled_macro :: cmacro where
  "ICoreWebView2Settings3_get_AreBrowserAcceleratorKeysEnabled_macro =
     Macro ''get_AreBrowserAcceleratorKeysEnabled'' [''areBrowserAcceleratorKeysEnabled''] ''get_AreBrowserAcceleratorKeysEnabled'' [''areBrowserAcceleratorKeysEnabled'']"

definition ICoreWebView2Settings3_put_AreBrowserAcceleratorKeysEnabled_macro :: cmacro where
  "ICoreWebView2Settings3_put_AreBrowserAcceleratorKeysEnabled_macro =
     Macro ''put_AreBrowserAcceleratorKeysEnabled'' [''areBrowserAcceleratorKeysEnabled''] ''put_AreBrowserAcceleratorKeysEnabled'' [''areBrowserAcceleratorKeysEnabled'']"

definition ICoreWebView2Settings4_get_IsPasswordAutosaveEnabled_macro :: cmacro where
  "ICoreWebView2Settings4_get_IsPasswordAutosaveEnabled_macro =
     Macro ''get_IsPasswordAutosaveEnabled'' [''value''] ''get_IsPasswordAutosaveEnabled'' [''value'']"

definition ICoreWebView2Settings4_put_IsPasswordAutosaveEnabled_macro :: cmacro where
  "ICoreWebView2Settings4_put_IsPasswordAutosaveEnabled_macro =
     Macro ''put_IsPasswordAutosaveEnabled'' [''value''] ''put_IsPasswordAutosaveEnabled'' [''value'']"

definition ICoreWebView2Settings4_get_IsGeneralAutofillEnabled_macro :: cmacro where
  "ICoreWebView2Settings4_get_IsGeneralAutofillEnabled_macro =
     Macro ''get_IsGeneralAutofillEnabled'' [''value''] ''get_IsGeneralAutofillEnabled'' [''value'']"

definition ICoreWebView2Settings4_put_IsGeneralAutofillEnabled_macro :: cmacro where
  "ICoreWebView2Settings4_put_IsGeneralAutofillEnabled_macro =
     Macro ''put_IsGeneralAutofillEnabled'' [''value''] ''put_IsGeneralAutofillEnabled'' [''value'']"

definition ICoreWebView2Settings5_get_IsPinchZoomEnabled_macro :: cmacro where
  "ICoreWebView2Settings5_get_IsPinchZoomEnabled_macro =
     Macro ''get_IsPinchZoomEnabled'' [''enabled''] ''get_IsPinchZoomEnabled'' [''enabled'']"

definition ICoreWebView2Settings5_put_IsPinchZoomEnabled_macro :: cmacro where
  "ICoreWebView2Settings5_put_IsPinchZoomEnabled_macro =
     Macro ''put_IsPinchZoomEnabled'' [''enabled''] ''put_IsPinchZoomEnabled'' [''enabled'']"

definition ICoreWebView2Settings6_get_IsSwipeNavigationEnabled_macro :: cmacro where
  "ICoreWebView2Settings6_get_IsSwipeNavigationEnabled_macro =
     Macro ''get_IsSwipeNavigationEnabled'' [''enabled''] ''get_IsSwipeNavigationEnabled'' [''enabled'']"

definition ICoreWebView2Settings6_put_IsSwipeNavigationEnabled_macro :: cmacro where
  "ICoreWebView2Settings6_put_IsSwipeNavigationEnabled_macro =
     Macro ''put_IsSwipeNavigationEnabled'' [''enabled''] ''put_IsSwipeNavigationEnabled'' [''enabled'']"

definition ICoreWebView2Settings7_get_HiddenPdfToolbarItems_macro :: cmacro where
  "ICoreWebView2Settings7_get_HiddenPdfToolbarItems_macro =
     Macro ''get_HiddenPdfToolbarItems'' [''hidden_pdf_toolbar_items''] ''get_HiddenPdfToolbarItems'' [''hidden_pdf_toolbar_items'']"

definition ICoreWebView2Settings7_put_HiddenPdfToolbarItems_macro :: cmacro where
  "ICoreWebView2Settings7_put_HiddenPdfToolbarItems_macro =
     Macro ''put_HiddenPdfToolbarItems'' [''hidden_pdf_toolbar_items''] ''put_HiddenPdfToolbarItems'' [''hidden_pdf_toolbar_items'']"

section \<open>Macros of the interfaces\<close>

definition ICoreWebView2CompositionController_macros :: "cmacro list" where
  "ICoreWebView2CompositionController_macros =
     [IUnknown_QueryInterface_macro, IUnknown_AddRef_macro, IUnknown_Release_macro,
      ICoreWebView2CompositionController_get_RootVisualTarget_macro,
      ICoreWebView2CompositionController_put_RootVisualTarget_macro,
      ICoreWebView2CompositionController_SendMouseInput_macro,
      ICoreWebView2CompositionController_SendPointerInput_macro, ICoreWebView2CompositionController_get_Cursor_macro,
      ICoreWebView2CompositionController_get_SystemCursorId_macro,
      ICoreWebView2CompositionController_add_CursorChanged_macro,
      ICoreWebView2CompositionController_remove_CursorChanged_macro]"

definition ICoreWebView2CompositionController2_macros :: "cmacro list" where
  "ICoreWebView2CompositionController2_macros =
     [IUnknown_QueryInterface_macro, IUnknown_AddRef_macro, IUnknown_Release_macro,
      ICoreWebView2CompositionController_get_RootVisualTarget_macro,
      ICoreWebView2CompositionController_put_RootVisualTarget_macro,
      ICoreWebView2CompositionController_SendMouseInput_macro,
      ICoreWebView2CompositionController_SendPointerInput_macro, ICoreWebView2CompositionController_get_Cursor_macro,
      ICoreWebView2CompositionController_get_SystemCursorId_macro,
      ICoreWebView2CompositionController_add_CursorChanged_macro,
      ICoreWebView2CompositionController_remove_CursorChanged_macro,
      ICoreWebView2CompositionController2_get_AutomationProvider_macro]"

definition ICoreWebView2CompositionController3_macros :: "cmacro list" where
  "ICoreWebView2CompositionController3_macros =
     [IUnknown_QueryInterface_macro,
      IUnknown_AddRef_macro,
      IUnknown_Release_macro,
      ICoreWebView2CompositionController_get_RootVisualTarget_macro,
      ICoreWebView2CompositionController_put_RootVisualTarget_macro,
      ICoreWebView2CompositionController_SendMouseInput_macro,
      ICoreWebView2CompositionController_SendPointerInput_macro,
      ICoreWebView2CompositionController_get_Cursor_macro,
      ICoreWebView2CompositionController_get_SystemCursorId_macro,
      ICoreWebView2CompositionController_add_CursorChanged_macro,
      ICoreWebView2CompositionController_remove_CursorChanged_macro,
      ICoreWebView2CompositionController2_get_AutomationProvider_macro,
      Macro ''DragEnter'' [''dataObject'', ''keyState'', ''point'', ''effect''] ''DragEnter'' [''dataObject'', ''keyState'', ''point'', ''effect''],
      Macro ''DragLeave'' [] ''DragLeave'' [],
      Macro ''DragOver'' [''keyState'', ''point'', ''effect''] ''DragOver'' [''keyState'', ''point'', ''effect''],
      Macro ''Drop'' [''dataObject'', ''keyState'', ''point'', ''effect''] ''Drop'' [''dataObject'', ''keyState'', ''point'', ''effect'']]"

definition ICoreWebView2Controller_macros :: "cmacro list" where
  "ICoreWebView2Controller_macros =
     [IUnknown_QueryInterface_macro, IUnknown_AddRef_macro, IUnknown_Release_macro,
      ICoreWebView2Controller_get_IsVisible_macro, ICoreWebView2Controller_put_IsVisible_macro,
      ICoreWebView2Controller_get_Bounds_macro, ICoreWebView2Controller_put_Bounds_macro,
      ICoreWebView2Controller_get_ZoomFactor_macro, ICoreWebView2Controller_put_ZoomFactor_macro,
      ICoreWebView2Controller_add_ZoomFactorChanged_macro, ICoreWebView2Controller_remove_ZoomFactorChanged_macro,
      ICoreWebView2Controller_SetBoundsAndZoomFactor_macro, ICoreWebView2Controller_MoveFocus_macro,
      ICoreWebView2Controller_add_MoveFocusRequested_macro, ICoreWebView2Controller_remove_MoveFocusRequested_macro,
      ICoreWebView2Controller_add_GotFocus_macro, ICoreWebView2Controller_remove_GotFocus_macro,
      ICoreWebView2Controller_add_LostFocus_macro, ICoreWebView2Controller_remove_LostFocus_macro,
      ICoreWebView2Controller_add_AcceleratorKeyPressed_macro,
      ICoreWebView2Controller_remove_AcceleratorKeyPressed_macro, ICoreWebView2Controller_get_ParentWindow_macro,
      ICoreWebView2Controller_put_ParentWindow_macro,
      ICoreWebView2Controller_NotifyParentWindowPositionChanged_macro, ICoreWebView2Controller_Close_macro,
      ICoreWebView2Controller_get_CoreWebView2_macro]"

definition ICoreWebView2Controller2_macros :: "cmacro list" where
  "ICoreWebView2Controller2_macros =
     [IUnknown_QueryInterface_macro, IUnknown_AddRef_macro, IUnknown_Release_macro,
      ICoreWebView2Controller_get_IsVisible_macro, ICoreWebView2Controller_put_IsVisible_macro,
      ICoreWebView2Controller_get_Bounds_macro, ICoreWebView2Controller_put_Bounds_macro,
      ICoreWebView2Controller_get_ZoomFactor_macro, ICoreWebView2Controller_put_ZoomFactor_macro,
      ICoreWebView2Controller_add_ZoomFactorChanged_macro, ICoreWebView2Controller_remove_ZoomFactorChanged_macro,
      ICoreWebView2Controller_SetBoundsAndZoomFactor_macro, ICoreWebView2Controller_MoveFocus_macro,
      ICoreWebView2Controller_add_MoveFocusRequested_macro, ICoreWebView2Controller_remove_MoveFocusRequested_macro,
      ICoreWebView2Controller_add_GotFocus_macro, ICoreWebView2Controller_remove_GotFocus_macro,
      ICoreWebView2Controller_add_LostFocus_macro, ICoreWebView2Controller_remove_LostFocus_macro,
      ICoreWebView2Controller_add_AcceleratorKeyPressed_macro,
      ICoreWebView2Controller_remove_AcceleratorKeyPressed_macro, ICoreWebView2Controller_get_ParentWindow_macro,
      ICoreWebView2Controller_put_ParentWindow_macro,
      ICoreWebView2Controller_NotifyParentWindowPositionChanged_macro, ICoreWebView2Controller_Close_macro,
      ICoreWebView2Controller_get_CoreWebView2_macro, ICoreWebView2Controller2_get_DefaultBackgroundColor_macro,
      ICoreWebView2Controller2_put_DefaultBackgroundColor_macro]"

definition ICoreWebView2Controller3_macros :: "cmacro list" where
  "ICoreWebView2Controller3_macros =
     [IUnknown_QueryInterface_macro, IUnknown_AddRef_macro, IUnknown_Release_macro,
      ICoreWebView2Controller_get_IsVisible_macro, ICoreWebView2Controller_put_IsVisible_macro,
      ICoreWebView2Controller_get_Bounds_macro, ICoreWebView2Controller_put_Bounds_macro,
      ICoreWebView2Controller_get_ZoomFactor_macro, ICoreWebView2Controller_put_ZoomFactor_macro,
      ICoreWebView2Controller_add_ZoomFactorChanged_macro, ICoreWebView2Controller_remove_ZoomFactorChanged_macro,
      ICoreWebView2Controller_SetBoundsAndZoomFactor_macro, ICoreWebView2Controller_MoveFocus_macro,
      ICoreWebView2Controller_add_MoveFocusRequested_macro, ICoreWebView2Controller_remove_MoveFocusRequested_macro,
      ICoreWebView2Controller_add_GotFocus_macro, ICoreWebView2Controller_remove_GotFocus_macro,
      ICoreWebView2Controller_add_LostFocus_macro, ICoreWebView2Controller_remove_LostFocus_macro,
      ICoreWebView2Controller_add_AcceleratorKeyPressed_macro,
      ICoreWebView2Controller_remove_AcceleratorKeyPressed_macro, ICoreWebView2Controller_get_ParentWindow_macro,
      ICoreWebView2Controller_put_ParentWindow_macro,
      ICoreWebView2Controller_NotifyParentWindowPositionChanged_macro, ICoreWebView2Controller_Close_macro,
      ICoreWebView2Controller_get_CoreWebView2_macro, ICoreWebView2Controller2_get_DefaultBackgroundColor_macro,
      ICoreWebView2Controller2_put_DefaultBackgroundColor_macro,
      ICoreWebView2Controller3_get_RasterizationScale_macro, ICoreWebView2Controller3_put_RasterizationScale_macro,
      ICoreWebView2Controller3_get_ShouldDetectMonitorScaleChanges_macro,
      ICoreWebView2Controller3_put_ShouldDetectMonitorScaleChanges_macro,
      ICoreWebView2Controller3_add_RasterizationScaleChanged_macro,
      ICoreWebView2Controller3_remove_RasterizationScaleChanged_macro, ICoreWebView2Controller3_get_BoundsMode_macro,
      ICoreWebView2Controller3_put_BoundsMode_macro]"

definition ICoreWebView2Controller4_macros :: "cmacro list" where
  "ICoreWebView2Controller4_macros =
     [IUnknown_QueryInterface_macro,
      IUnknown_AddRef_macro,
      IUnknown_Release_macro,
      ICoreWebView2Controller_get_IsVisible_macro,
      ICoreWebView2Controller_put_IsVisible_macro,
      ICoreWebView2Controller_get_Bounds_macro,
      ICoreWebView2Controller_put_Bounds_macro,
      ICoreWebView2Controller_get_ZoomFactor_macro,
      ICoreWebView2Controller_put_ZoomFactor_macro,
      ICoreWebView2Controller_add_ZoomFactorChanged_macro,
      ICoreWebView2Controller_remove_ZoomFactorChanged_macro,
      ICoreWebView2Controller_SetBoundsAndZoomFactor_macro,
      ICoreWebView2Controller_MoveFocus_macro,
      ICoreWebView2Controller_add_MoveFocusRequested_macro,
      ICoreWebView2Controller_remove_MoveFocusRequested_macro,
      ICoreWebView2Controller_add_GotFocus_macro,
      ICoreWebView2Controller_remove_GotFocus_macro,
      ICoreWebView2Controller_add_LostFocus_macro,
      ICoreWebView2Controller_remove_LostFocus_macro,
      ICoreWebView2Controller_add_AcceleratorKeyPressed_macro,
      ICoreWebView2Controller_remove_AcceleratorKeyPressed_macro,
      ICoreWebView2Controller_get_ParentWindow_macro,
      ICoreWebView2Controller_put_ParentWindow_macro,
      ICoreWebView2Controller_NotifyParentWindowPositionChanged_macro,
      ICoreWebView2Controller_Close_macro,
      ICoreWebView2Controller_get_CoreWebView2_macro,
      ICoreWebView2Controller2_get_DefaultBackgroundColor_macro,
      ICoreWebView2Controller2_put_DefaultBackgroundColor_macro,
      ICoreWebView2Controller3_get_RasterizationScale_macro,
      ICoreWebView2Controller3_put_RasterizationScale_macro,
      ICoreWebView2Controller3_get_ShouldDetectMonitorScaleChanges_macro,
      ICoreWebView2Controller3_put_ShouldDetectMonitorScaleChanges_macro,
      ICoreWebView2Controller3_add_RasterizationScaleChanged_macro,
      ICoreWebView2Controller3_remove_RasterizationScaleChanged_macro,
      ICoreWebView2Controller3_get_BoundsMode_macro,
      ICoreWebView2Controller3_put_BoundsMode_macro,
      Macro ''get_AllowExternalDrop'' [''value''] ''get_AllowExternalDrop'' [''value''],
      Macro ''put_AllowExternalDrop'' [''value''] ''put_AllowExternalDrop'' [''value'']]"

definition ICoreWebView2ControllerOptions_macros :: "cmacro list" where
  "ICoreWebView2ControllerOptions_macros =
     [IUnknown_QueryInterface_macro, IUnknown_AddRef_macro, IUnknown_Release_macro,
      ICoreWebView2ControllerOptions_get_ProfileName_macro, ICoreWebView2ControllerOptions_put_ProfileName_macro,
      ICoreWebView2ControllerOptions_get_IsInPrivateModeEnabled_macro,
      ICoreWebView2ControllerOptions_put_IsInPrivateModeEnabled_macro]"

definition ICoreWebView2ControllerOptions2_macros :: "cmacro list" where
  "ICoreWebView2ControllerOptions2_macros =
     [IUnknown_QueryInterface_macro,
      IUnknown_AddRef_macro,
      IUnknown_Release_macro,
      ICoreWebView2ControllerOptions_get_ProfileName_macro,
      ICoreWebView2ControllerOptions_put_ProfileName_macro,
      ICoreWebView2ControllerOptions_get_IsInPrivateModeEnabled_macro,
      ICoreWebView2ControllerOptions_put_IsInPrivateModeEnabled_macro,
      Macro ''get_ScriptLocale'' [''locale''] ''get_ScriptLocale'' [''locale''],
      Macro ''put_ScriptLocale'' [''locale''] ''put_ScriptLocale'' [''locale'']]"

definition ICoreWebView2CookieManager_macros :: "cmacro list" where
  "ICoreWebView2CookieManager_macros =
     [IUnknown_QueryInterface_macro,
      IUnknown_AddRef_macro,
      IUnknown_Release_macro,
      Macro ''CreateCookie'' [''name'', ''value'', ''domain'', ''path'', ''cookie''] ''CreateCookie'' [''name'', ''value'', ''domain'', ''path'', ''cookie''],
      Macro ''CopyCookie'' [''cookieParam'', ''cookie''] ''CopyCookie'' [''cookieParam'', ''cookie''],
      Macro ''GetCookies'' [''uri'', ''handler''] ''GetCookies'' [''uri'', ''handler''],
      Macro ''AddOrUpdateCookie'' [''cookie''] ''AddOrUpdateCookie'' [''cookie''],
      Macro ''DeleteCookie'' [''cookie''] ''DeleteCookie'' [''cookie''],
      Macro ''DeleteCookies'' [''name'', ''uri''] ''DeleteCookies'' [''name'', ''uri''],
      Macro ''DeleteCookiesWithDomainAndPath'' [''name'', ''domain'', ''path''] ''DeleteCookiesWithDomainAndPath'' [''name'', ''domain'', ''path''],
      Macro ''DeleteAllCookies'' [] ''DeleteAllCookies'' []]"

definition ICoreWebView2DownloadOperation_macros :: "cmacro list" where
  "ICoreWebView2DownloadOperation_macros =
     [IUnknown_QueryInterface_macro,
      IUnknown_AddRef_macro,
      IUnknown_Release_macro,
      Macro ''add_BytesReceivedChanged'' [''eventHandler'', ''token''] ''add_BytesReceivedChanged'' [''eventHandler'', ''token''],
      Macro ''remove_BytesReceivedChanged'' [''token''] ''remove_BytesReceivedChanged'' [''token''],
      Macro ''add_EstimatedEndTimeChanged'' [''eventHandler'', ''token''] ''add_EstimatedEndTimeChanged'' [''eventHandler'', ''token''],
      Macro ''remove_EstimatedEndTimeChanged'' [''token''] ''remove_EstimatedEndTimeChanged'' [''token''],
      Macro ''add_StateChanged'' [''eventHandler'', ''token''] ''add_StateChanged'' [''eventHandler'', ''token''],
      Macro ''remove_StateChanged'' [''token''] ''remove_StateChanged'' [''token''],
      Macro ''get_Uri'' [''uri''] ''get_Uri'' [''uri''],
      Macro ''get_ContentDisposition'' [''contentDisposition''] ''get_ContentDisposition'' [''contentDisposition''],
      Macro ''get_MimeType'' [''mimeType''] ''get_MimeType'' [''mimeType''],
      Macro ''get_TotalBytesToReceive'' [''totalBytesToReceive''] ''get_TotalBytesToReceive'' [''totalBytesToReceive''],
      Macro ''get_BytesReceived'' [''bytesReceived''] ''get_BytesReceived'' [''bytesReceived''],
      Macro ''get_EstimatedEndTime'' [''estimatedEndTime''] ''get_EstimatedEndTime'' [''estimatedEndTime''],
      Macro ''get_ResultFilePath'' [''resultFilePath''] ''get_ResultFilePath'' [''resultFilePath''],
      Macro ''get_State'' [''downloadState''] ''get_State'' [''downloadState''],
      Macro ''get_InterruptReason'' [''interruptReason''] ''get_InterruptReason'' [''interruptReason''],
      Macro ''Cancel'' [] ''Cancel'' [],
      Macro ''Pause'' [] ''Pause'' [],
      Macro ''Resume'' [] ''Resume'' [],
      Macro ''get_CanResume'' [''canResume''] ''get_CanResume'' [''canResume'']]"

definition ICoreWebView2Environment_macros :: "cmacro list" where
  "ICoreWebView2Environment_macros =
     [IUnknown_QueryInterface_macro, IUnknown_AddRef_macro, IUnknown_Release_macro,
      ICoreWebView2Environment_CreateCoreWebView2Controller_macro,
      ICoreWebView2Environment_CreateWebResourceResponse_macro,
      ICoreWebView2Environment_get_BrowserVersionString_macro,
      ICoreWebView2Environment_add_NewBrowserVersionAvailable_macro,
      ICoreWebView2Environment_remove_NewBrowserVersionAvailable_macro]"

definition ICoreWebView2Environment2_macros :: "cmacro list" where
  "ICoreWebView2Environment2_macros =
     [IUnknown_QueryInterface_macro, IUnknown_AddRef_macro, IUnknown_Release_macro,
      ICoreWebView2Environment_CreateCoreWebView2Controller_macro,
      ICoreWebView2Environment_CreateWebResourceResponse_macro,
      ICoreWebView2Environment_get_BrowserVersionString_macro,
      ICoreWebView2Environment_add_NewBrowserVersionAvailable_macro,
      ICoreWebView2Environment_remove_NewBrowserVersionAvailable_macro,
      ICoreWebView2Environment2_CreateWebResourceRequest_macro]"

definition ICoreWebView2Environment3_macros :: "cmacro list" where
  "ICoreWebView2Environment3_macros =
     [IUnknown_QueryInterface_macro, IUnknown_AddRef_macro, IUnknown_Release_macro,
      ICoreWebView2Environment_CreateCoreWebView2Controller_macro,
      ICoreWebView2Environment_CreateWebResourceResponse_macro,
      ICoreWebView2Environment_get_BrowserVersionString_macro,
      ICoreWebView2Environment_add_NewBrowserVersionAvailable_macro,
      ICoreWebView2Environment_remove_NewBrowserVersionAvailable_macro,
      ICoreWebView2Environment2_CreateWebResourceRequest_macro,
      ICoreWebView2Environment3_CreateCoreWebView2CompositionController_macro,
      ICoreWebView2Environment3_CreateCoreWebView2PointerInfo_macro]"

definition ICoreWebView2Environment4_macros :: "cmacro list" where
  "ICoreWebView2Environment4_macros =
     [IUnknown_QueryInterface_macro, IUnknown_AddRef_macro, IUnknown_Release_macro,
      ICoreWebView2Environment_CreateCoreWebView2Controller_macro,
      ICoreWebView2Environment_CreateWebResourceResponse_macro,
      ICoreWebView2Environment_get_BrowserVersionString_macro,
      ICoreWebView2Environment_add_NewBrowserVersionAvailable_macro,
      ICoreWebView2Environment_remove_NewBrowserVersionAvailable_macro,
      ICoreWebView2Environment2_CreateWebResourceRequest_macro,
      ICoreWebView2Environment3_CreateCoreWebView2CompositionController_macro,
      ICoreWebView2Environment3_CreateCoreWebView2PointerInfo_macro,
      ICoreWebView2Environment4_GetAutomationProviderForWindow_macro]"

definition ICoreWebView2Environment5_macros :: "cmacro list" where
  "ICoreWebView2Environment5_macros =
     [IUnknown_QueryInterface_macro, IUnknown_AddRef_macro, IUnknown_Release_macro,
      ICoreWebView2Environment_CreateCoreWebView2Controller_macro,
      ICoreWebView2Environment_CreateWebResourceResponse_macro,
      ICoreWebView2Environment_get_BrowserVersionString_macro,
      ICoreWebView2Environment_add_NewBrowserVersionAvailable_macro,
      ICoreWebView2Environment_remove_NewBrowserVersionAvailable_macro,
      ICoreWebView2Environment2_CreateWebResourceRequest_macro,
      ICoreWebView2Environment3_CreateCoreWebView2CompositionController_macro,
      ICoreWebView2Environment3_CreateCoreWebView2PointerInfo_macro,
      ICoreWebView2Environment4_GetAutomationProviderForWindow_macro,
      ICoreWebView2Environment5_add_BrowserProcessExited_macro,
      ICoreWebView2Environment5_remove_BrowserProcessExited_macro]"

definition ICoreWebView2Environment6_macros :: "cmacro list" where
  "ICoreWebView2Environment6_macros =
     [IUnknown_QueryInterface_macro, IUnknown_AddRef_macro, IUnknown_Release_macro,
      ICoreWebView2Environment_CreateCoreWebView2Controller_macro,
      ICoreWebView2Environment_CreateWebResourceResponse_macro,
      ICoreWebView2Environment_get_BrowserVersionString_macro,
      ICoreWebView2Environment_add_NewBrowserVersionAvailable_macro,
      ICoreWebView2Environment_remove_NewBrowserVersionAvailable_macro,
      ICoreWebView2Environment2_CreateWebResourceRequest_macro,
      ICoreWebView2Environment3_CreateCoreWebView2CompositionController_macro,
      ICoreWebView2Environment3_CreateCoreWebView2PointerInfo_macro,
      ICoreWebView2Environment4_GetAutomationProviderForWindow_macro,
      ICoreWebView2Environment5_add_BrowserProcessExited_macro,
      ICoreWebView2Environment5_remove_BrowserProcessExited_macro,
      ICoreWebView2Environment6_CreatePrintSettings_macro]"

definition ICoreWebView2Environment7_macros :: "cmacro list" where
  "ICoreWebView2Environment7_macros =
     [IUnknown_QueryInterface_macro, IUnknown_AddRef_macro, IUnknown_Release_macro,
      ICoreWebView2Environment_CreateCoreWebView2Controller_macro,
      ICoreWebView2Environment_CreateWebResourceResponse_macro,
      ICoreWebView2Environment_get_BrowserVersionString_macro,
      ICoreWebView2Environment_add_NewBrowserVersionAvailable_macro,
      ICoreWebView2Environment_remove_NewBrowserVersionAvailable_macro,
      ICoreWebView2Environment2_CreateWebResourceRequest_macro,
      ICoreWebView2Environment3_CreateCoreWebView2CompositionController_macro,
      ICoreWebView2Environment3_CreateCoreWebView2PointerInfo_macro,
      ICoreWebView2Environment4_GetAutomationProviderForWindow_macro,
      ICoreWebView2Environment5_add_BrowserProcessExited_macro,
      ICoreWebView2Environment5_remove_BrowserProcessExited_macro,
      ICoreWebView2Environment6_CreatePrintSettings_macro, ICoreWebView2Environment7_get_UserDataFolder_macro]"

definition ICoreWebView2Environment8_macros :: "cmacro list" where
  "ICoreWebView2Environment8_macros =
     [IUnknown_QueryInterface_macro, IUnknown_AddRef_macro, IUnknown_Release_macro,
      ICoreWebView2Environment_CreateCoreWebView2Controller_macro,
      ICoreWebView2Environment_CreateWebResourceResponse_macro,
      ICoreWebView2Environment_get_BrowserVersionString_macro,
      ICoreWebView2Environment_add_NewBrowserVersionAvailable_macro,
      ICoreWebView2Environment_remove_NewBrowserVersionAvailable_macro,
      ICoreWebView2Environment2_CreateWebResourceRequest_macro,
      ICoreWebView2Environment3_CreateCoreWebView2CompositionController_macro,
      ICoreWebView2Environment3_CreateCoreWebView2PointerInfo_macro,
      ICoreWebView2Environment4_GetAutomationProviderForWindow_macro,
      ICoreWebView2Environment5_add_BrowserProcessExited_macro,
      ICoreWebView2Environment5_remove_BrowserProcessExited_macro,
      ICoreWebView2Environment6_CreatePrintSettings_macro, ICoreWebView2Environment7_get_UserDataFolder_macro,
      ICoreWebView2Environment8_add_ProcessInfosChanged_macro,
      ICoreWebView2Environment8_remove_ProcessInfosChanged_macro, ICoreWebView2Environment8_GetProcessInfos_macro]"

definition ICoreWebView2Environment9_macros :: "cmacro list" where
  "ICoreWebView2Environment9_macros =
     [IUnknown_QueryInterface_macro, IUnknown_AddRef_macro, IUnknown_Release_macro,
      ICoreWebView2Environment_CreateCoreWebView2Controller_macro,
      ICoreWebView2Environment_CreateWebResourceResponse_macro,
      ICoreWebView2Environment_get_BrowserVersionString_macro,
      ICoreWebView2Environment_add_NewBrowserVersionAvailable_macro,
      ICoreWebView2Environment_remove_NewBrowserVersionAvailable_macro,
      ICoreWebView2Environment2_CreateWebResourceRequest_macro,
      ICoreWebView2Environment3_CreateCoreWebView2CompositionController_macro,
      ICoreWebView2Environment3_CreateCoreWebView2PointerInfo_macro,
      ICoreWebView2Environment4_GetAutomationProviderForWindow_macro,
      ICoreWebView2Environment5_add_BrowserProcessExited_macro,
      ICoreWebView2Environment5_remove_BrowserProcessExited_macro,
      ICoreWebView2Environment6_CreatePrintSettings_macro, ICoreWebView2Environment7_get_UserDataFolder_macro,
      ICoreWebView2Environment8_add_ProcessInfosChanged_macro,
      ICoreWebView2Environment8_remove_ProcessInfosChanged_macro, ICoreWebView2Environment8_GetProcessInfos_macro,
      ICoreWebView2Environment9_CreateContextMenuItem_macro]"

definition ICoreWebView2Environment10_macros :: "cmacro list" where
  "ICoreWebView2Environment10_macros =
     [IUnknown_QueryInterface_macro, IUnknown_AddRef_macro, IUnknown_Release_macro,
      ICoreWebView2Environment_CreateCoreWebView2Controller_macro,
      ICoreWebView2Environment_CreateWebResourceResponse_macro,
      ICoreWebView2Environment_get_BrowserVersionString_macro,
      ICoreWebView2Environment_add_NewBrowserVersionAvailable_macro,
      ICoreWebView2Environment_remove_NewBrowserVersionAvailable_macro,
      ICoreWebView2Environment2_CreateWebResourceRequest_macro,
      ICoreWebView2Environment3_CreateCoreWebView2CompositionController_macro,
      ICoreWebView2Environment3_CreateCoreWebView2PointerInfo_macro,
      ICoreWebView2Environment4_GetAutomationProviderForWindow_macro,
      ICoreWebView2Environment5_add_BrowserProcessExited_macro,
      ICoreWebView2Environment5_remove_BrowserProcessExited_macro,
      ICoreWebView2Environment6_CreatePrintSettings_macro, ICoreWebView2Environment7_get_UserDataFolder_macro,
      ICoreWebView2Environment8_add_ProcessInfosChanged_macro,
      ICoreWebView2Environment8_remove_ProcessInfosChanged_macro, ICoreWebView2Environment8_GetProcessInfos_macro,
      ICoreWebView2Environment9_CreateContextMenuItem_macro,
      ICoreWebView2Environment10_CreateCoreWebView2ControllerOptions_macro,
      ICoreWebView2Environment10_CreateCoreWebView2ControllerWithOptions_macro,
      ICoreWebView2Environment10_CreateCoreWebView2CompositionControllerWithOptions_macro]"

definition ICoreWebView2Environment11_macros :: "cmacro list" where
  "ICoreWebView2Environment11_macros =
     [IUnknown_QueryInterface_macro, IUnknown_AddRef_macro, IUnknown_Release_macro,
      ICoreWebView2Environment_CreateCoreWebView2Controller_macro,
      ICoreWebView2Environment_CreateWebResourceResponse_macro,
      ICoreWebView2Environment_get_BrowserVersionString_macro,
      ICoreWebView2Environment_add_NewBrowserVersionAvailable_macro,
      ICoreWebView2Environment_remove_NewBrowserVersionAvailable_macro,
      ICoreWebView2Environment2_CreateWebResourceRequest_macro,
      ICoreWebView2Environment3_CreateCoreWebView2CompositionController_macro,
      ICoreWebView2Environment3_CreateCoreWebView2PointerInfo_macro,
      ICoreWebView2Environment4_GetAutomationProviderForWindow_macro,
      ICoreWebView2Environment5_add_BrowserProcessExited_macro,
      ICoreWebView2Environment5_remove_BrowserProcessExited_macro,
      ICoreWebView2Environment6_CreatePrintSettings_macro, ICoreWebView2Environment7_get_UserDataFolder_macro,
      ICoreWebView2Environment8_add_ProcessInfosChanged_macro,
      ICoreWebView2Environment8_remove_ProcessInfosChanged_macro, ICoreWebView2Environment8_GetProcessInfos_macro,
      ICoreWebView2Environment9_CreateContextMenuItem_macro,
      ICoreWebView2Environment10_CreateCoreWebView2ControllerOptions_macro,
      ICoreWebView2Environment10_CreateCoreWebView2ControllerWithOptions_macro,
      ICoreWebView2Environment10_CreateCoreWebView2CompositionControllerWithOptions_macro,
      ICoreWebView2Environment11_get_FailureReportFolderPath_macro]"

definition ICoreWebView2Environment12_macros :: "cmacro list" where
  "ICoreWebView2Environment12_macros =
     [IUnknown_QueryInterface_macro, IUnknown_AddRef_macro, IUnknown_Release_macro,
      ICoreWebView2Environment_CreateCoreWebView2Controller_macro,
      ICoreWebView2Environment_CreateWebResourceResponse_macro,
      ICoreWebView2Environment_get_BrowserVersionString_macro,
      ICoreWebView2Environment_add_NewBrowserVersionAvailable_macro,
      ICoreWebView2Environment_remove_NewBrowserVersionAvailable_macro,
      ICoreWebView2Environment2_CreateWebResourceRequest_macro,
      ICoreWebView2Environment3_CreateCoreWebView2CompositionController_macro,
      ICoreWebView2Environment3_CreateCoreWebView2PointerInfo_macro,
      ICoreWebView2Environment4_GetAutomationProviderForWindow_macro,
      ICoreWebView2Environment5_add_BrowserProcessExited_macro,
      ICoreWebView2Environment5_remove_BrowserProcessExited_macro,
      ICoreWebView2Environment6_CreatePrintSettings_macro, ICoreWebView2Environment7_get_UserDataFolder_macro,
      ICoreWebView2Environment8_add_ProcessInfosChanged_macro,
      ICoreWebView2Environment8_remove_ProcessInfosChanged_macro, ICoreWebView2Environment8_GetProcessInfos_macro,
      ICoreWebView2Environment9_CreateContextMenuItem_macro,
      ICoreWebView2Environment10_CreateCoreWebView2ControllerOptions_macro,
      ICoreWebView2Environment10_CreateCoreWebView2ControllerWithOptions_macro,
      ICoreWebView2Environment10_CreateCoreWebView2CompositionControllerWithOptions_macro,
      ICoreWebView2Environment11_get_FailureReportFolderPath_macro,
      ICoreWebView2Environment12_CreateSharedBuffer_macro]"

definition ICoreWebView2Environment13_macros :: "cmacro list" where
  "ICoreWebView2Environment13_macros =
     [IUnknown_QueryInterface_macro,
      IUnknown_AddRef_macro,
      IUnknown_Release_macro,
      ICoreWebView2Environment_CreateCoreWebView2Controller_macro,
      ICoreWebView2Environment_CreateWebResourceResponse_macro,
      ICoreWebView2Environment_get_BrowserVersionString_macro,
      ICoreWebView2Environment_add_NewBrowserVersionAvailable_macro,
      ICoreWebView2Environment_remove_NewBrowserVersionAvailable_macro,
      ICoreWebView2Environment2_CreateWebResourceRequest_macro,
      ICoreWebView2Environment3_CreateCoreWebView2CompositionController_macro,
      ICoreWebView2Environment3_CreateCoreWebView2PointerInfo_macro,
      ICoreWebView2Environment4_GetAutomationProviderForWindow_macro,
      ICoreWebView2Environment5_add_BrowserProcessExited_macro,
      ICoreWebView2Environment5_remove_BrowserProcessExited_macro,
      ICoreWebView2Environment6_CreatePrintSettings_macro,
      ICoreWebView2Environment7_get_UserDataFolder_macro,
      ICoreWebView2Environment8_add_ProcessInfosChanged_macro,
      ICoreWebView2Environment8_remove_ProcessInfosChanged_macro,
      ICoreWebView2Environment8_GetProcessInfos_macro,
      ICoreWebView2Environment9_CreateContextMenuItem_macro,
      ICoreWebView2Environment10_CreateCoreWebView2ControllerOptions_macro,
      ICoreWebView2Environment10_CreateCoreWebView2ControllerWithOptions_macro,
      ICoreWebView2Environment10_CreateCoreWebView2CompositionControllerWithOptions_macro,
      ICoreWebView2Environment11_get_FailureReportFolderPath_macro,
      ICoreWebView2Environment12_CreateSharedBuffer_macro,
      Macro ''GetProcessExtendedInfos'' [''handler''] ''GetProcessExtendedInfos'' [''handler'']]"

definition ICoreWebView2EnvironmentOptions_macros :: "cmacro list" where
  "ICoreWebView2EnvironmentOptions_macros =
     [IUnknown_QueryInterface_macro,
      IUnknown_AddRef_macro,
      IUnknown_Release_macro,
      Macro ''get_AdditionalBrowserArguments'' [''value''] ''get_AdditionalBrowserArguments'' [''value''],
      Macro ''put_AdditionalBrowserArguments'' [''value''] ''put_AdditionalBrowserArguments'' [''value''],
      Macro ''get_Language'' [''value''] ''get_Language'' [''value''],
      Macro ''put_Language'' [''value''] ''put_Language'' [''value''],
      Macro ''get_TargetCompatibleBrowserVersion'' [''value''] ''get_TargetCompatibleBrowserVersion'' [''value''],
      Macro ''put_TargetCompatibleBrowserVersion'' [''value''] ''put_TargetCompatibleBrowserVersion'' [''value''],
      Macro ''get_AllowSingleSignOnUsingOSPrimaryAccount'' [''allow''] ''get_AllowSingleSignOnUsingOSPrimaryAccount'' [''allow''],
      Macro ''put_AllowSingleSignOnUsingOSPrimaryAccount'' [''allow''] ''put_AllowSingleSignOnUsingOSPrimaryAccount'' [''allow'']]"

definition ICoreWebView2EnvironmentOptions2_macros :: "cmacro list" where
  "ICoreWebView2EnvironmentOptions2_macros =
     [IUnknown_QueryInterface_macro,
      IUnknown_AddRef_macro,
      IUnknown_Release_macro,
      Macro ''get_ExclusiveUserDataFolderAccess'' [''value''] ''get_ExclusiveUserDataFolderAccess'' [''value''],
      Macro ''put_ExclusiveUserDataFolderAccess'' [''value''] ''put_ExclusiveUserDataFolderAccess'' [''value'']]"

definition ICoreWebView2EnvironmentOptions3_macros :: "cmacro list" where
  "ICoreWebView2EnvironmentOptions3_macros =
     [IUnknown_QueryInterface_macro,
      IUnknown_AddRef_macro,
      IUnknown_Release_macro,
      Macro ''get_IsCustomCrashReportingEnabled'' [''value''] ''get_IsCustomCrashReportingEnabled'' [''value''],
      Macro ''put_IsCustomCrashReportingEnabled'' [''value''] ''put_IsCustomCrashReportingEnabled'' [''value'']]"

definition ICoreWebView2EnvironmentOptions4_macros :: "cmacro list" where
  "ICoreWebView2EnvironmentOptions4_macros =
     [IUnknown_QueryInterface_macro,
      IUnknown_AddRef_macro,
      IUnknown_Release_macro,
      Macro ''GetCustomSchemeRegistrations'' [''count'', ''schemeRegistrations''] ''GetCustomSchemeRegistrations'' [''count'', ''schemeRegistrations''],
      Macro ''SetCustomSchemeRegistrations'' [''count'', ''schemeRegistrations''] ''SetCustomSchemeRegistrations'' [''count'', ''schemeRegistrations'']]"

definition ICoreWebView2EnvironmentOptions5_macros :: "cmacro list" where
  "ICoreWebView2EnvironmentOptions5_macros =
     [IUnknown_QueryInterface_macro,
      IUnknown_AddRef_macro,
      IUnknown_Release_macro,
      Macro ''get_EnableTrackingPrevention'' [''value''] ''get_EnableTrackingPrevention'' [''value''],
      Macro ''put_EnableTrackingPrevention'' [''value''] ''put_EnableTrackingPrevention'' [''value'']]"

definition ICoreWebView2EnvironmentOptions6_macros :: "cmacro list" where
  "ICoreWebView2EnvironmentOptions6_macros =
     [IUnknown_QueryInterface_macro,
      IUnknown_AddRef_macro,
      IUnknown_Release_macro,
      Macro ''get_AreBrowserExtensionsEnabled'' [''value''] ''get_AreBrowserExtensionsEnabled'' [''value''],
      Macro ''put_AreBrowserExtensionsEnabled'' [''value''] ''put_AreBrowserExtensionsEnabled'' [''value'']]"

definition ICoreWebView2ProcessExtendedInfo_macros :: "cmacro list" where
  "ICoreWebView2ProcessExtendedInfo_macros =
     [IUnknown_QueryInterface_macro,
      IUnknown_AddRef_macro,
      IUnknown_Release_macro,
      Macro ''get_ProcessInfo'' [''processInfo''] ''get_ProcessInfo'' [''processInfo''],
      Macro ''get_AssociatedFrameInfos'' [''frames''] ''get_AssociatedFrameInfos'' [''frames'']]"

definition ICoreWebView2ProcessExtendedInfoCollection_macros :: "cmacro list" where
  "ICoreWebView2ProcessExtendedInfoCollection_macros =
     [IUnknown_QueryInterface_macro,
      IUnknown_AddRef_macro,
      IUnknown_Release_macro,
      Macro ''get_Count'' [''count''] ''get_Count'' [''count''],
      Macro ''GetValueAtIndex'' [''index'', ''processInfo''] ''GetValueAtIndex'' [''index'', ''processInfo'']]"

definition ICoreWebView2Frame_macros :: "cmacro list" where
  "ICoreWebView2Frame_macros =
     [IUnknown_QueryInterface_macro, IUnknown_AddRef_macro, IUnknown_Release_macro,
      ICoreWebView2Frame_get_Name_macro, ICoreWebView2Frame_add_NameChanged_macro,
      ICoreWebView2Frame_remove_NameChanged_macro, ICoreWebView2Frame_AddHostObjectToScriptWithOrigins_macro,
      ICoreWebView2Frame_RemoveHostObjectFromScript_macro, ICoreWebView2Frame_add_Destroyed_macro,
      ICoreWebView2Frame_remove_Destroyed_macro, ICoreWebView2Frame_IsDestroyed_macro]"

definition ICoreWebView2Frame2_macros :: "cmacro list" where
  "ICoreWebView2Frame2_macros =
     [IUnknown_QueryInterface_macro, IUnknown_AddRef_macro, IUnknown_Release_macro,
      ICoreWebView2Frame_get_Name_macro, ICoreWebView2Frame_add_NameChanged_macro,
      ICoreWebView2Frame_remove_NameChanged_macro, ICoreWebView2Frame_AddHostObjectToScriptWithOrigins_macro,
      ICoreWebView2Frame_RemoveHostObjectFromScript_macro, ICoreWebView2Frame_add_Destroyed_macro,
      ICoreWebView2Frame_remove_Destroyed_macro, ICoreWebView2Frame_IsDestroyed_macro,
      ICoreWebView2Frame2_add_NavigationStarting_macro, ICoreWebView2Frame2_remove_NavigationStarting_macro,
      ICoreWebView2Frame2_add_ContentLoading_macro, ICoreWebView2Frame2_remove_ContentLoading_macro,
      ICoreWebView2Frame2_add_NavigationCompleted_macro, ICoreWebView2Frame2_remove_NavigationCompleted_macro,
      ICoreWebView2Frame2_add_DOMContentLoaded_macro, ICoreWebView2Frame2_remove_DOMContentLoaded_macro,
      ICoreWebView2Frame2_ExecuteScript_macro, ICoreWebView2Frame2_PostWebMessageAsJson_macro,
      ICoreWebView2Frame2_PostWebMessageAsString_macro, ICoreWebView2Frame2_add_WebMessageReceived_macro,
      ICoreWebView2Frame2_remove_WebMessageReceived_macro]"

definition ICoreWebView2Frame3_macros :: "cmacro list" where
  "ICoreWebView2Frame3_macros =
     [IUnknown_QueryInterface_macro, IUnknown_AddRef_macro, IUnknown_Release_macro,
      ICoreWebView2Frame_get_Name_macro, ICoreWebView2Frame_add_NameChanged_macro,
      ICoreWebView2Frame_remove_NameChanged_macro, ICoreWebView2Frame_AddHostObjectToScriptWithOrigins_macro,
      ICoreWebView2Frame_RemoveHostObjectFromScript_macro, ICoreWebView2Frame_add_Destroyed_macro,
      ICoreWebView2Frame_remove_Destroyed_macro, ICoreWebView2Frame_IsDestroyed_macro,
      ICoreWebView2Frame2_add_NavigationStarting_macro, ICoreWebView2Frame2_remove_NavigationStarting_macro,
      ICoreWebView2Frame2_add_ContentLoading_macro, ICoreWebView2Frame2_remove_ContentLoading_macro,
      ICoreWebView2Frame2_add_NavigationCompleted_macro, ICoreWebView2Frame2_remove_NavigationCompleted_macro,
      ICoreWebView2Frame2_add_DOMContentLoaded_macro, ICoreWebView2Frame2_remove_DOMContentLoaded_macro,
      ICoreWebView2Frame2_ExecuteScript_macro, ICoreWebView2Frame2_PostWebMessageAsJson_macro,
      ICoreWebView2Frame2_PostWebMessageAsString_macro, ICoreWebView2Frame2_add_WebMessageReceived_macro,
      ICoreWebView2Frame2_remove_WebMessageReceived_macro, ICoreWebView2Frame3_add_PermissionRequested_macro,
      ICoreWebView2Frame3_remove_PermissionRequested_macro]"

definition ICoreWebView2Frame4_macros :: "cmacro list" where
  "ICoreWebView2Frame4_macros =
     [IUnknown_QueryInterface_macro, IUnknown_AddRef_macro, IUnknown_Release_macro,
      ICoreWebView2Frame_get_Name_macro, ICoreWebView2Frame_add_NameChanged_macro,
      ICoreWebView2Frame_remove_NameChanged_macro, ICoreWebView2Frame_AddHostObjectToScriptWithOrigins_macro,
      ICoreWebView2Frame_RemoveHostObjectFromScript_macro, ICoreWebView2Frame_add_Destroyed_macro,
      ICoreWebView2Frame_remove_Destroyed_macro, ICoreWebView2Frame_IsDestroyed_macro,
      ICoreWebView2Frame2_add_NavigationStarting_macro, ICoreWebView2Frame2_remove_NavigationStarting_macro,
      ICoreWebView2Frame2_add_ContentLoading_macro, ICoreWebView2Frame2_remove_ContentLoading_macro,
      ICoreWebView2Frame2_add_NavigationCompleted_macro, ICoreWebView2Frame2_remove_NavigationCompleted_macro,
      ICoreWebView2Frame2_add_DOMContentLoaded_macro, ICoreWebView2Frame2_remove_DOMContentLoaded_macro,
      ICoreWebView2Frame2_ExecuteScript_macro, ICoreWebView2Frame2_PostWebMessageAsJson_macro,
      ICoreWebView2Frame2_PostWebMessageAsString_macro, ICoreWebView2Frame2_add_WebMessageReceived_macro,
      ICoreWebView2Frame2_remove_WebMessageReceived_macro, ICoreWebView2Frame3_add_PermissionRequested_macro,
      ICoreWebView2Frame3_remove_PermissionRequested_macro, ICoreWebView2Frame4_PostSharedBufferToScript_macro]"

definition ICoreWebView2Frame5_macros :: "cmacro list" where
  "ICoreWebView2Frame5_macros =
     [IUnknown_QueryInterface_macro,
      IUnknown_AddRef_macro,
      IUnknown_Release_macro,
      ICoreWebView2Frame_get_Name_macro,
      ICoreWebView2Frame_add_NameChanged_macro,
      ICoreWebView2Frame_remove_NameChanged_macro,
      ICoreWebView2Frame_AddHostObjectToScriptWithOrigins_macro,
      ICoreWebView2Frame_RemoveHostObjectFromScript_macro,
      ICoreWebView2Frame_add_Destroyed_macro,
      ICoreWebView2Frame_remove_Destroyed_macro,
      ICoreWebView2Frame_IsDestroyed_macro,
      ICoreWebView2Frame2_add_NavigationStarting_macro,
      ICoreWebView2Frame2_remove_NavigationStarting_macro,
      ICoreWebView2Frame2_add_ContentLoading_macro,
      ICoreWebView2Frame2_remove_ContentLoading_macro,
      ICoreWebView2Frame2_add_NavigationCompleted_macro,
      ICoreWebView2Frame2_remove_NavigationCompleted_macro,
      ICoreWebView2Frame2_add_DOMContentLoaded_macro,
      ICoreWebView2Frame2_remove_DOMContentLoaded_macro,
      ICoreWebView2Frame2_ExecuteScript_macro,
      ICoreWebView2Frame2_PostWebMessageAsJson_macro,
      ICoreWebView2Frame2_PostWebMessageAsString_macro,
      ICoreWebView2Frame2_add_WebMessageReceived_macro,
      ICoreWebView2Frame2_remove_WebMessageReceived_macro,
      ICoreWebView2Frame3_add_PermissionRequested_macro,
      ICoreWebView2Frame3_remove_PermissionRequested_macro,
      ICoreWebView2Frame4_PostSharedBufferToScript_macro,
      Macro ''get_FrameId'' [''id''] ''get_FrameId'' [''id'']]"

definition ICoreWebView2FrameInfo_macros :: "cmacro list" where
  "ICoreWebView2FrameInfo_macros =
     [IUnknown_QueryInterface_macro, IUnknown_AddRef_macro, IUnknown_Release_macro,
      ICoreWebView2FrameInfo_get_Name_macro, ICoreWebView2FrameInfo_get_Source_macro]"

definition ICoreWebView2FrameInfo2_macros :: "cmacro list" where
  "ICoreWebView2FrameInfo2_macros =
     [IUnknown_QueryInterface_macro,
      IUnknown_AddRef_macro,
      IUnknown_Release_macro,
      ICoreWebView2FrameInfo_get_Name_macro,
      ICoreWebView2FrameInfo_get_Source_macro,
      Macro ''get_ParentFrameInfo'' [''frameInfo''] ''get_ParentFrameInfo'' [''frameInfo''],
      Macro ''get_FrameId'' [''id''] ''get_FrameId'' [''id''],
      Macro ''get_FrameKind'' [''kind''] ''get_FrameKind'' [''kind'']]"

definition ICoreWebView2FrameInfoCollection_macros :: "cmacro list" where
  "ICoreWebView2FrameInfoCollection_macros =
     [IUnknown_QueryInterface_macro,
      IUnknown_AddRef_macro,
      IUnknown_Release_macro,
      Macro ''GetIterator'' [''iterator''] ''GetIterator'' [''iterator'']]"

definition ICoreWebView2FrameInfoCollectionIterator_macros :: "cmacro list" where
  "ICoreWebView2FrameInfoCollectionIterator_macros =
     [IUnknown_QueryInterface_macro,
      IUnknown_AddRef_macro,
      IUnknown_Release_macro,
      Macro ''get_HasCurrent'' [''hasCurrent''] ''get_HasCurrent'' [''hasCurrent''],
      Macro ''GetCurrent'' [''frameInfo''] ''GetCurrent'' [''frameInfo''],
      Macro ''MoveNext'' [''hasNext''] ''MoveNext'' [''hasNext'']]"

definition ICoreWebView2Profile_macros :: "cmacro list" where
  "ICoreWebView2Profile_macros =
     [IUnknown_QueryInterface_macro, IUnknown_AddRef_macro, IUnknown_Release_macro,
      ICoreWebView2Profile_get_ProfileName_macro, ICoreWebView2Profile_get_IsInPrivateModeEnabled_macro,
      ICoreWebView2Profile_get_ProfilePath_macro, ICoreWebView2Profile_get_DefaultDownloadFolderPath_macro,
      ICoreWebView2Profile_put_DefaultDownloadFolderPath_macro, ICoreWebView2Profile_get_PreferredColorScheme_macro,
      ICoreWebView2Profile_put_PreferredColorScheme_macro]"

definition ICoreWebView2Profile2_macros :: "cmacro list" where
  "ICoreWebView2Profile2_macros =
     [IUnknown_QueryInterface_macro, IUnknown_AddRef_macro, IUnknown_Release_macro,
      ICoreWebView2Profile_get_ProfileName_macro, ICoreWebView2Profile_get_IsInPrivateModeEnabled_macro,
      ICoreWebView2Profile_get_ProfilePath_macro, ICoreWebView2Profile_get_DefaultDownloadFolderPath_macro,
      ICoreWebView2Profile_put_DefaultDownloadFolderPath_macro, ICoreWebView2Profile_get_PreferredColorScheme_macro,
      ICoreWebView2Profile_put_PreferredColorScheme_macro, ICoreWebView2Profile2_ClearBrowsingData_macro,
      ICoreWebView2Profile2_ClearBrowsingDataInTimeRange_macro, ICoreWebView2Profile2_ClearBrowsingDataAll_macro]"

definition ICoreWebView2Profile3_macros :: "cmacro list" where
  "ICoreWebView2Profile3_macros =
     [IUnknown_QueryInterface_macro, IUnknown_AddRef_macro, IUnknown_Release_macro,
      ICoreWebView2Profile_get_ProfileName_macro, ICoreWebView2Profile_get_IsInPrivateModeEnabled_macro,
      ICoreWebView2Profile_get_ProfilePath_macro, ICoreWebView2Profile_get_DefaultDownloadFolderPath_macro,
      ICoreWebView2Profile_put_DefaultDownloadFolderPath_macro, ICoreWebView2Profile_get_PreferredColorScheme_macro,
      ICoreWebView2Profile_put_PreferredColorScheme_macro, ICoreWebView2Profile2_ClearBrowsingData_macro,
      ICoreWebView2Profile2_ClearBrowsingDataInTimeRange_macro, ICoreWebView2Profile2_ClearBrowsingDataAll_macro,
      ICoreWebView2Profile3_get_PreferredTrackingPreventionLevel_macro,
      ICoreWebView2Profile3_put_PreferredTrackingPreventionLevel_macro]"

definition ICoreWebView2Profile4_macros :: "cmacro list" where
  "ICoreWebView2Profile4_macros =
     [IUnknown_QueryInterface_macro, IUnknown_AddRef_macro, IUnknown_Release_macro,
      ICoreWebView2Profile_get_ProfileName_macro, ICoreWebView2Profile_get_IsInPrivateModeEnabled_macro,
      ICoreWebView2Profile_get_ProfilePath_macro, ICoreWebView2Profile_get_DefaultDownloadFolderPath_macro,
      ICoreWebView2Profile_put_DefaultDownloadFolderPath_macro, ICoreWebView2Profile_get_PreferredColorScheme_macro,
      ICoreWebView2Profile_put_PreferredColorScheme_macro, ICoreWebView2Profile2_ClearBrowsingData_macro,
      ICoreWebView2Profile2_ClearBrowsingDataInTimeRange_macro, ICoreWebView2Profile2_ClearBrowsingDataAll_macro,
      ICoreWebView2Profile3_get_PreferredTrackingPreventionLevel_macro,
      ICoreWebView2Profile3_put_PreferredTrackingPreventionLevel_macro,
      ICoreWebView2Profile4_SetPermissionState_macro, ICoreWebView2Profile4_GetNonDefaultPermissionSettings_macro]"

definition ICoreWebView2Profile5_macros :: "cmacro list" where
  "ICoreWebView2Profile5_macros =
     [IUnknown_QueryInterface_macro, IUnknown_AddRef_macro, IUnknown_Release_macro,
      ICoreWebView2Profile_get_ProfileName_macro, ICoreWebView2Profile_get_IsInPrivateModeEnabled_macro,
      ICoreWebView2Profile_get_ProfilePath_macro, ICoreWebView2Profile_get_DefaultDownloadFolderPath_macro,
      ICoreWebView2Profile_put_DefaultDownloadFolderPath_macro, ICoreWebView2Profile_get_PreferredColorScheme_macro,
      ICoreWebView2Profile_put_PreferredColorScheme_macro, ICoreWebView2Profile2_ClearBrowsingData_macro,
      ICoreWebView2Profile2_ClearBrowsingDataInTimeRange_macro, ICoreWebView2Profile2_ClearBrowsingDataAll_macro,
      ICoreWebView2Profile3_get_PreferredTrackingPreventionLevel_macro,
      ICoreWebView2Profile3_put_PreferredTrackingPreventionLevel_macro,
      ICoreWebView2Profile4_SetPermissionState_macro, ICoreWebView2Profile4_GetNonDefaultPermissionSettings_macro,
      ICoreWebView2Profile5_get_CookieManager_macro]"

definition ICoreWebView2Profile6_macros :: "cmacro list" where
  "ICoreWebView2Profile6_macros =
     [IUnknown_QueryInterface_macro, IUnknown_AddRef_macro, IUnknown_Release_macro,
      ICoreWebView2Profile_get_ProfileName_macro, ICoreWebView2Profile_get_IsInPrivateModeEnabled_macro,
      ICoreWebView2Profile_get_ProfilePath_macro, ICoreWebView2Profile_get_DefaultDownloadFolderPath_macro,
      ICoreWebView2Profile_put_DefaultDownloadFolderPath_macro, ICoreWebView2Profile_get_PreferredColorScheme_macro,
      ICoreWebView2Profile_put_PreferredColorScheme_macro, ICoreWebView2Profile2_ClearBrowsingData_macro,
      ICoreWebView2Profile2_ClearBrowsingDataInTimeRange_macro, ICoreWebView2Profile2_ClearBrowsingDataAll_macro,
      ICoreWebView2Profile3_get_PreferredTrackingPreventionLevel_macro,
      ICoreWebView2Profile3_put_PreferredTrackingPreventionLevel_macro,
      ICoreWebView2Profile4_SetPermissionState_macro, ICoreWebView2Profile4_GetNonDefaultPermissionSettings_macro,
      ICoreWebView2Profile5_get_CookieManager_macro, ICoreWebView2Profile6_get_IsPasswordAutosaveEnabled_macro,
      ICoreWebView2Profile6_put_IsPasswordAutosaveEnabled_macro,
      ICoreWebView2Profile6_get_IsGeneralAutofillEnabled_macro,
      ICoreWebView2Profile6_put_IsGeneralAutofillEnabled_macro]"

definition ICoreWebView2Profile7_macros :: "cmacro list" where
  "ICoreWebView2Profile7_macros =
     [IUnknown_QueryInterface_macro, IUnknown_AddRef_macro, IUnknown_Release_macro,
      ICoreWebView2Profile_get_ProfileName_macro, ICoreWebView2Profile_get_IsInPrivateModeEnabled_macro,
      ICoreWebView2Profile_get_ProfilePath_macro, ICoreWebView2Profile_get_DefaultDownloadFolderPath_macro,
      ICoreWebView2Profile_put_DefaultDownloadFolderPath_macro, ICoreWebView2Profile_get_PreferredColorScheme_macro,
      ICoreWebView2Profile_put_PreferredColorScheme_macro, ICoreWebView2Profile2_ClearBrowsingData_macro,
      ICoreWebView2Profile2_ClearBrowsingDataInTimeRange_macro, ICoreWebView2Profile2_ClearBrowsingDataAll_macro,
      ICoreWebView2Profile3_get_PreferredTrackingPreventionLevel_macro,
      ICoreWebView2Profile3_put_PreferredTrackingPreventionLevel_macro,
      ICoreWebView2Profile4_SetPermissionState_macro, ICoreWebView2Profile4_GetNonDefaultPermissionSettings_macro,
      ICoreWebView2Profile5_get_CookieManager_macro, ICoreWebView2Profile6_get_IsPasswordAutosaveEnabled_macro,
      ICoreWebView2Profile6_put_IsPasswordAutosaveEnabled_macro,
      ICoreWebView2Profile6_get_IsGeneralAutofillEnabled_macro,
      ICoreWebView2Profile6_put_IsGeneralAutofillEnabled_macro, ICoreWebView2Profile7_AddBrowserExtension_macro,
      ICoreWebView2Profile7_GetBrowserExtensions_macro]"

definition ICoreWebView2Profile8_macros :: "cmacro list" where
  "ICoreWebView2Profile8_macros =
     [IUnknown_QueryInterface_macro,
      IUnknown_AddRef_macro,
      IUnknown_Release_macro,
      ICoreWebView2Profile_get_ProfileName_macro,
      ICoreWebView2Profile_get_IsInPrivateModeEnabled_macro,
      ICoreWebView2Profile_get_ProfilePath_macro,
      ICoreWebView2Profile_get_DefaultDownloadFolderPath_macro,
      ICoreWebView2Profile_put_DefaultDownloadFolderPath_macro,
      ICoreWebView2Profile_get_PreferredColorScheme_macro,
      ICoreWebView2Profile_put_PreferredColorScheme_macro,
      ICoreWebView2Profile2_ClearBrowsingData_macro,
      ICoreWebView2Profile2_ClearBrowsingDataInTimeRange_macro,
      ICoreWebView2Profile2_ClearBrowsingDataAll_macro,
      ICoreWebView2Profile3_get_PreferredTrackingPreventionLevel_macro,
      ICoreWebView2Profile3_put_PreferredTrackingPreventionLevel_macro,
      ICoreWebView2Profile4_SetPermissionState_macro,
      ICoreWebView2Profile4_GetNonDefaultPermissionSettings_macro,
      ICoreWebView2Profile5_get_CookieManager_macro,
      ICoreWebView2Profile6_get_IsPasswordAutosaveEnabled_macro,
      ICoreWebView2Profile6_put_IsPasswordAutosaveEnabled_macro,
      ICoreWebView2Profile6_get_IsGeneralAutofillEnabled_macro,
      ICoreWebView2Profile6_put_IsGeneralAutofillEnabled_macro,
      ICoreWebView2Profile7_AddBrowserExtension_macro,
      ICoreWebView2Profile7_GetBrowserExtensions_macro,
      Macro ''Delete'' [] ''Delete'' [],
      Macro ''add_Deleted'' [''eventHandler'', ''token''] ''add_Deleted'' [''eventHandler'', ''token''],
      Macro ''remove_Deleted'' [''token''] ''remove_Deleted'' [''token'']]"

definition ICoreWebView2Settings_macros :: "cmacro list" where
  "ICoreWebView2Settings_macros =
     [IUnknown_QueryInterface_macro, IUnknown_AddRef_macro, IUnknown_Release_macro,
      ICoreWebView2Settings_get_IsScriptEnabled_macro, ICoreWebView2Settings_put_IsScriptEnabled_macro,
      ICoreWebView2Settings_get_IsWebMessageEnabled_macro, ICoreWebView2Settings_put_IsWebMessageEnabled_macro,
      ICoreWebView2Settings_get_AreDefaultScriptDialogsEnabled_macro,
      ICoreWebView2Settings_put_AreDefaultScriptDialogsEnabled_macro,
      ICoreWebView2Settings_get_IsStatusBarEnabled_macro, ICoreWebView2Settings_put_IsStatusBarEnabled_macro,
      ICoreWebView2Settings_get_AreDevToolsEnabled_macro, ICoreWebView2Settings_put_AreDevToolsEnabled_macro,
      ICoreWebView2Settings_get_AreDefaultContextMenusEnabled_macro,
      ICoreWebView2Settings_put_AreDefaultContextMenusEnabled_macro,
      ICoreWebView2Settings_get_AreHostObjectsAllowed_macro, ICoreWebView2Settings_put_AreHostObjectsAllowed_macro,
      ICoreWebView2Settings_get_IsZoomControlEnabled_macro, ICoreWebView2Settings_put_IsZoomControlEnabled_macro,
      ICoreWebView2Settings_get_IsBuiltInErrorPageEnabled_macro,
      ICoreWebView2Settings_put_IsBuiltInErrorPageEnabled_macro]"

definition ICoreWebView2Settings2_macros :: "cmacro list" where
  "ICoreWebView2Settings2_macros =
     [IUnknown_QueryInterface_macro, IUnknown_AddRef_macro, IUnknown_Release_macro,
      ICoreWebView2Settings_get_IsScriptEnabled_macro, ICoreWebView2Settings_put_IsScriptEnabled_macro,
      ICoreWebView2Settings_get_IsWebMessageEnabled_macro, ICoreWebView2Settings_put_IsWebMessageEnabled_macro,
      ICoreWebView2Settings_get_AreDefaultScriptDialogsEnabled_macro,
      ICoreWebView2Settings_put_AreDefaultScriptDialogsEnabled_macro,
      ICoreWebView2Settings_get_IsStatusBarEnabled_macro, ICoreWebView2Settings_put_IsStatusBarEnabled_macro,
      ICoreWebView2Settings_get_AreDevToolsEnabled_macro, ICoreWebView2Settings_put_AreDevToolsEnabled_macro,
      ICoreWebView2Settings_get_AreDefaultContextMenusEnabled_macro,
      ICoreWebView2Settings_put_AreDefaultContextMenusEnabled_macro,
      ICoreWebView2Settings_get_AreHostObjectsAllowed_macro, ICoreWebView2Settings_put_AreHostObjectsAllowed_macro,
      ICoreWebView2Settings_get_IsZoomControlEnabled_macro, ICoreWebView2Settings_put_IsZoomControlEnabled_macro,
      ICoreWebView2Settings_get_IsBuiltInErrorPageEnabled_macro,
      ICoreWebView2Settings_put_IsBuiltInErrorPageEnabled_macro, ICoreWebView2Settings2_get_UserAgent_macro,
      ICoreWebView2Settings2_put_UserAgent_macro]"

definition ICoreWebView2Settings3_macros :: "cmacro list" where
  "ICoreWebView2Settings3_macros =
     [IUnknown_QueryInterface_macro, IUnknown_AddRef_macro, IUnknown_Release_macro,
      ICoreWebView2Settings_get_IsScriptEnabled_macro, ICoreWebView2Settings_put_IsScriptEnabled_macro,
      ICoreWebView2Settings_get_IsWebMessageEnabled_macro, ICoreWebView2Settings_put_IsWebMessageEnabled_macro,
      ICoreWebView2Settings_get_AreDefaultScriptDialogsEnabled_macro,
      ICoreWebView2Settings_put_AreDefaultScriptDialogsEnabled_macro,
      ICoreWebView2Settings_get_IsStatusBarEnabled_macro, ICoreWebView2Settings_put_IsStatusBarEnabled_macro,
      ICoreWebView2Settings_get_AreDevToolsEnabled_macro, ICoreWebView2Settings_put_AreDevToolsEnabled_macro,
      ICoreWebView2Settings_get_AreDefaultContextMenusEnabled_macro,
      ICoreWebView2Settings_put_AreDefaultContextMenusEnabled_macro,
      ICoreWebView2Settings_get_AreHostObjectsAllowed_macro, ICoreWebView2Settings_put_AreHostObjectsAllowed_macro,
      ICoreWebView2Settings_get_IsZoomControlEnabled_macro, ICoreWebView2Settings_put_IsZoomControlEnabled_macro,
      ICoreWebView2Settings_get_IsBuiltInErrorPageEnabled_macro,
      ICoreWebView2Settings_put_IsBuiltInErrorPageEnabled_macro, ICoreWebView2Settings2_get_UserAgent_macro,
      ICoreWebView2Settings2_put_UserAgent_macro, ICoreWebView2Settings3_get_AreBrowserAcceleratorKeysEnabled_macro,
      ICoreWebView2Settings3_put_AreBrowserAcceleratorKeysEnabled_macro]"

definition ICoreWebView2Settings4_macros :: "cmacro list" where
  "ICoreWebView2Settings4_macros =
     [IUnknown_QueryInterface_macro, IUnknown_AddRef_macro, IUnknown_Release_macro,
      ICoreWebView2Settings_get_IsScriptEnabled_macro, ICoreWebView2Settings_put_IsScriptEnabled_macro,
      ICoreWebView2Settings_get_IsWebMessageEnabled_macro, ICoreWebView2Settings_put_IsWebMessageEnabled_macro,
      ICoreWebView2Settings_get_AreDefaultScriptDialogsEnabled_macro,
      ICoreWebView2Settings_put_AreDefaultScriptDialogsEnabled_macro,
      ICoreWebView2Settings_get_IsStatusBarEnabled_macro, ICoreWebView2Settings_put_IsStatusBarEnabled_macro,
      ICoreWebView2Settings_get_AreDevToolsEnabled_macro, ICoreWebView2Settings_put_AreDevToolsEnabled_macro,
      ICoreWebView2Settings_get_AreDefaultContextMenusEnabled_macro,
      ICoreWebView2Settings_put_AreDefaultContextMenusEnabled_macro,
      ICoreWebView2Settings_get_AreHostObjectsAllowed_macro, ICoreWebView2Settings_put_AreHostObjectsAllowed_macro,
      ICoreWebView2Settings_get_IsZoomControlEnabled_macro, ICoreWebView2Settings_put_IsZoomControlEnabled_macro,
      ICoreWebView2Settings_get_IsBuiltInErrorPageEnabled_macro,
      ICoreWebView2Settings_put_IsBuiltInErrorPageEnabled_macro, ICoreWebView2Settings2_get_UserAgent_macro,
      ICoreWebView2Settings2_put_UserAgent_macro, ICoreWebView2Settings3_get_AreBrowserAcceleratorKeysEnabled_macro,
      ICoreWebView2Settings3_put_AreBrowserAcceleratorKeysEnabled_macro,
      ICoreWebView2Settings4_get_IsPasswordAutosaveEnabled_macro,
      ICoreWebView2Settings4_put_IsPasswordAutosaveEnabled_macro,
      ICoreWebView2Settings4_get_IsGeneralAutofillEnabled_macro,
      ICoreWebView2Settings4_put_IsGeneralAutofillEnabled_macro]"

definition ICoreWebView2Settings5_macros :: "cmacro list" where
  "ICoreWebView2Settings5_macros =
     [IUnknown_QueryInterface_macro, IUnknown_AddRef_macro, IUnknown_Release_macro,
      ICoreWebView2Settings_get_IsScriptEnabled_macro, ICoreWebView2Settings_put_IsScriptEnabled_macro,
      ICoreWebView2Settings_get_IsWebMessageEnabled_macro, ICoreWebView2Settings_put_IsWebMessageEnabled_macro,
      ICoreWebView2Settings_get_AreDefaultScriptDialogsEnabled_macro,
      ICoreWebView2Settings_put_AreDefaultScriptDialogsEnabled_macro,
      ICoreWebView2Settings_get_IsStatusBarEnabled_macro, ICoreWebView2Settings_put_IsStatusBarEnabled_macro,
      ICoreWebView2Settings_get_AreDevToolsEnabled_macro, ICoreWebView2Settings_put_AreDevToolsEnabled_macro,
      ICoreWebView2Settings_get_AreDefaultContextMenusEnabled_macro,
      ICoreWebView2Settings_put_AreDefaultContextMenusEnabled_macro,
      ICoreWebView2Settings_get_AreHostObjectsAllowed_macro, ICoreWebView2Settings_put_AreHostObjectsAllowed_macro,
      ICoreWebView2Settings_get_IsZoomControlEnabled_macro, ICoreWebView2Settings_put_IsZoomControlEnabled_macro,
      ICoreWebView2Settings_get_IsBuiltInErrorPageEnabled_macro,
      ICoreWebView2Settings_put_IsBuiltInErrorPageEnabled_macro, ICoreWebView2Settings2_get_UserAgent_macro,
      ICoreWebView2Settings2_put_UserAgent_macro, ICoreWebView2Settings3_get_AreBrowserAcceleratorKeysEnabled_macro,
      ICoreWebView2Settings3_put_AreBrowserAcceleratorKeysEnabled_macro,
      ICoreWebView2Settings4_get_IsPasswordAutosaveEnabled_macro,
      ICoreWebView2Settings4_put_IsPasswordAutosaveEnabled_macro,
      ICoreWebView2Settings4_get_IsGeneralAutofillEnabled_macro,
      ICoreWebView2Settings4_put_IsGeneralAutofillEnabled_macro, ICoreWebView2Settings5_get_IsPinchZoomEnabled_macro,
      ICoreWebView2Settings5_put_IsPinchZoomEnabled_macro]"

definition ICoreWebView2Settings6_macros :: "cmacro list" where
  "ICoreWebView2Settings6_macros =
     [IUnknown_QueryInterface_macro, IUnknown_AddRef_macro, IUnknown_Release_macro,
      ICoreWebView2Settings_get_IsScriptEnabled_macro, ICoreWebView2Settings_put_IsScriptEnabled_macro,
      ICoreWebView2Settings_get_IsWebMessageEnabled_macro, ICoreWebView2Settings_put_IsWebMessageEnabled_macro,
      ICoreWebView2Settings_get_AreDefaultScriptDialogsEnabled_macro,
      ICoreWebView2Settings_put_AreDefaultScriptDialogsEnabled_macro,
      ICoreWebView2Settings_get_IsStatusBarEnabled_macro, ICoreWebView2Settings_put_IsStatusBarEnabled_macro,
      ICoreWebView2Settings_get_AreDevToolsEnabled_macro, ICoreWebView2Settings_put_AreDevToolsEnabled_macro,
      ICoreWebView2Settings_get_AreDefaultContextMenusEnabled_macro,
      ICoreWebView2Settings_put_AreDefaultContextMenusEnabled_macro,
      ICoreWebView2Settings_get_AreHostObjectsAllowed_macro, ICoreWebView2Settings_put_AreHostObjectsAllowed_macro,
      ICoreWebView2Settings_get_IsZoomControlEnabled_macro, ICoreWebView2Settings_put_IsZoomControlEnabled_macro,
      ICoreWebView2Settings_get_IsBuiltInErrorPageEnabled_macro,
      ICoreWebView2Settings_put_IsBuiltInErrorPageEnabled_macro, ICoreWebView2Settings2_get_UserAgent_macro,
      ICoreWebView2Settings2_put_UserAgent_macro, ICoreWebView2Settings3_get_AreBrowserAcceleratorKeysEnabled_macro,
      ICoreWebView2Settings3_put_AreBrowserAcceleratorKeysEnabled_macro,
      ICoreWebView2Settings4_get_IsPasswordAutosaveEnabled_macro,
      ICoreWebView2Settings4_put_IsPasswordAutosaveEnabled_macro,
      ICoreWebView2Settings4_get_IsGeneralAutofillEnabled_macro,
      ICoreWebView2Settings4_put_IsGeneralAutofillEnabled_macro, ICoreWebView2Settings5_get_IsPinchZoomEnabled_macro,
      ICoreWebView2Settings5_put_IsPinchZoomEnabled_macro, ICoreWebView2Settings6_get_IsSwipeNavigationEnabled_macro,
      ICoreWebView2Settings6_put_IsSwipeNavigationEnabled_macro]"

definition ICoreWebView2Settings7_macros :: "cmacro list" where
  "ICoreWebView2Settings7_macros =
     [IUnknown_QueryInterface_macro, IUnknown_AddRef_macro, IUnknown_Release_macro,
      ICoreWebView2Settings_get_IsScriptEnabled_macro, ICoreWebView2Settings_put_IsScriptEnabled_macro,
      ICoreWebView2Settings_get_IsWebMessageEnabled_macro, ICoreWebView2Settings_put_IsWebMessageEnabled_macro,
      ICoreWebView2Settings_get_AreDefaultScriptDialogsEnabled_macro,
      ICoreWebView2Settings_put_AreDefaultScriptDialogsEnabled_macro,
      ICoreWebView2Settings_get_IsStatusBarEnabled_macro, ICoreWebView2Settings_put_IsStatusBarEnabled_macro,
      ICoreWebView2Settings_get_AreDevToolsEnabled_macro, ICoreWebView2Settings_put_AreDevToolsEnabled_macro,
      ICoreWebView2Settings_get_AreDefaultContextMenusEnabled_macro,
      ICoreWebView2Settings_put_AreDefaultContextMenusEnabled_macro,
      ICoreWebView2Settings_get_AreHostObjectsAllowed_macro, ICoreWebView2Settings_put_AreHostObjectsAllowed_macro,
      ICoreWebView2Settings_get_IsZoomControlEnabled_macro, ICoreWebView2Settings_put_IsZoomControlEnabled_macro,
      ICoreWebView2Settings_get_IsBuiltInErrorPageEnabled_macro,
      ICoreWebView2Settings_put_IsBuiltInErrorPageEnabled_macro, ICoreWebView2Settings2_get_UserAgent_macro,
      ICoreWebView2Settings2_put_UserAgent_macro, ICoreWebView2Settings3_get_AreBrowserAcceleratorKeysEnabled_macro,
      ICoreWebView2Settings3_put_AreBrowserAcceleratorKeysEnabled_macro,
      ICoreWebView2Settings4_get_IsPasswordAutosaveEnabled_macro,
      ICoreWebView2Settings4_put_IsPasswordAutosaveEnabled_macro,
      ICoreWebView2Settings4_get_IsGeneralAutofillEnabled_macro,
      ICoreWebView2Settings4_put_IsGeneralAutofillEnabled_macro, ICoreWebView2Settings5_get_IsPinchZoomEnabled_macro,
      ICoreWebView2Settings5_put_IsPinchZoomEnabled_macro, ICoreWebView2Settings6_get_IsSwipeNavigationEnabled_macro,
      ICoreWebView2Settings6_put_IsSwipeNavigationEnabled_macro,
      ICoreWebView2Settings7_get_HiddenPdfToolbarItems_macro, ICoreWebView2Settings7_put_HiddenPdfToolbarItems_macro]"

definition ICoreWebView2Settings8_macros :: "cmacro list" where
  "ICoreWebView2Settings8_macros =
     [IUnknown_QueryInterface_macro,
      IUnknown_AddRef_macro,
      IUnknown_Release_macro,
      ICoreWebView2Settings_get_IsScriptEnabled_macro,
      ICoreWebView2Settings_put_IsScriptEnabled_macro,
      ICoreWebView2Settings_get_IsWebMessageEnabled_macro,
      ICoreWebView2Settings_put_IsWebMessageEnabled_macro,
      ICoreWebView2Settings_get_AreDefaultScriptDialogsEnabled_macro,
      ICoreWebView2Settings_put_AreDefaultScriptDialogsEnabled_macro,
      ICoreWebView2Settings_get_IsStatusBarEnabled_macro,
      ICoreWebView2Settings_put_IsStatusBarEnabled_macro,
      ICoreWebView2Settings_get_AreDevToolsEnabled_macro,
      ICoreWebView2Settings_put_AreDevToolsEnabled_macro,
      ICoreWebView2Settings_get_AreDefaultContextMenusEnabled_macro,
      ICoreWebView2Settings_put_AreDefaultContextMenusEnabled_macro,
      ICoreWebView2Settings_get_AreHostObjectsAllowed_macro,
      ICoreWebView2Settings_put_AreHostObjectsAllowed_macro,
      ICoreWebView2Settings_get_IsZoomControlEnabled_macro,
      ICoreWebView2Settings_put_IsZoomControlEnabled_macro,
      ICoreWebView2Settings_get_IsBuiltInErrorPageEnabled_macro,
      ICoreWebView2Settings_put_IsBuiltInErrorPageEnabled_macro,
      ICoreWebView2Settings2_get_UserAgent_macro,
      ICoreWebView2Settings2_put_UserAgent_macro,
      ICoreWebView2Settings3_get_AreBrowserAcceleratorKeysEnabled_macro,
      ICoreWebView2Settings3_put_AreBrowserAcceleratorKeysEnabled_macro,
      ICoreWebView2Settings4_get_IsPasswordAutosaveEnabled_macro,
      ICoreWebView2Settings4_put_IsPasswordAutosaveEnabled_macro,
      ICoreWebView2Settings4_get_IsGeneralAutofillEnabled_macro,
      ICoreWebView2Settings4_put_IsGeneralAutofillEnabled_macro,
      ICoreWebView2Settings5_get_IsPinchZoomEnabled_macro,
      ICoreWebView2Settings5_put_IsPinchZoomEnabled_macro,
      ICoreWebView2Settings6_get_IsSwipeNavigationEnabled_macro,
      ICoreWebView2Settings6_put_IsSwipeNavigationEnabled_macro,
      ICoreWebView2Settings7_get_HiddenPdfToolbarItems_macro,
      ICoreWebView2Settings7_put_HiddenPdfToolbarItems_macro,
      Macro ''get_IsReputationCheckingRequired'' [''value''] ''get_IsReputationCheckingRequired'' [''value''],
      Macro ''put_IsReputationCheckingRequired'' [''value''] ''put_IsReputationCheckingRequired'' [''value'']]"

definition ICoreWebView2SharedBuffer_macros :: "cmacro list" where
  "ICoreWebView2SharedBuffer_macros =
     [IUnknown_QueryInterface_macro,
      IUnknown_AddRef_macro,
      IUnknown_Release_macro,
      Macro ''get_Size'' [''value''] ''get_Size'' [''value''],
      Macro ''get_Buffer'' [''value''] ''get_Buffer'' [''value''],
      Macro ''OpenStream'' [''value''] ''OpenStream'' [''value''],
      Macro ''get_FileMappingHandle'' [''value''] ''get_FileMappingHandle'' [''value''],
      Macro ''Close'' [] ''Close'' []]"

definition ICoreWebView2ProcessInfo_macros :: "cmacro list" where
  "ICoreWebView2ProcessInfo_macros =
     [IUnknown_QueryInterface_macro,
      IUnknown_AddRef_macro,
      IUnknown_Release_macro,
      Macro ''get_ProcessId'' [''value''] ''get_ProcessId'' [''value''],
      Macro ''get_Kind'' [''kind''] ''get_Kind'' [''kind'']]"

definition ICoreWebView2ProcessInfoCollection_macros :: "cmacro list" where
  "ICoreWebView2ProcessInfoCollection_macros =
     [IUnknown_QueryInterface_macro,
      IUnknown_AddRef_macro,
      IUnknown_Release_macro,
      Macro ''get_Count'' [''count''] ''get_Count'' [''count''],
      Macro ''GetValueAtIndex'' [''index'', ''processInfo''] ''GetValueAtIndex'' [''index'', ''processInfo'']]"

section \<open>The macros follow the tables\<close>

lemma ICoreWebView2CompositionController_calls:
  "map macro_of
     [ICoreWebView2CompositionController_get_RootVisualTarget,
      ICoreWebView2CompositionController_put_RootVisualTarget, ICoreWebView2CompositionController_SendMouseInput,
      ICoreWebView2CompositionController_SendPointerInput, ICoreWebView2CompositionController_get_Cursor,
      ICoreWebView2CompositionController_get_SystemCursorId, ICoreWebView2CompositionController_add_CursorChanged,
      ICoreWebView2CompositionController_remove_CursorChanged]
   =
     [ICoreWebView2CompositionController_get_RootVisualTarget_macro,
      ICoreWebView2CompositionController_put_RootVisualTarget_macro,
      ICoreWebView2CompositionController_SendMouseInput_macro,
      ICoreWebView2CompositionController_SendPointerInput_macro, ICoreWebView2CompositionController_get_Cursor_macro,
      ICoreWebView2CompositionController_get_SystemCursorId_macro,
      ICoreWebView2CompositionController_add_CursorChanged_macro,
      ICoreWebView2CompositionController_remove_CursorChanged_macro]"
  by code_simp

lemma ICoreWebView2CompositionController2_calls:
  "map macro_of
     [ICoreWebView2CompositionController2_get_AutomationProvider]
   =
     [ICoreWebView2CompositionController2_get_AutomationProvider_macro]"
  by code_simp

lemma ICoreWebView2CompositionController3_calls:
  "map macro_of
     [Method ''HRESULT'' ''DragEnter'' [''IDataObject *dataObject'', ''DWORD keyState'', ''POINT point'', ''DWORD *effect''],
      Method ''HRESULT'' ''DragLeave'' [],
      Method ''HRESULT'' ''DragOver'' [''DWORD keyState'', ''POINT point'', ''DWORD *effect''],
      Method ''HRESULT'' ''Drop'' [''IDataObject *dataObject'', ''DWORD keyState'', ''POINT point'', ''DWORD *effect'']]
   =
     [Macro ''DragEnter'' [''dataObject'', ''keyState'', ''point'', ''effect''] ''DragEnter'' [''dataObject'', ''keyState'', ''point'', ''effect''],
      Macro ''DragLeave'' [] ''DragLeave'' [],
      Macro ''DragOver'' [''keyState'', ''point'', ''effect''] ''DragOver'' [''keyState'', ''point'', ''effect''],
      Macro ''Drop'' [''dataObject'', ''keyState'', ''point'', ''effect''] ''Drop'' [''dataObject'', ''keyState'', ''point'', ''effect'']]"
  by code_simp

lemma ICoreWebView2Controller_calls:
  "map macro_of
     [ICoreWebView2Controller_get_IsVisible, ICoreWebView2Controller_put_IsVisible,
      ICoreWebView2Controller_get_Bounds, ICoreWebView2Controller_put_Bounds, ICoreWebView2Controller_get_ZoomFactor,
      ICoreWebView2Controller_put_ZoomFactor, ICoreWebView2Controller_add_ZoomFactorChanged,
      ICoreWebView2Controller_remove_ZoomFactorChanged, ICoreWebView2Controller_SetBoundsAndZoomFactor,
      ICoreWebView2Controller_MoveFocus, ICoreWebView2Controller_add_MoveFocusRequested,
      ICoreWebView2Controller_remove_MoveFocusRequested, ICoreWebView2Controller_add_GotFocus,
      ICoreWebView2Controller_remove_GotFocus, ICoreWebView2Controller_add_LostFocus,
      ICoreWebView2Controller_remove_LostFocus, ICoreWebView2Controller_add_AcceleratorKeyPressed,
      ICoreWebView2Controller_remove_AcceleratorKeyPressed, ICoreWebView2Controller_get_ParentWindow,
      ICoreWebView2Controller_put_ParentWindow, ICoreWebView2Controller_NotifyParentWindowPositionChanged,
      ICoreWebView2Controller_Close, ICoreWebView2Controller_get_CoreWebView2]
   =
     [ICoreWebView2Controller_get_IsVisible_macro, ICoreWebView2Controller_put_IsVisible_macro,
      ICoreWebView2Controller_get_Bounds_macro, ICoreWebView2Controller_put_Bounds_macro,
      ICoreWebView2Controller_get_ZoomFactor_macro, ICoreWebView2Controller_put_ZoomFactor_macro,
      ICoreWebView2Controller_add_ZoomFactorChanged_macro, ICoreWebView2Controller_remove_ZoomFactorChanged_macro,
      ICoreWebView2Controller_SetBoundsAndZoomFactor_macro, ICoreWebView2Controller_MoveFocus_macro,
      ICoreWebView2Controller_add_MoveFocusRequested_macro, ICoreWebView2Controller_remove_MoveFocusRequested_macro,
      ICoreWebView2Controller_add_GotFocus_macro, ICoreWebView2Controller_remove_GotFocus_macro,
      ICoreWebView2Controller_add_LostFocus_macro, ICoreWebView2Controller_remove_LostFocus_macro,
      ICoreWebView2Controller_add_AcceleratorKeyPressed_macro,
      ICoreWebView2Controller_remove_AcceleratorKeyPressed_macro, ICoreWebView2Controller_get_ParentWindow_macro,
      ICoreWebView2Controller_put_ParentWindow_macro,
      ICoreWebView2Controller_NotifyParentWindowPositionChanged_macro, ICoreWebView2Controller_Close_macro,
      ICoreWebView2Controller_get_CoreWebView2_macro]"
  by code_simp

lemma ICoreWebView2Controller2_calls:
  "map macro_of
     [ICoreWebView2Controller2_get_DefaultBackgroundColor, ICoreWebView2Controller2_put_DefaultBackgroundColor]
   =
     [ICoreWebView2Controller2_get_DefaultBackgroundColor_macro,
      ICoreWebView2Controller2_put_DefaultBackgroundColor_macro]"
  by code_simp

lemma ICoreWebView2Controller3_calls:
  "map macro_of
     [ICoreWebView2Controller3_get_RasterizationScale, ICoreWebView2Controller3_put_RasterizationScale,
      ICoreWebView2Controller3_get_ShouldDetectMonitorScaleChanges,
      ICoreWebView2Controller3_put_ShouldDetectMonitorScaleChanges,
      ICoreWebView2Controller3_add_RasterizationScaleChanged,
      ICoreWebView2Controller3_remove_RasterizationScaleChanged, ICoreWebView2Controller3_get_BoundsMode,
      ICoreWebView2Controller3_put_BoundsMode]
   =
     [ICoreWebView2Controller3_get_RasterizationScale_macro, ICoreWebView2Controller3_put_RasterizationScale_macro,
      ICoreWebView2Controller3_get_ShouldDetectMonitorScaleChanges_macro,
      ICoreWebView2Controller3_put_ShouldDetectMonitorScaleChanges_macro,
      ICoreWebView2Controller3_add_RasterizationScaleChanged_macro,
      ICoreWebView2Controller3_remove_RasterizationScaleChanged_macro, ICoreWebView2Controller3_get_BoundsMode_macro,
      ICoreWebView2Controller3_put_BoundsMode_macro]"
  by code_simp

lemma ICoreWebView2Controller4_calls:
  "map macro_of
     [Method ''HRESULT'' ''get_AllowExternalDrop'' [''BOOL *value''],
      Method ''HRESULT'' ''put_AllowExternalDrop'' [''BOOL value'']]
   =
     [Macro ''get_AllowExternalDrop'' [''value''] ''get_AllowExternalDrop'' [''value''],
      Macro ''put_AllowExternalDrop'' [''value''] ''put_AllowExternalDrop'' [''value'']]"
  by code_simp

lemma ICoreWebView2ControllerOptions_calls:
  "map macro_of
     [ICoreWebView2ControllerOptions_get_ProfileName, ICoreWebView2ControllerOptions_put_ProfileName,
      ICoreWebView2ControllerOptions_get_IsInPrivateModeEnabled,
      ICoreWebView2ControllerOptions_put_IsInPrivateModeEnabled]
   =
     [ICoreWebView2ControllerOptions_get_ProfileName_macro, ICoreWebView2ControllerOptions_put_ProfileName_macro,
      ICoreWebView2ControllerOptions_get_IsInPrivateModeEnabled_macro,
      ICoreWebView2ControllerOptions_put_IsInPrivateModeEnabled_macro]"
  by code_simp

lemma ICoreWebView2ControllerOptions2_calls:
  "map macro_of
     [Method ''HRESULT'' ''get_ScriptLocale'' [''LPWSTR *locale''],
      Method ''HRESULT'' ''put_ScriptLocale'' [''LPCWSTR locale'']]
   =
     [Macro ''get_ScriptLocale'' [''locale''] ''get_ScriptLocale'' [''locale''],
      Macro ''put_ScriptLocale'' [''locale''] ''put_ScriptLocale'' [''locale'']]"
  by code_simp

lemma ICoreWebView2CookieManager_calls:
  "map macro_of
     [Method ''HRESULT'' ''CreateCookie'' [''LPCWSTR name'', ''LPCWSTR value'', ''LPCWSTR domain'', ''LPCWSTR path'', ''ICoreWebView2Cookie **cookie''],
      Method ''HRESULT'' ''CopyCookie'' [''ICoreWebView2Cookie *cookieParam'', ''ICoreWebView2Cookie **cookie''],
      Method ''HRESULT'' ''GetCookies'' [''LPCWSTR uri'', ''ICoreWebView2GetCookiesCompletedHandler *handler''],
      Method ''HRESULT'' ''AddOrUpdateCookie'' [''ICoreWebView2Cookie *cookie''],
      Method ''HRESULT'' ''DeleteCookie'' [''ICoreWebView2Cookie *cookie''],
      Method ''HRESULT'' ''DeleteCookies'' [''LPCWSTR name'', ''LPCWSTR uri''],
      Method ''HRESULT'' ''DeleteCookiesWithDomainAndPath'' [''LPCWSTR name'', ''LPCWSTR domain'', ''LPCWSTR path''],
      Method ''HRESULT'' ''DeleteAllCookies'' []]
   =
     [Macro ''CreateCookie'' [''name'', ''value'', ''domain'', ''path'', ''cookie''] ''CreateCookie'' [''name'', ''value'', ''domain'', ''path'', ''cookie''],
      Macro ''CopyCookie'' [''cookieParam'', ''cookie''] ''CopyCookie'' [''cookieParam'', ''cookie''],
      Macro ''GetCookies'' [''uri'', ''handler''] ''GetCookies'' [''uri'', ''handler''],
      Macro ''AddOrUpdateCookie'' [''cookie''] ''AddOrUpdateCookie'' [''cookie''],
      Macro ''DeleteCookie'' [''cookie''] ''DeleteCookie'' [''cookie''],
      Macro ''DeleteCookies'' [''name'', ''uri''] ''DeleteCookies'' [''name'', ''uri''],
      Macro ''DeleteCookiesWithDomainAndPath'' [''name'', ''domain'', ''path''] ''DeleteCookiesWithDomainAndPath'' [''name'', ''domain'', ''path''],
      Macro ''DeleteAllCookies'' [] ''DeleteAllCookies'' []]"
  by code_simp

lemma ICoreWebView2DownloadOperation_calls:
  "map macro_of
     [Method ''HRESULT'' ''add_BytesReceivedChanged'' [''ICoreWebView2BytesReceivedChangedEventHandler *eventHandler'', ''EventRegistrationToken *token''],
      Method ''HRESULT'' ''remove_BytesReceivedChanged'' [''EventRegistrationToken token''],
      Method ''HRESULT'' ''add_EstimatedEndTimeChanged'' [''ICoreWebView2EstimatedEndTimeChangedEventHandler *eventHandler'', ''EventRegistrationToken *token''],
      Method ''HRESULT'' ''remove_EstimatedEndTimeChanged'' [''EventRegistrationToken token''],
      Method ''HRESULT'' ''add_StateChanged'' [''ICoreWebView2StateChangedEventHandler *eventHandler'', ''EventRegistrationToken *token''],
      Method ''HRESULT'' ''remove_StateChanged'' [''EventRegistrationToken token''],
      Method ''HRESULT'' ''get_Uri'' [''LPWSTR *uri''],
      Method ''HRESULT'' ''get_ContentDisposition'' [''LPWSTR *contentDisposition''],
      Method ''HRESULT'' ''get_MimeType'' [''LPWSTR *mimeType''],
      Method ''HRESULT'' ''get_TotalBytesToReceive'' [''INT64 *totalBytesToReceive''],
      Method ''HRESULT'' ''get_BytesReceived'' [''INT64 *bytesReceived''],
      Method ''HRESULT'' ''get_EstimatedEndTime'' [''LPWSTR *estimatedEndTime''],
      Method ''HRESULT'' ''get_ResultFilePath'' [''LPWSTR *resultFilePath''],
      Method ''HRESULT'' ''get_State'' [''COREWEBVIEW2_DOWNLOAD_STATE *downloadState''],
      Method ''HRESULT'' ''get_InterruptReason'' [''COREWEBVIEW2_DOWNLOAD_INTERRUPT_REASON *interruptReason''],
      Method ''HRESULT'' ''Cancel'' [],
      Method ''HRESULT'' ''Pause'' [],
      Method ''HRESULT'' ''Resume'' [],
      Method ''HRESULT'' ''get_CanResume'' [''BOOL *canResume'']]
   =
     [Macro ''add_BytesReceivedChanged'' [''eventHandler'', ''token''] ''add_BytesReceivedChanged'' [''eventHandler'', ''token''],
      Macro ''remove_BytesReceivedChanged'' [''token''] ''remove_BytesReceivedChanged'' [''token''],
      Macro ''add_EstimatedEndTimeChanged'' [''eventHandler'', ''token''] ''add_EstimatedEndTimeChanged'' [''eventHandler'', ''token''],
      Macro ''remove_EstimatedEndTimeChanged'' [''token''] ''remove_EstimatedEndTimeChanged'' [''token''],
      Macro ''add_StateChanged'' [''eventHandler'', ''token''] ''add_StateChanged'' [''eventHandler'', ''token''],
      Macro ''remove_StateChanged'' [''token''] ''remove_StateChanged'' [''token''],
      Macro ''get_Uri'' [''uri''] ''get_Uri'' [''uri''],
      Macro ''get_ContentDisposition'' [''contentDisposition''] ''get_ContentDisposition'' [''contentDisposition''],
      Macro ''get_MimeType'' [''mimeType''] ''get_MimeType'' [''mimeType''],
      Macro ''get_TotalBytesToReceive'' [''totalBytesToReceive''] ''get_TotalBytesToReceive'' [''totalBytesToReceive''],
      Macro ''get_BytesReceived'' [''bytesReceived''] ''get_BytesReceived'' [''bytesReceived''],
      Macro ''get_EstimatedEndTime'' [''estimatedEndTime''] ''get_EstimatedEndTime'' [''estimatedEndTime''],
      Macro ''get_ResultFilePath'' [''resultFilePath''] ''get_ResultFilePath'' [''resultFilePath''],
      Macro ''get_State'' [''downloadState''] ''get_State'' [''downloadState''],
      Macro ''get_InterruptReason'' [''interruptReason''] ''get_InterruptReason'' [''interruptReason''],
      Macro ''Cancel'' [] ''Cancel'' [],
      Macro ''Pause'' [] ''Pause'' [],
      Macro ''Resume'' [] ''Resume'' [],
      Macro ''get_CanResume'' [''canResume''] ''get_CanResume'' [''canResume'']]"
  by code_simp

lemma ICoreWebView2Environment_calls:
  "map macro_of
     [ICoreWebView2Environment_CreateCoreWebView2Controller, ICoreWebView2Environment_CreateWebResourceResponse,
      ICoreWebView2Environment_get_BrowserVersionString, ICoreWebView2Environment_add_NewBrowserVersionAvailable,
      ICoreWebView2Environment_remove_NewBrowserVersionAvailable]
   =
     [ICoreWebView2Environment_CreateCoreWebView2Controller_macro,
      ICoreWebView2Environment_CreateWebResourceResponse_macro,
      ICoreWebView2Environment_get_BrowserVersionString_macro,
      ICoreWebView2Environment_add_NewBrowserVersionAvailable_macro,
      ICoreWebView2Environment_remove_NewBrowserVersionAvailable_macro]"
  by code_simp

lemma ICoreWebView2Environment2_calls:
  "map macro_of
     [ICoreWebView2Environment2_CreateWebResourceRequest]
   =
     [ICoreWebView2Environment2_CreateWebResourceRequest_macro]"
  by code_simp

lemma ICoreWebView2Environment3_calls:
  "map macro_of
     [ICoreWebView2Environment3_CreateCoreWebView2CompositionController,
      ICoreWebView2Environment3_CreateCoreWebView2PointerInfo]
   =
     [ICoreWebView2Environment3_CreateCoreWebView2CompositionController_macro,
      ICoreWebView2Environment3_CreateCoreWebView2PointerInfo_macro]"
  by code_simp

lemma ICoreWebView2Environment4_calls:
  "map macro_of
     [ICoreWebView2Environment4_GetAutomationProviderForWindow]
   =
     [ICoreWebView2Environment4_GetAutomationProviderForWindow_macro]"
  by code_simp

lemma ICoreWebView2Environment5_calls:
  "map macro_of
     [ICoreWebView2Environment5_add_BrowserProcessExited, ICoreWebView2Environment5_remove_BrowserProcessExited]
   =
     [ICoreWebView2Environment5_add_BrowserProcessExited_macro,
      ICoreWebView2Environment5_remove_BrowserProcessExited_macro]"
  by code_simp

lemma ICoreWebView2Environment6_calls:
  "map macro_of
     [ICoreWebView2Environment6_CreatePrintSettings]
   =
     [ICoreWebView2Environment6_CreatePrintSettings_macro]"
  by code_simp

lemma ICoreWebView2Environment7_calls:
  "map macro_of
     [ICoreWebView2Environment7_get_UserDataFolder]
   =
     [ICoreWebView2Environment7_get_UserDataFolder_macro]"
  by code_simp

lemma ICoreWebView2Environment8_calls:
  "map macro_of
     [ICoreWebView2Environment8_add_ProcessInfosChanged, ICoreWebView2Environment8_remove_ProcessInfosChanged,
      ICoreWebView2Environment8_GetProcessInfos]
   =
     [ICoreWebView2Environment8_add_ProcessInfosChanged_macro,
      ICoreWebView2Environment8_remove_ProcessInfosChanged_macro, ICoreWebView2Environment8_GetProcessInfos_macro]"
  by code_simp

lemma ICoreWebView2Environment9_calls:
  "map macro_of
     [ICoreWebView2Environment9_CreateContextMenuItem]
   =
     [ICoreWebView2Environment9_CreateContextMenuItem_macro]"
  by code_simp

lemma ICoreWebView2Environment10_calls:
  "map macro_of
     [ICoreWebView2Environment10_CreateCoreWebView2ControllerOptions,
      ICoreWebView2Environment10_CreateCoreWebView2ControllerWithOptions,
      ICoreWebView2Environment10_CreateCoreWebView2CompositionControllerWithOptions]
   =
     [ICoreWebView2Environment10_CreateCoreWebView2ControllerOptions_macro,
      ICoreWebView2Environment10_CreateCoreWebView2ControllerWithOptions_macro,
      ICoreWebView2Environment10_CreateCoreWebView2CompositionControllerWithOptions_macro]"
  by code_simp

lemma ICoreWebView2Environment11_calls:
  "map macro_of
     [ICoreWebView2Environment11_get_FailureReportFolderPath]
   =
     [ICoreWebView2Environment11_get_FailureReportFolderPath_macro]"
  by code_simp

lemma ICoreWebView2Environment12_calls:
  "map macro_of
     [ICoreWebView2Environment12_CreateSharedBuffer]
   =
     [ICoreWebView2Environment12_CreateSharedBuffer_macro]"
  by code_simp

lemma ICoreWebView2Environment13_calls:
  "map macro_of
     [Method ''HRESULT'' ''GetProcessExtendedInfos'' [''ICoreWebView2GetProcessExtendedInfosCompletedHandler *handler'']]
   =
     [Macro ''GetProcessExtendedInfos'' [''handler''] ''GetProcessExtendedInfos'' [''handler'']]"
  by code_simp

lemma ICoreWebView2EnvironmentOptions_calls:
  "map macro_of
     [Method ''HRESULT'' ''get_AdditionalBrowserArguments'' [''LPWSTR *value''],
      Method ''HRESULT'' ''put_AdditionalBrowserArguments'' [''LPCWSTR value''],
      Method ''HRESULT'' ''get_Language'' [''LPWSTR *value''],
      Method ''HRESULT'' ''put_Language'' [''LPCWSTR value''],
      Method ''HRESULT'' ''get_TargetCompatibleBrowserVersion'' [''LPWSTR *value''],
      Method ''HRESULT'' ''put_TargetCompatibleBrowserVersion'' [''LPCWSTR value''],
      Method ''HRESULT'' ''get_AllowSingleSignOnUsingOSPrimaryAccount'' [''BOOL *allow''],
      Method ''HRESULT'' ''put_AllowSingleSignOnUsingOSPrimaryAccount'' [''BOOL allow'']]
   =
     [Macro ''get_AdditionalBrowserArguments'' [''value''] ''get_AdditionalBrowserArguments'' [''value''],
      Macro ''put_AdditionalBrowserArguments'' [''value''] ''put_AdditionalBrowserArguments'' [''value''],
      Macro ''get_Language'' [''value''] ''get_Language'' [''value''],
      Macro ''put_Language'' [''value''] ''put_Language'' [''value''],
      Macro ''get_TargetCompatibleBrowserVersion'' [''value''] ''get_TargetCompatibleBrowserVersion'' [''value''],
      Macro ''put_TargetCompatibleBrowserVersion'' [''value''] ''put_TargetCompatibleBrowserVersion'' [''value''],
      Macro ''get_AllowSingleSignOnUsingOSPrimaryAccount'' [''allow''] ''get_AllowSingleSignOnUsingOSPrimaryAccount'' [''allow''],
      Macro ''put_AllowSingleSignOnUsingOSPrimaryAccount'' [''allow''] ''put_AllowSingleSignOnUsingOSPrimaryAccount'' [''allow'']]"
  by code_simp

lemma ICoreWebView2EnvironmentOptions2_calls:
  "map macro_of
     [Method ''HRESULT'' ''get_ExclusiveUserDataFolderAccess'' [''BOOL *value''],
      Method ''HRESULT'' ''put_ExclusiveUserDataFolderAccess'' [''BOOL value'']]
   =
     [Macro ''get_ExclusiveUserDataFolderAccess'' [''value''] ''get_ExclusiveUserDataFolderAccess'' [''value''],
      Macro ''put_ExclusiveUserDataFolderAccess'' [''value''] ''put_ExclusiveUserDataFolderAccess'' [''value'']]"
  by code_simp

lemma ICoreWebView2EnvironmentOptions3_calls:
  "map macro_of
     [Method ''HRESULT'' ''get_IsCustomCrashReportingEnabled'' [''BOOL *value''],
      Method ''HRESULT'' ''put_IsCustomCrashReportingEnabled'' [''BOOL value'']]
   =
     [Macro ''get_IsCustomCrashReportingEnabled'' [''value''] ''get_IsCustomCrashReportingEnabled'' [''value''],
      Macro ''put_IsCustomCrashReportingEnabled'' [''value''] ''put_IsCustomCrashReportingEnabled'' [''value'']]"
  by code_simp

lemma ICoreWebView2EnvironmentOptions4_calls:
  "map macro_of
     [Method ''HRESULT'' ''GetCustomSchemeRegistrations'' [''UINT32 *count'', ''ICoreWebView2CustomSchemeRegistration ***schemeRegistrations''],
      Method ''HRESULT'' ''SetCustomSchemeRegistrations'' [''UINT32 count'', ''ICoreWebView2CustomSchemeRegistration **schemeRegistrations'']]
   =
     [Macro ''GetCustomSchemeRegistrations'' [''count'', ''schemeRegistrations''] ''GetCustomSchemeRegistrations'' [''count'', ''schemeRegistrations''],
      Macro ''SetCustomSchemeRegistrations'' [''count'', ''schemeRegistrations''] ''SetCustomSchemeRegistrations'' [''count'', ''schemeRegistrations'']]"
  by code_simp

lemma ICoreWebView2EnvironmentOptions5_calls:
  "map macro_of
     [Method ''HRESULT'' ''get_EnableTrackingPrevention'' [''BOOL *value''],
      Method ''HRESULT'' ''put_EnableTrackingPrevention'' [''BOOL value'']]
   =
     [Macro ''get_EnableTrackingPrevention'' [''value''] ''get_EnableTrackingPrevention'' [''value''],
      Macro ''put_EnableTrackingPrevention'' [''value''] ''put_EnableTrackingPrevention'' [''value'']]"
  by code_simp

lemma ICoreWebView2EnvironmentOptions6_calls:
  "map macro_of
     [Method ''HRESULT'' ''get_AreBrowserExtensionsEnabled'' [''BOOL *value''],
      Method ''HRESULT'' ''put_AreBrowserExtensionsEnabled'' [''BOOL value'']]
   =
     [Macro ''get_AreBrowserExtensionsEnabled'' [''value''] ''get_AreBrowserExtensionsEnabled'' [''value''],
      Macro ''put_AreBrowserExtensionsEnabled'' [''value''] ''put_AreBrowserExtensionsEnabled'' [''value'']]"
  by code_simp

lemma ICoreWebView2ProcessExtendedInfo_calls:
  "map macro_of
     [Method ''HRESULT'' ''get_ProcessInfo'' [''ICoreWebView2ProcessInfo **processInfo''],
      Method ''HRESULT'' ''get_AssociatedFrameInfos'' [''ICoreWebView2FrameInfoCollection **frames'']]
   =
     [Macro ''get_ProcessInfo'' [''processInfo''] ''get_ProcessInfo'' [''processInfo''],
      Macro ''get_AssociatedFrameInfos'' [''frames''] ''get_AssociatedFrameInfos'' [''frames'']]"
  by code_simp

lemma ICoreWebView2ProcessExtendedInfoCollection_calls:
  "map macro_of
     [Method ''HRESULT'' ''get_Count'' [''UINT *count''],
      Method ''HRESULT'' ''GetValueAtIndex'' [''UINT32 index'', ''ICoreWebView2ProcessExtendedInfo **processInfo'']]
   =
     [Macro ''get_Count'' [''count''] ''get_Count'' [''count''],
      Macro ''GetValueAtIndex'' [''index'', ''processInfo''] ''GetValueAtIndex'' [''index'', ''processInfo'']]"
  by code_simp

lemma ICoreWebView2Frame_calls:
  "map macro_of
     [ICoreWebView2Frame_get_Name, ICoreWebView2Frame_add_NameChanged, ICoreWebView2Frame_remove_NameChanged,
      ICoreWebView2Frame_AddHostObjectToScriptWithOrigins, ICoreWebView2Frame_RemoveHostObjectFromScript,
      ICoreWebView2Frame_add_Destroyed, ICoreWebView2Frame_remove_Destroyed, ICoreWebView2Frame_IsDestroyed]
   =
     [ICoreWebView2Frame_get_Name_macro, ICoreWebView2Frame_add_NameChanged_macro,
      ICoreWebView2Frame_remove_NameChanged_macro, ICoreWebView2Frame_AddHostObjectToScriptWithOrigins_macro,
      ICoreWebView2Frame_RemoveHostObjectFromScript_macro, ICoreWebView2Frame_add_Destroyed_macro,
      ICoreWebView2Frame_remove_Destroyed_macro, ICoreWebView2Frame_IsDestroyed_macro]"
  by code_simp

lemma ICoreWebView2Frame2_calls:
  "map macro_of
     [ICoreWebView2Frame2_add_NavigationStarting, ICoreWebView2Frame2_remove_NavigationStarting,
      ICoreWebView2Frame2_add_ContentLoading, ICoreWebView2Frame2_remove_ContentLoading,
      ICoreWebView2Frame2_add_NavigationCompleted, ICoreWebView2Frame2_remove_NavigationCompleted,
      ICoreWebView2Frame2_add_DOMContentLoaded, ICoreWebView2Frame2_remove_DOMContentLoaded,
      ICoreWebView2Frame2_ExecuteScript, ICoreWebView2Frame2_PostWebMessageAsJson,
      ICoreWebView2Frame2_PostWebMessageAsString, ICoreWebView2Frame2_add_WebMessageReceived,
      ICoreWebView2Frame2_remove_WebMessageReceived]
   =
     [ICoreWebView2Frame2_add_NavigationStarting_macro, ICoreWebView2Frame2_remove_NavigationStarting_macro,
      ICoreWebView2Frame2_add_ContentLoading_macro, ICoreWebView2Frame2_remove_ContentLoading_macro,
      ICoreWebView2Frame2_add_NavigationCompleted_macro, ICoreWebView2Frame2_remove_NavigationCompleted_macro,
      ICoreWebView2Frame2_add_DOMContentLoaded_macro, ICoreWebView2Frame2_remove_DOMContentLoaded_macro,
      ICoreWebView2Frame2_ExecuteScript_macro, ICoreWebView2Frame2_PostWebMessageAsJson_macro,
      ICoreWebView2Frame2_PostWebMessageAsString_macro, ICoreWebView2Frame2_add_WebMessageReceived_macro,
      ICoreWebView2Frame2_remove_WebMessageReceived_macro]"
  by code_simp

lemma ICoreWebView2Frame3_calls:
  "map macro_of
     [ICoreWebView2Frame3_add_PermissionRequested, ICoreWebView2Frame3_remove_PermissionRequested]
   =
     [ICoreWebView2Frame3_add_PermissionRequested_macro, ICoreWebView2Frame3_remove_PermissionRequested_macro]"
  by code_simp

lemma ICoreWebView2Frame4_calls:
  "map macro_of
     [ICoreWebView2Frame4_PostSharedBufferToScript]
   =
     [ICoreWebView2Frame4_PostSharedBufferToScript_macro]"
  by code_simp

lemma ICoreWebView2Frame5_calls:
  "map macro_of
     [Method ''HRESULT'' ''get_FrameId'' [''UINT32 *id'']]
   =
     [Macro ''get_FrameId'' [''id''] ''get_FrameId'' [''id'']]"
  by code_simp

lemma ICoreWebView2FrameInfo_calls:
  "map macro_of
     [ICoreWebView2FrameInfo_get_Name, ICoreWebView2FrameInfo_get_Source]
   =
     [ICoreWebView2FrameInfo_get_Name_macro, ICoreWebView2FrameInfo_get_Source_macro]"
  by code_simp

lemma ICoreWebView2FrameInfo2_calls:
  "map macro_of
     [Method ''HRESULT'' ''get_ParentFrameInfo'' [''ICoreWebView2FrameInfo **frameInfo''],
      Method ''HRESULT'' ''get_FrameId'' [''UINT32 *id''],
      Method ''HRESULT'' ''get_FrameKind'' [''COREWEBVIEW2_FRAME_KIND *kind'']]
   =
     [Macro ''get_ParentFrameInfo'' [''frameInfo''] ''get_ParentFrameInfo'' [''frameInfo''],
      Macro ''get_FrameId'' [''id''] ''get_FrameId'' [''id''],
      Macro ''get_FrameKind'' [''kind''] ''get_FrameKind'' [''kind'']]"
  by code_simp

lemma ICoreWebView2FrameInfoCollection_calls:
  "map macro_of
     [Method ''HRESULT'' ''GetIterator'' [''ICoreWebView2FrameInfoCollectionIterator **iterator'']]
   =
     [Macro ''GetIterator'' [''iterator''] ''GetIterator'' [''iterator'']]"
  by code_simp

lemma ICoreWebView2FrameInfoCollectionIterator_calls:
  "map macro_of
     [Method ''HRESULT'' ''get_HasCurrent'' [''BOOL *hasCurrent''],
      Method ''HRESULT'' ''GetCurrent'' [''ICoreWebView2FrameInfo **frameInfo''],
      Method ''HRESULT'' ''MoveNext'' [''BOOL *hasNext'']]
   =
     [Macro ''get_HasCurrent'' [''hasCurrent''] ''get_HasCurrent'' [''hasCurrent''],
      Macro ''GetCurrent'' [''frameInfo''] ''GetCurrent'' [''frameInfo''],
      Macro ''MoveNext'' [''hasNext''] ''MoveNext'' [''hasNext'']]"
  by code_simp

lemma ICoreWebView2Profile_calls:
  "map macro_of
     [ICoreWebView2Profile_get_ProfileName, ICoreWebView2Profile_get_IsInPrivateModeEnabled,
      ICoreWebView2Profile_get_ProfilePath, ICoreWebView2Profile_get_DefaultDownloadFolderPath,
      ICoreWebView2Profile_put_DefaultDownloadFolderPath, ICoreWebView2Profile_get_PreferredColorScheme,
      ICoreWebView2Profile_put_PreferredColorScheme]
   =
     [ICoreWebView2Profile_get_ProfileName_macro, ICoreWebView2Profile_get_IsInPrivateModeEnabled_macro,
      ICoreWebView2Profile_get_ProfilePath_macro, ICoreWebView2Profile_get_DefaultDownloadFolderPath_macro,
      ICoreWebView2Profile_put_DefaultDownloadFolderPath_macro, ICoreWebView2Profile_get_PreferredColorScheme_macro,
      ICoreWebView2Profile_put_PreferredColorScheme_macro]"
  by code_simp

lemma ICoreWebView2Profile2_calls:
  "map macro_of
     [ICoreWebView2Profile2_ClearBrowsingData, ICoreWebView2Profile2_ClearBrowsingDataInTimeRange,
      ICoreWebView2Profile2_ClearBrowsingDataAll]
   =
     [ICoreWebView2Profile2_ClearBrowsingData_macro, ICoreWebView2Profile2_ClearBrowsingDataInTimeRange_macro,
      ICoreWebView2Profile2_ClearBrowsingDataAll_macro]"
  by code_simp

lemma ICoreWebView2Profile3_calls:
  "map macro_of
     [ICoreWebView2Profile3_get_PreferredTrackingPreventionLevel,
      ICoreWebView2Profile3_put_PreferredTrackingPreventionLevel]
   =
     [ICoreWebView2Profile3_get_PreferredTrackingPreventionLevel_macro,
      ICoreWebView2Profile3_put_PreferredTrackingPreventionLevel_macro]"
  by code_simp

lemma ICoreWebView2Profile4_calls:
  "map macro_of
     [ICoreWebView2Profile4_SetPermissionState, ICoreWebView2Profile4_GetNonDefaultPermissionSettings]
   =
     [ICoreWebView2Profile4_SetPermissionState_macro, ICoreWebView2Profile4_GetNonDefaultPermissionSettings_macro]"
  by code_simp

lemma ICoreWebView2Profile5_calls:
  "map macro_of
     [ICoreWebView2Profile5_get_CookieManager]
   =
     [ICoreWebView2Profile5_get_CookieManager_macro]"
  by code_simp

lemma ICoreWebView2Profile6_calls:
  "map macro_of
     [ICoreWebView2Profile6_get_IsPasswordAutosaveEnabled, ICoreWebView2Profile6_put_IsPasswordAutosaveEnabled,
      ICoreWebView2Profile6_get_IsGeneralAutofillEnabled, ICoreWebView2Profile6_put_IsGeneralAutofillEnabled]
   =
     [ICoreWebView2Profile6_get_IsPasswordAutosaveEnabled_macro,
      ICoreWebView2Profile6_put_IsPasswordAutosaveEnabled_macro,
      ICoreWebView2Profile6_get_IsGeneralAutofillEnabled_macro,
      ICoreWebView2Profile6_put_IsGeneralAutofillEnabled_macro]"
  by code_simp

lemma ICoreWebView2Profile7_calls:
  "map macro_of
     [ICoreWebView2Profile7_AddBrowserExtension, ICoreWebView2Profile7_GetBrowserExtensions]
   =
     [ICoreWebView2Profile7_AddBrowserExtension_macro, ICoreWebView2Profile7_GetBrowserExtensions_macro]"
  by code_simp

lemma ICoreWebView2Profile8_calls:
  "map macro_of
     [Method ''HRESULT'' ''Delete'' [],
      Method ''HRESULT'' ''add_Deleted'' [''ICoreWebView2ProfileDeletedEventHandler *eventHandler'', ''EventRegistrationToken *token''],
      Method ''HRESULT'' ''remove_Deleted'' [''EventRegistrationToken token'']]
   =
     [Macro ''Delete'' [] ''Delete'' [],
      Macro ''add_Deleted'' [''eventHandler'', ''token''] ''add_Deleted'' [''eventHandler'', ''token''],
      Macro ''remove_Deleted'' [''token''] ''remove_Deleted'' [''token'']]"
  by code_simp

lemma ICoreWebView2Settings_calls:
  "map macro_of
     [ICoreWebView2Settings_get_IsScriptEnabled, ICoreWebView2Settings_put_IsScriptEnabled,
      ICoreWebView2Settings_get_IsWebMessageEnabled, ICoreWebView2Settings_put_IsWebMessageEnabled,
      ICoreWebView2Settings_get_AreDefaultScriptDialogsEnabled,
      ICoreWebView2Settings_put_AreDefaultScriptDialogsEnabled, ICoreWebView2Settings_get_IsStatusBarEnabled,
      ICoreWebView2Settings_put_IsStatusBarEnabled, ICoreWebView2Settings_get_AreDevToolsEnabled,
      ICoreWebView2Settings_put_AreDevToolsEnabled, ICoreWebView2Settings_get_AreDefaultContextMenusEnabled,
      ICoreWebView2Settings_put_AreDefaultContextMenusEnabled, ICoreWebView2Settings_get_AreHostObjectsAllowed,
      ICoreWebView2Settings_put_AreHostObjectsAllowed, ICoreWebView2Settings_get_IsZoomControlEnabled,
      ICoreWebView2Settings_put_IsZoomControlEnabled, ICoreWebView2Settings_get_IsBuiltInErrorPageEnabled,
      ICoreWebView2Settings_put_IsBuiltInErrorPageEnabled]
   =
     [ICoreWebView2Settings_get_IsScriptEnabled_macro, ICoreWebView2Settings_put_IsScriptEnabled_macro,
      ICoreWebView2Settings_get_IsWebMessageEnabled_macro, ICoreWebView2Settings_put_IsWebMessageEnabled_macro,
      ICoreWebView2Settings_get_AreDefaultScriptDialogsEnabled_macro,
      ICoreWebView2Settings_put_AreDefaultScriptDialogsEnabled_macro,
      ICoreWebView2Settings_get_IsStatusBarEnabled_macro, ICoreWebView2Settings_put_IsStatusBarEnabled_macro,
      ICoreWebView2Settings_get_AreDevToolsEnabled_macro, ICoreWebView2Settings_put_AreDevToolsEnabled_macro,
      ICoreWebView2Settings_get_AreDefaultContextMenusEnabled_macro,
      ICoreWebView2Settings_put_AreDefaultContextMenusEnabled_macro,
      ICoreWebView2Settings_get_AreHostObjectsAllowed_macro, ICoreWebView2Settings_put_AreHostObjectsAllowed_macro,
      ICoreWebView2Settings_get_IsZoomControlEnabled_macro, ICoreWebView2Settings_put_IsZoomControlEnabled_macro,
      ICoreWebView2Settings_get_IsBuiltInErrorPageEnabled_macro,
      ICoreWebView2Settings_put_IsBuiltInErrorPageEnabled_macro]"
  by code_simp

lemma ICoreWebView2Settings2_calls:
  "map macro_of
     [ICoreWebView2Settings2_get_UserAgent, ICoreWebView2Settings2_put_UserAgent]
   =
     [ICoreWebView2Settings2_get_UserAgent_macro, ICoreWebView2Settings2_put_UserAgent_macro]"
  by code_simp

lemma ICoreWebView2Settings3_calls:
  "map macro_of
     [ICoreWebView2Settings3_get_AreBrowserAcceleratorKeysEnabled,
      ICoreWebView2Settings3_put_AreBrowserAcceleratorKeysEnabled]
   =
     [ICoreWebView2Settings3_get_AreBrowserAcceleratorKeysEnabled_macro,
      ICoreWebView2Settings3_put_AreBrowserAcceleratorKeysEnabled_macro]"
  by code_simp

lemma ICoreWebView2Settings4_calls:
  "map macro_of
     [ICoreWebView2Settings4_get_IsPasswordAutosaveEnabled, ICoreWebView2Settings4_put_IsPasswordAutosaveEnabled,
      ICoreWebView2Settings4_get_IsGeneralAutofillEnabled, ICoreWebView2Settings4_put_IsGeneralAutofillEnabled]
   =
     [ICoreWebView2Settings4_get_IsPasswordAutosaveEnabled_macro,
      ICoreWebView2Settings4_put_IsPasswordAutosaveEnabled_macro,
      ICoreWebView2Settings4_get_IsGeneralAutofillEnabled_macro,
      ICoreWebView2Settings4_put_IsGeneralAutofillEnabled_macro]"
  by code_simp

lemma ICoreWebView2Settings5_calls:
  "map macro_of
     [ICoreWebView2Settings5_get_IsPinchZoomEnabled, ICoreWebView2Settings5_put_IsPinchZoomEnabled]
   =
     [ICoreWebView2Settings5_get_IsPinchZoomEnabled_macro, ICoreWebView2Settings5_put_IsPinchZoomEnabled_macro]"
  by code_simp

lemma ICoreWebView2Settings6_calls:
  "map macro_of
     [ICoreWebView2Settings6_get_IsSwipeNavigationEnabled, ICoreWebView2Settings6_put_IsSwipeNavigationEnabled]
   =
     [ICoreWebView2Settings6_get_IsSwipeNavigationEnabled_macro,
      ICoreWebView2Settings6_put_IsSwipeNavigationEnabled_macro]"
  by code_simp

lemma ICoreWebView2Settings7_calls:
  "map macro_of
     [ICoreWebView2Settings7_get_HiddenPdfToolbarItems, ICoreWebView2Settings7_put_HiddenPdfToolbarItems]
   =
     [ICoreWebView2Settings7_get_HiddenPdfToolbarItems_macro, ICoreWebView2Settings7_put_HiddenPdfToolbarItems_macro]"
  by code_simp

lemma ICoreWebView2Settings8_calls:
  "map macro_of
     [Method ''HRESULT'' ''get_IsReputationCheckingRequired'' [''BOOL *value''],
      Method ''HRESULT'' ''put_IsReputationCheckingRequired'' [''BOOL value'']]
   =
     [Macro ''get_IsReputationCheckingRequired'' [''value''] ''get_IsReputationCheckingRequired'' [''value''],
      Macro ''put_IsReputationCheckingRequired'' [''value''] ''put_IsReputationCheckingRequired'' [''value'']]"
  by code_simp

lemma ICoreWebView2SharedBuffer_calls:
  "map macro_of
     [Method ''HRESULT'' ''get_Size'' [''UINT64 *value''],
      Method ''HRESULT'' ''get_Buffer'' [''BYTE **value''],
      Method ''HRESULT'' ''OpenStream'' [''IStream **value''],
      Method ''HRESULT'' ''get_FileMappingHandle'' [''HANDLE *value''],
      Method ''HRESULT'' ''Close'' []]
   =
     [Macro ''get_Size'' [''value''] ''get_Size'' [''value''],
      Macro ''get_Buffer'' [''value''] ''get_Buffer'' [''value''],
      Macro ''OpenStream'' [''value''] ''OpenStream'' [''value''],
      Macro ''get_FileMappingHandle'' [''value''] ''get_FileMappingHandle'' [''value''],
      Macro ''Close'' [] ''Close'' []]"
  by code_simp

lemma ICoreWebView2ProcessInfo_calls:
  "map macro_of
     [Method ''HRESULT'' ''get_ProcessId'' [''INT32 *value''],
      Method ''HRESULT'' ''get_Kind'' [''COREWEBVIEW2_PROCESS_KIND *kind'']]
   =
     [Macro ''get_ProcessId'' [''value''] ''get_ProcessId'' [''value''],
      Macro ''get_Kind'' [''kind''] ''get_Kind'' [''kind'']]"
  by code_simp

lemma ICoreWebView2ProcessInfoCollection_calls:
  "map macro_of
     [Method ''HRESULT'' ''get_Count'' [''UINT *count''],
      Method ''HRESULT'' ''GetValueAtIndex'' [''UINT32 index'', ''ICoreWebView2ProcessInfo **processInfo'']]
   =
     [Macro ''get_Count'' [''count''] ''get_Count'' [''count''],
      Macro ''GetValueAtIndex'' [''index'', ''processInfo''] ''GetValueAtIndex'' [''index'', ''processInfo'']]"
  by code_simp

lemma ICoreWebView2CompositionController_follow: "ICoreWebView2CompositionController_macros = macros_of ICoreWebView2CompositionController"
  by (simp only: macros_of_def layouts macro_simps
      ICoreWebView2CompositionController_macros_def
      ICoreWebView2CompositionController_calls [simplified calls_simps])

lemma ICoreWebView2CompositionController2_follow: "ICoreWebView2CompositionController2_macros = macros_of ICoreWebView2CompositionController2"
  by (simp only: macros_of_def layouts macro_simps
      ICoreWebView2CompositionController2_macros_def
      ICoreWebView2CompositionController_calls [simplified calls_simps] ICoreWebView2CompositionController2_calls
      [simplified calls_simps])

lemma ICoreWebView2CompositionController3_follow: "ICoreWebView2CompositionController3_macros = macros_of ICoreWebView2CompositionController3"
  by (simp only: macros_of_def layouts macro_simps
      ICoreWebView2CompositionController3_macros_def
      ICoreWebView2CompositionController_calls [simplified calls_simps] ICoreWebView2CompositionController2_calls
      [simplified calls_simps] ICoreWebView2CompositionController3_calls [simplified calls_simps])

lemma ICoreWebView2Controller_follow: "ICoreWebView2Controller_macros = macros_of ICoreWebView2Controller"
  by (simp only: macros_of_def layouts macro_simps
      ICoreWebView2Controller_macros_def
      ICoreWebView2Controller_calls [simplified calls_simps])

lemma ICoreWebView2Controller2_follow: "ICoreWebView2Controller2_macros = macros_of ICoreWebView2Controller2"
  by (simp only: macros_of_def layouts macro_simps
      ICoreWebView2Controller2_macros_def
      ICoreWebView2Controller_calls [simplified calls_simps] ICoreWebView2Controller2_calls [simplified calls_simps])

lemma ICoreWebView2Controller3_follow: "ICoreWebView2Controller3_macros = macros_of ICoreWebView2Controller3"
  by (simp only: macros_of_def layouts macro_simps
      ICoreWebView2Controller3_macros_def
      ICoreWebView2Controller_calls [simplified calls_simps] ICoreWebView2Controller2_calls [simplified calls_simps]
      ICoreWebView2Controller3_calls [simplified calls_simps])

lemma ICoreWebView2Controller4_follow: "ICoreWebView2Controller4_macros = macros_of ICoreWebView2Controller4"
  by (simp only: macros_of_def layouts macro_simps
      ICoreWebView2Controller4_macros_def
      ICoreWebView2Controller_calls [simplified calls_simps] ICoreWebView2Controller2_calls [simplified calls_simps]
      ICoreWebView2Controller3_calls [simplified calls_simps] ICoreWebView2Controller4_calls [simplified
      calls_simps])

lemma ICoreWebView2ControllerOptions_follow: "ICoreWebView2ControllerOptions_macros = macros_of ICoreWebView2ControllerOptions"
  by (simp only: macros_of_def layouts macro_simps
      ICoreWebView2ControllerOptions_macros_def
      ICoreWebView2ControllerOptions_calls [simplified calls_simps])

lemma ICoreWebView2ControllerOptions2_follow: "ICoreWebView2ControllerOptions2_macros = macros_of ICoreWebView2ControllerOptions2"
  by (simp only: macros_of_def layouts macro_simps
      ICoreWebView2ControllerOptions2_macros_def
      ICoreWebView2ControllerOptions_calls [simplified calls_simps] ICoreWebView2ControllerOptions2_calls
      [simplified calls_simps])

lemma ICoreWebView2CookieManager_follow: "ICoreWebView2CookieManager_macros = macros_of ICoreWebView2CookieManager"
  by (simp only: macros_of_def layouts macro_simps
      ICoreWebView2CookieManager_macros_def
      ICoreWebView2CookieManager_calls [simplified calls_simps])

lemma ICoreWebView2DownloadOperation_follow: "ICoreWebView2DownloadOperation_macros = macros_of ICoreWebView2DownloadOperation"
  by (simp only: macros_of_def layouts macro_simps
      ICoreWebView2DownloadOperation_macros_def
      ICoreWebView2DownloadOperation_calls [simplified calls_simps])

lemma ICoreWebView2Environment_follow: "ICoreWebView2Environment_macros = macros_of ICoreWebView2Environment"
  by (simp only: macros_of_def layouts macro_simps
      ICoreWebView2Environment_macros_def
      ICoreWebView2Environment_calls [simplified calls_simps])

lemma ICoreWebView2Environment2_follow: "ICoreWebView2Environment2_macros = macros_of ICoreWebView2Environment2"
  by (simp only: macros_of_def layouts macro_simps
      ICoreWebView2Environment2_macros_def
      ICoreWebView2Environment_calls [simplified calls_simps] ICoreWebView2Environment2_calls [simplified
      calls_simps])

lemma ICoreWebView2Environment3_follow: "ICoreWebView2Environment3_macros = macros_of ICoreWebView2Environment3"
  by (simp only: macros_of_def layouts macro_simps
      ICoreWebView2Environment3_macros_def
      ICoreWebView2Environment_calls [simplified calls_simps] ICoreWebView2Environment2_calls [simplified
      calls_simps] ICoreWebView2Environment3_calls [simplified calls_simps])

lemma ICoreWebView2Environment4_follow: "ICoreWebView2Environment4_macros = macros_of ICoreWebView2Environment4"
  by (simp only: macros_of_def layouts macro_simps
      ICoreWebView2Environment4_macros_def
      ICoreWebView2Environment_calls [simplified calls_simps] ICoreWebView2Environment2_calls [simplified
      calls_simps] ICoreWebView2Environment3_calls [simplified calls_simps] ICoreWebView2Environment4_calls
      [simplified calls_simps])

lemma ICoreWebView2Environment5_follow: "ICoreWebView2Environment5_macros = macros_of ICoreWebView2Environment5"
  by (simp only: macros_of_def layouts macro_simps
      ICoreWebView2Environment5_macros_def
      ICoreWebView2Environment_calls [simplified calls_simps] ICoreWebView2Environment2_calls [simplified
      calls_simps] ICoreWebView2Environment3_calls [simplified calls_simps] ICoreWebView2Environment4_calls
      [simplified calls_simps] ICoreWebView2Environment5_calls [simplified calls_simps])

lemma ICoreWebView2Environment6_follow: "ICoreWebView2Environment6_macros = macros_of ICoreWebView2Environment6"
  by (simp only: macros_of_def layouts macro_simps
      ICoreWebView2Environment6_macros_def
      ICoreWebView2Environment_calls [simplified calls_simps] ICoreWebView2Environment2_calls [simplified
      calls_simps] ICoreWebView2Environment3_calls [simplified calls_simps] ICoreWebView2Environment4_calls
      [simplified calls_simps] ICoreWebView2Environment5_calls [simplified calls_simps]
      ICoreWebView2Environment6_calls [simplified calls_simps])

lemma ICoreWebView2Environment7_follow: "ICoreWebView2Environment7_macros = macros_of ICoreWebView2Environment7"
  by (simp only: macros_of_def layouts macro_simps
      ICoreWebView2Environment7_macros_def
      ICoreWebView2Environment_calls [simplified calls_simps] ICoreWebView2Environment2_calls [simplified
      calls_simps] ICoreWebView2Environment3_calls [simplified calls_simps] ICoreWebView2Environment4_calls
      [simplified calls_simps] ICoreWebView2Environment5_calls [simplified calls_simps]
      ICoreWebView2Environment6_calls [simplified calls_simps] ICoreWebView2Environment7_calls [simplified
      calls_simps])

lemma ICoreWebView2Environment8_follow: "ICoreWebView2Environment8_macros = macros_of ICoreWebView2Environment8"
  by (simp only: macros_of_def layouts macro_simps
      ICoreWebView2Environment8_macros_def
      ICoreWebView2Environment_calls [simplified calls_simps] ICoreWebView2Environment2_calls [simplified
      calls_simps] ICoreWebView2Environment3_calls [simplified calls_simps] ICoreWebView2Environment4_calls
      [simplified calls_simps] ICoreWebView2Environment5_calls [simplified calls_simps]
      ICoreWebView2Environment6_calls [simplified calls_simps] ICoreWebView2Environment7_calls [simplified
      calls_simps] ICoreWebView2Environment8_calls [simplified calls_simps])

lemma ICoreWebView2Environment9_follow: "ICoreWebView2Environment9_macros = macros_of ICoreWebView2Environment9"
  by (simp only: macros_of_def layouts macro_simps
      ICoreWebView2Environment9_macros_def
      ICoreWebView2Environment_calls [simplified calls_simps] ICoreWebView2Environment2_calls [simplified
      calls_simps] ICoreWebView2Environment3_calls [simplified calls_simps] ICoreWebView2Environment4_calls
      [simplified calls_simps] ICoreWebView2Environment5_calls [simplified calls_simps]
      ICoreWebView2Environment6_calls [simplified calls_simps] ICoreWebView2Environment7_calls [simplified
      calls_simps] ICoreWebView2Environment8_calls [simplified calls_simps] ICoreWebView2Environment9_calls
      [simplified calls_simps])

lemma ICoreWebView2Environment10_follow: "ICoreWebView2Environment10_macros = macros_of ICoreWebView2Environment10"
  by (simp only: macros_of_def layouts macro_simps
      ICoreWebView2Environment10_macros_def
      ICoreWebView2Environment_calls [simplified calls_simps] ICoreWebView2Environment2_calls [simplified
      calls_simps] ICoreWebView2Environment3_calls [simplified calls_simps] ICoreWebView2Environment4_calls
      [simplified calls_simps] ICoreWebView2Environment5_calls [simplified calls_simps]
      ICoreWebView2Environment6_calls [simplified calls_simps] ICoreWebView2Environment7_calls [simplified
      calls_simps] ICoreWebView2Environment8_calls [simplified calls_simps] ICoreWebView2Environment9_calls
      [simplified calls_simps] ICoreWebView2Environment10_calls [simplified calls_simps])

lemma ICoreWebView2Environment11_follow: "ICoreWebView2Environment11_macros = macros_of ICoreWebView2Environment11"
  by (simp only: macros_of_def layouts macro_simps
      ICoreWebView2Environment11_macros_def
      ICoreWebView2Environment_calls [simplified calls_simps] ICoreWebView2Environment2_calls [simplified
      calls_simps] ICoreWebView2Environment3_calls [simplified calls_simps] ICoreWebView2Environment4_calls
      [simplified calls_simps] ICoreWebView2Environment5_calls [simplified calls_simps]
      ICoreWebView2Environment6_calls [simplified calls_simps] ICoreWebView2Environment7_calls [simplified
      calls_simps] ICoreWebView2Environment8_calls [simplified calls_simps] ICoreWebView2Environment9_calls
      [simplified calls_simps] ICoreWebView2Environment10_calls [simplified calls_simps]
      ICoreWebView2Environment11_calls [simplified calls_simps])

lemma ICoreWebView2Environment12_follow: "ICoreWebView2Environment12_macros = macros_of ICoreWebView2Environment12"
  by (simp only: macros_of_def layouts macro_simps
      ICoreWebView2Environment12_macros_def
      ICoreWebView2Environment_calls [simplified calls_simps] ICoreWebView2Environment2_calls [simplified
      calls_simps] ICoreWebView2Environment3_calls [simplified calls_simps] ICoreWebView2Environment4_calls
      [simplified calls_simps] ICoreWebView2Environment5_calls [simplified calls_simps]
      ICoreWebView2Environment6_calls [simplified calls_simps] ICoreWebView2Environment7_calls [simplified
      calls_simps] ICoreWebView2Environment8_calls [simplified calls_simps] ICoreWebView2Environment9_calls
      [simplified calls_simps] ICoreWebView2Environment10_calls [simplified calls_simps]
      ICoreWebView2Environment11_calls [simplified calls_simps] ICoreWebView2Environment12_calls [simplified
      calls_simps])

lemma ICoreWebView2Environment13_follow: "ICoreWebView2Environment13_macros = macros_of ICoreWebView2Environment13"
  by (simp only: macros_of_def layouts macro_simps
      ICoreWebView2Environment13_macros_def
      ICoreWebView2Environment_calls [simplified calls_simps] ICoreWebView2Environment2_calls [simplified
      calls_simps] ICoreWebView2Environment3_calls [simplified calls_simps] ICoreWebView2Environment4_calls
      [simplified calls_simps] ICoreWebView2Environment5_calls [simplified calls_simps]
      ICoreWebView2Environment6_calls [simplified calls_simps] ICoreWebView2Environment7_calls [simplified
      calls_simps] ICoreWebView2Environment8_calls [simplified calls_simps] ICoreWebView2Environment9_calls
      [simplified calls_simps] ICoreWebView2Environment10_calls [simplified calls_simps]
      ICoreWebView2Environment11_calls [simplified calls_simps] ICoreWebView2Environment12_calls [simplified
      calls_simps] ICoreWebView2Environment13_calls [simplified calls_simps])

lemma ICoreWebView2EnvironmentOptions_follow: "ICoreWebView2EnvironmentOptions_macros = macros_of ICoreWebView2EnvironmentOptions"
  by (simp only: macros_of_def layouts macro_simps
      ICoreWebView2EnvironmentOptions_macros_def
      ICoreWebView2EnvironmentOptions_calls [simplified calls_simps])

lemma ICoreWebView2EnvironmentOptions2_follow: "ICoreWebView2EnvironmentOptions2_macros = macros_of ICoreWebView2EnvironmentOptions2"
  by (simp only: macros_of_def layouts macro_simps
      ICoreWebView2EnvironmentOptions2_macros_def
      ICoreWebView2EnvironmentOptions2_calls [simplified calls_simps])

lemma ICoreWebView2EnvironmentOptions3_follow: "ICoreWebView2EnvironmentOptions3_macros = macros_of ICoreWebView2EnvironmentOptions3"
  by (simp only: macros_of_def layouts macro_simps
      ICoreWebView2EnvironmentOptions3_macros_def
      ICoreWebView2EnvironmentOptions3_calls [simplified calls_simps])

lemma ICoreWebView2EnvironmentOptions4_follow: "ICoreWebView2EnvironmentOptions4_macros = macros_of ICoreWebView2EnvironmentOptions4"
  by (simp only: macros_of_def layouts macro_simps
      ICoreWebView2EnvironmentOptions4_macros_def
      ICoreWebView2EnvironmentOptions4_calls [simplified calls_simps])

lemma ICoreWebView2EnvironmentOptions5_follow: "ICoreWebView2EnvironmentOptions5_macros = macros_of ICoreWebView2EnvironmentOptions5"
  by (simp only: macros_of_def layouts macro_simps
      ICoreWebView2EnvironmentOptions5_macros_def
      ICoreWebView2EnvironmentOptions5_calls [simplified calls_simps])

lemma ICoreWebView2EnvironmentOptions6_follow: "ICoreWebView2EnvironmentOptions6_macros = macros_of ICoreWebView2EnvironmentOptions6"
  by (simp only: macros_of_def layouts macro_simps
      ICoreWebView2EnvironmentOptions6_macros_def
      ICoreWebView2EnvironmentOptions6_calls [simplified calls_simps])

lemma ICoreWebView2ProcessExtendedInfo_follow: "ICoreWebView2ProcessExtendedInfo_macros = macros_of ICoreWebView2ProcessExtendedInfo"
  by (simp only: macros_of_def layouts macro_simps
      ICoreWebView2ProcessExtendedInfo_macros_def
      ICoreWebView2ProcessExtendedInfo_calls [simplified calls_simps])

lemma ICoreWebView2ProcessExtendedInfoCollection_follow: "ICoreWebView2ProcessExtendedInfoCollection_macros = macros_of ICoreWebView2ProcessExtendedInfoCollection"
  by (simp only: macros_of_def layouts macro_simps
      ICoreWebView2ProcessExtendedInfoCollection_macros_def
      ICoreWebView2ProcessExtendedInfoCollection_calls [simplified calls_simps])

lemma ICoreWebView2Frame_follow: "ICoreWebView2Frame_macros = macros_of ICoreWebView2Frame"
  by (simp only: macros_of_def layouts macro_simps
      ICoreWebView2Frame_macros_def
      ICoreWebView2Frame_calls [simplified calls_simps])

lemma ICoreWebView2Frame2_follow: "ICoreWebView2Frame2_macros = macros_of ICoreWebView2Frame2"
  by (simp only: macros_of_def layouts macro_simps
      ICoreWebView2Frame2_macros_def
      ICoreWebView2Frame_calls [simplified calls_simps] ICoreWebView2Frame2_calls [simplified calls_simps])

lemma ICoreWebView2Frame3_follow: "ICoreWebView2Frame3_macros = macros_of ICoreWebView2Frame3"
  by (simp only: macros_of_def layouts macro_simps
      ICoreWebView2Frame3_macros_def
      ICoreWebView2Frame_calls [simplified calls_simps] ICoreWebView2Frame2_calls [simplified calls_simps]
      ICoreWebView2Frame3_calls [simplified calls_simps])

lemma ICoreWebView2Frame4_follow: "ICoreWebView2Frame4_macros = macros_of ICoreWebView2Frame4"
  by (simp only: macros_of_def layouts macro_simps
      ICoreWebView2Frame4_macros_def
      ICoreWebView2Frame_calls [simplified calls_simps] ICoreWebView2Frame2_calls [simplified calls_simps]
      ICoreWebView2Frame3_calls [simplified calls_simps] ICoreWebView2Frame4_calls [simplified calls_simps])

lemma ICoreWebView2Frame5_follow: "ICoreWebView2Frame5_macros = macros_of ICoreWebView2Frame5"
  by (simp only: macros_of_def layouts macro_simps
      ICoreWebView2Frame5_macros_def
      ICoreWebView2Frame_calls [simplified calls_simps] ICoreWebView2Frame2_calls [simplified calls_simps]
      ICoreWebView2Frame3_calls [simplified calls_simps] ICoreWebView2Frame4_calls [simplified calls_simps]
      ICoreWebView2Frame5_calls [simplified calls_simps])

lemma ICoreWebView2FrameInfo_follow: "ICoreWebView2FrameInfo_macros = macros_of ICoreWebView2FrameInfo"
  by (simp only: macros_of_def layouts macro_simps
      ICoreWebView2FrameInfo_macros_def
      ICoreWebView2FrameInfo_calls [simplified calls_simps])

lemma ICoreWebView2FrameInfo2_follow: "ICoreWebView2FrameInfo2_macros = macros_of ICoreWebView2FrameInfo2"
  by (simp only: macros_of_def layouts macro_simps
      ICoreWebView2FrameInfo2_macros_def
      ICoreWebView2FrameInfo_calls [simplified calls_simps] ICoreWebView2FrameInfo2_calls [simplified calls_simps])

lemma ICoreWebView2FrameInfoCollection_follow: "ICoreWebView2FrameInfoCollection_macros = macros_of ICoreWebView2FrameInfoCollection"
  by (simp only: macros_of_def layouts macro_simps
      ICoreWebView2FrameInfoCollection_macros_def
      ICoreWebView2FrameInfoCollection_calls [simplified calls_simps])

lemma ICoreWebView2FrameInfoCollectionIterator_follow: "ICoreWebView2FrameInfoCollectionIterator_macros = macros_of ICoreWebView2FrameInfoCollectionIterator"
  by (simp only: macros_of_def layouts macro_simps
      ICoreWebView2FrameInfoCollectionIterator_macros_def
      ICoreWebView2FrameInfoCollectionIterator_calls [simplified calls_simps])

lemma ICoreWebView2Profile_follow: "ICoreWebView2Profile_macros = macros_of ICoreWebView2Profile"
  by (simp only: macros_of_def layouts macro_simps
      ICoreWebView2Profile_macros_def
      ICoreWebView2Profile_calls [simplified calls_simps])

lemma ICoreWebView2Profile2_follow: "ICoreWebView2Profile2_macros = macros_of ICoreWebView2Profile2"
  by (simp only: macros_of_def layouts macro_simps
      ICoreWebView2Profile2_macros_def
      ICoreWebView2Profile_calls [simplified calls_simps] ICoreWebView2Profile2_calls [simplified calls_simps])

lemma ICoreWebView2Profile3_follow: "ICoreWebView2Profile3_macros = macros_of ICoreWebView2Profile3"
  by (simp only: macros_of_def layouts macro_simps
      ICoreWebView2Profile3_macros_def
      ICoreWebView2Profile_calls [simplified calls_simps] ICoreWebView2Profile2_calls [simplified calls_simps]
      ICoreWebView2Profile3_calls [simplified calls_simps])

lemma ICoreWebView2Profile4_follow: "ICoreWebView2Profile4_macros = macros_of ICoreWebView2Profile4"
  by (simp only: macros_of_def layouts macro_simps
      ICoreWebView2Profile4_macros_def
      ICoreWebView2Profile_calls [simplified calls_simps] ICoreWebView2Profile2_calls [simplified calls_simps]
      ICoreWebView2Profile3_calls [simplified calls_simps] ICoreWebView2Profile4_calls [simplified calls_simps])

lemma ICoreWebView2Profile5_follow: "ICoreWebView2Profile5_macros = macros_of ICoreWebView2Profile5"
  by (simp only: macros_of_def layouts macro_simps
      ICoreWebView2Profile5_macros_def
      ICoreWebView2Profile_calls [simplified calls_simps] ICoreWebView2Profile2_calls [simplified calls_simps]
      ICoreWebView2Profile3_calls [simplified calls_simps] ICoreWebView2Profile4_calls [simplified calls_simps]
      ICoreWebView2Profile5_calls [simplified calls_simps])

lemma ICoreWebView2Profile6_follow: "ICoreWebView2Profile6_macros = macros_of ICoreWebView2Profile6"
  by (simp only: macros_of_def layouts macro_simps
      ICoreWebView2Profile6_macros_def
      ICoreWebView2Profile_calls [simplified calls_simps] ICoreWebView2Profile2_calls [simplified calls_simps]
      ICoreWebView2Profile3_calls [simplified calls_simps] ICoreWebView2Profile4_calls [simplified calls_simps]
      ICoreWebView2Profile5_calls [simplified calls_simps] ICoreWebView2Profile6_calls [simplified calls_simps])

lemma ICoreWebView2Profile7_follow: "ICoreWebView2Profile7_macros = macros_of ICoreWebView2Profile7"
  by (simp only: macros_of_def layouts macro_simps
      ICoreWebView2Profile7_macros_def
      ICoreWebView2Profile_calls [simplified calls_simps] ICoreWebView2Profile2_calls [simplified calls_simps]
      ICoreWebView2Profile3_calls [simplified calls_simps] ICoreWebView2Profile4_calls [simplified calls_simps]
      ICoreWebView2Profile5_calls [simplified calls_simps] ICoreWebView2Profile6_calls [simplified calls_simps]
      ICoreWebView2Profile7_calls [simplified calls_simps])

lemma ICoreWebView2Profile8_follow: "ICoreWebView2Profile8_macros = macros_of ICoreWebView2Profile8"
  by (simp only: macros_of_def layouts macro_simps
      ICoreWebView2Profile8_macros_def
      ICoreWebView2Profile_calls [simplified calls_simps] ICoreWebView2Profile2_calls [simplified calls_simps]
      ICoreWebView2Profile3_calls [simplified calls_simps] ICoreWebView2Profile4_calls [simplified calls_simps]
      ICoreWebView2Profile5_calls [simplified calls_simps] ICoreWebView2Profile6_calls [simplified calls_simps]
      ICoreWebView2Profile7_calls [simplified calls_simps] ICoreWebView2Profile8_calls [simplified calls_simps])

lemma ICoreWebView2Settings_follow: "ICoreWebView2Settings_macros = macros_of ICoreWebView2Settings"
  by (simp only: macros_of_def layouts macro_simps
      ICoreWebView2Settings_macros_def
      ICoreWebView2Settings_calls [simplified calls_simps])

lemma ICoreWebView2Settings2_follow: "ICoreWebView2Settings2_macros = macros_of ICoreWebView2Settings2"
  by (simp only: macros_of_def layouts macro_simps
      ICoreWebView2Settings2_macros_def
      ICoreWebView2Settings_calls [simplified calls_simps] ICoreWebView2Settings2_calls [simplified calls_simps])

lemma ICoreWebView2Settings3_follow: "ICoreWebView2Settings3_macros = macros_of ICoreWebView2Settings3"
  by (simp only: macros_of_def layouts macro_simps
      ICoreWebView2Settings3_macros_def
      ICoreWebView2Settings_calls [simplified calls_simps] ICoreWebView2Settings2_calls [simplified calls_simps]
      ICoreWebView2Settings3_calls [simplified calls_simps])

lemma ICoreWebView2Settings4_follow: "ICoreWebView2Settings4_macros = macros_of ICoreWebView2Settings4"
  by (simp only: macros_of_def layouts macro_simps
      ICoreWebView2Settings4_macros_def
      ICoreWebView2Settings_calls [simplified calls_simps] ICoreWebView2Settings2_calls [simplified calls_simps]
      ICoreWebView2Settings3_calls [simplified calls_simps] ICoreWebView2Settings4_calls [simplified calls_simps])

lemma ICoreWebView2Settings5_follow: "ICoreWebView2Settings5_macros = macros_of ICoreWebView2Settings5"
  by (simp only: macros_of_def layouts macro_simps
      ICoreWebView2Settings5_macros_def
      ICoreWebView2Settings_calls [simplified calls_simps] ICoreWebView2Settings2_calls [simplified calls_simps]
      ICoreWebView2Settings3_calls [simplified calls_simps] ICoreWebView2Settings4_calls [simplified calls_simps]
      ICoreWebView2Settings5_calls [simplified calls_simps])

lemma ICoreWebView2Settings6_follow: "ICoreWebView2Settings6_macros = macros_of ICoreWebView2Settings6"
  by (simp only: macros_of_def layouts macro_simps
      ICoreWebView2Settings6_macros_def
      ICoreWebView2Settings_calls [simplified calls_simps] ICoreWebView2Settings2_calls [simplified calls_simps]
      ICoreWebView2Settings3_calls [simplified calls_simps] ICoreWebView2Settings4_calls [simplified calls_simps]
      ICoreWebView2Settings5_calls [simplified calls_simps] ICoreWebView2Settings6_calls [simplified calls_simps])

lemma ICoreWebView2Settings7_follow: "ICoreWebView2Settings7_macros = macros_of ICoreWebView2Settings7"
  by (simp only: macros_of_def layouts macro_simps
      ICoreWebView2Settings7_macros_def
      ICoreWebView2Settings_calls [simplified calls_simps] ICoreWebView2Settings2_calls [simplified calls_simps]
      ICoreWebView2Settings3_calls [simplified calls_simps] ICoreWebView2Settings4_calls [simplified calls_simps]
      ICoreWebView2Settings5_calls [simplified calls_simps] ICoreWebView2Settings6_calls [simplified calls_simps]
      ICoreWebView2Settings7_calls [simplified calls_simps])

lemma ICoreWebView2Settings8_follow: "ICoreWebView2Settings8_macros = macros_of ICoreWebView2Settings8"
  by (simp only: macros_of_def layouts macro_simps
      ICoreWebView2Settings8_macros_def
      ICoreWebView2Settings_calls [simplified calls_simps] ICoreWebView2Settings2_calls [simplified calls_simps]
      ICoreWebView2Settings3_calls [simplified calls_simps] ICoreWebView2Settings4_calls [simplified calls_simps]
      ICoreWebView2Settings5_calls [simplified calls_simps] ICoreWebView2Settings6_calls [simplified calls_simps]
      ICoreWebView2Settings7_calls [simplified calls_simps] ICoreWebView2Settings8_calls [simplified calls_simps])

lemma ICoreWebView2SharedBuffer_follow: "ICoreWebView2SharedBuffer_macros = macros_of ICoreWebView2SharedBuffer"
  by (simp only: macros_of_def layouts macro_simps
      ICoreWebView2SharedBuffer_macros_def
      ICoreWebView2SharedBuffer_calls [simplified calls_simps])

lemma ICoreWebView2ProcessInfo_follow: "ICoreWebView2ProcessInfo_macros = macros_of ICoreWebView2ProcessInfo"
  by (simp only: macros_of_def layouts macro_simps
      ICoreWebView2ProcessInfo_macros_def
      ICoreWebView2ProcessInfo_calls [simplified calls_simps])

lemma ICoreWebView2ProcessInfoCollection_follow: "ICoreWebView2ProcessInfoCollection_macros = macros_of ICoreWebView2ProcessInfoCollection"
  by (simp only: macros_of_def layouts macro_simps
      ICoreWebView2ProcessInfoCollection_macros_def
      ICoreWebView2ProcessInfoCollection_calls [simplified calls_simps])

definition services_macros :: "(iface \<times> cmacro list) list" where
  "services_macros =
     [(ICoreWebView2CompositionController, ICoreWebView2CompositionController_macros),
      (ICoreWebView2CompositionController2, ICoreWebView2CompositionController2_macros),
      (ICoreWebView2CompositionController3, ICoreWebView2CompositionController3_macros),
      (ICoreWebView2Controller, ICoreWebView2Controller_macros),
      (ICoreWebView2Controller2, ICoreWebView2Controller2_macros),
      (ICoreWebView2Controller3, ICoreWebView2Controller3_macros),
      (ICoreWebView2Controller4, ICoreWebView2Controller4_macros),
      (ICoreWebView2ControllerOptions, ICoreWebView2ControllerOptions_macros),
      (ICoreWebView2ControllerOptions2, ICoreWebView2ControllerOptions2_macros),
      (ICoreWebView2CookieManager, ICoreWebView2CookieManager_macros),
      (ICoreWebView2DownloadOperation, ICoreWebView2DownloadOperation_macros),
      (ICoreWebView2Environment, ICoreWebView2Environment_macros),
      (ICoreWebView2Environment2, ICoreWebView2Environment2_macros),
      (ICoreWebView2Environment3, ICoreWebView2Environment3_macros),
      (ICoreWebView2Environment4, ICoreWebView2Environment4_macros),
      (ICoreWebView2Environment5, ICoreWebView2Environment5_macros),
      (ICoreWebView2Environment6, ICoreWebView2Environment6_macros),
      (ICoreWebView2Environment7, ICoreWebView2Environment7_macros),
      (ICoreWebView2Environment8, ICoreWebView2Environment8_macros),
      (ICoreWebView2Environment9, ICoreWebView2Environment9_macros),
      (ICoreWebView2Environment10, ICoreWebView2Environment10_macros),
      (ICoreWebView2Environment11, ICoreWebView2Environment11_macros),
      (ICoreWebView2Environment12, ICoreWebView2Environment12_macros),
      (ICoreWebView2Environment13, ICoreWebView2Environment13_macros),
      (ICoreWebView2EnvironmentOptions, ICoreWebView2EnvironmentOptions_macros),
      (ICoreWebView2EnvironmentOptions2, ICoreWebView2EnvironmentOptions2_macros),
      (ICoreWebView2EnvironmentOptions3, ICoreWebView2EnvironmentOptions3_macros),
      (ICoreWebView2EnvironmentOptions4, ICoreWebView2EnvironmentOptions4_macros),
      (ICoreWebView2EnvironmentOptions5, ICoreWebView2EnvironmentOptions5_macros),
      (ICoreWebView2EnvironmentOptions6, ICoreWebView2EnvironmentOptions6_macros),
      (ICoreWebView2ProcessExtendedInfo, ICoreWebView2ProcessExtendedInfo_macros),
      (ICoreWebView2ProcessExtendedInfoCollection, ICoreWebView2ProcessExtendedInfoCollection_macros),
      (ICoreWebView2Frame, ICoreWebView2Frame_macros), (ICoreWebView2Frame2, ICoreWebView2Frame2_macros),
      (ICoreWebView2Frame3, ICoreWebView2Frame3_macros), (ICoreWebView2Frame4, ICoreWebView2Frame4_macros),
      (ICoreWebView2Frame5, ICoreWebView2Frame5_macros), (ICoreWebView2FrameInfo, ICoreWebView2FrameInfo_macros),
      (ICoreWebView2FrameInfo2, ICoreWebView2FrameInfo2_macros),
      (ICoreWebView2FrameInfoCollection, ICoreWebView2FrameInfoCollection_macros),
      (ICoreWebView2FrameInfoCollectionIterator, ICoreWebView2FrameInfoCollectionIterator_macros),
      (ICoreWebView2Profile, ICoreWebView2Profile_macros), (ICoreWebView2Profile2, ICoreWebView2Profile2_macros),
      (ICoreWebView2Profile3, ICoreWebView2Profile3_macros), (ICoreWebView2Profile4, ICoreWebView2Profile4_macros),
      (ICoreWebView2Profile5, ICoreWebView2Profile5_macros), (ICoreWebView2Profile6, ICoreWebView2Profile6_macros),
      (ICoreWebView2Profile7, ICoreWebView2Profile7_macros), (ICoreWebView2Profile8, ICoreWebView2Profile8_macros),
      (ICoreWebView2Settings, ICoreWebView2Settings_macros), (ICoreWebView2Settings2, ICoreWebView2Settings2_macros),
      (ICoreWebView2Settings3, ICoreWebView2Settings3_macros),
      (ICoreWebView2Settings4, ICoreWebView2Settings4_macros),
      (ICoreWebView2Settings5, ICoreWebView2Settings5_macros),
      (ICoreWebView2Settings6, ICoreWebView2Settings6_macros),
      (ICoreWebView2Settings7, ICoreWebView2Settings7_macros),
      (ICoreWebView2Settings8, ICoreWebView2Settings8_macros),
      (ICoreWebView2SharedBuffer, ICoreWebView2SharedBuffer_macros),
      (ICoreWebView2ProcessInfo, ICoreWebView2ProcessInfo_macros),
      (ICoreWebView2ProcessInfoCollection, ICoreWebView2ProcessInfoCollection_macros)]"

lemma services_macros_follow: "list_all (\<lambda>(i, ms). ms = macros_of i) services_macros"
  by (simp only: services_macros_def list.pred_inject prod.case simp_thms
    ICoreWebView2CompositionController_follow ICoreWebView2CompositionController2_follow
    ICoreWebView2CompositionController3_follow ICoreWebView2Controller_follow ICoreWebView2Controller2_follow
    ICoreWebView2Controller3_follow ICoreWebView2Controller4_follow ICoreWebView2ControllerOptions_follow
    ICoreWebView2ControllerOptions2_follow ICoreWebView2CookieManager_follow ICoreWebView2DownloadOperation_follow
    ICoreWebView2Environment_follow ICoreWebView2Environment2_follow ICoreWebView2Environment3_follow
    ICoreWebView2Environment4_follow ICoreWebView2Environment5_follow ICoreWebView2Environment6_follow
    ICoreWebView2Environment7_follow ICoreWebView2Environment8_follow ICoreWebView2Environment9_follow
    ICoreWebView2Environment10_follow ICoreWebView2Environment11_follow ICoreWebView2Environment12_follow
    ICoreWebView2Environment13_follow ICoreWebView2EnvironmentOptions_follow
    ICoreWebView2EnvironmentOptions2_follow ICoreWebView2EnvironmentOptions3_follow
    ICoreWebView2EnvironmentOptions4_follow ICoreWebView2EnvironmentOptions5_follow
    ICoreWebView2EnvironmentOptions6_follow ICoreWebView2ProcessExtendedInfo_follow
    ICoreWebView2ProcessExtendedInfoCollection_follow ICoreWebView2Frame_follow ICoreWebView2Frame2_follow
    ICoreWebView2Frame3_follow ICoreWebView2Frame4_follow ICoreWebView2Frame5_follow ICoreWebView2FrameInfo_follow
    ICoreWebView2FrameInfo2_follow ICoreWebView2FrameInfoCollection_follow
    ICoreWebView2FrameInfoCollectionIterator_follow ICoreWebView2Profile_follow ICoreWebView2Profile2_follow
    ICoreWebView2Profile3_follow ICoreWebView2Profile4_follow ICoreWebView2Profile5_follow
    ICoreWebView2Profile6_follow ICoreWebView2Profile7_follow ICoreWebView2Profile8_follow
    ICoreWebView2Settings_follow ICoreWebView2Settings2_follow ICoreWebView2Settings3_follow
    ICoreWebView2Settings4_follow ICoreWebView2Settings5_follow ICoreWebView2Settings6_follow
    ICoreWebView2Settings7_follow ICoreWebView2Settings8_follow ICoreWebView2SharedBuffer_follow
    ICoreWebView2ProcessInfo_follow ICoreWebView2ProcessInfoCollection_follow)

end
