(* ===== verification/AbiObjectsCalls.thy ===== *)
theory AbiObjectsCalls
  imports CallMacros AbiObjects
begin

text \<open>
  \<^verbatim>\<open>builtin/goc/webview2/WebView2.h\<close>: the call macros of
  the interfaces of \<open>AbiObjects\<close>. Each interface repeats the macros of its base, as its table repeats the slots: the macros of an interface
  that others extend are named, the others stand in the list of their interface.
\<close>

section \<open>Macros of the methods\<close>

definition ICoreWebView2AcceleratorKeyPressedEventArgs_get_KeyEventKind_macro :: cmacro where
  "ICoreWebView2AcceleratorKeyPressedEventArgs_get_KeyEventKind_macro =
     Macro ''get_KeyEventKind'' [''keyEventKind''] ''get_KeyEventKind'' [''keyEventKind'']"

definition ICoreWebView2AcceleratorKeyPressedEventArgs_get_VirtualKey_macro :: cmacro where
  "ICoreWebView2AcceleratorKeyPressedEventArgs_get_VirtualKey_macro =
     Macro ''get_VirtualKey'' [''virtualKey''] ''get_VirtualKey'' [''virtualKey'']"

definition ICoreWebView2AcceleratorKeyPressedEventArgs_get_KeyEventLParam_macro :: cmacro where
  "ICoreWebView2AcceleratorKeyPressedEventArgs_get_KeyEventLParam_macro =
     Macro ''get_KeyEventLParam'' [''lParam''] ''get_KeyEventLParam'' [''lParam'']"

definition ICoreWebView2AcceleratorKeyPressedEventArgs_get_PhysicalKeyStatus_macro :: cmacro where
  "ICoreWebView2AcceleratorKeyPressedEventArgs_get_PhysicalKeyStatus_macro =
     Macro ''get_PhysicalKeyStatus'' [''physicalKeyStatus''] ''get_PhysicalKeyStatus'' [''physicalKeyStatus'']"

definition ICoreWebView2AcceleratorKeyPressedEventArgs_get_Handled_macro :: cmacro where
  "ICoreWebView2AcceleratorKeyPressedEventArgs_get_Handled_macro =
     Macro ''get_Handled'' [''handled''] ''get_Handled'' [''handled'']"

definition ICoreWebView2AcceleratorKeyPressedEventArgs_put_Handled_macro :: cmacro where
  "ICoreWebView2AcceleratorKeyPressedEventArgs_put_Handled_macro =
     Macro ''put_Handled'' [''handled''] ''put_Handled'' [''handled'']"

definition ICoreWebView2DevToolsProtocolEventReceivedEventArgs_get_ParameterObjectAsJson_macro :: cmacro where
  "ICoreWebView2DevToolsProtocolEventReceivedEventArgs_get_ParameterObjectAsJson_macro =
     Macro ''get_ParameterObjectAsJson'' [''parameterObjectAsJson''] ''get_ParameterObjectAsJson'' [''parameterObjectAsJson'']"

definition ICoreWebView2NavigationCompletedEventArgs_get_IsSuccess_macro :: cmacro where
  "ICoreWebView2NavigationCompletedEventArgs_get_IsSuccess_macro =
     Macro ''get_IsSuccess'' [''isSuccess''] ''get_IsSuccess'' [''isSuccess'']"

definition ICoreWebView2NavigationCompletedEventArgs_get_WebErrorStatus_macro :: cmacro where
  "ICoreWebView2NavigationCompletedEventArgs_get_WebErrorStatus_macro =
     Macro ''get_WebErrorStatus'' [''webErrorStatus''] ''get_WebErrorStatus'' [''webErrorStatus'']"

definition ICoreWebView2NavigationCompletedEventArgs_get_NavigationId_macro :: cmacro where
  "ICoreWebView2NavigationCompletedEventArgs_get_NavigationId_macro =
     Macro ''get_NavigationId'' [''navigationId''] ''get_NavigationId'' [''navigationId'']"

definition ICoreWebView2NavigationStartingEventArgs_get_Uri_macro :: cmacro where
  "ICoreWebView2NavigationStartingEventArgs_get_Uri_macro =
     Macro ''get_Uri'' [''uri''] ''get_Uri'' [''uri'']"

definition ICoreWebView2NavigationStartingEventArgs_get_IsUserInitiated_macro :: cmacro where
  "ICoreWebView2NavigationStartingEventArgs_get_IsUserInitiated_macro =
     Macro ''get_IsUserInitiated'' [''isUserInitiated''] ''get_IsUserInitiated'' [''isUserInitiated'']"

definition ICoreWebView2NavigationStartingEventArgs_get_IsRedirected_macro :: cmacro where
  "ICoreWebView2NavigationStartingEventArgs_get_IsRedirected_macro =
     Macro ''get_IsRedirected'' [''isRedirected''] ''get_IsRedirected'' [''isRedirected'']"

definition ICoreWebView2NavigationStartingEventArgs_get_RequestHeaders_macro :: cmacro where
  "ICoreWebView2NavigationStartingEventArgs_get_RequestHeaders_macro =
     Macro ''get_RequestHeaders'' [''requestHeaders''] ''get_RequestHeaders'' [''requestHeaders'']"

definition ICoreWebView2NavigationStartingEventArgs_get_Cancel_macro :: cmacro where
  "ICoreWebView2NavigationStartingEventArgs_get_Cancel_macro =
     Macro ''get_Cancel'' [''cancel''] ''get_Cancel'' [''cancel'']"

definition ICoreWebView2NavigationStartingEventArgs_put_Cancel_macro :: cmacro where
  "ICoreWebView2NavigationStartingEventArgs_put_Cancel_macro =
     Macro ''put_Cancel'' [''cancel''] ''put_Cancel'' [''cancel'']"

definition ICoreWebView2NavigationStartingEventArgs_get_NavigationId_macro :: cmacro where
  "ICoreWebView2NavigationStartingEventArgs_get_NavigationId_macro =
     Macro ''get_NavigationId'' [''navigationId''] ''get_NavigationId'' [''navigationId'']"

definition ICoreWebView2NavigationStartingEventArgs2_get_AdditionalAllowedFrameAncestors_macro :: cmacro where
  "ICoreWebView2NavigationStartingEventArgs2_get_AdditionalAllowedFrameAncestors_macro =
     Macro ''get_AdditionalAllowedFrameAncestors'' [''value''] ''get_AdditionalAllowedFrameAncestors'' [''value'']"

definition ICoreWebView2NavigationStartingEventArgs2_put_AdditionalAllowedFrameAncestors_macro :: cmacro where
  "ICoreWebView2NavigationStartingEventArgs2_put_AdditionalAllowedFrameAncestors_macro =
     Macro ''put_AdditionalAllowedFrameAncestors'' [''value''] ''put_AdditionalAllowedFrameAncestors'' [''value'']"

definition ICoreWebView2NewWindowRequestedEventArgs_get_Uri_macro :: cmacro where
  "ICoreWebView2NewWindowRequestedEventArgs_get_Uri_macro =
     Macro ''get_Uri'' [''uri''] ''get_Uri'' [''uri'']"

definition ICoreWebView2NewWindowRequestedEventArgs_put_NewWindow_macro :: cmacro where
  "ICoreWebView2NewWindowRequestedEventArgs_put_NewWindow_macro =
     Macro ''put_NewWindow'' [''newWindow''] ''put_NewWindow'' [''newWindow'']"

definition ICoreWebView2NewWindowRequestedEventArgs_get_NewWindow_macro :: cmacro where
  "ICoreWebView2NewWindowRequestedEventArgs_get_NewWindow_macro =
     Macro ''get_NewWindow'' [''newWindow''] ''get_NewWindow'' [''newWindow'']"

definition ICoreWebView2NewWindowRequestedEventArgs_put_Handled_macro :: cmacro where
  "ICoreWebView2NewWindowRequestedEventArgs_put_Handled_macro =
     Macro ''put_Handled'' [''handled''] ''put_Handled'' [''handled'']"

definition ICoreWebView2NewWindowRequestedEventArgs_get_Handled_macro :: cmacro where
  "ICoreWebView2NewWindowRequestedEventArgs_get_Handled_macro =
     Macro ''get_Handled'' [''handled''] ''get_Handled'' [''handled'']"

definition ICoreWebView2NewWindowRequestedEventArgs_get_IsUserInitiated_macro :: cmacro where
  "ICoreWebView2NewWindowRequestedEventArgs_get_IsUserInitiated_macro =
     Macro ''get_IsUserInitiated'' [''isUserInitiated''] ''get_IsUserInitiated'' [''isUserInitiated'']"

definition ICoreWebView2NewWindowRequestedEventArgs_GetDeferral_macro :: cmacro where
  "ICoreWebView2NewWindowRequestedEventArgs_GetDeferral_macro =
     Macro ''GetDeferral'' [''deferral''] ''GetDeferral'' [''deferral'']"

definition ICoreWebView2NewWindowRequestedEventArgs_get_WindowFeatures_macro :: cmacro where
  "ICoreWebView2NewWindowRequestedEventArgs_get_WindowFeatures_macro =
     Macro ''get_WindowFeatures'' [''value''] ''get_WindowFeatures'' [''value'']"

definition ICoreWebView2NewWindowRequestedEventArgs2_get_Name_macro :: cmacro where
  "ICoreWebView2NewWindowRequestedEventArgs2_get_Name_macro =
     Macro ''get_Name'' [''value''] ''get_Name'' [''value'']"

definition ICoreWebView2PermissionRequestedEventArgs_get_Uri_macro :: cmacro where
  "ICoreWebView2PermissionRequestedEventArgs_get_Uri_macro =
     Macro ''get_Uri'' [''uri''] ''get_Uri'' [''uri'']"

definition ICoreWebView2PermissionRequestedEventArgs_get_PermissionKind_macro :: cmacro where
  "ICoreWebView2PermissionRequestedEventArgs_get_PermissionKind_macro =
     Macro ''get_PermissionKind'' [''permissionKind''] ''get_PermissionKind'' [''permissionKind'']"

definition ICoreWebView2PermissionRequestedEventArgs_get_IsUserInitiated_macro :: cmacro where
  "ICoreWebView2PermissionRequestedEventArgs_get_IsUserInitiated_macro =
     Macro ''get_IsUserInitiated'' [''isUserInitiated''] ''get_IsUserInitiated'' [''isUserInitiated'']"

definition ICoreWebView2PermissionRequestedEventArgs_get_State_macro :: cmacro where
  "ICoreWebView2PermissionRequestedEventArgs_get_State_macro =
     Macro ''get_State'' [''state''] ''get_State'' [''state'']"

definition ICoreWebView2PermissionRequestedEventArgs_put_State_macro :: cmacro where
  "ICoreWebView2PermissionRequestedEventArgs_put_State_macro =
     Macro ''put_State'' [''state''] ''put_State'' [''state'']"

definition ICoreWebView2PermissionRequestedEventArgs_GetDeferral_macro :: cmacro where
  "ICoreWebView2PermissionRequestedEventArgs_GetDeferral_macro =
     Macro ''GetDeferral'' [''deferral''] ''GetDeferral'' [''deferral'']"

definition ICoreWebView2PermissionRequestedEventArgs2_get_Handled_macro :: cmacro where
  "ICoreWebView2PermissionRequestedEventArgs2_get_Handled_macro =
     Macro ''get_Handled'' [''handled''] ''get_Handled'' [''handled'']"

definition ICoreWebView2PermissionRequestedEventArgs2_put_Handled_macro :: cmacro where
  "ICoreWebView2PermissionRequestedEventArgs2_put_Handled_macro =
     Macro ''put_Handled'' [''handled''] ''put_Handled'' [''handled'']"

definition ICoreWebView2PrintSettings_get_Orientation_macro :: cmacro where
  "ICoreWebView2PrintSettings_get_Orientation_macro =
     Macro ''get_Orientation'' [''orientation''] ''get_Orientation'' [''orientation'']"

definition ICoreWebView2PrintSettings_put_Orientation_macro :: cmacro where
  "ICoreWebView2PrintSettings_put_Orientation_macro =
     Macro ''put_Orientation'' [''orientation''] ''put_Orientation'' [''orientation'']"

definition ICoreWebView2PrintSettings_get_ScaleFactor_macro :: cmacro where
  "ICoreWebView2PrintSettings_get_ScaleFactor_macro =
     Macro ''get_ScaleFactor'' [''scaleFactor''] ''get_ScaleFactor'' [''scaleFactor'']"

definition ICoreWebView2PrintSettings_put_ScaleFactor_macro :: cmacro where
  "ICoreWebView2PrintSettings_put_ScaleFactor_macro =
     Macro ''put_ScaleFactor'' [''scaleFactor''] ''put_ScaleFactor'' [''scaleFactor'']"

definition ICoreWebView2PrintSettings_get_PageWidth_macro :: cmacro where
  "ICoreWebView2PrintSettings_get_PageWidth_macro =
     Macro ''get_PageWidth'' [''pageWidth''] ''get_PageWidth'' [''pageWidth'']"

definition ICoreWebView2PrintSettings_put_PageWidth_macro :: cmacro where
  "ICoreWebView2PrintSettings_put_PageWidth_macro =
     Macro ''put_PageWidth'' [''pageWidth''] ''put_PageWidth'' [''pageWidth'']"

definition ICoreWebView2PrintSettings_get_PageHeight_macro :: cmacro where
  "ICoreWebView2PrintSettings_get_PageHeight_macro =
     Macro ''get_PageHeight'' [''pageHeight''] ''get_PageHeight'' [''pageHeight'']"

definition ICoreWebView2PrintSettings_put_PageHeight_macro :: cmacro where
  "ICoreWebView2PrintSettings_put_PageHeight_macro =
     Macro ''put_PageHeight'' [''pageHeight''] ''put_PageHeight'' [''pageHeight'']"

definition ICoreWebView2PrintSettings_get_MarginTop_macro :: cmacro where
  "ICoreWebView2PrintSettings_get_MarginTop_macro =
     Macro ''get_MarginTop'' [''marginTop''] ''get_MarginTop'' [''marginTop'']"

definition ICoreWebView2PrintSettings_put_MarginTop_macro :: cmacro where
  "ICoreWebView2PrintSettings_put_MarginTop_macro =
     Macro ''put_MarginTop'' [''marginTop''] ''put_MarginTop'' [''marginTop'']"

definition ICoreWebView2PrintSettings_get_MarginBottom_macro :: cmacro where
  "ICoreWebView2PrintSettings_get_MarginBottom_macro =
     Macro ''get_MarginBottom'' [''marginBottom''] ''get_MarginBottom'' [''marginBottom'']"

definition ICoreWebView2PrintSettings_put_MarginBottom_macro :: cmacro where
  "ICoreWebView2PrintSettings_put_MarginBottom_macro =
     Macro ''put_MarginBottom'' [''marginBottom''] ''put_MarginBottom'' [''marginBottom'']"

definition ICoreWebView2PrintSettings_get_MarginLeft_macro :: cmacro where
  "ICoreWebView2PrintSettings_get_MarginLeft_macro =
     Macro ''get_MarginLeft'' [''marginLeft''] ''get_MarginLeft'' [''marginLeft'']"

definition ICoreWebView2PrintSettings_put_MarginLeft_macro :: cmacro where
  "ICoreWebView2PrintSettings_put_MarginLeft_macro =
     Macro ''put_MarginLeft'' [''marginLeft''] ''put_MarginLeft'' [''marginLeft'']"

definition ICoreWebView2PrintSettings_get_MarginRight_macro :: cmacro where
  "ICoreWebView2PrintSettings_get_MarginRight_macro =
     Macro ''get_MarginRight'' [''marginRight''] ''get_MarginRight'' [''marginRight'']"

definition ICoreWebView2PrintSettings_put_MarginRight_macro :: cmacro where
  "ICoreWebView2PrintSettings_put_MarginRight_macro =
     Macro ''put_MarginRight'' [''marginRight''] ''put_MarginRight'' [''marginRight'']"

definition ICoreWebView2PrintSettings_get_ShouldPrintBackgrounds_macro :: cmacro where
  "ICoreWebView2PrintSettings_get_ShouldPrintBackgrounds_macro =
     Macro ''get_ShouldPrintBackgrounds'' [''shouldPrintBackgrounds''] ''get_ShouldPrintBackgrounds'' [''shouldPrintBackgrounds'']"

definition ICoreWebView2PrintSettings_put_ShouldPrintBackgrounds_macro :: cmacro where
  "ICoreWebView2PrintSettings_put_ShouldPrintBackgrounds_macro =
     Macro ''put_ShouldPrintBackgrounds'' [''shouldPrintBackgrounds''] ''put_ShouldPrintBackgrounds'' [''shouldPrintBackgrounds'']"

definition ICoreWebView2PrintSettings_get_ShouldPrintSelectionOnly_macro :: cmacro where
  "ICoreWebView2PrintSettings_get_ShouldPrintSelectionOnly_macro =
     Macro ''get_ShouldPrintSelectionOnly'' [''shouldPrintSelectionOnly''] ''get_ShouldPrintSelectionOnly'' [''shouldPrintSelectionOnly'']"

definition ICoreWebView2PrintSettings_put_ShouldPrintSelectionOnly_macro :: cmacro where
  "ICoreWebView2PrintSettings_put_ShouldPrintSelectionOnly_macro =
     Macro ''put_ShouldPrintSelectionOnly'' [''shouldPrintSelectionOnly''] ''put_ShouldPrintSelectionOnly'' [''shouldPrintSelectionOnly'']"

definition ICoreWebView2PrintSettings_get_ShouldPrintHeaderAndFooter_macro :: cmacro where
  "ICoreWebView2PrintSettings_get_ShouldPrintHeaderAndFooter_macro =
     Macro ''get_ShouldPrintHeaderAndFooter'' [''shouldPrintHeaderAndFooter''] ''get_ShouldPrintHeaderAndFooter'' [''shouldPrintHeaderAndFooter'']"

definition ICoreWebView2PrintSettings_put_ShouldPrintHeaderAndFooter_macro :: cmacro where
  "ICoreWebView2PrintSettings_put_ShouldPrintHeaderAndFooter_macro =
     Macro ''put_ShouldPrintHeaderAndFooter'' [''shouldPrintHeaderAndFooter''] ''put_ShouldPrintHeaderAndFooter'' [''shouldPrintHeaderAndFooter'']"

definition ICoreWebView2PrintSettings_get_HeaderTitle_macro :: cmacro where
  "ICoreWebView2PrintSettings_get_HeaderTitle_macro =
     Macro ''get_HeaderTitle'' [''headerTitle''] ''get_HeaderTitle'' [''headerTitle'']"

definition ICoreWebView2PrintSettings_put_HeaderTitle_macro :: cmacro where
  "ICoreWebView2PrintSettings_put_HeaderTitle_macro =
     Macro ''put_HeaderTitle'' [''headerTitle''] ''put_HeaderTitle'' [''headerTitle'']"

definition ICoreWebView2PrintSettings_get_FooterUri_macro :: cmacro where
  "ICoreWebView2PrintSettings_get_FooterUri_macro =
     Macro ''get_FooterUri'' [''footerUri''] ''get_FooterUri'' [''footerUri'']"

definition ICoreWebView2PrintSettings_put_FooterUri_macro :: cmacro where
  "ICoreWebView2PrintSettings_put_FooterUri_macro =
     Macro ''put_FooterUri'' [''footerUri''] ''put_FooterUri'' [''footerUri'']"

definition ICoreWebView2ProcessFailedEventArgs_get_ProcessFailedKind_macro :: cmacro where
  "ICoreWebView2ProcessFailedEventArgs_get_ProcessFailedKind_macro =
     Macro ''get_ProcessFailedKind'' [''processFailedKind''] ''get_ProcessFailedKind'' [''processFailedKind'']"

definition ICoreWebView2WebMessageReceivedEventArgs_get_Source_macro :: cmacro where
  "ICoreWebView2WebMessageReceivedEventArgs_get_Source_macro =
     Macro ''get_Source'' [''source''] ''get_Source'' [''source'']"

definition ICoreWebView2WebMessageReceivedEventArgs_get_WebMessageAsJson_macro :: cmacro where
  "ICoreWebView2WebMessageReceivedEventArgs_get_WebMessageAsJson_macro =
     Macro ''get_WebMessageAsJson'' [''webMessageAsJson''] ''get_WebMessageAsJson'' [''webMessageAsJson'']"

definition ICoreWebView2WebMessageReceivedEventArgs_TryGetWebMessageAsString_macro :: cmacro where
  "ICoreWebView2WebMessageReceivedEventArgs_TryGetWebMessageAsString_macro =
     Macro ''TryGetWebMessageAsString'' [''webMessageAsString''] ''TryGetWebMessageAsString'' [''webMessageAsString'']"

definition ICoreWebView2WebResourceRequestedEventArgs_get_Request_macro :: cmacro where
  "ICoreWebView2WebResourceRequestedEventArgs_get_Request_macro =
     Macro ''get_Request'' [''request''] ''get_Request'' [''request'']"

definition ICoreWebView2WebResourceRequestedEventArgs_get_Response_macro :: cmacro where
  "ICoreWebView2WebResourceRequestedEventArgs_get_Response_macro =
     Macro ''get_Response'' [''response''] ''get_Response'' [''response'']"

definition ICoreWebView2WebResourceRequestedEventArgs_put_Response_macro :: cmacro where
  "ICoreWebView2WebResourceRequestedEventArgs_put_Response_macro =
     Macro ''put_Response'' [''response''] ''put_Response'' [''response'']"

definition ICoreWebView2WebResourceRequestedEventArgs_GetDeferral_macro :: cmacro where
  "ICoreWebView2WebResourceRequestedEventArgs_GetDeferral_macro =
     Macro ''GetDeferral'' [''deferral''] ''GetDeferral'' [''deferral'']"

definition ICoreWebView2WebResourceRequestedEventArgs_get_ResourceContext_macro :: cmacro where
  "ICoreWebView2WebResourceRequestedEventArgs_get_ResourceContext_macro =
     Macro ''get_ResourceContext'' [''context''] ''get_ResourceContext'' [''context'']"

section \<open>Macros of the interfaces\<close>

definition ICoreWebView2AcceleratorKeyPressedEventArgs_macros :: "cmacro list" where
  "ICoreWebView2AcceleratorKeyPressedEventArgs_macros =
     [IUnknown_QueryInterface_macro, IUnknown_AddRef_macro, IUnknown_Release_macro,
      ICoreWebView2AcceleratorKeyPressedEventArgs_get_KeyEventKind_macro,
      ICoreWebView2AcceleratorKeyPressedEventArgs_get_VirtualKey_macro,
      ICoreWebView2AcceleratorKeyPressedEventArgs_get_KeyEventLParam_macro,
      ICoreWebView2AcceleratorKeyPressedEventArgs_get_PhysicalKeyStatus_macro,
      ICoreWebView2AcceleratorKeyPressedEventArgs_get_Handled_macro,
      ICoreWebView2AcceleratorKeyPressedEventArgs_put_Handled_macro]"

definition ICoreWebView2AcceleratorKeyPressedEventArgs2_macros :: "cmacro list" where
  "ICoreWebView2AcceleratorKeyPressedEventArgs2_macros =
     [IUnknown_QueryInterface_macro,
      IUnknown_AddRef_macro,
      IUnknown_Release_macro,
      ICoreWebView2AcceleratorKeyPressedEventArgs_get_KeyEventKind_macro,
      ICoreWebView2AcceleratorKeyPressedEventArgs_get_VirtualKey_macro,
      ICoreWebView2AcceleratorKeyPressedEventArgs_get_KeyEventLParam_macro,
      ICoreWebView2AcceleratorKeyPressedEventArgs_get_PhysicalKeyStatus_macro,
      ICoreWebView2AcceleratorKeyPressedEventArgs_get_Handled_macro,
      ICoreWebView2AcceleratorKeyPressedEventArgs_put_Handled_macro,
      Macro ''get_IsBrowserAcceleratorKeyEnabled'' [''value''] ''get_IsBrowserAcceleratorKeyEnabled'' [''value''],
      Macro ''put_IsBrowserAcceleratorKeyEnabled'' [''value''] ''put_IsBrowserAcceleratorKeyEnabled'' [''value'']]"

definition ICoreWebView2BasicAuthenticationRequestedEventArgs_macros :: "cmacro list" where
  "ICoreWebView2BasicAuthenticationRequestedEventArgs_macros =
     [IUnknown_QueryInterface_macro,
      IUnknown_AddRef_macro,
      IUnknown_Release_macro,
      Macro ''get_Uri'' [''value''] ''get_Uri'' [''value''],
      Macro ''get_Challenge'' [''challenge''] ''get_Challenge'' [''challenge''],
      Macro ''get_Response'' [''response''] ''get_Response'' [''response''],
      Macro ''get_Cancel'' [''cancel''] ''get_Cancel'' [''cancel''],
      Macro ''put_Cancel'' [''cancel''] ''put_Cancel'' [''cancel''],
      Macro ''GetDeferral'' [''deferral''] ''GetDeferral'' [''deferral'']]"

definition ICoreWebView2BasicAuthenticationResponse_macros :: "cmacro list" where
  "ICoreWebView2BasicAuthenticationResponse_macros =
     [IUnknown_QueryInterface_macro,
      IUnknown_AddRef_macro,
      IUnknown_Release_macro,
      Macro ''get_UserName'' [''userName''] ''get_UserName'' [''userName''],
      Macro ''put_UserName'' [''userName''] ''put_UserName'' [''userName''],
      Macro ''get_Password'' [''password''] ''get_Password'' [''password''],
      Macro ''put_Password'' [''password''] ''put_Password'' [''password'']]"

definition ICoreWebView2BrowserProcessExitedEventArgs_macros :: "cmacro list" where
  "ICoreWebView2BrowserProcessExitedEventArgs_macros =
     [IUnknown_QueryInterface_macro,
      IUnknown_AddRef_macro,
      IUnknown_Release_macro,
      Macro ''get_BrowserProcessExitKind'' [''browserProcessExitKind''] ''get_BrowserProcessExitKind'' [''browserProcessExitKind''],
      Macro ''get_BrowserProcessId'' [''value''] ''get_BrowserProcessId'' [''value'']]"

definition ICoreWebView2ContentLoadingEventArgs_macros :: "cmacro list" where
  "ICoreWebView2ContentLoadingEventArgs_macros =
     [IUnknown_QueryInterface_macro,
      IUnknown_AddRef_macro,
      IUnknown_Release_macro,
      Macro ''get_IsErrorPage'' [''isErrorPage''] ''get_IsErrorPage'' [''isErrorPage''],
      Macro ''get_NavigationId'' [''navigationId''] ''get_NavigationId'' [''navigationId'']]"

definition ICoreWebView2ContextMenuRequestedEventArgs_macros :: "cmacro list" where
  "ICoreWebView2ContextMenuRequestedEventArgs_macros =
     [IUnknown_QueryInterface_macro,
      IUnknown_AddRef_macro,
      IUnknown_Release_macro,
      Macro ''get_MenuItems'' [''value''] ''get_MenuItems'' [''value''],
      Macro ''get_ContextMenuTarget'' [''value''] ''get_ContextMenuTarget'' [''value''],
      Macro ''get_Location'' [''value''] ''get_Location'' [''value''],
      Macro ''put_SelectedCommandId'' [''value''] ''put_SelectedCommandId'' [''value''],
      Macro ''get_SelectedCommandId'' [''value''] ''get_SelectedCommandId'' [''value''],
      Macro ''put_Handled'' [''value''] ''put_Handled'' [''value''],
      Macro ''get_Handled'' [''value''] ''get_Handled'' [''value''],
      Macro ''GetDeferral'' [''deferral''] ''GetDeferral'' [''deferral'']]"

definition ICoreWebView2Cookie_macros :: "cmacro list" where
  "ICoreWebView2Cookie_macros =
     [IUnknown_QueryInterface_macro,
      IUnknown_AddRef_macro,
      IUnknown_Release_macro,
      Macro ''get_Name'' [''name''] ''get_Name'' [''name''],
      Macro ''get_Value'' [''value''] ''get_Value'' [''value''],
      Macro ''put_Value'' [''value''] ''put_Value'' [''value''],
      Macro ''get_Domain'' [''domain''] ''get_Domain'' [''domain''],
      Macro ''get_Path'' [''path''] ''get_Path'' [''path''],
      Macro ''get_Expires'' [''expires''] ''get_Expires'' [''expires''],
      Macro ''put_Expires'' [''expires''] ''put_Expires'' [''expires''],
      Macro ''get_IsHttpOnly'' [''isHttpOnly''] ''get_IsHttpOnly'' [''isHttpOnly''],
      Macro ''put_IsHttpOnly'' [''isHttpOnly''] ''put_IsHttpOnly'' [''isHttpOnly''],
      Macro ''get_SameSite'' [''sameSite''] ''get_SameSite'' [''sameSite''],
      Macro ''put_SameSite'' [''sameSite''] ''put_SameSite'' [''sameSite''],
      Macro ''get_IsSecure'' [''isSecure''] ''get_IsSecure'' [''isSecure''],
      Macro ''put_IsSecure'' [''isSecure''] ''put_IsSecure'' [''isSecure''],
      Macro ''get_IsSession'' [''isSession''] ''get_IsSession'' [''isSession'']]"

definition ICoreWebView2CookieList_macros :: "cmacro list" where
  "ICoreWebView2CookieList_macros =
     [IUnknown_QueryInterface_macro,
      IUnknown_AddRef_macro,
      IUnknown_Release_macro,
      Macro ''get_Count'' [''count''] ''get_Count'' [''count''],
      Macro ''GetValueAtIndex'' [''index'', ''cookie''] ''GetValueAtIndex'' [''index'', ''cookie'']]"

definition ICoreWebView2Certificate_macros :: "cmacro list" where
  "ICoreWebView2Certificate_macros =
     [IUnknown_QueryInterface_macro,
      IUnknown_AddRef_macro,
      IUnknown_Release_macro,
      Macro ''get_Subject'' [''value''] ''get_Subject'' [''value''],
      Macro ''get_Issuer'' [''value''] ''get_Issuer'' [''value''],
      Macro ''get_ValidFrom'' [''value''] ''get_ValidFrom'' [''value''],
      Macro ''get_ValidTo'' [''value''] ''get_ValidTo'' [''value''],
      Macro ''get_DerEncodedSerialNumber'' [''value''] ''get_DerEncodedSerialNumber'' [''value''],
      Macro ''get_DisplayName'' [''value''] ''get_DisplayName'' [''value''],
      Macro ''ToPemEncoding'' [''pemEncodedData''] ''ToPemEncoding'' [''pemEncodedData''],
      Macro ''get_PemEncodedIssuerCertificateChain'' [''value''] ''get_PemEncodedIssuerCertificateChain'' [''value'']]"

definition ICoreWebView2ClientCertificate_macros :: "cmacro list" where
  "ICoreWebView2ClientCertificate_macros =
     [IUnknown_QueryInterface_macro,
      IUnknown_AddRef_macro,
      IUnknown_Release_macro,
      Macro ''get_Subject'' [''value''] ''get_Subject'' [''value''],
      Macro ''get_Issuer'' [''value''] ''get_Issuer'' [''value''],
      Macro ''get_ValidFrom'' [''value''] ''get_ValidFrom'' [''value''],
      Macro ''get_ValidTo'' [''value''] ''get_ValidTo'' [''value''],
      Macro ''get_DerEncodedSerialNumber'' [''value''] ''get_DerEncodedSerialNumber'' [''value''],
      Macro ''get_DisplayName'' [''value''] ''get_DisplayName'' [''value''],
      Macro ''ToPemEncoding'' [''pemEncodedData''] ''ToPemEncoding'' [''pemEncodedData''],
      Macro ''get_PemEncodedIssuerCertificateChain'' [''value''] ''get_PemEncodedIssuerCertificateChain'' [''value''],
      Macro ''get_Kind'' [''value''] ''get_Kind'' [''value'']]"

definition ICoreWebView2StringCollection_macros :: "cmacro list" where
  "ICoreWebView2StringCollection_macros =
     [IUnknown_QueryInterface_macro,
      IUnknown_AddRef_macro,
      IUnknown_Release_macro,
      Macro ''get_Count'' [''value''] ''get_Count'' [''value''],
      Macro ''GetValueAtIndex'' [''index'', ''value''] ''GetValueAtIndex'' [''index'', ''value'']]"

definition ICoreWebView2ClientCertificateCollection_macros :: "cmacro list" where
  "ICoreWebView2ClientCertificateCollection_macros =
     [IUnknown_QueryInterface_macro,
      IUnknown_AddRef_macro,
      IUnknown_Release_macro,
      Macro ''get_Count'' [''value''] ''get_Count'' [''value''],
      Macro ''GetValueAtIndex'' [''index'', ''certificate''] ''GetValueAtIndex'' [''index'', ''certificate'']]"

definition ICoreWebView2ClientCertificateRequestedEventArgs_macros :: "cmacro list" where
  "ICoreWebView2ClientCertificateRequestedEventArgs_macros =
     [IUnknown_QueryInterface_macro,
      IUnknown_AddRef_macro,
      IUnknown_Release_macro,
      Macro ''get_Host'' [''value''] ''get_Host'' [''value''],
      Macro ''get_Port'' [''value''] ''get_Port'' [''value''],
      Macro ''get_IsProxy'' [''value''] ''get_IsProxy'' [''value''],
      Macro ''get_AllowedCertificateAuthorities'' [''value''] ''get_AllowedCertificateAuthorities'' [''value''],
      Macro ''get_MutuallyTrustedCertificates'' [''value''] ''get_MutuallyTrustedCertificates'' [''value''],
      Macro ''get_SelectedCertificate'' [''value''] ''get_SelectedCertificate'' [''value''],
      Macro ''put_SelectedCertificate'' [''value''] ''put_SelectedCertificate'' [''value''],
      Macro ''get_Cancel'' [''value''] ''get_Cancel'' [''value''],
      Macro ''put_Cancel'' [''value''] ''put_Cancel'' [''value''],
      Macro ''get_Handled'' [''value''] ''get_Handled'' [''value''],
      Macro ''put_Handled'' [''value''] ''put_Handled'' [''value''],
      Macro ''GetDeferral'' [''deferral''] ''GetDeferral'' [''deferral'']]"

definition ICoreWebView2ContextMenuItem_macros :: "cmacro list" where
  "ICoreWebView2ContextMenuItem_macros =
     [IUnknown_QueryInterface_macro,
      IUnknown_AddRef_macro,
      IUnknown_Release_macro,
      Macro ''get_Name'' [''value''] ''get_Name'' [''value''],
      Macro ''get_Label'' [''value''] ''get_Label'' [''value''],
      Macro ''get_CommandId'' [''value''] ''get_CommandId'' [''value''],
      Macro ''get_ShortcutKeyDescription'' [''value''] ''get_ShortcutKeyDescription'' [''value''],
      Macro ''get_Icon'' [''value''] ''get_Icon'' [''value''],
      Macro ''get_Kind'' [''value''] ''get_Kind'' [''value''],
      Macro ''put_IsEnabled'' [''value''] ''put_IsEnabled'' [''value''],
      Macro ''get_IsEnabled'' [''value''] ''get_IsEnabled'' [''value''],
      Macro ''put_IsChecked'' [''value''] ''put_IsChecked'' [''value''],
      Macro ''get_IsChecked'' [''value''] ''get_IsChecked'' [''value''],
      Macro ''get_Children'' [''value''] ''get_Children'' [''value''],
      Macro ''add_CustomItemSelected'' [''eventHandler'', ''token''] ''add_CustomItemSelected'' [''eventHandler'', ''token''],
      Macro ''remove_CustomItemSelected'' [''token''] ''remove_CustomItemSelected'' [''token'']]"

definition ICoreWebView2ContextMenuItemCollection_macros :: "cmacro list" where
  "ICoreWebView2ContextMenuItemCollection_macros =
     [IUnknown_QueryInterface_macro,
      IUnknown_AddRef_macro,
      IUnknown_Release_macro,
      Macro ''get_Count'' [''value''] ''get_Count'' [''value''],
      Macro ''GetValueAtIndex'' [''index'', ''value''] ''GetValueAtIndex'' [''index'', ''value''],
      Macro ''RemoveValueAtIndex'' [''index''] ''RemoveValueAtIndex'' [''index''],
      Macro ''InsertValueAtIndex'' [''index'', ''value''] ''InsertValueAtIndex'' [''index'', ''value'']]"

definition ICoreWebView2ContextMenuTarget_macros :: "cmacro list" where
  "ICoreWebView2ContextMenuTarget_macros =
     [IUnknown_QueryInterface_macro,
      IUnknown_AddRef_macro,
      IUnknown_Release_macro,
      Macro ''get_Kind'' [''value''] ''get_Kind'' [''value''],
      Macro ''get_IsEditable'' [''value''] ''get_IsEditable'' [''value''],
      Macro ''get_IsRequestedForMainFrame'' [''value''] ''get_IsRequestedForMainFrame'' [''value''],
      Macro ''get_PageUri'' [''value''] ''get_PageUri'' [''value''],
      Macro ''get_FrameUri'' [''value''] ''get_FrameUri'' [''value''],
      Macro ''get_HasLinkUri'' [''value''] ''get_HasLinkUri'' [''value''],
      Macro ''get_LinkUri'' [''value''] ''get_LinkUri'' [''value''],
      Macro ''get_HasLinkText'' [''value''] ''get_HasLinkText'' [''value''],
      Macro ''get_LinkText'' [''value''] ''get_LinkText'' [''value''],
      Macro ''get_HasSourceUri'' [''value''] ''get_HasSourceUri'' [''value''],
      Macro ''get_SourceUri'' [''value''] ''get_SourceUri'' [''value''],
      Macro ''get_HasSelection'' [''value''] ''get_HasSelection'' [''value''],
      Macro ''get_SelectionText'' [''value''] ''get_SelectionText'' [''value'']]"

definition ICoreWebView2CustomSchemeRegistration_macros :: "cmacro list" where
  "ICoreWebView2CustomSchemeRegistration_macros =
     [IUnknown_QueryInterface_macro,
      IUnknown_AddRef_macro,
      IUnknown_Release_macro,
      Macro ''get_SchemeName'' [''schemeName''] ''get_SchemeName'' [''schemeName''],
      Macro ''get_TreatAsSecure'' [''treatAsSecure''] ''get_TreatAsSecure'' [''treatAsSecure''],
      Macro ''put_TreatAsSecure'' [''value''] ''put_TreatAsSecure'' [''value''],
      Macro ''GetAllowedOrigins'' [''allowedOriginsCount'', ''allowedOrigins''] ''GetAllowedOrigins'' [''allowedOriginsCount'', ''allowedOrigins''],
      Macro ''SetAllowedOrigins'' [''allowedOriginsCount'', ''allowedOrigins''] ''SetAllowedOrigins'' [''allowedOriginsCount'', ''allowedOrigins''],
      Macro ''get_HasAuthorityComponent'' [''hasAuthorityComponent''] ''get_HasAuthorityComponent'' [''hasAuthorityComponent''],
      Macro ''put_HasAuthorityComponent'' [''hasAuthorityComponent''] ''put_HasAuthorityComponent'' [''hasAuthorityComponent'']]"

definition ICoreWebView2DOMContentLoadedEventArgs_macros :: "cmacro list" where
  "ICoreWebView2DOMContentLoadedEventArgs_macros =
     [IUnknown_QueryInterface_macro,
      IUnknown_AddRef_macro,
      IUnknown_Release_macro,
      Macro ''get_NavigationId'' [''navigationId''] ''get_NavigationId'' [''navigationId'']]"

definition ICoreWebView2Deferral_macros :: "cmacro list" where
  "ICoreWebView2Deferral_macros =
     [IUnknown_QueryInterface_macro,
      IUnknown_AddRef_macro,
      IUnknown_Release_macro,
      Macro ''Complete'' [] ''Complete'' []]"

definition ICoreWebView2DevToolsProtocolEventReceivedEventArgs_macros :: "cmacro list" where
  "ICoreWebView2DevToolsProtocolEventReceivedEventArgs_macros =
     [IUnknown_QueryInterface_macro, IUnknown_AddRef_macro, IUnknown_Release_macro,
      ICoreWebView2DevToolsProtocolEventReceivedEventArgs_get_ParameterObjectAsJson_macro]"

definition ICoreWebView2DevToolsProtocolEventReceivedEventArgs2_macros :: "cmacro list" where
  "ICoreWebView2DevToolsProtocolEventReceivedEventArgs2_macros =
     [IUnknown_QueryInterface_macro,
      IUnknown_AddRef_macro,
      IUnknown_Release_macro,
      ICoreWebView2DevToolsProtocolEventReceivedEventArgs_get_ParameterObjectAsJson_macro,
      Macro ''get_SessionId'' [''sessionId''] ''get_SessionId'' [''sessionId'']]"

definition ICoreWebView2DevToolsProtocolEventReceiver_macros :: "cmacro list" where
  "ICoreWebView2DevToolsProtocolEventReceiver_macros =
     [IUnknown_QueryInterface_macro,
      IUnknown_AddRef_macro,
      IUnknown_Release_macro,
      Macro ''add_DevToolsProtocolEventReceived'' [''handler'', ''token''] ''add_DevToolsProtocolEventReceived'' [''handler'', ''token''],
      Macro ''remove_DevToolsProtocolEventReceived'' [''token''] ''remove_DevToolsProtocolEventReceived'' [''token'']]"

definition ICoreWebView2DownloadStartingEventArgs_macros :: "cmacro list" where
  "ICoreWebView2DownloadStartingEventArgs_macros =
     [IUnknown_QueryInterface_macro,
      IUnknown_AddRef_macro,
      IUnknown_Release_macro,
      Macro ''get_DownloadOperation'' [''downloadOperation''] ''get_DownloadOperation'' [''downloadOperation''],
      Macro ''get_Cancel'' [''cancel''] ''get_Cancel'' [''cancel''],
      Macro ''put_Cancel'' [''cancel''] ''put_Cancel'' [''cancel''],
      Macro ''get_ResultFilePath'' [''resultFilePath''] ''get_ResultFilePath'' [''resultFilePath''],
      Macro ''put_ResultFilePath'' [''resultFilePath''] ''put_ResultFilePath'' [''resultFilePath''],
      Macro ''get_Handled'' [''handled''] ''get_Handled'' [''handled''],
      Macro ''put_Handled'' [''handled''] ''put_Handled'' [''handled''],
      Macro ''GetDeferral'' [''deferral''] ''GetDeferral'' [''deferral'']]"

definition ICoreWebView2FrameCreatedEventArgs_macros :: "cmacro list" where
  "ICoreWebView2FrameCreatedEventArgs_macros =
     [IUnknown_QueryInterface_macro,
      IUnknown_AddRef_macro,
      IUnknown_Release_macro,
      Macro ''get_Frame'' [''frame''] ''get_Frame'' [''frame'']]"

definition ICoreWebView2HttpHeadersCollectionIterator_macros :: "cmacro list" where
  "ICoreWebView2HttpHeadersCollectionIterator_macros =
     [IUnknown_QueryInterface_macro,
      IUnknown_AddRef_macro,
      IUnknown_Release_macro,
      Macro ''GetCurrentHeader'' [''name'', ''value''] ''GetCurrentHeader'' [''name'', ''value''],
      Macro ''get_HasCurrentHeader'' [''hasCurrent''] ''get_HasCurrentHeader'' [''hasCurrent''],
      Macro ''MoveNext'' [''hasNext''] ''MoveNext'' [''hasNext'']]"

definition ICoreWebView2HttpRequestHeaders_macros :: "cmacro list" where
  "ICoreWebView2HttpRequestHeaders_macros =
     [IUnknown_QueryInterface_macro,
      IUnknown_AddRef_macro,
      IUnknown_Release_macro,
      Macro ''GetHeader'' [''name'', ''value''] ''GetHeader'' [''name'', ''value''],
      Macro ''GetHeaders'' [''name'', ''iterator''] ''GetHeaders'' [''name'', ''iterator''],
      Macro ''Contains'' [''name'', ''contains''] ''Contains'' [''name'', ''contains''],
      Macro ''SetHeader'' [''name'', ''value''] ''SetHeader'' [''name'', ''value''],
      Macro ''RemoveHeader'' [''name''] ''RemoveHeader'' [''name''],
      Macro ''GetIterator'' [''iterator''] ''GetIterator'' [''iterator'']]"

definition ICoreWebView2HttpResponseHeaders_macros :: "cmacro list" where
  "ICoreWebView2HttpResponseHeaders_macros =
     [IUnknown_QueryInterface_macro,
      IUnknown_AddRef_macro,
      IUnknown_Release_macro,
      Macro ''AppendHeader'' [''name'', ''value''] ''AppendHeader'' [''name'', ''value''],
      Macro ''Contains'' [''name'', ''contains''] ''Contains'' [''name'', ''contains''],
      Macro ''GetHeader'' [''name'', ''value''] ''GetHeader'' [''name'', ''value''],
      Macro ''GetHeaders'' [''name'', ''iterator''] ''GetHeaders'' [''name'', ''iterator''],
      Macro ''GetIterator'' [''iterator''] ''GetIterator'' [''iterator'']]"

definition ICoreWebView2LaunchingExternalUriSchemeEventArgs_macros :: "cmacro list" where
  "ICoreWebView2LaunchingExternalUriSchemeEventArgs_macros =
     [IUnknown_QueryInterface_macro,
      IUnknown_AddRef_macro,
      IUnknown_Release_macro,
      Macro ''get_Uri'' [''value''] ''get_Uri'' [''value''],
      Macro ''get_InitiatingOrigin'' [''value''] ''get_InitiatingOrigin'' [''value''],
      Macro ''get_IsUserInitiated'' [''value''] ''get_IsUserInitiated'' [''value''],
      Macro ''get_Cancel'' [''value''] ''get_Cancel'' [''value''],
      Macro ''put_Cancel'' [''value''] ''put_Cancel'' [''value''],
      Macro ''GetDeferral'' [''value''] ''GetDeferral'' [''value'']]"

definition ICoreWebView2MoveFocusRequestedEventArgs_macros :: "cmacro list" where
  "ICoreWebView2MoveFocusRequestedEventArgs_macros =
     [IUnknown_QueryInterface_macro,
      IUnknown_AddRef_macro,
      IUnknown_Release_macro,
      Macro ''get_Reason'' [''reason''] ''get_Reason'' [''reason''],
      Macro ''get_Handled'' [''value''] ''get_Handled'' [''value''],
      Macro ''put_Handled'' [''value''] ''put_Handled'' [''value'']]"

definition ICoreWebView2NavigationCompletedEventArgs_macros :: "cmacro list" where
  "ICoreWebView2NavigationCompletedEventArgs_macros =
     [IUnknown_QueryInterface_macro, IUnknown_AddRef_macro, IUnknown_Release_macro,
      ICoreWebView2NavigationCompletedEventArgs_get_IsSuccess_macro,
      ICoreWebView2NavigationCompletedEventArgs_get_WebErrorStatus_macro,
      ICoreWebView2NavigationCompletedEventArgs_get_NavigationId_macro]"

definition ICoreWebView2NavigationCompletedEventArgs2_macros :: "cmacro list" where
  "ICoreWebView2NavigationCompletedEventArgs2_macros =
     [IUnknown_QueryInterface_macro,
      IUnknown_AddRef_macro,
      IUnknown_Release_macro,
      ICoreWebView2NavigationCompletedEventArgs_get_IsSuccess_macro,
      ICoreWebView2NavigationCompletedEventArgs_get_WebErrorStatus_macro,
      ICoreWebView2NavigationCompletedEventArgs_get_NavigationId_macro,
      Macro ''get_HttpStatusCode'' [''http_status_code''] ''get_HttpStatusCode'' [''http_status_code'']]"

definition ICoreWebView2NavigationStartingEventArgs_macros :: "cmacro list" where
  "ICoreWebView2NavigationStartingEventArgs_macros =
     [IUnknown_QueryInterface_macro, IUnknown_AddRef_macro, IUnknown_Release_macro,
      ICoreWebView2NavigationStartingEventArgs_get_Uri_macro,
      ICoreWebView2NavigationStartingEventArgs_get_IsUserInitiated_macro,
      ICoreWebView2NavigationStartingEventArgs_get_IsRedirected_macro,
      ICoreWebView2NavigationStartingEventArgs_get_RequestHeaders_macro,
      ICoreWebView2NavigationStartingEventArgs_get_Cancel_macro,
      ICoreWebView2NavigationStartingEventArgs_put_Cancel_macro,
      ICoreWebView2NavigationStartingEventArgs_get_NavigationId_macro]"

definition ICoreWebView2NavigationStartingEventArgs2_macros :: "cmacro list" where
  "ICoreWebView2NavigationStartingEventArgs2_macros =
     [IUnknown_QueryInterface_macro, IUnknown_AddRef_macro, IUnknown_Release_macro,
      ICoreWebView2NavigationStartingEventArgs_get_Uri_macro,
      ICoreWebView2NavigationStartingEventArgs_get_IsUserInitiated_macro,
      ICoreWebView2NavigationStartingEventArgs_get_IsRedirected_macro,
      ICoreWebView2NavigationStartingEventArgs_get_RequestHeaders_macro,
      ICoreWebView2NavigationStartingEventArgs_get_Cancel_macro,
      ICoreWebView2NavigationStartingEventArgs_put_Cancel_macro,
      ICoreWebView2NavigationStartingEventArgs_get_NavigationId_macro,
      ICoreWebView2NavigationStartingEventArgs2_get_AdditionalAllowedFrameAncestors_macro,
      ICoreWebView2NavigationStartingEventArgs2_put_AdditionalAllowedFrameAncestors_macro]"

definition ICoreWebView2NavigationStartingEventArgs3_macros :: "cmacro list" where
  "ICoreWebView2NavigationStartingEventArgs3_macros =
     [IUnknown_QueryInterface_macro,
      IUnknown_AddRef_macro,
      IUnknown_Release_macro,
      ICoreWebView2NavigationStartingEventArgs_get_Uri_macro,
      ICoreWebView2NavigationStartingEventArgs_get_IsUserInitiated_macro,
      ICoreWebView2NavigationStartingEventArgs_get_IsRedirected_macro,
      ICoreWebView2NavigationStartingEventArgs_get_RequestHeaders_macro,
      ICoreWebView2NavigationStartingEventArgs_get_Cancel_macro,
      ICoreWebView2NavigationStartingEventArgs_put_Cancel_macro,
      ICoreWebView2NavigationStartingEventArgs_get_NavigationId_macro,
      ICoreWebView2NavigationStartingEventArgs2_get_AdditionalAllowedFrameAncestors_macro,
      ICoreWebView2NavigationStartingEventArgs2_put_AdditionalAllowedFrameAncestors_macro,
      Macro ''get_NavigationKind'' [''navigation_kind''] ''get_NavigationKind'' [''navigation_kind'']]"

definition ICoreWebView2NewWindowRequestedEventArgs_macros :: "cmacro list" where
  "ICoreWebView2NewWindowRequestedEventArgs_macros =
     [IUnknown_QueryInterface_macro, IUnknown_AddRef_macro, IUnknown_Release_macro,
      ICoreWebView2NewWindowRequestedEventArgs_get_Uri_macro,
      ICoreWebView2NewWindowRequestedEventArgs_put_NewWindow_macro,
      ICoreWebView2NewWindowRequestedEventArgs_get_NewWindow_macro,
      ICoreWebView2NewWindowRequestedEventArgs_put_Handled_macro,
      ICoreWebView2NewWindowRequestedEventArgs_get_Handled_macro,
      ICoreWebView2NewWindowRequestedEventArgs_get_IsUserInitiated_macro,
      ICoreWebView2NewWindowRequestedEventArgs_GetDeferral_macro,
      ICoreWebView2NewWindowRequestedEventArgs_get_WindowFeatures_macro]"

definition ICoreWebView2NewWindowRequestedEventArgs2_macros :: "cmacro list" where
  "ICoreWebView2NewWindowRequestedEventArgs2_macros =
     [IUnknown_QueryInterface_macro, IUnknown_AddRef_macro, IUnknown_Release_macro,
      ICoreWebView2NewWindowRequestedEventArgs_get_Uri_macro,
      ICoreWebView2NewWindowRequestedEventArgs_put_NewWindow_macro,
      ICoreWebView2NewWindowRequestedEventArgs_get_NewWindow_macro,
      ICoreWebView2NewWindowRequestedEventArgs_put_Handled_macro,
      ICoreWebView2NewWindowRequestedEventArgs_get_Handled_macro,
      ICoreWebView2NewWindowRequestedEventArgs_get_IsUserInitiated_macro,
      ICoreWebView2NewWindowRequestedEventArgs_GetDeferral_macro,
      ICoreWebView2NewWindowRequestedEventArgs_get_WindowFeatures_macro,
      ICoreWebView2NewWindowRequestedEventArgs2_get_Name_macro]"

definition ICoreWebView2NewWindowRequestedEventArgs3_macros :: "cmacro list" where
  "ICoreWebView2NewWindowRequestedEventArgs3_macros =
     [IUnknown_QueryInterface_macro,
      IUnknown_AddRef_macro,
      IUnknown_Release_macro,
      ICoreWebView2NewWindowRequestedEventArgs_get_Uri_macro,
      ICoreWebView2NewWindowRequestedEventArgs_put_NewWindow_macro,
      ICoreWebView2NewWindowRequestedEventArgs_get_NewWindow_macro,
      ICoreWebView2NewWindowRequestedEventArgs_put_Handled_macro,
      ICoreWebView2NewWindowRequestedEventArgs_get_Handled_macro,
      ICoreWebView2NewWindowRequestedEventArgs_get_IsUserInitiated_macro,
      ICoreWebView2NewWindowRequestedEventArgs_GetDeferral_macro,
      ICoreWebView2NewWindowRequestedEventArgs_get_WindowFeatures_macro,
      ICoreWebView2NewWindowRequestedEventArgs2_get_Name_macro,
      Macro ''get_OriginalSourceFrameInfo'' [''frameInfo''] ''get_OriginalSourceFrameInfo'' [''frameInfo'']]"

definition ICoreWebView2PermissionRequestedEventArgs_macros :: "cmacro list" where
  "ICoreWebView2PermissionRequestedEventArgs_macros =
     [IUnknown_QueryInterface_macro, IUnknown_AddRef_macro, IUnknown_Release_macro,
      ICoreWebView2PermissionRequestedEventArgs_get_Uri_macro,
      ICoreWebView2PermissionRequestedEventArgs_get_PermissionKind_macro,
      ICoreWebView2PermissionRequestedEventArgs_get_IsUserInitiated_macro,
      ICoreWebView2PermissionRequestedEventArgs_get_State_macro,
      ICoreWebView2PermissionRequestedEventArgs_put_State_macro,
      ICoreWebView2PermissionRequestedEventArgs_GetDeferral_macro]"

definition ICoreWebView2PermissionRequestedEventArgs2_macros :: "cmacro list" where
  "ICoreWebView2PermissionRequestedEventArgs2_macros =
     [IUnknown_QueryInterface_macro, IUnknown_AddRef_macro, IUnknown_Release_macro,
      ICoreWebView2PermissionRequestedEventArgs_get_Uri_macro,
      ICoreWebView2PermissionRequestedEventArgs_get_PermissionKind_macro,
      ICoreWebView2PermissionRequestedEventArgs_get_IsUserInitiated_macro,
      ICoreWebView2PermissionRequestedEventArgs_get_State_macro,
      ICoreWebView2PermissionRequestedEventArgs_put_State_macro,
      ICoreWebView2PermissionRequestedEventArgs_GetDeferral_macro,
      ICoreWebView2PermissionRequestedEventArgs2_get_Handled_macro,
      ICoreWebView2PermissionRequestedEventArgs2_put_Handled_macro]"

definition ICoreWebView2PermissionRequestedEventArgs3_macros :: "cmacro list" where
  "ICoreWebView2PermissionRequestedEventArgs3_macros =
     [IUnknown_QueryInterface_macro,
      IUnknown_AddRef_macro,
      IUnknown_Release_macro,
      ICoreWebView2PermissionRequestedEventArgs_get_Uri_macro,
      ICoreWebView2PermissionRequestedEventArgs_get_PermissionKind_macro,
      ICoreWebView2PermissionRequestedEventArgs_get_IsUserInitiated_macro,
      ICoreWebView2PermissionRequestedEventArgs_get_State_macro,
      ICoreWebView2PermissionRequestedEventArgs_put_State_macro,
      ICoreWebView2PermissionRequestedEventArgs_GetDeferral_macro,
      ICoreWebView2PermissionRequestedEventArgs2_get_Handled_macro,
      ICoreWebView2PermissionRequestedEventArgs2_put_Handled_macro,
      Macro ''get_SavesInProfile'' [''value''] ''get_SavesInProfile'' [''value''],
      Macro ''put_SavesInProfile'' [''value''] ''put_SavesInProfile'' [''value'']]"

definition ICoreWebView2PermissionSettingCollectionView_macros :: "cmacro list" where
  "ICoreWebView2PermissionSettingCollectionView_macros =
     [IUnknown_QueryInterface_macro,
      IUnknown_AddRef_macro,
      IUnknown_Release_macro,
      Macro ''GetValueAtIndex'' [''index'', ''permissionSetting''] ''GetValueAtIndex'' [''index'', ''permissionSetting''],
      Macro ''get_Count'' [''value''] ''get_Count'' [''value'']]"

definition ICoreWebView2PermissionSetting_macros :: "cmacro list" where
  "ICoreWebView2PermissionSetting_macros =
     [IUnknown_QueryInterface_macro,
      IUnknown_AddRef_macro,
      IUnknown_Release_macro,
      Macro ''get_PermissionKind'' [''value''] ''get_PermissionKind'' [''value''],
      Macro ''get_PermissionOrigin'' [''value''] ''get_PermissionOrigin'' [''value''],
      Macro ''get_PermissionState'' [''value''] ''get_PermissionState'' [''value'']]"

definition ICoreWebView2PointerInfo_macros_1 :: "cmacro list" where
  "ICoreWebView2PointerInfo_macros_1 =
     [IUnknown_QueryInterface_macro,
      IUnknown_AddRef_macro,
      IUnknown_Release_macro,
      Macro ''get_PointerKind'' [''pointerKind''] ''get_PointerKind'' [''pointerKind''],
      Macro ''put_PointerKind'' [''pointerKind''] ''put_PointerKind'' [''pointerKind''],
      Macro ''get_PointerId'' [''pointerId''] ''get_PointerId'' [''pointerId''],
      Macro ''put_PointerId'' [''pointerId''] ''put_PointerId'' [''pointerId''],
      Macro ''get_FrameId'' [''frameId''] ''get_FrameId'' [''frameId''],
      Macro ''put_FrameId'' [''frameId''] ''put_FrameId'' [''frameId''],
      Macro ''get_PointerFlags'' [''pointerFlags''] ''get_PointerFlags'' [''pointerFlags''],
      Macro ''put_PointerFlags'' [''pointerFlags''] ''put_PointerFlags'' [''pointerFlags''],
      Macro ''get_PointerDeviceRect'' [''pointerDeviceRect''] ''get_PointerDeviceRect'' [''pointerDeviceRect''],
      Macro ''put_PointerDeviceRect'' [''pointerDeviceRect''] ''put_PointerDeviceRect'' [''pointerDeviceRect''],
      Macro ''get_DisplayRect'' [''displayRect''] ''get_DisplayRect'' [''displayRect''],
      Macro ''put_DisplayRect'' [''displayRect''] ''put_DisplayRect'' [''displayRect''],
      Macro ''get_PixelLocation'' [''pixelLocation''] ''get_PixelLocation'' [''pixelLocation''],
      Macro ''put_PixelLocation'' [''pixelLocation''] ''put_PixelLocation'' [''pixelLocation''],
      Macro ''get_HimetricLocation'' [''himetricLocation''] ''get_HimetricLocation'' [''himetricLocation''],
      Macro ''put_HimetricLocation'' [''himetricLocation''] ''put_HimetricLocation'' [''himetricLocation''],
      Macro ''get_PixelLocationRaw'' [''pixelLocationRaw''] ''get_PixelLocationRaw'' [''pixelLocationRaw''],
      Macro ''put_PixelLocationRaw'' [''pixelLocationRaw''] ''put_PixelLocationRaw'' [''pixelLocationRaw''],
      Macro ''get_HimetricLocationRaw'' [''himetricLocationRaw''] ''get_HimetricLocationRaw'' [''himetricLocationRaw''],
      Macro ''put_HimetricLocationRaw'' [''himetricLocationRaw''] ''put_HimetricLocationRaw'' [''himetricLocationRaw''],
      Macro ''get_Time'' [''time''] ''get_Time'' [''time''],
      Macro ''put_Time'' [''time''] ''put_Time'' [''time''],
      Macro ''get_HistoryCount'' [''historyCount''] ''get_HistoryCount'' [''historyCount''],
      Macro ''put_HistoryCount'' [''historyCount''] ''put_HistoryCount'' [''historyCount''],
      Macro ''get_InputData'' [''inputData''] ''get_InputData'' [''inputData''],
      Macro ''put_InputData'' [''inputData''] ''put_InputData'' [''inputData''],
      Macro ''get_KeyStates'' [''keyStates''] ''get_KeyStates'' [''keyStates''],
      Macro ''put_KeyStates'' [''keyStates''] ''put_KeyStates'' [''keyStates''],
      Macro ''get_PerformanceCount'' [''performanceCount''] ''get_PerformanceCount'' [''performanceCount''],
      Macro ''put_PerformanceCount'' [''performanceCount''] ''put_PerformanceCount'' [''performanceCount''],
      Macro ''get_ButtonChangeKind'' [''buttonChangeKind''] ''get_ButtonChangeKind'' [''buttonChangeKind''],
      Macro ''put_ButtonChangeKind'' [''buttonChangeKind''] ''put_ButtonChangeKind'' [''buttonChangeKind''],
      Macro ''get_PenFlags'' [''penFLags''] ''get_PenFlags'' [''penFLags''],
      Macro ''put_PenFlags'' [''penFLags''] ''put_PenFlags'' [''penFLags''],
      Macro ''get_PenMask'' [''penMask''] ''get_PenMask'' [''penMask''],
      Macro ''put_PenMask'' [''penMask''] ''put_PenMask'' [''penMask''],
      Macro ''get_PenPressure'' [''penPressure''] ''get_PenPressure'' [''penPressure''],
      Macro ''put_PenPressure'' [''penPressure''] ''put_PenPressure'' [''penPressure''],
      Macro ''get_PenRotation'' [''penRotation''] ''get_PenRotation'' [''penRotation''],
      Macro ''put_PenRotation'' [''penRotation''] ''put_PenRotation'' [''penRotation''],
      Macro ''get_PenTiltX'' [''penTiltX''] ''get_PenTiltX'' [''penTiltX''],
      Macro ''put_PenTiltX'' [''penTiltX''] ''put_PenTiltX'' [''penTiltX''],
      Macro ''get_PenTiltY'' [''penTiltY''] ''get_PenTiltY'' [''penTiltY''],
      Macro ''put_PenTiltY'' [''penTiltY''] ''put_PenTiltY'' [''penTiltY''],
      Macro ''get_TouchFlags'' [''touchFlags''] ''get_TouchFlags'' [''touchFlags''],
      Macro ''put_TouchFlags'' [''touchFlags''] ''put_TouchFlags'' [''touchFlags'']]"

definition ICoreWebView2PointerInfo_macros_2 :: "cmacro list" where
  "ICoreWebView2PointerInfo_macros_2 =
     [Macro ''get_TouchMask'' [''touchMask''] ''get_TouchMask'' [''touchMask''],
      Macro ''put_TouchMask'' [''touchMask''] ''put_TouchMask'' [''touchMask''],
      Macro ''get_TouchContact'' [''touchContact''] ''get_TouchContact'' [''touchContact''],
      Macro ''put_TouchContact'' [''touchContact''] ''put_TouchContact'' [''touchContact''],
      Macro ''get_TouchContactRaw'' [''touchContactRaw''] ''get_TouchContactRaw'' [''touchContactRaw''],
      Macro ''put_TouchContactRaw'' [''touchContactRaw''] ''put_TouchContactRaw'' [''touchContactRaw''],
      Macro ''get_TouchOrientation'' [''touchOrientation''] ''get_TouchOrientation'' [''touchOrientation''],
      Macro ''put_TouchOrientation'' [''touchOrientation''] ''put_TouchOrientation'' [''touchOrientation''],
      Macro ''get_TouchPressure'' [''touchPressure''] ''get_TouchPressure'' [''touchPressure''],
      Macro ''put_TouchPressure'' [''touchPressure''] ''put_TouchPressure'' [''touchPressure'']]"

definition ICoreWebView2PointerInfo_macros :: "cmacro list" where
  "ICoreWebView2PointerInfo_macros = ICoreWebView2PointerInfo_macros_1 @ ICoreWebView2PointerInfo_macros_2"

definition ICoreWebView2PrintSettings_macros :: "cmacro list" where
  "ICoreWebView2PrintSettings_macros =
     [IUnknown_QueryInterface_macro, IUnknown_AddRef_macro, IUnknown_Release_macro,
      ICoreWebView2PrintSettings_get_Orientation_macro, ICoreWebView2PrintSettings_put_Orientation_macro,
      ICoreWebView2PrintSettings_get_ScaleFactor_macro, ICoreWebView2PrintSettings_put_ScaleFactor_macro,
      ICoreWebView2PrintSettings_get_PageWidth_macro, ICoreWebView2PrintSettings_put_PageWidth_macro,
      ICoreWebView2PrintSettings_get_PageHeight_macro, ICoreWebView2PrintSettings_put_PageHeight_macro,
      ICoreWebView2PrintSettings_get_MarginTop_macro, ICoreWebView2PrintSettings_put_MarginTop_macro,
      ICoreWebView2PrintSettings_get_MarginBottom_macro, ICoreWebView2PrintSettings_put_MarginBottom_macro,
      ICoreWebView2PrintSettings_get_MarginLeft_macro, ICoreWebView2PrintSettings_put_MarginLeft_macro,
      ICoreWebView2PrintSettings_get_MarginRight_macro, ICoreWebView2PrintSettings_put_MarginRight_macro,
      ICoreWebView2PrintSettings_get_ShouldPrintBackgrounds_macro,
      ICoreWebView2PrintSettings_put_ShouldPrintBackgrounds_macro,
      ICoreWebView2PrintSettings_get_ShouldPrintSelectionOnly_macro,
      ICoreWebView2PrintSettings_put_ShouldPrintSelectionOnly_macro,
      ICoreWebView2PrintSettings_get_ShouldPrintHeaderAndFooter_macro,
      ICoreWebView2PrintSettings_put_ShouldPrintHeaderAndFooter_macro,
      ICoreWebView2PrintSettings_get_HeaderTitle_macro, ICoreWebView2PrintSettings_put_HeaderTitle_macro,
      ICoreWebView2PrintSettings_get_FooterUri_macro, ICoreWebView2PrintSettings_put_FooterUri_macro]"

definition ICoreWebView2PrintSettings2_macros :: "cmacro list" where
  "ICoreWebView2PrintSettings2_macros =
     [IUnknown_QueryInterface_macro,
      IUnknown_AddRef_macro,
      IUnknown_Release_macro,
      ICoreWebView2PrintSettings_get_Orientation_macro,
      ICoreWebView2PrintSettings_put_Orientation_macro,
      ICoreWebView2PrintSettings_get_ScaleFactor_macro,
      ICoreWebView2PrintSettings_put_ScaleFactor_macro,
      ICoreWebView2PrintSettings_get_PageWidth_macro,
      ICoreWebView2PrintSettings_put_PageWidth_macro,
      ICoreWebView2PrintSettings_get_PageHeight_macro,
      ICoreWebView2PrintSettings_put_PageHeight_macro,
      ICoreWebView2PrintSettings_get_MarginTop_macro,
      ICoreWebView2PrintSettings_put_MarginTop_macro,
      ICoreWebView2PrintSettings_get_MarginBottom_macro,
      ICoreWebView2PrintSettings_put_MarginBottom_macro,
      ICoreWebView2PrintSettings_get_MarginLeft_macro,
      ICoreWebView2PrintSettings_put_MarginLeft_macro,
      ICoreWebView2PrintSettings_get_MarginRight_macro,
      ICoreWebView2PrintSettings_put_MarginRight_macro,
      ICoreWebView2PrintSettings_get_ShouldPrintBackgrounds_macro,
      ICoreWebView2PrintSettings_put_ShouldPrintBackgrounds_macro,
      ICoreWebView2PrintSettings_get_ShouldPrintSelectionOnly_macro,
      ICoreWebView2PrintSettings_put_ShouldPrintSelectionOnly_macro,
      ICoreWebView2PrintSettings_get_ShouldPrintHeaderAndFooter_macro,
      ICoreWebView2PrintSettings_put_ShouldPrintHeaderAndFooter_macro,
      ICoreWebView2PrintSettings_get_HeaderTitle_macro,
      ICoreWebView2PrintSettings_put_HeaderTitle_macro,
      ICoreWebView2PrintSettings_get_FooterUri_macro,
      ICoreWebView2PrintSettings_put_FooterUri_macro,
      Macro ''get_PageRanges'' [''value''] ''get_PageRanges'' [''value''],
      Macro ''put_PageRanges'' [''value''] ''put_PageRanges'' [''value''],
      Macro ''get_PagesPerSide'' [''value''] ''get_PagesPerSide'' [''value''],
      Macro ''put_PagesPerSide'' [''value''] ''put_PagesPerSide'' [''value''],
      Macro ''get_Copies'' [''value''] ''get_Copies'' [''value''],
      Macro ''put_Copies'' [''value''] ''put_Copies'' [''value''],
      Macro ''get_Collation'' [''value''] ''get_Collation'' [''value''],
      Macro ''put_Collation'' [''value''] ''put_Collation'' [''value''],
      Macro ''get_ColorMode'' [''value''] ''get_ColorMode'' [''value''],
      Macro ''put_ColorMode'' [''value''] ''put_ColorMode'' [''value''],
      Macro ''get_Duplex'' [''value''] ''get_Duplex'' [''value''],
      Macro ''put_Duplex'' [''value''] ''put_Duplex'' [''value''],
      Macro ''get_MediaSize'' [''value''] ''get_MediaSize'' [''value''],
      Macro ''put_MediaSize'' [''value''] ''put_MediaSize'' [''value''],
      Macro ''get_PrinterName'' [''value''] ''get_PrinterName'' [''value''],
      Macro ''put_PrinterName'' [''value''] ''put_PrinterName'' [''value'']]"

definition ICoreWebView2ProcessFailedEventArgs_macros :: "cmacro list" where
  "ICoreWebView2ProcessFailedEventArgs_macros =
     [IUnknown_QueryInterface_macro, IUnknown_AddRef_macro, IUnknown_Release_macro,
      ICoreWebView2ProcessFailedEventArgs_get_ProcessFailedKind_macro]"

definition ICoreWebView2ProcessFailedEventArgs2_macros :: "cmacro list" where
  "ICoreWebView2ProcessFailedEventArgs2_macros =
     [IUnknown_QueryInterface_macro,
      IUnknown_AddRef_macro,
      IUnknown_Release_macro,
      ICoreWebView2ProcessFailedEventArgs_get_ProcessFailedKind_macro,
      Macro ''get_Reason'' [''reason''] ''get_Reason'' [''reason''],
      Macro ''get_ExitCode'' [''exitCode''] ''get_ExitCode'' [''exitCode''],
      Macro ''get_ProcessDescription'' [''processDescription''] ''get_ProcessDescription'' [''processDescription''],
      Macro ''get_FrameInfosForFailedProcess'' [''frames''] ''get_FrameInfosForFailedProcess'' [''frames'']]"

definition ICoreWebView2ServerCertificateErrorDetectedEventArgs_macros :: "cmacro list" where
  "ICoreWebView2ServerCertificateErrorDetectedEventArgs_macros =
     [IUnknown_QueryInterface_macro,
      IUnknown_AddRef_macro,
      IUnknown_Release_macro,
      Macro ''get_ErrorStatus'' [''value''] ''get_ErrorStatus'' [''value''],
      Macro ''get_RequestUri'' [''value''] ''get_RequestUri'' [''value''],
      Macro ''get_ServerCertificate'' [''value''] ''get_ServerCertificate'' [''value''],
      Macro ''get_Action'' [''value''] ''get_Action'' [''value''],
      Macro ''put_Action'' [''value''] ''put_Action'' [''value''],
      Macro ''GetDeferral'' [''deferral''] ''GetDeferral'' [''deferral'']]"

definition ICoreWebView2ScriptDialogOpeningEventArgs_macros :: "cmacro list" where
  "ICoreWebView2ScriptDialogOpeningEventArgs_macros =
     [IUnknown_QueryInterface_macro,
      IUnknown_AddRef_macro,
      IUnknown_Release_macro,
      Macro ''get_Uri'' [''uri''] ''get_Uri'' [''uri''],
      Macro ''get_Kind'' [''kind''] ''get_Kind'' [''kind''],
      Macro ''get_Message'' [''message''] ''get_Message'' [''message''],
      Macro ''Accept'' [] ''Accept'' [],
      Macro ''get_DefaultText'' [''defaultText''] ''get_DefaultText'' [''defaultText''],
      Macro ''get_ResultText'' [''resultText''] ''get_ResultText'' [''resultText''],
      Macro ''put_ResultText'' [''resultText''] ''put_ResultText'' [''resultText''],
      Macro ''GetDeferral'' [''deferral''] ''GetDeferral'' [''deferral'']]"

definition ICoreWebView2SourceChangedEventArgs_macros :: "cmacro list" where
  "ICoreWebView2SourceChangedEventArgs_macros =
     [IUnknown_QueryInterface_macro,
      IUnknown_AddRef_macro,
      IUnknown_Release_macro,
      Macro ''get_IsNewDocument'' [''isNewDocument''] ''get_IsNewDocument'' [''isNewDocument'']]"

definition ICoreWebView2WebMessageReceivedEventArgs_macros :: "cmacro list" where
  "ICoreWebView2WebMessageReceivedEventArgs_macros =
     [IUnknown_QueryInterface_macro, IUnknown_AddRef_macro, IUnknown_Release_macro,
      ICoreWebView2WebMessageReceivedEventArgs_get_Source_macro,
      ICoreWebView2WebMessageReceivedEventArgs_get_WebMessageAsJson_macro,
      ICoreWebView2WebMessageReceivedEventArgs_TryGetWebMessageAsString_macro]"

definition ICoreWebView2WebResourceRequest_macros :: "cmacro list" where
  "ICoreWebView2WebResourceRequest_macros =
     [IUnknown_QueryInterface_macro,
      IUnknown_AddRef_macro,
      IUnknown_Release_macro,
      Macro ''get_Uri'' [''uri''] ''get_Uri'' [''uri''],
      Macro ''put_Uri'' [''uri''] ''put_Uri'' [''uri''],
      Macro ''get_Method'' [''method''] ''get_Method'' [''method''],
      Macro ''put_Method'' [''method''] ''put_Method'' [''method''],
      Macro ''get_Content'' [''content''] ''get_Content'' [''content''],
      Macro ''put_Content'' [''content''] ''put_Content'' [''content''],
      Macro ''get_Headers'' [''headers''] ''get_Headers'' [''headers'']]"

definition ICoreWebView2WebResourceRequestedEventArgs_macros :: "cmacro list" where
  "ICoreWebView2WebResourceRequestedEventArgs_macros =
     [IUnknown_QueryInterface_macro, IUnknown_AddRef_macro, IUnknown_Release_macro,
      ICoreWebView2WebResourceRequestedEventArgs_get_Request_macro,
      ICoreWebView2WebResourceRequestedEventArgs_get_Response_macro,
      ICoreWebView2WebResourceRequestedEventArgs_put_Response_macro,
      ICoreWebView2WebResourceRequestedEventArgs_GetDeferral_macro,
      ICoreWebView2WebResourceRequestedEventArgs_get_ResourceContext_macro]"

definition ICoreWebView2WebResourceRequestedEventArgs2_macros :: "cmacro list" where
  "ICoreWebView2WebResourceRequestedEventArgs2_macros =
     [IUnknown_QueryInterface_macro,
      IUnknown_AddRef_macro,
      IUnknown_Release_macro,
      ICoreWebView2WebResourceRequestedEventArgs_get_Request_macro,
      ICoreWebView2WebResourceRequestedEventArgs_get_Response_macro,
      ICoreWebView2WebResourceRequestedEventArgs_put_Response_macro,
      ICoreWebView2WebResourceRequestedEventArgs_GetDeferral_macro,
      ICoreWebView2WebResourceRequestedEventArgs_get_ResourceContext_macro,
      Macro ''get_RequestedSourceKind'' [''requestedSourceKind''] ''get_RequestedSourceKind'' [''requestedSourceKind'']]"

definition ICoreWebView2WebResourceResponse_macros :: "cmacro list" where
  "ICoreWebView2WebResourceResponse_macros =
     [IUnknown_QueryInterface_macro,
      IUnknown_AddRef_macro,
      IUnknown_Release_macro,
      Macro ''get_Content'' [''content''] ''get_Content'' [''content''],
      Macro ''put_Content'' [''content''] ''put_Content'' [''content''],
      Macro ''get_Headers'' [''headers''] ''get_Headers'' [''headers''],
      Macro ''get_StatusCode'' [''statusCode''] ''get_StatusCode'' [''statusCode''],
      Macro ''put_StatusCode'' [''statusCode''] ''put_StatusCode'' [''statusCode''],
      Macro ''get_ReasonPhrase'' [''reasonPhrase''] ''get_ReasonPhrase'' [''reasonPhrase''],
      Macro ''put_ReasonPhrase'' [''reasonPhrase''] ''put_ReasonPhrase'' [''reasonPhrase'']]"

definition ICoreWebView2WebResourceResponseReceivedEventArgs_macros :: "cmacro list" where
  "ICoreWebView2WebResourceResponseReceivedEventArgs_macros =
     [IUnknown_QueryInterface_macro,
      IUnknown_AddRef_macro,
      IUnknown_Release_macro,
      Macro ''get_Request'' [''request''] ''get_Request'' [''request''],
      Macro ''get_Response'' [''response''] ''get_Response'' [''response'']]"

definition ICoreWebView2WebResourceResponseView_macros :: "cmacro list" where
  "ICoreWebView2WebResourceResponseView_macros =
     [IUnknown_QueryInterface_macro,
      IUnknown_AddRef_macro,
      IUnknown_Release_macro,
      Macro ''get_Headers'' [''headers''] ''get_Headers'' [''headers''],
      Macro ''get_StatusCode'' [''statusCode''] ''get_StatusCode'' [''statusCode''],
      Macro ''get_ReasonPhrase'' [''reasonPhrase''] ''get_ReasonPhrase'' [''reasonPhrase''],
      Macro ''GetContent'' [''handler''] ''GetContent'' [''handler'']]"

definition ICoreWebView2WindowFeatures_macros :: "cmacro list" where
  "ICoreWebView2WindowFeatures_macros =
     [IUnknown_QueryInterface_macro,
      IUnknown_AddRef_macro,
      IUnknown_Release_macro,
      Macro ''get_HasPosition'' [''value''] ''get_HasPosition'' [''value''],
      Macro ''get_HasSize'' [''value''] ''get_HasSize'' [''value''],
      Macro ''get_Left'' [''value''] ''get_Left'' [''value''],
      Macro ''get_Top'' [''value''] ''get_Top'' [''value''],
      Macro ''get_Height'' [''value''] ''get_Height'' [''value''],
      Macro ''get_Width'' [''value''] ''get_Width'' [''value''],
      Macro ''get_ShouldDisplayMenuBar'' [''value''] ''get_ShouldDisplayMenuBar'' [''value''],
      Macro ''get_ShouldDisplayStatus'' [''value''] ''get_ShouldDisplayStatus'' [''value''],
      Macro ''get_ShouldDisplayToolbar'' [''value''] ''get_ShouldDisplayToolbar'' [''value''],
      Macro ''get_ShouldDisplayScrollBars'' [''value''] ''get_ShouldDisplayScrollBars'' [''value'']]"

definition ICoreWebView2BrowserExtensionList_macros :: "cmacro list" where
  "ICoreWebView2BrowserExtensionList_macros =
     [IUnknown_QueryInterface_macro,
      IUnknown_AddRef_macro,
      IUnknown_Release_macro,
      Macro ''get_Count'' [''count''] ''get_Count'' [''count''],
      Macro ''GetValueAtIndex'' [''index'', ''extension''] ''GetValueAtIndex'' [''index'', ''extension'']]"

definition ICoreWebView2BrowserExtension_macros :: "cmacro list" where
  "ICoreWebView2BrowserExtension_macros =
     [IUnknown_QueryInterface_macro,
      IUnknown_AddRef_macro,
      IUnknown_Release_macro,
      Macro ''get_Id'' [''value''] ''get_Id'' [''value''],
      Macro ''get_Name'' [''value''] ''get_Name'' [''value''],
      Macro ''Remove'' [''handler''] ''Remove'' [''handler''],
      Macro ''get_IsEnabled'' [''value''] ''get_IsEnabled'' [''value''],
      Macro ''Enable'' [''isEnabled'', ''handler''] ''Enable'' [''isEnabled'', ''handler'']]"

definition ICoreWebView2ExecuteScriptResult_macros :: "cmacro list" where
  "ICoreWebView2ExecuteScriptResult_macros =
     [IUnknown_QueryInterface_macro,
      IUnknown_AddRef_macro,
      IUnknown_Release_macro,
      Macro ''get_Succeeded'' [''value''] ''get_Succeeded'' [''value''],
      Macro ''get_ResultAsJson'' [''jsonResult''] ''get_ResultAsJson'' [''jsonResult''],
      Macro ''TryGetResultAsString'' [''stringResult'', ''value''] ''TryGetResultAsString'' [''stringResult'', ''value''],
      Macro ''get_Exception'' [''exception''] ''get_Exception'' [''exception'']]"

definition ICoreWebView2ScriptException_macros :: "cmacro list" where
  "ICoreWebView2ScriptException_macros =
     [IUnknown_QueryInterface_macro,
      IUnknown_AddRef_macro,
      IUnknown_Release_macro,
      Macro ''get_LineNumber'' [''value''] ''get_LineNumber'' [''value''],
      Macro ''get_ColumnNumber'' [''value''] ''get_ColumnNumber'' [''value''],
      Macro ''get_Name'' [''value''] ''get_Name'' [''value''],
      Macro ''get_Message'' [''value''] ''get_Message'' [''value''],
      Macro ''get_ToJson'' [''value''] ''get_ToJson'' [''value'']]"

definition ICoreWebView2File_macros :: "cmacro list" where
  "ICoreWebView2File_macros =
     [IUnknown_QueryInterface_macro,
      IUnknown_AddRef_macro,
      IUnknown_Release_macro,
      Macro ''get_Path'' [''path''] ''get_Path'' [''path'']]"

definition ICoreWebView2ObjectCollectionView_macros :: "cmacro list" where
  "ICoreWebView2ObjectCollectionView_macros =
     [IUnknown_QueryInterface_macro,
      IUnknown_AddRef_macro,
      IUnknown_Release_macro,
      Macro ''get_Count'' [''value''] ''get_Count'' [''value''],
      Macro ''GetValueAtIndex'' [''index'', ''value''] ''GetValueAtIndex'' [''index'', ''value'']]"

definition ICoreWebView2WebMessageReceivedEventArgs2_macros :: "cmacro list" where
  "ICoreWebView2WebMessageReceivedEventArgs2_macros =
     [IUnknown_QueryInterface_macro,
      IUnknown_AddRef_macro,
      IUnknown_Release_macro,
      ICoreWebView2WebMessageReceivedEventArgs_get_Source_macro,
      ICoreWebView2WebMessageReceivedEventArgs_get_WebMessageAsJson_macro,
      ICoreWebView2WebMessageReceivedEventArgs_TryGetWebMessageAsString_macro,
      Macro ''get_AdditionalObjects'' [''value''] ''get_AdditionalObjects'' [''value'']]"

section \<open>The macros follow the tables\<close>

lemma ICoreWebView2AcceleratorKeyPressedEventArgs_calls:
  "map macro_of
     [ICoreWebView2AcceleratorKeyPressedEventArgs_get_KeyEventKind,
      ICoreWebView2AcceleratorKeyPressedEventArgs_get_VirtualKey,
      ICoreWebView2AcceleratorKeyPressedEventArgs_get_KeyEventLParam,
      ICoreWebView2AcceleratorKeyPressedEventArgs_get_PhysicalKeyStatus,
      ICoreWebView2AcceleratorKeyPressedEventArgs_get_Handled,
      ICoreWebView2AcceleratorKeyPressedEventArgs_put_Handled]
   =
     [ICoreWebView2AcceleratorKeyPressedEventArgs_get_KeyEventKind_macro,
      ICoreWebView2AcceleratorKeyPressedEventArgs_get_VirtualKey_macro,
      ICoreWebView2AcceleratorKeyPressedEventArgs_get_KeyEventLParam_macro,
      ICoreWebView2AcceleratorKeyPressedEventArgs_get_PhysicalKeyStatus_macro,
      ICoreWebView2AcceleratorKeyPressedEventArgs_get_Handled_macro,
      ICoreWebView2AcceleratorKeyPressedEventArgs_put_Handled_macro]"
  by code_simp

lemma ICoreWebView2AcceleratorKeyPressedEventArgs2_calls:
  "map macro_of
     [Method ''HRESULT'' ''get_IsBrowserAcceleratorKeyEnabled'' [''BOOL *value''],
      Method ''HRESULT'' ''put_IsBrowserAcceleratorKeyEnabled'' [''BOOL value'']]
   =
     [Macro ''get_IsBrowserAcceleratorKeyEnabled'' [''value''] ''get_IsBrowserAcceleratorKeyEnabled'' [''value''],
      Macro ''put_IsBrowserAcceleratorKeyEnabled'' [''value''] ''put_IsBrowserAcceleratorKeyEnabled'' [''value'']]"
  by code_simp

lemma ICoreWebView2BasicAuthenticationRequestedEventArgs_calls:
  "map macro_of
     [Method ''HRESULT'' ''get_Uri'' [''LPWSTR *value''],
      Method ''HRESULT'' ''get_Challenge'' [''LPWSTR *challenge''],
      Method ''HRESULT'' ''get_Response'' [''ICoreWebView2BasicAuthenticationResponse **response''],
      Method ''HRESULT'' ''get_Cancel'' [''BOOL *cancel''],
      Method ''HRESULT'' ''put_Cancel'' [''BOOL cancel''],
      Method ''HRESULT'' ''GetDeferral'' [''ICoreWebView2Deferral **deferral'']]
   =
     [Macro ''get_Uri'' [''value''] ''get_Uri'' [''value''],
      Macro ''get_Challenge'' [''challenge''] ''get_Challenge'' [''challenge''],
      Macro ''get_Response'' [''response''] ''get_Response'' [''response''],
      Macro ''get_Cancel'' [''cancel''] ''get_Cancel'' [''cancel''],
      Macro ''put_Cancel'' [''cancel''] ''put_Cancel'' [''cancel''],
      Macro ''GetDeferral'' [''deferral''] ''GetDeferral'' [''deferral'']]"
  by code_simp

lemma ICoreWebView2BasicAuthenticationResponse_calls:
  "map macro_of
     [Method ''HRESULT'' ''get_UserName'' [''LPWSTR *userName''],
      Method ''HRESULT'' ''put_UserName'' [''LPCWSTR userName''],
      Method ''HRESULT'' ''get_Password'' [''LPWSTR *password''],
      Method ''HRESULT'' ''put_Password'' [''LPCWSTR password'']]
   =
     [Macro ''get_UserName'' [''userName''] ''get_UserName'' [''userName''],
      Macro ''put_UserName'' [''userName''] ''put_UserName'' [''userName''],
      Macro ''get_Password'' [''password''] ''get_Password'' [''password''],
      Macro ''put_Password'' [''password''] ''put_Password'' [''password'']]"
  by code_simp

lemma ICoreWebView2BrowserProcessExitedEventArgs_calls:
  "map macro_of
     [Method ''HRESULT'' ''get_BrowserProcessExitKind'' [''COREWEBVIEW2_BROWSER_PROCESS_EXIT_KIND *browserProcessExitKind''],
      Method ''HRESULT'' ''get_BrowserProcessId'' [''UINT32 *value'']]
   =
     [Macro ''get_BrowserProcessExitKind'' [''browserProcessExitKind''] ''get_BrowserProcessExitKind'' [''browserProcessExitKind''],
      Macro ''get_BrowserProcessId'' [''value''] ''get_BrowserProcessId'' [''value'']]"
  by code_simp

lemma ICoreWebView2ContentLoadingEventArgs_calls:
  "map macro_of
     [Method ''HRESULT'' ''get_IsErrorPage'' [''BOOL *isErrorPage''],
      Method ''HRESULT'' ''get_NavigationId'' [''UINT64 *navigationId'']]
   =
     [Macro ''get_IsErrorPage'' [''isErrorPage''] ''get_IsErrorPage'' [''isErrorPage''],
      Macro ''get_NavigationId'' [''navigationId''] ''get_NavigationId'' [''navigationId'']]"
  by code_simp

lemma ICoreWebView2ContextMenuRequestedEventArgs_calls:
  "map macro_of
     [Method ''HRESULT'' ''get_MenuItems'' [''ICoreWebView2ContextMenuItemCollection **value''],
      Method ''HRESULT'' ''get_ContextMenuTarget'' [''ICoreWebView2ContextMenuTarget **value''],
      Method ''HRESULT'' ''get_Location'' [''POINT *value''],
      Method ''HRESULT'' ''put_SelectedCommandId'' [''INT32 value''],
      Method ''HRESULT'' ''get_SelectedCommandId'' [''INT32 *value''],
      Method ''HRESULT'' ''put_Handled'' [''BOOL value''],
      Method ''HRESULT'' ''get_Handled'' [''BOOL *value''],
      Method ''HRESULT'' ''GetDeferral'' [''ICoreWebView2Deferral **deferral'']]
   =
     [Macro ''get_MenuItems'' [''value''] ''get_MenuItems'' [''value''],
      Macro ''get_ContextMenuTarget'' [''value''] ''get_ContextMenuTarget'' [''value''],
      Macro ''get_Location'' [''value''] ''get_Location'' [''value''],
      Macro ''put_SelectedCommandId'' [''value''] ''put_SelectedCommandId'' [''value''],
      Macro ''get_SelectedCommandId'' [''value''] ''get_SelectedCommandId'' [''value''],
      Macro ''put_Handled'' [''value''] ''put_Handled'' [''value''],
      Macro ''get_Handled'' [''value''] ''get_Handled'' [''value''],
      Macro ''GetDeferral'' [''deferral''] ''GetDeferral'' [''deferral'']]"
  by code_simp

lemma ICoreWebView2Cookie_calls:
  "map macro_of
     [Method ''HRESULT'' ''get_Name'' [''LPWSTR *name''],
      Method ''HRESULT'' ''get_Value'' [''LPWSTR *value''],
      Method ''HRESULT'' ''put_Value'' [''LPCWSTR value''],
      Method ''HRESULT'' ''get_Domain'' [''LPWSTR *domain''],
      Method ''HRESULT'' ''get_Path'' [''LPWSTR *path''],
      Method ''HRESULT'' ''get_Expires'' [''double *expires''],
      Method ''HRESULT'' ''put_Expires'' [''double expires''],
      Method ''HRESULT'' ''get_IsHttpOnly'' [''BOOL *isHttpOnly''],
      Method ''HRESULT'' ''put_IsHttpOnly'' [''BOOL isHttpOnly''],
      Method ''HRESULT'' ''get_SameSite'' [''COREWEBVIEW2_COOKIE_SAME_SITE_KIND *sameSite''],
      Method ''HRESULT'' ''put_SameSite'' [''COREWEBVIEW2_COOKIE_SAME_SITE_KIND sameSite''],
      Method ''HRESULT'' ''get_IsSecure'' [''BOOL *isSecure''],
      Method ''HRESULT'' ''put_IsSecure'' [''BOOL isSecure''],
      Method ''HRESULT'' ''get_IsSession'' [''BOOL *isSession'']]
   =
     [Macro ''get_Name'' [''name''] ''get_Name'' [''name''],
      Macro ''get_Value'' [''value''] ''get_Value'' [''value''],
      Macro ''put_Value'' [''value''] ''put_Value'' [''value''],
      Macro ''get_Domain'' [''domain''] ''get_Domain'' [''domain''],
      Macro ''get_Path'' [''path''] ''get_Path'' [''path''],
      Macro ''get_Expires'' [''expires''] ''get_Expires'' [''expires''],
      Macro ''put_Expires'' [''expires''] ''put_Expires'' [''expires''],
      Macro ''get_IsHttpOnly'' [''isHttpOnly''] ''get_IsHttpOnly'' [''isHttpOnly''],
      Macro ''put_IsHttpOnly'' [''isHttpOnly''] ''put_IsHttpOnly'' [''isHttpOnly''],
      Macro ''get_SameSite'' [''sameSite''] ''get_SameSite'' [''sameSite''],
      Macro ''put_SameSite'' [''sameSite''] ''put_SameSite'' [''sameSite''],
      Macro ''get_IsSecure'' [''isSecure''] ''get_IsSecure'' [''isSecure''],
      Macro ''put_IsSecure'' [''isSecure''] ''put_IsSecure'' [''isSecure''],
      Macro ''get_IsSession'' [''isSession''] ''get_IsSession'' [''isSession'']]"
  by code_simp

lemma ICoreWebView2CookieList_calls:
  "map macro_of
     [Method ''HRESULT'' ''get_Count'' [''UINT *count''],
      Method ''HRESULT'' ''GetValueAtIndex'' [''UINT index'', ''ICoreWebView2Cookie **cookie'']]
   =
     [Macro ''get_Count'' [''count''] ''get_Count'' [''count''],
      Macro ''GetValueAtIndex'' [''index'', ''cookie''] ''GetValueAtIndex'' [''index'', ''cookie'']]"
  by code_simp

lemma ICoreWebView2Certificate_calls:
  "map macro_of
     [Method ''HRESULT'' ''get_Subject'' [''LPWSTR *value''],
      Method ''HRESULT'' ''get_Issuer'' [''LPWSTR *value''],
      Method ''HRESULT'' ''get_ValidFrom'' [''double *value''],
      Method ''HRESULT'' ''get_ValidTo'' [''double *value''],
      Method ''HRESULT'' ''get_DerEncodedSerialNumber'' [''LPWSTR *value''],
      Method ''HRESULT'' ''get_DisplayName'' [''LPWSTR *value''],
      Method ''HRESULT'' ''ToPemEncoding'' [''LPWSTR *pemEncodedData''],
      Method ''HRESULT'' ''get_PemEncodedIssuerCertificateChain'' [''ICoreWebView2StringCollection **value'']]
   =
     [Macro ''get_Subject'' [''value''] ''get_Subject'' [''value''],
      Macro ''get_Issuer'' [''value''] ''get_Issuer'' [''value''],
      Macro ''get_ValidFrom'' [''value''] ''get_ValidFrom'' [''value''],
      Macro ''get_ValidTo'' [''value''] ''get_ValidTo'' [''value''],
      Macro ''get_DerEncodedSerialNumber'' [''value''] ''get_DerEncodedSerialNumber'' [''value''],
      Macro ''get_DisplayName'' [''value''] ''get_DisplayName'' [''value''],
      Macro ''ToPemEncoding'' [''pemEncodedData''] ''ToPemEncoding'' [''pemEncodedData''],
      Macro ''get_PemEncodedIssuerCertificateChain'' [''value''] ''get_PemEncodedIssuerCertificateChain'' [''value'']]"
  by code_simp

lemma ICoreWebView2ClientCertificate_calls:
  "map macro_of
     [Method ''HRESULT'' ''get_Subject'' [''LPWSTR *value''],
      Method ''HRESULT'' ''get_Issuer'' [''LPWSTR *value''],
      Method ''HRESULT'' ''get_ValidFrom'' [''double *value''],
      Method ''HRESULT'' ''get_ValidTo'' [''double *value''],
      Method ''HRESULT'' ''get_DerEncodedSerialNumber'' [''LPWSTR *value''],
      Method ''HRESULT'' ''get_DisplayName'' [''LPWSTR *value''],
      Method ''HRESULT'' ''ToPemEncoding'' [''LPWSTR *pemEncodedData''],
      Method ''HRESULT'' ''get_PemEncodedIssuerCertificateChain'' [''ICoreWebView2StringCollection **value''],
      Method ''HRESULT'' ''get_Kind'' [''COREWEBVIEW2_CLIENT_CERTIFICATE_KIND *value'']]
   =
     [Macro ''get_Subject'' [''value''] ''get_Subject'' [''value''],
      Macro ''get_Issuer'' [''value''] ''get_Issuer'' [''value''],
      Macro ''get_ValidFrom'' [''value''] ''get_ValidFrom'' [''value''],
      Macro ''get_ValidTo'' [''value''] ''get_ValidTo'' [''value''],
      Macro ''get_DerEncodedSerialNumber'' [''value''] ''get_DerEncodedSerialNumber'' [''value''],
      Macro ''get_DisplayName'' [''value''] ''get_DisplayName'' [''value''],
      Macro ''ToPemEncoding'' [''pemEncodedData''] ''ToPemEncoding'' [''pemEncodedData''],
      Macro ''get_PemEncodedIssuerCertificateChain'' [''value''] ''get_PemEncodedIssuerCertificateChain'' [''value''],
      Macro ''get_Kind'' [''value''] ''get_Kind'' [''value'']]"
  by code_simp

lemma ICoreWebView2StringCollection_calls:
  "map macro_of
     [Method ''HRESULT'' ''get_Count'' [''UINT *value''],
      Method ''HRESULT'' ''GetValueAtIndex'' [''UINT index'', ''LPWSTR *value'']]
   =
     [Macro ''get_Count'' [''value''] ''get_Count'' [''value''],
      Macro ''GetValueAtIndex'' [''index'', ''value''] ''GetValueAtIndex'' [''index'', ''value'']]"
  by code_simp

lemma ICoreWebView2ClientCertificateCollection_calls:
  "map macro_of
     [Method ''HRESULT'' ''get_Count'' [''UINT *value''],
      Method ''HRESULT'' ''GetValueAtIndex'' [''UINT index'', ''ICoreWebView2ClientCertificate **certificate'']]
   =
     [Macro ''get_Count'' [''value''] ''get_Count'' [''value''],
      Macro ''GetValueAtIndex'' [''index'', ''certificate''] ''GetValueAtIndex'' [''index'', ''certificate'']]"
  by code_simp

lemma ICoreWebView2ClientCertificateRequestedEventArgs_calls:
  "map macro_of
     [Method ''HRESULT'' ''get_Host'' [''LPWSTR *value''],
      Method ''HRESULT'' ''get_Port'' [''int *value''],
      Method ''HRESULT'' ''get_IsProxy'' [''BOOL *value''],
      Method ''HRESULT'' ''get_AllowedCertificateAuthorities'' [''ICoreWebView2StringCollection **value''],
      Method ''HRESULT'' ''get_MutuallyTrustedCertificates'' [''ICoreWebView2ClientCertificateCollection **value''],
      Method ''HRESULT'' ''get_SelectedCertificate'' [''ICoreWebView2ClientCertificate **value''],
      Method ''HRESULT'' ''put_SelectedCertificate'' [''ICoreWebView2ClientCertificate *value''],
      Method ''HRESULT'' ''get_Cancel'' [''BOOL *value''],
      Method ''HRESULT'' ''put_Cancel'' [''BOOL value''],
      Method ''HRESULT'' ''get_Handled'' [''BOOL *value''],
      Method ''HRESULT'' ''put_Handled'' [''BOOL value''],
      Method ''HRESULT'' ''GetDeferral'' [''ICoreWebView2Deferral **deferral'']]
   =
     [Macro ''get_Host'' [''value''] ''get_Host'' [''value''],
      Macro ''get_Port'' [''value''] ''get_Port'' [''value''],
      Macro ''get_IsProxy'' [''value''] ''get_IsProxy'' [''value''],
      Macro ''get_AllowedCertificateAuthorities'' [''value''] ''get_AllowedCertificateAuthorities'' [''value''],
      Macro ''get_MutuallyTrustedCertificates'' [''value''] ''get_MutuallyTrustedCertificates'' [''value''],
      Macro ''get_SelectedCertificate'' [''value''] ''get_SelectedCertificate'' [''value''],
      Macro ''put_SelectedCertificate'' [''value''] ''put_SelectedCertificate'' [''value''],
      Macro ''get_Cancel'' [''value''] ''get_Cancel'' [''value''],
      Macro ''put_Cancel'' [''value''] ''put_Cancel'' [''value''],
      Macro ''get_Handled'' [''value''] ''get_Handled'' [''value''],
      Macro ''put_Handled'' [''value''] ''put_Handled'' [''value''],
      Macro ''GetDeferral'' [''deferral''] ''GetDeferral'' [''deferral'']]"
  by code_simp

lemma ICoreWebView2ContextMenuItem_calls:
  "map macro_of
     [Method ''HRESULT'' ''get_Name'' [''LPWSTR *value''],
      Method ''HRESULT'' ''get_Label'' [''LPWSTR *value''],
      Method ''HRESULT'' ''get_CommandId'' [''INT32 *value''],
      Method ''HRESULT'' ''get_ShortcutKeyDescription'' [''LPWSTR *value''],
      Method ''HRESULT'' ''get_Icon'' [''IStream **value''],
      Method ''HRESULT'' ''get_Kind'' [''COREWEBVIEW2_CONTEXT_MENU_ITEM_KIND *value''],
      Method ''HRESULT'' ''put_IsEnabled'' [''BOOL value''],
      Method ''HRESULT'' ''get_IsEnabled'' [''BOOL *value''],
      Method ''HRESULT'' ''put_IsChecked'' [''BOOL value''],
      Method ''HRESULT'' ''get_IsChecked'' [''BOOL *value''],
      Method ''HRESULT'' ''get_Children'' [''ICoreWebView2ContextMenuItemCollection **value''],
      Method ''HRESULT'' ''add_CustomItemSelected'' [''ICoreWebView2CustomItemSelectedEventHandler *eventHandler'', ''EventRegistrationToken *token''],
      Method ''HRESULT'' ''remove_CustomItemSelected'' [''EventRegistrationToken token'']]
   =
     [Macro ''get_Name'' [''value''] ''get_Name'' [''value''],
      Macro ''get_Label'' [''value''] ''get_Label'' [''value''],
      Macro ''get_CommandId'' [''value''] ''get_CommandId'' [''value''],
      Macro ''get_ShortcutKeyDescription'' [''value''] ''get_ShortcutKeyDescription'' [''value''],
      Macro ''get_Icon'' [''value''] ''get_Icon'' [''value''],
      Macro ''get_Kind'' [''value''] ''get_Kind'' [''value''],
      Macro ''put_IsEnabled'' [''value''] ''put_IsEnabled'' [''value''],
      Macro ''get_IsEnabled'' [''value''] ''get_IsEnabled'' [''value''],
      Macro ''put_IsChecked'' [''value''] ''put_IsChecked'' [''value''],
      Macro ''get_IsChecked'' [''value''] ''get_IsChecked'' [''value''],
      Macro ''get_Children'' [''value''] ''get_Children'' [''value''],
      Macro ''add_CustomItemSelected'' [''eventHandler'', ''token''] ''add_CustomItemSelected'' [''eventHandler'', ''token''],
      Macro ''remove_CustomItemSelected'' [''token''] ''remove_CustomItemSelected'' [''token'']]"
  by code_simp

lemma ICoreWebView2ContextMenuItemCollection_calls:
  "map macro_of
     [Method ''HRESULT'' ''get_Count'' [''UINT32 *value''],
      Method ''HRESULT'' ''GetValueAtIndex'' [''UINT32 index'', ''ICoreWebView2ContextMenuItem **value''],
      Method ''HRESULT'' ''RemoveValueAtIndex'' [''UINT32 index''],
      Method ''HRESULT'' ''InsertValueAtIndex'' [''UINT32 index'', ''ICoreWebView2ContextMenuItem *value'']]
   =
     [Macro ''get_Count'' [''value''] ''get_Count'' [''value''],
      Macro ''GetValueAtIndex'' [''index'', ''value''] ''GetValueAtIndex'' [''index'', ''value''],
      Macro ''RemoveValueAtIndex'' [''index''] ''RemoveValueAtIndex'' [''index''],
      Macro ''InsertValueAtIndex'' [''index'', ''value''] ''InsertValueAtIndex'' [''index'', ''value'']]"
  by code_simp

lemma ICoreWebView2ContextMenuTarget_calls:
  "map macro_of
     [Method ''HRESULT'' ''get_Kind'' [''COREWEBVIEW2_CONTEXT_MENU_TARGET_KIND *value''],
      Method ''HRESULT'' ''get_IsEditable'' [''BOOL *value''],
      Method ''HRESULT'' ''get_IsRequestedForMainFrame'' [''BOOL *value''],
      Method ''HRESULT'' ''get_PageUri'' [''LPWSTR *value''],
      Method ''HRESULT'' ''get_FrameUri'' [''LPWSTR *value''],
      Method ''HRESULT'' ''get_HasLinkUri'' [''BOOL *value''],
      Method ''HRESULT'' ''get_LinkUri'' [''LPWSTR *value''],
      Method ''HRESULT'' ''get_HasLinkText'' [''BOOL *value''],
      Method ''HRESULT'' ''get_LinkText'' [''LPWSTR *value''],
      Method ''HRESULT'' ''get_HasSourceUri'' [''BOOL *value''],
      Method ''HRESULT'' ''get_SourceUri'' [''LPWSTR *value''],
      Method ''HRESULT'' ''get_HasSelection'' [''BOOL *value''],
      Method ''HRESULT'' ''get_SelectionText'' [''LPWSTR *value'']]
   =
     [Macro ''get_Kind'' [''value''] ''get_Kind'' [''value''],
      Macro ''get_IsEditable'' [''value''] ''get_IsEditable'' [''value''],
      Macro ''get_IsRequestedForMainFrame'' [''value''] ''get_IsRequestedForMainFrame'' [''value''],
      Macro ''get_PageUri'' [''value''] ''get_PageUri'' [''value''],
      Macro ''get_FrameUri'' [''value''] ''get_FrameUri'' [''value''],
      Macro ''get_HasLinkUri'' [''value''] ''get_HasLinkUri'' [''value''],
      Macro ''get_LinkUri'' [''value''] ''get_LinkUri'' [''value''],
      Macro ''get_HasLinkText'' [''value''] ''get_HasLinkText'' [''value''],
      Macro ''get_LinkText'' [''value''] ''get_LinkText'' [''value''],
      Macro ''get_HasSourceUri'' [''value''] ''get_HasSourceUri'' [''value''],
      Macro ''get_SourceUri'' [''value''] ''get_SourceUri'' [''value''],
      Macro ''get_HasSelection'' [''value''] ''get_HasSelection'' [''value''],
      Macro ''get_SelectionText'' [''value''] ''get_SelectionText'' [''value'']]"
  by code_simp

lemma ICoreWebView2CustomSchemeRegistration_calls:
  "map macro_of
     [Method ''HRESULT'' ''get_SchemeName'' [''LPWSTR *schemeName''],
      Method ''HRESULT'' ''get_TreatAsSecure'' [''BOOL *treatAsSecure''],
      Method ''HRESULT'' ''put_TreatAsSecure'' [''BOOL value''],
      Method ''HRESULT'' ''GetAllowedOrigins'' [''UINT32 *allowedOriginsCount'', ''LPWSTR **allowedOrigins''],
      Method ''HRESULT'' ''SetAllowedOrigins'' [''UINT32 allowedOriginsCount'', ''LPCWSTR *allowedOrigins''],
      Method ''HRESULT'' ''get_HasAuthorityComponent'' [''BOOL *hasAuthorityComponent''],
      Method ''HRESULT'' ''put_HasAuthorityComponent'' [''BOOL hasAuthorityComponent'']]
   =
     [Macro ''get_SchemeName'' [''schemeName''] ''get_SchemeName'' [''schemeName''],
      Macro ''get_TreatAsSecure'' [''treatAsSecure''] ''get_TreatAsSecure'' [''treatAsSecure''],
      Macro ''put_TreatAsSecure'' [''value''] ''put_TreatAsSecure'' [''value''],
      Macro ''GetAllowedOrigins'' [''allowedOriginsCount'', ''allowedOrigins''] ''GetAllowedOrigins'' [''allowedOriginsCount'', ''allowedOrigins''],
      Macro ''SetAllowedOrigins'' [''allowedOriginsCount'', ''allowedOrigins''] ''SetAllowedOrigins'' [''allowedOriginsCount'', ''allowedOrigins''],
      Macro ''get_HasAuthorityComponent'' [''hasAuthorityComponent''] ''get_HasAuthorityComponent'' [''hasAuthorityComponent''],
      Macro ''put_HasAuthorityComponent'' [''hasAuthorityComponent''] ''put_HasAuthorityComponent'' [''hasAuthorityComponent'']]"
  by code_simp

lemma ICoreWebView2DOMContentLoadedEventArgs_calls:
  "map macro_of
     [Method ''HRESULT'' ''get_NavigationId'' [''UINT64 *navigationId'']]
   =
     [Macro ''get_NavigationId'' [''navigationId''] ''get_NavigationId'' [''navigationId'']]"
  by code_simp

lemma ICoreWebView2Deferral_calls:
  "map macro_of
     [Method ''HRESULT'' ''Complete'' []]
   =
     [Macro ''Complete'' [] ''Complete'' []]"
  by code_simp

lemma ICoreWebView2DevToolsProtocolEventReceivedEventArgs_calls:
  "map macro_of
     [ICoreWebView2DevToolsProtocolEventReceivedEventArgs_get_ParameterObjectAsJson]
   =
     [ICoreWebView2DevToolsProtocolEventReceivedEventArgs_get_ParameterObjectAsJson_macro]"
  by code_simp

lemma ICoreWebView2DevToolsProtocolEventReceivedEventArgs2_calls:
  "map macro_of
     [Method ''HRESULT'' ''get_SessionId'' [''LPWSTR *sessionId'']]
   =
     [Macro ''get_SessionId'' [''sessionId''] ''get_SessionId'' [''sessionId'']]"
  by code_simp

lemma ICoreWebView2DevToolsProtocolEventReceiver_calls:
  "map macro_of
     [Method ''HRESULT'' ''add_DevToolsProtocolEventReceived'' [''ICoreWebView2DevToolsProtocolEventReceivedEventHandler *handler'', ''EventRegistrationToken *token''],
      Method ''HRESULT'' ''remove_DevToolsProtocolEventReceived'' [''EventRegistrationToken token'']]
   =
     [Macro ''add_DevToolsProtocolEventReceived'' [''handler'', ''token''] ''add_DevToolsProtocolEventReceived'' [''handler'', ''token''],
      Macro ''remove_DevToolsProtocolEventReceived'' [''token''] ''remove_DevToolsProtocolEventReceived'' [''token'']]"
  by code_simp

lemma ICoreWebView2DownloadStartingEventArgs_calls:
  "map macro_of
     [Method ''HRESULT'' ''get_DownloadOperation'' [''ICoreWebView2DownloadOperation **downloadOperation''],
      Method ''HRESULT'' ''get_Cancel'' [''BOOL *cancel''],
      Method ''HRESULT'' ''put_Cancel'' [''BOOL cancel''],
      Method ''HRESULT'' ''get_ResultFilePath'' [''LPWSTR *resultFilePath''],
      Method ''HRESULT'' ''put_ResultFilePath'' [''LPCWSTR resultFilePath''],
      Method ''HRESULT'' ''get_Handled'' [''BOOL *handled''],
      Method ''HRESULT'' ''put_Handled'' [''BOOL handled''],
      Method ''HRESULT'' ''GetDeferral'' [''ICoreWebView2Deferral **deferral'']]
   =
     [Macro ''get_DownloadOperation'' [''downloadOperation''] ''get_DownloadOperation'' [''downloadOperation''],
      Macro ''get_Cancel'' [''cancel''] ''get_Cancel'' [''cancel''],
      Macro ''put_Cancel'' [''cancel''] ''put_Cancel'' [''cancel''],
      Macro ''get_ResultFilePath'' [''resultFilePath''] ''get_ResultFilePath'' [''resultFilePath''],
      Macro ''put_ResultFilePath'' [''resultFilePath''] ''put_ResultFilePath'' [''resultFilePath''],
      Macro ''get_Handled'' [''handled''] ''get_Handled'' [''handled''],
      Macro ''put_Handled'' [''handled''] ''put_Handled'' [''handled''],
      Macro ''GetDeferral'' [''deferral''] ''GetDeferral'' [''deferral'']]"
  by code_simp

lemma ICoreWebView2FrameCreatedEventArgs_calls:
  "map macro_of
     [Method ''HRESULT'' ''get_Frame'' [''ICoreWebView2Frame **frame'']]
   =
     [Macro ''get_Frame'' [''frame''] ''get_Frame'' [''frame'']]"
  by code_simp

lemma ICoreWebView2HttpHeadersCollectionIterator_calls:
  "map macro_of
     [Method ''HRESULT'' ''GetCurrentHeader'' [''LPWSTR *name'', ''LPWSTR *value''],
      Method ''HRESULT'' ''get_HasCurrentHeader'' [''BOOL *hasCurrent''],
      Method ''HRESULT'' ''MoveNext'' [''BOOL *hasNext'']]
   =
     [Macro ''GetCurrentHeader'' [''name'', ''value''] ''GetCurrentHeader'' [''name'', ''value''],
      Macro ''get_HasCurrentHeader'' [''hasCurrent''] ''get_HasCurrentHeader'' [''hasCurrent''],
      Macro ''MoveNext'' [''hasNext''] ''MoveNext'' [''hasNext'']]"
  by code_simp

lemma ICoreWebView2HttpRequestHeaders_calls:
  "map macro_of
     [Method ''HRESULT'' ''GetHeader'' [''LPCWSTR name'', ''LPWSTR *value''],
      Method ''HRESULT'' ''GetHeaders'' [''LPCWSTR name'', ''ICoreWebView2HttpHeadersCollectionIterator **iterator''],
      Method ''HRESULT'' ''Contains'' [''LPCWSTR name'', ''BOOL *contains''],
      Method ''HRESULT'' ''SetHeader'' [''LPCWSTR name'', ''LPCWSTR value''],
      Method ''HRESULT'' ''RemoveHeader'' [''LPCWSTR name''],
      Method ''HRESULT'' ''GetIterator'' [''ICoreWebView2HttpHeadersCollectionIterator **iterator'']]
   =
     [Macro ''GetHeader'' [''name'', ''value''] ''GetHeader'' [''name'', ''value''],
      Macro ''GetHeaders'' [''name'', ''iterator''] ''GetHeaders'' [''name'', ''iterator''],
      Macro ''Contains'' [''name'', ''contains''] ''Contains'' [''name'', ''contains''],
      Macro ''SetHeader'' [''name'', ''value''] ''SetHeader'' [''name'', ''value''],
      Macro ''RemoveHeader'' [''name''] ''RemoveHeader'' [''name''],
      Macro ''GetIterator'' [''iterator''] ''GetIterator'' [''iterator'']]"
  by code_simp

lemma ICoreWebView2HttpResponseHeaders_calls:
  "map macro_of
     [Method ''HRESULT'' ''AppendHeader'' [''LPCWSTR name'', ''LPCWSTR value''],
      Method ''HRESULT'' ''Contains'' [''LPCWSTR name'', ''BOOL *contains''],
      Method ''HRESULT'' ''GetHeader'' [''LPCWSTR name'', ''LPWSTR *value''],
      Method ''HRESULT'' ''GetHeaders'' [''LPCWSTR name'', ''ICoreWebView2HttpHeadersCollectionIterator **iterator''],
      Method ''HRESULT'' ''GetIterator'' [''ICoreWebView2HttpHeadersCollectionIterator **iterator'']]
   =
     [Macro ''AppendHeader'' [''name'', ''value''] ''AppendHeader'' [''name'', ''value''],
      Macro ''Contains'' [''name'', ''contains''] ''Contains'' [''name'', ''contains''],
      Macro ''GetHeader'' [''name'', ''value''] ''GetHeader'' [''name'', ''value''],
      Macro ''GetHeaders'' [''name'', ''iterator''] ''GetHeaders'' [''name'', ''iterator''],
      Macro ''GetIterator'' [''iterator''] ''GetIterator'' [''iterator'']]"
  by code_simp

lemma ICoreWebView2LaunchingExternalUriSchemeEventArgs_calls:
  "map macro_of
     [Method ''HRESULT'' ''get_Uri'' [''LPWSTR *value''],
      Method ''HRESULT'' ''get_InitiatingOrigin'' [''LPWSTR *value''],
      Method ''HRESULT'' ''get_IsUserInitiated'' [''BOOL *value''],
      Method ''HRESULT'' ''get_Cancel'' [''BOOL *value''],
      Method ''HRESULT'' ''put_Cancel'' [''BOOL value''],
      Method ''HRESULT'' ''GetDeferral'' [''ICoreWebView2Deferral **value'']]
   =
     [Macro ''get_Uri'' [''value''] ''get_Uri'' [''value''],
      Macro ''get_InitiatingOrigin'' [''value''] ''get_InitiatingOrigin'' [''value''],
      Macro ''get_IsUserInitiated'' [''value''] ''get_IsUserInitiated'' [''value''],
      Macro ''get_Cancel'' [''value''] ''get_Cancel'' [''value''],
      Macro ''put_Cancel'' [''value''] ''put_Cancel'' [''value''],
      Macro ''GetDeferral'' [''value''] ''GetDeferral'' [''value'']]"
  by code_simp

lemma ICoreWebView2MoveFocusRequestedEventArgs_calls:
  "map macro_of
     [Method ''HRESULT'' ''get_Reason'' [''COREWEBVIEW2_MOVE_FOCUS_REASON *reason''],
      Method ''HRESULT'' ''get_Handled'' [''BOOL *value''],
      Method ''HRESULT'' ''put_Handled'' [''BOOL value'']]
   =
     [Macro ''get_Reason'' [''reason''] ''get_Reason'' [''reason''],
      Macro ''get_Handled'' [''value''] ''get_Handled'' [''value''],
      Macro ''put_Handled'' [''value''] ''put_Handled'' [''value'']]"
  by code_simp

lemma ICoreWebView2NavigationCompletedEventArgs_calls:
  "map macro_of
     [ICoreWebView2NavigationCompletedEventArgs_get_IsSuccess,
      ICoreWebView2NavigationCompletedEventArgs_get_WebErrorStatus,
      ICoreWebView2NavigationCompletedEventArgs_get_NavigationId]
   =
     [ICoreWebView2NavigationCompletedEventArgs_get_IsSuccess_macro,
      ICoreWebView2NavigationCompletedEventArgs_get_WebErrorStatus_macro,
      ICoreWebView2NavigationCompletedEventArgs_get_NavigationId_macro]"
  by code_simp

lemma ICoreWebView2NavigationCompletedEventArgs2_calls:
  "map macro_of
     [Method ''HRESULT'' ''get_HttpStatusCode'' [''int *http_status_code'']]
   =
     [Macro ''get_HttpStatusCode'' [''http_status_code''] ''get_HttpStatusCode'' [''http_status_code'']]"
  by code_simp

lemma ICoreWebView2NavigationStartingEventArgs_calls:
  "map macro_of
     [ICoreWebView2NavigationStartingEventArgs_get_Uri, ICoreWebView2NavigationStartingEventArgs_get_IsUserInitiated,
      ICoreWebView2NavigationStartingEventArgs_get_IsRedirected,
      ICoreWebView2NavigationStartingEventArgs_get_RequestHeaders,
      ICoreWebView2NavigationStartingEventArgs_get_Cancel, ICoreWebView2NavigationStartingEventArgs_put_Cancel,
      ICoreWebView2NavigationStartingEventArgs_get_NavigationId]
   =
     [ICoreWebView2NavigationStartingEventArgs_get_Uri_macro,
      ICoreWebView2NavigationStartingEventArgs_get_IsUserInitiated_macro,
      ICoreWebView2NavigationStartingEventArgs_get_IsRedirected_macro,
      ICoreWebView2NavigationStartingEventArgs_get_RequestHeaders_macro,
      ICoreWebView2NavigationStartingEventArgs_get_Cancel_macro,
      ICoreWebView2NavigationStartingEventArgs_put_Cancel_macro,
      ICoreWebView2NavigationStartingEventArgs_get_NavigationId_macro]"
  by code_simp

lemma ICoreWebView2NavigationStartingEventArgs2_calls:
  "map macro_of
     [ICoreWebView2NavigationStartingEventArgs2_get_AdditionalAllowedFrameAncestors,
      ICoreWebView2NavigationStartingEventArgs2_put_AdditionalAllowedFrameAncestors]
   =
     [ICoreWebView2NavigationStartingEventArgs2_get_AdditionalAllowedFrameAncestors_macro,
      ICoreWebView2NavigationStartingEventArgs2_put_AdditionalAllowedFrameAncestors_macro]"
  by code_simp

lemma ICoreWebView2NavigationStartingEventArgs3_calls:
  "map macro_of
     [Method ''HRESULT'' ''get_NavigationKind'' [''COREWEBVIEW2_NAVIGATION_KIND *navigation_kind'']]
   =
     [Macro ''get_NavigationKind'' [''navigation_kind''] ''get_NavigationKind'' [''navigation_kind'']]"
  by code_simp

lemma ICoreWebView2NewWindowRequestedEventArgs_calls:
  "map macro_of
     [ICoreWebView2NewWindowRequestedEventArgs_get_Uri, ICoreWebView2NewWindowRequestedEventArgs_put_NewWindow,
      ICoreWebView2NewWindowRequestedEventArgs_get_NewWindow, ICoreWebView2NewWindowRequestedEventArgs_put_Handled,
      ICoreWebView2NewWindowRequestedEventArgs_get_Handled,
      ICoreWebView2NewWindowRequestedEventArgs_get_IsUserInitiated,
      ICoreWebView2NewWindowRequestedEventArgs_GetDeferral,
      ICoreWebView2NewWindowRequestedEventArgs_get_WindowFeatures]
   =
     [ICoreWebView2NewWindowRequestedEventArgs_get_Uri_macro,
      ICoreWebView2NewWindowRequestedEventArgs_put_NewWindow_macro,
      ICoreWebView2NewWindowRequestedEventArgs_get_NewWindow_macro,
      ICoreWebView2NewWindowRequestedEventArgs_put_Handled_macro,
      ICoreWebView2NewWindowRequestedEventArgs_get_Handled_macro,
      ICoreWebView2NewWindowRequestedEventArgs_get_IsUserInitiated_macro,
      ICoreWebView2NewWindowRequestedEventArgs_GetDeferral_macro,
      ICoreWebView2NewWindowRequestedEventArgs_get_WindowFeatures_macro]"
  by code_simp

lemma ICoreWebView2NewWindowRequestedEventArgs2_calls:
  "map macro_of
     [ICoreWebView2NewWindowRequestedEventArgs2_get_Name]
   =
     [ICoreWebView2NewWindowRequestedEventArgs2_get_Name_macro]"
  by code_simp

lemma ICoreWebView2NewWindowRequestedEventArgs3_calls:
  "map macro_of
     [Method ''HRESULT'' ''get_OriginalSourceFrameInfo'' [''ICoreWebView2FrameInfo **frameInfo'']]
   =
     [Macro ''get_OriginalSourceFrameInfo'' [''frameInfo''] ''get_OriginalSourceFrameInfo'' [''frameInfo'']]"
  by code_simp

lemma ICoreWebView2PermissionRequestedEventArgs_calls:
  "map macro_of
     [ICoreWebView2PermissionRequestedEventArgs_get_Uri,
      ICoreWebView2PermissionRequestedEventArgs_get_PermissionKind,
      ICoreWebView2PermissionRequestedEventArgs_get_IsUserInitiated,
      ICoreWebView2PermissionRequestedEventArgs_get_State, ICoreWebView2PermissionRequestedEventArgs_put_State,
      ICoreWebView2PermissionRequestedEventArgs_GetDeferral]
   =
     [ICoreWebView2PermissionRequestedEventArgs_get_Uri_macro,
      ICoreWebView2PermissionRequestedEventArgs_get_PermissionKind_macro,
      ICoreWebView2PermissionRequestedEventArgs_get_IsUserInitiated_macro,
      ICoreWebView2PermissionRequestedEventArgs_get_State_macro,
      ICoreWebView2PermissionRequestedEventArgs_put_State_macro,
      ICoreWebView2PermissionRequestedEventArgs_GetDeferral_macro]"
  by code_simp

lemma ICoreWebView2PermissionRequestedEventArgs2_calls:
  "map macro_of
     [ICoreWebView2PermissionRequestedEventArgs2_get_Handled, ICoreWebView2PermissionRequestedEventArgs2_put_Handled]
   =
     [ICoreWebView2PermissionRequestedEventArgs2_get_Handled_macro,
      ICoreWebView2PermissionRequestedEventArgs2_put_Handled_macro]"
  by code_simp

lemma ICoreWebView2PermissionRequestedEventArgs3_calls:
  "map macro_of
     [Method ''HRESULT'' ''get_SavesInProfile'' [''BOOL *value''],
      Method ''HRESULT'' ''put_SavesInProfile'' [''BOOL value'']]
   =
     [Macro ''get_SavesInProfile'' [''value''] ''get_SavesInProfile'' [''value''],
      Macro ''put_SavesInProfile'' [''value''] ''put_SavesInProfile'' [''value'']]"
  by code_simp

lemma ICoreWebView2PermissionSettingCollectionView_calls:
  "map macro_of
     [Method ''HRESULT'' ''GetValueAtIndex'' [''UINT32 index'', ''ICoreWebView2PermissionSetting **permissionSetting''],
      Method ''HRESULT'' ''get_Count'' [''UINT32 *value'']]
   =
     [Macro ''GetValueAtIndex'' [''index'', ''permissionSetting''] ''GetValueAtIndex'' [''index'', ''permissionSetting''],
      Macro ''get_Count'' [''value''] ''get_Count'' [''value'']]"
  by code_simp

lemma ICoreWebView2PermissionSetting_calls:
  "map macro_of
     [Method ''HRESULT'' ''get_PermissionKind'' [''COREWEBVIEW2_PERMISSION_KIND *value''],
      Method ''HRESULT'' ''get_PermissionOrigin'' [''LPWSTR *value''],
      Method ''HRESULT'' ''get_PermissionState'' [''COREWEBVIEW2_PERMISSION_STATE *value'']]
   =
     [Macro ''get_PermissionKind'' [''value''] ''get_PermissionKind'' [''value''],
      Macro ''get_PermissionOrigin'' [''value''] ''get_PermissionOrigin'' [''value''],
      Macro ''get_PermissionState'' [''value''] ''get_PermissionState'' [''value'']]"
  by code_simp

lemma ICoreWebView2PointerInfo_calls:
  "map macro_of
     [ICoreWebView2PointerInfo_get_PointerKind, ICoreWebView2PointerInfo_put_PointerKind,
      ICoreWebView2PointerInfo_get_PointerId, ICoreWebView2PointerInfo_put_PointerId,
      ICoreWebView2PointerInfo_get_FrameId, ICoreWebView2PointerInfo_put_FrameId,
      ICoreWebView2PointerInfo_get_PointerFlags, ICoreWebView2PointerInfo_put_PointerFlags,
      ICoreWebView2PointerInfo_get_PointerDeviceRect, ICoreWebView2PointerInfo_put_PointerDeviceRect,
      ICoreWebView2PointerInfo_get_DisplayRect, ICoreWebView2PointerInfo_put_DisplayRect,
      ICoreWebView2PointerInfo_get_PixelLocation, ICoreWebView2PointerInfo_put_PixelLocation,
      ICoreWebView2PointerInfo_get_HimetricLocation, ICoreWebView2PointerInfo_put_HimetricLocation,
      ICoreWebView2PointerInfo_get_PixelLocationRaw, ICoreWebView2PointerInfo_put_PixelLocationRaw,
      ICoreWebView2PointerInfo_get_HimetricLocationRaw, ICoreWebView2PointerInfo_put_HimetricLocationRaw,
      ICoreWebView2PointerInfo_get_Time, ICoreWebView2PointerInfo_put_Time,
      ICoreWebView2PointerInfo_get_HistoryCount, ICoreWebView2PointerInfo_put_HistoryCount,
      ICoreWebView2PointerInfo_get_InputData, ICoreWebView2PointerInfo_put_InputData,
      ICoreWebView2PointerInfo_get_KeyStates, ICoreWebView2PointerInfo_put_KeyStates,
      ICoreWebView2PointerInfo_get_PerformanceCount, ICoreWebView2PointerInfo_put_PerformanceCount,
      ICoreWebView2PointerInfo_get_ButtonChangeKind, ICoreWebView2PointerInfo_put_ButtonChangeKind,
      ICoreWebView2PointerInfo_get_PenFlags, ICoreWebView2PointerInfo_put_PenFlags,
      ICoreWebView2PointerInfo_get_PenMask, ICoreWebView2PointerInfo_put_PenMask,
      ICoreWebView2PointerInfo_get_PenPressure, ICoreWebView2PointerInfo_put_PenPressure,
      ICoreWebView2PointerInfo_get_PenRotation, ICoreWebView2PointerInfo_put_PenRotation,
      ICoreWebView2PointerInfo_get_PenTiltX, ICoreWebView2PointerInfo_put_PenTiltX,
      ICoreWebView2PointerInfo_get_PenTiltY, ICoreWebView2PointerInfo_put_PenTiltY,
      ICoreWebView2PointerInfo_get_TouchFlags, ICoreWebView2PointerInfo_put_TouchFlags,
      ICoreWebView2PointerInfo_get_TouchMask, ICoreWebView2PointerInfo_put_TouchMask,
      ICoreWebView2PointerInfo_get_TouchContact, ICoreWebView2PointerInfo_put_TouchContact,
      ICoreWebView2PointerInfo_get_TouchContactRaw, ICoreWebView2PointerInfo_put_TouchContactRaw,
      ICoreWebView2PointerInfo_get_TouchOrientation, ICoreWebView2PointerInfo_put_TouchOrientation,
      ICoreWebView2PointerInfo_get_TouchPressure, ICoreWebView2PointerInfo_put_TouchPressure]
   =
     [Macro ''get_PointerKind'' [''pointerKind''] ''get_PointerKind'' [''pointerKind''],
      Macro ''put_PointerKind'' [''pointerKind''] ''put_PointerKind'' [''pointerKind''],
      Macro ''get_PointerId'' [''pointerId''] ''get_PointerId'' [''pointerId''],
      Macro ''put_PointerId'' [''pointerId''] ''put_PointerId'' [''pointerId''],
      Macro ''get_FrameId'' [''frameId''] ''get_FrameId'' [''frameId''],
      Macro ''put_FrameId'' [''frameId''] ''put_FrameId'' [''frameId''],
      Macro ''get_PointerFlags'' [''pointerFlags''] ''get_PointerFlags'' [''pointerFlags''],
      Macro ''put_PointerFlags'' [''pointerFlags''] ''put_PointerFlags'' [''pointerFlags''],
      Macro ''get_PointerDeviceRect'' [''pointerDeviceRect''] ''get_PointerDeviceRect'' [''pointerDeviceRect''],
      Macro ''put_PointerDeviceRect'' [''pointerDeviceRect''] ''put_PointerDeviceRect'' [''pointerDeviceRect''],
      Macro ''get_DisplayRect'' [''displayRect''] ''get_DisplayRect'' [''displayRect''],
      Macro ''put_DisplayRect'' [''displayRect''] ''put_DisplayRect'' [''displayRect''],
      Macro ''get_PixelLocation'' [''pixelLocation''] ''get_PixelLocation'' [''pixelLocation''],
      Macro ''put_PixelLocation'' [''pixelLocation''] ''put_PixelLocation'' [''pixelLocation''],
      Macro ''get_HimetricLocation'' [''himetricLocation''] ''get_HimetricLocation'' [''himetricLocation''],
      Macro ''put_HimetricLocation'' [''himetricLocation''] ''put_HimetricLocation'' [''himetricLocation''],
      Macro ''get_PixelLocationRaw'' [''pixelLocationRaw''] ''get_PixelLocationRaw'' [''pixelLocationRaw''],
      Macro ''put_PixelLocationRaw'' [''pixelLocationRaw''] ''put_PixelLocationRaw'' [''pixelLocationRaw''],
      Macro ''get_HimetricLocationRaw'' [''himetricLocationRaw''] ''get_HimetricLocationRaw'' [''himetricLocationRaw''],
      Macro ''put_HimetricLocationRaw'' [''himetricLocationRaw''] ''put_HimetricLocationRaw'' [''himetricLocationRaw''],
      Macro ''get_Time'' [''time''] ''get_Time'' [''time''],
      Macro ''put_Time'' [''time''] ''put_Time'' [''time''],
      Macro ''get_HistoryCount'' [''historyCount''] ''get_HistoryCount'' [''historyCount''],
      Macro ''put_HistoryCount'' [''historyCount''] ''put_HistoryCount'' [''historyCount''],
      Macro ''get_InputData'' [''inputData''] ''get_InputData'' [''inputData''],
      Macro ''put_InputData'' [''inputData''] ''put_InputData'' [''inputData''],
      Macro ''get_KeyStates'' [''keyStates''] ''get_KeyStates'' [''keyStates''],
      Macro ''put_KeyStates'' [''keyStates''] ''put_KeyStates'' [''keyStates''],
      Macro ''get_PerformanceCount'' [''performanceCount''] ''get_PerformanceCount'' [''performanceCount''],
      Macro ''put_PerformanceCount'' [''performanceCount''] ''put_PerformanceCount'' [''performanceCount''],
      Macro ''get_ButtonChangeKind'' [''buttonChangeKind''] ''get_ButtonChangeKind'' [''buttonChangeKind''],
      Macro ''put_ButtonChangeKind'' [''buttonChangeKind''] ''put_ButtonChangeKind'' [''buttonChangeKind''],
      Macro ''get_PenFlags'' [''penFLags''] ''get_PenFlags'' [''penFLags''],
      Macro ''put_PenFlags'' [''penFLags''] ''put_PenFlags'' [''penFLags''],
      Macro ''get_PenMask'' [''penMask''] ''get_PenMask'' [''penMask''],
      Macro ''put_PenMask'' [''penMask''] ''put_PenMask'' [''penMask''],
      Macro ''get_PenPressure'' [''penPressure''] ''get_PenPressure'' [''penPressure''],
      Macro ''put_PenPressure'' [''penPressure''] ''put_PenPressure'' [''penPressure''],
      Macro ''get_PenRotation'' [''penRotation''] ''get_PenRotation'' [''penRotation''],
      Macro ''put_PenRotation'' [''penRotation''] ''put_PenRotation'' [''penRotation''],
      Macro ''get_PenTiltX'' [''penTiltX''] ''get_PenTiltX'' [''penTiltX''],
      Macro ''put_PenTiltX'' [''penTiltX''] ''put_PenTiltX'' [''penTiltX''],
      Macro ''get_PenTiltY'' [''penTiltY''] ''get_PenTiltY'' [''penTiltY''],
      Macro ''put_PenTiltY'' [''penTiltY''] ''put_PenTiltY'' [''penTiltY''],
      Macro ''get_TouchFlags'' [''touchFlags''] ''get_TouchFlags'' [''touchFlags''],
      Macro ''put_TouchFlags'' [''touchFlags''] ''put_TouchFlags'' [''touchFlags''],
      Macro ''get_TouchMask'' [''touchMask''] ''get_TouchMask'' [''touchMask''],
      Macro ''put_TouchMask'' [''touchMask''] ''put_TouchMask'' [''touchMask''],
      Macro ''get_TouchContact'' [''touchContact''] ''get_TouchContact'' [''touchContact''],
      Macro ''put_TouchContact'' [''touchContact''] ''put_TouchContact'' [''touchContact''],
      Macro ''get_TouchContactRaw'' [''touchContactRaw''] ''get_TouchContactRaw'' [''touchContactRaw''],
      Macro ''put_TouchContactRaw'' [''touchContactRaw''] ''put_TouchContactRaw'' [''touchContactRaw''],
      Macro ''get_TouchOrientation'' [''touchOrientation''] ''get_TouchOrientation'' [''touchOrientation''],
      Macro ''put_TouchOrientation'' [''touchOrientation''] ''put_TouchOrientation'' [''touchOrientation''],
      Macro ''get_TouchPressure'' [''touchPressure''] ''get_TouchPressure'' [''touchPressure''],
      Macro ''put_TouchPressure'' [''touchPressure''] ''put_TouchPressure'' [''touchPressure'']]"
  by code_simp

lemma ICoreWebView2PrintSettings_calls:
  "map macro_of
     [ICoreWebView2PrintSettings_get_Orientation, ICoreWebView2PrintSettings_put_Orientation,
      ICoreWebView2PrintSettings_get_ScaleFactor, ICoreWebView2PrintSettings_put_ScaleFactor,
      ICoreWebView2PrintSettings_get_PageWidth, ICoreWebView2PrintSettings_put_PageWidth,
      ICoreWebView2PrintSettings_get_PageHeight, ICoreWebView2PrintSettings_put_PageHeight,
      ICoreWebView2PrintSettings_get_MarginTop, ICoreWebView2PrintSettings_put_MarginTop,
      ICoreWebView2PrintSettings_get_MarginBottom, ICoreWebView2PrintSettings_put_MarginBottom,
      ICoreWebView2PrintSettings_get_MarginLeft, ICoreWebView2PrintSettings_put_MarginLeft,
      ICoreWebView2PrintSettings_get_MarginRight, ICoreWebView2PrintSettings_put_MarginRight,
      ICoreWebView2PrintSettings_get_ShouldPrintBackgrounds, ICoreWebView2PrintSettings_put_ShouldPrintBackgrounds,
      ICoreWebView2PrintSettings_get_ShouldPrintSelectionOnly,
      ICoreWebView2PrintSettings_put_ShouldPrintSelectionOnly,
      ICoreWebView2PrintSettings_get_ShouldPrintHeaderAndFooter,
      ICoreWebView2PrintSettings_put_ShouldPrintHeaderAndFooter, ICoreWebView2PrintSettings_get_HeaderTitle,
      ICoreWebView2PrintSettings_put_HeaderTitle, ICoreWebView2PrintSettings_get_FooterUri,
      ICoreWebView2PrintSettings_put_FooterUri]
   =
     [ICoreWebView2PrintSettings_get_Orientation_macro, ICoreWebView2PrintSettings_put_Orientation_macro,
      ICoreWebView2PrintSettings_get_ScaleFactor_macro, ICoreWebView2PrintSettings_put_ScaleFactor_macro,
      ICoreWebView2PrintSettings_get_PageWidth_macro, ICoreWebView2PrintSettings_put_PageWidth_macro,
      ICoreWebView2PrintSettings_get_PageHeight_macro, ICoreWebView2PrintSettings_put_PageHeight_macro,
      ICoreWebView2PrintSettings_get_MarginTop_macro, ICoreWebView2PrintSettings_put_MarginTop_macro,
      ICoreWebView2PrintSettings_get_MarginBottom_macro, ICoreWebView2PrintSettings_put_MarginBottom_macro,
      ICoreWebView2PrintSettings_get_MarginLeft_macro, ICoreWebView2PrintSettings_put_MarginLeft_macro,
      ICoreWebView2PrintSettings_get_MarginRight_macro, ICoreWebView2PrintSettings_put_MarginRight_macro,
      ICoreWebView2PrintSettings_get_ShouldPrintBackgrounds_macro,
      ICoreWebView2PrintSettings_put_ShouldPrintBackgrounds_macro,
      ICoreWebView2PrintSettings_get_ShouldPrintSelectionOnly_macro,
      ICoreWebView2PrintSettings_put_ShouldPrintSelectionOnly_macro,
      ICoreWebView2PrintSettings_get_ShouldPrintHeaderAndFooter_macro,
      ICoreWebView2PrintSettings_put_ShouldPrintHeaderAndFooter_macro,
      ICoreWebView2PrintSettings_get_HeaderTitle_macro, ICoreWebView2PrintSettings_put_HeaderTitle_macro,
      ICoreWebView2PrintSettings_get_FooterUri_macro, ICoreWebView2PrintSettings_put_FooterUri_macro]"
  by code_simp

lemma ICoreWebView2PrintSettings2_calls:
  "map macro_of
     [Method ''HRESULT'' ''get_PageRanges'' [''LPWSTR *value''],
      Method ''HRESULT'' ''put_PageRanges'' [''LPCWSTR value''],
      Method ''HRESULT'' ''get_PagesPerSide'' [''INT32 *value''],
      Method ''HRESULT'' ''put_PagesPerSide'' [''INT32 value''],
      Method ''HRESULT'' ''get_Copies'' [''INT32 *value''],
      Method ''HRESULT'' ''put_Copies'' [''INT32 value''],
      Method ''HRESULT'' ''get_Collation'' [''COREWEBVIEW2_PRINT_COLLATION *value''],
      Method ''HRESULT'' ''put_Collation'' [''COREWEBVIEW2_PRINT_COLLATION value''],
      Method ''HRESULT'' ''get_ColorMode'' [''COREWEBVIEW2_PRINT_COLOR_MODE *value''],
      Method ''HRESULT'' ''put_ColorMode'' [''COREWEBVIEW2_PRINT_COLOR_MODE value''],
      Method ''HRESULT'' ''get_Duplex'' [''COREWEBVIEW2_PRINT_DUPLEX *value''],
      Method ''HRESULT'' ''put_Duplex'' [''COREWEBVIEW2_PRINT_DUPLEX value''],
      Method ''HRESULT'' ''get_MediaSize'' [''COREWEBVIEW2_PRINT_MEDIA_SIZE *value''],
      Method ''HRESULT'' ''put_MediaSize'' [''COREWEBVIEW2_PRINT_MEDIA_SIZE value''],
      Method ''HRESULT'' ''get_PrinterName'' [''LPWSTR *value''],
      Method ''HRESULT'' ''put_PrinterName'' [''LPCWSTR value'']]
   =
     [Macro ''get_PageRanges'' [''value''] ''get_PageRanges'' [''value''],
      Macro ''put_PageRanges'' [''value''] ''put_PageRanges'' [''value''],
      Macro ''get_PagesPerSide'' [''value''] ''get_PagesPerSide'' [''value''],
      Macro ''put_PagesPerSide'' [''value''] ''put_PagesPerSide'' [''value''],
      Macro ''get_Copies'' [''value''] ''get_Copies'' [''value''],
      Macro ''put_Copies'' [''value''] ''put_Copies'' [''value''],
      Macro ''get_Collation'' [''value''] ''get_Collation'' [''value''],
      Macro ''put_Collation'' [''value''] ''put_Collation'' [''value''],
      Macro ''get_ColorMode'' [''value''] ''get_ColorMode'' [''value''],
      Macro ''put_ColorMode'' [''value''] ''put_ColorMode'' [''value''],
      Macro ''get_Duplex'' [''value''] ''get_Duplex'' [''value''],
      Macro ''put_Duplex'' [''value''] ''put_Duplex'' [''value''],
      Macro ''get_MediaSize'' [''value''] ''get_MediaSize'' [''value''],
      Macro ''put_MediaSize'' [''value''] ''put_MediaSize'' [''value''],
      Macro ''get_PrinterName'' [''value''] ''get_PrinterName'' [''value''],
      Macro ''put_PrinterName'' [''value''] ''put_PrinterName'' [''value'']]"
  by code_simp

lemma ICoreWebView2ProcessFailedEventArgs_calls:
  "map macro_of
     [ICoreWebView2ProcessFailedEventArgs_get_ProcessFailedKind]
   =
     [ICoreWebView2ProcessFailedEventArgs_get_ProcessFailedKind_macro]"
  by code_simp

lemma ICoreWebView2ProcessFailedEventArgs2_calls:
  "map macro_of
     [Method ''HRESULT'' ''get_Reason'' [''COREWEBVIEW2_PROCESS_FAILED_REASON *reason''],
      Method ''HRESULT'' ''get_ExitCode'' [''int *exitCode''],
      Method ''HRESULT'' ''get_ProcessDescription'' [''LPWSTR *processDescription''],
      Method ''HRESULT'' ''get_FrameInfosForFailedProcess'' [''ICoreWebView2FrameInfoCollection **frames'']]
   =
     [Macro ''get_Reason'' [''reason''] ''get_Reason'' [''reason''],
      Macro ''get_ExitCode'' [''exitCode''] ''get_ExitCode'' [''exitCode''],
      Macro ''get_ProcessDescription'' [''processDescription''] ''get_ProcessDescription'' [''processDescription''],
      Macro ''get_FrameInfosForFailedProcess'' [''frames''] ''get_FrameInfosForFailedProcess'' [''frames'']]"
  by code_simp

lemma ICoreWebView2ServerCertificateErrorDetectedEventArgs_calls:
  "map macro_of
     [Method ''HRESULT'' ''get_ErrorStatus'' [''COREWEBVIEW2_WEB_ERROR_STATUS *value''],
      Method ''HRESULT'' ''get_RequestUri'' [''LPWSTR *value''],
      Method ''HRESULT'' ''get_ServerCertificate'' [''ICoreWebView2Certificate **value''],
      Method ''HRESULT'' ''get_Action'' [''COREWEBVIEW2_SERVER_CERTIFICATE_ERROR_ACTION *value''],
      Method ''HRESULT'' ''put_Action'' [''COREWEBVIEW2_SERVER_CERTIFICATE_ERROR_ACTION value''],
      Method ''HRESULT'' ''GetDeferral'' [''ICoreWebView2Deferral **deferral'']]
   =
     [Macro ''get_ErrorStatus'' [''value''] ''get_ErrorStatus'' [''value''],
      Macro ''get_RequestUri'' [''value''] ''get_RequestUri'' [''value''],
      Macro ''get_ServerCertificate'' [''value''] ''get_ServerCertificate'' [''value''],
      Macro ''get_Action'' [''value''] ''get_Action'' [''value''],
      Macro ''put_Action'' [''value''] ''put_Action'' [''value''],
      Macro ''GetDeferral'' [''deferral''] ''GetDeferral'' [''deferral'']]"
  by code_simp

lemma ICoreWebView2ScriptDialogOpeningEventArgs_calls:
  "map macro_of
     [Method ''HRESULT'' ''get_Uri'' [''LPWSTR *uri''],
      Method ''HRESULT'' ''get_Kind'' [''COREWEBVIEW2_SCRIPT_DIALOG_KIND *kind''],
      Method ''HRESULT'' ''get_Message'' [''LPWSTR *message''],
      Method ''HRESULT'' ''Accept'' [],
      Method ''HRESULT'' ''get_DefaultText'' [''LPWSTR *defaultText''],
      Method ''HRESULT'' ''get_ResultText'' [''LPWSTR *resultText''],
      Method ''HRESULT'' ''put_ResultText'' [''LPCWSTR resultText''],
      Method ''HRESULT'' ''GetDeferral'' [''ICoreWebView2Deferral **deferral'']]
   =
     [Macro ''get_Uri'' [''uri''] ''get_Uri'' [''uri''],
      Macro ''get_Kind'' [''kind''] ''get_Kind'' [''kind''],
      Macro ''get_Message'' [''message''] ''get_Message'' [''message''],
      Macro ''Accept'' [] ''Accept'' [],
      Macro ''get_DefaultText'' [''defaultText''] ''get_DefaultText'' [''defaultText''],
      Macro ''get_ResultText'' [''resultText''] ''get_ResultText'' [''resultText''],
      Macro ''put_ResultText'' [''resultText''] ''put_ResultText'' [''resultText''],
      Macro ''GetDeferral'' [''deferral''] ''GetDeferral'' [''deferral'']]"
  by code_simp

lemma ICoreWebView2SourceChangedEventArgs_calls:
  "map macro_of
     [Method ''HRESULT'' ''get_IsNewDocument'' [''BOOL *isNewDocument'']]
   =
     [Macro ''get_IsNewDocument'' [''isNewDocument''] ''get_IsNewDocument'' [''isNewDocument'']]"
  by code_simp

lemma ICoreWebView2WebMessageReceivedEventArgs_calls:
  "map macro_of
     [ICoreWebView2WebMessageReceivedEventArgs_get_Source,
      ICoreWebView2WebMessageReceivedEventArgs_get_WebMessageAsJson,
      ICoreWebView2WebMessageReceivedEventArgs_TryGetWebMessageAsString]
   =
     [ICoreWebView2WebMessageReceivedEventArgs_get_Source_macro,
      ICoreWebView2WebMessageReceivedEventArgs_get_WebMessageAsJson_macro,
      ICoreWebView2WebMessageReceivedEventArgs_TryGetWebMessageAsString_macro]"
  by code_simp

lemma ICoreWebView2WebResourceRequest_calls:
  "map macro_of
     [Method ''HRESULT'' ''get_Uri'' [''LPWSTR *uri''],
      Method ''HRESULT'' ''put_Uri'' [''LPCWSTR uri''],
      Method ''HRESULT'' ''get_Method'' [''LPWSTR *method''],
      Method ''HRESULT'' ''put_Method'' [''LPCWSTR method''],
      Method ''HRESULT'' ''get_Content'' [''IStream **content''],
      Method ''HRESULT'' ''put_Content'' [''IStream *content''],
      Method ''HRESULT'' ''get_Headers'' [''ICoreWebView2HttpRequestHeaders **headers'']]
   =
     [Macro ''get_Uri'' [''uri''] ''get_Uri'' [''uri''],
      Macro ''put_Uri'' [''uri''] ''put_Uri'' [''uri''],
      Macro ''get_Method'' [''method''] ''get_Method'' [''method''],
      Macro ''put_Method'' [''method''] ''put_Method'' [''method''],
      Macro ''get_Content'' [''content''] ''get_Content'' [''content''],
      Macro ''put_Content'' [''content''] ''put_Content'' [''content''],
      Macro ''get_Headers'' [''headers''] ''get_Headers'' [''headers'']]"
  by code_simp

lemma ICoreWebView2WebResourceRequestedEventArgs_calls:
  "map macro_of
     [ICoreWebView2WebResourceRequestedEventArgs_get_Request,
      ICoreWebView2WebResourceRequestedEventArgs_get_Response,
      ICoreWebView2WebResourceRequestedEventArgs_put_Response,
      ICoreWebView2WebResourceRequestedEventArgs_GetDeferral,
      ICoreWebView2WebResourceRequestedEventArgs_get_ResourceContext]
   =
     [ICoreWebView2WebResourceRequestedEventArgs_get_Request_macro,
      ICoreWebView2WebResourceRequestedEventArgs_get_Response_macro,
      ICoreWebView2WebResourceRequestedEventArgs_put_Response_macro,
      ICoreWebView2WebResourceRequestedEventArgs_GetDeferral_macro,
      ICoreWebView2WebResourceRequestedEventArgs_get_ResourceContext_macro]"
  by code_simp

lemma ICoreWebView2WebResourceRequestedEventArgs2_calls:
  "map macro_of
     [Method ''HRESULT'' ''get_RequestedSourceKind'' [''COREWEBVIEW2_WEB_RESOURCE_REQUEST_SOURCE_KINDS *requestedSourceKind'']]
   =
     [Macro ''get_RequestedSourceKind'' [''requestedSourceKind''] ''get_RequestedSourceKind'' [''requestedSourceKind'']]"
  by code_simp

lemma ICoreWebView2WebResourceResponse_calls:
  "map macro_of
     [Method ''HRESULT'' ''get_Content'' [''IStream **content''],
      Method ''HRESULT'' ''put_Content'' [''IStream *content''],
      Method ''HRESULT'' ''get_Headers'' [''ICoreWebView2HttpResponseHeaders **headers''],
      Method ''HRESULT'' ''get_StatusCode'' [''int *statusCode''],
      Method ''HRESULT'' ''put_StatusCode'' [''int statusCode''],
      Method ''HRESULT'' ''get_ReasonPhrase'' [''LPWSTR *reasonPhrase''],
      Method ''HRESULT'' ''put_ReasonPhrase'' [''LPCWSTR reasonPhrase'']]
   =
     [Macro ''get_Content'' [''content''] ''get_Content'' [''content''],
      Macro ''put_Content'' [''content''] ''put_Content'' [''content''],
      Macro ''get_Headers'' [''headers''] ''get_Headers'' [''headers''],
      Macro ''get_StatusCode'' [''statusCode''] ''get_StatusCode'' [''statusCode''],
      Macro ''put_StatusCode'' [''statusCode''] ''put_StatusCode'' [''statusCode''],
      Macro ''get_ReasonPhrase'' [''reasonPhrase''] ''get_ReasonPhrase'' [''reasonPhrase''],
      Macro ''put_ReasonPhrase'' [''reasonPhrase''] ''put_ReasonPhrase'' [''reasonPhrase'']]"
  by code_simp

lemma ICoreWebView2WebResourceResponseReceivedEventArgs_calls:
  "map macro_of
     [Method ''HRESULT'' ''get_Request'' [''ICoreWebView2WebResourceRequest **request''],
      Method ''HRESULT'' ''get_Response'' [''ICoreWebView2WebResourceResponseView **response'']]
   =
     [Macro ''get_Request'' [''request''] ''get_Request'' [''request''],
      Macro ''get_Response'' [''response''] ''get_Response'' [''response'']]"
  by code_simp

lemma ICoreWebView2WebResourceResponseView_calls:
  "map macro_of
     [Method ''HRESULT'' ''get_Headers'' [''ICoreWebView2HttpResponseHeaders **headers''],
      Method ''HRESULT'' ''get_StatusCode'' [''int *statusCode''],
      Method ''HRESULT'' ''get_ReasonPhrase'' [''LPWSTR *reasonPhrase''],
      Method ''HRESULT'' ''GetContent'' [''ICoreWebView2WebResourceResponseViewGetContentCompletedHandler *handler'']]
   =
     [Macro ''get_Headers'' [''headers''] ''get_Headers'' [''headers''],
      Macro ''get_StatusCode'' [''statusCode''] ''get_StatusCode'' [''statusCode''],
      Macro ''get_ReasonPhrase'' [''reasonPhrase''] ''get_ReasonPhrase'' [''reasonPhrase''],
      Macro ''GetContent'' [''handler''] ''GetContent'' [''handler'']]"
  by code_simp

lemma ICoreWebView2WindowFeatures_calls:
  "map macro_of
     [Method ''HRESULT'' ''get_HasPosition'' [''BOOL *value''],
      Method ''HRESULT'' ''get_HasSize'' [''BOOL *value''],
      Method ''HRESULT'' ''get_Left'' [''UINT32 *value''],
      Method ''HRESULT'' ''get_Top'' [''UINT32 *value''],
      Method ''HRESULT'' ''get_Height'' [''UINT32 *value''],
      Method ''HRESULT'' ''get_Width'' [''UINT32 *value''],
      Method ''HRESULT'' ''get_ShouldDisplayMenuBar'' [''BOOL *value''],
      Method ''HRESULT'' ''get_ShouldDisplayStatus'' [''BOOL *value''],
      Method ''HRESULT'' ''get_ShouldDisplayToolbar'' [''BOOL *value''],
      Method ''HRESULT'' ''get_ShouldDisplayScrollBars'' [''BOOL *value'']]
   =
     [Macro ''get_HasPosition'' [''value''] ''get_HasPosition'' [''value''],
      Macro ''get_HasSize'' [''value''] ''get_HasSize'' [''value''],
      Macro ''get_Left'' [''value''] ''get_Left'' [''value''],
      Macro ''get_Top'' [''value''] ''get_Top'' [''value''],
      Macro ''get_Height'' [''value''] ''get_Height'' [''value''],
      Macro ''get_Width'' [''value''] ''get_Width'' [''value''],
      Macro ''get_ShouldDisplayMenuBar'' [''value''] ''get_ShouldDisplayMenuBar'' [''value''],
      Macro ''get_ShouldDisplayStatus'' [''value''] ''get_ShouldDisplayStatus'' [''value''],
      Macro ''get_ShouldDisplayToolbar'' [''value''] ''get_ShouldDisplayToolbar'' [''value''],
      Macro ''get_ShouldDisplayScrollBars'' [''value''] ''get_ShouldDisplayScrollBars'' [''value'']]"
  by code_simp

lemma ICoreWebView2BrowserExtensionList_calls:
  "map macro_of
     [Method ''HRESULT'' ''get_Count'' [''UINT *count''],
      Method ''HRESULT'' ''GetValueAtIndex'' [''UINT index'', ''ICoreWebView2BrowserExtension **extension'']]
   =
     [Macro ''get_Count'' [''count''] ''get_Count'' [''count''],
      Macro ''GetValueAtIndex'' [''index'', ''extension''] ''GetValueAtIndex'' [''index'', ''extension'']]"
  by code_simp

lemma ICoreWebView2BrowserExtension_calls:
  "map macro_of
     [Method ''HRESULT'' ''get_Id'' [''LPWSTR *value''],
      Method ''HRESULT'' ''get_Name'' [''LPWSTR *value''],
      Method ''HRESULT'' ''Remove'' [''ICoreWebView2BrowserExtensionRemoveCompletedHandler *handler''],
      Method ''HRESULT'' ''get_IsEnabled'' [''BOOL *value''],
      Method ''HRESULT'' ''Enable'' [''BOOL isEnabled'', ''ICoreWebView2BrowserExtensionEnableCompletedHandler *handler'']]
   =
     [Macro ''get_Id'' [''value''] ''get_Id'' [''value''],
      Macro ''get_Name'' [''value''] ''get_Name'' [''value''],
      Macro ''Remove'' [''handler''] ''Remove'' [''handler''],
      Macro ''get_IsEnabled'' [''value''] ''get_IsEnabled'' [''value''],
      Macro ''Enable'' [''isEnabled'', ''handler''] ''Enable'' [''isEnabled'', ''handler'']]"
  by code_simp

lemma ICoreWebView2ExecuteScriptResult_calls:
  "map macro_of
     [Method ''HRESULT'' ''get_Succeeded'' [''BOOL *value''],
      Method ''HRESULT'' ''get_ResultAsJson'' [''LPWSTR *jsonResult''],
      Method ''HRESULT'' ''TryGetResultAsString'' [''LPWSTR *stringResult'', ''BOOL *value''],
      Method ''HRESULT'' ''get_Exception'' [''ICoreWebView2ScriptException **exception'']]
   =
     [Macro ''get_Succeeded'' [''value''] ''get_Succeeded'' [''value''],
      Macro ''get_ResultAsJson'' [''jsonResult''] ''get_ResultAsJson'' [''jsonResult''],
      Macro ''TryGetResultAsString'' [''stringResult'', ''value''] ''TryGetResultAsString'' [''stringResult'', ''value''],
      Macro ''get_Exception'' [''exception''] ''get_Exception'' [''exception'']]"
  by code_simp

lemma ICoreWebView2ScriptException_calls:
  "map macro_of
     [Method ''HRESULT'' ''get_LineNumber'' [''UINT32 *value''],
      Method ''HRESULT'' ''get_ColumnNumber'' [''UINT32 *value''],
      Method ''HRESULT'' ''get_Name'' [''LPWSTR *value''],
      Method ''HRESULT'' ''get_Message'' [''LPWSTR *value''],
      Method ''HRESULT'' ''get_ToJson'' [''LPWSTR *value'']]
   =
     [Macro ''get_LineNumber'' [''value''] ''get_LineNumber'' [''value''],
      Macro ''get_ColumnNumber'' [''value''] ''get_ColumnNumber'' [''value''],
      Macro ''get_Name'' [''value''] ''get_Name'' [''value''],
      Macro ''get_Message'' [''value''] ''get_Message'' [''value''],
      Macro ''get_ToJson'' [''value''] ''get_ToJson'' [''value'']]"
  by code_simp

lemma ICoreWebView2File_calls:
  "map macro_of
     [Method ''HRESULT'' ''get_Path'' [''LPWSTR *path'']]
   =
     [Macro ''get_Path'' [''path''] ''get_Path'' [''path'']]"
  by code_simp

lemma ICoreWebView2ObjectCollectionView_calls:
  "map macro_of
     [Method ''HRESULT'' ''get_Count'' [''UINT32 *value''],
      Method ''HRESULT'' ''GetValueAtIndex'' [''UINT32 index'', ''IUnknown **value'']]
   =
     [Macro ''get_Count'' [''value''] ''get_Count'' [''value''],
      Macro ''GetValueAtIndex'' [''index'', ''value''] ''GetValueAtIndex'' [''index'', ''value'']]"
  by code_simp

lemma ICoreWebView2WebMessageReceivedEventArgs2_calls:
  "map macro_of
     [Method ''HRESULT'' ''get_AdditionalObjects'' [''ICoreWebView2ObjectCollectionView **value'']]
   =
     [Macro ''get_AdditionalObjects'' [''value''] ''get_AdditionalObjects'' [''value'']]"
  by code_simp

lemma ICoreWebView2AcceleratorKeyPressedEventArgs_follow: "ICoreWebView2AcceleratorKeyPressedEventArgs_macros = macros_of ICoreWebView2AcceleratorKeyPressedEventArgs"
  by (simp only: macros_of_def layouts macro_simps
      ICoreWebView2AcceleratorKeyPressedEventArgs_macros_def
      ICoreWebView2AcceleratorKeyPressedEventArgs_calls [simplified calls_simps])

lemma ICoreWebView2AcceleratorKeyPressedEventArgs2_follow: "ICoreWebView2AcceleratorKeyPressedEventArgs2_macros = macros_of ICoreWebView2AcceleratorKeyPressedEventArgs2"
  by (simp only: macros_of_def layouts macro_simps
      ICoreWebView2AcceleratorKeyPressedEventArgs2_macros_def
      ICoreWebView2AcceleratorKeyPressedEventArgs_calls [simplified calls_simps]
      ICoreWebView2AcceleratorKeyPressedEventArgs2_calls [simplified calls_simps])

lemma ICoreWebView2BasicAuthenticationRequestedEventArgs_follow: "ICoreWebView2BasicAuthenticationRequestedEventArgs_macros = macros_of ICoreWebView2BasicAuthenticationRequestedEventArgs"
  by (simp only: macros_of_def layouts macro_simps
      ICoreWebView2BasicAuthenticationRequestedEventArgs_macros_def
      ICoreWebView2BasicAuthenticationRequestedEventArgs_calls [simplified calls_simps])

lemma ICoreWebView2BasicAuthenticationResponse_follow: "ICoreWebView2BasicAuthenticationResponse_macros = macros_of ICoreWebView2BasicAuthenticationResponse"
  by (simp only: macros_of_def layouts macro_simps
      ICoreWebView2BasicAuthenticationResponse_macros_def
      ICoreWebView2BasicAuthenticationResponse_calls [simplified calls_simps])

lemma ICoreWebView2BrowserProcessExitedEventArgs_follow: "ICoreWebView2BrowserProcessExitedEventArgs_macros = macros_of ICoreWebView2BrowserProcessExitedEventArgs"
  by (simp only: macros_of_def layouts macro_simps
      ICoreWebView2BrowserProcessExitedEventArgs_macros_def
      ICoreWebView2BrowserProcessExitedEventArgs_calls [simplified calls_simps])

lemma ICoreWebView2ContentLoadingEventArgs_follow: "ICoreWebView2ContentLoadingEventArgs_macros = macros_of ICoreWebView2ContentLoadingEventArgs"
  by (simp only: macros_of_def layouts macro_simps
      ICoreWebView2ContentLoadingEventArgs_macros_def
      ICoreWebView2ContentLoadingEventArgs_calls [simplified calls_simps])

lemma ICoreWebView2ContextMenuRequestedEventArgs_follow: "ICoreWebView2ContextMenuRequestedEventArgs_macros = macros_of ICoreWebView2ContextMenuRequestedEventArgs"
  by (simp only: macros_of_def layouts macro_simps
      ICoreWebView2ContextMenuRequestedEventArgs_macros_def
      ICoreWebView2ContextMenuRequestedEventArgs_calls [simplified calls_simps])

lemma ICoreWebView2Cookie_follow: "ICoreWebView2Cookie_macros = macros_of ICoreWebView2Cookie"
  by (simp only: macros_of_def layouts macro_simps
      ICoreWebView2Cookie_macros_def
      ICoreWebView2Cookie_calls [simplified calls_simps])

lemma ICoreWebView2CookieList_follow: "ICoreWebView2CookieList_macros = macros_of ICoreWebView2CookieList"
  by (simp only: macros_of_def layouts macro_simps
      ICoreWebView2CookieList_macros_def
      ICoreWebView2CookieList_calls [simplified calls_simps])

lemma ICoreWebView2Certificate_follow: "ICoreWebView2Certificate_macros = macros_of ICoreWebView2Certificate"
  by (simp only: macros_of_def layouts macro_simps
      ICoreWebView2Certificate_macros_def
      ICoreWebView2Certificate_calls [simplified calls_simps])

lemma ICoreWebView2ClientCertificate_follow: "ICoreWebView2ClientCertificate_macros = macros_of ICoreWebView2ClientCertificate"
  by (simp only: macros_of_def layouts macro_simps
      ICoreWebView2ClientCertificate_macros_def
      ICoreWebView2ClientCertificate_calls [simplified calls_simps])

lemma ICoreWebView2StringCollection_follow: "ICoreWebView2StringCollection_macros = macros_of ICoreWebView2StringCollection"
  by (simp only: macros_of_def layouts macro_simps
      ICoreWebView2StringCollection_macros_def
      ICoreWebView2StringCollection_calls [simplified calls_simps])

lemma ICoreWebView2ClientCertificateCollection_follow: "ICoreWebView2ClientCertificateCollection_macros = macros_of ICoreWebView2ClientCertificateCollection"
  by (simp only: macros_of_def layouts macro_simps
      ICoreWebView2ClientCertificateCollection_macros_def
      ICoreWebView2ClientCertificateCollection_calls [simplified calls_simps])

lemma ICoreWebView2ClientCertificateRequestedEventArgs_follow: "ICoreWebView2ClientCertificateRequestedEventArgs_macros = macros_of ICoreWebView2ClientCertificateRequestedEventArgs"
  by (simp only: macros_of_def layouts macro_simps
      ICoreWebView2ClientCertificateRequestedEventArgs_macros_def
      ICoreWebView2ClientCertificateRequestedEventArgs_calls [simplified calls_simps])

lemma ICoreWebView2ContextMenuItem_follow: "ICoreWebView2ContextMenuItem_macros = macros_of ICoreWebView2ContextMenuItem"
  by (simp only: macros_of_def layouts macro_simps
      ICoreWebView2ContextMenuItem_macros_def
      ICoreWebView2ContextMenuItem_calls [simplified calls_simps])

lemma ICoreWebView2ContextMenuItemCollection_follow: "ICoreWebView2ContextMenuItemCollection_macros = macros_of ICoreWebView2ContextMenuItemCollection"
  by (simp only: macros_of_def layouts macro_simps
      ICoreWebView2ContextMenuItemCollection_macros_def
      ICoreWebView2ContextMenuItemCollection_calls [simplified calls_simps])

lemma ICoreWebView2ContextMenuTarget_follow: "ICoreWebView2ContextMenuTarget_macros = macros_of ICoreWebView2ContextMenuTarget"
  by (simp only: macros_of_def layouts macro_simps
      ICoreWebView2ContextMenuTarget_macros_def
      ICoreWebView2ContextMenuTarget_calls [simplified calls_simps])

lemma ICoreWebView2CustomSchemeRegistration_follow: "ICoreWebView2CustomSchemeRegistration_macros = macros_of ICoreWebView2CustomSchemeRegistration"
  by (simp only: macros_of_def layouts macro_simps
      ICoreWebView2CustomSchemeRegistration_macros_def
      ICoreWebView2CustomSchemeRegistration_calls [simplified calls_simps])

lemma ICoreWebView2DOMContentLoadedEventArgs_follow: "ICoreWebView2DOMContentLoadedEventArgs_macros = macros_of ICoreWebView2DOMContentLoadedEventArgs"
  by (simp only: macros_of_def layouts macro_simps
      ICoreWebView2DOMContentLoadedEventArgs_macros_def
      ICoreWebView2DOMContentLoadedEventArgs_calls [simplified calls_simps])

lemma ICoreWebView2Deferral_follow: "ICoreWebView2Deferral_macros = macros_of ICoreWebView2Deferral"
  by (simp only: macros_of_def layouts macro_simps
      ICoreWebView2Deferral_macros_def
      ICoreWebView2Deferral_calls [simplified calls_simps])

lemma ICoreWebView2DevToolsProtocolEventReceivedEventArgs_follow: "ICoreWebView2DevToolsProtocolEventReceivedEventArgs_macros = macros_of ICoreWebView2DevToolsProtocolEventReceivedEventArgs"
  by (simp only: macros_of_def layouts macro_simps
      ICoreWebView2DevToolsProtocolEventReceivedEventArgs_macros_def
      ICoreWebView2DevToolsProtocolEventReceivedEventArgs_calls [simplified calls_simps])

lemma ICoreWebView2DevToolsProtocolEventReceivedEventArgs2_follow: "ICoreWebView2DevToolsProtocolEventReceivedEventArgs2_macros = macros_of ICoreWebView2DevToolsProtocolEventReceivedEventArgs2"
  by (simp only: macros_of_def layouts macro_simps
      ICoreWebView2DevToolsProtocolEventReceivedEventArgs2_macros_def
      ICoreWebView2DevToolsProtocolEventReceivedEventArgs_calls [simplified calls_simps]
      ICoreWebView2DevToolsProtocolEventReceivedEventArgs2_calls [simplified calls_simps])

lemma ICoreWebView2DevToolsProtocolEventReceiver_follow: "ICoreWebView2DevToolsProtocolEventReceiver_macros = macros_of ICoreWebView2DevToolsProtocolEventReceiver"
  by (simp only: macros_of_def layouts macro_simps
      ICoreWebView2DevToolsProtocolEventReceiver_macros_def
      ICoreWebView2DevToolsProtocolEventReceiver_calls [simplified calls_simps])

lemma ICoreWebView2DownloadStartingEventArgs_follow: "ICoreWebView2DownloadStartingEventArgs_macros = macros_of ICoreWebView2DownloadStartingEventArgs"
  by (simp only: macros_of_def layouts macro_simps
      ICoreWebView2DownloadStartingEventArgs_macros_def
      ICoreWebView2DownloadStartingEventArgs_calls [simplified calls_simps])

lemma ICoreWebView2FrameCreatedEventArgs_follow: "ICoreWebView2FrameCreatedEventArgs_macros = macros_of ICoreWebView2FrameCreatedEventArgs"
  by (simp only: macros_of_def layouts macro_simps
      ICoreWebView2FrameCreatedEventArgs_macros_def
      ICoreWebView2FrameCreatedEventArgs_calls [simplified calls_simps])

lemma ICoreWebView2HttpHeadersCollectionIterator_follow: "ICoreWebView2HttpHeadersCollectionIterator_macros = macros_of ICoreWebView2HttpHeadersCollectionIterator"
  by (simp only: macros_of_def layouts macro_simps
      ICoreWebView2HttpHeadersCollectionIterator_macros_def
      ICoreWebView2HttpHeadersCollectionIterator_calls [simplified calls_simps])

lemma ICoreWebView2HttpRequestHeaders_follow: "ICoreWebView2HttpRequestHeaders_macros = macros_of ICoreWebView2HttpRequestHeaders"
  by (simp only: macros_of_def layouts macro_simps
      ICoreWebView2HttpRequestHeaders_macros_def
      ICoreWebView2HttpRequestHeaders_calls [simplified calls_simps])

lemma ICoreWebView2HttpResponseHeaders_follow: "ICoreWebView2HttpResponseHeaders_macros = macros_of ICoreWebView2HttpResponseHeaders"
  by (simp only: macros_of_def layouts macro_simps
      ICoreWebView2HttpResponseHeaders_macros_def
      ICoreWebView2HttpResponseHeaders_calls [simplified calls_simps])

lemma ICoreWebView2LaunchingExternalUriSchemeEventArgs_follow: "ICoreWebView2LaunchingExternalUriSchemeEventArgs_macros = macros_of ICoreWebView2LaunchingExternalUriSchemeEventArgs"
  by (simp only: macros_of_def layouts macro_simps
      ICoreWebView2LaunchingExternalUriSchemeEventArgs_macros_def
      ICoreWebView2LaunchingExternalUriSchemeEventArgs_calls [simplified calls_simps])

lemma ICoreWebView2MoveFocusRequestedEventArgs_follow: "ICoreWebView2MoveFocusRequestedEventArgs_macros = macros_of ICoreWebView2MoveFocusRequestedEventArgs"
  by (simp only: macros_of_def layouts macro_simps
      ICoreWebView2MoveFocusRequestedEventArgs_macros_def
      ICoreWebView2MoveFocusRequestedEventArgs_calls [simplified calls_simps])

lemma ICoreWebView2NavigationCompletedEventArgs_follow: "ICoreWebView2NavigationCompletedEventArgs_macros = macros_of ICoreWebView2NavigationCompletedEventArgs"
  by (simp only: macros_of_def layouts macro_simps
      ICoreWebView2NavigationCompletedEventArgs_macros_def
      ICoreWebView2NavigationCompletedEventArgs_calls [simplified calls_simps])

lemma ICoreWebView2NavigationCompletedEventArgs2_follow: "ICoreWebView2NavigationCompletedEventArgs2_macros = macros_of ICoreWebView2NavigationCompletedEventArgs2"
  by (simp only: macros_of_def layouts macro_simps
      ICoreWebView2NavigationCompletedEventArgs2_macros_def
      ICoreWebView2NavigationCompletedEventArgs_calls [simplified calls_simps]
      ICoreWebView2NavigationCompletedEventArgs2_calls [simplified calls_simps])

lemma ICoreWebView2NavigationStartingEventArgs_follow: "ICoreWebView2NavigationStartingEventArgs_macros = macros_of ICoreWebView2NavigationStartingEventArgs"
  by (simp only: macros_of_def layouts macro_simps
      ICoreWebView2NavigationStartingEventArgs_macros_def
      ICoreWebView2NavigationStartingEventArgs_calls [simplified calls_simps])

lemma ICoreWebView2NavigationStartingEventArgs2_follow: "ICoreWebView2NavigationStartingEventArgs2_macros = macros_of ICoreWebView2NavigationStartingEventArgs2"
  by (simp only: macros_of_def layouts macro_simps
      ICoreWebView2NavigationStartingEventArgs2_macros_def
      ICoreWebView2NavigationStartingEventArgs_calls [simplified calls_simps]
      ICoreWebView2NavigationStartingEventArgs2_calls [simplified calls_simps])

lemma ICoreWebView2NavigationStartingEventArgs3_follow: "ICoreWebView2NavigationStartingEventArgs3_macros = macros_of ICoreWebView2NavigationStartingEventArgs3"
  by (simp only: macros_of_def layouts macro_simps
      ICoreWebView2NavigationStartingEventArgs3_macros_def
      ICoreWebView2NavigationStartingEventArgs_calls [simplified calls_simps]
      ICoreWebView2NavigationStartingEventArgs2_calls [simplified calls_simps]
      ICoreWebView2NavigationStartingEventArgs3_calls [simplified calls_simps])

lemma ICoreWebView2NewWindowRequestedEventArgs_follow: "ICoreWebView2NewWindowRequestedEventArgs_macros = macros_of ICoreWebView2NewWindowRequestedEventArgs"
  by (simp only: macros_of_def layouts macro_simps
      ICoreWebView2NewWindowRequestedEventArgs_macros_def
      ICoreWebView2NewWindowRequestedEventArgs_calls [simplified calls_simps])

lemma ICoreWebView2NewWindowRequestedEventArgs2_follow: "ICoreWebView2NewWindowRequestedEventArgs2_macros = macros_of ICoreWebView2NewWindowRequestedEventArgs2"
  by (simp only: macros_of_def layouts macro_simps
      ICoreWebView2NewWindowRequestedEventArgs2_macros_def
      ICoreWebView2NewWindowRequestedEventArgs_calls [simplified calls_simps]
      ICoreWebView2NewWindowRequestedEventArgs2_calls [simplified calls_simps])

lemma ICoreWebView2NewWindowRequestedEventArgs3_follow: "ICoreWebView2NewWindowRequestedEventArgs3_macros = macros_of ICoreWebView2NewWindowRequestedEventArgs3"
  by (simp only: macros_of_def layouts macro_simps
      ICoreWebView2NewWindowRequestedEventArgs3_macros_def
      ICoreWebView2NewWindowRequestedEventArgs_calls [simplified calls_simps]
      ICoreWebView2NewWindowRequestedEventArgs2_calls [simplified calls_simps]
      ICoreWebView2NewWindowRequestedEventArgs3_calls [simplified calls_simps])

lemma ICoreWebView2PermissionRequestedEventArgs_follow: "ICoreWebView2PermissionRequestedEventArgs_macros = macros_of ICoreWebView2PermissionRequestedEventArgs"
  by (simp only: macros_of_def layouts macro_simps
      ICoreWebView2PermissionRequestedEventArgs_macros_def
      ICoreWebView2PermissionRequestedEventArgs_calls [simplified calls_simps])

lemma ICoreWebView2PermissionRequestedEventArgs2_follow: "ICoreWebView2PermissionRequestedEventArgs2_macros = macros_of ICoreWebView2PermissionRequestedEventArgs2"
  by (simp only: macros_of_def layouts macro_simps
      ICoreWebView2PermissionRequestedEventArgs2_macros_def
      ICoreWebView2PermissionRequestedEventArgs_calls [simplified calls_simps]
      ICoreWebView2PermissionRequestedEventArgs2_calls [simplified calls_simps])

lemma ICoreWebView2PermissionRequestedEventArgs3_follow: "ICoreWebView2PermissionRequestedEventArgs3_macros = macros_of ICoreWebView2PermissionRequestedEventArgs3"
  by (simp only: macros_of_def layouts macro_simps
      ICoreWebView2PermissionRequestedEventArgs3_macros_def
      ICoreWebView2PermissionRequestedEventArgs_calls [simplified calls_simps]
      ICoreWebView2PermissionRequestedEventArgs2_calls [simplified calls_simps]
      ICoreWebView2PermissionRequestedEventArgs3_calls [simplified calls_simps])

lemma ICoreWebView2PermissionSettingCollectionView_follow: "ICoreWebView2PermissionSettingCollectionView_macros = macros_of ICoreWebView2PermissionSettingCollectionView"
  by (simp only: macros_of_def layouts macro_simps
      ICoreWebView2PermissionSettingCollectionView_macros_def
      ICoreWebView2PermissionSettingCollectionView_calls [simplified calls_simps])

lemma ICoreWebView2PermissionSetting_follow: "ICoreWebView2PermissionSetting_macros = macros_of ICoreWebView2PermissionSetting"
  by (simp only: macros_of_def layouts macro_simps
      ICoreWebView2PermissionSetting_macros_def
      ICoreWebView2PermissionSetting_calls [simplified calls_simps])

lemma ICoreWebView2PointerInfo_follow: "ICoreWebView2PointerInfo_macros = macros_of ICoreWebView2PointerInfo"
  by (simp only: macros_of_def layouts macro_simps
      ICoreWebView2PointerInfo_macros_1_def ICoreWebView2PointerInfo_macros_2_def
      ICoreWebView2PointerInfo_macros_def
      ICoreWebView2PointerInfo_calls [simplified calls_simps])

lemma ICoreWebView2PrintSettings_follow: "ICoreWebView2PrintSettings_macros = macros_of ICoreWebView2PrintSettings"
  by (simp only: macros_of_def layouts macro_simps
      ICoreWebView2PrintSettings_macros_def
      ICoreWebView2PrintSettings_calls [simplified calls_simps])

lemma ICoreWebView2PrintSettings2_follow: "ICoreWebView2PrintSettings2_macros = macros_of ICoreWebView2PrintSettings2"
  by (simp only: macros_of_def layouts macro_simps
      ICoreWebView2PrintSettings2_macros_def
      ICoreWebView2PrintSettings_calls [simplified calls_simps] ICoreWebView2PrintSettings2_calls [simplified
      calls_simps])

lemma ICoreWebView2ProcessFailedEventArgs_follow: "ICoreWebView2ProcessFailedEventArgs_macros = macros_of ICoreWebView2ProcessFailedEventArgs"
  by (simp only: macros_of_def layouts macro_simps
      ICoreWebView2ProcessFailedEventArgs_macros_def
      ICoreWebView2ProcessFailedEventArgs_calls [simplified calls_simps])

lemma ICoreWebView2ProcessFailedEventArgs2_follow: "ICoreWebView2ProcessFailedEventArgs2_macros = macros_of ICoreWebView2ProcessFailedEventArgs2"
  by (simp only: macros_of_def layouts macro_simps
      ICoreWebView2ProcessFailedEventArgs2_macros_def
      ICoreWebView2ProcessFailedEventArgs_calls [simplified calls_simps] ICoreWebView2ProcessFailedEventArgs2_calls
      [simplified calls_simps])

lemma ICoreWebView2ServerCertificateErrorDetectedEventArgs_follow: "ICoreWebView2ServerCertificateErrorDetectedEventArgs_macros = macros_of ICoreWebView2ServerCertificateErrorDetectedEventArgs"
  by (simp only: macros_of_def layouts macro_simps
      ICoreWebView2ServerCertificateErrorDetectedEventArgs_macros_def
      ICoreWebView2ServerCertificateErrorDetectedEventArgs_calls [simplified calls_simps])

lemma ICoreWebView2ScriptDialogOpeningEventArgs_follow: "ICoreWebView2ScriptDialogOpeningEventArgs_macros = macros_of ICoreWebView2ScriptDialogOpeningEventArgs"
  by (simp only: macros_of_def layouts macro_simps
      ICoreWebView2ScriptDialogOpeningEventArgs_macros_def
      ICoreWebView2ScriptDialogOpeningEventArgs_calls [simplified calls_simps])

lemma ICoreWebView2SourceChangedEventArgs_follow: "ICoreWebView2SourceChangedEventArgs_macros = macros_of ICoreWebView2SourceChangedEventArgs"
  by (simp only: macros_of_def layouts macro_simps
      ICoreWebView2SourceChangedEventArgs_macros_def
      ICoreWebView2SourceChangedEventArgs_calls [simplified calls_simps])

lemma ICoreWebView2WebMessageReceivedEventArgs_follow: "ICoreWebView2WebMessageReceivedEventArgs_macros = macros_of ICoreWebView2WebMessageReceivedEventArgs"
  by (simp only: macros_of_def layouts macro_simps
      ICoreWebView2WebMessageReceivedEventArgs_macros_def
      ICoreWebView2WebMessageReceivedEventArgs_calls [simplified calls_simps])

lemma ICoreWebView2WebResourceRequest_follow: "ICoreWebView2WebResourceRequest_macros = macros_of ICoreWebView2WebResourceRequest"
  by (simp only: macros_of_def layouts macro_simps
      ICoreWebView2WebResourceRequest_macros_def
      ICoreWebView2WebResourceRequest_calls [simplified calls_simps])

lemma ICoreWebView2WebResourceRequestedEventArgs_follow: "ICoreWebView2WebResourceRequestedEventArgs_macros = macros_of ICoreWebView2WebResourceRequestedEventArgs"
  by (simp only: macros_of_def layouts macro_simps
      ICoreWebView2WebResourceRequestedEventArgs_macros_def
      ICoreWebView2WebResourceRequestedEventArgs_calls [simplified calls_simps])

lemma ICoreWebView2WebResourceRequestedEventArgs2_follow: "ICoreWebView2WebResourceRequestedEventArgs2_macros = macros_of ICoreWebView2WebResourceRequestedEventArgs2"
  by (simp only: macros_of_def layouts macro_simps
      ICoreWebView2WebResourceRequestedEventArgs2_macros_def
      ICoreWebView2WebResourceRequestedEventArgs_calls [simplified calls_simps]
      ICoreWebView2WebResourceRequestedEventArgs2_calls [simplified calls_simps])

lemma ICoreWebView2WebResourceResponse_follow: "ICoreWebView2WebResourceResponse_macros = macros_of ICoreWebView2WebResourceResponse"
  by (simp only: macros_of_def layouts macro_simps
      ICoreWebView2WebResourceResponse_macros_def
      ICoreWebView2WebResourceResponse_calls [simplified calls_simps])

lemma ICoreWebView2WebResourceResponseReceivedEventArgs_follow: "ICoreWebView2WebResourceResponseReceivedEventArgs_macros = macros_of ICoreWebView2WebResourceResponseReceivedEventArgs"
  by (simp only: macros_of_def layouts macro_simps
      ICoreWebView2WebResourceResponseReceivedEventArgs_macros_def
      ICoreWebView2WebResourceResponseReceivedEventArgs_calls [simplified calls_simps])

lemma ICoreWebView2WebResourceResponseView_follow: "ICoreWebView2WebResourceResponseView_macros = macros_of ICoreWebView2WebResourceResponseView"
  by (simp only: macros_of_def layouts macro_simps
      ICoreWebView2WebResourceResponseView_macros_def
      ICoreWebView2WebResourceResponseView_calls [simplified calls_simps])

lemma ICoreWebView2WindowFeatures_follow: "ICoreWebView2WindowFeatures_macros = macros_of ICoreWebView2WindowFeatures"
  by (simp only: macros_of_def layouts macro_simps
      ICoreWebView2WindowFeatures_macros_def
      ICoreWebView2WindowFeatures_calls [simplified calls_simps])

lemma ICoreWebView2BrowserExtensionList_follow: "ICoreWebView2BrowserExtensionList_macros = macros_of ICoreWebView2BrowserExtensionList"
  by (simp only: macros_of_def layouts macro_simps
      ICoreWebView2BrowserExtensionList_macros_def
      ICoreWebView2BrowserExtensionList_calls [simplified calls_simps])

lemma ICoreWebView2BrowserExtension_follow: "ICoreWebView2BrowserExtension_macros = macros_of ICoreWebView2BrowserExtension"
  by (simp only: macros_of_def layouts macro_simps
      ICoreWebView2BrowserExtension_macros_def
      ICoreWebView2BrowserExtension_calls [simplified calls_simps])

lemma ICoreWebView2ExecuteScriptResult_follow: "ICoreWebView2ExecuteScriptResult_macros = macros_of ICoreWebView2ExecuteScriptResult"
  by (simp only: macros_of_def layouts macro_simps
      ICoreWebView2ExecuteScriptResult_macros_def
      ICoreWebView2ExecuteScriptResult_calls [simplified calls_simps])

lemma ICoreWebView2ScriptException_follow: "ICoreWebView2ScriptException_macros = macros_of ICoreWebView2ScriptException"
  by (simp only: macros_of_def layouts macro_simps
      ICoreWebView2ScriptException_macros_def
      ICoreWebView2ScriptException_calls [simplified calls_simps])

lemma ICoreWebView2File_follow: "ICoreWebView2File_macros = macros_of ICoreWebView2File"
  by (simp only: macros_of_def layouts macro_simps
      ICoreWebView2File_macros_def
      ICoreWebView2File_calls [simplified calls_simps])

lemma ICoreWebView2ObjectCollectionView_follow: "ICoreWebView2ObjectCollectionView_macros = macros_of ICoreWebView2ObjectCollectionView"
  by (simp only: macros_of_def layouts macro_simps
      ICoreWebView2ObjectCollectionView_macros_def
      ICoreWebView2ObjectCollectionView_calls [simplified calls_simps])

lemma ICoreWebView2WebMessageReceivedEventArgs2_follow: "ICoreWebView2WebMessageReceivedEventArgs2_macros = macros_of ICoreWebView2WebMessageReceivedEventArgs2"
  by (simp only: macros_of_def layouts macro_simps
      ICoreWebView2WebMessageReceivedEventArgs2_macros_def
      ICoreWebView2WebMessageReceivedEventArgs_calls [simplified calls_simps]
      ICoreWebView2WebMessageReceivedEventArgs2_calls [simplified calls_simps])

definition objects_macros :: "(iface \<times> cmacro list) list" where
  "objects_macros =
     [(ICoreWebView2AcceleratorKeyPressedEventArgs, ICoreWebView2AcceleratorKeyPressedEventArgs_macros),
      (ICoreWebView2AcceleratorKeyPressedEventArgs2, ICoreWebView2AcceleratorKeyPressedEventArgs2_macros),
      (ICoreWebView2BasicAuthenticationRequestedEventArgs, ICoreWebView2BasicAuthenticationRequestedEventArgs_macros),
      (ICoreWebView2BasicAuthenticationResponse, ICoreWebView2BasicAuthenticationResponse_macros),
      (ICoreWebView2BrowserProcessExitedEventArgs, ICoreWebView2BrowserProcessExitedEventArgs_macros),
      (ICoreWebView2ContentLoadingEventArgs, ICoreWebView2ContentLoadingEventArgs_macros),
      (ICoreWebView2ContextMenuRequestedEventArgs, ICoreWebView2ContextMenuRequestedEventArgs_macros),
      (ICoreWebView2Cookie, ICoreWebView2Cookie_macros), (ICoreWebView2CookieList, ICoreWebView2CookieList_macros),
      (ICoreWebView2Certificate, ICoreWebView2Certificate_macros),
      (ICoreWebView2ClientCertificate, ICoreWebView2ClientCertificate_macros),
      (ICoreWebView2StringCollection, ICoreWebView2StringCollection_macros),
      (ICoreWebView2ClientCertificateCollection, ICoreWebView2ClientCertificateCollection_macros),
      (ICoreWebView2ClientCertificateRequestedEventArgs, ICoreWebView2ClientCertificateRequestedEventArgs_macros),
      (ICoreWebView2ContextMenuItem, ICoreWebView2ContextMenuItem_macros),
      (ICoreWebView2ContextMenuItemCollection, ICoreWebView2ContextMenuItemCollection_macros),
      (ICoreWebView2ContextMenuTarget, ICoreWebView2ContextMenuTarget_macros),
      (ICoreWebView2CustomSchemeRegistration, ICoreWebView2CustomSchemeRegistration_macros),
      (ICoreWebView2DOMContentLoadedEventArgs, ICoreWebView2DOMContentLoadedEventArgs_macros),
      (ICoreWebView2Deferral, ICoreWebView2Deferral_macros),
      (ICoreWebView2DevToolsProtocolEventReceivedEventArgs, ICoreWebView2DevToolsProtocolEventReceivedEventArgs_macros),
      (ICoreWebView2DevToolsProtocolEventReceivedEventArgs2, ICoreWebView2DevToolsProtocolEventReceivedEventArgs2_macros),
      (ICoreWebView2DevToolsProtocolEventReceiver, ICoreWebView2DevToolsProtocolEventReceiver_macros),
      (ICoreWebView2DownloadStartingEventArgs, ICoreWebView2DownloadStartingEventArgs_macros),
      (ICoreWebView2FrameCreatedEventArgs, ICoreWebView2FrameCreatedEventArgs_macros),
      (ICoreWebView2HttpHeadersCollectionIterator, ICoreWebView2HttpHeadersCollectionIterator_macros),
      (ICoreWebView2HttpRequestHeaders, ICoreWebView2HttpRequestHeaders_macros),
      (ICoreWebView2HttpResponseHeaders, ICoreWebView2HttpResponseHeaders_macros),
      (ICoreWebView2LaunchingExternalUriSchemeEventArgs, ICoreWebView2LaunchingExternalUriSchemeEventArgs_macros),
      (ICoreWebView2MoveFocusRequestedEventArgs, ICoreWebView2MoveFocusRequestedEventArgs_macros),
      (ICoreWebView2NavigationCompletedEventArgs, ICoreWebView2NavigationCompletedEventArgs_macros),
      (ICoreWebView2NavigationCompletedEventArgs2, ICoreWebView2NavigationCompletedEventArgs2_macros),
      (ICoreWebView2NavigationStartingEventArgs, ICoreWebView2NavigationStartingEventArgs_macros),
      (ICoreWebView2NavigationStartingEventArgs2, ICoreWebView2NavigationStartingEventArgs2_macros),
      (ICoreWebView2NavigationStartingEventArgs3, ICoreWebView2NavigationStartingEventArgs3_macros),
      (ICoreWebView2NewWindowRequestedEventArgs, ICoreWebView2NewWindowRequestedEventArgs_macros),
      (ICoreWebView2NewWindowRequestedEventArgs2, ICoreWebView2NewWindowRequestedEventArgs2_macros),
      (ICoreWebView2NewWindowRequestedEventArgs3, ICoreWebView2NewWindowRequestedEventArgs3_macros),
      (ICoreWebView2PermissionRequestedEventArgs, ICoreWebView2PermissionRequestedEventArgs_macros),
      (ICoreWebView2PermissionRequestedEventArgs2, ICoreWebView2PermissionRequestedEventArgs2_macros),
      (ICoreWebView2PermissionRequestedEventArgs3, ICoreWebView2PermissionRequestedEventArgs3_macros),
      (ICoreWebView2PermissionSettingCollectionView, ICoreWebView2PermissionSettingCollectionView_macros),
      (ICoreWebView2PermissionSetting, ICoreWebView2PermissionSetting_macros),
      (ICoreWebView2PointerInfo, ICoreWebView2PointerInfo_macros),
      (ICoreWebView2PrintSettings, ICoreWebView2PrintSettings_macros),
      (ICoreWebView2PrintSettings2, ICoreWebView2PrintSettings2_macros),
      (ICoreWebView2ProcessFailedEventArgs, ICoreWebView2ProcessFailedEventArgs_macros),
      (ICoreWebView2ProcessFailedEventArgs2, ICoreWebView2ProcessFailedEventArgs2_macros),
      (ICoreWebView2ServerCertificateErrorDetectedEventArgs, ICoreWebView2ServerCertificateErrorDetectedEventArgs_macros),
      (ICoreWebView2ScriptDialogOpeningEventArgs, ICoreWebView2ScriptDialogOpeningEventArgs_macros),
      (ICoreWebView2SourceChangedEventArgs, ICoreWebView2SourceChangedEventArgs_macros),
      (ICoreWebView2WebMessageReceivedEventArgs, ICoreWebView2WebMessageReceivedEventArgs_macros),
      (ICoreWebView2WebResourceRequest, ICoreWebView2WebResourceRequest_macros),
      (ICoreWebView2WebResourceRequestedEventArgs, ICoreWebView2WebResourceRequestedEventArgs_macros),
      (ICoreWebView2WebResourceRequestedEventArgs2, ICoreWebView2WebResourceRequestedEventArgs2_macros),
      (ICoreWebView2WebResourceResponse, ICoreWebView2WebResourceResponse_macros),
      (ICoreWebView2WebResourceResponseReceivedEventArgs, ICoreWebView2WebResourceResponseReceivedEventArgs_macros),
      (ICoreWebView2WebResourceResponseView, ICoreWebView2WebResourceResponseView_macros),
      (ICoreWebView2WindowFeatures, ICoreWebView2WindowFeatures_macros),
      (ICoreWebView2BrowserExtensionList, ICoreWebView2BrowserExtensionList_macros),
      (ICoreWebView2BrowserExtension, ICoreWebView2BrowserExtension_macros),
      (ICoreWebView2ExecuteScriptResult, ICoreWebView2ExecuteScriptResult_macros),
      (ICoreWebView2ScriptException, ICoreWebView2ScriptException_macros),
      (ICoreWebView2File, ICoreWebView2File_macros),
      (ICoreWebView2ObjectCollectionView, ICoreWebView2ObjectCollectionView_macros),
      (ICoreWebView2WebMessageReceivedEventArgs2, ICoreWebView2WebMessageReceivedEventArgs2_macros)]"

lemma objects_macros_follow: "list_all (\<lambda>(i, ms). ms = macros_of i) objects_macros"
  by (simp only: objects_macros_def list.pred_inject prod.case simp_thms
    ICoreWebView2AcceleratorKeyPressedEventArgs_follow ICoreWebView2AcceleratorKeyPressedEventArgs2_follow
    ICoreWebView2BasicAuthenticationRequestedEventArgs_follow ICoreWebView2BasicAuthenticationResponse_follow
    ICoreWebView2BrowserProcessExitedEventArgs_follow ICoreWebView2ContentLoadingEventArgs_follow
    ICoreWebView2ContextMenuRequestedEventArgs_follow ICoreWebView2Cookie_follow ICoreWebView2CookieList_follow
    ICoreWebView2Certificate_follow ICoreWebView2ClientCertificate_follow ICoreWebView2StringCollection_follow
    ICoreWebView2ClientCertificateCollection_follow ICoreWebView2ClientCertificateRequestedEventArgs_follow
    ICoreWebView2ContextMenuItem_follow ICoreWebView2ContextMenuItemCollection_follow
    ICoreWebView2ContextMenuTarget_follow ICoreWebView2CustomSchemeRegistration_follow
    ICoreWebView2DOMContentLoadedEventArgs_follow ICoreWebView2Deferral_follow
    ICoreWebView2DevToolsProtocolEventReceivedEventArgs_follow
    ICoreWebView2DevToolsProtocolEventReceivedEventArgs2_follow ICoreWebView2DevToolsProtocolEventReceiver_follow
    ICoreWebView2DownloadStartingEventArgs_follow ICoreWebView2FrameCreatedEventArgs_follow
    ICoreWebView2HttpHeadersCollectionIterator_follow ICoreWebView2HttpRequestHeaders_follow
    ICoreWebView2HttpResponseHeaders_follow ICoreWebView2LaunchingExternalUriSchemeEventArgs_follow
    ICoreWebView2MoveFocusRequestedEventArgs_follow ICoreWebView2NavigationCompletedEventArgs_follow
    ICoreWebView2NavigationCompletedEventArgs2_follow ICoreWebView2NavigationStartingEventArgs_follow
    ICoreWebView2NavigationStartingEventArgs2_follow ICoreWebView2NavigationStartingEventArgs3_follow
    ICoreWebView2NewWindowRequestedEventArgs_follow ICoreWebView2NewWindowRequestedEventArgs2_follow
    ICoreWebView2NewWindowRequestedEventArgs3_follow ICoreWebView2PermissionRequestedEventArgs_follow
    ICoreWebView2PermissionRequestedEventArgs2_follow ICoreWebView2PermissionRequestedEventArgs3_follow
    ICoreWebView2PermissionSettingCollectionView_follow ICoreWebView2PermissionSetting_follow
    ICoreWebView2PointerInfo_follow ICoreWebView2PrintSettings_follow ICoreWebView2PrintSettings2_follow
    ICoreWebView2ProcessFailedEventArgs_follow ICoreWebView2ProcessFailedEventArgs2_follow
    ICoreWebView2ServerCertificateErrorDetectedEventArgs_follow ICoreWebView2ScriptDialogOpeningEventArgs_follow
    ICoreWebView2SourceChangedEventArgs_follow ICoreWebView2WebMessageReceivedEventArgs_follow
    ICoreWebView2WebResourceRequest_follow ICoreWebView2WebResourceRequestedEventArgs_follow
    ICoreWebView2WebResourceRequestedEventArgs2_follow ICoreWebView2WebResourceResponse_follow
    ICoreWebView2WebResourceResponseReceivedEventArgs_follow ICoreWebView2WebResourceResponseView_follow
    ICoreWebView2WindowFeatures_follow ICoreWebView2BrowserExtensionList_follow
    ICoreWebView2BrowserExtension_follow ICoreWebView2ExecuteScriptResult_follow
    ICoreWebView2ScriptException_follow ICoreWebView2File_follow ICoreWebView2ObjectCollectionView_follow
    ICoreWebView2WebMessageReceivedEventArgs2_follow)

end
