(* ===== verification/AbiHandlersCalls.thy ===== *)
theory AbiHandlersCalls
  imports CallMacros AbiHandlers
begin

text \<open>
  \<^verbatim>\<open>builtin/goc/webview2/WebView2.h\<close>: the call macros of
  the interfaces of \<open>AbiHandlers\<close>. Each interface repeats the macros of its base, as its table repeats the slots: the macros of an interface
  that others extend are named, the others stand in the list of their interface.
\<close>

section \<open>Macros of the interfaces\<close>

definition ICoreWebView2AcceleratorKeyPressedEventHandler_macros :: "cmacro list" where
  "ICoreWebView2AcceleratorKeyPressedEventHandler_macros =
     [IUnknown_QueryInterface_macro,
      IUnknown_AddRef_macro,
      IUnknown_Release_macro,
      Macro ''Invoke'' [''sender'', ''args''] ''Invoke'' [''sender'', ''args'']]"

definition ICoreWebView2AddScriptToExecuteOnDocumentCreatedCompletedHandler_macros :: "cmacro list" where
  "ICoreWebView2AddScriptToExecuteOnDocumentCreatedCompletedHandler_macros =
     [IUnknown_QueryInterface_macro,
      IUnknown_AddRef_macro,
      IUnknown_Release_macro,
      Macro ''Invoke'' [''errorCode'', ''id''] ''Invoke'' [''errorCode'', ''id'']]"

definition ICoreWebView2CallDevToolsProtocolMethodCompletedHandler_macros :: "cmacro list" where
  "ICoreWebView2CallDevToolsProtocolMethodCompletedHandler_macros =
     [IUnknown_QueryInterface_macro,
      IUnknown_AddRef_macro,
      IUnknown_Release_macro,
      Macro ''Invoke'' [''errorCode'', ''returnObjectAsJson''] ''Invoke'' [''errorCode'', ''returnObjectAsJson'']]"

definition ICoreWebView2CapturePreviewCompletedHandler_macros :: "cmacro list" where
  "ICoreWebView2CapturePreviewCompletedHandler_macros =
     [IUnknown_QueryInterface_macro,
      IUnknown_AddRef_macro,
      IUnknown_Release_macro,
      Macro ''Invoke'' [''errorCode''] ''Invoke'' [''errorCode'']]"

definition ICoreWebView2BasicAuthenticationRequestedEventHandler_macros :: "cmacro list" where
  "ICoreWebView2BasicAuthenticationRequestedEventHandler_macros =
     [IUnknown_QueryInterface_macro,
      IUnknown_AddRef_macro,
      IUnknown_Release_macro,
      Macro ''Invoke'' [''sender'', ''args''] ''Invoke'' [''sender'', ''args'']]"

definition ICoreWebView2BrowserProcessExitedEventHandler_macros :: "cmacro list" where
  "ICoreWebView2BrowserProcessExitedEventHandler_macros =
     [IUnknown_QueryInterface_macro,
      IUnknown_AddRef_macro,
      IUnknown_Release_macro,
      Macro ''Invoke'' [''sender'', ''args''] ''Invoke'' [''sender'', ''args'']]"

definition ICoreWebView2BytesReceivedChangedEventHandler_macros :: "cmacro list" where
  "ICoreWebView2BytesReceivedChangedEventHandler_macros =
     [IUnknown_QueryInterface_macro,
      IUnknown_AddRef_macro,
      IUnknown_Release_macro,
      Macro ''Invoke'' [''sender'', ''args''] ''Invoke'' [''sender'', ''args'']]"

definition ICoreWebView2ContentLoadingEventHandler_macros :: "cmacro list" where
  "ICoreWebView2ContentLoadingEventHandler_macros =
     [IUnknown_QueryInterface_macro,
      IUnknown_AddRef_macro,
      IUnknown_Release_macro,
      Macro ''Invoke'' [''sender'', ''args''] ''Invoke'' [''sender'', ''args'']]"

definition ICoreWebView2ContextMenuRequestedEventHandler_macros :: "cmacro list" where
  "ICoreWebView2ContextMenuRequestedEventHandler_macros =
     [IUnknown_QueryInterface_macro,
      IUnknown_AddRef_macro,
      IUnknown_Release_macro,
      Macro ''Invoke'' [''sender'', ''args''] ''Invoke'' [''sender'', ''args'']]"

definition ICoreWebView2ClearBrowsingDataCompletedHandler_macros :: "cmacro list" where
  "ICoreWebView2ClearBrowsingDataCompletedHandler_macros =
     [IUnknown_QueryInterface_macro,
      IUnknown_AddRef_macro,
      IUnknown_Release_macro,
      Macro ''Invoke'' [''errorCode''] ''Invoke'' [''errorCode'']]"

definition ICoreWebView2ClientCertificateRequestedEventHandler_macros :: "cmacro list" where
  "ICoreWebView2ClientCertificateRequestedEventHandler_macros =
     [IUnknown_QueryInterface_macro,
      IUnknown_AddRef_macro,
      IUnknown_Release_macro,
      Macro ''Invoke'' [''sender'', ''args''] ''Invoke'' [''sender'', ''args'']]"

definition ICoreWebView2ClearServerCertificateErrorActionsCompletedHandler_macros :: "cmacro list" where
  "ICoreWebView2ClearServerCertificateErrorActionsCompletedHandler_macros =
     [IUnknown_QueryInterface_macro,
      IUnknown_AddRef_macro,
      IUnknown_Release_macro,
      Macro ''Invoke'' [''errorCode''] ''Invoke'' [''errorCode'']]"

definition ICoreWebView2CreateCoreWebView2CompositionControllerCompletedHandler_macros :: "cmacro list" where
  "ICoreWebView2CreateCoreWebView2CompositionControllerCompletedHandler_macros =
     [IUnknown_QueryInterface_macro,
      IUnknown_AddRef_macro,
      IUnknown_Release_macro,
      Macro ''Invoke'' [''errorCode'', ''webView''] ''Invoke'' [''errorCode'', ''webView'']]"

definition ICoreWebView2CreateCoreWebView2ControllerCompletedHandler_macros :: "cmacro list" where
  "ICoreWebView2CreateCoreWebView2ControllerCompletedHandler_macros =
     [IUnknown_QueryInterface_macro,
      IUnknown_AddRef_macro,
      IUnknown_Release_macro,
      Macro ''Invoke'' [''errorCode'', ''createdController''] ''Invoke'' [''errorCode'', ''createdController'']]"

definition ICoreWebView2CreateCoreWebView2EnvironmentCompletedHandler_macros :: "cmacro list" where
  "ICoreWebView2CreateCoreWebView2EnvironmentCompletedHandler_macros =
     [IUnknown_QueryInterface_macro,
      IUnknown_AddRef_macro,
      IUnknown_Release_macro,
      Macro ''Invoke'' [''errorCode'', ''createdEnvironment''] ''Invoke'' [''errorCode'', ''createdEnvironment'']]"

definition ICoreWebView2ContainsFullScreenElementChangedEventHandler_macros :: "cmacro list" where
  "ICoreWebView2ContainsFullScreenElementChangedEventHandler_macros =
     [IUnknown_QueryInterface_macro,
      IUnknown_AddRef_macro,
      IUnknown_Release_macro,
      Macro ''Invoke'' [''sender'', ''args''] ''Invoke'' [''sender'', ''args'']]"

definition ICoreWebView2CursorChangedEventHandler_macros :: "cmacro list" where
  "ICoreWebView2CursorChangedEventHandler_macros =
     [IUnknown_QueryInterface_macro,
      IUnknown_AddRef_macro,
      IUnknown_Release_macro,
      Macro ''Invoke'' [''sender'', ''args''] ''Invoke'' [''sender'', ''args'']]"

definition ICoreWebView2CustomItemSelectedEventHandler_macros :: "cmacro list" where
  "ICoreWebView2CustomItemSelectedEventHandler_macros =
     [IUnknown_QueryInterface_macro,
      IUnknown_AddRef_macro,
      IUnknown_Release_macro,
      Macro ''Invoke'' [''sender'', ''args''] ''Invoke'' [''sender'', ''args'']]"

definition ICoreWebView2DocumentTitleChangedEventHandler_macros :: "cmacro list" where
  "ICoreWebView2DocumentTitleChangedEventHandler_macros =
     [IUnknown_QueryInterface_macro,
      IUnknown_AddRef_macro,
      IUnknown_Release_macro,
      Macro ''Invoke'' [''sender'', ''args''] ''Invoke'' [''sender'', ''args'']]"

definition ICoreWebView2DOMContentLoadedEventHandler_macros :: "cmacro list" where
  "ICoreWebView2DOMContentLoadedEventHandler_macros =
     [IUnknown_QueryInterface_macro,
      IUnknown_AddRef_macro,
      IUnknown_Release_macro,
      Macro ''Invoke'' [''sender'', ''args''] ''Invoke'' [''sender'', ''args'']]"

definition ICoreWebView2DevToolsProtocolEventReceivedEventHandler_macros :: "cmacro list" where
  "ICoreWebView2DevToolsProtocolEventReceivedEventHandler_macros =
     [IUnknown_QueryInterface_macro,
      IUnknown_AddRef_macro,
      IUnknown_Release_macro,
      Macro ''Invoke'' [''sender'', ''args''] ''Invoke'' [''sender'', ''args'']]"

definition ICoreWebView2DownloadStartingEventHandler_macros :: "cmacro list" where
  "ICoreWebView2DownloadStartingEventHandler_macros =
     [IUnknown_QueryInterface_macro,
      IUnknown_AddRef_macro,
      IUnknown_Release_macro,
      Macro ''Invoke'' [''sender'', ''args''] ''Invoke'' [''sender'', ''args'']]"

definition ICoreWebView2EstimatedEndTimeChangedEventHandler_macros :: "cmacro list" where
  "ICoreWebView2EstimatedEndTimeChangedEventHandler_macros =
     [IUnknown_QueryInterface_macro,
      IUnknown_AddRef_macro,
      IUnknown_Release_macro,
      Macro ''Invoke'' [''sender'', ''args''] ''Invoke'' [''sender'', ''args'']]"

definition ICoreWebView2ExecuteScriptCompletedHandler_macros :: "cmacro list" where
  "ICoreWebView2ExecuteScriptCompletedHandler_macros =
     [IUnknown_QueryInterface_macro,
      IUnknown_AddRef_macro,
      IUnknown_Release_macro,
      Macro ''Invoke'' [''errorCode'', ''resultObjectAsJson''] ''Invoke'' [''errorCode'', ''resultObjectAsJson'']]"

definition ICoreWebView2GetProcessExtendedInfosCompletedHandler_macros :: "cmacro list" where
  "ICoreWebView2GetProcessExtendedInfosCompletedHandler_macros =
     [IUnknown_QueryInterface_macro,
      IUnknown_AddRef_macro,
      IUnknown_Release_macro,
      Macro ''Invoke'' [''errorCode'', ''value''] ''Invoke'' [''errorCode'', ''value'']]"

definition ICoreWebView2FrameContentLoadingEventHandler_macros :: "cmacro list" where
  "ICoreWebView2FrameContentLoadingEventHandler_macros =
     [IUnknown_QueryInterface_macro,
      IUnknown_AddRef_macro,
      IUnknown_Release_macro,
      Macro ''Invoke'' [''sender'', ''args''] ''Invoke'' [''sender'', ''args'']]"

definition ICoreWebView2FrameCreatedEventHandler_macros :: "cmacro list" where
  "ICoreWebView2FrameCreatedEventHandler_macros =
     [IUnknown_QueryInterface_macro,
      IUnknown_AddRef_macro,
      IUnknown_Release_macro,
      Macro ''Invoke'' [''sender'', ''args''] ''Invoke'' [''sender'', ''args'']]"

definition ICoreWebView2FrameDestroyedEventHandler_macros :: "cmacro list" where
  "ICoreWebView2FrameDestroyedEventHandler_macros =
     [IUnknown_QueryInterface_macro,
      IUnknown_AddRef_macro,
      IUnknown_Release_macro,
      Macro ''Invoke'' [''sender'', ''args''] ''Invoke'' [''sender'', ''args'']]"

definition ICoreWebView2FrameDOMContentLoadedEventHandler_macros :: "cmacro list" where
  "ICoreWebView2FrameDOMContentLoadedEventHandler_macros =
     [IUnknown_QueryInterface_macro,
      IUnknown_AddRef_macro,
      IUnknown_Release_macro,
      Macro ''Invoke'' [''sender'', ''args''] ''Invoke'' [''sender'', ''args'']]"

definition ICoreWebView2FrameNameChangedEventHandler_macros :: "cmacro list" where
  "ICoreWebView2FrameNameChangedEventHandler_macros =
     [IUnknown_QueryInterface_macro,
      IUnknown_AddRef_macro,
      IUnknown_Release_macro,
      Macro ''Invoke'' [''sender'', ''args''] ''Invoke'' [''sender'', ''args'']]"

definition ICoreWebView2FrameNavigationCompletedEventHandler_macros :: "cmacro list" where
  "ICoreWebView2FrameNavigationCompletedEventHandler_macros =
     [IUnknown_QueryInterface_macro,
      IUnknown_AddRef_macro,
      IUnknown_Release_macro,
      Macro ''Invoke'' [''sender'', ''args''] ''Invoke'' [''sender'', ''args'']]"

definition ICoreWebView2FrameNavigationStartingEventHandler_macros :: "cmacro list" where
  "ICoreWebView2FrameNavigationStartingEventHandler_macros =
     [IUnknown_QueryInterface_macro,
      IUnknown_AddRef_macro,
      IUnknown_Release_macro,
      Macro ''Invoke'' [''sender'', ''args''] ''Invoke'' [''sender'', ''args'']]"

definition ICoreWebView2FramePermissionRequestedEventHandler_macros :: "cmacro list" where
  "ICoreWebView2FramePermissionRequestedEventHandler_macros =
     [IUnknown_QueryInterface_macro,
      IUnknown_AddRef_macro,
      IUnknown_Release_macro,
      Macro ''Invoke'' [''sender'', ''args''] ''Invoke'' [''sender'', ''args'']]"

definition ICoreWebView2FrameWebMessageReceivedEventHandler_macros :: "cmacro list" where
  "ICoreWebView2FrameWebMessageReceivedEventHandler_macros =
     [IUnknown_QueryInterface_macro,
      IUnknown_AddRef_macro,
      IUnknown_Release_macro,
      Macro ''Invoke'' [''sender'', ''args''] ''Invoke'' [''sender'', ''args'']]"

definition ICoreWebView2FocusChangedEventHandler_macros :: "cmacro list" where
  "ICoreWebView2FocusChangedEventHandler_macros =
     [IUnknown_QueryInterface_macro,
      IUnknown_AddRef_macro,
      IUnknown_Release_macro,
      Macro ''Invoke'' [''sender'', ''args''] ''Invoke'' [''sender'', ''args'']]"

definition ICoreWebView2GetCookiesCompletedHandler_macros :: "cmacro list" where
  "ICoreWebView2GetCookiesCompletedHandler_macros =
     [IUnknown_QueryInterface_macro,
      IUnknown_AddRef_macro,
      IUnknown_Release_macro,
      Macro ''Invoke'' [''result'', ''cookieList''] ''Invoke'' [''result'', ''cookieList'']]"

definition ICoreWebView2GetNonDefaultPermissionSettingsCompletedHandler_macros :: "cmacro list" where
  "ICoreWebView2GetNonDefaultPermissionSettingsCompletedHandler_macros =
     [IUnknown_QueryInterface_macro,
      IUnknown_AddRef_macro,
      IUnknown_Release_macro,
      Macro ''Invoke'' [''errorCode'', ''collectionView''] ''Invoke'' [''errorCode'', ''collectionView'']]"

definition ICoreWebView2HistoryChangedEventHandler_macros :: "cmacro list" where
  "ICoreWebView2HistoryChangedEventHandler_macros =
     [IUnknown_QueryInterface_macro,
      IUnknown_AddRef_macro,
      IUnknown_Release_macro,
      Macro ''Invoke'' [''sender'', ''args''] ''Invoke'' [''sender'', ''args'']]"

definition ICoreWebView2IsDefaultDownloadDialogOpenChangedEventHandler_macros :: "cmacro list" where
  "ICoreWebView2IsDefaultDownloadDialogOpenChangedEventHandler_macros =
     [IUnknown_QueryInterface_macro,
      IUnknown_AddRef_macro,
      IUnknown_Release_macro,
      Macro ''Invoke'' [''sender'', ''args''] ''Invoke'' [''sender'', ''args'']]"

definition ICoreWebView2LaunchingExternalUriSchemeEventHandler_macros :: "cmacro list" where
  "ICoreWebView2LaunchingExternalUriSchemeEventHandler_macros =
     [IUnknown_QueryInterface_macro,
      IUnknown_AddRef_macro,
      IUnknown_Release_macro,
      Macro ''Invoke'' [''sender'', ''args''] ''Invoke'' [''sender'', ''args'']]"

definition ICoreWebView2MoveFocusRequestedEventHandler_macros :: "cmacro list" where
  "ICoreWebView2MoveFocusRequestedEventHandler_macros =
     [IUnknown_QueryInterface_macro,
      IUnknown_AddRef_macro,
      IUnknown_Release_macro,
      Macro ''Invoke'' [''sender'', ''args''] ''Invoke'' [''sender'', ''args'']]"

definition ICoreWebView2NavigationCompletedEventHandler_macros :: "cmacro list" where
  "ICoreWebView2NavigationCompletedEventHandler_macros =
     [IUnknown_QueryInterface_macro,
      IUnknown_AddRef_macro,
      IUnknown_Release_macro,
      Macro ''Invoke'' [''sender'', ''args''] ''Invoke'' [''sender'', ''args'']]"

definition ICoreWebView2NavigationStartingEventHandler_macros :: "cmacro list" where
  "ICoreWebView2NavigationStartingEventHandler_macros =
     [IUnknown_QueryInterface_macro,
      IUnknown_AddRef_macro,
      IUnknown_Release_macro,
      Macro ''Invoke'' [''sender'', ''args''] ''Invoke'' [''sender'', ''args'']]"

definition ICoreWebView2NewBrowserVersionAvailableEventHandler_macros :: "cmacro list" where
  "ICoreWebView2NewBrowserVersionAvailableEventHandler_macros =
     [IUnknown_QueryInterface_macro,
      IUnknown_AddRef_macro,
      IUnknown_Release_macro,
      Macro ''Invoke'' [''sender'', ''args''] ''Invoke'' [''sender'', ''args'']]"

definition ICoreWebView2NewWindowRequestedEventHandler_macros :: "cmacro list" where
  "ICoreWebView2NewWindowRequestedEventHandler_macros =
     [IUnknown_QueryInterface_macro,
      IUnknown_AddRef_macro,
      IUnknown_Release_macro,
      Macro ''Invoke'' [''sender'', ''args''] ''Invoke'' [''sender'', ''args'']]"

definition ICoreWebView2PermissionRequestedEventHandler_macros :: "cmacro list" where
  "ICoreWebView2PermissionRequestedEventHandler_macros =
     [IUnknown_QueryInterface_macro,
      IUnknown_AddRef_macro,
      IUnknown_Release_macro,
      Macro ''Invoke'' [''sender'', ''args''] ''Invoke'' [''sender'', ''args'']]"

definition ICoreWebView2PrintToPdfCompletedHandler_macros :: "cmacro list" where
  "ICoreWebView2PrintToPdfCompletedHandler_macros =
     [IUnknown_QueryInterface_macro,
      IUnknown_AddRef_macro,
      IUnknown_Release_macro,
      Macro ''Invoke'' [''errorCode'', ''isSuccessful''] ''Invoke'' [''errorCode'', ''isSuccessful'']]"

definition ICoreWebView2PrintCompletedHandler_macros :: "cmacro list" where
  "ICoreWebView2PrintCompletedHandler_macros =
     [IUnknown_QueryInterface_macro,
      IUnknown_AddRef_macro,
      IUnknown_Release_macro,
      Macro ''Invoke'' [''errorCode'', ''printStatus''] ''Invoke'' [''errorCode'', ''printStatus'']]"

definition ICoreWebView2PrintToPdfStreamCompletedHandler_macros :: "cmacro list" where
  "ICoreWebView2PrintToPdfStreamCompletedHandler_macros =
     [IUnknown_QueryInterface_macro,
      IUnknown_AddRef_macro,
      IUnknown_Release_macro,
      Macro ''Invoke'' [''errorCode'', ''pdfStream''] ''Invoke'' [''errorCode'', ''pdfStream'']]"

definition ICoreWebView2ProcessFailedEventHandler_macros :: "cmacro list" where
  "ICoreWebView2ProcessFailedEventHandler_macros =
     [IUnknown_QueryInterface_macro,
      IUnknown_AddRef_macro,
      IUnknown_Release_macro,
      Macro ''Invoke'' [''sender'', ''args''] ''Invoke'' [''sender'', ''args'']]"

definition ICoreWebView2ProfileDeletedEventHandler_macros :: "cmacro list" where
  "ICoreWebView2ProfileDeletedEventHandler_macros =
     [IUnknown_QueryInterface_macro,
      IUnknown_AddRef_macro,
      IUnknown_Release_macro,
      Macro ''Invoke'' [''sender'', ''args''] ''Invoke'' [''sender'', ''args'']]"

definition ICoreWebView2RasterizationScaleChangedEventHandler_macros :: "cmacro list" where
  "ICoreWebView2RasterizationScaleChangedEventHandler_macros =
     [IUnknown_QueryInterface_macro,
      IUnknown_AddRef_macro,
      IUnknown_Release_macro,
      Macro ''Invoke'' [''sender'', ''args''] ''Invoke'' [''sender'', ''args'']]"

definition ICoreWebView2ServerCertificateErrorDetectedEventHandler_macros :: "cmacro list" where
  "ICoreWebView2ServerCertificateErrorDetectedEventHandler_macros =
     [IUnknown_QueryInterface_macro,
      IUnknown_AddRef_macro,
      IUnknown_Release_macro,
      Macro ''Invoke'' [''sender'', ''args''] ''Invoke'' [''sender'', ''args'']]"

definition ICoreWebView2SetPermissionStateCompletedHandler_macros :: "cmacro list" where
  "ICoreWebView2SetPermissionStateCompletedHandler_macros =
     [IUnknown_QueryInterface_macro,
      IUnknown_AddRef_macro,
      IUnknown_Release_macro,
      Macro ''Invoke'' [''errorCode''] ''Invoke'' [''errorCode'']]"

definition ICoreWebView2ScriptDialogOpeningEventHandler_macros :: "cmacro list" where
  "ICoreWebView2ScriptDialogOpeningEventHandler_macros =
     [IUnknown_QueryInterface_macro,
      IUnknown_AddRef_macro,
      IUnknown_Release_macro,
      Macro ''Invoke'' [''sender'', ''args''] ''Invoke'' [''sender'', ''args'']]"

definition ICoreWebView2SourceChangedEventHandler_macros :: "cmacro list" where
  "ICoreWebView2SourceChangedEventHandler_macros =
     [IUnknown_QueryInterface_macro,
      IUnknown_AddRef_macro,
      IUnknown_Release_macro,
      Macro ''Invoke'' [''sender'', ''args''] ''Invoke'' [''sender'', ''args'']]"

definition ICoreWebView2StateChangedEventHandler_macros :: "cmacro list" where
  "ICoreWebView2StateChangedEventHandler_macros =
     [IUnknown_QueryInterface_macro,
      IUnknown_AddRef_macro,
      IUnknown_Release_macro,
      Macro ''Invoke'' [''sender'', ''args''] ''Invoke'' [''sender'', ''args'']]"

definition ICoreWebView2StatusBarTextChangedEventHandler_macros :: "cmacro list" where
  "ICoreWebView2StatusBarTextChangedEventHandler_macros =
     [IUnknown_QueryInterface_macro,
      IUnknown_AddRef_macro,
      IUnknown_Release_macro,
      Macro ''Invoke'' [''sender'', ''args''] ''Invoke'' [''sender'', ''args'']]"

definition ICoreWebView2TrySuspendCompletedHandler_macros :: "cmacro list" where
  "ICoreWebView2TrySuspendCompletedHandler_macros =
     [IUnknown_QueryInterface_macro,
      IUnknown_AddRef_macro,
      IUnknown_Release_macro,
      Macro ''Invoke'' [''errorCode'', ''isSuccessful''] ''Invoke'' [''errorCode'', ''isSuccessful'']]"

definition ICoreWebView2WebMessageReceivedEventHandler_macros :: "cmacro list" where
  "ICoreWebView2WebMessageReceivedEventHandler_macros =
     [IUnknown_QueryInterface_macro,
      IUnknown_AddRef_macro,
      IUnknown_Release_macro,
      Macro ''Invoke'' [''sender'', ''args''] ''Invoke'' [''sender'', ''args'']]"

definition ICoreWebView2WebResourceRequestedEventHandler_macros :: "cmacro list" where
  "ICoreWebView2WebResourceRequestedEventHandler_macros =
     [IUnknown_QueryInterface_macro,
      IUnknown_AddRef_macro,
      IUnknown_Release_macro,
      Macro ''Invoke'' [''sender'', ''args''] ''Invoke'' [''sender'', ''args'']]"

definition ICoreWebView2WebResourceResponseReceivedEventHandler_macros :: "cmacro list" where
  "ICoreWebView2WebResourceResponseReceivedEventHandler_macros =
     [IUnknown_QueryInterface_macro,
      IUnknown_AddRef_macro,
      IUnknown_Release_macro,
      Macro ''Invoke'' [''sender'', ''args''] ''Invoke'' [''sender'', ''args'']]"

definition ICoreWebView2WebResourceResponseViewGetContentCompletedHandler_macros :: "cmacro list" where
  "ICoreWebView2WebResourceResponseViewGetContentCompletedHandler_macros =
     [IUnknown_QueryInterface_macro,
      IUnknown_AddRef_macro,
      IUnknown_Release_macro,
      Macro ''Invoke'' [''errorCode'', ''content''] ''Invoke'' [''errorCode'', ''content'']]"

definition ICoreWebView2WindowCloseRequestedEventHandler_macros :: "cmacro list" where
  "ICoreWebView2WindowCloseRequestedEventHandler_macros =
     [IUnknown_QueryInterface_macro,
      IUnknown_AddRef_macro,
      IUnknown_Release_macro,
      Macro ''Invoke'' [''sender'', ''args''] ''Invoke'' [''sender'', ''args'']]"

definition ICoreWebView2ZoomFactorChangedEventHandler_macros :: "cmacro list" where
  "ICoreWebView2ZoomFactorChangedEventHandler_macros =
     [IUnknown_QueryInterface_macro,
      IUnknown_AddRef_macro,
      IUnknown_Release_macro,
      Macro ''Invoke'' [''sender'', ''args''] ''Invoke'' [''sender'', ''args'']]"

definition ICoreWebView2IsMutedChangedEventHandler_macros :: "cmacro list" where
  "ICoreWebView2IsMutedChangedEventHandler_macros =
     [IUnknown_QueryInterface_macro,
      IUnknown_AddRef_macro,
      IUnknown_Release_macro,
      Macro ''Invoke'' [''sender'', ''args''] ''Invoke'' [''sender'', ''args'']]"

definition ICoreWebView2IsDocumentPlayingAudioChangedEventHandler_macros :: "cmacro list" where
  "ICoreWebView2IsDocumentPlayingAudioChangedEventHandler_macros =
     [IUnknown_QueryInterface_macro,
      IUnknown_AddRef_macro,
      IUnknown_Release_macro,
      Macro ''Invoke'' [''sender'', ''args''] ''Invoke'' [''sender'', ''args'']]"

definition ICoreWebView2ProcessInfosChangedEventHandler_macros :: "cmacro list" where
  "ICoreWebView2ProcessInfosChangedEventHandler_macros =
     [IUnknown_QueryInterface_macro,
      IUnknown_AddRef_macro,
      IUnknown_Release_macro,
      Macro ''Invoke'' [''sender'', ''args''] ''Invoke'' [''sender'', ''args'']]"

definition ICoreWebView2FaviconChangedEventHandler_macros :: "cmacro list" where
  "ICoreWebView2FaviconChangedEventHandler_macros =
     [IUnknown_QueryInterface_macro,
      IUnknown_AddRef_macro,
      IUnknown_Release_macro,
      Macro ''Invoke'' [''sender'', ''args''] ''Invoke'' [''sender'', ''args'']]"

definition ICoreWebView2GetFaviconCompletedHandler_macros :: "cmacro list" where
  "ICoreWebView2GetFaviconCompletedHandler_macros =
     [IUnknown_QueryInterface_macro,
      IUnknown_AddRef_macro,
      IUnknown_Release_macro,
      Macro ''Invoke'' [''errorCode'', ''faviconStream''] ''Invoke'' [''errorCode'', ''faviconStream'']]"

definition ICoreWebView2ProfileAddBrowserExtensionCompletedHandler_macros :: "cmacro list" where
  "ICoreWebView2ProfileAddBrowserExtensionCompletedHandler_macros =
     [IUnknown_QueryInterface_macro,
      IUnknown_AddRef_macro,
      IUnknown_Release_macro,
      Macro ''Invoke'' [''errorCode'', ''extension''] ''Invoke'' [''errorCode'', ''extension'']]"

definition ICoreWebView2ProfileGetBrowserExtensionsCompletedHandler_macros :: "cmacro list" where
  "ICoreWebView2ProfileGetBrowserExtensionsCompletedHandler_macros =
     [IUnknown_QueryInterface_macro,
      IUnknown_AddRef_macro,
      IUnknown_Release_macro,
      Macro ''Invoke'' [''errorCode'', ''extensionList''] ''Invoke'' [''errorCode'', ''extensionList'']]"

definition ICoreWebView2BrowserExtensionEnableCompletedHandler_macros :: "cmacro list" where
  "ICoreWebView2BrowserExtensionEnableCompletedHandler_macros =
     [IUnknown_QueryInterface_macro,
      IUnknown_AddRef_macro,
      IUnknown_Release_macro,
      Macro ''Invoke'' [''errorCode''] ''Invoke'' [''errorCode'']]"

definition ICoreWebView2BrowserExtensionRemoveCompletedHandler_macros :: "cmacro list" where
  "ICoreWebView2BrowserExtensionRemoveCompletedHandler_macros =
     [IUnknown_QueryInterface_macro,
      IUnknown_AddRef_macro,
      IUnknown_Release_macro,
      Macro ''Invoke'' [''errorCode''] ''Invoke'' [''errorCode'']]"

definition ICoreWebView2ExecuteScriptWithResultCompletedHandler_macros :: "cmacro list" where
  "ICoreWebView2ExecuteScriptWithResultCompletedHandler_macros =
     [IUnknown_QueryInterface_macro,
      IUnknown_AddRef_macro,
      IUnknown_Release_macro,
      Macro ''Invoke'' [''errorCode'', ''result''] ''Invoke'' [''errorCode'', ''result'']]"

section \<open>The macros follow the tables\<close>

lemma ICoreWebView2AcceleratorKeyPressedEventHandler_calls:
  "map macro_of
     [Method ''HRESULT'' ''Invoke'' [''ICoreWebView2Controller *sender'', ''ICoreWebView2AcceleratorKeyPressedEventArgs *args'']]
   =
     [Macro ''Invoke'' [''sender'', ''args''] ''Invoke'' [''sender'', ''args'']]"
  by code_simp

lemma ICoreWebView2AddScriptToExecuteOnDocumentCreatedCompletedHandler_calls:
  "map macro_of
     [Method ''HRESULT'' ''Invoke'' [''HRESULT errorCode'', ''LPCWSTR id'']]
   =
     [Macro ''Invoke'' [''errorCode'', ''id''] ''Invoke'' [''errorCode'', ''id'']]"
  by code_simp

lemma ICoreWebView2CallDevToolsProtocolMethodCompletedHandler_calls:
  "map macro_of
     [Method ''HRESULT'' ''Invoke'' [''HRESULT errorCode'', ''LPCWSTR returnObjectAsJson'']]
   =
     [Macro ''Invoke'' [''errorCode'', ''returnObjectAsJson''] ''Invoke'' [''errorCode'', ''returnObjectAsJson'']]"
  by code_simp

lemma ICoreWebView2CapturePreviewCompletedHandler_calls:
  "map macro_of
     [Method ''HRESULT'' ''Invoke'' [''HRESULT errorCode'']]
   =
     [Macro ''Invoke'' [''errorCode''] ''Invoke'' [''errorCode'']]"
  by code_simp

lemma ICoreWebView2BasicAuthenticationRequestedEventHandler_calls:
  "map macro_of
     [Method ''HRESULT'' ''Invoke'' [''ICoreWebView2 *sender'', ''ICoreWebView2BasicAuthenticationRequestedEventArgs *args'']]
   =
     [Macro ''Invoke'' [''sender'', ''args''] ''Invoke'' [''sender'', ''args'']]"
  by code_simp

lemma ICoreWebView2BrowserProcessExitedEventHandler_calls:
  "map macro_of
     [Method ''HRESULT'' ''Invoke'' [''ICoreWebView2Environment *sender'', ''ICoreWebView2BrowserProcessExitedEventArgs *args'']]
   =
     [Macro ''Invoke'' [''sender'', ''args''] ''Invoke'' [''sender'', ''args'']]"
  by code_simp

lemma ICoreWebView2BytesReceivedChangedEventHandler_calls:
  "map macro_of
     [Method ''HRESULT'' ''Invoke'' [''ICoreWebView2DownloadOperation *sender'', ''IUnknown *args'']]
   =
     [Macro ''Invoke'' [''sender'', ''args''] ''Invoke'' [''sender'', ''args'']]"
  by code_simp

lemma ICoreWebView2ContentLoadingEventHandler_calls:
  "map macro_of
     [Method ''HRESULT'' ''Invoke'' [''ICoreWebView2 *sender'', ''ICoreWebView2ContentLoadingEventArgs *args'']]
   =
     [Macro ''Invoke'' [''sender'', ''args''] ''Invoke'' [''sender'', ''args'']]"
  by code_simp

lemma ICoreWebView2ContextMenuRequestedEventHandler_calls:
  "map macro_of
     [Method ''HRESULT'' ''Invoke'' [''ICoreWebView2 *sender'', ''ICoreWebView2ContextMenuRequestedEventArgs *args'']]
   =
     [Macro ''Invoke'' [''sender'', ''args''] ''Invoke'' [''sender'', ''args'']]"
  by code_simp

lemma ICoreWebView2ClearBrowsingDataCompletedHandler_calls:
  "map macro_of
     [Method ''HRESULT'' ''Invoke'' [''HRESULT errorCode'']]
   =
     [Macro ''Invoke'' [''errorCode''] ''Invoke'' [''errorCode'']]"
  by code_simp

lemma ICoreWebView2ClientCertificateRequestedEventHandler_calls:
  "map macro_of
     [Method ''HRESULT'' ''Invoke'' [''ICoreWebView2 *sender'', ''ICoreWebView2ClientCertificateRequestedEventArgs *args'']]
   =
     [Macro ''Invoke'' [''sender'', ''args''] ''Invoke'' [''sender'', ''args'']]"
  by code_simp

lemma ICoreWebView2ClearServerCertificateErrorActionsCompletedHandler_calls:
  "map macro_of
     [Method ''HRESULT'' ''Invoke'' [''HRESULT errorCode'']]
   =
     [Macro ''Invoke'' [''errorCode''] ''Invoke'' [''errorCode'']]"
  by code_simp

lemma ICoreWebView2CreateCoreWebView2CompositionControllerCompletedHandler_calls:
  "map macro_of
     [Method ''HRESULT'' ''Invoke'' [''HRESULT errorCode'', ''ICoreWebView2CompositionController *webView'']]
   =
     [Macro ''Invoke'' [''errorCode'', ''webView''] ''Invoke'' [''errorCode'', ''webView'']]"
  by code_simp

lemma ICoreWebView2CreateCoreWebView2ControllerCompletedHandler_calls:
  "map macro_of
     [Method ''HRESULT'' ''Invoke'' [''HRESULT errorCode'', ''ICoreWebView2Controller *createdController'']]
   =
     [Macro ''Invoke'' [''errorCode'', ''createdController''] ''Invoke'' [''errorCode'', ''createdController'']]"
  by code_simp

lemma ICoreWebView2CreateCoreWebView2EnvironmentCompletedHandler_calls:
  "map macro_of
     [Method ''HRESULT'' ''Invoke'' [''HRESULT errorCode'', ''ICoreWebView2Environment *createdEnvironment'']]
   =
     [Macro ''Invoke'' [''errorCode'', ''createdEnvironment''] ''Invoke'' [''errorCode'', ''createdEnvironment'']]"
  by code_simp

lemma ICoreWebView2ContainsFullScreenElementChangedEventHandler_calls:
  "map macro_of
     [Method ''HRESULT'' ''Invoke'' [''ICoreWebView2 *sender'', ''IUnknown *args'']]
   =
     [Macro ''Invoke'' [''sender'', ''args''] ''Invoke'' [''sender'', ''args'']]"
  by code_simp

lemma ICoreWebView2CursorChangedEventHandler_calls:
  "map macro_of
     [Method ''HRESULT'' ''Invoke'' [''ICoreWebView2CompositionController *sender'', ''IUnknown *args'']]
   =
     [Macro ''Invoke'' [''sender'', ''args''] ''Invoke'' [''sender'', ''args'']]"
  by code_simp

lemma ICoreWebView2CustomItemSelectedEventHandler_calls:
  "map macro_of
     [Method ''HRESULT'' ''Invoke'' [''ICoreWebView2ContextMenuItem *sender'', ''IUnknown *args'']]
   =
     [Macro ''Invoke'' [''sender'', ''args''] ''Invoke'' [''sender'', ''args'']]"
  by code_simp

lemma ICoreWebView2DocumentTitleChangedEventHandler_calls:
  "map macro_of
     [Method ''HRESULT'' ''Invoke'' [''ICoreWebView2 *sender'', ''IUnknown *args'']]
   =
     [Macro ''Invoke'' [''sender'', ''args''] ''Invoke'' [''sender'', ''args'']]"
  by code_simp

lemma ICoreWebView2DOMContentLoadedEventHandler_calls:
  "map macro_of
     [Method ''HRESULT'' ''Invoke'' [''ICoreWebView2 *sender'', ''ICoreWebView2DOMContentLoadedEventArgs *args'']]
   =
     [Macro ''Invoke'' [''sender'', ''args''] ''Invoke'' [''sender'', ''args'']]"
  by code_simp

lemma ICoreWebView2DevToolsProtocolEventReceivedEventHandler_calls:
  "map macro_of
     [Method ''HRESULT'' ''Invoke'' [''ICoreWebView2 *sender'', ''ICoreWebView2DevToolsProtocolEventReceivedEventArgs *args'']]
   =
     [Macro ''Invoke'' [''sender'', ''args''] ''Invoke'' [''sender'', ''args'']]"
  by code_simp

lemma ICoreWebView2DownloadStartingEventHandler_calls:
  "map macro_of
     [Method ''HRESULT'' ''Invoke'' [''ICoreWebView2 *sender'', ''ICoreWebView2DownloadStartingEventArgs *args'']]
   =
     [Macro ''Invoke'' [''sender'', ''args''] ''Invoke'' [''sender'', ''args'']]"
  by code_simp

lemma ICoreWebView2EstimatedEndTimeChangedEventHandler_calls:
  "map macro_of
     [Method ''HRESULT'' ''Invoke'' [''ICoreWebView2DownloadOperation *sender'', ''IUnknown *args'']]
   =
     [Macro ''Invoke'' [''sender'', ''args''] ''Invoke'' [''sender'', ''args'']]"
  by code_simp

lemma ICoreWebView2ExecuteScriptCompletedHandler_calls:
  "map macro_of
     [Method ''HRESULT'' ''Invoke'' [''HRESULT errorCode'', ''LPCWSTR resultObjectAsJson'']]
   =
     [Macro ''Invoke'' [''errorCode'', ''resultObjectAsJson''] ''Invoke'' [''errorCode'', ''resultObjectAsJson'']]"
  by code_simp

lemma ICoreWebView2GetProcessExtendedInfosCompletedHandler_calls:
  "map macro_of
     [Method ''HRESULT'' ''Invoke'' [''HRESULT errorCode'', ''ICoreWebView2ProcessExtendedInfoCollection *value'']]
   =
     [Macro ''Invoke'' [''errorCode'', ''value''] ''Invoke'' [''errorCode'', ''value'']]"
  by code_simp

lemma ICoreWebView2FrameContentLoadingEventHandler_calls:
  "map macro_of
     [Method ''HRESULT'' ''Invoke'' [''ICoreWebView2Frame *sender'', ''ICoreWebView2ContentLoadingEventArgs *args'']]
   =
     [Macro ''Invoke'' [''sender'', ''args''] ''Invoke'' [''sender'', ''args'']]"
  by code_simp

lemma ICoreWebView2FrameCreatedEventHandler_calls:
  "map macro_of
     [Method ''HRESULT'' ''Invoke'' [''ICoreWebView2 *sender'', ''ICoreWebView2FrameCreatedEventArgs *args'']]
   =
     [Macro ''Invoke'' [''sender'', ''args''] ''Invoke'' [''sender'', ''args'']]"
  by code_simp

lemma ICoreWebView2FrameDestroyedEventHandler_calls:
  "map macro_of
     [Method ''HRESULT'' ''Invoke'' [''ICoreWebView2Frame *sender'', ''IUnknown *args'']]
   =
     [Macro ''Invoke'' [''sender'', ''args''] ''Invoke'' [''sender'', ''args'']]"
  by code_simp

lemma ICoreWebView2FrameDOMContentLoadedEventHandler_calls:
  "map macro_of
     [Method ''HRESULT'' ''Invoke'' [''ICoreWebView2Frame *sender'', ''ICoreWebView2DOMContentLoadedEventArgs *args'']]
   =
     [Macro ''Invoke'' [''sender'', ''args''] ''Invoke'' [''sender'', ''args'']]"
  by code_simp

lemma ICoreWebView2FrameNameChangedEventHandler_calls:
  "map macro_of
     [Method ''HRESULT'' ''Invoke'' [''ICoreWebView2Frame *sender'', ''IUnknown *args'']]
   =
     [Macro ''Invoke'' [''sender'', ''args''] ''Invoke'' [''sender'', ''args'']]"
  by code_simp

lemma ICoreWebView2FrameNavigationCompletedEventHandler_calls:
  "map macro_of
     [Method ''HRESULT'' ''Invoke'' [''ICoreWebView2Frame *sender'', ''ICoreWebView2NavigationCompletedEventArgs *args'']]
   =
     [Macro ''Invoke'' [''sender'', ''args''] ''Invoke'' [''sender'', ''args'']]"
  by code_simp

lemma ICoreWebView2FrameNavigationStartingEventHandler_calls:
  "map macro_of
     [Method ''HRESULT'' ''Invoke'' [''ICoreWebView2Frame *sender'', ''ICoreWebView2NavigationStartingEventArgs *args'']]
   =
     [Macro ''Invoke'' [''sender'', ''args''] ''Invoke'' [''sender'', ''args'']]"
  by code_simp

lemma ICoreWebView2FramePermissionRequestedEventHandler_calls:
  "map macro_of
     [Method ''HRESULT'' ''Invoke'' [''ICoreWebView2Frame *sender'', ''ICoreWebView2PermissionRequestedEventArgs2 *args'']]
   =
     [Macro ''Invoke'' [''sender'', ''args''] ''Invoke'' [''sender'', ''args'']]"
  by code_simp

lemma ICoreWebView2FrameWebMessageReceivedEventHandler_calls:
  "map macro_of
     [Method ''HRESULT'' ''Invoke'' [''ICoreWebView2Frame *sender'', ''ICoreWebView2WebMessageReceivedEventArgs *args'']]
   =
     [Macro ''Invoke'' [''sender'', ''args''] ''Invoke'' [''sender'', ''args'']]"
  by code_simp

lemma ICoreWebView2FocusChangedEventHandler_calls:
  "map macro_of
     [Method ''HRESULT'' ''Invoke'' [''ICoreWebView2Controller *sender'', ''IUnknown *args'']]
   =
     [Macro ''Invoke'' [''sender'', ''args''] ''Invoke'' [''sender'', ''args'']]"
  by code_simp

lemma ICoreWebView2GetCookiesCompletedHandler_calls:
  "map macro_of
     [Method ''HRESULT'' ''Invoke'' [''HRESULT result'', ''ICoreWebView2CookieList *cookieList'']]
   =
     [Macro ''Invoke'' [''result'', ''cookieList''] ''Invoke'' [''result'', ''cookieList'']]"
  by code_simp

lemma ICoreWebView2GetNonDefaultPermissionSettingsCompletedHandler_calls:
  "map macro_of
     [Method ''HRESULT'' ''Invoke'' [''HRESULT errorCode'', ''ICoreWebView2PermissionSettingCollectionView *collectionView'']]
   =
     [Macro ''Invoke'' [''errorCode'', ''collectionView''] ''Invoke'' [''errorCode'', ''collectionView'']]"
  by code_simp

lemma ICoreWebView2HistoryChangedEventHandler_calls:
  "map macro_of
     [Method ''HRESULT'' ''Invoke'' [''ICoreWebView2 *sender'', ''IUnknown *args'']]
   =
     [Macro ''Invoke'' [''sender'', ''args''] ''Invoke'' [''sender'', ''args'']]"
  by code_simp

lemma ICoreWebView2IsDefaultDownloadDialogOpenChangedEventHandler_calls:
  "map macro_of
     [Method ''HRESULT'' ''Invoke'' [''ICoreWebView2 *sender'', ''IUnknown *args'']]
   =
     [Macro ''Invoke'' [''sender'', ''args''] ''Invoke'' [''sender'', ''args'']]"
  by code_simp

lemma ICoreWebView2LaunchingExternalUriSchemeEventHandler_calls:
  "map macro_of
     [Method ''HRESULT'' ''Invoke'' [''ICoreWebView2 *sender'', ''ICoreWebView2LaunchingExternalUriSchemeEventArgs *args'']]
   =
     [Macro ''Invoke'' [''sender'', ''args''] ''Invoke'' [''sender'', ''args'']]"
  by code_simp

lemma ICoreWebView2MoveFocusRequestedEventHandler_calls:
  "map macro_of
     [Method ''HRESULT'' ''Invoke'' [''ICoreWebView2Controller *sender'', ''ICoreWebView2MoveFocusRequestedEventArgs *args'']]
   =
     [Macro ''Invoke'' [''sender'', ''args''] ''Invoke'' [''sender'', ''args'']]"
  by code_simp

lemma ICoreWebView2NavigationCompletedEventHandler_calls:
  "map macro_of
     [Method ''HRESULT'' ''Invoke'' [''ICoreWebView2 *sender'', ''ICoreWebView2NavigationCompletedEventArgs *args'']]
   =
     [Macro ''Invoke'' [''sender'', ''args''] ''Invoke'' [''sender'', ''args'']]"
  by code_simp

lemma ICoreWebView2NavigationStartingEventHandler_calls:
  "map macro_of
     [Method ''HRESULT'' ''Invoke'' [''ICoreWebView2 *sender'', ''ICoreWebView2NavigationStartingEventArgs *args'']]
   =
     [Macro ''Invoke'' [''sender'', ''args''] ''Invoke'' [''sender'', ''args'']]"
  by code_simp

lemma ICoreWebView2NewBrowserVersionAvailableEventHandler_calls:
  "map macro_of
     [Method ''HRESULT'' ''Invoke'' [''ICoreWebView2Environment *sender'', ''IUnknown *args'']]
   =
     [Macro ''Invoke'' [''sender'', ''args''] ''Invoke'' [''sender'', ''args'']]"
  by code_simp

lemma ICoreWebView2NewWindowRequestedEventHandler_calls:
  "map macro_of
     [Method ''HRESULT'' ''Invoke'' [''ICoreWebView2 *sender'', ''ICoreWebView2NewWindowRequestedEventArgs *args'']]
   =
     [Macro ''Invoke'' [''sender'', ''args''] ''Invoke'' [''sender'', ''args'']]"
  by code_simp

lemma ICoreWebView2PermissionRequestedEventHandler_calls:
  "map macro_of
     [Method ''HRESULT'' ''Invoke'' [''ICoreWebView2 *sender'', ''ICoreWebView2PermissionRequestedEventArgs *args'']]
   =
     [Macro ''Invoke'' [''sender'', ''args''] ''Invoke'' [''sender'', ''args'']]"
  by code_simp

lemma ICoreWebView2PrintToPdfCompletedHandler_calls:
  "map macro_of
     [Method ''HRESULT'' ''Invoke'' [''HRESULT errorCode'', ''BOOL isSuccessful'']]
   =
     [Macro ''Invoke'' [''errorCode'', ''isSuccessful''] ''Invoke'' [''errorCode'', ''isSuccessful'']]"
  by code_simp

lemma ICoreWebView2PrintCompletedHandler_calls:
  "map macro_of
     [Method ''HRESULT'' ''Invoke'' [''HRESULT errorCode'', ''COREWEBVIEW2_PRINT_STATUS printStatus'']]
   =
     [Macro ''Invoke'' [''errorCode'', ''printStatus''] ''Invoke'' [''errorCode'', ''printStatus'']]"
  by code_simp

lemma ICoreWebView2PrintToPdfStreamCompletedHandler_calls:
  "map macro_of
     [Method ''HRESULT'' ''Invoke'' [''HRESULT errorCode'', ''IStream *pdfStream'']]
   =
     [Macro ''Invoke'' [''errorCode'', ''pdfStream''] ''Invoke'' [''errorCode'', ''pdfStream'']]"
  by code_simp

lemma ICoreWebView2ProcessFailedEventHandler_calls:
  "map macro_of
     [Method ''HRESULT'' ''Invoke'' [''ICoreWebView2 *sender'', ''ICoreWebView2ProcessFailedEventArgs *args'']]
   =
     [Macro ''Invoke'' [''sender'', ''args''] ''Invoke'' [''sender'', ''args'']]"
  by code_simp

lemma ICoreWebView2ProfileDeletedEventHandler_calls:
  "map macro_of
     [Method ''HRESULT'' ''Invoke'' [''ICoreWebView2Profile *sender'', ''IUnknown *args'']]
   =
     [Macro ''Invoke'' [''sender'', ''args''] ''Invoke'' [''sender'', ''args'']]"
  by code_simp

lemma ICoreWebView2RasterizationScaleChangedEventHandler_calls:
  "map macro_of
     [Method ''HRESULT'' ''Invoke'' [''ICoreWebView2Controller *sender'', ''IUnknown *args'']]
   =
     [Macro ''Invoke'' [''sender'', ''args''] ''Invoke'' [''sender'', ''args'']]"
  by code_simp

lemma ICoreWebView2ServerCertificateErrorDetectedEventHandler_calls:
  "map macro_of
     [Method ''HRESULT'' ''Invoke'' [''ICoreWebView2 *sender'', ''ICoreWebView2ServerCertificateErrorDetectedEventArgs *args'']]
   =
     [Macro ''Invoke'' [''sender'', ''args''] ''Invoke'' [''sender'', ''args'']]"
  by code_simp

lemma ICoreWebView2SetPermissionStateCompletedHandler_calls:
  "map macro_of
     [Method ''HRESULT'' ''Invoke'' [''HRESULT errorCode'']]
   =
     [Macro ''Invoke'' [''errorCode''] ''Invoke'' [''errorCode'']]"
  by code_simp

lemma ICoreWebView2ScriptDialogOpeningEventHandler_calls:
  "map macro_of
     [Method ''HRESULT'' ''Invoke'' [''ICoreWebView2 *sender'', ''ICoreWebView2ScriptDialogOpeningEventArgs *args'']]
   =
     [Macro ''Invoke'' [''sender'', ''args''] ''Invoke'' [''sender'', ''args'']]"
  by code_simp

lemma ICoreWebView2SourceChangedEventHandler_calls:
  "map macro_of
     [Method ''HRESULT'' ''Invoke'' [''ICoreWebView2 *sender'', ''ICoreWebView2SourceChangedEventArgs *args'']]
   =
     [Macro ''Invoke'' [''sender'', ''args''] ''Invoke'' [''sender'', ''args'']]"
  by code_simp

lemma ICoreWebView2StateChangedEventHandler_calls:
  "map macro_of
     [Method ''HRESULT'' ''Invoke'' [''ICoreWebView2DownloadOperation *sender'', ''IUnknown *args'']]
   =
     [Macro ''Invoke'' [''sender'', ''args''] ''Invoke'' [''sender'', ''args'']]"
  by code_simp

lemma ICoreWebView2StatusBarTextChangedEventHandler_calls:
  "map macro_of
     [Method ''HRESULT'' ''Invoke'' [''ICoreWebView2 *sender'', ''IUnknown *args'']]
   =
     [Macro ''Invoke'' [''sender'', ''args''] ''Invoke'' [''sender'', ''args'']]"
  by code_simp

lemma ICoreWebView2TrySuspendCompletedHandler_calls:
  "map macro_of
     [Method ''HRESULT'' ''Invoke'' [''HRESULT errorCode'', ''BOOL isSuccessful'']]
   =
     [Macro ''Invoke'' [''errorCode'', ''isSuccessful''] ''Invoke'' [''errorCode'', ''isSuccessful'']]"
  by code_simp

lemma ICoreWebView2WebMessageReceivedEventHandler_calls:
  "map macro_of
     [Method ''HRESULT'' ''Invoke'' [''ICoreWebView2 *sender'', ''ICoreWebView2WebMessageReceivedEventArgs *args'']]
   =
     [Macro ''Invoke'' [''sender'', ''args''] ''Invoke'' [''sender'', ''args'']]"
  by code_simp

lemma ICoreWebView2WebResourceRequestedEventHandler_calls:
  "map macro_of
     [Method ''HRESULT'' ''Invoke'' [''ICoreWebView2 *sender'', ''ICoreWebView2WebResourceRequestedEventArgs *args'']]
   =
     [Macro ''Invoke'' [''sender'', ''args''] ''Invoke'' [''sender'', ''args'']]"
  by code_simp

lemma ICoreWebView2WebResourceResponseReceivedEventHandler_calls:
  "map macro_of
     [Method ''HRESULT'' ''Invoke'' [''ICoreWebView2 *sender'', ''ICoreWebView2WebResourceResponseReceivedEventArgs *args'']]
   =
     [Macro ''Invoke'' [''sender'', ''args''] ''Invoke'' [''sender'', ''args'']]"
  by code_simp

lemma ICoreWebView2WebResourceResponseViewGetContentCompletedHandler_calls:
  "map macro_of
     [Method ''HRESULT'' ''Invoke'' [''HRESULT errorCode'', ''IStream *content'']]
   =
     [Macro ''Invoke'' [''errorCode'', ''content''] ''Invoke'' [''errorCode'', ''content'']]"
  by code_simp

lemma ICoreWebView2WindowCloseRequestedEventHandler_calls:
  "map macro_of
     [Method ''HRESULT'' ''Invoke'' [''ICoreWebView2 *sender'', ''IUnknown *args'']]
   =
     [Macro ''Invoke'' [''sender'', ''args''] ''Invoke'' [''sender'', ''args'']]"
  by code_simp

lemma ICoreWebView2ZoomFactorChangedEventHandler_calls:
  "map macro_of
     [Method ''HRESULT'' ''Invoke'' [''ICoreWebView2Controller *sender'', ''IUnknown *args'']]
   =
     [Macro ''Invoke'' [''sender'', ''args''] ''Invoke'' [''sender'', ''args'']]"
  by code_simp

lemma ICoreWebView2IsMutedChangedEventHandler_calls:
  "map macro_of
     [Method ''HRESULT'' ''Invoke'' [''ICoreWebView2 *sender'', ''IUnknown *args'']]
   =
     [Macro ''Invoke'' [''sender'', ''args''] ''Invoke'' [''sender'', ''args'']]"
  by code_simp

lemma ICoreWebView2IsDocumentPlayingAudioChangedEventHandler_calls:
  "map macro_of
     [Method ''HRESULT'' ''Invoke'' [''ICoreWebView2 *sender'', ''IUnknown *args'']]
   =
     [Macro ''Invoke'' [''sender'', ''args''] ''Invoke'' [''sender'', ''args'']]"
  by code_simp

lemma ICoreWebView2ProcessInfosChangedEventHandler_calls:
  "map macro_of
     [Method ''HRESULT'' ''Invoke'' [''ICoreWebView2Environment *sender'', ''IUnknown *args'']]
   =
     [Macro ''Invoke'' [''sender'', ''args''] ''Invoke'' [''sender'', ''args'']]"
  by code_simp

lemma ICoreWebView2FaviconChangedEventHandler_calls:
  "map macro_of
     [Method ''HRESULT'' ''Invoke'' [''ICoreWebView2 *sender'', ''IUnknown *args'']]
   =
     [Macro ''Invoke'' [''sender'', ''args''] ''Invoke'' [''sender'', ''args'']]"
  by code_simp

lemma ICoreWebView2GetFaviconCompletedHandler_calls:
  "map macro_of
     [Method ''HRESULT'' ''Invoke'' [''HRESULT errorCode'', ''IStream *faviconStream'']]
   =
     [Macro ''Invoke'' [''errorCode'', ''faviconStream''] ''Invoke'' [''errorCode'', ''faviconStream'']]"
  by code_simp

lemma ICoreWebView2ProfileAddBrowserExtensionCompletedHandler_calls:
  "map macro_of
     [Method ''HRESULT'' ''Invoke'' [''HRESULT errorCode'', ''ICoreWebView2BrowserExtension *extension'']]
   =
     [Macro ''Invoke'' [''errorCode'', ''extension''] ''Invoke'' [''errorCode'', ''extension'']]"
  by code_simp

lemma ICoreWebView2ProfileGetBrowserExtensionsCompletedHandler_calls:
  "map macro_of
     [Method ''HRESULT'' ''Invoke'' [''HRESULT errorCode'', ''ICoreWebView2BrowserExtensionList *extensionList'']]
   =
     [Macro ''Invoke'' [''errorCode'', ''extensionList''] ''Invoke'' [''errorCode'', ''extensionList'']]"
  by code_simp

lemma ICoreWebView2BrowserExtensionEnableCompletedHandler_calls:
  "map macro_of
     [Method ''HRESULT'' ''Invoke'' [''HRESULT errorCode'']]
   =
     [Macro ''Invoke'' [''errorCode''] ''Invoke'' [''errorCode'']]"
  by code_simp

lemma ICoreWebView2BrowserExtensionRemoveCompletedHandler_calls:
  "map macro_of
     [Method ''HRESULT'' ''Invoke'' [''HRESULT errorCode'']]
   =
     [Macro ''Invoke'' [''errorCode''] ''Invoke'' [''errorCode'']]"
  by code_simp

lemma ICoreWebView2ExecuteScriptWithResultCompletedHandler_calls:
  "map macro_of
     [Method ''HRESULT'' ''Invoke'' [''HRESULT errorCode'', ''ICoreWebView2ExecuteScriptResult *result'']]
   =
     [Macro ''Invoke'' [''errorCode'', ''result''] ''Invoke'' [''errorCode'', ''result'']]"
  by code_simp

lemma ICoreWebView2AcceleratorKeyPressedEventHandler_follow: "ICoreWebView2AcceleratorKeyPressedEventHandler_macros = macros_of ICoreWebView2AcceleratorKeyPressedEventHandler"
  by (simp only: macros_of_def layouts macro_simps
      ICoreWebView2AcceleratorKeyPressedEventHandler_macros_def
      ICoreWebView2AcceleratorKeyPressedEventHandler_calls [simplified calls_simps])

lemma ICoreWebView2AddScriptToExecuteOnDocumentCreatedCompletedHandler_follow: "ICoreWebView2AddScriptToExecuteOnDocumentCreatedCompletedHandler_macros = macros_of ICoreWebView2AddScriptToExecuteOnDocumentCreatedCompletedHandler"
  by (simp only: macros_of_def layouts macro_simps
      ICoreWebView2AddScriptToExecuteOnDocumentCreatedCompletedHandler_macros_def
      ICoreWebView2AddScriptToExecuteOnDocumentCreatedCompletedHandler_calls [simplified calls_simps])

lemma ICoreWebView2CallDevToolsProtocolMethodCompletedHandler_follow: "ICoreWebView2CallDevToolsProtocolMethodCompletedHandler_macros = macros_of ICoreWebView2CallDevToolsProtocolMethodCompletedHandler"
  by (simp only: macros_of_def layouts macro_simps
      ICoreWebView2CallDevToolsProtocolMethodCompletedHandler_macros_def
      ICoreWebView2CallDevToolsProtocolMethodCompletedHandler_calls [simplified calls_simps])

lemma ICoreWebView2CapturePreviewCompletedHandler_follow: "ICoreWebView2CapturePreviewCompletedHandler_macros = macros_of ICoreWebView2CapturePreviewCompletedHandler"
  by (simp only: macros_of_def layouts macro_simps
      ICoreWebView2CapturePreviewCompletedHandler_macros_def
      ICoreWebView2CapturePreviewCompletedHandler_calls [simplified calls_simps])

lemma ICoreWebView2BasicAuthenticationRequestedEventHandler_follow: "ICoreWebView2BasicAuthenticationRequestedEventHandler_macros = macros_of ICoreWebView2BasicAuthenticationRequestedEventHandler"
  by (simp only: macros_of_def layouts macro_simps
      ICoreWebView2BasicAuthenticationRequestedEventHandler_macros_def
      ICoreWebView2BasicAuthenticationRequestedEventHandler_calls [simplified calls_simps])

lemma ICoreWebView2BrowserProcessExitedEventHandler_follow: "ICoreWebView2BrowserProcessExitedEventHandler_macros = macros_of ICoreWebView2BrowserProcessExitedEventHandler"
  by (simp only: macros_of_def layouts macro_simps
      ICoreWebView2BrowserProcessExitedEventHandler_macros_def
      ICoreWebView2BrowserProcessExitedEventHandler_calls [simplified calls_simps])

lemma ICoreWebView2BytesReceivedChangedEventHandler_follow: "ICoreWebView2BytesReceivedChangedEventHandler_macros = macros_of ICoreWebView2BytesReceivedChangedEventHandler"
  by (simp only: macros_of_def layouts macro_simps
      ICoreWebView2BytesReceivedChangedEventHandler_macros_def
      ICoreWebView2BytesReceivedChangedEventHandler_calls [simplified calls_simps])

lemma ICoreWebView2ContentLoadingEventHandler_follow: "ICoreWebView2ContentLoadingEventHandler_macros = macros_of ICoreWebView2ContentLoadingEventHandler"
  by (simp only: macros_of_def layouts macro_simps
      ICoreWebView2ContentLoadingEventHandler_macros_def
      ICoreWebView2ContentLoadingEventHandler_calls [simplified calls_simps])

lemma ICoreWebView2ContextMenuRequestedEventHandler_follow: "ICoreWebView2ContextMenuRequestedEventHandler_macros = macros_of ICoreWebView2ContextMenuRequestedEventHandler"
  by (simp only: macros_of_def layouts macro_simps
      ICoreWebView2ContextMenuRequestedEventHandler_macros_def
      ICoreWebView2ContextMenuRequestedEventHandler_calls [simplified calls_simps])

lemma ICoreWebView2ClearBrowsingDataCompletedHandler_follow: "ICoreWebView2ClearBrowsingDataCompletedHandler_macros = macros_of ICoreWebView2ClearBrowsingDataCompletedHandler"
  by (simp only: macros_of_def layouts macro_simps
      ICoreWebView2ClearBrowsingDataCompletedHandler_macros_def
      ICoreWebView2ClearBrowsingDataCompletedHandler_calls [simplified calls_simps])

lemma ICoreWebView2ClientCertificateRequestedEventHandler_follow: "ICoreWebView2ClientCertificateRequestedEventHandler_macros = macros_of ICoreWebView2ClientCertificateRequestedEventHandler"
  by (simp only: macros_of_def layouts macro_simps
      ICoreWebView2ClientCertificateRequestedEventHandler_macros_def
      ICoreWebView2ClientCertificateRequestedEventHandler_calls [simplified calls_simps])

lemma ICoreWebView2ClearServerCertificateErrorActionsCompletedHandler_follow: "ICoreWebView2ClearServerCertificateErrorActionsCompletedHandler_macros = macros_of ICoreWebView2ClearServerCertificateErrorActionsCompletedHandler"
  by (simp only: macros_of_def layouts macro_simps
      ICoreWebView2ClearServerCertificateErrorActionsCompletedHandler_macros_def
      ICoreWebView2ClearServerCertificateErrorActionsCompletedHandler_calls [simplified calls_simps])

lemma ICoreWebView2CreateCoreWebView2CompositionControllerCompletedHandler_follow: "ICoreWebView2CreateCoreWebView2CompositionControllerCompletedHandler_macros = macros_of ICoreWebView2CreateCoreWebView2CompositionControllerCompletedHandler"
  by (simp only: macros_of_def layouts macro_simps
      ICoreWebView2CreateCoreWebView2CompositionControllerCompletedHandler_macros_def
      ICoreWebView2CreateCoreWebView2CompositionControllerCompletedHandler_calls [simplified calls_simps])

lemma ICoreWebView2CreateCoreWebView2ControllerCompletedHandler_follow: "ICoreWebView2CreateCoreWebView2ControllerCompletedHandler_macros = macros_of ICoreWebView2CreateCoreWebView2ControllerCompletedHandler"
  by (simp only: macros_of_def layouts macro_simps
      ICoreWebView2CreateCoreWebView2ControllerCompletedHandler_macros_def
      ICoreWebView2CreateCoreWebView2ControllerCompletedHandler_calls [simplified calls_simps])

lemma ICoreWebView2CreateCoreWebView2EnvironmentCompletedHandler_follow: "ICoreWebView2CreateCoreWebView2EnvironmentCompletedHandler_macros = macros_of ICoreWebView2CreateCoreWebView2EnvironmentCompletedHandler"
  by (simp only: macros_of_def layouts macro_simps
      ICoreWebView2CreateCoreWebView2EnvironmentCompletedHandler_macros_def
      ICoreWebView2CreateCoreWebView2EnvironmentCompletedHandler_calls [simplified calls_simps])

lemma ICoreWebView2ContainsFullScreenElementChangedEventHandler_follow: "ICoreWebView2ContainsFullScreenElementChangedEventHandler_macros = macros_of ICoreWebView2ContainsFullScreenElementChangedEventHandler"
  by (simp only: macros_of_def layouts macro_simps
      ICoreWebView2ContainsFullScreenElementChangedEventHandler_macros_def
      ICoreWebView2ContainsFullScreenElementChangedEventHandler_calls [simplified calls_simps])

lemma ICoreWebView2CursorChangedEventHandler_follow: "ICoreWebView2CursorChangedEventHandler_macros = macros_of ICoreWebView2CursorChangedEventHandler"
  by (simp only: macros_of_def layouts macro_simps
      ICoreWebView2CursorChangedEventHandler_macros_def
      ICoreWebView2CursorChangedEventHandler_calls [simplified calls_simps])

lemma ICoreWebView2CustomItemSelectedEventHandler_follow: "ICoreWebView2CustomItemSelectedEventHandler_macros = macros_of ICoreWebView2CustomItemSelectedEventHandler"
  by (simp only: macros_of_def layouts macro_simps
      ICoreWebView2CustomItemSelectedEventHandler_macros_def
      ICoreWebView2CustomItemSelectedEventHandler_calls [simplified calls_simps])

lemma ICoreWebView2DocumentTitleChangedEventHandler_follow: "ICoreWebView2DocumentTitleChangedEventHandler_macros = macros_of ICoreWebView2DocumentTitleChangedEventHandler"
  by (simp only: macros_of_def layouts macro_simps
      ICoreWebView2DocumentTitleChangedEventHandler_macros_def
      ICoreWebView2DocumentTitleChangedEventHandler_calls [simplified calls_simps])

lemma ICoreWebView2DOMContentLoadedEventHandler_follow: "ICoreWebView2DOMContentLoadedEventHandler_macros = macros_of ICoreWebView2DOMContentLoadedEventHandler"
  by (simp only: macros_of_def layouts macro_simps
      ICoreWebView2DOMContentLoadedEventHandler_macros_def
      ICoreWebView2DOMContentLoadedEventHandler_calls [simplified calls_simps])

lemma ICoreWebView2DevToolsProtocolEventReceivedEventHandler_follow: "ICoreWebView2DevToolsProtocolEventReceivedEventHandler_macros = macros_of ICoreWebView2DevToolsProtocolEventReceivedEventHandler"
  by (simp only: macros_of_def layouts macro_simps
      ICoreWebView2DevToolsProtocolEventReceivedEventHandler_macros_def
      ICoreWebView2DevToolsProtocolEventReceivedEventHandler_calls [simplified calls_simps])

lemma ICoreWebView2DownloadStartingEventHandler_follow: "ICoreWebView2DownloadStartingEventHandler_macros = macros_of ICoreWebView2DownloadStartingEventHandler"
  by (simp only: macros_of_def layouts macro_simps
      ICoreWebView2DownloadStartingEventHandler_macros_def
      ICoreWebView2DownloadStartingEventHandler_calls [simplified calls_simps])

lemma ICoreWebView2EstimatedEndTimeChangedEventHandler_follow: "ICoreWebView2EstimatedEndTimeChangedEventHandler_macros = macros_of ICoreWebView2EstimatedEndTimeChangedEventHandler"
  by (simp only: macros_of_def layouts macro_simps
      ICoreWebView2EstimatedEndTimeChangedEventHandler_macros_def
      ICoreWebView2EstimatedEndTimeChangedEventHandler_calls [simplified calls_simps])

lemma ICoreWebView2ExecuteScriptCompletedHandler_follow: "ICoreWebView2ExecuteScriptCompletedHandler_macros = macros_of ICoreWebView2ExecuteScriptCompletedHandler"
  by (simp only: macros_of_def layouts macro_simps
      ICoreWebView2ExecuteScriptCompletedHandler_macros_def
      ICoreWebView2ExecuteScriptCompletedHandler_calls [simplified calls_simps])

lemma ICoreWebView2GetProcessExtendedInfosCompletedHandler_follow: "ICoreWebView2GetProcessExtendedInfosCompletedHandler_macros = macros_of ICoreWebView2GetProcessExtendedInfosCompletedHandler"
  by (simp only: macros_of_def layouts macro_simps
      ICoreWebView2GetProcessExtendedInfosCompletedHandler_macros_def
      ICoreWebView2GetProcessExtendedInfosCompletedHandler_calls [simplified calls_simps])

lemma ICoreWebView2FrameContentLoadingEventHandler_follow: "ICoreWebView2FrameContentLoadingEventHandler_macros = macros_of ICoreWebView2FrameContentLoadingEventHandler"
  by (simp only: macros_of_def layouts macro_simps
      ICoreWebView2FrameContentLoadingEventHandler_macros_def
      ICoreWebView2FrameContentLoadingEventHandler_calls [simplified calls_simps])

lemma ICoreWebView2FrameCreatedEventHandler_follow: "ICoreWebView2FrameCreatedEventHandler_macros = macros_of ICoreWebView2FrameCreatedEventHandler"
  by (simp only: macros_of_def layouts macro_simps
      ICoreWebView2FrameCreatedEventHandler_macros_def
      ICoreWebView2FrameCreatedEventHandler_calls [simplified calls_simps])

lemma ICoreWebView2FrameDestroyedEventHandler_follow: "ICoreWebView2FrameDestroyedEventHandler_macros = macros_of ICoreWebView2FrameDestroyedEventHandler"
  by (simp only: macros_of_def layouts macro_simps
      ICoreWebView2FrameDestroyedEventHandler_macros_def
      ICoreWebView2FrameDestroyedEventHandler_calls [simplified calls_simps])

lemma ICoreWebView2FrameDOMContentLoadedEventHandler_follow: "ICoreWebView2FrameDOMContentLoadedEventHandler_macros = macros_of ICoreWebView2FrameDOMContentLoadedEventHandler"
  by (simp only: macros_of_def layouts macro_simps
      ICoreWebView2FrameDOMContentLoadedEventHandler_macros_def
      ICoreWebView2FrameDOMContentLoadedEventHandler_calls [simplified calls_simps])

lemma ICoreWebView2FrameNameChangedEventHandler_follow: "ICoreWebView2FrameNameChangedEventHandler_macros = macros_of ICoreWebView2FrameNameChangedEventHandler"
  by (simp only: macros_of_def layouts macro_simps
      ICoreWebView2FrameNameChangedEventHandler_macros_def
      ICoreWebView2FrameNameChangedEventHandler_calls [simplified calls_simps])

lemma ICoreWebView2FrameNavigationCompletedEventHandler_follow: "ICoreWebView2FrameNavigationCompletedEventHandler_macros = macros_of ICoreWebView2FrameNavigationCompletedEventHandler"
  by (simp only: macros_of_def layouts macro_simps
      ICoreWebView2FrameNavigationCompletedEventHandler_macros_def
      ICoreWebView2FrameNavigationCompletedEventHandler_calls [simplified calls_simps])

lemma ICoreWebView2FrameNavigationStartingEventHandler_follow: "ICoreWebView2FrameNavigationStartingEventHandler_macros = macros_of ICoreWebView2FrameNavigationStartingEventHandler"
  by (simp only: macros_of_def layouts macro_simps
      ICoreWebView2FrameNavigationStartingEventHandler_macros_def
      ICoreWebView2FrameNavigationStartingEventHandler_calls [simplified calls_simps])

lemma ICoreWebView2FramePermissionRequestedEventHandler_follow: "ICoreWebView2FramePermissionRequestedEventHandler_macros = macros_of ICoreWebView2FramePermissionRequestedEventHandler"
  by (simp only: macros_of_def layouts macro_simps
      ICoreWebView2FramePermissionRequestedEventHandler_macros_def
      ICoreWebView2FramePermissionRequestedEventHandler_calls [simplified calls_simps])

lemma ICoreWebView2FrameWebMessageReceivedEventHandler_follow: "ICoreWebView2FrameWebMessageReceivedEventHandler_macros = macros_of ICoreWebView2FrameWebMessageReceivedEventHandler"
  by (simp only: macros_of_def layouts macro_simps
      ICoreWebView2FrameWebMessageReceivedEventHandler_macros_def
      ICoreWebView2FrameWebMessageReceivedEventHandler_calls [simplified calls_simps])

lemma ICoreWebView2FocusChangedEventHandler_follow: "ICoreWebView2FocusChangedEventHandler_macros = macros_of ICoreWebView2FocusChangedEventHandler"
  by (simp only: macros_of_def layouts macro_simps
      ICoreWebView2FocusChangedEventHandler_macros_def
      ICoreWebView2FocusChangedEventHandler_calls [simplified calls_simps])

lemma ICoreWebView2GetCookiesCompletedHandler_follow: "ICoreWebView2GetCookiesCompletedHandler_macros = macros_of ICoreWebView2GetCookiesCompletedHandler"
  by (simp only: macros_of_def layouts macro_simps
      ICoreWebView2GetCookiesCompletedHandler_macros_def
      ICoreWebView2GetCookiesCompletedHandler_calls [simplified calls_simps])

lemma ICoreWebView2GetNonDefaultPermissionSettingsCompletedHandler_follow: "ICoreWebView2GetNonDefaultPermissionSettingsCompletedHandler_macros = macros_of ICoreWebView2GetNonDefaultPermissionSettingsCompletedHandler"
  by (simp only: macros_of_def layouts macro_simps
      ICoreWebView2GetNonDefaultPermissionSettingsCompletedHandler_macros_def
      ICoreWebView2GetNonDefaultPermissionSettingsCompletedHandler_calls [simplified calls_simps])

lemma ICoreWebView2HistoryChangedEventHandler_follow: "ICoreWebView2HistoryChangedEventHandler_macros = macros_of ICoreWebView2HistoryChangedEventHandler"
  by (simp only: macros_of_def layouts macro_simps
      ICoreWebView2HistoryChangedEventHandler_macros_def
      ICoreWebView2HistoryChangedEventHandler_calls [simplified calls_simps])

lemma ICoreWebView2IsDefaultDownloadDialogOpenChangedEventHandler_follow: "ICoreWebView2IsDefaultDownloadDialogOpenChangedEventHandler_macros = macros_of ICoreWebView2IsDefaultDownloadDialogOpenChangedEventHandler"
  by (simp only: macros_of_def layouts macro_simps
      ICoreWebView2IsDefaultDownloadDialogOpenChangedEventHandler_macros_def
      ICoreWebView2IsDefaultDownloadDialogOpenChangedEventHandler_calls [simplified calls_simps])

lemma ICoreWebView2LaunchingExternalUriSchemeEventHandler_follow: "ICoreWebView2LaunchingExternalUriSchemeEventHandler_macros = macros_of ICoreWebView2LaunchingExternalUriSchemeEventHandler"
  by (simp only: macros_of_def layouts macro_simps
      ICoreWebView2LaunchingExternalUriSchemeEventHandler_macros_def
      ICoreWebView2LaunchingExternalUriSchemeEventHandler_calls [simplified calls_simps])

lemma ICoreWebView2MoveFocusRequestedEventHandler_follow: "ICoreWebView2MoveFocusRequestedEventHandler_macros = macros_of ICoreWebView2MoveFocusRequestedEventHandler"
  by (simp only: macros_of_def layouts macro_simps
      ICoreWebView2MoveFocusRequestedEventHandler_macros_def
      ICoreWebView2MoveFocusRequestedEventHandler_calls [simplified calls_simps])

lemma ICoreWebView2NavigationCompletedEventHandler_follow: "ICoreWebView2NavigationCompletedEventHandler_macros = macros_of ICoreWebView2NavigationCompletedEventHandler"
  by (simp only: macros_of_def layouts macro_simps
      ICoreWebView2NavigationCompletedEventHandler_macros_def
      ICoreWebView2NavigationCompletedEventHandler_calls [simplified calls_simps])

lemma ICoreWebView2NavigationStartingEventHandler_follow: "ICoreWebView2NavigationStartingEventHandler_macros = macros_of ICoreWebView2NavigationStartingEventHandler"
  by (simp only: macros_of_def layouts macro_simps
      ICoreWebView2NavigationStartingEventHandler_macros_def
      ICoreWebView2NavigationStartingEventHandler_calls [simplified calls_simps])

lemma ICoreWebView2NewBrowserVersionAvailableEventHandler_follow: "ICoreWebView2NewBrowserVersionAvailableEventHandler_macros = macros_of ICoreWebView2NewBrowserVersionAvailableEventHandler"
  by (simp only: macros_of_def layouts macro_simps
      ICoreWebView2NewBrowserVersionAvailableEventHandler_macros_def
      ICoreWebView2NewBrowserVersionAvailableEventHandler_calls [simplified calls_simps])

lemma ICoreWebView2NewWindowRequestedEventHandler_follow: "ICoreWebView2NewWindowRequestedEventHandler_macros = macros_of ICoreWebView2NewWindowRequestedEventHandler"
  by (simp only: macros_of_def layouts macro_simps
      ICoreWebView2NewWindowRequestedEventHandler_macros_def
      ICoreWebView2NewWindowRequestedEventHandler_calls [simplified calls_simps])

lemma ICoreWebView2PermissionRequestedEventHandler_follow: "ICoreWebView2PermissionRequestedEventHandler_macros = macros_of ICoreWebView2PermissionRequestedEventHandler"
  by (simp only: macros_of_def layouts macro_simps
      ICoreWebView2PermissionRequestedEventHandler_macros_def
      ICoreWebView2PermissionRequestedEventHandler_calls [simplified calls_simps])

lemma ICoreWebView2PrintToPdfCompletedHandler_follow: "ICoreWebView2PrintToPdfCompletedHandler_macros = macros_of ICoreWebView2PrintToPdfCompletedHandler"
  by (simp only: macros_of_def layouts macro_simps
      ICoreWebView2PrintToPdfCompletedHandler_macros_def
      ICoreWebView2PrintToPdfCompletedHandler_calls [simplified calls_simps])

lemma ICoreWebView2PrintCompletedHandler_follow: "ICoreWebView2PrintCompletedHandler_macros = macros_of ICoreWebView2PrintCompletedHandler"
  by (simp only: macros_of_def layouts macro_simps
      ICoreWebView2PrintCompletedHandler_macros_def
      ICoreWebView2PrintCompletedHandler_calls [simplified calls_simps])

lemma ICoreWebView2PrintToPdfStreamCompletedHandler_follow: "ICoreWebView2PrintToPdfStreamCompletedHandler_macros = macros_of ICoreWebView2PrintToPdfStreamCompletedHandler"
  by (simp only: macros_of_def layouts macro_simps
      ICoreWebView2PrintToPdfStreamCompletedHandler_macros_def
      ICoreWebView2PrintToPdfStreamCompletedHandler_calls [simplified calls_simps])

lemma ICoreWebView2ProcessFailedEventHandler_follow: "ICoreWebView2ProcessFailedEventHandler_macros = macros_of ICoreWebView2ProcessFailedEventHandler"
  by (simp only: macros_of_def layouts macro_simps
      ICoreWebView2ProcessFailedEventHandler_macros_def
      ICoreWebView2ProcessFailedEventHandler_calls [simplified calls_simps])

lemma ICoreWebView2ProfileDeletedEventHandler_follow: "ICoreWebView2ProfileDeletedEventHandler_macros = macros_of ICoreWebView2ProfileDeletedEventHandler"
  by (simp only: macros_of_def layouts macro_simps
      ICoreWebView2ProfileDeletedEventHandler_macros_def
      ICoreWebView2ProfileDeletedEventHandler_calls [simplified calls_simps])

lemma ICoreWebView2RasterizationScaleChangedEventHandler_follow: "ICoreWebView2RasterizationScaleChangedEventHandler_macros = macros_of ICoreWebView2RasterizationScaleChangedEventHandler"
  by (simp only: macros_of_def layouts macro_simps
      ICoreWebView2RasterizationScaleChangedEventHandler_macros_def
      ICoreWebView2RasterizationScaleChangedEventHandler_calls [simplified calls_simps])

lemma ICoreWebView2ServerCertificateErrorDetectedEventHandler_follow: "ICoreWebView2ServerCertificateErrorDetectedEventHandler_macros = macros_of ICoreWebView2ServerCertificateErrorDetectedEventHandler"
  by (simp only: macros_of_def layouts macro_simps
      ICoreWebView2ServerCertificateErrorDetectedEventHandler_macros_def
      ICoreWebView2ServerCertificateErrorDetectedEventHandler_calls [simplified calls_simps])

lemma ICoreWebView2SetPermissionStateCompletedHandler_follow: "ICoreWebView2SetPermissionStateCompletedHandler_macros = macros_of ICoreWebView2SetPermissionStateCompletedHandler"
  by (simp only: macros_of_def layouts macro_simps
      ICoreWebView2SetPermissionStateCompletedHandler_macros_def
      ICoreWebView2SetPermissionStateCompletedHandler_calls [simplified calls_simps])

lemma ICoreWebView2ScriptDialogOpeningEventHandler_follow: "ICoreWebView2ScriptDialogOpeningEventHandler_macros = macros_of ICoreWebView2ScriptDialogOpeningEventHandler"
  by (simp only: macros_of_def layouts macro_simps
      ICoreWebView2ScriptDialogOpeningEventHandler_macros_def
      ICoreWebView2ScriptDialogOpeningEventHandler_calls [simplified calls_simps])

lemma ICoreWebView2SourceChangedEventHandler_follow: "ICoreWebView2SourceChangedEventHandler_macros = macros_of ICoreWebView2SourceChangedEventHandler"
  by (simp only: macros_of_def layouts macro_simps
      ICoreWebView2SourceChangedEventHandler_macros_def
      ICoreWebView2SourceChangedEventHandler_calls [simplified calls_simps])

lemma ICoreWebView2StateChangedEventHandler_follow: "ICoreWebView2StateChangedEventHandler_macros = macros_of ICoreWebView2StateChangedEventHandler"
  by (simp only: macros_of_def layouts macro_simps
      ICoreWebView2StateChangedEventHandler_macros_def
      ICoreWebView2StateChangedEventHandler_calls [simplified calls_simps])

lemma ICoreWebView2StatusBarTextChangedEventHandler_follow: "ICoreWebView2StatusBarTextChangedEventHandler_macros = macros_of ICoreWebView2StatusBarTextChangedEventHandler"
  by (simp only: macros_of_def layouts macro_simps
      ICoreWebView2StatusBarTextChangedEventHandler_macros_def
      ICoreWebView2StatusBarTextChangedEventHandler_calls [simplified calls_simps])

lemma ICoreWebView2TrySuspendCompletedHandler_follow: "ICoreWebView2TrySuspendCompletedHandler_macros = macros_of ICoreWebView2TrySuspendCompletedHandler"
  by (simp only: macros_of_def layouts macro_simps
      ICoreWebView2TrySuspendCompletedHandler_macros_def
      ICoreWebView2TrySuspendCompletedHandler_calls [simplified calls_simps])

lemma ICoreWebView2WebMessageReceivedEventHandler_follow: "ICoreWebView2WebMessageReceivedEventHandler_macros = macros_of ICoreWebView2WebMessageReceivedEventHandler"
  by (simp only: macros_of_def layouts macro_simps
      ICoreWebView2WebMessageReceivedEventHandler_macros_def
      ICoreWebView2WebMessageReceivedEventHandler_calls [simplified calls_simps])

lemma ICoreWebView2WebResourceRequestedEventHandler_follow: "ICoreWebView2WebResourceRequestedEventHandler_macros = macros_of ICoreWebView2WebResourceRequestedEventHandler"
  by (simp only: macros_of_def layouts macro_simps
      ICoreWebView2WebResourceRequestedEventHandler_macros_def
      ICoreWebView2WebResourceRequestedEventHandler_calls [simplified calls_simps])

lemma ICoreWebView2WebResourceResponseReceivedEventHandler_follow: "ICoreWebView2WebResourceResponseReceivedEventHandler_macros = macros_of ICoreWebView2WebResourceResponseReceivedEventHandler"
  by (simp only: macros_of_def layouts macro_simps
      ICoreWebView2WebResourceResponseReceivedEventHandler_macros_def
      ICoreWebView2WebResourceResponseReceivedEventHandler_calls [simplified calls_simps])

lemma ICoreWebView2WebResourceResponseViewGetContentCompletedHandler_follow: "ICoreWebView2WebResourceResponseViewGetContentCompletedHandler_macros = macros_of ICoreWebView2WebResourceResponseViewGetContentCompletedHandler"
  by (simp only: macros_of_def layouts macro_simps
      ICoreWebView2WebResourceResponseViewGetContentCompletedHandler_macros_def
      ICoreWebView2WebResourceResponseViewGetContentCompletedHandler_calls [simplified calls_simps])

lemma ICoreWebView2WindowCloseRequestedEventHandler_follow: "ICoreWebView2WindowCloseRequestedEventHandler_macros = macros_of ICoreWebView2WindowCloseRequestedEventHandler"
  by (simp only: macros_of_def layouts macro_simps
      ICoreWebView2WindowCloseRequestedEventHandler_macros_def
      ICoreWebView2WindowCloseRequestedEventHandler_calls [simplified calls_simps])

lemma ICoreWebView2ZoomFactorChangedEventHandler_follow: "ICoreWebView2ZoomFactorChangedEventHandler_macros = macros_of ICoreWebView2ZoomFactorChangedEventHandler"
  by (simp only: macros_of_def layouts macro_simps
      ICoreWebView2ZoomFactorChangedEventHandler_macros_def
      ICoreWebView2ZoomFactorChangedEventHandler_calls [simplified calls_simps])

lemma ICoreWebView2IsMutedChangedEventHandler_follow: "ICoreWebView2IsMutedChangedEventHandler_macros = macros_of ICoreWebView2IsMutedChangedEventHandler"
  by (simp only: macros_of_def layouts macro_simps
      ICoreWebView2IsMutedChangedEventHandler_macros_def
      ICoreWebView2IsMutedChangedEventHandler_calls [simplified calls_simps])

lemma ICoreWebView2IsDocumentPlayingAudioChangedEventHandler_follow: "ICoreWebView2IsDocumentPlayingAudioChangedEventHandler_macros = macros_of ICoreWebView2IsDocumentPlayingAudioChangedEventHandler"
  by (simp only: macros_of_def layouts macro_simps
      ICoreWebView2IsDocumentPlayingAudioChangedEventHandler_macros_def
      ICoreWebView2IsDocumentPlayingAudioChangedEventHandler_calls [simplified calls_simps])

lemma ICoreWebView2ProcessInfosChangedEventHandler_follow: "ICoreWebView2ProcessInfosChangedEventHandler_macros = macros_of ICoreWebView2ProcessInfosChangedEventHandler"
  by (simp only: macros_of_def layouts macro_simps
      ICoreWebView2ProcessInfosChangedEventHandler_macros_def
      ICoreWebView2ProcessInfosChangedEventHandler_calls [simplified calls_simps])

lemma ICoreWebView2FaviconChangedEventHandler_follow: "ICoreWebView2FaviconChangedEventHandler_macros = macros_of ICoreWebView2FaviconChangedEventHandler"
  by (simp only: macros_of_def layouts macro_simps
      ICoreWebView2FaviconChangedEventHandler_macros_def
      ICoreWebView2FaviconChangedEventHandler_calls [simplified calls_simps])

lemma ICoreWebView2GetFaviconCompletedHandler_follow: "ICoreWebView2GetFaviconCompletedHandler_macros = macros_of ICoreWebView2GetFaviconCompletedHandler"
  by (simp only: macros_of_def layouts macro_simps
      ICoreWebView2GetFaviconCompletedHandler_macros_def
      ICoreWebView2GetFaviconCompletedHandler_calls [simplified calls_simps])

lemma ICoreWebView2ProfileAddBrowserExtensionCompletedHandler_follow: "ICoreWebView2ProfileAddBrowserExtensionCompletedHandler_macros = macros_of ICoreWebView2ProfileAddBrowserExtensionCompletedHandler"
  by (simp only: macros_of_def layouts macro_simps
      ICoreWebView2ProfileAddBrowserExtensionCompletedHandler_macros_def
      ICoreWebView2ProfileAddBrowserExtensionCompletedHandler_calls [simplified calls_simps])

lemma ICoreWebView2ProfileGetBrowserExtensionsCompletedHandler_follow: "ICoreWebView2ProfileGetBrowserExtensionsCompletedHandler_macros = macros_of ICoreWebView2ProfileGetBrowserExtensionsCompletedHandler"
  by (simp only: macros_of_def layouts macro_simps
      ICoreWebView2ProfileGetBrowserExtensionsCompletedHandler_macros_def
      ICoreWebView2ProfileGetBrowserExtensionsCompletedHandler_calls [simplified calls_simps])

lemma ICoreWebView2BrowserExtensionEnableCompletedHandler_follow: "ICoreWebView2BrowserExtensionEnableCompletedHandler_macros = macros_of ICoreWebView2BrowserExtensionEnableCompletedHandler"
  by (simp only: macros_of_def layouts macro_simps
      ICoreWebView2BrowserExtensionEnableCompletedHandler_macros_def
      ICoreWebView2BrowserExtensionEnableCompletedHandler_calls [simplified calls_simps])

lemma ICoreWebView2BrowserExtensionRemoveCompletedHandler_follow: "ICoreWebView2BrowserExtensionRemoveCompletedHandler_macros = macros_of ICoreWebView2BrowserExtensionRemoveCompletedHandler"
  by (simp only: macros_of_def layouts macro_simps
      ICoreWebView2BrowserExtensionRemoveCompletedHandler_macros_def
      ICoreWebView2BrowserExtensionRemoveCompletedHandler_calls [simplified calls_simps])

lemma ICoreWebView2ExecuteScriptWithResultCompletedHandler_follow: "ICoreWebView2ExecuteScriptWithResultCompletedHandler_macros = macros_of ICoreWebView2ExecuteScriptWithResultCompletedHandler"
  by (simp only: macros_of_def layouts macro_simps
      ICoreWebView2ExecuteScriptWithResultCompletedHandler_macros_def
      ICoreWebView2ExecuteScriptWithResultCompletedHandler_calls [simplified calls_simps])

definition handlers_macros :: "(iface \<times> cmacro list) list" where
  "handlers_macros =
     [(ICoreWebView2AcceleratorKeyPressedEventHandler, ICoreWebView2AcceleratorKeyPressedEventHandler_macros),
      (ICoreWebView2AddScriptToExecuteOnDocumentCreatedCompletedHandler, ICoreWebView2AddScriptToExecuteOnDocumentCreatedCompletedHandler_macros),
      (ICoreWebView2CallDevToolsProtocolMethodCompletedHandler, ICoreWebView2CallDevToolsProtocolMethodCompletedHandler_macros),
      (ICoreWebView2CapturePreviewCompletedHandler, ICoreWebView2CapturePreviewCompletedHandler_macros),
      (ICoreWebView2BasicAuthenticationRequestedEventHandler, ICoreWebView2BasicAuthenticationRequestedEventHandler_macros),
      (ICoreWebView2BrowserProcessExitedEventHandler, ICoreWebView2BrowserProcessExitedEventHandler_macros),
      (ICoreWebView2BytesReceivedChangedEventHandler, ICoreWebView2BytesReceivedChangedEventHandler_macros),
      (ICoreWebView2ContentLoadingEventHandler, ICoreWebView2ContentLoadingEventHandler_macros),
      (ICoreWebView2ContextMenuRequestedEventHandler, ICoreWebView2ContextMenuRequestedEventHandler_macros),
      (ICoreWebView2ClearBrowsingDataCompletedHandler, ICoreWebView2ClearBrowsingDataCompletedHandler_macros),
      (ICoreWebView2ClientCertificateRequestedEventHandler, ICoreWebView2ClientCertificateRequestedEventHandler_macros),
      (ICoreWebView2ClearServerCertificateErrorActionsCompletedHandler, ICoreWebView2ClearServerCertificateErrorActionsCompletedHandler_macros),
      (ICoreWebView2CreateCoreWebView2CompositionControllerCompletedHandler, ICoreWebView2CreateCoreWebView2CompositionControllerCompletedHandler_macros),
      (ICoreWebView2CreateCoreWebView2ControllerCompletedHandler, ICoreWebView2CreateCoreWebView2ControllerCompletedHandler_macros),
      (ICoreWebView2CreateCoreWebView2EnvironmentCompletedHandler, ICoreWebView2CreateCoreWebView2EnvironmentCompletedHandler_macros),
      (ICoreWebView2ContainsFullScreenElementChangedEventHandler, ICoreWebView2ContainsFullScreenElementChangedEventHandler_macros),
      (ICoreWebView2CursorChangedEventHandler, ICoreWebView2CursorChangedEventHandler_macros),
      (ICoreWebView2CustomItemSelectedEventHandler, ICoreWebView2CustomItemSelectedEventHandler_macros),
      (ICoreWebView2DocumentTitleChangedEventHandler, ICoreWebView2DocumentTitleChangedEventHandler_macros),
      (ICoreWebView2DOMContentLoadedEventHandler, ICoreWebView2DOMContentLoadedEventHandler_macros),
      (ICoreWebView2DevToolsProtocolEventReceivedEventHandler, ICoreWebView2DevToolsProtocolEventReceivedEventHandler_macros),
      (ICoreWebView2DownloadStartingEventHandler, ICoreWebView2DownloadStartingEventHandler_macros),
      (ICoreWebView2EstimatedEndTimeChangedEventHandler, ICoreWebView2EstimatedEndTimeChangedEventHandler_macros),
      (ICoreWebView2ExecuteScriptCompletedHandler, ICoreWebView2ExecuteScriptCompletedHandler_macros),
      (ICoreWebView2GetProcessExtendedInfosCompletedHandler, ICoreWebView2GetProcessExtendedInfosCompletedHandler_macros),
      (ICoreWebView2FrameContentLoadingEventHandler, ICoreWebView2FrameContentLoadingEventHandler_macros),
      (ICoreWebView2FrameCreatedEventHandler, ICoreWebView2FrameCreatedEventHandler_macros),
      (ICoreWebView2FrameDestroyedEventHandler, ICoreWebView2FrameDestroyedEventHandler_macros),
      (ICoreWebView2FrameDOMContentLoadedEventHandler, ICoreWebView2FrameDOMContentLoadedEventHandler_macros),
      (ICoreWebView2FrameNameChangedEventHandler, ICoreWebView2FrameNameChangedEventHandler_macros),
      (ICoreWebView2FrameNavigationCompletedEventHandler, ICoreWebView2FrameNavigationCompletedEventHandler_macros),
      (ICoreWebView2FrameNavigationStartingEventHandler, ICoreWebView2FrameNavigationStartingEventHandler_macros),
      (ICoreWebView2FramePermissionRequestedEventHandler, ICoreWebView2FramePermissionRequestedEventHandler_macros),
      (ICoreWebView2FrameWebMessageReceivedEventHandler, ICoreWebView2FrameWebMessageReceivedEventHandler_macros),
      (ICoreWebView2FocusChangedEventHandler, ICoreWebView2FocusChangedEventHandler_macros),
      (ICoreWebView2GetCookiesCompletedHandler, ICoreWebView2GetCookiesCompletedHandler_macros),
      (ICoreWebView2GetNonDefaultPermissionSettingsCompletedHandler, ICoreWebView2GetNonDefaultPermissionSettingsCompletedHandler_macros),
      (ICoreWebView2HistoryChangedEventHandler, ICoreWebView2HistoryChangedEventHandler_macros),
      (ICoreWebView2IsDefaultDownloadDialogOpenChangedEventHandler, ICoreWebView2IsDefaultDownloadDialogOpenChangedEventHandler_macros),
      (ICoreWebView2LaunchingExternalUriSchemeEventHandler, ICoreWebView2LaunchingExternalUriSchemeEventHandler_macros),
      (ICoreWebView2MoveFocusRequestedEventHandler, ICoreWebView2MoveFocusRequestedEventHandler_macros),
      (ICoreWebView2NavigationCompletedEventHandler, ICoreWebView2NavigationCompletedEventHandler_macros),
      (ICoreWebView2NavigationStartingEventHandler, ICoreWebView2NavigationStartingEventHandler_macros),
      (ICoreWebView2NewBrowserVersionAvailableEventHandler, ICoreWebView2NewBrowserVersionAvailableEventHandler_macros),
      (ICoreWebView2NewWindowRequestedEventHandler, ICoreWebView2NewWindowRequestedEventHandler_macros),
      (ICoreWebView2PermissionRequestedEventHandler, ICoreWebView2PermissionRequestedEventHandler_macros),
      (ICoreWebView2PrintToPdfCompletedHandler, ICoreWebView2PrintToPdfCompletedHandler_macros),
      (ICoreWebView2PrintCompletedHandler, ICoreWebView2PrintCompletedHandler_macros),
      (ICoreWebView2PrintToPdfStreamCompletedHandler, ICoreWebView2PrintToPdfStreamCompletedHandler_macros),
      (ICoreWebView2ProcessFailedEventHandler, ICoreWebView2ProcessFailedEventHandler_macros),
      (ICoreWebView2ProfileDeletedEventHandler, ICoreWebView2ProfileDeletedEventHandler_macros),
      (ICoreWebView2RasterizationScaleChangedEventHandler, ICoreWebView2RasterizationScaleChangedEventHandler_macros),
      (ICoreWebView2ServerCertificateErrorDetectedEventHandler, ICoreWebView2ServerCertificateErrorDetectedEventHandler_macros),
      (ICoreWebView2SetPermissionStateCompletedHandler, ICoreWebView2SetPermissionStateCompletedHandler_macros),
      (ICoreWebView2ScriptDialogOpeningEventHandler, ICoreWebView2ScriptDialogOpeningEventHandler_macros),
      (ICoreWebView2SourceChangedEventHandler, ICoreWebView2SourceChangedEventHandler_macros),
      (ICoreWebView2StateChangedEventHandler, ICoreWebView2StateChangedEventHandler_macros),
      (ICoreWebView2StatusBarTextChangedEventHandler, ICoreWebView2StatusBarTextChangedEventHandler_macros),
      (ICoreWebView2TrySuspendCompletedHandler, ICoreWebView2TrySuspendCompletedHandler_macros),
      (ICoreWebView2WebMessageReceivedEventHandler, ICoreWebView2WebMessageReceivedEventHandler_macros),
      (ICoreWebView2WebResourceRequestedEventHandler, ICoreWebView2WebResourceRequestedEventHandler_macros),
      (ICoreWebView2WebResourceResponseReceivedEventHandler, ICoreWebView2WebResourceResponseReceivedEventHandler_macros),
      (ICoreWebView2WebResourceResponseViewGetContentCompletedHandler, ICoreWebView2WebResourceResponseViewGetContentCompletedHandler_macros),
      (ICoreWebView2WindowCloseRequestedEventHandler, ICoreWebView2WindowCloseRequestedEventHandler_macros),
      (ICoreWebView2ZoomFactorChangedEventHandler, ICoreWebView2ZoomFactorChangedEventHandler_macros),
      (ICoreWebView2IsMutedChangedEventHandler, ICoreWebView2IsMutedChangedEventHandler_macros),
      (ICoreWebView2IsDocumentPlayingAudioChangedEventHandler, ICoreWebView2IsDocumentPlayingAudioChangedEventHandler_macros),
      (ICoreWebView2ProcessInfosChangedEventHandler, ICoreWebView2ProcessInfosChangedEventHandler_macros),
      (ICoreWebView2FaviconChangedEventHandler, ICoreWebView2FaviconChangedEventHandler_macros),
      (ICoreWebView2GetFaviconCompletedHandler, ICoreWebView2GetFaviconCompletedHandler_macros),
      (ICoreWebView2ProfileAddBrowserExtensionCompletedHandler, ICoreWebView2ProfileAddBrowserExtensionCompletedHandler_macros),
      (ICoreWebView2ProfileGetBrowserExtensionsCompletedHandler, ICoreWebView2ProfileGetBrowserExtensionsCompletedHandler_macros),
      (ICoreWebView2BrowserExtensionEnableCompletedHandler, ICoreWebView2BrowserExtensionEnableCompletedHandler_macros),
      (ICoreWebView2BrowserExtensionRemoveCompletedHandler, ICoreWebView2BrowserExtensionRemoveCompletedHandler_macros),
      (ICoreWebView2ExecuteScriptWithResultCompletedHandler, ICoreWebView2ExecuteScriptWithResultCompletedHandler_macros)]"

lemma handlers_macros_follow: "list_all (\<lambda>(i, ms). ms = macros_of i) handlers_macros"
  by (simp only: handlers_macros_def list.pred_inject prod.case simp_thms
    ICoreWebView2AcceleratorKeyPressedEventHandler_follow
    ICoreWebView2AddScriptToExecuteOnDocumentCreatedCompletedHandler_follow
    ICoreWebView2CallDevToolsProtocolMethodCompletedHandler_follow
    ICoreWebView2CapturePreviewCompletedHandler_follow
    ICoreWebView2BasicAuthenticationRequestedEventHandler_follow
    ICoreWebView2BrowserProcessExitedEventHandler_follow ICoreWebView2BytesReceivedChangedEventHandler_follow
    ICoreWebView2ContentLoadingEventHandler_follow ICoreWebView2ContextMenuRequestedEventHandler_follow
    ICoreWebView2ClearBrowsingDataCompletedHandler_follow
    ICoreWebView2ClientCertificateRequestedEventHandler_follow
    ICoreWebView2ClearServerCertificateErrorActionsCompletedHandler_follow
    ICoreWebView2CreateCoreWebView2CompositionControllerCompletedHandler_follow
    ICoreWebView2CreateCoreWebView2ControllerCompletedHandler_follow
    ICoreWebView2CreateCoreWebView2EnvironmentCompletedHandler_follow
    ICoreWebView2ContainsFullScreenElementChangedEventHandler_follow ICoreWebView2CursorChangedEventHandler_follow
    ICoreWebView2CustomItemSelectedEventHandler_follow ICoreWebView2DocumentTitleChangedEventHandler_follow
    ICoreWebView2DOMContentLoadedEventHandler_follow ICoreWebView2DevToolsProtocolEventReceivedEventHandler_follow
    ICoreWebView2DownloadStartingEventHandler_follow ICoreWebView2EstimatedEndTimeChangedEventHandler_follow
    ICoreWebView2ExecuteScriptCompletedHandler_follow ICoreWebView2GetProcessExtendedInfosCompletedHandler_follow
    ICoreWebView2FrameContentLoadingEventHandler_follow ICoreWebView2FrameCreatedEventHandler_follow
    ICoreWebView2FrameDestroyedEventHandler_follow ICoreWebView2FrameDOMContentLoadedEventHandler_follow
    ICoreWebView2FrameNameChangedEventHandler_follow ICoreWebView2FrameNavigationCompletedEventHandler_follow
    ICoreWebView2FrameNavigationStartingEventHandler_follow
    ICoreWebView2FramePermissionRequestedEventHandler_follow
    ICoreWebView2FrameWebMessageReceivedEventHandler_follow ICoreWebView2FocusChangedEventHandler_follow
    ICoreWebView2GetCookiesCompletedHandler_follow
    ICoreWebView2GetNonDefaultPermissionSettingsCompletedHandler_follow
    ICoreWebView2HistoryChangedEventHandler_follow
    ICoreWebView2IsDefaultDownloadDialogOpenChangedEventHandler_follow
    ICoreWebView2LaunchingExternalUriSchemeEventHandler_follow ICoreWebView2MoveFocusRequestedEventHandler_follow
    ICoreWebView2NavigationCompletedEventHandler_follow ICoreWebView2NavigationStartingEventHandler_follow
    ICoreWebView2NewBrowserVersionAvailableEventHandler_follow ICoreWebView2NewWindowRequestedEventHandler_follow
    ICoreWebView2PermissionRequestedEventHandler_follow ICoreWebView2PrintToPdfCompletedHandler_follow
    ICoreWebView2PrintCompletedHandler_follow ICoreWebView2PrintToPdfStreamCompletedHandler_follow
    ICoreWebView2ProcessFailedEventHandler_follow ICoreWebView2ProfileDeletedEventHandler_follow
    ICoreWebView2RasterizationScaleChangedEventHandler_follow
    ICoreWebView2ServerCertificateErrorDetectedEventHandler_follow
    ICoreWebView2SetPermissionStateCompletedHandler_follow ICoreWebView2ScriptDialogOpeningEventHandler_follow
    ICoreWebView2SourceChangedEventHandler_follow ICoreWebView2StateChangedEventHandler_follow
    ICoreWebView2StatusBarTextChangedEventHandler_follow ICoreWebView2TrySuspendCompletedHandler_follow
    ICoreWebView2WebMessageReceivedEventHandler_follow ICoreWebView2WebResourceRequestedEventHandler_follow
    ICoreWebView2WebResourceResponseReceivedEventHandler_follow
    ICoreWebView2WebResourceResponseViewGetContentCompletedHandler_follow
    ICoreWebView2WindowCloseRequestedEventHandler_follow ICoreWebView2ZoomFactorChangedEventHandler_follow
    ICoreWebView2IsMutedChangedEventHandler_follow ICoreWebView2IsDocumentPlayingAudioChangedEventHandler_follow
    ICoreWebView2ProcessInfosChangedEventHandler_follow ICoreWebView2FaviconChangedEventHandler_follow
    ICoreWebView2GetFaviconCompletedHandler_follow ICoreWebView2ProfileAddBrowserExtensionCompletedHandler_follow
    ICoreWebView2ProfileGetBrowserExtensionsCompletedHandler_follow
    ICoreWebView2BrowserExtensionEnableCompletedHandler_follow
    ICoreWebView2BrowserExtensionRemoveCompletedHandler_follow
    ICoreWebView2ExecuteScriptWithResultCompletedHandler_follow)

end
