(* ===== verification/AbiCalls.thy ===== *)
theory AbiCalls
  imports Abi AbiBrowserCalls AbiServicesCalls AbiObjectsCalls AbiHandlersCalls
begin

text \<open>
  The call macros of all interfaces: through a macro a C program reaches the slot that a C++ program reaches through
  the method of the same name.
\<close>

definition abi_macros :: "(iface \<times> cmacro list) list" where
  "abi_macros = browser_macros @ services_macros @ objects_macros @ handlers_macros"

lemma abi_macros_follow: "(i, ms) \<in> set abi_macros \<Longrightarrow> ms = macros_of i"
  using browser_macros_follow services_macros_follow objects_macros_follow handlers_macros_follow
  by (auto simp: abi_macros_def list_all_iff)

lemma abi_macros_tables: "map fst abi_macros = map fst abi_table"
  by (simp add: abi_macros_def abi_table_def browser_macros_def services_macros_def objects_macros_def handlers_macros_def
    browser_tables_def services_tables_def objects_tables_def handlers_tables_def)

section \<open>The contract of the macros\<close>

locale com_calls = com_interface i vtbl for i :: iface and vtbl :: vtable +
  fixes macros :: "cmacro list"
  assumes macros_follow: "macros = macros_of i"
begin

lemma macros_length: "length macros = length (slots_of vtbl)"
  by (simp add: macros_follow slots macros_of_def)

text \<open>A macro calls the slot at its own position and passes on its parameters, which are those of the method.\<close>

lemma macro_slot:
  assumes "k < length macros" "slots_of vtbl ! k = CDecl d r m ps"
  shows "macros ! k = Macro m (map param_name ps) m (map param_name ps)"
proof -
  have k: "k < length (cpp_layout i)" using assms(1) by (simp add: macros_length slots)
  then have "c_decl (cpp_layout i ! k) = CDecl d r m ps" using assms(2) by (simp add: slots)
  then have "slot_method (cpp_layout i ! k) = Method r m ps"
    by (cases "cpp_layout i ! k"; cases "slot_method (cpp_layout i ! k)") auto
  from macros_of_nth [OF k this] show ?thesis by (simp add: macros_follow)
qed

end

interpretation calls_ICoreWebView2: com_calls ICoreWebView2 ICoreWebView2Vtbl ICoreWebView2_macros
  by unfold_locales (rule ICoreWebView2_follow)

interpretation calls_ICoreWebView2Controller: com_calls ICoreWebView2Controller ICoreWebView2ControllerVtbl ICoreWebView2Controller_macros
  by unfold_locales (rule ICoreWebView2Controller_follow)

interpretation calls_ICoreWebView2Environment: com_calls ICoreWebView2Environment ICoreWebView2EnvironmentVtbl ICoreWebView2Environment_macros
  by unfold_locales (rule ICoreWebView2Environment_follow)

lemma abi_com_calls: "(i, ms) \<in> set abi_macros \<Longrightarrow> (i, v) \<in> set abi_table \<Longrightarrow> com_calls i v ms"
  using abi_table_views abi_macros_follow by (simp add: com_calls_def com_calls_axioms_def)

section \<open>Properties\<close>

text \<open>C36: the call macros of the header reach the slots they are named after. Each interface has as many macros as its
  C table has members; the macro at a position has the name and the parameter names of the member there, calls that
  member and passes \<^verbatim>\<open>This\<close> and its parameters on in their order, none dropped, repeated or exchanged.\<close>

theorem macros_call_slots:
  assumes "(i, ms) \<in> set abi_macros" "(i, v) \<in> set abi_table"
  shows "length ms = length (slots_of v) \<and> (\<forall>k<length ms. \<forall>d r m ps. slots_of v ! k = CDecl d r m ps \<longrightarrow>
    ms ! k = Macro m (map param_name ps) m (map param_name ps))"
  using com_calls.macros_length [OF abi_com_calls [OF assms]] com_calls.macro_slot [OF abi_com_calls [OF assms]] by blast

theorem macros_call_slots_witness:
  "(ICoreWebView2Settings, ICoreWebView2Settings_macros) \<in> set abi_macros
   \<and> ICoreWebView2Settings_macros ! 3 = Macro ''get_IsScriptEnabled'' [''isScriptEnabled''] ''get_IsScriptEnabled'' [''isScriptEnabled'']"
proof -
  have m: "(ICoreWebView2Settings, ICoreWebView2Settings_macros) \<in> set abi_macros" "(ICoreWebView2Settings, ICoreWebView2SettingsVtbl) \<in> set abi_table"
    by (simp_all add: abi_macros_def abi_table_def services_macros_def services_tables_def)
  have s: "slots_of ICoreWebView2SettingsVtbl ! 3
      = CDecl ''ICoreWebView2Settings'' ''HRESULT'' ''get_IsScriptEnabled'' [''BOOL *isScriptEnabled'']"
    by (simp add: ICoreWebView2SettingsVtbl_def ICoreWebView2Settings_get_IsScriptEnabled_C_def)
  have "3 < length ICoreWebView2Settings_macros" by (simp add: ICoreWebView2Settings_macros_def)
  then have "ICoreWebView2Settings_macros ! 3 = Macro ''get_IsScriptEnabled'' (map param_name [''BOOL *isScriptEnabled''])
      ''get_IsScriptEnabled'' (map param_name [''BOOL *isScriptEnabled''])"
    using macros_call_slots [OF m] s by blast
  then show ?thesis using m(1) by (simp add: param_name_def)
qed

end
