(* ===== verification/AbiIds.thy ===== *)
theory AbiIds
  imports Abi
begin

text \<open>
  \<^verbatim>\<open>builtin/goc/webview2/WebView2.h\<close>: the identifiers of the interfaces that the repository does not ask for itself
  (the others are in \<open>WebView2Abi\<close>), and the table of all of them. An interface has its identifier as a constant and as
  a \<^verbatim>\<open>uuid\<close> string.
\<close>

section \<open>Identifiers\<close>

definition IID_ICoreWebView2_3 :: guid where
  "IID_ICoreWebView2_3 =
     GUID 0xA0D6DF20 0x3B92 0x416D 0xAA 0x0C 0x43 0x7A 0x9C 0x72 0x78 0x57"

definition IID_ICoreWebView2_4 :: guid where
  "IID_ICoreWebView2_4 =
     GUID 0x20d02d59 0x6df2 0x42dc 0xbd 0x06 0xf9 0x8a 0x69 0x4b 0x13 0x02"

definition IID_ICoreWebView2_5 :: guid where
  "IID_ICoreWebView2_5 =
     GUID 0xbedb11b8 0xd63c 0x11eb 0xb8 0xbc 0x02 0x42 0xac 0x13 0x00 0x03"

definition IID_ICoreWebView2_6 :: guid where
  "IID_ICoreWebView2_6 =
     GUID 0x499aadac 0xd92c 0x4589 0x8a 0x75 0x11 0x1b 0xfc 0x16 0x77 0x95"

definition IID_ICoreWebView2_7 :: guid where
  "IID_ICoreWebView2_7 =
     GUID 0x79c24d83 0x09a3 0x45ae 0x94 0x18 0x48 0x7f 0x32 0xa5 0x87 0x40"

definition IID_ICoreWebView2_8 :: guid where
  "IID_ICoreWebView2_8 =
     GUID 0xE9632730 0x6E1E 0x43AB 0xB7 0xB8 0x7B 0x2C 0x9E 0x62 0xE0 0x94"

definition IID_ICoreWebView2_9 :: guid where
  "IID_ICoreWebView2_9 =
     GUID 0x4d7b2eab 0x9fdc 0x468d 0xb9 0x98 0xa9 0x26 0x0b 0x5e 0xd6 0x51"

definition IID_ICoreWebView2_10 :: guid where
  "IID_ICoreWebView2_10 =
     GUID 0xb1690564 0x6f5a 0x4983 0x8e 0x48 0x31 0xd1 0x14 0x3f 0xec 0xdb"

definition IID_ICoreWebView2_12 :: guid where
  "IID_ICoreWebView2_12 =
     GUID 0x35D69927 0xBCFA 0x4566 0x93 0x49 0x6B 0x3E 0x0D 0x15 0x4C 0xAC"

definition IID_ICoreWebView2_14 :: guid where
  "IID_ICoreWebView2_14 =
     GUID 0x6DAA4F10 0x4A90 0x4753 0x88 0x98 0x77 0xC5 0xDF 0x53 0x41 0x65"

definition IID_ICoreWebView2_15 :: guid where
  "IID_ICoreWebView2_15 =
     GUID 0x517B2D1D 0x7DAE 0x4A66 0xA4 0xF4 0x10 0x35 0x2F 0xFB 0x95 0x18"

definition IID_ICoreWebView2_17 :: guid where
  "IID_ICoreWebView2_17 =
     GUID 0x702E75D4 0xFD44 0x434D 0x9D 0x70 0x1A 0x68 0xA6 0xB1 0x19 0x2A"

definition IID_ICoreWebView2_18 :: guid where
  "IID_ICoreWebView2_18 =
     GUID 0x7A626017 0x28BE 0x49B2 0xB8 0x65 0x3B 0xA2 0xB3 0x52 0x2D 0x90"

definition IID_ICoreWebView2_19 :: guid where
  "IID_ICoreWebView2_19 =
     GUID 0x6921F954 0x79B0 0x437F 0xA9 0x97 0xC8 0x58 0x11 0x89 0x7C 0x68"

definition IID_ICoreWebView2_20 :: guid where
  "IID_ICoreWebView2_20 =
     GUID 0xb4bc1926 0x7305 0x11ee 0xb9 0x62 0x02 0x42 0xac 0x12 0x00 0x02"

definition IID_ICoreWebView2_21 :: guid where
  "IID_ICoreWebView2_21 =
     GUID 0xc4980dea 0x587b 0x43b9 0x81 0x43 0x3e 0xf3 0xbf 0x55 0x2d 0x95"

definition IID_ICoreWebView2_22 :: guid where
  "IID_ICoreWebView2_22 =
     GUID 0xDB75DFC7 0xA857 0x4632 0xA3 0x98 0x69 0x69 0xDD 0xE2 0x6C 0x0A"

definition IID_ICoreWebView2CompositionController :: guid where
  "IID_ICoreWebView2CompositionController =
     GUID 0x3df9b733 0xb9ae 0x4a15 0x86 0xb4 0xeb 0x9e 0xe9 0x82 0x64 0x69"

definition IID_ICoreWebView2CompositionController2 :: guid where
  "IID_ICoreWebView2CompositionController2 =
     GUID 0x0b6a3d24 0x49cb 0x4806 0xba 0x20 0xb5 0xe0 0x73 0x4a 0x7b 0x26"

definition IID_ICoreWebView2CompositionController3 :: guid where
  "IID_ICoreWebView2CompositionController3 =
     GUID 0x9570570e 0x4d76 0x4361 0x9e 0xe1 0xf0 0x4d 0x0d 0xbd 0xfb 0x1e"

definition IID_ICoreWebView2Controller2 :: guid where
  "IID_ICoreWebView2Controller2 =
     GUID 0xc979903e 0xd4ca 0x4228 0x92 0xeb 0x47 0xee 0x3f 0xa9 0x6e 0xab"

definition IID_ICoreWebView2Controller3 :: guid where
  "IID_ICoreWebView2Controller3 =
     GUID 0xf9614724 0x5d2b 0x41dc 0xae 0xf7 0x73 0xd6 0x2b 0x51 0x54 0x3b"

definition IID_ICoreWebView2Controller4 :: guid where
  "IID_ICoreWebView2Controller4 =
     GUID 0x97d418d5 0xa426 0x4e49 0xa1 0x51 0xe1 0xa1 0x0f 0x32 0x7d 0x9e"

definition IID_ICoreWebView2ControllerOptions :: guid where
  "IID_ICoreWebView2ControllerOptions =
     GUID 0x12aae616 0x8ccb 0x44ec 0xbc 0xb3 0xeb 0x18 0x31 0x88 0x16 0x35"

definition IID_ICoreWebView2ControllerOptions2 :: guid where
  "IID_ICoreWebView2ControllerOptions2 =
     GUID 0x06c991d8 0x9e7e 0x11ed 0xa8 0xfc 0x02 0x42 0xac 0x12 0x00 0x02"

definition IID_ICoreWebView2CookieManager :: guid where
  "IID_ICoreWebView2CookieManager =
     GUID 0x177CD9E7 0xB6F5 0x451A 0x94 0xA0 0x5D 0x7A 0x3A 0x4C 0x41 0x41"

definition IID_ICoreWebView2DownloadOperation :: guid where
  "IID_ICoreWebView2DownloadOperation =
     GUID 0x3d6b6cf2 0xafe1 0x44c7 0xa9 0x95 0xc6 0x51 0x17 0x71 0x43 0x36"

definition IID_ICoreWebView2Environment2 :: guid where
  "IID_ICoreWebView2Environment2 =
     GUID 0x41F3632B 0x5EF4 0x404F 0xAD 0x82 0x2D 0x60 0x6C 0x5A 0x9A 0x21"

definition IID_ICoreWebView2Environment3 :: guid where
  "IID_ICoreWebView2Environment3 =
     GUID 0x80a22ae3 0xbe7c 0x4ce2 0xaf 0xe1 0x5a 0x50 0x05 0x6c 0xde 0xeb"

definition IID_ICoreWebView2Environment4 :: guid where
  "IID_ICoreWebView2Environment4 =
     GUID 0x20944379 0x6dcf 0x41d6 0xa0 0xa0 0xab 0xc0 0xfc 0x50 0xde 0x0d"

definition IID_ICoreWebView2Environment5 :: guid where
  "IID_ICoreWebView2Environment5 =
     GUID 0x319e423d 0xe0d7 0x4b8d 0x92 0x54 0xae 0x94 0x75 0xde 0x9b 0x17"

definition IID_ICoreWebView2Environment6 :: guid where
  "IID_ICoreWebView2Environment6 =
     GUID 0xe59ee362 0xacbd 0x4857 0x9a 0x8e 0xd3 0x64 0x4d 0x94 0x59 0xa9"

definition IID_ICoreWebView2Environment7 :: guid where
  "IID_ICoreWebView2Environment7 =
     GUID 0x43C22296 0x3BBD 0x43A4 0x9C 0x00 0x5C 0x0D 0xF6 0xDD 0x29 0xA2"

definition IID_ICoreWebView2Environment8 :: guid where
  "IID_ICoreWebView2Environment8 =
     GUID 0xD6EB91DD 0xC3D2 0x45E5 0xBD 0x29 0x6D 0xC2 0xBC 0x4D 0xE9 0xCF"

definition IID_ICoreWebView2Environment9 :: guid where
  "IID_ICoreWebView2Environment9 =
     GUID 0xf06f41bf 0x4b5a 0x49d8 0xb9 0xf6 0xfa 0x16 0xcd 0x29 0xf2 0x74"

definition IID_ICoreWebView2Environment10 :: guid where
  "IID_ICoreWebView2Environment10 =
     GUID 0xee0eb9df 0x6f12 0x46ce 0xb5 0x3f 0x3f 0x47 0xb9 0xc9 0x28 0xe0"

definition IID_ICoreWebView2Environment11 :: guid where
  "IID_ICoreWebView2Environment11 =
     GUID 0xF0913DC6 0xA0EC 0x42EF 0x98 0x05 0x91 0xDF 0xF3 0xA2 0x96 0x6A"

definition IID_ICoreWebView2Environment12 :: guid where
  "IID_ICoreWebView2Environment12 =
     GUID 0xF503DB9B 0x739F 0x48DD 0xB1 0x51 0xFD 0xFC 0xF2 0x53 0xF5 0x4E"

definition IID_ICoreWebView2Environment13 :: guid where
  "IID_ICoreWebView2Environment13 =
     GUID 0xaf641f58 0x72b2 0x11ee 0xb9 0x62 0x02 0x42 0xac 0x12 0x00 0x02"

definition IID_ICoreWebView2ProcessExtendedInfo :: guid where
  "IID_ICoreWebView2ProcessExtendedInfo =
     GUID 0xaf4c4c2e 0x45db 0x11ee 0xbe 0x56 0x02 0x42 0xac 0x12 0x00 0x02"

definition IID_ICoreWebView2ProcessExtendedInfoCollection :: guid where
  "IID_ICoreWebView2ProcessExtendedInfoCollection =
     GUID 0x32efa696 0x407a 0x11ee 0xbe 0x56 0x02 0x42 0xac 0x12 0x00 0x02"

definition IID_ICoreWebView2Frame :: guid where
  "IID_ICoreWebView2Frame =
     GUID 0xf1131a5e 0x9ba9 0x11eb 0xa8 0xb3 0x02 0x42 0xac 0x13 0x00 0x03"

definition IID_ICoreWebView2Frame2 :: guid where
  "IID_ICoreWebView2Frame2 =
     GUID 0x7a6a5834 0xd185 0x4dbf 0xb6 0x3f 0x4a 0x9b 0xc4 0x31 0x07 0xd4"

definition IID_ICoreWebView2Frame3 :: guid where
  "IID_ICoreWebView2Frame3 =
     GUID 0xb50d82cc 0xcc28 0x481d 0x96 0x14 0xcb 0x04 0x88 0x95 0xe6 0xa0"

definition IID_ICoreWebView2Frame4 :: guid where
  "IID_ICoreWebView2Frame4 =
     GUID 0x188782DC 0x92AA 0x4732 0xAB 0x3C 0xFC 0xC5 0x9F 0x6F 0x68 0xB9"

definition IID_ICoreWebView2Frame5 :: guid where
  "IID_ICoreWebView2Frame5 =
     GUID 0x99d199c4 0x7305 0x11ee 0xb9 0x62 0x02 0x42 0xac 0x12 0x00 0x02"

definition IID_ICoreWebView2FrameInfo :: guid where
  "IID_ICoreWebView2FrameInfo =
     GUID 0xda86b8a1 0xbdf3 0x4f11 0x99 0x55 0x52 0x8c 0xef 0xa5 0x97 0x27"

definition IID_ICoreWebView2FrameInfo2 :: guid where
  "IID_ICoreWebView2FrameInfo2 =
     GUID 0x56f85cfa 0x72c4 0x11ee 0xb9 0x62 0x02 0x42 0xac 0x12 0x00 0x02"

definition IID_ICoreWebView2FrameInfoCollection :: guid where
  "IID_ICoreWebView2FrameInfoCollection =
     GUID 0x8f834154 0xd38e 0x4d90 0xaf 0xfb 0x68 0x00 0xa7 0x27 0x28 0x39"

definition IID_ICoreWebView2FrameInfoCollectionIterator :: guid where
  "IID_ICoreWebView2FrameInfoCollectionIterator =
     GUID 0x1bf89e2d 0x1b2b 0x4629 0xb2 0x8f 0x05 0x09 0x9b 0x41 0xbb 0x03"

definition IID_ICoreWebView2Profile2 :: guid where
  "IID_ICoreWebView2Profile2 =
     GUID 0xfa740d4b 0x5eae 0x4344 0xa8 0xad 0x74 0xbe 0x31 0x92 0x53 0x97"

definition IID_ICoreWebView2Profile3 :: guid where
  "IID_ICoreWebView2Profile3 =
     GUID 0xB188E659 0x5685 0x4E05 0xBD 0xBA 0xFC 0x64 0x0E 0x0F 0x19 0x92"

definition IID_ICoreWebView2Profile4 :: guid where
  "IID_ICoreWebView2Profile4 =
     GUID 0x8F4ae680 0x192e 0x4eC8 0x83 0x3a 0x21 0xcf 0xad 0xae 0xf6 0x28"

definition IID_ICoreWebView2Profile5 :: guid where
  "IID_ICoreWebView2Profile5 =
     GUID 0x2EE5B76E 0x6E80 0x4DF2 0xBC 0xD3 0xD4 0xEC 0x33 0x40 0xA0 0x1B"

definition IID_ICoreWebView2Profile6 :: guid where
  "IID_ICoreWebView2Profile6 =
     GUID 0xBD82FA6A 0x1D65 0x4C33 0xB2 0xB4 0x03 0x93 0x02 0x0C 0xC6 0x1B"

definition IID_ICoreWebView2Profile7 :: guid where
  "IID_ICoreWebView2Profile7 =
     GUID 0x7b4c7906 0xa1aa 0x4cb4 0xb7 0x23 0xdb 0x09 0xf8 0x13 0xd5 0x41"

definition IID_ICoreWebView2Profile8 :: guid where
  "IID_ICoreWebView2Profile8 =
     GUID 0xfbf70c2f 0xeb1f 0x4383 0x85 0xa0 0x16 0x3e 0x92 0x04 0x40 0x11"

definition IID_ICoreWebView2Settings2 :: guid where
  "IID_ICoreWebView2Settings2 =
     GUID 0xee9a0f68 0xf46c 0x4e32 0xac 0x23 0xef 0x8c 0xac 0x22 0x4d 0x2a"

definition IID_ICoreWebView2Settings3 :: guid where
  "IID_ICoreWebView2Settings3 =
     GUID 0xfdb5ab74 0xaf33 0x4854 0x84 0xf0 0x0a 0x63 0x1d 0xeb 0x5e 0xba"

definition IID_ICoreWebView2Settings4 :: guid where
  "IID_ICoreWebView2Settings4 =
     GUID 0xcb56846c 0x4168 0x4d53 0xb0 0x4f 0x03 0xb6 0xd6 0x79 0x6f 0xf2"

definition IID_ICoreWebView2Settings5 :: guid where
  "IID_ICoreWebView2Settings5 =
     GUID 0x183e7052 0x1d03 0x43a0 0xab 0x99 0x98 0xe0 0x43 0xb6 0x6b 0x39"

definition IID_ICoreWebView2Settings6 :: guid where
  "IID_ICoreWebView2Settings6 =
     GUID 0x11cb3acd 0x9bc8 0x43b8 0x83 0xbf 0xf4 0x07 0x53 0x71 0x4f 0x87"

definition IID_ICoreWebView2Settings7 :: guid where
  "IID_ICoreWebView2Settings7 =
     GUID 0x488dc902 0x35ef 0x42d2 0xbc 0x7d 0x94 0xb6 0x5c 0x4b 0xc4 0x9c"

definition IID_ICoreWebView2Settings8 :: guid where
  "IID_ICoreWebView2Settings8 =
     GUID 0x9e6b0e8f 0x86ad 0x4e81 0x81 0x47 0xa9 0xb5 0xed 0xb6 0x86 0x50"

definition IID_ICoreWebView2SharedBuffer :: guid where
  "IID_ICoreWebView2SharedBuffer =
     GUID 0xB747A495 0x0C6F 0x449E 0x97 0xB8 0x2F 0x81 0xE9 0xD6 0xAB 0x43"

definition IID_ICoreWebView2ProcessInfo :: guid where
  "IID_ICoreWebView2ProcessInfo =
     GUID 0x84FA7612 0x3F3D 0x4FBF 0x88 0x9D 0xFA 0xD0 0x00 0x49 0x2D 0x72"

definition IID_ICoreWebView2ProcessInfoCollection :: guid where
  "IID_ICoreWebView2ProcessInfoCollection =
     GUID 0x402B99CD 0xA0CC 0x4FA5 0xB7 0xA5 0x51 0xD8 0x6A 0x1D 0x23 0x39"

definition IID_ICoreWebView2AcceleratorKeyPressedEventArgs2 :: guid where
  "IID_ICoreWebView2AcceleratorKeyPressedEventArgs2 =
     GUID 0x03b2c8c8 0x7799 0x4e34 0xbd 0x66 0xed 0x26 0xaa 0x85 0xf2 0xbf"

definition IID_ICoreWebView2BasicAuthenticationRequestedEventArgs :: guid where
  "IID_ICoreWebView2BasicAuthenticationRequestedEventArgs =
     GUID 0xef05516f 0xd897 0x4f9e 0xb6 0x72 0xd8 0xe2 0x30 0x7a 0x3f 0xb0"

definition IID_ICoreWebView2BasicAuthenticationResponse :: guid where
  "IID_ICoreWebView2BasicAuthenticationResponse =
     GUID 0x07023f7d 0x2d77 0x4d67 0x90 0x40 0x6e 0x7d 0x42 0x8c 0x6a 0x40"

definition IID_ICoreWebView2BrowserProcessExitedEventArgs :: guid where
  "IID_ICoreWebView2BrowserProcessExitedEventArgs =
     GUID 0x1f00663f 0xaf8c 0x4782 0x9c 0xdd 0xdd 0x01 0xc5 0x2e 0x34 0xcb"

definition IID_ICoreWebView2ContentLoadingEventArgs :: guid where
  "IID_ICoreWebView2ContentLoadingEventArgs =
     GUID 0x0c8a1275 0x9b6b 0x4901 0x87 0xad 0x70 0xdf 0x25 0xba 0xfa 0x6e"

definition IID_ICoreWebView2Cookie :: guid where
  "IID_ICoreWebView2Cookie =
     GUID 0xAD26D6BE 0x1486 0x43E6 0xBF 0x87 0xA2 0x03 0x40 0x06 0xCA 0x21"

definition IID_ICoreWebView2CookieList :: guid where
  "IID_ICoreWebView2CookieList =
     GUID 0xF7F6F714 0x5D2A 0x43C6 0x95 0x03 0x34 0x6E 0xCE 0x02 0xD1 0x86"

definition IID_ICoreWebView2Certificate :: guid where
  "IID_ICoreWebView2Certificate =
     GUID 0xC5FB2FCE 0x1CAC 0x4AEE 0x9C 0x79 0x5E 0xD0 0x36 0x2E 0xAA 0xE0"

definition IID_ICoreWebView2ClientCertificate :: guid where
  "IID_ICoreWebView2ClientCertificate =
     GUID 0xe7188076 0xbcc3 0x11eb 0x85 0x29 0x02 0x42 0xac 0x13 0x00 0x03"

definition IID_ICoreWebView2StringCollection :: guid where
  "IID_ICoreWebView2StringCollection =
     GUID 0xf41f3f8a 0xbcc3 0x11eb 0x85 0x29 0x02 0x42 0xac 0x13 0x00 0x03"

definition IID_ICoreWebView2ClientCertificateCollection :: guid where
  "IID_ICoreWebView2ClientCertificateCollection =
     GUID 0xef5674d2 0xbcc3 0x11eb 0x85 0x29 0x02 0x42 0xac 0x13 0x00 0x03"

definition IID_ICoreWebView2ClientCertificateRequestedEventArgs :: guid where
  "IID_ICoreWebView2ClientCertificateRequestedEventArgs =
     GUID 0xbc59db28 0xbcc3 0x11eb 0x85 0x29 0x02 0x42 0xac 0x13 0x00 0x03"

definition IID_ICoreWebView2ContextMenuItem :: guid where
  "IID_ICoreWebView2ContextMenuItem =
     GUID 0x7aed49e3 0xa93f 0x497a 0x81 0x1c 0x74 0x9c 0x6b 0x6b 0x6c 0x65"

definition IID_ICoreWebView2ContextMenuItemCollection :: guid where
  "IID_ICoreWebView2ContextMenuItemCollection =
     GUID 0xf562a2f5 0xc415 0x45cf 0xb9 0x09 0xd4 0xb7 0xc1 0xe2 0x76 0xd3"

definition IID_ICoreWebView2ContextMenuTarget :: guid where
  "IID_ICoreWebView2ContextMenuTarget =
     GUID 0xb8611d99 0xeed6 0x4f3f 0x90 0x2c 0xa1 0x98 0x50 0x2a 0xd4 0x72"

definition IID_ICoreWebView2DOMContentLoadedEventArgs :: guid where
  "IID_ICoreWebView2DOMContentLoadedEventArgs =
     GUID 0x16B1E21A 0xC503 0x44F2 0x84 0xC9 0x70 0xAB 0xA5 0x03 0x12 0x83"

definition IID_ICoreWebView2Deferral :: guid where
  "IID_ICoreWebView2Deferral =
     GUID 0xc10e7f7b 0xb585 0x46f0 0xa6 0x23 0x8b 0xef 0xbf 0x3e 0x4e 0xe0"

definition IID_ICoreWebView2DevToolsProtocolEventReceivedEventArgs :: guid where
  "IID_ICoreWebView2DevToolsProtocolEventReceivedEventArgs =
     GUID 0x653c2959 0xbb3a 0x4377 0x86 0x32 0xb5 0x8a 0xda 0x4e 0x66 0xc4"

definition IID_ICoreWebView2DevToolsProtocolEventReceivedEventArgs2 :: guid where
  "IID_ICoreWebView2DevToolsProtocolEventReceivedEventArgs2 =
     GUID 0x2DC4959D 0x1494 0x4393 0x95 0xBA 0xBE 0xA4 0xCB 0x9E 0xBD 0x1B"

definition IID_ICoreWebView2DevToolsProtocolEventReceiver :: guid where
  "IID_ICoreWebView2DevToolsProtocolEventReceiver =
     GUID 0xb32ca51a 0x8371 0x45e9 0x93 0x17 0xaf 0x02 0x1d 0x08 0x03 0x67"

definition IID_ICoreWebView2DownloadStartingEventArgs :: guid where
  "IID_ICoreWebView2DownloadStartingEventArgs =
     GUID 0xe99bbe21 0x43e9 0x4544 0xa7 0x32 0x28 0x27 0x64 0xea 0xfa 0x60"

definition IID_ICoreWebView2FrameCreatedEventArgs :: guid where
  "IID_ICoreWebView2FrameCreatedEventArgs =
     GUID 0x4d6e7b5e 0x9baa 0x11eb 0xa8 0xb3 0x02 0x42 0xac 0x13 0x00 0x03"

definition IID_ICoreWebView2HttpHeadersCollectionIterator :: guid where
  "IID_ICoreWebView2HttpHeadersCollectionIterator =
     GUID 0x0702fc30 0xf43b 0x47bb 0xab 0x52 0xa4 0x2c 0xb5 0x52 0xad 0x9f"

definition IID_ICoreWebView2HttpRequestHeaders :: guid where
  "IID_ICoreWebView2HttpRequestHeaders =
     GUID 0xe86cac0e 0x5523 0x465c 0xb5 0x36 0x8f 0xb9 0xfc 0x8c 0x8c 0x60"

definition IID_ICoreWebView2HttpResponseHeaders :: guid where
  "IID_ICoreWebView2HttpResponseHeaders =
     GUID 0x03c5ff5a 0x9b45 0x4a88 0x88 0x1c 0x89 0xa9 0xf3 0x28 0x61 0x9c"

definition IID_ICoreWebView2LaunchingExternalUriSchemeEventArgs :: guid where
  "IID_ICoreWebView2LaunchingExternalUriSchemeEventArgs =
     GUID 0x07D1A6C3 0x7175 0x4BA1 0x93 0x06 0xE5 0x93 0xCA 0x07 0xE4 0x6C"

definition IID_ICoreWebView2MoveFocusRequestedEventArgs :: guid where
  "IID_ICoreWebView2MoveFocusRequestedEventArgs =
     GUID 0x2d6aa13b 0x3839 0x4a15 0x92 0xfc 0xd8 0x8b 0x3c 0x0d 0x9c 0x9d"

definition IID_ICoreWebView2NavigationCompletedEventArgs :: guid where
  "IID_ICoreWebView2NavigationCompletedEventArgs =
     GUID 0x30d68b7d 0x20d9 0x4752 0xa9 0xca 0xec 0x84 0x48 0xfb 0xb5 0xc1"

definition IID_ICoreWebView2NavigationCompletedEventArgs2 :: guid where
  "IID_ICoreWebView2NavigationCompletedEventArgs2 =
     GUID 0xFDF8B738 0xEE1E 0x4DB2 0xA3 0x29 0x8D 0x7D 0x7B 0x74 0xD7 0x92"

definition IID_ICoreWebView2NavigationStartingEventArgs :: guid where
  "IID_ICoreWebView2NavigationStartingEventArgs =
     GUID 0x5b495469 0xe119 0x438a 0x9b 0x18 0x76 0x04 0xf2 0x5f 0x2e 0x49"

definition IID_ICoreWebView2NavigationStartingEventArgs2 :: guid where
  "IID_ICoreWebView2NavigationStartingEventArgs2 =
     GUID 0x9086BE93 0x91AA 0x472D 0xA7 0xE0 0x57 0x9F 0x2B 0xA0 0x06 0xAD"

definition IID_ICoreWebView2NavigationStartingEventArgs3 :: guid where
  "IID_ICoreWebView2NavigationStartingEventArgs3 =
     GUID 0xDDFFE494 0x4942 0x4BD2 0xAB 0x73 0x35 0xB8 0xFF 0x40 0xE1 0x9F"

definition IID_ICoreWebView2NewWindowRequestedEventArgs2 :: guid where
  "IID_ICoreWebView2NewWindowRequestedEventArgs2 =
     GUID 0xbbc7baed 0x74c6 0x4c92 0xb6 0x3a 0x7f 0x5a 0xea 0xe0 0x3d 0xe3"

definition IID_ICoreWebView2NewWindowRequestedEventArgs3 :: guid where
  "IID_ICoreWebView2NewWindowRequestedEventArgs3 =
     GUID 0x842bed3c 0x6ad6 0x4dd9 0xb9 0x38 0x28 0xc9 0x66 0x67 0xad 0x66"

definition IID_ICoreWebView2PermissionRequestedEventArgs :: guid where
  "IID_ICoreWebView2PermissionRequestedEventArgs =
     GUID 0x973ae2ef 0xff18 0x4894 0x8f 0xb2 0x3c 0x75 0x8f 0x04 0x68 0x10"

definition IID_ICoreWebView2PermissionRequestedEventArgs2 :: guid where
  "IID_ICoreWebView2PermissionRequestedEventArgs2 =
     GUID 0x74d7127f 0x9de6 0x4200 0x87 0x34 0x42 0xd6 0xfb 0x4f 0xf7 0x41"

definition IID_ICoreWebView2PermissionRequestedEventArgs3 :: guid where
  "IID_ICoreWebView2PermissionRequestedEventArgs3 =
     GUID 0xe61670bc 0x3dce 0x4177 0x86 0xd2 0xc6 0x29 0xae 0x3c 0xb6 0xac"

definition IID_ICoreWebView2PermissionSettingCollectionView :: guid where
  "IID_ICoreWebView2PermissionSettingCollectionView =
     GUID 0xf5596f62 0x3de5 0x47b1 0x91 0xe8 0xa4 0x10 0x4b 0x59 0x6b 0x96"

definition IID_ICoreWebView2PermissionSetting :: guid where
  "IID_ICoreWebView2PermissionSetting =
     GUID 0x792b6eca 0x5576 0x421c 0x91 0x19 0x74 0xeb 0xb3 0xa4 0xff 0xb3"

definition IID_ICoreWebView2PointerInfo :: guid where
  "IID_ICoreWebView2PointerInfo =
     GUID 0xe6995887 0xd10d 0x4f5d 0x93 0x59 0x4c 0xe4 0x6e 0x4f 0x96 0xb9"

definition IID_ICoreWebView2PrintSettings :: guid where
  "IID_ICoreWebView2PrintSettings =
     GUID 0x377f3721 0xc74e 0x48ca 0x8d 0xb1 0xdf 0x68 0xe5 0x1d 0x60 0xe2"

definition IID_ICoreWebView2PrintSettings2 :: guid where
  "IID_ICoreWebView2PrintSettings2 =
     GUID 0xCA7F0E1F 0x3484 0x41D1 0x8C 0x1A 0x65 0xCD 0x44 0xA6 0x3F 0x8D"

definition IID_ICoreWebView2ProcessFailedEventArgs :: guid where
  "IID_ICoreWebView2ProcessFailedEventArgs =
     GUID 0x8155a9a4 0x1474 0x4a86 0x8c 0xae 0x15 0x1b 0x0f 0xa6 0xb8 0xca"

definition IID_ICoreWebView2ProcessFailedEventArgs2 :: guid where
  "IID_ICoreWebView2ProcessFailedEventArgs2 =
     GUID 0x4dab9422 0x46fa 0x4c3e 0xa5 0xd2 0x41 0xd2 0x07 0x1d 0x36 0x80"

definition IID_ICoreWebView2ServerCertificateErrorDetectedEventArgs :: guid where
  "IID_ICoreWebView2ServerCertificateErrorDetectedEventArgs =
     GUID 0x012193ED 0x7C13 0x48FF 0x96 0x9D 0xA8 0x4C 0x1F 0x43 0x2A 0x14"

definition IID_ICoreWebView2ScriptDialogOpeningEventArgs :: guid where
  "IID_ICoreWebView2ScriptDialogOpeningEventArgs =
     GUID 0x7390bb70 0xabe0 0x4843 0x95 0x29 0xf1 0x43 0xb3 0x1b 0x03 0xd6"

definition IID_ICoreWebView2SourceChangedEventArgs :: guid where
  "IID_ICoreWebView2SourceChangedEventArgs =
     GUID 0x31e0e545 0x1dba 0x4266 0x89 0x14 0xf6 0x38 0x48 0xa1 0xf7 0xd7"

definition IID_ICoreWebView2WebMessageReceivedEventArgs :: guid where
  "IID_ICoreWebView2WebMessageReceivedEventArgs =
     GUID 0x0f99a40c 0xe962 0x4207 0x9e 0x92 0xe3 0xd5 0x42 0xef 0xf8 0x49"

definition IID_ICoreWebView2WebResourceRequestedEventArgs2 :: guid where
  "IID_ICoreWebView2WebResourceRequestedEventArgs2 =
     GUID 0x9C562C24 0xB219 0x4D7F 0x92 0xF6 0xB1 0x87 0xFB 0xBA 0xDD 0x56"

definition IID_ICoreWebView2WebResourceResponseReceivedEventArgs :: guid where
  "IID_ICoreWebView2WebResourceResponseReceivedEventArgs =
     GUID 0xD1DB483D 0x6796 0x4B8B 0x80 0xFC 0x13 0x71 0x2B 0xB7 0x16 0xF4"

definition IID_ICoreWebView2WebResourceResponseView :: guid where
  "IID_ICoreWebView2WebResourceResponseView =
     GUID 0x79701053 0x7759 0x4162 0x8F 0x7D 0xF1 0xB3 0xF0 0x84 0x92 0x8D"

definition IID_ICoreWebView2WindowFeatures :: guid where
  "IID_ICoreWebView2WindowFeatures =
     GUID 0x5eaf559f 0xb46e 0x4397 0x88 0x60 0xe4 0x22 0xf2 0x87 0xff 0x1e"

definition IID_ICoreWebView2BrowserExtensionList :: guid where
  "IID_ICoreWebView2BrowserExtensionList =
     GUID 0x2EF3D2DC 0xBD5F 0x4F4D 0x90 0xAF 0xFD 0x67 0x79 0x8F 0x0C 0x2F"

definition IID_ICoreWebView2BrowserExtension :: guid where
  "IID_ICoreWebView2BrowserExtension =
     GUID 0x7EF7FFA0 0xFAC5 0x462C 0xB1 0x89 0x3D 0x9E 0xDB 0xE5 0x75 0xDA"

definition IID_ICoreWebView2ExecuteScriptResult :: guid where
  "IID_ICoreWebView2ExecuteScriptResult =
     GUID 0x0CE15963 0x3698 0x4DF7 0x93 0x99 0x71 0xED 0x6C 0xDD 0x8C 0x9F"

definition IID_ICoreWebView2ScriptException :: guid where
  "IID_ICoreWebView2ScriptException =
     GUID 0x054DAE00 0x84A3 0x49FF 0xBC 0x17 0x40 0x12 0xA9 0x0B 0xC9 0xFD"

definition IID_ICoreWebView2File :: guid where
  "IID_ICoreWebView2File =
     GUID 0xf2c19559 0x6bc1 0x4583 0xa7 0x57 0x90 0x02 0x1b 0xe9 0xaf 0xec"

definition IID_ICoreWebView2ObjectCollectionView :: guid where
  "IID_ICoreWebView2ObjectCollectionView =
     GUID 0x0f36fd87 0x4f69 0x4415 0x98 0xda 0x88 0x8f 0x89 0xfb 0x9a 0x33"

definition IID_ICoreWebView2WebMessageReceivedEventArgs2 :: guid where
  "IID_ICoreWebView2WebMessageReceivedEventArgs2 =
     GUID 0x06fc7ab7 0xc90c 0x4297 0x93 0x89 0x33 0xca 0x01 0xcf 0x6d 0x5e"

definition IID_ICoreWebView2AddScriptToExecuteOnDocumentCreatedCompletedHandler :: guid where
  "IID_ICoreWebView2AddScriptToExecuteOnDocumentCreatedCompletedHandler =
     GUID 0xb99369f3 0x9b11 0x47b5 0xbc 0x6f 0x8e 0x78 0x95 0xfc 0xea 0x17"

definition IID_ICoreWebView2CallDevToolsProtocolMethodCompletedHandler :: guid where
  "IID_ICoreWebView2CallDevToolsProtocolMethodCompletedHandler =
     GUID 0x5c4889f0 0x5ef6 0x4c5a 0x95 0x2c 0xd8 0xf1 0xb9 0x2d 0x05 0x74"

definition IID_ICoreWebView2CapturePreviewCompletedHandler :: guid where
  "IID_ICoreWebView2CapturePreviewCompletedHandler =
     GUID 0x697e05e9 0x3d8f 0x45fa 0x96 0xf4 0x8f 0xfe 0x1e 0xde 0xda 0xf5"

definition IID_ICoreWebView2BasicAuthenticationRequestedEventHandler :: guid where
  "IID_ICoreWebView2BasicAuthenticationRequestedEventHandler =
     GUID 0x58b4d6c2 0x18d4 0x497e 0xb3 0x9b 0x9a 0x96 0x53 0x3f 0xa2 0x78"

definition IID_ICoreWebView2BrowserProcessExitedEventHandler :: guid where
  "IID_ICoreWebView2BrowserProcessExitedEventHandler =
     GUID 0xfa504257 0xa216 0x4911 0xa8 0x60 0xfe 0x88 0x25 0x71 0x28 0x61"

definition IID_ICoreWebView2BytesReceivedChangedEventHandler :: guid where
  "IID_ICoreWebView2BytesReceivedChangedEventHandler =
     GUID 0x828e8ab6 0xd94c 0x4264 0x9c 0xef 0x52 0x17 0x17 0x0d 0x62 0x51"

definition IID_ICoreWebView2ContentLoadingEventHandler :: guid where
  "IID_ICoreWebView2ContentLoadingEventHandler =
     GUID 0x364471e7 0xf2be 0x4910 0xbd 0xba 0xd7 0x20 0x77 0xd5 0x1c 0x4b"

definition IID_ICoreWebView2ClearBrowsingDataCompletedHandler :: guid where
  "IID_ICoreWebView2ClearBrowsingDataCompletedHandler =
     GUID 0xe9710a06 0x1d1d 0x49b2 0x82 0x34 0x22 0x6f 0x35 0x84 0x6a 0xe5"

definition IID_ICoreWebView2ClientCertificateRequestedEventHandler :: guid where
  "IID_ICoreWebView2ClientCertificateRequestedEventHandler =
     GUID 0xd7175ba2 0xbcc3 0x11eb 0x85 0x29 0x02 0x42 0xac 0x13 0x00 0x03"

definition IID_ICoreWebView2ClearServerCertificateErrorActionsCompletedHandler :: guid where
  "IID_ICoreWebView2ClearServerCertificateErrorActionsCompletedHandler =
     GUID 0x3B40AAC6 0xACFE 0x4FFD 0x82 0x11 0xF6 0x07 0xB9 0x6E 0x2D 0x5B"

definition IID_ICoreWebView2CreateCoreWebView2CompositionControllerCompletedHandler :: guid where
  "IID_ICoreWebView2CreateCoreWebView2CompositionControllerCompletedHandler =
     GUID 0x02fab84b 0x1428 0x4fb7 0xad 0x45 0x1b 0x2e 0x64 0x73 0x61 0x84"

definition IID_ICoreWebView2ContainsFullScreenElementChangedEventHandler :: guid where
  "IID_ICoreWebView2ContainsFullScreenElementChangedEventHandler =
     GUID 0xe45d98b1 0xafef 0x45be 0x8b 0xaf 0x6c 0x77 0x28 0x86 0x7f 0x73"

definition IID_ICoreWebView2CursorChangedEventHandler :: guid where
  "IID_ICoreWebView2CursorChangedEventHandler =
     GUID 0x9da43ccc 0x26e1 0x4dad 0xb5 0x6c 0xd8 0x96 0x1c 0x94 0xc5 0x71"

definition IID_ICoreWebView2CustomItemSelectedEventHandler :: guid where
  "IID_ICoreWebView2CustomItemSelectedEventHandler =
     GUID 0x49e1d0bc 0xfe9e 0x4481 0xb7 0xc2 0x32 0x32 0x4a 0xa2 0x19 0x98"

definition IID_ICoreWebView2DocumentTitleChangedEventHandler :: guid where
  "IID_ICoreWebView2DocumentTitleChangedEventHandler =
     GUID 0xf5f2b923 0x953e 0x4042 0x9f 0x95 0xf3 0xa1 0x18 0xe1 0xaf 0xd4"

definition IID_ICoreWebView2DevToolsProtocolEventReceivedEventHandler :: guid where
  "IID_ICoreWebView2DevToolsProtocolEventReceivedEventHandler =
     GUID 0xe2fda4be 0x5456 0x406c 0xa2 0x61 0x3d 0x45 0x21 0x38 0x36 0x2c"

definition IID_ICoreWebView2DownloadStartingEventHandler :: guid where
  "IID_ICoreWebView2DownloadStartingEventHandler =
     GUID 0xefedc989 0xc396 0x41ca 0x83 0xf7 0x07 0xf8 0x45 0xa5 0x57 0x24"

definition IID_ICoreWebView2EstimatedEndTimeChangedEventHandler :: guid where
  "IID_ICoreWebView2EstimatedEndTimeChangedEventHandler =
     GUID 0x28f0d425 0x93fe 0x4e63 0x9f 0x8d 0x2a 0xee 0xc6 0xd3 0xba 0x1e"

definition IID_ICoreWebView2ExecuteScriptCompletedHandler :: guid where
  "IID_ICoreWebView2ExecuteScriptCompletedHandler =
     GUID 0x49511172 0xcc67 0x4bca 0x99 0x23 0x13 0x71 0x12 0xf4 0xc4 0xcc"

definition IID_ICoreWebView2GetProcessExtendedInfosCompletedHandler :: guid where
  "IID_ICoreWebView2GetProcessExtendedInfosCompletedHandler =
     GUID 0xf45e55aa 0x3bc2 0x11ee 0xbe 0x56 0x02 0x42 0xac 0x12 0x00 0x02"

definition IID_ICoreWebView2FrameContentLoadingEventHandler :: guid where
  "IID_ICoreWebView2FrameContentLoadingEventHandler =
     GUID 0x0d6156f2 0xd332 0x49a7 0x9e 0x03 0x7d 0x8f 0x2f 0xee 0xee 0x54"

definition IID_ICoreWebView2FrameCreatedEventHandler :: guid where
  "IID_ICoreWebView2FrameCreatedEventHandler =
     GUID 0x38059770 0x9baa 0x11eb 0xa8 0xb3 0x02 0x42 0xac 0x13 0x00 0x03"

definition IID_ICoreWebView2FrameDestroyedEventHandler :: guid where
  "IID_ICoreWebView2FrameDestroyedEventHandler =
     GUID 0x59dd7b4c 0x9baa 0x11eb 0xa8 0xb3 0x02 0x42 0xac 0x13 0x00 0x03"

definition IID_ICoreWebView2FrameDOMContentLoadedEventHandler :: guid where
  "IID_ICoreWebView2FrameDOMContentLoadedEventHandler =
     GUID 0x38d9520d 0x340f 0x4d1e 0xa7 0x75 0x43 0xfc 0xe9 0x75 0x36 0x83"

definition IID_ICoreWebView2FrameNameChangedEventHandler :: guid where
  "IID_ICoreWebView2FrameNameChangedEventHandler =
     GUID 0x435c7dc8 0x9baa 0x11eb 0xa8 0xb3 0x02 0x42 0xac 0x13 0x00 0x03"

definition IID_ICoreWebView2FrameNavigationCompletedEventHandler :: guid where
  "IID_ICoreWebView2FrameNavigationCompletedEventHandler =
     GUID 0x609302ad 0x0e36 0x4f9a 0xa2 0x10 0x6a 0x45 0x27 0x28 0x42 0xa9"

definition IID_ICoreWebView2FrameNavigationStartingEventHandler :: guid where
  "IID_ICoreWebView2FrameNavigationStartingEventHandler =
     GUID 0xe79908bf 0x2d5d 0x4968 0x83 0xdb 0x26 0x3f 0xea 0x2c 0x1d 0xa3"

definition IID_ICoreWebView2FramePermissionRequestedEventHandler :: guid where
  "IID_ICoreWebView2FramePermissionRequestedEventHandler =
     GUID 0x845d0edd 0x8bd8 0x429b 0x99 0x15 0x48 0x21 0x78 0x9f 0x23 0xe9"

definition IID_ICoreWebView2FrameWebMessageReceivedEventHandler :: guid where
  "IID_ICoreWebView2FrameWebMessageReceivedEventHandler =
     GUID 0xe371e005 0x6d1d 0x4517 0x93 0x4b 0xa8 0xf1 0x62 0x9c 0x62 0xa5"

definition IID_ICoreWebView2FocusChangedEventHandler :: guid where
  "IID_ICoreWebView2FocusChangedEventHandler =
     GUID 0x05ea24bd 0x6452 0x4926 0x90 0x14 0x4b 0x82 0xb4 0x98 0x13 0x5d"

definition IID_ICoreWebView2GetCookiesCompletedHandler :: guid where
  "IID_ICoreWebView2GetCookiesCompletedHandler =
     GUID 0x5A4F5069 0x5C15 0x47C3 0x86 0x46 0xF4 0xDE 0x1C 0x11 0x66 0x70"

definition IID_ICoreWebView2GetNonDefaultPermissionSettingsCompletedHandler :: guid where
  "IID_ICoreWebView2GetNonDefaultPermissionSettingsCompletedHandler =
     GUID 0x38274481 0xa15c 0x4563 0x94 0xcf 0x99 0x0e 0xdc 0x9a 0xeb 0x95"

definition IID_ICoreWebView2HistoryChangedEventHandler :: guid where
  "IID_ICoreWebView2HistoryChangedEventHandler =
     GUID 0xc79a420c 0xefd9 0x4058 0x92 0x95 0x3e 0x8b 0x4b 0xca 0xb6 0x45"

definition IID_ICoreWebView2IsDefaultDownloadDialogOpenChangedEventHandler :: guid where
  "IID_ICoreWebView2IsDefaultDownloadDialogOpenChangedEventHandler =
     GUID 0x3117da26 0xae13 0x438d 0xbd 0x46 0xed 0xbe 0xb2 0xc4 0xce 0x81"

definition IID_ICoreWebView2LaunchingExternalUriSchemeEventHandler :: guid where
  "IID_ICoreWebView2LaunchingExternalUriSchemeEventHandler =
     GUID 0x74F712E0 0x8165 0x43A9 0xA1 0x3F 0x0C 0xCE 0x59 0x7E 0x75 0xDF"

definition IID_ICoreWebView2MoveFocusRequestedEventHandler :: guid where
  "IID_ICoreWebView2MoveFocusRequestedEventHandler =
     GUID 0x69035451 0x6dc7 0x4cb8 0x9b 0xce 0xb2 0xbd 0x70 0xad 0x28 0x9f"

definition IID_ICoreWebView2NavigationStartingEventHandler :: guid where
  "IID_ICoreWebView2NavigationStartingEventHandler =
     GUID 0x9adbe429 0xf36d 0x432b 0x9d 0xdc 0xf8 0x88 0x1f 0xbd 0x76 0xe3"

definition IID_ICoreWebView2NewBrowserVersionAvailableEventHandler :: guid where
  "IID_ICoreWebView2NewBrowserVersionAvailableEventHandler =
     GUID 0xf9a2976e 0xd34e 0x44fc 0xad 0xee 0x81 0xb6 0xb5 0x7c 0xa9 0x14"

definition IID_ICoreWebView2PermissionRequestedEventHandler :: guid where
  "IID_ICoreWebView2PermissionRequestedEventHandler =
     GUID 0x15e1c6a3 0xc72a 0x4df3 0x91 0xd7 0xd0 0x97 0xfb 0xec 0x6b 0xfd"

definition IID_ICoreWebView2PrintToPdfCompletedHandler :: guid where
  "IID_ICoreWebView2PrintToPdfCompletedHandler =
     GUID 0xccf1ef04 0xfd8e 0x4d5f 0xb2 0xde 0x09 0x83 0xe4 0x1b 0x8c 0x36"

definition IID_ICoreWebView2PrintCompletedHandler :: guid where
  "IID_ICoreWebView2PrintCompletedHandler =
     GUID 0x8FD80075 0xED08 0x42DB 0x85 0x70 0xF5 0xD1 0x49 0x77 0x46 0x1E"

definition IID_ICoreWebView2PrintToPdfStreamCompletedHandler :: guid where
  "IID_ICoreWebView2PrintToPdfStreamCompletedHandler =
     GUID 0x4C9F8229 0x8F93 0x444F 0xA7 0x11 0x2C 0x0D 0xFD 0x63 0x59 0xD5"

definition IID_ICoreWebView2ProcessFailedEventHandler :: guid where
  "IID_ICoreWebView2ProcessFailedEventHandler =
     GUID 0x79e0aea4 0x990b 0x42d9 0xaa 0x1d 0x0f 0xcc 0x2e 0x5b 0xc7 0xf1"

definition IID_ICoreWebView2ProfileDeletedEventHandler :: guid where
  "IID_ICoreWebView2ProfileDeletedEventHandler =
     GUID 0xDF35055D 0x772E 0x4DBE 0xB7 0x43 0x5F 0xBF 0x74 0xA2 0xB2 0x58"

definition IID_ICoreWebView2RasterizationScaleChangedEventHandler :: guid where
  "IID_ICoreWebView2RasterizationScaleChangedEventHandler =
     GUID 0x9c98c8b1 0xac53 0x427e 0xa3 0x45 0x30 0x49 0xb5 0x52 0x4b 0xbe"

definition IID_ICoreWebView2ServerCertificateErrorDetectedEventHandler :: guid where
  "IID_ICoreWebView2ServerCertificateErrorDetectedEventHandler =
     GUID 0x969B3A26 0xD85E 0x4795 0x81 0x99 0xFE 0xF5 0x73 0x44 0xDA 0x22"

definition IID_ICoreWebView2SetPermissionStateCompletedHandler :: guid where
  "IID_ICoreWebView2SetPermissionStateCompletedHandler =
     GUID 0xfc77fb30 0x9c9e 0x4076 0xb8 0xc7 0x76 0x44 0xa7 0x03 0xca 0x1b"

definition IID_ICoreWebView2ScriptDialogOpeningEventHandler :: guid where
  "IID_ICoreWebView2ScriptDialogOpeningEventHandler =
     GUID 0xef381bf9 0xafa8 0x4e37 0x91 0xc4 0x8a 0xc4 0x85 0x24 0xbd 0xfb"

definition IID_ICoreWebView2SourceChangedEventHandler :: guid where
  "IID_ICoreWebView2SourceChangedEventHandler =
     GUID 0x3c067f9f 0x5388 0x4772 0x8b 0x48 0x79 0xf7 0xef 0x1a 0xb3 0x7c"

definition IID_ICoreWebView2StateChangedEventHandler :: guid where
  "IID_ICoreWebView2StateChangedEventHandler =
     GUID 0x81336594 0x7ede 0x4ba9 0xbf 0x71 0xac 0xf0 0xa9 0x5b 0x58 0xdd"

definition IID_ICoreWebView2StatusBarTextChangedEventHandler :: guid where
  "IID_ICoreWebView2StatusBarTextChangedEventHandler =
     GUID 0xA5E3B0D0 0x10DF 0x4156 0xBF 0xAD 0x3B 0x43 0x86 0x7A 0xCA 0xC6"

definition IID_ICoreWebView2TrySuspendCompletedHandler :: guid where
  "IID_ICoreWebView2TrySuspendCompletedHandler =
     GUID 0x00F206A7 0x9D17 0x4605 0x91 0xF6 0x4E 0x8E 0x4D 0xE1 0x92 0xE3"

definition IID_ICoreWebView2WebMessageReceivedEventHandler :: guid where
  "IID_ICoreWebView2WebMessageReceivedEventHandler =
     GUID 0x57213f19 0x00e6 0x49fa 0x8e 0x07 0x89 0x8e 0xa0 0x1e 0xcb 0xd2"

definition IID_ICoreWebView2WebResourceResponseReceivedEventHandler :: guid where
  "IID_ICoreWebView2WebResourceResponseReceivedEventHandler =
     GUID 0x7DE9898A 0x24F5 0x40C3 0xA2 0xDE 0xD4 0xF4 0x58 0xE6 0x98 0x28"

definition IID_ICoreWebView2WebResourceResponseViewGetContentCompletedHandler :: guid where
  "IID_ICoreWebView2WebResourceResponseViewGetContentCompletedHandler =
     GUID 0x875738E1 0x9FA2 0x40E3 0x8B 0x74 0x2E 0x89 0x72 0xDD 0x6F 0xE7"

definition IID_ICoreWebView2WindowCloseRequestedEventHandler :: guid where
  "IID_ICoreWebView2WindowCloseRequestedEventHandler =
     GUID 0x5c19e9e0 0x092f 0x486b 0xaf 0xfa 0xca 0x82 0x31 0x91 0x30 0x39"

definition IID_ICoreWebView2ZoomFactorChangedEventHandler :: guid where
  "IID_ICoreWebView2ZoomFactorChangedEventHandler =
     GUID 0xb52d71d6 0xc4df 0x4543 0xa9 0x0c 0x64 0xa3 0xe6 0x0f 0x38 0xcb"

definition IID_ICoreWebView2IsMutedChangedEventHandler :: guid where
  "IID_ICoreWebView2IsMutedChangedEventHandler =
     GUID 0x57D90347 0xCD0E 0x4952 0xA4 0xA2 0x74 0x83 0xA2 0x75 0x6F 0x08"

definition IID_ICoreWebView2IsDocumentPlayingAudioChangedEventHandler :: guid where
  "IID_ICoreWebView2IsDocumentPlayingAudioChangedEventHandler =
     GUID 0x5DEF109A 0x2F4B 0x49FA 0xB7 0xF6 0x11 0xC3 0x9E 0x51 0x33 0x28"

definition IID_ICoreWebView2ProcessInfosChangedEventHandler :: guid where
  "IID_ICoreWebView2ProcessInfosChangedEventHandler =
     GUID 0xF4AF0C39 0x44B9 0x40E9 0x8B 0x11 0x04 0x84 0xCF 0xB9 0xE0 0xA1"

definition IID_ICoreWebView2FaviconChangedEventHandler :: guid where
  "IID_ICoreWebView2FaviconChangedEventHandler =
     GUID 0x2913DA94 0x833D 0x4DE0 0x8D 0xCA 0x90 0x0F 0xC5 0x24 0xA1 0xA4"

definition IID_ICoreWebView2GetFaviconCompletedHandler :: guid where
  "IID_ICoreWebView2GetFaviconCompletedHandler =
     GUID 0xA2508329 0x7DA8 0x49D7 0x8C 0x05 0xFA 0x12 0x5E 0x4A 0xEE 0x8D"

definition IID_ICoreWebView2ProfileAddBrowserExtensionCompletedHandler :: guid where
  "IID_ICoreWebView2ProfileAddBrowserExtensionCompletedHandler =
     GUID 0xDF1AAB27 0x82B9 0x4AB6 0xAA 0xE8 0x01 0x7A 0x49 0x39 0x8C 0x14"

definition IID_ICoreWebView2ProfileGetBrowserExtensionsCompletedHandler :: guid where
  "IID_ICoreWebView2ProfileGetBrowserExtensionsCompletedHandler =
     GUID 0xFCE16A1C 0xF107 0x4601 0x8B 0x75 0xFC 0x49 0x40 0xAE 0x25 0xD0"

definition IID_ICoreWebView2BrowserExtensionEnableCompletedHandler :: guid where
  "IID_ICoreWebView2BrowserExtensionEnableCompletedHandler =
     GUID 0x30C186CE 0x7FAD 0x421F 0xA3 0xBC 0xA8 0xEA 0xF0 0x71 0xDD 0xB8"

definition IID_ICoreWebView2BrowserExtensionRemoveCompletedHandler :: guid where
  "IID_ICoreWebView2BrowserExtensionRemoveCompletedHandler =
     GUID 0x8E41909A 0x9B18 0x4BB1 0x8C 0xDF 0x93 0x0F 0x46 0x7A 0x50 0xBE"

definition IID_ICoreWebView2ExecuteScriptWithResultCompletedHandler :: guid where
  "IID_ICoreWebView2ExecuteScriptWithResultCompletedHandler =
     GUID 0x1BB5317B 0x8238 0x4C67 0xA7 0xFF 0xBA 0xF6 0x55 0x8F 0x28 0x9D"

section \<open>The identifiers of the interfaces\<close>

definition browser_ids :: "(iface \<times> guid \<times> string) list" where
  "browser_ids =
     [(ICoreWebView2, IID_ICoreWebView2, ''76eceacb-0462-4d94-ac83-423a6793775e''),
      (ICoreWebView2_2, IID_ICoreWebView2_2, ''9E8F0CF8-E670-4B5E-B2BC-73E061E3184C''),
      (ICoreWebView2_3, IID_ICoreWebView2_3, ''A0D6DF20-3B92-416D-AA0C-437A9C727857''),
      (ICoreWebView2_4, IID_ICoreWebView2_4, ''20d02d59-6df2-42dc-bd06-f98a694b1302''),
      (ICoreWebView2_5, IID_ICoreWebView2_5, ''bedb11b8-d63c-11eb-b8bc-0242ac130003''),
      (ICoreWebView2_6, IID_ICoreWebView2_6, ''499aadac-d92c-4589-8a75-111bfc167795''),
      (ICoreWebView2_7, IID_ICoreWebView2_7, ''79c24d83-09a3-45ae-9418-487f32a58740''),
      (ICoreWebView2_8, IID_ICoreWebView2_8, ''E9632730-6E1E-43AB-B7B8-7B2C9E62E094''),
      (ICoreWebView2_9, IID_ICoreWebView2_9, ''4d7b2eab-9fdc-468d-b998-a9260b5ed651''),
      (ICoreWebView2_10, IID_ICoreWebView2_10, ''b1690564-6f5a-4983-8e48-31d1143fecdb''),
      (ICoreWebView2_11, IID_ICoreWebView2_11, ''0be78e56-c193-4051-b943-23b460c08bdb''),
      (ICoreWebView2_12, IID_ICoreWebView2_12, ''35D69927-BCFA-4566-9349-6B3E0D154CAC''),
      (ICoreWebView2_13, IID_ICoreWebView2_13, ''F75F09A8-667E-4983-88D6-C8773F315E84''),
      (ICoreWebView2_14, IID_ICoreWebView2_14, ''6DAA4F10-4A90-4753-8898-77C5DF534165''),
      (ICoreWebView2_15, IID_ICoreWebView2_15, ''517B2D1D-7DAE-4A66-A4F4-10352FFB9518''),
      (ICoreWebView2_16, IID_ICoreWebView2_16, ''0EB34DC9-9F91-41E1-8639-95CD5943906B''),
      (ICoreWebView2_17, IID_ICoreWebView2_17, ''702E75D4-FD44-434D-9D70-1A68A6B1192A''),
      (ICoreWebView2_18, IID_ICoreWebView2_18, ''7A626017-28BE-49B2-B865-3BA2B3522D90''),
      (ICoreWebView2_19, IID_ICoreWebView2_19, ''6921F954-79B0-437F-A997-C85811897C68''),
      (ICoreWebView2_20, IID_ICoreWebView2_20, ''b4bc1926-7305-11ee-b962-0242ac120002''),
      (ICoreWebView2_21, IID_ICoreWebView2_21, ''c4980dea-587b-43b9-8143-3ef3bf552d95''),
      (ICoreWebView2_22, IID_ICoreWebView2_22, ''DB75DFC7-A857-4632-A398-6969DDE26C0A'')]"

definition services_ids :: "(iface \<times> guid \<times> string) list" where
  "services_ids =
     [(ICoreWebView2CompositionController, IID_ICoreWebView2CompositionController, ''3df9b733-b9ae-4a15-86b4-eb9ee9826469''),
      (ICoreWebView2CompositionController2, IID_ICoreWebView2CompositionController2, ''0b6a3d24-49cb-4806-ba20-b5e0734a7b26''),
      (ICoreWebView2CompositionController3, IID_ICoreWebView2CompositionController3, ''9570570e-4d76-4361-9ee1-f04d0dbdfb1e''),
      (ICoreWebView2Controller, IID_ICoreWebView2Controller, ''4d00c0d1-9434-4eb6-8078-8697a560334f''),
      (ICoreWebView2Controller2, IID_ICoreWebView2Controller2, ''c979903e-d4ca-4228-92eb-47ee3fa96eab''),
      (ICoreWebView2Controller3, IID_ICoreWebView2Controller3, ''f9614724-5d2b-41dc-aef7-73d62b51543b''),
      (ICoreWebView2Controller4, IID_ICoreWebView2Controller4, ''97d418d5-a426-4e49-a151-e1a10f327d9e''),
      (ICoreWebView2ControllerOptions, IID_ICoreWebView2ControllerOptions, ''12aae616-8ccb-44ec-bcb3-eb1831881635''),
      (ICoreWebView2ControllerOptions2, IID_ICoreWebView2ControllerOptions2, ''06c991d8-9e7e-11ed-a8fc-0242ac120002''),
      (ICoreWebView2CookieManager, IID_ICoreWebView2CookieManager, ''177CD9E7-B6F5-451A-94A0-5D7A3A4C4141''),
      (ICoreWebView2DownloadOperation, IID_ICoreWebView2DownloadOperation, ''3d6b6cf2-afe1-44c7-a995-c65117714336''),
      (ICoreWebView2Environment, IID_ICoreWebView2Environment, ''b96d755e-0319-4e92-a296-23436f46a1fc''),
      (ICoreWebView2Environment2, IID_ICoreWebView2Environment2, ''41F3632B-5EF4-404F-AD82-2D606C5A9A21''),
      (ICoreWebView2Environment3, IID_ICoreWebView2Environment3, ''80a22ae3-be7c-4ce2-afe1-5a50056cdeeb''),
      (ICoreWebView2Environment4, IID_ICoreWebView2Environment4, ''20944379-6dcf-41d6-a0a0-abc0fc50de0d''),
      (ICoreWebView2Environment5, IID_ICoreWebView2Environment5, ''319e423d-e0d7-4b8d-9254-ae9475de9b17''),
      (ICoreWebView2Environment6, IID_ICoreWebView2Environment6, ''e59ee362-acbd-4857-9a8e-d3644d9459a9''),
      (ICoreWebView2Environment7, IID_ICoreWebView2Environment7, ''43C22296-3BBD-43A4-9C00-5C0DF6DD29A2''),
      (ICoreWebView2Environment8, IID_ICoreWebView2Environment8, ''D6EB91DD-C3D2-45E5-BD29-6DC2BC4DE9CF''),
      (ICoreWebView2Environment9, IID_ICoreWebView2Environment9, ''f06f41bf-4b5a-49d8-b9f6-fa16cd29f274''),
      (ICoreWebView2Environment10, IID_ICoreWebView2Environment10, ''ee0eb9df-6f12-46ce-b53f-3f47b9c928e0''),
      (ICoreWebView2Environment11, IID_ICoreWebView2Environment11, ''F0913DC6-A0EC-42EF-9805-91DFF3A2966A''),
      (ICoreWebView2Environment12, IID_ICoreWebView2Environment12, ''F503DB9B-739F-48DD-B151-FDFCF253F54E''),
      (ICoreWebView2Environment13, IID_ICoreWebView2Environment13, ''af641f58-72b2-11ee-b962-0242ac120002''),
      (ICoreWebView2EnvironmentOptions, IID_ICoreWebView2EnvironmentOptions, ''2fde08a8-1e9a-4766-8c05-95a9ceb9d1c5''),
      (ICoreWebView2EnvironmentOptions2, IID_ICoreWebView2EnvironmentOptions2, ''FF85C98A-1BA7-4A6B-90C8-2B752C89E9E2''),
      (ICoreWebView2EnvironmentOptions3, IID_ICoreWebView2EnvironmentOptions3, ''4A5C436E-A9E3-4A2E-89C3-910D3513F5CC''),
      (ICoreWebView2EnvironmentOptions4, IID_ICoreWebView2EnvironmentOptions4, ''ac52d13f-0d38-475a-9dca-876580d6793e''),
      (ICoreWebView2EnvironmentOptions5, IID_ICoreWebView2EnvironmentOptions5, ''0AE35D64-C47F-4464-814E-259C345D1501''),
      (ICoreWebView2EnvironmentOptions6, IID_ICoreWebView2EnvironmentOptions6, ''57D29CC3-C84F-42A0-B0E2-EFFBD5E179DE''),
      (ICoreWebView2ProcessExtendedInfo, IID_ICoreWebView2ProcessExtendedInfo, ''af4c4c2e-45db-11ee-be56-0242ac120002''),
      (ICoreWebView2ProcessExtendedInfoCollection, IID_ICoreWebView2ProcessExtendedInfoCollection, ''32efa696-407a-11ee-be56-0242ac120002''),
      (ICoreWebView2Frame, IID_ICoreWebView2Frame, ''f1131a5e-9ba9-11eb-a8b3-0242ac130003''),
      (ICoreWebView2Frame2, IID_ICoreWebView2Frame2, ''7a6a5834-d185-4dbf-b63f-4a9bc43107d4''),
      (ICoreWebView2Frame3, IID_ICoreWebView2Frame3, ''b50d82cc-cc28-481d-9614-cb048895e6a0''),
      (ICoreWebView2Frame4, IID_ICoreWebView2Frame4, ''188782DC-92AA-4732-AB3C-FCC59F6F68B9''),
      (ICoreWebView2Frame5, IID_ICoreWebView2Frame5, ''99d199c4-7305-11ee-b962-0242ac120002''),
      (ICoreWebView2FrameInfo, IID_ICoreWebView2FrameInfo, ''da86b8a1-bdf3-4f11-9955-528cefa59727''),
      (ICoreWebView2FrameInfo2, IID_ICoreWebView2FrameInfo2, ''56f85cfa-72c4-11ee-b962-0242ac120002''),
      (ICoreWebView2FrameInfoCollection, IID_ICoreWebView2FrameInfoCollection, ''8f834154-d38e-4d90-affb-6800a7272839''),
      (ICoreWebView2FrameInfoCollectionIterator, IID_ICoreWebView2FrameInfoCollectionIterator, ''1bf89e2d-1b2b-4629-b28f-05099b41bb03''),
      (ICoreWebView2Profile, IID_ICoreWebView2Profile, ''79110ad3-cd5d-4373-8bc3-c60658f17a5f''),
      (ICoreWebView2Profile2, IID_ICoreWebView2Profile2, ''fa740d4b-5eae-4344-a8ad-74be31925397''),
      (ICoreWebView2Profile3, IID_ICoreWebView2Profile3, ''B188E659-5685-4E05-BDBA-FC640E0F1992''),
      (ICoreWebView2Profile4, IID_ICoreWebView2Profile4, ''8F4ae680-192e-4eC8-833a-21cfadaef628''),
      (ICoreWebView2Profile5, IID_ICoreWebView2Profile5, ''2EE5B76E-6E80-4DF2-BCD3-D4EC3340A01B''),
      (ICoreWebView2Profile6, IID_ICoreWebView2Profile6, ''BD82FA6A-1D65-4C33-B2B4-0393020CC61B''),
      (ICoreWebView2Profile7, IID_ICoreWebView2Profile7, ''7b4c7906-a1aa-4cb4-b723-db09f813d541''),
      (ICoreWebView2Profile8, IID_ICoreWebView2Profile8, ''fbf70c2f-eb1f-4383-85a0-163e92044011''),
      (ICoreWebView2Settings, IID_ICoreWebView2Settings, ''e562e4f0-d7fa-43ac-8d71-c05150499f00''),
      (ICoreWebView2Settings2, IID_ICoreWebView2Settings2, ''ee9a0f68-f46c-4e32-ac23-ef8cac224d2a''),
      (ICoreWebView2Settings3, IID_ICoreWebView2Settings3, ''fdb5ab74-af33-4854-84f0-0a631deb5eba''),
      (ICoreWebView2Settings4, IID_ICoreWebView2Settings4, ''cb56846c-4168-4d53-b04f-03b6d6796ff2''),
      (ICoreWebView2Settings5, IID_ICoreWebView2Settings5, ''183e7052-1d03-43a0-ab99-98e043b66b39''),
      (ICoreWebView2Settings6, IID_ICoreWebView2Settings6, ''11cb3acd-9bc8-43b8-83bf-f40753714f87''),
      (ICoreWebView2Settings7, IID_ICoreWebView2Settings7, ''488dc902-35ef-42d2-bc7d-94b65c4bc49c''),
      (ICoreWebView2Settings8, IID_ICoreWebView2Settings8, ''9e6b0e8f-86ad-4e81-8147-a9b5edb68650''),
      (ICoreWebView2SharedBuffer, IID_ICoreWebView2SharedBuffer, ''B747A495-0C6F-449E-97B8-2F81E9D6AB43''),
      (ICoreWebView2ProcessInfo, IID_ICoreWebView2ProcessInfo, ''84FA7612-3F3D-4FBF-889D-FAD000492D72''),
      (ICoreWebView2ProcessInfoCollection, IID_ICoreWebView2ProcessInfoCollection, ''402B99CD-A0CC-4FA5-B7A5-51D86A1D2339'')]"

definition objects_ids :: "(iface \<times> guid \<times> string) list" where
  "objects_ids =
     [(ICoreWebView2AcceleratorKeyPressedEventArgs, IID_ICoreWebView2AcceleratorKeyPressedEventArgs, ''9f760f8a-fb79-42be-9990-7b56900fa9c7''),
      (ICoreWebView2AcceleratorKeyPressedEventArgs2, IID_ICoreWebView2AcceleratorKeyPressedEventArgs2, ''03b2c8c8-7799-4e34-bd66-ed26aa85f2bf''),
      (ICoreWebView2BasicAuthenticationRequestedEventArgs, IID_ICoreWebView2BasicAuthenticationRequestedEventArgs, ''ef05516f-d897-4f9e-b672-d8e2307a3fb0''),
      (ICoreWebView2BasicAuthenticationResponse, IID_ICoreWebView2BasicAuthenticationResponse, ''07023f7d-2d77-4d67-9040-6e7d428c6a40''),
      (ICoreWebView2BrowserProcessExitedEventArgs, IID_ICoreWebView2BrowserProcessExitedEventArgs, ''1f00663f-af8c-4782-9cdd-dd01c52e34cb''),
      (ICoreWebView2ContentLoadingEventArgs, IID_ICoreWebView2ContentLoadingEventArgs, ''0c8a1275-9b6b-4901-87ad-70df25bafa6e''),
      (ICoreWebView2ContextMenuRequestedEventArgs, IID_ICoreWebView2ContextMenuRequestedEventArgs, ''a1d309ee-c03f-11eb-8529-0242ac130003''),
      (ICoreWebView2Cookie, IID_ICoreWebView2Cookie, ''AD26D6BE-1486-43E6-BF87-A2034006CA21''),
      (ICoreWebView2CookieList, IID_ICoreWebView2CookieList, ''F7F6F714-5D2A-43C6-9503-346ECE02D186''),
      (ICoreWebView2Certificate, IID_ICoreWebView2Certificate, ''C5FB2FCE-1CAC-4AEE-9C79-5ED0362EAAE0''),
      (ICoreWebView2ClientCertificate, IID_ICoreWebView2ClientCertificate, ''e7188076-bcc3-11eb-8529-0242ac130003''),
      (ICoreWebView2StringCollection, IID_ICoreWebView2StringCollection, ''f41f3f8a-bcc3-11eb-8529-0242ac130003''),
      (ICoreWebView2ClientCertificateCollection, IID_ICoreWebView2ClientCertificateCollection, ''ef5674d2-bcc3-11eb-8529-0242ac130003''),
      (ICoreWebView2ClientCertificateRequestedEventArgs, IID_ICoreWebView2ClientCertificateRequestedEventArgs, ''bc59db28-bcc3-11eb-8529-0242ac130003''),
      (ICoreWebView2ContextMenuItem, IID_ICoreWebView2ContextMenuItem, ''7aed49e3-a93f-497a-811c-749c6b6b6c65''),
      (ICoreWebView2ContextMenuItemCollection, IID_ICoreWebView2ContextMenuItemCollection, ''f562a2f5-c415-45cf-b909-d4b7c1e276d3''),
      (ICoreWebView2ContextMenuTarget, IID_ICoreWebView2ContextMenuTarget, ''b8611d99-eed6-4f3f-902c-a198502ad472''),
      (ICoreWebView2CustomSchemeRegistration, IID_ICoreWebView2CustomSchemeRegistration, ''d60ac92c-37a6-4b26-a39e-95cfe59047bb''),
      (ICoreWebView2DOMContentLoadedEventArgs, IID_ICoreWebView2DOMContentLoadedEventArgs, ''16B1E21A-C503-44F2-84C9-70ABA5031283''),
      (ICoreWebView2Deferral, IID_ICoreWebView2Deferral, ''c10e7f7b-b585-46f0-a623-8befbf3e4ee0''),
      (ICoreWebView2DevToolsProtocolEventReceivedEventArgs, IID_ICoreWebView2DevToolsProtocolEventReceivedEventArgs, ''653c2959-bb3a-4377-8632-b58ada4e66c4''),
      (ICoreWebView2DevToolsProtocolEventReceivedEventArgs2, IID_ICoreWebView2DevToolsProtocolEventReceivedEventArgs2, ''2DC4959D-1494-4393-95BA-BEA4CB9EBD1B''),
      (ICoreWebView2DevToolsProtocolEventReceiver, IID_ICoreWebView2DevToolsProtocolEventReceiver, ''b32ca51a-8371-45e9-9317-af021d080367''),
      (ICoreWebView2DownloadStartingEventArgs, IID_ICoreWebView2DownloadStartingEventArgs, ''e99bbe21-43e9-4544-a732-282764eafa60''),
      (ICoreWebView2FrameCreatedEventArgs, IID_ICoreWebView2FrameCreatedEventArgs, ''4d6e7b5e-9baa-11eb-a8b3-0242ac130003''),
      (ICoreWebView2HttpHeadersCollectionIterator, IID_ICoreWebView2HttpHeadersCollectionIterator, ''0702fc30-f43b-47bb-ab52-a42cb552ad9f''),
      (ICoreWebView2HttpRequestHeaders, IID_ICoreWebView2HttpRequestHeaders, ''e86cac0e-5523-465c-b536-8fb9fc8c8c60''),
      (ICoreWebView2HttpResponseHeaders, IID_ICoreWebView2HttpResponseHeaders, ''03c5ff5a-9b45-4a88-881c-89a9f328619c''),
      (ICoreWebView2LaunchingExternalUriSchemeEventArgs, IID_ICoreWebView2LaunchingExternalUriSchemeEventArgs, ''07D1A6C3-7175-4BA1-9306-E593CA07E46C''),
      (ICoreWebView2MoveFocusRequestedEventArgs, IID_ICoreWebView2MoveFocusRequestedEventArgs, ''2d6aa13b-3839-4a15-92fc-d88b3c0d9c9d''),
      (ICoreWebView2NavigationCompletedEventArgs, IID_ICoreWebView2NavigationCompletedEventArgs, ''30d68b7d-20d9-4752-a9ca-ec8448fbb5c1''),
      (ICoreWebView2NavigationCompletedEventArgs2, IID_ICoreWebView2NavigationCompletedEventArgs2, ''FDF8B738-EE1E-4DB2-A329-8D7D7B74D792''),
      (ICoreWebView2NavigationStartingEventArgs, IID_ICoreWebView2NavigationStartingEventArgs, ''5b495469-e119-438a-9b18-7604f25f2e49''),
      (ICoreWebView2NavigationStartingEventArgs2, IID_ICoreWebView2NavigationStartingEventArgs2, ''9086BE93-91AA-472D-A7E0-579F2BA006AD''),
      (ICoreWebView2NavigationStartingEventArgs3, IID_ICoreWebView2NavigationStartingEventArgs3, ''DDFFE494-4942-4BD2-AB73-35B8FF40E19F''),
      (ICoreWebView2NewWindowRequestedEventArgs, IID_ICoreWebView2NewWindowRequestedEventArgs, ''34acb11c-fc37-4418-9132-f9c21d1eafb9''),
      (ICoreWebView2NewWindowRequestedEventArgs2, IID_ICoreWebView2NewWindowRequestedEventArgs2, ''bbc7baed-74c6-4c92-b63a-7f5aeae03de3''),
      (ICoreWebView2NewWindowRequestedEventArgs3, IID_ICoreWebView2NewWindowRequestedEventArgs3, ''842bed3c-6ad6-4dd9-b938-28c96667ad66''),
      (ICoreWebView2PermissionRequestedEventArgs, IID_ICoreWebView2PermissionRequestedEventArgs, ''973ae2ef-ff18-4894-8fb2-3c758f046810''),
      (ICoreWebView2PermissionRequestedEventArgs2, IID_ICoreWebView2PermissionRequestedEventArgs2, ''74d7127f-9de6-4200-8734-42d6fb4ff741''),
      (ICoreWebView2PermissionRequestedEventArgs3, IID_ICoreWebView2PermissionRequestedEventArgs3, ''e61670bc-3dce-4177-86d2-c629ae3cb6ac''),
      (ICoreWebView2PermissionSettingCollectionView, IID_ICoreWebView2PermissionSettingCollectionView, ''f5596f62-3de5-47b1-91e8-a4104b596b96''),
      (ICoreWebView2PermissionSetting, IID_ICoreWebView2PermissionSetting, ''792b6eca-5576-421c-9119-74ebb3a4ffb3''),
      (ICoreWebView2PointerInfo, IID_ICoreWebView2PointerInfo, ''e6995887-d10d-4f5d-9359-4ce46e4f96b9''),
      (ICoreWebView2PrintSettings, IID_ICoreWebView2PrintSettings, ''377f3721-c74e-48ca-8db1-df68e51d60e2''),
      (ICoreWebView2PrintSettings2, IID_ICoreWebView2PrintSettings2, ''CA7F0E1F-3484-41D1-8C1A-65CD44A63F8D''),
      (ICoreWebView2ProcessFailedEventArgs, IID_ICoreWebView2ProcessFailedEventArgs, ''8155a9a4-1474-4a86-8cae-151b0fa6b8ca''),
      (ICoreWebView2ProcessFailedEventArgs2, IID_ICoreWebView2ProcessFailedEventArgs2, ''4dab9422-46fa-4c3e-a5d2-41d2071d3680''),
      (ICoreWebView2ServerCertificateErrorDetectedEventArgs, IID_ICoreWebView2ServerCertificateErrorDetectedEventArgs, ''012193ED-7C13-48FF-969D-A84C1F432A14''),
      (ICoreWebView2ScriptDialogOpeningEventArgs, IID_ICoreWebView2ScriptDialogOpeningEventArgs, ''7390bb70-abe0-4843-9529-f143b31b03d6''),
      (ICoreWebView2SourceChangedEventArgs, IID_ICoreWebView2SourceChangedEventArgs, ''31e0e545-1dba-4266-8914-f63848a1f7d7''),
      (ICoreWebView2WebMessageReceivedEventArgs, IID_ICoreWebView2WebMessageReceivedEventArgs, ''0f99a40c-e962-4207-9e92-e3d542eff849''),
      (ICoreWebView2WebResourceRequest, IID_ICoreWebView2WebResourceRequest, ''97055cd4-512c-4264-8b5f-e3f446cea6a5''),
      (ICoreWebView2WebResourceRequestedEventArgs, IID_ICoreWebView2WebResourceRequestedEventArgs, ''453e667f-12c7-49d4-be6d-ddbe7956f57a''),
      (ICoreWebView2WebResourceRequestedEventArgs2, IID_ICoreWebView2WebResourceRequestedEventArgs2, ''9C562C24-B219-4D7F-92F6-B187FBBADD56''),
      (ICoreWebView2WebResourceResponse, IID_ICoreWebView2WebResourceResponse, ''aafcc94f-fa27-48fd-97df-830ef75aaec9''),
      (ICoreWebView2WebResourceResponseReceivedEventArgs, IID_ICoreWebView2WebResourceResponseReceivedEventArgs, ''D1DB483D-6796-4B8B-80FC-13712BB716F4''),
      (ICoreWebView2WebResourceResponseView, IID_ICoreWebView2WebResourceResponseView, ''79701053-7759-4162-8F7D-F1B3F084928D''),
      (ICoreWebView2WindowFeatures, IID_ICoreWebView2WindowFeatures, ''5eaf559f-b46e-4397-8860-e422f287ff1e''),
      (ICoreWebView2BrowserExtensionList, IID_ICoreWebView2BrowserExtensionList, ''2EF3D2DC-BD5F-4F4D-90AF-FD67798F0C2F''),
      (ICoreWebView2BrowserExtension, IID_ICoreWebView2BrowserExtension, ''7EF7FFA0-FAC5-462C-B189-3D9EDBE575DA''),
      (ICoreWebView2ExecuteScriptResult, IID_ICoreWebView2ExecuteScriptResult, ''0CE15963-3698-4DF7-9399-71ED6CDD8C9F''),
      (ICoreWebView2ScriptException, IID_ICoreWebView2ScriptException, ''054DAE00-84A3-49FF-BC17-4012A90BC9FD''),
      (ICoreWebView2File, IID_ICoreWebView2File, ''f2c19559-6bc1-4583-a757-90021be9afec''),
      (ICoreWebView2ObjectCollectionView, IID_ICoreWebView2ObjectCollectionView, ''0f36fd87-4f69-4415-98da-888f89fb9a33''),
      (ICoreWebView2WebMessageReceivedEventArgs2, IID_ICoreWebView2WebMessageReceivedEventArgs2, ''06fc7ab7-c90c-4297-9389-33ca01cf6d5e'')]"

definition handlers_ids :: "(iface \<times> guid \<times> string) list" where
  "handlers_ids =
     [(ICoreWebView2AcceleratorKeyPressedEventHandler, IID_ICoreWebView2AcceleratorKeyPressedEventHandler, ''b29c7e28-fa79-41a8-8e44-65811c76dcb2''),
      (ICoreWebView2AddScriptToExecuteOnDocumentCreatedCompletedHandler, IID_ICoreWebView2AddScriptToExecuteOnDocumentCreatedCompletedHandler, ''b99369f3-9b11-47b5-bc6f-8e7895fcea17''),
      (ICoreWebView2CallDevToolsProtocolMethodCompletedHandler, IID_ICoreWebView2CallDevToolsProtocolMethodCompletedHandler, ''5c4889f0-5ef6-4c5a-952c-d8f1b92d0574''),
      (ICoreWebView2CapturePreviewCompletedHandler, IID_ICoreWebView2CapturePreviewCompletedHandler, ''697e05e9-3d8f-45fa-96f4-8ffe1ededaf5''),
      (ICoreWebView2BasicAuthenticationRequestedEventHandler, IID_ICoreWebView2BasicAuthenticationRequestedEventHandler, ''58b4d6c2-18d4-497e-b39b-9a96533fa278''),
      (ICoreWebView2BrowserProcessExitedEventHandler, IID_ICoreWebView2BrowserProcessExitedEventHandler, ''fa504257-a216-4911-a860-fe8825712861''),
      (ICoreWebView2BytesReceivedChangedEventHandler, IID_ICoreWebView2BytesReceivedChangedEventHandler, ''828e8ab6-d94c-4264-9cef-5217170d6251''),
      (ICoreWebView2ContentLoadingEventHandler, IID_ICoreWebView2ContentLoadingEventHandler, ''364471e7-f2be-4910-bdba-d72077d51c4b''),
      (ICoreWebView2ContextMenuRequestedEventHandler, IID_ICoreWebView2ContextMenuRequestedEventHandler, ''04d3fe1d-ab87-42fb-a898-da241d35b63c''),
      (ICoreWebView2ClearBrowsingDataCompletedHandler, IID_ICoreWebView2ClearBrowsingDataCompletedHandler, ''e9710a06-1d1d-49b2-8234-226f35846ae5''),
      (ICoreWebView2ClientCertificateRequestedEventHandler, IID_ICoreWebView2ClientCertificateRequestedEventHandler, ''d7175ba2-bcc3-11eb-8529-0242ac130003''),
      (ICoreWebView2ClearServerCertificateErrorActionsCompletedHandler, IID_ICoreWebView2ClearServerCertificateErrorActionsCompletedHandler, ''3B40AAC6-ACFE-4FFD-8211-F607B96E2D5B''),
      (ICoreWebView2CreateCoreWebView2CompositionControllerCompletedHandler, IID_ICoreWebView2CreateCoreWebView2CompositionControllerCompletedHandler, ''02fab84b-1428-4fb7-ad45-1b2e64736184''),
      (ICoreWebView2CreateCoreWebView2ControllerCompletedHandler, IID_ICoreWebView2CreateCoreWebView2ControllerCompletedHandler, ''6c4819f3-c9b7-4260-8127-c9f5bde7f68c''),
      (ICoreWebView2CreateCoreWebView2EnvironmentCompletedHandler, IID_ICoreWebView2CreateCoreWebView2EnvironmentCompletedHandler, ''4e8a3389-c9d8-4bd2-b6b5-124fee6cc14d''),
      (ICoreWebView2ContainsFullScreenElementChangedEventHandler, IID_ICoreWebView2ContainsFullScreenElementChangedEventHandler, ''e45d98b1-afef-45be-8baf-6c7728867f73''),
      (ICoreWebView2CursorChangedEventHandler, IID_ICoreWebView2CursorChangedEventHandler, ''9da43ccc-26e1-4dad-b56c-d8961c94c571''),
      (ICoreWebView2CustomItemSelectedEventHandler, IID_ICoreWebView2CustomItemSelectedEventHandler, ''49e1d0bc-fe9e-4481-b7c2-32324aa21998''),
      (ICoreWebView2DocumentTitleChangedEventHandler, IID_ICoreWebView2DocumentTitleChangedEventHandler, ''f5f2b923-953e-4042-9f95-f3a118e1afd4''),
      (ICoreWebView2DOMContentLoadedEventHandler, IID_ICoreWebView2DOMContentLoadedEventHandler, ''4BAC7E9C-199E-49ED-87ED-249303ACF019''),
      (ICoreWebView2DevToolsProtocolEventReceivedEventHandler, IID_ICoreWebView2DevToolsProtocolEventReceivedEventHandler, ''e2fda4be-5456-406c-a261-3d452138362c''),
      (ICoreWebView2DownloadStartingEventHandler, IID_ICoreWebView2DownloadStartingEventHandler, ''efedc989-c396-41ca-83f7-07f845a55724''),
      (ICoreWebView2EstimatedEndTimeChangedEventHandler, IID_ICoreWebView2EstimatedEndTimeChangedEventHandler, ''28f0d425-93fe-4e63-9f8d-2aeec6d3ba1e''),
      (ICoreWebView2ExecuteScriptCompletedHandler, IID_ICoreWebView2ExecuteScriptCompletedHandler, ''49511172-cc67-4bca-9923-137112f4c4cc''),
      (ICoreWebView2GetProcessExtendedInfosCompletedHandler, IID_ICoreWebView2GetProcessExtendedInfosCompletedHandler, ''f45e55aa-3bc2-11ee-be56-0242ac120002''),
      (ICoreWebView2FrameContentLoadingEventHandler, IID_ICoreWebView2FrameContentLoadingEventHandler, ''0d6156f2-d332-49a7-9e03-7d8f2feeee54''),
      (ICoreWebView2FrameCreatedEventHandler, IID_ICoreWebView2FrameCreatedEventHandler, ''38059770-9baa-11eb-a8b3-0242ac130003''),
      (ICoreWebView2FrameDestroyedEventHandler, IID_ICoreWebView2FrameDestroyedEventHandler, ''59dd7b4c-9baa-11eb-a8b3-0242ac130003''),
      (ICoreWebView2FrameDOMContentLoadedEventHandler, IID_ICoreWebView2FrameDOMContentLoadedEventHandler, ''38d9520d-340f-4d1e-a775-43fce9753683''),
      (ICoreWebView2FrameNameChangedEventHandler, IID_ICoreWebView2FrameNameChangedEventHandler, ''435c7dc8-9baa-11eb-a8b3-0242ac130003''),
      (ICoreWebView2FrameNavigationCompletedEventHandler, IID_ICoreWebView2FrameNavigationCompletedEventHandler, ''609302ad-0e36-4f9a-a210-6a45272842a9''),
      (ICoreWebView2FrameNavigationStartingEventHandler, IID_ICoreWebView2FrameNavigationStartingEventHandler, ''e79908bf-2d5d-4968-83db-263fea2c1da3''),
      (ICoreWebView2FramePermissionRequestedEventHandler, IID_ICoreWebView2FramePermissionRequestedEventHandler, ''845d0edd-8bd8-429b-9915-4821789f23e9''),
      (ICoreWebView2FrameWebMessageReceivedEventHandler, IID_ICoreWebView2FrameWebMessageReceivedEventHandler, ''e371e005-6d1d-4517-934b-a8f1629c62a5''),
      (ICoreWebView2FocusChangedEventHandler, IID_ICoreWebView2FocusChangedEventHandler, ''05ea24bd-6452-4926-9014-4b82b498135d''),
      (ICoreWebView2GetCookiesCompletedHandler, IID_ICoreWebView2GetCookiesCompletedHandler, ''5A4F5069-5C15-47C3-8646-F4DE1C116670''),
      (ICoreWebView2GetNonDefaultPermissionSettingsCompletedHandler, IID_ICoreWebView2GetNonDefaultPermissionSettingsCompletedHandler, ''38274481-a15c-4563-94cf-990edc9aeb95''),
      (ICoreWebView2HistoryChangedEventHandler, IID_ICoreWebView2HistoryChangedEventHandler, ''c79a420c-efd9-4058-9295-3e8b4bcab645''),
      (ICoreWebView2IsDefaultDownloadDialogOpenChangedEventHandler, IID_ICoreWebView2IsDefaultDownloadDialogOpenChangedEventHandler, ''3117da26-ae13-438d-bd46-edbeb2c4ce81''),
      (ICoreWebView2LaunchingExternalUriSchemeEventHandler, IID_ICoreWebView2LaunchingExternalUriSchemeEventHandler, ''74F712E0-8165-43A9-A13F-0CCE597E75DF''),
      (ICoreWebView2MoveFocusRequestedEventHandler, IID_ICoreWebView2MoveFocusRequestedEventHandler, ''69035451-6dc7-4cb8-9bce-b2bd70ad289f''),
      (ICoreWebView2NavigationCompletedEventHandler, IID_ICoreWebView2NavigationCompletedEventHandler, ''d33a35bf-1c49-4f98-93ab-006e0533fe1c''),
      (ICoreWebView2NavigationStartingEventHandler, IID_ICoreWebView2NavigationStartingEventHandler, ''9adbe429-f36d-432b-9ddc-f8881fbd76e3''),
      (ICoreWebView2NewBrowserVersionAvailableEventHandler, IID_ICoreWebView2NewBrowserVersionAvailableEventHandler, ''f9a2976e-d34e-44fc-adee-81b6b57ca914''),
      (ICoreWebView2NewWindowRequestedEventHandler, IID_ICoreWebView2NewWindowRequestedEventHandler, ''d4c185fe-c81c-4989-97af-2d3fa7ab5651''),
      (ICoreWebView2PermissionRequestedEventHandler, IID_ICoreWebView2PermissionRequestedEventHandler, ''15e1c6a3-c72a-4df3-91d7-d097fbec6bfd''),
      (ICoreWebView2PrintToPdfCompletedHandler, IID_ICoreWebView2PrintToPdfCompletedHandler, ''ccf1ef04-fd8e-4d5f-b2de-0983e41b8c36''),
      (ICoreWebView2PrintCompletedHandler, IID_ICoreWebView2PrintCompletedHandler, ''8FD80075-ED08-42DB-8570-F5D14977461E''),
      (ICoreWebView2PrintToPdfStreamCompletedHandler, IID_ICoreWebView2PrintToPdfStreamCompletedHandler, ''4C9F8229-8F93-444F-A711-2C0DFD6359D5''),
      (ICoreWebView2ProcessFailedEventHandler, IID_ICoreWebView2ProcessFailedEventHandler, ''79e0aea4-990b-42d9-aa1d-0fcc2e5bc7f1''),
      (ICoreWebView2ProfileDeletedEventHandler, IID_ICoreWebView2ProfileDeletedEventHandler, ''DF35055D-772E-4DBE-B743-5FBF74A2B258''),
      (ICoreWebView2RasterizationScaleChangedEventHandler, IID_ICoreWebView2RasterizationScaleChangedEventHandler, ''9c98c8b1-ac53-427e-a345-3049b5524bbe''),
      (ICoreWebView2ServerCertificateErrorDetectedEventHandler, IID_ICoreWebView2ServerCertificateErrorDetectedEventHandler, ''969B3A26-D85E-4795-8199-FEF57344DA22''),
      (ICoreWebView2SetPermissionStateCompletedHandler, IID_ICoreWebView2SetPermissionStateCompletedHandler, ''fc77fb30-9c9e-4076-b8c7-7644a703ca1b''),
      (ICoreWebView2ScriptDialogOpeningEventHandler, IID_ICoreWebView2ScriptDialogOpeningEventHandler, ''ef381bf9-afa8-4e37-91c4-8ac48524bdfb''),
      (ICoreWebView2SourceChangedEventHandler, IID_ICoreWebView2SourceChangedEventHandler, ''3c067f9f-5388-4772-8b48-79f7ef1ab37c''),
      (ICoreWebView2StateChangedEventHandler, IID_ICoreWebView2StateChangedEventHandler, ''81336594-7ede-4ba9-bf71-acf0a95b58dd''),
      (ICoreWebView2StatusBarTextChangedEventHandler, IID_ICoreWebView2StatusBarTextChangedEventHandler, ''A5E3B0D0-10DF-4156-BFAD-3B43867ACAC6''),
      (ICoreWebView2TrySuspendCompletedHandler, IID_ICoreWebView2TrySuspendCompletedHandler, ''00F206A7-9D17-4605-91F6-4E8E4DE192E3''),
      (ICoreWebView2WebMessageReceivedEventHandler, IID_ICoreWebView2WebMessageReceivedEventHandler, ''57213f19-00e6-49fa-8e07-898ea01ecbd2''),
      (ICoreWebView2WebResourceRequestedEventHandler, IID_ICoreWebView2WebResourceRequestedEventHandler, ''ab00b74c-15f1-4646-80e8-e76341d25d71''),
      (ICoreWebView2WebResourceResponseReceivedEventHandler, IID_ICoreWebView2WebResourceResponseReceivedEventHandler, ''7DE9898A-24F5-40C3-A2DE-D4F458E69828''),
      (ICoreWebView2WebResourceResponseViewGetContentCompletedHandler, IID_ICoreWebView2WebResourceResponseViewGetContentCompletedHandler, ''875738E1-9FA2-40E3-8B74-2E8972DD6FE7''),
      (ICoreWebView2WindowCloseRequestedEventHandler, IID_ICoreWebView2WindowCloseRequestedEventHandler, ''5c19e9e0-092f-486b-affa-ca8231913039''),
      (ICoreWebView2ZoomFactorChangedEventHandler, IID_ICoreWebView2ZoomFactorChangedEventHandler, ''b52d71d6-c4df-4543-a90c-64a3e60f38cb''),
      (ICoreWebView2IsMutedChangedEventHandler, IID_ICoreWebView2IsMutedChangedEventHandler, ''57D90347-CD0E-4952-A4A2-7483A2756F08''),
      (ICoreWebView2IsDocumentPlayingAudioChangedEventHandler, IID_ICoreWebView2IsDocumentPlayingAudioChangedEventHandler, ''5DEF109A-2F4B-49FA-B7F6-11C39E513328''),
      (ICoreWebView2ProcessInfosChangedEventHandler, IID_ICoreWebView2ProcessInfosChangedEventHandler, ''F4AF0C39-44B9-40E9-8B11-0484CFB9E0A1''),
      (ICoreWebView2FaviconChangedEventHandler, IID_ICoreWebView2FaviconChangedEventHandler, ''2913DA94-833D-4DE0-8DCA-900FC524A1A4''),
      (ICoreWebView2GetFaviconCompletedHandler, IID_ICoreWebView2GetFaviconCompletedHandler, ''A2508329-7DA8-49D7-8C05-FA125E4AEE8D''),
      (ICoreWebView2ProfileAddBrowserExtensionCompletedHandler, IID_ICoreWebView2ProfileAddBrowserExtensionCompletedHandler, ''DF1AAB27-82B9-4AB6-AAE8-017A49398C14''),
      (ICoreWebView2ProfileGetBrowserExtensionsCompletedHandler, IID_ICoreWebView2ProfileGetBrowserExtensionsCompletedHandler, ''FCE16A1C-F107-4601-8B75-FC4940AE25D0''),
      (ICoreWebView2BrowserExtensionEnableCompletedHandler, IID_ICoreWebView2BrowserExtensionEnableCompletedHandler, ''30C186CE-7FAD-421F-A3BC-A8EAF071DDB8''),
      (ICoreWebView2BrowserExtensionRemoveCompletedHandler, IID_ICoreWebView2BrowserExtensionRemoveCompletedHandler, ''8E41909A-9B18-4BB1-8CDF-930F467A50BE''),
      (ICoreWebView2ExecuteScriptWithResultCompletedHandler, IID_ICoreWebView2ExecuteScriptWithResultCompletedHandler, ''1BB5317B-8238-4C67-A7FF-BAF6558F289D'')]"

definition abi_ids :: "(iface \<times> guid \<times> string) list" where
  "abi_ids = browser_ids @ services_ids @ objects_ids @ handlers_ids"

section \<open>The two spellings agree\<close>

lemmas uuid_simps = hex_pad_eqs hex_digits_eq tolower_hex

lemma uuid_ICoreWebView2_3:
  "guid_string IID_ICoreWebView2_3 = map c_tolower ''A0D6DF20-3B92-416D-AA0C-437A9C727857''"
  by (simp add: IID_ICoreWebView2_3_def uuid_simps)

lemma uuid_ICoreWebView2_4:
  "guid_string IID_ICoreWebView2_4 = map c_tolower ''20d02d59-6df2-42dc-bd06-f98a694b1302''"
  by (simp add: IID_ICoreWebView2_4_def uuid_simps)

lemma uuid_ICoreWebView2_5:
  "guid_string IID_ICoreWebView2_5 = map c_tolower ''bedb11b8-d63c-11eb-b8bc-0242ac130003''"
  by (simp add: IID_ICoreWebView2_5_def uuid_simps)

lemma uuid_ICoreWebView2_6:
  "guid_string IID_ICoreWebView2_6 = map c_tolower ''499aadac-d92c-4589-8a75-111bfc167795''"
  by (simp add: IID_ICoreWebView2_6_def uuid_simps)

lemma uuid_ICoreWebView2_7:
  "guid_string IID_ICoreWebView2_7 = map c_tolower ''79c24d83-09a3-45ae-9418-487f32a58740''"
  by (simp add: IID_ICoreWebView2_7_def uuid_simps)

lemma uuid_ICoreWebView2_8:
  "guid_string IID_ICoreWebView2_8 = map c_tolower ''E9632730-6E1E-43AB-B7B8-7B2C9E62E094''"
  by (simp add: IID_ICoreWebView2_8_def uuid_simps)

lemma uuid_ICoreWebView2_9:
  "guid_string IID_ICoreWebView2_9 = map c_tolower ''4d7b2eab-9fdc-468d-b998-a9260b5ed651''"
  by (simp add: IID_ICoreWebView2_9_def uuid_simps)

lemma uuid_ICoreWebView2_10:
  "guid_string IID_ICoreWebView2_10 = map c_tolower ''b1690564-6f5a-4983-8e48-31d1143fecdb''"
  by (simp add: IID_ICoreWebView2_10_def uuid_simps)

lemma uuid_ICoreWebView2_12:
  "guid_string IID_ICoreWebView2_12 = map c_tolower ''35D69927-BCFA-4566-9349-6B3E0D154CAC''"
  by (simp add: IID_ICoreWebView2_12_def uuid_simps)

lemma uuid_ICoreWebView2_14:
  "guid_string IID_ICoreWebView2_14 = map c_tolower ''6DAA4F10-4A90-4753-8898-77C5DF534165''"
  by (simp add: IID_ICoreWebView2_14_def uuid_simps)

lemma uuid_ICoreWebView2_15:
  "guid_string IID_ICoreWebView2_15 = map c_tolower ''517B2D1D-7DAE-4A66-A4F4-10352FFB9518''"
  by (simp add: IID_ICoreWebView2_15_def uuid_simps)

lemma uuid_ICoreWebView2_17:
  "guid_string IID_ICoreWebView2_17 = map c_tolower ''702E75D4-FD44-434D-9D70-1A68A6B1192A''"
  by (simp add: IID_ICoreWebView2_17_def uuid_simps)

lemma uuid_ICoreWebView2_18:
  "guid_string IID_ICoreWebView2_18 = map c_tolower ''7A626017-28BE-49B2-B865-3BA2B3522D90''"
  by (simp add: IID_ICoreWebView2_18_def uuid_simps)

lemma uuid_ICoreWebView2_19:
  "guid_string IID_ICoreWebView2_19 = map c_tolower ''6921F954-79B0-437F-A997-C85811897C68''"
  by (simp add: IID_ICoreWebView2_19_def uuid_simps)

lemma uuid_ICoreWebView2_20:
  "guid_string IID_ICoreWebView2_20 = map c_tolower ''b4bc1926-7305-11ee-b962-0242ac120002''"
  by (simp add: IID_ICoreWebView2_20_def uuid_simps)

lemma uuid_ICoreWebView2_21:
  "guid_string IID_ICoreWebView2_21 = map c_tolower ''c4980dea-587b-43b9-8143-3ef3bf552d95''"
  by (simp add: IID_ICoreWebView2_21_def uuid_simps)

lemma uuid_ICoreWebView2_22:
  "guid_string IID_ICoreWebView2_22 = map c_tolower ''DB75DFC7-A857-4632-A398-6969DDE26C0A''"
  by (simp add: IID_ICoreWebView2_22_def uuid_simps)

lemma uuid_ICoreWebView2CompositionController:
  "guid_string IID_ICoreWebView2CompositionController = map c_tolower ''3df9b733-b9ae-4a15-86b4-eb9ee9826469''"
  by (simp add: IID_ICoreWebView2CompositionController_def uuid_simps)

lemma uuid_ICoreWebView2CompositionController2:
  "guid_string IID_ICoreWebView2CompositionController2 = map c_tolower ''0b6a3d24-49cb-4806-ba20-b5e0734a7b26''"
  by (simp add: IID_ICoreWebView2CompositionController2_def uuid_simps)

lemma uuid_ICoreWebView2CompositionController3:
  "guid_string IID_ICoreWebView2CompositionController3 = map c_tolower ''9570570e-4d76-4361-9ee1-f04d0dbdfb1e''"
  by (simp add: IID_ICoreWebView2CompositionController3_def uuid_simps)

lemma uuid_ICoreWebView2Controller2:
  "guid_string IID_ICoreWebView2Controller2 = map c_tolower ''c979903e-d4ca-4228-92eb-47ee3fa96eab''"
  by (simp add: IID_ICoreWebView2Controller2_def uuid_simps)

lemma uuid_ICoreWebView2Controller3:
  "guid_string IID_ICoreWebView2Controller3 = map c_tolower ''f9614724-5d2b-41dc-aef7-73d62b51543b''"
  by (simp add: IID_ICoreWebView2Controller3_def uuid_simps)

lemma uuid_ICoreWebView2Controller4:
  "guid_string IID_ICoreWebView2Controller4 = map c_tolower ''97d418d5-a426-4e49-a151-e1a10f327d9e''"
  by (simp add: IID_ICoreWebView2Controller4_def uuid_simps)

lemma uuid_ICoreWebView2ControllerOptions:
  "guid_string IID_ICoreWebView2ControllerOptions = map c_tolower ''12aae616-8ccb-44ec-bcb3-eb1831881635''"
  by (simp add: IID_ICoreWebView2ControllerOptions_def uuid_simps)

lemma uuid_ICoreWebView2ControllerOptions2:
  "guid_string IID_ICoreWebView2ControllerOptions2 = map c_tolower ''06c991d8-9e7e-11ed-a8fc-0242ac120002''"
  by (simp add: IID_ICoreWebView2ControllerOptions2_def uuid_simps)

lemma uuid_ICoreWebView2CookieManager:
  "guid_string IID_ICoreWebView2CookieManager = map c_tolower ''177CD9E7-B6F5-451A-94A0-5D7A3A4C4141''"
  by (simp add: IID_ICoreWebView2CookieManager_def uuid_simps)

lemma uuid_ICoreWebView2DownloadOperation:
  "guid_string IID_ICoreWebView2DownloadOperation = map c_tolower ''3d6b6cf2-afe1-44c7-a995-c65117714336''"
  by (simp add: IID_ICoreWebView2DownloadOperation_def uuid_simps)

lemma uuid_ICoreWebView2Environment2:
  "guid_string IID_ICoreWebView2Environment2 = map c_tolower ''41F3632B-5EF4-404F-AD82-2D606C5A9A21''"
  by (simp add: IID_ICoreWebView2Environment2_def uuid_simps)

lemma uuid_ICoreWebView2Environment3:
  "guid_string IID_ICoreWebView2Environment3 = map c_tolower ''80a22ae3-be7c-4ce2-afe1-5a50056cdeeb''"
  by (simp add: IID_ICoreWebView2Environment3_def uuid_simps)

lemma uuid_ICoreWebView2Environment4:
  "guid_string IID_ICoreWebView2Environment4 = map c_tolower ''20944379-6dcf-41d6-a0a0-abc0fc50de0d''"
  by (simp add: IID_ICoreWebView2Environment4_def uuid_simps)

lemma uuid_ICoreWebView2Environment5:
  "guid_string IID_ICoreWebView2Environment5 = map c_tolower ''319e423d-e0d7-4b8d-9254-ae9475de9b17''"
  by (simp add: IID_ICoreWebView2Environment5_def uuid_simps)

lemma uuid_ICoreWebView2Environment6:
  "guid_string IID_ICoreWebView2Environment6 = map c_tolower ''e59ee362-acbd-4857-9a8e-d3644d9459a9''"
  by (simp add: IID_ICoreWebView2Environment6_def uuid_simps)

lemma uuid_ICoreWebView2Environment7:
  "guid_string IID_ICoreWebView2Environment7 = map c_tolower ''43C22296-3BBD-43A4-9C00-5C0DF6DD29A2''"
  by (simp add: IID_ICoreWebView2Environment7_def uuid_simps)

lemma uuid_ICoreWebView2Environment8:
  "guid_string IID_ICoreWebView2Environment8 = map c_tolower ''D6EB91DD-C3D2-45E5-BD29-6DC2BC4DE9CF''"
  by (simp add: IID_ICoreWebView2Environment8_def uuid_simps)

lemma uuid_ICoreWebView2Environment9:
  "guid_string IID_ICoreWebView2Environment9 = map c_tolower ''f06f41bf-4b5a-49d8-b9f6-fa16cd29f274''"
  by (simp add: IID_ICoreWebView2Environment9_def uuid_simps)

lemma uuid_ICoreWebView2Environment10:
  "guid_string IID_ICoreWebView2Environment10 = map c_tolower ''ee0eb9df-6f12-46ce-b53f-3f47b9c928e0''"
  by (simp add: IID_ICoreWebView2Environment10_def uuid_simps)

lemma uuid_ICoreWebView2Environment11:
  "guid_string IID_ICoreWebView2Environment11 = map c_tolower ''F0913DC6-A0EC-42EF-9805-91DFF3A2966A''"
  by (simp add: IID_ICoreWebView2Environment11_def uuid_simps)

lemma uuid_ICoreWebView2Environment12:
  "guid_string IID_ICoreWebView2Environment12 = map c_tolower ''F503DB9B-739F-48DD-B151-FDFCF253F54E''"
  by (simp add: IID_ICoreWebView2Environment12_def uuid_simps)

lemma uuid_ICoreWebView2Environment13:
  "guid_string IID_ICoreWebView2Environment13 = map c_tolower ''af641f58-72b2-11ee-b962-0242ac120002''"
  by (simp add: IID_ICoreWebView2Environment13_def uuid_simps)

lemma uuid_ICoreWebView2ProcessExtendedInfo:
  "guid_string IID_ICoreWebView2ProcessExtendedInfo = map c_tolower ''af4c4c2e-45db-11ee-be56-0242ac120002''"
  by (simp add: IID_ICoreWebView2ProcessExtendedInfo_def uuid_simps)

lemma uuid_ICoreWebView2ProcessExtendedInfoCollection:
  "guid_string IID_ICoreWebView2ProcessExtendedInfoCollection = map c_tolower ''32efa696-407a-11ee-be56-0242ac120002''"
  by (simp add: IID_ICoreWebView2ProcessExtendedInfoCollection_def uuid_simps)

lemma uuid_ICoreWebView2Frame:
  "guid_string IID_ICoreWebView2Frame = map c_tolower ''f1131a5e-9ba9-11eb-a8b3-0242ac130003''"
  by (simp add: IID_ICoreWebView2Frame_def uuid_simps)

lemma uuid_ICoreWebView2Frame2:
  "guid_string IID_ICoreWebView2Frame2 = map c_tolower ''7a6a5834-d185-4dbf-b63f-4a9bc43107d4''"
  by (simp add: IID_ICoreWebView2Frame2_def uuid_simps)

lemma uuid_ICoreWebView2Frame3:
  "guid_string IID_ICoreWebView2Frame3 = map c_tolower ''b50d82cc-cc28-481d-9614-cb048895e6a0''"
  by (simp add: IID_ICoreWebView2Frame3_def uuid_simps)

lemma uuid_ICoreWebView2Frame4:
  "guid_string IID_ICoreWebView2Frame4 = map c_tolower ''188782DC-92AA-4732-AB3C-FCC59F6F68B9''"
  by (simp add: IID_ICoreWebView2Frame4_def uuid_simps)

lemma uuid_ICoreWebView2Frame5:
  "guid_string IID_ICoreWebView2Frame5 = map c_tolower ''99d199c4-7305-11ee-b962-0242ac120002''"
  by (simp add: IID_ICoreWebView2Frame5_def uuid_simps)

lemma uuid_ICoreWebView2FrameInfo:
  "guid_string IID_ICoreWebView2FrameInfo = map c_tolower ''da86b8a1-bdf3-4f11-9955-528cefa59727''"
  by (simp add: IID_ICoreWebView2FrameInfo_def uuid_simps)

lemma uuid_ICoreWebView2FrameInfo2:
  "guid_string IID_ICoreWebView2FrameInfo2 = map c_tolower ''56f85cfa-72c4-11ee-b962-0242ac120002''"
  by (simp add: IID_ICoreWebView2FrameInfo2_def uuid_simps)

lemma uuid_ICoreWebView2FrameInfoCollection:
  "guid_string IID_ICoreWebView2FrameInfoCollection = map c_tolower ''8f834154-d38e-4d90-affb-6800a7272839''"
  by (simp add: IID_ICoreWebView2FrameInfoCollection_def uuid_simps)

lemma uuid_ICoreWebView2FrameInfoCollectionIterator:
  "guid_string IID_ICoreWebView2FrameInfoCollectionIterator = map c_tolower ''1bf89e2d-1b2b-4629-b28f-05099b41bb03''"
  by (simp add: IID_ICoreWebView2FrameInfoCollectionIterator_def uuid_simps)

lemma uuid_ICoreWebView2Profile2:
  "guid_string IID_ICoreWebView2Profile2 = map c_tolower ''fa740d4b-5eae-4344-a8ad-74be31925397''"
  by (simp add: IID_ICoreWebView2Profile2_def uuid_simps)

lemma uuid_ICoreWebView2Profile3:
  "guid_string IID_ICoreWebView2Profile3 = map c_tolower ''B188E659-5685-4E05-BDBA-FC640E0F1992''"
  by (simp add: IID_ICoreWebView2Profile3_def uuid_simps)

lemma uuid_ICoreWebView2Profile4:
  "guid_string IID_ICoreWebView2Profile4 = map c_tolower ''8F4ae680-192e-4eC8-833a-21cfadaef628''"
  by (simp add: IID_ICoreWebView2Profile4_def uuid_simps)

lemma uuid_ICoreWebView2Profile5:
  "guid_string IID_ICoreWebView2Profile5 = map c_tolower ''2EE5B76E-6E80-4DF2-BCD3-D4EC3340A01B''"
  by (simp add: IID_ICoreWebView2Profile5_def uuid_simps)

lemma uuid_ICoreWebView2Profile6:
  "guid_string IID_ICoreWebView2Profile6 = map c_tolower ''BD82FA6A-1D65-4C33-B2B4-0393020CC61B''"
  by (simp add: IID_ICoreWebView2Profile6_def uuid_simps)

lemma uuid_ICoreWebView2Profile7:
  "guid_string IID_ICoreWebView2Profile7 = map c_tolower ''7b4c7906-a1aa-4cb4-b723-db09f813d541''"
  by (simp add: IID_ICoreWebView2Profile7_def uuid_simps)

lemma uuid_ICoreWebView2Profile8:
  "guid_string IID_ICoreWebView2Profile8 = map c_tolower ''fbf70c2f-eb1f-4383-85a0-163e92044011''"
  by (simp add: IID_ICoreWebView2Profile8_def uuid_simps)

lemma uuid_ICoreWebView2Settings2:
  "guid_string IID_ICoreWebView2Settings2 = map c_tolower ''ee9a0f68-f46c-4e32-ac23-ef8cac224d2a''"
  by (simp add: IID_ICoreWebView2Settings2_def uuid_simps)

lemma uuid_ICoreWebView2Settings3:
  "guid_string IID_ICoreWebView2Settings3 = map c_tolower ''fdb5ab74-af33-4854-84f0-0a631deb5eba''"
  by (simp add: IID_ICoreWebView2Settings3_def uuid_simps)

lemma uuid_ICoreWebView2Settings4:
  "guid_string IID_ICoreWebView2Settings4 = map c_tolower ''cb56846c-4168-4d53-b04f-03b6d6796ff2''"
  by (simp add: IID_ICoreWebView2Settings4_def uuid_simps)

lemma uuid_ICoreWebView2Settings5:
  "guid_string IID_ICoreWebView2Settings5 = map c_tolower ''183e7052-1d03-43a0-ab99-98e043b66b39''"
  by (simp add: IID_ICoreWebView2Settings5_def uuid_simps)

lemma uuid_ICoreWebView2Settings6:
  "guid_string IID_ICoreWebView2Settings6 = map c_tolower ''11cb3acd-9bc8-43b8-83bf-f40753714f87''"
  by (simp add: IID_ICoreWebView2Settings6_def uuid_simps)

lemma uuid_ICoreWebView2Settings7:
  "guid_string IID_ICoreWebView2Settings7 = map c_tolower ''488dc902-35ef-42d2-bc7d-94b65c4bc49c''"
  by (simp add: IID_ICoreWebView2Settings7_def uuid_simps)

lemma uuid_ICoreWebView2Settings8:
  "guid_string IID_ICoreWebView2Settings8 = map c_tolower ''9e6b0e8f-86ad-4e81-8147-a9b5edb68650''"
  by (simp add: IID_ICoreWebView2Settings8_def uuid_simps)

lemma uuid_ICoreWebView2SharedBuffer:
  "guid_string IID_ICoreWebView2SharedBuffer = map c_tolower ''B747A495-0C6F-449E-97B8-2F81E9D6AB43''"
  by (simp add: IID_ICoreWebView2SharedBuffer_def uuid_simps)

lemma uuid_ICoreWebView2ProcessInfo:
  "guid_string IID_ICoreWebView2ProcessInfo = map c_tolower ''84FA7612-3F3D-4FBF-889D-FAD000492D72''"
  by (simp add: IID_ICoreWebView2ProcessInfo_def uuid_simps)

lemma uuid_ICoreWebView2ProcessInfoCollection:
  "guid_string IID_ICoreWebView2ProcessInfoCollection = map c_tolower ''402B99CD-A0CC-4FA5-B7A5-51D86A1D2339''"
  by (simp add: IID_ICoreWebView2ProcessInfoCollection_def uuid_simps)

lemma uuid_ICoreWebView2AcceleratorKeyPressedEventArgs2:
  "guid_string IID_ICoreWebView2AcceleratorKeyPressedEventArgs2 = map c_tolower ''03b2c8c8-7799-4e34-bd66-ed26aa85f2bf''"
  by (simp add: IID_ICoreWebView2AcceleratorKeyPressedEventArgs2_def uuid_simps)

lemma uuid_ICoreWebView2BasicAuthenticationRequestedEventArgs:
  "guid_string IID_ICoreWebView2BasicAuthenticationRequestedEventArgs = map c_tolower ''ef05516f-d897-4f9e-b672-d8e2307a3fb0''"
  by (simp add: IID_ICoreWebView2BasicAuthenticationRequestedEventArgs_def uuid_simps)

lemma uuid_ICoreWebView2BasicAuthenticationResponse:
  "guid_string IID_ICoreWebView2BasicAuthenticationResponse = map c_tolower ''07023f7d-2d77-4d67-9040-6e7d428c6a40''"
  by (simp add: IID_ICoreWebView2BasicAuthenticationResponse_def uuid_simps)

lemma uuid_ICoreWebView2BrowserProcessExitedEventArgs:
  "guid_string IID_ICoreWebView2BrowserProcessExitedEventArgs = map c_tolower ''1f00663f-af8c-4782-9cdd-dd01c52e34cb''"
  by (simp add: IID_ICoreWebView2BrowserProcessExitedEventArgs_def uuid_simps)

lemma uuid_ICoreWebView2ContentLoadingEventArgs:
  "guid_string IID_ICoreWebView2ContentLoadingEventArgs = map c_tolower ''0c8a1275-9b6b-4901-87ad-70df25bafa6e''"
  by (simp add: IID_ICoreWebView2ContentLoadingEventArgs_def uuid_simps)

lemma uuid_ICoreWebView2Cookie:
  "guid_string IID_ICoreWebView2Cookie = map c_tolower ''AD26D6BE-1486-43E6-BF87-A2034006CA21''"
  by (simp add: IID_ICoreWebView2Cookie_def uuid_simps)

lemma uuid_ICoreWebView2CookieList:
  "guid_string IID_ICoreWebView2CookieList = map c_tolower ''F7F6F714-5D2A-43C6-9503-346ECE02D186''"
  by (simp add: IID_ICoreWebView2CookieList_def uuid_simps)

lemma uuid_ICoreWebView2Certificate:
  "guid_string IID_ICoreWebView2Certificate = map c_tolower ''C5FB2FCE-1CAC-4AEE-9C79-5ED0362EAAE0''"
  by (simp add: IID_ICoreWebView2Certificate_def uuid_simps)

lemma uuid_ICoreWebView2ClientCertificate:
  "guid_string IID_ICoreWebView2ClientCertificate = map c_tolower ''e7188076-bcc3-11eb-8529-0242ac130003''"
  by (simp add: IID_ICoreWebView2ClientCertificate_def uuid_simps)

lemma uuid_ICoreWebView2StringCollection:
  "guid_string IID_ICoreWebView2StringCollection = map c_tolower ''f41f3f8a-bcc3-11eb-8529-0242ac130003''"
  by (simp add: IID_ICoreWebView2StringCollection_def uuid_simps)

lemma uuid_ICoreWebView2ClientCertificateCollection:
  "guid_string IID_ICoreWebView2ClientCertificateCollection = map c_tolower ''ef5674d2-bcc3-11eb-8529-0242ac130003''"
  by (simp add: IID_ICoreWebView2ClientCertificateCollection_def uuid_simps)

lemma uuid_ICoreWebView2ClientCertificateRequestedEventArgs:
  "guid_string IID_ICoreWebView2ClientCertificateRequestedEventArgs = map c_tolower ''bc59db28-bcc3-11eb-8529-0242ac130003''"
  by (simp add: IID_ICoreWebView2ClientCertificateRequestedEventArgs_def uuid_simps)

lemma uuid_ICoreWebView2ContextMenuItem:
  "guid_string IID_ICoreWebView2ContextMenuItem = map c_tolower ''7aed49e3-a93f-497a-811c-749c6b6b6c65''"
  by (simp add: IID_ICoreWebView2ContextMenuItem_def uuid_simps)

lemma uuid_ICoreWebView2ContextMenuItemCollection:
  "guid_string IID_ICoreWebView2ContextMenuItemCollection = map c_tolower ''f562a2f5-c415-45cf-b909-d4b7c1e276d3''"
  by (simp add: IID_ICoreWebView2ContextMenuItemCollection_def uuid_simps)

lemma uuid_ICoreWebView2ContextMenuTarget:
  "guid_string IID_ICoreWebView2ContextMenuTarget = map c_tolower ''b8611d99-eed6-4f3f-902c-a198502ad472''"
  by (simp add: IID_ICoreWebView2ContextMenuTarget_def uuid_simps)

lemma uuid_ICoreWebView2DOMContentLoadedEventArgs:
  "guid_string IID_ICoreWebView2DOMContentLoadedEventArgs = map c_tolower ''16B1E21A-C503-44F2-84C9-70ABA5031283''"
  by (simp add: IID_ICoreWebView2DOMContentLoadedEventArgs_def uuid_simps)

lemma uuid_ICoreWebView2Deferral:
  "guid_string IID_ICoreWebView2Deferral = map c_tolower ''c10e7f7b-b585-46f0-a623-8befbf3e4ee0''"
  by (simp add: IID_ICoreWebView2Deferral_def uuid_simps)

lemma uuid_ICoreWebView2DevToolsProtocolEventReceivedEventArgs:
  "guid_string IID_ICoreWebView2DevToolsProtocolEventReceivedEventArgs = map c_tolower ''653c2959-bb3a-4377-8632-b58ada4e66c4''"
  by (simp add: IID_ICoreWebView2DevToolsProtocolEventReceivedEventArgs_def uuid_simps)

lemma uuid_ICoreWebView2DevToolsProtocolEventReceivedEventArgs2:
  "guid_string IID_ICoreWebView2DevToolsProtocolEventReceivedEventArgs2 = map c_tolower ''2DC4959D-1494-4393-95BA-BEA4CB9EBD1B''"
  by (simp add: IID_ICoreWebView2DevToolsProtocolEventReceivedEventArgs2_def uuid_simps)

lemma uuid_ICoreWebView2DevToolsProtocolEventReceiver:
  "guid_string IID_ICoreWebView2DevToolsProtocolEventReceiver = map c_tolower ''b32ca51a-8371-45e9-9317-af021d080367''"
  by (simp add: IID_ICoreWebView2DevToolsProtocolEventReceiver_def uuid_simps)

lemma uuid_ICoreWebView2DownloadStartingEventArgs:
  "guid_string IID_ICoreWebView2DownloadStartingEventArgs = map c_tolower ''e99bbe21-43e9-4544-a732-282764eafa60''"
  by (simp add: IID_ICoreWebView2DownloadStartingEventArgs_def uuid_simps)

lemma uuid_ICoreWebView2FrameCreatedEventArgs:
  "guid_string IID_ICoreWebView2FrameCreatedEventArgs = map c_tolower ''4d6e7b5e-9baa-11eb-a8b3-0242ac130003''"
  by (simp add: IID_ICoreWebView2FrameCreatedEventArgs_def uuid_simps)

lemma uuid_ICoreWebView2HttpHeadersCollectionIterator:
  "guid_string IID_ICoreWebView2HttpHeadersCollectionIterator = map c_tolower ''0702fc30-f43b-47bb-ab52-a42cb552ad9f''"
  by (simp add: IID_ICoreWebView2HttpHeadersCollectionIterator_def uuid_simps)

lemma uuid_ICoreWebView2HttpRequestHeaders:
  "guid_string IID_ICoreWebView2HttpRequestHeaders = map c_tolower ''e86cac0e-5523-465c-b536-8fb9fc8c8c60''"
  by (simp add: IID_ICoreWebView2HttpRequestHeaders_def uuid_simps)

lemma uuid_ICoreWebView2HttpResponseHeaders:
  "guid_string IID_ICoreWebView2HttpResponseHeaders = map c_tolower ''03c5ff5a-9b45-4a88-881c-89a9f328619c''"
  by (simp add: IID_ICoreWebView2HttpResponseHeaders_def uuid_simps)

lemma uuid_ICoreWebView2LaunchingExternalUriSchemeEventArgs:
  "guid_string IID_ICoreWebView2LaunchingExternalUriSchemeEventArgs = map c_tolower ''07D1A6C3-7175-4BA1-9306-E593CA07E46C''"
  by (simp add: IID_ICoreWebView2LaunchingExternalUriSchemeEventArgs_def uuid_simps)

lemma uuid_ICoreWebView2MoveFocusRequestedEventArgs:
  "guid_string IID_ICoreWebView2MoveFocusRequestedEventArgs = map c_tolower ''2d6aa13b-3839-4a15-92fc-d88b3c0d9c9d''"
  by (simp add: IID_ICoreWebView2MoveFocusRequestedEventArgs_def uuid_simps)

lemma uuid_ICoreWebView2NavigationCompletedEventArgs:
  "guid_string IID_ICoreWebView2NavigationCompletedEventArgs = map c_tolower ''30d68b7d-20d9-4752-a9ca-ec8448fbb5c1''"
  by (simp add: IID_ICoreWebView2NavigationCompletedEventArgs_def uuid_simps)

lemma uuid_ICoreWebView2NavigationCompletedEventArgs2:
  "guid_string IID_ICoreWebView2NavigationCompletedEventArgs2 = map c_tolower ''FDF8B738-EE1E-4DB2-A329-8D7D7B74D792''"
  by (simp add: IID_ICoreWebView2NavigationCompletedEventArgs2_def uuid_simps)

lemma uuid_ICoreWebView2NavigationStartingEventArgs:
  "guid_string IID_ICoreWebView2NavigationStartingEventArgs = map c_tolower ''5b495469-e119-438a-9b18-7604f25f2e49''"
  by (simp add: IID_ICoreWebView2NavigationStartingEventArgs_def uuid_simps)

lemma uuid_ICoreWebView2NavigationStartingEventArgs2:
  "guid_string IID_ICoreWebView2NavigationStartingEventArgs2 = map c_tolower ''9086BE93-91AA-472D-A7E0-579F2BA006AD''"
  by (simp add: IID_ICoreWebView2NavigationStartingEventArgs2_def uuid_simps)

lemma uuid_ICoreWebView2NavigationStartingEventArgs3:
  "guid_string IID_ICoreWebView2NavigationStartingEventArgs3 = map c_tolower ''DDFFE494-4942-4BD2-AB73-35B8FF40E19F''"
  by (simp add: IID_ICoreWebView2NavigationStartingEventArgs3_def uuid_simps)

lemma uuid_ICoreWebView2NewWindowRequestedEventArgs2:
  "guid_string IID_ICoreWebView2NewWindowRequestedEventArgs2 = map c_tolower ''bbc7baed-74c6-4c92-b63a-7f5aeae03de3''"
  by (simp add: IID_ICoreWebView2NewWindowRequestedEventArgs2_def uuid_simps)

lemma uuid_ICoreWebView2NewWindowRequestedEventArgs3:
  "guid_string IID_ICoreWebView2NewWindowRequestedEventArgs3 = map c_tolower ''842bed3c-6ad6-4dd9-b938-28c96667ad66''"
  by (simp add: IID_ICoreWebView2NewWindowRequestedEventArgs3_def uuid_simps)

lemma uuid_ICoreWebView2PermissionRequestedEventArgs:
  "guid_string IID_ICoreWebView2PermissionRequestedEventArgs = map c_tolower ''973ae2ef-ff18-4894-8fb2-3c758f046810''"
  by (simp add: IID_ICoreWebView2PermissionRequestedEventArgs_def uuid_simps)

lemma uuid_ICoreWebView2PermissionRequestedEventArgs2:
  "guid_string IID_ICoreWebView2PermissionRequestedEventArgs2 = map c_tolower ''74d7127f-9de6-4200-8734-42d6fb4ff741''"
  by (simp add: IID_ICoreWebView2PermissionRequestedEventArgs2_def uuid_simps)

lemma uuid_ICoreWebView2PermissionRequestedEventArgs3:
  "guid_string IID_ICoreWebView2PermissionRequestedEventArgs3 = map c_tolower ''e61670bc-3dce-4177-86d2-c629ae3cb6ac''"
  by (simp add: IID_ICoreWebView2PermissionRequestedEventArgs3_def uuid_simps)

lemma uuid_ICoreWebView2PermissionSettingCollectionView:
  "guid_string IID_ICoreWebView2PermissionSettingCollectionView = map c_tolower ''f5596f62-3de5-47b1-91e8-a4104b596b96''"
  by (simp add: IID_ICoreWebView2PermissionSettingCollectionView_def uuid_simps)

lemma uuid_ICoreWebView2PermissionSetting:
  "guid_string IID_ICoreWebView2PermissionSetting = map c_tolower ''792b6eca-5576-421c-9119-74ebb3a4ffb3''"
  by (simp add: IID_ICoreWebView2PermissionSetting_def uuid_simps)

lemma uuid_ICoreWebView2PointerInfo:
  "guid_string IID_ICoreWebView2PointerInfo = map c_tolower ''e6995887-d10d-4f5d-9359-4ce46e4f96b9''"
  by (simp add: IID_ICoreWebView2PointerInfo_def uuid_simps)

lemma uuid_ICoreWebView2PrintSettings:
  "guid_string IID_ICoreWebView2PrintSettings = map c_tolower ''377f3721-c74e-48ca-8db1-df68e51d60e2''"
  by (simp add: IID_ICoreWebView2PrintSettings_def uuid_simps)

lemma uuid_ICoreWebView2PrintSettings2:
  "guid_string IID_ICoreWebView2PrintSettings2 = map c_tolower ''CA7F0E1F-3484-41D1-8C1A-65CD44A63F8D''"
  by (simp add: IID_ICoreWebView2PrintSettings2_def uuid_simps)

lemma uuid_ICoreWebView2ProcessFailedEventArgs:
  "guid_string IID_ICoreWebView2ProcessFailedEventArgs = map c_tolower ''8155a9a4-1474-4a86-8cae-151b0fa6b8ca''"
  by (simp add: IID_ICoreWebView2ProcessFailedEventArgs_def uuid_simps)

lemma uuid_ICoreWebView2ProcessFailedEventArgs2:
  "guid_string IID_ICoreWebView2ProcessFailedEventArgs2 = map c_tolower ''4dab9422-46fa-4c3e-a5d2-41d2071d3680''"
  by (simp add: IID_ICoreWebView2ProcessFailedEventArgs2_def uuid_simps)

lemma uuid_ICoreWebView2ServerCertificateErrorDetectedEventArgs:
  "guid_string IID_ICoreWebView2ServerCertificateErrorDetectedEventArgs = map c_tolower ''012193ED-7C13-48FF-969D-A84C1F432A14''"
  by (simp add: IID_ICoreWebView2ServerCertificateErrorDetectedEventArgs_def uuid_simps)

lemma uuid_ICoreWebView2ScriptDialogOpeningEventArgs:
  "guid_string IID_ICoreWebView2ScriptDialogOpeningEventArgs = map c_tolower ''7390bb70-abe0-4843-9529-f143b31b03d6''"
  by (simp add: IID_ICoreWebView2ScriptDialogOpeningEventArgs_def uuid_simps)

lemma uuid_ICoreWebView2SourceChangedEventArgs:
  "guid_string IID_ICoreWebView2SourceChangedEventArgs = map c_tolower ''31e0e545-1dba-4266-8914-f63848a1f7d7''"
  by (simp add: IID_ICoreWebView2SourceChangedEventArgs_def uuid_simps)

lemma uuid_ICoreWebView2WebMessageReceivedEventArgs:
  "guid_string IID_ICoreWebView2WebMessageReceivedEventArgs = map c_tolower ''0f99a40c-e962-4207-9e92-e3d542eff849''"
  by (simp add: IID_ICoreWebView2WebMessageReceivedEventArgs_def uuid_simps)

lemma uuid_ICoreWebView2WebResourceRequestedEventArgs2:
  "guid_string IID_ICoreWebView2WebResourceRequestedEventArgs2 = map c_tolower ''9C562C24-B219-4D7F-92F6-B187FBBADD56''"
  by (simp add: IID_ICoreWebView2WebResourceRequestedEventArgs2_def uuid_simps)

lemma uuid_ICoreWebView2WebResourceResponseReceivedEventArgs:
  "guid_string IID_ICoreWebView2WebResourceResponseReceivedEventArgs = map c_tolower ''D1DB483D-6796-4B8B-80FC-13712BB716F4''"
  by (simp add: IID_ICoreWebView2WebResourceResponseReceivedEventArgs_def uuid_simps)

lemma uuid_ICoreWebView2WebResourceResponseView:
  "guid_string IID_ICoreWebView2WebResourceResponseView = map c_tolower ''79701053-7759-4162-8F7D-F1B3F084928D''"
  by (simp add: IID_ICoreWebView2WebResourceResponseView_def uuid_simps)

lemma uuid_ICoreWebView2WindowFeatures:
  "guid_string IID_ICoreWebView2WindowFeatures = map c_tolower ''5eaf559f-b46e-4397-8860-e422f287ff1e''"
  by (simp add: IID_ICoreWebView2WindowFeatures_def uuid_simps)

lemma uuid_ICoreWebView2BrowserExtensionList:
  "guid_string IID_ICoreWebView2BrowserExtensionList = map c_tolower ''2EF3D2DC-BD5F-4F4D-90AF-FD67798F0C2F''"
  by (simp add: IID_ICoreWebView2BrowserExtensionList_def uuid_simps)

lemma uuid_ICoreWebView2BrowserExtension:
  "guid_string IID_ICoreWebView2BrowserExtension = map c_tolower ''7EF7FFA0-FAC5-462C-B189-3D9EDBE575DA''"
  by (simp add: IID_ICoreWebView2BrowserExtension_def uuid_simps)

lemma uuid_ICoreWebView2ExecuteScriptResult:
  "guid_string IID_ICoreWebView2ExecuteScriptResult = map c_tolower ''0CE15963-3698-4DF7-9399-71ED6CDD8C9F''"
  by (simp add: IID_ICoreWebView2ExecuteScriptResult_def uuid_simps)

lemma uuid_ICoreWebView2ScriptException:
  "guid_string IID_ICoreWebView2ScriptException = map c_tolower ''054DAE00-84A3-49FF-BC17-4012A90BC9FD''"
  by (simp add: IID_ICoreWebView2ScriptException_def uuid_simps)

lemma uuid_ICoreWebView2File:
  "guid_string IID_ICoreWebView2File = map c_tolower ''f2c19559-6bc1-4583-a757-90021be9afec''"
  by (simp add: IID_ICoreWebView2File_def uuid_simps)

lemma uuid_ICoreWebView2ObjectCollectionView:
  "guid_string IID_ICoreWebView2ObjectCollectionView = map c_tolower ''0f36fd87-4f69-4415-98da-888f89fb9a33''"
  by (simp add: IID_ICoreWebView2ObjectCollectionView_def uuid_simps)

lemma uuid_ICoreWebView2WebMessageReceivedEventArgs2:
  "guid_string IID_ICoreWebView2WebMessageReceivedEventArgs2 = map c_tolower ''06fc7ab7-c90c-4297-9389-33ca01cf6d5e''"
  by (simp add: IID_ICoreWebView2WebMessageReceivedEventArgs2_def uuid_simps)

lemma uuid_ICoreWebView2AddScriptToExecuteOnDocumentCreatedCompletedHandler:
  "guid_string IID_ICoreWebView2AddScriptToExecuteOnDocumentCreatedCompletedHandler = map c_tolower ''b99369f3-9b11-47b5-bc6f-8e7895fcea17''"
  by (simp add: IID_ICoreWebView2AddScriptToExecuteOnDocumentCreatedCompletedHandler_def uuid_simps)

lemma uuid_ICoreWebView2CallDevToolsProtocolMethodCompletedHandler:
  "guid_string IID_ICoreWebView2CallDevToolsProtocolMethodCompletedHandler = map c_tolower ''5c4889f0-5ef6-4c5a-952c-d8f1b92d0574''"
  by (simp add: IID_ICoreWebView2CallDevToolsProtocolMethodCompletedHandler_def uuid_simps)

lemma uuid_ICoreWebView2CapturePreviewCompletedHandler:
  "guid_string IID_ICoreWebView2CapturePreviewCompletedHandler = map c_tolower ''697e05e9-3d8f-45fa-96f4-8ffe1ededaf5''"
  by (simp add: IID_ICoreWebView2CapturePreviewCompletedHandler_def uuid_simps)

lemma uuid_ICoreWebView2BasicAuthenticationRequestedEventHandler:
  "guid_string IID_ICoreWebView2BasicAuthenticationRequestedEventHandler = map c_tolower ''58b4d6c2-18d4-497e-b39b-9a96533fa278''"
  by (simp add: IID_ICoreWebView2BasicAuthenticationRequestedEventHandler_def uuid_simps)

lemma uuid_ICoreWebView2BrowserProcessExitedEventHandler:
  "guid_string IID_ICoreWebView2BrowserProcessExitedEventHandler = map c_tolower ''fa504257-a216-4911-a860-fe8825712861''"
  by (simp add: IID_ICoreWebView2BrowserProcessExitedEventHandler_def uuid_simps)

lemma uuid_ICoreWebView2BytesReceivedChangedEventHandler:
  "guid_string IID_ICoreWebView2BytesReceivedChangedEventHandler = map c_tolower ''828e8ab6-d94c-4264-9cef-5217170d6251''"
  by (simp add: IID_ICoreWebView2BytesReceivedChangedEventHandler_def uuid_simps)

lemma uuid_ICoreWebView2ContentLoadingEventHandler:
  "guid_string IID_ICoreWebView2ContentLoadingEventHandler = map c_tolower ''364471e7-f2be-4910-bdba-d72077d51c4b''"
  by (simp add: IID_ICoreWebView2ContentLoadingEventHandler_def uuid_simps)

lemma uuid_ICoreWebView2ClearBrowsingDataCompletedHandler:
  "guid_string IID_ICoreWebView2ClearBrowsingDataCompletedHandler = map c_tolower ''e9710a06-1d1d-49b2-8234-226f35846ae5''"
  by (simp add: IID_ICoreWebView2ClearBrowsingDataCompletedHandler_def uuid_simps)

lemma uuid_ICoreWebView2ClientCertificateRequestedEventHandler:
  "guid_string IID_ICoreWebView2ClientCertificateRequestedEventHandler = map c_tolower ''d7175ba2-bcc3-11eb-8529-0242ac130003''"
  by (simp add: IID_ICoreWebView2ClientCertificateRequestedEventHandler_def uuid_simps)

lemma uuid_ICoreWebView2ClearServerCertificateErrorActionsCompletedHandler:
  "guid_string IID_ICoreWebView2ClearServerCertificateErrorActionsCompletedHandler = map c_tolower ''3B40AAC6-ACFE-4FFD-8211-F607B96E2D5B''"
  by (simp add: IID_ICoreWebView2ClearServerCertificateErrorActionsCompletedHandler_def uuid_simps)

lemma uuid_ICoreWebView2CreateCoreWebView2CompositionControllerCompletedHandler:
  "guid_string IID_ICoreWebView2CreateCoreWebView2CompositionControllerCompletedHandler = map c_tolower ''02fab84b-1428-4fb7-ad45-1b2e64736184''"
  by (simp add: IID_ICoreWebView2CreateCoreWebView2CompositionControllerCompletedHandler_def uuid_simps)

lemma uuid_ICoreWebView2ContainsFullScreenElementChangedEventHandler:
  "guid_string IID_ICoreWebView2ContainsFullScreenElementChangedEventHandler = map c_tolower ''e45d98b1-afef-45be-8baf-6c7728867f73''"
  by (simp add: IID_ICoreWebView2ContainsFullScreenElementChangedEventHandler_def uuid_simps)

lemma uuid_ICoreWebView2CursorChangedEventHandler:
  "guid_string IID_ICoreWebView2CursorChangedEventHandler = map c_tolower ''9da43ccc-26e1-4dad-b56c-d8961c94c571''"
  by (simp add: IID_ICoreWebView2CursorChangedEventHandler_def uuid_simps)

lemma uuid_ICoreWebView2CustomItemSelectedEventHandler:
  "guid_string IID_ICoreWebView2CustomItemSelectedEventHandler = map c_tolower ''49e1d0bc-fe9e-4481-b7c2-32324aa21998''"
  by (simp add: IID_ICoreWebView2CustomItemSelectedEventHandler_def uuid_simps)

lemma uuid_ICoreWebView2DocumentTitleChangedEventHandler:
  "guid_string IID_ICoreWebView2DocumentTitleChangedEventHandler = map c_tolower ''f5f2b923-953e-4042-9f95-f3a118e1afd4''"
  by (simp add: IID_ICoreWebView2DocumentTitleChangedEventHandler_def uuid_simps)

lemma uuid_ICoreWebView2DevToolsProtocolEventReceivedEventHandler:
  "guid_string IID_ICoreWebView2DevToolsProtocolEventReceivedEventHandler = map c_tolower ''e2fda4be-5456-406c-a261-3d452138362c''"
  by (simp add: IID_ICoreWebView2DevToolsProtocolEventReceivedEventHandler_def uuid_simps)

lemma uuid_ICoreWebView2DownloadStartingEventHandler:
  "guid_string IID_ICoreWebView2DownloadStartingEventHandler = map c_tolower ''efedc989-c396-41ca-83f7-07f845a55724''"
  by (simp add: IID_ICoreWebView2DownloadStartingEventHandler_def uuid_simps)

lemma uuid_ICoreWebView2EstimatedEndTimeChangedEventHandler:
  "guid_string IID_ICoreWebView2EstimatedEndTimeChangedEventHandler = map c_tolower ''28f0d425-93fe-4e63-9f8d-2aeec6d3ba1e''"
  by (simp add: IID_ICoreWebView2EstimatedEndTimeChangedEventHandler_def uuid_simps)

lemma uuid_ICoreWebView2ExecuteScriptCompletedHandler:
  "guid_string IID_ICoreWebView2ExecuteScriptCompletedHandler = map c_tolower ''49511172-cc67-4bca-9923-137112f4c4cc''"
  by (simp add: IID_ICoreWebView2ExecuteScriptCompletedHandler_def uuid_simps)

lemma uuid_ICoreWebView2GetProcessExtendedInfosCompletedHandler:
  "guid_string IID_ICoreWebView2GetProcessExtendedInfosCompletedHandler = map c_tolower ''f45e55aa-3bc2-11ee-be56-0242ac120002''"
  by (simp add: IID_ICoreWebView2GetProcessExtendedInfosCompletedHandler_def uuid_simps)

lemma uuid_ICoreWebView2FrameContentLoadingEventHandler:
  "guid_string IID_ICoreWebView2FrameContentLoadingEventHandler = map c_tolower ''0d6156f2-d332-49a7-9e03-7d8f2feeee54''"
  by (simp add: IID_ICoreWebView2FrameContentLoadingEventHandler_def uuid_simps)

lemma uuid_ICoreWebView2FrameCreatedEventHandler:
  "guid_string IID_ICoreWebView2FrameCreatedEventHandler = map c_tolower ''38059770-9baa-11eb-a8b3-0242ac130003''"
  by (simp add: IID_ICoreWebView2FrameCreatedEventHandler_def uuid_simps)

lemma uuid_ICoreWebView2FrameDestroyedEventHandler:
  "guid_string IID_ICoreWebView2FrameDestroyedEventHandler = map c_tolower ''59dd7b4c-9baa-11eb-a8b3-0242ac130003''"
  by (simp add: IID_ICoreWebView2FrameDestroyedEventHandler_def uuid_simps)

lemma uuid_ICoreWebView2FrameDOMContentLoadedEventHandler:
  "guid_string IID_ICoreWebView2FrameDOMContentLoadedEventHandler = map c_tolower ''38d9520d-340f-4d1e-a775-43fce9753683''"
  by (simp add: IID_ICoreWebView2FrameDOMContentLoadedEventHandler_def uuid_simps)

lemma uuid_ICoreWebView2FrameNameChangedEventHandler:
  "guid_string IID_ICoreWebView2FrameNameChangedEventHandler = map c_tolower ''435c7dc8-9baa-11eb-a8b3-0242ac130003''"
  by (simp add: IID_ICoreWebView2FrameNameChangedEventHandler_def uuid_simps)

lemma uuid_ICoreWebView2FrameNavigationCompletedEventHandler:
  "guid_string IID_ICoreWebView2FrameNavigationCompletedEventHandler = map c_tolower ''609302ad-0e36-4f9a-a210-6a45272842a9''"
  by (simp add: IID_ICoreWebView2FrameNavigationCompletedEventHandler_def uuid_simps)

lemma uuid_ICoreWebView2FrameNavigationStartingEventHandler:
  "guid_string IID_ICoreWebView2FrameNavigationStartingEventHandler = map c_tolower ''e79908bf-2d5d-4968-83db-263fea2c1da3''"
  by (simp add: IID_ICoreWebView2FrameNavigationStartingEventHandler_def uuid_simps)

lemma uuid_ICoreWebView2FramePermissionRequestedEventHandler:
  "guid_string IID_ICoreWebView2FramePermissionRequestedEventHandler = map c_tolower ''845d0edd-8bd8-429b-9915-4821789f23e9''"
  by (simp add: IID_ICoreWebView2FramePermissionRequestedEventHandler_def uuid_simps)

lemma uuid_ICoreWebView2FrameWebMessageReceivedEventHandler:
  "guid_string IID_ICoreWebView2FrameWebMessageReceivedEventHandler = map c_tolower ''e371e005-6d1d-4517-934b-a8f1629c62a5''"
  by (simp add: IID_ICoreWebView2FrameWebMessageReceivedEventHandler_def uuid_simps)

lemma uuid_ICoreWebView2FocusChangedEventHandler:
  "guid_string IID_ICoreWebView2FocusChangedEventHandler = map c_tolower ''05ea24bd-6452-4926-9014-4b82b498135d''"
  by (simp add: IID_ICoreWebView2FocusChangedEventHandler_def uuid_simps)

lemma uuid_ICoreWebView2GetCookiesCompletedHandler:
  "guid_string IID_ICoreWebView2GetCookiesCompletedHandler = map c_tolower ''5A4F5069-5C15-47C3-8646-F4DE1C116670''"
  by (simp add: IID_ICoreWebView2GetCookiesCompletedHandler_def uuid_simps)

lemma uuid_ICoreWebView2GetNonDefaultPermissionSettingsCompletedHandler:
  "guid_string IID_ICoreWebView2GetNonDefaultPermissionSettingsCompletedHandler = map c_tolower ''38274481-a15c-4563-94cf-990edc9aeb95''"
  by (simp add: IID_ICoreWebView2GetNonDefaultPermissionSettingsCompletedHandler_def uuid_simps)

lemma uuid_ICoreWebView2HistoryChangedEventHandler:
  "guid_string IID_ICoreWebView2HistoryChangedEventHandler = map c_tolower ''c79a420c-efd9-4058-9295-3e8b4bcab645''"
  by (simp add: IID_ICoreWebView2HistoryChangedEventHandler_def uuid_simps)

lemma uuid_ICoreWebView2IsDefaultDownloadDialogOpenChangedEventHandler:
  "guid_string IID_ICoreWebView2IsDefaultDownloadDialogOpenChangedEventHandler = map c_tolower ''3117da26-ae13-438d-bd46-edbeb2c4ce81''"
  by (simp add: IID_ICoreWebView2IsDefaultDownloadDialogOpenChangedEventHandler_def uuid_simps)

lemma uuid_ICoreWebView2LaunchingExternalUriSchemeEventHandler:
  "guid_string IID_ICoreWebView2LaunchingExternalUriSchemeEventHandler = map c_tolower ''74F712E0-8165-43A9-A13F-0CCE597E75DF''"
  by (simp add: IID_ICoreWebView2LaunchingExternalUriSchemeEventHandler_def uuid_simps)

lemma uuid_ICoreWebView2MoveFocusRequestedEventHandler:
  "guid_string IID_ICoreWebView2MoveFocusRequestedEventHandler = map c_tolower ''69035451-6dc7-4cb8-9bce-b2bd70ad289f''"
  by (simp add: IID_ICoreWebView2MoveFocusRequestedEventHandler_def uuid_simps)

lemma uuid_ICoreWebView2NavigationStartingEventHandler:
  "guid_string IID_ICoreWebView2NavigationStartingEventHandler = map c_tolower ''9adbe429-f36d-432b-9ddc-f8881fbd76e3''"
  by (simp add: IID_ICoreWebView2NavigationStartingEventHandler_def uuid_simps)

lemma uuid_ICoreWebView2NewBrowserVersionAvailableEventHandler:
  "guid_string IID_ICoreWebView2NewBrowserVersionAvailableEventHandler = map c_tolower ''f9a2976e-d34e-44fc-adee-81b6b57ca914''"
  by (simp add: IID_ICoreWebView2NewBrowserVersionAvailableEventHandler_def uuid_simps)

lemma uuid_ICoreWebView2PermissionRequestedEventHandler:
  "guid_string IID_ICoreWebView2PermissionRequestedEventHandler = map c_tolower ''15e1c6a3-c72a-4df3-91d7-d097fbec6bfd''"
  by (simp add: IID_ICoreWebView2PermissionRequestedEventHandler_def uuid_simps)

lemma uuid_ICoreWebView2PrintToPdfCompletedHandler:
  "guid_string IID_ICoreWebView2PrintToPdfCompletedHandler = map c_tolower ''ccf1ef04-fd8e-4d5f-b2de-0983e41b8c36''"
  by (simp add: IID_ICoreWebView2PrintToPdfCompletedHandler_def uuid_simps)

lemma uuid_ICoreWebView2PrintCompletedHandler:
  "guid_string IID_ICoreWebView2PrintCompletedHandler = map c_tolower ''8FD80075-ED08-42DB-8570-F5D14977461E''"
  by (simp add: IID_ICoreWebView2PrintCompletedHandler_def uuid_simps)

lemma uuid_ICoreWebView2PrintToPdfStreamCompletedHandler:
  "guid_string IID_ICoreWebView2PrintToPdfStreamCompletedHandler = map c_tolower ''4C9F8229-8F93-444F-A711-2C0DFD6359D5''"
  by (simp add: IID_ICoreWebView2PrintToPdfStreamCompletedHandler_def uuid_simps)

lemma uuid_ICoreWebView2ProcessFailedEventHandler:
  "guid_string IID_ICoreWebView2ProcessFailedEventHandler = map c_tolower ''79e0aea4-990b-42d9-aa1d-0fcc2e5bc7f1''"
  by (simp add: IID_ICoreWebView2ProcessFailedEventHandler_def uuid_simps)

lemma uuid_ICoreWebView2ProfileDeletedEventHandler:
  "guid_string IID_ICoreWebView2ProfileDeletedEventHandler = map c_tolower ''DF35055D-772E-4DBE-B743-5FBF74A2B258''"
  by (simp add: IID_ICoreWebView2ProfileDeletedEventHandler_def uuid_simps)

lemma uuid_ICoreWebView2RasterizationScaleChangedEventHandler:
  "guid_string IID_ICoreWebView2RasterizationScaleChangedEventHandler = map c_tolower ''9c98c8b1-ac53-427e-a345-3049b5524bbe''"
  by (simp add: IID_ICoreWebView2RasterizationScaleChangedEventHandler_def uuid_simps)

lemma uuid_ICoreWebView2ServerCertificateErrorDetectedEventHandler:
  "guid_string IID_ICoreWebView2ServerCertificateErrorDetectedEventHandler = map c_tolower ''969B3A26-D85E-4795-8199-FEF57344DA22''"
  by (simp add: IID_ICoreWebView2ServerCertificateErrorDetectedEventHandler_def uuid_simps)

lemma uuid_ICoreWebView2SetPermissionStateCompletedHandler:
  "guid_string IID_ICoreWebView2SetPermissionStateCompletedHandler = map c_tolower ''fc77fb30-9c9e-4076-b8c7-7644a703ca1b''"
  by (simp add: IID_ICoreWebView2SetPermissionStateCompletedHandler_def uuid_simps)

lemma uuid_ICoreWebView2ScriptDialogOpeningEventHandler:
  "guid_string IID_ICoreWebView2ScriptDialogOpeningEventHandler = map c_tolower ''ef381bf9-afa8-4e37-91c4-8ac48524bdfb''"
  by (simp add: IID_ICoreWebView2ScriptDialogOpeningEventHandler_def uuid_simps)

lemma uuid_ICoreWebView2SourceChangedEventHandler:
  "guid_string IID_ICoreWebView2SourceChangedEventHandler = map c_tolower ''3c067f9f-5388-4772-8b48-79f7ef1ab37c''"
  by (simp add: IID_ICoreWebView2SourceChangedEventHandler_def uuid_simps)

lemma uuid_ICoreWebView2StateChangedEventHandler:
  "guid_string IID_ICoreWebView2StateChangedEventHandler = map c_tolower ''81336594-7ede-4ba9-bf71-acf0a95b58dd''"
  by (simp add: IID_ICoreWebView2StateChangedEventHandler_def uuid_simps)

lemma uuid_ICoreWebView2StatusBarTextChangedEventHandler:
  "guid_string IID_ICoreWebView2StatusBarTextChangedEventHandler = map c_tolower ''A5E3B0D0-10DF-4156-BFAD-3B43867ACAC6''"
  by (simp add: IID_ICoreWebView2StatusBarTextChangedEventHandler_def uuid_simps)

lemma uuid_ICoreWebView2TrySuspendCompletedHandler:
  "guid_string IID_ICoreWebView2TrySuspendCompletedHandler = map c_tolower ''00F206A7-9D17-4605-91F6-4E8E4DE192E3''"
  by (simp add: IID_ICoreWebView2TrySuspendCompletedHandler_def uuid_simps)

lemma uuid_ICoreWebView2WebMessageReceivedEventHandler:
  "guid_string IID_ICoreWebView2WebMessageReceivedEventHandler = map c_tolower ''57213f19-00e6-49fa-8e07-898ea01ecbd2''"
  by (simp add: IID_ICoreWebView2WebMessageReceivedEventHandler_def uuid_simps)

lemma uuid_ICoreWebView2WebResourceResponseReceivedEventHandler:
  "guid_string IID_ICoreWebView2WebResourceResponseReceivedEventHandler = map c_tolower ''7DE9898A-24F5-40C3-A2DE-D4F458E69828''"
  by (simp add: IID_ICoreWebView2WebResourceResponseReceivedEventHandler_def uuid_simps)

lemma uuid_ICoreWebView2WebResourceResponseViewGetContentCompletedHandler:
  "guid_string IID_ICoreWebView2WebResourceResponseViewGetContentCompletedHandler = map c_tolower ''875738E1-9FA2-40E3-8B74-2E8972DD6FE7''"
  by (simp add: IID_ICoreWebView2WebResourceResponseViewGetContentCompletedHandler_def uuid_simps)

lemma uuid_ICoreWebView2WindowCloseRequestedEventHandler:
  "guid_string IID_ICoreWebView2WindowCloseRequestedEventHandler = map c_tolower ''5c19e9e0-092f-486b-affa-ca8231913039''"
  by (simp add: IID_ICoreWebView2WindowCloseRequestedEventHandler_def uuid_simps)

lemma uuid_ICoreWebView2ZoomFactorChangedEventHandler:
  "guid_string IID_ICoreWebView2ZoomFactorChangedEventHandler = map c_tolower ''b52d71d6-c4df-4543-a90c-64a3e60f38cb''"
  by (simp add: IID_ICoreWebView2ZoomFactorChangedEventHandler_def uuid_simps)

lemma uuid_ICoreWebView2IsMutedChangedEventHandler:
  "guid_string IID_ICoreWebView2IsMutedChangedEventHandler = map c_tolower ''57D90347-CD0E-4952-A4A2-7483A2756F08''"
  by (simp add: IID_ICoreWebView2IsMutedChangedEventHandler_def uuid_simps)

lemma uuid_ICoreWebView2IsDocumentPlayingAudioChangedEventHandler:
  "guid_string IID_ICoreWebView2IsDocumentPlayingAudioChangedEventHandler = map c_tolower ''5DEF109A-2F4B-49FA-B7F6-11C39E513328''"
  by (simp add: IID_ICoreWebView2IsDocumentPlayingAudioChangedEventHandler_def uuid_simps)

lemma uuid_ICoreWebView2ProcessInfosChangedEventHandler:
  "guid_string IID_ICoreWebView2ProcessInfosChangedEventHandler = map c_tolower ''F4AF0C39-44B9-40E9-8B11-0484CFB9E0A1''"
  by (simp add: IID_ICoreWebView2ProcessInfosChangedEventHandler_def uuid_simps)

lemma uuid_ICoreWebView2FaviconChangedEventHandler:
  "guid_string IID_ICoreWebView2FaviconChangedEventHandler = map c_tolower ''2913DA94-833D-4DE0-8DCA-900FC524A1A4''"
  by (simp add: IID_ICoreWebView2FaviconChangedEventHandler_def uuid_simps)

lemma uuid_ICoreWebView2GetFaviconCompletedHandler:
  "guid_string IID_ICoreWebView2GetFaviconCompletedHandler = map c_tolower ''A2508329-7DA8-49D7-8C05-FA125E4AEE8D''"
  by (simp add: IID_ICoreWebView2GetFaviconCompletedHandler_def uuid_simps)

lemma uuid_ICoreWebView2ProfileAddBrowserExtensionCompletedHandler:
  "guid_string IID_ICoreWebView2ProfileAddBrowserExtensionCompletedHandler = map c_tolower ''DF1AAB27-82B9-4AB6-AAE8-017A49398C14''"
  by (simp add: IID_ICoreWebView2ProfileAddBrowserExtensionCompletedHandler_def uuid_simps)

lemma uuid_ICoreWebView2ProfileGetBrowserExtensionsCompletedHandler:
  "guid_string IID_ICoreWebView2ProfileGetBrowserExtensionsCompletedHandler = map c_tolower ''FCE16A1C-F107-4601-8B75-FC4940AE25D0''"
  by (simp add: IID_ICoreWebView2ProfileGetBrowserExtensionsCompletedHandler_def uuid_simps)

lemma uuid_ICoreWebView2BrowserExtensionEnableCompletedHandler:
  "guid_string IID_ICoreWebView2BrowserExtensionEnableCompletedHandler = map c_tolower ''30C186CE-7FAD-421F-A3BC-A8EAF071DDB8''"
  by (simp add: IID_ICoreWebView2BrowserExtensionEnableCompletedHandler_def uuid_simps)

lemma uuid_ICoreWebView2BrowserExtensionRemoveCompletedHandler:
  "guid_string IID_ICoreWebView2BrowserExtensionRemoveCompletedHandler = map c_tolower ''8E41909A-9B18-4BB1-8CDF-930F467A50BE''"
  by (simp add: IID_ICoreWebView2BrowserExtensionRemoveCompletedHandler_def uuid_simps)

lemma uuid_ICoreWebView2ExecuteScriptWithResultCompletedHandler:
  "guid_string IID_ICoreWebView2ExecuteScriptWithResultCompletedHandler = map c_tolower ''1BB5317B-8238-4C67-A7FF-BAF6558F289D''"
  by (simp add: IID_ICoreWebView2ExecuteScriptWithResultCompletedHandler_def uuid_simps)

lemma browser_ids_agree: "list_all (\<lambda>(i, g, u). guid_string g = map c_tolower u) browser_ids"
  by (simp only: browser_ids_def list.pred_inject prod.case simp_thms
    uuid_ICoreWebView2 uuid_ICoreWebView2_2 uuid_ICoreWebView2_3 uuid_ICoreWebView2_4 uuid_ICoreWebView2_5
    uuid_ICoreWebView2_6 uuid_ICoreWebView2_7 uuid_ICoreWebView2_8 uuid_ICoreWebView2_9 uuid_ICoreWebView2_10
    uuid_ICoreWebView2_11 uuid_ICoreWebView2_12 uuid_ICoreWebView2_13 uuid_ICoreWebView2_14 uuid_ICoreWebView2_15
    uuid_ICoreWebView2_16 uuid_ICoreWebView2_17 uuid_ICoreWebView2_18 uuid_ICoreWebView2_19 uuid_ICoreWebView2_20
    uuid_ICoreWebView2_21 uuid_ICoreWebView2_22)

lemma services_ids_agree: "list_all (\<lambda>(i, g, u). guid_string g = map c_tolower u) services_ids"
  by (simp only: services_ids_def list.pred_inject prod.case simp_thms
    uuid_ICoreWebView2CompositionController uuid_ICoreWebView2CompositionController2
    uuid_ICoreWebView2CompositionController3 uuid_ICoreWebView2Controller uuid_ICoreWebView2Controller2
    uuid_ICoreWebView2Controller3 uuid_ICoreWebView2Controller4 uuid_ICoreWebView2ControllerOptions
    uuid_ICoreWebView2ControllerOptions2 uuid_ICoreWebView2CookieManager uuid_ICoreWebView2DownloadOperation
    uuid_ICoreWebView2Environment uuid_ICoreWebView2Environment2 uuid_ICoreWebView2Environment3
    uuid_ICoreWebView2Environment4 uuid_ICoreWebView2Environment5 uuid_ICoreWebView2Environment6
    uuid_ICoreWebView2Environment7 uuid_ICoreWebView2Environment8 uuid_ICoreWebView2Environment9
    uuid_ICoreWebView2Environment10 uuid_ICoreWebView2Environment11 uuid_ICoreWebView2Environment12
    uuid_ICoreWebView2Environment13 uuid_ICoreWebView2EnvironmentOptions uuid_ICoreWebView2EnvironmentOptions2
    uuid_ICoreWebView2EnvironmentOptions3 uuid_ICoreWebView2EnvironmentOptions4
    uuid_ICoreWebView2EnvironmentOptions5 uuid_ICoreWebView2EnvironmentOptions6
    uuid_ICoreWebView2ProcessExtendedInfo uuid_ICoreWebView2ProcessExtendedInfoCollection uuid_ICoreWebView2Frame
    uuid_ICoreWebView2Frame2 uuid_ICoreWebView2Frame3 uuid_ICoreWebView2Frame4 uuid_ICoreWebView2Frame5
    uuid_ICoreWebView2FrameInfo uuid_ICoreWebView2FrameInfo2 uuid_ICoreWebView2FrameInfoCollection
    uuid_ICoreWebView2FrameInfoCollectionIterator uuid_ICoreWebView2Profile uuid_ICoreWebView2Profile2
    uuid_ICoreWebView2Profile3 uuid_ICoreWebView2Profile4 uuid_ICoreWebView2Profile5 uuid_ICoreWebView2Profile6
    uuid_ICoreWebView2Profile7 uuid_ICoreWebView2Profile8 uuid_ICoreWebView2Settings uuid_ICoreWebView2Settings2
    uuid_ICoreWebView2Settings3 uuid_ICoreWebView2Settings4 uuid_ICoreWebView2Settings5
    uuid_ICoreWebView2Settings6 uuid_ICoreWebView2Settings7 uuid_ICoreWebView2Settings8
    uuid_ICoreWebView2SharedBuffer uuid_ICoreWebView2ProcessInfo uuid_ICoreWebView2ProcessInfoCollection)

lemma objects_ids_agree: "list_all (\<lambda>(i, g, u). guid_string g = map c_tolower u) objects_ids"
  by (simp only: objects_ids_def list.pred_inject prod.case simp_thms
    uuid_ICoreWebView2AcceleratorKeyPressedEventArgs uuid_ICoreWebView2AcceleratorKeyPressedEventArgs2
    uuid_ICoreWebView2BasicAuthenticationRequestedEventArgs uuid_ICoreWebView2BasicAuthenticationResponse
    uuid_ICoreWebView2BrowserProcessExitedEventArgs uuid_ICoreWebView2ContentLoadingEventArgs
    uuid_ICoreWebView2ContextMenuRequestedEventArgs uuid_ICoreWebView2Cookie uuid_ICoreWebView2CookieList
    uuid_ICoreWebView2Certificate uuid_ICoreWebView2ClientCertificate uuid_ICoreWebView2StringCollection
    uuid_ICoreWebView2ClientCertificateCollection uuid_ICoreWebView2ClientCertificateRequestedEventArgs
    uuid_ICoreWebView2ContextMenuItem uuid_ICoreWebView2ContextMenuItemCollection
    uuid_ICoreWebView2ContextMenuTarget uuid_ICoreWebView2CustomSchemeRegistration
    uuid_ICoreWebView2DOMContentLoadedEventArgs uuid_ICoreWebView2Deferral
    uuid_ICoreWebView2DevToolsProtocolEventReceivedEventArgs
    uuid_ICoreWebView2DevToolsProtocolEventReceivedEventArgs2 uuid_ICoreWebView2DevToolsProtocolEventReceiver
    uuid_ICoreWebView2DownloadStartingEventArgs uuid_ICoreWebView2FrameCreatedEventArgs
    uuid_ICoreWebView2HttpHeadersCollectionIterator uuid_ICoreWebView2HttpRequestHeaders
    uuid_ICoreWebView2HttpResponseHeaders uuid_ICoreWebView2LaunchingExternalUriSchemeEventArgs
    uuid_ICoreWebView2MoveFocusRequestedEventArgs uuid_ICoreWebView2NavigationCompletedEventArgs
    uuid_ICoreWebView2NavigationCompletedEventArgs2 uuid_ICoreWebView2NavigationStartingEventArgs
    uuid_ICoreWebView2NavigationStartingEventArgs2 uuid_ICoreWebView2NavigationStartingEventArgs3
    uuid_ICoreWebView2NewWindowRequestedEventArgs uuid_ICoreWebView2NewWindowRequestedEventArgs2
    uuid_ICoreWebView2NewWindowRequestedEventArgs3 uuid_ICoreWebView2PermissionRequestedEventArgs
    uuid_ICoreWebView2PermissionRequestedEventArgs2 uuid_ICoreWebView2PermissionRequestedEventArgs3
    uuid_ICoreWebView2PermissionSettingCollectionView uuid_ICoreWebView2PermissionSetting
    uuid_ICoreWebView2PointerInfo uuid_ICoreWebView2PrintSettings uuid_ICoreWebView2PrintSettings2
    uuid_ICoreWebView2ProcessFailedEventArgs uuid_ICoreWebView2ProcessFailedEventArgs2
    uuid_ICoreWebView2ServerCertificateErrorDetectedEventArgs uuid_ICoreWebView2ScriptDialogOpeningEventArgs
    uuid_ICoreWebView2SourceChangedEventArgs uuid_ICoreWebView2WebMessageReceivedEventArgs
    uuid_ICoreWebView2WebResourceRequest uuid_ICoreWebView2WebResourceRequestedEventArgs
    uuid_ICoreWebView2WebResourceRequestedEventArgs2 uuid_ICoreWebView2WebResourceResponse
    uuid_ICoreWebView2WebResourceResponseReceivedEventArgs uuid_ICoreWebView2WebResourceResponseView
    uuid_ICoreWebView2WindowFeatures uuid_ICoreWebView2BrowserExtensionList uuid_ICoreWebView2BrowserExtension
    uuid_ICoreWebView2ExecuteScriptResult uuid_ICoreWebView2ScriptException uuid_ICoreWebView2File
    uuid_ICoreWebView2ObjectCollectionView uuid_ICoreWebView2WebMessageReceivedEventArgs2)

lemma handlers_ids_agree: "list_all (\<lambda>(i, g, u). guid_string g = map c_tolower u) handlers_ids"
  by (simp only: handlers_ids_def list.pred_inject prod.case simp_thms
    uuid_ICoreWebView2AcceleratorKeyPressedEventHandler
    uuid_ICoreWebView2AddScriptToExecuteOnDocumentCreatedCompletedHandler
    uuid_ICoreWebView2CallDevToolsProtocolMethodCompletedHandler uuid_ICoreWebView2CapturePreviewCompletedHandler
    uuid_ICoreWebView2BasicAuthenticationRequestedEventHandler uuid_ICoreWebView2BrowserProcessExitedEventHandler
    uuid_ICoreWebView2BytesReceivedChangedEventHandler uuid_ICoreWebView2ContentLoadingEventHandler
    uuid_ICoreWebView2ContextMenuRequestedEventHandler uuid_ICoreWebView2ClearBrowsingDataCompletedHandler
    uuid_ICoreWebView2ClientCertificateRequestedEventHandler
    uuid_ICoreWebView2ClearServerCertificateErrorActionsCompletedHandler
    uuid_ICoreWebView2CreateCoreWebView2CompositionControllerCompletedHandler
    uuid_ICoreWebView2CreateCoreWebView2ControllerCompletedHandler
    uuid_ICoreWebView2CreateCoreWebView2EnvironmentCompletedHandler
    uuid_ICoreWebView2ContainsFullScreenElementChangedEventHandler uuid_ICoreWebView2CursorChangedEventHandler
    uuid_ICoreWebView2CustomItemSelectedEventHandler uuid_ICoreWebView2DocumentTitleChangedEventHandler
    uuid_ICoreWebView2DOMContentLoadedEventHandler uuid_ICoreWebView2DevToolsProtocolEventReceivedEventHandler
    uuid_ICoreWebView2DownloadStartingEventHandler uuid_ICoreWebView2EstimatedEndTimeChangedEventHandler
    uuid_ICoreWebView2ExecuteScriptCompletedHandler uuid_ICoreWebView2GetProcessExtendedInfosCompletedHandler
    uuid_ICoreWebView2FrameContentLoadingEventHandler uuid_ICoreWebView2FrameCreatedEventHandler
    uuid_ICoreWebView2FrameDestroyedEventHandler uuid_ICoreWebView2FrameDOMContentLoadedEventHandler
    uuid_ICoreWebView2FrameNameChangedEventHandler uuid_ICoreWebView2FrameNavigationCompletedEventHandler
    uuid_ICoreWebView2FrameNavigationStartingEventHandler uuid_ICoreWebView2FramePermissionRequestedEventHandler
    uuid_ICoreWebView2FrameWebMessageReceivedEventHandler uuid_ICoreWebView2FocusChangedEventHandler
    uuid_ICoreWebView2GetCookiesCompletedHandler uuid_ICoreWebView2GetNonDefaultPermissionSettingsCompletedHandler
    uuid_ICoreWebView2HistoryChangedEventHandler uuid_ICoreWebView2IsDefaultDownloadDialogOpenChangedEventHandler
    uuid_ICoreWebView2LaunchingExternalUriSchemeEventHandler uuid_ICoreWebView2MoveFocusRequestedEventHandler
    uuid_ICoreWebView2NavigationCompletedEventHandler uuid_ICoreWebView2NavigationStartingEventHandler
    uuid_ICoreWebView2NewBrowserVersionAvailableEventHandler uuid_ICoreWebView2NewWindowRequestedEventHandler
    uuid_ICoreWebView2PermissionRequestedEventHandler uuid_ICoreWebView2PrintToPdfCompletedHandler
    uuid_ICoreWebView2PrintCompletedHandler uuid_ICoreWebView2PrintToPdfStreamCompletedHandler
    uuid_ICoreWebView2ProcessFailedEventHandler uuid_ICoreWebView2ProfileDeletedEventHandler
    uuid_ICoreWebView2RasterizationScaleChangedEventHandler
    uuid_ICoreWebView2ServerCertificateErrorDetectedEventHandler
    uuid_ICoreWebView2SetPermissionStateCompletedHandler uuid_ICoreWebView2ScriptDialogOpeningEventHandler
    uuid_ICoreWebView2SourceChangedEventHandler uuid_ICoreWebView2StateChangedEventHandler
    uuid_ICoreWebView2StatusBarTextChangedEventHandler uuid_ICoreWebView2TrySuspendCompletedHandler
    uuid_ICoreWebView2WebMessageReceivedEventHandler uuid_ICoreWebView2WebResourceRequestedEventHandler
    uuid_ICoreWebView2WebResourceResponseReceivedEventHandler
    uuid_ICoreWebView2WebResourceResponseViewGetContentCompletedHandler
    uuid_ICoreWebView2WindowCloseRequestedEventHandler uuid_ICoreWebView2ZoomFactorChangedEventHandler
    uuid_ICoreWebView2IsMutedChangedEventHandler uuid_ICoreWebView2IsDocumentPlayingAudioChangedEventHandler
    uuid_ICoreWebView2ProcessInfosChangedEventHandler uuid_ICoreWebView2FaviconChangedEventHandler
    uuid_ICoreWebView2GetFaviconCompletedHandler uuid_ICoreWebView2ProfileAddBrowserExtensionCompletedHandler
    uuid_ICoreWebView2ProfileGetBrowserExtensionsCompletedHandler
    uuid_ICoreWebView2BrowserExtensionEnableCompletedHandler
    uuid_ICoreWebView2BrowserExtensionRemoveCompletedHandler
    uuid_ICoreWebView2ExecuteScriptWithResultCompletedHandler)

section \<open>No identifier is shared\<close>

text \<open>Already the first field tells the interfaces apart.\<close>

fun Data1 :: "guid \<Rightarrow> 32 word" where
  "Data1 (GUID d1 d2 d3 a b c d e f g h) = d1"

lemma browser_ids_first:
  "map (\<lambda>(i, g, u). uint (Data1 g)) browser_ids =
     [0x76eceacb, 0x9e8f0cf8, 0xa0d6df20, 0x20d02d59, 0xbedb11b8, 0x499aadac, 0x79c24d83, 0xe9632730, 0x4d7b2eab,
      0xb1690564, 0x0be78e56, 0x35d69927, 0xf75f09a8, 0x6daa4f10, 0x517b2d1d, 0x0eb34dc9, 0x702e75d4, 0x7a626017,
      0x6921f954, 0xb4bc1926, 0xc4980dea, 0xdb75dfc7]"
  by (simp add: browser_ids_def IID_ICoreWebView2_def IID_ICoreWebView2_2_def IID_ICoreWebView2_3_def IID_ICoreWebView2_4_def
    IID_ICoreWebView2_5_def IID_ICoreWebView2_6_def IID_ICoreWebView2_7_def IID_ICoreWebView2_8_def
    IID_ICoreWebView2_9_def IID_ICoreWebView2_10_def IID_ICoreWebView2_11_def IID_ICoreWebView2_12_def
    IID_ICoreWebView2_13_def IID_ICoreWebView2_14_def IID_ICoreWebView2_15_def IID_ICoreWebView2_16_def
    IID_ICoreWebView2_17_def IID_ICoreWebView2_18_def IID_ICoreWebView2_19_def IID_ICoreWebView2_20_def
    IID_ICoreWebView2_21_def IID_ICoreWebView2_22_def)

lemma services_ids_first:
  "map (\<lambda>(i, g, u). uint (Data1 g)) services_ids =
     [0x3df9b733, 0x0b6a3d24, 0x9570570e, 0x4d00c0d1, 0xc979903e, 0xf9614724, 0x97d418d5, 0x12aae616, 0x06c991d8,
      0x177cd9e7, 0x3d6b6cf2, 0xb96d755e, 0x41f3632b, 0x80a22ae3, 0x20944379, 0x319e423d, 0xe59ee362, 0x43c22296,
      0xd6eb91dd, 0xf06f41bf, 0xee0eb9df, 0xf0913dc6, 0xf503db9b, 0xaf641f58, 0x2fde08a8, 0xff85c98a, 0x4a5c436e,
      0xac52d13f, 0x0ae35d64, 0x57d29cc3, 0xaf4c4c2e, 0x32efa696, 0xf1131a5e, 0x7a6a5834, 0xb50d82cc, 0x188782dc,
      0x99d199c4, 0xda86b8a1, 0x56f85cfa, 0x8f834154, 0x1bf89e2d, 0x79110ad3, 0xfa740d4b, 0xb188e659, 0x8f4ae680,
      0x2ee5b76e, 0xbd82fa6a, 0x7b4c7906, 0xfbf70c2f, 0xe562e4f0, 0xee9a0f68, 0xfdb5ab74, 0xcb56846c, 0x183e7052,
      0x11cb3acd, 0x488dc902, 0x9e6b0e8f, 0xb747a495, 0x84fa7612, 0x402b99cd]"
  by (simp add: services_ids_def IID_ICoreWebView2CompositionController_def IID_ICoreWebView2CompositionController2_def
    IID_ICoreWebView2CompositionController3_def IID_ICoreWebView2Controller_def IID_ICoreWebView2Controller2_def
    IID_ICoreWebView2Controller3_def IID_ICoreWebView2Controller4_def IID_ICoreWebView2ControllerOptions_def
    IID_ICoreWebView2ControllerOptions2_def IID_ICoreWebView2CookieManager_def
    IID_ICoreWebView2DownloadOperation_def IID_ICoreWebView2Environment_def IID_ICoreWebView2Environment2_def
    IID_ICoreWebView2Environment3_def IID_ICoreWebView2Environment4_def IID_ICoreWebView2Environment5_def
    IID_ICoreWebView2Environment6_def IID_ICoreWebView2Environment7_def IID_ICoreWebView2Environment8_def
    IID_ICoreWebView2Environment9_def IID_ICoreWebView2Environment10_def IID_ICoreWebView2Environment11_def
    IID_ICoreWebView2Environment12_def IID_ICoreWebView2Environment13_def IID_ICoreWebView2EnvironmentOptions_def
    IID_ICoreWebView2EnvironmentOptions2_def IID_ICoreWebView2EnvironmentOptions3_def
    IID_ICoreWebView2EnvironmentOptions4_def IID_ICoreWebView2EnvironmentOptions5_def
    IID_ICoreWebView2EnvironmentOptions6_def IID_ICoreWebView2ProcessExtendedInfo_def
    IID_ICoreWebView2ProcessExtendedInfoCollection_def IID_ICoreWebView2Frame_def IID_ICoreWebView2Frame2_def
    IID_ICoreWebView2Frame3_def IID_ICoreWebView2Frame4_def IID_ICoreWebView2Frame5_def
    IID_ICoreWebView2FrameInfo_def IID_ICoreWebView2FrameInfo2_def IID_ICoreWebView2FrameInfoCollection_def
    IID_ICoreWebView2FrameInfoCollectionIterator_def IID_ICoreWebView2Profile_def IID_ICoreWebView2Profile2_def
    IID_ICoreWebView2Profile3_def IID_ICoreWebView2Profile4_def IID_ICoreWebView2Profile5_def
    IID_ICoreWebView2Profile6_def IID_ICoreWebView2Profile7_def IID_ICoreWebView2Profile8_def
    IID_ICoreWebView2Settings_def IID_ICoreWebView2Settings2_def IID_ICoreWebView2Settings3_def
    IID_ICoreWebView2Settings4_def IID_ICoreWebView2Settings5_def IID_ICoreWebView2Settings6_def
    IID_ICoreWebView2Settings7_def IID_ICoreWebView2Settings8_def IID_ICoreWebView2SharedBuffer_def
    IID_ICoreWebView2ProcessInfo_def IID_ICoreWebView2ProcessInfoCollection_def)

lemma objects_ids_first:
  "map (\<lambda>(i, g, u). uint (Data1 g)) objects_ids =
     [0x9f760f8a, 0x03b2c8c8, 0xef05516f, 0x07023f7d, 0x1f00663f, 0x0c8a1275, 0xa1d309ee, 0xad26d6be, 0xf7f6f714,
      0xc5fb2fce, 0xe7188076, 0xf41f3f8a, 0xef5674d2, 0xbc59db28, 0x7aed49e3, 0xf562a2f5, 0xb8611d99, 0xd60ac92c,
      0x16b1e21a, 0xc10e7f7b, 0x653c2959, 0x2dc4959d, 0xb32ca51a, 0xe99bbe21, 0x4d6e7b5e, 0x0702fc30, 0xe86cac0e,
      0x03c5ff5a, 0x07d1a6c3, 0x2d6aa13b, 0x30d68b7d, 0xfdf8b738, 0x5b495469, 0x9086be93, 0xddffe494, 0x34acb11c,
      0xbbc7baed, 0x842bed3c, 0x973ae2ef, 0x74d7127f, 0xe61670bc, 0xf5596f62, 0x792b6eca, 0xe6995887, 0x377f3721,
      0xca7f0e1f, 0x8155a9a4, 0x4dab9422, 0x012193ed, 0x7390bb70, 0x31e0e545, 0x0f99a40c, 0x97055cd4, 0x453e667f,
      0x9c562c24, 0xaafcc94f, 0xd1db483d, 0x79701053, 0x5eaf559f, 0x2ef3d2dc, 0x7ef7ffa0, 0x0ce15963, 0x054dae00,
      0xf2c19559, 0x0f36fd87, 0x06fc7ab7]"
  by (simp add: objects_ids_def IID_ICoreWebView2AcceleratorKeyPressedEventArgs_def IID_ICoreWebView2AcceleratorKeyPressedEventArgs2_def
    IID_ICoreWebView2BasicAuthenticationRequestedEventArgs_def IID_ICoreWebView2BasicAuthenticationResponse_def
    IID_ICoreWebView2BrowserProcessExitedEventArgs_def IID_ICoreWebView2ContentLoadingEventArgs_def
    IID_ICoreWebView2ContextMenuRequestedEventArgs_def IID_ICoreWebView2Cookie_def IID_ICoreWebView2CookieList_def
    IID_ICoreWebView2Certificate_def IID_ICoreWebView2ClientCertificate_def IID_ICoreWebView2StringCollection_def
    IID_ICoreWebView2ClientCertificateCollection_def IID_ICoreWebView2ClientCertificateRequestedEventArgs_def
    IID_ICoreWebView2ContextMenuItem_def IID_ICoreWebView2ContextMenuItemCollection_def
    IID_ICoreWebView2ContextMenuTarget_def IID_ICoreWebView2CustomSchemeRegistration_def
    IID_ICoreWebView2DOMContentLoadedEventArgs_def IID_ICoreWebView2Deferral_def
    IID_ICoreWebView2DevToolsProtocolEventReceivedEventArgs_def
    IID_ICoreWebView2DevToolsProtocolEventReceivedEventArgs2_def
    IID_ICoreWebView2DevToolsProtocolEventReceiver_def IID_ICoreWebView2DownloadStartingEventArgs_def
    IID_ICoreWebView2FrameCreatedEventArgs_def IID_ICoreWebView2HttpHeadersCollectionIterator_def
    IID_ICoreWebView2HttpRequestHeaders_def IID_ICoreWebView2HttpResponseHeaders_def
    IID_ICoreWebView2LaunchingExternalUriSchemeEventArgs_def IID_ICoreWebView2MoveFocusRequestedEventArgs_def
    IID_ICoreWebView2NavigationCompletedEventArgs_def IID_ICoreWebView2NavigationCompletedEventArgs2_def
    IID_ICoreWebView2NavigationStartingEventArgs_def IID_ICoreWebView2NavigationStartingEventArgs2_def
    IID_ICoreWebView2NavigationStartingEventArgs3_def IID_ICoreWebView2NewWindowRequestedEventArgs_def
    IID_ICoreWebView2NewWindowRequestedEventArgs2_def IID_ICoreWebView2NewWindowRequestedEventArgs3_def
    IID_ICoreWebView2PermissionRequestedEventArgs_def IID_ICoreWebView2PermissionRequestedEventArgs2_def
    IID_ICoreWebView2PermissionRequestedEventArgs3_def IID_ICoreWebView2PermissionSettingCollectionView_def
    IID_ICoreWebView2PermissionSetting_def IID_ICoreWebView2PointerInfo_def IID_ICoreWebView2PrintSettings_def
    IID_ICoreWebView2PrintSettings2_def IID_ICoreWebView2ProcessFailedEventArgs_def
    IID_ICoreWebView2ProcessFailedEventArgs2_def IID_ICoreWebView2ServerCertificateErrorDetectedEventArgs_def
    IID_ICoreWebView2ScriptDialogOpeningEventArgs_def IID_ICoreWebView2SourceChangedEventArgs_def
    IID_ICoreWebView2WebMessageReceivedEventArgs_def IID_ICoreWebView2WebResourceRequest_def
    IID_ICoreWebView2WebResourceRequestedEventArgs_def IID_ICoreWebView2WebResourceRequestedEventArgs2_def
    IID_ICoreWebView2WebResourceResponse_def IID_ICoreWebView2WebResourceResponseReceivedEventArgs_def
    IID_ICoreWebView2WebResourceResponseView_def IID_ICoreWebView2WindowFeatures_def
    IID_ICoreWebView2BrowserExtensionList_def IID_ICoreWebView2BrowserExtension_def
    IID_ICoreWebView2ExecuteScriptResult_def IID_ICoreWebView2ScriptException_def IID_ICoreWebView2File_def
    IID_ICoreWebView2ObjectCollectionView_def IID_ICoreWebView2WebMessageReceivedEventArgs2_def)

lemma handlers_ids_first:
  "map (\<lambda>(i, g, u). uint (Data1 g)) handlers_ids =
     [0xb29c7e28, 0xb99369f3, 0x5c4889f0, 0x697e05e9, 0x58b4d6c2, 0xfa504257, 0x828e8ab6, 0x364471e7, 0x04d3fe1d,
      0xe9710a06, 0xd7175ba2, 0x3b40aac6, 0x02fab84b, 0x6c4819f3, 0x4e8a3389, 0xe45d98b1, 0x9da43ccc, 0x49e1d0bc,
      0xf5f2b923, 0x4bac7e9c, 0xe2fda4be, 0xefedc989, 0x28f0d425, 0x49511172, 0xf45e55aa, 0x0d6156f2, 0x38059770,
      0x59dd7b4c, 0x38d9520d, 0x435c7dc8, 0x609302ad, 0xe79908bf, 0x845d0edd, 0xe371e005, 0x05ea24bd, 0x5a4f5069,
      0x38274481, 0xc79a420c, 0x3117da26, 0x74f712e0, 0x69035451, 0xd33a35bf, 0x9adbe429, 0xf9a2976e, 0xd4c185fe,
      0x15e1c6a3, 0xccf1ef04, 0x8fd80075, 0x4c9f8229, 0x79e0aea4, 0xdf35055d, 0x9c98c8b1, 0x969b3a26, 0xfc77fb30,
      0xef381bf9, 0x3c067f9f, 0x81336594, 0xa5e3b0d0, 0x00f206a7, 0x57213f19, 0xab00b74c, 0x7de9898a, 0x875738e1,
      0x5c19e9e0, 0xb52d71d6, 0x57d90347, 0x5def109a, 0xf4af0c39, 0x2913da94, 0xa2508329, 0xdf1aab27, 0xfce16a1c,
      0x30c186ce, 0x8e41909a, 0x1bb5317b]"
  by (simp add: handlers_ids_def IID_ICoreWebView2AcceleratorKeyPressedEventHandler_def
    IID_ICoreWebView2AddScriptToExecuteOnDocumentCreatedCompletedHandler_def
    IID_ICoreWebView2CallDevToolsProtocolMethodCompletedHandler_def
    IID_ICoreWebView2CapturePreviewCompletedHandler_def
    IID_ICoreWebView2BasicAuthenticationRequestedEventHandler_def
    IID_ICoreWebView2BrowserProcessExitedEventHandler_def IID_ICoreWebView2BytesReceivedChangedEventHandler_def
    IID_ICoreWebView2ContentLoadingEventHandler_def IID_ICoreWebView2ContextMenuRequestedEventHandler_def
    IID_ICoreWebView2ClearBrowsingDataCompletedHandler_def
    IID_ICoreWebView2ClientCertificateRequestedEventHandler_def
    IID_ICoreWebView2ClearServerCertificateErrorActionsCompletedHandler_def
    IID_ICoreWebView2CreateCoreWebView2CompositionControllerCompletedHandler_def
    IID_ICoreWebView2CreateCoreWebView2ControllerCompletedHandler_def
    IID_ICoreWebView2CreateCoreWebView2EnvironmentCompletedHandler_def
    IID_ICoreWebView2ContainsFullScreenElementChangedEventHandler_def
    IID_ICoreWebView2CursorChangedEventHandler_def IID_ICoreWebView2CustomItemSelectedEventHandler_def
    IID_ICoreWebView2DocumentTitleChangedEventHandler_def IID_ICoreWebView2DOMContentLoadedEventHandler_def
    IID_ICoreWebView2DevToolsProtocolEventReceivedEventHandler_def
    IID_ICoreWebView2DownloadStartingEventHandler_def IID_ICoreWebView2EstimatedEndTimeChangedEventHandler_def
    IID_ICoreWebView2ExecuteScriptCompletedHandler_def
    IID_ICoreWebView2GetProcessExtendedInfosCompletedHandler_def
    IID_ICoreWebView2FrameContentLoadingEventHandler_def IID_ICoreWebView2FrameCreatedEventHandler_def
    IID_ICoreWebView2FrameDestroyedEventHandler_def IID_ICoreWebView2FrameDOMContentLoadedEventHandler_def
    IID_ICoreWebView2FrameNameChangedEventHandler_def IID_ICoreWebView2FrameNavigationCompletedEventHandler_def
    IID_ICoreWebView2FrameNavigationStartingEventHandler_def
    IID_ICoreWebView2FramePermissionRequestedEventHandler_def
    IID_ICoreWebView2FrameWebMessageReceivedEventHandler_def IID_ICoreWebView2FocusChangedEventHandler_def
    IID_ICoreWebView2GetCookiesCompletedHandler_def
    IID_ICoreWebView2GetNonDefaultPermissionSettingsCompletedHandler_def
    IID_ICoreWebView2HistoryChangedEventHandler_def
    IID_ICoreWebView2IsDefaultDownloadDialogOpenChangedEventHandler_def
    IID_ICoreWebView2LaunchingExternalUriSchemeEventHandler_def
    IID_ICoreWebView2MoveFocusRequestedEventHandler_def IID_ICoreWebView2NavigationCompletedEventHandler_def
    IID_ICoreWebView2NavigationStartingEventHandler_def
    IID_ICoreWebView2NewBrowserVersionAvailableEventHandler_def
    IID_ICoreWebView2NewWindowRequestedEventHandler_def IID_ICoreWebView2PermissionRequestedEventHandler_def
    IID_ICoreWebView2PrintToPdfCompletedHandler_def IID_ICoreWebView2PrintCompletedHandler_def
    IID_ICoreWebView2PrintToPdfStreamCompletedHandler_def IID_ICoreWebView2ProcessFailedEventHandler_def
    IID_ICoreWebView2ProfileDeletedEventHandler_def IID_ICoreWebView2RasterizationScaleChangedEventHandler_def
    IID_ICoreWebView2ServerCertificateErrorDetectedEventHandler_def
    IID_ICoreWebView2SetPermissionStateCompletedHandler_def IID_ICoreWebView2ScriptDialogOpeningEventHandler_def
    IID_ICoreWebView2SourceChangedEventHandler_def IID_ICoreWebView2StateChangedEventHandler_def
    IID_ICoreWebView2StatusBarTextChangedEventHandler_def IID_ICoreWebView2TrySuspendCompletedHandler_def
    IID_ICoreWebView2WebMessageReceivedEventHandler_def IID_ICoreWebView2WebResourceRequestedEventHandler_def
    IID_ICoreWebView2WebResourceResponseReceivedEventHandler_def
    IID_ICoreWebView2WebResourceResponseViewGetContentCompletedHandler_def
    IID_ICoreWebView2WindowCloseRequestedEventHandler_def IID_ICoreWebView2ZoomFactorChangedEventHandler_def
    IID_ICoreWebView2IsMutedChangedEventHandler_def IID_ICoreWebView2IsDocumentPlayingAudioChangedEventHandler_def
    IID_ICoreWebView2ProcessInfosChangedEventHandler_def IID_ICoreWebView2FaviconChangedEventHandler_def
    IID_ICoreWebView2GetFaviconCompletedHandler_def
    IID_ICoreWebView2ProfileAddBrowserExtensionCompletedHandler_def
    IID_ICoreWebView2ProfileGetBrowserExtensionsCompletedHandler_def
    IID_ICoreWebView2BrowserExtensionEnableCompletedHandler_def
    IID_ICoreWebView2BrowserExtensionRemoveCompletedHandler_def
    IID_ICoreWebView2ExecuteScriptWithResultCompletedHandler_def)

lemma distinct_map_via: "distinct (map (\<lambda>x. f (h x)) xs) \<Longrightarrow> distinct (map h xs)"
  by (auto simp: distinct_map inj_on_def)

lemma abi_ids_first: "distinct (map (\<lambda>(i, g, u). uint (Data1 g)) abi_ids)"
  by (simp only: abi_ids_def map_append browser_ids_first services_ids_first objects_ids_first handlers_ids_first append.simps distinct.simps list.set insert_iff empty_iff simp_thms
    num.simps numeral_eq_iff)

lemma abi_ids_interfaces: "map fst abi_ids = map fst abi_table"
  by (simp add: abi_ids_def abi_table_def browser_ids_def services_ids_def objects_ids_def handlers_ids_def
    browser_tables_def services_tables_def objects_tables_def handlers_tables_def)

section \<open>Properties\<close>

text \<open>Every interface has one identifier, whose two spellings agree, and no two interfaces share one, so a comparison in
  \<^verbatim>\<open>QueryInterface\<close> cannot mistake one interface for another.\<close>

theorem interfaces_identified:
  "map fst abi_ids = map fst abi_table \<and> distinct (map (\<lambda>(i, g, u). g) abi_ids) \<and>
   list_all (\<lambda>(i, g, u). guid_string g = map c_tolower u) abi_ids"
proof (intro conjI)
  have "distinct (map (\<lambda>x. uint (Data1 ((\<lambda>(i, g, u). g) x))) abi_ids)"
    using abi_ids_first by (simp add: case_prod_unfold)
  then show "distinct (map (\<lambda>(i, g, u). g) abi_ids)" by (rule distinct_map_via)
qed (rule abi_ids_interfaces, simp add: abi_ids_def browser_ids_agree services_ids_agree objects_ids_agree handlers_ids_agree)

end
