(* ===== verification/AbiEnums.thy ===== *)
theory AbiEnums
  imports WebView2Abi
begin

text \<open>
  \<^verbatim>\<open>builtin/goc/webview2/WebView2.h\<close>: the enumerations that only methods the repository does not call use (the
  others are in \<open>WebView2Abi\<close>), each with the value of every enumerator, and that the value determines the enumerator.
\<close>

unbundle bit_operations_syntax

datatype COREWEBVIEW2_CAPTURE_PREVIEW_IMAGE_FORMAT =
    COREWEBVIEW2_CAPTURE_PREVIEW_IMAGE_FORMAT_PNG
  | COREWEBVIEW2_CAPTURE_PREVIEW_IMAGE_FORMAT_JPEG

fun COREWEBVIEW2_CAPTURE_PREVIEW_IMAGE_FORMAT_value :: "COREWEBVIEW2_CAPTURE_PREVIEW_IMAGE_FORMAT \<Rightarrow> 32 word" where
  "COREWEBVIEW2_CAPTURE_PREVIEW_IMAGE_FORMAT_value COREWEBVIEW2_CAPTURE_PREVIEW_IMAGE_FORMAT_PNG = 0"
| "COREWEBVIEW2_CAPTURE_PREVIEW_IMAGE_FORMAT_value COREWEBVIEW2_CAPTURE_PREVIEW_IMAGE_FORMAT_JPEG = 1"

datatype COREWEBVIEW2_COOKIE_SAME_SITE_KIND =
    COREWEBVIEW2_COOKIE_SAME_SITE_KIND_NONE
  | COREWEBVIEW2_COOKIE_SAME_SITE_KIND_LAX
  | COREWEBVIEW2_COOKIE_SAME_SITE_KIND_STRICT

fun COREWEBVIEW2_COOKIE_SAME_SITE_KIND_value :: "COREWEBVIEW2_COOKIE_SAME_SITE_KIND \<Rightarrow> 32 word" where
  "COREWEBVIEW2_COOKIE_SAME_SITE_KIND_value COREWEBVIEW2_COOKIE_SAME_SITE_KIND_NONE = 0"
| "COREWEBVIEW2_COOKIE_SAME_SITE_KIND_value COREWEBVIEW2_COOKIE_SAME_SITE_KIND_LAX = 1"
| "COREWEBVIEW2_COOKIE_SAME_SITE_KIND_value COREWEBVIEW2_COOKIE_SAME_SITE_KIND_STRICT = 2"

datatype COREWEBVIEW2_HOST_RESOURCE_ACCESS_KIND =
    COREWEBVIEW2_HOST_RESOURCE_ACCESS_KIND_DENY
  | COREWEBVIEW2_HOST_RESOURCE_ACCESS_KIND_ALLOW
  | COREWEBVIEW2_HOST_RESOURCE_ACCESS_KIND_DENY_CORS

fun COREWEBVIEW2_HOST_RESOURCE_ACCESS_KIND_value :: "COREWEBVIEW2_HOST_RESOURCE_ACCESS_KIND \<Rightarrow> 32 word" where
  "COREWEBVIEW2_HOST_RESOURCE_ACCESS_KIND_value COREWEBVIEW2_HOST_RESOURCE_ACCESS_KIND_DENY = 0"
| "COREWEBVIEW2_HOST_RESOURCE_ACCESS_KIND_value COREWEBVIEW2_HOST_RESOURCE_ACCESS_KIND_ALLOW = 1"
| "COREWEBVIEW2_HOST_RESOURCE_ACCESS_KIND_value COREWEBVIEW2_HOST_RESOURCE_ACCESS_KIND_DENY_CORS = 2"

datatype COREWEBVIEW2_SCRIPT_DIALOG_KIND =
    COREWEBVIEW2_SCRIPT_DIALOG_KIND_ALERT
  | COREWEBVIEW2_SCRIPT_DIALOG_KIND_CONFIRM
  | COREWEBVIEW2_SCRIPT_DIALOG_KIND_PROMPT
  | COREWEBVIEW2_SCRIPT_DIALOG_KIND_BEFOREUNLOAD

fun COREWEBVIEW2_SCRIPT_DIALOG_KIND_value :: "COREWEBVIEW2_SCRIPT_DIALOG_KIND \<Rightarrow> 32 word" where
  "COREWEBVIEW2_SCRIPT_DIALOG_KIND_value COREWEBVIEW2_SCRIPT_DIALOG_KIND_ALERT = 0"
| "COREWEBVIEW2_SCRIPT_DIALOG_KIND_value COREWEBVIEW2_SCRIPT_DIALOG_KIND_CONFIRM = 1"
| "COREWEBVIEW2_SCRIPT_DIALOG_KIND_value COREWEBVIEW2_SCRIPT_DIALOG_KIND_PROMPT = 2"
| "COREWEBVIEW2_SCRIPT_DIALOG_KIND_value COREWEBVIEW2_SCRIPT_DIALOG_KIND_BEFOREUNLOAD = 3"

datatype COREWEBVIEW2_PROCESS_FAILED_KIND =
    COREWEBVIEW2_PROCESS_FAILED_KIND_BROWSER_PROCESS_EXITED
  | COREWEBVIEW2_PROCESS_FAILED_KIND_RENDER_PROCESS_EXITED
  | COREWEBVIEW2_PROCESS_FAILED_KIND_RENDER_PROCESS_UNRESPONSIVE
  | COREWEBVIEW2_PROCESS_FAILED_KIND_FRAME_RENDER_PROCESS_EXITED
  | COREWEBVIEW2_PROCESS_FAILED_KIND_UTILITY_PROCESS_EXITED
  | COREWEBVIEW2_PROCESS_FAILED_KIND_SANDBOX_HELPER_PROCESS_EXITED
  | COREWEBVIEW2_PROCESS_FAILED_KIND_GPU_PROCESS_EXITED
  | COREWEBVIEW2_PROCESS_FAILED_KIND_PPAPI_PLUGIN_PROCESS_EXITED
  | COREWEBVIEW2_PROCESS_FAILED_KIND_PPAPI_BROKER_PROCESS_EXITED
  | COREWEBVIEW2_PROCESS_FAILED_KIND_UNKNOWN_PROCESS_EXITED

fun COREWEBVIEW2_PROCESS_FAILED_KIND_value :: "COREWEBVIEW2_PROCESS_FAILED_KIND \<Rightarrow> 32 word" where
  "COREWEBVIEW2_PROCESS_FAILED_KIND_value COREWEBVIEW2_PROCESS_FAILED_KIND_BROWSER_PROCESS_EXITED = 0"
| "COREWEBVIEW2_PROCESS_FAILED_KIND_value COREWEBVIEW2_PROCESS_FAILED_KIND_RENDER_PROCESS_EXITED = 1"
| "COREWEBVIEW2_PROCESS_FAILED_KIND_value COREWEBVIEW2_PROCESS_FAILED_KIND_RENDER_PROCESS_UNRESPONSIVE = 2"
| "COREWEBVIEW2_PROCESS_FAILED_KIND_value COREWEBVIEW2_PROCESS_FAILED_KIND_FRAME_RENDER_PROCESS_EXITED = 3"
| "COREWEBVIEW2_PROCESS_FAILED_KIND_value COREWEBVIEW2_PROCESS_FAILED_KIND_UTILITY_PROCESS_EXITED = 4"
| "COREWEBVIEW2_PROCESS_FAILED_KIND_value COREWEBVIEW2_PROCESS_FAILED_KIND_SANDBOX_HELPER_PROCESS_EXITED = 5"
| "COREWEBVIEW2_PROCESS_FAILED_KIND_value COREWEBVIEW2_PROCESS_FAILED_KIND_GPU_PROCESS_EXITED = 6"
| "COREWEBVIEW2_PROCESS_FAILED_KIND_value COREWEBVIEW2_PROCESS_FAILED_KIND_PPAPI_PLUGIN_PROCESS_EXITED = 7"
| "COREWEBVIEW2_PROCESS_FAILED_KIND_value COREWEBVIEW2_PROCESS_FAILED_KIND_PPAPI_BROKER_PROCESS_EXITED = 8"
| "COREWEBVIEW2_PROCESS_FAILED_KIND_value COREWEBVIEW2_PROCESS_FAILED_KIND_UNKNOWN_PROCESS_EXITED = 9"

datatype COREWEBVIEW2_PROCESS_FAILED_REASON =
    COREWEBVIEW2_PROCESS_FAILED_REASON_UNEXPECTED
  | COREWEBVIEW2_PROCESS_FAILED_REASON_UNRESPONSIVE
  | COREWEBVIEW2_PROCESS_FAILED_REASON_TERMINATED
  | COREWEBVIEW2_PROCESS_FAILED_REASON_CRASHED
  | COREWEBVIEW2_PROCESS_FAILED_REASON_LAUNCH_FAILED
  | COREWEBVIEW2_PROCESS_FAILED_REASON_OUT_OF_MEMORY
  | COREWEBVIEW2_PROCESS_FAILED_REASON_PROFILE_DELETED

fun COREWEBVIEW2_PROCESS_FAILED_REASON_value :: "COREWEBVIEW2_PROCESS_FAILED_REASON \<Rightarrow> 32 word" where
  "COREWEBVIEW2_PROCESS_FAILED_REASON_value COREWEBVIEW2_PROCESS_FAILED_REASON_UNEXPECTED = 0"
| "COREWEBVIEW2_PROCESS_FAILED_REASON_value COREWEBVIEW2_PROCESS_FAILED_REASON_UNRESPONSIVE = 1"
| "COREWEBVIEW2_PROCESS_FAILED_REASON_value COREWEBVIEW2_PROCESS_FAILED_REASON_TERMINATED = 2"
| "COREWEBVIEW2_PROCESS_FAILED_REASON_value COREWEBVIEW2_PROCESS_FAILED_REASON_CRASHED = 3"
| "COREWEBVIEW2_PROCESS_FAILED_REASON_value COREWEBVIEW2_PROCESS_FAILED_REASON_LAUNCH_FAILED = 4"
| "COREWEBVIEW2_PROCESS_FAILED_REASON_value COREWEBVIEW2_PROCESS_FAILED_REASON_OUT_OF_MEMORY = 5"
| "COREWEBVIEW2_PROCESS_FAILED_REASON_value COREWEBVIEW2_PROCESS_FAILED_REASON_PROFILE_DELETED = 6"

datatype COREWEBVIEW2_PERMISSION_KIND =
    COREWEBVIEW2_PERMISSION_KIND_UNKNOWN_PERMISSION
  | COREWEBVIEW2_PERMISSION_KIND_MICROPHONE
  | COREWEBVIEW2_PERMISSION_KIND_CAMERA
  | COREWEBVIEW2_PERMISSION_KIND_GEOLOCATION
  | COREWEBVIEW2_PERMISSION_KIND_NOTIFICATIONS
  | COREWEBVIEW2_PERMISSION_KIND_OTHER_SENSORS
  | COREWEBVIEW2_PERMISSION_KIND_CLIPBOARD_READ
  | COREWEBVIEW2_PERMISSION_KIND_MULTIPLE_AUTOMATIC_DOWNLOADS
  | COREWEBVIEW2_PERMISSION_KIND_FILE_READ_WRITE
  | COREWEBVIEW2_PERMISSION_KIND_AUTOPLAY
  | COREWEBVIEW2_PERMISSION_KIND_LOCAL_FONTS
  | COREWEBVIEW2_PERMISSION_KIND_MIDI_SYSTEM_EXCLUSIVE_MESSAGES
  | COREWEBVIEW2_PERMISSION_KIND_WINDOW_MANAGEMENT

fun COREWEBVIEW2_PERMISSION_KIND_value :: "COREWEBVIEW2_PERMISSION_KIND \<Rightarrow> 32 word" where
  "COREWEBVIEW2_PERMISSION_KIND_value COREWEBVIEW2_PERMISSION_KIND_UNKNOWN_PERMISSION = 0"
| "COREWEBVIEW2_PERMISSION_KIND_value COREWEBVIEW2_PERMISSION_KIND_MICROPHONE = 1"
| "COREWEBVIEW2_PERMISSION_KIND_value COREWEBVIEW2_PERMISSION_KIND_CAMERA = 2"
| "COREWEBVIEW2_PERMISSION_KIND_value COREWEBVIEW2_PERMISSION_KIND_GEOLOCATION = 3"
| "COREWEBVIEW2_PERMISSION_KIND_value COREWEBVIEW2_PERMISSION_KIND_NOTIFICATIONS = 4"
| "COREWEBVIEW2_PERMISSION_KIND_value COREWEBVIEW2_PERMISSION_KIND_OTHER_SENSORS = 5"
| "COREWEBVIEW2_PERMISSION_KIND_value COREWEBVIEW2_PERMISSION_KIND_CLIPBOARD_READ = 6"
| "COREWEBVIEW2_PERMISSION_KIND_value COREWEBVIEW2_PERMISSION_KIND_MULTIPLE_AUTOMATIC_DOWNLOADS = 7"
| "COREWEBVIEW2_PERMISSION_KIND_value COREWEBVIEW2_PERMISSION_KIND_FILE_READ_WRITE = 8"
| "COREWEBVIEW2_PERMISSION_KIND_value COREWEBVIEW2_PERMISSION_KIND_AUTOPLAY = 9"
| "COREWEBVIEW2_PERMISSION_KIND_value COREWEBVIEW2_PERMISSION_KIND_LOCAL_FONTS = 10"
| "COREWEBVIEW2_PERMISSION_KIND_value COREWEBVIEW2_PERMISSION_KIND_MIDI_SYSTEM_EXCLUSIVE_MESSAGES = 11"
| "COREWEBVIEW2_PERMISSION_KIND_value COREWEBVIEW2_PERMISSION_KIND_WINDOW_MANAGEMENT = 12"

datatype COREWEBVIEW2_PERMISSION_STATE =
    COREWEBVIEW2_PERMISSION_STATE_DEFAULT
  | COREWEBVIEW2_PERMISSION_STATE_ALLOW
  | COREWEBVIEW2_PERMISSION_STATE_DENY

fun COREWEBVIEW2_PERMISSION_STATE_value :: "COREWEBVIEW2_PERMISSION_STATE \<Rightarrow> 32 word" where
  "COREWEBVIEW2_PERMISSION_STATE_value COREWEBVIEW2_PERMISSION_STATE_DEFAULT = 0"
| "COREWEBVIEW2_PERMISSION_STATE_value COREWEBVIEW2_PERMISSION_STATE_ALLOW = 1"
| "COREWEBVIEW2_PERMISSION_STATE_value COREWEBVIEW2_PERMISSION_STATE_DENY = 2"

datatype COREWEBVIEW2_WEB_ERROR_STATUS =
    COREWEBVIEW2_WEB_ERROR_STATUS_UNKNOWN
  | COREWEBVIEW2_WEB_ERROR_STATUS_CERTIFICATE_COMMON_NAME_IS_INCORRECT
  | COREWEBVIEW2_WEB_ERROR_STATUS_CERTIFICATE_EXPIRED
  | COREWEBVIEW2_WEB_ERROR_STATUS_CLIENT_CERTIFICATE_CONTAINS_ERRORS
  | COREWEBVIEW2_WEB_ERROR_STATUS_CERTIFICATE_REVOKED
  | COREWEBVIEW2_WEB_ERROR_STATUS_CERTIFICATE_IS_INVALID
  | COREWEBVIEW2_WEB_ERROR_STATUS_SERVER_UNREACHABLE
  | COREWEBVIEW2_WEB_ERROR_STATUS_TIMEOUT
  | COREWEBVIEW2_WEB_ERROR_STATUS_ERROR_HTTP_INVALID_SERVER_RESPONSE
  | COREWEBVIEW2_WEB_ERROR_STATUS_CONNECTION_ABORTED
  | COREWEBVIEW2_WEB_ERROR_STATUS_CONNECTION_RESET
  | COREWEBVIEW2_WEB_ERROR_STATUS_DISCONNECTED
  | COREWEBVIEW2_WEB_ERROR_STATUS_CANNOT_CONNECT
  | COREWEBVIEW2_WEB_ERROR_STATUS_HOST_NAME_NOT_RESOLVED
  | COREWEBVIEW2_WEB_ERROR_STATUS_OPERATION_CANCELED
  | COREWEBVIEW2_WEB_ERROR_STATUS_REDIRECT_FAILED
  | COREWEBVIEW2_WEB_ERROR_STATUS_UNEXPECTED_ERROR
  | COREWEBVIEW2_WEB_ERROR_STATUS_VALID_AUTHENTICATION_CREDENTIALS_REQUIRED
  | COREWEBVIEW2_WEB_ERROR_STATUS_VALID_PROXY_AUTHENTICATION_REQUIRED

fun COREWEBVIEW2_WEB_ERROR_STATUS_value :: "COREWEBVIEW2_WEB_ERROR_STATUS \<Rightarrow> 32 word" where
  "COREWEBVIEW2_WEB_ERROR_STATUS_value COREWEBVIEW2_WEB_ERROR_STATUS_UNKNOWN = 0"
| "COREWEBVIEW2_WEB_ERROR_STATUS_value COREWEBVIEW2_WEB_ERROR_STATUS_CERTIFICATE_COMMON_NAME_IS_INCORRECT = 1"
| "COREWEBVIEW2_WEB_ERROR_STATUS_value COREWEBVIEW2_WEB_ERROR_STATUS_CERTIFICATE_EXPIRED = 2"
| "COREWEBVIEW2_WEB_ERROR_STATUS_value COREWEBVIEW2_WEB_ERROR_STATUS_CLIENT_CERTIFICATE_CONTAINS_ERRORS = 3"
| "COREWEBVIEW2_WEB_ERROR_STATUS_value COREWEBVIEW2_WEB_ERROR_STATUS_CERTIFICATE_REVOKED = 4"
| "COREWEBVIEW2_WEB_ERROR_STATUS_value COREWEBVIEW2_WEB_ERROR_STATUS_CERTIFICATE_IS_INVALID = 5"
| "COREWEBVIEW2_WEB_ERROR_STATUS_value COREWEBVIEW2_WEB_ERROR_STATUS_SERVER_UNREACHABLE = 6"
| "COREWEBVIEW2_WEB_ERROR_STATUS_value COREWEBVIEW2_WEB_ERROR_STATUS_TIMEOUT = 7"
| "COREWEBVIEW2_WEB_ERROR_STATUS_value COREWEBVIEW2_WEB_ERROR_STATUS_ERROR_HTTP_INVALID_SERVER_RESPONSE = 8"
| "COREWEBVIEW2_WEB_ERROR_STATUS_value COREWEBVIEW2_WEB_ERROR_STATUS_CONNECTION_ABORTED = 9"
| "COREWEBVIEW2_WEB_ERROR_STATUS_value COREWEBVIEW2_WEB_ERROR_STATUS_CONNECTION_RESET = 10"
| "COREWEBVIEW2_WEB_ERROR_STATUS_value COREWEBVIEW2_WEB_ERROR_STATUS_DISCONNECTED = 11"
| "COREWEBVIEW2_WEB_ERROR_STATUS_value COREWEBVIEW2_WEB_ERROR_STATUS_CANNOT_CONNECT = 12"
| "COREWEBVIEW2_WEB_ERROR_STATUS_value COREWEBVIEW2_WEB_ERROR_STATUS_HOST_NAME_NOT_RESOLVED = 13"
| "COREWEBVIEW2_WEB_ERROR_STATUS_value COREWEBVIEW2_WEB_ERROR_STATUS_OPERATION_CANCELED = 14"
| "COREWEBVIEW2_WEB_ERROR_STATUS_value COREWEBVIEW2_WEB_ERROR_STATUS_REDIRECT_FAILED = 15"
| "COREWEBVIEW2_WEB_ERROR_STATUS_value COREWEBVIEW2_WEB_ERROR_STATUS_UNEXPECTED_ERROR = 16"
| "COREWEBVIEW2_WEB_ERROR_STATUS_value COREWEBVIEW2_WEB_ERROR_STATUS_VALID_AUTHENTICATION_CREDENTIALS_REQUIRED = 17"
| "COREWEBVIEW2_WEB_ERROR_STATUS_value COREWEBVIEW2_WEB_ERROR_STATUS_VALID_PROXY_AUTHENTICATION_REQUIRED = 18"

datatype COREWEBVIEW2_BROWSER_PROCESS_EXIT_KIND =
    COREWEBVIEW2_BROWSER_PROCESS_EXIT_KIND_NORMAL
  | COREWEBVIEW2_BROWSER_PROCESS_EXIT_KIND_FAILED

fun COREWEBVIEW2_BROWSER_PROCESS_EXIT_KIND_value :: "COREWEBVIEW2_BROWSER_PROCESS_EXIT_KIND \<Rightarrow> 32 word" where
  "COREWEBVIEW2_BROWSER_PROCESS_EXIT_KIND_value COREWEBVIEW2_BROWSER_PROCESS_EXIT_KIND_NORMAL = 0"
| "COREWEBVIEW2_BROWSER_PROCESS_EXIT_KIND_value COREWEBVIEW2_BROWSER_PROCESS_EXIT_KIND_FAILED = 1"

datatype COREWEBVIEW2_MOUSE_EVENT_KIND =
    COREWEBVIEW2_MOUSE_EVENT_KIND_HORIZONTAL_WHEEL
  | COREWEBVIEW2_MOUSE_EVENT_KIND_LEFT_BUTTON_DOUBLE_CLICK
  | COREWEBVIEW2_MOUSE_EVENT_KIND_LEFT_BUTTON_DOWN
  | COREWEBVIEW2_MOUSE_EVENT_KIND_LEFT_BUTTON_UP
  | COREWEBVIEW2_MOUSE_EVENT_KIND_LEAVE
  | COREWEBVIEW2_MOUSE_EVENT_KIND_MIDDLE_BUTTON_DOUBLE_CLICK
  | COREWEBVIEW2_MOUSE_EVENT_KIND_MIDDLE_BUTTON_DOWN
  | COREWEBVIEW2_MOUSE_EVENT_KIND_MIDDLE_BUTTON_UP
  | COREWEBVIEW2_MOUSE_EVENT_KIND_MOVE
  | COREWEBVIEW2_MOUSE_EVENT_KIND_RIGHT_BUTTON_DOUBLE_CLICK
  | COREWEBVIEW2_MOUSE_EVENT_KIND_RIGHT_BUTTON_DOWN
  | COREWEBVIEW2_MOUSE_EVENT_KIND_RIGHT_BUTTON_UP
  | COREWEBVIEW2_MOUSE_EVENT_KIND_WHEEL
  | COREWEBVIEW2_MOUSE_EVENT_KIND_X_BUTTON_DOUBLE_CLICK
  | COREWEBVIEW2_MOUSE_EVENT_KIND_X_BUTTON_DOWN
  | COREWEBVIEW2_MOUSE_EVENT_KIND_X_BUTTON_UP
  | COREWEBVIEW2_MOUSE_EVENT_KIND_NON_CLIENT_RIGHT_BUTTON_DOWN
  | COREWEBVIEW2_MOUSE_EVENT_KIND_NON_CLIENT_RIGHT_BUTTON_UP

fun COREWEBVIEW2_MOUSE_EVENT_KIND_value :: "COREWEBVIEW2_MOUSE_EVENT_KIND \<Rightarrow> 32 word" where
  "COREWEBVIEW2_MOUSE_EVENT_KIND_value COREWEBVIEW2_MOUSE_EVENT_KIND_HORIZONTAL_WHEEL = 0x20e"
| "COREWEBVIEW2_MOUSE_EVENT_KIND_value COREWEBVIEW2_MOUSE_EVENT_KIND_LEFT_BUTTON_DOUBLE_CLICK = 0x203"
| "COREWEBVIEW2_MOUSE_EVENT_KIND_value COREWEBVIEW2_MOUSE_EVENT_KIND_LEFT_BUTTON_DOWN = 0x201"
| "COREWEBVIEW2_MOUSE_EVENT_KIND_value COREWEBVIEW2_MOUSE_EVENT_KIND_LEFT_BUTTON_UP = 0x202"
| "COREWEBVIEW2_MOUSE_EVENT_KIND_value COREWEBVIEW2_MOUSE_EVENT_KIND_LEAVE = 0x2a3"
| "COREWEBVIEW2_MOUSE_EVENT_KIND_value COREWEBVIEW2_MOUSE_EVENT_KIND_MIDDLE_BUTTON_DOUBLE_CLICK = 0x209"
| "COREWEBVIEW2_MOUSE_EVENT_KIND_value COREWEBVIEW2_MOUSE_EVENT_KIND_MIDDLE_BUTTON_DOWN = 0x207"
| "COREWEBVIEW2_MOUSE_EVENT_KIND_value COREWEBVIEW2_MOUSE_EVENT_KIND_MIDDLE_BUTTON_UP = 0x208"
| "COREWEBVIEW2_MOUSE_EVENT_KIND_value COREWEBVIEW2_MOUSE_EVENT_KIND_MOVE = 0x200"
| "COREWEBVIEW2_MOUSE_EVENT_KIND_value COREWEBVIEW2_MOUSE_EVENT_KIND_RIGHT_BUTTON_DOUBLE_CLICK = 0x206"
| "COREWEBVIEW2_MOUSE_EVENT_KIND_value COREWEBVIEW2_MOUSE_EVENT_KIND_RIGHT_BUTTON_DOWN = 0x204"
| "COREWEBVIEW2_MOUSE_EVENT_KIND_value COREWEBVIEW2_MOUSE_EVENT_KIND_RIGHT_BUTTON_UP = 0x205"
| "COREWEBVIEW2_MOUSE_EVENT_KIND_value COREWEBVIEW2_MOUSE_EVENT_KIND_WHEEL = 0x20a"
| "COREWEBVIEW2_MOUSE_EVENT_KIND_value COREWEBVIEW2_MOUSE_EVENT_KIND_X_BUTTON_DOUBLE_CLICK = 0x20d"
| "COREWEBVIEW2_MOUSE_EVENT_KIND_value COREWEBVIEW2_MOUSE_EVENT_KIND_X_BUTTON_DOWN = 0x20b"
| "COREWEBVIEW2_MOUSE_EVENT_KIND_value COREWEBVIEW2_MOUSE_EVENT_KIND_X_BUTTON_UP = 0x20c"
| "COREWEBVIEW2_MOUSE_EVENT_KIND_value COREWEBVIEW2_MOUSE_EVENT_KIND_NON_CLIENT_RIGHT_BUTTON_DOWN = 0xa4"
| "COREWEBVIEW2_MOUSE_EVENT_KIND_value COREWEBVIEW2_MOUSE_EVENT_KIND_NON_CLIENT_RIGHT_BUTTON_UP = 0xa5"

datatype COREWEBVIEW2_MOUSE_EVENT_VIRTUAL_KEYS =
    COREWEBVIEW2_MOUSE_EVENT_VIRTUAL_KEYS_NONE
  | COREWEBVIEW2_MOUSE_EVENT_VIRTUAL_KEYS_LEFT_BUTTON
  | COREWEBVIEW2_MOUSE_EVENT_VIRTUAL_KEYS_RIGHT_BUTTON
  | COREWEBVIEW2_MOUSE_EVENT_VIRTUAL_KEYS_SHIFT
  | COREWEBVIEW2_MOUSE_EVENT_VIRTUAL_KEYS_CONTROL
  | COREWEBVIEW2_MOUSE_EVENT_VIRTUAL_KEYS_MIDDLE_BUTTON
  | COREWEBVIEW2_MOUSE_EVENT_VIRTUAL_KEYS_X_BUTTON1
  | COREWEBVIEW2_MOUSE_EVENT_VIRTUAL_KEYS_X_BUTTON2

fun COREWEBVIEW2_MOUSE_EVENT_VIRTUAL_KEYS_value :: "COREWEBVIEW2_MOUSE_EVENT_VIRTUAL_KEYS \<Rightarrow> 32 word" where
  "COREWEBVIEW2_MOUSE_EVENT_VIRTUAL_KEYS_value COREWEBVIEW2_MOUSE_EVENT_VIRTUAL_KEYS_NONE = 0"
| "COREWEBVIEW2_MOUSE_EVENT_VIRTUAL_KEYS_value COREWEBVIEW2_MOUSE_EVENT_VIRTUAL_KEYS_LEFT_BUTTON = 0x1"
| "COREWEBVIEW2_MOUSE_EVENT_VIRTUAL_KEYS_value COREWEBVIEW2_MOUSE_EVENT_VIRTUAL_KEYS_RIGHT_BUTTON = 0x2"
| "COREWEBVIEW2_MOUSE_EVENT_VIRTUAL_KEYS_value COREWEBVIEW2_MOUSE_EVENT_VIRTUAL_KEYS_SHIFT = 0x4"
| "COREWEBVIEW2_MOUSE_EVENT_VIRTUAL_KEYS_value COREWEBVIEW2_MOUSE_EVENT_VIRTUAL_KEYS_CONTROL = 0x8"
| "COREWEBVIEW2_MOUSE_EVENT_VIRTUAL_KEYS_value COREWEBVIEW2_MOUSE_EVENT_VIRTUAL_KEYS_MIDDLE_BUTTON = 0x10"
| "COREWEBVIEW2_MOUSE_EVENT_VIRTUAL_KEYS_value COREWEBVIEW2_MOUSE_EVENT_VIRTUAL_KEYS_X_BUTTON1 = 0x20"
| "COREWEBVIEW2_MOUSE_EVENT_VIRTUAL_KEYS_value COREWEBVIEW2_MOUSE_EVENT_VIRTUAL_KEYS_X_BUTTON2 = 0x40"

datatype COREWEBVIEW2_POINTER_EVENT_KIND =
    COREWEBVIEW2_POINTER_EVENT_KIND_ACTIVATE
  | COREWEBVIEW2_POINTER_EVENT_KIND_DOWN
  | COREWEBVIEW2_POINTER_EVENT_KIND_ENTER
  | COREWEBVIEW2_POINTER_EVENT_KIND_LEAVE
  | COREWEBVIEW2_POINTER_EVENT_KIND_UP
  | COREWEBVIEW2_POINTER_EVENT_KIND_UPDATE

fun COREWEBVIEW2_POINTER_EVENT_KIND_value :: "COREWEBVIEW2_POINTER_EVENT_KIND \<Rightarrow> 32 word" where
  "COREWEBVIEW2_POINTER_EVENT_KIND_value COREWEBVIEW2_POINTER_EVENT_KIND_ACTIVATE = 0x24b"
| "COREWEBVIEW2_POINTER_EVENT_KIND_value COREWEBVIEW2_POINTER_EVENT_KIND_DOWN = 0x246"
| "COREWEBVIEW2_POINTER_EVENT_KIND_value COREWEBVIEW2_POINTER_EVENT_KIND_ENTER = 0x249"
| "COREWEBVIEW2_POINTER_EVENT_KIND_value COREWEBVIEW2_POINTER_EVENT_KIND_LEAVE = 0x24a"
| "COREWEBVIEW2_POINTER_EVENT_KIND_value COREWEBVIEW2_POINTER_EVENT_KIND_UP = 0x247"
| "COREWEBVIEW2_POINTER_EVENT_KIND_value COREWEBVIEW2_POINTER_EVENT_KIND_UPDATE = 0x245"

datatype COREWEBVIEW2_BOUNDS_MODE =
    COREWEBVIEW2_BOUNDS_MODE_USE_RAW_PIXELS
  | COREWEBVIEW2_BOUNDS_MODE_USE_RASTERIZATION_SCALE

fun COREWEBVIEW2_BOUNDS_MODE_value :: "COREWEBVIEW2_BOUNDS_MODE \<Rightarrow> 32 word" where
  "COREWEBVIEW2_BOUNDS_MODE_value COREWEBVIEW2_BOUNDS_MODE_USE_RAW_PIXELS = 0"
| "COREWEBVIEW2_BOUNDS_MODE_value COREWEBVIEW2_BOUNDS_MODE_USE_RASTERIZATION_SCALE = 1"

datatype COREWEBVIEW2_CLIENT_CERTIFICATE_KIND =
    COREWEBVIEW2_CLIENT_CERTIFICATE_KIND_SMART_CARD
  | COREWEBVIEW2_CLIENT_CERTIFICATE_KIND_PIN
  | COREWEBVIEW2_CLIENT_CERTIFICATE_KIND_OTHER

fun COREWEBVIEW2_CLIENT_CERTIFICATE_KIND_value :: "COREWEBVIEW2_CLIENT_CERTIFICATE_KIND \<Rightarrow> 32 word" where
  "COREWEBVIEW2_CLIENT_CERTIFICATE_KIND_value COREWEBVIEW2_CLIENT_CERTIFICATE_KIND_SMART_CARD = 0"
| "COREWEBVIEW2_CLIENT_CERTIFICATE_KIND_value COREWEBVIEW2_CLIENT_CERTIFICATE_KIND_PIN = 1"
| "COREWEBVIEW2_CLIENT_CERTIFICATE_KIND_value COREWEBVIEW2_CLIENT_CERTIFICATE_KIND_OTHER = 2"

datatype COREWEBVIEW2_DOWNLOAD_STATE =
    COREWEBVIEW2_DOWNLOAD_STATE_IN_PROGRESS
  | COREWEBVIEW2_DOWNLOAD_STATE_INTERRUPTED
  | COREWEBVIEW2_DOWNLOAD_STATE_COMPLETED

fun COREWEBVIEW2_DOWNLOAD_STATE_value :: "COREWEBVIEW2_DOWNLOAD_STATE \<Rightarrow> 32 word" where
  "COREWEBVIEW2_DOWNLOAD_STATE_value COREWEBVIEW2_DOWNLOAD_STATE_IN_PROGRESS = 0"
| "COREWEBVIEW2_DOWNLOAD_STATE_value COREWEBVIEW2_DOWNLOAD_STATE_INTERRUPTED = 1"
| "COREWEBVIEW2_DOWNLOAD_STATE_value COREWEBVIEW2_DOWNLOAD_STATE_COMPLETED = 2"

datatype COREWEBVIEW2_DOWNLOAD_INTERRUPT_REASON =
    COREWEBVIEW2_DOWNLOAD_INTERRUPT_REASON_NONE
  | COREWEBVIEW2_DOWNLOAD_INTERRUPT_REASON_FILE_FAILED
  | COREWEBVIEW2_DOWNLOAD_INTERRUPT_REASON_FILE_ACCESS_DENIED
  | COREWEBVIEW2_DOWNLOAD_INTERRUPT_REASON_FILE_NO_SPACE
  | COREWEBVIEW2_DOWNLOAD_INTERRUPT_REASON_FILE_NAME_TOO_LONG
  | COREWEBVIEW2_DOWNLOAD_INTERRUPT_REASON_FILE_TOO_LARGE
  | COREWEBVIEW2_DOWNLOAD_INTERRUPT_REASON_FILE_MALICIOUS
  | COREWEBVIEW2_DOWNLOAD_INTERRUPT_REASON_FILE_TRANSIENT_ERROR
  | COREWEBVIEW2_DOWNLOAD_INTERRUPT_REASON_FILE_BLOCKED_BY_POLICY
  | COREWEBVIEW2_DOWNLOAD_INTERRUPT_REASON_FILE_SECURITY_CHECK_FAILED
  | COREWEBVIEW2_DOWNLOAD_INTERRUPT_REASON_FILE_TOO_SHORT
  | COREWEBVIEW2_DOWNLOAD_INTERRUPT_REASON_FILE_HASH_MISMATCH
  | COREWEBVIEW2_DOWNLOAD_INTERRUPT_REASON_NETWORK_FAILED
  | COREWEBVIEW2_DOWNLOAD_INTERRUPT_REASON_NETWORK_TIMEOUT
  | COREWEBVIEW2_DOWNLOAD_INTERRUPT_REASON_NETWORK_DISCONNECTED
  | COREWEBVIEW2_DOWNLOAD_INTERRUPT_REASON_NETWORK_SERVER_DOWN
  | COREWEBVIEW2_DOWNLOAD_INTERRUPT_REASON_NETWORK_INVALID_REQUEST
  | COREWEBVIEW2_DOWNLOAD_INTERRUPT_REASON_SERVER_FAILED
  | COREWEBVIEW2_DOWNLOAD_INTERRUPT_REASON_SERVER_NO_RANGE
  | COREWEBVIEW2_DOWNLOAD_INTERRUPT_REASON_SERVER_BAD_CONTENT
  | COREWEBVIEW2_DOWNLOAD_INTERRUPT_REASON_SERVER_UNAUTHORIZED
  | COREWEBVIEW2_DOWNLOAD_INTERRUPT_REASON_SERVER_CERTIFICATE_PROBLEM
  | COREWEBVIEW2_DOWNLOAD_INTERRUPT_REASON_SERVER_FORBIDDEN
  | COREWEBVIEW2_DOWNLOAD_INTERRUPT_REASON_SERVER_UNEXPECTED_RESPONSE
  | COREWEBVIEW2_DOWNLOAD_INTERRUPT_REASON_SERVER_CONTENT_LENGTH_MISMATCH
  | COREWEBVIEW2_DOWNLOAD_INTERRUPT_REASON_SERVER_CROSS_ORIGIN_REDIRECT
  | COREWEBVIEW2_DOWNLOAD_INTERRUPT_REASON_USER_CANCELED
  | COREWEBVIEW2_DOWNLOAD_INTERRUPT_REASON_USER_SHUTDOWN
  | COREWEBVIEW2_DOWNLOAD_INTERRUPT_REASON_USER_PAUSED
  | COREWEBVIEW2_DOWNLOAD_INTERRUPT_REASON_DOWNLOAD_PROCESS_CRASHED

fun COREWEBVIEW2_DOWNLOAD_INTERRUPT_REASON_value :: "COREWEBVIEW2_DOWNLOAD_INTERRUPT_REASON \<Rightarrow> 32 word" where
  "COREWEBVIEW2_DOWNLOAD_INTERRUPT_REASON_value COREWEBVIEW2_DOWNLOAD_INTERRUPT_REASON_NONE = 0"
| "COREWEBVIEW2_DOWNLOAD_INTERRUPT_REASON_value COREWEBVIEW2_DOWNLOAD_INTERRUPT_REASON_FILE_FAILED = 1"
| "COREWEBVIEW2_DOWNLOAD_INTERRUPT_REASON_value COREWEBVIEW2_DOWNLOAD_INTERRUPT_REASON_FILE_ACCESS_DENIED = 2"
| "COREWEBVIEW2_DOWNLOAD_INTERRUPT_REASON_value COREWEBVIEW2_DOWNLOAD_INTERRUPT_REASON_FILE_NO_SPACE = 3"
| "COREWEBVIEW2_DOWNLOAD_INTERRUPT_REASON_value COREWEBVIEW2_DOWNLOAD_INTERRUPT_REASON_FILE_NAME_TOO_LONG = 4"
| "COREWEBVIEW2_DOWNLOAD_INTERRUPT_REASON_value COREWEBVIEW2_DOWNLOAD_INTERRUPT_REASON_FILE_TOO_LARGE = 5"
| "COREWEBVIEW2_DOWNLOAD_INTERRUPT_REASON_value COREWEBVIEW2_DOWNLOAD_INTERRUPT_REASON_FILE_MALICIOUS = 6"
| "COREWEBVIEW2_DOWNLOAD_INTERRUPT_REASON_value COREWEBVIEW2_DOWNLOAD_INTERRUPT_REASON_FILE_TRANSIENT_ERROR = 7"
| "COREWEBVIEW2_DOWNLOAD_INTERRUPT_REASON_value COREWEBVIEW2_DOWNLOAD_INTERRUPT_REASON_FILE_BLOCKED_BY_POLICY = 8"
| "COREWEBVIEW2_DOWNLOAD_INTERRUPT_REASON_value COREWEBVIEW2_DOWNLOAD_INTERRUPT_REASON_FILE_SECURITY_CHECK_FAILED = 9"
| "COREWEBVIEW2_DOWNLOAD_INTERRUPT_REASON_value COREWEBVIEW2_DOWNLOAD_INTERRUPT_REASON_FILE_TOO_SHORT = 10"
| "COREWEBVIEW2_DOWNLOAD_INTERRUPT_REASON_value COREWEBVIEW2_DOWNLOAD_INTERRUPT_REASON_FILE_HASH_MISMATCH = 11"
| "COREWEBVIEW2_DOWNLOAD_INTERRUPT_REASON_value COREWEBVIEW2_DOWNLOAD_INTERRUPT_REASON_NETWORK_FAILED = 12"
| "COREWEBVIEW2_DOWNLOAD_INTERRUPT_REASON_value COREWEBVIEW2_DOWNLOAD_INTERRUPT_REASON_NETWORK_TIMEOUT = 13"
| "COREWEBVIEW2_DOWNLOAD_INTERRUPT_REASON_value COREWEBVIEW2_DOWNLOAD_INTERRUPT_REASON_NETWORK_DISCONNECTED = 14"
| "COREWEBVIEW2_DOWNLOAD_INTERRUPT_REASON_value COREWEBVIEW2_DOWNLOAD_INTERRUPT_REASON_NETWORK_SERVER_DOWN = 15"
| "COREWEBVIEW2_DOWNLOAD_INTERRUPT_REASON_value COREWEBVIEW2_DOWNLOAD_INTERRUPT_REASON_NETWORK_INVALID_REQUEST = 16"
| "COREWEBVIEW2_DOWNLOAD_INTERRUPT_REASON_value COREWEBVIEW2_DOWNLOAD_INTERRUPT_REASON_SERVER_FAILED = 17"
| "COREWEBVIEW2_DOWNLOAD_INTERRUPT_REASON_value COREWEBVIEW2_DOWNLOAD_INTERRUPT_REASON_SERVER_NO_RANGE = 18"
| "COREWEBVIEW2_DOWNLOAD_INTERRUPT_REASON_value COREWEBVIEW2_DOWNLOAD_INTERRUPT_REASON_SERVER_BAD_CONTENT = 19"
| "COREWEBVIEW2_DOWNLOAD_INTERRUPT_REASON_value COREWEBVIEW2_DOWNLOAD_INTERRUPT_REASON_SERVER_UNAUTHORIZED = 20"
| "COREWEBVIEW2_DOWNLOAD_INTERRUPT_REASON_value COREWEBVIEW2_DOWNLOAD_INTERRUPT_REASON_SERVER_CERTIFICATE_PROBLEM = 21"
| "COREWEBVIEW2_DOWNLOAD_INTERRUPT_REASON_value COREWEBVIEW2_DOWNLOAD_INTERRUPT_REASON_SERVER_FORBIDDEN = 22"
| "COREWEBVIEW2_DOWNLOAD_INTERRUPT_REASON_value COREWEBVIEW2_DOWNLOAD_INTERRUPT_REASON_SERVER_UNEXPECTED_RESPONSE = 23"
| "COREWEBVIEW2_DOWNLOAD_INTERRUPT_REASON_value COREWEBVIEW2_DOWNLOAD_INTERRUPT_REASON_SERVER_CONTENT_LENGTH_MISMATCH = 24"
| "COREWEBVIEW2_DOWNLOAD_INTERRUPT_REASON_value COREWEBVIEW2_DOWNLOAD_INTERRUPT_REASON_SERVER_CROSS_ORIGIN_REDIRECT = 25"
| "COREWEBVIEW2_DOWNLOAD_INTERRUPT_REASON_value COREWEBVIEW2_DOWNLOAD_INTERRUPT_REASON_USER_CANCELED = 26"
| "COREWEBVIEW2_DOWNLOAD_INTERRUPT_REASON_value COREWEBVIEW2_DOWNLOAD_INTERRUPT_REASON_USER_SHUTDOWN = 27"
| "COREWEBVIEW2_DOWNLOAD_INTERRUPT_REASON_value COREWEBVIEW2_DOWNLOAD_INTERRUPT_REASON_USER_PAUSED = 28"
| "COREWEBVIEW2_DOWNLOAD_INTERRUPT_REASON_value COREWEBVIEW2_DOWNLOAD_INTERRUPT_REASON_DOWNLOAD_PROCESS_CRASHED = 29"

datatype COREWEBVIEW2_PRINT_ORIENTATION =
    COREWEBVIEW2_PRINT_ORIENTATION_PORTRAIT
  | COREWEBVIEW2_PRINT_ORIENTATION_LANDSCAPE

fun COREWEBVIEW2_PRINT_ORIENTATION_value :: "COREWEBVIEW2_PRINT_ORIENTATION \<Rightarrow> 32 word" where
  "COREWEBVIEW2_PRINT_ORIENTATION_value COREWEBVIEW2_PRINT_ORIENTATION_PORTRAIT = 0"
| "COREWEBVIEW2_PRINT_ORIENTATION_value COREWEBVIEW2_PRINT_ORIENTATION_LANDSCAPE = 1"

datatype COREWEBVIEW2_DEFAULT_DOWNLOAD_DIALOG_CORNER_ALIGNMENT =
    COREWEBVIEW2_DEFAULT_DOWNLOAD_DIALOG_CORNER_ALIGNMENT_TOP_LEFT
  | COREWEBVIEW2_DEFAULT_DOWNLOAD_DIALOG_CORNER_ALIGNMENT_TOP_RIGHT
  | COREWEBVIEW2_DEFAULT_DOWNLOAD_DIALOG_CORNER_ALIGNMENT_BOTTOM_LEFT
  | COREWEBVIEW2_DEFAULT_DOWNLOAD_DIALOG_CORNER_ALIGNMENT_BOTTOM_RIGHT

fun COREWEBVIEW2_DEFAULT_DOWNLOAD_DIALOG_CORNER_ALIGNMENT_value :: "COREWEBVIEW2_DEFAULT_DOWNLOAD_DIALOG_CORNER_ALIGNMENT \<Rightarrow> 32 word" where
  "COREWEBVIEW2_DEFAULT_DOWNLOAD_DIALOG_CORNER_ALIGNMENT_value COREWEBVIEW2_DEFAULT_DOWNLOAD_DIALOG_CORNER_ALIGNMENT_TOP_LEFT = 0"
| "COREWEBVIEW2_DEFAULT_DOWNLOAD_DIALOG_CORNER_ALIGNMENT_value COREWEBVIEW2_DEFAULT_DOWNLOAD_DIALOG_CORNER_ALIGNMENT_TOP_RIGHT = 1"
| "COREWEBVIEW2_DEFAULT_DOWNLOAD_DIALOG_CORNER_ALIGNMENT_value COREWEBVIEW2_DEFAULT_DOWNLOAD_DIALOG_CORNER_ALIGNMENT_BOTTOM_LEFT = 2"
| "COREWEBVIEW2_DEFAULT_DOWNLOAD_DIALOG_CORNER_ALIGNMENT_value COREWEBVIEW2_DEFAULT_DOWNLOAD_DIALOG_CORNER_ALIGNMENT_BOTTOM_RIGHT = 3"

datatype COREWEBVIEW2_PROCESS_KIND =
    COREWEBVIEW2_PROCESS_KIND_BROWSER
  | COREWEBVIEW2_PROCESS_KIND_RENDERER
  | COREWEBVIEW2_PROCESS_KIND_UTILITY
  | COREWEBVIEW2_PROCESS_KIND_SANDBOX_HELPER
  | COREWEBVIEW2_PROCESS_KIND_GPU
  | COREWEBVIEW2_PROCESS_KIND_PPAPI_PLUGIN
  | COREWEBVIEW2_PROCESS_KIND_PPAPI_BROKER

fun COREWEBVIEW2_PROCESS_KIND_value :: "COREWEBVIEW2_PROCESS_KIND \<Rightarrow> 32 word" where
  "COREWEBVIEW2_PROCESS_KIND_value COREWEBVIEW2_PROCESS_KIND_BROWSER = 0"
| "COREWEBVIEW2_PROCESS_KIND_value COREWEBVIEW2_PROCESS_KIND_RENDERER = 1"
| "COREWEBVIEW2_PROCESS_KIND_value COREWEBVIEW2_PROCESS_KIND_UTILITY = 2"
| "COREWEBVIEW2_PROCESS_KIND_value COREWEBVIEW2_PROCESS_KIND_SANDBOX_HELPER = 3"
| "COREWEBVIEW2_PROCESS_KIND_value COREWEBVIEW2_PROCESS_KIND_GPU = 4"
| "COREWEBVIEW2_PROCESS_KIND_value COREWEBVIEW2_PROCESS_KIND_PPAPI_PLUGIN = 5"
| "COREWEBVIEW2_PROCESS_KIND_value COREWEBVIEW2_PROCESS_KIND_PPAPI_BROKER = 6"

datatype COREWEBVIEW2_PDF_TOOLBAR_ITEMS =
    COREWEBVIEW2_PDF_TOOLBAR_ITEMS_NONE
  | COREWEBVIEW2_PDF_TOOLBAR_ITEMS_SAVE
  | COREWEBVIEW2_PDF_TOOLBAR_ITEMS_PRINT
  | COREWEBVIEW2_PDF_TOOLBAR_ITEMS_SAVE_AS
  | COREWEBVIEW2_PDF_TOOLBAR_ITEMS_ZOOM_IN
  | COREWEBVIEW2_PDF_TOOLBAR_ITEMS_ZOOM_OUT
  | COREWEBVIEW2_PDF_TOOLBAR_ITEMS_ROTATE
  | COREWEBVIEW2_PDF_TOOLBAR_ITEMS_FIT_PAGE
  | COREWEBVIEW2_PDF_TOOLBAR_ITEMS_PAGE_LAYOUT
  | COREWEBVIEW2_PDF_TOOLBAR_ITEMS_BOOKMARKS
  | COREWEBVIEW2_PDF_TOOLBAR_ITEMS_PAGE_SELECTOR
  | COREWEBVIEW2_PDF_TOOLBAR_ITEMS_SEARCH
  | COREWEBVIEW2_PDF_TOOLBAR_ITEMS_FULL_SCREEN
  | COREWEBVIEW2_PDF_TOOLBAR_ITEMS_MORE_SETTINGS

fun COREWEBVIEW2_PDF_TOOLBAR_ITEMS_value :: "COREWEBVIEW2_PDF_TOOLBAR_ITEMS \<Rightarrow> 32 word" where
  "COREWEBVIEW2_PDF_TOOLBAR_ITEMS_value COREWEBVIEW2_PDF_TOOLBAR_ITEMS_NONE = 0"
| "COREWEBVIEW2_PDF_TOOLBAR_ITEMS_value COREWEBVIEW2_PDF_TOOLBAR_ITEMS_SAVE = 0x1"
| "COREWEBVIEW2_PDF_TOOLBAR_ITEMS_value COREWEBVIEW2_PDF_TOOLBAR_ITEMS_PRINT = 0x2"
| "COREWEBVIEW2_PDF_TOOLBAR_ITEMS_value COREWEBVIEW2_PDF_TOOLBAR_ITEMS_SAVE_AS = 0x4"
| "COREWEBVIEW2_PDF_TOOLBAR_ITEMS_value COREWEBVIEW2_PDF_TOOLBAR_ITEMS_ZOOM_IN = 0x8"
| "COREWEBVIEW2_PDF_TOOLBAR_ITEMS_value COREWEBVIEW2_PDF_TOOLBAR_ITEMS_ZOOM_OUT = 0x10"
| "COREWEBVIEW2_PDF_TOOLBAR_ITEMS_value COREWEBVIEW2_PDF_TOOLBAR_ITEMS_ROTATE = 0x20"
| "COREWEBVIEW2_PDF_TOOLBAR_ITEMS_value COREWEBVIEW2_PDF_TOOLBAR_ITEMS_FIT_PAGE = 0x40"
| "COREWEBVIEW2_PDF_TOOLBAR_ITEMS_value COREWEBVIEW2_PDF_TOOLBAR_ITEMS_PAGE_LAYOUT = 0x80"
| "COREWEBVIEW2_PDF_TOOLBAR_ITEMS_value COREWEBVIEW2_PDF_TOOLBAR_ITEMS_BOOKMARKS = 0x100"
| "COREWEBVIEW2_PDF_TOOLBAR_ITEMS_value COREWEBVIEW2_PDF_TOOLBAR_ITEMS_PAGE_SELECTOR = 0x200"
| "COREWEBVIEW2_PDF_TOOLBAR_ITEMS_value COREWEBVIEW2_PDF_TOOLBAR_ITEMS_SEARCH = 0x400"
| "COREWEBVIEW2_PDF_TOOLBAR_ITEMS_value COREWEBVIEW2_PDF_TOOLBAR_ITEMS_FULL_SCREEN = 0x800"
| "COREWEBVIEW2_PDF_TOOLBAR_ITEMS_value COREWEBVIEW2_PDF_TOOLBAR_ITEMS_MORE_SETTINGS = 0x1000"

datatype COREWEBVIEW2_CONTEXT_MENU_TARGET_KIND =
    COREWEBVIEW2_CONTEXT_MENU_TARGET_KIND_PAGE
  | COREWEBVIEW2_CONTEXT_MENU_TARGET_KIND_IMAGE
  | COREWEBVIEW2_CONTEXT_MENU_TARGET_KIND_SELECTED_TEXT
  | COREWEBVIEW2_CONTEXT_MENU_TARGET_KIND_AUDIO
  | COREWEBVIEW2_CONTEXT_MENU_TARGET_KIND_VIDEO

fun COREWEBVIEW2_CONTEXT_MENU_TARGET_KIND_value :: "COREWEBVIEW2_CONTEXT_MENU_TARGET_KIND \<Rightarrow> 32 word" where
  "COREWEBVIEW2_CONTEXT_MENU_TARGET_KIND_value COREWEBVIEW2_CONTEXT_MENU_TARGET_KIND_PAGE = 0"
| "COREWEBVIEW2_CONTEXT_MENU_TARGET_KIND_value COREWEBVIEW2_CONTEXT_MENU_TARGET_KIND_IMAGE = 1"
| "COREWEBVIEW2_CONTEXT_MENU_TARGET_KIND_value COREWEBVIEW2_CONTEXT_MENU_TARGET_KIND_SELECTED_TEXT = 2"
| "COREWEBVIEW2_CONTEXT_MENU_TARGET_KIND_value COREWEBVIEW2_CONTEXT_MENU_TARGET_KIND_AUDIO = 3"
| "COREWEBVIEW2_CONTEXT_MENU_TARGET_KIND_value COREWEBVIEW2_CONTEXT_MENU_TARGET_KIND_VIDEO = 4"

datatype COREWEBVIEW2_CONTEXT_MENU_ITEM_KIND =
    COREWEBVIEW2_CONTEXT_MENU_ITEM_KIND_COMMAND
  | COREWEBVIEW2_CONTEXT_MENU_ITEM_KIND_CHECK_BOX
  | COREWEBVIEW2_CONTEXT_MENU_ITEM_KIND_RADIO
  | COREWEBVIEW2_CONTEXT_MENU_ITEM_KIND_SEPARATOR
  | COREWEBVIEW2_CONTEXT_MENU_ITEM_KIND_SUBMENU

fun COREWEBVIEW2_CONTEXT_MENU_ITEM_KIND_value :: "COREWEBVIEW2_CONTEXT_MENU_ITEM_KIND \<Rightarrow> 32 word" where
  "COREWEBVIEW2_CONTEXT_MENU_ITEM_KIND_value COREWEBVIEW2_CONTEXT_MENU_ITEM_KIND_COMMAND = 0"
| "COREWEBVIEW2_CONTEXT_MENU_ITEM_KIND_value COREWEBVIEW2_CONTEXT_MENU_ITEM_KIND_CHECK_BOX = 1"
| "COREWEBVIEW2_CONTEXT_MENU_ITEM_KIND_value COREWEBVIEW2_CONTEXT_MENU_ITEM_KIND_RADIO = 2"
| "COREWEBVIEW2_CONTEXT_MENU_ITEM_KIND_value COREWEBVIEW2_CONTEXT_MENU_ITEM_KIND_SEPARATOR = 3"
| "COREWEBVIEW2_CONTEXT_MENU_ITEM_KIND_value COREWEBVIEW2_CONTEXT_MENU_ITEM_KIND_SUBMENU = 4"

datatype COREWEBVIEW2_BROWSING_DATA_KINDS =
    COREWEBVIEW2_BROWSING_DATA_KINDS_FILE_SYSTEMS
  | COREWEBVIEW2_BROWSING_DATA_KINDS_INDEXED_DB
  | COREWEBVIEW2_BROWSING_DATA_KINDS_LOCAL_STORAGE
  | COREWEBVIEW2_BROWSING_DATA_KINDS_WEB_SQL
  | COREWEBVIEW2_BROWSING_DATA_KINDS_CACHE_STORAGE
  | COREWEBVIEW2_BROWSING_DATA_KINDS_ALL_DOM_STORAGE
  | COREWEBVIEW2_BROWSING_DATA_KINDS_COOKIES
  | COREWEBVIEW2_BROWSING_DATA_KINDS_ALL_SITE
  | COREWEBVIEW2_BROWSING_DATA_KINDS_DISK_CACHE
  | COREWEBVIEW2_BROWSING_DATA_KINDS_DOWNLOAD_HISTORY
  | COREWEBVIEW2_BROWSING_DATA_KINDS_GENERAL_AUTOFILL
  | COREWEBVIEW2_BROWSING_DATA_KINDS_PASSWORD_AUTOSAVE
  | COREWEBVIEW2_BROWSING_DATA_KINDS_BROWSING_HISTORY
  | COREWEBVIEW2_BROWSING_DATA_KINDS_SETTINGS
  | COREWEBVIEW2_BROWSING_DATA_KINDS_ALL_PROFILE
  | COREWEBVIEW2_BROWSING_DATA_KINDS_SERVICE_WORKERS

fun COREWEBVIEW2_BROWSING_DATA_KINDS_value :: "COREWEBVIEW2_BROWSING_DATA_KINDS \<Rightarrow> 32 word" where
  "COREWEBVIEW2_BROWSING_DATA_KINDS_value COREWEBVIEW2_BROWSING_DATA_KINDS_FILE_SYSTEMS = push_bit 0 1"
| "COREWEBVIEW2_BROWSING_DATA_KINDS_value COREWEBVIEW2_BROWSING_DATA_KINDS_INDEXED_DB = push_bit 1 1"
| "COREWEBVIEW2_BROWSING_DATA_KINDS_value COREWEBVIEW2_BROWSING_DATA_KINDS_LOCAL_STORAGE = push_bit 2 1"
| "COREWEBVIEW2_BROWSING_DATA_KINDS_value COREWEBVIEW2_BROWSING_DATA_KINDS_WEB_SQL = push_bit 3 1"
| "COREWEBVIEW2_BROWSING_DATA_KINDS_value COREWEBVIEW2_BROWSING_DATA_KINDS_CACHE_STORAGE = push_bit 4 1"
| "COREWEBVIEW2_BROWSING_DATA_KINDS_value COREWEBVIEW2_BROWSING_DATA_KINDS_ALL_DOM_STORAGE = push_bit 5 1"
| "COREWEBVIEW2_BROWSING_DATA_KINDS_value COREWEBVIEW2_BROWSING_DATA_KINDS_COOKIES = push_bit 6 1"
| "COREWEBVIEW2_BROWSING_DATA_KINDS_value COREWEBVIEW2_BROWSING_DATA_KINDS_ALL_SITE = push_bit 7 1"
| "COREWEBVIEW2_BROWSING_DATA_KINDS_value COREWEBVIEW2_BROWSING_DATA_KINDS_DISK_CACHE = push_bit 8 1"
| "COREWEBVIEW2_BROWSING_DATA_KINDS_value COREWEBVIEW2_BROWSING_DATA_KINDS_DOWNLOAD_HISTORY = push_bit 9 1"
| "COREWEBVIEW2_BROWSING_DATA_KINDS_value COREWEBVIEW2_BROWSING_DATA_KINDS_GENERAL_AUTOFILL = push_bit 10 1"
| "COREWEBVIEW2_BROWSING_DATA_KINDS_value COREWEBVIEW2_BROWSING_DATA_KINDS_PASSWORD_AUTOSAVE = push_bit 11 1"
| "COREWEBVIEW2_BROWSING_DATA_KINDS_value COREWEBVIEW2_BROWSING_DATA_KINDS_BROWSING_HISTORY = push_bit 12 1"
| "COREWEBVIEW2_BROWSING_DATA_KINDS_value COREWEBVIEW2_BROWSING_DATA_KINDS_SETTINGS = push_bit 13 1"
| "COREWEBVIEW2_BROWSING_DATA_KINDS_value COREWEBVIEW2_BROWSING_DATA_KINDS_ALL_PROFILE = push_bit 14 1"
| "COREWEBVIEW2_BROWSING_DATA_KINDS_value COREWEBVIEW2_BROWSING_DATA_KINDS_SERVICE_WORKERS = push_bit 15 1"

datatype COREWEBVIEW2_SERVER_CERTIFICATE_ERROR_ACTION =
    COREWEBVIEW2_SERVER_CERTIFICATE_ERROR_ACTION_ALWAYS_ALLOW
  | COREWEBVIEW2_SERVER_CERTIFICATE_ERROR_ACTION_CANCEL
  | COREWEBVIEW2_SERVER_CERTIFICATE_ERROR_ACTION_DEFAULT

fun COREWEBVIEW2_SERVER_CERTIFICATE_ERROR_ACTION_value :: "COREWEBVIEW2_SERVER_CERTIFICATE_ERROR_ACTION \<Rightarrow> 32 word" where
  "COREWEBVIEW2_SERVER_CERTIFICATE_ERROR_ACTION_value COREWEBVIEW2_SERVER_CERTIFICATE_ERROR_ACTION_ALWAYS_ALLOW = 0"
| "COREWEBVIEW2_SERVER_CERTIFICATE_ERROR_ACTION_value COREWEBVIEW2_SERVER_CERTIFICATE_ERROR_ACTION_CANCEL = 1"
| "COREWEBVIEW2_SERVER_CERTIFICATE_ERROR_ACTION_value COREWEBVIEW2_SERVER_CERTIFICATE_ERROR_ACTION_DEFAULT = 2"

datatype COREWEBVIEW2_FAVICON_IMAGE_FORMAT =
    COREWEBVIEW2_FAVICON_IMAGE_FORMAT_PNG
  | COREWEBVIEW2_FAVICON_IMAGE_FORMAT_JPEG

fun COREWEBVIEW2_FAVICON_IMAGE_FORMAT_value :: "COREWEBVIEW2_FAVICON_IMAGE_FORMAT \<Rightarrow> 32 word" where
  "COREWEBVIEW2_FAVICON_IMAGE_FORMAT_value COREWEBVIEW2_FAVICON_IMAGE_FORMAT_PNG = 0"
| "COREWEBVIEW2_FAVICON_IMAGE_FORMAT_value COREWEBVIEW2_FAVICON_IMAGE_FORMAT_JPEG = 1"

datatype COREWEBVIEW2_PRINT_DUPLEX =
    COREWEBVIEW2_PRINT_DUPLEX_DEFAULT
  | COREWEBVIEW2_PRINT_DUPLEX_ONE_SIDED
  | COREWEBVIEW2_PRINT_DUPLEX_TWO_SIDED_LONG_EDGE
  | COREWEBVIEW2_PRINT_DUPLEX_TWO_SIDED_SHORT_EDGE

fun COREWEBVIEW2_PRINT_DUPLEX_value :: "COREWEBVIEW2_PRINT_DUPLEX \<Rightarrow> 32 word" where
  "COREWEBVIEW2_PRINT_DUPLEX_value COREWEBVIEW2_PRINT_DUPLEX_DEFAULT = 0"
| "COREWEBVIEW2_PRINT_DUPLEX_value COREWEBVIEW2_PRINT_DUPLEX_ONE_SIDED = 1"
| "COREWEBVIEW2_PRINT_DUPLEX_value COREWEBVIEW2_PRINT_DUPLEX_TWO_SIDED_LONG_EDGE = 2"
| "COREWEBVIEW2_PRINT_DUPLEX_value COREWEBVIEW2_PRINT_DUPLEX_TWO_SIDED_SHORT_EDGE = 3"

datatype COREWEBVIEW2_PRINT_COLOR_MODE =
    COREWEBVIEW2_PRINT_COLOR_MODE_DEFAULT
  | COREWEBVIEW2_PRINT_COLOR_MODE_COLOR
  | COREWEBVIEW2_PRINT_COLOR_MODE_GRAYSCALE

fun COREWEBVIEW2_PRINT_COLOR_MODE_value :: "COREWEBVIEW2_PRINT_COLOR_MODE \<Rightarrow> 32 word" where
  "COREWEBVIEW2_PRINT_COLOR_MODE_value COREWEBVIEW2_PRINT_COLOR_MODE_DEFAULT = 0"
| "COREWEBVIEW2_PRINT_COLOR_MODE_value COREWEBVIEW2_PRINT_COLOR_MODE_COLOR = 1"
| "COREWEBVIEW2_PRINT_COLOR_MODE_value COREWEBVIEW2_PRINT_COLOR_MODE_GRAYSCALE = 2"

datatype COREWEBVIEW2_PRINT_COLLATION =
    COREWEBVIEW2_PRINT_COLLATION_DEFAULT
  | COREWEBVIEW2_PRINT_COLLATION_COLLATED
  | COREWEBVIEW2_PRINT_COLLATION_UNCOLLATED

fun COREWEBVIEW2_PRINT_COLLATION_value :: "COREWEBVIEW2_PRINT_COLLATION \<Rightarrow> 32 word" where
  "COREWEBVIEW2_PRINT_COLLATION_value COREWEBVIEW2_PRINT_COLLATION_DEFAULT = 0"
| "COREWEBVIEW2_PRINT_COLLATION_value COREWEBVIEW2_PRINT_COLLATION_COLLATED = 1"
| "COREWEBVIEW2_PRINT_COLLATION_value COREWEBVIEW2_PRINT_COLLATION_UNCOLLATED = 2"

datatype COREWEBVIEW2_PRINT_MEDIA_SIZE =
    COREWEBVIEW2_PRINT_MEDIA_SIZE_DEFAULT
  | COREWEBVIEW2_PRINT_MEDIA_SIZE_CUSTOM

fun COREWEBVIEW2_PRINT_MEDIA_SIZE_value :: "COREWEBVIEW2_PRINT_MEDIA_SIZE \<Rightarrow> 32 word" where
  "COREWEBVIEW2_PRINT_MEDIA_SIZE_value COREWEBVIEW2_PRINT_MEDIA_SIZE_DEFAULT = 0"
| "COREWEBVIEW2_PRINT_MEDIA_SIZE_value COREWEBVIEW2_PRINT_MEDIA_SIZE_CUSTOM = 1"

datatype COREWEBVIEW2_PRINT_STATUS =
    COREWEBVIEW2_PRINT_STATUS_SUCCEEDED
  | COREWEBVIEW2_PRINT_STATUS_PRINTER_UNAVAILABLE
  | COREWEBVIEW2_PRINT_STATUS_OTHER_ERROR

fun COREWEBVIEW2_PRINT_STATUS_value :: "COREWEBVIEW2_PRINT_STATUS \<Rightarrow> 32 word" where
  "COREWEBVIEW2_PRINT_STATUS_value COREWEBVIEW2_PRINT_STATUS_SUCCEEDED = 0"
| "COREWEBVIEW2_PRINT_STATUS_value COREWEBVIEW2_PRINT_STATUS_PRINTER_UNAVAILABLE = 1"
| "COREWEBVIEW2_PRINT_STATUS_value COREWEBVIEW2_PRINT_STATUS_OTHER_ERROR = 2"

datatype COREWEBVIEW2_TRACKING_PREVENTION_LEVEL =
    COREWEBVIEW2_TRACKING_PREVENTION_LEVEL_NONE
  | COREWEBVIEW2_TRACKING_PREVENTION_LEVEL_BASIC
  | COREWEBVIEW2_TRACKING_PREVENTION_LEVEL_BALANCED
  | COREWEBVIEW2_TRACKING_PREVENTION_LEVEL_STRICT

fun COREWEBVIEW2_TRACKING_PREVENTION_LEVEL_value :: "COREWEBVIEW2_TRACKING_PREVENTION_LEVEL \<Rightarrow> 32 word" where
  "COREWEBVIEW2_TRACKING_PREVENTION_LEVEL_value COREWEBVIEW2_TRACKING_PREVENTION_LEVEL_NONE = 0"
| "COREWEBVIEW2_TRACKING_PREVENTION_LEVEL_value COREWEBVIEW2_TRACKING_PREVENTION_LEVEL_BASIC = 1"
| "COREWEBVIEW2_TRACKING_PREVENTION_LEVEL_value COREWEBVIEW2_TRACKING_PREVENTION_LEVEL_BALANCED = 2"
| "COREWEBVIEW2_TRACKING_PREVENTION_LEVEL_value COREWEBVIEW2_TRACKING_PREVENTION_LEVEL_STRICT = 3"

datatype COREWEBVIEW2_SHARED_BUFFER_ACCESS =
    COREWEBVIEW2_SHARED_BUFFER_ACCESS_READ_ONLY
  | COREWEBVIEW2_SHARED_BUFFER_ACCESS_READ_WRITE

fun COREWEBVIEW2_SHARED_BUFFER_ACCESS_value :: "COREWEBVIEW2_SHARED_BUFFER_ACCESS \<Rightarrow> 32 word" where
  "COREWEBVIEW2_SHARED_BUFFER_ACCESS_value COREWEBVIEW2_SHARED_BUFFER_ACCESS_READ_ONLY = 0"
| "COREWEBVIEW2_SHARED_BUFFER_ACCESS_value COREWEBVIEW2_SHARED_BUFFER_ACCESS_READ_WRITE = 1"

datatype COREWEBVIEW2_MEMORY_USAGE_TARGET_LEVEL =
    COREWEBVIEW2_MEMORY_USAGE_TARGET_LEVEL_NORMAL
  | COREWEBVIEW2_MEMORY_USAGE_TARGET_LEVEL_LOW

fun COREWEBVIEW2_MEMORY_USAGE_TARGET_LEVEL_value :: "COREWEBVIEW2_MEMORY_USAGE_TARGET_LEVEL \<Rightarrow> 32 word" where
  "COREWEBVIEW2_MEMORY_USAGE_TARGET_LEVEL_value COREWEBVIEW2_MEMORY_USAGE_TARGET_LEVEL_NORMAL = 0"
| "COREWEBVIEW2_MEMORY_USAGE_TARGET_LEVEL_value COREWEBVIEW2_MEMORY_USAGE_TARGET_LEVEL_LOW = 1"

datatype COREWEBVIEW2_NAVIGATION_KIND =
    COREWEBVIEW2_NAVIGATION_KIND_RELOAD
  | COREWEBVIEW2_NAVIGATION_KIND_BACK_OR_FORWARD
  | COREWEBVIEW2_NAVIGATION_KIND_NEW_DOCUMENT

fun COREWEBVIEW2_NAVIGATION_KIND_value :: "COREWEBVIEW2_NAVIGATION_KIND \<Rightarrow> 32 word" where
  "COREWEBVIEW2_NAVIGATION_KIND_value COREWEBVIEW2_NAVIGATION_KIND_RELOAD = 0"
| "COREWEBVIEW2_NAVIGATION_KIND_value COREWEBVIEW2_NAVIGATION_KIND_BACK_OR_FORWARD = 1"
| "COREWEBVIEW2_NAVIGATION_KIND_value COREWEBVIEW2_NAVIGATION_KIND_NEW_DOCUMENT = 2"

datatype COREWEBVIEW2_FRAME_KIND =
    COREWEBVIEW2_FRAME_KIND_UNKNOWN
  | COREWEBVIEW2_FRAME_KIND_MAIN_FRAME
  | COREWEBVIEW2_FRAME_KIND_IFRAME
  | COREWEBVIEW2_FRAME_KIND_EMBED
  | COREWEBVIEW2_FRAME_KIND_OBJECT

fun COREWEBVIEW2_FRAME_KIND_value :: "COREWEBVIEW2_FRAME_KIND \<Rightarrow> 32 word" where
  "COREWEBVIEW2_FRAME_KIND_value COREWEBVIEW2_FRAME_KIND_UNKNOWN = 0"
| "COREWEBVIEW2_FRAME_KIND_value COREWEBVIEW2_FRAME_KIND_MAIN_FRAME = 1"
| "COREWEBVIEW2_FRAME_KIND_value COREWEBVIEW2_FRAME_KIND_IFRAME = 2"
| "COREWEBVIEW2_FRAME_KIND_value COREWEBVIEW2_FRAME_KIND_EMBED = 3"
| "COREWEBVIEW2_FRAME_KIND_value COREWEBVIEW2_FRAME_KIND_OBJECT = 4"

datatype COREWEBVIEW2_WEB_RESOURCE_REQUEST_SOURCE_KINDS =
    COREWEBVIEW2_WEB_RESOURCE_REQUEST_SOURCE_KINDS_NONE
  | COREWEBVIEW2_WEB_RESOURCE_REQUEST_SOURCE_KINDS_DOCUMENT
  | COREWEBVIEW2_WEB_RESOURCE_REQUEST_SOURCE_KINDS_SHARED_WORKER
  | COREWEBVIEW2_WEB_RESOURCE_REQUEST_SOURCE_KINDS_SERVICE_WORKER
  | COREWEBVIEW2_WEB_RESOURCE_REQUEST_SOURCE_KINDS_ALL

fun COREWEBVIEW2_WEB_RESOURCE_REQUEST_SOURCE_KINDS_value :: "COREWEBVIEW2_WEB_RESOURCE_REQUEST_SOURCE_KINDS \<Rightarrow> 32 word" where
  "COREWEBVIEW2_WEB_RESOURCE_REQUEST_SOURCE_KINDS_value COREWEBVIEW2_WEB_RESOURCE_REQUEST_SOURCE_KINDS_NONE = 0"
| "COREWEBVIEW2_WEB_RESOURCE_REQUEST_SOURCE_KINDS_value COREWEBVIEW2_WEB_RESOURCE_REQUEST_SOURCE_KINDS_DOCUMENT = 1"
| "COREWEBVIEW2_WEB_RESOURCE_REQUEST_SOURCE_KINDS_value COREWEBVIEW2_WEB_RESOURCE_REQUEST_SOURCE_KINDS_SHARED_WORKER = 2"
| "COREWEBVIEW2_WEB_RESOURCE_REQUEST_SOURCE_KINDS_value COREWEBVIEW2_WEB_RESOURCE_REQUEST_SOURCE_KINDS_SERVICE_WORKER = 4"
| "COREWEBVIEW2_WEB_RESOURCE_REQUEST_SOURCE_KINDS_value COREWEBVIEW2_WEB_RESOURCE_REQUEST_SOURCE_KINDS_ALL = 0xffffffff"

section \<open>The values are distinct\<close>

lemma COREWEBVIEW2_CAPTURE_PREVIEW_IMAGE_FORMAT_inj: "COREWEBVIEW2_CAPTURE_PREVIEW_IMAGE_FORMAT_value x = COREWEBVIEW2_CAPTURE_PREVIEW_IMAGE_FORMAT_value y \<longleftrightarrow> x = y"
  by (cases x; cases y) simp_all

lemma COREWEBVIEW2_COOKIE_SAME_SITE_KIND_inj: "COREWEBVIEW2_COOKIE_SAME_SITE_KIND_value x = COREWEBVIEW2_COOKIE_SAME_SITE_KIND_value y \<longleftrightarrow> x = y"
  by (cases x; cases y) simp_all

lemma COREWEBVIEW2_HOST_RESOURCE_ACCESS_KIND_inj: "COREWEBVIEW2_HOST_RESOURCE_ACCESS_KIND_value x = COREWEBVIEW2_HOST_RESOURCE_ACCESS_KIND_value y \<longleftrightarrow> x = y"
  by (cases x; cases y) simp_all

lemma COREWEBVIEW2_SCRIPT_DIALOG_KIND_inj: "COREWEBVIEW2_SCRIPT_DIALOG_KIND_value x = COREWEBVIEW2_SCRIPT_DIALOG_KIND_value y \<longleftrightarrow> x = y"
  by (cases x; cases y) simp_all

lemma COREWEBVIEW2_PROCESS_FAILED_KIND_inj: "COREWEBVIEW2_PROCESS_FAILED_KIND_value x = COREWEBVIEW2_PROCESS_FAILED_KIND_value y \<longleftrightarrow> x = y"
  by (cases x; cases y) simp_all

lemma COREWEBVIEW2_PROCESS_FAILED_REASON_inj: "COREWEBVIEW2_PROCESS_FAILED_REASON_value x = COREWEBVIEW2_PROCESS_FAILED_REASON_value y \<longleftrightarrow> x = y"
  by (cases x; cases y) simp_all

lemma COREWEBVIEW2_PERMISSION_KIND_inj: "COREWEBVIEW2_PERMISSION_KIND_value x = COREWEBVIEW2_PERMISSION_KIND_value y \<longleftrightarrow> x = y"
  by (cases x; cases y) simp_all

lemma COREWEBVIEW2_PERMISSION_STATE_inj: "COREWEBVIEW2_PERMISSION_STATE_value x = COREWEBVIEW2_PERMISSION_STATE_value y \<longleftrightarrow> x = y"
  by (cases x; cases y) simp_all

lemma COREWEBVIEW2_WEB_ERROR_STATUS_inj: "COREWEBVIEW2_WEB_ERROR_STATUS_value x = COREWEBVIEW2_WEB_ERROR_STATUS_value y \<longleftrightarrow> x = y"
  by (cases x; cases y) simp_all

lemma COREWEBVIEW2_BROWSER_PROCESS_EXIT_KIND_inj: "COREWEBVIEW2_BROWSER_PROCESS_EXIT_KIND_value x = COREWEBVIEW2_BROWSER_PROCESS_EXIT_KIND_value y \<longleftrightarrow> x = y"
  by (cases x; cases y) simp_all

lemma COREWEBVIEW2_MOUSE_EVENT_KIND_inj: "COREWEBVIEW2_MOUSE_EVENT_KIND_value x = COREWEBVIEW2_MOUSE_EVENT_KIND_value y \<longleftrightarrow> x = y"
  by (cases x; cases y) simp_all

lemma COREWEBVIEW2_MOUSE_EVENT_VIRTUAL_KEYS_inj: "COREWEBVIEW2_MOUSE_EVENT_VIRTUAL_KEYS_value x = COREWEBVIEW2_MOUSE_EVENT_VIRTUAL_KEYS_value y \<longleftrightarrow> x = y"
  by (cases x; cases y) simp_all

lemma COREWEBVIEW2_POINTER_EVENT_KIND_inj: "COREWEBVIEW2_POINTER_EVENT_KIND_value x = COREWEBVIEW2_POINTER_EVENT_KIND_value y \<longleftrightarrow> x = y"
  by (cases x; cases y) simp_all

lemma COREWEBVIEW2_BOUNDS_MODE_inj: "COREWEBVIEW2_BOUNDS_MODE_value x = COREWEBVIEW2_BOUNDS_MODE_value y \<longleftrightarrow> x = y"
  by (cases x; cases y) simp_all

lemma COREWEBVIEW2_CLIENT_CERTIFICATE_KIND_inj: "COREWEBVIEW2_CLIENT_CERTIFICATE_KIND_value x = COREWEBVIEW2_CLIENT_CERTIFICATE_KIND_value y \<longleftrightarrow> x = y"
  by (cases x; cases y) simp_all

lemma COREWEBVIEW2_DOWNLOAD_STATE_inj: "COREWEBVIEW2_DOWNLOAD_STATE_value x = COREWEBVIEW2_DOWNLOAD_STATE_value y \<longleftrightarrow> x = y"
  by (cases x; cases y) simp_all

lemma COREWEBVIEW2_DOWNLOAD_INTERRUPT_REASON_inj: "COREWEBVIEW2_DOWNLOAD_INTERRUPT_REASON_value x = COREWEBVIEW2_DOWNLOAD_INTERRUPT_REASON_value y \<longleftrightarrow> x = y"
  by (cases x; cases y) simp_all

lemma COREWEBVIEW2_PRINT_ORIENTATION_inj: "COREWEBVIEW2_PRINT_ORIENTATION_value x = COREWEBVIEW2_PRINT_ORIENTATION_value y \<longleftrightarrow> x = y"
  by (cases x; cases y) simp_all

lemma COREWEBVIEW2_DEFAULT_DOWNLOAD_DIALOG_CORNER_ALIGNMENT_inj: "COREWEBVIEW2_DEFAULT_DOWNLOAD_DIALOG_CORNER_ALIGNMENT_value x = COREWEBVIEW2_DEFAULT_DOWNLOAD_DIALOG_CORNER_ALIGNMENT_value y \<longleftrightarrow> x = y"
  by (cases x; cases y) simp_all

lemma COREWEBVIEW2_PROCESS_KIND_inj: "COREWEBVIEW2_PROCESS_KIND_value x = COREWEBVIEW2_PROCESS_KIND_value y \<longleftrightarrow> x = y"
  by (cases x; cases y) simp_all

lemma COREWEBVIEW2_PDF_TOOLBAR_ITEMS_inj: "COREWEBVIEW2_PDF_TOOLBAR_ITEMS_value x = COREWEBVIEW2_PDF_TOOLBAR_ITEMS_value y \<longleftrightarrow> x = y"
  by (cases x; cases y) simp_all

lemma COREWEBVIEW2_CONTEXT_MENU_TARGET_KIND_inj: "COREWEBVIEW2_CONTEXT_MENU_TARGET_KIND_value x = COREWEBVIEW2_CONTEXT_MENU_TARGET_KIND_value y \<longleftrightarrow> x = y"
  by (cases x; cases y) simp_all

lemma COREWEBVIEW2_CONTEXT_MENU_ITEM_KIND_inj: "COREWEBVIEW2_CONTEXT_MENU_ITEM_KIND_value x = COREWEBVIEW2_CONTEXT_MENU_ITEM_KIND_value y \<longleftrightarrow> x = y"
  by (cases x; cases y) simp_all

lemma COREWEBVIEW2_BROWSING_DATA_KINDS_inj: "COREWEBVIEW2_BROWSING_DATA_KINDS_value x = COREWEBVIEW2_BROWSING_DATA_KINDS_value y \<longleftrightarrow> x = y"
  by (cases x; cases y) simp_all

lemma COREWEBVIEW2_SERVER_CERTIFICATE_ERROR_ACTION_inj: "COREWEBVIEW2_SERVER_CERTIFICATE_ERROR_ACTION_value x = COREWEBVIEW2_SERVER_CERTIFICATE_ERROR_ACTION_value y \<longleftrightarrow> x = y"
  by (cases x; cases y) simp_all

lemma COREWEBVIEW2_FAVICON_IMAGE_FORMAT_inj: "COREWEBVIEW2_FAVICON_IMAGE_FORMAT_value x = COREWEBVIEW2_FAVICON_IMAGE_FORMAT_value y \<longleftrightarrow> x = y"
  by (cases x; cases y) simp_all

lemma COREWEBVIEW2_PRINT_DUPLEX_inj: "COREWEBVIEW2_PRINT_DUPLEX_value x = COREWEBVIEW2_PRINT_DUPLEX_value y \<longleftrightarrow> x = y"
  by (cases x; cases y) simp_all

lemma COREWEBVIEW2_PRINT_COLOR_MODE_inj: "COREWEBVIEW2_PRINT_COLOR_MODE_value x = COREWEBVIEW2_PRINT_COLOR_MODE_value y \<longleftrightarrow> x = y"
  by (cases x; cases y) simp_all

lemma COREWEBVIEW2_PRINT_COLLATION_inj: "COREWEBVIEW2_PRINT_COLLATION_value x = COREWEBVIEW2_PRINT_COLLATION_value y \<longleftrightarrow> x = y"
  by (cases x; cases y) simp_all

lemma COREWEBVIEW2_PRINT_MEDIA_SIZE_inj: "COREWEBVIEW2_PRINT_MEDIA_SIZE_value x = COREWEBVIEW2_PRINT_MEDIA_SIZE_value y \<longleftrightarrow> x = y"
  by (cases x; cases y) simp_all

lemma COREWEBVIEW2_PRINT_STATUS_inj: "COREWEBVIEW2_PRINT_STATUS_value x = COREWEBVIEW2_PRINT_STATUS_value y \<longleftrightarrow> x = y"
  by (cases x; cases y) simp_all

lemma COREWEBVIEW2_TRACKING_PREVENTION_LEVEL_inj: "COREWEBVIEW2_TRACKING_PREVENTION_LEVEL_value x = COREWEBVIEW2_TRACKING_PREVENTION_LEVEL_value y \<longleftrightarrow> x = y"
  by (cases x; cases y) simp_all

lemma COREWEBVIEW2_SHARED_BUFFER_ACCESS_inj: "COREWEBVIEW2_SHARED_BUFFER_ACCESS_value x = COREWEBVIEW2_SHARED_BUFFER_ACCESS_value y \<longleftrightarrow> x = y"
  by (cases x; cases y) simp_all

lemma COREWEBVIEW2_MEMORY_USAGE_TARGET_LEVEL_inj: "COREWEBVIEW2_MEMORY_USAGE_TARGET_LEVEL_value x = COREWEBVIEW2_MEMORY_USAGE_TARGET_LEVEL_value y \<longleftrightarrow> x = y"
  by (cases x; cases y) simp_all

lemma COREWEBVIEW2_NAVIGATION_KIND_inj: "COREWEBVIEW2_NAVIGATION_KIND_value x = COREWEBVIEW2_NAVIGATION_KIND_value y \<longleftrightarrow> x = y"
  by (cases x; cases y) simp_all

lemma COREWEBVIEW2_FRAME_KIND_inj: "COREWEBVIEW2_FRAME_KIND_value x = COREWEBVIEW2_FRAME_KIND_value y \<longleftrightarrow> x = y"
  by (cases x; cases y) simp_all

lemma COREWEBVIEW2_WEB_RESOURCE_REQUEST_SOURCE_KINDS_inj: "COREWEBVIEW2_WEB_RESOURCE_REQUEST_SOURCE_KINDS_value x = COREWEBVIEW2_WEB_RESOURCE_REQUEST_SOURCE_KINDS_value y \<longleftrightarrow> x = y"
  by (cases x; cases y) simp_all

text \<open>Enumerations with flag operators (\<^verbatim>\<open>DEFINE_ENUM_FLAG_OPERATORS\<close>): no two enumerators share a bit (that of
  all of them apart), so a combination keeps each of its flags readable.\<close>

lemma COREWEBVIEW2_MOUSE_EVENT_VIRTUAL_KEYS_flags:
  "x \<noteq> y \<Longrightarrow> COREWEBVIEW2_MOUSE_EVENT_VIRTUAL_KEYS_value x AND COREWEBVIEW2_MOUSE_EVENT_VIRTUAL_KEYS_value y = 0"
  by (cases x; cases y) simp_all

lemma COREWEBVIEW2_PDF_TOOLBAR_ITEMS_flags:
  "x \<noteq> y \<Longrightarrow> COREWEBVIEW2_PDF_TOOLBAR_ITEMS_value x AND COREWEBVIEW2_PDF_TOOLBAR_ITEMS_value y = 0"
  by (cases x; cases y) simp_all

lemma COREWEBVIEW2_BROWSING_DATA_KINDS_flags:
  "x \<noteq> y \<Longrightarrow> COREWEBVIEW2_BROWSING_DATA_KINDS_value x AND COREWEBVIEW2_BROWSING_DATA_KINDS_value y = 0"
  by (cases x; cases y) simp_all

lemma COREWEBVIEW2_WEB_RESOURCE_REQUEST_SOURCE_KINDS_flags:
  "x \<noteq> COREWEBVIEW2_WEB_RESOURCE_REQUEST_SOURCE_KINDS_ALL \<Longrightarrow> y \<noteq> COREWEBVIEW2_WEB_RESOURCE_REQUEST_SOURCE_KINDS_ALL \<Longrightarrow> x \<noteq> y \<Longrightarrow> COREWEBVIEW2_WEB_RESOURCE_REQUEST_SOURCE_KINDS_value x AND COREWEBVIEW2_WEB_RESOURCE_REQUEST_SOURCE_KINDS_value y = 0"
  by (cases x; cases y) simp_all

end
