(* ===== verification/GoData.thy ===== *)
theory GoData
  imports Prelude "HOL-Library.List_Lexorder" "HOL-Library.Monad_Syntax"
begin

text \<open>
  What the database code takes from the Go language: strings as sequences of bytes with their
  order, slices of an array that overlap, the binary search that both in-memory trees
  write out for themselves, and sorted lists of keys. Nothing here stands for a line of the
  repository.
\<close>

section \<open>Strings\<close>

text \<open>A Go string is a sequence of bytes. Its operators \<^verbatim>\<open><\<close> and \<^verbatim>\<open><=\<close> compare bytewise, and a proper
  prefix is smaller: the lexicographic order that the library theory installs on lists.\<close>

type_synonym gostr = "byte list"

definition strings_Compare :: "gostr \<Rightarrow> gostr \<Rightarrow> int" where
  "strings_Compare a b = (if a < b then - 1 else if a = b then 0 else 1)"

lemma gostr_Nil_le [simp]: "[] \<le> (x :: gostr)"
  by (cases x) simp_all

lemma gostr_not_less_Nil [simp]: "\<not> x < ([] :: gostr)"
  by (simp add: not_less)

lemma gostr_append_less [simp]: "xs @ ys < xs @ zs \<longleftrightarrow> ys < (zs :: gostr)"
  by (induction xs) simp_all

section \<open>Arrays\<close>

text \<open>\<^verbatim>\<open>copy(a[dst:], a[src:])\<close>: as many elements as fit, moved as if by way of a second array.\<close>

definition copy_within :: "nat \<Rightarrow> nat \<Rightarrow> 'a list \<Rightarrow> 'a list" where
  "copy_within dst src a =
     (let n = min (length a - dst) (length a - src)
      in take dst a @ take n (drop src a) @ drop (dst + n) a)"

text \<open>\<^verbatim>\<open>copy(a[:], s)\<close>.\<close>

definition copy_into :: "'a list \<Rightarrow> 'a list \<Rightarrow> 'a list" where
  "copy_into a s = take (length a) s @ drop (length s) a"

text \<open>An index outside an array panics.\<close>

definition at :: "'a list \<Rightarrow> nat \<Rightarrow> 'a option" where
  "at a i = (if i < length a then Some (a ! i) else None)"

definition at_put :: "'a list \<Rightarrow> nat \<Rightarrow> 'a \<Rightarrow> 'a list option" where
  "at_put a i x = (if i < length a then Some (a[i := x]) else None)"

lemma length_copy_within [simp]: "dst \<le> length a \<Longrightarrow> length (copy_within dst src a) = length a"
  by (auto simp: copy_within_def Let_def min_def)

lemma at_Some [simp]: "i < length a \<Longrightarrow> at a i = Some (a ! i)"
  by (simp add: at_def)

lemma at_put_Some [simp]: "i < length a \<Longrightarrow> at_put a i x = Some (a[i := x])"
  by (simp add: at_put_def)

text \<open>Opening a gap and filling it inserts; closing one removes.\<close>

lemma open_gap:
  assumes "i < length a"
  shows "(copy_within (Suc i) i a)[i := x] = take i a @ x # take (length a - Suc i) (drop i a)"
proof -
  have "min (length a - Suc i) (length a - i) = length a - Suc i" by simp
  then have "copy_within (Suc i) i a = take i a @ a ! i # take (length a - Suc i) (drop i a)"
    using assms by (simp add: copy_within_def take_Suc_conv_app_nth)
  then show ?thesis using assms by (simp add: list_update_append)
qed

lemma take_open_gap:
  assumes "i \<le> n" "n < length a"
  shows "take (Suc n) ((copy_within (Suc i) i a)[i := x]) = take i (take n a) @ x # drop i (take n a)"
  using assms by (simp add: open_gap Suc_diff_le drop_take min_def)

lemma drop_open_gap:
  assumes "i \<le> n" "n < length a"
  shows "drop (Suc n) ((copy_within (Suc i) i a)[i := x]) = take (length a - Suc n) (drop n a)"
  using assms by (simp add: open_gap Suc_diff_le drop_take min_def)

lemma close_gap:
  assumes "i < length a"
  shows "copy_within i (Suc i) a = take i a @ drop (Suc i) a @ [last a]"
proof -
  have n: "min (length a - i) (length a - Suc i) = length a - Suc i" by simp
  have d: "drop (length a - 1) a = [last a]"
    using assms by (cases a rule: rev_cases) simp_all
  have "i + (length a - Suc i) = length a - 1" using assms by simp
  then show ?thesis using n d by (simp add: copy_within_def)
qed

lemma take_close_gap:
  assumes "i < n" "n \<le> length a"
  shows "take (n - 1) (copy_within i (Suc i) a) = take i (take n a) @ drop (Suc i) (take n a)"
proof -
  have "n - 1 - (length a - 1) = 0" "min (n - 1) i = i" using assms by auto
  then show ?thesis using assms by (simp add: close_gap drop_take)
qed

section \<open>Binary search\<close>

text \<open>The loop \<^verbatim>\<open>for i < j { h := (i+j)>>1; if p(h) { i = h+1 } else { j = h } }\<close>.\<close>

function bsearch :: "(nat \<Rightarrow> bool) \<Rightarrow> nat \<Rightarrow> nat \<Rightarrow> nat" where
  "bsearch p i j =
     (if i < j then let h = (i + j) div 2 in if p h then bsearch p (h + 1) j else bsearch p i h
      else i)"
  by pat_completeness auto
termination by (relation "measure (\<lambda>(p, i, j). j - i)") auto

declare bsearch.simps [simp del]

lemma bsearch_stop: "\<not> i < j \<Longrightarrow> bsearch p i j = i"
  by (simp add: bsearch.simps)

lemma bsearch_step:
  assumes "i < j"
  shows "bsearch p i j =
    (if p ((i + j) div 2) then bsearch p (Suc ((i + j) div 2)) j else bsearch p i ((i + j) div 2))"
  using assms by (subst bsearch.simps) (simp add: Let_def)

lemma bsearch_spec:
  assumes "i \<le> j" "\<And>h k. p k \<Longrightarrow> h \<le> k \<Longrightarrow> k < j \<Longrightarrow> p h"
  shows "i \<le> bsearch p i j \<and> bsearch p i j \<le> j
    \<and> (\<forall>h. i \<le> h \<and> h < bsearch p i j \<longrightarrow> p h) \<and> (\<forall>h. bsearch p i j \<le> h \<and> h < j \<longrightarrow> \<not> p h)"
  using assms
proof (induction "j - i" arbitrary: i j rule: less_induct)
  case less
  note mono = less.prems(2)
  define h where "h = (i + j) div 2"
  show ?case
  proof (cases "i < j")
    case True
    then have h: "i \<le> h" "h < j" by (auto simp: h_def)
    note step = bsearch_step [OF True, of p, folded h_def]
    show ?thesis
    proof (cases "p h")
      case True
      have low: "p k" if "k \<le> h" for k
        by (rule mono [OF True that h(2)])
      have "Suc h \<le> bsearch p (Suc h) j \<and> bsearch p (Suc h) j \<le> j
        \<and> (\<forall>k. Suc h \<le> k \<and> k < bsearch p (Suc h) j \<longrightarrow> p k)
        \<and> (\<forall>k. bsearch p (Suc h) j \<le> k \<and> k < j \<longrightarrow> \<not> p k)"
        using h mono by (intro less.hyps) auto
      then show ?thesis
        using step True h low by simp (metis not_less_eq_eq)
    next
      case False
      have high: "\<not> p k" if "h \<le> k" "k < j" for k
        using False mono [OF _ that] by blast
      have "i \<le> bsearch p i h \<and> bsearch p i h \<le> h
        \<and> (\<forall>k. i \<le> k \<and> k < bsearch p i h \<longrightarrow> p k)
        \<and> (\<forall>k. bsearch p i h \<le> k \<and> k < h \<longrightarrow> \<not> p k)"
        using h mono by (intro less.hyps) auto
      then show ?thesis
        using step False h high by simp (metis not_le_imp_less)
    qed
  qed (use less.prems(1) in \<open>auto simp: bsearch_stop\<close>)
qed

text \<open>On a list that is sorted by a key, it finds the number of elements before the boundary.\<close>

lemma bsearch_takeWhile:
  assumes "\<And>h k. h \<le> k \<Longrightarrow> k < length xs \<Longrightarrow> q (xs ! k) \<Longrightarrow> q (xs ! h)"
    and "\<And>h. h < length xs \<Longrightarrow> p h = q (xs ! h)"
  shows "bsearch p 0 (length xs) = length (takeWhile q xs)"
proof -
  let ?r = "bsearch p 0 (length xs)"
  have mono: "p h" if "p k" "h \<le> k" "k < length xs" for h k
    using that assms(1)[of h k] assms(2)[of h] assms(2)[of k] by simp
  have r: "?r \<le> length xs" "\<And>h. h < ?r \<Longrightarrow> p h" "\<And>h. ?r \<le> h \<Longrightarrow> h < length xs \<Longrightarrow> \<not> p h"
    using bsearch_spec [where p = p and i = 0 and j = "length xs"] mono by blast+
  have "takeWhile q xs = take ?r xs"
    using r assms(2) by (intro takeWhile_eq_take_P_nth) auto
  then show ?thesis using r(1) by simp
qed

text \<open>The position it finds in a list that is sorted by \<open>f\<close>.\<close>

lemma sorted_takeWhile_less:
  assumes "sorted_wrt (\<lambda>a b. f a < f b) xs"
  shows "\<forall>x\<in>set (take (length (takeWhile (\<lambda>x. f x < (key :: 'k::linorder)) xs)) xs). f x < key"
    and "\<forall>x\<in>set (drop (length (takeWhile (\<lambda>x. f x < key) xs)) xs). key \<le> f x"
proof -
  let ?q = "\<lambda>x. f x < key"
  have t: "take (length (takeWhile ?q xs)) xs = takeWhile ?q xs"
    by (metis takeWhile_eq_take)
  have d: "drop (length (takeWhile ?q xs)) xs = dropWhile ?q xs"
    by (metis dropWhile_eq_drop)
  show "\<forall>x\<in>set (take (length (takeWhile ?q xs)) xs). f x < key"
    unfolding t by (auto dest: set_takeWhileD)
  define ys where "ys = dropWhile ?q xs"
  have "sorted_wrt (\<lambda>a b. f a < f b) ys"
    using assms unfolding ys_def by (metis sorted_wrt_append takeWhile_dropWhile_id)
  moreover have "\<not> f (hd ys) < key" if "ys \<noteq> []"
    using that hd_dropWhile [of ?q xs] by (simp add: ys_def)
  ultimately show "\<forall>x\<in>set (drop (length (takeWhile ?q xs)) xs). key \<le> f x"
    unfolding d ys_def [symmetric] by (cases ys) (auto intro: order_trans less_imp_le)
qed

lemma bsearch_less:
  assumes "sorted_wrt (\<lambda>a b. f a < f b) xs" "\<And>h. h < length xs \<Longrightarrow> p h = (f (xs ! h) < (key :: 'k::linorder))"
  shows "bsearch p 0 (length xs) = length (takeWhile (\<lambda>x. f x < key) xs)"
proof (rule bsearch_takeWhile)
  fix h k assume "h \<le> k" "k < length xs" "f (xs ! k) < key"
  then show "f (xs ! h) < key"
    using sorted_wrt_nth_less [OF assms(1), of h k] by (cases "h = k") auto
qed (use assms(2) in simp)

section \<open>Two-level trees\<close>

text \<open>Both in-memory trees are a list of separators, each with the leaf for the keys from it up to
  the next separator. \<open>chain P v hi\<close>: the separators rise, stay below \<open>hi\<close>, and each leaf satisfies \<open>P\<close> for its
  two bounds.\<close>

fun below :: "'k::linorder \<Rightarrow> 'k option \<Rightarrow> bool" where
  "below x None = True"
| "below x (Some h) = (x < h)"

fun next_key :: "('k \<times> 'l) list \<Rightarrow> 'k option \<Rightarrow> 'k option" where
  "next_key [] hi = hi"
| "next_key ((k, l) # v) hi = Some k"

fun chain :: "('k::linorder \<Rightarrow> 'k option \<Rightarrow> 'l \<Rightarrow> bool) \<Rightarrow> ('k \<times> 'l) list \<Rightarrow> 'k option \<Rightarrow> bool" where
  "chain P [] hi = True"
| "chain P ((k, l) # v) hi = (P k (next_key v hi) l \<and> below k (next_key v hi) \<and> chain P v hi)"

lemma below_trans: "x \<le> y \<Longrightarrow> below y hi \<Longrightarrow> below x hi"
  by (cases hi) auto

lemma next_key_append: "next_key (xs @ ys) hi = next_key xs (next_key ys hi)"
  by (cases xs) auto

lemma chain_append: "chain P (xs @ ys) hi \<longleftrightarrow> chain P xs (next_key ys hi) \<and> chain P ys hi"
  by (induction xs) (auto simp: next_key_append)

lemma chain_below: "chain P v hi \<Longrightarrow> (k, l) \<in> set v \<Longrightarrow> below k hi"
proof (induction v arbitrary: k l)
  case (Cons a v)
  obtain k0 l0 where a: "a = (k0, l0)" by force
  show ?case
  proof (cases v)
    case Nil
    then show ?thesis using Cons.prems a by auto
  next
    case (Cons b w)
    obtain k1 l1 where b: "b = (k1, l1)" by force
    have "below k1 hi" using Cons.IH Cons.prems Cons a b by auto
    then show ?thesis
      using Cons.IH Cons.prems a b local.Cons below_trans [of k0 k1 hi] by auto
  qed
qed simp

lemma chain_sorted: "chain P v hi \<Longrightarrow> sorted_wrt (<) (map fst v)"
proof (induction v)
  case (Cons a v)
  obtain k l where a: "a = (k, l)" by force
  have "k < k'" if "(k', l') \<in> set v" for k' l'
    using that
  proof (cases v)
    case (Cons b w)
    obtain k1 l1 where b: "b = (k1, l1)" by force
    have "k < k1" using Cons.prems a b Cons by simp
    moreover have "k1 \<le> k'"
      using Cons.IH Cons.prems a b Cons that by fastforce
    ultimately show ?thesis by simp
  qed simp
  then show ?case using Cons a by auto
qed simp

text \<open>Where the binary search over the separators ends.\<close>

lemma chain_locate:
  assumes "v \<noteq> []" "fst (hd v) \<le> key" "below key hi"
  obtains xs k l ys where "v = xs @ (k, l) # ys"
    and "length (takeWhile (\<lambda>e. fst e \<le> key) v) = Suc (length xs)"
    and "k \<le> key" and "below key (next_key ys hi)"
proof -
  let ?q = "\<lambda>e. fst e \<le> key"
  let ?w = "takeWhile ?q v"
  have "?w \<noteq> []" using assms(1,2) by (cases v) auto
  then obtain xs e where w: "?w = xs @ [e]" by (metis rev_exhaust)
  obtain k l where e: "e = (k, l)" by force
  have "e \<in> set ?w" using w by simp
  then have "k \<le> key" using e by (auto dest: set_takeWhileD)
  moreover have "v = xs @ (k, l) # dropWhile ?q v"
    using takeWhile_dropWhile_id [of ?q v] w e by simp
  moreover have "below key (next_key (dropWhile ?q v) hi)"
  proof (cases "dropWhile ?q v")
    case (Cons a w)
    then have "\<not> fst a \<le> key" using hd_dropWhile [of ?q v] by simp
    then show ?thesis using Cons by (cases a) auto
  next
    case Nil
    show ?thesis unfolding Nil using assms(3) by simp
  qed
  ultimately show ?thesis using that w by simp
qed

lemma takeWhile_locate:
  assumes "sorted_wrt (<) (map fst (as @ (k, r) # bs))" "k \<le> key" "below key (next_key bs None)"
  shows "takeWhile (\<lambda>e. fst e \<le> (key :: 'k::linorder)) (as @ (k, r) # bs) = as @ [(k, r)]"
proof -
  have "\<forall>e\<in>set (as @ [(k, r)]). fst e \<le> key"
    using assms(1,2) by (auto simp: sorted_wrt_append)
  moreover have "takeWhile (\<lambda>e. fst e \<le> key) bs = []"
    using assms(3) by (cases bs) auto
  ultimately show ?thesis
    using takeWhile_append2 [of "as @ [(k, r)]" "\<lambda>e. fst e \<le> key" bs] by auto
qed

text \<open>When a leaf has been split in two, a key of the old leaf belongs to one of the halves.\<close>

lemma locate_halves:
  assumes "sorted_wrt (<) (map fst es)" "es = as @ (k, r) # (sep, n) # bs" "es = xs @ (k', r') # ys"
    and "k \<le> key" "below key (next_key bs None)" "k' \<le> key" "below key (next_key ys None)"
  shows "r' = r \<or> r' = n"
proof -
  let ?t = "takeWhile (\<lambda>e. fst e \<le> key) es"
  have l: "last ?t = (k', r')"
    using takeWhile_locate [of xs k' r' ys key, folded assms(3), OF assms(1,6,7)] by simp
  show ?thesis
  proof (cases "sep \<le> key")
    case True
    then have "last ?t = (sep, n)"
      using takeWhile_locate [of "as @ [(k, r)]" sep n bs key] assms(1,2,5) by simp
    then show ?thesis using l by simp
  next
    case False
    then have "last ?t = (k, r)"
      using takeWhile_locate [of as k r "(sep, n) # bs" key] assms(1,2,4) by simp
    then show ?thesis using l by simp
  qed
qed

text \<open>The leaves are reached through pointers: an update through one of them changes that leaf only.\<close>

definition deref :: "'l list \<Rightarrow> ('k \<times> nat) list \<Rightarrow> ('k \<times> 'l) list" where
  "deref L = map (\<lambda>(k, r). (k, L ! r))"

lemma deref_append [simp]: "deref L (xs @ ys) = deref L xs @ deref L ys"
  by (simp add: deref_def)

lemma deref_Cons [simp]: "deref L ((k, r) # ys) = (k, L ! r) # deref L ys"
  by (simp add: deref_def)

lemma deref_Nil [simp]: "deref L [] = []"
  by (simp add: deref_def)

lemma deref_eq_Nil [simp]: "deref L xs = [] \<longleftrightarrow> xs = []"
  by (simp add: deref_def)

lemma length_deref [simp]: "length (deref L xs) = length xs"
  by (simp add: deref_def)

lemma map_fst_deref [simp]: "map fst (deref L xs) = map fst xs"
  by (auto simp: deref_def)

lemma deref_update_other: "r \<notin> snd ` set xs \<Longrightarrow> deref (L[r := l]) xs = deref L xs"
  by (force simp: deref_def intro!: nth_list_update_neq)

lemma deref_more: "\<forall>e\<in>set xs. snd e < length L \<Longrightarrow> deref (L @ M) xs = deref L xs"
  by (auto simp: deref_def nth_append)

lemma deref_split:
  assumes "deref L es = xs @ (k, l) # ys"
  obtains as r bs where "es = as @ (k, r) # bs" "xs = deref L as" "l = L ! r" "ys = deref L bs"
  using assms by (auto simp: deref_def map_eq_append_conv)

lemma takeWhile_deref: "length (takeWhile (\<lambda>e. fst e \<le> key) (deref L es)) = length (takeWhile (\<lambda>e. fst e \<le> key) es)"
  by (induction es) (auto simp: deref_def)

text \<open>The slots of a tree node: an array of which the first \<open>n\<close> are in use, each with a key and a pointer
  to a leaf. The array has one slot more than is ever used.\<close>

definition ents :: "('s \<Rightarrow> 'k) \<Rightarrow> ('s \<Rightarrow> nat option) \<Rightarrow> 's list \<Rightarrow> nat \<Rightarrow> ('k \<times> nat) list" where
  "ents key leaf slots n = map (\<lambda>sl. (key sl, the (leaf sl))) (take n slots)"

definition slots_ok :: "('s \<Rightarrow> nat option) \<Rightarrow> nat \<Rightarrow> 's list \<Rightarrow> nat \<Rightarrow> bool" where
  "slots_ok leaf cap slots n \<longleftrightarrow>
     length slots = Suc cap \<and> 0 < n \<and> n \<le> cap \<and> (\<forall>sl\<in>set (take n slots). leaf sl \<noteq> None)"

lemma length_ents: "slots_ok leaf cap slots n \<Longrightarrow> length (ents key leaf slots n) = n"
  by (simp add: ents_def slots_ok_def)

lemma ents_nth: "i < n \<Longrightarrow> n \<le> length slots \<Longrightarrow> ents key leaf slots n ! i = (key (slots ! i), the (leaf (slots ! i)))"
  by (simp add: ents_def)

lemma ents_leaf:
  assumes "slots_ok leaf cap slots n" "i < n"
  shows "leaf (slots ! i) = Some (snd (ents key leaf slots n ! i))"
proof -
  have "slots ! i \<in> set (take n slots)"
    using assms by (auto simp: slots_ok_def in_set_conv_nth)
  then show ?thesis using assms by (auto simp: slots_ok_def ents_def)
qed

lemma ents_search:
  assumes "slots_ok leaf cap slots n" "sorted_wrt (<) (map fst (ents key leaf slots n))"
  shows "bsearch (\<lambda>h. key (slots ! h) \<le> x) 0 n = length (takeWhile (\<lambda>e. fst e \<le> (x :: 'k::linorder)) (ents key leaf slots n))"
proof -
  let ?es = "ents key leaf slots n"
  have nth: "h < length ?es \<Longrightarrow> key (slots ! h) = fst (?es ! h)" for h
    by (simp add: ents_def)
  have "bsearch (\<lambda>h. key (slots ! h) \<le> x) 0 (length ?es) = length (takeWhile (\<lambda>e. fst e \<le> x) ?es)"
  proof (rule bsearch_takeWhile)
    fix h k assume "h \<le> k" "k < length ?es" "fst (?es ! k) \<le> x"
    then show "fst (?es ! h) \<le> x"
      using sorted_wrt_nth_less [OF assms(2), of h k] by (cases "h = k") auto
  qed (use nth in simp)
  then show ?thesis using length_ents [OF assms(1), of key] by simp
qed

text \<open>A new separator goes right behind the leaf it was split from.\<close>

lemma ents_insert:
  assumes ok: "slots_ok leaf cap slots n" and es: "ents key leaf slots n = as @ (k, r) # bs"
    and sorted: "sorted_wrt (<) (map fst (ents key leaf slots n))" and sep: "k \<le> sep" "below sep (next_key bs None)"
    and room: "n < cap" and x: "key x = sep" "leaf x = Some r2"
  defines "i \<equiv> bsearch (\<lambda>h. key (slots ! h) \<le> (sep :: 'k::linorder)) 0 n"
  shows "i < length slots" "slots_ok leaf cap ((copy_within (Suc i) i slots)[i := x]) (Suc n)"
    "ents key leaf ((copy_within (Suc i) i slots)[i := x]) (Suc n) = as @ (k, r) # (sep, r2) # bs"
proof -
  have i: "i = Suc (length as)"
    using takeWhile_locate [of as k r bs sep] sorted sep ents_search [OF ok sorted, of sep] unfolding es i_def by simp
  have n: "i \<le> n" "n < length slots"
    using length_ents [OF ok, of key] es ok i by (auto simp: slots_ok_def)
  then show "i < length slots" by simp
  note gap = take_open_gap [OF n, of x]
  have "ents key leaf ((copy_within (Suc i) i slots)[i := x]) (Suc n)
      = take i (ents key leaf slots n) @ (sep, r2) # drop i (ents key leaf slots n)"
    using gap x by (simp add: ents_def take_map drop_map)
  then show "ents key leaf ((copy_within (Suc i) i slots)[i := x]) (Suc n) = as @ (k, r) # (sep, r2) # bs"
    unfolding es i by simp
  show "slots_ok leaf cap ((copy_within (Suc i) i slots)[i := x]) (Suc n)"
    using ok room n gap x set_take_subset_set_take [OF n(1), of slots]
    by (auto simp: slots_ok_def dest: in_set_dropD)
qed

lemma ents_remove:
  assumes ok: "slots_ok leaf cap slots n" and es: "ents key leaf slots n = as @ e # bs" and "as \<noteq> []"
  shows "slots_ok leaf cap (copy_within (length as) (Suc (length as)) slots) (n - 1)"
    "ents key leaf (copy_within (length as) (Suc (length as)) slots) (n - 1) = as @ bs"
proof -
  let ?i = "length as"
  have n: "?i < n" "n \<le> length slots" "0 < ?i"
    using length_ents [OF ok, of key] es ok assms(3) by (auto simp: slots_ok_def)
  note gap = take_close_gap [OF n(1,2)]
  have "ents key leaf (copy_within ?i (Suc ?i) slots) (n - 1)
      = take ?i (ents key leaf slots n) @ drop (Suc ?i) (ents key leaf slots n)"
    using gap by (simp add: ents_def take_map drop_map)
  then show "ents key leaf (copy_within ?i (Suc ?i) slots) (n - 1) = as @ bs"
    unfolding es by simp
  have "set (take (n - 1) (copy_within ?i (Suc ?i) slots)) \<subseteq> set (take n slots)"
    unfolding gap set_append using set_take_subset [of ?i "take n slots"] set_drop_subset [of "Suc ?i" "take n slots"]
    by blast
  then show "slots_ok leaf cap (copy_within ?i (Suc ?i) slots) (n - 1)"
    unfolding slots_ok_def
  proof (intro conjI)
    show "0 < n - 1" using n by linarith
  qed (use ok n in \<open>auto simp: slots_ok_def\<close>)
qed

lemma ents_set_key:
  assumes ok: "slots_ok leaf cap slots n" and es: "ents key leaf slots n = as @ (k, r) # bs"
    and x: "key x = k'" "leaf x = Some r"
  shows "slots_ok leaf cap (slots[length as := x]) n"
    "ents key leaf (slots[length as := x]) n = as @ (k', r) # bs"
proof -
  let ?i = "length as"
  have n: "?i < n" using length_ents [OF ok, of key] es by simp
  have t: "take n (slots[?i := x]) = (take n slots)[?i := x]" by (simp add: take_update_swap)
  have "ents key leaf (slots[?i := x]) n = (ents key leaf slots n)[?i := (k', r)]"
    unfolding ents_def t by (simp add: map_update x)
  then show "ents key leaf (slots[?i := x]) n = as @ (k', r) # bs"
    unfolding es by simp
  show "slots_ok leaf cap (slots[?i := x]) n"
    using ok x set_update_subset_insert [of "take n slots" ?i x] unfolding slots_ok_def t by auto
qed

end
