(* ===== verification/OrdSet.thy ===== *)
theory OrdSet
  imports GoData
begin

text \<open>
  The ordered set of strings of \<^verbatim>\<open>util/ordset/ordset.go\<close>, in which the conflict checker keeps the
  keys a transaction writes: one leaf of at most 128 keys embedded in the set, and when it
  overflows a tree node over up to 128 leaves. Leaves are addressed by their position in
  \<open>oleaves\<close>: 0 is the embedded leaf, to which the first slot of the tree points as well, the others are the ones
  that \<^verbatim>\<open>split\<close> allocates. An operation returns \<open>None\<close> where the code would panic.
\<close>

section \<open>The data\<close>

definition nodeSize :: nat where
  "nodeSize = 128"

record ordset_leaf =
  oslots :: "gostr list"
  osize :: nat

record ordset_slot =
  oleaf :: "nat option"
  okey :: gostr

record ordset_tree =
  tslots :: "ordset_slot list"
  tsize :: nat

record ordset =
  otree :: "ordset_tree option"
  oleaves :: "ordset_leaf list"

text \<open>The zero values: arrays of empty strings and of nil pointers.\<close>

definition ordset_leaf0 :: ordset_leaf where
  "ordset_leaf0 = \<lparr>oslots = replicate nodeSize [], osize = 0\<rparr>"

definition ordset_zero :: ordset where
  "ordset_zero = \<lparr>otree = None, oleaves = [ordset_leaf0]\<rparr>"

section \<open>Searching\<close>

definition ordset_tree_searchBinary :: "ordset_tree \<Rightarrow> gostr \<Rightarrow> nat" where
  "ordset_tree_searchBinary t key = bsearch (\<lambda>h. okey (tslots t ! h) \<le> key) 0 (tsize t)"

definition ordset_leaf_searchBinary :: "ordset_leaf \<Rightarrow> gostr \<Rightarrow> nat" where
  "ordset_leaf_searchBinary l key = bsearch (\<lambda>h. oslots l ! h < key) 0 (osize l)"

text \<open>\<^verbatim>\<open>tree.slots[i-1].leaf\<close>: slot -1 does not exist, and a nil leaf cannot be used.\<close>

definition ordset_child :: "ordset_tree \<Rightarrow> nat \<Rightarrow> nat option" where
  "ordset_child t i = (if i = 0 then None else do { sl \<leftarrow> at (tslots t) (i - 1); oleaf sl })"

definition ordset_tree_search :: "ordset \<Rightarrow> ordset_tree \<Rightarrow> gostr \<Rightarrow> (nat \<times> ordset_leaf \<times> nat) option" where
  "ordset_tree_search s t key = do {
     r \<leftarrow> ordset_child t (ordset_tree_searchBinary t key);
     leaf \<leftarrow> at (oleaves s) r;
     Some (ordset_tree_searchBinary t key - 1, leaf, ordset_leaf_searchBinary leaf key) }"

definition ordset_search :: "ordset \<Rightarrow> gostr \<Rightarrow> (nat \<times> ordset_leaf \<times> nat) option" where
  "ordset_search s key =
     (case otree s of
        Some t \<Rightarrow> ordset_tree_search s t key
      | None \<Rightarrow> do {
          leaf \<leftarrow> at (oleaves s) 0;
          Some (0, leaf, ordset_leaf_searchBinary leaf key) })"

section \<open>Inserting\<close>

definition ordset_leaf_insert :: "ordset_leaf \<Rightarrow> gostr \<Rightarrow> (ordset_leaf \<times> bool) option" where
  "ordset_leaf_insert leaf key =
     (if nodeSize \<le> osize leaf then Some (leaf, False)
      else let i = ordset_leaf_searchBinary leaf key in do {
        x \<leftarrow> at (oslots leaf) i;
        if x = key then Some (leaf, True)
        else do {
          slots \<leftarrow> at_put (copy_within (Suc i) i (oslots leaf)) i key;
          Some (leaf\<lparr>oslots := slots, osize := osize leaf + 1\<rparr>, True) } })"

definition ordset_tree_insert :: "ordset_tree \<Rightarrow> gostr \<Rightarrow> nat \<Rightarrow> ordset_tree option" where
  "ordset_tree_insert t key r =
     (let i = ordset_tree_searchBinary t key in do {
        slots \<leftarrow> at_put (copy_within (Suc i) i (tslots t)) i \<lparr>oleaf = Some r, okey = key\<rparr>;
        Some (t\<lparr>tslots := slots, tsize := tsize t + 1\<rparr>) })"

text \<open>The tree that \<^verbatim>\<open>split\<close> makes when the embedded leaf overflows for the first time.\<close>

definition ordset_tree1 :: ordset_tree where
  "ordset_tree1 = \<lparr>tslots = \<lparr>oleaf = Some 0, okey = []\<rparr> # replicate nodeSize \<lparr>oleaf = None, okey = []\<rparr>, tsize = 1\<rparr>"

definition ordset_split_left :: "gostr \<Rightarrow> gostr \<Rightarrow> gostr \<Rightarrow> nat" where
  "ordset_split_left key first final =
     (if final < key then (nodeSize * 3) div 4 else if key < first then nodeSize div 4 else nodeSize div 2)"

text \<open>\<^verbatim>\<open>split\<close> gives back the set and whether there was room for another leaf.\<close>

definition ordset_split :: "ordset \<Rightarrow> nat \<Rightarrow> gostr \<Rightarrow> (ordset \<times> bool) option" where
  "ordset_split s r key = do {
     leaf \<leftarrow> at (oleaves s) r;
     leaf0 \<leftarrow> at (oleaves s) 0;
     t \<leftarrow> (case otree s of None \<Rightarrow> if osize leaf0 = nodeSize then Some ordset_tree1 else None | Some t \<Rightarrow> Some t);
     if otree s \<noteq> None \<and> nodeSize \<le> tsize t then Some (s, False)
     else do {
       final \<leftarrow> at (oslots leaf) (nodeSize - 1);
       first \<leftarrow> at (oslots leaf) 0;
       let left = ordset_split_left key first final;
       let leaf2 = \<lparr>oslots = copy_into (replicate nodeSize []) (drop left (oslots leaf)), osize = nodeSize - left\<rparr>;
       sep \<leftarrow> at (oslots leaf2) 0;
       t' \<leftarrow> ordset_tree_insert t sep (length (oleaves s));
       Some (\<lparr>otree = Some t', oleaves = (oleaves s)[r := leaf\<lparr>osize := left\<rparr>] @ [leaf2]\<rparr>, True) } }"

text \<open>The leaf in which a key belongs.\<close>

definition ordset_find :: "ordset \<Rightarrow> gostr \<Rightarrow> nat option" where
  "ordset_find s key =
     (case otree s of None \<Rightarrow> Some 0 | Some t \<Rightarrow> ordset_child t (ordset_tree_searchBinary t key))"

definition ordset_leaf_update :: "ordset \<Rightarrow> nat \<Rightarrow> gostr \<Rightarrow> (ordset \<times> bool) option" where
  "ordset_leaf_update s r key = do {
     leaf \<leftarrow> at (oleaves s) r;
     (leaf', ok) \<leftarrow> ordset_leaf_insert leaf key;
     Some (s\<lparr>oleaves := (oleaves s)[r := leaf']\<rparr>, ok) }"

definition ordset_Insert :: "ordset \<Rightarrow> gostr \<Rightarrow> (ordset \<times> bool) option" where
  "ordset_Insert s key = do {
     r \<leftarrow> ordset_find s key;
     leaf \<leftarrow> at (oleaves s) r;
     if nodeSize \<le> osize leaf then do {
       (s1, ok) \<leftarrow> ordset_split s r key;
       if \<not> ok then Some (s1, False)
       else do {
         r1 \<leftarrow> ordset_find s1 key;
         ordset_leaf_update s1 r1 key } }
     else ordset_leaf_update s r key }"

section \<open>Queries\<close>

text \<open>The receiver may be the nil pointer.\<close>

definition ordset_AnyInRange :: "ordset option \<Rightarrow> gostr \<Rightarrow> gostr \<Rightarrow> bool option" where
  "ordset_AnyInRange so from to =
     (case so of None \<Rightarrow> Some False
      | Some s \<Rightarrow> do {
          (ti, leaf, li) \<leftarrow> ordset_search s from;
          if osize leaf \<le> li
          then (case otree s of None \<Rightarrow> Some False
                | Some t \<Rightarrow>
                    if tsize t \<le> ti + 1 then Some False
                    else do {
                      sl \<leftarrow> at (tslots t) (ti + 1);
                      r \<leftarrow> oleaf sl;
                      next_leaf \<leftarrow> at (oleaves s) r;
                      x \<leftarrow> at (oslots next_leaf) 0;
                      Some (x \<le> to) })
          else do { x \<leftarrow> at (oslots leaf) li; Some (x \<le> to) } })"

definition ordset_Contains :: "ordset option \<Rightarrow> gostr \<Rightarrow> bool option" where
  "ordset_Contains so key =
     (case so of None \<Rightarrow> Some False
      | Some s \<Rightarrow> do {
          (ti, leaf, li) \<leftarrow> ordset_search s key;
          if li < osize leaf then do { x \<leftarrow> at (oslots leaf) li; Some (x = key) } else Some False })"

definition ordset_Empty :: "ordset \<Rightarrow> bool option" where
  "ordset_Empty s =
     (if otree s = None then do { leaf \<leftarrow> at (oleaves s) 0; Some (osize leaf = 0) } else Some False)"

section \<open>The invariant and the set that is represented\<close>

definition live :: "ordset_leaf \<Rightarrow> gostr list" where
  "live l = take (osize l) (oslots l)"

definition stale :: "ordset_leaf \<Rightarrow> gostr list" where
  "stale l = drop (osize l) (oslots l)"

text \<open>What a split leaves behind the end of a leaf belongs to the leaves that follow.\<close>

definition leaf_in :: "gostr \<Rightarrow> gostr option \<Rightarrow> ordset_leaf \<Rightarrow> bool" where
  "leaf_in k hi l \<longleftrightarrow> length (oslots l) = nodeSize \<and> osize l \<le> nodeSize \<and> sorted_wrt (<) (live l)
     \<and> (\<forall>x\<in>set (live l). k \<le> x \<and> below x hi)
     \<and> (\<forall>x\<in>set (stale l). x = [] \<or> (\<exists>h. hi = Some h \<and> h \<le> x))"

definition tree_ents :: "ordset_tree \<Rightarrow> (gostr \<times> nat) list" where
  "tree_ents t = ents okey oleaf (tslots t) (tsize t)"

definition ordset_ents :: "ordset \<Rightarrow> (gostr \<times> nat) list" where
  "ordset_ents s = (case otree s of None \<Rightarrow> [([], 0)] | Some t \<Rightarrow> tree_ents t)"

definition ordset_view :: "ordset \<Rightarrow> (gostr \<times> ordset_leaf) list" where
  "ordset_view s = deref (oleaves s) (ordset_ents s)"

definition tree_shape :: "ordset_tree \<Rightarrow> bool" where
  "tree_shape t \<longleftrightarrow> slots_ok oleaf nodeSize (tslots t) (tsize t)"

definition ordset_wf :: "ordset \<Rightarrow> bool" where
  "ordset_wf s \<longleftrightarrow>
     (case otree s of None \<Rightarrow> length (oleaves s) = 1
      | Some t \<Rightarrow> tree_shape t \<and> (\<forall>e\<in>set (ordset_view s). nodeSize div 4 \<le> osize (snd e)))
     \<and> distinct (map snd (ordset_ents s)) \<and> (\<forall>e\<in>set (ordset_ents s). snd e < length (oleaves s))
     \<and> fst (hd (ordset_ents s)) = [] \<and> chain leaf_in (ordset_view s) None"

definition leaf_keys :: "(gostr \<times> ordset_leaf) list \<Rightarrow> gostr set" where
  "leaf_keys v = (\<Union>e\<in>set v. set (live (snd e)))"

definition ordset_elems :: "ordset \<Rightarrow> gostr set" where
  "ordset_elems s = leaf_keys (ordset_view s)"

lemma leaf_keys_append [simp]: "leaf_keys (v @ w) = leaf_keys v \<union> leaf_keys w"
  by (auto simp: leaf_keys_def)

lemma leaf_keys_Cons [simp]: "leaf_keys ((k, l) # v) = set (live l) \<union> leaf_keys v"
  by (auto simp: leaf_keys_def)

lemma leaf_keys_Nil [simp]: "leaf_keys [] = {}"
  by (simp add: leaf_keys_def)

lemma leaf_keys_below:
  assumes "chain leaf_in v hi" "x \<in> leaf_keys v"
  shows "below x hi"
proof -
  obtain xs k l ys where v: "v = xs @ (k, l) # ys" and x: "x \<in> set (live l)"
    using assms(2) by (auto simp: leaf_keys_def dest!: split_list)
  have b: "below x (next_key ys hi)"
    using assms(1) x unfolding v by (auto simp: chain_append leaf_in_def)
  show ?thesis
  proof (cases ys)
    case (Cons e zs)
    obtain k' l' where e: "e = (k', l')" by force
    have "below k' hi" using chain_below [OF assms(1)] v Cons e by auto
    then show ?thesis using b Cons e below_trans [of x k' hi] by simp
  qed (use b in simp)
qed

lemma leaf_keys_above: "chain leaf_in ((k, l) # v) hi \<Longrightarrow> x \<in> leaf_keys ((k, l) # v) \<Longrightarrow> k \<le> x"
proof (induction v arbitrary: k l)
  case (Cons e v)
  obtain k' l' where e: "e = (k', l')" by force
  show ?case
    using Cons.prems Cons.IH [of k' l'] e by (auto simp: leaf_in_def intro: less_imp_le order_trans)
qed (simp add: leaf_in_def)

section \<open>Searching a leaf\<close>

lemma length_live: "leaf_in k hi l \<Longrightarrow> length (live l) = osize l"
  by (simp add: leaf_in_def live_def)

lemma leaf_search:
  assumes "leaf_in k hi l"
  shows "ordset_leaf_searchBinary l key = length (takeWhile (\<lambda>x. x < key) (live l))"
  using assms bsearch_less [where xs = "live l" and p = "\<lambda>h. oslots l ! h < key" and key = key and f = id]
  by (simp add: ordset_leaf_searchBinary_def length_live leaf_in_def live_def)

lemma leaf_search_le: "leaf_in k hi l \<Longrightarrow> ordset_leaf_searchBinary l key \<le> osize l"
  by (metis leaf_search length_live length_takeWhile_le)

text \<open>The slot at the position found is the smallest key that is not below the one asked for.\<close>

lemma leaf_search_hit:
  assumes "leaf_in k hi l" and i: "i = ordset_leaf_searchBinary l key" "i < osize l"
  shows "oslots l ! i \<in> set (live l)" "key \<le> oslots l ! i"
    "\<And>x. x \<in> set (live l) \<Longrightarrow> key \<le> x \<Longrightarrow> oslots l ! i \<le> x"
proof -
  have s: "sorted_wrt (<) (live l)" using assms(1) by (simp add: leaf_in_def)
  have n: "i = length (takeWhile (\<lambda>x. x < key) (live l))" using i leaf_search [OF assms(1)] by simp
  have e: "oslots l ! i = live l ! i" and il: "i < length (live l)"
    using i(2) length_live [OF assms(1)] by (auto simp: live_def)
  show "oslots l ! i \<in> set (live l)" unfolding e using il by simp
  have d: "drop i (live l) = live l ! i # drop (Suc i) (live l)" using il by (simp add: Cons_nth_drop_Suc)
  show "key \<le> oslots l ! i"
    using sorted_takeWhile_less(2) [where f = id and key = key and xs = "live l", simplified, OF s, folded n] unfolding e d by simp
  fix x assume x: "x \<in> set (live l)" "key \<le> x"
  have "x \<in> set (take i (live l)) \<union> set (drop i (live l))"
    using x by (metis append_take_drop_id set_append)
  then have "x \<in> set (drop i (live l))"
    using x(2) sorted_takeWhile_less(1) [where f = id and key = key and xs = "live l", simplified, OF s, folded n] by force
  moreover have "sorted_wrt (<) (drop i (live l))"
    using s by (metis append_take_drop_id sorted_wrt_append)
  ultimately show "oslots l ! i \<le> x" unfolding e d by auto
qed

lemma leaf_search_miss:
  assumes "leaf_in k hi l" "osize l \<le> ordset_leaf_searchBinary l key" "x \<in> set (live l)"
  shows "x < key"
proof -
  have s: "sorted_wrt (<) (live l)" using assms(1) by (simp add: leaf_in_def)
  have "take (ordset_leaf_searchBinary l key) (live l) = live l"
    using assms(2) length_live [OF assms(1)] by simp
  then show ?thesis
    using sorted_takeWhile_less(1) [where f = id and key = key and xs = "live l", simplified, OF s] assms(3) leaf_search [OF assms(1), of key] by metis
qed

section \<open>Changing leaves\<close>

lemma sorted_insert_gap:
  fixes key :: gostr
  assumes "sorted_wrt (<) xs" "key \<notin> set xs" "i = length (takeWhile (\<lambda>x. x < key) xs)"
  shows "sorted_wrt (<) (take i xs @ key # drop i xs)"
proof -
  note less = sorted_takeWhile_less [where f = id and key = key and xs = xs, simplified, OF assms(1), folded assms(3)]
  have "\<forall>x\<in>set (drop i xs). key < x"
    using less(2) assms(2) by (metis in_set_dropD order_le_less)
  moreover have "sorted_wrt (<) (take i xs @ drop i xs)" using assms(1) by simp
  ultimately show ?thesis using less(1) unfolding sorted_wrt_append by auto
qed

text \<open>A key that is not in its slot is not in the leaf; a key in its slot is, except for the empty string in an empty leaf.\<close>

lemma leaf_search_notin:
  assumes "leaf_in k hi l" "oslots l ! ordset_leaf_searchBinary l key \<noteq> key"
  shows "key \<notin> set (live l)"
proof (cases "ordset_leaf_searchBinary l key < osize l")
  case True
  then show ?thesis using leaf_search_hit(2,3) [OF assms(1) refl True] assms(2) by (metis order.antisym order.refl)
next
  case False
  then show ?thesis using leaf_search_miss [OF assms(1), of key key] by auto
qed

lemma leaf_search_found:
  assumes l: "leaf_in k hi l" and key: "below key hi" "key \<noteq> [] \<or> live l \<noteq> []"
    and slot: "ordset_leaf_searchBinary l key < length (oslots l)" "oslots l ! ordset_leaf_searchBinary l key = key"
  shows "key \<in> set (live l)"
proof (cases "ordset_leaf_searchBinary l key < osize l")
  case True
  then show ?thesis using leaf_search_hit(1) [OF l refl True] slot(2) by simp
next
  case False
  then have eq: "ordset_leaf_searchBinary l key = osize l" using leaf_search_le [OF l, of key] by simp
  have "key \<in> set (stale l)"
    using slot unfolding eq stale_def by (metis Cons_nth_drop_Suc list.set_intros(1))
  then have "key = []" using l key(1) by (auto simp: leaf_in_def)
  moreover have "\<forall>x\<in>set (live l). x < key" using leaf_search_miss [OF l] eq by simp
  ultimately show ?thesis using key(2) by (auto dest: hd_in_set)
qed

lemma ordset_leaf_insert_ok:
  assumes l: "leaf_in k hi l" and key: "k \<le> key" "below key hi" "key \<noteq> [] \<or> live l \<noteq> []"
    and room: "osize l < nodeSize"
  shows "\<exists>l'. ordset_leaf_insert l key = Some (l', True) \<and> leaf_in k hi l'
    \<and> set (live l') = insert key (set (live l)) \<and> osize l \<le> osize l'"
proof -
  let ?i = "ordset_leaf_searchBinary l key"
  have i: "?i \<le> osize l" "?i < length (oslots l)"
    using leaf_search_le [OF l, of key] room l by (auto simp: leaf_in_def)
  show ?thesis
  proof (cases "oslots l ! ?i = key")
    case True
    then have "key \<in> set (live l)" using leaf_search_found [OF l key(2,3) i(2)] by simp
    then show ?thesis using True room i(2) l by (auto simp: ordset_leaf_insert_def insert_absorb)
  next
    case False
    define l' where "l' = l\<lparr>oslots := (copy_within (Suc ?i) ?i (oslots l))[?i := key], osize := osize l + 1\<rparr>"
    have "ordset_leaf_insert l key = Some (l', True)"
      using False room i(2) by (simp add: ordset_leaf_insert_def l'_def Let_def)
    moreover have live': "live l' = take ?i (live l) @ key # drop ?i (live l)"
      using take_open_gap [of ?i "osize l" "oslots l" key] i(1) room l by (simp add: l'_def live_def leaf_in_def)
    have stale': "set (stale l') \<subseteq> set (stale l)"
      using drop_open_gap [of ?i "osize l" "oslots l" key] i(1) room l by (simp add: l'_def stale_def leaf_in_def set_take_subset)
    have "set (live l') = insert key (set (live l))"
      unfolding live' by (metis append_take_drop_id list.simps(15) set_append Un_insert_right)
    moreover have "sorted_wrt (<) (live l')"
      unfolding live' using l sorted_insert_gap [OF _ leaf_search_notin [OF l False] leaf_search [OF l]] by (simp add: leaf_in_def)
    moreover have "leaf_in k hi l'"
      using calculation(2,3) l key room stale' i(2) by (auto simp: leaf_in_def l'_def)
    ultimately show ?thesis by (auto simp: l'_def)
  qed
qed

text \<open>The exception: an empty leaf has the empty string in its first slot, which \<^verbatim>\<open>insert\<close> takes for a
  key that is already there.\<close>

lemma ordset_leaf_insert_empty:
  assumes "leaf_in k None l" "live l = []"
  shows "ordset_leaf_insert l [] = Some (l, True)"
proof -
  have z: "osize l = 0" using assms length_live by fastforce
  have "oslots l ! 0 \<in> set (stale l)" using assms(1) z by (simp add: stale_def leaf_in_def nodeSize_def)
  then have "oslots l ! 0 = []" using assms(1) by (auto simp: leaf_in_def)
  moreover have "ordset_leaf_searchBinary l [] = 0"
    by (simp add: ordset_leaf_searchBinary_def z bsearch_stop)
  ultimately show ?thesis
    using assms(1) z by (simp add: ordset_leaf_insert_def leaf_in_def nodeSize_def)
qed

lemma ordset_split_left_values: "ordset_split_left key a b \<in> {32, 64, 96}"
  by (simp add: ordset_split_left_def nodeSize_def)

lemma split_leaf:
  assumes l: "leaf_in k hi l" and full: "osize l = nodeSize" and left: "left \<in> {32, 64, 96 :: nat}"
    and l2: "l2 = \<lparr>oslots = copy_into (replicate nodeSize []) (drop left (oslots l)), osize = nodeSize - left\<rparr>"
    and sep: "sep = oslots l2 ! 0"
  shows "leaf_in k (Some sep) (l\<lparr>osize := left\<rparr>)" "leaf_in sep hi l2" "k < sep" "sep \<in> set (live l)"
    "set (live l) = set (live (l\<lparr>osize := left\<rparr>)) \<union> set (live l2)"
proof -
  have len: "length (oslots l) = 128" "left < 128" "0 < left" using l left by (auto simp: leaf_in_def nodeSize_def)
  have live: "live l = oslots l" using full l by (simp add: live_def leaf_in_def)
  have s: "sorted_wrt (<) (take left (oslots l) @ drop left (oslots l))"
    using l live by (simp add: leaf_in_def)
  have live1: "live (l\<lparr>osize := left\<rparr>) = take left (oslots l)" by (simp add: live_def)
  have slots2: "oslots l2 = drop left (oslots l) @ replicate left []"
    using len by (simp add: l2 copy_into_def nodeSize_def)
  have size2: "osize l2 = 128 - left" by (simp add: l2 nodeSize_def)
  have live2: "live l2 = drop left (oslots l)" using len slots2 by (simp add: live_def l2 nodeSize_def)
  have sep': "sep = oslots l ! left" using len by (simp add: sep slots2 nth_append)
  have d: "drop left (oslots l) = sep # drop (Suc left) (oslots l)"
    using len by (simp add: sep' Cons_nth_drop_Suc)
  have bounds: "\<forall>x\<in>set (oslots l). k \<le> x \<and> below x hi" using l live by (simp add: leaf_in_def)
  have low: "\<forall>x\<in>set (take left (oslots l)). x < sep" and high: "\<forall>x\<in>set (drop left (oslots l)). sep \<le> x"
    using s unfolding sorted_wrt_append d by auto
  show "sep \<in> set (live l)" using len by (simp add: live sep')
  show "set (live l) = set (live (l\<lparr>osize := left\<rparr>)) \<union> set (live l2)"
    unfolding live live1 live2 by (metis append_take_drop_id set_append)
  have "oslots l ! 0 \<in> set (take left (oslots l))"
    using len by (metis in_set_conv_nth length_take min_less_iff_conj nth_take order_less_trans)
  then show "k < sep" using low bounds len by (meson in_set_takeD order_le_less_trans)
  show "leaf_in k (Some sep) (l\<lparr>osize := left\<rparr>)"
    using s len bounds low high live1
    by (auto simp: leaf_in_def nodeSize_def sorted_wrt_append stale_def dest: in_set_takeD)
  have "stale l2 = replicate left []" using len slots2 by (simp add: stale_def size2)
  then show "leaf_in sep hi l2"
    using s len bounds high live2 slots2
    by (auto simp: leaf_in_def nodeSize_def sorted_wrt_append l2 dest: in_set_dropD)
qed

section \<open>Changing the tree\<close>

lemma tree_ents_length: "tree_shape t \<Longrightarrow> length (tree_ents t) = tsize t"
  unfolding tree_shape_def tree_ents_def by (rule length_ents)

lemma tree_search:
  "tree_shape t \<Longrightarrow> sorted_wrt (<) (map fst (tree_ents t)) \<Longrightarrow>
    ordset_tree_searchBinary t key = length (takeWhile (\<lambda>e. fst e \<le> key) (tree_ents t))"
  unfolding tree_shape_def tree_ents_def ordset_tree_searchBinary_def by (rule ents_search)

lemma tree_child: "tree_shape t \<Longrightarrow> i < tsize t \<Longrightarrow> ordset_child t (Suc i) = Some (snd (tree_ents t ! i))"
  using ents_leaf [of oleaf nodeSize "tslots t" "tsize t" i okey]
  by (simp add: tree_shape_def tree_ents_def ordset_child_def slots_ok_def)

lemma tree_insert:
  assumes "tree_shape t" "tree_ents t = as @ (k, r) # bs" "sorted_wrt (<) (map fst (tree_ents t))"
    and "k \<le> sep" "below sep (next_key bs None)" "tsize t < nodeSize"
  shows "\<exists>t'. ordset_tree_insert t sep r2 = Some t' \<and> tree_shape t' \<and> tree_ents t' = as @ (k, r) # (sep, r2) # bs"
  using ents_insert [OF assms [unfolded tree_shape_def tree_ents_def], of "\<lparr>oleaf = Some r2, okey = sep\<rparr>" r2]
  by (simp add: ordset_tree_insert_def ordset_tree_searchBinary_def tree_shape_def tree_ents_def Let_def)

lemma ordset_wfD:
  assumes "ordset_wf s"
  shows "ordset_ents s \<noteq> []" "fst (hd (ordset_ents s)) = []" "distinct (map snd (ordset_ents s))"
    "\<And>e. e \<in> set (ordset_ents s) \<Longrightarrow> snd e < length (oleaves s)" "chain leaf_in (ordset_view s) None"
    "sorted_wrt (<) (map fst (ordset_ents s))"
proof -
  show "ordset_ents s \<noteq> []"
    using assms by (auto simp: ordset_wf_def ordset_ents_def tree_shape_def tree_ents_def slots_ok_def ents_def split: option.splits)
  show "chain leaf_in (ordset_view s) None" using assms by (simp add: ordset_wf_def)
  then show "sorted_wrt (<) (map fst (ordset_ents s))"
    using chain_sorted unfolding ordset_view_def by (metis map_fst_deref)
qed (use assms in \<open>auto simp: ordset_wf_def\<close>)

text \<open>The leaf for a key: it is the one between whose separators the key lies.\<close>

lemma ordset_locate:
  assumes "ordset_wf s"
  obtains as k r bs where "ordset_ents s = as @ (k, r) # bs" "ordset_find s key = Some r"
    and "ordset_search s key = Some (length as, oleaves s ! r, ordset_leaf_searchBinary (oleaves s ! r) key)"
    and "r < length (oleaves s)" "k \<le> key" "below key (next_key bs None)"
proof -
  note wf = ordset_wfD [OF assms]
  have "fst (hd (ordset_ents s)) \<le> key" "below key None" using wf(2) by simp_all
  then obtain as k r bs where es: "ordset_ents s = as @ (k, r) # bs"
    and n: "length (takeWhile (\<lambda>e. fst e \<le> key) (ordset_ents s)) = Suc (length as)"
    and k: "k \<le> key" "below key (next_key bs None)"
    by (rule chain_locate [OF wf(1)])
  have r: "r < length (oleaves s)" using wf(4) [of "(k, r)"] es by simp
  show ?thesis
  proof (cases "otree s")
    case None
    then have "as = []" "r = 0" using es by (simp_all add: ordset_ents_def Cons_eq_append_conv)
    then show ?thesis using that [OF es _ _ r k] None r by (simp add: ordset_find_def ordset_search_def)
  next
    case (Some t)
    have t: "tree_shape t" and e: "ordset_ents s = tree_ents t"
      using assms Some by (auto simp: ordset_wf_def ordset_ents_def)
    have i: "ordset_tree_searchBinary t key = Suc (length as)"
      using tree_search [OF t, of key] wf(6) n unfolding e by simp
    have "length as < tsize t" using tree_ents_length [OF t] es unfolding e by simp
    then have "ordset_child t (Suc (length as)) = Some r"
      using tree_child [OF t, of "length as"] es unfolding e by simp
    then show ?thesis
      using that [OF es _ _ r k] Some i r by (auto simp: ordset_find_def ordset_search_def ordset_tree_search_def)
  qed
qed

text \<open>What is between the separators of a leaf is in that leaf or nowhere.\<close>

lemma ordset_elems_at:
  assumes "ordset_wf s" "ordset_ents s = as @ (k, r) # bs"
  shows "leaf_in k (next_key bs None) (oleaves s ! r)"
    and "ordset_elems s = leaf_keys (deref (oleaves s) as) \<union> set (live (oleaves s ! r)) \<union> leaf_keys (deref (oleaves s) bs)"
    and "\<And>x. x \<in> leaf_keys (deref (oleaves s) as) \<Longrightarrow> x < k"
    and "\<And>x y. x \<in> leaf_keys (deref (oleaves s) bs) \<Longrightarrow> below y (next_key bs None) \<Longrightarrow> y < x"
proof -
  have v: "ordset_view s = deref (oleaves s) as @ (k, oleaves s ! r) # deref (oleaves s) bs"
    by (simp add: ordset_view_def assms(2))
  have nk: "next_key (deref (oleaves s) bs) None = next_key bs None"
    by (cases bs) auto
  have ch: "chain leaf_in (deref (oleaves s) as) (Some k)" "chain leaf_in (deref (oleaves s) bs) None"
    and l: "leaf_in k (next_key bs None) (oleaves s ! r)"
    using ordset_wfD(5) [OF assms(1)] unfolding v by (auto simp: chain_append nk)
  show "leaf_in k (next_key bs None) (oleaves s ! r)" by (rule l)
  show "ordset_elems s = leaf_keys (deref (oleaves s) as) \<union> set (live (oleaves s ! r)) \<union> leaf_keys (deref (oleaves s) bs)"
    by (auto simp: ordset_elems_def v)
  show "x < k" if "x \<in> leaf_keys (deref (oleaves s) as)" for x
    using leaf_keys_below [OF ch(1) that] by simp
  show "y < x" if "x \<in> leaf_keys (deref (oleaves s) bs)" "below y (next_key bs None)" for x y
  proof (cases bs)
    case (Cons e cs)
    obtain k' r' where "e = (k', r')" by force
    then show ?thesis
      using that Cons ch(2) leaf_keys_above [of k' "oleaves s ! r'" "deref (oleaves s) cs" None x] by simp
  qed (use that in simp)
qed

section \<open>Insertion\<close>

text \<open>A leaf replaced by one that fits in the same place.\<close>

lemma ordset_put_leaf:
  assumes s: "ordset_wf s" and es: "ordset_ents s = as @ (k, r) # bs"
    and l: "leaf_in k (next_key bs None) l" and size: "osize (oleaves s ! r) \<le> osize l"
  defines "s' \<equiv> s\<lparr>oleaves := (oleaves s)[r := l]\<rparr>"
  shows "ordset_wf s'" "ordset_ents s' = ordset_ents s"
    "ordset_elems s' = leaf_keys (deref (oleaves s) as) \<union> set (live l) \<union> leaf_keys (deref (oleaves s) bs)"
proof -
  note wf = ordset_wfD [OF s]
  show ents: "ordset_ents s' = ordset_ents s" by (simp add: s'_def ordset_ents_def)
  have r: "r < length (oleaves s)" using wf(4) [of "(k, r)"] es by simp
  have other: "r \<notin> snd ` set as" "r \<notin> snd ` set bs"
    using wf(3) unfolding es by (auto simp: rev_image_eqI)
  have v: "ordset_view s = deref (oleaves s) as @ (k, oleaves s ! r) # deref (oleaves s) bs"
    by (simp add: ordset_view_def es)
  have v': "ordset_view s' = deref (oleaves s) as @ (k, l) # deref (oleaves s) bs"
    unfolding ordset_view_def ents es using r other by (simp add: s'_def deref_update_other)
  have nk: "next_key (deref (oleaves s) bs) None = next_key bs None" by (cases bs) auto
  have "chain leaf_in (ordset_view s') None"
    using wf(5) l unfolding v v' by (auto simp: chain_append nk)
  then show "ordset_wf s'"
    using s size unfolding ordset_wf_def ents v v' by (auto simp: s'_def split: option.splits)
  show "ordset_elems s' = leaf_keys (deref (oleaves s) as) \<union> set (live l) \<union> leaf_keys (deref (oleaves s) bs)"
    by (auto simp: ordset_elems_def v')
qed

lemma ordset_leaf_update_ok:
  assumes s: "ordset_wf s" and es: "ordset_ents s = as @ (k, r) # bs"
    and key: "k \<le> key" "below key (next_key bs None)" "key \<noteq> [] \<or> ordset_elems s \<noteq> {}"
    and room: "osize (oleaves s ! r) < nodeSize"
  shows "\<exists>s'. ordset_leaf_update s r key = Some (s', True) \<and> ordset_wf s' \<and> ordset_elems s' = insert key (ordset_elems s)"
proof -
  note at = ordset_elems_at [OF s es]
  have r: "r < length (oleaves s)" using ordset_wfD(4) [OF s, of "(k, r)"] es by simp
  have "key \<noteq> [] \<or> live (oleaves s ! r) \<noteq> []"
  proof (cases "otree s")
    case None
    then show ?thesis
      using key(3) at(2) es by (auto simp: ordset_ents_def Cons_eq_append_conv)
  next
    case (Some t)
    have "(k, oleaves s ! r) \<in> set (ordset_view s)" using es by (simp add: ordset_view_def)
    then have "nodeSize div 4 \<le> osize (oleaves s ! r)" using s Some by (force simp: ordset_wf_def)
    then show ?thesis using length_live [OF at(1)] by (auto simp: nodeSize_def)
  qed
  then obtain l' where l': "ordset_leaf_insert (oleaves s ! r) key = Some (l', True)"
    "leaf_in k (next_key bs None) l'" "set (live l') = insert key (set (live (oleaves s ! r)))"
    "osize (oleaves s ! r) \<le> osize l'"
    using ordset_leaf_insert_ok [OF at(1) key(1,2) _ room] by blast
  show ?thesis
    using ordset_put_leaf [OF s es l'(2,4)] l'(1,3) r at(2)
    by (auto simp: ordset_leaf_update_def)
qed

text \<open>Making the first tree changes nothing but the form.\<close>

lemma ordset_tree1_ents: "tree_ents ordset_tree1 = [([], 0)]" "tree_shape ordset_tree1" "tsize ordset_tree1 = 1"
  by (simp_all add: tree_ents_def tree_shape_def ents_def slots_ok_def ordset_tree1_def nodeSize_def)

lemma ordset_split_tree:
  assumes "ordset_wf s" "ordset_ents s = as @ (k, r) # bs" "osize (oleaves s ! r) = nodeSize"
  obtains (full) t where "otree s = Some t" "tsize t = nodeSize"
  | (room) t where "tree_ents t = ordset_ents s" "tree_shape t" "tsize t < nodeSize"
      "(case otree s of None \<Rightarrow> if osize (oleaves s ! 0) = nodeSize then Some ordset_tree1 else None | Some t \<Rightarrow> Some t) = Some t"
      "otree s = None \<or> otree s = Some t"
proof (cases "otree s")
  case None
  then have "r = 0" using assms(2) by (simp add: ordset_ents_def Cons_eq_append_conv)
  then show ?thesis
    using None assms(3) ordset_tree1_ents by (intro room [of ordset_tree1]) (auto simp: ordset_ents_def nodeSize_def)
next
  case (Some t)
  then have t: "tree_shape t" using assms(1) by (simp add: ordset_wf_def)
  show ?thesis
  proof (cases "tsize t = nodeSize")
    case True
    then show ?thesis using Some full by blast
  next
    case False
    then show ?thesis using Some t by (intro room [of t]) (auto simp: ordset_ents_def tree_shape_def slots_ok_def)
  qed
qed

text \<open>The set after a split: the leaf at \<open>r\<close> has been cut at \<open>left\<close>, a new leaf follows it.\<close>

lemma ordset_split_wf:
  assumes s: "ordset_wf s" and es: "ordset_ents s = as @ (k, r) # bs" and left: "left \<in> {32, 64, 96}"
    and l2: "osize l2 = nodeSize - left" "leaf_in k (Some sep) ((oleaves s ! r)\<lparr>osize := left\<rparr>)" "leaf_in sep (next_key bs None) l2"
    and sep: "k < sep" "below sep (next_key bs None)"
    and keys: "set (live ((oleaves s ! r)\<lparr>osize := left\<rparr>)) \<union> set (live l2) = set (live (oleaves s ! r))"
    and t': "tree_shape t'" "tree_ents t' = as @ (k, r) # (sep, length (oleaves s)) # bs"
  defines "s' \<equiv> \<lparr>otree = Some t', oleaves = (oleaves s)[r := (oleaves s ! r)\<lparr>osize := left\<rparr>] @ [l2]\<rparr>"
  shows "ordset_wf s' \<and> ordset_elems s' = ordset_elems s"
proof -
  note wf = ordset_wfD [OF s]
  let ?L = "oleaves s" and ?l = "oleaves s ! r" and ?n = "length (oleaves s)"
  have r: "r < ?n" using wf(4) [of "(k, r)"] es by auto
  have ents: "ordset_ents s' = as @ (k, r) # (sep, ?n) # bs" by (simp add: s'_def ordset_ents_def t'(2))
  have small: "\<forall>e\<in>set as \<union> set bs. snd e < ?n" "r \<notin> snd ` set as" "r \<notin> snd ` set bs"
    using wf(3,4) unfolding es by (auto simp: rev_image_eqI)
  have v: "ordset_view s = deref ?L as @ (k, ?l) # deref ?L bs" by (simp add: ordset_view_def es)
  have d: "deref (oleaves s') as = deref ?L as" "deref (oleaves s') bs = deref ?L bs"
    using small by (simp_all add: s'_def ball_Un deref_more deref_update_other)
  have v': "ordset_view s' = deref ?L as @ (k, ?l\<lparr>osize := left\<rparr>) # (sep, l2) # deref ?L bs"
    unfolding ordset_view_def ents by (simp add: d) (simp add: s'_def nth_append r)
  have nk: "next_key (deref ?L bs) None = next_key bs None" by (cases bs) auto
  have "chain leaf_in (ordset_view s') None"
    using wf(5) l2(2,3) sep unfolding v v' by (auto simp: chain_append nk)
  moreover have "\<forall>e\<in>set (ordset_view s'). nodeSize div 4 \<le> osize (snd e)"
    using s es left l2(1) unfolding v'
    by (cases "otree s") (auto simp: ordset_wf_def v ordset_ents_def Cons_eq_append_conv nodeSize_def)
  moreover have "fst (hd (ordset_ents s')) = []" using wf(2) unfolding ents es by (cases as) auto
  moreover have "?n \<notin> snd ` set as" "?n \<notin> snd ` set bs" using small(1) by force+
  then have "distinct (map snd (ordset_ents s'))" using wf(3) r unfolding ents es by auto
  moreover have "\<forall>e\<in>set (ordset_ents s'). snd e < length (oleaves s')"
    using small(1) r unfolding ents by (auto simp: s'_def less_Suc_eq)
  ultimately have "ordset_wf s'" using t'(1) by (simp add: ordset_wf_def s'_def)
  moreover have "ordset_elems s' = ordset_elems s" using keys by (auto simp: ordset_elems_def v v')
  ultimately show ?thesis by simp
qed

lemma ordset_split_ok:
  assumes s: "ordset_wf s" and es: "ordset_ents s = as @ (k, r) # bs"
    and full: "osize (oleaves s ! r) = nodeSize"
  shows "(\<exists>t. otree s = Some t \<and> tsize t = nodeSize \<and> ordset_split s r key = Some (s, False))
    \<or> (\<exists>s' sep. ordset_split s r key = Some (s', True) \<and> ordset_wf s' \<and> ordset_elems s' = ordset_elems s
          \<and> ordset_ents s' = as @ (k, r) # (sep, length (oleaves s)) # bs
          \<and> osize (oleaves s' ! r) < nodeSize \<and> osize (oleaves s' ! length (oleaves s)) < nodeSize)"
  using s es full
proof (cases rule: ordset_split_tree)
  case (full t)
  moreover have "r < length (oleaves s)" "0 < length (oleaves s)" using ordset_wfD(4) [OF s, of "(k, r)"] es by auto
  ultimately show ?thesis by (simp add: ordset_split_def)
next
  case (room t)
  note wf = ordset_wfD [OF s] and at = ordset_elems_at [OF s es]
  let ?L = "oleaves s" and ?l = "oleaves s ! r" and ?n = "length (oleaves s)"
  have r: "r < ?n" "0 < ?n" using wf(4) [of "(k, r)"] es by auto
  define left where "left = ordset_split_left key (oslots ?l ! 0) (oslots ?l ! (nodeSize - 1))"
  define l2 where "l2 = \<lparr>oslots = copy_into (replicate nodeSize []) (drop left (oslots ?l)), osize = nodeSize - left\<rparr>"
  define sep where "sep = oslots l2 ! 0"
  have left: "left \<in> {32, 64, 96}" unfolding left_def by (rule ordset_split_left_values)
  note sl = split_leaf [OF at(1) full left l2_def sep_def]
  have below_sep: "below sep (next_key bs None)" using sl(4) at(1) by (auto simp: leaf_in_def)
  obtain t' where t': "ordset_tree_insert t sep ?n = Some t'" "tree_shape t'"
    "tree_ents t' = as @ (k, r) # (sep, ?n) # bs"
    using tree_insert [OF room(2), of as k r bs sep ?n] room(1,3) es wf(6) less_imp_le [OF sl(3)] below_sep by auto
  define s' where "s' = \<lparr>otree = Some t', oleaves = ?L[r := ?l\<lparr>osize := left\<rparr>] @ [l2]\<rparr>"
  have "length (oslots ?l) = nodeSize" "length (oslots l2) = nodeSize" using at(1) sl(2) by (simp_all add: leaf_in_def)
  then have split: "ordset_split s r key = Some (s', True)"
    using room(3,4,5) r t'(1) unfolding ordset_split_def
    by (auto simp: s'_def sep_def l2_def left_def Let_def nodeSize_def)
  have "osize l2 = nodeSize - left" by (simp add: l2_def)
  then have "ordset_wf s'" "ordset_elems s' = ordset_elems s"
    using ordset_split_wf [OF s es left _ sl(1,2,3) below_sep sl(5) [symmetric] t'(2,3)] unfolding s'_def by blast+
  moreover have "ordset_ents s' = as @ (k, r) # (sep, ?n) # bs" by (simp add: s'_def ordset_ents_def t'(3))
  moreover have "osize (oleaves s' ! r) < nodeSize" "osize (oleaves s' ! ?n) < nodeSize"
    using r left by (auto simp: s'_def nth_append l2_def nodeSize_def)
  ultimately show ?thesis using split by blast
qed

text \<open>The empty string is the exception: in an empty set it is not stored.\<close>

lemma ordset_Insert_lost:
  assumes s: "ordset_wf s" and elems: "ordset_elems s = {}"
  shows "ordset_Insert s [] = Some (s, True)"
proof -
  obtain as k r bs where es: "ordset_ents s = as @ (k, r) # bs" and f: "ordset_find s [] = Some r"
    and r: "r < length (oleaves s)"
    by (rule ordset_locate [OF s, of "[]"])
  note at = ordset_elems_at [OF s es]
  have live: "live (oleaves s ! r) = []" using at(2) elems by simp
  then have z: "osize (oleaves s ! r) = 0" using length_live [OF at(1)] by simp
  have "(k, oleaves s ! r) \<in> set (ordset_view s)" using es by (simp add: ordset_view_def)
  then have "otree s = None" using s z by (cases "otree s") (force simp: ordset_wf_def nodeSize_def)+
  then have "r = 0" "bs = []" using es by (simp_all add: ordset_ents_def Cons_eq_append_conv)
  then have "ordset_leaf_insert (oleaves s ! r) [] = Some (oleaves s ! r, True)"
    using ordset_leaf_insert_empty at(1) live by auto
  then show ?thesis using f r z by (simp add: ordset_Insert_def ordset_leaf_update_def nodeSize_def)
qed

text \<open>After a split the key belongs into one of the two halves, and both have room.\<close>

lemma ordset_Insert_split:
  assumes s1: "ordset_wf s1" "ordset_elems s1 = ordset_elems s" and es1: "ordset_ents s1 = as @ (k, r) # (sep, r2) # bs"
    and small: "osize (oleaves s1 ! r) < nodeSize" "osize (oleaves s1 ! r2) < nodeSize"
    and k: "k \<le> key" "below key (next_key bs None)" and key: "\<not> (key = [] \<and> ordset_elems s = {})"
  shows "\<exists>r1 s'. ordset_find s1 key = Some r1 \<and> ordset_leaf_update s1 r1 key = Some (s', True) \<and> ordset_wf s'
    \<and> ordset_elems s' = insert key (ordset_elems s)"
proof -
  obtain xs k' r' ys where es1': "ordset_ents s1 = xs @ (k', r') # ys" and f1: "ordset_find s1 key = Some r'"
    and k': "k' \<le> key" "below key (next_key ys None)"
    by (rule ordset_locate [OF s1(1), of key])
  have "r' = r \<or> r' = r2" using locate_halves [OF ordset_wfD(6) [OF s1(1)] es1 es1' k k'] .
  then have "osize (oleaves s1 ! r') < nodeSize" using small by auto
  moreover have "key \<noteq> [] \<or> ordset_elems s1 \<noteq> {}" using key s1(2) by blast
  ultimately show ?thesis using ordset_leaf_update_ok [OF s1(1) es1' k'] f1 s1(2) by auto
qed

lemma ordset_Insert_spec:
  assumes s: "ordset_wf s"
  obtains
    (added) s' where "ordset_Insert s key = Some (s', True)" "ordset_wf s'"
      "ordset_elems s' = (if key = [] \<and> ordset_elems s = {} then {} else insert key (ordset_elems s))"
  | (full) t where "ordset_Insert s key = Some (s, False)" "otree s = Some t" "tsize t = nodeSize"
      "\<exists>k l. (k, l) \<in> set (ordset_view s) \<and> osize l = nodeSize"
      "\<exists>r leaf. ordset_find s key = Some r \<and> at (oleaves s) r = Some leaf \<and> osize leaf = nodeSize"
proof (cases "key = [] \<and> ordset_elems s = {}")
  case True
  then show ?thesis using added [of s] ordset_Insert_lost [OF s] s by simp
next
  case key: False
  obtain as k r bs where es: "ordset_ents s = as @ (k, r) # bs" and f: "ordset_find s key = Some r"
    and r: "r < length (oleaves s)" and k: "k \<le> key" "below key (next_key bs None)"
    by (rule ordset_locate [OF s, of key])
  have le: "osize (oleaves s ! r) \<le> nodeSize" using ordset_elems_at(1) [OF s es] by (simp add: leaf_in_def)
  show ?thesis
  proof (cases "osize (oleaves s ! r) < nodeSize")
    case True
    then have "ordset_Insert s key = ordset_leaf_update s r key" using f r by (simp add: ordset_Insert_def)
    moreover have "key \<noteq> [] \<or> ordset_elems s \<noteq> {}" using key by blast
    ultimately show ?thesis using ordset_leaf_update_ok [OF s es k _ True] added key by auto
  next
    case False
    then have size: "osize (oleaves s ! r) = nodeSize" using le by simp
    have mem: "(k, oleaves s ! r) \<in> set (ordset_view s)" using es by (simp add: ordset_view_def)
    show ?thesis
      using ordset_split_ok [OF s es size, of key]
    proof (elim disjE exE conjE)
      fix t assume "otree s = Some t" "tsize t = nodeSize" "ordset_split s r key = Some (s, False)"
      then show ?thesis using full [of t] f r size mem by (auto simp: ordset_Insert_def)
    next
      fix s1 sep
      assume sp: "ordset_split s r key = Some (s1, True)" and s1: "ordset_wf s1" "ordset_elems s1 = ordset_elems s"
        and es1: "ordset_ents s1 = as @ (k, r) # (sep, length (oleaves s)) # bs"
        and small: "osize (oleaves s1 ! r) < nodeSize" "osize (oleaves s1 ! length (oleaves s)) < nodeSize"
      show ?thesis
        using ordset_Insert_split [OF s1 es1 small k key] added key f r size sp by (auto simp: ordset_Insert_def)
    qed
  qed
qed

section \<open>Queries\<close>

lemma ordset_Contains_ok:
  assumes s: "ordset_wf s"
  shows "ordset_Contains (Some s) key = Some (key \<in> ordset_elems s)"
proof -
  obtain as k r bs where es: "ordset_ents s = as @ (k, r) # bs"
    and f: "ordset_search s key = Some (length as, oleaves s ! r, ordset_leaf_searchBinary (oleaves s ! r) key)"
    and k: "k \<le> key" "below key (next_key bs None)"
    by (rule ordset_locate [OF s, of key])
  note at = ordset_elems_at [OF s es]
  let ?l = "oleaves s ! r" and ?i = "ordset_leaf_searchBinary (oleaves s ! r) key"
  have here: "key \<in> ordset_elems s \<longleftrightarrow> key \<in> set (live ?l)"
    using at(2,3,4) k by force
  show ?thesis
  proof (cases "?i < osize ?l")
    case True
    note hit = leaf_search_hit [OF at(1) refl True]
    have "?i < length (oslots ?l)" using True at(1) by (simp add: leaf_in_def)
    moreover have "oslots ?l ! ?i = key \<longleftrightarrow> key \<in> set (live ?l)"
      using hit(1) hit(2) hit(3) [of key] by (metis order.antisym order.refl)
    ultimately show ?thesis using f True here by (simp add: ordset_Contains_def)
  next
    case False
    then have "key \<notin> set (live ?l)" using leaf_search_miss [OF at(1), of key key] by auto
    then show ?thesis using f False here by (simp add: ordset_Contains_def)
  qed
qed

text \<open>The leaf after the one that was searched: it is not empty, and its first key is the least of those that follow.\<close>

lemma ordset_next_leaf:
  assumes s: "ordset_wf s" and es: "ordset_ents s = as @ (k, r) # (k', r') # cs"
  obtains t where "otree s = Some t" "length as + 1 < tsize t" "length as + 1 < length (tslots t)"
    "oleaf (tslots t ! (length as + 1)) = Some r'" "r' < length (oleaves s)" "0 < length (oslots (oleaves s ! r'))"
    and "oslots (oleaves s ! r') ! 0 \<in> set (live (oleaves s ! r'))"
    "\<And>x. x \<in> set (live (oleaves s ! r')) \<Longrightarrow> oslots (oleaves s ! r') ! 0 \<le> x"
proof -
  have es': "ordset_ents s = (as @ [(k, r)]) @ (k', r') # cs" using es by simp
  let ?l' = "oleaves s ! r'"
  note at' = ordset_elems_at(1) [OF s es']
  obtain t where t: "otree s = Some t" "tree_shape t" "ordset_ents s = tree_ents t"
    using s es by (cases "otree s") (auto simp: ordset_wf_def ordset_ents_def Cons_eq_append_conv)
  have "(k', ?l') \<in> set (ordset_view s)" using es' by (simp add: ordset_view_def)
  then have size: "0 < osize ?l'" using s t(1) by (force simp: ordset_wf_def nodeSize_def)
  have n: "length as + 1 < tsize t" using es' t tree_ents_length [OF t(2)] by simp
  have len: "0 < length (oslots ?l')" using at' by (simp add: leaf_in_def nodeSize_def)
  have z: "ordset_leaf_searchBinary ?l' [] = 0"
    using leaf_search [OF at', of "[]"] by (simp add: takeWhile_eq_Nil_iff)
  show ?thesis
  proof (rule that [OF t(1) n _ _ _ len])
    show "length as + 1 < length (tslots t)" using n t(2) by (simp add: tree_shape_def slots_ok_def)
    show "oleaf (tslots t ! (length as + 1)) = Some r'"
      using tree_child [OF t(2) n] es' t(2,3) n by (simp add: ordset_child_def tree_shape_def slots_ok_def nth_append)
    show "r' < length (oleaves s)" using ordset_wfD(4) [OF s, of "(k', r')"] es' by simp
    show "oslots ?l' ! 0 \<in> set (live ?l')" using size len by (auto simp: live_def in_set_conv_nth)
  qed (use leaf_search_hit(3) [OF at' z [symmetric]] size in simp)
qed

lemma ordset_AnyInRange_ok:
  assumes s: "ordset_wf s"
  shows "ordset_AnyInRange (Some s) from to = Some (\<exists>x\<in>ordset_elems s. from \<le> x \<and> x \<le> to)"
proof -
  obtain as k r bs where es: "ordset_ents s = as @ (k, r) # bs"
    and f: "ordset_search s from = Some (length as, oleaves s ! r, ordset_leaf_searchBinary (oleaves s ! r) from)"
    and k: "k \<le> from" "below from (next_key bs None)"
    by (rule ordset_locate [OF s, of "from"])
  note at = ordset_elems_at [OF s es]
  let ?L = "oleaves s" and ?l = "oleaves s ! r" and ?i = "ordset_leaf_searchBinary (oleaves s ! r) from"
  have least: "(\<exists>x\<in>ordset_elems s. from \<le> x \<and> x \<le> to) \<longleftrightarrow> m \<le> to"
    if "m \<in> ordset_elems s" "from \<le> m" "\<And>x. x \<in> ordset_elems s \<Longrightarrow> from \<le> x \<Longrightarrow> m \<le> x" for m
    using that by (auto intro: order_trans)
  have before: "\<not> from \<le> x" if "x \<in> leaf_keys (deref ?L as)" for x
    using at(3) [OF that] k(1) by simp
  have here: "\<not> from \<le> x" if "x \<in> set (live ?l)" "\<not> ?i < osize ?l" for x
    using leaf_search_miss [OF at(1) _ that(1), of "from"] that(2) by simp
  consider (leaf) "?i < osize ?l" | (none) "\<not> ?i < osize ?l" "bs = []"
    | (more) k' r' cs where "\<not> ?i < osize ?l" "bs = (k', r') # cs"
    by (metis list.exhaust surj_pair)
  then show ?thesis
  proof cases
    case leaf
    note hit = leaf_search_hit [OF at(1) refl leaf]
    have "?i < length (oslots ?l)" "below (oslots ?l ! ?i) (next_key bs None)"
      using leaf hit(1) at(1) by (simp_all add: leaf_in_def)
    moreover have "(\<exists>x\<in>ordset_elems s. from \<le> x \<and> x \<le> to) \<longleftrightarrow> oslots ?l ! ?i \<le> to"
      by (rule least) (use hit at(2,4) before calculation(2) in fastforce)+
    ultimately show ?thesis using f leaf by (simp add: ordset_AnyInRange_def)
  next
    case none
    have "tsize t \<le> length as + 1" if "otree s = Some t" for t
      using that s es none(2) tree_ents_length [of t] by (simp add: ordset_wf_def ordset_ents_def)
    moreover have "\<not> (\<exists>x\<in>ordset_elems s. from \<le> x \<and> x \<le> to)" using at(2) before here none by auto
    ultimately show ?thesis using f none(1) by (auto simp: ordset_AnyInRange_def split: option.splits)
  next
    case more
    have es': "ordset_ents s = (as @ [(k, r)]) @ (k', r') # cs" using es more(2) by simp
    note at' = ordset_elems_at [OF s es']
    obtain t where t: "otree s = Some t" "length as + 1 < tsize t" "length as + 1 < length (tslots t)"
      "oleaf (tslots t ! (length as + 1)) = Some r'" "r' < length ?L" "0 < length (oslots (?L ! r'))"
      and m: "oslots (?L ! r') ! 0 \<in> set (live (?L ! r'))" "\<And>x. x \<in> set (live (?L ! r')) \<Longrightarrow> oslots (?L ! r') ! 0 \<le> x"
      using ordset_next_leaf [OF s es [unfolded more(2)]] by metis
    have b: "below (oslots (?L ! r') ! 0) (next_key cs None)" using m(1) at'(1) by (simp add: leaf_in_def)
    have ge: "from \<le> oslots (?L ! r') ! 0" using at(4) [of "oslots (?L ! r') ! 0" "from"] m(1) k(2) more(2) by simp
    have "(\<exists>x\<in>ordset_elems s. from \<le> x \<and> x \<le> to) \<longleftrightarrow> oslots (?L ! r') ! 0 \<le> to"
      by (rule least [OF _ ge]) (use m at'(2,4) before here more(1) b in fastforce)+
    then show ?thesis using f more(1) t by (simp add: ordset_AnyInRange_def)
  qed
qed

section \<open>Capacity\<close>

lemma leaf_keys_card:
  "chain leaf_in v hi \<Longrightarrow> finite (leaf_keys v) \<and> card (leaf_keys v) = sum_list (map (\<lambda>e. osize (snd e)) v)"
proof (induction v)
  case (Cons e v)
  obtain k l where e: "e = (k, l)" by force
  have l: "leaf_in k (next_key v hi) l" and v: "chain leaf_in v hi" using Cons.prems e by auto
  have "set (live l) \<inter> leaf_keys v = {}"
  proof (cases v)
    case (Cons e' w)
    obtain k' l' where "e' = (k', l')" by force
    then show ?thesis
      using l v Cons leaf_keys_above [of k' l' w hi] by (fastforce simp: leaf_in_def)
  qed simp
  moreover have "card (set (live l)) = osize l"
    using l length_live [OF l] by (metis distinct_card leaf_in_def strict_sorted_iff)
  ultimately show ?case using Cons.IH v e by (simp add: card_Un_disjoint)
qed simp

lemma ordset_card: "ordset_wf s \<Longrightarrow> card (ordset_elems s) = sum_list (map (\<lambda>e. osize (snd e)) (ordset_view s))"
  using leaf_keys_card [OF ordset_wfD(5)] by (simp add: ordset_elems_def)

lemma sum_list_lower:
  "(\<forall>x\<in>set xs. m \<le> f x) \<Longrightarrow> length xs * m \<le> sum_list (map f xs :: nat list)"
  by (induction xs) auto

lemma ordset_full_card:
  assumes "ordset_wf s" "otree s = Some t" "tsize t = nodeSize" "(k, l) \<in> set (ordset_view s)" "osize l = nodeSize"
  shows "4192 \<le> card (ordset_elems s)"
proof -
  obtain xs ys where v: "ordset_view s = xs @ (k, l) # ys" using assms(4) by (meson split_list)
  let ?f = "\<lambda>e. osize (snd e)"
  have t: "tree_shape t" "\<forall>e\<in>set (ordset_view s). 32 \<le> ?f e"
    using assms(1,2) by (auto simp: ordset_wf_def nodeSize_def)
  have "length (ordset_view s) = 128"
    using tree_ents_length [OF t(1)] assms(2,3) by (simp add: ordset_view_def ordset_ents_def nodeSize_def)
  then have "length (xs @ ys) = 127" unfolding v by simp
  moreover have "length (xs @ ys) * 32 \<le> sum_list (map ?f (xs @ ys))"
    using t(2) unfolding v by (intro sum_list_lower) auto
  ultimately show ?thesis using ordset_card [OF assms(1)] assms(5) v by (simp add: nodeSize_def)
qed

section \<open>The contract\<close>

text \<open>What a user of the set relies on: operations that never fail on a well-formed set, and the two
  laws between insertion and range queries, with the exception of the empty string.\<close>

locale key_set =
  fixes zero :: 's
    and ins :: "'s \<Rightarrow> gostr \<Rightarrow> ('s \<times> bool) option"
    and any_in :: "'s option \<Rightarrow> gostr \<Rightarrow> gostr \<Rightarrow> bool option"
    and elems :: "'s \<Rightarrow> gostr set"
    and wf :: "'s \<Rightarrow> bool"
  assumes wf_zero: "wf zero"
    and elems_zero: "elems zero = {}"
    and ins_total: "wf s \<Longrightarrow> \<exists>s' ok. ins s x = Some (s', ok)"
    and ins_wf: "wf s \<Longrightarrow> ins s x = Some (s', ok) \<Longrightarrow> wf s'"
    and ins_elems: "wf s \<Longrightarrow> ins s x = Some (s', True) \<Longrightarrow>
      elems s' = (if x = [] \<and> elems s = {} then {} else insert x (elems s))"
    and ins_full: "wf s \<Longrightarrow> ins s x = Some (s', False) \<Longrightarrow> s' = s"
    and any_nil: "any_in None a b = Some False"
    and any_elems: "wf s \<Longrightarrow> any_in (Some s) a b = Some (\<exists>x\<in>elems s. a \<le> x \<and> x \<le> b)"
begin

lemma ins_nonempty: "wf s \<Longrightarrow> ins s x = Some (s', True) \<Longrightarrow> x \<noteq> [] \<Longrightarrow> elems s' = insert x (elems s)"
  using ins_elems by auto

lemma ins_mono: "wf s \<Longrightarrow> ins s x = Some (s', ok) \<Longrightarrow> elems s \<subseteq> elems s'"
  using ins_elems [of s x s'] ins_full [of s x s'] by (cases ok) (auto split: if_splits)

end

lemma ordset_zero_wf: "ordset_wf ordset_zero" "ordset_elems ordset_zero = {}"
proof -
  have l: "live ordset_leaf0 = []" "stale ordset_leaf0 = replicate nodeSize []"
    by (simp_all add: live_def stale_def ordset_leaf0_def)
  have "leaf_in [] None ordset_leaf0"
    using l by (auto simp: leaf_in_def) (simp_all add: ordset_leaf0_def)
  then show "ordset_wf ordset_zero" "ordset_elems ordset_zero = {}"
    using l by (simp_all add: ordset_wf_def ordset_zero_def ordset_ents_def ordset_view_def ordset_elems_def)
qed

interpretation os: key_set ordset_zero ordset_Insert ordset_AnyInRange ordset_elems ordset_wf
proof
  show "ordset_wf ordset_zero" "ordset_elems ordset_zero = {}" by (fact ordset_zero_wf)+
  show "ordset_AnyInRange None a b = Some False" for a b by (simp add: ordset_AnyInRange_def)
next
  fix s :: ordset and x s' ok assume s: "ordset_wf s"
  show "\<exists>s' ok. ordset_Insert s x = Some (s', ok)"
    by (rule ordset_Insert_spec [OF s, of x]) auto
  show "ordset_AnyInRange (Some s) a b = Some (\<exists>x\<in>ordset_elems s. a \<le> x \<and> x \<le> b)" for a b
    by (rule ordset_AnyInRange_ok [OF s])
  show "ordset_wf s'" if "ordset_Insert s x = Some (s', ok)"
    using that s by (rule_tac ordset_Insert_spec [OF s, of x]) auto
  show "ordset_elems s' = (if x = [] \<and> ordset_elems s = {} then {} else insert x (ordset_elems s))"
    if "ordset_Insert s x = Some (s', True)"
    using that s by (rule_tac ordset_Insert_spec [OF s, of x]) (auto split: if_splits)
  show "s' = s" if "ordset_Insert s x = Some (s', False)"
    using that s by (rule_tac ordset_Insert_spec [OF s, of x]) auto
qed

section \<open>The ordered set as a whole\<close>

text \<open>The keys of a list, inserted one after the other as \<^verbatim>\<open>ckwrites.with\<close> does: \<open>None\<close> when one is refused.\<close>

fun ordset_insert_all :: "ordset \<Rightarrow> gostr list \<Rightarrow> ordset option" where
  "ordset_insert_all s [] = Some s"
| "ordset_insert_all s (k # ks) = do { (s', ok) \<leftarrow> ordset_Insert s k; if ok then ordset_insert_all s' ks else None }"

lemma ordset_insert_all_elems:
  assumes "ordset_wf s" "ordset_insert_all s ks = Some s'"
  shows "ordset_wf s' \<and> ordset_elems s' = ordset_elems s \<union>
    (if ordset_elems s = {} then set (dropWhile (\<lambda>k. k = []) ks) else set ks)"
  using assms
proof (induction ks arbitrary: s)
  case (Cons k ks)
  obtain s1 where s1: "ordset_Insert s k = Some (s1, True)" "ordset_insert_all s1 ks = Some s'"
    using Cons.prems(2) by (auto simp: bind_eq_Some_conv split: if_splits)
  have wf: "ordset_wf s1" using os.ins_wf [OF Cons.prems(1) s1(1)] .
  note e = os.ins_elems [OF Cons.prems(1) s1(1)]
  show ?case using Cons.IH [OF wf s1(2)] e by (auto split: if_splits)
qed simp

lemma ordset_Insert_accepts:
  assumes "ordset_wf s" "card (ordset_elems s) < 4192"
  obtains s' where "ordset_Insert s key = Some (s', True)" "ordset_wf s'" "card (ordset_elems s') \<le> Suc (card (ordset_elems s))"
  using assms(1)
proof (cases rule: ordset_Insert_spec [where key = key])
  case (added s')
  then show ?thesis using that by (auto simp: card_insert_le_m1 card_insert_if split: if_splits)
next
  case (full t)
  then show ?thesis using ordset_full_card [OF assms(1) full(2,3)] assms(2) by fastforce
qed

lemma ordset_insert_all_total:
  "ordset_wf s \<Longrightarrow> card (ordset_elems s) + length ks \<le> 4192 \<Longrightarrow> \<exists>s'. ordset_insert_all s ks = Some s'"
proof (induction ks arbitrary: s)
  case (Cons k ks)
  obtain s1 where s1: "ordset_Insert s k = Some (s1, True)" "ordset_wf s1" "card (ordset_elems s1) \<le> Suc (card (ordset_elems s))"
    by (rule ordset_Insert_accepts [OF Cons.prems(1), of k]) (use Cons.prems(2) in auto)
  then show ?case using Cons.IH [OF s1(2)] Cons.prems(2) by simp
qed simp

text \<open>C20: the ordered set, from its zero value through any keys that it accepted, answers whether a range
  contains a written key exactly as a set of those keys would, except that the empty string is
  not stored as long as nothing else is. The queries never panic.\<close>

theorem ordset_is_set:
  assumes "ordset_insert_all ordset_zero keys = Some s"
  shows "ordset_AnyInRange (Some s) from to =
      Some (\<exists>x\<in>set (dropWhile (\<lambda>k. k = []) keys). from \<le> x \<and> x \<le> to)
    \<and> ordset_Contains (Some s) key = Some (key \<in> set (dropWhile (\<lambda>k. k = []) keys))"
  using ordset_insert_all_elems [OF ordset_zero_wf(1) assms] ordset_zero_wf(2)
  by (simp add: os.any_elems ordset_Contains_ok)

theorem ordset_is_set_witness:
  "\<exists>s. ordset_insert_all ordset_zero [[], [98], [97]] = Some s \<and> ordset_Contains (Some s) [] = Some False
    \<and> ordset_AnyInRange (Some s) [96, 255] [97] = Some True"
proof -
  obtain s where s: "ordset_insert_all ordset_zero [[], [98], [97]] = Some s"
    using ordset_insert_all_total [of ordset_zero "[[], [98], [97]]"] ordset_zero_wf by auto
  show ?thesis
    using s ordset_is_set [OF s, of "[96, 255]" "[97]" "[]"] by auto
qed

text \<open>C18: insertion is total on well-formed sets and keeps them well formed. An accepted key is added and nothing else, with one
  exception: the empty key is not stored in a set without keys. A key is refused only when the tree has its full 128
  leaves and the leaf it falls into is full; then the set has at least 4192 keys and is unchanged.\<close>

theorem ordset_Insert_refines:
  assumes "ordset_wf s"
  shows "\<exists>s' ok. ordset_Insert s key = Some (s', ok) \<and> ordset_wf s'
    \<and> (ok \<longrightarrow> ordset_elems s' = (if key = [] \<and> ordset_elems s = {} then {} else insert key (ordset_elems s)))
    \<and> (\<not> ok \<longrightarrow> s' = s \<and> (\<exists>t r leaf. otree s = Some t \<and> tsize t = 128 \<and> ordset_find s key = Some r \<and> at (oleaves s) r = Some leaf \<and> osize leaf = 128)
         \<and> 4192 \<le> card (ordset_elems s))"
  using assms
proof (cases rule: ordset_Insert_spec [where key = key])
  case (full t)
  then have "4192 \<le> card (ordset_elems s)" using ordset_full_card [OF assms full(2,3)] by blast
  then show ?thesis using full assms by (auto simp: nodeSize_def)
qed auto

theorem ordset_Insert_refines_witness:
  "ordset_wf ordset_zero \<and> (\<exists>s'. ordset_Insert ordset_zero [97] = Some (s', True) \<and> ordset_wf s' \<and> ordset_elems s' = {[97]})"
proof -
  have "otree ordset_zero = None" by (simp add: ordset_zero_def)
  then show ?thesis using ordset_Insert_refines [OF ordset_zero_wf(1), of "[97]"] ordset_zero_wf by auto
qed

end
