(* ===== verification/RangeSet.thy ===== *)
theory RangeSet
  imports OrdSet "HOL-Library.Sublist"
begin

text \<open>
  The ordered set of ranges of \<^verbatim>\<open>util/ranges/ranges.go\<close>, in which the conflict checker keeps what a
  transaction has read: ranges that overlap are merged when they are inserted, so the set stays a
  sorted list of disjoint ranges. It has the same two levels as the ordered set of keys; leaves are
  addressed in the same way, position 0 being the embedded one. Merging walks over the leaves with an
  iterator and removes ranges, and leaves that become empty, behind it. \<open>None\<close> is a panic.
\<close>

section \<open>The data\<close>

record range_slot =
  rfrom :: gostr
  rto :: gostr

record range_leaf =
  rslots :: "range_slot list"
  rsize :: nat

record range_tslot =
  rleaf :: "nat option"
  rval :: gostr

record range_tree =
  rtslots :: "range_tslot list"
  rtsize :: nat

record ranges =
  rtree :: "range_tree option"
  rleaves :: "range_leaf list"

definition ranges_existing :: int where "ranges_existing = - 1"
definition ranges_overflow :: int where "ranges_overflow = - 2"
definition ranges_Existed :: int where "ranges_Existed = 0"
definition ranges_Full :: int where "ranges_Full = (2 ^ 63 - 1) div 2"

definition range_slot0 :: range_slot where
  "range_slot0 = \<lparr>rfrom = [], rto = []\<rparr>"

definition ranges_zero :: ranges where
  "ranges_zero = \<lparr>rtree = None, rleaves = [\<lparr>rslots = replicate nodeSize range_slot0, rsize = 0\<rparr>]\<rparr>"

section \<open>Searching\<close>

definition ranges_tree_searchBinary :: "range_tree \<Rightarrow> gostr \<Rightarrow> nat" where
  "ranges_tree_searchBinary t val = bsearch (\<lambda>h. rval (rtslots t ! h) \<le> val) 0 (rtsize t)"

definition ranges_leaf_searchBinary :: "range_leaf \<Rightarrow> gostr \<Rightarrow> nat" where
  "ranges_leaf_searchBinary l val = bsearch (\<lambda>h. rfrom (rslots l ! h) < val) 0 (rsize l)"

text \<open>\<^verbatim>\<open>ti := tree.searchBinary(val) - 1; leaf := tree.slots[ti].leaf\<close>.\<close>

definition ranges_tree_child :: "range_tree \<Rightarrow> gostr \<Rightarrow> (nat \<times> nat) option" where
  "ranges_tree_child t val =
     (let i = ranges_tree_searchBinary t val in
      if i = 0 then None
      else do { sl \<leftarrow> at (rtslots t) (i - 1); r \<leftarrow> rleaf sl; Some (i - 1, r) })"

definition ranges_find :: "ranges \<Rightarrow> gostr \<Rightarrow> (nat \<times> nat) option" where
  "ranges_find s val = (case rtree s of None \<Rightarrow> Some (0, 0) | Some t \<Rightarrow> ranges_tree_child t val)"

definition ranges_search :: "ranges \<Rightarrow> gostr \<Rightarrow> (nat \<times> range_leaf \<times> nat) option" where
  "ranges_search s val = do {
     (ti, r) \<leftarrow> ranges_find s val;
     leaf \<leftarrow> at (rleaves s) r;
     Some (ti, leaf, ranges_leaf_searchBinary leaf val) }"

definition ranges_Contains :: "ranges option \<Rightarrow> gostr \<Rightarrow> bool option" where
  "ranges_Contains so val =
     (case so of None \<Rightarrow> Some False
      | Some s \<Rightarrow> do {
          (ti, leaf, li) \<leftarrow> ranges_search s val;
          hit \<leftarrow> (if li < rsize leaf then do { sl \<leftarrow> at (rslots leaf) li; Some (rfrom sl = val) } else Some False);
          if hit then Some True
          else if 0 < li then do { ls \<leftarrow> at (rslots leaf) (li - 1); Some (rfrom ls \<le> val \<and> val \<le> rto ls) }
          else Some False })"

section \<open>Slots\<close>

definition slot_overlap :: "range_slot \<Rightarrow> range_slot \<Rightarrow> bool" where
  "slot_overlap a b \<longleftrightarrow> rfrom b \<le> rto a \<and> rfrom a \<le> rto b"

definition slot_contains :: "range_slot \<Rightarrow> gostr \<Rightarrow> gostr \<Rightarrow> bool" where
  "slot_contains a from to \<longleftrightarrow> rfrom a \<le> from \<and> to \<le> rto a"

text \<open>\<^verbatim>\<open>merge\<close>: the first slot grows when the two overlap.\<close>

definition slot_merge :: "range_slot \<Rightarrow> range_slot \<Rightarrow> range_slot option" where
  "slot_merge a b =
     (if slot_overlap a b then Some \<lparr>rfrom = min (rfrom a) (rfrom b), rto = max (rto a) (rto b)\<rparr> else None)"

section \<open>Inserting into a leaf, splitting\<close>

definition ranges_leaf_insert :: "range_leaf \<Rightarrow> gostr \<Rightarrow> gostr \<Rightarrow> (range_leaf \<times> int) option" where
  "ranges_leaf_insert leaf from to =
     (let i = ranges_leaf_searchBinary leaf from in do {
        here \<leftarrow> (if i < rsize leaf then do { sl \<leftarrow> at (rslots leaf) i; Some (slot_contains sl from to) } else Some False);
        prior \<leftarrow> (if \<not> here \<and> 0 < i then do { sl \<leftarrow> at (rslots leaf) (i - 1); Some (slot_contains sl from to) } else Some False);
        if here \<or> prior then Some (leaf, ranges_existing)
        else if nodeSize \<le> rsize leaf then Some (leaf, ranges_overflow)
        else do {
          slots \<leftarrow> at_put (copy_within (Suc i) i (rslots leaf)) i \<lparr>rfrom = from, rto = to\<rparr>;
          Some (leaf\<lparr>rslots := slots, rsize := rsize leaf + 1\<rparr>, int i) } })"

definition ranges_tree_insert :: "range_tree \<Rightarrow> gostr \<Rightarrow> nat \<Rightarrow> range_tree option" where
  "ranges_tree_insert t val r =
     (let i = ranges_tree_searchBinary t val in do {
        slots \<leftarrow> at_put (copy_within (Suc i) i (rtslots t)) i \<lparr>rleaf = Some r, rval = val\<rparr>;
        Some (t\<lparr>rtslots := slots, rtsize := rtsize t + 1\<rparr>) })"

definition ranges_tree1 :: range_tree where
  "ranges_tree1 = \<lparr>rtslots = \<lparr>rleaf = Some 0, rval = []\<rparr> # replicate nodeSize \<lparr>rleaf = None, rval = []\<rparr>, rtsize = 1\<rparr>"

definition ranges_split_left :: "gostr \<Rightarrow> range_slot \<Rightarrow> range_slot \<Rightarrow> nat" where
  "ranges_split_left val first final =
     (if rfrom final < val then (nodeSize * 3) div 4 else if val < rto first then nodeSize div 4 else nodeSize div 2)"

definition ranges_split :: "ranges \<Rightarrow> nat \<Rightarrow> gostr \<Rightarrow> (ranges \<times> bool) option" where
  "ranges_split s r val = do {
     leaf \<leftarrow> at (rleaves s) r;
     let t = (case rtree s of None \<Rightarrow> ranges_tree1 | Some t \<Rightarrow> t);
     if rtree s \<noteq> None \<and> nodeSize \<le> rtsize t then Some (s, False)
     else do {
       final \<leftarrow> at (rslots leaf) (nodeSize - 1);
       first \<leftarrow> at (rslots leaf) 0;
       let left = ranges_split_left val first final;
       let leaf2 = \<lparr>rslots = copy_into (replicate nodeSize range_slot0) (drop left (rslots leaf)), rsize = nodeSize - left\<rparr>;
       sep \<leftarrow> at (rslots leaf2) 0;
       t' \<leftarrow> ranges_tree_insert t (rfrom sep) (length (rleaves s));
       Some (\<lparr>rtree = Some t', rleaves = (rleaves s)[r := leaf\<lparr>rsize := left\<rparr>] @ [leaf2]\<rparr>, True) } }"

section \<open>The iterator\<close>

record range_iter =
  it_leaf :: nat
  it_ti :: int
  it_li :: int

definition iter_tree_leaf :: "range_tree \<Rightarrow> int \<Rightarrow> nat option" where
  "iter_tree_leaf t ti = (if ti < 0 then None else do { sl \<leftarrow> at (rtslots t) (nat ti); rleaf sl })"

text \<open>\<^verbatim>\<open>rs.iter\<close> asserts that the leaf is the one in the slot.\<close>

definition ranges_iter :: "ranges \<Rightarrow> nat \<Rightarrow> nat \<Rightarrow> int \<Rightarrow> range_iter option" where
  "ranges_iter s ti r li =
     (let it = \<lparr>it_leaf = r, it_ti = int ti, it_li = li\<rparr> in
      case rtree s of None \<Rightarrow> Some it
      | Some t \<Rightarrow> if iter_tree_leaf t (int ti) = Some r then Some it else None)"

definition iter_cur :: "ranges \<Rightarrow> range_iter \<Rightarrow> range_slot option" where
  "iter_cur s it = do {
     leaf \<leftarrow> at (rleaves s) (it_leaf it);
     if it_li it < 0 then None else at (rslots leaf) (nat (it_li it)) }"

definition iter_eof :: "ranges \<Rightarrow> range_iter \<Rightarrow> bool option" where
  "iter_eof s it = do {
     leaf \<leftarrow> at (rleaves s) (it_leaf it);
     Some (it_li it < 0 \<or> int (rsize leaf) \<le> it_li it) }"

definition iter_next2 :: "ranges \<Rightarrow> range_iter \<Rightarrow> range_iter option" where
  "iter_next2 s it = do {
     leaf \<leftarrow> at (rleaves s) (it_leaf it);
     case rtree s of
       None \<Rightarrow> Some it
     | Some t \<Rightarrow>
         if it_li it < int (rsize leaf) then Some it
         else if int (rtsize t) \<le> it_ti it + 1 then Some (it\<lparr>it_ti := it_ti it + 1\<rparr>)
         else do {
           r \<leftarrow> iter_tree_leaf t (it_ti it + 1);
           Some \<lparr>it_leaf = r, it_ti = it_ti it + 1, it_li = 0\<rparr> } }"

definition iter_next :: "ranges \<Rightarrow> range_iter \<Rightarrow> range_iter option" where
  "iter_next s it = iter_next2 s (it\<lparr>it_li := it_li it + 1\<rparr>)"

definition iter_prev :: "ranges \<Rightarrow> range_iter \<Rightarrow> range_iter option" where
  "iter_prev s it =
     (let it1 = it\<lparr>it_li := it_li it - 1\<rparr> in
      case rtree s of
        None \<Rightarrow> Some it1
      | Some t \<Rightarrow>
          if 0 \<le> it_li it1 then Some it1
          else if it_ti it1 - 1 < 0 then Some (it1\<lparr>it_ti := it_ti it1 - 1\<rparr>)
          else do {
            r \<leftarrow> iter_tree_leaf t (it_ti it1 - 1);
            leaf \<leftarrow> at (rleaves s) r;
            Some \<lparr>it_leaf = r, it_ti = it_ti it1 - 1, it_li = int (rsize leaf) - 1\<rparr> })"

text \<open>Removing the slot under the iterator. A leaf that becomes empty leaves the tree; the first slot of a leaf
  is its separator.\<close>

definition iter_remove_tree :: "ranges \<Rightarrow> range_tree \<Rightarrow> range_leaf \<Rightarrow> range_iter \<Rightarrow> (ranges \<times> range_iter) option" where
  "iter_remove_tree s t leaf it =
     (if rsize leaf = 0 then
        let t' = t\<lparr>rtslots := copy_within (nat (it_ti it)) (Suc (nat (it_ti it))) (rtslots t), rtsize := rtsize t - 1\<rparr>;
            s' = s\<lparr>rtree := Some t'\<rparr>
        in if it_ti it < 0 \<or> length (rtslots t) \<le> nat (it_ti it) then None
           else if it_ti it < int (rtsize t')
           then do { r \<leftarrow> iter_tree_leaf t' (it_ti it); Some (s', it\<lparr>it_leaf := r, it_li := 0\<rparr>) }
           else Some (s', it)
      else if it_li it = 0 then do {
        sl \<leftarrow> at (rtslots t) (nat (it_ti it));
        first \<leftarrow> at (rslots leaf) 0;
        if rleaf sl = Some (it_leaf it) then do {
          let s' = s\<lparr>rtree := Some (t\<lparr>rtslots := (rtslots t)[nat (it_ti it) := sl\<lparr>rval := rfrom first\<rparr>]\<rparr>)\<rparr>;
          it' \<leftarrow> iter_next2 s' it;
          Some (s', it') }
        else None }
      else do { it' \<leftarrow> iter_next2 s it; Some (s, it') })"

definition iter_remove :: "ranges \<Rightarrow> range_iter \<Rightarrow> (ranges \<times> range_iter) option" where
  "iter_remove s it = do {
     leaf \<leftarrow> at (rleaves s) (it_leaf it);
     let li = nat (it_li it);
     let leaf' = leaf\<lparr>rslots := copy_within li (Suc li) (rslots leaf), rsize := rsize leaf - 1\<rparr>;
     let s' = s\<lparr>rleaves := (rleaves s)[it_leaf it := leaf']\<rparr>;
     if it_li it < 0 \<or> length (rslots leaf) \<le> li \<or> rsize leaf = 0 then None
     else (case rtree s' of
             Some t \<Rightarrow> iter_remove_tree s' t leaf' it
           | None \<Rightarrow> do { it' \<leftarrow> iter_next2 s' it; Some (s', it') }) }"

section \<open>Inserting a range\<close>

text \<open>\<^verbatim>\<open>prev\<close> is a pointer to a slot: a leaf and an index in it.\<close>

definition slot_get :: "ranges \<Rightarrow> nat \<times> nat \<Rightarrow> range_slot option" where
  "slot_get s p = do { leaf \<leftarrow> at (rleaves s) (fst p); at (rslots leaf) (snd p) }"

definition slot_put :: "ranges \<Rightarrow> nat \<times> nat \<Rightarrow> range_slot \<Rightarrow> ranges option" where
  "slot_put s p x = do {
     leaf \<leftarrow> at (rleaves s) (fst p);
     slots \<leftarrow> at_put (rslots leaf) (snd p) x;
     Some (s\<lparr>rleaves := (rleaves s)[fst p := leaf\<lparr>rslots := slots\<rparr>]\<rparr>) }"

partial_function (option) ranges_coalesce :: "ranges \<Rightarrow> nat \<times> nat \<Rightarrow> range_iter \<Rightarrow> int \<Rightarrow> (ranges \<times> int) option" where
  "ranges_coalesce s prev it inc = do {
     eof \<leftarrow> iter_eof s it;
     if eof then Some (s, inc)
     else do {
       nx \<leftarrow> iter_cur s it;
       p \<leftarrow> slot_get s prev;
       case slot_merge p nx of
         None \<Rightarrow> Some (s, inc)
       | Some m \<Rightarrow> do {
           s1 \<leftarrow> slot_put s prev m;
           (s2, it2) \<leftarrow> iter_remove s1 it;
           ranges_coalesce s2 prev it2 (inc - 1) } } }"

declare ranges_coalesce.simps [code]

text \<open>From the slot just inserted, or the one before it when the two overlap.\<close>

definition ranges_merge_from :: "ranges \<Rightarrow> nat \<Rightarrow> nat \<Rightarrow> int \<Rightarrow> gostr \<Rightarrow> (ranges \<times> int) option" where
  "ranges_merge_from s ti r li from = do {
     it0 \<leftarrow> ranges_iter s ti r li;
     it1 \<leftarrow> iter_prev s it0;
     eof \<leftarrow> iter_eof s it1;
     it \<leftarrow> (if eof then Some it0 else do { c \<leftarrow> iter_cur s it1; Some (if rto c < from then it0 else it1) });
     _ \<leftarrow> iter_cur s it;
     it' \<leftarrow> iter_next s it;
     ranges_coalesce s (it_leaf it, nat (it_li it)) it' 1 }"

definition ranges_insert_at :: "ranges \<Rightarrow> nat \<Rightarrow> nat \<Rightarrow> gostr \<Rightarrow> gostr \<Rightarrow> (ranges \<times> int) option" where
  "ranges_insert_at s ti r from to = do {
     leaf \<leftarrow> at (rleaves s) r;
     (leaf', li) \<leftarrow> ranges_leaf_insert leaf from to;
     let s' = s\<lparr>rleaves := (rleaves s)[r := leaf']\<rparr>;
     if li = ranges_existing then Some (s', ranges_Existed)
     else if li = ranges_overflow then Some (s', ranges_Full)
     else ranges_merge_from s' ti r li from }"

definition ranges_Insert :: "ranges \<Rightarrow> gostr \<Rightarrow> gostr \<Rightarrow> (ranges \<times> int) option" where
  "ranges_Insert s from to = do {
     (ti, r) \<leftarrow> ranges_find s from;
     leaf \<leftarrow> at (rleaves s) r;
     if nodeSize \<le> rsize leaf then do {
       (s1, ok) \<leftarrow> ranges_split s r from;
       if \<not> ok then Some (s1, ranges_Full)
       else do {
         (ti1, r1) \<leftarrow> ranges_find s1 from;
         ranges_insert_at s1 ti1 r1 from to } }
     else ranges_insert_at s ti r from to }"

section \<open>The structure\<close>

definition rlive :: "range_leaf \<Rightarrow> range_slot list" where
  "rlive l = take (rsize l) (rslots l)"

definition rleaf_shape :: "range_leaf \<Rightarrow> bool" where
  "rleaf_shape l \<longleftrightarrow> length (rslots l) = nodeSize \<and> rsize l \<le> nodeSize"

definition rtree_ents :: "range_tree \<Rightarrow> (gostr \<times> nat) list" where
  "rtree_ents t = ents rval rleaf (rtslots t) (rtsize t)"

definition rtree_shape :: "range_tree \<Rightarrow> bool" where
  "rtree_shape t \<longleftrightarrow> slots_ok rleaf nodeSize (rtslots t) (rtsize t)"

definition ranges_ents :: "ranges \<Rightarrow> (gostr \<times> nat) list" where
  "ranges_ents s = (case rtree s of None \<Rightarrow> [([], 0)] | Some t \<Rightarrow> rtree_ents t)"

definition ranges_view :: "ranges \<Rightarrow> (gostr \<times> range_leaf) list" where
  "ranges_view s = deref (rleaves s) (ranges_ents s)"

text \<open>The separator of every leaf but the first is the start of its first range. No leaf of a tree is empty.\<close>

definition view_ok :: "(gostr \<times> range_leaf) list \<Rightarrow> bool" where
  "view_ok v \<longleftrightarrow> v \<noteq> [] \<and> fst (hd v) = []
     \<and> (\<forall>e\<in>set v. rleaf_shape (snd e) \<and> (1 < length v \<longrightarrow> rlive (snd e) \<noteq> []))
     \<and> (\<forall>e\<in>set (tl v). fst e = rfrom (hd (rlive (snd e))))"

definition ranges_struct :: "ranges \<Rightarrow> bool" where
  "ranges_struct s \<longleftrightarrow>
     (case rtree s of None \<Rightarrow> True | Some t \<Rightarrow> rtree_shape t)
     \<and> distinct (map snd (ranges_ents s)) \<and> (\<forall>e\<in>set (ranges_ents s). snd e < length (rleaves s))
     \<and> view_ok (ranges_view s)"

text \<open>All ranges in the order of the leaves.\<close>

definition flat :: "(gostr \<times> range_leaf) list \<Rightarrow> range_slot list" where
  "flat v = concat (map (\<lambda>e. rlive (snd e)) v)"

lemma flat_append [simp]: "flat (v @ w) = flat v @ flat w"
  by (simp add: flat_def)

lemma flat_Cons [simp]: "flat ((k, l) # v) = rlive l @ flat v"
  by (simp add: flat_def)

lemma flat_Nil [simp]: "flat [] = []"
  by (simp add: flat_def)

lemma length_rlive: "rleaf_shape l \<Longrightarrow> length (rlive l) = rsize l"
  by (simp add: rleaf_shape_def rlive_def)

lemma view_ok_replace:
  assumes "view_ok (as @ (k, l) # bs)" "rleaf_shape l'" "as \<noteq> [] \<or> bs \<noteq> [] \<Longrightarrow> rlive l' \<noteq> []"
    and "as \<noteq> [] \<Longrightarrow> rfrom (hd (rlive l')) = k"
  shows "view_ok (as @ (k, l') # bs)"
  using assms by (cases as) (auto simp: view_ok_def)

lemma ranges_structD:
  assumes "ranges_struct s" "ranges_ents s = as @ (k, r) # bs"
  shows "r < length (rleaves s)" "rleaf_shape (rleaves s ! r)" "r \<notin> snd ` set as" "r \<notin> snd ` set bs"
    "as \<noteq> [] \<or> bs \<noteq> [] \<Longrightarrow> rlive (rleaves s ! r) \<noteq> []"
    "as \<noteq> [] \<Longrightarrow> k = rfrom (hd (rlive (rleaves s ! r)))" "as = [] \<Longrightarrow> k = []"
    "ranges_view s = deref (rleaves s) as @ (k, rleaves s ! r) # deref (rleaves s) bs"
proof -
  show v: "ranges_view s = deref (rleaves s) as @ (k, rleaves s ! r) # deref (rleaves s) bs"
    by (simp add: ranges_view_def assms(2))
  have ok: "view_ok (deref (rleaves s) as @ (k, rleaves s ! r) # deref (rleaves s) bs)"
    using assms(1) by (simp add: ranges_struct_def v)
  show "r < length (rleaves s)" using assms by (auto simp: ranges_struct_def)
  show "r \<notin> snd ` set as" "r \<notin> snd ` set bs"
    using assms by (auto simp: ranges_struct_def rev_image_eqI)
  show "rleaf_shape (rleaves s ! r)" using ok by (simp add: view_ok_def)
  show "rlive (rleaves s ! r) \<noteq> []" if "as \<noteq> [] \<or> bs \<noteq> []" using ok that by (auto simp: view_ok_def)
  show "k = rfrom (hd (rlive (rleaves s ! r)))" if "as \<noteq> []"
    using ok that by (cases as) (auto simp: view_ok_def)
  show "k = []" if "as = []" using ok that by (simp add: view_ok_def)
qed

text \<open>A leaf replaced through its pointer.\<close>

lemma ranges_put_leaf:
  assumes s: "ranges_struct s" and es: "ranges_ents s = as @ (k, r) # bs"
    and l: "rleaf_shape l" "as \<noteq> [] \<or> bs \<noteq> [] \<Longrightarrow> rlive l \<noteq> []" "as \<noteq> [] \<Longrightarrow> rfrom (hd (rlive l)) = k"
  defines "s' \<equiv> s\<lparr>rleaves := (rleaves s)[r := l]\<rparr>"
  shows "ranges_struct s'" "ranges_ents s' = as @ (k, r) # bs" "rleaves s' ! r = l"
    "deref (rleaves s') as = deref (rleaves s) as" "deref (rleaves s') bs = deref (rleaves s) bs"
proof -
  note d = ranges_structD [OF s es]
  show e: "ranges_ents s' = as @ (k, r) # bs" using es by (simp add: s'_def ranges_ents_def)
  show n: "rleaves s' ! r = l" using d(1) by (simp add: s'_def)
  show d': "deref (rleaves s') as = deref (rleaves s) as" "deref (rleaves s') bs = deref (rleaves s) bs"
    using d(3,4) by (simp_all add: s'_def deref_update_other)
  have v': "ranges_view s' = deref (rleaves s) as @ (k, l) # deref (rleaves s) bs"
    by (simp add: ranges_view_def e n d')
  have "view_ok (ranges_view s')"
    unfolding v'
  proof (rule view_ok_replace)
    show "view_ok (deref (rleaves s) as @ (k, rleaves s ! r) # deref (rleaves s) bs)"
      using s d(8) by (simp add: ranges_struct_def)
  qed (use l in simp_all)
  then show "ranges_struct s'"
    using s es by (simp add: ranges_struct_def e) (simp add: s'_def)
qed

section \<open>The iterator over the structure\<close>

text \<open>The position behind slot \<open>j\<close> of a leaf: in the same leaf, at the start of the next one, or the end.\<close>

definition at_next :: "ranges \<Rightarrow> (gostr \<times> nat) list \<Rightarrow> (gostr \<times> nat) list \<Rightarrow> nat \<Rightarrow> nat \<Rightarrow> range_iter \<Rightarrow> bool" where
  "at_next s as bs r j it \<longleftrightarrow>
     (if Suc j < rsize (rleaves s ! r) then it = \<lparr>it_leaf = r, it_ti = int (length as), it_li = int (Suc j)\<rparr>
      else (case bs of
              [] \<Rightarrow> iter_eof s it = Some True
            | e # cs \<Rightarrow> it = \<lparr>it_leaf = snd e, it_ti = int (Suc (length as)), it_li = 0\<rparr>))"

definition behind :: "ranges \<Rightarrow> (gostr \<times> nat) list \<Rightarrow> nat \<Rightarrow> nat \<Rightarrow> range_slot list" where
  "behind s bs r j = drop (Suc j) (rlive (rleaves s ! r)) @ flat (deref (rleaves s) bs)"

lemma rtree_of_ents:
  assumes "ranges_struct s" "ranges_ents s = as @ e # bs" "rtree s = Some t"
  shows "rtree_shape t" "rtree_ents t = as @ e # bs" "rtsize t = Suc (length as + length bs)"
    "iter_tree_leaf t (int (length as)) = Some (snd e)"
proof -
  show t: "rtree_shape t" "rtree_ents t = as @ e # bs"
    using assms by (auto simp: ranges_struct_def ranges_ents_def)
  then show n: "rtsize t = Suc (length as + length bs)"
    using length_ents [of rleaf nodeSize "rtslots t" "rtsize t" rval] by (simp add: rtree_shape_def rtree_ents_def)
  have "rleaf (rtslots t ! length as) = Some (snd (rtree_ents t ! length as))"
    using ents_leaf [of rleaf nodeSize "rtslots t" "rtsize t" "length as" rval] t(1) n
    by (simp add: rtree_shape_def rtree_ents_def)
  then show "iter_tree_leaf t (int (length as)) = Some (snd e)"
    using t n by (simp add: iter_tree_leaf_def rtree_shape_def slots_ok_def)
qed

lemma ranges_single: "ranges_ents s = as @ e # bs \<Longrightarrow> rtree s = None \<Longrightarrow> as = [] \<and> bs = [] \<and> e = ([], 0)"
  by (simp add: ranges_ents_def Cons_eq_append_conv)

lemma iter_next2_at:
  assumes s: "ranges_struct s" and es: "ranges_ents s = as @ (k, r) # bs" and j: "j < rsize (rleaves s ! r)"
  shows "\<exists>it. iter_next2 s \<lparr>it_leaf = r, it_ti = int (length as), it_li = int (Suc j)\<rparr> = Some it \<and> at_next s as bs r j it"
proof (cases "rtree s")
  case None
  then show ?thesis
    using ranges_single [OF es] ranges_structD(1) [OF s es] by (auto simp: iter_next2_def at_next_def iter_eof_def)
next
  case (Some t)
  note d = ranges_structD [OF s es] and t = rtree_of_ents [OF s es Some]
  show ?thesis
  proof (cases "Suc j < rsize (rleaves s ! r)")
    case True
    then show ?thesis using Some d(1) by (simp add: iter_next2_def at_next_def)
  next
    case False
    then show ?thesis
    proof (cases bs)
      case Nil
      then show ?thesis using Some d(1) t(3) False by (auto simp: iter_next2_def at_next_def iter_eof_def)
    next
      case (Cons e cs)
      have "iter_tree_leaf t (int (length (as @ [(k, r)]))) = Some (snd e)"
        using rtree_of_ents(4) [OF s _ Some, of "as @ [(k, r)]" e cs] es Cons by simp
      then show ?thesis using Some d(1) t(3) False Cons by (simp add: iter_next2_def at_next_def add.commute)
    qed
  qed
qed

lemma at_next_cur:
  assumes s: "ranges_struct s" and es: "ranges_ents s = as @ (k, r) # bs" and j: "j < rsize (rleaves s ! r)"
    and it: "at_next s as bs r j it"
  shows "behind s bs r j = [] \<Longrightarrow> iter_eof s it = Some True"
    and "behind s bs r j = x # xs \<Longrightarrow> iter_eof s it = Some False \<and> iter_cur s it = Some x"
proof -
  note d = ranges_structD [OF s es]
  let ?l = "rleaves s ! r"
  have len: "length (rlive ?l) = rsize ?l" "rsize ?l \<le> length (rslots ?l)"
    using d(2) length_rlive by (auto simp: rleaf_shape_def)
  have next_leaf: "snd e < length (rleaves s) \<and> rlive (rleaves s ! snd e) \<noteq> [] \<and> rleaf_shape (rleaves s ! snd e)"
    if "bs = e # cs" for e cs
    using ranges_structD(1,2,5) [OF s, of "as @ [(k, r)]" "fst e" "snd e" cs] es that by simp
  show "iter_eof s it = Some True" if "behind s bs r j = []"
  proof (cases bs)
    case Nil
    then show ?thesis using it that len by (auto simp: at_next_def behind_def)
  next
    case (Cons e cs)
    then show ?thesis using next_leaf [OF Cons] that by (cases e) (simp add: behind_def)
  qed
  show "iter_eof s it = Some False \<and> iter_cur s it = Some x" if b: "behind s bs r j = x # xs"
  proof (cases "Suc j < rsize ?l")
    case True
    then have "x = rslots ?l ! Suc j" using b len by (simp add: behind_def Cons_nth_drop_Suc [symmetric] rlive_def)
    then show ?thesis using it True d(1) len by (auto simp: at_next_def iter_eof_def iter_cur_def nat_add_distrib)
  next
    case False
    then have dr: "drop (Suc j) (rlive ?l) = []" using len by simp
    then obtain e cs where bs: "bs = e # cs" using b by (cases bs) (auto simp: behind_def)
    let ?m = "rleaves s ! snd e"
    note n = next_leaf [OF bs]
    have size: "0 < rsize ?m" "0 < length (rslots ?m)"
      using n length_rlive by (auto simp: rleaf_shape_def rlive_def)
    then have "rlive ?m ! 0 = rslots ?m ! 0" by (simp add: rlive_def)
    moreover have "x = rlive ?m ! 0" using b bs n dr by (cases e; cases "rlive ?m") (auto simp: behind_def)
    ultimately show ?thesis
      using it False bs n size by (auto simp: at_next_def iter_eof_def iter_cur_def)
  qed
qed

section \<open>Removing behind a slot\<close>

text \<open>What a removal keeps: everything up to slot \<open>j\<close>, and the iterator stays behind that slot.\<close>

definition removed :: "ranges \<Rightarrow> (gostr \<times> nat) list \<Rightarrow> gostr \<Rightarrow> nat \<Rightarrow> nat \<Rightarrow> range_slot list \<Rightarrow> ranges \<Rightarrow> range_iter \<Rightarrow> bool" where
  "removed s as k r j xs s' it' \<longleftrightarrow>
     (\<exists>bs'. ranges_struct s' \<and> ranges_ents s' = as @ (k, r) # bs' \<and> at_next s' as bs' r j it' \<and> behind s' bs' r j = xs)
     \<and> j < rsize (rleaves s' ! r) \<and> take (Suc j) (rlive (rleaves s' ! r)) = take (Suc j) (rlive (rleaves s ! r))
     \<and> deref (rleaves s') as = deref (rleaves s) as"

definition close_slot :: "range_leaf \<Rightarrow> nat \<Rightarrow> range_leaf" where
  "close_slot l i = l\<lparr>rslots := copy_within i (Suc i) (rslots l), rsize := rsize l - 1\<rparr>"

lemma close_slot_ok:
  assumes "rleaf_shape l" "i < rsize l"
  shows "rlive (close_slot l i) = take i (rlive l) @ drop (Suc i) (rlive l)" "rleaf_shape (close_slot l i)"
    "rsize (close_slot l i) = rsize l - 1"
proof -
  have n: "i < rsize l" "rsize l \<le> length (rslots l)" using assms by (auto simp: rleaf_shape_def)
  show "rlive (close_slot l i) = take i (rlive l) @ drop (Suc i) (rlive l)"
    using take_close_gap [OF n] by (simp add: rlive_def close_slot_def)
  show "rleaf_shape (close_slot l i)" "rsize (close_slot l i) = rsize l - 1"
    using assms n by (auto simp: rleaf_shape_def close_slot_def)
qed

lemma iter_remove_same:
  assumes s: "ranges_struct s" and es: "ranges_ents s = as @ (k, r) # bs" and j: "Suc j < rsize (rleaves s ! r)"
    and it: "it = \<lparr>it_leaf = r, it_ti = int (length as), it_li = int (Suc j)\<rparr>" and b: "behind s bs r j = x # xs"
  shows "\<exists>s' it'. iter_remove s it = Some (s', it') \<and> removed s as k r j xs s' it'"
proof -
  note d = ranges_structD [OF s es]
  let ?l = "rleaves s ! r"
  define l' where "l' = close_slot ?l (Suc j)"
  note l' = close_slot_ok [OF d(2) j, folded l'_def]
  define s' where "s' = s\<lparr>rleaves := (rleaves s)[r := l']\<rparr>"
  have len: "length (rlive ?l) = rsize ?l" "rsize ?l \<le> length (rslots ?l)"
    using d(2) length_rlive by (auto simp: rleaf_shape_def)
  have ne: "rlive l' \<noteq> []" and hd: "hd (rlive l') = hd (rlive ?l)"
    unfolding l'(1) using j len by (cases "rlive ?l"; simp)+
  note p = ranges_put_leaf [OF s es l'(2), folded s'_def]
  have struct: "ranges_struct s'" using p(1) ne d(6) hd by simp
  have e': "ranges_ents s' = as @ (k, r) # bs" and n': "rleaves s' ! r = l'"
    and dd: "deref (rleaves s') as = deref (rleaves s) as" "deref (rleaves s') bs = deref (rleaves s) bs"
    using p ne d(6) hd by simp_all
  have jj: "j < rsize (rleaves s' ! r)" using n' l'(3) j by simp
  obtain it' where it': "iter_next2 s' it = Some it'" "at_next s' as bs r j it'"
    using iter_next2_at [OF struct e' jj] it by auto
  have tree: "rtree s' = rtree s" by (simp add: s'_def)
  have "iter_remove s it = Some (s', it')"
  proof (cases "rtree s")
    case None
    then show ?thesis
      using it j d(1) len it'(1) by (auto simp: iter_remove_def Let_def s'_def l'_def close_slot_def nat_add_distrib)
  next
    case (Some t)
    then have "iter_remove s it = iter_remove_tree s' t l' it"
      using it j d(1) len by (auto simp: iter_remove_def Let_def s'_def l'_def close_slot_def nat_add_distrib)
    also have "\<dots> = Some (s', it')"
      using it it'(1) l'(3) j by (simp add: iter_remove_tree_def)
    finally show ?thesis .
  qed
  moreover have "behind s' bs r j = xs"
    using b j len unfolding behind_def n' dd l'(1)
    by (simp add: Cons_nth_drop_Suc [symmetric])
  moreover have "take (Suc j) (rlive l') = take (Suc j) (rlive ?l)"
    unfolding l'(1) using j len by simp
  ultimately show ?thesis using struct e' it'(2) jj n' dd unfolding removed_def by blast
qed

text \<open>In the next leaf the first slot goes; then the separator changes or the leaf leaves the tree.\<close>

text \<open>Removing the first slot of the leaf behind \<open>r\<close>: \<open>m'\<close> is what is left of that leaf, \<open>s1\<close> the set with it, before the tree is changed.\<close>

definition next_removed :: "ranges \<Rightarrow> (gostr \<times> nat) list \<Rightarrow> gostr \<Rightarrow> nat \<Rightarrow> nat \<Rightarrow> gostr \<Rightarrow> nat \<Rightarrow> (gostr \<times> nat) list
    \<Rightarrow> range_iter \<Rightarrow> range_slot list \<Rightarrow> range_tree \<Rightarrow> range_leaf \<Rightarrow> ranges \<Rightarrow> bool" where
  "next_removed s as k r j k2 r2 cs it xs t m' s1 \<longleftrightarrow>
     ranges_struct s \<and> ranges_ents s = as @ (k, r) # (k2, r2) # cs
     \<and> j < rsize (rleaves s ! r) \<and> \<not> Suc j < rsize (rleaves s ! r) \<and> it = \<lparr>it_leaf = r2, it_ti = int (Suc (length as)), it_li = 0\<rparr>
     \<and> slots_ok rleaf nodeSize (rtslots t) (rtsize t) \<and> ents rval rleaf (rtslots t) (rtsize t) = (as @ [(k, r)]) @ (k2, r2) # cs
     \<and> rtsize t = Suc (Suc (length as + length cs)) \<and> rtsize t \<le> nodeSize
     \<and> rleaf_shape m' \<and> s1 = s\<lparr>rleaves := (rleaves s)[r2 := m']\<rparr>
     \<and> r2 < length (rleaves s) \<and> rleaves s1 ! r = rleaves s ! r \<and> rleaves s1 ! r2 = m'
     \<and> deref (rleaves s1) as = deref (rleaves s) as \<and> deref (rleaves s1) cs = deref (rleaves s) cs
     \<and> length (rlive (rleaves s ! r)) = rsize (rleaves s ! r) \<and> xs = rlive m' @ flat (deref (rleaves s) cs)
     \<and> iter_remove s it = iter_remove_tree s1 t m' it
     \<and> view_ok (deref (rleaves s) as @ (k, rleaves s ! r) # (k2, rleaves s ! r2) # deref (rleaves s) cs)"

lemma next_removed_start:
  assumes s: "ranges_struct s" and es: "ranges_ents s = as @ (k, r) # (k2, r2) # cs"
    and j: "j < rsize (rleaves s ! r)" "\<not> Suc j < rsize (rleaves s ! r)"
    and it: "it = \<lparr>it_leaf = r2, it_ti = int (Suc (length as)), it_li = 0\<rparr>"
    and b: "behind s ((k2, r2) # cs) r j = x # xs"
  obtains t m' s1 where "next_removed s as k r j k2 r2 cs it xs t m' s1"
proof -
  let ?as = "as @ [(k, r)]" and ?m = "rleaves s ! r2" and ?L = "rleaves s"
  have es2: "ranges_ents s = ?as @ (k2, r2) # cs" using es by simp
  note d = ranges_structD [OF s es] and d2 = ranges_structD [OF s es2]
  obtain t where t: "rtree s = Some t" using ranges_single [OF es] by (cases "rtree s") auto
  note tr = rtree_of_ents [OF s es2 t]
  have ok: "slots_ok rleaf nodeSize (rtslots t) (rtsize t)" using tr by (simp add: rtree_shape_def)
  have size: "0 < rsize ?m" using d2(2,5) length_rlive by (fastforce simp: rlive_def)
  define m' where "m' = close_slot ?m 0"
  note m' = close_slot_ok [OF d2(2) size, folded m'_def]
  have len: "length (rlive ?m) = rsize ?m" "rsize ?m \<le> length (rslots ?m)" "length (rlive (?L ! r)) = rsize (?L ! r)"
    using d(2) d2(2) length_rlive by (auto simp: rleaf_shape_def)
  define s1 where "s1 = s\<lparr>rleaves := ?L[r2 := m']\<rparr>"
  have r2: "r2 < length ?L" "r \<noteq> r2" "r2 \<notin> snd ` set as" "r2 \<notin> snd ` set cs" using d2(1,3,4) by auto
  have L': "rleaves s1 ! r = ?L ! r" "rleaves s1 ! r2 = m'" "deref (rleaves s1) as = deref ?L as"
    "deref (rleaves s1) cs = deref ?L cs"
    using r2 by (simp_all add: s1_def deref_update_other)
  have "xs = drop 1 (rlive ?m) @ flat (deref ?L cs)"
    using b j len size by (cases "rlive ?m") (auto simp: behind_def)
  moreover have "iter_remove s it = iter_remove_tree s1 t m' it"
    using it r2(1) size len t by (auto simp: iter_remove_def Let_def s1_def m'_def close_slot_def)
  moreover have "view_ok (deref ?L as @ (k, ?L ! r) # (k2, ?m) # deref ?L cs)"
    using s d(8) by (simp add: ranges_struct_def)
  ultimately have "next_removed s as k r j k2 r2 cs it xs t m' s1"
    using s es j it ok tr(2,3) m'(1,2) r2(1) L' len(3) unfolding next_removed_def
    by (simp add: rtree_ents_def s1_def slots_ok_def)
  then show thesis by (rule that)
qed

lemma next_removedD:
  assumes "next_removed s as k r j k2 r2 cs it xs t m' s1"
  shows "ranges_struct s" "ranges_ents s = as @ (k, r) # (k2, r2) # cs" "j < rsize (rleaves s ! r)" "\<not> Suc j < rsize (rleaves s ! r)"
    "it = \<lparr>it_leaf = r2, it_ti = int (Suc (length as)), it_li = 0\<rparr>"
    "slots_ok rleaf nodeSize (rtslots t) (rtsize t)" "ents rval rleaf (rtslots t) (rtsize t) = (as @ [(k, r)]) @ (k2, r2) # cs"
    "rtsize t = Suc (Suc (length as + length cs))" "rtsize t \<le> nodeSize" "rleaf_shape m'"
    "s1 = s\<lparr>rleaves := (rleaves s)[r2 := m']\<rparr>" "r2 < length (rleaves s)" "rleaves s1 ! r = rleaves s ! r" "rleaves s1 ! r2 = m'"
    "deref (rleaves s1) as = deref (rleaves s) as" "deref (rleaves s1) cs = deref (rleaves s) cs"
    "length (rlive (rleaves s ! r)) = rsize (rleaves s ! r)" "xs = rlive m' @ flat (deref (rleaves s) cs)"
    "iter_remove s it = iter_remove_tree s1 t m' it"
    "view_ok (deref (rleaves s) as @ (k, rleaves s ! r) # (k2, rleaves s ! r2) # deref (rleaves s) cs)"
  using assms unfolding next_removed_def by blast+

lemma next_removed_leaf:
  assumes "next_removed s as k r j k2 r2 cs it xs t m' s1"
  shows "rleaf (rtslots t ! Suc (length as)) = Some r2" "Suc (length as) < length (rtslots t)" "length (rlive m') = rsize m'"
    "r2 < length (rleaves s1)"
proof -
  note f = next_removedD [OF assms]
  show "rleaf (rtslots t ! Suc (length as)) = Some r2"
    using ents_leaf [OF f(6), of "Suc (length as)" rval] f(7,8) by (simp add: nth_append)
  show "Suc (length as) < length (rtslots t)" using f(6,8,9) by (simp add: slots_ok_def)
  show "length (rlive m') = rsize m'" by (rule length_rlive [OF f(10)])
  show "r2 < length (rleaves s1)" using f(11,12) by simp
qed

text \<open>The leaf keeps some slots: its separator follows its first slot.\<close>

lemma next_removed_shrinks:
  assumes nr: "next_removed s as k r j k2 r2 cs it xs t m' s1" and more: "0 < rsize m'"
  shows "\<exists>s' it'. iter_remove s it = Some (s', it') \<and> removed s as k r j xs s' it'"
proof -
  note f = next_removedD [OF nr] and tl = next_removed_leaf [OF nr]
  let ?L = "rleaves s" and ?k = "rfrom (rslots m' ! 0)"
  define sl where "sl = (rtslots t ! Suc (length as))\<lparr>rval := ?k\<rparr>"
  define t' where "t' = t\<lparr>rtslots := (rtslots t)[Suc (length as) := sl]\<rparr>"
  define s' where "s' = s1\<lparr>rtree := Some t'\<rparr>"
  have u: "slots_ok rleaf nodeSize (rtslots t') (rtsize t')" "ents rval rleaf (rtslots t') (rtsize t') = as @ (k, r) # (?k, r2) # cs"
    using ents_set_key [OF f(6,7), of sl ?k] tl(1) by (simp_all add: sl_def t'_def)
  have e': "ranges_ents s' = as @ (k, r) # (?k, r2) # cs" using u by (simp add: s'_def ranges_ents_def rtree_ents_def)
  have m0: "rlive m' \<noteq> []" "hd (rlive m') = rslots m' ! 0" "0 < length (rslots m')"
    using more f(10) by (cases "rslots m'"; simp add: rleaf_shape_def rlive_def take_Cons' nodeSize_def)+
  have v': "ranges_view s' = deref ?L as @ (k, ?L ! r) # (?k, m') # deref ?L cs"
    unfolding ranges_view_def e' by (simp add: s'_def f(13-16))
  have "view_ok (ranges_view s')" unfolding v' using f(10,20) m0 by (cases as) (auto simp: view_ok_def)
  then have struct: "ranges_struct s'"
    using f(1,2,11) u unfolding ranges_struct_def e' by (auto simp: s'_def rtree_shape_def)
  have "iter_next2 s' it = Some it" using f(5,14) more tl(4) by (simp add: iter_next2_def s'_def)
  then have "iter_remove s it = Some (s', it)"
    unfolding f(19) using f(5) m0 more tl(1,2)
    by (simp add: iter_remove_tree_def Let_def s'_def [symmetric] t'_def [symmetric] sl_def [symmetric] nat_add_distrib)
  moreover have "at_next s' as ((?k, r2) # cs) r j it" using f(4,5,13) by (simp add: at_next_def s'_def)
  moreover have "behind s' ((?k, r2) # cs) r j = xs" using f(4,13,14,16-18) by (simp add: behind_def s'_def)
  ultimately show ?thesis using struct e' f(3,13,15) unfolding removed_def by (auto simp: s'_def)
qed

text \<open>The leaf is empty: it leaves the tree.\<close>

lemma next_removed_empties:
  assumes nr: "next_removed s as k r j k2 r2 cs it xs t m' s1" and z: "rsize m' = 0"
  shows "\<exists>s' it'. iter_remove s it = Some (s', it') \<and> removed s as k r j xs s' it'"
proof -
  note f = next_removedD [OF nr] and tl = next_removed_leaf [OF nr]
  let ?L = "rleaves s"
  define t' where "t' = t\<lparr>rtslots := copy_within (Suc (length as)) (Suc (Suc (length as))) (rtslots t), rtsize := rtsize t - 1\<rparr>"
  define s' where "s' = s1\<lparr>rtree := Some t'\<rparr>"
  have u: "slots_ok rleaf nodeSize (rtslots t') (rtsize t')" "ents rval rleaf (rtslots t') (rtsize t') = as @ (k, r) # cs"
    using ents_remove [OF f(6,7)] by (simp_all add: t'_def)
  have e': "ranges_ents s' = as @ (k, r) # cs" using u by (simp add: s'_def ranges_ents_def rtree_ents_def)
  have v': "ranges_view s' = deref ?L as @ (k, ?L ! r) # deref ?L cs"
    unfolding ranges_view_def e' by (simp add: s'_def f(13,15,16))
  have "view_ok (ranges_view s')" unfolding v' using f(20) by (cases as) (auto simp: view_ok_def)
  then have struct: "ranges_struct s'" using f(1,2,11) u unfolding ranges_struct_def e' by (auto simp: s'_def rtree_shape_def)
  have "\<exists>it'. iter_remove s it = Some (s', it') \<and> at_next s' as cs r j it'"
  proof (cases cs)
    case Nil
    have "iter_remove s it = Some (s', it)"
      unfolding f(19) using f(5,8) tl(2) z Nil by (simp add: iter_remove_tree_def Let_def s'_def t'_def nat_add_distrib)
    moreover have "iter_eof s' it = Some True" using f(5,14) z tl(4) by (simp add: iter_eof_def s'_def)
    ultimately show ?thesis using f(4,13) Nil by (auto simp: at_next_def s'_def)
  next
    case (Cons e ds)
    have "rtree s' = Some t'" by (simp add: s'_def)
    then have "iter_tree_leaf t' (int (length (as @ [(k, r)]))) = Some (snd e)"
      using rtree_of_ents(4) [OF struct, of "as @ [(k, r)]" e ds t'] e' Cons by simp
    then have "iter_remove s it = Some (s', it\<lparr>it_leaf := snd e, it_li := 0\<rparr>)"
      unfolding f(19) using f(5,8) tl(2) z Cons by (simp add: iter_remove_tree_def Let_def s'_def t'_def nat_add_distrib add.commute)
    moreover have "at_next s' as cs r j (it\<lparr>it_leaf := snd e, it_li := 0\<rparr>)" using f(4,5,13) Cons by (simp add: at_next_def s'_def)
    ultimately show ?thesis by blast
  qed
  moreover have "behind s' cs r j = xs" using f(4,13,16-18) tl(3) z by (simp add: behind_def s'_def)
  ultimately show ?thesis using struct e' f(3,13,15) unfolding removed_def by (auto simp: s'_def)
qed

lemma iter_remove_next:
  assumes "ranges_struct s" "ranges_ents s = as @ (k, r) # (k2, r2) # cs" "j < rsize (rleaves s ! r)" "\<not> Suc j < rsize (rleaves s ! r)"
    and "it = \<lparr>it_leaf = r2, it_ti = int (Suc (length as)), it_li = 0\<rparr>" "behind s ((k2, r2) # cs) r j = x # xs"
  shows "\<exists>s' it'. iter_remove s it = Some (s', it') \<and> removed s as k r j xs s' it'"
  using next_removed_start [OF assms] next_removed_shrinks next_removed_empties by (metis gr0I)

lemma iter_remove_ok:
  assumes s: "ranges_struct s" and es: "ranges_ents s = as @ (k, r) # bs" and j: "j < rsize (rleaves s ! r)"
    and it: "at_next s as bs r j it" and b: "behind s bs r j = x # xs"
  shows "\<exists>s' it'. iter_remove s it = Some (s', it') \<and> removed s as k r j xs s' it'"
proof (cases "Suc j < rsize (rleaves s ! r)")
  case True
  then show ?thesis using iter_remove_same [OF s es True _ b] it by (simp add: at_next_def)
next
  case False
  have "length (rlive (rleaves s ! r)) = rsize (rleaves s ! r)"
    using ranges_structD(2) [OF s es] length_rlive by simp
  then obtain k2 r2 cs where bs: "bs = (k2, r2) # cs"
    using b False by (cases bs) (auto simp: behind_def)
  show ?thesis
    using iter_remove_next [of s as k r k2 r2 cs j it x xs] s es j False it b unfolding bs by (simp add: at_next_def)
qed

section \<open>Merging\<close>

text \<open>What the loop does to the ranges behind a slot, as a function on lists.\<close>

fun absorb :: "range_slot \<Rightarrow> range_slot list \<Rightarrow> range_slot \<times> range_slot list" where
  "absorb p [] = (p, [])"
| "absorb p (x # xs) = (case slot_merge p x of None \<Rightarrow> (p, x # xs) | Some m \<Rightarrow> absorb m xs)"

lemma slot_merge_from: "slot_merge p x = Some m \<Longrightarrow> rfrom p \<le> rfrom x \<Longrightarrow> rfrom m = rfrom p"
  by (auto simp: slot_merge_def min_def split: if_splits)

lemma slot_put_ok:
  assumes s: "ranges_struct s" and es: "ranges_ents s = as @ (k, r) # bs" and j: "j < rsize (rleaves s ! r)"
    and m: "rfrom m = rfrom (rlive (rleaves s ! r) ! j)" and it: "at_next s as bs r j it"
  obtains s1 where "slot_put s (r, j) m = Some s1" "ranges_struct s1" "ranges_ents s1 = as @ (k, r) # bs"
    "rlive (rleaves s1 ! r) = (rlive (rleaves s ! r))[j := m]" "j < rsize (rleaves s1 ! r)"
    "at_next s1 as bs r j it" "behind s1 bs r j = behind s bs r j" "deref (rleaves s1) as = deref (rleaves s) as"
proof -
  note d = ranges_structD [OF s es]
  let ?l = "rleaves s ! r"
  have len: "length (rlive ?l) = rsize ?l" "rsize ?l \<le> length (rslots ?l)"
    using d(2) length_rlive by (auto simp: rleaf_shape_def)
  define l1 where "l1 = ?l\<lparr>rslots := (rslots ?l)[j := m]\<rparr>"
  define s1 where "s1 = s\<lparr>rleaves := (rleaves s)[r := l1]\<rparr>"
  have live: "rlive l1 = (rlive ?l)[j := m]" by (simp add: l1_def rlive_def take_update_swap)
  have shape: "rleaf_shape l1" using d(2) by (simp add: l1_def rleaf_shape_def)
  have ne: "rlive l1 \<noteq> []" using live j len by auto
  have "rfrom (hd (rlive l1)) = rfrom (hd (rlive ?l))"
    unfolding live using m j len by (cases "rlive ?l"; cases j) auto
  then have hd: "as \<noteq> [] \<Longrightarrow> rfrom (hd (rlive l1)) = k" using d(6) by simp
  have p: "ranges_struct s1" "ranges_ents s1 = as @ (k, r) # bs" "rleaves s1 ! r = l1"
    "deref (rleaves s1) as = deref (rleaves s) as" "deref (rleaves s1) bs = deref (rleaves s) bs"
    using ranges_put_leaf [OF s es shape, folded s1_def] ne hd by simp_all
  have "slot_put s (r, j) m = Some s1"
    using d(1) j len by (simp add: slot_put_def s1_def l1_def)
  moreover have "iter_eof s1 it = iter_eof s it"
    using d(1) by (auto simp: iter_eof_def s1_def l1_def at_def nth_list_update)
  then have "at_next s1 as bs r j it" using it p(3) by (simp add: at_next_def l1_def split: list.splits)
  moreover have "behind s1 bs r j = behind s bs r j"
    unfolding behind_def p(3,5) live by simp
  ultimately show ?thesis using that p(1,2,3,4) live j by (simp add: l1_def)
qed

text \<open>One round of the loop: slot \<open>j\<close> takes in the slot behind it.\<close>

lemma ranges_coalesce_step:
  assumes s: "ranges_struct s" "ranges_ents s = as @ (k, r) # bs" "j < rsize (rleaves s ! r)"
    and it: "at_next s as bs r j it" "behind s bs r j = x # xs" and p: "rlive (rleaves s ! r) ! j = p" "rfrom p \<le> rfrom x"
    and m: "slot_merge p x = Some m"
  obtains s2 it2 bs2 where "ranges_coalesce s (r, j) it inc = ranges_coalesce s2 (r, j) it2 (inc - 1)"
    "ranges_struct s2" "ranges_ents s2 = as @ (k, r) # bs2" "j < rsize (rleaves s2 ! r)" "at_next s2 as bs2 r j it2"
    "behind s2 bs2 r j = xs" "rlive (rleaves s2 ! r) ! j = m" "take j (rlive (rleaves s2 ! r)) = take j (rlive (rleaves s ! r))"
    "deref (rleaves s2) as = deref (rleaves s) as"
proof -
  note d = ranges_structD [OF s(1,2)]
  have len: "length (rlive (rleaves s ! r)) = rsize (rleaves s ! r)" using d(2) length_rlive by simp
  have cur: "iter_eof s it = Some False" "iter_cur s it = Some x" using at_next_cur(2) [OF s it] by auto
  have get: "slot_get s (r, j) = Some p"
    using d(1,2) s(3) p(1) by (auto simp: slot_get_def rlive_def rleaf_shape_def at_def)
  have rf: "rfrom m = rfrom p" using slot_merge_from [OF m] p(2) by simp
  obtain s1 where s1: "slot_put s (r, j) m = Some s1" "ranges_struct s1" "ranges_ents s1 = as @ (k, r) # bs"
    "rlive (rleaves s1 ! r) = (rlive (rleaves s ! r))[j := m]" "j < rsize (rleaves s1 ! r)"
    "at_next s1 as bs r j it" "behind s1 bs r j = x # xs" "deref (rleaves s1) as = deref (rleaves s) as"
    using slot_put_ok [OF s _ it(1), of m] rf p(1) it(2) by metis
  obtain s2 it2 where s2: "iter_remove s1 it = Some (s2, it2)" "removed s1 as k r j xs s2 it2"
    using iter_remove_ok [OF s1(2,3,5,6,7)] by blast
  obtain bs2 where b2: "ranges_struct s2" "ranges_ents s2 = as @ (k, r) # bs2" "at_next s2 as bs2 r j it2"
    "behind s2 bs2 r j = xs" "j < rsize (rleaves s2 ! r)"
    "take (Suc j) (rlive (rleaves s2 ! r)) = take (Suc j) (rlive (rleaves s1 ! r))"
    "deref (rleaves s2) as = deref (rleaves s1) as"
    using s2(2) by (auto simp: removed_def)
  have tk: "take (Suc j) (rlive (rleaves s2 ! r)) = take j (rlive (rleaves s ! r)) @ [m]"
    unfolding b2(6) s1(4) using s(3) len by (simp add: take_Suc_conv_app_nth)
  have "j < length (rlive (rleaves s2 ! r))" using b2(5) ranges_structD(2) [OF b2(1,2)] length_rlive by simp
  then have pm: "rlive (rleaves s2 ! r) ! j = m" "take j (rlive (rleaves s2 ! r)) = take j (rlive (rleaves s ! r))"
    using tk by (simp_all add: take_Suc_conv_app_nth)
  have "ranges_coalesce s (r, j) it inc = ranges_coalesce s2 (r, j) it2 (inc - 1)"
    using cur get m s1(1) s2(1) by (subst ranges_coalesce.simps) simp
  then show thesis using that b2(1,2,5,3,4) pm b2(7) s1(8) by simp
qed

lemma absorb_length: "length (snd (absorb m xs)) \<le> length xs"
  by (induction m xs rule: absorb.induct) (auto split: option.splits)

lemma ranges_coalesce_ok:
  assumes "ranges_struct s" "ranges_ents s = as @ (k, r) # bs" "j < rsize (rleaves s ! r)"
    and "at_next s as bs r j it" "behind s bs r j = xs" "rlive (rleaves s ! r) ! j = p" "\<forall>x\<in>set xs. rfrom p \<le> rfrom x"
  shows "\<exists>s' bs'. ranges_coalesce s (r, j) it inc = Some (s', inc - int (length xs - length (snd (absorb p xs))))
    \<and> ranges_struct s' \<and> ranges_ents s' = as @ (k, r) # bs' \<and> j < rsize (rleaves s' ! r)
    \<and> take (Suc j) (rlive (rleaves s' ! r)) = take j (rlive (rleaves s ! r)) @ [fst (absorb p xs)]
    \<and> behind s' bs' r j = snd (absorb p xs) \<and> deref (rleaves s') as = deref (rleaves s) as"
  using assms
proof (induction xs arbitrary: s bs it p inc)
  case Nil
  note d = ranges_structD [OF Nil.prems(1,2)]
  have "iter_eof s it = Some True" using at_next_cur(1) [OF Nil.prems(1-4)] Nil.prems(5) by simp
  moreover have "take (Suc j) (rlive (rleaves s ! r)) = take j (rlive (rleaves s ! r)) @ [p]"
    using Nil.prems(3,6) length_rlive [OF d(2)] by (simp add: take_Suc_conv_app_nth)
  ultimately show ?case
    using Nil.prems by (subst ranges_coalesce.simps) auto
next
  case (Cons x xs)
  note d = ranges_structD [OF Cons.prems(1,2)]
  show ?case
  proof (cases "slot_merge p x")
    case None
    have cur: "iter_eof s it = Some False" "iter_cur s it = Some x" using at_next_cur(2) [OF Cons.prems(1-5)] by auto
    have get: "slot_get s (r, j) = Some p"
      using d(1,2) Cons.prems(3,6) by (auto simp: slot_get_def rlive_def rleaf_shape_def at_def)
    have "take (Suc j) (rlive (rleaves s ! r)) = take j (rlive (rleaves s ! r)) @ [p]"
      using Cons.prems(3,6) length_rlive [OF d(2)] by (simp add: take_Suc_conv_app_nth)
    then show ?thesis using Cons.prems cur get None by (subst ranges_coalesce.simps) auto
  next
    case (Some m)
    have le: "rfrom p \<le> rfrom x" using Cons.prems(7) by simp
    obtain s2 it2 bs2 where s2: "ranges_coalesce s (r, j) it inc = ranges_coalesce s2 (r, j) it2 (inc - 1)"
      "ranges_struct s2" "ranges_ents s2 = as @ (k, r) # bs2" "j < rsize (rleaves s2 ! r)" "at_next s2 as bs2 r j it2"
      "behind s2 bs2 r j = xs" "rlive (rleaves s2 ! r) ! j = m" "take j (rlive (rleaves s2 ! r)) = take j (rlive (rleaves s ! r))"
      "deref (rleaves s2) as = deref (rleaves s) as"
      by (rule ranges_coalesce_step [OF Cons.prems(1-6) le Some])
    have "\<forall>y\<in>set xs. rfrom m \<le> rfrom y" using Cons.prems(7) slot_merge_from [OF Some le] by simp
    from Cons.IH [OF s2(2-7) this, of "inc - 1"] show ?thesis
      using Some s2(1,8,9) absorb_length [of m xs] by (auto simp: Suc_diff_le)
  qed
qed

section \<open>Sorted disjoint ranges\<close>

definition rsorted :: "range_slot list \<Rightarrow> bool" where
  "rsorted xs \<longleftrightarrow> sorted_wrt (\<lambda>a b. rto a < rfrom b) xs \<and> (\<forall>x\<in>set xs. rfrom x \<le> rto x)"

definition covers :: "range_slot list \<Rightarrow> gostr set" where
  "covers xs = {v. \<exists>x\<in>set xs. rfrom x \<le> v \<and> v \<le> rto x}"

definition ranges_wf :: "ranges \<Rightarrow> bool" where
  "ranges_wf s \<longleftrightarrow> ranges_struct s \<and> rsorted (flat (ranges_view s))"

definition ranges_elems :: "ranges \<Rightarrow> gostr set" where
  "ranges_elems s = covers (flat (ranges_view s))"

lemma covers_simps [simp]:
  "covers [] = {}" "covers (x # xs) = {v. rfrom x \<le> v \<and> v \<le> rto x} \<union> covers xs"
  "covers (xs @ ys) = covers xs \<union> covers ys"
  by (auto simp: covers_def)

lemma rsorted_append: "rsorted (xs @ ys) \<longleftrightarrow> rsorted xs \<and> rsorted ys \<and> (\<forall>x\<in>set xs. \<forall>y\<in>set ys. rto x < rfrom y)"
  by (auto simp: rsorted_def sorted_wrt_append)

lemma rsorted_Cons: "rsorted (x # xs) \<longleftrightarrow> rfrom x \<le> rto x \<and> (\<forall>y\<in>set xs. rto x < rfrom y) \<and> rsorted xs"
  by (auto simp: rsorted_def)

lemma rsorted_froms: "rsorted xs \<Longrightarrow> sorted_wrt (\<lambda>a b. rfrom a < rfrom b) xs"
  by (induction xs) (auto simp: rsorted_Cons)

lemma slot_merge_covers:
  assumes "slot_merge p x = Some m" "rfrom p \<le> rto p" "rfrom x \<le> rto x"
  shows "{v. rfrom m \<le> v \<and> v \<le> rto m} = {v. rfrom p \<le> v \<and> v \<le> rto p} \<union> {v. rfrom x \<le> v \<and> v \<le> rto x}"
    "rfrom m \<le> rto m"
proof -
  have m: "rfrom m = min (rfrom p) (rfrom x)" "rto m = max (rto p) (rto x)" "rfrom x \<le> rto p" "rfrom p \<le> rto x"
    using assms(1) by (auto simp: slot_merge_def slot_overlap_def split: if_splits)
  show "{v. rfrom m \<le> v \<and> v \<le> rto m} = {v. rfrom p \<le> v \<and> v \<le> rto p} \<union> {v. rfrom x \<le> v \<and> v \<le> rto x}"
    unfolding m(1,2) using m(3,4) assms(2,3) by (auto simp: min_le_iff_disj le_max_iff_disj)
  show "rfrom m \<le> rto m" unfolding m(1,2) using assms(2) by (simp add: min_le_iff_disj le_max_iff_disj)
qed

lemma absorb_ok:
  assumes "rfrom p \<le> rto p" "rsorted xs" "\<forall>x\<in>set xs. rfrom p \<le> rfrom x" "absorb p xs = (q, ys)"
  shows "rsorted (q # ys) \<and> covers (q # ys) = covers (p # xs) \<and> rfrom q = rfrom p \<and> length ys \<le> length xs"
  using assms
proof (induction p xs rule: absorb.induct)
  case (1 p)
  then show ?case by (auto simp: rsorted_def)
next
  case (2 p x xs)
  have x: "rfrom x \<le> rto x" "rsorted xs" "\<forall>y\<in>set xs. rto x < rfrom y" using 2(3) by (auto simp: rsorted_Cons)
  show ?case
  proof (cases "slot_merge p x")
    case None
    have "\<not> slot_overlap p x" using None by (auto simp: slot_merge_def split: if_splits)
    moreover have "rfrom p \<le> rto x" using 2(4) x(1) by (meson list.set_intros(1) order_trans)
    ultimately have lt: "rto p < rfrom x" by (auto simp: slot_overlap_def)
    have "\<forall>y\<in>set xs. rto p < rfrom y" using lt x by (meson order_less_le_trans order_less_trans)
    then show ?thesis using 2(2,3,5) None lt by (auto simp: rsorted_Cons)
  next
    case (Some m)
    have m: "rfrom m = rfrom p" using slot_merge_from [OF Some] 2(4) by simp
    note c = slot_merge_covers [OF Some 2(2) x(1)]
    show ?thesis
      using 2(1) [OF Some c(2) x(2)] 2(4,5) Some m c(1) by auto
  qed
qed

section \<open>Locating a string\<close>

definition rleaf_in :: "gostr \<Rightarrow> gostr option \<Rightarrow> range_leaf \<Rightarrow> bool" where
  "rleaf_in k hi l \<longleftrightarrow> (\<forall>x\<in>set (rlive l). k \<le> rfrom x \<and> below (rto x) hi)"

lemma seps_chain:
  "(\<forall>e\<in>set w. rlive (snd e) \<noteq> [] \<and> fst e = rfrom (hd (rlive (snd e)))) \<Longrightarrow> rsorted (flat w) \<Longrightarrow> chain rleaf_in w None"
proof (induction w)
  case (Cons e w)
  obtain k l where e: "e = (k, l)" by force
  obtain x xs where l: "rlive l = x # xs" "k = rfrom x" using Cons.prems(1) e by (cases "rlive l") auto
  have low: "\<forall>y\<in>set (rlive l). k \<le> rfrom y"
  proof -
    have "rfrom x \<le> rto x" "\<forall>y\<in>set xs. rto x < rfrom y"
      using Cons.prems(2) l e by (auto simp: rsorted_append rsorted_Cons)
    then show ?thesis using l by fastforce
  qed
  show ?case
  proof (cases w)
    case Nil
    then show ?thesis using e low by (simp add: rleaf_in_def)
  next
    case (Cons e' w')
    obtain k' l' where e': "e' = (k', l')" by force
    have "rlive l' \<noteq> []" "k' = rfrom (hd (rlive l'))" using Cons.prems(1) Cons e' by auto
    then have "\<forall>y\<in>set (rlive l). rto y < k'"
      using Cons.prems(2) e e' Cons by (auto simp: rsorted_append)
    moreover have "k < k'"
      using calculation Cons.prems(2) l e by (auto simp: rsorted_append rsorted_Cons)
    ultimately show ?thesis using Cons.IH Cons.prems Cons e e' low by (simp add: rleaf_in_def rsorted_append)
  qed
qed simp

lemma ranges_chain:
  assumes "ranges_wf s"
  shows "chain rleaf_in (ranges_view s) None"
proof -
  have v: "view_ok (ranges_view s)" "rsorted (flat (ranges_view s))"
    using assms by (auto simp: ranges_wf_def ranges_struct_def)
  obtain l w where w: "ranges_view s = ([], l) # w" using v(1) by (cases "ranges_view s") (auto simp: view_ok_def)
  have ch: "chain rleaf_in w None"
    using v unfolding w by (intro seps_chain) (auto simp: view_ok_def rsorted_append)
  show ?thesis
  proof (cases w)
    case Nil
    then show ?thesis using w by (simp add: rleaf_in_def)
  next
    case (Cons e' w')
    obtain k' l' where e': "e' = (k', l')" by force
    have ne: "rlive l' \<noteq> []" "k' = rfrom (hd (rlive l'))" "rlive l \<noteq> []"
      using v(1) unfolding w Cons e' by (auto simp: view_ok_def)
    then have "\<forall>y\<in>set (rlive l). rto y < k'"
      using v(2) unfolding w Cons e' by (auto simp: rsorted_append)
    moreover from this have "[] < k'" using ne(3) gostr_not_less_Nil by (cases "k'") (auto dest: hd_in_set)
    ultimately show ?thesis using ch unfolding w Cons e' by (simp add: rleaf_in_def)
  qed
qed

lemma ranges_locate:
  assumes "ranges_wf s"
  obtains as k r bs where "ranges_ents s = as @ (k, r) # bs" "ranges_find s val = Some (length as, r)"
    and "k \<le> val" "below val (next_key bs None)"
proof -
  have s: "ranges_struct s" using assms by (simp add: ranges_wf_def)
  have ne: "ranges_ents s \<noteq> []" "fst (hd (ranges_ents s)) = []"
    using s unfolding ranges_struct_def view_ok_def ranges_view_def
    by (auto simp: hd_map deref_def split: prod.splits)
  have sorted: "sorted_wrt (<) (map fst (ranges_ents s))"
    using chain_sorted [OF ranges_chain [OF assms]] by (simp add: ranges_view_def)
  have "fst (hd (ranges_ents s)) \<le> val" "below val None" using ne(2) by simp_all
  then obtain as k r bs where es: "ranges_ents s = as @ (k, r) # bs"
    and n: "length (takeWhile (\<lambda>e. fst e \<le> val) (ranges_ents s)) = Suc (length as)"
    and k: "k \<le> val" "below val (next_key bs None)"
    by (rule chain_locate [OF ne(1)])
  have "ranges_find s val = Some (length as, r)"
  proof (cases "rtree s")
    case None
    then show ?thesis using ranges_single [OF es] by (simp add: ranges_find_def)
  next
    case (Some t)
    note t = rtree_of_ents [OF s es Some]
    have "ranges_tree_searchBinary t val = Suc (length as)"
      using ents_search [of rleaf nodeSize "rtslots t" "rtsize t" rval val] t(1,2) sorted n es
      by (simp add: ranges_tree_searchBinary_def rtree_shape_def rtree_ents_def)
    then show ?thesis
      using Some t(4) by (auto simp: ranges_find_def ranges_tree_child_def iter_tree_leaf_def Let_def bind_eq_Some_conv)
  qed
  then show ?thesis using that es k by blast
qed

text \<open>Ranges of other leaves are below the separator or above the next one.\<close>

lemma ranges_around:
  assumes "ranges_wf s" and es: "ranges_ents s = as @ (k, r) # bs" and val: "k \<le> val" "below val (next_key bs None)"
  shows "\<And>x. x \<in> set (flat (deref (rleaves s) as)) \<Longrightarrow> rto x < val \<and> rto x < k"
    "\<And>x. x \<in> set (flat (deref (rleaves s) bs)) \<Longrightarrow> val < rfrom x"
    "\<And>x. x \<in> set (rlive (rleaves s ! r)) \<Longrightarrow> k \<le> rfrom x"
proof -
  have s: "ranges_struct s" using assms by (simp add: ranges_wf_def)
  note d = ranges_structD [OF s es]
  have ch: "chain rleaf_in (deref (rleaves s) as) (Some k)" "chain rleaf_in (deref (rleaves s) bs) None"
    "rleaf_in k (next_key (deref (rleaves s) bs) None) (rleaves s ! r)"
    using ranges_chain [OF assms(1)] unfolding d(8) by (auto simp: chain_append)
  have sorted: "rsorted (flat (ranges_view s))" using assms(1) by (simp add: ranges_wf_def)
  show "k \<le> rfrom x" if "x \<in> set (rlive (rleaves s ! r))" for x using ch(3) that by (simp add: rleaf_in_def)
  show "rto x < val \<and> rto x < k" if x: "x \<in> set (flat (deref (rleaves s) as))" for x
  proof -
    have "as \<noteq> []" using x by auto
    then have "rlive (rleaves s ! r) \<noteq> []" "k = rfrom (hd (rlive (rleaves s ! r)))" using d(5,6) by auto
    then have "rto x < k" using x sorted unfolding d(8) by (auto simp: rsorted_append)
    then show ?thesis using val(1) by simp
  qed
  show "val < rfrom x" if x: "x \<in> set (flat (deref (rleaves s) bs))" for x
  proof -
    obtain k' r' cs where bs: "bs = (k', r') # cs" using x by (cases bs) auto
    have "k' \<le> k''" if "(k'', l) \<in> set (deref (rleaves s) bs)" for k'' l
    proof -
      have "k'' \<in> set (map fst (deref (rleaves s) bs))" using that by (metis fst_conv image_eqI set_map)
      then show ?thesis using chain_sorted [OF ch(2)] unfolding map_fst_deref bs by auto
    qed
    moreover obtain k'' l where m: "(k'', l) \<in> set (deref (rleaves s) bs)" "x \<in> set (rlive l)"
      using x by (auto simp: flat_def)
    moreover obtain us vs where "deref (rleaves s) bs = us @ (k'', l) # vs" using m(1) by (meson split_list)
    then have "k'' \<le> rfrom x"
      using ch(2) m(2) by (simp add: chain_append rleaf_in_def)
    moreover have "val < k'" using val(2) bs by simp
    ultimately show ?thesis by (meson order_less_le_trans)
  qed
qed

section \<open>Searching a leaf\<close>

lemma ranges_leaf:
  assumes "ranges_wf s" "ranges_ents s = as @ (k, r) # bs"
  shows "rsorted (rlive (rleaves s ! r))"
    "flat (ranges_view s) = flat (deref (rleaves s) as) @ rlive (rleaves s ! r) @ flat (deref (rleaves s) bs)"
proof -
  have s: "ranges_struct s" "rsorted (flat (ranges_view s))" using assms by (simp_all add: ranges_wf_def)
  show f: "flat (ranges_view s) = flat (deref (rleaves s) as) @ rlive (rleaves s ! r) @ flat (deref (rleaves s) bs)"
    using ranges_structD(8) [OF s(1) assms(2)] by simp
  show "rsorted (rlive (rleaves s ! r))" using s(2) unfolding f by (simp add: rsorted_append)
qed

lemma rleaf_search:
  fixes val :: gostr
  assumes "rleaf_shape l" "rsorted (rlive l)"
  defines "i \<equiv> ranges_leaf_searchBinary l val"
  shows "i \<le> rsize l" "\<forall>x\<in>set (take i (rlive l)). rfrom x < val" "\<forall>x\<in>set (drop i (rlive l)). val \<le> rfrom x"
proof -
  have n: "length (rlive l) = rsize l" using assms(1) length_rlive by simp
  note f = rsorted_froms [OF assms(2)]
  have i: "i = length (takeWhile (\<lambda>x. rfrom x < val) (rlive l))"
  proof -
    have "(rfrom (rslots l ! h) < val) = (rfrom (rlive l ! h) < val)" if "h < length (rlive l)" for h
      using that by (simp add: rlive_def)
    then show ?thesis
      using bsearch_less [OF f, of "\<lambda>h. rfrom (rslots l ! h) < val" val]
      by (simp add: i_def ranges_leaf_searchBinary_def n)
  qed
  show "i \<le> rsize l" unfolding i n [symmetric] by (rule length_takeWhile_le)
  show "\<forall>x\<in>set (take i (rlive l)). rfrom x < val"
    unfolding i by (rule sorted_takeWhile_less(1) [OF f])
  show "\<forall>x\<in>set (drop i (rlive l)). val \<le> rfrom x"
    unfolding i by (rule sorted_takeWhile_less(2) [OF f])
qed

lemma rslots_rlive: "i < rsize l \<Longrightarrow> rslots l ! i = rlive l ! i"
  by (simp add: rlive_def)

text \<open>Whether a leaf covers a string is decided by the slot at the position found and the one before it.\<close>

lemma rleaf_covers_slot:
  fixes val :: gostr
  assumes "rleaf_shape l" "rsorted (rlive l)" and j: "j < rsize l" "rfrom (rlive l ! j) \<le> val" "val \<le> rto (rlive l ! j)"
  defines "i \<equiv> ranges_leaf_searchBinary l val"
  shows "if j < i then j = i - 1 else i = j \<and> rfrom (rlive l ! j) = val"
proof -
  note i = rleaf_search [OF assms(1,2), of val, folded i_def]
  have n: "length (rlive l) = rsize l" using assms(1) length_rlive by simp
  have less: "rto (rlive l ! a) < rfrom (rlive l ! b)" if "a < b" "b < rsize l" for a b
    using assms(2) that n by (auto simp: rsorted_def sorted_wrt_iff_nth_less)
  have le: "rfrom (rlive l ! a) \<le> rto (rlive l ! a)" if "a < rsize l" for a
    using assms(2) that n by (simp add: rsorted_def)
  have lt: "rfrom (rlive l ! a) < val" if "a < i" for a
    using i(1,2) n that nth_mem [of a "take i (rlive l)"] by simp
  have ge: "val \<le> rfrom (rlive l ! a)" if "i \<le> a" "a < rsize l" for a
    using i(3) n that nth_mem [of "a - i" "drop i (rlive l)"] by simp
  show ?thesis
  proof (cases "j < i")
    case True
    have "\<not> j < i - 1" using less [of j "i - 1"] lt [of "i - 1"] i(1) j(3) True by fastforce
    then show ?thesis using True by simp
  next
    case False
    then have eq: "rfrom (rlive l ! j) = val" using ge [of j] j by (auto intro: order.antisym)
    have "\<not> i < j" using less [of i j] le [of i] ge [of i] j(1) eq by fastforce
    then show ?thesis using False eq by simp
  qed
qed

lemma rleaf_covers:
  fixes val :: gostr
  assumes "rleaf_shape l" "rsorted (rlive l)"
  defines "i \<equiv> ranges_leaf_searchBinary l val"
  shows "val \<in> covers (rlive l) \<longleftrightarrow>
    (i < rsize l \<and> rfrom (rlive l ! i) = val) \<or> (0 < i \<and> rfrom (rlive l ! (i - 1)) \<le> val \<and> val \<le> rto (rlive l ! (i - 1)))"
proof
  have n: "length (rlive l) = rsize l" using assms(1) length_rlive by simp
  have nth: "x \<in> set (rlive l)" if "x = rlive l ! j" "j < rsize l" for x j using that n by simp
  note i = rleaf_search [OF assms(1,2), of val, folded i_def]
  assume "(i < rsize l \<and> rfrom (rlive l ! i) = val) \<or> (0 < i \<and> rfrom (rlive l ! (i - 1)) \<le> val \<and> val \<le> rto (rlive l ! (i - 1)))"
  then show "val \<in> covers (rlive l)"
    using nth [OF refl, of i] nth [OF refl, of "i - 1"] i(1) assms(2) unfolding covers_def rsorted_def by fastforce
next
  assume "val \<in> covers (rlive l)"
  then obtain j where j: "j < rsize l" "rfrom (rlive l ! j) \<le> val" "val \<le> rto (rlive l ! j)"
    using length_rlive [OF assms(1)] by (auto simp: covers_def in_set_conv_nth)
  from rleaf_covers_slot [OF assms(1,2) j, folded i_def] j
  show "(i < rsize l \<and> rfrom (rlive l ! i) = val) \<or> (0 < i \<and> rfrom (rlive l ! (i - 1)) \<le> val \<and> val \<le> rto (rlive l ! (i - 1)))"
    by (auto split: if_splits)
qed

lemma ranges_Contains_ok:
  assumes s: "ranges_wf s"
  shows "ranges_Contains (Some s) val = Some (val \<in> ranges_elems s)"
proof -
  obtain as k r bs where es: "ranges_ents s = as @ (k, r) # bs" and f: "ranges_find s val = Some (length as, r)"
    and k: "k \<le> val" "below val (next_key bs None)"
    by (rule ranges_locate [OF s, of val])
  have struct: "ranges_struct s" using s by (simp add: ranges_wf_def)
  note d = ranges_structD [OF struct es] and lf = ranges_leaf [OF s es] and ar = ranges_around [OF s es k]
  let ?l = "rleaves s ! r" and ?i = "ranges_leaf_searchBinary (rleaves s ! r) val"
  have i: "?i \<le> rsize ?l" using rleaf_search(1) [OF d(2) lf(1)] .
  have n: "rsize ?l \<le> length (rslots ?l)" using d(2) by (simp add: rleaf_shape_def)
  have "val \<in> ranges_elems s \<longleftrightarrow> val \<in> covers (rlive ?l)"
    unfolding ranges_elems_def lf(2) using ar(1,2) by (fastforce simp: covers_def)
  also note rleaf_covers [OF d(2) lf(1), of val]
  finally have mem: "val \<in> ranges_elems s \<longleftrightarrow> (?i < rsize ?l \<and> rfrom (rslots ?l ! ?i) = val)
    \<or> (0 < ?i \<and> rfrom (rslots ?l ! (?i - 1)) \<le> val \<and> val \<le> rto (rslots ?l ! (?i - 1)))"
    using i rslots_rlive [of ?i ?l] rslots_rlive [of "?i - 1" ?l] by (cases "0 < ?i") auto
  have a: "?i < rsize ?l \<Longrightarrow> at (rslots ?l) ?i = Some (rslots ?l ! ?i)"
    "0 < ?i \<Longrightarrow> at (rslots ?l) (?i - 1) = Some (rslots ?l ! (?i - 1))" using i n by simp_all
  show ?thesis unfolding mem using f d(1) a
    by (auto simp: ranges_Contains_def ranges_search_def)
qed

section \<open>Insertion\<close>

lemma ranges_leaf_insert_ok:
  fixes frm :: gostr
  assumes l: "rleaf_shape l" "rsorted (rlive l)" and room: "rsize l < nodeSize"
  defines "i \<equiv> ranges_leaf_searchBinary l frm"
  obtains
    (old) x where "ranges_leaf_insert l frm to = Some (l, ranges_existing)" "x \<in> set (rlive l)" "rfrom x \<le> frm" "to \<le> rto x"
  | (new) l' where "ranges_leaf_insert l frm to = Some (l', int i)" "rleaf_shape l'" "i < rsize l'"
      "rlive l' = take i (rlive l) @ \<lparr>rfrom = frm, rto = to\<rparr> # drop i (rlive l)"
proof -
  note i = rleaf_search [OF l, of frm, folded i_def]
  have n: "length (rlive l) = rsize l" "length (rslots l) = nodeSize" using l length_rlive by (auto simp: rleaf_shape_def)
  define here where "here \<longleftrightarrow> i < rsize l \<and> slot_contains (rslots l ! i) frm to"
  define prior where "prior \<longleftrightarrow> \<not> here \<and> 0 < i \<and> slot_contains (rslots l ! (i - 1)) frm to"
  have il: "i < length (rslots l)" "i - 1 < length (rslots l)" using i(1) room n by auto
  have put: "at_put (copy_within (Suc i) i (rslots l)) i x = Some ((copy_within (Suc i) i (rslots l))[i := x])" for x
    using il by simp
  have at: "at (rslots l) i = Some (rslots l ! i)" using il by simp
  have ins: "ranges_leaf_insert l frm to =
     (if here \<or> prior then Some (l, ranges_existing)
      else Some (l\<lparr>rslots := (copy_within (Suc i) i (rslots l))[i := \<lparr>rfrom = frm, rto = to\<rparr>], rsize := rsize l + 1\<rparr>, int i))"
    using il(2) room put at unfolding ranges_leaf_insert_def here_def prior_def i_def [symmetric]
    by (cases "i = 0") (simp_all add: Let_def)
  show ?thesis
  proof (cases "here \<or> prior")
    case True
    then obtain j where j: "j < rsize l" "slot_contains (rslots l ! j) frm to"
      using i(1) unfolding here_def prior_def by (metis Suc_pred' diff_less less_numeral_extra(1) not_less_eq order_less_le_trans)
    have "rslots l ! j \<in> set (rlive l)" using j(1) n rslots_rlive [of j l] by simp
    then show ?thesis using old ins True j(2) by (auto simp: slot_contains_def)
  next
    case False
    define l' where "l' = l\<lparr>rslots := (copy_within (Suc i) i (rslots l))[i := \<lparr>rfrom = frm, rto = to\<rparr>], rsize := rsize l + 1\<rparr>"
    have "rlive l' = take i (rlive l) @ \<lparr>rfrom = frm, rto = to\<rparr> # drop i (rlive l)"
      using take_open_gap [of i "rsize l" "rslots l"] i(1) room n by (simp add: l'_def rlive_def)
    moreover have "rleaf_shape l'" using il room n by (simp add: l'_def rleaf_shape_def)
    moreover have "ranges_leaf_insert l frm to = Some (l', int i)" using ins False by (simp add: l'_def)
    moreover have "i < rsize l'" using i(1) by (simp add: l'_def)
    ultimately show ?thesis using new by blast
  qed
qed

text \<open>Where merging starts: at the slot before when it reaches the new range, which then is in the same leaf.\<close>

text \<open>The slot before slot \<open>i\<close>: in the same leaf, the last one of the leaf before, or none.\<close>

lemma iter_prev_start:
  assumes s: "ranges_struct s" and es: "ranges_ents s = as' @ e # (k, r) # bs"
  shows "\<exists>it1. iter_prev s \<lparr>it_leaf = r, it_ti = int (Suc (length as')), it_li = 0\<rparr> = Some it1 \<and> iter_eof s it1 = Some False
    \<and> iter_cur s it1 = Some (last (flat (deref (rleaves s) (as' @ [e]))))"
proof -
  have es': "ranges_ents s = as' @ (fst e, snd e) # (k, r) # bs" using es by simp
  obtain t where t: "rtree s = Some t" using ranges_single [OF es] by (cases "rtree s") auto
  note d' = ranges_structD [OF s es']
  let ?m = "rleaves s ! snd e"
  have m: "length (rlive ?m) = rsize ?m" "rsize ?m \<le> length (rslots ?m)" "rlive ?m \<noteq> []"
    using d'(2,5) length_rlive by (auto simp: rleaf_shape_def)
  then have pos: "0 < rsize ?m" by (metis length_greater_0_conv)
  have "iter_tree_leaf t (int (length as')) = Some (snd e)" using rtree_of_ents(4) [OF s es' t] by simp
  then have "iter_prev s \<lparr>it_leaf = r, it_ti = int (Suc (length as')), it_li = 0\<rparr>
      = Some \<lparr>it_leaf = snd e, it_ti = int (length as'), it_li = int (rsize ?m) - 1\<rparr>"
    using t d'(1) by (simp add: iter_prev_def Let_def)
  moreover have "nat (int (rsize ?m) - 1) = rsize ?m - 1" by simp
  moreover have "last (flat (deref (rleaves s) (as' @ [e]))) = last (rlive ?m)" using m(3) by (cases e) simp
  then have "rslots ?m ! (rsize ?m - 1) = last (flat (deref (rleaves s) (as' @ [e])))"
    using m pos rslots_rlive [of "rsize ?m - 1" ?m] last_conv_nth [OF m(3)] by simp
  ultimately show ?thesis using m pos d'(1) by (simp add: iter_eof_def iter_cur_def)
qed

lemma iter_merge_start:
  fixes "from" :: gostr
  assumes s: "ranges_struct s" and es: "ranges_ents s = as @ (k, r) # bs" and i: "i < rsize (rleaves s ! r)"
    and before: "i = 0 \<Longrightarrow> as \<noteq> [] \<Longrightarrow> rto (last (flat (deref (rleaves s) as))) < from"
  defines "j \<equiv> (if 0 < i \<and> \<not> rto (rlive (rleaves s ! r) ! (i - 1)) < from then i - 1 else i)"
    and "it0 \<equiv> \<lparr>it_leaf = r, it_ti = int (length as), it_li = int i\<rparr>"
  shows "(do { it1 \<leftarrow> iter_prev s it0; eof \<leftarrow> iter_eof s it1;
      if eof then Some it0 else do { c \<leftarrow> iter_cur s it1; Some (if rto c < from then it0 else it1) } })
    = Some \<lparr>it_leaf = r, it_ti = int (length as), it_li = int j\<rparr>"
proof -
  note d = ranges_structD [OF s es]
  have n: "rsize (rleaves s ! r) \<le> length (rslots (rleaves s ! r))" using d(2) by (simp add: rleaf_shape_def)
  consider (inner) h where "i = Suc h" | (first) "i = 0" "as = []" | (left) as' e where "i = 0" "as = as' @ [e]"
    by (cases i; cases as rule: rev_cases) auto
  then show ?thesis
  proof cases
    case inner
    have "iter_prev s it0 = Some \<lparr>it_leaf = r, it_ti = int (length as), it_li = int h\<rparr>"
      using inner by (auto simp: iter_prev_def it0_def Let_def split: option.splits)
    then show ?thesis
      using inner i n d(1) rslots_rlive [of h "rleaves s ! r"] by (auto simp: iter_eof_def iter_cur_def j_def it0_def)
  next
    case first
    have "\<exists>it1. iter_prev s it0 = Some it1 \<and> it_leaf it1 = r \<and> it_li it1 = - 1"
      using first by (auto simp: iter_prev_def it0_def Let_def split: option.splits)
    then show ?thesis using d(1) first(1) by (auto simp: iter_eof_def j_def it0_def)
  next
    case left
    have es': "ranges_ents s = as' @ e # (k, r) # bs" using es left(2) by simp
    have it0: "it0 = \<lparr>it_leaf = r, it_ti = int (Suc (length as')), it_li = 0\<rparr>" by (simp add: it0_def left)
    show ?thesis using iter_prev_start [OF s es'] before left unfolding it0 by (auto simp: j_def)
  qed
qed

lemma ranges_merge_from_start:
  fixes "from" :: gostr
  assumes s: "ranges_struct s" and es: "ranges_ents s = as @ (k, r) # bs" and i: "i < rsize (rleaves s ! r)"
    and before: "i = 0 \<Longrightarrow> as \<noteq> [] \<Longrightarrow> rto (last (flat (deref (rleaves s) as))) < from"
  defines "j \<equiv> (if 0 < i \<and> \<not> rto (rlive (rleaves s ! r) ! (i - 1)) < from then i - 1 else i)"
  shows "\<exists>it. ranges_merge_from s (length as) r (int i) from = ranges_coalesce s (r, j) it 1 \<and> at_next s as bs r j it"
proof -
  note d = ranges_structD [OF s es]
  have mk: "ranges_iter s (length as) r (int i) = Some \<lparr>it_leaf = r, it_ti = int (length as), it_li = int i\<rparr>"
    using rtree_of_ents(4) [OF s es] by (auto simp: ranges_iter_def Let_def split: option.splits)
  have j: "j < rsize (rleaves s ! r)" using i by (auto simp: j_def)
  obtain it where it: "iter_next2 s \<lparr>it_leaf = r, it_ti = int (length as), it_li = int (Suc j)\<rparr> = Some it" "at_next s as bs r j it"
    using iter_next2_at [OF s es j] by blast
  have "iter_cur s \<lparr>it_leaf = r, it_ti = int (length as), it_li = int j\<rparr> \<noteq> None"
    using d(1,2) j by (simp add: iter_cur_def rleaf_shape_def)
  then have "ranges_merge_from s (length as) r (int i) from = ranges_coalesce s (r, j) it 1"
    using iter_merge_start [OF s es i before, folded j_def] it(1) unfolding ranges_merge_from_def mk
    by (auto simp: bind_eq_Some_conv iter_next_def add.commute)
  then show ?thesis using it(2) by blast
qed

text \<open>Merging around a new range in a sorted list: with the ranges behind it, and with the one before it
  when that one reaches it.\<close>

lemma merge_core:
  assumes "rsorted xs" "rfrom p \<le> rto p" "rsorted ys" "\<forall>x\<in>set xs. rto x < rfrom p" "\<forall>y\<in>set ys. rfrom p \<le> rfrom y"
    and a: "absorb p ys = (q, zs)"
  shows "rsorted (xs @ q # zs)" "covers (xs @ q # zs) = covers xs \<union> covers (p # ys)" "length zs \<le> length ys"
proof -
  have o: "rsorted (q # zs)" "covers (q # zs) = covers (p # ys)" "rfrom q = rfrom p" "length zs \<le> length ys"
    using absorb_ok [OF assms(2,3,5) a] by blast+
  have q: "rfrom q \<le> rto q" "\<forall>z\<in>set zs. rto q < rfrom z" using o(1) by (auto simp: rsorted_Cons)
  have "rto x < rfrom z" if "x \<in> set xs" "z \<in> set (q # zs)" for x z
  proof -
    have "rto x < rfrom q" using assms(4) that(1) o(3) by simp
    moreover have "rfrom q \<le> rfrom z" using that(2) q by (metis less_imp_le order.refl order_trans set_ConsD)
    ultimately show ?thesis by simp
  qed
  then show "rsorted (xs @ q # zs)" using o(1) assms(1) by (simp only: rsorted_append) simp
  show "covers (xs @ q # zs) = covers xs \<union> covers (p # ys)" using o(2) by (simp only: covers_simps(3))
  show "length zs \<le> length ys" by (rule o(4))
qed

lemma merge_new:
  assumes "rsorted (xs @ ys)" "q = \<lparr>rfrom = from, rto = to\<rparr>" "from \<le> to"
    and "\<forall>x\<in>set xs. rto x < from" "\<forall>y\<in>set ys. from \<le> rfrom y" and a: "absorb q ys = (m, zs)"
  shows "rsorted (xs @ m # zs)" "covers (xs @ m # zs) = covers (xs @ ys) \<union> {v. from \<le> v \<and> v \<le> to}" "length zs \<le> length ys"
  using merge_core [OF _ _ _ _ _ a, of xs] assms by (auto simp: rsorted_append)

lemma merge_prior:
  assumes "rsorted (xs @ p # ys)" "q = \<lparr>rfrom = from, rto = to\<rparr>" "from \<le> to"
    and "rfrom p < from" "\<not> rto p < from" and a: "absorb p (q # ys) = (m, zs)"
  shows "rsorted (xs @ m # zs)" "covers (xs @ m # zs) = covers (xs @ p # ys) \<union> {v. from \<le> v \<and> v \<le> to}" "length zs \<le> length ys"
proof -
  have p: "rfrom p \<le> rto p" "rsorted xs" "rsorted ys" "\<forall>x\<in>set xs. rto x < rfrom p" "\<forall>y\<in>set ys. rto p < rfrom y"
    using assms(1) by (auto simp: rsorted_append rsorted_Cons)
  have "slot_overlap p q" using assms by (auto simp: slot_overlap_def)
  then obtain n where n: "slot_merge p q = Some n" by (simp add: slot_merge_def)
  have nf: "rfrom n = rfrom p" using slot_merge_from [OF n] assms(2,4) by simp
  have c: "{v. rfrom n \<le> v \<and> v \<le> rto n} = {v. rfrom p \<le> v \<and> v \<le> rto p} \<union> {v. from \<le> v \<and> v \<le> to}" "rfrom n \<le> rto n"
    using slot_merge_covers [OF n p(1)] assms(2,3) by simp_all
  have le: "\<forall>y\<in>set ys. rfrom n \<le> rfrom y" using nf p(1,5) by force
  have ab: "absorb n ys = (m, zs)" using a n by simp
  have lt: "\<forall>x\<in>set xs. rto x < rfrom n" using nf p(4) by simp
  note r = merge_core [OF p(2) c(2) p(3) lt le ab]
  show "rsorted (xs @ m # zs)" "length zs \<le> length ys" by (rule r)+
  have "covers xs \<union> covers (n # ys) = covers (xs @ p # ys) \<union> {v. from \<le> v \<and> v \<le> to}"
    unfolding covers_simps c(1) by blast
  then show "covers (xs @ m # zs) = covers (xs @ p # ys) \<union> {v. from \<le> v \<and> v \<le> to}"
    using r(2) by (rule trans [rotated])
qed

lemma flat_at:
  assumes "ranges_struct s" "ranges_ents s = as @ (k, r) # bs" "j < rsize (rleaves s ! r)"
  shows "flat (ranges_view s) = flat (deref (rleaves s) as) @ take (Suc j) (rlive (rleaves s ! r)) @ behind s bs r j"
  using ranges_structD(8) [OF assms(1,2)] by (simp add: behind_def)

text \<open>The loop, started at slot \<open>j\<close>, leaves what is in front of it and the merged ranges.\<close>

lemma coalesce_flat:
  assumes "ranges_struct s" "ranges_ents s = as @ (k, r) # bs" "j < rsize (rleaves s ! r)" "at_next s as bs r j it"
    and "rlive (rleaves s ! r) ! j = p" "behind s bs r j = xs" "\<forall>x\<in>set xs. rfrom p \<le> rfrom x" "absorb p xs = (m, zs)"
  shows "\<exists>s'. ranges_coalesce s (r, j) it 1 = Some (s', 1 - int (length xs - length zs)) \<and> ranges_struct s'
    \<and> flat (ranges_view s') = (flat (deref (rleaves s) as) @ take j (rlive (rleaves s ! r))) @ m # zs"
proof -
  obtain s' bs' where s': "ranges_coalesce s (r, j) it 1 = Some (s', 1 - int (length xs - length zs))"
    "ranges_struct s'" "ranges_ents s' = as @ (k, r) # bs'" "j < rsize (rleaves s' ! r)"
    "take (Suc j) (rlive (rleaves s' ! r)) = take j (rlive (rleaves s ! r)) @ [m]"
    "behind s' bs' r j = zs" "deref (rleaves s') as = deref (rleaves s) as"
    using ranges_coalesce_ok [OF assms(1-4,6,5,7), of 1] assms(8) by auto
  then show ?thesis using flat_at [OF s'(2,3,4)] by auto
qed

text \<open>A new range that was put into its leaf at position \<open>i\<close>, between \<open>xs\<close> and \<open>ys\<close>.\<close>

lemma rsorted_take_rto:
  fixes val :: gostr
  assumes "rsorted xs" "i \<le> length xs" "\<forall>x\<in>set (take i xs). rfrom x < val" "0 < i \<Longrightarrow> rto (xs ! (i - 1)) < val"
  shows "\<forall>x\<in>set (take i xs). rto x < val"
proof
  fix x assume x: "x \<in> set (take i xs)"
  then obtain h where h: "h < i" "x = xs ! h" using assms(2) by (auto simp: in_set_conv_nth)
  show "rto x < val"
  proof (cases "h = i - 1")
    case False
    then have "rto (xs ! h) < rfrom (xs ! (i - 1))"
      using assms(1,2) h by (intro sorted_wrt_nth_less [of "\<lambda>a b. rto a < rfrom b" xs]) (auto simp: rsorted_def)
    moreover have "xs ! (i - 1) \<in> set (take i xs)" using h assms(2) nth_mem [of "i - 1" "take i xs"] by simp
    ultimately show ?thesis using assms(3) h(2) by fastforce
  qed (use assms(4) h in simp)
qed

lemma ranges_merge_from_ok:
  assumes s: "ranges_struct s" and es: "ranges_ents s = as @ (k, r) # bs" and i: "i < rsize (rleaves s ! r)"
    and l: "rlive (rleaves s ! r) = take i xs @ q # drop i xs" "i \<le> length xs" "q = \<lparr>rfrom = from, rto = to\<rparr>" "from \<le> to"
    and ys: "ys = drop i xs @ flat (deref (rleaves s) bs)"
    and sorted: "rsorted (flat (deref (rleaves s) as) @ xs @ flat (deref (rleaves s) bs))"
    and low: "\<forall>x\<in>set (flat (deref (rleaves s) as)). rto x < from" "\<forall>x\<in>set (take i xs). rfrom x < from"
    and high: "\<forall>y\<in>set ys. from \<le> rfrom y"
    and before: "i = 0 \<Longrightarrow> as \<noteq> [] \<Longrightarrow> rto (last (flat (deref (rleaves s) as))) < from"
  shows "\<exists>s' n. ranges_merge_from s (length as) r (int i) from = Some (s', n) \<and> ranges_wf s'
    \<and> ranges_elems s' = covers (flat (deref (rleaves s) as) @ take i xs @ ys) \<union> {v. from \<le> v \<and> v \<le> to}
    \<and> n = int (length (flat (ranges_view s'))) - int (length (flat (deref (rleaves s) as) @ take i xs @ ys)) \<and> n \<le> 1"
proof -
  let ?L = "rleaves s" and ?f = "flat (deref (rleaves s) as)"
  have q: "rlive (?L ! r) ! i = q" "take i (rlive (?L ! r)) = take i xs" "behind s bs r i = ys"
    using l(1,2) by (simp_all add: nth_append behind_def ys)
  have whole: "rsorted ((?f @ take i xs) @ ys)" using sorted by (simp add: ys) (metis append.assoc append_take_drop_id)
  show ?thesis
  proof (cases "0 < i \<and> \<not> rto (rlive (?L ! r) ! (i - 1)) < from")
    case False
    then obtain it where it: "ranges_merge_from s (length as) r (int i) from = ranges_coalesce s (r, i) it 1" "at_next s as bs r i it"
      using ranges_merge_from_start [OF s es i before] by auto
    obtain m zs where a: "absorb q ys = (m, zs)" by force
    obtain s' where s': "ranges_coalesce s (r, i) it 1 = Some (s', 1 - int (length ys - length zs))" "ranges_struct s'"
      "flat (ranges_view s') = (?f @ take i xs) @ m # zs"
      using coalesce_flat [OF s es i it(2) q(1,3) _ a] high l(3) q(2) by auto
    have "rsorted xs" using sorted by (simp add: rsorted_append)
    moreover have "rto (xs ! (i - 1)) < from" if "0 < i" using False that l(1,2) by (simp add: nth_append)
    ultimately have "\<forall>x\<in>set (?f @ take i xs). rto x < from"
      using rsorted_take_rto [OF _ l(2) low(2)] low(1) by auto
    note mm = merge_new [OF whole l(3,4) this high a]
    show ?thesis
      using it(1) s' mm by (auto simp: ranges_wf_def ranges_elems_def of_nat_diff)
  next
    case True
    then obtain it where it: "ranges_merge_from s (length as) r (int i) from = ranges_coalesce s (r, i - 1) it 1" "at_next s as bs r (i - 1) it"
      using ranges_merge_from_start [OF s es i before] by auto
    let ?p = "xs ! (i - 1)"
    obtain m zs where a: "absorb ?p (q # ys) = (m, zs)" by force
    have i1: "i - 1 < rsize (?L ! r)" "Suc (i - 1) = i" using i True by auto
    have tk: "take i xs = take (i - 1) xs @ [?p]" using True l(2) by (metis i1(2) Suc_le_lessD take_Suc_conv_app_nth)
    have p: "rlive (?L ! r) ! (i - 1) = ?p" "take (i - 1) (rlive (?L ! r)) = take (i - 1) xs"
      using l(1,2) True by (simp_all add: nth_append)
    have bh: "behind s bs r (i - 1) = q # ys" using l(1,2) i1(2) by (simp add: behind_def ys)
    have pf: "rfrom ?p < from" using low(2) unfolding tk by simp
    have "\<forall>x\<in>set (q # ys). rfrom ?p \<le> rfrom x" using pf high l(3) by auto
    then obtain s' where s': "ranges_coalesce s (r, i - 1) it 1 = Some (s', 1 - int (length (q # ys) - length zs))" "ranges_struct s'"
      "flat (ranges_view s') = (?f @ take (i - 1) xs) @ m # zs"
      using coalesce_flat [OF s es i1(1) it(2) p(1) bh _ a] p(2) by auto
    have whole': "rsorted ((?f @ take (i - 1) xs) @ ?p # ys)" using whole unfolding tk by simp
    have rp: "\<not> rto ?p < from" using True p(1) by simp
    note mm = merge_prior [OF whole' l(3,4) pf rp a]
    show ?thesis
      using it(1) s' mm tk by (auto simp: ranges_wf_def ranges_elems_def of_nat_diff)
  qed
qed

lemma insert_hd:
  fixes val :: gostr
  assumes "xs \<noteq> []" "k = rfrom (hd xs)" "k \<le> val" "\<forall>x\<in>set (drop i xs). val \<le> rfrom x"
  shows "rfrom (hd (take i xs @ \<lparr>rfrom = val, rto = to\<rparr> # drop i xs)) = k"
  using assms by (cases xs; cases i) auto

lemma flat_before:
  assumes s: "ranges_struct s" and es: "ranges_ents s = as @ (k, r) # bs" and "as \<noteq> []"
  shows "flat (deref (rleaves s) as) \<noteq> []"
proof -
  obtain as' e where as: "as = as' @ [e]" using assms(3) by (cases as rule: rev_cases) auto
  have "rlive (rleaves s ! snd e) \<noteq> []"
    using ranges_structD(5) [OF s, of as' "fst e" "snd e" "(k, r) # bs"] es as by simp
  then show ?thesis using as by (cases e) simp
qed

lemma ranges_insert_at_ok:
  assumes s: "ranges_wf s" and es: "ranges_ents s = as @ (k, r) # bs" and k: "k \<le> from" "below from (next_key bs None)"
    and le: "from \<le> to" and room: "rsize (rleaves s ! r) < nodeSize"
  shows "\<exists>s' n. ranges_insert_at s (length as) r from to = Some (s', n) \<and> ranges_wf s'
    \<and> ranges_elems s' = ranges_elems s \<union> {v. from \<le> v \<and> v \<le> to}
    \<and> n = int (length (flat (ranges_view s'))) - int (length (flat (ranges_view s))) \<and> n \<le> 1"
proof -
  have struct: "ranges_struct s" and sorted: "rsorted (flat (ranges_view s))" using s by (simp_all add: ranges_wf_def)
  note d = ranges_structD [OF struct es] and lf = ranges_leaf [OF s es] and ar = ranges_around [OF s es k]
  let ?L = "rleaves s" and ?l = "rleaves s ! r" and ?i = "ranges_leaf_searchBinary (rleaves s ! r) from"
  note i = rleaf_search [OF d(2) lf(1), of "from"]
  have len: "length (rlive ?l) = rsize ?l" using d(2) length_rlive by simp
  show ?thesis
    using d(2) lf(1) room
  proof (cases rule: ranges_leaf_insert_ok [where frm = "from" and to = to])
    case (old x)
    have "s\<lparr>rleaves := ?L[r := ?l]\<rparr> = s" by simp
    then have "ranges_insert_at s (length as) r from to = Some (s, 0)"
      using old(1) d(1) by (simp add: ranges_insert_at_def Let_def ranges_existing_def ranges_Existed_def)
    moreover have "{v. from \<le> v \<and> v \<le> to} \<subseteq> ranges_elems s"
      unfolding ranges_elems_def lf(2) using old(2-4) by (auto simp: covers_def intro: order_trans)
    ultimately show ?thesis using s by auto
  next
    case (new l')
    define s1 where "s1 = s\<lparr>rleaves := ?L[r := l']\<rparr>"
    have ne: "rlive l' \<noteq> []" using new(4) by simp
    have hd: "rfrom (hd (rlive l')) = k" if "as \<noteq> []"
      unfolding new(4) using insert_hd [of "rlive ?l" k "from" ?i to] d(5,6) that k(1) i(3) by simp
    have p: "ranges_struct s1" "ranges_ents s1 = as @ (k, r) # bs" "rleaves s1 ! r = l'"
      "deref (rleaves s1) as = deref ?L as" "deref (rleaves s1) bs = deref ?L bs"
      using ranges_put_leaf [OF struct es new(2), folded s1_def] ne hd by simp_all
    have ins: "ranges_insert_at s (length as) r from to = ranges_merge_from s1 (length as) r (int ?i) from"
      using new(1) d(1) by (simp add: ranges_insert_at_def Let_def ranges_existing_def ranges_overflow_def s1_def)
    have last: "rto (last (flat (deref (rleaves s1) as))) < from" if "as \<noteq> []"
      unfolding p(4) using ar(1) last_in_set [OF flat_before [OF struct es that]] by simp
    have high: "\<forall>y\<in>set (drop ?i (rlive ?l) @ flat (deref (rleaves s1) bs)). from \<le> rfrom y"
      unfolding p(5) set_append using i(3) less_imp_le [OF ar(2)] by blast
    have low: "\<forall>x\<in>set (flat (deref (rleaves s1) as)). rto x < from" unfolding p(4) using ar(1) by blast
    have whole: "rsorted (flat (deref (rleaves s1) as) @ rlive ?l @ flat (deref (rleaves s1) bs))"
      using sorted unfolding lf(2) p(4,5) .
    have eq: "flat (deref (rleaves s1) as) @ take ?i (rlive ?l) @ drop ?i (rlive ?l) @ flat (deref (rleaves s1) bs) = flat (ranges_view s)"
      unfolding p(4,5) lf(2) by (metis append.assoc append_take_drop_id)
    have pos: "?i < rsize (rleaves s1 ! r)" "?i \<le> length (rlive ?l)" using new(3) i(1) len by (simp_all add: p(3))
    have live: "rlive (rleaves s1 ! r) = take ?i (rlive ?l) @ \<lparr>rfrom = from, rto = to\<rparr> # drop ?i (rlive ?l)"
      using new(4) by (simp add: p(3))
    show ?thesis
      using ranges_merge_from_ok [OF p(1,2) pos(1) live pos(2) refl le refl whole low i(2) high last]
      unfolding eq ins ranges_elems_def by blast
  qed
qed

section \<open>Splitting a leaf\<close>

lemma ranges_split_left_values: "ranges_split_left val a b \<in> {32, 64, 96}"
  by (simp add: ranges_split_left_def nodeSize_def)

lemma rsplit_leaf:
  assumes l: "rleaf_shape l" and full: "rsize l = nodeSize" and left: "left \<in> {32, 64, 96 :: nat}"
    and l2: "l2 = \<lparr>rslots = copy_into (replicate nodeSize range_slot0) (drop left (rslots l)), rsize = nodeSize - left\<rparr>"
  shows "rleaf_shape (l\<lparr>rsize := left\<rparr>)" "rleaf_shape l2" "rlive l = rlive (l\<lparr>rsize := left\<rparr>) @ rlive l2"
    "rlive (l\<lparr>rsize := left\<rparr>) \<noteq> []" "rlive l2 \<noteq> []" "hd (rlive l2) = rslots l2 ! 0" "hd (rlive (l\<lparr>rsize := left\<rparr>)) = hd (rlive l)"
proof -
  have len: "length (rslots l) = 128" "left < 128" "0 < left" using l left by (auto simp: rleaf_shape_def nodeSize_def)
  have live: "rlive l = rslots l" using full l by (simp add: rlive_def rleaf_shape_def)
  have live1: "rlive (l\<lparr>rsize := left\<rparr>) = take left (rslots l)" by (simp add: rlive_def)
  have slots2: "rslots l2 = drop left (rslots l) @ replicate left range_slot0"
    using len by (simp add: l2 copy_into_def nodeSize_def)
  have size2: "rsize l2 = 128 - left" by (simp add: l2 nodeSize_def)
  have live2: "rlive l2 = drop left (rslots l)" using len slots2 size2 by (simp add: rlive_def)
  show "rleaf_shape (l\<lparr>rsize := left\<rparr>)" using len by (simp add: rleaf_shape_def nodeSize_def)
  show "rleaf_shape l2" using len slots2 size2 by (simp add: rleaf_shape_def nodeSize_def)
  show "rlive l = rlive (l\<lparr>rsize := left\<rparr>) @ rlive l2" unfolding live live1 live2 by simp
  show "rlive (l\<lparr>rsize := left\<rparr>) \<noteq> []" unfolding live1 using len by auto
  show ne: "rlive l2 \<noteq> []" unfolding live2 using len by simp
  show "hd (rlive l2) = rslots l2 ! 0" unfolding live2 slots2 using len by (simp add: hd_drop_conv_nth nth_append)
  show "hd (rlive (l\<lparr>rsize := left\<rparr>)) = hd (rlive l)" unfolding live1 live using len by simp
qed

lemma rtree_insert:
  assumes "rtree_shape t" "rtree_ents t = as @ (k, r) # bs" "sorted_wrt (<) (map fst (rtree_ents t))"
    and "k \<le> sep" "below sep (next_key bs None)" "rtsize t < nodeSize"
  shows "\<exists>t'. ranges_tree_insert t sep r2 = Some t' \<and> rtree_shape t' \<and> rtree_ents t' = as @ (k, r) # (sep, r2) # bs"
  using ents_insert [OF assms [unfolded rtree_shape_def rtree_ents_def], of "\<lparr>rleaf = Some r2, rval = sep\<rparr>" r2]
  by (simp add: ranges_tree_insert_def ranges_tree_searchBinary_def rtree_shape_def rtree_ents_def Let_def)

text \<open>The tree that a split inserts into.\<close>

lemma ranges_split_tree:
  assumes "ranges_struct s"
  defines "t \<equiv> case rtree s of None \<Rightarrow> ranges_tree1 | Some t \<Rightarrow> t"
  shows "rtree_shape t" "rtree_ents t = ranges_ents s" "rtsize t \<le> nodeSize"
    "\<not> (rtree s \<noteq> None \<and> nodeSize \<le> rtsize t) \<Longrightarrow> rtsize t < nodeSize"
proof -
  have t1: "rtree_shape ranges_tree1" "rtree_ents ranges_tree1 = [([], 0)]" "rtsize ranges_tree1 = 1"
    by (simp_all add: rtree_shape_def rtree_ents_def ents_def slots_ok_def ranges_tree1_def nodeSize_def)
  show t: "rtree_shape t" "rtree_ents t = ranges_ents s"
    using assms t1 by (auto simp: ranges_struct_def ranges_ents_def split: option.splits)
  show n: "rtsize t \<le> nodeSize" using t(1) by (simp add: rtree_shape_def slots_ok_def)
  show "rtsize t < nodeSize" if "\<not> (rtree s \<noteq> None \<and> nodeSize \<le> rtsize t)"
    using that n t1(3) by (cases "rtree s") (auto simp: t_def nodeSize_def)
qed

text \<open>The set after a split: the leaf at \<open>r\<close> has become \<open>l1\<close>, and \<open>l2\<close> follows it.\<close>

lemma ranges_split_struct:
  assumes struct: "ranges_struct s" and es: "ranges_ents s = as @ (k, r) # bs"
    and l: "rleaf_shape l1" "rleaf_shape l2" "rlive l1 \<noteq> []" "rlive l2 \<noteq> []" "hd (rlive l1) = hd (rlive (rleaves s ! r))"
      "rlive l1 @ rlive l2 = rlive (rleaves s ! r)" "sep = rfrom (hd (rlive l2))"
    and t': "rtree_shape t'" "rtree_ents t' = as @ (k, r) # (sep, length (rleaves s)) # bs"
  defines "s' \<equiv> \<lparr>rtree = Some t', rleaves = (rleaves s)[r := l1] @ [l2]\<rparr>"
  shows "ranges_struct s'" "flat (ranges_view s') = flat (ranges_view s)"
proof -
  note d = ranges_structD [OF struct es]
  let ?L = "rleaves s" and ?n = "length (rleaves s)"
  have ents: "ranges_ents s' = as @ (k, r) # (sep, ?n) # bs" by (simp add: s'_def ranges_ents_def t'(2))
  have small: "\<forall>e\<in>set as. snd e < ?n" "\<forall>e\<in>set bs. snd e < ?n"
    using struct unfolding ranges_struct_def es by auto
  have dd: "deref (rleaves s') as = deref ?L as" "deref (rleaves s') bs = deref ?L bs"
    using small d(3,4) by (simp_all add: s'_def deref_more deref_update_other)
  have v': "ranges_view s' = deref ?L as @ (k, l1) # (sep, l2) # deref ?L bs"
    unfolding ranges_view_def ents by (simp add: dd) (simp add: s'_def nth_append d(1))
  have "view_ok (deref ?L as @ (k, ?L ! r) # deref ?L bs)" using struct d(8) by (simp add: ranges_struct_def)
  then have "view_ok (ranges_view s')"
    unfolding v' using l d(5,6,7) by (cases as) (auto simp: view_ok_def)
  moreover have "?n \<notin> snd ` set as" "?n \<notin> snd ` set bs" using small by force+
  then have "distinct (map snd (ranges_ents s'))" using struct d(1) unfolding ranges_struct_def ents es by auto
  moreover have "\<forall>e\<in>set (ranges_ents s'). snd e < length (rleaves s')"
    using small d(1) unfolding ents by (auto simp: s'_def less_Suc_eq)
  ultimately show "ranges_struct s'" using t'(1) by (simp add: ranges_struct_def s'_def)
  show "flat (ranges_view s') = flat (ranges_view s)" unfolding v' d(8) using l(6) by simp
qed

lemma ranges_split_ok:
  assumes s: "ranges_wf s" and es: "ranges_ents s = as @ (k, r) # bs" and full: "rsize (rleaves s ! r) = nodeSize"
  shows "(\<exists>t. rtree s = Some t \<and> rtsize t = nodeSize \<and> ranges_split s r val = Some (s, False))
    \<or> (\<exists>s' sep. ranges_split s r val = Some (s', True) \<and> ranges_wf s' \<and> flat (ranges_view s') = flat (ranges_view s)
          \<and> ranges_ents s' = as @ (k, r) # (sep, length (rleaves s)) # bs
          \<and> rsize (rleaves s' ! r) < nodeSize \<and> rsize (rleaves s' ! length (rleaves s)) < nodeSize)"
proof -
  have struct: "ranges_struct s" and sorted: "rsorted (flat (ranges_view s))" using s by (simp_all add: ranges_wf_def)
  note d = ranges_structD [OF struct es] and lf = ranges_leaf [OF s es]
  let ?L = "rleaves s" and ?l = "rleaves s ! r" and ?n = "length (rleaves s)"
  define t where "t = (case rtree s of None \<Rightarrow> ranges_tree1 | Some t \<Rightarrow> t)"
  note t = ranges_split_tree [OF struct, folded t_def]
  show ?thesis
  proof (cases "rtree s \<noteq> None \<and> nodeSize \<le> rtsize t")
    case True
    then show ?thesis using t(3) d(1) by (auto simp: ranges_split_def t_def Let_def)
  next
    case False
    define left where "left = ranges_split_left val (rslots ?l ! 0) (rslots ?l ! (nodeSize - 1))"
    define l1 where "l1 = ?l\<lparr>rsize := left\<rparr>"
    define l2 where "l2 = \<lparr>rslots = copy_into (replicate nodeSize range_slot0) (drop left (rslots ?l)), rsize = nodeSize - left\<rparr>"
    define sep where "sep = rfrom (rslots l2 ! 0)"
    have left: "left \<in> {32, 64, 96}" unfolding left_def by (rule ranges_split_left_values)
    note sl = rsplit_leaf [OF d(2) full left l2_def, folded l1_def]
    have mem: "rslots l2 ! 0 \<in> set (rlive ?l)" using sl(3,5,6) by (metis UnI2 hd_in_set set_append)
    have ch: "rleaf_in k (next_key (deref ?L bs) None) ?l" "sorted_wrt (<) (map fst (ranges_ents s))"
      using ranges_chain [OF s] chain_sorted [OF ranges_chain [OF s]] unfolding d(8) by (auto simp: chain_append es)
    have nk: "next_key (deref ?L bs) None = next_key bs None" by (cases bs) auto
    have "rfrom (rslots l2 ! 0) \<le> rto (rslots l2 ! 0)" using lf(1) mem by (auto simp: rsorted_def)
    then have sep: "k \<le> sep" "below sep (next_key bs None)"
      using ch(1) mem nk by (auto simp: rleaf_in_def sep_def intro: below_trans)
    obtain t' where t': "ranges_tree_insert t sep ?n = Some t'" "rtree_shape t'" "rtree_ents t' = as @ (k, r) # (sep, ?n) # bs"
      using rtree_insert [OF t(1), of as k r bs sep ?n] t(2) t(4) [OF False] ch(2) sep es by auto
    define s' where "s' = \<lparr>rtree = Some t', rleaves = ?L[r := l1] @ [l2]\<rparr>"
    have "length (rslots ?l) = nodeSize" "length (rslots l2) = nodeSize" using d(2) sl(2) by (simp_all add: rleaf_shape_def)
    then have split: "ranges_split s r val = Some (s', True)"
      using False d(1) t'(1) unfolding ranges_split_def t_def [symmetric]
      by (auto simp: s'_def l1_def sep_def l2_def left_def Let_def nodeSize_def)
    have "rlive l1 \<noteq> []" "hd (rlive l1) = hd (rlive ?l)" "rlive l1 @ rlive l2 = rlive ?l" "rlive l2 \<noteq> []" "sep = rfrom (hd (rlive l2))"
      using sl(3-7) by (auto simp: sep_def)
    note w = ranges_split_struct [OF struct es sl(1,2) this(1,4,2,3,5) t'(2,3), folded s'_def]
    moreover have "rsize (rleaves s' ! r) < nodeSize" "rsize (rleaves s' ! ?n) < nodeSize"
      using left d(1) by (auto simp: s'_def nth_append l1_def l2_def nodeSize_def)
    moreover have "ranges_ents s' = as @ (k, r) # (sep, ?n) # bs" by (simp add: s'_def ranges_ents_def t'(3))
    ultimately show ?thesis using split sorted by (auto simp: ranges_wf_def)
  qed
qed

section \<open>The contract\<close>

lemma ranges_Insert_spec:
  assumes s: "ranges_wf s" and le: "from \<le> to"
  obtains
    (added) s' n where "ranges_Insert s from to = Some (s', n)" "ranges_wf s'"
      "ranges_elems s' = ranges_elems s \<union> {v. from \<le> v \<and> v \<le> to}"
      "n = int (length (flat (ranges_view s'))) - int (length (flat (ranges_view s)))" "n \<le> 1"
  | (full) t where "ranges_Insert s from to = Some (s, ranges_Full)" "rtree s = Some t" "rtsize t = nodeSize"
proof -
  obtain as k r bs where es: "ranges_ents s = as @ (k, r) # bs" and f: "ranges_find s from = Some (length as, r)"
    and k: "k \<le> from" "below from (next_key bs None)"
    by (rule ranges_locate [OF s, of "from"])
  have struct: "ranges_struct s" using s by (simp add: ranges_wf_def)
  note d = ranges_structD [OF struct es]
  have size: "rsize (rleaves s ! r) \<le> nodeSize" using d(2) by (simp add: rleaf_shape_def)
  show ?thesis
  proof (cases "rsize (rleaves s ! r) < nodeSize")
    case True
    have "ranges_Insert s from to = ranges_insert_at s (length as) r from to"
      using f d(1) True by (simp add: ranges_Insert_def)
    then show ?thesis using ranges_insert_at_ok [OF s es k le True] added by auto
  next
    case False
    then have fl: "rsize (rleaves s ! r) = nodeSize" using size by simp
    show ?thesis
      using ranges_split_ok [OF s es fl, of "from"]
    proof (elim disjE exE conjE)
      fix t assume "rtree s = Some t" "rtsize t = nodeSize" "ranges_split s r from = Some (s, False)"
      then show ?thesis using full [of t] f d(1) fl by (simp add: ranges_Insert_def)
    next
      fix s1 sep
      assume sp: "ranges_split s r from = Some (s1, True)" and s1: "ranges_wf s1" "flat (ranges_view s1) = flat (ranges_view s)"
        and es1: "ranges_ents s1 = as @ (k, r) # (sep, length (rleaves s)) # bs"
        and small: "rsize (rleaves s1 ! r) < nodeSize" "rsize (rleaves s1 ! length (rleaves s)) < nodeSize"
      obtain xs k' r' ys where es1': "ranges_ents s1 = xs @ (k', r') # ys" and f1: "ranges_find s1 from = Some (length xs, r')"
        and k': "k' \<le> from" "below from (next_key ys None)"
        by (rule ranges_locate [OF s1(1), of "from"])
      have sorted1: "sorted_wrt (<) (map fst (ranges_ents s1))"
        using chain_sorted [OF ranges_chain [OF s1(1)]] by (simp add: ranges_view_def)
      have "r' = r \<or> r' = length (rleaves s)" using locate_halves [OF sorted1 es1 es1' k k'] .
      then have room: "rsize (rleaves s1 ! r') < nodeSize" using small by auto
      have "ranges_Insert s from to = ranges_insert_at s1 (length xs) r' from to"
        using f d(1) fl sp f1 by (simp add: ranges_Insert_def)
      then show ?thesis
        using ranges_insert_at_ok [OF s1(1) es1' k' le room] added s1(2) by (auto simp: ranges_elems_def)
    qed
  qed
qed

text \<open>What a user of the ranges relies on.\<close>

locale range_set =
  fixes zero :: 's
    and ins :: "'s \<Rightarrow> gostr \<Rightarrow> gostr \<Rightarrow> ('s \<times> int) option"
    and contains :: "'s option \<Rightarrow> gostr \<Rightarrow> bool option"
    and elems :: "'s \<Rightarrow> gostr set"
    and wf :: "'s \<Rightarrow> bool"
    and full :: int
  assumes wf_zero: "wf zero"
    and elems_zero: "elems zero = {}"
    and ins_total: "wf s \<Longrightarrow> a \<le> b \<Longrightarrow> \<exists>s' n. ins s a b = Some (s', n)"
    and ins_wf: "wf s \<Longrightarrow> a \<le> b \<Longrightarrow> ins s a b = Some (s', n) \<Longrightarrow> wf s'"
    and ins_elems: "wf s \<Longrightarrow> a \<le> b \<Longrightarrow> ins s a b = Some (s', n) \<Longrightarrow> n < full \<Longrightarrow>
      elems s' = elems s \<union> {v. a \<le> v \<and> v \<le> b}"
    and ins_full: "wf s \<Longrightarrow> a \<le> b \<Longrightarrow> ins s a b = Some (s', n) \<Longrightarrow> full \<le> n \<Longrightarrow> s' = s"
    and contains_nil: "contains None v = Some False"
    and contains_elems: "wf s \<Longrightarrow> contains (Some s) v = Some (v \<in> elems s)"
begin

lemma ins_mono: "wf s \<Longrightarrow> a \<le> b \<Longrightarrow> ins s a b = Some (s', n) \<Longrightarrow> elems s \<subseteq> elems s'"
  using ins_elems [of s a b s' n] ins_full [of s a b s' n] by (cases "n < full") auto

end

lemma ranges_zero_wf: "ranges_wf ranges_zero" "ranges_elems ranges_zero = {}" "flat (ranges_view ranges_zero) = []"
  by (simp_all add: ranges_wf_def ranges_zero_def ranges_struct_def ranges_ents_def ranges_view_def view_ok_def
      rleaf_shape_def rsorted_def ranges_elems_def rlive_def)

interpretation rg: range_set ranges_zero ranges_Insert ranges_Contains ranges_elems ranges_wf ranges_Full
proof
  show "ranges_wf ranges_zero" "ranges_elems ranges_zero = {}" by (fact ranges_zero_wf)+
  show "ranges_Contains None v = Some False" for v by (simp add: ranges_Contains_def)
next
  fix s v assume s: "ranges_wf s"
  show "ranges_Contains (Some s) v = Some (v \<in> ranges_elems s)" by (rule ranges_Contains_ok [OF s])
next
  fix s s' and a b :: gostr and n assume s: "ranges_wf s" "a \<le> b"
  show "\<exists>s' n. ranges_Insert s a b = Some (s', n)"
    by (rule ranges_Insert_spec [OF s]) auto
  assume i: "ranges_Insert s a b = Some (s', n)"
  show "ranges_wf s'" using i s by (rule_tac ranges_Insert_spec [OF s]) auto
  show "ranges_elems s' = ranges_elems s \<union> {v. a \<le> v \<and> v \<le> b}" if "n < ranges_Full"
    using i that by (rule_tac ranges_Insert_spec [OF s]) auto
  show "s' = s" if "ranges_Full \<le> n"
    using i that by (rule_tac ranges_Insert_spec [OF s]) (auto simp: ranges_Full_def)
qed

section \<open>The ranges as a whole\<close>

text \<open>Ranges inserted one after the other: the set, the ranges that it did not refuse, and the sum of the results of the
  insertions of these. \<open>None\<close> is a panic only.\<close>

fun ranges_insert_all :: "ranges \<Rightarrow> (gostr \<times> gostr) list \<Rightarrow> (ranges \<times> (gostr \<times> gostr) list \<times> int) option" where
  "ranges_insert_all s [] = Some (s, [], 0)"
| "ranges_insert_all s ((a, b) # rs) = do {
     (s1, n) \<leftarrow> ranges_Insert s a b;
     (s2, acc, m) \<leftarrow> ranges_insert_all s1 rs;
     Some (if n = ranges_Full then (s2, acc, m) else (s2, (a, b) # acc, n + m)) }"

text \<open>A set with the full number of leaves has at least that many ranges.\<close>

lemma ranges_full_many:
  assumes "ranges_wf s" "rtree s = Some t" "rtsize t = nodeSize"
  shows "128 \<le> length (flat (ranges_view s))"
proof -
  let ?v = "ranges_view s"
  have st: "ranges_struct s" using assms(1) by (simp add: ranges_wf_def)
  then have len: "length ?v = 128"
    using assms(2,3) length_ents [of rleaf nodeSize "rtslots t" "rtsize t" rval]
    by (simp add: ranges_struct_def ranges_view_def ranges_ents_def rtree_shape_def rtree_ents_def nodeSize_def)
  then have "\<forall>e\<in>set ?v. 1 \<le> length (rlive (snd e))"
    using st by (auto simp: ranges_struct_def view_ok_def Suc_le_eq)
  from sum_list_lower [OF this] len show ?thesis by (simp add: flat_def length_concat comp_def)
qed

lemma ranges_insert_all_ok:
  assumes "ranges_wf s" "\<forall>(a, b)\<in>set rs. a \<le> b"
  shows "\<exists>s' acc n. ranges_insert_all s rs = Some (s', acc, n) \<and> ranges_wf s' \<and> subseq acc rs
    \<and> ranges_elems s' = ranges_elems s \<union> {v. \<exists>(a, b)\<in>set acc. a \<le> v \<and> v \<le> b}
    \<and> n = int (length (flat (ranges_view s'))) - int (length (flat (ranges_view s)))
    \<and> (length (flat (ranges_view s)) + length rs \<le> 128 \<longrightarrow> acc = rs)"
  using assms
proof (induction rs arbitrary: s)
  case (Cons ab rs)
  obtain a b where ab: "ab = (a, b)" by force
  have le: "a \<le> b" and les: "\<forall>(a, b)\<in>set rs. a \<le> b" using Cons.prems(2) ab by simp_all
  show ?case
    using Cons.prems(1) le
  proof (cases rule: ranges_Insert_spec)
    case (added s1 n1)
    then have n1: "n1 \<noteq> ranges_Full" by (simp add: ranges_Full_def)
    obtain s' acc n where r: "ranges_insert_all s1 rs = Some (s', acc, n)" "ranges_wf s'" "subseq acc rs"
      "ranges_elems s' = ranges_elems s1 \<union> {v. \<exists>(a, b)\<in>set acc. a \<le> v \<and> v \<le> b}"
      "n = int (length (flat (ranges_view s'))) - int (length (flat (ranges_view s1)))"
      "length (flat (ranges_view s1)) + length rs \<le> 128 \<longrightarrow> acc = rs"
      using Cons.IH [OF added(2) les] by (elim exE conjE) (rule that)
    have "ranges_insert_all s (ab # rs) = Some (s', ab # acc, n1 + n)" using added(1) n1 r(1) ab by simp
    moreover have "ranges_elems s' = ranges_elems s \<union> {v. \<exists>(a, b)\<in>set (ab # acc). a \<le> v \<and> v \<le> b}"
      unfolding r(4) added(3) ab by auto
    moreover have "length (flat (ranges_view s1)) \<le> Suc (length (flat (ranges_view s)))" using added(4,5) by simp
    ultimately show ?thesis using r(2,3,5,6) added(4) by (intro exI conjI) (assumption | simp)+
  next
    case (full t)
    have "\<not> length (flat (ranges_view s)) + length (ab # rs) \<le> 128"
      using ranges_full_many [OF Cons.prems(1) full(2,3)] by simp
    then show ?thesis using Cons.IH [OF Cons.prems(1) les] full(1) ab by auto
  qed
qed simp

text \<open>C19: the set of ranges, from its zero value through any insertions, never panics, and contains exactly the strings of
  the union of the ranges that it did not refuse; what it stores are disjoint ranges in rising order, and the sum of the
  results of the accepted insertions is their number. The first 128 ranges are never refused.\<close>

theorem ranges_is_union:
  assumes "\<forall>(a, b)\<in>set rs. a \<le> b"
  shows "\<exists>s accepted n. ranges_insert_all ranges_zero rs = Some (s, accepted, n)
    \<and> subseq accepted rs \<and> (length rs \<le> 128 \<longrightarrow> accepted = rs)
    \<and> (\<forall>v. ranges_Contains (Some s) v = Some (\<exists>(a, b)\<in>set accepted. a \<le> v \<and> v \<le> b))
    \<and> rsorted (flat (ranges_view s)) \<and> n = int (length (flat (ranges_view s)))"
proof -
  obtain s acc n where r: "ranges_insert_all ranges_zero rs = Some (s, acc, n)" "ranges_wf s" "subseq acc rs"
    "ranges_elems s = {v. \<exists>(a, b)\<in>set acc. a \<le> v \<and> v \<le> b}" "n = int (length (flat (ranges_view s)))"
    "length rs \<le> 128 \<longrightarrow> acc = rs"
    using ranges_insert_all_ok [OF ranges_zero_wf(1) assms] ranges_zero_wf(2,3) by auto
  have "ranges_Contains (Some s) v = Some (\<exists>(a, b)\<in>set acc. a \<le> v \<and> v \<le> b)" for v
    using ranges_Contains_ok [OF r(2), of v] r(4) by simp
  moreover have "rsorted (flat (ranges_view s))" using r(2) by (simp add: ranges_wf_def)
  ultimately show ?thesis using r(1,3,5,6) by blast
qed

theorem ranges_is_union_witness:
  "\<exists>s n. ranges_insert_all ranges_zero [([97], [99]), ([120], [121]), ([98], [110])]
      = Some (s, [([97], [99]), ([120], [121]), ([98], [110])], n)
    \<and> ranges_Contains (Some s) [109] = Some True \<and> ranges_Contains (Some s) [111] = Some False
    \<and> rsorted (flat (ranges_view s)) \<and> n = int (length (flat (ranges_view s)))"
  using ranges_is_union [of "[([97], [99]), ([120], [121]), ([98], [110])]"] by auto

end
