(* ===== verification/TranCheck.thy ===== *)
theory TranCheck
  imports RangeSet
begin

text \<open>
  The conflict checker of the database, \<^verbatim>\<open>db19/check.go\<close>: update transactions run concurrently on
  snapshots and report what they read (ranges of keys of an index) and write (keys of every index); the checker
  aborts one of two transactions that get into each other's way, or lets a transaction go on that has
  only read and then forbids it to write. The record \<open>check\<close> is the \<^verbatim>\<open>Check\<close> structure. A transaction object
  is identified by its start time, as the code does; \<open>ck_trans\<close> holds the objects, which
  outlive their removal from the maps. The maps of transactions are lists of start times. \<^verbatim>\<open>bytable\<close> is a
  function to partial maps; a table that is missing has an empty map. Go leaves the order of iteration over a map
  open: each loop over a map takes the order as an argument \<open>ord\<close>, and entries that are
  removed while it runs are skipped. The random choice is an argument \<open>coin\<close>, asked about the other transaction.
  \<open>None\<close> is a panic.
\<close>

section \<open>The data\<close>

definition MaxInt :: int where
  "MaxInt = 2 ^ 63 - 1"

definition readMax :: int where
  "readMax = 20000"

record ck_tran =
  ct_failure :: string
  ct_tables :: "string list"
  ct_start :: int
  ct_end :: int
  ct_birth :: int
  ct_readCount :: int
  ct_hasUpdates :: bool
  ct_readConflict :: string

type_synonym ckwrites = "ordset option list"
type_synonym ckreads = "ranges option list"

record actions =
  outputs :: ckwrites
  deletes :: ckwrites
  reads :: ckreads

record check =
  ck_trans :: "int \<Rightarrow> ck_tran"
  ck_actv :: "int list"
  ck_cmtd :: "int list"
  ck_bytable :: "string \<Rightarrow> int \<Rightarrow> actions option"
  ck_exclusive :: "string \<Rightarrow> int option"
  ck_seq :: int
  ck_oldest :: int
  ck_clock :: int
  ck_outstanding :: "32 word"

definition no_tran :: ck_tran where
  "no_tran = \<lparr>ct_failure = '''', ct_tables = [], ct_start = 0, ct_end = 0, ct_birth = 0, ct_readCount = 0,
     ct_hasUpdates = False, ct_readConflict = ''''\<rparr>"

definition NewCheck :: check where
  "NewCheck = \<lparr>ck_trans = (\<lambda>_. no_tran), ck_actv = [], ck_cmtd = [], ck_bytable = (\<lambda>_ _. None),
     ck_exclusive = (\<lambda>_. None), ck_seq = 1, ck_oldest = MaxInt, ck_clock = 0, ck_outstanding = 0\<rparr>"

section \<open>Small operations\<close>

definition ck_count :: "check \<Rightarrow> nat" where
  "ck_count ck = length (ck_actv ck) + length (ck_cmtd ck)"

definition updateOutstanding :: "check \<Rightarrow> check" where
  "updateOutstanding ck = ck\<lparr>ck_outstanding := of_nat (ck_count ck)\<rparr>"

definition ck_next :: "check \<Rightarrow> check \<times> int" where
  "ck_next ck = (ck\<lparr>ck_seq := ck_seq ck + 2\<rparr>, ck_seq ck + 2)"

definition set_tran :: "check \<Rightarrow> int \<Rightarrow> ck_tran \<Rightarrow> check" where
  "set_tran ck n t = ck\<lparr>ck_trans := (ck_trans ck)(n := t)\<rparr>"

definition StartTran :: "check \<Rightarrow> check \<times> int" where
  "StartTran ck =
     (let (ck1, start) = ck_next ck;
          t = no_tran\<lparr>ct_start := start, ct_end := MaxInt, ct_birth := ck_clock ck\<rparr>
      in (updateOutstanding ((set_tran ck1 start t)\<lparr>ck_actv := start # ck_actv ck1\<rparr>), start))"

definition ct_ended :: "ck_tran \<Rightarrow> bool" where
  "ct_ended t \<longleftrightarrow> ct_end t \<noteq> MaxInt"

definition ct_Failed :: "ck_tran \<Rightarrow> bool" where
  "ct_Failed t \<longleftrightarrow> ct_failure t \<noteq> ''''"

definition tran_overlap :: "ck_tran \<Rightarrow> ck_tran \<Rightarrow> bool" where
  "tran_overlap t1 t2 \<longleftrightarrow> ct_start t2 < ct_end t1 \<and> ct_start t1 < ct_end t2"

definition removeByTable :: "check \<Rightarrow> ck_tran \<Rightarrow> check" where
  "removeByTable ck t =
     ck\<lparr>ck_bytable := (\<lambda>table. if table \<in> set (ct_tables t) then (ck_bytable ck table)(ct_start t := None)
                            else ck_bytable ck table)\<rparr>"

section \<open>Forgetting ended transactions\<close>

text \<open>The loop over the active transactions takes the smallest start.\<close>

definition find_oldest :: "check \<Rightarrow> int" where
  "find_oldest ck = foldr (\<lambda>n m. min (ct_start (ck_trans ck n)) m) (ck_actv ck) (ck_oldest ck)"

definition cleanEnded :: "check \<Rightarrow> check" where
  "cleanEnded ck =
     (let ck1 = (if ck_oldest ck = MaxInt then ck\<lparr>ck_oldest := find_oldest ck\<rparr> else ck);
          gone = filter (\<lambda>n. ct_end (ck_trans ck n) < ck_oldest ck1) (ck_cmtd ck);
          ck2 = foldl (\<lambda>c n. removeByTable c (ck_trans ck n)) ck1 gone
      in updateOutstanding (ck2\<lparr>
           ck_cmtd := filter (\<lambda>n. \<not> ct_end (ck_trans ck n) < ck_oldest ck1) (ck_cmtd ck),
           ck_exclusive := (\<lambda>table. case ck_exclusive ck table of None \<Rightarrow> None
                              | Some e \<Rightarrow> if e < ck_oldest ck1 then None else Some e)\<rparr>))"

section \<open>Aborting\<close>

definition ck_abort :: "check \<Rightarrow> int \<Rightarrow> string \<Rightarrow> check \<times> bool" where
  "ck_abort ck tn reason =
     (if tn \<notin> set (ck_actv ck) then (ck, False)
      else let t = ck_trans ck tn;
               ck1 = set_tran ck tn (t\<lparr>ct_failure := (if reason = '''' then ''abort'' else reason)\<rparr>);
               ck2 = removeByTable ck1 t;
               ck3 = ck2\<lparr>ck_actv := removeAll tn (ck_actv ck2)\<rparr>;
               ck4 = (if tn = ck_oldest ck3 \<or> ck_oldest ck3 = MaxInt
                      then cleanEnded (ck3\<lparr>ck_oldest := MaxInt\<rparr>) else ck3)
           in (updateOutstanding ck4, True))"

definition Abort :: "check \<Rightarrow> int \<Rightarrow> string \<Rightarrow> check" where
  "Abort ck t reason = fst (ck_abort ck (ct_start (ck_trans ck t)) reason)"

definition conflict_text :: "string \<Rightarrow> string \<Rightarrow> string \<Rightarrow> string" where
  "conflict_text act1 act2 table =
     act1 @ '' in this transaction conflicted with '' @ act2 @ '' in another transaction ('' @ table @ '')''"

definition abort1of :: "(int \<Rightarrow> bool) \<Rightarrow> check \<Rightarrow> int \<Rightarrow> int \<Rightarrow> string \<Rightarrow> string \<Rightarrow> string \<Rightarrow> check \<times> bool" where
  "abort1of coin ck t1 t2 act1 act2 table =
     (let x1 = ck_trans ck t1; x2 = ck_trans ck t2 in
      if \<not> ct_hasUpdates x1 then (set_tran ck t1 (x1\<lparr>ct_readConflict := conflict_text act1 act2 table\<rparr>), False)
      else if \<not> ct_hasUpdates x2 then (set_tran ck t2 (x2\<lparr>ct_readConflict := conflict_text act2 act1 table\<rparr>), False)
      else if ct_ended x2 \<or> coin t2 then (Abort ck t1 (conflict_text act1 act2 table), True)
      else (Abort ck t2 (conflict_text act2 act1 table), False))"

section \<open>Recording\<close>

definition no_actions :: actions where
  "no_actions = \<lparr>outputs = [], deletes = [], reads = []\<rparr>"

definition put_actions :: "check \<Rightarrow> string \<Rightarrow> int \<Rightarrow> actions \<Rightarrow> check" where
  "put_actions ck table n ta = ck\<lparr>ck_bytable := (ck_bytable ck)(table := (ck_bytable ck table)(n := Some ta))\<rparr>"

definition getActs :: "check \<Rightarrow> int \<Rightarrow> string \<Rightarrow> check \<times> actions" where
  "getActs ck t table =
     (let x = ck_trans ck t in
      case ck_bytable ck table (ct_start x) of
        Some ta \<Rightarrow> (ck, ta)
      | None \<Rightarrow> (set_tran (put_actions ck table (ct_start x) no_actions) t (x\<lparr>ct_tables := ct_tables x @ [table]\<rparr>), no_actions))"

text \<open>\<^verbatim>\<open>for len(c) <= index { c = append(c, nil) }\<close>.\<close>

definition pad :: "'a option list \<Rightarrow> nat \<Rightarrow> 'a option list" where
  "pad c index = c @ replicate (Suc index - length c) None"

definition ckreads_with :: "ckreads \<Rightarrow> nat \<Rightarrow> gostr \<Rightarrow> gostr \<Rightarrow> (ckreads \<times> int) option" where
  "ckreads_with cr index from to =
     (let c = pad cr index;
          rs = (case c ! index of None \<Rightarrow> ranges_zero | Some rs \<Rightarrow> rs)
      in do { (rs', inc) \<leftarrow> ranges_Insert rs from to; Some (c[index := Some rs'], inc) })"

definition ckreads_contains :: "ckreads \<Rightarrow> nat \<Rightarrow> gostr \<Rightarrow> bool option" where
  "ckreads_contains cr index key = (if index < length cr then ranges_Contains (cr ! index) key else Some False)"

definition ckwrites_anyInRange :: "ckwrites \<Rightarrow> nat \<Rightarrow> gostr \<Rightarrow> gostr \<Rightarrow> bool option" where
  "ckwrites_anyInRange cw index from to =
     (if length cw \<le> index then Some False else ordset_AnyInRange (cw ! index) from to)"

text \<open>The result is nil when the set refuses the key.\<close>

definition ckwrites_with :: "ckwrites \<Rightarrow> nat \<Rightarrow> gostr \<Rightarrow> ckwrites option option" where
  "ckwrites_with cw index key =
     (let c = pad cw index;
          s = (case c ! index of None \<Rightarrow> ordset_zero | Some s \<Rightarrow> s)
      in do { (s', ok) \<leftarrow> ordset_Insert s key; Some (if ok then Some (c[index := Some s']) else None) })"

definition saveRead :: "check \<Rightarrow> int \<Rightarrow> string \<Rightarrow> nat \<Rightarrow> gostr \<Rightarrow> gostr \<Rightarrow> (check \<times> bool) option" where
  "saveRead ck t table index from to =
     (let (ck1, ta) = getActs ck t table in do {
        (rds, inc) \<leftarrow> ckreads_with (reads ta) index from to;
        let x = ck_trans ck1 t;
        let x' = x\<lparr>ct_readCount := ct_readCount x + inc\<rparr>;
        let ck2 = set_tran ck1 t x';
        if readMax \<le> ct_readCount x' then Some (Abort ck2 t ''too many reads in one update transaction'', False)
        else Some (put_actions ck2 table (ct_start x) (ta\<lparr>reads := rds\<rparr>), True) })"

definition too_many_writes :: string where
  "too_many_writes = ''too many writes (output, update, or delete) in one transaction''"

text \<open>\<^verbatim>\<open>saveOutput\<close> and \<^verbatim>\<open>saveDelete\<close>, from index \<open>i\<close> on.\<close>

fun saveOutput :: "check \<Rightarrow> int \<Rightarrow> string \<Rightarrow> actions \<Rightarrow> nat \<Rightarrow> gostr list \<Rightarrow> (check \<times> bool) option" where
  "saveOutput ck t table ta i [] = Some (ck, True)"
| "saveOutput ck t table ta i (key # keys) = do {
     outs \<leftarrow> ckwrites_with (outputs ta) i key;
     case outs of
       None \<Rightarrow> Some (Abort ck t too_many_writes, False)
     | Some ws \<Rightarrow>
         let ta' = ta\<lparr>outputs := ws\<rparr>
         in saveOutput (put_actions ck table (ct_start (ck_trans ck t)) ta') t table ta' (Suc i) keys }"

fun saveDelete_from :: "check \<Rightarrow> int \<Rightarrow> string \<Rightarrow> actions \<Rightarrow> nat \<Rightarrow> gostr list \<Rightarrow> (check \<times> bool) option" where
  "saveDelete_from ck t table ta i [] = Some (ck, True)"
| "saveDelete_from ck t table ta i (key # keys) = do {
     dels \<leftarrow> ckwrites_with (deletes ta) i key;
     case dels of
       None \<Rightarrow> Some (Abort ck t too_many_writes, False)
     | Some ws \<Rightarrow>
         let ta' = ta\<lparr>deletes := ws\<rparr>
         in saveDelete_from (put_actions ck table (ct_start (ck_trans ck t)) ta') t table ta' (Suc i) keys }"

definition saveDelete :: "check \<Rightarrow> int \<Rightarrow> string \<Rightarrow> actions \<Rightarrow> nat \<Rightarrow> gostr list \<Rightarrow> (check \<times> bool) option" where
  "saveDelete ck t table ta off keys = (if off = 0 then None else saveDelete_from ck t table ta 0 keys)"

section \<open>Reads\<close>

fun ck_read_loop :: "(int \<Rightarrow> bool) \<Rightarrow> check \<Rightarrow> int \<Rightarrow> string \<Rightarrow> nat \<Rightarrow> gostr \<Rightarrow> gostr \<Rightarrow> int list \<Rightarrow> (check \<times> bool) option" where
  "ck_read_loop coin ck t table index from to [] = Some (ck, False)"
| "ck_read_loop coin ck t table index from to (n # ord) =
     (case ck_bytable ck table n of
        None \<Rightarrow> ck_read_loop coin ck t table index from to ord
      | Some ta \<Rightarrow>
          if n \<noteq> t \<and> tran_overlap (ck_trans ck t) (ck_trans ck n) then do {
            o1 \<leftarrow> ckwrites_anyInRange (outputs ta) index from to;
            hit \<leftarrow> (if o1 then Some True else ckwrites_anyInRange (deletes ta) index from to);
            if hit then
              (case abort1of coin ck t n ''read'' ''write'' table of (ck1, aborted) \<Rightarrow>
                 if aborted then Some (ck1, True) else ck_read_loop coin ck1 t table index from to ord)
            else ck_read_loop coin ck t table index from to ord }
          else ck_read_loop coin ck t table index from to ord)"

definition ck_Read :: "(int \<Rightarrow> bool) \<Rightarrow> int list \<Rightarrow> check \<Rightarrow> int \<Rightarrow> string \<Rightarrow> nat \<Rightarrow> gostr \<Rightarrow> gostr \<Rightarrow> (check \<times> bool) option" where
  "ck_Read coin ord ck t table index from to =
     (let x = ck_trans ck t in
      if ct_readConflict x \<noteq> '''' then Some (ck, True)
      else if ct_start x \<notin> set (ck_actv ck) then Some (ck, False)
      else if ct_ended x then None
      else do {
        (ck1, aborted) \<leftarrow> ck_read_loop coin ck t table index from to ord;
        if aborted then Some (ck1, False)
        else do {
          (ck2, ok) \<leftarrow> saveRead ck1 t table index from to;
          Some (if ok then ck2 else Abort ck2 t ''too many reads in one update transaction'', True) } })"

section \<open>Writes\<close>

definition gotUpdate :: "check \<Rightarrow> int \<Rightarrow> check \<times> bool" where
  "gotUpdate ck t =
     (let x = ck_trans ck t in
      if ct_hasUpdates x then (ck, True)
      else if ct_readConflict x \<noteq> '''' then (Abort ck t (ct_readConflict x), False)
      else (set_tran ck t (x\<lparr>ct_hasUpdates := True\<rparr>), True))"

text \<open>Whether one of the keys was read, from index \<open>i\<close> on.\<close>

fun reads_any :: "ckreads \<Rightarrow> nat \<Rightarrow> gostr list \<Rightarrow> bool option" where
  "reads_any cr i [] = Some False"
| "reads_any cr i (key # keys) = do {
     hit \<leftarrow> ckreads_contains cr i key;
     if hit then Some True else reads_any cr (Suc i) keys }"

text \<open>The loop of \<^verbatim>\<open>Output\<close> and \<^verbatim>\<open>Delete\<close>, which differ in the word for the action.\<close>

fun write_loop :: "(int \<Rightarrow> bool) \<Rightarrow> string \<Rightarrow> check \<Rightarrow> int \<Rightarrow> string \<Rightarrow> gostr list \<Rightarrow> int list \<Rightarrow> (check \<times> bool) option" where
  "write_loop coin act ck t table keys [] = Some (ck, False)"
| "write_loop coin act ck t table keys (n # ord) =
     (case ck_bytable ck table n of
        None \<Rightarrow> write_loop coin act ck t table keys ord
      | Some ta \<Rightarrow>
          if n \<noteq> t \<and> tran_overlap (ck_trans ck t) (ck_trans ck n) \<and> \<not> ct_ended (ck_trans ck n) then do {
            hit \<leftarrow> reads_any (reads ta) 0 keys;
            if hit then
              (case abort1of coin ck t n act ''read'' table of (ck1, aborted) \<Rightarrow>
                 if aborted then Some (ck1, True) else write_loop coin act ck1 t table keys ord)
            else write_loop coin act ck t table keys ord }
          else write_loop coin act ck t table keys ord)"

text \<open>What the three writing operations do first: \<open>None\<close> in the second component means go on.\<close>

definition write_start :: "check \<Rightarrow> int \<Rightarrow> string \<Rightarrow> (check \<times> bool option) option" where
  "write_start ck t table =
     (case gotUpdate ck t of (ck1, ok) \<Rightarrow>
        if \<not> ok then Some (ck1, Some False)
        else let x = ck_trans ck1 t in
          if ct_start x \<notin> set (ck_actv ck1) then Some (ck1, Some False)
          else if ct_ended x then None
          else if ct_start x < (case ck_exclusive ck1 table of None \<Rightarrow> 0 | Some e \<Rightarrow> e)
            then Some (Abort ck1 t (''conflict with exclusive ('' @ table @ '')''), Some False)
          else Some (ck1, None))"

definition ck_Output :: "(int \<Rightarrow> bool) \<Rightarrow> int list \<Rightarrow> check \<Rightarrow> int \<Rightarrow> string \<Rightarrow> gostr list \<Rightarrow> (check \<times> bool) option" where
  "ck_Output coin ord ck t table keys = do {
     (ck1, stop) \<leftarrow> write_start ck t table;
     case stop of Some b \<Rightarrow> Some (ck1, b)
     | None \<Rightarrow> do {
         (ck2, aborted) \<leftarrow> write_loop coin ''output'' ck1 t table keys ord;
         if aborted then Some (ck2, False)
         else (case getActs ck2 t table of (ck3, ta) \<Rightarrow> saveOutput ck3 t table ta 0 keys) } }"

definition ck_Delete :: "(int \<Rightarrow> bool) \<Rightarrow> int list \<Rightarrow> check \<Rightarrow> int \<Rightarrow> string \<Rightarrow> nat \<Rightarrow> gostr list \<Rightarrow> (check \<times> bool) option" where
  "ck_Delete coin ord ck t table off keys = do {
     (ck1, stop) \<leftarrow> write_start ck t table;
     case stop of Some b \<Rightarrow> Some (ck1, b)
     | None \<Rightarrow> do {
         (ck2, aborted) \<leftarrow> write_loop coin ''delete'' ck1 t table keys ord;
         if aborted then Some (ck2, False)
         else (case getActs ck2 t table of (ck3, ta) \<Rightarrow> saveDelete ck3 t table ta off keys) } }"

text \<open>The new keys of an update are looked up only where they differ from the old ones.\<close>

fun reads_any_new :: "ckreads \<Rightarrow> nat \<Rightarrow> gostr list \<Rightarrow> gostr list \<Rightarrow> bool option" where
  "reads_any_new cr i oldkeys [] = Some False"
| "reads_any_new cr i oldkeys (key # keys) = do {
     old \<leftarrow> at oldkeys i;
     hit \<leftarrow> (if key \<noteq> old then ckreads_contains cr i key else Some False);
     if hit then Some True else reads_any_new cr (Suc i) oldkeys keys }"

fun update_loop :: "(int \<Rightarrow> bool) \<Rightarrow> check \<Rightarrow> int \<Rightarrow> string \<Rightarrow> gostr list \<Rightarrow> gostr list \<Rightarrow> int list \<Rightarrow> (check \<times> bool) option" where
  "update_loop coin ck t table oldkeys newkeys [] = Some (ck, False)"
| "update_loop coin ck t table oldkeys newkeys (n # ord) =
     (case ck_bytable ck table n of
        None \<Rightarrow> update_loop coin ck t table oldkeys newkeys ord
      | Some ta \<Rightarrow>
          if n \<noteq> t \<and> tran_overlap (ck_trans ck t) (ck_trans ck n) \<and> \<not> ct_ended (ck_trans ck n) then do {
            del \<leftarrow> reads_any (reads ta) 0 oldkeys;
            if del then
              (case abort1of coin ck t n ''delete'' ''read'' table of (ck1, aborted) \<Rightarrow>
                 if aborted then Some (ck1, True) else update_loop coin ck1 t table oldkeys newkeys ord)
            else do {
              out \<leftarrow> reads_any_new (reads ta) 0 oldkeys newkeys;
              if out then
                (case abort1of coin ck t n ''update'' ''read'' table of (ck1, aborted) \<Rightarrow>
                   if aborted then Some (ck1, True) else update_loop coin ck1 t table oldkeys newkeys ord)
              else update_loop coin ck t table oldkeys newkeys ord } }
          else update_loop coin ck t table oldkeys newkeys ord)"

definition ck_Update :: "(int \<Rightarrow> bool) \<Rightarrow> int list \<Rightarrow> check \<Rightarrow> int \<Rightarrow> string \<Rightarrow> nat \<Rightarrow> gostr list \<Rightarrow> gostr list \<Rightarrow> (check \<times> bool) option" where
  "ck_Update coin ord ck t table oldoff oldkeys newkeys = do {
     (ck1, stop) \<leftarrow> write_start ck t table;
     case stop of Some b \<Rightarrow> Some (ck1, b)
     | None \<Rightarrow> do {
         (ck2, aborted) \<leftarrow> update_loop coin ck1 t table oldkeys newkeys ord;
         if aborted then Some (ck2, False)
         else (case getActs ck2 t table of (ck3, ta) \<Rightarrow> do {
           (ck4, ok) \<leftarrow> saveDelete ck3 t table ta oldoff oldkeys;
           if ok then do {
             ta4 \<leftarrow> ck_bytable ck4 table (ct_start (ck_trans ck4 t));
             saveOutput ck4 t table ta4 0 newkeys }
           else Some (ck4, False) }) } }"

section \<open>Ending a transaction\<close>

text \<open>The tables a transaction has written; its reads are dropped. A missing entry would be a nil pointer.\<close>

fun commitByTable :: "check \<Rightarrow> ck_tran \<Rightarrow> string list \<Rightarrow> (check \<times> string list) option" where
  "commitByTable ck t [] = Some (ck, [])"
| "commitByTable ck t (table # tables) = do {
     ta \<leftarrow> ck_bytable ck table (ct_start t);
     (ck', tw) \<leftarrow> commitByTable (put_actions ck table (ct_start t) (ta\<lparr>reads := []\<rparr>)) t tables;
     Some (ck', (if outputs ta \<noteq> [] \<or> deletes ta \<noteq> [] then table # tw else tw)) }"

text \<open>The result is nil (\<open>None\<close>) when the transaction is gone.\<close>

definition ck_commit :: "bool \<Rightarrow> check \<Rightarrow> int \<Rightarrow> (check \<times> string list option) option" where
  "ck_commit corrupted ck ct =
     (if corrupted then Some (Abort ck ct ''database is locked'', Some [])
      else let tn = ct_start (ck_trans ck ct) in
        if tn \<notin> set (ck_actv ck) then Some (ck, None)
        else let (ck1, e) = ck_next ck;
                 t = (ck_trans ck tn)\<lparr>ct_end := e\<rparr>;
                 ck2 = set_tran ck1 tn t;
                 ck3 = (if ct_start t = ck_oldest ck2 then ck2\<lparr>ck_oldest := MaxInt\<rparr> else ck2);
                 ck4 = ck3\<lparr>ck_actv := removeAll tn (ck_actv ck3)\<rparr>
             in do {
               (ck5, tw) \<leftarrow> (if ct_hasUpdates (ck_trans ck4 ct)
                  then if ct_readConflict (ck_trans ck4 ct) \<noteq> '''' then None
                       else commitByTable (ck4\<lparr>ck_cmtd := tn # ck_cmtd ck4\<rparr>) t (ct_tables t)
                  else Some (removeByTable ck4 t, []));
               let ck6 = (if ck_oldest ck5 = MaxInt then cleanEnded ck5 else ck5);
               Some (updateOutstanding ck6, Some tw) })"

definition ck_ReadCount :: "check \<Rightarrow> int \<Rightarrow> int" where
  "ck_ReadCount ck t =
     (if ct_start (ck_trans ck t) \<notin> set (ck_actv ck) then - 1 else ct_readCount (ck_trans ck t))"

definition ck_Final :: "check \<Rightarrow> nat" where
  "ck_Final ck = length (ck_cmtd ck)"

definition MaxAge :: int where
  "MaxAge = 20"

text \<open>\<^verbatim>\<open>tick\<close>: the loop runs over the transactions that were active before it, those in \<open>ord\<close> first and in that order,
  the rest in the order of the list: with the right \<open>ord\<close> this is any order of iteration. A transaction that is gone by
  then is not met again.\<close>

definition ck_tick :: "int list \<Rightarrow> check \<Rightarrow> check" where
  "ck_tick ord ck =
     (let ck1 = ck\<lparr>ck_clock := ck_clock ck + 1\<rparr>
      in foldl (\<lambda>c tn. if tn \<in> set (ck_actv c) \<and> MaxAge \<le> ck_clock c - ct_birth (ck_trans c tn)
                       then fst (ck_abort c tn ''transaction exceeded max age'') else c)
           ck1 (ord @ ck_actv ck1))"

section \<open>Exclusive access\<close>

fun preempt_loop :: "check \<Rightarrow> string \<Rightarrow> int list \<Rightarrow> check" where
  "preempt_loop ck table [] = ck"
| "preempt_loop ck table (n # ord) =
     (case ck_bytable ck table n of
        None \<Rightarrow> preempt_loop ck table ord
      | Some ta \<Rightarrow>
          preempt_loop (if outputs ta \<noteq> [] \<or> deletes ta \<noteq> []
                        then Abort ck n (''preempted by exclusive ('' @ table @ '')'') else ck) table ord)"

definition AddExclusive :: "int list \<Rightarrow> check \<Rightarrow> string \<Rightarrow> check \<times> bool" where
  "AddExclusive ord ck table =
     (if ck_exclusive ck table = Some MaxInt then (ck, False)
      else let ck1 = preempt_loop ck table ord
           in (ck1\<lparr>ck_exclusive := (ck_exclusive ck1)(table := Some MaxInt)\<rparr>, True))"

definition EndExclusive :: "check \<Rightarrow> string \<Rightarrow> check" where
  "EndExclusive ck table =
     (if ck_exclusive ck table \<noteq> Some MaxInt then ck
      else let (ck1, e) = ck_next ck in cleanEnded (ck1\<lparr>ck_exclusive := (ck_exclusive ck1)(table := Some e)\<rparr>))"

end
