(* ===== verification/TranInv.thy ===== *)
theory TranInv
  imports TranCheck
begin

text \<open>
  The invariant of the conflict checker and its preservation: the maps agree with each other, recorded sets are
  well formed, a transaction with updates has no pending read conflict, ended transactions are kept as long as
  an active one overlaps them, and exclusive access excludes writers. The relation \<open>weaken\<close> is what aborting and
  forgetting may change.
\<close>

section \<open>The invariant\<close>

definition acts_ok :: "actions \<Rightarrow> bool" where
  "acts_ok ta \<longleftrightarrow> (\<forall>s. Some s \<in> set (outputs ta) \<union> set (deletes ta) \<longrightarrow> ordset_wf s)
     \<and> (\<forall>r. Some r \<in> set (reads ta) \<longrightarrow> ranges_wf r)"

abbreviation known :: "check \<Rightarrow> int set" where
  "known ck \<equiv> set (ck_actv ck) \<union> set (ck_cmtd ck)"

definition wrote :: "actions \<Rightarrow> bool" where
  "wrote ta \<longleftrightarrow> outputs ta \<noteq> [] \<or> deletes ta \<noteq> []"

text \<open>The transaction objects.\<close>

definition actv_ok :: "check \<Rightarrow> int \<Rightarrow> bool" where
  "actv_ok ck n \<longleftrightarrow> (let t = ck_trans ck n in
     ct_start t = n \<and> ct_end t = MaxInt \<and> 1 \<le> n \<and> n \<le> ck_seq ck \<and> distinct (ct_tables t)
     \<and> (ct_hasUpdates t \<longrightarrow> ct_readConflict t = ''''))"

definition cmtd_ok :: "check \<Rightarrow> int \<Rightarrow> bool" where
  "cmtd_ok ck n \<longleftrightarrow> (let t = ck_trans ck n in
     ct_start t = n \<and> n < ct_end t \<and> ct_end t \<le> ck_seq ck \<and> ct_hasUpdates t \<and> ct_readConflict t = '''')"

definition trans_ok :: "check \<Rightarrow> bool" where
  "trans_ok ck \<longleftrightarrow> distinct (ck_actv ck) \<and> distinct (ck_cmtd ck) \<and> set (ck_actv ck) \<inter> set (ck_cmtd ck) = {}
     \<and> (\<forall>n\<in>set (ck_actv ck). actv_ok ck n) \<and> (\<forall>n\<in>set (ck_cmtd ck). cmtd_ok ck n)
     \<and> (\<forall>n. ct_start (ck_trans ck n) \<in> {0, n}) \<and> 1 \<le> ck_seq ck \<and> ck_seq ck < MaxInt
     \<and> (ck_oldest ck = MaxInt \<or> ck_oldest ck \<le> ck_seq ck \<and> (\<forall>n\<in>set (ck_actv ck). ck_oldest ck \<le> n))"

text \<open>The recorded actions.\<close>

definition table_ok :: "check \<Rightarrow> bool" where
  "table_ok ck \<longleftrightarrow> (\<forall>tab n. ck_bytable ck tab n \<noteq> None \<longleftrightarrow> n \<in> known ck \<and> tab \<in> set (ct_tables (ck_trans ck n)))
     \<and> (\<forall>tab n ta. ck_bytable ck tab n = Some ta \<longrightarrow> acts_ok ta \<and> (wrote ta \<longrightarrow> ct_hasUpdates (ck_trans ck n)))"

definition excl_ok :: "check \<Rightarrow> bool" where
  "excl_ok ck \<longleftrightarrow> (\<forall>tab e. ck_exclusive ck tab = Some e \<longrightarrow> (e = MaxInt \<or> e \<le> ck_seq ck)
     \<and> (\<forall>n\<in>set (ck_actv ck). \<forall>ta. n < e \<and> ck_bytable ck tab n = Some ta \<longrightarrow> \<not> wrote ta))"

definition ck_inv :: "check \<Rightarrow> bool" where
  "ck_inv ck \<longleftrightarrow> trans_ok ck \<and> table_ok ck \<and> excl_ok ck"

lemma ck_invD:
  assumes "ck_inv ck"
  shows "n \<in> set (ck_actv ck) \<Longrightarrow> actv_ok ck n" "n \<in> set (ck_cmtd ck) \<Longrightarrow> cmtd_ok ck n"
    "n \<in> known ck \<Longrightarrow> ct_start (ck_trans ck n) = n"
    "n \<in> known ck \<Longrightarrow> n \<le> ck_seq ck"
    "ck_bytable ck tab n = Some ta \<Longrightarrow> n \<in> known ck \<and> tab \<in> set (ct_tables (ck_trans ck n)) \<and> acts_ok ta"
    "ck_bytable ck tab n = Some ta \<Longrightarrow> wrote ta \<Longrightarrow> ct_hasUpdates (ck_trans ck n)"
    "n \<in> known ck \<Longrightarrow> tab \<in> set (ct_tables (ck_trans ck n)) \<Longrightarrow> \<exists>ta. ck_bytable ck tab n = Some ta"
    "1 \<le> ck_seq ck" "ck_seq ck < MaxInt"
proof -
  have t: "trans_ok ck" and b: "table_ok ck" using assms by (auto simp: ck_inv_def)
  show a: "actv_ok ck n" if "n \<in> set (ck_actv ck)" using t that by (simp add: trans_ok_def)
  show c: "cmtd_ok ck n" if "n \<in> set (ck_cmtd ck)" using t that by (simp add: trans_ok_def)
  show "ct_start (ck_trans ck n) = n" "n \<le> ck_seq ck" if "n \<in> known ck"
    using a c that by (auto simp: actv_ok_def cmtd_ok_def Let_def)
  show "1 \<le> ck_seq ck" "ck_seq ck < MaxInt" using t by (auto simp: trans_ok_def)
  have dom: "ck_bytable ck tab n \<noteq> None \<longleftrightarrow> n \<in> known ck \<and> tab \<in> set (ct_tables (ck_trans ck n))"
    using b unfolding table_ok_def by blast
  show "\<exists>ta. ck_bytable ck tab n = Some ta" if "n \<in> known ck" "tab \<in> set (ct_tables (ck_trans ck n))"
    using dom that by blast
  show "n \<in> known ck \<and> tab \<in> set (ct_tables (ck_trans ck n)) \<and> acts_ok ta" if "ck_bytable ck tab n = Some ta"
    using dom b that unfolding table_ok_def by (metis option.distinct(1))
  show "ct_hasUpdates (ck_trans ck n)" if "ck_bytable ck tab n = Some ta" "wrote ta"
    using b that unfolding table_ok_def by blast
qed

lemma actv_not_ended: "ck_inv ck \<Longrightarrow> n \<in> set (ck_actv ck) \<Longrightarrow> \<not> ct_ended (ck_trans ck n)"
  using ck_invD(1) by (fastforce simp: actv_ok_def ct_ended_def Let_def)

lemma cmtd_ended: "ck_inv ck \<Longrightarrow> n \<in> set (ck_cmtd ck) \<Longrightarrow> ct_ended (ck_trans ck n)"
  using ck_invD(2) [of ck n] ck_invD(9) [of ck] by (auto simp: cmtd_ok_def ct_ended_def Let_def)

lemma NewCheck_inv: "ck_inv NewCheck"
  by (simp add: ck_inv_def trans_ok_def table_ok_def excl_ok_def NewCheck_def MaxInt_def no_tran_def)

section \<open>What aborting and forgetting change\<close>

definition same_tran :: "ck_tran \<Rightarrow> ck_tran \<Rightarrow> bool" where
  "same_tran t t' \<longleftrightarrow> ct_start t' = ct_start t \<and> ct_end t' = ct_end t \<and> ct_tables t' = ct_tables t
     \<and> ct_hasUpdates t' = ct_hasUpdates t \<and> ct_birth t' = ct_birth t
     \<and> (ct_readConflict t' = ct_readConflict t \<or> ct_readConflict t' \<noteq> '''' \<and> \<not> ct_hasUpdates t)"

definition weaken :: "check \<Rightarrow> check \<Rightarrow> bool" where
  "weaken ck ck' \<longleftrightarrow> set (ck_actv ck') \<subseteq> set (ck_actv ck) \<and> set (ck_cmtd ck') \<subseteq> set (ck_cmtd ck)
     \<and> (\<forall>n. same_tran (ck_trans ck n) (ck_trans ck' n))
     \<and> (\<forall>n\<in>set (ck_actv ck'). ct_readCount (ck_trans ck' n) = ct_readCount (ck_trans ck n))
     \<and> (\<forall>tab n. ck_bytable ck' tab n = (if n \<in> known ck' then ck_bytable ck tab n else None))
     \<and> (\<forall>d\<in>set (ck_cmtd ck) - set (ck_cmtd ck'). \<forall>n\<in>set (ck_actv ck'). ct_end (ck_trans ck d) < n)
     \<and> ck_seq ck' = ck_seq ck \<and> ck_clock ck' = ck_clock ck
     \<and> (\<forall>tab e. ck_exclusive ck' tab = Some e \<longrightarrow> ck_exclusive ck tab = Some e)"

lemma same_tran_refl [simp]: "same_tran t t"
  by (simp add: same_tran_def)

lemma same_tran_trans: "same_tran a b \<Longrightarrow> same_tran b c \<Longrightarrow> same_tran a c"
  unfolding same_tran_def by metis

lemma weakenD:
  assumes "weaken ck ck'"
  shows "set (ck_actv ck') \<subseteq> set (ck_actv ck)" "set (ck_cmtd ck') \<subseteq> set (ck_cmtd ck)"
    "same_tran (ck_trans ck n) (ck_trans ck' n)"
    "ck_bytable ck' tab n = (if n \<in> known ck' then ck_bytable ck tab n else None)"
    "d \<in> set (ck_cmtd ck) \<Longrightarrow> d \<notin> set (ck_cmtd ck') \<Longrightarrow> n \<in> set (ck_actv ck') \<Longrightarrow> ct_end (ck_trans ck d) < n"
    "ck_seq ck' = ck_seq ck" "ck_clock ck' = ck_clock ck"
    "ck_exclusive ck' tab = Some e \<Longrightarrow> ck_exclusive ck tab = Some e"
    "n \<in> set (ck_actv ck') \<Longrightarrow> ct_readCount (ck_trans ck' n) = ct_readCount (ck_trans ck n)"
  using assms unfolding weaken_def by blast+

lemma weaken_refl: "ck_inv ck \<Longrightarrow> weaken ck ck"
  unfolding weaken_def using ck_invD(5) by (metis Diff_iff option.exhaust order.refl same_tran_refl)

lemma weaken_trans:
  assumes a: "weaken a b" and c: "weaken b c"
  shows "weaken a c"
  unfolding weaken_def
proof (intro conjI allI ballI impI)
  show "set (ck_actv c) \<subseteq> set (ck_actv a)" "set (ck_cmtd c) \<subseteq> set (ck_cmtd a)" "ck_seq c = ck_seq a" "ck_clock c = ck_clock a"
    using weakenD(1,2,6,7) [OF a] weakenD(1,2,6,7) [OF c] by auto
  show "same_tran (ck_trans a n) (ck_trans c n)" for n
    using weakenD(3) [OF a] weakenD(3) [OF c] by (rule same_tran_trans)
  show "ct_readCount (ck_trans c n) = ct_readCount (ck_trans a n)" if "n \<in> set (ck_actv c)" for n
    using weakenD(9) [OF a, of n] weakenD(9) [OF c that] weakenD(1) [OF c] that by auto
  show "ck_bytable c tab n = (if n \<in> known c then ck_bytable a tab n else None)" for tab n
  proof (cases "n \<in> known c")
    case True
    then have "n \<in> known b" using weakenD(1,2) [OF c] by blast
    then show ?thesis using True weakenD(4) [OF a, of tab n] weakenD(4) [OF c, of tab n] by simp
  qed (use weakenD(4) [OF c, of tab n] in simp)
  show "ck_exclusive a tab = Some e" if "ck_exclusive c tab = Some e" for tab e
    using weakenD(8) [OF a] weakenD(8) [OF c] that by blast
  fix d n assume d: "d \<in> set (ck_cmtd a) - set (ck_cmtd c)" and n: "n \<in> set (ck_actv c)"
  have e: "ct_end (ck_trans b d) = ct_end (ck_trans a d)" using weakenD(3) [OF a, of d] by (simp add: same_tran_def)
  show "ct_end (ck_trans a d) < n"
  proof (cases "d \<in> set (ck_cmtd b)")
    case True
    then show ?thesis using weakenD(5) [OF c True _ n] d e by simp
  next
    case False
    then show ?thesis using weakenD(5) [OF a _ False] weakenD(1) [OF c] d n by blast
  qed
qed

text \<open>Whatever is reached by weakening keeps the invariant, up to the two lists and the marker of the
  oldest transaction.\<close>

lemma weaken_inv:
  assumes inv: "ck_inv ck" and w: "weaken ck ck'"
    and lists: "distinct (ck_actv ck')" "distinct (ck_cmtd ck')"
    and old: "ck_oldest ck' = MaxInt \<or> ck_oldest ck' \<le> ck_seq ck' \<and> (\<forall>n\<in>set (ck_actv ck'). ck_oldest ck' \<le> n)"
  shows "ck_inv ck'"
proof -
  have st: "same_tran (ck_trans ck n) (ck_trans ck' n)" for n using w by (simp add: weaken_def)
  have bt: "ck_bytable ck' tab n = (if n \<in> known ck' then ck_bytable ck tab n else None)" for tab n
    using w by (simp add: weaken_def)
  have sub: "set (ck_actv ck') \<subseteq> set (ck_actv ck)" "set (ck_cmtd ck') \<subseteq> set (ck_cmtd ck)" "ck_seq ck' = ck_seq ck"
    using w by (auto simp: weaken_def)
  have "trans_ok ck'"
    unfolding trans_ok_def
  proof (intro conjI ballI allI)
    show "set (ck_actv ck') \<inter> set (ck_cmtd ck') = {}" using inv sub by (auto simp: ck_inv_def trans_ok_def)
    show "actv_ok ck' n" if "n \<in> set (ck_actv ck')" for n
      using that sub st [of n] ck_invD(1) [OF inv, of n] by (auto simp: actv_ok_def same_tran_def Let_def)
    show "cmtd_ok ck' n" if "n \<in> set (ck_cmtd ck')" for n
      using that sub st [of n] ck_invD(2) [OF inv, of n] by (auto simp: cmtd_ok_def same_tran_def Let_def)
    show "ct_start (ck_trans ck' n) \<in> {0, n}" for n
      using inv st [of n] by (auto simp: ck_inv_def trans_ok_def same_tran_def)
  qed (use lists old ck_invD(8,9) [OF inv] sub in auto)
  moreover have "table_ok ck'"
    unfolding table_ok_def
  proof (intro conjI allI impI)
    show "ck_bytable ck' tab n \<noteq> None \<longleftrightarrow> n \<in> known ck' \<and> tab \<in> set (ct_tables (ck_trans ck' n))" for tab n
      using inv st [of n] sub unfolding bt ck_inv_def table_ok_def by (auto simp: same_tran_def)
    fix tab n ta assume "ck_bytable ck' tab n = Some ta"
    then have o: "ck_bytable ck tab n = Some ta" unfolding bt by (auto split: if_splits)
    then show "acts_ok ta" using ck_invD(5) [OF inv] by blast
    show "ct_hasUpdates (ck_trans ck' n)" if "wrote ta"
      using ck_invD(6) [OF inv o that] st [of n] by (simp add: same_tran_def)
  qed
  moreover have "excl_ok ck'"
    unfolding excl_ok_def
  proof (intro allI impI conjI ballI)
    fix tab e assume "ck_exclusive ck' tab = Some e"
    then have x: "ck_exclusive ck tab = Some e" using w by (simp add: weaken_def)
    then show "e = MaxInt \<or> e \<le> ck_seq ck'" using inv sub by (simp add: ck_inv_def excl_ok_def)
    fix n ta assume "n \<in> set (ck_actv ck')" "n < e \<and> ck_bytable ck' tab n = Some ta"
    then show "\<not> wrote ta" using inv x sub unfolding bt ck_inv_def excl_ok_def by auto
  qed
  ultimately show ?thesis by (simp add: ck_inv_def)
qed

section \<open>Forgetting and aborting keep the invariant\<close>

lemma removeByTable_simps [simp]:
  "ck_trans (removeByTable ck t) = ck_trans ck" "ck_actv (removeByTable ck t) = ck_actv ck"
  "ck_cmtd (removeByTable ck t) = ck_cmtd ck" "ck_seq (removeByTable ck t) = ck_seq ck"
  "ck_oldest (removeByTable ck t) = ck_oldest ck" "ck_clock (removeByTable ck t) = ck_clock ck"
  "ck_exclusive (removeByTable ck t) = ck_exclusive ck"
  "ck_bytable (removeByTable ck t) tab n =
     (if tab \<in> set (ct_tables t) \<and> n = ct_start t then None else ck_bytable ck tab n)"
  by (auto simp: removeByTable_def)

lemma foldl_removeByTable:
  fixes ck :: check and f :: "int \<Rightarrow> ck_tran"
  defines "ck' \<equiv> \<lambda>ns. foldl (\<lambda>c n. removeByTable c (f n)) ck ns"
  shows "ck_trans (ck' ns) = ck_trans ck" "ck_actv (ck' ns) = ck_actv ck" "ck_seq (ck' ns) = ck_seq ck"
    "ck_oldest (ck' ns) = ck_oldest ck" "ck_clock (ck' ns) = ck_clock ck"
    "ck_bytable (ck' ns) tab m =
       (if \<exists>n\<in>set ns. ct_start (f n) = m \<and> tab \<in> set (ct_tables (f n)) then None else ck_bytable ck tab m)"
proof -
  have "ck_trans (ck' ns) = ck_trans ck \<and> ck_actv (ck' ns) = ck_actv ck \<and> ck_seq (ck' ns) = ck_seq ck
    \<and> ck_oldest (ck' ns) = ck_oldest ck \<and> ck_clock (ck' ns) = ck_clock ck
    \<and> ck_bytable (ck' ns) tab m =
       (if \<exists>n\<in>set ns. ct_start (f n) = m \<and> tab \<in> set (ct_tables (f n)) then None else ck_bytable ck tab m)"
    unfolding ck'_def by (induction ns rule: rev_induct) auto
  then show "ck_trans (ck' ns) = ck_trans ck" "ck_actv (ck' ns) = ck_actv ck" "ck_seq (ck' ns) = ck_seq ck"
    "ck_oldest (ck' ns) = ck_oldest ck" "ck_clock (ck' ns) = ck_clock ck"
    "ck_bytable (ck' ns) tab m =
       (if \<exists>n\<in>set ns. ct_start (f n) = m \<and> tab \<in> set (ct_tables (f n)) then None else ck_bytable ck tab m)"
    by blast+
qed

lemma updateOutstanding_simps [simp]:
  "ck_trans (updateOutstanding ck) = ck_trans ck" "ck_actv (updateOutstanding ck) = ck_actv ck"
  "ck_cmtd (updateOutstanding ck) = ck_cmtd ck" "ck_seq (updateOutstanding ck) = ck_seq ck"
  "ck_oldest (updateOutstanding ck) = ck_oldest ck" "ck_clock (updateOutstanding ck) = ck_clock ck"
  "ck_exclusive (updateOutstanding ck) = ck_exclusive ck" "ck_bytable (updateOutstanding ck) = ck_bytable ck"
  by (simp_all add: updateOutstanding_def)

lemma set_tran_simps [simp]:
  "ck_trans (set_tran ck n t) = (ck_trans ck)(n := t)" "ck_actv (set_tran ck n t) = ck_actv ck"
  "ck_cmtd (set_tran ck n t) = ck_cmtd ck" "ck_seq (set_tran ck n t) = ck_seq ck"
  "ck_oldest (set_tran ck n t) = ck_oldest ck" "ck_clock (set_tran ck n t) = ck_clock ck"
  "ck_exclusive (set_tran ck n t) = ck_exclusive ck" "ck_bytable (set_tran ck n t) = ck_bytable ck"
  by (simp_all add: set_tran_def)

text \<open>Changes of the counters alone.\<close>

lemma weaken_cong:
  assumes "weaken ck a" "ck_trans b = ck_trans a" "ck_actv b = ck_actv a" "ck_cmtd b = ck_cmtd a"
    "ck_seq b = ck_seq a" "ck_clock b = ck_clock a" "ck_exclusive b = ck_exclusive a" "ck_bytable b = ck_bytable a"
  shows "weaken ck b"
  using assms by (simp add: weaken_def)

lemma ck_inv_cong:
  assumes "ck_inv a" "ck_trans b = ck_trans a" "ck_actv b = ck_actv a" "ck_cmtd b = ck_cmtd a"
    "ck_seq b = ck_seq a" "ck_oldest b = ck_oldest a \<or> ck_oldest b = MaxInt" "ck_exclusive b = ck_exclusive a"
    "ck_bytable b = ck_bytable a"
  shows "ck_inv b"
  using assms by (auto simp: ck_inv_def trans_ok_def table_ok_def excl_ok_def actv_ok_def cmtd_ok_def)

lemma find_oldest_le: "n \<in> set (ck_actv ck) \<Longrightarrow> find_oldest ck \<le> ct_start (ck_trans ck n)"
proof -
  have "n \<in> set ns \<Longrightarrow> foldr (\<lambda>n m. min (ct_start (ck_trans ck n)) m) ns k \<le> ct_start (ck_trans ck n)" for ns k
    by (induction ns) (auto simp: min_le_iff_disj)
  then show "n \<in> set (ck_actv ck) \<Longrightarrow> find_oldest ck \<le> ct_start (ck_trans ck n)"
    by (simp add: find_oldest_def)
qed

lemma cleanEnded_oldest:
  "ck_oldest (cleanEnded ck) = (if ck_oldest ck = MaxInt then find_oldest ck else ck_oldest ck)"
  by (simp add: cleanEnded_def Let_def foldl_removeByTable)

lemma cleanEnded_sels:
  "ck_trans (cleanEnded ck) = ck_trans ck" "ck_actv (cleanEnded ck) = ck_actv ck" "ck_seq (cleanEnded ck) = ck_seq ck"
  "ck_clock (cleanEnded ck) = ck_clock ck"
  "ck_cmtd (cleanEnded ck) = filter (\<lambda>n. \<not> ct_end (ck_trans ck n) < ck_oldest (cleanEnded ck)) (ck_cmtd ck)"
  "ck_exclusive (cleanEnded ck) tab = Some e \<Longrightarrow> ck_exclusive ck tab = Some e"
  unfolding cleanEnded_oldest
  by (auto simp: cleanEnded_def Let_def foldl_removeByTable split: option.splits if_splits)

text \<open>The oldest active transaction is at most every active one and has been started.\<close>

lemma cleanEnded_oldest_le:
  assumes inv: "ck_inv ck" and n: "n \<in> set (ck_actv ck)"
  shows "ck_oldest (cleanEnded ck) \<le> n"
  using find_oldest_le [OF n] ck_invD(3) [OF inv, of n] n inv
  by (auto simp: cleanEnded_oldest ck_inv_def trans_ok_def)

lemma cleanEnded_oldest_seq:
  assumes inv: "ck_inv ck"
  shows "ck_oldest (cleanEnded ck) = MaxInt \<or> ck_oldest (cleanEnded ck) \<le> ck_seq ck"
proof (cases "ck_actv ck")
  case Nil
  then show ?thesis using inv by (auto simp: cleanEnded_oldest find_oldest_def ck_inv_def trans_ok_def)
next
  case (Cons n ns)
  then show ?thesis using cleanEnded_oldest_le [OF inv, of n] ck_invD(4) [OF inv, of n] by simp
qed

lemma cleanEnded_bytable:
  assumes inv: "ck_inv ck"
  shows "ck_bytable (cleanEnded ck) tab n = (if n \<in> known (cleanEnded ck) then ck_bytable ck tab n else None)"
proof -
  define gone where "gone = filter (\<lambda>n. ct_end (ck_trans ck n) < ck_oldest (cleanEnded ck)) (ck_cmtd ck)"
  have "ck_bytable (cleanEnded ck) tab n = (if \<exists>m\<in>set gone. ct_start (ck_trans ck m) = n \<and> tab \<in> set (ct_tables (ck_trans ck m))
      then None else ck_bytable ck tab n)"
    unfolding gone_def cleanEnded_oldest by (auto simp: cleanEnded_def Let_def foldl_removeByTable)
  moreover have "(\<exists>m\<in>set gone. ct_start (ck_trans ck m) = n \<and> tab \<in> set (ct_tables (ck_trans ck m)))
      \<longleftrightarrow> n \<in> set gone \<and> tab \<in> set (ct_tables (ck_trans ck n))"
    using ck_invD(3) [OF inv] by (auto simp: gone_def)
  moreover have "n \<in> known (cleanEnded ck) \<longleftrightarrow> n \<in> known ck \<and> n \<notin> set gone"
    using inv by (auto simp: gone_def cleanEnded_sels ck_inv_def trans_ok_def)
  moreover have "ck_bytable ck tab n = None" if "n \<notin> known ck \<or> tab \<notin> set (ct_tables (ck_trans ck n))"
    using ck_invD(5) [OF inv, of tab n] that by (cases "ck_bytable ck tab n") auto
  ultimately show ?thesis by auto
qed

lemma cleanEnded_weaken:
  assumes inv: "ck_inv ck"
  shows "weaken ck (cleanEnded ck)" "ck_inv (cleanEnded ck)" "ck_actv (cleanEnded ck) = ck_actv ck"
proof -
  show w: "weaken ck (cleanEnded ck)"
    unfolding weaken_def
  proof (intro conjI allI ballI impI)
    show "ct_end (ck_trans ck d) < n" if "d \<in> set (ck_cmtd ck) - set (ck_cmtd (cleanEnded ck))" "n \<in> set (ck_actv (cleanEnded ck))" for d n
      using that cleanEnded_oldest_le [OF inv, of n] by (auto simp: cleanEnded_sels)
  qed (use cleanEnded_bytable [OF inv] cleanEnded_sels [of ck] in auto)
  show "ck_inv (cleanEnded ck)"
  proof (rule weaken_inv [OF inv w])
    show "distinct (ck_actv (cleanEnded ck))" "distinct (ck_cmtd (cleanEnded ck))"
      using inv by (simp_all add: cleanEnded_sels(2,5) ck_inv_def trans_ok_def)
    show "ck_oldest (cleanEnded ck) = MaxInt \<or> ck_oldest (cleanEnded ck) \<le> ck_seq (cleanEnded ck)
      \<and> (\<forall>n\<in>set (ck_actv (cleanEnded ck)). ck_oldest (cleanEnded ck) \<le> n)"
      using cleanEnded_oldest_le [OF inv] cleanEnded_oldest_seq [OF inv] by (simp add: cleanEnded_sels(2,3))
  qed
qed (rule cleanEnded_sels)

lemma ck_abort_active:
  assumes inv: "ck_inv ck" and True: "n \<in> set (ck_actv ck)"
  shows "weaken ck (fst (ck_abort ck n reason)) \<and> ck_inv (fst (ck_abort ck n reason))
    \<and> set (ck_actv (fst (ck_abort ck n reason))) = set (ck_actv ck) - {n}"
proof -
  let ?t = "ck_trans ck n"
  have n: "ct_start ?t = n" using ck_invD(3) [OF inv, of n] True by simp
  define ck1 where "ck1 = set_tran ck n (?t\<lparr>ct_failure := (if reason = '''' then ''abort'' else reason)\<rparr>)"
  define ck3 where "ck3 = (removeByTable ck1 ?t)\<lparr>ck_actv := removeAll n (ck_actv ck)\<rparr>"
  define ck4 where "ck4 = (if n = ck_oldest ck3 \<or> ck_oldest ck3 = MaxInt then cleanEnded (ck3\<lparr>ck_oldest := MaxInt\<rparr>) else ck3)"
  have res: "fst (ck_abort ck n reason) = updateOutstanding ck4"
    using True by (simp add: ck_abort_def Let_def ck4_def ck3_def ck1_def)
  have tr: "same_tran (ck_trans ck m) (ck_trans ck3 m)" for m
    by (auto simp: ck3_def ck1_def same_tran_def)
  have nc: "n \<notin> set (ck_cmtd ck)" using True inv by (auto simp: ck_inv_def trans_ok_def)
  have bt: "ck_bytable ck3 tab m = (if m \<in> known ck3 then ck_bytable ck tab m else None)" for tab m
  proof -
    have "ck_bytable ck tab m = None" if "m \<notin> known ck \<or> tab \<notin> set (ct_tables (ck_trans ck m))"
      using ck_invD(5) [OF inv, of tab m] that by (cases "ck_bytable ck tab m") auto
    then show ?thesis using n True nc by (auto simp: ck3_def ck1_def)
  qed
  have w3: "weaken ck ck3"
    unfolding weaken_def using tr bt by (auto simp: ck3_def ck1_def)
  have i3: "ck_inv ck3"
    by (rule weaken_inv [OF inv w3]) (use inv in \<open>auto simp: ck3_def ck1_def ck_inv_def trans_ok_def distinct_removeAll\<close>)
  have i3': "ck_inv (ck3\<lparr>ck_oldest := MaxInt\<rparr>)" by (rule ck_inv_cong [OF i3]) simp_all
  have w3': "weaken ck (ck3\<lparr>ck_oldest := MaxInt\<rparr>)" by (rule weaken_cong [OF w3]) simp_all
  note c = cleanEnded_weaken [OF i3']
  have a3: "ck_actv (ck3\<lparr>ck_oldest := MaxInt\<rparr>) = removeAll n (ck_actv ck)" "ck_actv ck3 = removeAll n (ck_actv ck)"
    by (simp_all add: ck3_def)
  have w4: "weaken ck ck4" and i4: "ck_inv ck4" and a4: "ck_actv ck4 = removeAll n (ck_actv ck)"
    unfolding ck4_def using w3 i3 c(2,3) weaken_trans [OF w3' c(1)] a3 by (simp_all only: if_True if_False simp_thms split: if_split)
  show ?thesis
    unfolding res using weaken_cong [OF w4, of "updateOutstanding ck4"] ck_inv_cong [OF i4, of "updateOutstanding ck4"] a4
    by simp
qed

lemma ck_abort_weaken:
  assumes inv: "ck_inv ck"
  shows "weaken ck (fst (ck_abort ck n reason))" "ck_inv (fst (ck_abort ck n reason))"
    "set (ck_actv (fst (ck_abort ck n reason))) = set (ck_actv ck) - {n}"
  using ck_abort_active [OF inv, of n reason] inv weaken_refl
  by (cases "n \<in> set (ck_actv ck)"; simp add: ck_abort_def)+

lemma Abort_weaken:
  assumes inv: "ck_inv ck"
  shows "weaken ck (Abort ck t reason)" "ck_inv (Abort ck t reason)"
    "t \<in> set (ck_actv ck) \<Longrightarrow> set (ck_actv (Abort ck t reason)) = set (ck_actv ck) - {t}"
  using ck_abort_weaken [OF inv] ck_invD(3) [OF inv, of t] by (simp_all add: Abort_def)

text \<open>An active transaction that is aborted leaves no entry.\<close>

lemma aborted_no_entry:
  assumes inv: "ck_inv ck" and t: "t \<in> set (ck_actv ck)"
  shows "ck_bytable (Abort ck t reason) tab t = None"
proof -
  have "t \<notin> set (ck_cmtd ck)" using inv t by (auto simp: ck_inv_def trans_ok_def)
  then have "t \<notin> known (Abort ck t reason)"
    using Abort_weaken [OF inv, of t reason] t weakenD(2) by fastforce
  then show ?thesis using weakenD(4) [OF Abort_weaken(1) [OF inv, of t reason], of tab t] by simp
qed

section \<open>Conflicts\<close>

lemma conflict_text_nonempty: "conflict_text a b table \<noteq> ''''"
  by (simp add: conflict_text_def)

lemma set_readConflict:
  assumes inv: "ck_inv ck" and n: "\<not> ct_hasUpdates (ck_trans ck n)" "c \<noteq> ''''"
  shows "weaken ck (set_tran ck n ((ck_trans ck n)\<lparr>ct_readConflict := c\<rparr>))"
    "ck_inv (set_tran ck n ((ck_trans ck n)\<lparr>ct_readConflict := c\<rparr>))"
proof -
  show w: "weaken ck (set_tran ck n ((ck_trans ck n)\<lparr>ct_readConflict := c\<rparr>))"
    using weaken_refl [OF inv] n by (auto simp: weaken_def same_tran_def)
  show "ck_inv (set_tran ck n ((ck_trans ck n)\<lparr>ct_readConflict := c\<rparr>))"
    by (rule weaken_inv [OF inv w]) (use inv in \<open>auto simp: ck_inv_def trans_ok_def\<close>)
qed

text \<open>What \<^verbatim>\<open>abort1of\<close> achieves: the first transaction is gone, or it may no longer write, or the second may no
  longer write, or the second is gone.\<close>

lemma abort1of_ok:
  assumes inv: "ck_inv ck" and t: "t \<in> set (ck_actv ck)" and n: "n \<in> known ck" "n \<noteq> t"
    and a: "abort1of coin ck t n act1 act2 table = (ck', ab)"
  shows "weaken ck ck' \<and> ck_inv ck' \<and> (ab \<longrightarrow> t \<notin> set (ck_actv ck'))
    \<and> (\<not> ab \<longrightarrow> t \<in> set (ck_actv ck')
        \<and> (\<not> ct_hasUpdates (ck_trans ck t) \<and> ct_readConflict (ck_trans ck' t) \<noteq> ''''
           \<or> \<not> ct_hasUpdates (ck_trans ck n) \<and> ct_readConflict (ck_trans ck' n) \<noteq> ''''
           \<or> (\<forall>tab. ck_bytable ck' tab n = None)))"
proof -
  let ?x1 = "ck_trans ck t" and ?x2 = "ck_trans ck n"
  consider (reader) "\<not> ct_hasUpdates ?x1" | (other) "ct_hasUpdates ?x1" "\<not> ct_hasUpdates ?x2"
    | (first) "ct_hasUpdates ?x1" "ct_hasUpdates ?x2" "ct_ended ?x2 \<or> coin n"
    | (second) "ct_hasUpdates ?x1" "ct_hasUpdates ?x2" "\<not> (ct_ended ?x2 \<or> coin n)"
    by blast
  then show ?thesis
  proof cases
    case reader
    then show ?thesis
      using a set_readConflict [OF inv reader conflict_text_nonempty] t
      by (auto simp: abort1of_def Let_def conflict_text_nonempty)
  next
    case other
    then show ?thesis
      using a set_readConflict [OF inv other(2) conflict_text_nonempty] t
      by (auto simp: abort1of_def Let_def conflict_text_nonempty)
  next
    case first
    then have "ck' = Abort ck t (conflict_text act1 act2 table)" "ab" using a by (auto simp: abort1of_def Let_def)
    then show ?thesis using Abort_weaken [OF inv, of t] t by auto
  next
    case second
    then have c: "ck' = Abort ck n (conflict_text act2 act1 table)" "\<not> ab" using a by (auto simp: abort1of_def Let_def)
    have "n \<in> set (ck_actv ck)" using second(3) n(1) cmtd_ended [OF inv, of n] by blast
    then show ?thesis using Abort_weaken [OF inv, of n] aborted_no_entry [OF inv, of n] t n(2) c by auto
  qed
qed

section \<open>What has been recorded\<close>

definition keys_at :: "ckwrites \<Rightarrow> nat \<Rightarrow> gostr set" where
  "keys_at cw i = (if i < length cw then (case cw ! i of None \<Rightarrow> {} | Some s \<Rightarrow> ordset_elems s) else {})"

definition reads_at :: "ckreads \<Rightarrow> nat \<Rightarrow> gostr set" where
  "reads_at cr i = (if i < length cr then (case cr ! i of None \<Rightarrow> {} | Some r \<Rightarrow> ranges_elems r) else {})"

definition written :: "actions \<Rightarrow> nat \<Rightarrow> gostr set" where
  "written ta i = keys_at (outputs ta) i \<union> keys_at (deletes ta) i"

lemma wf_at:
  assumes "\<forall>s. Some s \<in> set c \<longrightarrow> P s" "i < length c" "c ! i = Some s"
  shows "P s"
  using assms by (metis nth_mem)

lemma ckwrites_anyInRange_ok:
  assumes "\<forall>s. Some s \<in> set cw \<longrightarrow> ordset_wf s"
  shows "ckwrites_anyInRange cw i a b = Some (\<exists>x\<in>keys_at cw i. a \<le> x \<and> x \<le> b)"
proof (cases "i < length cw")
  case True
  then show ?thesis
    using wf_at [OF assms True] os.any_elems os.any_nil
    by (cases "cw ! i") (auto simp: ckwrites_anyInRange_def keys_at_def)
qed (simp add: ckwrites_anyInRange_def keys_at_def)

lemma ckreads_contains_ok:
  assumes "\<forall>s. Some s \<in> set cr \<longrightarrow> ranges_wf s"
  shows "ckreads_contains cr i k = Some (k \<in> reads_at cr i)"
proof (cases "i < length cr")
  case True
  then show ?thesis
    using wf_at [OF assms True] rg.contains_elems rg.contains_nil
    by (cases "cr ! i") (auto simp: ckreads_contains_def reads_at_def)
qed (simp add: ckreads_contains_def reads_at_def)

lemma keys_at_wrote: "x \<in> written ta i \<Longrightarrow> wrote ta"
  by (auto simp: written_def keys_at_def wrote_def split: if_splits)

section \<open>The loops over the transactions of a table\<close>

lemma weaken_entry: "weaken ck ck' \<Longrightarrow> ck_bytable ck' tab n = Some ta \<Longrightarrow> ck_bytable ck tab n = Some ta"
  using weakenD(4) [of ck ck' tab n] by (auto split: if_splits)

lemma weaken_conflict: "weaken ck ck' \<Longrightarrow> ct_readConflict (ck_trans ck n) \<noteq> '''' \<Longrightarrow> ct_readConflict (ck_trans ck' n) \<noteq> ''''"
  using weakenD(3) [of ck ck' n] by (auto simp: same_tran_def)

lemma weaken_updates: "weaken ck ck' \<Longrightarrow> ct_hasUpdates (ck_trans ck' n) = ct_hasUpdates (ck_trans ck n)"
  using weakenD(3) [of ck ck' n] by (auto simp: same_tran_def)

lemma weaken_overlap: "weaken ck ck' \<Longrightarrow> tran_overlap (ck_trans ck' t) (ck_trans ck' n) = tran_overlap (ck_trans ck t) (ck_trans ck n)"
  using weakenD(3) [of ck ck' n] weakenD(3) [of ck ck' t] by (auto simp: same_tran_def tran_overlap_def)

text \<open>The outcome of such a loop: the transaction itself is aborted, or \<open>P\<close> holds for every other one it met.\<close>

definition loop_ok :: "(check \<Rightarrow> int \<Rightarrow> bool) \<Rightarrow> check \<Rightarrow> int \<Rightarrow> int list \<Rightarrow> (check \<times> bool) option \<Rightarrow> bool" where
  "loop_ok P ck t ord res \<longleftrightarrow> (\<exists>ck' ab. res = Some (ck', ab) \<and> weaken ck ck' \<and> ck_inv ck'
     \<and> (if ab then t \<notin> set (ck_actv ck') else t \<in> set (ck_actv ck') \<and> (\<forall>n\<in>set ord - {t}. P ck' n)))"

definition stable :: "(check \<Rightarrow> int \<Rightarrow> bool) \<Rightarrow> bool" where
  "stable P \<longleftrightarrow> (\<forall>ck ck' n. weaken ck ck' \<longrightarrow> P ck n \<longrightarrow> P ck' n)"

lemma loop_ok_Nil: "ck_inv ck \<Longrightarrow> t \<in> set (ck_actv ck) \<Longrightarrow> loop_ok P ck t [] (Some (ck, False))"
  using weaken_refl by (auto simp: loop_ok_def)

lemma loop_ok_abort: "weaken ck ck' \<Longrightarrow> ck_inv ck' \<Longrightarrow> t \<notin> set (ck_actv ck') \<Longrightarrow> loop_ok P ck t ord (Some (ck', True))"
  by (auto simp: loop_ok_def)

lemma loop_ok_step:
  assumes "stable P" "loop_ok P ck1 t ord res" "weaken ck ck1" "n \<noteq> t \<Longrightarrow> P ck1 n"
  shows "loop_ok P ck t (n # ord) res"
proof -
  obtain ck' ab where r: "res = Some (ck', ab)" "weaken ck1 ck'" "ck_inv ck'"
    "if ab then t \<notin> set (ck_actv ck') else t \<in> set (ck_actv ck') \<and> (\<forall>n\<in>set ord - {t}. P ck' n)"
    using assms(2) by (auto simp: loop_ok_def)
  have "n \<noteq> t \<Longrightarrow> P ck' n" using assms(1,4) r(2) by (auto simp: stable_def)
  then show ?thesis using r weaken_trans [OF assms(3) r(2)] by (auto simp: loop_ok_def split: if_splits)
qed

text \<open>Reads: a transaction that has only read is marked when another one has written into the range.\<close>

definition not_written :: "int \<Rightarrow> string \<Rightarrow> nat \<Rightarrow> gostr \<Rightarrow> gostr \<Rightarrow> check \<Rightarrow> int \<Rightarrow> bool" where
  "not_written t table i a b ck n \<longleftrightarrow> ct_readConflict (ck_trans ck t) \<noteq> ''''
     \<or> (\<forall>ta. ck_bytable ck table n = Some ta \<longrightarrow> tran_overlap (ck_trans ck t) (ck_trans ck n) \<longrightarrow>
          \<not> (\<exists>x\<in>written ta i. a \<le> x \<and> x \<le> b))"

lemma not_written_stable: "stable (not_written t table i a b)"
  unfolding stable_def
proof (intro allI impI)
  fix ck ck' n assume w: "weaken ck ck'" and h: "not_written t table i a b ck n"
  show "not_written t table i a b ck' n"
    using h weaken_conflict [OF w, of t] weaken_entry [OF w, of table n] weaken_overlap [OF w, of t n]
    unfolding not_written_def by blast
qed

lemma read_loop_ok:
  "ck_inv ck \<Longrightarrow> t \<in> set (ck_actv ck) \<Longrightarrow>
    loop_ok (not_written t table i a b) ck t ord (ck_read_loop coin ck t table i a b ord)"
proof (induction ord arbitrary: ck)
  case Nil
  then show ?case by (simp add: loop_ok_Nil)
next
  case (Cons n ord)
  note step = loop_ok_step [OF not_written_stable Cons.IH]
  show ?case
  proof (cases "ck_bytable ck table n")
    case None
    then show ?thesis using step [of ck ck n] Cons.prems weaken_refl by (simp add: not_written_def)
  next
    case (Some ta)
    note e = ck_invD(5) [OF Cons.prems(1) Some]
    have any: "ckwrites_anyInRange (outputs ta) i a b = Some (\<exists>x\<in>keys_at (outputs ta) i. a \<le> x \<and> x \<le> b)"
      "ckwrites_anyInRange (deletes ta) i a b = Some (\<exists>x\<in>keys_at (deletes ta) i. a \<le> x \<and> x \<le> b)"
      using e by (auto simp: acts_ok_def intro!: ckwrites_anyInRange_ok)
    define hit where "hit \<longleftrightarrow> (\<exists>x\<in>written ta i. a \<le> x \<and> x \<le> b)"
    show ?thesis
    proof (cases "n \<noteq> t \<and> tran_overlap (ck_trans ck t) (ck_trans ck n) \<and> hit")
      case False
      then have "ck_read_loop coin ck t table i a b (n # ord) = ck_read_loop coin ck t table i a b ord"
        using Some any by (auto simp: hit_def written_def)
      then show ?thesis using step [of ck ck n] Cons.prems weaken_refl Some False by (auto simp: hit_def not_written_def)
    next
      case True
      obtain ck1 ab where ab: "abort1of coin ck t n ''read'' ''write'' table = (ck1, ab)" by force
      have n: "n \<in> known ck" "n \<noteq> t" using e True by auto
      have eq: "ck_read_loop coin ck t table i a b (n # ord) = (if ab then Some (ck1, True) else ck_read_loop coin ck1 t table i a b ord)"
        using Some any True ab unfolding hit_def written_def by auto
      note r = abort1of_ok [OF Cons.prems n ab]
      have "ct_hasUpdates (ck_trans ck n)"
        using ck_invD(6) [OF Cons.prems(1) Some] keys_at_wrote True unfolding hit_def by blast
      then have "\<not> ab \<Longrightarrow> not_written t table i a b ck1 n" using r by (auto simp: not_written_def)
      then show ?thesis using r eq step [of ck1 ck n] by (cases ab) (auto simp: loop_ok_abort)
    qed
  qed
qed

text \<open>Writes: an active transaction that has read one of the keys is gone or marked.\<close>

definition not_read :: "string \<Rightarrow> gostr list \<Rightarrow> check \<Rightarrow> int \<Rightarrow> bool" where
  "not_read table keys ck n \<longleftrightarrow> n \<notin> set (ck_actv ck) \<or> ct_readConflict (ck_trans ck n) \<noteq> ''''
     \<or> (\<forall>ta. ck_bytable ck table n = Some ta \<longrightarrow> \<not> (\<exists>i<length keys. keys ! i \<in> reads_at (reads ta) i))"

lemma not_read_stable: "stable (not_read table keys)"
  unfolding stable_def
proof (intro allI impI)
  fix ck ck' n assume w: "weaken ck ck'" and h: "not_read table keys ck n"
  show "not_read table keys ck' n"
    using h weaken_conflict [OF w, of n] weaken_entry [OF w, of table n] weakenD(1) [OF w]
    unfolding not_read_def by blast
qed

lemma reads_any_ok:
  assumes "\<forall>s. Some s \<in> set cr \<longrightarrow> ranges_wf s"
  shows "reads_any cr j keys = Some (\<exists>i<length keys. keys ! i \<in> reads_at cr (j + i))"
  by (induction keys arbitrary: j) (auto simp: ckreads_contains_ok [OF assms] Ex_less_Suc2)

lemma active_overlap:
  assumes "ck_inv ck" "t \<in> set (ck_actv ck)" "n \<in> set (ck_actv ck)"
  shows "tran_overlap (ck_trans ck t) (ck_trans ck n)"
  using ck_invD(1) [OF assms(1,2)] ck_invD(1) [OF assms(1,3)] ck_invD(9) [OF assms(1)]
  by (simp add: tran_overlap_def actv_ok_def Let_def)

lemma ended_not_active: "ck_inv ck \<Longrightarrow> n \<in> known ck \<Longrightarrow> ct_ended (ck_trans ck n) \<longleftrightarrow> n \<notin> set (ck_actv ck)"
  using actv_not_ended cmtd_ended by auto

lemma write_hit:
  assumes inv: "ck_inv ck" and t: "t \<in> set (ck_actv ck)" "ct_hasUpdates (ck_trans ck t)" and n: "n \<in> known ck" "n \<noteq> t"
    and ab: "abort1of coin ck t n act ''read'' table = (ck1, ab)" and notab: "\<not> ab"
  shows "not_read table keys ck1 n" "weaken ck ck1" "ck_inv ck1" "t \<in> set (ck_actv ck1)" "ct_hasUpdates (ck_trans ck1 t)"
  using abort1of_ok [OF inv t(1) n ab] t(2) notab weaken_updates [of ck ck1 t] by (auto simp: not_read_def)

text \<open>A conflict in one of the loops: the loop ends, or it goes on with the other transaction out of the way.\<close>

lemma loop_ok_conflict:
  assumes P: "stable P" "\<And>c. (\<And>keys. not_read table keys c n) \<Longrightarrow> P c n"
    and inv: "ck_inv ck" "t \<in> set (ck_actv ck)" "ct_hasUpdates (ck_trans ck t)" and n: "n \<in> known ck" "n \<noteq> t"
    and ab: "abort1of coin ck t n act ''read'' table = (ck1, ab)"
    and rest: "\<And>c. ck_inv c \<Longrightarrow> t \<in> set (ck_actv c) \<Longrightarrow> ct_hasUpdates (ck_trans c t) \<Longrightarrow> loop_ok P c t ord (rest c)"
  shows "loop_ok P ck t (n # ord) (if ab then Some (ck1, True) else rest ck1)"
proof (cases ab)
  case True
  then show ?thesis using abort1of_ok [OF inv(1,2) n ab] by (simp add: loop_ok_abort)
next
  case False
  note h = write_hit [OF inv n ab False]
  then show ?thesis using False loop_ok_step [OF P(1) rest [OF h(3,4,5)] h(2)] P(2) [OF h(1)] by simp
qed

lemma write_loop_ok:
  "ck_inv ck \<Longrightarrow> t \<in> set (ck_actv ck) \<Longrightarrow> ct_hasUpdates (ck_trans ck t) \<Longrightarrow>
    loop_ok (not_read table keys) ck t ord (write_loop coin act ck t table keys ord)"
proof (induction ord arbitrary: ck)
  case Nil
  then show ?case by (simp add: loop_ok_Nil)
next
  case (Cons n ord)
  note step = loop_ok_step [OF not_read_stable Cons.IH]
  show ?case
  proof (cases "ck_bytable ck table n")
    case None
    then show ?thesis using step [of ck ck n] Cons.prems weaken_refl by (simp add: not_read_def)
  next
    case (Some ta)
    note e = ck_invD(5) [OF Cons.prems(1) Some]
    define hit where "hit \<longleftrightarrow> (\<exists>i<length keys. keys ! i \<in> reads_at (reads ta) i)"
    have any: "reads_any (reads ta) 0 keys = Some hit"
      using e reads_any_ok [of "reads ta" 0 keys] by (simp add: acts_ok_def hit_def)
    have active: "n \<in> set (ck_actv ck) \<Longrightarrow> tran_overlap (ck_trans ck t) (ck_trans ck n) \<and> \<not> ct_ended (ck_trans ck n)"
      using active_overlap [OF Cons.prems(1,2)] actv_not_ended [OF Cons.prems(1)] by blast
    show ?thesis
    proof (cases "n \<noteq> t \<and> n \<in> set (ck_actv ck) \<and> hit")
      case False
      then have "write_loop coin act ck t table keys (n # ord) = write_loop coin act ck t table keys ord"
        using Some any ended_not_active [OF Cons.prems(1), of n] e by auto
      then show ?thesis using step [of ck ck n] Cons.prems weaken_refl Some False by (auto simp: hit_def not_read_def)
    next
      case True
      obtain ck1 ab where ab: "abort1of coin ck t n act ''read'' table = (ck1, ab)" by force
      have n: "n \<in> known ck" "n \<noteq> t" using e True by auto
      have "write_loop coin act ck t table keys (n # ord) = (if ab then Some (ck1, True) else write_loop coin act ck1 t table keys ord)"
        using Some any True ab active by auto
      then show ?thesis using loop_ok_conflict [OF not_read_stable _ Cons.prems n ab Cons.IH] by simp
    qed
  qed
qed

lemma start_active: "ck_inv ck \<Longrightarrow> ct_start (ck_trans ck t) \<in> set (ck_actv ck) \<longleftrightarrow> t \<in> set (ck_actv ck)"
proof -
  assume inv: "ck_inv ck"
  have "ct_start (ck_trans ck t) \<in> {0, t}" using inv by (simp add: ck_inv_def trans_ok_def)
  moreover have "0 \<notin> set (ck_actv ck)" using ck_invD(1) [OF inv, of 0] by (auto simp: actv_ok_def Let_def)
  ultimately show ?thesis using ck_invD(3) [OF inv, of t] by auto
qed

text \<open>Updates: the old keys, and the new ones where they differ.\<close>

lemma reads_any_new_ok:
  assumes "\<forall>s. Some s \<in> set cr \<longrightarrow> ranges_wf s"
  shows "j + length keys \<le> length oldkeys \<Longrightarrow> reads_any_new cr j oldkeys keys =
    Some (\<exists>i<length keys. keys ! i \<noteq> oldkeys ! (j + i) \<and> keys ! i \<in> reads_at cr (j + i))"
  by (induction keys arbitrary: j) (auto simp: ckreads_contains_ok [OF assms] Ex_less_Suc2)

definition not_read_update :: "string \<Rightarrow> gostr list \<Rightarrow> gostr list \<Rightarrow> check \<Rightarrow> int \<Rightarrow> bool" where
  "not_read_update table oldkeys newkeys ck n \<longleftrightarrow> not_read table oldkeys ck n \<and> not_read table newkeys ck n"

lemma not_read_update_stable: "stable (not_read_update table oldkeys newkeys)"
  using not_read_stable unfolding stable_def not_read_update_def by blast

lemma reads_update_ok:
  assumes "acts_ok ta" "length newkeys \<le> length oldkeys"
  obtains del out where "reads_any (reads ta) 0 oldkeys = Some del" "reads_any_new (reads ta) 0 oldkeys newkeys = Some out"
    and "\<not> del \<Longrightarrow> \<not> (\<exists>i<length oldkeys. oldkeys ! i \<in> reads_at (reads ta) i)"
    "\<not> del \<Longrightarrow> \<not> out \<Longrightarrow> \<not> (\<exists>i<length newkeys. newkeys ! i \<in> reads_at (reads ta) i)"
proof -
  define del where "del \<longleftrightarrow> (\<exists>i<length oldkeys. oldkeys ! i \<in> reads_at (reads ta) i)"
  define out where "out \<longleftrightarrow> (\<exists>i<length newkeys. newkeys ! i \<noteq> oldkeys ! i \<and> newkeys ! i \<in> reads_at (reads ta) i)"
  show ?thesis
  proof (rule that [of del out])
    show "reads_any (reads ta) 0 oldkeys = Some del" "reads_any_new (reads ta) 0 oldkeys newkeys = Some out"
      using assms reads_any_ok [of "reads ta" 0 oldkeys] reads_any_new_ok [of "reads ta" 0 newkeys oldkeys]
      by (simp_all add: acts_ok_def del_def out_def)
    show "\<not> (\<exists>i<length newkeys. newkeys ! i \<in> reads_at (reads ta) i)" if "\<not> del" "\<not> out"
      using that assms(2) unfolding del_def out_def by (metis order_less_le_trans)
  qed (simp add: del_def)
qed

lemma update_loop_ok:
  "ck_inv ck \<Longrightarrow> t \<in> set (ck_actv ck) \<Longrightarrow> ct_hasUpdates (ck_trans ck t) \<Longrightarrow> length newkeys \<le> length oldkeys \<Longrightarrow>
    loop_ok (not_read_update table oldkeys newkeys) ck t ord (update_loop coin ck t table oldkeys newkeys ord)"
proof (induction ord arbitrary: ck)
  case Nil
  then show ?case by (simp add: loop_ok_Nil)
next
  case (Cons n ord)
  note rest = Cons.IH [OF _ _ _ Cons.prems(4)]
  note step = loop_ok_step [OF not_read_update_stable rest]
  show ?case
  proof (cases "ck_bytable ck table n")
    case None
    then show ?thesis using step [of ck ck n] Cons.prems weaken_refl by (simp add: not_read_update_def not_read_def)
  next
    case (Some ta)
    note e = ck_invD(5) [OF Cons.prems(1) Some]
    obtain del out where any: "reads_any (reads ta) 0 oldkeys = Some del" "reads_any_new (reads ta) 0 oldkeys newkeys = Some out"
      and none: "\<not> del \<Longrightarrow> \<not> (\<exists>i<length oldkeys. oldkeys ! i \<in> reads_at (reads ta) i)"
      "\<not> del \<Longrightarrow> \<not> out \<Longrightarrow> \<not> (\<exists>i<length newkeys. newkeys ! i \<in> reads_at (reads ta) i)"
      using reads_update_ok [of ta newkeys oldkeys] e Cons.prems(4) by metis
    have active: "n \<in> set (ck_actv ck) \<Longrightarrow> tran_overlap (ck_trans ck t) (ck_trans ck n) \<and> \<not> ct_ended (ck_trans ck n)"
      using active_overlap [OF Cons.prems(1,2)] actv_not_ended [OF Cons.prems(1)] by blast
    show ?thesis
    proof (cases "n \<noteq> t \<and> n \<in> set (ck_actv ck) \<and> (del \<or> out)")
      case False
      then have "update_loop coin ck t table oldkeys newkeys (n # ord) = update_loop coin ck t table oldkeys newkeys ord"
        using Some any ended_not_active [OF Cons.prems(1), of n] e by auto
      moreover have "n \<noteq> t \<Longrightarrow> not_read_update table oldkeys newkeys ck n"
        using False Some none by (auto simp: not_read_update_def not_read_def)
      ultimately show ?thesis using step [of ck ck n] Cons.prems weaken_refl by simp
    next
      case True
      obtain ck1 ab where ab: "abort1of coin ck t n (if del then ''delete'' else ''update'') ''read'' table = (ck1, ab)" by force
      have n: "n \<in> known ck" "n \<noteq> t" using e True by auto
      have "update_loop coin ck t table oldkeys newkeys (n # ord)
          = (if ab then Some (ck1, True) else update_loop coin ck1 t table oldkeys newkeys ord)"
        using Some any True ab active by auto
      then show ?thesis
        using loop_ok_conflict [OF not_read_update_stable _ Cons.prems(1-3) n ab rest] by (simp add: not_read_update_def)
    qed
  qed
qed

section \<open>Recording keeps the invariant\<close>

lemma put_actions_simps [simp]:
  "ck_trans (put_actions ck table n ta) = ck_trans ck" "ck_actv (put_actions ck table n ta) = ck_actv ck"
  "ck_cmtd (put_actions ck table n ta) = ck_cmtd ck" "ck_seq (put_actions ck table n ta) = ck_seq ck"
  "ck_oldest (put_actions ck table n ta) = ck_oldest ck" "ck_clock (put_actions ck table n ta) = ck_clock ck"
  "ck_exclusive (put_actions ck table n ta) = ck_exclusive ck"
  "ck_bytable (put_actions ck table n ta) tab m = (if tab = table \<and> m = n then Some ta else ck_bytable ck tab m)"
  by (simp_all add: put_actions_def)

text \<open>Whether exclusive access keeps a transaction from writing a table.\<close>

definition excluded :: "check \<Rightarrow> string \<Rightarrow> int \<Rightarrow> bool" where
  "excluded ck table n \<longleftrightarrow> (\<exists>e. ck_exclusive ck table = Some e \<and> n < e)"

lemma put_actions_inv:
  assumes inv: "ck_inv ck" and old: "ck_bytable ck table n = Some ta0" and ok: "acts_ok ta"
    and w: "wrote ta \<Longrightarrow> ct_hasUpdates (ck_trans ck n) \<and> (n \<in> set (ck_actv ck) \<longrightarrow> \<not> excluded ck table n)"
  shows "ck_inv (put_actions ck table n ta)"
proof -
  let ?c = "put_actions ck table n ta"
  note e = ck_invD(5) [OF inv old]
  have "trans_ok ?c" using inv by (simp add: ck_inv_def trans_ok_def actv_ok_def cmtd_ok_def)
  moreover have "table_ok ?c"
    unfolding table_ok_def
  proof (intro conjI allI impI)
    show "ck_bytable ?c tab m \<noteq> None \<longleftrightarrow> m \<in> known ?c \<and> tab \<in> set (ct_tables (ck_trans ?c m))" for tab m
      using inv e unfolding ck_inv_def table_ok_def by auto
    fix tab m ta' assume b: "ck_bytable ?c tab m = Some ta'"
    show "acts_ok ta'" using b ok ck_invD(5) [OF inv, of tab m ta'] by (auto split: if_splits)
    show "wrote ta' \<Longrightarrow> ct_hasUpdates (ck_trans ?c m)" using b w ck_invD(6) [OF inv, of tab m ta'] by (auto split: if_splits)
  qed
  moreover have "excl_ok ?c"
    using inv w unfolding ck_inv_def excl_ok_def excluded_def by auto
  ultimately show ?thesis by (simp add: ck_inv_def)
qed

lemma getActs_ok:
  assumes inv: "ck_inv ck" and t: "t \<in> set (ck_actv ck)" and g: "getActs ck t table = (ck1, ta)"
  shows "ck_inv ck1" "ck_bytable ck1 table t = Some ta" "ck_actv ck1 = ck_actv ck" "ck_cmtd ck1 = ck_cmtd ck"
    "ck_seq ck1 = ck_seq ck" "ck_exclusive ck1 = ck_exclusive ck" "ck_clock ck1 = ck_clock ck"
    "\<exists>tabs. ck_trans ck1 = (ck_trans ck)(t := (ck_trans ck t)\<lparr>ct_tables := tabs\<rparr>)"
    "ck_bytable ck table t = Some ta \<or> ck_bytable ck table t = None \<and> ta = no_actions"
    "tab \<noteq> table \<or> n \<noteq> t \<Longrightarrow> ck_bytable ck1 tab n = ck_bytable ck tab n"
proof -
  have st: "ct_start (ck_trans ck t) = t" using ck_invD(3) [OF inv, of t] t by simp
  have "ck_inv ck1 \<and> ck_bytable ck1 table t = Some ta \<and> ck_actv ck1 = ck_actv ck \<and> ck_cmtd ck1 = ck_cmtd ck
    \<and> ck_seq ck1 = ck_seq ck \<and> ck_exclusive ck1 = ck_exclusive ck \<and> ck_clock ck1 = ck_clock ck
    \<and> (\<exists>tabs. ck_trans ck1 = (ck_trans ck)(t := (ck_trans ck t)\<lparr>ct_tables := tabs\<rparr>))
    \<and> (ck_bytable ck table t = Some ta \<or> ck_bytable ck table t = None \<and> ta = no_actions)
    \<and> (tab \<noteq> table \<or> n \<noteq> t \<longrightarrow> ck_bytable ck1 tab n = ck_bytable ck tab n)"
  proof (cases "ck_bytable ck table t")
    case (Some ta0)
    then have "ck1 = ck" "ta = ta0" using g st by (auto simp: getActs_def Let_def)
    then show ?thesis using inv Some by (auto intro!: exI [of _ "ct_tables (ck_trans ck t)"])
  next
    case None
    have c: "ck1 = set_tran (put_actions ck table t no_actions) t ((ck_trans ck t)\<lparr>ct_tables := ct_tables (ck_trans ck t) @ [table]\<rparr>)"
      "ta = no_actions"
      using g st None by (auto simp: getActs_def Let_def)
    have nt: "table \<notin> set (ct_tables (ck_trans ck t))" using None ck_invD(7) [OF inv, of t table] t by auto
    have "trans_ok ck1"
      using inv nt t unfolding c ck_inv_def trans_ok_def by (auto simp: actv_ok_def cmtd_ok_def Let_def)
    moreover have "table_ok ck1"
      unfolding table_ok_def
    proof (intro conjI allI impI)
      show "ck_bytable ck1 tab m \<noteq> None \<longleftrightarrow> m \<in> known ck1 \<and> tab \<in> set (ct_tables (ck_trans ck1 m))" for tab m
        using inv t unfolding c ck_inv_def table_ok_def by auto
      fix tab m ta' assume b: "ck_bytable ck1 tab m = Some ta'"
      show "acts_ok ta'"
        using b ck_invD(5) [OF inv, of tab m ta'] unfolding c by (auto simp: acts_ok_def no_actions_def split: if_splits)
      show "wrote ta' \<Longrightarrow> ct_hasUpdates (ck_trans ck1 m)"
        using b ck_invD(6) [OF inv, of tab m ta'] unfolding c by (auto simp: wrote_def no_actions_def split: if_splits)
    qed
    moreover have "excl_ok ck1"
      using inv unfolding c ck_inv_def excl_ok_def by (auto simp: wrote_def no_actions_def)
    ultimately have "ck_inv ck1" by (simp add: ck_inv_def)
    then show ?thesis unfolding c using None by auto
  qed
  then show "ck_inv ck1" "ck_bytable ck1 table t = Some ta" "ck_actv ck1 = ck_actv ck" "ck_cmtd ck1 = ck_cmtd ck"
    "ck_seq ck1 = ck_seq ck" "ck_exclusive ck1 = ck_exclusive ck" "ck_clock ck1 = ck_clock ck"
    "\<exists>tabs. ck_trans ck1 = (ck_trans ck)(t := (ck_trans ck t)\<lparr>ct_tables := tabs\<rparr>)"
    "ck_bytable ck table t = Some ta \<or> ck_bytable ck table t = None \<and> ta = no_actions"
    "tab \<noteq> table \<or> n \<noteq> t \<Longrightarrow> ck_bytable ck1 tab n = ck_bytable ck tab n"
    by blast+
qed

end
