(* ===== verification/TranSave.thy ===== *)
theory TranSave
  imports TranInv
begin

text \<open>
  Recording what a transaction has read and written: the saving operations of the conflict checker never panic,
  they add to the entry of one transaction for one table and keep the invariant and the count of the recorded
  ranges, or they abort the transaction.
\<close>

section \<open>Recording\<close>

lemma pad_simps [simp]: "index < length (pad c index)" "length c \<le> length (pad c index)"
  by (auto simp: pad_def)

lemma pad_nth: "i < length (pad c index) \<Longrightarrow> pad c index ! i = (if i < length c then c ! i else None)"
  by (simp add: pad_def nth_append)

lemma pad_wf: "\<forall>s. Some s \<in> set c \<longrightarrow> P s \<Longrightarrow> Some s \<in> set (pad c index) \<Longrightarrow> P s"
  by (auto simp: pad_def)

lemma keys_at_update:
  assumes "length cw \<le> length c" "\<And>j. j < length c \<Longrightarrow> c ! j = (if j < length cw then cw ! j else None)" "i < length c"
  shows "keys_at (c[i := Some s]) j = (if j = i then ordset_elems s else keys_at cw j)"
  using assms by (auto simp: keys_at_def nth_list_update)

lemma reads_at_update:
  assumes "length cr \<le> length c" "\<And>j. j < length c \<Longrightarrow> c ! j = (if j < length cr then cr ! j else None)" "i < length c"
  shows "reads_at (c[i := Some s]) j = (if j = i then ranges_elems s else reads_at cr j)"
  using assms by (auto simp: reads_at_def nth_list_update)

lemma ckwrites_with_ok:
  assumes wf: "\<forall>s. Some s \<in> set cw \<longrightarrow> ordset_wf s"
  shows "\<exists>r. ckwrites_with cw i key = Some r \<and> (\<forall>cw'. r = Some cw' \<longrightarrow>
    (\<forall>s. Some s \<in> set cw' \<longrightarrow> ordset_wf s) \<and> cw' \<noteq> [] \<and> (\<forall>j. keys_at cw j \<subseteq> keys_at cw' j)
    \<and> (key \<noteq> [] \<longrightarrow> key \<in> keys_at cw' i))"
proof -
  define c where "c = pad cw i"
  define s where "s = (case c ! i of None \<Rightarrow> ordset_zero | Some s \<Rightarrow> s)"
  have c: "i < length c" "length cw \<le> length c" by (simp_all add: c_def)
  have s: "ordset_wf s"
  proof (cases "c ! i")
    case (Some x)
    then have "Some x \<in> set c" using c(1) by (metis nth_mem)
    then show ?thesis using pad_wf [OF wf, of x i] Some by (simp add: s_def c_def)
  qed (simp add: s_def os.wf_zero)
  obtain s' ok where ins: "ordset_Insert s key = Some (s', ok)" using os.ins_total [OF s] by blast
  have keys: "keys_at (c[i := Some s']) j = (if j = i then ordset_elems s' else keys_at cw j)" for j
    using keys_at_update [OF c(2) _ c(1)] pad_nth [of _ cw i] by (simp add: c_def)
  have old: "keys_at cw i \<subseteq> ordset_elems s"
    using c(1) pad_nth [of i cw i] by (auto simp: keys_at_def s_def c_def split: option.splits)
  have "ckwrites_with cw i key = Some (if ok then Some (c[i := Some s']) else None)"
    using ins by (simp add: ckwrites_with_def Let_def c_def [symmetric] s_def [symmetric])
  moreover have "Some x \<in> set (c[i := Some s']) \<Longrightarrow> ordset_wf x" for x
    using set_update_subset_insert [of c i "Some s'"] os.ins_wf [OF s ins] pad_wf [OF wf, of x i] by (auto simp: c_def)
  moreover have "keys_at cw j \<subseteq> keys_at (c[i := Some s']) j" for j
    unfolding keys using old os.ins_mono [OF s ins] by auto
  moreover have "ok \<Longrightarrow> key \<noteq> [] \<Longrightarrow> key \<in> keys_at (c[i := Some s']) i"
    unfolding keys using os.ins_nonempty [OF s] ins by auto
  ultimately show ?thesis using c(1) by (cases ok) auto
qed

text \<open>The number of ranges that are recorded.\<close>

definition range_count :: "ranges option \<Rightarrow> nat" where
  "range_count ro = (case ro of None \<Rightarrow> 0 | Some r \<Rightarrow> length (flat (ranges_view r)))"

definition read_count :: "ckreads \<Rightarrow> nat" where
  "read_count cr = sum_list (map range_count cr)"

lemma sum_list_update_nat:
  fixes xs :: "nat list"
  assumes "i < length xs"
  shows "int (sum_list (xs[i := y])) = int (sum_list xs) - int (xs ! i) + int y"
  using assms by (induction xs arbitrary: i) (auto split: nat.splits)

lemma ckreads_with_ok:
  assumes wf: "\<forall>s. Some s \<in> set cr \<longrightarrow> ranges_wf s" and ab: "a \<le> b"
  shows "\<exists>cr' inc. ckreads_with cr i a b = Some (cr', inc) \<and> (\<forall>s. Some s \<in> set cr' \<longrightarrow> ranges_wf s)
    \<and> (inc = ranges_Full \<or> int (read_count cr') = int (read_count cr) + inc
        \<and> (\<forall>j. reads_at cr j \<subseteq> reads_at cr' j) \<and> {v. a \<le> v \<and> v \<le> b} \<subseteq> reads_at cr' i)"
proof -
  define c where "c = pad cr i"
  define s where "s = (case c ! i of None \<Rightarrow> ranges_zero | Some s \<Rightarrow> s)"
  have c: "i < length c" "length cr \<le> length c" by (simp_all add: c_def)
  have s: "ranges_wf s"
  proof (cases "c ! i")
    case (Some x)
    then have "Some x \<in> set c" using c(1) by (metis nth_mem)
    then show ?thesis using pad_wf [OF wf, of x i] Some by (simp add: s_def c_def)
  qed (simp add: s_def rg.wf_zero)
  have cnt: "range_count (c ! i) = length (flat (ranges_view s))"
    using ranges_zero_wf(3) by (auto simp: range_count_def s_def split: option.splits)
  have old: "reads_at cr i \<subseteq> ranges_elems s"
    using c(1) pad_nth [of i cr i] by (auto simp: reads_at_def s_def c_def split: option.splits)
  have padc: "read_count c = read_count cr"
    by (simp add: read_count_def c_def pad_def range_count_def sum_list_replicate)
  have with_eq: "ckreads_with cr i a b = (do { (rs', inc) \<leftarrow> ranges_Insert s a b; Some (c[i := Some rs'], inc) })"
    by (simp add: ckreads_with_def Let_def c_def [symmetric] s_def [symmetric])
  have wf': "Some x \<in> set (c[i := Some s']) \<Longrightarrow> ranges_wf x" if "ranges_wf s'" for s' x
    using set_update_subset_insert [of c i "Some s'"] that pad_wf [OF wf, of x i] by (auto simp: c_def)
  show ?thesis
    using s ab
  proof (cases rule: ranges_Insert_spec)
    case (added s' n)
    have reads: "reads_at (c[i := Some s']) j = (if j = i then ranges_elems s' else reads_at cr j)" for j
      using reads_at_update [OF c(2) _ c(1)] pad_nth [of _ cr i] by (simp add: c_def)
    have "int (read_count (c[i := Some s'])) = int (read_count cr) + n"
      using sum_list_update_nat [of i "map range_count c" "range_count (Some s')"] c(1) cnt padc added(4)
      by (simp add: read_count_def map_update range_count_def)
    moreover have "reads_at cr j \<subseteq> reads_at (c[i := Some s']) j" for j
      unfolding reads added(3) using old by auto
    moreover have "{v. a \<le> v \<and> v \<le> b} \<subseteq> reads_at (c[i := Some s']) i" unfolding reads added(3) by auto
    ultimately show ?thesis using with_eq added(1) wf' [OF added(2)] by auto
  next
    case (full t)
    then show ?thesis using with_eq wf' [OF s] by auto
  qed
qed

section \<open>What recording changes\<close>

text \<open>Only the entry of one transaction for one table, which grows, and the object of that transaction.\<close>

definition records :: "int \<Rightarrow> string \<Rightarrow> check \<Rightarrow> check \<Rightarrow> bool" where
  "records t table ck ck' \<longleftrightarrow> ck_actv ck' = ck_actv ck \<and> ck_cmtd ck' = ck_cmtd ck \<and> ck_seq ck' = ck_seq ck
     \<and> ck_exclusive ck' = ck_exclusive ck
     \<and> (\<forall>n. n \<noteq> t \<longrightarrow> ck_trans ck' n = ck_trans ck n)
     \<and> ct_start (ck_trans ck' t) = ct_start (ck_trans ck t) \<and> ct_end (ck_trans ck' t) = ct_end (ck_trans ck t)
     \<and> ct_hasUpdates (ck_trans ck' t) = ct_hasUpdates (ck_trans ck t)
     \<and> ct_readConflict (ck_trans ck' t) = ct_readConflict (ck_trans ck t)
     \<and> (\<forall>tab n. (tab, n) \<noteq> (table, t) \<longrightarrow> ck_bytable ck' tab n = ck_bytable ck tab n)
     \<and> (\<forall>ta. ck_bytable ck table t = Some ta \<longrightarrow> (\<exists>ta'. ck_bytable ck' table t = Some ta'
          \<and> (\<forall>i. reads_at (reads ta) i \<subseteq> reads_at (reads ta') i) \<and> (\<forall>i. written ta i \<subseteq> written ta' i)))"

lemma records_trans: "records t table a b \<Longrightarrow> records t table b c \<Longrightarrow> records t table a c"
  unfolding records_def by (intro conjI allI impI) (simp_all, metis order_trans)

lemma records_refl: "records t table ck ck"
  by (auto simp: records_def)

lemma put_actions_records:
  assumes "ck_bytable ck table t = Some ta" "\<And>i. reads_at (reads ta) i \<subseteq> reads_at (reads ta') i" "\<And>i. written ta i \<subseteq> written ta' i"
  shows "records t table ck (put_actions ck table t ta')"
  using assms by (auto simp: records_def)

lemma getActs_records:
  assumes inv: "ck_inv ck" and t: "t \<in> set (ck_actv ck)" and g: "getActs ck t table = (ck1, ta)"
  shows "records t table ck ck1"
proof -
  note r = getActs_ok [OF inv t g]
  obtain tabs where tabs: "ck_trans ck1 = (ck_trans ck)(t := (ck_trans ck t)\<lparr>ct_tables := tabs\<rparr>)" using r(8) by blast
  show ?thesis
    unfolding records_def tabs using r(2-6,9,10) by auto
qed

text \<open>\<^verbatim>\<open>readCount\<close> is the number of recorded ranges.\<close>

definition entry_reads :: "check \<Rightarrow> int \<Rightarrow> string \<Rightarrow> nat" where
  "entry_reads ck t tab = (case ck_bytable ck tab t of None \<Rightarrow> 0 | Some ta \<Rightarrow> read_count (reads ta))"

definition count_ok :: "check \<Rightarrow> bool" where
  "count_ok ck \<longleftrightarrow> (\<forall>t\<in>set (ck_actv ck). ct_readCount (ck_trans ck t) =
     int (sum_list (map (entry_reads ck t) (ct_tables (ck_trans ck t)))))"

lemma count_ok_weaken:
  assumes "count_ok ck" "weaken ck ck'"
  shows "count_ok ck'"
  unfolding count_ok_def
proof
  fix t assume t: "t \<in> set (ck_actv ck')"
  have "entry_reads ck' t = entry_reads ck t"
    using weakenD(4) [OF assms(2), of _ t] t by (simp add: entry_reads_def fun_eq_iff)
  then show "ct_readCount (ck_trans ck' t) = int (sum_list (map (entry_reads ck' t) (ct_tables (ck_trans ck' t))))"
    using weakenD(3) [OF assms(2), of t] weakenD(1) [OF assms(2)] weakenD(9) [OF assms(2) t] t assms(1)
    by (auto simp: count_ok_def same_tran_def)
qed

lemma count_ok_put:
  assumes "count_ok ck" "ck_bytable ck table t = Some ta" "read_count (reads ta') = read_count (reads ta)"
  shows "count_ok (put_actions ck table t ta')"
proof -
  have "entry_reads (put_actions ck table t ta') n = entry_reads ck n" for n
    using assms(2,3) by (auto simp: entry_reads_def fun_eq_iff)
  then show ?thesis using assms(1) by (simp add: count_ok_def)
qed

lemma count_ok_getActs:
  assumes inv: "ck_inv ck" and t: "t \<in> set (ck_actv ck)" and g: "getActs ck t table = (ck1, ta)" and c: "count_ok ck"
  shows "count_ok ck1"
proof (cases "ck_bytable ck table t")
  case (Some ta0)
  then show ?thesis using g c ck_invD(3) [OF inv, of t] t by (simp add: getActs_def Let_def)
next
  case None
  have st: "ct_start (ck_trans ck t) = t" using ck_invD(3) [OF inv, of t] t by simp
  have c1: "ck1 = set_tran (put_actions ck table t no_actions) t ((ck_trans ck t)\<lparr>ct_tables := ct_tables (ck_trans ck t) @ [table]\<rparr>)"
    using g st None by (auto simp: getActs_def Let_def)
  have e: "entry_reads ck1 n = entry_reads ck n" for n
    using None by (auto simp: entry_reads_def c1 no_actions_def read_count_def fun_eq_iff)
  have "entry_reads ck t table = 0" using None by (simp add: entry_reads_def)
  then show ?thesis using c unfolding count_ok_def e by (auto simp: c1)
qed

lemma count_nonneg: "count_ok ck \<Longrightarrow> t \<in> set (ck_actv ck) \<Longrightarrow> 0 \<le> ct_readCount (ck_trans ck t)"
  by (simp add: count_ok_def)

section \<open>Saving\<close>

text \<open>The three saving operations record and succeed, or they abort the transaction.\<close>

definition saved :: "int \<Rightarrow> string \<Rightarrow> (check \<Rightarrow> bool) \<Rightarrow> check \<Rightarrow> (check \<times> bool) option \<Rightarrow> bool" where
  "saved t table Q ck res \<longleftrightarrow>
     (\<exists>ck'. res = Some (ck', True) \<and> records t table ck ck' \<and> ck_inv ck' \<and> count_ok ck' \<and> Q ck')
     \<or> (\<exists>ck1 ck'. res = Some (ck', False) \<and> records t table ck ck1 \<and> ck_inv ck1 \<and> count_ok ck1
          \<and> weaken ck1 ck' \<and> ck_inv ck' \<and> t \<notin> set (ck_actv ck'))"

lemma saved_ok: "ck_inv ck \<Longrightarrow> count_ok ck \<Longrightarrow> Q ck \<Longrightarrow> saved t table Q ck (Some (ck, True))"
  using records_refl by (auto simp: saved_def)

lemma saved_after: "records t table ck ck0 \<Longrightarrow> saved t table Q ck0 res \<Longrightarrow> saved t table Q ck res"
  unfolding saved_def using records_trans by blast

lemma saved_abort:
  assumes "ck_inv ck" "count_ok ck" "t \<in> set (ck_actv ck)"
  shows "saved t table Q ck (Some (Abort ck t reason, False))"
proof -
  have "t \<notin> set (ck_actv (Abort ck t reason))" using Abort_weaken(3) [OF assms(1,3)] by simp
  then show ?thesis
    using assms records_refl Abort_weaken(1,2) [OF assms(1), of t reason] unfolding saved_def by blast
qed

lemma saved_mono: "saved t table Q ck res \<Longrightarrow> (\<And>ck'. records t table ck ck' \<Longrightarrow> Q ck' \<Longrightarrow> Q' ck') \<Longrightarrow> saved t table Q' ck res"
  unfolding saved_def by blast

text \<open>What is written stays written while other keys are added.\<close>

definition has_written :: "int \<Rightarrow> string \<Rightarrow> nat \<Rightarrow> gostr list \<Rightarrow> check \<Rightarrow> bool" where
  "has_written t table i keys ck \<longleftrightarrow> (\<forall>j<length keys. keys ! j \<noteq> [] \<longrightarrow>
     (\<exists>ta. ck_bytable ck table t = Some ta \<and> keys ! j \<in> written ta (i + j)))"

lemma has_written_records: "has_written t table i keys ck \<Longrightarrow> records t table ck ck' \<Longrightarrow> has_written t table i keys ck'"
  unfolding has_written_def records_def by (meson subsetD)

lemma has_written_Cons:
  "has_written t table i (key # keys) ck \<longleftrightarrow>
     (key \<noteq> [] \<longrightarrow> (\<exists>ta. ck_bytable ck table t = Some ta \<and> key \<in> written ta i)) \<and> has_written t table (Suc i) keys ck"
  by (auto simp: has_written_def All_less_Suc2)

text \<open>One more key.\<close>

lemma put_written:
  assumes inv: "ck_inv ck" and c: "count_ok ck" and t: "t \<in> set (ck_actv ck)" "ct_hasUpdates (ck_trans ck t)" "\<not> excluded ck table t"
    and e: "ck_bytable ck table t = Some ta" and r: "reads ta' = reads ta" and ok: "acts_ok ta'" and w: "\<And>i. written ta i \<subseteq> written ta' i"
  shows "ck_inv (put_actions ck table t ta')" "count_ok (put_actions ck table t ta')" "records t table ck (put_actions ck table t ta')"
    "\<not> excluded (put_actions ck table t ta') table t"
  using put_actions_inv [OF inv e ok] count_ok_put [OF c e, of ta'] put_actions_records [OF e, of ta'] t r w
  by (auto simp: excluded_def)

lemma saved_key:
  assumes p: "ck_inv ck" "count_ok ck" "t \<in> set (ck_actv ck)" "ct_hasUpdates (ck_trans ck t)" "\<not> excluded ck table t"
      "ck_bytable ck table t = Some ta"
    and ta': "reads ta' = reads ta" "acts_ok ta'" "\<And>i. written ta i \<subseteq> written ta' i" "key \<noteq> [] \<Longrightarrow> key \<in> written ta' i"
    and rest: "saved t table (has_written t table (Suc i) keys) (put_actions ck table t ta') res"
  shows "saved t table (has_written t table i (key # keys)) ck res"
proof -
  let ?ck1 = "put_actions ck table t ta'"
  have one: "has_written t table i [key] ?ck1" using ta'(4) by (simp add: has_written_def)
  have "has_written t table i (key # keys) ck'" if "records t table ?ck1 ck'" "has_written t table (Suc i) keys ck'" for ck'
    using has_written_records [OF one that(1)] that(2) by (simp add: has_written_Cons)
  then have "saved t table (has_written t table i (key # keys)) ?ck1 res" by (rule saved_mono [OF rest])
  then show ?thesis by (rule saved_after [OF put_written(3) [OF p ta'(1-3)]])
qed

lemma saveOutput_ok:
  "ck_inv ck \<Longrightarrow> count_ok ck \<Longrightarrow> t \<in> set (ck_actv ck) \<Longrightarrow> ct_hasUpdates (ck_trans ck t) \<Longrightarrow> \<not> excluded ck table t \<Longrightarrow>
    ck_bytable ck table t = Some ta \<Longrightarrow> saved t table (has_written t table i keys) ck (saveOutput ck t table ta i keys)"
proof (induction keys arbitrary: ck ta i)
  case Nil
  then show ?case by (simp add: saved_ok has_written_def)
next
  case (Cons key keys)
  note e = ck_invD(5) [OF Cons.prems(1,6)]
  obtain ws where ws: "ckwrites_with (outputs ta) i key = Some ws" "\<forall>cw'. ws = Some cw' \<longrightarrow>
    (\<forall>s. Some s \<in> set cw' \<longrightarrow> ordset_wf s) \<and> cw' \<noteq> [] \<and> (\<forall>j. keys_at (outputs ta) j \<subseteq> keys_at cw' j) \<and> (key \<noteq> [] \<longrightarrow> key \<in> keys_at cw' i)"
    using ckwrites_with_ok [of "outputs ta" i key] e by (auto simp: acts_ok_def)
  show ?case
  proof (cases ws)
    case None
    then show ?thesis using ws(1) saved_abort [OF Cons.prems(1-3)] by simp
  next
    case (Some cw')
    define ta' where "ta' = ta\<lparr>outputs := cw'\<rparr>"
    have ok: "reads ta' = reads ta" "acts_ok ta'" "\<And>j. written ta j \<subseteq> written ta' j" "key \<noteq> [] \<Longrightarrow> key \<in> written ta' i"
      using ws(2) Some e by (auto simp: ta'_def acts_ok_def written_def)
    note p = put_written [OF Cons.prems ok(1,2,3)]
    have "saved t table (has_written t table i (key # keys)) ck (saveOutput (put_actions ck table t ta') t table ta' (Suc i) keys)"
      using saved_key [OF Cons.prems ok Cons.IH [OF p(1,2) _ _ p(4)]] Cons.prems(3,4) by simp
    then show ?thesis
      using ws(1) Some ck_invD(3) [OF Cons.prems(1), of t] Cons.prems(3) by (simp add: ta'_def Let_def)
  qed
qed

lemma saveDelete_from_ok:
  "ck_inv ck \<Longrightarrow> count_ok ck \<Longrightarrow> t \<in> set (ck_actv ck) \<Longrightarrow> ct_hasUpdates (ck_trans ck t) \<Longrightarrow> \<not> excluded ck table t \<Longrightarrow>
    ck_bytable ck table t = Some ta \<Longrightarrow> saved t table (has_written t table i keys) ck (saveDelete_from ck t table ta i keys)"
proof (induction keys arbitrary: ck ta i)
  case Nil
  then show ?case by (simp add: saved_ok has_written_def)
next
  case (Cons key keys)
  note e = ck_invD(5) [OF Cons.prems(1,6)]
  obtain ws where ws: "ckwrites_with (deletes ta) i key = Some ws" "\<forall>cw'. ws = Some cw' \<longrightarrow>
    (\<forall>s. Some s \<in> set cw' \<longrightarrow> ordset_wf s) \<and> cw' \<noteq> [] \<and> (\<forall>j. keys_at (deletes ta) j \<subseteq> keys_at cw' j) \<and> (key \<noteq> [] \<longrightarrow> key \<in> keys_at cw' i)"
    using ckwrites_with_ok [of "deletes ta" i key] e by (auto simp: acts_ok_def)
  show ?case
  proof (cases ws)
    case None
    then show ?thesis using ws(1) saved_abort [OF Cons.prems(1-3)] by simp
  next
    case (Some cw')
    define ta' where "ta' = ta\<lparr>deletes := cw'\<rparr>"
    have ok: "reads ta' = reads ta" "acts_ok ta'" "\<And>j. written ta j \<subseteq> written ta' j" "key \<noteq> [] \<Longrightarrow> key \<in> written ta' i"
      using ws(2) Some e by (auto simp: ta'_def acts_ok_def written_def)
    note p = put_written [OF Cons.prems ok(1,2,3)]
    have "saved t table (has_written t table i (key # keys)) ck (saveDelete_from (put_actions ck table t ta') t table ta' (Suc i) keys)"
      using saved_key [OF Cons.prems ok Cons.IH [OF p(1,2) _ _ p(4)]] Cons.prems(3,4) by simp
    then show ?thesis
      using ws(1) Some ck_invD(3) [OF Cons.prems(1), of t] Cons.prems(3) by (simp add: ta'_def Let_def)
  qed
qed

text \<open>A read is recorded, or the transaction has read too much and is aborted.\<close>

definition has_read :: "int \<Rightarrow> string \<Rightarrow> nat \<Rightarrow> gostr \<Rightarrow> gostr \<Rightarrow> check \<Rightarrow> bool" where
  "has_read t table i a b ck \<longleftrightarrow> (\<exists>ta. ck_bytable ck table t = Some ta \<and> {v. a \<le> v \<and> v \<le> b} \<subseteq> reads_at (reads ta) i)"

lemma sum_list_map_one:
  assumes "distinct xs" "x \<in> set xs" "\<And>y. y \<noteq> x \<Longrightarrow> f y = g y"
  shows "int (sum_list (map f xs)) = int (sum_list (map g xs)) - int (g x) + int (f x)"
  using assms
proof (induction xs)
  case (Cons y xs)
  show ?case
  proof (cases "y = x")
    case True
    then have "sum_list (map f xs) = sum_list (map g xs)" using Cons.prems by (metis distinct.simps(2) map_cong)
    then show ?thesis using True by simp
  qed (use Cons in auto)
qed simp

text \<open>The counter of an aborted transaction does not matter.\<close>

lemma weaken_recount:
  assumes w: "weaken (set_tran ck t ((ck_trans ck t)\<lparr>ct_readCount := c\<rparr>)) ck'" and gone: "t \<notin> set (ck_actv ck')"
  shows "weaken ck ck'"
  unfolding weaken_def
proof (intro conjI allI ballI)
  show "same_tran (ck_trans ck n) (ck_trans ck' n)" for n
    using weakenD(3) [OF w, of n] by (auto simp: same_tran_def split: if_splits)
  show "ct_readCount (ck_trans ck' n) = ct_readCount (ck_trans ck n)" if "n \<in> set (ck_actv ck')" for n
    using weakenD(9) [OF w that] that gone by auto
  show "ct_end (ck_trans ck d) < n" if "d \<in> set (ck_cmtd ck) - set (ck_cmtd ck')" "n \<in> set (ck_actv ck')" for d n
    using weakenD(5) [OF w, of d n] that by (auto split: if_splits)
qed (use weakenD [OF w] in auto)

lemma recount_inv: "ck_inv ck \<Longrightarrow> ck_inv (set_tran ck t ((ck_trans ck t)\<lparr>ct_readCount := c\<rparr>))"
  unfolding ck_inv_def trans_ok_def table_ok_def excl_ok_def by (auto simp: actv_ok_def cmtd_ok_def Let_def)

text \<open>The counter follows the ranges that are added.\<close>

lemma count_ok_reads:
  assumes inv: "ck_inv ck" and t: "t \<in> set (ck_actv ck)" and c: "count_ok ck" and b: "ck_bytable ck table t = Some ta"
    and cr: "int (read_count cr') = int (read_count (reads ta)) + inc"
  shows "count_ok (put_actions (set_tran ck t ((ck_trans ck t)\<lparr>ct_readCount := ct_readCount (ck_trans ck t) + inc\<rparr>)) table t
    (ta\<lparr>reads := cr'\<rparr>))" (is "count_ok ?ck'")
  unfolding count_ok_def
proof
  let ?x = "ck_trans ck t"
  fix n assume n: "n \<in> set (ck_actv ?ck')"
  show "ct_readCount (ck_trans ?ck' n) = int (sum_list (map (entry_reads ?ck' n) (ct_tables (ck_trans ?ck' n))))"
  proof (cases "n = t")
    case False
    then have "entry_reads ?ck' n = entry_reads ck n" by (simp add: entry_reads_def fun_eq_iff)
    then show ?thesis using False n c by (simp add: count_ok_def)
  next
    case True
    have d: "distinct (ct_tables ?x)" "table \<in> set (ct_tables ?x)"
      using ck_invD(1) [OF inv t] ck_invD(5) [OF inv b] by (auto simp: actv_ok_def Let_def)
    have "entry_reads ?ck' t tab = entry_reads ck t tab" if "tab \<noteq> table" for tab
      using that by (simp add: entry_reads_def)
    then have "int (sum_list (map (entry_reads ?ck' t) (ct_tables ?x)))
        = int (sum_list (map (entry_reads ck t) (ct_tables ?x))) - int (entry_reads ck t table) + int (entry_reads ?ck' t table)"
      by (rule sum_list_map_one [OF d])
    moreover have "entry_reads ck t table = read_count (reads ta)" "entry_reads ?ck' t table = read_count cr'"
      using b by (simp_all add: entry_reads_def)
    moreover have "ct_readCount ?x = int (sum_list (map (entry_reads ck t) (ct_tables ?x)))"
      using c t by (simp add: count_ok_def)
    ultimately show ?thesis using True cr by simp
  qed
qed

lemma saveRead_ok:
  assumes inv: "ck_inv ck" and c: "count_ok ck" and t: "t \<in> set (ck_actv ck)" and ab: "a \<le> b"
  shows "saved t table (has_read t table i a b) ck (saveRead ck t table i a b)"
proof -
  obtain ck1 ta where g: "getActs ck t table = (ck1, ta)" by force
  note r = getActs_ok [OF inv t g] and rec = getActs_records [OF inv t g] and c1 = count_ok_getActs [OF inv t g c]
  have t1: "t \<in> set (ck_actv ck1)" using t r(3) by simp
  have st: "ct_start (ck_trans ck1 t) = t" using ck_invD(3) [OF r(1), of t] t1 by simp
  note e = ck_invD(5) [OF r(1,2)]
  obtain cr' inc where w: "ckreads_with (reads ta) i a b = Some (cr', inc)" "\<forall>s. Some s \<in> set cr' \<longrightarrow> ranges_wf s"
    "inc = ranges_Full \<or> int (read_count cr') = int (read_count (reads ta)) + inc
        \<and> (\<forall>j. reads_at (reads ta) j \<subseteq> reads_at cr' j) \<and> {v. a \<le> v \<and> v \<le> b} \<subseteq> reads_at cr' i"
    using ckreads_with_ok [of "reads ta" a b i] ab e by (auto simp: acts_ok_def)
  let ?c = "ct_readCount (ck_trans ck1 t) + inc"
  define ck2 where "ck2 = set_tran ck1 t ((ck_trans ck1 t)\<lparr>ct_readCount := ?c\<rparr>)"
  have i2: "ck_inv ck2" unfolding ck2_def by (rule recount_inv [OF r(1)])
  have "saved t table (has_read t table i a b) ck1 (saveRead ck t table i a b)"
  proof (cases "readMax \<le> ?c")
    case True
    define ck3 where "ck3 = Abort ck2 t ''too many reads in one update transaction''"
    have res: "saveRead ck t table i a b = Some (ck3, False)"
      using g w(1) True by (simp add: saveRead_def Let_def ck2_def ck3_def)
    note ab = Abort_weaken [OF i2, of t "''too many reads in one update transaction''", folded ck3_def]
    have gone: "t \<notin> set (ck_actv ck3)" using ab(3) t1 by (simp add: ck2_def)
    then have "weaken ck1 ck3" by (rule weaken_recount [OF ab(1) [unfolded ck2_def]])
    then show ?thesis unfolding saved_def res using records_refl r(1) c1 ab(2) gone by blast
  next
    case False
    have "0 \<le> ct_readCount (ck_trans ck1 t)" using count_nonneg [OF c1 t1] .
    then have "inc \<noteq> ranges_Full" using False by (auto simp: readMax_def ranges_Full_def)
    then have cr: "int (read_count cr') = int (read_count (reads ta)) + inc" "\<And>j. reads_at (reads ta) j \<subseteq> reads_at cr' j"
      "{v. a \<le> v \<and> v \<le> b} \<subseteq> reads_at cr' i"
      using w(3) by auto
    define ta' where "ta' = ta\<lparr>reads := cr'\<rparr>"
    define ck3 where "ck3 = put_actions ck2 table t ta'"
    have res: "saveRead ck t table i a b = Some (ck3, True)"
      using g w(1) False st by (simp add: saveRead_def Let_def ck2_def ck3_def ta'_def)
    have b2: "ck_bytable ck2 table t = Some ta" using r(2) by (simp add: ck2_def)
    have wr: "wrote ta' = wrote ta" "written ta' = written ta" by (simp_all add: ta'_def wrote_def written_def fun_eq_iff)
    have "acts_ok ta'" using e w(2) by (auto simp: ta'_def acts_ok_def)
    moreover have "wrote ta' \<Longrightarrow> ct_hasUpdates (ck_trans ck2 t) \<and> (t \<in> set (ck_actv ck2) \<longrightarrow> \<not> excluded ck2 table t)"
      using ck_invD(6) [OF i2 b2] i2 b2 t1 unfolding wr ck_inv_def excl_ok_def excluded_def by blast
    ultimately have i3: "ck_inv ck3" unfolding ck3_def by (rule put_actions_inv [OF i2 b2])
    have "count_ok ck3" unfolding ck3_def ck2_def ta'_def by (rule count_ok_reads [OF r(1) t1 c1 r(2) cr(1)])
    moreover have "records t table ck1 ck3"
      using r(2) cr(2) wr(2) by (auto simp: records_def ck3_def ck2_def ta'_def)
    moreover have "has_read t table i a b ck3" using cr(3) by (simp add: has_read_def ck3_def ta'_def)
    ultimately show ?thesis unfolding saved_def res using i3 by blast
  qed
  then show ?thesis by (rule saved_after [OF rec])
qed

end
