(* ===== verification/TranHist.thy ===== *)
theory TranHist
  imports TranSave
begin

text \<open>
  The conflict checker together with a history of what it has been told: the ranges each transaction has read,
  the keys it has written, and the update transactions that have committed. The order
  of iteration over a table's transactions and the random choices are arguments of the operations. The invariant \<open>good\<close>
  relates the history to what the checker has recorded; every operation keeps it.
\<close>

section \<open>Histories\<close>

record history =
  h_reads :: "int \<Rightarrow> (string \<times> nat \<times> gostr \<times> gostr) list"
  h_writes :: "int \<Rightarrow> (string \<times> nat \<times> gostr) list"
  h_done :: "int list"

type_synonym item = "string \<times> nat \<times> gostr"

definition no_history :: history where
  "no_history = \<lparr>h_reads = (\<lambda>_. []), h_writes = (\<lambda>_. []), h_done = []\<rparr>"

text \<open>Keys of an index that a transaction has read or written.\<close>

definition in_range :: "item \<Rightarrow> string \<times> nat \<times> gostr \<times> gostr \<Rightarrow> bool" where
  "in_range x r = (case (x, r) of ((tab, i, k), (tab', i', a, b)) \<Rightarrow> tab = tab' \<and> i = i' \<and> a \<le> k \<and> k \<le> b)"

definition did_read :: "history \<Rightarrow> int \<Rightarrow> item \<Rightarrow> bool" where
  "did_read h t x = list_ex (in_range x) (h_reads h t)"

definition did_write :: "history \<Rightarrow> int \<Rightarrow> item \<Rightarrow> bool" where
  "did_write h t x = List.member (h_writes h t) x"

definition add_read :: "history \<Rightarrow> int \<Rightarrow> string \<Rightarrow> nat \<Rightarrow> gostr \<Rightarrow> gostr \<Rightarrow> history" where
  "add_read h t table i a b = h\<lparr>h_reads := (h_reads h)(t := (table, i, a, b) # h_reads h t)\<rparr>"

text \<open>The keys of the indexes of a table, in their order; the empty key is left out, because an empty
  ordered set does not store it.\<close>

definition index_keys :: "string \<Rightarrow> gostr list \<Rightarrow> item list" where
  "index_keys table keys = map (\<lambda>i. (table, i, keys ! i)) (filter (\<lambda>i. keys ! i \<noteq> []) [0..<length keys])"

definition add_writes :: "history \<Rightarrow> int \<Rightarrow> string \<Rightarrow> gostr list \<Rightarrow> history" where
  "add_writes h t table keys = h\<lparr>h_writes := (h_writes h)(t := index_keys table keys @ h_writes h t)\<rparr>"

lemma did_read_add: "did_read (add_read h t table i a b) n x \<longleftrightarrow> did_read h n x \<or> n = t \<and> in_range x (table, i, a, b)"
  by (auto simp: did_read_def add_read_def)

lemma did_write_add:
  "did_write (add_writes h t table keys) n x \<longleftrightarrow>
     did_write h n x \<or> n = t \<and> (\<exists>i<length keys. keys ! i \<noteq> [] \<and> x = (table, i, keys ! i))"
  by (auto simp: did_write_def add_writes_def index_keys_def)

lemma add_other [simp]:
  "did_write (add_read h t table i a b) = did_write h" "h_done (add_read h t table i a b) = h_done h"
  "did_read (add_writes h t table keys) = did_read h" "h_done (add_writes h t table keys) = h_done h"
  by (simp_all add: fun_eq_iff did_write_def did_read_def add_read_def add_writes_def)

section \<open>The invariant\<close>

definition recorded_write :: "check \<Rightarrow> int \<Rightarrow> item \<Rightarrow> bool" where
  "recorded_write ck n x = (case x of (tab, i, k) \<Rightarrow> \<exists>ta. ck_bytable ck tab n = Some ta \<and> k \<in> written ta i)"

definition recorded_read :: "check \<Rightarrow> int \<Rightarrow> item \<Rightarrow> bool" where
  "recorded_read ck n x = (case x of (tab, i, k) \<Rightarrow> \<exists>ta. ck_bytable ck tab n = Some ta \<and> k \<in> reads_at (reads ta) i)"

text \<open>An active transaction that may still write.\<close>

definition unmarked :: "check \<Rightarrow> int \<Rightarrow> bool" where
  "unmarked ck n \<longleftrightarrow> n \<in> set (ck_actv ck) \<and> ct_readConflict (ck_trans ck n) = ''''"

text \<open>A transaction that has committed with updates; it is kept while an active transaction overlaps it.\<close>

definition done_ok :: "check \<Rightarrow> int \<Rightarrow> bool" where
  "done_ok ck d \<longleftrightarrow> ct_start (ck_trans ck d) = d \<and> d < ct_end (ck_trans ck d) \<and> ct_end (ck_trans ck d) \<le> ck_seq ck
     \<and> ct_hasUpdates (ck_trans ck d) \<and> ct_readConflict (ck_trans ck d) = '''' \<and> d \<notin> set (ck_actv ck)
     \<and> (d \<in> set (ck_cmtd ck) \<or> (\<forall>n\<in>set (ck_actv ck). ct_end (ck_trans ck d) < n))"

text \<open>Reader \<open>e\<close> has not seen what \<open>d\<close> wrote and committed while \<open>e\<close> was running.\<close>

definition undisturbed :: "check \<Rightarrow> history \<Rightarrow> int \<Rightarrow> int \<Rightarrow> bool" where
  "undisturbed ck h e d \<longleftrightarrow> (ct_end (ck_trans ck d) < ct_end (ck_trans ck e) \<and> e < ct_end (ck_trans ck d) \<longrightarrow>
     (\<forall>x. did_read h e x \<longrightarrow> \<not> did_write h d x))"

definition hist :: "check \<Rightarrow> history \<Rightarrow> bool" where
  "hist ck h \<longleftrightarrow> (\<forall>n\<in>known ck. \<forall>x. did_write h n x \<longrightarrow> recorded_write ck n x)
     \<and> (\<forall>n x. unmarked ck n \<longrightarrow> did_read h n x \<longrightarrow> recorded_read ck n x)
     \<and> (\<forall>n. \<forall>m\<in>known ck. unmarked ck n \<longrightarrow> m \<noteq> n \<longrightarrow> tran_overlap (ck_trans ck n) (ck_trans ck m) \<longrightarrow>
          (\<forall>x. did_read h n x \<longrightarrow> \<not> did_write h m x))
     \<and> set (ck_cmtd ck) \<subseteq> set (h_done h)
     \<and> (\<forall>d\<in>set (h_done h). done_ok ck d)
     \<and> (\<forall>d\<in>set (h_done h). \<forall>e\<in>set (h_done h). d \<noteq> e \<longrightarrow>
          ct_end (ck_trans ck d) \<noteq> ct_end (ck_trans ck e) \<and> undisturbed ck h e d)
     \<and> (\<forall>n x. ck_seq ck < n \<longrightarrow> \<not> did_read h n x \<and> \<not> did_write h n x)"

lemma histD:
  assumes "hist ck h"
  shows "n \<in> known ck \<Longrightarrow> did_write h n x \<Longrightarrow> recorded_write ck n x"
    "unmarked ck n \<Longrightarrow> did_read h n x \<Longrightarrow> recorded_read ck n x"
    "unmarked ck n \<Longrightarrow> m \<in> known ck \<Longrightarrow> m \<noteq> n \<Longrightarrow> tran_overlap (ck_trans ck n) (ck_trans ck m) \<Longrightarrow>
       did_read h n x \<Longrightarrow> \<not> did_write h m x"
    "set (ck_cmtd ck) \<subseteq> set (h_done h)"
    "d \<in> set (h_done h) \<Longrightarrow> done_ok ck d"
    "d \<in> set (h_done h) \<Longrightarrow> e \<in> set (h_done h) \<Longrightarrow> d \<noteq> e \<Longrightarrow> ct_end (ck_trans ck d) \<noteq> ct_end (ck_trans ck e)"
    "d \<in> set (h_done h) \<Longrightarrow> e \<in> set (h_done h) \<Longrightarrow> d \<noteq> e \<Longrightarrow> undisturbed ck h e d"
    "ck_seq ck < n \<Longrightarrow> \<not> did_read h n x" "ck_seq ck < n \<Longrightarrow> \<not> did_write h n x"
  using assms unfolding hist_def by blast+

definition good :: "check \<Rightarrow> history \<Rightarrow> bool" where
  "good ck h \<longleftrightarrow> ck_inv ck \<and> count_ok ck \<and> hist ck h"

lemma goodD: "good ck h \<Longrightarrow> ck_inv ck" "good ck h \<Longrightarrow> count_ok ck" "good ck h \<Longrightarrow> hist ck h"
  by (simp_all add: good_def)

lemma good_new: "good NewCheck no_history"
  using NewCheck_inv
  by (simp add: good_def count_ok_def hist_def unmarked_def NewCheck_def no_history_def did_read_def did_write_def)

section \<open>What keeps the history valid\<close>

text \<open>Transactions may go, entries may grow, readers may be marked.\<close>

lemma hist_mono:
  assumes h: "hist ck h"
    and sub: "set (ck_actv ck') \<subseteq> set (ck_actv ck)" "set (ck_cmtd ck') \<subseteq> set (ck_cmtd ck)" "ck_seq ck \<le> ck_seq ck'"
    and tr: "\<And>n. n \<in> known ck' \<union> set (h_done h) \<Longrightarrow> ct_start (ck_trans ck' n) = ct_start (ck_trans ck n)
      \<and> ct_end (ck_trans ck' n) = ct_end (ck_trans ck n)"
    and mark: "\<And>n. unmarked ck' n \<Longrightarrow> unmarked ck n"
    and dn: "\<And>d. d \<in> set (h_done h) \<Longrightarrow> ct_hasUpdates (ck_trans ck' d) \<and> ct_readConflict (ck_trans ck' d) = ''''"
    and wr: "\<And>n x. n \<in> known ck' \<Longrightarrow> recorded_write ck n x \<Longrightarrow> recorded_write ck' n x"
    and rd: "\<And>n x. n \<in> set (ck_actv ck') \<Longrightarrow> recorded_read ck n x \<Longrightarrow> recorded_read ck' n x"
    and gone: "\<And>d n. d \<in> set (ck_cmtd ck) \<Longrightarrow> d \<notin> set (ck_cmtd ck') \<Longrightarrow> n \<in> set (ck_actv ck') \<Longrightarrow> ct_end (ck_trans ck d) < n"
  shows "hist ck' h"
  unfolding hist_def
proof (intro conjI allI ballI impI)
  have known: "known ck' \<subseteq> known ck" using sub by blast
  show "recorded_write ck' n x" if "n \<in> known ck'" "did_write h n x" for n x
    using wr [OF that(1)] histD(1) [OF h _ that(2)] known that(1) by blast
  show "recorded_read ck' n x" if "unmarked ck' n" "did_read h n x" for n x
    using rd [of n x] histD(2) [OF h mark [OF that(1)] that(2)] that(1) by (simp add: unmarked_def)
  show "\<not> did_write h m x"
    if "m \<in> known ck'" "unmarked ck' n" "m \<noteq> n" "tran_overlap (ck_trans ck' n) (ck_trans ck' m)" "did_read h n x" for n m x
  proof -
    have "n \<in> known ck'" using that(2) by (simp add: unmarked_def)
    then have "tran_overlap (ck_trans ck n) (ck_trans ck m)" using that(1,4) tr [of n] tr [of m] by (simp add: tran_overlap_def)
    then show ?thesis using histD(3) [OF h mark [OF that(2)] _ that(3) _ that(5)] that(1) known by blast
  qed
  show "set (ck_cmtd ck') \<subseteq> set (h_done h)" using histD(4) [OF h] sub by blast
  show "done_ok ck' d" if "d \<in> set (h_done h)" for d
    using histD(5) [OF h that] tr [of d] dn [OF that] sub gone [of d] that unfolding done_ok_def by auto
  show "ct_end (ck_trans ck' d) \<noteq> ct_end (ck_trans ck' e)" "undisturbed ck' h e d"
    if "d \<in> set (h_done h)" "e \<in> set (h_done h)" "d \<noteq> e" for d e
    using histD(6,7) [OF h that] tr [of d] tr [of e] that by (simp_all add: undisturbed_def)
  show "\<not> did_read h n x" "\<not> did_write h n x" if "ck_seq ck' < n" for n x
    using that sub(3) histD(8,9) [OF h, of n x] by simp_all
qed

lemma good_weaken:
  assumes g: "good ck h" and w: "weaken ck ck'" and i: "ck_inv ck'"
  shows "good ck' h"
proof -
  have "hist ck' h"
  proof (rule hist_mono [OF goodD(3) [OF g]])
    show "ct_start (ck_trans ck' n) = ct_start (ck_trans ck n) \<and> ct_end (ck_trans ck' n) = ct_end (ck_trans ck n)" for n
      using weakenD(3) [OF w, of n] by (simp add: same_tran_def)
    show "unmarked ck n" if "unmarked ck' n" for n
      using that weakenD(1) [OF w] weaken_conflict [OF w, of n] by (auto simp: unmarked_def)
    show "ct_hasUpdates (ck_trans ck' d) \<and> ct_readConflict (ck_trans ck' d) = ''''" if "d \<in> set (h_done h)" for d
      using histD(5) [OF goodD(3) [OF g] that] weakenD(3) [OF w, of d] by (auto simp: done_ok_def same_tran_def)
    show "recorded_write ck' n x" if "n \<in> known ck'" "recorded_write ck n x" for n x
      using that weakenD(4) [OF w, of _ n] by (simp add: recorded_write_def split: prod.splits)
    show "recorded_read ck' n x" if "n \<in> set (ck_actv ck')" "recorded_read ck n x" for n x
      using that weakenD(4) [OF w, of _ n] by (simp add: recorded_read_def split: prod.splits)
  qed (use weakenD [OF w] in auto)
  then show ?thesis using i count_ok_weaken [OF goodD(2) [OF g] w] by (simp add: good_def)
qed

lemma records_grow:
  assumes "records t table ck ck'"
  shows "recorded_write ck n x \<Longrightarrow> recorded_write ck' n x" "recorded_read ck n x \<Longrightarrow> recorded_read ck' n x"
    "unmarked ck' n \<longleftrightarrow> unmarked ck n" "known ck' = known ck"
    "ct_start (ck_trans ck' n) = ct_start (ck_trans ck n)" "ct_end (ck_trans ck' n) = ct_end (ck_trans ck n)"
    "ct_hasUpdates (ck_trans ck' n) = ct_hasUpdates (ck_trans ck n)"
    "ct_readConflict (ck_trans ck' n) = ct_readConflict (ck_trans ck n)"
proof -
  obtain tab i k where x: "x = (tab, i, k)" using prod_cases3 by blast
  have same: "ck_bytable ck' tab n = ck_bytable ck tab n" if "(tab, n) \<noteq> (table, t)"
    using assms that unfolding records_def by blast
  have grow: "\<exists>ta'. ck_bytable ck' tab n = Some ta' \<and> (\<forall>i. reads_at (reads ta) i \<subseteq> reads_at (reads ta') i) \<and> (\<forall>i. written ta i \<subseteq> written ta' i)"
    if "ck_bytable ck tab n = Some ta" for ta
  proof (cases "(tab, n) = (table, t)")
    case True
    then show ?thesis using assms that unfolding records_def by blast
  qed (use same that in auto)
  show "recorded_write ck n x \<Longrightarrow> recorded_write ck' n x" "recorded_read ck n x \<Longrightarrow> recorded_read ck' n x"
    unfolding x recorded_write_def recorded_read_def using grow by fastforce+
  show "known ck' = known ck" using assms by (simp add: records_def)
  show "ct_start (ck_trans ck' n) = ct_start (ck_trans ck n)" "ct_end (ck_trans ck' n) = ct_end (ck_trans ck n)"
    "ct_hasUpdates (ck_trans ck' n) = ct_hasUpdates (ck_trans ck n)"
    and c: "ct_readConflict (ck_trans ck' n) = ct_readConflict (ck_trans ck n)"
    using assms by (cases "n = t"; simp add: records_def)+
  then show "unmarked ck' n \<longleftrightarrow> unmarked ck n" using assms by (simp add: unmarked_def records_def)
qed

lemma hist_records:
  assumes h: "hist ck h" and r: "records t table ck ck'"
  shows "hist ck' h"
proof (rule hist_mono [OF h])
  show "ct_hasUpdates (ck_trans ck' d) \<and> ct_readConflict (ck_trans ck' d) = ''''" if "d \<in> set (h_done h)" for d
    using histD(5) [OF h that] records_grow(7,8) [OF r, of d] by (simp add: done_ok_def)
qed (use r records_grow(1,2,3,5,6) [OF r] in \<open>auto simp: records_def\<close>)

text \<open>A read that is recorded and that no overlapping transaction has written into.\<close>

lemma hist_add_read:
  assumes h: "hist ck h" and t: "t \<notin> set (h_done h)" "t \<le> ck_seq ck"
    and r: "unmarked ck t \<Longrightarrow> has_read t table i a b ck"
    and n: "\<And>m x. unmarked ck t \<Longrightarrow> m \<in> known ck \<Longrightarrow> m \<noteq> t \<Longrightarrow> tran_overlap (ck_trans ck t) (ck_trans ck m) \<Longrightarrow>
      in_range x (table, i, a, b) \<Longrightarrow> \<not> did_write h m x"
  shows "hist ck (add_read h t table i a b)"
  unfolding hist_def
proof (intro conjI allI ballI impI)
  let ?h = "add_read h t table i a b"
  show "recorded_read ck n x" if "unmarked ck n" "did_read ?h n x" for n x
  proof (cases "n = t \<and> in_range x (table, i, a, b)")
    case True
    then show ?thesis using r that(1) by (auto simp: has_read_def recorded_read_def in_range_def split: prod.splits)
  qed (use that histD(2) [OF h that(1), of x] did_read_add [of h t table i a b] in auto)
  show "\<not> did_write ?h m x" if "m \<in> known ck" "unmarked ck n" "m \<noteq> n" "tran_overlap (ck_trans ck n) (ck_trans ck m)"
    "did_read ?h n x" for n m x
    using that histD(3) [OF h that(2,1,3,4), of x] n [of m x] did_read_add [of h t table i a b n x] by auto
  show "undisturbed ck ?h e d" if "d \<in> set (h_done ?h)" "e \<in> set (h_done ?h)" "d \<noteq> e" for d e
    using histD(7) [OF h, of d e] that t by (auto simp: undisturbed_def did_read_add)
  show "\<not> did_read ?h n x" if "ck_seq ck < n" for n x
    using histD(8) [OF h that] that t by (simp add: did_read_add)
qed (use histD [OF h] in auto)

text \<open>Writes that are recorded and that no active transaction, still able to write, has read.\<close>

lemma hist_add_writes:
  assumes h: "hist ck h" and t: "t \<notin> set (h_done h)" "t \<le> ck_seq ck"
    and w: "t \<in> known ck \<Longrightarrow> has_written t table 0 keys ck"
    and n: "\<And>n i. t \<in> known ck \<Longrightarrow> unmarked ck n \<Longrightarrow> n \<noteq> t \<Longrightarrow> i < length keys \<Longrightarrow> \<not> did_read h n (table, i, keys ! i)"
  shows "hist ck (add_writes h t table keys)"
  unfolding hist_def
proof (intro conjI allI ballI impI)
  let ?h = "add_writes h t table keys"
  show "recorded_write ck m x" if "m \<in> known ck" "did_write ?h m x" for m x
    using that histD(1) [OF h that(1), of x] w unfolding did_write_add has_written_def recorded_write_def by auto
  show "\<not> did_write ?h m x" if "m \<in> known ck" "unmarked ck n" "m \<noteq> n" "tran_overlap (ck_trans ck n) (ck_trans ck m)"
    "did_read ?h n x" for n m x
    using that histD(3) [OF h that(2,1,3,4), of x] n [OF _ that(2)] by (auto simp: did_write_add)
  show "undisturbed ck ?h e d" if "d \<in> set (h_done ?h)" "e \<in> set (h_done ?h)" "d \<noteq> e" for d e
    using histD(7) [OF h, of d e] that t by (auto simp: undisturbed_def did_write_add)
  show "\<not> did_write ?h n x" if "ck_seq ck < n" for n x
    using histD(9) [OF h that] that t by (simp add: did_write_add)
qed (use histD [OF h] in auto)

section \<open>Reading\<close>

text \<open>The order of iteration visits every transaction of the table.\<close>

definition visits :: "check \<Rightarrow> string \<Rightarrow> int list \<Rightarrow> bool" where
  "visits ck table ord \<longleftrightarrow> (\<forall>n. ck_bytable ck table n \<noteq> None \<longrightarrow> n \<in> set ord)"

lemma visits_weaken: "visits ck table ord \<Longrightarrow> weaken ck ck' \<Longrightarrow> visits ck' table ord"
  unfolding visits_def by (metis not_Some_eq weaken_entry)

lemma active_not_done: "hist ck h \<Longrightarrow> t \<in> set (ck_actv ck) \<Longrightarrow> t \<notin> set (h_done h)"
  using histD(5) [of ck h t] by (auto simp: done_ok_def)

text \<open>What saving leaves behind: a good state in which the property holds, or in which the transaction is gone.\<close>

lemma saved_good:
  assumes g: "good ck h" and s: "saved t table Q ck res"
  obtains ck' ok where "res = Some (ck', ok)" "good ck' h" "ok \<Longrightarrow> records t table ck ck'" "ok \<Longrightarrow> Q ck'" "\<not> ok \<Longrightarrow> t \<notin> set (ck_actv ck')"
    "ck_seq ck' = ck_seq ck"
proof -
  consider (ok) ck' where "res = Some (ck', True)" "records t table ck ck'" "ck_inv ck'" "count_ok ck'" "Q ck'"
    | (fail) ck1 ck' where "res = Some (ck', False)" "records t table ck ck1" "ck_inv ck1" "count_ok ck1" "weaken ck1 ck'" "ck_inv ck'"
        "t \<notin> set (ck_actv ck')"
    using s unfolding saved_def by blast
  then show thesis
  proof cases
    case ok
    moreover have "ck_seq ck' = ck_seq ck" using ok(2) by (simp add: records_def)
    ultimately show ?thesis using that [of ck' True] hist_records [OF goodD(3) [OF g]] by (simp add: good_def)
  next
    case fail
    then have "good ck1 h" using hist_records [OF goodD(3) [OF g]] by (simp add: good_def)
    moreover have "ck_seq ck' = ck_seq ck" using fail(2) weakenD(6) [OF fail(5)] by (simp add: records_def)
    ultimately show ?thesis using that [of ck' False] fail good_weaken by blast
  qed
qed

lemma good_add_read_gone:
  assumes "good ck h" "t \<notin> set (h_done h)" "t \<le> ck_seq ck" "\<not> unmarked ck t"
  shows "good ck (add_read h t table i a b)"
  using assms hist_add_read [of ck h t table i a b] by (simp add: good_def)

text \<open>The checker answers, and the state is good for the history that the answer leads to; a transaction that is
  refused is no longer active.\<close>

definition answers :: "int \<Rightarrow> int \<Rightarrow> history \<Rightarrow> history \<Rightarrow> (check \<times> bool) option \<Rightarrow> bool" where
  "answers t seq h h' res \<longleftrightarrow> (\<exists>ck' ok. res = Some (ck', ok) \<and> good ck' (if ok then h' else h) \<and> ck_seq ck' = seq
     \<and> (\<not> ok \<longrightarrow> t \<notin> set (ck_actv ck')))"

lemma answers_simps [simp]:
  "answers t seq h h' (Some (ck', True)) \<longleftrightarrow> good ck' h' \<and> ck_seq ck' = seq"
  "answers t seq h h' (Some (ck', False)) \<longleftrightarrow> good ck' h \<and> ck_seq ck' = seq \<and> t \<notin> set (ck_actv ck')"
  by (auto simp: answers_def)

text \<open>Recording the range, when the loop has met no writer of it.\<close>

lemma saveRead_good:
  assumes g: "good ck h" and ab: "a \<le> b" and t: "t \<in> set (ck_actv ck)" and ord: "visits ck table ord"
    and nw: "\<And>n. n \<in> set ord \<Longrightarrow> n \<noteq> t \<Longrightarrow> not_written t table i a b ck n"
  shows "answers t (ck_seq ck) h (add_read h t table i a b) (do {
    (ck2, ok) \<leftarrow> saveRead ck t table i a b;
    Some (if ok then ck2 else Abort ck2 t ''too many reads in one update transaction'', True) })"
proof -
  have nd: "t \<notin> set (h_done h)" using active_not_done [OF goodD(3) [OF g] t] .
  obtain ck2 ok where s: "saveRead ck t table i a b = Some (ck2, ok)" "good ck2 h" "ok \<Longrightarrow> records t table ck ck2"
    "ok \<Longrightarrow> has_read t table i a b ck2" "\<not> ok \<Longrightarrow> t \<notin> set (ck_actv ck2)" "ck_seq ck2 = ck_seq ck"
    using saved_good [OF g saveRead_ok [OF goodD(1,2) [OF g] t ab, of table i]] by blast
  have seq: "t \<le> ck_seq ck2" using s(6) ck_invD(4) [OF goodD(1) [OF g], of t] t by simp
  show ?thesis
  proof (cases ok)
    case True
    note rg = records_grow [OF s(3) [OF True]]
    have "\<not> did_write h m x" if u: "unmarked ck2 t" and m: "m \<in> known ck2" "m \<noteq> t"
      and o: "tran_overlap (ck_trans ck2 t) (ck_trans ck2 m)" and x: "in_range x (table, i, a, b)" for m x
    proof
      assume "did_write h m x"
      then have "recorded_write ck m x" using histD(1) [OF goodD(3) [OF g]] m rg(4) by blast
      then obtain ta k where ta: "ck_bytable ck table m = Some ta" "k \<in> written ta i" "a \<le> k" "k \<le> b"
        using x by (auto simp: recorded_write_def in_range_def split: prod.splits)
      have "m \<in> set ord" using ord ta(1) by (auto simp: visits_def)
      then show False using nw [of m] m(2) ta u o rg(3,5,6) by (auto simp: not_written_def unmarked_def tran_overlap_def)
    qed
    then show ?thesis
      using s(1,2) True hist_add_read [OF goodD(3) [OF s(2)] nd seq, of table i a b] s(4,6) by (auto simp: good_def)
  next
    case False
    let ?ck3 = "Abort ck2 t ''too many reads in one update transaction''"
    note aw = Abort_weaken [OF goodD(1) [OF s(2)], of t "''too many reads in one update transaction''"]
    have "\<not> unmarked ?ck3 t" using s(5) [OF False] weakenD(1) [OF aw(1)] by (auto simp: unmarked_def)
    then have "good ?ck3 (add_read h t table i a b)" using weakenD(6) [OF aw(1)] seq
      by (intro good_add_read_gone [OF good_weaken [OF s(2) aw(1,2)] nd]) simp_all
    then show ?thesis using s(1,6) False weakenD(6) [OF aw(1)] by simp
  qed
qed

lemma ck_Read_good:
  assumes g: "good ck h" and ab: "a \<le> b" and ord: "visits ck table ord" and seq: "t \<le> ck_seq ck"
  shows "answers t (ck_seq ck) h (add_read h t table i a b) (ck_Read coin ord ck t table i a b)"
proof -
  note inv = goodD(1) [OF g]
  consider (marked) "ct_readConflict (ck_trans ck t) \<noteq> ''''" | (gone) "ct_readConflict (ck_trans ck t) = ''''" "t \<notin> set (ck_actv ck)"
    | (active) "ct_readConflict (ck_trans ck t) = ''''" "t \<in> set (ck_actv ck)"
    by blast
  then show ?thesis
  proof cases
    case marked
    then have "t \<notin> set (h_done h)" "\<not> unmarked ck t" using histD(5) [OF goodD(3) [OF g], of t] by (auto simp: done_ok_def unmarked_def)
    then show ?thesis using marked good_add_read_gone [OF g] seq by (auto simp: ck_Read_def)
  next
    case gone
    then show ?thesis using g start_active [OF inv, of t] by (auto simp: ck_Read_def Let_def)
  next
    case active
    obtain ck1 ab1 where l: "ck_read_loop coin ck t table i a b ord = Some (ck1, ab1)" "weaken ck ck1" "ck_inv ck1"
      "if ab1 then t \<notin> set (ck_actv ck1) else t \<in> set (ck_actv ck1) \<and> (\<forall>n\<in>set ord - {t}. not_written t table i a b ck1 n)"
      using read_loop_ok [OF inv active(2), of table i a b ord coin] unfolding loop_ok_def by blast
    have run: "ck_Read coin ord ck t table i a b = (if ab1 then Some (ck1, False) else do {
          (ck2, ok) \<leftarrow> saveRead ck1 t table i a b;
          Some (if ok then ck2 else Abort ck2 t ''too many reads in one update transaction'', True) })"
      using active start_active [OF inv, of t] actv_not_ended [OF inv active(2)] l(1) by (simp add: ck_Read_def Let_def)
    have g1: "good ck1 h" by (rule good_weaken [OF g l(2,3)])
    show ?thesis
      using run g1 l(4) weakenD(6) [OF l(2)] saveRead_good [OF g1 ab _ visits_weaken [OF ord l(2)], of t i]
      by (cases ab1) simp_all
  qed
qed

section \<open>Writing\<close>

text \<open>What the writing operations do first.\<close>

lemma good_hasUpdates:
  assumes g: "good ck h" and c: "ct_readConflict (ck_trans ck t) = ''''"
  defines "ck1 \<equiv> set_tran ck t ((ck_trans ck t)\<lparr>ct_hasUpdates := True\<rparr>)"
  shows "good ck1 h"
proof -
  have tr: "ct_start (ck_trans ck1 n) = ct_start (ck_trans ck n)" "ct_end (ck_trans ck1 n) = ct_end (ck_trans ck n)"
    "ct_tables (ck_trans ck1 n) = ct_tables (ck_trans ck n)" "ct_readConflict (ck_trans ck1 n) = ct_readConflict (ck_trans ck n)"
    "ct_readCount (ck_trans ck1 n) = ct_readCount (ck_trans ck n)"
    "ct_hasUpdates (ck_trans ck1 n) \<longleftrightarrow> ct_hasUpdates (ck_trans ck n) \<or> n = t" for n
    by (auto simp: ck1_def)
  have same: "ck_actv ck1 = ck_actv ck" "ck_cmtd ck1 = ck_cmtd ck" "ck_seq ck1 = ck_seq ck" "ck_bytable ck1 = ck_bytable ck"
    "ck_exclusive ck1 = ck_exclusive ck" "ck_oldest ck1 = ck_oldest ck"
    by (simp_all add: ck1_def)
  have "ck_inv ck1"
    using goodD(1) [OF g] c unfolding ck_inv_def trans_ok_def table_ok_def excl_ok_def actv_ok_def cmtd_ok_def Let_def tr same
    by auto
  moreover have "count_ok ck1" using goodD(2) [OF g] unfolding count_ok_def entry_reads_def tr same by simp
  moreover have "hist ck1 h"
    by (rule hist_mono [OF goodD(3) [OF g]])
      (use histD(5) [OF goodD(3) [OF g]] in \<open>auto simp: tr same unmarked_def recorded_write_def recorded_read_def done_ok_def\<close>)
  ultimately show ?thesis by (simp add: good_def)
qed

lemma Abort_gone: "ck_inv ck \<Longrightarrow> t \<notin> set (ck_actv (Abort ck t reason))"
  using Abort_weaken(1,3) [of ck t reason] weakenD(1) [of ck "Abort ck t reason"] by (cases "t \<in> set (ck_actv ck)") auto

lemma gotUpdate_good:
  assumes g: "good ck h" and u: "gotUpdate ck t = (ck1, ok)"
  shows "good ck1 h" "ck_seq ck1 = ck_seq ck" "\<not> ok \<Longrightarrow> t \<notin> set (ck_actv ck1)"
    "ok \<Longrightarrow> ct_hasUpdates (ck_trans ck1 t) \<and> ck_bytable ck1 = ck_bytable ck"
proof -
  note inv = goodD(1) [OF g]
  consider (updates) "ct_hasUpdates (ck_trans ck t)" "ck1 = ck" "ok"
    | (first) "ct_readConflict (ck_trans ck t) = ''''" "ck1 = set_tran ck t ((ck_trans ck t)\<lparr>ct_hasUpdates := True\<rparr>)" "ok"
    | (conflict) "ck1 = Abort ck t (ct_readConflict (ck_trans ck t))" "\<not> ok"
    using u unfolding gotUpdate_def Let_def by (metis (no_types) prod.inject)
  then have "good ck1 h \<and> ck_seq ck1 = ck_seq ck \<and> (\<not> ok \<longrightarrow> t \<notin> set (ck_actv ck1))
      \<and> (ok \<longrightarrow> ct_hasUpdates (ck_trans ck1 t) \<and> ck_bytable ck1 = ck_bytable ck)"
  proof cases
    case conflict
    note aw = Abort_weaken [OF inv, of t "ct_readConflict (ck_trans ck t)", folded conflict(1)]
    have "t \<notin> set (ck_actv ck1)" unfolding conflict(1) by (rule Abort_gone [OF inv])
    then show ?thesis using good_weaken [OF g aw(1,2)] weakenD(6) [OF aw(1)] conflict(2) by simp
  next
    case first
    then show ?thesis using good_hasUpdates [OF g first(1)] by simp
  qed (use g in simp)
  then show "good ck1 h" "ck_seq ck1 = ck_seq ck" "\<not> ok \<Longrightarrow> t \<notin> set (ck_actv ck1)"
    "ok \<Longrightarrow> ct_hasUpdates (ck_trans ck1 t) \<and> ck_bytable ck1 = ck_bytable ck"
    by blast+
qed

lemma write_start_good:
  assumes g: "good ck h"
  obtains ck1 where "write_start ck t table = Some (ck1, Some False)" "good ck1 h" "t \<notin> set (ck_actv ck1)" "ck_seq ck1 = ck_seq ck"
    | ck1 where "write_start ck t table = Some (ck1, None)" "good ck1 h" "t \<in> set (ck_actv ck1)" "ct_hasUpdates (ck_trans ck1 t)"
        "\<not> excluded ck1 table t" "ck_bytable ck1 = ck_bytable ck" "ck_seq ck1 = ck_seq ck"
proof -
  obtain ck1 ok where u: "gotUpdate ck t = (ck1, ok)" by force
  note gu = gotUpdate_good [OF g u]
  note i1 = goodD(1) [OF gu(1)]
  show thesis
  proof (cases "ok \<and> t \<in> set (ck_actv ck1)")
    case False
    then show ?thesis using that(1) [of ck1] u gu start_active [OF i1, of t] by (auto simp: write_start_def Let_def)
  next
    case True
    have st: "ct_start (ck_trans ck1 t) = t" "1 \<le> t" using ck_invD(1) [OF i1, of t] True by (simp_all add: actv_ok_def Let_def)
    have run: "write_start ck t table = (if excluded ck1 table t
        then Some (Abort ck1 t (''conflict with exclusive ('' @ table @ '')''), Some False) else Some (ck1, None))"
      using u True st actv_not_ended [OF i1, of t]
      by (auto simp: write_start_def Let_def excluded_def split: option.splits)
    show ?thesis
      using that(1) [OF _ good_weaken [OF gu(1) Abort_weaken(1,2) [OF i1]] Abort_gone [OF i1]] that(2) [of ck1] run gu True
        weakenD(6) [OF Abort_weaken(1) [OF i1]]
      by (auto split: if_splits)
  qed
qed

text \<open>Nobody who may still write has read the keys.\<close>

lemma not_read_history:
  assumes h: "hist ck h" and v: "visits ck table ord" and nr: "\<And>n. n \<in> set ord \<Longrightarrow> n \<noteq> t \<Longrightarrow> not_read table keys ck n"
    and n: "unmarked ck n" "n \<noteq> t" and i: "i < length keys"
  shows "\<not> did_read h n (table, i, keys ! i)"
proof
  assume "did_read h n (table, i, keys ! i)"
  then have "recorded_read ck n (table, i, keys ! i)" by (rule histD(2) [OF h n(1)])
  then obtain ta where ta: "ck_bytable ck table n = Some ta" "keys ! i \<in> reads_at (reads ta) i" by (auto simp: recorded_read_def)
  then have "n \<in> set ord" using v by (auto simp: visits_def)
  then show False using nr [of n] n ta i by (auto simp: not_read_def unmarked_def)
qed

text \<open>The common part of the three operations: the loop, then saving with the keys \<open>ks\<close> (a list for an output or a delete,
  two for an update).\<close>

lemma hist_fold_writes:
  assumes "hist ck h" "t \<notin> set (h_done h)" "t \<le> ck_seq ck" "\<forall>keys\<in>set ks. has_written t table 0 keys ck"
    and "\<And>n i keys. unmarked ck n \<Longrightarrow> n \<noteq> t \<Longrightarrow> keys \<in> set ks \<Longrightarrow> i < length keys \<Longrightarrow> \<not> did_read h n (table, i, keys ! i)"
  shows "hist ck (fold (\<lambda>keys h. add_writes h t table keys) ks h)"
  using assms
proof (induction ks arbitrary: h)
  case (Cons keys ks)
  have "hist ck (add_writes h t table keys)"
    using hist_add_writes [OF Cons.prems(1-3), of table keys] Cons.prems(4,5) by simp
  then show ?case using Cons.IH [of "add_writes h t table keys"] Cons.prems(2-5) by simp
qed simp

lemma loop_then_save:
  assumes g: "good ck h" and t: "t \<in> set (ck_actv ck)" "ct_hasUpdates (ck_trans ck t)" "\<not> excluded ck table t"
    and v: "visits ck table ord" and l: "loop_ok P ck t ord res"
    and P: "\<And>c n keys. P c n \<Longrightarrow> keys \<in> set ks \<Longrightarrow> not_read table keys c n"
    and s: "\<And>c ta. ck_inv c \<Longrightarrow> count_ok c \<Longrightarrow> t \<in> set (ck_actv c) \<Longrightarrow> ct_hasUpdates (ck_trans c t) \<Longrightarrow> \<not> excluded c table t \<Longrightarrow>
      ck_bytable c table t = Some ta \<Longrightarrow> saved t table (\<lambda>c'. \<forall>keys\<in>set ks. has_written t table 0 keys c') c (save c ta)"
  shows "answers t (ck_seq ck) h (fold (\<lambda>keys h. add_writes h t table keys) ks h)
    (do { (ck2, aborted) \<leftarrow> res; if aborted then Some (ck2, False) else (case getActs ck2 t table of (ck3, ta) \<Rightarrow> save ck3 ta) })"
proof -
  obtain ck2 ab where r: "res = Some (ck2, ab)" "weaken ck ck2" "ck_inv ck2"
    "if ab then t \<notin> set (ck_actv ck2) else t \<in> set (ck_actv ck2) \<and> (\<forall>n\<in>set ord - {t}. P ck2 n)"
    using l unfolding loop_ok_def by blast
  have g2: "good ck2 h" by (rule good_weaken [OF g r(2,3)])
  show ?thesis
  proof (cases ab)
    case True
    then show ?thesis using r(1,4) g2 weakenD(6) [OF r(2)] by simp
  next
    case False
    then have t2: "t \<in> set (ck_actv ck2)" and P2: "\<And>n. n \<in> set ord \<Longrightarrow> n \<noteq> t \<Longrightarrow> P ck2 n" using r(4) by auto
    obtain ck3 ta where a: "getActs ck2 t table = (ck3, ta)" by force
    note ga = getActs_ok [OF r(3) t2 a] and rec = getActs_records [OF r(3) t2 a] and rg = records_grow [OF getActs_records [OF r(3) t2 a]]
    have g3: "good ck3 h"
      using hist_records [OF goodD(3) [OF g2] rec] ga(1) count_ok_getActs [OF r(3) t2 a goodD(2) [OF g2]] by (simp add: good_def)
    have t3: "t \<in> set (ck_actv ck3)" "ct_hasUpdates (ck_trans ck3 t)" "\<not> excluded ck3 table t"
      using t2 t(2,3) ga(3,6) rg(7) weaken_updates [OF r(2), of t] weakenD(8) [OF r(2), of table] by (auto simp: excluded_def)
    obtain ck4 ok where s4: "save ck3 ta = Some (ck4, ok)" "good ck4 h" "ok \<Longrightarrow> records t table ck3 ck4"
      "ok \<Longrightarrow> \<forall>keys\<in>set ks. has_written t table 0 keys ck4" "\<not> ok \<Longrightarrow> t \<notin> set (ck_actv ck4)" "ck_seq ck4 = ck_seq ck3"
      using saved_good [OF g3 s [OF goodD(1,2) [OF g3] t3 ga(2)]] by blast
    have nr: "\<not> did_read h n (table, i, keys ! i)" if "unmarked ck2 n" "n \<noteq> t" "keys \<in> set ks" "i < length keys" for n i keys
      using not_read_history [OF goodD(3) [OF g2] visits_weaken [OF v r(2)] _ that(1,2,4)] P2 P that(3) by blast
    have "good ck4 (fold (\<lambda>keys h. add_writes h t table keys) ks h)" if ok
      using hist_fold_writes [OF goodD(3) [OF s4(2)] active_not_done [OF goodD(3) [OF g3] t3(1)] _ s4(4) [OF that]]
        nr rg(3) records_grow(3) [OF s4(3) [OF that]] ck_invD(4) [OF ga(1), of t] t3(1) s4(2,6) by (auto simp: good_def)
    then show ?thesis using r(1) False a s4(1,2,5,6) ga(5) weakenD(6) [OF r(2)] by (cases ok) simp_all
  qed
qed

lemma ck_Output_good:
  assumes g: "good ck h" and v: "visits ck table ord"
  shows "answers t (ck_seq ck) h (add_writes h t table keys) (ck_Output coin ord ck t table keys)"
  using g
proof (cases rule: write_start_good [of ck h t table])
  case (1 ck1)
  then show ?thesis by (auto simp: ck_Output_def)
next
  case (2 ck1)
  have "visits ck1 table ord" using v 2(6) by (simp add: visits_def)
  from loop_then_save [OF 2(2-5) this write_loop_ok [OF goodD(1) [OF 2(2)] 2(3,4), of table keys ord coin "''output''"],
      where ks = "[keys]" and save = "\<lambda>c ta. saveOutput c t table ta 0 keys"]
  show ?thesis using saveOutput_ok [where i = 0 and keys = keys] 2(1,7) by (simp add: ck_Output_def)
qed

lemma saveDelete_ok:
  "off \<noteq> 0 \<Longrightarrow> saveDelete ck t table ta off keys = saveDelete_from ck t table ta 0 keys"
  by (simp add: saveDelete_def)

lemma ck_Delete_good:
  assumes g: "good ck h" and v: "visits ck table ord" and off: "off \<noteq> 0"
  shows "answers t (ck_seq ck) h (add_writes h t table keys) (ck_Delete coin ord ck t table off keys)"
  using g
proof (cases rule: write_start_good [of ck h t table])
  case (1 ck1)
  then show ?thesis by (auto simp: ck_Delete_def)
next
  case (2 ck1)
  have "visits ck1 table ord" using v 2(6) by (simp add: visits_def)
  from loop_then_save [OF 2(2-5) this write_loop_ok [OF goodD(1) [OF 2(2)] 2(3,4), of table keys ord coin "''delete''"],
      where ks = "[keys]" and save = "\<lambda>c ta. saveDelete c t table ta off keys"]
  show ?thesis using saveDelete_from_ok [where i = 0 and keys = keys] 2(1,7) by (simp add: ck_Delete_def saveDelete_ok [OF off])
qed

text \<open>An update deletes the old keys and outputs the new ones.\<close>

lemma saved_then:
  assumes s: "saved t table Q ck res" and nxt: "\<And>ck'. records t table ck ck' \<Longrightarrow> ck_inv ck' \<Longrightarrow> count_ok ck' \<Longrightarrow> Q ck' \<Longrightarrow> saved t table Q' ck' (f ck')"
  shows "saved t table Q' ck (do { (ck', ok) \<leftarrow> res; if ok then f ck' else Some (ck', False) })"
proof -
  consider (ok) ck' where "res = Some (ck', True)" "records t table ck ck'" "ck_inv ck'" "count_ok ck'" "Q ck'"
    | (fail) ck1 ck' where "res = Some (ck', False)" "records t table ck ck1" "ck_inv ck1" "count_ok ck1" "weaken ck1 ck'" "ck_inv ck'"
        "t \<notin> set (ck_actv ck')"
    using s unfolding saved_def by blast
  then show ?thesis
  proof cases
    case ok
    then show ?thesis using saved_after [OF ok(2) nxt [OF ok(2-5)]] by simp
  next
    case fail
    then show ?thesis unfolding saved_def by auto
  qed
qed

lemma save_update_ok:
  assumes p: "ck_inv ck" "count_ok ck" "t \<in> set (ck_actv ck)" "ct_hasUpdates (ck_trans ck t)" "\<not> excluded ck table t" "ck_bytable ck table t = Some ta"
    and off: "off \<noteq> 0"
  shows "saved t table (\<lambda>c. \<forall>keys\<in>set [oldkeys, newkeys]. has_written t table 0 keys c) ck
    (do { (ck4, ok) \<leftarrow> saveDelete ck t table ta off oldkeys;
          if ok then do { ta4 \<leftarrow> ck_bytable ck4 table (ct_start (ck_trans ck4 t)); saveOutput ck4 t table ta4 0 newkeys }
          else Some (ck4, False) })"
  unfolding saveDelete_ok [OF off]
proof (rule saved_then [OF saveDelete_from_ok [OF p, of 0 oldkeys]])
  fix ck' assume c: "records t table ck ck'" "ck_inv ck'" "count_ok ck'" "has_written t table 0 oldkeys ck'"
  obtain ta' where ta': "ck_bytable ck' table t = Some ta'" using c(1) p(6) unfolding records_def by blast
  have t: "t \<in> set (ck_actv ck')" "ct_hasUpdates (ck_trans ck' t)" "\<not> excluded ck' table t"
    using p(3-5) c(1) by (simp_all add: records_def excluded_def)
  have st: "ct_start (ck_trans ck' t) = t" using ck_invD(3) [OF c(2), of t] t(1) by simp
  have "saved t table (\<lambda>c. \<forall>keys\<in>set [oldkeys, newkeys]. has_written t table 0 keys c) ck' (saveOutput ck' t table ta' 0 newkeys)"
    using saved_mono [OF saveOutput_ok [OF c(2,3) t ta', of 0 newkeys]] has_written_records [OF c(4)] by simp
  then show "saved t table (\<lambda>c. \<forall>keys\<in>set [oldkeys, newkeys]. has_written t table 0 keys c) ck'
      (do { ta4 \<leftarrow> ck_bytable ck' table (ct_start (ck_trans ck' t)); saveOutput ck' t table ta4 0 newkeys })"
    using st ta' by simp
qed

lemma ck_Update_good:
  assumes g: "good ck h" and v: "visits ck table ord" and off: "off \<noteq> 0" and len: "length newkeys = length oldkeys"
  shows "answers t (ck_seq ck) h (add_writes (add_writes h t table oldkeys) t table newkeys) (ck_Update coin ord ck t table off oldkeys newkeys)"
  using g
proof (cases rule: write_start_good [of ck h t table])
  case (1 ck1)
  then show ?thesis by (auto simp: ck_Update_def)
next
  case (2 ck1)
  have v1: "visits ck1 table ord" using v 2(6) by (simp add: visits_def)
  have "answers t (ck_seq ck1) h (fold (\<lambda>keys h. add_writes h t table keys) [oldkeys, newkeys] h)
      (do { (ck2, aborted) \<leftarrow> update_loop coin ck1 t table oldkeys newkeys ord; if aborted then Some (ck2, False)
            else (case getActs ck2 t table of (ck3, ta) \<Rightarrow> do { (ck4, ok) \<leftarrow> saveDelete ck3 t table ta off oldkeys;
              if ok then do { ta4 \<leftarrow> ck_bytable ck4 table (ct_start (ck_trans ck4 t)); saveOutput ck4 t table ta4 0 newkeys }
              else Some (ck4, False) }) })"
    by (rule loop_then_save [OF 2(2-5) v1 update_loop_ok [OF goodD(1) [OF 2(2)] 2(3,4) eq_refl [OF len]]])
      (use save_update_ok [OF _ _ _ _ _ _ off] in \<open>auto simp: not_read_update_def\<close>)
  then show ?thesis using 2(1,7) by (simp add: ck_Update_def)
qed

section \<open>Starting and ending\<close>

lemma StartTran_sels:
  assumes "StartTran ck = (ck', t)"
  shows "t = ck_seq ck + 2" "ck_trans ck' = (ck_trans ck)(t := no_tran\<lparr>ct_start := t, ct_end := MaxInt, ct_birth := ck_clock ck\<rparr>)"
    "ck_actv ck' = t # ck_actv ck" "ck_cmtd ck' = ck_cmtd ck" "ck_seq ck' = t" "ck_bytable ck' = ck_bytable ck"
    "ck_exclusive ck' = ck_exclusive ck" "ck_oldest ck' = ck_oldest ck"
  using assms by (auto simp: StartTran_def ck_next_def)

lemma fresh_tran:
  assumes "ck_inv ck" "ck_seq ck < t"
  shows "n \<in> known ck \<Longrightarrow> n < t" "ck_bytable ck tab t = None"
proof -
  show new: "n < t" if "n \<in> known ck" for n using ck_invD(4) [OF assms(1), of n] that assms(2) by auto
  show "ck_bytable ck tab t = None"
    using ck_invD(5) [OF assms(1), of tab t] new [of t] by (cases "ck_bytable ck tab t") auto
qed

lemma StartTran_inv:
  assumes inv: "ck_inv ck" and seq: "ck_seq ck + 2 < MaxInt" and run: "StartTran ck = (ck', t)"
  shows "ck_inv ck'"
proof -
  note c = StartTran_sels [OF run]
  have lt: "ck_seq ck < t" using c(1) by simp
  note new = fresh_tran(1) [OF inv lt] and none = fresh_tran(2) [OF inv lt]
  have "trans_ok ck'"
    unfolding trans_ok_def
  proof (intro conjI ballI allI)
    show "actv_ok ck' n" if "n \<in> set (ck_actv ck')" for n
      using that ck_invD(1) [OF inv, of n] ck_invD(8) [OF inv] c(1) by (auto simp: c(2-8) actv_ok_def Let_def no_tran_def)
    show "cmtd_ok ck' n" if "n \<in> set (ck_cmtd ck')" for n
      using that ck_invD(2) [OF inv, of n] new [of n] c(1) by (auto simp: c(2-8) cmtd_ok_def Let_def)
    show "ct_start (ck_trans ck' n) \<in> {0, n}" for n using inv by (auto simp: c(2) ck_inv_def trans_ok_def)
    show "ck_oldest ck' = MaxInt \<or> ck_oldest ck' \<le> ck_seq ck' \<and> (\<forall>n\<in>set (ck_actv ck'). ck_oldest ck' \<le> n)"
      using inv c(1) unfolding c(2-8) ck_inv_def trans_ok_def by auto
  qed (use inv new [of t] c(1) seq in \<open>auto simp: c(2-8) ck_inv_def trans_ok_def\<close>)
  moreover have "table_ok ck'"
    unfolding table_ok_def
  proof (intro conjI allI impI)
    fix tab n
    show "ck_bytable ck' tab n \<noteq> None \<longleftrightarrow> n \<in> known ck' \<and> tab \<in> set (ct_tables (ck_trans ck' n))"
      using inv none [of tab] unfolding ck_inv_def table_ok_def c(2-8) by (cases "n = t") (auto simp: no_tran_def)
    fix ta assume b: "ck_bytable ck' tab n = Some ta"
    then show "acts_ok ta" "wrote ta \<Longrightarrow> ct_hasUpdates (ck_trans ck' n)"
      using ck_invD(5,6) [OF inv, of tab n ta] none [of tab] unfolding c(2-8) by auto
  qed
  moreover have "excl_ok ck'" using inv none c(1) unfolding ck_inv_def excl_ok_def c(2-8) by force
  ultimately show ?thesis by (simp add: ck_inv_def)
qed

lemma StartTran_hist:
  assumes g: "good ck h" and run: "StartTran ck = (ck', t)"
  shows "hist ck' h"
  unfolding hist_def
proof (intro conjI allI ballI impI)
  note h = goodD(3) [OF g] and c = StartTran_sels [OF run]
  have new: "d \<noteq> t" "d < t" if "d \<in> set (h_done h)" for d using histD(5) [OF h that] c(1) by (auto simp: done_ok_def)
  have none_h: "\<not> did_read h t x" "\<not> did_write h t x" for x using histD(8,9) [OF h, of t x] c(1) by simp_all
  have un: "n \<noteq> t \<Longrightarrow> unmarked ck' n \<longleftrightarrow> unmarked ck n" for n by (simp add: unmarked_def c(2-8))
  show "recorded_write ck' n x" if "n \<in> known ck'" "did_write h n x" for n x
    using that histD(1) [OF h, of n x] none_h by (auto simp: c(2-8) recorded_write_def)
  show "recorded_read ck' n x" if "unmarked ck' n" "did_read h n x" for n x
    using that histD(2) [OF h, of n x] un none_h by (cases "n = t") (auto simp: c(2-8) recorded_read_def)
  show "\<not> did_write h m x" if "m \<in> known ck'" "unmarked ck' n" "m \<noteq> n" "tran_overlap (ck_trans ck' n) (ck_trans ck' m)"
    "did_read h n x" for n m x
    using that histD(3) [OF h, of n m x] un none_h by (cases "n = t"; cases "m = t") (auto simp: c(2-8))
  show "set (ck_cmtd ck') \<subseteq> set (h_done h)" using histD(4) [OF h] by (simp add: c(4))
  show "done_ok ck' d" if "d \<in> set (h_done h)" for d
    using histD(5) [OF h, of d] that new [of d] c(1) unfolding done_ok_def c(2-8) by force
  show "ct_end (ck_trans ck' d) \<noteq> ct_end (ck_trans ck' e)" "undisturbed ck' h e d"
    if "d \<in> set (h_done h)" "e \<in> set (h_done h)" "d \<noteq> e" for d e
    using histD(6,7) [OF h, of d e] that new [of d] new [of e] by (auto simp: undisturbed_def c(2))
  show "\<not> did_read h n x" "\<not> did_write h n x" if "ck_seq ck' < n" for n x
    using histD(8,9) [OF h, of n x] that c(1) unfolding c(5) by simp_all
qed

lemma StartTran_good:
  assumes g: "good ck h" and seq: "ck_seq ck + 2 < MaxInt" and run: "StartTran ck = (ck', t)"
  shows "good ck' h"
proof -
  note c = StartTran_sels [OF run]
  have "count_ok ck'"
    using goodD(2) [OF g] fresh_tran(1) [OF goodD(1) [OF g], of t] c(1)
    unfolding count_ok_def c(2-8) entry_reads_def by (auto simp: no_tran_def)
  then show ?thesis using StartTran_inv [OF goodD(1) [OF g] seq run] StartTran_hist [OF g run] by (simp add: good_def)
qed

text \<open>Committing drops the reads of the transaction and tells which tables it has written.\<close>

lemma commitByTable_ok:
  "\<forall>tab\<in>set tables. ck_bytable ck tab (ct_start x) \<noteq> None \<Longrightarrow>
   \<exists>ck' tw. commitByTable ck x tables = Some (ck', tw)
     \<and> ck_trans ck' = ck_trans ck \<and> ck_actv ck' = ck_actv ck \<and> ck_cmtd ck' = ck_cmtd ck \<and> ck_seq ck' = ck_seq ck
     \<and> ck_oldest ck' = ck_oldest ck \<and> ck_clock ck' = ck_clock ck \<and> ck_exclusive ck' = ck_exclusive ck
     \<and> (\<forall>tab n. ck_bytable ck' tab n = (if n = ct_start x \<and> tab \<in> set tables
          then map_option (\<lambda>ta. ta\<lparr>reads := []\<rparr>) (ck_bytable ck tab n) else ck_bytable ck tab n))
     \<and> set tw = {tab \<in> set tables. \<exists>ta. ck_bytable ck tab (ct_start x) = Some ta \<and> wrote ta}"
proof (induction tables arbitrary: ck)
  case (Cons table tables)
  obtain ta where ta: "ck_bytable ck table (ct_start x) = Some ta" using Cons.prems by auto
  define ck1 where "ck1 = put_actions ck table (ct_start x) (ta\<lparr>reads := []\<rparr>)"
  have b1: "ck_bytable ck1 tab n = (if tab = table \<and> n = ct_start x then Some (ta\<lparr>reads := []\<rparr>) else ck_bytable ck tab n)" for tab n
    by (simp add: ck1_def)
  have p: "\<forall>tab\<in>set tables. ck_bytable ck1 tab (ct_start x) \<noteq> None" using Cons.prems by (auto simp: b1)
  obtain ck' tw where r: "commitByTable ck1 x tables = Some (ck', tw)"
    "ck_trans ck' = ck_trans ck" "ck_actv ck' = ck_actv ck" "ck_cmtd ck' = ck_cmtd ck" "ck_seq ck' = ck_seq ck"
    "ck_oldest ck' = ck_oldest ck" "ck_clock ck' = ck_clock ck" "ck_exclusive ck' = ck_exclusive ck"
    "\<And>tab n. ck_bytable ck' tab n = (if n = ct_start x \<and> tab \<in> set tables
          then map_option (\<lambda>ta. ta\<lparr>reads := []\<rparr>) (ck_bytable ck1 tab n) else ck_bytable ck1 tab n)"
    "set tw = {tab \<in> set tables. \<exists>ta. ck_bytable ck1 tab (ct_start x) = Some ta \<and> wrote ta}"
    using Cons.IH [OF p] unfolding ck1_def by auto
  have wr: "wrote (ta\<lparr>reads := []\<rparr>) = wrote ta" by (simp add: wrote_def)
  have "commitByTable ck x (table # tables) = Some (ck', if wrote ta then table # tw else tw)"
    using ta r(1) by (simp add: ck1_def wrote_def)
  moreover have "ck_bytable ck' tab n = (if n = ct_start x \<and> tab \<in> set (table # tables)
      then map_option (\<lambda>ta. ta\<lparr>reads := []\<rparr>) (ck_bytable ck tab n) else ck_bytable ck tab n)" for tab n
    unfolding r(9) b1 using ta by auto
  moreover have "set (if wrote ta then table # tw else tw)
      = {tab \<in> set (table # tables). \<exists>ta. ck_bytable ck tab (ct_start x) = Some ta \<and> wrote ta}"
    using r(10) ta wr unfolding b1 by auto
  ultimately show ?case using r(2-8) by simp
qed simp

text \<open>The transaction has ended: it is no longer active, and it is kept when it has updates.\<close>

definition ended_as :: "check \<Rightarrow> int \<Rightarrow> int list \<Rightarrow> check \<Rightarrow> bool" where
  "ended_as ck t cmtd ck' \<longleftrightarrow> ck_actv ck' = removeAll t (ck_actv ck) \<and> ck_cmtd ck' = cmtd \<and> ck_seq ck' = ck_seq ck + 2
     \<and> ck_trans ck' = (ck_trans ck)(t := (ck_trans ck t)\<lparr>ct_end := ck_seq ck + 2\<rparr>)
     \<and> (ck_oldest ck' = ck_oldest ck \<or> ck_oldest ck' = MaxInt) \<and> ck_exclusive ck' = ck_exclusive ck
     \<and> (\<forall>tab n. n \<noteq> t \<longrightarrow> ck_bytable ck' tab n = ck_bytable ck tab n)"

lemma ended_tran:
  assumes "ended_as ck t cmtd ck'"
  shows "ct_start (ck_trans ck' n) = ct_start (ck_trans ck n)" "ct_tables (ck_trans ck' n) = ct_tables (ck_trans ck n)"
    "ct_hasUpdates (ck_trans ck' n) = ct_hasUpdates (ck_trans ck n)" "ct_readConflict (ck_trans ck' n) = ct_readConflict (ck_trans ck n)"
    "ct_readCount (ck_trans ck' n) = ct_readCount (ck_trans ck n)"
    "ct_end (ck_trans ck' n) = (if n = t then ck_seq ck + 2 else ct_end (ck_trans ck n))"
  using assms by (auto simp: ended_as_def)

lemma ended_inv:
  assumes inv: "ck_inv ck" and t: "t \<in> set (ck_actv ck)" and seq: "ck_seq ck + 2 < MaxInt" and e: "ended_as ck t cmtd ck'"
    and c: "cmtd = ck_cmtd ck \<and> (\<forall>tab. ck_bytable ck' tab t = None)
      \<or> cmtd = t # ck_cmtd ck \<and> ct_hasUpdates (ck_trans ck t)
         \<and> (\<forall>tab. ck_bytable ck' tab t = map_option (\<lambda>ta. ta\<lparr>reads := []\<rparr>) (ck_bytable ck tab t))"
  shows "ck_inv ck'"
proof -
  note tr = ended_tran [OF e]
  have f: "ck_actv ck' = removeAll t (ck_actv ck)" "ck_cmtd ck' = cmtd" "ck_seq ck' = ck_seq ck + 2"
    "ck_oldest ck' = ck_oldest ck \<or> ck_oldest ck' = MaxInt" "ck_exclusive ck' = ck_exclusive ck"
    and other: "\<And>tab n. n \<noteq> t \<Longrightarrow> ck_bytable ck' tab n = ck_bytable ck tab n"
    using e by (auto simp: ended_as_def)
  have nc: "t \<notin> set (ck_cmtd ck)" using inv t by (auto simp: ck_inv_def trans_ok_def)
  have "trans_ok ck'"
    unfolding trans_ok_def
  proof (intro conjI ballI allI)
    show "actv_ok ck' n" if "n \<in> set (ck_actv ck')" for n
      using that ck_invD(1) [OF inv, of n] unfolding f by (auto simp: actv_ok_def Let_def tr f)
    show "cmtd_ok ck' n" if "n \<in> set (ck_cmtd ck')" for n
      using that ck_invD(2) [OF inv, of n] ck_invD(1) [OF inv t] c nc unfolding f by (auto simp: cmtd_ok_def actv_ok_def Let_def tr f)
    show "ct_start (ck_trans ck' n) \<in> {0, n}" for n
      using inv unfolding tr by (simp add: ck_inv_def trans_ok_def)
    show "distinct (ck_cmtd ck')" "set (ck_actv ck') \<inter> set (ck_cmtd ck') = {}"
      using inv c nc unfolding f by (auto simp: ck_inv_def trans_ok_def)
  qed (use inv seq f in \<open>auto simp: ck_inv_def trans_ok_def distinct_removeAll\<close>)
  moreover have "table_ok ck'"
    unfolding table_ok_def tr f
  proof (intro conjI allI impI)
    show "ck_bytable ck' tab n \<noteq> None \<longleftrightarrow> n \<in> set (removeAll t (ck_actv ck)) \<union> set cmtd \<and> tab \<in> set (ct_tables (ck_trans ck n))" for tab n
    proof -
      have "ck_bytable ck tab n \<noteq> None \<longleftrightarrow> n \<in> known ck \<and> tab \<in> set (ct_tables (ck_trans ck n))"
        using inv unfolding ck_inv_def table_ok_def by blast
      then show ?thesis using c nc t other [of n tab] by (cases "n = t") auto
    qed
    fix tab n ta assume b: "ck_bytable ck' tab n = Some ta"
    have "\<exists>ta0. ck_bytable ck tab n = Some ta0 \<and> (ta = ta0 \<or> ta = ta0\<lparr>reads := []\<rparr>)"
      using b c other [of n tab] by (cases "n = t") auto
    then obtain ta0 where ta0: "ck_bytable ck tab n = Some ta0" "ta = ta0 \<or> ta = ta0\<lparr>reads := []\<rparr>" by blast
    show "acts_ok ta" using ck_invD(5) [OF inv ta0(1)] ta0(2) by (auto simp: acts_ok_def)
    show "wrote ta \<Longrightarrow> ct_hasUpdates (ck_trans ck n)" using ck_invD(6) [OF inv ta0(1)] ta0(2) by (auto simp: wrote_def)
  qed
  moreover have "excl_ok ck'"
    using inv other unfolding ck_inv_def excl_ok_def f by (auto 0 3)
  ultimately show ?thesis by (simp add: ck_inv_def)
qed

lemma ended_count:
  assumes "count_ok ck" "ended_as ck t cmtd ck'"
  shows "count_ok ck'"
proof -
  have "entry_reads ck' n = entry_reads ck n" if "n \<noteq> t" for n
    using assms(2) that by (simp add: entry_reads_def ended_as_def fun_eq_iff)
  then show ?thesis
    using assms unfolding count_ok_def ended_tran [OF assms(2)] by (auto simp: ended_as_def)
qed

lemma ended_other:
  assumes e: "ended_as ck t cmtd ck'" and n: "n \<noteq> t"
  shows "unmarked ck' n \<longleftrightarrow> unmarked ck n" "recorded_read ck' n x \<longleftrightarrow> recorded_read ck n x" "recorded_write ck' n x \<longleftrightarrow> recorded_write ck n x"
  using assms by (auto simp: ended_as_def unmarked_def recorded_read_def recorded_write_def split: prod.splits)

lemma good_ended_reader:
  assumes g: "good ck h" and t: "t \<in> set (ck_actv ck)" and seq: "ck_seq ck + 2 < MaxInt"
    and e: "ended_as ck t (ck_cmtd ck) ck'" and b: "\<forall>tab. ck_bytable ck' tab t = None"
  shows "good ck' h"
proof -
  have nd: "t \<notin> set (h_done h)" by (rule active_not_done [OF goodD(3) [OF g] t])
  have nk: "t \<notin> known ck'" using e goodD(1) [OF g] t by (auto simp: ended_as_def ck_inv_def trans_ok_def)
  have "hist ck' h"
  proof (rule hist_mono [OF goodD(3) [OF g]])
    show "unmarked ck n" if "unmarked ck' n" for n
      using that ended_other(1) [OF e, of n] nk by (cases "n = t") (auto simp: unmarked_def)
    show "recorded_write ck' n x" if "n \<in> known ck'" "recorded_write ck n x" for n x
      using that nk ended_other(3) [OF e, of n] by (cases "n = t") auto
    show "recorded_read ck' n x" if "n \<in> set (ck_actv ck')" "recorded_read ck n x" for n x
      using that nk ended_other(2) [OF e, of n] by (cases "n = t") auto
    show "ct_start (ck_trans ck' n) = ct_start (ck_trans ck n) \<and> ct_end (ck_trans ck' n) = ct_end (ck_trans ck n)"
      if "n \<in> known ck' \<union> set (h_done h)" for n
      using that nk nd by (auto simp: ended_tran [OF e])
    show "ct_hasUpdates (ck_trans ck' d) \<and> ct_readConflict (ck_trans ck' d) = ''''" if "d \<in> set (h_done h)" for d
      using histD(5) [OF goodD(3) [OF g] that] by (simp add: done_ok_def ended_tran [OF e])
  qed (use e in \<open>auto simp: ended_as_def\<close>)
  then show ?thesis
    using ended_inv [OF goodD(1) [OF g] t seq e] b ended_count [OF goodD(2) [OF g] e] by (simp add: good_def)
qed

definition add_done :: "history \<Rightarrow> int \<Rightarrow> history" where
  "add_done h t = h\<lparr>h_done := t # h_done h\<rparr>"

lemma add_done_simps [simp]:
  "did_read (add_done h t) = did_read h" "did_write (add_done h t) = did_write h" "h_done (add_done h t) = t # h_done h"
  by (simp_all add: add_done_def did_read_def did_write_def fun_eq_iff)

text \<open>The heart of the matter: nobody who committed while this transaction ran wrote what it has read.\<close>

lemma commit_undisturbed:
  assumes g: "good ck h" and t: "unmarked ck t" and d: "d \<in> set (h_done h)" "t < ct_end (ck_trans ck d)" and x: "did_read h t x"
  shows "\<not> did_write h d x"
proof -
  note h = goodD(3) [OF g] and inv = goodD(1) [OF g]
  have a: "t \<in> set (ck_actv ck)" using t by (simp add: unmarked_def)
  note dd = histD(5) [OF h d(1)]
  have k: "d \<in> known ck" "d \<noteq> t" using dd d(2) a by (auto simp: done_ok_def)
  have "tran_overlap (ck_trans ck t) (ck_trans ck d)"
    using dd d(2) ck_invD(1) [OF inv a] ck_invD(9) [OF inv] by (auto simp: tran_overlap_def actv_ok_def done_ok_def Let_def)
  then show ?thesis by (rule histD(3) [OF h t k _ x])
qed

lemma ended_overlap:
  assumes inv: "ck_inv ck" and t: "t \<in> set (ck_actv ck)" and e: "ended_as ck t cmtd ck'" and n: "n \<in> set (ck_actv ck)" "n \<noteq> t"
    and o: "tran_overlap (ck_trans ck' n) (ck_trans ck' m)"
  shows "tran_overlap (ck_trans ck n) (ck_trans ck m)"
  using o n active_overlap [OF inv n(1), of m] t unfolding tran_overlap_def ended_tran [OF e] by (auto split: if_splits)

lemma hist_ended_writer:
  assumes g: "good ck h" and t: "t \<in> set (ck_actv ck)" "ct_hasUpdates (ck_trans ck t)" and e: "ended_as ck t (t # ck_cmtd ck) ck'"
    and b: "\<forall>tab. ck_bytable ck' tab t = map_option (\<lambda>ta. ta\<lparr>reads := []\<rparr>) (ck_bytable ck tab t)"
  shows "hist ck' (add_done h t)"
  unfolding hist_def add_done_simps
proof (intro conjI allI ballI impI)
  note h = goodD(3) [OF g] and inv = goodD(1) [OF g] and tr = ended_tran [OF e]
  have un: "unmarked ck t" using t ck_invD(1) [OF inv t(1)] by (simp add: unmarked_def actv_ok_def Let_def)
  have nd: "t \<notin> set (h_done h)" by (rule active_not_done [OF h t(1)])
  have seqd: "ct_end (ck_trans ck d) < ck_seq ck + 2" if "d \<in> set (h_done h)" for d
    using histD(5) [OF h that] by (simp add: done_ok_def)
  have f: "ck_actv ck' = removeAll t (ck_actv ck)" "ck_cmtd ck' = t # ck_cmtd ck" "ck_seq ck' = ck_seq ck + 2"
    using e by (auto simp: ended_as_def)
  have kn: "n \<in> known ck' \<longleftrightarrow> n \<in> known ck" for n using t(1) unfolding f by auto
  have nt: "unmarked ck' n \<Longrightarrow> n \<noteq> t \<and> unmarked ck n" for n
    using ended_other(1) [OF e, of n] unfolding unmarked_def f by auto
  show "recorded_write ck' n x" if "n \<in> known ck'" "did_write h n x" for n x
  proof (cases "n = t")
    case True
    have "recorded_write ck t x" using histD(1) [OF h, of t x] that True t(1) by blast
    then show ?thesis using b True by (fastforce simp: recorded_write_def written_def split: prod.splits)
  qed (use ended_other(3) [OF e, of n x] histD(1) [OF h, of n x] that kn in blast)
  show "recorded_read ck' n x" if "unmarked ck' n" "did_read h n x" for n x
    using nt [OF that(1)] ended_other(2) [OF e, of n x] histD(2) [OF h _ that(2)] by blast
  show "\<not> did_write h m x" if "m \<in> known ck'" "unmarked ck' n" "m \<noteq> n" "tran_overlap (ck_trans ck' n) (ck_trans ck' m)"
    "did_read h n x" for n m x
    using nt [OF that(2)] that ended_overlap [OF inv t(1) e _ _ that(4)] kn [of m] histD(3) [OF h, of n m x]
    unfolding unmarked_def by blast
  show "set (ck_cmtd ck') \<subseteq> set (t # h_done h)" using histD(4) [OF h] unfolding f by auto
  show "done_ok ck' d" if "d \<in> set (t # h_done h)" for d
    using that histD(5) [OF h, of d] ck_invD(1) [OF inv t(1)] t nd unfolding done_ok_def tr f
    by (auto simp: actv_ok_def Let_def)
  show "ct_end (ck_trans ck' d) \<noteq> ct_end (ck_trans ck' e)" "undisturbed ck' (add_done h t) e d"
    if de: "d \<in> set (t # h_done h)" "e \<in> set (t # h_done h)" "d \<noteq> e" for d e
    using de histD(6,7) [OF h, of d e] seqd [of d] seqd [of e] commit_undisturbed [OF g un, of d]
    unfolding undisturbed_def tr by auto
  show "\<not> did_read h n x" "\<not> did_write h n x" if "ck_seq ck' < n" for n x
    using histD(8,9) [OF h, of n x] that unfolding f by simp_all
qed

lemma good_ended_writer:
  assumes g: "good ck h" and t: "t \<in> set (ck_actv ck)" "ct_hasUpdates (ck_trans ck t)" and seq: "ck_seq ck + 2 < MaxInt"
    and e: "ended_as ck t (t # ck_cmtd ck) ck'"
    and b: "\<forall>tab. ck_bytable ck' tab t = map_option (\<lambda>ta. ta\<lparr>reads := []\<rparr>) (ck_bytable ck tab t)"
  shows "good ck' (add_done h t)"
proof -
  have "ck_inv ck'" using ended_inv [OF goodD(1) [OF g] t(1) seq e] t(2) b by simp
  then show ?thesis using hist_ended_writer [OF g t e b] ended_count [OF goodD(2) [OF g] e] by (simp add: good_def)
qed

text \<open>Changes that the history does not see.\<close>

lemma good_cong:
  assumes "good a h" "ck_trans b = ck_trans a" "ck_actv b = ck_actv a" "ck_cmtd b = ck_cmtd a"
    "ck_seq b = ck_seq a" "ck_oldest b = ck_oldest a \<or> ck_oldest b = MaxInt" "ck_exclusive b = ck_exclusive a"
    "ck_bytable b = ck_bytable a"
  shows "good b h"
proof -
  have "entry_reads b = entry_reads a" "unmarked b = unmarked a" "recorded_write b = recorded_write a" "recorded_read b = recorded_read a"
    "done_ok b = done_ok a" "undisturbed b = undisturbed a"
    using assms
    by (simp_all add: fun_eq_iff entry_reads_def unmarked_def recorded_write_def recorded_read_def done_ok_def undisturbed_def)
  then show ?thesis using assms ck_inv_cong [of a b] by (simp add: good_def count_ok_def hist_def)
qed

lemma good_clean: "good ck h \<Longrightarrow> good (cleanEnded ck) h"
  using good_weaken cleanEnded_weaken goodD(1) by blast

lemma good_finish:
  "good ck h \<Longrightarrow> good (updateOutstanding (if ck_oldest ck = MaxInt then cleanEnded ck else ck)) h"
  using good_cong [of "if ck_oldest ck = MaxInt then cleanEnded ck else ck" h "updateOutstanding (if ck_oldest ck = MaxInt then cleanEnded ck else ck)"]
    good_clean [of ck h] by (cases "ck_oldest ck = MaxInt") simp_all

text \<open>What \<^verbatim>\<open>commit\<close> does before it looks at the updates.\<close>

definition ending :: "check \<Rightarrow> int \<Rightarrow> check" where
  "ending ck t = (let c = set_tran (ck\<lparr>ck_seq := ck_seq ck + 2\<rparr>) t ((ck_trans ck t)\<lparr>ct_end := ck_seq ck + 2\<rparr>);
                      c' = (if t = ck_oldest c then c\<lparr>ck_oldest := MaxInt\<rparr> else c)
                  in c'\<lparr>ck_actv := removeAll t (ck_actv c')\<rparr>)"

lemma ending_sels:
  "ck_trans (ending ck t) = (ck_trans ck)(t := (ck_trans ck t)\<lparr>ct_end := ck_seq ck + 2\<rparr>)"
  "ck_actv (ending ck t) = removeAll t (ck_actv ck)" "ck_cmtd (ending ck t) = ck_cmtd ck" "ck_seq (ending ck t) = ck_seq ck + 2"
  "ck_exclusive (ending ck t) = ck_exclusive ck" "ck_bytable (ending ck t) = ck_bytable ck"
  "ck_oldest (ending ck t) = ck_oldest ck \<or> ck_oldest (ending ck t) = MaxInt"
  by (auto simp: ending_def Let_def)

lemma ck_commit_run:
  assumes inv: "ck_inv ck" and t: "t \<in> set (ck_actv ck)"
  shows "ck_commit False ck t = do {
    (ck5, tw) \<leftarrow> (let x = (ck_trans ck t)\<lparr>ct_end := ck_seq ck + 2\<rparr> in
       if ct_hasUpdates (ck_trans ck t)
       then if ct_readConflict (ck_trans ck t) \<noteq> '''' then None
            else commitByTable ((ending ck t)\<lparr>ck_cmtd := t # ck_cmtd ck\<rparr>) x (ct_tables x)
       else Some (removeByTable (ending ck t) x, []));
    Some (updateOutstanding (if ck_oldest ck5 = MaxInt then cleanEnded ck5 else ck5), Some tw) }"
proof -
  let ?x = "(ck_trans ck t)\<lparr>ct_end := ck_seq ck + 2\<rparr>"
  have "ct_start (ck_trans ck t) = t" using ck_invD(3) [OF inv, of t] t by simp
  then have "ck_commit False ck t = do {
    (ck5, tw) \<leftarrow> (if ct_hasUpdates (ck_trans (ending ck t) t)
       then if ct_readConflict (ck_trans (ending ck t) t) \<noteq> '''' then None
            else commitByTable ((ending ck t)\<lparr>ck_cmtd := t # ck_cmtd (ending ck t)\<rparr>) ?x (ct_tables ?x)
       else Some (removeByTable (ending ck t) ?x, []));
    Some (updateOutstanding (if ck_oldest ck5 = MaxInt then cleanEnded ck5 else ck5), Some tw) }"
    using t by (simp add: ck_commit_def ck_next_def Let_def ending_def)
  then show ?thesis by (simp add: ending_sels Let_def)
qed

lemma commit_updates:
  assumes g: "good ck h" and t: "t \<in> set (ck_actv ck)" "ct_hasUpdates (ck_trans ck t)" and seq: "ck_seq ck + 2 < MaxInt"
  obtains ck5 tw where "commitByTable ((ending ck t)\<lparr>ck_cmtd := t # ck_cmtd ck\<rparr>) ((ck_trans ck t)\<lparr>ct_end := ck_seq ck + 2\<rparr>)
      (ct_tables (ck_trans ck t)) = Some (ck5, tw)"
    "good ck5 (add_done h t)" "set tw = {tab. \<exists>ta. ck_bytable ck tab t = Some ta \<and> wrote ta}"
proof -
  note inv = goodD(1) [OF g]
  let ?x = "(ck_trans ck t)\<lparr>ct_end := ck_seq ck + 2\<rparr>" and ?c = "(ending ck t)\<lparr>ck_cmtd := t # ck_cmtd ck\<rparr>"
  have st: "ct_start (ck_trans ck t) = t" using ck_invD(3) [OF inv, of t] t by simp
  have e: "ck_bytable ck tab t \<noteq> None \<longleftrightarrow> tab \<in> set (ct_tables (ck_trans ck t))" for tab
    using ck_invD(5) [OF inv, of tab t] ck_invD(7) [OF inv, of t tab] t(1) by auto
  have ent: "\<forall>tab\<in>set (ct_tables ?x). ck_bytable ?c tab (ct_start ?x) \<noteq> None" using e st by (simp add: ending_sels)
  from commitByTable_ok [OF ent] obtain ck5 tw where r: "commitByTable ?c ?x (ct_tables ?x) = Some (ck5, tw)"
    "ck_trans ck5 = ck_trans ?c" "ck_actv ck5 = ck_actv ?c" "ck_cmtd ck5 = ck_cmtd ?c" "ck_seq ck5 = ck_seq ?c"
    "ck_oldest ck5 = ck_oldest ?c" "ck_exclusive ck5 = ck_exclusive ?c"
    "\<And>tab n. ck_bytable ck5 tab n = (if n = t \<and> tab \<in> set (ct_tables ?x)
        then map_option (\<lambda>ta. ta\<lparr>reads := []\<rparr>) (ck_bytable ck tab n) else ck_bytable ck tab n)"
    "set tw = {tab \<in> set (ct_tables ?x). \<exists>ta. ck_bytable ck tab t = Some ta \<and> wrote ta}"
    using st by (auto simp: ending_sels)
  have "ck_bytable ck5 tab t = map_option (\<lambda>ta. ta\<lparr>reads := []\<rparr>) (ck_bytable ck tab t)" for tab
    using e [of tab] by (cases "ck_bytable ck tab t") (simp_all add: r(8))
  moreover have "ended_as ck t (t # ck_cmtd ck) ck5" unfolding ended_as_def r(2-8) using ending_sels by simp
  ultimately have "good ck5 (add_done h t)" using good_ended_writer [OF g t seq] by blast
  moreover have "set tw = {tab. \<exists>ta. ck_bytable ck tab t = Some ta \<and> wrote ta}" using r(9) e by auto
  ultimately show thesis using that r(1) by simp
qed

lemma ck_commit_good:
  assumes g: "good ck h" and seq: "ck_seq ck + 2 < MaxInt"
  obtains (refused) ck' tw where "ck_commit corrupted ck t = Some (ck', tw)" "good ck' h" "corrupted \<or> t \<notin> set (ck_actv ck)"
    | (read_only) ck' where "ck_commit corrupted ck t = Some (ck', Some [])" "good ck' h" "\<not> corrupted" "t \<in> set (ck_actv ck)"
        "\<not> ct_hasUpdates (ck_trans ck t)"
    | (committed) ck' tw where "ck_commit corrupted ck t = Some (ck', Some tw)" "good ck' (add_done h t)" "\<not> corrupted" "t \<in> set (ck_actv ck)"
        "ct_hasUpdates (ck_trans ck t)" "set tw = {tab. \<exists>ta. ck_bytable ck tab t = Some ta \<and> wrote ta}"
proof (cases "corrupted \<or> t \<notin> set (ck_actv ck)")
  case True
  then show ?thesis
    using refused [of "Abort ck t ''database is locked''" "Some []"] refused [of ck None] g
      good_weaken [OF g Abort_weaken(1,2) [OF goodD(1) [OF g]], of t "''database is locked''"] start_active [OF goodD(1) [OF g], of t]
    by (cases corrupted) (auto simp: ck_commit_def Let_def)
next
  case False
  then have a: "t \<in> set (ck_actv ck)" "\<not> corrupted" by auto
  note inv = goodD(1) [OF g]
  have run: "ck_commit corrupted ck t = ck_commit False ck t" using a(2) by simp
  note run = run [unfolded ck_commit_run [OF inv a(1)]]
  let ?x = "(ck_trans ck t)\<lparr>ct_end := ck_seq ck + 2\<rparr>"
  show ?thesis
  proof (cases "ct_hasUpdates (ck_trans ck t)")
    case False
    have st: "ct_start (ck_trans ck t) = t" using ck_invD(3) [OF inv, of t] a by simp
    have b: "ck_bytable (removeByTable (ending ck t) ?x) tab t = None" for tab
      using ck_invD(5) [OF inv, of tab t] st by (cases "ck_bytable ck tab t") (auto simp: ending_sels)
    have g5: "good (removeByTable (ending ck t) ?x) h"
      by (rule good_ended_reader [OF g a(1) seq]) (use b ending_sels [of ck t] st in \<open>auto simp: ended_as_def\<close>)
    show ?thesis by (rule read_only [OF _ good_finish [OF g5] a(2,1) False]) (use run False in \<open>simp add: Let_def\<close>)
  next
    case True
    have rc: "ct_readConflict (ck_trans ck t) = ''''" using ck_invD(1) [OF inv a(1)] True by (simp add: actv_ok_def Let_def)
    obtain ck5 tw where r: "commitByTable ((ending ck t)\<lparr>ck_cmtd := t # ck_cmtd ck\<rparr>) ?x (ct_tables (ck_trans ck t)) = Some (ck5, tw)"
      "good ck5 (add_done h t)" "set tw = {tab. \<exists>ta. ck_bytable ck tab t = Some ta \<and> wrote ta}"
      by (rule commit_updates [OF g a(1) True seq])
    show ?thesis by (rule committed [OF _ good_finish [OF r(2)] a(2,1) True r(3)]) (use run True rc r(1) in \<open>simp add: Let_def\<close>)
  qed
qed

section \<open>The clock and exclusive access\<close>

lemma ck_abort_good: "good ck h \<Longrightarrow> good (fst (ck_abort ck n reason)) h"
  using good_weaken ck_abort_weaken(1,2) goodD(1) by blast

lemma Abort_good: "good ck h \<Longrightarrow> good (Abort ck t reason) h"
  by (simp add: Abort_def ck_abort_good)

lemma ck_tick_good:
  assumes "good ck h"
  shows "good (ck_tick ord ck) h"
proof -
  have "good c h \<Longrightarrow> good (foldl (\<lambda>c tn. if tn \<in> set (ck_actv c) \<and> MaxAge \<le> ck_clock c - ct_birth (ck_trans c tn)
      then fst (ck_abort c tn reason) else c) c ns) h" for c ns reason
    by (induction ns arbitrary: c) (auto simp: ck_abort_good)
  moreover have "good (ck\<lparr>ck_clock := ck_clock ck + 1\<rparr>) h" by (rule good_cong [OF assms]) simp_all
  ultimately show ?thesis unfolding ck_tick_def Let_def by blast
qed

text \<open>Preempting aborts the active transactions that have written the table.\<close>

lemma preempt_loop_ok:
  "ck_inv ck \<Longrightarrow> weaken ck (preempt_loop ck table ord) \<and> ck_inv (preempt_loop ck table ord)
    \<and> (\<forall>n\<in>set (ck_actv (preempt_loop ck table ord)) \<inter> set ord. \<forall>ta. ck_bytable ck table n = Some ta \<longrightarrow> \<not> wrote ta)"
proof (induction ord arbitrary: ck)
  case Nil
  then show ?case using weaken_refl by simp
next
  case (Cons n ord)
  define ck1 where "ck1 = (case ck_bytable ck table n of None \<Rightarrow> ck
    | Some ta \<Rightarrow> if wrote ta then Abort ck n (''preempted by exclusive ('' @ table @ '')'') else ck)"
  have run: "preempt_loop ck table (n # ord) = preempt_loop ck1 table ord"
    by (simp add: ck1_def wrote_def split: option.split)
  have w1: "weaken ck ck1" "ck_inv ck1"
    using Abort_weaken(1,2) [OF Cons.prems] weaken_refl [OF Cons.prems] Cons.prems by (auto simp: ck1_def split: option.split)
  have gone: "n \<notin> set (ck_actv ck1)" if "ck_bytable ck table n = Some ta" "wrote ta" for ta
  proof (cases "n \<in> set (ck_actv ck)")
    case True
    then show ?thesis using that Abort_weaken(3) [OF Cons.prems True] by (simp add: ck1_def)
  qed (use weakenD(1) [OF w1(1)] in blast)
  note ih = Cons.IH [OF w1(2)]
  have sub: "set (ck_actv (preempt_loop ck1 table ord)) \<subseteq> set (ck_actv ck1)" using ih weakenD(1) by blast
  have "\<not> wrote ta" if "m \<in> set (ck_actv (preempt_loop ck1 table ord)) \<inter> set (n # ord)" "ck_bytable ck table m = Some ta" for m ta
  proof (cases "m = n")
    case True
    then show ?thesis using gone that sub by blast
  next
    case False
    have "ck_bytable ck1 table m = Some ta" using weakenD(4) [OF w1(1), of table m] that sub by auto
    then show ?thesis using ih that False by auto
  qed
  then show ?case unfolding run using ih weaken_trans [OF w1(1)] by blast
qed

lemma good_exclusive:
  assumes g: "good ck h" and e: "e = MaxInt \<or> e \<le> ck_seq ck"
    and w: "\<And>n ta. n \<in> set (ck_actv ck) \<Longrightarrow> n < e \<Longrightarrow> ck_bytable ck table n = Some ta \<Longrightarrow> \<not> wrote ta"
  shows "good (ck\<lparr>ck_exclusive := (ck_exclusive ck)(table := Some e)\<rparr>) h"
proof -
  let ?c = "ck\<lparr>ck_exclusive := (ck_exclusive ck)(table := Some e)\<rparr>"
  have "ck_inv ?c"
    using goodD(1) [OF g] e w unfolding ck_inv_def trans_ok_def table_ok_def excl_ok_def actv_ok_def cmtd_ok_def Let_def by auto
  moreover have "entry_reads ?c = entry_reads ck" "unmarked ?c = unmarked ck" "recorded_write ?c = recorded_write ck"
    "recorded_read ?c = recorded_read ck" "done_ok ?c = done_ok ck" "undisturbed ?c = undisturbed ck"
    by (simp_all add: fun_eq_iff entry_reads_def unmarked_def recorded_write_def recorded_read_def done_ok_def undisturbed_def)
  ultimately show ?thesis using g by (simp add: good_def count_ok_def hist_def)
qed

lemma AddExclusive_good:
  assumes g: "good ck h" and v: "visits ck table ord"
  shows "good (fst (AddExclusive ord ck table)) h"
proof (cases "ck_exclusive ck table = Some MaxInt")
  case True
  then show ?thesis using g by (simp add: AddExclusive_def)
next
  case False
  note p = preempt_loop_ok [OF goodD(1) [OF g], of table ord]
  let ?c = "preempt_loop ck table ord"
  have "good (?c\<lparr>ck_exclusive := (ck_exclusive ?c)(table := Some MaxInt)\<rparr>) h"
  proof (rule good_exclusive)
    show "good ?c h" using good_weaken [OF g] p by blast
    show "\<not> wrote ta" if "n \<in> set (ck_actv ?c)" "n < MaxInt" "ck_bytable ?c table n = Some ta" for n ta
    proof -
      have "ck_bytable ck table n = Some ta" using weaken_entry [OF _ that(3)] p by blast
      moreover from this have "n \<in> set ord" using v by (auto simp: visits_def)
      ultimately show ?thesis using p that(1) by blast
    qed
  qed simp
  then show ?thesis using False by (simp add: AddExclusive_def Let_def)
qed

lemma good_seq:
  assumes g: "good ck h" and seq: "ck_seq ck + 2 < MaxInt"
  shows "good (ck\<lparr>ck_seq := ck_seq ck + 2\<rparr>) h"
proof -
  let ?c = "ck\<lparr>ck_seq := ck_seq ck + 2\<rparr>"
  have "ck_inv ?c"
    using goodD(1) [OF g] seq unfolding ck_inv_def trans_ok_def table_ok_def excl_ok_def actv_ok_def cmtd_ok_def Let_def
    by (intro conjI) (auto, fastforce+)
  moreover have "hist ?c h"
    by (rule hist_mono [OF goodD(3) [OF g]])
      (use histD(5) [OF goodD(3) [OF g]] in \<open>auto simp: unmarked_def recorded_write_def recorded_read_def done_ok_def\<close>)
  moreover have "entry_reads ?c = entry_reads ck" by (simp add: fun_eq_iff entry_reads_def)
  ultimately show ?thesis using g by (simp add: good_def count_ok_def)
qed

lemma EndExclusive_good:
  assumes g: "good ck h" and seq: "ck_seq ck + 2 < MaxInt"
  shows "good (EndExclusive ck table) h"
proof (cases "ck_exclusive ck table = Some MaxInt")
  case True
  let ?c = "ck\<lparr>ck_seq := ck_seq ck + 2\<rparr>"
  have "\<not> wrote ta" if "n \<in> set (ck_actv ck)" "ck_bytable ck table n = Some ta" for n ta
    using goodD(1) [OF g] True that ck_invD(4) [OF goodD(1) [OF g], of n] ck_invD(9) [OF goodD(1) [OF g]]
    unfolding ck_inv_def excl_ok_def by fastforce
  then have "good (?c\<lparr>ck_exclusive := (ck_exclusive ?c)(table := Some (ck_seq ?c))\<rparr>) h"
    by (intro good_exclusive [OF good_seq [OF g seq]]) auto
  then show ?thesis using good_clean True by (simp add: EndExclusive_def ck_next_def)
qed (use g in \<open>simp add: EndExclusive_def\<close>)

section \<open>What is refused may be noted as well\<close>

lemma good_add_writes_gone:
  assumes "good ck h" "t \<notin> set (h_done h)" "t \<le> ck_seq ck" "t \<notin> set (ck_actv ck)"
  shows "good ck (add_writes h t table keys)"
proof -
  have "t \<notin> known ck" using assms(2,4) histD(4) [OF goodD(3) [OF assms(1)]] by blast
  then show ?thesis using assms hist_add_writes [of ck h t table keys] by (auto simp: good_def)
qed

text \<open>A transaction's own account of its reads and writes, until it has committed.\<close>

definition note_read :: "history \<Rightarrow> int \<Rightarrow> string \<Rightarrow> nat \<Rightarrow> gostr \<Rightarrow> gostr \<Rightarrow> history" where
  "note_read h t table i a b = (if t \<in> set (h_done h) then h else add_read h t table i a b)"

definition note_writes :: "history \<Rightarrow> int \<Rightarrow> string \<Rightarrow> gostr list \<Rightarrow> history" where
  "note_writes h t table keys = (if t \<in> set (h_done h) then h else add_writes h t table keys)"

lemma note_done [simp]: "h_done (note_read h t table i a b) = h_done h" "h_done (note_writes h t table keys) = h_done h"
  by (simp_all add: note_read_def note_writes_def)

lemma done_refused:
  assumes "good ck h" "t \<in> set (h_done h)"
  shows "t \<notin> set (ck_actv ck)" "ct_start (ck_trans ck t) = t" "ct_hasUpdates (ck_trans ck t)" "ct_readConflict (ck_trans ck t) = ''''"
  using histD(5) [OF goodD(3) [OF assms(1)] assms(2)] by (auto simp: done_ok_def)

end
