(* ===== verification/PrioQueue.thy ===== *)
theory PrioQueue
  imports Prelude "HOL-Library.Monad_Syntax"
begin

text \<open>
  The bounded priority queue between the clients and the conflict checker, \<^verbatim>\<open>util/queue/priority_queue.go\<close>. The
  mutex makes \<^verbatim>\<open>Put\<close> and \<^verbatim>\<open>Get\<close> atomic, so a state is the slice of elements; \<open>None\<close> is a call that waits. The
  theorems: messages of one transaction leave in the order they came, what leaves has the highest priority among
  the oldest messages of the transactions, and nothing is lost.
\<close>

section \<open>The queue\<close>

definition bufSize :: nat where
  "bufSize = 8"

record 'a element =
  el_priority :: int
  el_tran :: int
  el_value :: 'a

definition NewPriorityQueue :: "'a element list" where
  "NewPriorityQueue = []"

definition pq_Put :: "'a element list \<Rightarrow> int \<Rightarrow> int \<Rightarrow> 'a \<Rightarrow> 'a element list option" where
  "pq_Put items priority tran value =
     (if bufSize \<le> length items then None
      else Some (items @ [\<lparr>el_priority = priority, el_tran = tran, el_value = value\<rparr>]))"

definition pq_isOldest :: "'a element list \<Rightarrow> nat \<Rightarrow> 'a element \<Rightarrow> bool" where
  "pq_isOldest items i e = list_all (\<lambda>j. el_tran (items ! j) \<noteq> el_tran e) [0..<i]"

text \<open>The loop of \<^verbatim>\<open>Get\<close> from index \<open>i\<close> on, with the best index and priority so far.\<close>

function pq_best :: "'a element list \<Rightarrow> nat \<Rightarrow> nat \<Rightarrow> int \<Rightarrow> nat" where
  "pq_best items i bestIdx bestPriority =
     (if i < length items
      then let e = items ! i in
           if bestPriority < el_priority e \<and> pq_isOldest items i e
           then pq_best items (Suc i) i (el_priority e)
           else pq_best items (Suc i) bestIdx bestPriority
      else bestIdx)"
  by pat_completeness auto
termination by (relation "measure (\<lambda>(items, i, _, _). length items - i)") auto

definition slices_Delete :: "'a list \<Rightarrow> nat \<Rightarrow> nat \<Rightarrow> 'a list" where
  "slices_Delete xs i j = take i xs @ drop j xs"

definition pq_Get :: "'a element list \<Rightarrow> ('a \<times> 'a element list) option" where
  "pq_Get items =
     (if items = [] then None
      else let bestIdx = pq_best items 1 0 (el_priority (items ! 0))
           in Some (el_value (items ! bestIdx), slices_Delete items bestIdx (bestIdx + 1)))"

declare pq_best.simps [simp del]

section \<open>What \<^verbatim>\<open>Get\<close> chooses\<close>

definition oldest_at :: "'a element list \<Rightarrow> nat \<Rightarrow> bool" where
  "oldest_at items i \<longleftrightarrow> i < length items \<and> (\<forall>j<i. el_tran (items ! j) \<noteq> el_tran (items ! i))"

lemma pq_isOldest_at: "i < length items \<Longrightarrow> pq_isOldest items i (items ! i) \<longleftrightarrow> oldest_at items i"
  by (auto simp: pq_isOldest_def oldest_at_def list_all_iff)

lemma pq_best_ok:
  assumes "oldest_at items b" "p = el_priority (items ! b)"
    "\<And>j. j < i \<Longrightarrow> oldest_at items j \<Longrightarrow> el_priority (items ! j) \<le> p"
    "\<And>j. j < b \<Longrightarrow> oldest_at items j \<Longrightarrow> el_priority (items ! j) < p"
  shows "oldest_at items (pq_best items i b p)
    \<and> (\<forall>j. oldest_at items j \<longrightarrow> el_priority (items ! j) \<le> el_priority (items ! pq_best items i b p))
    \<and> (\<forall>j<pq_best items i b p. oldest_at items j \<longrightarrow> el_priority (items ! j) < el_priority (items ! pq_best items i b p))"
  using assms
proof (induction items i b p rule: pq_best.induct)
  case (1 items i b p)
  show ?case
  proof (cases "i < length items \<and> p < el_priority (items ! i) \<and> oldest_at items i")
    case True
    then have eq: "pq_best items i b p = pq_best items (Suc i) i (el_priority (items ! i))"
      by (subst pq_best.simps) (simp add: Let_def pq_isOldest_at)
    show ?thesis
      unfolding eq
    proof (rule 1(1) [OF _ refl])
      show "el_priority (items ! j) \<le> el_priority (items ! i)" if "j < Suc i" "oldest_at items j" for j
        using that "1.prems"(3) [of j] True by (cases "j = i") auto
      show "el_priority (items ! j) < el_priority (items ! i)" if "j < i" "oldest_at items j" for j
        using that "1.prems"(3) [of j] True by auto
    qed (use True pq_isOldest_at [of i items] in auto)
  next
    case False
    show ?thesis
    proof (cases "i < length items")
      case True
      then have eq: "pq_best items i b p = pq_best items (Suc i) b p"
        using False by (subst pq_best.simps) (auto simp: Let_def pq_isOldest_at)
      show ?thesis
        unfolding eq
      proof (rule 1(2) [OF True refl])
        show "\<not> (p < el_priority (items ! i) \<and> pq_isOldest items i (items ! i))" using False True pq_isOldest_at [of i items] by auto
        show "el_priority (items ! j) \<le> p" if "j < Suc i" "oldest_at items j" for j
          using that "1.prems"(3) [of j] False True by (cases "j = i") auto
      qed (use "1.prems" in auto)
    next
      case False
      then have "pq_best items i b p = b" by (subst pq_best.simps) simp
      then show ?thesis using "1.prems" False by (auto simp: oldest_at_def)
    qed
  qed
qed

lemma pq_Get_ok:
  assumes "items \<noteq> []"
  obtains i where "pq_Get items = Some (el_value (items ! i), take i items @ drop (Suc i) items)" "oldest_at items i"
    "\<And>j. oldest_at items j \<Longrightarrow> el_priority (items ! j) \<le> el_priority (items ! i)"
    "\<And>j. j < i \<Longrightarrow> oldest_at items j \<Longrightarrow> el_priority (items ! j) < el_priority (items ! i)"
proof -
  let ?i = "pq_best items 1 0 (el_priority (items ! 0))"
  have "oldest_at items 0" using assms by (simp add: oldest_at_def)
  then have "oldest_at items ?i \<and> (\<forall>j. oldest_at items j \<longrightarrow> el_priority (items ! j) \<le> el_priority (items ! ?i))
    \<and> (\<forall>j<?i. oldest_at items j \<longrightarrow> el_priority (items ! j) < el_priority (items ! ?i))"
    by (intro pq_best_ok) auto
  then show ?thesis using that [of ?i] assms by (simp add: pq_Get_def slices_Delete_def Let_def)
qed

section \<open>Order\<close>

definition of_tran :: "int \<Rightarrow> 'a element list \<Rightarrow> 'a list" where
  "of_tran t items = map el_value (filter (\<lambda>e. el_tran e = t) items)"

lemma of_tran_simps [simp]: "of_tran t [] = []" "of_tran t (xs @ ys) = of_tran t xs @ of_tran t ys"
  "of_tran t (e # xs) = (if el_tran e = t then el_value e # of_tran t xs else of_tran t xs)"
  by (simp_all add: of_tran_def)

lemma oldest_first:
  assumes "oldest_at items i"
  shows "of_tran t items = (if el_tran (items ! i) = t then [el_value (items ! i)] else []) @ of_tran t (take i items @ drop (Suc i) items)"
proof -
  have i: "i < length items" using assms by (simp add: oldest_at_def)
  then have split: "items = take i items @ items ! i # drop (Suc i) items" by (simp add: id_take_nth_drop)
  have "of_tran (el_tran (items ! i)) (take i items) = []"
    using assms by (auto simp: of_tran_def filter_empty_conv in_set_conv_nth oldest_at_def)
  then show ?thesis by (subst split) auto
qed

text \<open>The interface that the checker relies on: a queue that keeps the messages of each transaction in order.
  \<open>tr\<close> tells the transaction of a message and \<open>view\<close> the messages of a transaction that are waiting.\<close>

locale tran_queue =
  fixes tr :: "'v \<Rightarrow> int" and empty_queue :: 'q and put :: "'q \<Rightarrow> int \<Rightarrow> int \<Rightarrow> 'v \<Rightarrow> 'q option" and get :: "'q \<Rightarrow> ('v \<times> 'q) option"
    and queue_ok :: "'q \<Rightarrow> bool" and view :: "'q \<Rightarrow> int \<Rightarrow> 'v list"
  assumes ok_empty: "queue_ok empty_queue" and view_empty: "view empty_queue t = []"
    and ok_put: "queue_ok q \<Longrightarrow> put q p (tr v) v = Some q' \<Longrightarrow> queue_ok q'"
    and view_put: "queue_ok q \<Longrightarrow> put q p (tr v) v = Some q' \<Longrightarrow> view q' t = view q t @ (if t = tr v then [v] else [])"
    and ok_get: "queue_ok q \<Longrightarrow> get q = Some (v, q') \<Longrightarrow> queue_ok q'"
    and view_get: "queue_ok q \<Longrightarrow> get q = Some (v, q') \<Longrightarrow> view q t = (if t = tr v then v # view q' t else view q' t)"
begin

text \<open>Any run: \<open>sent\<close> has been put and \<open>got\<close> has been taken.\<close>

inductive queue_run :: "'v list \<Rightarrow> 'q \<Rightarrow> 'v list \<Rightarrow> bool" where
  run_empty: "queue_run [] empty_queue []"
| run_put: "queue_run sent q got \<Longrightarrow> put q p (tr v) v = Some q' \<Longrightarrow> queue_run (sent @ [v]) q' got"
| run_get: "queue_run sent q got \<Longrightarrow> get q = Some (v, q') \<Longrightarrow> queue_run sent q' (got @ [v])"

lemma run_ok: "queue_run sent q got \<Longrightarrow> queue_ok q"
  by (induction rule: queue_run.induct) (auto intro: ok_empty ok_put ok_get)

lemma run_fifo: "queue_run sent q got \<Longrightarrow> filter (\<lambda>v. tr v = t) got @ view q t = filter (\<lambda>v. tr v = t) sent"
proof (induction rule: queue_run.induct)
  case (run_put sent q got p v q')
  then show ?case using view_put [OF run_ok [OF run_put(1)] run_put(2), of t] by auto
next
  case (run_get sent q got v q')
  then show ?case using view_get [OF run_ok [OF run_get(1)] run_get(2), of t] by auto
qed (simp add: view_empty)

end

definition pq_ok :: "('v \<Rightarrow> int) \<Rightarrow> 'v element list \<Rightarrow> bool" where
  "pq_ok tr items = (length items \<le> bufSize \<and> list_all (\<lambda>e. el_tran e = tr (el_value e)) items)"

interpretation pq: tran_queue tr NewPriorityQueue pq_Put pq_Get "pq_ok tr" "\<lambda>items t. of_tran t items"
  for tr :: "'v \<Rightarrow> int"
proof
  fix q q' :: "'v element list" and p t v
  show "pq_ok tr NewPriorityQueue" "of_tran t (NewPriorityQueue :: 'v element list) = []"
    by (simp_all add: pq_ok_def NewPriorityQueue_def)
  assume ok: "pq_ok tr q"
  show "pq_ok tr q'" "of_tran t q' = of_tran t q @ (if t = tr v then [v] else [])" if "pq_Put q p (tr v) v = Some q'"
    using that ok by (auto simp: pq_Put_def pq_ok_def split: if_splits)
  assume get: "pq_Get q = Some (v, q')"
  have ne: "q \<noteq> []" using get by (auto simp: pq_Get_def)
  obtain i where i: "v = el_value (q ! i)" "q' = take i q @ drop (Suc i) q" "oldest_at q i"
    using pq_Get_ok [OF ne] get by auto
  have "i < length q" using i(3) by (simp add: oldest_at_def)
  moreover from this have "el_tran (q ! i) = tr v" using ok i(1) by (simp add: pq_ok_def list_all_length)
  moreover have "set q' \<subseteq> set q" using i(2) by (auto dest: in_set_takeD in_set_dropD)
  ultimately show "pq_ok tr q'" "of_tran t q = (if t = tr v then v # of_tran t q' else of_tran t q')"
    using ok i oldest_first [OF i(3), of t] by (auto simp: pq_ok_def list_all_iff)
qed

section \<open>Properties\<close>

text \<open>C24: \<^verbatim>\<open>Get\<close> returns as soon as there is an element. It takes the element with the highest priority among the
  oldest elements of the transactions, the earliest one when several have this priority, and leaves the others in
  their order.\<close>

theorem pq_Get_takes_best:
  assumes "items \<noteq> []"
  shows "\<exists>i. pq_Get items = Some (el_value (items ! i), take i items @ drop (Suc i) items) \<and> i < length items
    \<and> (\<forall>j<i. el_tran (items ! j) \<noteq> el_tran (items ! i))
    \<and> (\<forall>k<length items. (\<forall>j<k. el_tran (items ! j) \<noteq> el_tran (items ! k)) \<longrightarrow>
          el_priority (items ! k) \<le> el_priority (items ! i) \<and> (k < i \<longrightarrow> el_priority (items ! k) < el_priority (items ! i)))"
  using pq_Get_ok [OF assms] unfolding oldest_at_def by metis

text \<open>Here the commit of transaction 5 has to wait for its read, and the commit of 7 goes first.\<close>

theorem pq_Get_takes_best_witness:
  "let e = (\<lambda>p t v. \<lparr>el_priority = p, el_tran = t, el_value = v\<rparr>) :: int \<Rightarrow> int \<Rightarrow> string \<Rightarrow> string element;
       items = [e 1 0 ''start'', e 2 5 ''read'', e 3 5 ''commit'', e 3 7 ''commit7'']
   in pq_Get items = Some (''commit7'', take 3 items) \<and> (\<exists>i<length items. pq_Get items = Some (el_value (items ! i), take i items @ drop (Suc i) items))"
proof -
  let ?e = "(\<lambda>p t v. \<lparr>el_priority = p, el_tran = t, el_value = v\<rparr>) :: int \<Rightarrow> int \<Rightarrow> string \<Rightarrow> string element"
  let ?items = "[?e 1 0 ''start'', ?e 2 5 ''read'', ?e 3 5 ''commit'', ?e 3 7 ''commit7'']"
  have "pq_Get ?items = Some (''commit7'', take 3 ?items)" by code_simp
  moreover have "\<exists>i<length ?items. pq_Get ?items = Some (el_value (?items ! i), take i ?items @ drop (Suc i) ?items)"
    using pq_Get_takes_best [of ?items] by blast
  ultimately show ?thesis by (simp only: Let_def)
qed

end
