(* ===== verification/MetaLayer.thy ===== *)
theory MetaLayer
  imports GoData
begin

text \<open>
  What a commit does to the state of the database: \<^verbatim>\<open>UpdateTran.commit\<close> (\<^verbatim>\<open>db19/tran.go\<close>) puts the changes of
  the transaction on top of the current metadata, \<^verbatim>\<open>Meta.LayeredOnto\<close> (\<^verbatim>\<open>db19/meta/meta.go\<close>) and
  \<^verbatim>\<open>Overlay.UpdateWith\<close> (\<^verbatim>\<open>db19/index/overlay.go\<close>), inside \<^verbatim>\<open>UpdateState\<close> (\<^verbatim>\<open>db19/state.go\<close>). It runs in the
  goroutine of the conflict checker. \<open>None\<close> is a failed assertion, an index out of range or a nil pointer. Btrees and
  index buffers are not looked into: they are numbers here.
\<close>

type_synonym ixbuf = nat

record overlay =
  ov_bt :: nat
  ov_mut :: "ixbuf option"
  ov_layers :: "ixbuf option list"

record delta =
  d_Nrows :: int
  d_Size :: int

record info =
  ti_Table :: string
  ti_Indexes :: "overlay list"
  ti_Nrows :: int
  ti_Size :: int
  ti_BtreeNrows :: int
  ti_BtreeSize :: int
  ti_Deltas :: "delta list"
  ti_lastMod :: int
  ti_created :: int

text \<open>The table of a \<^verbatim>\<open>Meta\<close> and the changes of a transaction, \<open>None\<close> outside one. The order of the list is that of the
  iteration over the map.\<close>

record meta =
  m_info :: "string \<Rightarrow> info option"
  m_Clock :: int
  m_difInfo :: "info list option"

definition UpdateWith :: "overlay \<Rightarrow> overlay \<Rightarrow> overlay option" where
  "UpdateWith ov latest =
     (let layers = ov_layers latest @ [ov_mut ov] in
      if 2 \<le> length layers then Some \<lparr>ov_bt = ov_bt latest, ov_mut = None, ov_layers = layers\<rparr> else None)"

text \<open>The loop over the indexes of a table: the second list has to be as long as the first.\<close>

fun update_indexes :: "overlay list \<Rightarrow> overlay list \<Rightarrow> overlay list option" where
  "update_indexes [] lovs = Some []"
| "update_indexes (ov # ovs) [] = None"
| "update_indexes (ov # ovs) (lov # lovs) = do { o' \<leftarrow> UpdateWith ov lov; os \<leftarrow> update_indexes ovs lovs; Some (o' # os) }"

definition IsTomb :: "info \<Rightarrow> bool" where
  "IsTomb ti = (ti_Indexes ti = [])"

text \<open>One table: \<open>m\<close> is the transaction's, \<open>tbl\<close> the new table so far.\<close>

definition layer_table :: "meta \<Rightarrow> info \<Rightarrow> (string \<Rightarrow> info option) \<Rightarrow> (string \<Rightarrow> info option) option" where
  "layer_table m ti tbl =
     (case tbl (ti_Table ti) of
        None \<Rightarrow> Some tbl
      | Some lti \<Rightarrow>
          if IsTomb lti then Some tbl
          else do {
            tiOrig \<leftarrow> m_info m (ti_Table ti);
            let dNrows = ti_Nrows ti - ti_Nrows tiOrig;
            let Nrows = ti_Nrows lti + dNrows;
            let dSize = ti_Size ti - ti_Size tiOrig;
            ixs \<leftarrow> (if 0 \<le> Nrows then update_indexes (ti_Indexes ti) (ti_Indexes lti) else None);
            Some (tbl(ti_Table ti \<mapsto>
              ti\<lparr>ti_Nrows := Nrows, ti_BtreeNrows := ti_BtreeNrows lti, ti_Size := ti_Size lti + dSize,
                 ti_BtreeSize := ti_BtreeSize lti, ti_Deltas := ti_Deltas lti @ [\<lparr>d_Nrows = dNrows, d_Size = dSize\<rparr>],
                 ti_Indexes := ixs, ti_lastMod := m_Clock m\<rparr>)) })"

fun layer_tables :: "meta \<Rightarrow> info list \<Rightarrow> (string \<Rightarrow> info option) \<Rightarrow> (string \<Rightarrow> info option) option" where
  "layer_tables m [] tbl = Some tbl"
| "layer_tables m (ti # tis) tbl = do { tbl' \<leftarrow> layer_table m ti tbl; layer_tables m tis tbl' }"

definition difs :: "meta \<Rightarrow> info list" where
  "difs m = (case m_difInfo m of None \<Rightarrow> [] | Some tis \<Rightarrow> tis)"

definition LayeredOnto :: "meta \<Rightarrow> meta \<Rightarrow> meta option" where
  "LayeredOnto m latest =
     (if m_difInfo latest \<noteq> None then None
      else map_option (\<lambda>tbl. latest\<lparr>m_info := tbl\<rparr>) (layer_tables m (difs m) (m_info latest)))"

text \<open>\<open>state\<close> is the current metadata, \<open>None\<close> when the database has been closed.\<close>

definition ut_commit :: "bool \<Rightarrow> meta \<Rightarrow> meta option \<Rightarrow> meta option" where
  "ut_commit corrupted m state = (if corrupted then None else do { latest \<leftarrow> state; LayeredOnto m latest })"

section \<open>What a transaction guarantees\<close>

text \<open>A table that the transaction has changed was in its own metadata, and where it still exists it has the same number of
  indexes, each with a base layer, and does not get a negative number of records.\<close>

definition table_fits :: "meta \<Rightarrow> info \<Rightarrow> info \<Rightarrow> bool" where
  "table_fits m ti lti =
     (case m_info m (ti_Table ti) of
        None \<Rightarrow> False
      | Some tiOrig \<Rightarrow> 0 \<le> ti_Nrows lti + (ti_Nrows ti - ti_Nrows tiOrig) \<and> length (ti_Indexes ti) = length (ti_Indexes lti) \<and>
          list_all (\<lambda>ov. ov_layers ov \<noteq> []) (ti_Indexes lti))"

definition fits :: "meta \<Rightarrow> meta \<Rightarrow> bool" where
  "fits m latest = (m_difInfo latest = None \<and> distinct (map ti_Table (difs m)) \<and>
     list_all (\<lambda>ti. case m_info latest (ti_Table ti) of None \<Rightarrow> True | Some lti \<Rightarrow> IsTomb lti \<or> table_fits m ti lti) (difs m))"

section \<open>Layering succeeds\<close>

lemma update_indexes_ok:
  "length ovs = length lovs \<Longrightarrow> list_all (\<lambda>ov. ov_layers ov \<noteq> []) lovs \<Longrightarrow>
   update_indexes ovs lovs =
     Some (map (\<lambda>(ov, lov). \<lparr>ov_bt = ov_bt lov, ov_mut = None, ov_layers = ov_layers lov @ [ov_mut ov]\<rparr>) (zip ovs lovs))"
proof (induction ovs arbitrary: lovs)
  case (Cons ov ovs)
  then obtain lov lovs' where l: "lovs = lov # lovs'" by (cases lovs) auto
  then have "2 \<le> length (ov_layers lov @ [ov_mut ov])" using Cons.prems by (cases "ov_layers lov") auto
  then show ?case using Cons l by (simp add: UpdateWith_def Let_def)
qed simp

lemma layer_table_ok:
  assumes "case tbl (ti_Table ti) of None \<Rightarrow> True | Some lti \<Rightarrow> IsTomb lti \<or> table_fits m ti lti"
  shows "\<exists>tbl'. layer_table m ti tbl = Some tbl' \<and> (\<forall>x. x \<noteq> ti_Table ti \<longrightarrow> tbl' x = tbl x)"
  using assms update_indexes_ok [of "ti_Indexes ti"]
  by (auto simp: layer_table_def table_fits_def Let_def split: option.splits)

lemma layer_tables_ok:
  "distinct (map ti_Table tis) \<Longrightarrow>
   list_all (\<lambda>ti. case tbl (ti_Table ti) of None \<Rightarrow> True | Some lti \<Rightarrow> IsTomb lti \<or> table_fits m ti lti) tis \<Longrightarrow>
   \<exists>tbl'. layer_tables m tis tbl = Some tbl'"
proof (induction tis arbitrary: tbl)
  case (Cons ti tis)
  obtain tbl1 where t: "layer_table m ti tbl = Some tbl1" "\<forall>x. x \<noteq> ti_Table ti \<longrightarrow> tbl1 x = tbl x"
    using layer_table_ok [where tbl = tbl and ti = ti and m = m] Cons.prems(2) by auto
  have "list_all (\<lambda>ti. case tbl1 (ti_Table ti) of None \<Rightarrow> True | Some lti \<Rightarrow> IsTomb lti \<or> table_fits m ti lti) tis"
    unfolding list_all_iff
  proof
    fix x assume x: "x \<in> set tis"
    then have "ti_Table x \<noteq> ti_Table ti" using Cons.prems(1) by (metis distinct.simps(2) image_eqI list.set_map list.simps(9))
    then have "tbl1 (ti_Table x) = tbl (ti_Table x)" using t(2) by blast
    then show "case tbl1 (ti_Table x) of None \<Rightarrow> True | Some lti \<Rightarrow> IsTomb lti \<or> table_fits m x lti"
      using Cons.prems(2) x by (simp add: list_all_iff)
  qed
  then show ?case using Cons.IH [of tbl1] Cons.prems(1) t(1) by simp
qed simp

lemma LayeredOnto_ok: "fits m latest \<Longrightarrow> \<exists>m'. LayeredOnto m latest = Some m'"
  using layer_tables_ok [where tis = "difs m" and tbl = "m_info latest" and m = m] by (auto simp: fits_def LayeredOnto_def)

end
