(* ===== verification/CheckCo.thy ===== *)
theory CheckCo
  imports TranHist PrioQueue MetaLayer
begin

text \<open>
  The concurrent front of the conflict checker, \<^verbatim>\<open>db19/checkco.go\<close>: clients put messages into the priority
  queue, one goroutine takes them out and dispatches them to the checker. A state of the whole is a \<open>co_sys\<close>: the
  queue, the checker, and, for the theorems, what was sent, what was dispatched and the history. What the program
  leaves open (the random choices, the order of iteration over a map, whether the database is locked, what the
  merger answers, the metadata of a transaction and that of the database at the time) is the record \<open>ck_env\<close>. A \<^verbatim>\<open>*CkTran\<close> is the number of the transaction.

  The results: no message makes the checker panic when its sender and the metadata keep to their contracts, what a transaction has sent before its commit
  is what the checker has seen when it commits, and the committed update transactions are serializable in the
  order of their commits.
\<close>

section \<open>Messages\<close>

datatype ck_msg =
    ckStart
  | ckRead int string nat gostr gostr
  | ckOutput int string "gostr list"
  | ckDelete int string nat "gostr list"
  | ckUpdate int string nat "gostr list" "gostr list"
  | ckCounts int
  | ckCommit int
  | ckAbort int string
  | ckAddExcl string
  | ckEndExcl string
  | ckRunEndExcl string
  | ckRunExcl string
  | ckPersist
  | ckTrans
  | ckFinal
  | ckTick

datatype ck_reply = NoReply | RetTran int | RetInt int | RetInts "int list" | RetBool bool | RetUnit | RetErr "string option" | RetState

text \<open>What a message causes outside the checker: the metadata that a commit stores as the new state of the database, and
  what goes to the merger: the tables that a transaction has written, a function to run, a request to persist.\<close>

datatype todo = StoreState meta | TodoTables "string list" int | TodoFn string | TodoPersist

record ck_env =
  env_coin :: "int \<Rightarrow> bool"
  env_ord :: "int list"
  env_corrupted :: bool
  env_err :: "string option"
  env_meta :: "int \<Rightarrow> meta"
  env_state :: "meta option"

definition lowPriority :: int where "lowPriority = 1"
definition mediumPriority :: int where "mediumPriority = 2"
definition highPriority :: int where "highPriority = 3"

text \<open>The arguments of \<^verbatim>\<open>pq.Put\<close> in the methods of \<^verbatim>\<open>CheckCo\<close>.\<close>

fun msg_priority :: "ck_msg \<Rightarrow> int" where
  "msg_priority ckStart = lowPriority"
| "msg_priority (ckRead t table index from to) = mediumPriority"
| "msg_priority (ckOutput t table keys) = mediumPriority"
| "msg_priority (ckDelete t table off keys) = mediumPriority"
| "msg_priority (ckUpdate t table oldoff oldkeys newkeys) = mediumPriority"
| "msg_priority (ckCounts t) = lowPriority"
| "msg_priority (ckCommit t) = highPriority"
| "msg_priority (ckAbort t reason) = highPriority"
| "msg_priority (ckAddExcl table) = mediumPriority"
| "msg_priority (ckEndExcl table) = highPriority"
| "msg_priority (ckRunEndExcl table) = mediumPriority"
| "msg_priority (ckRunExcl table) = mediumPriority"
| "msg_priority ckPersist = lowPriority"
| "msg_priority ckTrans = lowPriority"
| "msg_priority ckFinal = lowPriority"
| "msg_priority ckTick = lowPriority"

fun msg_tran :: "ck_msg \<Rightarrow> int" where
  "msg_tran (ckRead t table index from to) = t"
| "msg_tran (ckOutput t table keys) = t"
| "msg_tran (ckDelete t table off keys) = t"
| "msg_tran (ckUpdate t table oldoff oldkeys newkeys) = t"
| "msg_tran (ckCounts t) = t"
| "msg_tran (ckCommit t) = t"
| "msg_tran (ckAbort t reason) = t"
| "msg_tran msg = 0"

text \<open>The methods that look at \<^verbatim>\<open>t.Failed()\<close> first.\<close>

fun msg_refused :: "check \<Rightarrow> ck_msg \<Rightarrow> bool" where
  "msg_refused ck (ckRead t table index from to) = ct_Failed (ck_trans ck t)"
| "msg_refused ck (ckOutput t table keys) = ct_Failed (ck_trans ck t)"
| "msg_refused ck (ckDelete t table off keys) = ct_Failed (ck_trans ck t)"
| "msg_refused ck (ckUpdate t table oldoff oldkeys newkeys) = ct_Failed (ck_trans ck t)"
| "msg_refused ck (ckCounts t) = ct_Failed (ck_trans ck t)"
| "msg_refused ck (ckCommit t) = ct_Failed (ck_trans ck t)"
| "msg_refused ck msg = False"

section \<open>The checker goroutine\<close>

text \<open>The answers of the reading and writing operations are not sent to anybody.\<close>

definition no_reply :: "(check \<times> bool) option \<Rightarrow> (check \<times> ck_reply \<times> todo list) option" where
  "no_reply res = map_option (\<lambda>(ck', ok). (ck', NoReply, [])) res"

fun dispatch :: "ck_env \<Rightarrow> check \<Rightarrow> ck_msg \<Rightarrow> (check \<times> ck_reply \<times> todo list) option" where
  "dispatch env ck ckStart = (case StartTran ck of (ck', t) \<Rightarrow> Some (ck', RetTran t, []))"
| "dispatch env ck (ckRead t table index from to) = no_reply (ck_Read (env_coin env) (env_ord env) ck t table index from to)"
| "dispatch env ck (ckOutput t table keys) = no_reply (ck_Output (env_coin env) (env_ord env) ck t table keys)"
| "dispatch env ck (ckDelete t table off keys) = no_reply (ck_Delete (env_coin env) (env_ord env) ck t table off keys)"
| "dispatch env ck (ckUpdate t table oldoff oldkeys newkeys) =
     no_reply (ck_Update (env_coin env) (env_ord env) ck t table oldoff oldkeys newkeys)"
| "dispatch env ck (ckCounts t) = Some (ck, RetInt (ck_ReadCount ck t), [])"
| "dispatch env ck (ckAbort t reason) = Some (Abort ck t reason, NoReply, [])"
| "dispatch env ck (ckCommit t) = do {
     (ck', tablesWritten) \<leftarrow> ck_commit (env_corrupted env) ck t;
     (case tablesWritten of
        None \<Rightarrow> Some (ck', RetBool False, [])
      | Some tw \<Rightarrow>
          if tw = [] then Some (ck', RetBool True, [])
          else do { state \<leftarrow> ut_commit (env_corrupted env) (env_meta env t) (env_state env);
                    Some (ck', RetBool True, [StoreState state, TodoTables tw t]) }) }"
| "dispatch env ck (ckAddExcl table) = (case AddExclusive (env_ord env) ck table of (ck', ok) \<Rightarrow> Some (ck', RetBool ok, []))"
| "dispatch env ck (ckEndExcl table) = Some (EndExclusive ck table, RetUnit, [])"
| "dispatch env ck (ckRunEndExcl table) = Some (EndExclusive ck table, RetErr (env_err env), [TodoFn table])"
| "dispatch env ck (ckRunExcl table) =
     (case AddExclusive (env_ord env) ck table of (ck1, ok) \<Rightarrow>
        Some (if \<not> ok then (ck1, RetErr (Some (''already exclusive: '' @ table)), [])
              else (EndExclusive ck1 table, RetErr (env_err env), [TodoFn table])))"
| "dispatch env ck ckPersist = Some (ck, RetState, [TodoPersist])"
| "dispatch env ck ckTrans = Some (ck, RetInts (map (\<lambda>n. ct_start (ck_trans ck n)) (ck_actv ck)), [])"
| "dispatch env ck ckFinal = Some (ck, RetInt (int (ck_Final ck)), [])"
| "dispatch env ck ckTick = Some (ck_tick (env_ord env) ck, NoReply, [])"

section \<open>The whole\<close>

record co_sys =
  co_queue :: "ck_msg element list"
  co_check :: check
  co_hist :: history
  co_sent :: "ck_msg list"
  co_run :: "ck_msg list"

definition co_start :: co_sys where
  "co_start = \<lparr>co_queue = NewPriorityQueue, co_check = NewCheck, co_hist = no_history, co_sent = [], co_run = []\<rparr>"

text \<open>A method of \<^verbatim>\<open>CheckCo\<close>, up to the point where it waits for an answer: the test, and the message put into the queue
  (\<open>None\<close> is a full queue, where the method waits). Other threads can come between the two.\<close>

definition co_put :: "ck_msg \<Rightarrow> co_sys \<Rightarrow> co_sys option" where
  "co_put msg s =
     do { q \<leftarrow> pq_Put (co_queue s) (msg_priority msg) (msg_tran msg) msg;
          Some (s\<lparr>co_queue := q, co_sent := co_sent s @ [msg]\<rparr>) }"

definition co_send :: "ck_msg \<Rightarrow> co_sys \<Rightarrow> (co_sys \<times> bool) option" where
  "co_send msg s =
     (if msg_refused (co_check s) msg then Some (s, False)
      else do { s \<leftarrow> co_put msg s; Some (s, True) })"

text \<open>The history follows the messages; a commit counts when it was granted to a transaction with updates.\<close>

fun observe :: "ck_env \<Rightarrow> check \<Rightarrow> ck_msg \<Rightarrow> ck_reply \<Rightarrow> history \<Rightarrow> history" where
  "observe env ck (ckRead t table index from to) reply h = note_read h t table index from to"
| "observe env ck (ckOutput t table keys) reply h = note_writes h t table keys"
| "observe env ck (ckDelete t table off keys) reply h = note_writes h t table keys"
| "observe env ck (ckUpdate t table oldoff oldkeys newkeys) reply h = note_writes (note_writes h t table oldkeys) t table newkeys"
| "observe env ck (ckCommit t) reply h =
     (if reply = RetBool True \<and> \<not> env_corrupted env \<and> ct_hasUpdates (ck_trans ck t) then add_done h t else h)"
| "observe env ck msg reply h = h"

text \<open>One round of the loop of \<^verbatim>\<open>checker\<close>. \<open>None\<close> is an empty queue (the goroutine waits) or a panic in \<open>dispatch\<close>.\<close>

definition co_serve :: "ck_env \<Rightarrow> co_sys \<Rightarrow> (co_sys \<times> ck_reply \<times> todo list) option" where
  "co_serve env s = do {
     (msg, q) \<leftarrow> pq_Get (co_queue s);
     (ck', reply, todos) \<leftarrow> dispatch env (co_check s) msg;
     Some (s\<lparr>co_queue := q, co_check := ck', co_hist := observe env (co_check s) msg reply (co_hist s), co_run := co_run s @ [msg]\<rparr>,
           reply, todos) }"

text \<open>What the callers guarantee: a transaction was started, the ends of a range are in order, records have an
  offset, an update has as many new keys as old ones; the order of iteration visits every transaction with
  actions on the table; and the counter of the transactions does not overflow.\<close>

definition visits_all :: "ck_env \<Rightarrow> check \<Rightarrow> string \<Rightarrow> bool" where
  "visits_all env ck table = list_all (\<lambda>n. ck_bytable ck table n = None \<or> n \<in> set (env_ord env)) (ck_actv ck @ ck_cmtd ck)"

fun msg_ok :: "ck_env \<Rightarrow> check \<Rightarrow> ck_msg \<Rightarrow> bool" where
  "msg_ok env ck (ckRead t table index from to) = (t \<le> ck_seq ck \<and> from \<le> to \<and> visits_all env ck table)"
| "msg_ok env ck (ckOutput t table keys) = (t \<le> ck_seq ck \<and> visits_all env ck table)"
| "msg_ok env ck (ckDelete t table off keys) = (t \<le> ck_seq ck \<and> off \<noteq> 0 \<and> visits_all env ck table)"
| "msg_ok env ck (ckUpdate t table oldoff oldkeys newkeys) =
     (t \<le> ck_seq ck \<and> oldoff \<noteq> 0 \<and> length newkeys = length oldkeys \<and> visits_all env ck table)"
| "msg_ok env ck (ckAddExcl table) = visits_all env ck table"
| "msg_ok env ck (ckRunExcl table) = (visits_all env ck table \<and> ck_seq ck + 2 < MaxInt)"
| "msg_ok env ck msg = (ck_seq ck + 2 < MaxInt)"

text \<open>The steps of all threads. \<open>put\<close> is the second half of a method whose test was passed in an earlier state.\<close>

inductive co_reach :: "co_sys \<Rightarrow> bool" where
  start: "co_reach co_start"
| send: "co_reach s \<Longrightarrow> co_send msg s = Some (s', ok) \<Longrightarrow> co_reach s'"
| put: "co_reach s \<Longrightarrow> co_put msg s = Some s' \<Longrightarrow> co_reach s'"
| serve: "co_reach s \<Longrightarrow> pq_Get (co_queue s) = Some (msg, q) \<Longrightarrow> msg_ok env (co_check s) msg \<Longrightarrow>
    co_serve env s = Some (s', reply, todos) \<Longrightarrow> co_reach s'"

section \<open>Every message keeps the state good\<close>

lemma visits_all_visits:
  assumes "good ck h" "visits_all env ck table"
  shows "visits ck table (env_ord env)"
  unfolding visits_def
proof (intro allI impI)
  fix n assume n: "ck_bytable ck table n \<noteq> None"
  then have "n \<in> set (ck_actv ck @ ck_cmtd ck)" using ck_invD(5) [OF goodD(1) [OF assms(1)], of table n] by auto
  then have "ck_bytable ck table n = None \<or> n \<in> set (env_ord env)"
    by (rule bspec [OF assms(2) [unfolded visits_all_def list_all_iff]])
  then show "n \<in> set (env_ord env)" using n by simp
qed

text \<open>An operation of a committed transaction is refused and changes nothing.\<close>

lemma done_write_start:
  assumes "good ck h" "t \<in> set (h_done h)"
  shows "write_start ck t table = Some (ck, Some False)"
  using done_refused [OF assms] by (simp add: write_start_def gotUpdate_def Let_def)

lemma done_ops:
  assumes "good ck h" "t \<in> set (h_done h)"
  shows "ck_Read coin ord ck t table i a b = Some (ck, False)" "ck_Output coin ord ck t table keys = Some (ck, False)"
    "ck_Delete coin ord ck t table off keys = Some (ck, False)" "ck_Update coin ord ck t table off keys keys' = Some (ck, False)"
  using done_refused [OF assms] done_write_start [OF assms, of table]
  by (simp_all add: ck_Read_def ck_Output_def ck_Delete_def ck_Update_def Let_def)

lemma answers_noted:
  assumes a: "answers t (ck_seq ck) h h' res" and d: "t \<in> set (h_done h) \<Longrightarrow> res = Some (ck, False)" and seq: "t \<le> ck_seq ck"
    and n: "t \<notin> set (h_done h) \<Longrightarrow> note = h'" "t \<in> set (h_done h) \<Longrightarrow> note = h"
    and gone: "\<And>c. good c h \<Longrightarrow> t \<notin> set (h_done h) \<Longrightarrow> t \<le> ck_seq c \<Longrightarrow> t \<notin> set (ck_actv c) \<Longrightarrow> good c h'"
  shows "\<exists>ck' todos. no_reply res = Some (ck', NoReply, todos) \<and> good ck' note"
proof -
  obtain ck' ok where r: "res = Some (ck', ok)" "good ck' (if ok then h' else h)" "ck_seq ck' = ck_seq ck" "\<not> ok \<longrightarrow> t \<notin> set (ck_actv ck')"
    using a unfolding answers_def by blast
  have "good ck' note"
    using r n d gone [of ck'] seq by (cases "t \<in> set (h_done h)"; cases ok) auto
  then show ?thesis using r(1) by (simp add: no_reply_def)
qed

text \<open>The messages that read or write a table.\<close>

lemma dispatch_read_good:
  assumes g: "good ck h" and ok: "msg_ok env ck (ckRead t table i a b)"
  shows "\<exists>ck' todos. no_reply (ck_Read (env_coin env) (env_ord env) ck t table i a b) = Some (ck', NoReply, todos)
    \<and> good ck' (note_read h t table i a b)"
proof -
  have v: "visits ck table (env_ord env)" using visits_all_visits [OF g] ok by simp
  show ?thesis
    by (rule answers_noted [OF ck_Read_good [OF g _ v]])
      (use ok done_ops(1) [OF g] good_add_read_gone [of _ h t] in \<open>auto simp: note_read_def unmarked_def\<close>)
qed

lemma dispatch_write_good:
  assumes g: "good ck h" and v: "visits_all env ck table" and t: "t \<le> ck_seq ck"
  shows "\<exists>ck' todos. no_reply (ck_Output (env_coin env) (env_ord env) ck t table keys) = Some (ck', NoReply, todos)
      \<and> good ck' (note_writes h t table keys)"
    and "off \<noteq> 0 \<Longrightarrow> \<exists>ck' todos. no_reply (ck_Delete (env_coin env) (env_ord env) ck t table off keys) = Some (ck', NoReply, todos)
      \<and> good ck' (note_writes h t table keys)"
    and "off \<noteq> 0 \<Longrightarrow> length keys' = length keys \<Longrightarrow>
      \<exists>ck' todos. no_reply (ck_Update (env_coin env) (env_ord env) ck t table off keys keys') = Some (ck', NoReply, todos)
      \<and> good ck' (note_writes (note_writes h t table keys) t table keys')"
proof -
  note v = visits_all_visits [OF g v]
  show "\<exists>ck' todos. no_reply (ck_Output (env_coin env) (env_ord env) ck t table keys) = Some (ck', NoReply, todos)
      \<and> good ck' (note_writes h t table keys)"
    by (rule answers_noted [OF ck_Output_good [OF g v]])
      (use t done_ops(2) [OF g] good_add_writes_gone in \<open>auto simp: note_writes_def\<close>)
  show "\<exists>ck' todos. no_reply (ck_Delete (env_coin env) (env_ord env) ck t table off keys) = Some (ck', NoReply, todos)
      \<and> good ck' (note_writes h t table keys)" if "off \<noteq> 0"
    by (rule answers_noted [OF ck_Delete_good [OF g v]])
      (use that t done_ops(3) [OF g] good_add_writes_gone in \<open>auto simp: note_writes_def\<close>)
  show "\<exists>ck' todos. no_reply (ck_Update (env_coin env) (env_ord env) ck t table off keys keys') = Some (ck', NoReply, todos)
      \<and> good ck' (note_writes (note_writes h t table keys) t table keys')" if "off \<noteq> 0" "length keys' = length keys"
    by (rule answers_noted [OF ck_Update_good [OF g v]])
      (use that t done_ops(4) [OF g] good_add_writes_gone in \<open>auto simp: note_writes_def\<close>)
qed

text \<open>The one thing beyond the checker that can fail: what a commit with updates does to the state of the database.\<close>

fun commit_fits :: "ck_env \<Rightarrow> ck_msg \<Rightarrow> bool" where
  "commit_fits env (ckCommit t) =
     (env_corrupted env \<or> (case env_state env of None \<Rightarrow> False | Some latest \<Rightarrow> fits (env_meta env t) latest))"
| "commit_fits env msg = True"

lemma commit_fitsD: "commit_fits env (ckCommit t) \<Longrightarrow> \<not> env_corrupted env \<Longrightarrow>
    \<exists>state. ut_commit (env_corrupted env) (env_meta env t) (env_state env) = Some state"
  using LayeredOnto_ok by (auto simp: ut_commit_def split: option.splits)

lemma dispatch_commit_good:
  assumes g: "good ck h" and ok: "msg_ok env ck (ckCommit t)"
  shows "case dispatch env ck (ckCommit t) of None \<Rightarrow> \<not> commit_fits env (ckCommit t)
    | Some (ck', reply, todos) \<Rightarrow> good ck' (observe env ck (ckCommit t) reply h)"
proof -
  have seq: "ck_seq ck + 2 < MaxInt" using ok by simp
  show ?thesis
    using g seq
  proof (cases rule: ck_commit_good [of ck h "env_corrupted env" t])
    case (refused ck' tw)
    moreover have "tw = None" if "\<not> env_corrupted env"
      using refused that start_active [OF goodD(1) [OF g], of t] by (simp add: ck_commit_def Let_def)
    moreover have "tw = Some []" if "env_corrupted env" using refused that by (simp add: ck_commit_def)
    ultimately show ?thesis by (cases "env_corrupted env") auto
  qed (use commit_fitsD [of env t] in \<open>auto split: option.splits Option.bind_splits\<close>)
qed

lemma dispatch_good:
  assumes g: "good ck h" and ok: "msg_ok env ck msg"
  shows "case dispatch env ck msg of None \<Rightarrow> \<not> commit_fits env msg
    | Some (ck', reply, todos) \<Rightarrow> good ck' (observe env ck msg reply h)"
proof (cases msg)
  case ckStart
  obtain ck' t where "StartTran ck = (ck', t)" by force
  then show ?thesis using StartTran_good [OF g, of ck' t] ckStart ok by simp
next
  case (ckRead t table i a b)
  then show ?thesis using dispatch_read_good [OF g, of env t table i a b] ok by (auto split: option.splits)
next
  case (ckOutput t table keys)
  then show ?thesis using dispatch_write_good(1) [OF g, of env table t keys] ok by (auto split: option.splits)
next
  case (ckDelete t table off keys)
  then show ?thesis using dispatch_write_good(2) [OF g, of env table t off keys] ok by (auto split: option.splits)
next
  case (ckUpdate t table off keys keys')
  then show ?thesis using dispatch_write_good(3) [OF g, of env table t off keys' keys] ok by (auto split: option.splits)
next
  case (ckCommit t)
  then show ?thesis using dispatch_commit_good [OF g, of env t] ok by (simp only: simp_thms)
next
  case (ckAddExcl table)
  obtain ck' b where "AddExclusive (env_ord env) ck table = (ck', b)" by force
  then show ?thesis using AddExclusive_good [OF g visits_all_visits [OF g], of env table] ok ckAddExcl by simp
next
  case (ckRunExcl table)
  obtain ck' b where a: "AddExclusive (env_ord env) ck table = (ck', b)" by force
  have g1: "good ck' h" using AddExclusive_good [OF g visits_all_visits [OF g], of env table] ok ckRunExcl a by simp
  have "ck_seq ck' = ck_seq ck"
    using a weakenD(6) [of ck "preempt_loop ck table (env_ord env)"] preempt_loop_ok [OF goodD(1) [OF g]]
    by (auto simp: AddExclusive_def Let_def split: if_splits)
  then show ?thesis using a g1 EndExclusive_good [OF g1, of table] ok ckRunExcl by simp
qed (use g ok EndExclusive_good Abort_good ck_tick_good in auto)

section \<open>Reachable states\<close>

text \<open>What a message says is in the history.\<close>

fun noted :: "history \<Rightarrow> ck_msg \<Rightarrow> bool" where
  "noted h (ckRead t table index from to) = ((table, index, from, to) \<in> set (h_reads h t))"
| "noted h (ckOutput t table keys) = (set (index_keys table keys) \<subseteq> set (h_writes h t))"
| "noted h (ckDelete t table off keys) = (set (index_keys table keys) \<subseteq> set (h_writes h t))"
| "noted h (ckUpdate t table oldoff oldkeys newkeys) =
     (set (index_keys table oldkeys) \<union> set (index_keys table newkeys) \<subseteq> set (h_writes h t))"
| "noted h msg = True"

lemma observe_grows:
  "set (h_reads h n) \<subseteq> set (h_reads (observe env ck msg reply h) n)" "set (h_writes h n) \<subseteq> set (h_writes (observe env ck msg reply h) n)"
  by (cases msg; auto simp: note_read_def note_writes_def add_read_def add_writes_def add_done_def)+

lemma noted_observe: "noted h m \<Longrightarrow> noted (observe env ck msg reply h) m"
  using observe_grows [of h "msg_tran m" env ck msg reply] by (cases m) auto

lemma observe_noted: "msg_tran msg \<notin> set (h_done h) \<Longrightarrow> noted (observe env ck msg reply h) msg"
  by (cases msg) (auto simp: note_read_def note_writes_def add_read_def add_writes_def add_done_def)

lemma observe_done:
  "h_done (observe env ck msg reply h) = h_done h
   \<or> (\<exists>t. msg = ckCommit t \<and> h_done (observe env ck msg reply h) = t # h_done h)"
  by (cases msg) auto

definition reported :: "co_sys \<Rightarrow> bool" where
  "reported s \<longleftrightarrow> (\<forall>m\<in>set (co_run s). msg_tran m \<notin> set (h_done (co_hist s)) \<longrightarrow> noted (co_hist s) m)
     \<and> (\<forall>t\<in>set (h_done (co_hist s)). \<exists>pre post. co_run s = pre @ ckCommit t # post
          \<and> (\<forall>m\<in>set pre. msg_tran m = t \<longrightarrow> noted (co_hist s) m))"

lemma reported_step:
  assumes r: "reported s" and run: "co_run s' = co_run s @ [msg]" and h: "co_hist s' = observe env ck msg reply (co_hist s)"
  shows "reported s'"
  unfolding reported_def
proof (intro conjI ballI impI)
  have dn: "set (h_done (co_hist s)) \<subseteq> set (h_done (co_hist s'))"
    using observe_done [of env ck msg reply "co_hist s"] unfolding h by auto
  have mono: "noted (co_hist s) m \<Longrightarrow> noted (co_hist s') m" for m unfolding h by (rule noted_observe)
  show "noted (co_hist s') m" if "m \<in> set (co_run s')" "msg_tran m \<notin> set (h_done (co_hist s'))" for m
  proof (cases "m = msg")
    case True
    then show ?thesis using observe_noted [of msg "co_hist s"] that(2) dn unfolding h by blast
  next
    case False
    then show ?thesis using mono [of m] r that dn unfolding run reported_def by auto
  qed
  fix t assume t: "t \<in> set (h_done (co_hist s'))"
  show "\<exists>pre post. co_run s' = pre @ ckCommit t # post \<and> (\<forall>m\<in>set pre. msg_tran m = t \<longrightarrow> noted (co_hist s') m)"
  proof (cases "t \<in> set (h_done (co_hist s))")
    case True
    then obtain pre post where "co_run s = pre @ ckCommit t # post" "\<forall>m\<in>set pre. msg_tran m = t \<longrightarrow> noted (co_hist s) m"
      using r unfolding reported_def by blast
    then show ?thesis using mono unfolding run by (intro exI [of _ pre] exI [of _ "post @ [msg]"]) auto
  next
    case False
    then have "msg = ckCommit t" using observe_done [of env ck msg reply "co_hist s"] t unfolding h by auto
    then show ?thesis using r mono False unfolding run reported_def by (intro exI [of _ "co_run s"] exI [of _ "[]"]) auto
  qed
qed

lemma co_serve_cases:
  assumes "co_serve env s = Some (s', reply, todos)"
  obtains msg q ck' where "pq_Get (co_queue s) = Some (msg, q)" "dispatch env (co_check s) msg = Some (ck', reply, todos)"
    "s' = s\<lparr>co_queue := q, co_check := ck', co_hist := observe env (co_check s) msg reply (co_hist s), co_run := co_run s @ [msg]\<rparr>"
  using assms by (auto simp: co_serve_def split: Option.bind_splits)

lemma co_reach_inv:
  "co_reach s \<Longrightarrow> good (co_check s) (co_hist s) \<and> pq.queue_run msg_tran (co_sent s) (co_queue s) (co_run s) \<and> reported s"
proof (induction rule: co_reach.induct)
  case start
  then show ?case using good_new pq.run_empty by (simp add: co_start_def reported_def no_history_def)
next
  case (send s msg s' ok)
  then show ?case
    using pq.run_put [of msg_tran "co_sent s" "co_queue s" "co_run s" "msg_priority msg" msg]
    by (auto simp: co_send_def co_put_def reported_def split: if_splits Option.bind_splits)
next
  case (put s msg s')
  then show ?case
    using pq.run_put [of msg_tran "co_sent s" "co_queue s" "co_run s" "msg_priority msg" msg]
    by (auto simp: co_put_def reported_def split: Option.bind_splits)
next
  case (serve s msg q env s' reply todos)
  from serve(4) obtain msg' q' ck' where c: "pq_Get (co_queue s) = Some (msg', q')"
    "dispatch env (co_check s) msg' = Some (ck', reply, todos)"
    "s' = s\<lparr>co_queue := q', co_check := ck', co_hist := observe env (co_check s) msg' reply (co_hist s), co_run := co_run s @ [msg']\<rparr>"
    by (rule co_serve_cases)
  have m: "msg' = msg" using c(1) serve(2) by simp
  have "good ck' (observe env (co_check s) msg' reply (co_hist s))"
    using dispatch_good [of "co_check s" "co_hist s" env msg] serve c(2) m by auto
  moreover have "reported s'" by (rule reported_step [of s]) (use serve.IH c(3) in auto)
  moreover have "pq.queue_run msg_tran (co_sent s) q' (co_run s @ [msg'])"
    using pq.run_get [of msg_tran "co_sent s" "co_queue s" "co_run s" msg' q'] serve.IH c(1) by simp
  ultimately show ?case using c(3) by simp
qed

lemmas co_reachD = co_reach_inv [THEN conjunct1] co_reach_inv [THEN conjunct2, THEN conjunct1] co_reach_inv [THEN conjunct2, THEN conjunct2]

section \<open>Runs that are played\<close>

text \<open>Messages that are sent and served one after the other; a refused message is answered at once.\<close>

fun play :: "ck_env \<Rightarrow> ck_msg list \<Rightarrow> co_sys \<Rightarrow> (co_sys \<times> ck_reply list) option" where
  "play env [] s = Some (s, [])"
| "play env (msg # msgs) s = do {
     (s1, sent) \<leftarrow> co_send msg s;
     if \<not> sent then do { (s', replies) \<leftarrow> play env msgs s1; Some (s', RetBool False # replies) }
     else do {
       (m, q) \<leftarrow> pq_Get (co_queue s1);
       (if msg_ok env (co_check s1) m then do {
          (s2, reply, todos) \<leftarrow> co_serve env s1;
          (s', replies) \<leftarrow> play env msgs s2;
          Some (s', reply # replies) }
        else None) } }"

lemma play_reach: "co_reach s \<Longrightarrow> play env msgs s = Some (s', replies) \<Longrightarrow> co_reach s'"
proof (induction env msgs s arbitrary: s' replies rule: play.induct)
  case (2 env msg msgs s)
  from "2.prems"(2) obtain s1 sent where s1: "co_send msg s = Some (s1, sent)" by (auto split: Option.bind_splits)
  have r1: "co_reach s1" by (rule co_reach.send [OF "2.prems"(1) s1])
  show ?case
  proof (cases sent)
    case False
    then show ?thesis using "2.IH"(1) [OF s1 refl _ r1] "2.prems"(2) s1 by (auto split: Option.bind_splits)
  next
    case True
    obtain m q where g: "pq_Get (co_queue s1) = Some (m, q)" using "2.prems"(2) s1 True by (auto split: Option.bind_splits)
    have ok: "msg_ok env (co_check s1) m" using "2.prems"(2) s1 True g by (auto split: if_splits)
    obtain s2 reply todos where s2: "co_serve env s1 = Some (s2, reply, todos)"
      using "2.prems"(2) s1 True g ok by (auto split: Option.bind_splits)
    have r2: "co_reach s2" by (rule co_reach.serve [OF r1 g ok s2])
    show ?thesis
      using "2.IH"(2) [OF s1 refl _ g refl ok s2 refl refl r2] "2.prems"(2) s1 True g ok s2 by (auto split: Option.bind_splits)
  qed
qed simp

section \<open>Properties\<close>

text \<open>A table with \<open>n\<close> records and one index, and an environment in which every transaction adds a record to it.\<close>

definition demo_info :: "int \<Rightarrow> info" where
  "demo_info n = \<lparr>ti_Table = ''tbl'', ti_Indexes = [\<lparr>ov_bt = 1, ov_mut = Some 7, ov_layers = [Some 6]\<rparr>], ti_Nrows = n, ti_Size = n,
     ti_BtreeNrows = n, ti_BtreeSize = n, ti_Deltas = [], ti_lastMod = 0, ti_created = 0\<rparr>"

definition demo_env :: ck_env where
  "demo_env = \<lparr>env_coin = (\<lambda>_. True), env_ord = [3, 5], env_corrupted = False, env_err = None,
     env_meta = (\<lambda>t. \<lparr>m_info = [''tbl'' \<mapsto> demo_info 4], m_Clock = 1, m_difInfo = Some [demo_info 5]\<rparr>),
     env_state = Some \<lparr>m_info = [''tbl'' \<mapsto> demo_info 4], m_Clock = 1, m_difInfo = None\<rparr>\<rparr>"

text \<open>Two transactions that look up a key, do not find it and output it: \<^verbatim>\<open>dup_msgs\<close> are their messages.\<close>

definition dup_msgs :: "gostr \<Rightarrow> ck_msg list" where
  "dup_msgs key = [ckStart, ckStart, ckRead 3 ''tbl'' 0 key key, ckOutput 3 ''tbl'' [key], ckCommit 3,
     ckRead 5 ''tbl'' 0 key key, ckOutput 5 ''tbl'' [key], ckCommit 5]"

text \<open>What a transaction did before its commit, and a conflict that was not noticed.\<close>

definition before_commit :: "co_sys \<Rightarrow> int \<Rightarrow> ck_msg list" where
  "before_commit s t = takeWhile (\<lambda>m. m \<noteq> ckCommit t) (co_run s)"

definition looked_up_and_output :: "co_sys \<Rightarrow> int \<Rightarrow> string \<Rightarrow> nat \<Rightarrow> gostr \<Rightarrow> bool" where
  "looked_up_and_output s t table i key =
     (List.member (before_commit s t) (ckRead t table i key key) \<and>
      list_ex (\<lambda>m. case m of ckOutput u tbl keys \<Rightarrow> u = t \<and> tbl = table \<and> i < length keys \<and> keys ! i = key | _ \<Rightarrow> False) (before_commit s t))"

definition duplicated :: "co_sys \<Rightarrow> int \<Rightarrow> int \<Rightarrow> string \<Rightarrow> nat \<Rightarrow> gostr \<Rightarrow> bool" where
  "duplicated s t u table i key =
     (t \<noteq> u \<and> List.member (h_done (co_hist s)) t \<and> List.member (h_done (co_hist s)) u \<and>
      t < ct_end (ck_trans (co_check s) u) \<and> u < ct_end (ck_trans (co_check s) t) \<and>
      looked_up_and_output s t table i key \<and> looked_up_and_output s u table i key)"

definition duplicate :: "co_sys \<Rightarrow> gostr \<Rightarrow> bool" where
  "duplicate s key \<longleftrightarrow> (\<exists>t u table i. duplicated s t u table i key)"

lemma before_commit_noted:
  assumes "co_reach s" "t \<in> set (h_done (co_hist s))" "m \<in> set (before_commit s t)" "msg_tran m = t"
  shows "noted (co_hist s) m"
proof -
  obtain pre post where r: "co_run s = pre @ ckCommit t # post" "\<forall>m\<in>set pre. msg_tran m = t \<longrightarrow> noted (co_hist s) m"
    using co_reachD(3) [OF assms(1)] assms(2) unfolding reported_def by blast
  have "before_commit s t = takeWhile (\<lambda>m. m \<noteq> ckCommit t) pre"
    unfolding before_commit_def r(1) by (simp add: takeWhile_append takeWhile_eq_all_conv [THEN iffD2])
  then show ?thesis using assms(3,4) r(2) by (auto dest: set_takeWhileD)
qed

lemma looked_up_noted:
  assumes "co_reach s" "t \<in> set (h_done (co_hist s))" "looked_up_and_output s t table i key" "key \<noteq> []"
  shows "did_read (co_hist s) t (table, i, key)" "did_write (co_hist s) t (table, i, key)"
proof -
  have "ckRead t table i key key \<in> set (before_commit s t)" using assms(3) by (simp add: looked_up_and_output_def)
  from before_commit_noted [OF assms(1,2) this] have "(table, i, key, key) \<in> set (h_reads (co_hist s) t)" by simp
  then show "did_read (co_hist s) t (table, i, key)"
    by (auto simp: did_read_def in_range_def list_ex_iff intro!: bexI [of _ "(table, i, key, key)"])
  obtain m where m: "m \<in> set (before_commit s t)"
      "case m of ckOutput u tbl keys \<Rightarrow> u = t \<and> tbl = table \<and> i < length keys \<and> keys ! i = key | _ \<Rightarrow> False"
    using assms(3) by (auto simp: looked_up_and_output_def list_ex_iff)
  then obtain keys where "ckOutput t table keys \<in> set (before_commit s t)" "i < length keys" "keys ! i = key"
    by (cases m rule: ck_msg.exhaust) simp_all
  moreover from this before_commit_noted [OF assms(1,2), of "ckOutput t table keys"]
  have "set (index_keys table keys) \<subseteq> set (h_writes (co_hist s) t)" by simp
  ultimately show "did_write (co_hist s) t (table, i, key)"
    using assms(4) by (fastforce simp: did_write_def index_keys_def)
qed

lemma duplicate_empty:
  assumes "co_reach s" "duplicate s key"
  shows "key = []"
proof (rule ccontr)
  assume k: "key \<noteq> []"
  obtain t u table i where d: "duplicated s t u table i key" using assms(2) by (auto simp: duplicate_def)
  have in_done: "t \<in> set (h_done (co_hist s))" "u \<in> set (h_done (co_hist s))" and "t \<noteq> u"
    and lt: "t < ct_end (ck_trans (co_check s) u)" "u < ct_end (ck_trans (co_check s) t)"
    and l: "looked_up_and_output s t table i key" "looked_up_and_output s u table i key"
    using d by (auto simp: duplicated_def)
  note h = goodD(3) [OF co_reachD(1) [OF assms(1)]]
  note rt = looked_up_noted [OF assms(1) in_done(1) l(1) k] and ru = looked_up_noted [OF assms(1) in_done(2) l(2) k]
  have "\<not> ct_end (ck_trans (co_check s) t) < ct_end (ck_trans (co_check s) u)"
    using histD(7) [OF h in_done \<open>t \<noteq> u\<close>] rt ru lt unfolding undisturbed_def by blast
  moreover have "\<not> ct_end (ck_trans (co_check s) u) < ct_end (ck_trans (co_check s) t)"
    using histD(7) [OF h in_done(2,1)] \<open>t \<noteq> u\<close> rt ru lt unfolding undisturbed_def by blast
  moreover have "ct_end (ck_trans (co_check s) t) \<noteq> ct_end (ck_trans (co_check s) u)"
    using histD(6) [OF h in_done] \<open>t \<noteq> u\<close> by blast
  ultimately show False by linarith
qed

text \<open>Transactions that get along: 3 writes \<open>[98]\<close> and commits while 5, which has read \<open>[97]\<close>, is still running.\<close>

definition apart_msgs :: "ck_msg list" where
  "apart_msgs = [ckStart, ckStart, ckRead 5 ''tbl'' 0 [97] [97], ckOutput 3 ''tbl'' [[98]], ckCommit 3,
     ckOutput 5 ''tbl'' [[97]], ckCommit 5]"

text \<open>C4: the transactions that have committed with updates are serializable in the order of their commits: the commit
  times are different, and for every key that a committed transaction has read, the transactions whose
  writes to the key were in its snapshot (they committed before it started) are exactly those that come before it in the
  order of the commits. This holds in every reachable state, for every interleaving of the messages in the queue, all random
  choices and every order of iteration, provided the senders keep their part (\<open>msg_ok\<close>: a transaction was started, the ends of
  a range are in order, records have an offset, an update has as many new keys as old ones) and the counter of the
  transactions does not overflow. (Keys are those of an index; the empty key, whose conflicts the checker can miss,
  is not among the written ones.)\<close>

theorem committed_serializable:
  assumes "co_reach s" and "e \<in> set (h_done (co_hist s))"
  shows "let commit_time = (\<lambda>d. ct_end (ck_trans (co_check s) d));
             writers = (\<lambda>x P. {d \<in> set (h_done (co_hist s)). d \<noteq> e \<and> did_write (co_hist s) d x \<and> P (commit_time d)})
         in e < commit_time e \<and> (\<forall>d\<in>set (h_done (co_hist s)). d \<noteq> e \<longrightarrow> commit_time d \<noteq> commit_time e)
            \<and> (\<forall>x. did_read (co_hist s) e x \<longrightarrow> writers x (\<lambda>c. c \<le> e) = writers x (\<lambda>c. c < commit_time e))"
proof -
  note h = goodD(3) [OF co_reachD(1) [OF assms(1)]]
  have lt: "e < ct_end (ck_trans (co_check s) e)" using histD(5) [OF h assms(2)] by (simp add: done_ok_def)
  have "\<not> e < ct_end (ck_trans (co_check s) d)"
    if "d \<in> set (h_done (co_hist s))" "d \<noteq> e" "did_read (co_hist s) e x" "did_write (co_hist s) d x"
      "ct_end (ck_trans (co_check s) d) < ct_end (ck_trans (co_check s) e)" for d x
    using histD(7) [OF h that(1) assms(2) that(2)] that unfolding undisturbed_def by blast
  then show ?thesis using lt histD(6) [OF h _ assms(2)] unfolding Let_def by (fastforce simp: not_less)
qed

theorem committed_serializable_witness:
  "\<exists>s replies. play demo_env apart_msgs co_start = Some (s, replies) \<and> h_done (co_hist s) = [5, 3] \<and> did_read (co_hist s) 5 (''tbl'', 0, [97])
     \<and> did_write (co_hist s) 3 (''tbl'', 0, [98])
     \<and> (let commit_time = (\<lambda>d. ct_end (ck_trans (co_check s) d)) in 5 < commit_time 3 \<and> commit_time 3 < commit_time 5
         \<and> {d \<in> set (h_done (co_hist s)). d \<noteq> 5 \<and> did_write (co_hist s) d (''tbl'', 0, [97]) \<and> commit_time d \<le> 5}
           = {d \<in> set (h_done (co_hist s)). d \<noteq> 5 \<and> did_write (co_hist s) d (''tbl'', 0, [97]) \<and> commit_time d < commit_time 5})"
proof -
  have run: "case play demo_env apart_msgs co_start of None \<Rightarrow> False | Some (s, replies) \<Rightarrow> h_done (co_hist s) = [5, 3]
      \<and> did_read (co_hist s) 5 (''tbl'', 0, [97]) \<and> did_write (co_hist s) 3 (''tbl'', 0, [98])
      \<and> 5 < ct_end (ck_trans (co_check s) 3) \<and> ct_end (ck_trans (co_check s) 3) < ct_end (ck_trans (co_check s) 5)"
    by code_simp
  then obtain s replies where s: "play demo_env apart_msgs co_start = Some (s, replies)" "h_done (co_hist s) = [5, 3]"
    "did_read (co_hist s) 5 (''tbl'', 0, [97])" "did_write (co_hist s) 3 (''tbl'', 0, [98])"
    "5 < ct_end (ck_trans (co_check s) 3)" "ct_end (ck_trans (co_check s) 3) < ct_end (ck_trans (co_check s) 5)"
    by (auto split: option.splits)
  have "co_reach s" by (rule play_reach [OF co_reach.start s(1)])
  from committed_serializable [OF this, of 5] show ?thesis using s unfolding Let_def by auto
qed



text \<open>C11: when a transaction commits, the checker has seen everything it sent before, although commits have a
  higher priority: its messages before the commit, in the order in which they were sent, are all in
  the history, so that the history of a committed transaction has all the reads and writes it has made. (As in C4, the
  reachable states are those of senders that keep \<open>msg_ok\<close>.)\<close>

theorem commit_after_all_messages:
  assumes "co_reach s" and "t \<in> set (h_done (co_hist s))"
  shows "\<exists>pre post. filter (\<lambda>m. msg_tran m = t) (co_sent s) = pre @ ckCommit t # post \<and> (\<forall>m\<in>set pre. noted (co_hist s) m)"
proof -
  obtain pre post where r: "co_run s = pre @ ckCommit t # post" "\<forall>m\<in>set pre. msg_tran m = t \<longrightarrow> noted (co_hist s) m"
    using co_reachD(3) [OF assms(1)] assms(2) unfolding reported_def by blast
  have "filter (\<lambda>m. msg_tran m = t) (co_sent s)
      = filter (\<lambda>m. msg_tran m = t) pre @ ckCommit t # (filter (\<lambda>m. msg_tran m = t) post @ of_tran t (co_queue s))"
    using pq.run_fifo [OF co_reachD(2) [OF assms(1)], of t] r(1) by simp
  then show ?thesis using r(2) by (intro exI conjI) auto
qed

theorem commit_after_all_messages_witness:
  "\<exists>s replies. play demo_env apart_msgs co_start = Some (s, replies) \<and> 5 \<in> set (h_done (co_hist s))
     \<and> (\<exists>pre post. filter (\<lambda>m. msg_tran m = 5) (co_sent s) = pre @ ckCommit 5 # post \<and> (\<forall>m\<in>set pre. noted (co_hist s) m))"
proof -
  have "case play demo_env apart_msgs co_start of None \<Rightarrow> False | Some (s, replies) \<Rightarrow> List.member (h_done (co_hist s)) 5" by code_simp
  then obtain s replies where s: "play demo_env apart_msgs co_start = Some (s, replies)" "5 \<in> set (h_done (co_hist s))"
    by (auto split: option.splits)
  from commit_after_all_messages [OF play_reach [OF co_reach.start s(1)] s(2)] show ?thesis using s by blast
qed

text \<open>C21: exclusive access excludes writers: when a commit hands written tables to the merger, the transaction has
  started after the end of every exclusive access to one of them that is still remembered; in particular none of them is
  under exclusive access. (As in C4, the reachable states are those of senders that keep \<open>msg_ok\<close>.)\<close>

theorem exclusive_excludes_writers:
  assumes "co_reach s" and "ck_seq (co_check s) + 2 < MaxInt"
    and "dispatch env (co_check s) (ckCommit t) = Some (ck', reply, todos)" and "TodoTables tw t' \<in> set todos"
    and "table \<in> set tw" and "ck_exclusive (co_check s) table = Some e"
  shows "e \<le> t \<and> e \<noteq> MaxInt"
  using co_reachD(1) [OF assms(1)] assms(2)
proof (cases rule: ck_commit_good [of "co_check s" "co_hist s" "env_corrupted env" t])
  case (committed ck2 tw2)
  note inv = goodD(1) [OF co_reachD(1) [OF assms(1)]]
  have "tw2 = tw" using committed(1) assms(3,4) by (auto split: if_splits Option.bind_splits)
  then obtain ta where ta: "ck_bytable (co_check s) table t = Some ta" "wrote ta" using committed(6) assms(5) by auto
  have "\<not> t < e" using inv assms(6) ta committed(4) unfolding ck_inv_def excl_ok_def by blast
  moreover have "t < MaxInt" using ck_invD(4) [OF inv, of t] ck_invD(9) [OF inv] committed(4) by auto
  ultimately show ?thesis by auto
next
  case (refused ck2 tw2)
  then show ?thesis using assms(3,4) start_active [OF goodD(1) [OF co_reachD(1) [OF assms(1)]], of t]
    by (auto simp: ck_commit_def Let_def split: if_splits option.splits)
qed (use assms(3,4) in auto)

text \<open>An old transaction has committed nothing: 3 runs while a table is loaded with exclusive access, 7 starts afterwards.\<close>

definition exclusive_msgs :: "ck_msg list" where
  "exclusive_msgs = [ckStart, ckAddExcl ''tbl'', ckEndExcl ''tbl'', ckStart, ckOutput 7 ''tbl'' [[97]]]"

theorem exclusive_excludes_writers_witness:
  "\<exists>s replies ck' reply todos. play demo_env exclusive_msgs co_start = Some (s, replies) \<and> ck_exclusive (co_check s) ''tbl'' = Some 5
     \<and> dispatch demo_env (co_check s) (ckCommit 7) = Some (ck', reply, todos) \<and> TodoTables [''tbl''] 7 \<in> set todos \<and> (5::int) \<le> 7 \<and> 5 \<noteq> MaxInt"
proof -
  have "case play demo_env exclusive_msgs co_start of None \<Rightarrow> False | Some (s, replies) \<Rightarrow>
      ck_exclusive (co_check s) ''tbl'' = Some 5 \<and> ck_seq (co_check s) + 2 < MaxInt
      \<and> (case dispatch demo_env (co_check s) (ckCommit 7) of None \<Rightarrow> False | Some (ck', reply, todos) \<Rightarrow> list_ex (\<lambda>x. case x of TodoTables tw t \<Rightarrow> tw = [''tbl''] \<and> t = 7 | _ \<Rightarrow> False) todos)"
    by code_simp
  then obtain s replies where s: "play demo_env exclusive_msgs co_start = Some (s, replies)"
    "ck_exclusive (co_check s) ''tbl'' = Some 5" "ck_seq (co_check s) + 2 < MaxInt"
    "case dispatch demo_env (co_check s) (ckCommit 7) of None \<Rightarrow> False | Some (ck', reply, todos) \<Rightarrow> list_ex (\<lambda>x. case x of TodoTables tw t \<Rightarrow> tw = [''tbl''] \<and> t = 7 | _ \<Rightarrow> False) todos"
    by (auto split: option.splits)
  from s(4) obtain ck' reply todos where d: "dispatch demo_env (co_check s) (ckCommit 7) = Some (ck', reply, todos)" "list_ex (\<lambda>x. case x of TodoTables tw t \<Rightarrow> tw = [''tbl''] \<and> t = 7 | _ \<Rightarrow> False) todos"
    by (auto split: option.splits)
  from d(2) obtain x where "x \<in> set todos" "case x of TodoTables tw t \<Rightarrow> tw = [''tbl''] \<and> t = 7 | _ \<Rightarrow> False"
    by (auto simp: list_ex_iff)
  then have m: "TodoTables [''tbl''] 7 \<in> set todos" by (simp split: todo.splits)
  have "(5::int) \<le> 7 \<and> 5 \<noteq> MaxInt"
    by (rule exclusive_excludes_writers [OF play_reach [OF co_reach.start s(1)] s(3) d(1) m _ s(2)]) simp
  then show ?thesis using s(1,2) d(1) m by blast
qed

text \<open>Aborting what is too old leaves nothing that is too old.\<close>

lemma tick_loop_age:
  fixes reason :: string
  defines "step \<equiv> \<lambda>c tn. if tn \<in> set (ck_actv c) \<and> MaxAge \<le> ck_clock c - ct_birth (ck_trans c tn) then fst (ck_abort c tn reason) else c"
  assumes "ck_inv c"
  shows "weaken c (foldl step c ns) \<and> (\<forall>n\<in>set ns. n \<in> set (ck_actv (foldl step c ns)) \<longrightarrow> ck_clock c - ct_birth (ck_trans c n) < MaxAge)"
  using assms(2)
proof (induction ns arbitrary: c)
  case Nil
  then show ?case using weaken_refl by simp
next
  case (Cons m ns)
  have w: "weaken c (step c m)" "ck_inv (step c m)"
    using Cons.prems ck_abort_weaken(1,2) [OF Cons.prems] weaken_refl [OF Cons.prems] by (auto simp: step_def)
  note ih = Cons.IH [OF w(2)]
  have same: "ck_clock (step c m) = ck_clock c" "ct_birth (ck_trans (step c m) n) = ct_birth (ck_trans c n)" for n
    using weakenD(3) [OF w(1), of n] weakenD(7) [OF w(1)] by (simp_all add: same_tran_def)
  have "ck_clock c - ct_birth (ck_trans c m) < MaxAge" if "m \<in> set (ck_actv (foldl step c (m # ns)))"
  proof -
    have "m \<in> set (ck_actv (step c m))" using that weakenD(1) [of "step c m" "foldl step (step c m) ns"] ih by auto
    then show ?thesis using ck_abort_weaken(3) [OF Cons.prems, of m reason] by (auto simp: step_def split: if_splits)
  qed
  then show ?case using ih same weaken_trans [OF w(1)] by simp
qed

text \<open>C22: no transaction runs forever: after a tick, every active transaction is younger than 20 ticks,
  in whatever order the tick visits them. (As in C4, the reachable states are those of senders that keep \<open>msg_ok\<close>.)\<close>

theorem tick_bounds_age:
  assumes "co_reach s" and "dispatch env (co_check s) ckTick = Some (ck', reply, todos)" and "n \<in> set (ck_actv ck')"
  shows "ck_clock ck' = ck_clock (co_check s) + 1 \<and> ck_clock ck' - ct_birth (ck_trans ck' n) < 20"
proof -
  let ?c = "(co_check s)\<lparr>ck_clock := ck_clock (co_check s) + 1\<rparr>"
  have ck': "ck' = ck_tick (env_ord env) (co_check s)" using assms(2) by simp
  have i: "ck_inv ?c" by (rule ck_inv_cong [OF goodD(1) [OF co_reachD(1) [OF assms(1)]]]) simp_all
  note t = tick_loop_age [OF i, of "''transaction exceeded max age''" "env_ord env @ ck_actv ?c"]
  have w: "weaken ?c ck'" using t unfolding ck' ck_tick_def Let_def by blast
  have "n \<in> set (ck_actv ?c)" using weakenD(1) [OF w] assms(3) by blast
  then have "ck_clock ?c - ct_birth (ck_trans ?c n) < MaxAge"
    using t assms(3) unfolding ck' ck_tick_def Let_def by auto
  then show ?thesis
    using weakenD(3) [OF w, of n] weakenD(7) [OF w] by (simp add: same_tran_def MaxAge_def)
qed

theorem tick_bounds_age_witness:
  "\<exists>s replies ck' reply todos. play demo_env [ckStart] co_start = Some (s, replies) \<and> dispatch demo_env (co_check s) ckTick = Some (ck', reply, todos)
     \<and> 3 \<in> set (ck_actv ck') \<and> ck_clock ck' = ck_clock (co_check s) + 1 \<and> ck_clock ck' - ct_birth (ck_trans ck' 3) < 20"
proof -
  have "case play demo_env [ckStart] co_start of None \<Rightarrow> False | Some (s, replies) \<Rightarrow>
      (case dispatch demo_env (co_check s) ckTick of None \<Rightarrow> False | Some (ck', reply, todos) \<Rightarrow> List.member (ck_actv ck') 3)"
    by code_simp
  then obtain s replies ck' reply todos where s: "play demo_env [ckStart] co_start = Some (s, replies)"
    "dispatch demo_env (co_check s) ckTick = Some (ck', reply, todos)" "3 \<in> set (ck_actv ck')"
    by (auto split: option.splits)
  from tick_bounds_age [OF play_reach [OF co_reach.start s(1)] s(2,3)] show ?thesis using s by blast
qed

text \<open>C38: the checker's one gap is the empty key. Call it a duplicate when two transactions that ran at the same time have both
  committed although each of them, before its commit, has looked up the same key of an index and output a record with that
  key. No reachable state has a duplicate of a nonempty key; but there is one with a duplicate of the empty key, which is what a table
  with an empty key uses for its only record.\<close>

theorem empty_key_conflict_missed:
  "(\<forall>s key. co_reach s \<and> duplicate s key \<longrightarrow> key = []) \<and> (\<exists>s. co_reach s \<and> duplicate s [])"
proof
  show "\<forall>s key. co_reach s \<and> duplicate s key \<longrightarrow> key = []" using duplicate_empty by blast
  show "\<exists>s. co_reach s \<and> duplicate s []"
  proof -
    have "case play demo_env (dup_msgs []) co_start of None \<Rightarrow> False | Some (s, replies) \<Rightarrow> duplicated s 3 5 ''tbl'' 0 []"
      by code_simp
    then obtain s replies where "play demo_env (dup_msgs []) co_start = Some (s, replies)" "duplicated s 3 5 ''tbl'' 0 []"
      by (auto split: option.splits)
    then show ?thesis using play_reach [OF co_reach.start] unfolding duplicate_def by blast
  qed
qed

theorem empty_key_conflict_missed_witness:
  "\<exists>s. co_reach s \<and> duplicate s [] \<and> \<not> duplicate s [97]"
  using empty_key_conflict_missed by blast

end
