(* ===== verification/DbRecord.thy ===== *)
theory DbRecord
  imports GoData
begin

text \<open>
  Database records, \<^verbatim>\<open>core/record.go\<close>, and the buffer they are built in, \<^verbatim>\<open>util/pack/encoder.go\<close> and
  \<^verbatim>\<open>util/pack/ints.go\<close>. A record is a string: two bytes with the mode and the number of values, the length and
  the offsets in one, two or four bytes each, and the values, last one first. A builder holds the packed values.
  \<open>None\<close> is a panic. Building a record and reading it gives the values back, and the buffer is filled exactly.
\<close>

unbundle bit_operations_syntax

section \<open>The buffer\<close>

record pack_encoder =
  enc_buf :: gostr
  enc_cap :: nat

definition NewEncoder :: "nat \<Rightarrow> pack_encoder" where
  "NewEncoder sz = \<lparr>enc_buf = [], enc_cap = sz\<rparr>"

text \<open>\<^verbatim>\<open>e.buf = e.buf[:len(e.buf)+n]\<close> panics beyond the capacity; then the new places are filled.\<close>

definition enc_extend :: "pack_encoder \<Rightarrow> gostr \<Rightarrow> pack_encoder option" where
  "enc_extend e bs = (if length (enc_buf e) + length bs \<le> enc_cap e then Some (e\<lparr>enc_buf := enc_buf e @ bs\<rparr>) else None)"

definition Put1 :: "pack_encoder \<Rightarrow> byte \<Rightarrow> pack_encoder option" where
  "Put1 e b = enc_extend e [b]"

definition Put2 :: "pack_encoder \<Rightarrow> byte \<Rightarrow> byte \<Rightarrow> pack_encoder option" where
  "Put2 e a b = enc_extend e [a, b]"

definition Put4 :: "pack_encoder \<Rightarrow> byte \<Rightarrow> byte \<Rightarrow> byte \<Rightarrow> byte \<Rightarrow> pack_encoder option" where
  "Put4 e a b c d = enc_extend e [a, b, c, d]"

definition PutStr :: "pack_encoder \<Rightarrow> gostr \<Rightarrow> pack_encoder option" where
  "PutStr e s = enc_extend e s"

definition enc_Uint16 :: "pack_encoder \<Rightarrow> 16 word \<Rightarrow> pack_encoder option" where
  "enc_Uint16 e n = Put2 e (ucast (drop_bit 8 n)) (ucast n)"

definition enc_Uint32 :: "pack_encoder \<Rightarrow> 32 word \<Rightarrow> pack_encoder option" where
  "enc_Uint32 e n = Put4 e (ucast (drop_bit 24 n)) (ucast (drop_bit 16 n)) (ucast (drop_bit 8 n)) (ucast n)"

section \<open>Reading a record\<close>

definition type8 :: int where "type8 = 1"
definition type16 :: int where "type16 = 2"
definition type32 :: int where "type32 = 3"
definition sizeMask :: int where "sizeMask = 0x3fff"
definition hdrlen :: nat where "hdrlen = 2"

definition rec_mode :: "gostr \<Rightarrow> int option" where
  "rec_mode r = do { c \<leftarrow> at r 0; Some (uint (drop_bit 6 c)) }"

definition rec_Count :: "gostr \<Rightarrow> int option" where
  "rec_Count r =
     (if r = [] \<or> r ! 0 = 0 then Some 0
      else do { a \<leftarrow> at r 0; b \<leftarrow> at r 1; Some ((push_bit 8 (uint a) + uint b) AND sizeMask) })"

text \<open>The big endian numbers at position \<open>j\<close>.\<close>

definition get8 :: "gostr \<Rightarrow> nat \<Rightarrow> int option" where
  "get8 r j = do { a \<leftarrow> at r j; Some (uint a) }"

definition get16 :: "gostr \<Rightarrow> nat \<Rightarrow> int option" where
  "get16 r j = do { a \<leftarrow> at r j; b \<leftarrow> at r (j + 1); Some (push_bit 8 (uint a) OR uint b) }"

definition get32 :: "gostr \<Rightarrow> nat \<Rightarrow> int option" where
  "get32 r j = do {
     a \<leftarrow> at r j; b \<leftarrow> at r (j + 1); c \<leftarrow> at r (j + 2); d \<leftarrow> at r (j + 3);
     Some (((push_bit 24 (uint a) OR push_bit 16 (uint b)) OR push_bit 8 (uint c)) OR uint d) }"

definition rec_Len :: "gostr \<Rightarrow> int option" where
  "rec_Len r = do {
     c \<leftarrow> at r 0;
     if c = 0 then Some 1
     else do {
       m \<leftarrow> rec_mode r;
       if m = type8 then get8 r hdrlen
       else if m = type16 then get16 r hdrlen
       else if m = type32 then get32 r hdrlen
       else None } }"

definition go_slice :: "gostr \<Rightarrow> int \<Rightarrow> int \<Rightarrow> gostr option" where
  "go_slice s pos end =
     (if 0 \<le> pos \<and> pos \<le> end \<and> end \<le> int (length s) then Some (take (nat (end - pos)) (drop (nat pos) s)) else None)"

definition rec_GetRaw :: "gostr \<Rightarrow> int \<Rightarrow> gostr option" where
  "rec_GetRaw r i =
     (if i < 0 then Some []
      else do {
        n \<leftarrow> rec_Count r;
        if n \<le> i then Some []
        else do {
          m \<leftarrow> rec_mode r;
          (end, pos) \<leftarrow>
            (if m = type8 then do { e \<leftarrow> get8 r (hdrlen + nat i); p \<leftarrow> get8 r (hdrlen + nat i + 1); Some (e, p) }
             else if m = type16 then do { e \<leftarrow> get16 r (hdrlen + 2 * nat i); p \<leftarrow> get16 r (hdrlen + 2 * nat i + 2); Some (e, p) }
             else if m = type32 then do { e \<leftarrow> get32 r (hdrlen + 4 * nat i); p \<leftarrow> get32 r (hdrlen + 4 * nat i + 4); Some (e, p) }
             else None);
          go_slice r pos end } })"

section \<open>Building a record\<close>

definition MaxValues :: nat where "MaxValues = 0x3fff"
definition maxRecordLen :: nat where "maxRecordLen = 1000000"

definition rb_AddRaw :: "gostr list \<Rightarrow> gostr \<Rightarrow> gostr list" where
  "rb_AddRaw vals s = vals @ [s]"

definition rb_Trim :: "gostr list \<Rightarrow> gostr list" where
  "rb_Trim vals = rev (dropWhile (\<lambda>v. v = []) (rev vals))"

definition tblength :: "nat \<Rightarrow> nat \<Rightarrow> nat" where
  "tblength nfields datasize =
     (if nfields = 0 then 1
      else if hdrlen + (1 + nfields) + datasize < 0x100 then hdrlen + (1 + nfields) + datasize
      else if hdrlen + 2 * (1 + nfields) + datasize < 0x10000 then hdrlen + 2 * (1 + nfields) + datasize
      else hdrlen + 4 * (1 + nfields) + datasize)"

definition recSize :: "nat list \<Rightarrow> nat" where
  "recSize sizes = tblength (length sizes) (sum_list sizes)"

definition mode :: "nat \<Rightarrow> int" where
  "mode len =
     (if len = 0 then 0 else if len < 0x100 then type8 else if len < 0x10000 then type16 else type32)"

text \<open>\<^verbatim>\<open>for i := range nfields { offset -= sizes[i]; put(offset) }\<close>.\<close>

fun put_offsets :: "(pack_encoder \<Rightarrow> int \<Rightarrow> pack_encoder option) \<Rightarrow> pack_encoder \<Rightarrow> int \<Rightarrow> nat list \<Rightarrow> pack_encoder option" where
  "put_offsets put dst offset [] = Some dst"
| "put_offsets put dst offset (sz # sizes) = do {
     dst' \<leftarrow> put dst (offset - int sz);
     put_offsets put dst' (offset - int sz) sizes }"

definition buildOffsets :: "pack_encoder \<Rightarrow> nat \<Rightarrow> nat list \<Rightarrow> pack_encoder option" where
  "buildOffsets dst len sizes =
     (let offset = int len;
          put = (if mode len = type8 then (\<lambda>e n. Put1 e (of_int n))
                 else if mode len = type16 then (\<lambda>e n. enc_Uint16 e (of_int n))
                 else if mode len = type32 then (\<lambda>e n. enc_Uint32 e (of_int n))
                 else (\<lambda>e n. Some e))
      in do { dst' \<leftarrow> put dst offset; put_offsets put dst' offset sizes })"

definition buildHeader :: "pack_encoder \<Rightarrow> nat \<Rightarrow> nat list \<Rightarrow> pack_encoder option" where
  "buildHeader dst len sizes = do {
     dst' \<leftarrow> enc_Uint16 dst (of_int (push_bit 14 (mode len) OR int (length sizes)));
     buildOffsets dst' len sizes }"

fun put_values :: "pack_encoder \<Rightarrow> gostr list \<Rightarrow> pack_encoder option" where
  "put_values dst [] = Some dst"
| "put_values dst (v # vs) = do { dst' \<leftarrow> PutStr dst v; put_values dst' vs }"

definition rb_Build :: "gostr list \<Rightarrow> gostr option" where
  "rb_Build vals =
     (if MaxValues < length vals then None
      else if vals = [] then Some [0]
      else let sizes = map length vals; len = recSize sizes in
        if maxRecordLen < len then None
        else do {
          dst \<leftarrow> buildHeader (NewEncoder len) len sizes;
          dst' \<leftarrow> put_values dst (rev vals);
          Some (enc_buf dst') })"

text \<open>\<^verbatim>\<open>Truncate\<close>: the fields are read and a new record is built.\<close>

fun add_fields :: "gostr \<Rightarrow> nat list \<Rightarrow> gostr list \<Rightarrow> gostr list option" where
  "add_fields r [] vals = Some vals"
| "add_fields r (i # is) vals = do { v \<leftarrow> rec_GetRaw r (int i); add_fields r is (rb_AddRaw vals v) }"

definition rec_Truncate :: "gostr \<Rightarrow> nat \<Rightarrow> gostr option" where
  "rec_Truncate r n = do {
     rn \<leftarrow> rec_Count r;
     if rn \<le> int n then Some r
     else do { vals \<leftarrow> add_fields r [0..<n] []; rb_Build (rb_Trim vals) } }"

section \<open>Big endian numbers\<close>

definition be :: "nat \<Rightarrow> int \<Rightarrow> gostr" where
  "be w n = map (\<lambda>k. of_int (n div 256 ^ (w - 1 - k))) [0..<w]"

lemma length_be [simp]: "length (be w n) = w"
  by (simp add: be_def)

lemma be_simps: "be 1 n = [of_int n]" "be (Suc 0) n = [of_int n]" "be 2 n = [of_int (n div 256), of_int n]"
  "be 4 n = [of_int (n div 256 ^ 3), of_int (n div 256 ^ 2), of_int (n div 256), of_int n]"
  by (simp_all add: be_def upt_rec numeral_eq_Suc)

lemma drop_bit_of_int:
  "m + LENGTH('b::len) \<le> LENGTH('a::len) \<Longrightarrow> (ucast (drop_bit m (of_int n :: 'a word)) :: 'b word) = of_int (n div 2 ^ m)"
  by (rule bit_word_eqI) (auto simp: bit_simps drop_bit_eq_div [symmetric])

lemma ucast_of_int: "LENGTH('b::len) \<le> LENGTH('a::len) \<Longrightarrow> (ucast (of_int n :: 'a word) :: 'b word) = of_int n"
  using drop_bit_of_int [of 0, where 'a = 'a and 'b = 'b] by simp

lemma uint_byte: "uint (of_int n :: byte) = n mod 256"
  by (simp add: uint_word_of_int)

lemma or_add:
  fixes a b :: int
  assumes "0 \<le> b" "b < 2 ^ k"
  shows "push_bit k a OR b = a * 2 ^ k + b"
proof -
  have "take_bit k b = b" using assms by (simp add: take_bit_int_eq_self)
  then have "bit b n \<Longrightarrow> n < k" for n by (metis bit_take_bit_iff)
  then have "push_bit k a + b = push_bit k a OR b" by (intro disjunctive_add) (force simp: bit_push_bit_iff)
  then show ?thesis by (simp add: push_bit_eq_mult)
qed

text \<open>The width of the numbers of a record, and reading one of them.\<close>

definition width :: "nat \<Rightarrow> nat" where
  "width len = (if len < 0x100 then 1 else if len < 0x10000 then 2 else 4)"

definition get_be :: "nat \<Rightarrow> gostr \<Rightarrow> nat \<Rightarrow> int option" where
  "get_be w = (if w = 1 then get8 else if w = 2 then get16 else get32)"

definition put_be :: "nat \<Rightarrow> pack_encoder \<Rightarrow> int \<Rightarrow> pack_encoder option" where
  "put_be w e n = enc_extend e (be w n)"

lemma put_be_eqs:
  "Put1 e (of_int n) = put_be 1 e n" "enc_Uint16 e (of_int n) = put_be 2 e n" "enc_Uint32 e (of_int n) = put_be 4 e n"
  by (simp_all add: put_be_def be_simps Put1_def enc_Uint16_def Put2_def enc_Uint32_def Put4_def drop_bit_of_int ucast_of_int)

lemma at_prefix: "take w (drop j r) = xs \<Longrightarrow> length xs = w \<Longrightarrow> k < w \<Longrightarrow> at r (j + k) = Some (xs ! k)"
  by (auto simp: at_def)

lemma get_be_ok:
  assumes w: "w \<in> {1, 2, 4}" and r: "take w (drop j r) = be w n" and n: "0 \<le> n" "n < 256 ^ w"
  shows "get_be w r j = Some n"
proof -
  have at: "k < w \<Longrightarrow> at r (j + k) = Some (be w n ! k)" for k by (rule at_prefix [OF r]) simp
  consider "w = 1" | "w = 2" | "w = 4" using w by blast
  then show ?thesis
  proof cases
    case 1
    then show ?thesis using at [of 0] n by (simp add: get_be_def get8_def be_simps uint_byte)
  next
    case 2
    have "n div 256 < 256" using n 2 by (simp add: div_less_iff_less_mult)
    then have "push_bit 8 (n div 256 mod 256) OR (n mod 256) = n" using or_add [of "n mod 256" 8 "n div 256"] n(1) by simp
    then show ?thesis using at [of 0] at [of 1] 2 by (simp add: get_be_def get16_def be_simps uint_byte)
  next
    case 3
    define q1 where "q1 = n div 256"
    define q2 where "q2 = q1 div 256"
    define q3 where "q3 = q2 div 256"
    have q: "n div 256 ^ 2 = q2" "n div 256 ^ 3 = q3" by (simp_all add: q1_def q2_def q3_def zdiv_zmult2_eq [symmetric])
    have lt: "0 \<le> q3" "q3 < 256" unfolding q(2) [symmetric] using n 3 by (simp_all add: div_less_iff_less_mult)
    have a: "push_bit 8 q3 OR (q2 mod 256) = q2" using or_add [of "q2 mod 256" 8 q3] by (simp add: q3_def)
    have b: "push_bit 8 q2 OR (q1 mod 256) = q1" using or_add [of "q1 mod 256" 8 q2] by (simp add: q2_def)
    have c: "push_bit 8 q1 OR (n mod 256) = n" using or_add [of "n mod 256" 8 q1] by (simp add: q1_def)
    have "push_bit 24 q3 OR push_bit 16 (q2 mod 256) = push_bit 16 q2"
      using arg_cong [OF a, of "push_bit 16"] by (simp add: push_bit_or push_bit_push_bit)
    moreover have "push_bit 16 q2 OR push_bit 8 (q1 mod 256) = push_bit 8 q1"
      using arg_cong [OF b, of "push_bit 8"] by (simp add: push_bit_or push_bit_push_bit)
    ultimately have d: "((push_bit 24 q3 OR push_bit 16 (q2 mod 256)) OR push_bit 8 (q1 mod 256)) OR (n mod 256) = n"
      using c by (simp only:)
    have be: "be 4 n = [of_int q3, of_int q2, of_int q1, of_int n]" by (simp only: be_simps q q1_def)
    have "at r (j + k) = Some ([of_int q3, of_int q2, of_int q1, of_int n] ! k)" if "k < 4" for k
      using at [of k] that 3 be by simp
    from this [of 0] this [of 1] this [of 2] this [of 3]
    have "at r j = Some (of_int q3)" "at r (j + 1) = Some (of_int q2)" "at r (j + 2) = Some (of_int q1)" "at r (j + 3) = Some (of_int n)"
      by simp_all
    then have "get32 r j = Some (((push_bit 24 q3 OR push_bit 16 (q2 mod 256)) OR push_bit 8 (q1 mod 256)) OR (n mod 256))"
      using lt unfolding get32_def by (simp only: Option.bind.simps uint_byte mod_pos_pos_trivial)
    then show ?thesis using 3 unfolding d by (simp add: get_be_def)
  qed
qed

section \<open>The layout of a built record\<close>

fun offsets :: "int \<Rightarrow> nat list \<Rightarrow> int list" where
  "offsets off [] = [off]"
| "offsets off (sz # sizes) = off # offsets (off - int sz) sizes"

lemma length_offsets [simp]: "length (offsets off sizes) = Suc (length sizes)"
  by (induction sizes arbitrary: off) auto

lemma offsets_nth: "i \<le> length sizes \<Longrightarrow> offsets off sizes ! i = off - int (sum_list (take i sizes))"
  by (induction sizes arbitrary: off i) (auto simp: nth_Cons split: nat.splits)

lemma enc_extend_bind: "enc_extend e a \<bind> (\<lambda>e'. enc_extend e' b) = enc_extend e (a @ b)"
  by (auto simp: enc_extend_def)

lemma enc_extend_Nil: "length (enc_buf e) \<le> enc_cap e \<Longrightarrow> enc_extend e [] = Some e"
  by (simp add: enc_extend_def)

lemma enc_extend_cap: "enc_extend e a = Some e' \<Longrightarrow> length (enc_buf e') \<le> enc_cap e'"
  by (auto simp: enc_extend_def split: if_splits)

lemma put_offsets_be:
  "put_be w e off \<bind> (\<lambda>e'. put_offsets (put_be w) e' off sizes) = enc_extend e (concat (map (be w) (offsets off sizes)))"
proof (induction sizes arbitrary: e off)
  case (Cons sz sizes)
  have "put_be w e off \<bind> (\<lambda>e'. put_offsets (put_be w) e' off (sz # sizes))
      = enc_extend e (be w off) \<bind> (\<lambda>e'. enc_extend e' (concat (map (be w) (offsets (off - int sz) sizes))))"
    using Cons.IH [of _ "off - int sz"] by (simp add: put_be_def [of w e off])
  then show ?case by (simp add: enc_extend_bind)
qed (simp add: put_be_def)

lemma put_values_be: "length (enc_buf e) \<le> enc_cap e \<Longrightarrow> put_values e vs = enc_extend e (concat vs)"
proof (induction vs arbitrary: e)
  case (Cons v vs)
  show ?case
  proof (cases "enc_extend e v")
    case None
    then show ?thesis by (auto simp: PutStr_def enc_extend_def split: if_splits)
  next
    case (Some e')
    then show ?thesis
      using Cons.IH [OF enc_extend_cap [OF Some]] enc_extend_bind [of e v "concat vs"] by (simp add: PutStr_def)
  qed
qed (simp add: enc_extend_Nil)

definition rec_bytes :: "gostr list \<Rightarrow> gostr" where
  "rec_bytes vals =
     (let sizes = map length vals; len = recSize sizes
      in be 2 (push_bit 14 (mode len) OR int (length vals)) @ concat (map (be (width len)) (offsets (int len) sizes)) @ concat (rev vals))"

lemma recSize_width:
  assumes "sizes \<noteq> []"
  shows "recSize sizes = 2 + width (recSize sizes) * (1 + length sizes) + sum_list sizes" "0 < recSize sizes"
  using assms by (auto simp: recSize_def tblength_def width_def hdrlen_def)

lemma length_rec_bytes:
  assumes "vals \<noteq> []"
  shows "length (rec_bytes vals) = recSize (map length vals)"
proof -
  have "length (concat (map (be w) xs)) = w * length xs" for w xs by (induction xs) auto
  moreover have "length (concat (rev vals)) = sum_list (map length vals)" by (simp add: length_concat rev_map [symmetric])
  ultimately show ?thesis using recSize_width(1) [of "map length vals"] assms by (simp add: rec_bytes_def Let_def)
qed

lemma buildOffsets_be:
  assumes "0 < len"
  shows "buildOffsets e len sizes = enc_extend e (concat (map (be (width len)) (offsets (int len) sizes)))"
proof -
  have "buildOffsets e len sizes = put_be (width len) e (int len) \<bind> (\<lambda>e'. put_offsets (put_be (width len)) e' (int len) sizes)"
    unfolding buildOffsets_def Let_def put_be_eqs using assms by (simp add: mode_def type8_def type16_def type32_def width_def)
  then show ?thesis by (simp add: put_offsets_be)
qed

text \<open>Building succeeds when the limits are kept, and the buffer is filled exactly.\<close>

lemma rb_Build_eq:
  "rb_Build vals = (if MaxValues < length vals then None else if vals = [] then Some [0]
     else if maxRecordLen < recSize (map length vals) then None else Some (rec_bytes vals))"
proof -
  let ?sizes = "map length vals" let ?len = "recSize ?sizes"
  have "do { dst \<leftarrow> buildHeader (NewEncoder ?len) ?len ?sizes; dst' \<leftarrow> put_values dst (rev vals); Some (enc_buf dst') } = Some (rec_bytes vals)"
    if ne: "vals \<noteq> []"
  proof -
    let ?hdr = "be 2 (push_bit 14 (mode ?len) OR int (length vals)) @ concat (map (be (width ?len)) (offsets (int ?len) ?sizes))"
    have pos: "0 < ?len" using recSize_width(2) ne by simp
    have h: "buildHeader (NewEncoder ?len) ?len ?sizes = enc_extend (NewEncoder ?len) ?hdr"
      by (simp add: buildHeader_def buildOffsets_be [OF pos] put_be_eqs put_be_def enc_extend_bind)
    have fits: "length (?hdr @ concat (rev vals)) = ?len" using length_rec_bytes [OF ne] by (simp add: rec_bytes_def Let_def)
    then have e: "enc_extend (NewEncoder ?len) ?hdr = Some \<lparr>enc_buf = ?hdr, enc_cap = ?len\<rparr>"
      by (simp add: enc_extend_def NewEncoder_def)
    have "put_values \<lparr>enc_buf = ?hdr, enc_cap = ?len\<rparr> (rev vals) = enc_extend \<lparr>enc_buf = ?hdr, enc_cap = ?len\<rparr> (concat (rev vals))"
      using fits by (intro put_values_be) simp
    also have "\<dots> = Some \<lparr>enc_buf = ?hdr @ concat (rev vals), enc_cap = ?len\<rparr>" using fits by (simp add: enc_extend_def)
    finally show ?thesis unfolding h e by (simp add: rec_bytes_def Let_def)
  qed
  then show ?thesis by (simp add: rb_Build_def Let_def)
qed

section \<open>Reading what was built\<close>

lemma take_drop_concat_map:
  assumes "i < length xs" "\<And>x. length (f x) = w"
  shows "take w (drop (w * i) (concat (map f xs) @ ys)) = f (xs ! i)"
  using assms(1)
proof (induction xs arbitrary: i)
  case (Cons x xs)
  then show ?case using assms(2) by (cases i) (simp_all add: drop_append)
qed simp

lemma take_drop_concat_rev:
  assumes "i < length vals"
  shows "take (length (vals ! i)) (drop (sum_list (map length (drop (Suc i) vals))) (concat (rev vals))) = vals ! i"
proof -
  have "vals = take i vals @ vals ! i # drop (Suc i) vals" using assms by (simp add: id_take_nth_drop)
  then have "concat (rev vals) = concat (rev (take i vals @ vals ! i # drop (Suc i) vals))" by (rule arg_cong)
  then have "concat (rev vals) = concat (rev (drop (Suc i) vals)) @ vals ! i @ concat (rev (take i vals))" by simp
  moreover have "length (concat (rev (drop (Suc i) vals))) = sum_list (map length (drop (Suc i) vals))"
    by (simp add: length_concat rev_map [symmetric])
  ultimately show ?thesis by simp
qed

text \<open>The header of a built record.\<close>

lemma mode_bounds: "0 \<le> mode len" "mode len < 4" "0 < len \<Longrightarrow> 0 < mode len"
  by (simp_all add: mode_def type8_def type16_def type32_def)

lemma header_bytes:
  assumes "n \<le> MaxValues" "0 < len"
  defines "h \<equiv> push_bit 14 (mode len) OR int n"
  shows "be 2 h = [of_int (h div 256), of_int h]" "of_int (h div 256) \<noteq> (0 :: byte)"
    "uint (drop_bit 6 (of_int (h div 256) :: byte)) = mode len"
    "(push_bit 8 (uint (of_int (h div 256) :: byte)) + uint (of_int h :: byte)) AND sizeMask = int n"
proof -
  have h: "h = mode len * 16384 + int n" using or_add [of "int n" 14 "mode len"] assms by (simp add: MaxValues_def)
  have b: "0 \<le> h" "h < 65536" "h div 16384 = mode len" "h mod 16384 = int n"
    using assms(1) mode_bounds(1,2) [of len] unfolding h MaxValues_def by auto
  have "h div 256 < 256" "0 \<le> h div 256" using b by auto
  then have u: "uint (of_int (h div 256) :: byte) = h div 256" by (simp add: uint_byte)
  show "be 2 h = [of_int (h div 256), of_int h]" by (simp add: be_simps)
  have "0 < h div 256" using b mode_bounds(3) [OF assms(2)] unfolding h by auto
  then show "of_int (h div 256) \<noteq> (0 :: byte)" using u by (metis less_irrefl uint_0_iff)
  show "uint (drop_bit 6 (of_int (h div 256) :: byte)) = mode len"
  proof -
    have "uint (drop_bit 6 (of_int (h div 256) :: byte)) = drop_bit 6 (uint (of_int (h div 256) :: byte))"
      by (rule bit_eqI) (auto simp: bit_simps bit_uint_iff)
    also have "\<dots> = h div 256 div 64" unfolding u by (simp add: drop_bit_eq_div)
    finally show ?thesis using b(3) by (simp add: zdiv_zmult2_eq [symmetric])
  qed
  have "push_bit 8 (h div 256) + h mod 256 = h" by (simp add: push_bit_eq_mult)
  moreover have "h AND sizeMask = h mod 2 ^ 14"
    using take_bit_eq_mask [of 14 h] by (simp add: sizeMask_def mask_eq_exp_minus_1 take_bit_eq_mod)
  ultimately show "(push_bit 8 (uint (of_int (h div 256) :: byte)) + uint (of_int h :: byte)) AND sizeMask = int n"
    using b(4) unfolding u unfolding uint_byte by simp
qed

lemma rec_bytes_read:
  assumes ne: "vals \<noteq> []" and n: "length vals \<le> MaxValues" and max: "recSize (map length vals) \<le> maxRecordLen"
  defines "r \<equiv> rec_bytes vals" and "len \<equiv> recSize (map length vals)"
  shows "rec_Count r = Some (int (length vals))" "rec_mode r = Some (mode len)" "r \<noteq> []" "r ! 0 \<noteq> 0"
    "i \<le> length vals \<Longrightarrow> get_be (width len) r (hdrlen + width len * i) = Some (int len - int (sum_list (map length (take i vals))))"
    "i < length vals \<Longrightarrow> take (length (vals ! i)) (drop (len - sum_list (map length (take (Suc i) vals))) r) = vals ! i"
    "i \<le> length vals \<Longrightarrow> sum_list (map length (take i vals)) \<le> len"
proof -
  let ?sizes = "map length vals"
  have len: "len = 2 + width len * (1 + length vals) + sum_list ?sizes" "0 < len"
    using recSize_width [of ?sizes] ne unfolding len_def by simp_all
  have sums: "sum_list (map length (take i vals)) + sum_list (map length (drop i vals)) = sum_list ?sizes" for i
    by (metis append_take_drop_id map_append sum_list_append)
  show le: "sum_list (map length (take i vals)) \<le> len" using sums [of i] len by linarith
  define h where "h = push_bit 14 (mode len) OR int (length vals)"
  note hb = header_bytes [OF n len(2), folded h_def]
  let ?O = "concat (map (be (width len)) (offsets (int len) ?sizes))"
  have r: "r = of_int (h div 256) # of_int h # (?O @ concat (rev vals))"
    using hb(1) by (simp add: r_def rec_bytes_def Let_def h_def len_def)
  then show "r \<noteq> []" "r ! 0 \<noteq> 0" using hb(2) by simp_all
  show "rec_Count r = Some (int (length vals))" "rec_mode r = Some (mode len)"
    using hb(2,3,4) unfolding rec_Count_def rec_mode_def r by (simp_all add: at_def)
  show "get_be (width len) r (hdrlen + width len * i) = Some (int len - int (sum_list (map length (take i vals))))"
    if "i \<le> length vals"
  proof (rule get_be_ok)
    show "width len \<in> {1, 2, 4}" by (simp add: width_def)
    have "take (width len) (drop (width len * i) (?O @ concat (rev vals))) = be (width len) (offsets (int len) ?sizes ! i)"
      using that by (intro take_drop_concat_map) simp_all
    then show "take (width len) (drop (hdrlen + width len * i) r) = be (width len) (int len - int (sum_list (map length (take i vals))))"
      using that unfolding r by (simp add: hdrlen_def offsets_nth take_map)
    have "int len < 256 ^ width len" using max unfolding len_def [symmetric] maxRecordLen_def width_def by auto
    then show "int len - int (sum_list (map length (take i vals))) < 256 ^ width len" by linarith
    show "0 \<le> int len - int (sum_list (map length (take i vals)))" using le by simp
  qed
  show "take (length (vals ! i)) (drop (len - sum_list (map length (take (Suc i) vals))) r) = vals ! i" if "i < length vals"
  proof -
    have "length ?O = width len * (1 + length vals)" by (induction vals) (simp_all add: length_concat comp_def sum_list_triv)
    then have e: "len - sum_list (map length (take (Suc i) vals)) = length (of_int (h div 256) # of_int h # ?O) + sum_list (map length (drop (Suc i) vals))"
      using sums [of "Suc i"] len(1) by simp
    have "drop (length xs + k) (xs @ ys) = drop k ys" for xs ys :: gostr and k by simp
    from this [of "of_int (h div 256) # of_int h # ?O"]
    have "drop (len - sum_list (map length (take (Suc i) vals))) r = drop (sum_list (map length (drop (Suc i) vals))) (concat (rev vals))"
      unfolding e r by simp
    then show ?thesis using take_drop_concat_rev [OF that] by simp
  qed
qed

lemma rec_GetRaw_be:
  assumes "rec_Count r = Some n" "rec_mode r = Some (mode len)" "0 < len" "0 \<le> i" "i < n"
  shows "rec_GetRaw r i = do { e \<leftarrow> get_be (width len) r (hdrlen + width len * nat i);
    p \<leftarrow> get_be (width len) r (hdrlen + width len * Suc (nat i)); go_slice r p e }"
  using assms by (simp add: rec_GetRaw_def mode_def type8_def type16_def type32_def width_def get_be_def ac_simps)

lemma go_slice_nat: "a + k \<le> length s \<Longrightarrow> go_slice s (int a) (int (a + k)) = Some (take k (drop a s))"
  by (simp add: go_slice_def)

lemma rec_GetRaw_built:
  assumes ne: "vals \<noteq> []" and n: "length vals \<le> MaxValues" and max: "recSize (map length vals) \<le> maxRecordLen" and i: "i < length vals"
  shows "rec_GetRaw (rec_bytes vals) (int i) = Some (vals ! i)"
proof -
  let ?len = "recSize (map length vals)" let ?sum = "\<lambda>i. sum_list (map length (take i vals))"
  note r = rec_bytes_read [OF ne n max]
  have s: "?sum (Suc i) = ?sum i + length (vals ! i)" using i by (simp add: take_Suc_conv_app_nth)
  have pos: "0 < ?len" using recSize_width(2) ne by simp
  have fits: "?len - ?sum (Suc i) + length (vals ! i) \<le> length (rec_bytes vals)"
    using r(7) [of "Suc i"] i length_rec_bytes [OF ne] s by simp
  have "rec_GetRaw (rec_bytes vals) (int i) = go_slice (rec_bytes vals) (int ?len - int (?sum (Suc i))) (int ?len - int (?sum i))"
    using rec_GetRaw_be [OF r(1,2) pos, of "int i"] r(5) [of i] r(5) [of "Suc i"] i by simp
  also have "int ?len - int (?sum (Suc i)) = int (?len - ?sum (Suc i))" using r(7) [of "Suc i"] i by (simp add: of_nat_diff)
  also have "int ?len - int (?sum i) = int (?len - ?sum (Suc i) + length (vals ! i))" using r(7) [of "Suc i"] i s by simp
  also have "go_slice (rec_bytes vals) (int (?len - ?sum (Suc i))) (int (?len - ?sum (Suc i) + length (vals ! i))) = Some (vals ! i)"
    using go_slice_nat [OF fits] r(6) [OF i] by (simp only:)
  finally show ?thesis .
qed

lemma rb_Build_GetRaw:
  assumes b: "rb_Build vals = Some r"
  shows "rec_Count r = Some (int (length vals))" "rec_GetRaw r i = Some (if 0 \<le> i \<and> i < int (length vals) then vals ! nat i else [])"
    "rec_Len r = Some (int (length r))"
proof -
  have "rec_Count r = Some (int (length vals)) \<and> rec_GetRaw r i = Some (if 0 \<le> i \<and> i < int (length vals) then vals ! nat i else [])
    \<and> rec_Len r = Some (int (length r))"
  proof (cases "vals = []")
    case True
    then show ?thesis using b by (auto simp: rb_Build_eq rec_Count_def rec_GetRaw_def rec_Len_def at_def)
  next
    case False
    let ?len = "recSize (map length vals)"
    have r: "r = rec_bytes vals" and lim: "length vals \<le> MaxValues" "?len \<le> maxRecordLen"
      using b False by (auto simp: rb_Build_eq split: if_splits)
    note rd = rec_bytes_read [OF False lim, folded r]
    have pos: "0 < ?len" using recSize_width(2) False by simp
    have g: "0 \<le> i \<Longrightarrow> i < int (length vals) \<Longrightarrow> rec_GetRaw r i = Some (vals ! nat i)"
      using rec_GetRaw_built [OF False lim, of "nat i"] r by simp
    have out: "\<not> (0 \<le> i \<and> i < int (length vals)) \<Longrightarrow> rec_GetRaw r i = Some []" using rd(1) by (cases "i < 0") (simp_all add: rec_GetRaw_def)
    have "rec_Len r = get_be (width ?len) r (hdrlen + width ?len * 0)"
      using rd(2,3,4) pos by (simp add: rec_Len_def at_def mode_def type8_def type16_def type32_def width_def get_be_def)
    then show ?thesis using rd(1) rd(5) [of 0] g out length_rec_bytes [OF False] r by simp
  qed
  then show "rec_Count r = Some (int (length vals))" "rec_GetRaw r i = Some (if 0 \<le> i \<and> i < int (length vals) then vals ! nat i else [])"
    "rec_Len r = Some (int (length r))"
    by blast+
qed

lemma add_fields_ok:
  assumes "\<And>i. i \<in> set is \<Longrightarrow> rec_GetRaw r (int i) = Some (f i)"
  shows "add_fields r is vals = Some (vals @ map f is)"
  using assms by (induction "is" arbitrary: vals) (simp_all add: rb_AddRaw_def)

lemma rb_Trim_nth: "(if i < length (rb_Trim vals) then rb_Trim vals ! i else []) = (if i < length vals then vals ! i else [])"
proof (induction vals rule: rev_induct)
  case (snoc v vals)
  show ?case
  proof (cases "v = []")
    case True
    then have "rb_Trim (vals @ [v]) = rb_Trim vals" by (simp add: rb_Trim_def)
    then show ?thesis using snoc True by (auto simp: nth_append)
  qed (simp add: rb_Trim_def)
qed (simp add: rb_Trim_def)

lemma length_rb_Trim: "length (rb_Trim vals) \<le> length vals" "sum_list (map length (rb_Trim vals)) = sum_list (map length vals)"
proof -
  show "length (rb_Trim vals) \<le> length vals" using length_dropWhile_le [of _ "rev vals"] by (simp add: rb_Trim_def)
  show "sum_list (map length (rb_Trim vals)) = sum_list (map length vals)"
  proof (induction vals rule: rev_induct)
    case (snoc v vals)
    show ?case
    proof (cases "v = []")
      case True
      then show ?thesis using snoc by (simp add: rb_Trim_def)
    qed (simp add: rb_Trim_def)
  qed (simp add: rb_Trim_def)
qed

text \<open>An example.\<close>

definition demo_vals :: "gostr list" where
  "demo_vals = [[4, 97], [], [4, 98, 99]]"

definition demo_rec :: gostr where
  "demo_rec = [0x40, 3, 11, 9, 9, 6, 4, 98, 99, 4, 97]"

lemmas record_eval = rb_Build_eq rec_bytes_def recSize_def tblength_def hdrlen_def MaxValues_def maxRecordLen_def mode_def
  type8_def type16_def type32_def width_def be_simps push_bit_eq_mult

lemma demo_build: "rb_Build demo_vals = Some demo_rec"
  by (simp add: demo_vals_def demo_rec_def record_eval)

section \<open>Properties\<close>

text \<open>A record can be built exactly when it has at most 16383 values and its length, with the smallest
  width that the offsets fit in, is at most 1000000 bytes; the buffer of that size never overflows and is filled to
  the last byte.\<close>

theorem record_Build_fills:
  "(rb_Build vals = None \<longleftrightarrow> MaxValues < length vals \<or> vals \<noteq> [] \<and> maxRecordLen < recSize (map length vals))
   \<and> (\<forall>r. rb_Build vals = Some r \<longrightarrow> length r = recSize (map length vals))"
  using length_rec_bytes [of vals] by (auto simp: rb_Build_eq recSize_def tblength_def split: if_splits)

theorem record_Build_fills_witness:
  "rb_Build demo_vals = Some demo_rec \<and> length demo_rec = recSize (map length demo_vals)"
  using demo_build record_Build_fills [of demo_vals] by blast

text \<open>C13: building a record and reading it gives the values back: the count, the length, every value by its
  index, and the empty string for every other index, negative ones included.\<close>

theorem record_roundtrip:
  assumes "rb_Build vals = Some r"
  shows "rec_Count r = Some (int (length vals)) \<and> rec_Len r = Some (int (length r))
    \<and> (\<forall>i. rec_GetRaw r i = Some (if 0 \<le> i \<and> i < int (length vals) then vals ! nat i else []))"
  using rb_Build_GetRaw [OF assms] by blast

theorem record_roundtrip_witness:
  "rb_Build demo_vals = Some demo_rec \<and> rec_GetRaw demo_rec 2 = Some [4, 98, 99] \<and> rec_GetRaw demo_rec (- 1) = Some []"
proof -
  from record_roundtrip [OF demo_build] have g: "rec_GetRaw demo_rec i
      = Some (if 0 \<le> i \<and> i < int (length demo_vals) then demo_vals ! nat i else [])" for i by blast
  show ?thesis using demo_build g [of 2] g [of "- 1"] by (simp add: demo_vals_def)
qed

text \<open>Truncating a record to \<open>n\<close> fields never panics and keeps the first \<open>n\<close> values; what is cut off, and trailing
  empty values, read as empty.\<close>

theorem record_Truncate_keeps:
  assumes "rb_Build vals = Some r"
  shows "\<exists>r'. rec_Truncate r n = Some r' \<and> (\<forall>i. rec_GetRaw r' i = Some (if 0 \<le> i \<and> i < int (min n (length vals)) then vals ! nat i else []))"
proof (cases "length vals \<le> n")
  case True
  then show ?thesis using rb_Build_GetRaw [OF assms] by (simp add: rec_Truncate_def min_def)
next
  case False
  let ?vs = "map (\<lambda>i. vals ! i) [0..<n]"
  have vs: "?vs = take n vals" using False by (intro nth_equalityI) auto
  have f: "add_fields r [0..<n] [] = Some (take n vals)"
    using add_fields_ok [of "[0..<n]" r "\<lambda>i. vals ! i" "[]"] rb_Build_GetRaw(2) [OF assms] False vs by simp
  let ?t = "rb_Trim (take n vals)"
  have sub: "length ?t \<le> length vals" "sum_list (map length ?t) \<le> sum_list (map length vals)"
    using length_rb_Trim [of "take n vals"] False
    by (simp, metis append_take_drop_id le_add1 map_append sum_list_append)
  have le: "recSize (map length ?t) \<le> recSize (map length vals)" if "?t \<noteq> []"
    using sub that False unfolding recSize_def tblength_def hdrlen_def by auto
  have ne: "vals \<noteq> []" using False by auto
  then have lim: "length vals \<le> MaxValues" "recSize (map length vals) \<le> maxRecordLen"
    using assms by (auto simp: rb_Build_eq split: if_splits)
  have "rb_Build ?t \<noteq> None" using lim sub(1) le by (cases "?t = []") (auto simp: rb_Build_eq)
  then obtain r' where r': "rb_Build ?t = Some r'" by blast
  have "rec_GetRaw r' i = Some (if 0 \<le> i \<and> i < int (min n (length vals)) then vals ! nat i else [])" for i
    using rb_Build_GetRaw(2) [OF r', of i] rb_Trim_nth [of "nat i" "take n vals"] False by (auto split: if_splits)
  then show ?thesis using r' f rb_Build_GetRaw(1) [OF assms] False by (simp add: rec_Truncate_def)
qed

theorem record_Truncate_keeps_witness:
  "rb_Build demo_vals = Some demo_rec
   \<and> (\<exists>r'. rec_Truncate demo_rec 2 = Some r' \<and> rec_GetRaw r' 0 = Some [4, 97] \<and> rec_GetRaw r' 2 = Some [])"
proof -
  from record_Truncate_keeps [OF demo_build, of 2] obtain r' where r': "rec_Truncate demo_rec 2 = Some r'"
    "\<And>i. rec_GetRaw r' i = Some (if 0 \<le> i \<and> i < int (min 2 (length demo_vals)) then demo_vals ! nat i else [])" by blast
  show ?thesis using demo_build r'(1) r'(2) [of 0] r'(2) [of 2] by (simp add: demo_vals_def)
qed

end
