(* ===== verification/IxKey.thy ===== *)
theory IxKey
  imports DbRecord
begin

text \<open>
  Index keys, \<^verbatim>\<open>db19/index/ixkey/ixkey.go\<close>: the key of a record is a string such that comparing keys compares
  the flds one after the other. The flds are separated by two zero bytes, and a zero byte in a field becomes
  \<^verbatim>\<open>0,1\<close>. \<^verbatim>\<open>util/str.ToLower\<close>, \<^verbatim>\<open>util/str.CmpLower\<close> and the packed versions in \<^verbatim>\<open>core/pack.go\<close> are here too,
  for the flds that are indexed without regard to case (their number is negative). A key that is too large, and
  a record that is malformed, panic: \<open>None\<close>. A nil slice of flds is \<open>None\<close>, too.
\<close>

section \<open>Lower case\<close>

definition ascii_ToLower :: "byte \<Rightarrow> byte" where
  "ascii_ToLower c = (if 65 \<le> c \<and> c \<le> 90 then c + 32 else c)"

fun str_CmpLower :: "gostr \<Rightarrow> gostr \<Rightarrow> int" where
  "str_CmpLower (a # s1) (b # s2) =
     (if ascii_ToLower a < ascii_ToLower b then - 1 else if ascii_ToLower b < ascii_ToLower a then 1 else str_CmpLower s1 s2)"
| "str_CmpLower [] [] = 0"
| "str_CmpLower [] s2 = - 1"
| "str_CmpLower s1 [] = 1"

text \<open>The copy is made at the first letter that changes.\<close>

definition str_ToLower :: "gostr \<Rightarrow> gostr" where
  "str_ToLower s =
     (let up = (\<lambda>c. 65 \<le> c \<and> c \<le> (90 :: byte)); i = length (takeWhile (\<lambda>c. \<not> up c) s)
      in if i < length s
         then take i s @ (s ! i + 32) # map (\<lambda>c. if up c then c + 32 else c) (drop (i + 1) s)
         else s)"

definition PackString :: byte where "PackString = 4"

definition PackedToLower :: "gostr \<Rightarrow> gostr" where
  "PackedToLower s = (if s = [] \<or> s ! 0 \<noteq> PackString then s else str_ToLower s)"

definition PackedCmpLower :: "gostr \<Rightarrow> gostr \<Rightarrow> int" where
  "PackedCmpLower s1 s2 =
     (if s1 = [] \<or> s1 ! 0 \<noteq> PackString \<or> s2 = [] \<or> s2 ! 0 \<noteq> PackString then strings_Compare s1 s2
      else str_CmpLower s1 s2)"

section \<open>Encoding\<close>

definition maxEntry :: int where "maxEntry = 4096"

definition Cksize :: "int \<Rightarrow> unit option" where
  "Cksize n = (if maxEntry < n then None else Some ())"

definition Cklen :: "gostr \<Rightarrow> gostr option" where
  "Cklen s = do { _ \<leftarrow> Cksize (int (length s)); Some s }"

definition IndexByte :: "gostr \<Rightarrow> byte \<Rightarrow> nat option" where
  "IndexByte s c = (let i = length (takeWhile (\<lambda>x. x \<noteq> c) s) in if i < length s then Some i else None)"

function encode :: "gostr \<Rightarrow> gostr \<Rightarrow> gostr" where
  "encode buf b =
     (if b = [] then buf
      else case IndexByte b 0 of
        None \<Rightarrow> buf @ b
      | Some i \<Rightarrow> encode (buf @ take (i + 1) b @ [1]) (drop (i + 1) b))"
  by pat_completeness auto
termination by (relation "measure (\<lambda>(buf, b). length b)") auto

definition Encode :: "gostr \<Rightarrow> gostr" where
  "Encode s = (if IndexByte s 0 = None then s else encode [] s)"

text \<open>An \<^verbatim>\<open>Encoder\<close> is its buffer, nil at first.\<close>

type_synonym key_encoder = "gostr option"

definition ke_Add :: "key_encoder \<Rightarrow> gostr \<Rightarrow> key_encoder option" where
  "ke_Add e fld = do {
     _ \<leftarrow> Cksize (int (length (case e of None \<Rightarrow> [] | Some buf \<Rightarrow> buf)) + int (length fld));
     Some (Some (encode (case e of None \<Rightarrow> [] | Some buf \<Rightarrow> buf @ [0, 0]) fld)) }"

text \<open>\<^verbatim>\<open>for strings.HasSuffix(s, "\x00\x00")\<close>.\<close>

function trim_seps :: "gostr \<Rightarrow> gostr" where
  "trim_seps s = (if 2 \<le> length s \<and> drop (length s - 2) s = [0, 0] then trim_seps (take (length s - 2) s) else s)"
  by pat_completeness auto
termination by (relation "measure length") auto

definition ke_String :: "key_encoder \<Rightarrow> gostr" where
  "ke_String e = trim_seps (case e of None \<Rightarrow> [] | Some buf \<Rightarrow> buf)"

fun ke_AddAll :: "key_encoder \<Rightarrow> gostr list \<Rightarrow> key_encoder option" where
  "ke_AddAll e [] = Some e"
| "ke_AddAll e (f # fs) = do { e' \<leftarrow> ke_Add e f; ke_AddAll e' fs }"

text \<open>\<^verbatim>\<open>Make\<close>, given the values of the columns.\<close>

definition ix_Make :: "gostr list \<Rightarrow> gostr option" where
  "ix_Make vals = (if length vals = 1 then Cklen (vals ! 0) else do { e \<leftarrow> ke_AddAll None vals; Some (ke_String e) })"

section \<open>Keys of records\<close>

record ix_spec =
  sp_Fields :: "int list option"
  sp_Fields2 :: "int list"

definition sp_fields :: "ix_spec \<Rightarrow> int list" where
  "sp_fields spec = (case sp_Fields spec of None \<Rightarrow> [] | Some fs \<Rightarrow> fs)"

definition sp_Encodes :: "ix_spec \<Rightarrow> bool" where
  "sp_Encodes spec \<longleftrightarrow> 1 < length (sp_fields spec) \<or> 0 < length (sp_Fields2 spec)"

definition fieldLen :: "gostr \<Rightarrow> int \<Rightarrow> int option" where
  "fieldLen r field = do { s \<leftarrow> rec_GetRaw r (if field < 0 then - field - 2 else field); Some (int (length s)) }"

definition getRaw :: "gostr \<Rightarrow> int \<Rightarrow> gostr option" where
  "getRaw r field =
     (if 0 \<le> field then rec_GetRaw r field else do { s \<leftarrow> rec_GetRaw r (- field - 2); Some (PackedToLower s) })"

text \<open>The first loop of \<^verbatim>\<open>Key\<close>: the size, and the last field that is not empty.\<close>

fun key_sizes :: "gostr \<Rightarrow> nat \<Rightarrow> int list \<Rightarrow> int \<Rightarrow> int \<Rightarrow> (int \<times> int) option" where
  "key_sizes r i [] n lastNonEmpty = Some (n, lastNonEmpty)"
| "key_sizes r i (field # flds) n lastNonEmpty = do {
     fldlen \<leftarrow> fieldLen r field;
     key_sizes r (i + 1) flds (n + fldlen) (if 0 < fldlen then int i else lastNonEmpty) }"

fun add_sizes :: "gostr \<Rightarrow> int list \<Rightarrow> int \<Rightarrow> int option" where
  "add_sizes r [] n = Some n"
| "add_sizes r (field # flds) n = do { fldlen \<leftarrow> fieldLen r field; add_sizes r flds (n + fldlen) }"

text \<open>The last loop, from index \<open>i\<close> on.\<close>

fun key_fields :: "gostr \<Rightarrow> nat \<Rightarrow> gostr \<Rightarrow> int list \<Rightarrow> gostr option" where
  "key_fields r i buf [] = Some buf"
| "key_fields r i buf (f # flds) = do {
     s \<leftarrow> getRaw r f;
     key_fields r (i + 1) (encode (if 0 < i then buf @ [0, 0] else buf) s) flds }"

definition sp_Key :: "ix_spec \<Rightarrow> gostr \<Rightarrow> gostr option" where
  "sp_Key spec r =
     (case sp_Fields spec of
        None \<Rightarrow> None
      | Some flds \<Rightarrow>
          if length flds = 0 then Some []
          else if \<not> sp_Encodes spec then do { s \<leftarrow> getRaw r (flds ! 0); Cklen s }
          else do {
            (n, lastNonEmpty) \<leftarrow> key_sizes r 0 flds 0 (- 1);
            if lastNonEmpty = - 1 \<and> length (sp_Fields2 spec) = 0 then Some []
            else do {
              n1 \<leftarrow> (if lastNonEmpty = - 1 then add_sizes r (sp_Fields2 spec) n else Some n);
              let fields1 = (if lastNonEmpty = - 1 then flds else take (nat (lastNonEmpty + 1)) flds);
              let n2 = n1 + 2 * int (length fields1);
              _ \<leftarrow> Cksize (n2 + n2 div 16);
              if lastNonEmpty = - 1
              then key_fields r 0 (concat (replicate (length fields1) [0, 0])) (sp_Fields2 spec)
              else key_fields r 0 [] fields1 } })"

section \<open>Comparing records\<close>

fun cmp_fields2 :: "gostr \<Rightarrow> gostr \<Rightarrow> int list \<Rightarrow> int option" where
  "cmp_fields2 r1 r2 [] = Some 0"
| "cmp_fields2 r1 r2 (f # flds) = do {
     x1 \<leftarrow> rec_GetRaw r1 f;
     x2 \<leftarrow> rec_GetRaw r2 f;
     if strings_Compare x1 x2 \<noteq> 0 then Some (strings_Compare x1 x2) else cmp_fields2 r1 r2 flds }"

fun cmp_fields :: "gostr \<Rightarrow> gostr \<Rightarrow> int list \<Rightarrow> int list \<Rightarrow> bool \<Rightarrow> int option" where
  "cmp_fields r1 r2 fields2 [] allempty = (if allempty then cmp_fields2 r1 r2 fields2 else Some 0)"
| "cmp_fields r1 r2 fields2 (f # flds) allempty = do {
     let f' = (if f < 0 then - f - 2 else f);
     x1 \<leftarrow> rec_GetRaw r1 f';
     x2 \<leftarrow> rec_GetRaw r2 f';
     let cmp = (if f < 0 then PackedCmpLower x1 x2 else strings_Compare x1 x2);
     if cmp \<noteq> 0 then Some cmp
     else cmp_fields r1 r2 fields2 flds (if x1 \<noteq> [] \<or> x2 \<noteq> [] then False else allempty) }"

definition sp_Compare :: "ix_spec \<Rightarrow> gostr \<Rightarrow> gostr \<Rightarrow> int option" where
  "sp_Compare spec r1 r2 = cmp_fields r1 r2 (sp_Fields2 spec) (sp_fields spec) True"

definition sp_Trunc :: "ix_spec \<Rightarrow> nat \<Rightarrow> ix_spec option" where
  "sp_Trunc spec n =
     (if length (sp_fields spec) < n then None
      else Some \<lparr>sp_Fields = map_option (take n) (sp_Fields spec), sp_Fields2 = []\<rparr>)"

section \<open>Decoding\<close>

text \<open>\<^verbatim>\<open>strings.Index(s, Sep)\<close>, \<^verbatim>\<open>strings.Split(s, Sep)\<close> and \<^verbatim>\<open>strings.ReplaceAll(s, "\x00\x01", "\x00")\<close>, which
  look for the leftmost occurrence.\<close>

fun index_sep :: "gostr \<Rightarrow> nat option" where
  "index_sep (a # b # s) = (if a = 0 \<and> b = 0 then Some 0 else map_option Suc (index_sep (b # s)))"
| "index_sep s = None"

lemma index_sep_less: "index_sep s = Some i \<Longrightarrow> i + 2 \<le> length s"
  by (induction s arbitrary: i rule: index_sep.induct) (auto split: if_splits)

function split_sep :: "gostr \<Rightarrow> gostr list" where
  "split_sep s = (case index_sep s of None \<Rightarrow> [s] | Some i \<Rightarrow> take i s # split_sep (drop (i + 2) s))"
  by pat_completeness auto
termination by (relation "measure length") (auto dest: index_sep_less)

fun unescape :: "gostr \<Rightarrow> gostr" where
  "unescape (a # b # s) = (if a = 0 \<and> b = 1 then 0 # unescape s else a # unescape (b # s))"
| "unescape s = s"

definition Decode :: "gostr \<Rightarrow> gostr list" where
  "Decode s = (if s = [] then [] else map unescape (split_sep s))"

text \<open>The loop of \<^verbatim>\<open>Decode1\<close> that skips \<open>i\<close> separators.\<close>

fun skip_seps :: "nat \<Rightarrow> gostr \<Rightarrow> gostr option" where
  "skip_seps 0 s = Some s"
| "skip_seps (Suc i) s = (case index_sep s of None \<Rightarrow> None | Some p \<Rightarrow> skip_seps i (drop (p + 2) s))"

definition Decode1 :: "gostr \<Rightarrow> int \<Rightarrow> gostr" where
  "Decode1 s i =
     (if s = [] \<or> i < 0 then []
      else case skip_seps (nat i) s of
        None \<Rightarrow> []
      | Some rest \<Rightarrow> unescape (case index_sep rest of None \<Rightarrow> rest | Some p \<Rightarrow> take p rest))"

definition HasPrefix :: "gostr \<Rightarrow> gostr \<Rightarrow> bool" where
  "HasPrefix s prefix \<longleftrightarrow>
     (let sn = length s; pn = length prefix
      in pn \<le> sn \<and> take pn s = prefix \<and> (sn = pn \<or> pn + 2 \<le> sn \<and> take 2 (drop pn s) = [0, 0]))"

declare encode.simps [simp del] trim_seps.simps [simp del] split_sep.simps [simp del]

section \<open>What the encoding is\<close>

fun enc :: "gostr \<Rightarrow> gostr" where
  "enc [] = []"
| "enc (c # s) = (if c = 0 then 0 # 1 # enc s else c # enc s)"

lemma enc_append [simp]: "enc (s @ t) = enc s @ enc t"
  by (induction s) auto

lemma enc_nonzero: "0 \<notin> set s \<Longrightarrow> enc s = s"
  by (induction s) auto

lemma enc_Nil_iff [simp]: "enc s = [] \<longleftrightarrow> s = []"
  by (cases s) auto

lemma IndexByte_simps: "IndexByte [] c = None" "IndexByte (x # s) c = (if x = c then Some 0 else map_option Suc (IndexByte s c))"
  by (simp_all add: IndexByte_def Let_def)

lemma IndexByte_None: "IndexByte s c = None \<longleftrightarrow> c \<notin> set s"
  by (induction s) (auto simp: IndexByte_simps)

lemma IndexByte_Some: "IndexByte s c = Some i \<Longrightarrow> i < length s \<and> take (i + 1) s = take i s @ [c] \<and> c \<notin> set (take i s)"
  by (induction s arbitrary: i) (auto simp: IndexByte_simps split: if_splits)

lemma encode_enc: "encode buf b = buf @ enc b"
proof (induction buf b rule: encode.induct)
  case (1 buf b)
  show ?case
  proof (cases "IndexByte b 0")
    case None
    then show ?thesis using IndexByte_None [of b 0] by (subst encode.simps) (simp add: enc_nonzero)
  next
    case (Some i)
    note i = IndexByte_Some [OF Some]
    have "enc (take (i + 1) b @ drop (i + 1) b) = take i b @ [0, 1] @ enc (drop (i + 1) b)"
      using i enc_nonzero [of "take i b"] unfolding enc_append by simp
    then have e: "enc b = take i b @ [0, 1] @ enc (drop (i + 1) b)" by (simp only: append_take_drop_id)
    have ne: "b \<noteq> []" using i by auto
    show ?thesis using "1.IH" [OF ne Some] Some e i ne by (subst encode.simps) simp
  qed
qed

section \<open>Order\<close>

text \<open>What may follow an encoded field: the end, or a separator.\<close>

definition after_field :: "gostr \<Rightarrow> bool" where
  "after_field x \<longleftrightarrow> x = [] \<or> (\<exists>y. x = 0 # 0 # y)"

lemma after_field_simps [simp]: "after_field []" "after_field (0 # 0 # y)"
  by (simp_all add: after_field_def)

lemma byte_pos: "(c :: byte) \<noteq> 0 \<Longrightarrow> 0 < c"
  by (simp add: word_neq_0_conv)

lemma enc_less:
  "after_field x \<Longrightarrow> after_field y \<Longrightarrow> s \<noteq> t \<Longrightarrow> enc s @ x < enc t @ y \<longleftrightarrow> s < t"
proof (induction s arbitrary: t)
  case Nil
  then obtain c t' where "t = c # t'" by (cases t) auto
  then show ?case using Nil byte_pos [of c] by (auto simp: after_field_def)
next
  case (Cons a s)
  show ?case
  proof (cases t)
    case Nil
    then show ?thesis using Cons.prems byte_pos [of a] by (auto simp: after_field_def)
  next
    case t: (Cons c t')
    then show ?thesis using Cons byte_pos [of a] byte_pos [of c] by (auto simp: t)
  qed
qed

lemma enc_inj: "after_field x \<Longrightarrow> after_field y \<Longrightarrow> enc s @ x = enc t @ y \<Longrightarrow> s = t \<and> x = y"
proof -
  assume a: "after_field x" "after_field y" "enc s @ x = enc t @ y"
  have "s = t" using enc_less [OF a(1,2), of s t] enc_less [OF a(2,1), of t s] a(3) by (metis less_irrefl not_less_iff_gr_or_eq)
  then show "s = t \<and> x = y" using a(3) by simp
qed

text \<open>Keys with the trailing empty fields trimmed, and keys with all fields.\<close>

fun trimmed_key :: "gostr list \<Rightarrow> gostr" where
  "trimmed_key [] = []"
| "trimmed_key (f # fs) = enc f @ (if list_all (\<lambda>f. f = []) fs then [] else [0, 0] @ trimmed_key fs)"

fun full_key :: "gostr list \<Rightarrow> gostr" where
  "full_key [] = []"
| "full_key [f] = enc f"
| "full_key (f # fs) = enc f @ [0, 0] @ full_key fs"

lemma strings_Compare_eq: "strings_Compare a b = 0 \<longleftrightarrow> a = b" "strings_Compare a a = 0"
  by (auto simp: strings_Compare_def)

lemma strings_Compare_append: "strings_Compare (x @ a) (x @ b) = strings_Compare a b" "strings_Compare (c # a) (c # b) = strings_Compare a b"
  by (simp_all add: strings_Compare_def)

lemma strings_Compare_Nil: "strings_Compare [] a = (if a = [] then 0 else - 1)" "strings_Compare a [] = (if a = [] then 0 else 1)"
  by (cases a; simp add: strings_Compare_def)+

lemmas strings_Compare_simps = strings_Compare_eq strings_Compare_append strings_Compare_Nil

lemma enc_Compare:
  assumes "after_field x" "after_field y" "s \<noteq> t"
  shows "strings_Compare (enc s @ x) (enc t @ y) = strings_Compare s t"
  using enc_less [OF assms] enc_inj [OF assms(1,2), of s t] assms(3) by (auto simp: strings_Compare_def)

text \<open>The first fields that differ decide.\<close>

fun cmp_lists :: "gostr list \<Rightarrow> gostr list \<Rightarrow> int" where
  "cmp_lists (f # fs) (g # gs) = (if f \<noteq> g then strings_Compare f g else cmp_lists fs gs)"
| "cmp_lists fs gs = 0"

lemma trimmed_key_empty: "list_all (\<lambda>f. f = []) fs \<Longrightarrow> trimmed_key fs = []"
  by (cases fs) auto

lemma cmp_lists_empty:
  "length fs = length gs \<Longrightarrow> list_all (\<lambda>f. f = []) fs \<Longrightarrow> \<not> list_all (\<lambda>f. f = []) gs \<Longrightarrow> cmp_lists fs gs = - 1 \<and> cmp_lists gs fs = 1"
  by (induction fs gs rule: list_induct2) (auto simp: strings_Compare_simps)

lemma cmp_lists_refl_empty:
  "length fs = length gs \<Longrightarrow> list_all (\<lambda>f. f = []) fs \<Longrightarrow> list_all (\<lambda>f. f = []) gs \<Longrightarrow> cmp_lists fs gs = 0"
  by (induction fs gs rule: list_induct2) auto

lemma trimmed_key_Compare: "length fs = length gs \<Longrightarrow> strings_Compare (trimmed_key fs) (trimmed_key gs) = cmp_lists fs gs"
proof (induction fs gs rule: list_induct2)
  case (Cons f fs g gs)
  show ?case
  proof (cases "f = g")
    case False
    then show ?thesis by (simp add: enc_Compare)
  next
    case True
    then show ?thesis
      using Cons cmp_lists_empty [of fs gs] cmp_lists_empty [of gs fs] cmp_lists_refl_empty [of fs gs]
      by (auto simp: strings_Compare_simps)
  qed
qed (simp add: strings_Compare_def)

lemma full_key_Cons: "fs \<noteq> [] \<Longrightarrow> full_key (f # fs) = enc f @ [0, 0] @ full_key fs"
  by (cases fs) auto

lemma full_key_Compare: "length fs = length gs \<Longrightarrow> strings_Compare (full_key fs) (full_key gs) = cmp_lists fs gs"
proof (induction fs gs rule: list_induct2)
  case (Cons f fs g gs)
  show ?case
  proof (cases "fs = []")
    case True
    then have "gs = []" using Cons.hyps by simp
    then show ?thesis using True enc_Compare [of "[]" "[]" f g] by (auto simp: strings_Compare_simps)
  next
    case False
    then have "gs \<noteq> []" using Cons.hyps by auto
    then show ?thesis using False Cons.IH by (cases "f = g") (simp_all add: full_key_Cons enc_Compare strings_Compare_simps)
  qed
qed (simp add: strings_Compare_def)

section \<open>Lower case\<close>

lemma str_ToLower_map: "str_ToLower s = map ascii_ToLower s"
proof (induction s)
  case (Cons c s)
  have m: "(\<lambda>c. if 65 \<le> c \<and> c \<le> 90 then c + 32 else c) = ascii_ToLower" by (simp add: ascii_ToLower_def fun_eq_iff)
  show ?case using Cons unfolding str_ToLower_def Let_def m by (auto simp: ascii_ToLower_def split: if_splits)
qed (simp add: str_ToLower_def)

lemma str_CmpLower_map: "str_CmpLower s t = strings_Compare (map ascii_ToLower s) (map ascii_ToLower t)"
  by (induction s t rule: str_CmpLower.induct) (auto simp: strings_Compare_simps, auto simp: strings_Compare_def)

lemma ascii_ToLower_PackString: "ascii_ToLower PackString = PackString"
  by (simp add: ascii_ToLower_def PackString_def)

lemma length_PackedToLower [simp]: "length (PackedToLower s) = length s"
  by (simp add: PackedToLower_def str_ToLower_map)

lemma strings_Compare_head: "a \<noteq> b \<Longrightarrow> strings_Compare (a # s) (b # t) = (if a < b then - 1 else 1)"
  by (auto simp: strings_Compare_def)

lemma PackedCmpLower_eq: "PackedCmpLower s t = strings_Compare (PackedToLower s) (PackedToLower t)"
proof (cases "s = [] \<or> t = []")
  case True
  then show ?thesis by (auto simp: PackedCmpLower_def PackedToLower_def str_ToLower_map strings_Compare_simps)
next
  case False
  then obtain a s' b t' where "s = a # s'" "t = b # t'" by (meson neq_Nil_conv)
  then show ?thesis
    by (auto simp: PackedCmpLower_def PackedToLower_def str_ToLower_map str_CmpLower_map ascii_ToLower_PackString strings_Compare_head)
qed

section \<open>The key of a record\<close>

fun raws :: "gostr \<Rightarrow> int list \<Rightarrow> gostr list option" where
  "raws r [] = Some []"
| "raws r (f # fs) = do { v \<leftarrow> getRaw r f; vs \<leftarrow> raws r fs; Some (v # vs) }"

lemma raws_length: "raws r fs = Some vs \<Longrightarrow> length vs = length fs"
  by (induction fs arbitrary: vs) (auto split: Option.bind_splits)

lemma raws_take: "raws r fs = Some vs \<Longrightarrow> raws r (take k fs) = Some (take k vs)"
proof (induction fs arbitrary: vs k)
  case (Cons f fs)
  then show ?case by (cases k) (auto split: Option.bind_splits)
qed simp

lemma fieldLen_getRaw: "fieldLen r f = map_option (\<lambda>v. int (length v)) (getRaw r f)"
  by (auto simp: fieldLen_def getRaw_def split: Option.bind_splits)

text \<open>The index of the last value that is not empty, as the loop computes it.\<close>

fun last_ne :: "nat \<Rightarrow> gostr list \<Rightarrow> int \<Rightarrow> int" where
  "last_ne i [] l = l"
| "last_ne i (v # vs) l = last_ne (i + 1) vs (if v \<noteq> [] then int i else l)"

lemma key_sizes_eq:
  "key_sizes r i fs n l = (case raws r fs of None \<Rightarrow> None | Some vs \<Rightarrow> Some (n + int (sum_list (map length vs)), last_ne i vs l))"
  by (induction fs arbitrary: i n l) (auto simp: fieldLen_getRaw split: Option.bind_splits option.splits)

lemma add_sizes_eq: "add_sizes r fs n = (case raws r fs of None \<Rightarrow> None | Some vs \<Rightarrow> Some (n + int (sum_list (map length vs))))"
  by (induction fs arbitrary: n) (auto simp: fieldLen_getRaw split: Option.bind_splits option.splits)

definition sep_fields :: "gostr list \<Rightarrow> gostr" where
  "sep_fields vs = concat (map (\<lambda>v. [0, 0] @ enc v) vs)"

lemma full_key_sep: "full_key (v # vs) = enc v @ sep_fields vs"
proof (induction vs arbitrary: v)
  case (Cons w vs)
  then show ?case using Cons [of w] by (simp add: sep_fields_def)
qed (simp add: sep_fields_def)

lemma key_fields_eq:
  "key_fields r i buf fs = (case raws r fs of None \<Rightarrow> None | Some vs \<Rightarrow> Some (buf @ (if i = 0 then full_key vs else sep_fields vs)))"
proof (induction fs arbitrary: i buf)
  case (Cons f fs)
  then show ?case by (auto simp: encode_enc full_key_sep sep_fields_def split: Option.bind_splits option.splits)
qed (simp add: sep_fields_def)

lemma last_ne_empty: "list_all (\<lambda>v. v = []) vs \<Longrightarrow> last_ne i vs l = l"
  by (induction vs arbitrary: i) auto

lemma last_ne_trim:
  "\<not> list_all (\<lambda>v. v = []) vs \<Longrightarrow> int i \<le> last_ne i vs l \<and> full_key (take (nat (last_ne i vs l + 1) - i) vs) = trimmed_key vs"
proof (induction vs arbitrary: i l)
  case (Cons v vs)
  show ?case
  proof (cases "list_all (\<lambda>v. v = []) vs")
    case True
    moreover have "nat (int i + 1) - i = 1" by simp
    ultimately show ?thesis using Cons.prems last_ne_empty [OF True, of "i + 1"] by simp
  next
    case False
    let ?k = "last_ne (i + 1) vs (if v \<noteq> [] then int i else l)"
    have ih: "int (i + 1) \<le> ?k" "full_key (take (nat (?k + 1) - (i + 1)) vs) = trimmed_key vs" using Cons.IH [OF False] by blast+
    have k: "nat (?k + 1) - i = Suc (nat (?k + 1) - (i + 1))" "0 < nat (?k + 1) - (i + 1)" using ih(1) by linarith+
    have "take (nat (?k + 1) - (i + 1)) vs \<noteq> []" using k(2) False by auto
    then have "full_key (take (nat (?k + 1) - i) (v # vs)) = enc v @ [0, 0] @ trimmed_key vs"
      unfolding k(1) using ih(2) by (simp add: full_key_Cons)
    then show ?thesis using False ih(1) by simp
  qed
qed simp

definition seps :: "nat \<Rightarrow> gostr" where
  "seps n = concat (replicate n [0, 0])"

text \<open>What the key of a record is, when there is one.\<close>

lemma sp_Key_value:
  assumes k: "sp_Key spec r = Some k" and ne: "sp_fields spec \<noteq> []"
  obtains vs where "raws r (sp_fields spec) = Some vs" "\<not> sp_Encodes spec \<Longrightarrow> k = vs ! 0"
    "sp_Encodes spec \<Longrightarrow> \<not> (list_all (\<lambda>v. v = []) vs \<and> sp_Fields2 spec \<noteq> []) \<Longrightarrow> k = trimmed_key vs"
    "sp_Encodes spec \<Longrightarrow> list_all (\<lambda>v. v = []) vs \<Longrightarrow> sp_Fields2 spec \<noteq> [] \<Longrightarrow>
       \<exists>gs. raws r (sp_Fields2 spec) = Some gs \<and> k = seps (length (sp_fields spec)) @ full_key gs"
proof -
  obtain flds where f: "sp_Fields spec = Some flds" "sp_fields spec = flds" "flds \<noteq> []"
    using k ne by (auto simp: sp_Key_def sp_fields_def split: option.splits)
  show thesis
  proof (cases "sp_Encodes spec")
    case False
    then obtain f0 where f0: "flds = [f0]" using f by (cases flds) (auto simp: sp_Encodes_def)
    then have "getRaw r f0 = Some k" using k f False by (auto simp: sp_Key_def Cklen_def split: Option.bind_splits)
    then show thesis using that [of "[k]"] f f0 False by simp
  next
    case True
    then obtain vs where vs: "raws r flds = Some vs"
      using k f by (auto simp: sp_Key_def key_sizes_eq split: option.splits)
    have len: "last_ne 0 vs (- 1) = - 1 \<longleftrightarrow> list_all (\<lambda>v. v = []) vs"
      using last_ne_empty [of vs 0 "- 1"] last_ne_trim [of vs 0 "- 1"] by linarith
    show thesis
    proof (cases "list_all (\<lambda>v. v = []) vs")
      case all: True
      then show thesis
        using that [of vs] k f True vs len trimmed_key_empty [OF all]
        by (auto simp: sp_Key_def key_sizes_eq add_sizes_eq key_fields_eq seps_def Let_def split: option.splits Option.bind_splits if_splits)
    next
      case some: False
      then have "last_ne 0 vs (- 1) \<noteq> - 1" using len by simp
      then have "k = trimmed_key vs"
        using k f True vs last_ne_trim [OF some, of 0 "- 1"] raws_take [OF vs]
        by (auto simp: sp_Key_def key_sizes_eq key_fields_eq Let_def split: Option.bind_splits if_splits)
      then show thesis using that [of vs] vs f True some by simp
    qed
  qed
qed

section \<open>Comparing records compares their keys\<close>

lemma getRaw_plain: "0 \<le> f \<Longrightarrow> getRaw r f = rec_GetRaw r f"
  by (simp add: getRaw_def)

lemma cmp_fields2_eq:
  "list_all (\<lambda>f. 0 \<le> f) fs \<Longrightarrow> raws r1 fs = Some vs1 \<Longrightarrow> raws r2 fs = Some vs2 \<Longrightarrow> cmp_fields2 r1 r2 fs = Some (cmp_lists vs1 vs2)"
  by (induction fs arbitrary: vs1 vs2) (auto simp: getRaw_plain strings_Compare_simps split: Option.bind_splits)

lemma cmp_one:
  assumes "getRaw r1 f = Some v1" "getRaw r2 f = Some v2"
  shows "\<exists>x1 x2. rec_GetRaw r1 (if f < 0 then - f - 2 else f) = Some x1 \<and> rec_GetRaw r2 (if f < 0 then - f - 2 else f) = Some x2
    \<and> (if f < 0 then PackedCmpLower x1 x2 else strings_Compare x1 x2) = strings_Compare v1 v2 \<and> (x1 = [] \<longleftrightarrow> v1 = []) \<and> (x2 = [] \<longleftrightarrow> v2 = [])"
  using assms by (auto simp: getRaw_def PackedCmpLower_eq split: if_splits Option.bind_splits) (metis length_0_conv length_PackedToLower)+

lemma cmp_fields_eq:
  "raws r1 fs = Some vs1 \<Longrightarrow> raws r2 fs = Some vs2 \<Longrightarrow> cmp_fields r1 r2 fs2 fs e =
    (if cmp_lists vs1 vs2 \<noteq> 0 then Some (cmp_lists vs1 vs2)
     else if e \<and> list_all (\<lambda>v. v = []) vs1 \<and> list_all (\<lambda>v. v = []) vs2 then cmp_fields2 r1 r2 fs2 else Some 0)"
proof (induction fs arbitrary: vs1 vs2 e)
  case (Cons f fs)
  obtain v1 w1 v2 w2 where v: "getRaw r1 f = Some v1" "raws r1 fs = Some w1" "vs1 = v1 # w1"
    "getRaw r2 f = Some v2" "raws r2 fs = Some w2" "vs2 = v2 # w2"
    using Cons.prems by (auto split: Option.bind_splits)
  obtain x1 x2 where x: "rec_GetRaw r1 (if f < 0 then - f - 2 else f) = Some x1" "rec_GetRaw r2 (if f < 0 then - f - 2 else f) = Some x2"
    "(if f < 0 then PackedCmpLower x1 x2 else strings_Compare x1 x2) = strings_Compare v1 v2" "x1 = [] \<longleftrightarrow> v1 = []" "x2 = [] \<longleftrightarrow> v2 = []"
    using cmp_one [OF v(1,4)] by blast
  have "cmp_fields r1 r2 fs2 (f # fs) e = (if strings_Compare v1 v2 \<noteq> 0 then Some (strings_Compare v1 v2)
      else cmp_fields r1 r2 fs2 fs (if v1 \<noteq> [] \<or> v2 \<noteq> [] then False else e))"
    using x by (simp only: cmp_fields.simps Let_def Option.bind.simps)
  then show ?case using Cons.IH [OF v(2,5)] v(3,6) by (simp add: strings_Compare_simps)
qed simp

lemma seps_Compare:
  "length vs = n \<Longrightarrow> \<not> list_all (\<lambda>v. v = []) vs \<Longrightarrow> strings_Compare (seps n @ x) (trimmed_key vs) = - 1 \<and> strings_Compare (trimmed_key vs) (seps n @ x) = 1"
proof (induction vs arbitrary: n)
  case (Cons v vs)
  obtain m where n: "n = Suc m" "length vs = m" using Cons.prems(1) by auto
  show ?case
  proof (cases "v = []")
    case True
    then show ?thesis using Cons.IH [OF n(2)] Cons.prems(2) n(1) by (simp add: seps_def strings_Compare_simps)
  next
    case False
    let ?y = "if list_all (\<lambda>f. f = []) vs then [] else [0, 0] @ trimmed_key vs"
    have "strings_Compare (enc [] @ 0 # 0 # seps m @ x) (enc v @ ?y) = strings_Compare [] v"
      "strings_Compare (enc v @ ?y) (enc [] @ 0 # 0 # seps m @ x) = strings_Compare v []"
      using False by (intro enc_Compare; simp)+
    then show ?thesis using False n(1) by (simp add: seps_def strings_Compare_simps)
  qed
qed simp

text \<open>The same fields are empty in both records when nothing differs.\<close>

lemma cmp_lists_0: "length vs = length ws \<Longrightarrow> cmp_lists vs ws = 0 \<Longrightarrow> vs = ws"
  by (induction vs ws rule: list_induct2) (auto simp: strings_Compare_simps split: if_splits)

lemma sp_Compare_keys:
  assumes k1: "sp_Key spec r1 = Some k1" and k2: "sp_Key spec r2 = Some k2" and ne: "sp_fields spec \<noteq> []"
    and plain: "list_all (\<lambda>f. 0 \<le> f) (sp_Fields2 spec)"
  shows "sp_Compare spec r1 r2 = Some (strings_Compare k1 k2)"
proof -
  let ?E = "\<lambda>vs. list_all (\<lambda>v. v = []) vs"
  obtain vs where v: "raws r1 (sp_fields spec) = Some vs" "\<not> sp_Encodes spec \<Longrightarrow> k1 = vs ! 0"
    "sp_Encodes spec \<Longrightarrow> \<not> (?E vs \<and> sp_Fields2 spec \<noteq> []) \<Longrightarrow> k1 = trimmed_key vs"
    "sp_Encodes spec \<Longrightarrow> ?E vs \<Longrightarrow> sp_Fields2 spec \<noteq> [] \<Longrightarrow> \<exists>gs. raws r1 (sp_Fields2 spec) = Some gs \<and> k1 = seps (length (sp_fields spec)) @ full_key gs"
    using sp_Key_value [OF k1 ne] by blast
  obtain ws where w: "raws r2 (sp_fields spec) = Some ws" "\<not> sp_Encodes spec \<Longrightarrow> k2 = ws ! 0"
    "sp_Encodes spec \<Longrightarrow> \<not> (?E ws \<and> sp_Fields2 spec \<noteq> []) \<Longrightarrow> k2 = trimmed_key ws"
    "sp_Encodes spec \<Longrightarrow> ?E ws \<Longrightarrow> sp_Fields2 spec \<noteq> [] \<Longrightarrow> \<exists>gs. raws r2 (sp_Fields2 spec) = Some gs \<and> k2 = seps (length (sp_fields spec)) @ full_key gs"
    using sp_Key_value [OF k2 ne] by blast
  have len: "length vs = length ws" "length vs = length (sp_fields spec)" using raws_length [OF v(1)] raws_length [OF w(1)] by simp_all
  have cmp: "sp_Compare spec r1 r2 = (if cmp_lists vs ws \<noteq> 0 then Some (cmp_lists vs ws)
      else if ?E vs \<and> ?E ws then cmp_fields2 r1 r2 (sp_Fields2 spec) else Some 0)"
    using cmp_fields_eq [OF v(1) w(1)] by (simp add: sp_Compare_def)
  consider (raw) "\<not> sp_Encodes spec" | (trim) "sp_Encodes spec" "\<not> (?E vs \<and> sp_Fields2 spec \<noteq> [])" "\<not> (?E ws \<and> sp_Fields2 spec \<noteq> [])"
    | (both) "sp_Encodes spec" "sp_Fields2 spec \<noteq> []" "?E vs" "?E ws" | (left) "sp_Encodes spec" "sp_Fields2 spec \<noteq> []" "?E vs" "\<not> ?E ws"
    | (right) "sp_Encodes spec" "sp_Fields2 spec \<noteq> []" "\<not> ?E vs" "?E ws"
    by blast
  then show ?thesis
  proof cases
    case raw
    then obtain a b where "vs = [a]" "ws = [b]" "sp_Fields2 spec = []"
      using len ne by (auto simp: sp_Encodes_def length_Suc_conv) (metis One_nat_def Suc_length_conv length_0_conv less_one linorder_neqE_nat)
    then show ?thesis using v(2) w(2) raw cmp by (simp add: strings_Compare_simps)
  next
    case trim
    then have "sp_Fields2 spec = [] \<or> \<not> (?E vs \<and> ?E ws)" by blast
    then show ?thesis using v(3) w(3) trim trimmed_key_Compare [OF len(1)] cmp by auto
  next
    case both
    obtain gs hs where g: "raws r1 (sp_Fields2 spec) = Some gs" "k1 = seps (length (sp_fields spec)) @ full_key gs"
      "raws r2 (sp_Fields2 spec) = Some hs" "k2 = seps (length (sp_fields spec)) @ full_key hs"
      using v(4) w(4) both by blast
    have "length gs = length hs" using raws_length [OF g(1)] raws_length [OF g(3)] by simp
    then show ?thesis
      using cmp both cmp_lists_refl_empty [OF len(1) both(3,4)] cmp_fields2_eq [OF plain g(1,3)] full_key_Compare g(2,4)
      by (simp add: strings_Compare_simps)
  next
    case left
    then show ?thesis using v(4) w(3) cmp cmp_lists_empty [OF len(1) left(3,4)] seps_Compare [of ws _ "full_key _"] len by auto
  next
    case right
    then show ?thesis using v(3) w(4) cmp cmp_lists_empty [OF len(1) [symmetric] right(4,3)] seps_Compare [of vs _ "full_key _"] len by auto
  qed
qed

section \<open>The incremental encoder\<close>

lemma ke_Add_value: "ke_Add e f = Some e' \<Longrightarrow> e' = Some ((case e of None \<Rightarrow> [] | Some buf \<Rightarrow> buf @ [0, 0]) @ enc f)"
  by (auto simp: ke_Add_def encode_enc split: Option.bind_splits)

lemma ke_AddAll_Some: "ke_AddAll (Some buf) fs = Some e \<Longrightarrow> e = Some (buf @ sep_fields fs)"
proof (induction fs arbitrary: buf)
  case (Cons f fs)
  then obtain e' where "ke_Add (Some buf) f = Some e'" "ke_AddAll e' fs = Some e" by (auto split: Option.bind_splits)
  then show ?case using ke_Add_value [of "Some buf" f e'] Cons.IH [of "buf @ [0, 0] @ enc f"] by (simp add: sep_fields_def)
qed (simp add: sep_fields_def)

lemma ke_AddAll_value:
  assumes "ke_AddAll None fs = Some e" "fs \<noteq> []"
  shows "e = Some (full_key fs)"
proof -
  obtain f gs where fs: "fs = f # gs" using assms(2) by (cases fs) auto
  then obtain e' where "ke_Add None f = Some e'" "ke_AddAll e' gs = Some e" using assms(1) by (auto split: Option.bind_splits)
  then show ?thesis using ke_Add_value [of None f e'] ke_AddAll_Some [of "enc f" gs e] fs by (simp add: full_key_sep)
qed

lemma trim_seps_snoc: "trim_seps (x @ [0, 0]) = trim_seps x"
  by (subst trim_seps.simps) simp

lemma trim_seps_append: "trim_seps (x @ seps n) = trim_seps x"
proof (induction n)
  case (Suc n)
  have "x @ seps (Suc n) = (x @ seps n) @ [0, 0]" by (simp add: seps_def replicate_append_same [symmetric] del: replicate_Suc)
      (simp add: replicate_append_same [symmetric])
  then show ?case using Suc trim_seps_snoc [of "x @ seps n"] by simp
qed (simp add: seps_def)

lemma last_enc: "f \<noteq> [] \<Longrightarrow> last (enc f) \<noteq> 0"
  by (induction f) (auto split: if_splits)

lemma trimmed_key_Nil: "trimmed_key fs = [] \<longleftrightarrow> list_all (\<lambda>f. f = []) fs"
  by (induction fs) auto

lemma last_trimmed_key: "trimmed_key fs \<noteq> [] \<Longrightarrow> last (trimmed_key fs) \<noteq> 0"
proof (induction fs)
  case (Cons f fs)
  show ?case
  proof (cases "list_all (\<lambda>f. f = []) fs")
    case True
    then show ?thesis using Cons.prems last_enc [of f] by simp
  next
    case False
    then have "trimmed_key fs \<noteq> []" by (simp add: trimmed_key_Nil)
    then show ?thesis using Cons.IH False by simp
  qed
qed simp

lemma trim_seps_id: "x = [] \<or> last x \<noteq> 0 \<Longrightarrow> trim_seps x = x"
proof (subst trim_seps.simps)
  assume a: "x = [] \<or> last x \<noteq> 0"
  have "\<not> (2 \<le> length x \<and> drop (length x - 2) x = [0, 0])"
  proof
    assume d: "2 \<le> length x \<and> drop (length x - 2) x = [0, 0]"
    then have "last x = last (drop (length x - 2) x)" by (intro last_drop [symmetric]) auto
    then show False using a d by auto
  qed
  then show "(if 2 \<le> length x \<and> drop (length x - 2) x = [0, 0] then trim_seps (take (length x - 2) x) else x) = x" by (rule if_not_P)
qed

lemma full_key_trim: "\<exists>k. full_key fs = trimmed_key fs @ seps k"
proof (induction fs)
  case (Cons f fs)
  then obtain k where k: "full_key fs = trimmed_key fs @ seps k" by blast
  have s: "[0, 0] @ seps n = seps (Suc n)" "seps 0 = []" for n by (simp_all add: seps_def)
  show ?case
  proof (cases "fs = []")
    case True
    then show ?thesis using s(2) by (intro exI [of _ 0]) simp
  next
    case False
    then have "full_key (f # fs) = trimmed_key (f # fs) @ seps (if list_all (\<lambda>f. f = []) fs then Suc k else k)"
      using k s(1) [of k] trimmed_key_empty [of fs] by (simp add: full_key_Cons)
    then show ?thesis by blast
  qed
qed (intro exI [of _ 0], simp add: seps_def)

lemma ke_String_value:
  assumes "ke_AddAll None fs = Some e"
  shows "ke_String e = trimmed_key fs"
proof (cases "fs = []")
  case True
  then show ?thesis using assms trim_seps_id [of "[]"] by (auto simp: ke_String_def)
next
  case False
  obtain k where k: "full_key fs = trimmed_key fs @ seps k" using full_key_trim by blast
  have "trim_seps (trimmed_key fs) = trimmed_key fs" using last_trimmed_key [of fs] by (intro trim_seps_id) blast
  then show ?thesis using ke_AddAll_value [OF assms False] k trim_seps_append by (simp add: ke_String_def)
qed

section \<open>Decoding\<close>

lemma index_sep_Cons: "c \<noteq> 0 \<Longrightarrow> index_sep (c # s) = map_option Suc (index_sep s)"
  by (cases s) auto

lemma index_sep_enc: "index_sep (enc f) = None" "index_sep (enc f @ 0 # 0 # y) = Some (length (enc f))"
  by (induction f) (auto simp: index_sep_Cons)

lemma unescape_enc: "unescape (enc f) = f"
proof (induction f)
  case (Cons c f)
  have "c \<noteq> 0 \<Longrightarrow> unescape (c # s) = c # unescape s" for s by (cases s) auto
  then show ?case using Cons by auto
qed simp

lemma split_sep_full_key: "fs \<noteq> [] \<Longrightarrow> split_sep (full_key fs) = map enc fs"
proof (induction fs)
  case (Cons f fs)
  then show ?case
    by (cases "fs = []") (simp_all add: full_key_Cons index_sep_enc split_sep.simps [of "enc f"] split_sep.simps [of "enc f @ 0 # 0 # full_key fs"])
qed simp

lemma skip_seps_full_key:
  "fs \<noteq> [] \<Longrightarrow> skip_seps i (full_key fs) = (if i < length fs then Some (full_key (drop i fs)) else None)"
proof (induction fs arbitrary: i)
  case (Cons f fs)
  then show ?case by (cases i; cases "fs = []") (simp_all add: full_key_Cons index_sep_enc)
qed simp

lemma rb_Trim_Cons:
  "rb_Trim (f # fs) = (if list_all (\<lambda>f. f = []) fs then (if f = [] then [] else [f]) else f # rb_Trim fs)"
  by (auto simp: rb_Trim_def dropWhile_append list_all_iff)

lemma rb_Trim_empty: "rb_Trim fs = [] \<longleftrightarrow> list_all (\<lambda>f. f = []) fs"
  by (auto simp: rb_Trim_def list_all_iff)

lemma trimmed_full_key: "trimmed_key fs = full_key (rb_Trim fs)"
proof (induction fs)
  case (Cons f fs)
  then show ?case using rb_Trim_empty [of fs] by (auto simp: rb_Trim_Cons full_key_Cons)
qed (simp add: rb_Trim_def)

lemma Decode_trimmed_key: "Decode (trimmed_key fs) = rb_Trim fs"
proof (cases "list_all (\<lambda>f. f = []) fs")
  case True
  then show ?thesis using rb_Trim_empty [of fs] by (simp add: Decode_def trimmed_key_empty)
next
  case False
  then have "rb_Trim fs \<noteq> []" "trimmed_key fs \<noteq> []" by (simp_all add: rb_Trim_empty trimmed_key_Nil)
  then show ?thesis by (simp add: Decode_def trimmed_full_key split_sep_full_key unescape_enc comp_def)
qed

lemma full_key_head: "fs \<noteq> [] \<Longrightarrow> (case index_sep (full_key fs) of None \<Rightarrow> full_key fs | Some p \<Rightarrow> take p (full_key fs)) = enc (hd fs)"
proof (cases fs)
  case (Cons f gs)
  then show ?thesis by (cases "gs = []") (simp_all add: full_key_Cons index_sep_enc)
qed simp

lemma Decode1_trimmed_key: "Decode1 (trimmed_key fs) i = (if 0 \<le> i \<and> i < int (length fs) then fs ! nat i else [])"
proof (cases "trimmed_key fs = [] \<or> i < 0")
  case True
  then show ?thesis by (auto simp: Decode1_def trimmed_key_Nil list_all_length)
next
  case False
  then have ne: "rb_Trim fs \<noteq> []" by (simp add: rb_Trim_empty trimmed_key_Nil)
  have "Decode1 (trimmed_key fs) i = (if nat i < length (rb_Trim fs) then rb_Trim fs ! nat i else [])"
    using False skip_seps_full_key [OF ne, of "nat i"] full_key_head [of "drop (nat i) (rb_Trim fs)"]
    by (auto simp: Decode1_def trimmed_full_key unescape_enc hd_drop_conv_nth)
  then show ?thesis using rb_Trim_nth [of "nat i" fs] False by auto
qed

lemma full_key_append: "ps \<noteq> [] \<Longrightarrow> full_key (ps @ fs) = full_key ps @ (if fs = [] then [] else 0 # 0 # full_key fs)"
proof (induction ps)
  case (Cons p ps)
  then show ?case by (cases "ps = []"; cases "fs = []") (simp_all add: full_key_Cons)
qed simp

lemma full_key_prefix:
  "ps \<noteq> [] \<Longrightarrow> fs \<noteq> [] \<Longrightarrow> after_field x \<Longrightarrow> full_key fs = full_key ps @ x \<Longrightarrow> \<exists>rest. fs = ps @ rest"
proof (induction ps arbitrary: fs)
  case (Cons p ps)
  obtain f gs where fs: "fs = f # gs" using Cons.prems(2) by (cases fs) auto
  define tl1 where "tl1 = (if gs = [] then [] else 0 # 0 # full_key gs)"
  define tl2 where "tl2 = (if ps = [] then x else 0 # 0 # full_key ps @ x)"
  have e: "enc f @ tl1 = enc p @ tl2"
    using Cons.prems(4) fs by (cases "gs = []"; cases "ps = []") (simp_all add: full_key_Cons tl1_def tl2_def)
  have "after_field tl1" "after_field tl2" using Cons.prems(3) by (simp_all add: tl1_def tl2_def)
  from enc_inj [OF this e] have eq: "f = p" "tl1 = tl2" by simp_all
  show ?case
  proof (cases "ps = []")
    case False
    then have "gs \<noteq> []" "full_key gs = full_key ps @ x" using eq(2) by (auto simp: tl1_def tl2_def split: if_splits)
    then show ?thesis using Cons.IH [OF False _ Cons.prems(3)] fs eq(1) by auto
  qed (use fs eq(1) in simp)
qed simp

section \<open>Properties\<close>

text \<open>An index on two fields, and the key of a record that was built.\<close>

definition key_spec :: ix_spec where
  "key_spec = \<lparr>sp_Fields = Some [0, 1], sp_Fields2 = []\<rparr>"

lemma raws_built:
  assumes "rb_Build [a, b] = Some r"
  shows "raws r [0, 1] = Some [a, b]"
  using rb_Build_GetRaw(2) [OF assms, of 0] rb_Build_GetRaw(2) [OF assms, of 1] by (simp add: getRaw_plain)

lemma key_built:
  assumes r: "rb_Build [a, b] = Some r" and b: "b \<noteq> []"
  shows "sp_Key key_spec r =
    (let n = int (length a + length b) + 4 in if maxEntry < n + n div 16 then None else Some (enc a @ [0, 0] @ enc b))"
proof -
  have k: "raws r (take 2 [0, 1]) = Some [a, b]" using raws_built [OF r] by simp
  have two: "nat (1 + 1) = (2 :: nat)" by simp
  show ?thesis
    using raws_built [OF r] b unfolding sp_Key_def key_spec_def
    by (simp add: sp_Encodes_def sp_fields_def key_sizes_eq key_fields_eq Let_def two k Cksize_def)
qed

lemma small_built:
  assumes "length a + length b < 200"
  shows "\<exists>r. rb_Build [a, b] = Some r"
  using assms by (simp add: rb_Build_eq recSize_def tblength_def hdrlen_def MaxValues_def maxRecordLen_def)

text \<open>C12: comparing two records on the fields of an index is comparing their keys: fields one after the other,
  a field that is a prefix of another first, the fields without regard to case in lower case, and the
  additional fields of a unique index only when all the others are empty.\<close>

theorem Compare_compares_keys:
  assumes "sp_Key spec r1 = Some k1" and "sp_Key spec r2 = Some k2" and "sp_fields spec \<noteq> []"
    and "list_all (\<lambda>f. 0 \<le> f) (sp_Fields2 spec)"
  shows "sp_Compare spec r1 r2 = Some (if k1 < k2 then - 1 else if k1 = k2 then 0 else 1)"
  using sp_Compare_keys [OF assms] by (simp add: strings_Compare_def)

theorem Compare_compares_keys_witness:
  "\<exists>r1 r2. rb_Build [[97], [98]] = Some r1 \<and> rb_Build [[97, 0], [98]] = Some r2
     \<and> sp_Key key_spec r1 = Some [97, 0, 0, 98] \<and> sp_Key key_spec r2 = Some [97, 0, 1, 0, 0, 98]
     \<and> sp_Compare key_spec r1 r2 = Some (- 1)"
proof -
  obtain r1 r2 where r: "rb_Build [[97], [98]] = Some r1" "rb_Build [[97, 0], [98]] = Some r2"
    using small_built [of "[97]" "[98]"] small_built [of "[97, 0]" "[98]"] by auto
  have k: "sp_Key key_spec r1 = Some [97, 0, 0, 98]" "sp_Key key_spec r2 = Some [97, 0, 1, 0, 0, 98]"
    using key_built [OF r(1)] key_built [OF r(2)] by (simp_all add: maxEntry_def Let_def)
  have "sp_Compare key_spec r1 r2 = Some (- 1)"
    using Compare_compares_keys [OF k] by (simp add: key_spec_def sp_fields_def)
  then show ?thesis using r k by blast
qed

text \<open>C23: the incremental encoder and the decoders are inverse up to trailing empty fields: decoding the string gives
  the fields that were added without the trailing empty ones, and every single field by its number (the empty
  string for all other numbers).\<close>

theorem key_roundtrip:
  assumes "ke_AddAll None fs = Some e"
  shows "Decode (ke_String e) = rb_Trim fs
    \<and> (\<forall>i. Decode1 (ke_String e) i = (if 0 \<le> i \<and> i < int (length fs) then fs ! nat i else []))"
  using ke_String_value [OF assms] Decode_trimmed_key [of fs] Decode1_trimmed_key [of fs] by simp

theorem key_roundtrip_witness:
  "\<exists>e. ke_AddAll None [[97, 0], [], [98], []] = Some e \<and> Decode (ke_String e) = [[97, 0], [], [98]] \<and> Decode1 (ke_String e) 2 = [98]"
proof -
  obtain e where e: "ke_AddAll None [[97, 0], [], [98], []] = Some e" by (simp add: ke_Add_def Cksize_def maxEntry_def encode_enc)
  from key_roundtrip [OF e] show ?thesis using e by (simp add: rb_Trim_def)
qed

text \<open>The prefix test works by fields: an encoded key has the encoded fields \<open>ps\<close> as a prefix exactly when
  \<open>ps\<close> are its first fields, never because a field starts with the bytes of another.\<close>

theorem HasPrefix_by_fields:
  assumes "ps \<noteq> []" and "fs \<noteq> []"
  shows "HasPrefix (full_key fs) (full_key ps) \<longleftrightarrow> take (length ps) fs = ps"
proof
  assume p: "HasPrefix (full_key fs) (full_key ps)"
  define x where "x = drop (length (full_key ps)) (full_key fs)"
  have e: "full_key fs = full_key ps @ x"
    using p append_take_drop_id [of "length (full_key ps)" "full_key fs"] by (simp add: HasPrefix_def Let_def x_def)
  have "x = [] \<or> take 2 x = [0, 0]" using p by (auto simp: HasPrefix_def Let_def x_def)
  moreover have "take 2 x = [0, 0] \<Longrightarrow> x = 0 # 0 # drop 2 x" by (metis append_Cons append_Nil append_take_drop_id)
  ultimately have "after_field x" by (auto simp: after_field_def)
  from full_key_prefix [OF assms this e] show "take (length ps) fs = ps" by auto
next
  assume "take (length ps) fs = ps"
  then have "fs = ps @ drop (length ps) fs" by (metis append_take_drop_id)
  then have "full_key fs = full_key ps @ (if drop (length ps) fs = [] then [] else 0 # 0 # full_key (drop (length ps) fs))"
    using full_key_append [OF assms(1), of "drop (length ps) fs"] by simp
  then show "HasPrefix (full_key fs) (full_key ps)" by (simp add: HasPrefix_def)
qed

theorem HasPrefix_by_fields_witness:
  "(HasPrefix (full_key [[97], [98]]) (full_key [[97]]) \<longleftrightarrow> take (length [[97 :: byte]]) [[97], [98]] = [[97]])
   \<and> (HasPrefix (full_key [[97, 98]]) (full_key [[97]]) \<longleftrightarrow> take (length [[97 :: byte]]) [[97, 98]] = [[97]])
   \<and> HasPrefix (full_key [[97], [98]]) (full_key [[97]]) \<and> \<not> HasPrefix (full_key [[97, 98]]) (full_key [[97]])"
  using HasPrefix_by_fields [of "[[97]]" "[[97], [98]]"] HasPrefix_by_fields [of "[[97]]" "[[97, 98]]"] by simp

text \<open>The limit on the size of a key is checked on an estimate, not on the key: keys longer than 4096 bytes
  are made (when many bytes are zero), and shorter ones are refused.\<close>

theorem key_limit_is_an_estimate:
  "(\<exists>r k. sp_Key key_spec r = Some k \<and> maxEntry < int (length k))
   \<and> (\<exists>r vs. raws r (sp_fields key_spec) = Some vs \<and> int (length (trimmed_key vs)) \<le> maxEntry \<and> sp_Key key_spec r = None)"
proof
  have enc0: "length (enc (replicate n 0)) = 2 * n" for n by (induction n) auto
  let ?z = "replicate 1900 0 :: gostr" and ?x = "replicate 3900 65 :: gostr"
  obtain r where r: "rb_Build [?z, ?z] = Some r" by (simp add: rb_Build_eq recSize_def tblength_def hdrlen_def MaxValues_def maxRecordLen_def)
  have "sp_Key key_spec r = Some (enc ?z @ [0, 0] @ enc ?z)"
    using key_built [OF r] by (simp add: maxEntry_def Let_def)
  moreover have "maxEntry < int (length (enc ?z @ [0, 0] @ enc ?z))" by (simp add: enc0 maxEntry_def)
  ultimately show "\<exists>r k. sp_Key key_spec r = Some k \<and> maxEntry < int (length k)" by blast
  obtain r' where r': "rb_Build [?x, [65]] = Some r'" by (simp add: rb_Build_eq recSize_def tblength_def hdrlen_def MaxValues_def maxRecordLen_def)
  have "sp_Key key_spec r' = None" using key_built [OF r'] by (simp add: maxEntry_def Let_def)
  moreover have "raws r' (sp_fields key_spec) = Some [?x, [65]]" using raws_built [OF r'] by (simp add: key_spec_def sp_fields_def)
  moreover have "int (length (trimmed_key [?x, [65]])) \<le> maxEntry" using enc_nonzero [of ?x] by (simp add: maxEntry_def)
  ultimately show "\<exists>r vs. raws r (sp_fields key_spec) = Some vs \<and> int (length (trimmed_key vs)) \<le> maxEntry \<and> sp_Key key_spec r = None"
    by blast
qed

end
