(* ===== verification/Spec2Isabelle.thy ===== *)
theory Spec2Isabelle
  imports HostTypes Requests PageRoutes GoBrowser2 Structs AbiCalls AbiIds AbiEnums CheckCo IxKey
begin

text \<open>
  A verification library for gSuneido: its C layer, \<^verbatim>\<open>src/builtin/goc\<close>, and the parts of its database that decide
  whether transactions may commit and how records and index keys are laid out.

  \<^bold>\<open>The program.\<close> gSuneido is a database and an application language. Its language, compiler, interpreter and
  database are written in Go; on Windows the user interface, the two web browser controls and COM automation
  are a C and C++ layer linked through cgo. That layer keeps objects whose life depends on reference counts
  shared with foreign code, is called back by it at any time, runs two threads beside the main one, and computes
  addresses by hand. The database runs transactions concurrently and rests its correctness on one goroutine, the
  conflict checker. The parts of the C layer and its callers, and the theories that model them:

  \<^item> \<^verbatim>\<open>cside.c\<close>: message boxes, control-break, the message loop of the main window and of modal dialogs, the
    thread that shows the wait cursor, set-up, and the hand-over of page requests to the main thread. Theory
    \<open>Cside\<close>: \<open>message_loop\<close> consumes a list of inputs, one per \<^verbatim>\<open>GetMessage\<close>, each with the window manager's
    answers (record \<open>win_env\<close>); \<open>cursor_thread\<close>, \<open>message_hook\<close> and \<open>main_thread\<close> are inductive step relations on
    the shared variables, one step per atomic access, and \<open>cursors_reachable\<close> their interleavings.
  \<^item> \<^verbatim>\<open>com.cpp\<close>, \<^verbatim>\<open>traccel.cpp\<close>: calling COM objects by name, accelerators. Theory \<open>ComGlue\<close>.
  \<^item> \<^verbatim>\<open>webbrowser.c\<close>: hosting the Internet Explorer control. Theory \<open>WebBrowser\<close>: structure layouts, a heap of tagged
    cells, the 57 host functions under their own names, their four tables, \<open>EmbedBrowserObject\<close> and
    \<open>UnEmbedBrowserObject\<close> over the answers of OLE (record \<open>ole_world\<close>).
  \<^item> \<^verbatim>\<open>sunapp.cpp\<close>: the protocol that serves \<^verbatim>\<open>suneido:\<close> pages to that control. Theory \<open>SunApp\<close>.
  \<^item> \<^verbatim>\<open>webview2/helpers.h\<close>: string conversion, the owning string class, content types. Theory \<open>Helpers\<close>.
  \<^item> \<^verbatim>\<open>webview2/MyWebView2Base.h\<close>: the browser object. Theory \<open>Browser\<close>.
  \<^item> \<^verbatim>\<open>webview2/My*Handler.h\<close>: the eight handler classes the engine calls back. Theory \<open>Handlers\<close>: for a class
    \<open>K\<close> the definitions \<open>K_new\<close>, \<open>K_delete\<close>, \<open>K_AddRef\<close>, \<open>K_Release\<close>, \<open>K_QueryInterface\<close>, \<open>K_Invoke\<close>; the long body
    of the controller-completed handler is cut at its early returns into \<open>add_load_listener\<close> to
    \<open>finish_controller\<close>.
  \<^item> \<^verbatim>\<open>webview2/MyCoreWebView2CustomSchemeRegistration.h\<close>: theory \<open>SchemeReg\<close>, with the memory it allocates.
  \<^item> \<^verbatim>\<open>webview2/MyCoreWebView2EnvironmentOptions.h\<close>: theory \<open>EnvOptions\<close>.
  \<^item> \<^verbatim>\<open>webview2.cpp\<close>: creating a browser and the operations on it. Theory \<open>WebView\<close>.
  \<^item> \<^verbatim>\<open>webview2/WebView2.h\<close>: the generated interface header. Theory \<open>WebView2Abi\<close> has the form of its declarations and the
    identifiers and enumerations the program uses; \<open>AbiBrowser\<close>, \<open>AbiServices\<close>, \<open>AbiObjects\<close> and \<open>AbiHandlers\<close> have all 223
    interfaces, each as its C++ class and as its C table, with the 794 methods as definitions that both views name;
    \<open>Abi\<close> has them together. \<open>CallMacros\<close> and the theories that end in \<open>Calls\<close> have the macros through which C programs call them,
    \<open>AbiIds\<close> the other identifiers and \<open>AbiEnums\<close> the other enumerations.
  \<^item> \<^verbatim>\<open>cmd/structs/structs.cpp\<close> and the structures of \<^verbatim>\<open>builtin/*_wingui.go\<close>: theory \<open>Structs\<close>, the layout of the 56
    structures that Go passes to Windows, the size checks and the program that prints them.
  \<^item> \<^verbatim>\<open>goc.go\<close>: the Go side of the boundary. Theory \<open>GoSide\<close> has the functions with a body of their own and composes
    them with \<open>Cside\<close> and \<open>SunApp\<close>; the ones that forward to COM and to the browsers are with their callers.
  \<^item> \<^verbatim>\<open>builtin/comobject_wingui.go\<close>: COM objects as values of the language, the caller of \<open>ComGlue\<close>. Theory \<open>ComObject\<close>:
    values and variants, the order of arguments, one counted reference per object value, panics as results.
  \<^item> \<^verbatim>\<open>builtin/webbrowser_wingui.go\<close>, \<^verbatim>\<open>builtin/webbrowser2_wingui.go\<close>: the two browser controls as values of the language.
    Theories \<open>GoBrowser\<close> over \<open>WebBrowser\<close> and \<open>GoBrowser2\<close> over \<open>WebView\<close>.

  The parts of the database:

  \<^item> \<^verbatim>\<open>util/ordset/ordset.go\<close>: a set of keys in a two-level tree of fixed-size nodes, the writes of a transaction.
    Theory \<open>OrdSet\<close>; \<^verbatim>\<open>util/ranges/ranges.go\<close>: the same for ranges of keys, which are merged when they meet, the reads of a
    transaction. Theory \<open>RangeSet\<close>. A leaf is reached through its number in a list of leaves, as the code reaches it
    through a pointer; \<open>None\<close> is a panic.
  \<^item> \<^verbatim>\<open>db19/check.go\<close>: the conflict checker. Theory \<open>TranCheck\<close> has the operations under their own names (\<open>ck_Read\<close>,
    \<open>ck_Output\<close>, \<open>ck_Delete\<close>, \<open>ck_Update\<close>, \<open>ck_commit\<close>, \<open>ck_abort\<close>, \<open>ck_tick\<close>, \<open>AddExclusive\<close>, \<open>EndExclusive\<close>); the random
    choice and the order of iteration over a map are arguments. \<open>TranInv\<close>, \<open>TranSave\<close> and \<open>TranHist\<close> have its invariants.
  \<^item> \<^verbatim>\<open>util/queue/priority_queue.go\<close>: theory \<open>PrioQueue\<close>; \<^verbatim>\<open>db19/checkco.go\<close>: the messages to the checker, their
    priorities, the loop that serves them. Theory \<open>CheckCo\<close>, where \<open>co_reach\<close> are the reachable states of queue
    and checker together.
  \<^item> \<^verbatim>\<open>core/record.go\<close>, \<^verbatim>\<open>util/pack\<close>: records as strings. Theory \<open>DbRecord\<close>.
  \<^item> \<^verbatim>\<open>db19/index/ixkey/ixkey.go\<close>: index keys. Theory \<open>IxKey\<close>, with the lower-case comparison of \<^verbatim>\<open>util/str\<close>.

  \<^bold>\<open>State and calls.\<close> A world is a record of maps from addresses to the objects of a class, with the trace of the
  calls made to foreign code (datatype \<open>event\<close> of \<open>Prelude\<close>). An operation takes the address of its object and the
  world and returns \<open>None\<close> when it touches an object or a block that does not exist, so that a result is also a proof
  that no destroyed object was used. Counters are 32-bit words and wrap. The account \<open>held\<close> of a trace is the number of
  references obtained minus those given back. What is not in the repository (Windows, OLE, the WebView2 engine, the
  allocators, the page function of the application) is an argument: a record of answers or a function. A callback
  into the program may close the browser while it runs (\<open>callback_closes\<close>).

  \<^bold>\<open>Shared theories.\<close> \<open>Prelude\<close>: words, result codes, identifiers, traces and their accounts. \<open>RefCount\<close>: the contracts
  of COM as locales, \<open>refcounted\<close> (the life of an object) and its extension \<open>com_object\<close> (\<^verbatim>\<open>QueryInterface\<close>), with
  the lemmas every class gets from them; they are interpreted for the browser object, the eight handler classes (through
  \<open>handler_ops\<close>), the registration, the options object, the protocol object and the factory. \<open>SchemeReg\<close> and
  \<open>EnvOptions\<close> have the contracts \<open>bool_property\<close> and \<open>string_property\<close>, interpreted for each property. \<open>GoData\<close> has Go's
  strings, slices, binary search and the reasoning on sorted nodes that both trees share. \<open>PrioQueue\<close> states what the
  checker needs of its queue as the locale \<open>tran_queue\<close> and interprets it for the priority queue.

  \<^bold>\<open>What is shown.\<close>
  \<^item> Sessions (\<open>Lifetimes\<close>, \<open>ControllerCompleted\<close>, \<open>Session\<close>): a transition system of everything the program and the
    engine can do with browsers and handlers, including callbacks that close the browser; in every reachable
    state each possible action has a result, reference counts equal the number of users, and a browser exists exactly
    as long as it is used. The creation of a browser ends with one report and the account of every engine object settled.
  \<^item> Handlers (\<open>HandlerProps\<close>): what a page request is answered with and that nothing obtained for it is lost, which keys
    and windows are passed on, and how each class answers \<^verbatim>\<open>QueryInterface\<close>; the exceptions to these rules
    in the code are theorems too.
  \<^item> Embedding (\<open>WebBrowser\<close>): the block of memory is well formed and given back on every path, detaching undoes
    embedding, the pointer arithmetic of the host functions always ends on the object asked for.
  \<^item> Host objects (\<open>HostTypes\<close>): whatever the control calls through pointers it was given, in any order, finds the right
    table, stays inside the block and reads every cell as what was stored there.
  \<^item> Pages (\<open>SunApp\<close>, \<open>GoSide\<close>, \<open>PageRoutes\<close>): a page arrives complete on both routes, from the program's page function
    to the last \<^verbatim>\<open>Read\<close> of the old control and to the response of the new one.
  \<^item> Requests from several threads (\<open>Requests\<close>): steps of all threads interleaved, with page functions that run dialogs
    and so serve other requests before they return. Every interleaving refines a sequence of complete calls in the main
    thread, each request is answered exactly once, and finishing always ends.
  \<^item> Values of the language (\<open>ComObject\<close>, \<open>GoBrowser\<close>, \<open>GoBrowser2\<close>): numbers and truth values survive the way through a
    variant, arguments reach an object in the order COM wants, an object value owns exactly one reference, and both
    browser values give back all they were given; the address of a page is cut to the size of the buffer.
  \<^item> Loops and threads (\<open>Cside\<close>): the loop ends at the first message that ends it, which messages reach a window, quit
    requests travel out of nested loops, when the wait cursor can appear and how it can stick.
  \<^item> Ownership of strings (\<open>Helpers\<close>, \<open>SchemeReg\<close>, \<open>EnvOptions\<close>, \<open>ComGlue\<close>): round trips, no leak, no double free, and
    the failing paths on which this does not hold.
  \<^item> Tables (\<open>Abi\<close>, \<open>WebView2Abi\<close>): the C and the C++ view of every interface list the same methods in the same slots, the
    table of an interface begins with that of its base, a call macro reaches the slot of its method with all its
    arguments, every interface has an identifier of its own whose two spellings agree (\<open>AbiIds\<close>), and the enumerators of an
    enumeration have different values (\<open>AbiEnums\<close>). The contract is the locale \<open>com_interface\<close> with its
    extensions \<open>com_derived\<close> and \<open>com_calls\<close>.
  \<^item> Structures (\<open>Structs\<close>): every structure has the size the C compiler reported, and its fields are separate,
    aligned memory.

  \<^item> Transactions (\<open>CheckCo\<close> over \<open>TranHist\<close>): in every reachable state the committed update transactions are serializable in
    the order of their commits, for every interleaving of messages, every random choice and every order of iteration; the
    checker has seen all of a transaction when it commits, never panics, keeps writers out of tables under exclusive
    access and lets no transaction grow old. The exception, conflicts on the empty key, is a theorem too.
  \<^item> Trees (\<open>OrdSet\<close>, \<open>RangeSet\<close>): whatever was inserted, in whatever order, they answer as the set of the keys and as the
    union of the ranges; when an insertion can be refused.
  \<^item> Records and keys (\<open>DbRecord\<close>, \<open>IxKey\<close>): a record gives back what it was built from and fills its buffer exactly,
    in all three formats; comparing keys as strings is comparing records field by field; keys decode to their fields.

  \<^bold>\<open>Bounds and fuel.\<close> \<open>room n\<close> in \<open>Lifetimes\<close> bounds the number of objects, so that \<open>n\<close> more can be created without
  a counter passing its maximum; an action of a session asks for as many as it creates, at most six, in the
  controller-completed handler. \<open>read_loop\<close> takes fuel; as many calls as the page has bytes and one more are shown to
  be enough. \<open>interrupt_loop\<close>, \<open>message_loop\<close> and the loops over arrays are structural. The wait-cursor threads do not
  end; they are step relations. The loop that merges ranges is a partial function, shown to return for every set that insertions
  build. The checker's counter of transactions must not pass the largest integer (\<open>msg_ok\<close>); \<open>msg_ok\<close> also states
  what the callers of the checker guarantee: a range has its ends in order, a record has an offset, an update has as many new
  keys as old ones.

  \<^bold>\<open>Not modelled.\<close> In the C layer: the window procedures of the application, drawing, the Scintilla control, the forward
  declarations of the generated header and its structures \<^verbatim>\<open>COREWEBVIEW2_PHYSICAL_KEY_STATUS\<close> and \<^verbatim>\<open>COREWEBVIEW2_COLOR\<close>. Exceptions thrown
  by \<^verbatim>\<open>new\<close> are not modelled: the sources do not handle them. Memory that is never accessed through two types is kept
  as lists of bytes or wide characters. Of the checker: the rate limiter (a third-party package), the timer, stopping,
  the snapshot that a transaction carries for its owner, tracing. The Go program beyond the parts named above:
  compiler, interpreter, queries, the storage under the indexes and the merging of committed transactions. They work
  on dynamically typed values, memory-mapped files and background goroutines, and none of the parts modelled
  here calls them; the parameters stand where the boundary is crossed.

  \<^bold>\<open>Plan.\<close> Next, in this order: the index buffers and trees that hold the keys of \<open>IxKey\<close>, the update transactions that send
  the checker its messages, and requests of \<open>Requests\<close> issued by sessions of \<open>Session\<close> in one transition system.
\<close>

end
